(* ===== verification/Prelude.thy ===== *)
theory Prelude
  imports Main
begin

section \<open>Prelude: Python values, exceptions and dictionaries\<close>

text \<open>
  What every component of \<open>saltext.vcf\<close> shares: the dynamic values that travel through
  pillar, REST bodies and Salt returns, their truth value, equality and text, dictionaries as
  insertion-ordered association lists, and fallible pure computations.

  Strings are Isabelle \<open>string\<close>s. \<open>py_str\<close> and \<open>py_repr\<close> follow CPython on
  ASCII text. Floating point values do not occur: times are kept in whole milliseconds.
\<close>

named_theorems spec_intros \<open>introduction rules that walk over a monadic program\<close>
named_theorems vim_intros \<open>introduction rules for what a program over pyVmomi leaves as it is\<close>
named_theorems eval_simps \<open>equations that run a monadic program on a concrete world\<close>

subsection \<open>Values\<close>

datatype pyval =
    PNone
  | PBool bool
  | PInt int
  | PStr string
  | PList "pyval list"
  | PDict "(string \<times> pyval) list"

type_synonym dict = "(string \<times> pyval) list"

abbreviation empty_dict :: pyval where "empty_dict \<equiv> PDict []"

fun truthy :: "pyval \<Rightarrow> bool" where
  "truthy PNone = False"
| "truthy (PBool b) = b"
| "truthy (PInt i) = (i \<noteq> 0)"
| "truthy (PStr s) = (s \<noteq> [])"
| "truthy (PList xs) = (xs \<noteq> [])"
| "truthy (PDict d) = (d \<noteq> [])"

fun is_dict :: "pyval \<Rightarrow> bool" where
  "is_dict (PDict d) = True"
| "is_dict _ = False"

fun is_list :: "pyval \<Rightarrow> bool" where
  "is_list (PList xs) = True"
| "is_list _ = False"

fun is_str :: "pyval \<Rightarrow> bool" where
  "is_str (PStr s) = True"
| "is_str _ = False"

text \<open>Python's \<open>a or b\<close> on values.\<close>

definition py_or :: "pyval \<Rightarrow> pyval \<Rightarrow> pyval" where
  "py_or a b = (if truthy a then a else b)"

lemma py_or_simps [simp]:
  "py_or PNone b = b"
  "py_or (PStr (c # cs)) b = PStr (c # cs)"
  "py_or (PStr []) b = b"
  "py_or (PBool True) b = PBool True"
  "py_or (PBool False) b = b"
  "py_or (PList []) b = b"
  "py_or (PList (x # xs)) b = PList (x # xs)"
  "py_or (PDict []) b = b"
  "py_or (PDict (p # d)) b = PDict (p # d)"
  by (simp_all add: py_or_def)

fun type_name :: "pyval \<Rightarrow> string" where
  "type_name PNone = ''NoneType''"
| "type_name (PBool _) = ''bool''"
| "type_name (PInt _) = ''int''"
| "type_name (PStr _) = ''str''"
| "type_name (PList _) = ''list''"
| "type_name (PDict _) = ''dict''"

text \<open>
  Equality (\<open>==\<close>): booleans count as the integers 0 and 1, dictionaries are compared
  without their order.
\<close>

fun py_num :: "pyval \<Rightarrow> int option" where
  "py_num (PBool b) = Some (if b then 1 else 0)"
| "py_num (PInt i) = Some i"
| "py_num _ = None"

function py_eq :: "pyval \<Rightarrow> pyval \<Rightarrow> bool" where
  "py_eq a b =
     (case (a, b) of
        (PNone, PNone) \<Rightarrow> True
      | (PStr s, PStr t) \<Rightarrow> s = t
      | (PList xs, PList ys) \<Rightarrow>
          length xs = length ys \<and> (\<forall>(x, y) \<in> set (zip xs ys). py_eq x y)
      | (PDict d, PDict e) \<Rightarrow>
          length d = length e \<and>
          (\<forall>(k, v) \<in> set d. case map_of e k of None \<Rightarrow> False | Some u \<Rightarrow> py_eq v u)
      | _ \<Rightarrow> (case (py_num a, py_num b) of (Some i, Some j) \<Rightarrow> i = j | _ \<Rightarrow> False))"
  by pat_completeness auto

lemma size_zip_fst: "(x, y) \<in> set (zip xs ys) \<Longrightarrow> size x < Suc (size_list size xs)"
  by (auto dest!: set_zip_leftD simp: less_Suc_eq_le intro: size_list_estimation')

lemma size_dict_snd:
  assumes "(k, v) \<in> set d" shows "size v < Suc (size_list (size_prod (\<lambda>_. 0) size) d)"
proof -
  have "size_prod (\<lambda>_. 0) size (k, v) \<le> size_list (size_prod (\<lambda>_. 0) size) d"
    by (rule size_list_estimation' [OF assms]) simp
  then show ?thesis by simp
qed

termination py_eq
  by (relation "measure (\<lambda>(a, b). size a)") (auto dest: size_zip_fst size_dict_snd)

declare py_eq.simps [simp del]

lemma py_eq_simps [simp]:
  "py_eq PNone b = (b = PNone)"
  "py_eq (PStr s) b = (b = PStr s)"
  "py_eq a PNone = (a = PNone)"
  "py_eq a (PStr s) = (a = PStr s)"
  "py_eq (PInt i) (PInt j) = (i = j)"
  "py_eq (PBool p) (PBool c) = (p = c)"
  "py_eq (PInt i) (PBool c) = (i = (if c then 1 else 0))"
  "py_eq (PBool c) (PInt i) = (i = (if c then 1 else 0))"
  by (auto simp: py_eq.simps split: pyval.splits)

lemma py_eq_list_simps [simp]:
  "py_eq (PList xs) (PDict e) = False"
  "py_eq (PDict d) (PList ys) = False"
  "py_eq (PList []) (PList ys) = (ys = [])"
  "py_eq (PList (x # xs)) (PList []) = False"
  "py_eq (PList (x # xs)) (PList (y # ys)) = (py_eq x y \<and> py_eq (PList xs) (PList ys))"
  by (simp_all add: py_eq.simps [of "PList xs" "PDict e"] py_eq.simps [of "PDict d" "PList ys"]
      py_eq.simps [of "PList []" "PList ys"] py_eq.simps [of "PList (x # xs)" "PList []"]
      py_eq.simps [of "PList (x # xs)" "PList (y # ys)"] py_eq.simps [of "PList xs" "PList ys"] conj_ac)

lemma py_eq_dict [simp]:
  "py_eq (PDict d) (PDict e) \<longleftrightarrow> length d = length e \<and>
     (\<forall>(k, v) \<in> set d. case map_of e k of None \<Rightarrow> False | Some u \<Rightarrow> py_eq v u)"
  by (simp add: py_eq.simps [of "PDict d" "PDict e"])

text \<open>Membership in a tuple of string literals, \<open>v in ("A", "B")\<close>.\<close>

definition in_strs :: "pyval \<Rightarrow> string list \<Rightarrow> bool" where
  "in_strs v ss = (case v of PStr s \<Rightarrow> s \<in> set ss | _ \<Rightarrow> False)"

lemma in_strs_iff: "in_strs v ss \<longleftrightarrow> (\<exists>s \<in> set ss. v = PStr s)"
  by (auto simp: in_strs_def split: pyval.splits)

lemma in_strs_simps [simp]:
  "in_strs (PStr s) ss = (s \<in> set ss)"
  "in_strs PNone ss = False" "in_strs (PInt i) ss = False" "in_strs (PBool b) ss = False"
  "in_strs (PList xs) ss = False" "in_strs (PDict d) ss = False"
  by (simp_all add: in_strs_def)

subsection \<open>Text\<close>

text \<open>\<open>str\<close> of an integer: decimal digits, most significant first.\<close>

function digits_str :: "int \<Rightarrow> string" where
  "digits_str n =
     (if n < 10 then [''0123456789'' ! nat n]
      else digits_str (n div 10) @ [''0123456789'' ! nat (n mod 10)])"
  by pat_completeness auto

termination by (relation "measure nat") auto

declare digits_str.simps [simp del]

definition int_str :: "int \<Rightarrow> string" where
  "int_str i = (if i < 0 then CHR ''-'' # digits_str (- i) else digits_str i)"

definition hex2 :: "nat \<Rightarrow> string" where
  "hex2 n = [''0123456789abcdef'' ! (n div 16), ''0123456789abcdef'' ! (n mod 16)]"

text \<open>One character of a string literal as \<open>repr\<close> prints it inside the quote \<open>q\<close>.\<close>

definition repr_char :: "char \<Rightarrow> char \<Rightarrow> string" where
  "repr_char q c =
     (if c = q \<or> c = CHR 0x5C then [CHR 0x5C, c]
      else if c = CHR 0x0A then [CHR 0x5C, CHR ''n'']
      else if c = CHR 0x0D then [CHR 0x5C, CHR ''r'']
      else if c = CHR 0x09 then [CHR 0x5C, CHR ''t'']
      else if of_char c < (32 :: nat) \<or> of_char c = (127 :: nat)
        then [CHR 0x5C, CHR ''x''] @ hex2 (of_char c)
      else [c])"

definition repr_str :: "string \<Rightarrow> string" where
  "repr_str s =
     (let q = (if CHR 0x27 \<in> set s \<and> CHR 0x22 \<notin> set s then CHR 0x22 else CHR 0x27)
      in [q] @ concat (map (repr_char q) s) @ [q])"

fun join_with :: "string \<Rightarrow> string list \<Rightarrow> string" where
  "join_with sep [] = []"
| "join_with sep [x] = x"
| "join_with sep (x # y # ys) = x @ sep @ join_with sep (y # ys)"

fun py_repr :: "pyval \<Rightarrow> string" where
  "py_repr PNone = ''None''"
| "py_repr (PBool b) = (if b then ''True'' else ''False'')"
| "py_repr (PInt i) = int_str i"
| "py_repr (PStr s) = repr_str s"
| "py_repr (PList xs) = ''['' @ join_with '', '' (map py_repr xs) @ '']''"
| "py_repr (PDict d) =
     ''{'' @ join_with '', '' (map (\<lambda>(k, v). repr_str k @ '': '' @ py_repr v) d) @ ''}''"

fun py_str :: "pyval \<Rightarrow> string" where
  "py_str (PStr s) = s"
| "py_str v = py_repr v"

text \<open>\<open>s.startswith(p)\<close>, \<open>s.endswith(p)\<close>, \<open>p in s\<close> and \<open>s.lower()\<close>.\<close>

fun starts_with :: "string \<Rightarrow> string \<Rightarrow> bool" where
  "starts_with s [] = True"
| "starts_with [] (p # ps) = False"
| "starts_with (c # cs) (p # ps) = (c = p \<and> starts_with cs ps)"

definition ends_with :: "string \<Rightarrow> string \<Rightarrow> bool" where
  "ends_with s p = starts_with (rev s) (rev p)"

fun contains :: "string \<Rightarrow> string \<Rightarrow> bool" where
  "contains [] p = (p = [])"
| "contains (c # cs) p = (starts_with (c # cs) p \<or> contains cs p)"

lemma starts_with_iff: "starts_with s p \<longleftrightarrow> (\<exists>t. s = p @ t)"
  by (induction s p rule: starts_with.induct) auto

lemma starts_with_refl [simp]: "starts_with s s"
  by (induction s) auto

lemma contains_iff: "contains s p \<longleftrightarrow> (\<exists>a b. s = a @ p @ b)"
proof (induction s)
  case Nil
  then show ?case by auto
next
  case (Cons c cs)
  have "(\<exists>a b. c # cs = a @ p @ b) \<longleftrightarrow> (\<exists>b. c # cs = p @ b) \<or> (\<exists>a b. cs = a @ p @ b)"
    by (metis append_Cons append_Nil list.exhaust list.inject)
  then show ?case by (simp add: starts_with_iff Cons.IH)
qed

definition lower_char :: "char \<Rightarrow> char" where
  "lower_char c =
     (let n = of_char c :: nat in if 65 \<le> n \<and> n \<le> 90 then char_of (n + 32) else c)"

definition lower :: "string \<Rightarrow> string" where
  "lower s = map lower_char s"

subsection \<open>Dictionaries\<close>

text \<open>
  A dict is an association list in insertion order with distinct keys. \<open>dset\<close> is
  \<open>d[k] = v\<close>: an existing key keeps its place. \<open>ddel\<close> removes a key.
\<close>

definition dget :: "dict \<Rightarrow> string \<Rightarrow> pyval \<Rightarrow> pyval" where
  "dget d k dflt = (case map_of d k of None \<Rightarrow> dflt | Some v \<Rightarrow> v)"

fun dset :: "dict \<Rightarrow> string \<Rightarrow> pyval \<Rightarrow> dict" where
  "dset [] k v = [(k, v)]"
| "dset ((k', v') # d) k v = (if k' = k then (k, v) # d else (k', v') # dset d k v)"

fun ddel :: "dict \<Rightarrow> string \<Rightarrow> dict" where
  "ddel [] k = []"
| "ddel ((k', v') # d) k = (if k' = k then ddel d k else (k', v') # ddel d k)"

fun dupdate :: "dict \<Rightarrow> dict \<Rightarrow> dict" where
  "dupdate d [] = d"
| "dupdate d ((k, v) # e) = dupdate (dset d k v) e"

lemma dget_simps [simp]:
  "dget [] k dflt = dflt"
  "dget ((k', v) # d) k dflt = (if k = k' then v else dget d k dflt)"
  by (simp_all add: dget_def)

lemma map_of_dset [simp]: "map_of (dset d k v) = (map_of d)(k \<mapsto> v)"
  by (induction d k v rule: dset.induct) (auto simp: fun_eq_iff)

lemma map_of_ddel [simp]: "map_of (ddel d k) = (map_of d)(k := None)"
  by (induction d k rule: ddel.induct) (auto simp: fun_eq_iff)

lemma map_of_dupdate: "distinct (map fst e) \<Longrightarrow> map_of (dupdate d e) = map_of d ++ map_of e"
proof (induction d e rule: dupdate.induct)
  case (2 d k v e)
  then have "map_of e k = None" by (simp add: map_of_eq_None_iff)
  with 2 show ?case
    by (auto simp: fun_eq_iff map_add_def split: option.split)
qed simp

lemma keys_dset: "fst ` set (dset d k v) = insert k (fst ` set d)"
  by (induction d k v rule: dset.induct) auto

lemma distinct_dset: "distinct (map fst d) \<Longrightarrow> distinct (map fst (dset d k v))"
  by (induction d k v rule: dset.induct) (auto simp: keys_dset)

lemma dget_dset: "dget (dset d k v) k' x = (if k' = k then v else dget d k' x)"
  by (simp add: dget_def)

lemma dset_dset: "dset (dset d k v) k v' = dset d k v'"
  by (induction d k v rule: dset.induct) auto

lemma dset_idem: "map_of d k = Some v \<Longrightarrow> dset d k v = d"
  by (induction d k v rule: dset.induct) (auto split: if_splits)

text \<open>Keys of every nested dict are distinct: what any Python dict satisfies.\<close>

fun wf_py :: "pyval \<Rightarrow> bool" where
  "wf_py (PDict d) = (distinct (map fst d) \<and> (\<forall>p \<in> set d. wf_py (snd p)))"
| "wf_py (PList xs) = (\<forall>x \<in> set xs. wf_py x)"
| "wf_py _ = True"

lemma py_eq_refl: "wf_py v \<Longrightarrow> py_eq v v"
proof (induction v rule: wf_py.induct)
  case (1 d)
  have "py_eq v v" if "(k, v) \<in> set d" for k v
    using 1 that by force
  moreover have "map_of d k = Some v" if "(k, v) \<in> set d" for k v
    using 1 that by (simp add: map_of_is_SomeI)
  ultimately show ?case by auto
next
  case (2 xs)
  then show ?case by (induction xs) auto
qed auto

end
