(* ===== verification/Runtime.thy ===== *)
theory Runtime
  imports Prelude
begin

section \<open>Runtime: exceptions, HTTP, the clock, effectful programs and loops\<close>

text \<open>
  The effects of the Python code. A program of type \<open>'a io\<close> runs in a \<open>world\<close>: the
  requests sent so far, the monotonic clock in milliseconds, and the module-level caches of
  every connection helper. What lies outside the repository is one field of the world, \<open>net\<close>:
  the \<open>requests\<close> library together with the network and the appliance, a function from the time
  and the whole history of requests (the new one last) to what the caller sees and how long it
  took. A theorem that does not constrain \<open>net\<close> holds for every appliance.

  A program returns \<open>None\<close> if it runs forever, and otherwise a result (a value or the
  exception it raised) with the final world.
\<close>

subsection \<open>Requests and responses\<close>

text \<open>The arguments of a call of \<open>requests\<close>; \<open>rq_redirects\<close> is \<open>allow_redirects\<close>.\<close>

record request =
  rq_method :: string
  rq_url :: string
  rq_params :: pyval
  rq_json :: pyval
  rq_data :: pyval
  rq_headers :: "(string \<times> pyval) list"
  rq_auth :: pyval
  rq_verify :: pyval
  rq_timeout :: pyval
  rq_redirects :: bool

text \<open>
  A response object of \<open>requests\<close>, with what its methods give as fields: the status line, the
  message of the \<open>HTTPError\<close> that \<open>raise_for_status()\<close> raises (\<open>None\<close> when it returns), the body as
  \<open>.text\<close> (\<open>None\<close> when reading it raises), whether \<open>.content\<close> is non-empty, what \<open>.json()\<close> parses
  (\<open>None\<close> when it raises), the response headers and the cookies it sets. \<open>rs_method\<close> is the method of
  \<open>resp.request\<close>, \<open>None\<close> where \<open>resp.request\<close> is.
\<close>

record http_response =
  status_code :: int
  reason :: string
  rs_error :: "string option"
  rs_url :: string
  rs_method :: "string option"
  rs_text :: "string option"
  has_content :: bool
  json_value :: "pyval option"
  rs_headers :: "(string \<times> pyval) list"
  rs_cookies :: "(string \<times> pyval) list"

text \<open>What \<open>requests\<close> documents of \<open>raise_for_status()\<close>: it raises for 4xx and 5xx, and for nothing else.
  The properties that rely on it say so.\<close>

definition documented_response :: "http_response \<Rightarrow> bool" where
  "documented_response r \<longleftrightarrow> (rs_error r \<noteq> None \<longleftrightarrow> 400 \<le> status_code r \<and> status_code r < 600)"

subsection \<open>Exceptions and fallible values\<close>

text \<open>
  One constructor per exception class the code raises or catches. \<open>ConnError\<close> is
  every \<open>requests\<close> exception raised without a response (connection refused, read timeout):
  no subclass of \<open>HTTPError\<close>. \<open>JSONDecodeError\<close> is a \<open>ValueError\<close>. \<open>VmodlFault\<close> is a fault of pyVmomi, with
  its class and its message.
\<close>

datatype exn =
    HTTPError string "http_response option"
  | ConnError string
  | JSONDecodeError string
  | ValueError string
  | RuntimeError string
  | TimeoutError string
  | LookupError string
  | KeyError string
  | TypeError string
  | AttributeError string
  | VmodlFault string string
  | StopIteration

fun exn_str :: "exn \<Rightarrow> string" where
  "exn_str (HTTPError m _) = m"
| "exn_str (ConnError m) = m"
| "exn_str (JSONDecodeError m) = m"
| "exn_str (ValueError m) = m"
| "exn_str (RuntimeError m) = m"
| "exn_str (TimeoutError m) = m"
| "exn_str (LookupError m) = m"
| "exn_str (KeyError k) = repr_str k"
| "exn_str (TypeError m) = m"
| "exn_str (AttributeError m) = m"
| "exn_str (VmodlFault c m) = m"
| "exn_str StopIteration = []"

fun is_HTTPError :: "exn \<Rightarrow> bool" where
  "is_HTTPError (HTTPError _ _) = True"
| "is_HTTPError _ = False"

fun is_ValueError :: "exn \<Rightarrow> bool" where
  "is_ValueError (ValueError _) = True"
| "is_ValueError (JSONDecodeError _) = True"
| "is_ValueError _ = False"

text \<open>\<open>getattr(exc, "response", None)\<close>.\<close>

fun exn_response :: "exn \<Rightarrow> http_response option" where
  "exn_response (HTTPError _ r) = r"
| "exn_response _ = None"

lemma is_HTTPError_iff: "is_HTTPError e \<longleftrightarrow> (\<exists>m r. e = HTTPError m r)"
  by (cases e) auto

datatype 'a res = Ok 'a | Exc exn

definition bindR :: "'a res \<Rightarrow> ('a \<Rightarrow> 'b res) \<Rightarrow> 'b res" where
  "bindR m f = (case m of Ok x \<Rightarrow> f x | Exc e \<Rightarrow> Exc e)"

lemma bindR_simps [simp]: "bindR (Ok x) f = f x" "bindR (Exc e) f = Exc e"
  by (simp_all add: bindR_def)

lemma bindR_eq_Ok: "bindR m f = Ok y \<longleftrightarrow> (\<exists>x. m = Ok x \<and> f x = Ok y)"
  by (cases m) auto

definition is_Ok :: "'a res \<Rightarrow> bool" where
  "is_Ok r = (case r of Ok _ \<Rightarrow> True | Exc _ \<Rightarrow> False)"

lemma is_Ok_simps [simp]: "is_Ok (Ok x)" "\<not> is_Ok (Exc e)"
  by (simp_all add: is_Ok_def)

text \<open>
  \<open>v.get(k, dflt)\<close> and \<open>v[k]\<close> on a value that may not be a dict, and \<open>int(v)\<close>.
\<close>

definition attr_error :: "pyval \<Rightarrow> string \<Rightarrow> exn" where
  "attr_error v a =
     AttributeError (repr_str (type_name v) @ '' object has no attribute '' @ repr_str a)"

definition py_get :: "pyval \<Rightarrow> string \<Rightarrow> pyval \<Rightarrow> pyval res" where
  "py_get v k dflt =
     (case v of PDict d \<Rightarrow> Ok (dget d k dflt) | _ \<Rightarrow> Exc (attr_error v ''get''))"

definition py_item :: "pyval \<Rightarrow> string \<Rightarrow> pyval res" where
  "py_item v k =
     (case v of
        PDict d \<Rightarrow> (case map_of d k of Some x \<Rightarrow> Ok x | None \<Rightarrow> Exc (KeyError k))
      | PStr _ \<Rightarrow> Exc (TypeError (''string indices must be integers, not '' @ repr_str ''str''))
      | PList _ \<Rightarrow> Exc (TypeError ''list indices must be integers or slices, not str'')
      | _ \<Rightarrow> Exc (TypeError (repr_str (type_name v) @ '' object is not subscriptable'')))"

lemma py_get_dict [simp]: "py_get (PDict d) k dflt = Ok (dget d k dflt)"
  by (simp add: py_get_def)

lemma py_get_none [simp]: "py_get PNone k dflt = Exc (attr_error PNone ''get'')"
  by (simp add: py_get_def)

lemma py_get_Ok: "py_get v k dflt = Ok x \<longleftrightarrow> (\<exists>d. v = PDict d \<and> x = dget d k dflt)"
  by (cases v) (auto simp: py_get_def)

lemma is_Ok_py_get [simp]: "is_Ok (py_get v k dflt) = is_dict v"
  by (cases v) (auto simp: py_get_def)

text \<open>What a \<open>for\<close> loop runs over: the elements of a list, the keys of a dict, the characters
  of a string.\<close>

fun py_iter :: "pyval \<Rightarrow> pyval list res" where
  "py_iter (PList xs) = Ok xs"
| "py_iter (PDict d) = Ok (map (\<lambda>p. PStr (fst p)) d)"
| "py_iter (PStr s) = Ok (map (\<lambda>c. PStr [c]) s)"
| "py_iter v = Exc (TypeError (repr_str (type_name v) @ '' object is not iterable''))"

text \<open>The first element \<open>d\<close> with \<open>d.get(k) == v\<close>, or \<open>None\<close>.\<close>

fun find_by :: "string \<Rightarrow> pyval \<Rightarrow> pyval list \<Rightarrow> pyval res" where
  "find_by k v [] = Ok PNone"
| "find_by k v (d # ds) = bindR (py_get d k PNone) (\<lambda>x. if py_eq x v then Ok d else find_by k v ds)"

fun digits_value :: "nat \<Rightarrow> string \<Rightarrow> nat option" where
  "digits_value acc [] = Some acc"
| "digits_value acc (c # cs) =
     (let n = of_char c :: nat
      in if 48 \<le> n \<and> n \<le> 57 then digits_value (10 * acc + (n - 48)) cs else None)"

text \<open>
  \<open>int(s)\<close> of a string: surrounding blanks, a sign, then digits. (Underscores between
  digits, which Python also accepts, are taken as malformed.)
\<close>

definition is_blank :: "char \<Rightarrow> bool" where
  "is_blank c =
     (let n = of_char c :: nat in n = 32 \<or> 9 \<le> n \<and> n \<le> 13 \<or> 28 \<le> n \<and> n \<le> 31 \<or> n = 133 \<or> n = 160)"

definition strip :: "string \<Rightarrow> string" where
  "strip s = rev (dropWhile is_blank (rev (dropWhile is_blank s)))"

definition int_of_str :: "string \<Rightarrow> int option" where
  "int_of_str s =
     (case strip s of
        [] \<Rightarrow> None
      | c # cs \<Rightarrow>
          if c = CHR ''-'' then
            (if cs = [] then None else map_option (\<lambda>n. - int n) (digits_value 0 cs))
          else if c = CHR ''+'' then
            (if cs = [] then None else map_option int (digits_value 0 cs))
          else map_option int (digits_value 0 (c # cs)))"

fun py_int :: "pyval \<Rightarrow> int res" where
  "py_int (PInt i) = Ok i"
| "py_int (PBool b) = Ok (if b then 1 else 0)"
| "py_int (PStr s) =
     (case int_of_str s of
        Some i \<Rightarrow> Ok i
      | None \<Rightarrow> Exc (ValueError (''invalid literal for int() with base 10: '' @ repr_str s)))"
| "py_int v = Exc (TypeError (''int() argument must be a string, a bytes-like object or a real number, not ''
     @ repr_str (type_name v)))"

subsection \<open>The world\<close>

text \<open>
  A \<open>requests.Session\<close>: what it adds to every request. \<open>s_cookies\<close> is its cookie jar.
\<close>

record session =
  s_verify :: pyval
  s_auth :: pyval
  s_headers :: "(string \<times> pyval) list"
  s_cookies :: "(string \<times> pyval) list"

text \<open>
  The module-level caches, one dict per connection helper, keyed by strings. An entry is a
  token, a \<open>ServiceInstance\<close>, the \<open>(refresh, bearer)\<close> pair of VCF Automation, the token entry of VCF Operations
  for Logs with its expiry time, or a \<open>requests.Session\<close>.
\<close>

datatype cache_id =
    Vcenter_Cache | Sddc_Cache | Vmsp_Cache | Vcfa_Cache | Vcfops_Cache | Installer_Cache
  | Vrli_Cache | Vrni_Cache | Vro_Cache | Avi_Cache | Hcx_Cache | Vim_Cache | Esxi_Cache | Vsan_Cache | Pbm_Cache

datatype cached =
    CToken pyval
  | CPair pyval pyval
  | CEntry (entry_token: pyval) (entry_expires_at: int) (entry_provider: pyval)
  | CSession session

datatype net_reply =
    Reply nat http_response
  | NetFail nat string

record world =
  net :: "int \<Rightarrow> request list \<Rightarrow> net_reply"
  sent :: "request list"
  clock :: int
  caches :: "cache_id \<Rightarrow> string \<Rightarrow> cached option"

definition cache_get :: "cache_id \<Rightarrow> string \<Rightarrow> world \<Rightarrow> cached option" where
  "cache_get c k w = caches w c k"

definition cache_upd :: "cache_id \<Rightarrow> string \<Rightarrow> cached option \<Rightarrow> world \<Rightarrow> world" where
  "cache_upd c k v w = w\<lparr>caches := (caches w)(c := (caches w c)(k := v))\<rparr>"

lemma cache_get_upd [simp]:
  "cache_get c k (cache_upd c' k' v w) = (if c = c' \<and> k = k' then v else cache_get c k w)"
  by (simp add: cache_get_def cache_upd_def)

lemma cache_upd_frame [simp]:
  "net (cache_upd c k v w) = net w" "sent (cache_upd c k v w) = sent w"
  "clock (cache_upd c k v w) = clock w"
  by (simp_all add: cache_upd_def)

lemma cache_get_frame [simp]:
  "cache_get c k (w\<lparr>sent := s\<rparr>) = cache_get c k w"
  "cache_get c k (w\<lparr>clock := t\<rparr>) = cache_get c k w"
  by (simp_all add: cache_get_def)

subsection \<open>Programs\<close>

type_synonym 'a io = "world \<Rightarrow> ('a res \<times> world) option"

definition pureM :: "'a \<Rightarrow> 'a io" where
  "pureM x = (\<lambda>w. Some (Ok x, w))"

definition raiseM :: "exn \<Rightarrow> 'a io" where
  "raiseM e = (\<lambda>w. Some (Exc e, w))"

definition liftR :: "'a res \<Rightarrow> 'a io" where
  "liftR r = (\<lambda>w. Some (r, w))"

definition bindM :: "'a io \<Rightarrow> ('a \<Rightarrow> 'b io) \<Rightarrow> 'b io" where
  "bindM m f =
     (\<lambda>w. case m w of
        None \<Rightarrow> None
      | Some (Ok x, w') \<Rightarrow> f x w'
      | Some (Exc e, w') \<Rightarrow> Some (Exc e, w'))"

text \<open>\<open>try: m  except ...: h\<close>; the handler gets every exception and re-raises what the
  \<open>except\<close> clause does not name.\<close>

definition tryM :: "'a io \<Rightarrow> (exn \<Rightarrow> 'a io) \<Rightarrow> 'a io" where
  "tryM m h =
     (\<lambda>w. case m w of
        None \<Rightarrow> None
      | Some (Ok x, w') \<Rightarrow> Some (Ok x, w')
      | Some (Exc e, w') \<Rightarrow> h e w')"

text \<open>The clock: \<open>time.monotonic()\<close> and \<open>time.sleep(s)\<close>, in milliseconds.\<close>

definition monotonic :: "int io" where
  "monotonic = (\<lambda>w. Some (Ok (clock w), w))"

definition sleep :: "int \<Rightarrow> unit io" where
  "sleep ms =
     (\<lambda>w. if ms < 0 then Some (Exc (ValueError ''sleep length must be non-negative''), w)
          else Some (Ok (), w\<lparr>clock := clock w + ms\<rparr>))"

definition secs :: "int \<Rightarrow> int" where
  "secs n = 1000 * n"

text \<open>
  Durations the code takes from arguments or pillar: a number of seconds. Adding anything else to
  \<open>time.monotonic()\<close>, or sleeping for it, is a \<open>TypeError\<close>.
\<close>

fun py_seconds :: "pyval \<Rightarrow> int res" where
  "py_seconds (PInt n) = Ok (secs n)"
| "py_seconds (PBool b) = Ok (secs (if b then 1 else 0))"
| "py_seconds v = Exc (TypeError (repr_str (type_name v) @ '' object cannot be interpreted as a number of seconds''))"

definition deadline_after :: "pyval \<Rightarrow> int io" where
  "deadline_after timeout =
     bindM monotonic (\<lambda>t. bindM (liftR (py_seconds timeout)) (\<lambda>d. pureM (t + d)))"

definition py_sleep :: "pyval \<Rightarrow> unit io" where
  "py_sleep v = bindM (liftR (py_seconds v)) sleep"

text \<open>The time one \<open>py_sleep\<close> takes, 0 where it raises.\<close>

definition sleep_ms :: "pyval \<Rightarrow> int" where
  "sleep_ms v = (case py_seconds v of Ok n \<Rightarrow> n | Exc _ \<Rightarrow> 0)"

definition cache_lookup :: "cache_id \<Rightarrow> string \<Rightarrow> cached option io" where
  "cache_lookup c k = (\<lambda>w. Some (Ok (cache_get c k w), w))"

definition cache_store :: "cache_id \<Rightarrow> string \<Rightarrow> cached \<Rightarrow> unit io" where
  "cache_store c k v = (\<lambda>w. Some (Ok (), cache_upd c k (Some v) w))"

definition cache_pop :: "cache_id \<Rightarrow> string \<Rightarrow> unit io" where
  "cache_pop c k = (\<lambda>w. Some (Ok (), cache_upd c k None w))"

text \<open>One HTTP exchange.\<close>

definition http_send :: "request \<Rightarrow> http_response io" where
  "http_send rq =
     (\<lambda>w. let h = sent w @ [rq] in
        case net w (clock w) h of
          Reply d r \<Rightarrow> Some (Ok r, w\<lparr>sent := h, clock := clock w + int d\<rparr>)
        | NetFail d m \<Rightarrow> Some (Exc (ConnError m), w\<lparr>sent := h, clock := clock w + int d\<rparr>))"

text \<open>
  A loop: \<open>body\<close> runs on the loop variables and either leaves the loop with a value
  (\<open>return\<close>, \<open>break\<close>) or continues with new variables. \<open>None\<close> is a loop that never
  ends.
\<close>

partial_function (option) loopM ::
  "('s \<Rightarrow> world \<Rightarrow> (('a + 's) res \<times> world) option) \<Rightarrow> 's \<Rightarrow> world \<Rightarrow> ('a res \<times> world) option" where
  "loopM body s w =
     (case body s w of
        None \<Rightarrow> None
      | Some (Ok (Inl x), w') \<Rightarrow> Some (Ok x, w')
      | Some (Ok (Inr s'), w') \<Rightarrow> loopM body s' w'
      | Some (Exc e, w') \<Rightarrow> Some (Exc e, w'))"

declare loopM.simps [code]

end
