(* ===== verification/Program_Logic.thy ===== *)
theory Program_Logic
  imports Runtime "HOL-Library.Sublist"
begin

section \<open>Reasoning about programs\<close>

text \<open>
  Equations that run a program, the relational specification \<open>keeps R m\<close> (every run of \<open>m\<close>
  takes the world along \<open>R\<close>), totality \<open>returns m\<close>, the rules of the loop, and two
  interfaces: \<open>step_relation\<close>, the relations that every composition of programs respects as
  soon as its parts do, and \<open>polling\<close>, the loops that wait for a deadline.
\<close>

subsection \<open>Equations\<close>

lemma run_simps [simp]:
  "pureM x w = Some (Ok x, w)"
  "raiseM e w = Some (Exc e, w)"
  "liftR r w = Some (r, w)"
  "monotonic w = Some (Ok (clock w), w)"
  "cache_lookup c k w = Some (Ok (cache_get c k w), w)"
  "cache_store c k v w = Some (Ok (), cache_upd c k (Some v) w)"
  "cache_pop c k w = Some (Ok (), cache_upd c k None w)"
  by (simp_all add: pureM_def raiseM_def liftR_def monotonic_def cache_lookup_def
      cache_store_def cache_pop_def)

lemma bindM_run [simp]:
  "m w = Some (Ok x, w') \<Longrightarrow> bindM m f w = f x w'"
  "m w = Some (Exc e, w') \<Longrightarrow> bindM m f w = Some (Exc e, w')"
  "m w = None \<Longrightarrow> bindM m f w = None"
  by (simp_all add: bindM_def)

lemma tryM_run [simp]:
  "m w = Some (Ok x, w') \<Longrightarrow> tryM m h w = Some (Ok x, w')"
  "m w = Some (Exc e, w') \<Longrightarrow> tryM m h w = h e w'"
  "m w = None \<Longrightarrow> tryM m h w = None"
  by (simp_all add: tryM_def)

lemma sleep_run [simp]:
  "0 \<le> ms \<Longrightarrow> sleep ms w = Some (Ok (), w\<lparr>clock := clock w + ms\<rparr>)"
  "ms < 0 \<Longrightarrow> sleep ms w = Some (Exc (ValueError ''sleep length must be non-negative''), w)"
  by (simp_all add: sleep_def)

lemma deadline_after_run:
  "deadline_after v w = (case py_seconds v of Ok d \<Rightarrow> Some (Ok (clock w + d), w) | Exc e \<Rightarrow> Some (Exc e, w))"
  by (simp add: deadline_after_def bindM_def split: res.split)

lemma sleep_ms_secs [simp]: "sleep_ms (PInt n) = 1000 * n"
  by (simp add: sleep_ms_def secs_def)

lemma py_sleep_Ok:
  "py_sleep v w = Some (Ok u, w') \<longleftrightarrow>
     is_Ok (py_seconds v) \<and> 0 \<le> sleep_ms v \<and> w' = w\<lparr>clock := clock w + sleep_ms v\<rparr>"
  by (auto simp: py_sleep_def sleep_ms_def bindM_def sleep_def split: res.splits if_splits)

lemma bindM_laws [simp]:
  "bindM (pureM x) f = f x"
  "bindM (raiseM e) f = raiseM e"
  "bindM (liftR (Ok x)) f = f x"
  "bindM (liftR (Exc e)) f = raiseM e"
  by (simp_all add: fun_eq_iff)

lemma bindM_assoc: "bindM (bindM m f) g = bindM m (\<lambda>x. bindM (f x) g)"
  by (rule ext) (simp add: bindM_def split: option.split prod.split res.split)

lemma bindM_Some_iff:
  "bindM m f w = Some (r, w') \<longleftrightarrow>
     (\<exists>x w1. m w = Some (Ok x, w1) \<and> f x w1 = Some (r, w')) \<or>
     (\<exists>e. m w = Some (Exc e, w') \<and> r = Exc e)"
  by (auto simp: bindM_def split: option.splits prod.splits res.splits)

lemma bindM_SomeE:
  assumes "bindM m f w = Some (r, w')"
  obtains (ok) x w1 where "m w = Some (Ok x, w1)" "f x w1 = Some (r, w')"
    | (exc) e where "m w = Some (Exc e, w')" "r = Exc e"
  using assms by (auto simp: bindM_Some_iff)

lemma tryM_Some_iff:
  "tryM m h w = Some (r, w') \<longleftrightarrow>
     (\<exists>x. m w = Some (Ok x, w') \<and> r = Ok x) \<or>
     (\<exists>e w1. m w = Some (Exc e, w1) \<and> h e w1 = Some (r, w'))"
  by (auto simp: tryM_def split: option.splits prod.splits res.splits)

lemma tryM_SomeE:
  assumes "tryM m h w = Some (r, w')"
  obtains (ok) x where "m w = Some (Ok x, w')" "r = Ok x"
    | (exc) e w1 where "m w = Some (Exc e, w1)" "h e w1 = Some (r, w')"
  using assms by (auto simp: tryM_Some_iff)

subsection \<open>The loop\<close>

lemma loopM_run:
  "body s w = Some (Ok (Inl x), w') \<Longrightarrow> loopM body s w = Some (Ok x, w')"
  "body s w = Some (Ok (Inr s'), w') \<Longrightarrow> loopM body s w = loopM body s' w'"
  "body s w = Some (Exc e, w') \<Longrightarrow> loopM body s w = Some (Exc e, w')"
  by (subst loopM.simps; simp)+

text \<open>Partial correctness: an invariant \<open>I\<close> of the loop variables and the world.\<close>

lemma loopM_rule:
  assumes run: "loopM body s w = Some (r, w')"
    and init: "I s w"
    and cont: "\<And>s w s' w'. I s w \<Longrightarrow> body s w = Some (Ok (Inr s'), w') \<Longrightarrow> I s' w'"
    and leave: "\<And>s w x w'. I s w \<Longrightarrow> body s w = Some (Ok (Inl x), w') \<Longrightarrow> Q (Ok x) w'"
    and exc: "\<And>s w e w'. I s w \<Longrightarrow> body s w = Some (Exc e, w') \<Longrightarrow> Q (Exc e) w'"
  shows "Q r w'"
proof -
  let ?P = "\<lambda>b s w y. b = body \<longrightarrow> I s w \<longrightarrow> Q (fst y) (snd y)"
  have "?P body s w (r, w')"
  proof (rule loopM.raw_induct [where P = ?P, OF _ run])
    fix f b s w y
    assume IH: "\<And>b s w y. f b s w = Some y \<Longrightarrow> ?P b s w y"
      and eq: "(case b s w of None \<Rightarrow> None
        | Some (Ok (Inl x), w') \<Rightarrow> Some (Ok x, w')
        | Some (Ok (Inr s'), w') \<Rightarrow> f b s' w'
        | Some (Exc e, w') \<Rightarrow> Some (Exc e, w')) = Some y"
    show "?P b s w y"
    proof (intro impI)
      assume b: "b = body" and I: "I s w"
      from eq b show "Q (fst y) (snd y)"
        by (auto split: option.splits prod.splits res.splits sum.splits
            dest: leave [OF I] exc [OF I] cont [OF I] IH)
    qed
  qed
  then show ?thesis using init by simp
qed

text \<open>
  Total correctness: a measure that every further round decreases while the invariant holds.
\<close>

lemma loopM_total:
  fixes measure_of :: "'s \<Rightarrow> world \<Rightarrow> nat"
  assumes init: "I s w"
    and total: "\<And>s w. I s w \<Longrightarrow> body s w \<noteq> None"
    and cont: "\<And>s w s' w'. I s w \<Longrightarrow> body s w = Some (Ok (Inr s'), w') \<Longrightarrow>
      I s' w' \<and> measure_of s' w' < measure_of s w"
  shows "\<exists>r w'. loopM body s w = Some (r, w')"
  using init
proof (induction "measure_of s w" arbitrary: s w rule: less_induct)
  case less
  from total [OF less.prems] obtain r w1 where run: "body s w = Some (r, w1)" by fastforce
  show ?case
  proof (cases r)
    case (Exc e)
    with run show ?thesis by (simp add: loopM_run)
  next
    case (Ok v)
    show ?thesis
    proof (cases v)
      case (Inl x)
      with run Ok show ?thesis by (simp add: loopM_run)
    next
      case (Inr s')
      with run Ok have next_run: "body s w = Some (Ok (Inr s'), w1)" by simp
      from cont [OF less.prems this] have "\<exists>r w'. loopM body s' w1 = Some (r, w')"
        by (intro less.hyps) auto
      with next_run show ?thesis by (simp add: loopM_run)
    qed
  qed
qed

text \<open>The rounds of a loop: \<open>loop_rounds body n s w s' w'\<close> when \<open>n\<close> rounds continue.\<close>

inductive loop_rounds ::
  "('s \<Rightarrow> ('a + 's) io) \<Rightarrow> nat \<Rightarrow> 's \<Rightarrow> world \<Rightarrow> 's \<Rightarrow> world \<Rightarrow> bool" for body where
  none: "loop_rounds body 0 s w s w"
| more: "body s w = Some (Ok (Inr s1), w1) \<Longrightarrow> loop_rounds body n s1 w1 s' w' \<Longrightarrow>
     loop_rounds body (Suc n) s w s' w'"

inductive_cases loop_rounds_0E: "loop_rounds body 0 s w s' w'"
inductive_cases loop_rounds_SucE: "loop_rounds body (Suc n) s w s' w'"

lemma loopM_rounds:
  "loop_rounds body n s w s' w' \<Longrightarrow> loopM body s w = loopM body s' w'"
  by (induction rule: loop_rounds.induct) (simp_all add: loopM_run)

subsection \<open>Totality\<close>

definition returns :: "'a io \<Rightarrow> bool" where
  "returns m \<longleftrightarrow> (\<forall>w. m w \<noteq> None)"

lemma returnsD: "returns m \<Longrightarrow> \<exists>r w'. m w = Some (r, w')"
  by (auto simp: returns_def)

lemma returns_basic [spec_intros]:
  "returns (pureM x)" "returns (raiseM e)" "returns (liftR r)" "returns monotonic"
  "returns (sleep ms)" "returns (py_sleep d)" "returns (deadline_after d)" "returns (http_send rq)"
  "returns (cache_lookup c k)" "returns (cache_store c k v)" "returns (cache_pop c k)"
  by (auto simp: returns_def sleep_def py_sleep_def bindM_def deadline_after_run http_send_def Let_def
      split: net_reply.splits res.splits)

lemma returns_bindM [spec_intros]:
  "returns m \<Longrightarrow> (\<And>x. returns (f x)) \<Longrightarrow> returns (bindM m f)"
  by (fastforce simp: returns_def bindM_def split: option.splits prod.splits res.splits)

lemma returns_tryM [spec_intros]:
  "returns m \<Longrightarrow> (\<And>e. returns (h e)) \<Longrightarrow> returns (tryM m h)"
  by (fastforce simp: returns_def tryM_def split: option.splits prod.splits res.splits)

lemma returns_cases [spec_intros]:
  "(b \<Longrightarrow> returns m) \<Longrightarrow> (\<not> b \<Longrightarrow> returns n) \<Longrightarrow> returns (if b then m else n)"
  "(opt = None \<Longrightarrow> returns m) \<Longrightarrow> (\<And>x. opt = Some x \<Longrightarrow> returns (f x)) \<Longrightarrow> returns (case opt of None \<Rightarrow> m | Some x \<Rightarrow> f x)"
  "(\<And>a b. p = (a, b) \<Longrightarrow> returns (g a b)) \<Longrightarrow> returns (case p of (a, b) \<Rightarrow> g a b)"
  "returns (h v) \<Longrightarrow> returns (let x = v in h x)"
  by (auto split: option.split prod.split)

subsection \<open>Relational specifications\<close>

definition keeps :: "(world \<Rightarrow> world \<Rightarrow> bool) \<Rightarrow> 'a io \<Rightarrow> bool" where
  "keeps R m \<longleftrightarrow> (\<forall>w r w'. m w = Some (r, w') \<longrightarrow> R w w')"

lemma keepsI: "(\<And>w r w'. m w = Some (r, w') \<Longrightarrow> R w w') \<Longrightarrow> keeps R m"
  by (simp add: keeps_def)

lemma keepsD: "keeps R m \<Longrightarrow> m w = Some (r, w') \<Longrightarrow> R w w'"
  by (auto simp: keeps_def)

lemma keeps_mono: "keeps R m \<Longrightarrow> (\<And>w w'. R w w' \<Longrightarrow> S w w') \<Longrightarrow> keeps S m"
  by (auto simp: keeps_def)

lemma keeps_cases [spec_intros]:
  "(b \<Longrightarrow> keeps R m) \<Longrightarrow> (\<not> b \<Longrightarrow> keeps R n) \<Longrightarrow> keeps R (if b then m else n)"
  "(opt = None \<Longrightarrow> keeps R m) \<Longrightarrow> (\<And>x. opt = Some x \<Longrightarrow> keeps R (f x)) \<Longrightarrow> keeps R (case opt of None \<Rightarrow> m | Some x \<Rightarrow> f x)"
  "(\<And>a b. p = (a, b) \<Longrightarrow> keeps R (g a b)) \<Longrightarrow> keeps R (case p of (a, b) \<Rightarrow> g a b)"
  "keeps R (h v) \<Longrightarrow> keeps R (let x = v in h x)"
  by (auto split: option.split prod.split)

text \<open>
  The interface of a relation that programs respect compositionally: it is reflexive and
  transitive. Everything below follows for each such relation.
\<close>

locale step_relation =
  fixes R :: "world \<Rightarrow> world \<Rightarrow> bool"
  assumes refl_step: "R w w"
    and trans_step: "R a b \<Longrightarrow> R b c \<Longrightarrow> R a c"
begin

lemma keeps_quiet [spec_intros]:
  "keeps R (pureM x)" "keeps R (raiseM e)" "keeps R (liftR r)" "keeps R monotonic"
  "keeps R (cache_lookup c k)" "keeps R (deadline_after d)"
  by (auto simp: keeps_def refl_step deadline_after_run split: res.splits)

lemma keeps_bindM [spec_intros]:
  "keeps R m \<Longrightarrow> (\<And>x. keeps R (f x)) \<Longrightarrow> keeps R (bindM m f)"
  unfolding keeps_def by (blast elim: bindM_SomeE intro: trans_step)

lemma keeps_tryM [spec_intros]:
  "keeps R m \<Longrightarrow> (\<And>e. keeps R (h e)) \<Longrightarrow> keeps R (tryM m h)"
  unfolding keeps_def by (blast elim: tryM_SomeE intro: trans_step)

lemma keeps_loopM [spec_intros]:
  assumes "\<And>s. keeps R (body s)" shows "keeps R (loopM body s)"
proof (rule keepsI)
  fix w r w' assume "loopM body s w = Some (r, w')"
  then show "R w w'"
    by (rule loopM_rule [where I = "\<lambda>_ v. R w v"])
      (auto intro: refl_step trans_step dest: keepsD [OF assms])
qed

end

text \<open>How any program moves the world: the environment is the same, requests are only added,
  the clock never runs back.\<close>

definition evolves :: "world \<Rightarrow> world \<Rightarrow> bool" where
  "evolves w w' \<longleftrightarrow> net w' = net w \<and> prefix (sent w) (sent w') \<and> clock w \<le> clock w'"

text \<open>Every request added satisfies \<open>P\<close>.\<close>

definition sends_only :: "(request \<Rightarrow> bool) \<Rightarrow> world \<Rightarrow> world \<Rightarrow> bool" where
  "sends_only P w w' \<longleftrightarrow> (\<exists>rs. sent w' = sent w @ rs \<and> (\<forall>rq \<in> set rs. P rq))"

text \<open>Only the entries of one cache under one key may change.\<close>

definition touches_only :: "cache_id \<Rightarrow> string \<Rightarrow> world \<Rightarrow> world \<Rightarrow> bool" where
  "touches_only c k w w' \<longleftrightarrow> (\<forall>c' k'. (c', k') \<noteq> (c, k) \<longrightarrow> cache_get c' k' w' = cache_get c' k' w)"

text \<open>No cache changes.\<close>

definition same_caches :: "world \<Rightarrow> world \<Rightarrow> bool" where
  "same_caches w w' \<longleftrightarrow> caches w' = caches w"

interpretation sc: step_relation same_caches
  by unfold_locales (auto simp: same_caches_def)

text \<open>Only the entries of one cache may change.\<close>

definition only_cache :: "cache_id \<Rightarrow> world \<Rightarrow> world \<Rightarrow> bool" where
  "only_cache c w w' \<longleftrightarrow> (\<forall>c' k. c' \<noteq> c \<longrightarrow> cache_get c' k w' = cache_get c' k w)"

interpretation oc: step_relation "only_cache c" for c
  by unfold_locales (auto simp: only_cache_def)

interpretation ev: step_relation evolves
  by unfold_locales (auto simp: evolves_def intro: prefix_order.trans)

interpretation so: step_relation "sends_only P" for P
  by unfold_locales (auto simp: sends_only_def)

interpretation tc: step_relation "touches_only c k" for c k
  by unfold_locales (auto simp: touches_only_def)

lemma evolves_primitives [spec_intros]:
  "keeps evolves (sleep ms)" "keeps evolves (py_sleep d)" "keeps evolves (http_send rq)"
  "keeps evolves (cache_store c k v)" "keeps evolves (cache_pop c k)"
  by (auto simp: keeps_def evolves_def sleep_def py_sleep_def bindM_def http_send_def Let_def
      split: if_splits net_reply.splits res.splits)

lemma sends_only_primitives [spec_intros]:
  "keeps (sends_only P) (sleep ms)" "keeps (sends_only P) (py_sleep d)" "P rq \<Longrightarrow> keeps (sends_only P) (http_send rq)"
  "keeps (sends_only P) (cache_store c k v)" "keeps (sends_only P) (cache_pop c k)"
  by (auto simp: keeps_def sends_only_def sleep_def py_sleep_def bindM_def http_send_def Let_def
      split: if_splits net_reply.splits res.splits)

lemma touches_only_primitives [spec_intros]:
  "keeps (touches_only c k) (sleep ms)" "keeps (touches_only c k) (py_sleep d)" "keeps (touches_only c k) (http_send rq)"
  "keeps (touches_only c k) (cache_store c k v)" "keeps (touches_only c k) (cache_pop c k)"
  by (auto simp: keeps_def touches_only_def sleep_def py_sleep_def bindM_def http_send_def Let_def
      split: if_splits net_reply.splits res.splits)

lemma same_caches_primitives [spec_intros]:
  "keeps same_caches (sleep ms)" "keeps same_caches (py_sleep d)" "keeps same_caches (http_send rq)"
  by (auto simp: keeps_def same_caches_def sleep_def py_sleep_def bindM_def http_send_def Let_def
      split: if_splits net_reply.splits res.splits)

lemma same_caches_get: "same_caches w w' \<Longrightarrow> cache_get c k w' = cache_get c k w"
  by (simp add: same_caches_def cache_get_def)

lemma same_caches_touches: "keeps same_caches m \<Longrightarrow> keeps (touches_only c k) m"
  by (erule keeps_mono) (simp add: touches_only_def same_caches_get)

lemma only_cache_primitives [spec_intros]:
  "keeps (only_cache c) (sleep ms)" "keeps (only_cache c) (py_sleep d)" "keeps (only_cache c) (http_send rq)"
  "keeps (only_cache c) (cache_store c k v)" "keeps (only_cache c) (cache_pop c k)"
  by (auto simp: keeps_def only_cache_def sleep_def py_sleep_def bindM_def http_send_def Let_def
      split: if_splits net_reply.splits res.splits)

lemma same_caches_only: "keeps same_caches m \<Longrightarrow> keeps (only_cache c) m"
  by (erule keeps_mono) (simp add: only_cache_def same_caches_get)

lemma sends_only_mono: "sends_only P w w' \<Longrightarrow> (\<And>rq. P rq \<Longrightarrow> Q rq) \<Longrightarrow> sends_only Q w w'"
  by (auto simp: sends_only_def)

lemma returns_case_sum [spec_intros]:
  "(\<And>x. s = Inl x \<Longrightarrow> returns (f x)) \<Longrightarrow> (\<And>y. s = Inr y \<Longrightarrow> returns (g y)) \<Longrightarrow>
     returns (case s of Inl x \<Rightarrow> f x | Inr y \<Rightarrow> g y)"
  by (cases s) auto

lemma keeps_case_sum [spec_intros]:
  "(\<And>x. s = Inl x \<Longrightarrow> keeps R (f x)) \<Longrightarrow> (\<And>y. s = Inr y \<Longrightarrow> keeps R (g y)) \<Longrightarrow>
     keeps R (case s of Inl x \<Rightarrow> f x | Inr y \<Rightarrow> g y)"
  by (cases s) auto

lemma returns_case_res [spec_intros]:
  "(\<And>x. r = Ok x \<Longrightarrow> returns (f x)) \<Longrightarrow> (\<And>e. r = Exc e \<Longrightarrow> returns (g e)) \<Longrightarrow>
     returns (case r of Ok x \<Rightarrow> f x | Exc e \<Rightarrow> g e)"
  by (cases r) auto

lemma keeps_case_res [spec_intros]:
  "(\<And>x. r = Ok x \<Longrightarrow> keeps R (f x)) \<Longrightarrow> (\<And>e. r = Exc e \<Longrightarrow> keeps R (g e)) \<Longrightarrow>
     keeps R (case r of Ok x \<Rightarrow> f x | Exc e \<Rightarrow> g e)"
  by (cases r) auto

lemma case_str_rules [spec_intros]:
  "(\<And>s. v = PStr s \<Longrightarrow> returns (f s)) \<Longrightarrow> returns g \<Longrightarrow> returns (case v of PStr s \<Rightarrow> f s | _ \<Rightarrow> g)"
  "(\<And>s. v = PStr s \<Longrightarrow> keeps R (f s)) \<Longrightarrow> keeps R g \<Longrightarrow> keeps R (case v of PStr s \<Rightarrow> f s | _ \<Rightarrow> g)"
  by (cases v; simp)+

lemma case_str_Ok [simp]:
  "(case v of PStr s \<Rightarrow> f s | _ \<Rightarrow> raiseM e) w = Some (Ok x, w') \<longleftrightarrow> (\<exists>s. v = PStr s \<and> f s w = Some (Ok x, w'))"
  by (cases v) auto

text \<open>What comes after the first request of a program.\<close>

lemma first_request_sent:
  assumes "bindM (http_send rq) f w = Some (r, w')" "\<And>x. keeps evolves (f x)"
  shows "\<exists>later. sent w' = sent w @ rq # later"
proof -
  have sent: "sent w1 = sent w @ [rq]" if "http_send rq w = Some (x, w1)" for x w1
    using that by (auto simp: http_send_def Let_def split: net_reply.splits)
  from assms(1) show ?thesis
  proof (rule bindM_SomeE)
    fix x w1 assume "http_send rq w = Some (Ok x, w1)" "f x w1 = Some (r, w')"
    with keepsD [OF assms(2)] sent show ?thesis
      by (fastforce simp: evolves_def prefix_def)
  qed (use sent in auto)
qed

subsection \<open>Polling\<close>

text \<open>
  The interface of a loop that waits for something until a deadline: a round always comes to
  an end, and a round that goes on started no later than the deadline and moved the time
  \<open>now\<close> on by \<open>interval\<close>.
\<close>

locale polling =
  fixes body :: "'s \<Rightarrow> ('a + 's) io"
    and now :: "'s \<Rightarrow> world \<Rightarrow> int"
    and deadline :: int
    and interval :: int
  assumes body_returns: "body s w \<noteq> None"
    and round: "body s w = Some (Ok (Inr s'), w') \<Longrightarrow>
      now s w \<le> deadline \<and> now s w + interval \<le> now s' w'"
begin

lemma terminates:
  assumes "0 < interval" shows "\<exists>r w'. loopM body s w = Some (r, w')"
  by (rule loopM_total [where I = "\<lambda>_ _. True" and measure_of = "\<lambda>s w. nat (deadline + 1 - now s w)"])
    (use assms body_returns in \<open>auto dest!: round\<close>)

lemma rounds_time: "loop_rounds body n s w s' w' \<Longrightarrow> now s w + int n * interval \<le> now s' w'"
  by (induction rule: loop_rounds.induct) (auto dest!: round simp: algebra_simps)

lemma rounds_bound:
  "loop_rounds body (Suc n) s w s' w' \<Longrightarrow> now s w + int n * interval \<le> deadline"
proof (induction n arbitrary: s w)
  case 0
  then show ?case by (auto elim!: loop_rounds_SucE dest: round)
next
  case (Suc n)
  then obtain s1 w1 where "body s w = Some (Ok (Inr s1), w1)" "loop_rounds body (Suc n) s1 w1 s' w'"
    by (auto elim: loop_rounds_SucE)
  with Suc.IH round show ?case by (fastforce simp: algebra_simps)
qed

end

text \<open>The clock as the time, with the two laws in the form programs give them.\<close>

lemma polling_clockI:
  assumes "\<And>s. returns (body s)"
    and "\<And>s w s' w'. body s w = Some (Ok (Inr s'), w') \<Longrightarrow> clock w \<le> dl \<and> clock w + i \<le> clock w'"
  shows "polling body (\<lambda>_ w. clock w) dl i"
proof unfold_locales
  show "body s w \<noteq> None" for s w
    using assms(1) [of s] by (simp add: returns_def)
qed (rule assms(2))

lemma evolves_clock: "keeps evolves m \<Longrightarrow> m w = Some (r, w') \<Longrightarrow> clock w \<le> clock w'"
  by (auto simp: evolves_def dest: keepsD)

text \<open>How a loop that checks its deadline after the work ends a round that goes on.\<close>

lemma deadline_tail:
  "bindM monotonic (\<lambda>t. if t > dl then raiseM e else bindM (py_sleep d) (\<lambda>_. pureM (Inr s))) w
     = Some (Ok (Inr s'), w') \<longleftrightarrow>
   clock w \<le> dl \<and> is_Ok (py_seconds d) \<and> 0 \<le> sleep_ms d \<and> s' = s \<and>
     w' = w\<lparr>clock := clock w + sleep_ms d\<rparr>"
  by (auto simp: bindM_Some_iff py_sleep_Ok split: if_splits)

lemma deadline_tail_now [simp]:
  "(if dl < clock w then raiseM e else bindM (py_sleep d) (\<lambda>_. pureM (Inr s))) w
     = Some (Ok (Inr s'), w') \<longleftrightarrow>
   clock w \<le> dl \<and> is_Ok (py_seconds d) \<and> 0 \<le> sleep_ms d \<and> s' = s \<and>
     w' = w\<lparr>clock := clock w + sleep_ms d\<rparr>"
  "(if dl < clock w then raiseM e else bindM (py_sleep d) (\<lambda>_. pureM (Inr s))) w
     \<noteq> Some (Ok (Inl x), w')"
  by (auto simp: bindM_Some_iff py_sleep_Ok split: if_splits)

lemma deadline_tail_leaves:
  "bindM monotonic (\<lambda>t. if t > dl then raiseM e else bindM (py_sleep d) (\<lambda>_. pureM (Inr s))) w
     \<noteq> Some (Ok (Inl x), w')"
  by (auto simp: bindM_Some_iff split: if_splits)

lemma work_then_tail:
  assumes "keeps evolves m"
    and "bindM m (\<lambda>s. bindM monotonic
           (\<lambda>t. if t > dl then raiseM (e s) else bindM (py_sleep d) (\<lambda>_. pureM (Inr s)))) w
         = Some (Ok (Inr s'), w')"
  obtains w1 where "m w = Some (Ok s', w1)" "clock w1 \<le> dl"
    "w' = w1\<lparr>clock := clock w1 + sleep_ms d\<rparr>" "clock w \<le> dl" "clock w + sleep_ms d \<le> clock w'"
proof -
  from assms(2) obtain w1 where "m w = Some (Ok s', w1)" "clock w1 \<le> dl"
    "w' = w1\<lparr>clock := clock w1 + sleep_ms d\<rparr>"
    by (auto simp: bindM_Some_iff [of m])
  with evolves_clock [OF assms(1) this(1)] show thesis by (intro that) auto
qed

lemma check_then_tail:
  assumes "keeps evolves m"
    and "bindM m (\<lambda>c. case c of Inl x \<Rightarrow> pureM (Inl x)
         | Inr s \<Rightarrow> bindM monotonic
           (\<lambda>t. if t > dl then raiseM (e s) else bindM (py_sleep d) (\<lambda>_. pureM (Inr s)))) w
         = Some (Ok (Inr s'), w')"
  obtains w1 where "m w = Some (Ok (Inr s'), w1)" "clock w1 \<le> dl"
    "w' = w1\<lparr>clock := clock w1 + sleep_ms d\<rparr>" "clock w \<le> dl" "clock w + sleep_ms d \<le> clock w'"
proof -
  from assms(2) obtain c w1 where m: "m w = Some (Ok c, w1)"
    and tail: "(case c of Inl x \<Rightarrow> pureM (Inl x)
         | Inr s \<Rightarrow> bindM monotonic
           (\<lambda>t. if t > dl then raiseM (e s) else bindM (py_sleep d) (\<lambda>_. pureM (Inr s)))) w1
         = Some (Ok (Inr s'), w')"
    unfolding bindM_Some_iff [of m] by blast
  from tail have "c = Inr s'" "clock w1 \<le> dl" "w' = w1\<lparr>clock := clock w1 + sleep_ms d\<rparr>"
    by (cases c; simp)+
  with m evolves_clock [OF assms(1) m] show thesis by (intro that) auto
qed

text \<open>A value such a loop leaves with comes from the check itself.\<close>

lemma check_then_tail_leaves:
  assumes "bindM m (\<lambda>c. case c of Inl x \<Rightarrow> pureM (Inl x)
     | Inr s \<Rightarrow> bindM monotonic
       (\<lambda>t. if t > dl then raiseM (e s) else bindM (py_sleep d) (\<lambda>_. pureM (Inr s)))) w
     = Some (Ok (Inl x), w')"
  shows "m w = Some (Ok (Inl x), w')"
proof -
  from assms obtain c w1 where m: "m w = Some (Ok c, w1)"
    and tail: "(case c of Inl x \<Rightarrow> pureM (Inl x)
         | Inr s \<Rightarrow> bindM monotonic
           (\<lambda>t. if t > dl then raiseM (e s) else bindM (py_sleep d) (\<lambda>_. pureM (Inr s)))) w1
         = Some (Ok (Inl x), w')"
    unfolding bindM_Some_iff [of m] by blast
  from tail have "c = Inl x \<and> w' = w1" by (cases c) auto
  with m show ?thesis by simp
qed

subsection \<open>Counting requests\<close>

text \<open>The requests of a kind sent so far, and programs that send at most \<open>k\<close> of them.\<close>

definition sent_count :: "(request \<Rightarrow> bool) \<Rightarrow> world \<Rightarrow> nat" where
  "sent_count P w = length (filter P (sent w))"

definition at_most :: "(request \<Rightarrow> bool) \<Rightarrow> nat \<Rightarrow> 'a io \<Rightarrow> bool" where
  "at_most P k m \<longleftrightarrow> keeps (\<lambda>w w'. sent_count P w' \<le> sent_count P w + k) m"

abbreviation gets :: "world \<Rightarrow> nat" where
  "gets \<equiv> sent_count (\<lambda>rq. rq_method rq = ''GET'')"

abbreviation gets_at_most :: "nat \<Rightarrow> 'a io \<Rightarrow> bool" where
  "gets_at_most \<equiv> at_most (\<lambda>rq. rq_method rq = ''GET'')"

lemma at_mostD: "at_most P k m \<Longrightarrow> m w = Some (r, w') \<Longrightarrow> sent_count P w' \<le> sent_count P w + k"
  by (auto simp: at_most_def dest: keepsD)

lemma at_most_none:
  assumes "keeps (sends_only (\<lambda>rq. \<not> P rq)) m" shows "at_most P 0 m"
  using assms unfolding at_most_def
  by (rule keeps_mono) (auto simp: sends_only_def sent_count_def)

lemma at_most_send [intro]: "at_most P 1 (http_send rq)"
  by (auto simp: at_most_def keeps_def http_send_def sent_count_def Let_def split: net_reply.splits)

lemma at_most_bindM:
  assumes "at_most P j m" "\<And>x. at_most P k (f x)" shows "at_most P (j + k) (bindM m f)"
  unfolding at_most_def
proof (rule keepsI)
  fix w r w' assume "bindM m f w = Some (r, w')"
  then show "sent_count P w' \<le> sent_count P w + (j + k)"
    by (rule bindM_SomeE) (use at_mostD [OF assms(1)] at_mostD [OF assms(2)] in fastforce)+
qed

lemma at_most_tryM:
  assumes "at_most P j m" "\<And>e. at_most P k (h e)" shows "at_most P (j + k) (tryM m h)"
  unfolding at_most_def
proof (rule keepsI)
  fix w r w' assume "tryM m h w = Some (r, w')"
  then show "sent_count P w' \<le> sent_count P w + (j + k)"
    by (rule tryM_SomeE) (use at_mostD [OF assms(1)] at_mostD [OF assms(2)] in fastforce)+
qed

lemmas at_most_after = at_most_bindM [of P 0 _ k for P k, simplified]
lemmas at_most_before = at_most_bindM [of P k _ 0 for P k, simplified]
lemmas at_most_first_of_two = at_most_bindM [of P 1 _ 1 for P, simplified]
lemmas at_most_try = at_most_tryM [of P k _ 0 for P k, simplified]

lemma at_most_mono: "at_most P j m \<Longrightarrow> j \<le> k \<Longrightarrow> at_most P k m"
  unfolding at_most_def by (erule keeps_mono) simp

lemma at_most_cases:
  "(\<And>a b. at_most P k (f a b)) \<Longrightarrow> at_most P k (case p of (a, b) \<Rightarrow> f a b)"
  "(b \<Longrightarrow> at_most P k m) \<Longrightarrow> (\<not> b \<Longrightarrow> at_most P k n) \<Longrightarrow> at_most P k (if b then m else n)"
  "at_most P k (h v) \<Longrightarrow> at_most P k (let x = v in h x)"
  by (auto split: prod.split)

text \<open>A request and at most one more attempt, as the helpers retry.\<close>

lemma at_most_two:
  "at_most P 1 m \<Longrightarrow> (\<And>x. at_most P 1 (f x)) \<Longrightarrow> at_most P 2 (bindM m f)"
  using at_most_bindM [of P 1 m 1 f] by (simp add: numeral_2_eq_2)

lemma at_most_retried:
  assumes "at_most P 1 again" "\<And>x. at_most P 0 (finish x)"
  shows "at_most P 1 (bindM (if c then again else pureM r) finish)"
proof -
  have "at_most P 0 (pureM r)" by (auto intro!: at_most_none spec_intros)
  then have "at_most P 1 (if c then again else pureM r)" using assms(1) by (auto intro: at_most_mono)
  then show ?thesis using assms(2) by (rule at_most_before)
qed

lemma sent_count_frame [simp]: "sent_count P (w\<lparr>clock := c\<rparr>) = sent_count P w"
  by (simp add: sent_count_def)

text \<open>
  A polling loop whose rounds send one \<open>GET\<close> at most, and none after the deadline: one \<open>GET\<close> per
  interval of the time it has, and one more.
\<close>

context polling begin

lemma gets_bound:
  assumes run: "loopM body s0 w0 = Some (r, w')" and pos: "0 < interval"
    and one: "\<And>s w r w'. body s w = Some (r, w') \<Longrightarrow>
      gets w' \<le> gets w + 1 \<and> (now s w \<le> deadline \<or> gets w' \<le> gets w)"
  shows "gets w' \<le> gets w0 \<or> (int (gets w') - int (gets w0) - 1) * interval \<le> deadline - now s0 w0"
    (is "?bound w'")
proof -
  let ?n = "\<lambda>w. int (gets w) - int (gets w0)"
  let ?I = "\<lambda>s w. ?n w * interval \<le> now s w - now s0 w0 \<and> ?bound w"
  have step: "?bound w'" if I: "?I s w" and run: "body s w = Some (r, w')" for s w r w'
  proof (cases "gets w < gets w'")
    case True
    with one [OF run] have "now s w \<le> deadline" "gets w' = gets w + 1" by auto
    with I show ?thesis by (auto simp: algebra_simps)
  next
    case False
    then have "(?n w' - 1) * interval \<le> (?n w - 1) * interval"
      using pos by (intro mult_right_mono) auto
    with I False show ?thesis by linarith
  qed
  show ?thesis
  proof (rule loopM_rule [OF run, where I = ?I and Q = "\<lambda>_. ?bound"])
    fix s w s' w' assume I: "?I s w" and run: "body s w = Some (Ok (Inr s'), w')"
    have "?n w' * interval \<le> (?n w + 1) * interval"
      using one [OF run] pos by (intro mult_right_mono) auto
    with I round [OF run] have "?n w' * interval \<le> now s' w' - now s0 w0"
      by (simp add: algebra_simps)
    with step [OF I run] show "?I s' w'" by blast
  qed (use step in auto)
qed

end

subsection \<open>Time\<close>

text \<open>An environment in which every exchange takes some time, and the programs that then advance
  the clock.\<close>

definition takes_time :: "world \<Rightarrow> bool" where
  "takes_time w \<longleftrightarrow> (\<forall>t h. case net w t h of Reply d _ \<Rightarrow> 0 < d | NetFail d _ \<Rightarrow> 0 < d)"

definition ticks :: "'a io \<Rightarrow> bool" where
  "ticks m \<longleftrightarrow> (\<forall>w r w'. takes_time w \<longrightarrow> m w = Some (r, w') \<longrightarrow> clock w < clock w')"

lemma ticksD: "ticks m \<Longrightarrow> takes_time w \<Longrightarrow> m w = Some (r, w') \<Longrightarrow> clock w < clock w'"
  by (auto simp: ticks_def)

lemma takes_time_evolves: "evolves w w' \<Longrightarrow> takes_time w' = takes_time w"
  by (simp add: evolves_def takes_time_def)

lemma ticks_http_send: "ticks (http_send rq)"
proof -
  have "clock w < clock w'" if "takes_time w" "http_send rq w = Some (r, w')" for w r w'
    using that(1) [unfolded takes_time_def, rule_format, of "clock w" "sent w @ [rq]"] that(2)
    by (auto simp: http_send_def Let_def split: net_reply.splits)
  then show ?thesis by (auto simp: ticks_def)
qed

lemma ticks_bindM:
  assumes "ticks m" "\<And>x. keeps evolves (f x)" shows "ticks (bindM m f)"
proof -
  have "clock w < clock w'" if "takes_time w" "bindM m f w = Some (r, w')" for w r w'
    using that(2)
    by (rule bindM_SomeE)
      (use ticksD [OF assms(1) that(1)] evolves_clock [OF assms(2)] in \<open>fastforce dest: order_less_le_trans\<close>)+
  then show ?thesis by (auto simp: ticks_def)
qed

text \<open>A first part that either ticks or hands on a value.\<close>

lemma ticks_after:
  assumes "keeps evolves m" "\<And>w e w'. takes_time w \<Longrightarrow> m w = Some (Exc e, w') \<Longrightarrow> clock w < clock w'"
    and "\<And>x. ticks (f x)"
  shows "ticks (bindM m f)"
proof -
  have "clock w < clock w'" if t: "takes_time w" and run: "bindM m f w = Some (r, w')" for w r w'
    using run
  proof (rule bindM_SomeE)
    fix x w1 assume m: "m w = Some (Ok x, w1)" and f: "f x w1 = Some (r, w')"
    from t keepsD [OF assms(1) m] have "takes_time w1" by (simp add: takes_time_evolves)
    from ticksD [OF assms(3) this f] evolves_clock [OF assms(1) m] show ?thesis by simp
  next
    fix e assume "m w = Some (Exc e, w')"
    then show ?thesis by (rule assms(2) [OF t])
  qed
  then show ?thesis by (auto simp: ticks_def)
qed

text \<open>Programs that return wherever exchanges take time.\<close>

definition returns_timed :: "'a io \<Rightarrow> bool" where
  "returns_timed m \<longleftrightarrow> (\<forall>w. takes_time w \<longrightarrow> m w \<noteq> None)"

lemma returns_timedD: "returns_timed m \<Longrightarrow> takes_time w \<Longrightarrow> \<exists>r w'. m w = Some (r, w')"
  by (auto simp: returns_timed_def)

lemma returns_timed_returns: "returns m \<Longrightarrow> returns_timed m"
  by (auto simp: returns_def returns_timed_def)

lemma returns_timed_bindM:
  assumes "returns_timed m" "keeps evolves m" "\<And>x. returns_timed (f x)"
  shows "returns_timed (bindM m f)"
  unfolding returns_timed_def
proof (intro allI impI)
  fix w assume t: "takes_time w"
  from returns_timedD [OF assms(1) this] obtain r w1 where m: "m w = Some (r, w1)" by blast
  with t keepsD [OF assms(2) m] have "takes_time w1" by (simp add: takes_time_evolves)
  then show "bindM m f w \<noteq> None"
    using m returns_timedD [OF assms(3)] by (cases r) fastforce+
qed

lemma returns_timed_tryM:
  assumes "returns_timed m" "\<And>e. returns (h e)" shows "returns_timed (tryM m h)"
  using assms by (fastforce simp: returns_timed_def returns_def tryM_def split: option.splits prod.splits res.splits)

lemma returns_timed_cases:
  "(b \<Longrightarrow> returns_timed m) \<Longrightarrow> (\<not> b \<Longrightarrow> returns_timed n) \<Longrightarrow> returns_timed (if b then m else n)"
  "(\<And>a b. p = (a, b) \<Longrightarrow> returns_timed (g a b)) \<Longrightarrow> returns_timed (case p of (a, b) \<Rightarrow> g a b)"
  "returns_timed (h v) \<Longrightarrow> returns_timed (let x = v in h x)"
  by (auto split: prod.split)

end
