(* ===== verification/Connection.thy ===== *)
theory Connection
  imports Program_Logic
begin

section \<open>Connection: what every connection helper under \<open>utils/\<close> shares\<close>

text \<open>
  The pillar lookup of \<open>get_config\<close>, the record of the common configuration keys, the
  requests a \<open>requests.Session\<close> sends, \<open>raise_for_status\<close> of \<open>requests\<close>, the
  \<open>if resp.content: return resp.json()\<close> tail of every \<open>api_*\<close> helper, and the interface
  \<open>login_cache\<close> that the session and token caches implement.
\<close>

subsection \<open>Configuration\<close>

text \<open>
  A profile is \<open>None\<close> or a name; \<open>if profile:\<close> skips the empty name too.
\<close>

type_synonym profile = "string option"

definition has_profile :: "profile \<Rightarrow> string option" where
  "has_profile p = (case p of Some (c # cs) \<Rightarrow> Some (c # cs) | _ \<Rightarrow> None)"

text \<open>
  \<open>root = pillar.get("saltext.vcf", {}) or opts.get("saltext.vcf", {})\<close>, then the product's
  section, or that of the profile when it has one.
\<close>

definition config_root :: "pyval \<Rightarrow> pyval res" where
  "config_root opts =
     bindR (py_get opts ''pillar'' empty_dict) (\<lambda>pillar.
     bindR (py_get pillar ''saltext.vcf'' empty_dict) (\<lambda>r.
     if truthy r then Ok r else py_get opts ''saltext.vcf'' empty_dict))"

definition product_section :: "string \<Rightarrow> pyval \<Rightarrow> profile \<Rightarrow> pyval res" where
  "product_section key opts profile =
     bindR (config_root opts) (\<lambda>root.
     bindR (py_get root key empty_dict) (\<lambda>cfg.
     case has_profile profile of
       None \<Rightarrow> Ok cfg
     | Some p \<Rightarrow>
         bindR (py_get root ''profiles'' empty_dict) (\<lambda>profiles.
         bindR (py_get profiles p empty_dict) (\<lambda>prof.
         py_get prof key cfg))))"

text \<open>\<open>cfg.get(a) or cfg.get(b)\<close>.\<close>

definition get_or :: "pyval \<Rightarrow> string \<Rightarrow> string \<Rightarrow> pyval res" where
  "get_or cfg a b =
     bindR (py_get cfg a PNone) (\<lambda>v. if truthy v then Ok v else py_get cfg b PNone)"

text \<open>The keys that every product's configuration has.\<close>

record conn_config =
  cfg_host :: pyval
  cfg_username :: pyval
  cfg_password :: pyval
  cfg_verify_ssl :: pyval

definition base_config :: "pyval \<Rightarrow> conn_config res" where
  "base_config cfg =
     bindR (get_or cfg ''host'' ''hostname'') (\<lambda>host.
     bindR (get_or cfg ''username'' ''user'') (\<lambda>username.
     bindR (py_get cfg ''password'' PNone) (\<lambda>password.
     bindR (py_get cfg ''verify_ssl'' (PBool True)) (\<lambda>verify.
     Ok \<lparr>cfg_host = host, cfg_username = username, cfg_password = password,
         cfg_verify_ssl = verify\<rparr>))))"

text \<open>\<open>f"{host}:{username}"\<close> and \<open>f"https://{host}{path}"\<close>.\<close>

definition host_user_key :: "('a conn_config_scheme) \<Rightarrow> string" where
  "host_user_key cfg = py_str (cfg_host cfg) @ '':'' @ py_str (cfg_username cfg)"

definition https_url :: "pyval \<Rightarrow> string \<Rightarrow> string" where
  "https_url host path = ''https://'' @ py_str host @ path"

lemma https_url_ends [simp]: "ends_with (https_url host path) path"
  unfolding ends_with_def starts_with_iff https_url_def by simp

lemma base_config_is_Ok: "is_Ok (base_config cfg) = is_dict cfg"
  by (cases cfg) (auto simp: base_config_def get_or_def py_get_def)

subsection \<open>Requests\<close>

text \<open>
  \<open>requests.request(...)\<close> without a session, and the methods of a session, whose settings
  are merged into the request.
\<close>

definition plain_request ::
  "string \<Rightarrow> string \<Rightarrow> pyval \<Rightarrow> pyval \<Rightarrow> dict \<Rightarrow> pyval \<Rightarrow> pyval \<Rightarrow> pyval \<Rightarrow> request" where
  "plain_request meth url json data headers auth verify timeout =
     \<lparr>rq_method = meth, rq_url = url, rq_params = PNone, rq_json = json, rq_data = data,
      rq_headers = headers, rq_auth = auth, rq_verify = verify, rq_timeout = timeout,
      rq_redirects = True\<rparr>"

definition cookie_header :: "dict \<Rightarrow> dict" where
  "cookie_header cs =
     (if cs = [] then []
      else [(''Cookie'', PStr (join_with ''; '' (map (\<lambda>(k, v). k @ ''='' @ py_str v) cs)))])"

definition session_rq ::
  "session \<Rightarrow> string \<Rightarrow> string \<Rightarrow> pyval \<Rightarrow> pyval \<Rightarrow> dict \<Rightarrow> pyval \<Rightarrow> request" where
  "session_rq s meth url params json headers timeout =
     \<lparr>rq_method = meth, rq_url = url, rq_params = params, rq_json = json, rq_data = PNone,
      rq_headers = dupdate (dupdate (s_headers s) headers) (cookie_header (s_cookies s)),
      rq_auth = s_auth s, rq_verify = s_verify s, rq_timeout = timeout,
      rq_redirects = True\<rparr>"

definition session_request ::
  "session \<Rightarrow> string \<Rightarrow> string \<Rightarrow> pyval \<Rightarrow> pyval \<Rightarrow> pyval \<Rightarrow> http_response io" where
  "session_request s meth url params json timeout =
     http_send (session_rq s meth url params json [] timeout)"

text \<open>
  A request whose session is used again: it keeps the cookies of the response. (The jar is keyed by
  the name of a cookie, as one session talks to one host.)
\<close>

definition session_send ::
  "session \<Rightarrow> string \<Rightarrow> string \<Rightarrow> pyval \<Rightarrow> pyval \<Rightarrow> dict \<Rightarrow> pyval \<Rightarrow> (http_response \<times> session) io" where
  "session_send s meth url params json headers timeout =
     bindM (http_send (session_rq s meth url params json headers timeout)) (\<lambda>resp.
     pureM (resp, s\<lparr>s_cookies := dupdate (s_cookies s) (rs_cookies resp)\<rparr>))"

definition new_session :: session where
  "new_session = \<lparr>s_verify = PBool True, s_auth = PNone, s_headers = [], s_cookies = []\<rparr>"

subsection \<open>Responses\<close>

text \<open>The call \<open>resp.raise_for_status()\<close>.\<close>

definition raise_for_status :: "http_response \<Rightarrow> unit io" where
  "raise_for_status r =
     (case rs_error r of Some m \<Rightarrow> raiseM (HTTPError m (Some r)) | None \<Rightarrow> pureM ())"

text \<open>
  The \<open>_raise_for_status\<close> of \<open>utils/vcenter.py\<close> and \<open>utils/vmsp.py\<close>, which puts the
  body of the response into the message.
\<close>

definition raise_with_body :: "http_response \<Rightarrow> unit io" where
  "raise_with_body r =
     (if status_code r < 400 then pureM ()
      else
        let detail = (case rs_text r of Some t \<Rightarrow> t | None \<Rightarrow> ''<unreadable response body>'');
            meth = (case rs_method r of Some m \<Rightarrow> m | None \<Rightarrow> ''?'')
        in raiseM (HTTPError (int_str (status_code r) @ '' '' @ reason r @ '' for '' @ meth @ '' ''
             @ rs_url r @ '': '' @ detail) (Some r)))"

text \<open>\<open>resp.headers.get(name)\<close>: header names do not depend on case.\<close>

definition header_get :: "http_response \<Rightarrow> string \<Rightarrow> pyval" where
  "header_get r name =
     (case List.find (\<lambda>h. lower (fst h) = lower name) (rs_headers r) of Some h \<Rightarrow> snd h | None \<Rightarrow> PNone)"

definition response_json :: "http_response \<Rightarrow> pyval res" where
  "response_json r =
     (case json_value r of
        Some v \<Rightarrow> Ok v
      | None \<Rightarrow> Exc (JSONDecodeError ''Expecting value: line 1 column 1 (char 0)''))"

text \<open>\<open>if resp.content: return resp.json()\<close>, else \<open>return {}\<close>.\<close>

definition json_or_empty :: "http_response \<Rightarrow> pyval io" where
  "json_or_empty r = (if has_content r then liftR (response_json r) else pureM empty_dict)"

text \<open>
  \<open>isinstance(exc, HTTPError) and exc.response is not None and
  exc.response.status_code == n\<close>.
\<close>

definition http_status_is :: "exn \<Rightarrow> int \<Rightarrow> bool" where
  "http_status_is e n \<longleftrightarrow> (\<exists>r. exn_response e = Some r \<and> status_code r = n)"

lemma http_status_is_code [code]:
  "http_status_is e n = (case exn_response e of None \<Rightarrow> False | Some r \<Rightarrow> status_code r = n)"
  by (auto simp: http_status_is_def split: option.split)

lemma http_status_is_HTTPError: "http_status_is e n \<Longrightarrow> is_HTTPError e"
  by (cases e) (auto simp: http_status_is_def)

text \<open>The \<open>*_or_none\<close> functions: a 404 is answered with \<open>None\<close>.\<close>

definition none_if_missing :: "pyval io \<Rightarrow> pyval io" where
  "none_if_missing m = tryM m (\<lambda>exc. if http_status_is exc 404 then pureM PNone else raiseM exc)"

lemma none_if_missing_rules [spec_intros]:
  "returns m \<Longrightarrow> returns (none_if_missing m)"
  "keeps evolves m \<Longrightarrow> keeps evolves (none_if_missing m)"
  "keeps same_caches m \<Longrightarrow> keeps same_caches (none_if_missing m)"
  "keeps (sends_only P) m \<Longrightarrow> keeps (sends_only P) (none_if_missing m)"
  by (auto simp: none_if_missing_def intro!: spec_intros)

lemma none_if_missing_run:
  "m w = Some (Ok x, w') \<Longrightarrow> none_if_missing m w = Some (Ok x, w')"
  "m w = Some (Exc e, w') \<Longrightarrow> http_status_is e 404 \<Longrightarrow> none_if_missing m w = Some (Ok PNone, w')"
  "m w = Some (Exc e, w') \<Longrightarrow> \<not> http_status_is e 404 \<Longrightarrow> none_if_missing m w = Some (Exc e, w')"
  by (simp_all add: none_if_missing_def)

text \<open>
  The common shape of the \<open>api_*\<close> helpers: a session and its host, the request,
  \<open>raise_for_status\<close>.
\<close>

definition session_call ::
  "(session \<times> pyval) io \<Rightarrow> string \<Rightarrow> string \<Rightarrow> pyval \<Rightarrow> pyval \<Rightarrow> pyval \<Rightarrow> http_response io" where
  "session_call acquire meth path params body timeout =
     bindM acquire (\<lambda>(session, host).
     bindM (session_request session meth (https_url host path) params body timeout) (\<lambda>resp.
     bindM (raise_for_status resp) (\<lambda>_. pureM resp)))"

lemma session_send_rules [spec_intros]:
  "keeps (only_cache c) (session_send s m u p j h t)"
  "returns (session_send s m u p j h t)" "keeps evolves (session_send s m u p j h t)"
  "keeps same_caches (session_send s m u p j h t)" "keeps (touches_only c k) (session_send s m u p j h t)"
  "P (session_rq s m u p j h t) \<Longrightarrow> keeps (sends_only P) (session_send s m u p j h t)"
  by (auto simp: session_send_def intro!: spec_intros)

lemma returns_http [spec_intros]:
  "returns (session_request s m u p j t)" "returns (raise_for_status r)"
  "returns (raise_with_body r)" "returns (json_or_empty r)"
  by (auto simp: session_request_def raise_for_status_def raise_with_body_def json_or_empty_def Let_def
      intro!: spec_intros)

lemma evolves_http [spec_intros]:
  "keeps evolves (session_request s m u p j t)" "keeps evolves (raise_for_status r)"
  "keeps evolves (raise_with_body r)" "keeps evolves (json_or_empty r)"
  by (auto simp: session_request_def raise_for_status_def raise_with_body_def json_or_empty_def Let_def
      intro!: spec_intros)

lemma sends_only_http [spec_intros]:
  "P (session_rq s m u p j [] t) \<Longrightarrow> keeps (sends_only P) (session_request s m u p j t)"
  "keeps (sends_only P) (raise_for_status r)"
  "keeps (sends_only P) (raise_with_body r)" "keeps (sends_only P) (json_or_empty r)"
  by (auto simp: session_request_def raise_for_status_def raise_with_body_def json_or_empty_def Let_def
      intro!: spec_intros)

lemma same_caches_http [spec_intros]:
  "keeps same_caches (session_request s m u p j t)" "keeps same_caches (raise_for_status r)"
  "keeps same_caches (raise_with_body r)" "keeps same_caches (json_or_empty r)"
  by (auto simp: session_request_def raise_for_status_def raise_with_body_def json_or_empty_def Let_def
      intro!: spec_intros)

lemma only_cache_http [spec_intros]:
  "keeps (only_cache c) (session_request s m u p j t)" "keeps (only_cache c) (raise_for_status r)"
  "keeps (only_cache c) (raise_with_body r)" "keeps (only_cache c) (json_or_empty r)"
  by (auto intro: same_caches_only same_caches_http)

lemma session_call_rules [spec_intros]:
  "keeps (only_cache c) acquire \<Longrightarrow> keeps (only_cache c) (session_call acquire m path q b t)"
  "returns acquire \<Longrightarrow> returns (session_call acquire m path q b t)"
  "keeps evolves acquire \<Longrightarrow> keeps evolves (session_call acquire m path q b t)"
  by (auto simp: session_call_def intro!: spec_intros returns_http)

lemma touches_only_http [spec_intros]:
  "keeps (touches_only c k) (session_request s m u p j t)" "keeps (touches_only c k) (raise_for_status r)"
  "keeps (touches_only c k) (raise_with_body r)" "keeps (touches_only c k) (json_or_empty r)"
  by (auto simp: session_request_def raise_for_status_def raise_with_body_def json_or_empty_def Let_def
      intro!: spec_intros)

subsection \<open>The contract of the login caches\<close>

text \<open>
  Every helper keeps one login per target in a module-level dict. \<open>acquire\<close> hands out the
  token or session, logging in when the cache has no live entry; \<open>invalidate\<close> drops the entry.
  \<open>live\<close> is the expiry test, \<open>deliver\<close> what is handed out for an entry.
\<close>

locale timed_login_cache =
  fixes acquire :: "pyval \<Rightarrow> profile \<Rightarrow> 'a io"
    and invalidate :: "pyval \<Rightarrow> profile \<Rightarrow> unit io"
    and config :: "pyval \<Rightarrow> profile \<Rightarrow> 'c res"
    and cid :: cache_id
    and key :: "'c \<Rightarrow> string"
    and live :: "cached \<Rightarrow> world \<Rightarrow> bool"
    and deliver :: "'c \<Rightarrow> cached \<Rightarrow> 'a"
  assumes hit: "config opts p = Ok cfg \<Longrightarrow> cache_get cid (key cfg) w = Some c \<Longrightarrow> live c w \<Longrightarrow>
        acquire opts p w = Some (Ok (deliver cfg c), w) \<or> (\<exists>e. acquire opts p w = Some (Exc e, w))"
    and granted: "acquire opts p w = Some (Ok x, w') \<Longrightarrow>
        \<exists>cfg c. config opts p = Ok cfg \<and> cache_get cid (key cfg) w' = Some c \<and> x = deliver cfg c"
    and usable: "acquire opts p w = Some (Ok x, w') \<Longrightarrow> config opts p = Ok cfg \<Longrightarrow>
        cache_get cid (key cfg) w1 = Some c \<Longrightarrow> live c w1 \<Longrightarrow>
        acquire opts p w1 = Some (Ok (deliver cfg c), w1)"
    and refused: "acquire opts p w = Some (Exc e, w') \<Longrightarrow> config opts p = Ok cfg \<Longrightarrow>
        cache_get cid (key cfg) w' = cache_get cid (key cfg) w"
    and drop: "config opts p = Ok cfg \<Longrightarrow>
        invalidate opts p w = Some (Ok (), cache_upd cid (key cfg) None w)"
    and local: "config opts p = Ok cfg \<Longrightarrow> keeps (touches_only cid (key cfg)) (acquire opts p)"
    and advances: "keeps evolves (acquire opts p)"
    and total: "returns (acquire opts p)"
begin

text \<open>A login serves the next call: nothing is sent and the same thing is handed out.\<close>

lemma single_login:
  assumes "acquire opts p w = Some (Ok x, w')"
    and "\<And>cfg c. config opts p = Ok cfg \<Longrightarrow> cache_get cid (key cfg) w' = Some c \<Longrightarrow> live c w'"
  shows "acquire opts p w' = Some (Ok x, w')"
  using granted [OF assms(1)] usable [OF assms(1)] assms(2) by blast

text \<open>A login of one target leaves the entry of another alone.\<close>

lemma other_target_kept:
  assumes "acquire opts p w = Some (r, w')" "config opts p = Ok cfg" "k \<noteq> key cfg"
  shows "cache_get cid k w' = cache_get cid k w"
  using keepsD [OF local [OF assms(2)] assms(1)] assms(3) by (simp add: touches_only_def)

text \<open>After \<open>invalidate\<close> the entry is gone and no request was sent.\<close>

lemma invalidated:
  assumes "config opts p = Ok cfg" "invalidate opts p w = Some (r, w')"
  shows "r = Ok () \<and> cache_get cid (key cfg) w' = None \<and> sent w' = sent w"
  using assms drop [OF assms(1), of w] by auto

end

text \<open>Entries that never expire.\<close>

locale login_cache = timed_login_cache +
  assumes always_live: "live c w"
begin

lemma login_once:
  "acquire opts p w = Some (Ok x, w') \<Longrightarrow> acquire opts p w' = Some (Ok x, w')"
  using single_login always_live by blast

end

subsection \<open>The logins that follow the contract\<close>

text \<open>
  The shape shared by \<open>get_token\<close>, \<open>get_tokens\<close> and \<open>_session\<close> of the helpers:
  \<open>if cache_key in CACHE: return CACHE[cache_key]\<close>, else acquire an entry, store it and hand it
  out; and by the \<open>invalidate_*\<close> functions. A failed login stores nothing.
\<close>

fun token_of :: "cached \<Rightarrow> pyval" where
  "token_of (CToken t) = t"
| "token_of _ = PNone"

fun session_of :: "cached \<Rightarrow> session" where
  "session_of (CSession s) = s"
| "session_of _ = new_session"

definition cached_login ::
  "(pyval \<Rightarrow> profile \<Rightarrow> 'c res) \<Rightarrow> cache_id \<Rightarrow> ('c \<Rightarrow> string) \<Rightarrow> ('c \<Rightarrow> cached io) \<Rightarrow>
     ('c \<Rightarrow> cached \<Rightarrow> 'a) \<Rightarrow> pyval \<Rightarrow> profile \<Rightarrow> 'a io" where
  "cached_login config cid key acquire deliver opts profile =
     bindM (liftR (config opts profile)) (\<lambda>cfg.
     bindM (cache_lookup cid (key cfg)) (\<lambda>hit.
     case hit of
       Some c \<Rightarrow> pureM (deliver cfg c)
     | None \<Rightarrow>
         bindM (acquire cfg) (\<lambda>c.
         bindM (cache_store cid (key cfg) c) (\<lambda>_. pureM (deliver cfg c)))))"

definition drop_login ::
  "(pyval \<Rightarrow> profile \<Rightarrow> 'c res) \<Rightarrow> cache_id \<Rightarrow> ('c \<Rightarrow> string) \<Rightarrow> pyval \<Rightarrow> profile \<Rightarrow> unit io" where
  "drop_login config cid key opts profile =
     bindM (liftR (config opts profile)) (\<lambda>cfg. cache_pop cid (key cfg))"

text \<open>\<open>acquire\<close> of a plain token.\<close>

definition as_token :: "('c \<Rightarrow> pyval io) \<Rightarrow> 'c \<Rightarrow> cached io" where
  "as_token acquire cfg = bindM (acquire cfg) (\<lambda>t. pureM (CToken t))"

text \<open>What the login itself has to satisfy for the contract to hold.\<close>

locale cacheless =
  fixes login :: "'c \<Rightarrow> 'a io"
  assumes login_returns: "returns (login cfg)"
    and login_evolves: "keeps evolves (login cfg)"
    and login_caches: "keeps same_caches (login cfg)"
begin

lemma login_rules: "returns (login cfg)" "keeps evolves (login cfg)" "keeps (touches_only c k) (login cfg)"
  by (rule login_returns login_evolves same_caches_touches [OF login_caches])+

end

lemma cacheless_as_token: "cacheless acquire \<Longrightarrow> cacheless (as_token acquire)"
  unfolding cacheless_def as_token_def by (auto intro!: spec_intros)

lemma cached_login_contract:
  assumes "cacheless acquire"
  shows "login_cache (cached_login config cid key acquire deliver) (drop_login config cid key)
    config cid key (\<lambda>_ _. True) deliver"
proof unfold_locales
  let ?get = "cached_login config cid key acquire deliver"
  note rules = cacheless.login_rules [OF assms]
  have hit: "?get opts p w = Some (Ok (deliver cfg c), w)"
    if "config opts p = Ok cfg" "cache_get cid (key cfg) w = Some c" for opts p w cfg c
    using that by (simp add: cached_login_def)
  then show "?get opts p w = Some (Ok (deliver cfg c), w) \<or> (\<exists>e. ?get opts p w = Some (Exc e, w))"
    if "config opts p = Ok cfg" "cache_get cid (key cfg) w = Some c" for opts p w cfg c
    using that by blast
  show "?get opts p w1 = Some (Ok (deliver cfg c), w1)"
    if "config opts p = Ok cfg" "cache_get cid (key cfg) w1 = Some c" for opts p w1 cfg c
    using that by (rule hit)
  show "\<exists>cfg c. config opts p = Ok cfg \<and> cache_get cid (key cfg) w' = Some c \<and> x = deliver cfg c"
    if "?get opts p w = Some (Ok x, w')" for opts p w x w'
    using that by (auto simp: cached_login_def bindM_Some_iff split: option.splits)
  show "cache_get cid (key cfg) w' = cache_get cid (key cfg) w"
    if "?get opts p w = Some (Exc e, w')" "config opts p = Ok cfg" for opts p w e w' cfg
    using that keepsD [OF cacheless.login_caches [OF assms], THEN same_caches_get]
    by (auto simp: cached_login_def bindM_Some_iff split: option.splits)
  show "keeps (touches_only cid (key cfg)) (?get opts p)" if "config opts p = Ok cfg" for opts p cfg
    using that unfolding cached_login_def
    by (simp only: bindM_laws) (auto intro!: spec_intros rules simp del: run_simps)
  show "keeps evolves (?get opts p)" "returns (?get opts p)" for opts p
    by (auto simp: cached_login_def intro!: spec_intros rules)
  show "drop_login config cid key opts p w = Some (Ok (), cache_upd cid (key cfg) None w)"
    if "config opts p = Ok cfg" for opts p cfg w
    using that by (simp add: drop_login_def)
qed simp_all

lemma cached_login_sends [spec_intros]:
  "(\<And>cfg. config opts p = Ok cfg \<Longrightarrow> keeps (sends_only P) (acquire cfg)) \<Longrightarrow>
     keeps (sends_only P) (cached_login config cid key acquire deliver opts p)"
  unfolding cached_login_def
  by (cases "config opts p") (simp_all only: bindM_laws, auto intro!: spec_intros simp del: run_simps)

lemma cached_login_only:
  "cacheless acquire \<Longrightarrow> keeps (only_cache cid) (cached_login config cid key acquire deliver opts p)"
  unfolding cached_login_def
  by (intro spec_intros) (rule same_caches_only [OF cacheless.login_caches])

lemma as_token_sends [spec_intros]:
  "keeps (sends_only P) (acquire cfg) \<Longrightarrow> keeps (sends_only P) (as_token acquire cfg)"
  by (auto simp: as_token_def intro!: spec_intros)

lemma drop_login_rules [spec_intros]:
  "returns (drop_login config cid key opts p)" "keeps evolves (drop_login config cid key opts p)"
  "keeps (sends_only P) (drop_login config cid key opts p)"
  "keeps (only_cache cid) (drop_login config cid key opts p)"
  by (auto simp: drop_login_def intro!: spec_intros)

text \<open>After \<open>invalidate\<close> the next call logs in again, with exactly the requests of a login.\<close>

lemma cached_login_miss:
  "config opts p = Ok cfg \<Longrightarrow> cache_get cid (key cfg) w = None \<Longrightarrow>
     cached_login config cid key acquire deliver opts p w =
       bindM (acquire cfg) (\<lambda>c. bindM (cache_store cid (key cfg) c) (\<lambda>_. pureM (deliver cfg c))) w"
  by (simp add: cached_login_def)

lemma cached_login_hit:
  "config opts p = Ok cfg \<Longrightarrow> cache_get cid (key cfg) w = Some c \<Longrightarrow>
     cached_login config cid key acquire deliver opts p w = Some (Ok (deliver cfg c), w)"
  by (simp add: cached_login_def)

text \<open>
  A login that posts the credentials, raises on an HTTP error and takes the token out of the
  parsed body.
\<close>

definition token_request :: "request \<Rightarrow> (pyval \<Rightarrow> pyval res) \<Rightarrow> pyval io" where
  "token_request rq extract =
     bindM (http_send rq) (\<lambda>resp.
     bindM (raise_for_status resp) (\<lambda>_.
     bindM (liftR (response_json resp)) (\<lambda>body. liftR (extract body))))"

lemma token_request_rules [spec_intros]:
  "returns (token_request rq f)" "keeps evolves (token_request rq f)"
  "keeps same_caches (token_request rq f)" "P rq \<Longrightarrow> keeps (sends_only P) (token_request rq f)"
  by (auto simp: token_request_def intro!: spec_intros)

lemma cacheless_token_request: "cacheless (\<lambda>cfg. token_request (rq cfg) (f cfg))"
  by unfold_locales (rule token_request_rules)+

text \<open>\<open>{"username": cfg["username"], "password": cfg["password"]}\<close>, and \<open>(user, password)\<close> of basic
  authentication.\<close>

definition credentials :: "('a conn_config_scheme) \<Rightarrow> pyval" where
  "credentials cfg = PDict [(''username'', cfg_username cfg), (''password'', cfg_password cfg)]"

definition basic_auth :: "('a conn_config_scheme) \<Rightarrow> pyval" where
  "basic_auth cfg = PList [cfg_username cfg, cfg_password cfg]"

text \<open>A fresh session with its TLS check and headers.\<close>

definition session_with :: "pyval \<Rightarrow> dict \<Rightarrow> session" where
  "session_with verify headers = new_session\<lparr>s_verify := verify, s_headers := headers\<rparr>"

text \<open>The requests that carry the token of a session, unlike those of a login.\<close>

definition authorized :: "request \<Rightarrow> bool" where
  "authorized rq \<longleftrightarrow> map_of (rq_headers rq) ''Authorization'' \<noteq> None"

lemma authorized_plain [simp]: "\<not> authorized (plain_request m u j d [] a v t)"
  by (simp add: authorized_def plain_request_def)

lemma map_of_dset_some: "map_of d k \<noteq> None \<Longrightarrow> map_of (dset d k' v) k \<noteq> None"
  by simp

lemma map_of_dupdate_some: "map_of d k \<noteq> None \<Longrightarrow> map_of (dupdate d e) k \<noteq> None"
proof (induction d e rule: dupdate.induct)
  case (2 d k' v e)
  from 2(1) [OF map_of_dset_some [OF 2(2)]] show ?case by simp
qed simp

lemma authorized_session [simp]:
  "map_of (s_headers s) ''Authorization'' \<noteq> None \<Longrightarrow> authorized (session_rq s m u q j hs t)"
  unfolding authorized_def session_rq_def by (simp add: map_of_dupdate_some)

text \<open>
  A request with a session object that a cache holds: the cookies it picks up are seen through the
  cache, as both are the same object.
\<close>

definition shared_request ::
  "cache_id \<Rightarrow> string \<Rightarrow> session \<Rightarrow> string \<Rightarrow> string \<Rightarrow> pyval \<Rightarrow> pyval \<Rightarrow> pyval \<Rightarrow> http_response io" where
  "shared_request cid key session meth url params body timeout =
     bindM (session_send session meth url params body [] timeout) (\<lambda>(resp, session').
     bindM (cache_store cid key (CSession session')) (\<lambda>_. pureM resp))"

lemma shared_request_rules [spec_intros]:
  "returns (shared_request cid k s m u q b t)" "keeps evolves (shared_request cid k s m u q b t)"
  "keeps (touches_only cid k) (shared_request cid k s m u q b t)"
  "keeps (only_cache cid) (shared_request cid k s m u q b t)"
  "P (session_rq s m u q b [] t) \<Longrightarrow> keeps (sends_only P) (shared_request cid k s m u q b t)"
  by (auto simp: shared_request_def intro!: spec_intros)

text \<open>\<open>json_or_empty\<close> where the code also takes a body that is not JSON for \<open>{}\<close>.\<close>

definition json_tolerant :: "http_response \<Rightarrow> pyval io" where
  "json_tolerant r =
     (if has_content r then
        (case response_json r of
           Ok v \<Rightarrow> pureM v
         | Exc e \<Rightarrow> if is_ValueError e then pureM empty_dict else raiseM e)
      else pureM empty_dict)"

lemma json_tolerant_rules [spec_intros]:
  "returns (json_tolerant r)" "keeps evolves (json_tolerant r)" "keeps (sends_only P) (json_tolerant r)"
  "keeps same_caches (json_tolerant r)" "keeps (only_cache c) (json_tolerant r)"
  by (auto simp: json_tolerant_def intro!: spec_intros)

subsection \<open>What was sent\<close>

lemma http_send_sent: "http_send rq w = Some (r, w') \<Longrightarrow> sent w' = sent w @ [rq]"
  by (auto simp: http_send_def Let_def split: net_reply.splits)

lemma raise_for_status_Ok: "raise_for_status r w = Some (Ok u, w') \<Longrightarrow> w' = w"
  by (auto simp: raise_for_status_def split: option.splits)

lemma json_or_empty_Ok: "json_or_empty r w = Some (x, w') \<Longrightarrow> w' = w"
  by (auto simp: json_or_empty_def split: if_splits)

lemma token_request_sent: "token_request rq f w = Some (Ok t, w') \<Longrightarrow> sent w' = sent w @ [rq]"
  by (auto simp: token_request_def bindM_Some_iff dest: http_send_sent raise_for_status_Ok)

lemma session_send_sent:
  "session_send s m u q b hs t w = Some (Ok x, w') \<Longrightarrow> sent w' = sent w @ [session_rq s m u q b hs t]"
  by (auto simp: session_send_def bindM_Some_iff dest: http_send_sent)

lemma shared_request_sent:
  "shared_request cid k s m u q b t w = Some (Ok x, w') \<Longrightarrow> sent w' = sent w @ [session_rq s m u q b [] t]"
  by (auto simp: shared_request_def bindM_Some_iff dest!: session_send_sent)

lemma cached_login_missE:
  assumes "cached_login config cid key acquire deliver opts p w = Some (Ok x, w')"
    and "config opts p = Ok cfg" "cache_get cid (key cfg) w = None"
  obtains c w1 where "acquire cfg w = Some (Ok c, w1)" "w' = cache_upd cid (key cfg) (Some c) w1"
    "x = deliver cfg c"
  using assms by (auto simp: cached_login_def bindM_Some_iff)

lemma at_most_session:
  "at_most P 1 (session_send s m u q b hs t)" "at_most P 1 (session_request s m u q b t)"
  "at_most P 1 (shared_request cid k s m u q b t)"
  unfolding session_send_def session_request_def shared_request_def
  by (intro at_most_before at_most_send at_most_cases; auto intro!: at_most_none spec_intros)+

lemma at_most_response:
  "at_most P 0 (bindM (raise_for_status r) (\<lambda>_. pureM r))"
  "at_most P 0 (bindM (raise_for_status r) (\<lambda>_. json_or_empty r))"
  by (auto intro!: at_most_none spec_intros)

end
