(* ===== verification/Scenario.thy ===== *)
theory Scenario
  imports Connection
begin

section \<open>Scenario: concrete worlds for the witnesses\<close>

text \<open>
  A scripted environment answers the n-th request with the n-th reply of a list. The witnesses
  of the properties run the programs in such worlds.
\<close>

definition script_net :: "net_reply list \<Rightarrow> int \<Rightarrow> request list \<Rightarrow> net_reply" where
  "script_net rs t h =
     (if h \<noteq> [] \<and> length h \<le> length rs then rs ! (length h - 1) else NetFail 1 ''end of script'')"

definition scripted :: "net_reply list \<Rightarrow> world" where
  "scripted rs = \<lparr>net = script_net rs, sent = [], clock = 0, caches = (\<lambda>_ _. None)\<rparr>"

definition status_message :: "int \<Rightarrow> string option" where
  "status_message code =
     (if 400 \<le> code \<and> code < 500 then Some (int_str code @ '' Client Error: status for url: url'')
      else if 500 \<le> code \<and> code < 600 then Some (int_str code @ '' Server Error: status for url: url'')
      else None)"

definition json_response :: "int \<Rightarrow> pyval \<Rightarrow> http_response" where
  "json_response code v =
     \<lparr>status_code = code, reason = ''status'', rs_error = status_message code, rs_url = ''url'', rs_method = None,
      rs_text = Some ''text'', has_content = True, json_value = Some v, rs_headers = [], rs_cookies = []\<rparr>"

text \<open>A response without a body, whose text is \<open>t\<close>.\<close>

definition text_response :: "int \<Rightarrow> string \<Rightarrow> http_response" where
  "text_response code t =
     \<lparr>status_code = code, reason = ''status'', rs_error = status_message code, rs_url = ''url'', rs_method = None,
      rs_text = Some t, has_content = (t \<noteq> []), json_value = None, rs_headers = [], rs_cookies = []\<rparr>"

definition replies :: "http_response \<Rightarrow> net_reply" where
  "replies r = Reply 5 r"

lemma responses_documented [simp]:
  "documented_response (json_response code v)" "documented_response (text_response code t)"
  by (auto simp: documented_response_def json_response_def text_response_def status_message_def)

text \<open>\<open>__opts__\<close> with one product configured in pillar.\<close>

definition section_of :: "string \<Rightarrow> pyval" where
  "section_of h = PDict [(''host'', PStr h), (''username'', PStr ''u''), (''password'', PStr ''p'')]"

definition opts_for :: "string \<Rightarrow> pyval" where
  "opts_for product = PDict [(''pillar'', PDict [(''saltext.vcf'', PDict [(product, section_of ''h'')])])]"

definition opts_test_for :: "string \<Rightarrow> pyval" where
  "opts_test_for product =
     PDict [(''pillar'', PDict [(''saltext.vcf'', PDict [(product, section_of ''h'')])]),
            (''test'', PBool True)]"

text \<open>The same with \<open>__opts__["test"]\<close> off.\<close>

definition opts_run_for :: "string \<Rightarrow> pyval" where
  "opts_run_for product =
     PDict [(''pillar'', PDict [(''saltext.vcf'', PDict [(product, section_of ''h'')])]),
            (''test'', PBool False)]"

lemmas scenario_simps [eval_simps] = status_message_def script_net_def scripted_def json_response_def text_response_def
  replies_def section_of_def opts_for_def opts_test_for_def opts_run_for_def

lemmas connection_simps [eval_simps] = config_root_def product_section_def has_profile_def get_or_def
  base_config_def host_user_key_def https_url_def plain_request_def session_rq_def session_request_def
  new_session_def raise_for_status_def raise_with_body_def response_json_def json_or_empty_def
  http_status_is_def http_send_def cache_get_def cache_upd_def deadline_after_def py_sleep_def
  secs_def conn_config.defs cookie_header_def

lemmas monad_simps [eval_simps] = bindM_def tryM_def pureM_def raiseM_def liftR_def monotonic_def sleep_def
  cache_lookup_def cache_store_def cache_pop_def Let_def

text \<open>A scripted world in which every answer takes some time.\<close>

definition reply_delay :: "net_reply \<Rightarrow> nat" where
  "reply_delay r = (case r of Reply d _ \<Rightarrow> d | NetFail d _ \<Rightarrow> d)"

lemma takes_time_scripted: "(\<forall>r \<in> set rs. 0 < reply_delay r) \<Longrightarrow> takes_time (scripted rs)"
proof -
  assume pos: "\<forall>r \<in> set rs. 0 < reply_delay r"
  have delay: "0 < reply_delay (script_net rs t h)" for t h
    using pos nth_mem [of "length h - 1" rs] by (cases h) (auto simp: script_net_def reply_delay_def)
  have "case script_net rs t h of Reply d _ \<Rightarrow> 0 < d | NetFail d _ \<Rightarrow> 0 < d" for t h
    using delay [of t h] by (cases "script_net rs t h") (simp_all add: reply_delay_def)
  then show ?thesis by (simp add: takes_time_def scripted_def)
qed

text \<open>A run whose result was evaluated, in the form the properties take it.\<close>

lemma run_result: "map_option fst x = Some r \<Longrightarrow> x = Some (r, snd (the x))"
  by (cases x) auto

text \<open>The vCenter scenarios all begin with a login.\<close>

definition login_reply :: net_reply where
  "login_reply = replies (json_response 201 (PStr ''tok''))"

definition status_reply :: "string \<Rightarrow> net_reply" where
  "status_reply s = replies (json_response 200 (PDict [(''status'', PStr s)]))"

definition code_reply :: "int \<Rightarrow> net_reply" where
  "code_reply n = replies (text_response n ''error'')"

definition body_reply :: "pyval \<Rightarrow> net_reply" where
  "body_reply v = replies (json_response 200 v)"

end
