(* ===== verification/Nsx.thy ===== *)
theory Nsx
  imports Scenario
begin

section \<open>Nsx: \<open>utils/nsx.py\<close>\<close>

text \<open>
  The NSX Policy API helper. Every request carries HTTP Basic credentials in a session of its own;
  there is no cache.
\<close>

definition nsx_get_config :: "pyval \<Rightarrow> profile \<Rightarrow> conn_config res" where
  "nsx_get_config opts profile = bindR (product_section ''nsx'' opts profile) base_config"

definition nsx_session :: "pyval \<Rightarrow> profile \<Rightarrow> (session \<times> pyval) io" where
  "nsx_session opts profile =
     bindM (liftR (nsx_get_config opts profile)) (\<lambda>cfg.
     pureM (new_session\<lparr>s_verify := cfg_verify_ssl cfg, s_auth := basic_auth cfg\<rparr>, cfg_host cfg))"

definition nsx_api_get :: "pyval \<Rightarrow> string \<Rightarrow> pyval \<Rightarrow> profile \<Rightarrow> pyval io" where
  "nsx_api_get opts path params profile =
     bindM (session_call (nsx_session opts profile) ''GET'' path params PNone (PInt 30)) json_or_empty"

definition nsx_api_post :: "pyval \<Rightarrow> string \<Rightarrow> pyval \<Rightarrow> pyval \<Rightarrow> profile \<Rightarrow> pyval io" where
  "nsx_api_post opts path body params profile =
     bindM (session_call (nsx_session opts profile) ''POST'' path params body (PInt 30)) json_or_empty"

definition nsx_api_put :: "pyval \<Rightarrow> string \<Rightarrow> pyval \<Rightarrow> pyval \<Rightarrow> profile \<Rightarrow> pyval io" where
  "nsx_api_put opts path body params profile =
     bindM (session_call (nsx_session opts profile) ''PUT'' path params body (PInt 30)) json_or_empty"

definition nsx_api_patch :: "pyval \<Rightarrow> string \<Rightarrow> pyval \<Rightarrow> pyval \<Rightarrow> profile \<Rightarrow> pyval io" where
  "nsx_api_patch opts path body params profile =
     bindM (session_call (nsx_session opts profile) ''PATCH'' path params body (PInt 30)) json_or_empty"

definition nsx_api_delete :: "pyval \<Rightarrow> string \<Rightarrow> pyval \<Rightarrow> profile \<Rightarrow> pyval io" where
  "nsx_api_delete opts path params profile =
     bindM (session_call (nsx_session opts profile) ''DELETE'' path params PNone (PInt 30)) (\<lambda>_. pureM empty_dict)"

lemmas nsx_api_defs = nsx_api_get_def nsx_api_post_def nsx_api_put_def nsx_api_patch_def nsx_api_delete_def

lemma nsx_session_rules [spec_intros]:
  "returns (nsx_session opts p)" "keeps evolves (nsx_session opts p)"
  "keeps same_caches (nsx_session opts p)" "keeps (sends_only P) (nsx_session opts p)"
  by (auto simp: nsx_session_def intro!: spec_intros)

lemma nsx_api_returns [spec_intros]:
  "returns (nsx_api_get opts path q p)" "returns (nsx_api_post opts path b q p)"
  "returns (nsx_api_put opts path b q p)" "returns (nsx_api_patch opts path b q p)"
  "returns (nsx_api_delete opts path q p)"
  by (auto simp: nsx_api_defs intro!: spec_intros)

lemma nsx_api_evolves [spec_intros]:
  "keeps evolves (nsx_api_get opts path q p)" "keeps evolves (nsx_api_post opts path b q p)"
  "keeps evolves (nsx_api_put opts path b q p)" "keeps evolves (nsx_api_patch opts path b q p)"
  "keeps evolves (nsx_api_delete opts path q p)"
  by (auto simp: nsx_api_defs intro!: spec_intros)

text \<open>A call is one request: the credentials go with it, and no cache changes.\<close>

lemma nsx_call_requests:
  assumes "nsx_get_config opts p = Ok cfg"
    and "bindM (session_call (nsx_session opts p) m path q b t) k w = Some (r, w')"
    and "\<And>resp w1 r1 w2. k resp w1 = Some (r1, w2) \<Longrightarrow> sent w2 = sent w1 \<and> caches w2 = caches w1"
  shows "\<exists>rq. sent w' = sent w @ [rq] \<and> rq_method rq = m \<and> rq_url rq = https_url (cfg_host cfg) path \<and>
    rq_auth rq = basic_auth cfg \<and> caches w' = caches w"
  using assms
  by (auto simp: session_call_def nsx_session_def bindM_Some_iff session_request_def http_send_def
      raise_for_status_def session_rq_def Let_def dest!: assms(3) split: net_reply.splits option.splits if_splits)

end
