(* ===== verification/Sddc.thy ===== *)
theory Sddc
  imports Scenario
begin

section \<open>Sddc: \<open>utils/sddc.py\<close>\<close>

text \<open>
  The SDDC Manager helper: a Bearer token per host and user, cached in \<open>_TOKEN_CACHE\<close>
  (\<open>Sddc_Cache\<close>), and the \<open>api_*\<close> calls. A token is kept until \<open>invalidate_token\<close>.
\<close>

definition sddc_get_config :: "pyval \<Rightarrow> profile \<Rightarrow> conn_config res" where
  "sddc_get_config opts profile = bindR (product_section ''sddc_manager'' opts profile) base_config"

record ssh_config =
  ssh_host :: pyval
  ssh_username :: pyval
  ssh_password :: pyval
  ssh_port :: pyval

definition sddc_get_ssh_config :: "pyval \<Rightarrow> profile \<Rightarrow> ssh_config res" where
  "sddc_get_ssh_config opts profile =
     bindR (product_section ''sddc_manager'' opts profile) (\<lambda>cfg.
     bindR (py_get cfg ''ssh'' empty_dict) (\<lambda>v.
     let ssh = py_or v empty_dict in
     bindR (py_get ssh ''host'' PNone) (\<lambda>h.
     bindR (if truthy h then Ok h else get_or cfg ''host'' ''hostname'') (\<lambda>host.
     bindR (get_or ssh ''username'' ''user'') (\<lambda>username.
     bindR (py_get ssh ''password'' PNone) (\<lambda>password.
     bindR (py_get ssh ''port'' (PInt 22)) (\<lambda>port.
     Ok \<lparr>ssh_host = host, ssh_username = username, ssh_password = password, ssh_port = port\<rparr>)))))))"

definition sddc_acquire_token :: "conn_config \<Rightarrow> pyval io" where
  "sddc_acquire_token cfg =
     token_request (plain_request ''POST'' (https_url (cfg_host cfg) ''/v1/tokens'') (credentials cfg) PNone []
         PNone (cfg_verify_ssl cfg) (PInt 30))
       (\<lambda>body. py_item body ''accessToken'')"

definition sddc_get_token :: "pyval \<Rightarrow> profile \<Rightarrow> pyval io" where
  "sddc_get_token =
     cached_login sddc_get_config Sddc_Cache host_user_key (as_token sddc_acquire_token) (\<lambda>_. token_of)"

definition sddc_invalidate_token :: "pyval \<Rightarrow> profile \<Rightarrow> unit io" where
  "sddc_invalidate_token = drop_login sddc_get_config Sddc_Cache host_user_key"

definition sddc_session :: "pyval \<Rightarrow> profile \<Rightarrow> (session \<times> pyval) io" where
  "sddc_session opts profile =
     bindM (liftR (sddc_get_config opts profile)) (\<lambda>cfg.
     bindM (sddc_get_token opts profile) (\<lambda>token.
     pureM (session_with (cfg_verify_ssl cfg) [(''Authorization'', PStr (''Bearer '' @ py_str token))],
       cfg_host cfg)))"

definition sddc_api_get :: "pyval \<Rightarrow> string \<Rightarrow> pyval \<Rightarrow> profile \<Rightarrow> pyval io" where
  "sddc_api_get opts path params profile =
     bindM (session_call (sddc_session opts profile) ''GET'' path params PNone (PInt 30)) json_or_empty"

definition sddc_api_post :: "pyval \<Rightarrow> string \<Rightarrow> pyval \<Rightarrow> profile \<Rightarrow> pyval io" where
  "sddc_api_post opts path body profile =
     bindM (session_call (sddc_session opts profile) ''POST'' path PNone body (PInt 30)) json_or_empty"

definition sddc_api_patch :: "pyval \<Rightarrow> string \<Rightarrow> pyval \<Rightarrow> profile \<Rightarrow> pyval io" where
  "sddc_api_patch opts path body profile =
     bindM (session_call (sddc_session opts profile) ''PATCH'' path PNone body (PInt 30)) json_or_empty"

definition sddc_api_put :: "pyval \<Rightarrow> string \<Rightarrow> pyval \<Rightarrow> profile \<Rightarrow> pyval io" where
  "sddc_api_put opts path body profile =
     bindM (session_call (sddc_session opts profile) ''PUT'' path PNone body (PInt 30)) json_or_empty"

definition sddc_api_delete :: "pyval \<Rightarrow> string \<Rightarrow> profile \<Rightarrow> pyval io" where
  "sddc_api_delete opts path profile =
     bindM (session_call (sddc_session opts profile) ''DELETE'' path PNone PNone (PInt 30)) (\<lambda>_. pureM empty_dict)"

lemmas sddc_api_defs = sddc_api_get_def sddc_api_post_def sddc_api_patch_def sddc_api_put_def sddc_api_delete_def

lemma sddc_acquire_cacheless: "cacheless sddc_acquire_token"
  unfolding sddc_acquire_token_def by (rule cacheless_token_request)

interpretation sddc: login_cache sddc_get_token sddc_invalidate_token sddc_get_config Sddc_Cache host_user_key
  "\<lambda>_ _. True" "\<lambda>_. token_of"
  unfolding sddc_get_token_def sddc_invalidate_token_def
  by (rule cached_login_contract [OF cacheless_as_token [OF sddc_acquire_cacheless]])

lemma sddc_session_rules [spec_intros]:
  "returns (sddc_session opts p)" "keeps evolves (sddc_session opts p)"
  by (auto simp: sddc_session_def intro!: spec_intros sddc.total sddc.advances)

lemma sddc_api_returns [spec_intros]:
  "returns (sddc_api_get opts path q p)" "returns (sddc_api_post opts path b p)"
  "returns (sddc_api_patch opts path b p)" "returns (sddc_api_put opts path b p)"
  "returns (sddc_api_delete opts path p)"
  by (auto simp: sddc_api_defs intro!: spec_intros)

lemma sddc_api_evolves [spec_intros]:
  "keeps evolves (sddc_api_get opts path q p)" "keeps evolves (sddc_api_post opts path b p)"
  "keeps evolves (sddc_api_patch opts path b p)" "keeps evolves (sddc_api_put opts path b p)"
  "keeps evolves (sddc_api_delete opts path p)"
  by (auto simp: sddc_api_defs intro!: spec_intros)

text \<open>A call changes only the cache of this helper.\<close>

lemma sddc_session_only [spec_intros]: "keeps (only_cache Sddc_Cache) (sddc_session opts p)"
  using cached_login_only [OF cacheless_as_token [OF sddc_acquire_cacheless]]
  by (auto simp: sddc_session_def sddc_get_token_def intro!: spec_intros)

end
