(* ===== verification/Vcfops.thy ===== *)
theory Vcfops
  imports Scenario
begin

section \<open>Vcfops: \<open>utils/vcfops.py\<close>\<close>

text \<open>
  The VCF Operations helper: a token per host and user from the suite-api, cached in
  \<open>_TOKEN_CACHE\<close> (\<open>Vcfops_Cache\<close>), and the \<open>api_*\<close> calls.
\<close>

record vcfops_config = conn_config +
  auth_source :: pyval

definition vcfops_get_config :: "pyval \<Rightarrow> profile \<Rightarrow> vcfops_config res" where
  "vcfops_get_config opts profile =
     bindR (product_section ''vcf_ops'' opts profile) (\<lambda>cfg.
     bindR (base_config cfg) (\<lambda>base.
     bindR (py_get cfg ''auth_source'' (PStr ''LOCAL'')) (\<lambda>source.
     Ok (conn_config.extend base \<lparr>auth_source = source\<rparr>))))"

definition vcfops_acquire_token :: "vcfops_config \<Rightarrow> pyval io" where
  "vcfops_acquire_token cfg =
     token_request (plain_request ''POST'' (https_url (cfg_host cfg) ''/suite-api/api/auth/token/acquire'')
         (PDict [(''username'', cfg_username cfg), (''password'', cfg_password cfg),
                 (''authSource'', auth_source cfg)])
         PNone [] PNone (cfg_verify_ssl cfg) (PInt 30))
       (\<lambda>body. py_item body ''token'')"

definition vcfops_get_token :: "pyval \<Rightarrow> profile \<Rightarrow> pyval io" where
  "vcfops_get_token =
     cached_login vcfops_get_config Vcfops_Cache host_user_key (as_token vcfops_acquire_token) (\<lambda>_. token_of)"

definition vcfops_invalidate_token :: "pyval \<Rightarrow> profile \<Rightarrow> unit io" where
  "vcfops_invalidate_token = drop_login vcfops_get_config Vcfops_Cache host_user_key"

definition vcfops_session :: "pyval \<Rightarrow> profile \<Rightarrow> (session \<times> pyval) io" where
  "vcfops_session opts profile =
     bindM (liftR (vcfops_get_config opts profile)) (\<lambda>cfg.
     bindM (vcfops_get_token opts profile) (\<lambda>token.
     pureM (session_with (cfg_verify_ssl cfg)
         [(''Authorization'', PStr (''vRealizeOpsToken '' @ py_str token)), (''Accept'', PStr ''application/json'')],
       cfg_host cfg)))"

definition vcfops_api_get :: "pyval \<Rightarrow> string \<Rightarrow> pyval \<Rightarrow> profile \<Rightarrow> pyval io" where
  "vcfops_api_get opts path params profile =
     bindM (session_call (vcfops_session opts profile) ''GET'' path params PNone (PInt 30)) json_or_empty"

definition vcfops_api_post :: "pyval \<Rightarrow> string \<Rightarrow> pyval \<Rightarrow> pyval \<Rightarrow> profile \<Rightarrow> pyval io" where
  "vcfops_api_post opts path body params profile =
     bindM (session_call (vcfops_session opts profile) ''POST'' path params body (PInt 30)) json_or_empty"

definition vcfops_api_patch :: "pyval \<Rightarrow> string \<Rightarrow> pyval \<Rightarrow> profile \<Rightarrow> pyval io" where
  "vcfops_api_patch opts path body profile =
     bindM (session_call (vcfops_session opts profile) ''PATCH'' path PNone body (PInt 30)) json_or_empty"

definition vcfops_api_put :: "pyval \<Rightarrow> string \<Rightarrow> pyval \<Rightarrow> profile \<Rightarrow> pyval io" where
  "vcfops_api_put opts path body profile =
     bindM (session_call (vcfops_session opts profile) ''PUT'' path PNone body (PInt 30)) json_or_empty"

definition vcfops_api_delete :: "pyval \<Rightarrow> string \<Rightarrow> pyval \<Rightarrow> profile \<Rightarrow> pyval io" where
  "vcfops_api_delete opts path params profile =
     bindM (session_call (vcfops_session opts profile) ''DELETE'' path params PNone (PInt 30)) (\<lambda>_. pureM empty_dict)"

lemmas vcfops_api_defs = vcfops_api_get_def vcfops_api_post_def vcfops_api_patch_def vcfops_api_put_def
  vcfops_api_delete_def

lemma vcfops_acquire_cacheless: "cacheless vcfops_acquire_token"
  unfolding vcfops_acquire_token_def by (rule cacheless_token_request)

interpretation vcfops: login_cache vcfops_get_token vcfops_invalidate_token vcfops_get_config Vcfops_Cache
  host_user_key "\<lambda>_ _. True" "\<lambda>_. token_of"
  unfolding vcfops_get_token_def vcfops_invalidate_token_def
  by (rule cached_login_contract [OF cacheless_as_token [OF vcfops_acquire_cacheless]])

lemma vcfops_session_rules [spec_intros]:
  "returns (vcfops_session opts p)" "keeps evolves (vcfops_session opts p)"
  by (auto simp: vcfops_session_def intro!: spec_intros vcfops.total vcfops.advances)

lemma vcfops_api_returns [spec_intros]:
  "returns (vcfops_api_get opts path q p)" "returns (vcfops_api_post opts path b q p)"
  "returns (vcfops_api_patch opts path b p)" "returns (vcfops_api_put opts path b p)"
  "returns (vcfops_api_delete opts path q p)"
  by (auto simp: vcfops_api_defs intro!: spec_intros)

lemma vcfops_api_evolves [spec_intros]:
  "keeps evolves (vcfops_api_get opts path q p)" "keeps evolves (vcfops_api_post opts path b q p)"
  "keeps evolves (vcfops_api_patch opts path b p)" "keeps evolves (vcfops_api_put opts path b p)"
  "keeps evolves (vcfops_api_delete opts path q p)"
  by (auto simp: vcfops_api_defs intro!: spec_intros)

text \<open>A call changes only the cache of this helper.\<close>

lemma vcfops_session_only [spec_intros]: "keeps (only_cache Vcfops_Cache) (vcfops_session opts p)"
  using cached_login_only [OF cacheless_as_token [OF vcfops_acquire_cacheless]]
  by (auto simp: vcfops_session_def vcfops_get_token_def intro!: spec_intros)

end
