(* ===== verification/Hcx.thy ===== *)
theory Hcx
  imports Scenario
begin

section \<open>Hcx: \<open>utils/hcx.py\<close>\<close>

text \<open>
  The HCX Manager helper. The login answers with the token in a response header; some builds put
  it into the body. The token is cached per host and user in \<open>_TOKEN_CACHE\<close> (\<open>Hcx_Cache\<close>).
\<close>

definition hcx_SESSION_PATH :: string where "hcx_SESSION_PATH = ''/hybridity/api/sessions''"

definition hcx_AUTH_HEADER :: string where "hcx_AUTH_HEADER = ''x-hm-authorization''"

definition hcx_get_config :: "pyval \<Rightarrow> profile \<Rightarrow> conn_config res" where
  "hcx_get_config opts profile = bindR (product_section ''hcx'' opts profile) base_config"

text \<open>The token of a login response: from the header, else from the body if that is JSON.\<close>

definition hcx_token_of_response :: "http_response \<Rightarrow> pyval res" where
  "hcx_token_of_response resp =
     (let token = header_get resp hcx_AUTH_HEADER in
      if truthy token then Ok token
      else if has_content resp then
        (case response_json resp of
           Ok (PDict body) \<Rightarrow> Ok (py_or (dget body ''hcspAuthorization'' PNone) (dget body ''token'' PNone))
         | _ \<Rightarrow> Ok token)
      else Ok token)"

definition hcx_acquire_token :: "conn_config \<Rightarrow> pyval io" where
  "hcx_acquire_token cfg =
     bindM (http_send (plain_request ''POST'' (https_url (cfg_host cfg) hcx_SESSION_PATH) PNone PNone []
         (basic_auth cfg) (cfg_verify_ssl cfg) (PInt 30))) (\<lambda>resp.
     bindM (raise_for_status resp) (\<lambda>_.
     bindM (liftR (hcx_token_of_response resp)) (\<lambda>token.
     if \<not> truthy token then
       raiseM (RuntimeError (''HCX Manager '' @ py_str (cfg_host cfg) @ '': sessions POST returned no ''
         @ hcx_AUTH_HEADER @ '' token''))
     else pureM token)))"

definition hcx_get_token :: "pyval \<Rightarrow> profile \<Rightarrow> pyval io" where
  "hcx_get_token =
     cached_login hcx_get_config Hcx_Cache host_user_key (as_token hcx_acquire_token) (\<lambda>_. token_of)"

definition hcx_invalidate_token :: "pyval \<Rightarrow> profile \<Rightarrow> unit io" where
  "hcx_invalidate_token = drop_login hcx_get_config Hcx_Cache host_user_key"

definition hcx_session :: "pyval \<Rightarrow> profile \<Rightarrow> (session \<times> pyval) io" where
  "hcx_session opts profile =
     bindM (liftR (hcx_get_config opts profile)) (\<lambda>cfg.
     bindM (hcx_get_token opts profile) (\<lambda>token.
     pureM (session_with (cfg_verify_ssl cfg)
         [(hcx_AUTH_HEADER, token), (''Accept'', PStr ''application/json'')], cfg_host cfg)))"

definition hcx_api_get :: "pyval \<Rightarrow> string \<Rightarrow> pyval \<Rightarrow> profile \<Rightarrow> pyval \<Rightarrow> pyval io" where
  "hcx_api_get opts path params profile timeout =
     bindM (session_call (hcx_session opts profile) ''GET'' path params PNone timeout) json_or_empty"

definition hcx_api_post :: "pyval \<Rightarrow> string \<Rightarrow> pyval \<Rightarrow> pyval \<Rightarrow> profile \<Rightarrow> pyval \<Rightarrow> pyval io" where
  "hcx_api_post opts path body params profile timeout =
     bindM (session_call (hcx_session opts profile) ''POST'' path params body timeout) json_or_empty"

definition hcx_api_delete :: "pyval \<Rightarrow> string \<Rightarrow> pyval \<Rightarrow> profile \<Rightarrow> pyval \<Rightarrow> pyval io" where
  "hcx_api_delete opts path params profile timeout =
     bindM (session_call (hcx_session opts profile) ''DELETE'' path params PNone timeout) (\<lambda>_. pureM empty_dict)"

lemma hcx_acquire_cacheless: "cacheless hcx_acquire_token"
  by unfold_locales (auto simp: hcx_acquire_token_def intro!: spec_intros)

interpretation hcx: login_cache hcx_get_token hcx_invalidate_token hcx_get_config Hcx_Cache host_user_key
  "\<lambda>_ _. True" "\<lambda>_. token_of"
  unfolding hcx_get_token_def hcx_invalidate_token_def
  by (rule cached_login_contract [OF cacheless_as_token [OF hcx_acquire_cacheless]])

lemma hcx_session_rules [spec_intros]:
  "returns (hcx_session opts p)" "keeps evolves (hcx_session opts p)"
  by (auto simp: hcx_session_def intro!: spec_intros hcx.total hcx.advances)

lemma hcx_api_rules [spec_intros]:
  "returns (hcx_api_get opts path q p t)" "returns (hcx_api_post opts path b q p t)"
  "returns (hcx_api_delete opts path q p t)"
  "keeps evolves (hcx_api_get opts path q p t)" "keeps evolves (hcx_api_post opts path b q p t)"
  "keeps evolves (hcx_api_delete opts path q p t)"
  by (auto simp: hcx_api_get_def hcx_api_post_def hcx_api_delete_def intro!: spec_intros)

text \<open>No entry of the cache is an empty token.\<close>

lemma hcx_acquired_truthy:
  "hcx_acquire_token cfg w = Some (Ok t, w') \<Longrightarrow> truthy t"
  by (auto simp: hcx_acquire_token_def bindM_Some_iff split: if_splits)

text \<open>A call changes only the cache of this helper.\<close>

lemma hcx_session_only [spec_intros]: "keeps (only_cache Hcx_Cache) (hcx_session opts p)"
  using cached_login_only [OF cacheless_as_token [OF hcx_acquire_cacheless]]
  by (auto simp: hcx_session_def hcx_get_token_def intro!: spec_intros)

end
