(* ===== verification/Vro.thy ===== *)
theory Vro
  imports Scenario
begin

section \<open>Vro: \<open>utils/vro.py\<close>\<close>

text \<open>
  The VCF Orchestrator helper: a session with Basic credentials per host and user, cached in
  \<open>_SESSION_CACHE\<close> (\<open>Vro_Cache\<close>) without any request, and the two \<open>api_*\<close> calls.
\<close>

definition vro_DEFAULT_TIMEOUT :: pyval where "vro_DEFAULT_TIMEOUT = PInt 30"

definition vro_DEFAULT_PORT :: pyval where "vro_DEFAULT_PORT = PInt 443"

record vro_config = conn_config +
  vro_port :: int
  vro_timeout :: pyval
  sni_hostname :: pyval

definition vro_get_config :: "pyval \<Rightarrow> profile \<Rightarrow> vro_config res" where
  "vro_get_config opts profile =
     bindR (product_section ''vro'' opts profile) (\<lambda>cfg.
     bindR (base_config cfg) (\<lambda>base.
     bindR (py_get cfg ''port'' vro_DEFAULT_PORT) (\<lambda>v.
     bindR (py_int v) (\<lambda>port.
     bindR (py_get cfg ''timeout'' vro_DEFAULT_TIMEOUT) (\<lambda>timeout.
     bindR (py_get cfg ''sni_hostname'' PNone) (\<lambda>sni.
     Ok (conn_config.extend base \<lparr>vro_port = port, vro_timeout = timeout, sni_hostname = sni\<rparr>)))))))"

definition vro_resolve_timeout :: "pyval \<Rightarrow> profile \<Rightarrow> pyval \<Rightarrow> pyval res" where
  "vro_resolve_timeout opts profile override =
     (if override \<noteq> PNone then Ok override
      else bindR (vro_get_config opts profile) (\<lambda>cfg. Ok (vro_timeout cfg)))"

definition vro_base_url :: "vro_config \<Rightarrow> string" where
  "vro_base_url cfg =
     (if vro_port cfg \<noteq> 0 \<and> vro_port cfg \<noteq> 443
      then https_url (cfg_host cfg) ('':'' @ int_str (vro_port cfg)) else https_url (cfg_host cfg) [])"

definition vro_open_session :: "vro_config \<Rightarrow> cached io" where
  "vro_open_session cfg =
     pureM (CSession (new_session\<lparr>s_verify := cfg_verify_ssl cfg, s_auth := basic_auth cfg,
       s_headers := (''Accept'', PStr ''application/json'')
         # (if truthy (sni_hostname cfg) then [(''Host'', sni_hostname cfg)] else [])\<rparr>))"

definition vro_deliver :: "vro_config \<Rightarrow> cached \<Rightarrow> session \<times> string" where
  "vro_deliver cfg c = (session_of c, vro_base_url cfg)"

definition vro_get_session :: "pyval \<Rightarrow> profile \<Rightarrow> (session \<times> string) io" where
  "vro_get_session = cached_login vro_get_config Vro_Cache host_user_key vro_open_session vro_deliver"

definition vro_invalidate_session :: "pyval \<Rightarrow> profile \<Rightarrow> unit io" where
  "vro_invalidate_session = drop_login vro_get_config Vro_Cache host_user_key"

definition vro_exchange ::
  "string \<Rightarrow> pyval \<Rightarrow> string \<Rightarrow> pyval \<Rightarrow> pyval \<Rightarrow> profile \<Rightarrow> pyval \<Rightarrow> http_response io" where
  "vro_exchange meth opts path body params profile timeout =
     bindM (liftR (vro_get_config opts profile)) (\<lambda>cfg.
     bindM (vro_get_session opts profile) (\<lambda>(session, base).
     bindM (liftR (vro_resolve_timeout opts profile timeout)) (\<lambda>t.
     bindM (shared_request Vro_Cache (host_user_key cfg) session meth (base @ path) params body t) (\<lambda>resp.
     bindM (raise_for_status resp) (\<lambda>_. pureM resp)))))"

definition vro_api_get :: "pyval \<Rightarrow> string \<Rightarrow> pyval \<Rightarrow> profile \<Rightarrow> pyval \<Rightarrow> pyval io" where
  "vro_api_get opts path params profile timeout =
     bindM (vro_exchange ''GET'' opts path PNone params profile timeout) json_tolerant"

definition vro_api_post :: "pyval \<Rightarrow> string \<Rightarrow> pyval \<Rightarrow> pyval \<Rightarrow> profile \<Rightarrow> pyval \<Rightarrow> pyval io" where
  "vro_api_post opts path body params profile timeout =
     bindM (vro_exchange ''POST'' opts path body params profile timeout) json_tolerant"

lemma vro_open_cacheless: "cacheless vro_open_session"
  by unfold_locales (auto simp: vro_open_session_def intro!: spec_intros)

interpretation vro: login_cache vro_get_session vro_invalidate_session vro_get_config Vro_Cache host_user_key
  "\<lambda>_ _. True" vro_deliver
  unfolding vro_get_session_def vro_invalidate_session_def
  by (rule cached_login_contract [OF vro_open_cacheless])

lemma vro_rules [spec_intros]:
  "returns (vro_exchange m opts path b q p t)" "keeps evolves (vro_exchange m opts path b q p t)"
  "returns (vro_api_get opts path q p t)" "returns (vro_api_post opts path b q p t)"
  "keeps evolves (vro_api_get opts path q p t)" "keeps evolves (vro_api_post opts path b q p t)"
  by (auto simp: vro_exchange_def vro_api_get_def vro_api_post_def intro!: spec_intros vro.total vro.advances)

lemma vro_get_session_sends [spec_intros]: "keeps (sends_only P) (vro_get_session opts p)"
  by (auto simp: vro_get_session_def vro_open_session_def intro!: spec_intros)

text \<open>A call changes only the cache of this helper.\<close>

lemma vro_exchange_only [spec_intros]: "keeps (only_cache Vro_Cache) (vro_exchange m opts path b q p t)"
  using cached_login_only [OF vro_open_cacheless]
  by (auto simp: vro_exchange_def vro_get_session_def intro!: spec_intros)

end
