(* ===== verification/Avi.thy ===== *)
theory Avi
  imports Scenario
begin

section \<open>Avi: \<open>utils/avi.py\<close>\<close>

text \<open>
  The AVI controller helper: \<open>POST /login\<close> gives a session its cookies, whose CSRF token every
  later request repeats in a header; the sessions are cached per host and user in
  \<open>_SESSION_CACHE\<close> (\<open>Avi_Cache\<close>).
\<close>

definition avi_DEFAULT_API_VERSION :: pyval where "avi_DEFAULT_API_VERSION = PStr ''22.1.3''"

definition avi_DEFAULT_TENANT :: pyval where "avi_DEFAULT_TENANT = PStr ''admin''"

record avi_config = conn_config +
  avi_tenant :: pyval
  avi_api_version :: pyval

definition avi_get_config :: "pyval \<Rightarrow> profile \<Rightarrow> avi_config res" where
  "avi_get_config opts profile =
     bindR (product_section ''avi'' opts profile) (\<lambda>cfg.
     bindR (base_config cfg) (\<lambda>base.
     bindR (py_get cfg ''tenant'' avi_DEFAULT_TENANT) (\<lambda>tenant.
     bindR (py_get cfg ''api_version'' avi_DEFAULT_API_VERSION) (\<lambda>version.
     Ok (conn_config.extend base \<lparr>avi_tenant = tenant, avi_api_version = version\<rparr>)))))"

definition avi_invalidate_session :: "pyval \<Rightarrow> profile \<Rightarrow> unit io" where
  "avi_invalidate_session = drop_login avi_get_config Avi_Cache host_user_key"

definition avi_login :: "avi_config \<Rightarrow> cached io" where
  "avi_login cfg =
     (let referer = PStr (https_url (cfg_host cfg) ''/'') in
     bindM (session_send (new_session\<lparr>s_verify := cfg_verify_ssl cfg\<rparr>) ''POST''
         (https_url (cfg_host cfg) ''/login'') PNone (credentials cfg)
         [(''Content-Type'', PStr ''application/json''), (''X-Avi-Version'', avi_api_version cfg),
          (''Referer'', referer)] (PInt 30)) (\<lambda>(resp, session).
     bindM (raise_for_status resp) (\<lambda>_.
     let csrf = dget (s_cookies session) ''csrftoken'' PNone;
         headers = dupdate (s_headers session)
           [(''Accept'', PStr ''application/json''), (''Content-Type'', PStr ''application/json''),
            (''X-Avi-Version'', avi_api_version cfg), (''X-Avi-Tenant'', avi_tenant cfg), (''Referer'', referer)]
     in pureM (CSession (session\<lparr>s_headers :=
          if truthy csrf then dset headers ''X-CSRFToken'' csrf else headers\<rparr>)))))"

definition avi_deliver :: "avi_config \<Rightarrow> cached \<Rightarrow> session \<times> pyval" where
  "avi_deliver cfg c = (session_of c, cfg_host cfg)"

definition avi_session :: "pyval \<Rightarrow> profile \<Rightarrow> (session \<times> pyval) io" where
  "avi_session = cached_login avi_get_config Avi_Cache host_user_key avi_login avi_deliver"

definition avi_exchange ::
  "string \<Rightarrow> pyval \<Rightarrow> string \<Rightarrow> pyval \<Rightarrow> pyval \<Rightarrow> pyval \<Rightarrow> profile \<Rightarrow> http_response io" where
  "avi_exchange meth opts path body params timeout profile =
     bindM (liftR (avi_get_config opts profile)) (\<lambda>cfg.
     bindM (avi_session opts profile) (\<lambda>(session, host).
     bindM (shared_request Avi_Cache (host_user_key cfg) session meth (https_url host path) params body timeout) (\<lambda>resp.
     bindM (raise_for_status resp) (\<lambda>_. pureM resp))))"

definition avi_api_get :: "pyval \<Rightarrow> string \<Rightarrow> pyval \<Rightarrow> profile \<Rightarrow> pyval io" where
  "avi_api_get opts path params profile =
     bindM (avi_exchange ''GET'' opts path PNone params (PInt 30) profile) json_or_empty"

definition avi_api_post :: "pyval \<Rightarrow> string \<Rightarrow> pyval \<Rightarrow> pyval \<Rightarrow> profile \<Rightarrow> pyval io" where
  "avi_api_post opts path body params profile =
     bindM (avi_exchange ''POST'' opts path body params (PInt 60) profile) json_or_empty"

definition avi_api_put :: "pyval \<Rightarrow> string \<Rightarrow> pyval \<Rightarrow> profile \<Rightarrow> pyval io" where
  "avi_api_put opts path body profile =
     bindM (avi_exchange ''PUT'' opts path body PNone (PInt 60) profile) json_or_empty"

definition avi_api_delete :: "pyval \<Rightarrow> string \<Rightarrow> pyval \<Rightarrow> profile \<Rightarrow> pyval io" where
  "avi_api_delete opts path params profile =
     bindM (avi_exchange ''DELETE'' opts path PNone params (PInt 30) profile) (\<lambda>_. pureM empty_dict)"

lemmas avi_api_defs = avi_api_get_def avi_api_post_def avi_api_put_def avi_api_delete_def

lemma avi_login_cacheless: "cacheless avi_login"
  by unfold_locales (auto simp: avi_login_def Let_def intro!: spec_intros)

interpretation avi: login_cache avi_session avi_invalidate_session avi_get_config Avi_Cache host_user_key
  "\<lambda>_ _. True" avi_deliver
  unfolding avi_session_def avi_invalidate_session_def
  by (rule cached_login_contract [OF avi_login_cacheless])

lemma avi_rules [spec_intros]:
  "returns (avi_exchange m opts path b q t p)" "keeps evolves (avi_exchange m opts path b q t p)"
  "returns (avi_api_get opts path q p)" "returns (avi_api_post opts path b q p)"
  "returns (avi_api_put opts path b p)" "returns (avi_api_delete opts path q p)"
  by (auto simp: avi_exchange_def avi_api_defs intro!: spec_intros avi.total avi.advances)

text \<open>
  A session that came out of a login sends the cookie-bound CSRF token with every request, together
  with the referer that the controller checks.
\<close>

lemma avi_login_headers:
  assumes "avi_login cfg w = Some (Ok c, w')"
  shows "\<exists>s. c = CSession s \<and>
    map_of (s_headers s) ''Referer'' = Some (PStr (https_url (cfg_host cfg) ''/'')) \<and>
    (truthy (dget (s_cookies s) ''csrftoken'' PNone) \<longrightarrow>
       map_of (s_headers s) ''X-CSRFToken'' = Some (dget (s_cookies s) ''csrftoken'' PNone))"
  using assms
  by (auto simp: avi_login_def Let_def bindM_Some_iff session_send_def new_session_def
      map_of_dupdate split: if_splits)

text \<open>A call changes only the cache of this helper.\<close>

lemma avi_exchange_only [spec_intros]: "keeps (only_cache Avi_Cache) (avi_exchange m opts path b q t p)"
  using cached_login_only [OF avi_login_cacheless]
  by (auto simp: avi_exchange_def avi_session_def intro!: spec_intros)

lemma cookie_header_distinct: "distinct (map fst (cookie_header cs))"
  by (simp add: cookie_header_def)

lemma session_rq_header:
  assumes "k \<noteq> ''Cookie''" shows "map_of (rq_headers (session_rq s m u q b [] t)) k = map_of (s_headers s) k"
  using assms by (simp add: session_rq_def map_of_dupdate cookie_header_distinct map_add_def)
    (simp add: cookie_header_def)

text \<open>The first request after a login carries what the controller asks of a write request: the
  CSRF token that the login put into a cookie, repeated in \<open>X-CSRFToken\<close>, the referer, and the
  cookies of the login.\<close>

theorem avi_csrf_sent:
  assumes cfg: "avi_get_config opts p = Ok cfg"
    and cold: "cache_get Avi_Cache (host_user_key cfg) w = None"
    and reply: "\<And>rq. net w (clock w) (sent w @ [rq]) = Reply d resp"
    and csrf: "token = dget (dupdate [] (rs_cookies resp)) ''csrftoken'' PNone" "truthy token"
    and run: "avi_exchange m opts path b q t p w = Some (Ok r, w')"
  shows "\<exists>login rq. sent w' = sent w @ [login, rq] \<and>
    rq_url login = https_url (cfg_host cfg) ''/login'' \<and> rq_json login = credentials cfg \<and>
    map_of (rq_headers rq) ''X-CSRFToken'' = Some token \<and>
    map_of (rq_headers rq) ''Referer'' = Some (PStr (https_url (cfg_host cfg) ''/'')) \<and>
    map_of (rq_headers rq) ''Cookie'' = map_of (cookie_header (dupdate [] (rs_cookies resp))) ''Cookie''"
proof -
  from run cfg obtain x w1 where login: "avi_session opts p w = Some (Ok x, w1)"
    and rest: "bindM (shared_request Avi_Cache (host_user_key cfg) (fst x) m (https_url (snd x) path) q b t)
      (\<lambda>resp. bindM (raise_for_status resp) (\<lambda>_. pureM resp)) w1 = Some (Ok r, w')"
    by (auto simp: avi_exchange_def bindM_Some_iff [of "avi_session opts p"])
  from login [unfolded avi_session_def] cfg cold obtain c w2
    where acquired: "avi_login cfg w = Some (Ok c, w2)" and w1: "sent w1 = sent w2"
      and x: "x = avi_deliver cfg c"
    by (rule cached_login_missE) auto
  from acquired obtain s lrq where c: "c = CSession s" and sent: "sent w2 = sent w @ [lrq]"
    and lrq: "rq_url lrq = https_url (cfg_host cfg) ''/login''" "rq_json lrq = credentials cfg"
    and cookies: "s_cookies s = dupdate [] (rs_cookies resp)"
    and headers: "map_of (s_headers s) ''X-CSRFToken'' = Some token"
      "map_of (s_headers s) ''Referer'' = Some (PStr (https_url (cfg_host cfg) ''/''))"
    using reply csrf
    by (auto simp: avi_login_def Let_def session_send_def bindM_Some_iff http_send_def session_rq_def
        new_session_def map_of_dupdate dest!: raise_for_status_Ok)
  have cookie: "map_of (rq_headers (session_rq s m u q b [] t)) ''Cookie'' = map_of (cookie_header (s_cookies s)) ''Cookie''"
    if "map_of (s_headers s) ''Cookie'' = None" for u
    using that by (simp add: session_rq_def map_of_dupdate cookie_header_distinct map_add_def split: option.split)
  have "map_of (s_headers s) ''Cookie'' = None"
    using acquired c by (auto simp: avi_login_def Let_def session_send_def bindM_Some_iff new_session_def
        map_of_dupdate split: if_splits)
  note cookie [OF this]
  moreover from rest obtain r' w3 where
    "shared_request Avi_Cache (host_user_key cfg) (fst x) m (https_url (snd x) path) q b t w1 = Some (Ok r', w3)"
    "sent w' = sent w3"
    by (auto simp: bindM_Some_iff dest!: raise_for_status_Ok)
  ultimately have "sent w' = sent w @ [lrq, session_rq s m (https_url (cfg_host cfg) path) q b [] t]"
    using w1 sent c x by (auto simp: avi_deliver_def dest!: shared_request_sent)
  then show ?thesis
    using lrq headers cookies cookie [OF \<open>map_of (s_headers s) ''Cookie'' = None\<close>]
    by (auto simp: session_rq_header)
qed

lemma avi_csrf_sent_witness:
  "let w = scripted [Reply 5 (json_response 200 PNone\<lparr>rs_cookies := [(''csrftoken'', PStr ''c1''), (''sessionid'', PStr ''s1'')]\<rparr>),
         body_reply (PInt 7)];
       run = the (avi_exchange ''PUT'' (opts_for ''avi'') ''/api/x'' PNone PNone (PInt 60) None w)
   in \<exists>login rq. sent (snd run) = [login, rq] \<and> map_of (rq_headers rq) ''X-CSRFToken'' = Some (PStr ''c1'')"
proof -
  let ?r = "json_response 200 PNone\<lparr>rs_cookies := [(''csrftoken'', PStr ''c1''), (''sessionid'', PStr ''s1'')]\<rparr>"
  let ?w = "scripted [Reply 5 ?r, body_reply (PInt 7)]"
  let ?cfg = "\<lparr>cfg_host = PStr ''h'', cfg_username = PStr ''u'', cfg_password = PStr ''p'',
    cfg_verify_ssl = PBool True, avi_tenant = PStr ''admin'', avi_api_version = PStr ''22.1.3''\<rparr>"
  have cfg: "avi_get_config (opts_for ''avi'') None = Ok ?cfg" by code_simp
  have cold: "cache_get Avi_Cache (host_user_key ?cfg) ?w = None" by (simp add: scripted_def cache_get_def)
  have reply: "net ?w (clock ?w) (sent ?w @ [rq]) = Reply 5 ?r" for rq
    by (simp add: scripted_def script_net_def)
  have token: "PStr ''c1'' = dget (dupdate [] (rs_cookies ?r)) ''csrftoken'' PNone" "truthy (PStr ''c1'')"
    by code_simp+
  have run: "map_option fst (avi_exchange ''PUT'' (opts_for ''avi'') ''/api/x'' PNone PNone (PInt 60) None ?w)
    = Some (Ok (json_response 200 (PInt 7)))" by code_simp
  from avi_csrf_sent [OF cfg cold reply token run_result [OF run]] show ?thesis
    by (auto simp: Let_def scripted_def)
qed

end
