(* ===== verification/Vrni.thy ===== *)
theory Vrni
  imports Scenario
begin

section \<open>Vrni: \<open>utils/vrni.py\<close>\<close>

text \<open>
  The VCF Network Insight helper: a short-lived token per host and user, cached in
  \<open>_TOKEN_CACHE\<close> (\<open>Vrni_Cache\<close>), and \<open>_request\<close>, which renews the token once when the
  platform answers 401.
\<close>

definition vrni_DEFAULT_TIMEOUT :: pyval where "vrni_DEFAULT_TIMEOUT = PInt 60"

definition vrni_DEFAULT_DOMAIN_TYPE :: pyval where "vrni_DEFAULT_DOMAIN_TYPE = PStr ''LOCAL''"

definition vrni_DEFAULT_DOMAIN_VALUE :: pyval where "vrni_DEFAULT_DOMAIN_VALUE = PStr ''local''"

record vrni_config = conn_config +
  domain_type :: pyval
  domain_value :: pyval
  vrni_timeout :: pyval

definition vrni_get_config :: "pyval \<Rightarrow> profile \<Rightarrow> vrni_config res" where
  "vrni_get_config opts profile =
     bindR (product_section ''vrni'' opts profile) (\<lambda>cfg.
     bindR (base_config cfg) (\<lambda>base.
     bindR (py_get cfg ''domain_type'' vrni_DEFAULT_DOMAIN_TYPE) (\<lambda>dtype.
     bindR (py_get cfg ''domain_value'' vrni_DEFAULT_DOMAIN_VALUE) (\<lambda>dvalue.
     bindR (py_get cfg ''timeout'' vrni_DEFAULT_TIMEOUT) (\<lambda>timeout.
     Ok (conn_config.extend base
       \<lparr>domain_type = dtype, domain_value = dvalue, vrni_timeout = timeout\<rparr>))))))"

definition vrni_resolve_timeout :: "pyval \<Rightarrow> profile \<Rightarrow> pyval \<Rightarrow> pyval res" where
  "vrni_resolve_timeout opts profile override =
     (if override \<noteq> PNone then Ok override
      else bindR (vrni_get_config opts profile) (\<lambda>cfg. Ok (vrni_timeout cfg)))"

definition vrni_acquire_token :: "vrni_config \<Rightarrow> pyval io" where
  "vrni_acquire_token cfg =
     token_request (plain_request ''POST'' (https_url (cfg_host cfg) ''/api/ni/auth/token'')
         (PDict [(''username'', cfg_username cfg), (''password'', cfg_password cfg),
                 (''domain'', PDict [(''domain_type'', domain_type cfg), (''value'', domain_value cfg)])])
         PNone [] PNone (cfg_verify_ssl cfg) (vrni_timeout cfg))
       (\<lambda>payload.
          bindR (py_get payload ''token'' PNone) (\<lambda>token.
          if \<not> truthy token then
            Exc (RuntimeError (''VRNI /api/ni/auth/token response missing token: '' @ py_repr payload))
          else Ok token))"

definition vrni_get_token :: "pyval \<Rightarrow> profile \<Rightarrow> pyval io" where
  "vrni_get_token =
     cached_login vrni_get_config Vrni_Cache host_user_key (as_token vrni_acquire_token) (\<lambda>_. token_of)"

definition vrni_invalidate_token :: "pyval \<Rightarrow> profile \<Rightarrow> unit io" where
  "vrni_invalidate_token = drop_login vrni_get_config Vrni_Cache host_user_key"

definition vrni_bearer :: "pyval \<Rightarrow> pyval" where
  "vrni_bearer token = PStr (''NetworkInsight '' @ py_str token)"

definition vrni_session :: "pyval \<Rightarrow> profile \<Rightarrow> (session \<times> pyval) io" where
  "vrni_session opts profile =
     bindM (liftR (vrni_get_config opts profile)) (\<lambda>cfg.
     bindM (vrni_get_token opts profile) (\<lambda>token.
     pureM (session_with (cfg_verify_ssl cfg)
         [(''Authorization'', vrni_bearer token), (''Accept'', PStr ''application/json'')], cfg_host cfg)))"

text \<open>The second attempt of \<open>_request\<close>, on the same session with a new token.\<close>

definition vrni_retry ::
  "string \<Rightarrow> pyval \<Rightarrow> string \<Rightarrow> pyval \<Rightarrow> pyval \<Rightarrow> profile \<Rightarrow> session \<Rightarrow> pyval \<Rightarrow> http_response io" where
  "vrni_retry meth opts url params body profile session timeout =
     bindM (vrni_invalidate_token opts profile) (\<lambda>_.
     bindM (vrni_get_token opts profile) (\<lambda>new_token.
     bindM (session_send (session\<lparr>s_headers := dset (s_headers session) ''Authorization'' (vrni_bearer new_token)\<rparr>)
         meth url params body [] timeout) (\<lambda>(resp, _). pureM resp)))"

definition vrni_request ::
  "string \<Rightarrow> pyval \<Rightarrow> string \<Rightarrow> pyval \<Rightarrow> pyval \<Rightarrow> profile \<Rightarrow> pyval \<Rightarrow> http_response io" where
  "vrni_request meth opts path params body profile timeout =
     bindM (vrni_session opts profile) (\<lambda>(session, host).
     let url = https_url host path in
     bindM (liftR (vrni_resolve_timeout opts profile timeout)) (\<lambda>t.
     bindM (session_send session meth url params body [] t) (\<lambda>(resp, session).
     bindM (if status_code resp = 401 then vrni_retry meth opts url params body profile session t
            else pureM resp) (\<lambda>resp.
     bindM (raise_for_status resp) (\<lambda>_. pureM resp)))))"

definition vrni_api_get :: "pyval \<Rightarrow> string \<Rightarrow> pyval \<Rightarrow> profile \<Rightarrow> pyval \<Rightarrow> pyval io" where
  "vrni_api_get opts path params profile timeout =
     bindM (vrni_request ''GET'' opts path params PNone profile timeout) json_or_empty"

definition vrni_api_post :: "pyval \<Rightarrow> string \<Rightarrow> pyval \<Rightarrow> pyval \<Rightarrow> profile \<Rightarrow> pyval \<Rightarrow> pyval io" where
  "vrni_api_post opts path body params profile timeout =
     bindM (vrni_request ''POST'' opts path params body profile timeout) json_or_empty"

definition vrni_api_put :: "pyval \<Rightarrow> string \<Rightarrow> pyval \<Rightarrow> pyval \<Rightarrow> profile \<Rightarrow> pyval \<Rightarrow> pyval io" where
  "vrni_api_put opts path body params profile timeout =
     bindM (vrni_request ''PUT'' opts path params body profile timeout) json_or_empty"

definition vrni_api_delete :: "pyval \<Rightarrow> string \<Rightarrow> pyval \<Rightarrow> profile \<Rightarrow> pyval \<Rightarrow> pyval io" where
  "vrni_api_delete opts path params profile timeout =
     bindM (vrni_request ''DELETE'' opts path params PNone profile timeout) (\<lambda>_. pureM empty_dict)"

lemmas vrni_api_defs = vrni_api_get_def vrni_api_post_def vrni_api_put_def vrni_api_delete_def

lemma vrni_acquire_cacheless: "cacheless vrni_acquire_token"
  unfolding vrni_acquire_token_def by (rule cacheless_token_request)

interpretation vrni: login_cache vrni_get_token vrni_invalidate_token vrni_get_config Vrni_Cache host_user_key
  "\<lambda>_ _. True" "\<lambda>_. token_of"
  unfolding vrni_get_token_def vrni_invalidate_token_def
  by (rule cached_login_contract [OF cacheless_as_token [OF vrni_acquire_cacheless]])

lemma vrni_parts_rules [spec_intros]:
  "returns (vrni_session opts p)" "keeps evolves (vrni_session opts p)"
  "returns (vrni_retry m opts u q b p s t)" "keeps evolves (vrni_retry m opts u q b p s t)"
  by (auto simp: vrni_session_def vrni_retry_def vrni_invalidate_token_def
      intro!: spec_intros vrni.total vrni.advances)

lemma vrni_request_rules [spec_intros]:
  "returns (vrni_request m opts path q b p t)" "keeps evolves (vrni_request m opts path q b p t)"
  by (auto simp: vrni_request_def intro!: spec_intros)

lemma vrni_api_rules [spec_intros]:
  "returns (vrni_api_get opts path q p t)" "returns (vrni_api_post opts path b q p t)"
  "returns (vrni_api_put opts path b q p t)" "returns (vrni_api_delete opts path q p t)"
  by (auto simp: vrni_api_defs intro!: spec_intros)

text \<open>A call changes only the cache of this helper.\<close>

lemma vrni_get_token_only [spec_intros]: "keeps (only_cache Vrni_Cache) (vrni_get_token opts p)"
  unfolding vrni_get_token_def by (rule cached_login_only [OF cacheless_as_token [OF vrni_acquire_cacheless]])

lemma vrni_request_only [spec_intros]: "keeps (only_cache Vrni_Cache) (vrni_request m opts path q b p t)"
  by (auto simp: vrni_request_def vrni_retry_def vrni_session_def vrni_invalidate_token_def Let_def
      intro!: spec_intros)

subsection \<open>The retry after a 401\<close>

lemma vrni_token_unauthorized [spec_intros]:
  "keeps (sends_only (\<lambda>rq. \<not> authorized rq)) (vrni_get_token opts p)"
  by (auto simp: vrni_get_token_def vrni_acquire_token_def intro!: spec_intros)

lemma vrni_request_twice: "at_most authorized 2 (vrni_request m opts path q b p t)"
proof -
  have session: "at_most authorized 0 (vrni_session opts p)"
    by (auto simp: vrni_session_def intro!: at_most_none spec_intros)
  have retry: "at_most authorized 1 (vrni_retry m opts u q b p s t')" for u s t'
    unfolding vrni_retry_def
    by (intro at_most_after [OF at_most_none [of authorized "vrni_invalidate_token opts p"]]
        at_most_after [OF at_most_none [OF vrni_token_unauthorized]] at_most_before at_most_session at_most_cases)
      (auto simp: vrni_invalidate_token_def intro!: at_most_none spec_intros)
  show ?thesis
    unfolding vrni_request_def Let_def
    by (intro at_most_after [OF session] at_most_after [OF at_most_none [of authorized "liftR r" for r]]
        at_most_cases(1) at_most_two at_most_retried at_most_session at_most_response retry)
      (auto intro!: spec_intros)
qed

end
