(* ===== verification/Vrli.thy ===== *)
theory Vrli
  imports Scenario
begin

section \<open>Vrli: \<open>utils/vrli.py\<close>\<close>

text \<open>
  The VCF Operations for Logs helper: a session token with an expiry time per host, port and user,
  cached in \<open>_TOKEN_CACHE\<close> (\<open>Vrli_Cache\<close>) and renewed after 80 % of its life, and \<open>_request\<close>, which
  logs in again once when the server says that the session expired. Times are in milliseconds:
  \<open>ttl * 0.80\<close> seconds are \<open>800 * ttl\<close>.
\<close>

subsection \<open>Configuration and token\<close>

definition vrli_DEFAULT_PORT :: pyval where "vrli_DEFAULT_PORT = PInt 9543"

definition vrli_DEFAULT_TIMEOUT :: pyval where "vrli_DEFAULT_TIMEOUT = PInt 30"

definition vrli_DEFAULT_PROVIDER :: pyval where "vrli_DEFAULT_PROVIDER = PStr ''Local''"

text \<open>\<open>1000 * _REFRESH_FRACTION\<close>: the milliseconds a token is used per second of its life.\<close>

definition REFRESH_MS :: int where "REFRESH_MS = 800"

record vrli_config = conn_config +
  vrli_port :: int
  vrli_provider :: pyval
  vrli_timeout :: pyval
  vrli_ssh :: pyval

definition vrli_get_config :: "pyval \<Rightarrow> profile \<Rightarrow> vrli_config res" where
  "vrli_get_config opts profile =
     bindR (product_section ''vrli'' opts profile) (\<lambda>cfg.
     bindR (base_config cfg) (\<lambda>base.
     bindR (py_get cfg ''port'' vrli_DEFAULT_PORT) (\<lambda>v.
     bindR (py_int v) (\<lambda>port.
     bindR (py_get cfg ''provider'' vrli_DEFAULT_PROVIDER) (\<lambda>provider.
     bindR (py_get cfg ''timeout'' vrli_DEFAULT_TIMEOUT) (\<lambda>timeout.
     bindR (py_get cfg ''ssh'' empty_dict) (\<lambda>ssh.
     Ok (conn_config.extend base
       \<lparr>vrli_port = port, vrli_provider = provider, vrli_timeout = timeout,
        vrli_ssh = py_or ssh empty_dict\<rparr>))))))))"

text \<open>\<open>get_ssh_config\<close>; an \<open>ssh\<close> block that is no mapping is malformed.\<close>

definition vrli_get_ssh_config :: "pyval \<Rightarrow> profile \<Rightarrow> dict res" where
  "vrli_get_ssh_config opts profile =
     bindR (vrli_get_config opts profile) (\<lambda>cfg.
     case vrli_ssh cfg of
       PDict ssh \<Rightarrow>
         Ok (if map_of ssh ''host'' = None then dset ssh ''host'' (cfg_host cfg) else ssh)
     | v \<Rightarrow> Exc (TypeError (repr_str (type_name v) @ '' object is not a mapping'')))"

definition vrli_base_url :: "vrli_config \<Rightarrow> string" where
  "vrli_base_url cfg = https_url (cfg_host cfg) ('':'' @ int_str (vrli_port cfg))"

definition vrli_cache_key :: "vrli_config \<Rightarrow> string" where
  "vrli_cache_key cfg =
     py_str (cfg_host cfg) @ '':'' @ int_str (vrli_port cfg) @ '':'' @ py_str (cfg_username cfg)"

definition vrli_login_rq :: "vrli_config \<Rightarrow> request" where
  "vrli_login_rq cfg =
     plain_request ''POST'' (vrli_base_url cfg @ ''/api/v2/sessions'')
       (PDict [(''provider'', vrli_provider cfg), (''username'', cfg_username cfg), (''password'', cfg_password cfg)])
       PNone [] PNone (cfg_verify_ssl cfg) (vrli_timeout cfg)"

text \<open>The session id and the life of a login response.\<close>

definition vrli_login_body :: "pyval \<Rightarrow> (pyval \<times> int) res" where
  "vrli_login_body v =
     (let body = py_or v empty_dict in
     bindR (py_get body ''sessionId'' PNone) (\<lambda>session_id.
     if \<not> truthy session_id then
       Exc (RuntimeError (''vRLI POST /api/v2/sessions did not return sessionId: '' @ py_repr body))
     else
       bindR (py_get body ''ttl'' (PInt 1800)) (\<lambda>t.
       bindR (py_int t) (\<lambda>ttl. Ok (session_id, ttl)))))"

definition vrli_acquire_token :: "vrli_config \<Rightarrow> cached io" where
  "vrli_acquire_token cfg =
     bindM (http_send (vrli_login_rq cfg)) (\<lambda>resp.
     bindM (raise_for_status resp) (\<lambda>_.
     bindM (liftR (bindR (response_json resp) vrli_login_body)) (\<lambda>(session_id, ttl).
     bindM monotonic (\<lambda>now.
     pureM (CEntry session_id (now + ttl * REFRESH_MS) (vrli_provider cfg))))))"

definition vrli_deliver :: "vrli_config \<Rightarrow> cached \<Rightarrow> pyval" where
  "vrli_deliver cfg c = (case c of CEntry token _ _ \<Rightarrow> token | _ \<Rightarrow> PNone)"

definition vrli_fresh :: "cached \<Rightarrow> int \<Rightarrow> bool" where
  "vrli_fresh c now = (case c of CEntry _ expires _ \<Rightarrow> expires > now | _ \<Rightarrow> False)"

definition vrli_get_token :: "pyval \<Rightarrow> profile \<Rightarrow> pyval io" where
  "vrli_get_token opts profile =
     bindM (liftR (vrli_get_config opts profile)) (\<lambda>cfg.
     if \<not> truthy (cfg_host cfg) then
       raiseM (RuntimeError ''saltext.vcf.vrli.host is not configured; cannot reach vRLI master'')
     else
       let key = vrli_cache_key cfg in
       bindM (cache_lookup Vrli_Cache key) (\<lambda>hit.
       bindM monotonic (\<lambda>now.
       if (case hit of Some c \<Rightarrow> vrli_fresh c now | None \<Rightarrow> False) then
         pureM (vrli_deliver cfg (the hit))
       else
         bindM (vrli_acquire_token cfg) (\<lambda>entry.
         bindM (cache_store Vrli_Cache key entry) (\<lambda>_. pureM (vrli_deliver cfg entry))))))"

definition vrli_invalidate_token :: "pyval \<Rightarrow> profile \<Rightarrow> unit io" where
  "vrli_invalidate_token = drop_login vrli_get_config Vrli_Cache vrli_cache_key"

subsection \<open>Requests\<close>

definition vrli_session :: "pyval \<Rightarrow> profile \<Rightarrow> (session \<times> vrli_config) io" where
  "vrli_session opts profile =
     bindM (liftR (vrli_get_config opts profile)) (\<lambda>cfg.
     bindM (vrli_get_token opts profile) (\<lambda>token.
     pureM (session_with (cfg_verify_ssl cfg)
         [(''Authorization'', PStr (''Bearer '' @ py_str token)), (''Accept'', PStr ''application/json'')], cfg)))"

definition vrli_looks_like_session_expired :: "http_response \<Rightarrow> bool" where
  "vrli_looks_like_session_expired resp =
     (if status_code resp \<noteq> 401 then False
      else
        case response_json resp of
          Ok (PDict body) \<Rightarrow>
            let msg = py_str (py_or (dget body ''errorMessage'' PNone)
                        (py_or (dget body ''message'' PNone) (PStr [])))
            in contains (lower msg) ''session expired'' \<or> contains (lower msg) ''session has expired''
        | _ \<Rightarrow> False)"

definition vrli_request ::
  "string \<Rightarrow> pyval \<Rightarrow> string \<Rightarrow> pyval \<Rightarrow> pyval \<Rightarrow> profile \<Rightarrow> pyval \<Rightarrow> http_response io" where
  "vrli_request meth opts path params body profile timeout =
     bindM (vrli_session opts profile) (\<lambda>(session, cfg).
     let url = vrli_base_url cfg @ path; t = py_or timeout (vrli_timeout cfg) in
     bindM (session_request session meth url params body t) (\<lambda>resp.
     bindM (if vrli_looks_like_session_expired resp then
              bindM (vrli_invalidate_token opts profile) (\<lambda>_.
              bindM (vrli_session opts profile) (\<lambda>(session, cfg).
              session_request session meth url params body t))
            else pureM resp) (\<lambda>resp.
     bindM (raise_for_status resp) (\<lambda>_. pureM resp))))"

definition vrli_api_get :: "pyval \<Rightarrow> string \<Rightarrow> pyval \<Rightarrow> profile \<Rightarrow> pyval \<Rightarrow> pyval io" where
  "vrli_api_get opts path params profile timeout =
     bindM (vrli_request ''GET'' opts path params PNone profile timeout) json_or_empty"

definition vrli_api_post :: "pyval \<Rightarrow> string \<Rightarrow> pyval \<Rightarrow> pyval \<Rightarrow> profile \<Rightarrow> pyval \<Rightarrow> pyval io" where
  "vrli_api_post opts path body params profile timeout =
     bindM (vrli_request ''POST'' opts path params body profile timeout) json_or_empty"

definition vrli_api_put :: "pyval \<Rightarrow> string \<Rightarrow> pyval \<Rightarrow> pyval \<Rightarrow> profile \<Rightarrow> pyval \<Rightarrow> pyval io" where
  "vrli_api_put opts path body params profile timeout =
     bindM (vrli_request ''PUT'' opts path params body profile timeout) json_or_empty"

definition vrli_api_patch :: "pyval \<Rightarrow> string \<Rightarrow> pyval \<Rightarrow> pyval \<Rightarrow> profile \<Rightarrow> pyval \<Rightarrow> pyval io" where
  "vrli_api_patch opts path body params profile timeout =
     bindM (vrli_request ''PATCH'' opts path params body profile timeout) json_or_empty"

definition vrli_api_delete :: "pyval \<Rightarrow> string \<Rightarrow> pyval \<Rightarrow> profile \<Rightarrow> pyval \<Rightarrow> pyval io" where
  "vrli_api_delete opts path params profile timeout =
     bindM (vrli_request ''DELETE'' opts path params PNone profile timeout) (\<lambda>_. pureM empty_dict)"

lemmas vrli_api_defs = vrli_api_get_def vrli_api_post_def vrli_api_put_def vrli_api_patch_def
  vrli_api_delete_def

subsection \<open>The contract of the timed cache\<close>

lemma vrli_acquire_rules [spec_intros]:
  "returns (vrli_acquire_token cfg)" "keeps evolves (vrli_acquire_token cfg)"
  "keeps same_caches (vrli_acquire_token cfg)"
  "P (vrli_login_rq cfg) \<Longrightarrow> keeps (sends_only P) (vrli_acquire_token cfg)"
  by (auto simp: vrli_acquire_token_def intro!: spec_intros)

lemma vrli_get_token_rules [spec_intros]:
  "returns (vrli_get_token opts p)" "keeps evolves (vrli_get_token opts p)"
  by (auto simp: vrli_get_token_def Let_def intro!: spec_intros)

text \<open>A live entry is one that has not reached its expiry time.\<close>

definition vrli_live :: "cached \<Rightarrow> world \<Rightarrow> bool" where
  "vrli_live c w = vrli_fresh c (clock w)"

lemma vrli_get_token_hit:
  "vrli_get_config opts p = Ok cfg \<Longrightarrow> truthy (cfg_host cfg) \<Longrightarrow>
     cache_get Vrli_Cache (vrli_cache_key cfg) w = Some c \<Longrightarrow> vrli_live c w \<Longrightarrow>
     vrli_get_token opts p w = Some (Ok (vrli_deliver cfg c), w)"
  by (simp add: vrli_get_token_def vrli_live_def Let_def)

lemma vrli_get_token_miss:
  "vrli_get_config opts p = Ok cfg \<Longrightarrow> truthy (cfg_host cfg) \<Longrightarrow>
     (\<And>c. cache_get Vrli_Cache (vrli_cache_key cfg) w = Some c \<Longrightarrow> \<not> vrli_live c w) \<Longrightarrow>
     vrli_get_token opts p w =
       bindM (vrli_acquire_token cfg) (\<lambda>c. bindM (cache_store Vrli_Cache (vrli_cache_key cfg) c)
         (\<lambda>_. pureM (vrli_deliver cfg c))) w"
  by (auto simp: vrli_get_token_def vrli_live_def Let_def split: option.split)

lemma vrli_get_token_configured:
  "vrli_get_token opts p w = Some (Ok x, w') \<Longrightarrow> \<exists>cfg. vrli_get_config opts p = Ok cfg \<and> truthy (cfg_host cfg)"
  by (auto simp: vrli_get_token_def bindM_Some_iff split: if_splits)

lemma vrli_get_token_granted:
  "vrli_get_token opts p w = Some (Ok x, w') \<Longrightarrow>
     \<exists>cfg c. vrli_get_config opts p = Ok cfg \<and> cache_get Vrli_Cache (vrli_cache_key cfg) w' = Some c \<and>
       x = vrli_deliver cfg c"
  by (auto simp: vrli_get_token_def bindM_Some_iff Let_def split: option.splits if_splits)

lemma vrli_get_token_refused:
  "vrli_get_token opts p w = Some (Exc e, w') \<Longrightarrow> vrli_get_config opts p = Ok cfg \<Longrightarrow>
     cache_get Vrli_Cache (vrli_cache_key cfg) w' = cache_get Vrli_Cache (vrli_cache_key cfg) w"
  using keepsD [OF vrli_acquire_rules(3), THEN same_caches_get]
  by (auto simp: vrli_get_token_def bindM_Some_iff Let_def split: if_splits)

lemma vrli_get_token_local:
  assumes "vrli_get_config opts p = Ok cfg"
  shows "keeps (touches_only Vrli_Cache (vrli_cache_key cfg)) (vrli_get_token opts p)"
  using assms unfolding vrli_get_token_def Let_def
  by (simp only: bindM_laws)
    (auto intro!: spec_intros same_caches_touches [OF vrli_acquire_rules(3)] simp del: run_simps)

interpretation vrli: timed_login_cache vrli_get_token vrli_invalidate_token vrli_get_config Vrli_Cache
  vrli_cache_key vrli_live vrli_deliver
proof unfold_locales
  show "vrli_get_token opts p w = Some (Ok (vrli_deliver cfg c), w) \<or> (\<exists>e. vrli_get_token opts p w = Some (Exc e, w))"
    if "vrli_get_config opts p = Ok cfg" "cache_get Vrli_Cache (vrli_cache_key cfg) w = Some c" "vrli_live c w"
    for opts p cfg w c
    using that vrli_get_token_hit [OF that(1) _ that(2,3)]
    by (cases "truthy (cfg_host cfg)") (auto simp: vrli_get_token_def)
  show "vrli_get_token opts p w1 = Some (Ok (vrli_deliver cfg c), w1)"
    if "vrli_get_token opts p w = Some (Ok x, w')" "vrli_get_config opts p = Ok cfg"
      "cache_get Vrli_Cache (vrli_cache_key cfg) w1 = Some c" "vrli_live c w1" for opts p w x w' cfg w1 c
    using that vrli_get_token_configured [OF that(1)] by (auto intro: vrli_get_token_hit)
  show "vrli_invalidate_token opts p w = Some (Ok (), cache_upd Vrli_Cache (vrli_cache_key cfg) None w)"
    if "vrli_get_config opts p = Ok cfg" for opts p cfg w
    using that by (simp add: vrli_invalidate_token_def drop_login_def)
qed (fact vrli_get_token_granted vrli_get_token_refused vrli_get_token_local vrli_get_token_rules)+

lemma vrli_session_rules [spec_intros]:
  "returns (vrli_session opts p)" "keeps evolves (vrli_session opts p)"
  by (auto simp: vrli_session_def intro!: spec_intros)

lemma vrli_request_rules [spec_intros]:
  "returns (vrli_request m opts path q b p t)" "keeps evolves (vrli_request m opts path q b p t)"
  by (auto simp: vrli_request_def vrli_invalidate_token_def Let_def intro!: spec_intros)

lemma vrli_api_rules [spec_intros]:
  "returns (vrli_api_get opts path q p t)" "returns (vrli_api_post opts path b q p t)"
  "returns (vrli_api_put opts path b q p t)" "returns (vrli_api_patch opts path b q p t)"
  "returns (vrli_api_delete opts path q p t)"
  by (auto simp: vrli_api_defs intro!: spec_intros)

text \<open>A call changes only the cache of this helper.\<close>

lemma vrli_get_token_only [spec_intros]: "keeps (only_cache Vrli_Cache) (vrli_get_token opts p)"
  by (auto simp: vrli_get_token_def Let_def
      intro!: spec_intros same_caches_only [OF vrli_acquire_rules(3)])

lemma vrli_request_only [spec_intros]: "keeps (only_cache Vrli_Cache) (vrli_request m opts path q b p t)"
  by (auto simp: vrli_request_def vrli_session_def vrli_invalidate_token_def Let_def intro!: spec_intros)

subsection \<open>The retry after an expired session\<close>

lemma vrli_session_unauthorized: "keeps (sends_only (\<lambda>rq. \<not> authorized rq)) (vrli_session opts p)"
  by (auto simp: vrli_session_def vrli_get_token_def vrli_login_rq_def Let_def intro!: spec_intros)

lemma vrli_request_twice: "at_most authorized 2 (vrli_request m opts path q b p t)"
proof -
  note session = at_most_none [of authorized, OF vrli_session_unauthorized]
  have retry: "at_most authorized 1 (bindM (vrli_invalidate_token opts p) (\<lambda>_.
              bindM (vrli_session opts p) (\<lambda>(session, cfg). session_request session m u q b t')))" for u t'
    by (intro at_most_after [OF at_most_none [of authorized "vrli_invalidate_token opts p"]]
        at_most_after [OF session] at_most_session at_most_cases)
      (auto simp: vrli_invalidate_token_def intro!: spec_intros)
  show ?thesis
    unfolding vrli_request_def Let_def
    by (intro at_most_after [OF session] at_most_cases(1) at_most_two at_most_retried at_most_session
        at_most_response retry)
qed

subsection \<open>Expiry\<close>

text \<open>A cached token is handed out without any request exactly while its expiry time is ahead;
  from then on one login replaces it, and the new entry lives for 80 % of the time to live that
  the server gave, counted from the response.\<close>

theorem vrli_token_expiry:
  assumes cfg: "vrli_get_config opts p = Ok cfg"
    and hit: "cache_get Vrli_Cache (vrli_cache_key cfg) w = Some (CEntry token expires provider)"
    and run: "vrli_get_token opts p w = Some (Ok x, w')"
  shows "if clock w < expires then x = token \<and> w' = w
    else sent w' = sent w @ [vrli_login_rq cfg] \<and>
      (\<exists>ttl. cache_get Vrli_Cache (vrli_cache_key cfg) w' =
         Some (CEntry x (clock w' + 800 * ttl) (vrli_provider cfg)))"
proof -
  have host: "truthy (cfg_host cfg)"
    using vrli_get_token_configured [OF run] cfg by auto
  show ?thesis
  proof (cases "clock w < expires")
    case True
    then show ?thesis
      using vrli_get_token_hit [OF cfg host hit] run by (simp add: vrli_live_def vrli_fresh_def vrli_deliver_def)
  next
    case False
    then have "vrli_get_token opts p w = bindM (vrli_acquire_token cfg)
        (\<lambda>c. bindM (cache_store Vrli_Cache (vrli_cache_key cfg) c) (\<lambda>_. pureM (vrli_deliver cfg c))) w"
      using hit by (intro vrli_get_token_miss [OF cfg host]) (simp add: vrli_live_def vrli_fresh_def)
    with run False show ?thesis
      by (auto simp: bindM_Some_iff vrli_acquire_token_def vrli_deliver_def REFRESH_MS_def
          dest!: http_send_sent raise_for_status_Ok)
  qed
qed

lemma vrli_token_expiry_witness:
  "let w = cache_upd Vrli_Cache ''h:9543:u'' (Some (CEntry (PStr ''old'') 0 (PStr ''Local'')))
         (scripted [body_reply (PDict [(''sessionId'', PStr ''new''), (''ttl'', PInt 100)])]);
       run = the (vrli_get_token (opts_for ''vrli'') None w)
   in fst run = Ok (PStr ''new'') \<and> length (sent (snd run)) = 1"
proof -
  let ?w = "cache_upd Vrli_Cache ''h:9543:u'' (Some (CEntry (PStr ''old'') 0 (PStr ''Local'')))
         (scripted [body_reply (PDict [(''sessionId'', PStr ''new''), (''ttl'', PInt 100)])])"
  let ?cfg = "\<lparr>cfg_host = PStr ''h'', cfg_username = PStr ''u'', cfg_password = PStr ''p'',
    cfg_verify_ssl = PBool True, vrli_port = 9543, vrli_provider = PStr ''Local'', vrli_timeout = PInt 30,
    vrli_ssh = empty_dict\<rparr>"
  have cfg: "vrli_get_config (opts_for ''vrli'') None = Ok ?cfg" by code_simp
  have key: "vrli_cache_key ?cfg = ''h:9543:u''" by code_simp
  have hit: "cache_get Vrli_Cache (vrli_cache_key ?cfg) ?w = Some (CEntry (PStr ''old'') 0 (PStr ''Local''))"
    by (simp add: key)
  have run: "map_option fst (vrli_get_token (opts_for ''vrli'') None ?w) = Some (Ok (PStr ''new''))" by code_simp
  from vrli_token_expiry [OF cfg hit run_result [OF run]] run show ?thesis
    by (auto simp: Let_def scripted_def)
qed

lemma vrli_session_miss:
  assumes cfg: "vrli_get_config opts p = Ok cfg" "truthy (cfg_host cfg)"
    and none: "cache_get Vrli_Cache (vrli_cache_key cfg) w = None"
    and run: "bindM (vrli_session opts p) f w = Some (r, w')"
    and later: "\<And>x. keeps evolves (f x)"
  shows "\<exists>later. sent w' = sent w @ vrli_login_rq cfg # later"
proof -
  let ?k = "\<lambda>resp. bindM (raise_for_status resp) (\<lambda>_.
     bindM (liftR (bindR (response_json resp) vrli_login_body)) (\<lambda>(session_id, ttl).
     bindM monotonic (\<lambda>now.
     pureM (CEntry session_id (now + ttl * REFRESH_MS) (vrli_provider cfg)))))"
  let ?g = "\<lambda>resp. bindM (bindM (?k resp) (\<lambda>c. bindM (cache_store Vrli_Cache (vrli_cache_key cfg) c)
      (\<lambda>_. pureM (vrli_deliver cfg c))))
    (\<lambda>token. f (session_with (cfg_verify_ssl cfg)
         [(''Authorization'', PStr (''Bearer '' @ py_str token)), (''Accept'', PStr ''application/json'')], cfg))"
  have "bindM (vrli_get_token opts p) (\<lambda>token. f (session_with (cfg_verify_ssl cfg)
         [(''Authorization'', PStr (''Bearer '' @ py_str token)), (''Accept'', PStr ''application/json'')], cfg)) w
      = Some (r, w')"
    using run cfg by (simp add: vrli_session_def bindM_assoc)
  moreover have "vrli_get_token opts p w = bindM (http_send (vrli_login_rq cfg))
      (\<lambda>resp. bindM (?k resp) (\<lambda>c. bindM (cache_store Vrli_Cache (vrli_cache_key cfg) c)
      (\<lambda>_. pureM (vrli_deliver cfg c)))) w"
    using none vrli_get_token_miss [OF cfg, of w] by (simp add: vrli_acquire_token_def bindM_assoc)
  ultimately have "bindM (http_send (vrli_login_rq cfg)) ?g w = Some (r, w')"
    by (simp add: bindM_def [of "vrli_get_token opts p"] bindM_assoc [symmetric])
      (simp add: bindM_def)
  moreover have "keeps evolves (?g resp)" for resp
    using later by (intro spec_intros)
  ultimately show ?thesis by (rule first_request_sent)
qed

text \<open>Only a 401 whose body says that the session expired leads to a second login. Any other
  response - another 401 included - ends the request: it is returned or raised after one
  exchange, and the cached token stays.\<close>

theorem vrli_retry_only_when_expired:
  assumes cfg: "vrli_get_config opts p = Ok cfg" "truthy (cfg_host cfg)"
    and hit: "cache_get Vrli_Cache (vrli_cache_key cfg) w = Some (CEntry token expires provider)" "clock w < expires"
    and rq: "rq = session_rq (session_with (cfg_verify_ssl cfg)
        [(''Authorization'', PStr (''Bearer '' @ py_str token)), (''Accept'', PStr ''application/json'')])
        m (vrli_base_url cfg @ path) q b [] (py_or t (vrli_timeout cfg))"
    and reply: "net w (clock w) (sent w @ [rq]) = Reply d resp" "documented_response resp"
    and run: "vrli_request m opts path q b p t w = Some (r, w')"
  shows "if vrli_looks_like_session_expired resp
    then \<exists>later. sent w' = sent w @ rq # vrli_login_rq cfg # later
    else sent w' = sent w @ [rq] \<and>
      cache_get Vrli_Cache (vrli_cache_key cfg) w' = Some (CEntry token expires provider) \<and>
      (case r of Ok x \<Rightarrow> x = resp \<and> status_code resp \<noteq> 401 | Exc e \<Rightarrow> http_status_is e (status_code resp))"
proof -
  let ?w1 = "w\<lparr>sent := sent w @ [rq], clock := clock w + int d\<rparr>"
  let ?tail = "bindM (if vrli_looks_like_session_expired resp then
              bindM (vrli_invalidate_token opts p) (\<lambda>_.
              bindM (vrli_session opts p) (\<lambda>(session, cfg').
              session_request session m (vrli_base_url cfg @ path) q b (py_or t (vrli_timeout cfg))))
            else pureM resp) (\<lambda>resp. bindM (raise_for_status resp) (\<lambda>_. pureM resp))"
  have "vrli_get_token opts p w = Some (Ok token, w)"
    using vrli_get_token_hit [OF cfg hit(1)] hit(2) by (simp add: vrli_live_def vrli_fresh_def vrli_deliver_def)
  then have "vrli_session opts p w = Some (Ok (session_with (cfg_verify_ssl cfg)
        [(''Authorization'', PStr (''Bearer '' @ py_str token)), (''Accept'', PStr ''application/json'')], cfg), w)"
    using cfg by (simp add: vrli_session_def)
  then have tail: "?tail ?w1 = Some (r, w')"
    using run reply rq
    by (simp add: vrli_request_def Let_def session_request_def http_send_def bindM_def [of "http_send a" for a])
  show ?thesis
  proof (cases "vrli_looks_like_session_expired resp")
    case False
    with tail hit reply(2) show ?thesis
      by (auto simp: bindM_Some_iff raise_for_status_def http_status_is_def documented_response_def Let_def
          split: if_splits option.splits)
  next
    case True
    let ?w2 = "cache_upd Vrli_Cache (vrli_cache_key cfg) None ?w1"
    from tail True cfg have "bindM (vrli_session opts p) (\<lambda>s.
        bindM (session_request (fst s) m (vrli_base_url cfg @ path) q b (py_or t (vrli_timeout cfg)))
          (\<lambda>resp. bindM (raise_for_status resp) (\<lambda>_. pureM resp))) ?w2 = Some (r, w')"
      by (simp add: vrli_invalidate_token_def drop_login_def bindM_assoc case_prod_beta)
    from vrli_session_miss [OF cfg _ this] True show ?thesis
      by (auto intro!: spec_intros)
  qed
qed

lemma vrli_retry_only_when_expired_witness:
  "let w = cache_upd Vrli_Cache ''h:9543:u'' (Some (CEntry (PStr ''tok'') 1000 (PStr ''Local'')))
         (scripted [code_reply 401]);
       run = the (vrli_request ''GET'' (opts_for ''vrli'') ''/x'' PNone PNone None PNone w)
   in (\<exists>e. fst run = Exc e \<and> http_status_is e 401) \<and> length (sent (snd run)) = 1"
proof -
  let ?w = "cache_upd Vrli_Cache ''h:9543:u'' (Some (CEntry (PStr ''tok'') 1000 (PStr ''Local'')))
         (scripted [code_reply 401])"
  let ?o = "opts_for ''vrli''"
  let ?cfg = "\<lparr>cfg_host = PStr ''h'', cfg_username = PStr ''u'', cfg_password = PStr ''p'',
    cfg_verify_ssl = PBool True, vrli_port = 9543, vrli_provider = PStr ''Local'', vrli_timeout = PInt 30,
    vrli_ssh = empty_dict\<rparr>"
  have cfg: "vrli_get_config ?o None = Ok ?cfg" "truthy (cfg_host ?cfg)" by code_simp+
  have key: "vrli_cache_key ?cfg = ''h:9543:u''" by code_simp
  have hit: "cache_get Vrli_Cache (vrli_cache_key ?cfg) ?w = Some (CEntry (PStr ''tok'') 1000 (PStr ''Local''))"
    "clock ?w < 1000" by (simp_all add: key scripted_def)
  have reply: "net ?w (clock ?w) (sent ?w @ [rq]) = Reply 5 (text_response 401 ''error'')" for rq
    by (simp add: scripted_def script_net_def code_reply_def replies_def)
  have run: "map_option fst (vrli_request ''GET'' ?o ''/x'' PNone PNone None PNone ?w) =
    Some (Exc (HTTPError ''401 Client Error: status for url: url'' (Some (text_response 401 ''error''))))"
    by code_simp
  have "\<not> vrli_looks_like_session_expired (text_response 401 ''error'')" by code_simp
  with vrli_retry_only_when_expired [OF cfg hit refl reply responses_documented(2) run_result [OF run]] run show ?thesis
    by (auto simp: Let_def text_response_def scripted_def)
qed

end
