(* ===== verification/Vcfa.thy ===== *)
theory Vcfa
  imports Scenario
begin

section \<open>Vcfa: \<open>utils/vcfa.py\<close>\<close>

text \<open>
  The VCF Automation helper: the refresh token and the bearer of the two-step login, cached per
  host and user in \<open>_TOKEN_CACHE\<close> (\<open>Vcfa_Cache\<close>); \<open>_request\<close>, which mints a new bearer from
  the refresh token once when the server answers 401; and \<open>wait_for_deployment\<close>.
\<close>

subsection \<open>Tokens\<close>

definition vcfa_DEFAULT_TIMEOUT :: pyval where "vcfa_DEFAULT_TIMEOUT = PInt 30"

definition vcfa_DEFAULT_DOMAIN :: pyval where "vcfa_DEFAULT_DOMAIN = PStr ''System Domain''"

record vcfa_config = conn_config +
  vcfa_domain :: pyval
  vcfa_timeout :: pyval

definition vcfa_get_config :: "pyval \<Rightarrow> profile \<Rightarrow> vcfa_config res" where
  "vcfa_get_config opts profile =
     bindR (product_section ''vcfa'' opts profile) (\<lambda>cfg.
     bindR (base_config cfg) (\<lambda>base.
     bindR (py_get cfg ''domain'' vcfa_DEFAULT_DOMAIN) (\<lambda>domain.
     bindR (py_get cfg ''timeout'' vcfa_DEFAULT_TIMEOUT) (\<lambda>timeout.
     Ok (conn_config.extend base \<lparr>vcfa_domain = domain, vcfa_timeout = timeout\<rparr>)))))"

definition vcfa_resolve_timeout :: "pyval \<Rightarrow> profile \<Rightarrow> pyval \<Rightarrow> pyval res" where
  "vcfa_resolve_timeout opts profile override =
     (if override \<noteq> PNone then Ok override
      else bindR (vcfa_get_config opts profile) (\<lambda>cfg. Ok (vcfa_timeout cfg)))"

definition vcfa_login_rq :: "vcfa_config \<Rightarrow> request" where
  "vcfa_login_rq cfg =
     plain_request ''POST'' (https_url (cfg_host cfg) ''/csp/gateway/am/api/login'')
       (PDict [(''username'', cfg_username cfg), (''password'', cfg_password cfg), (''domain'', vcfa_domain cfg)])
       PNone [] PNone (cfg_verify_ssl cfg) (vcfa_timeout cfg)"

definition vcfa_acquire_refresh_token :: "vcfa_config \<Rightarrow> pyval io" where
  "vcfa_acquire_refresh_token cfg =
     token_request (vcfa_login_rq cfg) (\<lambda>body. py_item body ''refresh_token'')"

definition vcfa_exchange_rq :: "vcfa_config \<Rightarrow> pyval \<Rightarrow> request" where
  "vcfa_exchange_rq cfg refresh_token =
     plain_request ''POST'' (https_url (cfg_host cfg) ''/iaas/api/login'')
       (PDict [(''refreshToken'', refresh_token)]) PNone [] PNone (cfg_verify_ssl cfg) (vcfa_timeout cfg)"

definition vcfa_exchange_for_bearer :: "vcfa_config \<Rightarrow> pyval \<Rightarrow> pyval io" where
  "vcfa_exchange_for_bearer cfg refresh_token =
     token_request (vcfa_exchange_rq cfg refresh_token) (\<lambda>body. py_item body ''token'')"

definition vcfa_acquire_tokens :: "vcfa_config \<Rightarrow> cached io" where
  "vcfa_acquire_tokens cfg =
     bindM (vcfa_acquire_refresh_token cfg) (\<lambda>refresh.
     bindM (vcfa_exchange_for_bearer cfg refresh) (\<lambda>bearer. pureM (CPair refresh bearer)))"

fun pair_of :: "cached \<Rightarrow> pyval \<times> pyval" where
  "pair_of (CPair r b) = (r, b)"
| "pair_of _ = (PNone, PNone)"

definition vcfa_get_tokens :: "pyval \<Rightarrow> profile \<Rightarrow> (pyval \<times> pyval) io" where
  "vcfa_get_tokens =
     cached_login vcfa_get_config Vcfa_Cache host_user_key vcfa_acquire_tokens (\<lambda>_. pair_of)"

definition vcfa_invalidate_token :: "pyval \<Rightarrow> profile \<Rightarrow> unit io" where
  "vcfa_invalidate_token = drop_login vcfa_get_config Vcfa_Cache host_user_key"

definition vcfa_refresh_bearer :: "pyval \<Rightarrow> profile \<Rightarrow> pyval io" where
  "vcfa_refresh_bearer opts profile =
     bindM (liftR (vcfa_get_config opts profile)) (\<lambda>cfg.
     bindM (cache_lookup Vcfa_Cache (host_user_key cfg)) (\<lambda>hit.
     case hit of
       None \<Rightarrow> bindM (vcfa_get_tokens opts profile) (\<lambda>tokens. pureM (snd tokens))
     | Some c \<Rightarrow>
         let refresh = fst (pair_of c) in
         bindM (vcfa_exchange_for_bearer cfg refresh) (\<lambda>bearer.
         bindM (cache_store Vcfa_Cache (host_user_key cfg) (CPair refresh bearer)) (\<lambda>_.
         pureM bearer))))"

subsection \<open>Requests\<close>

definition vcfa_bearer :: "pyval \<Rightarrow> pyval" where
  "vcfa_bearer token = PStr (''Bearer '' @ py_str token)"

definition vcfa_authed :: "vcfa_config \<Rightarrow> pyval \<Rightarrow> session" where
  "vcfa_authed cfg bearer =
     session_with (cfg_verify_ssl cfg)
       [(''Authorization'', vcfa_bearer bearer), (''Accept'', PStr ''application/json'')]"

definition vcfa_session :: "pyval \<Rightarrow> profile \<Rightarrow> (session \<times> pyval) io" where
  "vcfa_session opts profile =
     bindM (liftR (vcfa_get_config opts profile)) (\<lambda>cfg.
     bindM (vcfa_get_tokens opts profile) (\<lambda>(_, bearer).
     pureM (vcfa_authed cfg bearer, cfg_host cfg)))"

text \<open>The second attempt after a 401, on the same session with a new bearer.\<close>

definition vcfa_retry ::
  "string \<Rightarrow> pyval \<Rightarrow> string \<Rightarrow> pyval \<Rightarrow> pyval \<Rightarrow> profile \<Rightarrow> session \<Rightarrow> pyval \<Rightarrow> http_response io" where
  "vcfa_retry meth opts url params body profile session timeout =
     bindM (vcfa_refresh_bearer opts profile) (\<lambda>new_bearer.
     bindM (session_send (session\<lparr>s_headers := dset (s_headers session) ''Authorization'' (vcfa_bearer new_bearer)\<rparr>)
         meth url params body [] timeout) (\<lambda>(resp, _). pureM resp))"

definition vcfa_request ::
  "string \<Rightarrow> pyval \<Rightarrow> string \<Rightarrow> pyval \<Rightarrow> pyval \<Rightarrow> profile \<Rightarrow> pyval \<Rightarrow> http_response io" where
  "vcfa_request meth opts path params body profile timeout =
     bindM (vcfa_session opts profile) (\<lambda>(session, host).
     let url = https_url host path in
     bindM (liftR (vcfa_resolve_timeout opts profile timeout)) (\<lambda>eff_timeout.
     bindM (session_send session meth url params body [] eff_timeout) (\<lambda>(resp, session).
     bindM (if status_code resp = 401 then vcfa_retry meth opts url params body profile session eff_timeout
            else pureM resp) (\<lambda>resp.
     bindM (raise_for_status resp) (\<lambda>_. pureM resp)))))"

definition vcfa_api_get :: "pyval \<Rightarrow> string \<Rightarrow> pyval \<Rightarrow> profile \<Rightarrow> pyval \<Rightarrow> pyval io" where
  "vcfa_api_get opts path params profile timeout =
     bindM (vcfa_request ''GET'' opts path params PNone profile timeout) json_or_empty"

definition vcfa_api_post :: "pyval \<Rightarrow> string \<Rightarrow> pyval \<Rightarrow> pyval \<Rightarrow> profile \<Rightarrow> pyval \<Rightarrow> pyval io" where
  "vcfa_api_post opts path body params profile timeout =
     bindM (vcfa_request ''POST'' opts path params body profile timeout) json_or_empty"

definition vcfa_api_put :: "pyval \<Rightarrow> string \<Rightarrow> pyval \<Rightarrow> pyval \<Rightarrow> profile \<Rightarrow> pyval \<Rightarrow> pyval io" where
  "vcfa_api_put opts path body params profile timeout =
     bindM (vcfa_request ''PUT'' opts path params body profile timeout) json_or_empty"

definition vcfa_api_patch :: "pyval \<Rightarrow> string \<Rightarrow> pyval \<Rightarrow> pyval \<Rightarrow> profile \<Rightarrow> pyval \<Rightarrow> pyval io" where
  "vcfa_api_patch opts path body params profile timeout =
     bindM (vcfa_request ''PATCH'' opts path params body profile timeout) json_or_empty"

definition vcfa_api_delete :: "pyval \<Rightarrow> string \<Rightarrow> pyval \<Rightarrow> profile \<Rightarrow> pyval \<Rightarrow> pyval io" where
  "vcfa_api_delete opts path params profile timeout =
     bindM (vcfa_request ''DELETE'' opts path params PNone profile timeout) (\<lambda>_. pureM empty_dict)"

lemmas vcfa_api_defs = vcfa_api_get_def vcfa_api_post_def vcfa_api_put_def vcfa_api_patch_def
  vcfa_api_delete_def

text \<open>The multipart \<open>POST\<close>; its form stands in the data field of the request.\<close>

definition vcfa_multipart_rq :: "session \<Rightarrow> string \<Rightarrow> pyval \<Rightarrow> pyval \<Rightarrow> pyval \<Rightarrow> request" where
  "vcfa_multipart_rq session url files params timeout =
     (session_rq session ''POST'' url params PNone [] timeout)\<lparr>rq_data := files\<rparr>"

definition vcfa_api_post_multipart :: "pyval \<Rightarrow> string \<Rightarrow> pyval \<Rightarrow> pyval \<Rightarrow> profile \<Rightarrow> pyval \<Rightarrow> pyval io" where
  "vcfa_api_post_multipart opts path files params profile timeout =
     bindM (vcfa_session opts profile) (\<lambda>(session, host).
     let url = https_url host path in
     bindM (liftR (vcfa_resolve_timeout opts profile timeout)) (\<lambda>eff_timeout.
     let session = session\<lparr>s_headers := ddel (s_headers session) ''Content-Type''\<rparr> in
     bindM (http_send (vcfa_multipart_rq session url files params eff_timeout)) (\<lambda>resp.
     let session = session\<lparr>s_cookies := dupdate (s_cookies session) (rs_cookies resp)\<rparr> in
     bindM (if status_code resp = 401 then
              bindM (vcfa_refresh_bearer opts profile) (\<lambda>new_bearer.
              let session = session\<lparr>s_headers := dset (s_headers session) ''Authorization'' (vcfa_bearer new_bearer)\<rparr> in
              http_send (vcfa_multipart_rq session url files params eff_timeout))
            else pureM resp) (\<lambda>resp.
     bindM (raise_for_status resp) (\<lambda>_. json_or_empty resp)))))"

subsection \<open>\<open>wait_for_deployment\<close>\<close>

definition deployment_path :: "pyval \<Rightarrow> string" where
  "deployment_path deployment_id = ''/deployment/api/deployments/'' @ py_str deployment_id"

definition deployment_round ::
  "pyval \<Rightarrow> pyval \<Rightarrow> pyval \<Rightarrow> pyval \<Rightarrow> profile \<Rightarrow> int \<Rightarrow> unit \<Rightarrow> (pyval + unit) io" where
  "deployment_round opts deployment_id timeout poll_interval profile deadline u =
     bindM (vcfa_api_get opts (deployment_path deployment_id) PNone profile PNone) (\<lambda>dep.
     bindM (liftR (py_get dep ''status'' (PStr []))) (\<lambda>status.
     case status of
       PStr s \<Rightarrow>
         if ends_with s ''_SUCCESSFUL'' then pureM (Inl dep)
         else if ends_with s ''_FAILED'' then
           raiseM (RuntimeError (''deployment '' @ py_repr deployment_id @ '' failed: '' @ s))
         else
           bindM monotonic (\<lambda>t.
           if t > deadline then
             raiseM (TimeoutError (''deployment '' @ py_repr deployment_id @ '' did not finish within ''
               @ py_str timeout @ ''s (last status: '' @ repr_str s @ '')''))
           else bindM (py_sleep poll_interval) (\<lambda>_. pureM (Inr ())))
     | _ \<Rightarrow> raiseM (attr_error status ''endswith'')))"

definition vcfa_wait_for_deployment ::
  "pyval \<Rightarrow> pyval \<Rightarrow> pyval \<Rightarrow> pyval \<Rightarrow> profile \<Rightarrow> pyval io" where
  "vcfa_wait_for_deployment opts deployment_id timeout poll_interval profile =
     bindM (deadline_after timeout) (\<lambda>deadline.
     loopM (deployment_round opts deployment_id timeout poll_interval profile deadline) ())"

subsection \<open>What the programs do to the world\<close>

lemma vcfa_acquire_cacheless: "cacheless vcfa_acquire_tokens"
  by unfold_locales (auto simp: vcfa_acquire_tokens_def vcfa_acquire_refresh_token_def
      vcfa_exchange_for_bearer_def intro!: spec_intros)

interpretation vcfa: login_cache vcfa_get_tokens vcfa_invalidate_token vcfa_get_config Vcfa_Cache host_user_key
  "\<lambda>_ _. True" "\<lambda>_. pair_of"
  unfolding vcfa_get_tokens_def vcfa_invalidate_token_def
  by (rule cached_login_contract [OF vcfa_acquire_cacheless])

lemma vcfa_parts_rules [spec_intros]:
  "returns (vcfa_refresh_bearer opts p)" "keeps evolves (vcfa_refresh_bearer opts p)"
  "returns (vcfa_session opts p)" "keeps evolves (vcfa_session opts p)"
  by (auto simp: vcfa_refresh_bearer_def vcfa_exchange_for_bearer_def vcfa_session_def
      intro!: spec_intros vcfa.total vcfa.advances)

lemma vcfa_request_rules [spec_intros]:
  "returns (vcfa_request m opts path q b p t)" "keeps evolves (vcfa_request m opts path q b p t)"
  by (auto simp: vcfa_request_def vcfa_retry_def intro!: spec_intros)

lemma vcfa_api_rules [spec_intros]:
  "returns (vcfa_api_get opts path q p t)" "keeps evolves (vcfa_api_get opts path q p t)"
  "returns (vcfa_api_post opts path b q p t)" "returns (vcfa_api_put opts path b q p t)"
  "returns (vcfa_api_patch opts path b q p t)" "returns (vcfa_api_delete opts path q p t)"
  "returns (vcfa_api_post_multipart opts path f q p t)"
  by (auto simp: vcfa_api_defs vcfa_api_post_multipart_def Let_def intro!: spec_intros)

lemma deployment_round_rules [spec_intros]:
  "returns (deployment_round opts d t i p dl u)" "keeps evolves (deployment_round opts d t i p dl u)"
  by (auto simp: deployment_round_def intro!: spec_intros)

lemma deployment_round_continues:
  assumes "deployment_round opts d t i p dl u w = Some (Ok (Inr u'), w')"
  shows "clock w \<le> dl \<and> clock w + sleep_ms i \<le> clock w'"
proof -
  from assms obtain dep w1 where get: "vcfa_api_get opts (deployment_path d) PNone p PNone w = Some (Ok dep, w1)"
    and "clock w1 \<le> dl \<and> clock w1 + sleep_ms i = clock w'"
    unfolding deployment_round_def
    by (auto simp: bindM_Some_iff py_sleep_Ok split: if_splits)
  with evolves_clock [OF vcfa_api_rules(2) get] show ?thesis by simp
qed

interpretation depwait: polling "deployment_round opts d t i p dl" "\<lambda>_ w. clock w" dl "sleep_ms i"
  for opts d t i p dl
  by (rule polling_clockI [OF deployment_round_rules(1)]) (auto dest: deployment_round_continues)

text \<open>A call changes only the cache of this helper.\<close>

lemma vcfa_get_tokens_only [spec_intros]: "keeps (only_cache Vcfa_Cache) (vcfa_get_tokens opts p)"
  unfolding vcfa_get_tokens_def by (rule cached_login_only [OF vcfa_acquire_cacheless])

lemma vcfa_exchange_rules [spec_intros]:
  "returns (vcfa_exchange_for_bearer cfg r)" "keeps evolves (vcfa_exchange_for_bearer cfg r)"
  "keeps (only_cache c) (vcfa_exchange_for_bearer cfg r)"
  "keeps (sends_only (\<lambda>rq. \<not> authorized rq)) (vcfa_exchange_for_bearer cfg r)"
  by (auto simp: vcfa_exchange_for_bearer_def vcfa_exchange_rq_def
      intro!: spec_intros same_caches_only [OF token_request_rules(3)])

lemma vcfa_request_only [spec_intros]: "keeps (only_cache Vcfa_Cache) (vcfa_request m opts path q b p t)"
  by (auto simp: vcfa_request_def vcfa_retry_def vcfa_refresh_bearer_def vcfa_session_def Let_def
      intro!: spec_intros)

subsection \<open>The retry after a 401\<close>

lemma vcfa_tokens_unauthorized [spec_intros]:
  "keeps (sends_only (\<lambda>rq. \<not> authorized rq)) (vcfa_get_tokens opts p)"
  by (auto simp: vcfa_get_tokens_def vcfa_acquire_tokens_def vcfa_acquire_refresh_token_def vcfa_login_rq_def
      intro!: spec_intros)

lemma vcfa_request_twice: "at_most authorized 2 (vcfa_request m opts path q b p t)"
proof -
  have session: "at_most authorized 0 (vcfa_session opts p)"
    by (auto simp: vcfa_session_def intro!: at_most_none spec_intros)
  have refresh: "at_most authorized 0 (vcfa_refresh_bearer opts p)"
    by (auto simp: vcfa_refresh_bearer_def intro!: at_most_none spec_intros)
  have retry: "at_most authorized 1 (vcfa_retry m opts u q b p s t')" for u s t'
    unfolding vcfa_retry_def
    by (intro at_most_after [OF refresh] at_most_before at_most_session at_most_cases)
      (auto intro!: at_most_none spec_intros)
  show ?thesis
    unfolding vcfa_request_def Let_def
    by (intro at_most_after [OF session] at_most_after [OF at_most_none [of authorized "liftR r" for r]]
        at_most_cases(1) at_most_two at_most_retried at_most_session at_most_response retry)
      (auto intro!: spec_intros)
qed

text \<open>A request with cached tokens, up to the first response.\<close>

lemma vcfa_request_first:
  assumes cfg: "vcfa_get_config opts p = Ok cfg"
    and hit: "cache_get Vcfa_Cache (host_user_key cfg) w = Some (CPair refresh bearer)"
    and tmo: "vcfa_resolve_timeout opts p t = Ok tmo"
    and rq: "rq = session_rq (vcfa_authed cfg bearer) m (https_url (cfg_host cfg) path) q b [] tmo"
    and reply: "net w (clock w) (sent w @ [rq]) = Reply d resp"
  shows "vcfa_request m opts path q b p t w =
    bindM (if status_code resp = 401
           then vcfa_retry m opts (https_url (cfg_host cfg) path) q b p
             ((vcfa_authed cfg bearer)\<lparr>s_cookies := dupdate [] (rs_cookies resp)\<rparr>) tmo
           else pureM resp)
      (\<lambda>resp. bindM (raise_for_status resp) (\<lambda>_. pureM resp))
      (w\<lparr>sent := sent w @ [rq], clock := clock w + int d\<rparr>)"
proof -
  have "vcfa_session opts p w = Some (Ok (vcfa_authed cfg bearer, cfg_host cfg), w)"
    using cfg hit by (simp add: vcfa_session_def vcfa_get_tokens_def cached_login_hit)
  then show ?thesis
    using tmo reply rq
    by (simp add: vcfa_request_def Let_def session_send_def http_send_def bindM_def [of "session_send a b' c d' e f g" for a b' c d' e f g]
        bindM_def [of "http_send a" for a] vcfa_authed_def session_with_def new_session_def)
qed

text \<open>A successful request with cached tokens is one exchange, unless the server answers 401: then
  a new bearer is minted from the cached refresh token - the password is not sent again - and put
  into the cache beside that refresh token, and the request goes out once more with it.\<close>

theorem vcfa_retry_refreshes:
  assumes cfg: "vcfa_get_config opts p = Ok cfg"
    and hit: "cache_get Vcfa_Cache (host_user_key cfg) w = Some (CPair refresh bearer)"
    and tmo: "vcfa_resolve_timeout opts p t = Ok tmo"
    and rq: "rq = (\<lambda>s. session_rq s m (https_url (cfg_host cfg) path) q b [] tmo)"
    and reply: "net w (clock w) (sent w @ [rq (vcfa_authed cfg bearer)]) = Reply d resp"
    and run: "vcfa_request m opts path q b p t w = Some (Ok x, w')"
  shows "if status_code resp = 401
    then \<exists>bearer'. sent w' = sent w @ [rq (vcfa_authed cfg bearer), vcfa_exchange_rq cfg refresh,
        rq ((vcfa_authed cfg bearer')\<lparr>s_cookies := dupdate [] (rs_cookies resp)\<rparr>)] \<and>
      cache_get Vcfa_Cache (host_user_key cfg) w' = Some (CPair refresh bearer')
    else sent w' = sent w @ [rq (vcfa_authed cfg bearer)] \<and>
      cache_get Vcfa_Cache (host_user_key cfg) w' = Some (CPair refresh bearer)"
proof -
  let ?w1 = "w\<lparr>sent := sent w @ [rq (vcfa_authed cfg bearer)], clock := clock w + int d\<rparr>"
  let ?url = "https_url (cfg_host cfg) path" and ?key = "host_user_key cfg"
  let ?s = "(vcfa_authed cfg bearer)\<lparr>s_cookies := dupdate [] (rs_cookies resp)\<rparr>"
  note first = vcfa_request_first [OF cfg hit tmo, where rq = "rq (vcfa_authed cfg bearer)", unfolded rq,
      OF refl reply [unfolded rq]]
  show ?thesis
  proof (cases "status_code resp = 401")
    case True
    with run first obtain r w2 where retry: "vcfa_retry m opts ?url q b p ?s tmo ?w1 = Some (Ok r, w2)" and "w' = w2"
      by (auto simp: bindM_Some_iff [of "vcfa_retry a1 a2 a3 a4 a5 a6 a7 a8" for a1 a2 a3 a4 a5 a6 a7 a8]
          bindM_Some_iff [of "raise_for_status a" for a] rq dest: raise_for_status_Ok)
    from retry hit cfg obtain bearer' w3
      where "vcfa_exchange_for_bearer cfg refresh ?w1 = Some (Ok bearer', w3)"
        and again: "bindM (session_send (?s\<lparr>s_headers := dset (s_headers ?s) ''Authorization'' (vcfa_bearer bearer')\<rparr>)
          m ?url q b [] tmo) (\<lambda>(resp, _). pureM resp)
          (cache_upd Vcfa_Cache ?key (Some (CPair refresh bearer')) w3) = Some (Ok r, w')"
      unfolding \<open>w' = w2\<close>
      by (auto simp: vcfa_retry_def vcfa_refresh_bearer_def bindM_Some_iff Let_def)
    then have "sent w3 = sent w @ [rq (vcfa_authed cfg bearer), vcfa_exchange_rq cfg refresh]"
      by (auto simp: vcfa_exchange_for_bearer_def dest!: token_request_sent)
    moreover have "?s\<lparr>s_headers := dset (s_headers ?s) ''Authorization'' (vcfa_bearer bearer')\<rparr>
        = (vcfa_authed cfg bearer')\<lparr>s_cookies := dupdate [] (rs_cookies resp)\<rparr>"
      by (simp add: vcfa_authed_def session_with_def)
    ultimately have "sent w' = sent w @ [rq (vcfa_authed cfg bearer), vcfa_exchange_rq cfg refresh,
        rq ((vcfa_authed cfg bearer')\<lparr>s_cookies := dupdate [] (rs_cookies resp)\<rparr>)]"
      using again by (auto simp: rq bindM_Some_iff dest!: session_send_sent)
    moreover have "cache_get Vcfa_Cache ?key w' = Some (CPair refresh bearer')"
      using again keepsD [OF session_send_rules(4), THEN same_caches_get] by (auto simp: bindM_Some_iff)
    ultimately show ?thesis using True by auto
  next
    case False
    with run first have "w' = ?w1"
      by (auto simp: bindM_Some_iff rq dest: raise_for_status_Ok)
    with False hit show ?thesis by simp
  qed
qed

lemma vcfa_retry_refreshes_witness:
  "let w = cache_upd Vcfa_Cache ''h:u'' (Some (CPair (PStr ''refresh'') (PStr ''old'')))
         (scripted [code_reply 401, body_reply (PDict [(''token'', PStr ''new'')]), body_reply (PInt 7)]);
       run = the (vcfa_request ''GET'' (opts_for ''vcfa'') ''/x'' PNone PNone None PNone w)
   in (\<exists>r. fst run = Ok r) \<and> length (sent (snd run)) = 3 \<and>
      (\<exists>t. cache_get Vcfa_Cache ''h:u'' (snd run) = Some (CPair (PStr ''refresh'') t))"
proof -
  let ?w = "cache_upd Vcfa_Cache ''h:u'' (Some (CPair (PStr ''refresh'') (PStr ''old'')))
         (scripted [code_reply 401, body_reply (PDict [(''token'', PStr ''new'')]), body_reply (PInt 7)])"
  let ?o = "opts_for ''vcfa''"
  let ?m = "vcfa_request ''GET'' ?o ''/x'' PNone PNone None PNone"
  let ?cfg = "\<lparr>cfg_host = PStr ''h'', cfg_username = PStr ''u'', cfg_password = PStr ''p'',
    cfg_verify_ssl = PBool True, vcfa_domain = PStr ''System Domain'', vcfa_timeout = PInt 30\<rparr>"
  have run: "map_option fst (?m ?w) = Some (Ok (json_response 200 (PInt 7)))" by code_simp
  have cfg: "vcfa_get_config ?o None = Ok ?cfg" by code_simp
  have tmo: "vcfa_resolve_timeout ?o None PNone = Ok (PInt 30)" by code_simp
  have hit: "cache_get Vcfa_Cache (host_user_key ?cfg) ?w = Some (CPair (PStr ''refresh'') (PStr ''old''))"
    by (simp add: host_user_key_def)
  have reply: "net ?w (clock ?w) (sent ?w @ [rq]) = Reply 5 (text_response 401 ''error'')" for rq
    by (simp add: scripted_def script_net_def code_reply_def replies_def)
  from vcfa_retry_refreshes [OF cfg hit tmo refl reply run_result [OF run]] run show ?thesis
    by (auto simp: Let_def text_response_def scripted_def host_user_key_def)
qed

text \<open>A refresh token that the server no longer takes is never dropped: when the exchange after a
  401 fails, the request fails with that error and the cached pair stays, so that every later
  request runs into the same failure until \<open>invalidate_token\<close> is called.\<close>

theorem vcfa_dead_refresh_token_stays:
  assumes cfg: "vcfa_get_config opts p = Ok cfg"
    and hit: "cache_get Vcfa_Cache (host_user_key cfg) w = Some (CPair refresh bearer)"
    and tmo: "vcfa_resolve_timeout opts p t = Ok tmo"
    and rq: "rq = session_rq (vcfa_authed cfg bearer) m (https_url (cfg_host cfg) path) q b [] tmo"
    and reply: "net w (clock w) (sent w @ [rq]) = Reply d resp" "status_code resp = 401"
    and dead: "vcfa_exchange_for_bearer cfg refresh (w\<lparr>sent := sent w @ [rq], clock := clock w + int d\<rparr>)
      = Some (Exc e, w')"
  shows "vcfa_request m opts path q b p t w = Some (Exc e, w') \<and>
    cache_get Vcfa_Cache (host_user_key cfg) w' = Some (CPair refresh bearer)"
proof -
  let ?w1 = "w\<lparr>sent := sent w @ [rq], clock := clock w + int d\<rparr>"
  have "vcfa_refresh_bearer opts p ?w1 = Some (Exc e, w')"
    using cfg hit dead by (simp add: vcfa_refresh_bearer_def Let_def)
  then show ?thesis
    using vcfa_request_first [OF cfg hit tmo rq reply(1)] reply(2) hit
      same_caches_get [OF keepsD [OF token_request_rules(3) dead [unfolded vcfa_exchange_for_bearer_def]]]
    by (simp add: vcfa_retry_def)
qed

lemma vcfa_dead_refresh_token_stays_witness:
  "let w = cache_upd Vcfa_Cache ''h:u'' (Some (CPair (PStr ''refresh'') (PStr ''old'')))
         (scripted [code_reply 401, code_reply 400]);
       run = the (vcfa_request ''GET'' (opts_for ''vcfa'') ''/x'' PNone PNone None PNone w)
   in (\<exists>e. fst run = Exc e) \<and>
      cache_get Vcfa_Cache ''h:u'' (snd run) = Some (CPair (PStr ''refresh'') (PStr ''old''))"
proof -
  let ?w = "cache_upd Vcfa_Cache ''h:u'' (Some (CPair (PStr ''refresh'') (PStr ''old'')))
         (scripted [code_reply 401, code_reply 400])"
  let ?o = "opts_for ''vcfa''"
  let ?cfg = "\<lparr>cfg_host = PStr ''h'', cfg_username = PStr ''u'', cfg_password = PStr ''p'',
    cfg_verify_ssl = PBool True, vcfa_domain = PStr ''System Domain'', vcfa_timeout = PInt 30\<rparr>"
  let ?rq = "session_rq (vcfa_authed ?cfg (PStr ''old'')) ''GET'' (https_url (cfg_host ?cfg) ''/x'') PNone PNone [] (PInt 30)"
  have cfg: "vcfa_get_config ?o None = Ok ?cfg" by code_simp
  have tmo: "vcfa_resolve_timeout ?o None PNone = Ok (PInt 30)" by code_simp
  have hit: "cache_get Vcfa_Cache (host_user_key ?cfg) ?w = Some (CPair (PStr ''refresh'') (PStr ''old''))"
    by (simp add: host_user_key_def)
  have reply: "net ?w (clock ?w) (sent ?w @ [?rq]) = Reply 5 (text_response 401 ''error'')"
    "status_code (text_response 401 ''error'') = 401"
    by (simp_all add: scripted_def script_net_def code_reply_def replies_def text_response_def)
  have dead: "map_option fst (vcfa_exchange_for_bearer ?cfg (PStr ''refresh'')
      (?w\<lparr>sent := sent ?w @ [?rq], clock := clock ?w + int 5\<rparr>))
    = Some (Exc (HTTPError ''400 Client Error: status for url: url'' (Some (text_response 400 ''error''))))"
    by code_simp
  from vcfa_dead_refresh_token_stays [OF cfg hit tmo refl reply run_result [OF dead]] show ?thesis
    by (simp add: Let_def host_user_key_def)
qed

subsection \<open>Waiting for a deployment\<close>

lemma vcfa_wait_returns:
  assumes "0 < sleep_ms i" shows "returns (vcfa_wait_for_deployment opts d t i p)"
proof -
  have "loopM (deployment_round opts d t i p dl) u w \<noteq> None" for dl u w
    using depwait.terminates [OF assms] by auto
  then show ?thesis
    by (auto simp: vcfa_wait_for_deployment_def returns_def bindM_def deadline_after_run split: res.split)
qed

lemma vcfa_wait_successful:
  assumes "vcfa_wait_for_deployment opts d t i p w = Some (Ok x, w')"
  shows "\<exists>dep s. x = PDict dep \<and> dget dep ''status'' (PStr []) = PStr s \<and> ends_with s ''_SUCCESSFUL''"
proof -
  from assms obtain dl w1 where loop: "loopM (deployment_round opts d t i p dl) () w1 = Some (Ok x, w')"
    by (auto simp: vcfa_wait_for_deployment_def bindM_Some_iff)
  have "(\<lambda>r _. \<forall>x. r = Ok x \<longrightarrow> (\<exists>dep s. x = PDict dep \<and> dget dep ''status'' (PStr []) = PStr s \<and>
      ends_with s ''_SUCCESSFUL'')) (Ok x) w'"
    by (rule loopM_rule [OF loop, where I = "\<lambda>_ _. True"])
      (auto simp: deployment_round_def bindM_Some_iff py_get_Ok split: if_splits)
  then show ?thesis by simp
qed

end
