(* ===== verification/Vmsp.thy ===== *)
theory Vmsp
  imports Scenario
begin

section \<open>Vmsp: \<open>utils/vmsp.py\<close>\<close>

text \<open>
  The VMSP helper: an access token per host and user, cached in \<open>_TOKEN_CACHE\<close>
  (\<open>Vmsp_Cache\<close>); reading and applying a platform component; and \<open>wait_for_task\<close>, which
  counts the time it slept instead of reading the clock.
\<close>

subsection \<open>Configuration and token\<close>

definition vmsp_DEFAULT_TIMEOUT :: pyval where "vmsp_DEFAULT_TIMEOUT = PInt 60"

definition TOKEN_PATH :: string where "TOKEN_PATH = ''/api/v1/identity/token''"

definition COMPONENTS_PATH :: string where "COMPONENTS_PATH = ''/api/v1/components''"

definition COMPONENT_APPLY_PATH :: "pyval \<Rightarrow> string" where
  "COMPONENT_APPLY_PATH i = ''/api/v1/components/'' @ py_str i @ ''?action=apply''"

definition TASK_PATH :: "pyval \<Rightarrow> string" where "TASK_PATH i = ''/api/v1/tasks/'' @ py_str i"

definition VSP_COMPONENT_NAME :: pyval where "VSP_COMPONENT_NAME = PStr ''vsp''"

definition TASK_TERMINAL :: "string list" where "TASK_TERMINAL = [''Succeeded'', ''Failed'']"

definition TASK_POLL_INTERVAL :: int where "TASK_POLL_INTERVAL = 15"

definition TASK_TIMEOUT :: int where "TASK_TIMEOUT = 900"

record vmsp_config = conn_config +
  vmsp_timeout :: pyval

definition vmsp_get_config :: "pyval \<Rightarrow> profile \<Rightarrow> vmsp_config res" where
  "vmsp_get_config opts profile =
     bindR (product_section ''vmsp'' opts profile) (\<lambda>cfg.
     bindR (base_config cfg) (\<lambda>base.
     bindR (py_get cfg ''timeout'' vmsp_DEFAULT_TIMEOUT) (\<lambda>timeout.
     Ok (conn_config.extend base \<lparr>vmsp_timeout = timeout\<rparr>))))"

definition vmsp_login_rq :: "vmsp_config \<Rightarrow> request" where
  "vmsp_login_rq cfg =
     plain_request ''POST'' (https_url (cfg_host cfg) TOKEN_PATH) PNone
       (PDict [(''grant_type'', PStr ''password''), (''username'', cfg_username cfg), (''password'', cfg_password cfg)])
       [(''content-type'', PStr ''application/x-www-form-urlencoded'')] PNone (cfg_verify_ssl cfg) (vmsp_timeout cfg)"

definition vmsp_acquire_token :: "vmsp_config \<Rightarrow> pyval io" where
  "vmsp_acquire_token cfg =
     bindM (http_send (vmsp_login_rq cfg)) (\<lambda>resp.
     bindM (raise_with_body resp) (\<lambda>_.
     bindM (liftR (response_json resp)) (\<lambda>body.
     bindM (liftR (py_get body ''access_token'' PNone)) (\<lambda>token.
     if \<not> truthy token then
       raiseM (HTTPError (''No access_token in VMSP token response from ''
         @ https_url (cfg_host cfg) TOKEN_PATH) None)
     else pureM token))))"

definition vmsp_get_token :: "pyval \<Rightarrow> profile \<Rightarrow> pyval io" where
  "vmsp_get_token =
     cached_login vmsp_get_config Vmsp_Cache host_user_key (as_token vmsp_acquire_token) (\<lambda>_. token_of)"

definition vmsp_invalidate_token :: "pyval \<Rightarrow> profile \<Rightarrow> unit io" where
  "vmsp_invalidate_token = drop_login vmsp_get_config Vmsp_Cache host_user_key"

definition vmsp_get_session :: "pyval \<Rightarrow> profile \<Rightarrow> (session \<times> pyval) io" where
  "vmsp_get_session opts profile =
     bindM (liftR (vmsp_get_config opts profile)) (\<lambda>cfg.
     bindM (vmsp_get_token opts profile) (\<lambda>token.
     pureM (session_with (cfg_verify_ssl cfg)
         [(''authorization'', PStr (''Bearer '' @ py_str token)), (''content-type'', PStr ''application/json'')],
       cfg_host cfg)))"

definition vmsp_resolve_timeout :: "pyval \<Rightarrow> profile \<Rightarrow> pyval res" where
  "vmsp_resolve_timeout opts profile =
     bindR (vmsp_get_config opts profile) (\<lambda>cfg. Ok (vmsp_timeout cfg))"

subsection \<open>Requests, components\<close>

definition vmsp_exchange ::
  "string \<Rightarrow> pyval \<Rightarrow> string \<Rightarrow> pyval \<Rightarrow> pyval \<Rightarrow> dict \<Rightarrow> profile \<Rightarrow> pyval io" where
  "vmsp_exchange meth opts path body params headers profile =
     bindM (vmsp_get_session opts profile) (\<lambda>(session, host).
     bindM (liftR (vmsp_resolve_timeout opts profile)) (\<lambda>t.
     bindM (http_send (session_rq session meth (https_url host path) params body headers t)) (\<lambda>resp.
     bindM (raise_with_body resp) (\<lambda>_. json_or_empty resp))))"

definition vmsp_api_get :: "pyval \<Rightarrow> string \<Rightarrow> pyval \<Rightarrow> dict \<Rightarrow> profile \<Rightarrow> pyval io" where
  "vmsp_api_get opts path params headers profile = vmsp_exchange ''GET'' opts path PNone params headers profile"

definition vmsp_api_post :: "pyval \<Rightarrow> string \<Rightarrow> pyval \<Rightarrow> pyval \<Rightarrow> profile \<Rightarrow> pyval io" where
  "vmsp_api_post opts path body params profile = vmsp_exchange ''POST'' opts path body params [] profile"

definition vmsp_get_component :: "pyval \<Rightarrow> pyval \<Rightarrow> profile \<Rightarrow> pyval io" where
  "vmsp_get_component opts name profile =
     bindM (vmsp_api_get opts COMPONENTS_PATH PNone
         [(''x-vmsp-return-all-configuration'', PStr ''true'')] profile) (\<lambda>resp.
     let components = (case resp of PDict d \<Rightarrow> dget d ''components'' (PList []) | _ \<Rightarrow> resp) in
     bindM (liftR (py_iter (py_or components (PList [])))) (\<lambda>cs. liftR (find_by ''name'' name cs)))"

definition vmsp_apply_component :: "pyval \<Rightarrow> pyval \<Rightarrow> pyval \<Rightarrow> profile \<Rightarrow> pyval io" where
  "vmsp_apply_component opts component_id payload profile =
     bindM (vmsp_api_post opts (COMPONENT_APPLY_PATH component_id) payload PNone profile) (\<lambda>resp.
     let task_id = (case resp of PDict d \<Rightarrow> dget d ''id'' PNone | _ \<Rightarrow> PNone) in
     if \<not> truthy task_id then
       raiseM (HTTPError (''No task id returned from apply on component '' @ py_str component_id
         @ '': '' @ py_str resp) None)
     else pureM task_id)"

subsection \<open>\<open>wait_for_task\<close>\<close>

text \<open>The loop; its variable is \<open>elapsed\<close>, in seconds.\<close>

definition vmsp_task_round ::
  "pyval \<Rightarrow> pyval \<Rightarrow> profile \<Rightarrow> int \<Rightarrow> int \<Rightarrow> int \<Rightarrow> (pyval + int) io" where
  "vmsp_task_round opts task_id profile timeout interval elapsed =
     (if \<not> elapsed \<le> timeout then
        raiseM (TimeoutError (''VMSP task '' @ py_str task_id @ '' did not complete within ''
          @ int_str timeout @ ''s''))
      else
        bindM (vmsp_api_get opts (TASK_PATH task_id) PNone [] profile) (\<lambda>info.
        bindM (liftR (py_get info ''phase'' (PStr []))) (\<lambda>phase.
        bindM (liftR (py_get info ''status'' (PStr []))) (\<lambda>status.
        if in_strs phase TASK_TERMINAL then
          (if phase = PStr ''Succeeded'' \<and> status = PStr ''Succeeded'' then pureM (Inl info)
           else raiseM (HTTPError (''VMSP task '' @ py_str task_id @ '' failed (phase='' @ py_str phase
             @ '', status='' @ py_str status @ '')'') None))
        else
          bindM (py_sleep (PInt interval)) (\<lambda>_. pureM (Inr (elapsed + interval)))))))"

definition vmsp_wait_for_task :: "pyval \<Rightarrow> pyval \<Rightarrow> profile \<Rightarrow> int \<Rightarrow> int \<Rightarrow> pyval io" where
  "vmsp_wait_for_task opts task_id profile timeout interval =
     loopM (vmsp_task_round opts task_id profile timeout interval) 0"

subsection \<open>What the programs do to the world\<close>

lemma vmsp_acquire_cacheless: "cacheless vmsp_acquire_token"
  by unfold_locales (auto simp: vmsp_acquire_token_def intro!: spec_intros)

interpretation vmsp: login_cache vmsp_get_token vmsp_invalidate_token vmsp_get_config Vmsp_Cache host_user_key
  "\<lambda>_ _. True" "\<lambda>_. token_of"
  unfolding vmsp_get_token_def vmsp_invalidate_token_def
  by (rule cached_login_contract [OF cacheless_as_token [OF vmsp_acquire_cacheless]])

lemma vmsp_session_rules [spec_intros]:
  "returns (vmsp_get_session opts p)" "keeps evolves (vmsp_get_session opts p)"
  by (auto simp: vmsp_get_session_def intro!: spec_intros vmsp.total vmsp.advances)

lemma vmsp_api_rules [spec_intros]:
  "returns (vmsp_exchange m opts path b q h p)" "keeps evolves (vmsp_exchange m opts path b q h p)"
  "returns (vmsp_api_get opts path q h p)" "keeps evolves (vmsp_api_get opts path q h p)"
  "returns (vmsp_api_post opts path b q p)" "keeps evolves (vmsp_api_post opts path b q p)"
  by (auto simp: vmsp_exchange_def vmsp_api_get_def vmsp_api_post_def intro!: spec_intros)

lemma vmsp_component_rules [spec_intros]:
  "returns (vmsp_get_component opts n p)" "keeps evolves (vmsp_get_component opts n p)"
  "returns (vmsp_apply_component opts c b p)" "keeps evolves (vmsp_apply_component opts c b p)"
  by (auto simp: vmsp_get_component_def vmsp_apply_component_def Let_def intro!: spec_intros)

lemma vmsp_task_round_rules [spec_intros]:
  "returns (vmsp_task_round opts tid p t i e)" "keeps evolves (vmsp_task_round opts tid p t i e)"
  by (auto simp: vmsp_task_round_def intro!: spec_intros)

lemma vmsp_task_round_continues:
  "vmsp_task_round opts tid p t i e w = Some (Ok (Inr e'), w') \<Longrightarrow> e \<le> t \<and> e' = e + i"
  by (auto simp: vmsp_task_round_def bindM_Some_iff split: if_splits)

interpretation vmspwait: polling "vmsp_task_round opts tid p t i" "\<lambda>e _. e" t i for opts tid p t i
proof unfold_locales
  show "vmsp_task_round opts tid p t i e w \<noteq> None" for e w
    using vmsp_task_round_rules(1) by (simp add: returns_def)
qed (auto dest: vmsp_task_round_continues)

text \<open>A call changes only the cache of this helper.\<close>

lemma vmsp_exchange_only [spec_intros]: "keeps (only_cache Vmsp_Cache) (vmsp_exchange m opts path b q h p)"
  using cached_login_only [OF cacheless_as_token [OF vmsp_acquire_cacheless]]
  by (auto simp: vmsp_exchange_def vmsp_get_session_def vmsp_get_token_def intro!: spec_intros)

subsection \<open>Waiting for a task\<close>

lemma vmsp_wait_returns:
  assumes "0 < i" shows "returns (vmsp_wait_for_task opts tid p t i)"
  using vmspwait.terminates [OF assms] unfolding vmsp_wait_for_task_def returns_def by fastforce

lemma vmsp_session_no_get: "at_most (\<lambda>rq. rq_method rq = ''GET'') 0 (vmsp_get_session opts p)"
  by (auto simp: vmsp_get_session_def vmsp_get_token_def vmsp_acquire_token_def vmsp_login_rq_def
      plain_request_def intro!: at_most_none spec_intros)

lemma vmsp_api_get_once: "gets_at_most 1 (vmsp_api_get opts path q h p)"
  unfolding vmsp_api_get_def vmsp_exchange_def
  by (intro at_most_after [OF vmsp_session_no_get] at_most_cases
      at_most_after [OF at_most_none [of _ "liftR r" for r]] at_most_before at_most_send)
    (auto intro!: at_most_none spec_intros)

lemma vmsp_task_round_gets:
  assumes "vmsp_task_round opts tid p t i e w = Some (r, w')"
  shows "gets w' \<le> gets w + 1 \<and> (e \<le> t \<or> gets w' \<le> gets w)"
proof (cases "e \<le> t")
  case True
  have "gets_at_most 1 (vmsp_task_round opts tid p t i e)"
    unfolding vmsp_task_round_def
    by (intro at_most_cases(2) at_most_before vmsp_api_get_once at_most_mono [OF at_most_none, of _ "raiseM e" 1 for e])
      (auto intro!: at_most_none spec_intros)
  with True assms show ?thesis by (auto dest: at_mostD)
next
  case False
  with assms show ?thesis by (simp add: vmsp_task_round_def)
qed

text \<open>\<open>wait_for_task\<close> returns a task only when both its phase and its status are \<open>Succeeded\<close>. It
  asks at most \<open>timeout div interval + 1\<close> times however long the answers take, as it counts
  its own sleeps and not the time.\<close>

theorem vmsp_wait_sound:
  assumes run: "vmsp_wait_for_task opts tid p t i w = Some (r, w')" and "0 < i" and "0 \<le> t"
  shows "int (gets w') - int (gets w) \<le> t div i + 1 \<and>
    (case r of
       Ok x \<Rightarrow> \<exists>info. x = PDict info \<and> dget info ''phase'' (PStr []) = PStr ''Succeeded'' \<and>
         dget info ''status'' (PStr []) = PStr ''Succeeded''
     | Exc _ \<Rightarrow> True)"
proof
  note loop = run [unfolded vmsp_wait_for_task_def]
  from vmspwait.gets_bound [OF loop \<open>0 < i\<close>] vmsp_task_round_gets
  have "gets w' \<le> gets w \<or> (int (gets w') - int (gets w) - 1) * i \<le> t" by simp
  then show "int (gets w') - int (gets w) \<le> t div i + 1"
  proof
    assume "gets w' \<le> gets w"
    moreover have "0 \<le> t div i" using assms(2,3) by (simp add: pos_imp_zdiv_nonneg_iff)
    ultimately show ?thesis by simp
  next
    assume "(int (gets w') - int (gets w) - 1) * i \<le> t"
    from zdiv_mono1 [OF this \<open>0 < i\<close>] \<open>0 < i\<close> show ?thesis by simp
  qed
  show "case r of Ok x \<Rightarrow> \<exists>info. x = PDict info \<and> dget info ''phase'' (PStr []) = PStr ''Succeeded'' \<and>
         dget info ''status'' (PStr []) = PStr ''Succeeded'' | Exc _ \<Rightarrow> True"
    by (rule loopM_rule [OF loop, where I = "\<lambda>_ _. True"])
      (auto simp: vmsp_task_round_def bindM_Some_iff py_get_def split: if_splits pyval.splits)
qed

lemma vmsp_wait_sound_witness:
  "let w = scripted [body_reply (PDict [(''access_token'', PStr ''tok'')]),
         body_reply (PDict [(''phase'', PStr ''Running'')]),
         body_reply (PDict [(''phase'', PStr ''Succeeded''), (''status'', PStr ''Succeeded'')])];
       run = the (vmsp_wait_for_task (opts_for ''vmsp'') (PStr ''t1'') None 900 15 w)
   in fst run = Ok (PDict [(''phase'', PStr ''Succeeded''), (''status'', PStr ''Succeeded'')]) \<and>
      int (gets (snd run)) - int (gets w) \<le> 61"
proof -
  let ?w = "scripted [body_reply (PDict [(''access_token'', PStr ''tok'')]),
         body_reply (PDict [(''phase'', PStr ''Running'')]),
         body_reply (PDict [(''phase'', PStr ''Succeeded''), (''status'', PStr ''Succeeded'')])]"
  have run: "map_option fst (vmsp_wait_for_task (opts_for ''vmsp'') (PStr ''t1'') None 900 15 ?w) =
      Some (Ok (PDict [(''phase'', PStr ''Succeeded''), (''status'', PStr ''Succeeded'')]))"
    by code_simp
  from vmsp_wait_sound [OF run_result [OF run]] run show ?thesis by (auto simp: Let_def)
qed

end
