(* ===== verification/Vcenter.thy ===== *)
theory Vcenter
  imports Scenario
begin

section \<open>Vcenter: \<open>utils/vcenter.py\<close>\<close>

text \<open>
  The vCenter REST helper: configuration, the session token cache, the \<open>api_*\<close> calls and
  \<open>wait_for_task\<close>. The module-level \<open>_SESSION_CACHE\<close> is \<open>Vcenter_Cache\<close> of the world.
\<close>

subsection \<open>Configuration and session\<close>

record vcenter_config = conn_config +
  cfg_timeout :: pyval

definition DEFAULT_TIMEOUT :: pyval where "DEFAULT_TIMEOUT = PInt 30"

definition vcenter_get_config :: "pyval \<Rightarrow> profile \<Rightarrow> vcenter_config res" where
  "vcenter_get_config opts profile =
     bindR (product_section ''vcenter'' opts profile) (\<lambda>cfg.
     bindR (base_config cfg) (\<lambda>base.
     bindR (py_get cfg ''timeout'' DEFAULT_TIMEOUT) (\<lambda>timeout.
     Ok (conn_config.extend base \<lparr>cfg_timeout = timeout\<rparr>))))"

definition vcenter_resolve_timeout :: "pyval \<Rightarrow> profile \<Rightarrow> pyval \<Rightarrow> pyval res" where
  "vcenter_resolve_timeout opts profile override =
     (if override \<noteq> PNone then Ok override
      else bindR (vcenter_get_config opts profile) (\<lambda>cfg. Ok (cfg_timeout cfg)))"

definition vcenter_with_token :: "vcenter_config \<Rightarrow> cached \<Rightarrow> session \<times> pyval" where
  "vcenter_with_token cfg c =
     (new_session\<lparr>s_verify := cfg_verify_ssl cfg,
                  s_headers := [(''vmware-api-session-id'', token_of c)]\<rparr>, cfg_host cfg)"

definition vcenter_get_session :: "pyval \<Rightarrow> profile \<Rightarrow> (session \<times> pyval) io" where
  "vcenter_get_session opts profile =
     bindM (liftR (vcenter_get_config opts profile)) (\<lambda>cfg.
     let cache_key = host_user_key cfg in
     bindM (cache_lookup Vcenter_Cache cache_key) (\<lambda>hit.
     bindM (case hit of
         Some _ \<Rightarrow> pureM ()
       | None \<Rightarrow>
           bindM (http_send (plain_request ''POST'' (https_url (cfg_host cfg) ''/api/session'') PNone PNone []
               (PList [cfg_username cfg, cfg_password cfg]) (cfg_verify_ssl cfg) (cfg_timeout cfg))) (\<lambda>resp.
           bindM (raise_for_status resp) (\<lambda>_.
           bindM (liftR (response_json resp)) (\<lambda>token.
           cache_store Vcenter_Cache cache_key (CToken token))))) (\<lambda>_.
     bindM (cache_lookup Vcenter_Cache cache_key) (\<lambda>entry.
     case entry of
       None \<Rightarrow> raiseM (KeyError cache_key)
     | Some c \<Rightarrow> pureM (vcenter_with_token cfg c)))))"

definition vcenter_invalidate_session :: "pyval \<Rightarrow> profile \<Rightarrow> unit io" where
  "vcenter_invalidate_session opts profile =
     bindM (liftR (vcenter_get_config opts profile)) (\<lambda>cfg.
     cache_pop Vcenter_Cache (host_user_key cfg))"

lemma vcenter_get_session_run:
  "vcenter_get_config opts p = Ok cfg \<Longrightarrow> cache_get Vcenter_Cache (host_user_key cfg) w = Some c \<Longrightarrow>
     vcenter_get_session opts p w = Some (Ok (vcenter_with_token cfg c), w)"
  by (simp add: vcenter_get_session_def Let_def)

lemma vcenter_get_session_returns [spec_intros]: "returns (vcenter_get_session opts p)"
  by (auto simp: vcenter_get_session_def intro!: spec_intros)

lemma vcenter_get_session_evolves [spec_intros]: "keeps evolves (vcenter_get_session opts p)"
  by (auto simp: vcenter_get_session_def intro!: spec_intros)

lemma vcenter_get_session_granted:
  "vcenter_get_session opts p w = Some (Ok x, w') \<Longrightarrow>
     \<exists>cfg c. vcenter_get_config opts p = Ok cfg \<and>
       cache_get Vcenter_Cache (host_user_key cfg) w' = Some c \<and> x = vcenter_with_token cfg c"
  by (auto simp: vcenter_get_session_def bindM_Some_iff Let_def split: option.splits)

lemma vcenter_get_session_local:
  "vcenter_get_config opts p = Ok cfg \<Longrightarrow>
     keeps (touches_only Vcenter_Cache (host_user_key cfg)) (vcenter_get_session opts p)"
  by (auto simp: vcenter_get_session_def intro!: spec_intros)

lemma vcenter_get_session_refused:
  "vcenter_get_session opts p w = Some (Exc e, w') \<Longrightarrow> vcenter_get_config opts p = Ok cfg \<Longrightarrow>
     cache_get Vcenter_Cache (host_user_key cfg) w' = cache_get Vcenter_Cache (host_user_key cfg) w"
  by (auto simp: vcenter_get_session_def bindM_Some_iff Let_def http_send_def raise_for_status_def
      response_json_def split: option.splits net_reply.splits if_splits)

interpretation vcs: login_cache vcenter_get_session vcenter_invalidate_session vcenter_get_config
  Vcenter_Cache host_user_key "\<lambda>_ _. True" vcenter_with_token
  by unfold_locales
    (fact vcenter_get_session_granted vcenter_get_session_local vcenter_get_session_refused
      vcenter_get_session_evolves vcenter_get_session_returns
     | simp add: vcenter_get_session_run vcenter_invalidate_session_def)+

subsection \<open>The \<open>api_*\<close> helpers\<close>

text \<open>What the five helpers share up to \<open>_raise_for_status\<close>.\<close>

definition vcenter_exchange ::
  "string \<Rightarrow> pyval \<Rightarrow> string \<Rightarrow> pyval \<Rightarrow> pyval \<Rightarrow> profile \<Rightarrow> pyval \<Rightarrow> http_response io" where
  "vcenter_exchange meth opts path body params profile timeout =
     bindM (vcenter_get_session opts profile) (\<lambda>(session, host).
     let url = https_url host path in
     bindM (liftR (vcenter_resolve_timeout opts profile timeout)) (\<lambda>t.
     bindM (session_request session meth url params body t) (\<lambda>resp.
     bindM (raise_with_body resp) (\<lambda>_. pureM resp))))"

definition vcenter_api_get :: "pyval \<Rightarrow> string \<Rightarrow> pyval \<Rightarrow> profile \<Rightarrow> pyval \<Rightarrow> pyval io" where
  "vcenter_api_get opts path params profile timeout =
     bindM (vcenter_exchange ''GET'' opts path PNone params profile timeout) json_or_empty"

definition vcenter_api_post :: "pyval \<Rightarrow> string \<Rightarrow> pyval \<Rightarrow> pyval \<Rightarrow> profile \<Rightarrow> pyval \<Rightarrow> pyval io" where
  "vcenter_api_post opts path body params profile timeout =
     bindM (vcenter_exchange ''POST'' opts path body params profile timeout) json_or_empty"

definition vcenter_api_patch :: "pyval \<Rightarrow> string \<Rightarrow> pyval \<Rightarrow> profile \<Rightarrow> pyval \<Rightarrow> pyval io" where
  "vcenter_api_patch opts path body profile timeout =
     bindM (vcenter_exchange ''PATCH'' opts path body PNone profile timeout) json_or_empty"

definition vcenter_api_put :: "pyval \<Rightarrow> string \<Rightarrow> pyval \<Rightarrow> profile \<Rightarrow> pyval \<Rightarrow> pyval io" where
  "vcenter_api_put opts path body profile timeout =
     bindM (vcenter_exchange ''PUT'' opts path body PNone profile timeout) json_or_empty"

definition vcenter_api_delete :: "pyval \<Rightarrow> string \<Rightarrow> pyval \<Rightarrow> profile \<Rightarrow> pyval \<Rightarrow> pyval io" where
  "vcenter_api_delete opts path params profile timeout =
     bindM (vcenter_exchange ''DELETE'' opts path PNone params profile timeout) (\<lambda>_. pureM empty_dict)"

lemmas vcenter_api_defs = vcenter_api_get_def vcenter_api_post_def vcenter_api_patch_def
  vcenter_api_put_def vcenter_api_delete_def

lemma vcenter_api_returns [spec_intros]:
  "returns (vcenter_exchange m opts path b q p t)"
  "returns (vcenter_api_get opts path q p t)" "returns (vcenter_api_post opts path b q p t)"
  "returns (vcenter_api_patch opts path b p t)" "returns (vcenter_api_put opts path b p t)"
  "returns (vcenter_api_delete opts path q p t)"
  by (auto simp: vcenter_exchange_def vcenter_api_defs intro!: spec_intros)

lemma vcenter_api_evolves [spec_intros]:
  "keeps evolves (vcenter_exchange m opts path b q p t)"
  "keeps evolves (vcenter_api_get opts path q p t)" "keeps evolves (vcenter_api_post opts path b q p t)"
  "keeps evolves (vcenter_api_patch opts path b p t)" "keeps evolves (vcenter_api_put opts path b p t)"
  "keeps evolves (vcenter_api_delete opts path q p t)"
  by (auto simp: vcenter_exchange_def vcenter_api_defs intro!: spec_intros)

text \<open>The requests of a call: logins of the session, and the call itself.\<close>

definition is_vcenter_login :: "request \<Rightarrow> bool" where
  "is_vcenter_login rq \<longleftrightarrow>
     rq_method rq = ''POST'' \<and> ends_with (rq_url rq) ''/api/session'' \<and> rq_params rq = PNone"

definition vcenter_call :: "string \<Rightarrow> string \<Rightarrow> pyval \<Rightarrow> pyval \<Rightarrow> request \<Rightarrow> bool" where
  "vcenter_call meth path body params rq \<longleftrightarrow>
     rq_method rq = meth \<and> (\<exists>host. rq_url rq = https_url host path) \<and>
     rq_json rq = body \<and> rq_params rq = params"

lemma vcenter_call_session_rq [simp]:
  "vcenter_call m path b q (session_rq s m (https_url h path) q b hs t)"
  by (auto simp: vcenter_call_def session_rq_def)

lemma vcenter_session_sends [spec_intros]:
  assumes "\<And>rq. is_vcenter_login rq \<Longrightarrow> P rq"
  shows "keeps (sends_only P) (vcenter_get_session opts p)"
  by (auto simp: vcenter_get_session_def plain_request_def is_vcenter_login_def
      intro!: spec_intros intro: assms)

lemma vcenter_exchange_sends [spec_intros]:
  assumes "\<And>rq. is_vcenter_login rq \<Longrightarrow> P rq" "\<And>rq. vcenter_call m path b q rq \<Longrightarrow> P rq"
  shows "keeps (sends_only P) (vcenter_exchange m opts path b q p t)"
  by (auto simp: vcenter_exchange_def intro!: spec_intros intro: assms)

lemma vcenter_api_sends [spec_intros]:
  assumes "\<And>rq. is_vcenter_login rq \<Longrightarrow> P rq"
  shows "(\<And>rq. vcenter_call ''GET'' path PNone q rq \<Longrightarrow> P rq) \<Longrightarrow> keeps (sends_only P) (vcenter_api_get opts path q p t)"
    "(\<And>rq. vcenter_call ''POST'' path b q rq \<Longrightarrow> P rq) \<Longrightarrow> keeps (sends_only P) (vcenter_api_post opts path b q p t)"
    "(\<And>rq. vcenter_call ''PATCH'' path b PNone rq \<Longrightarrow> P rq) \<Longrightarrow> keeps (sends_only P) (vcenter_api_patch opts path b p t)"
    "(\<And>rq. vcenter_call ''PUT'' path b PNone rq \<Longrightarrow> P rq) \<Longrightarrow> keeps (sends_only P) (vcenter_api_put opts path b p t)"
    "(\<And>rq. vcenter_call ''DELETE'' path PNone q rq \<Longrightarrow> P rq) \<Longrightarrow> keeps (sends_only P) (vcenter_api_delete opts path q p t)"
  by (auto simp: vcenter_api_defs intro!: spec_intros intro: assms)

text \<open>Reads: logins of the session and \<open>GET\<close> requests.\<close>

definition vcenter_read :: "request \<Rightarrow> bool" where
  "vcenter_read rq \<longleftrightarrow> is_vcenter_login rq \<or> rq_method rq = ''GET''"

lemma vcenter_readI [simp]:
  "is_vcenter_login rq \<Longrightarrow> vcenter_read rq" "vcenter_call ''GET'' path b q rq \<Longrightarrow> vcenter_read rq"
  by (auto simp: vcenter_read_def vcenter_call_def)

text \<open>The request of a call with a cached session, and the call: that request and nothing else.\<close>

definition vcenter_rq :: "vcenter_config \<Rightarrow> cached \<Rightarrow> string \<Rightarrow> string \<Rightarrow> pyval \<Rightarrow> pyval \<Rightarrow> request" where
  "vcenter_rq cfg c meth path params body =
     session_rq (fst (vcenter_with_token cfg c)) meth (https_url (cfg_host cfg) path) params body [] (cfg_timeout cfg)"

lemma vcenter_exchange_hit:
  assumes "vcenter_get_config opts p = Ok cfg" "cache_get Vcenter_Cache (host_user_key cfg) w = Some c"
    and "vcenter_exchange m opts path b q p PNone w = Some (r, w')"
  shows "sent w' = sent w @ [vcenter_rq cfg c m path q b] \<and> caches w' = caches w"
  using assms(3) vcenter_get_session_run [OF assms(1,2)] assms(1)
  by (auto simp: vcenter_exchange_def vcenter_rq_def vcenter_with_token_def vcenter_resolve_timeout_def
      session_request_def http_send_def raise_with_body_def bindM_Some_iff Let_def
      split: net_reply.splits if_splits)

lemma vcenter_api_hit:
  assumes "vcenter_get_config opts p = Ok cfg" "cache_get Vcenter_Cache (host_user_key cfg) w = Some c"
  shows "vcenter_api_get opts path q p PNone w = Some (r, w') \<Longrightarrow>
      sent w' = sent w @ [vcenter_rq cfg c ''GET'' path q PNone] \<and> caches w' = caches w"
    "vcenter_api_post opts path b q p PNone w = Some (r, w') \<Longrightarrow>
      sent w' = sent w @ [vcenter_rq cfg c ''POST'' path q b] \<and> caches w' = caches w"
    "vcenter_api_patch opts path b p PNone w = Some (r, w') \<Longrightarrow>
      sent w' = sent w @ [vcenter_rq cfg c ''PATCH'' path PNone b] \<and> caches w' = caches w"
  unfolding vcenter_api_defs
  by (auto simp: json_or_empty_def elim!: bindM_SomeE dest!: vcenter_exchange_hit [OF assms] split: if_splits)

text \<open>With a readable configuration every call sends a request, so it takes time.\<close>

lemma vcenter_session_exc_ticks:
  assumes "vcenter_get_config opts p = Ok cfg" "takes_time w" "vcenter_get_session opts p w = Some (Exc e, w')"
  shows "clock w < clock w'"
proof -
  let ?key = "host_user_key cfg"
  have "cache_get Vcenter_Cache ?key w = None"
    using assms(1,3) vcenter_get_session_run [OF assms(1)] by (cases "cache_get Vcenter_Cache ?key w") auto
  then have run: "bindM (bindM (http_send (plain_request ''POST'' (https_url (cfg_host cfg) ''/api/session'') PNone PNone []
               (PList [cfg_username cfg, cfg_password cfg]) (cfg_verify_ssl cfg) (cfg_timeout cfg))) (\<lambda>resp.
           bindM (raise_for_status resp) (\<lambda>_.
           bindM (liftR (response_json resp)) (\<lambda>token. cache_store Vcenter_Cache ?key (CToken token)))))
     (\<lambda>_. bindM (cache_lookup Vcenter_Cache ?key) (\<lambda>entry. case entry of
       None \<Rightarrow> raiseM (KeyError ?key) | Some c \<Rightarrow> pureM (vcenter_with_token cfg c))) w = Some (Exc e, w')"
    (is "?m w = _") using assms(1,3) by (simp add: vcenter_get_session_def Let_def)
  have "ticks ?m" by (intro ticks_bindM ticks_http_send spec_intros)
  from ticksD [OF this assms(2) run] show ?thesis .
qed

lemma vcenter_exchange_ticks:
  assumes "vcenter_get_config opts p = Ok cfg"
  shows "ticks (vcenter_exchange m opts path b q p t)"
proof -
  have "ticks (bindM (liftR (vcenter_resolve_timeout opts p t)) (\<lambda>t.
      bindM (session_request s m u q b t) (\<lambda>resp. bindM (raise_with_body resp) (\<lambda>_. pureM resp))))" for s u
    using assms unfolding vcenter_resolve_timeout_def session_request_def
    by (auto intro!: ticks_bindM ticks_http_send spec_intros)
  then show ?thesis
    unfolding vcenter_exchange_def Let_def
    by (intro ticks_after) (auto intro: spec_intros dest: vcenter_session_exc_ticks [OF assms])
qed

lemma vcenter_api_ticks:
  assumes "vcenter_get_config opts p = Ok cfg"
  shows "ticks (vcenter_api_get opts path q p t)" "ticks (vcenter_api_post opts path b q p t)"
  using vcenter_exchange_ticks [OF assms]
  by (auto simp: vcenter_api_defs intro!: ticks_bindM spec_intros)

subsection \<open>\<open>wait_for_task\<close>\<close>

text \<open>
  The loop of \<open>wait_for_task\<close>; its variables are \<open>task\<close> and \<open>seen_task\<close>. \<open>Inl\<close> is a
  \<open>return\<close>. The look-up is separate because the \<open>try\<close> statement spans only it.
\<close>

definition synchronous_task :: "pyval \<Rightarrow> pyval" where
  "synchronous_task task_id =
     PDict [(''status'', PStr ''SUCCEEDED''), (''task_id'', task_id), (''synchronous'', PBool True)]"

definition TASK_DONE :: "string list" where "TASK_DONE = [''SUCCEEDED'', ''SUCCESS'']"

definition TASK_ENDED :: "string list" where "TASK_ENDED = [''FAILED'', ''CANCELED'', ''CANCELLED'']"

definition vcenter_task_lookup :: "pyval \<Rightarrow> pyval \<Rightarrow> profile \<Rightarrow> bool \<Rightarrow> (pyval + pyval) io" where
  "vcenter_task_lookup opts task_id profile seen_task =
     tryM
       (bindM (vcenter_api_get opts (''/api/cis/tasks/'' @ py_str task_id) PNone profile PNone)
          (\<lambda>task. pureM (Inr task)))
       (\<lambda>exc. if \<not> seen_task \<and> http_status_is exc 404
              then pureM (Inl (synchronous_task task_id)) else raiseM exc)"

definition vcenter_task_round ::
  "pyval \<Rightarrow> pyval \<Rightarrow> pyval \<Rightarrow> pyval \<Rightarrow> profile \<Rightarrow> int \<Rightarrow> pyval \<times> bool \<Rightarrow> (pyval + pyval \<times> bool) io" where
  "vcenter_task_round opts task_id timeout poll_interval profile deadline = (\<lambda>(task, seen_task).
     bindM monotonic (\<lambda>t.
     if \<not> t < deadline then
       raiseM (TimeoutError (''task '' @ py_str task_id @ '' did not complete within ''
         @ py_str timeout @ ''s: '' @ py_str task))
     else
       bindM (vcenter_task_lookup opts task_id profile seen_task) (\<lambda>looked.
       case looked of
         Inl result \<Rightarrow> pureM (Inl result)
       | Inr task' \<Rightarrow>
           bindM (liftR (py_get task' ''status'' PNone)) (\<lambda>status.
           if in_strs status TASK_DONE then pureM (Inl task')
           else if in_strs status TASK_ENDED then
             raiseM (RuntimeError (''task '' @ py_str task_id @ '' ended '' @ py_repr status @ '': ''
               @ py_str task'))
           else bindM (py_sleep poll_interval) (\<lambda>_. pureM (Inr (task', True)))))))"

definition vcenter_wait_for_task ::
  "pyval \<Rightarrow> pyval \<Rightarrow> pyval \<Rightarrow> pyval \<Rightarrow> profile \<Rightarrow> pyval io" where
  "vcenter_wait_for_task opts task_id timeout poll_interval profile =
     bindM (deadline_after timeout) (\<lambda>deadline.
     loopM (vcenter_task_round opts task_id timeout poll_interval profile deadline)
       (empty_dict, False))"

lemma vcenter_task_round_returns [spec_intros]:
  "returns (vcenter_task_round opts tid t i p dl s)"
  by (cases s) (auto simp: vcenter_task_round_def vcenter_task_lookup_def intro!: spec_intros)

lemma vcenter_task_round_evolves [spec_intros]:
  "keeps evolves (vcenter_task_lookup opts tid p seen)"
  "keeps evolves (vcenter_task_round opts tid t i p dl s)"
  by (cases s) (auto simp: vcenter_task_round_def vcenter_task_lookup_def intro!: spec_intros)

lemma vcenter_wait_evolves [spec_intros]: "keeps evolves (vcenter_wait_for_task opts tid t i p)"
  by (auto simp: vcenter_wait_for_task_def intro!: spec_intros)

lemma vcenter_wait_reads [spec_intros]: "keeps (sends_only vcenter_read) (vcenter_wait_for_task opts tid t i p)"
  by (auto simp: vcenter_wait_for_task_def vcenter_task_round_def vcenter_task_lookup_def intro!: spec_intros)

text \<open>A round that goes on: it began before the deadline, saw a task that has not ended, and slept.\<close>

lemma vcenter_task_round_continues:
  assumes "vcenter_task_round opts tid t i p dl s w = Some (Ok (Inr s'), w')"
  shows "clock w < dl \<and> clock w + sleep_ms i \<le> clock w' \<and> snd s'"
proof -
  obtain task seen where s: "s = (task, seen)" by (cases s)
  from assms obtain v w1 where look: "vcenter_task_lookup opts tid p seen w = Some (Ok v, w1)"
    and early: "clock w < dl"
    unfolding s vcenter_task_round_def by (auto simp: bindM_Some_iff split: if_splits)
  with assms have rest: "py_sleep i w1 = Some (Ok (), w')" "snd s'"
    unfolding s vcenter_task_round_def
    by (auto simp: bindM_Some_iff split: if_splits sum.splits)
  have "clock w \<le> clock w1"
    using vcenter_task_round_evolves(1) look by (rule evolves_clock)
  with early rest show ?thesis by (auto simp: py_sleep_Ok)
qed

interpretation vcwait: polling "vcenter_task_round opts tid t i p dl" "\<lambda>_ w. clock w" "dl - 1" "sleep_ms i"
  for opts tid t i p dl
  by (rule polling_clockI [OF vcenter_task_round_returns])
    (auto dest: vcenter_task_round_continues)

lemma vcenter_wait_returns:
  assumes "0 < sleep_ms i" shows "returns (vcenter_wait_for_task opts tid t i p)"
proof -
  have "loopM (vcenter_task_round opts tid t i p dl) s w \<noteq> None" for dl s w
    using vcwait.terminates [OF assms] by auto
  then show ?thesis
    by (auto simp: vcenter_wait_for_task_def returns_def bindM_def deadline_after_run split: res.split)
qed

subsection \<open>Properties of \<open>wait_for_task\<close>\<close>

lemma vcenter_exchange_gets: "gets_at_most 1 (vcenter_exchange m opts path b q p t)"
  unfolding vcenter_exchange_def session_request_def Let_def
  by (intro at_most_after at_most_none [of _ "vcenter_get_session opts p"]
      at_most_none [of _ "liftR r" for r] at_most_before [OF at_most_send] at_most_cases)
    (auto simp: is_vcenter_login_def intro!: at_most_none spec_intros)

lemma vcenter_task_lookup_gets: "gets_at_most 1 (vcenter_task_lookup opts tid p seen)"
  unfolding vcenter_task_lookup_def vcenter_api_get_def
  by (intro at_most_try at_most_before vcenter_exchange_gets)
    (auto intro!: at_most_none spec_intros)

lemma vcenter_task_round_gets:
  assumes "vcenter_task_round opts tid t i p dl s w = Some (r, w')"
  shows "gets w' \<le> gets w + 1 \<and> (gets w < gets w' \<longrightarrow> clock w < dl)"
proof (cases "clock w < dl")
  case True
  obtain task seen where s: "s = (task, seen)" by (cases s)
  have "gets_at_most 1 (bindM (vcenter_task_lookup opts tid p seen) (\<lambda>looked.
       case looked of
         Inl result \<Rightarrow> pureM (Inl result)
       | Inr task' \<Rightarrow>
           bindM (liftR (py_get task' ''status'' PNone)) (\<lambda>status.
           if in_strs status TASK_DONE then pureM (Inl task')
           else if in_strs status TASK_ENDED then
             raiseM (RuntimeError (''task '' @ py_str tid @ '' ended '' @ py_repr status @ '': ''
               @ py_str task'))
           else bindM (py_sleep i) (\<lambda>_. pureM (Inr (task', True))))))"
    by (intro at_most_before vcenter_task_lookup_gets) (auto intro!: at_most_none spec_intros)
  with assms True show ?thesis
    unfolding vcenter_task_round_def s by (auto dest: at_mostD)
next
  case False
  with assms show ?thesis unfolding vcenter_task_round_def by (cases s) auto
qed

text \<open>The polls of a wait: at most one \<open>GET\<close> per interval within the timeout, and one more.\<close>

lemma vcenter_wait_gets:
  assumes run: "loopM (vcenter_task_round opts tid t i p dl) s0 w0 = Some (r, w')" and "0 < sleep_ms i"
  shows "gets w' \<le> gets w0 \<or> (int (gets w') - int (gets w0) - 1) * sleep_ms i < dl - clock w0"
  using vcwait.gets_bound [OF run assms(2)] vcenter_task_round_gets by fastforce

text \<open>After \<open>invalidate_session\<close> the next \<open>get_session\<close> that succeeds logs in again: exactly
  one request goes out, the \<open>POST /api/session\<close> with the configured credentials.\<close>

theorem vcenter_relogin:
  assumes "vcenter_get_config opts p = Ok cfg" and "vcenter_invalidate_session opts p w = Some (u, w1)"
    and "vcenter_get_session opts p w1 = Some (Ok x, w')"
  shows "sent w' = sent w @ [plain_request ''POST'' (https_url (cfg_host cfg) ''/api/session'') PNone PNone []
    (PList [cfg_username cfg, cfg_password cfg]) (cfg_verify_ssl cfg) (cfg_timeout cfg)]"
proof -
  have "cache_get Vcenter_Cache (host_user_key cfg) w1 = None" "sent w1 = sent w"
    using vcs.invalidated [OF assms(1,2)] by simp_all
  with assms(1,3) show ?thesis
    by (auto simp: vcenter_get_session_def bindM_Some_iff Let_def http_send_def raise_for_status_def
      split: net_reply.splits option.splits if_splits)
qed

lemma vcenter_relogin_witness:
  "sent (snd (the (vcenter_get_session (opts_for ''vcenter'') None (cache_upd Vcenter_Cache ''h:u'' None
     (cache_upd Vcenter_Cache ''h:u'' (Some (CToken (PStr ''old''))) (scripted [login_reply]))))))
   = [plain_request ''POST'' ''https://h/api/session'' PNone PNone [] (PList [PStr ''u'', PStr ''p''])
       (PBool True) (PInt 30)]"
proof -
  let ?w = "cache_upd Vcenter_Cache ''h:u'' (Some (CToken (PStr ''old''))) (scripted [login_reply])"
  let ?w1 = "cache_upd Vcenter_Cache ''h:u'' None ?w"
  let ?cfg = "\<lparr>cfg_host = PStr ''h'', cfg_username = PStr ''u'', cfg_password = PStr ''p'',
    cfg_verify_ssl = PBool True, cfg_timeout = PInt 30\<rparr>"
  have cfg: "vcenter_get_config (opts_for ''vcenter'') None = Ok ?cfg" by code_simp
  have inv: "vcenter_invalidate_session (opts_for ''vcenter'') None ?w = Some (Ok (), ?w1)"
    by (simp add: vcenter_invalidate_session_def cfg host_user_key_def)
  have "map_option fst (vcenter_get_session (opts_for ''vcenter'') None ?w1)
    = Some (Ok (new_session\<lparr>s_verify := PBool True,
       s_headers := [(''vmware-api-session-id'', PStr ''tok'')]\<rparr>, PStr ''h''))"
    by code_simp
  from vcenter_relogin [OF cfg inv run_result [OF this]] show ?thesis
    by (simp add: https_url_def scripted_def cache_upd_def)
qed

definition vcenter_outcome :: "http_response \<Rightarrow> pyval res" where
  "vcenter_outcome resp =
     (if status_code resp < 400 then (if has_content resp then response_json resp else Ok empty_dict)
      else Exc (HTTPError (int_str (status_code resp) @ '' '' @ reason resp @ '' for ''
          @ (case rs_method resp of Some m \<Rightarrow> m | None \<Rightarrow> ''?'') @ '' '' @ rs_url resp @ '': ''
          @ (case rs_text resp of Some t \<Rightarrow> t | None \<Rightarrow> ''<unreadable response body>'')) (Some resp)))"

text \<open>With a cached session a \<open>GET\<close> is one exchange: a status of 400 or more raises an
  \<open>HTTPError\<close> that carries the response and its body in the message, a lower one gives the
  parsed body, or \<open>{}\<close> when there is none. A stale token (401) is raised, not renewed.\<close>

theorem vcenter_get_outcome:
  assumes "vcenter_get_config opts p = Ok cfg" and "cache_get Vcenter_Cache (host_user_key cfg) w = Some c"
    and "rq = session_rq (fst (vcenter_with_token cfg c)) ''GET'' (https_url (cfg_host cfg) path) q PNone []
           (cfg_timeout cfg)"
    and "net w (clock w) (sent w @ [rq]) = Reply d resp"
  shows "vcenter_api_get opts path q p PNone w =
    Some (vcenter_outcome resp, w\<lparr>sent := sent w @ [rq], clock := clock w + int d\<rparr>)"
proof -
  have "vcenter_get_session opts p w = Some (Ok (vcenter_with_token cfg c), w)"
    using assms(1,2) by (rule vcenter_get_session_run)
  then have "vcenter_exchange ''GET'' opts path PNone q p PNone w =
      bindM (raise_with_body resp) (\<lambda>_. pureM resp) (w\<lparr>sent := sent w @ [rq], clock := clock w + int d\<rparr>)"
    using assms by (simp add: vcenter_exchange_def vcenter_with_token_def Let_def session_request_def
        http_send_def vcenter_resolve_timeout_def)
  then show ?thesis
    by (simp add: vcenter_api_get_def vcenter_outcome_def raise_with_body_def json_or_empty_def
        bindM_def Let_def)
qed

lemma vcenter_get_outcome_witness:
  "map_option fst (vcenter_api_get (opts_for ''vcenter'') ''/x'' PNone None PNone
     (cache_upd Vcenter_Cache ''h:u'' (Some (CToken (PStr ''stale''))) (scripted [code_reply 401])))
   = Some (Exc (HTTPError ''401 status for ? url: error'' (Some (text_response 401 ''error''))))"
proof -
  let ?cfg = "\<lparr>cfg_host = PStr ''h'', cfg_username = PStr ''u'', cfg_password = PStr ''p'',
    cfg_verify_ssl = PBool True, cfg_timeout = PInt 30\<rparr>"
  let ?w = "cache_upd Vcenter_Cache ''h:u'' (Some (CToken (PStr ''stale''))) (scripted [code_reply 401])"
  have cfg: "vcenter_get_config (opts_for ''vcenter'') None = Ok ?cfg" by code_simp
  have hit: "cache_get Vcenter_Cache (host_user_key ?cfg) ?w = Some (CToken (PStr ''stale''))"
    by (simp add: host_user_key_def)
  have reply: "net ?w (clock ?w) (sent ?w @ [rq]) = Reply 5 (text_response 401 ''error'')" for rq
    by (simp add: scripted_def script_net_def code_reply_def replies_def)
  have "vcenter_outcome (text_response 401 ''error'') = Exc (HTTPError ''401 status for ? url: error''
      (Some (text_response 401 ''error'')))"
    by code_simp
  with vcenter_get_outcome [OF cfg hit refl reply] show ?thesis by simp
qed

text \<open>C1: \<open>wait_for_task\<close> returns only a task that the server reports as done, or the
  synchronous answer made up for a 404; on the way it sends nothing but logins and look-ups of this
  task, and it looks the task up at most once per poll interval of the timeout and one more time.\<close>

theorem vcenter_wait_sound:
  assumes run: "vcenter_wait_for_task opts tid (PInt t) (PInt n) p w = Some (Ok d, w')" and "0 < n"
  shows "(d = synchronous_task tid \<or> (\<exists>task. d = PDict task \<and> in_strs (dget task ''status'' PNone) TASK_DONE))
    \<and> sends_only (\<lambda>rq. is_vcenter_login rq \<or> vcenter_call ''GET'' (''/api/cis/tasks/'' @ py_str tid) PNone PNone rq) w w'
    \<and> (gets w' \<le> gets w \<or> (int (gets w') - int (gets w) - 1) * n < t)"
proof (intro conjI)
  let ?dl = "clock w + secs t"
  from run have loop: "loopM (vcenter_task_round opts tid (PInt t) (PInt n) p ?dl) (empty_dict, False) w = Some (Ok d, w')"
    by (simp add: vcenter_wait_for_task_def deadline_after_run)
  have "(\<lambda>r _. \<forall>d. r = Ok d \<longrightarrow> d = synchronous_task tid \<or>
      (\<exists>task. d = PDict task \<and> in_strs (dget task ''status'' PNone) TASK_DONE)) (Ok d) w'"
    by (rule loopM_rule [OF loop, where I = "\<lambda>_ _. True"])
      (auto simp: vcenter_task_round_def vcenter_task_lookup_def bindM_Some_iff tryM_Some_iff py_get_def
        split: if_splits sum.splits pyval.splits)
  then show "d = synchronous_task tid \<or> (\<exists>task. d = PDict task \<and> in_strs (dget task ''status'' PNone) TASK_DONE)"
    by simp
  have "keeps (sends_only (\<lambda>rq. is_vcenter_login rq \<or>
      vcenter_call ''GET'' (''/api/cis/tasks/'' @ py_str tid) PNone PNone rq))
      (vcenter_wait_for_task opts tid (PInt t) (PInt n) p)"
    by (auto simp: vcenter_wait_for_task_def vcenter_task_round_def vcenter_task_lookup_def intro!: spec_intros)
  from keepsD [OF this run]
  show "sends_only (\<lambda>rq. is_vcenter_login rq \<or> vcenter_call ''GET'' (''/api/cis/tasks/'' @ py_str tid) PNone PNone rq) w w'" .
  show "gets w' \<le> gets w \<or> (int (gets w') - int (gets w) - 1) * n < t"
    using vcenter_wait_gets [OF loop] \<open>0 < n\<close> by (auto simp: secs_def)
qed

lemma vcenter_wait_sound_witness:
  "map_option fst (vcenter_wait_for_task (opts_for ''vcenter'') (PStr ''t1'') (PInt 60) (PInt 10) None
     (scripted [login_reply, status_reply ''RUNNING'', status_reply ''SUCCEEDED'']))
   = Some (Ok (PDict [(''status'', PStr ''SUCCEEDED'')])) \<and>
   in_strs (dget [(''status'', PStr ''SUCCEEDED'')] ''status'' PNone) TASK_DONE"
proof -
  have run: "map_option fst (vcenter_wait_for_task (opts_for ''vcenter'') (PStr ''t1'') (PInt 60) (PInt 10) None
     (scripted [login_reply, status_reply ''RUNNING'', status_reply ''SUCCEEDED'']))
   = Some (Ok (PDict [(''status'', PStr ''SUCCEEDED'')]))"
    by code_simp
  from vcenter_wait_sound [OF run_result [OF run]] run show ?thesis
    by (simp add: synchronous_task_def)
qed

text \<open>A 404 is the answer "ran synchronously" on the very first look-up only; once the task
  has been seen the same 404 is raised.\<close>

theorem vcenter_wait_404:
  assumes "vcenter_api_get opts (''/api/cis/tasks/'' @ py_str tid) PNone p PNone w = Some (Exc e, w')"
    and "http_status_is e 404" and "clock w < dl"
  shows "loopM (vcenter_task_round opts tid t i p dl) (empty_dict, False) w = Some (Ok (synchronous_task tid), w')
    \<and> loopM (vcenter_task_round opts tid t i p dl) (task, True) w = Some (Exc e, w')"
  using assms by (auto intro!: loopM_run simp: vcenter_task_round_def vcenter_task_lookup_def bindM_def tryM_def)

lemma vcenter_wait_404_witness:
  "map_option fst (loopM (vcenter_task_round (opts_for ''vcenter'') (PStr ''t1'') (PInt 60) (PInt 10) None 60000)
      (empty_dict, True) (scripted [login_reply, code_reply 404]))
   = Some (Exc (HTTPError ''404 status for ? url: error'' (Some (text_response 404 ''error''))))"
proof -
  let ?w = "scripted [login_reply, code_reply 404]"
  let ?e = "HTTPError ''404 status for ? url: error'' (Some (text_response 404 ''error''))"
  have "map_option fst (vcenter_api_get (opts_for ''vcenter'') (''/api/cis/tasks/'' @ py_str (PStr ''t1'')) PNone None PNone ?w)
      = Some (Exc ?e)"
    by code_simp
  from vcenter_wait_404 [OF run_result [OF this], of 60000] show ?thesis
    by (simp add: http_status_is_def text_response_def scripted_def)
qed

end
