(* ===== verification/Vc_Patch.thy ===== *)
theory Vc_Patch
  imports Vcenter
begin

section \<open>Vc_Patch: \<open>clients/vc_patch.py\<close>\<close>

text \<open>
  The client of vCenter's appliance-update API: error classification, the repository policy,
  pending and staged updates, matching of version strings, and the monitors that poll until an
  update is staged or installed.
\<close>

subsection \<open>Paths and errors\<close>

definition vc_patch_BASE :: string where "vc_patch_BASE = ''/rest/appliance/update''"

definition TRANSIENT_STATUS_CODES :: "int list" where
  "TRANSIENT_STATUS_CODES = [401, 403, 404, 500, 502, 503]"

definition STAGE_TIMEOUT_MARKERS :: "string list" where
  "STAGE_TIMEOUT_MARKERS = [''Timeout happens while waiting for task out file'', ''task out file'']"

definition STAGING_IN_PROGRESS_MARKERS :: "string list" where
  "STAGING_IN_PROGRESS_MARKERS = [''Update staging is in progress'', ''precheck.not_allowed_error'']"

text \<open>\<open>urllib.parse.quote(s, safe="")\<close>: unreserved characters stay, every other byte is \<open>%XX\<close>.\<close>

definition unreserved :: "char \<Rightarrow> bool" where
  "unreserved c \<longleftrightarrow>
     (let n = of_char c :: nat
      in 48 \<le> n \<and> n \<le> 57 \<or> 65 \<le> n \<and> n \<le> 90 \<or> 97 \<le> n \<and> n \<le> 122
         \<or> n = 95 \<or> n = 46 \<or> n = 45 \<or> n = 126)"

definition hex_digit :: "nat \<Rightarrow> char" where
  "hex_digit n = ''0123456789ABCDEF'' ! n"

definition quote_char :: "char \<Rightarrow> string" where
  "quote_char c =
     (if unreserved c then [c]
      else [CHR ''%'', hex_digit (of_char c div 16), hex_digit (of_char c mod 16)])"

definition quote_all :: "string \<Rightarrow> string" where
  "quote_all s = concat (map quote_char s)"

definition vc_patch_quoted :: "pyval \<Rightarrow> string" where
  "vc_patch_quoted version = quote_all (py_str version)"

definition vc_patch_error_text :: "exn \<Rightarrow> string" where
  "vc_patch_error_text exc =
     (case exn_response exc of
        Some resp \<Rightarrow>
          (case rs_text resp of Some text \<Rightarrow> exn_str exc @ '' '' @ text | None \<Rightarrow> exn_str exc)
      | None \<Rightarrow> exn_str exc)"

definition vc_patch_is_transient_error :: "exn \<Rightarrow> bool" where
  "vc_patch_is_transient_error exc =
     (case exn_response exc of
        Some resp \<Rightarrow> status_code resp \<in> set TRANSIENT_STATUS_CODES
      | None \<Rightarrow> False)"

definition vc_patch_is_stage_timeout_error :: "exn \<Rightarrow> bool" where
  "vc_patch_is_stage_timeout_error exc =
     (\<exists>m \<in> set STAGE_TIMEOUT_MARKERS. contains (vc_patch_error_text exc) m)"

definition vc_patch_is_staging_in_progress_error :: "exn \<Rightarrow> bool" where
  "vc_patch_is_staging_in_progress_error exc =
     (\<exists>m \<in> set STAGING_IN_PROGRESS_MARKERS. contains (vc_patch_error_text exc) m)"

subsection \<open>Repository policy and pending updates\<close>

definition vc_patch_get_update_policy :: "pyval \<Rightarrow> profile \<Rightarrow> pyval io" where
  "vc_patch_get_update_policy opts profile =
     vcenter_api_get opts (vc_patch_BASE @ ''/policy'') PNone profile PNone"

definition vc_patch_set_update_policy ::
  "pyval \<Rightarrow> pyval \<Rightarrow> pyval \<Rightarrow> pyval \<Rightarrow> pyval \<Rightarrow> pyval \<Rightarrow> pyval \<Rightarrow> profile \<Rightarrow> pyval io" where
  "vc_patch_set_update_policy opts repository_url auto_stage certificate_check check_schedule
     repo_username repo_password profile =
     (let body = PDict [(''policy'', PDict [
         (''auto_stage'', auto_stage),
         (''check_schedule'', if check_schedule \<noteq> PNone then check_schedule else PList []),
         (''certificate_check'', certificate_check),
         (''custom_URL'', repository_url),
         (''username'', py_or repo_username (PStr [])),
         (''password'', py_or repo_password (PStr []))])]
      in vcenter_api_put opts (vc_patch_BASE @ ''/policy'') body profile PNone)"

definition vc_patch_list_pending_updates :: "pyval \<Rightarrow> pyval \<Rightarrow> pyval \<Rightarrow> profile \<Rightarrow> pyval io" where
  "vc_patch_list_pending_updates opts repository_url source_type profile =
     (let params =
        [(''source_type'', if truthy repository_url then PStr ''LOCAL_AND_URL'' else source_type)]
        @ (if truthy repository_url then [(''url'', repository_url)] else [])
      in vcenter_api_get opts (vc_patch_BASE @ ''/pending'') (PDict params) profile PNone)"

definition pending_path :: "pyval \<Rightarrow> string" where
  "pending_path version = vc_patch_BASE @ ''/pending/'' @ vc_patch_quoted version"

definition vc_patch_get_pending_update :: "pyval \<Rightarrow> pyval \<Rightarrow> profile \<Rightarrow> pyval io" where
  "vc_patch_get_pending_update opts version profile =
     vcenter_api_get opts (pending_path version) PNone profile PNone"

definition vc_patch_list_upgradeable_components :: "pyval \<Rightarrow> pyval \<Rightarrow> profile \<Rightarrow> pyval io" where
  "vc_patch_list_upgradeable_components opts version profile =
     vcenter_api_get opts (pending_path version @ ''/components'') PNone profile PNone"

definition vc_patch_get_update_status :: "pyval \<Rightarrow> profile \<Rightarrow> pyval io" where
  "vc_patch_get_update_status opts profile = vcenter_api_get opts vc_patch_BASE PNone profile PNone"

definition component_body :: "pyval \<Rightarrow> pyval" where
  "component_body component =
     (if truthy component then PDict [(''component'', component)] else PNone)"

definition vc_patch_precheck :: "pyval \<Rightarrow> pyval \<Rightarrow> pyval \<Rightarrow> profile \<Rightarrow> pyval io" where
  "vc_patch_precheck opts version component profile =
     vcenter_api_post opts (pending_path version) (component_body component)
       (PDict [(''action'', PStr ''precheck'')]) profile PNone"

definition vc_patch_stage :: "pyval \<Rightarrow> pyval \<Rightarrow> pyval \<Rightarrow> profile \<Rightarrow> pyval io" where
  "vc_patch_stage opts version component profile =
     vcenter_api_post opts (pending_path version) (component_body component)
       (PDict [(''action'', PStr ''stage'')]) profile PNone"

definition vc_patch_install :: "pyval \<Rightarrow> pyval \<Rightarrow> pyval \<Rightarrow> pyval \<Rightarrow> profile \<Rightarrow> pyval io" where
  "vc_patch_install opts version sso_password component profile =
     (let body = [(''user_data'', PList [PDict [(''key'', PStr ''vmdir.password''), (''value'', sso_password)]])]
        @ (if truthy component then [(''component'', component)] else [])
      in vcenter_api_post opts (pending_path version) (PDict body)
           (PDict [(''action'', PStr ''install'')]) profile PNone)"

subsection \<open>The staged update\<close>

definition vc_patch_get_tolerant :: "pyval \<Rightarrow> string \<Rightarrow> profile \<Rightarrow> pyval io" where
  "vc_patch_get_tolerant opts path profile =
     tryM (vcenter_api_get opts path PNone profile PNone)
       (\<lambda>exc. case exn_response exc of
           Some resp \<Rightarrow>
             if status_code resp = 404 then
               (case response_json resp of Ok v \<Rightarrow> pureM v | Exc _ \<Rightarrow> pureM empty_dict)
             else raiseM exc
         | None \<Rightarrow> raiseM exc)"

definition vc_patch_get_staged_update :: "pyval \<Rightarrow> profile \<Rightarrow> pyval io" where
  "vc_patch_get_staged_update opts profile =
     vc_patch_get_tolerant opts (vc_patch_BASE @ ''/staged'') profile"

definition vc_patch_delete_staged_update :: "pyval \<Rightarrow> profile \<Rightarrow> pyval io" where
  "vc_patch_delete_staged_update opts profile =
     tryM (vcenter_api_delete opts (vc_patch_BASE @ ''/staged'') PNone profile PNone)
       (\<lambda>exc. if http_status_is exc 404 then pureM empty_dict else raiseM exc)"

definition vc_patch_get_update_history :: "pyval \<Rightarrow> profile \<Rightarrow> pyval io" where
  "vc_patch_get_update_history opts profile =
     vcenter_api_get opts (vc_patch_BASE @ ''/history'') PNone profile PNone"

subsection \<open>Matching versions\<close>

definition version_fields :: "dict \<Rightarrow> pyval list" where
  "version_fields item =
     [dget item ''version'' PNone, dget item ''name'' PNone, dget item ''id'' PNone,
      dget item ''display_version'' PNone]"

text \<open>The candidates of \<open>staged_matches\<close>: the fields of the entry and of its nested dicts.\<close>

definition staged_candidates :: "pyval \<Rightarrow> pyval list" where
  "staged_candidates value =
     (case value of
        PDict d \<Rightarrow>
          version_fields d @
          concat (map (\<lambda>key. case dget d key PNone of PDict nested \<Rightarrow> version_fields nested | _ \<Rightarrow> [])
            [''update'', ''info'', ''summary''])
      | PStr s \<Rightarrow> [PStr s]
      | _ \<Rightarrow> [])"

definition vc_patch_staged_matches :: "pyval \<Rightarrow> pyval \<Rightarrow> bool" where
  "vc_patch_staged_matches staged_update version =
     (if \<not> truthy staged_update then False
      else
        let value = (case staged_update of PDict d \<Rightarrow> dget d ''value'' PNone | _ \<Rightarrow> staged_update)
        in if value \<in> {PNone, PStr [], PDict [], PList []} then False
           else if \<not> truthy version then True
           else
             let v = py_str version
             in \<exists>c \<in> set (staged_candidates value).
                  truthy c \<and>
                  (py_str c = v \<or> starts_with (py_str c) v \<or> starts_with v (py_str c)))"

definition vc_patch_extract_values :: "pyval \<Rightarrow> pyval list" where
  "vc_patch_extract_values pending_updates =
     (case pending_updates of
        PDict d \<Rightarrow>
          (case dget d ''value'' (PList []) of
             PList vs \<Rightarrow> vs
           | PDict e \<Rightarrow> map snd e
           | _ \<Rightarrow> [])
      | PList vs \<Rightarrow> vs
      | _ \<Rightarrow> [])"

fun dict_values :: "pyval list \<Rightarrow> dict list" where
  "dict_values [] = []"
| "dict_values (PDict d # vs) = d # dict_values vs"
| "dict_values (_ # vs) = dict_values vs"

definition exact_version :: "string \<Rightarrow> dict \<Rightarrow> bool" where
  "exact_version requested item \<longleftrightarrow>
     (\<exists>c \<in> set (version_fields item). c \<noteq> PNone \<and> py_str c = requested)"

definition prefix_version :: "string \<Rightarrow> dict \<Rightarrow> bool" where
  "prefix_version requested item \<longleftrightarrow>
     (\<exists>c \<in> set (version_fields item). c \<noteq> PNone \<and>
        (starts_with (py_str c) requested \<or> starts_with requested (py_str c)))"

definition vc_patch_match_version :: "pyval list \<Rightarrow> string \<Rightarrow> dict option" where
  "vc_patch_match_version values requested =
     (case List.find (exact_version requested) (dict_values values) of
        Some item \<Rightarrow> Some item
      | None \<Rightarrow> List.find (prefix_version requested) (dict_values values))"

text \<open>\<open>version is not None and str(version).lower() not in ("", "none", "null")\<close>.\<close>

definition version_given :: "pyval \<Rightarrow> bool" where
  "version_given version \<longleftrightarrow>
     version \<noteq> PNone \<and> lower (py_str version) \<notin> {[], ''none'', ''null''}"

definition vc_patch_resolve_update_version ::
  "pyval \<Rightarrow> pyval \<Rightarrow> pyval \<Rightarrow> profile \<Rightarrow> (pyval \<times> pyval \<times> pyval) io" where
  "vc_patch_resolve_update_version opts repository_url version profile =
     bindM
       (if version_given version then
          tryM (bindM (vc_patch_get_pending_update opts version profile)
                 (\<lambda>pending_update. pureM (Some (PStr (py_str version), PNone, pending_update))))
            (\<lambda>exc. if is_HTTPError exc then pureM None else raiseM exc)
        else pureM None) (\<lambda>direct.
     case direct of
       Some found \<Rightarrow> pureM found
     | None \<Rightarrow>
     bindM (vc_patch_list_pending_updates opts repository_url (PStr ''LOCAL_AND_ONLINE'') profile) (\<lambda>pending_updates.
     let values = vc_patch_extract_values pending_updates in
     if values = [] then
       raiseM (RuntimeError (''No pending VCSA updates found. repository_url='' @ py_repr repository_url
         @ '', requested_version='' @ py_repr version))
     else
     bindM
       (if version_given version then
          (case vc_patch_match_version values (py_str version) of
             Some item \<Rightarrow> pureM (PDict item)
           | None \<Rightarrow>
               raiseM (RuntimeError (''Requested VCSA update version '' @ py_repr version
                 @ '' not found. Available: ''
                 @ py_repr (PList (map (\<lambda>d. py_or (dget d ''version'' PNone) (dget d ''name'' PNone))
                     (dict_values values))))))
        else pureM (hd values)) (\<lambda>matched.
     bindM (liftR
       (bindR (py_get matched ''version'' PNone) (\<lambda>v.
        bindR (py_get matched ''name'' PNone) (\<lambda>n.
        bindR (py_get matched ''id'' PNone) (\<lambda>i. Ok (py_or v (py_or n i))))))) (\<lambda>resolved.
     if \<not> truthy resolved then
       raiseM (RuntimeError (''Unable to resolve VCSA update version from '' @ py_str matched))
     else
     bindM (tryM (vc_patch_get_pending_update opts resolved profile)
              (\<lambda>exc. if is_HTTPError exc then pureM matched else raiseM exc)) (\<lambda>pending_update.
     pureM (resolved, pending_updates, pending_update))))))"

subsection \<open>Polling\<close>

definition vc_patch_extract_state :: "pyval \<Rightarrow> pyval" where
  "vc_patch_extract_state status =
     (case status of
        PDict d \<Rightarrow>
          (case dget d ''value'' PNone of
             PDict e \<Rightarrow> dget e ''state'' PNone
           | _ \<Rightarrow> dget d ''state'' PNone)
      | _ \<Rightarrow> PNone)"

text \<open>The loop of \<open>wait_for_staged_update\<close>; its variable is \<open>last\<close>.\<close>

definition staged_result :: "pyval \<Rightarrow> pyval" where
  "staged_result staged =
     PDict [(''success'', PBool True), (''state'', PStr ''STAGED''), (''staged_update'', staged)]"

definition wait_staged_round ::
  "pyval \<Rightarrow> pyval \<Rightarrow> pyval \<Rightarrow> profile \<Rightarrow> int \<Rightarrow> pyval \<Rightarrow> (pyval + pyval) io" where
  "wait_staged_round opts version poll_interval profile deadline last_seen =
     bindM
       (tryM
          (bindM (vc_patch_get_staged_update opts profile) (\<lambda>staged.
           if vc_patch_staged_matches staged version
             then pureM (Inl (staged_result staged)) else pureM (Inr staged)))
          (\<lambda>exc. if is_HTTPError exc then pureM (Inr last_seen) else raiseM exc)) (\<lambda>checked.
     case checked of
       Inl result \<Rightarrow> pureM (Inl result)
     | Inr last' \<Rightarrow>
         bindM monotonic (\<lambda>t.
         if t > deadline then
           raiseM (TimeoutError (''Timed out waiting for staged update. Last response: '' @ py_str last'))
         else bindM (py_sleep poll_interval) (\<lambda>_. pureM (Inr last'))))"

definition vc_patch_wait_for_staged_update ::
  "pyval \<Rightarrow> pyval \<Rightarrow> pyval \<Rightarrow> pyval \<Rightarrow> profile \<Rightarrow> pyval io" where
  "vc_patch_wait_for_staged_update opts version poll_interval timeout profile =
     bindM (deadline_after timeout) (\<lambda>deadline.
     loopM (wait_staged_round opts version poll_interval profile deadline) PNone)"

text \<open>
  Both monitors handle an exception of a status request in the same way: a transient HTTP error
  is counted and drops the session, too many of them end the monitor, anything else is raised.
\<close>

definition transient_failure ::
  "string \<Rightarrow> pyval \<Rightarrow> profile \<Rightarrow> int \<Rightarrow> int \<Rightarrow> exn \<Rightarrow> int io" where
  "transient_failure what opts profile max_transient_errors transient_errors exc =
     (if \<not> is_HTTPError exc \<or> \<not> vc_patch_is_transient_error exc then raiseM exc
      else
        let n = transient_errors + 1
        in bindM (vcenter_invalidate_session opts profile) (\<lambda>_.
           if n \<ge> max_transient_errors then
             raiseM (RuntimeError (''VCSA '' @ what @ '' monitor failed after ''
               @ int_str max_transient_errors @ '' transient errors. Last error: '' @ exn_str exc))
           else pureM n))"

text \<open>The loop of \<open>monitor_stage\<close>; its variables are \<open>(last_status, transient_errors)\<close>.
  (\<open>last_state\<close> only decides what is logged.)\<close>

definition monitor_stage_staged ::
  "pyval \<Rightarrow> pyval \<Rightarrow> profile \<Rightarrow> pyval \<Rightarrow> pyval option io" where
  "monitor_stage_staged opts version profile last_status =
     tryM
       (bindM (vc_patch_get_staged_update opts profile) (\<lambda>staged.
        if vc_patch_staged_matches staged version then
          pureM (Some (PDict [(''success'', PBool True), (''state'', PStr ''STAGED''),
            (''status'', last_status), (''staged_update'', staged)]))
        else pureM None))
       (\<lambda>exc. if is_HTTPError exc then pureM None else raiseM exc)"

definition monitor_stage_status ::
  "pyval \<Rightarrow> profile \<Rightarrow> int \<Rightarrow> pyval \<times> int \<Rightarrow> (pyval \<times> int) io" where
  "monitor_stage_status opts profile max_transient_errors = (\<lambda>(last_status, transient_errors).
     tryM
       (bindM (vc_patch_get_update_status opts profile) (\<lambda>status.
        if in_strs (vc_patch_extract_state status) [''STAGE_FAILED'', ''INSTALL_FAILED''] then
          raiseM (RuntimeError (''VCSA stage failed. Status: '' @ py_str status))
        else pureM (status, 0)))
       (\<lambda>exc. bindM (transient_failure ''stage'' opts profile max_transient_errors transient_errors exc)
          (\<lambda>n. pureM (last_status, n))))"

definition monitor_stage_round ::
  "pyval \<Rightarrow> pyval \<Rightarrow> pyval \<Rightarrow> pyval \<Rightarrow> int \<Rightarrow> profile \<Rightarrow> int \<Rightarrow> pyval \<times> int \<Rightarrow> (pyval + pyval \<times> int) io" where
  "monitor_stage_round opts version poll_interval timeout max_transient_errors profile deadline s =
     bindM (monitor_stage_staged opts version profile (fst s)) (\<lambda>found.
     case found of
       Some result \<Rightarrow> pureM (Inl result)
     | None \<Rightarrow>
         bindM (monitor_stage_status opts profile max_transient_errors s) (\<lambda>s'.
         bindM monotonic (\<lambda>t.
         if t > deadline then
           raiseM (TimeoutError (''Timed out waiting for VCSA stage after '' @ py_str timeout
             @ ''s. Last status: '' @ py_str (fst s')))
         else bindM (py_sleep poll_interval) (\<lambda>_. pureM (Inr s')))))"

definition vc_patch_monitor_stage ::
  "pyval \<Rightarrow> pyval \<Rightarrow> pyval \<Rightarrow> pyval \<Rightarrow> int \<Rightarrow> profile \<Rightarrow> pyval io" where
  "vc_patch_monitor_stage opts version poll_interval timeout max_transient_errors profile =
     bindM (deadline_after timeout) (\<lambda>deadline.
     loopM (monitor_stage_round opts version poll_interval timeout max_transient_errors profile deadline)
       (PNone, 0))"

text \<open>The loop of \<open>monitor_install\<close>, over the same variables.\<close>

definition monitor_install_status ::
  "pyval \<Rightarrow> profile \<Rightarrow> int \<Rightarrow> pyval \<times> int \<Rightarrow> (pyval + pyval \<times> int) io" where
  "monitor_install_status opts profile max_transient_errors = (\<lambda>(last_status, transient_errors).
     tryM
       (bindM (vc_patch_get_update_status opts profile) (\<lambda>status.
        let state = vc_patch_extract_state status in
        if state = PStr ''UP_TO_DATE'' then
          pureM (Inl (PDict [(''success'', PBool True), (''state'', state), (''status'', status)]))
        else if state = PStr ''INSTALL_FAILED'' then
          raiseM (RuntimeError (''Install failed. Status: '' @ py_str status))
        else pureM (Inr (status, 0))))
       (\<lambda>exc. bindM (transient_failure ''install'' opts profile max_transient_errors transient_errors exc)
          (\<lambda>n. pureM (Inr (last_status, n)))))"

definition monitor_install_round ::
  "pyval \<Rightarrow> pyval \<Rightarrow> int \<Rightarrow> profile \<Rightarrow> int \<Rightarrow> pyval \<times> int \<Rightarrow> (pyval + pyval \<times> int) io" where
  "monitor_install_round opts poll_interval max_transient_errors profile deadline s =
     bindM (monitor_install_status opts profile max_transient_errors s) (\<lambda>checked.
     case checked of
       Inl result \<Rightarrow> pureM (Inl result)
     | Inr s' \<Rightarrow>
         bindM monotonic (\<lambda>t.
         if t > deadline then
           raiseM (TimeoutError (''Timed out waiting for install. Last status: '' @ py_str (fst s')))
         else bindM (py_sleep poll_interval) (\<lambda>_. pureM (Inr s'))))"

definition vc_patch_monitor_install ::
  "pyval \<Rightarrow> pyval \<Rightarrow> pyval \<Rightarrow> int \<Rightarrow> profile \<Rightarrow> pyval io" where
  "vc_patch_monitor_install opts poll_interval timeout max_transient_errors profile =
     bindM (deadline_after timeout) (\<lambda>deadline.
     loopM (monitor_install_round opts poll_interval max_transient_errors profile deadline)
       (PNone, 0))"

subsection \<open>What every function of the client does to the world\<close>

lemmas vc_patch_calls = vc_patch_get_update_policy_def vc_patch_set_update_policy_def
  vc_patch_list_pending_updates_def vc_patch_get_pending_update_def
  vc_patch_list_upgradeable_components_def vc_patch_get_update_status_def vc_patch_precheck_def
  vc_patch_stage_def vc_patch_install_def vc_patch_get_tolerant_def vc_patch_get_staged_update_def
  vc_patch_delete_staged_update_def vc_patch_get_update_history_def
  vc_patch_resolve_update_version_def

lemmas vc_patch_rounds = wait_staged_round_def monitor_stage_staged_def monitor_stage_status_def
  monitor_stage_round_def monitor_install_status_def monitor_install_round_def
  transient_failure_def vcenter_invalidate_session_def

lemma vc_patch_returns [spec_intros]:
  "returns (vc_patch_set_update_policy opts url a b c u pw p)"
  "returns (vc_patch_list_pending_updates opts url src p)"
  "returns (vc_patch_get_pending_update opts v p)"
  "returns (vc_patch_get_update_status opts p)"
  "returns (vc_patch_precheck opts v cm p)" "returns (vc_patch_stage opts v cm p)"
  "returns (vc_patch_install opts v pw cm p)"
  "returns (vc_patch_get_staged_update opts p)" "returns (vc_patch_delete_staged_update opts p)"
  "returns (vc_patch_resolve_update_version opts url v p)"
  by (auto simp: vc_patch_calls intro!: spec_intros)

lemma vc_patch_evolves [spec_intros]:
  "keeps evolves (vc_patch_set_update_policy opts url a b c u pw p)"
  "keeps evolves (vc_patch_list_pending_updates opts url src p)"
  "keeps evolves (vc_patch_get_pending_update opts v p)"
  "keeps evolves (vc_patch_get_update_status opts p)"
  "keeps evolves (vc_patch_precheck opts v cm p)" "keeps evolves (vc_patch_stage opts v cm p)"
  "keeps evolves (vc_patch_install opts v pw cm p)"
  "keeps evolves (vc_patch_get_staged_update opts p)"
  "keeps evolves (vc_patch_delete_staged_update opts p)"
  "keeps evolves (vc_patch_resolve_update_version opts url v p)"
  by (auto simp: vc_patch_calls intro!: spec_intros)

lemma vc_patch_reads [spec_intros]:
  "keeps (sends_only vcenter_read) (vc_patch_list_pending_updates opts url src p)"
  "keeps (sends_only vcenter_read) (vc_patch_get_pending_update opts v p)"
  "keeps (sends_only vcenter_read) (vc_patch_get_update_status opts p)"
  "keeps (sends_only vcenter_read) (vc_patch_get_staged_update opts p)"
  "keeps (sends_only vcenter_read) (vc_patch_resolve_update_version opts url v p)"
  by (auto simp: vc_patch_calls intro!: spec_intros)

lemma vc_patch_rounds_return [spec_intros]:
  "returns (transient_failure what opts p mx n e)"
  "returns (wait_staged_round opts v i p dl s1)"
  "returns (monitor_stage_staged opts v p st)" "returns (monitor_stage_status opts p mx s)"
  "returns (monitor_stage_round opts v i t mx p dl s)"
  "returns (monitor_install_status opts p mx s)"
  "returns (monitor_install_round opts i mx p dl s)"
  by (auto simp: vc_patch_rounds intro!: spec_intros)

lemma vc_patch_rounds_evolve [spec_intros]:
  "keeps evolves (transient_failure what opts p mx n e)"
  "keeps evolves (wait_staged_round opts v i p dl s1)"
  "keeps evolves (monitor_stage_staged opts v p st)" "keeps evolves (monitor_stage_status opts p mx s)"
  "keeps evolves (monitor_stage_round opts v i t mx p dl s)"
  "keeps evolves (monitor_install_status opts p mx s)"
  "keeps evolves (monitor_install_round opts i mx p dl s)"
  by (auto simp: vc_patch_rounds intro!: spec_intros)

lemma vc_patch_rounds_read [spec_intros]:
  "keeps (sends_only vcenter_read) (wait_staged_round opts v i p dl s1)"
  "keeps (sends_only vcenter_read) (monitor_stage_round opts v i t mx p dl s)"
  "keeps (sends_only vcenter_read) (monitor_install_round opts i mx p dl s)"
  by (auto simp: vc_patch_rounds intro!: spec_intros)

lemma vc_patch_monitors_evolve [spec_intros]:
  "keeps evolves (vc_patch_wait_for_staged_update opts v i t p)"
  "keeps evolves (vc_patch_monitor_stage opts v i t mx p)"
  "keeps evolves (vc_patch_monitor_install opts i t mx p)"
  by (auto simp: vc_patch_wait_for_staged_update_def vc_patch_monitor_stage_def
      vc_patch_monitor_install_def intro!: spec_intros)

lemma vc_patch_monitors_read [spec_intros]:
  "keeps (sends_only vcenter_read) (vc_patch_wait_for_staged_update opts v i t p)"
  "keeps (sends_only vcenter_read) (vc_patch_monitor_stage opts v i t mx p)"
  "keeps (sends_only vcenter_read) (vc_patch_monitor_install opts i t mx p)"
  by (auto simp: vc_patch_wait_for_staged_update_def vc_patch_monitor_stage_def
      vc_patch_monitor_install_def intro!: spec_intros)

subsection \<open>The loops as instances of \<open>polling\<close>\<close>

lemma wait_staged_continues:
  assumes "wait_staged_round opts v i p dl s w = Some (Ok (Inr s'), w')"
  shows "clock w \<le> dl \<and> clock w + sleep_ms i \<le> clock w'"
  using assms unfolding wait_staged_round_def
  by (elim check_then_tail [rotated]) (auto intro!: spec_intros)

lemma monitor_stage_continues:
  assumes "monitor_stage_round opts v i t mx p dl s w = Some (Ok (Inr s'), w')"
  obtains w1 w2 where "monitor_stage_staged opts v p (fst s) w = Some (Ok None, w1)"
    "monitor_stage_status opts p mx s w1 = Some (Ok s', w2)"
    "w' = w2\<lparr>clock := clock w2 + sleep_ms i\<rparr>"
    "clock w \<le> dl" "clock w + sleep_ms i \<le> clock w'"
proof -
  from assms obtain w1 where found: "monitor_stage_staged opts v p (fst s) w = Some (Ok None, w1)"
    and rest: "bindM (monitor_stage_status opts p mx s) (\<lambda>s'. bindM monotonic (\<lambda>c.
        if c > dl then raiseM (TimeoutError (''Timed out waiting for VCSA stage after '' @ py_str t
             @ ''s. Last status: '' @ py_str (fst s')))
        else bindM (py_sleep i) (\<lambda>_. pureM (Inr s')))) w1 = Some (Ok (Inr s'), w')"
    unfolding monitor_stage_round_def by (auto elim!: bindM_SomeE split: option.splits)
  from rest show thesis
  proof (rule work_then_tail [rotated])
    show "keeps evolves (monitor_stage_status opts p mx s)" by (intro spec_intros)
  next
    fix w2 assume "monitor_stage_status opts p mx s w1 = Some (Ok s', w2)"
      "w' = w2\<lparr>clock := clock w2 + sleep_ms i\<rparr>" "clock w1 \<le> dl" "clock w1 + sleep_ms i \<le> clock w'"
    with found evolves_clock [OF vc_patch_rounds_evolve(3) found] show thesis
      by (intro that) auto
  qed
qed

lemma monitor_install_continues:
  assumes "monitor_install_round opts i mx p dl s w = Some (Ok (Inr s'), w')"
  obtains w1 where "monitor_install_status opts p mx s w = Some (Ok (Inr s'), w1)"
    "w' = w1\<lparr>clock := clock w1 + sleep_ms i\<rparr>"
    "clock w \<le> dl" "clock w + sleep_ms i \<le> clock w'"
  using assms unfolding monitor_install_round_def
  by (elim check_then_tail [rotated]) (auto intro!: spec_intros)

interpretation wst: polling "wait_staged_round opts v i p dl" "\<lambda>_ w. clock w" dl "sleep_ms i"
  for opts v i p dl
  by (rule polling_clockI) (auto intro: spec_intros dest: wait_staged_continues)

interpretation mst: polling "monitor_stage_round opts v i t mx p dl" "\<lambda>_ w. clock w" dl "sleep_ms i"
  for opts v i t mx p dl
  by (rule polling_clockI) (auto intro: spec_intros elim: monitor_stage_continues)

interpretation mit: polling "monitor_install_round opts i mx p dl" "\<lambda>_ w. clock w" dl "sleep_ms i"
  for opts i mx p dl
  by (rule polling_clockI) (auto intro: spec_intros elim: monitor_install_continues)

subsection \<open>Properties: versions in paths and in listings\<close>

text \<open>Reference decoder of \<open>%XX\<close> escapes.\<close>

definition hex_value :: "char \<Rightarrow> nat" where
  "hex_value c = (let n = of_char c :: nat in if n < 58 then n - 48 else n - 55)"

fun unquote_all :: "string \<Rightarrow> string" where
  "unquote_all [] = []"
| "unquote_all (c # cs) =
     (if c = CHR ''%'' then
        (case cs of a # b # rest \<Rightarrow> char_of (16 * hex_value a + hex_value b) # unquote_all rest
         | _ \<Rightarrow> c # unquote_all cs)
      else c # unquote_all cs)"

lemma hex_value_digit: "n < 16 \<Longrightarrow> hex_value (hex_digit n) = n"
proof -
  have "\<forall>n \<in> set [0..<16]. hex_value (hex_digit n) = n" by code_simp
  then show "n < 16 \<Longrightarrow> hex_value (hex_digit n) = n" by simp
qed

lemma unquote_quote_char: "unquote_all (quote_char c @ s) = c # unquote_all s"
proof (cases "unreserved c")
  case True
  then have "c \<noteq> CHR ''%''" by (auto simp: unreserved_def)
  with True show ?thesis by (simp add: quote_char_def)
next
  case False
  have "(of_char c :: nat) < 256" by simp
  then have "(of_char c :: nat) div 16 < 16" by linarith
  then show ?thesis using False by (simp add: quote_char_def hex_value_digit)
qed

lemma hex_digit_unreserved: "n < 16 \<Longrightarrow> unreserved (hex_digit n)"
proof -
  have "\<forall>n \<in> set [0..<16]. unreserved (hex_digit n)" by code_simp
  then show "n < 16 \<Longrightarrow> unreserved (hex_digit n)" by simp
qed

lemma quote_char_chars: "set (quote_char c) \<subseteq> {c. unreserved c} \<union> {CHR ''%''}"
proof -
  have "(of_char c :: nat) < 256" by simp
  then have "(of_char c :: nat) div 16 < 16" by linarith
  then show ?thesis by (auto simp: quote_char_def hex_digit_unreserved)
qed

text \<open>A version put into a path can be read back from it, and no character of it can end the
  path segment or start a query: only unreserved characters and \<open>%\<close> are left.\<close>

theorem vc_patch_quoted_roundtrip:
  "unquote_all (vc_patch_quoted v) = py_str v \<and>
   set (vc_patch_quoted v) \<subseteq> {c. unreserved c} \<union> {CHR ''%''} \<and>
   CHR ''/'' \<notin> set (vc_patch_quoted v) \<and> CHR ''?'' \<notin> set (vc_patch_quoted v)"
proof -
  have decode: "unquote_all (quote_all s) = s" for s
    by (induction s) (simp_all add: quote_all_def unquote_quote_char)
  have chars: "set (vc_patch_quoted v) \<subseteq> {c. unreserved c} \<union> {CHR ''%''}"
    using quote_char_chars by (fastforce simp: vc_patch_quoted_def quote_all_def)
  moreover have "\<not> unreserved (CHR ''/'')" "\<not> unreserved (CHR ''?'')" by (simp_all add: unreserved_def)
  ultimately show ?thesis using decode by (auto simp: vc_patch_quoted_def)
qed

lemma find_filter: "List.find P xs = (case filter P xs of [] \<Rightarrow> None | x # _ \<Rightarrow> Some x)"
  by (induction xs) auto

lemma exact_is_prefix: "exact_version v d \<Longrightarrow> prefix_version v d"
  by (auto simp: exact_version_def prefix_version_def)

text \<open>The two passes of \<open>_match_version\<close> are one search: the first item in the list of all
  exact matches followed by all prefix matches. So an exact match always wins over an earlier
  prefix match, and the search fails only if no item matches even by prefix.\<close>

theorem vc_patch_match_version_two_pass:
  "vc_patch_match_version values requested =
     (case filter (exact_version requested) (dict_values values)
           @ filter (prefix_version requested) (dict_values values) of
        [] \<Rightarrow> None
      | item # _ \<Rightarrow> Some item) \<and>
   (vc_patch_match_version values requested = None \<longleftrightarrow>
      filter (prefix_version requested) (dict_values values) = [])"
proof (cases "filter (exact_version requested) (dict_values values)")
  case Nil
  then show ?thesis by (simp add: vc_patch_match_version_def find_filter split: list.split)
next
  case (Cons item rest)
  then have "item \<in> set (filter (exact_version requested) (dict_values values))" by simp
  then have "item \<in> set (filter (prefix_version requested) (dict_values values))"
    by (simp add: exact_is_prefix)
  then have "filter (prefix_version requested) (dict_values values) \<noteq> []"
    by (metis empty_iff list.set(1))
  with Cons show ?thesis by (simp add: vc_patch_match_version_def find_filter)
qed

text \<open>An item with an empty version-like field (not just a missing one) matches every
  requested version by prefix.\<close>

theorem vc_patch_empty_field_matches:
  assumes "dget item ''name'' PNone = PStr []"
  shows "vc_patch_match_version [PDict item] requested = Some item"
  using assms exact_is_prefix [of requested item]
  by (auto simp: vc_patch_match_version_def prefix_version_def version_fields_def)

lemma vc_patch_empty_field_matches_witness:
  "vc_patch_match_version [PDict [(''name'', PStr []), (''version'', PStr ''8.0.1'')]] ''9.0''
   = Some [(''name'', PStr []), (''version'', PStr ''8.0.1'')]"
  by (rule vc_patch_empty_field_matches) simp

subsection \<open>Properties: the monitors\<close>

lemma monitor_stage_round_leaves:
  assumes "monitor_stage_round opts v i t mx p dl s w = Some (Ok (Inl d), w')"
  shows "\<exists>staged. vc_patch_staged_matches staged v \<and>
    d = PDict [(''success'', PBool True), (''state'', PStr ''STAGED''), (''status'', fst s), (''staged_update'', staged)]"
  using assms unfolding monitor_stage_round_def monitor_stage_staged_def
  by (auto simp: bindM_Some_iff tryM_Some_iff split: option.splits if_splits)

lemma monitor_install_round_leaves:
  assumes "monitor_install_round opts i mx p dl s w = Some (Ok (Inl d), w')"
  shows "\<exists>status. vc_patch_extract_state status = PStr ''UP_TO_DATE'' \<and>
    d = PDict [(''success'', PBool True), (''state'', PStr ''UP_TO_DATE''), (''status'', status)]"
proof -
  have "monitor_install_status opts p mx s w = Some (Ok (Inl d), w')"
    using assms unfolding monitor_install_round_def by (rule check_then_tail_leaves)
  then show ?thesis
    by (auto simp: monitor_install_status_def bindM_Some_iff tryM_Some_iff Let_def
        split: if_splits prod.splits)
qed

text \<open>C10: \<open>monitor_stage\<close> reports success only with a staged update that matches the requested
  version, and only reads (and logs in) on the way.\<close>

theorem vc_patch_monitor_stage_sound:
  assumes run: "vc_patch_monitor_stage opts v i t mx p w = Some (Ok d, w')"
  shows "(\<exists>status staged. vc_patch_staged_matches staged v \<and>
      d = PDict [(''success'', PBool True), (''state'', PStr ''STAGED''), (''status'', status), (''staged_update'', staged)])
    \<and> sends_only vcenter_read w w'"
proof -
  from run obtain dl w0 where loop: "loopM (monitor_stage_round opts v i t mx p dl) (PNone, 0) w0 = Some (Ok d, w')"
    by (auto simp: vc_patch_monitor_stage_def bindM_Some_iff)
  have "(\<lambda>r _. \<forall>d. r = Ok d \<longrightarrow> (\<exists>status staged. vc_patch_staged_matches staged v \<and>
      d = PDict [(''success'', PBool True), (''state'', PStr ''STAGED''), (''status'', status), (''staged_update'', staged)]))
      (Ok d) w'"
    by (rule loopM_rule [OF loop, where I = "\<lambda>_ _. True"]) (auto dest: monitor_stage_round_leaves)
  then show ?thesis using keepsD [OF vc_patch_monitors_read(2) run] by blast
qed

lemma vc_patch_monitor_stage_sound_witness:
  "let run = vc_patch_monitor_stage (opts_for ''vcenter'') (PStr ''9.0'') (PInt 10) (PInt 60) 3 None
     (scripted [login_reply, body_reply (PDict [(''value'', PStr ''8.0'')]), body_reply (PDict [(''state'', PStr ''STAGING'')]),
                body_reply (PDict [(''value'', PStr ''9.0.1'')])])
   in fst (the run) = Ok (PDict [(''success'', PBool True), (''state'', PStr ''STAGED''),
        (''status'', PDict [(''state'', PStr ''STAGING'')]), (''staged_update'', PDict [(''value'', PStr ''9.0.1'')])])
      \<and> sends_only vcenter_read (scripted [login_reply, body_reply (PDict [(''value'', PStr ''8.0'')]), body_reply (PDict [(''state'', PStr ''STAGING'')]),
                body_reply (PDict [(''value'', PStr ''9.0.1'')])]) (snd (the run))"
proof -
  have run: "map_option fst (vc_patch_monitor_stage (opts_for ''vcenter'') (PStr ''9.0'') (PInt 10) (PInt 60) 3 None
     (scripted [login_reply, body_reply (PDict [(''value'', PStr ''8.0'')]), body_reply (PDict [(''state'', PStr ''STAGING'')]),
                body_reply (PDict [(''value'', PStr ''9.0.1'')])]))
    = Some (Ok (PDict [(''success'', PBool True), (''state'', PStr ''STAGED''),
        (''status'', PDict [(''state'', PStr ''STAGING'')]), (''staged_update'', PDict [(''value'', PStr ''9.0.1'')])]))"
    by code_simp
  from vc_patch_monitor_stage_sound [OF run_result [OF run]] run show ?thesis
    by (auto simp: Let_def)
qed

text \<open>C2: \<open>monitor_install\<close> reports success only when the appliance's own state is
  \<open>UP_TO_DATE\<close>, and only reads (and logs in) on the way.\<close>

theorem vc_patch_monitor_install_sound:
  assumes run: "vc_patch_monitor_install opts i t mx p w = Some (Ok d, w')"
  shows "(\<exists>status. vc_patch_extract_state status = PStr ''UP_TO_DATE'' \<and>
      d = PDict [(''success'', PBool True), (''state'', PStr ''UP_TO_DATE''), (''status'', status)])
    \<and> sends_only vcenter_read w w'"
proof -
  from run obtain dl w0 where loop: "loopM (monitor_install_round opts i mx p dl) (PNone, 0) w0 = Some (Ok d, w')"
    by (auto simp: vc_patch_monitor_install_def bindM_Some_iff)
  have "(\<lambda>r _. \<forall>d. r = Ok d \<longrightarrow> (\<exists>status. vc_patch_extract_state status = PStr ''UP_TO_DATE'' \<and>
      d = PDict [(''success'', PBool True), (''state'', PStr ''UP_TO_DATE''), (''status'', status)])) (Ok d) w'"
    by (rule loopM_rule [OF loop, where I = "\<lambda>_ _. True"]) (auto dest: monitor_install_round_leaves)
  then show ?thesis using keepsD [OF vc_patch_monitors_read(3) run] by blast
qed

lemma vc_patch_monitor_install_sound_witness:
  "map_option fst (vc_patch_monitor_install (opts_for ''vcenter'') (PInt 10) (PInt 60) 3 None
     (scripted [login_reply, code_reply 503, login_reply, body_reply (PDict [(''state'', PStr ''UP_TO_DATE'')])]))
   = Some (Ok (PDict [(''success'', PBool True), (''state'', PStr ''UP_TO_DATE''),
        (''status'', PDict [(''state'', PStr ''UP_TO_DATE'')])])) \<and>
   (\<exists>status. vc_patch_extract_state status = PStr ''UP_TO_DATE'')"
proof -
  have run: "map_option fst (vc_patch_monitor_install (opts_for ''vcenter'') (PInt 10) (PInt 60) 3 None
     (scripted [login_reply, code_reply 503, login_reply, body_reply (PDict [(''state'', PStr ''UP_TO_DATE'')])]))
   = Some (Ok (PDict [(''success'', PBool True), (''state'', PStr ''UP_TO_DATE''),
        (''status'', PDict [(''state'', PStr ''UP_TO_DATE'')])]))"
    by code_simp
  from vc_patch_monitor_install_sound [OF run_result [OF run]] run show ?thesis by blast
qed

lemma vc_patch_monitors_return:
  assumes "0 < sleep_ms i"
  shows "returns (vc_patch_wait_for_staged_update opts v i t p)" (is ?wait)
    and "returns (vc_patch_monitor_stage opts v i t mx p)" (is ?stage)
    and "returns (vc_patch_monitor_install opts i t mx p)" (is ?install)
proof -
  have "loopM (wait_staged_round opts v i p dl) s w \<noteq> None"
    "loopM (monitor_stage_round opts v i t mx p dl) s' w \<noteq> None"
    "loopM (monitor_install_round opts i mx p dl) s' w \<noteq> None" for dl s s' w
    using wst.terminates [OF assms] mst.terminates [OF assms] mit.terminates [OF assms] by auto
  then show ?wait ?stage ?install
    by (auto simp: vc_patch_wait_for_staged_update_def vc_patch_monitor_stage_def
        vc_patch_monitor_install_def returns_def bindM_def deadline_after_run split: res.split)
qed

text \<open>Each monitor comes to an end, whatever the appliance answers, when the poll interval is
  positive, and it goes on for no more rounds than fit into the timeout: round \<open>n + 1\<close> continues
  only if \<open>n\<close> intervals after the start are not past the deadline.\<close>

theorem vc_patch_monitors_terminate:
  assumes "0 < n"
  shows "(\<exists>r w'. vc_patch_monitor_stage opts v (PInt n) t mx p w = Some (r, w')) \<and>
    (\<exists>r w'. vc_patch_monitor_install opts (PInt n) t mx p w = Some (r, w')) \<and>
    (loop_rounds (monitor_install_round opts (PInt n) mx p dl) (Suc k) s w s' w'' \<longrightarrow>
       clock w + int k * (1000 * n) \<le> dl)"
  using returnsD [OF vc_patch_monitors_return(2), of "PInt n"]
    returnsD [OF vc_patch_monitors_return(3), of "PInt n"] assms
    mit.rounds_bound [of opts "PInt n" mx p dl k s w s' w''] by simp

lemma vc_patch_monitors_terminate_witness:
  "\<exists>r w'. vc_patch_monitor_stage (opts_for ''vcenter'') PNone (PInt 50) (PInt 3600) 10 None (scripted []) = Some (r, w')"
  using vc_patch_monitors_terminate [of 50] by simp

text \<open>A status request that fails: counted, and the session dropped, or raised.\<close>

lemma transient_failure_run:
  assumes "vcenter_get_config opts p = Ok cfg"
  shows "transient_failure what opts p mx n e w =
    (if is_HTTPError e \<and> vc_patch_is_transient_error e then
       Some (if n + 1 < mx then Ok (n + 1)
             else Exc (RuntimeError (''VCSA '' @ what @ '' monitor failed after '' @ int_str mx
               @ '' transient errors. Last error: '' @ exn_str e)),
             cache_upd Vcenter_Cache (host_user_key cfg) None w)
     else Some (Exc e, w))"
  by (simp add: transient_failure_def vcenter_invalidate_session_def assms Let_def bindM_def)

text \<open>A failed status request of \<open>monitor_install\<close>: a transient HTTP error is counted and the
  session token dropped, so that the next request logs in again, until the \<open>mx\<close>-th error in a row
  ends the monitor; any other exception - a refused connection among them - is raised at once.\<close>

theorem vc_patch_transient_budget:
  assumes "vcenter_get_config opts p = Ok cfg"
    and "vc_patch_get_update_status opts p w = Some (Exc e, w1)"
  shows "monitor_install_status opts p mx (st, n) w =
    (if is_HTTPError e \<and> vc_patch_is_transient_error e then
       Some (if n + 1 < mx then Ok (Inr (st, n + 1))
             else Exc (RuntimeError (''VCSA install monitor failed after '' @ int_str mx
               @ '' transient errors. Last error: '' @ exn_str e)),
             cache_upd Vcenter_Cache (host_user_key cfg) None w1)
     else Some (Exc e, w1))"
  using assms(2)
  by (auto simp: monitor_install_status_def bindM_def tryM_def transient_failure_run [OF assms(1)])

lemma vc_patch_transient_budget_witness:
  "map_option fst (monitor_install_status (opts_for ''vcenter'') None 2 (PNone, 1) (scripted [login_reply, code_reply 503]))
   = Some (Exc (RuntimeError ''VCSA install monitor failed after 2 transient errors. Last error: 503 status for ? url: error''))"
proof -
  let ?cfg = "\<lparr>cfg_host = PStr ''h'', cfg_username = PStr ''u'', cfg_password = PStr ''p'',
    cfg_verify_ssl = PBool True, cfg_timeout = PInt 30\<rparr>"
  let ?e = "HTTPError ''503 status for ? url: error'' (Some (text_response 503 ''error''))"
  have cfg: "vcenter_get_config (opts_for ''vcenter'') None = Ok ?cfg" by code_simp
  have run: "map_option fst (vc_patch_get_update_status (opts_for ''vcenter'') None (scripted [login_reply, code_reply 503]))
    = Some (Exc ?e)" by code_simp
  have "vc_patch_is_transient_error ?e" "int_str 2 = ''2''" by code_simp+
  with vc_patch_transient_budget [OF cfg run_result [OF run], of 2 PNone 1] show ?thesis by simp
qed

text \<open>Between two rounds the number of transient errors in a row stays below the limit.\<close>

theorem vc_patch_transient_invariant:
  assumes "loop_rounds (monitor_install_round opts i mx p dl) k s w s' w'"
    and "0 \<le> snd s" and "snd s < mx"
  shows "0 \<le> snd s' \<and> snd s' < mx"
  using assms
proof (induction rule: loop_rounds.induct)
  case (more s w s1 w1 n s' w')
  obtain st n0 where s: "s = (st, n0)" by (cases s)
  from more.hyps(1) obtain w2 where status: "monitor_install_status opts p mx s w = Some (Ok (Inr s1), w2)"
    by (rule monitor_install_continues)
  then have "0 \<le> snd s1 \<and> snd s1 < mx"
    using more.prems unfolding s monitor_install_status_def
    by (auto simp: bindM_Some_iff tryM_Some_iff transient_failure_def Let_def vcenter_invalidate_session_def
        split: if_splits)
  with more.IH show ?case by simp
qed simp

lemma vc_patch_transient_invariant_witness:
  "let body = monitor_install_round (opts_for ''vcenter'') (PInt 10) 2 None 60000;
       w = scripted [login_reply, code_reply 503]
   in map_option fst (body (PNone, 0) w) = Some (Ok (Inr (PNone, 1))) \<and> (1::int) < 2"
proof -
  let ?body = "monitor_install_round (opts_for ''vcenter'') (PInt 10) 2 None 60000"
  let ?w = "scripted [login_reply, code_reply 503]"
  have run: "map_option fst (?body (PNone, 0) ?w) = Some (Ok (Inr (PNone, 1)))" by code_simp
  have "loop_rounds ?body (Suc 0) (PNone, 0) ?w (PNone, 1) (snd (the (?body (PNone, 0) ?w)))"
    using loop_rounds.more [of ?body, OF run_result [OF run] loop_rounds.none] .
  from vc_patch_transient_invariant [OF this] run show ?thesis by simp
qed

text \<open>C36: \<open>get_staged_update\<close> hands out the body of a 404, and \<open>staged_matches\<close> without a
  version takes every entry with a non-empty \<open>value\<close> for a staged update. The error body of the
  appliance has such a value, so \<open>wait_for_staged_update\<close> without a version reports success for an
  appliance on which nothing is staged.\<close>

theorem vc_patch_error_body_counts_as_staged:
  assumes "vcenter_api_get opts (vc_patch_BASE @ ''/staged'') PNone p PNone w = Some (Exc e, w')"
    and "exn_response e = Some resp" and "status_code resp = 404"
    and "json_value resp = Some (PDict [(''type'', t), (''value'', PDict (msg # msgs))])"
  shows "vc_patch_wait_for_staged_update opts PNone i (PInt tm) p w =
    Some (Ok (staged_result (PDict [(''type'', t), (''value'', PDict (msg # msgs))])), w')"
proof -
  have "vc_patch_get_staged_update opts p w = Some (Ok (PDict [(''type'', t), (''value'', PDict (msg # msgs))]), w')"
    using assms by (simp add: vc_patch_get_staged_update_def vc_patch_get_tolerant_def response_json_def)
  then have "wait_staged_round opts PNone i p dl PNone w =
    Some (Ok (Inl (staged_result (PDict [(''type'', t), (''value'', PDict (msg # msgs))]))), w')" for dl
    by (simp add: wait_staged_round_def vc_patch_staged_matches_def bindM_def tryM_def)
  then show ?thesis
    by (simp add: vc_patch_wait_for_staged_update_def deadline_after_run loopM_run)
qed

lemma vc_patch_error_body_counts_as_staged_witness:
  "map_option fst (vc_patch_wait_for_staged_update (opts_for ''vcenter'') PNone (PInt 10) (PInt 60) None
     (scripted [login_reply, replies (json_response 404 (PDict [(''type'', PStr ''not_found''),
        (''value'', PDict [(''messages'', PList [])])]))]))
   = Some (Ok (staged_result (PDict [(''type'', PStr ''not_found''), (''value'', PDict [(''messages'', PList [])])])))"
proof -
  let ?r = "json_response 404 (PDict [(''type'', PStr ''not_found''), (''value'', PDict [(''messages'', PList [])])])"
  have run: "map_option fst (vcenter_api_get (opts_for ''vcenter'') (vc_patch_BASE @ ''/staged'') PNone None PNone
      (scripted [login_reply, replies ?r])) = Some (Exc (HTTPError ''404 status for ? url: text'' (Some ?r)))"
    by code_simp
  show ?thesis
    using vc_patch_error_body_counts_as_staged [OF run_result [OF run], of ?r "PStr ''not_found''"
        "(''messages'', PList [])" "[]" "PInt 10" 60]
    by (simp add: json_response_def)
qed

end
