(* ===== verification/Salt_State.thy ===== *)
theory Salt_State
  imports Connection
begin

section \<open>Salt_State: what the state modules share\<close>

text \<open>
  The return of a Salt state (\<open>ret\<close>), \<open>_fail\<close>, the test flag of \<open>__opts__\<close> and the
  defaults a state takes from pillar. \<open>result = None\<close> is Salt's answer of a dry run.
\<close>

record salt_ret =
  ret_name :: string
  ret_changes :: pyval
  ret_result :: "bool option"
  ret_comment :: string

definition state_ret :: "string \<Rightarrow> salt_ret" where
  "state_ret name = \<lparr>ret_name = name, ret_changes = empty_dict, ret_result = Some True, ret_comment = []\<rparr>"

definition state_fail :: "salt_ret \<Rightarrow> exn \<Rightarrow> salt_ret" where
  "state_fail ret exc = ret\<lparr>ret_result := Some False, ret_comment := exn_str exc\<rparr>"

definition test_mode :: "pyval \<Rightarrow> bool" where
  "test_mode opts = (case opts of PDict d \<Rightarrow> truthy (dget d ''test'' PNone) | _ \<Rightarrow> False)"

text \<open>\<open>cfg.get(key, default) if explicit is None else explicit\<close>, and \<open>explicit or cfg.get(key)\<close>.\<close>

definition opt_or_cfg :: "pyval \<Rightarrow> dict \<Rightarrow> string \<Rightarrow> pyval \<Rightarrow> pyval" where
  "opt_or_cfg explicit cfg k dflt = (if explicit = PNone then dget cfg k dflt else explicit)"

lemma state_ret_simps [simp]:
  "ret_changes (state_ret n) = empty_dict" "ret_result (state_ret n) = Some True"
  "ret_name (state_ret n) = n" "ret_comment (state_ret n) = []"
  "ret_changes (state_fail r e) = ret_changes r" "ret_result (state_fail r e) = Some False"
  "ret_name (state_fail r e) = ret_name r" "ret_comment (state_fail r e) = exn_str e"
  by (simp_all add: state_ret_def state_fail_def)

text \<open>
  A statement that ends in \<open>except Exception as exc: return _fail(ret, exc)\<close>.
\<close>

definition or_fail :: "salt_ret \<Rightarrow> salt_ret io \<Rightarrow> salt_ret io" where
  "or_fail ret body = tryM body (\<lambda>exc. pureM (state_fail ret exc))"

lemma or_fail_no_exception: "or_fail ret body w \<noteq> Some (Exc e, w')"
  by (auto simp: or_fail_def tryM_Some_iff)

lemma returns_or_fail [spec_intros]: "returns body \<Longrightarrow> returns (or_fail ret body)"
  by (auto simp: or_fail_def intro!: spec_intros)

lemma or_fail_evolves [spec_intros]: "keeps evolves body \<Longrightarrow> keeps evolves (or_fail ret body)"
  by (auto simp: or_fail_def intro!: spec_intros)

lemma or_fail_sends [spec_intros]: "keeps (sends_only P) body \<Longrightarrow> keeps (sends_only P) (or_fail ret body)"
  by (auto simp: or_fail_def intro!: spec_intros)

text \<open>
  \<open>try: x = m  except Exception as exc: return _fail(ret, exc)\<close>, and the rest of the function.
\<close>

definition guarded :: "salt_ret \<Rightarrow> 'a io \<Rightarrow> ('a \<Rightarrow> salt_ret io) \<Rightarrow> salt_ret io" where
  "guarded ret m k =
     bindM (tryM (bindM m (\<lambda>x. pureM (Inl x))) (\<lambda>exc. pureM (Inr (state_fail ret exc))))
       (\<lambda>s. case s of Inl x \<Rightarrow> k x | Inr r \<Rightarrow> pureM r)"

lemma guarded_eq:
  "guarded ret m k w =
     (case m w of
        None \<Rightarrow> None
      | Some (Ok x, w1) \<Rightarrow> k x w1
      | Some (Exc e, w1) \<Rightarrow> Some (Ok (state_fail ret e), w1))"
  by (simp add: guarded_def bindM_def tryM_def split: option.split prod.split res.split)

lemma guarded_Some_iff:
  "guarded ret m k w = Some (r, w') \<longleftrightarrow>
     (\<exists>x w1. m w = Some (Ok x, w1) \<and> k x w1 = Some (r, w')) \<or>
     (\<exists>e. m w = Some (Exc e, w') \<and> r = Ok (state_fail ret e))"
  by (auto simp: guarded_eq split: option.splits prod.splits res.splits)

lemma guarded_run:
  "m w = Some (Ok x, w1) \<Longrightarrow> guarded ret m k w = k x w1"
  by (simp add: guarded_eq)

lemma guarded_rules [spec_intros]:
  "returns m \<Longrightarrow> (\<And>x. returns (k x)) \<Longrightarrow> returns (guarded ret m k)"
  "keeps evolves m \<Longrightarrow> (\<And>x. keeps evolves (k x)) \<Longrightarrow> keeps evolves (guarded ret m k)"
  "keeps (sends_only P) m \<Longrightarrow> (\<And>x. keeps (sends_only P) (k x)) \<Longrightarrow> keeps (sends_only P) (guarded ret m k)"
  by (auto simp: guarded_def intro!: spec_intros)

text \<open>The same where only some exceptions are caught, each with a return of its own.\<close>

definition caught :: "(exn \<Rightarrow> bool) \<Rightarrow> (exn \<Rightarrow> salt_ret) \<Rightarrow> 'a io \<Rightarrow> ('a \<Rightarrow> salt_ret io) \<Rightarrow> salt_ret io" where
  "caught catches failed m k =
     bindM (tryM (bindM m (\<lambda>x. pureM (Inl x)))
              (\<lambda>exc. if catches exc then pureM (Inr (failed exc)) else raiseM exc))
       (\<lambda>s. case s of Inl x \<Rightarrow> k x | Inr r \<Rightarrow> pureM r)"

lemma caught_eq:
  "caught catches failed m k w =
     (case m w of
        None \<Rightarrow> None
      | Some (Ok x, w1) \<Rightarrow> k x w1
      | Some (Exc e, w1) \<Rightarrow> Some (if catches e then Ok (failed e) else Exc e, w1))"
  by (simp add: caught_def bindM_def tryM_def split: option.split prod.split res.split)

lemma caught_SomeE:
  assumes "caught catches failed m k w = Some (r, w')"
  obtains x w1 where "m w = Some (Ok x, w1)" "k x w1 = Some (r, w')"
  | e where "m w = Some (Exc e, w')" "r = (if catches e then Ok (failed e) else Exc e)"
  using assms by (auto simp: caught_eq split: option.splits prod.splits res.splits)

lemma caught_rules [spec_intros]:
  "returns m \<Longrightarrow> (\<And>x. returns (k x)) \<Longrightarrow> returns (caught c f m k)"
  "keeps evolves m \<Longrightarrow> (\<And>x. keeps evolves (k x)) \<Longrightarrow> keeps evolves (caught c f m k)"
  "keeps (sends_only P) m \<Longrightarrow> (\<And>x. keeps (sends_only P) (k x)) \<Longrightarrow> keeps (sends_only P) (caught c f m k)"
  by (auto simp: caught_def intro!: spec_intros)

end
