(* ===== verification/Vcf_Vc_Patch.thy ===== *)
theory Vcf_Vc_Patch
  imports Vc_Patch Salt_State
begin

section \<open>Vcf_Vc_Patch: \<open>states/vcf_vc_patch.py\<close>\<close>

text \<open>
  The states that patch the vCenter appliance: \<open>repository_configured\<close>, \<open>update_prepared\<close>,
  \<open>update_installed\<close> and \<open>installed\<close>, with the redaction of credentials.
\<close>

subsection \<open>Configuration and redaction\<close>

text \<open>\<open>_cfg()\<close>: the section as a dict; anything but dicts on the way raises.\<close>

definition as_dict :: "pyval \<Rightarrow> dict res" where
  "as_dict v = (case v of PDict d \<Rightarrow> Ok d | _ \<Rightarrow> Exc (attr_error v ''get''))"

definition vcf_vc_patch_cfg :: "pyval \<Rightarrow> dict res" where
  "vcf_vc_patch_cfg opts =
     bindR (py_get opts ''pillar'' empty_dict) (\<lambda>pillar.
     bindR (py_get pillar ''saltext.vcf'' empty_dict) (\<lambda>r.
     bindR (py_get (py_or r empty_dict) ''vc_patch'' empty_dict) (\<lambda>c.
     as_dict (py_or c empty_dict))))"

definition SENSITIVE_KEY_MARKERS :: "string list" where
  "SENSITIVE_KEY_MARKERS = [''password'', ''passwd'', ''secret'', ''token'']"

definition sensitive :: "string \<Rightarrow> bool" where
  "sensitive k = (\<exists>marker \<in> set SENSITIVE_KEY_MARKERS. contains (lower k) marker)"

definition vcf_vc_patch_redact_user_data_entry :: "pyval \<Rightarrow> pyval" where
  "vcf_vc_patch_redact_user_data_entry item =
     (case item of
        PDict d \<Rightarrow>
          if sensitive (py_str (dget d ''key'' (PStr [])))
          then PDict (dset d ''value'' (PStr ''REDACTED'')) else item
      | _ \<Rightarrow> item)"

fun vcf_vc_patch_redact :: "pyval \<Rightarrow> pyval" where
  "vcf_vc_patch_redact (PDict d) =
     PDict (map (\<lambda>(k, v).
       (k, if sensitive k then PStr ''REDACTED''
           else case v of
               PList items \<Rightarrow>
                 if k = ''user_data'' then PList (map vcf_vc_patch_redact_user_data_entry items)
                 else vcf_vc_patch_redact v
             | _ \<Rightarrow> vcf_vc_patch_redact v)) d)"
| "vcf_vc_patch_redact (PList vs) = PList (map vcf_vc_patch_redact vs)"
| "vcf_vc_patch_redact v = v"

subsection \<open>\<open>repository_configured\<close>\<close>

record repository_args =
  ra_repository_url :: pyval
  ra_auto_stage :: pyval
  ra_certificate_check :: pyval
  ra_check_schedule :: pyval
  ra_repo_username :: pyval
  ra_repo_password :: pyval
  ra_profile :: profile

definition vcf_vc_patch_repository_configured ::
  "pyval \<Rightarrow> string \<Rightarrow> repository_args \<Rightarrow> salt_ret io" where
  "vcf_vc_patch_repository_configured opts name a =
     (let ret = state_ret name in
     bindM (liftR (vcf_vc_patch_cfg opts)) (\<lambda>cfg.
     let repository_url = py_or (ra_repository_url a) (dget cfg ''repository_url'' PNone) in
     if \<not> truthy repository_url then
       pureM (state_fail ret (ValueError
         (''repository_configured requires '' @ repr_str ''repository_url''
           @ '' (or pillar vc_patch:repository_url)'')))
     else if test_mode opts then
       pureM (ret\<lparr>ret_result := None,
         ret_comment := ''would configure update repository '' @ py_repr repository_url\<rparr>)
     else or_fail ret
       (bindM (vc_patch_set_update_policy opts repository_url
           (opt_or_cfg (ra_auto_stage a) cfg ''auto_stage'' (PBool False))
           (opt_or_cfg (ra_certificate_check a) cfg ''certificate_check'' (PBool True))
           (opt_or_cfg (ra_check_schedule a) cfg ''check_schedule'' PNone)
           (opt_or_cfg (ra_repo_username a) cfg ''repo_username'' (PStr []))
           (opt_or_cfg (ra_repo_password a) cfg ''repo_password'' (PStr []))
           (ra_profile a)) (\<lambda>resp.
        pureM (ret\<lparr>
          ret_changes := PDict [(''repository_url'', repository_url), (''response'', vcf_vc_patch_redact resp)],
          ret_comment := ''update repository configured: '' @ py_repr repository_url\<rparr>)))))"

subsection \<open>\<open>update_prepared\<close>\<close>

text \<open>
  The loop of \<open>_precheck_when_allowed\<close>. It has no loop variable but the last exception, and no
  \<open>sleep\<close> of its own: the inner \<open>monitor_stage\<close> is what waits.
\<close>

definition precheck_round ::
  "pyval \<Rightarrow> profile \<Rightarrow> pyval \<Rightarrow> pyval \<Rightarrow> int \<Rightarrow> int \<Rightarrow> int \<Rightarrow> unit \<Rightarrow> (pyval + unit) io" where
  "precheck_round opts profile resolved component poll_interval timeout deadline u =
     bindM
       (tryM (bindM (vc_patch_precheck opts resolved component profile) (\<lambda>r. pureM (Inl r)))
          (\<lambda>exc. if \<not> vc_patch_is_staging_in_progress_error exc then raiseM exc
            else bindM (vc_patch_monitor_stage opts resolved (PInt (min 10 poll_interval))
                   (PInt (min 600 timeout)) 10 profile) (\<lambda>_. pureM (Inr exc)))) (\<lambda>tried.
     case tried of
       Inl r \<Rightarrow> pureM (Inl r)
     | Inr last_exc \<Rightarrow>
         bindM monotonic (\<lambda>t.
         if t > deadline then
           raiseM (RuntimeError (''Timed out waiting to run precheck after staging. Last error: ''
             @ exn_str last_exc))
         else pureM (Inr ())))"

definition vcf_vc_patch_precheck_when_allowed ::
  "pyval \<Rightarrow> profile \<Rightarrow> pyval \<Rightarrow> pyval \<Rightarrow> int \<Rightarrow> int \<Rightarrow> pyval io" where
  "vcf_vc_patch_precheck_when_allowed opts profile resolved component poll_interval timeout =
     bindM (deadline_after (PInt timeout)) (\<lambda>deadline.
     loopM (precheck_round opts profile resolved component poll_interval timeout deadline) ())"

text \<open>The keyword arguments of \<open>update_prepared\<close>, and what they are after pillar defaults.\<close>

record prepare_args =
  pa_repository_url :: pyval
  pa_version :: pyval
  pa_component :: pyval
  pa_monitor :: pyval
  pa_stage_timeout_seconds :: pyval
  pa_poll_interval_seconds :: pyval
  pa_max_transient_errors :: pyval
  pa_force_stage :: pyval
  pa_run_precheck :: pyval
  pa_profile :: profile

record prepare_settings =
  ps_repository_url :: pyval
  ps_version :: pyval
  ps_component :: pyval
  ps_monitor :: bool
  ps_stage_timeout :: int
  ps_poll_interval :: int
  ps_max_transient :: int
  ps_force_stage :: bool
  ps_run_precheck :: bool

definition prepare_settings_of :: "pyval \<Rightarrow> prepare_args \<Rightarrow> prepare_settings res" where
  "prepare_settings_of opts a =
     bindR (vcf_vc_patch_cfg opts) (\<lambda>cfg.
     bindR (py_int (opt_or_cfg (pa_stage_timeout_seconds a) cfg ''stage_timeout_seconds'' (PInt 3600))) (\<lambda>stage_timeout.
     bindR (py_int (opt_or_cfg (pa_poll_interval_seconds a) cfg ''poll_interval_seconds'' (PInt 50))) (\<lambda>poll_interval.
     bindR (py_int (opt_or_cfg (pa_max_transient_errors a) cfg ''max_transient_errors'' (PInt 10))) (\<lambda>max_transient.
     Ok \<lparr>ps_repository_url = py_or (pa_repository_url a) (dget cfg ''repository_url'' PNone),
         ps_version = opt_or_cfg (pa_version a) cfg ''version'' PNone,
         ps_component = opt_or_cfg (pa_component a) cfg ''component'' PNone,
         ps_monitor = truthy (opt_or_cfg (pa_monitor a) cfg ''monitor'' (PBool True)),
         ps_stage_timeout = stage_timeout, ps_poll_interval = poll_interval,
         ps_max_transient = max_transient,
         ps_force_stage = truthy (opt_or_cfg (pa_force_stage a) cfg ''force_stage'' (PBool False)),
         ps_run_precheck = truthy (opt_or_cfg (pa_run_precheck a) cfg ''run_precheck'' (PBool True))\<rparr>))))"

text \<open>The part of the \<open>try\<close> block that sets the policy, or records that it would.\<close>

definition prepare_policy :: "pyval \<Rightarrow> profile \<Rightarrow> prepare_settings \<Rightarrow> dict io" where
  "prepare_policy opts profile s =
     (if truthy (ps_repository_url s) then
        (if test_mode opts then
           pureM [(''repository_policy'', PDict [(''would_update'', PBool True),
             (''repository_url'', ps_repository_url s)])]
         else
           bindM (vc_patch_set_update_policy opts (ps_repository_url s) (PBool False) (PBool True) PNone
               (PStr []) (PStr []) profile) (\<lambda>resp.
           pureM [(''repository_policy'', vcf_vc_patch_redact resp)]))
      else pureM [])"

text \<open>The call of \<open>stage\<close>, with the fallback to polling after a client-side timeout.\<close>

definition prepare_stage :: "pyval \<Rightarrow> profile \<Rightarrow> prepare_settings \<Rightarrow> pyval \<Rightarrow> pyval io" where
  "prepare_stage opts profile s resolved =
     tryM (vc_patch_stage opts resolved (ps_component s) profile)
       (\<lambda>exc. if vc_patch_is_stage_timeout_error exc then
           vc_patch_wait_for_staged_update opts resolved (PInt (min 10 (ps_poll_interval s)))
             (PInt 600) profile
         else raiseM exc)"

definition vcf_vc_patch_update_prepared :: "pyval \<Rightarrow> string \<Rightarrow> prepare_args \<Rightarrow> salt_ret io" where
  "vcf_vc_patch_update_prepared opts name a =
     (let ret = state_ret name; profile = pa_profile a in
     bindM (liftR (prepare_settings_of opts a)) (\<lambda>s.
     or_fail ret
       (bindM (prepare_policy opts profile s) (\<lambda>data.
        bindM (vc_patch_resolve_update_version opts (ps_repository_url s) (ps_version s) profile)
          (\<lambda>(resolved, pending_updates, pending_update).
        let data = data @ [(''resolved_version'', resolved), (''pending_update'', pending_update)] in
        bindM (tryM (vc_patch_get_staged_update opts profile) (\<lambda>_. pureM PNone)) (\<lambda>staged.
        if vc_patch_staged_matches staged resolved \<and> \<not> ps_force_stage s then
          pureM (ret\<lparr>ret_comment := ''VCSA update '' @ py_str resolved @ '' is already staged''\<rparr>)
        else if test_mode opts then
          pureM (ret\<lparr>ret_result := None, ret_comment := ''would stage VCSA update '' @ py_str resolved\<rparr>)
        else
          bindM (prepare_stage opts profile s resolved) (\<lambda>staging.
          let data = data @ [(''stage'', staging)] in
          bindM (if ps_monitor s then
                   bindM (vc_patch_monitor_stage opts resolved (PInt (ps_poll_interval s))
                       (PInt (ps_stage_timeout s)) (ps_max_transient s) profile)
                     (\<lambda>m. pureM (data @ [(''monitor_stage'', m)]))
                 else pureM data) (\<lambda>data.
          bindM (if ps_run_precheck s then
                   bindM (vcf_vc_patch_precheck_when_allowed opts profile resolved (ps_component s)
                       (ps_poll_interval s) (ps_stage_timeout s))
                     (\<lambda>m. pureM (data @ [(''precheck'', m)]))
                 else pureM data) (\<lambda>data.
          pureM (ret\<lparr>ret_changes := PDict data,
            ret_comment := ''VCSA update prepared for version '' @ py_str resolved\<rparr>))))))))))"

subsection \<open>\<open>update_installed\<close> and \<open>installed\<close>\<close>

record install_args =
  ia_version :: pyval
  ia_sso_password :: pyval
  ia_component :: pyval
  ia_monitor :: pyval
  ia_install_timeout_seconds :: pyval
  ia_poll_interval_seconds :: pyval
  ia_max_transient_errors :: pyval
  ia_profile :: profile

definition vcf_vc_patch_update_installed :: "pyval \<Rightarrow> string \<Rightarrow> install_args \<Rightarrow> salt_ret io" where
  "vcf_vc_patch_update_installed opts name a =
     (let ret = state_ret name; profile = ia_profile a in
     bindM (liftR (vcf_vc_patch_cfg opts)) (\<lambda>cfg.
     let version = opt_or_cfg (ia_version a) cfg ''version'' PNone;
         sso_password = opt_or_cfg (ia_sso_password a) cfg ''sso_password'' PNone;
         component = opt_or_cfg (ia_component a) cfg ''component'' PNone;
         monitor = truthy (opt_or_cfg (ia_monitor a) cfg ''monitor'' (PBool True)) in
     bindM (liftR (py_int (opt_or_cfg (ia_install_timeout_seconds a) cfg ''install_timeout_seconds'' (PInt 7200)))) (\<lambda>install_timeout.
     bindM (liftR (py_int (opt_or_cfg (ia_poll_interval_seconds a) cfg ''poll_interval_seconds'' (PInt 120)))) (\<lambda>poll_interval.
     bindM (liftR (py_int (opt_or_cfg (ia_max_transient_errors a) cfg ''max_transient_errors'' (PInt 10)))) (\<lambda>max_transient.
     if \<not> truthy sso_password then
       pureM (state_fail ret (ValueError
         (''update_installed requires '' @ repr_str ''sso_password'')))
     else or_fail ret
       (bindM (vc_patch_resolve_update_version opts PNone version profile)
          (\<lambda>(resolved, pending_updates, pending_update).
        if test_mode opts then
          pureM (ret\<lparr>ret_result := None, ret_comment := ''would install VCSA update '' @ py_str resolved\<rparr>)
        else
          bindM (vc_patch_install opts resolved sso_password component profile) (\<lambda>response.
          let data = [(''install'', vcf_vc_patch_redact response)] in
          bindM (if monitor then
                   bindM (vc_patch_monitor_install opts (PInt poll_interval) (PInt install_timeout)
                       max_transient profile) (\<lambda>m. pureM (data @ [(''monitor_install'', m)]))
                 else pureM data) (\<lambda>data.
          pureM (ret\<lparr>ret_changes := PDict data,
            ret_comment := ''VCSA update install submitted for version '' @ py_str resolved\<rparr>))))))))))"

record installed_args = prepare_args +
  in_sso_password :: pyval
  in_install_timeout_seconds :: pyval

definition vcf_vc_patch_installed :: "pyval \<Rightarrow> string \<Rightarrow> installed_args \<Rightarrow> salt_ret io" where
  "vcf_vc_patch_installed opts name a =
     (if test_mode opts then
        vcf_vc_patch_update_prepared opts name (prepare_args.truncate a)
      else
        vcf_vc_patch_update_installed opts name
          \<lparr>ia_version = pa_version a, ia_sso_password = in_sso_password a,
           ia_component = pa_component a, ia_monitor = pa_monitor a,
           ia_install_timeout_seconds = in_install_timeout_seconds a,
           ia_poll_interval_seconds = pa_poll_interval_seconds a,
           ia_max_transient_errors = pa_max_transient_errors a, ia_profile = pa_profile a\<rparr>)"

subsection \<open>Redaction\<close>

text \<open>What \<open>_redact\<close> promises: the reference predicate on values.\<close>

definition entry_clean :: "pyval \<Rightarrow> bool" where
  "entry_clean item =
     (case item of
        PDict d \<Rightarrow> sensitive (py_str (dget d ''key'' (PStr []))) \<longrightarrow> dget d ''value'' PNone = PStr ''REDACTED''
      | _ \<Rightarrow> True)"

fun no_secret :: "pyval \<Rightarrow> bool" where
  "no_secret (PDict d) =
     (\<forall>(k, v) \<in> set d.
        if sensitive k then v = PStr ''REDACTED''
        else case v of
            PList items \<Rightarrow> if k = ''user_data'' then (\<forall>x \<in> set items. entry_clean x) else no_secret v
          | _ \<Rightarrow> no_secret v)"
| "no_secret (PList vs) = (\<forall>v \<in> set vs. no_secret v)"
| "no_secret _ = True"

lemma redact_entry_clean [simp]: "entry_clean (vcf_vc_patch_redact_user_data_entry x)"
  by (auto simp: entry_clean_def vcf_vc_patch_redact_user_data_entry_def dget_dset split: pyval.splits)

lemma redact_entry_idem [simp]:
  "vcf_vc_patch_redact_user_data_entry (vcf_vc_patch_redact_user_data_entry x)
   = vcf_vc_patch_redact_user_data_entry x"
  by (auto simp: vcf_vc_patch_redact_user_data_entry_def dset_dset split: pyval.splits)

text \<open>Both functions, one dict entry at a time.\<close>

definition redact_field :: "string \<Rightarrow> pyval \<Rightarrow> pyval" where
  "redact_field k v =
     (if sensitive k then PStr ''REDACTED''
      else if k = ''user_data'' \<and> is_list v
        then (case v of PList items \<Rightarrow> PList (map vcf_vc_patch_redact_user_data_entry items) | _ \<Rightarrow> v)
      else vcf_vc_patch_redact v)"

definition field_clean :: "string \<Rightarrow> pyval \<Rightarrow> bool" where
  "field_clean k v \<longleftrightarrow>
     (if sensitive k then v = PStr ''REDACTED''
      else if k = ''user_data'' \<and> is_list v
        then (case v of PList items \<Rightarrow> \<forall>x \<in> set items. entry_clean x | _ \<Rightarrow> True)
      else no_secret v)"

lemma redact_dict: "vcf_vc_patch_redact (PDict d) = PDict (map (\<lambda>(k, v). (k, redact_field k v)) d)"
  by (auto simp: redact_field_def split: pyval.splits)

lemma no_secret_dict: "no_secret (PDict d) \<longleftrightarrow> (\<forall>(k, v) \<in> set d. field_clean k v)"
  unfolding no_secret.simps(1)
proof (rule ball_cong [OF refl])
  fix p assume "p \<in> set d"
  show "(case p of (k, v) \<Rightarrow>
      if sensitive k then v = PStr ''REDACTED''
      else case v of
          PList items \<Rightarrow> if k = ''user_data'' then (\<forall>x \<in> set items. entry_clean x) else no_secret v
        | _ \<Rightarrow> no_secret v) = (case p of (k, v) \<Rightarrow> field_clean k v)"
    by (cases p; cases "snd p") (simp_all add: field_clean_def)
qed

declare vcf_vc_patch_redact.simps(1) [simp del] no_secret.simps(1) [simp del]

lemma redact_is_list [simp]: "is_list (vcf_vc_patch_redact v) = is_list v"
  by (cases v) (auto simp: redact_dict)

lemma sensitive_user_data [simp]: "\<not> sensitive ''user_data''"
  by code_simp

lemma field_clean_redact: "no_secret (vcf_vc_patch_redact v) \<Longrightarrow> field_clean k (redact_field k v)"
  by (cases v) (auto simp: field_clean_def redact_field_def redact_dict)

lemma redact_field_idem:
  "vcf_vc_patch_redact (vcf_vc_patch_redact v) = vcf_vc_patch_redact v \<Longrightarrow>
     redact_field k (redact_field k v) = redact_field k v"
  by (cases v) (auto simp: redact_field_def redact_dict)

text \<open>Redaction leaves no value under a key that looks like a credential and no value of a
  \<open>user_data\<close> entry whose key does, at any depth that it visits; redacting twice is redacting
  once; and the keys of a dict stay.\<close>

theorem vcf_vc_patch_redact_clean:
  "no_secret (vcf_vc_patch_redact v) \<and>
   vcf_vc_patch_redact (vcf_vc_patch_redact v) = vcf_vc_patch_redact v \<and>
   (case (v, vcf_vc_patch_redact v) of (PDict d, PDict e) \<Rightarrow> map fst e = map fst d | _ \<Rightarrow> True)"
proof (intro conjI)
  show "no_secret (vcf_vc_patch_redact v)"
  proof (induction v)
    case (PDict d)
    then have "field_clean k (redact_field k v)" if "(k, v) \<in> set d" for k v
      using that by (intro field_clean_redact) fastforce
    then show ?case by (auto simp: redact_dict no_secret_dict)
  qed auto
  show "vcf_vc_patch_redact (vcf_vc_patch_redact v) = vcf_vc_patch_redact v"
  proof (induction v)
    case (PDict d)
    then have "redact_field k (redact_field k v) = redact_field k v" if "(k, v) \<in> set d" for k v
      using that by (intro redact_field_idem) fastforce
    then show ?case by (auto simp: redact_dict)
  qed auto
  show "case (v, vcf_vc_patch_redact v) of (PDict d, PDict e) \<Rightarrow> map fst e = map fst d | _ \<Rightarrow> True"
    by (cases v) (auto simp: redact_dict)
qed

text \<open>An entry of a \<open>user_data\<close> list that is not of the shape \<open>{"key": ..., "value": ...}\<close> is
  passed on as it is: a password under its own name in such an entry is not redacted, although the
  same entry outside a \<open>user_data\<close> list is.\<close>

theorem vcf_vc_patch_redact_user_data_gap:
  "vcf_vc_patch_redact (PDict [(''user_data'', PList [PDict [(''password'', pw)]])])
     = PDict [(''user_data'', PList [PDict [(''password'', pw)]])] \<and>
   vcf_vc_patch_redact (PDict [(''data'', PList [PDict [(''password'', pw)]])])
     = PDict [(''data'', PList [PDict [(''password'', PStr ''REDACTED'')]])]"
proof -
  have "sensitive ''password''" "\<not> sensitive ''data''" "\<not> sensitive []" by code_simp+
  then show ?thesis
    by (simp add: redact_dict redact_field_def vcf_vc_patch_redact_user_data_entry_def)
qed

subsection \<open>Dry runs and idempotence\<close>

lemma prepare_policy_dry [spec_intros]:
  "test_mode opts \<Longrightarrow> keeps (sends_only vcenter_read) (prepare_policy opts p s)"
  by (auto simp: prepare_policy_def intro!: spec_intros)

text \<open>A dry run of any of the four states changes nothing on the appliance: it sends only
  \<open>GET\<close> requests and logins.\<close>

theorem vcf_vc_patch_dry_run_reads_only:
  assumes "test_mode opts"
  shows "keeps (sends_only vcenter_read) (vcf_vc_patch_repository_configured opts name ra) \<and>
    keeps (sends_only vcenter_read) (vcf_vc_patch_update_prepared opts name pa) \<and>
    keeps (sends_only vcenter_read) (vcf_vc_patch_update_installed opts name ia) \<and>
    keeps (sends_only vcenter_read) (vcf_vc_patch_installed opts name a)"
proof -
  have prepared: "keeps (sends_only vcenter_read) (vcf_vc_patch_update_prepared opts name pa)" for pa
    using assms by (auto simp: vcf_vc_patch_update_prepared_def intro!: spec_intros)
  have installed: "keeps (sends_only vcenter_read) (vcf_vc_patch_update_installed opts name ia)" for ia
    using assms by (auto simp: vcf_vc_patch_update_installed_def Let_def intro!: spec_intros)
  have "keeps (sends_only vcenter_read) (vcf_vc_patch_repository_configured opts name ra)"
    using assms by (auto simp: vcf_vc_patch_repository_configured_def intro!: spec_intros)
  then show ?thesis using prepared installed by (simp add: vcf_vc_patch_installed_def)
qed

definition example_prepare_args :: prepare_args where
  "example_prepare_args = \<lparr>pa_repository_url = PStr ''http://repo'', pa_version = PStr ''9.0.1'',
     pa_component = PNone, pa_monitor = PNone, pa_stage_timeout_seconds = PNone,
     pa_poll_interval_seconds = PNone, pa_max_transient_errors = PNone, pa_force_stage = PNone,
     pa_run_precheck = PNone, pa_profile = None\<rparr>"

lemma vcf_vc_patch_dry_run_reads_only_witness:
  "let w = scripted [login_reply, body_reply (PDict []), body_reply (PDict [])];
       run = the (vcf_vc_patch_update_prepared (opts_test_for ''vcenter'') ''s'' example_prepare_args w)
   in map_option ret_result (case fst run of Ok r \<Rightarrow> Some r | Exc e \<Rightarrow> None) = Some None \<and>
      length (sent (snd run)) = 3 \<and> sends_only vcenter_read w (snd run)"
proof -
  let ?w = "scripted [login_reply, body_reply (PDict []), body_reply (PDict [])]"
  let ?m = "vcf_vc_patch_update_prepared (opts_test_for ''vcenter'') ''s'' example_prepare_args"
  have run: "map_option fst (?m ?w) = Some (Ok (state_ret ''s''\<lparr>ret_result := None,
      ret_comment := ''would stage VCSA update 9.0.1''\<rparr>))" by code_simp
  have n: "map_option (\<lambda>x. length (sent (snd x))) (?m ?w) = Some 3" by code_simp
  have "test_mode (opts_test_for ''vcenter'')" by code_simp
  from keepsD [OF vcf_vc_patch_dry_run_reads_only [OF this, THEN conjunct2, THEN conjunct1] run_result [OF run]]
  show ?thesis using run n by (auto simp: Let_def)
qed

text \<open>\<open>update_prepared\<close> is idempotent: with the resolved version already staged, no repository
  to set and no \<open>force_stage\<close>, it reports success without changes and sends only reads; no
  \<open>stage\<close> request goes out.\<close>

theorem vcf_vc_patch_update_prepared_idempotent:
  assumes "prepare_settings_of opts a = Ok s"
    and "\<not> truthy (ps_repository_url s)" and "\<not> ps_force_stage s"
    and "vc_patch_resolve_update_version opts (ps_repository_url s) (ps_version s) (pa_profile a) w
      = Some (Ok (resolved, pending, detail), w1)"
    and "vc_patch_get_staged_update opts (pa_profile a) w1 = Some (Ok staged, w2)"
    and "vc_patch_staged_matches staged resolved"
  shows "vcf_vc_patch_update_prepared opts name a w =
      Some (Ok (state_ret name\<lparr>ret_comment := ''VCSA update '' @ py_str resolved @ '' is already staged''\<rparr>), w2)
    \<and> sends_only vcenter_read w w2"
proof
  show "vcf_vc_patch_update_prepared opts name a w =
      Some (Ok (state_ret name\<lparr>ret_comment := ''VCSA update '' @ py_str resolved @ '' is already staged''\<rparr>), w2)"
    using assms by (simp add: vcf_vc_patch_update_prepared_def prepare_policy_def or_fail_def Let_def
        bindM_def tryM_def)
  show "sends_only vcenter_read w w2"
    using keepsD [OF vc_patch_reads(5) assms(4)] keepsD [OF vc_patch_reads(4) assms(5)]
    by (rule so.trans_step)
qed

lemma vcf_vc_patch_update_prepared_idempotent_witness:
  "map_option fst (vcf_vc_patch_update_prepared (opts_for ''vcenter'') ''s''
      (example_prepare_args\<lparr>pa_repository_url := PNone\<rparr>)
      (scripted [login_reply, body_reply (PDict []), body_reply (PDict [(''value'', PDict [(''version'', PStr ''9.0.1'')])])]))
   = Some (Ok (state_ret ''s''\<lparr>ret_comment := ''VCSA update 9.0.1 is already staged''\<rparr>))"
proof -
  let ?a = "example_prepare_args\<lparr>pa_repository_url := PNone\<rparr>" and ?o = "opts_for ''vcenter''"
  let ?s = "\<lparr>ps_repository_url = PNone, ps_version = PStr ''9.0.1'', ps_component = PNone, ps_monitor = True,
    ps_stage_timeout = 3600, ps_poll_interval = 50, ps_max_transient = 10, ps_force_stage = False,
    ps_run_precheck = True\<rparr>"
  let ?staged = "PDict [(''value'', PDict [(''version'', PStr ''9.0.1'')])]"
  let ?w = "scripted [login_reply, body_reply (PDict []), body_reply ?staged]"
  let ?r = "vc_patch_resolve_update_version ?o PNone (PStr ''9.0.1'') None"
  have settings: "prepare_settings_of ?o ?a = Ok ?s" by code_simp
  have prof: "pa_profile ?a = None" by (simp add: example_prepare_args_def)
  have resolve: "map_option fst (?r ?w) = Some (Ok (PStr ''9.0.1'', PNone, PDict []))" by code_simp
  have staged: "map_option fst (vc_patch_get_staged_update ?o None (snd (the (?r ?w)))) = Some (Ok ?staged)"
    by code_simp
  have matches: "vc_patch_staged_matches ?staged (PStr ''9.0.1'')" by code_simp
  from vcf_vc_patch_update_prepared_idempotent [OF settings, unfolded prof, of ?w, simplified,
      OF run_result [OF resolve] run_result [OF staged] matches, of "''s''"]
  show ?thesis by simp
qed

definition install_action :: "request \<Rightarrow> bool" where
  "install_action rq \<longleftrightarrow>
     rq_method rq = ''POST'' \<and> rq_params rq = PDict [(''action'', PStr ''install'')]"

text \<open>A real run of \<open>installed\<close> never stages anything: it sends no \<open>stage\<close> and no
  \<open>precheck\<close> action and no policy, only reads, logins and the \<open>install\<close> action. (A dry run
  of it plans the staging that the real run leaves out.)\<close>

theorem vcf_vc_patch_installed_never_stages:
  assumes "\<not> test_mode opts"
  shows "keeps (sends_only (\<lambda>rq. vcenter_read rq \<or> install_action rq)) (vcf_vc_patch_installed opts name a)"
proof -
  let ?P = "\<lambda>rq. vcenter_read rq \<or> install_action rq"
  have reads: "keeps (sends_only ?P) m" if "keeps (sends_only vcenter_read) m" for m :: "'b io"
    using that by (rule keeps_mono) (auto intro: sends_only_mono)
  have install: "keeps (sends_only ?P) (vc_patch_install opts v pw cm p)" for v pw cm p
    by (auto simp: vc_patch_install_def Let_def install_action_def vcenter_call_def intro!: spec_intros)
  show ?thesis
    using assms
    by (auto simp: vcf_vc_patch_installed_def vcf_vc_patch_update_installed_def Let_def
        intro!: spec_intros install reads [OF vc_patch_reads(5)] reads [OF vc_patch_monitors_read(3)])
qed

lemma vcf_vc_patch_installed_never_stages_witness:
  "let a = prepare_args.extend example_prepare_args
         \<lparr>in_sso_password = PStr ''x'', in_install_timeout_seconds = PNone\<rparr>;
       w = scripted [login_reply, body_reply (PDict []), body_reply (PDict []),
             body_reply (PDict [(''state'', PStr ''UP_TO_DATE'')])];
       run = the (vcf_vc_patch_installed (opts_for ''vcenter'') ''s'' a w)
   in (case fst run of Ok r \<Rightarrow> ret_result r = Some True | Exc e \<Rightarrow> False) \<and>
      sends_only (\<lambda>rq. vcenter_read rq \<or> install_action rq) w (snd run)"
proof -
  let ?a = "prepare_args.extend example_prepare_args
         \<lparr>in_sso_password = PStr ''x'', in_install_timeout_seconds = PNone\<rparr>"
  let ?w = "scripted [login_reply, body_reply (PDict []), body_reply (PDict []),
             body_reply (PDict [(''state'', PStr ''UP_TO_DATE'')])]"
  let ?run = "vcf_vc_patch_installed (opts_for ''vcenter'') ''s'' ?a ?w"
  have ok: "(case ?run of Some (Ok r, _) \<Rightarrow> ret_result r = Some True | _ \<Rightarrow> False)" by code_simp
  then obtain r w' where run: "?run = Some (Ok r, w')" "ret_result r = Some True"
    by (auto split: option.splits prod.splits res.splits)
  have "\<not> test_mode (opts_for ''vcenter'')" by code_simp
  from keepsD [OF vcf_vc_patch_installed_never_stages [OF this] run(1)] run show ?thesis
    by (simp add: Let_def)
qed

subsection \<open>Exceptions and termination\<close>

text \<open>The only exceptions that leave \<open>update_prepared\<close> are those of reading its own settings
  (an option that is no integer, a malformed pillar section), before any request; every failure of
  the workflow itself is a failed state return.\<close>

theorem vcf_vc_patch_update_prepared_exceptions:
  "vcf_vc_patch_update_prepared opts name a w = Some (Exc e, w') \<longleftrightarrow>
     prepare_settings_of opts a = Exc e \<and> w' = w"
  by (cases "prepare_settings_of opts a")
    (auto simp: vcf_vc_patch_update_prepared_def Let_def or_fail_no_exception)

lemma precheck_round_evolves [spec_intros]:
  "keeps evolves (precheck_round opts p res cm i t dl u)"
  by (auto simp: precheck_round_def intro!: spec_intros)

lemma precheck_round_returns:
  assumes "0 < i" shows "returns (precheck_round opts p res cm i t dl u)"
  using vc_patch_monitors_return(2) [of "PInt (min 10 i)"] assms
  by (auto simp: precheck_round_def intro!: spec_intros)

lemma precheck_round_ticks:
  assumes "vcenter_get_config opts p = Ok cfg"
    and "takes_time w" and "precheck_round opts p res cm i t dl u w = Some (Ok (Inr u'), w')"
  shows "clock w < clock w' \<and> clock w \<le> dl"
proof -
  from assms(3) obtain e d w1 w2 where pre: "vc_patch_precheck opts res cm p w = Some (Exc e, w1)"
    and mon: "vc_patch_monitor_stage opts res (PInt (min 10 i)) (PInt (min 600 t)) 10 p w1 = Some (Ok d, w2)"
    and end_of_round: "clock w2 \<le> dl" "w' = w2"
    unfolding precheck_round_def
    by (auto simp: bindM_Some_iff [of "tryM m h" for m h] tryM_Some_iff bindM_Some_iff
        split: if_splits sum.splits)
  have "ticks (vc_patch_precheck opts res cm p)"
    by (simp add: vc_patch_precheck_def vcenter_api_ticks [OF assms(1)])
  from ticksD [OF this assms(2) pre] evolves_clock [OF vc_patch_monitors_evolve(2) mon] end_of_round
  show ?thesis by simp
qed

lemma precheck_when_allowed_returns:
  assumes cfg: "vcenter_get_config opts p = Ok cfg" and i: "0 < i"
  shows "returns_timed (vcf_vc_patch_precheck_when_allowed opts p res cm i t)"
  unfolding returns_timed_def
proof (intro allI impI)
  fix w assume w: "takes_time w"
  let ?dl = "clock w + secs t"
  have "\<exists>r w'. loopM (precheck_round opts p res cm i t ?dl) () w = Some (r, w')"
  proof (rule loopM_total [where I = "\<lambda>_. takes_time" and measure_of = "\<lambda>_ w. nat (?dl + 1 - clock w)"])
    fix u w1 u' w2
    assume t: "takes_time w1" and run: "precheck_round opts p res cm i t ?dl u w1 = Some (Ok (Inr u'), w2)"
    from precheck_round_ticks [OF cfg t run] keepsD [OF precheck_round_evolves run] t
    show "takes_time w2 \<and> nat (?dl + 1 - clock w2) < nat (?dl + 1 - clock w1)"
      by (auto simp: takes_time_evolves)
  qed (use w precheck_round_returns [OF i] in \<open>auto simp: returns_def\<close>)
  then show "vcf_vc_patch_precheck_when_allowed opts p res cm i t w \<noteq> None"
    by (auto simp: vcf_vc_patch_precheck_when_allowed_def deadline_after_run bindM_def)
qed

lemma vcf_vc_patch_parts_evolve [spec_intros]:
  "keeps evolves (prepare_policy opts p s)" "keeps evolves (prepare_stage opts p s res)"
  "keeps evolves (vcf_vc_patch_precheck_when_allowed opts p res cm i t)"
  by (auto simp: prepare_policy_def prepare_stage_def vcf_vc_patch_precheck_when_allowed_def
      intro!: spec_intros)

text \<open>\<open>update_prepared\<close> comes to an end, with a state return, for every appliance whose
  answers take some time, when the poll interval is positive.\<close>

theorem vcf_vc_patch_update_prepared_terminates:
  assumes cfg: "vcenter_get_config opts (pa_profile a) = Ok cfg" and s: "prepare_settings_of opts a = Ok s"
    and i: "0 < ps_poll_interval s" and w: "takes_time w"
  shows "\<exists>r w'. vcf_vc_patch_update_prepared opts name a w = Some (Ok r, w')"
proof -
  have i': "0 < sleep_ms (PInt (ps_poll_interval s))" "0 < sleep_ms (PInt (min 10 (ps_poll_interval s)))"
    using i by auto
  note timed = returns_timed_returns [OF vc_patch_monitors_return(2) [OF i'(1)]]
    returns_timed_returns [OF vc_patch_monitors_return(1) [OF i'(2)]] precheck_when_allowed_returns [OF cfg i]
  have "returns_timed (prepare_stage opts (pa_profile a) s res)" for res
    using vc_patch_monitors_return(1) [OF i'(2)]
    by (auto simp: prepare_stage_def intro!: returns_timed_returns spec_intros)
  moreover have "returns_timed (prepare_policy opts (pa_profile a) s)"
    by (auto simp: prepare_policy_def intro!: returns_timed_returns spec_intros)
  ultimately have "returns_timed (vcf_vc_patch_update_prepared opts name a)"
    using timed unfolding vcf_vc_patch_update_prepared_def s or_fail_def Let_def bindM_laws
    by (intro returns_timed_tryM returns_timed_bindM returns_timed_cases)
      (auto intro: returns_timed_returns spec_intros)
  from returns_timedD [OF this w] obtain r w' where run: "vcf_vc_patch_update_prepared opts name a w = Some (r, w')"
    by blast
  then show ?thesis
    using s by (cases r) (auto simp: vcf_vc_patch_update_prepared_exceptions)
qed

lemma vcf_vc_patch_update_prepared_terminates_witness:
  "\<exists>r w'. vcf_vc_patch_update_prepared (opts_for ''vcenter'') ''s'' example_prepare_args
     (scripted [login_reply, code_reply 500]) = Some (Ok r, w')"
proof -
  have prof: "pa_profile example_prepare_args = None" by (simp add: example_prepare_args_def)
  have cfg: "vcenter_get_config (opts_for ''vcenter'') None = Ok \<lparr>cfg_host = PStr ''h'', cfg_username = PStr ''u'',
    cfg_password = PStr ''p'', cfg_verify_ssl = PBool True, cfg_timeout = PInt 30\<rparr>" by code_simp
  have settings: "prepare_settings_of (opts_for ''vcenter'') example_prepare_args =
    Ok \<lparr>ps_repository_url = PStr ''http://repo'', ps_version = PStr ''9.0.1'', ps_component = PNone, ps_monitor = True,
    ps_stage_timeout = 3600, ps_poll_interval = 50, ps_max_transient = 10, ps_force_stage = False,
    ps_run_precheck = True\<rparr>" by code_simp
  show ?thesis
    by (rule vcf_vc_patch_update_prepared_terminates [OF _ settings, unfolded prof, OF cfg])
      (auto intro!: takes_time_scripted simp: reply_delay_def login_reply_def code_reply_def replies_def)
qed

end
