(* ===== verification/Text_Formats.thy ===== *)
theory Text_Formats
  imports Runtime
begin

section \<open>Text_Formats: JSON, the words of a shell, base64\<close>

text \<open>
  The formats in which the code writes text for others to read, each with the round trip.
\<close>

subsection \<open>\<open>json.dumps\<close> and \<open>json.loads\<close>\<close>

text \<open>
  The JSON text the code writes into bodies and commands and reads back from the output of programs.
  Numbers are integers: a fraction or an exponent is refused (the code reads none), and the text of the
  error is not CPython's. Characters beyond code point 255 are refused, \<open>string\<close> has none.
\<close>

subsubsection \<open>\<open>json.dumps\<close>\<close>

text \<open>
  With its defaults: \<open>", "\<close> and \<open>": "\<close> as separators, and every character outside printable ASCII
  escaped.
\<close>

definition json_char :: "char \<Rightarrow> string" where
  "json_char c =
     (let n = of_char c :: nat in
      if n = 34 \<or> n = 92 then [CHR 0x5C, c]
      else if n = 10 then [CHR 0x5C, CHR ''n'']
      else if n = 13 then [CHR 0x5C, CHR ''r'']
      else if n = 9 then [CHR 0x5C, CHR ''t'']
      else if n = 12 then [CHR 0x5C, CHR ''f'']
      else if n = 8 then [CHR 0x5C, CHR ''b'']
      else if n < 32 \<or> n > 126 then [CHR 0x5C, CHR ''u''] @ ''00'' @ hex2 n
      else [c])"

definition json_str :: "string \<Rightarrow> string" where
  "json_str s = [CHR 0x22] @ concat (map json_char s) @ [CHR 0x22]"

fun json_dumps :: "pyval \<Rightarrow> string" where
  "json_dumps PNone = ''null''"
| "json_dumps (PBool b) = (if b then ''true'' else ''false'')"
| "json_dumps (PInt i) = int_str i"
| "json_dumps (PStr s) = json_str s"
| "json_dumps (PList xs) = ''['' @ join_with '', '' (map json_dumps xs) @ '']''"
| "json_dumps (PDict d) =
     ''{'' @ join_with '', '' (map (\<lambda>(k, v). json_str k @ '': '' @ json_dumps v) d) @ ''}''"

subsubsection \<open>\<open>json.loads\<close>\<close>

definition json_blank :: "char \<Rightarrow> bool" where
  "json_blank c = (c = CHR '' '' \<or> c = CHR 0x09 \<or> c = CHR 0x0A \<or> c = CHR 0x0D)"

abbreviation json_skip :: "string \<Rightarrow> string" where "json_skip s \<equiv> dropWhile json_blank s"

definition is_digit :: "char \<Rightarrow> bool" where
  "is_digit c = (48 \<le> (of_char c :: nat) \<and> (of_char c :: nat) \<le> 57)"

definition hex_of :: "char \<Rightarrow> nat option" where
  "hex_of c =
     (let n = of_char c :: nat in
      if 48 \<le> n \<and> n \<le> 57 then Some (n - 48)
      else if 97 \<le> n \<and> n \<le> 102 then Some (n - 87)
      else if 65 \<le> n \<and> n \<le> 70 then Some (n - 55)
      else None)"

text \<open>The character of \<open>\uabcd\<close> and that of a one-letter escape.\<close>

definition hex4 :: "char \<Rightarrow> char \<Rightarrow> char \<Rightarrow> char \<Rightarrow> char option" where
  "hex4 a b c d =
     (case (hex_of a, hex_of b, hex_of c, hex_of d) of
        (Some i, Some j, Some k, Some l) \<Rightarrow> if i = 0 \<and> j = 0 then Some (char_of (16 * k + l)) else None
      | _ \<Rightarrow> None)"

definition json_escape :: "char \<Rightarrow> char option" where
  "json_escape c =
     map_of [(CHR 0x22, CHR 0x22), (CHR 0x5C, CHR 0x5C), (CHR ''/'', CHR ''/''), (CHR ''b'', CHR 0x08),
       (CHR ''f'', CHR 0x0C), (CHR ''n'', CHR 0x0A), (CHR ''r'', CHR 0x0D), (CHR ''t'', CHR 0x09)] c"

definition json_cons :: "char option \<Rightarrow> (string \<times> string) option \<Rightarrow> (string \<times> string) option" where
  "json_cons c r = (case (c, r) of (Some x, Some (s, rest)) \<Rightarrow> Some (x # s, rest) | _ \<Rightarrow> None)"

text \<open>A string literal after its opening quote, with what follows it.\<close>

fun json_string :: "string \<Rightarrow> (string \<times> string) option" where
  "json_string [] = None"
| "json_string (c # s) =
     (if c = CHR 0x22 then Some ([], s)
      else if c = CHR 0x5C then
        (case s of
           [] \<Rightarrow> None
         | e # t \<Rightarrow>
             if e = CHR ''u'' then
               (case t of
                  h1 # h2 # h3 # h4 # r \<Rightarrow> json_cons (hex4 h1 h2 h3 h4) (json_string r)
                | _ \<Rightarrow> None)
             else json_cons (json_escape e) (json_string t))
      else if (of_char c :: nat) < 32 then None
      else json_cons (Some c) (json_string s))"

text \<open>An integer literal: a zero, or digits that begin with another one.\<close>

definition json_digits :: "string \<Rightarrow> (nat \<times> string) option" where
  "json_digits s =
     (case takeWhile is_digit s of
        [] \<Rightarrow> None
      | c # cs \<Rightarrow>
          let (ds, rest) = (if c = CHR ''0'' then ([c], tl s) else (c # cs, dropWhile is_digit s)) in
          (case rest of
             x # _ \<Rightarrow> if x = CHR ''.'' \<or> x = CHR ''e'' \<or> x = CHR ''E'' then None
               else map_option (\<lambda>n. (n, rest)) (digits_value 0 ds)
           | [] \<Rightarrow> map_option (\<lambda>n. (n, rest)) (digits_value 0 ds)))"

definition json_int :: "string \<Rightarrow> (pyval \<times> string) option" where
  "json_int s =
     (case s of
        [] \<Rightarrow> None
      | c # cs \<Rightarrow>
          if c = CHR ''-'' then map_option (\<lambda>(n, rest). (PInt (- int n), rest)) (json_digits cs)
          else map_option (\<lambda>(n, rest). (PInt (int n), rest)) (json_digits s))"

definition json_word :: "string \<Rightarrow> (pyval \<times> string) option" where
  "json_word s =
     (if starts_with s ''null'' then Some (PNone, drop 4 s)
      else if starts_with s ''true'' then Some (PBool True, drop 4 s)
      else if starts_with s ''false'' then Some (PBool False, drop 5 s)
      else None)"

text \<open>
  A value, the elements of an array after its bracket or a comma, and the members of an object in the
  same position. The fuel goes down with every call; the length of the text is enough
  (\<open>json_loads_dumps\<close>), as each call takes a character.
\<close>

fun json_value_at :: "nat \<Rightarrow> string \<Rightarrow> (pyval \<times> string) option"
  and json_items :: "nat \<Rightarrow> string \<Rightarrow> (pyval list \<times> string) option"
  and json_members :: "nat \<Rightarrow> string \<Rightarrow> (dict \<times> string) option" where
  "json_value_at 0 s = None"
| "json_value_at (Suc n) s =
     (case s of
        [] \<Rightarrow> None
      | c # t \<Rightarrow>
          if c = CHR 0x22 then map_option (\<lambda>(x, rest). (PStr x, rest)) (json_string t)
          else if c = CHR ''['' then
            (case json_skip t of
               [] \<Rightarrow> None
             | x # r \<Rightarrow>
                 if x = CHR '']'' then Some (PList [], r)
                 else map_option (\<lambda>(xs, rest). (PList xs, rest)) (json_items n (x # r)))
          else if c = CHR ''{'' then
            (case json_skip t of
               [] \<Rightarrow> None
             | x # r \<Rightarrow>
                 if x = CHR ''}'' then Some (PDict [], r)
                 else map_option (\<lambda>(d, rest). (PDict (dupdate [] d), rest)) (json_members n (x # r)))
          else if c = CHR ''-'' \<or> is_digit c then json_int s
          else json_word s)"
| "json_items 0 s = None"
| "json_items (Suc n) s =
     (case json_value_at n s of
        None \<Rightarrow> None
      | Some (v, r) \<Rightarrow>
          (case json_skip r of
             [] \<Rightarrow> None
           | c # t \<Rightarrow>
               if c = CHR '']'' then Some ([v], t)
               else if c = CHR '','' then map_option (\<lambda>(xs, rest). (v # xs, rest)) (json_items n (json_skip t))
               else None))"
| "json_members 0 s = None"
| "json_members (Suc n) s =
     (case s of
        [] \<Rightarrow> None
      | q # s' \<Rightarrow>
          if q \<noteq> CHR 0x22 then None
          else
            (case json_string s' of
               None \<Rightarrow> None
             | Some (k, r) \<Rightarrow>
                 (case json_skip r of
                    [] \<Rightarrow> None
                  | c # t \<Rightarrow>
                      if c \<noteq> CHR '':'' then None
                      else
                        (case json_value_at n (json_skip t) of
                           None \<Rightarrow> None
                         | Some (v, r') \<Rightarrow>
                             (case json_skip r' of
                                [] \<Rightarrow> None
                              | e # u \<Rightarrow>
                                  if e = CHR ''}'' then Some ([(k, v)], u)
                                  else if e = CHR '','' then
                                    map_option (\<lambda>(d, rest). ((k, v) # d, rest)) (json_members n (json_skip u))
                                  else None)))))"

definition json_loads :: "string \<Rightarrow> pyval res" where
  "json_loads s =
     (case json_value_at (length s) (json_skip s) of
        Some (v, rest) \<Rightarrow>
          if json_skip rest = [] then Ok v else Exc (JSONDecodeError ''Extra data'')
      | None \<Rightarrow> Exc (JSONDecodeError ''Expecting value''))"

subsubsection \<open>The round trip\<close>

lemma hex_of_nth:
  assumes "k < 16" shows "hex_of (''0123456789abcdef'' ! k) = Some k"
proof -
  have "map hex_of ''0123456789abcdef'' = map Some [0..<16]" by (simp add: hex_of_def upt_rec)
  then show ?thesis using assms nth_map [of k "''0123456789abcdef''" hex_of] by simp
qed

lemma hex4_hex2: "hex4 (CHR ''0'') (CHR ''0'') (hex2 (of_char c) ! 0) (hex2 (of_char c) ! 1) = Some c"
proof -
  have "(of_char c :: nat) div 16 < 16" by (simp add: less_mult_imp_div_less)
  then show ?thesis
    by (simp add: hex4_def hex2_def hex_of_nth) (simp add: hex_of_def)
qed

lemma of_char_code: "(of_char c = (of_char d :: nat)) = (c = d)" by simp
lemma char_codes:
  "((of_char c :: nat) = 34) = (c = CHR 0x22)" "((of_char c :: nat) = 92) = (c = CHR 0x5C)"
  "((of_char c :: nat) = 10) = (c = CHR 0x0A)" "((of_char c :: nat) = 13) = (c = CHR 0x0D)"
  "((of_char c :: nat) = 9) = (c = CHR 0x09)" "((of_char c :: nat) = 12) = (c = CHR 0x0C)"
  "((of_char c :: nat) = 8) = (c = CHR 0x08)"
  using of_char_code [of c "CHR 0x22"] of_char_code [of c "CHR 0x5C"] of_char_code [of c "CHR 0x0A"]
    of_char_code [of c "CHR 0x0D"] of_char_code [of c "CHR 0x09"] of_char_code [of c "CHR 0x0C"]
    of_char_code [of c "CHR 0x08"]
  by (simp_all only: of_char_Char of_bool_def) simp_all

lemma json_string_char: "json_string (json_char c @ t) = json_cons (Some c) (json_string t)"
proof -
  consider "c \<in> {CHR 0x22, CHR 0x5C, CHR 0x0A, CHR 0x0D, CHR 0x09, CHR 0x0C, CHR 0x08}"
    | "(of_char c :: nat) \<notin> {34, 92, 10, 13, 9, 12, 8}" "(of_char c :: nat) < 32 \<or> (of_char c :: nat) > 126"
    | "(of_char c :: nat) \<notin> {34, 92}" "\<not> (of_char c :: nat) < 32" "\<not> (of_char c :: nat) > 126"
    by (auto simp: char_codes)
  then show ?thesis
  proof cases
    case 1
    then show ?thesis by (elim insertE emptyE) (simp_all add: json_char_def json_escape_def)
  next
    case 2
    then have "json_char c = [CHR 0x5C, CHR ''u''] @ ''00'' @ [hex2 (of_char c) ! 0, hex2 (of_char c) ! 1]"
      by (auto simp: json_char_def hex2_def Let_def)
    then show ?thesis using hex4_hex2 [of c] by simp
  next
    case 3
    then have "json_char c = [c]" "c \<noteq> CHR 0x22" "c \<noteq> CHR 0x5C" by (auto simp: json_char_def Let_def char_codes)
    with 3 show ?thesis by simp
  qed
qed

lemma json_string_str: "json_string (concat (map json_char s) @ CHR 0x22 # rest) = Some (s, rest)"
  by (induction s) (simp_all add: json_string_char json_cons_def)


lemma digits_value_append:
  "digits_value a (xs @ ys) = (case digits_value a xs of None \<Rightarrow> None | Some b \<Rightarrow> digits_value b ys)"
  by (induction xs arbitrary: a) (auto simp: Let_def)

lemma digit_nth: "k < 10 \<Longrightarrow> is_digit (''0123456789'' ! k) \<and> digits_value a [''0123456789'' ! k] = Some (10 * a + k)
   \<and> (''0123456789'' ! k = CHR ''0'' \<longleftrightarrow> k = 0)"
proof -
  have "\<forall>k \<in> {0..<10}. is_digit (''0123456789'' ! k) \<and> (of_char (''0123456789'' ! k) :: nat) = 48 + k
     \<and> (''0123456789'' ! k = CHR ''0'' \<longleftrightarrow> k = 0)" by code_simp
  then show "k < 10 \<Longrightarrow> is_digit (''0123456789'' ! k) \<and> digits_value a [''0123456789'' ! k] = Some (10 * a + k)
     \<and> (''0123456789'' ! k = CHR ''0'' \<longleftrightarrow> k = 0)" by (simp del: of_char_Char)
qed

lemma digits_str_digits:
  assumes "0 \<le> n"
  shows "digits_value 0 (digits_str n) = Some (nat n) \<and> list_all is_digit (digits_str n) \<and>
    (\<exists>c cs. digits_str n = c # cs \<and> (c = CHR ''0'' \<longrightarrow> cs = [] \<and> n = 0))"
  using assms
proof (induction n rule: digits_str.induct)
  case (1 n)
  show ?case
  proof (cases "n < 10")
    case True
    then show ?thesis using 1(2) digit_nth [of "nat n" 0] by (auto simp: digits_str.simps [of n])
  next
    case False
    then have str: "digits_str n = digits_str (n div 10) @ [''0123456789'' ! nat (n mod 10)]"
      by (simp add: digits_str.simps [of n])
    from False 1 have IH: "digits_value 0 (digits_str (n div 10)) = Some (nat (n div 10))"
      "list_all is_digit (digits_str (n div 10))"
      "\<exists>c cs. digits_str (n div 10) = c # cs \<and> (c = CHR ''0'' \<longrightarrow> cs = [] \<and> n div 10 = 0)" by auto
    have "nat (n mod 10) < 10" by (simp add: nat_less_iff)
    note nth = digit_nth [OF this, of "nat (n div 10)"]
    have "10 * nat (n div 10) + nat (n mod 10) = nat n"
      using 1(2) by (simp add: nat_div_distrib nat_mod_distrib)
    with nth IH(1) have "digits_value 0 (digits_str n) = Some (nat n)"
      unfolding str digits_value_append by simp
    moreover have "n div 10 \<noteq> 0" using False by simp
    ultimately show ?thesis using IH nth unfolding str by (auto simp: zdiv_eq_0_iff)
  qed
qed

text \<open>What may follow a value: the end of the text, a comma or a closing bracket.\<close>

definition json_end :: "string \<Rightarrow> bool" where
  "json_end r = (case r of [] \<Rightarrow> True | c # _ \<Rightarrow> c = CHR '','' \<or> c = CHR '']'' \<or> c = CHR ''}'')"

lemma json_endD: "json_end (c # r) \<Longrightarrow> \<not> is_digit c \<and> c \<noteq> CHR ''.'' \<and> c \<noteq> CHR ''e'' \<and> c \<noteq> CHR ''E''"
  by (auto simp: json_end_def is_digit_def)

lemma json_digits_str:
  assumes "0 \<le> n" "json_end rest"
  shows "json_digits (digits_str n @ rest) = Some (nat n, rest)"
proof -
  from digits_str_digits [OF assms(1)] obtain c cs where
    str: "digits_str n = c # cs" "c = CHR ''0'' \<longrightarrow> cs = [] \<and> n = 0"
    and val: "digits_value 0 (c # cs) = Some (nat n)" and all: "list_all is_digit (c # cs)" by auto
  have stop: "takeWhile is_digit rest = [] \<and> dropWhile is_digit rest = rest"
    using assms(2) by (cases rest) (auto dest: json_endD)
  have split: "takeWhile is_digit (c # cs @ rest) = c # cs \<and> dropWhile is_digit (c # cs @ rest) = rest"
    using all stop by (simp add: takeWhile_append dropWhile_append list_all_iff)
  show ?thesis
  proof (cases rest)
    case Nil
    with split val str show ?thesis by (cases "c = CHR ''0''") (simp_all add: json_digits_def split del: if_split)
  next
    case (Cons x xs)
    with assms(2) have "x \<noteq> CHR ''.'' \<and> x \<noteq> CHR ''e'' \<and> x \<noteq> CHR ''E''" by (simp add: json_endD)
    with Cons split val str show ?thesis by (cases "c = CHR ''0''") (simp_all add: json_digits_def split del: if_split)
  qed
qed

lemma json_int_str: "json_end rest \<Longrightarrow> json_int (int_str i @ rest) = Some (PInt i, rest)"
proof -
  assume r: "json_end rest"
  show ?thesis
  proof (cases "i < 0")
    case True
    then show ?thesis using json_digits_str [of "- i", OF _ r] by (simp add: int_str_def json_int_def)
  next
    case False
    then obtain c cs where str: "digits_str i = c # cs" "is_digit c"
      using digits_str_digits [of i] by auto
    then have "c \<noteq> CHR ''-''" by (auto simp: is_digit_def)
    with str False show ?thesis using json_digits_str [of i, OF _ r] by (simp add: int_str_def json_int_def)
  qed
qed

lemma int_str_first: "\<exists>c cs. int_str i = c # cs \<and> (c = CHR ''-'' \<or> is_digit c)"
  using digits_str_digits [of i] by (cases "i < 0") (auto simp: int_str_def)

lemma dupdate_distinct:
  assumes "distinct (map fst (d @ e))" shows "dupdate d e = d @ e"
proof -
  have app: "k \<notin> fst ` set d \<Longrightarrow> dset d k v = d @ [(k, v)]" for d :: dict and k v
    by (induction d k v rule: dset.induct) auto
  show ?thesis using assms
  proof (induction d e rule: dupdate.induct)
    case (2 d k v e)
    then show ?case by (simp add: app)
  qed simp
qed

text \<open>The first character of a value tells its kind, and is no blank.\<close>

lemma json_dumps_first: "\<exists>c cs. json_dumps v = c # cs \<and> \<not> json_blank c \<and> c \<noteq> CHR '']'' \<and> c \<noteq> CHR ''}''"
proof (cases v)
  case (PInt i)
  then show ?thesis using int_str_first [of i] by (auto simp: json_blank_def is_digit_def)
qed (simp_all add: json_str_def json_blank_def)

lemma json_skip_dumps [simp]: "json_skip (json_dumps v @ r) = json_dumps v @ r"
  using json_dumps_first [of v] by auto

lemma json_skip_str [simp]: "json_skip (json_str s @ r) = json_str s @ r"
  by (simp add: json_str_def json_blank_def)

lemma json_skip_end: "json_end (c # r) \<Longrightarrow> json_skip (c # r) = c # r"
  by (auto simp: json_end_def json_blank_def)

abbreviation reads :: "pyval \<Rightarrow> bool" where
  "reads v \<equiv> \<forall>n rest. length (json_dumps v) \<le> n \<longrightarrow> json_end rest \<longrightarrow> json_value_at n (json_dumps v @ rest) = Some (v, rest)"

lemma json_items_dumps:
  assumes "xs \<noteq> []" "\<forall>x \<in> set xs. reads x" "length (join_with '', '' (map json_dumps xs)) < n"
  shows "json_items n (join_with '', '' (map json_dumps xs) @ CHR '']'' # rest) = Some (xs, rest)"
  using assms
proof (induction xs arbitrary: n)
  case (Cons x xs)
  then obtain m where n: "n = Suc m" by (cases n) auto
  have ends: "json_end (CHR '']'' # r)" "json_end (CHR '','' # r)" for r by (simp_all add: json_end_def)
  show ?case
  proof (cases xs)
    case Nil
    with Cons.prems n ends(1) have "json_value_at m (json_dumps x @ CHR '']'' # rest) = Some (x, CHR '']'' # rest)" by simp
    then show ?thesis using Nil n by (simp add: json_blank_def)
  next
    case (Cons y ys)
    let ?more = "join_with '', '' (map json_dumps xs) @ CHR '']'' # rest"
    have len: "length (json_dumps x) \<le> m" "length (join_with '', '' (map json_dumps xs)) < m"
      using Cons.prems(3) n Cons by simp_all
    with Cons.prems(2) ends(2) have "json_value_at m (json_dumps x @ CHR '','' # CHR '' '' # ?more) = Some (x, CHR '','' # CHR '' '' # ?more)"
      by simp
    moreover have "json_items m ?more = Some (xs, rest)"
      using Cons.IH [of m] Cons.prems(2) Cons len(2) by simp
    moreover have "json_skip (CHR '' '' # ?more) = ?more"
      using json_skip_dumps [of y] unfolding Cons by (cases ys) (simp_all add: json_blank_def)
    ultimately show ?thesis using n Cons by (simp add: json_blank_def)
  qed
qed simp

abbreviation json_member :: "string \<times> pyval \<Rightarrow> string" where
  "json_member p \<equiv> (case p of (k, v) \<Rightarrow> json_str k @ '': '' @ json_dumps v)"

lemma json_members_dumps:
  assumes "d \<noteq> []" "\<forall>p \<in> set d. reads (snd p)" "length (join_with '', '' (map json_member d)) < n"
  shows "json_members n (join_with '', '' (map json_member d) @ CHR ''}'' # rest) = Some (d, rest)"
  using assms
proof (induction d arbitrary: n)
  case (Cons p d)
  obtain k v where p: "p = (k, v)" by fastforce
  from Cons.prems obtain m where n: "n = Suc m" by (cases n) auto
  have ends: "json_end (CHR ''}'' # r)" "json_end (CHR '','' # r)" for r by (simp_all add: json_end_def)
  have val: "json_skip (CHR '' '' # json_dumps v @ r) = json_dumps v @ r" for r
    by (simp add: json_blank_def)
  show ?case
  proof (cases d)
    case Nil
    with Cons.prems n p ends(1) have "json_value_at m (json_dumps v @ CHR ''}'' # rest) = Some (v, CHR ''}'' # rest)" by simp
    with val show ?thesis using Nil n p by (simp add: json_str_def json_string_str json_blank_def)
  next
    case (Cons q d')
    let ?more = "join_with '', '' (map json_member d) @ CHR ''}'' # rest"
    have len: "length (json_dumps v) \<le> m" "length (join_with '', '' (map json_member d)) < m"
      using Cons.prems(3) n p Cons by simp_all
    with Cons.prems(2) p ends(2) have "json_value_at m (json_dumps v @ CHR '','' # CHR '' '' # ?more) = Some (v, CHR '','' # CHR '' '' # ?more)"
      by simp
    moreover have "json_members m ?more = Some (d, rest)"
      using Cons.IH [of m] Cons.prems(2) Cons len(2) by simp
    moreover have "json_skip (CHR '' '' # ?more) = ?more"
      unfolding Cons by (cases q; cases d') (simp_all add: json_blank_def json_str_def)
    ultimately show ?thesis using n p Cons val
      by (simp add: json_str_def json_string_str json_blank_def)
  qed
qed simp

lemma join_first: "xs \<noteq> [] \<Longrightarrow> \<exists>r. join_with sep xs = hd xs @ r"
  by (cases "(sep, xs)" rule: join_with.cases) auto

lemma json_value_dumps: "wf_py v \<Longrightarrow> reads v"
proof (induction v rule: json_dumps.induct)
  case (3 i)
  obtain c cs where first: "int_str i = c # cs" "c = CHR ''-'' \<or> is_digit c"
    using int_str_first by blast
  then have "c \<noteq> CHR 0x22 \<and> c \<noteq> CHR ''['' \<and> c \<noteq> CHR ''{''" by (auto simp: is_digit_def)
  then have val: "json_value_at (Suc m) (int_str i @ rest) = json_int (int_str i @ rest)" for m rest
    using first by simp
  show ?case
  proof (intro allI impI)
    fix n rest assume "length (json_dumps (PInt i)) \<le> n" "json_end rest"
    then show "json_value_at n (json_dumps (PInt i) @ rest) = Some (PInt i, rest)"
      using val json_int_str [of rest i] first by (cases n) simp_all
  qed
next
  case (4 s)
  then show ?case by (auto simp: json_str_def json_string_str dest!: Suc_le_D)
next
  case (5 xs)
  show ?case
  proof (intro allI impI)
    fix n rest assume len: "length (json_dumps (PList xs)) \<le> n"
    then obtain m where n: "n = Suc m" by (cases n) auto
    show "json_value_at n (json_dumps (PList xs) @ rest) = Some (PList xs, rest)"
    proof (cases xs)
      case Nil
      then show ?thesis using n by (simp add: json_blank_def)
    next
      case (Cons x ys)
      obtain r where r: "join_with '', '' (map json_dumps xs) = json_dumps x @ r"
        using join_first [of "map json_dumps xs"] Cons by auto
      obtain c cs where c: "json_dumps x = c # cs" "\<not> json_blank c" "c \<noteq> CHR '']''"
        using json_dumps_first [of x] by blast
      have "\<forall>x \<in> set xs. reads x" using 5 by auto
      with json_items_dumps [of xs m rest] len n Cons
      have "json_items m (join_with '', '' (map json_dumps xs) @ CHR '']'' # rest) = Some (xs, rest)" by auto
      with r c n show ?thesis by simp
    qed
  qed
next
  case (6 d)
  show ?case
  proof (intro allI impI)
    fix n rest assume len: "length (json_dumps (PDict d)) \<le> n"
    then obtain m where n: "n = Suc m" by (cases n) auto
    show "json_value_at n (json_dumps (PDict d) @ rest) = Some (PDict d, rest)"
    proof (cases d)
      case Nil
      then show ?thesis using n by (simp add: json_blank_def)
    next
      case (Cons q e)
      obtain r where r: "join_with '', '' (map json_member d) = CHR 0x22 # r"
        using join_first [of "map json_member d"] Cons by (cases q) (auto simp: json_str_def)
      have "\<forall>p \<in> set d. reads (snd p)" using 6 by (force simp: split_beta)
      with json_members_dumps [of d m rest] len n Cons
      have "json_members m (join_with '', '' (map json_member d) @ CHR ''}'' # rest) = Some (d, rest)" by auto
      moreover have "dupdate [] d = d" using dupdate_distinct [of "[]" d] 6(2) by simp
      ultimately show ?thesis using r n by (simp add: json_blank_def)
    qed
  qed
qed (auto simp: json_word_def is_digit_def dest!: Suc_le_D)

lemma json_end_nil: "json_end []"
  by (simp add: json_end_def)

text \<open>What was dumped is read back.\<close>

lemma json_loads_dumps: "wf_py v \<Longrightarrow> json_loads (json_dumps v) = Ok v"
proof -
  assume "wf_py v"
  then have "json_value_at (length (json_dumps v)) (json_dumps v @ []) = Some (v, [])"
    using json_value_dumps [of v] by (metis json_end_nil order_refl)
  then show ?thesis using json_skip_dumps [of v "[]"] by (simp add: json_loads_def)
qed

subsection \<open>\<open>shlex.quote\<close> and how a POSIX shell reads its result\<close>

text \<open>
  Commands the code runs over ssh are lines of a shell. \<open>shlex.quote\<close> is what the code puts data into
  them with; \<open>sh_words\<close> is how the shell splits a line of plain characters, blanks and quoted parts
  into words (no expansion: a character the shell would expand makes it \<open>None\<close>).
\<close>

text \<open>\<open>[\w@%+=:,./-]\<close>, over ASCII.\<close>

definition sh_plain :: "char \<Rightarrow> bool" where
  "sh_plain c =
     (let n = of_char c :: nat in
      48 \<le> n \<and> n \<le> 57 \<or> 65 \<le> n \<and> n \<le> 90 \<or> 97 \<le> n \<and> n \<le> 122 \<or> c \<in> set ''_@%+=:,./-'')"

definition sh_quote_char :: "char \<Rightarrow> string" where
  "sh_quote_char c = (if c = CHR 0x27 then [CHR 0x27, CHR 0x22, CHR 0x27, CHR 0x22, CHR 0x27] else [c])"

definition shlex_quote :: "string \<Rightarrow> string" where
  "shlex_quote s =
     (if s = [] then [CHR 0x27, CHR 0x27]
      else if list_all sh_plain s then s
      else [CHR 0x27] @ concat (map sh_quote_char s) @ [CHR 0x27])"

text \<open>
  The state of the reader: outside of quotes (with the word read so far, if one has begun), inside
  single quotes, or inside double quotes.
\<close>

datatype sh_mode = Sh_Blank | Sh_Word string | Sh_Single string | Sh_Double string

fun sh_words :: "sh_mode \<Rightarrow> string \<Rightarrow> string list option" where
  "sh_words Sh_Blank [] = Some []"
| "sh_words (Sh_Word w) [] = Some [w]"
| "sh_words (Sh_Single w) [] = None"
| "sh_words (Sh_Double w) [] = None"
| "sh_words (Sh_Single w) (c # s) = (if c = CHR 0x27 then sh_words (Sh_Word w) s else sh_words (Sh_Single (w @ [c])) s)"
| "sh_words (Sh_Double w) (c # s) =
     (if c = CHR 0x22 then sh_words (Sh_Word w) s
      else if c \<in> {CHR ''$'', CHR 0x60, CHR 0x5C} then None
      else sh_words (Sh_Double (w @ [c])) s)"
| "sh_words Sh_Blank (c # s) =
     (if c = CHR '' '' then sh_words Sh_Blank s
      else if c = CHR 0x27 then sh_words (Sh_Single []) s
      else if c = CHR 0x22 then sh_words (Sh_Double []) s
      else if sh_plain c then sh_words (Sh_Word [c]) s
      else None)"
| "sh_words (Sh_Word w) (c # s) =
     (if c = CHR '' '' then map_option ((#) w) (sh_words Sh_Blank s)
      else if c = CHR 0x27 then sh_words (Sh_Single w) s
      else if c = CHR 0x22 then sh_words (Sh_Double w) s
      else if sh_plain c then sh_words (Sh_Word (w @ [c])) s
      else None)"

lemma sh_plain_simps [simp]: "\<not> sh_plain (CHR '' '')" "\<not> sh_plain (CHR 0x27)" "\<not> sh_plain (CHR 0x22)"
  by (simp_all add: sh_plain_def)

lemma sh_words_plain:
  "list_all sh_plain s \<Longrightarrow> sh_words (Sh_Word w) (s @ r) = sh_words (Sh_Word (w @ s)) r"
  by (induction s arbitrary: w) auto

lemma sh_words_single:
  "sh_words (Sh_Single w) (concat (map sh_quote_char s) @ CHR 0x27 # r) = sh_words (Sh_Word (w @ s)) r"
  by (induction s arbitrary: w) (auto simp: sh_quote_char_def)

text \<open>Whatever the data is, the shell reads its quoted form as one word, the data itself.\<close>

lemma sh_words_quote: "sh_words Sh_Blank (shlex_quote s @ r) = sh_words (Sh_Word s) r"
proof (cases "s \<noteq> [] \<and> list_all sh_plain s")
  case True
  then obtain c t where s: "s = c # t" "sh_plain c" "list_all sh_plain t" by (cases s) auto
  then have "c \<noteq> CHR '' ''" "c \<noteq> CHR 0x27" "c \<noteq> CHR 0x22" by auto
  with True s show ?thesis using sh_words_plain [of t "[c]" r] by (simp add: shlex_quote_def)
next
  case False
  then show ?thesis using sh_words_single [of "[]" s r] by (auto simp: shlex_quote_def)
qed

text \<open>The words of a line, one by one.\<close>

lemma sh_words_cons:
  "s \<noteq> [] \<Longrightarrow> list_all sh_plain s \<Longrightarrow>
     sh_words Sh_Blank (s @ CHR '' '' # r) = map_option ((#) s) (sh_words Sh_Blank r)"
  "sh_words Sh_Blank (shlex_quote t @ CHR '' '' # r) = map_option ((#) t) (sh_words Sh_Blank r)"
proof -
  show "sh_words Sh_Blank (shlex_quote t @ CHR '' '' # r) = map_option ((#) t) (sh_words Sh_Blank r)" for t
    by (simp only: sh_words_quote) simp
  from this [of s] show "s \<noteq> [] \<Longrightarrow> list_all sh_plain s \<Longrightarrow>
     sh_words Sh_Blank (s @ CHR '' '' # r) = map_option ((#) s) (sh_words Sh_Blank r)"
    by (simp add: shlex_quote_def)
qed

lemma sh_words_last: "s \<noteq> [] \<Longrightarrow> list_all sh_plain s \<Longrightarrow> sh_words Sh_Blank s = Some [s]"
  using sh_words_quote [of s "[]"] by (simp add: shlex_quote_def)

subsection \<open>Base64: \<open>base64.b64encode\<close> and \<open>binascii.a2b_base64\<close>\<close>

text \<open>
  Bytes are characters. The decoder is the lenient one of CPython: it skips characters that are not of the
  alphabet, and stops at the padding that completes a group of four.
\<close>

definition b64_alphabet :: string where
  "b64_alphabet = ''ABCDEFGHIJKLMNOPQRSTUVWXYZabcdefghijklmnopqrstuvwxyz0123456789+/''"

definition b64_char :: "nat \<Rightarrow> char" where
  "b64_char n = b64_alphabet ! n"

definition b64_digit :: "char \<Rightarrow> nat option" where
  "b64_digit c = map_of (zip b64_alphabet [0..<64]) c"

abbreviation byte :: "char \<Rightarrow> nat" where "byte c \<equiv> of_char c"

fun b64_encode :: "string \<Rightarrow> string" where
  "b64_encode [] = []"
| "b64_encode [a] = [b64_char (byte a div 4), b64_char (byte a mod 4 * 16), CHR ''='', CHR ''='']"
| "b64_encode [a, b] =
     [b64_char (byte a div 4), b64_char (byte a mod 4 * 16 + byte b div 16), b64_char (byte b mod 16 * 4), CHR ''='']"
| "b64_encode (a # b # c # s) =
     [b64_char (byte a div 4), b64_char (byte a mod 4 * 16 + byte b div 16),
      b64_char (byte b mod 16 * 4 + byte c div 64), b64_char (byte c mod 64)] @ b64_encode s"

text \<open>
  \<open>pos\<close> is the position in the group of four, \<open>left\<close> the bits left over, \<open>pads\<close> the padding characters in a
  row; the result is the bytes from here on, or the error with the number of bytes before it.
\<close>

fun b64_decode_from :: "nat \<Rightarrow> nat \<Rightarrow> nat \<Rightarrow> nat \<Rightarrow> string \<Rightarrow> string res" where
  "b64_decode_from n pos left pads [] =
     (if pos = 0 then Ok []
      else if pos = 1 then
        Exc (ValueError (''Invalid base64-encoded string: number of data characters ('' @ int_str (int (n div 3 * 4 + 1))
          @ '') cannot be 1 more than a multiple of 4''))
      else Exc (ValueError ''Incorrect padding''))"
| "b64_decode_from n pos left pads (c # s) =
     (if c = CHR ''='' then
        (if pos \<ge> 2 \<and> pos + pads + 1 \<ge> 4 then Ok []
         else b64_decode_from n pos left (if pos \<ge> 2 then pads + 1 else pads) s)
      else
        (case b64_digit c of
           None \<Rightarrow> b64_decode_from n pos left pads s
         | Some d \<Rightarrow>
             if pos = 0 then b64_decode_from n 1 d 0 s
             else if pos = 1 then
               bindR (b64_decode_from (n + 1) 2 (d mod 16) 0 s) (\<lambda>t. Ok (char_of (left * 4 + d div 16) # t))
             else if pos = 2 then
               bindR (b64_decode_from (n + 1) 3 (d mod 4) 0 s) (\<lambda>t. Ok (char_of (left * 16 + d div 4) # t))
             else
               bindR (b64_decode_from (n + 1) 0 0 0 s) (\<lambda>t. Ok (char_of (left * 64 + d) # t))))"

definition b64_decode :: "string \<Rightarrow> string res" where
  "b64_decode = b64_decode_from 0 0 0 0"

subsubsection \<open>The round trip\<close>

lemma b64_alphabet_facts: "length b64_alphabet = 64" "distinct b64_alphabet" "CHR ''='' \<notin> set b64_alphabet"
    "CHR 0x0A \<notin> set b64_alphabet"
  by (simp_all add: b64_alphabet_def)

lemma b64_digit_char [simp]: "n < 64 \<Longrightarrow> b64_digit (b64_char n) = Some n"
  unfolding b64_digit_def b64_char_def
  by (rule map_of_is_SomeI) (auto simp: b64_alphabet_facts set_zip)

lemma b64_char_plain [simp]: "n < 64 \<Longrightarrow> b64_char n \<noteq> CHR ''=''"
  unfolding b64_char_def using b64_alphabet_facts nth_mem [of n b64_alphabet] by metis

lemma byte_bound [simp]: "byte c < 256"
  by (rule nat_of_char_less_256)

lemma byte_parts [simp]:
  "byte a div 4 < 64" "byte a mod 4 * 16 < 64" "byte a mod 4 * 16 + byte b div 16 < 64" "byte b mod 16 * 4 < 64"
  "byte b mod 16 * 4 + byte c div 64 < 64"
  using byte_bound [of a] byte_bound [of b] byte_bound [of c] by linarith+

lemma glue_16: "j < 16 \<Longrightarrow> (i * 16 + j) div 16 = (i :: nat) \<and> (i * 16 + j) mod 16 = j"
  by simp

lemma glue_4: "j < 4 \<Longrightarrow> (i * 4 + j) div 4 = (i :: nat) \<and> (i * 4 + j) mod 4 = j"
  by simp

lemma byte_high: "byte b div 16 < 16" "byte b div 64 < 4"
  using byte_bound [of b] by linarith+

lemma byte_glue [simp]:
  "(byte a mod 4 * 16 + byte b div 16) div 16 = byte a mod 4"
  "(byte a mod 4 * 16 + byte b div 16) mod 16 = byte b div 16"
  "(byte b mod 16 * 4 + byte c div 64) div 4 = byte b mod 16"
  "(byte b mod 16 * 4 + byte c div 64) mod 4 = byte c div 64"
  by (simp_all only: glue_16 [OF byte_high(1)] glue_4 [OF byte_high(2)])

lemma byte_small [simp]: "byte b div 16 mod 16 = byte b div 16" "byte b div 64 mod 4 = byte b div 64"
  using byte_high [of b] by simp_all

lemma b64_decode_encode_from: "b64_decode_from n 0 left pads (b64_encode s) = Ok s"
  by (induction s arbitrary: n left pads rule: b64_encode.induct) simp_all

theorem b64_decode_encode: "b64_decode (b64_encode s) = Ok s"
  by (simp add: b64_decode_def b64_decode_encode_from)

text \<open>Line ends do not matter.\<close>

lemma b64_digit_newline [simp]: "b64_digit (CHR 0x0A) = None"
  unfolding b64_digit_def map_of_eq_None_iff using b64_alphabet_facts(4) by (auto dest: set_zip_leftD)

lemma b64_decode_lines_from:
  "b64_decode_from n pos left pads s = b64_decode_from n pos left pads (filter (\<lambda>c. c \<noteq> CHR 0x0A) s)"
  by (induction n pos left pads s rule: b64_decode_from.induct) (auto split: option.splits)

lemma b64_decode_lines: "b64_decode (filter (\<lambda>c. c \<noteq> CHR 0x0A) s) = b64_decode s"
  unfolding b64_decode_def using b64_decode_lines_from [of 0 0 0 0 s] by simp

end
