(* ===== verification/Esxi_Vlcm.thy ===== *)
theory Esxi_Vlcm
  imports Vcenter Text_Formats
begin

section \<open>Esxi_Vlcm: \<open>clients/esxi_vlcm.py\<close>\<close>

text \<open>
  The client of vCenter's ESX Lifecycle Manager: depots, drafts of the desired image, the apply
  policy, the lifecycle actions, the reports and the wait for a task.
\<close>

subsection \<open>Paths and bodies\<close>

definition vlcm_DEPOTS :: string where "vlcm_DEPOTS = ''/api/esx/settings/depots''"

definition vlcm_cluster_path :: "pyval \<Rightarrow> string \<Rightarrow> string" where
  "vlcm_cluster_path cluster sfx = ''/api/esx/settings/clusters/'' @ py_str cluster @ sfx"

definition vlcm_compact :: "dict \<Rightarrow> pyval" where
  "vlcm_compact body = PDict (filter (\<lambda>(k, v). v \<noteq> PNone) body)"

definition vmw_task :: "dict \<Rightarrow> pyval" where
  "vmw_task params = PDict (params @ [(''vmw-task'', PStr ''true'')])"

subsection \<open>Depots\<close>

definition vlcm_online_depot_list :: "pyval \<Rightarrow> profile \<Rightarrow> pyval io" where
  "vlcm_online_depot_list opts profile = vcenter_api_get opts (vlcm_DEPOTS @ ''/online'') PNone profile PNone"

definition vlcm_online_depot_create :: "pyval \<Rightarrow> dict \<Rightarrow> profile \<Rightarrow> pyval io" where
  "vlcm_online_depot_create opts body profile =
     vcenter_api_post opts (vlcm_DEPOTS @ ''/online'') (vlcm_compact body) PNone profile PNone"

definition vlcm_online_depot_update :: "pyval \<Rightarrow> pyval \<Rightarrow> dict \<Rightarrow> profile \<Rightarrow> pyval io" where
  "vlcm_online_depot_update opts depot_id body profile =
     vcenter_api_patch opts (vlcm_DEPOTS @ ''/online/'' @ py_str depot_id) (vlcm_compact body) profile PNone"

definition vlcm_offline_depot_list :: "pyval \<Rightarrow> profile \<Rightarrow> pyval io" where
  "vlcm_offline_depot_list opts profile = vcenter_api_get opts (vlcm_DEPOTS @ ''/offline'') PNone profile PNone"

definition vlcm_offline_depot_get :: "pyval \<Rightarrow> pyval \<Rightarrow> profile \<Rightarrow> pyval io" where
  "vlcm_offline_depot_get opts depot_id profile =
     vcenter_api_get opts (vlcm_DEPOTS @ ''/offline/'' @ py_str depot_id) PNone profile PNone"

definition vlcm_offline_depot_create :: "pyval \<Rightarrow> dict \<Rightarrow> profile \<Rightarrow> pyval io" where
  "vlcm_offline_depot_create opts body profile =
     vcenter_api_post opts (vlcm_DEPOTS @ ''/offline'') (vlcm_compact body) (vmw_task []) profile PNone"

definition vlcm_offline_depot_delete :: "pyval \<Rightarrow> pyval \<Rightarrow> profile \<Rightarrow> pyval io" where
  "vlcm_offline_depot_delete opts depot_id profile =
     vcenter_api_delete opts (vlcm_DEPOTS @ ''/offline/'' @ py_str depot_id) (vmw_task []) profile PNone"

definition vlcm_depot_sync :: "pyval \<Rightarrow> profile \<Rightarrow> pyval io" where
  "vlcm_depot_sync opts profile =
     tryM (vcenter_api_post opts vlcm_DEPOTS PNone (vmw_task [(''action'', PStr ''sync'')]) profile PNone)
       (\<lambda>exc. if http_status_is exc 404 then pureM (PDict [(''skipped'', PBool True)]) else raiseM exc)"

subsection \<open>The desired image and its drafts\<close>

definition vlcm_desired_image_get :: "pyval \<Rightarrow> pyval \<Rightarrow> profile \<Rightarrow> pyval io" where
  "vlcm_desired_image_get opts cluster profile =
     vcenter_api_get opts (vlcm_cluster_path cluster ''/software'') PNone profile PNone"

definition vlcm_base_image_get :: "pyval \<Rightarrow> pyval \<Rightarrow> profile \<Rightarrow> pyval io" where
  "vlcm_base_image_get opts cluster profile =
     vcenter_api_get opts (vlcm_cluster_path cluster ''/software/base-image'') PNone profile PNone"

definition drafts_path :: "pyval \<Rightarrow> string" where
  "drafts_path cluster = vlcm_cluster_path cluster ''/software/drafts''"

definition draft_path :: "pyval \<Rightarrow> pyval \<Rightarrow> string" where
  "draft_path cluster draft_id = vlcm_cluster_path cluster (''/software/drafts/'' @ py_str draft_id)"

definition vlcm_drafts_list :: "pyval \<Rightarrow> pyval \<Rightarrow> profile \<Rightarrow> pyval io" where
  "vlcm_drafts_list opts cluster profile = vcenter_api_get opts (drafts_path cluster) PNone profile PNone"

definition vlcm_draft_get :: "pyval \<Rightarrow> pyval \<Rightarrow> pyval \<Rightarrow> profile \<Rightarrow> pyval io" where
  "vlcm_draft_get opts cluster draft_id profile =
     vcenter_api_get opts (draft_path cluster draft_id) PNone profile PNone"

definition vlcm_draft_delete :: "pyval \<Rightarrow> pyval \<Rightarrow> pyval \<Rightarrow> profile \<Rightarrow> pyval io" where
  "vlcm_draft_delete opts cluster draft_id profile =
     vcenter_api_delete opts (draft_path cluster draft_id) PNone profile PNone"

definition vlcm_draft_import_software_spec :: "pyval \<Rightarrow> pyval \<Rightarrow> pyval \<Rightarrow> profile \<Rightarrow> pyval io" where
  "vlcm_draft_import_software_spec opts cluster image_spec profile =
     vcenter_api_post opts (drafts_path cluster)
       (PDict [(''source_type'', PStr ''JSON_STRING''), (''software_spec'', PStr (json_dumps image_spec))])
       (PDict [(''action'', PStr ''import-software-spec'')]) profile PNone"

definition vlcm_draft_validate :: "pyval \<Rightarrow> pyval \<Rightarrow> pyval \<Rightarrow> profile \<Rightarrow> pyval io" where
  "vlcm_draft_validate opts cluster draft_id profile =
     vcenter_api_post opts (draft_path cluster draft_id) PNone (vmw_task [(''action'', PStr ''validate'')])
       profile PNone"

definition vlcm_draft_commit :: "pyval \<Rightarrow> pyval \<Rightarrow> pyval \<Rightarrow> pyval \<Rightarrow> profile \<Rightarrow> pyval io" where
  "vlcm_draft_commit opts cluster draft_id message profile =
     vcenter_api_post opts (draft_path cluster draft_id)
       (PDict [(''message'', if message \<noteq> PNone then message else PStr [])])
       (vmw_task [(''action'', PStr ''commit'')]) profile PNone"

subsection \<open>Apply policy, lifecycle actions, reports\<close>

definition vlcm_apply_policy_get :: "pyval \<Rightarrow> pyval \<Rightarrow> profile \<Rightarrow> pyval io" where
  "vlcm_apply_policy_get opts cluster profile =
     vcenter_api_get opts (vlcm_cluster_path cluster ''/policies/apply'') PNone profile PNone"

definition vlcm_apply_policy_set :: "pyval \<Rightarrow> pyval \<Rightarrow> pyval \<Rightarrow> profile \<Rightarrow> pyval io" where
  "vlcm_apply_policy_set opts cluster policy_spec profile =
     vcenter_api_put opts (vlcm_cluster_path cluster ''/policies/apply'') policy_spec profile PNone"

definition vlcm_lifecycle_action :: "pyval \<Rightarrow> pyval \<Rightarrow> string \<Rightarrow> pyval \<Rightarrow> profile \<Rightarrow> pyval io" where
  "vlcm_lifecycle_action opts cluster action body profile =
     vcenter_api_post opts (vlcm_cluster_path cluster ''/software'') body (vmw_task [(''action'', PStr action)])
       profile PNone"

definition hosts_body :: "pyval \<Rightarrow> pyval \<Rightarrow> pyval" where
  "hosts_body commit hosts =
     PDict [(''commit'', commit), (''hosts'', if hosts \<noteq> PNone then hosts else PList [])]"

definition vlcm_compliance_scan :: "pyval \<Rightarrow> pyval \<Rightarrow> pyval \<Rightarrow> pyval \<Rightarrow> profile \<Rightarrow> pyval io" where
  "vlcm_compliance_scan opts cluster commit hosts profile =
     vlcm_lifecycle_action opts cluster ''scan'' (hosts_body commit hosts) profile"

definition vlcm_precheck :: "pyval \<Rightarrow> pyval \<Rightarrow> pyval \<Rightarrow> profile \<Rightarrow> pyval io" where
  "vlcm_precheck opts cluster commit profile =
     vlcm_lifecycle_action opts cluster ''check'' (PDict [(''commit'', commit)]) profile"

definition vlcm_stage :: "pyval \<Rightarrow> pyval \<Rightarrow> pyval \<Rightarrow> pyval \<Rightarrow> profile \<Rightarrow> pyval io" where
  "vlcm_stage opts cluster commit hosts profile =
     vlcm_lifecycle_action opts cluster ''stage'' (hosts_body commit hosts) profile"

definition vlcm_remediate :: "pyval \<Rightarrow> pyval \<Rightarrow> pyval \<Rightarrow> profile \<Rightarrow> pyval io" where
  "vlcm_remediate opts cluster accept_eula profile =
     vlcm_lifecycle_action opts cluster ''apply'' (PDict [(''accept_eula'', accept_eula)]) profile"

definition vlcm_report_or_none :: "pyval \<Rightarrow> pyval \<Rightarrow> string \<Rightarrow> profile \<Rightarrow> pyval io" where
  "vlcm_report_or_none opts cluster sfx profile =
     tryM (vcenter_api_get opts (vlcm_cluster_path cluster (''/software/reports/'' @ sfx)) PNone profile PNone)
       (\<lambda>exc. if http_status_is exc 404 then pureM PNone else raiseM exc)"

definition vlcm_last_check_result :: "pyval \<Rightarrow> pyval \<Rightarrow> profile \<Rightarrow> pyval io" where
  "vlcm_last_check_result opts cluster profile = vlcm_report_or_none opts cluster ''last-check-result'' profile"

definition vlcm_apply_impact_report :: "pyval \<Rightarrow> pyval \<Rightarrow> profile \<Rightarrow> pyval io" where
  "vlcm_apply_impact_report opts cluster profile = vlcm_report_or_none opts cluster ''apply-impact'' profile"

definition vlcm_last_apply_result :: "pyval \<Rightarrow> pyval \<Rightarrow> profile \<Rightarrow> pyval io" where
  "vlcm_last_apply_result opts cluster profile = vlcm_report_or_none opts cluster ''last-apply-result'' profile"

subsection \<open>Tasks\<close>

definition vlcm_task_id :: "pyval \<Rightarrow> pyval" where
  "vlcm_task_id resp =
     (case resp of
        PDict d \<Rightarrow> (case map_of d ''value'' of Some v \<Rightarrow> v | None \<Rightarrow> resp)
      | _ \<Rightarrow> resp)"

definition vlcm_wait_for_task :: "pyval \<Rightarrow> pyval \<Rightarrow> pyval \<Rightarrow> pyval \<Rightarrow> profile \<Rightarrow> pyval io" where
  "vlcm_wait_for_task opts resp timeout poll_interval profile =
     vcenter_wait_for_task opts (vlcm_task_id resp) timeout poll_interval profile"

subsection \<open>What the client does to the world\<close>

lemmas vlcm_reads_defs = vlcm_online_depot_list_def vlcm_offline_depot_list_def vlcm_offline_depot_get_def
  vlcm_desired_image_get_def vlcm_base_image_get_def vlcm_drafts_list_def vlcm_draft_get_def
  vlcm_apply_policy_get_def vlcm_report_or_none_def vlcm_last_check_result_def
  vlcm_apply_impact_report_def vlcm_last_apply_result_def

lemmas vlcm_posts_defs = vlcm_online_depot_create_def vlcm_offline_depot_create_def vlcm_depot_sync_def
  vlcm_draft_import_software_spec_def vlcm_draft_validate_def vlcm_draft_commit_def
  vlcm_apply_policy_set_def vlcm_lifecycle_action_def vlcm_compliance_scan_def vlcm_precheck_def
  vlcm_stage_def vlcm_remediate_def

lemma vlcm_reads [spec_intros]:
  "keeps (sends_only vcenter_read) (vlcm_online_depot_list opts p)"
  "keeps (sends_only vcenter_read) (vlcm_offline_depot_list opts p)"
  "keeps (sends_only vcenter_read) (vlcm_offline_depot_get opts d p)"
  "keeps (sends_only vcenter_read) (vlcm_desired_image_get opts cl p)"
  "keeps (sends_only vcenter_read) (vlcm_base_image_get opts cl p)"
  "keeps (sends_only vcenter_read) (vlcm_drafts_list opts cl p)"
  "keeps (sends_only vcenter_read) (vlcm_draft_get opts cl d p)"
  "keeps (sends_only vcenter_read) (vlcm_apply_policy_get opts cl p)"
  "keeps (sends_only vcenter_read) (vlcm_last_check_result opts cl p)"
  "keeps (sends_only vcenter_read) (vlcm_apply_impact_report opts cl p)"
  "keeps (sends_only vcenter_read) (vlcm_last_apply_result opts cl p)"
  "keeps (sends_only vcenter_read) (vlcm_wait_for_task opts r t i p)"
  by (auto simp: vlcm_reads_defs vlcm_wait_for_task_def intro!: spec_intros)

text \<open>All but the removals send no \<open>DELETE\<close>.\<close>

definition deletes :: "request \<Rightarrow> bool" where "deletes rq \<longleftrightarrow> rq_method rq = ''DELETE''"

lemma not_deletes [simp]:
  "is_vcenter_login rq \<Longrightarrow> \<not> deletes rq" "vcenter_read rq \<Longrightarrow> \<not> deletes rq"
  "vcenter_call m path b q rq \<Longrightarrow> m \<noteq> ''DELETE'' \<Longrightarrow> \<not> deletes rq"
  by (auto simp: deletes_def is_vcenter_login_def vcenter_read_def vcenter_call_def)

lemma reads_delete_nothing: "keeps (sends_only vcenter_read) m \<Longrightarrow> keeps (sends_only (\<lambda>rq. \<not> deletes rq)) m"
  by (erule keeps_mono) (auto intro: sends_only_mono)

lemma vlcm_posts_delete_nothing [spec_intros]:
  "keeps (sends_only (\<lambda>rq. \<not> deletes rq)) (vlcm_draft_import_software_spec opts cl s p)"
  "keeps (sends_only (\<lambda>rq. \<not> deletes rq)) (vlcm_draft_validate opts cl d p)"
  "keeps (sends_only (\<lambda>rq. \<not> deletes rq)) (vlcm_draft_commit opts cl d msg p)"
  by (auto simp: vlcm_posts_defs intro!: spec_intros)

lemmas vlcm_reads_delete_nothing [spec_intros] = vlcm_reads [THEN reads_delete_nothing]

lemma vlcm_returns [spec_intros]:
  "returns (vlcm_online_depot_list opts p)" "returns (vlcm_offline_depot_list opts p)"
  "returns (vlcm_desired_image_get opts cl p)" "returns (vlcm_drafts_list opts cl p)"
  "returns (vlcm_draft_get opts cl d p)" "returns (vlcm_apply_policy_get opts cl p)"
  "returns (vlcm_last_check_result opts cl p)" "returns (vlcm_apply_impact_report opts cl p)"
  "returns (vlcm_last_apply_result opts cl p)" "returns (vlcm_draft_delete opts cl d p)"
  "returns (vlcm_online_depot_create opts bd p)" "returns (vlcm_offline_depot_create opts bd p)"
  "returns (vlcm_depot_sync opts p)" "returns (vlcm_draft_import_software_spec opts cl s p)"
  "returns (vlcm_draft_validate opts cl d p)" "returns (vlcm_draft_commit opts cl d msg p)"
  "returns (vlcm_apply_policy_set opts cl v p)" "returns (vlcm_lifecycle_action opts cl act v p)"
  by (auto simp: vlcm_reads_defs vlcm_posts_defs vlcm_draft_delete_def intro!: spec_intros)

lemma vlcm_actions_return [spec_intros]:
  "returns (vlcm_compliance_scan opts cl cm hs p)" "returns (vlcm_precheck opts cl cm p)"
  "returns (vlcm_stage opts cl cm hs p)" "returns (vlcm_remediate opts cl eula p)"
  by (auto simp: vlcm_compliance_scan_def vlcm_precheck_def vlcm_stage_def vlcm_remediate_def intro!: spec_intros)

lemma vlcm_wait_returns: "0 < sleep_ms i \<Longrightarrow> returns (vlcm_wait_for_task opts r t i p)"
  by (simp add: vlcm_wait_for_task_def vcenter_wait_returns)

end
