(* ===== verification/Vcf_Esxi_Vlcm.thy ===== *)
theory Vcf_Esxi_Vlcm
  imports Esxi_Vlcm Salt_State "HOL-Library.List_Lexorder" "HOL-Library.Char_ord"
begin

section \<open>Vcf_Esxi_Vlcm: \<open>states/vcf_esxi_vlcm.py\<close>\<close>

text \<open>
  The states that patch the hosts of a cluster through its desired image: depots, the image, the
  apply policy, the lifecycle steps and the report.
\<close>

subsection \<open>Pillar\<close>

definition vlcm_pillar_section :: "pyval \<Rightarrow> string \<Rightarrow> pyval res" where
  "vlcm_pillar_section opts section_name =
     bindR (py_get opts ''pillar'' empty_dict) (\<lambda>pillar.
     bindR (py_get pillar ''saltext.vcf'' empty_dict) (\<lambda>r.
     bindR (py_get (py_or r empty_dict) ''esxi_vlcm'' empty_dict) (\<lambda>s.
     bindR (py_get (py_or s empty_dict) section_name empty_dict) (\<lambda>v.
     Ok (py_or v empty_dict)))))"

definition vlcm_task_settings :: "pyval \<Rightarrow> dict \<Rightarrow> (pyval \<times> pyval) res" where
  "vlcm_task_settings opts kwargs =
     bindR (vlcm_pillar_section opts ''task'') (\<lambda>task.
     bindR (py_get task ''timeout'' (PInt 14400)) (\<lambda>t.
     bindR (py_get task ''poll_interval'' (PInt 30)) (\<lambda>i.
     Ok (dget kwargs ''task_timeout'' t, dget kwargs ''task_poll_interval'' i))))"

text \<open>\<open>c.wait_for_task\<close> with the settings of \<open>_task_settings\<close>.\<close>

definition vlcm_wait :: "pyval \<Rightarrow> pyval \<Rightarrow> pyval \<times> pyval \<Rightarrow> profile \<Rightarrow> pyval io" where
  "vlcm_wait opts resp settings profile = vlcm_wait_for_task opts resp (fst settings) (snd settings) profile"

subsection \<open>Depots\<close>

record depot_args =
  da_depot_type :: pyval
  da_location :: pyval
  da_source_type :: pyval
  da_enabled :: pyval
  da_description :: pyval
  da_ownerdata :: pyval
  da_profile :: profile
  da_kwargs :: dict

text \<open>The part of the first \<open>try\<close>: the depots, and the one at that location.\<close>

definition depot_match :: "pyval \<Rightarrow> pyval \<Rightarrow> pyval \<Rightarrow> profile \<Rightarrow> pyval io" where
  "depot_match opts depot_type location profile =
     bindM (if depot_type = PStr ''online'' then vlcm_online_depot_list opts profile
            else vlcm_offline_depot_list opts profile) (\<lambda>listed.
     bindM (liftR (py_iter (py_or listed (PList [])))) (\<lambda>existing.
     liftR (find_by ''location'' location existing)))"

definition depot_create :: "pyval \<Rightarrow> pyval \<Rightarrow> pyval \<Rightarrow> pyval \<Rightarrow> depot_args \<Rightarrow> unit io" where
  "depot_create opts depot_type location cfg a =
     (if depot_type = PStr ''online'' then
        bindM (vlcm_online_depot_create opts [(''location'', location), (''enabled'', da_enabled a)] (da_profile a))
          (\<lambda>_. pureM ())
      else
        bindM (liftR (vlcm_task_settings opts (da_kwargs a))) (\<lambda>settings.
        bindM (if truthy (da_source_type a) then pureM (da_source_type a)
               else liftR (py_get cfg ''source_type'' (PStr ''PULL''))) (\<lambda>source_type.
        bindM (vlcm_offline_depot_create opts
            [(''source_type'', source_type), (''location'', location),
             (''description'', da_description a), (''ownerdata'', da_ownerdata a)] (da_profile a)) (\<lambda>resp.
        bindM (vlcm_wait opts resp settings (da_profile a)) (\<lambda>_. pureM ())))))"

definition vcf_esxi_vlcm_depot_configured :: "pyval \<Rightarrow> string \<Rightarrow> depot_args \<Rightarrow> salt_ret io" where
  "vcf_esxi_vlcm_depot_configured opts name a =
     (let ret = state_ret name; depot_type = py_or (da_depot_type a) (PStr ''offline'') in
     bindM (liftR (vlcm_pillar_section opts (py_str depot_type @ ''_depot''))) (\<lambda>cfg.
     bindM (if truthy (da_location a) then pureM (da_location a)
            else liftR (py_get cfg ''location'' PNone)) (\<lambda>location.
     if \<not> truthy location then
       pureM (state_fail ret (ValueError (''depot_configured requires '' @ repr_str ''location''
         @ '' (or pillar esxi_vlcm:'' @ py_str depot_type @ ''_depot:location)'')))
     else
       let label = py_str depot_type @ '' depot '' @ py_repr location in
       guarded ret (depot_match opts depot_type location (da_profile a)) (\<lambda>found.
       if truthy found then pureM (ret\<lparr>ret_comment := label @ '' already configured''\<rparr>)
       else if test_mode opts then
         pureM (ret\<lparr>ret_result := None, ret_comment := ''would create '' @ label,
           ret_changes := PDict [(''depot'', location)]\<rparr>)
       else
         guarded ret (depot_create opts depot_type location cfg a) (\<lambda>_.
         pureM (ret\<lparr>ret_changes := PDict [(''depot'', location)],
           ret_comment := label @ '' configured''\<rparr>))))))"

definition vcf_esxi_vlcm_depot_synced :: "pyval \<Rightarrow> string \<Rightarrow> profile \<Rightarrow> dict \<Rightarrow> salt_ret io" where
  "vcf_esxi_vlcm_depot_synced opts name profile kwargs =
     (let ret = state_ret name in
     if test_mode opts then
       pureM (ret\<lparr>ret_result := None, ret_comment := ''would sync depots''\<rparr>)
     else
       bindM (liftR (vlcm_task_settings opts kwargs)) (\<lambda>settings.
       or_fail ret
         (bindM (vlcm_depot_sync opts profile) (\<lambda>resp.
          if (case resp of PDict d \<Rightarrow> truthy (dget d ''skipped'' PNone) | _ \<Rightarrow> False) then
            pureM (ret\<lparr>ret_comment := ''depot sync not supported by this vCenter; skipped''\<rparr>)
          else
            bindM (vlcm_wait opts resp settings profile) (\<lambda>_.
            pureM (ret\<lparr>ret_changes := PDict [(''synced'', PBool True)], ret_comment := ''depots synced''\<rparr>))))))"

subsection \<open>The desired image\<close>

definition base_version :: "pyval \<Rightarrow> pyval res" where
  "base_version desired_image =
     bindR (py_get (py_or desired_image empty_dict) ''base_image'' PNone) (\<lambda>b.
     py_get (py_or b empty_dict) ''version'' PNone)"

definition first_draft_id :: "pyval \<Rightarrow> pyval" where
  "first_draft_id drafts =
     (case drafts of
        PDict ((k, v) # d) \<Rightarrow> PStr k
      | PList (PDict d # ds) \<Rightarrow>
          py_or (dget d ''id'' PNone) (py_or (dget d ''draft_id'' PNone) (dget d ''key'' PNone))
      | PList (x # ds) \<Rightarrow> x
      | _ \<Rightarrow> PNone)"

record image_args =
  im_cluster_id :: pyval
  im_image_spec :: pyval
  im_display_name :: pyval
  im_existing_draft_action :: pyval
  im_validate :: pyval
  im_commit :: pyval
  im_commit_message :: pyval
  im_profile :: profile
  im_kwargs :: dict

text \<open>
  What happens to a draft that exists: a return of the state (\<open>Inl\<close>), or the draft to go on with
  (\<open>Inr\<close>), \<open>None\<close> for none.
\<close>

definition image_existing_draft ::
  "pyval \<Rightarrow> salt_ret \<Rightarrow> pyval \<Rightarrow> image_args \<Rightarrow> pyval \<Rightarrow> pyval \<Rightarrow> (salt_ret + pyval) io" where
  "image_existing_draft opts ret cluster a desired_version existing_id =
     (if existing_id = PNone then pureM (Inr PNone)
      else if im_existing_draft_action a = PStr ''fail'' then
        pureM (Inl (state_fail ret (RuntimeError (''cluster '' @ py_str cluster @ '' already has draft ''
          @ py_repr existing_id))))
      else if im_existing_draft_action a = PStr ''reuse'' then
        bindM (tryM (bindM (vlcm_draft_get opts cluster existing_id (im_profile a)) (\<lambda>d. pureM (Inr (py_or d empty_dict))))
                 (\<lambda>exc. pureM (Inl (state_fail ret exc)))) (\<lambda>got.
        case got of
          Inl failed \<Rightarrow> pureM (Inl failed)
        | Inr draft_doc \<Rightarrow>
            bindM (liftR (bindR (py_get draft_doc ''software_spec'' PNone)
                (\<lambda>spec. base_version (py_or spec draft_doc)))) (\<lambda>draft_version.
            if truthy desired_version \<and> \<not> py_eq draft_version desired_version then
              pureM (Inl (state_fail ret (RuntimeError (''existing draft '' @ py_repr existing_id @ '' is version ''
                @ py_repr draft_version @ '', not the requested '' @ py_repr desired_version))))
            else pureM (Inr existing_id)))
      else if test_mode opts then
        pureM (Inl (ret\<lparr>ret_result := None,
          ret_comment := ''would delete existing draft '' @ py_repr existing_id @ '' and import ''
            @ py_str desired_version\<rparr>))
      else
        tryM (bindM (vlcm_draft_delete opts cluster existing_id (im_profile a)) (\<lambda>_. pureM (Inr PNone)))
          (\<lambda>exc. pureM (Inl (state_fail ret exc))))"

definition image_changed :: "salt_ret \<Rightarrow> pyval \<Rightarrow> pyval \<Rightarrow> salt_ret" where
  "image_changed ret old new =
     ret\<lparr>ret_changes := PDict [(''base_image_version'', PDict [(''old'', old), (''new'', new)])]\<rparr>"

text \<open>The last \<open>try\<close>: import, validate, commit, verify.\<close>

definition image_verify ::
  "pyval \<Rightarrow> salt_ret \<Rightarrow> pyval \<Rightarrow> image_args \<Rightarrow> pyval \<Rightarrow> salt_ret \<Rightarrow> salt_ret io" where
  "image_verify opts ret cluster a desired_version success =
     bindM (vlcm_desired_image_get opts cluster (im_profile a)) (\<lambda>final.
     bindM (liftR (base_version final)) (\<lambda>final_version.
     if truthy desired_version \<and> \<not> py_eq final_version desired_version then
       pureM (state_fail ret (RuntimeError (''commit reported success but cluster '' @ py_str cluster
         @ '' version is '' @ py_repr final_version @ '', not the requested '' @ py_repr desired_version)))
     else pureM success))"

definition image_apply ::
  "pyval \<Rightarrow> salt_ret \<Rightarrow> pyval \<Rightarrow> image_args \<Rightarrow> pyval \<Rightarrow> pyval \<Rightarrow> pyval \<Rightarrow> pyval \<Rightarrow> pyval \<times> pyval \<Rightarrow> salt_ret io" where
  "image_apply opts ret cluster a image_spec current_version desired_version draft_id settings =
     (let profile = im_profile a;
          success = (image_changed ret current_version desired_version)\<lparr>ret_comment :=
            ''cluster '' @ py_str cluster @ '' desired image set to '' @ py_str desired_version\<rparr> in
     bindM (if draft_id = PNone then
              bindM (vlcm_draft_import_software_spec opts cluster image_spec profile) (\<lambda>_.
              bindM (vlcm_drafts_list opts cluster profile) (\<lambda>fresh.
              pureM (first_draft_id (py_or fresh (PList [])))))
            else pureM draft_id) (\<lambda>draft_id.
     if draft_id = PNone then
       pureM (state_fail ret (RuntimeError (''could not determine draft id after import on cluster ''
         @ py_str cluster)))
     else
       bindM (if truthy (im_validate a) then
                bindM (vlcm_draft_validate opts cluster draft_id profile) (\<lambda>resp.
                vlcm_wait opts resp settings profile)
              else pureM PNone) (\<lambda>_.
       if truthy (im_commit a) then
         bindM (vlcm_draft_commit opts cluster draft_id
             (py_or (im_commit_message a) (im_display_name a)) profile) (\<lambda>resp.
         bindM (vlcm_wait opts resp settings profile) (\<lambda>_.
         image_verify opts ret cluster a desired_version success))
       else pureM success)))"

text \<open>From the list of drafts to the end of the function.\<close>

definition image_reconcile ::
  "pyval \<Rightarrow> salt_ret \<Rightarrow> pyval \<Rightarrow> image_args \<Rightarrow> pyval \<Rightarrow> pyval \<Rightarrow> pyval \<Rightarrow> salt_ret io" where
  "image_reconcile opts ret cluster a image_spec current_version desired_version =
     guarded ret (vlcm_drafts_list opts cluster (im_profile a)) (\<lambda>drafts.
     bindM (image_existing_draft opts ret cluster a desired_version (first_draft_id (py_or drafts (PList [])))) (\<lambda>chosen.
     case chosen of
       Inl returned \<Rightarrow> pureM returned
     | Inr draft_id \<Rightarrow>
         if test_mode opts then
           pureM ((image_changed ret current_version desired_version)\<lparr>ret_result := None,
             ret_comment := ''would set cluster '' @ py_str cluster @ '' desired image to ''
               @ py_str desired_version\<rparr>)
         else
           bindM (liftR (vlcm_task_settings opts (im_kwargs a))) (\<lambda>settings.
           or_fail ret
             (image_apply opts ret cluster a image_spec current_version desired_version draft_id settings))))"

definition vcf_esxi_vlcm_image_configured :: "pyval \<Rightarrow> string \<Rightarrow> image_args \<Rightarrow> salt_ret io" where
  "vcf_esxi_vlcm_image_configured opts name a =
     (let ret = state_ret name; cluster = py_or (im_cluster_id a) (PStr name) in
     bindM (liftR (vlcm_pillar_section opts ''image'')) (\<lambda>cfg.
     bindM (if truthy (im_image_spec a) then pureM (im_image_spec a)
            else liftR (py_get cfg ''spec'' PNone)) (\<lambda>image_spec.
     if \<not> truthy image_spec then
       pureM (state_fail ret (ValueError (''image_configured requires '' @ repr_str ''image_spec''
         @ '' (or pillar esxi_vlcm:image:spec)'')))
     else
     bindM (liftR (base_version image_spec)) (\<lambda>desired_version.
     guarded ret (vlcm_desired_image_get opts cluster (im_profile a)) (\<lambda>current.
     bindM (liftR (base_version current)) (\<lambda>current_version.
     if truthy desired_version \<and> py_eq current_version desired_version then
       pureM (ret\<lparr>ret_comment := ''cluster '' @ py_str cluster @ '' desired image already at ''
         @ py_str desired_version\<rparr>)
     else image_reconcile opts ret cluster a image_spec current_version desired_version))))))"

subsection \<open>The apply policy\<close>

definition policy_items :: "pyval \<Rightarrow> dict res" where
  "policy_items spec = (case spec of PDict d \<Rightarrow> Ok d | _ \<Rightarrow> Exc (attr_error spec ''items''))"

definition policy_diff :: "dict \<Rightarrow> pyval \<Rightarrow> dict res" where
  "policy_diff spec current =
     (case current of
        PDict c \<Rightarrow> Ok (filter (\<lambda>(k, v). \<not> py_eq (dget c k PNone) v) spec)
      | _ \<Rightarrow> if spec = [] then Ok [] else Exc (attr_error current ''get''))"

definition vcf_esxi_vlcm_policy_configured ::
  "pyval \<Rightarrow> string \<Rightarrow> pyval \<Rightarrow> pyval \<Rightarrow> profile \<Rightarrow> salt_ret io" where
  "vcf_esxi_vlcm_policy_configured opts name cluster_id policy_spec profile =
     (let ret = state_ret name; cluster = py_or cluster_id (PStr name) in
     bindM (if truthy policy_spec then pureM policy_spec else liftR (vlcm_pillar_section opts ''policy'')) (\<lambda>spec.
     if \<not> truthy spec then
       pureM (state_fail ret (ValueError (''policy_configured requires '' @ repr_str ''policy_spec''
         @ '' (or pillar esxi_vlcm:policy)'')))
     else
     guarded ret (vlcm_apply_policy_get opts cluster profile) (\<lambda>policy.
     bindM (liftR (bindR (policy_items spec) (\<lambda>items. policy_diff items (py_or policy empty_dict)))) (\<lambda>diff.
     if diff = [] then
       pureM (ret\<lparr>ret_comment := ''cluster '' @ py_str cluster @ '' apply policy already matches''\<rparr>)
     else if test_mode opts then
       pureM (ret\<lparr>ret_result := None,
         ret_comment := ''would update cluster '' @ py_str cluster @ '' apply policy: ''
           @ py_repr (PList (map PStr (sort (map fst diff)))),
         ret_changes := PDict diff\<rparr>)
     else
       guarded ret (vlcm_apply_policy_set opts cluster spec profile) (\<lambda>_.
       pureM (ret\<lparr>ret_changes := PDict diff,
         ret_comment := ''cluster '' @ py_str cluster @ '' apply policy updated''\<rparr>))))))"

subsection \<open>Lifecycle steps and the report\<close>

definition vlcm_lifecycle_step ::
  "pyval \<Rightarrow> string \<Rightarrow> pyval \<Rightarrow> string \<Rightarrow> string \<Rightarrow> (pyval \<Rightarrow> pyval io) \<Rightarrow> dict \<Rightarrow> profile \<Rightarrow> salt_ret io" where
  "vlcm_lifecycle_step opts name cluster_id slug label client_fn kwargs profile =
     (let ret = state_ret name; cluster = py_or cluster_id (PStr name) in
     if test_mode opts then
       pureM (ret\<lparr>ret_result := None, ret_comment := ''would '' @ label @ '' cluster '' @ py_str cluster\<rparr>)
     else
       bindM (liftR (vlcm_task_settings opts kwargs)) (\<lambda>settings.
       guarded ret (bindM (client_fn cluster) (\<lambda>resp. vlcm_wait opts resp settings profile)) (\<lambda>task.
       bindM (liftR (py_get task ''status'' PNone)) (\<lambda>status.
       pureM (ret\<lparr>ret_changes := PDict [(slug, status)],
         ret_comment := ''cluster '' @ py_str cluster @ '' '' @ label @ '' complete''\<rparr>)))))"

definition vcf_esxi_vlcm_compliance_checked ::
  "pyval \<Rightarrow> string \<Rightarrow> pyval \<Rightarrow> pyval \<Rightarrow> pyval \<Rightarrow> profile \<Rightarrow> dict \<Rightarrow> salt_ret io" where
  "vcf_esxi_vlcm_compliance_checked opts name cluster_id commit hosts profile kwargs =
     vlcm_lifecycle_step opts name cluster_id ''compliance_scan'' ''compliance scan''
       (\<lambda>cluster. vlcm_compliance_scan opts cluster commit hosts profile) kwargs profile"

definition vcf_esxi_vlcm_prechecked ::
  "pyval \<Rightarrow> string \<Rightarrow> pyval \<Rightarrow> pyval \<Rightarrow> profile \<Rightarrow> dict \<Rightarrow> salt_ret io" where
  "vcf_esxi_vlcm_prechecked opts name cluster_id commit profile kwargs =
     vlcm_lifecycle_step opts name cluster_id ''precheck'' ''precheck''
       (\<lambda>cluster. vlcm_precheck opts cluster commit profile) kwargs profile"

definition vcf_esxi_vlcm_staged ::
  "pyval \<Rightarrow> string \<Rightarrow> pyval \<Rightarrow> pyval \<Rightarrow> pyval \<Rightarrow> profile \<Rightarrow> dict \<Rightarrow> salt_ret io" where
  "vcf_esxi_vlcm_staged opts name cluster_id commit hosts profile kwargs =
     vlcm_lifecycle_step opts name cluster_id ''stage'' ''stage''
       (\<lambda>cluster. vlcm_stage opts cluster commit hosts profile) kwargs profile"

definition vcf_esxi_vlcm_remediated ::
  "pyval \<Rightarrow> string \<Rightarrow> pyval \<Rightarrow> pyval \<Rightarrow> profile \<Rightarrow> dict \<Rightarrow> salt_ret io" where
  "vcf_esxi_vlcm_remediated opts name cluster_id accept_eula profile kwargs =
     (let ret = state_ret name; cluster = py_or cluster_id (PStr name) in
     if test_mode opts then
       pureM (ret\<lparr>ret_result := None, ret_comment := ''would remediate cluster '' @ py_str cluster\<rparr>)
     else
       bindM (liftR (vlcm_task_settings opts kwargs)) (\<lambda>settings.
       guarded ret (bindM (vlcm_remediate opts cluster accept_eula profile) (\<lambda>resp.
         vlcm_wait opts resp settings profile)) (\<lambda>task.
       bindM (liftR (py_get task ''status'' PNone)) (\<lambda>status.
       pureM (ret\<lparr>ret_changes := PDict [(''remediate'', status)],
         ret_comment := ''cluster '' @ py_str cluster @ '' remediated''\<rparr>)))))"

definition present :: "pyval \<Rightarrow> string" where
  "present v = (if truthy v then ''present'' else ''none'')"

definition vcf_esxi_vlcm_reported :: "pyval \<Rightarrow> string \<Rightarrow> pyval \<Rightarrow> profile \<Rightarrow> salt_ret io" where
  "vcf_esxi_vlcm_reported opts name cluster_id profile =
     (let ret = state_ret name; cluster = py_or cluster_id (PStr name) in
     or_fail ret
       (bindM (vlcm_last_check_result opts cluster profile) (\<lambda>last_check.
        bindM (vlcm_apply_impact_report opts cluster profile) (\<lambda>apply_impact.
        bindM (vlcm_last_apply_result opts cluster profile) (\<lambda>last_apply.
        pureM (ret\<lparr>ret_comment := ''cluster '' @ py_str cluster @ '': last_check='' @ present last_check
          @ '', apply_impact='' @ present apply_impact @ '', last_apply='' @ present last_apply\<rparr>))))))"

subsection \<open>Dry runs\<close>

lemma vlcm_wait_reads [spec_intros]: "keeps (sends_only vcenter_read) (vlcm_wait opts r st p)"
  by (auto simp: vlcm_wait_def intro!: spec_intros)

lemma depot_match_reads [spec_intros]: "keeps (sends_only vcenter_read) (depot_match opts dt loc p)"
  by (auto simp: depot_match_def intro!: spec_intros)

lemma image_existing_draft_dry [spec_intros]:
  "test_mode opts \<Longrightarrow> keeps (sends_only vcenter_read) (image_existing_draft opts ret cl a v d)"
  by (auto simp: image_existing_draft_def intro!: spec_intros)

lemma image_reconcile_dry [spec_intros]:
  "test_mode opts \<Longrightarrow> keeps (sends_only vcenter_read) (image_reconcile opts ret cl a s c v)"
  by (auto simp: image_reconcile_def intro!: spec_intros)

text \<open>A dry run of any state of this module changes nothing: it sends only \<open>GET\<close> requests and
  logins, whatever drafts, depots and policies the cluster has.\<close>

theorem vlcm_dry_run_reads_only:
  assumes "test_mode opts"
  shows "keeps (sends_only vcenter_read) (vcf_esxi_vlcm_depot_configured opts name da) \<and>
    keeps (sends_only vcenter_read) (vcf_esxi_vlcm_depot_synced opts name p kw) \<and>
    keeps (sends_only vcenter_read) (vcf_esxi_vlcm_image_configured opts name a) \<and>
    keeps (sends_only vcenter_read) (vcf_esxi_vlcm_policy_configured opts name cl spec p) \<and>
    keeps (sends_only vcenter_read) (vlcm_lifecycle_step opts name cl slug label f kw p) \<and>
    keeps (sends_only vcenter_read) (vcf_esxi_vlcm_remediated opts name cl eula p kw) \<and>
    keeps (sends_only vcenter_read) (vcf_esxi_vlcm_reported opts name cl p)"
proof (intro conjI)
  show "keeps (sends_only vcenter_read) (vcf_esxi_vlcm_depot_configured opts name da)"
    using assms by (auto simp: vcf_esxi_vlcm_depot_configured_def Let_def intro!: spec_intros)
  show "keeps (sends_only vcenter_read) (vcf_esxi_vlcm_image_configured opts name a)"
    using assms by (auto simp: vcf_esxi_vlcm_image_configured_def Let_def intro!: spec_intros)
  show "keeps (sends_only vcenter_read) (vcf_esxi_vlcm_policy_configured opts name cl spec p)"
    using assms by (auto simp: vcf_esxi_vlcm_policy_configured_def Let_def intro!: spec_intros)
qed (use assms in \<open>auto simp: vcf_esxi_vlcm_depot_synced_def vlcm_lifecycle_step_def
  vcf_esxi_vlcm_remediated_def vcf_esxi_vlcm_reported_def intro!: spec_intros\<close>)

definition example_spec :: pyval where
  "example_spec = PDict [(''base_image'', PDict [(''version'', PStr ''9.2'')])]"

definition example_image_args :: image_args where
  "example_image_args = \<lparr>im_cluster_id = PNone, im_image_spec = example_spec, im_display_name = PNone,
     im_existing_draft_action = PStr ''delete'', im_validate = PBool True, im_commit = PBool True,
     im_commit_message = PNone, im_profile = None, im_kwargs = []\<rparr>"

lemma vlcm_dry_run_reads_only_witness:
  "let w = scripted [login_reply, body_reply (PDict []), body_reply (PDict [(''d1'', PDict [])])];
       run = the (vcf_esxi_vlcm_image_configured (opts_test_for ''vcenter'') ''c9'' example_image_args w)
   in (\<exists>r. fst run = Ok r \<and> ret_result r = None) \<and> sends_only vcenter_read w (snd run)"
proof -
  let ?w = "scripted [login_reply, body_reply (PDict []), body_reply (PDict [(''d1'', PDict [])])]"
  let ?m = "vcf_esxi_vlcm_image_configured (opts_test_for ''vcenter'') ''c9'' example_image_args"
  have "case ?m ?w of Some (Ok r, _) \<Rightarrow> ret_result r = None | _ \<Rightarrow> False" by code_simp
  then obtain r w' where run: "?m ?w = Some (Ok r, w')" "ret_result r = None"
    by (auto split: option.splits prod.splits res.splits)
  have "test_mode (opts_test_for ''vcenter'')" by code_simp
  from keepsD [OF vlcm_dry_run_reads_only [OF this, THEN conjunct2, THEN conjunct2, THEN conjunct1] run(1)] run
  show ?thesis by (simp add: Let_def)
qed

subsection \<open>The desired image\<close>

lemma image_existing_draft_fails:
  "image_existing_draft opts ret cl a v d w = Some (Ok (Inl x), w') \<Longrightarrow> ret_result x \<noteq> Some True"
  by (auto simp: image_existing_draft_def elim!: bindM_SomeE tryM_SomeE split: if_splits sum.splits)

lemma image_verified:
  assumes "image_verify opts ret cl a v success w = Some (Ok r, w')" "ret_result r = Some True" "truthy v"
  shows "\<exists>doc u. vlcm_desired_image_get opts cl (im_profile a) w = Some (Ok doc, w') \<and> base_version doc = Ok u \<and> py_eq u v"
  using assms by (auto simp: image_verify_def elim!: bindM_SomeE split: if_splits)

lemma image_apply_verified:
  assumes "image_apply opts ret cl a s old v d st w = Some (Ok r, w')" "ret_result r = Some True"
    and "truthy (im_commit a)" "truthy v"
  shows "\<exists>w1. image_verify opts ret cl a v ((image_changed ret old v)\<lparr>ret_comment :=
      ''cluster '' @ py_str cl @ '' desired image set to '' @ py_str v\<rparr>) w1 = Some (Ok r, w')"
  using assms unfolding image_apply_def Let_def
  by (elim bindM_SomeE) (auto elim!: bindM_SomeE split: if_splits)

lemma image_reconcile_verified:
  assumes run: "image_reconcile opts ret cl a s old v w = Some (Ok r, w')" and ok: "ret_result r = Some True"
    and cv: "truthy (im_commit a)" "truthy v"
  shows "\<exists>w1 doc u. vlcm_desired_image_get opts cl (im_profile a) w1 = Some (Ok doc, w') \<and> base_version doc = Ok u \<and> py_eq u v"
proof -
  from run ok obtain d st w1 where "or_fail ret (image_apply opts ret cl a s old v d st) w1 = Some (Ok r, w')"
    unfolding image_reconcile_def
    by (auto simp: guarded_eq elim!: bindM_SomeE dest: image_existing_draft_fails
        split: if_splits option.splits prod.splits res.splits sum.splits)
  with ok have "image_apply opts ret cl a s old v d st w1 = Some (Ok r, w')"
    by (auto simp: or_fail_def elim!: tryM_SomeE)
  from image_apply_verified [OF this ok cv] image_verified ok cv(2) show ?thesis by blast
qed

text \<open>C9: When the state reports success for a version (and is to commit), the last thing it saw of the
  cluster is a desired image of that very version: read before any change, or read back after the
  commit. A commit that is accepted without moving the version never counts as success.\<close>

theorem vlcm_image_success_verified:
  assumes run: "vcf_esxi_vlcm_image_configured opts name a w = Some (Ok r, w')"
    and ok: "ret_result r = Some True" and "truthy (im_commit a)"
    and spec: "truthy (im_image_spec a)" "base_version (im_image_spec a) = Ok v" "truthy v"
  shows "\<exists>w1 doc u. vlcm_desired_image_get opts (py_or (im_cluster_id a) (PStr name)) (im_profile a) w1
      = Some (Ok doc, w') \<and> base_version doc = Ok u \<and> py_eq u v"
proof -
  let ?cl = "py_or (im_cluster_id a) (PStr name)"
  from run spec ok obtain doc w1 u where get: "vlcm_desired_image_get opts ?cl (im_profile a) w = Some (Ok doc, w1)"
    and u: "base_version doc = Ok u"
    and rest: "py_eq u v \<and> w' = w1 \<or>
      image_reconcile opts (state_ret name) ?cl a (im_image_spec a) u v w1 = Some (Ok r, w')"
    unfolding vcf_esxi_vlcm_image_configured_def Let_def
    by (auto simp: guarded_eq elim!: bindM_SomeE split: if_splits option.splits prod.splits res.splits)
  from rest show ?thesis
    using get u image_reconcile_verified [OF _ ok assms(3) spec(3)] by blast
qed

lemma vlcm_image_success_verified_witness:
  "let w = scripted [login_reply, body_reply example_spec];
       run = the (vcf_esxi_vlcm_image_configured (opts_for ''vcenter'') ''c9'' example_image_args w)
   in \<exists>w1 doc u. vlcm_desired_image_get (opts_for ''vcenter'') (PStr ''c9'') None w1 = Some (Ok doc, snd run) \<and>
        base_version doc = Ok u \<and> py_eq u (PStr ''9.2'')"
proof -
  let ?w = "scripted [login_reply, body_reply example_spec]"
  have run: "map_option fst (vcf_esxi_vlcm_image_configured (opts_for ''vcenter'') ''c9'' example_image_args ?w)
    = Some (Ok (state_ret ''c9''\<lparr>ret_comment := ''cluster c9 desired image already at 9.2''\<rparr>))" by code_simp
  have spec: "truthy (im_image_spec example_image_args)" "base_version (im_image_spec example_image_args) = Ok (PStr ''9.2'')"
    "truthy (PStr ''9.2'')" by code_simp+
  have "truthy (im_commit example_image_args)" by code_simp
  from vlcm_image_success_verified [OF run_result [OF run] _ this spec] show ?thesis
    by (simp add: Let_def example_image_args_def)
qed

text \<open>The state is idempotent: on a cluster that already has the version it reports success
  without changes after one read of the desired image.\<close>

theorem vlcm_image_idempotent:
  assumes "vlcm_pillar_section opts ''image'' = Ok cfg" and "truthy (im_image_spec a)"
    and "base_version (im_image_spec a) = Ok v" "truthy v"
    and get: "vlcm_desired_image_get opts (py_or (im_cluster_id a) (PStr name)) (im_profile a) w = Some (Ok doc, w1)"
    and "base_version doc = Ok u" "py_eq u v"
  shows "vcf_esxi_vlcm_image_configured opts name a w =
      Some (Ok (state_ret name\<lparr>ret_comment := ''cluster '' @ py_str (py_or (im_cluster_id a) (PStr name))
        @ '' desired image already at '' @ py_str v\<rparr>), w1) \<and> sends_only vcenter_read w w1"
  using assms keepsD [OF vlcm_reads(4) get]
  by (simp add: vcf_esxi_vlcm_image_configured_def Let_def guarded_eq)

lemma vlcm_image_idempotent_witness:
  "\<exists>comment w1. vcf_esxi_vlcm_image_configured (opts_for ''vcenter'') ''c9'' example_image_args
      (scripted [login_reply, body_reply example_spec]) = Some (Ok (state_ret ''c9''\<lparr>ret_comment := comment\<rparr>), w1)"
proof -
  let ?o = "opts_for ''vcenter''" and ?w = "scripted [login_reply, body_reply example_spec]"
  have pillar: "vlcm_pillar_section ?o ''image'' = Ok empty_dict" by code_simp
  have spec: "truthy (im_image_spec example_image_args)" "base_version (im_image_spec example_image_args) = Ok (PStr ''9.2'')"
    "truthy (PStr ''9.2'')" by code_simp+
  have get: "map_option fst (vlcm_desired_image_get ?o (py_or (im_cluster_id example_image_args) (PStr ''c9''))
      (im_profile example_image_args) ?w) = Some (Ok example_spec)" by code_simp
  have doc: "base_version example_spec = Ok (PStr ''9.2'')" "py_eq (PStr ''9.2'') (PStr ''9.2'')" by code_simp+
  from vlcm_image_idempotent [OF pillar spec run_result [OF get] doc] show ?thesis by blast
qed

text \<open>With \<open>existing_draft_action\<close> set to \<open>fail\<close> or \<open>reuse\<close> the state never deletes anything,
  drafts of other administrators in particular.\<close>

theorem vlcm_image_keeps_drafts:
  assumes "im_existing_draft_action a \<in> {PStr ''fail'', PStr ''reuse''}"
  shows "keeps (sends_only (\<lambda>rq. \<not> deletes rq)) (vcf_esxi_vlcm_image_configured opts name a)"
proof -
  have draft: "keeps (sends_only (\<lambda>rq. \<not> deletes rq)) (image_existing_draft opts ret cl a v d)" for ret cl v d
    using assms by (auto simp: image_existing_draft_def intro!: spec_intros)
  have "keeps (sends_only (\<lambda>rq. \<not> deletes rq)) (image_apply opts ret cl a s old v d st)" for ret cl s old v d st
    by (auto simp: image_apply_def image_verify_def vlcm_wait_def Let_def intro!: spec_intros)
  with draft show ?thesis
    by (auto simp: vcf_esxi_vlcm_image_configured_def image_reconcile_def Let_def intro!: spec_intros)
qed

lemma vlcm_image_keeps_drafts_witness:
  "let w = scripted [login_reply, body_reply (PDict []), body_reply (PDict [(''d1'', PDict [])]),
         body_reply (PDict [(''base_image'', PDict [(''version'', PStr ''9.1'')])])];
       run = the (vcf_esxi_vlcm_image_configured (opts_for ''vcenter'') ''c9''
         (example_image_args\<lparr>im_existing_draft_action := PStr ''reuse''\<rparr>) w)
   in (\<exists>r. fst run = Ok r \<and> ret_result r = Some False) \<and> sends_only (\<lambda>rq. \<not> deletes rq) w (snd run)"
proof -
  let ?a = "example_image_args\<lparr>im_existing_draft_action := PStr ''reuse''\<rparr>" and ?o = "opts_for ''vcenter''"
  let ?w = "scripted [login_reply, body_reply (PDict []), body_reply (PDict [(''d1'', PDict [])]),
         body_reply (PDict [(''base_image'', PDict [(''version'', PStr ''9.1'')])])]"
  have "case vcf_esxi_vlcm_image_configured ?o ''c9'' ?a ?w of Some (Ok r, _) \<Rightarrow> ret_result r = Some False | _ \<Rightarrow> False"
    by code_simp
  then obtain r w' where run: "vcf_esxi_vlcm_image_configured ?o ''c9'' ?a ?w = Some (Ok r, w')" "ret_result r = Some False"
    by (auto split: option.splits prod.splits res.splits)
  have "im_existing_draft_action ?a \<in> {PStr ''fail'', PStr ''reuse''}" by simp
  from keepsD [OF vlcm_image_keeps_drafts [OF this] run(1)] run show ?thesis by (simp add: Let_def)
qed

text \<open>Without \<open>commit\<close> the state sends no commit, yet when it goes through it reports the new version
  as set, with the same changes and comment as after a commit.\<close>

theorem vlcm_image_uncommitted_reported:
  assumes "\<not> truthy (im_commit a)" and "draft_id \<noteq> PNone"
    and "image_apply opts ret cl a spec old new draft_id settings w = Some (Ok r, w')"
  shows "sends_only (\<lambda>rq. rq_params rq \<noteq> vmw_task [(''action'', PStr ''commit'')]) w w' \<and>
    ret_changes r = PDict [(''base_image_version'', PDict [(''old'', old), (''new'', new)])] \<and>
    ret_comment r = ''cluster '' @ py_str cl @ '' desired image set to '' @ py_str new"
proof
  let ?P = "\<lambda>rq. rq_params rq \<noteq> vmw_task [(''action'', PStr ''commit'')]"
  have other: "?P rq" if "is_vcenter_login rq \<or> rq_params rq = PNone" for rq
    using that by (auto simp: is_vcenter_login_def vmw_task_def)
  have wait: "keeps (sends_only ?P) (vlcm_wait opts x st p)" for x st p
    by (auto simp: vlcm_wait_def vlcm_wait_for_task_def vcenter_wait_for_task_def vcenter_task_round_def
        vcenter_task_lookup_def vcenter_call_def intro!: spec_intros other)
  have validate: "keeps (sends_only ?P) (vlcm_draft_validate opts cl d p)" for d p
    by (auto simp: vlcm_draft_validate_def vmw_task_def vcenter_call_def is_vcenter_login_def intro!: spec_intros)
  have "keeps (sends_only ?P) (image_apply opts ret cl a spec old new draft_id settings)"
    using assms(1,2) by (auto simp: image_apply_def Let_def simp del: run_simps intro!: spec_intros wait validate)
  from keepsD [OF this assms(3)] show "sends_only ?P w w'" .
  show "ret_changes r = PDict [(''base_image_version'', PDict [(''old'', old), (''new'', new)])] \<and>
    ret_comment r = ''cluster '' @ py_str cl @ '' desired image set to '' @ py_str new"
    using assms by (auto simp: image_apply_def image_changed_def Let_def elim!: bindM_SomeE split: if_splits)
qed

lemma vlcm_image_uncommitted_reported_witness:
  "let a = example_image_args\<lparr>im_commit := PBool False, im_validate := PBool False\<rparr>;
       run = the (image_apply (opts_for ''vcenter'') (state_ret ''c9'') (PStr ''c9'') a example_spec PNone (PStr ''9.2'')
         (PStr ''d1'') (PInt 60, PInt 10) (scripted []))
   in (\<exists>r. fst run = Ok r \<and> ret_result r = Some True \<and> ret_comment r = ''cluster c9 desired image set to 9.2'') \<and>
      sent (snd run) = []"
proof -
  let ?a = "example_image_args\<lparr>im_commit := PBool False, im_validate := PBool False\<rparr>"
  let ?run = "image_apply (opts_for ''vcenter'') (state_ret ''c9'') (PStr ''c9'') ?a example_spec PNone (PStr ''9.2'')
         (PStr ''d1'') (PInt 60, PInt 10) (scripted [])"
  have "case ?run of Some (Ok r, w') \<Rightarrow> ret_result r = Some True \<and> sent w' = [] | _ \<Rightarrow> False" by code_simp
  then obtain r w' where run: "?run = Some (Ok r, w')" "ret_result r = Some True" "sent w' = []"
    by (auto split: option.splits prod.splits res.splits)
  have a: "\<not> truthy (im_commit ?a)" "PStr ''d1'' \<noteq> PNone" by simp_all
  from vlcm_image_uncommitted_reported [OF a run(1)] run show ?thesis by (simp add: Let_def)
qed

subsection \<open>Policy and depots\<close>

lemma policy_diff_merged:
  assumes "wf_py (PDict items)"
  shows "policy_diff items (PDict (dupdate c items)) = Ok []"
proof -
  from assms have d: "distinct (map fst items)" and v: "\<And>k v. (k, v) \<in> set items \<Longrightarrow> wf_py v" by auto
  have "py_eq (dget (dupdate c items) k PNone) v" if "(k, v) \<in> set items" for k v
    using that d by (simp add: dget_def map_of_dupdate map_add_def py_eq_refl [OF v])
  then show ?thesis by (auto simp: policy_diff_def filter_empty_conv)
qed

text \<open>Once the server has taken the keys of the policy over - whatever other keys it keeps or adds -
  the state is a no-op: success without changes after one read.\<close>

theorem vlcm_policy_converges:
  assumes "wf_py (PDict items)" and "items \<noteq> []"
    and get: "vlcm_apply_policy_get opts (py_or cl (PStr name)) p w = Some (Ok (PDict (dupdate c items)), w1)"
  shows "vcf_esxi_vlcm_policy_configured opts name cl (PDict items) p w =
      Some (Ok (state_ret name\<lparr>ret_comment :=
        ''cluster '' @ py_str (py_or cl (PStr name)) @ '' apply policy already matches''\<rparr>), w1)
    \<and> sends_only vcenter_read w w1"
proof -
  have "dupdate c items \<noteq> []"
  proof
    assume empty: "dupdate c items = []"
    obtain k v xs where "items = (k, v) # xs" using \<open>items \<noteq> []\<close> by (cases items) auto
    then have "map_of items k = Some v" by simp
    then have "map_of (dupdate c items) k = Some v"
      using assms(1) by (simp add: map_of_dupdate)
    with empty show False by simp
  qed
  then have "py_or (PDict (dupdate c items)) empty_dict = PDict (dupdate c items)"
    by (simp add: py_or_def)
  then show ?thesis
    using get \<open>items \<noteq> []\<close> keepsD [OF vlcm_reads(8) get]
    by (simp add: vcf_esxi_vlcm_policy_configured_def Let_def guarded_eq policy_items_def
        policy_diff_merged [OF assms(1)])
qed

lemma vlcm_policy_converges_witness:
  "map_option fst (vcf_esxi_vlcm_policy_configured (opts_for ''vcenter'') ''c9'' PNone (PDict [(''dpm'', PBool False)]) None
     (scripted [login_reply, body_reply (PDict [(''ha'', PInt 1), (''dpm'', PBool False)])]))
   = Some (Ok (state_ret ''c9''\<lparr>ret_comment := ''cluster c9 apply policy already matches''\<rparr>))"
proof -
  let ?i = "[(''dpm'', PBool False)]" and ?c = "[(''ha'', PInt 1), (''dpm'', PBool True)]"
  have items: "wf_py (PDict ?i)" "?i \<noteq> []" by simp_all
  have get: "map_option fst (vlcm_apply_policy_get (opts_for ''vcenter'') (py_or PNone (PStr ''c9'')) None
      (scripted [login_reply, body_reply (PDict [(''ha'', PInt 1), (''dpm'', PBool False)])]))
    = Some (Ok (PDict (dupdate ?c ?i)))" by code_simp
  from vlcm_policy_converges [OF items run_result [OF get]] show ?thesis by simp
qed

text \<open>Where vCenter lists the offline depots as a map from depot id to depot (the shape that
  \<open>_first_draft_id\<close> handles for drafts), the state fails as soon as there is one depot: its loop runs
  over the ids and asks a string for its location. It neither finds nor creates the depot.\<close>

theorem vlcm_depot_map_listing_fails:
  assumes "vlcm_pillar_section opts (py_str (py_or (da_depot_type a) (PStr ''offline'')) @ ''_depot'') = Ok cfg"
    and "py_or (da_depot_type a) (PStr ''offline'') \<noteq> PStr ''online''" and "truthy (da_location a)"
    and "vlcm_offline_depot_list opts (da_profile a) w = Some (Ok (PDict ((k, v) # depots)), w1)"
  shows "vcf_esxi_vlcm_depot_configured opts name a w =
    Some (Ok (state_fail (state_ret name) (AttributeError
      (repr_str ''str'' @ '' object has no attribute '' @ repr_str ''get''))), w1)"
  using assms
  by (simp add: vcf_esxi_vlcm_depot_configured_def depot_match_def Let_def guarded_eq bindM_def attr_error_def py_get_def)

lemma vlcm_depot_map_listing_fails_witness:
  "let a = \<lparr>da_depot_type = PNone, da_location = PStr ''http://x.zip'', da_source_type = PNone, da_enabled = PBool True,
         da_description = PNone, da_ownerdata = PNone, da_profile = None, da_kwargs = []\<rparr>;
       run = the (vcf_esxi_vlcm_depot_configured (opts_for ''vcenter'') ''d'' a
         (scripted [login_reply, body_reply (PDict [(''7'', PDict [(''location'', PStr ''http://x.zip'')])])]))
   in \<exists>r. fst run = Ok r \<and> ret_result r = Some False"
proof -
  let ?a = "\<lparr>da_depot_type = PNone, da_location = PStr ''http://x.zip'', da_source_type = PNone, da_enabled = PBool True,
         da_description = PNone, da_ownerdata = PNone, da_profile = None, da_kwargs = []\<rparr>"
  let ?o = "opts_for ''vcenter''"
  let ?w = "scripted [login_reply, body_reply (PDict [(''7'', PDict [(''location'', PStr ''http://x.zip'')])])]"
  have cfg: "vlcm_pillar_section ?o (py_str (py_or (da_depot_type ?a) (PStr ''offline'')) @ ''_depot'') = Ok empty_dict"
    by code_simp
  have offline: "py_or (da_depot_type ?a) (PStr ''offline'') \<noteq> PStr ''online''" "truthy (da_location ?a)" by simp_all
  have got: "map_option fst (vlcm_offline_depot_list ?o (da_profile ?a) ?w)
    = Some (Ok (PDict [(''7'', PDict [(''location'', PStr ''http://x.zip'')])]))" by code_simp
  from vlcm_depot_map_listing_fails [OF cfg offline run_result [OF got]] show ?thesis by (simp add: Let_def)
qed

subsection \<open>Termination\<close>

lemma image_apply_returns:
  assumes "0 < sleep_ms (snd st)" shows "returns (image_apply opts ret cl a s old v d st)"
proof -
  have "returns (vlcm_wait opts r st p)" for r p
    using assms by (simp add: vlcm_wait_def vlcm_wait_returns)
  then show ?thesis
    by (auto simp: image_apply_def image_verify_def Let_def intro!: spec_intros)
qed

lemma image_existing_draft_returns [spec_intros]: "returns (image_existing_draft opts ret cl a v d)"
  by (auto simp: image_existing_draft_def intro!: spec_intros)

lemma vlcm_step_returns:
  assumes st: "vlcm_task_settings opts kw = Ok st" and i: "0 < sleep_ms (snd st)" and f: "\<And>c. returns (f c)"
  shows "returns (vlcm_lifecycle_step opts name cl slug label f kw p)"
proof -
  have "returns (vlcm_wait opts r st p)" for r p
    using i by (simp add: vlcm_wait_def vlcm_wait_returns)
  then show ?thesis
    using f unfolding vlcm_lifecycle_step_def Let_def st bindM_laws
    by (intro spec_intros)
qed

text \<open>The states that wait for a task come to an end for every vCenter when the poll interval of
  their task settings is positive.\<close>

theorem vlcm_states_terminate:
  assumes st: "vlcm_task_settings opts kw = Ok (t, PInt n)" and "0 < n" and "im_kwargs a = kw"
  shows "(\<exists>r w'. vcf_esxi_vlcm_image_configured opts name a w = Some (r, w')) \<and>
    (\<exists>r w'. vcf_esxi_vlcm_compliance_checked opts name cl cm hs p kw w = Some (r, w')) \<and>
    (\<exists>r w'. vcf_esxi_vlcm_prechecked opts name cl cm p kw w = Some (r, w')) \<and>
    (\<exists>r w'. vcf_esxi_vlcm_staged opts name cl cm hs p kw w = Some (r, w'))"
proof (intro conjI returnsD)
  have i: "0 < sleep_ms (snd (t, PInt n))" using assms by simp
  have "returns (image_reconcile opts ret cluster a s c v)" for ret cluster s c v
    using image_apply_returns [OF i] unfolding image_reconcile_def assms(3) st bindM_laws
    by (intro spec_intros)
  then show "returns (vcf_esxi_vlcm_image_configured opts name a)"
    by (auto simp: vcf_esxi_vlcm_image_configured_def Let_def intro!: spec_intros)
  note step = vlcm_step_returns [OF st i]
  show "returns (vcf_esxi_vlcm_compliance_checked opts name cl cm hs p kw)"
    "returns (vcf_esxi_vlcm_prechecked opts name cl cm p kw)"
    "returns (vcf_esxi_vlcm_staged opts name cl cm hs p kw)"
    unfolding vcf_esxi_vlcm_compliance_checked_def vcf_esxi_vlcm_prechecked_def vcf_esxi_vlcm_staged_def
    by (intro step spec_intros)+
qed

lemma vlcm_states_terminate_witness:
  "\<exists>r w'. vcf_esxi_vlcm_image_configured (opts_for ''vcenter'') ''c9'' example_image_args (scripted []) = Some (r, w')"
proof -
  have st: "vlcm_task_settings (opts_for ''vcenter'') [] = Ok (PInt 14400, PInt 30)" by code_simp
  have kw: "im_kwargs example_image_args = []" by (simp add: example_image_args_def)
  show ?thesis using vlcm_states_terminate [OF st _ kw] by simp
qed

end
