(* ===== verification/Installer.thy ===== *)
theory Installer
  imports Scenario
begin

section \<open>Installer: \<open>utils/installer.py\<close>\<close>

text \<open>
  The VCF Installer helper: sessions with a Bearer token, cached per host and user in
  \<open>_SESSION_CACHE\<close> (\<open>Installer_Cache\<close>), and \<open>_request\<close>, which logs in again once when
  the appliance answers 401.
\<close>

definition installer_get_config :: "pyval \<Rightarrow> profile \<Rightarrow> conn_config res" where
  "installer_get_config opts profile =
     bindR (product_section ''vcf_installer'' opts profile) (\<lambda>cfg.
     bindR (get_or cfg ''host'' ''hostname'') (\<lambda>host.
     bindR (py_get cfg ''username'' PNone) (\<lambda>u.
     bindR (if truthy u then Ok u else py_get cfg ''user'' (PStr ''admin@local'')) (\<lambda>username.
     bindR (py_get cfg ''password'' PNone) (\<lambda>password.
     bindR (py_get cfg ''verify_ssl'' (PBool True)) (\<lambda>verify.
     Ok \<lparr>cfg_host = host, cfg_username = username, cfg_password = password,
         cfg_verify_ssl = verify\<rparr>))))))"

definition installer_login_rq :: "pyval \<Rightarrow> pyval \<Rightarrow> pyval \<Rightarrow> pyval \<Rightarrow> request" where
  "installer_login_rq host username password verify =
     plain_request ''POST'' (https_url host ''/v1/tokens'')
       (PDict [(''username'', username), (''password'', password)]) PNone [] PNone verify (PInt 30)"

definition installer_login :: "pyval \<Rightarrow> pyval \<Rightarrow> pyval \<Rightarrow> pyval \<Rightarrow> pyval io" where
  "installer_login host username password verify =
     token_request (installer_login_rq host username password verify) (\<lambda>body. py_item body ''accessToken'')"

definition installer_bearer :: "pyval \<Rightarrow> pyval \<Rightarrow> session" where
  "installer_bearer verify token =
     session_with verify [(''Authorization'', PStr (''Bearer '' @ py_str token))]"

definition installer_open_session :: "conn_config \<Rightarrow> cached io" where
  "installer_open_session cfg =
     bindM (installer_login (cfg_host cfg) (cfg_username cfg) (cfg_password cfg) (cfg_verify_ssl cfg))
       (\<lambda>token. pureM (CSession (installer_bearer (cfg_verify_ssl cfg) token)))"

definition installer_deliver :: "conn_config \<Rightarrow> cached \<Rightarrow> session \<times> pyval" where
  "installer_deliver cfg c = (session_of c, cfg_host cfg)"

definition installer_session :: "pyval \<Rightarrow> profile \<Rightarrow> (session \<times> pyval) io" where
  "installer_session =
     cached_login installer_get_config Installer_Cache host_user_key installer_open_session installer_deliver"

definition installer_invalidate_session :: "pyval \<Rightarrow> profile \<Rightarrow> unit io" where
  "installer_invalidate_session = drop_login installer_get_config Installer_Cache host_user_key"

text \<open>\<open>session.request\<close> on the cached session, in \<open>_request\<close>.\<close>

definition installer_send ::
  "string \<Rightarrow> pyval \<Rightarrow> string \<Rightarrow> pyval \<Rightarrow> pyval \<Rightarrow> profile \<Rightarrow> http_response io" where
  "installer_send meth opts path params body profile =
     bindM (liftR (installer_get_config opts profile)) (\<lambda>cfg.
     bindM (installer_session opts profile) (\<lambda>(session, host).
     shared_request Installer_Cache (host_user_key cfg) session meth (https_url host path) params body (PInt 30)))"

definition installer_request ::
  "string \<Rightarrow> pyval \<Rightarrow> string \<Rightarrow> pyval \<Rightarrow> pyval \<Rightarrow> profile \<Rightarrow> pyval io" where
  "installer_request meth opts path params body profile =
     bindM (installer_send meth opts path params body profile) (\<lambda>resp.
     bindM (if status_code resp = 401 then
              bindM (installer_invalidate_session opts profile) (\<lambda>_.
              installer_send meth opts path params body profile)
            else pureM resp) (\<lambda>resp.
     bindM (raise_for_status resp) (\<lambda>_. json_or_empty resp)))"

definition installer_api_get :: "pyval \<Rightarrow> string \<Rightarrow> pyval \<Rightarrow> profile \<Rightarrow> pyval io" where
  "installer_api_get opts path params profile = installer_request ''GET'' opts path params PNone profile"

definition installer_api_post :: "pyval \<Rightarrow> string \<Rightarrow> pyval \<Rightarrow> pyval \<Rightarrow> profile \<Rightarrow> pyval io" where
  "installer_api_post opts path body params profile = installer_request ''POST'' opts path params body profile"

definition installer_api_patch :: "pyval \<Rightarrow> string \<Rightarrow> pyval \<Rightarrow> profile \<Rightarrow> pyval io" where
  "installer_api_patch opts path body profile = installer_request ''PATCH'' opts path PNone body profile"

definition installer_api_put :: "pyval \<Rightarrow> string \<Rightarrow> pyval \<Rightarrow> profile \<Rightarrow> pyval io" where
  "installer_api_put opts path body profile = installer_request ''PUT'' opts path PNone body profile"

definition installer_api_delete :: "pyval \<Rightarrow> string \<Rightarrow> profile \<Rightarrow> pyval io" where
  "installer_api_delete opts path profile = installer_request ''DELETE'' opts path PNone PNone profile"

lemmas installer_api_defs = installer_api_get_def installer_api_post_def installer_api_patch_def
  installer_api_put_def installer_api_delete_def

lemma installer_open_cacheless: "cacheless installer_open_session"
  by unfold_locales (auto simp: installer_open_session_def installer_login_def intro!: spec_intros)

interpretation installer: login_cache installer_session installer_invalidate_session installer_get_config
  Installer_Cache host_user_key "\<lambda>_ _. True" installer_deliver
  unfolding installer_session_def installer_invalidate_session_def
  by (rule cached_login_contract [OF installer_open_cacheless])

lemma installer_send_rules [spec_intros]:
  "returns (installer_send m opts path q b p)" "keeps evolves (installer_send m opts path q b p)"
  by (auto simp: installer_send_def intro!: spec_intros installer.total installer.advances)

lemma installer_request_rules [spec_intros]:
  "returns (installer_request m opts path q b p)" "keeps evolves (installer_request m opts path q b p)"
  by (auto simp: installer_request_def installer_invalidate_session_def intro!: spec_intros)

lemma installer_api_rules [spec_intros]:
  "returns (installer_api_get opts path q p)" "returns (installer_api_post opts path b q p)"
  "returns (installer_api_patch opts path b p)" "returns (installer_api_put opts path b p)"
  "returns (installer_api_delete opts path p)"
  by (auto simp: installer_api_defs intro!: spec_intros)

text \<open>A call changes only the cache of this helper.\<close>

lemma installer_send_only [spec_intros]: "keeps (only_cache Installer_Cache) (installer_send m opts path q b p)"
  using cached_login_only [OF installer_open_cacheless]
  by (auto simp: installer_send_def installer_session_def intro!: spec_intros)

lemma installer_request_only [spec_intros]:
  "keeps (only_cache Installer_Cache) (installer_request m opts path q b p)"
  by (auto simp: installer_request_def installer_invalidate_session_def intro!: spec_intros)

subsection \<open>The retry after a 401\<close>

lemma installer_session_unauthorized:
  "keeps (sends_only (\<lambda>rq. \<not> authorized rq)) (installer_session opts p)"
  by (auto simp: installer_session_def installer_open_session_def installer_login_def installer_login_rq_def
      intro!: spec_intros)

lemma installer_send_once: "at_most authorized 1 (installer_send m opts path q b p)"
  unfolding installer_send_def
  by (intro at_most_after [OF at_most_none [OF installer_session_unauthorized]]
      at_most_after [OF at_most_none [of authorized "liftR r" for r]] at_most_session at_most_cases)
    (auto intro!: spec_intros)

lemma installer_request_twice: "at_most authorized 2 (installer_request m opts path q b p)"
  unfolding installer_request_def
  by (intro at_most_two at_most_retried at_most_response installer_send_once at_most_after)
    (auto simp: installer_invalidate_session_def intro!: at_most_none spec_intros)

lemma installer_send_hit:
  assumes "installer_get_config opts p = Ok cfg" "cache_get Installer_Cache (host_user_key cfg) w = Some (CSession s)"
  shows "installer_send m opts path q b p w =
    shared_request Installer_Cache (host_user_key cfg) s m (https_url (cfg_host cfg) path) q b (PInt 30) w"
  using assms
  by (simp add: installer_send_def installer_session_def cached_login_hit installer_deliver_def)

lemma installer_send_miss:
  assumes "installer_get_config opts p = Ok cfg" "cache_get Installer_Cache (host_user_key cfg) w = None"
    and "installer_send m opts path q b p w = Some (Ok r, w')"
  shows "\<exists>token. sent w' = sent w @
    [installer_login_rq (cfg_host cfg) (cfg_username cfg) (cfg_password cfg) (cfg_verify_ssl cfg),
     session_rq (installer_bearer (cfg_verify_ssl cfg) token) m (https_url (cfg_host cfg) path) q b [] (PInt 30)]"
proof -
  from assms obtain x w1 where login: "installer_session opts p w = Some (Ok x, w1)"
    and send: "shared_request Installer_Cache (host_user_key cfg) (fst x) m (https_url (snd x) path) q b (PInt 30) w1
      = Some (Ok r, w')"
    by (auto simp: installer_send_def bindM_Some_iff)
  from login [unfolded installer_session_def] assms(1,2) obtain c w2
    where "installer_open_session cfg w = Some (Ok c, w2)" and w1: "sent w1 = sent w2"
      and x: "x = installer_deliver cfg c"
    by (rule cached_login_missE) auto
  then obtain token where "c = CSession (installer_bearer (cfg_verify_ssl cfg) token)"
    and "sent w2 = sent w @
      [installer_login_rq (cfg_host cfg) (cfg_username cfg) (cfg_password cfg) (cfg_verify_ssl cfg)]"
    by (auto simp: installer_open_session_def installer_login_def bindM_Some_iff dest: token_request_sent)
  with shared_request_sent [OF send] w1 x show ?thesis by (auto simp: installer_deliver_def)
qed

text \<open>C11: A successful request on a cached session is one exchange, unless the appliance answers
  401: then the cached session is dropped, one login with the configured credentials follows, and
  the same request goes out once more with the new token.\<close>

theorem installer_retry:
  assumes cfg: "installer_get_config opts p = Ok cfg"
    and hit: "cache_get Installer_Cache (host_user_key cfg) w = Some (CSession s)"
    and rq: "rq = (\<lambda>s. session_rq s m (https_url (cfg_host cfg) path) q b [] (PInt 30))"
    and reply: "net w (clock w) (sent w @ [rq s]) = Reply d resp"
    and run: "installer_request m opts path q b p w = Some (Ok x, w')"
  shows "if status_code resp = 401
    then \<exists>token. sent w' = sent w @ [rq s,
      installer_login_rq (cfg_host cfg) (cfg_username cfg) (cfg_password cfg) (cfg_verify_ssl cfg),
      rq (installer_bearer (cfg_verify_ssl cfg) token)]
    else sent w' = sent w @ [rq s]"
proof -
  let ?key = "host_user_key cfg"
  let ?w1 = "cache_upd Installer_Cache ?key (Some (CSession (s\<lparr>s_cookies := dupdate (s_cookies s) (rs_cookies resp)\<rparr>)))
    (w\<lparr>sent := sent w @ [rq s], clock := clock w + int d\<rparr>)"
  have first: "installer_send m opts path q b p w = Some (Ok resp, ?w1)"
    using reply by (simp add: installer_send_hit [OF cfg hit] shared_request_def session_send_def rq
        http_send_def bindM_def)
  have tail: "sent w' = sent w1" if "bindM (raise_for_status r) (\<lambda>_. json_or_empty r) w1 = Some (Ok x, w')" for r w1
    using that by (auto simp: bindM_Some_iff dest!: raise_for_status_Ok json_or_empty_Ok)
  show ?thesis
  proof (cases "status_code resp = 401")
    case True
    let ?w2 = "cache_upd Installer_Cache ?key None ?w1"
    have "bindM (bindM (installer_invalidate_session opts p) (\<lambda>_. installer_send m opts path q b p))
        (\<lambda>r. bindM (raise_for_status r) (\<lambda>_. json_or_empty r)) ?w1 = Some (Ok x, w')"
      using run True by (simp add: installer_request_def first)
    then obtain r w3 where again: "installer_send m opts path q b p ?w2 = Some (Ok r, w3)"
      and end_of_run: "bindM (raise_for_status r) (\<lambda>_. json_or_empty r) w3 = Some (Ok x, w')"
      by (auto simp: bindM_assoc installer_invalidate_session_def drop_login_def cfg elim!: bindM_SomeE)
    from installer_send_miss [OF cfg _ again] tail [OF end_of_run] True show ?thesis
      by (auto simp: rq)
  next
    case False
    then have "bindM (raise_for_status resp) (\<lambda>_. json_or_empty resp) ?w1 = Some (Ok x, w')"
      using run by (simp add: installer_request_def first)
    from tail [OF this] False show ?thesis by simp
  qed
qed

lemma installer_retry_witness:
  "let w = cache_upd Installer_Cache ''h:u'' (Some (CSession (installer_bearer (PBool True) (PStr ''old''))))
         (scripted [code_reply 401, body_reply (PDict [(''accessToken'', PStr ''new'')]), body_reply (PInt 7)]);
       run = the (installer_request ''GET'' (opts_for ''vcf_installer'') ''/v1/x'' PNone PNone None w)
   in fst run = Ok (PInt 7) \<and> length (sent (snd run)) = 3"
proof -
  let ?w = "cache_upd Installer_Cache ''h:u'' (Some (CSession (installer_bearer (PBool True) (PStr ''old''))))
         (scripted [code_reply 401, body_reply (PDict [(''accessToken'', PStr ''new'')]), body_reply (PInt 7)])"
  let ?m = "installer_request ''GET'' (opts_for ''vcf_installer'') ''/v1/x'' PNone PNone None"
  let ?cfg = "\<lparr>cfg_host = PStr ''h'', cfg_username = PStr ''u'', cfg_password = PStr ''p'', cfg_verify_ssl = PBool True\<rparr>"
  have run: "map_option fst (?m ?w) = Some (Ok (PInt 7))" by code_simp
  have cfg: "installer_get_config (opts_for ''vcf_installer'') None = Ok ?cfg" by code_simp
  have hit: "cache_get Installer_Cache (host_user_key ?cfg) ?w =
    Some (CSession (installer_bearer (PBool True) (PStr ''old'')))" by (simp add: host_user_key_def)
  have reply: "net ?w (clock ?w) (sent ?w @ [rq]) = Reply 5 (text_response 401 ''error'')" for rq
    by (simp add: scripted_def script_net_def code_reply_def replies_def)
  from installer_retry [OF cfg hit refl reply run_result [OF run]] run show ?thesis
    by (auto simp: Let_def text_response_def scripted_def)
qed

end
