(* ===== verification/Builtins.thy ===== *)
theory Builtins
  imports Program_Logic "HOL-Library.List_Lexorder" "HOL-Library.Char_ord" "HOL-Library.Multiset"
begin

section \<open>Builtins: sorted, comparisons, dicts with any key\<close>

text \<open>
  What the clients use of the language beyond \<open>Runtime\<close>.
\<close>

subsection \<open>Functions and operators of Python the code applies to values\<close>

text \<open>
  \<open>sorted(xs)\<close> of strings (by code point) or of numbers; \<open>TypeError\<close> where two elements cannot be
  compared. Lists of lists are never sorted by the code and are taken as incomparable.
\<close>

definition str_of :: "pyval \<Rightarrow> string" where
  "str_of v = (case v of PStr s \<Rightarrow> s | _ \<Rightarrow> [])"

definition num_of :: "pyval \<Rightarrow> int" where
  "num_of v = (case py_num v of Some i \<Rightarrow> i | None \<Rightarrow> 0)"

definition py_sorted :: "pyval list \<Rightarrow> pyval list res" where
  "py_sorted xs =
     (case xs of
        [] \<Rightarrow> Ok xs
      | [x] \<Rightarrow> Ok xs
      | x # y # ys \<Rightarrow>
          if list_all is_str xs then Ok (sort_key str_of xs)
          else if list_all (\<lambda>v. py_num v \<noteq> None) xs then Ok (sort_key num_of xs)
          else Exc (TypeError (repr_str ''<'' @ '' not supported between instances of '' @ repr_str (type_name y)
            @ '' and '' @ repr_str (type_name x))))"

lemma py_sorted_strings: "py_sorted (map PStr ss) = Ok (map PStr (sort ss))"
proof -
  have key: "sort_key str_of (map PStr ss) = map PStr (sort ss)" for ss
  proof -
    have "insort_key str_of (PStr s) (map PStr ts) = map PStr (insort s ts)" for s ts
      by (induction ts) (auto simp: str_of_def)
    then show ?thesis by (induction ss) auto
  qed
  consider "ss = []" | s where "ss = [s]" | s t us where "ss = s # t # us"
    by (metis list.exhaust)
  then show ?thesis
  proof cases
    case 3
    have "list_all is_str (map PStr ss)" by (simp add: list_all_iff)
    then show ?thesis using key [of ss] unfolding py_sorted_def 3 by simp
  qed (simp_all add: py_sorted_def)
qed

text \<open>The order of the arguments does not matter to \<open>sorted\<close>: equal results are the same multiset.\<close>

lemma sort_same_elements: "sort ss = sort ts \<Longrightarrow> mset ss = mset (ts :: string list)"
  by (metis mset_sort)

text \<open>\<open>dict(v)\<close>: a copy of a dict, or the dict of a sequence of pairs.\<close>

fun pairs_dict :: "nat \<Rightarrow> pyval list \<Rightarrow> dict \<Rightarrow> dict res" where
  "pairs_dict i [] d = Ok d"
| "pairs_dict i (x # xs) d =
     (case py_iter x of
        Exc e \<Rightarrow> Exc (TypeError (''cannot convert dictionary update sequence element #'' @ int_str (int i) @ '' to a sequence''))
      | Ok [PStr k, v] \<Rightarrow> pairs_dict (Suc i) xs (dset d k v)
      | Ok ys \<Rightarrow> Exc (ValueError (''dictionary update sequence element #'' @ int_str (int i) @ '' has length ''
          @ int_str (int (length ys)) @ ''; 2 is required'')))"

definition py_dict :: "pyval \<Rightarrow> dict res" where
  "py_dict v = (case v of PDict d \<Rightarrow> Ok d | _ \<Rightarrow> bindR (py_iter v) (\<lambda>xs. pairs_dict 0 xs []))"

lemma py_dict_simps [simp]: "py_dict (PDict d) = Ok d" "py_dict (PList []) = Ok []"
  by (simp_all add: py_dict_def)

text \<open>\<open>x in v\<close>: an element of a list, a key of a dict, a part of a string.\<close>

definition py_in :: "pyval \<Rightarrow> pyval \<Rightarrow> bool res" where
  "py_in x v =
     (case v of
        PList ys \<Rightarrow> Ok (list_ex (py_eq x) ys)
      | PDict d \<Rightarrow>
          if is_list x \<or> is_dict x then Exc (TypeError (''unhashable type: '' @ repr_str (type_name x)))
          else Ok (case x of PStr k \<Rightarrow> map_of d k \<noteq> None | _ \<Rightarrow> False)
      | PStr s \<Rightarrow>
          (case x of
             PStr t \<Rightarrow> Ok (contains s t)
           | _ \<Rightarrow> Exc (TypeError (repr_str ''in <string>'' @ '' requires string as left operand, not '' @ type_name x)))
      | _ \<Rightarrow> Exc (TypeError (''argument of type '' @ repr_str (type_name v) @ '' is not iterable'')))"

text \<open>An em dash, as UTF-8.\<close>

definition em_dash :: string where "em_dash = [CHR 0xE2, CHR 0x80, CHR 0x94]"

text \<open>\<open>[f(x) for x in xs]\<close> where \<open>f\<close> may raise.\<close>

fun mapR :: "('a \<Rightarrow> 'b res) \<Rightarrow> 'a list \<Rightarrow> 'b list res" where
  "mapR f [] = Ok []"
| "mapR f (x # xs) = bindR (f x) (\<lambda>y. bindR (mapR f xs) (\<lambda>ys. Ok (y # ys)))"

lemma mapR_Ok: "(\<And>x. x \<in> set xs \<Longrightarrow> f x = Ok (g x)) \<Longrightarrow> mapR f xs = Ok (map g xs)"
  by (induction xs) auto

lemma mapR_iff: "mapR f xs = Ok ys \<longleftrightarrow> list_all2 (\<lambda>x y. f x = Ok y) xs ys"
proof (induction xs arbitrary: ys)
  case (Cons x xs)
  then show ?case by (cases ys) (auto simp: bindR_eq_Ok)
qed auto

text \<open>\<open>[x for x in xs if p(x)]\<close> where the test may raise.\<close>

fun filterR :: "('a \<Rightarrow> bool res) \<Rightarrow> 'a list \<Rightarrow> 'a list res" where
  "filterR p [] = Ok []"
| "filterR p (x # xs) = bindR (p x) (\<lambda>b. bindR (filterR p xs) (\<lambda>ys. Ok (if b then x # ys else ys)))"

lemma filterR_Ok: "(\<And>x. x \<in> set xs \<Longrightarrow> p x = Ok (q x)) \<Longrightarrow> filterR p xs = Ok (filter q xs)"
  by (induction xs) auto

text \<open>\<open>a <= b\<close> and \<open>a >= b\<close> on numbers and on strings.\<close>

definition py_order ::
  "string \<Rightarrow> (int \<Rightarrow> int \<Rightarrow> bool) \<Rightarrow> (string \<Rightarrow> string \<Rightarrow> bool) \<Rightarrow> pyval \<Rightarrow> pyval \<Rightarrow> bool res" where
  "py_order op nums strs a b =
     (case (py_num a, py_num b) of
        (Some i, Some j) \<Rightarrow> Ok (nums i j)
      | _ \<Rightarrow>
          if is_str a \<and> is_str b then Ok (strs (str_of a) (str_of b))
          else Exc (TypeError (repr_str op @ '' not supported between instances of '' @ repr_str (type_name a)
            @ '' and '' @ repr_str (type_name b))))"

definition py_le :: "pyval \<Rightarrow> pyval \<Rightarrow> bool res" where
  "py_le = py_order ''<='' (\<le>) (\<le>)"

definition py_ge :: "pyval \<Rightarrow> pyval \<Rightarrow> bool res" where
  "py_ge = py_order ''>='' (\<ge>) (\<ge>)"

lemma py_order_ints [simp]: "py_le (PInt i) (PInt j) = Ok (i \<le> j)" "py_ge (PInt i) (PInt j) = Ok (i \<ge> j)"
  by (simp_all add: py_le_def py_ge_def py_order_def)

text \<open>\<open>s.splitlines()\<close> and \<open>s.split(c, n)\<close>.\<close>

definition line_break :: "char \<Rightarrow> bool" where
  "line_break c = (let n = of_char c :: nat in 10 \<le> n \<and> n \<le> 13 \<or> 28 \<le> n \<and> n \<le> 30 \<or> n = 133)"

fun splitlines :: "string \<Rightarrow> string list" where
  "splitlines [] = []"
| "splitlines (c # s) =
     (if line_break c then [] # (case s of d # t \<Rightarrow> if c = CHR 0x0D \<and> d = CHR 0x0A then splitlines t else splitlines s | [] \<Rightarrow> [])
      else (case splitlines s of [] \<Rightarrow> [[c]] | l # ls \<Rightarrow> (c # l) # ls))"

fun split_max :: "char \<Rightarrow> nat \<Rightarrow> string \<Rightarrow> string list" where
  "split_max c 0 s = [s]"
| "split_max c (Suc n) s =
     (if c \<in> set s then takeWhile (\<lambda>x. x \<noteq> c) s # split_max c n (tl (dropWhile (\<lambda>x. x \<noteq> c) s)) else [s])"

lemma split_max_cons: "c \<notin> set a \<Longrightarrow> split_max c (Suc n) (a @ c # s) = a # split_max c n s"
  by (simp add: takeWhile_append dropWhile_append)

lemma splitlines_line:
  assumes "list_all (\<lambda>c. \<not> line_break c) l"
  shows "splitlines (l @ CHR 0x0A # s) = l # splitlines s"
  using assms by (induction l) (auto simp: line_break_def split: list.splits)

subsection \<open>Python dicts whose keys are any hashable value\<close>

text \<open>
  The dicts the code builds itself over identifiers that came from a response, where a key may be
  \<open>None\<close>: association lists in insertion order, keys compared as Python compares them.
\<close>

type_synonym 'a kdict = "(pyval \<times> 'a) list"

text \<open>A list or a dict has no hash.\<close>

definition hashed :: "pyval \<Rightarrow> pyval res" where
  "hashed v =
     (if is_list v \<or> is_dict v then Exc (TypeError (''unhashable type: '' @ repr_str (type_name v))) else Ok v)"

fun kget :: "pyval \<Rightarrow> 'a kdict \<Rightarrow> 'a option" where
  "kget k [] = None"
| "kget k ((q, x) # d) = (if py_eq q k then Some x else kget k d)"

text \<open>\<open>d.setdefault(k, x)\<close> with what is then done to the value, and \<open>d[k] = x\<close>.\<close>

fun kupd :: "pyval \<Rightarrow> 'a \<Rightarrow> ('a \<Rightarrow> 'a) \<Rightarrow> 'a kdict \<Rightarrow> 'a kdict" where
  "kupd k x f [] = [(k, f x)]"
| "kupd k x f ((q, y) # d) = (if py_eq q k then (q, f y) # d else (q, y) # kupd k x f d)"

definition kset :: "pyval \<Rightarrow> 'a \<Rightarrow> 'a kdict \<Rightarrow> 'a kdict" where
  "kset k x d = kupd k x (\<lambda>_. x) d"

text \<open>\<open>d.get(k)\<close> where the key may have no hash.\<close>

definition kfind :: "pyval \<Rightarrow> pyval kdict \<Rightarrow> pyval res" where
  "kfind k d = bindR (hashed k) (\<lambda>k. Ok (case kget k d of Some x \<Rightarrow> x | None \<Rightarrow> PNone))"

text \<open>\<open>{e[key]: e.get(value) for e in es}\<close>.\<close>

fun index_by :: "string \<Rightarrow> string \<Rightarrow> pyval list \<Rightarrow> pyval kdict \<Rightarrow> pyval kdict res" where
  "index_by key value [] d = Ok d"
| "index_by key value (e # es) d =
     bindR (py_item e key) (\<lambda>k. bindR (py_get e value PNone) (\<lambda>x. bindR (hashed k) (\<lambda>k.
     index_by key value es (kset k x d))))"

text \<open>An update at one key adds what the change adds, in every measure of the values.\<close>

lemma kupd_measure:
  fixes g :: "'a \<Rightarrow> 'm::comm_monoid_add"
  assumes "\<And>y. g (f y) = g y + c" "g x = 0"
  shows "sum_list (map (g \<circ> snd) (kupd k x f d)) = sum_list (map (g \<circ> snd) d) + c"
  using assms by (induction d) (auto simp: add.assoc add.commute add.left_commute)

lemma kupd_keys: "(q, y) \<in> set (kupd k x f d) \<Longrightarrow> q = k \<or> (\<exists>z. (q, z) \<in> set d)"
  by (induction d) (auto split: if_splits)

end
