(* ===== verification/Rest_Client.thy ===== *)
theory Rest_Client
  imports Scenario Builtins Salt_State
begin

section \<open>Rest_Client: what the REST client modules share\<close>

text \<open>
  Idioms the client modules write inline: the dict comprehension that leaves out the arguments
  that are \<open>None\<close>, the elements of a listing, membership in a set of strings, and the loops that
  read an object until it has come to an end.
\<close>

text \<open>\<open>{k: v for k, v in d.items() if v is not None}\<close>.\<close>

definition given :: "dict \<Rightarrow> dict" where
  "given d = filter (\<lambda>(k, v). v \<noteq> PNone) d"

text \<open>\<open>body.get(key) or []\<close>, as what a \<open>for\<close> loop runs over.\<close>

definition listed :: "string \<Rightarrow> pyval \<Rightarrow> pyval list res" where
  "listed key body = bindR (py_get body key PNone) (\<lambda>xs. py_iter (py_or xs (PList [])))"

lemma given_lookup: "distinct (map fst d) \<Longrightarrow> map_of (given d) k = (if map_of d k = Some PNone then None else map_of d k)"
  unfolding given_def by (induction d) (auto simp: map_of_eq_None_iff image_iff split: option.splits)

lemma given_never_none: "(k, v) \<in> set (given d) \<Longrightarrow> v \<noteq> PNone"
  by (auto simp: given_def)

text \<open>\<open>v in {...}\<close> for a set of strings: a list or a dict has no hash.\<close>

definition in_set :: "pyval \<Rightarrow> string list \<Rightarrow> bool res" where
  "in_set v ss =
     (if is_list v \<or> is_dict v then Exc (TypeError (''unhashable type: '' @ repr_str (type_name v)))
      else Ok (in_strs v ss))"

lemma in_set_Ok: "in_set v ss = Ok b \<Longrightarrow> b = in_strs v ss"
  by (simp add: in_set_def split: if_splits)

text \<open>\<open>sep.join(xs)\<close>.\<close>

fun join_error :: "nat \<Rightarrow> pyval list \<Rightarrow> exn option" where
  "join_error i [] = None"
| "join_error i (x # xs) =
     (if is_str x then join_error (Suc i) xs
      else Some (TypeError (''sequence item '' @ int_str (int i) @ '': expected str instance, '' @ type_name x @ '' found'')))"

definition py_join :: "string \<Rightarrow> pyval list \<Rightarrow> string res" where
  "py_join sep xs = (case join_error 0 xs of None \<Rightarrow> Ok (join_with sep (map py_str xs)) | Some e \<Rightarrow> Exc e)"

lemma py_join_strs [simp]: "py_join sep (map PStr ss) = Ok (join_with sep ss)"
proof -
  have "join_error i (map PStr ss) = None" for i
    by (induction ss arbitrary: i) auto
  then show ?thesis by (simp add: py_join_def comp_def)
qed

text \<open>\<open>v.upper()\<close>.\<close>

definition upper_char :: "char \<Rightarrow> char" where
  "upper_char c =
     (let n = of_char c :: nat in if 97 \<le> n \<and> n \<le> 122 then char_of (n - 32) else c)"

definition py_upper :: "pyval \<Rightarrow> string res" where
  "py_upper v = (case v of PStr s \<Rightarrow> Ok (map upper_char s) | _ \<Rightarrow> Exc (attr_error v ''upper''))"

subsection \<open>Waiting for an object\<close>

text \<open>The end of a round: \<open>if time.monotonic() >= deadline: raise TimeoutError\<close>, then the sleep.\<close>

definition pause_until :: "string \<Rightarrow> int \<Rightarrow> int \<Rightarrow> ('a + unit) io" where
  "pause_until message deadline poll_interval =
     bindM monotonic (\<lambda>t.
     if t \<ge> deadline then raiseM (TimeoutError message)
     else bindM (sleep (secs poll_interval)) (\<lambda>_. pureM (Inr ())))"

text \<open>
  A round reads the object; \<open>ended\<close> says whether it is done (or raises), \<open>message\<close> is that of the
  \<open>TimeoutError\<close>. Times are whole seconds.
\<close>

definition poll_round ::
  "'a io \<Rightarrow> ('a \<Rightarrow> bool res) \<Rightarrow> ('a \<Rightarrow> string) \<Rightarrow> int \<Rightarrow> int \<Rightarrow> unit \<Rightarrow> ('a + unit) io" where
  "poll_round fetch ended message poll_interval deadline u =
     bindM fetch (\<lambda>v.
     bindM (liftR (ended v)) (\<lambda>e.
     if e then pureM (Inl v) else pause_until (message v) deadline poll_interval))"

definition poll_for :: "'a io \<Rightarrow> ('a \<Rightarrow> bool res) \<Rightarrow> ('a \<Rightarrow> string) \<Rightarrow> int \<Rightarrow> int \<Rightarrow> 'a io" where
  "poll_for fetch ended message timeout poll_interval =
     bindM monotonic (\<lambda>t. loopM (poll_round fetch ended message poll_interval (t + secs timeout)) ())"

lemma pause_until_rules [spec_intros]:
  "returns (pause_until m dl i)" "keeps evolves (pause_until m dl i)" "keeps (sends_only P) (pause_until m dl i)"
  by (auto simp: pause_until_def intro!: spec_intros)

lemma pause_until_Ok:
  "pause_until m dl i w = Some (Ok s, w') \<longleftrightarrow>
     s = Inr () \<and> clock w < dl \<and> 0 \<le> secs i \<and> w' = w\<lparr>clock := clock w + secs i\<rparr>"
  by (auto simp: pause_until_def sleep_def bindM_def)

lemma poll_round_rules [spec_intros]:
  "returns fetch \<Longrightarrow> returns (poll_round fetch e m i dl u)"
  "keeps evolves fetch \<Longrightarrow> keeps evolves (poll_round fetch e m i dl u)"
  "keeps (sends_only P) fetch \<Longrightarrow> keeps (sends_only P) (poll_round fetch e m i dl u)"
  unfolding poll_round_def by (auto intro!: spec_intros)

lemma poll_round_Ok:
  assumes "poll_round fetch e m i dl u w = Some (Ok s, w')" "keeps evolves fetch"
  obtains v where "fetch w = Some (Ok v, w')" "e v = Ok True" "s = Inl v"
  | "s = Inr ()" "clock w < dl" "clock w + secs i \<le> clock w'"
proof -
  have advance: "clock w \<le> clock w1" if "fetch w = Some (Ok v, w1)" for v w1
    using that assms(2) by (rule evolves_clock [rotated])
  from assms(1) show thesis
    unfolding poll_round_def
    by (auto simp: bindM_Some_iff pause_until_Ok split: if_splits intro: that(1))
      (frule advance, auto intro!: that(2))
qed

lemma polling_poll_round:
  assumes "returns fetch" "keeps evolves fetch"
  shows "polling (poll_round fetch e m i dl) (\<lambda>_ w. clock w) dl (secs i)"
  by (rule polling_clockI [OF poll_round_rules(1) [OF assms(1)]]) (auto elim!: poll_round_Ok [OF _ assms(2)])

lemma poll_for_rules [spec_intros]:
  "keeps evolves fetch \<Longrightarrow> keeps evolves (poll_for fetch e m t i)"
  "keeps (sends_only P) fetch \<Longrightarrow> keeps (sends_only P) (poll_for fetch e m t i)"
  by (auto simp: poll_for_def intro!: spec_intros)

text \<open>What was waited for was read last, and had ended; with a positive interval the wait comes to an end.\<close>

lemma poll_for_Ok:
  assumes "poll_for fetch e m t i w = Some (Ok v, w')" "keeps evolves fetch"
  shows "\<exists>w1. fetch w1 = Some (Ok v, w') \<and> e v = Ok True"
proof -
  from assms(1) obtain dl where "loopM (poll_round fetch e m i dl) () w = Some (Ok v, w')"
    by (auto simp: poll_for_def)
  then have "case Ok v of Ok v \<Rightarrow> \<exists>w1. fetch w1 = Some (Ok v, w') \<and> e v = Ok True | Exc _ \<Rightarrow> True"
    by (rule loopM_rule [where I = "\<lambda>_ _. True"]) (auto elim!: poll_round_Ok [OF _ assms(2)])
  then show ?thesis by simp
qed

lemma poll_for_returns:
  assumes "returns fetch" "keeps evolves fetch" "0 < i"
  shows "returns (poll_for fetch e m t i)"
  using polling.terminates [OF polling_poll_round [OF assms(1,2)]] assms(3)
  unfolding poll_for_def returns_def secs_def by fastforce

subsection \<open>Waiting for an upgrade\<close>

text \<open>
  The waits that compare with \<open>time.monotonic() > deadline\<close>; the clock counts whole milliseconds, so that
  is reached one after the deadline.
\<close>

definition poll_past :: "'a io \<Rightarrow> ('a \<Rightarrow> bool res) \<Rightarrow> ('a \<Rightarrow> string) \<Rightarrow> int \<Rightarrow> int \<Rightarrow> 'a io" where
  "poll_past fetch ended message timeout poll_interval =
     bindM monotonic (\<lambda>t. loopM (poll_round fetch ended message poll_interval (t + secs timeout + 1)) ())"

text \<open>\<open>(rec.get(key) or rec.get("status") or "").upper()\<close>, and what its value says.\<close>

definition upgrade_state :: "string \<Rightarrow> pyval \<Rightarrow> string res" where
  "upgrade_state key rec =
     bindR (py_get rec key PNone) (\<lambda>a.
     bindR (py_get rec ''status'' PNone) (\<lambda>b. py_upper (py_or a (py_or b (PStr [])))))"

definition upgrade_ended :: "string \<Rightarrow> string list \<Rightarrow> string list \<Rightarrow> string \<Rightarrow> pyval \<Rightarrow> bool res" where
  "upgrade_ended key good bad failure rec =
     bindR (upgrade_state key rec) (\<lambda>st.
     if st \<in> set good then Ok True
     else if st \<in> set bad then Exc (RuntimeError (failure @ '' terminal failure: '' @ st))
     else Ok False)"

definition upgrade_still :: "string \<Rightarrow> string \<Rightarrow> int \<Rightarrow> pyval \<Rightarrow> string" where
  "upgrade_still key what timeout rec =
     what @ '' did not finish within '' @ int_str timeout @ ''s (last state: '' @
       (case upgrade_state key rec of Ok st \<Rightarrow> repr_str st | Exc _ \<Rightarrow> []) @ '')''"

lemma poll_past_rules [spec_intros]:
  "keeps evolves fetch \<Longrightarrow> keeps evolves (poll_past fetch e m t i)"
  "keeps (sends_only P) fetch \<Longrightarrow> keeps (sends_only P) (poll_past fetch e m t i)"
  by (auto simp: poll_past_def intro!: spec_intros)

lemma poll_past_Ok:
  assumes "poll_past fetch e m t i w = Some (Ok v, w')" "keeps evolves fetch"
  shows "\<exists>w1. fetch w1 = Some (Ok v, w') \<and> e v = Ok True"
proof -
  from assms(1) obtain dl where "loopM (poll_round fetch e m i dl) () w = Some (Ok v, w')"
    by (auto simp: poll_past_def)
  then have "case Ok v of Ok v \<Rightarrow> \<exists>w1. fetch w1 = Some (Ok v, w') \<and> e v = Ok True | Exc _ \<Rightarrow> True"
    by (rule loopM_rule [where I = "\<lambda>_ _. True"]) (auto elim!: poll_round_Ok [OF _ assms(2)])
  then show ?thesis by simp
qed

lemma poll_past_returns:
  assumes "returns fetch" "keeps evolves fetch" "0 < i"
  shows "returns (poll_past fetch e m t i)"
  using polling.terminates [OF polling_poll_round [OF assms(1,2)]] assms(3)
  unfolding poll_past_def returns_def secs_def by fastforce

lemma upgrade_ended_True:
  "upgrade_ended key good bad failure rec = Ok True \<longleftrightarrow> (\<exists>st. upgrade_state key rec = Ok st \<and> st \<in> set good)"
  by (auto simp: upgrade_ended_def bindR_eq_Ok)

end
