(* ===== verification/Installer_Bringup.thy ===== *)
theory Installer_Bringup
  imports Installer Rest_Client Salt_State Scenario
begin

section \<open>Installer_Bringup: the bringup of an SDDC\<close>

text \<open>
  Client and states \<open>installer_bringup.py\<close>.
\<close>

subsection \<open>\<open>clients/installer_bringup.py\<close>\<close>

text \<open>
  The bringup of a management domain through the installer: validation of the specification,
  submission, state of a task, and the two waits. \<open>timeout\<close> and \<open>poll_interval\<close> are whole seconds.
\<close>


subsubsection \<open>Validation\<close>

definition bringup_VALIDATIONS :: string where "bringup_VALIDATIONS = ''/v1/sddcs/validations''"

definition bringup_SDDCS :: string where "bringup_SDDCS = ''/v1/sddcs''"

text \<open>The states in which a task still runs.\<close>

definition bringup_active :: "pyval \<Rightarrow> bool" where
  "bringup_active state = in_strs state [''IN_PROGRESS'', ''PENDING'', ''QUEUED'']"

definition bringup_validate :: "pyval \<Rightarrow> pyval \<Rightarrow> profile \<Rightarrow> pyval io" where
  "bringup_validate opts spec profile = installer_api_post opts bringup_VALIDATIONS spec PNone profile"

definition bringup_validation_status :: "pyval \<Rightarrow> pyval \<Rightarrow> profile \<Rightarrow> pyval io" where
  "bringup_validation_status opts validation_id profile =
     installer_api_get opts (bringup_VALIDATIONS @ ''/'' @ py_str validation_id) PNone profile"

definition bringup_validation_status_or_none :: "pyval \<Rightarrow> pyval \<Rightarrow> profile \<Rightarrow> pyval io" where
  "bringup_validation_status_or_none opts validation_id profile =
     none_if_missing (bringup_validation_status opts validation_id profile)"

definition bringup_list_validations :: "pyval \<Rightarrow> profile \<Rightarrow> pyval io" where
  "bringup_list_validations opts profile = installer_api_get opts bringup_VALIDATIONS PNone profile"

definition validation_round ::
  "pyval \<Rightarrow> pyval \<Rightarrow> int \<Rightarrow> int \<Rightarrow> profile \<Rightarrow> int \<Rightarrow> unit \<Rightarrow> (pyval + unit) io" where
  "validation_round opts validation_id timeout poll_interval profile deadline u =
     bindM (bringup_validation_status opts validation_id profile) (\<lambda>info.
     bindM (liftR (get_or info ''executionStatus'' ''status'')) (\<lambda>exec_state.
     if \<not> bringup_active exec_state then
       bindM (liftR (get_or info ''resultStatus'' ''status'')) (\<lambda>result.
       if \<not> in_strs result [''SUCCEEDED'', ''COMPLETED'', ''PASSED''] then
         raiseM (RuntimeError (''validation '' @ py_str validation_id @ '' ended '' @ py_repr result
           @ '': '' @ py_str info))
       else pureM (Inl info))
     else
       pause_until (''validation '' @ py_str validation_id @ '' did not complete in ''
         @ int_str timeout @ ''s'') deadline poll_interval))"

definition bringup_wait_validation :: "pyval \<Rightarrow> pyval \<Rightarrow> int \<Rightarrow> int \<Rightarrow> profile \<Rightarrow> pyval io" where
  "bringup_wait_validation opts validation_id timeout poll_interval profile =
     bindM monotonic (\<lambda>t.
     loopM (validation_round opts validation_id timeout poll_interval profile (t + secs timeout)) ())"

subsubsection \<open>Submission\<close>

definition bringup_submit :: "pyval \<Rightarrow> pyval \<Rightarrow> profile \<Rightarrow> pyval io" where
  "bringup_submit opts spec profile = installer_api_post opts bringup_SDDCS spec PNone profile"

definition bringup_status :: "pyval \<Rightarrow> pyval \<Rightarrow> profile \<Rightarrow> pyval io" where
  "bringup_status opts sddc_id profile =
     installer_api_get opts (bringup_SDDCS @ ''/'' @ py_str sddc_id) PNone profile"

definition bringup_status_or_none :: "pyval \<Rightarrow> pyval \<Rightarrow> profile \<Rightarrow> pyval io" where
  "bringup_status_or_none opts sddc_id profile = none_if_missing (bringup_status opts sddc_id profile)"

definition bringup_list :: "pyval \<Rightarrow> profile \<Rightarrow> pyval io" where
  "bringup_list opts profile = installer_api_get opts bringup_SDDCS PNone profile"

definition bringup_retry :: "pyval \<Rightarrow> pyval \<Rightarrow> profile \<Rightarrow> pyval io" where
  "bringup_retry opts sddc_id profile =
     installer_api_patch opts (bringup_SDDCS @ ''/'' @ py_str sddc_id) (PDict [(''action'', PStr ''RETRY'')]) profile"

definition bringup_done :: "pyval \<Rightarrow> bool" where
  "bringup_done state = in_strs state [''COMPLETED_WITH_SUCCESS'', ''SUCCEEDED'', ''COMPLETED'']"

definition bringup_round ::
  "pyval \<Rightarrow> pyval \<Rightarrow> int \<Rightarrow> int \<Rightarrow> profile \<Rightarrow> int \<Rightarrow> unit \<Rightarrow> (pyval + unit) io" where
  "bringup_round opts sddc_id timeout poll_interval profile deadline u =
     bindM (bringup_status opts sddc_id profile) (\<lambda>info.
     bindM (liftR (py_get info ''status'' PNone)) (\<lambda>state.
     if \<not> bringup_active state then
       (if \<not> bringup_done state then
          raiseM (RuntimeError (''bringup '' @ py_str sddc_id @ '' ended '' @ py_repr state @ '': '' @ py_str info))
        else pureM (Inl info))
     else
       pause_until (''bringup '' @ py_str sddc_id @ '' did not complete in '' @ int_str timeout @ ''s'')
         deadline poll_interval))"

definition bringup_wait :: "pyval \<Rightarrow> pyval \<Rightarrow> int \<Rightarrow> int \<Rightarrow> profile \<Rightarrow> pyval io" where
  "bringup_wait opts sddc_id timeout poll_interval profile =
     bindM monotonic (\<lambda>t.
     loopM (bringup_round opts sddc_id timeout poll_interval profile (t + secs timeout)) ())"

subsubsection \<open>What the client does to the world\<close>

lemmas bringup_gets_defs = bringup_validation_status_def bringup_validation_status_or_none_def
  bringup_list_validations_def bringup_status_def bringup_status_or_none_def bringup_list_def none_if_missing_def

text \<open>A read of the installer: a \<open>GET\<close> or a login.\<close>

definition installer_read :: "request \<Rightarrow> bool" where
  "installer_read rq \<longleftrightarrow> rq_method rq = ''GET'' \<or> \<not> authorized rq"

lemma installer_get_reads [spec_intros]: "keeps (sends_only installer_read) (installer_api_get opts path q p)"
proof -
  have "keeps (sends_only installer_read) (installer_session opts p)"
    using installer_session_unauthorized by (rule keeps_mono) (auto simp: installer_read_def intro: sends_only_mono)
  then show ?thesis
    by (auto simp: installer_api_get_def installer_request_def installer_send_def installer_invalidate_session_def
        installer_read_def session_rq_def intro!: spec_intros)
qed

lemma installer_get_evolves [spec_intros]: "keeps evolves (installer_api_get opts path q p)"
  by (auto simp: installer_api_get_def intro!: spec_intros)

lemma bringup_rounds_rules [spec_intros]:
  "returns (validation_round opts v t i p dl u)" "keeps evolves (validation_round opts v t i p dl u)"
  "keeps (sends_only installer_read) (validation_round opts v t i p dl u)"
  "returns (bringup_round opts v t i p dl u)" "keeps evolves (bringup_round opts v t i p dl u)"
  "keeps (sends_only installer_read) (bringup_round opts v t i p dl u)"
  unfolding validation_round_def bringup_round_def bringup_gets_defs
  by (auto intro!: spec_intros)

lemma validation_round_Ok:
  assumes "validation_round opts v t i p dl u w = Some (Ok s, w')"
  obtains info w1 result where "bringup_validation_status opts v p w = Some (Ok info, w1)"
    "get_or info ''resultStatus'' ''status'' = Ok result" "in_strs result [''SUCCEEDED'', ''COMPLETED'', ''PASSED'']"
    "s = Inl info" "w' = w1"
  | "s = Inr ()" "clock w < dl" "clock w + secs i \<le> clock w'"
proof -
  have advance: "clock w \<le> clock w1" if "bringup_validation_status opts v p w = Some (Ok info, w1)" for info w1
    using that installer_get_evolves unfolding bringup_validation_status_def by (rule evolves_clock [rotated])
  from assms show thesis
    unfolding validation_round_def
    by (auto simp: bindM_Some_iff pause_until_Ok split: if_splits intro: that(1))
      (frule advance, auto intro!: that(2))+
qed

lemma bringup_round_Ok:
  assumes "bringup_round opts v t i p dl u w = Some (Ok s, w')"
  obtains info w1 where "bringup_status opts v p w = Some (Ok (PDict info), w1)"
    "bringup_done (dget info ''status'' PNone)" "s = Inl (PDict info)" "w' = w1"
  | "s = Inr ()" "clock w < dl" "clock w + secs i \<le> clock w'"
proof -
  have advance: "clock w \<le> clock w1" if "bringup_status opts v p w = Some (Ok info, w1)" for info w1
    using that installer_get_evolves unfolding bringup_status_def by (rule evolves_clock [rotated])
  from assms show thesis
    unfolding bringup_round_def
    by (auto simp: bindM_Some_iff pause_until_Ok py_get_Ok split: if_splits intro: that(1))
      (frule advance, auto intro!: that(2))+
qed

interpretation valwait: polling "validation_round opts v t i p dl" "\<lambda>_ w. clock w" dl "secs i"
  for opts v t i p dl
  by (rule polling_clockI [OF bringup_rounds_rules(1)]) (auto elim: validation_round_Ok)

interpretation bringwait: polling "bringup_round opts v t i p dl" "\<lambda>_ w. clock w" dl "secs i"
  for opts v t i p dl
  by (rule polling_clockI [OF bringup_rounds_rules(4)]) (auto elim: bringup_round_Ok)

lemma bringup_waits_return:
  assumes "0 < i"
  shows "returns (bringup_wait opts v t i p)" "returns (bringup_wait_validation opts v t i p)"
  using bringwait.terminates [of i] valwait.terminates [of i] assms
  unfolding bringup_wait_def bringup_wait_validation_def returns_def secs_def by fastforce+

lemma bringup_waits_rules [spec_intros]:
  "keeps (sends_only installer_read) (bringup_wait opts v t i p)" "keeps evolves (bringup_wait opts v t i p)"
  "keeps (sends_only installer_read) (bringup_wait_validation opts v t i p)"
  "keeps evolves (bringup_wait_validation opts v t i p)"
  by (auto simp: bringup_wait_def bringup_wait_validation_def intro!: spec_intros)

text \<open>What the waits return was just reported by the installer.\<close>

lemma bringup_round_evolves: "keeps evolves (bringup_round opts v t i p dl u)"
  by (intro spec_intros)

lemma bringup_wait_Ok:
  assumes "bringup_wait opts v t i p w = Some (Ok x, w')"
  shows "\<exists>info w1. x = PDict info \<and> bringup_done (dget info ''status'' PNone) \<and>
    evolves w w1 \<and> bringup_status opts v p w1 = Some (Ok x, w')"
proof -
  from assms obtain dl where "loopM (bringup_round opts v t i p dl) () w = Some (Ok x, w')"
    by (auto simp: bringup_wait_def)
  then have "case Ok x of Ok x \<Rightarrow> \<exists>info w1. x = PDict info \<and> bringup_done (dget info ''status'' PNone) \<and>
    evolves w w1 \<and> bringup_status opts v p w1 = Some (Ok x, w') | Exc _ \<Rightarrow> True"
  proof (rule loopM_rule [where I = "\<lambda>_. evolves w"])
    show "evolves w w2" if "evolves w w1" and "bringup_round opts v t i p dl u w1 = Some (Ok (Inr u'), w2)" for u w1 u' w2
      using that keepsD [OF bringup_round_evolves that(2)] by (blast intro: ev.trans_step)
  qed (auto elim!: bringup_round_Ok intro: ev.refl_step)
  then show ?thesis by simp
qed

lemma bringup_wait_validation_Ok:
  assumes "bringup_wait_validation opts v t i p w = Some (Ok x, w')"
  shows "\<exists>w1 result. get_or x ''resultStatus'' ''status'' = Ok result \<and>
    in_strs result [''SUCCEEDED'', ''COMPLETED'', ''PASSED''] \<and>
    bringup_validation_status opts v p w1 = Some (Ok x, w')"
proof -
  from assms obtain dl where "loopM (validation_round opts v t i p dl) () w = Some (Ok x, w')"
    by (auto simp: bringup_wait_validation_def)
  then have "case Ok x of Ok x \<Rightarrow> \<exists>w1 result. get_or x ''resultStatus'' ''status'' = Ok result \<and>
    in_strs result [''SUCCEEDED'', ''COMPLETED'', ''PASSED''] \<and>
    bringup_validation_status opts v p w1 = Some (Ok x, w') | Exc _ \<Rightarrow> True"
    by (rule loopM_rule [where I = "\<lambda>_ _. True"]) (auto elim!: validation_round_Ok)
  then show ?thesis by simp
qed

text \<open>With a cached session the request itself goes out first.\<close>

lemma installer_request_first:
  assumes cfg: "installer_get_config opts p = Ok cfg"
    and hit: "cache_get Installer_Cache (host_user_key cfg) w = Some (CSession s)"
    and run: "bindM (installer_request m opts path q b p) k w = Some (r, w')" and k: "\<And>x. keeps evolves (k x)"
  shows "\<exists>later. sent w' = sent w @ session_rq s m (https_url (cfg_host cfg) path) q b [] (PInt 30) # later"
proof -
  have eq: "bindM (installer_send m opts path q b p) f w =
      bindM (shared_request Installer_Cache (host_user_key cfg) s m (https_url (cfg_host cfg) path) q b (PInt 30)) f w"
    for f :: "http_response \<Rightarrow> 'b io"
    by (simp add: bindM_def installer_send_hit [OF cfg hit])
  note run [unfolded installer_request_def bindM_assoc eq]
  then show ?thesis
    unfolding shared_request_def session_send_def bindM_assoc
    by (rule first_request_sent) (auto simp: installer_invalidate_session_def simp del: run_simps intro!: spec_intros k)
qed

subsection \<open>Vcf_Installer_Bringup: \<open>states/vcf_installer_bringup.py\<close>\<close>

text \<open>
  The states \<open>validated\<close> and \<open>complete\<close>: the specification passes the installer's validation, and
  the management domain has been brought up, without a second bringup next to a running one.
\<close>


subsubsection \<open>The tasks of the installer\<close>

text \<open>The first task that still runs, else the first one.\<close>

fun first_active :: "pyval list \<Rightarrow> pyval option res" where
  "first_active [] = Ok None"
| "first_active (t # ts) =
     bindR (py_get t ''status'' PNone) (\<lambda>s. if bringup_active s then Ok (Some t) else first_active ts)"

definition pick_task :: "pyval list \<Rightarrow> pyval res" where
  "pick_task ts = bindR (first_active ts) (\<lambda>found. Ok (case found of Some t \<Rightarrow> t | None \<Rightarrow> ts ! 0))"

definition find_active_sddc :: "pyval \<Rightarrow> profile \<Rightarrow> pyval io" where
  "find_active_sddc opts profile =
     bindM (tryM (bringup_list opts profile) (\<lambda>_. pureM PNone)) (\<lambda>tasks.
     if \<not> truthy tasks then pureM PNone
     else liftR (bindR (py_iter tasks) pick_task))"

subsubsection \<open>The states\<close>

text \<open>\<open>try: final = wait  except (TimeoutError, RuntimeError) as exc:\<close> a failed return, and the rest.\<close>

definition wait_failure :: "exn \<Rightarrow> bool" where
  "wait_failure exc = (case exc of TimeoutError _ \<Rightarrow> True | RuntimeError _ \<Rightarrow> True | _ \<Rightarrow> False)"

definition waited :: "salt_ret \<Rightarrow> string \<Rightarrow> pyval io \<Rightarrow> (pyval \<Rightarrow> salt_ret io) \<Rightarrow> salt_ret io" where
  "waited ret label =
     caught wait_failure
       (\<lambda>exc. ret\<lparr>ret_result := Some False, ret_comment := label @ '' failed: '' @ exn_str exc\<rparr>)"

definition vcf_installer_bringup_validated ::
  "pyval \<Rightarrow> string \<Rightarrow> pyval \<Rightarrow> pyval \<Rightarrow> int \<Rightarrow> profile \<Rightarrow> salt_ret io" where
  "vcf_installer_bringup_validated opts name spec wait timeout profile =
     bindM (bringup_validate opts spec profile) (\<lambda>val.
     bindM (liftR (py_get val ''id'' PNone)) (\<lambda>val_id.
     let ret = (state_ret name)\<lparr>ret_changes := PDict [(''validation_id'', val_id)]\<rparr>;
         label = ''validation '' @ py_str val_id in
     if \<not> truthy wait then pureM (ret\<lparr>ret_comment := label @ '' submitted''\<rparr>)
     else if test_mode opts then
       pureM (ret\<lparr>ret_result := None, ret_comment := ''would wait for '' @ label\<rparr>)
     else
       waited ret label (bringup_wait_validation opts val_id timeout 10 profile) (\<lambda>final.
       bindM (liftR (py_get final ''resultStatus'' PNone)) (\<lambda>result.
       pureM (ret\<lparr>ret_comment := label @ '' succeeded: '' @ py_str result\<rparr>)))))"

text \<open>The branch of \<open>complete\<close> for a task that the installer already has.\<close>

definition bringup_existing ::
  "pyval \<Rightarrow> salt_ret \<Rightarrow> pyval \<Rightarrow> pyval \<Rightarrow> int \<Rightarrow> profile \<Rightarrow> salt_ret io" where
  "bringup_existing opts ret existing wait timeout profile =
     bindM (liftR (py_get existing ''status'' PNone)) (\<lambda>state.
     bindM (liftR (py_get existing ''id'' PNone)) (\<lambda>id.
     let label = ''bringup '' @ py_str id in
     if bringup_done state then pureM (ret\<lparr>ret_comment := label @ '' already complete''\<rparr>)
     else if bringup_active state then
       (if test_mode opts then
          pureM (ret\<lparr>ret_result := None, ret_comment := label @ '' in progress; would wait''\<rparr>)
        else if \<not> truthy wait then pureM (ret\<lparr>ret_comment := label @ '' in progress''\<rparr>)
        else
          waited ret label (bringup_wait opts id timeout 60 profile) (\<lambda>final.
          bindM (liftR (py_get final ''status'' PNone)) (\<lambda>status.
          pureM (ret\<lparr>ret_changes := PDict [(''sddc_id'', id), (''status'', status)],
            ret_comment := ''bringup completed''\<rparr>))))
     else
       pureM (ret\<lparr>ret_result := Some False,
         ret_comment := ''prior '' @ label @ '' ended '' @ py_repr state @ ''; manual retry required''\<rparr>)))"

definition bringup_start ::
  "pyval \<Rightarrow> salt_ret \<Rightarrow> pyval \<Rightarrow> pyval \<Rightarrow> int \<Rightarrow> profile \<Rightarrow> salt_ret io" where
  "bringup_start opts ret spec wait timeout profile =
     bindM (bringup_submit opts spec profile) (\<lambda>submitted.
     bindM (liftR (py_get submitted ''id'' PNone)) (\<lambda>id.
     let label = ''bringup '' @ py_str id; ret = ret\<lparr>ret_changes := PDict [(''sddc_id'', id)]\<rparr> in
     if \<not> truthy wait then pureM (ret\<lparr>ret_comment := label @ '' submitted''\<rparr>)
     else
       waited ret label (bringup_wait opts id timeout 60 profile) (\<lambda>final.
       bindM (liftR (py_get final ''status'' PNone)) (\<lambda>status.
       pureM (ret\<lparr>ret_changes := PDict [(''sddc_id'', id), (''status'', status)],
         ret_comment := label @ '' completed''\<rparr>)))))"

definition vcf_installer_bringup_complete ::
  "pyval \<Rightarrow> string \<Rightarrow> pyval \<Rightarrow> pyval \<Rightarrow> int \<Rightarrow> pyval \<Rightarrow> profile \<Rightarrow> salt_ret io" where
  "vcf_installer_bringup_complete opts name spec wait timeout validate_first profile =
     (let ret = state_ret name in
     bindM (find_active_sddc opts profile) (\<lambda>existing.
     if existing \<noteq> PNone then bringup_existing opts ret existing wait timeout profile
     else if test_mode opts then
       pureM (ret\<lparr>ret_result := None, ret_comment := ''would validate and submit bringup''\<rparr>)
     else
       bindM (if truthy validate_first then
                vcf_installer_bringup_validated opts (name @ ''/validate'') spec (PBool True) 1800 profile
              else pureM ret) (\<lambda>v_result.
       if truthy validate_first \<and> ret_result v_result \<noteq> Some True then pureM v_result
       else bringup_start opts ret spec wait timeout profile)))"

subsubsection \<open>What the states do to the world\<close>

lemma waited_rules [spec_intros]:
  "returns m \<Longrightarrow> (\<And>x. returns (k x)) \<Longrightarrow> returns (waited ret l m k)"
  "keeps (sends_only P) m \<Longrightarrow> (\<And>x. keeps (sends_only P) (k x)) \<Longrightarrow> keeps (sends_only P) (waited ret l m k)"
  "keeps evolves m \<Longrightarrow> (\<And>x. keeps evolves (k x)) \<Longrightarrow> keeps evolves (waited ret l m k)"
  by (auto simp: waited_def intro!: spec_intros)

lemma waited_Ok:
  assumes "waited ret l m k w = Some (Ok r, w')"
  obtains x w1 where "m w = Some (Ok x, w1)" "k x w1 = Some (Ok r, w')"
  | "ret_result r = Some False"
  using assms unfolding waited_def by (auto elim!: caught_SomeE split: if_splits intro: that)

lemma find_active_rules [spec_intros]:
  "returns (find_active_sddc opts p)" "keeps (sends_only installer_read) (find_active_sddc opts p)"
  by (auto simp: find_active_sddc_def bringup_list_def intro!: spec_intros)

lemma bringup_existing_reads [spec_intros]:
  "keeps (sends_only installer_read) (bringup_existing opts ret e wt t p)"
  by (auto simp: bringup_existing_def Let_def intro!: spec_intros)

lemma pick_task_known:
  assumes "py_iter tasks = Ok ts" "truthy tasks" "pick_task ts = Ok t"
  shows "t \<in> set ts \<and> is_dict t"
proof -
  have some: "first_active us = Ok (Some t) \<Longrightarrow> t \<in> set us \<and> is_dict t" for us t
    by (induction us) (auto simp: bindR_eq_Ok py_get_Ok split: if_splits)
  have "ts \<noteq> []" using assms(1,2) by (cases tasks) auto
  then have none: "first_active ts = Ok None \<Longrightarrow> is_dict (ts ! 0)"
    by (cases ts) (auto simp: bindR_eq_Ok py_get_Ok split: if_splits)
  from assms(3) obtain x where x: "first_active ts = Ok x" "t = (case x of Some u \<Rightarrow> u | None \<Rightarrow> ts ! 0)"
    unfolding pick_task_def bindR_eq_Ok by auto
  with \<open>ts \<noteq> []\<close> show ?thesis by (cases x) (auto dest: some none)
qed

lemma find_active_sddc_known:
  assumes "bringup_list opts p w = Some (Ok tasks, w1)" "truthy tasks"
    and "find_active_sddc opts p w = Some (Ok t, w')"
  shows "w' = w1 \<and> is_dict t \<and> (\<exists>ts. py_iter tasks = Ok ts \<and> t \<in> set ts)"
  using assms by (auto simp: find_active_sddc_def bindR_eq_Ok dest: pick_task_known)

lemma bringup_start_returns [spec_intros]: "returns (bringup_start opts ret spec wt t p)"
  by (auto simp: bringup_start_def bringup_submit_def Let_def intro!: spec_intros bringup_waits_return)

lemma bringup_existing_returns [spec_intros]: "returns (bringup_existing opts ret e wt t p)"
  by (auto simp: bringup_existing_def Let_def intro!: spec_intros bringup_waits_return)

lemma validated_returns [spec_intros]: "returns (vcf_installer_bringup_validated opts name spec wt t p)"
  by (auto simp: vcf_installer_bringup_validated_def bringup_validate_def Let_def
      intro!: spec_intros bringup_waits_return)

subsubsection \<open>Properties\<close>

text \<open>Worlds in which the installer's session is cached.\<close>

definition login_config :: conn_config where
  "login_config = \<lparr>cfg_host = PStr ''h'', cfg_username = PStr ''u'', cfg_password = PStr ''p'',
     cfg_verify_ssl = PBool True\<rparr>"

definition with_login :: "net_reply list \<Rightarrow> world" where
  "with_login rs = cache_upd Installer_Cache ''h:u'' (Some (CSession (installer_bearer (PBool True) (PStr ''tok''))))
     (scripted rs)"

lemma with_login_hit:
  "cache_get Installer_Cache (host_user_key login_config) (with_login rs) =
     Some (CSession (installer_bearer (PBool True) (PStr ''tok'')))"
  by (simp add: host_user_key_def login_config_def with_login_def)

lemma with_login_fresh [simp]: "sent (with_login rs) = []"
  by (simp add: with_login_def scripted_def)

text \<open>C37: A bringup that the installer knows of is never started again: once the list of tasks was read
  and is not empty, \<open>complete\<close> sends nothing but reads and logins, whatever the state of the tasks.\<close>

theorem bringup_not_repeated:
  assumes "bringup_list opts p w = Some (Ok tasks, w1)" and "truthy tasks"
    and run: "vcf_installer_bringup_complete opts name spec wt t vf p w = Some (r, w')"
  shows "sends_only installer_read w w'"
proof -
  from run [unfolded vcf_installer_bringup_complete_def Let_def] show ?thesis
  proof (rule bindM_SomeE)
    fix e w2 assume found: "find_active_sddc opts p w = Some (Ok e, w2)"
      and rest: "(if e \<noteq> PNone then bringup_existing opts (state_ret name) e wt t p
        else if test_mode opts then pureM ((state_ret name)\<lparr>ret_result := None,
          ret_comment := ''would validate and submit bringup''\<rparr>)
        else bindM (if truthy vf then vcf_installer_bringup_validated opts (name @ ''/validate'') spec (PBool True) 1800 p
              else pureM (state_ret name)) (\<lambda>v_result.
          if truthy vf \<and> ret_result v_result \<noteq> Some True then pureM v_result
          else bringup_start opts (state_ret name) spec wt t p)) w2 = Some (r, w')"
    from find_active_sddc_known [OF assms(1,2) found] have "e \<noteq> PNone" by auto
    with rest have "bringup_existing opts (state_ret name) e wt t p w2 = Some (r, w')" by simp
    with found show ?thesis
      using so.trans_step keepsD find_active_rules(2) bringup_existing_reads by metis
  qed (use find_active_rules(2) keepsD in metis)
qed

lemma bringup_not_repeated_witness:
  "let w = with_login [body_reply (PList [PDict [(''id'', PStr ''b1''), (''status'', PStr ''IN_PROGRESS'')]]),
         body_reply (PList [PDict [(''id'', PStr ''b1''), (''status'', PStr ''IN_PROGRESS'')]])];
       run = the (vcf_installer_bringup_complete (opts_for ''vcf_installer'') ''b'' (PStr ''spec'') (PBool False)
         14400 (PBool True) None w)
   in sends_only installer_read w (snd run)"
proof -
  let ?t = "PList [PDict [(''id'', PStr ''b1''), (''status'', PStr ''IN_PROGRESS'')]]"
  let ?w = "with_login [body_reply ?t, body_reply ?t]"
  let ?o = "opts_for ''vcf_installer''"
  let ?m = "vcf_installer_bringup_complete ?o ''b'' (PStr ''spec'') (PBool False) 14400 (PBool True) None"
  have listed: "map_option fst (bringup_list ?o None ?w) = Some (Ok ?t)" by code_simp
  have run: "map_option fst (?m ?w) = Some (Ok ((state_ret ''b'')\<lparr>ret_comment := ''bringup b1 in progress''\<rparr>))"
    by code_simp
  from bringup_not_repeated [OF run_result [OF listed] _ run_result [OF run]] show ?thesis by (simp add: Let_def)
qed

lemma bringup_submit_evolves: "keeps evolves (bringup_submit opts spec p)"
  by (auto simp: bringup_submit_def installer_api_post_def Let_def intro!: spec_intros)

lemma bringup_start_evolves [spec_intros]: "keeps evolves (bringup_start opts ret spec wt t p)"
  by (auto simp: bringup_start_def bringup_submit_def installer_api_post_def Let_def intro!: spec_intros)

lemma bringup_start_prefix_evolves [spec_intros]:
  "keeps evolves (find_active_sddc opts p)" "keeps evolves (vcf_installer_bringup_validated opts name spec wt t p)"
  by (auto simp: find_active_sddc_def vcf_installer_bringup_validated_def bringup_list_def bringup_validate_def
      installer_api_post_def Let_def intro!: spec_intros)

text \<open>The last thing that happened before the world \<open>w'\<close> is that the installer reported a successful bringup: it answered,
  after \<open>w\<close>, with the state of a task, or its list of tasks, read in \<open>w\<close>, has a successful one.\<close>

definition reported_done :: "pyval \<Rightarrow> profile \<Rightarrow> world \<Rightarrow> world \<Rightarrow> bool" where
  "reported_done opts p w w' \<longleftrightarrow>
     (\<exists>info. bringup_done (dget info ''status'' PNone) \<and>
        ((\<exists>id wa. evolves w wa \<and> bringup_status opts id p wa = Some (Ok (PDict info), w')) \<or>
         (\<exists>tasks ts. bringup_list opts p w = Some (Ok tasks, w') \<and> py_iter tasks = Ok ts \<and> PDict info \<in> set ts)))"

lemma waited_verified:
  assumes "waited rt l (bringup_wait opts v t' 60 p) (\<lambda>x. bindM (liftR (g x)) (\<lambda>s. pureM (h s))) w1 = Some (Ok ret, w')"
    and "evolves w w1" "ret_result ret = Some True"
  shows "reported_done opts p w w'"
  using assms
  by (elim waited_Ok) (auto simp: reported_done_def bindM_Some_iff intro: ev.trans_step dest!: bringup_wait_Ok)

lemma start_verified:
  assumes "bringup_start opts rt spec wt t p w1 = Some (Ok ret, w')" "evolves w w1" "ret_result ret = Some True" "truthy wt"
  shows "reported_done opts p w w'"
  using assms unfolding bringup_start_def Let_def
  by (auto elim!: bindM_SomeE dest!: keepsD [OF bringup_submit_evolves])
    (erule waited_verified, blast intro: ev.trans_step, assumption)

lemma existing_verified:
  assumes found: "find_active_sddc opts p w = Some (Ok e, w1)" "e \<noteq> PNone"
    and run: "bringup_existing opts rt e wt t p w1 = Some (Ok ret, w')" and ok: "ret_result ret = Some True" "truthy wt"
  shows "reported_done opts p w w'"
proof -
  from run obtain d where e: "e = PDict d"
    unfolding bringup_existing_def by (auto simp: py_get_Ok elim!: bindM_SomeE)
  show ?thesis
  proof (cases "bringup_done (dget d ''status'' PNone)")
    case True
    from found obtain tasks where listed: "bringup_list opts p w = Some (Ok tasks, w1)" "truthy tasks"
      by (auto simp: find_active_sddc_def tryM_Some_iff elim!: bindM_SomeE split: if_splits)
    from run e True have "w' = w1" unfolding bringup_existing_def by (auto elim!: bindM_SomeE)
    with find_active_sddc_known [OF listed found(1)] listed True e show ?thesis
      unfolding reported_done_def by blast
  next
    case False
    with run ok e keepsD [OF bringup_start_prefix_evolves(1) found(1)] show ?thesis
      unfolding bringup_existing_def Let_def
      by (auto elim!: bindM_SomeE intro: waited_verified split: if_splits)
  qed
qed

text \<open>C38: When \<open>complete\<close> reports success after waiting, the last answer of the installer was a
  successful bringup: the state of the task waited for, or, with no request after it, its list of tasks.\<close>

theorem bringup_success_verified:
  assumes "vcf_installer_bringup_complete opts name spec wt t vf p w = Some (Ok ret, w')"
    and "ret_result ret = Some True" and "truthy wt"
  shows "reported_done opts p w w'"
  using assms(1) unfolding vcf_installer_bringup_complete_def Let_def
proof (rule bindM_SomeE)
  fix e w1 assume found: "find_active_sddc opts p w = Some (Ok e, w1)"
    and rest: "(if e \<noteq> PNone then bringup_existing opts (state_ret name) e wt t p
      else if test_mode opts then pureM ((state_ret name)\<lparr>ret_result := None,
        ret_comment := ''would validate and submit bringup''\<rparr>)
      else bindM (if truthy vf then vcf_installer_bringup_validated opts (name @ ''/validate'') spec (PBool True) 1800 p
            else pureM (state_ret name)) (\<lambda>v_result.
        if truthy vf \<and> ret_result v_result \<noteq> Some True then pureM v_result
        else bringup_start opts (state_ret name) spec wt t p)) w1 = Some (Ok ret, w')"
  show "reported_done opts p w w'"
  proof (cases "e = PNone")
    case False
    with rest show ?thesis using existing_verified [OF found False _ assms(2,3)] by simp
  next
    case True
    with rest assms(2) obtain rt w2 where "bringup_start opts rt spec wt t p w2 = Some (Ok ret, w')" "evolves w1 w2"
      by (auto elim!: bindM_SomeE split: if_splits dest: keepsD [OF bringup_start_prefix_evolves(2)] intro: ev.refl_step)
    with start_verified [OF _ _ assms(2,3)] keepsD [OF bringup_start_prefix_evolves(1) found] show ?thesis
      by (blast intro: ev.trans_step)
  qed
qed simp

lemma bringup_success_verified_witness:
  "\<exists>w'. reported_done (opts_for ''vcf_installer'') None
     (with_login [body_reply (PList [PDict [(''id'', PStr ''b1''), (''status'', PStr ''COMPLETED'')]])]) w' \<and>
   length (sent w') = 1"
proof -
  let ?w = "with_login [body_reply (PList [PDict [(''id'', PStr ''b1''), (''status'', PStr ''COMPLETED'')]])]"
  let ?o = "opts_for ''vcf_installer''"
  let ?r = "(state_ret ''b'')\<lparr>ret_comment := ''bringup b1 already complete''\<rparr>"
  let ?m = "vcf_installer_bringup_complete ?o ''b'' (PStr ''spec'') (PBool True) 14400 (PBool True) None ?w"
  have run: "map_option fst ?m = Some (Ok ?r)" by code_simp
  have "length (sent (snd (the ?m))) = 1" by code_simp
  moreover from bringup_success_verified [OF run_result [OF run]]
  have "reported_done ?o None ?w (snd (the ?m))" by simp
  ultimately show ?thesis by blast
qed

text \<open>C39: An error while the tasks are listed - an answer 503, say - is taken for an empty list:
  \<open>complete\<close> goes on and starts a bringup, which may be the second one.\<close>

theorem bringup_started_after_listing_error:
  assumes "bringup_list opts p w = Some (Exc e, w1)" and "\<not> test_mode opts"
    and cfg: "installer_get_config opts p = Ok cfg"
    and hit: "cache_get Installer_Cache (host_user_key cfg) w1 = Some (CSession s)"
    and run: "vcf_installer_bringup_complete opts name spec wt t (PBool False) p w = Some (r, w')"
  shows "\<exists>later. sent w' = sent w1 @
    session_rq s ''POST'' (https_url (cfg_host cfg) ''/v1/sddcs'') PNone spec [] (PInt 30) # later"
proof -
  from run assms(1,2) have "bringup_start opts (state_ret name) spec wt t p w1 = Some (r, w')"
    by (simp add: vcf_installer_bringup_complete_def find_active_sddc_def Let_def bindM_def tryM_def)
  from installer_request_first [OF cfg hit this [unfolded bringup_start_def bringup_submit_def installer_api_post_def]]
  show ?thesis by (auto simp: bringup_SDDCS_def Let_def intro!: spec_intros)
qed

lemma bringup_started_after_listing_error_witness:
  "let run = the (vcf_installer_bringup_complete (opts_for ''vcf_installer'') ''b'' (PStr ''spec'') (PBool False) 14400
       (PBool False) None (with_login [code_reply 503, body_reply (PDict [(''id'', PStr ''b2'')])]))
   in length (sent (snd run)) \<ge> 2 \<and> rq_method (sent (snd run) ! 1) = ''POST''"
proof -
  let ?w = "with_login [code_reply 503, body_reply (PDict [(''id'', PStr ''b2'')])]"
  let ?o = "opts_for ''vcf_installer''"
  let ?m = "vcf_installer_bringup_complete ?o ''b'' (PStr ''spec'') (PBool False) 14400 (PBool False) None"
  let ?w1 = "snd (the (bringup_list ?o None ?w))"
  have listed: "map_option fst (bringup_list ?o None ?w) =
      Some (Exc (HTTPError ''503 Server Error: status for url: url'' (Some (text_response 503 ''error''))))"
    by code_simp
  have cfg: "installer_get_config ?o None = Ok login_config" by code_simp
  have test: "\<not> test_mode ?o" by code_simp
  have "cache_get Installer_Cache ''h:u'' ?w1 = Some (CSession (installer_bearer (PBool True) (PStr ''tok'')))"
    "length (sent ?w1) = 1" by code_simp+
  then have hit: "cache_get Installer_Cache (host_user_key login_config) ?w1 =
      Some (CSession (installer_bearer (PBool True) (PStr ''tok'')))"
    and len: "length (sent ?w1) = 1" by (simp_all add: host_user_key_def login_config_def)
  have run: "map_option fst (?m ?w) = Some (Ok ((state_ret ''b'')\<lparr>
      ret_changes := PDict [(''sddc_id'', PStr ''b2'')], ret_comment := ''bringup b2 submitted''\<rparr>))"
    by code_simp
  from bringup_started_after_listing_error [OF run_result [OF listed] test cfg hit run_result [OF run]] len
  show ?thesis by (auto simp: Let_def nth_append session_rq_def)
qed

text \<open>A dry run of \<open>complete\<close> only reads. The state \<open>validated\<close> submits its validation in a dry run
  as in a real one: with a cached session its first request is the \<open>POST\<close>.\<close>

theorem bringup_dry_runs:
  assumes "test_mode opts" and cfg: "installer_get_config opts p = Ok cfg"
    and hit: "cache_get Installer_Cache (host_user_key cfg) w = Some (CSession s)"
    and run: "vcf_installer_bringup_validated opts name spec wt t p w = Some (r, w')"
  shows "keeps (sends_only installer_read) (vcf_installer_bringup_complete opts name spec wt t vf p) \<and>
    (\<exists>later. sent w' = sent w @
      session_rq s ''POST'' (https_url (cfg_host cfg) ''/v1/sddcs/validations'') PNone spec [] (PInt 30) # later)"
proof
  show "keeps (sends_only installer_read) (vcf_installer_bringup_complete opts name spec wt t vf p)"
    using assms by (auto simp: vcf_installer_bringup_complete_def Let_def intro!: spec_intros)
  from installer_request_first [OF cfg hit run [unfolded vcf_installer_bringup_validated_def bringup_validate_def
        installer_api_post_def]]
  show "\<exists>later. sent w' = sent w @
      session_rq s ''POST'' (https_url (cfg_host cfg) ''/v1/sddcs/validations'') PNone spec [] (PInt 30) # later"
    by (auto simp: bringup_VALIDATIONS_def Let_def intro!: spec_intros)
qed

lemma bringup_dry_runs_witness:
  "let opts = opts_test_for ''vcf_installer'';
       run = the (vcf_installer_bringup_validated opts ''v'' (PStr ''spec'') (PBool True) 1800 None
         (with_login [body_reply (PDict [(''id'', PStr ''v1'')])]))
   in test_mode opts \<and> rq_method (sent (snd run) ! 0) = ''POST''"
proof -
  let ?o = "opts_test_for ''vcf_installer''"
  let ?w = "with_login [body_reply (PDict [(''id'', PStr ''v1'')])]"
  let ?m = "vcf_installer_bringup_validated ?o ''v'' (PStr ''spec'') (PBool True) 1800 None"
  have cfg: "installer_get_config ?o None = Ok login_config" by code_simp
  have test: "test_mode ?o" by code_simp
  have run: "map_option fst (?m ?w) = Some (Ok \<lparr>ret_name = ''v'',
      ret_changes = PDict [(''validation_id'', PStr ''v1'')], ret_result = None,
      ret_comment = ''would wait for validation v1''\<rparr>)" by code_simp
  from bringup_dry_runs [OF test cfg with_login_hit run_result [OF run], THEN conjunct2]
  obtain later where "sent (snd (the (?m ?w))) = session_rq (installer_bearer (PBool True) (PStr ''tok'')) ''POST''
      (https_url (cfg_host login_config) ''/v1/sddcs/validations'') PNone (PStr ''spec'') [] (PInt 30) # later"
    unfolding with_login_fresh by auto
  with test show ?thesis by (simp add: Let_def session_rq_def)
qed

text \<open>Both states come to an end for every installer: the waits poll at fixed positive intervals.\<close>

theorem bringup_states_terminate:
  "returns (vcf_installer_bringup_complete opts name spec wt t vf p) \<and>
   returns (vcf_installer_bringup_validated opts name spec wt t p)"
  by (auto simp: vcf_installer_bringup_complete_def Let_def intro!: spec_intros)

end
