(* ===== verification/Cluster_Config.thy ===== *)
theory Cluster_Config
  imports Vcenter Salt_State
begin

section \<open>Cluster_Config: Configuration Profiles of clusters\<close>

text \<open>
  Client and states \<open>cluster_config.py\<close>.
\<close>

subsection \<open>\<open>clients/cluster_config.py\<close>\<close>

text \<open>
  The client of a cluster's Configuration Profile: enablement, schema, configuration, drafts, the
  last results, and the access to nested keys of a profile document.
\<close>


subsubsection \<open>REST calls\<close>

definition ccfg_path :: "pyval \<Rightarrow> string \<Rightarrow> string" where
  "ccfg_path cluster sfx = ''/api/esx/settings/clusters/'' @ py_str cluster @ sfx"

definition ccfg_enablement_get :: "pyval \<Rightarrow> pyval \<Rightarrow> profile \<Rightarrow> pyval io" where
  "ccfg_enablement_get opts cluster profile =
     vcenter_api_get opts (ccfg_path cluster ''/enablement/configuration'') PNone profile PNone"

definition ccfg_schema_get :: "pyval \<Rightarrow> pyval \<Rightarrow> profile \<Rightarrow> pyval io" where
  "ccfg_schema_get opts cluster profile =
     vcenter_api_get opts (ccfg_path cluster ''/configuration/schema'') PNone profile PNone"

text \<open>A 400 says that the cluster is not managed by a profile; it is answered with \<open>None\<close>.\<close>

definition none_if_unmanaged :: "pyval io \<Rightarrow> pyval io" where
  "none_if_unmanaged m = tryM m (\<lambda>exc. if http_status_is exc 400 then pureM PNone else raiseM exc)"

definition ccfg_configuration_get :: "pyval \<Rightarrow> pyval \<Rightarrow> profile \<Rightarrow> pyval io" where
  "ccfg_configuration_get opts cluster profile =
     none_if_unmanaged (vcenter_api_get opts (ccfg_path cluster ''/configuration'') PNone profile PNone)"

definition ccfg_drafts_list :: "pyval \<Rightarrow> pyval \<Rightarrow> profile \<Rightarrow> pyval io" where
  "ccfg_drafts_list opts cluster profile =
     vcenter_api_get opts (ccfg_path cluster ''/configuration/drafts'') PNone profile PNone"

definition ccfg_draft_create :: "pyval \<Rightarrow> pyval \<Rightarrow> pyval \<Rightarrow> profile \<Rightarrow> pyval io" where
  "ccfg_draft_create opts cluster body profile =
     vcenter_api_post opts (ccfg_path cluster ''/configuration/drafts'') (py_or body empty_dict) PNone profile PNone"

definition ccfg_draft_path :: "pyval \<Rightarrow> pyval \<Rightarrow> string \<Rightarrow> string" where
  "ccfg_draft_path cluster draft_id sfx =
     ccfg_path cluster (''/configuration/drafts/'' @ py_str draft_id @ sfx)"

definition ccfg_draft_get :: "pyval \<Rightarrow> pyval \<Rightarrow> pyval \<Rightarrow> profile \<Rightarrow> pyval io" where
  "ccfg_draft_get opts cluster draft_id profile =
     vcenter_api_get opts (ccfg_draft_path cluster draft_id []) PNone profile PNone"

definition ccfg_draft_get_configuration :: "pyval \<Rightarrow> pyval \<Rightarrow> pyval \<Rightarrow> profile \<Rightarrow> pyval io" where
  "ccfg_draft_get_configuration opts cluster draft_id profile =
     vcenter_api_get opts (ccfg_draft_path cluster draft_id ''/configuration'') PNone profile PNone"

definition ccfg_draft_update_configuration :: "pyval \<Rightarrow> pyval \<Rightarrow> pyval \<Rightarrow> pyval \<Rightarrow> profile \<Rightarrow> pyval io" where
  "ccfg_draft_update_configuration opts cluster draft_id body profile =
     vcenter_api_patch opts (ccfg_draft_path cluster draft_id ''/configuration'') body profile PNone"

definition ccfg_draft_delete :: "pyval \<Rightarrow> pyval \<Rightarrow> pyval \<Rightarrow> profile \<Rightarrow> pyval io" where
  "ccfg_draft_delete opts cluster draft_id profile =
     vcenter_api_delete opts (ccfg_draft_path cluster draft_id []) PNone profile PNone"

definition ccfg_draft_apply :: "pyval \<Rightarrow> pyval \<Rightarrow> pyval \<Rightarrow> profile \<Rightarrow> pyval io" where
  "ccfg_draft_apply opts cluster draft_id profile =
     vcenter_api_post opts (ccfg_draft_path cluster draft_id []) PNone
       (PDict [(''action'', PStr ''apply'')]) profile PNone"

definition ccfg_last_apply_result :: "pyval \<Rightarrow> pyval \<Rightarrow> profile \<Rightarrow> pyval io" where
  "ccfg_last_apply_result opts cluster profile =
     none_if_unmanaged
       (vcenter_api_get opts (ccfg_path cluster ''/configuration/reports/last-apply-result'') PNone profile PNone)"

definition ccfg_last_compliance_result :: "pyval \<Rightarrow> pyval \<Rightarrow> profile \<Rightarrow> pyval io" where
  "ccfg_last_compliance_result opts cluster profile =
     none_if_unmanaged
       (vcenter_api_get opts (ccfg_path cluster ''/configuration/reports/last-compliance-result'') PNone profile PNone)"

subsubsection \<open>Nested keys\<close>

text \<open>\<open>key_path.split(".")\<close>.\<close>

fun split_dots :: "string \<Rightarrow> string list" where
  "split_dots [] = [[]]"
| "split_dots (c # cs) =
     (if c = CHR ''.'' then [] # split_dots cs
      else case split_dots cs of part # parts \<Rightarrow> (c # part) # parts | [] \<Rightarrow> [[c]])"

fun get_parts :: "pyval \<Rightarrow> string list \<Rightarrow> pyval" where
  "get_parts node [] = node"
| "get_parts (PDict d) (part # parts) =
     (case map_of d part of Some v \<Rightarrow> get_parts v parts | None \<Rightarrow> PNone)"
| "get_parts node (part # parts) = PNone"

definition get_profile_value :: "pyval \<Rightarrow> string \<Rightarrow> pyval" where
  "get_profile_value profile_doc key_path = get_parts profile_doc (split_dots key_path)"

text \<open>
  The dict that a step of the walk goes into: a part that is missing or no dict is replaced by \<open>{}\<close>.
  \<open>set_profile_value\<close> changes the document in place and returns it; a document that is no dict is a
  \<open>TypeError\<close> (whose text is not modelled).
\<close>

definition child_dict :: "dict \<Rightarrow> string \<Rightarrow> dict" where
  "child_dict d part = (case map_of d part of Some (PDict e) \<Rightarrow> e | _ \<Rightarrow> [])"

fun set_parts :: "dict \<Rightarrow> string list \<Rightarrow> pyval \<Rightarrow> dict" where
  "set_parts d [] v = d"
| "set_parts d [part] v = dset d part v"
| "set_parts d (part # parts) v = dset d part (PDict (set_parts (child_dict d part) parts v))"

definition set_profile_value :: "pyval \<Rightarrow> string \<Rightarrow> pyval \<Rightarrow> pyval res" where
  "set_profile_value profile_doc key_path value =
     (case profile_doc of
        PDict d \<Rightarrow> Ok (PDict (set_parts d (split_dots key_path) value))
      | _ \<Rightarrow> Exc (TypeError (repr_str (type_name profile_doc) @ '' object does not support item assignment'')))"

subsubsection \<open>Laws of the access to nested keys\<close>

lemma split_dots_ne [simp]: "split_dots s \<noteq> []"
  by (induction s) (auto split: list.split)

lemma get_parts_dict [simp]: "get_parts (PDict []) (k # ks) = PNone"
  by simp

lemma get_set_parts: "ks \<noteq> [] \<Longrightarrow> get_parts (PDict (set_parts d ks v)) (ks @ js) = get_parts v js"
  by (induction d ks v rule: set_parts.induct) auto

text \<open>Two key paths of which neither leads through the other.\<close>

definition apart :: "string list \<Rightarrow> string list \<Rightarrow> bool" where
  "apart ks js \<longleftrightarrow> \<not> prefix ks js \<and> \<not> prefix js ks"

lemma apart_Cons [simp]: "apart (k # ks) (j # js) \<longleftrightarrow> (k = j \<longrightarrow> apart ks js)"
  by (auto simp: apart_def)

lemma apart_Nil [simp]: "\<not> apart [] js" "\<not> apart ks []"
  by (auto simp: apart_def)

lemma get_parts_child: "ks \<noteq> [] \<Longrightarrow> get_parts (PDict (child_dict d k)) ks = get_parts (PDict d) (k # ks)"
proof (cases ks)
  case (Cons j js)
  then show ?thesis
    by (cases "map_of d k"; cases "the (map_of d k)") (auto simp: child_dict_def)
qed simp

lemma get_set_parts_apart: "apart ks js \<Longrightarrow> get_parts (PDict (set_parts d ks v)) js = get_parts (PDict d) js"
proof (induction d ks v arbitrary: js rule: set_parts.induct)
  case (2 d k v)
  then show ?case by (cases js) auto
next
  case (3 d k k' ks v)
  show ?case
  proof (cases js)
    case (Cons j js')
    show ?thesis
    proof (cases "j = k")
      case True
      with 3 Cons have "apart (k' # ks) js'" by simp
      moreover then have "js' \<noteq> []" by auto
      ultimately show ?thesis using True Cons 3(1) get_parts_child by simp
    qed (use Cons in auto)
  qed (use 3(2) in auto)
qed simp

lemma child_dset [simp]: "child_dict (dset d k (PDict e)) k = e"
  by (simp add: child_dict_def)

lemma set_set_parts: "set_parts (set_parts d ks u) ks v = set_parts d ks v"
  by (induction d ks u rule: set_parts.induct) (auto simp: dset_dset)

text \<open>Writing back what is there changes nothing.\<close>

lemma set_get_parts:
  "ks \<noteq> [] \<Longrightarrow> get_parts (PDict d) ks \<noteq> PNone \<Longrightarrow> set_parts d ks (get_parts (PDict d) ks) = d"
proof (induction ks arbitrary: d)
  case (Cons k ks)
  then obtain v where v: "map_of d k = Some v" by (auto split: option.splits)
  show ?case
  proof (cases ks)
    case Nil
    with v show ?thesis by (simp add: dset_idem)
  next
    case ks: (Cons k' ks')
    with Cons.prems v obtain e where e: "v = PDict e" by (cases v) auto
    from Cons.IH [of e] Cons.prems ks v e have "set_parts e ks (get_parts (PDict e) ks) = e" by simp
    with ks v e show ?thesis by (simp add: child_dict_def dset_idem)
  qed
qed simp

lemma wf_dset: "wf_py (PDict d) \<Longrightarrow> wf_py v \<Longrightarrow> wf_py (PDict (dset d k v))"
  by (induction d k v rule: dset.induct) (auto simp: keys_dset distinct_dset)

lemma wf_child: "wf_py (PDict d) \<Longrightarrow> wf_py (PDict (child_dict d k))"
proof (cases "\<exists>e. map_of d k = Some (PDict e)")
  case True
  then obtain e where e: "map_of d k = Some (PDict e)" ..
  assume "wf_py (PDict d)"
  with map_of_SomeD [OF e] have "wf_py (PDict e)" by (force simp del: wf_py.simps(1) simp: wf_py.simps(1) [of d])
  with e show ?thesis by (simp add: child_dict_def)
qed (auto simp: child_dict_def split: option.splits pyval.splits)

lemma wf_set_parts: "wf_py (PDict d) \<Longrightarrow> wf_py v \<Longrightarrow> wf_py (PDict (set_parts d ks v))"
  by (induction d ks v rule: set_parts.induct) (simp_all add: wf_dset wf_child del: wf_py.simps(1))

text \<open>C40: \<open>set_profile_value\<close> and \<open>get_profile_value\<close> are a lens on a document: the value written is
  read back, every key path that does not lead through the written one reads as before, a second
  write replaces the first, writing a value that is there changes nothing, and the keys of
  every dict stay distinct.\<close>

theorem profile_value_lens:
  assumes "set_profile_value (PDict d) key v = Ok doc"
  shows "get_profile_value doc key = v \<and>
    (\<forall>other. apart (split_dots key) (split_dots other) \<longrightarrow>
       get_profile_value doc other = get_profile_value (PDict d) other) \<and>
    (\<forall>u. set_profile_value doc key u = set_profile_value (PDict d) key u) \<and>
    (get_profile_value (PDict d) key = v \<longrightarrow> v \<noteq> PNone \<longrightarrow> doc = PDict d) \<and>
    (wf_py (PDict d) \<longrightarrow> wf_py v \<longrightarrow> wf_py doc)"
proof -
  from assms have doc: "doc = PDict (set_parts d (split_dots key) v)" by (simp add: set_profile_value_def)
  show ?thesis
    using get_set_parts [of "split_dots key" d v "[]"] set_get_parts [of "split_dots key" d]
    by (auto simp: doc get_profile_value_def set_profile_value_def get_set_parts_apart set_set_parts wf_set_parts
        simp del: wf_py.simps(1))
qed

lemma profile_value_lens_witness:
  "get_profile_value (PDict [(''esx'', PDict [(''ntp'', PList [PStr ''a'']), (''dns'', PInt 1)])]) ''esx.ntp'' =
     PList [PStr ''a''] \<and>
   apart (split_dots ''esx.ntp'') (split_dots ''esx.dns'')"
proof -
  let ?d = "[(''esx'', PDict [(''dns'', PInt 1)])]"
  have "set_profile_value (PDict [(''esx'', PDict [(''ntp'', PInt 0), (''dns'', PInt 1)])]) ''esx.ntp'' (PList [PStr ''a'']) =
      Ok (PDict [(''esx'', PDict [(''ntp'', PList [PStr ''a'']), (''dns'', PInt 1)])])"
    by code_simp
  from profile_value_lens [OF this] show ?thesis by simp
qed

subsection \<open>Vcf_Cluster_Config: \<open>states/vcf_cluster_config.py\<close>\<close>

text \<open>
  The states of a cluster's Configuration Profile: it is enabled, and one of its keys has a value.
\<close>


definition vcf_cluster_config_enabled :: "pyval \<Rightarrow> string \<Rightarrow> profile \<Rightarrow> salt_ret io" where
  "vcf_cluster_config_enabled opts name profile =
     (let ret = state_ret name in
     bindM (ccfg_enablement_get opts (PStr name) profile) (\<lambda>resp.
     bindM (liftR (py_get (py_or resp empty_dict) ''enabled'' PNone)) (\<lambda>flag.
     if truthy flag then pureM (ret\<lparr>ret_comment := ''Configuration Profile already enabled on '' @ name\<rparr>)
     else
       pureM (ret\<lparr>ret_result := Some False,
         ret_comment := ''Configuration Profile not enabled on cluster '' @ name @ ''; enable it via ''
           @ ''vSphere UI or vLCM tooling before applying this state.''\<rparr>))))"

text \<open>The part after the dry-run test: draft, change, apply.\<close>

definition profile_draft_change :: "pyval \<Rightarrow> string \<Rightarrow> string \<Rightarrow> pyval \<Rightarrow> profile \<Rightarrow> unit io" where
  "profile_draft_change opts name key v profile =
     (let cluster = PStr name in
     bindM (ccfg_draft_create opts cluster PNone profile) (\<lambda>draft_id.
     bindM (ccfg_draft_get_configuration opts cluster draft_id profile) (\<lambda>draft_doc.
     bindM (liftR (set_profile_value draft_doc key v)) (\<lambda>changed.
     bindM (ccfg_draft_update_configuration opts cluster draft_id changed profile) (\<lambda>_.
     bindM (ccfg_draft_apply opts cluster draft_id profile) (\<lambda>_. pureM ()))))))"

text \<open>From the read document on. This state reads \<open>__opts__["test"]\<close>, not \<open>__opts__.get("test")\<close>.\<close>

definition profile_value_reconcile ::
  "pyval \<Rightarrow> string \<Rightarrow> string \<Rightarrow> pyval \<Rightarrow> profile \<Rightarrow> pyval \<Rightarrow> salt_ret io" where
  "profile_value_reconcile opts name key v profile current_doc =
     (let ret = state_ret name; current_value = get_profile_value current_doc key in
     if py_eq current_value v then
       pureM (ret\<lparr>ret_comment := key @ '' on '' @ name @ '' already '' @ py_repr v\<rparr>)
     else
       bindM (liftR (py_item opts ''test'')) (\<lambda>test.
       if truthy test then
         pureM (ret\<lparr>ret_result := None, ret_comment := key @ '' on '' @ name @ '' would change from ''
           @ py_repr current_value @ '' to '' @ py_repr v\<rparr>)
       else
         bindM (profile_draft_change opts name key v profile) (\<lambda>_.
         pureM (ret\<lparr>ret_changes := PDict [(key, PDict [(''old'', current_value), (''new'', v)])],
           ret_comment := key @ '' on '' @ name @ '' updated''\<rparr>))))"

definition vcf_cluster_config_profile_value ::
  "pyval \<Rightarrow> string \<Rightarrow> string \<Rightarrow> pyval \<Rightarrow> profile \<Rightarrow> salt_ret io" where
  "vcf_cluster_config_profile_value opts name key v profile =
     (let ret = state_ret name in
     caught is_HTTPError
       (\<lambda>exc. ret\<lparr>ret_result := Some False,
          ret_comment := ''Could not read cluster '' @ name @ '' configuration: '' @ exn_str exc\<rparr>)
       (ccfg_configuration_get opts (PStr name) profile) (\<lambda>current_doc.
     if current_doc = PNone then
       pureM (ret\<lparr>ret_result := Some False,
         ret_comment := ''Cluster '' @ name @ '' has no Configuration Profile yet (not vLCM-managed?). ''
           @ ''Enable it before applying this state.''\<rparr>)
     else profile_value_reconcile opts name key v profile current_doc))"

subsubsection \<open>Properties\<close>

lemmas ccfg_hit_defs = ccfg_draft_create_def ccfg_draft_get_configuration_def
  ccfg_draft_update_configuration_def ccfg_draft_apply_def

text \<open>The five requests of a change: one reads the configuration, and then a draft is made, read,
  changed at the key and applied.\<close>

definition change_requests ::
  "vcenter_config \<Rightarrow> cached \<Rightarrow> string \<Rightarrow> pyval \<Rightarrow> pyval \<Rightarrow> request list" where
  "change_requests cfg c name draft_id body =
     (let cluster = PStr name; drafts = ccfg_draft_path cluster draft_id in
     [vcenter_rq cfg c ''POST'' (ccfg_path cluster ''/configuration/drafts'') PNone empty_dict,
      vcenter_rq cfg c ''GET'' (drafts ''/configuration'') PNone PNone,
      vcenter_rq cfg c ''PATCH'' (drafts ''/configuration'') PNone body,
      vcenter_rq cfg c ''POST'' (drafts []) (PDict [(''action'', PStr ''apply'')]) PNone])"

lemma profile_draft_change_sent:
  assumes cfg: "vcenter_get_config opts p = Ok cfg"
    and hit: "cache_get Vcenter_Cache (host_user_key cfg) w = Some c"
    and run: "profile_draft_change opts name key v p w = Some (Ok u, w')"
  shows "\<exists>draft_id doc body w1 w2. ccfg_draft_get_configuration opts (PStr name) draft_id p w1 = Some (Ok doc, w2) \<and>
    set_profile_value doc key v = Ok body \<and> sent w' = sent w @ change_requests cfg c name draft_id body"
proof -
  have stays: "cache_get Vcenter_Cache (host_user_key cfg) w' = cache_get Vcenter_Cache (host_user_key cfg) w"
    if "caches w' = caches w" for w w' using that by (simp add: cache_get_def)
  from run obtain d w1 where create: "ccfg_draft_create opts (PStr name) PNone p w = Some (Ok d, w1)"
    and rest: "bindM (ccfg_draft_get_configuration opts (PStr name) d p) (\<lambda>draft_doc.
     bindM (liftR (set_profile_value draft_doc key v)) (\<lambda>changed.
     bindM (ccfg_draft_update_configuration opts (PStr name) d changed p) (\<lambda>_.
     bindM (ccfg_draft_apply opts (PStr name) d p) (\<lambda>_. pureM ())))) w1 = Some (Ok u, w')"
    unfolding profile_draft_change_def Let_def by (auto elim: bindM_SomeE)
  note first = vcenter_api_hit(2) [OF cfg hit create [unfolded ccfg_draft_create_def]]
  note hit1 = hit [folded stays [OF conjunct2 [OF first]]]
  from rest obtain doc w2 body w3 x y where get: "ccfg_draft_get_configuration opts (PStr name) d p w1 = Some (Ok doc, w2)"
    and body: "set_profile_value doc key v = Ok body"
    and upd: "ccfg_draft_update_configuration opts (PStr name) d body p w2 = Some (Ok x, w3)"
    and app: "ccfg_draft_apply opts (PStr name) d p w3 = Some (Ok y, w')"
    by (auto elim!: bindM_SomeE)
  note second = vcenter_api_hit(1) [OF cfg hit1 get [unfolded ccfg_draft_get_configuration_def]]
  note hit2 = hit1 [folded stays [OF conjunct2 [OF second]]]
  note third = vcenter_api_hit(3) [OF cfg hit2 upd [unfolded ccfg_draft_update_configuration_def]]
  note hit3 = hit2 [folded stays [OF conjunct2 [OF third]]]
  note fourth = vcenter_api_hit(2) [OF cfg hit3 app [unfolded ccfg_draft_apply_def]]
  have "sent w' = sent w @ change_requests cfg c name d body"
    using first second third fourth by (simp add: change_requests_def Let_def)
  with get body show ?thesis by blast
qed

lemma configuration_get_sent:
  assumes "vcenter_get_config opts p = Ok cfg" "cache_get Vcenter_Cache (host_user_key cfg) w = Some c"
    and "ccfg_configuration_get opts cluster p w = Some (Ok doc, w')"
  shows "sent w' = sent w @ [vcenter_rq cfg c ''GET'' (ccfg_path cluster ''/configuration'') PNone PNone] \<and>
    caches w' = caches w"
  using assms(3) unfolding ccfg_configuration_get_def none_if_unmanaged_def
  by (auto elim!: tryM_SomeE dest!: vcenter_api_hit(1) [OF assms(1,2)] split: if_splits)

lemma profile_value_read:
  assumes "vcf_cluster_config_profile_value opts name key v p w = Some (Ok ret, w')"
    and "ret_changes ret \<noteq> empty_dict"
  obtains doc w1 where "ccfg_configuration_get opts (PStr name) p w = Some (Ok doc, w1)"
    "profile_value_reconcile opts name key v p doc w1 = Some (Ok ret, w')"
  using assms unfolding vcf_cluster_config_profile_value_def Let_def
  by (auto elim!: caught_SomeE split: if_splits intro: that)

text \<open>A change of a profile value is minimal: after the read of the configuration exactly four
  requests go out - a draft is made, its configuration read, patched and applied - and the body of
  the patch is the draft's own document with the wanted value at the key and every key path apart
  from it as it was.\<close>

theorem profile_value_change_minimal:
  assumes cfg: "vcenter_get_config opts p = Ok cfg"
    and hit: "cache_get Vcenter_Cache (host_user_key cfg) w = Some c"
    and run: "vcf_cluster_config_profile_value opts name key v p w = Some (Ok ret, w')"
    and changed: "ret_changes ret \<noteq> empty_dict"
  shows "\<exists>draft_id doc body w1 w2.
    ccfg_draft_get_configuration opts (PStr name) draft_id p w1 = Some (Ok doc, w2) \<and>
    sent w' = sent w @ vcenter_rq cfg c ''GET'' (ccfg_path (PStr name) ''/configuration'') PNone PNone
      # change_requests cfg c name draft_id body \<and>
    get_profile_value body key = v \<and>
    (\<forall>other. apart (split_dots key) (split_dots other) \<longrightarrow>
       get_profile_value body other = get_profile_value doc other)"
proof -
  from run changed obtain doc w1 where read: "ccfg_configuration_get opts (PStr name) p w = Some (Ok doc, w1)"
    and rest: "profile_value_reconcile opts name key v p doc w1 = Some (Ok ret, w')"
    by (rule profile_value_read)
  note first = configuration_get_sent [OF cfg hit read]
  from rest changed obtain u where change: "profile_draft_change opts name key v p w1 = Some (Ok u, w')"
    unfolding profile_value_reconcile_def Let_def by (auto elim!: bindM_SomeE split: if_splits)
  have hit1: "cache_get Vcenter_Cache (host_user_key cfg) w1 = Some c"
    using first hit by (simp add: cache_get_def)
  obtain draft_id doc' body w2 w3 where
    draft: "ccfg_draft_get_configuration opts (PStr name) draft_id p w2 = Some (Ok doc', w3)"
    and body: "set_profile_value doc' key v = Ok body"
    and sent: "sent w' = sent w1 @ change_requests cfg c name draft_id body"
    using profile_draft_change_sent [OF cfg hit1 change] by blast
  from body obtain d where "doc' = PDict d" "body = PDict (set_parts d (split_dots key) v)"
    by (cases doc') (auto simp: set_profile_value_def)
  then have "get_profile_value body key = v"
    and "apart (split_dots key) (split_dots other) \<Longrightarrow> get_profile_value body other = get_profile_value doc' other"
    for other using get_set_parts [of "split_dots key" d v "[]"]
    by (simp_all add: get_profile_value_def get_set_parts_apart)
  with draft sent first show ?thesis by (auto intro!: exI)
qed

definition changing_world :: world where
  "changing_world = cache_upd Vcenter_Cache ''h:u'' (Some (CToken (PStr ''tok'')))
     (scripted [body_reply (PDict [(''ntp'', PInt 1)]), body_reply (PStr ''d1''),
       body_reply (PDict [(''ntp'', PInt 1), (''dns'', PInt 5)]), body_reply (PDict []), body_reply (PStr ''task'')])"

lemma profile_value_change_minimal_witness:
  "length (sent (snd (the (vcf_cluster_config_profile_value (PDict [(''test'', PBool False),
       (''saltext.vcf'', PDict [(''vcenter'', section_of ''h'')])]) ''c1'' ''ntp'' (PInt 2) None changing_world)))) = 5"
proof -
  let ?o = "PDict [(''test'', PBool False), (''saltext.vcf'', PDict [(''vcenter'', section_of ''h'')])]"
  let ?cfg = "\<lparr>cfg_host = PStr ''h'', cfg_username = PStr ''u'', cfg_password = PStr ''p'',
    cfg_verify_ssl = PBool True, cfg_timeout = PInt 30\<rparr>"
  have cfg: "vcenter_get_config ?o None = Ok ?cfg" by code_simp
  have hit: "cache_get Vcenter_Cache (host_user_key ?cfg) changing_world = Some (CToken (PStr ''tok''))"
    by (simp add: changing_world_def host_user_key_def)
  have run: "map_option fst (vcf_cluster_config_profile_value ?o ''c1'' ''ntp'' (PInt 2) None changing_world) =
     Some (Ok ((state_ret ''c1'')\<lparr>ret_changes := PDict [(''ntp'', PDict [(''old'', PInt 1), (''new'', PInt 2)])],
       ret_comment := ''ntp on c1 updated''\<rparr>))" by code_simp
  from profile_value_change_minimal [OF cfg hit run_result [OF run]] show ?thesis
    by (auto simp: change_requests_def changing_world_def scripted_def Let_def)
qed

lemma configuration_get_reads [spec_intros]:
  "keeps (sends_only vcenter_read) (ccfg_configuration_get opts cluster p)"
  by (auto simp: ccfg_configuration_get_def none_if_unmanaged_def intro!: spec_intros)

text \<open>A value that is already there, or a dry run, costs nothing: only reads are sent and no change
  is reported.\<close>

theorem profile_value_quiet:
  assumes run: "vcf_cluster_config_profile_value opts name key v p w = Some (r, w')"
    and quiet: "py_item opts ''test'' = Ok (PBool True) \<or>
      (\<forall>doc w1. ccfg_configuration_get opts (PStr name) p w = Some (Ok doc, w1) \<longrightarrow> py_eq (get_profile_value doc key) v)"
  shows "sends_only vcenter_read w w' \<and> (case r of Ok ret \<Rightarrow> ret_changes ret = empty_dict | Exc _ \<Rightarrow> True)"
proof -
  note reads = keepsD [OF configuration_get_reads]
  have rest: ?thesis
    if read: "ccfg_configuration_get opts (PStr name) p w = Some (Ok doc, w1)"
      and "profile_value_reconcile opts name key v p doc w1 = Some (r, w')" for doc w1
    using that(2) quiet reads [OF read] read unfolding profile_value_reconcile_def Let_def
    by (auto elim!: bindM_SomeE split: if_splits)
  from run reads show ?thesis
    unfolding vcf_cluster_config_profile_value_def Let_def
    by (elim caught_SomeE) (auto split: if_splits dest: rest)
qed

lemma profile_value_quiet_witness:
  "sends_only vcenter_read changing_world (snd (the (vcf_cluster_config_profile_value
     (PDict [(''test'', PBool True), (''saltext.vcf'', PDict [(''vcenter'', section_of ''h'')])])
     ''c1'' ''ntp'' (PInt 2) None changing_world)))"
proof -
  let ?o = "PDict [(''test'', PBool True), (''saltext.vcf'', PDict [(''vcenter'', section_of ''h'')])]"
  have run: "map_option fst (vcf_cluster_config_profile_value ?o ''c1'' ''ntp'' (PInt 2) None changing_world) =
     Some (Ok ((state_ret ''c1'')\<lparr>ret_result := None, ret_comment := ''ntp on c1 would change from 1 to 2''\<rparr>))"
    by code_simp
  have "py_item ?o ''test'' = Ok (PBool True)" by code_simp
  with profile_value_quiet [OF run_result [OF run]] show ?thesis by simp
qed

end
