(* ===== verification/Rest_Store.thy ===== *)
theory Rest_Store
  imports Scenario Salt_State
begin

section \<open>Rest_Store: REST objects as a store\<close>

text \<open>
  The abstract specification of the states that manage an object of a REST API by its path: the
  service is a map from paths to JSON objects. \<open>store_view\<close> says that from a world on the service
  answers like that map; \<open>refines\<close> is the simulation between a state and an operation on the map.
  The locale \<open>rest_object\<close> is the contract of the three client calls (look up, create, delete) such a
  state is written with, and \<open>rest_document\<close> that of the two calls (read, replace) on a singleton.
\<close>

subsection \<open>The two shapes of presence states\<close>

text \<open>
  \<open>present\<close> and \<open>absent\<close> of the presence-only states, which differ between the modules only in the
  client calls and the wording: nothing is done when the lookup says so; the dry run is
  \<open>__opts__["test"]\<close>.
\<close>

definition would :: "string \<Rightarrow> string \<Rightarrow> salt_ret" where
  "would name comment = (state_ret name)\<lparr>ret_result := None, ret_comment := comment\<rparr>"

definition unchanged :: "string \<Rightarrow> string \<Rightarrow> salt_ret" where
  "unchanged name comment = (state_ret name)\<lparr>ret_comment := comment\<rparr>"

definition changed :: "string \<Rightarrow> dict \<Rightarrow> string \<Rightarrow> salt_ret" where
  "changed name changes comment = (state_ret name)\<lparr>ret_changes := PDict changes, ret_comment := comment\<rparr>"

text \<open>An answer that is a failure.\<close>

definition refused :: "string \<Rightarrow> string \<Rightarrow> salt_ret" where
  "refused name comment = (state_ret name)\<lparr>ret_result := Some False, ret_comment := comment\<rparr>"

text \<open>\<open>if __opts__["test"]: return the dry-run answer\<close>, and the rest.\<close>

definition unless_test :: "pyval \<Rightarrow> salt_ret \<Rightarrow> salt_ret io \<Rightarrow> salt_ret io" where
  "unless_test opts dry real =
     bindM (liftR (py_item opts ''test'')) (\<lambda>t. if truthy t then pureM dry else real)"

text \<open>The same where the flag is read by \<open>__opts__.get("test")\<close>.\<close>

definition unless_dry :: "pyval \<Rightarrow> salt_ret \<Rightarrow> salt_ret io \<Rightarrow> salt_ret io" where
  "unless_dry opts dry real =
     bindM (liftR (py_get opts ''test'' PNone)) (\<lambda>t. if truthy t then pureM dry else real)"

definition ensure_present ::
  "pyval \<Rightarrow> string \<Rightarrow> pyval io \<Rightarrow> 'a io \<Rightarrow> string \<Rightarrow> string \<Rightarrow> string \<Rightarrow> salt_ret io" where
  "ensure_present opts name lookup create already would_comment created =
     bindM lookup (\<lambda>current.
     if current \<noteq> PNone then pureM (unchanged name already)
     else unless_test opts (would name would_comment)
       (bindM create (\<lambda>_. pureM (changed name [(''new'', PStr name)] created))))"

definition ensure_absent ::
  "pyval \<Rightarrow> string \<Rightarrow> pyval io \<Rightarrow> 'a io \<Rightarrow> string \<Rightarrow> string \<Rightarrow> string \<Rightarrow> salt_ret io" where
  "ensure_absent opts name lookup remove already would_comment deleted =
     bindM lookup (\<lambda>current.
     if current = PNone then pureM (unchanged name already)
     else unless_test opts (would name would_comment)
       (bindM remove (\<lambda>_. pureM (changed name [(''deleted'', PStr name)] deleted))))"

text \<open>The same where the removal needs what the lookup found.\<close>

definition ensure_absent_of ::
  "pyval \<Rightarrow> string \<Rightarrow> pyval io \<Rightarrow> (pyval \<Rightarrow> 'a io) \<Rightarrow> string \<Rightarrow> string \<Rightarrow> string \<Rightarrow> salt_ret io" where
  "ensure_absent_of opts name lookup remove already would_comment deleted =
     bindM lookup (\<lambda>current.
     if current = PNone then pureM (unchanged name already)
     else unless_test opts (would name would_comment)
       (bindM (remove current) (\<lambda>_. pureM (changed name [(''deleted'', PStr name)] deleted))))"

lemma ret_simps [simp]:
  "ret_name (would n c) = n" "ret_result (would n c) = None" "ret_changes (would n c) = empty_dict"
  "ret_name (unchanged n c) = n" "ret_result (unchanged n c) = Some True" "ret_changes (unchanged n c) = empty_dict"
  "ret_name (changed n ch c) = n" "ret_result (changed n ch c) = Some True" "ret_changes (changed n ch c) = PDict ch"
  "ret_comment (would n c) = c" "ret_comment (unchanged n c) = c" "ret_comment (changed n ch c) = c"
  by (simp_all add: would_def unchanged_def changed_def)

lemma unless_test_cases:
  assumes "unless_test opts dry real w = Some (r, w')"
  obtains "w' = w" | "\<not> test_mode opts" "real w = Some (r, w')"
  using assms
  by (auto simp: unless_test_def bindM_Some_iff py_item_def test_mode_def dget_def
      split: pyval.splits option.splits if_splits)

lemma unless_dry_run:
  "unless_dry opts dry real w =
     (if is_dict opts then if test_mode opts then Some (Ok dry, w) else real w
      else Some (Exc (attr_error opts ''get''), w))"
  by (cases opts) (simp_all add: unless_dry_def test_mode_def py_get_def)

lemma unless_dry_cases:
  assumes "unless_dry opts dry real w = Some (r, w')"
  obtains "w' = w" | "\<not> test_mode opts" "real w = Some (r, w')"
  using assms by (auto simp: unless_dry_run split: if_splits)

lemma unless_dry_rules [spec_intros]:
  "returns real \<Longrightarrow> returns (unless_dry opts dry real)"
  "keeps evolves real \<Longrightarrow> keeps evolves (unless_dry opts dry real)"
  "(\<not> test_mode opts \<Longrightarrow> keeps (sends_only P) real) \<Longrightarrow> keeps (sends_only P) (unless_dry opts dry real)"
proof -
  show "keeps (sends_only P) (unless_dry opts dry real)" if "\<not> test_mode opts \<Longrightarrow> keeps (sends_only P) real"
    by (rule keepsI) (auto elim!: unless_dry_cases simp: so.refl_step dest: keepsD [OF that])
qed (auto simp: unless_dry_def intro!: spec_intros)

lemma unless_test_rules [spec_intros]:
  "returns real \<Longrightarrow> returns (unless_test opts dry real)"
  "keeps evolves real \<Longrightarrow> keeps evolves (unless_test opts dry real)"
  "(\<not> test_mode opts \<Longrightarrow> keeps (sends_only P) real) \<Longrightarrow> keeps (sends_only P) (unless_test opts dry real)"
proof -
  show "keeps (sends_only P) (unless_test opts dry real)" if "\<not> test_mode opts \<Longrightarrow> keeps (sends_only P) real"
    by (rule keepsI) (auto elim!: unless_test_cases simp: so.refl_step dest: keepsD [OF that])
qed (auto simp: unless_test_def intro!: spec_intros)

lemma ensure_rules [spec_intros]:
  "returns lookup \<Longrightarrow> returns create \<Longrightarrow> returns (ensure_present opts name lookup create a b c)"
  "returns lookup \<Longrightarrow> returns remove \<Longrightarrow> returns (ensure_absent opts name lookup remove a b c)"
  "keeps evolves lookup \<Longrightarrow> keeps evolves create \<Longrightarrow> keeps evolves (ensure_present opts name lookup create a b c)"
  "keeps evolves lookup \<Longrightarrow> keeps evolves remove \<Longrightarrow> keeps evolves (ensure_absent opts name lookup remove a b c)"
  "returns lookup \<Longrightarrow> (\<And>c. returns (remove_of c)) \<Longrightarrow> returns (ensure_absent_of opts name lookup remove_of a b c)"
  "keeps evolves lookup \<Longrightarrow> (\<And>c. keeps evolves (remove_of c)) \<Longrightarrow>
     keeps evolves (ensure_absent_of opts name lookup remove_of a b c)"
  by (auto simp: ensure_present_def ensure_absent_def ensure_absent_of_def intro!: spec_intros)

subsection \<open>What a state returns\<close>

text \<open>\<open>yields P m\<close>: whatever \<open>m\<close> returns satisfies \<open>P\<close>.\<close>

definition yields :: "('a \<Rightarrow> bool) \<Rightarrow> 'a io \<Rightarrow> bool" where
  "yields P m \<longleftrightarrow> (\<forall>w r w'. m w = Some (Ok r, w') \<longrightarrow> P r)"

lemma yieldsD: "yields P m \<Longrightarrow> m w = Some (Ok r, w') \<Longrightarrow> P r"
  by (auto simp: yields_def)

lemma yields_rules [spec_intros]:
  "P x \<Longrightarrow> yields P (pureM x)" "yields P (raiseM e)"
  "(\<And>y. yields P (f y)) \<Longrightarrow> yields P (bindM n f)"
  "(b \<Longrightarrow> yields P m1) \<Longrightarrow> (\<not> b \<Longrightarrow> yields P m2) \<Longrightarrow> yields P (if b then m1 else m2)"
  "yields P (h v) \<Longrightarrow> yields P (let x = v in h x)"
  by (auto simp: yields_def bindM_Some_iff)

text \<open>
  The contract between a state and Salt: the name is its own, the changes are a dict, \<open>None\<close> is only the
  answer of a dry run, a dry run reports no change as done, and a failure no change at all.
\<close>

definition well_formed_ret :: "pyval \<Rightarrow> string \<Rightarrow> salt_ret \<Rightarrow> bool" where
  "well_formed_ret opts name r \<longleftrightarrow> ret_name r = name \<and> is_dict (ret_changes r) \<and>
     (ret_result r = None \<longrightarrow> test_mode opts) \<and>
     (test_mode opts \<and> ret_result r = Some True \<longrightarrow> ret_changes r = empty_dict) \<and>
     (ret_result r = Some False \<longrightarrow> ret_changes r = empty_dict)"

lemma well_formed_simps [simp]:
  "well_formed_ret opts name (unchanged name c)"
  "well_formed_ret opts name (would name c) = test_mode opts"
  "well_formed_ret opts name ((would name c)\<lparr>ret_changes := PDict d\<rparr>) = test_mode opts"
  "well_formed_ret opts name (changed name d c) = (test_mode opts \<longrightarrow> d = [])"
  by (auto simp: well_formed_ret_def)

lemma refused_simps [simp]:
  "ret_name (refused n c) = n" "ret_result (refused n c) = Some False" "ret_changes (refused n c) = empty_dict"
  "ret_comment (refused n c) = c" "well_formed_ret opts n (refused n c)"
  by (simp_all add: refused_def well_formed_ret_def)

lemma py_item_dict [simp]: "py_item (PDict d) k = Ok x \<longleftrightarrow> map_of d k = Some x"
  by (auto simp: py_item_def split: option.splits)

lemma test_mode_item: "py_item opts ''test'' = Ok t \<Longrightarrow> truthy t = test_mode opts"
  by (auto simp: py_item_def test_mode_def dget_def split: pyval.splits option.splits)

lemma yields_unless_test [spec_intros]:
  "(test_mode opts \<Longrightarrow> P dry) \<Longrightarrow> (\<not> test_mode opts \<Longrightarrow> yields P real) \<Longrightarrow> yields P (unless_test opts dry real)"
  by (auto simp: unless_test_def yields_def bindM_Some_iff dest!: test_mode_item split: if_splits)

lemma yields_unless_dry [spec_intros]:
  "(test_mode opts \<Longrightarrow> P dry) \<Longrightarrow> (\<not> test_mode opts \<Longrightarrow> yields P real) \<Longrightarrow> yields P (unless_dry opts dry real)"
  by (auto simp: unless_dry_run yields_def split: if_splits)

lemma yields_ensure [spec_intros]:
  "yields (well_formed_ret opts name) (ensure_present opts name lookup create a b c)"
  "yields (well_formed_ret opts name) (ensure_absent opts name lookup remove a b c)"
  "yields (well_formed_ret opts name) (ensure_absent_of opts name lookup remove_of a b c)"
  by (auto simp: ensure_present_def ensure_absent_def ensure_absent_of_def intro!: spec_intros)

text \<open>In a dry run the presence states only look.\<close>

lemma ensure_dry [spec_intros]:
  "test_mode opts \<Longrightarrow> keeps (sends_only P) lookup \<Longrightarrow> keeps (sends_only P) (ensure_present opts name lookup create a b c)"
  "test_mode opts \<Longrightarrow> keeps (sends_only P) lookup \<Longrightarrow> keeps (sends_only P) (ensure_absent opts name lookup remove a b c)"
  "test_mode opts \<Longrightarrow> keeps (sends_only P) lookup \<Longrightarrow> keeps (sends_only P) (ensure_absent_of opts name lookup remove_of a b c)"
  by (auto simp: ensure_present_def ensure_absent_def ensure_absent_of_def intro!: spec_intros)

text \<open>
  A state keeps its contract: whatever it returns is well formed, and in a dry run it sends
  nothing but requests that only look.
\<close>

definition keeps_contract :: "(request \<Rightarrow> bool) \<Rightarrow> pyval \<Rightarrow> string \<Rightarrow> salt_ret io \<Rightarrow> bool" where
  "keeps_contract looks opts name prog \<longleftrightarrow>
     yields (well_formed_ret opts name) prog \<and> (test_mode opts \<longrightarrow> keeps (sends_only looks) prog)"

lemma keeps_contractI:
  "yields (well_formed_ret opts name) prog \<Longrightarrow> (test_mode opts \<Longrightarrow> keeps (sends_only looks) prog) \<Longrightarrow>
     keeps_contract looks opts name prog"
  by (simp add: keeps_contract_def)

subsection \<open>The store\<close>

text \<open>
  \<open>keep meth path body old\<close> is the object the service holds after it took a \<open>PUT\<close> or \<open>PATCH\<close> of \<open>body\<close>
  to a path that held \<open>old\<close>: services add fields of their own.
\<close>

type_synonym store = "string \<Rightarrow> dict option"
type_synonym keeping = "string \<Rightarrow> string \<Rightarrow> pyval \<Rightarrow> dict option \<Rightarrow> dict"

definition path_of :: "string \<Rightarrow> request \<Rightarrow> string" where
  "path_of base rq = drop (length base) (rq_url rq)"

definition store_step :: "string \<Rightarrow> keeping \<Rightarrow> request \<Rightarrow> store \<Rightarrow> store" where
  "store_step base keep rq m =
     (let q = path_of base rq in
      if rq_method rq = ''PUT'' \<or> rq_method rq = ''PATCH'' then m(q \<mapsto> keep (rq_method rq) q (rq_json rq) (m q))
      else if rq_method rq = ''DELETE'' then m(q := None)
      else m)"

text \<open>What an exchange looks like when the service holds \<open>m\<close>.\<close>

definition answers :: "string \<Rightarrow> store \<Rightarrow> request \<Rightarrow> net_reply \<Rightarrow> bool" where
  "answers base m rq reply =
     (case reply of
        NetFail _ _ \<Rightarrow> False
      | Reply _ r \<Rightarrow>
          if rq_method rq = ''GET'' then
            (case m (path_of base rq) of
               Some d \<Rightarrow> rs_error r = None \<and> has_content r \<and> json_value r = Some (PDict d)
             | None \<Rightarrow> rs_error r \<noteq> None \<and> status_code r = 404)
          else rs_error r = None \<and> (has_content r \<longrightarrow> json_value r \<noteq> None))"

text \<open>A request for one of the paths \<open>P\<close>.\<close>

definition object_request :: "string \<Rightarrow> string set \<Rightarrow> request \<Rightarrow> bool" where
  "object_request base P rq \<longleftrightarrow> rq_method rq \<in> {''GET'', ''PUT'', ''PATCH'', ''DELETE''} \<and>
     rq_params rq = PNone \<and> (\<exists>q \<in> P. rq_url rq = base @ q)"

text \<open>
  The abstraction: from \<open>w\<close> on, as long as only objects at the paths \<open>P\<close> are asked for, every answer
  is that of the store that started as \<open>m\<close>.
\<close>

definition store_view :: "string \<Rightarrow> string set \<Rightarrow> keeping \<Rightarrow> store \<Rightarrow> world \<Rightarrow> bool" where
  "store_view base P keep m w \<longleftrightarrow>
     (\<forall>t rqs rq. (\<forall>q \<in> set rqs. object_request base P q) \<and> object_request base P rq \<longrightarrow>
        answers base (fold (store_step base keep) rqs m) rq (net w t (sent w @ rqs @ [rq])))"

lemma path_of_url [simp]: "rq_url rq = base @ q \<Longrightarrow> path_of base rq = q"
  by (simp add: path_of_def)

lemma store_view_answer:
  assumes "store_view base P keep m w" "object_request base P rq"
  shows "answers base m rq (net w t (sent w @ [rq]))"
  using assms unfolding store_view_def by (metis append_Nil empty_iff empty_set fold_simps(1))

lemma store_view_step:
  assumes view: "store_view base P keep m w" and rq: "object_request base P rq"
    and "net w' = net w" "sent w' = sent w @ [rq]"
  shows "store_view base P keep (store_step base keep rq m) w'"
  unfolding store_view_def
proof (intro allI impI)
  fix t rqs q assume ok: "(\<forall>x \<in> set rqs. object_request base P x) \<and> object_request base P q"
  have "answers base (fold (store_step base keep) (rq # rqs) m) q (net w t (sent w @ (rq # rqs) @ [q]))"
    using view ok rq unfolding store_view_def by (metis set_ConsD)
  then show "answers base (fold (store_step base keep) rqs (store_step base keep rq m)) q
      (net w' t (sent w' @ rqs @ [q]))"
    using assms(3,4) by simp
qed

text \<open>One exchange over a session, for a helper whose login is at hand.\<close>

definition meets_store :: "string \<Rightarrow> string set \<Rightarrow> keeping \<Rightarrow> store \<Rightarrow> request \<Rightarrow> http_response \<Rightarrow> world \<Rightarrow> bool" where
  "meets_store base P keep m rq resp w' \<longleftrightarrow>
     (\<exists>d. answers base m rq (Reply d resp)) \<and> store_view base P keep (store_step base keep rq m) w'"

lemma http_send_view:
  assumes "store_view base P keep m w" "object_request base P rq"
  shows "\<exists>resp w'. http_send rq w = Some (Ok resp, w') \<and> meets_store base P keep m rq resp w' \<and> caches w' = caches w \<and>
    sent w' = sent w @ [rq]"
proof -
  have ans: "answers base m rq (net w (clock w) (sent w @ [rq]))"
    by (rule store_view_answer [OF assms])
  then obtain d resp where reply: "net w (clock w) (sent w @ [rq]) = Reply d resp"
    by (cases "net w (clock w) (sent w @ [rq])") (auto simp: answers_def)
  let ?w' = "w\<lparr>sent := sent w @ [rq], clock := clock w + int d\<rparr>"
  have "store_view base P keep (store_step base keep rq m) ?w'"
    by (rule store_view_step [OF assms]) simp_all
  with ans reply show ?thesis
    by (auto simp: http_send_def Let_def meets_store_def)
qed

lemma meets_store_status:
  assumes "meets_store base P keep m rq resp w'"
  shows "(rq_method rq = ''GET'' \<and> m (path_of base rq) = None \<and> (\<exists>e. raise_for_status resp = raiseM e \<and> http_status_is e 404)) \<or>
    ((rq_method rq = ''GET'' \<longrightarrow> m (path_of base rq) \<noteq> None) \<and> raise_for_status resp = pureM ())"
  using assms
  by (auto simp: meets_store_def answers_def raise_for_status_def http_status_is_def split: option.splits if_splits)

lemma meets_store_json:
  assumes "meets_store base P keep m rq resp w'"
  shows "rq_method rq = ''GET'' \<Longrightarrow> m (path_of base rq) = Some d \<Longrightarrow> json_or_empty resp = pureM (PDict d)"
    and "rq_method rq \<noteq> ''GET'' \<Longrightarrow> \<exists>v. json_or_empty resp = pureM v"
  using assms
  by (auto simp: meets_store_def answers_def json_or_empty_def response_json_def fun_eq_iff split: option.splits if_splits)

lemma session_call_view:
  assumes acq: "acquire w = Some (Ok (s, host), w0)" and view: "store_view base P keep m w0"
    and base: "base = ''https://'' @ py_str host" and q: "q \<in> P"
    and meth: "meth \<in> {''GET'', ''PUT'', ''PATCH'', ''DELETE''}"
  shows "\<exists>resp w' rq. rq_method rq = meth \<and> path_of base rq = q \<and> rq_json rq = body \<and>
    meets_store base P keep m rq resp w' \<and> sent w' = sent w0 @ [rq] \<and>
    session_call acquire meth q PNone body t w = bindM (raise_for_status resp) (\<lambda>_. pureM resp) w'"
proof -
  let ?rq = "session_rq s meth (https_url host q) PNone body [] t"
  have "object_request base P ?rq"
    using q meth by (auto simp: object_request_def session_rq_def https_url_def base)
  from http_send_view [OF view this] obtain resp w' where
    "http_send ?rq w0 = Some (Ok resp, w')" "meets_store base P keep m ?rq resp w'" "sent w' = sent w0 @ [?rq]" by blast
  with acq show ?thesis
    by (intro exI [of _ resp] exI [of _ w'] exI [of _ ?rq])
      (simp add: session_call_def session_request_def path_of_def, simp add: session_rq_def https_url_def base)
qed

text \<open>What a \<open>GET\<close> raises for a path that holds nothing.\<close>

definition raises_404 :: "'a io \<Rightarrow> world \<Rightarrow> world \<Rightarrow> bool" where
  "raises_404 m w w' \<longleftrightarrow> (\<exists>e. m w = Some (Exc e, w') \<and> http_status_is e 404)"

lemma none_if_missing_view:
  assumes "case v of Some d \<Rightarrow> m w = Some (Ok (PDict d), w') | None \<Rightarrow> raises_404 m w w'"
  shows "none_if_missing m w = Some (Ok (case v of None \<Rightarrow> PNone | Some d \<Rightarrow> PDict d), w')"
  using assms by (cases v) (auto simp: raises_404_def none_if_missing_run)

subsection \<open>Simulation\<close>

text \<open>Nothing but \<open>GET\<close> went out.\<close>

abbreviation only_gets :: "world \<Rightarrow> world \<Rightarrow> bool" where
  "only_gets \<equiv> sends_only (\<lambda>rq. rq_method rq = ''GET'')"

lemma only_gets_sent: "sent w' = sent w @ [rq] \<Longrightarrow> rq_method rq = ''GET'' \<Longrightarrow> only_gets w w'"
  by (simp add: sends_only_def)

text \<open>
  What a state means for its caller, without the wording. A program refines an operation on what the service holds when
  it has its outcome and its effect; where the operation reports no change, the program only looks.
\<close>

definition outcome :: "salt_ret \<Rightarrow> bool option \<times> pyval" where
  "outcome r = (ret_result r, ret_changes r)"

definition refines :: "('s \<Rightarrow> world \<Rightarrow> bool) \<Rightarrow> salt_ret io \<Rightarrow> ('s \<Rightarrow> (bool option \<times> pyval) \<times> 's) \<Rightarrow> bool" where
  "refines view prog spec \<longleftrightarrow>
     (\<forall>m w. view m w \<longrightarrow>
        (\<exists>r w'. prog w = Some (Ok r, w') \<and> outcome r = fst (spec m) \<and> view (snd (spec m)) w' \<and>
           (snd (fst (spec m)) = empty_dict \<longrightarrow> only_gets w w')))"

text \<open>The operations on the store that \<open>present\<close> and \<open>absent\<close> stand for.\<close>

definition present_spec :: "bool \<Rightarrow> string \<Rightarrow> string \<Rightarrow> dict \<Rightarrow> store \<Rightarrow> (bool option \<times> pyval) \<times> store" where
  "present_spec test name q made m =
     (if m q \<noteq> None then ((Some True, empty_dict), m)
      else if test then ((None, empty_dict), m)
      else ((Some True, PDict [(''new'', PStr name)]), m(q \<mapsto> made)))"

definition absent_spec :: "bool \<Rightarrow> string \<Rightarrow> string \<Rightarrow> store \<Rightarrow> (bool option \<times> pyval) \<times> store" where
  "absent_spec test name q m =
     (if m q = None then ((Some True, empty_dict), m)
      else if test then ((None, empty_dict), m)
      else ((Some True, PDict [(''deleted'', PStr name)]), m(q := None)))"

text \<open>
  Convergence: one real run reaches a store where \<open>goal\<close> holds, and a second run finds nothing to
  do, sends nothing but \<open>GET\<close> and leaves that store as it is.
\<close>

definition converges :: "('s \<Rightarrow> world \<Rightarrow> bool) \<Rightarrow> salt_ret io \<Rightarrow> ('s \<Rightarrow> bool) \<Rightarrow> bool" where
  "converges view prog goal \<longleftrightarrow>
     (\<forall>m w. view m w \<longrightarrow>
        (\<exists>r1 w1 m1 r2 w2. prog w = Some (Ok r1, w1) \<and> ret_result r1 = Some True \<and> view m1 w1 \<and> goal m1 \<and>
           prog w1 = Some (Ok r2, w2) \<and> outcome r2 = (Some True, empty_dict) \<and> view m1 w2 \<and> only_gets w1 w2))"

lemma refinesD:
  assumes "refines view prog spec" "view m w"
  obtains r w' where "prog w = Some (Ok r, w')" "outcome r = fst (spec m)" "view (snd (spec m)) w'"
    "snd (fst (spec m)) = empty_dict \<longrightarrow> only_gets w w'"
  using assms unfolding refines_def by blast

text \<open>The contract of the client calls a presence state is written with.\<close>

locale rest_object =
  fixes view :: "store \<Rightarrow> world \<Rightarrow> bool"
    and lookup :: "pyval io" and create :: "'a io" and remove :: "'b io"
    and path :: string and made :: dict
  assumes lookup_view: "view m w \<Longrightarrow>
        \<exists>w'. lookup w = Some (Ok (case m path of None \<Rightarrow> PNone | Some d \<Rightarrow> PDict d), w') \<and> view m w' \<and> only_gets w w'"
    and create_view: "view m w \<Longrightarrow> m path = None \<Longrightarrow>
        \<exists>v w'. create w = Some (Ok v, w') \<and> view (m(path \<mapsto> made)) w'"
    and remove_view: "view m w \<Longrightarrow> m path \<noteq> None \<Longrightarrow>
        \<exists>v w'. remove w = Some (Ok v, w') \<and> view (m(path := None)) w'"
begin

lemma present_refines:
  assumes opts: "\<And>m w. view m w \<Longrightarrow> \<exists>t. py_item opts ''test'' = Ok t \<and> truthy t = test"
  shows "refines view (ensure_present opts name lookup create a b c) (present_spec test name path made)"
  unfolding refines_def
proof (intro allI impI)
  fix m w assume view: "view m w"
  obtain t where t: "py_item opts ''test'' = Ok t" "truthy t = test" using opts [OF view] by blast
  from lookup_view [OF view] obtain w1 where
    look: "lookup w = Some (Ok (case m path of None \<Rightarrow> PNone | Some d \<Rightarrow> PDict d), w1)" "view m w1" "only_gets w w1" by blast
  show "\<exists>r w'. ensure_present opts name lookup create a b c w = Some (Ok r, w') \<and>
      outcome r = fst (present_spec test name path made m) \<and> view (snd (present_spec test name path made m)) w' \<and>
      (snd (fst (present_spec test name path made m)) = empty_dict \<longrightarrow> only_gets w w')"
  proof (cases "m path")
    case None
    from create_view [OF look(2) None] obtain v w2 where "create w1 = Some (Ok v, w2)" "view (m(path \<mapsto> made)) w2" by blast
    with look None t show ?thesis
      by (cases test) (auto simp: ensure_present_def unless_test_def present_spec_def outcome_def)
  qed (use look in \<open>auto simp: ensure_present_def present_spec_def outcome_def\<close>)
qed

lemma absent_refines:
  assumes opts: "\<And>m w. view m w \<Longrightarrow> \<exists>t. py_item opts ''test'' = Ok t \<and> truthy t = test"
  shows "refines view (ensure_absent opts name lookup remove a b c) (absent_spec test name path)"
  unfolding refines_def
proof (intro allI impI)
  fix m w assume view: "view m w"
  obtain t where t: "py_item opts ''test'' = Ok t" "truthy t = test" using opts [OF view] by blast
  from lookup_view [OF view] obtain w1 where
    look: "lookup w = Some (Ok (case m path of None \<Rightarrow> PNone | Some d \<Rightarrow> PDict d), w1)" "view m w1" "only_gets w w1" by blast
  show "\<exists>r w'. ensure_absent opts name lookup remove a b c w = Some (Ok r, w') \<and>
      outcome r = fst (absent_spec test name path m) \<and> view (snd (absent_spec test name path m)) w' \<and>
      (snd (fst (absent_spec test name path m)) = empty_dict \<longrightarrow> only_gets w w')"
  proof (cases "m path")
    case (Some d)
    then have "m path \<noteq> None" by simp
    from remove_view [OF look(2) this] obtain v w2 where "remove w1 = Some (Ok v, w2)" "view (m(path := None)) w2" by blast
    with look Some t show ?thesis
      by (cases test) (auto simp: ensure_absent_def unless_test_def absent_spec_def outcome_def)
  qed (use look in \<open>auto simp: ensure_absent_def absent_spec_def outcome_def\<close>)
qed

end

text \<open>An operation on the store whose second run does nothing makes its refinements converge.\<close>

lemma refines_converges_from:
  assumes "refines view prog spec"
    and "\<And>m w. view m w \<Longrightarrow> fst (fst (spec m)) = Some True" "\<And>m w. view m w \<Longrightarrow> goal (snd (spec m))"
    and again: "\<And>m w. view m w \<Longrightarrow> spec (snd (spec m)) = ((Some True, empty_dict), snd (spec m))"
  shows "converges view prog goal"
  unfolding converges_def
proof (intro allI impI)
  fix m w assume view: "view m w"
  with assms(1) obtain r1 w1 where 1: "prog w = Some (Ok r1, w1)" "outcome r1 = fst (spec m)" "view (snd (spec m)) w1"
    by (rule refinesD)
  from assms(1) 1(3) obtain r2 w2 where 2: "prog w1 = Some (Ok r2, w2)" "outcome r2 = fst (spec (snd (spec m)))"
    "view (snd (spec (snd (spec m)))) w2" "snd (fst (spec (snd (spec m)))) = empty_dict \<longrightarrow> only_gets w1 w2"
    by (rule refinesD)
  from 1(2) assms(2) [OF view] have "ret_result r1 = Some True" by (metis outcome_def fst_conv)
  with 1 2 assms(3) [OF view] again [OF view]
  show "\<exists>r1 w1 m1 r2 w2. prog w = Some (Ok r1, w1) \<and> ret_result r1 = Some True \<and> view m1 w1 \<and> goal m1 \<and>
      prog w1 = Some (Ok r2, w2) \<and> outcome r2 = (Some True, empty_dict) \<and> view m1 w2 \<and> only_gets w1 w2"
    by (metis fst_conv snd_conv)
qed

lemma refines_converges:
  assumes "refines view prog spec"
    and "\<And>m. fst (fst (spec m)) = Some True" "\<And>m. goal (snd (spec m))"
    and again: "\<And>m. spec (snd (spec m)) = ((Some True, empty_dict), snd (spec m))"
  shows "converges view prog goal"
  by (rule refines_converges_from [where spec = spec]) (simp_all only: assms)

lemma present_spec_real [simp]:
  "fst (fst (present_spec False name q made m)) = Some True"
  "snd (present_spec False name q made m) q \<noteq> None"
  "present_spec False name q made (snd (present_spec False name q made m)) =
     ((Some True, empty_dict), snd (present_spec False name q made m))"
  by (auto simp: present_spec_def)

lemma absent_spec_real [simp]:
  "fst (fst (absent_spec False name q m)) = Some True"
  "snd (absent_spec False name q m) q = None"
  "absent_spec False name q (snd (absent_spec False name q m)) =
     ((Some True, empty_dict), snd (absent_spec False name q m))"
  by (auto simp: absent_spec_def)

lemma present_converges:
  "refines view prog (present_spec False name q made) \<Longrightarrow> converges view prog (\<lambda>m. m q \<noteq> None)"
  by (erule refines_converges) (auto simp: present_spec_def)

lemma absent_converges:
  "refines view prog (absent_spec False name q) \<Longrightarrow> converges view prog (\<lambda>m. m q = None)"
  by (erule refines_converges) (auto simp: absent_spec_def)

subsection \<open>Documents that are read, compared and written back\<close>

text \<open>The store holds a document at \<open>q\<close> that satisfies \<open>ok\<close>.\<close>

definition holding :: "(store \<Rightarrow> world \<Rightarrow> bool) \<Rightarrow> string \<Rightarrow> (dict \<Rightarrow> bool) \<Rightarrow> store \<Rightarrow> world \<Rightarrow> bool" where
  "holding view q ok m w \<longleftrightarrow> view m w \<and> (\<exists>d. m q = Some d \<and> ok d)"

definition reached :: "string \<Rightarrow> (dict \<Rightarrow> bool) \<Rightarrow> store \<Rightarrow> bool" where
  "reached q settled m \<longleftrightarrow> (\<exists>d. m q = Some d \<and> settled d)"

text \<open>
  The contract of the two calls on a document. \<open>put b d\<close> is the document after writing \<open>b\<close> over \<open>d\<close>.
\<close>

locale rest_document =
  fixes view :: "store \<Rightarrow> world \<Rightarrow> bool"
    and fetch :: "pyval io" and save :: "'b \<Rightarrow> 'c io"
    and path :: string and put :: "'b \<Rightarrow> dict \<Rightarrow> dict"
  assumes fetch_view: "view m w \<Longrightarrow> m path = Some d \<Longrightarrow> \<exists>w'. fetch w = Some (Ok (PDict d), w') \<and> view m w' \<and> only_gets w w'"
    and save_view: "view m w \<Longrightarrow> m path = Some d \<Longrightarrow>
        \<exists>v w'. save b w = Some (Ok v, w') \<and> view (m(path \<mapsto> put b d)) w'"
begin

text \<open>
  A state that reads the document, does nothing when it is settled, and otherwise makes one save that
  settles it, converges.
\<close>

lemma converge:
  assumes quiet: "\<And>m w d w1. ok d \<Longrightarrow> settled d \<Longrightarrow> fetch w = Some (Ok (PDict d), w1) \<Longrightarrow>
      \<exists>r. prog w = Some (Ok r, w1) \<and> outcome r = (Some True, empty_dict)"
    and act: "\<And>m w d w1. view m w \<Longrightarrow> ok d \<Longrightarrow> \<not> settled d \<Longrightarrow> fetch w = Some (Ok (PDict d), w1) \<Longrightarrow>
      \<exists>b r. (\<forall>v w2. save b w1 = Some (Ok v, w2) \<longrightarrow> prog w = Some (Ok r, w2)) \<and> ret_result r = Some True \<and>
        ok (put b d) \<and> settled (put b d)"
  shows "converges (holding view path ok) prog (reached path settled)"
proof -
  have once: "\<exists>r w1 m1 d1. prog w = Some (Ok r, w1) \<and> ret_result r = Some True \<and> view m1 w1 \<and> m1 path = Some d1 \<and>
      ok d1 \<and> settled d1 \<and> (settled d \<longrightarrow> outcome r = (Some True, empty_dict) \<and> m1 = m \<and> only_gets w w1)"
    if "view m w" "m path = Some d" "ok d" for m w d
  proof -
    from fetch_view [OF that(1,2)] obtain w1 where r: "fetch w = Some (Ok (PDict d), w1)" "view m w1" "only_gets w w1" by blast
    show ?thesis
    proof (cases "settled d")
      case True
      from quiet [OF that(3) True r(1)] r(2,3) that True show ?thesis
        by (metis outcome_def prod.inject)
    next
      case False
      from act [OF that(1,3) False r(1)] obtain b x where
        b: "\<forall>v w2. save b w1 = Some (Ok v, w2) \<longrightarrow> prog w = Some (Ok x, w2)" "ret_result x = Some True"
          "ok (put b d)" "settled (put b d)" by blast
      from save_view [OF r(2) that(2), of b] obtain v w2 where
        w2: "save b w1 = Some (Ok v, w2)" "view (m(path \<mapsto> put b d)) w2" by blast
      moreover have "prog w = Some (Ok x, w2)" using b(1) w2(1) by blast
      moreover have "(m(path \<mapsto> put b d)) path = Some (put b d)" by simp
      ultimately show ?thesis using b False by blast
    qed
  qed
  show ?thesis
    unfolding converges_def holding_def reached_def
  proof (intro allI impI, elim conjE exE)
    fix m w d assume "view m w" "m path = Some d" "ok d"
    from once [OF this] obtain r1 w1 m1 d1 where
      1: "prog w = Some (Ok r1, w1)" "ret_result r1 = Some True" "view m1 w1" "m1 path = Some d1" "ok d1" "settled d1"
      by blast
    from once [OF 1(3,4,5)] 1(6) obtain r2 w2 where
      "prog w1 = Some (Ok r2, w2)" "outcome r2 = (Some True, empty_dict)" "view m1 w2" "only_gets w1 w2" by blast
    with 1 show "\<exists>r1 w1 m1 r2 w2. prog w = Some (Ok r1, w1) \<and> ret_result r1 = Some True \<and>
        (view m1 w1 \<and> (\<exists>d. m1 path = Some d \<and> ok d)) \<and> (\<exists>d. m1 path = Some d \<and> settled d) \<and>
        prog w1 = Some (Ok r2, w2) \<and> outcome r2 = (Some True, empty_dict) \<and>
        (view m1 w2 \<and> (\<exists>d. m1 path = Some d \<and> ok d)) \<and> only_gets w1 w2" by blast
  qed
qed

end

text \<open>What services document of their documents: a \<open>PUT\<close> replaces, a \<open>PATCH\<close> merges.\<close>

definition put_replaces :: "keeping \<Rightarrow> bool" where
  "put_replaces keep \<longleftrightarrow> (\<forall>q b old. keep ''PUT'' q (PDict b) old = b)"

definition patch_merges :: "keeping \<Rightarrow> bool" where
  "patch_merges keep \<longleftrightarrow> (\<forall>q b d. keep ''PATCH'' q (PDict b) (Some d) = dupdate d b)"

subsection \<open>A concrete service\<close>

text \<open>A service that is such a store, for the witnesses: it keeps the body of a \<open>PUT\<close> as it is and
  merges that of a \<open>PATCH\<close>.\<close>

definition plain_keep :: keeping where
  "plain_keep meth q body old =
     (let b = (case body of PDict b \<Rightarrow> b | _ \<Rightarrow> []) in
      if meth = ''PATCH'' then (case old of Some d \<Rightarrow> dupdate d b | None \<Rightarrow> b) else b)"

lemma plain_keep_documented: "put_replaces plain_keep" "patch_merges plain_keep"
  by (simp_all add: put_replaces_def patch_merges_def plain_keep_def)

definition store_net :: "string \<Rightarrow> keeping \<Rightarrow> store \<Rightarrow> int \<Rightarrow> request list \<Rightarrow> net_reply" where
  "store_net base keep m t h =
     (case rev h of
        [] \<Rightarrow> NetFail 1 ''nothing asked''
      | rq # before \<Rightarrow>
          (if rq_method rq = ''GET'' then
             (case fold (store_step base keep) (rev before) m (path_of base rq) of
                Some d \<Rightarrow> replies (json_response 200 (PDict d))
              | None \<Rightarrow> replies (text_response 404 ''missing''))
           else replies (json_response 200 empty_dict)))"

definition store_world :: "string \<Rightarrow> keeping \<Rightarrow> store \<Rightarrow> world" where
  "store_world base keep m = \<lparr>net = store_net base keep m, sent = [], clock = 0, caches = (\<lambda>_ _. None)\<rparr>"

lemma store_view_store_world: "store_view base P keep m (store_world base keep m)"
  by (auto simp: store_view_def store_world_def store_net_def answers_def replies_def json_response_def
      text_response_def status_message_def split: option.splits)

end
