(* ===== verification/Nsx_Store.thy ===== *)
theory Nsx_Store
  imports Nsx Rest_Store
begin

section \<open>Nsx_Store: NSX as a store of objects\<close>

text \<open>
  The calls of \<open>utils/nsx.py\<close> on an NSX manager that answers as a store (\<open>Rest_Store\<close>), and what the
  NSX clients share: the body of the create calls.
\<close>

definition nsx_view :: "pyval \<Rightarrow> profile \<Rightarrow> keeping \<Rightarrow> string set \<Rightarrow> store \<Rightarrow> world \<Rightarrow> bool" where
  "nsx_view opts p keep P m w \<longleftrightarrow>
     (\<exists>cfg t. nsx_get_config opts p = Ok cfg \<and> py_item opts ''test'' = Ok t \<and>
        store_view (''https://'' @ py_str (cfg_host cfg)) P keep m w)"

lemma nsx_session_run:
  "nsx_get_config opts p = Ok cfg \<Longrightarrow>
     nsx_session opts p w = Some (Ok (new_session\<lparr>s_verify := cfg_verify_ssl cfg, s_auth := basic_auth cfg\<rparr>, cfg_host cfg), w)"
  by (simp add: nsx_session_def)

lemma nsx_call_view:
  assumes view: "nsx_view opts p keep P m w" and q: "q \<in> P" and meth: "meth \<in> {''GET'', ''PUT'', ''PATCH'', ''DELETE''}"
  shows "\<exists>resp w' rq base cfg t. nsx_get_config opts p = Ok cfg \<and> py_item opts ''test'' = Ok t \<and>
    base = ''https://'' @ py_str (cfg_host cfg) \<and> rq_method rq = meth \<and> path_of base rq = q \<and> rq_json rq = body \<and>
    meets_store base P keep m rq resp w' \<and> sent w' = sent w @ [rq] \<and>
    session_call (nsx_session opts p) meth q PNone body tmo w = bindM (raise_for_status resp) (\<lambda>_. pureM resp) w'"
proof -
  from view obtain cfg t where cfg: "nsx_get_config opts p = Ok cfg" "py_item opts ''test'' = Ok t"
    and sv: "store_view (''https://'' @ py_str (cfg_host cfg)) P keep m w"
    by (auto simp: nsx_view_def)
  from session_call_view [where acquire = "nsx_session opts p", OF nsx_session_run [OF cfg(1), of w] sv refl q meth, of body tmo] cfg show ?thesis
    by blast
qed

lemma nsx_get_view:
  assumes "nsx_view opts p keep P m w" "q \<in> P"
  shows "\<exists>w'. (case m q of Some d \<Rightarrow> nsx_api_get opts q PNone p w = Some (Ok (PDict d), w')
      | None \<Rightarrow> raises_404 (nsx_api_get opts q PNone p) w w') \<and> nsx_view opts p keep P m w' \<and> only_gets w w'"
proof -
  from nsx_call_view [OF assms, of "''GET''" PNone "PInt 30"] obtain resp w' rq base cfg t where
    cfg: "nsx_get_config opts p = Ok cfg" "py_item opts ''test'' = Ok t" "base = ''https://'' @ py_str (cfg_host cfg)"
    and rq: "rq_method rq = ''GET''" "path_of base rq = q" and sent: "sent w' = sent w @ [rq]" and meets: "meets_store base P keep m rq resp w'"
    and run: "session_call (nsx_session opts p) ''GET'' q PNone PNone (PInt 30) w = bindM (raise_for_status resp) (\<lambda>_. pureM resp) w'"
    by auto
  have "store_view base P keep m w'"
    using meets rq by (simp add: meets_store_def store_step_def)
  then have view: "nsx_view opts p keep P m w' \<and> only_gets w w'"
    using cfg only_gets_sent [OF sent rq(1)] by (auto simp: nsx_view_def)
  show ?thesis
  proof (cases "m q")
    case None
    with meets_store_status [OF meets] rq obtain e where "raise_for_status resp = raiseM e" "http_status_is e 404" by auto
    with run None view show ?thesis by (auto simp: nsx_api_get_def raises_404_def bindM_def)
  next
    case (Some d)
    with meets_store_status [OF meets] meets_store_json(1) [OF meets] rq
    have "raise_for_status resp = pureM ()" "json_or_empty resp = pureM (PDict d)" by auto
    with run Some view show ?thesis by (auto simp: nsx_api_get_def bindM_def)
  qed
qed

lemma nsx_write_view:
  assumes "nsx_view opts p keep P m w" "q \<in> P" "meth \<in> {''PUT'', ''PATCH'', ''DELETE''}"
  shows "\<exists>resp w' v. session_call (nsx_session opts p) meth q PNone body tmo w = Some (Ok resp, w') \<and>
    json_or_empty resp = pureM v \<and>
    nsx_view opts p keep P (if meth = ''DELETE'' then m(q := None) else m(q \<mapsto> keep meth q body (m q))) w'"
proof -
  from assms(3) have "meth \<in> {''GET'', ''PUT'', ''PATCH'', ''DELETE''}" by auto
  from nsx_call_view [OF assms(1,2) this, of body tmo] obtain resp w' rq base cfg t where
    cfg: "nsx_get_config opts p = Ok cfg" "py_item opts ''test'' = Ok t" "base = ''https://'' @ py_str (cfg_host cfg)"
    and rq: "rq_method rq = meth" "path_of base rq = q" "rq_json rq = body" and meets: "meets_store base P keep m rq resp w'"
    and run: "session_call (nsx_session opts p) meth q PNone body tmo w = bindM (raise_for_status resp) (\<lambda>_. pureM resp) w'"
    by auto
  from assms(3) have not_get: "meth \<noteq> ''GET''" by auto
  have "store_view base P keep (if meth = ''DELETE'' then m(q := None) else m(q \<mapsto> keep meth q body (m q))) w'"
    using meets rq assms(3) by (auto simp: meets_store_def store_step_def)
  then have "nsx_view opts p keep P (if meth = ''DELETE'' then m(q := None) else m(q \<mapsto> keep meth q body (m q))) w'"
    using cfg by (auto simp: nsx_view_def)
  moreover have "raise_for_status resp = pureM ()" "\<exists>v. json_or_empty resp = pureM v"
    using meets_store_status [OF meets] meets_store_json(2) [OF meets] rq not_get by auto
  ultimately show ?thesis using run by auto
qed

lemma nsx_put_view:
  assumes "nsx_view opts p keep P m w" "q \<in> P"
  shows "\<exists>v w'. nsx_api_put opts q body PNone p w = Some (Ok v, w') \<and> nsx_view opts p keep P (m(q \<mapsto> keep ''PUT'' q body (m q))) w'"
  using nsx_write_view [OF assms, of "''PUT''" body "PInt 30"] by (auto simp: nsx_api_put_def)

lemma nsx_patch_view:
  assumes "nsx_view opts p keep P m w" "q \<in> P"
  shows "\<exists>v w'. nsx_api_patch opts q body PNone p w = Some (Ok v, w') \<and> nsx_view opts p keep P (m(q \<mapsto> keep ''PATCH'' q body (m q))) w'"
  using nsx_write_view [OF assms, of "''PATCH''" body "PInt 30"] by (auto simp: nsx_api_patch_def)

lemma nsx_delete_view:
  assumes "nsx_view opts p keep P m w" "q \<in> P"
  shows "\<exists>v w'. nsx_api_delete opts q PNone p w = Some (Ok v, w') \<and> nsx_view opts p keep P (m(q := None)) w'"
  using nsx_write_view [OF assms, of "''DELETE''" PNone "PInt 30"] by (auto simp: nsx_api_delete_def)

text \<open>The calls of an object whose path is \<open>q\<close>, created by a \<open>PUT\<close> of \<open>body\<close>, follow the contract.\<close>

lemma nsx_rest_object:
  assumes "get = nsx_api_get opts q PNone p" "create = nsx_api_put opts q body PNone p" "remove = nsx_api_delete opts q PNone p"
  shows "rest_object (nsx_view opts p keep (insert q P)) (none_if_missing get) create remove q (keep ''PUT'' q body None)"
proof unfold_locales
  show "\<exists>w'. none_if_missing get w = Some (Ok (case m q of None \<Rightarrow> PNone | Some d \<Rightarrow> PDict d), w') \<and>
      nsx_view opts p keep (insert q P) m w' \<and> only_gets w w'" if "nsx_view opts p keep (insert q P) m w" for m w
    using nsx_get_view [OF that, of q] none_if_missing_view unfolding assms(1) by blast
  show "\<exists>v w'. create w = Some (Ok v, w') \<and> nsx_view opts p keep (insert q P) (m(q \<mapsto> keep ''PUT'' q body None)) w'"
    if "nsx_view opts p keep (insert q P) m w" "m q = None" for m w
    using nsx_put_view [OF that(1), of q body] that(2) unfolding assms(2) by simp
  show "\<exists>v w'. remove w = Some (Ok v, w') \<and> nsx_view opts p keep (insert q P) (m(q := None)) w'"
    if "nsx_view opts p keep (insert q P) m w" "m q \<noteq> None" for m w
    using nsx_delete_view [OF that(1), of q] unfolding assms(3) by simp
qed

text \<open>A document with its own path.\<close>

lemma nsx_rest_document:
  assumes "fetch = nsx_api_get opts q PNone p"
    and "\<And>m w d b. nsx_view opts p keep (insert q P) m w \<Longrightarrow> m q = Some d \<Longrightarrow>
      \<exists>v w'. save b w = Some (Ok v, w') \<and> nsx_view opts p keep (insert q P) (m(q \<mapsto> put b d)) w'"
  shows "rest_document (nsx_view opts p keep (insert q P)) fetch save q put"
proof unfold_locales
  show "\<exists>w'. fetch w = Some (Ok (PDict d), w') \<and> nsx_view opts p keep (insert q P) m w' \<and> only_gets w w'"
    if "nsx_view opts p keep (insert q P) m w" "m q = Some d" for m w d
    using nsx_get_view [OF that(1), of q] that(2) by (auto simp: assms(1))
qed (rule assms(2))

lemma nsx_view_opts:
  assumes "nsx_view opts p keep P m w" shows "\<exists>t. py_item opts ''test'' = Ok t \<and> truthy t = test_mode opts"
  using assms
  by (auto simp: nsx_view_def py_item_def test_mode_def dget_def split: pyval.splits option.splits)

text \<open>An NSX manager that is a store, for the witnesses.\<close>

lemma nsx_config_for [simp]:
  "nsx_get_config (opts_run_for ''nsx'') None =
     Ok \<lparr>cfg_host = PStr ''h'', cfg_username = PStr ''u'', cfg_password = PStr ''p'', cfg_verify_ssl = PBool True\<rparr>"
  "nsx_get_config (opts_test_for ''nsx'') None =
     Ok \<lparr>cfg_host = PStr ''h'', cfg_username = PStr ''u'', cfg_password = PStr ''p'', cfg_verify_ssl = PBool True\<rparr>"
  "\<not> test_mode (opts_run_for ''nsx'')" "test_mode (opts_test_for ''nsx'')"
  "py_item (opts_run_for ''nsx'') ''test'' = Ok (PBool False)" "py_item (opts_test_for ''nsx'') ''test'' = Ok (PBool True)"
  by (simp_all add: nsx_get_config_def eval_simps test_mode_def py_item_def)

lemma nsx_store_world:
  "nsx_view (opts_run_for ''nsx'') None keep P m (store_world ''https://h'' keep m)"
  "nsx_view (opts_test_for ''nsx'') None keep P m (store_world ''https://h'' keep m)"
  using store_view_store_world [of "''https://h''" P keep m]
  by (simp_all add: nsx_view_def)

text \<open>A \<open>GET\<close> sends nothing else.\<close>

definition is_get :: "request \<Rightarrow> bool" where
  "is_get rq \<longleftrightarrow> rq_method rq = ''GET''"

lemma session_call_sends:
  assumes "keeps (sends_only P) acquire" "\<And>s u j. P (session_rq s meth u q b [] t)"
  shows "keeps (sends_only P) (session_call acquire meth path q b t)"
  using assms by (auto simp: session_call_def intro!: spec_intros)

lemma nsx_get_reads [spec_intros]: "keeps (sends_only is_get) (nsx_api_get opts path q p)"
  by (auto simp: nsx_api_get_def is_get_def session_rq_def intro!: session_call_sends spec_intros)

subsection \<open>The body of the create calls\<close>

text \<open>
  \<open>{"display_name": spec.pop("display_name", ident), ...}\<close> updated with the rest of \<open>spec\<close>, where \<open>spec\<close>
  is the dict of keyword arguments. (A keyword that is also a parameter of the function never gets
  there: Python refuses the call.)
\<close>

definition named_body :: "pyval \<Rightarrow> dict \<Rightarrow> dict \<Rightarrow> pyval" where
  "named_body ident fixed spec =
     PDict (dupdate ((''display_name'', dget spec ''display_name'' ident) # fixed) (ddel spec ''display_name''))"

text \<open>The same with \<open>"resource_type": spec.pop("resource_type", kind)\<close> in front.\<close>

definition typed_body :: "string \<Rightarrow> pyval \<Rightarrow> dict \<Rightarrow> pyval" where
  "typed_body kind ident spec =
     PDict (dupdate
       [(''resource_type'', dget spec ''resource_type'' (PStr kind)), (''display_name'', dget spec ''display_name'' ident)]
       (ddel (ddel spec ''resource_type'') ''display_name''))"

text \<open>And where the type is an argument.\<close>

definition kind_body :: "pyval \<Rightarrow> pyval \<Rightarrow> dict \<Rightarrow> pyval" where
  "kind_body kind ident spec =
     PDict (dupdate [(''resource_type'', kind), (''display_name'', dget spec ''display_name'' ident)]
       (ddel spec ''display_name''))"

lemma named_body_fields:
  assumes "distinct (map fst spec)" "''display_name'' \<notin> fst ` set fixed"
  shows "\<exists>b. named_body ident fixed spec = PDict b \<and> dget b ''display_name'' PNone = dget spec ''display_name'' ident \<and>
    (\<forall>k v. map_of spec k = Some v \<longrightarrow> map_of b k = Some v)"
proof -
  have "distinct (map fst (ddel d k))" if "distinct (map fst d)" for d :: dict and k
  proof -
    have "fst ` set (ddel d k) \<subseteq> fst ` set d" for d :: dict
      by (induction d k rule: ddel.induct) auto
    with that show ?thesis by (induction d k rule: ddel.induct) auto
  qed
  then show ?thesis using assms
    by (auto simp: named_body_def map_of_dupdate dget_def map_add_def split: option.split)
qed

end
