(* ===== verification/Nsx_Networking.thy ===== *)
theory Nsx_Networking
  imports Nsx_Store
begin

section \<open>Nsx_Networking: segments, gateways, profiles, the fabric\<close>

text \<open>
  The clients \<open>clients/nsx_*.py\<close> on networks and the transport fabric.
\<close>

subsection \<open>The NSX networking clients\<close>

text \<open>
  The REST calls on segments, gateways, DHCP and NAT.

  One definition per function of the client modules; identifiers and other arguments are
  Python values, keyword arguments (\<open>**spec\<close>) a dict.
\<close>

subsubsection \<open>\<open>clients/nsx_segment.py\<close>\<close>

definition nsx_segment_PATH :: "string" where
  "nsx_segment_PATH = ''/policy/api/v1/infra/segments''"

definition nsx_segment_list :: "pyval \<Rightarrow> profile \<Rightarrow> pyval io" where
  "nsx_segment_list opts profile = nsx_api_get opts nsx_segment_PATH PNone profile"

definition nsx_segment_get :: "pyval \<Rightarrow> pyval \<Rightarrow> profile \<Rightarrow> pyval io" where
  "nsx_segment_get opts segment profile =
     nsx_api_get opts (nsx_segment_PATH @ ''/'' @ py_str segment) PNone profile"

definition nsx_segment_get_or_none :: "pyval \<Rightarrow> pyval \<Rightarrow> profile \<Rightarrow> pyval io" where
  "nsx_segment_get_or_none opts segment profile = none_if_missing (nsx_segment_get opts segment profile)"

definition nsx_segment_create :: "pyval \<Rightarrow> pyval \<Rightarrow> profile \<Rightarrow> dict \<Rightarrow> pyval io" where
  "nsx_segment_create opts segment profile spec =
     nsx_api_put opts (nsx_segment_PATH @ ''/'' @ py_str segment)
       (named_body segment [] spec) PNone profile"

definition nsx_segment_delete :: "pyval \<Rightarrow> pyval \<Rightarrow> profile \<Rightarrow> pyval io" where
  "nsx_segment_delete opts segment profile =
     nsx_api_delete opts (nsx_segment_PATH @ ''/'' @ py_str segment) PNone profile"

subsubsection \<open>\<open>clients/nsx_tier0.py\<close>\<close>

definition nsx_tier0_PATH :: "string" where
  "nsx_tier0_PATH = ''/policy/api/v1/infra/tier-0s''"

definition nsx_tier0_list :: "pyval \<Rightarrow> profile \<Rightarrow> pyval io" where
  "nsx_tier0_list opts profile = nsx_api_get opts nsx_tier0_PATH PNone profile"

definition nsx_tier0_get :: "pyval \<Rightarrow> pyval \<Rightarrow> profile \<Rightarrow> pyval io" where
  "nsx_tier0_get opts tier0 profile = nsx_api_get opts (nsx_tier0_PATH @ ''/'' @ py_str tier0) PNone profile"

definition nsx_tier0_get_or_none :: "pyval \<Rightarrow> pyval \<Rightarrow> profile \<Rightarrow> pyval io" where
  "nsx_tier0_get_or_none opts tier0 profile = none_if_missing (nsx_tier0_get opts tier0 profile)"

definition nsx_tier0_ls_path :: "pyval \<Rightarrow> pyval \<Rightarrow> pyval \<Rightarrow> string" where
  "nsx_tier0_ls_path tier0 locale_service feature =
     nsx_tier0_PATH @ ''/'' @ py_str tier0 @ ''/locale-services/'' @ py_str locale_service @ ''/'' @ py_str feature"

definition nsx_tier0_bgp_get :: "pyval \<Rightarrow> pyval \<Rightarrow> pyval \<Rightarrow> profile \<Rightarrow> pyval io" where
  "nsx_tier0_bgp_get opts tier0 locale_service profile =
     nsx_api_get opts (nsx_tier0_ls_path tier0 locale_service (PStr ''bgp'')) PNone profile"

definition nsx_tier0_bgp_set :: "pyval \<Rightarrow> pyval \<Rightarrow> pyval \<Rightarrow> pyval \<Rightarrow> profile \<Rightarrow> dict \<Rightarrow> pyval io" where
  "nsx_tier0_bgp_set opts tier0 enabled locale_service profile extra =
     nsx_api_patch opts (nsx_tier0_ls_path tier0 locale_service (PStr ''bgp''))
       (PDict (dupdate [(''enabled'', PBool (truthy enabled))] extra)) PNone profile"

definition nsx_tier0_ospf_get :: "pyval \<Rightarrow> pyval \<Rightarrow> pyval \<Rightarrow> profile \<Rightarrow> pyval io" where
  "nsx_tier0_ospf_get opts tier0 locale_service profile =
     nsx_api_get opts (nsx_tier0_ls_path tier0 locale_service (PStr ''ospf'')) PNone profile"

definition nsx_tier0_ospf_set :: "pyval \<Rightarrow> pyval \<Rightarrow> pyval \<Rightarrow> pyval \<Rightarrow> profile \<Rightarrow> dict \<Rightarrow> pyval io" where
  "nsx_tier0_ospf_set opts tier0 enabled locale_service profile extra =
     nsx_api_patch opts (nsx_tier0_ls_path tier0 locale_service (PStr ''ospf''))
       (PDict (dupdate [(''enabled'', PBool (truthy enabled))] extra)) PNone profile"

definition nsx_tier0_multicast_get :: "pyval \<Rightarrow> pyval \<Rightarrow> pyval \<Rightarrow> profile \<Rightarrow> pyval io" where
  "nsx_tier0_multicast_get opts tier0 locale_service profile =
     nsx_api_get opts (nsx_tier0_ls_path tier0 locale_service (PStr ''multicast'')) PNone profile"

definition nsx_tier0_multicast_set :: "pyval \<Rightarrow> pyval \<Rightarrow> pyval \<Rightarrow> pyval \<Rightarrow> profile \<Rightarrow> dict \<Rightarrow> pyval io" where
  "nsx_tier0_multicast_set opts tier0 enabled locale_service profile extra =
     nsx_api_patch opts (nsx_tier0_ls_path tier0 locale_service (PStr ''multicast''))
       (PDict (dupdate [(''enabled'', PBool (truthy enabled))] extra)) PNone profile"

subsubsection \<open>\<open>clients/nsx_tier1.py\<close>\<close>

definition nsx_tier1_PATH :: "string" where
  "nsx_tier1_PATH = ''/policy/api/v1/infra/tier-1s''"

definition nsx_tier1_list :: "pyval \<Rightarrow> profile \<Rightarrow> pyval io" where
  "nsx_tier1_list opts profile = nsx_api_get opts nsx_tier1_PATH PNone profile"

definition nsx_tier1_get :: "pyval \<Rightarrow> pyval \<Rightarrow> profile \<Rightarrow> pyval io" where
  "nsx_tier1_get opts tier1 profile = nsx_api_get opts (nsx_tier1_PATH @ ''/'' @ py_str tier1) PNone profile"

definition nsx_tier1_get_or_none :: "pyval \<Rightarrow> pyval \<Rightarrow> profile \<Rightarrow> pyval io" where
  "nsx_tier1_get_or_none opts tier1 profile = none_if_missing (nsx_tier1_get opts tier1 profile)"

definition nsx_tier1_create :: "pyval \<Rightarrow> pyval \<Rightarrow> profile \<Rightarrow> dict \<Rightarrow> pyval io" where
  "nsx_tier1_create opts tier1 profile spec =
     nsx_api_put opts (nsx_tier1_PATH @ ''/'' @ py_str tier1) (named_body tier1 [] spec) PNone profile"

definition nsx_tier1_delete :: "pyval \<Rightarrow> pyval \<Rightarrow> profile \<Rightarrow> pyval io" where
  "nsx_tier1_delete opts tier1 profile =
     nsx_api_delete opts (nsx_tier1_PATH @ ''/'' @ py_str tier1) PNone profile"

definition nsx_tier1_ls_path :: "pyval \<Rightarrow> pyval \<Rightarrow> pyval \<Rightarrow> string" where
  "nsx_tier1_ls_path tier1 locale_service feature =
     nsx_tier1_PATH @ ''/'' @ py_str tier1 @ ''/locale-services/'' @ py_str locale_service @ ''/'' @ py_str feature"

definition nsx_tier1_multicast_get :: "pyval \<Rightarrow> pyval \<Rightarrow> pyval \<Rightarrow> profile \<Rightarrow> pyval io" where
  "nsx_tier1_multicast_get opts tier1 locale_service profile =
     nsx_api_get opts (nsx_tier1_ls_path tier1 locale_service (PStr ''multicast'')) PNone profile"

definition nsx_tier1_multicast_set :: "pyval \<Rightarrow> pyval \<Rightarrow> pyval \<Rightarrow> pyval \<Rightarrow> profile \<Rightarrow> dict \<Rightarrow> pyval io" where
  "nsx_tier1_multicast_set opts tier1 enabled locale_service profile extra =
     nsx_api_patch opts (nsx_tier1_ls_path tier1 locale_service (PStr ''multicast''))
       (PDict (dupdate [(''enabled'', PBool (truthy enabled))] extra)) PNone profile"

subsubsection \<open>\<open>clients/nsx_dhcp.py\<close>\<close>

definition nsx_dhcp_SERVER :: "string" where
  "nsx_dhcp_SERVER = ''/policy/api/v1/infra/dhcp-server-configs''"

definition nsx_dhcp_RELAY :: "string" where
  "nsx_dhcp_RELAY = ''/policy/api/v1/infra/dhcp-relay-configs''"

definition nsx_dhcp_server_list :: "pyval \<Rightarrow> profile \<Rightarrow> pyval io" where
  "nsx_dhcp_server_list opts profile = nsx_api_get opts nsx_dhcp_SERVER PNone profile"

definition nsx_dhcp_server_get :: "pyval \<Rightarrow> pyval \<Rightarrow> profile \<Rightarrow> pyval io" where
  "nsx_dhcp_server_get opts server_id profile =
     nsx_api_get opts (nsx_dhcp_SERVER @ ''/'' @ py_str server_id) PNone profile"

definition nsx_dhcp_server_get_or_none :: "pyval \<Rightarrow> pyval \<Rightarrow> profile \<Rightarrow> pyval io" where
  "nsx_dhcp_server_get_or_none opts server_id profile =
     none_if_missing (nsx_dhcp_server_get opts server_id profile)"

definition nsx_dhcp_server_create :: "pyval \<Rightarrow> pyval \<Rightarrow> profile \<Rightarrow> dict \<Rightarrow> pyval io" where
  "nsx_dhcp_server_create opts server_id profile spec =
     nsx_api_put opts (nsx_dhcp_SERVER @ ''/'' @ py_str server_id)
       (named_body server_id [] spec) PNone profile"

definition nsx_dhcp_server_delete :: "pyval \<Rightarrow> pyval \<Rightarrow> profile \<Rightarrow> pyval io" where
  "nsx_dhcp_server_delete opts server_id profile =
     nsx_api_delete opts (nsx_dhcp_SERVER @ ''/'' @ py_str server_id) PNone profile"

definition nsx_dhcp_relay_list :: "pyval \<Rightarrow> profile \<Rightarrow> pyval io" where
  "nsx_dhcp_relay_list opts profile = nsx_api_get opts nsx_dhcp_RELAY PNone profile"

definition nsx_dhcp_relay_get :: "pyval \<Rightarrow> pyval \<Rightarrow> profile \<Rightarrow> pyval io" where
  "nsx_dhcp_relay_get opts relay_id profile =
     nsx_api_get opts (nsx_dhcp_RELAY @ ''/'' @ py_str relay_id) PNone profile"

definition nsx_dhcp_relay_get_or_none :: "pyval \<Rightarrow> pyval \<Rightarrow> profile \<Rightarrow> pyval io" where
  "nsx_dhcp_relay_get_or_none opts relay_id profile =
     none_if_missing (nsx_dhcp_relay_get opts relay_id profile)"

definition nsx_dhcp_relay_create :: "pyval \<Rightarrow> pyval \<Rightarrow> pyval \<Rightarrow> profile \<Rightarrow> dict \<Rightarrow> pyval io" where
  "nsx_dhcp_relay_create opts relay_id server_addresses profile spec =
     bindM (liftR (py_iter server_addresses)) (\<lambda>items.
     nsx_api_put opts (nsx_dhcp_RELAY @ ''/'' @ py_str relay_id)
       (named_body relay_id [(''server_addresses'', PList items)] spec) PNone profile)"

definition nsx_dhcp_relay_delete :: "pyval \<Rightarrow> pyval \<Rightarrow> profile \<Rightarrow> pyval io" where
  "nsx_dhcp_relay_delete opts relay_id profile =
     nsx_api_delete opts (nsx_dhcp_RELAY @ ''/'' @ py_str relay_id) PNone profile"

subsubsection \<open>\<open>clients/nsx_nat.py\<close>\<close>

definition nsx_nat_t1_path :: "pyval \<Rightarrow> pyval \<Rightarrow> string" where
  "nsx_nat_t1_path t1_id scope =
     ''/policy/api/v1/infra/tier-1s/'' @ py_str t1_id @ ''/nat/'' @ py_str scope @ ''/nat-rules''"

definition nsx_nat_t0_path :: "pyval \<Rightarrow> pyval \<Rightarrow> string" where
  "nsx_nat_t0_path t0_id scope =
     ''/policy/api/v1/infra/tier-0s/'' @ py_str t0_id @ ''/nat/'' @ py_str scope @ ''/nat-rules''"

definition nsx_nat_list :: "pyval \<Rightarrow> pyval \<Rightarrow> pyval \<Rightarrow> profile \<Rightarrow> pyval io" where
  "nsx_nat_list opts t1 scope profile = nsx_api_get opts (nsx_nat_t1_path t1 scope) PNone profile"

definition nsx_nat_get :: "pyval \<Rightarrow> pyval \<Rightarrow> pyval \<Rightarrow> pyval \<Rightarrow> profile \<Rightarrow> pyval io" where
  "nsx_nat_get opts rule t1 scope profile =
     nsx_api_get opts ((nsx_nat_t1_path t1 scope) @ ''/'' @ py_str rule) PNone profile"

definition nsx_nat_get_or_none :: "pyval \<Rightarrow> pyval \<Rightarrow> pyval \<Rightarrow> pyval \<Rightarrow> profile \<Rightarrow> pyval io" where
  "nsx_nat_get_or_none opts rule t1 scope profile = none_if_missing (nsx_nat_get opts rule t1 scope profile)"

definition nsx_nat_create :: "pyval \<Rightarrow> pyval \<Rightarrow> pyval \<Rightarrow> pyval \<Rightarrow> profile \<Rightarrow> dict \<Rightarrow> pyval io" where
  "nsx_nat_create opts rule t1 scope profile spec =
     nsx_api_put opts ((nsx_nat_t1_path t1 scope) @ ''/'' @ py_str rule)
       (named_body rule [] spec) PNone profile"

definition nsx_nat_delete :: "pyval \<Rightarrow> pyval \<Rightarrow> pyval \<Rightarrow> pyval \<Rightarrow> profile \<Rightarrow> pyval io" where
  "nsx_nat_delete opts rule t1 scope profile =
     nsx_api_delete opts ((nsx_nat_t1_path t1 scope) @ ''/'' @ py_str rule) PNone profile"

definition nsx_nat_list_t0 :: "pyval \<Rightarrow> pyval \<Rightarrow> pyval \<Rightarrow> profile \<Rightarrow> pyval io" where
  "nsx_nat_list_t0 opts t0 scope profile = nsx_api_get opts (nsx_nat_t0_path t0 scope) PNone profile"

definition nsx_nat_create_t0 :: "pyval \<Rightarrow> pyval \<Rightarrow> pyval \<Rightarrow> pyval \<Rightarrow> profile \<Rightarrow> dict \<Rightarrow> pyval io" where
  "nsx_nat_create_t0 opts rule t0 scope profile spec =
     nsx_api_put opts ((nsx_nat_t0_path t0 scope) @ ''/'' @ py_str rule)
       (named_body rule [] spec) PNone profile"

definition nsx_nat_delete_t0 :: "pyval \<Rightarrow> pyval \<Rightarrow> pyval \<Rightarrow> pyval \<Rightarrow> profile \<Rightarrow> pyval io" where
  "nsx_nat_delete_t0 opts rule t0 scope profile =
     nsx_api_delete opts ((nsx_nat_t0_path t0 scope) @ ''/'' @ py_str rule) PNone profile"

subsection \<open>The NSX address and profile clients\<close>

text \<open>
  The REST calls on address blocks and pools and on the profiles for QoS, uplinks and applications.

  One definition per function of the client modules; identifiers and other arguments are
  Python values, keyword arguments (\<open>**spec\<close>) a dict.
\<close>

subsubsection \<open>\<open>clients/nsx_ip_block.py\<close>\<close>

definition nsx_ip_block_PATH :: "string" where
  "nsx_ip_block_PATH = ''/policy/api/v1/infra/ip-blocks''"

definition nsx_ip_block_list :: "pyval \<Rightarrow> profile \<Rightarrow> pyval io" where
  "nsx_ip_block_list opts profile = nsx_api_get opts nsx_ip_block_PATH PNone profile"

definition nsx_ip_block_get :: "pyval \<Rightarrow> pyval \<Rightarrow> profile \<Rightarrow> pyval io" where
  "nsx_ip_block_get opts block_id profile =
     nsx_api_get opts (nsx_ip_block_PATH @ ''/'' @ py_str block_id) PNone profile"

definition nsx_ip_block_get_or_none :: "pyval \<Rightarrow> pyval \<Rightarrow> profile \<Rightarrow> pyval io" where
  "nsx_ip_block_get_or_none opts block_id profile = none_if_missing (nsx_ip_block_get opts block_id profile)"

definition nsx_ip_block_create :: "pyval \<Rightarrow> pyval \<Rightarrow> pyval \<Rightarrow> profile \<Rightarrow> dict \<Rightarrow> pyval io" where
  "nsx_ip_block_create opts block_id cidr profile spec =
     nsx_api_put opts (nsx_ip_block_PATH @ ''/'' @ py_str block_id)
       (named_body block_id [(''cidr'', cidr)] spec) PNone profile"

definition nsx_ip_block_delete :: "pyval \<Rightarrow> pyval \<Rightarrow> profile \<Rightarrow> pyval io" where
  "nsx_ip_block_delete opts block_id profile =
     nsx_api_delete opts (nsx_ip_block_PATH @ ''/'' @ py_str block_id) PNone profile"

subsubsection \<open>\<open>clients/nsx_ip_pool.py\<close>\<close>

definition nsx_ip_pool_PATH :: "string" where
  "nsx_ip_pool_PATH = ''/policy/api/v1/infra/ip-pools''"

definition nsx_ip_pool_list :: "pyval \<Rightarrow> profile \<Rightarrow> pyval io" where
  "nsx_ip_pool_list opts profile = nsx_api_get opts nsx_ip_pool_PATH PNone profile"

definition nsx_ip_pool_get :: "pyval \<Rightarrow> pyval \<Rightarrow> profile \<Rightarrow> pyval io" where
  "nsx_ip_pool_get opts pool_id profile =
     nsx_api_get opts (nsx_ip_pool_PATH @ ''/'' @ py_str pool_id) PNone profile"

definition nsx_ip_pool_get_or_none :: "pyval \<Rightarrow> pyval \<Rightarrow> profile \<Rightarrow> pyval io" where
  "nsx_ip_pool_get_or_none opts pool_id profile = none_if_missing (nsx_ip_pool_get opts pool_id profile)"

definition nsx_ip_pool_create :: "pyval \<Rightarrow> pyval \<Rightarrow> profile \<Rightarrow> dict \<Rightarrow> pyval io" where
  "nsx_ip_pool_create opts pool_id profile spec =
     nsx_api_put opts (nsx_ip_pool_PATH @ ''/'' @ py_str pool_id)
       (named_body pool_id [] spec) PNone profile"

definition nsx_ip_pool_delete :: "pyval \<Rightarrow> pyval \<Rightarrow> profile \<Rightarrow> pyval io" where
  "nsx_ip_pool_delete opts pool_id profile =
     nsx_api_delete opts (nsx_ip_pool_PATH @ ''/'' @ py_str pool_id) PNone profile"

definition nsx_ip_pool_list_subnets :: "pyval \<Rightarrow> pyval \<Rightarrow> profile \<Rightarrow> pyval io" where
  "nsx_ip_pool_list_subnets opts pool_id profile =
     nsx_api_get opts (nsx_ip_pool_PATH @ ''/'' @ py_str pool_id @ ''/ip-subnets'') PNone profile"

definition nsx_ip_pool_create_subnet :: "pyval \<Rightarrow> pyval \<Rightarrow> pyval \<Rightarrow> profile \<Rightarrow> dict \<Rightarrow> pyval io" where
  "nsx_ip_pool_create_subnet opts pool_id subnet_id profile spec =
     nsx_api_put opts (nsx_ip_pool_PATH @ ''/'' @ py_str pool_id @ ''/ip-subnets/'' @ py_str subnet_id)
       (named_body subnet_id [] spec) PNone profile"

definition nsx_ip_pool_delete_subnet :: "pyval \<Rightarrow> pyval \<Rightarrow> pyval \<Rightarrow> profile \<Rightarrow> pyval io" where
  "nsx_ip_pool_delete_subnet opts pool_id subnet_id profile =
     nsx_api_delete opts (nsx_ip_pool_PATH @ ''/'' @ py_str pool_id @ ''/ip-subnets/'' @ py_str subnet_id)
       PNone profile"

definition nsx_ip_pool_list_allocations :: "pyval \<Rightarrow> pyval \<Rightarrow> profile \<Rightarrow> pyval io" where
  "nsx_ip_pool_list_allocations opts pool_id profile =
     nsx_api_get opts (nsx_ip_pool_PATH @ ''/'' @ py_str pool_id @ ''/ip-allocations'') PNone profile"

subsubsection \<open>\<open>clients/nsx_qos_profile.py\<close>\<close>

definition nsx_qos_profile_PATH :: "string" where
  "nsx_qos_profile_PATH = ''/policy/api/v1/infra/qos-profiles''"

definition nsx_qos_profile_list :: "pyval \<Rightarrow> profile \<Rightarrow> pyval io" where
  "nsx_qos_profile_list opts profile = nsx_api_get opts nsx_qos_profile_PATH PNone profile"

definition nsx_qos_profile_get :: "pyval \<Rightarrow> pyval \<Rightarrow> profile \<Rightarrow> pyval io" where
  "nsx_qos_profile_get opts qos_profile profile =
     nsx_api_get opts (nsx_qos_profile_PATH @ ''/'' @ py_str qos_profile) PNone profile"

definition nsx_qos_profile_get_or_none :: "pyval \<Rightarrow> pyval \<Rightarrow> profile \<Rightarrow> pyval io" where
  "nsx_qos_profile_get_or_none opts qos_profile profile =
     none_if_missing (nsx_qos_profile_get opts qos_profile profile)"

definition nsx_qos_profile_create :: "pyval \<Rightarrow> pyval \<Rightarrow> profile \<Rightarrow> dict \<Rightarrow> pyval io" where
  "nsx_qos_profile_create opts qos_profile profile spec =
     nsx_api_put opts (nsx_qos_profile_PATH @ ''/'' @ py_str qos_profile)
       (named_body qos_profile [] spec) PNone profile"

definition nsx_qos_profile_delete :: "pyval \<Rightarrow> pyval \<Rightarrow> profile \<Rightarrow> pyval io" where
  "nsx_qos_profile_delete opts qos_profile profile =
     nsx_api_delete opts (nsx_qos_profile_PATH @ ''/'' @ py_str qos_profile) PNone profile"

subsubsection \<open>\<open>clients/nsx_uplink_profile.py\<close>\<close>

definition nsx_uplink_profile_PATH :: "string" where
  "nsx_uplink_profile_PATH = ''/policy/api/v1/infra/host-switch-profiles''"

definition nsx_uplink_profile_list :: "pyval \<Rightarrow> profile \<Rightarrow> pyval io" where
  "nsx_uplink_profile_list opts profile = nsx_api_get opts nsx_uplink_profile_PATH PNone profile"

definition nsx_uplink_profile_get :: "pyval \<Rightarrow> pyval \<Rightarrow> profile \<Rightarrow> pyval io" where
  "nsx_uplink_profile_get opts profile_id profile =
     nsx_api_get opts (nsx_uplink_profile_PATH @ ''/'' @ py_str profile_id) PNone profile"

definition nsx_uplink_profile_get_or_none :: "pyval \<Rightarrow> pyval \<Rightarrow> profile \<Rightarrow> pyval io" where
  "nsx_uplink_profile_get_or_none opts profile_id profile =
     none_if_missing (nsx_uplink_profile_get opts profile_id profile)"

definition nsx_uplink_profile_create :: "pyval \<Rightarrow> pyval \<Rightarrow> pyval \<Rightarrow> profile \<Rightarrow> dict \<Rightarrow> pyval io" where
  "nsx_uplink_profile_create opts profile_id teaming profile spec =
     nsx_api_put opts (nsx_uplink_profile_PATH @ ''/'' @ py_str profile_id)
       (named_body profile_id [(''resource_type'', (PStr ''PolicyUplinkHostSwitchProfile'')), (''teaming'', teaming)] spec) PNone profile"

definition nsx_uplink_profile_delete :: "pyval \<Rightarrow> pyval \<Rightarrow> profile \<Rightarrow> pyval io" where
  "nsx_uplink_profile_delete opts profile_id profile =
     nsx_api_delete opts (nsx_uplink_profile_PATH @ ''/'' @ py_str profile_id) PNone profile"

subsubsection \<open>\<open>clients/nsx_context_profile.py\<close>\<close>

definition nsx_context_profile_PATH :: "string" where
  "nsx_context_profile_PATH = ''/policy/api/v1/infra/context-profiles''"

definition nsx_context_profile_list :: "pyval \<Rightarrow> profile \<Rightarrow> pyval io" where
  "nsx_context_profile_list opts profile = nsx_api_get opts nsx_context_profile_PATH PNone profile"

definition nsx_context_profile_get :: "pyval \<Rightarrow> pyval \<Rightarrow> profile \<Rightarrow> pyval io" where
  "nsx_context_profile_get opts profile_id profile =
     nsx_api_get opts (nsx_context_profile_PATH @ ''/'' @ py_str profile_id) PNone profile"

definition nsx_context_profile_get_or_none :: "pyval \<Rightarrow> pyval \<Rightarrow> profile \<Rightarrow> pyval io" where
  "nsx_context_profile_get_or_none opts profile_id profile =
     none_if_missing (nsx_context_profile_get opts profile_id profile)"

definition nsx_context_profile_create :: "pyval \<Rightarrow> pyval \<Rightarrow> profile \<Rightarrow> dict \<Rightarrow> pyval io" where
  "nsx_context_profile_create opts profile_id profile spec =
     nsx_api_put opts (nsx_context_profile_PATH @ ''/'' @ py_str profile_id)
       (named_body profile_id [] spec) PNone profile"

definition nsx_context_profile_delete :: "pyval \<Rightarrow> pyval \<Rightarrow> profile \<Rightarrow> pyval io" where
  "nsx_context_profile_delete opts profile_id profile =
     nsx_api_delete opts (nsx_context_profile_PATH @ ''/'' @ py_str profile_id) PNone profile"

subsection \<open>The NSX fabric clients\<close>

text \<open>
  The REST calls on transport zones, transport nodes, edge nodes and clusters, compute collections.

  One definition per function of the client modules; identifiers and other arguments are
  Python values, keyword arguments (\<open>**spec\<close>) a dict.
\<close>

subsubsection \<open>\<open>clients/nsx_transport_zone.py\<close>\<close>

definition nsx_transport_zone_PATH :: "string" where
  "nsx_transport_zone_PATH = ''/api/v1/transport-zones''"

definition nsx_transport_zone_list :: "pyval \<Rightarrow> profile \<Rightarrow> pyval io" where
  "nsx_transport_zone_list opts profile = nsx_api_get opts nsx_transport_zone_PATH PNone profile"

definition nsx_transport_zone_get :: "pyval \<Rightarrow> pyval \<Rightarrow> profile \<Rightarrow> pyval io" where
  "nsx_transport_zone_get opts zone_id profile =
     nsx_api_get opts (nsx_transport_zone_PATH @ ''/'' @ py_str zone_id) PNone profile"

definition nsx_transport_zone_get_or_none :: "pyval \<Rightarrow> pyval \<Rightarrow> profile \<Rightarrow> pyval io" where
  "nsx_transport_zone_get_or_none opts zone_id profile =
     none_if_missing (nsx_transport_zone_get opts zone_id profile)"

fun nsx_zone_named :: "pyval \<Rightarrow> pyval list \<Rightarrow> pyval res" where
  "nsx_zone_named name [] = Ok PNone"
| "nsx_zone_named name (zone # zones) =
     bindR (py_get zone ''id'' PNone) (\<lambda>i.
     bindR (py_get zone ''display_name'' PNone) (\<lambda>d.
     if py_eq name i \<or> py_eq name d then Ok zone else nsx_zone_named name zones))"

text \<open>\<open>for x in body.get("results") or []\<close>.\<close>

definition listed_results :: "pyval \<Rightarrow> pyval list res" where
  "listed_results body = bindR (py_get body ''results'' PNone) (\<lambda>rs. py_iter (py_or rs (PList [])))"

definition nsx_transport_zone_get_by_name :: "pyval \<Rightarrow> pyval \<Rightarrow> profile \<Rightarrow> pyval io" where
  "nsx_transport_zone_get_by_name opts name profile =
     bindM (nsx_transport_zone_list opts profile) (\<lambda>body.
     liftR (bindR (listed_results body) (nsx_zone_named name)))"

definition nsx_transport_zone_create :: "pyval \<Rightarrow> pyval \<Rightarrow> pyval \<Rightarrow> profile \<Rightarrow> dict \<Rightarrow> pyval io" where
  "nsx_transport_zone_create opts name zone_type profile spec =
     nsx_api_post opts nsx_transport_zone_PATH
       (named_body name [(''transport_type'', zone_type)] spec) PNone profile"

definition nsx_transport_zone_update :: "pyval \<Rightarrow> pyval \<Rightarrow> profile \<Rightarrow> dict \<Rightarrow> pyval io" where
  "nsx_transport_zone_update opts zone_id profile spec =
     nsx_api_put opts (nsx_transport_zone_PATH @ ''/'' @ py_str zone_id) (PDict spec) PNone profile"

definition nsx_transport_zone_delete :: "pyval \<Rightarrow> pyval \<Rightarrow> profile \<Rightarrow> pyval io" where
  "nsx_transport_zone_delete opts zone_id profile =
     nsx_api_delete opts (nsx_transport_zone_PATH @ ''/'' @ py_str zone_id) PNone profile"

subsubsection \<open>\<open>clients/nsx_transport_node.py\<close>\<close>

definition nsx_transport_node_PATH :: "string" where
  "nsx_transport_node_PATH = ''/api/v1/transport-nodes''"

definition nsx_transport_node_list :: "pyval \<Rightarrow> profile \<Rightarrow> pyval io" where
  "nsx_transport_node_list opts profile = nsx_api_get opts nsx_transport_node_PATH PNone profile"

definition nsx_transport_node_get :: "pyval \<Rightarrow> pyval \<Rightarrow> profile \<Rightarrow> pyval io" where
  "nsx_transport_node_get opts node_id profile =
     nsx_api_get opts (nsx_transport_node_PATH @ ''/'' @ py_str node_id) PNone profile"

definition nsx_transport_node_get_or_none :: "pyval \<Rightarrow> pyval \<Rightarrow> profile \<Rightarrow> pyval io" where
  "nsx_transport_node_get_or_none opts node_id profile =
     none_if_missing (nsx_transport_node_get opts node_id profile)"

subsubsection \<open>\<open>clients/nsx_edge.py\<close>\<close>

definition nsx_edge_PATH :: string where
  "nsx_edge_PATH = nsx_transport_node_PATH"

definition nsx_edge_EDGE_CLUSTERS_PATH :: "string" where
  "nsx_edge_EDGE_CLUSTERS_PATH = ''/api/v1/edge-clusters''"

definition nsx_edge_list :: "pyval \<Rightarrow> profile \<Rightarrow> pyval io" where
  "nsx_edge_list opts profile =
     nsx_api_get opts nsx_edge_PATH (PDict [(''node_types'', (PStr ''EdgeNode''))]) profile"

definition nsx_edge_get :: "pyval \<Rightarrow> pyval \<Rightarrow> profile \<Rightarrow> pyval io" where
  "nsx_edge_get opts node_id profile = nsx_transport_node_get opts node_id profile"

definition nsx_edge_get_or_none :: "pyval \<Rightarrow> pyval \<Rightarrow> profile \<Rightarrow> pyval io" where
  "nsx_edge_get_or_none opts node_id profile = nsx_transport_node_get_or_none opts node_id profile"

definition nsx_edge_create :: "pyval \<Rightarrow> pyval \<Rightarrow> profile \<Rightarrow> pyval io" where
  "nsx_edge_create opts body profile = nsx_api_post opts nsx_edge_PATH body PNone profile"

definition nsx_edge_update :: "pyval \<Rightarrow> pyval \<Rightarrow> pyval \<Rightarrow> profile \<Rightarrow> pyval io" where
  "nsx_edge_update opts node_id body profile =
     nsx_api_put opts (nsx_edge_PATH @ ''/'' @ py_str node_id) body PNone profile"

definition nsx_edge_delete :: "pyval \<Rightarrow> pyval \<Rightarrow> profile \<Rightarrow> pyval io" where
  "nsx_edge_delete opts node_id profile =
     nsx_api_delete opts (nsx_edge_PATH @ ''/'' @ py_str node_id) PNone profile"

definition nsx_edge_redeploy :: "pyval \<Rightarrow> pyval \<Rightarrow> pyval \<Rightarrow> profile \<Rightarrow> pyval io" where
  "nsx_edge_redeploy opts node_id body profile =
     nsx_api_post opts (nsx_edge_PATH @ ''/'' @ py_str node_id @ ''?action=redeploy'') body PNone profile"

definition nsx_edge_state :: "pyval \<Rightarrow> pyval \<Rightarrow> profile \<Rightarrow> pyval io" where
  "nsx_edge_state opts node_id profile =
     nsx_api_get opts (nsx_edge_PATH @ ''/'' @ py_str node_id @ ''/state'') PNone profile"

definition nsx_edge_cluster_allocation_status :: "pyval \<Rightarrow> pyval \<Rightarrow> profile \<Rightarrow> pyval io" where
  "nsx_edge_cluster_allocation_status opts cluster_id profile =
     nsx_api_get opts (nsx_edge_EDGE_CLUSTERS_PATH @ ''/'' @ py_str cluster_id @ ''/allocation-status'')
       PNone profile"

subsubsection \<open>\<open>clients/nsx_edge_cluster.py\<close>\<close>

definition nsx_edge_cluster_PATH :: "string" where
  "nsx_edge_cluster_PATH = ''/api/v1/edge-clusters''"

definition nsx_edge_cluster_list :: "pyval \<Rightarrow> profile \<Rightarrow> pyval io" where
  "nsx_edge_cluster_list opts profile = nsx_api_get opts nsx_edge_cluster_PATH PNone profile"

definition nsx_edge_cluster_get :: "pyval \<Rightarrow> pyval \<Rightarrow> profile \<Rightarrow> pyval io" where
  "nsx_edge_cluster_get opts cluster_id profile =
     nsx_api_get opts (nsx_edge_cluster_PATH @ ''/'' @ py_str cluster_id) PNone profile"

definition nsx_edge_cluster_get_or_none :: "pyval \<Rightarrow> pyval \<Rightarrow> profile \<Rightarrow> pyval io" where
  "nsx_edge_cluster_get_or_none opts cluster_id profile =
     none_if_missing (nsx_edge_cluster_get opts cluster_id profile)"

definition nsx_edge_cluster_create :: "pyval \<Rightarrow> pyval \<Rightarrow> profile \<Rightarrow> pyval io" where
  "nsx_edge_cluster_create opts body profile = nsx_api_post opts nsx_edge_cluster_PATH body PNone profile"

definition nsx_edge_cluster_update :: "pyval \<Rightarrow> pyval \<Rightarrow> pyval \<Rightarrow> profile \<Rightarrow> pyval io" where
  "nsx_edge_cluster_update opts cluster_id body profile =
     nsx_api_put opts (nsx_edge_cluster_PATH @ ''/'' @ py_str cluster_id) body PNone profile"

definition nsx_edge_cluster_delete :: "pyval \<Rightarrow> pyval \<Rightarrow> profile \<Rightarrow> pyval io" where
  "nsx_edge_cluster_delete opts cluster_id profile =
     nsx_api_delete opts (nsx_edge_cluster_PATH @ ''/'' @ py_str cluster_id) PNone profile"

definition nsx_edge_cluster_state :: "pyval \<Rightarrow> pyval \<Rightarrow> profile \<Rightarrow> pyval io" where
  "nsx_edge_cluster_state opts cluster_id profile =
     nsx_api_get opts (nsx_edge_cluster_PATH @ ''/'' @ py_str cluster_id @ ''/state'') PNone profile"

subsubsection \<open>\<open>clients/nsx_compute_collection.py\<close>\<close>

definition nsx_compute_collection_PATH :: "string" where
  "nsx_compute_collection_PATH = ''/api/v1/fabric/compute-collections''"

definition nsx_compute_collection_list :: "pyval \<Rightarrow> profile \<Rightarrow> pyval io" where
  "nsx_compute_collection_list opts profile = nsx_api_get opts nsx_compute_collection_PATH PNone profile"

definition nsx_compute_collection_get :: "pyval \<Rightarrow> pyval \<Rightarrow> profile \<Rightarrow> pyval io" where
  "nsx_compute_collection_get opts collection_id profile =
     nsx_api_get opts (nsx_compute_collection_PATH @ ''/'' @ py_str collection_id) PNone profile"

definition nsx_compute_collection_get_or_none :: "pyval \<Rightarrow> pyval \<Rightarrow> profile \<Rightarrow> pyval io" where
  "nsx_compute_collection_get_or_none opts collection_id profile =
     none_if_missing (nsx_compute_collection_get opts collection_id profile)"

end
