(* ===== verification/Nsx_Node.thy ===== *)
theory Nsx_Node
  imports Nsx_Networking Builtins
begin

section \<open>Nsx_Node: the clients of the NSX manager node\<close>

text \<open>
  The REST calls on the manager node itself: cluster address, resolvers, time servers, HTTP
  service, telemetry, identity sources, users, role bindings, log exporters.

  One definition per function of the client modules; identifiers and other arguments are
  Python values, keyword arguments (\<open>**spec\<close>) a dict.
\<close>

subsection \<open>\<open>clients/nsx_cluster.py\<close>\<close>

definition nsx_cluster_status :: "pyval \<Rightarrow> profile \<Rightarrow> pyval io" where
  "nsx_cluster_status opts profile = nsx_api_get opts ''/api/v1/cluster/status'' PNone profile"

definition nsx_cluster_api_virtual_ip_get :: "pyval \<Rightarrow> profile \<Rightarrow> pyval io" where
  "nsx_cluster_api_virtual_ip_get opts profile =
     nsx_api_get opts ''/api/v1/cluster/api-virtual-ip'' PNone profile"

definition nsx_cluster_api_virtual_ip_set :: "pyval \<Rightarrow> pyval \<Rightarrow> profile \<Rightarrow> pyval io" where
  "nsx_cluster_api_virtual_ip_set opts ip_address profile =
     nsx_api_post opts ''/api/v1/cluster/api-virtual-ip''
       PNone (PDict [(''action'', (PStr ''set_virtual_ip'')), (''ip_address'', ip_address)]) profile"

definition nsx_cluster_api_virtual_ip_clear :: "pyval \<Rightarrow> profile \<Rightarrow> pyval io" where
  "nsx_cluster_api_virtual_ip_clear opts profile =
     nsx_api_post opts ''/api/v1/cluster/api-virtual-ip''
       PNone (PDict [(''action'', (PStr ''clear_virtual_ip''))]) profile"

subsection \<open>\<open>clients/nsx_dns_servers.py\<close>\<close>

definition nsx_dns_servers_NAME_SERVERS :: "string" where
  "nsx_dns_servers_NAME_SERVERS = ''/api/v1/node/network/name-servers''"

definition nsx_dns_servers_dns_get :: "pyval \<Rightarrow> profile \<Rightarrow> pyval io" where
  "nsx_dns_servers_dns_get opts profile = nsx_api_get opts nsx_dns_servers_NAME_SERVERS PNone profile"

definition nsx_dns_servers_dns_set :: "pyval \<Rightarrow> pyval \<Rightarrow> profile \<Rightarrow> pyval io" where
  "nsx_dns_servers_dns_set opts servers profile =
     bindM (liftR (py_iter servers)) (\<lambda>items.
     nsx_api_put opts nsx_dns_servers_NAME_SERVERS
       (PDict [(''name_servers'', (PList items))]) PNone profile)"

subsection \<open>\<open>clients/nsx_ntp_servers.py\<close>\<close>

definition nsx_ntp_servers_NTP_SERVERS :: "string" where
  "nsx_ntp_servers_NTP_SERVERS = ''/api/v1/node/network/ntp-servers''"

definition nsx_ntp_servers_ntp_get :: "pyval \<Rightarrow> profile \<Rightarrow> pyval io" where
  "nsx_ntp_servers_ntp_get opts profile = nsx_api_get opts nsx_ntp_servers_NTP_SERVERS PNone profile"

definition nsx_ntp_servers_ntp_set :: "pyval \<Rightarrow> pyval \<Rightarrow> profile \<Rightarrow> pyval io" where
  "nsx_ntp_servers_ntp_set opts servers profile =
     bindM (liftR (py_iter servers)) (\<lambda>items.
     nsx_api_put opts nsx_ntp_servers_NTP_SERVERS
       (PDict [(''ntp_servers'', (PList items))]) PNone profile)"

subsection \<open>\<open>clients/nsx_node.py\<close>\<close>

definition nsx_node_PATH :: "string" where
  "nsx_node_PATH = ''/api/v1/node''"

definition nsx_node_get :: "pyval \<Rightarrow> profile \<Rightarrow> pyval io" where
  "nsx_node_get opts profile = nsx_api_get opts nsx_node_PATH PNone profile"

subsection \<open>\<open>clients/nsx_node_services.py\<close>\<close>

definition nsx_node_services_HTTP_PATH :: "string" where
  "nsx_node_services_HTTP_PATH = ''/api/v1/node/services/http''"

definition nsx_node_services_http_get :: "pyval \<Rightarrow> profile \<Rightarrow> pyval io" where
  "nsx_node_services_http_get opts profile = nsx_api_get opts nsx_node_services_HTTP_PATH PNone profile"

definition nsx_node_services_http_put :: "pyval \<Rightarrow> pyval \<Rightarrow> profile \<Rightarrow> pyval io" where
  "nsx_node_services_http_put opts body profile =
     nsx_api_put opts nsx_node_services_HTTP_PATH body PNone profile"

text \<open>\<open>merged["service_properties"] = {**props, **fields}\<close> on a copy of the document.\<close>

definition with_properties :: "dict \<Rightarrow> dict \<Rightarrow> dict \<Rightarrow> dict" where
  "with_properties doc props updates = dset doc ''service_properties'' (PDict (dupdate props updates))"

definition nsx_node_services_http_set :: "pyval \<Rightarrow> profile \<Rightarrow> dict \<Rightarrow> pyval io" where
  "nsx_node_services_http_set opts profile updates =
     bindM (nsx_node_services_http_get opts profile) (\<lambda>current.
     let merged = (case current of PDict d \<Rightarrow> d | _ \<Rightarrow> []) in
     bindM (liftR (py_dict (py_or (dget merged ''service_properties'' PNone) empty_dict))) (\<lambda>props.
     nsx_node_services_http_put opts
       (PDict (with_properties merged props (filter (\<lambda>(k, v). v \<noteq> PNone) updates))) profile))"

subsection \<open>\<open>clients/nsx_telemetry.py\<close>\<close>

definition nsx_telemetry_PATH :: "string" where
  "nsx_telemetry_PATH = ''/api/v1/telemetry/config''"

definition nsx_telemetry_get :: "pyval \<Rightarrow> profile \<Rightarrow> pyval io" where
  "nsx_telemetry_get opts profile = nsx_api_get opts nsx_telemetry_PATH PNone profile"

definition nsx_telemetry_update :: "pyval \<Rightarrow> profile \<Rightarrow> dict \<Rightarrow> pyval io" where
  "nsx_telemetry_update opts profile body = nsx_api_put opts nsx_telemetry_PATH (PDict body) PNone profile"

definition nsx_telemetry_set_optin :: "pyval \<Rightarrow> pyval \<Rightarrow> profile \<Rightarrow> pyval io" where
  "nsx_telemetry_set_optin opts optin profile =
     bindM (nsx_telemetry_get opts profile) (\<lambda>current.
     bindM (liftR (py_dict (py_or current empty_dict))) (\<lambda>body.
     nsx_api_put opts nsx_telemetry_PATH (PDict (dset body ''optin'' (PBool (truthy optin)))) PNone profile))"

subsection \<open>\<open>clients/nsx_vidm.py\<close>\<close>

definition nsx_vidm_PATH :: "string" where
  "nsx_vidm_PATH = ''/api/v1/aaa/vidm''"

definition nsx_vidm_get :: "pyval \<Rightarrow> profile \<Rightarrow> pyval io" where
  "nsx_vidm_get opts profile = nsx_api_get opts nsx_vidm_PATH PNone profile"

definition nsx_vidm_update :: "pyval \<Rightarrow> profile \<Rightarrow> dict \<Rightarrow> pyval io" where
  "nsx_vidm_update opts profile body = nsx_api_put opts nsx_vidm_PATH (PDict body) PNone profile"

subsection \<open>\<open>clients/nsx_ldap.py\<close>\<close>

definition nsx_ldap_PATH :: "string" where
  "nsx_ldap_PATH = ''/api/v1/aaa/ldap/identity-sources''"

definition nsx_ldap_list :: "pyval \<Rightarrow> profile \<Rightarrow> pyval io" where
  "nsx_ldap_list opts profile = nsx_api_get opts nsx_ldap_PATH PNone profile"

definition nsx_ldap_create :: "pyval \<Rightarrow> pyval \<Rightarrow> pyval \<Rightarrow> pyval \<Rightarrow> profile \<Rightarrow> dict \<Rightarrow> pyval io" where
  "nsx_ldap_create opts name ldap_servers base_dn profile spec =
     bindM (liftR (py_iter ldap_servers)) (\<lambda>items.
     nsx_api_post opts nsx_ldap_PATH
       (PDict (dupdate [(''display_name'', name), (''ldap_servers'', PList items), (''base_dn'', base_dn)] spec)) PNone profile)"

definition nsx_ldap_update :: "pyval \<Rightarrow> pyval \<Rightarrow> pyval \<Rightarrow> profile \<Rightarrow> pyval io" where
  "nsx_ldap_update opts source_id body profile =
     nsx_api_put opts (nsx_ldap_PATH @ ''/'' @ py_str source_id) body PNone profile"

definition nsx_ldap_delete :: "pyval \<Rightarrow> pyval \<Rightarrow> profile \<Rightarrow> pyval io" where
  "nsx_ldap_delete opts source_id profile =
     nsx_api_delete opts (nsx_ldap_PATH @ ''/'' @ py_str source_id) PNone profile"

subsection \<open>\<open>clients/nsx_localos_user.py\<close>\<close>

definition nsx_localos_user_PATH :: "string" where
  "nsx_localos_user_PATH = ''/api/v1/node/users''"

definition nsx_localos_user_list :: "pyval \<Rightarrow> profile \<Rightarrow> pyval io" where
  "nsx_localos_user_list opts profile = nsx_api_get opts nsx_localos_user_PATH PNone profile"

definition nsx_localos_user_get_or_none :: "pyval \<Rightarrow> pyval \<Rightarrow> profile \<Rightarrow> pyval io" where
  "nsx_localos_user_get_or_none opts username profile =
     bindM (nsx_localos_user_list opts profile) (\<lambda>listed.
     liftR (bindR (listed_results (py_or listed empty_dict)) (find_by ''username'' username)))"

definition nsx_localos_user_create :: "pyval \<Rightarrow> pyval \<Rightarrow> pyval \<Rightarrow> pyval \<Rightarrow> profile \<Rightarrow> dict \<Rightarrow> pyval io" where
  "nsx_localos_user_create opts username password role profile spec =
     nsx_api_post opts nsx_localos_user_PATH
       (PDict (dupdate [(''username'', username), (''password'', password), (''role'', role)] spec)) PNone profile"

definition nsx_localos_user_update :: "pyval \<Rightarrow> pyval \<Rightarrow> pyval \<Rightarrow> profile \<Rightarrow> pyval io" where
  "nsx_localos_user_update opts userid body profile =
     nsx_api_put opts (nsx_localos_user_PATH @ ''/'' @ py_str userid) body PNone profile"

definition nsx_localos_user_delete :: "pyval \<Rightarrow> pyval \<Rightarrow> profile \<Rightarrow> pyval io" where
  "nsx_localos_user_delete opts userid profile =
     nsx_api_delete opts (nsx_localos_user_PATH @ ''/'' @ py_str userid) PNone profile"

subsection \<open>\<open>clients/nsx_role_binding.py\<close>\<close>

definition nsx_role_binding_PATH :: "string" where
  "nsx_role_binding_PATH = ''/api/v1/aaa/role-bindings''"

definition nsx_role_binding_list :: "pyval \<Rightarrow> profile \<Rightarrow> pyval io" where
  "nsx_role_binding_list opts profile = nsx_api_get opts nsx_role_binding_PATH PNone profile"

definition nsx_role_binding_get :: "pyval \<Rightarrow> pyval \<Rightarrow> profile \<Rightarrow> pyval io" where
  "nsx_role_binding_get opts binding_id profile =
     nsx_api_get opts (nsx_role_binding_PATH @ ''/'' @ py_str binding_id) PNone profile"

definition nsx_role_binding_get_or_none :: "pyval \<Rightarrow> pyval \<Rightarrow> profile \<Rightarrow> pyval io" where
  "nsx_role_binding_get_or_none opts binding_id profile =
     none_if_missing (nsx_role_binding_get opts binding_id profile)"

definition nsx_role_binding_create :: "pyval \<Rightarrow> pyval \<Rightarrow> pyval \<Rightarrow> pyval \<Rightarrow> profile \<Rightarrow> dict \<Rightarrow> pyval io" where
  "nsx_role_binding_create opts name kind roles profile spec =
     bindM (liftR (py_iter roles)) (\<lambda>items.
     nsx_api_post opts nsx_role_binding_PATH
       (PDict (dupdate [(''name'', name), (''type'', kind), (''roles'', PList items)] spec)) PNone profile)"

definition nsx_role_binding_update :: "pyval \<Rightarrow> pyval \<Rightarrow> pyval \<Rightarrow> profile \<Rightarrow> pyval io" where
  "nsx_role_binding_update opts binding_id body profile =
     nsx_api_post opts (nsx_role_binding_PATH @ ''/'' @ py_str binding_id) body PNone profile"

definition nsx_role_binding_delete :: "pyval \<Rightarrow> pyval \<Rightarrow> profile \<Rightarrow> pyval io" where
  "nsx_role_binding_delete opts binding_id profile =
     nsx_api_delete opts (nsx_role_binding_PATH @ ''/'' @ py_str binding_id) PNone profile"

subsection \<open>\<open>clients/nsx_syslog_exporter.py\<close>\<close>

definition nsx_syslog_exporter_PATH :: "string" where
  "nsx_syslog_exporter_PATH = ''/api/v1/node/services/syslog/exporters''"

definition nsx_syslog_exporter_list :: "pyval \<Rightarrow> profile \<Rightarrow> pyval io" where
  "nsx_syslog_exporter_list opts profile = nsx_api_get opts nsx_syslog_exporter_PATH PNone profile"

definition nsx_syslog_exporter_get :: "pyval \<Rightarrow> pyval \<Rightarrow> profile \<Rightarrow> pyval io" where
  "nsx_syslog_exporter_get opts exporter_name profile =
     nsx_api_get opts (nsx_syslog_exporter_PATH @ ''/'' @ py_str exporter_name) PNone profile"

definition nsx_syslog_exporter_get_or_none :: "pyval \<Rightarrow> pyval \<Rightarrow> profile \<Rightarrow> pyval io" where
  "nsx_syslog_exporter_get_or_none opts exporter_name profile =
     none_if_missing (nsx_syslog_exporter_get opts exporter_name profile)"

definition nsx_syslog_exporter_create :: "pyval \<Rightarrow> pyval \<Rightarrow> pyval \<Rightarrow> pyval \<Rightarrow> pyval \<Rightarrow> profile \<Rightarrow> dict \<Rightarrow> pyval io" where
  "nsx_syslog_exporter_create opts exporter_name server port protocol profile spec =
     bindM (liftR (py_int port)) (\<lambda>port_int.
     nsx_api_post opts nsx_syslog_exporter_PATH
       (PDict (dupdate [(''exporter_name'', exporter_name), (''server'', server), (''port'', PInt port_int), (''protocol'', protocol)] spec)) PNone profile)"

definition nsx_syslog_exporter_delete :: "pyval \<Rightarrow> pyval \<Rightarrow> profile \<Rightarrow> pyval io" where
  "nsx_syslog_exporter_delete opts exporter_name profile =
     nsx_api_delete opts (nsx_syslog_exporter_PATH @ ''/'' @ py_str exporter_name) PNone profile"

end
