(* ===== verification/Nsx_Security.thy ===== *)
theory Nsx_Security
  imports Nsx_Store
begin

section \<open>Nsx_Security: the NSX security clients\<close>

text \<open>
  The REST calls on groups, services, security policies and their rules, intrusion detection.

  One definition per function of the client modules; identifiers and other arguments are
  Python values, keyword arguments (\<open>**spec\<close>) a dict.
\<close>

subsection \<open>\<open>clients/nsx_group.py\<close>\<close>

definition nsx_group_PATH :: "string" where
  "nsx_group_PATH = ''/policy/api/v1/infra/domains/default/groups''"

definition nsx_group_list :: "pyval \<Rightarrow> profile \<Rightarrow> pyval io" where
  "nsx_group_list opts profile = nsx_api_get opts nsx_group_PATH PNone profile"

definition nsx_group_get :: "pyval \<Rightarrow> pyval \<Rightarrow> profile \<Rightarrow> pyval io" where
  "nsx_group_get opts group_id profile =
     nsx_api_get opts (nsx_group_PATH @ ''/'' @ py_str group_id) PNone profile"

definition nsx_group_get_or_none :: "pyval \<Rightarrow> pyval \<Rightarrow> profile \<Rightarrow> pyval io" where
  "nsx_group_get_or_none opts group_id profile = none_if_missing (nsx_group_get opts group_id profile)"

definition nsx_group_create :: "pyval \<Rightarrow> pyval \<Rightarrow> profile \<Rightarrow> dict \<Rightarrow> pyval io" where
  "nsx_group_create opts group_id profile spec =
     nsx_api_put opts (nsx_group_PATH @ ''/'' @ py_str group_id)
       (named_body group_id [] spec) PNone profile"

definition nsx_group_delete :: "pyval \<Rightarrow> pyval \<Rightarrow> profile \<Rightarrow> pyval io" where
  "nsx_group_delete opts group_id profile =
     nsx_api_delete opts (nsx_group_PATH @ ''/'' @ py_str group_id) PNone profile"

subsection \<open>\<open>clients/nsx_service.py\<close>\<close>

definition nsx_service_PATH :: "string" where
  "nsx_service_PATH = ''/policy/api/v1/infra/services''"

definition nsx_service_list :: "pyval \<Rightarrow> profile \<Rightarrow> pyval io" where
  "nsx_service_list opts profile = nsx_api_get opts nsx_service_PATH PNone profile"

definition nsx_service_get :: "pyval \<Rightarrow> pyval \<Rightarrow> profile \<Rightarrow> pyval io" where
  "nsx_service_get opts service profile =
     nsx_api_get opts (nsx_service_PATH @ ''/'' @ py_str service) PNone profile"

definition nsx_service_get_or_none :: "pyval \<Rightarrow> pyval \<Rightarrow> profile \<Rightarrow> pyval io" where
  "nsx_service_get_or_none opts service profile = none_if_missing (nsx_service_get opts service profile)"

definition nsx_service_create :: "pyval \<Rightarrow> pyval \<Rightarrow> profile \<Rightarrow> dict \<Rightarrow> pyval io" where
  "nsx_service_create opts service profile spec =
     nsx_api_put opts (nsx_service_PATH @ ''/'' @ py_str service)
       (named_body service [] spec) PNone profile"

definition nsx_service_delete :: "pyval \<Rightarrow> pyval \<Rightarrow> profile \<Rightarrow> pyval io" where
  "nsx_service_delete opts service profile =
     nsx_api_delete opts (nsx_service_PATH @ ''/'' @ py_str service) PNone profile"

subsection \<open>\<open>clients/nsx_security_policy.py\<close>\<close>

definition nsx_security_policy_base :: "pyval \<Rightarrow> string" where
  "nsx_security_policy_base domain = ''/policy/api/v1/infra/domains/'' @ py_str domain @ ''/security-policies''"

definition nsx_security_policy_list :: "pyval \<Rightarrow> pyval \<Rightarrow> profile \<Rightarrow> pyval io" where
  "nsx_security_policy_list opts domain profile =
     nsx_api_get opts (nsx_security_policy_base domain) PNone profile"

definition nsx_security_policy_get :: "pyval \<Rightarrow> pyval \<Rightarrow> pyval \<Rightarrow> profile \<Rightarrow> pyval io" where
  "nsx_security_policy_get opts policy domain profile =
     nsx_api_get opts ((nsx_security_policy_base domain) @ ''/'' @ py_str policy) PNone profile"

definition nsx_security_policy_get_or_none :: "pyval \<Rightarrow> pyval \<Rightarrow> pyval \<Rightarrow> profile \<Rightarrow> pyval io" where
  "nsx_security_policy_get_or_none opts policy domain profile =
     none_if_missing (nsx_security_policy_get opts policy domain profile)"

definition nsx_security_policy_create :: "pyval \<Rightarrow> pyval \<Rightarrow> pyval \<Rightarrow> profile \<Rightarrow> dict \<Rightarrow> pyval io" where
  "nsx_security_policy_create opts policy domain profile spec =
     nsx_api_put opts ((nsx_security_policy_base domain) @ ''/'' @ py_str policy)
       (named_body policy [] spec) PNone profile"

definition nsx_security_policy_delete :: "pyval \<Rightarrow> pyval \<Rightarrow> pyval \<Rightarrow> profile \<Rightarrow> pyval io" where
  "nsx_security_policy_delete opts policy domain profile =
     nsx_api_delete opts ((nsx_security_policy_base domain) @ ''/'' @ py_str policy) PNone profile"

subsection \<open>\<open>clients/nsx_firewall_rule.py\<close>\<close>

definition nsx_firewall_rule_base :: "pyval \<Rightarrow> pyval \<Rightarrow> string" where
  "nsx_firewall_rule_base domain policy =
     ''/policy/api/v1/infra/domains/'' @ py_str domain @ ''/security-policies/'' @ py_str policy @ ''/rules''"

definition nsx_firewall_rule_list :: "pyval \<Rightarrow> pyval \<Rightarrow> pyval \<Rightarrow> profile \<Rightarrow> pyval io" where
  "nsx_firewall_rule_list opts policy domain profile =
     nsx_api_get opts (nsx_firewall_rule_base domain policy) PNone profile"

definition nsx_firewall_rule_get :: "pyval \<Rightarrow> pyval \<Rightarrow> pyval \<Rightarrow> pyval \<Rightarrow> profile \<Rightarrow> pyval io" where
  "nsx_firewall_rule_get opts rule policy domain profile =
     nsx_api_get opts ((nsx_firewall_rule_base domain policy) @ ''/'' @ py_str rule) PNone profile"

definition nsx_firewall_rule_get_or_none :: "pyval \<Rightarrow> pyval \<Rightarrow> pyval \<Rightarrow> pyval \<Rightarrow> profile \<Rightarrow> pyval io" where
  "nsx_firewall_rule_get_or_none opts rule policy domain profile =
     none_if_missing (nsx_firewall_rule_get opts rule policy domain profile)"

definition nsx_firewall_rule_create :: "pyval \<Rightarrow> pyval \<Rightarrow> pyval \<Rightarrow> pyval \<Rightarrow> profile \<Rightarrow> dict \<Rightarrow> pyval io" where
  "nsx_firewall_rule_create opts rule policy domain profile spec =
     nsx_api_put opts ((nsx_firewall_rule_base domain policy) @ ''/'' @ py_str rule)
       (named_body rule [] spec) PNone profile"

definition nsx_firewall_rule_delete :: "pyval \<Rightarrow> pyval \<Rightarrow> pyval \<Rightarrow> pyval \<Rightarrow> profile \<Rightarrow> pyval io" where
  "nsx_firewall_rule_delete opts rule policy domain profile =
     nsx_api_delete opts ((nsx_firewall_rule_base domain policy) @ ''/'' @ py_str rule) PNone profile"

subsection \<open>\<open>clients/nsx_ids.py\<close>\<close>

definition nsx_ids_GLOBAL_CONFIG :: "string" where
  "nsx_ids_GLOBAL_CONFIG = ''/policy/api/v1/infra/settings/firewall/security/intrusion-services''"

definition nsx_ids_CLUSTER_CONFIGS :: "string" where
  "nsx_ids_CLUSTER_CONFIGS = nsx_ids_GLOBAL_CONFIG @ ''/cluster-configs''"

definition nsx_ids_PROFILES :: "string" where
  "nsx_ids_PROFILES = nsx_ids_GLOBAL_CONFIG @ ''/profiles''"

definition nsx_ids_SIGNATURE_VERSIONS :: "string" where
  "nsx_ids_SIGNATURE_VERSIONS = nsx_ids_GLOBAL_CONFIG @ ''/signature-versions''"

definition nsx_ids_signatures_path :: "pyval \<Rightarrow> string" where
  "nsx_ids_signatures_path version = nsx_ids_SIGNATURE_VERSIONS @ ''/'' @ py_str version @ ''/signatures''"

definition nsx_ids_policy_path :: "pyval \<Rightarrow> pyval \<Rightarrow> string" where
  "nsx_ids_policy_path domain policy =
     (let base = ''/policy/api/v1/infra/domains/'' @ py_str domain @ ''/intrusion-service-policies''
      in if truthy policy then base @ ''/'' @ py_str policy else base)"

definition nsx_ids_rule_path :: "pyval \<Rightarrow> pyval \<Rightarrow> pyval \<Rightarrow> string" where
  "nsx_ids_rule_path domain policy rule =
     (let base = ''/policy/api/v1/infra/domains/'' @ py_str domain @ ''/intrusion-service-policies/'' @ py_str policy @ ''/rules''
      in if truthy rule then base @ ''/'' @ py_str rule else base)"

definition nsx_ids_get_global_config :: "pyval \<Rightarrow> profile \<Rightarrow> pyval io" where
  "nsx_ids_get_global_config opts profile = nsx_api_get opts nsx_ids_GLOBAL_CONFIG PNone profile"

definition nsx_ids_set_global_config :: "pyval \<Rightarrow> profile \<Rightarrow> dict \<Rightarrow> pyval io" where
  "nsx_ids_set_global_config opts profile spec =
     nsx_api_put opts nsx_ids_GLOBAL_CONFIG
       (PDict (dupdate [(''resource_type'', dget spec ''resource_type'' (PStr ''IdsGlobalConfig''))]
         (ddel spec ''resource_type''))) PNone profile"

definition nsx_ids_list_cluster_configs :: "pyval \<Rightarrow> profile \<Rightarrow> pyval io" where
  "nsx_ids_list_cluster_configs opts profile = nsx_api_get opts nsx_ids_CLUSTER_CONFIGS PNone profile"

definition nsx_ids_get_cluster_config :: "pyval \<Rightarrow> pyval \<Rightarrow> profile \<Rightarrow> pyval io" where
  "nsx_ids_get_cluster_config opts cluster_id profile =
     nsx_api_get opts (nsx_ids_CLUSTER_CONFIGS @ ''/'' @ py_str cluster_id) PNone profile"

definition nsx_ids_get_cluster_config_or_none :: "pyval \<Rightarrow> pyval \<Rightarrow> profile \<Rightarrow> pyval io" where
  "nsx_ids_get_cluster_config_or_none opts cluster_id profile =
     none_if_missing (nsx_ids_get_cluster_config opts cluster_id profile)"

definition nsx_ids_set_cluster_config :: "pyval \<Rightarrow> pyval \<Rightarrow> profile \<Rightarrow> dict \<Rightarrow> pyval io" where
  "nsx_ids_set_cluster_config opts cluster_id profile spec =
     nsx_api_put opts (nsx_ids_CLUSTER_CONFIGS @ ''/'' @ py_str cluster_id)
       (PDict (dupdate [(''resource_type'', dget spec ''resource_type'' (PStr ''IdsClusterConfig''))]
         (ddel spec ''resource_type''))) PNone profile"

definition nsx_ids_list_profiles :: "pyval \<Rightarrow> profile \<Rightarrow> pyval io" where
  "nsx_ids_list_profiles opts profile = nsx_api_get opts nsx_ids_PROFILES PNone profile"

definition nsx_ids_get_profile :: "pyval \<Rightarrow> pyval \<Rightarrow> profile \<Rightarrow> pyval io" where
  "nsx_ids_get_profile opts profile_id profile =
     nsx_api_get opts (nsx_ids_PROFILES @ ''/'' @ py_str profile_id) PNone profile"

definition nsx_ids_get_profile_or_none :: "pyval \<Rightarrow> pyval \<Rightarrow> profile \<Rightarrow> pyval io" where
  "nsx_ids_get_profile_or_none opts profile_id profile =
     none_if_missing (nsx_ids_get_profile opts profile_id profile)"

definition nsx_ids_create_profile :: "pyval \<Rightarrow> pyval \<Rightarrow> profile \<Rightarrow> dict \<Rightarrow> pyval io" where
  "nsx_ids_create_profile opts profile_id profile spec =
     nsx_api_put opts (nsx_ids_PROFILES @ ''/'' @ py_str profile_id)
       (typed_body ''IdsProfile'' profile_id spec) PNone profile"

definition nsx_ids_delete_profile :: "pyval \<Rightarrow> pyval \<Rightarrow> profile \<Rightarrow> pyval io" where
  "nsx_ids_delete_profile opts profile_id profile =
     nsx_api_delete opts (nsx_ids_PROFILES @ ''/'' @ py_str profile_id) PNone profile"

definition nsx_ids_list_signatures :: "pyval \<Rightarrow> pyval \<Rightarrow> profile \<Rightarrow> pyval io" where
  "nsx_ids_list_signatures opts version profile =
     nsx_api_get opts (nsx_ids_signatures_path version) PNone profile"

definition nsx_ids_get_signature :: "pyval \<Rightarrow> pyval \<Rightarrow> pyval \<Rightarrow> profile \<Rightarrow> pyval io" where
  "nsx_ids_get_signature opts signature_id version profile =
     nsx_api_get opts ((nsx_ids_signatures_path version) @ ''/'' @ py_str signature_id) PNone profile"

definition nsx_ids_list_policies :: "pyval \<Rightarrow> pyval \<Rightarrow> profile \<Rightarrow> pyval io" where
  "nsx_ids_list_policies opts domain profile =
     nsx_api_get opts (nsx_ids_policy_path domain PNone) PNone profile"

definition nsx_ids_get_policy :: "pyval \<Rightarrow> pyval \<Rightarrow> pyval \<Rightarrow> profile \<Rightarrow> pyval io" where
  "nsx_ids_get_policy opts policy domain profile =
     nsx_api_get opts (nsx_ids_policy_path domain policy) PNone profile"

definition nsx_ids_get_policy_or_none :: "pyval \<Rightarrow> pyval \<Rightarrow> pyval \<Rightarrow> profile \<Rightarrow> pyval io" where
  "nsx_ids_get_policy_or_none opts policy domain profile =
     none_if_missing (nsx_ids_get_policy opts policy domain profile)"

definition nsx_ids_create_policy :: "pyval \<Rightarrow> pyval \<Rightarrow> pyval \<Rightarrow> profile \<Rightarrow> dict \<Rightarrow> pyval io" where
  "nsx_ids_create_policy opts policy domain profile spec =
     nsx_api_put opts (nsx_ids_policy_path domain policy) (named_body policy [] spec) PNone profile"

definition nsx_ids_delete_policy :: "pyval \<Rightarrow> pyval \<Rightarrow> pyval \<Rightarrow> profile \<Rightarrow> pyval io" where
  "nsx_ids_delete_policy opts policy domain profile =
     nsx_api_delete opts (nsx_ids_policy_path domain policy) PNone profile"

definition nsx_ids_list_rules :: "pyval \<Rightarrow> pyval \<Rightarrow> pyval \<Rightarrow> profile \<Rightarrow> pyval io" where
  "nsx_ids_list_rules opts policy domain profile =
     nsx_api_get opts (nsx_ids_rule_path domain policy PNone) PNone profile"

definition nsx_ids_get_rule :: "pyval \<Rightarrow> pyval \<Rightarrow> pyval \<Rightarrow> pyval \<Rightarrow> profile \<Rightarrow> pyval io" where
  "nsx_ids_get_rule opts rule policy domain profile =
     nsx_api_get opts (nsx_ids_rule_path domain policy rule) PNone profile"

definition nsx_ids_get_rule_or_none :: "pyval \<Rightarrow> pyval \<Rightarrow> pyval \<Rightarrow> pyval \<Rightarrow> profile \<Rightarrow> pyval io" where
  "nsx_ids_get_rule_or_none opts rule policy domain profile =
     none_if_missing (nsx_ids_get_rule opts rule policy domain profile)"

definition nsx_ids_create_rule :: "pyval \<Rightarrow> pyval \<Rightarrow> pyval \<Rightarrow> pyval \<Rightarrow> profile \<Rightarrow> dict \<Rightarrow> pyval io" where
  "nsx_ids_create_rule opts rule policy domain profile spec =
     nsx_api_put opts (nsx_ids_rule_path domain policy rule) (named_body rule [] spec) PNone profile"

definition nsx_ids_delete_rule :: "pyval \<Rightarrow> pyval \<Rightarrow> pyval \<Rightarrow> pyval \<Rightarrow> profile \<Rightarrow> pyval io" where
  "nsx_ids_delete_rule opts rule policy domain profile =
     nsx_api_delete opts (nsx_ids_rule_path domain policy rule) PNone profile"

end
