(* ===== verification/Vcf_Nsx_Presence.thy ===== *)
theory Vcf_Nsx_Presence
  imports Nsx_Networking Nsx_Security Nsx_Node
begin

section \<open>Vcf_Nsx_Presence: the states that keep an NSX object present or absent\<close>

text \<open>
  \<open>states/vcf_nsx_segment.py\<close>, \<open>vcf_nsx_group.py\<close>, \<open>vcf_nsx_service.py\<close>, \<open>vcf_nsx_security_policy.py\<close>,
  \<open>vcf_nsx_firewall_rule.py\<close>, \<open>vcf_nsx_uplink_profile.py\<close>, \<open>vcf_nsx_syslog_exporter.py\<close> and
  \<open>vcf_nsx_dhcp.py\<close>: they only look whether the object is there, and never touch one that is.
\<close>

subsection \<open>\<open>states/vcf_nsx_segment.py\<close>\<close>

definition vcf_nsx_segment_present :: "pyval \<Rightarrow> string \<Rightarrow> profile \<Rightarrow> dict \<Rightarrow> salt_ret io" where
  "vcf_nsx_segment_present opts name profile spec =
     ensure_present opts name (nsx_segment_get_or_none opts (PStr name) profile)
       (nsx_segment_create opts (PStr name) profile spec)
       (''Segment '' @ name @ '' is already present'') (''Segment '' @ name @ '' would be created'')
       (''Segment '' @ name @ '' created'')"

definition vcf_nsx_segment_absent :: "pyval \<Rightarrow> string \<Rightarrow> profile \<Rightarrow> salt_ret io" where
  "vcf_nsx_segment_absent opts name profile =
     ensure_absent opts name (nsx_segment_get_or_none opts (PStr name) profile)
       (nsx_segment_delete opts (PStr name) profile)
       (''Segment '' @ name @ '' is already absent'') (''Segment '' @ name @ '' would be deleted'')
       (''Segment '' @ name @ '' deleted'')"

subsection \<open>\<open>states/vcf_nsx_group.py\<close>\<close>

definition vcf_nsx_group_present :: "pyval \<Rightarrow> string \<Rightarrow> profile \<Rightarrow> dict \<Rightarrow> salt_ret io" where
  "vcf_nsx_group_present opts name profile spec =
     ensure_present opts name (nsx_group_get_or_none opts (PStr name) profile)
       (nsx_group_create opts (PStr name) profile spec)
       (''Group '' @ name @ '' is already present'') (''Group '' @ name @ '' would be created'')
       (''Group '' @ name @ '' created'')"

definition vcf_nsx_group_absent :: "pyval \<Rightarrow> string \<Rightarrow> profile \<Rightarrow> salt_ret io" where
  "vcf_nsx_group_absent opts name profile =
     ensure_absent opts name (nsx_group_get_or_none opts (PStr name) profile)
       (nsx_group_delete opts (PStr name) profile)
       (''Group '' @ name @ '' is already absent'') (''Group '' @ name @ '' would be deleted'')
       (''Group '' @ name @ '' deleted'')"

subsection \<open>\<open>states/vcf_nsx_service.py\<close>\<close>

definition vcf_nsx_service_present :: "pyval \<Rightarrow> string \<Rightarrow> profile \<Rightarrow> dict \<Rightarrow> salt_ret io" where
  "vcf_nsx_service_present opts name profile spec =
     ensure_present opts name (nsx_service_get_or_none opts (PStr name) profile)
       (nsx_service_create opts (PStr name) profile spec)
       (''Service '' @ name @ '' is already present'') (''Service '' @ name @ '' would be created'')
       (''Service '' @ name @ '' created'')"

definition vcf_nsx_service_absent :: "pyval \<Rightarrow> string \<Rightarrow> profile \<Rightarrow> salt_ret io" where
  "vcf_nsx_service_absent opts name profile =
     ensure_absent opts name (nsx_service_get_or_none opts (PStr name) profile)
       (nsx_service_delete opts (PStr name) profile)
       (''Service '' @ name @ '' is already absent'') (''Service '' @ name @ '' would be deleted'')
       (''Service '' @ name @ '' deleted'')"

subsection \<open>\<open>states/vcf_nsx_security_policy.py\<close>\<close>

definition vcf_nsx_security_policy_present :: "pyval \<Rightarrow> string \<Rightarrow> pyval \<Rightarrow> profile \<Rightarrow> dict \<Rightarrow> salt_ret io" where
  "vcf_nsx_security_policy_present opts name domain profile spec =
     ensure_present opts name (nsx_security_policy_get_or_none opts (PStr name) domain profile)
       (nsx_security_policy_create opts (PStr name) domain profile spec)
       (''Security policy '' @ name @ '' is already present'') (''Security policy '' @ name @ '' would be created'')
       (''Security policy '' @ name @ '' created'')"

definition vcf_nsx_security_policy_absent :: "pyval \<Rightarrow> string \<Rightarrow> pyval \<Rightarrow> profile \<Rightarrow> salt_ret io" where
  "vcf_nsx_security_policy_absent opts name domain profile =
     ensure_absent opts name (nsx_security_policy_get_or_none opts (PStr name) domain profile)
       (nsx_security_policy_delete opts (PStr name) domain profile)
       (''Security policy '' @ name @ '' is already absent'') (''Security policy '' @ name @ '' would be deleted'')
       (''Security policy '' @ name @ '' deleted'')"

subsection \<open>\<open>states/vcf_nsx_firewall_rule.py\<close>\<close>

definition vcf_nsx_firewall_rule_present :: "pyval \<Rightarrow> string \<Rightarrow> pyval \<Rightarrow> pyval \<Rightarrow> profile \<Rightarrow> dict \<Rightarrow> salt_ret io" where
  "vcf_nsx_firewall_rule_present opts name policy domain profile spec =
     ensure_present opts name (nsx_firewall_rule_get_or_none opts (PStr name) policy domain profile)
       (nsx_firewall_rule_create opts (PStr name) policy domain profile spec)
       (''Rule '' @ name @ '' is already present in '' @ py_str policy) (''Rule '' @ name @ '' would be created in '' @ py_str policy)
       (''Rule '' @ name @ '' created in '' @ py_str policy)"

definition vcf_nsx_firewall_rule_absent :: "pyval \<Rightarrow> string \<Rightarrow> pyval \<Rightarrow> pyval \<Rightarrow> profile \<Rightarrow> salt_ret io" where
  "vcf_nsx_firewall_rule_absent opts name policy domain profile =
     ensure_absent opts name (nsx_firewall_rule_get_or_none opts (PStr name) policy domain profile)
       (nsx_firewall_rule_delete opts (PStr name) policy domain profile)
       (''Rule '' @ name @ '' is already absent from '' @ py_str policy) (''Rule '' @ name @ '' would be deleted from '' @ py_str policy)
       (''Rule '' @ name @ '' deleted from '' @ py_str policy)"

subsection \<open>\<open>states/vcf_nsx_uplink_profile.py\<close>\<close>

definition vcf_nsx_uplink_profile_present :: "pyval \<Rightarrow> string \<Rightarrow> pyval \<Rightarrow> profile \<Rightarrow> dict \<Rightarrow> salt_ret io" where
  "vcf_nsx_uplink_profile_present opts name teaming profile spec =
     ensure_present opts name (nsx_uplink_profile_get_or_none opts (PStr name) profile)
       (nsx_uplink_profile_create opts (PStr name) teaming profile spec)
       (''Uplink profile '' @ name @ '' is already present'') (''Uplink profile '' @ name @ '' would be created'')
       (''Uplink profile '' @ name @ '' created'')"

definition vcf_nsx_uplink_profile_absent :: "pyval \<Rightarrow> string \<Rightarrow> profile \<Rightarrow> salt_ret io" where
  "vcf_nsx_uplink_profile_absent opts name profile =
     ensure_absent opts name (nsx_uplink_profile_get_or_none opts (PStr name) profile)
       (nsx_uplink_profile_delete opts (PStr name) profile)
       (''Uplink profile '' @ name @ '' is already absent'') (''Uplink profile '' @ name @ '' would be deleted'')
       (''Uplink profile '' @ name @ '' deleted'')"

subsection \<open>\<open>states/vcf_nsx_syslog_exporter.py\<close>\<close>

definition vcf_nsx_syslog_exporter_present :: "pyval \<Rightarrow> string \<Rightarrow> pyval \<Rightarrow> pyval \<Rightarrow> pyval \<Rightarrow> profile \<Rightarrow> dict \<Rightarrow> salt_ret io" where
  "vcf_nsx_syslog_exporter_present opts name server port protocol profile spec =
     ensure_present opts name (nsx_syslog_exporter_get_or_none opts (PStr name) profile)
       (nsx_syslog_exporter_create opts (PStr name) server port protocol profile spec)
       (''Syslog exporter '' @ name @ '' is already present'') (''Syslog exporter '' @ name @ '' would be created'')
       (''Syslog exporter '' @ name @ '' created'')"

definition vcf_nsx_syslog_exporter_absent :: "pyval \<Rightarrow> string \<Rightarrow> profile \<Rightarrow> salt_ret io" where
  "vcf_nsx_syslog_exporter_absent opts name profile =
     ensure_absent opts name (nsx_syslog_exporter_get_or_none opts (PStr name) profile)
       (nsx_syslog_exporter_delete opts (PStr name) profile)
       (''Syslog exporter '' @ name @ '' is already absent'') (''Syslog exporter '' @ name @ '' would be deleted'')
       (''Syslog exporter '' @ name @ '' deleted'')"

subsection \<open>\<open>states/vcf_nsx_dhcp.py\<close>\<close>

definition vcf_nsx_dhcp_server_present :: "pyval \<Rightarrow> string \<Rightarrow> pyval \<Rightarrow> profile \<Rightarrow> dict \<Rightarrow> salt_ret io" where
  "vcf_nsx_dhcp_server_present opts name server_addresses profile spec =
     ensure_present opts name (nsx_dhcp_server_get_or_none opts (PStr name) profile)
       (bindM (liftR (py_iter server_addresses)) (\<lambda>items.
          nsx_dhcp_server_create opts (PStr name) profile ((''server_addresses'', PList items) # spec)))
       (''DHCP server profile '' @ name @ '' is already present'') (''DHCP server profile '' @ name @ '' would be created'')
       (''DHCP server profile '' @ name @ '' created'')"

definition vcf_nsx_dhcp_server_absent :: "pyval \<Rightarrow> string \<Rightarrow> profile \<Rightarrow> salt_ret io" where
  "vcf_nsx_dhcp_server_absent opts name profile =
     ensure_absent opts name (nsx_dhcp_server_get_or_none opts (PStr name) profile)
       (nsx_dhcp_server_delete opts (PStr name) profile)
       (''DHCP server profile '' @ name @ '' is already absent'') (''DHCP server profile '' @ name @ '' would be deleted'')
       (''DHCP server profile '' @ name @ '' deleted'')"

definition vcf_nsx_dhcp_relay_present :: "pyval \<Rightarrow> string \<Rightarrow> pyval \<Rightarrow> profile \<Rightarrow> dict \<Rightarrow> salt_ret io" where
  "vcf_nsx_dhcp_relay_present opts name server_addresses profile spec =
     ensure_present opts name (nsx_dhcp_relay_get_or_none opts (PStr name) profile)
       (bindM (liftR (py_iter server_addresses)) (\<lambda>items.
          nsx_dhcp_relay_create opts (PStr name) (PList items) profile spec))
       (''DHCP relay profile '' @ name @ '' is already present'') (''DHCP relay profile '' @ name @ '' would be created'')
       (''DHCP relay profile '' @ name @ '' created'')"

definition vcf_nsx_dhcp_relay_absent :: "pyval \<Rightarrow> string \<Rightarrow> profile \<Rightarrow> salt_ret io" where
  "vcf_nsx_dhcp_relay_absent opts name profile =
     ensure_absent opts name (nsx_dhcp_relay_get_or_none opts (PStr name) profile)
       (nsx_dhcp_relay_delete opts (PStr name) profile)
       (''DHCP relay profile '' @ name @ '' is already absent'') (''DHCP relay profile '' @ name @ '' would be deleted'')
       (''DHCP relay profile '' @ name @ '' deleted'')"

subsection \<open>The client calls follow the contract of an object\<close>

interpretation segment_object: rest_object "nsx_view opts p keep (insert (nsx_segment_PATH @ ''/'' @ s) P)"
  "nsx_segment_get_or_none opts (PStr s) p" "nsx_segment_create opts (PStr s) p spec"
  "nsx_segment_delete opts (PStr s) p" "nsx_segment_PATH @ ''/'' @ s"
  "keep ''PUT'' (nsx_segment_PATH @ ''/'' @ s) (named_body (PStr s) [] spec) None"
  for opts p keep P s spec
  unfolding nsx_segment_get_or_none_def
  by (rule nsx_rest_object) (simp_all add: nsx_segment_get_def nsx_segment_create_def nsx_segment_delete_def)

interpretation group_object: rest_object "nsx_view opts p keep (insert (nsx_group_PATH @ ''/'' @ s) P)"
  "nsx_group_get_or_none opts (PStr s) p" "nsx_group_create opts (PStr s) p spec"
  "nsx_group_delete opts (PStr s) p" "nsx_group_PATH @ ''/'' @ s"
  "keep ''PUT'' (nsx_group_PATH @ ''/'' @ s) (named_body (PStr s) [] spec) None"
  for opts p keep P s spec
  unfolding nsx_group_get_or_none_def
  by (rule nsx_rest_object) (simp_all add: nsx_group_get_def nsx_group_create_def nsx_group_delete_def)

interpretation service_object: rest_object "nsx_view opts p keep (insert (nsx_service_PATH @ ''/'' @ s) P)"
  "nsx_service_get_or_none opts (PStr s) p" "nsx_service_create opts (PStr s) p spec"
  "nsx_service_delete opts (PStr s) p" "nsx_service_PATH @ ''/'' @ s"
  "keep ''PUT'' (nsx_service_PATH @ ''/'' @ s) (named_body (PStr s) [] spec) None"
  for opts p keep P s spec
  unfolding nsx_service_get_or_none_def
  by (rule nsx_rest_object) (simp_all add: nsx_service_get_def nsx_service_create_def nsx_service_delete_def)

interpretation policy_object: rest_object "nsx_view opts p keep (insert (nsx_security_policy_base domain @ ''/'' @ s) P)"
  "nsx_security_policy_get_or_none opts (PStr s) domain p" "nsx_security_policy_create opts (PStr s) domain p spec"
  "nsx_security_policy_delete opts (PStr s) domain p" "nsx_security_policy_base domain @ ''/'' @ s"
  "keep ''PUT'' (nsx_security_policy_base domain @ ''/'' @ s) (named_body (PStr s) [] spec) None"
  for opts p keep P s spec domain
  unfolding nsx_security_policy_get_or_none_def
  by (rule nsx_rest_object) (simp_all add: nsx_security_policy_get_def nsx_security_policy_create_def nsx_security_policy_delete_def)

interpretation rule_object: rest_object "nsx_view opts p keep (insert (nsx_firewall_rule_base domain pol @ ''/'' @ s) P)"
  "nsx_firewall_rule_get_or_none opts (PStr s) pol domain p" "nsx_firewall_rule_create opts (PStr s) pol domain p spec"
  "nsx_firewall_rule_delete opts (PStr s) pol domain p" "nsx_firewall_rule_base domain pol @ ''/'' @ s"
  "keep ''PUT'' (nsx_firewall_rule_base domain pol @ ''/'' @ s) (named_body (PStr s) [] spec) None"
  for opts p keep P s spec pol domain
  unfolding nsx_firewall_rule_get_or_none_def
  by (rule nsx_rest_object) (simp_all add: nsx_firewall_rule_get_def nsx_firewall_rule_create_def nsx_firewall_rule_delete_def)

interpretation uplink_object: rest_object "nsx_view opts p keep (insert (nsx_uplink_profile_PATH @ ''/'' @ s) P)"
  "nsx_uplink_profile_get_or_none opts (PStr s) p" "nsx_uplink_profile_create opts (PStr s) teaming p spec"
  "nsx_uplink_profile_delete opts (PStr s) p" "nsx_uplink_profile_PATH @ ''/'' @ s"
  "keep ''PUT'' (nsx_uplink_profile_PATH @ ''/'' @ s) (named_body (PStr s) [(''resource_type'', PStr ''PolicyUplinkHostSwitchProfile''), (''teaming'', teaming)] spec) None"
  for opts p keep P s spec teaming
  unfolding nsx_uplink_profile_get_or_none_def
  by (rule nsx_rest_object) (simp_all add: nsx_uplink_profile_get_def nsx_uplink_profile_create_def nsx_uplink_profile_delete_def)

interpretation dhcp_server_object: rest_object "nsx_view opts p keep (insert (nsx_dhcp_SERVER @ ''/'' @ s) P)"
  "nsx_dhcp_server_get_or_none opts (PStr s) p" "nsx_dhcp_server_create opts (PStr s) p ((''server_addresses'', PList addrs) # spec)"
  "nsx_dhcp_server_delete opts (PStr s) p" "nsx_dhcp_SERVER @ ''/'' @ s"
  "keep ''PUT'' (nsx_dhcp_SERVER @ ''/'' @ s) (named_body (PStr s) [] ((''server_addresses'', PList addrs) # spec)) None"
  for opts p keep P s spec addrs
  unfolding nsx_dhcp_server_get_or_none_def
  by (rule nsx_rest_object) (simp_all add: nsx_dhcp_server_get_def nsx_dhcp_server_create_def nsx_dhcp_server_delete_def)

interpretation dhcp_relay_object: rest_object "nsx_view opts p keep (insert (nsx_dhcp_RELAY @ ''/'' @ s) P)"
  "nsx_dhcp_relay_get_or_none opts (PStr s) p" "nsx_dhcp_relay_create opts (PStr s) (PList addrs) p spec"
  "nsx_dhcp_relay_delete opts (PStr s) p" "nsx_dhcp_RELAY @ ''/'' @ s"
  "keep ''PUT'' (nsx_dhcp_RELAY @ ''/'' @ s) (named_body (PStr s) [(''server_addresses'', PList addrs)] spec) None"
  for opts p keep P s spec addrs
  unfolding nsx_dhcp_relay_get_or_none_def
  by (rule nsx_rest_object) (simp_all add: nsx_dhcp_relay_get_def nsx_dhcp_relay_create_def nsx_dhcp_relay_delete_def)

subsection \<open>The states\<close>

text \<open>What a pair of states promises: \<open>present\<close> puts \<open>body\<close> at the path \<open>q\<close> unless something is there,
  \<open>absent\<close> removes it.\<close>

definition keeps_present ::
  "pyval \<Rightarrow> profile \<Rightarrow> keeping \<Rightarrow> string set \<Rightarrow> string \<Rightarrow> string \<Rightarrow> pyval \<Rightarrow> salt_ret io \<Rightarrow> bool" where
  "keeps_present opts p keep P name q body prog \<longleftrightarrow>
     refines (nsx_view opts p keep (insert q P)) prog (present_spec (test_mode opts) name q (keep ''PUT'' q body None))"

definition keeps_absent :: "pyval \<Rightarrow> profile \<Rightarrow> keeping \<Rightarrow> string set \<Rightarrow> string \<Rightarrow> string \<Rightarrow> salt_ret io \<Rightarrow> bool" where
  "keeps_absent opts p keep P name q prog \<longleftrightarrow>
     refines (nsx_view opts p keep (insert q P)) prog (absent_spec (test_mode opts) name q)"

lemma keeps_converge:
  assumes "\<not> test_mode opts"
  shows "keeps_present opts p keep P name q body prog \<Longrightarrow>
      converges (nsx_view opts p keep (insert q P)) prog (\<lambda>m. m q \<noteq> None)"
    and "keeps_absent opts p keep P name q prog \<Longrightarrow>
      converges (nsx_view opts p keep (insert q P)) prog (\<lambda>m. m q = None)"
  using assms by (simp_all add: keeps_present_def keeps_absent_def present_converges absent_converges del: not_None_eq)

lemma segment_kept:
  "keeps_present opts p keep P s (nsx_segment_PATH @ ''/'' @ s) (named_body (PStr s) [] spec) (vcf_nsx_segment_present opts s p spec)"
  "keeps_absent opts p keep P s (nsx_segment_PATH @ ''/'' @ s) (vcf_nsx_segment_absent opts s p)"
  unfolding keeps_present_def keeps_absent_def vcf_nsx_segment_present_def vcf_nsx_segment_absent_def py_iter.simps bindM_laws
  by (rule segment_object.present_refines [OF nsx_view_opts], assumption)
    (rule segment_object.absent_refines [OF nsx_view_opts], assumption)

lemma group_kept:
  "keeps_present opts p keep P s (nsx_group_PATH @ ''/'' @ s) (named_body (PStr s) [] spec) (vcf_nsx_group_present opts s p spec)"
  "keeps_absent opts p keep P s (nsx_group_PATH @ ''/'' @ s) (vcf_nsx_group_absent opts s p)"
  unfolding keeps_present_def keeps_absent_def vcf_nsx_group_present_def vcf_nsx_group_absent_def py_iter.simps bindM_laws
  by (rule group_object.present_refines [OF nsx_view_opts], assumption)
    (rule group_object.absent_refines [OF nsx_view_opts], assumption)

lemma service_kept:
  "keeps_present opts p keep P s (nsx_service_PATH @ ''/'' @ s) (named_body (PStr s) [] spec) (vcf_nsx_service_present opts s p spec)"
  "keeps_absent opts p keep P s (nsx_service_PATH @ ''/'' @ s) (vcf_nsx_service_absent opts s p)"
  unfolding keeps_present_def keeps_absent_def vcf_nsx_service_present_def vcf_nsx_service_absent_def py_iter.simps bindM_laws
  by (rule service_object.present_refines [OF nsx_view_opts], assumption)
    (rule service_object.absent_refines [OF nsx_view_opts], assumption)

lemma policy_kept:
  "keeps_present opts p keep P s (nsx_security_policy_base domain @ ''/'' @ s) (named_body (PStr s) [] spec) (vcf_nsx_security_policy_present opts s domain p spec)"
  "keeps_absent opts p keep P s (nsx_security_policy_base domain @ ''/'' @ s) (vcf_nsx_security_policy_absent opts s domain p)"
  unfolding keeps_present_def keeps_absent_def vcf_nsx_security_policy_present_def vcf_nsx_security_policy_absent_def py_iter.simps bindM_laws
  by (rule policy_object.present_refines [OF nsx_view_opts], assumption)
    (rule policy_object.absent_refines [OF nsx_view_opts], assumption)

lemma rule_kept:
  "keeps_present opts p keep P s (nsx_firewall_rule_base domain pol @ ''/'' @ s) (named_body (PStr s) [] spec) (vcf_nsx_firewall_rule_present opts s pol domain p spec)"
  "keeps_absent opts p keep P s (nsx_firewall_rule_base domain pol @ ''/'' @ s) (vcf_nsx_firewall_rule_absent opts s pol domain p)"
  unfolding keeps_present_def keeps_absent_def vcf_nsx_firewall_rule_present_def vcf_nsx_firewall_rule_absent_def py_iter.simps bindM_laws
  by (rule rule_object.present_refines [OF nsx_view_opts], assumption)
    (rule rule_object.absent_refines [OF nsx_view_opts], assumption)

lemma uplink_kept:
  "keeps_present opts p keep P s (nsx_uplink_profile_PATH @ ''/'' @ s) (named_body (PStr s) [(''resource_type'', PStr ''PolicyUplinkHostSwitchProfile''), (''teaming'', teaming)] spec) (vcf_nsx_uplink_profile_present opts s teaming p spec)"
  "keeps_absent opts p keep P s (nsx_uplink_profile_PATH @ ''/'' @ s) (vcf_nsx_uplink_profile_absent opts s p)"
  unfolding keeps_present_def keeps_absent_def vcf_nsx_uplink_profile_present_def vcf_nsx_uplink_profile_absent_def py_iter.simps bindM_laws
  by (rule uplink_object.present_refines [OF nsx_view_opts], assumption)
    (rule uplink_object.absent_refines [OF nsx_view_opts], assumption)

lemma dhcp_server_kept:
  "keeps_present opts p keep P s (nsx_dhcp_SERVER @ ''/'' @ s) (named_body (PStr s) [] ((''server_addresses'', PList addrs) # spec)) (vcf_nsx_dhcp_server_present opts s (PList addrs) p spec)"
  "keeps_absent opts p keep P s (nsx_dhcp_SERVER @ ''/'' @ s) (vcf_nsx_dhcp_server_absent opts s p)"
  unfolding keeps_present_def keeps_absent_def vcf_nsx_dhcp_server_present_def vcf_nsx_dhcp_server_absent_def py_iter.simps bindM_laws
  by (rule dhcp_server_object.present_refines [OF nsx_view_opts], assumption)
    (rule dhcp_server_object.absent_refines [OF nsx_view_opts], assumption)

lemma dhcp_relay_kept:
  "keeps_present opts p keep P s (nsx_dhcp_RELAY @ ''/'' @ s) (named_body (PStr s) [(''server_addresses'', PList addrs)] spec) (vcf_nsx_dhcp_relay_present opts s (PList addrs) p spec)"
  "keeps_absent opts p keep P s (nsx_dhcp_RELAY @ ''/'' @ s) (vcf_nsx_dhcp_relay_absent opts s p)"
  unfolding keeps_present_def keeps_absent_def vcf_nsx_dhcp_relay_present_def vcf_nsx_dhcp_relay_absent_def py_iter.simps bindM_laws
  by (rule dhcp_relay_object.present_refines [OF nsx_view_opts], assumption)
    (rule dhcp_relay_object.absent_refines [OF nsx_view_opts], assumption)

lemmas presence_kept = segment_kept group_kept service_kept policy_kept rule_kept uplink_kept dhcp_server_kept dhcp_relay_kept

text \<open>C14: Every presence state of NSX (segments, groups, services, security policies, firewall rules, uplink
  profiles, DHCP servers and relays) simulates the abstract operation on the store of objects: on an
  NSX manager that answers as a store, \<open>present\<close> creates exactly its object with exactly the body of the
  specification when the path is empty and leaves an existing object alone, \<open>absent\<close> removes exactly it,
  a dry run changes nothing, and the result and the changes reported are those of the operation.\<close>

theorem nsx_presence_states_refine:
  "keeps_present opts p keep P s (nsx_segment_PATH @ ''/'' @ s) (named_body (PStr s) [] spec) (vcf_nsx_segment_present opts s p spec) \<and>
   keeps_absent opts p keep P s (nsx_segment_PATH @ ''/'' @ s) (vcf_nsx_segment_absent opts s p) \<and>
   keeps_present opts p keep P s (nsx_group_PATH @ ''/'' @ s) (named_body (PStr s) [] spec) (vcf_nsx_group_present opts s p spec) \<and>
   keeps_absent opts p keep P s (nsx_group_PATH @ ''/'' @ s) (vcf_nsx_group_absent opts s p) \<and>
   keeps_present opts p keep P s (nsx_service_PATH @ ''/'' @ s) (named_body (PStr s) [] spec) (vcf_nsx_service_present opts s p spec) \<and>
   keeps_absent opts p keep P s (nsx_service_PATH @ ''/'' @ s) (vcf_nsx_service_absent opts s p) \<and>
   keeps_present opts p keep P s (nsx_security_policy_base domain @ ''/'' @ s) (named_body (PStr s) [] spec) (vcf_nsx_security_policy_present opts s domain p spec) \<and>
   keeps_absent opts p keep P s (nsx_security_policy_base domain @ ''/'' @ s) (vcf_nsx_security_policy_absent opts s domain p) \<and>
   keeps_present opts p keep P s (nsx_firewall_rule_base domain pol @ ''/'' @ s) (named_body (PStr s) [] spec) (vcf_nsx_firewall_rule_present opts s pol domain p spec) \<and>
   keeps_absent opts p keep P s (nsx_firewall_rule_base domain pol @ ''/'' @ s) (vcf_nsx_firewall_rule_absent opts s pol domain p) \<and>
   keeps_present opts p keep P s (nsx_uplink_profile_PATH @ ''/'' @ s) (named_body (PStr s) [(''resource_type'', PStr ''PolicyUplinkHostSwitchProfile''), (''teaming'', teaming)] spec) (vcf_nsx_uplink_profile_present opts s teaming p spec) \<and>
   keeps_absent opts p keep P s (nsx_uplink_profile_PATH @ ''/'' @ s) (vcf_nsx_uplink_profile_absent opts s p) \<and>
   keeps_present opts p keep P s (nsx_dhcp_SERVER @ ''/'' @ s) (named_body (PStr s) [] ((''server_addresses'', PList addrs) # spec)) (vcf_nsx_dhcp_server_present opts s (PList addrs) p spec) \<and>
   keeps_absent opts p keep P s (nsx_dhcp_SERVER @ ''/'' @ s) (vcf_nsx_dhcp_server_absent opts s p) \<and>
   keeps_present opts p keep P s (nsx_dhcp_RELAY @ ''/'' @ s) (named_body (PStr s) [(''server_addresses'', PList addrs)] spec) (vcf_nsx_dhcp_relay_present opts s (PList addrs) p spec) \<and>
   keeps_absent opts p keep P s (nsx_dhcp_RELAY @ ''/'' @ s) (vcf_nsx_dhcp_relay_absent opts s p)"
  by (intro conjI) (rule presence_kept)+

theorem nsx_presence_states_refine_witness:
  "\<exists>r w'. vcf_nsx_segment_present (opts_run_for ''nsx'') ''web'' None [(''vlan'', PInt 7)]
        (store_world ''https://h'' plain_keep (\<lambda>_. None)) = Some (Ok r, w') \<and>
      outcome r = (Some True, PDict [(''new'', PStr ''web'')])"
proof -
  let ?opts = "opts_run_for ''nsx''" and ?q = "nsx_segment_PATH @ ''/'' @ ''web''"
  have "keeps_present ?opts None plain_keep {} ''web'' ?q (named_body (PStr ''web'') [] [(''vlan'', PInt 7)])
      (vcf_nsx_segment_present ?opts ''web'' None [(''vlan'', PInt 7)])"
    by (rule nsx_presence_states_refine [THEN conjunct1])
  then have "refines (nsx_view ?opts None plain_keep (insert ?q {})) (vcf_nsx_segment_present ?opts ''web'' None [(''vlan'', PInt 7)])
      (present_spec False ''web'' ?q (plain_keep ''PUT'' ?q (named_body (PStr ''web'') [] [(''vlan'', PInt 7)]) None))"
    by (simp add: keeps_present_def)
  from this nsx_store_world(1) show ?thesis
    by (rule refinesD) (auto simp: present_spec_def)
qed

text \<open>Every presence state of NSX converges: one real run on a manager that answers as a store succeeds
  and reaches a store in which the object is there (\<open>present\<close>) or gone (\<open>absent\<close>), and a second run finds
  nothing to do and leaves that store as it is.\<close>

theorem nsx_presence_states_converge:
  assumes "\<not> test_mode opts"
  shows "converges (nsx_view opts p keep (insert (nsx_segment_PATH @ ''/'' @ s) P)) (vcf_nsx_segment_present opts s p spec) (\<lambda>m. m (nsx_segment_PATH @ ''/'' @ s) \<noteq> None) \<and>
    converges (nsx_view opts p keep (insert (nsx_segment_PATH @ ''/'' @ s) P)) (vcf_nsx_segment_absent opts s p) (\<lambda>m. m (nsx_segment_PATH @ ''/'' @ s) = None) \<and>
    converges (nsx_view opts p keep (insert (nsx_group_PATH @ ''/'' @ s) P)) (vcf_nsx_group_present opts s p spec) (\<lambda>m. m (nsx_group_PATH @ ''/'' @ s) \<noteq> None) \<and>
    converges (nsx_view opts p keep (insert (nsx_group_PATH @ ''/'' @ s) P)) (vcf_nsx_group_absent opts s p) (\<lambda>m. m (nsx_group_PATH @ ''/'' @ s) = None) \<and>
    converges (nsx_view opts p keep (insert (nsx_service_PATH @ ''/'' @ s) P)) (vcf_nsx_service_present opts s p spec) (\<lambda>m. m (nsx_service_PATH @ ''/'' @ s) \<noteq> None) \<and>
    converges (nsx_view opts p keep (insert (nsx_service_PATH @ ''/'' @ s) P)) (vcf_nsx_service_absent opts s p) (\<lambda>m. m (nsx_service_PATH @ ''/'' @ s) = None) \<and>
    converges (nsx_view opts p keep (insert (nsx_security_policy_base domain @ ''/'' @ s) P)) (vcf_nsx_security_policy_present opts s domain p spec) (\<lambda>m. m (nsx_security_policy_base domain @ ''/'' @ s) \<noteq> None) \<and>
    converges (nsx_view opts p keep (insert (nsx_security_policy_base domain @ ''/'' @ s) P)) (vcf_nsx_security_policy_absent opts s domain p) (\<lambda>m. m (nsx_security_policy_base domain @ ''/'' @ s) = None) \<and>
    converges (nsx_view opts p keep (insert (nsx_firewall_rule_base domain pol @ ''/'' @ s) P)) (vcf_nsx_firewall_rule_present opts s pol domain p spec) (\<lambda>m. m (nsx_firewall_rule_base domain pol @ ''/'' @ s) \<noteq> None) \<and>
    converges (nsx_view opts p keep (insert (nsx_firewall_rule_base domain pol @ ''/'' @ s) P)) (vcf_nsx_firewall_rule_absent opts s pol domain p) (\<lambda>m. m (nsx_firewall_rule_base domain pol @ ''/'' @ s) = None) \<and>
    converges (nsx_view opts p keep (insert (nsx_uplink_profile_PATH @ ''/'' @ s) P)) (vcf_nsx_uplink_profile_present opts s teaming p spec) (\<lambda>m. m (nsx_uplink_profile_PATH @ ''/'' @ s) \<noteq> None) \<and>
    converges (nsx_view opts p keep (insert (nsx_uplink_profile_PATH @ ''/'' @ s) P)) (vcf_nsx_uplink_profile_absent opts s p) (\<lambda>m. m (nsx_uplink_profile_PATH @ ''/'' @ s) = None) \<and>
    converges (nsx_view opts p keep (insert (nsx_dhcp_SERVER @ ''/'' @ s) P)) (vcf_nsx_dhcp_server_present opts s (PList addrs) p spec) (\<lambda>m. m (nsx_dhcp_SERVER @ ''/'' @ s) \<noteq> None) \<and>
    converges (nsx_view opts p keep (insert (nsx_dhcp_SERVER @ ''/'' @ s) P)) (vcf_nsx_dhcp_server_absent opts s p) (\<lambda>m. m (nsx_dhcp_SERVER @ ''/'' @ s) = None) \<and>
    converges (nsx_view opts p keep (insert (nsx_dhcp_RELAY @ ''/'' @ s) P)) (vcf_nsx_dhcp_relay_present opts s (PList addrs) p spec) (\<lambda>m. m (nsx_dhcp_RELAY @ ''/'' @ s) \<noteq> None) \<and>
    converges (nsx_view opts p keep (insert (nsx_dhcp_RELAY @ ''/'' @ s) P)) (vcf_nsx_dhcp_relay_absent opts s p) (\<lambda>m. m (nsx_dhcp_RELAY @ ''/'' @ s) = None)"
  by (intro conjI) (rule keeps_converge [OF assms], rule presence_kept)+

theorem nsx_presence_states_converge_witness:
  "\<exists>r1 w1 r2 w2. vcf_nsx_segment_present (opts_run_for ''nsx'') ''web'' None []
        (store_world ''https://h'' plain_keep (\<lambda>_. None)) = Some (Ok r1, w1) \<and>
      ret_result r1 = Some True \<and>
      vcf_nsx_segment_present (opts_run_for ''nsx'') ''web'' None [] w1 = Some (Ok r2, w2) \<and>
      outcome r2 = (Some True, empty_dict)"
  using nsx_presence_states_converge [OF nsx_config_for(3), THEN conjunct1, of None plain_keep "''web''" "{}" "[]"]
    nsx_store_world(1) [of plain_keep "{nsx_segment_PATH @ ''/'' @ ''web''}" "\<lambda>_. None"]
  unfolding converges_def by blast

end
