(* ===== verification/Vcf_Nsx_Config.thy ===== *)
theory Vcf_Nsx_Config
  imports Nsx_Networking Nsx_Node Rest_Store
begin

section \<open>Vcf_Nsx_Config: the states on the configuration of an NSX manager\<close>

text \<open>
  \<open>states/vcf_nsx_tier0.py\<close>, \<open>vcf_nsx_tier1.py\<close>, \<open>vcf_nsx_telemetry.py\<close>, \<open>vcf_nsx_vidm.py\<close>,
  \<open>vcf_nsx_cluster_vip.py\<close>, \<open>vcf_nsx_dns_servers.py\<close>, \<open>vcf_nsx_ntp_servers.py\<close> and
  \<open>vcf_nsx_node_services.py\<close>: each reads a document, compares it with what is wanted and writes it back.
\<close>

definition old_new :: "pyval \<Rightarrow> pyval \<Rightarrow> pyval" where
  "old_new a b = PDict [(''old'', a), (''new'', b)]"

subsection \<open>Gateway features\<close>

definition on_off :: "bool \<Rightarrow> string" where
  "on_off b = (if b then ''enabled'' else ''disabled'')"

definition feature_enabled ::
  "string \<Rightarrow> pyval \<Rightarrow> string \<Rightarrow> string \<Rightarrow> (pyval \<Rightarrow> pyval \<Rightarrow> pyval \<Rightarrow> profile \<Rightarrow> pyval io) \<Rightarrow>
     (pyval \<Rightarrow> pyval \<Rightarrow> pyval \<Rightarrow> pyval \<Rightarrow> profile \<Rightarrow> dict \<Rightarrow> pyval io) \<Rightarrow> pyval \<Rightarrow> pyval \<Rightarrow> profile \<Rightarrow> salt_ret io" where
  "feature_enabled tier opts name feature get_fn set_fn enabled locale_service profile =
     bindM (get_fn opts (PStr name) locale_service profile) (\<lambda>current.
     bindM (liftR (py_get current ''enabled'' (PBool False))) (\<lambda>e.
     let current_enabled = truthy e; desired = truthy enabled;
         subject = tier @ '' '' @ name @ '' '' @ feature @ '' '' in
     if current_enabled = desired then pureM (unchanged name (subject @ ''already '' @ on_off desired))
     else unless_test opts (would name (subject @ ''would be '' @ on_off desired))
       (bindM (set_fn opts (PStr name) (PBool desired) locale_service profile []) (\<lambda>_.
        pureM (changed name [(''enabled'', old_new (PBool current_enabled) (PBool desired))]
          (subject @ on_off desired))))))"

definition vcf_nsx_tier0_bgp_enabled :: "pyval \<Rightarrow> string \<Rightarrow> pyval \<Rightarrow> pyval \<Rightarrow> profile \<Rightarrow> salt_ret io" where
  "vcf_nsx_tier0_bgp_enabled opts name enabled locale_service profile =
     feature_enabled ''Tier-0'' opts name ''BGP'' nsx_tier0_bgp_get nsx_tier0_bgp_set enabled locale_service profile"

definition vcf_nsx_tier0_bgp_disabled :: "pyval \<Rightarrow> string \<Rightarrow> pyval \<Rightarrow> profile \<Rightarrow> salt_ret io" where
  "vcf_nsx_tier0_bgp_disabled opts name locale_service profile =
     vcf_nsx_tier0_bgp_enabled opts name (PBool False) locale_service profile"

definition vcf_nsx_tier0_ospf_enabled :: "pyval \<Rightarrow> string \<Rightarrow> pyval \<Rightarrow> pyval \<Rightarrow> profile \<Rightarrow> salt_ret io" where
  "vcf_nsx_tier0_ospf_enabled opts name enabled locale_service profile =
     feature_enabled ''Tier-0'' opts name ''OSPF'' nsx_tier0_ospf_get nsx_tier0_ospf_set enabled locale_service profile"

definition vcf_nsx_tier0_ospf_disabled :: "pyval \<Rightarrow> string \<Rightarrow> pyval \<Rightarrow> profile \<Rightarrow> salt_ret io" where
  "vcf_nsx_tier0_ospf_disabled opts name locale_service profile =
     vcf_nsx_tier0_ospf_enabled opts name (PBool False) locale_service profile"

definition vcf_nsx_tier0_multicast_enabled :: "pyval \<Rightarrow> string \<Rightarrow> pyval \<Rightarrow> pyval \<Rightarrow> profile \<Rightarrow> salt_ret io" where
  "vcf_nsx_tier0_multicast_enabled opts name enabled locale_service profile =
     feature_enabled ''Tier-0'' opts name ''multicast'' nsx_tier0_multicast_get nsx_tier0_multicast_set
       enabled locale_service profile"

definition vcf_nsx_tier0_multicast_disabled :: "pyval \<Rightarrow> string \<Rightarrow> pyval \<Rightarrow> profile \<Rightarrow> salt_ret io" where
  "vcf_nsx_tier0_multicast_disabled opts name locale_service profile =
     vcf_nsx_tier0_multicast_enabled opts name (PBool False) locale_service profile"

definition vcf_nsx_tier1_multicast_enabled :: "pyval \<Rightarrow> string \<Rightarrow> pyval \<Rightarrow> pyval \<Rightarrow> profile \<Rightarrow> salt_ret io" where
  "vcf_nsx_tier1_multicast_enabled opts name enabled locale_service profile =
     feature_enabled ''Tier-1'' opts name ''multicast'' nsx_tier1_multicast_get nsx_tier1_multicast_set
       enabled locale_service profile"

definition vcf_nsx_tier1_multicast_disabled :: "pyval \<Rightarrow> string \<Rightarrow> pyval \<Rightarrow> profile \<Rightarrow> salt_ret io" where
  "vcf_nsx_tier1_multicast_disabled opts name locale_service profile =
     vcf_nsx_tier1_multicast_enabled opts name (PBool False) locale_service profile"

subsection \<open>Telemetry\<close>

definition vcf_nsx_telemetry_optin_set :: "pyval \<Rightarrow> string \<Rightarrow> pyval \<Rightarrow> profile \<Rightarrow> salt_ret io" where
  "vcf_nsx_telemetry_optin_set opts name optin profile =
     bindM (nsx_telemetry_get opts profile) (\<lambda>current.
     bindM (liftR (py_get (py_or current empty_dict) ''optin'' PNone)) (\<lambda>c.
     let desired = PBool (truthy optin); current_optin = PBool (truthy c) in
     if current_optin = desired then pureM (unchanged name (''CEIP optin already '' @ py_str desired))
     else unless_test opts (would name (''CEIP optin would change from '' @ py_str current_optin @ '' to '' @ py_str desired))
       (bindM (nsx_telemetry_set_optin opts desired profile) (\<lambda>_.
        pureM (changed name [(''optin'', old_new current_optin desired)] (''CEIP optin set to '' @ py_str desired))))))"

definition vcf_nsx_telemetry_ceip_disabled :: "pyval \<Rightarrow> string \<Rightarrow> profile \<Rightarrow> salt_ret io" where
  "vcf_nsx_telemetry_ceip_disabled opts name profile = vcf_nsx_telemetry_optin_set opts name (PBool False) profile"

subsection \<open>Documents compared field by field\<close>

text \<open>The wanted fields that differ: \<open>{k: {"old": current.get(k), "new": v}}\<close> where \<open>current.get(k) != v\<close>.\<close>

fun field_diff :: "pyval \<Rightarrow> dict \<Rightarrow> dict res" where
  "field_diff current [] = Ok []"
| "field_diff current ((k, v) # wanted) =
     bindR (py_get current k PNone) (\<lambda>have.
     bindR (field_diff current wanted) (\<lambda>rest.
     Ok (if py_eq have v then rest else (k, old_new have v) # rest)))"

text \<open>\<open>f"{sorted(diff)}"\<close>: the sorted keys of a dict.\<close>

definition sorted_keys :: "dict \<Rightarrow> string" where
  "sorted_keys d = py_repr (PList (map PStr (sort (map fst d))))"

subsubsection \<open>\<open>states/vcf_nsx_vidm.py\<close>\<close>

text \<open>The call \<open>c.update(opts, profile=profile, **body)\<close>: Python refuses a body with a key that is also given.\<close>

definition vidm_update_call :: "pyval \<Rightarrow> profile \<Rightarrow> dict \<Rightarrow> pyval io" where
  "vidm_update_call opts profile body =
     (if map_of body ''profile'' \<noteq> None then
        raiseM (TypeError (''update() got multiple values for keyword argument '' @ repr_str ''profile''))
      else if map_of body ''opts'' \<noteq> None then
        raiseM (TypeError (''update() got multiple values for argument '' @ repr_str ''opts''))
      else nsx_vidm_update opts profile body)"

definition vcf_nsx_vidm_enabled :: "pyval \<Rightarrow> string \<Rightarrow> pyval \<Rightarrow> profile \<Rightarrow> dict \<Rightarrow> salt_ret io" where
  "vcf_nsx_vidm_enabled opts name vidm_enable profile spec =
     bindM (nsx_vidm_get opts profile) (\<lambda>found.
     let current = py_or found empty_dict;
         wanted = dupdate [(''vidm_enable'', PBool (truthy vidm_enable))] spec in
     bindM (liftR (field_diff current wanted)) (\<lambda>diff.
     if diff = [] then pureM (unchanged name ''vIDM integration already matches'')
     else unless_test opts (would name (''vIDM integration would change: '' @ sorted_keys diff))
       (bindM (liftR (py_dict current)) (\<lambda>d.
        bindM (vidm_update_call opts profile
            (dupdate d (filter (\<lambda>(k, v). map_of diff k \<noteq> None) wanted))) (\<lambda>_.
        pureM (changed name diff ''vIDM integration updated''))))))"

subsubsection \<open>\<open>states/vcf_nsx_node_services.py\<close>\<close>

definition set_given :: "dict \<Rightarrow> string \<Rightarrow> pyval \<Rightarrow> dict" where
  "set_given d k v = (if v = PNone then d else dset d k v)"

definition http_desired :: "pyval \<Rightarrow> pyval \<Rightarrow> pyval \<Rightarrow> pyval \<Rightarrow> pyval \<Rightarrow> dict \<Rightarrow> dict" where
  "http_desired rate_limit concurrency_limit global_limit connection_timeout redirect_host extra =
     set_given (set_given (set_given (set_given (set_given extra
       ''client_api_rate_limit'' rate_limit)
       ''client_api_concurrency_limit'' concurrency_limit)
       ''global_api_concurrency_limit'' global_limit)
       ''connection_timeout'' connection_timeout)
       ''redirect_host'' redirect_host"

definition http_apply :: "pyval \<Rightarrow> string \<Rightarrow> profile \<Rightarrow> dict \<Rightarrow> salt_ret io" where
  "http_apply opts name profile desired =
     (if desired = [] then pureM (unchanged name ''No HTTP service fields supplied; nothing to do'')
      else
        bindM (nsx_node_services_http_get opts profile) (\<lambda>found.
        let current = py_or found empty_dict in
        bindM (liftR (if is_dict current then py_get current ''service_properties'' PNone else Ok PNone)) (\<lambda>sp.
        let current_props = py_or sp empty_dict in
        bindM (liftR (field_diff current_props desired)) (\<lambda>diffs.
        if diffs = [] then pureM (unchanged name ''NSX HTTP service already matches desired fields'')
        else
          unless_dry opts
            ((would name (''NSX HTTP service would be updated: '' @ sorted_keys diffs))\<lparr>ret_changes := PDict diffs\<rparr>)
            (bindM (liftR (py_dict current)) (\<lambda>merged.
             bindM (liftR (py_dict current_props)) (\<lambda>props.
             bindM (nsx_node_services_http_put opts (PDict (with_properties merged props desired)) profile) (\<lambda>_.
             pureM (changed name diffs (''NSX HTTP service updated: '' @ sorted_keys diffs))))))))))"

definition vcf_nsx_node_services_http_configured ::
  "pyval \<Rightarrow> string \<Rightarrow> pyval \<Rightarrow> pyval \<Rightarrow> pyval \<Rightarrow> pyval \<Rightarrow> pyval \<Rightarrow> profile \<Rightarrow> dict \<Rightarrow> salt_ret io" where
  "vcf_nsx_node_services_http_configured opts name client_api_rate_limit client_api_concurrency_limit
      global_api_concurrency_limit connection_timeout redirect_host profile extra =
     http_apply opts name profile
       (http_desired client_api_rate_limit client_api_concurrency_limit global_api_concurrency_limit
          connection_timeout redirect_host extra)"

subsection \<open>Resolvers and time servers\<close>

text \<open>\<open>states/vcf_nsx_dns_servers.py\<close> and \<open>vcf_nsx_ntp_servers.py\<close> compare the sorted lists, and store the
  list as it was given.\<close>

definition server_list ::
  "pyval \<Rightarrow> string \<Rightarrow> string \<Rightarrow> string \<Rightarrow> pyval io \<Rightarrow> (pyval \<Rightarrow> pyval io) \<Rightarrow> pyval \<Rightarrow> salt_ret io" where
  "server_list opts name kind key read write servers =
     bindM read (\<lambda>found.
     bindM (liftR (py_get (py_or found empty_dict) key PNone)) (\<lambda>held.
     bindM (liftR (bindR (py_iter (py_or held (PList []))) py_sorted)) (\<lambda>current_servers.
     bindM (liftR (bindR (py_iter servers) py_sorted)) (\<lambda>desired_servers.
     if py_eq (PList current_servers) (PList desired_servers) then pureM (unchanged name (kind @ '' already configured''))
     else unless_test opts (would name (kind @ '' would change: servers''))
       (bindM (write servers) (\<lambda>_.
        pureM (changed name [(''servers'', old_new (PList current_servers) (PList desired_servers))]
          (kind @ '' updated: servers''))))))))"

definition vcf_nsx_dns_servers_dns_servers :: "pyval \<Rightarrow> string \<Rightarrow> pyval \<Rightarrow> profile \<Rightarrow> salt_ret io" where
  "vcf_nsx_dns_servers_dns_servers opts name servers profile =
     server_list opts name ''DNS'' ''name_servers'' (nsx_dns_servers_dns_get opts profile)
       (\<lambda>s. nsx_dns_servers_dns_set opts s profile) servers"

definition vcf_nsx_ntp_servers_ntp_servers :: "pyval \<Rightarrow> string \<Rightarrow> pyval \<Rightarrow> profile \<Rightarrow> salt_ret io" where
  "vcf_nsx_ntp_servers_ntp_servers opts name servers profile =
     server_list opts name ''NTP'' ''ntp_servers'' (nsx_ntp_servers_ntp_get opts profile)
       (\<lambda>s. nsx_ntp_servers_ntp_set opts s profile) servers"

subsection \<open>The cluster address\<close>

definition vcf_nsx_cluster_vip_current_ip :: "pyval \<Rightarrow> profile \<Rightarrow> pyval io" where
  "vcf_nsx_cluster_vip_current_ip opts profile =
     bindM (nsx_cluster_api_virtual_ip_get opts profile) (\<lambda>resp.
     bindM (liftR (py_get (py_or resp empty_dict) ''ip_address'' PNone)) (\<lambda>ip.
     pureM (py_or ip (PStr []))))"

definition vcf_nsx_cluster_vip_api_vip_set :: "pyval \<Rightarrow> string \<Rightarrow> pyval \<Rightarrow> profile \<Rightarrow> salt_ret io" where
  "vcf_nsx_cluster_vip_api_vip_set opts name ip_address profile =
     (let target = py_or ip_address (PStr name) in
      bindM (vcf_nsx_cluster_vip_current_ip opts profile) (\<lambda>current.
      if py_eq current target then pureM (unchanged name (''NSX cluster API VIP is already '' @ py_str target))
      else
        let changes = [(''old'', current), (''new'', target)] in
        unless_test opts ((would name (''NSX cluster API VIP would change from ''
            @ py_str (py_or current (PStr ''<unset>'')) @ '' to '' @ py_str target))\<lparr>ret_changes := PDict changes\<rparr>)
          (bindM (nsx_cluster_api_virtual_ip_set opts target profile) (\<lambda>_.
           pureM (changed name changes (''NSX cluster API VIP set to '' @ py_str target))))))"

definition vcf_nsx_cluster_vip_api_vip_absent :: "pyval \<Rightarrow> string \<Rightarrow> profile \<Rightarrow> salt_ret io" where
  "vcf_nsx_cluster_vip_api_vip_absent opts name profile =
     bindM (vcf_nsx_cluster_vip_current_ip opts profile) (\<lambda>current.
     if \<not> truthy current then pureM (unchanged name ''NSX cluster API VIP is already cleared'')
     else
       let changes = [(''old'', current), (''new'', PStr [])] in
       unless_test opts ((would name (''NSX cluster API VIP would be cleared (was '' @ py_str current @ '')''))
           \<lparr>ret_changes := PDict changes\<rparr>)
         (bindM (nsx_cluster_api_virtual_ip_clear opts profile) (\<lambda>_.
          pureM (changed name changes (''NSX cluster API VIP cleared (was '' @ py_str current @ '')'')))))"

subsection \<open>The client calls follow the contract of a document\<close>

lemma nsx_patch_document:
  assumes "fetch = nsx_api_get opts q PNone p" "\<And>b. save b = nsx_api_patch opts q (PDict [(''enabled'', PBool b)]) PNone p"
  shows "rest_document (nsx_view opts p keep (insert q P)) fetch save q
    (\<lambda>b d. keep ''PATCH'' q (PDict [(''enabled'', PBool b)]) (Some d))"
  by (rule nsx_rest_document [OF assms(1)]) (use assms(2) nsx_patch_view in fastforce)

lemma nsx_put_document:
  assumes "fetch = nsx_api_get opts q PNone p" "\<And>b. save b = nsx_api_put opts q (PDict (body b)) PNone p"
  shows "rest_document (nsx_view opts p keep (insert q P)) fetch save q (\<lambda>b d. keep ''PUT'' q (PDict (body b)) (Some d))"
  by (rule nsx_rest_document [OF assms(1)]) (use assms(2) nsx_put_view in fastforce)

interpretation bgp_document: rest_document "nsx_view opts p keep (insert (nsx_tier0_ls_path (PStr s) ls (PStr ''bgp'')) P)"
  "nsx_tier0_bgp_get opts (PStr s) ls p" "\<lambda>b. nsx_tier0_bgp_set opts (PStr s) (PBool b) ls p []" "nsx_tier0_ls_path (PStr s) ls (PStr ''bgp'')"
  "\<lambda>b d. keep ''PATCH'' (nsx_tier0_ls_path (PStr s) ls (PStr ''bgp'')) (PDict [(''enabled'', PBool b)]) (Some d)"
  for opts p keep P s ls
  by (rule nsx_patch_document) (simp_all add: nsx_tier0_bgp_get_def nsx_tier0_bgp_set_def)

interpretation ospf_document: rest_document "nsx_view opts p keep (insert (nsx_tier0_ls_path (PStr s) ls (PStr ''ospf'')) P)"
  "nsx_tier0_ospf_get opts (PStr s) ls p" "\<lambda>b. nsx_tier0_ospf_set opts (PStr s) (PBool b) ls p []" "nsx_tier0_ls_path (PStr s) ls (PStr ''ospf'')"
  "\<lambda>b d. keep ''PATCH'' (nsx_tier0_ls_path (PStr s) ls (PStr ''ospf'')) (PDict [(''enabled'', PBool b)]) (Some d)"
  for opts p keep P s ls
  by (rule nsx_patch_document) (simp_all add: nsx_tier0_ospf_get_def nsx_tier0_ospf_set_def)

interpretation multicast0_document: rest_document "nsx_view opts p keep (insert (nsx_tier0_ls_path (PStr s) ls (PStr ''multicast'')) P)"
  "nsx_tier0_multicast_get opts (PStr s) ls p" "\<lambda>b. nsx_tier0_multicast_set opts (PStr s) (PBool b) ls p []" "nsx_tier0_ls_path (PStr s) ls (PStr ''multicast'')"
  "\<lambda>b d. keep ''PATCH'' (nsx_tier0_ls_path (PStr s) ls (PStr ''multicast'')) (PDict [(''enabled'', PBool b)]) (Some d)"
  for opts p keep P s ls
  by (rule nsx_patch_document) (simp_all add: nsx_tier0_multicast_get_def nsx_tier0_multicast_set_def)

interpretation multicast1_document: rest_document "nsx_view opts p keep (insert (nsx_tier1_ls_path (PStr s) ls (PStr ''multicast'')) P)"
  "nsx_tier1_multicast_get opts (PStr s) ls p" "\<lambda>b. nsx_tier1_multicast_set opts (PStr s) (PBool b) ls p []" "nsx_tier1_ls_path (PStr s) ls (PStr ''multicast'')"
  "\<lambda>b d. keep ''PATCH'' (nsx_tier1_ls_path (PStr s) ls (PStr ''multicast'')) (PDict [(''enabled'', PBool b)]) (Some d)"
  for opts p keep P s ls
  by (rule nsx_patch_document) (simp_all add: nsx_tier1_multicast_get_def nsx_tier1_multicast_set_def)

interpretation dns_document: rest_document "nsx_view opts p keep (insert nsx_dns_servers_NAME_SERVERS P)"
  "nsx_dns_servers_dns_get opts p" "\<lambda>xs. nsx_dns_servers_dns_set opts (PList xs) p" nsx_dns_servers_NAME_SERVERS
  "\<lambda>xs d. keep ''PUT'' nsx_dns_servers_NAME_SERVERS (PDict [(''name_servers'', PList xs)]) (Some d)"
  for opts p keep P
  by (rule nsx_put_document) (simp_all add: nsx_dns_servers_dns_get_def nsx_dns_servers_dns_set_def)

interpretation ntp_document: rest_document "nsx_view opts p keep (insert nsx_ntp_servers_NTP_SERVERS P)"
  "nsx_ntp_servers_ntp_get opts p" "\<lambda>xs. nsx_ntp_servers_ntp_set opts (PList xs) p" nsx_ntp_servers_NTP_SERVERS
  "\<lambda>xs d. keep ''PUT'' nsx_ntp_servers_NTP_SERVERS (PDict [(''ntp_servers'', PList xs)]) (Some d)"
  for opts p keep P
  by (rule nsx_put_document) (simp_all add: nsx_ntp_servers_ntp_get_def nsx_ntp_servers_ntp_set_def)

interpretation vidm_document: rest_document "nsx_view opts p keep (insert nsx_vidm_PATH P)"
  "nsx_vidm_get opts p" "\<lambda>b. nsx_vidm_update opts p b" nsx_vidm_PATH
  "\<lambda>b d. keep ''PUT'' nsx_vidm_PATH (PDict b) (Some d)"
  for opts p keep P
  by (rule nsx_put_document) (simp_all add: nsx_vidm_get_def nsx_vidm_update_def)

interpretation http_document: rest_document "nsx_view opts p keep (insert nsx_node_services_HTTP_PATH P)"
  "nsx_node_services_http_get opts p" "\<lambda>b. nsx_node_services_http_put opts (PDict b) p" nsx_node_services_HTTP_PATH
  "\<lambda>b d. keep ''PUT'' nsx_node_services_HTTP_PATH (PDict b) (Some d)"
  for opts p keep P
  by (rule nsx_put_document) (simp_all add: nsx_node_services_http_get_def nsx_node_services_http_put_def)

text \<open>\<open>set_optin\<close> reads the document again before it writes.\<close>

interpretation telemetry_document: rest_document "nsx_view opts p keep (insert nsx_telemetry_PATH P)"
  "nsx_telemetry_get opts p" "\<lambda>b. nsx_telemetry_set_optin opts (PBool b) p" nsx_telemetry_PATH
  "\<lambda>b d. keep ''PUT'' nsx_telemetry_PATH (PDict (dset d ''optin'' (PBool b))) (Some d)"
  for opts p keep P
proof (rule nsx_rest_document)
  fix m w d b assume view: "nsx_view opts p keep (insert nsx_telemetry_PATH P) m w" and d: "m nsx_telemetry_PATH = Some d"
  from nsx_get_view [OF view, of nsx_telemetry_PATH] d obtain w1 where
    1: "nsx_api_get opts nsx_telemetry_PATH PNone p w = Some (Ok (PDict d), w1)"
      "nsx_view opts p keep (insert nsx_telemetry_PATH P) m w1" by auto
  have "py_dict (py_or (PDict d) empty_dict) = Ok d" by (cases d) simp_all
  with 1 nsx_put_view [OF 1(2), of nsx_telemetry_PATH "PDict (dset d ''optin'' (PBool b))"] d
  show "\<exists>v w'. nsx_telemetry_set_optin opts (PBool b) p w = Some (Ok v, w') \<and>
      nsx_view opts p keep (insert nsx_telemetry_PATH P)
        (m(nsx_telemetry_PATH \<mapsto> keep ''PUT'' nsx_telemetry_PATH (PDict (dset d ''optin'' (PBool b))) (Some d))) w'"
    by (auto simp: nsx_telemetry_set_optin_def nsx_telemetry_get_def)
qed (simp add: nsx_telemetry_get_def)

subsection \<open>Convergence\<close>

definition feature_is :: "bool \<Rightarrow> dict \<Rightarrow> bool" where
  "feature_is b d \<longleftrightarrow> truthy (dget d ''enabled'' (PBool False)) = b"

lemma feature_converges:
  assumes doc: "rest_document view (get_fn opts (PStr s) ls p) (\<lambda>b. set_fn opts (PStr s) (PBool b) ls p []) q put"
    and put: "\<And>b d. put b d = dset d ''enabled'' (PBool b)"
    and opts: "\<And>m w. view m w \<Longrightarrow> \<exists>t. py_item opts ''test'' = Ok t \<and> truthy t = test_mode opts" "\<not> test_mode opts"
  shows "converges (holding view q (\<lambda>_. True)) (feature_enabled tier opts s feature get_fn set_fn enabled ls p)
    (reached q (feature_is (truthy enabled)))"
proof (rule rest_document.converge [OF doc])
  fix m w d w1 assume run: "get_fn opts (PStr s) ls p w = Some (Ok (PDict d), w1)"
  show "\<exists>r. feature_enabled tier opts s feature get_fn set_fn enabled ls p w = Some (Ok r, w1) \<and> outcome r = (Some True, empty_dict)"
    if "feature_is (truthy enabled) d"
    using that run by (auto simp: feature_enabled_def feature_is_def outcome_def Let_def)
  show "\<exists>b r. (\<forall>v w2. set_fn opts (PStr s) (PBool b) ls p [] w1 = Some (Ok v, w2) \<longrightarrow>
        feature_enabled tier opts s feature get_fn set_fn enabled ls p w = Some (Ok r, w2)) \<and>
      ret_result r = Some True \<and> True \<and> feature_is (truthy enabled) (put b d)"
    if view: "view m w" and "\<not> feature_is (truthy enabled) d"
  proof -
    from opts(1) [OF view] opts(2) obtain t where "py_item opts ''test'' = Ok t" "\<not> truthy t" by blast
    with that(2) run show ?thesis
      by (intro exI [of _ "truthy enabled"])
        (auto simp: feature_enabled_def feature_is_def unless_test_def Let_def put dget_dset)
  qed
qed

text \<open>The servers a document holds, as a multiset: the order does not count.\<close>

definition holds_servers :: "string \<Rightarrow> string list \<Rightarrow> dict \<Rightarrow> bool" where
  "holds_servers key ss d \<longleftrightarrow> (\<exists>hs. py_or (dget d key PNone) (PList []) = PList (map PStr hs) \<and> mset hs = mset ss)"

definition lists_servers :: "string \<Rightarrow> dict \<Rightarrow> bool" where
  "lists_servers key d \<longleftrightarrow> (\<exists>hs. py_or (dget d key PNone) (PList []) = PList (map PStr hs))"

lemma map_PStr_eq [simp]: "map PStr as = map PStr bs \<longleftrightarrow> as = bs"
  by (simp add: inj_map_eq_map inj_def)

lemma py_eq_str_lists: "py_eq (PList (map PStr as)) (PList (map PStr bs)) \<longleftrightarrow> as = bs"
proof (induction as arbitrary: bs)
  case Nil
  then show ?case by auto
next
  case (Cons a as)
  then show ?case by (cases bs) simp_all
qed

lemma sort_eq_mset: "sort as = sort bs \<longleftrightarrow> mset as = mset (bs :: string list)"
  by (metis mset_sort properties_for_sort sorted_sort)

lemma py_or_list: "py_or (PList (map PStr ss)) (PList []) = PList (map PStr ss)"
  by (cases ss) simp_all

lemma server_list_converges:
  assumes doc: "rest_document view fetch (\<lambda>xs. save (PList xs)) q put"
    and put: "\<And>xs d. put xs d = [(key, PList xs)]"
    and opts: "\<And>m w. view m w \<Longrightarrow> \<exists>t. py_item opts ''test'' = Ok t \<and> truthy t = test_mode opts" "\<not> test_mode opts"
  shows "converges (holding view q (lists_servers key)) (server_list opts name kind key fetch save (PList (map PStr ss)))
    (reached q (holds_servers key ss))"
proof (rule rest_document.converge [OF doc])
  fix m w d w1 assume ok: "lists_servers key d" and run: "fetch w = Some (Ok (PDict d), w1)"
  from ok obtain hs where hs: "py_or (dget d key PNone) (PList []) = PList (map PStr hs)"
    by (auto simp: lists_servers_def)
  have same: "holds_servers key ss d \<longleftrightarrow> mset hs = mset ss"
    using hs by (auto simp: holds_servers_def)
  have or_d: "py_or (PDict d) empty_dict = PDict d" by (cases d) simp_all
  show "\<exists>r. server_list opts name kind key fetch save (PList (map PStr ss)) w = Some (Ok r, w1) \<and>
      outcome r = (Some True, empty_dict)" if "holds_servers key ss d"
    using that run same hs or_d
    by (simp add: server_list_def py_sorted_strings py_eq_str_lists sort_eq_mset outcome_def)
  show "\<exists>xs r. (\<forall>v w2. save (PList xs) w1 = Some (Ok v, w2) \<longrightarrow>
        server_list opts name kind key fetch save (PList (map PStr ss)) w = Some (Ok r, w2)) \<and>
      ret_result r = Some True \<and> lists_servers key (put xs d) \<and> holds_servers key ss (put xs d)"
    if view: "view m w" and "\<not> holds_servers key ss d"
  proof -
    from opts(1) [OF view] opts(2) obtain t where "py_item opts ''test'' = Ok t" "\<not> truthy t" by blast
    with that(2) run same hs or_d show ?thesis
      by (intro exI [of _ "map PStr ss"] exI)
        (auto simp: server_list_def py_sorted_strings py_eq_str_lists sort_eq_mset unless_test_def
          put lists_servers_def holds_servers_def py_or_list)
  qed
qed

definition opted :: "bool \<Rightarrow> dict \<Rightarrow> bool" where
  "opted b d \<longleftrightarrow> truthy (dget d ''optin'' PNone) = b"

lemma py_or_dict [simp]: "py_or (PDict d) empty_dict = PDict d"
  by (cases d) simp_all

lemma telemetry_converges:
  assumes keep: "put_replaces keep" and real: "\<not> test_mode opts"
  shows "converges (holding (nsx_view opts p keep (insert nsx_telemetry_PATH P)) nsx_telemetry_PATH (\<lambda>_. True))
    (vcf_nsx_telemetry_optin_set opts name optin p) (reached nsx_telemetry_PATH (opted (truthy optin)))"
proof (rule telemetry_document.converge)
  fix m w d w1 assume run: "nsx_telemetry_get opts p w = Some (Ok (PDict d), w1)"
  show "\<exists>r. vcf_nsx_telemetry_optin_set opts name optin p w = Some (Ok r, w1) \<and> outcome r = (Some True, empty_dict)"
    if "opted (truthy optin) d"
    using that run by (auto simp: vcf_nsx_telemetry_optin_set_def opted_def outcome_def Let_def)
  show "\<exists>b r. (\<forall>v w2. nsx_telemetry_set_optin opts (PBool b) p w1 = Some (Ok v, w2) \<longrightarrow>
        vcf_nsx_telemetry_optin_set opts name optin p w = Some (Ok r, w2)) \<and> ret_result r = Some True \<and> True \<and>
      opted (truthy optin) (keep ''PUT'' nsx_telemetry_PATH (PDict (dset d ''optin'' (PBool b))) (Some d))"
    if view: "nsx_view opts p keep (insert nsx_telemetry_PATH P) m w" and "\<not> opted (truthy optin) d"
  proof -
    from nsx_view_opts [OF view] real obtain t where "py_item opts ''test'' = Ok t" "\<not> truthy t" by blast
    with that(2) run keep show ?thesis
      by (intro exI [of _ "truthy optin"])
        (auto simp: vcf_nsx_telemetry_optin_set_def opted_def unless_test_def Let_def put_replaces_def dget_dset)
  qed
qed

subsubsection \<open>Fields\<close>

definition fields_match :: "dict \<Rightarrow> dict \<Rightarrow> bool" where
  "fields_match wanted d \<longleftrightarrow> (\<forall>(k, v) \<in> set wanted. py_eq (dget d k PNone) v)"

lemma field_diff_run:
  "\<exists>diff. field_diff (PDict d) wanted = Ok diff \<and> (diff = [] \<longleftrightarrow> fields_match wanted d) \<and>
     (\<forall>k. map_of diff k \<noteq> None \<longleftrightarrow> (\<exists>v. (k, v) \<in> set wanted \<and> \<not> py_eq (dget d k PNone) v))"
proof (induction wanted)
  case Nil
  then show ?case by (simp add: fields_match_def)
next
  case (Cons kv wanted)
  obtain k v where kv: "kv = (k, v)" by (cases kv)
  from Cons obtain diff where "field_diff (PDict d) wanted = Ok diff" "diff = [] \<longleftrightarrow> fields_match wanted d"
    "\<forall>k. map_of diff k \<noteq> None \<longleftrightarrow> (\<exists>v. (k, v) \<in> set wanted \<and> \<not> py_eq (dget d k PNone) v)" by blast
  then show ?case by (auto simp: kv fields_match_def)
qed

lemma field_diff_Ok:
  obtains diff where "field_diff (PDict d) wanted = Ok diff" "diff = [] \<longleftrightarrow> fields_match wanted d"
    "\<And>k. map_of diff k \<noteq> None \<longleftrightarrow> (\<exists>v. (k, v) \<in> set wanted \<and> \<not> py_eq (dget d k PNone) v)"
  using field_diff_run [of d wanted] by auto

lemma distinct_filter_keys: "distinct (map fst d) \<Longrightarrow> distinct (map fst (filter P d))"
  by (induction d) auto

lemma map_of_overlay:
  assumes "distinct (map fst e)" "(k, v) \<in> set e" shows "dget (dupdate d e) k x = v"
  using assms by (simp add: dget_def map_of_dupdate map_add_def)

lemma dupdate_other: "distinct (map fst e) \<Longrightarrow> k \<notin> fst ` set e \<Longrightarrow> map_of (dupdate d e) k = map_of d k"
  by (metis map_add_None map_add_dom_app_simps(3) map_of_dupdate map_of_eq_None_iff dom_map_of_conv_image_fst)

lemma overlay_matches:
  assumes "distinct (map fst wanted)" "\<forall>(k, v) \<in> set wanted. wf_py v"
    and "\<And>k v. (k, v) \<in> set wanted \<Longrightarrow> \<not> py_eq (dget d k PNone) v \<Longrightarrow> P (k, v)"
  shows "fields_match wanted (dupdate d (filter P wanted))"
  unfolding fields_match_def
proof (clarify)
  fix k v assume kv: "(k, v) \<in> set wanted"
  note dist = distinct_filter_keys [OF assms(1), of P]
  show "py_eq (dget (dupdate d (filter P wanted)) k PNone) v"
  proof (cases "P (k, v)")
    case True
    with kv have "(k, v) \<in> set (filter P wanted)" by simp
    from map_of_overlay [OF dist this] assms(2) kv show ?thesis by (auto intro: py_eq_refl)
  next
    case False
    from assms(1) kv have "v' = v" if "(k, v') \<in> set wanted" for v'
      using that by (metis map_of_is_SomeI option.inject)
    with False have "k \<notin> fst ` set (filter P wanted)" by auto
    with dist have "dget (dupdate d (filter P wanted)) k PNone = dget d k PNone"
      by (simp add: dget_def dupdate_other)
    with assms(3) [OF kv] False show ?thesis by auto
  qed
qed

definition vidm_wanted :: "pyval \<Rightarrow> dict \<Rightarrow> dict" where
  "vidm_wanted vidm_enable spec = dupdate [(''vidm_enable'', PBool (truthy vidm_enable))] spec"

text \<open>A document whose fields can be passed as keyword arguments.\<close>

definition passable :: "dict \<Rightarrow> bool" where
  "passable d \<longleftrightarrow> map_of d ''profile'' = None \<and> map_of d ''opts'' = None"

lemma distinct_dupdate: "distinct (map fst d) \<Longrightarrow> distinct (map fst (dupdate d e))"
  by (induction d e rule: dupdate.induct) (auto intro: distinct_dset)

lemma set_dupdate: "kv \<in> set (dupdate d e) \<Longrightarrow> kv \<in> set d \<or> kv \<in> set e"
proof (induction d e rule: dupdate.induct)
  case (2 d k v e)
  have "kv \<in> set (dset d k v) \<Longrightarrow> kv = (k, v) \<or> kv \<in> set d" for d
    by (induction d k v rule: dset.induct) (auto split: if_splits)
  with 2 show ?case by fastforce
qed simp

lemma vidm_wanted_props:
  assumes "\<forall>(k, v) \<in> set spec. wf_py v" "passable spec"
  shows "distinct (map fst (vidm_wanted b spec))" "\<forall>(k, v) \<in> set (vidm_wanted b spec). wf_py v"
    "k \<in> fst ` set (vidm_wanted b spec) \<Longrightarrow> k \<noteq> ''profile'' \<and> k \<noteq> ''opts''"
proof -
  show "distinct (map fst (vidm_wanted b spec))" by (simp add: vidm_wanted_def distinct_dupdate)
  show "\<forall>(k, v) \<in> set (vidm_wanted b spec). wf_py v"
    using assms(1) by (fastforce simp: vidm_wanted_def dest: set_dupdate)
  show "k \<noteq> ''profile'' \<and> k \<noteq> ''opts''" if k: "k \<in> fst ` set (vidm_wanted b spec)"
  proof -
    from k obtain v where "(k, v) \<in> set (vidm_wanted b spec)" by auto
    then have "k = ''vidm_enable'' \<or> (k, v) \<in> set spec" by (auto simp: vidm_wanted_def dest!: set_dupdate)
    with assms(2) show ?thesis by (auto simp: passable_def map_of_eq_None_iff image_iff)
  qed
qed

lemma passable_overlay:
  assumes "passable d" "distinct (map fst e)" "\<And>k. k \<in> fst ` set e \<Longrightarrow> k \<noteq> ''profile'' \<and> k \<noteq> ''opts''"
  shows "passable (dupdate d e)"
  using assms unfolding passable_def by (metis dupdate_other)

lemma vidm_converges:
  assumes keep: "put_replaces keep" and real: "\<not> test_mode opts"
    and spec: "\<forall>(k, v) \<in> set spec. wf_py v" "passable spec"
  shows "converges (holding (nsx_view opts p keep (insert nsx_vidm_PATH P)) nsx_vidm_PATH passable)
    (vcf_nsx_vidm_enabled opts name vidm_enable p spec) (reached nsx_vidm_PATH (fields_match (vidm_wanted vidm_enable spec)))"
proof (rule vidm_document.converge)
  fix m w d w1 assume ok: "passable d" and run: "nsx_vidm_get opts p w = Some (Ok (PDict d), w1)"
  let ?wanted = "vidm_wanted vidm_enable spec"
  note wanted = vidm_wanted_props [OF spec, where b = vidm_enable]
  obtain diff where diff: "field_diff (PDict d) ?wanted = Ok diff" "diff = [] \<longleftrightarrow> fields_match ?wanted d"
    "\<And>k. map_of diff k \<noteq> None \<longleftrightarrow> (\<exists>v. (k, v) \<in> set ?wanted \<and> \<not> py_eq (dget d k PNone) v)"
    using field_diff_Ok [of d ?wanted] by metis
  show "\<exists>r. vcf_nsx_vidm_enabled opts name vidm_enable p spec w = Some (Ok r, w1) \<and> outcome r = (Some True, empty_dict)"
    if "fields_match ?wanted d"
    using that run diff by (simp add: vcf_nsx_vidm_enabled_def vidm_wanted_def [symmetric] outcome_def Let_def)
  show "\<exists>b r. (\<forall>v w2. nsx_vidm_update opts p b w1 = Some (Ok v, w2) \<longrightarrow>
        vcf_nsx_vidm_enabled opts name vidm_enable p spec w = Some (Ok r, w2)) \<and> ret_result r = Some True \<and>
      passable (keep ''PUT'' nsx_vidm_PATH (PDict b) (Some d)) \<and>
      fields_match ?wanted (keep ''PUT'' nsx_vidm_PATH (PDict b) (Some d))"
    if view: "nsx_view opts p keep (insert nsx_vidm_PATH P) m w" and "\<not> fields_match ?wanted d"
  proof -
    from nsx_view_opts [OF view] real obtain t where t: "py_item opts ''test'' = Ok t" "\<not> truthy t" by blast
    let ?b = "dupdate d (filter (\<lambda>(k, v). map_of diff k \<noteq> None) ?wanted)"
    have b: "passable ?b"
      using ok wanted(1,3) by (intro passable_overlay distinct_filter_keys) auto
    have "fields_match ?wanted ?b"
      using wanted(1,2) diff(3) by (intro overlay_matches) auto
    with b keep have "passable (keep ''PUT'' nsx_vidm_PATH (PDict ?b) (Some d)) \<and>
        fields_match ?wanted (keep ''PUT'' nsx_vidm_PATH (PDict ?b) (Some d))"
      by (simp add: put_replaces_def)
    moreover have "\<exists>r. (\<forall>v w2. nsx_vidm_update opts p ?b w1 = Some (Ok v, w2) \<longrightarrow>
        vcf_nsx_vidm_enabled opts name vidm_enable p spec w = Some (Ok r, w2)) \<and> ret_result r = Some True"
      using t that(2) run diff(1,2) b
      by (auto simp: vcf_nsx_vidm_enabled_def vidm_wanted_def [symmetric] unless_test_def Let_def vidm_update_call_def
          passable_def)
    ultimately show ?thesis by blast
  qed
qed

subsection \<open>The HTTP service\<close>

definition properties_of :: "dict \<Rightarrow> dict" where
  "properties_of d = (case dget d ''service_properties'' PNone of PDict ps \<Rightarrow> ps | _ \<Rightarrow> [])"

text \<open>\<open>service_properties\<close> is an object, or nothing.\<close>

definition http_document_ok :: "dict \<Rightarrow> bool" where
  "http_document_ok d \<longleftrightarrow> is_dict (py_or (dget d ''service_properties'' PNone) empty_dict)"

lemma http_document_ok_props:
  "http_document_ok d \<Longrightarrow> py_or (dget d ''service_properties'' PNone) empty_dict = PDict (properties_of d)"
  by (cases "dget d ''service_properties'' PNone") (auto simp: http_document_ok_def properties_of_def py_or_def split: if_splits)

lemma properties_of_with [simp]: "properties_of (with_properties d ps e) = dupdate ps e"
  by (simp add: properties_of_def with_properties_def dget_dset)

lemma http_document_ok_with [simp]: "http_document_ok (with_properties d ps e)"
  by (simp add: http_document_ok_def with_properties_def dget_dset)

lemma http_apply_run:
  assumes view: "nsx_view opts p keep (insert nsx_node_services_HTTP_PATH P) m w"
    and d: "m nsx_node_services_HTTP_PATH = Some d" "http_document_ok d"
    and keep: "put_replaces keep" and real: "\<not> test_mode opts" and wanted: "wanted \<noteq> []"
  shows "\<exists>r w'. http_apply opts name p wanted w = Some (Ok r, w') \<and> ret_result r = Some True \<and>
    (ret_changes r = empty_dict \<longleftrightarrow> fields_match wanted (properties_of d)) \<and>
    nsx_view opts p keep (insert nsx_node_services_HTTP_PATH P)
      (if fields_match wanted (properties_of d) then m
       else m(nsx_node_services_HTTP_PATH \<mapsto> with_properties d (properties_of d) wanted)) w'"
proof -
  from http_document.fetch_view [OF view d(1)] obtain w1 where
    1: "nsx_node_services_http_get opts p w = Some (Ok (PDict d), w1)"
      "nsx_view opts p keep (insert nsx_node_services_HTTP_PATH P) m w1" by blast
  obtain diff where diff: "field_diff (PDict (properties_of d)) wanted = Ok diff"
    "diff = [] \<longleftrightarrow> fields_match wanted (properties_of d)"
    using field_diff_Ok [of "properties_of d" wanted] by metis
  from nsx_view_opts [OF view] have "is_dict opts"
    by (auto simp: py_item_def split: pyval.splits)
  note start = 1(1) diff(1) this real http_document_ok_props [OF d(2)] wanted unless_dry_run
  show ?thesis
  proof (cases "fields_match wanted (properties_of d)")
    case True
    with start diff(2) 1(2) show ?thesis by (simp add: http_apply_def Let_def)
  next
    case False
    from http_document.save_view [OF 1(2) d(1), of "with_properties d (properties_of d) wanted"] keep obtain v w2 where
      "nsx_node_services_http_put opts (PDict (with_properties d (properties_of d) wanted)) p w1 = Some (Ok v, w2)"
      "nsx_view opts p keep (insert nsx_node_services_HTTP_PATH P)
        (m(nsx_node_services_HTTP_PATH \<mapsto> with_properties d (properties_of d) wanted)) w2"
      by (auto simp: put_replaces_def)
    with False start diff(2) show ?thesis by (auto simp: http_apply_def Let_def)
  qed
qed

subsection \<open>Properties\<close>

text \<open>C15: The configuration states of NSX converge: on a manager that keeps its documents (a \<open>PUT\<close> replaces, a
  \<open>PATCH\<close> merges), one real run of the state on a gateway feature, the telemetry opt-in, the resolvers, the
  time servers or vIDM succeeds and leaves the document with the wanted value (for the servers: in any order,
  for vIDM: every wanted field), and a second run reports no change, sends nothing but \<open>GET\<close> and leaves the document as it is.\<close>

theorem nsx_config_states_converge:
  assumes keep: "put_replaces keep" "patch_merges keep" and real: "\<not> test_mode opts"
    and spec: "\<forall>(k, v) \<in> set spec. wf_py v" "passable spec"
  shows "converges (holding (nsx_view opts p keep (insert (nsx_tier0_ls_path (PStr s) ls (PStr ''bgp'')) P)) (nsx_tier0_ls_path (PStr s) ls (PStr ''bgp'')) (\<lambda>_. True)) (vcf_nsx_tier0_bgp_enabled opts s enabled ls p)
      (reached (nsx_tier0_ls_path (PStr s) ls (PStr ''bgp'')) (feature_is (truthy enabled))) \<and>
    converges (holding (nsx_view opts p keep (insert (nsx_tier0_ls_path (PStr s) ls (PStr ''ospf'')) P)) (nsx_tier0_ls_path (PStr s) ls (PStr ''ospf'')) (\<lambda>_. True)) (vcf_nsx_tier0_ospf_enabled opts s enabled ls p)
      (reached (nsx_tier0_ls_path (PStr s) ls (PStr ''ospf'')) (feature_is (truthy enabled))) \<and>
    converges (holding (nsx_view opts p keep (insert (nsx_tier0_ls_path (PStr s) ls (PStr ''multicast'')) P)) (nsx_tier0_ls_path (PStr s) ls (PStr ''multicast'')) (\<lambda>_. True)) (vcf_nsx_tier0_multicast_enabled opts s enabled ls p)
      (reached (nsx_tier0_ls_path (PStr s) ls (PStr ''multicast'')) (feature_is (truthy enabled))) \<and>
    converges (holding (nsx_view opts p keep (insert (nsx_tier1_ls_path (PStr s) ls (PStr ''multicast'')) P)) (nsx_tier1_ls_path (PStr s) ls (PStr ''multicast'')) (\<lambda>_. True)) (vcf_nsx_tier1_multicast_enabled opts s enabled ls p)
      (reached (nsx_tier1_ls_path (PStr s) ls (PStr ''multicast'')) (feature_is (truthy enabled))) \<and>
    converges (holding (nsx_view opts p keep (insert (nsx_telemetry_PATH) P)) (nsx_telemetry_PATH) (\<lambda>_. True)) (vcf_nsx_telemetry_optin_set opts s optin p)
      (reached nsx_telemetry_PATH (opted (truthy optin))) \<and>
    converges (holding (nsx_view opts p keep (insert (nsx_dns_servers_NAME_SERVERS) P)) (nsx_dns_servers_NAME_SERVERS) (lists_servers ''name_servers''))
      (vcf_nsx_dns_servers_dns_servers opts s (PList (map PStr servers)) p)
      (reached nsx_dns_servers_NAME_SERVERS (holds_servers ''name_servers'' servers)) \<and>
    converges (holding (nsx_view opts p keep (insert (nsx_ntp_servers_NTP_SERVERS) P)) (nsx_ntp_servers_NTP_SERVERS) (lists_servers ''ntp_servers''))
      (vcf_nsx_ntp_servers_ntp_servers opts s (PList (map PStr servers)) p)
      (reached nsx_ntp_servers_NTP_SERVERS (holds_servers ''ntp_servers'' servers)) \<and>
    converges (holding (nsx_view opts p keep (insert (nsx_vidm_PATH) P)) (nsx_vidm_PATH) passable) (vcf_nsx_vidm_enabled opts s vidm_enable p spec)
      (reached nsx_vidm_PATH (fields_match (vidm_wanted vidm_enable spec)))"
proof (intro conjI)
  note unfold = vcf_nsx_tier0_bgp_enabled_def vcf_nsx_tier0_ospf_enabled_def vcf_nsx_tier0_multicast_enabled_def
    vcf_nsx_tier1_multicast_enabled_def vcf_nsx_dns_servers_dns_servers_def vcf_nsx_ntp_servers_ntp_servers_def
  have merge: "keep ''PATCH'' q (PDict [(k, v)]) (Some d) = dset d k v" for q k v d
    using keep(2) by (simp add: patch_merges_def)
  have replace: "keep ''PUT'' q (PDict b) old = b" for q b old
    using keep(1) by (simp add: put_replaces_def)
  show "converges (holding (nsx_view opts p keep (insert (nsx_tier0_ls_path (PStr s) ls (PStr ''bgp'')) P)) (nsx_tier0_ls_path (PStr s) ls (PStr ''bgp'')) (\<lambda>_. True)) (vcf_nsx_tier0_bgp_enabled opts s enabled ls p)
      (reached (nsx_tier0_ls_path (PStr s) ls (PStr ''bgp'')) (feature_is (truthy enabled)))"
    unfolding unfold by (rule feature_converges) (rule bgp_document.rest_document_axioms merge nsx_view_opts real | assumption)+
  show "converges (holding (nsx_view opts p keep (insert (nsx_tier0_ls_path (PStr s) ls (PStr ''ospf'')) P)) (nsx_tier0_ls_path (PStr s) ls (PStr ''ospf'')) (\<lambda>_. True)) (vcf_nsx_tier0_ospf_enabled opts s enabled ls p)
      (reached (nsx_tier0_ls_path (PStr s) ls (PStr ''ospf'')) (feature_is (truthy enabled)))"
    unfolding unfold by (rule feature_converges) (rule ospf_document.rest_document_axioms merge nsx_view_opts real | assumption)+
  show "converges (holding (nsx_view opts p keep (insert (nsx_tier0_ls_path (PStr s) ls (PStr ''multicast'')) P)) (nsx_tier0_ls_path (PStr s) ls (PStr ''multicast'')) (\<lambda>_. True)) (vcf_nsx_tier0_multicast_enabled opts s enabled ls p)
      (reached (nsx_tier0_ls_path (PStr s) ls (PStr ''multicast'')) (feature_is (truthy enabled)))"
    unfolding unfold by (rule feature_converges) (rule multicast0_document.rest_document_axioms merge nsx_view_opts real | assumption)+
  show "converges (holding (nsx_view opts p keep (insert (nsx_tier1_ls_path (PStr s) ls (PStr ''multicast'')) P)) (nsx_tier1_ls_path (PStr s) ls (PStr ''multicast'')) (\<lambda>_. True)) (vcf_nsx_tier1_multicast_enabled opts s enabled ls p)
      (reached (nsx_tier1_ls_path (PStr s) ls (PStr ''multicast'')) (feature_is (truthy enabled)))"
    unfolding unfold by (rule feature_converges) (rule multicast1_document.rest_document_axioms merge nsx_view_opts real | assumption)+
  show "converges (holding (nsx_view opts p keep (insert (nsx_telemetry_PATH) P)) (nsx_telemetry_PATH) (\<lambda>_. True)) (vcf_nsx_telemetry_optin_set opts s optin p)
      (reached nsx_telemetry_PATH (opted (truthy optin)))"
    by (rule telemetry_converges [OF keep(1) real])
  show "converges (holding (nsx_view opts p keep (insert (nsx_dns_servers_NAME_SERVERS) P)) (nsx_dns_servers_NAME_SERVERS) (lists_servers ''name_servers''))
      (vcf_nsx_dns_servers_dns_servers opts s (PList (map PStr servers)) p)
      (reached nsx_dns_servers_NAME_SERVERS (holds_servers ''name_servers'' servers))"
    unfolding unfold by (rule server_list_converges) (rule dns_document.rest_document_axioms replace nsx_view_opts real | assumption)+
  show "converges (holding (nsx_view opts p keep (insert (nsx_ntp_servers_NTP_SERVERS) P)) (nsx_ntp_servers_NTP_SERVERS) (lists_servers ''ntp_servers''))
      (vcf_nsx_ntp_servers_ntp_servers opts s (PList (map PStr servers)) p)
      (reached nsx_ntp_servers_NTP_SERVERS (holds_servers ''ntp_servers'' servers))"
    unfolding unfold by (rule server_list_converges) (rule ntp_document.rest_document_axioms replace nsx_view_opts real | assumption)+
  show "converges (holding (nsx_view opts p keep (insert (nsx_vidm_PATH) P)) (nsx_vidm_PATH) passable) (vcf_nsx_vidm_enabled opts s vidm_enable p spec)
      (reached nsx_vidm_PATH (fields_match (vidm_wanted vidm_enable spec)))"
    by (rule vidm_converges [OF keep(1) real spec])
qed

theorem nsx_config_states_converge_witness:
  "\<exists>r1 w1 r2 w2. vcf_nsx_tier0_bgp_enabled (opts_run_for ''nsx'') ''t0'' (PBool False) (PStr ''default'') None
        (store_world ''https://h'' plain_keep (\<lambda>_. Some [(''enabled'', PBool True)])) = Some (Ok r1, w1) \<and>
      ret_result r1 = Some True \<and>
      vcf_nsx_tier0_bgp_enabled (opts_run_for ''nsx'') ''t0'' (PBool False) (PStr ''default'') None w1 = Some (Ok r2, w2) \<and>
      outcome r2 = (Some True, empty_dict) \<and> only_gets w1 w2"
proof -
  have "holding (nsx_view (opts_run_for ''nsx'') None plain_keep (insert q {})) q (\<lambda>_. True)
      (\<lambda>_. Some [(''enabled'', PBool True)]) (store_world ''https://h'' plain_keep (\<lambda>_. Some [(''enabled'', PBool True)]))" for q
    by (simp add: holding_def nsx_store_world)
  moreover have "\<forall>(k, v) \<in> set []. wf_py v" "passable []" by (simp_all add: passable_def)
  note nsx_config_states_converge [OF plain_keep_documented nsx_config_for(3) this, THEN conjunct1,
    of None "''t0''" "PStr ''default''" "{}" "PBool False"]
  ultimately show ?thesis unfolding converges_def by blast
qed

text \<open>C16: \<open>http_configured\<close> overlays: although the endpoint replaces the whole document, a real run leaves every
  top-level field but \<open>service_properties\<close>, and every property that was not asked for, exactly as it was,
  and each property asked for has the wanted value; it reports changes iff one of them differed.\<close>

theorem nsx_http_configured_overlays:
  assumes view: "nsx_view opts p keep (insert nsx_node_services_HTTP_PATH P) m w" and keep: "put_replaces keep"
    and d: "m nsx_node_services_HTTP_PATH = Some d" "http_document_ok d" and real: "\<not> test_mode opts"
    and wanted: "wanted = http_desired rate conc glob tmo host extra"
    and wf: "distinct (map fst extra)" "\<forall>(k, v) \<in> set wanted. wf_py v"
  shows "\<exists>r w' d'. vcf_nsx_node_services_http_configured opts name rate conc glob tmo host p extra w = Some (Ok r, w') \<and>
    ret_result r = Some True \<and>
    nsx_view opts p keep (insert nsx_node_services_HTTP_PATH P) (m(nsx_node_services_HTTP_PATH \<mapsto> d')) w' \<and>
    (\<forall>k. k \<noteq> ''service_properties'' \<longrightarrow> map_of d' k = map_of d k) \<and>
    (\<forall>k. k \<notin> fst ` set wanted \<longrightarrow> map_of (properties_of d') k = map_of (properties_of d) k) \<and>
    fields_match wanted (properties_of d') \<and>
    (ret_changes r = empty_dict \<longleftrightarrow> fields_match wanted (properties_of d))"
proof -
  have dist: "distinct (map fst wanted)"
    using wf(1) by (auto simp: wanted http_desired_def set_given_def intro!: distinct_dset)
  let ?q = nsx_node_services_HTTP_PATH
  let ?d' = "if fields_match wanted (properties_of d) then d else with_properties d (properties_of d) wanted"
  have matches: "fields_match wanted (properties_of ?d')"
    using overlay_matches [OF dist wf(2), of "properties_of d" "\<lambda>_. True"] by simp
  have others: "\<forall>k. k \<noteq> ''service_properties'' \<longrightarrow> map_of ?d' k = map_of d k"
    "\<forall>k. k \<notin> fst ` set wanted \<longrightarrow> map_of (properties_of ?d') k = map_of (properties_of d) k"
    by (simp add: with_properties_def) (simp add: dupdate_other dist)
  show ?thesis
  proof (cases "wanted = []")
    case True
    then have "m(?q \<mapsto> ?d') = m" using d(1) by (simp add: fields_match_def fun_upd_idem)
    with True view matches others show ?thesis
      by (intro exI [of _ "unchanged name ''No HTTP service fields supplied; nothing to do''"] exI [of _ w] exI [of _ ?d'])
        (simp add: vcf_nsx_node_services_http_configured_def wanted [symmetric] http_apply_def fields_match_def)
  next
    case False
    let ?m' = "if fields_match wanted (properties_of d) then m else m(?q \<mapsto> with_properties d (properties_of d) wanted)"
    have eq: "?m' = m(?q \<mapsto> ?d')"
      using d(1) by (simp add: fun_upd_idem)
    from http_apply_run [OF view d keep real False, of name] obtain r w' where
      run: "http_apply opts name p wanted w = Some (Ok r, w')" "ret_result r = Some True"
        "ret_changes r = empty_dict \<longleftrightarrow> fields_match wanted (properties_of d)"
      and "nsx_view opts p keep (insert ?q P) ?m' w'" by blast
    then have "nsx_view opts p keep (insert ?q P) (m(?q \<mapsto> ?d')) w'" by (simp only: eq)
    with run matches others show ?thesis
      unfolding vcf_nsx_node_services_http_configured_def wanted [symmetric] by blast
  qed
qed

theorem nsx_http_configured_overlays_witness:
  "\<exists>r w'. vcf_nsx_node_services_http_configured (opts_run_for ''nsx'') ''limits'' (PInt 100) PNone PNone PNone PNone None []
      (store_world ''https://h'' plain_keep
        (\<lambda>_. Some [(''service_name'', PStr ''http''), (''service_properties'', PDict [(''redirect_host'', PStr ''a'')])]))
        = Some (Ok r, w') \<and> ret_result r = Some True"
proof -
  let ?d = "[(''service_name'', PStr ''http''), (''service_properties'', PDict [(''redirect_host'', PStr ''a'')])]"
  have 1: "http_document_ok ?d" by (simp add: http_document_ok_def)
  have 2: "\<forall>(k, v) \<in> set (http_desired (PInt 100) PNone PNone PNone PNone []). wf_py v" "distinct (map fst [])"
    by (simp_all add: http_desired_def set_given_def)
  from nsx_http_configured_overlays [OF nsx_store_world(1) plain_keep_documented(1) refl 1 nsx_config_for(3) refl 2(2,1)]
  show ?thesis by blast
qed

end
