(* ===== verification/Vcf_Nsx.thy ===== *)
theory Vcf_Nsx
  imports Nsx_Node Rest_Store Vcf_Nsx_Presence Vcf_Nsx_Config
begin

section \<open>Vcf_Nsx: accounts, and the contract of all NSX states\<close>

text \<open>
  The states on accounts, and what holds of every state \<open>states/vcf_nsx_*.py\<close>.
\<close>

subsection \<open>Vcf_Nsx_Accounts: the states on NSX objects that are found by name\<close>

text \<open>
  \<open>states/vcf_nsx_ldap.py\<close>, \<open>vcf_nsx_localos_user.py\<close>, \<open>vcf_nsx_role_binding.py\<close> and
  \<open>vcf_nsx_transport_zone.py\<close>: the service makes up the ids, so the states look the object up in the
  listing and address it by the id found there.
\<close>

subsubsection \<open>\<open>states/vcf_nsx_ldap.py\<close>\<close>

definition vcf_nsx_ldap_find_by_name :: "pyval \<Rightarrow> pyval \<Rightarrow> profile \<Rightarrow> pyval io" where
  "vcf_nsx_ldap_find_by_name opts name profile =
     bindM (nsx_ldap_list opts profile) (\<lambda>listed.
     liftR (bindR (listed_results (py_or listed empty_dict)) (find_by ''display_name'' name)))"

definition vcf_nsx_ldap_present ::
  "pyval \<Rightarrow> string \<Rightarrow> pyval \<Rightarrow> pyval \<Rightarrow> profile \<Rightarrow> dict \<Rightarrow> salt_ret io" where
  "vcf_nsx_ldap_present opts name ldap_servers base_dn profile spec =
     ensure_present opts name (vcf_nsx_ldap_find_by_name opts (PStr name) profile)
       (nsx_ldap_create opts (PStr name) ldap_servers base_dn profile spec)
       (''LDAP identity source '' @ name @ '' is already present'')
       (''LDAP identity source '' @ name @ '' would be created'')
       (''LDAP identity source '' @ name @ '' created'')"

text \<open>The \<open>absent\<close> states that delete by a key of the entry found.\<close>

definition ensure_entry_absent ::
  "pyval \<Rightarrow> string \<Rightarrow> pyval io \<Rightarrow> string \<Rightarrow> (pyval \<Rightarrow> pyval io) \<Rightarrow> string \<Rightarrow> salt_ret io" where
  "ensure_entry_absent opts name lookup key remove label =
     bindM lookup (\<lambda>current.
     if current = PNone then pureM (unchanged name (label @ '' '' @ name @ '' is already absent''))
     else unless_test opts (would name (label @ '' '' @ name @ '' would be deleted''))
       (bindM (liftR (py_item current key)) (\<lambda>ident.
        bindM (remove ident) (\<lambda>_.
        pureM (changed name [(''deleted'', PStr name)] (label @ '' '' @ name @ '' deleted''))))))"

definition vcf_nsx_ldap_absent :: "pyval \<Rightarrow> string \<Rightarrow> profile \<Rightarrow> salt_ret io" where
  "vcf_nsx_ldap_absent opts name profile =
     ensure_entry_absent opts name (vcf_nsx_ldap_find_by_name opts (PStr name) profile) ''id''
       (\<lambda>ident. nsx_ldap_delete opts ident profile) ''LDAP identity source''"

subsubsection \<open>\<open>states/vcf_nsx_localos_user.py\<close>\<close>

definition vcf_nsx_localos_user_present ::
  "pyval \<Rightarrow> string \<Rightarrow> pyval \<Rightarrow> pyval \<Rightarrow> profile \<Rightarrow> dict \<Rightarrow> salt_ret io" where
  "vcf_nsx_localos_user_present opts name password role profile spec =
     bindM (nsx_localos_user_get_or_none opts (PStr name) profile) (\<lambda>existing.
     if existing = PNone then
       unless_test opts (would name (''local CLI user '' @ name @ '' would be created''))
         (bindM (nsx_localos_user_create opts (PStr name) password role profile spec) (\<lambda>_.
          pureM (changed name [(''new'', PStr name)] (''local CLI user '' @ name @ '' created''))))
     else
       bindM (liftR (py_get existing ''role'' PNone)) (\<lambda>current_role.
       if py_eq current_role role then pureM (unchanged name (''local CLI user '' @ name @ '' already matches''))
       else unless_test opts (would name (''local CLI user '' @ name @ '' would change role''))
         (bindM (liftR (py_item existing ''userid'')) (\<lambda>userid.
          bindM (nsx_localos_user_update opts userid (PDict [(''role'', role)]) profile) (\<lambda>_.
          pureM (changed name [(''role'', PDict [(''old'', current_role), (''new'', role)])]
            (''local CLI user '' @ name @ '' updated'')))))))"

definition vcf_nsx_localos_user_absent :: "pyval \<Rightarrow> string \<Rightarrow> profile \<Rightarrow> salt_ret io" where
  "vcf_nsx_localos_user_absent opts name profile =
     ensure_entry_absent opts name (nsx_localos_user_get_or_none opts (PStr name) profile) ''userid''
       (\<lambda>userid. nsx_localos_user_delete opts userid profile) ''local CLI user''"

subsubsection \<open>\<open>states/vcf_nsx_role_binding.py\<close>\<close>

definition vcf_nsx_role_binding_find_by_name :: "pyval \<Rightarrow> pyval \<Rightarrow> profile \<Rightarrow> pyval io" where
  "vcf_nsx_role_binding_find_by_name opts name profile =
     bindM (nsx_role_binding_list opts profile) (\<lambda>listed.
     liftR (bindR (listed_results (py_or listed empty_dict)) (find_by ''name'' name)))"

text \<open>\<open>[r.get(key) for r in rs]\<close>.\<close>

fun get_each :: "string \<Rightarrow> pyval list \<Rightarrow> pyval list res" where
  "get_each key [] = Ok []"
| "get_each key (r # rs) = bindR (py_get r key PNone) (\<lambda>x. bindR (get_each key rs) (\<lambda>xs. Ok (x # xs)))"

definition sorted_roles :: "pyval \<Rightarrow> pyval list res" where
  "sorted_roles roles = bindR (py_iter roles) (\<lambda>rs. bindR (get_each ''role'' rs) py_sorted)"

definition role_binding_update ::
  "pyval \<Rightarrow> string \<Rightarrow> pyval \<Rightarrow> pyval \<Rightarrow> profile \<Rightarrow> pyval list \<Rightarrow> pyval list \<Rightarrow> pyval \<Rightarrow> salt_ret io" where
  "role_binding_update opts name kind roles profile current_roles desired_roles current =
     unless_test opts (would name (''Role binding '' @ name @ '' would be updated''))
       (bindM (liftR (py_dict current)) (\<lambda>d.
        bindM (liftR (py_iter roles)) (\<lambda>items.
        bindM (liftR (py_item current ''id'')) (\<lambda>ident.
        bindM (nsx_role_binding_update opts ident
            (PDict (dset (dset d ''roles'' (PList items)) ''type'' kind)) profile) (\<lambda>_.
        pureM (changed name
          [(''roles'', PDict [(''old'', PList current_roles), (''new'', PList desired_roles)])]
          (''Role binding '' @ name @ '' updated'')))))))"

definition vcf_nsx_role_binding_present ::
  "pyval \<Rightarrow> string \<Rightarrow> pyval \<Rightarrow> pyval \<Rightarrow> profile \<Rightarrow> dict \<Rightarrow> salt_ret io" where
  "vcf_nsx_role_binding_present opts name kind roles profile spec =
     bindM (vcf_nsx_role_binding_find_by_name opts (PStr name) profile) (\<lambda>current.
     bindM (liftR (sorted_roles roles)) (\<lambda>desired_roles.
     if current \<noteq> PNone then
       bindM (liftR (py_get current ''roles'' (PList []))) (\<lambda>rs.
       bindM (liftR (sorted_roles rs)) (\<lambda>current_roles.
       bindM (liftR (py_get current ''type'' PNone)) (\<lambda>current_type.
       if py_eq (PList current_roles) (PList desired_roles) \<and> py_eq current_type kind then
         pureM (unchanged name (''Role binding '' @ name @ '' already matches''))
       else role_binding_update opts name kind roles profile current_roles desired_roles current)))
     else unless_test opts (would name (''Role binding '' @ name @ '' would be created''))
       (bindM (nsx_role_binding_create opts (PStr name) kind roles profile spec) (\<lambda>_.
        pureM (changed name [(''new'', PStr name)] (''Role binding '' @ name @ '' created''))))))"

definition vcf_nsx_role_binding_absent :: "pyval \<Rightarrow> string \<Rightarrow> profile \<Rightarrow> salt_ret io" where
  "vcf_nsx_role_binding_absent opts name profile =
     ensure_entry_absent opts name (vcf_nsx_role_binding_find_by_name opts (PStr name) profile) ''id''
       (\<lambda>ident. nsx_role_binding_delete opts ident profile) ''Role binding''"

subsubsection \<open>\<open>states/vcf_nsx_transport_zone.py\<close>\<close>

definition vcf_nsx_transport_zone_present ::
  "pyval \<Rightarrow> string \<Rightarrow> pyval \<Rightarrow> profile \<Rightarrow> dict \<Rightarrow> salt_ret io" where
  "vcf_nsx_transport_zone_present opts name zone_type profile spec =
     bindM (nsx_transport_zone_get_by_name opts (PStr name) profile) (\<lambda>current.
     if current \<noteq> PNone then
       bindM (liftR (py_get current ''transport_type'' PNone)) (\<lambda>current_type.
       if truthy current_type \<and> \<not> py_eq current_type zone_type then
         pureM ((state_ret name)\<lparr>ret_result := Some False,
           ret_comment := ''Transport zone '' @ name @ '' exists with type '' @ py_repr current_type
             @ '', expected '' @ py_repr zone_type\<rparr>)
       else pureM (unchanged name (''Transport zone '' @ name @ '' is already present'')))
     else unless_test opts (would name (''Transport zone '' @ name @ '' would be created''))
       (bindM (nsx_transport_zone_create opts (PStr name) zone_type profile spec) (\<lambda>created.
        bindM (liftR (py_get created ''id'' PNone)) (\<lambda>ident.
        pureM (changed name [(''new'', py_or ident (PStr name))] (''Transport zone '' @ name @ '' created''))))))"

definition vcf_nsx_transport_zone_absent :: "pyval \<Rightarrow> string \<Rightarrow> profile \<Rightarrow> salt_ret io" where
  "vcf_nsx_transport_zone_absent opts name profile =
     bindM (nsx_transport_zone_get_by_name opts (PStr name) profile) (\<lambda>current.
     if current = PNone then pureM (unchanged name (''Transport zone '' @ name @ '' is already absent''))
     else
       bindM (liftR (py_get current ''id'' PNone)) (\<lambda>ident.
       let zone_id = py_or ident (PStr name) in
       unless_test opts (would name (''Transport zone '' @ name @ '' would be deleted''))
         (bindM (nsx_transport_zone_delete opts zone_id profile) (\<lambda>_.
          pureM (changed name [(''deleted'', zone_id)] (''Transport zone '' @ name @ '' deleted''))))))"

subsubsection \<open>Only the object that was found\<close>

text \<open>An entry of a listing that goes by \<open>name\<close>.\<close>

definition names_entry :: "string \<Rightarrow> pyval \<Rightarrow> pyval \<Rightarrow> pyval \<Rightarrow> bool" where
  "names_entry key name listed e \<longleftrightarrow>
     (\<exists>es d. listed_results (py_or listed empty_dict) = Ok es \<and> e \<in> set es \<and> e = PDict d \<and> py_eq (dget d key PNone) name)"

lemma find_by_Ok: "find_by k v es = Ok e \<Longrightarrow> e \<noteq> PNone \<Longrightarrow> \<exists>d. e \<in> set es \<and> e = PDict d \<and> py_eq (dget d k PNone) v"
  by (induction k v es rule: find_by.induct) (auto simp: bindR_eq_Ok py_get_Ok split: if_splits)

text \<open>
  What a run of an \<open>absent\<close> state may send: the \<open>GET\<close> of the listing at \<open>path\<close>, and after it at most the
  \<open>DELETE\<close> of the entry of that name in what the \<open>GET\<close> answered.
\<close>

definition deletes_found :: "pyval \<Rightarrow> profile \<Rightarrow> string \<Rightarrow> string \<Rightarrow> string \<Rightarrow> pyval \<Rightarrow> salt_ret io \<Rightarrow> bool" where
  "deletes_found opts p path key ident name prog \<longleftrightarrow>
     (\<forall>w r w'. prog w = Some (r, w') \<longrightarrow>
        keeps (sends_only is_get) (nsx_api_get opts path PNone p) \<and>
        (\<exists>r1 w1. nsx_api_get opts path PNone p w = Some (r1, w1) \<and>
          (sent w' = sent w1 \<or>
           \<not> test_mode opts \<and>
           (\<exists>listed d i rq. r1 = Ok listed \<and> names_entry key name listed (PDict d) \<and> map_of d ident = Some i \<and>
             sent w' = sent w1 @ [rq] \<and> rq_method rq = ''DELETE'' \<and>
             (\<exists>cfg. nsx_get_config opts p = Ok cfg \<and> rq_url rq = https_url (cfg_host cfg) (path @ ''/'' @ py_str i))))))"

lemma nsx_delete_sent:
  assumes "nsx_api_delete opts q PNone p w = Some (r, w')"
  shows "sent w' = sent w \<or> (\<exists>rq cfg. sent w' = sent w @ [rq] \<and> rq_method rq = ''DELETE'' \<and>
    nsx_get_config opts p = Ok cfg \<and> rq_url rq = https_url (cfg_host cfg) q)"
proof (cases "nsx_get_config opts p")
  case (Exc e)
  with assms show ?thesis by (simp add: nsx_api_delete_def session_call_def nsx_session_def bindM_def)
next
  case (Ok cfg)
  from nsx_call_requests [OF Ok assms [unfolded nsx_api_delete_def]] Ok show ?thesis by auto
qed

lemma ensure_entry_absent_deletes_found:
  assumes lookup: "lookup = bindM (nsx_api_get opts path PNone p) (\<lambda>listed.
      liftR (bindR (listed_results (py_or listed empty_dict)) (find_by key name)))"
    and remove: "\<And>i. remove i = nsx_api_delete opts (path @ ''/'' @ py_str i) PNone p"
  shows "deletes_found opts p path key ident name (ensure_entry_absent opts n lookup ident remove label)"
  unfolding deletes_found_def
proof (intro allI impI conjI)
  fix w r w' assume "ensure_entry_absent opts n lookup ident remove label w = Some (r, w')"
  then show "\<exists>r1 w1. nsx_api_get opts path PNone p w = Some (r1, w1) \<and>
    (sent w' = sent w1 \<or> \<not> test_mode opts \<and> (\<exists>listed d i rq. r1 = Ok listed \<and> names_entry key name listed (PDict d) \<and>
      map_of d ident = Some i \<and> sent w' = sent w1 @ [rq] \<and> rq_method rq = ''DELETE'' \<and>
      (\<exists>cfg. nsx_get_config opts p = Ok cfg \<and> rq_url rq = https_url (cfg_host cfg) (path @ ''/'' @ py_str i))))"
    unfolding ensure_entry_absent_def
  proof (rule bindM_SomeE)
    fix e assume "lookup w = Some (Exc e, w')"
    then show ?thesis by (auto simp: lookup bindM_Some_iff)
  next
    fix current w1
    assume look: "lookup w = Some (Ok current, w1)"
      and rest: "(if current = PNone then pureM (unchanged n (label @ '' '' @ n @ '' is already absent''))
        else unless_test opts (would n (label @ '' '' @ n @ '' would be deleted''))
          (bindM (liftR (py_item current ident)) (\<lambda>i. bindM (remove i) (\<lambda>_.
             pureM (changed n [(''deleted'', PStr n)] (label @ '' '' @ n @ '' deleted'')))))) w1 = Some (r, w')"
    from look obtain listed es where got: "nsx_api_get opts path PNone p w = Some (Ok listed, w1)"
      "listed_results (py_or listed empty_dict) = Ok es" "find_by key name es = Ok current"
      by (auto simp: lookup bindM_Some_iff bindR_eq_Ok)
    show ?thesis
    proof (cases "sent w' = sent w1")
      case True
      with got(1) show ?thesis by blast
    next
      case False
      with rest have "current \<noteq> PNone" by auto
      with got(2,3) obtain d where d: "current = PDict d" "names_entry key name listed (PDict d)"
        by (auto dest!: find_by_Ok simp: names_entry_def)
      from rest False d(1) obtain i x where i: "\<not> test_mode opts" "map_of d ident = Some i" "remove i w1 = Some (x, w')"
        by (auto simp: bindM_Some_iff elim!: unless_test_cases)
      from nsx_delete_sent [OF i(3) [unfolded remove]] False obtain rq cfg where
        "sent w' = sent w1 @ [rq]" "rq_method rq = ''DELETE''" "nsx_get_config opts p = Ok cfg"
        "rq_url rq = https_url (cfg_host cfg) (path @ ''/'' @ py_str i)" by auto
      with got(1) i(1,2) d(2) show ?thesis by blast
    qed
  qed
qed (rule spec_intros)

text \<open>The \<open>absent\<close> states on identity sources, local users and role bindings delete only what they found: a
  run sends the \<open>GET\<close> of the listing, and after it at most one request, which is the \<open>DELETE\<close> of the id that
  the listing itself gives for an entry of exactly the state's name; in a dry run not even that.\<close>

theorem nsx_absent_deletes_what_it_found:
  "deletes_found opts p nsx_ldap_PATH ''display_name'' ''id'' (PStr s) (vcf_nsx_ldap_absent opts s p) \<and>
   deletes_found opts p nsx_localos_user_PATH ''username'' ''userid'' (PStr s) (vcf_nsx_localos_user_absent opts s p) \<and>
   deletes_found opts p nsx_role_binding_PATH ''name'' ''id'' (PStr s) (vcf_nsx_role_binding_absent opts s p)"
  unfolding vcf_nsx_ldap_absent_def vcf_nsx_localos_user_absent_def vcf_nsx_role_binding_absent_def
  by (intro conjI ensure_entry_absent_deletes_found)
    (simp_all add: vcf_nsx_ldap_find_by_name_def nsx_ldap_list_def nsx_ldap_delete_def
      nsx_localos_user_get_or_none_def nsx_localos_user_list_def nsx_localos_user_delete_def
      vcf_nsx_role_binding_find_by_name_def nsx_role_binding_list_def nsx_role_binding_delete_def)

subsection \<open>What all states on NSX have in common\<close>

text \<open>
  The contract of the NSX states with Salt, and their dry runs: 37 state functions of 20 modules.
\<close>

lemmas nsx_state_defs = vcf_nsx_segment_present_def vcf_nsx_segment_absent_def vcf_nsx_group_present_def vcf_nsx_group_absent_def
    vcf_nsx_service_present_def vcf_nsx_service_absent_def vcf_nsx_security_policy_present_def
    vcf_nsx_security_policy_absent_def vcf_nsx_firewall_rule_present_def vcf_nsx_firewall_rule_absent_def
    vcf_nsx_uplink_profile_present_def vcf_nsx_uplink_profile_absent_def vcf_nsx_syslog_exporter_present_def
    vcf_nsx_syslog_exporter_absent_def vcf_nsx_dhcp_server_present_def vcf_nsx_dhcp_server_absent_def
    vcf_nsx_dhcp_relay_present_def vcf_nsx_dhcp_relay_absent_def vcf_nsx_ldap_present_def
    vcf_nsx_ldap_absent_def vcf_nsx_localos_user_present_def vcf_nsx_localos_user_absent_def
    vcf_nsx_role_binding_present_def vcf_nsx_role_binding_absent_def vcf_nsx_transport_zone_present_def
    vcf_nsx_transport_zone_absent_def vcf_nsx_tier0_bgp_enabled_def vcf_nsx_tier0_ospf_enabled_def
    vcf_nsx_tier0_multicast_enabled_def vcf_nsx_tier1_multicast_enabled_def vcf_nsx_telemetry_optin_set_def
    vcf_nsx_vidm_enabled_def vcf_nsx_dns_servers_dns_servers_def vcf_nsx_ntp_servers_ntp_servers_def
    vcf_nsx_node_services_http_configured_def vcf_nsx_cluster_vip_api_vip_set_def
    vcf_nsx_cluster_vip_api_vip_absent_def

lemmas nsx_read_defs = nsx_segment_get_or_none_def nsx_segment_get_def nsx_group_get_or_none_def nsx_group_get_def
    nsx_service_get_or_none_def nsx_service_get_def nsx_security_policy_get_or_none_def
    nsx_security_policy_get_def nsx_firewall_rule_get_or_none_def nsx_firewall_rule_get_def
    nsx_uplink_profile_get_or_none_def nsx_uplink_profile_get_def nsx_syslog_exporter_get_or_none_def
    nsx_syslog_exporter_get_def nsx_dhcp_server_get_or_none_def nsx_dhcp_server_get_def
    nsx_dhcp_relay_get_or_none_def nsx_dhcp_relay_get_def nsx_ldap_list_def nsx_localos_user_list_def
    nsx_role_binding_list_def nsx_transport_zone_list_def vcf_nsx_ldap_find_by_name_def
    nsx_localos_user_get_or_none_def vcf_nsx_role_binding_find_by_name_def nsx_transport_zone_get_by_name_def
    nsx_tier0_bgp_get_def nsx_tier0_ospf_get_def nsx_tier0_multicast_get_def nsx_tier1_multicast_get_def
    nsx_telemetry_get_def nsx_vidm_get_def nsx_dns_servers_dns_get_def nsx_ntp_servers_ntp_get_def
    nsx_node_services_http_get_def nsx_cluster_api_virtual_ip_get_def vcf_nsx_cluster_vip_current_ip_def

lemmas nsx_shape_defs = ensure_entry_absent_def role_binding_update_def feature_enabled_def server_list_def http_apply_def

text \<open>C32: Every state function of NSX keeps its contract with Salt: what it returns carries its name and a dict of
  changes, \<open>None\<close> is only the result of a dry run, and neither a satisfied dry run nor a failure reports a
  change; and in a dry run it sends nothing but \<open>GET\<close> requests.\<close>

theorem nsx_states_keep_contract:
  "keeps_contract is_get opts s (vcf_nsx_segment_present opts s p spec) \<and>
   keeps_contract is_get opts s (vcf_nsx_segment_absent opts s p) \<and>
   keeps_contract is_get opts s (vcf_nsx_group_present opts s p spec) \<and>
   keeps_contract is_get opts s (vcf_nsx_group_absent opts s p) \<and>
   keeps_contract is_get opts s (vcf_nsx_service_present opts s p spec) \<and>
   keeps_contract is_get opts s (vcf_nsx_service_absent opts s p) \<and>
   keeps_contract is_get opts s (vcf_nsx_security_policy_present opts s domain p spec) \<and>
   keeps_contract is_get opts s (vcf_nsx_security_policy_absent opts s domain p) \<and>
   keeps_contract is_get opts s (vcf_nsx_firewall_rule_present opts s policy domain p spec) \<and>
   keeps_contract is_get opts s (vcf_nsx_firewall_rule_absent opts s policy domain p) \<and>
   keeps_contract is_get opts s (vcf_nsx_uplink_profile_present opts s v p spec) \<and>
   keeps_contract is_get opts s (vcf_nsx_uplink_profile_absent opts s p) \<and>
   keeps_contract is_get opts s (vcf_nsx_syslog_exporter_present opts s v1 v2 v3 p spec) \<and>
   keeps_contract is_get opts s (vcf_nsx_syslog_exporter_absent opts s p) \<and>
   keeps_contract is_get opts s (vcf_nsx_dhcp_server_present opts s v p spec) \<and>
   keeps_contract is_get opts s (vcf_nsx_dhcp_server_absent opts s p) \<and>
   keeps_contract is_get opts s (vcf_nsx_dhcp_relay_present opts s v p spec) \<and>
   keeps_contract is_get opts s (vcf_nsx_dhcp_relay_absent opts s p) \<and>
   keeps_contract is_get opts s (vcf_nsx_ldap_present opts s v1 v2 p spec) \<and>
   keeps_contract is_get opts s (vcf_nsx_ldap_absent opts s p) \<and>
   keeps_contract is_get opts s (vcf_nsx_localos_user_present opts s v1 v2 p spec) \<and>
   keeps_contract is_get opts s (vcf_nsx_localos_user_absent opts s p) \<and>
   keeps_contract is_get opts s (vcf_nsx_role_binding_present opts s v1 v2 p spec) \<and>
   keeps_contract is_get opts s (vcf_nsx_role_binding_absent opts s p) \<and>
   keeps_contract is_get opts s (vcf_nsx_transport_zone_present opts s v p spec) \<and>
   keeps_contract is_get opts s (vcf_nsx_transport_zone_absent opts s p) \<and>
   keeps_contract is_get opts s (vcf_nsx_tier0_bgp_enabled opts s v v1 p) \<and>
   keeps_contract is_get opts s (vcf_nsx_tier0_ospf_enabled opts s v v1 p) \<and>
   keeps_contract is_get opts s (vcf_nsx_tier0_multicast_enabled opts s v v1 p) \<and>
   keeps_contract is_get opts s (vcf_nsx_tier1_multicast_enabled opts s v v1 p) \<and>
   keeps_contract is_get opts s (vcf_nsx_telemetry_optin_set opts s v p) \<and>
   keeps_contract is_get opts s (vcf_nsx_vidm_enabled opts s v p spec) \<and>
   keeps_contract is_get opts s (vcf_nsx_dns_servers_dns_servers opts s v p) \<and>
   keeps_contract is_get opts s (vcf_nsx_ntp_servers_ntp_servers opts s v p) \<and>
   keeps_contract is_get opts s (vcf_nsx_node_services_http_configured opts s v1 v2 v3 v4 v5 p spec) \<and>
   keeps_contract is_get opts s (vcf_nsx_cluster_vip_api_vip_set opts s v p) \<and>
   keeps_contract is_get opts s (vcf_nsx_cluster_vip_api_vip_absent opts s p)"
  unfolding nsx_state_defs nsx_shape_defs
  by (intro conjI keeps_contractI; (intro spec_intros)?; auto simp: nsx_read_defs well_formed_ret_def intro!: spec_intros)

end
