(* ===== verification/Nsx_Services.thy ===== *)
theory Nsx_Services
  imports Nsx_Store Nsx Rest_Client
begin

section \<open>Nsx_Services: load balancer, VPN, upgrade\<close>

text \<open>
  The clients \<open>clients/nsx_*.py\<close> on the services of a gateway, and \<open>nsx_upgrade.py\<close>.
\<close>

subsection \<open>The NSX load balancer clients\<close>

text \<open>
  The REST calls on the objects of the load balancer.

  One definition per function of the client modules; identifiers and other arguments are
  Python values, keyword arguments (\<open>**spec\<close>) a dict.
\<close>

subsubsection \<open>\<open>clients/nsx_lb_app_profile.py\<close>\<close>

definition nsx_lb_app_profile_PATH :: "string" where
  "nsx_lb_app_profile_PATH = ''/policy/api/v1/infra/lb-app-profiles''"

definition nsx_lb_app_profile_list :: "pyval \<Rightarrow> profile \<Rightarrow> pyval io" where
  "nsx_lb_app_profile_list opts profile = nsx_api_get opts nsx_lb_app_profile_PATH PNone profile"

definition nsx_lb_app_profile_get :: "pyval \<Rightarrow> pyval \<Rightarrow> profile \<Rightarrow> pyval io" where
  "nsx_lb_app_profile_get opts app_profile profile =
     nsx_api_get opts (nsx_lb_app_profile_PATH @ ''/'' @ py_str app_profile) PNone profile"

definition nsx_lb_app_profile_get_or_none :: "pyval \<Rightarrow> pyval \<Rightarrow> profile \<Rightarrow> pyval io" where
  "nsx_lb_app_profile_get_or_none opts app_profile profile =
     none_if_missing (nsx_lb_app_profile_get opts app_profile profile)"

definition nsx_lb_app_profile_create :: "pyval \<Rightarrow> pyval \<Rightarrow> pyval \<Rightarrow> profile \<Rightarrow> dict \<Rightarrow> pyval io" where
  "nsx_lb_app_profile_create opts app_profile resource_type profile spec =
     nsx_api_put opts (nsx_lb_app_profile_PATH @ ''/'' @ py_str app_profile)
       (kind_body resource_type app_profile spec) PNone profile"

definition nsx_lb_app_profile_delete :: "pyval \<Rightarrow> pyval \<Rightarrow> profile \<Rightarrow> pyval io" where
  "nsx_lb_app_profile_delete opts app_profile profile =
     nsx_api_delete opts (nsx_lb_app_profile_PATH @ ''/'' @ py_str app_profile) PNone profile"

subsubsection \<open>\<open>clients/nsx_lb_monitor.py\<close>\<close>

definition nsx_lb_monitor_PATH :: "string" where
  "nsx_lb_monitor_PATH = ''/policy/api/v1/infra/lb-monitor-profiles''"

definition nsx_lb_monitor_list :: "pyval \<Rightarrow> profile \<Rightarrow> pyval io" where
  "nsx_lb_monitor_list opts profile = nsx_api_get opts nsx_lb_monitor_PATH PNone profile"

definition nsx_lb_monitor_get :: "pyval \<Rightarrow> pyval \<Rightarrow> profile \<Rightarrow> pyval io" where
  "nsx_lb_monitor_get opts monitor profile =
     nsx_api_get opts (nsx_lb_monitor_PATH @ ''/'' @ py_str monitor) PNone profile"

definition nsx_lb_monitor_get_or_none :: "pyval \<Rightarrow> pyval \<Rightarrow> profile \<Rightarrow> pyval io" where
  "nsx_lb_monitor_get_or_none opts monitor profile = none_if_missing (nsx_lb_monitor_get opts monitor profile)"

definition nsx_lb_monitor_create :: "pyval \<Rightarrow> pyval \<Rightarrow> pyval \<Rightarrow> profile \<Rightarrow> dict \<Rightarrow> pyval io" where
  "nsx_lb_monitor_create opts monitor resource_type profile spec =
     nsx_api_put opts (nsx_lb_monitor_PATH @ ''/'' @ py_str monitor)
       (kind_body resource_type monitor spec) PNone profile"

definition nsx_lb_monitor_delete :: "pyval \<Rightarrow> pyval \<Rightarrow> profile \<Rightarrow> pyval io" where
  "nsx_lb_monitor_delete opts monitor profile =
     nsx_api_delete opts (nsx_lb_monitor_PATH @ ''/'' @ py_str monitor) PNone profile"

subsubsection \<open>\<open>clients/nsx_lb_persistence.py\<close>\<close>

definition nsx_lb_persistence_PATH :: "string" where
  "nsx_lb_persistence_PATH = ''/policy/api/v1/infra/lb-persistence-profiles''"

definition nsx_lb_persistence_list :: "pyval \<Rightarrow> profile \<Rightarrow> pyval io" where
  "nsx_lb_persistence_list opts profile = nsx_api_get opts nsx_lb_persistence_PATH PNone profile"

definition nsx_lb_persistence_get :: "pyval \<Rightarrow> pyval \<Rightarrow> profile \<Rightarrow> pyval io" where
  "nsx_lb_persistence_get opts persistence profile =
     nsx_api_get opts (nsx_lb_persistence_PATH @ ''/'' @ py_str persistence) PNone profile"

definition nsx_lb_persistence_get_or_none :: "pyval \<Rightarrow> pyval \<Rightarrow> profile \<Rightarrow> pyval io" where
  "nsx_lb_persistence_get_or_none opts persistence profile =
     none_if_missing (nsx_lb_persistence_get opts persistence profile)"

definition nsx_lb_persistence_create :: "pyval \<Rightarrow> pyval \<Rightarrow> pyval \<Rightarrow> profile \<Rightarrow> dict \<Rightarrow> pyval io" where
  "nsx_lb_persistence_create opts persistence resource_type profile spec =
     nsx_api_put opts (nsx_lb_persistence_PATH @ ''/'' @ py_str persistence)
       (kind_body resource_type persistence spec) PNone profile"

definition nsx_lb_persistence_delete :: "pyval \<Rightarrow> pyval \<Rightarrow> profile \<Rightarrow> pyval io" where
  "nsx_lb_persistence_delete opts persistence profile =
     nsx_api_delete opts (nsx_lb_persistence_PATH @ ''/'' @ py_str persistence) PNone profile"

subsubsection \<open>\<open>clients/nsx_lb_pool.py\<close>\<close>

definition nsx_lb_pool_PATH :: "string" where
  "nsx_lb_pool_PATH = ''/policy/api/v1/infra/lb-pools''"

definition nsx_lb_pool_list :: "pyval \<Rightarrow> profile \<Rightarrow> pyval io" where
  "nsx_lb_pool_list opts profile = nsx_api_get opts nsx_lb_pool_PATH PNone profile"

definition nsx_lb_pool_get :: "pyval \<Rightarrow> pyval \<Rightarrow> profile \<Rightarrow> pyval io" where
  "nsx_lb_pool_get opts pool profile = nsx_api_get opts (nsx_lb_pool_PATH @ ''/'' @ py_str pool) PNone profile"

definition nsx_lb_pool_get_or_none :: "pyval \<Rightarrow> pyval \<Rightarrow> profile \<Rightarrow> pyval io" where
  "nsx_lb_pool_get_or_none opts pool profile = none_if_missing (nsx_lb_pool_get opts pool profile)"

definition nsx_lb_pool_create :: "pyval \<Rightarrow> pyval \<Rightarrow> profile \<Rightarrow> dict \<Rightarrow> pyval io" where
  "nsx_lb_pool_create opts pool profile spec =
     nsx_api_put opts (nsx_lb_pool_PATH @ ''/'' @ py_str pool) (named_body pool [] spec) PNone profile"

definition nsx_lb_pool_delete :: "pyval \<Rightarrow> pyval \<Rightarrow> profile \<Rightarrow> pyval io" where
  "nsx_lb_pool_delete opts pool profile =
     nsx_api_delete opts (nsx_lb_pool_PATH @ ''/'' @ py_str pool) PNone profile"

subsubsection \<open>\<open>clients/nsx_lb_service.py\<close>\<close>

definition nsx_lb_service_PATH :: "string" where
  "nsx_lb_service_PATH = ''/policy/api/v1/infra/lb-services''"

definition nsx_lb_service_list :: "pyval \<Rightarrow> profile \<Rightarrow> pyval io" where
  "nsx_lb_service_list opts profile = nsx_api_get opts nsx_lb_service_PATH PNone profile"

definition nsx_lb_service_get :: "pyval \<Rightarrow> pyval \<Rightarrow> profile \<Rightarrow> pyval io" where
  "nsx_lb_service_get opts lb_service profile =
     nsx_api_get opts (nsx_lb_service_PATH @ ''/'' @ py_str lb_service) PNone profile"

definition nsx_lb_service_get_or_none :: "pyval \<Rightarrow> pyval \<Rightarrow> profile \<Rightarrow> pyval io" where
  "nsx_lb_service_get_or_none opts lb_service profile =
     none_if_missing (nsx_lb_service_get opts lb_service profile)"

definition nsx_lb_service_create :: "pyval \<Rightarrow> pyval \<Rightarrow> profile \<Rightarrow> dict \<Rightarrow> pyval io" where
  "nsx_lb_service_create opts lb_service profile spec =
     nsx_api_put opts (nsx_lb_service_PATH @ ''/'' @ py_str lb_service)
       (named_body lb_service [] spec) PNone profile"

definition nsx_lb_service_delete :: "pyval \<Rightarrow> pyval \<Rightarrow> profile \<Rightarrow> pyval io" where
  "nsx_lb_service_delete opts lb_service profile =
     nsx_api_delete opts (nsx_lb_service_PATH @ ''/'' @ py_str lb_service) PNone profile"

subsubsection \<open>\<open>clients/nsx_lb_virtual_server.py\<close>\<close>

definition nsx_lb_virtual_server_PATH :: "string" where
  "nsx_lb_virtual_server_PATH = ''/policy/api/v1/infra/lb-virtual-servers''"

definition nsx_lb_virtual_server_list :: "pyval \<Rightarrow> profile \<Rightarrow> pyval io" where
  "nsx_lb_virtual_server_list opts profile = nsx_api_get opts nsx_lb_virtual_server_PATH PNone profile"

definition nsx_lb_virtual_server_get :: "pyval \<Rightarrow> pyval \<Rightarrow> profile \<Rightarrow> pyval io" where
  "nsx_lb_virtual_server_get opts virtual_server profile =
     nsx_api_get opts (nsx_lb_virtual_server_PATH @ ''/'' @ py_str virtual_server) PNone profile"

definition nsx_lb_virtual_server_get_or_none :: "pyval \<Rightarrow> pyval \<Rightarrow> profile \<Rightarrow> pyval io" where
  "nsx_lb_virtual_server_get_or_none opts virtual_server profile =
     none_if_missing (nsx_lb_virtual_server_get opts virtual_server profile)"

definition nsx_lb_virtual_server_create :: "pyval \<Rightarrow> pyval \<Rightarrow> profile \<Rightarrow> dict \<Rightarrow> pyval io" where
  "nsx_lb_virtual_server_create opts virtual_server profile spec =
     nsx_api_put opts (nsx_lb_virtual_server_PATH @ ''/'' @ py_str virtual_server)
       (named_body virtual_server [] spec) PNone profile"

definition nsx_lb_virtual_server_delete :: "pyval \<Rightarrow> pyval \<Rightarrow> profile \<Rightarrow> pyval io" where
  "nsx_lb_virtual_server_delete opts virtual_server profile =
     nsx_api_delete opts (nsx_lb_virtual_server_PATH @ ''/'' @ py_str virtual_server) PNone profile"

subsection \<open>The NSX VPN clients\<close>

text \<open>
  The REST calls on IPsec and L2 VPN services, sessions and profiles.

  One definition per function of the client modules; identifiers and other arguments are
  Python values, keyword arguments (\<open>**spec\<close>) a dict.
\<close>

subsubsection \<open>\<open>clients/nsx_ipsec_vpn.py\<close>\<close>

definition nsx_ipsec_vpn_IKE_PROFILES :: "string" where
  "nsx_ipsec_vpn_IKE_PROFILES = ''/policy/api/v1/infra/ipsec-vpn-ike-profiles''"

definition nsx_ipsec_vpn_TUNNEL_PROFILES :: "string" where
  "nsx_ipsec_vpn_TUNNEL_PROFILES = ''/policy/api/v1/infra/ipsec-vpn-tunnel-profiles''"

definition nsx_ipsec_vpn_DPD_PROFILES :: "string" where
  "nsx_ipsec_vpn_DPD_PROFILES = ''/policy/api/v1/infra/ipsec-vpn-dpd-profiles''"

definition nsx_ipsec_vpn_service_path :: "pyval \<Rightarrow> pyval \<Rightarrow> pyval \<Rightarrow> string" where
  "nsx_ipsec_vpn_service_path tier0 locale service =
     (let base = ''/policy/api/v1/infra/tier-0s/'' @ py_str tier0 @ ''/locale-services/'' @ py_str locale @ ''/ipsec-vpn-services''
      in if truthy service then base @ ''/'' @ py_str service else base)"

definition nsx_ipsec_vpn_session_path :: "pyval \<Rightarrow> pyval \<Rightarrow> pyval \<Rightarrow> pyval \<Rightarrow> string" where
  "nsx_ipsec_vpn_session_path tier0 locale service session =
     (let base = ''/policy/api/v1/infra/tier-0s/'' @ py_str tier0 @ ''/locale-services/'' @ py_str locale @ ''/ipsec-vpn-services/'' @ py_str service @ ''/sessions''
      in if truthy session then base @ ''/'' @ py_str session else base)"

text \<open>The functions that \<open>_per_id(path)\<close> makes, and the three families it is called for.\<close>

definition per_id_list :: "string \<Rightarrow> pyval \<Rightarrow> profile \<Rightarrow> pyval io" where
  "per_id_list path opts profile = nsx_api_get opts path PNone profile"

definition per_id_get :: "string \<Rightarrow> pyval \<Rightarrow> pyval \<Rightarrow> profile \<Rightarrow> pyval io" where
  "per_id_get path opts resource_id profile = nsx_api_get opts (path @ ''/'' @ py_str resource_id) PNone profile"

definition per_id_get_or_none :: "string \<Rightarrow> pyval \<Rightarrow> pyval \<Rightarrow> profile \<Rightarrow> pyval io" where
  "per_id_get_or_none path opts resource_id profile = none_if_missing (per_id_get path opts resource_id profile)"

definition per_id_delete :: "string \<Rightarrow> pyval \<Rightarrow> pyval \<Rightarrow> profile \<Rightarrow> pyval io" where
  "per_id_delete path opts resource_id profile = nsx_api_delete opts (path @ ''/'' @ py_str resource_id) PNone profile"

definition nsx_ipsec_vpn_list_ike_profiles :: "pyval \<Rightarrow> profile \<Rightarrow> pyval io" where
  "nsx_ipsec_vpn_list_ike_profiles = per_id_list nsx_ipsec_vpn_IKE_PROFILES"

definition nsx_ipsec_vpn_get_ike_profile :: "pyval \<Rightarrow> pyval \<Rightarrow> profile \<Rightarrow> pyval io" where
  "nsx_ipsec_vpn_get_ike_profile = per_id_get nsx_ipsec_vpn_IKE_PROFILES"

definition nsx_ipsec_vpn_get_ike_profile_or_none :: "pyval \<Rightarrow> pyval \<Rightarrow> profile \<Rightarrow> pyval io" where
  "nsx_ipsec_vpn_get_ike_profile_or_none = per_id_get_or_none nsx_ipsec_vpn_IKE_PROFILES"

definition nsx_ipsec_vpn_delete_ike_profile :: "pyval \<Rightarrow> pyval \<Rightarrow> profile \<Rightarrow> pyval io" where
  "nsx_ipsec_vpn_delete_ike_profile = per_id_delete nsx_ipsec_vpn_IKE_PROFILES"

definition nsx_ipsec_vpn_create_ike_profile :: "pyval \<Rightarrow> pyval \<Rightarrow> profile \<Rightarrow> dict \<Rightarrow> pyval io" where
  "nsx_ipsec_vpn_create_ike_profile opts ike_profile profile spec =
     nsx_api_put opts (nsx_ipsec_vpn_IKE_PROFILES @ ''/'' @ py_str ike_profile)
       (typed_body ''IPSecVpnIkeProfile'' ike_profile spec) PNone profile"

definition nsx_ipsec_vpn_list_tunnel_profiles :: "pyval \<Rightarrow> profile \<Rightarrow> pyval io" where
  "nsx_ipsec_vpn_list_tunnel_profiles = per_id_list nsx_ipsec_vpn_TUNNEL_PROFILES"

definition nsx_ipsec_vpn_get_tunnel_profile :: "pyval \<Rightarrow> pyval \<Rightarrow> profile \<Rightarrow> pyval io" where
  "nsx_ipsec_vpn_get_tunnel_profile = per_id_get nsx_ipsec_vpn_TUNNEL_PROFILES"

definition nsx_ipsec_vpn_get_tunnel_profile_or_none :: "pyval \<Rightarrow> pyval \<Rightarrow> profile \<Rightarrow> pyval io" where
  "nsx_ipsec_vpn_get_tunnel_profile_or_none = per_id_get_or_none nsx_ipsec_vpn_TUNNEL_PROFILES"

definition nsx_ipsec_vpn_delete_tunnel_profile :: "pyval \<Rightarrow> pyval \<Rightarrow> profile \<Rightarrow> pyval io" where
  "nsx_ipsec_vpn_delete_tunnel_profile = per_id_delete nsx_ipsec_vpn_TUNNEL_PROFILES"

definition nsx_ipsec_vpn_create_tunnel_profile :: "pyval \<Rightarrow> pyval \<Rightarrow> profile \<Rightarrow> dict \<Rightarrow> pyval io" where
  "nsx_ipsec_vpn_create_tunnel_profile opts tunnel_profile profile spec =
     nsx_api_put opts (nsx_ipsec_vpn_TUNNEL_PROFILES @ ''/'' @ py_str tunnel_profile)
       (typed_body ''IPSecVpnTunnelProfile'' tunnel_profile spec) PNone profile"

definition nsx_ipsec_vpn_list_dpd_profiles :: "pyval \<Rightarrow> profile \<Rightarrow> pyval io" where
  "nsx_ipsec_vpn_list_dpd_profiles = per_id_list nsx_ipsec_vpn_DPD_PROFILES"

definition nsx_ipsec_vpn_get_dpd_profile :: "pyval \<Rightarrow> pyval \<Rightarrow> profile \<Rightarrow> pyval io" where
  "nsx_ipsec_vpn_get_dpd_profile = per_id_get nsx_ipsec_vpn_DPD_PROFILES"

definition nsx_ipsec_vpn_get_dpd_profile_or_none :: "pyval \<Rightarrow> pyval \<Rightarrow> profile \<Rightarrow> pyval io" where
  "nsx_ipsec_vpn_get_dpd_profile_or_none = per_id_get_or_none nsx_ipsec_vpn_DPD_PROFILES"

definition nsx_ipsec_vpn_delete_dpd_profile :: "pyval \<Rightarrow> pyval \<Rightarrow> profile \<Rightarrow> pyval io" where
  "nsx_ipsec_vpn_delete_dpd_profile = per_id_delete nsx_ipsec_vpn_DPD_PROFILES"

definition nsx_ipsec_vpn_create_dpd_profile :: "pyval \<Rightarrow> pyval \<Rightarrow> profile \<Rightarrow> dict \<Rightarrow> pyval io" where
  "nsx_ipsec_vpn_create_dpd_profile opts dpd_profile profile spec =
     nsx_api_put opts (nsx_ipsec_vpn_DPD_PROFILES @ ''/'' @ py_str dpd_profile)
       (typed_body ''IPSecVpnDpdProfile'' dpd_profile spec) PNone profile"

definition nsx_ipsec_vpn_list_services :: "pyval \<Rightarrow> pyval \<Rightarrow> pyval \<Rightarrow> profile \<Rightarrow> pyval io" where
  "nsx_ipsec_vpn_list_services opts tier0 locale profile =
     nsx_api_get opts (nsx_ipsec_vpn_service_path tier0 locale PNone) PNone profile"

definition nsx_ipsec_vpn_get_service :: "pyval \<Rightarrow> pyval \<Rightarrow> pyval \<Rightarrow> pyval \<Rightarrow> profile \<Rightarrow> pyval io" where
  "nsx_ipsec_vpn_get_service opts tier0 locale service profile =
     nsx_api_get opts (nsx_ipsec_vpn_service_path tier0 locale service) PNone profile"

definition nsx_ipsec_vpn_get_service_or_none :: "pyval \<Rightarrow> pyval \<Rightarrow> pyval \<Rightarrow> pyval \<Rightarrow> profile \<Rightarrow> pyval io" where
  "nsx_ipsec_vpn_get_service_or_none opts tier0 locale service profile =
     none_if_missing (nsx_ipsec_vpn_get_service opts tier0 locale service profile)"

definition nsx_ipsec_vpn_create_service :: "pyval \<Rightarrow> pyval \<Rightarrow> pyval \<Rightarrow> pyval \<Rightarrow> profile \<Rightarrow> dict \<Rightarrow> pyval io" where
  "nsx_ipsec_vpn_create_service opts tier0 locale service profile spec =
     nsx_api_put opts (nsx_ipsec_vpn_service_path tier0 locale service)
       (typed_body ''IPSecVpnService'' service spec) PNone profile"

definition nsx_ipsec_vpn_delete_service :: "pyval \<Rightarrow> pyval \<Rightarrow> pyval \<Rightarrow> pyval \<Rightarrow> profile \<Rightarrow> pyval io" where
  "nsx_ipsec_vpn_delete_service opts tier0 locale service profile =
     nsx_api_delete opts (nsx_ipsec_vpn_service_path tier0 locale service) PNone profile"

definition nsx_ipsec_vpn_list_sessions :: "pyval \<Rightarrow> pyval \<Rightarrow> pyval \<Rightarrow> pyval \<Rightarrow> profile \<Rightarrow> pyval io" where
  "nsx_ipsec_vpn_list_sessions opts tier0 locale service profile =
     nsx_api_get opts (nsx_ipsec_vpn_session_path tier0 locale service PNone) PNone profile"

definition nsx_ipsec_vpn_get_session :: "pyval \<Rightarrow> pyval \<Rightarrow> pyval \<Rightarrow> pyval \<Rightarrow> pyval \<Rightarrow> profile \<Rightarrow> pyval io" where
  "nsx_ipsec_vpn_get_session opts tier0 locale service session profile =
     nsx_api_get opts (nsx_ipsec_vpn_session_path tier0 locale service session) PNone profile"

definition nsx_ipsec_vpn_get_session_or_none :: "pyval \<Rightarrow> pyval \<Rightarrow> pyval \<Rightarrow> pyval \<Rightarrow> pyval \<Rightarrow> profile \<Rightarrow> pyval io" where
  "nsx_ipsec_vpn_get_session_or_none opts tier0 locale service session profile =
     none_if_missing (nsx_ipsec_vpn_get_session opts tier0 locale service session profile)"

definition nsx_ipsec_vpn_create_session :: "pyval \<Rightarrow> pyval \<Rightarrow> pyval \<Rightarrow> pyval \<Rightarrow> pyval \<Rightarrow> pyval \<Rightarrow> profile \<Rightarrow> dict \<Rightarrow> pyval io" where
  "nsx_ipsec_vpn_create_session opts tier0 locale service session resource_type profile spec =
     nsx_api_put opts (nsx_ipsec_vpn_session_path tier0 locale service session)
       (kind_body resource_type session spec) PNone profile"

definition nsx_ipsec_vpn_delete_session :: "pyval \<Rightarrow> pyval \<Rightarrow> pyval \<Rightarrow> pyval \<Rightarrow> pyval \<Rightarrow> profile \<Rightarrow> pyval io" where
  "nsx_ipsec_vpn_delete_session opts tier0 locale service session profile =
     nsx_api_delete opts (nsx_ipsec_vpn_session_path tier0 locale service session) PNone profile"

subsubsection \<open>\<open>clients/nsx_l2_vpn.py\<close>\<close>

definition nsx_l2_vpn_service_path :: "pyval \<Rightarrow> pyval \<Rightarrow> pyval \<Rightarrow> string" where
  "nsx_l2_vpn_service_path tier0 locale service =
     (let base = ''/policy/api/v1/infra/tier-0s/'' @ py_str tier0 @ ''/locale-services/'' @ py_str locale @ ''/l2vpn-services''
      in if truthy service then base @ ''/'' @ py_str service else base)"

definition nsx_l2_vpn_session_path :: "pyval \<Rightarrow> pyval \<Rightarrow> pyval \<Rightarrow> pyval \<Rightarrow> string" where
  "nsx_l2_vpn_session_path tier0 locale service session =
     (let base = ''/policy/api/v1/infra/tier-0s/'' @ py_str tier0 @ ''/locale-services/'' @ py_str locale @ ''/l2vpn-services/'' @ py_str service @ ''/sessions''
      in if truthy session then base @ ''/'' @ py_str session else base)"

definition nsx_l2_vpn_list_services :: "pyval \<Rightarrow> pyval \<Rightarrow> pyval \<Rightarrow> profile \<Rightarrow> pyval io" where
  "nsx_l2_vpn_list_services opts tier0 locale profile =
     nsx_api_get opts (nsx_l2_vpn_service_path tier0 locale PNone) PNone profile"

definition nsx_l2_vpn_get_service :: "pyval \<Rightarrow> pyval \<Rightarrow> pyval \<Rightarrow> pyval \<Rightarrow> profile \<Rightarrow> pyval io" where
  "nsx_l2_vpn_get_service opts tier0 locale service profile =
     nsx_api_get opts (nsx_l2_vpn_service_path tier0 locale service) PNone profile"

definition nsx_l2_vpn_get_service_or_none :: "pyval \<Rightarrow> pyval \<Rightarrow> pyval \<Rightarrow> pyval \<Rightarrow> profile \<Rightarrow> pyval io" where
  "nsx_l2_vpn_get_service_or_none opts tier0 locale service profile =
     none_if_missing (nsx_l2_vpn_get_service opts tier0 locale service profile)"

definition nsx_l2_vpn_create_service :: "pyval \<Rightarrow> pyval \<Rightarrow> pyval \<Rightarrow> pyval \<Rightarrow> profile \<Rightarrow> dict \<Rightarrow> pyval io" where
  "nsx_l2_vpn_create_service opts tier0 locale service profile spec =
     nsx_api_put opts (nsx_l2_vpn_service_path tier0 locale service)
       (typed_body ''L2VPNService'' service spec) PNone profile"

definition nsx_l2_vpn_delete_service :: "pyval \<Rightarrow> pyval \<Rightarrow> pyval \<Rightarrow> pyval \<Rightarrow> profile \<Rightarrow> pyval io" where
  "nsx_l2_vpn_delete_service opts tier0 locale service profile =
     nsx_api_delete opts (nsx_l2_vpn_service_path tier0 locale service) PNone profile"

definition nsx_l2_vpn_list_sessions :: "pyval \<Rightarrow> pyval \<Rightarrow> pyval \<Rightarrow> pyval \<Rightarrow> profile \<Rightarrow> pyval io" where
  "nsx_l2_vpn_list_sessions opts tier0 locale service profile =
     nsx_api_get opts (nsx_l2_vpn_session_path tier0 locale service PNone) PNone profile"

definition nsx_l2_vpn_get_session :: "pyval \<Rightarrow> pyval \<Rightarrow> pyval \<Rightarrow> pyval \<Rightarrow> pyval \<Rightarrow> profile \<Rightarrow> pyval io" where
  "nsx_l2_vpn_get_session opts tier0 locale service session profile =
     nsx_api_get opts (nsx_l2_vpn_session_path tier0 locale service session) PNone profile"

definition nsx_l2_vpn_get_session_or_none :: "pyval \<Rightarrow> pyval \<Rightarrow> pyval \<Rightarrow> pyval \<Rightarrow> pyval \<Rightarrow> profile \<Rightarrow> pyval io" where
  "nsx_l2_vpn_get_session_or_none opts tier0 locale service session profile =
     none_if_missing (nsx_l2_vpn_get_session opts tier0 locale service session profile)"

definition nsx_l2_vpn_create_session :: "pyval \<Rightarrow> pyval \<Rightarrow> pyval \<Rightarrow> pyval \<Rightarrow> pyval \<Rightarrow> profile \<Rightarrow> dict \<Rightarrow> pyval io" where
  "nsx_l2_vpn_create_session opts tier0 locale service session profile spec =
     nsx_api_put opts (nsx_l2_vpn_session_path tier0 locale service session)
       (typed_body ''L2VPNSession'' session spec) PNone profile"

definition nsx_l2_vpn_delete_session :: "pyval \<Rightarrow> pyval \<Rightarrow> pyval \<Rightarrow> pyval \<Rightarrow> pyval \<Rightarrow> profile \<Rightarrow> pyval io" where
  "nsx_l2_vpn_delete_session opts tier0 locale service session profile =
     nsx_api_delete opts (nsx_l2_vpn_session_path tier0 locale service session) PNone profile"

subsection \<open>The upgrade coordinator of NSX\<close>

text \<open>
  The REST calls on the upgrade coordinator of NSX, and the wait for the end of an upgrade.

  One definition per function of the client modules; identifiers and other arguments are
  Python values, keyword arguments (\<open>**spec\<close>) a dict.
\<close>

subsubsection \<open>\<open>clients/nsx_upgrade.py\<close>\<close>

definition nsx_upgrade_BASE :: "string" where
  "nsx_upgrade_BASE = ''/api/v1/upgrade''"

definition nsx_upgrade_STATUS :: "string" where
  "nsx_upgrade_STATUS = nsx_upgrade_BASE @ ''/status-summary''"

definition nsx_upgrade_PLAN :: "string" where
  "nsx_upgrade_PLAN = nsx_upgrade_BASE @ ''/plan''"

definition nsx_upgrade_PLAN_SETTINGS :: "string" where
  "nsx_upgrade_PLAN_SETTINGS = nsx_upgrade_PLAN @ ''/settings''"

definition nsx_upgrade_GROUPS :: "string" where
  "nsx_upgrade_GROUPS = nsx_upgrade_BASE @ ''/upgrade-unit-groups''"

definition nsx_upgrade_UNITS :: "string" where
  "nsx_upgrade_UNITS = nsx_upgrade_BASE @ ''/upgrade-units''"

definition nsx_upgrade_BUNDLES :: "string" where
  "nsx_upgrade_BUNDLES = nsx_upgrade_BASE @ ''/upgrade-bundles''"

definition nsx_upgrade_HISTORY :: "string" where
  "nsx_upgrade_HISTORY = nsx_upgrade_BASE @ ''/history''"

definition nsx_upgrade_TERMINAL_OK :: "string list" where
  "nsx_upgrade_TERMINAL_OK = [''SUCCESS'', ''COMPLETED'']"

definition nsx_upgrade_TERMINAL_BAD :: "string list" where
  "nsx_upgrade_TERMINAL_BAD = [''FAILED'', ''PAUSED_DUE_TO_FAILURE'']"

definition nsx_upgrade_status_summary :: "pyval \<Rightarrow> profile \<Rightarrow> pyval io" where
  "nsx_upgrade_status_summary opts profile = nsx_api_get opts nsx_upgrade_STATUS PNone profile"

definition nsx_upgrade_history :: "pyval \<Rightarrow> profile \<Rightarrow> pyval io" where
  "nsx_upgrade_history opts profile = nsx_api_get opts nsx_upgrade_HISTORY PNone profile"

definition nsx_upgrade_plan_action :: "pyval \<Rightarrow> pyval \<Rightarrow> profile \<Rightarrow> pyval io" where
  "nsx_upgrade_plan_action opts action profile =
     nsx_api_post opts nsx_upgrade_PLAN (PDict []) (PDict [(''action'', action)]) profile"

definition nsx_upgrade_start :: "pyval \<Rightarrow> profile \<Rightarrow> pyval io" where
  "nsx_upgrade_start opts profile = nsx_upgrade_plan_action opts (PStr ''start'') profile"

definition nsx_upgrade_pause :: "pyval \<Rightarrow> profile \<Rightarrow> pyval io" where
  "nsx_upgrade_pause opts profile = nsx_upgrade_plan_action opts (PStr ''pause'') profile"

definition nsx_upgrade_resume :: "pyval \<Rightarrow> profile \<Rightarrow> pyval io" where
  "nsx_upgrade_resume opts profile = nsx_upgrade_plan_action opts (PStr ''resume'') profile"

definition nsx_upgrade_reset :: "pyval \<Rightarrow> profile \<Rightarrow> pyval io" where
  "nsx_upgrade_reset opts profile = nsx_upgrade_plan_action opts (PStr ''reset'') profile"

definition nsx_upgrade_get_plan_settings :: "pyval \<Rightarrow> profile \<Rightarrow> pyval io" where
  "nsx_upgrade_get_plan_settings opts profile = nsx_api_get opts nsx_upgrade_PLAN_SETTINGS PNone profile"

definition nsx_upgrade_update_plan_settings :: "pyval \<Rightarrow> pyval \<Rightarrow> profile \<Rightarrow> pyval io" where
  "nsx_upgrade_update_plan_settings opts settings profile =
     nsx_api_put opts nsx_upgrade_PLAN_SETTINGS settings PNone profile"

definition nsx_upgrade_list_groups :: "pyval \<Rightarrow> profile \<Rightarrow> pyval io" where
  "nsx_upgrade_list_groups opts profile = nsx_api_get opts nsx_upgrade_GROUPS PNone profile"

definition nsx_upgrade_get_group :: "pyval \<Rightarrow> pyval \<Rightarrow> profile \<Rightarrow> pyval io" where
  "nsx_upgrade_get_group opts group_id profile =
     nsx_api_get opts (nsx_upgrade_GROUPS @ ''/'' @ py_str group_id) PNone profile"

definition nsx_upgrade_get_group_or_none :: "pyval \<Rightarrow> pyval \<Rightarrow> profile \<Rightarrow> pyval io" where
  "nsx_upgrade_get_group_or_none opts group_id profile =
     none_if_missing (nsx_upgrade_get_group opts group_id profile)"

definition nsx_upgrade_create_group :: "pyval \<Rightarrow> pyval \<Rightarrow> profile \<Rightarrow> pyval io" where
  "nsx_upgrade_create_group opts group_spec profile =
     nsx_api_post opts nsx_upgrade_GROUPS group_spec PNone profile"

definition nsx_upgrade_update_group ::
  "pyval \<Rightarrow> pyval \<Rightarrow> pyval \<Rightarrow> profile \<Rightarrow> pyval io" where
  "nsx_upgrade_update_group opts group_id group_spec profile =
     nsx_api_put opts (nsx_upgrade_GROUPS @ ''/'' @ py_str group_id) group_spec PNone profile"

definition nsx_upgrade_delete_group :: "pyval \<Rightarrow> pyval \<Rightarrow> profile \<Rightarrow> pyval io" where
  "nsx_upgrade_delete_group opts group_id profile =
     nsx_api_delete opts (nsx_upgrade_GROUPS @ ''/'' @ py_str group_id) PNone profile"

definition nsx_upgrade_list_units :: "pyval \<Rightarrow> pyval \<Rightarrow> profile \<Rightarrow> pyval io" where
  "nsx_upgrade_list_units opts group_id profile =
     (let params = (if truthy group_id then PDict [(''upgrade_unit_group_id'', group_id)] else PNone) in
     nsx_api_get opts nsx_upgrade_UNITS params profile)"

definition nsx_upgrade_get_unit :: "pyval \<Rightarrow> pyval \<Rightarrow> profile \<Rightarrow> pyval io" where
  "nsx_upgrade_get_unit opts unit_id profile =
     nsx_api_get opts (nsx_upgrade_UNITS @ ''/'' @ py_str unit_id) PNone profile"

definition nsx_upgrade_get_unit_or_none :: "pyval \<Rightarrow> pyval \<Rightarrow> profile \<Rightarrow> pyval io" where
  "nsx_upgrade_get_unit_or_none opts unit_id profile =
     none_if_missing (nsx_upgrade_get_unit opts unit_id profile)"

definition nsx_upgrade_list_bundles :: "pyval \<Rightarrow> profile \<Rightarrow> pyval io" where
  "nsx_upgrade_list_bundles opts profile = nsx_api_get opts nsx_upgrade_BUNDLES PNone profile"

definition nsx_upgrade_get_bundle :: "pyval \<Rightarrow> pyval \<Rightarrow> profile \<Rightarrow> pyval io" where
  "nsx_upgrade_get_bundle opts bundle_id profile =
     nsx_api_get opts (nsx_upgrade_BUNDLES @ ''/'' @ py_str bundle_id) PNone profile"

definition nsx_upgrade_get_bundle_or_none :: "pyval \<Rightarrow> pyval \<Rightarrow> profile \<Rightarrow> pyval io" where
  "nsx_upgrade_get_bundle_or_none opts bundle_id profile =
     none_if_missing (nsx_upgrade_get_bundle opts bundle_id profile)"

definition nsx_upgrade_wait_for_completion :: "pyval \<Rightarrow> int \<Rightarrow> int \<Rightarrow> profile \<Rightarrow> pyval io" where
  "nsx_upgrade_wait_for_completion opts timeout poll_interval profile =
     poll_past (nsx_upgrade_status_summary opts profile)
       (upgrade_ended ''overall_upgrade_status'' nsx_upgrade_TERMINAL_OK nsx_upgrade_TERMINAL_BAD ''NSX upgrade'')
       (upgrade_still ''overall_upgrade_status'' ''NSX upgrade'' timeout) timeout poll_interval"

end
