(* ===== verification/Sddc_Clients.thy ===== *)
theory Sddc_Clients
  imports Sddc Rest_Client
begin

section \<open>Sddc_Clients: the clients of SDDC Manager\<close>

text \<open>
  The clients \<open>clients/sddc_*.py\<close> over REST, and \<open>fleet_password.py\<close>.
\<close>

subsection \<open>The SDDC Manager inventory clients\<close>

text \<open>
  The REST calls of the SDDC Manager on hosts, clusters, domains, edge clusters, networks and credentials.

  One definition per function of the client modules; identifiers and other arguments are
  Python values, keyword arguments (\<open>**spec\<close>) a dict.
\<close>

subsubsection \<open>\<open>clients/sddc_host.py\<close>\<close>

definition sddc_host_PATH :: "string" where
  "sddc_host_PATH = ''/v1/hosts''"

definition sddc_host_list :: "pyval \<Rightarrow> profile \<Rightarrow> pyval io" where
  "sddc_host_list opts profile = sddc_api_get opts sddc_host_PATH PNone profile"

definition sddc_host_get :: "pyval \<Rightarrow> pyval \<Rightarrow> profile \<Rightarrow> pyval io" where
  "sddc_host_get opts host profile = sddc_api_get opts (sddc_host_PATH @ ''/'' @ py_str host) PNone
    profile"

definition sddc_host_get_or_none :: "pyval \<Rightarrow> pyval \<Rightarrow> profile \<Rightarrow> pyval io" where
  "sddc_host_get_or_none opts host profile = none_if_missing (sddc_host_get opts host profile)"

definition sddc_host_commission :: "pyval \<Rightarrow> pyval \<Rightarrow> profile \<Rightarrow> pyval io" where
  "sddc_host_commission opts host_specs profile = sddc_api_post opts sddc_host_PATH host_specs profile"

definition sddc_host_decommission :: "pyval \<Rightarrow> pyval \<Rightarrow> profile \<Rightarrow> pyval io" where
  "sddc_host_decommission opts host profile =
     sddc_api_delete opts (sddc_host_PATH @ ''/'' @ py_str host) profile"

subsubsection \<open>\<open>clients/sddc_cluster.py\<close>\<close>

definition sddc_cluster_PATH :: "string" where
  "sddc_cluster_PATH = ''/v1/clusters''"

definition sddc_cluster_list :: "pyval \<Rightarrow> profile \<Rightarrow> pyval io" where
  "sddc_cluster_list opts profile = sddc_api_get opts sddc_cluster_PATH PNone profile"

definition sddc_cluster_get :: "pyval \<Rightarrow> pyval \<Rightarrow> profile \<Rightarrow> pyval io" where
  "sddc_cluster_get opts cluster profile =
     sddc_api_get opts (sddc_cluster_PATH @ ''/'' @ py_str cluster) PNone profile"

definition sddc_cluster_get_or_none :: "pyval \<Rightarrow> pyval \<Rightarrow> profile \<Rightarrow> pyval io" where
  "sddc_cluster_get_or_none opts cluster profile = none_if_missing (sddc_cluster_get opts cluster
    profile)"

definition sddc_cluster_create :: "pyval \<Rightarrow> pyval \<Rightarrow> profile \<Rightarrow> pyval io" where
  "sddc_cluster_create opts cluster_spec profile = sddc_api_post opts sddc_cluster_PATH cluster_spec
    profile"

definition sddc_cluster_delete :: "pyval \<Rightarrow> pyval \<Rightarrow> profile \<Rightarrow> pyval io" where
  "sddc_cluster_delete opts cluster profile =
     sddc_api_delete opts (sddc_cluster_PATH @ ''/'' @ py_str cluster) profile"

subsubsection \<open>\<open>clients/sddc_cluster_ops.py\<close>\<close>

definition sddc_cluster_ops_PATH :: "string" where
  "sddc_cluster_ops_PATH = ''/v1/clusters''"

definition sddc_cluster_ops_validate :: "pyval \<Rightarrow> pyval \<Rightarrow> profile \<Rightarrow> pyval io" where
  "sddc_cluster_ops_validate opts spec profile =
     sddc_api_post opts (sddc_cluster_ops_PATH @ ''/validations'') spec profile"

definition sddc_cluster_ops_create :: "pyval \<Rightarrow> pyval \<Rightarrow> profile \<Rightarrow> pyval io" where
  "sddc_cluster_ops_create opts spec profile = sddc_api_post opts sddc_cluster_ops_PATH spec profile"

definition sddc_cluster_ops_update ::
  "pyval \<Rightarrow> pyval \<Rightarrow> pyval \<Rightarrow> profile \<Rightarrow> pyval io" where
  "sddc_cluster_ops_update opts cluster_id spec profile =
     sddc_api_patch opts (sddc_cluster_ops_PATH @ ''/'' @ py_str cluster_id) spec profile"

definition sddc_cluster_ops_delete :: "pyval \<Rightarrow> pyval \<Rightarrow> profile \<Rightarrow> pyval io" where
  "sddc_cluster_ops_delete opts cluster_id profile =
     sddc_api_delete opts (sddc_cluster_ops_PATH @ ''/'' @ py_str cluster_id) profile"

definition sddc_cluster_ops_expand ::
  "pyval \<Rightarrow> pyval \<Rightarrow> pyval \<Rightarrow> profile \<Rightarrow> pyval io" where
  "sddc_cluster_ops_expand opts cluster_id host_specs profile =
     bindM (liftR (py_iter host_specs)) (\<lambda>items.
     let spec = [(''clusterExpansionSpec'', PDict [(''hostSpecs'', PList items)])] in
     sddc_cluster_ops_update opts cluster_id (PDict spec) profile)"

definition sddc_cluster_ops_shrink ::
  "pyval \<Rightarrow> pyval \<Rightarrow> pyval \<Rightarrow> pyval \<Rightarrow> profile \<Rightarrow> pyval io" where
  "sddc_cluster_ops_shrink opts cluster_id host_ids force profile =
     bindM (liftR (py_iter host_ids)) (\<lambda>items.
     let spec = [(''clusterCompactionSpec'', PDict [(''hosts'', PList (map (\<lambda>h. PDict [(''id'', h)])
       items)), (''force'', PBool (truthy force))])] in
     sddc_cluster_ops_update opts cluster_id (PDict spec) profile)"

definition sddc_cluster_ops_mark_for_deletion :: "pyval \<Rightarrow> pyval \<Rightarrow> profile \<Rightarrow> pyval io" where
  "sddc_cluster_ops_mark_for_deletion opts cluster_id profile =
     sddc_cluster_ops_update opts cluster_id (PDict [(''markForDeletion'', PBool True)]) profile"

subsubsection \<open>\<open>clients/sddc_domain.py\<close>\<close>

definition sddc_domain_PATH :: "string" where
  "sddc_domain_PATH = ''/v1/domains''"

definition sddc_domain_list :: "pyval \<Rightarrow> profile \<Rightarrow> pyval io" where
  "sddc_domain_list opts profile = sddc_api_get opts sddc_domain_PATH PNone profile"

definition sddc_domain_get :: "pyval \<Rightarrow> pyval \<Rightarrow> profile \<Rightarrow> pyval io" where
  "sddc_domain_get opts domain_id profile =
     sddc_api_get opts (sddc_domain_PATH @ ''/'' @ py_str domain_id) PNone profile"

definition sddc_domain_get_or_none :: "pyval \<Rightarrow> pyval \<Rightarrow> profile \<Rightarrow> pyval io" where
  "sddc_domain_get_or_none opts domain_id profile = none_if_missing (sddc_domain_get opts domain_id
    profile)"

definition sddc_domain_get_by_name :: "pyval \<Rightarrow> pyval \<Rightarrow> profile \<Rightarrow> pyval io" where
  "sddc_domain_get_by_name opts name profile =
     bindM (sddc_domain_list opts profile) (\<lambda>body.
     liftR (bindR (listed ''elements'' body) (find_by ''name'' name)))"

definition sddc_domain_validate :: "pyval \<Rightarrow> pyval \<Rightarrow> profile \<Rightarrow> pyval io" where
  "sddc_domain_validate opts spec profile =
     sddc_api_post opts (sddc_domain_PATH @ ''/validations'') spec profile"

definition sddc_domain_create :: "pyval \<Rightarrow> pyval \<Rightarrow> profile \<Rightarrow> pyval io" where
  "sddc_domain_create opts spec profile = sddc_api_post opts sddc_domain_PATH spec profile"

definition sddc_domain_update ::
  "pyval \<Rightarrow> pyval \<Rightarrow> pyval \<Rightarrow> profile \<Rightarrow> pyval io" where
  "sddc_domain_update opts domain_id spec profile =
     sddc_api_patch opts (sddc_domain_PATH @ ''/'' @ py_str domain_id) spec profile"

definition sddc_domain_delete :: "pyval \<Rightarrow> pyval \<Rightarrow> profile \<Rightarrow> pyval io" where
  "sddc_domain_delete opts domain_id profile =
     sddc_api_delete opts (sddc_domain_PATH @ ''/'' @ py_str domain_id) profile"

definition sddc_domain_mark_for_deletion :: "pyval \<Rightarrow> pyval \<Rightarrow> profile \<Rightarrow> pyval io" where
  "sddc_domain_mark_for_deletion opts domain_id profile =
     (let spec = [(''markForDeletion'', PBool True)] in
     sddc_api_patch opts (sddc_domain_PATH @ ''/'' @ py_str domain_id) (PDict spec) profile)"

definition sddc_domain_list_endpoints :: "pyval \<Rightarrow> pyval \<Rightarrow> profile \<Rightarrow> pyval io" where
  "sddc_domain_list_endpoints opts domain_id profile =
     sddc_api_get opts (sddc_domain_PATH @ ''/'' @ py_str domain_id @ ''/endpoints'') PNone profile"

subsubsection \<open>\<open>clients/sddc_edge_clusters.py\<close>\<close>

definition sddc_edge_clusters_PATH :: "string" where
  "sddc_edge_clusters_PATH = ''/v1/edge-clusters''"

definition sddc_edge_clusters_list :: "pyval \<Rightarrow> profile \<Rightarrow> pyval io" where
  "sddc_edge_clusters_list opts profile = sddc_api_get opts sddc_edge_clusters_PATH PNone profile"

definition sddc_edge_clusters_get :: "pyval \<Rightarrow> pyval \<Rightarrow> profile \<Rightarrow> pyval io" where
  "sddc_edge_clusters_get opts cluster_id profile =
     sddc_api_get opts (sddc_edge_clusters_PATH @ ''/'' @ py_str cluster_id) PNone profile"

definition sddc_edge_clusters_get_or_none :: "pyval \<Rightarrow> pyval \<Rightarrow> profile \<Rightarrow> pyval io" where
  "sddc_edge_clusters_get_or_none opts cluster_id profile =
     none_if_missing (sddc_edge_clusters_get opts cluster_id profile)"

definition sddc_edge_clusters_validate :: "pyval \<Rightarrow> pyval \<Rightarrow> profile \<Rightarrow> pyval io" where
  "sddc_edge_clusters_validate opts spec profile =
     sddc_api_post opts ''/v1/edge-cluster-validations'' spec profile"

definition sddc_edge_clusters_create :: "pyval \<Rightarrow> pyval \<Rightarrow> profile \<Rightarrow> pyval io" where
  "sddc_edge_clusters_create opts spec profile = sddc_api_post opts sddc_edge_clusters_PATH spec profile"

definition sddc_edge_clusters_expand ::
  "pyval \<Rightarrow> pyval \<Rightarrow> pyval \<Rightarrow> profile \<Rightarrow> pyval io" where
  "sddc_edge_clusters_expand opts cluster_id spec profile =
     sddc_api_patch opts (sddc_edge_clusters_PATH @ ''/'' @ py_str cluster_id) spec profile"

definition sddc_edge_clusters_delete :: "pyval \<Rightarrow> pyval \<Rightarrow> profile \<Rightarrow> pyval io" where
  "sddc_edge_clusters_delete opts cluster_id profile =
     sddc_api_delete opts (sddc_edge_clusters_PATH @ ''/'' @ py_str cluster_id) profile"

subsubsection \<open>\<open>clients/sddc_network_pools.py\<close>\<close>

definition sddc_network_pools_PATH :: "string" where
  "sddc_network_pools_PATH = ''/v1/network-pools''"

definition sddc_network_pools_list :: "pyval \<Rightarrow> profile \<Rightarrow> pyval io" where
  "sddc_network_pools_list opts profile = sddc_api_get opts sddc_network_pools_PATH PNone profile"

definition sddc_network_pools_get :: "pyval \<Rightarrow> pyval \<Rightarrow> profile \<Rightarrow> pyval io" where
  "sddc_network_pools_get opts pool_id profile =
     sddc_api_get opts (sddc_network_pools_PATH @ ''/'' @ py_str pool_id) PNone profile"

definition sddc_network_pools_get_or_none :: "pyval \<Rightarrow> pyval \<Rightarrow> profile \<Rightarrow> pyval io" where
  "sddc_network_pools_get_or_none opts pool_id profile =
     none_if_missing (sddc_network_pools_get opts pool_id profile)"

definition sddc_network_pools_create :: "pyval \<Rightarrow> pyval \<Rightarrow> profile \<Rightarrow> pyval io" where
  "sddc_network_pools_create opts network_pool_spec profile =
     sddc_api_post opts sddc_network_pools_PATH network_pool_spec profile"

definition sddc_network_pools_delete :: "pyval \<Rightarrow> pyval \<Rightarrow> profile \<Rightarrow> pyval io" where
  "sddc_network_pools_delete opts pool_id profile =
     sddc_api_delete opts (sddc_network_pools_PATH @ ''/'' @ py_str pool_id) profile"

subsubsection \<open>\<open>clients/sddc_avn.py\<close>\<close>

definition sddc_avn_PATH :: "string" where
  "sddc_avn_PATH = ''/v1/avns''"

definition sddc_avn_list :: "pyval \<Rightarrow> profile \<Rightarrow> pyval io" where
  "sddc_avn_list opts profile = sddc_api_get opts sddc_avn_PATH PNone profile"

definition sddc_avn_get :: "pyval \<Rightarrow> pyval \<Rightarrow> profile \<Rightarrow> pyval io" where
  "sddc_avn_get opts avn_id profile = sddc_api_get opts (sddc_avn_PATH @ ''/'' @ py_str avn_id) PNone
    profile"

definition sddc_avn_get_or_none :: "pyval \<Rightarrow> pyval \<Rightarrow> profile \<Rightarrow> pyval io" where
  "sddc_avn_get_or_none opts avn_id profile = none_if_missing (sddc_avn_get opts avn_id profile)"

definition sddc_avn_validate :: "pyval \<Rightarrow> pyval \<Rightarrow> profile \<Rightarrow> pyval io" where
  "sddc_avn_validate opts spec profile = sddc_api_post opts ''/v1/avn-validations'' spec profile"

definition sddc_avn_create :: "pyval \<Rightarrow> pyval \<Rightarrow> profile \<Rightarrow> pyval io" where
  "sddc_avn_create opts spec profile = sddc_api_post opts sddc_avn_PATH spec profile"

subsubsection \<open>\<open>clients/sddc_vcenters.py\<close>\<close>

definition sddc_vcenters_PATH :: "string" where
  "sddc_vcenters_PATH = ''/v1/vcenters''"

definition sddc_vcenters_list :: "pyval \<Rightarrow> profile \<Rightarrow> pyval io" where
  "sddc_vcenters_list opts profile = sddc_api_get opts sddc_vcenters_PATH PNone profile"

definition sddc_vcenters_get :: "pyval \<Rightarrow> pyval \<Rightarrow> profile \<Rightarrow> pyval io" where
  "sddc_vcenters_get opts vcenter_id profile =
     sddc_api_get opts (sddc_vcenters_PATH @ ''/'' @ py_str vcenter_id) PNone profile"

definition sddc_vcenters_get_or_none :: "pyval \<Rightarrow> pyval \<Rightarrow> profile \<Rightarrow> pyval io" where
  "sddc_vcenters_get_or_none opts vcenter_id profile =
     none_if_missing (sddc_vcenters_get opts vcenter_id profile)"

subsubsection \<open>\<open>clients/sddc_credentials.py\<close>\<close>

definition sddc_credentials_PATH :: "string" where
  "sddc_credentials_PATH = ''/v1/credentials''"

definition sddc_credentials_list :: "pyval \<Rightarrow> profile \<Rightarrow> pyval io" where
  "sddc_credentials_list opts profile = sddc_api_get opts sddc_credentials_PATH PNone profile"

definition sddc_credentials_rotate :: "pyval \<Rightarrow> pyval \<Rightarrow> profile \<Rightarrow> pyval io" where
  "sddc_credentials_rotate opts elements profile =
     (let body = [(''operationType'', PStr ''ROTATE''), (''elements'', elements)] in
     sddc_api_patch opts sddc_credentials_PATH (PDict body) profile)"

subsection \<open>The SDDC Manager lifecycle clients\<close>

text \<open>
  The REST calls of the SDDC Manager on bundles, certificates, licenses, images, releases, upgrades, users and services.

  One definition per function of the client modules; identifiers and other arguments are
  Python values, keyword arguments (\<open>**spec\<close>) a dict.
\<close>

subsubsection \<open>\<open>clients/sddc_bundles.py\<close>\<close>

definition sddc_bundles_PATH :: "string" where
  "sddc_bundles_PATH = ''/v1/bundles''"

definition sddc_bundles_list :: "pyval \<Rightarrow> profile \<Rightarrow> pyval io" where
  "sddc_bundles_list opts profile = sddc_api_get opts sddc_bundles_PATH PNone profile"

definition sddc_bundles_get :: "pyval \<Rightarrow> pyval \<Rightarrow> profile \<Rightarrow> pyval io" where
  "sddc_bundles_get opts bundle_id profile =
     sddc_api_get opts (sddc_bundles_PATH @ ''/'' @ py_str bundle_id) PNone profile"

definition sddc_bundles_get_or_none :: "pyval \<Rightarrow> pyval \<Rightarrow> profile \<Rightarrow> pyval io" where
  "sddc_bundles_get_or_none opts bundle_id profile = none_if_missing (sddc_bundles_get opts bundle_id
    profile)"

definition sddc_bundles_download :: "pyval \<Rightarrow> pyval \<Rightarrow> profile \<Rightarrow> pyval io" where
  "sddc_bundles_download opts bundle_id profile =
     sddc_api_patch opts (sddc_bundles_PATH @ ''/'' @ py_str bundle_id)
       (PDict [(''bundleDownloadSpec'', PDict [(''downloadNow'', PBool True)])]) profile"

definition sddc_bundles_upload ::
  "pyval \<Rightarrow> pyval \<Rightarrow> pyval \<Rightarrow> pyval \<Rightarrow> profile \<Rightarrow> pyval io" where
  "sddc_bundles_upload opts bundle_file_path manifest_file_path signature_file_path profile =
     (let body = [(''bundleUploadSpec'', PDict [(''bundleFilePath'', bundle_file_path), (''manifestFilePath'',
       manifest_file_path), (''signatureFilePath'', signature_file_path)])] in
     sddc_api_post opts sddc_bundles_PATH (PDict body) profile)"

definition sddc_bundles_delete :: "pyval \<Rightarrow> pyval \<Rightarrow> profile \<Rightarrow> pyval io" where
  "sddc_bundles_delete opts bundle_id profile =
     sddc_api_delete opts (sddc_bundles_PATH @ ''/'' @ py_str bundle_id) profile"

definition sddc_bundles_for_skip_upgrade :: "pyval \<Rightarrow> pyval \<Rightarrow> profile \<Rightarrow> pyval io" where
  "sddc_bundles_for_skip_upgrade opts domain_id profile =
     sddc_api_get opts (sddc_bundles_PATH @ ''/domains/'' @ py_str domain_id) PNone profile"

subsubsection \<open>\<open>clients/sddc_certificates.py\<close>\<close>

definition sddc_certificates_base :: "pyval \<Rightarrow> string" where
  "sddc_certificates_base domain_id = ''/v1/domains/'' @ py_str domain_id"

definition sddc_certificates_list :: "pyval \<Rightarrow> pyval \<Rightarrow> profile \<Rightarrow> pyval io" where
  "sddc_certificates_list opts domain_id profile =
     sddc_api_get opts ((sddc_certificates_base domain_id) @ ''/certificates'') PNone profile"

definition sddc_certificates_list_csrs :: "pyval \<Rightarrow> pyval \<Rightarrow> profile \<Rightarrow> pyval io" where
  "sddc_certificates_list_csrs opts domain_id profile =
     sddc_api_get opts ((sddc_certificates_base domain_id) @ ''/csrs'') PNone profile"

definition sddc_certificates_create_csrs ::
  "pyval \<Rightarrow> pyval \<Rightarrow> pyval \<Rightarrow> pyval \<Rightarrow> profile \<Rightarrow> pyval io" where
  "sddc_certificates_create_csrs opts domain_id csr_generation_spec resources profile =
     (let body = [(''csrGenerationSpec'', csr_generation_spec), (''resources'', resources)] in
     sddc_api_put opts ((sddc_certificates_base domain_id) @ ''/csrs'') (PDict body) profile)"

definition sddc_certificates_install_certificates ::
  "pyval \<Rightarrow> pyval \<Rightarrow> pyval \<Rightarrow> profile \<Rightarrow> pyval io" where
  "sddc_certificates_install_certificates opts domain_id cert_specs profile =
     sddc_api_patch opts ((sddc_certificates_base domain_id) @ ''/certificates'') cert_specs profile"

definition sddc_certificates_get_or_none :: "pyval \<Rightarrow> pyval \<Rightarrow> profile \<Rightarrow> pyval io" where
  "sddc_certificates_get_or_none opts domain_id profile =
     none_if_missing (sddc_certificates_list opts domain_id profile)"

subsubsection \<open>\<open>clients/sddc_license_keys.py\<close>\<close>

definition sddc_license_keys_PATH :: "string" where
  "sddc_license_keys_PATH = ''/v1/license-keys''"

definition sddc_license_keys_list :: "pyval \<Rightarrow> profile \<Rightarrow> pyval io" where
  "sddc_license_keys_list opts profile = sddc_api_get opts sddc_license_keys_PATH PNone profile"

definition sddc_license_keys_get :: "pyval \<Rightarrow> pyval \<Rightarrow> profile \<Rightarrow> pyval io" where
  "sddc_license_keys_get opts license_key profile =
     sddc_api_get opts (sddc_license_keys_PATH @ ''/'' @ py_str license_key) PNone profile"

definition sddc_license_keys_get_or_none :: "pyval \<Rightarrow> pyval \<Rightarrow> profile \<Rightarrow> pyval io" where
  "sddc_license_keys_get_or_none opts license_key profile =
     none_if_missing (sddc_license_keys_get opts license_key profile)"

definition sddc_license_keys_add ::
  "pyval \<Rightarrow> pyval \<Rightarrow> pyval \<Rightarrow> pyval \<Rightarrow> profile \<Rightarrow> pyval io" where
  "sddc_license_keys_add opts key product_type description profile =
     (let spec = [(''key'', key), (''productType'', product_type), (''description'', description)] in
     sddc_api_post opts sddc_license_keys_PATH (PDict spec) profile)"

definition sddc_license_keys_delete :: "pyval \<Rightarrow> pyval \<Rightarrow> profile \<Rightarrow> pyval io" where
  "sddc_license_keys_delete opts license_key profile =
     sddc_api_delete opts (sddc_license_keys_PATH @ ''/'' @ py_str license_key) profile"

definition sddc_license_keys_licensing_info :: "pyval \<Rightarrow> profile \<Rightarrow> pyval io" where
  "sddc_license_keys_licensing_info opts profile = sddc_api_get opts ''/v1/licensing-info'' PNone profile"

subsubsection \<open>\<open>clients/sddc_personalities.py\<close>\<close>

definition sddc_personalities_PATH :: "string" where
  "sddc_personalities_PATH = ''/v1/personalities''"

definition sddc_personalities_list ::
  "pyval \<Rightarrow> pyval \<Rightarrow> pyval \<Rightarrow> profile \<Rightarrow> pyval io" where
  "sddc_personalities_list opts personality_name cluster_id profile =
     (let params = [] :: dict in
     let params = (if personality_name \<noteq> PNone then dset params ''personalityName'' personality_name else
       params) in
     let params = (if cluster_id \<noteq> PNone then dset params ''clusterId'' cluster_id else params) in
     sddc_api_get opts sddc_personalities_PATH (if params = [] then PNone else PDict params) profile)"

definition sddc_personalities_get :: "pyval \<Rightarrow> pyval \<Rightarrow> profile \<Rightarrow> pyval io" where
  "sddc_personalities_get opts personality_id profile =
     sddc_api_get opts (sddc_personalities_PATH @ ''/'' @ py_str personality_id) PNone profile"

definition sddc_personalities_get_or_none :: "pyval \<Rightarrow> pyval \<Rightarrow> profile \<Rightarrow> pyval io" where
  "sddc_personalities_get_or_none opts personality_id profile =
     none_if_missing (sddc_personalities_get opts personality_id profile)"

definition sddc_personalities_create :: "pyval \<Rightarrow> pyval \<Rightarrow> profile \<Rightarrow> pyval io" where
  "sddc_personalities_create opts personality_spec profile =
     sddc_api_post opts sddc_personalities_PATH personality_spec profile"

definition sddc_personalities_delete :: "pyval \<Rightarrow> pyval \<Rightarrow> profile \<Rightarrow> pyval io" where
  "sddc_personalities_delete opts personality_id profile =
     sddc_api_delete opts (sddc_personalities_PATH @ ''/'' @ py_str personality_id) profile"

definition sddc_personalities_rename ::
  "pyval \<Rightarrow> pyval \<Rightarrow> pyval \<Rightarrow> profile \<Rightarrow> pyval io" where
  "sddc_personalities_rename opts personality_id personality_name profile =
     sddc_api_patch opts (sddc_personalities_PATH @ ''/'' @ py_str personality_id)
       (PDict [(''personalityName'', personality_name)]) profile"

definition sddc_personalities_upload_files :: "pyval \<Rightarrow> pyval \<Rightarrow> profile \<Rightarrow> pyval io" where
  "sddc_personalities_upload_files opts upload_spec profile =
     sddc_api_put opts (sddc_personalities_PATH @ ''/files'') upload_spec profile"

subsubsection \<open>\<open>clients/sddc_releases.py\<close>\<close>

definition sddc_releases_PATH :: "string" where
  "sddc_releases_PATH = ''/v1/releases''"

definition sddc_releases_list :: "pyval \<Rightarrow> profile \<Rightarrow> pyval io" where
  "sddc_releases_list opts profile = sddc_api_get opts sddc_releases_PATH PNone profile"

definition sddc_releases_domain :: "pyval \<Rightarrow> pyval \<Rightarrow> profile \<Rightarrow> pyval io" where
  "sddc_releases_domain opts domain_id profile =
     sddc_api_get opts sddc_releases_PATH (PDict [(''domainId'', domain_id)]) profile"

definition sddc_releases_system :: "pyval \<Rightarrow> profile \<Rightarrow> pyval io" where
  "sddc_releases_system opts profile = sddc_api_get opts ''/v1/system/release'' PNone profile"

definition sddc_releases_custom_patches :: "pyval \<Rightarrow> pyval \<Rightarrow> profile \<Rightarrow> pyval io" where
  "sddc_releases_custom_patches opts domain_id profile =
     sddc_api_get opts (sddc_releases_PATH @ ''/domains/'' @ py_str domain_id @ ''/custom-patches'')
       PNone profile"

subsubsection \<open>\<open>clients/sddc_system.py\<close>\<close>

definition sddc_system_get_system :: "pyval \<Rightarrow> profile \<Rightarrow> pyval io" where
  "sddc_system_get_system opts profile = sddc_api_get opts ''/v1/system'' PNone profile"

definition sddc_system_list_personalities :: "pyval \<Rightarrow> profile \<Rightarrow> pyval io" where
  "sddc_system_list_personalities opts profile = sddc_api_get opts ''/v1/personalities'' PNone profile"

definition sddc_system_get_personality :: "pyval \<Rightarrow> pyval \<Rightarrow> profile \<Rightarrow> pyval io" where
  "sddc_system_get_personality opts personality_id profile =
     sddc_api_get opts (''/v1/personalities/'' @ py_str personality_id) PNone profile"

definition sddc_system_get_personality_or_none :: "pyval \<Rightarrow> pyval \<Rightarrow> profile \<Rightarrow> pyval io" where
  "sddc_system_get_personality_or_none opts personality_id profile =
     none_if_missing (sddc_system_get_personality opts personality_id profile)"

subsubsection \<open>\<open>clients/sddc_upgrades.py\<close>\<close>

definition sddc_upgrades_PATH :: "string" where
  "sddc_upgrades_PATH = ''/v1/upgrades''"

definition sddc_upgrades_list :: "pyval \<Rightarrow> profile \<Rightarrow> pyval io" where
  "sddc_upgrades_list opts profile = sddc_api_get opts sddc_upgrades_PATH PNone profile"

definition sddc_upgrades_get :: "pyval \<Rightarrow> pyval \<Rightarrow> profile \<Rightarrow> pyval io" where
  "sddc_upgrades_get opts upgrade_id profile =
     sddc_api_get opts (sddc_upgrades_PATH @ ''/'' @ py_str upgrade_id) PNone profile"

definition sddc_upgrades_get_or_none :: "pyval \<Rightarrow> pyval \<Rightarrow> profile \<Rightarrow> pyval io" where
  "sddc_upgrades_get_or_none opts upgrade_id profile =
     none_if_missing (sddc_upgrades_get opts upgrade_id profile)"

definition sddc_upgrades_start :: "pyval \<Rightarrow> pyval \<Rightarrow> profile \<Rightarrow> pyval io" where
  "sddc_upgrades_start opts upgrade_spec profile = sddc_api_post opts sddc_upgrades_PATH upgrade_spec
    profile"

subsubsection \<open>\<open>clients/sddc_users.py\<close>\<close>

definition sddc_users_USERS :: "string" where
  "sddc_users_USERS = ''/v1/users''"

definition sddc_users_ROLES :: "string" where
  "sddc_users_ROLES = ''/v1/roles''"

definition sddc_users_list_users :: "pyval \<Rightarrow> profile \<Rightarrow> pyval io" where
  "sddc_users_list_users opts profile = sddc_api_get opts sddc_users_USERS PNone profile"

definition sddc_users_list_roles :: "pyval \<Rightarrow> profile \<Rightarrow> pyval io" where
  "sddc_users_list_roles opts profile = sddc_api_get opts sddc_users_ROLES PNone profile"

definition sddc_users_get_user :: "pyval \<Rightarrow> pyval \<Rightarrow> profile \<Rightarrow> pyval io" where
  "sddc_users_get_user opts user_id profile =
     sddc_api_get opts (sddc_users_USERS @ ''/'' @ py_str user_id) PNone profile"

definition sddc_users_get_user_or_none :: "pyval \<Rightarrow> pyval \<Rightarrow> profile \<Rightarrow> pyval io" where
  "sddc_users_get_user_or_none opts user_id profile =
     none_if_missing (sddc_users_get_user opts user_id profile)"

definition sddc_users_add_users :: "pyval \<Rightarrow> pyval \<Rightarrow> profile \<Rightarrow> pyval io" where
  "sddc_users_add_users opts users profile =
     bindM (liftR (py_iter users)) (\<lambda>items.
     sddc_api_post opts sddc_users_USERS (PList items) profile)"

definition sddc_users_delete_user :: "pyval \<Rightarrow> pyval \<Rightarrow> profile \<Rightarrow> pyval io" where
  "sddc_users_delete_user opts user_id profile =
     sddc_api_delete opts (sddc_users_USERS @ ''/'' @ py_str user_id) profile"

subsubsection \<open>\<open>clients/sddc_manager.py\<close>\<close>

definition sddc_manager_get :: "pyval \<Rightarrow> profile \<Rightarrow> pyval io" where
  "sddc_manager_get opts profile = sddc_api_get opts ''/v1/sddc-manager'' PNone profile"

definition sddc_manager_get_or_none :: "pyval \<Rightarrow> profile \<Rightarrow> pyval io" where
  "sddc_manager_get_or_none opts profile =
     tryM (sddc_manager_get opts profile)
       (\<lambda>exc. if http_status_is exc 404 \<or> http_status_is exc 503 then pureM PNone else raiseM exc)"

subsubsection \<open>\<open>clients/sddc_vcf_services.py\<close>\<close>

definition sddc_vcf_services_PATH :: "string" where
  "sddc_vcf_services_PATH = ''/v1/vcf-services''"

definition sddc_vcf_services_list :: "pyval \<Rightarrow> profile \<Rightarrow> pyval io" where
  "sddc_vcf_services_list opts profile = sddc_api_get opts sddc_vcf_services_PATH PNone profile"

definition sddc_vcf_services_get :: "pyval \<Rightarrow> pyval \<Rightarrow> profile \<Rightarrow> pyval io" where
  "sddc_vcf_services_get opts service_id profile =
     sddc_api_get opts (sddc_vcf_services_PATH @ ''/'' @ py_str service_id) PNone profile"

definition sddc_vcf_services_get_or_none :: "pyval \<Rightarrow> pyval \<Rightarrow> profile \<Rightarrow> pyval io" where
  "sddc_vcf_services_get_or_none opts service_id profile =
     none_if_missing (sddc_vcf_services_get opts service_id profile)"

definition sddc_vcf_services_get_by_name :: "pyval \<Rightarrow> pyval \<Rightarrow> profile \<Rightarrow> pyval io" where
  "sddc_vcf_services_get_by_name opts name profile =
     bindM (sddc_vcf_services_list opts profile) (\<lambda>body.
     bindM (if is_dict body then liftR (py_get body ''elements'' PNone) else pureM PNone) (\<lambda>elements.
     if \<not> truthy elements then pureM PNone
     else liftR (bindR (py_iter elements) (find_by ''name'' name))))"

subsection \<open>The SDDC Manager task client\<close>

text \<open>
  The asynchronous tasks of the SDDC Manager and the wait for one.

  One definition per function of the client modules; identifiers and other arguments are
  Python values, keyword arguments (\<open>**spec\<close>) a dict.
\<close>

subsubsection \<open>\<open>clients/sddc_tasks.py\<close>\<close>

definition sddc_tasks_PATH :: "string" where
  "sddc_tasks_PATH = ''/v1/tasks''"

definition sddc_tasks_TERMINAL :: "string list" where
  "sddc_tasks_TERMINAL = [''Successful'', ''Failed'', ''Cancelled'']"

definition sddc_tasks_list :: "pyval \<Rightarrow> pyval \<Rightarrow> pyval \<Rightarrow> profile \<Rightarrow> pyval io" where
  "sddc_tasks_list opts page page_size profile =
     sddc_api_get opts sddc_tasks_PATH (PDict [(''page'', page), (''pageSize'', page_size)]) profile"

definition sddc_tasks_get :: "pyval \<Rightarrow> pyval \<Rightarrow> profile \<Rightarrow> pyval io" where
  "sddc_tasks_get opts task_id profile =
     sddc_api_get opts (sddc_tasks_PATH @ ''/'' @ py_str task_id) PNone profile"

definition sddc_tasks_get_or_none :: "pyval \<Rightarrow> pyval \<Rightarrow> profile \<Rightarrow> pyval io" where
  "sddc_tasks_get_or_none opts task_id profile = none_if_missing (sddc_tasks_get opts task_id profile)"

definition sddc_tasks_retry :: "pyval \<Rightarrow> pyval \<Rightarrow> profile \<Rightarrow> pyval io" where
  "sddc_tasks_retry opts task_id profile =
     sddc_api_patch opts (sddc_tasks_PATH @ ''/'' @ py_str task_id) (PDict []) profile"

definition sddc_tasks_cancel :: "pyval \<Rightarrow> pyval \<Rightarrow> profile \<Rightarrow> pyval io" where
  "sddc_tasks_cancel opts task_id profile =
     sddc_api_delete opts (sddc_tasks_PATH @ ''/'' @ py_str task_id) profile"

text \<open>\<open>_error_message\<close>: one entry of \<open>errors\<close>, their \<open>"; ".join\<close>, and the fallbacks.\<close>

definition sddc_tasks_error_entry :: "pyval \<Rightarrow> pyval" where
  "sddc_tasks_error_entry e =
     (case e of
        PDict d \<Rightarrow> py_or (dget d ''message'' PNone) (py_or (dget d ''errorCode'' PNone) (PStr (py_repr e)))
      | _ \<Rightarrow> PStr (py_str e))"

definition sddc_tasks_error_message :: "pyval \<Rightarrow> pyval res" where
  "sddc_tasks_error_message task =
     bindR (py_get task ''errors'' PNone) (\<lambda>errors.
     if truthy errors then
       bindR (py_iter errors) (\<lambda>es. bindR (py_join ''; '' (map sddc_tasks_error_entry es)) (\<lambda>s. Ok (PStr s)))
     else
       bindR (py_get task ''status_message'' PNone) (\<lambda>m.
       bindR (py_get task ''description'' PNone) (\<lambda>d.
       Ok (py_or m (py_or d (PStr []))))))"

text \<open>Whether a task is done; a task that ended otherwise raises.\<close>

definition sddc_tasks_ended :: "pyval \<Rightarrow> pyval \<Rightarrow> bool res" where
  "sddc_tasks_ended task_id task =
     bindR (py_get task ''status'' PNone) (\<lambda>status.
     bindR (in_set status sddc_tasks_TERMINAL) (\<lambda>ended.
     if \<not> ended then Ok False
     else if status \<noteq> PStr ''Successful'' then
       bindR (sddc_tasks_error_message task) (\<lambda>msg.
       Exc (RuntimeError (''task '' @ py_str task_id @ '' ended with status '' @ py_repr status @ '': '' @ py_str msg)))
     else Ok True))"

definition sddc_tasks_still :: "pyval \<Rightarrow> int \<Rightarrow> pyval \<Rightarrow> string" where
  "sddc_tasks_still task_id timeout task =
     ''task '' @ py_str task_id @ '' still '' @
       (case py_get task ''status'' PNone of Ok status \<Rightarrow> py_repr status | Exc _ \<Rightarrow> []) @
       '' after '' @ int_str timeout @ ''s''"

definition sddc_tasks_wait :: "pyval \<Rightarrow> pyval \<Rightarrow> int \<Rightarrow> int \<Rightarrow> profile \<Rightarrow> pyval io" where
  "sddc_tasks_wait opts task_id timeout poll_interval profile =
     poll_for (sddc_tasks_get opts task_id profile) (sddc_tasks_ended task_id) (sddc_tasks_still task_id timeout)
       timeout poll_interval"

subsubsection \<open>The wait\<close>

lemma sddc_tasks_get_rules [spec_intros]:
  "returns (sddc_tasks_get opts task_id p)" "keeps evolves (sddc_tasks_get opts task_id p)"
  by (auto simp: sddc_tasks_get_def intro!: spec_intros)

interpretation taskwait: polling
  "poll_round (sddc_tasks_get opts task_id p) (sddc_tasks_ended task_id) m i dl" "\<lambda>_ w. clock w" dl "secs i"
  for opts task_id p m i dl
  by (rule polling_poll_round) (rule sddc_tasks_get_rules)+

lemma sddc_tasks_ended_True:
  "sddc_tasks_ended task_id task = Ok True \<longleftrightarrow> (\<exists>d. task = PDict d \<and> dget d ''status'' PNone = PStr ''Successful'')"
  by (cases task) (auto simp: sddc_tasks_ended_def sddc_tasks_TERMINAL_def in_set_def in_strs_iff bindR_eq_Ok py_get_def split: if_splits)

lemma sddc_tasks_wait_Ok:
  assumes "sddc_tasks_wait opts task_id t i p w = Some (Ok v, w')"
  shows "\<exists>d w1. v = PDict d \<and> dget d ''status'' PNone = PStr ''Successful'' \<and>
    sddc_tasks_get opts task_id p w1 = Some (Ok v, w')"
  using poll_for_Ok [OF assms [unfolded sddc_tasks_wait_def] sddc_tasks_get_rules(2)]
  by (auto simp: sddc_tasks_ended_True)

lemma sddc_tasks_wait_returns: "0 < i \<Longrightarrow> returns (sddc_tasks_wait opts task_id t i p)"
  unfolding sddc_tasks_wait_def by (rule poll_for_returns [OF sddc_tasks_get_rules])

subsection \<open>Clients/fleet_password.py\<close>

text \<open>
  The credential store of the fleet on the SDDC Manager.

  One definition per function of the client modules; identifiers and other arguments are
  Python values, keyword arguments (\<open>**spec\<close>) a dict.
\<close>

subsubsection \<open>\<open>clients/fleet_password.py\<close>\<close>

definition fleet_password_PATH :: "string" where
  "fleet_password_PATH = ''/v1/credentials''"

definition fleet_password_list_accounts :: "pyval \<Rightarrow> profile \<Rightarrow> pyval io" where
  "fleet_password_list_accounts opts profile = sddc_api_get opts fleet_password_PATH PNone profile"

definition fleet_password_get_account :: "pyval \<Rightarrow> pyval \<Rightarrow> profile \<Rightarrow> pyval io" where
  "fleet_password_get_account opts account_key profile =
     sddc_api_get opts (fleet_password_PATH @ ''/'' @ py_str account_key) PNone profile"

definition fleet_password_get_account_or_none :: "pyval \<Rightarrow> pyval \<Rightarrow> profile \<Rightarrow> pyval io" where
  "fleet_password_get_account_or_none opts account_key profile =
     none_if_missing (fleet_password_get_account opts account_key profile)"

definition fleet_password_get_password :: "pyval \<Rightarrow> pyval \<Rightarrow> profile \<Rightarrow> pyval io" where
  "fleet_password_get_password opts account_key profile =
     sddc_api_get opts (fleet_password_PATH @ ''/'' @ py_str account_key) PNone profile"

definition fleet_password_set_password ::
  "pyval \<Rightarrow> pyval \<Rightarrow> pyval \<Rightarrow> profile \<Rightarrow> pyval io" where
  "fleet_password_set_password opts account_key new_password profile =
     (let body = [(''operationType'', PStr ''UPDATE''), (''elements'', PList [PDict [(''resourceCredentials'', PList
       [PDict [(''credentialId'', account_key), (''password'', new_password)]])]])] in
     sddc_api_post opts (fleet_password_PATH @ ''/operations'') (PDict body) profile)"

definition fleet_password_rotate :: "pyval \<Rightarrow> pyval \<Rightarrow> profile \<Rightarrow> pyval io" where
  "fleet_password_rotate opts account_key profile =
     (let body = [(''operationType'', PStr ''ROTATE''), (''elements'', PList [PDict [(''resourceCredentials'', PList
       [PDict [(''credentialId'', account_key)]])]])] in
     sddc_api_post opts (fleet_password_PATH @ ''/operations'') (PDict body) profile)"

definition fleet_password_history :: "pyval \<Rightarrow> pyval \<Rightarrow> profile \<Rightarrow> pyval io" where
  "fleet_password_history opts account_key profile =
     sddc_api_get opts (fleet_password_PATH @ ''/'' @ py_str account_key @ ''/password-history'')
       PNone profile"

end
