(* ===== verification/Sddc_Appliance.thy ===== *)
theory Sddc_Appliance
  imports Sddc Rest_Client Text_Formats
begin

section \<open>Sddc_Appliance: the SDDC Manager controls over ssh and openssl\<close>

text \<open>
  The local users, the password policy and the TLS listener of the SDDC Manager appliance. What runs
  outside is a parameter: \<open>ssh cfg command\<close> is \<open>ssh_util.run\<close> (the exit code, stdout and stderr of the
  command on the appliance), \<open>openssl args\<close> the decoded stdout of a subprocess, or what they raise.
\<close>

type_synonym ssh_run = "ssh_config \<Rightarrow> string \<Rightarrow> (int \<times> string \<times> string) io"
type_synonym program_run = "string list \<Rightarrow> string io"

text \<open>How both ssh clients report a command that failed.\<close>

definition ssh_failed :: "string \<Rightarrow> ssh_config \<Rightarrow> int \<Rightarrow> string \<Rightarrow> exn" where
  "ssh_failed what cfg rc err =
     RuntimeError (''Failed to '' @ what @ '' on '' @ py_str (ssh_host cfg) @ '': rc='' @ int_str rc @ '' '' @ strip err)"

subsection \<open>\<open>clients/sddc_manager_local_accounts.py\<close>\<close>

definition PASSWD_FILE :: string where "PASSWD_FILE = ''/etc/passwd''"

text \<open>One line: \<open>None\<close> where it is skipped.\<close>

definition passwd_entry :: "string \<Rightarrow> pyval option" where
  "passwd_entry line0 =
     (let line = strip line0 in
      if line = [] \<or> starts_with line ''#'' then None
      else
        (case split_max (CHR '':'') 6 line of
           [username, _, uid_str, gid_str, gecos, home, shell] \<Rightarrow>
             (case (int_of_str uid_str, int_of_str gid_str) of
                (Some uid, Some gid) \<Rightarrow>
                  Some (PDict [(''username'', PStr username), (''uid'', PInt uid), (''gid'', PInt gid),
                    (''gecos'', PStr gecos), (''home'', PStr home), (''shell'', PStr shell)])
              | _ \<Rightarrow> None)
         | _ \<Rightarrow> None))"

definition parse_passwd :: "string \<Rightarrow> pyval list" where
  "parse_passwd content = List.map_filter passwd_entry (splitlines content)"

definition local_accounts_list :: "ssh_run \<Rightarrow> pyval \<Rightarrow> profile \<Rightarrow> pyval io" where
  "local_accounts_list ssh opts profile =
     bindM (liftR (sddc_get_ssh_config opts profile)) (\<lambda>cfg.
     bindM (ssh cfg (''cat '' @ PASSWD_FILE)) (\<lambda>(rc, out, err).
     if rc \<noteq> 0 then raiseM (ssh_failed (''read '' @ PASSWD_FILE) cfg rc err)
     else pureM (PList (parse_passwd out))))"

definition local_accounts_list_or_none :: "ssh_run \<Rightarrow> pyval \<Rightarrow> profile \<Rightarrow> pyval io" where
  "local_accounts_list_or_none ssh opts profile =
     tryM (local_accounts_list ssh opts profile) (\<lambda>_. pureM PNone)"

subsection \<open>\<open>clients/sddc_manager_password_policy.py\<close>\<close>

definition LOCAL_PASSWORD_POLICY_URL :: string where
  "LOCAL_PASSWORD_POLICY_URL = ''http://localhost/appliancemanager/security/password-policy''"

definition API_AGE_FIELD :: string where "API_AGE_FIELD = ''maximumPasswordAge''"

definition SCHEMA_AGE_FIELD :: string where "SCHEMA_AGE_FIELD = ''passwordExpirationDays''"

definition policy_to_policy :: "pyval \<Rightarrow> dict res" where
  "policy_to_policy api =
     bindR (py_dict api) (\<lambda>policy.
     bindR (py_in (PStr API_AGE_FIELD) api) (\<lambda>b.
     if b then bindR (py_get api API_AGE_FIELD PNone) (\<lambda>age. Ok (dset policy SCHEMA_AGE_FIELD age))
     else Ok policy))"

definition policy_to_api_payload :: "dict \<Rightarrow> dict" where
  "policy_to_api_payload body =
     (let payload = filter (\<lambda>(k, v). k \<noteq> SCHEMA_AGE_FIELD) body in
      case map_of body SCHEMA_AGE_FIELD of
        Some age \<Rightarrow> dset payload API_AGE_FIELD age
      | None \<Rightarrow> payload)"

text \<open>\<open>curl\<close> on the appliance: \<open>curl -sf [-X PUT] -H '...' [-d ...] URL\<close>.\<close>

definition json_header :: string where
  "json_header = [CHR 0x27] @ ''Content-Type: application/json'' @ [CHR 0x27]"

definition policy_get_command :: string where
  "policy_get_command = ''curl -sf -H '' @ json_header @ '' '' @ LOCAL_PASSWORD_POLICY_URL"

definition policy_put_command :: "string \<Rightarrow> string" where
  "policy_put_command data =
     ''curl -sf -X PUT -H '' @ json_header @ '' '' @ ''-d '' @ shlex_quote data @ '' '' @ LOCAL_PASSWORD_POLICY_URL"

definition password_policy_get :: "ssh_run \<Rightarrow> pyval \<Rightarrow> profile \<Rightarrow> dict io" where
  "password_policy_get ssh opts profile =
     bindM (liftR (sddc_get_ssh_config opts profile)) (\<lambda>cfg.
     bindM (ssh cfg policy_get_command) (\<lambda>(rc, out, err).
     if rc \<noteq> 0 then raiseM (ssh_failed ''GET password policy'' cfg rc err)
     else liftR (bindR (json_loads out) policy_to_policy)))"

definition password_policy_set :: "ssh_run \<Rightarrow> pyval \<Rightarrow> dict \<Rightarrow> profile \<Rightarrow> dict io" where
  "password_policy_set ssh opts body profile =
     bindM (liftR (sddc_get_ssh_config opts profile)) (\<lambda>cfg.
     let data = json_dumps (PDict (policy_to_api_payload body)) in
     bindM (ssh cfg (policy_put_command data)) (\<lambda>(rc, out, err).
     if rc \<noteq> 0 then raiseM (ssh_failed ''PUT password policy'' cfg rc err)
     else if strip out = [] then pureM []
     else liftR (bindR (json_loads out) policy_to_policy)))"

subsection \<open>\<open>clients/sddc_manager_tls.py\<close>\<close>

definition TLS_FLAGS :: "(string \<times> string) list" where
  "TLS_FLAGS = [(''1.0'', ''-tls1''), (''1.1'', ''-tls1_1''), (''1.2'', ''-tls1_2''), (''1.3'', ''-tls1_3'')]"

definition CIPHER_GCM :: string where "CIPHER_GCM = ''ECDHE-RSA-AES256-GCM-SHA384''"
definition CIPHER_CBC :: string where "CIPHER_CBC = ''AES256-SHA''"
definition ACCEPTED_SIGNAL :: string where "ACCEPTED_SIGNAL = ''New, TLSv''"
definition PROFILE_NIST_2024_TLS13_ONLY :: string where "PROFILE_NIST_2024_TLS13_ONLY = ''NIST_2024_TLS_13_ONLY''"
definition PROFILE_NIST_2024 :: string where "PROFILE_NIST_2024 = ''NIST_2024''"
definition PROFILE_COMPATIBLE :: string where "PROFILE_COMPATIBLE = ''COMPATIBLE''"
definition PROFILE_MANUAL :: string where "PROFILE_MANUAL = ''MANUAL''"

definition tls_command :: "pyval \<Rightarrow> string \<Rightarrow> string option \<Rightarrow> string list" where
  "tls_command host tls_flag cipher =
     [''openssl'', ''s_client'', ''-connect'', py_str host @ '':443'', tls_flag] @
     (case cipher of Some c \<Rightarrow> if c = [] then [] else [''-cipher'', c] | None \<Rightarrow> [])"

definition tls_probe :: "program_run \<Rightarrow> pyval \<Rightarrow> string \<Rightarrow> string option \<Rightarrow> bool io" where
  "tls_probe openssl host tls_flag cipher =
     tryM (bindM (openssl (tls_command host tls_flag cipher)) (\<lambda>stdout. pureM (contains stdout ACCEPTED_SIGNAL)))
       (\<lambda>_. pureM False)"

fun tls_supported :: "program_run \<Rightarrow> pyval \<Rightarrow> (string \<times> string) list \<Rightarrow> string list io" where
  "tls_supported openssl host [] = pureM []"
| "tls_supported openssl host ((version, flag) # flags) =
     bindM (tls_probe openssl host flag None) (\<lambda>accepted.
     bindM (tls_supported openssl host flags) (\<lambda>more.
     pureM (if accepted then version # more else more)))"

definition tls_get_min_version :: "program_run \<Rightarrow> pyval \<Rightarrow> profile \<Rightarrow> pyval io" where
  "tls_get_min_version openssl opts profile =
     bindM (liftR (sddc_get_config opts profile)) (\<lambda>cfg.
     bindM (tls_supported openssl (cfg_host cfg) TLS_FLAGS) (\<lambda>supported.
     pureM (PDict [(''min_version'', case supported of [] \<Rightarrow> PNone | v # _ \<Rightarrow> PStr v),
       (''supported_versions'', PList (map PStr supported))])))"

definition tls_get_profile :: "program_run \<Rightarrow> pyval \<Rightarrow> profile \<Rightarrow> pyval io" where
  "tls_get_profile openssl opts profile =
     bindM (liftR (sddc_get_config opts profile)) (\<lambda>cfg.
     let host = cfg_host cfg in
     bindM (tls_probe openssl host ''-tls1_2'' None) (\<lambda>tls12.
     bindM (tls_probe openssl host ''-tls1_3'' None) (\<lambda>tls13.
     bindM (if \<not> tls12 \<and> tls13 then pureM PROFILE_NIST_2024_TLS13_ONLY
            else if tls12 then
              bindM (tls_probe openssl host ''-tls1_2'' (Some CIPHER_GCM)) (\<lambda>gcm.
              bindM (tls_probe openssl host ''-tls1_2'' (Some CIPHER_CBC)) (\<lambda>cbc.
              pureM (if gcm \<and> \<not> cbc then PROFILE_NIST_2024
                     else if cbc then PROFILE_COMPATIBLE else PROFILE_MANUAL)))
            else pureM PROFILE_MANUAL) (\<lambda>detected.
     pureM (PDict [(''profile'', PStr detected), (''supported_profiles'', PList [PStr detected])])))))"

subsection \<open>What \<open>/etc/passwd\<close> says, printed and parsed\<close>

record os_user =
  os_name :: string
  os_uid :: int
  os_gid :: int
  os_gecos :: string
  os_home :: string
  os_shell :: string

text \<open>The line of a user in \<open>/etc/passwd\<close>, and what a field may hold.\<close>

definition passwd_line :: "os_user \<Rightarrow> string" where
  "passwd_line u = os_name u @ '':x:'' @ int_str (os_uid u) @ '':'' @ int_str (os_gid u) @ '':'' @ os_gecos u @ '':'' @
     os_home u @ '':'' @ os_shell u"

definition passwd_user :: "os_user \<Rightarrow> pyval" where
  "passwd_user u = PDict [(''username'', PStr (os_name u)), (''uid'', PInt (os_uid u)), (''gid'', PInt (os_gid u)),
     (''gecos'', PStr (os_gecos u)), (''home'', PStr (os_home u)), (''shell'', PStr (os_shell u))]"

definition passwd_field :: "string \<Rightarrow> bool" where
  "passwd_field s = list_all (\<lambda>c. \<not> line_break c \<and> c \<noteq> CHR '':'') s"

definition passwd_clean :: "os_user \<Rightarrow> bool" where
  "passwd_clean u \<longleftrightarrow> list_all passwd_field [os_name u, os_gecos u, os_home u, os_shell u] \<and>
     (case os_name u of [] \<Rightarrow> False | c # _ \<Rightarrow> c \<noteq> CHR ''#'' \<and> \<not> is_blank c) \<and>
     (os_shell u \<noteq> [] \<longrightarrow> \<not> is_blank (last (os_shell u)))"

lemma int_str_chars: "list_all (\<lambda>c. is_digit c \<or> c = CHR ''-'') (int_str i)"
  using digits_str_digits [of i] digits_str_digits [of "- i"]
  by (cases "i < 0") (auto simp: int_str_def list_all_iff)

lemma int_str_field: "passwd_field (int_str i)"
  using int_str_chars [of i] by (auto simp: passwd_field_def list_all_iff line_break_def is_digit_def Let_def)

lemma strip_id: "s \<noteq> [] \<Longrightarrow> \<not> is_blank (hd s) \<Longrightarrow> \<not> is_blank (last s) \<Longrightarrow> strip s = s"
proof -
  have keep: "xs \<noteq> [] \<Longrightarrow> \<not> is_blank (hd xs) \<Longrightarrow> dropWhile is_blank xs = xs" for xs
    by (cases xs) auto
  assume "s \<noteq> []" "\<not> is_blank (hd s)" "\<not> is_blank (last s)"
  then show ?thesis using keep [of s] keep [of "rev s"] by (simp add: strip_def hd_rev)
qed

lemma int_of_int_str: "int_of_str (int_str i) = Some i"
proof -
  obtain c cs where first: "int_str i = c # cs" using int_str_first by blast
  have blank: "\<not> is_blank d" if "is_digit d \<or> d = CHR ''-''" for d
    using that by (auto simp: is_digit_def is_blank_def Let_def)
  have "\<forall>d \<in> set (int_str i). \<not> is_blank d"
    using int_str_chars [of i] blank by (auto simp: list_all_iff)
  then have strip: "strip (int_str i) = int_str i"
    using strip_id [of "int_str i"] first by (metis last_in_set list.discI list.sel(1) list.set_intros(1))
  show ?thesis
  proof (cases "i < 0")
    case True
    then have "int_str i = CHR ''-'' # digits_str (- i)" by (simp add: int_str_def)
    with strip True digits_str_digits [of "- i"] show ?thesis by (auto simp: int_of_str_def)
  next
    case False
    then have str: "int_str i = digits_str i" by (simp add: int_str_def)
    then have "c \<noteq> CHR ''-'' \<and> c \<noteq> CHR ''+''"
      using digits_str_digits [of i] False first by (auto simp: is_digit_def)
    moreover have "digits_str i = c # cs" using first str by simp
    ultimately show ?thesis
      using strip str False digits_str_digits [of i] by (simp add: int_of_str_def)
  qed
qed

lemma passwd_fields:
  assumes "list_all (\<lambda>s. CHR '':'' \<notin> set s) [a, b, c, d, e, f]"
  shows "split_max (CHR '':'') 6 (a @ CHR '':'' # b @ CHR '':'' # c @ CHR '':'' # d @ CHR '':'' # e @ CHR '':'' # f @ CHR '':'' # g) =
    [a, b, c, d, e, f, g]"
  using assms by (simp add: numeral_eq_Suc split_max_cons del: split_max.simps(2))

lemma passwd_entry_line:
  assumes "passwd_clean u" shows "passwd_entry (passwd_line u) = Some (passwd_user u)"
proof -
  from assms obtain c cs where name: "os_name u = c # cs" "c \<noteq> CHR ''#''" "\<not> is_blank c"
    by (auto simp: passwd_clean_def split: list.splits)
  have no_colon: "CHR '':'' \<notin> set s" if "passwd_field s" for s
    using that by (auto simp: passwd_field_def list_all_iff)
  have line: "passwd_line u = os_name u @ CHR '':'' # ''x'' @ CHR '':'' # int_str (os_uid u) @ CHR '':'' #
      int_str (os_gid u) @ CHR '':'' # os_gecos u @ CHR '':'' # os_home u @ CHR '':'' # os_shell u"
    by (simp add: passwd_line_def)
  have split: "split_max (CHR '':'') 6 (passwd_line u) =
      [os_name u, ''x'', int_str (os_uid u), int_str (os_gid u), os_gecos u, os_home u, os_shell u]"
    unfolding line using assms by (intro passwd_fields) (auto simp: passwd_clean_def no_colon int_str_field)
  have "\<not> is_blank (last (passwd_line u))"
    using assms by (cases "os_shell u = []") (auto simp: passwd_line_def passwd_clean_def is_blank_def)
  then have "strip (passwd_line u) = passwd_line u"
    using name by (intro strip_id) (auto simp: passwd_line_def)
  moreover obtain t where "passwd_line u = c # t" using name by (simp add: passwd_line_def)
  ultimately show ?thesis
    using split name by (simp add: passwd_entry_def passwd_user_def int_of_int_str)
qed

lemma parse_passwd_lines:
  assumes "list_all passwd_clean us"
  shows "parse_passwd (concat (map (\<lambda>u. passwd_line u @ [CHR 0x0A]) us)) = map passwd_user us"
  using assms
proof (induction us)
  case (Cons u us)
  have "passwd_field s \<Longrightarrow> list_all (\<lambda>c. \<not> line_break c) s" for s
    by (auto simp: passwd_field_def list_all_iff)
  moreover have "\<not> line_break (CHR '':'')" "\<not> line_break (CHR ''x'')" by (simp_all add: line_break_def)
  ultimately have "list_all (\<lambda>c. \<not> line_break c) (passwd_line u)"
    using Cons.prems int_str_field by (simp add: passwd_line_def passwd_clean_def)
  from splitlines_line [OF this] Cons show ?case
    by (simp add: parse_passwd_def passwd_entry_line)
qed (simp add: parse_passwd_def)

end
