(* ===== verification/Vcf_Sddc.thy ===== *)
theory Vcf_Sddc
  imports Sddc_Clients Sddc_Appliance Rest_Store
begin

section \<open>Vcf_Sddc: the states of the SDDC Manager\<close>

text \<open>
  Workload domains, hosts, the manager itself and its services, and the audits of the appliance: local
  users, password policy, TLS. The audits take the programs they run as parameters (\<open>Sddc_Appliance\<close>).
\<close>

subsection \<open>\<open>states/vcf_sddc_domain.py\<close>\<close>

definition vcf_sddc_domain_present :: "pyval \<Rightarrow> string \<Rightarrow> pyval \<Rightarrow> profile \<Rightarrow> salt_ret io" where
  "vcf_sddc_domain_present opts name spec profile =
     bindM (sddc_domain_get_by_name opts (PStr name) profile) (\<lambda>current.
     if current \<noteq> PNone then pureM (unchanged name (''Workload domain '' @ name @ '' is already present''))
     else unless_test opts (would name (''Workload domain '' @ name @ '' would be created''))
       (bindM (liftR (py_dict spec)) (\<lambda>d.
        let body = (if map_of d ''domainName'' = None then dset d ''domainName'' (PStr name) else d) in
        bindM (sddc_domain_create opts (PDict body) profile) (\<lambda>created.
        bindM (liftR (py_get created ''id'' PNone)) (\<lambda>i.
        pureM (changed name [(''new'', py_or i (PStr name))] (''Workload domain '' @ name @ '' created'')))))))"

definition vcf_sddc_domain_absent :: "pyval \<Rightarrow> string \<Rightarrow> profile \<Rightarrow> salt_ret io" where
  "vcf_sddc_domain_absent opts name profile =
     bindM (sddc_domain_get_by_name opts (PStr name) profile) (\<lambda>current.
     if current = PNone then pureM (unchanged name (''Workload domain '' @ name @ '' is already absent''))
     else
       bindM (liftR (py_get current ''id'' PNone)) (\<lambda>i.
       let domain_id = py_or i (PStr name) in
       unless_test opts (would name (''Workload domain '' @ name @ '' would be marked for deletion''))
         (bindM (sddc_domain_mark_for_deletion opts domain_id profile) (\<lambda>_.
          pureM (changed name [(''marked_for_deletion'', domain_id)]
            (''Workload domain '' @ name @ '' marked for deletion''))))))"

subsection \<open>\<open>states/vcf_sddc_host.py\<close>\<close>

definition vcf_sddc_host_commissioned :: "pyval \<Rightarrow> string \<Rightarrow> pyval \<Rightarrow> profile \<Rightarrow> salt_ret io" where
  "vcf_sddc_host_commissioned opts name host_spec profile =
     bindM (sddc_host_get_or_none opts (PStr name) profile) (\<lambda>current.
     if current \<noteq> PNone then pureM (unchanged name (''Host '' @ name @ '' is already commissioned''))
     else unless_test opts (would name (''Host '' @ name @ '' would be commissioned''))
       (bindM (sddc_host_commission opts (py_or host_spec (PList [PDict [(''hostfqdn'', PStr name)]])) profile) (\<lambda>_.
        pureM (changed name [(''commissioned'', PStr name)] (''Host '' @ name @ '' commissioned'')))))"

definition vcf_sddc_host_decommissioned :: "pyval \<Rightarrow> string \<Rightarrow> profile \<Rightarrow> salt_ret io" where
  "vcf_sddc_host_decommissioned opts name profile =
     bindM (sddc_host_get_or_none opts (PStr name) profile) (\<lambda>current.
     if current = PNone then pureM (unchanged name (''Host '' @ name @ '' is already decommissioned''))
     else unless_test opts (would name (''Host '' @ name @ '' would be decommissioned''))
       (bindM (sddc_host_decommission opts (PStr name) profile) (\<lambda>_.
        pureM (changed name [(''decommissioned'', PStr name)] (''Host '' @ name @ '' decommissioned'')))))"

subsection \<open>\<open>states/vcf_sddc_manager.py\<close> and \<open>states/vcf_vcf_services.py\<close>\<close>

definition vcf_sddc_manager_ready :: "pyval \<Rightarrow> string \<Rightarrow> profile \<Rightarrow> salt_ret io" where
  "vcf_sddc_manager_ready opts name profile =
     bindM (sddc_manager_get_or_none opts profile) (\<lambda>info.
     pureM (if info = PNone then refused name (''SDDC Manager '' @ name @ '' is not reachable'')
            else unchanged name (''SDDC Manager '' @ name @ '' is reachable'')))"

definition vcf_sddc_manager_deployed :: "pyval \<Rightarrow> string \<Rightarrow> pyval \<Rightarrow> pyval \<Rightarrow> profile \<Rightarrow> salt_ret io" where
  "vcf_sddc_manager_deployed opts name topology connection profile = vcf_sddc_manager_ready opts name profile"

definition vcf_vcf_services_healthy :: "pyval \<Rightarrow> string \<Rightarrow> profile \<Rightarrow> salt_ret io" where
  "vcf_vcf_services_healthy opts name profile =
     bindM (sddc_vcf_services_get_by_name opts (PStr name) profile) (\<lambda>svc.
     if svc = PNone then pureM (refused name (''VMSP service '' @ name @ '' not registered''))
     else
       bindM (liftR (py_get svc ''status'' PNone)) (\<lambda>status.
       if status \<noteq> PStr ''UP'' then
         pureM (refused name (''VMSP service '' @ name @ '' is '' @ py_repr status @ '', expected UP''))
       else
         bindM (liftR (py_get svc ''version'' PNone)) (\<lambda>version.
         pureM (unchanged name (''VMSP service '' @ name @ '' is UP (version '' @ py_str version @ '')'')))))"

subsection \<open>\<open>states/vcf_sddc_manager_local_accounts.py\<close>\<close>

text \<open>\<open>a.get("username") or a.get("name") or str(a)\<close>.\<close>

definition account_name :: "pyval \<Rightarrow> pyval res" where
  "account_name a =
     bindR (py_get a ''username'' PNone) (\<lambda>u.
     bindR (py_get a ''name'' PNone) (\<lambda>n. Ok (py_or u (py_or n (PStr (py_str a))))))"

definition vcf_sddc_manager_local_accounts_audited ::
  "ssh_run \<Rightarrow> pyval \<Rightarrow> string \<Rightarrow> pyval \<Rightarrow> profile \<Rightarrow> salt_ret io" where
  "vcf_sddc_manager_local_accounts_audited ssh opts name expected_usernames profile =
     bindM (local_accounts_list_or_none ssh opts profile) (\<lambda>found.
     if found = PNone then pureM (refused name ''Could not retrieve local accounts from SDDC Manager.'')
     else
       bindM (liftR (py_iter found)) (\<lambda>accounts.
       bindM (liftR (mapR account_name accounts)) (\<lambda>usernames.
       let num = int_str (int (length accounts)); shown = py_str (PList usernames) in
       unless_dry opts
         (would name (''Would audit SDDC Manager local accounts. Found '' @ num @ '' account(s): '' @ shown @ ''.''))
         (if expected_usernames = PNone then
            pureM (changed name [(''accounts'', PList usernames)]
              (''SDDC Manager local account inventory: '' @ num @ '' account(s) found: '' @ shown
                @ ''. (No expected list provided '' @ em_dash @ '' discovery mode.)''))
          else
            bindM (liftR (filterR (\<lambda>u. bindR (py_in u expected_usernames) (\<lambda>b. Ok (\<not> b))) usernames)) (\<lambda>unexpected.
            if unexpected \<noteq> [] then
              pureM (refused name (''Unexpected local accounts detected on SDDC Manager: '' @ py_str (PList unexpected)
                @ ''. Operator action required to remove or authorise these accounts.''))
            else
              pureM (unchanged name (''All '' @ num @ '' SDDC Manager local account(s) are in the expected list.'')))))))"

subsection \<open>\<open>states/vcf_sddc_manager_password_policy.py\<close>\<close>

definition vcf_sddc_manager_password_policy_within_max_age ::
  "ssh_run \<Rightarrow> pyval \<Rightarrow> string \<Rightarrow> pyval \<Rightarrow> profile \<Rightarrow> salt_ret io" where
  "vcf_sddc_manager_password_policy_within_max_age ssh opts name max_days profile =
     bindM (password_policy_get ssh opts profile) (\<lambda>policy.
     let current_days = dget policy ''passwordExpirationDays'' PNone in
     if current_days = PNone then
       pureM (refused name ''Could not read passwordExpirationDays from SDDC Manager password policy.'')
     else
       bindM (liftR (py_le current_days max_days)) (\<lambda>within.
       if within then
         pureM (unchanged name (''SDDC Manager passwordExpirationDays is '' @ py_str current_days
           @ '' (within the '' @ py_str max_days @ ''-day limit).''))
       else unless_dry opts
         (would name (''SDDC Manager passwordExpirationDays is '' @ py_str current_days
           @ '', which exceeds the '' @ py_str max_days @ ''-day limit. Would update to '' @ py_str max_days @ ''.''))
         (bindM (password_policy_set ssh opts (dset policy ''passwordExpirationDays'' max_days) profile) (\<lambda>_.
          pureM (changed name
            [(''passwordExpirationDays'', PDict [(''old'', current_days), (''new'', max_days)])]
            (''Updated SDDC Manager passwordExpirationDays from '' @ py_str current_days @ '' to '' @ py_str max_days
              @ ''.''))))))"

definition policy_mismatches :: "dict \<Rightarrow> dict \<Rightarrow> (string \<times> pyval \<times> pyval) list" where
  "policy_mismatches policy desired =
     map (\<lambda>(field, v). (field, v, dget policy field PNone))
       (filter (\<lambda>(field, v). \<not> py_eq (dget policy field PNone) v) desired)"

definition vcf_sddc_manager_password_policy_present ::
  "ssh_run \<Rightarrow> pyval \<Rightarrow> string \<Rightarrow> profile \<Rightarrow> dict \<Rightarrow> salt_ret io" where
  "vcf_sddc_manager_password_policy_present ssh opts name profile desired =
     bindM (password_policy_get ssh opts profile) (\<lambda>policy.
     let keys = py_str (PList (map (\<lambda>p. PStr (fst p)) desired)) in
     unless_dry opts (would name (''Would check SDDC Manager password policy fields: '' @ keys @ ''.''))
       (let mismatches = policy_mismatches policy desired in
        pureM (if mismatches \<noteq> [] then
          refused name (''SDDC Manager password policy fields do not match desired values: ''
            @ join_with ''; '' (map (\<lambda>(f, want, got). f @ '': got '' @ py_repr got @ '', want '' @ py_repr want) mismatches))
        else unchanged name (''SDDC Manager password policy matches all desired values: '' @ keys @ ''.''))))"

subsection \<open>\<open>states/vcf_sddc_manager_tls_min_version.py\<close> and \<open>states/vcf_sddc_manager_tls_profile.py\<close>\<close>

definition VERSION_ORDER :: "string list" where
  "VERSION_ORDER = [''1.0'', ''1.1'', ''1.2'', ''1.3'']"

text \<open>\<open>_VERSION_ORDER.index(v) if v in _VERSION_ORDER else dflt\<close>.\<close>

fun index_in :: "pyval \<Rightarrow> string list \<Rightarrow> nat" where
  "index_in v [] = 0"
| "index_in v (s # ss) = (if v = PStr s then 0 else Suc (index_in v ss))"

definition version_index :: "pyval \<Rightarrow> nat \<Rightarrow> nat" where
  "version_index v dflt = (if in_strs v VERSION_ORDER then index_in v VERSION_ORDER else dflt)"

definition vcf_sddc_manager_tls_min_version_compliant ::
  "program_run \<Rightarrow> pyval \<Rightarrow> string \<Rightarrow> pyval \<Rightarrow> profile \<Rightarrow> salt_ret io" where
  "vcf_sddc_manager_tls_min_version_compliant openssl opts name min_version profile =
     bindM (tls_get_min_version openssl opts profile) (\<lambda>state.
     bindM (liftR (py_get state ''min_version'' PNone)) (\<lambda>actual_min.
     bindM (liftR (py_get state ''supported_versions'' (PList []))) (\<lambda>supported.
     if actual_min = PNone then
       pureM (refused name (''Could not negotiate any TLS version with SDDC Manager. ''
         @ ''Verify that the listener is running and reachable.''))
     else unless_dry opts
       (would name (''Would check TLS minimum version on SDDC Manager. Detected min='' @ py_str actual_min
         @ '', supported='' @ py_str supported @ ''.''))
       (pureM (if version_index actual_min 0 < version_index min_version 2 then
          refused name (''SDDC Manager accepts TLS '' @ py_str actual_min @ '', which is older than the required minimum ''
            @ py_str min_version @ ''. Supported: '' @ py_str supported
            @ ''. Remediation requires manual nginx configuration change.'')
        else
          unchanged name (''SDDC Manager TLS minimum version is '' @ py_str actual_min @ '' (required >= ''
            @ py_str min_version @ ''). Supported: '' @ py_str supported @ ''.''))))))"

definition vcf_sddc_manager_tls_profile_compliant ::
  "program_run \<Rightarrow> pyval \<Rightarrow> string \<Rightarrow> pyval \<Rightarrow> profile \<Rightarrow> salt_ret io" where
  "vcf_sddc_manager_tls_profile_compliant openssl opts name profile_name profile =
     bindM (tls_get_profile openssl opts profile) (\<lambda>state.
     bindM (liftR (py_get state ''profile'' (PStr ''MANUAL''))) (\<lambda>detected.
     unless_dry opts
       (would name (''Would check TLS cipher profile on SDDC Manager. Detected profile: '' @ py_str detected @ ''.''))
       (pureM (if py_eq detected profile_name then
          unchanged name (''SDDC Manager TLS cipher profile is '' @ py_str detected @ '' (desired: '' @ py_str profile_name @ '').'')
        else
          refused name (''SDDC Manager TLS cipher profile is '' @ py_str detected @ '', but '' @ py_str profile_name
            @ '' is required. Remediation requires manual nginx configuration change.'')))))"


subsection \<open>The TLS audits\<close>

text \<open>
  An \<open>openssl\<close> whose answer depends on its arguments only; whether the listener accepted the handshake
  of a command.
\<close>

definition answering :: "(string list \<Rightarrow> string res) \<Rightarrow> program_run" where
  "answering answer cmd = liftR (answer cmd)"

definition handshake :: "(string list \<Rightarrow> string res) \<Rightarrow> pyval \<Rightarrow> string \<Rightarrow> string option \<Rightarrow> bool" where
  "handshake answer host flag cipher =
     (case answer (tls_command host flag cipher) of Ok out \<Rightarrow> contains out ACCEPTED_SIGNAL | Exc _ \<Rightarrow> False)"

definition accepted_versions :: "(string list \<Rightarrow> string res) \<Rightarrow> pyval \<Rightarrow> string list" where
  "accepted_versions answer host = map fst (filter (\<lambda>(v, flag). handshake answer host flag None) TLS_FLAGS)"

lemma tls_probe_run: "tls_probe (answering answer) host flag c w = Some (Ok (handshake answer host flag c), w)"
  by (simp add: tls_probe_def answering_def handshake_def tryM_def bindM_def liftR_def pureM_def split: res.split)

lemma tls_supported_run:
  "tls_supported (answering answer) host flags w =
     Some (Ok (map fst (filter (\<lambda>(v, flag). handshake answer host flag None) flags)), w)"
  by (induction flags) (auto simp: tls_probe_run)

lemma versions_ordered:
  assumes "sddc = map fst (filter p TLS_FLAGS)" "sddc = v # vs" "u \<in> set sddc"
  shows "v \<in> set VERSION_ORDER" "version_index (PStr v) 0 \<le> version_index (PStr u) 0"
  using assms by (auto simp: TLS_FLAGS_def VERSION_ORDER_def version_index_def split: if_splits)

text \<open>
  The table of the docstrings (\<open>clients/sddc_manager_tls.py\<close> and \<open>states/vcf_sddc_manager_tls_profile.py\<close>),
  row by row: each profile with the handshakes that make it.
\<close>

definition documented_profile :: "bool \<Rightarrow> bool \<Rightarrow> bool \<Rightarrow> bool \<Rightarrow> string" where
  "documented_profile tls12 tls13 gcm cbc =
     (if \<not> tls12 \<and> tls13 then ''NIST_2024_TLS_13_ONLY''
      else if tls12 \<and> tls13 \<and> gcm \<and> \<not> cbc then ''NIST_2024''
      else if tls12 \<and> tls13 \<and> cbc then ''COMPATIBLE''
      else ''MANUAL'')"

text \<open>A listener outside that table: it takes TLS 1.2 with one of the two ciphers, and not TLS 1.3.\<close>

definition without_tls13 :: "bool \<Rightarrow> bool \<Rightarrow> bool \<Rightarrow> bool \<Rightarrow> bool" where
  "without_tls13 tls12 tls13 gcm cbc \<longleftrightarrow> tls12 \<and> \<not> tls13 \<and> (gcm \<or> cbc)"

text \<open>The profile the code reports.\<close>

definition reported_profile :: "bool \<Rightarrow> bool \<Rightarrow> bool \<Rightarrow> bool \<Rightarrow> string" where
  "reported_profile tls12 tls13 gcm cbc =
     (if without_tls13 tls12 tls13 gcm cbc then if cbc then ''COMPATIBLE'' else ''NIST_2024''
      else documented_profile tls12 tls13 gcm cbc)"

abbreviation shown_by :: "(bool \<Rightarrow> bool \<Rightarrow> bool \<Rightarrow> bool \<Rightarrow> 'a) \<Rightarrow> (string list \<Rightarrow> string res) \<Rightarrow> pyval \<Rightarrow> 'a" where
  "shown_by f answer host \<equiv>
     f (handshake answer host ''-tls1_2'' None) (handshake answer host ''-tls1_3'' None)
       (handshake answer host ''-tls1_2'' (Some CIPHER_GCM)) (handshake answer host ''-tls1_2'' (Some CIPHER_CBC))"

lemma tls_get_profile_run:
  "sddc_get_config opts p = Ok cfg \<Longrightarrow>
   tls_get_profile (answering answer) opts p w =
     Some (Ok (PDict [(''profile'', PStr (shown_by reported_profile answer (cfg_host cfg))),
       (''supported_profiles'', PList [PStr (shown_by reported_profile answer (cfg_host cfg))])]), w)"
  by (simp add: tls_get_profile_def tls_probe_run reported_profile_def documented_profile_def without_tls13_def
      PROFILE_COMPATIBLE_def PROFILE_NIST_2024_def PROFILE_NIST_2024_TLS13_ONLY_def PROFILE_MANUAL_def Let_def)

lemma tls_get_min_version_run:
  "sddc_get_config opts p = Ok cfg \<Longrightarrow>
   tls_get_min_version (answering answer) opts p w =
     Some (Ok (PDict [(''min_version'', case accepted_versions answer (cfg_host cfg) of [] \<Rightarrow> PNone | v # _ \<Rightarrow> PStr v),
       (''supported_versions'', PList (map PStr (accepted_versions answer (cfg_host cfg))))]), w)"
  by (simp add: tls_get_min_version_def tls_supported_run accepted_versions_def)

text \<open>The versions older than one of the four, by the order they came in.\<close>

definition older_versions :: "string \<Rightarrow> string list" where
  "older_versions v = takeWhile (\<lambda>u. u \<noteq> v) [''1.0'', ''1.1'', ''1.2'', ''1.3'']"

lemma older_by_index:
  assumes "u \<in> set VERSION_ORDER" "v \<in> set VERSION_ORDER"
  shows "version_index (PStr u) 0 < version_index (PStr v) 2 \<longleftrightarrow> u \<in> set (older_versions v)"
  using assms by (auto simp: VERSION_ORDER_def version_index_def older_versions_def)

lemma accepted_versions_known: "set (accepted_versions answer host) \<subseteq> set VERSION_ORDER"
  by (auto simp: accepted_versions_def TLS_FLAGS_def VERSION_ORDER_def split: if_splits)

text \<open>C12: The two TLS audits decide what they document, with one exception. Outside a dry run the listener is
  reported compliant with one of the four minimum versions exactly when it accepts some version and none
  older than that. It is reported compliant with a cipher profile exactly when that is its profile by the
  documented table - but for a listener that takes TLS 1.2 with the CBC or the GCM cipher and rejects TLS 1.3:
  by the table it is \<open>MANUAL\<close>, and the audit passes for \<open>COMPATIBLE\<close> or \<open>NIST_2024\<close> (a divergence of the
  code from its documentation).\<close>

theorem tls_audits_decide:
  assumes cfg: "sddc_get_config opts p = Ok cfg" and run: "is_dict opts" "\<not> test_mode opts"
    and v: "v \<in> {''1.0'', ''1.1'', ''1.2'', ''1.3''}"
  shows "\<exists>r s.
    vcf_sddc_manager_tls_min_version_compliant (answering answer) opts name (PStr v) p w = Some (Ok r, w) \<and>
    vcf_sddc_manager_tls_profile_compliant (answering answer) opts name (PStr wanted) p w = Some (Ok s, w) \<and>
    (ret_result r = Some True \<longleftrightarrow>
       accepted_versions answer (cfg_host cfg) \<noteq> [] \<and>
       list_all (\<lambda>u. u \<notin> set (older_versions v)) (accepted_versions answer (cfg_host cfg))) \<and>
    (\<not> shown_by without_tls13 answer (cfg_host cfg) \<longrightarrow>
       (ret_result s = Some True \<longleftrightarrow> wanted = shown_by documented_profile answer (cfg_host cfg))) \<and>
    (shown_by without_tls13 answer (cfg_host cfg) \<longrightarrow>
       shown_by documented_profile answer (cfg_host cfg) = ''MANUAL'' \<and>
       (ret_result s = Some True \<longleftrightarrow> wanted =
          (if handshake answer (cfg_host cfg) ''-tls1_2'' (Some CIPHER_CBC) then ''COMPATIBLE'' else ''NIST_2024'')))"
proof -
  have known: "v \<in> set VERSION_ORDER" using v by (auto simp: VERSION_ORDER_def)
  obtain s where s: "vcf_sddc_manager_tls_profile_compliant (answering answer) opts name (PStr wanted) p w = Some (Ok s, w)"
    "ret_result s = Some True \<longleftrightarrow> wanted = shown_by reported_profile answer (cfg_host cfg)"
    using run by (auto simp: vcf_sddc_manager_tls_profile_compliant_def tls_get_profile_run [OF cfg] unless_dry_run)
  obtain r where r: "vcf_sddc_manager_tls_min_version_compliant (answering answer) opts name (PStr v) p w = Some (Ok r, w)"
    "ret_result r = Some True \<longleftrightarrow> accepted_versions answer (cfg_host cfg) \<noteq> [] \<and>
       list_all (\<lambda>u. u \<notin> set (older_versions v)) (accepted_versions answer (cfg_host cfg))"
  proof (cases "accepted_versions answer (cfg_host cfg)")
    case Nil
    then show thesis
      using run that by (simp add: vcf_sddc_manager_tls_min_version_compliant_def tls_get_min_version_run [OF cfg])
  next
    case (Cons x xs)
    note first = versions_ordered [OF accepted_versions_def Cons]
    have order: "u \<in> set (older_versions v) \<longleftrightarrow> version_index (PStr u) 0 < version_index (PStr v) 2" if "u \<in> set (x # xs)" for u
      using that accepted_versions_known [of answer "cfg_host cfg"] Cons by (intro older_by_index [OF _ known, symmetric]) auto
    have "list_all (\<lambda>u. u \<notin> set (older_versions v)) (x # xs) \<longleftrightarrow> \<not> version_index (PStr x) 0 < version_index (PStr v) 2"
      using first(2) Cons order by (fastforce simp: list_all_iff not_less)
    with Cons show thesis
      using run that by (simp add: vcf_sddc_manager_tls_min_version_compliant_def tls_get_min_version_run [OF cfg] unless_dry_run)
  qed
  from r s show ?thesis
    by (auto simp: reported_profile_def documented_profile_def without_tls13_def)
qed

lemma tls_audits_decide_witness:
  "\<exists>r s.
    vcf_sddc_manager_tls_min_version_compliant
      (answering (\<lambda>cmd. if cmd ! 4 = ''-tls1_2'' then Ok ''New, TLSv1.2'' else Exc (RuntimeError ''refused'')))
      (opts_run_for ''sddc_manager'') ''n'' (PStr ''1.3'') None (scripted []) = Some (Ok r, scripted []) \<and>
    vcf_sddc_manager_tls_profile_compliant
      (answering (\<lambda>cmd. if cmd ! 4 = ''-tls1_2'' then Ok ''New, TLSv1.2'' else Exc (RuntimeError ''refused'')))
      (opts_run_for ''sddc_manager'') ''n'' (PStr ''COMPATIBLE'') None (scripted []) = Some (Ok s, scripted []) \<and>
    ret_result r \<noteq> Some True \<and> ret_result s = Some True"
proof -
  let ?answer = "\<lambda>cmd. if cmd ! 4 = ''-tls1_2'' then Ok ''New, TLSv1.2'' else Exc (RuntimeError ''refused'')"
  let ?cfg = "\<lparr>cfg_host = PStr ''h'', cfg_username = PStr ''u'', cfg_password = PStr ''p'', cfg_verify_ssl = PBool True\<rparr>"
  have cfg: "sddc_get_config (opts_run_for ''sddc_manager'') None = Ok ?cfg"
    by (simp add: sddc_get_config_def eval_simps)
  have versions: "accepted_versions ?answer (PStr ''h'') = [''1.2'']" by code_simp
  have cbc: "handshake ?answer (PStr ''h'') ''-tls1_2'' (Some CIPHER_CBC)" by code_simp
  have outside: "shown_by without_tls13 ?answer (PStr ''h'')" by code_simp
  have older: "''1.2'' \<in> set (older_versions ''1.3'')" by code_simp
  from tls_audits_decide [OF cfg, of "''1.3''" ?answer "''n''" "scripted []" "''COMPATIBLE''"] show ?thesis
    unfolding conn_config.simps versions using cbc outside older by (auto simp: opts_run_for_def test_mode_def)
qed


subsection \<open>The audit of the local users\<close>

lemma sddc_ssh_config_for:
  "sddc_get_ssh_config (opts_run_for ''sddc_manager'') None =
     Ok \<lparr>ssh_host = PStr ''h'', ssh_username = PNone, ssh_password = PNone, ssh_port = PInt 22\<rparr>"
  by (simp add: sddc_get_ssh_config_def eval_simps)

lemma account_name_user: "passwd_clean u \<Longrightarrow> account_name (passwd_user u) = Ok (PStr (os_name u))"
  by (auto simp: account_name_def passwd_user_def passwd_clean_def split: list.splits)

text \<open>The audit of the local users, over the \<open>/etc/passwd\<close> that the client reads (the docstring of the state speaks of
  the application accounts of the REST interface instead): of a password file that holds the lines
  of some users, the audit against a list of allowed names succeeds exactly when every user's name is
  allowed.\<close>

theorem local_accounts_audit:
  assumes "sddc_get_ssh_config opts p = Ok cfg" "is_dict opts" "\<not> test_mode opts"
    and users: "list_all passwd_clean us"
    and passwd: "ssh cfg ''cat /etc/passwd'' w = Some (Ok (0, concat (map (\<lambda>u. passwd_line u @ [CHR 0x0A]) us), err), w')"
  shows "\<exists>r. vcf_sddc_manager_local_accounts_audited ssh opts name (PList (map PStr allowed)) p w = Some (Ok r, w') \<and>
    ret_changes r = empty_dict \<and> ret_result r = Some (os_name ` set us \<subseteq> set allowed)"
proof -
  have found: "local_accounts_list_or_none ssh opts p w = Some (Ok (PList (map passwd_user us)), w')"
    using assms(1) passwd parse_passwd_lines [OF users]
    by (simp add: local_accounts_list_or_none_def local_accounts_list_def PASSWD_FILE_def tryM_def)
  have names: "mapR account_name (map passwd_user us) = Ok (map (\<lambda>u. PStr (os_name u)) us)"
    using users by (induction us) (auto simp: account_name_user)
  have allowed: "py_in (PStr s) (PList (map PStr allowed)) = Ok (s \<in> set allowed)" for s
    by (auto simp: py_in_def list_ex_iff)
  have "filterR (\<lambda>u. bindR (py_in u (PList (map PStr allowed))) (\<lambda>b. Ok (\<not> b))) (map (\<lambda>u. PStr (os_name u)) us) =
      Ok (map (\<lambda>u. PStr (os_name u)) (filter (\<lambda>u. os_name u \<notin> set allowed) us))"
    by (induction us) (auto simp: allowed)
  then show ?thesis
    using found names assms(2,3)
    by (auto simp: vcf_sddc_manager_local_accounts_audited_def unless_dry_run Let_def filter_empty_conv)
qed

lemma local_accounts_audit_witness:
  "\<exists>r. vcf_sddc_manager_local_accounts_audited
      (\<lambda>_ _ w. Some (Ok (0, ''root:x:0:0:root:/root:/bin/bash'' @ [CHR 0x0A], []), w))
      (opts_run_for ''sddc_manager'') ''n'' (PList (map PStr [''root''])) None (scripted []) = Some (Ok r, scripted []) \<and>
    ret_result r = Some True"
proof -
  let ?u = "\<lparr>os_name = ''root'', os_uid = 0, os_gid = 0, os_gecos = ''root'', os_home = ''/root'', os_shell = ''/bin/bash''\<rparr>"
  have clean: "list_all passwd_clean [?u]"
    and line: "concat (map (\<lambda>u. passwd_line u @ [CHR 0x0A]) [?u]) = ''root:x:0:0:root:/root:/bin/bash'' @ [CHR 0x0A]"
    by code_simp+
  have opts: "is_dict (opts_run_for ''sddc_manager'')" "\<not> test_mode (opts_run_for ''sddc_manager'')"
    by (simp_all add: opts_run_for_def test_mode_def)
  have passwd: "(\<lambda>_ _ w. Some (Ok (0, ''root:x:0:0:root:/root:/bin/bash'' @ [CHR 0x0A], []), w)) cfg ''cat /etc/passwd'' w =
      Some (Ok (0, concat (map (\<lambda>u. passwd_line u @ [CHR 0x0A]) [?u]), []), w)" for cfg :: ssh_config and w :: world
    unfolding line by (rule refl)
  from local_accounts_audit [where ssh = "\<lambda>_ _ w. Some (Ok (0, ''root:x:0:0:root:/root:/bin/bash'' @ [CHR 0x0A], []), w)"
      and name = "''n''" and allowed = "[''root'']" and w = "scripted []" and w' = "scripted []",
      OF sddc_ssh_config_for opts clean passwd]
  show ?thesis by (elim exE conjE) (rule exI, intro conjI, assumption, simp)
qed

text \<open>C13: Where the password age is over the limit, the state puts back the appliance's own policy with that
  one field replaced: the next command on the appliance is a curl whose arguments the shell reads as a
  PUT of a JSON text to the local policy, and that text is the policy that was read, the age now the limit.\<close>

theorem password_policy_put:
  assumes "sddc_get_ssh_config opts p = Ok cfg" "is_dict opts" "\<not> test_mode opts"
    and "ssh cfg policy_get_command w = Some (Ok (0, out, err), w1)"
    and "json_loads out = Ok (PDict api)" "wf_py (PDict api)"
    and "map_of api ''maximumPasswordAge'' = Some (PInt age)" "map_of api ''passwordExpirationDays'' = None"
    and "limit < age"
  shows "\<exists>command data k.
    vcf_sddc_manager_password_policy_within_max_age ssh opts name (PInt limit) p w = bindM (ssh cfg command) k w1 \<and>
    sh_words Sh_Blank command = Some [''curl'', ''-sf'', ''-X'', ''PUT'', ''-H'', ''Content-Type: application/json'',
      ''-d'', data, ''http://localhost/appliancemanager/security/password-policy''] \<and>
    json_loads data = Ok (PDict (dset api ''maximumPasswordAge'' (PInt limit)))"
proof -
  let ?policy = "dset api ''passwordExpirationDays'' (PInt age)"
  let ?new = "dset api ''maximumPasswordAge'' (PInt limit)"
  have got: "password_policy_get ssh opts p w = Some (Ok ?policy, w1)"
    using assms(1,4,5,7)
    by (simp add: password_policy_get_def policy_to_policy_def py_in_def API_AGE_FIELD_def SCHEMA_AGE_FIELD_def dget_def)
  have own: "filter (\<lambda>(k, v). k \<noteq> ''passwordExpirationDays'') (dset ?policy ''passwordExpirationDays'' (PInt limit)) = api"
  proof -
    have "filter (\<lambda>(k, v). k \<noteq> s) (dset d s x) = d" if "s \<notin> fst ` set d" for d :: dict and s x
      using that by (induction d s x rule: dset.induct) (auto simp: filter_id_conv)
    then show ?thesis using assms(8) by (simp add: dset_dset map_of_eq_None_iff)
  qed
  have payload: "policy_to_api_payload (dset ?policy ''passwordExpirationDays'' (PInt limit)) = ?new"
    using own by (simp add: policy_to_api_payload_def API_AGE_FIELD_def SCHEMA_AGE_FIELD_def)
  have data: "json_loads (json_dumps (PDict ?new)) = Ok (PDict ?new)"
  proof (rule json_loads_dumps)
    have "set (dset d s x) \<subseteq> insert (s, x) (set d)" for d :: dict and s x
      by (induction d s x rule: dset.induct) auto
    with assms(6) show "wf_py (PDict ?new)" by (fastforce simp: distinct_dset)
  qed
  have words: "sh_words Sh_Blank (policy_put_command (json_dumps (PDict ?new))) = Some [''curl'', ''-sf'', ''-X'', ''PUT'',
      ''-H'', ''Content-Type: application/json'', ''-d'', json_dumps (PDict ?new),
      ''http://localhost/appliancemanager/security/password-policy'']"
  proof -
    have line: "policy_put_command d = ''curl'' @ CHR '' '' # ''-sf'' @ CHR '' '' # ''-X'' @ CHR '' '' # ''PUT'' @ CHR '' '' #
        ''-H'' @ CHR '' '' # shlex_quote ''Content-Type: application/json'' @ CHR '' '' # ''-d'' @ CHR '' '' #
        shlex_quote d @ CHR '' '' # ''http://localhost/appliancemanager/security/password-policy''" for d
      by (simp add: policy_put_command_def json_header_def LOCAL_PASSWORD_POLICY_URL_def shlex_quote_def sh_quote_char_def)
    have plain: "list_all sh_plain ''curl''" "list_all sh_plain ''-sf''" "list_all sh_plain ''-X''" "list_all sh_plain ''PUT''"
      "list_all sh_plain ''-H''" "list_all sh_plain ''-d''"
      "list_all sh_plain ''http://localhost/appliancemanager/security/password-policy''"
      by code_simp+
    show ?thesis
      unfolding line using plain
      by (simp only: sh_words_cons sh_words_last list.distinct not_False_eq_True option.map simp_thms)
  qed
  have "\<exists>k. vcf_sddc_manager_password_policy_within_max_age ssh opts name (PInt limit) p w =
      bindM (ssh cfg (policy_put_command (json_dumps (PDict ?new)))) k w1"
    using got payload assms(1,2,3,9)
    by (simp add: vcf_sddc_manager_password_policy_within_max_age_def dget_dset unless_dry_run
        password_policy_set_def bindM_assoc Let_def del: json_dumps.simps) (rule exI, rule refl)
  with words data show ?thesis by blast
qed

lemma password_policy_put_witness:
  "\<exists>command data k.
    vcf_sddc_manager_password_policy_within_max_age
      (\<lambda>_ _ w. Some (Ok (0, json_dumps (PDict [(''maximumPasswordAge'', PInt 180)]), []), w))
      (opts_run_for ''sddc_manager'') ''n'' (PInt 90) None (scripted []) =
      bindM (\<lambda>w. Some (Ok (0 :: int, json_dumps (PDict [(''maximumPasswordAge'', PInt 180)]), [] :: string), w)) k (scripted []) \<and>
    sh_words Sh_Blank command = Some [''curl'', ''-sf'', ''-X'', ''PUT'', ''-H'', ''Content-Type: application/json'',
      ''-d'', data, ''http://localhost/appliancemanager/security/password-policy''] \<and>
    json_loads data = Ok (PDict [(''maximumPasswordAge'', PInt 90)])"
proof -
  let ?api = "[(''maximumPasswordAge'', PInt 180)]"
  have "json_loads (json_dumps (PDict ?api)) = Ok (PDict ?api)" by (rule json_loads_dumps) simp
  note policy = this
  have opts: "is_dict (opts_run_for ''sddc_manager'')" "\<not> test_mode (opts_run_for ''sddc_manager'')"
    by (simp_all add: opts_run_for_def test_mode_def)
  have api: "wf_py (PDict ?api)" "map_of ?api ''maximumPasswordAge'' = Some (PInt 180)"
    "map_of ?api ''passwordExpirationDays'' = None" "(90 :: int) < 180"
    and new: "dset ?api ''maximumPasswordAge'' (PInt 90) = [(''maximumPasswordAge'', PInt 90)]" by simp_all
  from password_policy_put [where ssh = "\<lambda>_ _ w. Some (Ok (0, json_dumps (PDict ?api), []), w)" and w = "scripted []"
      and name = "''n''" and limit = 90, OF sddc_ssh_config_for opts refl policy api]
  show ?thesis unfolding new .
qed

end
