(* ===== verification/Vcfops_Clients.thy ===== *)
theory Vcfops_Clients
  imports Vcfops Rest_Client
begin

section \<open>Vcfops_Clients: the clients of VCF Operations\<close>

text \<open>
  The clients \<open>clients/vcfops_*.py\<close> but for the fleet reports.
\<close>

subsection \<open>the inventory clients\<close>

text \<open>
  The REST calls on adapters, collectors, credentials, deployments and maintenance schedules.

  One definition per function of the client modules; identifiers and other arguments are
  Python values, keyword arguments (\<open>**spec\<close>) a dict.
\<close>

subsubsection \<open>\<open>clients/vcfops_adapter.py\<close>\<close>

definition vcfops_adapter_PATH :: "string" where
  "vcfops_adapter_PATH = ''/suite-api/api/adapterkinds''"

definition vcfops_adapter_INSTANCES :: "string" where
  "vcfops_adapter_INSTANCES = ''/suite-api/api/adapters''"

definition vcfops_adapter_list :: "pyval \<Rightarrow> pyval io" where
  "vcfops_adapter_list opts = vcfops_api_get opts vcfops_adapter_PATH PNone None"

definition vcfops_adapter_get :: "pyval \<Rightarrow> pyval \<Rightarrow> pyval io" where
  "vcfops_adapter_get opts kind_key =
     vcfops_api_get opts (vcfops_adapter_PATH @ ''/'' @ py_str kind_key) PNone None"

definition vcfops_adapter_get_or_none :: "pyval \<Rightarrow> pyval \<Rightarrow> pyval io" where
  "vcfops_adapter_get_or_none opts kind_key = none_if_missing (vcfops_adapter_get opts kind_key)"

definition vcfops_adapter_instance_list :: "pyval \<Rightarrow> profile \<Rightarrow> pyval io" where
  "vcfops_adapter_instance_list opts profile = vcfops_api_get opts vcfops_adapter_INSTANCES PNone profile"

definition vcfops_adapter_instance_get :: "pyval \<Rightarrow> pyval \<Rightarrow> profile \<Rightarrow> pyval io" where
  "vcfops_adapter_instance_get opts instance_id profile =
     vcfops_api_get opts (vcfops_adapter_INSTANCES @ ''/'' @ py_str instance_id) PNone profile"

definition vcfops_adapter_instance_get_or_none :: "pyval \<Rightarrow> pyval \<Rightarrow> profile \<Rightarrow> pyval io" where
  "vcfops_adapter_instance_get_or_none opts instance_id profile =
     none_if_missing (vcfops_adapter_instance_get opts instance_id profile)"

definition vcfops_adapter_instance_create :: "pyval \<Rightarrow> pyval \<Rightarrow> profile \<Rightarrow> pyval io" where
  "vcfops_adapter_instance_create opts spec profile =
     vcfops_api_post opts vcfops_adapter_INSTANCES spec PNone profile"

definition vcfops_adapter_instance_update ::
  "pyval \<Rightarrow> pyval \<Rightarrow> pyval \<Rightarrow> profile \<Rightarrow> pyval io" where
  "vcfops_adapter_instance_update opts instance_id spec profile =
     vcfops_api_put opts (vcfops_adapter_INSTANCES @ ''/'' @ py_str instance_id) spec profile"

definition vcfops_adapter_instance_delete :: "pyval \<Rightarrow> pyval \<Rightarrow> profile \<Rightarrow> pyval io" where
  "vcfops_adapter_instance_delete opts instance_id profile =
     vcfops_api_delete opts (vcfops_adapter_INSTANCES @ ''/'' @ py_str instance_id) PNone profile"

definition vcfops_adapter_instance_start :: "pyval \<Rightarrow> pyval \<Rightarrow> profile \<Rightarrow> pyval io" where
  "vcfops_adapter_instance_start opts instance_id profile =
     vcfops_api_post opts (vcfops_adapter_INSTANCES @ ''/'' @ py_str instance_id @
       ''/monitoringstate/start'')
       PNone PNone profile"

definition vcfops_adapter_instance_stop :: "pyval \<Rightarrow> pyval \<Rightarrow> profile \<Rightarrow> pyval io" where
  "vcfops_adapter_instance_stop opts instance_id profile =
     vcfops_api_post opts (vcfops_adapter_INSTANCES @ ''/'' @ py_str instance_id @
       ''/monitoringstate/stop'')
       PNone PNone profile"

subsubsection \<open>\<open>clients/vcfops_collector.py\<close>\<close>

definition vcfops_collector_COLLECTORS :: "string" where
  "vcfops_collector_COLLECTORS = ''/suite-api/api/collectors''"

definition vcfops_collector_GROUPS :: "string" where
  "vcfops_collector_GROUPS = ''/suite-api/api/collectorgroups''"

definition vcfops_collector_list :: "pyval \<Rightarrow> profile \<Rightarrow> pyval io" where
  "vcfops_collector_list opts profile = vcfops_api_get opts vcfops_collector_COLLECTORS PNone profile"

definition vcfops_collector_get :: "pyval \<Rightarrow> pyval \<Rightarrow> profile \<Rightarrow> pyval io" where
  "vcfops_collector_get opts collector_id profile =
     vcfops_api_get opts (vcfops_collector_COLLECTORS @ ''/'' @ py_str collector_id) PNone profile"

definition vcfops_collector_get_or_none :: "pyval \<Rightarrow> pyval \<Rightarrow> profile \<Rightarrow> pyval io" where
  "vcfops_collector_get_or_none opts collector_id profile =
     none_if_missing (vcfops_collector_get opts collector_id profile)"

definition vcfops_collector_delete :: "pyval \<Rightarrow> pyval \<Rightarrow> profile \<Rightarrow> pyval io" where
  "vcfops_collector_delete opts collector_id profile =
     vcfops_api_delete opts (vcfops_collector_COLLECTORS @ ''/'' @ py_str collector_id) PNone profile"

definition vcfops_collector_groups_list :: "pyval \<Rightarrow> profile \<Rightarrow> pyval io" where
  "vcfops_collector_groups_list opts profile = vcfops_api_get opts vcfops_collector_GROUPS PNone profile"

definition vcfops_collector_groups_get :: "pyval \<Rightarrow> pyval \<Rightarrow> profile \<Rightarrow> pyval io" where
  "vcfops_collector_groups_get opts group_id profile =
     vcfops_api_get opts (vcfops_collector_GROUPS @ ''/'' @ py_str group_id) PNone profile"

definition vcfops_collector_groups_get_or_none :: "pyval \<Rightarrow> pyval \<Rightarrow> profile \<Rightarrow> pyval io" where
  "vcfops_collector_groups_get_or_none opts group_id profile =
     none_if_missing (vcfops_collector_groups_get opts group_id profile)"

definition vcfops_collector_groups_create :: "pyval \<Rightarrow> pyval \<Rightarrow> profile \<Rightarrow> pyval io" where
  "vcfops_collector_groups_create opts group_spec profile =
     vcfops_api_post opts vcfops_collector_GROUPS group_spec PNone profile"

definition vcfops_collector_groups_update ::
  "pyval \<Rightarrow> pyval \<Rightarrow> pyval \<Rightarrow> profile \<Rightarrow> pyval io" where
  "vcfops_collector_groups_update opts group_id group_spec profile =
     vcfops_api_put opts (vcfops_collector_GROUPS @ ''/'' @ py_str group_id) group_spec profile"

definition vcfops_collector_groups_delete :: "pyval \<Rightarrow> pyval \<Rightarrow> profile \<Rightarrow> pyval io" where
  "vcfops_collector_groups_delete opts group_id profile =
     vcfops_api_delete opts (vcfops_collector_GROUPS @ ''/'' @ py_str group_id) PNone profile"

subsubsection \<open>\<open>clients/vcfops_credential.py\<close>\<close>

definition vcfops_credential_CREDS :: "string" where
  "vcfops_credential_CREDS = ''/suite-api/api/credentials''"

definition vcfops_credential_KINDS :: "string" where
  "vcfops_credential_KINDS = ''/suite-api/api/credentialkinds''"

definition vcfops_credential_list :: "pyval \<Rightarrow> profile \<Rightarrow> pyval io" where
  "vcfops_credential_list opts profile = vcfops_api_get opts vcfops_credential_CREDS PNone profile"

definition vcfops_credential_get :: "pyval \<Rightarrow> pyval \<Rightarrow> profile \<Rightarrow> pyval io" where
  "vcfops_credential_get opts credential_id profile =
     vcfops_api_get opts (vcfops_credential_CREDS @ ''/'' @ py_str credential_id) PNone profile"

definition vcfops_credential_get_or_none :: "pyval \<Rightarrow> pyval \<Rightarrow> profile \<Rightarrow> pyval io" where
  "vcfops_credential_get_or_none opts credential_id profile =
     none_if_missing (vcfops_credential_get opts credential_id profile)"

definition vcfops_credential_create :: "pyval \<Rightarrow> pyval \<Rightarrow> profile \<Rightarrow> pyval io" where
  "vcfops_credential_create opts credential_spec profile =
     vcfops_api_post opts vcfops_credential_CREDS credential_spec PNone profile"

definition vcfops_credential_update ::
  "pyval \<Rightarrow> pyval \<Rightarrow> pyval \<Rightarrow> profile \<Rightarrow> pyval io" where
  "vcfops_credential_update opts credential_id credential_spec profile =
     vcfops_api_put opts (vcfops_credential_CREDS @ ''/'' @ py_str credential_id) credential_spec profile"

definition vcfops_credential_delete :: "pyval \<Rightarrow> pyval \<Rightarrow> profile \<Rightarrow> pyval io" where
  "vcfops_credential_delete opts credential_id profile =
     vcfops_api_delete opts (vcfops_credential_CREDS @ ''/'' @ py_str credential_id) PNone profile"

definition vcfops_credential_kinds_list :: "pyval \<Rightarrow> profile \<Rightarrow> pyval io" where
  "vcfops_credential_kinds_list opts profile = vcfops_api_get opts vcfops_credential_KINDS PNone profile"

subsubsection \<open>\<open>clients/vcfops_deployment.py\<close>\<close>

definition vcfops_deployment_NODE_STATUS :: "string" where
  "vcfops_deployment_NODE_STATUS = ''/suite-api/api/deployment/node/status''"

definition vcfops_deployment_APPLICATIONS :: "string" where
  "vcfops_deployment_APPLICATIONS = ''/suite-api/api/applications''"

definition vcfops_deployment_node_status :: "pyval \<Rightarrow> profile \<Rightarrow> pyval io" where
  "vcfops_deployment_node_status opts profile = vcfops_api_get opts vcfops_deployment_NODE_STATUS PNone
    profile"

definition vcfops_deployment_applications_list :: "pyval \<Rightarrow> pyval \<Rightarrow> pyval \<Rightarrow> pyval io" where
  "vcfops_deployment_applications_list opts page page_size =
     vcfops_api_get opts vcfops_deployment_APPLICATIONS
       (PDict [(''page'', page), (''pageSize'', page_size)]) None"

definition vcfops_deployment_applications_get :: "pyval \<Rightarrow> pyval \<Rightarrow> pyval io" where
  "vcfops_deployment_applications_get opts app_id =
     vcfops_api_get opts (vcfops_deployment_APPLICATIONS @ ''/'' @ py_str app_id) PNone None"

definition vcfops_deployment_applications_get_or_none :: "pyval \<Rightarrow> pyval \<Rightarrow> pyval io" where
  "vcfops_deployment_applications_get_or_none opts app_id =
     none_if_missing (vcfops_deployment_applications_get opts app_id)"

subsubsection \<open>\<open>clients/vcfops_maintenance.py\<close>\<close>

definition vcfops_maintenance_PATH :: "string" where
  "vcfops_maintenance_PATH = ''/suite-api/api/maintenanceschedules''"

definition vcfops_maintenance_list :: "pyval \<Rightarrow> pyval \<Rightarrow> pyval \<Rightarrow> pyval io" where
  "vcfops_maintenance_list opts page page_size =
     vcfops_api_get opts vcfops_maintenance_PATH
       (PDict [(''page'', page), (''pageSize'', page_size)]) None"

definition vcfops_maintenance_get :: "pyval \<Rightarrow> pyval \<Rightarrow> pyval io" where
  "vcfops_maintenance_get opts schedule_id =
     vcfops_api_get opts (vcfops_maintenance_PATH @ ''/'' @ py_str schedule_id) PNone None"

definition vcfops_maintenance_get_or_none :: "pyval \<Rightarrow> pyval \<Rightarrow> pyval io" where
  "vcfops_maintenance_get_or_none opts schedule_id = none_if_missing (vcfops_maintenance_get opts
    schedule_id)"

definition vcfops_maintenance_create :: "pyval \<Rightarrow> pyval \<Rightarrow> pyval io" where
  "vcfops_maintenance_create opts schedule_spec =
     vcfops_api_post opts vcfops_maintenance_PATH schedule_spec PNone None"

definition vcfops_maintenance_update :: "pyval \<Rightarrow> pyval \<Rightarrow> pyval \<Rightarrow> pyval io" where
  "vcfops_maintenance_update opts schedule_id schedule_spec =
     vcfops_api_put opts (vcfops_maintenance_PATH @ ''/'' @ py_str schedule_id) schedule_spec None"

definition vcfops_maintenance_delete :: "pyval \<Rightarrow> pyval \<Rightarrow> pyval io" where
  "vcfops_maintenance_delete opts schedule_id =
     vcfops_api_delete opts (vcfops_maintenance_PATH @ ''/'' @ py_str schedule_id) PNone None"

subsubsection \<open>\<open>clients/vcfops_version.py\<close>\<close>

definition vcfops_version_get :: "pyval \<Rightarrow> pyval io" where
  "vcfops_version_get opts = vcfops_api_get opts ''/suite-api/api/versions'' PNone None"

subsection \<open>users, groups and roles\<close>

text \<open>
  The REST calls on authentication sources, users, groups, roles and privileges.

  One definition per function of the client modules; identifiers and other arguments are
  Python values, keyword arguments (\<open>**spec\<close>) a dict.
\<close>

subsubsection \<open>\<open>clients/vcfops_auth.py\<close>\<close>

definition vcfops_auth_SOURCES :: "string" where
  "vcfops_auth_SOURCES = ''/suite-api/api/auth/sources''"

definition vcfops_auth_ROLES :: "string" where
  "vcfops_auth_ROLES = ''/suite-api/api/auth/roles''"

definition vcfops_auth_PRIVILEGES :: "string" where
  "vcfops_auth_PRIVILEGES = ''/suite-api/api/auth/privileges''"

definition vcfops_auth_USERS :: "string" where
  "vcfops_auth_USERS = ''/suite-api/api/auth/users''"

definition vcfops_auth_USERGROUPS :: "string" where
  "vcfops_auth_USERGROUPS = ''/suite-api/api/auth/usergroups''"

definition vcfops_auth_sources_list :: "pyval \<Rightarrow> profile \<Rightarrow> pyval io" where
  "vcfops_auth_sources_list opts profile = vcfops_api_get opts vcfops_auth_SOURCES PNone profile"

definition vcfops_auth_sources_get :: "pyval \<Rightarrow> pyval \<Rightarrow> profile \<Rightarrow> pyval io" where
  "vcfops_auth_sources_get opts source_id profile =
     vcfops_api_get opts (vcfops_auth_SOURCES @ ''/'' @ py_str source_id) PNone profile"

definition vcfops_auth_sources_get_or_none :: "pyval \<Rightarrow> pyval \<Rightarrow> profile \<Rightarrow> pyval io" where
  "vcfops_auth_sources_get_or_none opts source_id profile =
     none_if_missing (vcfops_auth_sources_get opts source_id profile)"

definition vcfops_auth_roles_list :: "pyval \<Rightarrow> profile \<Rightarrow> pyval io" where
  "vcfops_auth_roles_list opts profile = vcfops_api_get opts vcfops_auth_ROLES PNone profile"

definition vcfops_auth_roles_get :: "pyval \<Rightarrow> pyval \<Rightarrow> profile \<Rightarrow> pyval io" where
  "vcfops_auth_roles_get opts role_name profile =
     vcfops_api_get opts (vcfops_auth_ROLES @ ''/'' @ py_str role_name) PNone profile"

definition vcfops_auth_roles_get_or_none :: "pyval \<Rightarrow> pyval \<Rightarrow> profile \<Rightarrow> pyval io" where
  "vcfops_auth_roles_get_or_none opts role_name profile =
     none_if_missing (vcfops_auth_roles_get opts role_name profile)"

definition vcfops_auth_roles_create :: "pyval \<Rightarrow> pyval \<Rightarrow> profile \<Rightarrow> pyval io" where
  "vcfops_auth_roles_create opts role_spec profile =
     vcfops_api_post opts vcfops_auth_ROLES role_spec PNone profile"

definition vcfops_auth_roles_delete :: "pyval \<Rightarrow> pyval \<Rightarrow> profile \<Rightarrow> pyval io" where
  "vcfops_auth_roles_delete opts role_name profile =
     vcfops_api_delete opts (vcfops_auth_ROLES @ ''/'' @ py_str role_name) PNone profile"

definition vcfops_auth_privileges_list :: "pyval \<Rightarrow> profile \<Rightarrow> pyval io" where
  "vcfops_auth_privileges_list opts profile = vcfops_api_get opts vcfops_auth_PRIVILEGES PNone profile"

definition vcfops_auth_users_list :: "pyval \<Rightarrow> profile \<Rightarrow> pyval io" where
  "vcfops_auth_users_list opts profile = vcfops_api_get opts vcfops_auth_USERS PNone profile"

definition vcfops_auth_users_get :: "pyval \<Rightarrow> pyval \<Rightarrow> profile \<Rightarrow> pyval io" where
  "vcfops_auth_users_get opts user_id profile =
     vcfops_api_get opts (vcfops_auth_USERS @ ''/'' @ py_str user_id) PNone profile"

definition vcfops_auth_users_get_or_none :: "pyval \<Rightarrow> pyval \<Rightarrow> profile \<Rightarrow> pyval io" where
  "vcfops_auth_users_get_or_none opts user_id profile =
     none_if_missing (vcfops_auth_users_get opts user_id profile)"

definition vcfops_auth_users_create :: "pyval \<Rightarrow> pyval \<Rightarrow> profile \<Rightarrow> pyval io" where
  "vcfops_auth_users_create opts user_spec profile =
     vcfops_api_post opts vcfops_auth_USERS user_spec PNone profile"

definition vcfops_auth_users_update ::
  "pyval \<Rightarrow> pyval \<Rightarrow> pyval \<Rightarrow> profile \<Rightarrow> pyval io" where
  "vcfops_auth_users_update opts user_id user_spec profile =
     vcfops_api_put opts (vcfops_auth_USERS @ ''/'' @ py_str user_id) user_spec profile"

definition vcfops_auth_users_delete :: "pyval \<Rightarrow> pyval \<Rightarrow> profile \<Rightarrow> pyval io" where
  "vcfops_auth_users_delete opts user_id profile =
     vcfops_api_delete opts (vcfops_auth_USERS @ ''/'' @ py_str user_id) PNone profile"

definition vcfops_auth_usergroups_list :: "pyval \<Rightarrow> profile \<Rightarrow> pyval io" where
  "vcfops_auth_usergroups_list opts profile = vcfops_api_get opts vcfops_auth_USERGROUPS PNone profile"

definition vcfops_auth_usergroups_get :: "pyval \<Rightarrow> pyval \<Rightarrow> profile \<Rightarrow> pyval io" where
  "vcfops_auth_usergroups_get opts group_id profile =
     vcfops_api_get opts (vcfops_auth_USERGROUPS @ ''/'' @ py_str group_id) PNone profile"

definition vcfops_auth_usergroups_get_or_none :: "pyval \<Rightarrow> pyval \<Rightarrow> profile \<Rightarrow> pyval io" where
  "vcfops_auth_usergroups_get_or_none opts group_id profile =
     none_if_missing (vcfops_auth_usergroups_get opts group_id profile)"

definition vcfops_auth_usergroups_create :: "pyval \<Rightarrow> pyval \<Rightarrow> profile \<Rightarrow> pyval io" where
  "vcfops_auth_usergroups_create opts group_spec profile =
     vcfops_api_post opts vcfops_auth_USERGROUPS group_spec PNone profile"

definition vcfops_auth_usergroups_delete :: "pyval \<Rightarrow> pyval \<Rightarrow> profile \<Rightarrow> pyval io" where
  "vcfops_auth_usergroups_delete opts group_id profile =
     vcfops_api_delete opts (vcfops_auth_USERGROUPS @ ''/'' @ py_str group_id) PNone profile"

subsection \<open>the resource clients\<close>

text \<open>
  The REST calls on resources and their groups, solutions, super metrics, tasks, policies, recommendations and the trust store.

  One definition per function of the client modules; identifiers and other arguments are
  Python values, keyword arguments (\<open>**spec\<close>) a dict.
\<close>

subsubsection \<open>\<open>clients/vcfops_resource.py\<close>\<close>

definition vcfops_resource_PATH :: "string" where
  "vcfops_resource_PATH = ''/suite-api/api/resources''"

definition vcfops_resource_list :: "pyval \<Rightarrow> pyval \<Rightarrow> pyval \<Rightarrow> dict \<Rightarrow> pyval io" where
  "vcfops_resource_list opts page page_size filters =
     (let params = [(''page'', page), (''pageSize'', page_size)] in
     let params = dupdate params filters in
     vcfops_api_get opts vcfops_resource_PATH (PDict params) None)"

definition vcfops_resource_get :: "pyval \<Rightarrow> pyval \<Rightarrow> pyval io" where
  "vcfops_resource_get opts resource_id =
     vcfops_api_get opts (vcfops_resource_PATH @ ''/'' @ py_str resource_id) PNone None"

definition vcfops_resource_get_or_none :: "pyval \<Rightarrow> pyval \<Rightarrow> pyval io" where
  "vcfops_resource_get_or_none opts resource_id = none_if_missing (vcfops_resource_get opts resource_id)"

definition vcfops_resource_relationships :: "pyval \<Rightarrow> pyval \<Rightarrow> dict \<Rightarrow> pyval io" where
  "vcfops_resource_relationships opts resource_id filters =
     vcfops_api_get opts (vcfops_resource_PATH @ ''/'' @ py_str resource_id @ ''/relationships'')
       (if filters = [] then PNone else PDict filters) None"

definition vcfops_resource_stats :: "pyval \<Rightarrow> pyval \<Rightarrow> dict \<Rightarrow> pyval io" where
  "vcfops_resource_stats opts resource_id filters =
     vcfops_api_get opts (vcfops_resource_PATH @ ''/'' @ py_str resource_id @ ''/stats'')
       (if filters = [] then PNone else PDict filters) None"

subsubsection \<open>\<open>clients/vcfops_resource_group.py\<close>\<close>

definition vcfops_resource_group_PATH :: "string" where
  "vcfops_resource_group_PATH = ''/suite-api/api/resources/groups''"

definition vcfops_resource_group_list :: "pyval \<Rightarrow> profile \<Rightarrow> pyval io" where
  "vcfops_resource_group_list opts profile = vcfops_api_get opts vcfops_resource_group_PATH PNone profile"

definition vcfops_resource_group_get :: "pyval \<Rightarrow> pyval \<Rightarrow> profile \<Rightarrow> pyval io" where
  "vcfops_resource_group_get opts group_id profile =
     vcfops_api_get opts (vcfops_resource_group_PATH @ ''/'' @ py_str group_id) PNone profile"

definition vcfops_resource_group_get_or_none :: "pyval \<Rightarrow> pyval \<Rightarrow> profile \<Rightarrow> pyval io" where
  "vcfops_resource_group_get_or_none opts group_id profile =
     none_if_missing (vcfops_resource_group_get opts group_id profile)"

definition vcfops_resource_group_create :: "pyval \<Rightarrow> pyval \<Rightarrow> profile \<Rightarrow> pyval io" where
  "vcfops_resource_group_create opts group_spec profile =
     vcfops_api_post opts vcfops_resource_group_PATH group_spec PNone profile"

definition vcfops_resource_group_update ::
  "pyval \<Rightarrow> pyval \<Rightarrow> pyval \<Rightarrow> profile \<Rightarrow> pyval io" where
  "vcfops_resource_group_update opts group_id group_spec profile =
     vcfops_api_put opts (vcfops_resource_group_PATH @ ''/'' @ py_str group_id) group_spec profile"

definition vcfops_resource_group_delete :: "pyval \<Rightarrow> pyval \<Rightarrow> profile \<Rightarrow> pyval io" where
  "vcfops_resource_group_delete opts group_id profile =
     vcfops_api_delete opts (vcfops_resource_group_PATH @ ''/'' @ py_str group_id) PNone profile"

definition vcfops_resource_group_members :: "pyval \<Rightarrow> pyval \<Rightarrow> profile \<Rightarrow> pyval io" where
  "vcfops_resource_group_members opts group_id profile =
     vcfops_api_get opts (vcfops_resource_group_PATH @ ''/'' @ py_str group_id @ ''/members'')
       PNone profile"

definition vcfops_resource_group_list_types :: "pyval \<Rightarrow> profile \<Rightarrow> pyval io" where
  "vcfops_resource_group_list_types opts profile =
     vcfops_api_get opts (vcfops_resource_group_PATH @ ''/types'') PNone profile"

subsubsection \<open>\<open>clients/vcfops_solution.py\<close>\<close>

definition vcfops_solution_PATH :: "string" where
  "vcfops_solution_PATH = ''/suite-api/api/solutions''"

definition vcfops_solution_list :: "pyval \<Rightarrow> pyval io" where
  "vcfops_solution_list opts = vcfops_api_get opts vcfops_solution_PATH PNone None"

definition vcfops_solution_get :: "pyval \<Rightarrow> pyval \<Rightarrow> pyval io" where
  "vcfops_solution_get opts solution_id =
     vcfops_api_get opts (vcfops_solution_PATH @ ''/'' @ py_str solution_id) PNone None"

definition vcfops_solution_get_or_none :: "pyval \<Rightarrow> pyval \<Rightarrow> pyval io" where
  "vcfops_solution_get_or_none opts solution_id = none_if_missing (vcfops_solution_get opts solution_id)"

subsubsection \<open>\<open>clients/vcfops_supermetric.py\<close>\<close>

definition vcfops_supermetric_PATH :: "string" where
  "vcfops_supermetric_PATH = ''/suite-api/api/supermetrics''"

definition vcfops_supermetric_list :: "pyval \<Rightarrow> pyval \<Rightarrow> pyval \<Rightarrow> pyval io" where
  "vcfops_supermetric_list opts page page_size =
     vcfops_api_get opts vcfops_supermetric_PATH
       (PDict [(''page'', page), (''pageSize'', page_size)]) None"

definition vcfops_supermetric_get :: "pyval \<Rightarrow> pyval \<Rightarrow> pyval io" where
  "vcfops_supermetric_get opts supermetric_id =
     vcfops_api_get opts (vcfops_supermetric_PATH @ ''/'' @ py_str supermetric_id) PNone None"

definition vcfops_supermetric_get_or_none :: "pyval \<Rightarrow> pyval \<Rightarrow> pyval io" where
  "vcfops_supermetric_get_or_none opts supermetric_id =
     none_if_missing (vcfops_supermetric_get opts supermetric_id)"

definition vcfops_supermetric_create :: "pyval \<Rightarrow> pyval \<Rightarrow> pyval io" where
  "vcfops_supermetric_create opts supermetric_spec =
     vcfops_api_post opts vcfops_supermetric_PATH supermetric_spec PNone None"

definition vcfops_supermetric_update :: "pyval \<Rightarrow> pyval \<Rightarrow> pyval \<Rightarrow> pyval io" where
  "vcfops_supermetric_update opts supermetric_id supermetric_spec =
     vcfops_api_put opts (vcfops_supermetric_PATH @ ''/'' @ py_str supermetric_id) supermetric_spec None"

definition vcfops_supermetric_delete :: "pyval \<Rightarrow> pyval \<Rightarrow> pyval io" where
  "vcfops_supermetric_delete opts supermetric_id =
     vcfops_api_delete opts (vcfops_supermetric_PATH @ ''/'' @ py_str supermetric_id) PNone None"

subsubsection \<open>\<open>clients/vcfops_task.py\<close>\<close>

definition vcfops_task_PATH :: "string" where
  "vcfops_task_PATH = ''/suite-api/api/tasks''"

definition vcfops_task_list :: "pyval \<Rightarrow> pyval \<Rightarrow> pyval \<Rightarrow> pyval io" where
  "vcfops_task_list opts page page_size =
     vcfops_api_get opts vcfops_task_PATH (PDict [(''page'', page), (''pageSize'', page_size)]) None"

definition vcfops_task_get :: "pyval \<Rightarrow> pyval \<Rightarrow> pyval io" where
  "vcfops_task_get opts task_id = vcfops_api_get opts (vcfops_task_PATH @ ''/'' @ py_str task_id) PNone
    None"

definition vcfops_task_get_or_none :: "pyval \<Rightarrow> pyval \<Rightarrow> pyval io" where
  "vcfops_task_get_or_none opts task_id = none_if_missing (vcfops_task_get opts task_id)"

subsubsection \<open>\<open>clients/vcfops_policy.py\<close>\<close>

definition vcfops_policy_POLICIES :: "string" where
  "vcfops_policy_POLICIES = ''/suite-api/api/policies''"

definition vcfops_policy_NOTIFICATIONS :: "string" where
  "vcfops_policy_NOTIFICATIONS = ''/suite-api/api/notifications/rules''"

definition vcfops_policy_list :: "pyval \<Rightarrow> pyval io" where
  "vcfops_policy_list opts = vcfops_api_get opts vcfops_policy_POLICIES PNone None"

definition vcfops_policy_get :: "pyval \<Rightarrow> pyval \<Rightarrow> pyval io" where
  "vcfops_policy_get opts policy_id =
     vcfops_api_get opts (vcfops_policy_POLICIES @ ''/'' @ py_str policy_id) PNone None"

definition vcfops_policy_get_or_none :: "pyval \<Rightarrow> pyval \<Rightarrow> pyval io" where
  "vcfops_policy_get_or_none opts policy_id = none_if_missing (vcfops_policy_get opts policy_id)"

definition vcfops_policy_notification_rules_list :: "pyval \<Rightarrow> pyval io" where
  "vcfops_policy_notification_rules_list opts = vcfops_api_get opts vcfops_policy_NOTIFICATIONS PNone
    None"

subsubsection \<open>\<open>clients/vcfops_recommendation.py\<close>\<close>

definition vcfops_recommendation_PATH :: "string" where
  "vcfops_recommendation_PATH = ''/suite-api/api/recommendations''"

definition vcfops_recommendation_list :: "pyval \<Rightarrow> pyval \<Rightarrow> pyval \<Rightarrow> pyval io" where
  "vcfops_recommendation_list opts page page_size =
     vcfops_api_get opts vcfops_recommendation_PATH
       (PDict [(''page'', page), (''pageSize'', page_size)]) None"

definition vcfops_recommendation_get :: "pyval \<Rightarrow> pyval \<Rightarrow> pyval io" where
  "vcfops_recommendation_get opts recommendation_id =
     vcfops_api_get opts (vcfops_recommendation_PATH @ ''/'' @ py_str recommendation_id) PNone None"

definition vcfops_recommendation_get_or_none :: "pyval \<Rightarrow> pyval \<Rightarrow> pyval io" where
  "vcfops_recommendation_get_or_none opts recommendation_id =
     none_if_missing (vcfops_recommendation_get opts recommendation_id)"

subsubsection \<open>\<open>clients/vcfops_certificate.py\<close>\<close>

definition vcfops_certificate_CERT :: "string" where
  "vcfops_certificate_CERT = ''/suite-api/api/certificate''"

definition vcfops_certificate_list :: "pyval \<Rightarrow> profile \<Rightarrow> pyval io" where
  "vcfops_certificate_list opts profile =
     bindM (vcfops_api_get opts vcfops_certificate_CERT PNone profile) (\<lambda>resp.
     bindM (liftR (py_get resp ''certificates'' (PList []))) (\<lambda>items.
     pureM (py_or items (PList []))))"

fun vcfops_certificate_find :: "pyval \<Rightarrow> pyval list \<Rightarrow> pyval res" where
  "vcfops_certificate_find thumbprint [] =
     Exc (KeyError (''certificate '' @ py_repr thumbprint @ '' not found in truststore''))"
| "vcfops_certificate_find thumbprint (cert # certs) =
     bindR (py_get cert ''thumbprint'' PNone) (\<lambda>t.
     if py_eq t thumbprint then Ok cert else vcfops_certificate_find thumbprint certs)"

definition vcfops_certificate_get :: "pyval \<Rightarrow> pyval \<Rightarrow> profile \<Rightarrow> pyval io" where
  "vcfops_certificate_get opts thumbprint profile =
     bindM (vcfops_certificate_list opts profile) (\<lambda>certs.
     liftR (bindR (py_iter certs) (vcfops_certificate_find thumbprint)))"

definition vcfops_certificate_get_or_none :: "pyval \<Rightarrow> pyval \<Rightarrow> profile \<Rightarrow> pyval io" where
  "vcfops_certificate_get_or_none opts thumbprint profile =
     tryM (vcfops_certificate_get opts thumbprint profile)
       (\<lambda>exc. case exc of KeyError _ \<Rightarrow> pureM PNone | _ \<Rightarrow> raiseM exc)"

definition vcfops_certificate_delete ::
  "pyval \<Rightarrow> pyval \<Rightarrow> pyval \<Rightarrow> profile \<Rightarrow> pyval io" where
  "vcfops_certificate_delete opts thumbprint force profile =
     (let params = [(''thumbprint'', thumbprint), (''force'', (if truthy force then PStr ''true'' else PStr
       ''false''))] in
     vcfops_api_delete opts vcfops_certificate_CERT (PDict params) profile)"

subsection \<open>the content clients\<close>

text \<open>
  The REST calls on alerts, dashboards, reports and webhooks.

  One definition per function of the client modules; identifiers and other arguments are
  Python values, keyword arguments (\<open>**spec\<close>) a dict.
\<close>

subsubsection \<open>\<open>clients/vcfops_alert.py\<close>\<close>

definition vcfops_alert_ALERTS :: "string" where
  "vcfops_alert_ALERTS = ''/suite-api/api/alertdefinitions''"

definition vcfops_alert_SYMPTOMS :: "string" where
  "vcfops_alert_SYMPTOMS = ''/suite-api/api/symptomdefinitions''"

definition vcfops_alert_ACTIVE :: "string" where
  "vcfops_alert_ACTIVE = ''/suite-api/api/alerts''"

definition vcfops_alert_alerts_list :: "pyval \<Rightarrow> pyval \<Rightarrow> pyval \<Rightarrow> pyval io" where
  "vcfops_alert_alerts_list opts page page_size =
     vcfops_api_get opts vcfops_alert_ALERTS (PDict [(''page'', page), (''pageSize'', page_size)]) None"

definition vcfops_alert_alerts_get :: "pyval \<Rightarrow> pyval \<Rightarrow> pyval io" where
  "vcfops_alert_alerts_get opts alert_id =
     vcfops_api_get opts (vcfops_alert_ALERTS @ ''/'' @ py_str alert_id) PNone None"

definition vcfops_alert_alerts_create :: "pyval \<Rightarrow> pyval \<Rightarrow> profile \<Rightarrow> pyval io" where
  "vcfops_alert_alerts_create opts spec profile = vcfops_api_post opts vcfops_alert_ALERTS spec PNone
    profile"

definition vcfops_alert_alerts_update ::
  "pyval \<Rightarrow> pyval \<Rightarrow> pyval \<Rightarrow> profile \<Rightarrow> pyval io" where
  "vcfops_alert_alerts_update opts alert_id spec profile =
     vcfops_api_put opts (vcfops_alert_ALERTS @ ''/'' @ py_str alert_id) spec profile"

definition vcfops_alert_alerts_delete :: "pyval \<Rightarrow> pyval \<Rightarrow> profile \<Rightarrow> pyval io" where
  "vcfops_alert_alerts_delete opts alert_id profile =
     vcfops_api_delete opts (vcfops_alert_ALERTS @ ''/'' @ py_str alert_id) PNone profile"

definition vcfops_alert_alerts_get_or_none :: "pyval \<Rightarrow> pyval \<Rightarrow> pyval io" where
  "vcfops_alert_alerts_get_or_none opts alert_id = none_if_missing (vcfops_alert_alerts_get opts
    alert_id)"

definition vcfops_alert_symptoms_list :: "pyval \<Rightarrow> pyval \<Rightarrow> pyval \<Rightarrow> pyval io" where
  "vcfops_alert_symptoms_list opts page page_size =
     vcfops_api_get opts vcfops_alert_SYMPTOMS (PDict [(''page'', page), (''pageSize'', page_size)]) None"

definition vcfops_alert_symptoms_get :: "pyval \<Rightarrow> pyval \<Rightarrow> pyval io" where
  "vcfops_alert_symptoms_get opts symptom_id =
     vcfops_api_get opts (vcfops_alert_SYMPTOMS @ ''/'' @ py_str symptom_id) PNone None"

definition vcfops_alert_symptoms_create :: "pyval \<Rightarrow> pyval \<Rightarrow> profile \<Rightarrow> pyval io" where
  "vcfops_alert_symptoms_create opts spec profile =
     vcfops_api_post opts vcfops_alert_SYMPTOMS spec PNone profile"

definition vcfops_alert_symptoms_update ::
  "pyval \<Rightarrow> pyval \<Rightarrow> pyval \<Rightarrow> profile \<Rightarrow> pyval io" where
  "vcfops_alert_symptoms_update opts symptom_id spec profile =
     vcfops_api_put opts (vcfops_alert_SYMPTOMS @ ''/'' @ py_str symptom_id) spec profile"

definition vcfops_alert_symptoms_delete :: "pyval \<Rightarrow> pyval \<Rightarrow> profile \<Rightarrow> pyval io" where
  "vcfops_alert_symptoms_delete opts symptom_id profile =
     vcfops_api_delete opts (vcfops_alert_SYMPTOMS @ ''/'' @ py_str symptom_id) PNone profile"

definition vcfops_alert_symptoms_get_or_none :: "pyval \<Rightarrow> pyval \<Rightarrow> pyval io" where
  "vcfops_alert_symptoms_get_or_none opts symptom_id =
     none_if_missing (vcfops_alert_symptoms_get opts symptom_id)"

definition vcfops_alert_active_list :: "pyval \<Rightarrow> pyval \<Rightarrow> pyval \<Rightarrow> pyval \<Rightarrow> pyval io" where
  "vcfops_alert_active_list opts page page_size params =
     (let base = [(''page'', page), (''pageSize'', page_size)] in
     bindM (liftR (if truthy params then bindR (py_dict params) (\<lambda>d. Ok (dupdate base d)) else Ok base)) (\<lambda>base.
     vcfops_api_get opts vcfops_alert_ACTIVE (PDict base) None))"

definition vcfops_alert_active_get :: "pyval \<Rightarrow> pyval \<Rightarrow> pyval io" where
  "vcfops_alert_active_get opts alert_id =
     vcfops_api_get opts (vcfops_alert_ACTIVE @ ''/'' @ py_str alert_id) PNone None"

definition vcfops_alert_active_get_or_none :: "pyval \<Rightarrow> pyval \<Rightarrow> pyval io" where
  "vcfops_alert_active_get_or_none opts alert_id = none_if_missing (vcfops_alert_active_get opts
    alert_id)"

subsubsection \<open>\<open>clients/vcfops_dashboard.py\<close>\<close>

definition vcfops_dashboard_DASH :: "string" where
  "vcfops_dashboard_DASH = ''/suite-api/api/dashboards''"

definition vcfops_dashboard_list :: "pyval \<Rightarrow> profile \<Rightarrow> pyval io" where
  "vcfops_dashboard_list opts profile = vcfops_api_get opts vcfops_dashboard_DASH PNone profile"

definition vcfops_dashboard_get :: "pyval \<Rightarrow> pyval \<Rightarrow> profile \<Rightarrow> pyval io" where
  "vcfops_dashboard_get opts dashboard_id profile =
     vcfops_api_get opts (vcfops_dashboard_DASH @ ''/'' @ py_str dashboard_id) PNone profile"

definition vcfops_dashboard_get_or_none :: "pyval \<Rightarrow> pyval \<Rightarrow> profile \<Rightarrow> pyval io" where
  "vcfops_dashboard_get_or_none opts dashboard_id profile =
     none_if_missing (vcfops_dashboard_get opts dashboard_id profile)"

definition vcfops_dashboard_create :: "pyval \<Rightarrow> pyval \<Rightarrow> profile \<Rightarrow> pyval io" where
  "vcfops_dashboard_create opts dashboard_spec profile =
     vcfops_api_post opts vcfops_dashboard_DASH dashboard_spec PNone profile"

definition vcfops_dashboard_update ::
  "pyval \<Rightarrow> pyval \<Rightarrow> pyval \<Rightarrow> profile \<Rightarrow> pyval io" where
  "vcfops_dashboard_update opts dashboard_id dashboard_spec profile =
     vcfops_api_put opts (vcfops_dashboard_DASH @ ''/'' @ py_str dashboard_id) dashboard_spec profile"

definition vcfops_dashboard_delete :: "pyval \<Rightarrow> pyval \<Rightarrow> profile \<Rightarrow> pyval io" where
  "vcfops_dashboard_delete opts dashboard_id profile =
     vcfops_api_delete opts (vcfops_dashboard_DASH @ ''/'' @ py_str dashboard_id) PNone profile"

definition vcfops_dashboard_share ::
  "pyval \<Rightarrow> pyval \<Rightarrow> pyval \<Rightarrow> profile \<Rightarrow> pyval io" where
  "vcfops_dashboard_share opts dashboard_id user_id profile =
     vcfops_api_post opts (vcfops_dashboard_DASH @ ''/'' @ py_str dashboard_id @ ''/share/'' @ py_str
       user_id)
       PNone PNone profile"

definition vcfops_dashboard_import :: "pyval \<Rightarrow> pyval \<Rightarrow> profile \<Rightarrow> pyval io" where
  "vcfops_dashboard_import opts spec profile =
     vcfops_api_post opts (vcfops_dashboard_DASH @ ''/import'') spec PNone profile"

subsubsection \<open>\<open>clients/vcfops_report.py\<close>\<close>

definition vcfops_report_PATH :: "string" where
  "vcfops_report_PATH = ''/suite-api/api/reports''"

definition vcfops_report_list :: "pyval \<Rightarrow> pyval \<Rightarrow> pyval \<Rightarrow> pyval io" where
  "vcfops_report_list opts page page_size =
     vcfops_api_get opts vcfops_report_PATH (PDict [(''page'', page), (''pageSize'', page_size)]) None"

definition vcfops_report_get :: "pyval \<Rightarrow> pyval \<Rightarrow> pyval io" where
  "vcfops_report_get opts report_id =
     vcfops_api_get opts (vcfops_report_PATH @ ''/'' @ py_str report_id) PNone None"

definition vcfops_report_get_or_none :: "pyval \<Rightarrow> pyval \<Rightarrow> pyval io" where
  "vcfops_report_get_or_none opts report_id = none_if_missing (vcfops_report_get opts report_id)"

definition vcfops_report_generate :: "pyval \<Rightarrow> pyval \<Rightarrow> pyval io" where
  "vcfops_report_generate opts report_spec = vcfops_api_post opts vcfops_report_PATH report_spec PNone
    None"

text \<open>The content of a report, its bytes as text.\<close>

definition vcfops_report_download :: "pyval \<Rightarrow> pyval \<Rightarrow> pyval \<Rightarrow> pyval io" where
  "vcfops_report_download opts report_id fmt =
     bindM (session_call (vcfops_session opts None) ''GET'' (vcfops_report_PATH @ ''/'' @ py_str report_id @ ''/download'')
       (PDict [(''format'', fmt)]) PNone (PInt 120)) (\<lambda>resp.
     pureM (case rs_text resp of Some t \<Rightarrow> PStr t | None \<Rightarrow> PNone))"

definition vcfops_report_delete :: "pyval \<Rightarrow> pyval \<Rightarrow> pyval io" where
  "vcfops_report_delete opts report_id =
     vcfops_api_delete opts (vcfops_report_PATH @ ''/'' @ py_str report_id) PNone None"

subsubsection \<open>\<open>clients/vcfops_webhook.py\<close>\<close>

definition vcfops_webhook_INSTANCES :: "string" where
  "vcfops_webhook_INSTANCES = ''/suite-api/api/outbound-instances''"

definition vcfops_webhook_RULES :: "string" where
  "vcfops_webhook_RULES = ''/suite-api/api/notifications/rules''"

definition vcfops_webhook_list ::
  "pyval \<Rightarrow> pyval \<Rightarrow> pyval \<Rightarrow> profile \<Rightarrow> pyval io" where
  "vcfops_webhook_list opts page page_size profile =
     vcfops_api_get opts vcfops_webhook_INSTANCES
       (PDict [(''page'', page), (''pageSize'', page_size)]) profile"

definition vcfops_webhook_get :: "pyval \<Rightarrow> pyval \<Rightarrow> profile \<Rightarrow> pyval io" where
  "vcfops_webhook_get opts instance_id profile =
     vcfops_api_get opts (vcfops_webhook_INSTANCES @ ''/'' @ py_str instance_id) PNone profile"

definition vcfops_webhook_get_or_none :: "pyval \<Rightarrow> pyval \<Rightarrow> profile \<Rightarrow> pyval io" where
  "vcfops_webhook_get_or_none opts instance_id profile =
     none_if_missing (vcfops_webhook_get opts instance_id profile)"

definition vcfops_webhook_create :: "pyval \<Rightarrow> pyval \<Rightarrow> profile \<Rightarrow> pyval io" where
  "vcfops_webhook_create opts instance_spec profile =
     vcfops_api_post opts vcfops_webhook_INSTANCES instance_spec PNone profile"

definition vcfops_webhook_update ::
  "pyval \<Rightarrow> pyval \<Rightarrow> pyval \<Rightarrow> profile \<Rightarrow> pyval io" where
  "vcfops_webhook_update opts instance_id instance_spec profile =
     vcfops_api_put opts (vcfops_webhook_INSTANCES @ ''/'' @ py_str instance_id) instance_spec profile"

definition vcfops_webhook_delete :: "pyval \<Rightarrow> pyval \<Rightarrow> profile \<Rightarrow> pyval io" where
  "vcfops_webhook_delete opts instance_id profile =
     vcfops_api_delete opts (vcfops_webhook_INSTANCES @ ''/'' @ py_str instance_id) PNone profile"

definition vcfops_webhook_list_rules ::
  "pyval \<Rightarrow> pyval \<Rightarrow> pyval \<Rightarrow> profile \<Rightarrow> pyval io" where
  "vcfops_webhook_list_rules opts page page_size profile =
     vcfops_api_get opts vcfops_webhook_RULES
       (PDict [(''page'', page), (''pageSize'', page_size)]) profile"

definition vcfops_webhook_get_rule :: "pyval \<Rightarrow> pyval \<Rightarrow> profile \<Rightarrow> pyval io" where
  "vcfops_webhook_get_rule opts rule_id profile =
     vcfops_api_get opts (vcfops_webhook_RULES @ ''/'' @ py_str rule_id) PNone profile"

definition vcfops_webhook_get_rule_or_none :: "pyval \<Rightarrow> pyval \<Rightarrow> profile \<Rightarrow> pyval io" where
  "vcfops_webhook_get_rule_or_none opts rule_id profile =
     none_if_missing (vcfops_webhook_get_rule opts rule_id profile)"

definition vcfops_webhook_create_rule :: "pyval \<Rightarrow> pyval \<Rightarrow> profile \<Rightarrow> pyval io" where
  "vcfops_webhook_create_rule opts rule_spec profile =
     vcfops_api_post opts vcfops_webhook_RULES rule_spec PNone profile"

definition vcfops_webhook_update_rule ::
  "pyval \<Rightarrow> pyval \<Rightarrow> pyval \<Rightarrow> profile \<Rightarrow> pyval io" where
  "vcfops_webhook_update_rule opts rule_id rule_spec profile =
     vcfops_api_put opts (vcfops_webhook_RULES @ ''/'' @ py_str rule_id) rule_spec profile"

definition vcfops_webhook_delete_rule :: "pyval \<Rightarrow> pyval \<Rightarrow> profile \<Rightarrow> pyval io" where
  "vcfops_webhook_delete_rule opts rule_id profile =
     vcfops_api_delete opts (vcfops_webhook_RULES @ ''/'' @ py_str rule_id) PNone profile"

end
