(* ===== verification/Fleet_Listing.thy ===== *)
theory Fleet_Listing
  imports Rest_Client
begin

section \<open>Fleet_Listing: paged listings with expiry dates\<close>

text \<open>
  What \<open>clients/vcfops_fleet_passwords.py\<close> and \<open>clients/vcfops_fleet_certificates.py\<close> write twice: the
  walk over the pages of a query, the date added to every record, and the buckets of \<open>check_expiry\<close>. The
  query and the key of its records are arguments.

  The wall clock is an argument (\<open>now\<close>, milliseconds since 1970), and so is the rendering of
  \<open>round(delta / 86400000, 1)\<close>, a float (\<open>days_of\<close>, a function of the milliseconds).
\<close>

subsection \<open>\<open>_iso\<close> and \<open>_enrich\<close>\<close>

text \<open>Year, month and day of a day counted from 1970-01-01, in the proleptic Gregorian calendar.\<close>

definition civil_date :: "int \<Rightarrow> int \<times> int \<times> int" where
  "civil_date days =
     (let z = days + 719468; era = z div 146097; doe = z mod 146097;
          yoe = (doe - doe div 1460 + doe div 36524 - doe div 146096) div 365;
          doy = doe - (365 * yoe + yoe div 4 - yoe div 100);
          mp = (5 * doy + 2) div 153;
          m = (if mp < 10 then mp + 3 else mp - 9)
      in (yoe + era * 400 + (if m \<le> 2 then 1 else 0), m, doy - (153 * mp + 2) div 5 + 1))"

definition two_digits :: "int \<Rightarrow> string" where
  "two_digits n = (if n < 10 then CHR ''0'' # int_str n else int_str n)"

text \<open>\<open>datetime.fromtimestamp(ms / 1000, tz=utc).strftime(...)\<close>, for the years 1000 to 9999.\<close>

definition iso_date :: "int \<Rightarrow> string res" where
  "iso_date ms =
     (let secs = ms div 1000; (y, m, d) = civil_date (secs div 86400); s = secs mod 86400 in
      if 1000 \<le> y \<and> y \<le> 9999 then
        Ok (int_str y @ ''-'' @ two_digits m @ ''-'' @ two_digits d @ ''T'' @ two_digits (s div 3600) @ '':''
          @ two_digits (s div 60 mod 60) @ '':'' @ two_digits (s mod 60) @ ''Z'')
      else Exc (ValueError (''year '' @ int_str y @ '' is out of range'')))"

definition fleet_iso :: "pyval \<Rightarrow> pyval res" where
  "fleet_iso ms =
     (if \<not> truthy ms then Ok PNone
      else
        (case py_num ms of
           Some n \<Rightarrow> bindR (iso_date n) (\<lambda>s. Ok (PStr s))
         | None \<Rightarrow> Exc (TypeError (''unsupported operand type(s) for /: '' @ repr_str (type_name ms) @ '' and ''
             @ repr_str ''int''))))"

definition fleet_enrich :: "pyval \<Rightarrow> pyval res" where
  "fleet_enrich record =
     bindR (py_dict record) (\<lambda>out.
     bindR (py_get record ''expiryDate'' PNone) (\<lambda>ms.
     bindR (fleet_iso ms) (\<lambda>s. Ok (PDict (dset out ''expiryDateIso'' s)))))"

subsection \<open>The walk over the pages\<close>

text \<open>
  One round: a page, its records, the total. The walk ends at an empty page or once it has as many
  records as the total says.
\<close>

definition fleet_round ::
  "(pyval \<Rightarrow> pyval io) \<Rightarrow> string \<Rightarrow> pyval list \<times> int \<Rightarrow> (pyval list \<times> pyval + pyval list \<times> int) io" where
  "fleet_round query key s =
     (case s of (records, page) \<Rightarrow>
     bindM (query (PInt page)) (\<lambda>resp.
     bindM (liftR (py_get resp key (PList []))) (\<lambda>c.
     let chunk = py_or c (PList []) in
     bindM (liftR (bindR (py_iter chunk) (mapR fleet_enrich))) (\<lambda>more.
     let records = records @ more; n = PInt (int (length records)) in
     bindM (liftR (py_get resp ''pageInfo'' empty_dict)) (\<lambda>i.
     bindM (liftR (py_get (py_or i empty_dict) ''totalCount'' n)) (\<lambda>tot.
     if \<not> truthy chunk then pureM (Inl (records, tot))
     else
       bindM (liftR (py_ge n tot)) (\<lambda>all_read.
       pureM (if all_read then Inl (records, tot) else Inr (records, page + 1)))))))))"

definition fleet_list :: "(pyval \<Rightarrow> pyval io) \<Rightarrow> string \<Rightarrow> string \<Rightarrow> pyval io" where
  "fleet_list query key field =
     bindM (loopM (fleet_round query key) ([], 0)) (\<lambda>(records, tot).
     pureM (PDict [(field, PList records), (''totalCount'', tot)]))"

text \<open>The keyword arguments \<open>**filters\<close> of a call to \<open>f\<close> that passes \<open>page\<close> itself.\<close>

fun filters_for :: "string \<Rightarrow> string list \<Rightarrow> dict \<Rightarrow> unit res" where
  "filters_for f allowed [] = Ok ()"
| "filters_for f allowed ((k, v) # d) =
     (if k = ''page'' then
        Exc (TypeError (f @ ''() got multiple values for keyword argument '' @ repr_str k))
      else if k \<in> set allowed then filters_for f allowed d
      else Exc (TypeError (f @ ''() got an unexpected keyword argument '' @ repr_str k)))"

subsection \<open>\<open>check_expiry\<close>\<close>

record buckets =
  bk_ok :: "pyval list"
  bk_expiring :: "pyval list"
  bk_no_expiry :: "pyval list"

definition bucket_step :: "(int \<Rightarrow> pyval) \<Rightarrow> int \<Rightarrow> int \<Rightarrow> pyval \<Rightarrow> buckets \<Rightarrow> buckets res" where
  "bucket_step days_of now threshold record b =
     bindR (py_get record ''expiryDate'' PNone) (\<lambda>e.
     let exp = py_or e (PInt 0) in
     if py_eq exp (PInt 0) then Ok (b\<lparr>bk_no_expiry := bk_no_expiry b @ [record]\<rparr>)
     else
       (case py_num exp of
          None \<Rightarrow> Exc (TypeError (''unsupported operand type(s) for -: '' @ repr_str (type_name exp) @ '' and ''
            @ repr_str ''float''))
        | Some n \<Rightarrow>
            let delta = n - now in
            bindR (py_dict record) (\<lambda>d.
            let bucketed = PDict (dset d ''daysUntilExpiry'' (days_of delta)) in
            Ok (if delta \<le> threshold then b\<lparr>bk_expiring := bk_expiring b @ [bucketed]\<rparr>
                else b\<lparr>bk_ok := bk_ok b @ [bucketed]\<rparr>))))"

fun bucket_all :: "(int \<Rightarrow> pyval) \<Rightarrow> int \<Rightarrow> int \<Rightarrow> pyval list \<Rightarrow> buckets \<Rightarrow> buckets res" where
  "bucket_all days_of now threshold [] b = Ok b"
| "bucket_all days_of now threshold (record # records) b =
     bindR (bucket_step days_of now threshold record b) (bucket_all days_of now threshold records)"

definition expiry_report :: "buckets \<Rightarrow> pyval \<Rightarrow> int \<Rightarrow> pyval" where
  "expiry_report b tot threshold_days =
     PDict [(''ok'', PList (bk_ok b)), (''expiring'', PList (bk_expiring b)), (''noExpiry'', PList (bk_no_expiry b)),
       (''okCount'', PInt (int (length (bk_ok b)))), (''expiringCount'', PInt (int (length (bk_expiring b)))),
       (''noExpiryCount'', PInt (int (length (bk_no_expiry b)))), (''totalCount'', tot),
       (''expiryThresholdDays'', PInt threshold_days)]"

text \<open>\<open>list_\<close> of the module, its listing sorted into the buckets; \<open>field\<close> is the key of the records.\<close>

definition fleet_check_expiry :: "pyval io \<Rightarrow> string \<Rightarrow> (int \<Rightarrow> pyval) \<Rightarrow> int \<Rightarrow> int \<Rightarrow> pyval io" where
  "fleet_check_expiry listing field days_of now threshold_days =
     bindM listing (\<lambda>l.
     bindM (liftR (bindR (py_item l field) py_iter)) (\<lambda>records.
     bindM (liftR (bucket_all days_of now (threshold_days * 86400 * 1000) records
         \<lparr>bk_ok = [], bk_expiring = [], bk_no_expiry = []\<rparr>)) (\<lambda>b.
     bindM (liftR (py_item l ''totalCount'')) (\<lambda>tot.
     pureM (expiry_report b tot threshold_days)))))"

subsection \<open>Dates\<close>

lemma iso_dates:
  "iso_date 0 = Ok ''1970-01-01T00:00:00Z''" "iso_date (- 1) = Ok ''1969-12-31T23:59:59Z''"
  "iso_date 951782400000 = Ok ''2000-02-29T00:00:00Z''" "iso_date 1772323199999 = Ok ''2026-02-28T23:59:59Z''"
  "iso_date 1772323200000 = Ok ''2026-03-01T00:00:00Z''" "iso_date 4102444799000 = Ok ''2099-12-31T23:59:59Z''"
  by code_simp+

subsection \<open>The contract of a query\<close>

text \<open>A page of a listing of \<open>L\<close> with \<open>n\<close> records per page.\<close>

definition page_body :: "string \<Rightarrow> nat \<Rightarrow> pyval list \<Rightarrow> nat \<Rightarrow> pyval" where
  "page_body key n L pg =
     PDict [(key, PList (take n (drop (pg * n) L))), (''pageInfo'', PDict [(''totalCount'', PInt (int (length L)))])]"

text \<open>
  The contract of a query: as long as the service \<open>holds\<close> the listing, it answers with its pages, one
  request each.
\<close>

locale paged_listing =
  fixes query :: "pyval \<Rightarrow> pyval io" and key :: string and holds :: "pyval list \<Rightarrow> world \<Rightarrow> bool" and n :: nat
  assumes page: "holds L w \<Longrightarrow>
      \<exists>w' rq. query (PInt (int pg)) w = Some (Ok (page_body key n L pg), w') \<and> holds L w' \<and> sent w' = sent w @ [rq]"
    and size: "0 < n"
    and key: "key \<noteq> ''pageInfo''"
begin

lemma round:
  assumes "holds L w" "mapR fleet_enrich L = Ok E" "pg * n \<le> length L"
  shows "\<exists>w' rq. fleet_round query key (take (pg * n) E, int pg) w =
      Some (Ok (if length L \<le> Suc pg * n then Inl (E, PInt (int (length L))) else Inr (take (Suc pg * n) E, int (Suc pg))), w') \<and>
    holds L w' \<and> sent w' = sent w @ [rq]"
proof -
  let ?chunk = "take n (drop (pg * n) L)"
  from page [OF assms(1), of pg] obtain w' rq where
    q: "query (PInt (int pg)) w = Some (Ok (page_body key n L pg), w')" "holds L w'" "sent w' = sent w @ [rq]" by blast
  have len: "length E = length L" using assms(2) by (simp add: mapR_iff list_all2_lengthD)
  have more: "mapR fleet_enrich ?chunk = Ok (take n (drop (pg * n) E))"
    using assms(2) by (simp add: mapR_iff list_all2_takeI list_all2_dropI)
  have app: "take (pg * n) E @ take n (drop (pg * n) E) = take (Suc pg * n) E"
    using take_add [of "pg * n" n E] by (simp add: add.commute)
  have count: "length (take (Suc pg * n) E) = min (Suc pg * n) (length L)"
    using len by (simp add: min.commute)
  have iter: "py_iter (py_or (PList xs) (PList [])) = Ok xs" for xs by (cases xs) simp_all
  have truth: "truthy (py_or (PList xs) (PList [])) = (xs \<noteq> [])" for xs by (cases xs) simp_all
  have empty: "?chunk = [] \<Longrightarrow> length L \<le> Suc pg * n" using size by auto
  have full: "length L \<le> Suc pg * n \<Longrightarrow> take (Suc pg * n) E = E" using len by simp
  have "fleet_round query key (take (pg * n) E, int pg) w =
      Some (Ok (if length L \<le> Suc pg * n then Inl (E, PInt (int (length L))) else Inr (take (Suc pg * n) E, int (Suc pg))), w')"
    using q(1) key more app count iter truth empty full
    by (auto simp: fleet_round_def page_body_def Let_def min_def)
  with q show ?thesis by blast
qed

lemma walk:
  assumes "holds L w" "mapR fleet_enrich L = Ok E" "pg * n < length L \<or> pg = 0"
  shows "\<exists>w' rqs. loopM (fleet_round query key) (take (pg * n) E, int pg) w = Some (Ok (E, PInt (int (length L))), w') \<and>
    holds L w' \<and> sent w' = sent w @ rqs \<and> pg + length rqs = max 1 ((length L + n - 1) div n)"
  using assms
proof (induction "length L - pg * n" arbitrary: pg w rule: less_induct)
  case less
  from less.prems(3) have "pg * n \<le> length L" by auto
  from round [OF less.prems(1,2) this] obtain w1 rq where
    r: "fleet_round query key (take (pg * n) E, int pg) w =
      Some (Ok (if length L \<le> Suc pg * n then Inl (E, PInt (int (length L))) else Inr (take (Suc pg * n) E, int (Suc pg))), w1)"
    "holds L w1" "sent w1 = sent w @ [rq]" by blast
  show ?case
  proof (cases "length L \<le> Suc pg * n")
    case True
    have "Suc pg = max 1 ((length L + n - 1) div n)"
    proof (cases "length L = 0")
      case True
      with less.prems(3) size show ?thesis by simp
    next
      case False
      with less.prems(3) have "pg * n < length L" by auto
      with True size have "(length L + n - 1) div n = Suc pg"
        by (intro div_nat_eqI) (simp_all add: algebra_simps)
      then show ?thesis by simp
    qed
    then show ?thesis
      using r True by (intro exI [of _ w1] exI [of _ "[rq]"]) (simp add: loopM.simps [of _ "(take (pg * n) E, int pg)"])
  next
    case False
    from size False have "length L - Suc pg * n < length L - pg * n" by simp
    from less.hyps [OF this r(2) less.prems(2)] False obtain w' rqs where
      "loopM (fleet_round query key) (take (Suc pg * n) E, int (Suc pg)) w1 = Some (Ok (E, PInt (int (length L))), w')"
      "holds L w'" "sent w' = sent w1 @ rqs" "Suc pg + length rqs = max 1 ((length L + n - 1) div n)"
      by auto
    then show ?thesis
      using r False by (intro exI [of _ w'] exI [of _ "rq # rqs"]) (simp add: loopM.simps [of _ "(take (pg * n) E, int pg)"])
  qed
qed

lemma complete:
  assumes "holds L w" "mapR fleet_enrich L = Ok E"
  shows "\<exists>w' rqs. fleet_list query key field w = Some (Ok (PDict [(field, PList E), (''totalCount'', PInt (int (length L)))]), w') \<and>
    holds L w' \<and> sent w' = sent w @ rqs \<and> length rqs = max 1 ((length L + n - 1) div n)"
  using walk [OF assms, of 0] by (auto simp: fleet_list_def)

end

subsection \<open>The buckets\<close>

text \<open>A record whose date is a number or missing, its date, and the record with its days.\<close>

fun dated :: "pyval \<Rightarrow> bool" where
  "dated (PDict d) = (case dget d ''expiryDate'' PNone of PNone \<Rightarrow> True | PInt n \<Rightarrow> True | _ \<Rightarrow> False)"
| "dated v = False"

fun expiry_of :: "pyval \<Rightarrow> int" where
  "expiry_of (PDict d) = (case dget d ''expiryDate'' PNone of PInt n \<Rightarrow> n | _ \<Rightarrow> 0)"
| "expiry_of v = 0"

fun with_days :: "(int \<Rightarrow> pyval) \<Rightarrow> int \<Rightarrow> pyval \<Rightarrow> pyval" where
  "with_days days_of now (PDict d) = PDict (dset d ''daysUntilExpiry'' (days_of (expiry_of (PDict d) - now)))"
| "with_days days_of now v = v"

definition buckets_of :: "(int \<Rightarrow> pyval) \<Rightarrow> int \<Rightarrow> int \<Rightarrow> pyval list \<Rightarrow> buckets" where
  "buckets_of days_of now threshold rs =
     \<lparr>bk_ok = map (with_days days_of now) (filter (\<lambda>r. expiry_of r \<noteq> 0 \<and> now + threshold < expiry_of r) rs),
      bk_expiring = map (with_days days_of now) (filter (\<lambda>r. expiry_of r \<noteq> 0 \<and> expiry_of r \<le> now + threshold) rs),
      bk_no_expiry = filter (\<lambda>r. expiry_of r = 0) rs\<rparr>"

definition join_buckets :: "buckets \<Rightarrow> buckets \<Rightarrow> buckets" where
  "join_buckets a b = \<lparr>bk_ok = bk_ok a @ bk_ok b, bk_expiring = bk_expiring a @ bk_expiring b,
     bk_no_expiry = bk_no_expiry a @ bk_no_expiry b\<rparr>"

lemma bucket_step_dated:
  assumes "dated r"
  shows "bucket_step days_of now threshold r b = Ok (join_buckets b (buckets_of days_of now threshold [r]))"
proof -
  from assms obtain d where r: "r = PDict d" by (cases r) auto
  from assms r consider "dget d ''expiryDate'' PNone = PNone" | n where "dget d ''expiryDate'' PNone = PInt n"
    by (cases "dget d ''expiryDate'' PNone") auto
  then show ?thesis
    by cases (auto simp: r bucket_step_def join_buckets_def buckets_of_def Let_def py_or_def)
qed

lemma bucket_all_dated:
  "list_all dated rs \<Longrightarrow>
   bucket_all days_of now threshold rs b = Ok (join_buckets b (buckets_of days_of now threshold rs))"
proof (induction rs arbitrary: b)
  case Nil
  then show ?case by (simp add: join_buckets_def buckets_of_def)
next
  case (Cons r rs)
  then show ?case by (simp add: bucket_step_dated) (simp add: join_buckets_def buckets_of_def)
qed

text \<open>The buckets are a partition: each record is in one of them.\<close>

lemma buckets_partition:
  fixes days_of now threshold rs
  defines "b \<equiv> buckets_of days_of now threshold rs"
  shows "length (bk_ok b) + length (bk_expiring b) + length (bk_no_expiry b) = length rs"
  unfolding b_def buckets_of_def by (induction rs) auto

end
