(* ===== verification/Vcfops_Fleet.thy ===== *)
theory Vcfops_Fleet
  imports Vcfops Fleet_Listing
begin

section \<open>Vcfops_Fleet: VCF Operations: fleet passwords and certificates\<close>

text \<open>
  The passwords and certificates of a fleet: queries, paged listings, expiry, rotation and replacement.

  One definition per function of the client modules; identifiers and other arguments are
  Python values, keyword arguments (\<open>**spec\<close>) a dict.
\<close>

subsection \<open>\<open>clients/vcfops_fleet_passwords.py\<close>\<close>

definition vcfops_fleet_passwords_BASE :: "string" where
  "vcfops_fleet_passwords_BASE = ''/suite-api/api/fleet-management/password-management''"

definition vcfops_fleet_passwords_DEFAULT_EXPIRY_THRESHOLD_DAYS :: int where
  "vcfops_fleet_passwords_DEFAULT_EXPIRY_THRESHOLD_DAYS = 90"

definition vcfops_fleet_passwords_query_accounts ::
  "pyval \<Rightarrow> pyval \<Rightarrow> pyval \<Rightarrow> pyval \<Rightarrow> pyval \<Rightarrow> pyval
    \<Rightarrow> pyval \<Rightarrow> pyval \<Rightarrow> pyval \<Rightarrow> pyval \<Rightarrow> profile \<Rightarrow> pyval io" where
  "vcfops_fleet_passwords_query_accounts opts appliance appliance_fqdn status username vcf_domain_id page page_size
    sort_by sort_order profile =
     (let body = [] :: dict in
     let body = (if appliance \<noteq> PNone then dset body ''appliance'' appliance else body) in
     let body = (if appliance_fqdn \<noteq> PNone then dset body ''applianceFqdn'' appliance_fqdn else body) in
     let body = (if status \<noteq> PNone then dset body ''status'' status else body) in
     let body = (if username \<noteq> PNone then dset body ''username'' username else body) in
     let body = (if vcf_domain_id \<noteq> PNone then dset body ''vcfDomainId'' vcf_domain_id else body) in
     let params = [(''page'', page), (''pageSize'', page_size)] in
     let params = (if sort_by \<noteq> PNone then dset params ''sortBy'' sort_by else params) in
     let params = (if sort_order \<noteq> PNone then dset params ''sortOrder'' sort_order else params) in
     vcfops_api_post opts (vcfops_fleet_passwords_BASE @ ''/accounts/query'')
       (PDict body) (PDict params) profile)"

definition vcfops_fleet_passwords_list :: "pyval \<Rightarrow> profile \<Rightarrow> pyval \<Rightarrow> dict \<Rightarrow> pyval io" where
  "vcfops_fleet_passwords_list opts profile page_size filters =
     bindM (liftR (filters_for ''query_accounts'' [''appliance'', ''appliance_fqdn'', ''status'', ''username'', ''vcf_domain_id'', ''sort_by'', ''sort_order'']
       filters)) (\<lambda>_.
     let arg = (\<lambda>k. dget filters k PNone) in
     fleet_list (\<lambda>page. vcfops_fleet_passwords_query_accounts opts (arg ''appliance'') (arg ''appliance_fqdn'') (arg ''status'') (arg ''username'')
         (arg ''vcf_domain_id'') page page_size (arg ''sort_by'') (arg ''sort_order'') profile)
       ''vcfPasswordAccounts'' ''accounts'')"

definition vcfops_fleet_passwords_get_account :: "pyval \<Rightarrow> pyval \<Rightarrow> profile \<Rightarrow> pyval io" where
  "vcfops_fleet_passwords_get_account opts password_account_key profile =
     bindM (vcfops_fleet_passwords_list opts profile (PInt 100) []) (\<lambda>l.
     liftR (bindR (bindR (py_item l ''accounts'') py_iter) (find_by ''passwordAccountKey'' password_account_key)))"

definition vcfops_fleet_passwords_check_expiry ::
  "(int \<Rightarrow> pyval) \<Rightarrow> int \<Rightarrow> pyval \<Rightarrow> int \<Rightarrow> profile \<Rightarrow> dict \<Rightarrow> pyval io" where
  "vcfops_fleet_passwords_check_expiry days_of now opts threshold_days profile filters =
     fleet_check_expiry
       (vcfops_fleet_passwords_list opts profile (dget filters ''page_size'' (PInt 100)) (ddel filters ''page_size''))
       ''accounts'' days_of now threshold_days"

definition vcfops_fleet_passwords_update ::
  "pyval \<Rightarrow> pyval \<Rightarrow> pyval \<Rightarrow> pyval \<Rightarrow> pyval \<Rightarrow> profile \<Rightarrow> pyval io" where
  "vcfops_fleet_passwords_update opts password_account_key current_password new_password username profile
    =
     (let body = [(''currentPassword'', current_password), (''newPassword'', new_password)] in
     let body = (if username \<noteq> PNone then dset body ''userName'' username else body) in
     vcfops_api_put opts (vcfops_fleet_passwords_BASE @ ''/accounts/'' @ py_str password_account_key @
       ''/password'')
       (PDict body) profile)"

subsection \<open>\<open>clients/vcfops_fleet_certificates.py\<close>\<close>

definition vcfops_fleet_certificates_BASE :: "string" where
  "vcfops_fleet_certificates_BASE = ''/suite-api/api/fleet-management/certificate-management''"

definition vcfops_fleet_certificates_DEFAULT_EXPIRY_THRESHOLD_DAYS :: int where
  "vcfops_fleet_certificates_DEFAULT_EXPIRY_THRESHOLD_DAYS = 90"

text \<open>\<open>_iso\<close> and \<open>_enrich\<close> are those of the passwords.\<close>

definition vcfops_fleet_certificates_enrich :: "pyval \<Rightarrow> pyval res" where
  "vcfops_fleet_certificates_enrich = fleet_enrich"

definition vcfops_fleet_certificates_query_certificates ::
  "pyval \<Rightarrow> pyval \<Rightarrow> pyval \<Rightarrow> pyval \<Rightarrow> pyval \<Rightarrow> pyval \<Rightarrow> pyval \<Rightarrow> profile \<Rightarrow> pyval io" where
  "vcfops_fleet_certificates_query_certificates opts appliance appliance_fqdn status category page page_size profile
    =
     (let body = [] :: dict in
     let body = (if appliance \<noteq> PNone then dset body ''appliance'' appliance else body) in
     let body = (if appliance_fqdn \<noteq> PNone then dset body ''applianceFqdn'' appliance_fqdn else body) in
     let body = (if status \<noteq> PNone then dset body ''status'' status else body) in
     let body = (if category \<noteq> PNone then dset body ''category'' category else body) in
     let params = [(''page'', page), (''pageSize'', page_size)] in
     vcfops_api_post opts (vcfops_fleet_certificates_BASE @ ''/certificates/query'')
       (PDict body) (PDict params) profile)"

definition vcfops_fleet_certificates_list :: "pyval \<Rightarrow> profile \<Rightarrow> pyval \<Rightarrow> dict \<Rightarrow> pyval io" where
  "vcfops_fleet_certificates_list opts profile page_size filters =
     bindM (liftR (filters_for ''query_certificates'' [''appliance'', ''appliance_fqdn'', ''status'', ''category'']
       filters)) (\<lambda>_.
     let arg = (\<lambda>k. dget filters k PNone) in
     fleet_list (\<lambda>page. vcfops_fleet_certificates_query_certificates opts (arg ''appliance'') (arg ''appliance_fqdn'') (arg ''status'') (arg ''category'')
         page page_size profile)
       ''vcfCertificateModels'' ''certificates'')"

definition vcfops_fleet_certificates_get :: "pyval \<Rightarrow> pyval \<Rightarrow> profile \<Rightarrow> pyval io" where
  "vcfops_fleet_certificates_get opts certificate_resource_key profile =
     bindM (vcfops_api_get opts (vcfops_fleet_certificates_BASE @ ''/certificates/'' @ py_str certificate_resource_key)
       PNone profile) (\<lambda>resp.
     if truthy resp then liftR (vcfops_fleet_certificates_enrich resp) else pureM PNone)"

definition vcfops_fleet_certificates_check_expiry ::
  "(int \<Rightarrow> pyval) \<Rightarrow> int \<Rightarrow> pyval \<Rightarrow> int \<Rightarrow> profile \<Rightarrow> dict \<Rightarrow> pyval io" where
  "vcfops_fleet_certificates_check_expiry days_of now opts threshold_days profile filters =
     fleet_check_expiry
       (vcfops_fleet_certificates_list opts profile (dget filters ''page_size'' (PInt 100)) (ddel filters ''page_size''))
       ''certificates'' days_of now threshold_days"

definition vcfops_fleet_certificates_replace ::
  "pyval \<Rightarrow> pyval \<Rightarrow> pyval \<Rightarrow> pyval \<Rightarrow> profile \<Rightarrow> pyval io" where
  "vcfops_fleet_certificates_replace opts certificate_resource_key ca_type certificate_chain profile =
     (let body = [(''caType'', ca_type)] in
     let body = (if certificate_chain \<noteq> PNone then dset body ''certificateChain'' certificate_chain else
       body) in
     vcfops_api_put opts (vcfops_fleet_certificates_BASE @ ''/certificates/'' @ py_str
       certificate_resource_key)
       (PDict body) profile)"

definition vcfops_fleet_certificates_list_csrs :: "pyval \<Rightarrow> pyval \<Rightarrow> profile \<Rightarrow> pyval io" where
  "vcfops_fleet_certificates_list_csrs opts common_name profile =
     (let params = [] :: dict in
     let params = (if common_name \<noteq> PNone then dset params ''commonName'' common_name else params) in
     bindM (vcfops_api_get opts (vcfops_fleet_certificates_BASE @ ''/csrs'')
       (if params = [] then PNone else PDict params) profile) (\<lambda>resp.
     bindM (liftR (py_get resp ''certificateSignatureInfo'' (PList []))) (\<lambda>items.
     pureM (py_or items (PList [])))))"

definition vcfops_fleet_certificates_generate_csr ::
  "pyval \<Rightarrow> pyval \<Rightarrow> pyval \<Rightarrow> pyval \<Rightarrow> pyval \<Rightarrow> pyval
    \<Rightarrow> pyval \<Rightarrow> pyval \<Rightarrow> pyval \<Rightarrow> pyval \<Rightarrow> pyval \<Rightarrow> pyval \<Rightarrow> profile \<Rightarrow> pyval io" where
  "vcfops_fleet_certificates_generate_csr opts certificate_resource_key common_name organization org_unit locality
    st country subject_alt_names email key_size key_algorithm profile =
     (let spec = [(''commonName'', common_name), (''organization'', organization), (''orgUnit'', org_unit),
       (''locality'', locality), (''state'', st), (''country'', country), (''keySize'', key_size),
        (''keyAlgorithm'', key_algorithm)] in
     let spec = (if email \<noteq> PNone then dset spec ''email'' email else spec) in
     let spec = (if subject_alt_names \<noteq> PNone then dset spec ''subjectAltNames'' subject_alt_names else spec)
       in
     let body = [(''certificateId'', certificate_resource_key), (''generateCsrSpec'', PDict spec)] in
     vcfops_api_post opts (vcfops_fleet_certificates_BASE @ ''/csrs'') (PDict body) PNone profile)"

definition vcfops_fleet_certificates_get_certificate_authorities :: "pyval \<Rightarrow> profile \<Rightarrow> pyval io" where
  "vcfops_fleet_certificates_get_certificate_authorities opts profile =
     vcfops_api_get opts (vcfops_fleet_certificates_BASE @ ''/certificate-authorities'') PNone profile"

definition vcfops_fleet_certificates_configure_certificate_authorities ::
  "pyval \<Rightarrow> pyval \<Rightarrow> profile \<Rightarrow> pyval io" where
  "vcfops_fleet_certificates_configure_certificate_authorities opts config profile =
     vcfops_api_put opts (vcfops_fleet_certificates_BASE @ ''/certificate-authorities'') config profile"

subsection \<open>The queries follow the contract of a paged listing\<close>

text \<open>
  The service at \<open>url\<close> holds the records \<open>L\<close> under \<open>key\<close>: whenever a page is asked for, it answers with
  that page of \<open>L\<close> and the number of all.
\<close>

definition serves_pages :: "string \<Rightarrow> string \<Rightarrow> nat \<Rightarrow> pyval list \<Rightarrow> world \<Rightarrow> bool" where
  "serves_pages url key n L w \<longleftrightarrow>
     (\<forall>t h rq pg params. rq_method rq = ''POST'' \<and> rq_url rq = url \<and>
        rq_params rq = PDict ((''page'', PInt (int pg)) # (''pageSize'', PInt (int n)) # params) \<longrightarrow>
        (\<exists>d r. net w t (h @ [rq]) = Reply d r \<and> rs_error r = None \<and> has_content r \<and>
           json_value r = Some (page_body key n L pg)))"

definition vcfops_holds :: "pyval \<Rightarrow> profile \<Rightarrow> string \<Rightarrow> string \<Rightarrow> nat \<Rightarrow> pyval list \<Rightarrow> world \<Rightarrow> bool" where
  "vcfops_holds opts p path key n L w \<longleftrightarrow>
     (\<exists>cfg tok. vcfops_get_config opts p = Ok cfg \<and> cache_get Vcfops_Cache (host_user_key cfg) w = Some (CToken tok) \<and>
        serves_pages (https_url (cfg_host cfg) path) key n L w)"

lemma vcfops_post_page:
  assumes "vcfops_holds opts p path key n L w"
  shows "\<exists>w' rq. vcfops_api_post opts path body (PDict ((''page'', PInt (int pg)) # (''pageSize'', PInt (int n)) # params)) p w =
      Some (Ok (page_body key n L pg), w') \<and> vcfops_holds opts p path key n L w' \<and> sent w' = sent w @ [rq]"
proof -
  from assms obtain cfg tok where cfg: "vcfops_get_config opts p = Ok cfg"
    "cache_get Vcfops_Cache (host_user_key cfg) w = Some (CToken tok)"
    and pages: "serves_pages (https_url (cfg_host cfg) path) key n L w"
    by (auto simp: vcfops_holds_def)
  let ?s = "session_with (cfg_verify_ssl cfg)
    [(''Authorization'', PStr (''vRealizeOpsToken '' @ py_str tok)), (''Accept'', PStr ''application/json'')]"
  let ?rq = "session_rq ?s ''POST'' (https_url (cfg_host cfg) path)
    (PDict ((''page'', PInt (int pg)) # (''pageSize'', PInt (int n)) # params)) body [] (PInt 30)"
  have "vcfops_session opts p w = Some (Ok (?s, cfg_host cfg), w)"
    using cfg by (simp add: vcfops_session_def vcfops_get_token_def cached_login_hit)
  moreover have "rq_method ?rq = ''POST''" "rq_url ?rq = https_url (cfg_host cfg) path"
    "rq_params ?rq = PDict ((''page'', PInt (int pg)) # (''pageSize'', PInt (int n)) # params)"
    by (simp_all add: session_rq_def)
  with pages obtain d r where "net w (clock w) (sent w @ [?rq]) = Reply d r" "rs_error r = None" "has_content r"
    "json_value r = Some (page_body key n L pg)"
    unfolding serves_pages_def by blast
  ultimately have "vcfops_api_post opts path body (PDict ((''page'', PInt (int pg)) # (''pageSize'', PInt (int n)) # params)) p w =
      Some (Ok (page_body key n L pg), w\<lparr>sent := sent w @ [?rq], clock := clock w + int d\<rparr>)"
    by (simp add: vcfops_api_post_def session_call_def session_request_def http_send_def raise_for_status_def
        json_or_empty_def response_json_def)
  moreover have "vcfops_holds opts p path key n L (w\<lparr>sent := sent w @ [?rq], clock := clock w + int d\<rparr>)"
    using cfg pages by (auto simp: vcfops_holds_def serves_pages_def)
  ultimately show ?thesis by (intro exI conjI) (assumption | simp)+
qed

lemma paged_query:
  assumes shape: "\<And>page. query page = vcfops_api_post opts path body (PDict ((''page'', page) # (''pageSize'', PInt (int (Suc n))) # params)) p"
    and key: "key \<noteq> ''pageInfo''"
  shows "paged_listing query key (vcfops_holds opts p path key (Suc n)) (Suc n)"
proof unfold_locales
  show "\<exists>w' rq. query (PInt (int pg)) w = Some (Ok (page_body key (Suc n) L pg), w') \<and>
      vcfops_holds opts p path key (Suc n) L w' \<and> sent w' = sent w @ [rq]"
    if "vcfops_holds opts p path key (Suc n) L w" for L w pg
    unfolding shape by (rule vcfops_post_page [OF that])
qed (simp_all add: key)

lemma passwords_query_shape:
  "\<exists>body params. \<forall>page. vcfops_fleet_passwords_query_accounts opts a f s u d page psize sb so p =
     vcfops_api_post opts (vcfops_fleet_passwords_BASE @ ''/accounts/query'') body
       (PDict ((''page'', page) # (''pageSize'', psize) # params)) p"
proof -
  let ?start = "\<lambda>page. [(''page'', page), (''pageSize'', psize)]"
  let ?by = "\<lambda>page. if sb \<noteq> PNone then dset (?start page) ''sortBy'' sb else ?start page"
  have params: "(if so \<noteq> PNone then dset (?by page) ''sortOrder'' so else ?by page) = (''page'', page) # (''pageSize'', psize) #
      (if sb \<noteq> PNone then [(''sortBy'', sb)] else []) @ (if so \<noteq> PNone then [(''sortOrder'', so)] else [])" for page
    by simp
  show ?thesis
    unfolding vcfops_fleet_passwords_query_accounts_def Let_def params by (intro exI allI) (rule refl)
qed

interpretation accounts: paged_listing
  "\<lambda>page. vcfops_fleet_passwords_query_accounts opts appliance fqdn status username domain_id page (PInt (int (Suc n)))
     sort_by sort_order p" "''vcfPasswordAccounts''"
  "vcfops_holds opts p (vcfops_fleet_passwords_BASE @ ''/accounts/query'') ''vcfPasswordAccounts'' (Suc n)" "Suc n"
  for opts appliance fqdn status username domain_id sort_by sort_order p n
proof -
  from passwords_query_shape [of opts appliance fqdn status username domain_id "PInt (int (Suc n))" sort_by sort_order p]
  obtain body params where shape: "\<forall>page. vcfops_fleet_passwords_query_accounts opts appliance fqdn status username domain_id page
      (PInt (int (Suc n))) sort_by sort_order p =
    vcfops_api_post opts (vcfops_fleet_passwords_BASE @ ''/accounts/query'') body
      (PDict ((''page'', page) # (''pageSize'', PInt (int (Suc n))) # params)) p" by blast
  show "paged_listing (\<lambda>page. vcfops_fleet_passwords_query_accounts opts appliance fqdn status username domain_id page
      (PInt (int (Suc n))) sort_by sort_order p) ''vcfPasswordAccounts''
    (vcfops_holds opts p (vcfops_fleet_passwords_BASE @ ''/accounts/query'') ''vcfPasswordAccounts'' (Suc n)) (Suc n)"
    by (rule paged_query) (rule spec [OF shape], simp)
qed

interpretation certs: paged_listing
  "\<lambda>page. vcfops_fleet_certificates_query_certificates opts appliance fqdn status category page (PInt (int (Suc n))) p"
  "''vcfCertificateModels''"
  "vcfops_holds opts p (vcfops_fleet_certificates_BASE @ ''/certificates/query'') ''vcfCertificateModels'' (Suc n)" "Suc n"
  for opts appliance fqdn status category p n
  by (rule paged_query) (unfold vcfops_fleet_certificates_query_certificates_def Let_def, rule refl, simp)

subsection \<open>What \<open>check_expiry\<close> reports\<close>

lemma fleet_enrich_dated: "fleet_enrich r = Ok e \<Longrightarrow> dated r \<Longrightarrow> dated e \<and> expiry_of e = expiry_of r"
  by (cases r) (auto simp: fleet_enrich_def bindR_eq_Ok dget_dset)

lemma check_expiry_run:
  assumes "listing w = Some (Ok (PDict [(field, PList E), (''totalCount'', tot)]), w')" "field \<noteq> ''totalCount''"
    and "list_all dated E"
  shows "fleet_check_expiry listing field days_of now t w =
    Some (Ok (expiry_report (buckets_of days_of now (t * 86400 * 1000) E) tot t), w')"
  using assms
  by (simp add: fleet_check_expiry_def py_item_def bucket_all_dated)
    (simp add: join_buckets_def buckets_of_def)

lemma filters_for_subset:
  assumes "fst ` set d \<subseteq> set allowed" "''page'' \<notin> set allowed" shows "filters_for f allowed d = Ok ()"
  using assms by (induction d) auto

lemma ddel_keys: "fst ` set (ddel d k) = fst ` set d - {k}"
  by (induction d k rule: ddel.induct) auto

lemma enriched_dated:
  assumes "mapR fleet_enrich L = Ok E" "list_all dated L" shows "list_all dated E"
proof -
  have "list_all2 (\<lambda>x y. fleet_enrich x = Ok y) L E" using assms(1) by (simp add: mapR_iff)
  then show ?thesis using assms(2) by (induction rule: list_all2_induct) (auto dest: fleet_enrich_dated)
qed

lemma passwords_expiry:
  fixes n :: nat and L E :: "pyval list" and days_of and now t :: int
  defines "b \<equiv> buckets_of days_of now (t * 86400 * 1000) E"
  assumes "list_all dated L" "mapR fleet_enrich L = Ok E"
    and "dget filters ''page_size'' (PInt 100) = PInt (int (Suc n))"
    and holds: "vcfops_holds opts p (vcfops_fleet_passwords_BASE @ ''/accounts/query'') ''vcfPasswordAccounts'' (Suc n) L w"
    and keys: "set (map fst filters) \<subseteq> set [''page_size'', ''appliance'', ''appliance_fqdn'', ''status'', ''username'',
        ''vcf_domain_id'', ''sort_by'', ''sort_order'']"
  shows "\<exists>w' rqs. vcfops_fleet_passwords_check_expiry days_of now opts t p filters w =
        Some (Ok (expiry_report b (PInt (int (length L))) t), w') \<and>
      sent w' = sent w @ rqs \<and> length rqs = max 1 ((length L + n) div Suc n)"
proof -
  have size: "length L + Suc n - 1 = length L + n" by simp
  note dated = enriched_dated [OF assms(3,2)]
  have "filters_for ''query_accounts'' [''appliance'', ''appliance_fqdn'', ''status'', ''username'', ''vcf_domain_id'',
      ''sort_by'', ''sort_order''] (ddel filters ''page_size'') = Ok ()"
    by (rule filters_for_subset) (use keys in \<open>auto simp: ddel_keys\<close>)
  note allowed = this
  let ?arg = "\<lambda>k. dget (ddel filters ''page_size'') k PNone"
  from accounts.complete [OF holds assms(3), unfolded size, where field = "''accounts''" and appliance = "?arg ''appliance''"
      and fqdn = "?arg ''appliance_fqdn''" and status = "?arg ''status''" and username = "?arg ''username''"
      and domain_id = "?arg ''vcf_domain_id''" and sort_by = "?arg ''sort_by''" and sort_order = "?arg ''sort_order''"]
  obtain w' rqs where
    walk: "fleet_list (\<lambda>page. vcfops_fleet_passwords_query_accounts opts (?arg ''appliance'') (?arg ''appliance_fqdn'') (?arg ''status'')
        (?arg ''username'') (?arg ''vcf_domain_id'') page (PInt (int (Suc n))) (?arg ''sort_by'') (?arg ''sort_order'') p)
      ''vcfPasswordAccounts'' ''accounts'' w =
      Some (Ok (PDict [(''accounts'', PList E), (''totalCount'', PInt (int (length L)))]), w')"
    and more: "sent w' = sent w @ rqs" "length rqs = max 1 ((length L + n) div Suc n)"
    by blast
  have "vcfops_fleet_passwords_list opts p (PInt (int (Suc n))) (ddel filters ''page_size'') w =
      Some (Ok (PDict [(''accounts'', PList E), (''totalCount'', PInt (int (length L)))]), w')"
    using walk allowed by (simp add: vcfops_fleet_passwords_list_def Let_def del: of_nat_Suc)
  from check_expiry_run [where listing = "vcfops_fleet_passwords_list opts p (PInt (int (Suc n))) (ddel filters ''page_size'')"
      and w = w, OF this _ dated, of days_of now t] more show ?thesis
    unfolding vcfops_fleet_passwords_check_expiry_def b_def assms(4) by auto
qed

lemma certificates_expiry:
  fixes n :: nat and L E :: "pyval list" and days_of and now t :: int
  defines "b \<equiv> buckets_of days_of now (t * 86400 * 1000) E"
  assumes "list_all dated L" "mapR fleet_enrich L = Ok E"
    and "dget filters ''page_size'' (PInt 100) = PInt (int (Suc n))"
    and holds: "vcfops_holds opts p (vcfops_fleet_certificates_BASE @ ''/certificates/query'') ''vcfCertificateModels'' (Suc n) L w"
    and keys: "set (map fst filters) \<subseteq> set [''page_size'', ''appliance'', ''appliance_fqdn'', ''status'', ''category'']"
  shows "\<exists>w' rqs. vcfops_fleet_certificates_check_expiry days_of now opts t p filters w =
        Some (Ok (expiry_report b (PInt (int (length L))) t), w') \<and>
      sent w' = sent w @ rqs \<and> length rqs = max 1 ((length L + n) div Suc n)"
proof -
  have size: "length L + Suc n - 1 = length L + n" by simp
  note dated = enriched_dated [OF assms(3,2)]
  have "filters_for ''query_certificates'' [''appliance'', ''appliance_fqdn'', ''status'', ''category'']
      (ddel filters ''page_size'') = Ok ()"
    by (rule filters_for_subset) (use keys in \<open>auto simp: ddel_keys\<close>)
  note allowed = this
  let ?arg = "\<lambda>k. dget (ddel filters ''page_size'') k PNone"
  from certs.complete [OF holds assms(3), unfolded size, where field = "''certificates''" and appliance = "?arg ''appliance''"
      and fqdn = "?arg ''appliance_fqdn''" and status = "?arg ''status''" and category = "?arg ''category''"]
  obtain w' rqs where
    walk: "fleet_list (\<lambda>page. vcfops_fleet_certificates_query_certificates opts (?arg ''appliance'') (?arg ''appliance_fqdn'') (?arg ''status'')
        (?arg ''category'') page (PInt (int (Suc n))) p)
      ''vcfCertificateModels'' ''certificates'' w =
      Some (Ok (PDict [(''certificates'', PList E), (''totalCount'', PInt (int (length L)))]), w')"
    and more: "sent w' = sent w @ rqs" "length rqs = max 1 ((length L + n) div Suc n)"
    by blast
  have "vcfops_fleet_certificates_list opts p (PInt (int (Suc n))) (ddel filters ''page_size'') w =
      Some (Ok (PDict [(''certificates'', PList E), (''totalCount'', PInt (int (length L)))]), w')"
    using walk allowed by (simp add: vcfops_fleet_certificates_list_def Let_def del: of_nat_Suc)
  from check_expiry_run [where listing = "vcfops_fleet_certificates_list opts p (PInt (int (Suc n))) (ddel filters ''page_size'')"
      and w = w, OF this _ dated, of days_of now t] more show ?thesis
    unfolding vcfops_fleet_certificates_check_expiry_def b_def assms(4) by auto
qed

text \<open>C17: Of a fleet whose service pages the records \<open>L\<close>, \<open>check_expiry\<close> - for passwords and for
  certificates - reads every record exactly once, with one request per page, and sorts all of them: those
  without a date, those whose date is at most the threshold away, and the rest; every record is in one bucket.\<close>

theorem fleet_expiry_complete:
  fixes n :: nat and L E :: "pyval list" and days_of and now t :: int
  defines "b \<equiv> buckets_of days_of now (t * 86400 * 1000) E"
  assumes "list_all dated L" "mapR fleet_enrich L = Ok E"
    and "dget filters ''page_size'' (PInt 100) = PInt (int (Suc n))"
  shows "(vcfops_holds opts p (vcfops_fleet_passwords_BASE @ ''/accounts/query'') ''vcfPasswordAccounts'' (Suc n) L w \<and>
      set (map fst filters) \<subseteq> set [''page_size'', ''appliance'', ''appliance_fqdn'', ''status'', ''username'',
        ''vcf_domain_id'', ''sort_by'', ''sort_order''] \<longrightarrow>
      (\<exists>w' rqs. vcfops_fleet_passwords_check_expiry days_of now opts t p filters w =
          Some (Ok (expiry_report b (PInt (int (length L))) t), w') \<and>
        sent w' = sent w @ rqs \<and> length rqs = max 1 ((length L + n) div Suc n))) \<and>
    (vcfops_holds opts p (vcfops_fleet_certificates_BASE @ ''/certificates/query'') ''vcfCertificateModels'' (Suc n) L w \<and>
      set (map fst filters) \<subseteq> set [''page_size'', ''appliance'', ''appliance_fqdn'', ''status'', ''category''] \<longrightarrow>
      (\<exists>w' rqs. vcfops_fleet_certificates_check_expiry days_of now opts t p filters w =
          Some (Ok (expiry_report b (PInt (int (length L))) t), w') \<and>
        sent w' = sent w @ rqs \<and> length rqs = max 1 ((length L + n) div Suc n))) \<and>
    length (bk_ok b) + length (bk_expiring b) + length (bk_no_expiry b) = length L"
proof (intro conjI impI; (elim conjE)?)
  have "length E = length L" using assms(3) by (simp add: mapR_iff list_all2_lengthD)
  then show "length (bk_ok b) + length (bk_expiring b) + length (bk_no_expiry b) = length L"
    unfolding b_def buckets_partition .
qed (unfold b_def, (rule passwords_expiry [OF assms(2-4)] certificates_expiry [OF assms(2-4)]; assumption)+)

text \<open>A fleet of three accounts, two per page.\<close>

definition fleet_net :: "string \<Rightarrow> nat \<Rightarrow> pyval list \<Rightarrow> int \<Rightarrow> request list \<Rightarrow> net_reply" where
  "fleet_net key n L t h =
     (case rq_params (last h) of
        PDict ((_, PInt pg) # _) \<Rightarrow> Reply 5 (json_response 200 (page_body key n L (nat pg)))
      | _ \<Rightarrow> NetFail 5 ''unknown'')"

definition fleet_world :: "string \<Rightarrow> nat \<Rightarrow> pyval list \<Rightarrow> world" where
  "fleet_world key n L =
     \<lparr>net = fleet_net key n L, sent = [], clock = 0,
      caches = (\<lambda>c k. if c = Vcfops_Cache then Some (CToken (PStr ''tok'')) else None)\<rparr>"

lemma vcfops_config_for:
  "vcfops_get_config (opts_run_for ''vcf_ops'') None =
     Ok \<lparr>cfg_host = PStr ''h'', cfg_username = PStr ''u'', cfg_password = PStr ''p'', cfg_verify_ssl = PBool True,
       auth_source = PStr ''LOCAL''\<rparr>"
  by (simp add: vcfops_get_config_def eval_simps)

lemma fleet_world_holds:
  "key \<noteq> [] \<Longrightarrow> vcfops_holds (opts_run_for ''vcf_ops'') None path key n L (fleet_world key n L)"
  unfolding vcfops_holds_def vcfops_config_for
  by (auto simp: fleet_world_def fleet_net_def serves_pages_def cache_get_def json_response_def status_message_def)

lemma fleet_expiry_complete_witness:
  "\<exists>w' b. vcfops_fleet_passwords_check_expiry PInt 1772323200000 (opts_run_for ''vcf_ops'') 90 None
      [(''page_size'', PInt 2)]
      (fleet_world ''vcfPasswordAccounts'' 2 [PDict [(''expiryDate'', PInt 1772323200000)], PDict [], PDict []]) =
      Some (Ok (expiry_report b (PInt 3) 90), w') \<and>
    length (sent w') = 2 \<and> length (bk_ok b) + length (bk_expiring b) + length (bk_no_expiry b) = 3"
proof -
  let ?L = "[PDict [(''expiryDate'', PInt 1772323200000)], PDict [], PDict []]"
  let ?E = "[PDict [(''expiryDate'', PInt 1772323200000), (''expiryDateIso'', PStr ''2026-03-01T00:00:00Z'')],
    PDict [(''expiryDateIso'', PNone)], PDict [(''expiryDateIso'', PNone)]]"
  have dated: "list_all dated ?L" by simp
  have enriched: "mapR fleet_enrich ?L = Ok ?E"
    by (simp add: fleet_enrich_def fleet_iso_def iso_dates)
  have psize: "dget [(''page_size'', PInt 2)] ''page_size'' (PInt 100) = PInt (int (Suc 1))" by simp
  have keys: "set (map fst [(''page_size'', PInt 2)]) \<subseteq> set [''page_size'', ''appliance'', ''appliance_fqdn'', ''status'',
      ''username'', ''vcf_domain_id'', ''sort_by'', ''sort_order'']" by simp
  have holds: "vcfops_holds (opts_run_for ''vcf_ops'') None path ''vcfPasswordAccounts'' (Suc 1) ?L
      (fleet_world ''vcfPasswordAccounts'' 2 ?L)" for path
    using fleet_world_holds [of "''vcfPasswordAccounts''" path 2 ?L] by (simp add: numeral_2_eq_2)
  have three: "length ?L = 3" "int 3 = 3" "max 1 ((3 + 1) div Suc 1) = (2 :: nat)" by code_simp+
  note all = fleet_expiry_complete [OF dated enriched psize, of "opts_run_for ''vcf_ops''" None
      "fleet_world ''vcfPasswordAccounts'' 2 ?L" PInt 1772323200000 90, unfolded three]
  from all [THEN conjunct1, THEN mp, OF conjI [OF holds keys]] all [THEN conjunct2, THEN conjunct2]
  show ?thesis by (elim exE conjE) (intro exI conjI, assumption, simp add: fleet_world_def, assumption)
qed

end
