(* ===== verification/Rest_Collection.thy ===== *)
theory Rest_Collection
  imports Rest_Store Rest_Client
begin

section \<open>Rest_Collection: objects that are listed, posted and deleted by identifier\<close>

text \<open>
  The abstract specification of the states on objects whose identifiers the service assigns: the service
  holds a list of JSON objects. A \<open>GET\<close> of the collection lists them, a \<open>POST\<close> appends the object the
  service makes of the body, a \<open>DELETE\<close> of an identifier removes the objects that carry it. The
  locale \<open>rest_collection\<close> is the contract of the client calls such a state is written with.
\<close>

type_synonym collection = "dict list"

definition ident :: "dict \<Rightarrow> string" where
  "ident e = py_str (dget e ''id'' PNone)"

definition without :: "dict \<Rightarrow> collection \<Rightarrow> collection" where
  "without e C = filter (\<lambda>x. ident x \<noteq> ident e) C"

text \<open>Every object has an identifier, and no two that match differ in it.\<close>

definition tidy :: "(dict \<Rightarrow> bool) \<Rightarrow> collection \<Rightarrow> bool" where
  "tidy matches C \<longleftrightarrow> (\<forall>e \<in> set C. map_of e ''id'' \<noteq> None) \<and>
     (\<forall>e \<in> set C. \<forall>e' \<in> set C. matches e \<longrightarrow> matches e' \<longrightarrow> ident e = ident e')"

lemma tidy_without: "tidy matches C \<Longrightarrow> tidy matches (without e C)"
  unfolding tidy_def without_def set_filter mem_Collect_eq Ball_def by blast

lemma tidy_append:
  "tidy matches C \<Longrightarrow> \<not> list_ex matches C \<Longrightarrow> map_of e ''id'' \<noteq> None \<Longrightarrow> tidy matches (C @ [e])"
  unfolding tidy_def list_ex_iff set_append Ball_def by auto

lemma tidy_ident: "tidy matches C \<Longrightarrow> e \<in> set C \<Longrightarrow> \<exists>i. map_of e ''id'' = Some i \<and> ident e = py_str i"
  by (fastforce simp: tidy_def ident_def dget_def)

lemma tidy_sole: "tidy matches C \<Longrightarrow> e \<in> set C \<Longrightarrow> e' \<in> set C \<Longrightarrow> matches e \<Longrightarrow> matches e' \<Longrightarrow> ident e = ident e'"
  unfolding tidy_def by blast

subsection \<open>The service\<close>

text \<open>\<open>made b C\<close> is the object the service makes of the body \<open>b\<close> when it holds \<open>C\<close>, \<open>wrap C\<close> the listing
  it answers with.\<close>

type_synonym making = "dict \<Rightarrow> collection \<Rightarrow> dict"

definition coll_step :: "string \<Rightarrow> making \<Rightarrow> request \<Rightarrow> collection \<Rightarrow> collection" where
  "coll_step url made rq C =
     (if rq_method rq = ''POST'' then (case rq_json rq of PDict b \<Rightarrow> C @ [made b C] | _ \<Rightarrow> C)
      else if rq_method rq = ''DELETE'' then filter (\<lambda>e. url @ ''/'' @ ident e \<noteq> rq_url rq) C
      else C)"

definition coll_answers :: "(collection \<Rightarrow> pyval) \<Rightarrow> collection \<Rightarrow> request \<Rightarrow> net_reply \<Rightarrow> bool" where
  "coll_answers wrap C rq reply =
     (case reply of
        NetFail _ _ \<Rightarrow> False
      | Reply _ r \<Rightarrow> rs_error r = None \<and>
          (if rq_method rq = ''GET'' then has_content r \<and> json_value r = Some (wrap C)
           else has_content r \<longrightarrow> json_value r \<noteq> None))"

definition coll_request :: "string \<Rightarrow> request \<Rightarrow> bool" where
  "coll_request url rq \<longleftrightarrow>
     rq_method rq = ''GET'' \<and> rq_url rq = url \<or>
     rq_method rq = ''POST'' \<and> rq_url rq = url \<and> is_dict (rq_json rq) \<or>
     rq_method rq = ''DELETE'' \<and> (\<exists>i. rq_url rq = url @ ''/'' @ i)"

definition coll_view :: "string \<Rightarrow> (collection \<Rightarrow> pyval) \<Rightarrow> making \<Rightarrow> collection \<Rightarrow> world \<Rightarrow> bool" where
  "coll_view url wrap made C w \<longleftrightarrow>
     (\<forall>t rqs rq. (\<forall>q \<in> set rqs. coll_request url q) \<and> coll_request url rq \<longrightarrow>
        coll_answers wrap (fold (coll_step url made) rqs C) rq (net w t (sent w @ rqs @ [rq])))"

lemma coll_view_send:
  assumes view: "coll_view url wrap made C w" and rq: "coll_request url rq"
  obtains d r w' where "http_send rq w = Some (Ok r, w')" "coll_answers wrap C rq (Reply d r)"
    "coll_view url wrap made (coll_step url made rq C) w'" "caches w' = caches w" "sent w' = sent w @ [rq]"
proof -
  have "coll_answers wrap C rq (net w (clock w) (sent w @ [rq]))"
    using view [unfolded coll_view_def, THEN spec, THEN spec [of _ "[]"], THEN spec [of _ rq]] rq by simp
  then obtain d r where reply: "net w (clock w) (sent w @ [rq]) = Reply d r" "coll_answers wrap C rq (Reply d r)"
    by (cases "net w (clock w) (sent w @ [rq])") (auto simp: coll_answers_def)
  let ?w' = "w\<lparr>sent := sent w @ [rq], clock := clock w + int d\<rparr>"
  have "coll_view url wrap made (coll_step url made rq C) ?w'"
    unfolding coll_view_def
  proof (intro allI impI)
    fix t rqs q assume ok: "(\<forall>x \<in> set rqs. coll_request url x) \<and> coll_request url q"
    from view [unfolded coll_view_def, THEN spec [of _ t], THEN spec [of _ "rq # rqs"], THEN spec [of _ q]] ok rq
    show "coll_answers wrap (fold (coll_step url made) rqs (coll_step url made rq C)) q (net ?w' t (sent ?w' @ rqs @ [q]))"
      by simp
  qed
  with reply show thesis by (intro that [of r ?w' d]) (simp_all add: http_send_def Let_def)
qed

text \<open>The calls over a session that is at hand.\<close>

lemma coll_call:
  assumes acq: "acquire w = Some (Ok (s, host), w)" and view: "coll_view url wrap made C w"
    and rq: "coll_request url (session_rq s meth (https_url host path) q body [] t)"
  obtains r w' where "session_call acquire meth path q body t w = Some (Ok r, w')"
    "coll_view url wrap made (coll_step url made (session_rq s meth (https_url host path) q body [] t) C) w'"
    "caches w' = caches w"
    "meth = ''GET'' \<Longrightarrow> json_or_empty r = pureM (wrap C) \<and> only_gets w w'"
    "\<exists>v. json_or_empty r = pureM v"
proof -
  let ?rq = "session_rq s meth (https_url host path) q body [] t"
  from coll_view_send [OF view rq] obtain d r w' where
    r: "http_send ?rq w = Some (Ok r, w')" "coll_answers wrap C ?rq (Reply d r)"
      "coll_view url wrap made (coll_step url made ?rq C) w'" "caches w' = caches w" "sent w' = sent w @ [?rq]" .
  have "rs_error r = None" and json: "meth = ''GET'' \<Longrightarrow> has_content r \<and> json_value r = Some (wrap C)"
    "has_content r \<longrightarrow> json_value r \<noteq> None"
    using r(2) by (auto simp: coll_answers_def session_rq_def split: if_splits)
  then have "session_call acquire meth path q body t w = Some (Ok r, w')"
    using acq r(1) by (simp add: session_call_def session_request_def raise_for_status_def)
  moreover have "meth = ''GET'' \<Longrightarrow> json_or_empty r = pureM (wrap C)" "\<exists>v. json_or_empty r = pureM v"
    using json by (auto simp: json_or_empty_def response_json_def fun_eq_iff)
  moreover have "meth = ''GET'' \<Longrightarrow> only_gets w w'"
    using r(5) by (rule only_gets_sent) (simp add: session_rq_def)
  ultimately show thesis using r(3,4) by (intro that) auto
qed

subsection \<open>The contract of the calls, and the states over it\<close>

definition add_spec :: "bool \<Rightarrow> string \<Rightarrow> (dict \<Rightarrow> bool) \<Rightarrow> (collection \<Rightarrow> dict) \<Rightarrow> collection \<Rightarrow> (bool option \<times> pyval) \<times> collection" where
  "add_spec test name matches made C =
     (if list_ex matches C then ((Some True, empty_dict), C)
      else if test then ((None, empty_dict), C)
      else ((Some True, PDict [(''new'', PStr name)]), C @ [made C]))"

definition drop_spec :: "bool \<Rightarrow> string \<Rightarrow> (dict \<Rightarrow> bool) \<Rightarrow> collection \<Rightarrow> (bool option \<times> pyval) \<times> collection" where
  "drop_spec test name matches C =
     (case find matches C of
        None \<Rightarrow> ((Some True, empty_dict), C)
      | Some e \<Rightarrow>
          if test then ((None, empty_dict), C)
          else ((Some True, PDict [(''deleted'', PStr name)]), without e C))"

locale rest_collection =
  fixes view :: "collection \<Rightarrow> world \<Rightarrow> bool"
    and lookup :: "pyval io" and create :: "'a io" and remove :: "pyval \<Rightarrow> 'b io"
    and matches :: "dict \<Rightarrow> bool" and made :: "collection \<Rightarrow> dict"
  assumes lookup_view: "view C w \<Longrightarrow>
        \<exists>w'. lookup w = Some (Ok (case find matches C of None \<Rightarrow> PNone | Some e \<Rightarrow> PDict e), w') \<and> view C w' \<and> only_gets w w'"
    and create_view: "view C w \<Longrightarrow> \<not> list_ex matches C \<Longrightarrow> \<exists>v w'. create w = Some (Ok v, w') \<and> view (C @ [made C]) w'"
    and remove_view: "view C w \<Longrightarrow> e \<in> set C \<Longrightarrow> \<exists>v w'. remove (PDict e) w = Some (Ok v, w') \<and> view (without e C) w'"
    and sole: "view C w \<Longrightarrow> e \<in> set C \<Longrightarrow> e' \<in> set C \<Longrightarrow> matches e \<Longrightarrow> matches e' \<Longrightarrow> ident e = ident e'"
    and made_matches: "view C w \<Longrightarrow> matches (made C)"
begin

lemma found: "find matches C = None \<longleftrightarrow> \<not> list_ex matches C"
  by (auto simp: find_None_iff list_ex_iff)

lemma present_refines:
  assumes opts: "\<And>C w. view C w \<Longrightarrow> \<exists>t. py_item opts ''test'' = Ok t \<and> truthy t = test"
  shows "refines view (ensure_present opts name lookup create a b c) (add_spec test name matches made)"
  unfolding refines_def
proof (intro allI impI)
  fix C w assume view: "view C w"
  obtain t where t: "py_item opts ''test'' = Ok t" "truthy t = test" using opts [OF view] by blast
  from lookup_view [OF view] obtain w1 where
    look: "lookup w = Some (Ok (case find matches C of None \<Rightarrow> PNone | Some e \<Rightarrow> PDict e), w1)" "view C w1" "only_gets w w1" by blast
  show "\<exists>r w'. ensure_present opts name lookup create a b c w = Some (Ok r, w') \<and>
      outcome r = fst (add_spec test name matches made C) \<and> view (snd (add_spec test name matches made C)) w' \<and>
      (snd (fst (add_spec test name matches made C)) = empty_dict \<longrightarrow> only_gets w w')"
  proof (cases "find matches C")
    case None
    with create_view [OF look(2)] obtain v w2 where "create w1 = Some (Ok v, w2)" "view (C @ [made C]) w2"
      by (auto simp: found)
    with look None t show ?thesis
      by (cases test) (auto simp: ensure_present_def unless_test_def add_spec_def outcome_def found [symmetric])
  next
    case (Some e)
    then have "list_ex matches C" using found by force
    with Some look show ?thesis by (auto simp: ensure_present_def add_spec_def outcome_def)
  qed
qed

lemma absent_refines:
  assumes opts: "\<And>C w. view C w \<Longrightarrow> \<exists>t. py_item opts ''test'' = Ok t \<and> truthy t = test"
  shows "refines view (ensure_absent_of opts name lookup remove a b c) (drop_spec test name matches)"
  unfolding refines_def
proof (intro allI impI)
  fix C w assume view: "view C w"
  obtain t where t: "py_item opts ''test'' = Ok t" "truthy t = test" using opts [OF view] by blast
  from lookup_view [OF view] obtain w1 where
    look: "lookup w = Some (Ok (case find matches C of None \<Rightarrow> PNone | Some e \<Rightarrow> PDict e), w1)" "view C w1" "only_gets w w1" by blast
  show "\<exists>r w'. ensure_absent_of opts name lookup remove a b c w = Some (Ok r, w') \<and>
      outcome r = fst (drop_spec test name matches C) \<and> view (snd (drop_spec test name matches C)) w' \<and>
      (snd (fst (drop_spec test name matches C)) = empty_dict \<longrightarrow> only_gets w w')"
  proof (cases "find matches C")
    case (Some e)
    then have "e \<in> set C" by (auto simp: find_Some_iff)
    from remove_view [OF look(2) this] obtain v w2 where "remove (PDict e) w1 = Some (Ok v, w2)" "view (without e C) w2" by blast
    with look Some t show ?thesis
      by (cases test) (auto simp: ensure_absent_of_def unless_test_def drop_spec_def outcome_def)
  qed (use look in \<open>auto simp: ensure_absent_of_def drop_spec_def outcome_def\<close>)
qed

text \<open>Both converge: the object is there, or none with the name is.\<close>

lemma adding_converges:
  assumes opts: "\<And>C w. view C w \<Longrightarrow> \<exists>t. py_item opts ''test'' = Ok t \<and> truthy t = False"
  shows "converges view (ensure_present opts name lookup create a b c) (list_ex matches)"
proof (rule refines_converges_from [OF present_refines [OF opts]])
  fix C w assume "view C w"
  from made_matches [OF this] show "list_ex matches (snd (add_spec False name matches made C))"
    "add_spec False name matches made (snd (add_spec False name matches made C)) =
       ((Some True, empty_dict), snd (add_spec False name matches made C))"
    by (auto simp: add_spec_def)
qed (auto simp: add_spec_def)

lemma dropping_converges:
  assumes opts: "\<And>C w. view C w \<Longrightarrow> \<exists>t. py_item opts ''test'' = Ok t \<and> truthy t = False"
  shows "converges view (ensure_absent_of opts name lookup remove a b c) (\<lambda>C. \<not> list_ex matches C)"
proof (rule refines_converges_from [OF absent_refines [OF opts]])
  fix C w assume view: "view C w"
  show gone: "\<not> list_ex matches (snd (drop_spec False name matches C))"
  proof (cases "find matches C")
    case None
    with found [of C] show ?thesis by (simp add: drop_spec_def)
  next
    case (Some e)
    then have "e \<in> set C" "matches e" by (auto simp: find_Some_iff)
    with sole [OF view] have "\<forall>x \<in> set C. matches x \<longrightarrow> ident x = ident e" by blast
    with Some show ?thesis by (auto simp: drop_spec_def without_def list_ex_iff)
  qed
  then show "drop_spec False name matches (snd (drop_spec False name matches C)) =
      ((Some True, empty_dict), snd (drop_spec False name matches C))"
    using found [of "snd (drop_spec False name matches C)"] by (simp add: drop_spec_def [of _ _ _ "snd _"])
qed (auto simp: drop_spec_def split: option.split)

end

subsection \<open>A concrete service\<close>

definition coll_net :: "string \<Rightarrow> (collection \<Rightarrow> pyval) \<Rightarrow> making \<Rightarrow> collection \<Rightarrow> int \<Rightarrow> request list \<Rightarrow> net_reply" where
  "coll_net url wrap made C t h =
     replies (json_response 200
       (if rq_method (last h) = ''GET'' then wrap (fold (coll_step url made) (butlast h) C) else empty_dict))"

definition coll_world :: "string \<Rightarrow> (collection \<Rightarrow> pyval) \<Rightarrow> making \<Rightarrow> collection \<Rightarrow> (cache_id \<Rightarrow> string \<Rightarrow> cached option) \<Rightarrow> world" where
  "coll_world url wrap made C cs = \<lparr>net = coll_net url wrap made C, sent = [], clock = 0, caches = cs\<rparr>"

lemma coll_view_coll_world: "coll_view url wrap made C (coll_world url wrap made C cs)"
  by (auto simp: coll_view_def coll_world_def coll_net_def coll_answers_def replies_def json_response_def status_message_def)

end
