(* ===== verification/Vcfops_Store.thy ===== *)
theory Vcfops_Store
  imports Vcfops Rest_Collection
begin

section \<open>Vcfops_Store: VCF Operations as collections of objects\<close>

text \<open>
  The calls of \<open>utils/vcfops.py\<close> on a VCF Operations that holds a collection at a path (\<open>Rest_Collection\<close>),
  and what its states share: an object is looked up in the listing, and deleted by the identifier found there.
\<close>

subsection \<open>Looking an object up\<close>

text \<open>\<open>body.get(key) if isinstance(body, dict) else None\<close>, and its elements; none where that is empty.\<close>

definition listed_in :: "string \<Rightarrow> pyval \<Rightarrow> pyval list res" where
  "listed_in key body =
     bindR (if is_dict body then py_get body key PNone else Ok PNone) (\<lambda>elements.
     if truthy elements then py_iter elements else Ok [])"

definition find_listed :: "pyval io \<Rightarrow> string \<Rightarrow> string \<Rightarrow> string \<Rightarrow> pyval io" where
  "find_listed listing key field name =
     bindM listing (\<lambda>body. liftR (bindR (listed_in key body) (find_by field (PStr name))))"

text \<open>\<open>c.delete(__opts__, existing["id"])\<close>.\<close>

definition delete_by_id :: "(pyval \<Rightarrow> pyval io) \<Rightarrow> pyval \<Rightarrow> pyval io" where
  "delete_by_id delete existing = bindM (liftR (py_item existing ''id'')) delete"

definition keyed :: "string \<Rightarrow> collection \<Rightarrow> pyval" where
  "keyed key C = PDict [(key, PList (map PDict C))]"

lemma listed_in_keyed [simp]: "listed_in key (keyed key C) = Ok (map PDict C)"
  by (simp add: listed_in_def keyed_def py_get_def)

text \<open>Looking up by name is a search of the collection.\<close>

definition has_name :: "string \<Rightarrow> string \<Rightarrow> dict \<Rightarrow> bool" where
  "has_name field name e \<longleftrightarrow> dget e field PNone = PStr name"

lemma py_eq_str [simp]: "py_eq x (PStr s) = (x = PStr s)"
  by (cases x) auto

definition found_in :: "(dict \<Rightarrow> bool) \<Rightarrow> collection \<Rightarrow> pyval" where
  "found_in matches C = (case find matches C of None \<Rightarrow> PNone | Some e \<Rightarrow> PDict e)"

lemma find_by_found: "find_by field (PStr name) (map PDict C) = Ok (found_in (has_name field name) C)"
  by (induction C) (auto simp: py_get_def has_name_def found_in_def)

subsection \<open>A collection of VCF Operations\<close>

text \<open>The service gives a new object an identifier and keeps what it is looked up by.\<close>

definition sound_making :: "making \<Rightarrow> (dict \<Rightarrow> bool) \<Rightarrow> dict \<Rightarrow> bool" where
  "sound_making made matches b \<longleftrightarrow> (\<forall>C. matches (made b C) \<and> map_of (made b C) ''id'' \<noteq> None)"

text \<open>
  The configuration is complete and a token is at hand, the service answers at \<open>path\<close> like the collection,
  every object has an identifier, no two objects that the
  state would take for its own differ in it, and an object made of \<open>b\<close> is one of those.
\<close>

definition vcfops_coll :: "pyval \<Rightarrow> profile \<Rightarrow> string \<Rightarrow> string \<Rightarrow> making \<Rightarrow> (dict \<Rightarrow> bool) \<Rightarrow> dict \<Rightarrow>
  collection \<Rightarrow> world \<Rightarrow> bool" where
  "vcfops_coll opts p path key made matches b C w \<longleftrightarrow>
     (\<exists>cfg tok t. vcfops_get_config opts p = Ok cfg \<and> cache_get Vcfops_Cache (host_user_key cfg) w = Some (CToken tok) \<and>
        py_item opts ''test'' = Ok t \<and>
        coll_view (https_url (cfg_host cfg) path) (keyed key) made C w) \<and> tidy matches C \<and> sound_making made matches b"

lemma vcfops_coll_opts:
  "vcfops_coll opts p path key made matches b C w \<Longrightarrow> \<exists>t. py_item opts ''test'' = Ok t \<and> truthy t = test_mode opts"
  by (auto simp: vcfops_coll_def dest: test_mode_item)

lemma vcfops_coll_call:
  assumes view: "vcfops_coll opts p path key made matches b C w"
    and rq: "meth = ''GET'' \<and> q = path \<or> meth = ''POST'' \<and> q = path \<and> is_dict body \<or>
      meth = ''DELETE'' \<and> (\<exists>e \<in> set C. q = path @ ''/'' @ ident e)"
    and C': "C' = (if meth = ''POST'' then (case body of PDict b \<Rightarrow> C @ [made b C] | _ \<Rightarrow> C)
      else if meth = ''DELETE'' then filter (\<lambda>e. path @ ''/'' @ ident e \<noteq> q) C else C)"
    and tidy: "tidy matches C'"
  shows "\<exists>r w'. session_call (vcfops_session opts p) meth q prm body tmo w = Some (Ok r, w') \<and>
    vcfops_coll opts p path key made matches b C' w' \<and> (meth = ''GET'' \<longrightarrow> json_or_empty r = pureM (keyed key C) \<and> only_gets w w') \<and>
    (\<exists>v. json_or_empty r = pureM v)"
proof -
  from view obtain cfg tok t where cfg: "vcfops_get_config opts p = Ok cfg"
    "cache_get Vcfops_Cache (host_user_key cfg) w = Some (CToken tok)" "py_item opts ''test'' = Ok t"
    and cv: "coll_view (https_url (cfg_host cfg) path) (keyed key) made C w"
    by (auto simp: vcfops_coll_def)
  let ?s = "session_with (cfg_verify_ssl cfg)
    [(''Authorization'', PStr (''vRealizeOpsToken '' @ py_str tok)), (''Accept'', PStr ''application/json'')]"
  let ?rq = "session_rq ?s meth (https_url (cfg_host cfg) q) prm body [] tmo"
  have acq: "vcfops_session opts p w = Some (Ok (?s, cfg_host cfg), w)"
    using cfg by (simp add: vcfops_session_def vcfops_get_token_def cached_login_hit)
  have ok: "coll_request (https_url (cfg_host cfg) path) ?rq"
    using rq by (auto simp: coll_request_def session_rq_def https_url_def)
  have step: "coll_step (https_url (cfg_host cfg) path) made ?rq C = C'"
    using C' by (auto simp: coll_step_def session_rq_def https_url_def)
  obtain r w' where
    r: "session_call (vcfops_session opts p) meth q prm body tmo w = Some (Ok r, w')"
      "coll_view (https_url (cfg_host cfg) path) (keyed key) made C' w'" "caches w' = caches w"
      "meth = ''GET'' \<longrightarrow> json_or_empty r = pureM (keyed key C) \<and> only_gets w w'" "\<exists>v. json_or_empty r = pureM v"
    by (rule coll_call [where s = ?s and host = "cfg_host cfg" and C = C and path = q and q = prm and meth = meth and
        body = body and t = tmo and acquire = "vcfops_session opts p" and wrap = "keyed key" and made = made and w = w,
        OF acq cv ok, unfolded step]) blast
  then have "vcfops_coll opts p path key made matches b C' w'"
    using cfg tidy view by (auto simp: vcfops_coll_def cache_get_def)
  with r show ?thesis by blast
qed

text \<open>The three calls meet the contract of a collection.\<close>

lemma vcfops_coll_get:
  assumes "vcfops_coll opts p path key made matches b C w"
  shows "\<exists>w'. vcfops_api_get opts path PNone p w = Some (Ok (keyed key C), w') \<and> vcfops_coll opts p path key made matches b C w' \<and> only_gets w w'"
  using vcfops_coll_call [OF assms, of "''GET''" path PNone C PNone "PInt 30"] assms
  by (auto simp: vcfops_api_get_def vcfops_coll_def)

lemma vcfops_coll_post:
  assumes view: "vcfops_coll opts p path key made matches b C w" and new: "\<not> list_ex matches C"
  shows "\<exists>v w'. vcfops_api_post opts path (PDict b) PNone p w = Some (Ok v, w') \<and>
    vcfops_coll opts p path key made matches b (C @ [made b C]) w'"
proof -
  have "tidy matches (C @ [made b C])"
    using view new by (intro tidy_append) (auto simp: vcfops_coll_def sound_making_def)
  from vcfops_coll_call [OF view, where meth = "''POST''" and q = path and body = "PDict b", OF _ _ this, of PNone "PInt 30"]
  show ?thesis by (auto simp: vcfops_api_post_def)
qed

lemma vcfops_coll_delete:
  assumes view: "vcfops_coll opts p path key made matches b C w" and e: "e \<in> set C"
  shows "\<exists>v w'. delete_by_id (\<lambda>i. vcfops_api_delete opts (path @ ''/'' @ py_str i) PNone p) (PDict e) w = Some (Ok v, w') \<and>
    vcfops_coll opts p path key made matches b (without e C) w'"
proof -
  from view have "tidy matches C" by (simp add: vcfops_coll_def)
  note tidy = tidy_without [OF this, of e] and ids = tidy_ident [OF this e]
  obtain i where i: "map_of e ''id'' = Some i" "ident e = py_str i" using ids by blast
  from vcfops_coll_call [OF view, where meth = "''DELETE''" and q = "path @ ''/'' @ ident e" and body = PNone, OF _ _ tidy, of PNone "PInt 30"] e
  have "\<exists>r w'. session_call (vcfops_session opts p) ''DELETE'' (path @ ''/'' @ ident e) PNone PNone (PInt 30) w = Some (Ok r, w') \<and>
      vcfops_coll opts p path key made matches b (without e C) w'"
    by (auto simp: without_def)
  with i show ?thesis by (auto simp: vcfops_api_delete_def delete_by_id_def)
qed

text \<open>So a lookup that searches the listing, the post of a body and the deletion are a \<open>rest_collection\<close>.\<close>

lemma vcfops_rest_collection:
  assumes lookup: "\<And>w C. lookup w = bindM (vcfops_api_get opts path PNone p) (\<lambda>body. liftR (search body)) w"
      "\<And>C. search (keyed key C) = Ok (found_in matches C)"
  shows "rest_collection (vcfops_coll opts p path key made matches b) lookup (vcfops_api_post opts path (PDict b) PNone p)
    (delete_by_id (\<lambda>i. vcfops_api_delete opts (path @ ''/'' @ py_str i) PNone p)) matches (made b)"
proof unfold_locales
  fix C w assume view: "vcfops_coll opts p path key made matches b C w"
  from vcfops_coll_get [OF view]
  show "\<exists>w'. lookup w = Some (Ok (case find matches C of None \<Rightarrow> PNone | Some e \<Rightarrow> PDict e), w') \<and>
      vcfops_coll opts p path key made matches b C w' \<and> only_gets w w'"
    by (auto simp: lookup found_in_def)
  show "matches (made b C)" using view by (simp add: vcfops_coll_def sound_making_def)
next
  fix C w e e' assume "vcfops_coll opts p path key made matches b C w" "e \<in> set C" "e' \<in> set C" "matches e" "matches e'"
  then show "ident e = ident e'" unfolding vcfops_coll_def by (blast dest: tidy_sole)
qed (use vcfops_coll_post vcfops_coll_delete in \<open>simp_all\<close>)

end
