(* ===== verification/Vcf_Vcfops.thy ===== *)
theory Vcf_Vcfops
  imports Vcfops_Clients Vcfops_Fleet Vcfops_Store
begin

section \<open>Vcf_Vcfops: the states of VCF Operations\<close>

text \<open>
  Credentials, roles, users and super metrics. The service assigns the identifiers: a state looks an object
  up in the listing by its name, and deletes it by the identifier found there.
\<close>

subsection \<open>\<open>states/vcf_vcfops_credential.py\<close>\<close>

fun credential_named :: "pyval \<Rightarrow> pyval \<Rightarrow> pyval \<Rightarrow> pyval list \<Rightarrow> pyval res" where
  "credential_named name adapter_kind credential_kind [] = Ok PNone"
| "credential_named name adapter_kind credential_kind (e # es) =
     bindR (py_get e ''name'' PNone) (\<lambda>n.
     bindR (py_get e ''adapterKindKey'' PNone) (\<lambda>a.
     bindR (py_get e ''credentialKindKey'' PNone) (\<lambda>c.
     if py_eq n name \<and> py_eq a adapter_kind \<and> py_eq c credential_kind then Ok e
     else credential_named name adapter_kind credential_kind es)))"

definition vcf_vcfops_credential_find_existing :: "pyval \<Rightarrow> string \<Rightarrow> pyval \<Rightarrow> pyval \<Rightarrow> profile \<Rightarrow> pyval io" where
  "vcf_vcfops_credential_find_existing opts name adapter_kind credential_kind profile =
     bindM (vcfops_credential_list opts profile) (\<lambda>body.
     liftR (bindR (listed_in ''credentialInstances'' body) (credential_named (PStr name) adapter_kind credential_kind)))"

definition vcf_vcfops_credential_present ::
  "pyval \<Rightarrow> string \<Rightarrow> pyval \<Rightarrow> pyval \<Rightarrow> pyval \<Rightarrow> profile \<Rightarrow> salt_ret io" where
  "vcf_vcfops_credential_present opts name adapter_kind credential_kind fields0 profile =
     (let spec = PDict [(''name'', PStr name), (''adapterKindKey'', adapter_kind),
        (''credentialKindKey'', credential_kind), (''fields'', fields0)] in
      ensure_present opts name
        (vcf_vcfops_credential_find_existing opts name adapter_kind credential_kind profile)
        (vcfops_credential_create opts spec profile)
        (''Credential '' @ name @ '' already present'') (''Credential '' @ name @ '' would be created'')
        (''Credential '' @ name @ '' created''))"

definition vcf_vcfops_credential_absent ::
  "pyval \<Rightarrow> string \<Rightarrow> pyval \<Rightarrow> pyval \<Rightarrow> profile \<Rightarrow> salt_ret io" where
  "vcf_vcfops_credential_absent opts name adapter_kind credential_kind profile =
     ensure_absent_of opts name
       (vcf_vcfops_credential_find_existing opts name adapter_kind credential_kind profile)
       (delete_by_id (\<lambda>i. vcfops_credential_delete opts i profile))
       (''Credential '' @ name @ '' already absent'') (''Credential '' @ name @ '' would be deleted'')
       (''Credential '' @ name @ '' deleted'')"

subsection \<open>\<open>states/vcf_vcfops_role.py\<close>\<close>

definition vcf_vcfops_role_present ::
  "pyval \<Rightarrow> string \<Rightarrow> pyval \<Rightarrow> pyval \<Rightarrow> pyval \<Rightarrow> profile \<Rightarrow> salt_ret io" where
  "vcf_vcfops_role_present opts name display_name description privilege_keys profile =
     bindM (vcfops_auth_roles_get_or_none opts (PStr name) profile) (\<lambda>existing.
     if existing \<noteq> PNone then pureM (unchanged name (''Role '' @ name @ '' already present''))
     else
       bindM (liftR (py_iter (py_or privilege_keys (PList [])))) (\<lambda>keys.
       let spec = PDict [(''name'', PStr name), (''displayName'', py_or display_name (PStr name)),
         (''description'', description), (''privilege-keys'', PList keys)] in
       unless_test opts (would name (''Role '' @ name @ '' would be created''))
         (bindM (vcfops_auth_roles_create opts spec profile) (\<lambda>_.
          pureM (changed name [(''new'', PStr name)] (''Role '' @ name @ '' created''))))))"

definition vcf_vcfops_role_absent :: "pyval \<Rightarrow> string \<Rightarrow> profile \<Rightarrow> salt_ret io" where
  "vcf_vcfops_role_absent opts name profile =
     bindM (vcfops_auth_roles_get_or_none opts (PStr name) profile) (\<lambda>existing.
     if existing = PNone then pureM (unchanged name (''Role '' @ name @ '' already absent''))
     else
       bindM (liftR (py_get existing ''system-created'' PNone)) (\<lambda>created.
       bindM (liftR (py_get existing ''system-defined'' PNone)) (\<lambda>defined.
       if truthy created \<or> truthy defined then
         pureM (unchanged name (''Role '' @ name @ '' is system-defined '' @ em_dash @ '' refusing to delete''))
       else unless_test opts (would name (''Role '' @ name @ '' would be deleted''))
         (bindM (vcfops_auth_roles_delete opts (PStr name) profile) (\<lambda>_.
          pureM (changed name [(''deleted'', PStr name)] (''Role '' @ name @ '' deleted'')))))))"

subsection \<open>\<open>states/vcf_vcfops_supermetric.py\<close>\<close>

definition vcf_vcfops_supermetric_find_by_name :: "pyval \<Rightarrow> string \<Rightarrow> pyval io" where
  "vcf_vcfops_supermetric_find_by_name opts name =
     find_listed (vcfops_supermetric_list opts (PInt 0) (PInt 1000)) ''superMetrics'' ''name'' name"

definition vcf_vcfops_supermetric_present :: "pyval \<Rightarrow> string \<Rightarrow> pyval \<Rightarrow> pyval \<Rightarrow> salt_ret io" where
  "vcf_vcfops_supermetric_present opts name formula description =
     (let spec = PDict [(''name'', PStr name), (''formula'', formula), (''description'', description)] in
     bindM (vcf_vcfops_supermetric_find_by_name opts name) (\<lambda>existing.
     if existing \<noteq> PNone then
       bindM (liftR (py_get existing ''formula'' PNone)) (\<lambda>f.
       bindM (liftR (py_get existing ''description'' (PStr []))) (\<lambda>d.
       if py_eq f formula \<and> py_eq d description then
         pureM (unchanged name (''Super metric '' @ name @ '' already matches''))
       else unless_test opts (would name (''Super metric '' @ name @ '' would be updated''))
         (bindM (liftR (py_item existing ''id'')) (\<lambda>i.
          bindM (vcfops_supermetric_update opts i spec) (\<lambda>_.
          pureM (changed name [(''updated'', PStr name)] (''Super metric '' @ name @ '' updated'')))))))
     else unless_test opts (would name (''Super metric '' @ name @ '' would be created''))
       (bindM (vcfops_supermetric_create opts spec) (\<lambda>_.
        pureM (changed name [(''new'', PStr name)] (''Super metric '' @ name @ '' created''))))))"

definition vcf_vcfops_supermetric_absent :: "pyval \<Rightarrow> string \<Rightarrow> salt_ret io" where
  "vcf_vcfops_supermetric_absent opts name =
     ensure_absent_of opts name (vcf_vcfops_supermetric_find_by_name opts name)
       (delete_by_id (vcfops_supermetric_delete opts))
       (''Super metric '' @ name @ '' already absent'') (''Super metric '' @ name @ '' would be deleted'')
       (''Super metric '' @ name @ '' deleted'')"

subsection \<open>\<open>states/vcf_vcfops_user.py\<close>\<close>

definition vcf_vcfops_user_find_by_username :: "pyval \<Rightarrow> string \<Rightarrow> profile \<Rightarrow> pyval io" where
  "vcf_vcfops_user_find_by_username opts username profile =
     find_listed (vcfops_auth_users_list opts profile) ''users'' ''username'' username"

definition vcf_vcfops_user_present ::
  "pyval \<Rightarrow> string \<Rightarrow> pyval \<Rightarrow> pyval \<Rightarrow> pyval \<Rightarrow> pyval \<Rightarrow> pyval \<Rightarrow> profile \<Rightarrow> salt_ret io" where
  "vcf_vcfops_user_present opts name password first_name last_name email role_names profile =
     bindM (vcf_vcfops_user_find_by_username opts name profile) (\<lambda>existing.
     let spec = [(''username'', PStr name), (''firstName'', first_name), (''lastName'', last_name),
       (''emailAddress'', email)];
       spec = (if truthy password then dset spec ''password'' password else spec) in
     bindM (liftR (if role_names \<noteq> PNone
       then bindR (py_iter role_names) (\<lambda>rs. Ok (dset spec ''roleNames'' (PList rs))) else Ok spec)) (\<lambda>spec.
     if existing \<noteq> PNone then pureM (unchanged name (''User '' @ name @ '' already present''))
     else unless_test opts (would name (''User '' @ name @ '' would be created''))
       (bindM (vcfops_auth_users_create opts (PDict spec) profile) (\<lambda>_.
        pureM (changed name [(''new'', PStr name)] (''User '' @ name @ '' created''))))))"

definition vcf_vcfops_user_absent :: "pyval \<Rightarrow> string \<Rightarrow> profile \<Rightarrow> salt_ret io" where
  "vcf_vcfops_user_absent opts name profile =
     ensure_absent_of opts name (vcf_vcfops_user_find_by_username opts name profile)
       (delete_by_id (\<lambda>i. vcfops_auth_users_delete opts i profile))
       (''User '' @ name @ '' already absent'') (''User '' @ name @ '' would be deleted'')
       (''User '' @ name @ '' deleted'')"

subsection \<open>Users and credentials as a collection\<close>

text \<open>What the states take for their own object.\<close>

definition credential_match :: "string \<Rightarrow> pyval \<Rightarrow> pyval \<Rightarrow> dict \<Rightarrow> bool" where
  "credential_match name adapter_kind credential_kind e \<longleftrightarrow> has_name ''name'' name e \<and>
     py_eq (dget e ''adapterKindKey'' PNone) adapter_kind \<and> py_eq (dget e ''credentialKindKey'' PNone) credential_kind"

definition credential_body :: "string \<Rightarrow> pyval \<Rightarrow> pyval \<Rightarrow> pyval \<Rightarrow> dict" where
  "credential_body name adapter_kind credential_kind fields0 =
     [(''name'', PStr name), (''adapterKindKey'', adapter_kind), (''credentialKindKey'', credential_kind), (''fields'', fields0)]"

definition user_body :: "string \<Rightarrow> pyval \<Rightarrow> pyval \<Rightarrow> pyval \<Rightarrow> pyval \<Rightarrow> pyval \<Rightarrow> dict" where
  "user_body name password first_name last_name email role_names =
     (let spec = [(''username'', PStr name), (''firstName'', first_name), (''lastName'', last_name), (''emailAddress'', email)];
        spec = (if truthy password then dset spec ''password'' password else spec)
      in if role_names = PNone then spec else dset spec ''roleNames'' role_names)"

lemma credential_named_found:
  "credential_named (PStr name) ak ck (map PDict C) = Ok (found_in (credential_match name ak ck) C)"
  by (induction C) (auto simp: py_get_def credential_match_def has_name_def found_in_def)

text \<open>The services hold the credentials, and the users.\<close>

abbreviation credentials_of where
  "credentials_of opts p made name ak ck fs \<equiv>
     vcfops_coll opts p vcfops_credential_CREDS ''credentialInstances'' made (credential_match name ak ck) (credential_body name ak ck fs)"

abbreviation users_of where
  "users_of opts p made name b \<equiv> vcfops_coll opts p vcfops_auth_USERS ''users'' made (has_name ''username'' name) b"

interpretation credentials: rest_collection "credentials_of opts p made name ak ck fs"
  "vcf_vcfops_credential_find_existing opts name ak ck p"
  "vcfops_credential_create opts (PDict (credential_body name ak ck fs)) p"
  "delete_by_id (\<lambda>i. vcfops_credential_delete opts i p)" "credential_match name ak ck" "made (credential_body name ak ck fs)"
  unfolding vcfops_credential_create_def vcfops_credential_delete_def append_assoc
  by (rule vcfops_rest_collection
        [where search = "\<lambda>body. bindR (listed_in ''credentialInstances'' body) (credential_named (PStr name) ak ck)"])
    (simp_all add: vcf_vcfops_credential_find_existing_def vcfops_credential_list_def credential_named_found)

interpretation users: rest_collection "users_of opts p made name b"
  "vcf_vcfops_user_find_by_username opts name p" "vcfops_auth_users_create opts (PDict b) p"
  "delete_by_id (\<lambda>i. vcfops_auth_users_delete opts i p)" "has_name ''username'' name" "made b"
  unfolding vcfops_auth_users_create_def vcfops_auth_users_delete_def append_assoc
  by (rule vcfops_rest_collection
        [where search = "\<lambda>body. bindR (listed_in ''users'' body) (find_by ''username'' (PStr name))"])
    (simp_all add: vcf_vcfops_user_find_by_username_def find_listed_def vcfops_auth_users_list_def find_by_found)

lemma user_present_shape:
  assumes "role_names = PNone \<or> is_list role_names"
  shows "vcf_vcfops_user_present opts name pw fn ln em role_names p =
    ensure_present opts name (vcf_vcfops_user_find_by_username opts name p)
      (vcfops_auth_users_create opts (PDict (user_body name pw fn ln em role_names)) p)
      (''User '' @ name @ '' already present'') (''User '' @ name @ '' would be created'') (''User '' @ name @ '' created'')"
proof -
  have "(if role_names \<noteq> PNone then bindR (py_iter role_names) (\<lambda>rs. Ok (dset d ''roleNames'' (PList rs))) else Ok d) =
      Ok (if role_names = PNone then d else dset d ''roleNames'' role_names)" for d
    using assms by (cases role_names) auto
  then show ?thesis
    unfolding vcf_vcfops_user_present_def ensure_present_def user_body_def Let_def by (simp only: bindM_laws)
qed

lemma collection_opts:
  "credentials_of opts p made name ak ck fs C w \<Longrightarrow> \<exists>t. py_item opts ''test'' = Ok t \<and> truthy t = test_mode opts"
  "users_of opts p made name b C w \<Longrightarrow> \<exists>t. py_item opts ''test'' = Ok t \<and> truthy t = test_mode opts"
  by (erule vcfops_coll_opts)+

lemma credential_present_shape:
  "vcf_vcfops_credential_present opts name ak ck fs p =
     ensure_present opts name (vcf_vcfops_credential_find_existing opts name ak ck p)
       (vcfops_credential_create opts (PDict (credential_body name ak ck fs)) p)
       (''Credential '' @ name @ '' already present'') (''Credential '' @ name @ '' would be created'')
       (''Credential '' @ name @ '' created'')"
  by (simp add: vcf_vcfops_credential_present_def credential_body_def)

text \<open>C18: The states on users and credentials simulate the abstract operations on the collection the service
  holds: \<open>present\<close> posts exactly the body of its arguments, once, and only when no object of the name (for a
  credential: of the name, the adapter kind and the credential kind) is listed; \<open>absent\<close> deletes exactly the
  object it found, by its identifier; a dry run changes nothing; result and changes are those of the
  operation. A real run therefore converges: a second run finds nothing to do.\<close>

theorem vcfops_account_states_refine:
  assumes roles: "role_names = PNone \<or> is_list role_names"
    and user_spec_def: "user_spec = user_body name pw fn ln em role_names"
  shows "refines (users_of opts p made name user_spec) (vcf_vcfops_user_present opts name pw fn ln em role_names p)
      (add_spec (test_mode opts) name (has_name ''username'' name) (made user_spec)) \<and>
    refines (users_of opts p made name user_spec) (vcf_vcfops_user_absent opts name p)
      (drop_spec (test_mode opts) name (has_name ''username'' name)) \<and>
    refines (credentials_of opts p made name ak ck fs) (vcf_vcfops_credential_present opts name ak ck fs p)
      (add_spec (test_mode opts) name (credential_match name ak ck) (made (credential_body name ak ck fs))) \<and>
    refines (credentials_of opts p made name ak ck fs) (vcf_vcfops_credential_absent opts name ak ck p)
      (drop_spec (test_mode opts) name (credential_match name ak ck)) \<and>
    (\<not> test_mode opts \<longrightarrow>
      converges (users_of opts p made name user_spec) (vcf_vcfops_user_present opts name pw fn ln em role_names p)
        (list_ex (has_name ''username'' name)) \<and>
      converges (users_of opts p made name user_spec) (vcf_vcfops_user_absent opts name p)
        (\<lambda>C. \<not> list_ex (has_name ''username'' name) C) \<and>
      converges (credentials_of opts p made name ak ck fs) (vcf_vcfops_credential_present opts name ak ck fs p)
        (list_ex (credential_match name ak ck)) \<and>
      converges (credentials_of opts p made name ak ck fs) (vcf_vcfops_credential_absent opts name ak ck p)
        (\<lambda>C. \<not> list_ex (credential_match name ak ck) C))"
proof (intro conjI impI)
  note shapes = user_present_shape [OF roles] vcf_vcfops_user_absent_def credential_present_shape
    vcf_vcfops_credential_absent_def user_spec_def
  assume real: "\<not> test_mode opts"
  note opts = collection_opts [where opts = opts, unfolded real [THEN eq_False [THEN iffD2]]]
  show "converges (users_of opts p made name user_spec) (vcf_vcfops_user_present opts name pw fn ln em role_names p)
        (list_ex (has_name ''username'' name))"
    unfolding shapes by (rule users.adding_converges [OF opts(2)])
  show "converges (users_of opts p made name user_spec) (vcf_vcfops_user_absent opts name p)
        (\<lambda>C. \<not> list_ex (has_name ''username'' name) C)"
    unfolding shapes by (rule users.dropping_converges [OF opts(2)])
  show "converges (credentials_of opts p made name ak ck fs) (vcf_vcfops_credential_present opts name ak ck fs p)
        (list_ex (credential_match name ak ck))"
    unfolding shapes by (rule credentials.adding_converges [OF opts(1)])
  show "converges (credentials_of opts p made name ak ck fs) (vcf_vcfops_credential_absent opts name ak ck p)
        (\<lambda>C. \<not> list_ex (credential_match name ak ck) C)"
    unfolding shapes by (rule credentials.dropping_converges [OF opts(1)])
qed (unfold user_present_shape [OF roles] vcf_vcfops_user_absent_def credential_present_shape
    vcf_vcfops_credential_absent_def user_spec_def,
  rule users.present_refines [OF collection_opts(2)], assumption, rule users.absent_refines [OF collection_opts(2)], assumption,
  rule credentials.present_refines [OF collection_opts(1)], assumption,
  rule credentials.absent_refines [OF collection_opts(1)], assumption)

text \<open>A service that holds one user and numbers the objects it makes; the user \<open>ops\<close> is added to it.\<close>

definition numbered :: making where
  "numbered b C = (''id'', PStr (''u-'' @ int_str (int (length C)))) # b"

lemma users_world:
  "users_of (opts_run_for ''vcf_ops'') None numbered ''ops'' (user_body ''ops'' PNone PNone PNone PNone PNone)
     [[(''id'', PStr ''u-0''), (''username'', PStr ''admin'')]]
     (coll_world (https_url (PStr ''h'') vcfops_auth_USERS) (keyed ''users'') numbered
       [[(''id'', PStr ''u-0''), (''username'', PStr ''admin'')]] (\<lambda>c k. if c = Vcfops_Cache then Some (CToken (PStr ''tok'')) else None))"
  by (simp add: vcfops_coll_def vcfops_config_for coll_view_coll_world cache_get_def, simp add: coll_world_def
      tidy_def sound_making_def numbered_def has_name_def dget_def user_body_def opts_run_for_def)

lemma vcfops_account_states_refine_witness:
  "\<exists>r1 w1 C r2 w2.
     vcf_vcfops_user_present (opts_run_for ''vcf_ops'') ''ops'' PNone PNone PNone PNone PNone None
       (coll_world (https_url (PStr ''h'') vcfops_auth_USERS) (keyed ''users'') numbered
         [[(''id'', PStr ''u-0''), (''username'', PStr ''admin'')]] (\<lambda>c k. if c = Vcfops_Cache then Some (CToken (PStr ''tok'')) else None))
       = Some (Ok r1, w1) \<and> ret_result r1 = Some True \<and> list_ex (has_name ''username'' ''ops'') C \<and>
     vcf_vcfops_user_present (opts_run_for ''vcf_ops'') ''ops'' PNone PNone PNone PNone PNone None w1 = Some (Ok r2, w2) \<and>
     outcome r2 = (Some True, empty_dict)"
proof -
  have real: "\<not> test_mode (opts_run_for ''vcf_ops'')" by (simp add: opts_run_for_def test_mode_def dget_def)
  from vcfops_account_states_refine [of PNone _ "''ops''" PNone PNone PNone PNone "opts_run_for ''vcf_ops''" None numbered,
      OF disjI1 [OF refl] refl, THEN conjunct2, THEN conjunct2, THEN conjunct2, THEN conjunct2, THEN mp, OF real, THEN conjunct1]
    users_world
  show ?thesis unfolding converges_def by blast
qed

end
