(* ===== verification/Vcfa_Clients.thy ===== *)
theory Vcfa_Clients
  imports Vcfa Rest_Client
begin

section \<open>Vcfa_Clients: the clients of VCF Automation\<close>

text \<open>
  The clients \<open>clients/vcfa_*.py\<close> but for projects and access.
\<close>

subsection \<open>products, upgrades and snapshots\<close>

text \<open>
  The REST calls on the products, upgrades and snapshots of VCF Automation, and the wait for an upgrade.

  One definition per function of the client modules; identifiers and other arguments are
  Python values, keyword arguments (\<open>**spec\<close>) a dict.
\<close>

subsubsection \<open>\<open>clients/vcfa_lifecycle.py\<close>\<close>

definition vcfa_lifecycle_PRODUCTS :: "string" where
  "vcfa_lifecycle_PRODUCTS = ''/lcm/api/products''"

definition vcfa_lifecycle_UPGRADES :: "string" where
  "vcfa_lifecycle_UPGRADES = ''/lcm/api/upgrades''"

definition vcfa_lifecycle_SNAPSHOTS :: "string" where
  "vcfa_lifecycle_SNAPSHOTS = ''/lcm/api/snapshots''"

definition vcfa_lifecycle_TERMINAL_OK :: "string list" where
  "vcfa_lifecycle_TERMINAL_OK = [''SUCCEEDED'', ''COMPLETED'']"

definition vcfa_lifecycle_TERMINAL_BAD :: "string list" where
  "vcfa_lifecycle_TERMINAL_BAD = [''FAILED'', ''ERROR'', ''CANCELED'', ''CANCELLED'']"

definition vcfa_lifecycle_list_products :: "pyval \<Rightarrow> profile \<Rightarrow> pyval io" where
  "vcfa_lifecycle_list_products opts profile =
     bindM (vcfa_api_get opts vcfa_lifecycle_PRODUCTS PNone profile PNone) (\<lambda>resp.
     bindM (liftR (py_get resp ''content'' (PList []))) (\<lambda>items.
     bindM (liftR (py_get resp ''items'' (PList []))) (\<lambda>items2.
     pureM (py_or items (py_or items2 (PList []))))))"

definition vcfa_lifecycle_get_product :: "pyval \<Rightarrow> pyval \<Rightarrow> profile \<Rightarrow> pyval io" where
  "vcfa_lifecycle_get_product opts product_id profile =
     vcfa_api_get opts (vcfa_lifecycle_PRODUCTS @ ''/'' @ py_str product_id) PNone profile PNone"

definition vcfa_lifecycle_get_product_or_none :: "pyval \<Rightarrow> pyval \<Rightarrow> profile \<Rightarrow> pyval io" where
  "vcfa_lifecycle_get_product_or_none opts product_id profile =
     none_if_missing (vcfa_lifecycle_get_product opts product_id profile)"

definition vcfa_lifecycle_list_versions :: "pyval \<Rightarrow> pyval \<Rightarrow> profile \<Rightarrow> pyval io" where
  "vcfa_lifecycle_list_versions opts product_id profile =
     bindM (vcfa_api_get opts (vcfa_lifecycle_PRODUCTS @ ''/'' @ py_str product_id @ ''/versions'')
       PNone profile PNone) (\<lambda>resp.
     bindM (liftR (py_get resp ''content'' (PList []))) (\<lambda>items.
     bindM (liftR (py_get resp ''items'' (PList []))) (\<lambda>items2.
     pureM (py_or items (py_or items2 (PList []))))))"

definition vcfa_lifecycle_list_upgrades :: "pyval \<Rightarrow> profile \<Rightarrow> pyval io" where
  "vcfa_lifecycle_list_upgrades opts profile =
     bindM (vcfa_api_get opts vcfa_lifecycle_UPGRADES PNone profile PNone) (\<lambda>resp.
     bindM (liftR (py_get resp ''content'' (PList []))) (\<lambda>items.
     bindM (liftR (py_get resp ''items'' (PList []))) (\<lambda>items2.
     pureM (py_or items (py_or items2 (PList []))))))"

definition vcfa_lifecycle_get_upgrade :: "pyval \<Rightarrow> pyval \<Rightarrow> profile \<Rightarrow> pyval io" where
  "vcfa_lifecycle_get_upgrade opts upgrade_id profile =
     vcfa_api_get opts (vcfa_lifecycle_UPGRADES @ ''/'' @ py_str upgrade_id) PNone profile PNone"

definition vcfa_lifecycle_get_upgrade_or_none :: "pyval \<Rightarrow> pyval \<Rightarrow> profile \<Rightarrow> pyval io" where
  "vcfa_lifecycle_get_upgrade_or_none opts upgrade_id profile =
     none_if_missing (vcfa_lifecycle_get_upgrade opts upgrade_id profile)"

definition vcfa_lifecycle_start_upgrade :: "pyval \<Rightarrow> pyval \<Rightarrow> profile \<Rightarrow> pyval io" where
  "vcfa_lifecycle_start_upgrade opts upgrade_spec profile =
     vcfa_api_post opts vcfa_lifecycle_UPGRADES upgrade_spec PNone profile PNone"

definition vcfa_lifecycle_upgrade_action ::
  "pyval \<Rightarrow> pyval \<Rightarrow> pyval \<Rightarrow> profile \<Rightarrow> pyval io" where
  "vcfa_lifecycle_upgrade_action opts upgrade_id action profile =
     vcfa_api_post opts (vcfa_lifecycle_UPGRADES @ ''/'' @ py_str upgrade_id @ ''/actions'')
       (PDict [(''action'', action)]) PNone profile PNone"

definition vcfa_lifecycle_cancel_upgrade :: "pyval \<Rightarrow> pyval \<Rightarrow> profile \<Rightarrow> pyval io" where
  "vcfa_lifecycle_cancel_upgrade opts upgrade_id profile =
     vcfa_lifecycle_upgrade_action opts upgrade_id (PStr ''CANCEL'') profile"

definition vcfa_lifecycle_retry_upgrade :: "pyval \<Rightarrow> pyval \<Rightarrow> profile \<Rightarrow> pyval io" where
  "vcfa_lifecycle_retry_upgrade opts upgrade_id profile =
     vcfa_lifecycle_upgrade_action opts upgrade_id (PStr ''RETRY'') profile"

definition vcfa_lifecycle_resume_upgrade :: "pyval \<Rightarrow> pyval \<Rightarrow> profile \<Rightarrow> pyval io" where
  "vcfa_lifecycle_resume_upgrade opts upgrade_id profile =
     vcfa_lifecycle_upgrade_action opts upgrade_id (PStr ''RESUME'') profile"

definition vcfa_lifecycle_wait_for_upgrade :: "pyval \<Rightarrow> pyval \<Rightarrow> int \<Rightarrow> int \<Rightarrow> profile \<Rightarrow> pyval io" where
  "vcfa_lifecycle_wait_for_upgrade opts upgrade_id timeout poll_interval profile =
     (let what = ''upgrade '' @ py_repr upgrade_id in
      poll_past (vcfa_lifecycle_get_upgrade opts upgrade_id profile)
        (upgrade_ended ''state'' vcfa_lifecycle_TERMINAL_OK vcfa_lifecycle_TERMINAL_BAD what)
        (upgrade_still ''state'' what timeout) timeout poll_interval)"

definition vcfa_lifecycle_list_snapshots :: "pyval \<Rightarrow> profile \<Rightarrow> pyval io" where
  "vcfa_lifecycle_list_snapshots opts profile =
     bindM (vcfa_api_get opts vcfa_lifecycle_SNAPSHOTS PNone profile PNone) (\<lambda>resp.
     bindM (liftR (py_get resp ''content'' (PList []))) (\<lambda>items.
     bindM (liftR (py_get resp ''items'' (PList []))) (\<lambda>items2.
     pureM (py_or items (py_or items2 (PList []))))))"

definition vcfa_lifecycle_get_snapshot :: "pyval \<Rightarrow> pyval \<Rightarrow> profile \<Rightarrow> pyval io" where
  "vcfa_lifecycle_get_snapshot opts snapshot_id profile =
     vcfa_api_get opts (vcfa_lifecycle_SNAPSHOTS @ ''/'' @ py_str snapshot_id) PNone profile PNone"

definition vcfa_lifecycle_get_snapshot_or_none :: "pyval \<Rightarrow> pyval \<Rightarrow> profile \<Rightarrow> pyval io" where
  "vcfa_lifecycle_get_snapshot_or_none opts snapshot_id profile =
     none_if_missing (vcfa_lifecycle_get_snapshot opts snapshot_id profile)"

definition vcfa_lifecycle_create_snapshot :: "pyval \<Rightarrow> pyval \<Rightarrow> profile \<Rightarrow> pyval io" where
  "vcfa_lifecycle_create_snapshot opts snapshot_spec profile =
     vcfa_api_post opts vcfa_lifecycle_SNAPSHOTS snapshot_spec PNone profile PNone"

definition vcfa_lifecycle_delete_snapshot :: "pyval \<Rightarrow> pyval \<Rightarrow> profile \<Rightarrow> pyval io" where
  "vcfa_lifecycle_delete_snapshot opts snapshot_id profile =
     vcfa_api_delete opts (vcfa_lifecycle_SNAPSHOTS @ ''/'' @ py_str snapshot_id) PNone profile PNone"

definition vcfa_lifecycle_restore_snapshot :: "pyval \<Rightarrow> pyval \<Rightarrow> profile \<Rightarrow> pyval io" where
  "vcfa_lifecycle_restore_snapshot opts snapshot_id profile =
     vcfa_api_post opts (vcfa_lifecycle_SNAPSHOTS @ ''/'' @ py_str snapshot_id @ ''/restore'')
       (PDict []) PNone profile PNone"

subsection \<open>the infrastructure clients\<close>

text \<open>
  The REST calls on cloud accounts, zones, network and storage profiles and policies.

  One definition per function of the client modules; identifiers and other arguments are
  Python values, keyword arguments (\<open>**spec\<close>) a dict.
\<close>

subsubsection \<open>\<open>clients/vcfa_cloud_account.py\<close>\<close>

definition vcfa_cloud_account_BASE :: "string" where
  "vcfa_cloud_account_BASE = ''/iaas/api/cloud-accounts''"

definition vcfa_cloud_account_VSPHERE :: "string" where
  "vcfa_cloud_account_VSPHERE = ''/iaas/api/cloud-accounts-vsphere''"

definition vcfa_cloud_account_NSXT :: "string" where
  "vcfa_cloud_account_NSXT = ''/iaas/api/cloud-accounts-nsx-t''"

definition vcfa_cloud_account_list :: "pyval \<Rightarrow> profile \<Rightarrow> pyval io" where
  "vcfa_cloud_account_list opts profile =
     bindM (vcfa_api_get opts vcfa_cloud_account_BASE PNone profile PNone) (\<lambda>resp.
     bindM (liftR (py_get resp ''content'' (PList []))) (\<lambda>items.
     pureM (py_or items (PList []))))"

definition vcfa_cloud_account_get :: "pyval \<Rightarrow> pyval \<Rightarrow> profile \<Rightarrow> pyval io" where
  "vcfa_cloud_account_get opts account_id profile =
     vcfa_api_get opts (vcfa_cloud_account_BASE @ ''/'' @ py_str account_id) PNone profile PNone"

definition vcfa_cloud_account_get_or_none :: "pyval \<Rightarrow> pyval \<Rightarrow> profile \<Rightarrow> pyval io" where
  "vcfa_cloud_account_get_or_none opts account_id profile =
     none_if_missing (vcfa_cloud_account_get opts account_id profile)"

definition vcfa_cloud_account_create_vsphere :: "pyval \<Rightarrow> pyval \<Rightarrow> profile \<Rightarrow> pyval io" where
  "vcfa_cloud_account_create_vsphere opts spec profile =
     vcfa_api_post opts vcfa_cloud_account_VSPHERE spec PNone profile PNone"

definition vcfa_cloud_account_update_vsphere ::
  "pyval \<Rightarrow> pyval \<Rightarrow> pyval \<Rightarrow> profile \<Rightarrow> pyval io" where
  "vcfa_cloud_account_update_vsphere opts account_id spec profile =
     vcfa_api_patch opts (vcfa_cloud_account_VSPHERE @ ''/'' @ py_str account_id)
       spec PNone profile PNone"

definition vcfa_cloud_account_create_nsxt :: "pyval \<Rightarrow> pyval \<Rightarrow> profile \<Rightarrow> pyval io" where
  "vcfa_cloud_account_create_nsxt opts spec profile =
     vcfa_api_post opts vcfa_cloud_account_NSXT spec PNone profile PNone"

definition vcfa_cloud_account_update_nsxt ::
  "pyval \<Rightarrow> pyval \<Rightarrow> pyval \<Rightarrow> profile \<Rightarrow> pyval io" where
  "vcfa_cloud_account_update_nsxt opts account_id spec profile =
     vcfa_api_patch opts (vcfa_cloud_account_NSXT @ ''/'' @ py_str account_id) spec PNone profile PNone"

definition vcfa_cloud_account_delete :: "pyval \<Rightarrow> pyval \<Rightarrow> profile \<Rightarrow> pyval io" where
  "vcfa_cloud_account_delete opts account_id profile =
     vcfa_api_delete opts (vcfa_cloud_account_BASE @ ''/'' @ py_str account_id) PNone profile PNone"

definition vcfa_cloud_account_regions :: "pyval \<Rightarrow> pyval \<Rightarrow> profile \<Rightarrow> pyval io" where
  "vcfa_cloud_account_regions opts account_id profile =
     vcfa_api_get opts (vcfa_cloud_account_BASE @ ''/'' @ py_str account_id @ ''/regions'')
       PNone profile PNone"

subsubsection \<open>\<open>clients/vcfa_cloud_zone.py\<close>\<close>

definition vcfa_cloud_zone_BASE :: "string" where
  "vcfa_cloud_zone_BASE = ''/iaas/api/zones''"

definition vcfa_cloud_zone_list :: "pyval \<Rightarrow> profile \<Rightarrow> pyval io" where
  "vcfa_cloud_zone_list opts profile =
     bindM (vcfa_api_get opts vcfa_cloud_zone_BASE PNone profile PNone) (\<lambda>resp.
     bindM (liftR (py_get resp ''content'' (PList []))) (\<lambda>items.
     pureM (py_or items (PList []))))"

definition vcfa_cloud_zone_get :: "pyval \<Rightarrow> pyval \<Rightarrow> profile \<Rightarrow> pyval io" where
  "vcfa_cloud_zone_get opts zone_id profile =
     vcfa_api_get opts (vcfa_cloud_zone_BASE @ ''/'' @ py_str zone_id) PNone profile PNone"

definition vcfa_cloud_zone_get_or_none :: "pyval \<Rightarrow> pyval \<Rightarrow> profile \<Rightarrow> pyval io" where
  "vcfa_cloud_zone_get_or_none opts zone_id profile =
     none_if_missing (vcfa_cloud_zone_get opts zone_id profile)"

definition vcfa_cloud_zone_create :: "pyval \<Rightarrow> pyval \<Rightarrow> profile \<Rightarrow> pyval io" where
  "vcfa_cloud_zone_create opts spec profile = vcfa_api_post opts vcfa_cloud_zone_BASE spec PNone profile
    PNone"

definition vcfa_cloud_zone_update ::
  "pyval \<Rightarrow> pyval \<Rightarrow> pyval \<Rightarrow> profile \<Rightarrow> pyval io" where
  "vcfa_cloud_zone_update opts zone_id spec profile =
     vcfa_api_patch opts (vcfa_cloud_zone_BASE @ ''/'' @ py_str zone_id) spec PNone profile PNone"

definition vcfa_cloud_zone_delete :: "pyval \<Rightarrow> pyval \<Rightarrow> profile \<Rightarrow> pyval io" where
  "vcfa_cloud_zone_delete opts zone_id profile =
     vcfa_api_delete opts (vcfa_cloud_zone_BASE @ ''/'' @ py_str zone_id) PNone profile PNone"

definition vcfa_cloud_zone_computes :: "pyval \<Rightarrow> pyval \<Rightarrow> profile \<Rightarrow> pyval io" where
  "vcfa_cloud_zone_computes opts zone_id profile =
     vcfa_api_get opts (vcfa_cloud_zone_BASE @ ''/'' @ py_str zone_id @ ''/computes'')
       PNone profile PNone"

subsubsection \<open>\<open>clients/vcfa_network_profile.py\<close>\<close>

definition vcfa_network_profile_BASE :: "string" where
  "vcfa_network_profile_BASE = ''/iaas/api/network-profiles''"

definition vcfa_network_profile_list :: "pyval \<Rightarrow> profile \<Rightarrow> pyval io" where
  "vcfa_network_profile_list opts profile =
     bindM (vcfa_api_get opts vcfa_network_profile_BASE PNone profile PNone) (\<lambda>resp.
     bindM (liftR (py_get resp ''content'' (PList []))) (\<lambda>items.
     pureM (py_or items (PList []))))"

definition vcfa_network_profile_get :: "pyval \<Rightarrow> pyval \<Rightarrow> profile \<Rightarrow> pyval io" where
  "vcfa_network_profile_get opts profile_id profile =
     vcfa_api_get opts (vcfa_network_profile_BASE @ ''/'' @ py_str profile_id) PNone profile PNone"

definition vcfa_network_profile_get_or_none :: "pyval \<Rightarrow> pyval \<Rightarrow> profile \<Rightarrow> pyval io" where
  "vcfa_network_profile_get_or_none opts profile_id profile =
     none_if_missing (vcfa_network_profile_get opts profile_id profile)"

definition vcfa_network_profile_create :: "pyval \<Rightarrow> pyval \<Rightarrow> profile \<Rightarrow> pyval io" where
  "vcfa_network_profile_create opts spec profile =
     vcfa_api_post opts vcfa_network_profile_BASE spec PNone profile PNone"

definition vcfa_network_profile_update ::
  "pyval \<Rightarrow> pyval \<Rightarrow> pyval \<Rightarrow> profile \<Rightarrow> pyval io" where
  "vcfa_network_profile_update opts profile_id spec profile =
     vcfa_api_patch opts (vcfa_network_profile_BASE @ ''/'' @ py_str profile_id) spec PNone profile PNone"

definition vcfa_network_profile_delete :: "pyval \<Rightarrow> pyval \<Rightarrow> profile \<Rightarrow> pyval io" where
  "vcfa_network_profile_delete opts profile_id profile =
     vcfa_api_delete opts (vcfa_network_profile_BASE @ ''/'' @ py_str profile_id) PNone profile PNone"

subsubsection \<open>\<open>clients/vcfa_storage_profile.py\<close>\<close>

definition vcfa_storage_profile_BASE :: "string" where
  "vcfa_storage_profile_BASE = ''/iaas/api/storage-profiles''"

definition vcfa_storage_profile_VSPHERE :: "string" where
  "vcfa_storage_profile_VSPHERE = ''/iaas/api/storage-profiles-vsphere''"

definition vcfa_storage_profile_list :: "pyval \<Rightarrow> profile \<Rightarrow> pyval io" where
  "vcfa_storage_profile_list opts profile =
     bindM (vcfa_api_get opts vcfa_storage_profile_BASE PNone profile PNone) (\<lambda>resp.
     bindM (liftR (py_get resp ''content'' (PList []))) (\<lambda>items.
     pureM (py_or items (PList []))))"

definition vcfa_storage_profile_list_vsphere :: "pyval \<Rightarrow> profile \<Rightarrow> pyval io" where
  "vcfa_storage_profile_list_vsphere opts profile =
     bindM (vcfa_api_get opts vcfa_storage_profile_VSPHERE PNone profile PNone) (\<lambda>resp.
     bindM (liftR (py_get resp ''content'' (PList []))) (\<lambda>items.
     pureM (py_or items (PList []))))"

definition vcfa_storage_profile_get :: "pyval \<Rightarrow> pyval \<Rightarrow> profile \<Rightarrow> pyval io" where
  "vcfa_storage_profile_get opts profile_id profile =
     vcfa_api_get opts (vcfa_storage_profile_BASE @ ''/'' @ py_str profile_id) PNone profile PNone"

definition vcfa_storage_profile_get_vsphere :: "pyval \<Rightarrow> pyval \<Rightarrow> profile \<Rightarrow> pyval io" where
  "vcfa_storage_profile_get_vsphere opts profile_id profile =
     vcfa_api_get opts (vcfa_storage_profile_VSPHERE @ ''/'' @ py_str profile_id) PNone profile PNone"

definition vcfa_storage_profile_get_or_none :: "pyval \<Rightarrow> pyval \<Rightarrow> profile \<Rightarrow> pyval io" where
  "vcfa_storage_profile_get_or_none opts profile_id profile =
     none_if_missing (vcfa_storage_profile_get opts profile_id profile)"

definition vcfa_storage_profile_create_vsphere :: "pyval \<Rightarrow> pyval \<Rightarrow> profile \<Rightarrow> pyval io" where
  "vcfa_storage_profile_create_vsphere opts spec profile =
     vcfa_api_post opts vcfa_storage_profile_VSPHERE spec PNone profile PNone"

definition vcfa_storage_profile_update_vsphere ::
  "pyval \<Rightarrow> pyval \<Rightarrow> pyval \<Rightarrow> profile \<Rightarrow> pyval io" where
  "vcfa_storage_profile_update_vsphere opts profile_id spec profile =
     vcfa_api_patch opts (vcfa_storage_profile_VSPHERE @ ''/'' @ py_str profile_id)
       spec PNone profile PNone"

definition vcfa_storage_profile_delete :: "pyval \<Rightarrow> pyval \<Rightarrow> profile \<Rightarrow> pyval io" where
  "vcfa_storage_profile_delete opts profile_id profile =
     vcfa_api_delete opts (vcfa_storage_profile_BASE @ ''/'' @ py_str profile_id) PNone profile PNone"

subsubsection \<open>\<open>clients/vcfa_policy.py\<close>\<close>

definition vcfa_policy_BASE :: "string" where
  "vcfa_policy_BASE = ''/policy/api/policies''"

definition vcfa_policy_TYPES :: "string" where
  "vcfa_policy_TYPES = ''/policy/api/types''"

definition vcfa_policy_list :: "pyval \<Rightarrow> pyval \<Rightarrow> profile \<Rightarrow> pyval io" where
  "vcfa_policy_list opts project_id profile =
     (let params = [] :: dict in
     let params = (if project_id \<noteq> PNone then dset params ''projectId'' project_id else params) in
     bindM (vcfa_api_get opts vcfa_policy_BASE (if params = [] then PNone else PDict params) profile PNone)
       (\<lambda>resp.
     bindM (liftR (py_get resp ''content'' (PList []))) (\<lambda>items.
     pureM (py_or items (PList [])))))"

definition vcfa_policy_get :: "pyval \<Rightarrow> pyval \<Rightarrow> profile \<Rightarrow> pyval io" where
  "vcfa_policy_get opts policy_id profile =
     vcfa_api_get opts (vcfa_policy_BASE @ ''/'' @ py_str policy_id) PNone profile PNone"

definition vcfa_policy_get_or_none :: "pyval \<Rightarrow> pyval \<Rightarrow> profile \<Rightarrow> pyval io" where
  "vcfa_policy_get_or_none opts policy_id profile = none_if_missing (vcfa_policy_get opts policy_id
    profile)"

definition vcfa_policy_create :: "pyval \<Rightarrow> pyval \<Rightarrow> profile \<Rightarrow> pyval io" where
  "vcfa_policy_create opts spec profile = vcfa_api_post opts vcfa_policy_BASE spec PNone profile PNone"

definition vcfa_policy_update ::
  "pyval \<Rightarrow> pyval \<Rightarrow> pyval \<Rightarrow> profile \<Rightarrow> pyval io" where
  "vcfa_policy_update opts policy_id spec profile =
     vcfa_api_put opts (vcfa_policy_BASE @ ''/'' @ py_str policy_id) spec PNone profile PNone"

definition vcfa_policy_delete :: "pyval \<Rightarrow> pyval \<Rightarrow> profile \<Rightarrow> pyval io" where
  "vcfa_policy_delete opts policy_id profile =
     vcfa_api_delete opts (vcfa_policy_BASE @ ''/'' @ py_str policy_id) PNone profile PNone"

definition vcfa_policy_list_types :: "pyval \<Rightarrow> profile \<Rightarrow> pyval io" where
  "vcfa_policy_list_types opts profile =
     bindM (vcfa_api_get opts vcfa_policy_TYPES PNone profile PNone) (\<lambda>resp.
     bindM (liftR (py_get resp ''content'' (PList []))) (\<lambda>items.
     pureM (py_or items (PList []))))"

subsection \<open>the content clients\<close>

text \<open>
  The REST calls on actions, subscriptions, workflow runs and Orchestrator content.

  One definition per function of the client modules; identifiers and other arguments are
  Python values, keyword arguments (\<open>**spec\<close>) a dict.
\<close>

subsubsection \<open>\<open>clients/vcfa_action.py\<close>\<close>

definition vcfa_action_BASE :: "string" where
  "vcfa_action_BASE = ''/abx/api/resources/actions''"

definition vcfa_action_list :: "pyval \<Rightarrow> pyval \<Rightarrow> profile \<Rightarrow> pyval io" where
  "vcfa_action_list opts project_id profile =
     (let params = (if truthy project_id then PDict [(''projects'', project_id)] else PNone) in
     bindM (vcfa_api_get opts vcfa_action_BASE params profile PNone) (\<lambda>resp.
     bindM (liftR (py_get resp ''content'' (PList []))) (\<lambda>items.
     pureM (py_or items (PList [])))))"

definition vcfa_action_get :: "pyval \<Rightarrow> pyval \<Rightarrow> profile \<Rightarrow> pyval io" where
  "vcfa_action_get opts action_id profile =
     vcfa_api_get opts (vcfa_action_BASE @ ''/'' @ py_str action_id) PNone profile PNone"

definition vcfa_action_get_or_none :: "pyval \<Rightarrow> pyval \<Rightarrow> profile \<Rightarrow> pyval io" where
  "vcfa_action_get_or_none opts action_id profile = none_if_missing (vcfa_action_get opts action_id
    profile)"

definition vcfa_action_create :: "pyval \<Rightarrow> pyval \<Rightarrow> profile \<Rightarrow> pyval io" where
  "vcfa_action_create opts spec profile = vcfa_api_post opts vcfa_action_BASE spec PNone profile PNone"

definition vcfa_action_update ::
  "pyval \<Rightarrow> pyval \<Rightarrow> pyval \<Rightarrow> profile \<Rightarrow> pyval io" where
  "vcfa_action_update opts action_id spec profile =
     vcfa_api_put opts (vcfa_action_BASE @ ''/'' @ py_str action_id) spec PNone profile PNone"

definition vcfa_action_delete :: "pyval \<Rightarrow> pyval \<Rightarrow> profile \<Rightarrow> pyval io" where
  "vcfa_action_delete opts action_id profile =
     vcfa_api_delete opts (vcfa_action_BASE @ ''/'' @ py_str action_id) PNone profile PNone"

definition vcfa_action_run :: "pyval \<Rightarrow> pyval \<Rightarrow> pyval \<Rightarrow> profile \<Rightarrow> pyval io" where
  "vcfa_action_run opts action_id inputs profile =
     (let body = [(''inputs'', py_or inputs (PDict []))] in
     vcfa_api_post opts (vcfa_action_BASE @ ''/'' @ py_str action_id @ ''/run'')
       (PDict body) PNone profile PNone)"

definition vcfa_action_list_runs :: "pyval \<Rightarrow> pyval \<Rightarrow> profile \<Rightarrow> pyval io" where
  "vcfa_action_list_runs opts action_id profile =
     bindM (vcfa_api_get opts (vcfa_action_BASE @ ''/'' @ py_str action_id @ ''/action-runs'')
       PNone profile PNone) (\<lambda>resp.
     bindM (liftR (py_get resp ''content'' (PList []))) (\<lambda>items.
     pureM (py_or items (PList []))))"

subsubsection \<open>\<open>clients/vcfa_action_secret.py\<close>\<close>

definition vcfa_action_secret_BASE :: "string" where
  "vcfa_action_secret_BASE = ''/abx/api/resources/action-secrets''"

definition vcfa_action_secret_list :: "pyval \<Rightarrow> pyval \<Rightarrow> profile \<Rightarrow> pyval io" where
  "vcfa_action_secret_list opts project_id profile =
     (let params = (if truthy project_id then PDict [(''projects'', project_id)] else PNone) in
     bindM (vcfa_api_get opts vcfa_action_secret_BASE params profile PNone) (\<lambda>resp.
     bindM (liftR (py_get resp ''content'' (PList []))) (\<lambda>items.
     pureM (py_or items (PList [])))))"

definition vcfa_action_secret_get :: "pyval \<Rightarrow> pyval \<Rightarrow> profile \<Rightarrow> pyval io" where
  "vcfa_action_secret_get opts secret_id profile =
     vcfa_api_get opts (vcfa_action_secret_BASE @ ''/'' @ py_str secret_id) PNone profile PNone"

definition vcfa_action_secret_get_or_none :: "pyval \<Rightarrow> pyval \<Rightarrow> profile \<Rightarrow> pyval io" where
  "vcfa_action_secret_get_or_none opts secret_id profile =
     none_if_missing (vcfa_action_secret_get opts secret_id profile)"

definition vcfa_action_secret_create :: "pyval \<Rightarrow> pyval \<Rightarrow> profile \<Rightarrow> pyval io" where
  "vcfa_action_secret_create opts spec profile =
     vcfa_api_post opts vcfa_action_secret_BASE spec PNone profile PNone"

definition vcfa_action_secret_update ::
  "pyval \<Rightarrow> pyval \<Rightarrow> pyval \<Rightarrow> profile \<Rightarrow> pyval io" where
  "vcfa_action_secret_update opts secret_id spec profile =
     vcfa_api_put opts (vcfa_action_secret_BASE @ ''/'' @ py_str secret_id) spec PNone profile PNone"

definition vcfa_action_secret_delete :: "pyval \<Rightarrow> pyval \<Rightarrow> profile \<Rightarrow> pyval io" where
  "vcfa_action_secret_delete opts secret_id profile =
     vcfa_api_delete opts (vcfa_action_secret_BASE @ ''/'' @ py_str secret_id) PNone profile PNone"

subsubsection \<open>\<open>clients/vcfa_action_subscription.py\<close>\<close>

definition vcfa_action_subscription_BASE :: "string" where
  "vcfa_action_subscription_BASE = ''/event-broker/api/subscriptions''"

definition vcfa_action_subscription_TOPICS :: "string" where
  "vcfa_action_subscription_TOPICS = ''/event-broker/api/event-topics''"

definition vcfa_action_subscription_list :: "pyval \<Rightarrow> profile \<Rightarrow> pyval io" where
  "vcfa_action_subscription_list opts profile =
     bindM (vcfa_api_get opts vcfa_action_subscription_BASE PNone profile PNone) (\<lambda>resp.
     bindM (liftR (py_get resp ''content'' (PList []))) (\<lambda>items.
     pureM (py_or items (PList []))))"

definition vcfa_action_subscription_get :: "pyval \<Rightarrow> pyval \<Rightarrow> profile \<Rightarrow> pyval io" where
  "vcfa_action_subscription_get opts subscription_id profile =
     vcfa_api_get opts (vcfa_action_subscription_BASE @ ''/'' @ py_str subscription_id)
       PNone profile PNone"

definition vcfa_action_subscription_get_or_none :: "pyval \<Rightarrow> pyval \<Rightarrow> profile \<Rightarrow> pyval io" where
  "vcfa_action_subscription_get_or_none opts subscription_id profile =
     none_if_missing (vcfa_action_subscription_get opts subscription_id profile)"

definition vcfa_action_subscription_create :: "pyval \<Rightarrow> pyval \<Rightarrow> profile \<Rightarrow> pyval io" where
  "vcfa_action_subscription_create opts spec profile =
     vcfa_api_post opts vcfa_action_subscription_BASE spec PNone profile PNone"

definition vcfa_action_subscription_update ::
  "pyval \<Rightarrow> pyval \<Rightarrow> pyval \<Rightarrow> profile \<Rightarrow> pyval io" where
  "vcfa_action_subscription_update opts subscription_id spec profile =
     vcfa_api_put opts (vcfa_action_subscription_BASE @ ''/'' @ py_str subscription_id)
       spec PNone profile PNone"

definition vcfa_action_subscription_delete :: "pyval \<Rightarrow> pyval \<Rightarrow> profile \<Rightarrow> pyval io" where
  "vcfa_action_subscription_delete opts subscription_id profile =
     vcfa_api_delete opts (vcfa_action_subscription_BASE @ ''/'' @ py_str subscription_id)
       PNone profile PNone"

definition vcfa_action_subscription_list_event_topics :: "pyval \<Rightarrow> profile \<Rightarrow> pyval io" where
  "vcfa_action_subscription_list_event_topics opts profile =
     bindM (vcfa_api_get opts vcfa_action_subscription_TOPICS PNone profile PNone) (\<lambda>resp.
     bindM (liftR (py_get resp ''content'' (PList []))) (\<lambda>items.
     pureM (py_or items (PList []))))"

subsubsection \<open>\<open>clients/vcfa_workflow_run.py\<close>\<close>

definition vcfa_workflow_run_WORKFLOWS :: "string" where
  "vcfa_workflow_run_WORKFLOWS = ''/vco/api/workflows''"

definition vcfa_workflow_run_list :: "pyval \<Rightarrow> pyval \<Rightarrow> profile \<Rightarrow> pyval io" where
  "vcfa_workflow_run_list opts workflow_id profile =
     bindM (vcfa_api_get opts (vcfa_workflow_run_WORKFLOWS @ ''/'' @ py_str workflow_id @ ''/executions'')
       PNone profile PNone) (\<lambda>resp.
     bindM (liftR (py_get resp ''relations'' (PDict []))) (\<lambda>items.
     bindM (liftR (py_get items ''link'' (PList []))) (\<lambda>items2.
     bindM (liftR (py_get resp ''content'' (PList []))) (\<lambda>items3.
     pureM (py_or items2 (py_or items3 (PList [])))))))"

definition vcfa_workflow_run_get ::
  "pyval \<Rightarrow> pyval \<Rightarrow> pyval \<Rightarrow> profile \<Rightarrow> pyval io" where
  "vcfa_workflow_run_get opts workflow_id run_id profile =
     vcfa_api_get opts (vcfa_workflow_run_WORKFLOWS @ ''/'' @ py_str workflow_id @ ''/executions/'' @ py_str
       run_id)
       PNone profile PNone"

definition vcfa_workflow_run_get_or_none ::
  "pyval \<Rightarrow> pyval \<Rightarrow> pyval \<Rightarrow> profile \<Rightarrow> pyval io" where
  "vcfa_workflow_run_get_or_none opts workflow_id run_id profile =
     none_if_missing (vcfa_workflow_run_get opts workflow_id run_id profile)"

definition vcfa_workflow_run_start ::
  "pyval \<Rightarrow> pyval \<Rightarrow> pyval \<Rightarrow> profile \<Rightarrow> pyval io" where
  "vcfa_workflow_run_start opts workflow_id parameters profile =
     bindM (liftR (py_iter parameters)) (\<lambda>items.
     let body = (if truthy parameters then PDict [(''parameters'', PList items)] else PDict []) in
     vcfa_api_post opts (vcfa_workflow_run_WORKFLOWS @ ''/'' @ py_str workflow_id @ ''/executions'')
       body PNone profile PNone)"

definition vcfa_workflow_run_cancel ::
  "pyval \<Rightarrow> pyval \<Rightarrow> pyval \<Rightarrow> profile \<Rightarrow> pyval io" where
  "vcfa_workflow_run_cancel opts workflow_id run_id profile =
     vcfa_api_post opts (vcfa_workflow_run_WORKFLOWS @ ''/'' @ py_str workflow_id @ ''/executions/'' @ py_str run_id
       @ ''/state'')
       (PDict [(''value'', PStr ''canceled'')]) PNone profile PNone"

definition vcfa_workflow_run_logs ::
  "pyval \<Rightarrow> pyval \<Rightarrow> pyval \<Rightarrow> profile \<Rightarrow> pyval io" where
  "vcfa_workflow_run_logs opts workflow_id run_id profile =
     vcfa_api_get opts (vcfa_workflow_run_WORKFLOWS @ ''/'' @ py_str workflow_id @ ''/executions/'' @ py_str run_id
       @ ''/logs'')
       PNone profile PNone"

definition vcfa_workflow_run_state ::
  "pyval \<Rightarrow> pyval \<Rightarrow> pyval \<Rightarrow> profile \<Rightarrow> pyval io" where
  "vcfa_workflow_run_state opts workflow_id run_id profile =
     vcfa_api_get opts (vcfa_workflow_run_WORKFLOWS @ ''/'' @ py_str workflow_id @ ''/executions/'' @ py_str run_id
       @ ''/state'')
       PNone profile PNone"

subsubsection \<open>\<open>clients/vcfa_vro_config_element.py\<close>\<close>

definition vcfa_vro_config_element_BASE :: "string" where
  "vcfa_vro_config_element_BASE = ''/vco/api/configurations''"

definition vcfa_vro_config_element_list :: "pyval \<Rightarrow> pyval \<Rightarrow> profile \<Rightarrow> pyval io" where
  "vcfa_vro_config_element_list opts category profile =
     (let params = (if truthy category then PDict [(''categoryId'', category)] else PNone) in
     bindM (vcfa_api_get opts vcfa_vro_config_element_BASE params profile PNone) (\<lambda>resp.
     bindM (liftR (py_get resp ''link'' (PList []))) (\<lambda>items.
     bindM (liftR (py_get resp ''content'' (PList []))) (\<lambda>items2.
     pureM (py_or items (py_or items2 (PList [])))))))"

definition vcfa_vro_config_element_get :: "pyval \<Rightarrow> pyval \<Rightarrow> profile \<Rightarrow> pyval io" where
  "vcfa_vro_config_element_get opts config_id profile =
     vcfa_api_get opts (vcfa_vro_config_element_BASE @ ''/'' @ py_str config_id) PNone profile PNone"

definition vcfa_vro_config_element_get_or_none :: "pyval \<Rightarrow> pyval \<Rightarrow> profile \<Rightarrow> pyval io" where
  "vcfa_vro_config_element_get_or_none opts config_id profile =
     none_if_missing (vcfa_vro_config_element_get opts config_id profile)"

definition vcfa_vro_config_element_create :: "pyval \<Rightarrow> pyval \<Rightarrow> profile \<Rightarrow> pyval io" where
  "vcfa_vro_config_element_create opts spec profile =
     vcfa_api_post opts vcfa_vro_config_element_BASE spec PNone profile PNone"

definition vcfa_vro_config_element_update ::
  "pyval \<Rightarrow> pyval \<Rightarrow> pyval \<Rightarrow> profile \<Rightarrow> pyval io" where
  "vcfa_vro_config_element_update opts config_id spec profile =
     vcfa_api_put opts (vcfa_vro_config_element_BASE @ ''/'' @ py_str config_id) spec PNone profile PNone"

definition vcfa_vro_config_element_delete :: "pyval \<Rightarrow> pyval \<Rightarrow> profile \<Rightarrow> pyval io" where
  "vcfa_vro_config_element_delete opts config_id profile =
     vcfa_api_delete opts (vcfa_vro_config_element_BASE @ ''/'' @ py_str config_id) PNone profile PNone"

definition vcfa_vro_config_element_get_attribute ::
  "pyval \<Rightarrow> pyval \<Rightarrow> pyval \<Rightarrow> profile \<Rightarrow> pyval io" where
  "vcfa_vro_config_element_get_attribute opts config_id attribute_name profile =
     vcfa_api_get opts (vcfa_vro_config_element_BASE @ ''/'' @ py_str config_id @ ''/attributes/'' @ py_str
       attribute_name)
       PNone profile PNone"

definition vcfa_vro_config_element_set_attribute ::
  "pyval \<Rightarrow> pyval \<Rightarrow> pyval \<Rightarrow> pyval \<Rightarrow> profile \<Rightarrow> pyval io" where
  "vcfa_vro_config_element_set_attribute opts config_id attribute_name attribute_spec profile =
     vcfa_api_put opts (vcfa_vro_config_element_BASE @ ''/'' @ py_str config_id @ ''/attributes/'' @ py_str
       attribute_name)
       attribute_spec PNone profile PNone"

subsubsection \<open>\<open>clients/vcfa_vro_package.py\<close>\<close>

definition vcfa_vro_package_BASE :: "string" where
  "vcfa_vro_package_BASE = ''/vco/api/packages''"

definition vcfa_vro_package_list :: "pyval \<Rightarrow> profile \<Rightarrow> pyval io" where
  "vcfa_vro_package_list opts profile =
     bindM (vcfa_api_get opts vcfa_vro_package_BASE PNone profile PNone) (\<lambda>resp.
     bindM (liftR (py_get resp ''link'' (PList []))) (\<lambda>items.
     bindM (liftR (py_get resp ''content'' (PList []))) (\<lambda>items2.
     pureM (py_or items (py_or items2 (PList []))))))"

definition vcfa_vro_package_get :: "pyval \<Rightarrow> pyval \<Rightarrow> profile \<Rightarrow> pyval io" where
  "vcfa_vro_package_get opts name profile =
     vcfa_api_get opts (vcfa_vro_package_BASE @ ''/'' @ py_str name) PNone profile PNone"

definition vcfa_vro_package_get_or_none :: "pyval \<Rightarrow> pyval \<Rightarrow> profile \<Rightarrow> pyval io" where
  "vcfa_vro_package_get_or_none opts name profile = none_if_missing (vcfa_vro_package_get opts name
    profile)"

text \<open>The form of the upload: a file name, its bytes as text, its content type.\<close>

definition vcfa_vro_package_import :: "pyval \<Rightarrow> pyval \<Rightarrow> pyval \<Rightarrow> pyval \<Rightarrow> profile \<Rightarrow> pyval io" where
  "vcfa_vro_package_import opts name package_bytes overwrite profile =
     (let files = PDict [(''file'',
        PList [PStr (py_str name @ ''.package''), package_bytes, PStr ''application/octet-stream''])];
        params = (if truthy overwrite then PDict [(''overwrite'', PStr ''true'')] else PNone) in
      vcfa_api_post_multipart opts vcfa_vro_package_BASE files params profile PNone)"

definition vcfa_vro_package_delete ::
  "pyval \<Rightarrow> pyval \<Rightarrow> pyval \<Rightarrow> profile \<Rightarrow> pyval io" where
  "vcfa_vro_package_delete opts name option profile =
     (let params = (if truthy option then PDict [(''option'', option)] else PNone) in
     vcfa_api_delete opts (vcfa_vro_package_BASE @ ''/'' @ py_str name) params profile PNone)"

text \<open>The content of a package, its bytes as text.\<close>

definition vcfa_vro_package_export :: "pyval \<Rightarrow> pyval \<Rightarrow> profile \<Rightarrow> pyval io" where
  "vcfa_vro_package_export opts name profile =
     bindM (vcfa_request ''GET'' opts (vcfa_vro_package_BASE @ ''/'' @ py_str name) PNone PNone profile PNone) (\<lambda>resp.
     pureM (case rs_text resp of Some t \<Rightarrow> PStr t | None \<Rightarrow> PNone))"

subsection \<open>the catalog clients\<close>

text \<open>
  The REST calls on catalog items, deployments, cloud templates and resource actions.

  One definition per function of the client modules; identifiers and other arguments are
  Python values, keyword arguments (\<open>**spec\<close>) a dict.
\<close>

subsubsection \<open>\<open>clients/vcfa_catalog.py\<close>\<close>

definition vcfa_catalog_ITEMS :: "string" where
  "vcfa_catalog_ITEMS = ''/catalog/api/items''"

definition vcfa_catalog_SOURCES :: "string" where
  "vcfa_catalog_SOURCES = ''/catalog/api/sources''"

definition vcfa_catalog_list_items :: "pyval \<Rightarrow> pyval \<Rightarrow> profile \<Rightarrow> pyval io" where
  "vcfa_catalog_list_items opts project_id profile =
     (let params = [] :: dict in
     let params = (if project_id \<noteq> PNone then dset params ''projects'' project_id else params) in
     bindM (vcfa_api_get opts vcfa_catalog_ITEMS (if params = [] then PNone else PDict params) profile PNone)
       (\<lambda>resp.
     bindM (liftR (py_get resp ''content'' (PList []))) (\<lambda>items.
     pureM (py_or items (PList [])))))"

definition vcfa_catalog_get_item :: "pyval \<Rightarrow> pyval \<Rightarrow> profile \<Rightarrow> pyval io" where
  "vcfa_catalog_get_item opts item_id profile =
     vcfa_api_get opts (vcfa_catalog_ITEMS @ ''/'' @ py_str item_id) PNone profile PNone"

definition vcfa_catalog_get_item_or_none :: "pyval \<Rightarrow> pyval \<Rightarrow> profile \<Rightarrow> pyval io" where
  "vcfa_catalog_get_item_or_none opts item_id profile =
     none_if_missing (vcfa_catalog_get_item opts item_id profile)"

definition vcfa_catalog_request_item ::
  "pyval \<Rightarrow> pyval \<Rightarrow> pyval \<Rightarrow> profile \<Rightarrow> pyval io" where
  "vcfa_catalog_request_item opts item_id request_spec profile =
     vcfa_api_post opts (vcfa_catalog_ITEMS @ ''/'' @ py_str item_id @ ''/request'')
       request_spec PNone profile PNone"

definition vcfa_catalog_list_sources :: "pyval \<Rightarrow> profile \<Rightarrow> pyval io" where
  "vcfa_catalog_list_sources opts profile =
     bindM (vcfa_api_get opts vcfa_catalog_SOURCES PNone profile PNone) (\<lambda>resp.
     bindM (liftR (py_get resp ''content'' (PList []))) (\<lambda>items.
     pureM (py_or items (PList []))))"

definition vcfa_catalog_get_source :: "pyval \<Rightarrow> pyval \<Rightarrow> profile \<Rightarrow> pyval io" where
  "vcfa_catalog_get_source opts source_id profile =
     vcfa_api_get opts (vcfa_catalog_SOURCES @ ''/'' @ py_str source_id) PNone profile PNone"

definition vcfa_catalog_create_source :: "pyval \<Rightarrow> pyval \<Rightarrow> profile \<Rightarrow> pyval io" where
  "vcfa_catalog_create_source opts spec profile =
     vcfa_api_post opts vcfa_catalog_SOURCES spec PNone profile PNone"

definition vcfa_catalog_update_source ::
  "pyval \<Rightarrow> pyval \<Rightarrow> pyval \<Rightarrow> profile \<Rightarrow> pyval io" where
  "vcfa_catalog_update_source opts source_id spec profile =
     vcfa_api_patch opts (vcfa_catalog_SOURCES @ ''/'' @ py_str source_id) spec PNone profile PNone"

definition vcfa_catalog_delete_source :: "pyval \<Rightarrow> pyval \<Rightarrow> profile \<Rightarrow> pyval io" where
  "vcfa_catalog_delete_source opts source_id profile =
     vcfa_api_delete opts (vcfa_catalog_SOURCES @ ''/'' @ py_str source_id) PNone profile PNone"

subsubsection \<open>\<open>clients/vcfa_cloud_template.py\<close>\<close>

definition vcfa_cloud_template_BASE :: "string" where
  "vcfa_cloud_template_BASE = ''/blueprint/api/blueprints''"

definition vcfa_cloud_template_list :: "pyval \<Rightarrow> pyval \<Rightarrow> profile \<Rightarrow> pyval io" where
  "vcfa_cloud_template_list opts project_id profile =
     (let params = [] :: dict in
     let params = (if project_id \<noteq> PNone then dset params ''projects'' project_id else params) in
     bindM (vcfa_api_get opts vcfa_cloud_template_BASE
       (if params = [] then PNone else PDict params) profile PNone) (\<lambda>resp.
     bindM (liftR (py_get resp ''content'' (PList []))) (\<lambda>items.
     pureM (py_or items (PList [])))))"

definition vcfa_cloud_template_get :: "pyval \<Rightarrow> pyval \<Rightarrow> profile \<Rightarrow> pyval io" where
  "vcfa_cloud_template_get opts blueprint_id profile =
     vcfa_api_get opts (vcfa_cloud_template_BASE @ ''/'' @ py_str blueprint_id) PNone profile PNone"

definition vcfa_cloud_template_get_or_none :: "pyval \<Rightarrow> pyval \<Rightarrow> profile \<Rightarrow> pyval io" where
  "vcfa_cloud_template_get_or_none opts blueprint_id profile =
     none_if_missing (vcfa_cloud_template_get opts blueprint_id profile)"

definition vcfa_cloud_template_create :: "pyval \<Rightarrow> pyval \<Rightarrow> profile \<Rightarrow> pyval io" where
  "vcfa_cloud_template_create opts spec profile =
     vcfa_api_post opts vcfa_cloud_template_BASE spec PNone profile PNone"

definition vcfa_cloud_template_update ::
  "pyval \<Rightarrow> pyval \<Rightarrow> pyval \<Rightarrow> profile \<Rightarrow> pyval io" where
  "vcfa_cloud_template_update opts blueprint_id spec profile =
     vcfa_api_put opts (vcfa_cloud_template_BASE @ ''/'' @ py_str blueprint_id) spec PNone profile PNone"

definition vcfa_cloud_template_delete :: "pyval \<Rightarrow> pyval \<Rightarrow> profile \<Rightarrow> pyval io" where
  "vcfa_cloud_template_delete opts blueprint_id profile =
     vcfa_api_delete opts (vcfa_cloud_template_BASE @ ''/'' @ py_str blueprint_id) PNone profile PNone"

definition vcfa_cloud_template_list_versions :: "pyval \<Rightarrow> pyval \<Rightarrow> profile \<Rightarrow> pyval io" where
  "vcfa_cloud_template_list_versions opts blueprint_id profile =
     bindM (vcfa_api_get opts (vcfa_cloud_template_BASE @ ''/'' @ py_str blueprint_id @ ''/versions'')
       PNone profile PNone) (\<lambda>resp.
     bindM (liftR (py_get resp ''content'' (PList []))) (\<lambda>items.
     pureM (py_or items (PList []))))"

definition vcfa_cloud_template_get_version ::
  "pyval \<Rightarrow> pyval \<Rightarrow> pyval \<Rightarrow> profile \<Rightarrow> pyval io" where
  "vcfa_cloud_template_get_version opts blueprint_id version_id profile =
     vcfa_api_get opts (vcfa_cloud_template_BASE @ ''/'' @ py_str blueprint_id @ ''/versions/'' @ py_str
       version_id)
       PNone profile PNone"

definition vcfa_cloud_template_create_version ::
  "pyval \<Rightarrow> pyval \<Rightarrow> pyval \<Rightarrow> profile \<Rightarrow> pyval io" where
  "vcfa_cloud_template_create_version opts blueprint_id spec profile =
     vcfa_api_post opts (vcfa_cloud_template_BASE @ ''/'' @ py_str blueprint_id @ ''/versions'')
       spec PNone profile PNone"

definition vcfa_cloud_template_release_version ::
  "pyval \<Rightarrow> pyval \<Rightarrow> pyval \<Rightarrow> profile \<Rightarrow> pyval io" where
  "vcfa_cloud_template_release_version opts blueprint_id version_id profile =
     vcfa_api_post opts (vcfa_cloud_template_BASE @ ''/'' @ py_str blueprint_id @ ''/versions/'' @ py_str version_id
       @ ''/actions/release'')
       PNone PNone profile PNone"

definition vcfa_cloud_template_unrelease_version ::
  "pyval \<Rightarrow> pyval \<Rightarrow> pyval \<Rightarrow> profile \<Rightarrow> pyval io" where
  "vcfa_cloud_template_unrelease_version opts blueprint_id version_id profile =
     vcfa_api_post opts (vcfa_cloud_template_BASE @ ''/'' @ py_str blueprint_id @ ''/versions/'' @ py_str version_id
       @ ''/actions/unrelease'')
       PNone PNone profile PNone"

subsubsection \<open>\<open>clients/vcfa_resource_action.py\<close>\<close>

definition vcfa_resource_action_BASE :: "string" where
  "vcfa_resource_action_BASE = ''/form-service/api/custom/resource-actions''"

definition vcfa_resource_action_list :: "pyval \<Rightarrow> pyval \<Rightarrow> profile \<Rightarrow> pyval io" where
  "vcfa_resource_action_list opts project_id profile =
     (let params = (if truthy project_id then PDict [(''projects'', project_id)] else PNone) in
     bindM (vcfa_api_get opts vcfa_resource_action_BASE params profile PNone) (\<lambda>resp.
     bindM (liftR (py_get resp ''content'' (PList []))) (\<lambda>items.
     pureM (py_or items (PList [])))))"

definition vcfa_resource_action_get :: "pyval \<Rightarrow> pyval \<Rightarrow> profile \<Rightarrow> pyval io" where
  "vcfa_resource_action_get opts action_id profile =
     vcfa_api_get opts (vcfa_resource_action_BASE @ ''/'' @ py_str action_id) PNone profile PNone"

definition vcfa_resource_action_get_or_none :: "pyval \<Rightarrow> pyval \<Rightarrow> profile \<Rightarrow> pyval io" where
  "vcfa_resource_action_get_or_none opts action_id profile =
     none_if_missing (vcfa_resource_action_get opts action_id profile)"

definition vcfa_resource_action_create :: "pyval \<Rightarrow> pyval \<Rightarrow> profile \<Rightarrow> pyval io" where
  "vcfa_resource_action_create opts spec profile =
     vcfa_api_post opts vcfa_resource_action_BASE spec PNone profile PNone"

definition vcfa_resource_action_update ::
  "pyval \<Rightarrow> pyval \<Rightarrow> pyval \<Rightarrow> profile \<Rightarrow> pyval io" where
  "vcfa_resource_action_update opts action_id spec profile =
     vcfa_api_put opts (vcfa_resource_action_BASE @ ''/'' @ py_str action_id) spec PNone profile PNone"

definition vcfa_resource_action_delete :: "pyval \<Rightarrow> pyval \<Rightarrow> profile \<Rightarrow> pyval io" where
  "vcfa_resource_action_delete opts action_id profile =
     vcfa_api_delete opts (vcfa_resource_action_BASE @ ''/'' @ py_str action_id) PNone profile PNone"

end
