(* ===== verification/Vcfa_Access.thy ===== *)
theory Vcfa_Access
  imports Vcfa Rest_Client
begin

section \<open>Vcfa_Access: VCF Automation: organizations, roles and projects\<close>

text \<open>
  The REST calls on identities, roles, organizations and projects, and the membership of a project.

  One definition per function of the client modules; identifiers and other arguments are
  Python values, keyword arguments (\<open>**spec\<close>) a dict.
\<close>

subsection \<open>\<open>clients/vcfa_iam.py\<close>\<close>

definition vcfa_iam_ORGS :: "string" where
  "vcfa_iam_ORGS = ''/csp/gateway/am/api/orgs''"

definition vcfa_iam_LOGGED_IN_ORGS :: "string" where
  "vcfa_iam_LOGGED_IN_ORGS = ''/csp/gateway/am/api/loggedin/user/orgs''"

definition vcfa_iam_list_orgs :: "pyval \<Rightarrow> profile \<Rightarrow> pyval io" where
  "vcfa_iam_list_orgs opts profile =
     bindM (vcfa_api_get opts vcfa_iam_LOGGED_IN_ORGS PNone profile PNone) (\<lambda>resp.
     bindM (liftR (py_get resp ''items'' (PList []))) (\<lambda>items.
     bindM (liftR (py_get resp ''content'' (PList []))) (\<lambda>items2.
     pureM (py_or items (py_or items2 (PList []))))))"

definition vcfa_iam_get_org :: "pyval \<Rightarrow> pyval \<Rightarrow> profile \<Rightarrow> pyval io" where
  "vcfa_iam_get_org opts org_id profile =
     vcfa_api_get opts (vcfa_iam_ORGS @ ''/'' @ py_str org_id) PNone profile PNone"

definition vcfa_iam_get_org_or_none :: "pyval \<Rightarrow> pyval \<Rightarrow> profile \<Rightarrow> pyval io" where
  "vcfa_iam_get_org_or_none opts org_id profile = none_if_missing (vcfa_iam_get_org opts org_id profile)"

definition vcfa_iam_list_users :: "pyval \<Rightarrow> pyval \<Rightarrow> profile \<Rightarrow> pyval io" where
  "vcfa_iam_list_users opts org_id profile =
     bindM (vcfa_api_get opts (vcfa_iam_ORGS @ ''/'' @ py_str org_id @ ''/users'') PNone profile PNone)
       (\<lambda>resp.
     bindM (liftR (py_get resp ''items'' (PList []))) (\<lambda>items.
     bindM (liftR (py_get resp ''results'' (PList []))) (\<lambda>items2.
     pureM (py_or items (py_or items2 (PList []))))))"

definition vcfa_iam_get_user_roles ::
  "pyval \<Rightarrow> pyval \<Rightarrow> pyval \<Rightarrow> profile \<Rightarrow> pyval io" where
  "vcfa_iam_get_user_roles opts org_id user_id profile =
     vcfa_api_get opts (vcfa_iam_ORGS @ ''/'' @ py_str org_id @ ''/users/'' @ py_str user_id @ ''/roles'')
       PNone profile PNone"

definition vcfa_iam_patch_user_roles ::
  "pyval \<Rightarrow> pyval \<Rightarrow> pyval \<Rightarrow> pyval \<Rightarrow> pyval \<Rightarrow> profile \<Rightarrow> pyval io" where
  "vcfa_iam_patch_user_roles opts org_id user_id add rem profile =
     (let body = [] :: dict in
     bindM (liftR (if truthy add then bindR (py_iter add) (\<lambda>items. Ok (dset body ''rolesToAdd'' (PList
       items))) else Ok body)) (\<lambda>body.
     bindM (liftR (if truthy rem then bindR (py_iter rem) (\<lambda>items2. Ok (dset body ''rolesToRemove'' (PList
       items2))) else Ok body)) (\<lambda>body.
     if \<not> (body \<noteq> []) then raiseM (ValueError
       ''patch_user_roles requires at least one of add= or remove='')
     else vcfa_api_patch opts (vcfa_iam_ORGS @ ''/'' @ py_str org_id @ ''/users/'' @ py_str user_id @
       ''/roles'')
       (PDict body) PNone profile PNone)))"

subsection \<open>\<open>clients/vcfa_custom_role.py\<close>\<close>

definition vcfa_custom_role_BASE :: "string" where
  "vcfa_custom_role_BASE = ''/iam/api/roles''"

definition vcfa_custom_role_list :: "pyval \<Rightarrow> profile \<Rightarrow> pyval io" where
  "vcfa_custom_role_list opts profile =
     bindM (vcfa_api_get opts vcfa_custom_role_BASE PNone profile PNone) (\<lambda>resp.
     bindM (liftR (py_get resp ''items'' (PList []))) (\<lambda>items.
     bindM (liftR (py_get resp ''content'' (PList []))) (\<lambda>items2.
     pureM (py_or items (py_or items2 (PList []))))))"

definition vcfa_custom_role_get :: "pyval \<Rightarrow> pyval \<Rightarrow> profile \<Rightarrow> pyval io" where
  "vcfa_custom_role_get opts role_id profile =
     vcfa_api_get opts (vcfa_custom_role_BASE @ ''/'' @ py_str role_id) PNone profile PNone"

definition vcfa_custom_role_get_or_none :: "pyval \<Rightarrow> pyval \<Rightarrow> profile \<Rightarrow> pyval io" where
  "vcfa_custom_role_get_or_none opts role_id profile =
     none_if_missing (vcfa_custom_role_get opts role_id profile)"

definition vcfa_custom_role_create :: "pyval \<Rightarrow> pyval \<Rightarrow> profile \<Rightarrow> pyval io" where
  "vcfa_custom_role_create opts spec profile =
     vcfa_api_post opts vcfa_custom_role_BASE spec PNone profile PNone"

definition vcfa_custom_role_update ::
  "pyval \<Rightarrow> pyval \<Rightarrow> pyval \<Rightarrow> profile \<Rightarrow> pyval io" where
  "vcfa_custom_role_update opts role_id spec profile =
     vcfa_api_put opts (vcfa_custom_role_BASE @ ''/'' @ py_str role_id) spec PNone profile PNone"

definition vcfa_custom_role_delete :: "pyval \<Rightarrow> pyval \<Rightarrow> profile \<Rightarrow> pyval io" where
  "vcfa_custom_role_delete opts role_id profile =
     vcfa_api_delete opts (vcfa_custom_role_BASE @ ''/'' @ py_str role_id) PNone profile PNone"

subsection \<open>\<open>clients/vcfa_organization.py\<close>\<close>

definition vcfa_organization_BASE :: "string" where
  "vcfa_organization_BASE = ''/csp/gateway/am/api/orgs''"

definition vcfa_organization_list :: "pyval \<Rightarrow> profile \<Rightarrow> pyval io" where
  "vcfa_organization_list opts profile =
     bindM (vcfa_api_get opts vcfa_organization_BASE PNone profile PNone) (\<lambda>resp.
     bindM (liftR (py_get resp ''items'' (PList []))) (\<lambda>items.
     bindM (liftR (py_get resp ''content'' (PList []))) (\<lambda>items2.
     pureM (py_or items (py_or items2 (PList []))))))"

definition vcfa_organization_get :: "pyval \<Rightarrow> pyval \<Rightarrow> profile \<Rightarrow> pyval io" where
  "vcfa_organization_get opts org_id profile =
     vcfa_api_get opts (vcfa_organization_BASE @ ''/'' @ py_str org_id) PNone profile PNone"

definition vcfa_organization_get_or_none :: "pyval \<Rightarrow> pyval \<Rightarrow> profile \<Rightarrow> pyval io" where
  "vcfa_organization_get_or_none opts org_id profile =
     none_if_missing (vcfa_organization_get opts org_id profile)"

definition vcfa_organization_create :: "pyval \<Rightarrow> pyval \<Rightarrow> profile \<Rightarrow> pyval io" where
  "vcfa_organization_create opts spec profile =
     vcfa_api_post opts vcfa_organization_BASE spec PNone profile PNone"

definition vcfa_organization_update ::
  "pyval \<Rightarrow> pyval \<Rightarrow> pyval \<Rightarrow> profile \<Rightarrow> pyval io" where
  "vcfa_organization_update opts org_id spec profile =
     vcfa_api_patch opts (vcfa_organization_BASE @ ''/'' @ py_str org_id) spec PNone profile PNone"

definition vcfa_organization_delete :: "pyval \<Rightarrow> pyval \<Rightarrow> profile \<Rightarrow> pyval io" where
  "vcfa_organization_delete opts org_id profile =
     vcfa_api_delete opts (vcfa_organization_BASE @ ''/'' @ py_str org_id) PNone profile PNone"

definition vcfa_organization_list_services :: "pyval \<Rightarrow> pyval \<Rightarrow> profile \<Rightarrow> pyval io" where
  "vcfa_organization_list_services opts org_id profile =
     bindM (vcfa_api_get opts (vcfa_organization_BASE @ ''/'' @ py_str org_id @ ''/service-definitions'')
       PNone profile PNone) (\<lambda>resp.
     bindM (liftR (py_get resp ''items'' (PList []))) (\<lambda>items.
     bindM (liftR (py_get resp ''content'' (PList []))) (\<lambda>items2.
     pureM (py_or items (py_or items2 (PList []))))))"

definition vcfa_organization_enable_service ::
  "pyval \<Rightarrow> pyval \<Rightarrow> pyval \<Rightarrow> profile \<Rightarrow> pyval io" where
  "vcfa_organization_enable_service opts org_id service_definition_id profile =
     (let body = [(''serviceDefinitionId'', service_definition_id)] in
     vcfa_api_post opts (vcfa_organization_BASE @ ''/'' @ py_str org_id @ ''/service-definitions'')
       (PDict body) PNone profile PNone)"

definition vcfa_organization_disable_service ::
  "pyval \<Rightarrow> pyval \<Rightarrow> pyval \<Rightarrow> profile \<Rightarrow> pyval io" where
  "vcfa_organization_disable_service opts org_id service_definition_id profile =
     vcfa_api_delete opts (vcfa_organization_BASE @ ''/'' @ py_str org_id @ ''/service-definitions/'' @ py_str
       service_definition_id)
       PNone profile PNone"

subsection \<open>\<open>clients/vcfa_project.py\<close>\<close>

definition vcfa_project_BASE :: "string" where
  "vcfa_project_BASE = ''/iaas/api/projects''"

definition vcfa_project_list :: "pyval \<Rightarrow> profile \<Rightarrow> pyval io" where
  "vcfa_project_list opts profile =
     bindM (vcfa_api_get opts vcfa_project_BASE PNone profile PNone) (\<lambda>resp.
     bindM (liftR (py_get resp ''content'' (PList []))) (\<lambda>items.
     pureM (py_or items (PList []))))"

definition vcfa_project_get :: "pyval \<Rightarrow> pyval \<Rightarrow> profile \<Rightarrow> pyval io" where
  "vcfa_project_get opts project_id profile =
     vcfa_api_get opts (vcfa_project_BASE @ ''/'' @ py_str project_id) PNone profile PNone"

definition vcfa_project_get_or_none :: "pyval \<Rightarrow> pyval \<Rightarrow> profile \<Rightarrow> pyval io" where
  "vcfa_project_get_or_none opts project_id profile =
     none_if_missing (vcfa_project_get opts project_id profile)"

definition vcfa_project_create :: "pyval \<Rightarrow> pyval \<Rightarrow> profile \<Rightarrow> pyval io" where
  "vcfa_project_create opts spec profile = vcfa_api_post opts vcfa_project_BASE spec PNone profile PNone"

definition vcfa_project_update ::
  "pyval \<Rightarrow> pyval \<Rightarrow> pyval \<Rightarrow> profile \<Rightarrow> pyval io" where
  "vcfa_project_update opts project_id spec profile =
     vcfa_api_patch opts (vcfa_project_BASE @ ''/'' @ py_str project_id) spec PNone profile PNone"

definition vcfa_project_delete :: "pyval \<Rightarrow> pyval \<Rightarrow> profile \<Rightarrow> pyval io" where
  "vcfa_project_delete opts project_id profile =
     vcfa_api_delete opts (vcfa_project_BASE @ ''/'' @ py_str project_id) PNone profile PNone"

definition vcfa_project_resources :: "pyval \<Rightarrow> pyval \<Rightarrow> profile \<Rightarrow> pyval io" where
  "vcfa_project_resources opts project_id profile =
     vcfa_api_get opts (vcfa_project_BASE @ ''/'' @ py_str project_id @ ''/resources'')
       PNone profile PNone"

subsection \<open>\<open>clients/vcfa_project_user.py\<close>\<close>

definition vcfa_project_user_ROLES :: "string list" where
  "vcfa_project_user_ROLES = [''administrators'', ''members'', ''viewers'', ''supervisors'']"

text \<open>\<open>if role not in ROLES: raise ValueError\<close>; a role that passes is a string.\<close>

definition checked_role :: "pyval \<Rightarrow> string res" where
  "checked_role role =
     (if in_strs role vcfa_project_user_ROLES then Ok (py_str role)
      else Exc (ValueError (''role must be one of ('' @ join_with '', '' (map repr_str vcfa_project_user_ROLES) @ ''), got ''
        @ py_repr role)))"

text \<open>\<open>list(project.get(role, []) or [])\<close>.\<close>

definition role_members :: "pyval \<Rightarrow> string \<Rightarrow> pyval list res" where
  "role_members project r = bindR (py_get project r (PList [])) (\<lambda>v. py_iter (py_or v (PList [])))"

definition project_path :: "pyval \<Rightarrow> string" where
  "project_path project_id = ''/iaas/api/projects/'' @ py_str project_id"

definition vcfa_project_user_list_members :: "pyval \<Rightarrow> pyval \<Rightarrow> pyval \<Rightarrow> profile \<Rightarrow> pyval io" where
  "vcfa_project_user_list_members opts project_id role profile =
     (if role \<noteq> PNone then
        bindM (liftR (checked_role role)) (\<lambda>r.
        bindM (vcfa_project_get opts project_id profile) (\<lambda>project.
        bindM (liftR (role_members project r)) (\<lambda>ms. pureM (PList ms))))
      else
        bindM (vcfa_project_get opts project_id profile) (\<lambda>project.
        bindM (liftR (mapR (\<lambda>r. bindR (role_members project r) (\<lambda>ms. Ok (r, PList ms))) vcfa_project_user_ROLES)) (\<lambda>d.
        pureM (PDict d))))"

definition vcfa_project_user_add_member ::
  "pyval \<Rightarrow> pyval \<Rightarrow> pyval \<Rightarrow> pyval \<Rightarrow> pyval \<Rightarrow> profile \<Rightarrow> pyval io" where
  "vcfa_project_user_add_member opts project_id role email member_type profile =
     bindM (liftR (checked_role role)) (\<lambda>r.
     bindM (vcfa_project_get opts project_id profile) (\<lambda>project.
     bindM (liftR (role_members project r)) (\<lambda>current.
     bindM (liftR (find_by ''email'' email current)) (\<lambda>found.
     if found \<noteq> PNone then pureM project
     else
       vcfa_api_patch opts (project_path project_id)
         (PDict [(r, PList (current @ [PDict [(''email'', email), (''type'', member_type)]]))]) PNone profile PNone))))"

definition has_email :: "pyval \<Rightarrow> pyval \<Rightarrow> bool res" where
  "has_email email m = bindR (py_get m ''email'' PNone) (\<lambda>e. Ok (py_eq e email))"

definition vcfa_project_user_remove_member ::
  "pyval \<Rightarrow> pyval \<Rightarrow> pyval \<Rightarrow> pyval \<Rightarrow> profile \<Rightarrow> pyval io" where
  "vcfa_project_user_remove_member opts project_id role email profile =
     bindM (liftR (checked_role role)) (\<lambda>r.
     bindM (vcfa_project_get opts project_id profile) (\<lambda>project.
     bindM (liftR (role_members project r)) (\<lambda>current.
     bindM (liftR (filterR (\<lambda>m. bindR (has_email email m) (\<lambda>b. Ok (\<not> b))) current)) (\<lambda>filtered.
     if length filtered = length current then pureM project
     else vcfa_api_patch opts (project_path project_id) (PDict [(r, PList filtered)]) PNone profile PNone))))"

definition vcfa_project_user_set_members ::
  "pyval \<Rightarrow> pyval \<Rightarrow> pyval \<Rightarrow> pyval \<Rightarrow> pyval \<Rightarrow> profile \<Rightarrow> pyval io" where
  "vcfa_project_user_set_members opts project_id role emails member_type profile =
     bindM (liftR (checked_role role)) (\<lambda>r.
     bindM (liftR (py_iter emails)) (\<lambda>es.
     vcfa_api_patch opts (project_path project_id)
       (PDict [(r, PList (map (\<lambda>e. PDict [(''email'', e), (''type'', member_type)]) es))]) PNone profile PNone))"

end
