(* ===== verification/Vcfa_Membership.thy ===== *)
theory Vcfa_Membership
  imports Vcfa_Access Rest_Store
begin

section \<open>Vcfa_Membership: the members of a project of VCF Automation\<close>

text \<open>
  What \<open>clients/vcfa_project_user.py\<close> does to the project document of a VCF Automation that answers as a
  store (\<open>Rest_Store\<close>): the operations on the list of members of a role, as edits of the document.
\<close>

subsection \<open>VCF Automation as a store\<close>

text \<open>
  The configuration is complete, tokens are at hand, responses are as \<open>requests\<close> documents them, and the
  service answers like the store \<open>m\<close>.
\<close>

definition vcfa_view :: "pyval \<Rightarrow> profile \<Rightarrow> keeping \<Rightarrow> string set \<Rightarrow> store \<Rightarrow> world \<Rightarrow> bool" where
  "vcfa_view opts p keep P m w \<longleftrightarrow>
     (\<exists>cfg refresh bearer. vcfa_get_config opts p = Ok cfg \<and>
        cache_get Vcfa_Cache (host_user_key cfg) w = Some (CPair refresh bearer) \<and>
        store_view (''https://'' @ py_str (cfg_host cfg)) P keep m w) \<and>
     (\<forall>t h d r. net w t h = Reply d r \<longrightarrow> documented_response r)"

lemma vcfa_call_view:
  assumes view: "vcfa_view opts p keep P m w" and q: "q \<in> P" and meth: "meth \<in> {''GET'', ''PATCH''}"
    and there: "m q = Some d"
  shows "\<exists>resp w'. vcfa_request meth opts q PNone body p PNone w = Some (Ok resp, w') \<and>
    vcfa_view opts p keep P (if meth = ''PATCH'' then m(q \<mapsto> keep meth q body (m q)) else m) w' \<and>
    (meth = ''GET'' \<longrightarrow> json_or_empty resp = pureM (PDict d)) \<and> (\<exists>v. json_or_empty resp = pureM v)"
proof -
  from view obtain cfg refresh bearer where cfg: "vcfa_get_config opts p = Ok cfg"
    and hit: "cache_get Vcfa_Cache (host_user_key cfg) w = Some (CPair refresh bearer)"
    and sv: "store_view (''https://'' @ py_str (cfg_host cfg)) P keep m w"
    and doc: "\<And>t h d r. net w t h = Reply d r \<Longrightarrow> documented_response r"
    unfolding vcfa_view_def by blast
  let ?base = "''https://'' @ py_str (cfg_host cfg)"
  have tmo: "vcfa_resolve_timeout opts p PNone = Ok (vcfa_timeout cfg)"
    using cfg by (simp add: vcfa_resolve_timeout_def)
  let ?rq = "session_rq (vcfa_authed cfg bearer) meth (https_url (cfg_host cfg) q) PNone body [] (vcfa_timeout cfg)"
  have ok: "object_request ?base P ?rq" and shape: "path_of ?base ?rq = q" "rq_method ?rq = meth" "rq_json ?rq = body"
    using q meth by (auto simp: object_request_def session_rq_def https_url_def path_of_def)
  from store_view_answer [OF sv ok, of "clock w"] obtain n resp where
    reply: "net w (clock w) (sent w @ [?rq]) = Reply n resp" and ans: "answers ?base m ?rq (Reply n resp)"
    by (cases "net w (clock w) (sent w @ [?rq])") (auto simp: answers_def)
  let ?w' = "w\<lparr>sent := sent w @ [?rq], clock := clock w + int n\<rparr>"
  have sv': "store_view ?base P keep (store_step ?base keep ?rq m) ?w'"
    by (rule store_view_step [OF sv ok]) simp_all
  have said: "rs_error resp = None" "if meth = ''GET'' then has_content resp \<and> json_value resp = Some (PDict d)
      else has_content resp \<longrightarrow> json_value resp \<noteq> None"
    using ans there unfolding answers_def shape by (simp_all split: if_splits)
  then have fine: "rs_error resp = None" "status_code resp \<noteq> 401"
    using doc [OF reply] by (auto simp: documented_response_def)
  have "vcfa_request meth opts q PNone body p PNone w = Some (Ok resp, ?w')"
    using vcfa_request_first [OF cfg hit tmo refl reply] fine by (simp add: raise_for_status_def)
  moreover have "vcfa_view opts p keep P (if meth = ''PATCH'' then m(q \<mapsto> keep meth q body (m q)) else m) ?w'"
    using cfg hit sv' doc meth unfolding vcfa_view_def store_step_def shape Let_def by (auto simp: cache_get_def)
  moreover have "meth = ''GET'' \<longrightarrow> json_or_empty resp = pureM (PDict d)" "\<exists>v. json_or_empty resp = pureM v"
    using said(2) by (auto simp: json_or_empty_def response_json_def fun_eq_iff split: if_splits)
  ultimately show ?thesis by blast
qed

subsection \<open>The edits\<close>

text \<open>A member is an entry with an email address; the edits of the list of a role.\<close>

definition addresses :: "pyval list \<Rightarrow> pyval list" where
  "addresses ms = map (\<lambda>m. case m of PDict e \<Rightarrow> dget e ''email'' PNone | _ \<Rightarrow> PNone) ms"

definition joined :: "pyval \<Rightarrow> pyval \<Rightarrow> pyval list \<Rightarrow> pyval list" where
  "joined email kind ms =
     (if list_ex (\<lambda>a. py_eq a email) (addresses ms) then ms
      else ms @ [PDict [(''email'', email), (''type'', kind)]])"

definition left :: "pyval \<Rightarrow> pyval list \<Rightarrow> pyval list" where
  "left email ms = map snd (filter (\<lambda>(a, m). \<not> py_eq a email) (zip (addresses ms) ms))"

lemma addresses_simps [simp]:
  "addresses [] = []" "addresses (m # ms) = (case m of PDict e \<Rightarrow> dget e ''email'' PNone | _ \<Rightarrow> PNone) # addresses ms"
  "addresses (ms @ ns) = addresses ms @ addresses ns" "length (addresses ms) = length ms"
  by (simp_all add: addresses_def)

lemma find_email:
  "list_all is_dict ms \<Longrightarrow>
     \<exists>v. find_by ''email'' email ms = Ok v \<and> (v \<noteq> PNone \<longleftrightarrow> list_ex (\<lambda>a. py_eq a email) (addresses ms))"
proof (induction ms)
  case (Cons m ms)
  then obtain e where "m = PDict e" by (cases m) auto
  with Cons show ?case by (auto simp: py_get_def)
qed simp

lemma member_decides:
  assumes "list_all is_dict ms"
  shows "bindM (liftR (find_by ''email'' email ms)) (\<lambda>found. if found \<noteq> PNone then a else b) =
    (if list_ex (\<lambda>a. py_eq a email) (addresses ms) then a else b)"
proof -
  from find_email [OF assms] obtain v where v: "find_by ''email'' email ms = Ok v"
    "v \<noteq> PNone \<longleftrightarrow> list_ex (\<lambda>a. py_eq a email) (addresses ms)" by blast
  show ?thesis unfolding v(1) bindM_laws using v(2) by presburger
qed

lemma filter_email:
  "list_all is_dict ms \<Longrightarrow> filterR (\<lambda>m. bindR (has_email email m) (\<lambda>b. Ok (\<not> b))) ms = Ok (left email ms)"
proof (induction ms)
  case (Cons m ms)
  then obtain e where "m = PDict e" by (cases m) auto
  with Cons show ?case by (auto simp: py_get_def has_email_def left_def)
qed (simp add: left_def)

lemma left_Cons: "left email (m # ms) =
  (if py_eq (case m of PDict e \<Rightarrow> dget e ''email'' PNone | _ \<Rightarrow> PNone) email then left email ms else m # left email ms)"
  by (simp add: left_def)

lemma left_le: "length (left email ms) \<le> length ms"
  by (induction ms) (auto simp: left_Cons left_def [of _ "[]"])

lemma left_same: "length (left email ms) = length ms \<longleftrightarrow> \<not> list_ex (\<lambda>a. py_eq a email) (addresses ms)"
proof (induction ms)
  case (Cons m ms)
  with left_le [of email ms] show ?case by (simp add: left_Cons)
qed (simp add: left_def)

lemma left_gone: "\<not> list_ex (\<lambda>a. py_eq a email) (addresses (left email ms))"
proof (induction ms)
  case (Cons m ms)
  then show ?case by (simp add: left_Cons)
qed (simp add: left_def)

lemma left_id: "\<not> list_ex (\<lambda>a. py_eq a email) (addresses ms) \<Longrightarrow> left email ms = ms"
  by (induction ms) (auto simp: left_Cons left_def [of _ "[]"])

lemma left_fix: "left email ms = ms \<longleftrightarrow> \<not> list_ex (\<lambda>a. py_eq a email) (addresses ms)"
  using left_same [of email ms] left_id [of email ms] by auto

lemma left_dicts: "list_all is_dict ms \<Longrightarrow> list_all is_dict (left email ms)"
  by (induction ms) (auto simp: left_Cons left_def [of _ "[]"])

subsection \<open>The operations are these edits\<close>

text \<open>VCF Automation holds the project \<open>d\<close>, and merges what it is sent into it.\<close>

definition project_view :: "pyval \<Rightarrow> profile \<Rightarrow> keeping \<Rightarrow> pyval \<Rightarrow> dict \<Rightarrow> world \<Rightarrow> bool" where
  "project_view opts p keep pid d w \<longleftrightarrow> patch_merges keep \<and>
     vcfa_view opts p keep {project_path pid} ((\<lambda>_. None)(project_path pid \<mapsto> d)) w"

definition edited :: "dict \<Rightarrow> string \<Rightarrow> pyval list \<Rightarrow> pyval list \<Rightarrow> dict" where
  "edited d r ms ms' = (if ms' = ms then d else dset d r (PList ms'))"

text \<open>
  \<open>run\<close> is the edit \<open>f\<close> of the role \<open>r\<close>: whatever members the project has, it returns, the list of the role
  is the edited one, and nothing else of the document changes.
\<close>

definition edits :: "pyval io \<Rightarrow> (dict \<Rightarrow> world \<Rightarrow> bool) \<Rightarrow> string \<Rightarrow> (pyval list \<Rightarrow> pyval list) \<Rightarrow> bool" where
  "edits run view r f \<longleftrightarrow>
     (\<forall>d w ms. view d w \<and> role_members (PDict d) r = Ok ms \<and> list_all is_dict ms \<longrightarrow>
        (\<exists>v w'. run w = Some (Ok v, w') \<and> view (edited d r ms (f ms)) w' \<and>
           role_members (PDict (edited d r ms (f ms))) r = Ok (f ms) \<and>
           (\<forall>k. k \<noteq> r \<longrightarrow> map_of (edited d r ms (f ms)) k = map_of d k)))"

lemma role_members_edited:
  "role_members (PDict d) r = Ok ms \<Longrightarrow> role_members (PDict (edited d r ms ms')) r = Ok ms'"
  by (auto simp: role_members_def edited_def py_get_def dget_def py_or_def)

lemma edited_rest: "k \<noteq> r \<Longrightarrow> map_of (edited d r ms ms') k = map_of d k"
  by (simp add: edited_def)

lemma project_calls:
  assumes "project_view opts p keep pid d w"
  shows "\<exists>w'. vcfa_project_get opts pid p w = Some (Ok (PDict d), w') \<and> project_view opts p keep pid d w'"
    and "\<exists>v w'. vcfa_api_patch opts (project_path pid) (PDict [(r, x)]) PNone p PNone w = Some (Ok v, w') \<and>
      project_view opts p keep pid (dset d r x) w'"
proof -
  let ?m = "(\<lambda>_. None)(project_path pid \<mapsto> d)"
  from assms have view: "vcfa_view opts p keep {project_path pid} ?m w" and "patch_merges keep"
    by (auto simp: project_view_def)
  note call = vcfa_call_view [OF view, of "project_path pid" _ d]
  from call [of "''GET''" PNone] \<open>patch_merges keep\<close>
  show "\<exists>w'. vcfa_project_get opts pid p w = Some (Ok (PDict d), w') \<and> project_view opts p keep pid d w'"
    by (auto simp: vcfa_project_get_def vcfa_api_get_def project_path_def vcfa_project_BASE_def project_view_def)
  from call [of "''PATCH''" "PDict [(r, x)]"] \<open>patch_merges keep\<close>
  show "\<exists>v w'. vcfa_api_patch opts (project_path pid) (PDict [(r, x)]) PNone p PNone w = Some (Ok v, w') \<and>
      project_view opts p keep pid (dset d r x) w'"
    by (auto simp: vcfa_api_patch_def patch_merges_def project_view_def)
qed

text \<open>A program that checks the role, reads the project and patches the edited list, unless it is the same.\<close>

lemma edits_by_patch:
  assumes run: "\<And>d ms w. role_members (PDict d) r = Ok ms \<Longrightarrow> list_all is_dict ms \<Longrightarrow>
      run w = bindM (vcfa_project_get opts pid p) (\<lambda>project. k project) w \<and>
      k (PDict d) = (if f ms = ms then pureM (PDict d)
        else vcfa_api_patch opts (project_path pid) (PDict [(r, PList (f ms))]) PNone p PNone)"
  shows "edits run (project_view opts p keep pid) r f"
  unfolding edits_def
proof (intro allI impI, elim conjE)
  fix d w ms
  assume view: "project_view opts p keep pid d w" and ms: "role_members (PDict d) r = Ok ms" "list_all is_dict ms"
  from project_calls(1) [OF view] obtain w1 where
    get: "vcfa_project_get opts pid p w = Some (Ok (PDict d), w1)" and view1: "project_view opts p keep pid d w1" by blast
  have "\<exists>v w'. run w = Some (Ok v, w') \<and> project_view opts p keep pid (edited d r ms (f ms)) w'"
    using run [OF ms, of w] get view1 project_calls(2) [OF view1, of r "PList (f ms)"] by (auto simp: edited_def)
  with role_members_edited [OF ms(1)] edited_rest
  show "\<exists>v w'. run w = Some (Ok v, w') \<and> project_view opts p keep pid (edited d r ms (f ms)) w' \<and>
      role_members (PDict (edited d r ms (f ms))) r = Ok (f ms) \<and>
      (\<forall>k. k \<noteq> r \<longrightarrow> map_of (edited d r ms (f ms)) k = map_of d k)"
    by blast
qed

lemma checked_role_known: "r \<in> set vcfa_project_user_ROLES \<Longrightarrow> checked_role (PStr r) = Ok r"
  by (simp add: checked_role_def in_strs_iff)

text \<open>C19: Adding and removing members of a project edit exactly the list of the role: against a VCF
  Automation that merges a \<open>PATCH\<close> into the project, whatever members it has, \<open>add_member\<close> appends the
  address unless it is listed, \<open>remove_member\<close> takes out every entry with the address, the other roles and
  fields stay, and both edits are idempotent: the second run changes nothing.\<close>

theorem vcfa_membership_edits:
  assumes r: "r \<in> set vcfa_project_user_ROLES"
  shows "edits (vcfa_project_user_add_member opts pid (PStr r) (PStr email) kind p) (project_view opts p keep pid) r
      (joined (PStr email) kind) \<and>
    edits (vcfa_project_user_remove_member opts pid (PStr r) (PStr email) p) (project_view opts p keep pid) r
      (left (PStr email)) \<and>
    (\<forall>ms. joined (PStr email) kind (joined (PStr email) kind ms) = joined (PStr email) kind ms \<and>
      left (PStr email) (left (PStr email) ms) = left (PStr email) ms \<and>
      PStr email \<in> set (addresses (joined (PStr email) kind ms)) \<and> PStr email \<notin> set (addresses (left (PStr email) ms)))"
proof (intro conjI allI)
  note shape = checked_role_known [OF r]
  show "edits (vcfa_project_user_add_member opts pid (PStr r) (PStr email) kind p) (project_view opts p keep pid) r
      (joined (PStr email) kind)"
    by (rule edits_by_patch [where k = "\<lambda>project. bindM (liftR (role_members project r)) (\<lambda>current.
          bindM (liftR (find_by ''email'' (PStr email) current)) (\<lambda>found.
          if found \<noteq> PNone then pureM project
          else vcfa_api_patch opts (project_path pid)
            (PDict [(r, PList (current @ [PDict [(''email'', PStr email), (''type'', kind)]]))]) PNone p PNone))"])
      (simp add: vcfa_project_user_add_member_def shape joined_def member_decides)
  show "edits (vcfa_project_user_remove_member opts pid (PStr r) (PStr email) p) (project_view opts p keep pid) r
      (left (PStr email))"
    by (rule edits_by_patch [where k = "\<lambda>project. bindM (liftR (role_members project r)) (\<lambda>current.
          bindM (liftR (filterR (\<lambda>m. bindR (has_email (PStr email) m) (\<lambda>b. Ok (\<not> b))) current)) (\<lambda>filtered.
          if length filtered = length current then pureM project
          else vcfa_api_patch opts (project_path pid) (PDict [(r, PList filtered)]) PNone p PNone))"])
      (simp add: vcfa_project_user_remove_member_def shape filter_email left_same left_fix)
  fix ms
  show "left (PStr email) (left (PStr email) ms) = left (PStr email) ms" by (rule left_id [OF left_gone])
  show "PStr email \<notin> set (addresses (left (PStr email) ms))"
    using left_gone [of "PStr email" ms] by (auto simp: list_ex_iff)
qed (auto simp: joined_def list_ex_iff)

text \<open>An empty project.\<close>

definition vcfa_project_world :: "dict \<Rightarrow> world" where
  "vcfa_project_world d =
     cache_upd Vcfa_Cache ''h:u'' (Some (CPair (PStr ''refresh'') (PStr ''bearer'')))
       (store_world ''https://h'' plain_keep ((\<lambda>_. None)(project_path (PStr ''p1'') \<mapsto> d)))"

lemma project_world_view: "project_view (opts_for ''vcfa'') None plain_keep (PStr ''p1'') d (vcfa_project_world d)"
proof -
  let ?m = "(\<lambda>_. None)(project_path (PStr ''p1'') \<mapsto> d)"
  have "\<exists>cfg. vcfa_get_config (opts_for ''vcfa'') None = Ok cfg \<and> cfg_host cfg = PStr ''h'' \<and> host_user_key cfg = ''h:u''"
    by (simp add: vcfa_get_config_def eval_simps)
  moreover have "store_view ''https://h'' {project_path (PStr ''p1'')} plain_keep ?m (vcfa_project_world d)"
    using store_view_store_world [of "''https://h''" "{project_path (PStr ''p1'')}" plain_keep ?m]
    by (simp add: store_view_def vcfa_project_world_def)
  moreover have "net (vcfa_project_world d) t h = Reply n r \<Longrightarrow> documented_response r" for t h n r
    by (auto simp: vcfa_project_world_def store_world_def store_net_def replies_def split: list.splits option.splits if_splits)
  ultimately show ?thesis
    using plain_keep_documented by (auto simp: project_view_def vcfa_view_def vcfa_project_world_def)
qed

lemma vcfa_membership_edits_witness:
  "\<exists>v w d. vcfa_project_user_add_member (opts_for ''vcfa'') (PStr ''p1'') (PStr ''members'') (PStr ''a@b'') (PStr ''user'') None
       (vcfa_project_world [(''name'', PStr ''x'')]) = Some (Ok v, w) \<and>
     role_members (PDict d) ''members'' = Ok [PDict [(''email'', PStr ''a@b''), (''type'', PStr ''user'')]] \<and>
     project_view (opts_for ''vcfa'') None plain_keep (PStr ''p1'') d w \<and> map_of d ''name'' = Some (PStr ''x'')"
proof -
  have r: "''members'' \<in> set vcfa_project_user_ROLES" by (simp add: vcfa_project_user_ROLES_def)
  have ms: "role_members (PDict [(''name'', PStr ''x'')]) ''members'' = Ok []" "list_all is_dict []"
    by (simp_all add: role_members_def py_get_def dget_def)
  note add = vcfa_membership_edits [OF r, THEN conjunct1, unfolded edits_def, rule_format,
      OF conjI [OF project_world_view conjI [OF ms]]]
  have new: "joined (PStr ''a@b'') (PStr ''user'') [] = [PDict [(''email'', PStr ''a@b''), (''type'', PStr ''user'')]]"
    by (simp add: joined_def)
  obtain v w where "vcfa_project_user_add_member (opts_for ''vcfa'') (PStr ''p1'') (PStr ''members'') (PStr ''a@b'') (PStr ''user'') None
       (vcfa_project_world [(''name'', PStr ''x'')]) = Some (Ok v, w)"
    and "project_view (opts_for ''vcfa'') None plain_keep (PStr ''p1'')
      (edited [(''name'', PStr ''x'')] ''members'' [] [PDict [(''email'', PStr ''a@b''), (''type'', PStr ''user'')]]) w"
    using add [where email = "''a@b''" and kind = "PStr ''user''", unfolded new] by blast
  moreover have "role_members (PDict (edited [(''name'', PStr ''x'')] ''members'' [] ms')) ''members'' = Ok ms'"
    "map_of (edited [(''name'', PStr ''x'')] ''members'' [] ms') ''name'' = Some (PStr ''x'')" for ms'
    by (rule role_members_edited [OF ms(1)]) (simp add: edited_def)
  ultimately show ?thesis by blast
qed

end
