(* ===== verification/Vcenter_Appliance.thy ===== *)
theory Vcenter_Appliance
  imports Vcenter Rest_Client
begin

section \<open>Vcenter_Appliance: the appliance and its accounts\<close>

text \<open>
  The REST clients \<open>clients/vcenter_*.py\<close> on the appliance and on access.
\<close>

subsection \<open>the appliance clients\<close>

text \<open>
  The REST calls on the appliance of a vCenter: services, resolvers, log forwarding, shell, local users, key servers.

  One definition per function of the client modules; identifiers and other arguments are
  Python values, keyword arguments (\<open>**spec\<close>) a dict.
\<close>

subsubsection \<open>\<open>clients/vcenter_appliance.py\<close>\<close>

definition vcenter_appliance_SERVICES :: "string" where
  "vcenter_appliance_SERVICES = ''/api/appliance/services''"

definition vcenter_appliance_services_list :: "pyval \<Rightarrow> profile \<Rightarrow> pyval io" where
  "vcenter_appliance_services_list opts profile =
     vcenter_api_get opts vcenter_appliance_SERVICES PNone profile PNone"

definition vcenter_appliance_services_get :: "pyval \<Rightarrow> pyval \<Rightarrow> profile \<Rightarrow> pyval io" where
  "vcenter_appliance_services_get opts service profile =
     vcenter_api_get opts (vcenter_appliance_SERVICES @ ''/'' @ py_str service) PNone profile PNone"

definition vcenter_appliance_services_get_or_none ::
  "pyval \<Rightarrow> pyval \<Rightarrow> profile \<Rightarrow> pyval io" where
  "vcenter_appliance_services_get_or_none opts service profile =
     none_if_missing (vcenter_appliance_services_get opts service profile)"

definition vcenter_appliance_services_start :: "pyval \<Rightarrow> pyval \<Rightarrow> profile \<Rightarrow> pyval io" where
  "vcenter_appliance_services_start opts service profile =
     vcenter_api_post opts (vcenter_appliance_SERVICES @ ''/'' @ py_str service)
       PNone (PDict [(''action'', PStr ''start'')]) profile PNone"

definition vcenter_appliance_services_stop :: "pyval \<Rightarrow> pyval \<Rightarrow> profile \<Rightarrow> pyval io" where
  "vcenter_appliance_services_stop opts service profile =
     vcenter_api_post opts (vcenter_appliance_SERVICES @ ''/'' @ py_str service)
       PNone (PDict [(''action'', PStr ''stop'')]) profile PNone"

definition vcenter_appliance_services_restart :: "pyval \<Rightarrow> pyval \<Rightarrow> profile \<Rightarrow> pyval io" where
  "vcenter_appliance_services_restart opts service profile =
     vcenter_api_post opts (vcenter_appliance_SERVICES @ ''/'' @ py_str service)
       PNone (PDict [(''action'', PStr ''restart'')]) profile PNone"

definition vcenter_appliance_version :: "pyval \<Rightarrow> profile \<Rightarrow> pyval io" where
  "vcenter_appliance_version opts profile =
     vcenter_api_get opts ''/api/appliance/system/version'' PNone profile PNone"

definition vcenter_appliance_health_system :: "pyval \<Rightarrow> profile \<Rightarrow> pyval io" where
  "vcenter_appliance_health_system opts profile =
     vcenter_api_get opts ''/api/appliance/health/system'' PNone profile PNone"

definition vcenter_appliance_DNS :: "string" where
  "vcenter_appliance_DNS = ''/api/appliance/networking/dns/servers''"

definition vcenter_appliance_dns_get :: "pyval \<Rightarrow> profile \<Rightarrow> pyval io" where
  "vcenter_appliance_dns_get opts profile = vcenter_api_get opts vcenter_appliance_DNS PNone profile
    PNone"

definition vcenter_appliance_dns_set ::
  "pyval \<Rightarrow> pyval \<Rightarrow> pyval \<Rightarrow> profile \<Rightarrow> pyval io" where
  "vcenter_appliance_dns_set opts servers mode profile =
     bindM (liftR (py_iter servers)) (\<lambda>items.
     vcenter_api_put opts vcenter_appliance_DNS
       (PDict [(''mode'', mode), (''servers'', PList items)]) profile PNone)"

definition vcenter_appliance_SYSLOG :: "string" where
  "vcenter_appliance_SYSLOG = ''/api/appliance/logging/forwarding''"

definition vcenter_appliance_logging_forwarding_get :: "pyval \<Rightarrow> profile \<Rightarrow> pyval io" where
  "vcenter_appliance_logging_forwarding_get opts profile =
     vcenter_api_get opts vcenter_appliance_SYSLOG PNone profile PNone"

definition vcenter_appliance_logging_forwarding_set ::
  "pyval \<Rightarrow> pyval \<Rightarrow> profile \<Rightarrow> pyval io" where
  "vcenter_appliance_logging_forwarding_set opts servers profile =
     bindM (liftR (py_iter servers)) (\<lambda>items.
     vcenter_api_put opts vcenter_appliance_SYSLOG (PDict [(''cfg_list'', PList items)]) profile PNone)"

definition vcenter_appliance_CEIP :: "string" where
  "vcenter_appliance_CEIP = ''/api/appliance/ceip''"

definition vcenter_appliance_ceip_get :: "pyval \<Rightarrow> profile \<Rightarrow> pyval io" where
  "vcenter_appliance_ceip_get opts profile = vcenter_api_get opts vcenter_appliance_CEIP PNone profile
    PNone"

definition vcenter_appliance_ceip_set :: "pyval \<Rightarrow> pyval \<Rightarrow> profile \<Rightarrow> pyval io" where
  "vcenter_appliance_ceip_set opts accepted profile =
     vcenter_api_put opts vcenter_appliance_CEIP
       (PDict [(''accepted'', PBool (truthy accepted))]) profile PNone"

subsubsection \<open>\<open>clients/vcenter_appliances.py\<close>\<close>

definition vcenter_appliances_NTP :: "string" where
  "vcenter_appliances_NTP = ''/api/appliance/ntp''"

definition vcenter_appliances_ntp_get :: "pyval \<Rightarrow> profile \<Rightarrow> pyval io" where
  "vcenter_appliances_ntp_get opts profile = vcenter_api_get opts vcenter_appliances_NTP PNone profile
    PNone"

definition vcenter_appliances_ntp_set :: "pyval \<Rightarrow> pyval \<Rightarrow> profile \<Rightarrow> pyval io" where
  "vcenter_appliances_ntp_set opts servers profile =
     bindM (liftR (py_iter servers)) (\<lambda>items.
     vcenter_api_put opts vcenter_appliances_NTP (PDict [(''servers'', PList items)]) profile PNone)"

subsubsection \<open>\<open>clients/vcenter_shell.py\<close>\<close>

definition vcenter_shell_SHELL :: "string" where
  "vcenter_shell_SHELL = ''/api/appliance/access/shell''"

definition vcenter_shell_shell_get :: "pyval \<Rightarrow> profile \<Rightarrow> pyval io" where
  "vcenter_shell_shell_get opts profile = vcenter_api_get opts vcenter_shell_SHELL PNone profile PNone"

definition vcenter_shell_shell_set ::
  "pyval \<Rightarrow> pyval \<Rightarrow> pyval \<Rightarrow> profile \<Rightarrow> pyval io" where
  "vcenter_shell_shell_set opts enabled timeout profile =
     (let body = [(''enabled'', PBool (truthy enabled))] in
     let body = (if timeout \<noteq> PNone then dset body ''timeout'' timeout else body) in
     vcenter_api_put opts vcenter_shell_SHELL (PDict body) profile PNone)"

subsubsection \<open>\<open>clients/vcenter_localos_user.py\<close>\<close>

definition vcenter_localos_user_PATH :: "string" where
  "vcenter_localos_user_PATH = ''/api/appliance/local-accounts''"

definition vcenter_localos_user_list :: "pyval \<Rightarrow> profile \<Rightarrow> pyval io" where
  "vcenter_localos_user_list opts profile = vcenter_api_get opts vcenter_localos_user_PATH PNone profile
    PNone"

definition vcenter_localos_user_get :: "pyval \<Rightarrow> pyval \<Rightarrow> profile \<Rightarrow> pyval io" where
  "vcenter_localos_user_get opts username profile =
     vcenter_api_get opts (vcenter_localos_user_PATH @ ''/'' @ py_str username) PNone profile PNone"

definition vcenter_localos_user_get_or_none :: "pyval \<Rightarrow> pyval \<Rightarrow> profile \<Rightarrow> pyval io" where
  "vcenter_localos_user_get_or_none opts username profile =
     none_if_missing (vcenter_localos_user_get opts username profile)"

definition vcenter_localos_user_create ::
  "pyval \<Rightarrow> pyval \<Rightarrow> pyval \<Rightarrow> pyval \<Rightarrow> profile \<Rightarrow> dict \<Rightarrow> pyval io" where
  "vcenter_localos_user_create opts username password roles profile spec =
     bindM (liftR (py_iter roles)) (\<lambda>items.
     let body = [(''password'', password), (''roles'', PList items)] in
     let body = dupdate body spec in
     vcenter_api_post opts (vcenter_localos_user_PATH @ ''/'' @ py_str username)
       (PDict body) PNone profile PNone)"

definition vcenter_localos_user_update ::
  "pyval \<Rightarrow> pyval \<Rightarrow> profile \<Rightarrow> dict \<Rightarrow> pyval io" where
  "vcenter_localos_user_update opts username profile spec =
     vcenter_api_patch opts (vcenter_localos_user_PATH @ ''/'' @ py_str username)
       (PDict spec) profile PNone"

definition vcenter_localos_user_delete :: "pyval \<Rightarrow> pyval \<Rightarrow> profile \<Rightarrow> pyval io" where
  "vcenter_localos_user_delete opts username profile =
     vcenter_api_delete opts (vcenter_localos_user_PATH @ ''/'' @ py_str username) PNone profile PNone"

subsubsection \<open>\<open>clients/vcenter_kms.py\<close>\<close>

definition vcenter_kms_PATH :: "string" where
  "vcenter_kms_PATH = ''/api/vcenter/crypto-manager/kms/providers''"

definition vcenter_kms_list :: "pyval \<Rightarrow> profile \<Rightarrow> pyval io" where
  "vcenter_kms_list opts profile = vcenter_api_get opts vcenter_kms_PATH PNone profile PNone"

definition vcenter_kms_get :: "pyval \<Rightarrow> pyval \<Rightarrow> profile \<Rightarrow> pyval io" where
  "vcenter_kms_get opts provider_id profile =
     vcenter_api_get opts (vcenter_kms_PATH @ ''/'' @ py_str provider_id) PNone profile PNone"

definition vcenter_kms_get_or_none :: "pyval \<Rightarrow> pyval \<Rightarrow> profile \<Rightarrow> pyval io" where
  "vcenter_kms_get_or_none opts provider_id profile =
     none_if_missing (vcenter_kms_get opts provider_id profile)"

definition vcenter_kms_create :: "pyval \<Rightarrow> pyval \<Rightarrow> profile \<Rightarrow> pyval io" where
  "vcenter_kms_create opts provider_spec profile =
     vcenter_api_post opts vcenter_kms_PATH provider_spec PNone profile PNone"

definition vcenter_kms_delete :: "pyval \<Rightarrow> pyval \<Rightarrow> profile \<Rightarrow> pyval io" where
  "vcenter_kms_delete opts provider_id profile =
     vcenter_api_delete opts (vcenter_kms_PATH @ ''/'' @ py_str provider_id) PNone profile PNone"

subsubsection \<open>\<open>clients/vcenter_network.py\<close>\<close>

definition vcenter_network_PATH :: "string" where
  "vcenter_network_PATH = ''/api/vcenter/network''"

definition vcenter_network_list :: "pyval \<Rightarrow> profile \<Rightarrow> pyval io" where
  "vcenter_network_list opts profile = vcenter_api_get opts vcenter_network_PATH PNone profile PNone"

subsubsection \<open>\<open>clients/vcenter_datastore.py\<close>\<close>

definition vcenter_datastore_PATH :: "string" where
  "vcenter_datastore_PATH = ''/api/vcenter/datastore''"

definition vcenter_datastore_list :: "pyval \<Rightarrow> profile \<Rightarrow> pyval io" where
  "vcenter_datastore_list opts profile = vcenter_api_get opts vcenter_datastore_PATH PNone profile PNone"

definition vcenter_datastore_get :: "pyval \<Rightarrow> pyval \<Rightarrow> profile \<Rightarrow> pyval io" where
  "vcenter_datastore_get opts datastore profile =
     vcenter_api_get opts (vcenter_datastore_PATH @ ''/'' @ py_str datastore) PNone profile PNone"

definition vcenter_datastore_get_or_none :: "pyval \<Rightarrow> pyval \<Rightarrow> profile \<Rightarrow> pyval io" where
  "vcenter_datastore_get_or_none opts datastore profile =
     none_if_missing (vcenter_datastore_get opts datastore profile)"

subsection \<open>identities and tags\<close>

text \<open>
  The REST calls on identity providers, groups, users, tags, categories and compute policies.

  One definition per function of the client modules; identifiers and other arguments are
  Python values, keyword arguments (\<open>**spec\<close>) a dict.
\<close>

subsubsection \<open>\<open>clients/vcenter_sso.py\<close>\<close>

definition vcenter_sso_PROVIDERS :: "string" where
  "vcenter_sso_PROVIDERS = ''/api/vcenter/identity/providers''"

definition vcenter_sso_providers_list :: "pyval \<Rightarrow> profile \<Rightarrow> pyval io" where
  "vcenter_sso_providers_list opts profile = vcenter_api_get opts vcenter_sso_PROVIDERS PNone profile
    PNone"

definition vcenter_sso_providers_get :: "pyval \<Rightarrow> pyval \<Rightarrow> profile \<Rightarrow> pyval io" where
  "vcenter_sso_providers_get opts provider_id profile =
     vcenter_api_get opts (vcenter_sso_PROVIDERS @ ''/'' @ py_str provider_id) PNone profile PNone"

definition vcenter_sso_providers_get_or_none :: "pyval \<Rightarrow> pyval \<Rightarrow> profile \<Rightarrow> pyval io" where
  "vcenter_sso_providers_get_or_none opts provider_id profile =
     none_if_missing (vcenter_sso_providers_get opts provider_id profile)"

definition vcenter_sso_providers_create :: "pyval \<Rightarrow> pyval \<Rightarrow> profile \<Rightarrow> pyval io" where
  "vcenter_sso_providers_create opts spec profile =
     bindM (liftR (py_dict spec)) (\<lambda>items.
     vcenter_api_post opts vcenter_sso_PROVIDERS (PDict items) PNone profile PNone)"

definition vcenter_sso_providers_update ::
  "pyval \<Rightarrow> pyval \<Rightarrow> pyval \<Rightarrow> profile \<Rightarrow> pyval io" where
  "vcenter_sso_providers_update opts provider_id spec profile =
     bindM (liftR (py_dict spec)) (\<lambda>items.
     vcenter_api_patch opts (vcenter_sso_PROVIDERS @ ''/'' @ py_str provider_id)
       (PDict items) profile PNone)"

definition vcenter_sso_providers_delete :: "pyval \<Rightarrow> pyval \<Rightarrow> profile \<Rightarrow> pyval io" where
  "vcenter_sso_providers_delete opts provider_id profile =
     vcenter_api_delete opts (vcenter_sso_PROVIDERS @ ''/'' @ py_str provider_id) PNone profile PNone"

definition vcenter_sso_GROUPS :: "string" where
  "vcenter_sso_GROUPS = ''/api/vcenter/identity/groups''"

definition vcenter_sso_groups_list :: "pyval \<Rightarrow> pyval \<Rightarrow> profile \<Rightarrow> pyval io" where
  "vcenter_sso_groups_list opts domain_id profile =
     (let params = (if truthy domain_id then PDict [(''domain'', domain_id)] else PNone) in
     vcenter_api_get opts vcenter_sso_GROUPS params profile PNone)"

definition vcenter_sso_groups_get :: "pyval \<Rightarrow> pyval \<Rightarrow> profile \<Rightarrow> pyval io" where
  "vcenter_sso_groups_get opts group_id profile =
     vcenter_api_get opts (vcenter_sso_GROUPS @ ''/'' @ py_str group_id) PNone profile PNone"

definition vcenter_sso_groups_get_or_none :: "pyval \<Rightarrow> pyval \<Rightarrow> profile \<Rightarrow> pyval io" where
  "vcenter_sso_groups_get_or_none opts group_id profile =
     none_if_missing (vcenter_sso_groups_get opts group_id profile)"

definition vcenter_sso_groups_create ::
  "pyval \<Rightarrow> pyval \<Rightarrow> pyval \<Rightarrow> pyval \<Rightarrow> profile \<Rightarrow> pyval io" where
  "vcenter_sso_groups_create opts name domain_id description profile =
     (let body = [(''name'', name), (''domain'', domain_id), (''description'', description)] in
     vcenter_api_post opts vcenter_sso_GROUPS (PDict body) PNone profile PNone)"

definition vcenter_sso_groups_update ::
  "pyval \<Rightarrow> pyval \<Rightarrow> pyval \<Rightarrow> profile \<Rightarrow> pyval io" where
  "vcenter_sso_groups_update opts group_id spec profile =
     bindM (liftR (py_dict spec)) (\<lambda>items.
     vcenter_api_patch opts (vcenter_sso_GROUPS @ ''/'' @ py_str group_id) (PDict items) profile PNone)"

definition vcenter_sso_groups_delete :: "pyval \<Rightarrow> pyval \<Rightarrow> profile \<Rightarrow> pyval io" where
  "vcenter_sso_groups_delete opts group_id profile =
     vcenter_api_delete opts (vcenter_sso_GROUPS @ ''/'' @ py_str group_id) PNone profile PNone"

definition vcenter_sso_group_add_member ::
  "pyval \<Rightarrow> pyval \<Rightarrow> pyval \<Rightarrow> profile \<Rightarrow> pyval io" where
  "vcenter_sso_group_add_member opts group_id member profile =
     (let body = [(''members_to_add'', PList [member])] in
     vcenter_api_patch opts (vcenter_sso_GROUPS @ ''/'' @ py_str group_id @ ''/members'')
       (PDict body) profile PNone)"

definition vcenter_sso_group_remove_member ::
  "pyval \<Rightarrow> pyval \<Rightarrow> pyval \<Rightarrow> profile \<Rightarrow> pyval io" where
  "vcenter_sso_group_remove_member opts group_id member profile =
     (let body = [(''members_to_remove'', PList [member])] in
     vcenter_api_patch opts (vcenter_sso_GROUPS @ ''/'' @ py_str group_id @ ''/members'')
       (PDict body) profile PNone)"

definition vcenter_sso_USERS :: "string" where
  "vcenter_sso_USERS = ''/api/vcenter/identity/users''"

definition vcenter_sso_users_list :: "pyval \<Rightarrow> pyval \<Rightarrow> profile \<Rightarrow> pyval io" where
  "vcenter_sso_users_list opts domain_id profile =
     (let params = (if truthy domain_id then PDict [(''domain'', domain_id)] else PNone) in
     vcenter_api_get opts vcenter_sso_USERS params profile PNone)"

definition vcenter_sso_users_get :: "pyval \<Rightarrow> pyval \<Rightarrow> profile \<Rightarrow> pyval io" where
  "vcenter_sso_users_get opts user profile =
     vcenter_api_get opts (vcenter_sso_USERS @ ''/'' @ py_str user) PNone profile PNone"

definition vcenter_sso_users_get_or_none :: "pyval \<Rightarrow> pyval \<Rightarrow> profile \<Rightarrow> pyval io" where
  "vcenter_sso_users_get_or_none opts user profile = none_if_missing (vcenter_sso_users_get opts user
    profile)"

definition vcenter_sso_users_create ::
  "pyval \<Rightarrow> pyval \<Rightarrow> pyval \<Rightarrow> pyval \<Rightarrow> pyval \<Rightarrow> pyval \<Rightarrow> profile \<Rightarrow> pyval io" where
  "vcenter_sso_users_create opts username domain_id password description email profile =
     (let body = [(''username'', username), (''domain'', domain_id), (''password'', password), (''description'',
       description)] in
     let body = (if email \<noteq> PNone then dset body ''email'' email else body) in
     vcenter_api_post opts vcenter_sso_USERS (PDict body) PNone profile PNone)"

definition vcenter_sso_users_update ::
  "pyval \<Rightarrow> pyval \<Rightarrow> pyval \<Rightarrow> profile \<Rightarrow> pyval io" where
  "vcenter_sso_users_update opts user spec profile =
     bindM (liftR (py_dict spec)) (\<lambda>items.
     vcenter_api_patch opts (vcenter_sso_USERS @ ''/'' @ py_str user) (PDict items) profile PNone)"

definition vcenter_sso_users_delete :: "pyval \<Rightarrow> pyval \<Rightarrow> profile \<Rightarrow> pyval io" where
  "vcenter_sso_users_delete opts user profile =
     vcenter_api_delete opts (vcenter_sso_USERS @ ''/'' @ py_str user) PNone profile PNone"

subsubsection \<open>\<open>clients/vcenter_ad_domain.py\<close>\<close>

fun ad_provider_in :: "pyval \<Rightarrow> pyval list \<Rightarrow> pyval res" where
  "ad_provider_in domain_name [] = Ok PNone"
| "ad_provider_in domain_name (provider # providers) =
     bindR (py_get provider ''config_tag'' PNone) (\<lambda>tag.
     bindR (py_get provider ''domain_name'' PNone) (\<lambda>n.
     if py_eq tag (PStr ''ActiveDirectory'') \<and> py_eq n domain_name then Ok provider
     else ad_provider_in domain_name providers))"

definition vcenter_ad_domain_get :: "pyval \<Rightarrow> pyval \<Rightarrow> profile \<Rightarrow> pyval io" where
  "vcenter_ad_domain_get opts domain_name profile =
     bindM (vcenter_sso_providers_list opts profile) (\<lambda>ps.
     liftR (bindR (py_iter (py_or ps (PList []))) (ad_provider_in domain_name)))"

definition vcenter_ad_domain_join :: "pyval \<Rightarrow> pyval \<Rightarrow> pyval \<Rightarrow> pyval \<Rightarrow> profile \<Rightarrow> pyval io" where
  "vcenter_ad_domain_join opts domain_name username password profile =
     vcenter_sso_providers_create opts
       (PDict [(''config_tag'', PStr ''ActiveDirectory''), (''domain_name'', domain_name),
         (''username'', username), (''password'', password)]) profile"

definition vcenter_ad_domain_leave :: "pyval \<Rightarrow> pyval \<Rightarrow> profile \<Rightarrow> pyval io" where
  "vcenter_ad_domain_leave opts provider_id profile = vcenter_sso_providers_delete opts provider_id profile"

subsubsection \<open>\<open>clients/vcenter_tag.py\<close>\<close>

definition vcenter_tag_PATH :: "string" where
  "vcenter_tag_PATH = ''/api/cis/tagging/tag''"

definition vcenter_tag_ASSOC_PATH :: "string" where
  "vcenter_tag_ASSOC_PATH = ''/api/cis/tagging/tag-association''"

definition vcenter_tag_list :: "pyval \<Rightarrow> profile \<Rightarrow> pyval io" where
  "vcenter_tag_list opts profile = vcenter_api_get opts vcenter_tag_PATH PNone profile PNone"

definition vcenter_tag_get :: "pyval \<Rightarrow> pyval \<Rightarrow> profile \<Rightarrow> pyval io" where
  "vcenter_tag_get opts tag profile =
     vcenter_api_get opts (vcenter_tag_PATH @ ''/'' @ py_str tag) PNone profile PNone"

definition vcenter_tag_get_or_none :: "pyval \<Rightarrow> pyval \<Rightarrow> profile \<Rightarrow> pyval io" where
  "vcenter_tag_get_or_none opts tag profile = none_if_missing (vcenter_tag_get opts tag profile)"

definition vcenter_tag_create ::
  "pyval \<Rightarrow> pyval \<Rightarrow> pyval \<Rightarrow> pyval \<Rightarrow> profile \<Rightarrow> pyval io" where
  "vcenter_tag_create opts name category_id description profile =
     (let body = [(''name'', name), (''category_id'', category_id), (''description'', description)] in
     vcenter_api_post opts vcenter_tag_PATH (PDict body) PNone profile PNone)"

definition vcenter_tag_update ::
  "pyval \<Rightarrow> pyval \<Rightarrow> pyval \<Rightarrow> profile \<Rightarrow> pyval io" where
  "vcenter_tag_update opts tag spec profile =
     bindM (liftR (py_dict spec)) (\<lambda>items.
     vcenter_api_patch opts (vcenter_tag_PATH @ ''/'' @ py_str tag) (PDict items) profile PNone)"

definition vcenter_tag_delete :: "pyval \<Rightarrow> pyval \<Rightarrow> profile \<Rightarrow> pyval io" where
  "vcenter_tag_delete opts tag profile =
     vcenter_api_delete opts (vcenter_tag_PATH @ ''/'' @ py_str tag) PNone profile PNone"

definition vcenter_tag_assign ::
  "pyval \<Rightarrow> pyval \<Rightarrow> pyval \<Rightarrow> pyval \<Rightarrow> profile \<Rightarrow> pyval io" where
  "vcenter_tag_assign opts tag object_type object_id profile =
     (let body = [(''object_id'', PDict [(''type'', object_type), (''id'', object_id)])] in
     vcenter_api_post opts (vcenter_tag_ASSOC_PATH @ ''/'' @ py_str tag)
       (PDict body) (PDict [(''action'', PStr ''attach'')]) profile PNone)"

definition vcenter_tag_list_assigned ::
  "pyval \<Rightarrow> pyval \<Rightarrow> pyval \<Rightarrow> profile \<Rightarrow> pyval io" where
  "vcenter_tag_list_assigned opts object_type object_id profile =
     (let body = [(''object_id'', PDict [(''type'', object_type), (''id'', object_id)])] in
     vcenter_api_post opts vcenter_tag_ASSOC_PATH
       (PDict body) (PDict [(''action'', PStr ''list-attached-tags'')]) profile PNone)"

subsubsection \<open>\<open>clients/vcenter_tag_category.py\<close>\<close>

definition vcenter_tag_category_PATH :: "string" where
  "vcenter_tag_category_PATH = ''/api/cis/tagging/category''"

definition vcenter_tag_category_list :: "pyval \<Rightarrow> profile \<Rightarrow> pyval io" where
  "vcenter_tag_category_list opts profile = vcenter_api_get opts vcenter_tag_category_PATH PNone profile
    PNone"

definition vcenter_tag_category_get :: "pyval \<Rightarrow> pyval \<Rightarrow> profile \<Rightarrow> pyval io" where
  "vcenter_tag_category_get opts category_id profile =
     vcenter_api_get opts (vcenter_tag_category_PATH @ ''/'' @ py_str category_id) PNone profile PNone"

definition vcenter_tag_category_get_or_none :: "pyval \<Rightarrow> pyval \<Rightarrow> profile \<Rightarrow> pyval io" where
  "vcenter_tag_category_get_or_none opts category_id profile =
     none_if_missing (vcenter_tag_category_get opts category_id profile)"

definition vcenter_tag_category_create ::
  "pyval \<Rightarrow> pyval \<Rightarrow> pyval \<Rightarrow> pyval \<Rightarrow> pyval \<Rightarrow> profile \<Rightarrow> pyval io" where
  "vcenter_tag_category_create opts name cardinality description associable_types profile =
     bindM (liftR (py_iter (py_or associable_types (PList [])))) (\<lambda>items.
     let body = [(''name'', name), (''description'', description), (''cardinality'', cardinality),
       (''associable_types'', PList items)] in
     vcenter_api_post opts vcenter_tag_category_PATH (PDict body) PNone profile PNone)"

definition vcenter_tag_category_update ::
  "pyval \<Rightarrow> pyval \<Rightarrow> pyval \<Rightarrow> profile \<Rightarrow> pyval io" where
  "vcenter_tag_category_update opts category_id spec profile =
     bindM (liftR (py_dict spec)) (\<lambda>items.
     vcenter_api_patch opts (vcenter_tag_category_PATH @ ''/'' @ py_str category_id)
       (PDict items) profile PNone)"

definition vcenter_tag_category_delete :: "pyval \<Rightarrow> pyval \<Rightarrow> profile \<Rightarrow> pyval io" where
  "vcenter_tag_category_delete opts category_id profile =
     vcenter_api_delete opts (vcenter_tag_category_PATH @ ''/'' @ py_str category_id) PNone profile PNone"

subsubsection \<open>\<open>clients/vcenter_compute_policy.py\<close>\<close>

definition vcenter_compute_policy_PATH :: "string" where
  "vcenter_compute_policy_PATH = ''/api/vcenter/compute/policies''"

definition vcenter_compute_policy_list :: "pyval \<Rightarrow> profile \<Rightarrow> pyval io" where
  "vcenter_compute_policy_list opts profile =
     vcenter_api_get opts vcenter_compute_policy_PATH PNone profile PNone"

definition vcenter_compute_policy_get :: "pyval \<Rightarrow> pyval \<Rightarrow> profile \<Rightarrow> pyval io" where
  "vcenter_compute_policy_get opts policy_id profile =
     vcenter_api_get opts (vcenter_compute_policy_PATH @ ''/'' @ py_str policy_id) PNone profile PNone"

definition vcenter_compute_policy_get_or_none :: "pyval \<Rightarrow> pyval \<Rightarrow> profile \<Rightarrow> pyval io" where
  "vcenter_compute_policy_get_or_none opts policy_id profile =
     none_if_missing (vcenter_compute_policy_get opts policy_id profile)"

definition vcenter_compute_policy_create ::
  "pyval \<Rightarrow> pyval \<Rightarrow> profile \<Rightarrow> dict \<Rightarrow> pyval io" where
  "vcenter_compute_policy_create opts capability profile spec =
     (let body = [(''capability'', capability)] in
     let body = dupdate body spec in
     vcenter_api_post opts vcenter_compute_policy_PATH (PDict body) PNone profile PNone)"

definition vcenter_compute_policy_delete :: "pyval \<Rightarrow> pyval \<Rightarrow> profile \<Rightarrow> pyval io" where
  "vcenter_compute_policy_delete opts policy_id profile =
     vcenter_api_delete opts (vcenter_compute_policy_PATH @ ''/'' @ py_str policy_id) PNone profile PNone"

end
