(* ===== verification/Vcenter_Services.thy ===== *)
theory Vcenter_Services
  imports Vcenter Rest_Client Cluster_Config
begin

section \<open>Vcenter_Services: content library, Supervisor, depots\<close>

text \<open>
  The REST clients \<open>clients/vcenter_*.py\<close> on the services of a vCenter.
\<close>

subsection \<open>content libraries\<close>

text \<open>
  The REST calls on content libraries, their items, update sessions and templates.

  One definition per function of the client modules; identifiers and other arguments are
  Python values, keyword arguments (\<open>**spec\<close>) a dict.
\<close>

subsubsection \<open>\<open>clients/vcenter_content_library.py\<close>\<close>

definition vcenter_content_library_LIBRARY :: "string" where
  "vcenter_content_library_LIBRARY = ''/api/content/library''"

definition vcenter_content_library_LOCAL_LIBRARY :: "string" where
  "vcenter_content_library_LOCAL_LIBRARY = ''/api/content/local-library''"

definition vcenter_content_library_SUBSCRIBED_LIBRARY :: "string" where
  "vcenter_content_library_SUBSCRIBED_LIBRARY = ''/api/content/subscribed-library''"

definition vcenter_content_library_ITEM :: "string" where
  "vcenter_content_library_ITEM = ''/api/content/library/item''"

definition vcenter_content_library_UPDATE_SESSION :: "string" where
  "vcenter_content_library_UPDATE_SESSION = ''/api/content/library/item/update-session''"

definition vcenter_content_library_OVF_ITEM :: "string" where
  "vcenter_content_library_OVF_ITEM = ''/api/vcenter/ovf/library-item''"

definition vcenter_content_library_VM_TEMPLATE :: "string" where
  "vcenter_content_library_VM_TEMPLATE = ''/api/vcenter/vm-template/library-items''"

definition vcenter_content_library_list :: "pyval \<Rightarrow> profile \<Rightarrow> pyval io" where
  "vcenter_content_library_list opts profile =
     vcenter_api_get opts vcenter_content_library_LIBRARY PNone profile PNone"

definition vcenter_content_library_get :: "pyval \<Rightarrow> pyval \<Rightarrow> profile \<Rightarrow> pyval io" where
  "vcenter_content_library_get opts library_id profile =
     vcenter_api_get opts (vcenter_content_library_LIBRARY @ ''/'' @ py_str library_id)
       PNone profile PNone"

definition vcenter_content_library_get_or_none :: "pyval \<Rightarrow> pyval \<Rightarrow> profile \<Rightarrow> pyval io" where
  "vcenter_content_library_get_or_none opts library_id profile =
     none_if_missing (vcenter_content_library_get opts library_id profile)"

definition vcenter_content_library_list_local :: "pyval \<Rightarrow> profile \<Rightarrow> pyval io" where
  "vcenter_content_library_list_local opts profile =
     vcenter_api_get opts vcenter_content_library_LOCAL_LIBRARY PNone profile PNone"

definition vcenter_content_library_create_local ::
  "pyval \<Rightarrow> pyval \<Rightarrow> pyval \<Rightarrow> profile \<Rightarrow> dict \<Rightarrow> pyval io" where
  "vcenter_content_library_create_local opts name storage_backings profile spec =
     bindM (liftR (py_iter storage_backings)) (\<lambda>items.
     let body = [(''name'', name), (''type'', PStr ''LOCAL''), (''storage_backings'', PList items)];
       publish_info = dget spec ''publish_info'' PNone;
       body = (if publish_info \<noteq> PNone then dset body ''publish_info'' publish_info else body) in
     vcenter_api_post opts vcenter_content_library_LOCAL_LIBRARY
       (PDict (dupdate body (ddel spec ''publish_info''))) PNone profile PNone)"

definition vcenter_content_library_delete_local :: "pyval \<Rightarrow> pyval \<Rightarrow> profile \<Rightarrow> pyval io" where
  "vcenter_content_library_delete_local opts library_id profile =
     vcenter_api_delete opts (vcenter_content_library_LOCAL_LIBRARY @ ''/'' @ py_str library_id)
       PNone profile PNone"

definition vcenter_content_library_list_subscribed :: "pyval \<Rightarrow> profile \<Rightarrow> pyval io" where
  "vcenter_content_library_list_subscribed opts profile =
     vcenter_api_get opts vcenter_content_library_SUBSCRIBED_LIBRARY PNone profile PNone"

text \<open>\<open>{**v}\<close>.\<close>

definition py_mapping :: "pyval \<Rightarrow> dict res" where
  "py_mapping v =
     (case v of PDict d \<Rightarrow> Ok d
      | _ \<Rightarrow> Exc (TypeError (repr_str (type_name v) @ '' object is not a mapping'')))"

definition vcenter_content_library_create_subscribed ::
  "pyval \<Rightarrow> pyval \<Rightarrow> pyval \<Rightarrow> pyval \<Rightarrow> profile \<Rightarrow> dict \<Rightarrow> pyval io" where
  "vcenter_content_library_create_subscribed opts name subscription_url storage_backings profile spec =
     bindM (liftR (py_mapping (dget spec ''subscription_info'' empty_dict))) (\<lambda>info.
     bindM (liftR (py_iter storage_backings)) (\<lambda>items.
     let body = [(''name'', name), (''type'', PStr ''SUBSCRIBED''),
       (''subscription_info'', PDict (dupdate [(''subscription_url'', subscription_url)] info)),
       (''storage_backings'', PList items)] in
     vcenter_api_post opts vcenter_content_library_SUBSCRIBED_LIBRARY
       (PDict (dupdate body (ddel spec ''subscription_info''))) PNone profile PNone))"

definition vcenter_content_library_delete_subscribed ::
  "pyval \<Rightarrow> pyval \<Rightarrow> profile \<Rightarrow> pyval io" where
  "vcenter_content_library_delete_subscribed opts library_id profile =
     vcenter_api_delete opts (vcenter_content_library_SUBSCRIBED_LIBRARY @ ''/'' @ py_str library_id)
       PNone profile PNone"

definition vcenter_content_library_list_items :: "pyval \<Rightarrow> pyval \<Rightarrow> profile \<Rightarrow> pyval io" where
  "vcenter_content_library_list_items opts library_id profile =
     vcenter_api_get opts vcenter_content_library_ITEM
       (PDict [(''library_id'', library_id)]) profile PNone"

definition vcenter_content_library_get_item :: "pyval \<Rightarrow> pyval \<Rightarrow> profile \<Rightarrow> pyval io" where
  "vcenter_content_library_get_item opts item_id profile =
     vcenter_api_get opts (vcenter_content_library_ITEM @ ''/'' @ py_str item_id) PNone profile PNone"

definition vcenter_content_library_get_item_or_none ::
  "pyval \<Rightarrow> pyval \<Rightarrow> profile \<Rightarrow> pyval io" where
  "vcenter_content_library_get_item_or_none opts item_id profile =
     none_if_missing (vcenter_content_library_get_item opts item_id profile)"

definition vcenter_content_library_delete_item :: "pyval \<Rightarrow> pyval \<Rightarrow> profile \<Rightarrow> pyval io" where
  "vcenter_content_library_delete_item opts item_id profile =
     vcenter_api_delete opts (vcenter_content_library_ITEM @ ''/'' @ py_str item_id) PNone profile PNone"

definition vcenter_content_library_update_local ::
  "pyval \<Rightarrow> pyval \<Rightarrow> pyval \<Rightarrow> profile \<Rightarrow> pyval io" where
  "vcenter_content_library_update_local opts library_id spec profile =
     bindM (liftR (py_dict spec)) (\<lambda>items.
     vcenter_api_patch opts (vcenter_content_library_LOCAL_LIBRARY @ ''/'' @ py_str library_id)
       (PDict [(''update_spec'', PDict items)]) profile PNone)"

definition vcenter_content_library_update_subscribed ::
  "pyval \<Rightarrow> pyval \<Rightarrow> pyval \<Rightarrow> profile \<Rightarrow> pyval io" where
  "vcenter_content_library_update_subscribed opts library_id spec profile =
     bindM (liftR (py_dict spec)) (\<lambda>items.
     vcenter_api_patch opts (vcenter_content_library_SUBSCRIBED_LIBRARY @ ''/'' @ py_str library_id)
       (PDict [(''update_spec'', PDict items)]) profile PNone)"

definition vcenter_content_library_sync_subscribed ::
  "pyval \<Rightarrow> pyval \<Rightarrow> profile \<Rightarrow> pyval io" where
  "vcenter_content_library_sync_subscribed opts library_id profile =
     vcenter_api_post opts (vcenter_content_library_SUBSCRIBED_LIBRARY @ ''/'' @ py_str library_id)
       PNone (PDict [(''action'', PStr ''sync'')]) profile PNone"

definition vcenter_content_library_publish_library ::
  "pyval \<Rightarrow> pyval \<Rightarrow> pyval \<Rightarrow> profile \<Rightarrow> pyval io" where
  "vcenter_content_library_publish_library opts library_id subscriptions profile =
     (let body = [] :: dict in
     bindM (liftR (if subscriptions \<noteq> PNone then bindR (py_iter subscriptions) (\<lambda>items. Ok (dset body
       ''subscriptions'' (PList (map (\<lambda>s. PDict [(''id'', s)]) items)))) else Ok body)) (\<lambda>body.
     vcenter_api_post opts (vcenter_content_library_LOCAL_LIBRARY @ ''/'' @ py_str library_id)
       (if body = [] then PNone else PDict body) (PDict [(''action'', PStr ''publish'')]) profile PNone))"

definition vcenter_content_library_find_libraries ::
  "pyval \<Rightarrow> pyval \<Rightarrow> pyval \<Rightarrow> profile \<Rightarrow> pyval io" where
  "vcenter_content_library_find_libraries opts name type profile =
     (let spec = [] :: dict in
     let spec = (if name \<noteq> PNone then dset spec ''name'' name else spec) in
     let spec = (if type \<noteq> PNone then dset spec ''type'' type else spec) in
     vcenter_api_post opts vcenter_content_library_LIBRARY
       (PDict spec) (PDict [(''action'', PStr ''find'')]) profile PNone)"

definition vcenter_content_library_create_item ::
  "pyval \<Rightarrow> pyval \<Rightarrow> pyval \<Rightarrow> pyval \<Rightarrow> profile \<Rightarrow> dict \<Rightarrow> pyval io" where
  "vcenter_content_library_create_item opts library_id name type profile spec =
     (let body = [(''library_id'', library_id), (''name'', name), (''type'', type)] in
     let body = dupdate body spec in
     vcenter_api_post opts vcenter_content_library_ITEM (PDict body) PNone profile PNone)"

definition vcenter_content_library_update_item ::
  "pyval \<Rightarrow> pyval \<Rightarrow> pyval \<Rightarrow> profile \<Rightarrow> pyval io" where
  "vcenter_content_library_update_item opts item_id spec profile =
     bindM (liftR (py_dict spec)) (\<lambda>items.
     vcenter_api_patch opts (vcenter_content_library_ITEM @ ''/'' @ py_str item_id)
       (PDict [(''update_spec'', PDict items)]) profile PNone)"

definition vcenter_content_library_find_items ::
  "pyval \<Rightarrow> pyval \<Rightarrow> pyval \<Rightarrow> pyval \<Rightarrow> profile \<Rightarrow> pyval io" where
  "vcenter_content_library_find_items opts library_id name type profile =
     (let spec = [] :: dict in
     let spec = (if library_id \<noteq> PNone then dset spec ''library_id'' library_id else spec) in
     let spec = (if name \<noteq> PNone then dset spec ''name'' name else spec) in
     let spec = (if type \<noteq> PNone then dset spec ''type'' type else spec) in
     vcenter_api_post opts vcenter_content_library_ITEM
       (PDict spec) (PDict [(''action'', PStr ''find'')]) profile PNone)"

definition vcenter_content_library_update_session_create ::
  "pyval \<Rightarrow> pyval \<Rightarrow> profile \<Rightarrow> dict \<Rightarrow> pyval io" where
  "vcenter_content_library_update_session_create opts item_id profile spec =
     (let body = [(''library_item_id'', item_id)] in
     let body = dupdate body spec in
     vcenter_api_post opts vcenter_content_library_UPDATE_SESSION (PDict body) PNone profile PNone)"

definition vcenter_content_library_update_session_get ::
  "pyval \<Rightarrow> pyval \<Rightarrow> profile \<Rightarrow> pyval io" where
  "vcenter_content_library_update_session_get opts session_id profile =
     vcenter_api_get opts (vcenter_content_library_UPDATE_SESSION @ ''/'' @ py_str session_id)
       PNone profile PNone"

definition vcenter_content_library_update_session_complete ::
  "pyval \<Rightarrow> pyval \<Rightarrow> profile \<Rightarrow> pyval io" where
  "vcenter_content_library_update_session_complete opts session_id profile =
     vcenter_api_post opts (vcenter_content_library_UPDATE_SESSION @ ''/'' @ py_str session_id)
       PNone (PDict [(''action'', PStr ''complete'')]) profile PNone"

definition vcenter_content_library_update_session_cancel ::
  "pyval \<Rightarrow> pyval \<Rightarrow> profile \<Rightarrow> pyval io" where
  "vcenter_content_library_update_session_cancel opts session_id profile =
     vcenter_api_post opts (vcenter_content_library_UPDATE_SESSION @ ''/'' @ py_str session_id)
       PNone (PDict [(''action'', PStr ''cancel'')]) profile PNone"

definition vcenter_content_library_update_session_fail ::
  "pyval \<Rightarrow> pyval \<Rightarrow> pyval \<Rightarrow> profile \<Rightarrow> pyval io" where
  "vcenter_content_library_update_session_fail opts session_id error profile =
     vcenter_api_post opts (vcenter_content_library_UPDATE_SESSION @ ''/'' @ py_str session_id)
       (PDict [(''client_error_message'', error)]) (PDict [(''action'', PStr ''fail'')]) profile PNone"

definition vcenter_content_library_update_session_keep_alive ::
  "pyval \<Rightarrow> pyval \<Rightarrow> profile \<Rightarrow> pyval io" where
  "vcenter_content_library_update_session_keep_alive opts session_id profile =
     vcenter_api_post opts (vcenter_content_library_UPDATE_SESSION @ ''/'' @ py_str session_id)
       PNone (PDict [(''action'', PStr ''keep-alive'')]) profile PNone"

definition vcenter_content_library_update_session_add_file ::
  "pyval \<Rightarrow> pyval \<Rightarrow> pyval \<Rightarrow> pyval \<Rightarrow> profile \<Rightarrow> dict \<Rightarrow> pyval io" where
  "vcenter_content_library_update_session_add_file opts session_id name source_type profile spec =
     (let body = [(''name'', name), (''source_type'', source_type)] in
     let body = dupdate body spec in
     vcenter_api_post opts (vcenter_content_library_UPDATE_SESSION @ ''/'' @ py_str session_id @
       ''/file'')
       (PDict body) (PDict [(''action'', PStr ''add'')]) profile PNone)"

definition vcenter_content_library_update_session_list_files ::
  "pyval \<Rightarrow> pyval \<Rightarrow> profile \<Rightarrow> pyval io" where
  "vcenter_content_library_update_session_list_files opts session_id profile =
     vcenter_api_get opts (vcenter_content_library_UPDATE_SESSION @ ''/'' @ py_str session_id @ ''/file'')
       PNone profile PNone"

definition vcenter_content_library_ovf_deploy ::
  "pyval \<Rightarrow> pyval \<Rightarrow> pyval \<Rightarrow> pyval \<Rightarrow> profile \<Rightarrow> pyval \<Rightarrow> pyval io" where
  "vcenter_content_library_ovf_deploy opts library_item_id deployment_target deployment_spec profile timeout
    =
     (let body = [(''target'', deployment_target), (''deployment_spec'', deployment_spec)] in
     vcenter_api_post opts (vcenter_content_library_OVF_ITEM @ ''/'' @ py_str library_item_id)
       (PDict body) (PDict [(''action'', PStr ''deploy'')]) profile timeout)"

definition vcenter_content_library_ovf_filter ::
  "pyval \<Rightarrow> pyval \<Rightarrow> pyval \<Rightarrow> profile \<Rightarrow> pyval io" where
  "vcenter_content_library_ovf_filter opts library_item_id deployment_target profile =
     vcenter_api_post opts (vcenter_content_library_OVF_ITEM @ ''/'' @ py_str library_item_id)
       (PDict [(''target'', deployment_target)]) (PDict [(''action'', PStr ''filter'')]) profile PNone"

definition vcenter_content_library_ovf_create_from_vm ::
  "pyval \<Rightarrow> pyval \<Rightarrow> pyval \<Rightarrow> profile \<Rightarrow> pyval io" where
  "vcenter_content_library_ovf_create_from_vm opts vm_id create_spec profile =
     (let body = [(''source'', PDict [(''type'', PStr ''VirtualMachine''), (''id'', vm_id)]), (''create_spec'',
       create_spec)] in
     vcenter_api_post opts vcenter_content_library_OVF_ITEM
       (PDict body) (PDict [(''action'', PStr ''create_from_vm_template'')]) profile PNone)"

definition vcenter_content_library_vm_template_get ::
  "pyval \<Rightarrow> pyval \<Rightarrow> profile \<Rightarrow> pyval io" where
  "vcenter_content_library_vm_template_get opts item_id profile =
     vcenter_api_get opts (vcenter_content_library_VM_TEMPLATE @ ''/'' @ py_str item_id)
       PNone profile PNone"

definition vcenter_content_library_vm_template_get_or_none ::
  "pyval \<Rightarrow> pyval \<Rightarrow> profile \<Rightarrow> pyval io" where
  "vcenter_content_library_vm_template_get_or_none opts item_id profile =
     none_if_missing (vcenter_content_library_vm_template_get opts item_id profile)"

definition vcenter_content_library_vm_template_create ::
  "pyval \<Rightarrow> pyval \<Rightarrow> profile \<Rightarrow> pyval io" where
  "vcenter_content_library_vm_template_create opts create_spec profile =
     vcenter_api_post opts vcenter_content_library_VM_TEMPLATE
       (PDict [(''spec'', create_spec)]) PNone profile PNone"

definition vcenter_content_library_vm_template_deploy ::
  "pyval \<Rightarrow> pyval \<Rightarrow> pyval \<Rightarrow> profile \<Rightarrow> pyval io" where
  "vcenter_content_library_vm_template_deploy opts item_id deploy_spec profile =
     vcenter_api_post opts (vcenter_content_library_VM_TEMPLATE @ ''/'' @ py_str item_id)
       (PDict [(''spec'', deploy_spec)]) (PDict [(''action'', PStr ''deploy'')]) profile PNone"

subsection \<open>supervisor clusters\<close>

text \<open>
  The REST calls on supervisor clusters, their services, software, kubeconfigs and VM classes.

  One definition per function of the client modules; identifiers and other arguments are
  Python values, keyword arguments (\<open>**spec\<close>) a dict.
\<close>

subsubsection \<open>\<open>clients/vcenter_supervisor.py\<close>\<close>

definition vcenter_supervisor_CLUSTERS :: "string" where
  "vcenter_supervisor_CLUSTERS = ''/api/vcenter/namespace-management/clusters''"

definition vcenter_supervisor_COMPAT :: "string" where
  "vcenter_supervisor_COMPAT = ''/api/vcenter/namespace-management/cluster-compatibility''"

definition vcenter_supervisor_NAMESPACES :: "string" where
  "vcenter_supervisor_NAMESPACES = ''/api/vcenter/namespaces/instances''"

definition vcenter_supervisor_list_clusters :: "pyval \<Rightarrow> profile \<Rightarrow> pyval io" where
  "vcenter_supervisor_list_clusters opts profile =
     vcenter_api_get opts vcenter_supervisor_CLUSTERS PNone profile PNone"

definition vcenter_supervisor_get_cluster :: "pyval \<Rightarrow> pyval \<Rightarrow> profile \<Rightarrow> pyval io" where
  "vcenter_supervisor_get_cluster opts cluster_id profile =
     vcenter_api_get opts (vcenter_supervisor_CLUSTERS @ ''/'' @ py_str cluster_id) PNone profile PNone"

definition vcenter_supervisor_get_cluster_or_none ::
  "pyval \<Rightarrow> pyval \<Rightarrow> profile \<Rightarrow> pyval io" where
  "vcenter_supervisor_get_cluster_or_none opts cluster_id profile =
     none_if_missing (vcenter_supervisor_get_cluster opts cluster_id profile)"

definition vcenter_supervisor_list_compatibility :: "pyval \<Rightarrow> profile \<Rightarrow> pyval io" where
  "vcenter_supervisor_list_compatibility opts profile =
     vcenter_api_get opts vcenter_supervisor_COMPAT PNone profile PNone"

definition vcenter_supervisor_enable_cluster ::
  "pyval \<Rightarrow> pyval \<Rightarrow> pyval \<Rightarrow> profile \<Rightarrow> pyval io" where
  "vcenter_supervisor_enable_cluster opts cluster_id enable_spec profile =
     vcenter_api_post opts (vcenter_supervisor_CLUSTERS @ ''/'' @ py_str cluster_id)
       enable_spec PNone profile PNone"

definition vcenter_supervisor_disable_cluster :: "pyval \<Rightarrow> pyval \<Rightarrow> profile \<Rightarrow> pyval io" where
  "vcenter_supervisor_disable_cluster opts cluster_id profile =
     vcenter_api_delete opts (vcenter_supervisor_CLUSTERS @ ''/'' @ py_str cluster_id)
       PNone profile PNone"

definition vcenter_supervisor_list_namespaces :: "pyval \<Rightarrow> profile \<Rightarrow> pyval io" where
  "vcenter_supervisor_list_namespaces opts profile =
     vcenter_api_get opts vcenter_supervisor_NAMESPACES PNone profile PNone"

definition vcenter_supervisor_get_namespace :: "pyval \<Rightarrow> pyval \<Rightarrow> profile \<Rightarrow> pyval io" where
  "vcenter_supervisor_get_namespace opts namespace_id profile =
     vcenter_api_get opts (vcenter_supervisor_NAMESPACES @ ''/'' @ py_str namespace_id)
       PNone profile PNone"

definition vcenter_supervisor_get_namespace_or_none ::
  "pyval \<Rightarrow> pyval \<Rightarrow> profile \<Rightarrow> pyval io" where
  "vcenter_supervisor_get_namespace_or_none opts namespace_id profile =
     none_if_missing (vcenter_supervisor_get_namespace opts namespace_id profile)"

definition vcenter_supervisor_create_namespace :: "pyval \<Rightarrow> pyval \<Rightarrow> profile \<Rightarrow> pyval io" where
  "vcenter_supervisor_create_namespace opts namespace_spec profile =
     vcenter_api_post opts vcenter_supervisor_NAMESPACES namespace_spec PNone profile PNone"

definition vcenter_supervisor_delete_namespace :: "pyval \<Rightarrow> pyval \<Rightarrow> profile \<Rightarrow> pyval io" where
  "vcenter_supervisor_delete_namespace opts namespace_id profile =
     vcenter_api_delete opts (vcenter_supervisor_NAMESPACES @ ''/'' @ py_str namespace_id)
       PNone profile PNone"

subsubsection \<open>\<open>clients/vcenter_supervisor_compat.py\<close>\<close>

definition vcenter_supervisor_compat_CLUSTER_COMPAT :: "string" where
  "vcenter_supervisor_compat_CLUSTER_COMPAT = ''/api/vcenter/namespace-management/cluster-compatibility''"

definition vcenter_supervisor_compat_DVS_COMPAT :: "string" where
  "vcenter_supervisor_compat_DVS_COMPAT =
     ''/api/vcenter/namespace-management/distributed-switch-compatibility''"

definition vcenter_supervisor_compat_EDGE_COMPAT :: "string" where
  "vcenter_supervisor_compat_EDGE_COMPAT =
    ''/api/vcenter/namespace-management/edge-cluster-compatibility''"

definition vcenter_supervisor_compat_SIZE_INFO :: "string" where
  "vcenter_supervisor_compat_SIZE_INFO = ''/api/vcenter/namespace-management/cluster-size-info''"

definition vcenter_supervisor_compat_list_cluster_compatibility :: "pyval \<Rightarrow> profile \<Rightarrow> pyval io" where
  "vcenter_supervisor_compat_list_cluster_compatibility opts profile =
     vcenter_api_get opts vcenter_supervisor_compat_CLUSTER_COMPAT PNone profile PNone"

definition vcenter_supervisor_compat_list_dvs_compatibility ::
  "pyval \<Rightarrow> pyval \<Rightarrow> profile \<Rightarrow> pyval io" where
  "vcenter_supervisor_compat_list_dvs_compatibility opts cluster_id profile =
     vcenter_api_get opts vcenter_supervisor_compat_DVS_COMPAT
       (PDict [(''cluster'', cluster_id)]) profile PNone"

definition vcenter_supervisor_compat_list_edge_cluster_compatibility ::
  "pyval \<Rightarrow> pyval \<Rightarrow> pyval \<Rightarrow> profile \<Rightarrow> pyval io" where
  "vcenter_supervisor_compat_list_edge_cluster_compatibility opts cluster_id distributed_switch profile =
     vcenter_api_get opts vcenter_supervisor_compat_EDGE_COMPAT
       (PDict [(''cluster'', cluster_id), (''distributed_switch'', distributed_switch)]) profile PNone"

definition vcenter_supervisor_compat_get_cluster_size_info :: "pyval \<Rightarrow> profile \<Rightarrow> pyval io" where
  "vcenter_supervisor_compat_get_cluster_size_info opts profile =
     vcenter_api_get opts vcenter_supervisor_compat_SIZE_INFO PNone profile PNone"

subsubsection \<open>\<open>clients/vcenter_supervisor_kubeconfig.py\<close>\<close>

definition kubeconfig_of :: "pyval \<Rightarrow> pyval" where
  "kubeconfig_of body =
     (case body of
        PDict d \<Rightarrow> py_or (dget d ''kube_config'' PNone) (py_or (dget d ''kubeconfig'' PNone) body)
      | _ \<Rightarrow> body)"

definition vcenter_supervisor_kubeconfig_get_kubeconfig :: "pyval \<Rightarrow> pyval \<Rightarrow> profile \<Rightarrow> pyval io" where
  "vcenter_supervisor_kubeconfig_get_kubeconfig opts cluster_id profile =
     bindM (tryM
        (vcenter_api_get opts
          (''/api/vcenter/namespace-management/clusters/'' @ py_str cluster_id @ ''/kubeconfig'') PNone profile PNone)
        (\<lambda>exc. if http_status_is exc 400 \<or> http_status_is exc 404 then
           vcenter_api_get opts ''/api/vcenter/namespaces/user/kubeconfig'' PNone profile PNone
         else raiseM exc)) (\<lambda>body.
     pureM (kubeconfig_of body))"

definition vcenter_supervisor_kubeconfig_get_kubeconfig_for_namespace ::
  "pyval \<Rightarrow> pyval \<Rightarrow> profile \<Rightarrow> pyval io" where
  "vcenter_supervisor_kubeconfig_get_kubeconfig_for_namespace opts namespace_id profile =
     bindM (vcenter_api_get opts ''/api/vcenter/namespaces/user/kubeconfig''
       (PDict [(''namespace'', namespace_id)]) profile PNone) (\<lambda>body.
     pureM (kubeconfig_of body))"

subsubsection \<open>\<open>clients/vcenter_supervisor_service.py\<close>\<close>

definition vcenter_supervisor_service_PATH :: "string" where
  "vcenter_supervisor_service_PATH = ''/api/vcenter/namespace-management/supervisor-services''"

definition vcenter_supervisor_service_list :: "pyval \<Rightarrow> profile \<Rightarrow> pyval io" where
  "vcenter_supervisor_service_list opts profile =
     vcenter_api_get opts vcenter_supervisor_service_PATH PNone profile PNone"

definition vcenter_supervisor_service_get :: "pyval \<Rightarrow> pyval \<Rightarrow> profile \<Rightarrow> pyval io" where
  "vcenter_supervisor_service_get opts service_id profile =
     vcenter_api_get opts (vcenter_supervisor_service_PATH @ ''/'' @ py_str service_id)
       PNone profile PNone"

definition vcenter_supervisor_service_get_or_none ::
  "pyval \<Rightarrow> pyval \<Rightarrow> profile \<Rightarrow> pyval io" where
  "vcenter_supervisor_service_get_or_none opts service_id profile =
     none_if_missing (vcenter_supervisor_service_get opts service_id profile)"

definition vcenter_supervisor_service_list_versions ::
  "pyval \<Rightarrow> pyval \<Rightarrow> profile \<Rightarrow> pyval io" where
  "vcenter_supervisor_service_list_versions opts service_id profile =
     vcenter_api_get opts (vcenter_supervisor_service_PATH @ ''/'' @ py_str service_id @ ''/versions'')
       PNone profile PNone"

definition vcenter_supervisor_service_get_version ::
  "pyval \<Rightarrow> pyval \<Rightarrow> pyval \<Rightarrow> profile \<Rightarrow> pyval io" where
  "vcenter_supervisor_service_get_version opts service_id version profile =
     vcenter_api_get opts (vcenter_supervisor_service_PATH @ ''/'' @ py_str service_id @ ''/versions/'' @ py_str
       version)
       PNone profile PNone"

definition vcenter_supervisor_service_create :: "pyval \<Rightarrow> pyval \<Rightarrow> profile \<Rightarrow> pyval io" where
  "vcenter_supervisor_service_create opts service_spec profile =
     vcenter_api_post opts vcenter_supervisor_service_PATH service_spec PNone profile PNone"

definition vcenter_supervisor_service_activate :: "pyval \<Rightarrow> pyval \<Rightarrow> profile \<Rightarrow> pyval io" where
  "vcenter_supervisor_service_activate opts service_id profile =
     vcenter_api_post opts (vcenter_supervisor_service_PATH @ ''/'' @ py_str service_id)
       PNone (PDict [(''action'', PStr ''activate'')]) profile PNone"

definition vcenter_supervisor_service_deactivate :: "pyval \<Rightarrow> pyval \<Rightarrow> profile \<Rightarrow> pyval io" where
  "vcenter_supervisor_service_deactivate opts service_id profile =
     vcenter_api_post opts (vcenter_supervisor_service_PATH @ ''/'' @ py_str service_id)
       PNone (PDict [(''action'', PStr ''deactivate'')]) profile PNone"

definition vcenter_supervisor_service_delete :: "pyval \<Rightarrow> pyval \<Rightarrow> profile \<Rightarrow> pyval io" where
  "vcenter_supervisor_service_delete opts service_id profile =
     vcenter_api_delete opts (vcenter_supervisor_service_PATH @ ''/'' @ py_str service_id)
       PNone profile PNone"

subsubsection \<open>\<open>clients/vcenter_supervisor_software.py\<close>\<close>

definition vcenter_supervisor_software_PATH :: "string" where
  "vcenter_supervisor_software_PATH = ''/api/vcenter/namespace-management/software/clusters''"

definition vcenter_supervisor_software_list :: "pyval \<Rightarrow> profile \<Rightarrow> pyval io" where
  "vcenter_supervisor_software_list opts profile =
     vcenter_api_get opts vcenter_supervisor_software_PATH PNone profile PNone"

definition vcenter_supervisor_software_get :: "pyval \<Rightarrow> pyval \<Rightarrow> profile \<Rightarrow> pyval io" where
  "vcenter_supervisor_software_get opts cluster_id profile =
     vcenter_api_get opts (vcenter_supervisor_software_PATH @ ''/'' @ py_str cluster_id)
       PNone profile PNone"

definition vcenter_supervisor_software_get_or_none ::
  "pyval \<Rightarrow> pyval \<Rightarrow> profile \<Rightarrow> pyval io" where
  "vcenter_supervisor_software_get_or_none opts cluster_id profile =
     none_if_missing (vcenter_supervisor_software_get opts cluster_id profile)"

definition vcenter_supervisor_software_upgrade ::
  "pyval \<Rightarrow> pyval \<Rightarrow> pyval \<Rightarrow> profile \<Rightarrow> pyval io" where
  "vcenter_supervisor_software_upgrade opts cluster_id upgrade_spec profile =
     vcenter_api_post opts (vcenter_supervisor_software_PATH @ ''/'' @ py_str cluster_id)
       upgrade_spec (PDict [(''action'', PStr ''upgrade'')]) profile PNone"

subsubsection \<open>\<open>clients/vcenter_vm_class.py\<close>\<close>

definition vcenter_vm_class_PATH :: "string" where
  "vcenter_vm_class_PATH = ''/api/vcenter/namespace-management/virtual-machine-classes''"

definition vcenter_vm_class_list :: "pyval \<Rightarrow> profile \<Rightarrow> pyval io" where
  "vcenter_vm_class_list opts profile = vcenter_api_get opts vcenter_vm_class_PATH PNone profile PNone"

definition vcenter_vm_class_get :: "pyval \<Rightarrow> pyval \<Rightarrow> profile \<Rightarrow> pyval io" where
  "vcenter_vm_class_get opts class_id profile =
     vcenter_api_get opts (vcenter_vm_class_PATH @ ''/'' @ py_str class_id) PNone profile PNone"

definition vcenter_vm_class_get_or_none :: "pyval \<Rightarrow> pyval \<Rightarrow> profile \<Rightarrow> pyval io" where
  "vcenter_vm_class_get_or_none opts class_id profile =
     none_if_missing (vcenter_vm_class_get opts class_id profile)"

definition vcenter_vm_class_create :: "pyval \<Rightarrow> pyval \<Rightarrow> profile \<Rightarrow> pyval io" where
  "vcenter_vm_class_create opts class_spec profile =
     vcenter_api_post opts vcenter_vm_class_PATH class_spec PNone profile PNone"

definition vcenter_vm_class_update ::
  "pyval \<Rightarrow> pyval \<Rightarrow> pyval \<Rightarrow> profile \<Rightarrow> pyval io" where
  "vcenter_vm_class_update opts class_id class_spec profile =
     vcenter_api_patch opts (vcenter_vm_class_PATH @ ''/'' @ py_str class_id) class_spec profile PNone"

definition vcenter_vm_class_delete :: "pyval \<Rightarrow> pyval \<Rightarrow> profile \<Rightarrow> pyval io" where
  "vcenter_vm_class_delete opts class_id profile =
     vcenter_api_delete opts (vcenter_vm_class_PATH @ ''/'' @ py_str class_id) PNone profile PNone"

subsection \<open>depots and cluster images\<close>

text \<open>
  The REST calls on software depots and on the desired image of a cluster.

  One definition per function of the client modules; identifiers and other arguments are
  Python values, keyword arguments (\<open>**spec\<close>) a dict.
\<close>

subsubsection \<open>\<open>clients/vcenter_lcm_depot.py\<close>\<close>

definition vcenter_lcm_depot_DEPOTS :: "string" where
  "vcenter_lcm_depot_DEPOTS = ''/api/esx/settings/depots''"

definition vcenter_lcm_depot_OFFLINE :: "string" where
  "vcenter_lcm_depot_OFFLINE = vcenter_lcm_depot_DEPOTS @ ''/offline''"

definition vcenter_lcm_depot_ONLINE :: "string" where
  "vcenter_lcm_depot_ONLINE = vcenter_lcm_depot_DEPOTS @ ''/online''"

definition vcenter_lcm_depot_UMDS :: "string" where
  "vcenter_lcm_depot_UMDS = vcenter_lcm_depot_DEPOTS @ ''/umds''"

text \<open>\<open>_per_id(path)\<close> is the four functions on the depots at a path.\<close>

definition depots_list :: "string \<Rightarrow> pyval \<Rightarrow> profile \<Rightarrow> pyval io" where
  "depots_list path opts profile = vcenter_api_get opts path PNone profile PNone"

definition depots_get :: "string \<Rightarrow> pyval \<Rightarrow> pyval \<Rightarrow> profile \<Rightarrow> pyval io" where
  "depots_get path opts depot_id profile = vcenter_api_get opts (path @ ''/'' @ py_str depot_id) PNone profile PNone"

definition depots_get_or_none :: "string \<Rightarrow> pyval \<Rightarrow> pyval \<Rightarrow> profile \<Rightarrow> pyval io" where
  "depots_get_or_none path opts depot_id profile = none_if_missing (depots_get path opts depot_id profile)"

definition depots_delete :: "string \<Rightarrow> pyval \<Rightarrow> pyval \<Rightarrow> profile \<Rightarrow> pyval io" where
  "depots_delete path opts depot_id profile = vcenter_api_delete opts (path @ ''/'' @ py_str depot_id) PNone profile PNone"

definition vcenter_lcm_depot_list_offline :: "pyval \<Rightarrow> profile \<Rightarrow> pyval io" where
  "vcenter_lcm_depot_list_offline = depots_list vcenter_lcm_depot_OFFLINE"

definition vcenter_lcm_depot_get_offline :: "pyval \<Rightarrow> pyval \<Rightarrow> profile \<Rightarrow> pyval io" where
  "vcenter_lcm_depot_get_offline = depots_get vcenter_lcm_depot_OFFLINE"

definition vcenter_lcm_depot_get_offline_or_none :: "pyval \<Rightarrow> pyval \<Rightarrow> profile \<Rightarrow> pyval io" where
  "vcenter_lcm_depot_get_offline_or_none = depots_get_or_none vcenter_lcm_depot_OFFLINE"

definition vcenter_lcm_depot_delete_offline :: "pyval \<Rightarrow> pyval \<Rightarrow> profile \<Rightarrow> pyval io" where
  "vcenter_lcm_depot_delete_offline = depots_delete vcenter_lcm_depot_OFFLINE"

definition vcenter_lcm_depot_create_offline ::
  "pyval \<Rightarrow> pyval \<Rightarrow> profile \<Rightarrow> dict \<Rightarrow> pyval io" where
  "vcenter_lcm_depot_create_offline opts file_locator profile spec =
     (let body = [(''file_locator'', file_locator)] in
     let body = dupdate body spec in
     vcenter_api_post opts vcenter_lcm_depot_OFFLINE (PDict body) PNone profile PNone)"

definition vcenter_lcm_depot_list_online :: "pyval \<Rightarrow> profile \<Rightarrow> pyval io" where
  "vcenter_lcm_depot_list_online = depots_list vcenter_lcm_depot_ONLINE"

definition vcenter_lcm_depot_get_online :: "pyval \<Rightarrow> pyval \<Rightarrow> profile \<Rightarrow> pyval io" where
  "vcenter_lcm_depot_get_online = depots_get vcenter_lcm_depot_ONLINE"

definition vcenter_lcm_depot_get_online_or_none :: "pyval \<Rightarrow> pyval \<Rightarrow> profile \<Rightarrow> pyval io" where
  "vcenter_lcm_depot_get_online_or_none = depots_get_or_none vcenter_lcm_depot_ONLINE"

definition vcenter_lcm_depot_delete_online :: "pyval \<Rightarrow> pyval \<Rightarrow> profile \<Rightarrow> pyval io" where
  "vcenter_lcm_depot_delete_online = depots_delete vcenter_lcm_depot_ONLINE"

definition vcenter_lcm_depot_create_online ::
  "pyval \<Rightarrow> pyval \<Rightarrow> profile \<Rightarrow> dict \<Rightarrow> pyval io" where
  "vcenter_lcm_depot_create_online opts location profile spec =
     (let body = [(''location'', location)] in
     let body = dupdate body spec in
     vcenter_api_post opts vcenter_lcm_depot_ONLINE (PDict body) PNone profile PNone)"

definition vcenter_lcm_depot_list_umds :: "pyval \<Rightarrow> profile \<Rightarrow> pyval io" where
  "vcenter_lcm_depot_list_umds = depots_list vcenter_lcm_depot_UMDS"

definition vcenter_lcm_depot_get_umds :: "pyval \<Rightarrow> pyval \<Rightarrow> profile \<Rightarrow> pyval io" where
  "vcenter_lcm_depot_get_umds = depots_get vcenter_lcm_depot_UMDS"

definition vcenter_lcm_depot_get_umds_or_none :: "pyval \<Rightarrow> pyval \<Rightarrow> profile \<Rightarrow> pyval io" where
  "vcenter_lcm_depot_get_umds_or_none = depots_get_or_none vcenter_lcm_depot_UMDS"

definition vcenter_lcm_depot_delete_umds :: "pyval \<Rightarrow> pyval \<Rightarrow> profile \<Rightarrow> pyval io" where
  "vcenter_lcm_depot_delete_umds = depots_delete vcenter_lcm_depot_UMDS"

definition vcenter_lcm_depot_create_umds ::
  "pyval \<Rightarrow> pyval \<Rightarrow> profile \<Rightarrow> dict \<Rightarrow> pyval io" where
  "vcenter_lcm_depot_create_umds opts location profile spec =
     (let body = [(''location'', location)] in
     let body = dupdate body spec in
     vcenter_api_post opts vcenter_lcm_depot_UMDS (PDict body) PNone profile PNone)"

definition vcenter_lcm_depot_sync :: "pyval \<Rightarrow> profile \<Rightarrow> pyval io" where
  "vcenter_lcm_depot_sync opts profile =
     vcenter_api_post opts vcenter_lcm_depot_DEPOTS
       PNone (PDict [(''action'', PStr ''sync'')]) profile PNone"

definition vcenter_lcm_depot_get_content :: "pyval \<Rightarrow> profile \<Rightarrow> pyval io" where
  "vcenter_lcm_depot_get_content opts profile =
     (let base = ''/api/esx/settings/depot-content'' in
     bindM (vcenter_api_get opts (base @ ''/base-images'') PNone profile PNone) (\<lambda>base_images.
     bindM (vcenter_api_get opts (base @ ''/add-ons'') PNone profile PNone) (\<lambda>add_ons.
     bindM (vcenter_api_get opts (base @ ''/components'') PNone profile PNone) (\<lambda>components.
     pureM (PDict [(''base_images'', base_images), (''add_ons'', add_ons), (''components'', components)])))))"

subsubsection \<open>\<open>clients/cluster_config_software.py\<close>\<close>

definition cluster_config_software_path :: "pyval \<Rightarrow> pyval \<Rightarrow> string" where
  "cluster_config_software_path cluster suffix0 =
     ''/api/esx/settings/clusters/'' @ py_str cluster @ ''/software'' @ py_str suffix0"

definition cluster_config_software_get :: "pyval \<Rightarrow> pyval \<Rightarrow> profile \<Rightarrow> pyval io" where
  "cluster_config_software_get opts cluster profile =
     none_if_unmanaged (vcenter_api_get opts (cluster_config_software_path cluster (PStr '''')) PNone profile
       PNone)"

definition cluster_config_software_effective_components ::
  "pyval \<Rightarrow> pyval \<Rightarrow> profile \<Rightarrow> pyval io" where
  "cluster_config_software_effective_components opts cluster profile =
     vcenter_api_get opts (cluster_config_software_path cluster (PStr ''/effective-components''))
       PNone profile PNone"

definition cluster_config_software_solutions :: "pyval \<Rightarrow> pyval \<Rightarrow> profile \<Rightarrow> pyval io" where
  "cluster_config_software_solutions opts cluster profile =
     vcenter_api_get opts (cluster_config_software_path cluster (PStr ''/solutions''))
       PNone profile PNone"

definition cluster_config_software_drafts_list :: "pyval \<Rightarrow> pyval \<Rightarrow> profile \<Rightarrow> pyval io" where
  "cluster_config_software_drafts_list opts cluster profile =
     vcenter_api_get opts (cluster_config_software_path cluster (PStr ''/drafts'')) PNone profile PNone"

definition cluster_config_software_draft_get ::
  "pyval \<Rightarrow> pyval \<Rightarrow> pyval \<Rightarrow> profile \<Rightarrow> pyval io" where
  "cluster_config_software_draft_get opts cluster draft_id profile =
     vcenter_api_get opts (cluster_config_software_path cluster (PStr (''/drafts/'' @ py_str draft_id)))
       PNone profile PNone"

definition cluster_config_software_draft_create :: "pyval \<Rightarrow> pyval \<Rightarrow> profile \<Rightarrow> pyval io" where
  "cluster_config_software_draft_create opts cluster profile =
     vcenter_api_post opts (cluster_config_software_path cluster (PStr ''/drafts''))
       (PDict []) PNone profile PNone"

definition cluster_config_software_draft_delete ::
  "pyval \<Rightarrow> pyval \<Rightarrow> pyval \<Rightarrow> profile \<Rightarrow> pyval io" where
  "cluster_config_software_draft_delete opts cluster draft_id profile =
     vcenter_api_delete opts (cluster_config_software_path cluster (PStr (''/drafts/'' @ py_str
       draft_id)))
       PNone profile PNone"

definition cluster_config_software_draft_update_base_image ::
  "pyval \<Rightarrow> pyval \<Rightarrow> pyval \<Rightarrow> pyval \<Rightarrow> profile \<Rightarrow> pyval io" where
  "cluster_config_software_draft_update_base_image opts cluster draft_id version profile =
     vcenter_api_put opts (cluster_config_software_path cluster (PStr (''/drafts/'' @ py_str draft_id @
       ''/software/base-image'')))
       (PDict [(''version'', version)]) profile PNone"

definition cluster_config_software_draft_set_add_on ::
  "pyval \<Rightarrow> pyval \<Rightarrow> pyval \<Rightarrow> pyval \<Rightarrow> pyval \<Rightarrow> profile \<Rightarrow> pyval io" where
  "cluster_config_software_draft_set_add_on opts cluster draft_id name version profile =
     vcenter_api_put opts (cluster_config_software_path cluster (PStr (''/drafts/'' @ py_str draft_id @
       ''/software/add-on'')))
       (PDict [(''name'', name), (''version'', version)]) profile PNone"

definition cluster_config_software_draft_remove_add_on ::
  "pyval \<Rightarrow> pyval \<Rightarrow> pyval \<Rightarrow> profile \<Rightarrow> pyval io" where
  "cluster_config_software_draft_remove_add_on opts cluster draft_id profile =
     vcenter_api_delete opts (cluster_config_software_path cluster (PStr (''/drafts/'' @ py_str draft_id @
       ''/software/add-on'')))
       PNone profile PNone"

definition cluster_config_software_draft_set_component ::
  "pyval \<Rightarrow> pyval \<Rightarrow> pyval \<Rightarrow> pyval \<Rightarrow> pyval \<Rightarrow> profile \<Rightarrow> pyval io" where
  "cluster_config_software_draft_set_component opts cluster draft_id component_name version profile =
     vcenter_api_put opts (cluster_config_software_path cluster (PStr (''/drafts/'' @ py_str draft_id @
       ''/software/components/'' @ py_str component_name)))
       (PDict [(''version'', version)]) profile PNone"

definition cluster_config_software_draft_remove_component ::
  "pyval \<Rightarrow> pyval \<Rightarrow> pyval \<Rightarrow> pyval \<Rightarrow> profile \<Rightarrow> pyval io" where
  "cluster_config_software_draft_remove_component opts cluster draft_id component_name profile =
     vcenter_api_delete opts (cluster_config_software_path cluster (PStr (''/drafts/'' @ py_str draft_id @
       ''/software/components/'' @ py_str component_name)))
       PNone profile PNone"

definition cluster_config_software_draft_set_hardware_support ::
  "pyval \<Rightarrow> pyval \<Rightarrow> pyval \<Rightarrow> pyval \<Rightarrow> profile \<Rightarrow> pyval io" where
  "cluster_config_software_draft_set_hardware_support opts cluster draft_id packages profile =
     vcenter_api_put opts (cluster_config_software_path cluster (PStr (''/drafts/'' @ py_str draft_id @
       ''/software/hardware-support'')))
       packages profile PNone"

definition cluster_config_software_draft_commit ::
  "pyval \<Rightarrow> pyval \<Rightarrow> pyval \<Rightarrow> profile \<Rightarrow> pyval io" where
  "cluster_config_software_draft_commit opts cluster draft_id profile =
     vcenter_api_post opts (cluster_config_software_path cluster (PStr (''/drafts/'' @ py_str draft_id @
       ''/commits'')))
       (PDict []) PNone profile PNone"

definition cluster_config_software_check :: "pyval \<Rightarrow> pyval \<Rightarrow> profile \<Rightarrow> pyval io" where
  "cluster_config_software_check opts cluster profile =
     vcenter_api_post opts (cluster_config_software_path cluster (PStr ''''))
       (PDict []) (PDict [(''action'', PStr ''check'')]) profile PNone"

definition cluster_config_software_stage ::
  "pyval \<Rightarrow> pyval \<Rightarrow> pyval \<Rightarrow> profile \<Rightarrow> pyval io" where
  "cluster_config_software_stage opts cluster hosts profile =
     bindM (liftR (py_iter hosts)) (\<lambda>items.
     let body = (if truthy hosts then PDict [(''hosts'', PList items)] else PDict []) in
     vcenter_api_post opts (cluster_config_software_path cluster (PStr ''''))
       body (PDict [(''action'', PStr ''stage'')]) profile PNone)"

definition cluster_config_software_apply ::
  "pyval \<Rightarrow> pyval \<Rightarrow> pyval \<Rightarrow> profile \<Rightarrow> pyval io" where
  "cluster_config_software_apply opts cluster accept_eula profile =
     (let body = [(''commit_spec'', PDict [(''accept_eula'', PBool (truthy accept_eula))])] in
     vcenter_api_post opts (cluster_config_software_path cluster (PStr ''''))
       (PDict body) (PDict [(''action'', PStr ''apply'')]) profile PNone)"

definition cluster_config_software_scan :: "pyval \<Rightarrow> pyval \<Rightarrow> profile \<Rightarrow> pyval io" where
  "cluster_config_software_scan opts cluster profile =
     vcenter_api_post opts (cluster_config_software_path cluster (PStr ''''))
       (PDict []) (PDict [(''action'', PStr ''scan'')]) profile PNone"

definition cluster_config_software_last_apply_result ::
  "pyval \<Rightarrow> pyval \<Rightarrow> profile \<Rightarrow> pyval io" where
  "cluster_config_software_last_apply_result opts cluster profile =
     none_if_unmanaged (vcenter_api_get opts (cluster_config_software_path cluster (PStr
       ''/reports/last-apply-result''))
       PNone profile PNone)"

definition cluster_config_software_last_check_result ::
  "pyval \<Rightarrow> pyval \<Rightarrow> profile \<Rightarrow> pyval io" where
  "cluster_config_software_last_check_result opts cluster profile =
     none_if_unmanaged (vcenter_api_get opts (cluster_config_software_path cluster (PStr
       ''/reports/last-check-result''))
       PNone profile PNone)"

definition cluster_config_software_last_compliance_result ::
  "pyval \<Rightarrow> pyval \<Rightarrow> profile \<Rightarrow> pyval io" where
  "cluster_config_software_last_compliance_result opts cluster profile =
     none_if_unmanaged (vcenter_api_get opts (cluster_config_software_path cluster (PStr
       ''/reports/last-compliance-result''))
       PNone profile PNone)"

definition cluster_config_software_last_stage_result ::
  "pyval \<Rightarrow> pyval \<Rightarrow> profile \<Rightarrow> pyval io" where
  "cluster_config_software_last_stage_result opts cluster profile =
     none_if_unmanaged (vcenter_api_get opts (cluster_config_software_path cluster (PStr
       ''/reports/last-stage-result''))
       PNone profile PNone)"

end
