(* ===== verification/Vcenter_Inventory.thy ===== *)
theory Vcenter_Inventory
  imports Vcenter Rest_Client Builtins
begin

section \<open>Vcenter_Inventory: vCenter: the inventory\<close>

text \<open>
  The REST calls on datacenters, clusters, hosts, resource pools and virtual machines, and the trees over them.

  One definition per function of the client modules; identifiers and other arguments are
  Python values, keyword arguments (\<open>**spec\<close>) a dict.
\<close>

subsection \<open>\<open>clients/vcenter_datacenter.py\<close>\<close>

definition vcenter_datacenter_PATH :: "string" where
  "vcenter_datacenter_PATH = ''/api/vcenter/datacenter''"

definition vcenter_datacenter_FOLDER_PATH :: "string" where
  "vcenter_datacenter_FOLDER_PATH = ''/api/vcenter/folder''"

definition vcenter_datacenter_list :: "pyval \<Rightarrow> profile \<Rightarrow> pyval io" where
  "vcenter_datacenter_list opts profile = vcenter_api_get opts vcenter_datacenter_PATH PNone profile
    PNone"

definition vcenter_datacenter_get :: "pyval \<Rightarrow> pyval \<Rightarrow> profile \<Rightarrow> pyval io" where
  "vcenter_datacenter_get opts datacenter profile =
     vcenter_api_get opts (vcenter_datacenter_PATH @ ''/'' @ py_str datacenter) PNone profile PNone"

definition vcenter_datacenter_get_or_none :: "pyval \<Rightarrow> pyval \<Rightarrow> profile \<Rightarrow> pyval io" where
  "vcenter_datacenter_get_or_none opts datacenter profile =
     none_if_missing (vcenter_datacenter_get opts datacenter profile)"

definition vcenter_datacenter_get_by_name :: "pyval \<Rightarrow> pyval \<Rightarrow> profile \<Rightarrow> pyval io" where
  "vcenter_datacenter_get_by_name opts name profile =
     bindM (vcenter_api_get opts vcenter_datacenter_PATH (PDict [(''names'', name)]) profile PNone) (\<lambda>results.
     pureM (case results of PList (x # xs) \<Rightarrow> x | _ \<Rightarrow> PNone))"

definition vcenter_datacenter_default_datacenter_folder :: "pyval \<Rightarrow> profile \<Rightarrow> pyval io" where
  "vcenter_datacenter_default_datacenter_folder opts profile =
     bindM (vcenter_api_get opts vcenter_datacenter_FOLDER_PATH
       (PDict [(''type'', PStr ''DATACENTER'')]) profile PNone) (\<lambda>folders.
     case folders of
       PList (x # xs) \<Rightarrow> liftR (py_item x ''folder'')
     | _ \<Rightarrow> raiseM (ValueError (''No DATACENTER-type folder found in vCenter; cannot determine a parent ''
         @ ''folder for datacenter creation. Pass an explicit '' @ repr_str ''folder'' @ '' MoID.'')))"

definition vcenter_datacenter_create :: "pyval \<Rightarrow> pyval \<Rightarrow> pyval \<Rightarrow> profile \<Rightarrow> pyval io" where
  "vcenter_datacenter_create opts name folder profile =
     bindM (if folder = PNone then vcenter_datacenter_default_datacenter_folder opts profile else pureM folder) (\<lambda>folder.
     vcenter_api_post opts vcenter_datacenter_PATH (PDict [(''name'', name), (''folder'', folder)]) PNone profile PNone)"

definition vcenter_datacenter_delete :: "pyval \<Rightarrow> pyval \<Rightarrow> profile \<Rightarrow> pyval io" where
  "vcenter_datacenter_delete opts datacenter profile =
     vcenter_api_delete opts (vcenter_datacenter_PATH @ ''/'' @ py_str datacenter) PNone profile PNone"

subsection \<open>\<open>clients/vcenter_cluster.py\<close>\<close>

definition vcenter_cluster_PATH :: "string" where
  "vcenter_cluster_PATH = ''/api/vcenter/cluster''"

definition vcenter_cluster_list :: "pyval \<Rightarrow> profile \<Rightarrow> pyval io" where
  "vcenter_cluster_list opts profile = vcenter_api_get opts vcenter_cluster_PATH PNone profile PNone"

definition vcenter_cluster_get :: "pyval \<Rightarrow> pyval \<Rightarrow> profile \<Rightarrow> pyval io" where
  "vcenter_cluster_get opts cluster profile =
     vcenter_api_get opts (vcenter_cluster_PATH @ ''/'' @ py_str cluster) PNone profile PNone"

definition vcenter_cluster_get_or_none :: "pyval \<Rightarrow> pyval \<Rightarrow> profile \<Rightarrow> pyval io" where
  "vcenter_cluster_get_or_none opts cluster profile =
     none_if_missing (vcenter_cluster_get opts cluster profile)"

definition vcenter_cluster_create ::
  "pyval \<Rightarrow> pyval \<Rightarrow> pyval \<Rightarrow> profile \<Rightarrow> dict \<Rightarrow> pyval io" where
  "vcenter_cluster_create opts name datacenter profile spec =
     (let body = [(''name'', name)] in
     let body = (if datacenter \<noteq> PNone then dset body ''datacenter'' datacenter else body) in
     let body = dupdate body spec in
     vcenter_api_post opts vcenter_cluster_PATH (PDict body) PNone profile PNone)"

definition vcenter_cluster_delete :: "pyval \<Rightarrow> pyval \<Rightarrow> profile \<Rightarrow> pyval io" where
  "vcenter_cluster_delete opts cluster profile =
     vcenter_api_delete opts (vcenter_cluster_PATH @ ''/'' @ py_str cluster) PNone profile PNone"

subsection \<open>\<open>clients/vcenter_host.py\<close>\<close>

definition vcenter_host_PATH :: "string" where
  "vcenter_host_PATH = ''/api/vcenter/host''"

definition vcenter_host_list :: "pyval \<Rightarrow> profile \<Rightarrow> pyval io" where
  "vcenter_host_list opts profile = vcenter_api_get opts vcenter_host_PATH PNone profile PNone"

definition vcenter_host_get :: "pyval \<Rightarrow> pyval \<Rightarrow> profile \<Rightarrow> pyval io" where
  "vcenter_host_get opts host profile =
     vcenter_api_get opts (vcenter_host_PATH @ ''/'' @ py_str host) PNone profile PNone"

definition vcenter_host_get_or_none :: "pyval \<Rightarrow> pyval \<Rightarrow> profile \<Rightarrow> pyval io" where
  "vcenter_host_get_or_none opts host profile = none_if_missing (vcenter_host_get opts host profile)"

definition vcenter_host_enter_maintenance :: "pyval \<Rightarrow> pyval \<Rightarrow> profile \<Rightarrow> pyval io" where
  "vcenter_host_enter_maintenance opts host profile =
     vcenter_api_post opts (vcenter_host_PATH @ ''/'' @ py_str host)
       PNone (PDict [(''action'', PStr ''enter-maintenance-mode'')]) profile PNone"

definition vcenter_host_exit_maintenance :: "pyval \<Rightarrow> pyval \<Rightarrow> profile \<Rightarrow> pyval io" where
  "vcenter_host_exit_maintenance opts host profile =
     vcenter_api_post opts (vcenter_host_PATH @ ''/'' @ py_str host)
       PNone (PDict [(''action'', PStr ''exit-maintenance-mode'')]) profile PNone"

definition vcenter_host_is_in_maintenance :: "pyval \<Rightarrow> bool res" where
  "vcenter_host_is_in_maintenance host_obj =
     bindR (py_get host_obj ''connection_state'' PNone) (\<lambda>s.
     if py_eq s (PStr ''MAINTENANCE'') then Ok True
     else bindR (py_get host_obj ''in_maintenance_mode'' PNone) (\<lambda>m. Ok (truthy m)))"

subsection \<open>\<open>clients/vcenter_resource_pool.py\<close>\<close>

definition vcenter_resource_pool_PATH :: "string" where
  "vcenter_resource_pool_PATH = ''/api/vcenter/resource-pool''"

definition vcenter_resource_pool_list :: "pyval \<Rightarrow> profile \<Rightarrow> pyval io" where
  "vcenter_resource_pool_list opts profile =
     vcenter_api_get opts vcenter_resource_pool_PATH PNone profile PNone"

definition vcenter_resource_pool_get :: "pyval \<Rightarrow> pyval \<Rightarrow> profile \<Rightarrow> pyval io" where
  "vcenter_resource_pool_get opts rp_id profile =
     vcenter_api_get opts (vcenter_resource_pool_PATH @ ''/'' @ py_str rp_id) PNone profile PNone"

definition vcenter_resource_pool_get_or_none :: "pyval \<Rightarrow> pyval \<Rightarrow> profile \<Rightarrow> pyval io" where
  "vcenter_resource_pool_get_or_none opts rp_id profile =
     none_if_missing (vcenter_resource_pool_get opts rp_id profile)"

definition vcenter_resource_pool_create ::
  "pyval \<Rightarrow> pyval \<Rightarrow> pyval \<Rightarrow> dict \<Rightarrow> pyval io" where
  "vcenter_resource_pool_create opts name parent spec =
     (let body = [(''name'', name), (''parent'', parent)] in
     let body = dupdate body spec in
     vcenter_api_post opts vcenter_resource_pool_PATH (PDict body) PNone None PNone)"

definition vcenter_resource_pool_delete :: "pyval \<Rightarrow> pyval \<Rightarrow> profile \<Rightarrow> pyval io" where
  "vcenter_resource_pool_delete opts rp_id profile =
     vcenter_api_delete opts (vcenter_resource_pool_PATH @ ''/'' @ py_str rp_id) PNone profile PNone"

text \<open>
  The pools are read one by one; then every pool is appended to the children of its parent, or to the
  roots where the parent is not in the result. The code links the dicts themselves, so what is appended
  later shows up in what was linked before: \<open>kids\<close> are the references, \<open>pool_json\<close> follows them. A chain
  of references from a root has at most as many pools as there are.
\<close>

record pool_node =
  pool_name :: pyval
  pool_parent :: pyval

fun pool_nodes :: "pyval \<Rightarrow> profile \<Rightarrow> pyval list \<Rightarrow> pool_node kdict \<Rightarrow> pool_node kdict io" where
  "pool_nodes opts profile [] nodes = pureM nodes"
| "pool_nodes opts profile (p # ps) nodes =
     bindM (liftR (py_item p ''resource_pool'')) (\<lambda>rp_id.
     bindM (vcenter_resource_pool_get opts rp_id profile) (\<lambda>detail.
     bindM (liftR (py_get p ''name'' PNone)) (\<lambda>n.
     bindM (if truthy n then pureM n else liftR (py_get detail ''name'' PNone)) (\<lambda>name.
     bindM (liftR (py_get detail ''parent'' PNone)) (\<lambda>parent.
     bindM (liftR (hashed rp_id)) (\<lambda>rp_id.
     pool_nodes opts profile ps (kset rp_id \<lparr>pool_name = name, pool_parent = parent\<rparr> nodes)))))))"

fun link_pools ::
  "pool_node kdict \<Rightarrow> pool_node kdict \<Rightarrow> pyval list kdict \<Rightarrow> pyval list \<Rightarrow> (pyval list kdict \<times> pyval list) res" where
  "link_pools nodes [] kids roots = Ok (kids, roots)"
| "link_pools nodes ((rp_id, node) # rest) kids roots =
     (if truthy (pool_parent node) then
        bindR (hashed (pool_parent node)) (\<lambda>parent.
        if kget parent nodes \<noteq> None then
          link_pools nodes rest (kupd parent [] (\<lambda>cs. cs @ [rp_id]) kids) roots
        else link_pools nodes rest kids (roots @ [rp_id]))
      else link_pools nodes rest kids (roots @ [rp_id]))"

fun pool_json :: "nat \<Rightarrow> pool_node kdict \<Rightarrow> pyval list kdict \<Rightarrow> pyval \<Rightarrow> pyval" where
  "pool_json 0 nodes kids k = PNone"
| "pool_json (Suc f) nodes kids k =
     (case kget k nodes of
        None \<Rightarrow> PNone
      | Some node \<Rightarrow>
          PDict [(''resource_pool'', k), (''name'', pool_name node), (''parent'', pool_parent node),
            (''children'', PList (map (pool_json f nodes kids) (case kget k kids of Some cs \<Rightarrow> cs | None \<Rightarrow> [])))])"

definition pool_forest :: "pool_node kdict \<Rightarrow> pyval kdict res" where
  "pool_forest nodes =
     bindR (link_pools nodes nodes [] []) (\<lambda>(kids, roots).
     Ok (map (\<lambda>r. (r, pool_json (length nodes) nodes kids r)) roots))"

definition vcenter_resource_pool_tree :: "pyval \<Rightarrow> profile \<Rightarrow> pyval kdict io" where
  "vcenter_resource_pool_tree opts profile =
     bindM (vcenter_resource_pool_list opts profile) (\<lambda>pools.
     bindM (liftR (py_iter pools)) (\<lambda>ps.
     bindM (pool_nodes opts profile ps []) (\<lambda>nodes. liftR (pool_forest nodes))))"

subsection \<open>\<open>clients/vcenter_vm.py\<close>\<close>

definition vcenter_vm_PATH :: "string" where
  "vcenter_vm_PATH = ''/api/vcenter/vm''"

definition vcenter_vm_list :: "pyval \<Rightarrow> profile \<Rightarrow> pyval io" where
  "vcenter_vm_list opts profile = vcenter_api_get opts vcenter_vm_PATH PNone profile PNone"

definition vcenter_vm_get :: "pyval \<Rightarrow> pyval \<Rightarrow> profile \<Rightarrow> pyval io" where
  "vcenter_vm_get opts vm profile =
     vcenter_api_get opts (vcenter_vm_PATH @ ''/'' @ py_str vm) PNone profile PNone"

definition vcenter_vm_get_or_none :: "pyval \<Rightarrow> pyval \<Rightarrow> profile \<Rightarrow> pyval io" where
  "vcenter_vm_get_or_none opts vm profile = none_if_missing (vcenter_vm_get opts vm profile)"

definition vcenter_vm_power :: "pyval \<Rightarrow> pyval \<Rightarrow> pyval \<Rightarrow> profile \<Rightarrow> pyval io" where
  "vcenter_vm_power opts vm action profile =
     vcenter_api_post opts (vcenter_vm_PATH @ ''/'' @ py_str vm @ ''/power'')
       PNone (PDict [(''action'', action)]) profile PNone"

definition vcenter_vm_power_on :: "pyval \<Rightarrow> pyval \<Rightarrow> profile \<Rightarrow> pyval io" where
  "vcenter_vm_power_on opts vm profile = vcenter_vm_power opts vm (PStr ''start'') profile"

definition vcenter_vm_power_off :: "pyval \<Rightarrow> pyval \<Rightarrow> profile \<Rightarrow> pyval io" where
  "vcenter_vm_power_off opts vm profile = vcenter_vm_power opts vm (PStr ''stop'') profile"

definition vcenter_vm_reset :: "pyval \<Rightarrow> pyval \<Rightarrow> profile \<Rightarrow> pyval io" where
  "vcenter_vm_reset opts vm profile = vcenter_vm_power opts vm (PStr ''reset'') profile"

text \<open>
  \<open>socket.create_connection\<close> is the parameter \<open>connect\<close>, from the address, the port and the timeout to
  whether the connection was made; every \<open>OSError\<close> is a failure.
\<close>

definition reach_round ::
  "(pyval \<Rightarrow> pyval \<Rightarrow> int \<Rightarrow> bool io) \<Rightarrow> pyval \<Rightarrow> pyval \<Rightarrow> int \<Rightarrow> int \<Rightarrow> unit \<Rightarrow> (bool + unit) io" where
  "reach_round connect target_ip port interval deadline u =
     bindM (connect target_ip port (min interval 10)) (\<lambda>reached.
     if reached then pureM (Inl True)
     else
       bindM monotonic (\<lambda>t.
       if t \<ge> deadline then pureM (Inl False)
       else bindM (sleep (secs interval)) (\<lambda>_. pureM (Inr ()))))"

definition vcenter_vm_wait_reachable ::
  "(pyval \<Rightarrow> pyval \<Rightarrow> int \<Rightarrow> bool io) \<Rightarrow> pyval \<Rightarrow> pyval \<Rightarrow> int \<Rightarrow> int \<Rightarrow> bool io" where
  "vcenter_vm_wait_reachable connect target_ip port timeout interval =
     bindM monotonic (\<lambda>t. loopM (reach_round connect target_ip port interval (t + secs timeout)) ())"

definition vcenter_vm_FILTER_KEYS :: "string list" where
  "vcenter_vm_FILTER_KEYS =
     [''power_states'', ''names'', ''hosts'', ''clusters'', ''folders'', ''datacenters'', ''resource_pools'', ''vms'']"

fun search_params :: "(string \<times> pyval) list \<Rightarrow> dict res" where
  "search_params [] = Ok []"
| "search_params ((key, v) # rest) =
     (if truthy v then
        bindR (py_iter v) (\<lambda>items. bindR (search_params rest) (\<lambda>params. Ok ((key, PList items) # params)))
      else search_params rest)"

text \<open>\<open>filters\<close> are the values of the keyword arguments, in the order of \<open>_FILTER_KEYS\<close>.\<close>

definition vcenter_vm_search :: "pyval \<Rightarrow> pyval list \<Rightarrow> profile \<Rightarrow> pyval io" where
  "vcenter_vm_search opts filters profile =
     bindM (liftR (search_params (zip vcenter_vm_FILTER_KEYS filters))) (\<lambda>params.
     vcenter_api_get opts vcenter_vm_PATH (if params = [] then PNone else PDict params) profile PNone)"

definition vcenter_vm_get_by_name :: "pyval \<Rightarrow> pyval \<Rightarrow> profile \<Rightarrow> pyval io" where
  "vcenter_vm_get_by_name opts name profile =
     bindM (vcenter_vm_search opts [PNone, PList [name], PNone, PNone, PNone, PNone, PNone, PNone] profile) (\<lambda>matches.
     liftR (bindR (py_iter matches) (find_by ''name'' name)))"

text \<open>The buckets of the tree, from datacenters over clusters to hosts.\<close>

record host_bucket =
  hb_name :: pyval
  hb_vms :: "pyval list"

record cluster_bucket =
  cb_name :: pyval
  cb_hosts :: "host_bucket kdict"

record dc_bucket =
  db_name :: pyval
  db_clusters :: "cluster_bucket kdict"

type_synonym vm_tree = "dc_bucket kdict"

text \<open>\<open>result.setdefault(dc, ...)["clusters"].setdefault(cluster, ...)["hosts"].setdefault(host, ...)\<close>.\<close>

definition in_cluster :: "pyval \<Rightarrow> pyval \<Rightarrow> pyval \<Rightarrow> (cluster_bucket \<Rightarrow> cluster_bucket) \<Rightarrow> vm_tree \<Rightarrow> vm_tree" where
  "in_cluster dc cluster name f =
     kupd dc \<lparr>db_name = PNone, db_clusters = []\<rparr>
       (\<lambda>b. b\<lparr>db_clusters := kupd cluster \<lparr>cb_name = name, cb_hosts = []\<rparr> f (db_clusters b)\<rparr>)"

definition in_host ::
  "pyval \<Rightarrow> pyval \<Rightarrow> pyval \<Rightarrow> pyval \<Rightarrow> (host_bucket \<Rightarrow> host_bucket) \<Rightarrow> vm_tree \<Rightarrow> vm_tree" where
  "in_host dc cluster host name f =
     in_cluster dc cluster PNone
       (\<lambda>c. c\<lparr>cb_hosts := kupd host \<lparr>hb_name = name, hb_vms = []\<rparr> f (cb_hosts c)\<rparr>)"

fun tree_dcs :: "pyval list \<Rightarrow> vm_tree \<Rightarrow> vm_tree res" where
  "tree_dcs [] result = Ok result"
| "tree_dcs (dc # dcs) result =
     bindR (py_get dc ''name'' PNone) (\<lambda>name. bindR (py_item dc ''datacenter'') (\<lambda>i. bindR (hashed i) (\<lambda>i.
     tree_dcs dcs (kset i \<lparr>db_name = name, db_clusters = []\<rparr> result))))"

fun tree_clusters :: "pyval list \<Rightarrow> vm_tree \<Rightarrow> vm_tree res" where
  "tree_clusters [] result = Ok result"
| "tree_clusters (c # cs) result =
     bindR (py_get c ''datacenter'' PNone) (\<lambda>dc. bindR (hashed dc) (\<lambda>dc.
     bindR (py_item c ''cluster'') (\<lambda>i. bindR (py_get c ''name'' PNone) (\<lambda>name. bindR (hashed i) (\<lambda>i.
     tree_clusters cs (in_cluster dc i name (\<lambda>b. b) result))))))"

fun tree_hosts :: "pyval kdict \<Rightarrow> pyval list \<Rightarrow> vm_tree \<Rightarrow> vm_tree res" where
  "tree_hosts cluster_to_dc [] result = Ok result"
| "tree_hosts cluster_to_dc (h # hs) result =
     bindR (py_get h ''cluster'' PNone) (\<lambda>cluster. bindR (kfind cluster cluster_to_dc) (\<lambda>dc. bindR (hashed dc) (\<lambda>dc.
     bindR (py_item h ''host'') (\<lambda>i. bindR (py_get h ''name'' PNone) (\<lambda>name. bindR (hashed i) (\<lambda>i.
     tree_hosts cluster_to_dc hs (in_host dc cluster i name (\<lambda>b. b) result)))))))"

fun tree_vms :: "pyval kdict \<Rightarrow> pyval kdict \<Rightarrow> pyval list \<Rightarrow> vm_tree \<Rightarrow> vm_tree res" where
  "tree_vms host_to_cluster cluster_to_dc [] result = Ok result"
| "tree_vms host_to_cluster cluster_to_dc (v # vs) result =
     bindR (py_get v ''host'' PNone) (\<lambda>host. bindR (kfind host host_to_cluster) (\<lambda>cluster.
     bindR (kfind cluster cluster_to_dc) (\<lambda>dc. bindR (hashed dc) (\<lambda>dc.
     tree_vms host_to_cluster cluster_to_dc vs
       (in_host dc cluster (py_or host (PStr ''__unbound__'')) PNone (\<lambda>b. b\<lparr>hb_vms := hb_vms b @ [v]\<rparr>) result)))))"

definition vm_tree_of :: "pyval \<Rightarrow> pyval \<Rightarrow> pyval \<Rightarrow> pyval \<Rightarrow> vm_tree res" where
  "vm_tree_of datacenters clusters hosts vms =
     bindR (bindR (py_iter hosts) (\<lambda>hs. index_by ''host'' ''cluster'' hs [])) (\<lambda>host_to_cluster.
     bindR (bindR (py_iter clusters) (\<lambda>cs. index_by ''cluster'' ''datacenter'' cs [])) (\<lambda>cluster_to_dc.
     bindR (bindR (py_iter datacenters) (\<lambda>dcs. tree_dcs dcs [])) (\<lambda>result.
     bindR (bindR (py_iter clusters) (\<lambda>cs. tree_clusters cs result)) (\<lambda>result.
     bindR (bindR (py_iter hosts) (\<lambda>hs. tree_hosts cluster_to_dc hs result)) (\<lambda>result.
     bindR (py_iter vms) (\<lambda>vs. tree_vms host_to_cluster cluster_to_dc vs result))))))"

definition vcenter_vm_tree :: "pyval \<Rightarrow> profile \<Rightarrow> vm_tree io" where
  "vcenter_vm_tree opts profile =
     bindM (vcenter_datacenter_list opts profile) (\<lambda>datacenters.
     bindM (vcenter_cluster_list opts profile) (\<lambda>clusters.
     bindM (vcenter_host_list opts profile) (\<lambda>hosts.
     bindM (vcenter_vm_list opts profile) (\<lambda>vms.
     liftR (vm_tree_of datacenters clusters hosts vms)))))"

record vm_counts =
  vc_total :: int
  vc_power :: "int kdict"
  vc_cpu :: "int kdict"
  vc_memory :: int

definition count_vm :: "pyval \<Rightarrow> vm_counts \<Rightarrow> vm_counts res" where
  "count_vm v s =
     bindR (py_get v ''power_state'' (PStr ''UNKNOWN'')) (\<lambda>ps. bindR (hashed ps) (\<lambda>ps.
     bindR (py_get v ''cpu_count'' PNone) (\<lambda>cpu.
     bindR (if cpu \<noteq> PNone then hashed cpu else Ok cpu) (\<lambda>cpu.
     bindR (py_get v ''memory_size_MiB'' PNone) (\<lambda>mem.
     Ok \<lparr>vc_total = vc_total s + 1, vc_power = kupd ps 0 (\<lambda>n. n + 1) (vc_power s),
       vc_cpu = (if cpu \<noteq> PNone then kupd cpu 0 (\<lambda>n. n + 1) (vc_cpu s) else vc_cpu s),
       vc_memory = (case py_num mem of Some n \<Rightarrow> vc_memory s + n | None \<Rightarrow> vc_memory s)\<rparr>)))))"

fun count_vms :: "pyval list \<Rightarrow> vm_counts \<Rightarrow> vm_counts res" where
  "count_vms [] s = Ok s"
| "count_vms (v # vs) s = bindR (count_vm v s) (count_vms vs)"

definition vcenter_vm_summary :: "pyval \<Rightarrow> profile \<Rightarrow> vm_counts io" where
  "vcenter_vm_summary opts profile =
     bindM (vcenter_vm_list opts profile) (\<lambda>vms.
     liftR (bindR (py_iter vms) (\<lambda>vs. count_vms vs \<lparr>vc_total = 0, vc_power = [], vc_cpu = [], vc_memory = 0\<rparr>)))"

end
