(* ===== verification/Inventory_Trees.thy ===== *)
theory Inventory_Trees
  imports Vcenter_Inventory
begin

section \<open>Inventory_Trees: what the trees over the inventory hold\<close>

text \<open>
  The tree of resource pools is a forest, the tree of machines a partition.
\<close>

subsection \<open>The trees over the inventory\<close>

text \<open>
  What \<open>vcenter_resource_pool.tree\<close> and \<open>vcenter_vm.tree\<close> build. The locale \<open>forest\<close> is the theory of
  a parent function on finitely many names: its trees, their names, and the depth they have.
\<close>

subsubsection \<open>Forests of a parent function\<close>

datatype 'a tree_of = Node (top: 'a) (subtrees: "'a tree_of list")

primrec names_in :: "'a tree_of \<Rightarrow> 'a list" where
  "names_in (Node i ts) = i # concat (map names_in ts)"

text \<open>Every edge of the tree is one of the parent function.\<close>

primrec follows :: "('a \<Rightarrow> 'a option) \<Rightarrow> 'a tree_of \<Rightarrow> bool" where
  "follows up (Node i ts) = ((\<forall>t \<in> set ts. up (top t) = Some i) \<and> (\<forall>t \<in> set (map (follows up) ts). t))"

locale forest =
  fixes ids :: "'a list" and up :: "'a \<Rightarrow> 'a option"
  assumes distinct_ids: "distinct ids"
    and up_ids: "up i = Some j \<Longrightarrow> i \<in> set ids \<and> j \<in> set ids"
begin

fun climb :: "nat \<Rightarrow> 'a \<Rightarrow> 'a option" where
  "climb 0 i = Some i"
| "climb (Suc m) i = (case up i of None \<Rightarrow> None | Some j \<Rightarrow> climb m j)"

definition level :: "nat \<Rightarrow> 'a \<Rightarrow> bool" where
  "level n i \<longleftrightarrow> i \<in> set ids \<and> (\<exists>r. climb n i = Some r \<and> up r = None)"

definition below :: "'a \<Rightarrow> 'a list" where
  "below i = filter (\<lambda>j. up j = Some i) ids"

definition tops :: "'a list" where
  "tops = filter (\<lambda>j. up j = None) ids"

fun grow :: "nat \<Rightarrow> 'a \<Rightarrow> 'a tree_of" where
  "grow 0 i = Node i []"
| "grow (Suc f) i = Node i (map (grow f) (below i))"

lemma climb_add: "climb (m + n) i = (case climb m i of None \<Rightarrow> None | Some j \<Rightarrow> climb n j)"
  by (induction m i rule: climb.induct) (auto split: option.splits)

lemma climb_ids: "climb m i = Some j \<Longrightarrow> i \<in> set ids \<Longrightarrow> j \<in> set ids"
  by (induction m i rule: climb.induct) (auto split: option.splits dest: up_ids)

lemma climb_level:
  assumes "climb a k = Some x" "level n x"
  shows "level (a + n) k"
proof -
  from assms have "k \<in> set ids"
    by (cases a) (auto simp: level_def split: option.splits dest: up_ids)
  with assms climb_add [of a n k] show ?thesis by (auto simp: level_def)
qed

lemma level_unique:
  assumes "level n i" "level m i"
  shows "n = m"
proof -
  have False if less: "a < b" and "level a i" "level b i" for a b
  proof -
    from \<open>level a i\<close> obtain r where r: "climb a i = Some r" "up r = None" by (auto simp: level_def)
    from less obtain c where "b = a + Suc c" using less_iff_Suc_add by auto
    with r have "climb b i = None" by (simp add: climb_add del: add_Suc_right)
    with \<open>level b i\<close> show False by (auto simp: level_def)
  qed
  with assms show ?thesis by (metis linorder_neqE_nat)
qed

lemma level_climb: "level n i \<Longrightarrow> climb m i = Some j \<Longrightarrow> \<exists>k. n = m + k \<and> level k j"
proof (induction m arbitrary: n i)
  case (Suc m)
  then obtain i' where i': "up i = Some i'" "climb m i' = Some j" by (auto split: option.splits)
  with Suc.prems(1) obtain n' where "n = Suc n'" "level n' i'"
    by (cases n) (auto simp: level_def dest: up_ids)
  with Suc.IH [OF _ i'(2)] show ?case by fastforce
qed auto

text \<open>A chain of parents that comes to an end has fewer steps than there are names.\<close>

lemma level_bound:
  assumes "level n i"
  shows "n < length ids"
proof -
  have i: "i \<in> set ids" using assms by (simp add: level_def)
  have some: "climb k i \<noteq> None" if "k \<le> n" for k
  proof
    assume "climb k i = None"
    moreover from that obtain d where "n = k + d" using le_Suc_ex by blast
    ultimately have "climb n i = None" by (simp add: climb_add)
    with assms show False by (auto simp: level_def)
  qed
  have "inj_on (\<lambda>k. climb k i) {..n}"
  proof (rule inj_onI)
    fix a b assume "a \<in> {..n}" "b \<in> {..n}" and eq: "climb a i = climb b i"
    with some obtain x where x: "climb a i = Some x" "climb b i = Some x" by fastforce
    obtain c d where "n = a + c" "level c x" "n = b + d" "level d x"
      using level_climb [OF assms x(1)] level_climb [OF assms x(2)] by blast
    with level_unique [of c x d] show "a = b" by simp
  qed
  moreover have "(\<lambda>k. climb k i) ` {..n} \<subseteq> Some ` set ids"
    using some climb_ids [OF _ i] by fastforce
  ultimately have "card {..n} \<le> card (Some ` set ids)"
    by (meson card_inj_on_le finite_imageI finite_set)
  also have "\<dots> \<le> length ids" using card_image_le card_length le_trans by blast
  finally show ?thesis by simp
qed

lemma below_level: "j \<in> set (below i) \<Longrightarrow> level n i \<Longrightarrow> level (Suc n) j"
  by (auto simp: below_def level_def)

text \<open>With enough fuel a tree has exactly the names whose chain of parents meets its top, once each.\<close>

lemma grow_names:
  assumes "level n i" "length ids \<le> f + n"
  shows "set (names_in (grow f i)) = {k. \<exists>m. climb m k = Some i} \<and> distinct (names_in (grow f i)) \<and> follows up (grow f i)"
  using assms
proof (induction f arbitrary: n i)
  case 0
  with level_bound [of n i] show ?case by simp
next
  case (Suc f)
  have IH: "set (names_in (grow f j)) = {k. \<exists>m. climb m k = Some j}" "distinct (names_in (grow f j))" "follows up (grow f j)"
    if "j \<in> set (below i)" for j
    using Suc.IH [OF below_level [OF that Suc.prems(1)]] Suc.prems(2) by auto
  have step: "(\<exists>m. climb m k = Some i) \<longleftrightarrow> k = i \<or> (\<exists>j \<in> set (below i). \<exists>m. climb m k = Some j)" for k
  proof
    assume "\<exists>m. climb m k = Some i"
    then obtain m where m: "climb m k = Some i" by blast
    show "k = i \<or> (\<exists>j \<in> set (below i). \<exists>m. climb m k = Some j)"
    proof (cases m)
      case (Suc m')
      with m climb_add [of m' 1 k] obtain j where "climb m' k = Some j" "up j = Some i"
        by (auto split: option.splits)
      then show ?thesis by (auto simp: below_def dest: up_ids)
    qed (use m in auto)
  next
    assume "k = i \<or> (\<exists>j \<in> set (below i). \<exists>m. climb m k = Some j)"
    then show "\<exists>m. climb m k = Some i"
    proof
      assume "\<exists>j \<in> set (below i). \<exists>m. climb m k = Some j"
      then obtain j m where "up j = Some i" "climb m k = Some j" by (auto simp: below_def)
      with climb_add [of m 1 k] have "climb (m + 1) k = Some i" by simp
      then show ?thesis by blast
    qed (auto intro: exI [of _ 0])
  qed
  have tops: "top (grow f j) = j" for j by (cases f) auto
  have apart: "set (names_in (grow f j)) \<inter> set (names_in (grow f j')) = {}"
    if "j \<in> set (below i)" "j' \<in> set (below i)" "j \<noteq> j'" for j j'
  proof -
    have False if k: "climb m k = Some j" "climb m' k = Some j'" for k m m'
    proof -
      have lev: "level (Suc n) j" "level (Suc n) j'"
        using that \<open>j \<in> set (below i)\<close> \<open>j' \<in> set (below i)\<close> Suc.prems(1) by (blast intro: below_level)+
      from climb_level [OF k(1) lev(1)] climb_level [OF k(2) lev(2)] have "m = m'" using level_unique by fastforce
      with k \<open>j \<noteq> j'\<close> show False by simp
    qed
    then show ?thesis using IH(1) that by blast
  qed
  have top_out: "i \<notin> set (names_in (grow f j))" if "j \<in> set (below i)" for j
  proof
    assume "i \<in> set (names_in (grow f j))"
    with IH(1) [OF that] obtain m where "climb m i = Some j" by blast
    with level_climb [OF Suc.prems(1)] level_unique [OF below_level [OF that Suc.prems(1)]] show False by fastforce
  qed
  have dist: "distinct (concat (map (\<lambda>j. names_in (grow f j)) js))" if "set js \<subseteq> set (below i)" "distinct js" for js
    using that
  proof (induction js)
    case (Cons j js)
    then have "set (names_in (grow f j)) \<inter> set (names_in (grow f j')) = {}" if "j' \<in> set js" for j'
      using that by (intro apart) auto
    with Cons IH(2) [of j] show ?case by auto
  qed simp
  have "distinct (below i)" using distinct_ids by (simp add: below_def)
  then have "distinct (names_in (grow (Suc f) i))" using dist [of "below i"] top_out by (auto simp: comp_def)
  moreover have "set (names_in (grow (Suc f) i)) = {k. \<exists>m. climb m k = Some i}"
    using step IH(1) by (auto simp: comp_def)
  moreover have "follows up (grow (Suc f) i)" using IH(3) tops by (auto simp: below_def)
  ultimately show ?case by blast
qed

text \<open>The whole forest.\<close>

lemma grow_forest:
  "set (concat (map (names_in \<circ> grow (length ids)) tops)) = {k \<in> set ids. \<exists>n. level n k} \<and>
   distinct (concat (map (names_in \<circ> grow (length ids)) tops)) \<and> (\<forall>t \<in> grow (length ids) ` set tops. follows up t)"
proof -
  have top0: "level 0 r" if "r \<in> set tops" for r using that by (auto simp: tops_def level_def)
  have tree: "set (names_in (grow (length ids) r)) = {k. \<exists>m. climb m k = Some r}" "distinct (names_in (grow (length ids) r))"
    "follows up (grow (length ids) r)" if "r \<in> set tops" for r
    using grow_names [OF top0 [OF that], of "length ids"] by simp_all
  have reach: "k \<in> set ids \<and> level m k" if "r \<in> set tops" "climb m k = Some r" for k m r
  proof (cases m)
    case 0
    with that top0 show ?thesis by (auto simp: tops_def)
  next
    case (Suc m')
    with that(2) have "k \<in> set ids" by (auto split: option.splits dest: up_ids)
    with that show ?thesis by (auto simp: level_def tops_def)
  qed
  have "set (concat (map (names_in \<circ> grow (length ids)) tops)) = {k \<in> set ids. \<exists>n. level n k}"
  proof (rule equalityI; rule subsetI)
    fix k assume "k \<in> {k \<in> set ids. \<exists>n. level n k}"
    then obtain n r where "climb n k = Some r" "up r = None" "k \<in> set ids" by (auto simp: level_def)
    with climb_ids [of n k r] have "r \<in> set tops" "climb n k = Some r" by (auto simp: tops_def)
    with tree(1) show "k \<in> set (concat (map (names_in \<circ> grow (length ids)) tops))" by fastforce
  qed (use tree(1) reach in fastforce)
  moreover have "distinct (concat (map (names_in \<circ> grow (length ids)) rs))" if "set rs \<subseteq> set tops" "distinct rs" for rs
    using that
  proof (induction rs)
    case (Cons r rs)
    have "set (names_in (grow (length ids) r)) \<inter> set (names_in (grow (length ids) r')) = {}" if "r' \<in> set rs" for r'
    proof -
      have r': "r' \<in> set tops" "r \<in> set tops" "r \<noteq> r'" using that Cons.prems by auto
      have False if "climb m k = Some r" "climb m' k = Some r'" for k m m'
        using that reach [OF r'(2) that(1)] reach [OF r'(1) that(2)] r'(3) level_unique [of m k m'] by auto
      then show ?thesis using tree(1) r' by blast
    qed
    with Cons tree(2) [of r] show ?case by auto
  qed simp
  moreover have "distinct tops" using distinct_ids by (simp add: tops_def)
  ultimately show ?thesis using tree(3) by blast
qed

end

subsubsection \<open>Resource pools\<close>

text \<open>The pools of a vCenter have distinct names; a parent that is not a string is no pool.\<close>

definition pool_ids :: "pool_node kdict \<Rightarrow> string list" where
  "pool_ids nodes = remdups (map (py_str \<circ> fst) nodes)"

definition pool_up :: "pool_node kdict \<Rightarrow> string \<Rightarrow> string option" where
  "pool_up nodes i =
     (case kget (PStr i) nodes of
        Some node \<Rightarrow>
          (case pool_parent node of
             PStr j \<Rightarrow> if i \<in> set (pool_ids nodes) \<and> j \<noteq> [] \<and> j \<in> set (pool_ids nodes) then Some j else None
           | _ \<Rightarrow> None)
      | None \<Rightarrow> None)"

interpretation pools: forest "pool_ids nodes" "pool_up nodes" for nodes
  by unfold_locales (auto simp: pool_ids_def pool_up_def split: option.splits pyval.splits if_splits)

primrec as_json :: "pool_node kdict \<Rightarrow> string tree_of \<Rightarrow> pyval" where
  "as_json nodes (Node i ts) =
     PDict [(''resource_pool'', PStr i),
       (''name'', case kget (PStr i) nodes of Some node \<Rightarrow> pool_name node | None \<Rightarrow> PNone),
       (''parent'', case kget (PStr i) nodes of Some node \<Rightarrow> pool_parent node | None \<Rightarrow> PNone),
       (''children'', PList (map (as_json nodes) ts))]"

definition tidy_pools :: "pool_node kdict \<Rightarrow> bool" where
  "tidy_pools nodes \<longleftrightarrow> distinct (map fst nodes) \<and> (\<forall>(k, node) \<in> set nodes. is_str k \<and> \<not> is_list (pool_parent node) \<and>
     \<not> is_dict (pool_parent node))"

lemma kget_PStr: "distinct (map fst d) \<Longrightarrow> (PStr i, x) \<in> set d \<Longrightarrow> kget (PStr i) d = Some x"
  by (induction d) (auto simp: image_iff)

lemma kget_str_member: "kget (PStr i) d \<noteq> None \<longleftrightarrow> PStr i \<in> set (map fst d)"
  by (induction d) auto

lemma kget_other: "\<forall>k \<in> set (map fst d). is_str k \<Longrightarrow> \<not> is_str v \<Longrightarrow> kget v d = None"
proof (induction d)
  case (Cons a d)
  then obtain s x where "a = (PStr s, x)" by (cases a; cases "fst a") auto
  with Cons show ?case by (cases v) auto
qed simp

lemma tidy_ids: "tidy_pools nodes \<Longrightarrow> map PStr (pool_ids nodes) = map fst nodes"
proof -
  assume tidy: "tidy_pools nodes"
  have str: "map PStr (map (py_str \<circ> fst) ns) = map fst ns" if "\<forall>(k, node) \<in> set ns. is_str k" for ns :: "pool_node kdict"
    using that by (induction ns) (auto elim: is_str.elims)
  have "map PStr (map (py_str \<circ> fst) nodes) = map fst nodes" using tidy by (intro str) (auto simp: tidy_pools_def)
  moreover from this tidy have "distinct (map (py_str \<circ> fst) nodes)"
    by (metis distinct_map tidy_pools_def)
  ultimately show ?thesis by (simp add: pool_ids_def distinct_remdups_id)
qed

text \<open>The links are the children and the roots of the forest.\<close>

definition kid_list :: "pyval list kdict \<Rightarrow> pyval \<Rightarrow> pyval list" where
  "kid_list kids k = (case kget k kids of Some cs \<Rightarrow> cs | None \<Rightarrow> [])"

lemma kid_list_kupd:
  "kid_list (kupd (PStr p) [] (\<lambda>cs. cs @ [c]) kids) (PStr q) = kid_list kids (PStr q) @ (if p = q then [c] else [])"
  by (induction kids) (auto simp: kid_list_def)

lemma pool_up_cases:
  assumes "tidy_pools nodes" "(PStr i, node) \<in> set nodes"
  shows "(\<exists>p. pool_parent node = PStr p \<and> truthy (PStr p) \<and> kget (PStr p) nodes \<noteq> None \<and> pool_up nodes i = Some p) \<or>
    (pool_up nodes i = None \<and> (truthy (pool_parent node) \<longrightarrow> kget (pool_parent node) nodes = None))"
proof -
  have node: "kget (PStr i) nodes = Some node"
    using assms by (intro kget_PStr) (auto simp: tidy_pools_def)
  have ids: "j \<in> set (pool_ids nodes) \<longleftrightarrow> kget (PStr j) nodes \<noteq> None" for j
    unfolding kget_str_member tidy_ids [OF assms(1), symmetric] by auto
  have strs: "\<forall>k \<in> set (map fst nodes). is_str k" using assms(1) by (auto simp: tidy_pools_def)
  have here: "i \<in> set (pool_ids nodes)" using node ids by simp
  show ?thesis
  proof (cases "pool_parent node")
    case (PStr p)
    then show ?thesis using node here ids [of p] by (auto simp: pool_up_def)
  qed (use node kget_other [OF strs] in \<open>auto simp: pool_up_def\<close>)
qed

lemma link_pools_run:
  assumes tidy: "tidy_pools nodes" and sub: "set ns \<subseteq> set nodes"
  shows "\<exists>kids'. link_pools nodes ns kids roots = Ok (kids', roots @ map fst (filter (\<lambda>(k, _). pool_up nodes (py_str k) = None) ns)) \<and>
    (\<forall>p. kid_list kids' (PStr p) = kid_list kids (PStr p) @ map fst (filter (\<lambda>(k, _). pool_up nodes (py_str k) = Some p) ns))"
  using sub
proof (induction ns arbitrary: kids roots)
  case (Cons a ns)
  obtain k node where a: "a = (k, node)" by (cases a)
  with Cons.prems tidy obtain i where k: "k = PStr i" by (cases k) (auto simp: tidy_pools_def)
  have mem: "(PStr i, node) \<in> set nodes" using Cons.prems a k by auto
  have flat: "hashed (pool_parent node) = Ok (pool_parent node)"
    using tidy mem by (auto simp: tidy_pools_def hashed_def)
  from pool_up_cases [OF tidy mem] show ?case
  proof
    assume "\<exists>p. pool_parent node = PStr p \<and> truthy (PStr p) \<and> kget (PStr p) nodes \<noteq> None \<and> pool_up nodes i = Some p"
    then obtain p where p: "pool_parent node = PStr p" "truthy (PStr p)" "kget (PStr p) nodes \<noteq> None" "pool_up nodes i = Some p"
      by blast
    with Cons.IH [of "kupd (PStr p) [] (\<lambda>cs. cs @ [PStr i]) kids" roots] Cons.prems flat show ?thesis
      by (auto simp: a k kid_list_kupd simp del: truthy.simps)
  next
    assume "pool_up nodes i = None \<and> (truthy (pool_parent node) \<longrightarrow> kget (pool_parent node) nodes = None)"
    with Cons.IH [of kids "roots @ [PStr i]"] Cons.prems flat show ?thesis by (auto simp: a k)
  qed
qed simp

lemma map_fst_filter: "map fst (filter (\<lambda>(k, _). Q k) ns) = filter Q (map fst ns)"
  by (induction ns) auto

lemma tidy_filter:
  "tidy_pools nodes \<Longrightarrow> map fst (filter (\<lambda>(k, _). Q (py_str k)) nodes) = map PStr (filter Q (pool_ids nodes))"
  unfolding map_fst_filter by (simp add: tidy_ids [symmetric] filter_map comp_def)

lemma tidy_length: "tidy_pools nodes \<Longrightarrow> length (pool_ids nodes) = length nodes"
  using tidy_ids [of nodes] by (metis length_map)

lemma tidy_links:
  assumes "tidy_pools nodes"
  obtains kids where "link_pools nodes nodes [] [] = Ok (kids, map PStr (pools.tops nodes))"
    "\<And>p. kid_list kids (PStr p) = map PStr (pools.below nodes p)"
  using link_pools_run [OF assms subset_refl, of "[]" "[]"] that
  by (auto simp: pools.tops_def pools.below_def tidy_filter [OF assms, of "\<lambda>j. pool_up nodes j = v" for v] kid_list_def
      tidy_filter [OF assms, of "\<lambda>j. pool_up nodes j = None"])

lemma top_grow [simp]: "top (pools.grow nodes f i) = i"
  by (cases f) auto

text \<open>Following the references of a pool that hangs on a root gives its tree.\<close>

lemma pool_json_tree:
  assumes tidy: "tidy_pools nodes" and kids: "\<And>p. kid_list kids (PStr p) = map PStr (pools.below nodes p)"
    and "pools.level nodes n i" "length nodes \<le> f + n"
  shows "pool_json f nodes kids (PStr i) = as_json nodes (pools.grow nodes f i)"
  using assms(3,4)
proof (induction f arbitrary: n i)
  case 0
  with pools.level_bound [of nodes n i] tidy_length [OF tidy] show ?case by simp
next
  case (Suc f)
  have "PStr i \<in> set (map fst nodes)"
    using Suc.prems(1) unfolding tidy_ids [OF tidy, symmetric] by (auto simp: pools.level_def)
  then obtain node where "kget (PStr i) nodes = Some node"
    unfolding kget_str_member [symmetric] by auto
  moreover have "pool_json f nodes kids (PStr j) = as_json nodes (pools.grow nodes f j)" if "j \<in> set (pools.below nodes i)" for j
    using Suc.IH [OF pools.below_level [OF that Suc.prems(1)]] Suc.prems(2) by simp
  ultimately show ?case using kids [of i] by (simp add: kid_list_def)
qed

text \<open>The pools whose chain of parents ends at a root; those on a cycle, or hanging on one, do not.\<close>

definition hangs_on_root :: "pool_node kdict \<Rightarrow> string \<Rightarrow> bool" where
  "hangs_on_root nodes i \<longleftrightarrow> (\<exists>n. pools.level nodes n i)"

lemma pool_forest_trees:
  assumes tidy: "tidy_pools nodes"
  shows "\<exists>ts. pool_forest nodes = Ok (map (\<lambda>t. (PStr (top t), as_json nodes t)) ts) \<and>
    distinct (concat (map names_in ts)) \<and>
    set (concat (map names_in ts)) = {i \<in> set (pool_ids nodes). hangs_on_root nodes i} \<and>
    (\<forall>t \<in> set ts. follows (pool_up nodes) t \<and> pool_up nodes (top t) = None)"
proof -
  let ?ts = "map (pools.grow nodes (length nodes)) (pools.tops nodes)"
  obtain kids where links: "link_pools nodes nodes [] [] = Ok (kids, map PStr (pools.tops nodes))"
    "\<And>p. kid_list kids (PStr p) = map PStr (pools.below nodes p)"
    by (rule tidy_links [OF tidy]) (erule that, assumption)
  have "pools.level nodes 0 r" if "r \<in> set (pools.tops nodes)" for r
    using that by (auto simp: pools.tops_def pools.level_def)
  then have "pool_json (length nodes) nodes kids (PStr r) = as_json nodes (pools.grow nodes (length nodes) r)"
    if "r \<in> set (pools.tops nodes)" for r
    using pool_json_tree [OF tidy links(2), where n = 0] that by simp
  then have "pool_forest nodes = Ok (map (\<lambda>t. (PStr (top t), as_json nodes t)) ?ts)"
    using links(1) by (simp add: pool_forest_def comp_def)
  moreover have "distinct (concat (map names_in ?ts)) \<and>
      set (concat (map names_in ?ts)) = {i \<in> set (pool_ids nodes). hangs_on_root nodes i} \<and>
      (\<forall>t \<in> set ?ts. follows (pool_up nodes) t)"
    using pools.grow_forest [of nodes] unfolding tidy_length [OF tidy] map_map hangs_on_root_def by simp
  moreover have "\<forall>t \<in> set ?ts. pool_up nodes (top t) = None" by (auto simp: pools.tops_def)
  ultimately show ?thesis by blast
qed

text \<open>C20: The tree of resource pools is a forest over exactly the pools whose chain of parents comes to an
  end: each of them stands in it once, below its parent; the top-level pools are those whose parent is not
  in the result; pools that are on a cycle of parents, or below one, are left out. The walk over the shared
  references ends, at a depth of at most the number of pools.\<close>

theorem resource_pool_tree_forest:
  assumes listing: "vcenter_resource_pool_list opts p w = Some (Ok (PList ps), w1)"
    and details: "pool_nodes opts p ps [] w1 = Some (Ok nodes, w2)" and tidy: "tidy_pools nodes"
  shows "\<exists>ts. vcenter_resource_pool_tree opts p w = Some (Ok (map (\<lambda>t. (PStr (top t), as_json nodes t)) ts), w2) \<and>
    distinct (concat (map names_in ts)) \<and>
    set (concat (map names_in ts)) = {i \<in> set (pool_ids nodes). hangs_on_root nodes i} \<and>
    (\<forall>t \<in> set ts. follows (pool_up nodes) t \<and> pool_up nodes (top t) = None)"
  using pool_forest_trees [OF tidy] listing details by (auto simp: vcenter_resource_pool_tree_def)

text \<open>A vCenter with a root, a pool below it and one that is its own parent.\<close>

definition pool_detail :: "string \<Rightarrow> string \<Rightarrow> net_reply" where
  "pool_detail name parent = replies (json_response 200 (PDict [(''name'', PStr name), (''parent'', PStr parent)]))"

definition pool_world :: world where
  "pool_world = scripted [login_reply,
     replies (json_response 200 (PList [PDict [(''resource_pool'', PStr ''a'')], PDict [(''resource_pool'', PStr ''b'')],
       PDict [(''resource_pool'', PStr ''c'')]])),
     pool_detail ''A'' ''gone'', pool_detail ''B'' ''a'', pool_detail ''C'' ''c'']"

lemma resource_pool_tree_forest_witness:
  "let nodes = [(PStr ''a'', \<lparr>pool_name = PStr ''A'', pool_parent = PStr ''gone''\<rparr>),
         (PStr ''b'', \<lparr>pool_name = PStr ''B'', pool_parent = PStr ''a''\<rparr>),
         (PStr ''c'', \<lparr>pool_name = PStr ''C'', pool_parent = PStr ''c''\<rparr>)]
   in \<exists>ts w. vcenter_resource_pool_tree (opts_for ''vcenter'') None pool_world =
       Some (Ok (map (\<lambda>t. (PStr (top t), as_json nodes t)) ts), w) \<and>
     set (concat (map names_in ts)) = {i \<in> {''a'', ''b'', ''c''}. hangs_on_root nodes i}"
proof -
  let ?nodes = "[(PStr ''a'', \<lparr>pool_name = PStr ''A'', pool_parent = PStr ''gone''\<rparr>),
    (PStr ''b'', \<lparr>pool_name = PStr ''B'', pool_parent = PStr ''a''\<rparr>),
    (PStr ''c'', \<lparr>pool_name = PStr ''C'', pool_parent = PStr ''c''\<rparr>)]"
  let ?ps = "map (\<lambda>i. PDict [(''resource_pool'', PStr i)]) [''a'', ''b'', ''c'']"
  let ?w1 = "snd (the (vcenter_resource_pool_list (opts_for ''vcenter'') None pool_world))"
  have listing: "map_option fst (vcenter_resource_pool_list (opts_for ''vcenter'') None pool_world) = Some (Ok (PList ?ps))"
    by code_simp
  have details: "map_option fst (pool_nodes (opts_for ''vcenter'') None ?ps [] ?w1) = Some (Ok ?nodes)"
    by code_simp
  have tidy: "tidy_pools ?nodes" by (simp add: tidy_pools_def)
  have "set (pool_ids ?nodes) = {''a'', ''b'', ''c''}" by (simp add: pool_ids_def)
  with resource_pool_tree_forest [OF run_result [OF listing] run_result [OF details] tidy] show ?thesis
    unfolding Let_def by auto
qed

subsection \<open>The tree and the counts over the virtual machines\<close>

text \<open>
  \<open>vcenter_vm.tree\<close> and \<open>vcenter_vm.summary\<close> account for every virtual machine of the listing: the tree
  has each of them in the bucket of its own host, cluster and datacenter, and the counts add up.
\<close>

subsubsection \<open>What the buckets hold\<close>

definition cluster_vms :: "cluster_bucket \<Rightarrow> pyval multiset" where
  "cluster_vms c = sum_list (map ((\<lambda>h. mset (hb_vms h)) \<circ> snd) (cb_hosts c))"

definition dc_vms :: "dc_bucket \<Rightarrow> pyval multiset" where
  "dc_vms b = sum_list (map (cluster_vms \<circ> snd) (db_clusters b))"

definition all_vms :: "vm_tree \<Rightarrow> pyval multiset" where
  "all_vms t = sum_list (map (dc_vms \<circ> snd) t)"

lemma empty_buckets [simp]:
  "cluster_vms \<lparr>cb_name = n, cb_hosts = []\<rparr> = {#}" "dc_vms \<lparr>db_name = n, db_clusters = []\<rparr> = {#}" "all_vms [] = {#}"
  by (simp_all add: cluster_vms_def dc_vms_def all_vms_def)

lemma in_cluster_vms:
  assumes "\<And>c. cluster_vms (f c) = cluster_vms c + M"
  shows "all_vms (in_cluster dc cluster name f t) = all_vms t + M"
proof -
  have "dc_vms (b\<lparr>db_clusters := kupd cluster \<lparr>cb_name = name, cb_hosts = []\<rparr> f (db_clusters b)\<rparr>) = dc_vms b + M" for b
    using kupd_measure [of cluster_vms f M] assms by (simp add: dc_vms_def)
  then show ?thesis unfolding all_vms_def in_cluster_def by (intro kupd_measure) simp_all
qed

lemma in_host_vms:
  assumes "\<And>h. mset (hb_vms (f h)) = mset (hb_vms h) + M"
  shows "all_vms (in_host dc cluster host name f t) = all_vms t + M"
proof -
  have "cluster_vms (c\<lparr>cb_hosts := kupd host \<lparr>hb_name = name, hb_vms = []\<rparr> f (cb_hosts c)\<rparr>) = cluster_vms c + M" for c
    using kupd_measure [of "\<lambda>h. mset (hb_vms h)" f M] assms by (simp add: cluster_vms_def)
  then show ?thesis unfolding in_host_def by (rule in_cluster_vms)
qed

lemma kset_none: "all_vms t = {#} \<Longrightarrow> dc_vms b = {#} \<Longrightarrow> all_vms (kset k b t) = {#}"
  unfolding all_vms_def kset_def by (induction t) auto

lemma tree_dcs_vms: "tree_dcs dcs r = Ok r' \<Longrightarrow> all_vms r = {#} \<Longrightarrow> all_vms r' = {#}"
  by (induction dcs r rule: tree_dcs.induct) (auto simp: bindR_eq_Ok kset_none)

lemma tree_clusters_vms: "tree_clusters cs r = Ok r' \<Longrightarrow> all_vms r' = all_vms r"
  by (induction cs r rule: tree_clusters.induct)
    (auto simp: bindR_eq_Ok in_cluster_vms [where f = "\<lambda>b. b" and M = "{#}"])

lemma tree_hosts_vms: "tree_hosts cd hs r = Ok r' \<Longrightarrow> all_vms r' = all_vms r"
  by (induction cd hs r rule: tree_hosts.induct)
    (auto simp: bindR_eq_Ok in_host_vms [where f = "\<lambda>b. b" and M = "{#}"])

lemma tree_vms_vms: "tree_vms hc cd vs r = Ok r' \<Longrightarrow> all_vms r' = all_vms r + mset vs"
proof (induction hc cd vs r rule: tree_vms.induct)
  case (2 hc cd v vs r)
  have "all_vms (in_host dc cl h PNone (\<lambda>b. b\<lparr>hb_vms := hb_vms b @ [v]\<rparr>) r) = all_vms r + {#v#}" for dc cl h
    by (rule in_host_vms) simp
  with 2 show ?case by (fastforce simp: bindR_eq_Ok)
qed simp

subsubsection \<open>Where they stand\<close>

definition seat :: "pyval kdict \<Rightarrow> pyval kdict \<Rightarrow> pyval \<Rightarrow> pyval \<times> pyval \<times> pyval" where
  "seat hc cd v =
     (let host = (case v of PDict d \<Rightarrow> dget d ''host'' PNone | _ \<Rightarrow> PNone);
        cluster = (case kget host hc of Some x \<Rightarrow> x | None \<Rightarrow> PNone);
        dc = (case kget cluster cd of Some x \<Rightarrow> x | None \<Rightarrow> PNone)
      in (dc, cluster, py_or host (PStr ''__unbound__'')))"

definition seated :: "pyval kdict \<Rightarrow> pyval kdict \<Rightarrow> vm_tree \<Rightarrow> bool" where
  "seated hc cd t \<longleftrightarrow>
     (\<forall>(dc, b) \<in> set t. \<forall>(cl, c) \<in> set (db_clusters b). \<forall>(h, hb) \<in> set (cb_hosts c). \<forall>v \<in> set (hb_vms hb).
        case seat hc cd v of (dc', cl', h') \<Rightarrow> py_eq dc dc' \<and> py_eq cl cl' \<and> py_eq h h')"

lemma kupd_all:
  assumes "\<forall>(q, y) \<in> set d. P q y" "\<And>q y. py_eq q k \<Longrightarrow> P q y \<Longrightarrow> P q (f y)" "P k (f x)"
  shows "\<forall>(q, y) \<in> set (kupd k x f d). P q y"
  using assms by (induction d) (auto split: if_splits)

lemma hashed_refl: "hashed v = Ok v' \<Longrightarrow> v' = v \<and> py_eq v v"
  by (cases v) (auto simp: hashed_def)

lemma kfind_Ok: "kfind k d = Ok x \<Longrightarrow> x = (case kget k d of Some x \<Rightarrow> x | None \<Rightarrow> PNone) \<and> py_eq k k"
  unfolding kfind_def bindR_eq_Ok by (auto dest!: hashed_refl)

text \<open>An update of the buckets at a path keeps what holds at every host of it.\<close>

definition host_wise :: "(pyval \<Rightarrow> pyval \<Rightarrow> pyval \<Rightarrow> host_bucket \<Rightarrow> bool) \<Rightarrow> vm_tree \<Rightarrow> bool" where
  "host_wise P t \<longleftrightarrow> (\<forall>(dc, b) \<in> set t. \<forall>(cl, c) \<in> set (db_clusters b). \<forall>(h, hb) \<in> set (cb_hosts c). P dc cl h hb)"

lemma host_wise_in_cluster:
  assumes "host_wise P t"
    and step: "\<And>dc cl c. py_eq dc dc0 \<Longrightarrow> py_eq cl cl0 \<Longrightarrow> \<forall>(h, hb) \<in> set (cb_hosts c). P dc cl h hb \<Longrightarrow>
      \<forall>(h, hb) \<in> set (cb_hosts (f c)). P dc cl h hb"
    and refl: "py_eq dc0 dc0" "py_eq cl0 cl0"
  shows "host_wise P (in_cluster dc0 cl0 name f t)"
  unfolding host_wise_def in_cluster_def
proof (rule kupd_all)
  show "\<forall>(dc, b) \<in> set t. \<forall>(cl, c) \<in> set (db_clusters b). \<forall>(h, hb) \<in> set (cb_hosts c). P dc cl h hb"
    using assms(1) by (simp add: host_wise_def)
  have inner: "\<forall>(cl, c) \<in> set (kupd cl0 \<lparr>cb_name = name, cb_hosts = []\<rparr> f cs). \<forall>(h, hb) \<in> set (cb_hosts c). P dc cl h hb"
    if "py_eq dc dc0" "\<forall>(cl, c) \<in> set cs. \<forall>(h, hb) \<in> set (cb_hosts c). P dc cl h hb" for dc cs
    using that(2)
    by (rule kupd_all [where P = "\<lambda>cl c. \<forall>(h, hb) \<in> set (cb_hosts c). P dc cl h hb"])
      (erule step [OF that(1)], assumption, rule step [OF that(1) refl(2)], simp)
  show "\<forall>(cl, c) \<in> set (db_clusters (b\<lparr>db_clusters := kupd cl0 \<lparr>cb_name = name, cb_hosts = []\<rparr> f (db_clusters b)\<rparr>)).
      \<forall>(h, hb) \<in> set (cb_hosts c). P dc cl h hb"
    if "py_eq dc dc0" "\<forall>(cl, c) \<in> set (db_clusters b). \<forall>(h, hb) \<in> set (cb_hosts c). P dc cl h hb" for dc b
    using inner [OF that] by simp
  show "\<forall>(cl, c) \<in> set (db_clusters (\<lparr>db_name = PNone, db_clusters = []\<rparr>\<lparr>db_clusters :=
        kupd cl0 \<lparr>cb_name = name, cb_hosts = []\<rparr> f (db_clusters \<lparr>db_name = PNone, db_clusters = []\<rparr>)\<rparr>)).
      \<forall>(h, hb) \<in> set (cb_hosts c). P dc0 cl h hb"
    using inner [OF refl(1), of "[]"] by simp
qed

lemma host_wise_in_host:
  assumes "host_wise P t"
    and step: "\<And>dc cl h hb. py_eq dc dc0 \<Longrightarrow> py_eq cl cl0 \<Longrightarrow> py_eq h h0 \<Longrightarrow> P dc cl h hb \<Longrightarrow> P dc cl h (f hb)"
    and new: "\<And>dc cl. py_eq dc dc0 \<Longrightarrow> py_eq cl cl0 \<Longrightarrow> P dc cl h0 (f \<lparr>hb_name = name, hb_vms = []\<rparr>)"
    and refl: "py_eq dc0 dc0" "py_eq cl0 cl0"
  shows "host_wise P (in_host dc0 cl0 h0 name f t)"
  unfolding in_host_def
proof (rule host_wise_in_cluster [OF assms(1) _ refl])
  fix dc cl c assume eq: "py_eq dc dc0" "py_eq cl cl0" and "\<forall>(h, hb) \<in> set (cb_hosts c). P dc cl h hb"
  then have "\<forall>(h, hb) \<in> set (kupd h0 \<lparr>hb_name = name, hb_vms = []\<rparr> f (cb_hosts c)). P dc cl h hb"
    by (intro kupd_all) (auto intro: step new)
  then show "\<forall>(h, hb) \<in> set (cb_hosts (c\<lparr>cb_hosts := kupd h0 \<lparr>hb_name = name, hb_vms = []\<rparr> f (cb_hosts c)\<rparr>)). P dc cl h hb"
    by simp
qed

definition at_seat :: "pyval kdict \<Rightarrow> pyval kdict \<Rightarrow> pyval \<Rightarrow> pyval \<Rightarrow> pyval \<Rightarrow> host_bucket \<Rightarrow> bool" where
  "at_seat hc cd dc cl h hb \<longleftrightarrow>
     (\<forall>v \<in> set (hb_vms hb). case seat hc cd v of (dc', cl', h') \<Rightarrow> py_eq dc dc' \<and> py_eq cl cl' \<and> py_eq h h')"

lemma seated_host_wise: "seated hc cd t = host_wise (at_seat hc cd) t"
  by (simp add: seated_def host_wise_def at_seat_def)

lemma at_seat_empty [simp]: "at_seat hc cd dc cl h \<lparr>hb_name = n, hb_vms = []\<rparr>"
  by (simp add: at_seat_def)

lemma tree_dcs_seated:
  "tree_dcs dcs r = Ok r' \<Longrightarrow> \<forall>(dc, b) \<in> set r. db_clusters b = [] \<Longrightarrow> seated hc cd r'"
proof (induction dcs r rule: tree_dcs.induct)
  case (1 r)
  then show ?case by (auto simp: seated_def)
next
  case (2 dc dcs r)
  have "\<forall>(q, b) \<in> set (kset i \<lparr>db_name = n, db_clusters = []\<rparr> r). db_clusters b = []" for i n
    unfolding kset_def by (rule kupd_all [OF 2(3)]) simp_all
  with 2 show ?case by (fastforce simp: bindR_eq_Ok)
qed

lemma tree_clusters_seated: "tree_clusters cs r = Ok r' \<Longrightarrow> seated hc cd r \<Longrightarrow> seated hc cd r'"
proof (induction cs r rule: tree_clusters.induct)
  case (2 c cs r)
  have "host_wise (at_seat hc cd) (in_cluster dc i name (\<lambda>b. b) r)" if "hashed x = Ok dc" "hashed y = Ok i" for dc i name x y
    using 2(3) that by (intro host_wise_in_cluster) (auto simp: seated_host_wise dest: hashed_refl)
  with 2 show ?case by (fastforce simp: bindR_eq_Ok seated_host_wise)
qed simp

lemma tree_hosts_seated: "tree_hosts cd0 hs r = Ok r' \<Longrightarrow> seated hc cd r \<Longrightarrow> seated hc cd r'"
proof (induction cd0 hs r rule: tree_hosts.induct)
  case (2 cd0 h hs r)
  have "host_wise (at_seat hc cd) (in_host dc cl i name (\<lambda>b. b) r)"
    if "hashed x = Ok dc" "kfind cl cd0 = Ok x" for dc i name x cl
    using 2(3) that by (intro host_wise_in_host) (auto simp: seated_host_wise kfind_def bindR_eq_Ok dest: hashed_refl)
  with 2 show ?case by (fastforce simp: bindR_eq_Ok seated_host_wise)
qed simp

lemma tree_vms_seated: "tree_vms hc cd vs r = Ok r' \<Longrightarrow> seated hc cd r \<Longrightarrow> seated hc cd r'"
proof (induction hc cd vs r rule: tree_vms.induct)
  case (2 hc cd v vs r)
  have "host_wise (at_seat hc cd) (in_host dc' cl (py_or host (PStr ''__unbound__'')) PNone
      (\<lambda>b. b\<lparr>hb_vms := hb_vms b @ [v]\<rparr>) r)"
    if "py_get v ''host'' PNone = Ok host" "kfind host hc = Ok cl" "kfind cl cd = Ok dc" "hashed dc = Ok dc'" for host cl dc dc'
  proof -
    from that(1) obtain d where v: "v = PDict d" "host = dget d ''host'' PNone"
      by (auto simp: py_get_def split: pyval.splits)
    have seat: "seat hc cd v = (dc', cl, py_or host (PStr ''__unbound__''))"
      using kfind_Ok [OF that(2)] kfind_Ok [OF that(3)] hashed_refl [OF that(4)] v by (simp add: seat_def Let_def)
    moreover have "py_eq (py_or host (PStr ''__unbound__'')) (py_or host (PStr ''__unbound__''))"
      using kfind_Ok [OF that(2)] by (simp add: py_or_def)
    ultimately show ?thesis
      using 2(3) kfind_Ok [OF that(3)] hashed_refl [OF that(4)]
      by (intro host_wise_in_host) (auto simp: seated_host_wise at_seat_def simp del: py_eq.simps)
  qed
  with 2 show ?case by (fastforce simp: bindR_eq_Ok seated_host_wise)
qed simp

text \<open>C21: The tree of virtual machines accounts for every machine of the listing exactly once, whatever the four
  listings say, and in its own place: below the host it names (or \<open>__unbound__\<close>), below the cluster the
  host listing has for that host and the datacenter the cluster listing has for that cluster.\<close>

theorem vm_tree_partition:
  assumes "vcenter_vm_tree opts p w = Some (Ok t, w')"
  shows "\<exists>hosts clusters vms hs cs vs hc cd w1 w2 w3.
    vcenter_cluster_list opts p w1 = Some (Ok clusters, w2) \<and> vcenter_host_list opts p w2 = Some (Ok hosts, w3) \<and>
    vcenter_vm_list opts p w3 = Some (Ok vms, w') \<and> py_iter hosts = Ok hs \<and> py_iter clusters = Ok cs \<and> py_iter vms = Ok vs \<and>
    index_by ''host'' ''cluster'' hs [] = Ok hc \<and> index_by ''cluster'' ''datacenter'' cs [] = Ok cd \<and>
    all_vms t = mset vs \<and> seated hc cd t"
proof -
  from assms obtain dcs clusters hosts vms w1 w2 w3 where listings: "vcenter_cluster_list opts p w1 = Some (Ok clusters, w2)"
    "vcenter_host_list opts p w2 = Some (Ok hosts, w3)" "vcenter_vm_list opts p w3 = Some (Ok vms, w')"
    and tree: "vm_tree_of dcs clusters hosts vms = Ok t"
    by (auto simp: vcenter_vm_tree_def bindM_Some_iff)
  from tree obtain hs cs ds vs hc cd r1 r2 r3 where steps: "py_iter hosts = Ok hs" "index_by ''host'' ''cluster'' hs [] = Ok hc"
    "py_iter clusters = Ok cs" "index_by ''cluster'' ''datacenter'' cs [] = Ok cd" "tree_dcs ds [] = Ok r1"
    "tree_clusters cs r1 = Ok r2" "tree_hosts cd hs r2 = Ok r3" "py_iter vms = Ok vs" "tree_vms hc cd vs r3 = Ok t"
    by (auto simp: vm_tree_of_def bindR_eq_Ok)
  have "all_vms t = mset vs"
    using tree_vms_vms [OF steps(9)] tree_hosts_vms [OF steps(7)] tree_clusters_vms [OF steps(6)] tree_dcs_vms [OF steps(5)]
    by simp
  moreover have "seated hc cd t"
    by (rule tree_vms_seated [OF steps(9) tree_hosts_seated [OF steps(7) tree_clusters_seated [OF steps(6)
      tree_dcs_seated [OF steps(5)]]]]) simp
  ultimately show ?thesis using listings steps by blast
qed

text \<open>One datacenter, one cluster, one host, two machines, one of them on no host.\<close>

definition vm_world :: world where
  "vm_world = scripted [login_reply,
     body_reply (PList [PDict [(''datacenter'', PStr ''d'')]]),
     body_reply (PList [PDict [(''cluster'', PStr ''c''), (''datacenter'', PStr ''d'')]]),
     body_reply (PList [PDict [(''host'', PStr ''h''), (''cluster'', PStr ''c'')]]),
     body_reply (PList [PDict [(''vm'', PStr ''v1''), (''host'', PStr ''h'')], PDict [(''vm'', PStr ''v2'')]])]"

lemma vm_tree_partition_witness:
  "\<exists>t w vms vs hc cd w3. vcenter_vm_tree (opts_for ''vcenter'') None vm_world = Some (Ok t, w) \<and> length t = 2 \<and>
     vcenter_vm_list (opts_for ''vcenter'') None w3 = Some (Ok vms, w) \<and> py_iter vms = Ok vs \<and> all_vms t = mset vs \<and> seated hc cd t"
proof -
  let ?run = "vcenter_vm_tree (opts_for ''vcenter'') None vm_world"
  have some: "case ?run of Some (Ok t, w) \<Rightarrow> length t = 2 | _ \<Rightarrow> False" by code_simp
  then obtain t w where run: "?run = Some (Ok t, w)" "length t = 2"
    by (cases ?run) (auto split: res.splits)
  obtain vms vs hc cd w3 where "vcenter_vm_list (opts_for ''vcenter'') None w3 = Some (Ok vms, w)" "py_iter vms = Ok vs"
    "all_vms t = mset vs" "seated hc cd t"
    using vm_tree_partition [OF run(1)] by (elim exE conjE) (rule that)
  with run show ?thesis by blast
qed

subsubsection \<open>The counts\<close>

lemma count_vms_total:
  "count_vms vs s = Ok s' \<Longrightarrow>
     vc_total s' = vc_total s + int (length vs) \<and>
     sum_list (map snd (vc_power s')) = sum_list (map snd (vc_power s)) + int (length vs)"
proof (induction vs s rule: count_vms.induct)
  case (2 v vs s)
  have "sum_list (map snd (kupd k 0 (\<lambda>n. n + 1) d)) = sum_list (map snd d) + (1 :: int)" for k d
    using kupd_measure [of "\<lambda>n. n" "\<lambda>n. n + 1" 1 0 k d] by (simp add: comp_def)
  with 2 show ?case by (fastforce simp: bindR_eq_Ok count_vm_def)
qed simp

lemma vm_summary_adds_up:
  assumes "vcenter_vm_summary opts p w = Some (Ok s, w')"
  shows "\<exists>vms vs. vcenter_vm_list opts p w = Some (Ok vms, w') \<and> py_iter vms = Ok vs \<and>
    vc_total s = int (length vs) \<and> sum_list (map snd (vc_power s)) = int (length vs)"
  using assms by (auto simp: vcenter_vm_summary_def bindM_Some_iff bindR_eq_Ok dest!: count_vms_total)

end
