(* ===== verification/Vcenter_Store.thy ===== *)
theory Vcenter_Store
  imports Vcenter Rest_Store
begin

section \<open>Vcenter_Store: vCenter as a store of documents\<close>

text \<open>
  The calls of \<open>utils/vcenter.py\<close> on a vCenter that answers as a store (\<open>Rest_Store\<close>) while a session is
  cached. \<open>raise_with_body\<close> looks at the status code: a response without error has one below 400.
\<close>

definition plain_status :: "world \<Rightarrow> bool" where
  "plain_status w \<longleftrightarrow> (\<forall>t h d r. net w t h = Reply d r \<and> rs_error r = None \<longrightarrow> status_code r < 400)"

definition vcenter_view :: "pyval \<Rightarrow> profile \<Rightarrow> keeping \<Rightarrow> string set \<Rightarrow> store \<Rightarrow> world \<Rightarrow> bool" where
  "vcenter_view opts p keep P m w \<longleftrightarrow>
     (\<exists>cfg c t. vcenter_get_config opts p = Ok cfg \<and> py_item opts ''test'' = Ok t \<and>
        cache_get Vcenter_Cache (host_user_key cfg) w = Some c \<and> plain_status w \<and>
        store_view (https_url (cfg_host cfg) []) P keep m w)"

lemma vcenter_view_opts:
  "vcenter_view opts p keep P m w \<Longrightarrow> \<exists>t. py_item opts ''test'' = Ok t \<and> truthy t = test_mode opts"
  by (auto simp: vcenter_view_def dest: test_mode_item)

lemma http_send_net: "http_send rq w = Some (Ok resp, w') \<Longrightarrow> net w' = net w \<and> (\<exists>d. net w (clock w) (sent w @ [rq]) = Reply d resp)"
  by (auto simp: http_send_def Let_def split: net_reply.splits)

text \<open>One call on an object the store holds, or one that writes it.\<close>

lemma vcenter_exchange_view:
  assumes view: "vcenter_view opts p keep P m w" and q: "q \<in> P"
    and meth: "meth = ''GET'' \<and> m q \<noteq> None \<and> m' = m \<or> meth \<in> {''PUT'', ''PATCH''} \<and> m' = m(q \<mapsto> keep meth q body (m q))"
  shows "\<exists>resp w'. vcenter_exchange meth opts q body PNone p PNone w = Some (Ok resp, w') \<and>
    vcenter_view opts p keep P m' w' \<and> (meth = ''GET'' \<longrightarrow> json_or_empty resp = pureM (PDict (the (m q))) \<and> only_gets w w') \<and>
    (\<exists>v. json_or_empty resp = pureM v)"
proof -
  from view obtain cfg c t where cfg: "vcenter_get_config opts p = Ok cfg" "py_item opts ''test'' = Ok t"
      "cache_get Vcenter_Cache (host_user_key cfg) w = Some c" and plain: "plain_status w"
    and sv: "store_view (https_url (cfg_host cfg) []) P keep m w"
    by (auto simp: vcenter_view_def)
  let ?rq = "session_rq (fst (vcenter_with_token cfg c)) meth (https_url (cfg_host cfg) q) PNone body [] (cfg_timeout cfg)"
  have rq: "object_request (https_url (cfg_host cfg) []) P ?rq" "rq_method ?rq = meth"
      "path_of (https_url (cfg_host cfg) []) ?rq = q" "rq_json ?rq = body"
    using q meth by (auto simp: object_request_def session_rq_def https_url_def path_of_def)
  obtain resp w' where send: "http_send ?rq w = Some (Ok resp, w')"
    and meets: "meets_store (https_url (cfg_host cfg) []) P keep m ?rq resp w'" and caches: "caches w' = caches w"
    and sent: "sent w' = sent w @ [?rq]"
    using http_send_view [OF sv rq(1)] by blast
  have step: "store_step (https_url (cfg_host cfg) []) keep ?rq m = m'"
    using meth rq(2-4) by (auto simp: store_step_def)
  have json: "meth = ''GET'' \<longrightarrow> json_or_empty resp = pureM (PDict (the (m q)))" "\<exists>v. json_or_empty resp = pureM v"
    using meets_store_json [OF meets] meth rq(2,3) by auto
  have "raise_for_status resp = pureM ()"
    using meets_store_status [OF meets] meth rq(2,3) by auto
  then have "rs_error resp = None"
    by (auto simp: raise_for_status_def raiseM_def pureM_def fun_eq_iff split: option.splits)
  then have "raise_with_body resp = pureM ()"
    using plain http_send_net [OF send] by (auto simp: plain_status_def raise_with_body_def)
  then have "vcenter_exchange meth opts q body PNone p PNone w = Some (Ok resp, w')"
    using cfg send vcenter_get_session_run [OF cfg(1,3)]
    by (simp add: vcenter_exchange_def vcenter_with_token_def vcenter_resolve_timeout_def session_request_def Let_def)
  moreover have "vcenter_view opts p keep P m' w'"
    using meets cfg caches plain http_send_net [OF send] unfolding meets_store_def step vcenter_view_def
    by (auto simp: cache_get_def plain_status_def)
  moreover have "meth = ''GET'' \<longrightarrow> only_gets w w'" using sent rq(2) by (auto intro: only_gets_sent)
  ultimately show ?thesis using json by blast
qed

lemma vcenter_get_view:
  assumes "vcenter_view opts p keep P m w" "q \<in> P" "m q = Some d"
  shows "\<exists>w'. vcenter_api_get opts q PNone p PNone w = Some (Ok (PDict d), w') \<and> vcenter_view opts p keep P m w' \<and> only_gets w w'"
  using vcenter_exchange_view [OF assms(1,2), of "''GET''" m PNone] assms(3)
  by (auto simp: vcenter_api_get_def)

lemma vcenter_write_view:
  assumes "vcenter_view opts p keep P m w" "q \<in> P"
  shows "\<exists>v w'. vcenter_api_put opts q body p PNone w = Some (Ok v, w') \<and>
      vcenter_view opts p keep P (m(q \<mapsto> keep ''PUT'' q body (m q))) w'"
    "\<exists>v w'. vcenter_api_patch opts q body p PNone w = Some (Ok v, w') \<and>
      vcenter_view opts p keep P (m(q \<mapsto> keep ''PATCH'' q body (m q))) w'"
  using vcenter_exchange_view [OF assms, of "''PUT''" "m(q \<mapsto> keep ''PUT'' q body (m q))" body]
    vcenter_exchange_view [OF assms, of "''PATCH''" "m(q \<mapsto> keep ''PATCH'' q body (m q))" body]
  by (auto simp: vcenter_api_put_def vcenter_api_patch_def)

text \<open>A document that is read by \<open>GET\<close> and written by \<open>PUT\<close> or \<open>PATCH\<close>.\<close>

lemma vcenter_rest_document:
  assumes "\<And>w. fetch w = vcenter_api_get opts q PNone p PNone w"
    and "(\<forall>b w. save b w = vcenter_api_put opts q (PDict (body b)) p PNone w) \<and> meth = ''PUT'' \<or>
      (\<forall>b w. save b w = vcenter_api_patch opts q (PDict (body b)) p PNone w) \<and> meth = ''PATCH''"
  shows "rest_document (vcenter_view opts p keep (insert q P)) fetch save q (\<lambda>b d. keep meth q (PDict (body b)) (Some d))"
proof unfold_locales
  fix m w d b assume view: "vcenter_view opts p keep (insert q P) m w" and d: "m q = Some d"
  note q = insertI1 [of q P]
  show "\<exists>w'. fetch w = Some (Ok (PDict d), w') \<and> vcenter_view opts p keep (insert q P) m w' \<and> only_gets w w'"
    using vcenter_get_view [OF view q d] by (simp add: assms(1))
  show "\<exists>v w'. save b w = Some (Ok v, w') \<and>
      vcenter_view opts p keep (insert q P) (m(q \<mapsto> keep meth q (PDict (body b)) (Some d))) w'"
    using vcenter_write_view [OF view q, of "PDict (body b)"] d assms(2) by auto
qed

text \<open>A vCenter that is a store, with a cached session, for the witnesses.\<close>

definition logged_in :: "world \<Rightarrow> world" where
  "logged_in w = w\<lparr>caches := (\<lambda>c k. if c = Vcenter_Cache then Some (CToken (PStr ''tok'')) else None)\<rparr>"

lemma vcenter_config_for:
  "vcenter_get_config (opts_run_for ''vcenter'') None =
     Ok \<lparr>cfg_host = PStr ''h'', cfg_username = PStr ''u'', cfg_password = PStr ''p'', cfg_verify_ssl = PBool True,
         cfg_timeout = PInt 30\<rparr>"
  "\<not> test_mode (opts_run_for ''vcenter'')" "test_mode (opts_test_for ''vcenter'')"
  "py_item (opts_run_for ''vcenter'') ''test'' = Ok (PBool False)"
  by (simp_all add: vcenter_get_config_def DEFAULT_TIMEOUT_def conn_config.defs eval_simps test_mode_def py_item_def)

lemma vcenter_store_world:
  "vcenter_view (opts_run_for ''vcenter'') None keep P m (logged_in (store_world ''https://h'' keep m))"
proof -
  have "store_view ''https://h'' P keep m (logged_in (store_world ''https://h'' keep m))"
    using store_view_store_world [of "''https://h''" P keep m] by (simp add: store_view_def logged_in_def store_world_def)
  moreover have "plain_status (logged_in (store_world ''https://h'' keep m))"
    by (auto simp: plain_status_def logged_in_def store_world_def store_net_def replies_def json_response_def
        text_response_def status_message_def split: list.splits if_splits option.splits)
  ultimately show ?thesis
    by (simp add: vcenter_view_def vcenter_config_for https_url_def cache_get_def logged_in_def)
qed

end
