(* ===== verification/Vcf_Vcenter.thy ===== *)
theory Vcf_Vcenter
  imports Vcenter_Store Vcenter_Appliance Vcenter_Services Vcenter_Inventory Vcf_Nsx_Config
begin

section \<open>Vcf_Vcenter: the states of vCenter that use its REST API\<close>

text \<open>
  The AD domain, the appliance's resolvers, syslog targets, CEIP, time servers and shell, clusters,
  datacenters, hosts, content libraries, local accounts, Supervisor services, VM classes and the
  reachability of a VM. The state \<open>deployed\<close> of \<open>vcf_vcenter_vm.py\<close> is in \<open>Vcf_Vim\<close>.
\<close>

subsection \<open>\<open>states/vcf_vcenter_ad_domain.py\<close>\<close>

definition vcf_vcenter_ad_domain_ad_joined ::
  "pyval \<Rightarrow> string \<Rightarrow> pyval \<Rightarrow> pyval \<Rightarrow> profile \<Rightarrow> salt_ret io" where
  "vcf_vcenter_ad_domain_ad_joined opts name username password profile =
     bindM (vcenter_ad_domain_get opts (PStr name) profile) (\<lambda>existing.
     if existing \<noteq> PNone then pureM (unchanged name (''vCenter already joined to '' @ name))
     else unless_test opts (would name (''vCenter would join domain '' @ name))
       (bindM (vcenter_ad_domain_join opts (PStr name) username password profile) (\<lambda>provider_id.
        pureM (changed name [(''new'', provider_id)] (''vCenter joined to '' @ name)))))"

definition vcf_vcenter_ad_domain_ad_absent :: "pyval \<Rightarrow> string \<Rightarrow> profile \<Rightarrow> salt_ret io" where
  "vcf_vcenter_ad_domain_ad_absent opts name profile =
     ensure_absent_of opts name (vcenter_ad_domain_get opts (PStr name) profile)
       (\<lambda>existing. bindM (liftR (py_item existing ''provider'')) (\<lambda>i. vcenter_ad_domain_leave opts i profile))
       (''vCenter is already not joined to '' @ name) (''vCenter would leave domain '' @ name)
       (''vCenter left domain '' @ name)"

subsection \<open>\<open>states/vcf_vcenter_appliance.py\<close>\<close>

text \<open>
  The settings that differ, as \<open>actions\<close> and \<open>changes\<close> are built up together: a condition, the wording
  and the entry of the changes.
\<close>

type_synonym drift = "bool \<times> string \<times> string \<times> pyval"

definition drift_actions :: "drift list \<Rightarrow> string" where
  "drift_actions ds = join_with '', '' (map (\<lambda>(_, action, _). action) (filter fst ds))"

definition drift_changes :: "drift list \<Rightarrow> dict" where
  "drift_changes ds = map (\<lambda>(_, _, change). change) (filter fst ds)"

definition apply_drift ::
  "pyval \<Rightarrow> string \<Rightarrow> string \<Rightarrow> string \<Rightarrow> string \<Rightarrow> drift list \<Rightarrow> pyval io \<Rightarrow> salt_ret io" where
  "apply_drift opts name already would_comment updated ds save =
     (if list_all (\<lambda>d. \<not> fst d) ds then pureM (unchanged name already)
      else unless_test opts (would name (would_comment @ drift_actions ds))
        (bindM save (\<lambda>_. pureM (changed name (drift_changes ds) (updated @ drift_actions ds)))))"

definition vcf_vcenter_appliance_dns_servers ::
  "pyval \<Rightarrow> string \<Rightarrow> pyval \<Rightarrow> pyval \<Rightarrow> profile \<Rightarrow> salt_ret io" where
  "vcf_vcenter_appliance_dns_servers opts name servers mode profile =
     bindM (vcenter_appliance_dns_get opts profile) (\<lambda>found.
     let current = py_or found empty_dict in
     bindM (liftR (py_get current ''servers'' PNone)) (\<lambda>held.
     bindM (liftR (bindR (py_iter (py_or held (PList []))) py_sorted)) (\<lambda>current_servers.
     bindM (liftR (bindR (py_iter servers) py_sorted)) (\<lambda>desired_servers.
     bindM (liftR (py_get current ''mode'' PNone)) (\<lambda>current_mode.
     apply_drift opts name ''DNS already configured'' ''DNS would change: '' ''DNS updated: ''
       [(\<not> py_eq current_mode mode, ''mode='' @ py_str mode, ''mode'', old_new current_mode mode),
        (\<not> py_eq (PList current_servers) (PList desired_servers), ''servers'', ''servers'',
           old_new (PList current_servers) (PList desired_servers))]
       (vcenter_appliance_dns_set opts servers mode profile))))))"

text \<open>
  \<open>sorted(entries, key=_key)\<close>, where the key is a tuple. Tuples compare at the first position where they
  differ, and raise \<open>TypeError\<close> where the values there have no order (\<open>None\<close> and a string, say); a sort of
  a list with two such tuples always compares one such pair. The sort is stable.
\<close>

fun tuple_less :: "pyval list \<Rightarrow> pyval list \<Rightarrow> bool res" where
  "tuple_less (x # xs) (y # ys) = (if py_eq x y then tuple_less xs ys else py_order ''<'' (<) (<) x y)"
| "tuple_less [] ys = Ok (ys \<noteq> [])"
| "tuple_less xs [] = Ok False"

fun insert_entry :: "pyval list \<times> pyval \<Rightarrow> (pyval list \<times> pyval) list \<Rightarrow> (pyval list \<times> pyval) list res" where
  "insert_entry x [] = Ok [x]"
| "insert_entry x (y # ys) =
     bindR (tuple_less (fst y) (fst x)) (\<lambda>less.
     if less then bindR (insert_entry x ys) (\<lambda>zs. Ok (y # zs)) else Ok (x # y # ys))"

fun sort_entries :: "(pyval list \<times> pyval) list \<Rightarrow> (pyval list \<times> pyval) list res" where
  "sort_entries [] = Ok []"
| "sort_entries (x # xs) =
     bindR (mapR (\<lambda>y. tuple_less (fst y) (fst x)) xs) (\<lambda>_.
     bindR (sort_entries xs) (insert_entry x))"

definition forwarder_key :: "pyval \<Rightarrow> pyval list res" where
  "forwarder_key entry = mapR (\<lambda>k. py_get entry k PNone) [''hostname'', ''port'', ''protocol'']"

definition sorted_forwarders :: "pyval list \<Rightarrow> pyval list res" where
  "sorted_forwarders entries =
     bindR (mapR (\<lambda>e. bindR (forwarder_key e) (\<lambda>k. Ok (k, e))) entries) (\<lambda>keyed.
     bindR (sort_entries keyed) (\<lambda>s. Ok (map snd s)))"

text \<open>The list, without the wrapper some releases put around it.\<close>

definition current_forwarders :: "pyval \<Rightarrow> pyval res" where
  "current_forwarders found =
     (let current = py_or found (PList []) in
      if is_dict current then
        bindR (py_get current ''cfg_list'' PNone) (\<lambda>a.
        bindR (py_get current ''value'' PNone) (\<lambda>b. Ok (py_or a (py_or b (PList [])))))
      else Ok current)"

definition vcf_vcenter_appliance_logging_forwarding :: "pyval \<Rightarrow> string \<Rightarrow> pyval \<Rightarrow> profile \<Rightarrow> salt_ret io" where
  "vcf_vcenter_appliance_logging_forwarding opts name servers profile =
     bindM (vcenter_appliance_logging_forwarding_get opts profile) (\<lambda>found.
     bindM (liftR (current_forwarders found)) (\<lambda>current.
     bindM (liftR (bindR (py_iter current) sorted_forwarders)) (\<lambda>current_sorted.
     bindM (liftR (bindR (py_iter servers) sorted_forwarders)) (\<lambda>desired_sorted.
     if py_eq (PList current_sorted) (PList desired_sorted) then
       pureM (unchanged name ''Syslog forwarding already configured'')
     else unless_test opts (would name ''Syslog forwarding would be updated'')
       (bindM (vcenter_appliance_logging_forwarding_set opts servers profile) (\<lambda>_.
        bindM (liftR (py_iter servers)) (\<lambda>new.
        pureM (changed name [(''forwarders'', old_new current (PList new))] ''Syslog forwarding updated''))))))))"

definition ceip_accepted :: "pyval \<Rightarrow> bool" where
  "ceip_accepted found =
     (case py_or found empty_dict of
        PDict d \<Rightarrow>
          (case (if map_of d ''accepted'' = None \<and> map_of d ''value'' \<noteq> None
              then py_or (dget d ''value'' PNone) empty_dict else PDict d) of
             PDict e \<Rightarrow> truthy (dget e ''accepted'' PNone)
           | _ \<Rightarrow> False)
      | _ \<Rightarrow> False)"

definition current_ceip_accepted :: "pyval \<Rightarrow> profile \<Rightarrow> bool io" where
  "current_ceip_accepted opts profile =
     bindM (vcenter_appliance_ceip_get opts profile) (\<lambda>found. pureM (ceip_accepted found))"

definition vcf_vcenter_appliance_ceip_set :: "pyval \<Rightarrow> string \<Rightarrow> pyval \<Rightarrow> profile \<Rightarrow> salt_ret io" where
  "vcf_vcenter_appliance_ceip_set opts name accepted profile =
     (let desired = truthy accepted in
     bindM (current_ceip_accepted opts profile) (\<lambda>current.
     if current = desired then pureM (unchanged name (''CEIP already accepted='' @ py_str (PBool desired)))
     else unless_test opts
       (would name (''CEIP would change accepted: '' @ py_str (PBool current) @ '' -> '' @ py_str (PBool desired)))
       (bindM (vcenter_appliance_ceip_set opts (PBool desired) profile) (\<lambda>_.
        pureM (changed name [(''accepted'', old_new (PBool current) (PBool desired))]
          (''CEIP updated to accepted='' @ py_str (PBool desired)))))))"

definition vcf_vcenter_appliance_ceip_disabled :: "pyval \<Rightarrow> string \<Rightarrow> profile \<Rightarrow> salt_ret io" where
  "vcf_vcenter_appliance_ceip_disabled opts name profile = vcf_vcenter_appliance_ceip_set opts name (PBool False) profile"

subsection \<open>\<open>states/vcf_vcenter_appliances.py\<close> and \<open>states/vcf_vcenter_shell.py\<close>\<close>

definition vcf_vcenter_appliances_ntp_servers :: "pyval \<Rightarrow> string \<Rightarrow> pyval \<Rightarrow> profile \<Rightarrow> salt_ret io" where
  "vcf_vcenter_appliances_ntp_servers opts name servers profile =
     bindM (vcenter_appliances_ntp_get opts profile) (\<lambda>found.
     bindM (liftR (bindR (py_iter (py_or found (PList []))) py_sorted)) (\<lambda>current_servers.
     bindM (liftR (bindR (py_iter servers) py_sorted)) (\<lambda>desired_servers.
     if py_eq (PList current_servers) (PList desired_servers) then pureM (unchanged name ''NTP already configured'')
     else unless_test opts (would name ''NTP would change: servers'')
       (bindM (vcenter_appliances_ntp_set opts servers profile) (\<lambda>_.
        pureM (changed name [(''servers'', old_new (PList current_servers) (PList desired_servers))]
          ''NTP updated: servers''))))))"

definition vcf_vcenter_shell_shell_access ::
  "pyval \<Rightarrow> string \<Rightarrow> pyval \<Rightarrow> pyval \<Rightarrow> profile \<Rightarrow> salt_ret io" where
  "vcf_vcenter_shell_shell_access opts name enabled timeout profile =
     bindM (vcenter_shell_shell_get opts profile) (\<lambda>found.
     let current = py_or found empty_dict; desired = PBool (truthy enabled) in
     bindM (liftR (py_get current ''enabled'' PNone)) (\<lambda>e.
     bindM (liftR (py_get current ''timeout'' PNone)) (\<lambda>t.
     apply_drift opts name ''Shell access already configured'' ''Shell access would change: '' ''Shell access updated: ''
       [(truthy e \<noteq> truthy enabled, ''enabled='' @ py_str desired, ''enabled'', old_new e desired),
        (timeout \<noteq> PNone \<and> \<not> py_eq t timeout, ''timeout='' @ py_str timeout, ''timeout'', old_new t timeout)]
       (vcenter_shell_shell_set opts desired timeout profile))))"

subsection \<open>\<open>states/vcf_vcenter_cluster.py\<close> and \<open>states/vcf_vcenter_datacenter.py\<close>\<close>

text \<open>\<open>r.create(__opts__, name, profile=profile, **kwargs)\<close>: \<open>datacenter\<close> among the keywords is its parameter.\<close>

definition cluster_create_call :: "pyval \<Rightarrow> pyval \<Rightarrow> profile \<Rightarrow> dict \<Rightarrow> pyval io" where
  "cluster_create_call opts name profile kwargs =
     (if map_of kwargs ''opts'' \<noteq> None then
        raiseM (TypeError (''create() got multiple values for argument '' @ repr_str ''opts''))
      else vcenter_cluster_create opts name (dget kwargs ''datacenter'' PNone) profile (ddel kwargs ''datacenter''))"

definition vcf_vcenter_cluster_present :: "pyval \<Rightarrow> string \<Rightarrow> profile \<Rightarrow> dict \<Rightarrow> salt_ret io" where
  "vcf_vcenter_cluster_present opts name profile kwargs =
     ensure_present opts name (vcenter_cluster_get_or_none opts (PStr name) profile)
       (cluster_create_call opts (PStr name) profile kwargs)
       (''Cluster '' @ name @ '' is already present'') (''Cluster '' @ name @ '' would be created'')
       (''Cluster '' @ name @ '' created'')"

definition vcf_vcenter_cluster_absent :: "pyval \<Rightarrow> string \<Rightarrow> profile \<Rightarrow> salt_ret io" where
  "vcf_vcenter_cluster_absent opts name profile =
     ensure_absent opts name (vcenter_cluster_get_or_none opts (PStr name) profile)
       (vcenter_cluster_delete opts (PStr name) profile)
       (''Cluster '' @ name @ '' is already absent'') (''Cluster '' @ name @ '' would be deleted'')
       (''Cluster '' @ name @ '' deleted'')"

definition vcf_vcenter_datacenter_present :: "pyval \<Rightarrow> string \<Rightarrow> pyval \<Rightarrow> profile \<Rightarrow> salt_ret io" where
  "vcf_vcenter_datacenter_present opts name folder profile =
     bindM (vcenter_datacenter_get_by_name opts (PStr name) profile) (\<lambda>existing.
     if existing \<noteq> PNone then pureM (unchanged name (''Datacenter '' @ name @ '' is already present''))
     else unless_test opts (would name (''Datacenter '' @ name @ '' would be created''))
       (bindM (vcenter_datacenter_create opts (PStr name) folder profile) (\<lambda>created.
        bindM (liftR (py_get created ''datacenter'' PNone)) (\<lambda>i.
        pureM (changed name [(''new'', py_or i (PStr name))] (''Datacenter '' @ name @ '' created''))))))"

definition vcf_vcenter_datacenter_absent :: "pyval \<Rightarrow> string \<Rightarrow> profile \<Rightarrow> salt_ret io" where
  "vcf_vcenter_datacenter_absent opts name profile =
     ensure_absent_of opts name (vcenter_datacenter_get_by_name opts (PStr name) profile)
       (\<lambda>existing. bindM (liftR (py_get existing ''datacenter'' PNone)) (\<lambda>moid. vcenter_datacenter_delete opts moid profile))
       (''Datacenter '' @ name @ '' is already absent'') (''Datacenter '' @ name @ '' would be deleted'')
       (''Datacenter '' @ name @ '' deleted'')"

subsection \<open>\<open>states/vcf_vcenter_content_library.py\<close>\<close>

text \<open>The first library of the name, if it can still be read.\<close>

definition find_local :: "pyval \<Rightarrow> pyval \<Rightarrow> profile \<Rightarrow> pyval io" where
  "find_local opts name profile =
     bindM (vcenter_content_library_find_libraries opts name (PStr ''LOCAL'') profile) (\<lambda>found.
     bindM (liftR (py_iter (py_or found (PList [])))) (\<lambda>ids.
     case ids of [] \<Rightarrow> pureM PNone | library_id # _ \<Rightarrow> vcenter_content_library_get_or_none opts library_id profile))"

definition vcf_vcenter_content_library_present ::
  "pyval \<Rightarrow> string \<Rightarrow> pyval \<Rightarrow> pyval \<Rightarrow> profile \<Rightarrow> salt_ret io" where
  "vcf_vcenter_content_library_present opts name storage_backings description profile =
     bindM (find_local opts (PStr name) profile) (\<lambda>existing.
     if existing \<noteq> PNone then pureM (unchanged name (''content library '' @ name @ '' already exists''))
     else unless_test opts (would name (''content library '' @ name @ '' would be created''))
       (bindM (vcenter_content_library_create_local opts (PStr name) storage_backings profile
            (set_given [] ''description'' description)) (\<lambda>library_id.
        pureM (changed name [(''new'', library_id)] (''content library '' @ name @ '' created'')))))"

definition vcf_vcenter_content_library_absent :: "pyval \<Rightarrow> string \<Rightarrow> profile \<Rightarrow> salt_ret io" where
  "vcf_vcenter_content_library_absent opts name profile =
     ensure_absent_of opts name (find_local opts (PStr name) profile)
       (\<lambda>existing. bindM (liftR (py_item existing ''id'')) (\<lambda>i. vcenter_content_library_delete_local opts i profile))
       (''content library '' @ name @ '' is already absent'') (''content library '' @ name @ '' would be deleted'')
       (''content library '' @ name @ '' deleted'')"

subsection \<open>\<open>states/vcf_vcenter_host.py\<close>\<close>

definition vcf_vcenter_host_present :: "pyval \<Rightarrow> string \<Rightarrow> profile \<Rightarrow> salt_ret io" where
  "vcf_vcenter_host_present opts name profile =
     bindM (vcenter_host_get_or_none opts (PStr name) profile) (\<lambda>found.
     pureM (if found \<noteq> PNone then unchanged name (''Host '' @ name @ '' is present in vCenter'')
       else refused name (''Host '' @ name @ '' is not present in vCenter '' @ em_dash @ '' commission it via SDDC Manager'')))"

definition vcf_vcenter_host_absent :: "pyval \<Rightarrow> string \<Rightarrow> profile \<Rightarrow> salt_ret io" where
  "vcf_vcenter_host_absent opts name profile =
     bindM (vcenter_host_get_or_none opts (PStr name) profile) (\<lambda>found.
     pureM (if found = PNone then unchanged name (''Host '' @ name @ '' is already absent from vCenter'')
       else refused name (''Host '' @ name @ '' is still present in vCenter '' @ em_dash @ '' decommission it via SDDC Manager'')))"

definition vcf_vcenter_host_maintenance :: "pyval \<Rightarrow> string \<Rightarrow> pyval \<Rightarrow> profile \<Rightarrow> salt_ret io" where
  "vcf_vcenter_host_maintenance opts name enabled profile =
     bindM (vcenter_host_get_or_none opts (PStr name) profile) (\<lambda>current.
     if current = PNone then pureM (refused name (''Host '' @ name @ '' not found''))
     else
       bindM (liftR (vcenter_host_is_in_maintenance current)) (\<lambda>inside.
       if inside = truthy enabled then
         pureM (unchanged name (''Host '' @ name @ '' is already '' @ (if truthy enabled then ''in'' else ''out of'')
           @ '' maintenance mode''))
       else unless_test opts
         (would name (''Host '' @ name @ '' would '' @ (if truthy enabled then ''enter'' else ''exit'') @ '' maintenance mode''))
         (bindM (if truthy enabled then vcenter_host_enter_maintenance opts (PStr name) profile
                 else vcenter_host_exit_maintenance opts (PStr name) profile) (\<lambda>_.
          pureM (changed name [(''maintenance'', enabled)]
            (''Host '' @ name @ '' '' @ (if truthy enabled then ''entered'' else ''exited'') @ '' maintenance mode''))))))"

subsection \<open>\<open>states/vcf_vcenter_localos_user.py\<close> and \<open>states/vcf_vcenter_vm_class.py\<close>\<close>

text \<open>\<open>[(k, v) for k, v in wanted.items() if existing.get(k) != v]\<close>.\<close>

definition differing :: "pyval \<Rightarrow> dict \<Rightarrow> dict res" where
  "differing existing wanted = filterR (\<lambda>(k, v). bindR (py_get existing k PNone) (\<lambda>have. Ok (\<not> py_eq have v))) wanted"

text \<open>The wanted full name is compared with the field \<open>fullname\<close>, and sent as \<open>full_name\<close>.\<close>

definition localos_user_diff :: "pyval \<Rightarrow> pyval \<Rightarrow> pyval \<Rightarrow> pyval \<Rightarrow> pyval \<Rightarrow> dict res" where
  "localos_user_diff existing roles email full_name enabled =
     bindR (py_iter roles) (\<lambda>rs.
     bindR (differing existing (set_given [(''roles'', PList rs), (''enabled'', enabled)] ''email'' email)) (\<lambda>diff.
     if full_name = PNone then Ok diff
     else bindR (py_get existing ''fullname'' PNone) (\<lambda>have.
       Ok (if py_eq have full_name then diff else dset diff ''full_name'' full_name))))"

definition vcf_vcenter_localos_user_present ::
  "pyval \<Rightarrow> string \<Rightarrow> pyval \<Rightarrow> pyval \<Rightarrow> pyval \<Rightarrow> pyval \<Rightarrow> pyval \<Rightarrow> profile \<Rightarrow> salt_ret io" where
  "vcf_vcenter_localos_user_present opts name password roles email full_name enabled profile =
     bindM (vcenter_localos_user_get_or_none opts (PStr name) profile) (\<lambda>existing.
     if existing = PNone then
       unless_test opts (would name (''local OS account '' @ name @ '' would be created''))
         (bindM (vcenter_localos_user_create opts (PStr name) password roles profile
              (set_given (set_given [(''enabled'', enabled)] ''email'' email) ''full_name'' full_name)) (\<lambda>_.
          pureM (changed name [(''new'', PStr name)] (''local OS account '' @ name @ '' created''))))
     else
       bindM (liftR (localos_user_diff existing roles email full_name enabled)) (\<lambda>diff.
       if diff = [] then pureM (unchanged name (''local OS account '' @ name @ '' already matches''))
       else unless_test opts (would name (''local OS account '' @ name @ '' would change: '' @ py_str (PDict diff)))
         (bindM (vcenter_localos_user_update opts (PStr name) profile diff) (\<lambda>_.
          pureM (changed name diff (''local OS account '' @ name @ '' updated''))))))"

definition vcf_vcenter_localos_user_absent :: "pyval \<Rightarrow> string \<Rightarrow> profile \<Rightarrow> salt_ret io" where
  "vcf_vcenter_localos_user_absent opts name profile =
     ensure_absent opts name (vcenter_localos_user_get_or_none opts (PStr name) profile)
       (vcenter_localos_user_delete opts (PStr name) profile)
       (''local OS account '' @ name @ '' is already absent'') (''local OS account '' @ name @ '' would be deleted'')
       (''local OS account '' @ name @ '' deleted'')"

definition vm_class_desired :: "string \<Rightarrow> pyval \<Rightarrow> pyval \<Rightarrow> dict \<Rightarrow> dict" where
  "vm_class_desired name cpu_count memory_MB spec =
     dupdate spec [(''id'', PStr name), (''cpu_count'', cpu_count), (''memory_MB'', memory_MB)]"

definition vcf_vcenter_vm_class_present ::
  "pyval \<Rightarrow> string \<Rightarrow> pyval \<Rightarrow> pyval \<Rightarrow> profile \<Rightarrow> dict \<Rightarrow> salt_ret io" where
  "vcf_vcenter_vm_class_present opts name cpu_count memory_MB profile spec =
     bindM (vcenter_vm_class_get_or_none opts (PStr name) profile) (\<lambda>existing.
     let desired = vm_class_desired name cpu_count memory_MB spec;
         update_spec = filter (\<lambda>(k, v). k \<noteq> ''id'') desired in
     if existing \<noteq> PNone then
       bindM (liftR (differing existing update_spec)) (\<lambda>drift.
       if drift = [] then pureM (unchanged name (''VM class '' @ name @ '' already matches''))
       else unless_test opts (would name (''VM class '' @ name @ '' would be updated: '' @ sorted_keys drift))
         (bindM (vcenter_vm_class_update opts (PStr name) (PDict update_spec) profile) (\<lambda>_.
          pureM (changed name [(''updated'', PList (map PStr (sort (map fst drift))))]
            (''VM class '' @ name @ '' updated'')))))
     else unless_test opts (would name (''VM class '' @ name @ '' would be created''))
       (bindM (vcenter_vm_class_create opts (PDict desired) profile) (\<lambda>_.
        pureM (changed name [(''new'', PStr name)] (''VM class '' @ name @ '' created'')))))"

definition vcf_vcenter_vm_class_absent :: "pyval \<Rightarrow> string \<Rightarrow> profile \<Rightarrow> salt_ret io" where
  "vcf_vcenter_vm_class_absent opts name profile =
     ensure_absent opts name (vcenter_vm_class_get_or_none opts (PStr name) profile)
       (vcenter_vm_class_delete opts (PStr name) profile)
       (''VM class '' @ name @ '' is already absent'') (''VM class '' @ name @ '' would be deleted'')
       (''VM class '' @ name @ '' deleted'')"

subsection \<open>\<open>states/vcf_vcenter_supervisor_service.py\<close> and \<open>states/vcf_vcenter_vm.py\<close>\<close>

text \<open>\<open>activated\<close> and \<open>deactivated\<close> differ in the wanted state, the call and the wording. The tuple of
  states in the changes is a list here.\<close>

definition service_in_state ::
  "pyval \<Rightarrow> string \<Rightarrow> string \<Rightarrow> string \<Rightarrow> string \<Rightarrow> pyval io \<Rightarrow> profile \<Rightarrow> salt_ret io" where
  "service_in_state opts name wanted other word call profile =
     bindM (vcenter_supervisor_service_get_or_none opts (PStr name) profile) (\<lambda>svc.
     if svc = PNone then pureM (refused name (''Service '' @ name @ '' is not registered''))
     else
       bindM (liftR (py_get svc ''state'' PNone)) (\<lambda>state.
       if py_eq state (PStr wanted) then pureM (unchanged name (''Service '' @ name @ '' is already '' @ word))
       else unless_test opts (would name (''Service '' @ name @ '' would be '' @ word))
         (bindM call (\<lambda>_.
          pureM (changed name [(''state'', PList [PStr other, PStr wanted])] (''Service '' @ name @ '' '' @ word))))))"

definition vcf_vcenter_supervisor_service_activated :: "pyval \<Rightarrow> string \<Rightarrow> profile \<Rightarrow> salt_ret io" where
  "vcf_vcenter_supervisor_service_activated opts name profile =
     service_in_state opts name ''ACTIVATED'' ''DEACTIVATED'' ''activated''
       (vcenter_supervisor_service_activate opts (PStr name) profile) profile"

definition vcf_vcenter_supervisor_service_deactivated :: "pyval \<Rightarrow> string \<Rightarrow> profile \<Rightarrow> salt_ret io" where
  "vcf_vcenter_supervisor_service_deactivated opts name profile =
     service_in_state opts name ''DEACTIVATED'' ''ACTIVATED'' ''deactivated''
       (vcenter_supervisor_service_deactivate opts (PStr name) profile) profile"

definition vcf_vcenter_supervisor_service_absent :: "pyval \<Rightarrow> string \<Rightarrow> profile \<Rightarrow> salt_ret io" where
  "vcf_vcenter_supervisor_service_absent opts name profile =
     ensure_absent opts name (vcenter_supervisor_service_get_or_none opts (PStr name) profile)
       (vcenter_supervisor_service_delete opts (PStr name) profile)
       (''Service '' @ name @ '' is already absent'') (''Service '' @ name @ '' would be removed'')
       (''Service '' @ name @ '' removed'')"

definition vcf_vcenter_vm_reachable ::
  "(pyval \<Rightarrow> pyval \<Rightarrow> int \<Rightarrow> bool io) \<Rightarrow> pyval \<Rightarrow> string \<Rightarrow> pyval \<Rightarrow> pyval \<Rightarrow> int \<Rightarrow> int \<Rightarrow> salt_ret io" where
  "vcf_vcenter_vm_reachable connect opts name target_ip port timeout_sec interval_sec =
     (let target = py_str target_ip @ '':'' @ py_str port in
      unless_test opts (would name (''would wait for '' @ target))
        (bindM (vcenter_vm_wait_reachable connect target_ip port timeout_sec interval_sec) (\<lambda>reached.
         pureM (if reached then unchanged name (target @ '' is reachable'')
           else refused name (target @ '' was not reachable within '' @ int_str timeout_sec @ ''s'')))))"

subsection \<open>The contract with Salt\<close>

text \<open>
  The requests that only look: reads, and the search of the content libraries, which is a \<open>POST\<close>.
\<close>

definition vcenter_looks :: "request \<Rightarrow> bool" where
  "vcenter_looks rq \<longleftrightarrow> vcenter_read rq \<or>
     rq_method rq = ''POST'' \<and> ends_with (rq_url rq) vcenter_content_library_LIBRARY \<and>
     rq_params rq = PDict [(''action'', PStr ''find'')]"

lemma vcenter_looksI [simp]:
  "is_vcenter_login rq \<Longrightarrow> vcenter_looks rq" "vcenter_call ''GET'' path b q rq \<Longrightarrow> vcenter_looks rq"
  "vcenter_call ''POST'' vcenter_content_library_LIBRARY b (PDict [(''action'', PStr ''find'')]) rq \<Longrightarrow> vcenter_looks rq"
  by (auto simp: vcenter_looks_def) (auto simp: vcenter_call_def)

lemma apply_drift_rules [spec_intros]:
  "yields (well_formed_ret opts name) (apply_drift opts name a b c ds save)"
  "(\<not> test_mode opts \<Longrightarrow> keeps (sends_only P) save) \<Longrightarrow> keeps (sends_only P) (apply_drift opts name a b c ds save)"
  by (auto simp: apply_drift_def intro!: spec_intros)

text \<open>A real run with drift is the save, and reports the drift.\<close>

lemma apply_drift_acts:
  assumes "py_item opts ''test'' = Ok t" "\<not> truthy t" "\<not> list_all (\<lambda>d. \<not> fst d) ds" "save w = Some (Ok v, w')"
  shows "apply_drift opts name a b c ds save w = Some (Ok (changed name (drift_changes ds) (c @ drift_actions ds)), w')"
  using assms by (simp add: apply_drift_def unless_test_def)

lemmas vcenter_state_defs = vcf_vcenter_ad_domain_ad_joined_def vcf_vcenter_ad_domain_ad_absent_def
  vcf_vcenter_appliance_dns_servers_def vcf_vcenter_appliance_logging_forwarding_def
  vcf_vcenter_appliance_ceip_set_def vcf_vcenter_appliance_ceip_disabled_def
  vcf_vcenter_appliances_ntp_servers_def vcf_vcenter_shell_shell_access_def vcf_vcenter_cluster_present_def
  vcf_vcenter_cluster_absent_def vcf_vcenter_datacenter_present_def vcf_vcenter_datacenter_absent_def
  vcf_vcenter_content_library_present_def vcf_vcenter_content_library_absent_def vcf_vcenter_host_present_def
  vcf_vcenter_host_absent_def vcf_vcenter_host_maintenance_def vcf_vcenter_localos_user_present_def
  vcf_vcenter_localos_user_absent_def vcf_vcenter_vm_class_present_def vcf_vcenter_vm_class_absent_def
  vcf_vcenter_supervisor_service_activated_def vcf_vcenter_supervisor_service_deactivated_def
  vcf_vcenter_supervisor_service_absent_def service_in_state_def

lemmas vcenter_lookup_defs = vcenter_ad_domain_get_def vcenter_sso_providers_list_def vcenter_appliance_dns_get_def
  vcenter_appliance_logging_forwarding_get_def current_ceip_accepted_def vcenter_appliance_ceip_get_def
  vcenter_appliances_ntp_get_def vcenter_shell_shell_get_def vcenter_cluster_get_or_none_def vcenter_cluster_get_def
  vcenter_datacenter_get_by_name_def find_local_def vcenter_content_library_find_libraries_def
  vcenter_content_library_get_or_none_def vcenter_content_library_get_def vcenter_host_get_or_none_def
  vcenter_host_get_def vcenter_localos_user_get_or_none_def vcenter_localos_user_get_def
  vcenter_vm_class_get_or_none_def vcenter_vm_class_get_def vcenter_supervisor_service_get_or_none_def
  vcenter_supervisor_service_get_def

text \<open>C23: Every state of vCenter that uses its REST API keeps its contract with Salt: what it returns carries its
  name and a dict of changes, \<open>None\<close> is only the result of a dry run, and neither a satisfied dry run nor a
  failure reports a change; and in a dry run it sends only logins, \<open>GET\<close> requests and the search of the
  content libraries.\<close>

theorem vcenter_states_keep_contract:
  "keeps_contract vcenter_looks opts s (vcf_vcenter_ad_domain_ad_joined opts s v1 v2 p) \<and>
   keeps_contract vcenter_looks opts s (vcf_vcenter_ad_domain_ad_absent opts s p) \<and>
   keeps_contract vcenter_looks opts s (vcf_vcenter_appliance_dns_servers opts s v1 v2 p) \<and>
   keeps_contract vcenter_looks opts s (vcf_vcenter_appliance_logging_forwarding opts s v1 p) \<and>
   keeps_contract vcenter_looks opts s (vcf_vcenter_appliance_ceip_set opts s v1 p) \<and>
   keeps_contract vcenter_looks opts s (vcf_vcenter_appliance_ceip_disabled opts s p) \<and>
   keeps_contract vcenter_looks opts s (vcf_vcenter_appliances_ntp_servers opts s v1 p) \<and>
   keeps_contract vcenter_looks opts s (vcf_vcenter_shell_shell_access opts s v1 v2 p) \<and>
   keeps_contract vcenter_looks opts s (vcf_vcenter_cluster_present opts s p spec) \<and>
   keeps_contract vcenter_looks opts s (vcf_vcenter_cluster_absent opts s p) \<and>
   keeps_contract vcenter_looks opts s (vcf_vcenter_datacenter_present opts s v1 p) \<and>
   keeps_contract vcenter_looks opts s (vcf_vcenter_datacenter_absent opts s p) \<and>
   keeps_contract vcenter_looks opts s (vcf_vcenter_content_library_present opts s v1 v2 p) \<and>
   keeps_contract vcenter_looks opts s (vcf_vcenter_content_library_absent opts s p) \<and>
   keeps_contract vcenter_looks opts s (vcf_vcenter_host_present opts s p) \<and>
   keeps_contract vcenter_looks opts s (vcf_vcenter_host_absent opts s p) \<and>
   keeps_contract vcenter_looks opts s (vcf_vcenter_host_maintenance opts s v1 p) \<and>
   keeps_contract vcenter_looks opts s (vcf_vcenter_localos_user_present opts s v1 v2 v3 v4 v5 p) \<and>
   keeps_contract vcenter_looks opts s (vcf_vcenter_localos_user_absent opts s p) \<and>
   keeps_contract vcenter_looks opts s (vcf_vcenter_vm_class_present opts s v1 v2 p spec) \<and>
   keeps_contract vcenter_looks opts s (vcf_vcenter_vm_class_absent opts s p) \<and>
   keeps_contract vcenter_looks opts s (vcf_vcenter_supervisor_service_activated opts s p) \<and>
   keeps_contract vcenter_looks opts s (vcf_vcenter_supervisor_service_deactivated opts s p) \<and>
   keeps_contract vcenter_looks opts s (vcf_vcenter_supervisor_service_absent opts s p)"
  unfolding vcenter_state_defs
  by (intro conjI keeps_contractI; (intro spec_intros)?; auto simp: vcenter_lookup_defs intro!: spec_intros split: list.split)

subsection \<open>Convergence of the settings\<close>

interpretation vc_dns_document: rest_document "vcenter_view opts p keep (insert vcenter_appliance_DNS P)"
  "vcenter_appliance_dns_get opts p" "\<lambda>xs. vcenter_appliance_dns_set opts (PList xs) mode p" vcenter_appliance_DNS
  "\<lambda>xs d. keep ''PUT'' vcenter_appliance_DNS (PDict [(''mode'', mode), (''servers'', PList xs)]) (Some d)"
  for opts p keep P mode
  by (rule vcenter_rest_document) (simp_all add: vcenter_appliance_dns_get_def vcenter_appliance_dns_set_def)

interpretation vc_shell_document: rest_document "vcenter_view opts p keep (insert vcenter_shell_SHELL P)"
  "vcenter_shell_shell_get opts p" "\<lambda>b. vcenter_shell_shell_set opts (PBool b) timeout p" vcenter_shell_SHELL
  "\<lambda>b d. keep ''PUT'' vcenter_shell_SHELL (PDict (set_given [(''enabled'', PBool b)] ''timeout'' timeout)) (Some d)"
  for opts p keep P timeout
  by (rule vcenter_rest_document)
    (simp_all add: vcenter_shell_shell_get_def vcenter_shell_shell_set_def set_given_def Let_def)

interpretation vc_ceip_document: rest_document "vcenter_view opts p keep (insert vcenter_appliance_CEIP P)"
  "vcenter_appliance_ceip_get opts p" "\<lambda>b. vcenter_appliance_ceip_set opts (PBool b) p" vcenter_appliance_CEIP
  "\<lambda>b d. keep ''PUT'' vcenter_appliance_CEIP (PDict [(''accepted'', PBool b)]) (Some d)"
  for opts p keep P
  by (rule vcenter_rest_document) (simp_all add: vcenter_appliance_ceip_get_def vcenter_appliance_ceip_set_def)

abbreviation vm_class_path :: "string \<Rightarrow> string" where
  "vm_class_path name \<equiv> vcenter_vm_class_PATH @ ''/'' @ name"

interpretation vm_class_document: rest_document "vcenter_view opts p keep (insert (vm_class_path name) P)"
  "vcenter_vm_class_get opts (PStr name) p" "\<lambda>b. vcenter_vm_class_update opts (PStr name) (PDict b) p" "vm_class_path name"
  "\<lambda>b d. keep ''PATCH'' (vm_class_path name) (PDict b) (Some d)"
  for opts p keep P name
  by (rule vcenter_rest_document) (simp_all add: vcenter_vm_class_get_def vcenter_vm_class_update_def)

text \<open>What the documents have to say for the states to be satisfied.\<close>

definition dns_settled :: "string list \<Rightarrow> string \<Rightarrow> dict \<Rightarrow> bool" where
  "dns_settled ss mode d \<longleftrightarrow> dget d ''mode'' PNone = PStr mode \<and> holds_servers ''servers'' ss d"

lemma py_eq_str_right: "py_eq x (PStr s) \<longleftrightarrow> x = PStr s"
  by (cases x) auto

lemma dns_converges:
  assumes keep: "put_replaces keep" and real: "\<not> test_mode opts"
  shows "converges (holding (vcenter_view opts p keep (insert vcenter_appliance_DNS P)) vcenter_appliance_DNS (lists_servers ''servers''))
    (vcf_vcenter_appliance_dns_servers opts name (PList (map PStr ss)) (PStr mode) p)
    (reached vcenter_appliance_DNS (dns_settled ss mode))"
proof (rule vc_dns_document.converge [where mode = "PStr mode"])
  fix m w d w1 assume ok: "lists_servers ''servers'' d" and run: "vcenter_appliance_dns_get opts p w = Some (Ok (PDict d), w1)"
  from ok obtain hs where hs: "py_or (dget d ''servers'' PNone) (PList []) = PList (map PStr hs)"
    by (auto simp: lists_servers_def)
  let ?ds = "[(dget d ''mode'' PNone \<noteq> PStr mode, ''mode='' @ mode, ''mode'', old_new (dget d ''mode'' PNone) (PStr mode)),
    (mset hs \<noteq> mset ss, ''servers'', ''servers'', old_new (PList (map PStr (sort hs))) (PList (map PStr (sort ss))))]"
  let ?prog = "vcf_vcenter_appliance_dns_servers opts name (PList (map PStr ss)) (PStr mode) p"
  have prog: "?prog w = apply_drift opts name ''DNS already configured'' ''DNS would change: '' ''DNS updated: '' ?ds
      (vcenter_appliance_dns_set opts (PList (map PStr ss)) (PStr mode) p) w1"
    by (simp add: vcf_vcenter_appliance_dns_servers_def py_get_def run hs py_sorted_strings py_eq_str_lists sort_eq_mset
        py_eq_str_right)
  have same: "dns_settled ss mode d \<longleftrightarrow> list_all (\<lambda>d. \<not> fst d) ?ds"
    using hs by (auto simp: dns_settled_def holds_servers_def)
  show "\<exists>r. ?prog w = Some (Ok r, w1) \<and> outcome r = (Some True, empty_dict)" if "dns_settled ss mode d"
    using that unfolding prog same by (simp add: apply_drift_def outcome_def)
  show "\<exists>xs r. (\<forall>v w2. vcenter_appliance_dns_set opts (PList xs) (PStr mode) p w1 = Some (Ok v, w2) \<longrightarrow> ?prog w = Some (Ok r, w2)) \<and>
      ret_result r = Some True \<and>
      lists_servers ''servers'' (keep ''PUT'' vcenter_appliance_DNS (PDict [(''mode'', PStr mode), (''servers'', PList xs)]) (Some d)) \<and>
      dns_settled ss mode (keep ''PUT'' vcenter_appliance_DNS (PDict [(''mode'', PStr mode), (''servers'', PList xs)]) (Some d))"
    if view: "vcenter_view opts p keep (insert vcenter_appliance_DNS P) m w" and "\<not> dns_settled ss mode d"
  proof -
    from vcenter_view_opts [OF view] real obtain t where "py_item opts ''test'' = Ok t" "\<not> truthy t" by blast
    note acts = apply_drift_acts [OF this that(2) [unfolded same]]
    show ?thesis unfolding prog
      by (intro exI [of _ "map PStr ss"] exI conjI allI impI, erule acts)
        (use keep in \<open>auto simp: put_replaces_def lists_servers_def dns_settled_def holds_servers_def py_or_list dget_def\<close>)
  qed
qed

definition shell_settled :: "pyval \<Rightarrow> pyval \<Rightarrow> dict \<Rightarrow> bool" where
  "shell_settled enabled timeout d \<longleftrightarrow> truthy (dget d ''enabled'' PNone) = truthy enabled \<and>
     (timeout = PNone \<or> py_eq (dget d ''timeout'' PNone) timeout)"

lemma shell_converges:
  assumes keep: "put_replaces keep" and real: "\<not> test_mode opts" and timeout: "wf_py timeout"
  shows "converges (holding (vcenter_view opts p keep (insert vcenter_shell_SHELL P)) vcenter_shell_SHELL (\<lambda>_. True))
    (vcf_vcenter_shell_shell_access opts name enabled timeout p) (reached vcenter_shell_SHELL (shell_settled enabled timeout))"
proof (rule vc_shell_document.converge [where timeout = timeout])
  fix m w d w1 assume run: "vcenter_shell_shell_get opts p w = Some (Ok (PDict d), w1)"
  let ?e = "dget d ''enabled'' PNone" and ?t = "dget d ''timeout'' PNone" and ?want = "PBool (truthy enabled)"
  let ?ds = "[(truthy ?e \<noteq> truthy enabled, ''enabled='' @ py_str ?want, ''enabled'', old_new ?e ?want),
    (timeout \<noteq> PNone \<and> \<not> py_eq ?t timeout, ''timeout='' @ py_str timeout, ''timeout'', old_new ?t timeout)]"
  let ?prog = "vcf_vcenter_shell_shell_access opts name enabled timeout p"
  have prog: "?prog w = apply_drift opts name ''Shell access already configured'' ''Shell access would change: ''
      ''Shell access updated: '' ?ds (vcenter_shell_shell_set opts ?want timeout p) w1"
    by (simp add: vcf_vcenter_shell_shell_access_def py_get_def run Let_def)
  have same: "shell_settled enabled timeout d \<longleftrightarrow> list_all (\<lambda>d. \<not> fst d) ?ds"
    by (auto simp: shell_settled_def)
  show "\<exists>r. ?prog w = Some (Ok r, w1) \<and> outcome r = (Some True, empty_dict)" if "shell_settled enabled timeout d"
    using that unfolding prog same by (simp add: apply_drift_def outcome_def)
  show "\<exists>b r. (\<forall>v w2. vcenter_shell_shell_set opts (PBool b) timeout p w1 = Some (Ok v, w2) \<longrightarrow> ?prog w = Some (Ok r, w2)) \<and>
      ret_result r = Some True \<and> True \<and>
      shell_settled enabled timeout
        (keep ''PUT'' vcenter_shell_SHELL (PDict (set_given [(''enabled'', PBool b)] ''timeout'' timeout)) (Some d))"
    if view: "vcenter_view opts p keep (insert vcenter_shell_SHELL P) m w" and "\<not> shell_settled enabled timeout d"
  proof -
    from vcenter_view_opts [OF view] real obtain t where "py_item opts ''test'' = Ok t" "\<not> truthy t" by blast
    note acts = apply_drift_acts [OF this that(2) [unfolded same]]
    show ?thesis unfolding prog
      by (intro exI [of _ "truthy enabled"] exI conjI allI impI, erule acts)
        (use keep timeout in \<open>auto simp: put_replaces_def shell_settled_def set_given_def dget_def py_eq_refl\<close>)
  qed
qed

lemma ceip_converges:
  assumes keep: "put_replaces keep" and real: "\<not> test_mode opts"
  shows "converges (holding (vcenter_view opts p keep (insert vcenter_appliance_CEIP P)) vcenter_appliance_CEIP (\<lambda>_. True))
    (vcf_vcenter_appliance_ceip_set opts name accepted p)
    (reached vcenter_appliance_CEIP (\<lambda>d. ceip_accepted (PDict d) = truthy accepted))"
proof (rule vc_ceip_document.converge)
  fix m w d w1 assume run: "vcenter_appliance_ceip_get opts p w = Some (Ok (PDict d), w1)"
  note eval = vcf_vcenter_appliance_ceip_set_def current_ceip_accepted_def run Let_def
  show "\<exists>r. vcf_vcenter_appliance_ceip_set opts name accepted p w = Some (Ok r, w1) \<and> outcome r = (Some True, empty_dict)"
    if "ceip_accepted (PDict d) = truthy accepted"
    using that by (simp add: eval outcome_def)
  show "\<exists>b r. (\<forall>v w2. vcenter_appliance_ceip_set opts (PBool b) p w1 = Some (Ok v, w2) \<longrightarrow>
        vcf_vcenter_appliance_ceip_set opts name accepted p w = Some (Ok r, w2)) \<and> ret_result r = Some True \<and> True \<and>
      ceip_accepted (PDict (keep ''PUT'' vcenter_appliance_CEIP (PDict [(''accepted'', PBool b)]) (Some d))) = truthy accepted"
    if view: "vcenter_view opts p keep (insert vcenter_appliance_CEIP P) m w" and "ceip_accepted (PDict d) \<noteq> truthy accepted"
  proof -
    from vcenter_view_opts [OF view] real obtain t where t: "py_item opts ''test'' = Ok t" "\<not> truthy t" by blast
    have other: "ceip_accepted (PDict d) = (\<not> truthy accepted)" using that(2) by blast
    have "ceip_accepted (PDict [(''accepted'', PBool b)]) = b" for b
      by (simp add: ceip_accepted_def dget_def)
    with t keep show ?thesis
      by (cases "truthy accepted"; intro exI [of _ "truthy accepted"] exI)
        (auto simp: eval other unless_test_def put_replaces_def)
  qed
qed

lemma differing_run: "\<exists>diff. differing (PDict d) wanted = Ok diff \<and> (diff = [] \<longleftrightarrow> fields_match wanted d)"
proof -
  have "differing (PDict d) wanted = Ok (filter (\<lambda>(k, v). \<not> py_eq (dget d k PNone) v) wanted)"
    unfolding differing_def by (rule filterR_Ok) (auto simp: py_get_def)
  then show ?thesis by (auto simp: fields_match_def filter_empty_conv)
qed

abbreviation vm_class_fields :: "string \<Rightarrow> pyval \<Rightarrow> pyval \<Rightarrow> dict \<Rightarrow> dict" where
  "vm_class_fields name cpu_count memory_MB spec \<equiv> filter (\<lambda>(k, v). k \<noteq> ''id'') (vm_class_desired name cpu_count memory_MB spec)"


lemma vm_class_fields_distinct: "distinct (map fst spec) \<Longrightarrow> distinct (map fst (vm_class_fields name cpu_count memory_MB spec))"
  unfolding vm_class_desired_def by (intro distinct_filter_keys distinct_dupdate)

lemma dset_values: "(k, v) \<in> set (dset d k' v') \<Longrightarrow> (k, v) \<in> set d \<or> v = v'"
  by (induction d k' v' rule: dset.induct) (auto split: if_splits)

lemma vm_class_converges:
  assumes keep: "patch_merges keep" and real: "\<not> test_mode opts"
    and spec: "distinct (map fst spec)" "\<forall>(k, v) \<in> set spec. wf_py v" "wf_py cpu_count" "wf_py memory_MB"
  shows "converges (holding (vcenter_view opts p keep (insert (vm_class_path name) P)) (vm_class_path name) (\<lambda>_. True))
    (vcf_vcenter_vm_class_present opts name cpu_count memory_MB p spec)
    (reached (vm_class_path name) (fields_match (vm_class_fields name cpu_count memory_MB spec)))"
proof (rule vm_class_document.converge)
  let ?fields = "vm_class_fields name cpu_count memory_MB spec"
  let ?prog = "vcf_vcenter_vm_class_present opts name cpu_count memory_MB p spec"
  have wf: "\<forall>(k, v) \<in> set ?fields. wf_py v"
    using spec(2-4) by (auto simp: vm_class_desired_def dest!: dset_values)
  fix m w d w1 assume run: "vcenter_vm_class_get opts (PStr name) p w = Some (Ok (PDict d), w1)"
  have found: "vcenter_vm_class_get_or_none opts (PStr name) p w = Some (Ok (PDict d), w1)"
    by (simp add: vcenter_vm_class_get_or_none_def none_if_missing_run run)
  obtain drift where drift: "differing (PDict d) ?fields = Ok drift" "drift = [] \<longleftrightarrow> fields_match ?fields d"
    using differing_run by blast
  show "\<exists>r. ?prog w = Some (Ok r, w1) \<and> outcome r = (Some True, empty_dict)" if "fields_match ?fields d"
    using that found drift by (simp add: vcf_vcenter_vm_class_present_def Let_def outcome_def)
  show "\<exists>b r. (\<forall>v w2. vcenter_vm_class_update opts (PStr name) (PDict b) p w1 = Some (Ok v, w2) \<longrightarrow> ?prog w = Some (Ok r, w2)) \<and>
      ret_result r = Some True \<and> True \<and> fields_match ?fields (keep ''PATCH'' (vm_class_path name) (PDict b) (Some d))"
    if view: "vcenter_view opts p keep (insert (vm_class_path name) P) m w" and "\<not> fields_match ?fields d"
  proof -
    from vcenter_view_opts [OF view] real obtain t where t: "py_item opts ''test'' = Ok t" "\<not> truthy t" by blast
    have "fields_match ?fields (dupdate d ?fields)"
      using wf map_of_overlay [OF vm_class_fields_distinct [OF spec(1)]]
      by (auto simp: fields_match_def py_eq_refl)
    with t found drift that(2) keep show ?thesis
      by (intro exI [of _ ?fields] exI) (auto simp: vcf_vcenter_vm_class_present_def Let_def unless_test_def patch_merges_def)
  qed
qed

text \<open>C22: The states on the settings of vCenter converge: on a vCenter that keeps its documents (a \<open>PUT\<close> replaces,
  a \<open>PATCH\<close> merges), one real run of the state on the resolvers, the shell, CEIP or an existing VM class
  succeeds and leaves the document as wanted - the servers in any order, a timeout only where one is given, of
  a VM class every wanted field -, and a second run reports no change, sends nothing but \<open>GET\<close> and leaves the document as it is.\<close>

theorem vcenter_settings_converge:
  assumes keep: "put_replaces keep" "patch_merges keep" and real: "\<not> test_mode opts" and timeout: "wf_py timeout"
    and spec: "distinct (map fst spec)" "\<forall>(k, v) \<in> set spec. wf_py v" "wf_py cpu_count" "wf_py memory_MB"
  shows "converges (holding (vcenter_view opts p keep (insert vcenter_appliance_DNS P)) vcenter_appliance_DNS (lists_servers ''servers''))
      (vcf_vcenter_appliance_dns_servers opts name (PList (map PStr ss)) (PStr mode) p)
      (reached vcenter_appliance_DNS (dns_settled ss mode)) \<and>
    converges (holding (vcenter_view opts p keep (insert vcenter_shell_SHELL P)) vcenter_shell_SHELL (\<lambda>_. True))
      (vcf_vcenter_shell_shell_access opts name enabled timeout p)
      (reached vcenter_shell_SHELL (shell_settled enabled timeout)) \<and>
    converges (holding (vcenter_view opts p keep (insert vcenter_appliance_CEIP P)) vcenter_appliance_CEIP (\<lambda>_. True))
      (vcf_vcenter_appliance_ceip_set opts name accepted p)
      (reached vcenter_appliance_CEIP (\<lambda>d. ceip_accepted (PDict d) = truthy accepted)) \<and>
    converges (holding (vcenter_view opts p keep (insert (vm_class_path name) P)) (vm_class_path name) (\<lambda>_. True))
      (vcf_vcenter_vm_class_present opts name cpu_count memory_MB p spec)
      (reached (vm_class_path name) (fields_match (vm_class_fields name cpu_count memory_MB spec)))"
  by (intro conjI dns_converges shell_converges ceip_converges vm_class_converges keep real timeout spec)

lemma vcenter_settings_converge_witness:
  "\<exists>r1 w1 r2 w2. vcf_vcenter_shell_shell_access (opts_run_for ''vcenter'') ''shell'' (PBool False) (PInt 10) None
        (logged_in (store_world ''https://h'' plain_keep (\<lambda>_. Some [(''enabled'', PBool True)]))) = Some (Ok r1, w1) \<and>
      ret_result r1 = Some True \<and>
      vcf_vcenter_shell_shell_access (opts_run_for ''vcenter'') ''shell'' (PBool False) (PInt 10) None w1 = Some (Ok r2, w2) \<and>
      outcome r2 = (Some True, empty_dict) \<and> only_gets w1 w2"
proof -
  let ?m = "\<lambda>_. Some [(''enabled'', PBool True)]"
  have "holding (vcenter_view (opts_run_for ''vcenter'') None plain_keep (insert vcenter_shell_SHELL {})) vcenter_shell_SHELL
      (\<lambda>_. True) ?m (logged_in (store_world ''https://h'' plain_keep ?m))"
    by (simp add: holding_def vcenter_store_world)
  moreover have "wf_py (PInt 10)" "distinct (map fst ([] :: dict))" "\<forall>(k, v) \<in> set ([] :: dict). wf_py v" "wf_py (PInt 2)"
    by simp_all
  note vcenter_settings_converge [OF plain_keep_documented vcenter_config_for(2) this(1,2,3,4,4), THEN conjunct2, THEN conjunct1,
    of None "{}" "''shell''" "PBool False"]
  ultimately show ?thesis unfolding converges_def by blast
qed

subsection \<open>A datacenter that is created and reported as a failure\<close>

text \<open>C33: The creation of a datacenter is reported as a failure: where the service answers the creation with the
  identifier as a string - what the unit tests of the client show it to do -, \<open>present\<close> has created the
  datacenter and then raises \<open>AttributeError\<close>, since it looks for the key \<open>datacenter\<close> in that string.\<close>

theorem datacenter_present_fails_after_creation:
  assumes "vcenter_datacenter_get_by_name opts (PStr name) p w = Some (Ok PNone, w1)"
    and "vcenter_datacenter_create opts (PStr name) folder p w1 = Some (Ok (PStr moid), w2)"
    and "py_item opts ''test'' = Ok t" "\<not> truthy t"
  shows "vcf_vcenter_datacenter_present opts name folder p w = Some (Exc (attr_error (PStr moid) ''get''), w2)"
  using assms by (simp add: vcf_vcenter_datacenter_present_def unless_test_def py_get_def)

lemma datacenter_present_fails_after_creation_witness:
  "map_option fst (vcf_vcenter_datacenter_present (opts_run_for ''vcenter'') ''dc'' (PStr ''group-d1'') None
      (scripted [body_reply (PStr ''tok''), body_reply (PList []), body_reply (PStr ''datacenter-7'')])) =
    Some (Exc (attr_error (PStr ''datacenter-7'') ''get''))"
proof -
  let ?w = "scripted [body_reply (PStr ''tok''), body_reply (PList []), body_reply (PStr ''datacenter-7'')]"
  have look: "map_option fst (vcenter_datacenter_get_by_name (opts_run_for ''vcenter'') (PStr ''dc'') None ?w) = Some (Ok PNone)"
    by code_simp
  have create: "map_option fst (vcenter_datacenter_create (opts_run_for ''vcenter'') (PStr ''dc'') (PStr ''group-d1'') None
      (snd (the (vcenter_datacenter_get_by_name (opts_run_for ''vcenter'') (PStr ''dc'') None ?w)))) = Some (Ok (PStr ''datacenter-7''))"
    by code_simp
  from datacenter_present_fails_after_creation [OF run_result [OF look] run_result [OF create] vcenter_config_for(4)]
  show ?thesis by simp
qed

end
