(* ===== verification/Installer_Topology.thy ===== *)
theory Installer_Topology
  imports Rest_Client Rest_Store Builtins
begin

section \<open>Installer_Topology: the pillar of the Installer workflow\<close>

text \<open>
  \<open>clients/installer_topology.py\<close> (validation of the pillar), \<open>clients/automation_topology.py\<close> (translation of
  another shape of pillar into it) and the part of \<open>clients/installer_appliance.py\<close> that reads it, with their
  execution modules and states. How the OVA is pushed (\<open>ovf_deploy.py\<close> over pyVmomi, \<open>ovftool_deploy.py\<close> as a
  subprocess) and the socket are parameters.
\<close>

subsection \<open>\<open>clients/installer_topology.py\<close>\<close>

text \<open>A validation function returns the errors and the warnings it adds, in order.\<close>

type_synonym report = "string list \<times> string list"

definition both :: "report res \<Rightarrow> report res \<Rightarrow> report res" where
  "both a b = bindR a (\<lambda>(es, ws). bindR b (\<lambda>(es', ws'). Ok (es @ es', ws @ ws')))"

definition error_if :: "bool \<Rightarrow> string \<Rightarrow> report" where
  "error_if b message = (if b then ([message], []) else ([], []))"

definition warn_if :: "bool \<Rightarrow> string \<Rightarrow> report" where
  "warn_if b message = (if b then ([], [message]) else ([], []))"

text \<open>\<open>for key in keys: if not d.get(key): errors.append(f"...{key} is required")\<close>.\<close>

fun require_keys :: "string \<Rightarrow> pyval \<Rightarrow> string list \<Rightarrow> report res" where
  "require_keys part d [] = Ok ([], [])"
| "require_keys part d (k # ks) =
     both (bindR (py_get d k PNone) (\<lambda>v. Ok (error_if (\<not> truthy v) (part @ ''.'' @ k @ '' is required''))))
       (require_keys part d ks)"

text \<open>\<open>_host_entry\<close> and \<open>_known_host_names\<close>; the names are a set, in the order they were added.\<close>

fun host_entry :: "pyval list \<Rightarrow> pyval \<Rightarrow> pyval res" where
  "host_entry [] v = Ok PNone"
| "host_entry (host # hosts) v =
     bindR (py_get host ''fqdn'' PNone) (\<lambda>fqdn.
     bindR (py_get host ''ip'' PNone) (\<lambda>ip.
     if py_eq v fqdn \<or> py_eq v ip then Ok host else host_entry hosts v))"

text \<open>\<open>fqdn.split(".", 1)[0]\<close>.\<close>

definition short_name :: "pyval \<Rightarrow> pyval res" where
  "short_name fqdn =
     (case fqdn of PStr s \<Rightarrow> Ok (PStr (takeWhile (\<lambda>c. c \<noteq> CHR ''.'') s)) | _ \<Rightarrow> Exc (attr_error fqdn ''split''))"

fun known_host_names :: "pyval list \<Rightarrow> pyval list res" where
  "known_host_names [] = Ok []"
| "known_host_names (host # hosts) =
     bindR (py_get host ''fqdn'' PNone) (\<lambda>fqdn.
     bindR (py_get host ''ip'' PNone) (\<lambda>ip.
     bindR (if truthy fqdn then bindR (hashed fqdn) (\<lambda>f. bindR (short_name f) (\<lambda>s. Ok [f, s])) else Ok []) (\<lambda>names.
     bindR (if truthy ip then bindR (hashed ip) (\<lambda>i. Ok [i]) else Ok []) (\<lambda>ips.
     bindR (known_host_names hosts) (\<lambda>rest. Ok (names @ ips @ rest))))))"

definition APPLIANCE_REQUIRED :: "string list" where
  "APPLIANCE_REQUIRED = [''installer_host'', ''installer_ova_url'', ''installer_vm_name'', ''installer_deploy_esxi'']"

definition py_lower :: "pyval \<Rightarrow> string res" where
  "py_lower v = (case v of PStr s \<Rightarrow> Ok (lower s) | _ \<Rightarrow> Exc (attr_error v ''lower''))"

definition validate_backend :: "pyval \<Rightarrow> report res" where
  "validate_backend appliance =
     bindR (py_get appliance ''deployment_backend'' PNone) (\<lambda>b.
     bindR (py_lower (py_or b (PStr ''pyvmomi''))) (\<lambda>backend.
     both (Ok (error_if (backend \<notin> {''pyvmomi'', ''ovftool''})
         (''installer_appliance.deployment_backend must be '' @ repr_str ''pyvmomi'' @ '' or '' @ repr_str ''ovftool''
           @ '' (got '' @ repr_str backend @ '')'')))
       (if backend = ''ovftool'' then
          bindR (py_get appliance ''datastore'' PNone) (\<lambda>ds.
          bindR (py_get appliance ''disk_provisioning'' PNone) (\<lambda>dp.
          both (Ok (warn_if (\<not> truthy ds) ''ovftool backend should specify installer_appliance.datastore''))
            (Ok (warn_if (dp \<noteq> PStr ''thin'')
              (''ovftool backend should use installer_appliance.disk_provisioning: thin ''
                @ ''for the VCF Installer OVA'')))))
        else Ok ([], []))))"

definition validate_appliance :: "pyval \<Rightarrow> report res" where
  "validate_appliance appliance =
     both (require_keys ''installer_appliance'' appliance APPLIANCE_REQUIRED)
       (bindR (py_get appliance ''esxi_hosts'' PNone) (\<lambda>h.
        let hosts = py_or h (PList []) in
        both (Ok (error_if (\<not> truthy hosts) ''installer_appliance.esxi_hosts must contain at least one host''))
          (bindR (py_get appliance ''installer_deploy_esxi'' PNone) (\<lambda>target.
           both (if truthy target then
               bindR (bindR (py_iter hosts) (\<lambda>hs. host_entry hs target)) (\<lambda>entry.
               Ok (error_if (\<not> truthy entry)
                 (''installer_appliance.installer_deploy_esxi must match an esxi_hosts ''
                   @ ''entry by fqdn or ip (got '' @ py_repr target @ '')'')))
             else Ok ([], []))
             (validate_backend appliance)))))"

definition spec_path :: "int \<Rightarrow> string" where
  "spec_path idx = ''bringup_spec.hostSpecs['' @ int_str idx @ '']''"

fun validate_hosts :: "pyval list \<Rightarrow> int \<Rightarrow> pyval list \<Rightarrow> report res" where
  "validate_hosts known idx [] = Ok ([], [])"
| "validate_hosts known idx (host # hosts) =
     both
       (bindR (py_get host ''hostname'' PNone) (\<lambda>hostname.
        if \<not> truthy hostname then Ok ([spec_path idx @ ''.hostname is required''], [])
        else
          both
            (if known = [] then Ok ([], [])
             else bindR (hashed hostname) (\<lambda>h.
               Ok (warn_if (\<not> list_ex (py_eq h) known)
                 (spec_path idx @ ''.hostname '' @ py_repr h @ '' does not match ''
                   @ ''installer_appliance.esxi_hosts short name, fqdn, or ip''))))
            (bindR (py_get host ''credentials'' PNone) (\<lambda>c.
             let creds = py_or c empty_dict in
             bindR (py_get creds ''username'' PNone) (\<lambda>u.
             bindR (if truthy u then py_get creds ''password'' PNone else Ok PNone) (\<lambda>p.
             Ok (error_if (\<not> truthy u \<or> \<not> truthy p) (spec_path idx @ ''.credentials.username/password are required''))))))))
       (validate_hosts known (idx + 1) hosts)"

text \<open>\<open>len(v)\<close>.\<close>

definition py_len :: "pyval \<Rightarrow> nat res" where
  "py_len v =
     (case v of
        PList xs \<Rightarrow> Ok (length xs) | PDict d \<Rightarrow> Ok (length d) | PStr s \<Rightarrow> Ok (length s)
      | _ \<Rightarrow> Exc (TypeError (''object of type '' @ repr_str (type_name v) @ '' has no len()'')))"

definition BRINGUP_KEYS :: "string list" where
  "BRINGUP_KEYS = [''sddcId'', ''workflowType'', ''dnsSpec'', ''hostSpecs'']"

definition BRINGUP_SPECS :: "string list" where
  "BRINGUP_SPECS = [''sddcManagerSpec'', ''vcenterSpec'', ''nsxtSpec'', ''datastoreSpec'', ''clusterSpec'']"

definition NETWORK_TYPES :: "string list" where
  "NETWORK_TYPES = [''MANAGEMENT'', ''VMOTION'', ''VSAN'']"

definition validate_dns :: "pyval \<Rightarrow> report res" where
  "validate_dns bringup =
     bindR (py_get bringup ''dnsSpec'' PNone) (\<lambda>d.
     let dns = py_or d empty_dict in
     if \<not> truthy dns then Ok ([], [])
     else
       bindR (py_get dns ''subdomain'' PNone) (\<lambda>s.
       bindR (if truthy s then py_get dns ''nameservers'' PNone else Ok PNone) (\<lambda>n.
       Ok (error_if (\<not> truthy s \<or> \<not> truthy n) ''bringup_spec.dnsSpec.subdomain and nameservers are required''))))"

definition validate_networks :: "pyval \<Rightarrow> report res" where
  "validate_networks bringup =
     bindR (py_get bringup ''networkSpecs'' PNone) (\<lambda>n.
     bindR (py_iter (py_or n (PList []))) (\<lambda>specs.
     bindR (mapR (\<lambda>x. bindR (py_get x ''networkType'' PNone) hashed) specs) (\<lambda>types.
     Ok (map (\<lambda>t. ''bringup_spec.networkSpecs must include '' @ t)
           (filter (\<lambda>t. PStr t \<notin> set types) NETWORK_TYPES), []))))"

definition validate_bringup :: "pyval \<Rightarrow> pyval \<Rightarrow> report res" where
  "validate_bringup bringup appliance =
     (if \<not> truthy bringup then Ok ([''bringup_spec is required''], [])
      else
        both (require_keys ''bringup_spec'' bringup BRINGUP_KEYS)
          (bindR (py_get bringup ''hostSpecs'' PNone) (\<lambda>h.
           let host_specs = py_or h (PList []) in
           both (bindR (py_len host_specs) (\<lambda>n.
               Ok (error_if (n < 3) ''bringup_spec.hostSpecs must contain at least three ESXi hosts'')))
             (bindR (py_get appliance ''esxi_hosts'' PNone) (\<lambda>a.
              bindR (bindR (py_iter (py_or a (PList []))) known_host_names) (\<lambda>known.
              both (bindR (py_iter host_specs) (validate_hosts known 0))
                (both (validate_dns bringup)
                  (both (require_keys ''bringup_spec'' bringup BRINGUP_SPECS) (validate_networks bringup)))))))))"

definition installer_topology_validate :: "pyval \<Rightarrow> report res" where
  "installer_topology_validate spec =
     (let root = py_or spec empty_dict in
      bindR (py_get root ''installer_appliance'' PNone) (\<lambda>a.
      bindR (py_get root ''bringup_spec'' PNone) (\<lambda>b.
      let appliance = py_or a empty_dict; bringup = py_or b empty_dict in
      both (validate_appliance appliance) (validate_bringup bringup appliance))))"

text \<open>The dict it returns.\<close>

definition report_value :: "report \<Rightarrow> pyval" where
  "report_value r =
     PDict [(''valid'', PBool (fst r = [])), (''errors'', PList (map PStr (fst r))), (''warnings'', PList (map PStr (snd r)))]"

subsection \<open>\<open>clients/automation_topology.py\<close>\<close>

text \<open>\<open>deepcopy\<close> of a value is the value. \<open>d.setdefault(k, v)\<close>, on a value that may not be a dict.\<close>

definition setdefault :: "dict \<Rightarrow> string \<Rightarrow> pyval \<Rightarrow> dict" where
  "setdefault d k v = (if map_of d k = None then dset d k v else d)"

definition py_dict_method :: "pyval \<Rightarrow> string \<Rightarrow> dict res" where
  "py_dict_method v m = (case v of PDict d \<Rightarrow> Ok d | _ \<Rightarrow> Exc (attr_error v m))"

text \<open>\<open>{k: v for k, v in (conn or {}).items() if v is not None}\<close>.\<close>

definition topology_connection :: "pyval \<Rightarrow> pyval res" where
  "topology_connection conn =
     bindR (py_dict_method (py_or conn empty_dict) ''items'') (\<lambda>d. Ok (PDict (filter (\<lambda>(k, v). v \<noteq> PNone) d)))"

definition INSTALLER_FIELDS :: "string list" where
  "INSTALLER_FIELDS =
     [''installer_host'', ''installer_port'', ''installer_ova_url'', ''installer_deploy_esxi'', ''installer_vm_name'',
      ''esxi_hosts'', ''network_map'', ''ovf_properties'', ''datastore'', ''disk_provisioning'', ''power_on'',
      ''verify_ssl'', ''upload_timeout'', ''timeout_sec'', ''polling_interval_sec'']"

text \<open>The fields of \<open>installer\<close> that are there, in the order of \<open>fields\<close>.\<close>

definition fields_present :: "dict \<Rightarrow> string list \<Rightarrow> dict" where
  "fields_present d ks = concat (map (\<lambda>k. case map_of d k of Some v \<Rightarrow> [(k, v)] | None \<Rightarrow> []) ks)"

definition topology_installer_appliance :: "dict \<Rightarrow> dict" where
  "topology_installer_appliance installer =
     (let out = fields_present installer INSTALLER_FIELDS;
          out = setdefault out ''deployment_backend'' (dget installer ''deployment_backend'' (PStr ''ovftool''));
          out = (if truthy (dget installer ''ovftool_path'' PNone)
            then dset out ''ovftool_path'' (dget installer ''ovftool_path'' PNone) else out) in
      if truthy (dget installer ''ovftool_extra_args'' PNone)
        then dset out ''ovftool_extra_args'' (dget installer ''ovftool_extra_args'' PNone) else out)"

definition native_topology_key :: "string \<Rightarrow> string" where
  "native_topology_key key =
     (if key = ''nsxt'' then ''nsxt_topology''
      else if key \<in> {''sddc_manager'', ''vcenter''} then key @ ''_topology'' else key)"

definition TOPOLOGY_KEYS :: "string list" where
  "TOPOLOGY_KEYS = [''sddc_manager'', ''vcenter'', ''esxi_hosts'', ''nsxt'', ''poc_validation'']"

definition CONNECTIONS :: "(string \<times> string) list" where
  "CONNECTIONS =
     [(''vcf_installer'', ''vcf_installer''), (''sddc_manager'', ''sddc_manager''), (''vcenter'', ''vcenter''), (''nsx'', ''nsxt'')]"

text \<open>\<open>native.setdefault(name, _connection(connections.get(key, {})))\<close> for each of the four.\<close>

fun add_connections :: "dict \<Rightarrow> pyval \<Rightarrow> (string \<times> string) list \<Rightarrow> dict res" where
  "add_connections native connections [] = Ok native"
| "add_connections native connections ((name, key) # rest) =
     bindR (bindR (py_get connections key empty_dict) topology_connection) (\<lambda>c.
     add_connections (setdefault native name c) connections rest)"

definition add_installer :: "dict \<Rightarrow> pyval \<Rightarrow> dict res" where
  "add_installer native installer =
     (if \<not> truthy installer then Ok native
      else
        bindR (py_dict_method installer ''get'') (\<lambda>d.
        let native = setdefault native ''installer_appliance'' (PDict (topology_installer_appliance d));
            native = (if truthy (dget d ''sddc_spec'' PNone)
              then setdefault native ''bringup_spec'' (dget d ''sddc_spec'' PNone) else native) in
        Ok (if truthy (dget d ''timeout_sec'' PNone) \<and> map_of native ''bringup_timeout'' = None
          then dset native ''bringup_timeout'' (dget d ''timeout_sec'' PNone) else native)))"

text \<open>\<open>for key in (...): if key in topology: native.setdefault(..., deepcopy(topology[key]))\<close>.\<close>

fun add_topology :: "dict \<Rightarrow> pyval \<Rightarrow> string list \<Rightarrow> dict res" where
  "add_topology native topology [] = Ok native"
| "add_topology native topology (key # keys) =
     bindR (py_in (PStr key) topology) (\<lambda>there.
     bindR (if there then bindR (py_item topology key) (\<lambda>v. Ok (setdefault native (native_topology_key key) v)) else Ok native) (\<lambda>native.
     add_topology native topology keys))"

definition automation_topology_normalize :: "pyval \<Rightarrow> dict res" where
  "automation_topology_normalize pillar =
     bindR (py_get (py_or pillar empty_dict) ''vcf_automation'' empty_dict) (\<lambda>auto.
     bindR (py_get auto ''topology'' empty_dict) (\<lambda>t.
     bindR (py_get auto ''connections'' empty_dict) (\<lambda>c.
     let topology = py_or t empty_dict; connections = py_or c empty_dict in
     bindR (py_get topology ''vcf_installer'' empty_dict) (\<lambda>i.
     bindR (py_get (py_or pillar empty_dict) ''saltext.vcf'' empty_dict) (\<lambda>n.
     bindR (py_dict_method (py_or n empty_dict) ''setdefault'') (\<lambda>native.
     bindR (add_connections native connections CONNECTIONS) (\<lambda>native.
     bindR (add_installer native (py_or i empty_dict)) (\<lambda>native.
     add_topology native topology TOPOLOGY_KEYS))))))))"

definition automation_topology_normalized_pillar :: "pyval \<Rightarrow> dict res" where
  "automation_topology_normalized_pillar pillar =
     bindR (py_dict_method (py_or pillar empty_dict) ''get'') (\<lambda>result.
     bindR (automation_topology_normalize (PDict result)) (\<lambda>native.
     Ok (dset result ''saltext.vcf'' (PDict native))))"

subsection \<open>\<open>clients/installer_appliance.py\<close>\<close>

text \<open>\<open>connect\<close> is \<open>socket.create_connection\<close>, from address, port and timeout to whether it connected.\<close>

type_synonym connector = "pyval \<Rightarrow> int \<Rightarrow> int \<Rightarrow> bool io"

definition installer_appliance_is_appliance_reachable :: "connector \<Rightarrow> pyval \<Rightarrow> int \<Rightarrow> int \<Rightarrow> bool io" where
  "installer_appliance_is_appliance_reachable connect host port timeout = connect host port timeout"

definition installer_appliance_wait_until_reachable :: "connector \<Rightarrow> pyval \<Rightarrow> int \<Rightarrow> int \<Rightarrow> int \<Rightarrow> unit io" where
  "installer_appliance_wait_until_reachable connect host port timeout poll_interval =
     bindM (poll_for (installer_appliance_is_appliance_reachable connect host port (min 5 poll_interval)) Ok
       (\<lambda>_. py_str host @ '':'' @ int_str port @ '' not reachable within '' @ int_str timeout @ ''s'') timeout poll_interval)
       (\<lambda>_. pureM ())"

fun esxi_credentials_in :: "pyval list \<Rightarrow> pyval \<Rightarrow> (pyval \<times> pyval) option res" where
  "esxi_credentials_in [] host = Ok None"
| "esxi_credentials_in (entry # entries) host =
     bindR (py_get entry ''fqdn'' PNone) (\<lambda>fqdn.
     bindR (if py_eq fqdn host then Ok True else bindR (py_get entry ''ip'' PNone) (\<lambda>ip. Ok (py_eq ip host))) (\<lambda>match.
     if match then
       bindR (py_get entry ''username'' (PStr ''root'')) (\<lambda>u.
       bindR (py_item entry ''password'') (\<lambda>p. Ok (Some (u, p))))
     else esxi_credentials_in entries host))"

definition installer_appliance_esxi_credentials :: "pyval \<Rightarrow> pyval \<Rightarrow> (pyval \<times> pyval) res" where
  "installer_appliance_esxi_credentials spec host =
     bindR (py_get spec ''esxi_hosts'' PNone) (\<lambda>h.
     bindR (py_iter (py_or h (PList []))) (\<lambda>hosts.
     bindR (esxi_credentials_in hosts host) (\<lambda>found.
     case found of
       Some c \<Rightarrow> Ok c
     | None \<Rightarrow>
         bindR (mapR (\<lambda>e. py_get e ''fqdn'' PNone) hosts) (\<lambda>names.
         Exc (LookupError (''no esxi_hosts entry matches installer_deploy_esxi='' @ py_repr host @ ''; available: ''
           @ py_repr (PList names)))))))"

definition installer_appliance_deployment_backend :: "string \<Rightarrow> string res" where
  "installer_appliance_deployment_backend name =
     (if name \<in> {''pyvmomi'', ''ovftool''} then Ok name
      else Exc (ValueError (''unsupported installer appliance deployment_backend='' @ repr_str name)))"

text \<open>The arguments of \<open>deploy_ova\<close> that are copied out of a spec, with their defaults, and those of the \<open>ovftool\<close>
  backend alone.\<close>

definition OVA_OPTIONS :: "(string \<times> pyval) list" where
  "OVA_OPTIONS =
     [(''datastore'', PNone), (''network_map'', PNone), (''ovf_properties'', PNone), (''disk_provisioning'', PStr ''thin''),
      (''deployment_option'', PNone), (''power_on'', PBool True), (''verify_ssl'', PBool False),
      (''upload_timeout'', PInt 3600)]"

definition ova_options :: "pyval \<Rightarrow> dict res" where
  "ova_options spec =
     bindR (mapR (\<lambda>(k, dflt). py_get spec k dflt) OVA_OPTIONS) (\<lambda>vs. Ok (zip (map fst OVA_OPTIONS) vs))"

definition ovftool_options :: "pyval \<Rightarrow> dict res" where
  "ovftool_options spec =
     bindR (py_get spec ''ovftool_path'' PNone) (\<lambda>path.
     bindR (py_get spec ''ovftool_extra_args'' PNone) (\<lambda>args.
     Ok [(''ovftool_path'', py_or path (PStr ''ovftool'')), (''extra_args'', args)]))"

lemma ova_options_dict: "ova_options (PDict d) = Ok (map (\<lambda>(k, dflt). (k, dget d k dflt)) OVA_OPTIONS)"
  by (simp add: ova_options_def OVA_OPTIONS_def)

text \<open>The backend and the keyword arguments it is called with.\<close>

definition installer_kwargs :: "pyval \<Rightarrow> (string \<times> dict) res" where
  "installer_kwargs spec =
     bindR (py_item spec ''installer_deploy_esxi'') (\<lambda>target_host.
     bindR (installer_appliance_esxi_credentials spec target_host) (\<lambda>(user, password).
     bindR (py_get spec ''deployment_backend'' (PStr ''pyvmomi'')) (\<lambda>b.
     bindR (py_lower b) (\<lambda>backend.
     bindR (installer_appliance_deployment_backend backend) (\<lambda>backend.
     bindR (py_item spec ''installer_ova_url'') (\<lambda>ova.
     bindR (bindR (py_get spec ''installer_port'' (PInt 443)) py_int) (\<lambda>port.
     bindR (py_item spec ''installer_vm_name'') (\<lambda>vm_name.
     bindR (ova_options spec) (\<lambda>optional.
     let kwargs = [(''ova_source'', ova), (''target_host'', target_host), (''target_user'', user),
           (''target_password'', password), (''target_port'', PInt port), (''vm_name'', vm_name)] @ optional in
     if backend = ''ovftool'' then bindR (ovftool_options spec) (\<lambda>tool. Ok (backend, kwargs @ tool))
     else Ok (backend, kwargs))))))))))"

text \<open>\<open>push\<close> stands for the two \<open>deploy_ova\<close> functions.\<close>

type_synonym ova_push = "string \<Rightarrow> dict \<Rightarrow> pyval io"

definition installer_appliance_deploy_installer :: "ova_push \<Rightarrow> pyval \<Rightarrow> pyval io" where
  "installer_appliance_deploy_installer push spec =
     bindM (liftR (installer_kwargs spec)) (\<lambda>(backend, kwargs). push backend kwargs)"

subsection \<open>\<open>modules/vcf_installer_appliance.py\<close> and \<open>modules/vcf_installer_topology.py\<close>\<close>

definition exec_installer_appliance_resolve_spec :: "pyval \<Rightarrow> pyval \<Rightarrow> pyval res" where
  "exec_installer_appliance_resolve_spec opts installer_spec =
     (if installer_spec \<noteq> PNone then Ok installer_spec
      else
        bindR (py_get opts ''pillar'' empty_dict) (\<lambda>pillar.
        bindR (py_get pillar ''saltext.vcf'' empty_dict) (\<lambda>root.
        bindR (py_get (py_or root empty_dict) ''installer_appliance'' PNone) (\<lambda>spec.
        if \<not> truthy spec then
          Exc (KeyError (''no installer_spec provided and pillar '' @ repr_str ''saltext.vcf:installer_appliance''
            @ '' is unset''))
        else Ok spec))))"

definition exec_installer_appliance_is_reachable :: "connector \<Rightarrow> pyval \<Rightarrow> pyval \<Rightarrow> pyval \<Rightarrow> bool io" where
  "exec_installer_appliance_is_reachable connect host port timeout =
     bindM (liftR (py_int port)) (\<lambda>p. bindM (liftR (py_int timeout)) (\<lambda>t.
     installer_appliance_is_appliance_reachable connect host p t))"

definition exec_installer_appliance_wait_until_reachable ::
  "connector \<Rightarrow> pyval \<Rightarrow> pyval \<Rightarrow> pyval \<Rightarrow> pyval \<Rightarrow> bool io" where
  "exec_installer_appliance_wait_until_reachable connect host port timeout poll_interval =
     bindM (liftR (py_int port)) (\<lambda>p. bindM (liftR (py_int timeout)) (\<lambda>t. bindM (liftR (py_int poll_interval)) (\<lambda>i.
     bindM (installer_appliance_wait_until_reachable connect host p t i) (\<lambda>_. pureM True))))"

definition exec_installer_appliance_deploy :: "ova_push \<Rightarrow> pyval \<Rightarrow> pyval \<Rightarrow> pyval io" where
  "exec_installer_appliance_deploy push opts installer_spec =
     bindM (liftR (exec_installer_appliance_resolve_spec opts installer_spec)) (installer_appliance_deploy_installer push)"

text \<open>\<open>{..., **result}\<close> of a value that may not be a dict.\<close>

definition spread :: "pyval \<Rightarrow> dict res" where
  "spread v =
     (case v of PDict d \<Rightarrow> Ok d | _ \<Rightarrow> Exc (TypeError (repr_str (type_name v) @ '' object is not a mapping'')))"

definition exec_installer_appliance_ensure_running :: "connector \<Rightarrow> ova_push \<Rightarrow> pyval \<Rightarrow> pyval \<Rightarrow> dict io" where
  "exec_installer_appliance_ensure_running connect push opts installer_spec =
     bindM (liftR (exec_installer_appliance_resolve_spec opts installer_spec)) (\<lambda>spec.
     bindM (liftR (py_item spec ''installer_host'')) (\<lambda>host.
     bindM (liftR (bindR (py_get spec ''installer_port'' (PInt 443)) py_int)) (\<lambda>port.
     bindM (installer_appliance_is_appliance_reachable connect host port 5) (\<lambda>up.
     if up then pureM [(''reachable'', PBool True), (''deployed'', PBool False)]
     else
       bindM (installer_appliance_deploy_installer push spec) (\<lambda>result.
       bindM (liftR (bindR (py_get spec ''timeout_sec'' (PInt 900)) py_int)) (\<lambda>t.
       bindM (liftR (bindR (py_get spec ''polling_interval_sec'' (PInt 15)) py_int)) (\<lambda>i.
       bindM (installer_appliance_wait_until_reachable connect host port t i) (\<lambda>_.
       bindM (liftR (spread result)) (\<lambda>d.
       pureM (dupdate [(''reachable'', PBool True), (''deployed'', PBool True)] d))))))))))"

definition exec_installer_topology_resolve_spec :: "pyval \<Rightarrow> pyval \<Rightarrow> pyval res" where
  "exec_installer_topology_resolve_spec opts spec =
     (if spec \<noteq> PNone then Ok spec
      else
        bindR (py_get opts ''pillar'' empty_dict) (\<lambda>pillar.
        bindR (py_get pillar ''saltext.vcf'' empty_dict) (\<lambda>root. Ok (py_or root empty_dict))))"

definition exec_installer_topology_validate :: "pyval \<Rightarrow> pyval \<Rightarrow> report res" where
  "exec_installer_topology_validate opts spec =
     bindR (exec_installer_topology_resolve_spec opts spec) installer_topology_validate"

text \<open>\<open>modules/vcf_automation_topology.py\<close>: the pillar of the minion where none is given.\<close>

definition exec_automation_topology_normalize :: "pyval \<Rightarrow> pyval \<Rightarrow> dict res" where
  "exec_automation_topology_normalize opts pillar =
     bindR (if truthy pillar then Ok pillar else py_get opts ''pillar'' empty_dict) automation_topology_normalize"

definition exec_automation_topology_normalized_pillar :: "pyval \<Rightarrow> pyval \<Rightarrow> dict res" where
  "exec_automation_topology_normalized_pillar opts pillar =
     bindR (if truthy pillar then Ok pillar else py_get opts ''pillar'' empty_dict) automation_topology_normalized_pillar"

subsection \<open>\<open>states/vcf_installer_topology.py\<close> and \<open>states/vcf_installer_appliance.py\<close>\<close>

definition vcf_installer_topology_valid :: "pyval \<Rightarrow> string \<Rightarrow> pyval \<Rightarrow> salt_ret res" where
  "vcf_installer_topology_valid opts name spec =
     bindR (exec_installer_topology_validate opts spec) (\<lambda>(errors, warnings).
     Ok (if errors = [] then unchanged name (if warnings = [] then ''topology valid'' else join_with ''; '' warnings)
       else refused name (join_with ''; '' errors)))"

text \<open>\<open>except (RuntimeError, TimeoutError, LookupError, FileNotFoundError)\<close>; a \<open>KeyError\<close> is a \<open>LookupError\<close>.\<close>

fun deploy_failure :: "exn \<Rightarrow> bool" where
  "deploy_failure (RuntimeError _) = True"
| "deploy_failure (TimeoutError _) = True"
| "deploy_failure (LookupError _) = True"
| "deploy_failure (KeyError _) = True"
| "deploy_failure _ = False"

definition vcf_installer_appliance_running ::
  "connector \<Rightarrow> ova_push \<Rightarrow> pyval \<Rightarrow> string \<Rightarrow> pyval \<Rightarrow> salt_ret io" where
  "vcf_installer_appliance_running connect push opts name installer_spec =
     bindM (liftR (exec_installer_appliance_resolve_spec opts installer_spec)) (\<lambda>spec.
     bindM (liftR (py_item spec ''installer_host'')) (\<lambda>host.
     bindM (liftR (bindR (py_get spec ''installer_port'' (PInt 443)) py_int)) (\<lambda>port.
     bindM (exec_installer_appliance_is_reachable connect host (PInt port) (PInt 5)) (\<lambda>up.
     let target = py_str host @ '':'' @ int_str port in
     if up then pureM (unchanged name (target @ '' already reachable''))
     else
       bindM (liftR (py_get opts ''test'' PNone)) (\<lambda>test.
       if truthy test then
         bindM (liftR (py_get spec ''installer_deploy_esxi'' PNone)) (\<lambda>esxi.
         pureM ((would name (''would deploy installer OVA to '' @ py_repr esxi))
           \<lparr>ret_changes := PDict [(''plan'', PStr ''deploy_installer_ova''), (''target_host'', host)]\<rparr>))
       else
         caught deploy_failure (\<lambda>exc. refused name (''installer deploy failed: '' @ exn_str exc))
           (exec_installer_appliance_ensure_running connect push opts spec) (\<lambda>result.
          pureM (changed name
            [(''deployed'', dget result ''deployed'' (PBool False)), (''vm_name'', dget result ''vm_name'' PNone),
             (''vm_moid'', dget result ''vm_moid'' PNone), (''powered_on'', dget result ''powered_on'' PNone),
             (''elapsed_sec'', dget result ''elapsed_sec'' PNone)]
            (''installer appliance reachable at '' @ target))))))))"

subsection \<open>A topology that passes can be deployed\<close>

definition passes :: "report res \<Rightarrow> bool" where
  "passes r \<longleftrightarrow> (\<exists>ws. r = Ok ([], ws))"

lemma passes_simps [simp]:
  "passes (both a b) \<longleftrightarrow> passes a \<and> passes b"
  "passes (Ok (es, ws)) \<longleftrightarrow> es = []"
  "passes (Ok (error_if c m)) \<longleftrightarrow> \<not> c" "passes (Ok (warn_if c m))"
  "passes (Exc e) \<longleftrightarrow> False"
  by (auto simp: passes_def both_def error_if_def warn_if_def bindR_def split: res.splits)

lemma passes_bindR: "passes (bindR m f) \<longleftrightarrow> (\<exists>x. m = Ok x \<and> passes (f x))"
  by (cases m) auto

lemma passes_require: "passes (require_keys part d ks) \<longleftrightarrow> (\<forall>k \<in> set ks. \<exists>v. py_get d k PNone = Ok v \<and> truthy v)"
  by (induction ks) (auto simp: passes_bindR)

text \<open>Where the validation finds the ESXi host, the deployment looks for the credentials in the same entry.\<close>

lemma credentials_found:
  assumes "host_entry hs (PStr esxi) = Ok x" "truthy x"
  obtains e where "x = PDict e" "esxi_credentials_in hs (PStr esxi) =
    bindR (py_item (PDict e) ''password'') (\<lambda>p. Ok (Some (dget e ''username'' (PStr ''root''), p)))"
proof -
  have eq: "py_eq (PStr esxi) v \<longleftrightarrow> v = PStr esxi" "py_eq v (PStr esxi) \<longleftrightarrow> v = PStr esxi" for v
    by (cases v; auto)+
  have "\<exists>e. x = PDict e \<and> esxi_credentials_in hs (PStr esxi) =
      bindR (py_item (PDict e) ''password'') (\<lambda>p. Ok (Some (dget e ''username'' (PStr ''root''), p)))"
    using assms
  proof (induction hs)
    case (Cons h hs)
    then obtain d where h: "h = PDict d" by (cases h) (auto simp: py_get_def)
    with Cons show ?case by (auto simp: eq simp del: py_eq.simps split: if_splits)
  qed simp
  then show thesis using that by blast
qed

text \<open>The appliance section of a pillar.\<close>

definition topology_appliance :: "pyval \<Rightarrow> pyval res" where
  "topology_appliance spec =
     bindR (py_get (py_or spec empty_dict) ''installer_appliance'' PNone) (\<lambda>a. Ok (py_or a empty_dict))"

text \<open>What the deployment needs of the entry \<open>e\<close> of its host and of the section \<open>d\<close>, and the validation does not look at.\<close>

definition deployable :: "dict \<Rightarrow> dict \<Rightarrow> bool" where
  "deployable e d \<longleftrightarrow> map_of e ''password'' \<noteq> None \<and> truthy (dget d ''deployment_backend'' (PStr ''pyvmomi'')) \<and>
     (case py_int (dget d ''installer_port'' (PInt 443)) of Ok _ \<Rightarrow> True | Exc _ \<Rightarrow> False)"

lemma installer_kwargs_decided:
  assumes keys: "\<And>k. k \<in> set APPLIANCE_REQUIRED \<Longrightarrow> map_of d k \<noteq> None"
    and esxi: "map_of d ''installer_deploy_esxi'' = Some (PStr esxi)"
    and hosts: "py_iter (py_or (dget d ''esxi_hosts'' PNone) (PList [])) = Ok hosts"
    and creds: "esxi_credentials_in hosts (PStr esxi) =
      bindR (py_item (PDict e) ''password'') (\<lambda>p. Ok (Some (dget e ''username'' (PStr ''root''), p)))"
    and backend: "passes (validate_backend (PDict d))"
  shows "if deployable e d then \<exists>b kwargs. b \<in> {''pyvmomi'', ''ovftool''} \<and> installer_kwargs (PDict d) = Ok (b, kwargs)
    else \<exists>exc. installer_kwargs (PDict d) = Exc exc"
proof -
  obtain ova vm where ova: "map_of d ''installer_ova_url'' = Some ova" "map_of d ''installer_vm_name'' = Some vm"
    using keys [of "''installer_ova_url''"] keys [of "''installer_vm_name''"] by (auto simp: APPLIANCE_REQUIRED_def)
  let ?b = "dget d ''deployment_backend'' (PStr ''pyvmomi'')"
  show ?thesis
  proof (cases "deployable e d")
    case True
    then obtain p port where ready: "map_of e ''password'' = Some p" "truthy ?b" "py_int (dget d ''installer_port'' (PInt 443)) = Ok port"
      by (auto simp: deployable_def split: res.splits)
    then have "py_or (dget d ''deployment_backend'' PNone) (PStr ''pyvmomi'') = ?b"
      by (cases "map_of d ''deployment_backend''") (auto simp: dget_def py_or_def)
    with backend obtain s where "?b = PStr s" "lower s \<in> {''pyvmomi'', ''ovftool''}"
      by (auto simp: validate_backend_def passes_bindR py_lower_def split: pyval.splits)
    moreover have "py_item (PDict d) ''installer_deploy_esxi'' = Ok (PStr esxi)" "py_item (PDict d) ''installer_ova_url'' = Ok ova"
        "py_item (PDict d) ''installer_vm_name'' = Ok vm" "py_item (PDict e) ''password'' = Ok p"
      using esxi ova ready(1) by simp_all
    ultimately show ?thesis using True hosts creds ready(3)
      by (auto simp: installer_kwargs_def installer_appliance_esxi_credentials_def py_lower_def
          installer_appliance_deployment_backend_def Let_def ova_options_dict ovftool_options_def simp del: py_item_dict)
  next
    case False
    have "\<nexists>r. installer_kwargs (PDict d) = Ok r"
    proof
      assume "\<exists>r. installer_kwargs (PDict d) = Ok r"
      then obtain r where r: "installer_kwargs (PDict d) = Ok r" by blast
      then have "map_of e ''password'' \<noteq> None"
        using esxi hosts creds by (auto simp: installer_kwargs_def installer_appliance_esxi_credentials_def bindR_eq_Ok)
      moreover obtain s port where "?b = PStr s" "lower s \<in> {''pyvmomi'', ''ovftool''}"
          "py_int (dget d ''installer_port'' (PInt 443)) = Ok port"
        using r by (auto simp: installer_kwargs_def bindR_eq_Ok py_lower_def installer_appliance_deployment_backend_def
            split: pyval.splits if_splits)
      ultimately show False using False by (cases s) (auto simp: deployable_def lower_def)
    qed
    with False show ?thesis by (cases "installer_kwargs (PDict d)") auto
  qed
qed

text \<open>C24: What the validation of a topology is worth to the deployment. In a topology that passes, the ESXi host
  of the appliance has an entry. When that entry has a password, the backend is not explicitly empty and the port is a
  number, the deployment finds the credentials, a supported backend and every argument, and gets as far as
  the push of the OVA with them. When one of the three fails - the validation looks at none of them -, the
  topology has passed all the same, and the deployment raises before it does anything.\<close>

theorem topology_valid_deploys:
  assumes "installer_topology_validate spec = Ok ([], warnings)" "topology_appliance spec = Ok (PDict d)"
    and "dget d ''installer_deploy_esxi'' PNone = PStr esxi"
  shows "\<exists>hosts e. py_iter (py_or (dget d ''esxi_hosts'' PNone) (PList [])) = Ok hosts \<and>
    host_entry hosts (PStr esxi) = Ok (PDict e) \<and>
    (if deployable e d
     then \<exists>backend kwargs. backend \<in> {''pyvmomi'', ''ovftool''} \<and> installer_kwargs (PDict d) = Ok (backend, kwargs) \<and>
       (\<forall>push w. installer_appliance_deploy_installer push (PDict d) w = push backend kwargs w)
     else \<exists>exc. \<forall>push w. installer_appliance_deploy_installer push (PDict d) w = Some (Exc exc, w))"
proof -
  have "passes (installer_topology_validate spec)" using assms(1) by simp
  then have appliance: "passes (validate_appliance (PDict d))"
    using assms(2) by (auto simp: installer_topology_validate_def topology_appliance_def passes_bindR bindR_eq_Ok Let_def)
  then have truthy: "truthy (dget d k PNone)" if "k \<in> set APPLIANCE_REQUIRED" for k
    using that by (auto simp: validate_appliance_def passes_require)
  have keys: "map_of d k \<noteq> None" if "k \<in> set APPLIANCE_REQUIRED" for k
    using truthy [OF that] by (auto simp: dget_def split: option.splits)
  obtain hosts x where x: "py_iter (py_or (dget d ''esxi_hosts'' PNone) (PList [])) = Ok hosts"
      "host_entry hosts (PStr esxi) = Ok x" "truthy x"
    using appliance truthy [of "''installer_deploy_esxi''"] assms(3)
    by (auto simp: validate_appliance_def passes_bindR Let_def bindR_eq_Ok APPLIANCE_REQUIRED_def)
  from x(2,3) obtain e where e: "x = PDict e" "esxi_credentials_in hosts (PStr esxi) =
      bindR (py_item (PDict e) ''password'') (\<lambda>p. Ok (Some (dget e ''username'' (PStr ''root''), p)))"
    by (rule credentials_found)
  have "map_of d ''installer_deploy_esxi'' = Some (PStr esxi)"
    using assms(3) by (auto simp: dget_def split: option.splits)
  moreover have "passes (validate_backend (PDict d))" using appliance by (auto simp: validate_appliance_def passes_bindR Let_def)
  ultimately have decided: "if deployable e d then \<exists>b kwargs. b \<in> {''pyvmomi'', ''ovftool''} \<and> installer_kwargs (PDict d) = Ok (b, kwargs)
      else \<exists>exc. installer_kwargs (PDict d) = Exc exc"
    using keys x(1) e(2) by (intro installer_kwargs_decided)
  have "if deployable e d
     then \<exists>backend kwargs. backend \<in> {''pyvmomi'', ''ovftool''} \<and> installer_kwargs (PDict d) = Ok (backend, kwargs) \<and>
       (\<forall>push w. installer_appliance_deploy_installer push (PDict d) w = push backend kwargs w)
     else \<exists>exc. \<forall>push w. installer_appliance_deploy_installer push (PDict d) w = Some (Exc exc, w)"
    using decided by (cases "deployable e d") (fastforce simp: installer_appliance_deploy_installer_def)+
  with x(1,2) e(1) show ?thesis by blast
qed

text \<open>A pillar with one ESXi host for the appliance and three for the bringup.\<close>

definition sample_appliance :: dict where
  "sample_appliance =
     [(''installer_host'', PStr ''inst''), (''installer_ova_url'', PStr ''/a.ova''), (''installer_vm_name'', PStr ''vm''),
      (''installer_deploy_esxi'', PStr ''e1.lab''),
      (''esxi_hosts'', PList [PDict [(''fqdn'', PStr ''e1.lab''), (''password'', PStr ''p'')]])]"

definition sample_bringup :: dict where
  "sample_bringup =
     (let host = (\<lambda>n. PDict [(''hostname'', PStr n), (''credentials'', PDict [(''username'', PStr ''root''), (''password'', PStr ''p'')])]) in
      [(''sddcId'', PStr ''s''), (''workflowType'', PStr ''VCF''),
       (''dnsSpec'', PDict [(''subdomain'', PStr ''lab''), (''nameservers'', PList [PStr ''d'']) ]),
       (''hostSpecs'', PList [host ''e1'', host ''e2'', host ''e3''])]
      @ map (\<lambda>k. (k, PDict [(''x'', PInt 1)])) BRINGUP_SPECS
      @ [(''networkSpecs'', PList (map (\<lambda>t. PDict [(''networkType'', PStr t)]) NETWORK_TYPES))])"

lemma topology_valid_deploys_witness:
  "\<exists>backend kwargs. backend \<in> {''pyvmomi'', ''ovftool''} \<and> installer_kwargs (PDict sample_appliance) = Ok (backend, kwargs) \<and>
    (\<forall>push w. installer_appliance_deploy_installer push (PDict sample_appliance) w = push backend kwargs w)"
proof -
  let ?spec = "PDict [(''installer_appliance'', PDict sample_appliance), (''bringup_spec'', PDict sample_bringup)]"
  have valid: "installer_topology_validate ?spec =
      Ok ([], map (\<lambda>n. ''bringup_spec.hostSpecs['' @ n @ ''].hostname '' @ repr_str (''e'' @ (if n = ''1'' then ''2'' else ''3''))
        @ '' does not match installer_appliance.esxi_hosts short name, fqdn, or ip'') [''1'', ''2''])"
    by code_simp
  have appl: "topology_appliance ?spec = Ok (PDict sample_appliance)" by code_simp
  have esxi: "dget sample_appliance ''installer_deploy_esxi'' PNone = PStr ''e1.lab''" by code_simp
  let ?e = "[(''fqdn'', PStr ''e1.lab''), (''password'', PStr ''p'')]"
  have entry: "py_iter (py_or (dget sample_appliance ''esxi_hosts'' PNone) (PList [])) = Ok [PDict ?e]"
    "host_entry [PDict ?e] (PStr ''e1.lab'') = Ok (PDict ?e)" "deployable ?e sample_appliance"
    by code_simp+
  from topology_valid_deploys [OF valid appl esxi] entry show ?thesis by auto
qed

subsection \<open>The translation is idempotent\<close>

lemma setdefault_same: "map_of d k \<noteq> None \<Longrightarrow> setdefault d k v = d"
  by (auto simp: setdefault_def)

lemma setdefault_keeps: "map_of d k = Some v \<Longrightarrow> map_of (setdefault d k' v') k = Some v"
  by (auto simp: setdefault_def)

lemma setdefault_has: "map_of (setdefault d k v) k \<noteq> None"
  by (simp add: setdefault_def)

text \<open>\<open>grows d e\<close>: what \<open>d\<close> says, \<open>e\<close> says as well.\<close>

definition grows :: "dict \<Rightarrow> dict \<Rightarrow> bool" where
  "grows d e \<longleftrightarrow> (\<forall>k v. map_of d k = Some v \<longrightarrow> map_of e k = Some v)"

lemma grows_rules [intro]:
  "grows d d" "grows d (setdefault d k v)" "map_of d k = None \<Longrightarrow> grows d (dset d k v)"
  "grows d e \<Longrightarrow> grows e f \<Longrightarrow> grows d f"
  by (auto simp: grows_def setdefault_keeps)

lemma add_connections_grows:
  "add_connections d c ps = Ok e \<Longrightarrow> grows d e \<and> (\<forall>p \<in> set ps. map_of e (fst p) \<noteq> None)"
proof (induction ps arbitrary: d)
  case (Cons p ps)
  obtain name key where p: "p = (name, key)" by (cases p)
  from Cons.prems obtain x where e: "add_connections (setdefault d name x) c ps = Ok e"
    by (auto simp: p bindR_eq_Ok)
  from Cons.IH [OF this] have up: "grows (setdefault d name x) e" "\<forall>p \<in> set ps. map_of e (fst p) \<noteq> None" by auto
  moreover have "map_of e name \<noteq> None" using up(1) setdefault_has [of d name x] by (auto simp: grows_def)
  ultimately show ?case using grows_rules(2,4) by (auto simp: p)
qed auto

lemma add_connections_again:
  "add_connections d c ps = Ok e \<Longrightarrow> (\<forall>p \<in> set ps. map_of n (fst p) \<noteq> None) \<Longrightarrow> add_connections n c ps = Ok n"
  by (induction ps arbitrary: d) (auto simp: bindR_eq_Ok setdefault_same)

definition installer_keys :: "dict \<Rightarrow> string list" where
  "installer_keys d =
     ''installer_appliance'' # (if truthy (dget d ''sddc_spec'' PNone) then [''bringup_spec''] else [])
       @ (if truthy (dget d ''timeout_sec'' PNone) then [''bringup_timeout''] else [])"

lemma add_installer_grows:
  assumes "add_installer n i = Ok e"
  shows "grows n e \<and> (\<forall>d. truthy i \<and> i = PDict d \<longrightarrow> (\<forall>k \<in> set (installer_keys d). map_of e k \<noteq> None))"
proof (cases "truthy i")
  case False
  with assms show ?thesis by (auto simp: add_installer_def)
next
  case True
  with assms obtain x where x: "i = PDict x" by (auto simp: add_installer_def bindR_eq_Ok py_dict_method_def split: pyval.splits)
  define a where "a = setdefault n ''installer_appliance'' (PDict (topology_installer_appliance x))"
  define b where "b = (if truthy (dget x ''sddc_spec'' PNone) then setdefault a ''bringup_spec'' (dget x ''sddc_spec'' PNone) else a)"
  have e: "e = (if truthy (dget x ''timeout_sec'' PNone) \<and> map_of b ''bringup_timeout'' = None
      then dset b ''bringup_timeout'' (dget x ''timeout_sec'' PNone) else b)"
  proof -
    have "add_installer n i = Ok (if truthy (dget x ''timeout_sec'' PNone) \<and> map_of b ''bringup_timeout'' = None
        then dset b ''bringup_timeout'' (dget x ''timeout_sec'' PNone) else b)"
      using True by (simp only: add_installer_def x py_dict_method_def Let_def a_def b_def pyval.case bindR_simps if_False not_True_eq_False)
    with assms show ?thesis by simp
  qed
  have steps: "grows n a" "grows a b" "grows b e" by (auto simp: a_def b_def e)
  moreover have "map_of a ''installer_appliance'' \<noteq> None" unfolding a_def by (rule setdefault_has)
  moreover have "truthy (dget x ''sddc_spec'' PNone) \<Longrightarrow> map_of b ''bringup_spec'' \<noteq> None"
    by (simp only: b_def if_True) (rule setdefault_has)
  moreover have "truthy (dget x ''timeout_sec'' PNone) \<Longrightarrow> map_of e ''bringup_timeout'' \<noteq> None" by (auto simp: e)
  moreover have "grows n e" using steps grows_rules(4) by blast
  ultimately show ?thesis by (auto simp: x installer_keys_def grows_def split: if_splits)
qed

lemma add_installer_again:
  assumes "add_installer d i = Ok e" "truthy i \<Longrightarrow> \<exists>x. i = PDict x \<and> (\<forall>k \<in> set (installer_keys x). map_of n k \<noteq> None)"
  shows "add_installer n i = Ok n"
  using assms
  by (auto simp: add_installer_def py_dict_method_def Let_def installer_keys_def setdefault_same)

lemma add_topology_grows: "add_topology d t ks = Ok e \<Longrightarrow> grows d e"
proof (induction ks arbitrary: d)
  case (Cons k ks)
  then show ?case
    by (auto simp: bindR_eq_Ok split: if_splits intro: grows_rules(2,4) dest!: Cons.IH)
qed auto

lemma add_topology_has:
  "add_topology d t ks = Ok e \<Longrightarrow> k \<in> set ks \<Longrightarrow> py_in (PStr k) t = Ok True \<Longrightarrow> map_of e (native_topology_key k) \<noteq> None"
proof (induction ks arbitrary: d)
  case (Cons q ks)
  show ?case
  proof (cases "k = q")
    case True
    with Cons.prems obtain v where "add_topology (setdefault d (native_topology_key k) v) t ks = Ok e"
      by (auto simp: bindR_eq_Ok)
    from add_topology_grows [OF this] setdefault_has [of d "native_topology_key k" v] show ?thesis by (auto simp: grows_def)
  next
    case False
    with Cons show ?thesis by (auto simp: bindR_eq_Ok)
  qed
qed simp

lemma add_topology_again:
  assumes "add_topology d t ks = Ok e" "\<And>k. k \<in> set ks \<Longrightarrow> py_in (PStr k) t = Ok True \<Longrightarrow> map_of n (native_topology_key k) \<noteq> None"
  shows "add_topology n t ks = Ok n"
  using assms
proof (induction ks arbitrary: d)
  case (Cons k ks)
  then obtain b where b: "py_in (PStr k) t = Ok b" by (auto simp: bindR_eq_Ok)
  then show ?case using Cons
    by (cases b) (auto simp: bindR_eq_Ok setdefault_same)
qed simp

text \<open>The translation of the reference pillar only adds and is idempotent: whatever the section \<open>saltext.vcf\<close>
  already says stays as it is, and translating the translated pillar again yields the same section.\<close>

theorem normalize_idempotent:
  assumes "automation_topology_normalize (PDict pillar) = Ok native"
  shows "\<exists>result. automation_topology_normalized_pillar (PDict pillar) = Ok result \<and>
    map_of result ''saltext.vcf'' = Some (PDict native) \<and>
    automation_topology_normalize (PDict result) = Ok native \<and>
    (\<forall>old. dget pillar ''saltext.vcf'' PNone = PDict old \<longrightarrow> grows old native)"
proof -
  have or_dict: "py_or (PDict d) empty_dict = PDict d" for d by (cases d) simp_all
  from assms obtain auto t c i n old n1 n2 where
    parts: "dget pillar ''vcf_automation'' empty_dict = auto" "py_get auto ''topology'' empty_dict = Ok t"
      "py_get auto ''connections'' empty_dict = Ok c" "py_get (py_or t empty_dict) ''vcf_installer'' empty_dict = Ok i"
      "dget pillar ''saltext.vcf'' empty_dict = n" "py_dict_method (py_or n empty_dict) ''setdefault'' = Ok old"
    and steps: "add_connections old (py_or c empty_dict) CONNECTIONS = Ok n1" "add_installer n1 (py_or i empty_dict) = Ok n2"
      "add_topology n2 (py_or t empty_dict) TOPOLOGY_KEYS = Ok native"
    by (auto simp: automation_topology_normalize_def or_dict bindR_eq_Ok Let_def)
  note g1 = add_connections_grows [OF steps(1)] and g2 = add_installer_grows [OF steps(2)] and g3 = add_topology_grows [OF steps(3)]
  have there: "map_of native k \<noteq> None" if "map_of n2 k \<noteq> None \<or> map_of n1 k \<noteq> None" for k
    using that g2 g3 by (auto simp: grows_def)
  have "add_connections native (py_or c empty_dict) CONNECTIONS = Ok native"
    by (rule add_connections_again [OF steps(1)]) (use g1 there in blast)
  moreover have "add_installer native (py_or i empty_dict) = Ok native"
  proof (rule add_installer_again [OF steps(2)])
    assume i: "truthy (py_or i empty_dict)"
    then obtain x where "py_or i empty_dict = PDict x"
      using steps(2) by (auto simp: add_installer_def bindR_eq_Ok py_dict_method_def split: pyval.splits)
    with g2 i there show "\<exists>x. py_or i empty_dict = PDict x \<and> (\<forall>k \<in> set (installer_keys x). map_of native k \<noteq> None)"
      by blast
  qed
  moreover have "add_topology native (py_or t empty_dict) TOPOLOGY_KEYS = Ok native"
    by (rule add_topology_again [OF steps(3)]) (rule add_topology_has [OF steps(3)])
  ultimately have "automation_topology_normalize (PDict (dset pillar ''saltext.vcf'' (PDict native))) = Ok native"
    using parts by (simp add: automation_topology_normalize_def or_dict dget_dset py_dict_method_def Let_def)
  moreover have "grows old' native" if "dget pillar ''saltext.vcf'' PNone = PDict old'" for old'
  proof -
    have "n = PDict old'" using that parts(5) by (auto simp: dget_def split: option.splits)
    with parts(6) have "old = old'" by (simp add: or_dict py_dict_method_def)
    with g1 g2 g3 show ?thesis using grows_rules(4) by blast
  qed
  ultimately show ?thesis
    using assms by (auto simp: automation_topology_normalized_pillar_def or_dict py_dict_method_def)
qed

definition sample_pillar :: dict where
  "sample_pillar =
     [(''vcf_automation'', PDict
        [(''connections'', PDict [(''nsxt'', PDict [(''host'', PStr ''n''), (''port'', PNone)])]),
         (''topology'', PDict [(''vcf_installer'', PDict [(''timeout_sec'', PInt 60), (''sddc_spec'', PDict [(''sddcId'', PStr ''s'')])]),
            (''nsxt'', PStr ''t'')])]),
      (''saltext.vcf'', PDict [(''vcenter'', PStr ''mine'')])]"

lemma normalize_idempotent_witness:
  "\<exists>native result. automation_topology_normalized_pillar (PDict sample_pillar) = Ok result \<and>
    automation_topology_normalize (PDict result) = Ok native \<and>
    grows [(''vcenter'', PStr ''mine'')] native \<and> map_of native ''nsx'' = Some (PDict [(''host'', PStr ''n'')])"
proof -
  let ?native = "[(''vcenter'', PStr ''mine''), (''vcf_installer'', empty_dict), (''sddc_manager'', empty_dict),
    (''nsx'', PDict [(''host'', PStr ''n'')]),
    (''installer_appliance'', PDict [(''timeout_sec'', PInt 60), (''deployment_backend'', PStr ''ovftool'')]),
    (''bringup_spec'', PDict [(''sddcId'', PStr ''s'')]), (''bringup_timeout'', PInt 60), (''nsxt_topology'', PStr ''t'')]"
  have "automation_topology_normalize (PDict sample_pillar) = Ok ?native" by code_simp
  from normalize_idempotent [OF this] obtain result where
    "automation_topology_normalized_pillar (PDict sample_pillar) = Ok result"
    "automation_topology_normalize (PDict result) = Ok ?native"
    "\<forall>old. dget sample_pillar ''saltext.vcf'' PNone = PDict old \<longrightarrow> grows old ?native" by blast
  then show ?thesis by (intro exI [of _ ?native] exI [of _ result]) (auto simp: sample_pillar_def)
qed

subsection \<open>The appliance runs\<close>

text \<open>A wait for the appliance that returns has connected.\<close>

lemma bindM_Ok_iff: "bindM m f w = Some (Ok y, w') \<longleftrightarrow> (\<exists>x w1. m w = Some (Ok x, w1) \<and> f x w1 = Some (Ok y, w'))"
  by (auto simp: bindM_Some_iff)

lemma wait_until_reachable_Ok:
  assumes "installer_appliance_wait_until_reachable connect host port t i w = Some (Ok u, w')"
    and "\<And>s. keeps evolves (connect host port s)"
  shows "\<exists>s w1. connect host port s w1 = Some (Ok True, w')"
proof -
  note eqs = installer_appliance_wait_until_reachable_def installer_appliance_is_appliance_reachable_def bindM_Ok_iff
  from assms(1) obtain b where
    "poll_for (connect host port (min 5 i)) Ok
       (\<lambda>_. py_str host @ '':'' @ int_str port @ '' not reachable within '' @ int_str t @ ''s'') t i w = Some (Ok b, w')"
    unfolding eqs by auto
  from poll_for_Ok [OF this assms(2)] obtain w1 where "connect host port (min 5 i) w1 = Some (Ok b, w')" "Ok b = Ok True"
    by blast
  then show ?thesis by blast
qed

definition connected_to :: "connector \<Rightarrow> pyval \<Rightarrow> pyval \<Rightarrow> pyval \<Rightarrow> bool" where
  "connected_to connect opts spec host \<longleftrightarrow>
     (\<exists>full port s w1 w2. exec_installer_appliance_resolve_spec opts spec = Ok full \<and>
        py_item full ''installer_host'' = Ok host \<and> connect host port s w1 = Some (Ok True, w2))"

lemma ensure_running_Ok:
  assumes "exec_installer_appliance_ensure_running connect push opts spec w = Some (Ok d, w')"
    and "\<And>host port s. keeps evolves (connect host port s)"
  shows "\<exists>host. connected_to connect opts spec host"
proof -
  have wait: "\<exists>s w1. connect host port s w1 = Some (Ok True, w2)"
    if "installer_appliance_wait_until_reachable connect host port t i w1 = Some (Ok u, w2)" for host port t i w1 u w2
    using that assms(2) by (rule wait_until_reachable_Ok)
  from assms(1) obtain full host port up w1 where
    full: "exec_installer_appliance_resolve_spec opts spec = Ok full" "py_item full ''installer_host'' = Ok host"
    and up: "connect host port 5 w = Some (Ok up, w1)"
    and rest: "(if up then pureM [(''reachable'', PBool True), (''deployed'', PBool False)]
     else
       bindM (installer_appliance_deploy_installer push full) (\<lambda>result.
       bindM (liftR (bindR (py_get full ''timeout_sec'' (PInt 900)) py_int)) (\<lambda>t.
       bindM (liftR (bindR (py_get full ''polling_interval_sec'' (PInt 15)) py_int)) (\<lambda>i.
       bindM (installer_appliance_wait_until_reachable connect host port t i) (\<lambda>_.
       bindM (liftR (spread result)) (\<lambda>d.
       pureM (dupdate [(''reachable'', PBool True), (''deployed'', PBool True)] d))))))) w1 = Some (Ok d, w')"
    unfolding exec_installer_appliance_ensure_running_def installer_appliance_is_appliance_reachable_def bindM_Ok_iff
    by (auto simp del: split_paired_Ex)
  have "\<exists>port s w1 w2. connect host port s w1 = Some (Ok True, w2)"
  proof (cases up)
    case False
    with rest obtain t i u w2 w3 where "installer_appliance_wait_until_reachable connect host port t i w2 = Some (Ok u, w3)"
      by (auto simp: bindM_Ok_iff)
    with wait show ?thesis by blast
  qed (use up in auto)
  with full show ?thesis unfolding connected_to_def by blast
qed

text \<open>The state \<open>running\<close> reports success only after a connection to the appliance was made, whatever the push of
  the OVA did; and a dry run never pushes: it does the same for every push.\<close>

theorem installer_running_sound:
  assumes run: "vcf_installer_appliance_running connect push opts name spec w = Some (Ok r, w')"
    and connect: "\<And>host port s. keeps evolves (connect host port s)"
  shows "(ret_result r = Some True \<longrightarrow> (\<exists>host. connected_to connect opts spec host)) \<and>
    (test_mode opts \<longrightarrow> (\<forall>push'. vcf_installer_appliance_running connect push' opts name spec w = Some (Ok r, w')))"
proof
  obtain full where full: "exec_installer_appliance_resolve_spec opts spec = Ok full"
    using run by (auto simp: vcf_installer_appliance_running_def bindM_Some_iff)
  have again: "exec_installer_appliance_resolve_spec opts full = Ok full"
    using full by (auto simp: exec_installer_appliance_resolve_spec_def bindR_eq_Ok split: if_splits)
  show "ret_result r = Some True \<longrightarrow> (\<exists>host. connected_to connect opts spec host)"
  proof
    assume "ret_result r = Some True"
    with run full consider host port s w1 w2 where
        "py_item full ''installer_host'' = Ok host" "connect host port s w1 = Some (Ok True, w2)"
      | d w1 w2 where "exec_installer_appliance_ensure_running connect push opts full w1 = Some (Ok d, w2)"
      unfolding vcf_installer_appliance_running_def exec_installer_appliance_is_reachable_def
        installer_appliance_is_appliance_reachable_def bindM_Ok_iff Let_def
      by (auto simp: bindM_Ok_iff elim!: caught_SomeE split: if_splits)
    then show "\<exists>host. connected_to connect opts spec host"
    proof cases
      case 2
      from ensure_running_Ok [OF this connect] full again show ?thesis by (auto simp: connected_to_def)
    qed (use full in \<open>auto simp: connected_to_def\<close>)
  qed
  show "test_mode opts \<longrightarrow> (\<forall>push'. vcf_installer_appliance_running connect push' opts name spec w = Some (Ok r, w'))"
  proof (intro impI allI)
    fix push' assume "test_mode opts"
    then obtain d where "opts = PDict d" "truthy (dget d ''test'' PNone)" by (auto simp: test_mode_def split: pyval.splits)
    then have "vcf_installer_appliance_running connect push' opts name spec = vcf_installer_appliance_running connect push opts name spec"
      by (simp add: vcf_installer_appliance_running_def bindM_laws cong: if_cong)
    with run show "vcf_installer_appliance_running connect push' opts name spec w = Some (Ok r, w')" by simp
  qed
qed

lemma installer_running_sound_witness:
  "\<exists>r w'. vcf_installer_appliance_running (\<lambda>h p t. pureM True) (\<lambda>b k. raiseM (RuntimeError ''no'')) (PDict [(''test'', PBool True)])
      ''n'' (PDict [(''installer_host'', PStr ''h'')]) (scripted []) = Some (Ok r, w') \<and> ret_result r = Some True \<and>
    (\<exists>host. connected_to (\<lambda>h p t. pureM True) (PDict [(''test'', PBool True)]) (PDict [(''installer_host'', PStr ''h'')]) host)"
proof -
  let ?prog = "vcf_installer_appliance_running (\<lambda>h p t. pureM True) (\<lambda>b k. raiseM (RuntimeError ''no'')) (PDict [(''test'', PBool True)])
      ''n'' (PDict [(''installer_host'', PStr ''h'')])"
  have run: "map_option fst (?prog (scripted [])) = Some (Ok (unchanged ''n'' ''h:443 already reachable''))" by code_simp
  have "keeps evolves (pureM True)" by (intro spec_intros)
  from installer_running_sound [OF run_result [OF run] this] show ?thesis
    using run_result [OF run] by (metis ret_simps(5))
qed

end
