(* ===== verification/Vmsp_Config.thy ===== *)
theory Vmsp_Config
  imports Vmsp Rest_Store Vcf_Nsx_Config
begin

section \<open>Vmsp_Config: resolvers, time servers and syslog of the VMSP platform\<close>

text \<open>
  \<open>clients/vmsp_dns.py\<close>, \<open>vmsp_ntp.py\<close> and \<open>vmsp_syslog.py\<close>, which edit one section of the component \<open>vsp\<close> and
  wait for the task, and their states \<open>compliant\<close>.
\<close>

subsection \<open>The clients\<close>

definition vsp_component :: "pyval \<Rightarrow> profile \<Rightarrow> pyval io" where
  "vsp_component opts profile =
     bindM (vmsp_get_component opts VSP_COMPONENT_NAME profile) (\<lambda>component.
     if component = PNone then
       raiseM (ValueError (''VMSP component '' @ [CHR 0x27] @ py_str VSP_COMPONENT_NAME @ [CHR 0x27] @ '' not found''))
     else pureM component)"

text \<open>\<open>component.get("spec", {}).get("configuration", {}).get(section, {})\<close>.\<close>

definition vsp_section :: "pyval \<Rightarrow> string \<Rightarrow> pyval res" where
  "vsp_section component part =
     bindR (py_get component ''spec'' empty_dict) (\<lambda>spec.
     bindR (py_get spec ''configuration'' empty_dict) (\<lambda>conf. py_get conf part empty_dict))"

text \<open>The end of each \<open>set_\<close>: apply the payload to the component, and wait for the task.\<close>

definition vsp_apply :: "pyval \<Rightarrow> string \<Rightarrow> pyval \<Rightarrow> pyval \<Rightarrow> profile \<Rightarrow> pyval io" where
  "vsp_apply opts part content component profile =
     bindM (liftR (py_item component ''id'')) (\<lambda>i.
     bindM (vmsp_apply_component opts i
         (PDict [(''spec'', PDict [(''configuration'', PDict [(part, content)])])]) profile) (\<lambda>task_id.
     vmsp_wait_for_task opts task_id profile TASK_TIMEOUT TASK_POLL_INTERVAL))"

definition vsp_servers_get :: "string \<Rightarrow> pyval \<Rightarrow> profile \<Rightarrow> pyval io" where
  "vsp_servers_get key opts profile =
     bindM (vsp_component opts profile) (\<lambda>component.
     bindM (liftR (vsp_section component ''network'')) (\<lambda>network.
     bindM (liftR (py_get network key (PList []))) (\<lambda>servers. pureM (PDict [(''servers'', servers)]))))"

definition vsp_servers_set :: "string \<Rightarrow> pyval \<Rightarrow> pyval \<Rightarrow> profile \<Rightarrow> pyval io" where
  "vsp_servers_set key opts servers profile =
     bindM (vsp_component opts profile) (\<lambda>component.
     bindM (liftR (py_iter servers)) (\<lambda>items.
     vsp_apply opts ''network'' (PDict [(key, PList items)]) component profile))"

definition vmsp_dns_get :: "pyval \<Rightarrow> profile \<Rightarrow> pyval io" where
  "vmsp_dns_get = vsp_servers_get ''dnsServers''"

definition vmsp_dns_set :: "pyval \<Rightarrow> pyval \<Rightarrow> profile \<Rightarrow> pyval io" where
  "vmsp_dns_set = vsp_servers_set ''dnsServers''"

definition vmsp_ntp_get :: "pyval \<Rightarrow> profile \<Rightarrow> pyval io" where
  "vmsp_ntp_get = vsp_servers_get ''ntpServers''"

definition vmsp_ntp_set :: "pyval \<Rightarrow> pyval \<Rightarrow> profile \<Rightarrow> pyval io" where
  "vmsp_ntp_set = vsp_servers_set ''ntpServers''"

definition vmsp_syslog_get :: "pyval \<Rightarrow> profile \<Rightarrow> pyval io" where
  "vmsp_syslog_get opts profile =
     bindM (vsp_component opts profile) (\<lambda>component.
     bindM (liftR (vsp_section component ''logs'')) (\<lambda>logs.
     bindM (liftR (py_get logs ''syslog'' empty_dict)) (\<lambda>s. pureM (PDict [(''syslog'', s)]))))"

definition syslog_body :: "pyval \<Rightarrow> pyval \<Rightarrow> pyval \<Rightarrow> pyval \<Rightarrow> pyval \<Rightarrow> dict" where
  "syslog_body host port transport insecure cacert =
     [(''host'', host), (''port'', port), (''insecure'', insecure), (''transport'', transport)]
       @ (if truthy cacert then [(''cacert'', cacert)] else [])"

definition vmsp_syslog_set :: "pyval \<Rightarrow> pyval \<Rightarrow> pyval \<Rightarrow> pyval \<Rightarrow> pyval \<Rightarrow> pyval \<Rightarrow> profile \<Rightarrow> pyval io" where
  "vmsp_syslog_set opts host port transport insecure cacert profile =
     bindM (vsp_component opts profile) (\<lambda>component.
     vsp_apply opts ''logs'' (PDict [(''syslog'', PDict (syslog_body host port transport insecure cacert))]) component profile)"

subsection \<open>The states\<close>

text \<open>\<open>states/vcf_vmsp_dns.py\<close> and \<open>vcf_vmsp_ntp.py\<close> differ in the client and the word.\<close>

definition servers_compliant ::
  "string \<Rightarrow> (pyval \<Rightarrow> profile \<Rightarrow> pyval io) \<Rightarrow> (pyval \<Rightarrow> pyval \<Rightarrow> profile \<Rightarrow> pyval io) \<Rightarrow>
     pyval \<Rightarrow> string \<Rightarrow> pyval \<Rightarrow> profile \<Rightarrow> salt_ret io" where
  "servers_compliant word read write opts name servers profile =
     bindM (liftR (py_iter (py_or servers (PList [])))) (\<lambda>desired.
     bindM (read opts profile) (\<lambda>found.
     bindM (liftR (py_get found ''servers'' (PList []))) (\<lambda>current.
     bindM (liftR (bindR (py_iter current) py_sorted)) (\<lambda>current_sorted.
     bindM (liftR (py_sorted desired)) (\<lambda>desired_sorted.
     let was = py_str current; want = py_str (PList desired) in
     if py_eq (PList current_sorted) (PList desired_sorted) then
       pureM (unchanged name (''VMSP '' @ word @ '' servers already compliant: '' @ was))
     else unless_dry opts (would name (''VMSP '' @ word @ '' servers are '' @ was @ ''; would set to '' @ want @ ''.''))
       (bindM (write opts (PList desired) profile) (\<lambda>_.
        pureM (changed name [(''servers'', old_new current (PList desired))]
          (''Updated VMSP '' @ word @ '' servers from '' @ was @ '' to '' @ want @ ''.'')))))))))"

definition vcf_vmsp_dns_compliant :: "pyval \<Rightarrow> string \<Rightarrow> pyval \<Rightarrow> profile \<Rightarrow> salt_ret io" where
  "vcf_vmsp_dns_compliant = servers_compliant ''DNS'' vmsp_dns_get vmsp_dns_set"

definition vcf_vmsp_ntp_compliant :: "pyval \<Rightarrow> string \<Rightarrow> pyval \<Rightarrow> profile \<Rightarrow> salt_ret io" where
  "vcf_vmsp_ntp_compliant = servers_compliant ''NTP'' vmsp_ntp_get vmsp_ntp_set"

definition vcf_vmsp_syslog_compliant ::
  "pyval \<Rightarrow> string \<Rightarrow> pyval \<Rightarrow> pyval \<Rightarrow> pyval \<Rightarrow> pyval \<Rightarrow> pyval \<Rightarrow> profile \<Rightarrow> salt_ret io" where
  "vcf_vmsp_syslog_compliant opts name host port transport insecure cacert profile =
     (if \<not> truthy host then pureM (refused name ''host is required for vcf_vmsp_syslog.compliant.'')
      else
        let desired = syslog_body host port transport insecure cacert in
        bindM (vmsp_syslog_get opts profile) (\<lambda>found.
        bindM (liftR (py_get found ''syslog'' empty_dict)) (\<lambda>current.
        bindM (liftR (mapR (\<lambda>(k, _). bindR (py_get current k PNone) (\<lambda>v. Ok (k, v))) desired)) (\<lambda>current_subset.
        let was = py_str (PDict current_subset); want = py_str (PDict desired) in
        if py_eq (PDict current_subset) (PDict desired) then pureM (unchanged name (''VMSP syslog already compliant: '' @ was))
        else unless_dry opts (would name (''VMSP syslog is '' @ was @ ''; would set to '' @ want @ ''.''))
          (bindM (vmsp_syslog_set opts host port transport insecure cacert profile) (\<lambda>_.
           pureM (changed name [(''syslog'', old_new (PDict current_subset) (PDict desired))]
             (''Updated VMSP syslog from '' @ was @ '' to '' @ want @ ''.''))))))))"

subsection \<open>Dry runs, termination\<close>

definition vmsp_looks :: "request \<Rightarrow> bool" where
  "vmsp_looks rq \<longleftrightarrow> rq_method rq = ''GET'' \<or> ends_with (rq_url rq) TOKEN_PATH"

lemma vmsp_session_looks [spec_intros]: "keeps (sends_only vmsp_looks) (vmsp_get_session opts p)"
  unfolding vmsp_get_session_def vmsp_get_token_def
  by (auto simp: vmsp_acquire_token_def vmsp_login_rq_def cached_login_def as_token_def vmsp_looks_def plain_request_def
      intro!: spec_intros)

lemma vmsp_api_get_looks [spec_intros]: "keeps (sends_only vmsp_looks) (vmsp_api_get opts path q h p)"
  unfolding vmsp_api_get_def vmsp_exchange_def
  by (auto simp: vmsp_looks_def session_rq_def intro!: spec_intros)

lemma vsp_component_rules [spec_intros]:
  "keeps (sends_only vmsp_looks) (vsp_component opts p)" "returns (vsp_component opts p)"
  by (auto simp: vsp_component_def vmsp_get_component_def intro!: spec_intros)

lemma vsp_set_returns [spec_intros]:
  "returns (vmsp_dns_set opts s p)" "returns (vmsp_ntp_set opts s p)" "returns (vmsp_syslog_set opts h pt t i c p)"
  by (auto simp: vmsp_dns_set_def vmsp_ntp_set_def vmsp_syslog_set_def vsp_servers_set_def vsp_apply_def
      TASK_POLL_INTERVAL_def intro!: spec_intros vmsp_wait_returns)

lemma vsp_get_rules [spec_intros]:
  "returns (vmsp_dns_get opts p)" "returns (vmsp_ntp_get opts p)" "returns (vmsp_syslog_get opts p)"
  "keeps (sends_only vmsp_looks) (vmsp_dns_get opts p)" "keeps (sends_only vmsp_looks) (vmsp_ntp_get opts p)"
  "keeps (sends_only vmsp_looks) (vmsp_syslog_get opts p)"
  by (auto simp: vmsp_dns_get_def vmsp_ntp_get_def vmsp_syslog_get_def vsp_servers_get_def intro!: spec_intros)

lemmas vmsp_state_defs = vcf_vmsp_dns_compliant_def vcf_vmsp_ntp_compliant_def servers_compliant_def
  vcf_vmsp_syslog_compliant_def

lemma vmsp_states_contract:
  "keeps_contract vmsp_looks opts s (vcf_vmsp_dns_compliant opts s v p)"
  "keeps_contract vmsp_looks opts s (vcf_vmsp_ntp_compliant opts s v p)"
  "keeps_contract vmsp_looks opts s (vcf_vmsp_syslog_compliant opts s v1 v2 v3 v4 v5 p)"
  unfolding vmsp_state_defs by (intro keeps_contractI; (intro spec_intros)?; auto intro!: spec_intros)+

lemma vmsp_states_return:
  "returns (vcf_vmsp_dns_compliant opts s v p)" "returns (vcf_vmsp_ntp_compliant opts s v p)"
  "returns (vcf_vmsp_syslog_compliant opts s v1 v2 v3 v4 v5 p)"
  unfolding vmsp_state_defs by (auto intro!: spec_intros)

end
