(* ===== verification/Appliance_Setup.thy ===== *)
theory Appliance_Setup
  imports Installer_Topology
begin

section \<open>Appliance_Setup: what the deployments of appliances share\<close>

text \<open>
  The modules \<open>vcf_avi\<close>, \<open>vcf_hcx\<close>, \<open>vcf_vrni\<close>, \<open>vcf_vro\<close> and \<open>vcf_vrli\<close> deploy an appliance in the same
  way: look for the VM, push the OVA if there is none, poll an unauthenticated URL until the appliance
  answers, run its first-boot wizard. \<open>find_vm\<close> of \<open>clients/ovf_deploy.py\<close> (over pyVmomi) and the two
  \<open>deploy_ova\<close> functions are parameters.
\<close>

text \<open>\<open>except requests.RequestException\<close>. \<open>JSONDecodeError\<close> is that of \<open>Response.json()\<close> here, which is one.\<close>

fun request_exception :: "exn \<Rightarrow> bool" where
  "request_exception (HTTPError _ _) = True"
| "request_exception (ConnError _) = True"
| "request_exception (JSONDecodeError _) = True"
| "request_exception _ = False"

text \<open>\<open>try: x = m  except catches as exc: h  else: k\<close>.\<close>

definition attempt :: "(exn \<Rightarrow> bool) \<Rightarrow> 'a io \<Rightarrow> ('a \<Rightarrow> 'b io) \<Rightarrow> (exn \<Rightarrow> 'b io) \<Rightarrow> 'b io" where
  "attempt catches m k h =
     bindM (tryM (bindM m (\<lambda>x. pureM (Inl x))) (\<lambda>exc. if catches exc then pureM (Inr exc) else raiseM exc))
       (\<lambda>s. case s of Inl x \<Rightarrow> k x | Inr exc \<Rightarrow> h exc)"

lemma attempt_eq:
  "attempt catches m k h w =
     (case m w of
        None \<Rightarrow> None
      | Some (Ok x, w1) \<Rightarrow> k x w1
      | Some (Exc e, w1) \<Rightarrow> if catches e then h e w1 else Some (Exc e, w1))"
  by (simp add: attempt_def bindM_def tryM_def split: option.split prod.split res.split)

lemma attempt_Some_iff:
  "attempt catches m k h w = Some (r, w') \<longleftrightarrow>
     (\<exists>x w1. m w = Some (Ok x, w1) \<and> k x w1 = Some (r, w')) \<or>
     (\<exists>e w1. m w = Some (Exc e, w1) \<and> catches e \<and> h e w1 = Some (r, w')) \<or>
     (\<exists>e. m w = Some (Exc e, w') \<and> \<not> catches e \<and> r = Exc e)"
  by (auto simp: attempt_eq split: option.splits prod.splits res.splits)

lemma attempt_rules [spec_intros]:
  "returns m \<Longrightarrow> (\<And>x. returns (k x)) \<Longrightarrow> (\<And>e. returns (h e)) \<Longrightarrow> returns (attempt c m k h)"
  "keeps evolves m \<Longrightarrow> (\<And>x. keeps evolves (k x)) \<Longrightarrow> (\<And>e. keeps evolves (h e)) \<Longrightarrow> keeps evolves (attempt c m k h)"
  "keeps (sends_only P) m \<Longrightarrow> (\<And>x. keeps (sends_only P) (k x)) \<Longrightarrow> (\<And>e. keeps (sends_only P) (h e)) \<Longrightarrow>
     keeps (sends_only P) (attempt c m k h)"
  by (auto simp: attempt_def intro!: spec_intros)

text \<open>\<open>v[0]\<close>. An \<open>IndexError\<close> is a \<open>LookupError\<close>, and so is the \<open>KeyError\<close> of the integer 0, which no dict of the code has
  as a key.\<close>

definition py_first :: "pyval \<Rightarrow> pyval res" where
  "py_first v =
     (case v of
        PList (x # _) \<Rightarrow> Ok x
      | PList [] \<Rightarrow> Exc (LookupError ''list index out of range'')
      | PStr (c # _) \<Rightarrow> Ok (PStr [c])
      | PStr [] \<Rightarrow> Exc (LookupError ''string index out of range'')
      | PDict _ \<Rightarrow> Exc (LookupError ''0'')
      | _ \<Rightarrow> Exc (TypeError (repr_str (type_name v) @ '' object is not subscriptable'')))"

text \<open>\<open>s.replace(p, "")\<close> for a non-empty \<open>p\<close>.\<close>

function drop_all :: "string \<Rightarrow> string \<Rightarrow> string" where
  "drop_all p [] = []"
| "drop_all p (c # s) =
     (if p \<noteq> [] \<and> starts_with (c # s) p then drop_all p (drop (length p) (c # s)) else c # drop_all p s)"
  by pat_completeness auto

termination by (relation "measure (\<lambda>(p, s). length s)") auto

text \<open>The text of a response, and \<open>resp.text[:200]\<close>.\<close>

definition response_text :: "http_response \<Rightarrow> string res" where
  "response_text resp =
     (case rs_text resp of Some t \<Rightarrow> Ok t | None \<Rightarrow> Exc (ConnError ''unreadable response body''))"

definition text_prefix :: "http_response \<Rightarrow> string res" where
  "text_prefix resp = bindR (response_text resp) (\<lambda>t. Ok (take 200 t))"

subsection \<open>Pushing the OVA\<close>

text \<open>\<open>find_vm(...)\<close>, from its keyword arguments to the dict of the VM or \<open>None\<close>.\<close>

type_synonym vm_finder = "dict \<Rightarrow> pyval io"

text \<open>The keyword arguments of \<open>deploy_ova\<close>, in the order in which they are evaluated.\<close>

definition TARGET_KEYS :: "string list" where
  "TARGET_KEYS = [''target_host'', ''target_user'', ''target_password'']"

definition push_kwargs :: "pyval res \<Rightarrow> pyval res \<Rightarrow> pyval \<Rightarrow> dict res" where
  "push_kwargs ova_source vm_name spec =
     bindR ova_source (\<lambda>ova.
     bindR (mapR (py_item spec) TARGET_KEYS) (\<lambda>target.
     bindR (bindR (py_get spec ''target_port'' (PInt 443)) py_int) (\<lambda>port.
     bindR vm_name (\<lambda>vm.
     bindR (ova_options spec) (\<lambda>optional.
     Ok ((''ova_source'', ova) # zip TARGET_KEYS target @ [(''target_port'', PInt port), (''vm_name'', vm)] @ optional))))))"

text \<open>The arguments with which \<open>find_vm\<close> is called, out of those of \<open>deploy_ova\<close>.\<close>

definition find_kwargs :: "dict \<Rightarrow> dict" where
  "find_kwargs kwargs =
     map (\<lambda>k. (k, dget kwargs k PNone))
       [''target_host'', ''target_user'', ''target_password'', ''vm_name'', ''target_port'', ''verify_ssl'']"

definition push_unless_exists :: "vm_finder \<Rightarrow> dict \<Rightarrow> pyval io \<Rightarrow> pyval io" where
  "push_unless_exists find_vm kwargs push =
     bindM (find_vm kwargs) (\<lambda>existing.
     if existing \<noteq> PNone then
       bindM (liftR (py_item existing ''vm_moid'')) (\<lambda>_.
       bindM (liftR (spread existing)) (\<lambda>d. pureM (PDict (dset d ''skipped_ova_push'' (PBool True)))))
     else push)"

subsection \<open>Waiting for the appliance\<close>

text \<open>
  A round tries the appliance once: \<open>Inl\<close> is the value of the wait, \<open>Inr\<close> what is known of the failures so
  far. After a failure past the deadline the wait raises.
\<close>

definition setup_round :: "('s \<Rightarrow> ('a + 's) io) \<Rightarrow> ('s \<Rightarrow> exn) \<Rightarrow> int \<Rightarrow> int \<Rightarrow> 's \<Rightarrow> ('a + 's) io" where
  "setup_round go late poll_interval deadline s =
     bindM (go s) (\<lambda>r.
     case r of
       Inl x \<Rightarrow> pureM (Inl x)
     | Inr failed \<Rightarrow>
         bindM monotonic (\<lambda>t.
         if t \<ge> deadline then raiseM (late failed)
         else bindM (sleep (secs poll_interval)) (\<lambda>_. pureM (Inr failed))))"

definition wait_ready :: "('s \<Rightarrow> ('a + 's) io) \<Rightarrow> ('s \<Rightarrow> exn) \<Rightarrow> 's \<Rightarrow> int \<Rightarrow> int \<Rightarrow> 'a io" where
  "wait_ready go late start timeout poll_interval =
     bindM monotonic (\<lambda>t. loopM (setup_round go late poll_interval (t + secs timeout)) start)"

text \<open>One attempt: \<open>requests.get\<close> of a URL; \<open>failed\<close> notes a \<open>RequestException\<close>.\<close>

definition probe ::
  "request \<Rightarrow> (http_response \<Rightarrow> ('a + 's) res) \<Rightarrow> (exn \<Rightarrow> 's) \<Rightarrow> ('a + 's) io" where
  "probe rq answered failed =
     tryM (bindM (http_send rq) (\<lambda>resp. liftR (answered resp)))
       (\<lambda>exc. if request_exception exc then pureM (Inr (failed exc)) else raiseM exc)"

lemma setup_round_rules [spec_intros]:
  "(\<And>s. returns (go s)) \<Longrightarrow> returns (setup_round go late i dl s)"
  "(\<And>s. keeps evolves (go s)) \<Longrightarrow> keeps evolves (setup_round go late i dl s)"
  "(\<And>s. keeps (sends_only P) (go s)) \<Longrightarrow> keeps (sends_only P) (setup_round go late i dl s)"
  unfolding setup_round_def by (auto intro!: spec_intros)

lemma probe_rules [spec_intros]:
  "returns (probe rq a f)" "keeps evolves (probe rq a f)" "P rq \<Longrightarrow> keeps (sends_only P) (probe rq a f)"
  "keeps same_caches (probe rq a f)"
  by (auto simp: probe_def intro!: spec_intros)

lemma setup_round_Ok:
  "setup_round go late i dl s w = Some (Ok r, w') \<longleftrightarrow>
     (\<exists>x. r = Inl x \<and> go s w = Some (Ok (Inl x), w')) \<or>
     (\<exists>f w1. r = Inr f \<and> go s w = Some (Ok (Inr f), w1) \<and> clock w1 < dl \<and> 0 \<le> secs i \<and>
        w' = w1\<lparr>clock := clock w1 + secs i\<rparr>)"
  unfolding setup_round_def bindM_def [of "go s"]
  by (auto simp: bindM_Ok_iff sleep_def split: option.splits prod.splits res.splits sum.splits if_splits)

lemma setup_round_goes_on:
  assumes "setup_round go late i dl s w = Some (Ok (Inr s'), w')" "\<And>s. keeps evolves (go s)"
  shows "clock w \<le> dl \<and> clock w + secs i \<le> clock w'"
proof -
  have advance: "clock w \<le> clock w1" if "go s w = Some (Ok v, w1)" for v w1
    using that assms(2) by (rule evolves_clock [rotated])
  from assms(1) show ?thesis by (auto simp: setup_round_Ok dest!: advance)
qed

lemma polling_setup_round:
  assumes "\<And>s. returns (go s)" "\<And>s. keeps evolves (go s)"
  shows "polling (setup_round go late i dl) (\<lambda>_ w. clock w) dl (secs i)"
  by (rule polling_clockI [OF setup_round_rules(1) [OF assms(1)]]) (rule setup_round_goes_on [OF _ assms(2)])

lemma wait_ready_rules [spec_intros]:
  "(\<And>s. keeps evolves (go s)) \<Longrightarrow> keeps evolves (wait_ready go late s0 t i)"
  "(\<And>s. keeps (sends_only P) (go s)) \<Longrightarrow> keeps (sends_only P) (wait_ready go late s0 t i)"
  by (auto simp: wait_ready_def intro!: spec_intros)

lemma wait_ready_returns:
  assumes "\<And>s. returns (go s)" "\<And>s. keeps evolves (go s)" "0 < i"
  shows "returns (wait_ready go late s0 t i)"
  using polling.terminates [OF polling_setup_round [OF assms(1,2)]] assms(3)
  unfolding wait_ready_def returns_def secs_def by fastforce

text \<open>The value of a wait is what the last attempt gave.\<close>

lemma wait_ready_Ok:
  assumes "wait_ready go late s0 t i w = Some (Ok x, w')"
  shows "\<exists>s w1. go s w1 = Some (Ok (Inl x), w')"
proof -
  from assms obtain dl where "loopM (setup_round go late i dl) s0 w = Some (Ok x, w')"
    by (auto simp: wait_ready_def)
  then have "case Ok x of Ok x \<Rightarrow> \<exists>s w1. go s w1 = Some (Ok (Inl x), w') | Exc _ \<Rightarrow> True"
    by (rule loopM_rule [where I = "\<lambda>_ _. True"])
      (auto simp: setup_round_Ok)
  then show ?thesis by simp
qed

lemma probe_Ok:
  assumes "probe rq a f w = Some (Ok (Inl x), w')"
  shows "\<exists>resp. http_send rq w = Some (Ok resp, w') \<and> a resp = Ok (Inl x)"
  using assms by (auto simp: probe_def tryM_Some_iff bindM_Some_iff split: if_splits)

subsection \<open>Forms\<close>

text \<open>\<open>session.post(url, data=..., headers=...)\<close>.\<close>

definition session_form ::
  "session \<Rightarrow> string \<Rightarrow> string \<Rightarrow> pyval \<Rightarrow> dict \<Rightarrow> pyval \<Rightarrow> (http_response \<times> session) io" where
  "session_form s meth url data headers timeout =
     bindM (http_send ((session_rq s meth url PNone PNone headers timeout)\<lparr>rq_data := data\<rparr>)) (\<lambda>resp.
     pureM (resp, s\<lparr>s_cookies := dupdate (s_cookies s) (rs_cookies resp)\<rparr>))"

lemma session_form_rules [spec_intros]:
  "returns (session_form s m u d h t)" "keeps evolves (session_form s m u d h t)"
  "keeps same_caches (session_form s m u d h t)"
  by (auto simp: session_form_def intro!: spec_intros)

text \<open>What a run that returned has sent, one request per step.\<close>

lemma http_send_Ok: "http_send rq w = Some (Ok resp, w') \<Longrightarrow> sent w' = sent w @ [rq]"
  by (auto simp: http_send_def Let_def split: net_reply.splits)

lemma session_form_Ok:
  "session_form s m u d h t w = Some (Ok (resp, s'), w') \<Longrightarrow>
     sent w' = sent w @ [(session_rq s m u PNone PNone h t)\<lparr>rq_data := d\<rparr>] \<and>
     s' = s\<lparr>s_cookies := dupdate (s_cookies s) (rs_cookies resp)\<rparr>"
  by (auto simp: session_form_def bindM_Ok_iff dest!: http_send_Ok)

lemma session_send_Ok:
  "session_send s m u q b h t w = Some (Ok (resp, s'), w') \<Longrightarrow>
     sent w' = sent w @ [session_rq s m u q b h t] \<and>
     s' = s\<lparr>s_cookies := dupdate (s_cookies s) (rs_cookies resp)\<rparr>"
  by (auto simp: session_send_def bindM_Ok_iff dest!: http_send_Ok)

subsection \<open>The pillar\<close>

text \<open>\<open>opts.get("pillar", {}) or {}\<close>, then \<open>.get("saltext.vcf", {}) or {}\<close>, then the section of the product,
  \<open>or {}\<close>.\<close>

definition deploy_section :: "string \<Rightarrow> pyval \<Rightarrow> pyval res" where
  "deploy_section product opts =
     bindR (py_get opts ''pillar'' empty_dict) (\<lambda>pillar.
     bindR (py_get (py_or pillar empty_dict) ''saltext.vcf'' empty_dict) (\<lambda>root.
     bindR (py_get (py_or root empty_dict) product empty_dict) (\<lambda>cfg. Ok (py_or cfg empty_dict))))"

text \<open>What the states catch around a deployment: \<open>RuntimeError\<close>, \<open>TimeoutError\<close>, \<open>KeyError\<close>, \<open>ValueError\<close> and
  \<open>LookupError\<close>.\<close>

definition deploy_error :: "exn \<Rightarrow> bool" where
  "deploy_error exc \<longleftrightarrow> deploy_failure exc \<or> is_ValueError exc"

text \<open>\<open>int(spec.get(key, default))\<close>.\<close>

definition int_option :: "pyval \<Rightarrow> string \<Rightarrow> int \<Rightarrow> int res" where
  "int_option spec key dflt = bindR (py_get spec key (PInt dflt)) py_int"

end
