(* ===== verification/Avi_Controller.thy ===== *)
theory Avi_Controller
  imports Appliance_Setup Avi
begin

section \<open>Avi_Controller: probing and bootstrapping an AVI controller\<close>

text \<open>
  \<open>clients/avi_controller.py\<close>, \<open>modules/vcf_avi.py\<close> and \<open>states/vcf_avi.py\<close>.
\<close>

subsection \<open>\<open>clients/avi_controller.py\<close>\<close>

definition avi_INITIAL_DATA :: string where "avi_INITIAL_DATA = ''/api/initial-data''"
definition avi_CLUSTER_VERSION :: string where "avi_CLUSTER_VERSION = ''/api/cluster/version''"
definition avi_CLUSTER :: string where "avi_CLUSTER = ''/api/cluster''"
definition avi_CLOUD :: string where "avi_CLOUD = ''/api/cloud''"
definition avi_TENANT :: string where "avi_TENANT = ''/api/tenant''"

text \<open>The block \<open>version\<close> of the initial data, if it has a \<open>Version\<close>.\<close>

definition avi_version_block :: "pyval \<Rightarrow> pyval option" where
  "avi_version_block data =
     (case data of
        PDict d \<Rightarrow>
          (case dget d ''version'' PNone of
             PDict v \<Rightarrow> if truthy (dget v ''Version'' PNone) then Some (PDict v) else None
           | _ \<Rightarrow> None)
      | _ \<Rightarrow> None)"

definition avi_controller_get_version :: "pyval \<Rightarrow> profile \<Rightarrow> pyval io" where
  "avi_controller_get_version opts profile =
     bindM (avi_api_get opts avi_INITIAL_DATA PNone profile) (\<lambda>data.
     case avi_version_block data of
       None \<Rightarrow> avi_api_get opts avi_CLUSTER_VERSION PNone profile
     | Some v \<Rightarrow> pureM v)"

definition avi_controller_get_cluster :: "pyval \<Rightarrow> profile \<Rightarrow> pyval io" where
  "avi_controller_get_cluster opts profile = avi_api_get opts avi_CLUSTER PNone profile"

text \<open>\<open>resp.get("results", []) or []\<close> of a dict, otherwise \<open>[]\<close>.\<close>

definition avi_results :: "pyval \<Rightarrow> pyval" where
  "avi_results resp =
     (case resp of PDict d \<Rightarrow> py_or (dget d ''results'' (PList [])) (PList []) | _ \<Rightarrow> PList [])"

definition avi_controller_list_clouds :: "pyval \<Rightarrow> profile \<Rightarrow> pyval io" where
  "avi_controller_list_clouds opts profile =
     bindM (avi_api_get opts avi_CLOUD PNone profile) (\<lambda>resp. pureM (avi_results resp))"

definition avi_controller_list_tenants :: "pyval \<Rightarrow> profile \<Rightarrow> pyval io" where
  "avi_controller_list_tenants opts profile =
     bindM (avi_api_get opts avi_TENANT PNone profile) (\<lambda>resp. pureM (avi_results resp))"

definition avi_controller_get_cloud :: "pyval \<Rightarrow> pyval \<Rightarrow> profile \<Rightarrow> pyval io" where
  "avi_controller_get_cloud opts name profile =
     bindM (avi_controller_list_clouds opts profile) (\<lambda>clouds.
     bindM (liftR (bindR (py_iter clouds) (find_by ''name'' name))) (\<lambda>cloud.
     if cloud = PNone then raiseM (KeyError (''cloud '' @ py_repr name @ '' not found on AVI Controller''))
     else pureM cloud))"

definition avi_controller_get_or_none :: "pyval \<Rightarrow> pyval \<Rightarrow> profile \<Rightarrow> pyval io" where
  "avi_controller_get_or_none opts name profile =
     tryM (avi_controller_get_cloud opts name profile)
       (\<lambda>exc. case exc of
          KeyError _ \<Rightarrow> pureM PNone
        | _ \<Rightarrow> if http_status_is exc 404 then pureM PNone else raiseM exc)"

definition avi_controller_ping :: "pyval \<Rightarrow> profile \<Rightarrow> bool io" where
  "avi_controller_ping opts profile =
     tryM (bindM (avi_controller_get_version opts profile) (\<lambda>_. pureM True))
       (\<lambda>exc. if request_exception exc then pureM False else raiseM exc)"

text \<open>The last status and the last error are kept over the rounds.\<close>

definition avi_setup_attempt :: "string \<Rightarrow> pyval \<Rightarrow> int \<Rightarrow> pyval \<times> pyval \<Rightarrow> (unit + pyval \<times> pyval) io" where
  "avi_setup_attempt url verify poll_interval seen =
     probe (plain_request ''GET'' url PNone PNone [] PNone verify (PInt (min 15 poll_interval)))
       (\<lambda>resp. Ok (if 200 \<le> status_code resp \<and> status_code resp < 300 then Inl ()
                   else Inr (PInt (status_code resp), snd seen)))
       (\<lambda>exc. (fst seen, PStr (exn_str exc)))"

definition avi_controller_wait_for_setup_ready :: "pyval \<Rightarrow> int \<Rightarrow> int \<Rightarrow> profile \<Rightarrow> unit io" where
  "avi_controller_wait_for_setup_ready opts timeout poll_interval profile =
     bindM (liftR (avi_get_config opts profile)) (\<lambda>cfg.
     wait_ready
       (avi_setup_attempt (https_url (cfg_host cfg) avi_INITIAL_DATA) (cfg_verify_ssl cfg) poll_interval)
       (\<lambda>(status, error). RuntimeError (''AVI Controller '' @ py_str (cfg_host cfg)
          @ '': first-boot wizard not ready within '' @ int_str timeout @ ''s (last HTTP='' @ py_str status
          @ '', last error='' @ py_str error @ '')''))
       (PNone, PNone) timeout poll_interval)"

subsection \<open>The first-boot wizard\<close>

text \<open>The calls of the wizard go through a session of their own, whose cookies they keep.\<close>

definition wizard_login :: "avi_config \<Rightarrow> pyval \<Rightarrow> pyval \<Rightarrow> session io" where
  "wizard_login cfg timeout password =
     bindM (session_form (new_session\<lparr>s_verify := cfg_verify_ssl cfg\<rparr>) ''POST'' (https_url (cfg_host cfg) ''/login'')
         (PDict [(''username'', PStr ''admin''), (''password'', password)])
         [(''Referer'', PStr (https_url (cfg_host cfg) []))] timeout) (\<lambda>(resp, sess).
     bindM (raise_for_status resp) (\<lambda>_. pureM sess))"

definition wizard_write :: "string \<Rightarrow> avi_config \<Rightarrow> pyval \<Rightarrow> session \<Rightarrow> string \<Rightarrow> pyval \<Rightarrow> session io" where
  "wizard_write meth cfg timeout sess path body =
     bindM (session_send sess meth (https_url (cfg_host cfg) path) PNone body
         [(''Content-Type'', PStr ''application/json''),
          (''X-CSRFToken'', dget (s_cookies sess) ''csrftoken'' (PStr [])),
          (''Referer'', PStr (https_url (cfg_host cfg) []))] timeout) (\<lambda>(resp, sess).
     bindM (raise_for_status resp) (\<lambda>_. pureM sess))"

definition wizard_get :: "avi_config \<Rightarrow> pyval \<Rightarrow> session \<Rightarrow> string \<Rightarrow> (http_response \<times> session) io" where
  "wizard_get cfg timeout sess path =
     bindM (session_send sess ''GET'' (https_url (cfg_host cfg) path) PNone PNone
         [(''Referer'', PStr (https_url (cfg_host cfg) []))] timeout) (\<lambda>(resp, sess).
     bindM (raise_for_status resp) (\<lambda>_. pureM (resp, sess)))"

definition avi_SYSTEM :: string where "avi_SYSTEM = ''/api/systemconfiguration''"
definition avi_BACKUP :: string where "avi_BACKUP = ''/api/backupconfiguration''"

definition replacing :: "string \<Rightarrow> pyval \<Rightarrow> pyval" where
  "replacing key v = PDict [(''replace'', PDict [(key, v)])]"

definition avi_dns_config :: "pyval list \<Rightarrow> pyval \<Rightarrow> pyval" where
  "avi_dns_config servers search_domain =
     PDict ((''server_list'', PList (map (\<lambda>ip. PDict [(''type'', PStr ''V4''), (''addr'', ip)]) servers))
       # (if truthy search_domain then [(''search_domain'', search_domain)] else []))"

definition avi_ntp_config :: "pyval list \<Rightarrow> pyval" where
  "avi_ntp_config servers =
     PDict [(''ntp_servers'', PList (map (\<lambda>s. PDict [(''server'', PDict [(''type'', PStr ''DNS''), (''addr'', s)])]) servers))]"

text \<open>\<open>json()["results"][0]["url"]\<close> without the base URL.\<close>

definition backup_path :: "avi_config \<Rightarrow> http_response \<Rightarrow> string res" where
  "backup_path cfg resp =
     bindR (response_json resp) (\<lambda>body.
     bindR (py_item body ''results'') (\<lambda>results.
     bindR (py_first results) (\<lambda>entry.
     bindR (py_item entry ''url'') (\<lambda>url.
     case url of PStr s \<Rightarrow> Ok (drop_all (https_url (cfg_host cfg) []) s) | _ \<Rightarrow> Exc (attr_error url ''replace'')))))"

definition avi_controller_bootstrap_wizard ::
  "pyval \<Rightarrow> pyval \<Rightarrow> pyval \<Rightarrow> pyval \<Rightarrow> pyval \<Rightarrow> pyval \<Rightarrow> pyval \<Rightarrow> profile \<Rightarrow> pyval \<Rightarrow> pyval io" where
  "avi_controller_bootstrap_wizard opts default_password new_password dns_servers ntp_servers backup_passphrase
       dns_search_domain profile timeout =
     bindM (liftR (avi_get_config opts profile)) (\<lambda>cfg.
     bindM (wizard_login cfg timeout default_password) (\<lambda>sess.
     bindM (wizard_write ''PUT'' cfg timeout sess ''/api/useraccount''
         (PDict [(''username'', PStr ''admin''), (''password'', new_password), (''email'', PStr []),
            (''old_password'', default_password)])) (\<lambda>_.
     bindM (wizard_login cfg timeout new_password) (\<lambda>sess.
     bindM (liftR (py_iter (py_or dns_servers (PList [])))) (\<lambda>dns.
     bindM (wizard_write ''PATCH'' cfg timeout sess avi_SYSTEM
         (replacing ''dns_configuration'' (avi_dns_config dns dns_search_domain))) (\<lambda>sess.
     bindM (liftR (py_iter (py_or ntp_servers (PList [])))) (\<lambda>ntp.
     bindM (wizard_write ''PATCH'' cfg timeout sess avi_SYSTEM
         (replacing ''ntp_configuration'' (avi_ntp_config ntp))) (\<lambda>sess.
     bindM (wizard_get cfg timeout sess avi_BACKUP) (\<lambda>(resp, sess).
     bindM (liftR (backup_path cfg resp)) (\<lambda>path.
     bindM (wizard_write ''PATCH'' cfg timeout sess path
         (PDict [(''add'', PDict [(''backup_passphrase'', backup_passphrase)])])) (\<lambda>sess.
     bindM (wizard_write ''PATCH'' cfg timeout sess avi_SYSTEM
         (replacing ''welcome_workflow_complete'' (PBool True))) (\<lambda>_.
     bindM (avi_invalidate_session opts profile) (\<lambda>_.
     pureM (PDict [(''admin_password_rotated'', PBool True), (''dns_servers'', PList dns), (''ntp_servers'', PList ntp),
       (''welcome_workflow_complete'', PBool True)]))))))))))))))"

text \<open>\<open>initial_setup\<close>; a \<open>NotImplementedError\<close> is a \<open>RuntimeError\<close>.\<close>

definition avi_controller_initial_setup :: "pyval io" where
  "avi_controller_initial_setup =
     raiseM (RuntimeError (''avi_controller.initial_setup was removed; use bootstrap_wizard() ''
       @ ''(AVI 22.x+ replaced POST /api/initial-controller-setup with an ''
       @ ''8-step wizard sequence '' @ em_dash @ '' see docstring).''))"

definition avi_node_body :: "pyval \<Rightarrow> pyval res" where
  "avi_node_body n =
     bindR (py_item n ''name'') (\<lambda>name.
     bindR (py_item n ''ip'') (\<lambda>ip.
     Ok (PDict [(''name'', name), (''ip'', PDict [(''type'', PStr ''V4''), (''addr'', ip)])])))"

definition avi_controller_configure_cluster :: "pyval \<Rightarrow> pyval \<Rightarrow> pyval \<Rightarrow> profile \<Rightarrow> pyval io" where
  "avi_controller_configure_cluster opts nodes cluster_ip profile =
     bindM (liftR (bindR (py_iter nodes) (mapR avi_node_body))) (\<lambda>ns.
     tryM (avi_api_put opts avi_CLUSTER
         (PDict ((''nodes'', PList ns)
           # (if truthy cluster_ip then [(''virtual_ip'', PDict [(''type'', PStr ''V4''), (''addr'', cluster_ip)])] else [])))
         profile)
       (\<lambda>exc. if is_HTTPError exc then
            (case exn_response exc of
               Some resp \<Rightarrow>
                 bindM (liftR (text_prefix resp)) (\<lambda>t.
                 raiseM (RuntimeError (''AVI Controller cluster configure returned HTTP ''
                   @ int_str (status_code resp) @ '': '' @ t)))
             | None \<Rightarrow> raiseM (RuntimeError (''AVI Controller cluster configure returned HTTP ?: '')))
          else raiseM exc))"

text \<open>\<open>deploy_ova\<close>: the backend and its arguments.\<close>

definition avi_push_kwargs :: "pyval \<Rightarrow> (string \<times> dict) res" where
  "avi_push_kwargs spec =
     bindR (py_get spec ''deployment_backend'' (PStr ''pyvmomi'')) (\<lambda>b.
     let backend = lower (py_str b) in
     bindR (get_or spec ''ova_url'' ''controller_ova_url'') (\<lambda>ova_source.
     bindR (get_or spec ''vm_name'' ''controller_vm_name'') (\<lambda>vm_name.
     if \<not> truthy ova_source then
       Exc (ValueError (''AVI deploy spec missing '' @ repr_str ''ova_url'' @ '' / '' @ repr_str ''controller_ova_url''))
     else if \<not> truthy vm_name then
       Exc (ValueError (''AVI deploy spec missing '' @ repr_str ''vm_name'' @ '' / '' @ repr_str ''controller_vm_name''))
     else
       bindR (push_kwargs (Ok ova_source) (Ok vm_name) spec) (\<lambda>kwargs.
       if backend = ''pyvmomi'' then Ok (backend, kwargs)
       else if backend = ''ovftool'' then
         bindR (ovftool_options spec) (\<lambda>tool. Ok (backend, kwargs @ tool))
       else Exc (ValueError (''unsupported AVI deployment_backend='' @ repr_str backend))))))"

definition avi_controller_deploy_ova :: "ova_push \<Rightarrow> pyval \<Rightarrow> pyval io" where
  "avi_controller_deploy_ova push spec =
     bindM (liftR (avi_push_kwargs spec)) (\<lambda>(backend, kwargs). push backend kwargs)"

subsection \<open>\<open>modules/vcf_avi.py\<close>\<close>

definition exec_avi_get_version :: "pyval \<Rightarrow> profile \<Rightarrow> pyval io" where
  "exec_avi_get_version opts profile = avi_controller_get_version opts profile"

definition exec_avi_ping :: "pyval \<Rightarrow> profile \<Rightarrow> bool io" where
  "exec_avi_ping opts profile = avi_controller_ping opts profile"

definition exec_avi_installed :: "pyval \<Rightarrow> pyval \<Rightarrow> profile \<Rightarrow> pyval io" where
  "exec_avi_installed opts name profile =
     tryM (bindM (avi_controller_get_version opts profile) (\<lambda>version.
         pureM (PDict [(''installed'', PBool True), (''version'', version), (''error'', PNone)])))
       (\<lambda>exc. pureM (PDict [(''installed'', PBool False), (''version'', PNone), (''error'', PStr (exn_str exc))]))"

text \<open>The arguments with which \<open>deploy\<close> asks for the VM.\<close>

definition avi_find_kwargs :: "pyval \<Rightarrow> dict res" where
  "avi_find_kwargs spec =
     bindR (mapR (py_item spec) TARGET_KEYS) (\<lambda>target.
     bindR (py_item spec ''vm_name'') (\<lambda>vm_name.
     bindR (bindR (py_get spec ''target_port'' (PInt 443)) py_int) (\<lambda>port.
     bindR (py_get spec ''verify_ssl'' (PBool False)) (\<lambda>verify.
     Ok (zip TARGET_KEYS target @ [(''vm_name'', vm_name), (''target_port'', PInt port), (''verify_ssl'', verify)])))))"

definition exec_avi_deploy :: "vm_finder \<Rightarrow> ova_push \<Rightarrow> pyval \<Rightarrow> pyval \<Rightarrow> profile \<Rightarrow> dict io" where
  "exec_avi_deploy find_vm push opts spec profile =
     bindM (liftR (avi_find_kwargs spec)) (\<lambda>kwargs.
     bindM (push_unless_exists find_vm kwargs (avi_controller_deploy_ova push spec)) (\<lambda>deployed.
     bindM (liftR (int_option spec ''ready_timeout'' 1800)) (\<lambda>t.
     bindM (liftR (int_option spec ''ready_poll_interval'' 15)) (\<lambda>i.
     bindM (avi_controller_wait_for_setup_ready opts t i profile) (\<lambda>_.
     bindM (liftR (py_item spec ''default_password'')) (\<lambda>default_password.
     bindM (liftR (py_item spec ''admin_password'')) (\<lambda>admin_password.
     bindM (liftR (py_get spec ''dns_servers'' PNone)) (\<lambda>dns.
     bindM (liftR (py_get spec ''ntp_servers'' PNone)) (\<lambda>ntp.
     bindM (liftR (py_item spec ''backup_passphrase'')) (\<lambda>passphrase.
     bindM (liftR (py_get spec ''dns_search_domain'' PNone)) (\<lambda>search_domain.
     bindM (avi_controller_bootstrap_wizard opts default_password admin_password (py_or dns (PList [])) (py_or ntp (PList []))
         passphrase search_domain profile (PInt 60)) (\<lambda>wizard.
     bindM (liftR (py_get spec ''cluster_nodes'' PNone)) (\<lambda>nodes.
     bindM (if truthy nodes then
         bindM (liftR (py_get spec ''cluster_ip'' PNone)) (\<lambda>ip. avi_controller_configure_cluster opts nodes ip profile)
       else pureM PNone) (\<lambda>cluster.
     bindM (avi_controller_get_version opts profile) (\<lambda>version.
     pureM (dupdate [(''deployed'', PBool True), (''version'', version), (''wizard'', wizard), (''cluster'', cluster)]
       (case deployed of PDict d \<Rightarrow> d | _ \<Rightarrow> [])))))))))))))))))"

subsection \<open>\<open>states/vcf_avi.py\<close>\<close>

definition avi_resolve_deploy_spec :: "pyval \<Rightarrow> pyval \<Rightarrow> profile \<Rightarrow> pyval res" where
  "avi_resolve_deploy_spec opts deploy_spec profile =
     (if deploy_spec \<noteq> PNone then Ok deploy_spec
      else
        bindR (py_get opts ''pillar'' empty_dict) (\<lambda>pillar.
        bindR (py_get (py_or pillar empty_dict) ''saltext.vcf'' empty_dict) (\<lambda>r.
        let root = py_or r empty_dict in
        bindR (py_get root ''avi'' empty_dict) (\<lambda>a.
        bindR (case has_profile profile of
            None \<Rightarrow> Ok (py_or a empty_dict)
          | Some p \<Rightarrow>
              bindR (py_get root ''profiles'' empty_dict) (\<lambda>profiles.
              bindR (py_get profiles p empty_dict) (\<lambda>prof. py_get prof ''avi'' (py_or a empty_dict)))) (\<lambda>cfg.
        py_get cfg ''deploy_spec'' PNone)))))"

text \<open>What the state does about a controller that does not answer.\<close>

definition avi_absent ::
  "vm_finder \<Rightarrow> ova_push \<Rightarrow> pyval \<Rightarrow> string \<Rightarrow> pyval \<Rightarrow> profile \<Rightarrow> salt_ret io" where
  "avi_absent find_vm push opts name deploy_spec profile =
     bindM (liftR (avi_resolve_deploy_spec opts deploy_spec profile)) (\<lambda>spec.
     if \<not> truthy spec then
       pureM (refused name (''AVI Controller '' @ repr_str name @ '' not reachable and no deploy_spec ''
         @ ''configured (set state arg '' @ repr_str ''deploy_spec'' @ '' or pillar ''
         @ repr_str ''saltext.vcf:avi:deploy_spec'' @ '').''))
     else
       bindM (liftR (get_or spec ''ova_url'' ''controller_ova_url'')) (\<lambda>ova.
       bindM (liftR (py_get opts ''test'' PNone)) (\<lambda>test.
       if truthy test then
         bindM (liftR (py_get spec ''target_host'' PNone)) (\<lambda>target.
         pureM ((would name (''Would deploy AVI Controller from '' @ py_repr ova @ '' to '' @ py_repr target
             @ '' and run first-boot wizard''))
           \<lparr>ret_changes := PDict [(''plan'', PStr ''deploy_avi_controller''), (''ova'', ova)]\<rparr>))
       else
         caught deploy_error (\<lambda>exc. refused name (''AVI Controller deploy failed: '' @ exn_str exc))
           (exec_avi_deploy find_vm push opts spec profile) (\<lambda>result.
          let version = py_or (dget result ''version'' PNone) empty_dict;
              banner = (case version of PDict v \<Rightarrow> dget v ''Version'' PNone | _ \<Rightarrow> PNone) in
          pureM (changed name [(''deployed'', py_or banner (PBool True))]
            (''AVI Controller '' @ repr_str name @ '' deployed''
              @ (if truthy banner then '' (version='' @ py_str banner @ '')'' else [])))))))"

definition vcf_avi_installed ::
  "vm_finder \<Rightarrow> ova_push \<Rightarrow> pyval \<Rightarrow> string \<Rightarrow> pyval \<Rightarrow> profile \<Rightarrow> salt_ret io" where
  "vcf_avi_installed find_vm push opts name deploy_spec profile =
     bindM (avi_controller_ping opts profile) (\<lambda>up.
     if up then pureM (unchanged name (''AVI Controller '' @ repr_str name @ '' already reachable''))
     else avi_absent find_vm push opts name deploy_spec profile)"

subsection \<open>What the wizard sends\<close>

lemma wizard_login_Ok:
  "wizard_login cfg t pw w = Some (Ok s, w') \<Longrightarrow>
     \<exists>rq. sent w' = sent w @ [rq] \<and> rq_method rq = ''POST'' \<and> rq_url rq = https_url (cfg_host cfg) ''/login'' \<and>
       rq_data rq = PDict [(''username'', PStr ''admin''), (''password'', pw)]"
  by (auto simp: wizard_login_def bindM_Ok_iff session_rq_def dest!: session_form_Ok raise_for_status_Ok)

lemma wizard_write_Ok:
  "wizard_write m cfg t s path body w = Some (Ok s', w') \<Longrightarrow>
     \<exists>rq. sent w' = sent w @ [rq] \<and> rq_method rq = m \<and> rq_url rq = https_url (cfg_host cfg) path \<and> rq_json rq = body"
  by (auto simp: wizard_write_def bindM_Ok_iff session_rq_def dest!: session_send_Ok raise_for_status_Ok)

lemma wizard_get_Ok:
  "wizard_get cfg t s path w = Some (Ok x, w') \<Longrightarrow>
     \<exists>rq. sent w' = sent w @ [rq] \<and> rq_method rq = ''GET'' \<and> rq_url rq = https_url (cfg_host cfg) path"
  by (auto simp: wizard_get_def bindM_Ok_iff session_rq_def dest!: session_send_Ok raise_for_status_Ok)

text \<open>The requests of a wizard that returned.\<close>

definition wizard_calls :: "avi_config \<Rightarrow> string \<Rightarrow> (string \<times> string) list" where
  "wizard_calls cfg path =
     map (\<lambda>(m, q). (m, https_url (cfg_host cfg) q))
       [(''POST'', ''/login''), (''PUT'', ''/api/useraccount''), (''POST'', ''/login''), (''PATCH'', avi_SYSTEM),
        (''PATCH'', avi_SYSTEM), (''GET'', avi_BACKUP), (''PATCH'', path), (''PATCH'', avi_SYSTEM)]"

text \<open>C8: A wizard that returns has made its eight calls in order: the login with the default password, the rotation of
  the password, the login with the new one, resolvers, time servers, the backup configuration and its passphrase,
  and last the flag that ends the wizard; the cached login of the controller is gone.\<close>

theorem avi_wizard_sequence:
  assumes "avi_controller_bootstrap_wizard opts old_pw new_pw dns ntp phrase zone p t w = Some (Ok v, w')"
  shows "\<exists>cfg path rs. avi_get_config opts p = Ok cfg \<and> sent w' = sent w @ rs \<and>
    map (\<lambda>rq. (rq_method rq, rq_url rq)) rs = wizard_calls cfg path \<and>
    rq_data (rs ! 0) = PDict [(''username'', PStr ''admin''), (''password'', old_pw)] \<and>
    rq_json (rs ! 1) = PDict [(''username'', PStr ''admin''), (''password'', new_pw), (''email'', PStr []), (''old_password'', old_pw)] \<and>
    rq_data (rs ! 2) = PDict [(''username'', PStr ''admin''), (''password'', new_pw)] \<and>
    rq_json (rs ! 6) = PDict [(''add'', PDict [(''backup_passphrase'', phrase)])] \<and>
    rq_json (rs ! 7) = replacing ''welcome_workflow_complete'' (PBool True) \<and>
    cache_get Avi_Cache (host_user_key cfg) w' = None"
proof -
  from assms obtain cfg s1 w1 s2 w2 s3 w3 ds s4 w4 ns s5 w5 x w6 path s7 w7 s8 w8 where
    cfg: "avi_get_config opts p = Ok cfg"
    and steps: "wizard_login cfg t old_pw w = Some (Ok s1, w1)"
      "wizard_write ''PUT'' cfg t s1 ''/api/useraccount''
         (PDict [(''username'', PStr ''admin''), (''password'', new_pw), (''email'', PStr []), (''old_password'', old_pw)]) w1
         = Some (Ok s2, w2)"
      "wizard_login cfg t new_pw w2 = Some (Ok s3, w3)"
      "wizard_write ''PATCH'' cfg t s3 avi_SYSTEM (replacing ''dns_configuration'' ds) w3 = Some (Ok s4, w4)"
      "wizard_write ''PATCH'' cfg t s4 avi_SYSTEM (replacing ''ntp_configuration'' ns) w4 = Some (Ok s5, w5)"
      "wizard_get cfg t s5 avi_BACKUP w5 = Some (Ok x, w6)"
      "wizard_write ''PATCH'' cfg t (snd x) path (PDict [(''add'', PDict [(''backup_passphrase'', phrase)])]) w6 = Some (Ok s7, w7)"
      "wizard_write ''PATCH'' cfg t s7 avi_SYSTEM (replacing ''welcome_workflow_complete'' (PBool True)) w7 = Some (Ok s8, w8)"
    and dropped: "avi_invalidate_session opts p w8 = Some (Ok (), w')"
    unfolding avi_controller_bootstrap_wizard_def bindM_Ok_iff split_beta by auto
  from steps(1,2,3) obtain r1 r2 r3 where 123: "sent w3 = sent w @ [r1, r2, r3]"
      "rq_method r1 = ''POST''" "rq_url r1 = https_url (cfg_host cfg) ''/login''"
      "rq_data r1 = PDict [(''username'', PStr ''admin''), (''password'', old_pw)]"
      "rq_method r2 = ''PUT''" "rq_url r2 = https_url (cfg_host cfg) ''/api/useraccount''"
      "rq_json r2 = PDict [(''username'', PStr ''admin''), (''password'', new_pw), (''email'', PStr []), (''old_password'', old_pw)]"
      "rq_method r3 = ''POST''" "rq_url r3 = https_url (cfg_host cfg) ''/login''"
      "rq_data r3 = PDict [(''username'', PStr ''admin''), (''password'', new_pw)]"
    by (auto dest!: wizard_login_Ok wizard_write_Ok)
  from steps(4,5,6) obtain r4 r5 r6 where 456: "sent w6 = sent w3 @ [r4, r5, r6]"
      "rq_method r4 = ''PATCH''" "rq_url r4 = https_url (cfg_host cfg) avi_SYSTEM"
      "rq_method r5 = ''PATCH''" "rq_url r5 = https_url (cfg_host cfg) avi_SYSTEM"
      "rq_method r6 = ''GET''" "rq_url r6 = https_url (cfg_host cfg) avi_BACKUP"
    by (auto dest!: wizard_get_Ok wizard_write_Ok)
  from steps(7,8) obtain r7 r8 where 78: "sent w8 = sent w6 @ [r7, r8]"
      "rq_method r7 = ''PATCH''" "rq_url r7 = https_url (cfg_host cfg) path"
      "rq_json r7 = PDict [(''add'', PDict [(''backup_passphrase'', phrase)])]"
      "rq_method r8 = ''PATCH''" "rq_url r8 = https_url (cfg_host cfg) avi_SYSTEM"
      "rq_json r8 = replacing ''welcome_workflow_complete'' (PBool True)"
    by (auto dest!: wizard_write_Ok)
  have w': "w' = cache_upd Avi_Cache (host_user_key cfg) None w8"
    using dropped avi.drop [OF cfg] by simp
  show ?thesis
    by (intro exI [of _ cfg] exI [of _ path] exI [of _ "[r1, r2, r3, r4, r5, r6, r7, r8]"])
      (simp add: cfg w' 123 456 78 wizard_calls_def)
qed

lemma avi_wizard_sequence_witness:
  "\<exists>v w' cfg path. avi_controller_bootstrap_wizard (opts_for ''avi'') (PStr ''old'') (PStr ''new'') (PList [PStr ''ns'']) (PList []) (PStr ''pp'') PNone
       None (PInt 60)
       (scripted ((replicate 5 (body_reply empty_dict)) @ [body_reply (PDict [(''results'', PList [PDict [(''url'', PStr ''/b/1'')]])])]
         @ replicate 2 (body_reply empty_dict))) = Some (Ok v, w') \<and>
     map (\<lambda>rq. (rq_method rq, rq_url rq)) (sent w') = wizard_calls cfg path"
proof -
  let ?w = "scripted ((replicate 5 (body_reply empty_dict)) @ [body_reply (PDict [(''results'', PList [PDict [(''url'', PStr ''/b/1'')]])])]
    @ replicate 2 (body_reply empty_dict))"
  have run: "map_option fst (avi_controller_bootstrap_wizard (opts_for ''avi'') (PStr ''old'') (PStr ''new'') (PList [PStr ''ns'']) (PList [])
      (PStr ''pp'') PNone None (PInt 60) ?w) =
    Some (Ok (PDict [(''admin_password_rotated'', PBool True), (''dns_servers'', PList [PStr ''ns'']), (''ntp_servers'', PList []),
       (''welcome_workflow_complete'', PBool True)]))" by code_simp
  have "sent ?w = []" by (simp add: scripted_def)
  with avi_wizard_sequence [OF run_result [OF run]] run_result [OF run] show ?thesis by auto
qed

end
