(* ===== verification/Hcx_Manager.thy ===== *)
theory Hcx_Manager
  imports Appliance_Setup Hcx Text_Formats
begin

section \<open>Hcx_Manager: probing and bootstrapping an HCX Manager\<close>

text \<open>
  \<open>clients/hcx_manager.py\<close>, \<open>modules/vcf_hcx.py\<close> and \<open>states/vcf_hcx.py\<close>. Closing a session has no effect
  here.
\<close>

subsection \<open>\<open>clients/hcx_manager.py\<close>\<close>

definition hcx_ABOUT :: string where "hcx_ABOUT = ''/hybridity/api/about''"
definition hcx_ENDPOINT_INFO :: string where "hcx_ENDPOINT_INFO = ''/hybridity/api/endpointInfo''"
definition hcx_SITES :: string where "hcx_SITES = ''/hybridity/api/cloudConfigs''"
definition hcx_ADMIN_PORT :: int where "hcx_ADMIN_PORT = 9443"
definition hcx_ADMIN_LOGIN :: string where "hcx_ADMIN_LOGIN = ''/api/admin/v1/sessions''"
definition hcx_ADMIN_VCENTER :: string where "hcx_ADMIN_VCENTER = ''/api/admin/global/config/vcenter''"
definition hcx_ADMIN_LOOKUP :: string where "hcx_ADMIN_LOOKUP = ''/api/admin/global/config/lookupservice''"
definition hcx_ADMIN_CERTS :: string where "hcx_ADMIN_CERTS = ''/api/admin/certificates''"
definition hcx_ADMIN_APPLIANCE_CFG :: string where
  "hcx_ADMIN_APPLIANCE_CFG = ''/api/admin/global/config/applianceConfiguration''"
definition hcx_ADMIN_APPLIANCE_INFO :: string where
  "hcx_ADMIN_APPLIANCE_INFO = ''/api/admin/global/config/applianceInfo''"
definition hcx_ADMIN_LICENSES :: string where "hcx_ADMIN_LICENSES = ''/api/admin/licenses''"

definition hcx_manager_get_version :: "pyval \<Rightarrow> profile \<Rightarrow> pyval io" where
  "hcx_manager_get_version opts profile = hcx_api_get opts hcx_ABOUT PNone profile (PInt 30)"

definition hcx_manager_list_sites :: "pyval \<Rightarrow> profile \<Rightarrow> pyval io" where
  "hcx_manager_list_sites opts profile = hcx_api_get opts hcx_SITES PNone profile (PInt 30)"

text \<open>The first of the four keys that holds a list.\<close>

fun first_list :: "dict \<Rightarrow> string list \<Rightarrow> pyval list" where
  "first_list d [] = []"
| "first_list d (k # ks) = (case dget d k PNone of PList xs \<Rightarrow> xs | _ \<Rightarrow> first_list d ks)"

definition hcx_manager_extract_sites :: "pyval \<Rightarrow> pyval list" where
  "hcx_manager_extract_sites body =
     (case body of
        PList xs \<Rightarrow> xs
      | PDict d \<Rightarrow> first_list d [''items'', ''data'', ''cloudConfigs'', ''cloudConfig'']
      | _ \<Rightarrow> [])"

text \<open>The first dict that has \<open>name\<close> under one of the two keys.\<close>

fun entry_named :: "string \<Rightarrow> string \<Rightarrow> pyval \<Rightarrow> pyval list \<Rightarrow> pyval" where
  "entry_named k1 k2 name [] = PNone"
| "entry_named k1 k2 name (e # es) =
     (case e of
        PDict d \<Rightarrow>
          if py_eq (dget d k1 PNone) name \<or> py_eq (dget d k2 PNone) name then e else entry_named k1 k2 name es
      | _ \<Rightarrow> entry_named k1 k2 name es)"

definition hcx_manager_get_or_none :: "pyval \<Rightarrow> pyval \<Rightarrow> profile \<Rightarrow> pyval io" where
  "hcx_manager_get_or_none opts name profile =
     attempt (\<lambda>exc. http_status_is exc 404) (hcx_manager_list_sites opts profile)
       (\<lambda>body. pureM (entry_named ''endpointName'' ''name'' name (hcx_manager_extract_sites body)))
       (\<lambda>_. pureM PNone)"

definition hcx_setup_attempt :: "string \<Rightarrow> pyval \<Rightarrow> int \<Rightarrow> string \<Rightarrow> (pyval + string) io" where
  "hcx_setup_attempt url verify poll_interval seen =
     probe (plain_request ''GET'' url PNone PNone [] PNone verify (PInt poll_interval))
       (\<lambda>resp. if status_code resp < 500 then
            bindR (text_prefix resp) (\<lambda>t.
            Ok (Inl (PDict [(''status'', PInt (status_code resp)),
              (''content_type'', (case header_get resp ''Content-Type'' of PNone \<Rightarrow> PStr [] | v \<Rightarrow> v)),
              (''body_prefix'', PStr t)])))
          else Ok (Inr (''HTTP '' @ int_str (status_code resp))))
       exn_str"

definition hcx_manager_wait_for_setup_ready :: "pyval \<Rightarrow> int \<Rightarrow> int \<Rightarrow> profile \<Rightarrow> pyval io" where
  "hcx_manager_wait_for_setup_ready opts timeout poll_interval profile =
     bindM (liftR (hcx_get_config opts profile)) (\<lambda>cfg.
     wait_ready (hcx_setup_attempt (https_url (cfg_host cfg) hcx_ENDPOINT_INFO) (cfg_verify_ssl cfg) poll_interval)
       (\<lambda>last_exc. TimeoutError (''HCX Manager /endpointInfo not ready within '' @ int_str timeout
          @ ''s (last error: '' @ last_exc @ '')''))
       ''None'' timeout poll_interval)"

definition hcx_manager_admin_base :: "pyval \<Rightarrow> profile \<Rightarrow> (string \<times> pyval) res" where
  "hcx_manager_admin_base opts profile =
     bindR (hcx_get_config opts profile) (\<lambda>cfg.
     Ok (https_url (cfg_host cfg) ('':'' @ int_str hcx_ADMIN_PORT), cfg_verify_ssl cfg))"

definition hcx_manager_admin_login :: "pyval \<Rightarrow> pyval \<Rightarrow> profile \<Rightarrow> pyval \<Rightarrow> (session \<times> string) io" where
  "hcx_manager_admin_login opts admin_password profile timeout =
     bindM (liftR (hcx_manager_admin_base opts profile)) (\<lambda>(base, verify).
     bindM (session_send (new_session\<lparr>s_verify := verify\<rparr>) ''POST'' (base @ hcx_ADMIN_LOGIN) PNone
         (PDict [(''username'', PStr ''admin''), (''password'', admin_password)]) [] timeout) (\<lambda>(resp, sess).
     bindM (raise_for_status resp) (\<lambda>_.
     let token = header_get resp hcx_AUTH_HEADER in
     if \<not> truthy token then
       bindM (liftR (text_prefix resp)) (\<lambda>t.
       raiseM (RuntimeError (''HCX admin login did not return x-hm-authorization header (body='' @ repr_str t @ '')'')))
     else pureM (sess\<lparr>s_headers := dset (s_headers sess) hcx_AUTH_HEADER token\<rparr>, base))))"

text \<open>A call of the admin API on such a session.\<close>

definition admin_call :: "string \<Rightarrow> session \<Rightarrow> string \<Rightarrow> pyval \<Rightarrow> pyval \<Rightarrow> (http_response \<times> session) io" where
  "admin_call meth sess url body timeout = session_send sess meth url PNone body [] timeout"

definition admin_json :: "session \<Rightarrow> string \<Rightarrow> pyval \<Rightarrow> (pyval \<times> session) io" where
  "admin_json sess url timeout =
     bindM (admin_call ''GET'' sess url PNone timeout) (\<lambda>(resp, sess).
     bindM (liftR (response_json resp)) (\<lambda>v. pureM (v, sess)))"

text \<open>\<open>info.get("data", {}).get("items", [{}])[0].get("config", {}).get("activationType")\<close> and the state of the license.\<close>

definition activation_type :: "pyval \<Rightarrow> pyval res" where
  "activation_type info =
     bindR (py_get info ''data'' empty_dict) (\<lambda>data.
     bindR (py_get data ''items'' (PList [empty_dict])) (\<lambda>entries.
     bindR (py_first entries) (\<lambda>entry.
     bindR (py_get entry ''config'' empty_dict) (\<lambda>config. py_get config ''activationType'' PNone))))"

definition license_status :: "pyval \<Rightarrow> pyval res" where
  "license_status lic =
     bindR (py_get lic ''licenseStatus'' PNone) (\<lambda>s.
     if truthy s then Ok s
     else bindR (py_get lic ''data'' empty_dict) (\<lambda>data. py_get data ''licenseStatus'' PNone))"

definition hcx_manager_activate :: "pyval \<Rightarrow> pyval \<Rightarrow> profile \<Rightarrow> pyval \<Rightarrow> pyval \<Rightarrow> pyval io" where
  "hcx_manager_activate opts activation_key profile timeout admin_password =
     (if \<not> truthy admin_password then
        pureM (PDict [(''skipped'', PBool True), (''reason'', PStr ''no admin_password'')])
      else
        bindM (hcx_manager_admin_login opts admin_password profile timeout) (\<lambda>(sess, base).
        bindM (admin_json sess (base @ hcx_ADMIN_APPLIANCE_INFO) timeout) (\<lambda>(info, sess).
        bindM (admin_json sess (base @ hcx_ADMIN_LICENSES) timeout) (\<lambda>(lic, sess).
        bindM (liftR (activation_type info)) (\<lambda>a.
        bindM (liftR (license_status lic)) (\<lambda>s.
        pureM (PDict [(''activationType'', a), (''licenseStatus'', s), (''already_activated'', PBool True)])))))))"

text \<open>\<open>base64.b64encode(password.encode("utf-8")).decode("ascii")\<close>.\<close>

definition b64_password :: "pyval \<Rightarrow> pyval res" where
  "b64_password v = (case v of PStr s \<Rightarrow> Ok (PStr (b64_encode s)) | _ \<Rightarrow> Exc (attr_error v ''encode''))"

definition vcenter_registration :: "pyval \<Rightarrow> pyval \<Rightarrow> pyval \<Rightarrow> pyval" where
  "vcenter_registration url user encoded =
     PDict [(''data'', PDict [(''items'', PList [PDict [(''section'', PStr ''vcenter''),
       (''config'', PDict [(''url'', url), (''userName'', user), (''password'', encoded)])]])])]"

definition lookup_registration :: "pyval \<Rightarrow> pyval" where
  "lookup_registration sso_url =
     PDict [(''data'', PDict [(''items'', PList [PDict [(''section'', PStr ''lookupservice''),
       (''config'', PDict [(''lookupServiceUrl'', sso_url)])]])])]"

text \<open>The certificate in the body of a 400.\<close>

definition offered_certificate :: "http_response \<Rightarrow> pyval" where
  "offered_certificate resp =
     (case json_value resp of
        Some (PDict body) \<Rightarrow>
          (case dget body ''data'' PNone of PList (PDict d # _) \<Rightarrow> dget d ''certificate'' PNone | _ \<Rightarrow> PNone)
      | _ \<Rightarrow> PNone)"

text \<open>The first \<open>POST\<close>, and a second one after the certificate that it refused was trusted.\<close>

definition register_vcenter :: "session \<Rightarrow> string \<Rightarrow> pyval \<Rightarrow> pyval \<Rightarrow> session io" where
  "register_vcenter sess base body timeout =
     bindM (admin_call ''POST'' sess (base @ hcx_ADMIN_VCENTER) body timeout) (\<lambda>(resp, sess).
     let cert = offered_certificate resp in
     bindM (if status_code resp = 400 \<and> truthy cert then
         bindM (liftR (py_len cert)) (\<lambda>_.
         bindM (admin_call ''POST'' sess (base @ hcx_ADMIN_CERTS) (PDict [(''certificate'', cert)]) timeout) (\<lambda>(trust, sess).
         bindM (raise_for_status trust) (\<lambda>_. admin_call ''POST'' sess (base @ hcx_ADMIN_VCENTER) body timeout)))
       else pureM (resp, sess)) (\<lambda>(resp, sess).
     bindM (raise_for_status resp) (\<lambda>_. pureM sess)))"

definition hcx_manager_configure_vcenter ::
  "pyval \<Rightarrow> pyval \<Rightarrow> pyval \<Rightarrow> pyval \<Rightarrow> pyval \<Rightarrow> profile \<Rightarrow> pyval \<Rightarrow> pyval \<Rightarrow> pyval io" where
  "hcx_manager_configure_vcenter opts vcenter_url vcenter_username vcenter_password sso_url profile timeout admin_password =
     (if \<not> truthy admin_password then
        raiseM (KeyError (''hcx_manager.configure_vcenter: admin_password is required ''
          @ ''(HCX 9.x admin API needs the admin bearer token; pass ''
          @ ''admin_password= from pillar '' @ [CHR 0x27] @ ''saltext.vcf:hcx:password'' @ [CHR 0x27] @ '' or ''
          @ ''deploy_spec '' @ [CHR 0x27] @ ''admin_password'' @ [CHR 0x27] @ '')''))
      else
        bindM (hcx_manager_admin_login opts admin_password profile timeout) (\<lambda>(sess, base).
        bindM (admin_call ''GET'' sess (base @ hcx_ADMIN_APPLIANCE_CFG) PNone timeout) (\<lambda>(already, sess).
        bindM (if status_code already = 200 then liftR (response_json already) else pureM PNone) (\<lambda>configured.
        if configured = PBool True then
          bindM (admin_call ''GET'' sess (base @ hcx_ADMIN_VCENTER) PNone timeout) (\<lambda>(existing, sess).
          bindM (if status_code existing = 200 then liftR (response_json existing) else pureM PNone) (\<lambda>body.
          pureM (PDict [(''vcenter'', PBool True), (''lookupservice'', if truthy sso_url then PBool True else PNone),
            (''applianceConfiguration'', PBool True), (''already_registered'', PBool True), (''existing'', body)])))
        else
          bindM (liftR (b64_password vcenter_password)) (\<lambda>encoded.
          bindM (register_vcenter sess base (vcenter_registration vcenter_url vcenter_username encoded) timeout) (\<lambda>sess.
          bindM (if truthy sso_url then
              bindM (admin_call ''POST'' sess (base @ hcx_ADMIN_LOOKUP) (lookup_registration sso_url) timeout) (\<lambda>(resp, sess).
              bindM (raise_for_status resp) (\<lambda>_. pureM (PBool True, sess)))
            else pureM (PNone, sess)) (\<lambda>(lookup, sess).
          bindM (admin_call ''GET'' sess (base @ hcx_ADMIN_APPLIANCE_CFG) PNone timeout) (\<lambda>(resp, sess).
          bindM (raise_for_status resp) (\<lambda>_.
          bindM (liftR (response_json resp)) (\<lambda>cfg.
          pureM (PDict [(''vcenter'', PBool True), (''lookupservice'', lookup), (''applianceConfiguration'', cfg)])))))))))))"

subsection \<open>\<open>modules/vcf_hcx.py\<close>\<close>

definition exec_hcx_get_version :: "pyval \<Rightarrow> profile \<Rightarrow> pyval io" where
  "exec_hcx_get_version opts profile = hcx_manager_get_version opts profile"

definition exec_hcx_list_sites :: "pyval \<Rightarrow> profile \<Rightarrow> pyval io" where
  "exec_hcx_list_sites opts profile = hcx_manager_list_sites opts profile"

fun is_RuntimeError :: "exn \<Rightarrow> bool" where
  "is_RuntimeError (RuntimeError _) = True"
| "is_RuntimeError _ = False"

text \<open>\<open>about.get("buildVersion") or about.get("version")\<close> of a dict.\<close>

definition hcx_version :: "pyval \<Rightarrow> pyval" where
  "hcx_version about =
     (case about of PDict d \<Rightarrow> py_or (dget d ''buildVersion'' PNone) (dget d ''version'' PNone) | _ \<Rightarrow> PNone)"

definition exec_hcx_installed :: "pyval \<Rightarrow> pyval \<Rightarrow> profile \<Rightarrow> pyval io" where
  "exec_hcx_installed opts name profile =
     attempt (\<lambda>exc. request_exception exc \<or> is_RuntimeError exc) (hcx_manager_get_version opts profile)
       (\<lambda>about. pureM (PDict [(''name'', name), (''installed'', PBool True), (''version'', hcx_version about), (''about'', about)]))
       (\<lambda>_. pureM (PDict [(''name'', name), (''installed'', PBool False), (''version'', PNone), (''about'', PNone)]))"

definition exec_hcx_ova_backend :: "string \<Rightarrow> string res" where
  "exec_hcx_ova_backend name =
     (if name \<in> {''pyvmomi'', ''ovftool''} then Ok name
      else Exc (ValueError (''unsupported hcx deploy_spec deployment_backend='' @ repr_str name)))"

definition hcx_push_kwargs :: "pyval \<Rightarrow> (string \<times> dict) res" where
  "hcx_push_kwargs spec =
     bindR (py_get spec ''deployment_backend'' (PStr ''pyvmomi'')) (\<lambda>b.
     bindR (exec_hcx_ova_backend (lower (py_str b))) (\<lambda>backend.
     bindR (push_kwargs (py_item spec ''ova_url'') (py_item spec ''vm_name'') spec) (\<lambda>kwargs.
     if backend = ''ovftool'' then bindR (ovftool_options spec) (\<lambda>tool. Ok (backend, kwargs @ tool))
     else Ok (backend, kwargs))))"

text \<open>\<open>opts.get("pillar", {}).get("saltext.vcf", {}).get("hcx", {}).get("password")\<close>, where the spec has no password.\<close>

definition hcx_admin_password :: "pyval \<Rightarrow> pyval \<Rightarrow> pyval res" where
  "hcx_admin_password opts spec =
     bindR (py_get spec ''admin_password'' PNone) (\<lambda>p.
     if truthy p then Ok p
     else
       bindR (py_get opts ''pillar'' empty_dict) (\<lambda>pillar.
       bindR (py_get pillar ''saltext.vcf'' empty_dict) (\<lambda>root.
       bindR (py_get root ''hcx'' empty_dict) (\<lambda>cfg. py_get cfg ''password'' PNone))))"

definition exec_hcx_deploy :: "vm_finder \<Rightarrow> ova_push \<Rightarrow> pyval \<Rightarrow> pyval \<Rightarrow> profile \<Rightarrow> dict io" where
  "exec_hcx_deploy find_vm push opts spec profile =
     bindM (liftR (hcx_push_kwargs spec)) (\<lambda>(backend, kwargs).
     bindM (push_unless_exists find_vm (find_kwargs kwargs) (push backend kwargs)) (\<lambda>deployed.
     bindM (liftR (int_option spec ''setup_timeout'' 1800)) (\<lambda>t.
     bindM (liftR (int_option spec ''setup_poll_interval'' 15)) (\<lambda>i.
     bindM (hcx_manager_wait_for_setup_ready opts t i profile) (\<lambda>about.
     bindM (liftR (hcx_admin_password opts spec)) (\<lambda>admin_pw.
     bindM (liftR (py_get spec ''activation_key'' PNone)) (\<lambda>key.
     bindM (hcx_manager_activate opts key profile (PInt 60) admin_pw) (\<lambda>activated.
     bindM (liftR (mapR (py_item spec) [''vcenter_url'', ''vcenter_username'', ''vcenter_password''])) (\<lambda>vc.
     bindM (liftR (py_get spec ''sso_url'' PNone)) (\<lambda>sso_url.
     bindM (hcx_manager_configure_vcenter opts (vc ! 0) (vc ! 1) (vc ! 2) sso_url profile (PInt 300) admin_pw) (\<lambda>vcenter.
     pureM [(''deploy'', deployed), (''about'', about), (''activate'', activated), (''vcenter'', vcenter)])))))))))))"

subsection \<open>\<open>states/vcf_hcx.py\<close>\<close>

definition hcx_resolve_deploy_spec :: "pyval \<Rightarrow> pyval \<Rightarrow> pyval res" where
  "hcx_resolve_deploy_spec opts deploy_spec =
     (if deploy_spec \<noteq> PNone then Ok deploy_spec
      else bindR (deploy_section ''hcx'' opts) (\<lambda>cfg. py_get cfg ''deploy_spec'' PNone))"

text \<open>The login to the admin API and the reading of \<open>applianceConfiguration\<close>.\<close>

definition hcx_appliance_configuration :: "pyval \<Rightarrow> pyval \<Rightarrow> profile \<Rightarrow> http_response io" where
  "hcx_appliance_configuration opts admin_pw profile =
     bindM (hcx_manager_admin_login opts admin_pw profile (PInt 30)) (\<lambda>(sess, base).
     bindM (admin_call ''GET'' sess (base @ ''/api/admin/global/config/applianceConfiguration'') PNone (PInt 30)) (\<lambda>(resp, _).
     pureM resp))"

text \<open>What the probes catch: \<open>RequestException\<close>, \<open>RuntimeError\<close> and \<open>TimeoutError\<close>.\<close>

fun is_TimeoutError :: "exn \<Rightarrow> bool" where
  "is_TimeoutError (TimeoutError _) = True"
| "is_TimeoutError _ = False"

definition probe_error :: "exn \<Rightarrow> bool" where
  "probe_error exc \<longleftrightarrow> request_exception exc \<or> is_RuntimeError exc \<or> is_TimeoutError exc"

text \<open>The first probe: whether the manager is configured (what \<open>about\<close> says then), and the error.\<close>

definition hcx_configured_about :: pyval where
  "hcx_configured_about = PDict [(''already_configured'', PBool True), (''applianceConfiguration'', PBool True)]"

definition hcx_first_probe :: "pyval \<Rightarrow> pyval \<Rightarrow> profile \<Rightarrow> (bool \<times> string) io" where
  "hcx_first_probe opts admin_pw profile =
     tryM (bindM (hcx_manager_wait_for_setup_ready opts 5 5 profile) (\<lambda>_.
         if truthy admin_pw then
           bindM (hcx_appliance_configuration opts admin_pw profile) (\<lambda>resp.
           bindM (if status_code resp = 200 then liftR (response_json resp) else pureM PNone) (\<lambda>v.
           pureM (v = PBool True, ''None'')))
         else pureM (False, ''None'')))
       (\<lambda>exc. if probe_error exc then pureM (False, exn_str exc) else raiseM exc)"

definition hcx_last_probe :: "pyval \<Rightarrow> pyval \<Rightarrow> profile \<Rightarrow> pyval io" where
  "hcx_last_probe opts admin_pw profile =
     bindM (hcx_manager_wait_for_setup_ready opts 60 10 profile) (\<lambda>_.
     bindM (if truthy admin_pw then
         bindM (hcx_appliance_configuration opts admin_pw profile) (\<lambda>resp. liftR (response_json resp))
       else pureM PNone) (\<lambda>v.
     pureM (PDict [(''applianceConfiguration'', v)])))"

definition hcx_verified :: "pyval \<Rightarrow> string \<Rightarrow> pyval \<Rightarrow> pyval \<Rightarrow> salt_ret io" where
  "hcx_verified opts name version about =
     (let observed = hcx_version about in
      bindM (liftR (py_get opts ''test'' PNone)) (\<lambda>test.
      pureM (
        if truthy version \<and> \<not> py_eq observed version then
          if truthy test then
            would name (''HCX Manager '' @ repr_str name @ '' at '' @ py_repr observed @ '', would require '' @ py_repr version)
          else
            (refused name (''HCX Manager '' @ repr_str name @ '' version drift: installed='' @ py_repr observed
              @ '', required='' @ py_repr version @ '' (state does not reinstall)''))
            \<lparr>ret_changes := PDict [(''observed_version'', observed), (''required_version'', version)]\<rparr>
        else if truthy test then
          unchanged name (''HCX Manager '' @ repr_str name @ '' reachable at version '' @ py_repr observed)
        else
          unchanged name (''HCX Manager '' @ repr_str name @ '' already installed''
            @ (if truthy observed then '' at version '' @ py_str observed else [])))))"

text \<open>After a deployment, and about a manager that is not configured.\<close>

definition hcx_deployed :: "pyval \<Rightarrow> string \<Rightarrow> pyval \<Rightarrow> profile \<Rightarrow> pyval \<Rightarrow> dict \<Rightarrow> salt_ret io" where
  "hcx_deployed opts name version profile admin_pw result =
     caught probe_error
       (\<lambda>exc. refused name (''HCX Manager '' @ repr_str name @ '' deployed but post-deploy probe failed: '' @ exn_str exc))
       (hcx_last_probe opts admin_pw profile) (\<lambda>about.
     let observed = hcx_version about in
     pureM (
       if truthy version \<and> \<not> py_eq observed version then
         (refused name (''HCX Manager '' @ repr_str name @ '' deployed but version drift: installed='' @ py_repr observed
           @ '', required='' @ py_repr version))
         \<lparr>ret_changes := PDict [(''deployed'', observed), (''observed_version'', observed), (''required_version'', version)]\<rparr>
       else
         changed name [(''deployed'', observed), (''activate'', dget result ''activate'' PNone),
             (''vcenter'', dget result ''vcenter'' PNone)]
           (''HCX Manager '' @ repr_str name @ '' deployed''
             @ (if truthy observed then '' at version '' @ py_str observed else []))))"

definition hcx_absent ::
  "vm_finder \<Rightarrow> ova_push \<Rightarrow> pyval \<Rightarrow> string \<Rightarrow> pyval \<Rightarrow> profile \<Rightarrow> pyval \<Rightarrow> pyval \<Rightarrow> string \<Rightarrow> salt_ret io" where
  "hcx_absent find_vm push opts name version profile deploy_spec admin_pw reach_error =
     bindM (liftR (hcx_resolve_deploy_spec opts deploy_spec)) (\<lambda>spec.
     if \<not> truthy spec then
       pureM (refused name (''HCX Manager '' @ repr_str name @ '' not reachable and no deploy_spec configured ''
         @ ''(pass deploy_spec= or set pillar saltext.vcf:hcx:deploy_spec). Underlying error: '' @ reach_error))
     else
       bindM (liftR (py_get opts ''test'' PNone)) (\<lambda>test.
       if truthy test then
         bindM (liftR (py_get spec ''ova_url'' PNone)) (\<lambda>ova.
         bindM (liftR (py_get spec ''target_host'' PNone)) (\<lambda>target.
         pureM ((would name (''Would deploy HCX Manager from '' @ py_repr ova @ '' to '' @ py_repr target))
           \<lparr>ret_changes := PDict [(''plan'', PStr ''deploy_hcx_manager''), (''ova_url'', ova), (''target_host'', target)]\<rparr>)))
       else
         caught (\<lambda>exc. request_exception exc \<or> deploy_error exc)
           (\<lambda>exc. refused name (''HCX Manager '' @ repr_str name @ '' deploy failed: '' @ exn_str exc))
           (exec_hcx_deploy find_vm push opts spec profile)
           (hcx_deployed opts name version profile admin_pw)))"

definition vcf_hcx_installed ::
  "vm_finder \<Rightarrow> ova_push \<Rightarrow> pyval \<Rightarrow> string \<Rightarrow> pyval \<Rightarrow> profile \<Rightarrow> pyval \<Rightarrow> salt_ret io" where
  "vcf_hcx_installed find_vm push opts name version profile deploy_spec =
     bindM (liftR (hcx_admin_password opts (py_or deploy_spec empty_dict))) (\<lambda>admin_pw.
     bindM (hcx_first_probe opts admin_pw profile) (\<lambda>(configured, reach_error).
     if configured then hcx_verified opts name version hcx_configured_about
     else hcx_absent find_vm push opts name version profile deploy_spec admin_pw reach_error))"

end
