(* ===== verification/Vrni_Platform.thy ===== *)
theory Vrni_Platform
  imports Appliance_Setup Vrni Hcx_Manager
begin

section \<open>Vrni_Platform: probing and bootstrapping VCF Network Insight\<close>

text \<open>
  \<open>clients/vrni_platform.py\<close>, \<open>modules/vcf_vrni.py\<close> (Platform and Collectors) and \<open>states/vcf_vrni.py\<close>.
\<close>

subsection \<open>\<open>clients/vrni_platform.py\<close>\<close>

definition vrni_VERSION_PATH :: string where "vrni_VERSION_PATH = ''/api/ni/info/version''"
definition vrni_DATA_SOURCES_PATH :: string where "vrni_DATA_SOURCES_PATH = ''/api/ni/data-sources''"
definition vrni_SETUP_PATH :: string where "vrni_SETUP_PATH = ''/api/ni/settings/setup''"
definition vrni_SHARED_SECRET_PATH :: string where "vrni_SHARED_SECRET_PATH = ''/api/management/nodes''"

definition vrni_platform_get_version :: "pyval \<Rightarrow> profile \<Rightarrow> pyval io" where
  "vrni_platform_get_version opts profile = vrni_api_get opts vrni_VERSION_PATH PNone profile PNone"

definition vrni_platform_list_data_sources :: "pyval \<Rightarrow> profile \<Rightarrow> pyval io" where
  "vrni_platform_list_data_sources opts profile = vrni_api_get opts vrni_DATA_SOURCES_PATH PNone profile PNone"

fun first_entries :: "dict \<Rightarrow> string list \<Rightarrow> pyval" where
  "first_entries d [] = PList []"
| "first_entries d (k # ks) = (if truthy (dget d k PNone) then dget d k PNone else first_entries d ks)"

definition vrni_platform_iter_entries :: "pyval \<Rightarrow> pyval" where
  "vrni_platform_iter_entries body =
     (case body of
        PList xs \<Rightarrow> body
      | PDict d \<Rightarrow> first_entries d [''results'', ''data_sources'', ''entities'']
      | _ \<Rightarrow> PList [])"

definition vrni_platform_get_or_none :: "pyval \<Rightarrow> pyval \<Rightarrow> profile \<Rightarrow> pyval io" where
  "vrni_platform_get_or_none opts name profile =
     attempt (\<lambda>exc. http_status_is exc 404) (vrni_platform_list_data_sources opts profile)
       (\<lambda>body. bindM (liftR (py_iter (vrni_platform_iter_entries body))) (\<lambda>entries.
         pureM (entry_named ''nickname'' ''entity_id'' name entries)))
       (\<lambda>_. pureM PNone)"

definition vrni_platform_host :: "pyval \<Rightarrow> profile \<Rightarrow> vrni_config res" where
  "vrni_platform_host opts profile =
     bindR (vrni_get_config opts profile) (\<lambda>cfg.
     if \<not> truthy (cfg_host cfg) then
       Exc (KeyError (''vrni.host is unset; cannot bootstrap Platform. Set pillar ''
         @ [CHR 0x27] @ ''saltext.vcf:vrni:host'' @ [CHR 0x27] @ '' before calling deploy.''))
     else Ok cfg)"

definition vrni_setup_attempt :: "string \<Rightarrow> pyval \<Rightarrow> int \<Rightarrow> string \<Rightarrow> (http_response + string) io" where
  "vrni_setup_attempt url verify poll_interval seen =
     probe (plain_request ''GET'' url PNone PNone [] PNone verify (PInt (min 10 poll_interval)))
       (\<lambda>resp. Ok (if status_code resp < 500 then Inl resp else Inr (''HTTP '' @ int_str (status_code resp))))
       exn_str"

definition vrni_platform_wait_for_setup_ready :: "pyval \<Rightarrow> int \<Rightarrow> int \<Rightarrow> profile \<Rightarrow> http_response io" where
  "vrni_platform_wait_for_setup_ready opts timeout poll_interval profile =
     bindM (liftR (vrni_platform_host opts profile)) (\<lambda>cfg.
     wait_ready (vrni_setup_attempt (https_url (cfg_host cfg) vrni_VERSION_PATH) (cfg_verify_ssl cfg) poll_interval)
       (\<lambda>last_err. TimeoutError (''VRNI Platform '' @ py_str (cfg_host cfg) @ '' setup wizard not reachable within ''
          @ int_str timeout @ ''s (last: '' @ last_err @ '')''))
       ''None'' timeout poll_interval)"

definition vrni_web_proxy :: "pyval \<Rightarrow> dict res" where
  "vrni_web_proxy web_proxy =
     (if \<not> truthy web_proxy then Ok []
      else
        bindR (py_get web_proxy ''host'' PNone) (\<lambda>host.
        bindR (py_get web_proxy ''port'' PNone) (\<lambda>p.
        bindR (if truthy p then bindR (py_int p) (\<lambda>n. Ok (PInt n)) else Ok PNone) (\<lambda>port.
        bindR (py_get web_proxy ''username'' PNone) (\<lambda>user.
        bindR (py_get web_proxy ''password'' PNone) (\<lambda>password.
        Ok [(''web_proxy'', PDict [(''host'', host), (''port'', port), (''username'', user), (''password'', password)])]))))))"

text \<open>The answer of the wizard.\<close>

definition vrni_wizard_answer :: "http_response \<Rightarrow> pyval" where
  "vrni_wizard_answer resp =
     (let status = PDict [(''status_code'', PInt (status_code resp))] in
      if has_content resp then (case json_value resp of Some v \<Rightarrow> v | None \<Rightarrow> status) else status)"

definition vrni_platform_complete_setup ::
  "pyval \<Rightarrow> pyval \<Rightarrow> pyval \<Rightarrow> pyval \<Rightarrow> pyval \<Rightarrow> profile \<Rightarrow> pyval \<Rightarrow> pyval \<Rightarrow> pyval \<Rightarrow> pyval \<Rightarrow> pyval io" where
  "vrni_platform_complete_setup opts admin_password admin_email license_key ntp_servers profile timeout web_proxy
       telemetry_enabled accept_eula =
     bindM (liftR (vrni_platform_host opts profile)) (\<lambda>cfg.
     bindM (liftR (if truthy ntp_servers then py_iter ntp_servers else Ok [])) (\<lambda>ntp.
     bindM (liftR (vrni_web_proxy web_proxy)) (\<lambda>proxy.
     bindM (http_send (plain_request ''POST'' (https_url (cfg_host cfg) vrni_SETUP_PATH)
         (PDict ([(''accept_eula'', PBool (truthy accept_eula)), (''admin_password'', admin_password),
            (''admin_email'', admin_email), (''license_key'', license_key), (''ntp_servers'', PList ntp),
            (''telemetry_enabled'', PBool (truthy telemetry_enabled))] @ proxy))
         PNone [] PNone (cfg_verify_ssl cfg) timeout)) (\<lambda>resp.
     if status_code resp \<ge> 400 then
       bindM (liftR (text_prefix resp)) (\<lambda>t.
       raiseM (RuntimeError (''VRNI setup wizard POST '' @ vrni_SETUP_PATH @ '' failed: HTTP '' @ int_str (status_code resp)
         @ '' '' @ t)))
     else pureM (vrni_wizard_answer resp)))))"

text \<open>The secret under \<open>secret\<close>, else that of the first result.\<close>

definition secret_in :: "pyval \<Rightarrow> pyval res" where
  "secret_in body =
     (case body of
        PDict d \<Rightarrow>
          if truthy (dget d ''secret'' PNone) then Ok (dget d ''secret'' PNone)
          else
            let results = py_or (dget d ''results'' PNone) (PList []) in
            if truthy results then
              bindR (py_first results) (\<lambda>r.
              case r of PDict e \<Rightarrow> Ok (dget e ''secret'' PNone) | _ \<Rightarrow> Ok PNone)
            else Ok PNone
      | _ \<Rightarrow> Ok PNone)"

definition vrni_platform_get_shared_secret :: "pyval \<Rightarrow> profile \<Rightarrow> pyval \<Rightarrow> pyval io" where
  "vrni_platform_get_shared_secret opts profile node_type =
     bindM (vrni_api_post opts vrni_SHARED_SECRET_PATH (PDict [(''node_type'', node_type)]) PNone profile PNone) (\<lambda>body.
     bindM (liftR (secret_in body)) (\<lambda>secret.
     if truthy secret then pureM secret
     else raiseM (RuntimeError (''VRNI shared-secret response missing '' @ [CHR 0x27] @ ''secret'' @ [CHR 0x27] @ '' field: ''
       @ py_repr body))))"

subsection \<open>\<open>modules/vcf_vrni.py\<close>\<close>

definition exec_vrni_get_version :: "pyval \<Rightarrow> profile \<Rightarrow> pyval io" where
  "exec_vrni_get_version opts profile = vrni_platform_get_version opts profile"

definition exec_vrni_list_data_sources :: "pyval \<Rightarrow> profile \<Rightarrow> pyval io" where
  "exec_vrni_list_data_sources opts profile = vrni_platform_list_data_sources opts profile"

text \<open>\<open>info.get("version") or info.get("api_version")\<close> of a dict, and \<open>(version or "") < min_version\<close>.\<close>

definition vrni_version :: "pyval \<Rightarrow> pyval" where
  "vrni_version info =
     (case info of PDict d \<Rightarrow> py_or (dget d ''version'' PNone) (dget d ''api_version'' PNone) | _ \<Rightarrow> PNone)"

definition vrni_too_old :: "pyval \<Rightarrow> pyval \<Rightarrow> bool res" where
  "vrni_too_old version min_version =
     (if truthy min_version then py_order ''<'' (<) (<) (py_or version (PStr [])) min_version else Ok False)"

definition exec_vrni_installed :: "pyval \<Rightarrow> pyval \<Rightarrow> pyval \<Rightarrow> profile \<Rightarrow> pyval io" where
  "exec_vrni_installed opts name min_version profile =
     attempt request_exception (vrni_platform_get_version opts profile)
       (\<lambda>info.
         let version = vrni_version info in
         bindM (liftR (vrni_too_old version min_version)) (\<lambda>old.
         if old then
           pureM (PDict [(''installed'', PBool False), (''version'', version),
             (''reason'', PStr (''version '' @ py_repr version @ '' < required '' @ py_repr min_version))])
         else pureM (PDict [(''installed'', PBool True), (''version'', version)])))
       (\<lambda>exc. pureM (PDict [(''installed'', PBool False), (''version'', PNone), (''reason'', PStr (exn_str exc))]))"

definition exec_vrni_deploy_backend :: "pyval \<Rightarrow> string res" where
  "exec_vrni_deploy_backend name =
     bindR (py_lower (py_or name (PStr ''pyvmomi''))) (\<lambda>b.
     if b \<in> {''pyvmomi'', ''ovftool''} then Ok b
     else Exc (ValueError (''unsupported vrni deployment_backend='' @ repr_str b)))"

definition vrni_push_kwargs :: "pyval \<Rightarrow> (string \<times> dict) res" where
  "vrni_push_kwargs spec =
     bindR (py_get spec ''deployment_backend'' PNone) (\<lambda>b.
     bindR (exec_vrni_deploy_backend b) (\<lambda>backend.
     bindR (push_kwargs (py_item spec ''ova_url'') (py_item spec ''vm_name'') spec) (\<lambda>kwargs.
     if backend = ''ovftool'' then bindR (ovftool_options spec) (\<lambda>tool. Ok (backend, kwargs @ tool))
     else Ok (backend, kwargs))))"

definition exec_vrni_push_ova :: "ova_push \<Rightarrow> pyval \<Rightarrow> string \<Rightarrow> pyval io" where
  "exec_vrni_push_ova push spec role =
     bindM (liftR (vrni_push_kwargs spec)) (\<lambda>(backend, kwargs).
     bindM (push backend kwargs) (\<lambda>result.
     pureM (case result of PDict d \<Rightarrow> PDict (setdefault d ''role'' (PStr role)) | _ \<Rightarrow> result)))"

definition exec_vrni_deploy_platform :: "ova_push \<Rightarrow> pyval \<Rightarrow> pyval \<Rightarrow> profile \<Rightarrow> pyval io" where
  "exec_vrni_deploy_platform push opts spec profile =
     bindM (liftR (py_get spec ''platform'' PNone)) (\<lambda>p.
     bindM (liftR (py_get spec ''wizard'' PNone)) (\<lambda>z.
     let platform_spec = py_or p empty_dict; wizard_spec = py_or z empty_dict in
     bindM (liftR (py_get platform_spec ''ova_url'' PNone)) (\<lambda>ova.
     if \<not> truthy ova then
       raiseM (KeyError (''vrni deploy spec missing '' @ [CHR 0x27] @ ''platform.ova_url'' @ [CHR 0x27]))
     else
     bindM (liftR (py_get wizard_spec ''admin_password'' PNone)) (\<lambda>password.
     if \<not> truthy password then
       raiseM (KeyError (''vrni deploy spec missing '' @ [CHR 0x27] @ ''wizard.admin_password'' @ [CHR 0x27]))
     else
     bindM (exec_vrni_push_ova push platform_spec ''platform'') (\<lambda>ova_result.
     bindM (liftR (int_option spec ''wait_timeout'' 3600)) (\<lambda>t.
     bindM (liftR (int_option spec ''wait_poll_interval'' 30)) (\<lambda>i.
     bindM (vrni_platform_wait_for_setup_ready opts t i profile) (\<lambda>_.
     bindM (liftR (mapR (\<lambda>(k, dflt). py_get wizard_spec k dflt)
         [(''admin_email'', PNone), (''license_key'', PNone), (''ntp_servers'', PList []), (''web_proxy'', PNone),
          (''telemetry_enabled'', PBool False), (''accept_eula'', PBool True)])) (\<lambda>args.
     bindM (vrni_platform_complete_setup opts password (args ! 0) (args ! 1) (args ! 2) profile (PInt 300) (args ! 3)
         (args ! 4) (args ! 5)) (\<lambda>wizard_result.
     pureM (PDict [(''deployed'', PBool True), (''ova'', ova_result), (''wizard'', wizard_result)])))))))))))"

definition exec_vrni_deploy_collector :: "ova_push \<Rightarrow> pyval \<Rightarrow> pyval \<Rightarrow> pyval io" where
  "exec_vrni_deploy_collector push collector_spec shared_secret =
     bindM (liftR (py_get collector_spec ''ova_url'' PNone)) (\<lambda>ova.
     if \<not> truthy ova then
       raiseM (KeyError (''vrni collector spec missing '' @ [CHR 0x27] @ ''ova_url'' @ [CHR 0x27]))
     else if \<not> truthy shared_secret then
       raiseM (ValueError ''shared_secret required to deploy a Collector'')
     else
       bindM (liftR (py_get collector_spec ''ovf_properties'' PNone)) (\<lambda>given_props.
       bindM (liftR (py_dict (py_or given_props empty_dict))) (\<lambda>props.
       bindM (liftR (py_dict collector_spec)) (\<lambda>spec.
       exec_vrni_push_ova push
         (PDict (dset spec ''ovf_properties'' (PDict (setdefault props ''Proxy_Shared_Secret'' shared_secret)))) ''collector''))))"

fun deploy_collectors :: "ova_push \<Rightarrow> pyval \<Rightarrow> pyval list \<Rightarrow> pyval list io" where
  "deploy_collectors push secret [] = pureM []"
| "deploy_collectors push secret (c # cs) =
     bindM (exec_vrni_deploy_collector push c secret) (\<lambda>r.
     bindM (deploy_collectors push secret cs) (\<lambda>rs. pureM (r # rs)))"

definition exec_vrni_deploy :: "ova_push \<Rightarrow> pyval \<Rightarrow> pyval \<Rightarrow> profile \<Rightarrow> dict io" where
  "exec_vrni_deploy push opts spec profile =
     bindM (exec_vrni_deploy_platform push opts spec profile) (\<lambda>platform.
     bindM (liftR (py_get spec ''collectors'' PNone)) (\<lambda>c.
     let collectors_spec = py_or c (PList []) in
     bindM (if truthy collectors_spec then
         bindM (vrni_platform_get_shared_secret opts profile (PStr ''proxy'')) (\<lambda>secret.
         bindM (liftR (py_iter collectors_spec)) (\<lambda>cs.
         bindM (deploy_collectors push secret cs) (\<lambda>rs. pureM (secret, rs))))
       else pureM (PNone, [])) (\<lambda>(secret, rs).
     pureM [(''platform'', platform), (''shared_secret'', secret), (''collectors'', PList rs)])))"

definition exec_vrni_is_reachable :: "connector \<Rightarrow> pyval \<Rightarrow> int \<Rightarrow> int \<Rightarrow> bool io" where
  "exec_vrni_is_reachable = installer_appliance_is_appliance_reachable"

subsection \<open>\<open>states/vcf_vrni.py\<close>\<close>

definition vrni_resolve_deploy_spec :: "pyval \<Rightarrow> pyval \<Rightarrow> pyval res" where
  "vrni_resolve_deploy_spec opts deploy_spec =
     (if deploy_spec \<noteq> PNone then Ok deploy_spec
      else
        bindR (py_get opts ''pillar'' empty_dict) (\<lambda>pillar.
        bindR (py_get (py_or pillar empty_dict) ''saltext.vcf'' empty_dict) (\<lambda>root.
        bindR (py_get (py_or root empty_dict) ''vrni'' PNone) (\<lambda>cfg.
        py_get (py_or cfg empty_dict) ''deploy_spec'' PNone))))"

text \<open>The VM name of the Platform and the number of Collectors in a plan.\<close>

definition vrni_planned :: "pyval \<Rightarrow> (pyval \<times> nat) res" where
  "vrni_planned spec =
     bindR (py_get spec ''platform'' PNone) (\<lambda>p.
     bindR (py_get (py_or p empty_dict) ''vm_name'' PNone) (\<lambda>vm.
     bindR (py_get spec ''collectors'' PNone) (\<lambda>c.
     bindR (py_len (py_or c (PList []))) (\<lambda>n. Ok (vm, n)))))"

definition vrni_describe_plan :: "pyval \<times> nat \<Rightarrow> string" where
  "vrni_describe_plan plan =
     ''would deploy Platform OVA '' @ py_repr (py_or (fst plan) (PStr ''vrni-platform'')) @ '' + '' @ int_str (int (snd plan))
       @ '' Collector OVA(s)''"

definition vrni_verified :: "string \<Rightarrow> pyval \<Rightarrow> pyval \<Rightarrow> salt_ret res" where
  "vrni_verified name min_version info =
     (let version = vrni_version info in
      bindR (vrni_too_old version min_version) (\<lambda>old.
      Ok (if old then
            refused name (''VRNI Platform version '' @ py_repr version @ '' is below required '' @ py_repr min_version)
          else
            unchanged name (''VRNI Platform is installed at version '' @ py_str version
              @ (if truthy min_version then '' (>= '' @ py_str min_version @ '')'' else [])))))"

text \<open>What the state does about a Platform that is not reachable.\<close>

definition vrni_absent ::
  "ova_push \<Rightarrow> pyval \<Rightarrow> string \<Rightarrow> profile \<Rightarrow> pyval \<Rightarrow> string \<Rightarrow> salt_ret io" where
  "vrni_absent push opts name profile deploy_spec reach_err =
     bindM (liftR (vrni_resolve_deploy_spec opts deploy_spec)) (\<lambda>spec.
     if \<not> truthy spec then
       pureM (refused name (''VRNI Platform not reachable ('' @ reach_err @ '') and no deploy_spec provided. ''
         @ ''Set '' @ repr_str ''deploy_spec'' @ '' arg or pillar '' @ repr_str ''saltext.vcf:vrni:deploy_spec''
         @ '' to enable deploy-on-absence.''))
     else
       bindM (liftR (py_get opts ''test'' PNone)) (\<lambda>test.
       if truthy test then
         bindM (liftR (vrni_planned spec)) (\<lambda>plan.
         pureM ((would name (vrni_describe_plan plan))
           \<lparr>ret_changes := PDict [(''plan'', PStr ''deploy_vrni''), (''platform_vm_name'', fst plan),
             (''collector_count'', PInt (int (snd plan)))]\<rparr>))
       else
         caught deploy_error (\<lambda>exc. refused name (''VRNI deploy failed: '' @ exn_str exc))
           (exec_vrni_deploy push opts spec profile) (\<lambda>result.
         bindM (liftR (py_get (dget result ''platform'' empty_dict) ''deployed'' PNone)) (\<lambda>deployed.
         bindM (liftR (py_len (py_or (dget result ''collectors'' PNone) (PList [])))) (\<lambda>n.
         pureM (changed name [(''platform_deployed'', PBool (truthy deployed)), (''collectors_deployed'', PInt (int n))]
           (''VRNI deployed: Platform + '' @ int_str (int n) @ '' Collector(s)'')))))))"

definition vcf_vrni_installed ::
  "ova_push \<Rightarrow> pyval \<Rightarrow> string \<Rightarrow> pyval \<Rightarrow> profile \<Rightarrow> pyval \<Rightarrow> salt_ret io" where
  "vcf_vrni_installed push opts name min_version profile deploy_spec =
     attempt request_exception (vrni_platform_get_version opts profile)
       (\<lambda>info. if info \<noteq> PNone then liftR (vrni_verified name min_version info)
          else vrni_absent push opts name profile deploy_spec ''None'')
       (\<lambda>exc. vrni_absent push opts name profile deploy_spec (exn_str exc))"

end
