(* ===== verification/Vro_Orchestrator.thy ===== *)
theory Vro_Orchestrator
  imports Appliance_Setup Vro
begin

section \<open>Vro_Orchestrator: probing and bootstrapping VCF Orchestrator\<close>

text \<open>
  \<open>clients/vro_orchestrator.py\<close>, \<open>modules/vcf_vro.py\<close> and \<open>states/vcf_vro.py\<close>.
\<close>

subsection \<open>\<open>clients/vro_orchestrator.py\<close>\<close>

definition vro_ABOUT :: string where "vro_ABOUT = ''/vco/api/about''"
definition vro_WORKFLOWS :: string where "vro_WORKFLOWS = ''/vco/api/workflows''"
definition vro_CC_SSO :: string where "vro_CC_SSO = ''/vco-controlcenter/api/server/sso''"
definition vro_CC_LICENSE :: string where "vro_CC_LICENSE = ''/vco-controlcenter/api/server/license''"

definition vro_orchestrator_get_version :: "pyval \<Rightarrow> profile \<Rightarrow> pyval io" where
  "vro_orchestrator_get_version opts profile = vro_api_get opts vro_ABOUT PNone profile PNone"

definition vro_orchestrator_list_workflows :: "pyval \<Rightarrow> profile \<Rightarrow> pyval \<Rightarrow> pyval io" where
  "vro_orchestrator_list_workflows opts profile limit =
     vro_api_get opts vro_WORKFLOWS (if truthy limit then PDict [(''maxResult'', limit)] else PNone) profile PNone"

text \<open>\<open>{a.get("name"): a.get("value") for a in ...}.get("name")\<close>.\<close>

fun attr_name :: "pyval \<Rightarrow> pyval list \<Rightarrow> pyval res" where
  "attr_name found [] = Ok found"
| "attr_name found (a # as) =
     bindR (bindR (py_get a ''name'' PNone) hashed) (\<lambda>n.
     bindR (py_get a ''value'' PNone) (\<lambda>v. attr_name (if n = PStr ''name'' then v else found) as))"

fun workflow_named :: "pyval \<Rightarrow> pyval list \<Rightarrow> pyval res" where
  "workflow_named name [] = Ok PNone"
| "workflow_named name (entry # es) =
     bindR (py_get entry ''attributes'' (PList [])) (\<lambda>a.
     bindR (bindR (py_iter a) (attr_name PNone)) (\<lambda>wf_name.
     if \<not> truthy wf_name then workflow_named name es
     else
       bindR (py_lower wf_name) (\<lambda>x. bindR (py_lower name) (\<lambda>y.
       if x = y then Ok entry else workflow_named name es))))"

definition vro_orchestrator_get_or_none :: "pyval \<Rightarrow> pyval \<Rightarrow> profile \<Rightarrow> pyval io" where
  "vro_orchestrator_get_or_none opts name profile =
     attempt (\<lambda>exc. http_status_is exc 404)
       (vro_api_get opts vro_WORKFLOWS (PDict [(''conditions'', PStr (''name='' @ py_str name))]) profile PNone)
       (\<lambda>b.
         let body = py_or b empty_dict in
         bindM (liftR (py_get body ''link'' (PList []))) (\<lambda>link.
         bindM (if truthy link then pureM link else liftR (py_get body ''links'' (PList []))) (\<lambda>links.
         liftR (bindR (py_iter links) (workflow_named name)))))
       (\<lambda>_. pureM PNone)"

definition vro_setup_attempt :: "pyval \<Rightarrow> profile \<Rightarrow> string \<Rightarrow> (pyval + string) io" where
  "vro_setup_attempt opts profile seen =
     tryM (bindM (vro_orchestrator_get_version opts profile) (\<lambda>v. pureM (Inl v)))
       (\<lambda>exc. if request_exception exc then pureM (Inr (exn_str exc)) else raiseM exc)"

definition vro_orchestrator_wait_for_setup_ready :: "pyval \<Rightarrow> int \<Rightarrow> int \<Rightarrow> profile \<Rightarrow> pyval io" where
  "vro_orchestrator_wait_for_setup_ready opts timeout poll_interval profile =
     wait_ready (vro_setup_attempt opts profile)
       (\<lambda>last_error. TimeoutError (''VRO appliance /vco/api/about not ready within '' @ int_str timeout
          @ ''s (last error: '' @ last_error @ '')''))
       ''None'' timeout poll_interval"

definition vro_orchestrator_sso_join ::
  "pyval \<Rightarrow> pyval \<Rightarrow> pyval \<Rightarrow> pyval \<Rightarrow> profile \<Rightarrow> pyval \<Rightarrow> pyval io" where
  "vro_orchestrator_sso_join opts lookup_service_url admin_user admin_password profile timeout =
     vro_api_post opts vro_CC_SSO
       (PDict [(''ssoUrl'', lookup_service_url), (''adminUser'', admin_user), (''adminPassword'', admin_password)])
       PNone profile timeout"

definition vro_orchestrator_install_license :: "pyval \<Rightarrow> pyval \<Rightarrow> profile \<Rightarrow> pyval \<Rightarrow> pyval io" where
  "vro_orchestrator_install_license opts license_key profile timeout =
     vro_api_post opts vro_CC_LICENSE (PDict [(''licenseKey'', license_key)]) PNone profile timeout"

subsection \<open>\<open>modules/vcf_vro.py\<close>\<close>

definition exec_vro_get_version :: "pyval \<Rightarrow> profile \<Rightarrow> pyval io" where
  "exec_vro_get_version opts profile = vro_orchestrator_get_version opts profile"

definition vro_installed_result :: "bool \<Rightarrow> pyval \<Rightarrow> pyval \<Rightarrow> pyval \<Rightarrow> pyval" where
  "vro_installed_result installed version api_version why =
     PDict [(''installed'', PBool installed), (''version'', version), (''api_version'', api_version), (''reason'', why)]"

definition exec_vro_installed :: "pyval \<Rightarrow> pyval \<Rightarrow> pyval \<Rightarrow> profile \<Rightarrow> pyval io" where
  "exec_vro_installed opts name version profile =
     attempt request_exception (vro_orchestrator_get_version opts profile)
       (\<lambda>about.
         bindM (liftR (py_get about ''version'' PNone)) (\<lambda>v.
         bindM (liftR (get_or about ''api-version'' ''apiVersion'')) (\<lambda>a.
         pureM (if version \<noteq> PNone \<and> \<not> py_eq v version then
             vro_installed_result False v a
               (PStr (''VRO version mismatch: expected '' @ py_repr version @ '', reported '' @ py_repr v))
           else vro_installed_result True v a PNone))))
       (\<lambda>exc. pureM (vro_installed_result False PNone PNone
         (PStr (''VRO API at '' @ py_repr name @ '' unreachable: '' @ exn_str exc))))"

text \<open>The arguments of \<open>find_vm\<close>; the credentials are those of the first ESXi host.\<close>

definition vro_find_kwargs :: "pyval \<Rightarrow> dict res" where
  "vro_find_kwargs spec =
     bindR (py_get spec ''esxi_hosts'' PNone) (\<lambda>h.
     bindR (py_first (py_or h (PList [empty_dict]))) (\<lambda>creds.
     bindR (py_item spec ''installer_deploy_esxi'') (\<lambda>host.
     bindR (py_get creds ''username'' (PStr [])) (\<lambda>user.
     bindR (py_get creds ''password'' (PStr [])) (\<lambda>password.
     bindR (py_item spec ''installer_vm_name'') (\<lambda>vm_name.
     bindR (int_option spec ''installer_port'' 443) (\<lambda>port.
     bindR (py_get spec ''verify_ssl'' (PBool False)) (\<lambda>verify.
     Ok [(''target_host'', host), (''target_user'', user), (''target_password'', password), (''vm_name'', vm_name),
         (''target_port'', PInt port), (''verify_ssl'', verify)]))))))))"

text \<open>The three parts of \<open>sso\<close>, where all are there.\<close>

definition vro_sso_config :: "pyval \<Rightarrow> (pyval \<times> pyval \<times> pyval) res" where
  "vro_sso_config spec =
     bindR (py_get spec ''sso'' PNone) (\<lambda>s.
     let sso_cfg = py_or s empty_dict in
     bindR (py_get sso_cfg ''lookup_service_url'' PNone) (\<lambda>url.
     bindR (py_get sso_cfg ''admin_user'' PNone) (\<lambda>user.
     bindR (py_get sso_cfg ''admin_password'' PNone) (\<lambda>password.
     if truthy url \<and> truthy user \<and> truthy password then Ok (url, user, password)
     else Exc (KeyError (''vro deploy spec missing sso.lookup_service_url / sso.admin_user / ''
       @ ''sso.admin_password '' @ em_dash @ '' cannot join VRO to vCenter SSO''))))))"

definition exec_vro_deploy ::
  "vm_finder \<Rightarrow> ova_push \<Rightarrow> pyval \<Rightarrow> pyval \<Rightarrow> profile \<Rightarrow> int \<Rightarrow> int \<Rightarrow> int \<Rightarrow> dict io" where
  "exec_vro_deploy find_vm push opts spec profile post_deploy_timeout post_sso_timeout poll_interval =
     bindM (liftR (vro_find_kwargs spec)) (\<lambda>kwargs.
     bindM (push_unless_exists find_vm kwargs (installer_appliance_deploy_installer push spec)) (\<lambda>ova_result.
     bindM (vro_orchestrator_wait_for_setup_ready opts post_deploy_timeout poll_interval profile) (\<lambda>_.
     bindM (liftR (vro_sso_config spec)) (\<lambda>(url, user, password).
     bindM (vro_orchestrator_sso_join opts url user password profile (PInt 600)) (\<lambda>_.
     bindM (vro_orchestrator_wait_for_setup_ready opts post_sso_timeout poll_interval profile) (\<lambda>_.
     bindM (liftR (py_get spec ''license_key'' PNone)) (\<lambda>license_key.
     bindM (if truthy license_key then
         bindM (vro_orchestrator_install_license opts license_key profile (PInt 60)) (\<lambda>_. pureM True)
       else pureM False) (\<lambda>licensed.
     bindM (vro_orchestrator_get_version opts profile) (\<lambda>about.
     bindM (liftR (py_get about ''version'' PNone)) (\<lambda>v.
     pureM [(''deployed'', PBool True), (''ova'', ova_result), (''sso_joined'', PBool True),
       (''license_installed'', PBool licensed), (''version'', v), (''about'', about)]))))))))))"

subsection \<open>\<open>states/vcf_vro.py\<close>\<close>

definition vro_resolve_deploy_spec :: "pyval \<Rightarrow> pyval \<Rightarrow> pyval res" where
  "vro_resolve_deploy_spec opts deploy_spec =
     (if deploy_spec \<noteq> PNone then Ok deploy_spec
      else
        bindR (py_get opts ''pillar'' empty_dict) (\<lambda>p.
        bindR (py_get (py_or p empty_dict) ''saltext.vcf'' empty_dict) (\<lambda>r.
        bindR (if truthy r then Ok r else py_get opts ''saltext.vcf'' empty_dict) (\<lambda>root.
        bindR (py_get (py_or root empty_dict) ''vro'' empty_dict) (\<lambda>cfg.
        py_get (py_or cfg empty_dict) ''deploy_spec'' PNone)))))"

definition vro_version_matches :: "pyval \<Rightarrow> pyval \<Rightarrow> bool res" where
  "vro_version_matches about required =
     (if required = PNone then Ok True else bindR (py_get about ''version'' PNone) (\<lambda>v. Ok (py_eq v required)))"

text \<open>The dry run, which asks nothing of the appliance.\<close>

definition vro_plan :: "string \<Rightarrow> pyval \<Rightarrow> pyval \<Rightarrow> salt_ret res" where
  "vro_plan name version spec =
     (if truthy spec then
        bindR (py_get spec ''license_key'' PNone) (\<lambda>license.
        bindR (py_get spec ''installer_deploy_esxi'' (PStr ''<unset>'')) (\<lambda>esxi.
        Ok ((would name (''Would deploy VCF Orchestrator '' @ repr_str name @ '' to '' @ py_repr esxi @ '' then SSO-join''
              @ (if truthy license then '' with license'' else [])))
          \<lparr>ret_changes := PDict [(''plan'', PList (map PStr ([''deploy_vro_ova'', ''wait_for_setup_ready'', ''sso_join'',
              ''wait_for_setup_ready''] @ (if truthy license then [''install_license''] else []) @ [''verify_get_version''])))]\<rparr>)))
      else
        Ok (would name (''Would verify VCF Orchestrator '' @ repr_str name @ '' is installed''
          @ (if truthy version then '' at version '' @ py_str version else []))))"

definition vro_verified :: "string \<Rightarrow> pyval \<Rightarrow> pyval \<Rightarrow> salt_ret res" where
  "vro_verified name version about =
     bindR (vro_version_matches about version) (\<lambda>same.
     bindR (py_get about ''version'' PNone) (\<lambda>reported.
     Ok (if \<not> same then
           refused name (''VCF Orchestrator '' @ repr_str name @ '' version mismatch: expected '' @ py_repr version
             @ '', reported '' @ py_repr reported @ ''. Upgrade or redeploy VRO out of band and re-run.'')
         else
           unchanged name (''VCF Orchestrator '' @ repr_str name @ '' is installed''
             @ (if truthy reported then '' at version '' @ py_str reported else '' and reachable'')))))"

text \<open>\<open>TimeoutError\<close>, \<open>LookupError\<close>, \<open>KeyError\<close>, \<open>RuntimeError\<close>, \<open>FileNotFoundError\<close> and \<open>RequestException\<close>; no
  \<open>ValueError\<close>.\<close>

definition vro_deploy_error :: "exn \<Rightarrow> bool" where
  "vro_deploy_error exc \<longleftrightarrow> deploy_failure exc \<or> request_exception exc"

text \<open>What the state does about an appliance that is not reachable.\<close>

definition vro_absent ::
  "vm_finder \<Rightarrow> ova_push \<Rightarrow> pyval \<Rightarrow> string \<Rightarrow> pyval \<Rightarrow> profile \<Rightarrow> pyval \<Rightarrow> exn \<Rightarrow> salt_ret io" where
  "vro_absent find_vm push opts name version profile spec reach_error =
     (if \<not> truthy spec then
        pureM (refused name (''VCF Orchestrator '' @ repr_str name @ '' is not reachable: '' @ exn_str reach_error
          @ ''. Deploy VRO out of band (see vcf_vro state module docstring) ''
          @ ''then re-run this state. To enable deploy-on-absence, set ''
          @ repr_str ''deploy_spec'' @ '' arg or pillar '' @ repr_str ''saltext.vcf:vro:deploy_spec'' @ ''.''))
      else
        caught vro_deploy_error
          (\<lambda>exc. refused name (''VCF Orchestrator '' @ repr_str name @ '' deploy failed: '' @ exn_str exc))
          (exec_vro_deploy find_vm push opts spec profile 1800 1800 20) (\<lambda>result.
        let deployed_version = dget result ''version'' PNone in
        pureM (
          if version \<noteq> PNone \<and> \<not> py_eq deployed_version version then
            (refused name (''VCF Orchestrator '' @ repr_str name @ '' deployed but version mismatch: expected ''
              @ py_repr version @ '', reported '' @ py_repr deployed_version @ ''.''))
            \<lparr>ret_changes := PDict [(''deployed'', deployed_version)]\<rparr>
          else
            changed name [(''deployed'', deployed_version)]
              (''VCF Orchestrator '' @ repr_str name @ '' deployed''
                @ (if truthy deployed_version then '' at version '' @ py_str deployed_version else [])
                @ (if truthy (dget result ''license_installed'' PNone) then '' with license installed'' else [])))))"

definition vcf_vro_installed ::
  "vm_finder \<Rightarrow> ova_push \<Rightarrow> pyval \<Rightarrow> string \<Rightarrow> pyval \<Rightarrow> profile \<Rightarrow> pyval \<Rightarrow> salt_ret io" where
  "vcf_vro_installed find_vm push opts name version profile deploy_spec =
     bindM (liftR (vro_resolve_deploy_spec opts deploy_spec)) (\<lambda>spec.
     bindM (liftR (py_get opts ''test'' PNone)) (\<lambda>test.
     if truthy test then liftR (vro_plan name version spec)
     else
       attempt request_exception (vro_orchestrator_get_version opts profile)
         (\<lambda>about. liftR (vro_verified name version about))
         (\<lambda>reach_error. vro_absent find_vm push opts name version profile spec reach_error)))"

end
