(* ===== verification/Vrli_Master.thy ===== *)
theory Vrli_Master
  imports Appliance_Setup Vrli Hcx_Manager Text_Formats
begin

section \<open>Vrli_Master: deploying VCF Operations for Logs\<close>

text \<open>
  \<open>clients/vrli_master.py\<close> and \<open>vrli_version.py\<close>, \<open>modules/vcf_vrli.py\<close> and \<open>states/vcf_vrli.py\<close>. The program \<open>sshpass\<close> is
  a parameter: where it is, and what running it gives.
\<close>

subsection \<open>\<open>clients/vrli_master.py\<close>\<close>

definition vrli_VERSION_PATH :: string where "vrli_VERSION_PATH = ''/api/v2/version''"
definition vrli_HOSTS_PATH :: string where "vrli_HOSTS_PATH = ''/api/v2/hosts''"
definition vrli_CSRF_PATH :: string where "vrli_CSRF_PATH = ''/csrf''"
definition vrli_LOGIN_PATH :: string where "vrli_LOGIN_PATH = ''/login''"
definition vrli_STARTUP_PATH :: string where "vrli_STARTUP_PATH = ''/admin/startup''"

definition vrli_master_get_version :: "pyval \<Rightarrow> profile \<Rightarrow> pyval io" where
  "vrli_master_get_version opts profile = vrli_api_get opts vrli_VERSION_PATH PNone profile PNone"

definition vrli_version_get :: "pyval \<Rightarrow> profile \<Rightarrow> pyval io" where
  "vrli_version_get opts profile = vrli_api_get opts vrli_VERSION_PATH PNone profile PNone"

definition vrli_master_list_hosts :: "pyval \<Rightarrow> profile \<Rightarrow> pyval io" where
  "vrli_master_list_hosts opts profile = vrli_api_get opts vrli_HOSTS_PATH PNone profile PNone"

definition vrli_master_get :: "pyval \<Rightarrow> pyval \<Rightarrow> profile \<Rightarrow> pyval io" where
  "vrli_master_get opts host_id profile =
     vrli_api_get opts (vrli_HOSTS_PATH @ ''/'' @ py_str host_id) PNone profile PNone"

definition vrli_master_get_or_none :: "pyval \<Rightarrow> pyval \<Rightarrow> profile \<Rightarrow> pyval io" where
  "vrli_master_get_or_none opts host_id profile = none_if_missing (vrli_master_get opts host_id profile)"

definition vrli_wizard_base_url :: "pyval \<Rightarrow> profile \<Rightarrow> (string \<times> pyval) res" where
  "vrli_wizard_base_url opts profile =
     bindR (vrli_get_config opts profile) (\<lambda>cfg.
     if \<not> truthy (cfg_host cfg) then
       Exc (RuntimeError ''saltext.vcf.vrli.host is not configured; cannot reach vRLI master'')
     else Ok (vrli_base_url cfg, cfg_verify_ssl cfg))"

text \<open>The last status and the last error are kept over paths and rounds.\<close>

definition vrli_path_attempt :: "string \<Rightarrow> pyval \<Rightarrow> string \<Rightarrow> pyval \<times> string \<Rightarrow> (pyval + pyval \<times> string) io" where
  "vrli_path_attempt base verify path seen =
     probe ((plain_request ''GET'' (base @ path) PNone PNone [] PNone verify (PInt 10))\<lparr>rq_redirects := False\<rparr>)
       (\<lambda>resp. Ok (if status_code resp < 500 then
            Inl (PDict [(''status'', PInt (status_code resp)), (''path'', PStr path),
              (''content_type'', (case header_get resp ''Content-Type'' of PNone \<Rightarrow> PStr [] | v \<Rightarrow> v))])
          else Inr (PInt (status_code resp), snd seen)))
       (\<lambda>exc. (fst seen, exn_str exc))"

definition vrli_setup_attempt :: "string \<Rightarrow> pyval \<Rightarrow> pyval \<times> string \<Rightarrow> (pyval + pyval \<times> string) io" where
  "vrli_setup_attempt base verify seen =
     bindM (vrli_path_attempt base verify ''/'' seen) (\<lambda>r.
     case r of Inl x \<Rightarrow> pureM (Inl x) | Inr failed \<Rightarrow> vrli_path_attempt base verify vrli_VERSION_PATH failed)"

definition vrli_master_wait_for_setup_ready :: "pyval \<Rightarrow> int \<Rightarrow> int \<Rightarrow> profile \<Rightarrow> pyval io" where
  "vrli_master_wait_for_setup_ready opts timeout poll_interval profile =
     bindM (liftR (vrli_wizard_base_url opts profile)) (\<lambda>(base, verify).
     wait_ready (vrli_setup_attempt base verify)
       (\<lambda>(last_status, last_exc). TimeoutError (''vRLI master wizard did not become reachable within '' @ int_str timeout
          @ ''s (last status: '' @ py_str last_status @ '', last error: '' @ last_exc @ '')''))
       (PNone, ''None'') timeout poll_interval)"

definition vrli_parse_wizard_body :: "http_response \<Rightarrow> pyval res" where
  "vrli_parse_wizard_body resp =
     (if \<not> has_content resp then Ok empty_dict
      else
        case json_value resp of
          Some v \<Rightarrow> Ok v
        | None \<Rightarrow> bindR (response_text resp) (\<lambda>t. Ok (PDict [(''_raw'', PStr t)])))"

text \<open>One form of the wizard.\<close>

definition vrli_wizard_form :: "session \<Rightarrow> string \<Rightarrow> pyval \<Rightarrow> dict \<Rightarrow> pyval \<Rightarrow> (pyval \<times> session) io" where
  "vrli_wizard_form sess url token form timeout =
     bindM (session_form sess ''POST'' url (PDict form)
         [(''X-CSRF-Token'', token), (''X-Requested-With'', PStr ''XMLHttpRequest''),
          (''Content-Type'', PStr ''application/x-www-form-urlencoded'')] timeout) (\<lambda>(resp, sess).
     bindM (raise_for_status resp) (\<lambda>_.
     bindM (liftR (vrli_parse_wizard_body resp)) (\<lambda>body. pureM (body, sess))))"

definition vrli_login_form :: "pyval \<Rightarrow> dict" where
  "vrli_login_form admin_password =
     [(''_eventName'', PStr ''loginAjax''), (''username'', PStr ''admin''), (''password'', admin_password),
      (''authMethod'', PStr ''DEFAULT'')]"

definition vrli_startup_form :: dict where "vrli_startup_form = [(''_eventName'', PStr ''newDeployment'')]"

text \<open>The first request, which follows no redirect and whose answer is not looked at.\<close>

definition vrli_seed_session :: "session \<Rightarrow> string \<Rightarrow> pyval \<Rightarrow> session io" where
  "vrli_seed_session sess base timeout =
     bindM (http_send ((session_rq sess ''GET'' (base @ ''/'') PNone PNone [] timeout)\<lparr>rq_redirects := False\<rparr>)) (\<lambda>resp.
     pureM (sess\<lparr>s_cookies := dupdate (s_cookies sess) (rs_cookies resp)\<rparr>))"

definition vrli_master_bootstrap_master :: "pyval \<Rightarrow> pyval \<Rightarrow> profile \<Rightarrow> pyval \<Rightarrow> pyval io" where
  "vrli_master_bootstrap_master opts admin_password profile timeout =
     bindM (liftR (vrli_wizard_base_url opts profile)) (\<lambda>(base, verify).
     bindM (vrli_seed_session (new_session\<lparr>s_verify := verify\<rparr>) base timeout) (\<lambda>sess.
     bindM (session_send sess ''GET'' (base @ vrli_CSRF_PATH) PNone PNone [(''X-CSRF-Token'', PStr ''Fetch'')] timeout)
       (\<lambda>(csrf_resp, sess).
     bindM (raise_for_status csrf_resp) (\<lambda>_.
     let token = py_or (header_get csrf_resp ''X-CSRF-Token'') (dget (s_cookies sess) ''cs'' PNone) in
     if \<not> truthy token then
       bindM (liftR (response_text csrf_resp)) (\<lambda>t.
       raiseM (RuntimeError (''vRLI wizard GET '' @ vrli_CSRF_PATH @ '' did not return X-CSRF-Token header or cs cookie ''
         @ ''(body='' @ repr_str t @ '')'')))
     else
       bindM (vrli_wizard_form sess (base @ vrli_LOGIN_PATH) token (vrli_login_form admin_password) timeout) (\<lambda>(login, sess).
       bindM (vrli_wizard_form sess (base @ vrli_STARTUP_PATH) token vrli_startup_form timeout) (\<lambda>(startup, _).
       pureM (PDict [(''csrf_token'', token), (''login'', login), (''startup'', startup)])))))))"

text \<open>\<open>shutil.which("sshpass")\<close>, and \<open>subprocess.run\<close> from the arguments, \<open>$SSHPASS\<close> and the timeout to the exit code and
  the standard error output.\<close>

record sshpass =
  sshpass_path :: "string option"
  sshpass_run :: "string list \<Rightarrow> pyval \<Rightarrow> int \<Rightarrow> (int \<times> string) io"

definition vrli_reset_command :: "string \<Rightarrow> string" where
  "vrli_reset_command new_admin_password =
     ''/opt/vmware/bin/li-reset-admin-passwd.sh --resetAdminPassword '' @ shlex_quote new_admin_password"

definition vrli_reset_argv :: "string \<Rightarrow> pyval \<Rightarrow> pyval \<Rightarrow> string \<Rightarrow> string list" where
  "vrli_reset_argv path ssh_user host new_admin_password =
     [path, ''-e'', ''ssh'', ''-o'', ''StrictHostKeyChecking=no'', ''-o'', ''UserKnownHostsFile=/dev/null'',
      py_str ssh_user @ ''@'' @ py_str host, vrli_reset_command new_admin_password]"

definition vrli_master_reset_admin_password_via_ssh ::
  "sshpass \<Rightarrow> pyval \<Rightarrow> pyval \<Rightarrow> pyval \<Rightarrow> pyval \<Rightarrow> int \<Rightarrow> bool io" where
  "vrli_master_reset_admin_password_via_ssh ssh host root_password new_admin_password ssh_user timeout =
     (case sshpass_path ssh of
        None \<Rightarrow>
          raiseM (RuntimeError (''sshpass binary not found on PATH; required for the SSH '' @ ''admin-password reset shortcut''))
      | Some path \<Rightarrow>
          (case new_admin_password of
             PStr pw \<Rightarrow>
               bindM (sshpass_run ssh (vrli_reset_argv path ssh_user host pw) root_password timeout) (\<lambda>(code, err).
               if code \<noteq> 0 then
                 raiseM (RuntimeError (''li-reset-admin-passwd.sh on '' @ py_str host @ '' exited '' @ int_str code
                   @ '': stderr='' @ repr_str err))
               else pureM True)
           | _ \<Rightarrow> raiseM (TypeError (''expected string or bytes-like object, got '' @ repr_str (type_name new_admin_password)))))"

text \<open>\<open>join_worker\<close>; a \<open>NotImplementedError\<close> is a \<open>RuntimeError\<close>.\<close>

definition vrli_master_join_worker :: "pyval io" where
  "vrli_master_join_worker =
     raiseM (RuntimeError (''vRLI worker join is not implemented '' @ em_dash @ '' MVP only covers single-node ''
       @ ''master deploys. See ~/src/saltext-opsdev/VRLI-MANUAL-INSTALL-NOTES.md.''))"

subsection \<open>\<open>modules/vcf_vrli.py\<close>\<close>

definition exec_vrli_get_version :: "pyval \<Rightarrow> profile \<Rightarrow> pyval io" where
  "exec_vrli_get_version opts profile = vrli_master_get_version opts profile"

definition exec_vrli_list_hosts :: "pyval \<Rightarrow> profile \<Rightarrow> pyval io" where
  "exec_vrli_list_hosts opts profile = vrli_master_list_hosts opts profile"

definition vrli_installed_result :: "bool \<Rightarrow> pyval \<Rightarrow> pyval \<Rightarrow> string \<Rightarrow> pyval" where
  "vrli_installed_result installed version release why =
     PDict [(''installed'', PBool installed), (''version'', version), (''release_name'', release), (''reason'', PStr why)]"

definition exec_vrli_installed :: "pyval \<Rightarrow> pyval \<Rightarrow> pyval \<Rightarrow> profile \<Rightarrow> pyval io" where
  "exec_vrli_installed opts name version profile =
     attempt (\<lambda>exc. request_exception exc \<or> is_RuntimeError exc) (vrli_master_get_version opts profile)
       (\<lambda>info.
         bindM (liftR (py_get (py_or info empty_dict) ''version'' PNone)) (\<lambda>current.
         bindM (liftR (py_get (py_or info empty_dict) ''releaseName'' PNone)) (\<lambda>release.
         pureM (if version \<noteq> PNone \<and> \<not> py_eq current version then
             vrli_installed_result False current release
               (''vRLI is at version '' @ py_repr current @ '', expected '' @ py_repr version)
           else vrli_installed_result True current release []))))
       (\<lambda>exc. pureM (vrli_installed_result False PNone PNone
         (if is_RuntimeError exc then exn_str exc else ''vRLI master unreachable: '' @ exn_str exc)))"

definition exec_vrli_invalidate_token :: "pyval \<Rightarrow> profile \<Rightarrow> bool io" where
  "exec_vrli_invalidate_token opts profile = bindM (vrli_invalidate_token opts profile) (\<lambda>_. pureM True)"

definition exec_vrli_select_backend :: "pyval \<Rightarrow> string res" where
  "exec_vrli_select_backend name =
     bindR (py_lower (py_or name (PStr ''pyvmomi''))) (\<lambda>b.
     if b \<in> {''pyvmomi'', ''ovftool''} then Ok b
     else Exc (ValueError (''unsupported vRLI deployment_backend='' @ py_repr name)))"

definition vrli_push_kwargs :: "pyval \<Rightarrow> (string \<times> dict) res" where
  "vrli_push_kwargs spec =
     bindR (py_get spec ''deployment_backend'' PNone) (\<lambda>b.
     bindR (exec_vrli_select_backend b) (\<lambda>backend.
     bindR (get_or spec ''ova_source'' ''ova_url'') (\<lambda>ova_source.
     if \<not> truthy ova_source then
       Exc (KeyError (''vRLI deploy spec missing required '' @ [CHR 0x27] @ ''ova_source'' @ [CHR 0x27] @ '' (or ''
         @ [CHR 0x27] @ ''ova_url'' @ [CHR 0x27] @ '')''))
     else
       bindR (push_kwargs (Ok ova_source) (py_item spec ''vm_name'') spec) (\<lambda>kwargs.
       if backend = ''ovftool'' then bindR (ovftool_options spec) (\<lambda>tool. Ok (backend, kwargs @ tool))
       else Ok (backend, kwargs)))))"

definition exec_vrli_push_ova :: "vm_finder \<Rightarrow> ova_push \<Rightarrow> pyval \<Rightarrow> pyval io" where
  "exec_vrli_push_ova find_vm push spec =
     bindM (liftR (vrli_push_kwargs spec)) (\<lambda>(backend, kwargs).
     push_unless_exists find_vm (find_kwargs kwargs) (push backend kwargs))"

definition vrli_reset_step :: "sshpass \<Rightarrow> pyval \<Rightarrow> pyval \<Rightarrow> profile \<Rightarrow> bool io" where
  "vrli_reset_step ssh opts spec profile =
     bindM (liftR (py_get spec ''reset_admin_password_via_ssh'' PNone)) (\<lambda>wanted.
     if \<not> truthy wanted then pureM False
     else
       bindM (liftR (vrli_get_config opts profile)) (\<lambda>cfg.
       bindM (liftR (py_get spec ''ssh_host'' PNone)) (\<lambda>h.
       bindM (liftR (py_item spec ''ssh_root_password'')) (\<lambda>root_pw.
       bindM (liftR (py_item spec ''new_admin_password'')) (\<lambda>new_pw.
       bindM (liftR (py_get spec ''ssh_user'' (PStr ''root''))) (\<lambda>user.
       bindM (liftR (int_option spec ''ssh_timeout'' 60)) (\<lambda>t.
       bindM (vrli_master_reset_admin_password_via_ssh ssh (py_or h (cfg_host cfg)) root_pw new_pw user t) (\<lambda>_.
       bindM (vrli_invalidate_token opts profile) (\<lambda>_. pureM True)))))))))"

definition exec_vrli_deploy ::
  "sshpass \<Rightarrow> vm_finder \<Rightarrow> ova_push \<Rightarrow> pyval \<Rightarrow> pyval \<Rightarrow> profile \<Rightarrow> dict io" where
  "exec_vrli_deploy ssh find_vm push opts spec profile =
     (if \<not> truthy spec then raiseM (KeyError ''vRLI deploy spec is empty'')
      else
        bindM (liftR (py_in (PStr ''admin_password'') spec)) (\<lambda>has_pw.
        if \<not> has_pw then
          raiseM (KeyError (''vRLI deploy spec missing required '' @ [CHR 0x27] @ ''admin_password'' @ [CHR 0x27]))
        else
          bindM (exec_vrli_push_ova find_vm push spec) (\<lambda>ova_result.
          bindM (liftR (int_option spec ''ready_timeout'' 1800)) (\<lambda>t.
          bindM (liftR (int_option spec ''ready_poll_interval'' 20)) (\<lambda>i.
          bindM (vrli_master_wait_for_setup_ready opts t i profile) (\<lambda>_.
          bindM (liftR (py_item spec ''admin_password'')) (\<lambda>password.
          bindM (liftR (int_option spec ''bootstrap_timeout'' 600)) (\<lambda>bt.
          bindM (vrli_master_bootstrap_master opts password profile (PInt bt)) (\<lambda>wizard.
          bindM (vrli_reset_step ssh opts spec profile) (\<lambda>was_reset.
          bindM (tryM (vrli_master_get_version opts profile)
              (\<lambda>exc. if request_exception exc \<or> is_RuntimeError exc then pureM PNone else raiseM exc)) (\<lambda>version.
          pureM [(''ova'', ova_result), (''wizard'', wizard), (''admin_password_reset'', PBool was_reset),
            (''version'', version)])))))))))))"

subsection \<open>\<open>states/vcf_vrli.py\<close>\<close>

definition vrli_resolve_deploy_spec :: "pyval \<Rightarrow> pyval \<Rightarrow> pyval res" where
  "vrli_resolve_deploy_spec opts deploy_spec =
     (if deploy_spec \<noteq> PNone then Ok deploy_spec
      else
        bindR (py_get opts ''pillar'' empty_dict) (\<lambda>p.
        bindR (py_get (py_or p empty_dict) ''saltext.vcf'' empty_dict) (\<lambda>r.
        bindR (if truthy r then Ok r else py_get opts ''saltext.vcf'' empty_dict) (\<lambda>root.
        bindR (py_get (py_or root empty_dict) ''vrli'' empty_dict) (\<lambda>cfg.
        py_get (py_or cfg empty_dict) ''deploy_spec'' PNone)))))"

definition vrli_NO_SPEC_HINT :: string where
  "vrli_NO_SPEC_HINT =
     ''vRLI master is not reachable and no '' @ repr_str ''deploy_spec'' @ '' was provided (arg ''
     @ ''or pillar '' @ repr_str ''saltext.vcf:vrli:deploy_spec'' @ ''). Provide the deploy spec ''
     @ ''(single-node master OVA + wizard admin password) and rerun, or ''
     @ ''provision the master out of band and rerun to verify.''"

definition vrli_verified :: "string \<Rightarrow> pyval \<Rightarrow> pyval \<Rightarrow> salt_ret res" where
  "vrli_verified name version info =
     bindR (py_get (py_or info empty_dict) ''version'' PNone) (\<lambda>current.
     bindR (py_get (py_or info empty_dict) ''releaseName'' PNone) (\<lambda>release.
     Ok (if version \<noteq> PNone \<and> \<not> py_eq current version then
           refused name (name @ '': vRLI is installed at version '' @ py_repr current @ '' (releaseName='' @ py_repr release
             @ '') but expected '' @ py_repr version @ ''. Upgrade/downgrade is out of scope for this state.'')
         else
           unchanged name (name @ '': vRLI master is installed and reachable (version='' @ py_repr current
             @ '', releaseName='' @ py_repr release @ '')''))))"

definition vrli_describe_plan :: "string \<Rightarrow> pyval \<Rightarrow> string res" where
  "vrli_describe_plan name spec =
     bindR (py_get spec ''vm_name'' PNone) (\<lambda>vm.
     bindR (py_get spec ''target_host'' PNone) (\<lambda>target.
     Ok (name @ '': would deploy single-node vRLI master (vm_name='' @ py_repr vm @ '', target='' @ py_repr target @ '')'')))"

text \<open>What the state does about a master that is not reachable.\<close>

definition vrli_absent ::
  "sshpass \<Rightarrow> vm_finder \<Rightarrow> ova_push \<Rightarrow> pyval \<Rightarrow> string \<Rightarrow> pyval \<Rightarrow> profile \<Rightarrow> string \<Rightarrow> salt_ret io" where
  "vrli_absent ssh find_vm push opts name deploy_spec profile unreachable_reason =
     bindM (liftR (vrli_resolve_deploy_spec opts deploy_spec)) (\<lambda>spec.
     if \<not> truthy spec then
       pureM (refused name (name @ '': '' @ unreachable_reason @ ''. '' @ vrli_NO_SPEC_HINT))
     else
       bindM (liftR (py_get opts ''test'' PNone)) (\<lambda>test.
       if truthy test then bindM (liftR (vrli_describe_plan name spec)) (\<lambda>plan. pureM (would name plan))
       else
         caught (\<lambda>exc. deploy_error exc \<or> request_exception exc)
           (\<lambda>exc. refused name (name @ (if deploy_error exc then '': vRLI deploy failed: ''
              else '': vRLI deploy failed talking to master API: '') @ exn_str exc))
           (exec_vrli_deploy ssh find_vm push opts spec profile) (\<lambda>result.
         bindM (liftR (py_get (py_or (dget result ''version'' PNone) empty_dict) ''version'' PNone)) (\<lambda>v.
         pureM (changed name
           [(''master_deployed'', PBool True),
            (''admin_password_reset'', PBool (truthy (dget result ''admin_password_reset'' PNone)))]
           (name @ '': vRLI single-node master bootstrapped''
             @ (if truthy v then '' (version='' @ py_repr v @ '')'' else [])))))))"

definition vcf_vrli_installed ::
  "sshpass \<Rightarrow> vm_finder \<Rightarrow> ova_push \<Rightarrow> pyval \<Rightarrow> string \<Rightarrow> pyval \<Rightarrow> pyval \<Rightarrow> profile \<Rightarrow> salt_ret io" where
  "vcf_vrli_installed ssh find_vm push opts name version deploy_spec profile =
     attempt (\<lambda>exc. request_exception exc \<or> is_RuntimeError exc) (vrli_master_get_version opts profile)
       (\<lambda>info. liftR (vrli_verified name version info))
       (\<lambda>exc. vrli_absent ssh find_vm push opts name deploy_spec profile
         (if is_RuntimeError exc then exn_str exc else ''cannot reach vRLI master ('' @ exn_str exc @ '')''))"

end
