(* ===== verification/Vcf_Appliances.thy ===== *)
theory Vcf_Appliances
  imports Avi_Controller Hcx_Manager Vrni_Platform Vro_Orchestrator Vrli_Master
begin

section \<open>Vcf_Appliances: what the states that deploy an appliance guarantee\<close>

text \<open>
  The states \<open>installed\<close> of \<open>vcf_avi\<close>, \<open>vcf_hcx\<close>, \<open>vcf_vrni\<close>, \<open>vcf_vro\<close> and \<open>vcf_vrli\<close>: what a success shows, what a
  dry run does not do, and that the waits for a booting appliance end.
\<close>

subsection \<open>The waits\<close>

lemma avi_setup_attempt_rules [spec_intros]:
  "returns (avi_setup_attempt url v i s)" "keeps evolves (avi_setup_attempt url v i s)"
  by (auto simp: avi_setup_attempt_def intro!: spec_intros)

lemma hcx_setup_attempt_rules [spec_intros]:
  "returns (hcx_setup_attempt url v i s)" "keeps evolves (hcx_setup_attempt url v i s)"
  by (auto simp: hcx_setup_attempt_def intro!: spec_intros)

lemma vrni_setup_attempt_rules [spec_intros]:
  "returns (vrni_setup_attempt url v i s)" "keeps evolves (vrni_setup_attempt url v i s)"
  by (auto simp: vrni_setup_attempt_def intro!: spec_intros)

lemma vro_setup_attempt_rules [spec_intros]:
  "returns (vro_setup_attempt opts p s)" "keeps evolves (vro_setup_attempt opts p s)"
  by (auto simp: vro_setup_attempt_def vro_orchestrator_get_version_def intro!: spec_intros)

lemma vrli_setup_attempt_rules [spec_intros]:
  "returns (vrli_setup_attempt b v s)" "keeps evolves (vrli_setup_attempt b v s)"
  by (auto simp: vrli_setup_attempt_def vrli_path_attempt_def intro!: spec_intros)

lemma appliance_waits_return:
  assumes "0 < i"
  shows "returns (avi_controller_wait_for_setup_ready opts t i p)"
    "returns (hcx_manager_wait_for_setup_ready opts t i p)"
    "returns (vrni_platform_wait_for_setup_ready opts t i p)"
    "returns (vro_orchestrator_wait_for_setup_ready opts t i p)"
    "returns (vrli_master_wait_for_setup_ready opts t i p)"
  using assms
  by (auto simp: avi_controller_wait_for_setup_ready_def hcx_manager_wait_for_setup_ready_def
      vrni_platform_wait_for_setup_ready_def vro_orchestrator_wait_for_setup_ready_def
      vrli_master_wait_for_setup_ready_def intro!: spec_intros wait_ready_returns)

subsection \<open>What a success shows\<close>

text \<open>Whenever \<open>prog\<close> reports success, the last thing that happened is that \<open>check\<close> returned.\<close>

definition success_verified :: "salt_ret io \<Rightarrow> 'a io \<Rightarrow> bool" where
  "success_verified prog check \<longleftrightarrow>
     (\<forall>w r w'. prog w = Some (Ok r, w') \<and> ret_result r = Some True \<longrightarrow> (\<exists>w1 v. check w1 = Some (Ok v, w')))"

lemma avi_ping_True:
  "avi_controller_ping opts p w = Some (Ok True, w') \<Longrightarrow> \<exists>v. avi_controller_get_version opts p w = Some (Ok v, w')"
  by (auto simp: avi_controller_ping_def tryM_Some_iff bindM_Ok_iff split: if_splits)

lemma exec_avi_deploy_verified:
  "exec_avi_deploy f push opts spec p w = Some (Ok d, w') \<Longrightarrow> \<exists>w1 v. avi_controller_get_version opts p w1 = Some (Ok v, w')"
  unfolding exec_avi_deploy_def bindM_Ok_iff by auto

lemma exec_vro_deploy_verified:
  "exec_vro_deploy f push opts spec p t t' i w = Some (Ok d, w') \<Longrightarrow>
     \<exists>w1 v. vro_orchestrator_get_version opts p w1 = Some (Ok v, w') \<and> py_get v ''version'' PNone = Ok (dget d ''version'' PNone)"
  unfolding exec_vro_deploy_def bindM_Ok_iff split_beta by clarsimp blast

text \<open>A success after the appliance was not reachable comes from a deployment that returned.\<close>

lemma absent_success:
  "avi_absent f push opts n spec p w = Some (Ok r, w') \<Longrightarrow> ret_result r = Some True \<Longrightarrow>
     \<exists>s d w1. exec_avi_deploy f push opts s p w1 = Some (Ok d, w')"
  "vro_absent f push opts n v p s e w = Some (Ok r, w') \<Longrightarrow> ret_result r = Some True \<Longrightarrow>
     \<exists>d. exec_vro_deploy f push opts s p 1800 1800 20 w = Some (Ok d, w')"
  by (auto simp: avi_absent_def vro_absent_def would_def bindM_Ok_iff Let_def elim!: caught_SomeE split: if_splits; blast)+

lemma avi_installed_verified: "success_verified (vcf_avi_installed f push opts n spec p) (avi_controller_get_version opts p)"
  by (auto simp: success_verified_def vcf_avi_installed_def bindM_Ok_iff split: if_splits
      dest!: avi_ping_True absent_success exec_avi_deploy_verified)

lemma vro_plan_result: "vro_plan n v spec = Ok r \<Longrightarrow> ret_result r = None"
  by (auto simp: vro_plan_def would_def bindR_eq_Ok split: if_splits)

lemma vro_installed_verified:
  "success_verified (vcf_vro_installed f push opts n v p spec) (vro_orchestrator_get_version opts p)"
  by (auto simp: success_verified_def vcf_vro_installed_def bindM_Ok_iff attempt_Some_iff split: if_splits
      dest!: vro_plan_result absent_success exec_vro_deploy_verified)

text \<open>C7: A success of the states on the AVI controller and the Orchestrator is verified: whatever the appliance, the
  push of the OVA and the network do, the last thing that happened before is that the version endpoint answered.\<close>

theorem appliances_installed_verified:
  "success_verified (vcf_avi_installed find_vm push opts n spec p) (avi_controller_get_version opts p) \<and>
   success_verified (vcf_vro_installed find_vm push opts n v p spec) (vro_orchestrator_get_version opts p)"
  by (simp add: avi_installed_verified vro_installed_verified)

subsection \<open>Dry runs\<close>

lemma test_modeE:
  assumes "test_mode opts" obtains d where "opts = PDict d" "truthy (dget d ''test'' PNone)"
  using assms by (auto simp: test_mode_def split: pyval.splits)

text \<open>In a dry run the deployment is not even mentioned: the state is the same program whatever finds the VM, pushes the
  OVA or runs ssh.\<close>

lemma avi_dry: "test_mode opts \<Longrightarrow> vcf_avi_installed f push opts n spec p = vcf_avi_installed f' push' opts n spec p"
  by (erule test_modeE) (simp add: vcf_avi_installed_def avi_absent_def bindM_laws cong: if_cong)

lemma hcx_dry: "test_mode opts \<Longrightarrow> vcf_hcx_installed f push opts n v p spec = vcf_hcx_installed f' push' opts n v p spec"
  by (erule test_modeE) (simp add: vcf_hcx_installed_def hcx_absent_def bindM_laws cong: if_cong)

lemma vrni_dry: "test_mode opts \<Longrightarrow> vcf_vrni_installed push opts n v p spec = vcf_vrni_installed push' opts n v p spec"
  by (erule test_modeE) (simp add: vcf_vrni_installed_def vrni_absent_def bindM_laws cong: if_cong)

lemma vro_dry: "test_mode opts \<Longrightarrow> vcf_vro_installed f push opts n v p spec = vcf_vro_installed f' push' opts n v p spec"
  by (erule test_modeE) (simp add: vcf_vro_installed_def bindM_laws cong: if_cong)

lemma vrli_dry:
  "test_mode opts \<Longrightarrow> vcf_vrli_installed ssh f push opts n v spec p = vcf_vrli_installed ssh' f' push' opts n v spec p"
  by (erule test_modeE) (simp add: vcf_vrli_installed_def vrli_absent_def bindM_laws cong: if_cong)

text \<open>C30: A dry run of the five states deploys nothing: what it does is the same for every way to look for the VM, push
  the OVA and run commands, so none of them is used.\<close>

theorem appliance_dry_runs_deploy_nothing:
  assumes "test_mode opts"
  shows "vcf_avi_installed find_vm push opts n spec p = vcf_avi_installed find_vm' push' opts n spec p \<and>
    vcf_hcx_installed find_vm push opts n v p spec = vcf_hcx_installed find_vm' push' opts n v p spec \<and>
    vcf_vrni_installed push opts n v p spec = vcf_vrni_installed push' opts n v p spec \<and>
    vcf_vro_installed find_vm push opts n v p spec = vcf_vro_installed find_vm' push' opts n v p spec \<and>
    vcf_vrli_installed ssh find_vm push opts n v spec p = vcf_vrli_installed ssh' find_vm' push' opts n v spec p"
  using assms by (intro conjI avi_dry hcx_dry vrni_dry vro_dry vrli_dry)

lemma appliance_dry_runs_deploy_nothing_witness:
  "vcf_avi_installed (\<lambda>_. raiseM (RuntimeError [])) (\<lambda>_ _. raiseM (RuntimeError [])) (opts_test_for ''avi'') ''a'' empty_dict None =
   vcf_avi_installed (\<lambda>_. pureM PNone) (\<lambda>_ _. pureM empty_dict) (opts_test_for ''avi'') ''a'' empty_dict None"
proof -
  have "test_mode (opts_test_for ''avi'')" by code_simp
  from appliance_dry_runs_deploy_nothing [OF this, of "\<lambda>_. raiseM (RuntimeError [])" "\<lambda>_ _. raiseM (RuntimeError [])"]
  show ?thesis by blast
qed

subsection \<open>HCX: the required version\<close>

lemma hcx_last_probe_version: "hcx_last_probe opts pw p w = Some (Ok about, w') \<Longrightarrow> hcx_version about = PNone"
  by (auto simp: hcx_last_probe_def bindM_Ok_iff hcx_version_def)

lemma hcx_configured_version: "hcx_version hcx_configured_about = PNone"
  by (simp add: hcx_version_def hcx_configured_about_def)

lemma hcx_verified_result:
  assumes "truthy version" "hcx_verified opts n version hcx_configured_about w = Some (Ok r, w')"
  shows "ret_result r \<noteq> Some True"
proof -
  have "version \<noteq> PNone" using assms(1) by auto
  with assms show ?thesis
    by (auto simp: hcx_verified_def hcx_configured_version Let_def bindM_Ok_iff would_def split: if_splits)
qed

lemma hcx_deployed_result:
  assumes "truthy version" "hcx_deployed opts n version p pw d w = Some (Ok r, w')"
  shows "ret_result r \<noteq> Some True"
proof -
  have "version \<noteq> PNone" using assms(1) by auto
  with assms show ?thesis
    by (auto simp: hcx_deployed_def Let_def elim!: caught_SomeE dest!: hcx_last_probe_version split: if_splits)
qed

text \<open>C31: The state on the HCX Manager never succeeds when a version is required: neither probe asks for the version, and
  the missing one is taken for a drift, whatever the manager runs.\<close>

theorem hcx_required_version_never_met:
  assumes "truthy version" "vcf_hcx_installed find_vm push opts n version p spec w = Some (Ok r, w')"
  shows "ret_result r \<noteq> Some True"
proof
  assume ok: "ret_result r = Some True"
  with assms(2) consider w1 where "hcx_verified opts n version hcx_configured_about w1 = Some (Ok r, w')"
    | pw d w1 where "hcx_deployed opts n version p pw d w1 = Some (Ok r, w')"
    by (auto simp: vcf_hcx_installed_def hcx_absent_def would_def bindM_Ok_iff elim!: caught_SomeE split: if_splits)
  then show False
    using hcx_verified_result [OF assms(1)] hcx_deployed_result [OF assms(1)] ok by cases blast+
qed

lemma hcx_required_version_never_met_witness:
  "\<exists>r w'. vcf_hcx_installed (\<lambda>_. pureM PNone) (\<lambda>_ _. pureM PNone) (opts_for ''hcx'') ''h'' (PStr ''9.0'') None PNone
     (scripted [body_reply (PStr ''up''),
        replies (json_response 200 empty_dict\<lparr>rs_headers := [(''X-Hm-Authorization'', PStr ''t'')]\<rparr>), body_reply (PBool True)]) =
     Some (Ok r, w') \<and> ret_result r \<noteq> Some True"
proof -
  let ?w = "scripted [body_reply (PStr ''up''),
    replies (json_response 200 empty_dict\<lparr>rs_headers := [(''X-Hm-Authorization'', PStr ''t'')]\<rparr>), body_reply (PBool True)]"
  let ?r = "refused ''h'' (''HCX Manager '' @ repr_str ''h'' @ '' version drift: installed=None, required='' @ repr_str ''9.0''
      @ '' (state does not reinstall)'')
    \<lparr>ret_changes := PDict [(''observed_version'', PNone), (''required_version'', PStr ''9.0'')]\<rparr>"
  have run: "map_option fst (vcf_hcx_installed (\<lambda>_. pureM PNone) (\<lambda>_ _. pureM PNone) (opts_for ''hcx'') ''h'' (PStr ''9.0'')
      None PNone ?w) = Some (Ok ?r)" by code_simp
  have "truthy (PStr ''9.0'')" by simp
  from hcx_required_version_never_met [OF this run_result [OF run]] run_result [OF run] show ?thesis by blast
qed

subsection \<open>Network Insight: the Collectors\<close>

lemma push_kwargs_properties:
  "push_kwargs a b (PDict d) = Ok kwargs \<Longrightarrow>
     dget (kwargs @ tool) ''ovf_properties'' PNone = dget d ''ovf_properties'' PNone"
  by (auto simp: push_kwargs_def ova_options_dict OVA_OPTIONS_def TARGET_KEYS_def bindR_eq_Ok)

lemma vrni_push_properties:
  "vrni_push_kwargs (PDict d) = Ok (backend, kwargs) \<Longrightarrow>
     dget kwargs ''ovf_properties'' PNone = dget d ''ovf_properties'' PNone"
  using push_kwargs_properties [where tool = "[]"] push_kwargs_properties
  by (auto simp: vrni_push_kwargs_def bindR_eq_Ok split: if_splits)

text \<open>A Collector was pushed with its own properties, to which the secret was added unless it had one.\<close>

definition collector_joined :: "ova_push \<Rightarrow> pyval \<Rightarrow> pyval \<Rightarrow> bool" where
  "collector_joined push secret c \<longleftrightarrow>
     (\<exists>d own backend kwargs w1 x w2. c = PDict d \<and> py_dict (py_or (dget d ''ovf_properties'' PNone) empty_dict) = Ok own \<and>
        push backend kwargs w1 = Some (Ok x, w2) \<and>
        dget kwargs ''ovf_properties'' PNone = PDict (setdefault own ''Proxy_Shared_Secret'' secret))"

lemma deploy_collector_joined:
  assumes "exec_vrni_deploy_collector push c secret w = Some (Ok x, w')"
  shows "truthy secret \<and> collector_joined push secret c"
proof -
  from assms obtain d own backend kwargs w1 y where
    c: "c = PDict d" and own: "py_dict (py_or (dget d ''ovf_properties'' PNone) empty_dict) = Ok own"
    and kwargs: "vrni_push_kwargs (PDict (dset d ''ovf_properties'' (PDict (setdefault own ''Proxy_Shared_Secret'' secret))))
      = Ok (backend, kwargs)"
    and push: "push backend kwargs w = Some (Ok y, w1)" and secret: "truthy secret"
    unfolding exec_vrni_deploy_collector_def exec_vrni_push_ova_def
    by (auto simp: bindM_Ok_iff py_get_Ok split: if_splits)
  from vrni_push_properties [OF kwargs]
  have "dget kwargs ''ovf_properties'' PNone = PDict (setdefault own ''Proxy_Shared_Secret'' secret)"
    by (simp add: dget_dset)
  with c own push secret show ?thesis unfolding collector_joined_def by blast
qed

lemma deploy_collectors_joined:
  "deploy_collectors push secret cs w = Some (Ok rs, w') \<Longrightarrow> length rs = length cs \<and> list_all (collector_joined push secret) cs"
  by (induction cs arbitrary: w rs) (auto simp: bindM_Ok_iff dest!: deploy_collector_joined)

text \<open>C25: A deployment of Network Insight that returns has pushed every Collector of the specification with the secret that
  the new Platform minted, or with the one that the Collector's own properties name.\<close>

theorem vrni_collectors_joined:
  assumes "exec_vrni_deploy push opts (PDict spec) p w = Some (Ok d, w')"
    and "dget spec ''collectors'' PNone = PList cs"
  shows "list_all (collector_joined push (dget d ''shared_secret'' PNone)) cs \<and>
    (\<exists>rs. dget d ''collectors'' PNone = PList rs \<and> length rs = length cs)"
proof (cases cs)
  case Nil
  with assms show ?thesis by (auto simp: exec_vrni_deploy_def bindM_Ok_iff)
next
  case (Cons c cs')
  with assms obtain secret rs w1 where "deploy_collectors push secret cs w1 = Some (Ok rs, w')"
    and "dget d ''shared_secret'' PNone = secret" "dget d ''collectors'' PNone = PList rs"
    unfolding exec_vrni_deploy_def by (auto simp: bindM_Ok_iff simp del: deploy_collectors.simps)
  with deploy_collectors_joined [OF this(1)] show ?thesis by simp
qed

definition sample_vrni_spec :: dict where
  "sample_vrni_spec =
     (let vm = (\<lambda>n. PDict [(''ova_url'', PStr ''/a.ova''), (''target_host'', PStr ''e''), (''target_user'', PStr ''u''),
            (''target_password'', PStr ''p''), (''vm_name'', PStr n)]) in
      [(''platform'', vm ''pf''), (''wizard'', PDict [(''admin_password'', PStr ''p'')]), (''collectors'', PList [vm ''c1'', vm ''c2''])])"

lemma vrni_collectors_joined_witness:
  "\<exists>d w'. exec_vrni_deploy (\<lambda>_ _. pureM empty_dict) (opts_for ''vrni'') (PDict sample_vrni_spec) None
     (scripted [body_reply empty_dict, body_reply empty_dict, body_reply (PDict [(''token'', PStr ''t'')]),
        body_reply (PDict [(''secret'', PStr ''s'')])]) = Some (Ok d, w') \<and>
     (\<exists>cs. dget sample_vrni_spec ''collectors'' PNone = PList cs \<and> length cs = 2 \<and>
        list_all (collector_joined (\<lambda>_ _. pureM empty_dict) (PStr ''s'')) cs)"
proof -
  let ?w = "scripted [body_reply empty_dict, body_reply empty_dict, body_reply (PDict [(''token'', PStr ''t'')]),
    body_reply (PDict [(''secret'', PStr ''s'')])]"
  let ?role = "\<lambda>r. PDict [(''role'', PStr r)]"
  let ?d = "[(''platform'', PDict [(''deployed'', PBool True), (''ova'', ?role ''platform''), (''wizard'', empty_dict)]),
    (''shared_secret'', PStr ''s''), (''collectors'', PList [?role ''collector'', ?role ''collector''])]"
  have run: "map_option fst (exec_vrni_deploy (\<lambda>_ _. pureM empty_dict) (opts_for ''vrni'') (PDict sample_vrni_spec) None ?w)
    = Some (Ok ?d)" by code_simp
  obtain cs where cs: "dget sample_vrni_spec ''collectors'' PNone = PList cs" "length cs = 2"
    by (simp add: sample_vrni_spec_def Let_def)
  from vrni_collectors_joined [OF run_result [OF run] cs(1)]
  have "list_all (collector_joined (\<lambda>_ _. pureM empty_dict) (PStr ''s'')) cs" by simp
  with run_result [OF run] cs show ?thesis by blast
qed

end
