(* ===== verification/Certificates.thy ===== *)
theory Certificates
  imports Text_Formats
begin

section \<open>Certificates: PEM, DER, and the serial number of a certificate\<close>

text \<open>
  What \<open>states/vcf_vrli_certificate.py\<close> takes apart by hand: PEM text, the lengths and values of DER, the serial
  number inside. \<open>serial_from_pem_number\<close> is that the walk finds the number, \<open>normalize_serial_eq\<close> that normal
  forms compare as numbers.
\<close>

text \<open>\<open>ssl.PEM_cert_to_DER_cert\<close>; bytes are characters.\<close>

definition PEM_HEADER :: string where "PEM_HEADER = ''-----BEGIN CERTIFICATE-----''"
definition PEM_FOOTER :: string where "PEM_FOOTER = ''-----END CERTIFICATE-----''"

definition pem_to_der :: "pyval \<Rightarrow> string res" where
  "pem_to_der pem =
     (case pem of
        PStr s \<Rightarrow>
          if \<not> starts_with s PEM_HEADER then
            Exc (ValueError (''Invalid PEM encoding; must start with '' @ PEM_HEADER))
          else if \<not> ends_with (strip s) PEM_FOOTER then
            Exc (ValueError (''Invalid PEM encoding; must end with '' @ PEM_FOOTER))
          else
            let t = strip s in
            b64_decode (take (length t - length PEM_FOOTER - length PEM_HEADER) (drop (length PEM_HEADER) t))
      | _ \<Rightarrow> Exc (attr_error pem ''startswith''))"

text \<open>\<open>buf[idx]\<close>; an \<open>IndexError\<close> is a \<open>LookupError\<close>. \<open>n & 0x80\<close> and \<open>n & 0x7F\<close> of a byte.\<close>

definition byte_at :: "string \<Rightarrow> nat \<Rightarrow> nat res" where
  "byte_at buf idx = (if idx < length buf then Ok (byte (buf ! idx)) else Exc (LookupError ''index out of range''))"

definition bytes_value :: "string \<Rightarrow> nat" where
  "bytes_value bs = foldl (\<lambda>n c. 256 * n + byte c) 0 bs"

definition read_len :: "string \<Rightarrow> nat \<Rightarrow> (nat \<times> nat) res" where
  "read_len buf idx =
     bindR (byte_at buf idx) (\<lambda>n.
     if n \<ge> 128 then
       let n_bytes = n mod 128 in Ok (bytes_value (take n_bytes (drop (idx + 1) buf)), idx + 1 + n_bytes)
     else Ok (n, idx + 1))"

definition consume_tlv :: "string \<Rightarrow> nat \<Rightarrow> (nat \<times> string \<times> nat) res" where
  "consume_tlv buf idx =
     bindR (byte_at buf idx) (\<lambda>tag.
     bindR (read_len buf (idx + 1)) (\<lambda>(len, idx).
     Ok (tag, take len (drop idx buf), idx + len)))"

definition serial_from_der :: "string \<Rightarrow> string res" where
  "serial_from_der der =
     bindR (consume_tlv der 0) (\<lambda>(_, cert_body, _).
     bindR (consume_tlv cert_body 0) (\<lambda>(_, tbs_body, _).
     bindR (byte_at tbs_body 0) (\<lambda>tag.
     bindR (if tag = 0xA0 then bindR (consume_tlv tbs_body 0) (\<lambda>(_, _, idx). Ok idx) else Ok 0) (\<lambda>idx.
     bindR (consume_tlv tbs_body idx) (\<lambda>(_, serial, _).
     let serial = (case serial of z # s \<Rightarrow> if byte z = 0 \<and> s \<noteq> [] then s else serial | [] \<Rightarrow> serial) in
     Ok (concat (map (\<lambda>c. hex2 (byte c)) serial)))))))"

definition serial_from_pem :: "pyval \<Rightarrow> string res" where
  "serial_from_pem pem =
     (case pem_to_der pem of
        Exc exc \<Rightarrow> Exc (ValueError (''could not parse PEM certificate: '' @ exn_str exc))
      | Ok der \<Rightarrow> serial_from_der der)"

definition hex_char :: "char \<Rightarrow> bool" where
  "hex_char c =
     (let n = of_char c :: nat in 48 \<le> n \<and> n \<le> 57 \<or> 97 \<le> n \<and> n \<le> 102 \<or> 65 \<le> n \<and> n \<le> 70)"

definition normalize_serial :: "pyval \<Rightarrow> pyval" where
  "normalize_serial raw =
     (if raw = PNone then PNone
      else
        let s = dropWhile (\<lambda>c. c = CHR ''0'') (lower (filter hex_char (py_str raw))) in
        PStr (if s = [] then ''0'' else s))"

subsection \<open>The serial number\<close>

text \<open>The hexadecimal digits of a serial number as a number.\<close>

definition hex_digit :: "char \<Rightarrow> nat" where
  "hex_digit c = (let n = of_char c :: nat in if n \<le> 57 then n - 48 else if n \<le> 70 then n - 55 else n - 87)"

definition hex_value :: "string \<Rightarrow> nat" where
  "hex_value s = foldl (\<lambda>n c. 16 * n + hex_digit c) 0 s"

lemma hex_value_simps [simp]: "hex_value [] = 0" "hex_value [c] = hex_digit c" "hex_value (s @ [c]) = 16 * hex_value s + hex_digit c"
  by (simp_all add: hex_value_def)

lemma bytes_value_simps [simp]: "bytes_value [] = 0" "bytes_value (s @ [c]) = 256 * bytes_value s + byte c"
  by (simp_all add: bytes_value_def)

lemma hex_value_zero: "hex_value (CHR ''0'' # s) = hex_value s"
  by (simp add: hex_value_def hex_digit_def)

lemma hex_value_dropZeros: "hex_value (dropWhile (\<lambda>c. c = CHR ''0'') s) = hex_value s"
  by (induction s) (auto simp: hex_value_zero)

definition low_hex :: "char \<Rightarrow> bool" where
  "low_hex c = (let n = of_char c :: nat in 48 \<le> n \<and> n \<le> 57 \<or> 97 \<le> n \<and> n \<le> 102)"

lemma of_char_lower: "hex_char c \<Longrightarrow> low_hex (lower_char c) \<and> hex_digit (lower_char c) = hex_digit c"
  by (auto simp: hex_char_def low_hex_def lower_char_def hex_digit_def Let_def)

lemma low_hex_inj: "low_hex c \<Longrightarrow> low_hex d \<Longrightarrow> hex_digit c = hex_digit d \<Longrightarrow> c = d"
proof -
  assume "low_hex c" "low_hex d" "hex_digit c = hex_digit d"
  then have "(of_char c :: nat) = of_char d"
    by (auto simp: low_hex_def hex_digit_def Let_def split: if_splits simp del: of_char_eq_iff)
  then show "c = d" by simp
qed

lemma hex_digit_less: "low_hex c \<Longrightarrow> hex_digit c < 16"
  by (auto simp: low_hex_def hex_digit_def Let_def)

lemma hex_digit_zero: "low_hex c \<Longrightarrow> hex_digit c = 0 \<Longrightarrow> c = CHR ''0''"
  by (rule low_hex_inj) (auto simp: hex_digit_def low_hex_def)

text \<open>Without leading zeros a number has one numeral.\<close>

lemma hex_value_positive: "list_all low_hex s \<Longrightarrow> s \<noteq> [] \<Longrightarrow> hd s \<noteq> CHR ''0'' \<Longrightarrow> 0 < hex_value s"
proof (induction s rule: rev_induct)
  case (snoc c s)
  then have "0 < hex_digit c" if "s = []" using that hex_digit_zero [of c] by auto
  with snoc show ?case by (cases s) (simp_all del: append_Cons add: append_Cons [symmetric])
qed simp

lemma hex_value_inj:
  "list_all low_hex s \<Longrightarrow> list_all low_hex t \<Longrightarrow> (s \<noteq> [] \<longrightarrow> hd s \<noteq> CHR ''0'') \<Longrightarrow> (t \<noteq> [] \<longrightarrow> hd t \<noteq> CHR ''0'') \<Longrightarrow>
     hex_value s = hex_value t \<Longrightarrow> s = t"
proof (induction s arbitrary: t rule: rev_induct)
  case Nil
  then show ?case using hex_value_positive [of t] by auto
next
  case (snoc c s)
  have "0 < hex_value (s @ [c])" using snoc.prems(1,3) by (intro hex_value_positive) simp_all
  then have "t \<noteq> []" using snoc.prems(5) by auto
  then obtain u d where t: "t = u @ [d]" by (meson rev_exhaust)
  have cd: "hex_digit c < 16" "hex_digit d < 16" using snoc.prems t by (auto intro: hex_digit_less)
  have eq: "16 * hex_value s + hex_digit c = 16 * hex_value u + hex_digit d" using snoc.prems(5) t by simp
  have "hex_digit c = hex_digit d" using arg_cong [OF eq, of "\<lambda>n. n mod 16"] cd by (metis mod_less mod_mult_self4)
  with eq have digits: "hex_digit c = hex_digit d" "hex_value s = hex_value u" by simp_all
  moreover have "s \<noteq> [] \<longrightarrow> hd s \<noteq> CHR ''0''" "u \<noteq> [] \<longrightarrow> hd u \<noteq> CHR ''0''"
    using snoc.prems(3,4) t by (auto simp: hd_append split: if_splits)
  ultimately have "s = u" using snoc.IH [of u] snoc.prems t by simp
  moreover have "c = d" using snoc.prems t digits(1) by (auto intro: low_hex_inj)
  ultimately show ?case using t by simp
qed

lemma lower_hex:
  assumes "list_all hex_char s" shows "list_all low_hex (lower s) \<and> hex_value (lower s) = hex_value s"
  using assms by (induction s rule: rev_induct) (auto simp: lower_def of_char_lower)

definition hex_number :: "string \<Rightarrow> nat" where
  "hex_number s = hex_value (filter hex_char s)"

lemma normalize_serial_eq:
  "normalize_serial (PStr s) = normalize_serial (PStr t) \<longleftrightarrow> hex_number s = hex_number t"
proof -
  define strip0 where "strip0 = dropWhile (\<lambda>c. c = CHR ''0'')"
  define n where "n = (\<lambda>s. strip0 (lower (filter hex_char s)))"
  have hex: "list_all low_hex (lower (filter hex_char s))" "hex_value (lower (filter hex_char s)) = hex_number s" for s
    using lower_hex [of "filter hex_char s"] by (simp_all add: hex_number_def list_all_iff)
  have val: "hex_value (n s) = hex_number s" for s
    by (simp add: n_def strip0_def hex_value_dropZeros hex)
  have low: "list_all low_hex (n s)" for s
    using hex(1) [of s] by (auto simp: n_def strip0_def list_all_iff dest: set_dropWhileD)
  have hd: "n s \<noteq> [] \<longrightarrow> hd (n s) \<noteq> CHR ''0''" for s
    using hd_dropWhile [of "\<lambda>c. c = CHR ''0''" "lower (filter hex_char s)"] by (simp add: n_def strip0_def)
  have norm: "normalize_serial (PStr s) = PStr (if n s = [] then ''0'' else n s)" for s
    by (simp add: normalize_serial_def n_def strip0_def)
  have zero: "n s \<noteq> ''0''" for s using hd [of s] by auto
  have "normalize_serial (PStr s) = normalize_serial (PStr t) \<longleftrightarrow> n s = n t"
    using zero [of s] zero [of t] by (auto simp: norm)
  also have "\<dots> \<longleftrightarrow> hex_number s = hex_number t"
    using hex_value_inj [OF low low hd hd] val by metis
  finally show ?thesis .
qed

subsection \<open>Certificates\<close>

text \<open>A definite length in BER, and a value with its tag.\<close>

definition der_length :: "string \<Rightarrow> nat \<Rightarrow> bool" where
  "der_length hs n \<longleftrightarrow>
     n < 128 \<and> hs = [char_of n] \<or> (\<exists>bs. length bs < 128 \<and> hs = char_of (128 + length bs) # bs \<and> bytes_value bs = n)"

definition der_tlv :: "nat \<Rightarrow> string \<Rightarrow> string \<Rightarrow> bool" where
  "der_tlv tag body x \<longleftrightarrow> tag < 256 \<and> (\<exists>hs. der_length hs (length body) \<and> x = char_of tag # hs @ body)"

text \<open>The outer shape of an X.509 certificate with a serial number.\<close>

definition certificate_with :: "string \<Rightarrow> string \<Rightarrow> bool" where
  "certificate_with serial der \<longleftrightarrow>
     (\<exists>tbs_body tbs sign s more. der_tlv 0x30 (tbs @ sign) der \<and> der_tlv 0x30 tbs_body tbs \<and> der_tlv 2 serial s \<and>
        (tbs_body = s @ more \<or> (\<exists>version v. der_tlv 0xA0 version v \<and> tbs_body = v @ s @ more)))"

lemma read_len_der:
  assumes "der_length hs n"
  shows "read_len (a @ hs @ r) (length a) = Ok (n, length a + length hs)"
proof -
  from assms consider "n < 128" "hs = [char_of n]"
    | bs where "length bs < 128" "hs = char_of (128 + length bs) # bs" "bytes_value bs = n"
    unfolding der_length_def by blast
  then show ?thesis
    by cases (simp_all add: read_len_def byte_at_def nth_append Let_def mod_if)
qed

lemma consume_der:
  assumes "der_tlv tag body x"
  shows "consume_tlv (a @ x @ r) (length a) = Ok (tag, body, length a + length x)"
proof -
  from assms obtain hs where hs: "der_length hs (length body)" "x = char_of tag # hs @ body" "tag < 256"
    unfolding der_tlv_def by blast
  have "read_len ((a @ [char_of tag]) @ hs @ body @ r) (length (a @ [char_of tag])) = Ok (length body, length a + 1 + length hs)"
    using read_len_der [OF hs(1), of "a @ [char_of tag]" "body @ r"] by simp
  moreover have "a @ x @ r = (a @ [char_of tag]) @ hs @ body @ r" using hs(2) by simp
  moreover have "byte_at (a @ x @ r) (length a) = Ok tag" using hs by (simp add: byte_at_def nth_append)
  ultimately show ?thesis using hs(2) by (simp add: consume_tlv_def)
qed

lemma tlv_tag:
  assumes "der_tlv tag body x" shows "byte_at (x @ r) 0 = Ok tag"
  using assms by (auto simp: der_tlv_def byte_at_def)

lemma hex_nibble:
  assumes "k < 16"
  shows "hex_char (''0123456789abcdef'' ! k) \<and> hex_digit (''0123456789abcdef'' ! k) = k"
proof -
  let ?s = "''0123456789abcdef''"
  have "map hex_digit ?s = [0..<16]" "list_all hex_char ?s"
    by (simp_all add: hex_digit_def hex_char_def upt_rec)
  then show ?thesis using assms nth_map [of k ?s hex_digit] by (simp add: list_all_length)
qed

lemma hex_of_byte: "filter hex_char (hex2 (byte c)) = hex2 (byte c)" "hex_value (s @ hex2 (byte c)) = 256 * hex_value s + byte c"
proof -
  have k: "byte c div 16 < 16" "byte c mod 16 < 16" using byte_bound [of c] by (simp_all add: less_mult_imp_div_less)
  show "filter hex_char (hex2 (byte c)) = hex2 (byte c)"
    using hex_nibble [OF k(1)] hex_nibble [OF k(2)] by (simp add: hex2_def)
  have "hex_value (s @ hex2 (byte c)) = 16 * (16 * hex_value s + byte c div 16) + byte c mod 16"
    using hex_nibble [OF k(1)] hex_nibble [OF k(2)] by (simp add: hex_value_def hex2_def)
  then show "hex_value (s @ hex2 (byte c)) = 256 * hex_value s + byte c" by simp
qed

lemma hex_of_bytes:
  "hex_number (concat (map (\<lambda>c. hex2 (byte c)) s)) = bytes_value s"
proof (induction s rule: rev_induct)
  case (snoc c s)
  have "filter hex_char (concat (map (\<lambda>c. hex2 (byte c)) t)) = concat (map (\<lambda>c. hex2 (byte c)) t)" for t
    by (induction t) (simp_all add: hex_of_byte(1))
  with snoc show ?case by (simp add: hex_number_def hex_of_byte)
qed (simp add: hex_number_def)

lemma serial_from_der_number:
  assumes "certificate_with serial der"
  shows "\<exists>h. serial_from_der der = Ok h \<and> hex_number h = bytes_value serial"
proof -
  from assms obtain tbs_body tbs sign s more where
    der: "der_tlv 0x30 (tbs @ sign) der" and tbs: "der_tlv 0x30 tbs_body tbs" and s: "der_tlv 2 serial s"
    and body: "tbs_body = s @ more \<or> (\<exists>version v. der_tlv 0xA0 version v \<and> tbs_body = v @ s @ more)"
    unfolding certificate_with_def by blast
  have outer: "consume_tlv der 0 = Ok (0x30, tbs @ sign, length der)" using consume_der [OF der, of "[]" "[]"] by simp
  have inner: "consume_tlv (tbs @ sign) 0 = Ok (0x30, tbs_body, length tbs)" using consume_der [OF tbs, of "[]" sign] by simp
  let ?strip = "case serial of z # s \<Rightarrow> if byte z = 0 \<and> s \<noteq> [] then s else serial | [] \<Rightarrow> serial"
  have "serial_from_der der = Ok (concat (map (\<lambda>c. hex2 (byte c)) ?strip))"
    using body
  proof (elim disjE exE conjE)
    assume "tbs_body = s @ more"
    then show ?thesis
      using consume_der [OF s, of "[]" more] tlv_tag [OF s, of more] outer inner by (simp add: serial_from_der_def)
  next
    fix version v assume v: "der_tlv 0xA0 version v" "tbs_body = v @ s @ more"
    then show ?thesis
      using consume_der [OF v(1), of "[]" "s @ more"] consume_der [OF s, of v more] tlv_tag [OF v(1), of "s @ more"] outer inner
      by (simp add: serial_from_der_def)
  qed
  moreover have "bytes_value ?strip = bytes_value serial"
    by (cases serial) (auto simp: bytes_value_def)
  ultimately show ?thesis by (simp add: hex_of_bytes)
qed

text \<open>PEM text: base64 in lines between the two markers, with blanks at the end.\<close>

definition pem_text :: "string \<Rightarrow> string \<Rightarrow> bool" where
  "pem_text der pem \<longleftrightarrow>
     (\<exists>t b. pem = PEM_HEADER @ t @ PEM_FOOTER @ b \<and> filter (\<lambda>c. c \<noteq> CHR 0x0A) t = b64_encode der \<and> list_all is_blank b)"

lemma strip_framed:
  assumes "\<not> is_blank c" "\<not> is_blank d" "list_all is_blank b"
  shows "strip (c # s @ [d] @ b) = c # s @ [d]"
proof -
  have "dropWhile is_blank (rev b @ d # rev (c # s)) = d # rev (c # s)"
    using assms(2,3) by (subst dropWhile_append2) (auto simp: list_all_iff)
  with assms(1) show ?thesis by (simp add: strip_def)
qed

lemma pem_to_der_text:
  assumes "pem_text der pem" shows "pem_to_der (PStr pem) = Ok der"
proof -
  from assms obtain t b where pem: "pem = PEM_HEADER @ t @ PEM_FOOTER @ b"
    and t: "filter (\<lambda>c. c \<noteq> CHR 0x0A) t = b64_encode der" and b: "list_all is_blank b"
    unfolding pem_text_def by blast
  have "strip (CHR ''-'' # (tl PEM_HEADER @ t @ butlast PEM_FOOTER) @ [CHR ''-''] @ b)
      = CHR ''-'' # (tl PEM_HEADER @ t @ butlast PEM_FOOTER) @ [CHR ''-'']"
    by (rule strip_framed [OF _ _ b]) (simp_all add: is_blank_def)
  then have "strip pem = PEM_HEADER @ t @ PEM_FOOTER"
    unfolding pem by (simp add: PEM_HEADER_def PEM_FOOTER_def)
  moreover have "starts_with pem PEM_HEADER" unfolding pem starts_with_iff by blast
  moreover have "ends_with (PEM_HEADER @ t @ PEM_FOOTER) PEM_FOOTER"
    by (auto simp: ends_with_def starts_with_iff)
  moreover have "b64_decode t = Ok der"
    using b64_decode_lines [of t] b64_decode_encode [of der] t by simp
  ultimately show ?thesis by (simp add: pem_to_der_def Let_def)
qed

theorem serial_from_pem_number:
  assumes "certificate_with serial der" "pem_text der pem"
  shows "\<exists>h. serial_from_pem (PStr pem) = Ok h \<and> hex_number h = bytes_value serial"
  using serial_from_der_number [OF assms(1)] pem_to_der_text [OF assms(2)] by (simp add: serial_from_pem_def)

end
