(* ===== verification/Vrli_Settings.thy ===== *)
theory Vrli_Settings
  imports Vrli_Master Certificates
begin

section \<open>Vrli_Settings: directory, certificate and settings of VCF Operations for Logs\<close>

text \<open>
  \<open>clients/vrli_ad.py\<close>, \<open>vrli_certificate.py\<close>, \<open>vrli_settings.py\<close> and the states of these names: the Active Directory
  of the appliance, its certificate (compared by serial number, which the state digs out of the PEM text), and
  the two settings that are only reachable over ssh. \<open>ssh cfg command timeout\<close> is \<open>ssh_util.run\<close>.
\<close>

subsection \<open>\<open>clients/vrli_ad.py\<close>\<close>

definition vrli_AD :: string where "vrli_AD = ''/api/v2/ad''"

definition VALID_CONN_TYPES :: "string list" where "VALID_CONN_TYPES = [''STANDARD'', ''GLOBAL_CAT'', ''CUSTOM'']"

definition vrli_ad_get :: "pyval \<Rightarrow> profile \<Rightarrow> pyval io" where
  "vrli_ad_get opts profile = vrli_api_get opts vrli_AD PNone profile PNone"

definition vrli_ad_set :: "pyval \<Rightarrow> pyval \<Rightarrow> profile \<Rightarrow> pyval io" where
  "vrli_ad_set opts spec profile =
     bindM (liftR (py_get spec ''connType'' PNone)) (\<lambda>conn_type.
     bindM (liftR (py_get spec ''enableAD'' PNone)) (\<lambda>enable.
     if truthy enable \<and> \<not> in_strs conn_type VALID_CONN_TYPES then
       raiseM (ValueError (''connType must be one of ('' @ join_with '', '' (map repr_str VALID_CONN_TYPES) @ ''), got ''
         @ py_repr conn_type))
     else vrli_api_post opts vrli_AD spec PNone profile PNone))"

definition vrli_ad_disable :: "pyval \<Rightarrow> profile \<Rightarrow> pyval io" where
  "vrli_ad_disable opts profile = vrli_api_post opts vrli_AD (PDict [(''enableAD'', PBool False)]) PNone profile PNone"

subsection \<open>\<open>states/vcf_vrli_ad.py\<close>\<close>

definition AD_MATCH_FIELDS :: "string list" where
  "AD_MATCH_FIELDS = [''enableAD'', ''domain'', ''username'', ''connType'']"

definition ad_spec :: "pyval \<Rightarrow> pyval \<Rightarrow> pyval \<Rightarrow> pyval \<Rightarrow> pyval \<Rightarrow> pyval \<Rightarrow> dict res" where
  "ad_spec domain username password conn_type ldap_servers enable_ad =
     (let spec = [(''enableAD'', PBool (truthy enable_ad)), (''domain'', domain), (''username'', username),
            (''password'', password), (''connType'', conn_type)] in
      if truthy ldap_servers \<and> conn_type = PStr ''CUSTOM'' then
        bindR (py_iter ldap_servers) (\<lambda>servers. Ok (spec @ [(''ldapServers'', PList servers)]))
      else Ok spec)"

text \<open>The fields of the current configuration the state looks at, with the wanted value beside each.\<close>

definition ad_fields :: "pyval \<Rightarrow> dict \<Rightarrow> (string \<times> pyval \<times> pyval) list res" where
  "ad_fields current spec =
     mapR (\<lambda>k. bindR (py_get current k PNone) (\<lambda>old. Ok (k, old, dget spec k PNone))) AD_MATCH_FIELDS"

definition ad_changes :: "(string \<times> pyval \<times> pyval) list \<Rightarrow> dict" where
  "ad_changes fs =
     (let changes = map (\<lambda>(k, old, new). (k, PDict [(''old'', old), (''new'', new)]))
            (filter (\<lambda>(k, old, new). \<not> py_eq old new) fs) in
      if changes = [] then [(''password'', PStr ''rotated'')] else changes)"

definition vcf_vrli_ad_ad_configured ::
  "pyval \<Rightarrow> string \<Rightarrow> pyval \<Rightarrow> pyval \<Rightarrow> pyval \<Rightarrow> pyval \<Rightarrow> pyval \<Rightarrow> pyval \<Rightarrow> pyval \<Rightarrow> profile \<Rightarrow> salt_ret io" where
  "vcf_vrli_ad_ad_configured opts name domain username password conn_type ldap_servers enable_ad force profile =
     bindM (liftR (ad_spec domain username password conn_type ldap_servers enable_ad)) (\<lambda>spec.
     bindM (vrli_ad_get opts profile) (\<lambda>v.
     bindM (liftR (ad_fields (py_or v empty_dict) spec)) (\<lambda>fs.
     if list_all (\<lambda>(k, old, new). py_eq old new) fs \<and> \<not> truthy force then
       pureM (unchanged name (''AD already configured for domain '' @ py_repr domain @ '' on '' @ py_str conn_type))
     else
       unless_dry opts
         (would name (''AD would be reconfigured for domain '' @ py_repr domain @ '' on '' @ py_str conn_type))
         (bindM (vrli_ad_set opts (PDict spec) profile) (\<lambda>_.
          pureM (changed name (ad_changes fs)
            (''AD configured for domain '' @ py_repr domain @ '' ('' @ py_str conn_type @ '')'')))))))"

definition vcf_vrli_ad_ad_disabled :: "pyval \<Rightarrow> string \<Rightarrow> profile \<Rightarrow> salt_ret io" where
  "vcf_vrli_ad_ad_disabled opts name profile =
     bindM (vrli_ad_get opts profile) (\<lambda>v.
     bindM (liftR (py_get (py_or v empty_dict) ''enableAD'' PNone)) (\<lambda>enabled.
     if \<not> truthy enabled then pureM (unchanged name ''AD already disabled'')
     else
       unless_dry opts (would name ''AD would be disabled'')
         (bindM (vrli_ad_disable opts profile) (\<lambda>_.
          pureM (changed name [(''enableAD'', PDict [(''old'', PBool True), (''new'', PBool False)])] ''AD disabled'')))))"

subsection \<open>\<open>clients/vrli_certificate.py\<close>\<close>

definition vrli_CERT :: string where "vrli_CERT = ''/api/v2/certificate''"

definition vrli_certificate_list :: "pyval \<Rightarrow> profile \<Rightarrow> pyval io" where
  "vrli_certificate_list opts profile =
     bindM (vrli_api_get opts vrli_CERT PNone profile PNone) (\<lambda>resp.
     if is_list resp then pureM resp
     else bindM (liftR (py_get resp ''certificates'' (PList []))) (\<lambda>cs. pureM (py_or cs (PList []))))"

definition vrli_certificate_get :: "pyval \<Rightarrow> profile \<Rightarrow> pyval io" where
  "vrli_certificate_get opts profile =
     bindM (vrli_certificate_list opts profile) (\<lambda>entries.
     if truthy entries then liftR (py_first entries) else pureM PNone)"

definition py_strip :: "pyval \<Rightarrow> string res" where
  "py_strip v = (case v of PStr s \<Rightarrow> Ok (strip s) | _ \<Rightarrow> Exc (attr_error v ''strip''))"

text \<open>The text that is posted: certificate, chain, key, each on lines of its own.\<close>

definition combined_pem :: "pyval \<Rightarrow> pyval \<Rightarrow> pyval \<Rightarrow> string res" where
  "combined_pem cert_pem key_pem chain_pem =
     bindR (py_strip cert_pem) (\<lambda>cert.
     bindR (if truthy chain_pem then bindR (py_strip chain_pem) (\<lambda>c. Ok (c @ [CHR 0x0A])) else Ok []) (\<lambda>chain.
     bindR (py_strip key_pem) (\<lambda>key.
     Ok (cert @ [CHR 0x0A] @ chain @ key @ [CHR 0x0A]))))"

definition vrli_certificate_install :: "pyval \<Rightarrow> pyval \<Rightarrow> pyval \<Rightarrow> pyval \<Rightarrow> profile \<Rightarrow> pyval io" where
  "vrli_certificate_install opts cert_pem key_pem chain_pem profile =
     bindM (liftR (combined_pem cert_pem key_pem chain_pem)) (\<lambda>combined.
     vrli_api_post opts vrli_CERT (PDict [(''certificate'', PStr combined)]) PNone profile PNone)"

definition vrli_certificate_serial_number :: "pyval \<Rightarrow> profile \<Rightarrow> pyval io" where
  "vrli_certificate_serial_number opts profile =
     bindM (vrli_certificate_get opts profile) (\<lambda>cert.
     if truthy cert then liftR (py_get cert ''serialNum'' PNone) else pureM PNone)"

subsection \<open>\<open>states/vcf_vrli_certificate.py\<close>\<close>

definition replace_certificate ::
  "pyval \<Rightarrow> string \<Rightarrow> pyval \<Rightarrow> pyval \<Rightarrow> pyval \<Rightarrow> profile \<Rightarrow> pyval \<Rightarrow> pyval \<Rightarrow> salt_ret io" where
  "replace_certificate opts name cert key chain profile current_serial desired =
     unless_dry opts
       (would name (''Appliance certificate would be replaced ('' @ py_repr current_serial @ '' -> '' @ py_repr desired
          @ ''); API listener will restart''))
       (bindM (vrli_certificate_install opts cert key chain profile) (\<lambda>_.
        pureM (changed name [(''serialNum'', PDict [(''old'', current_serial), (''new'', desired)])]
          (''Installed new appliance certificate (serial '' @ py_str desired @ ''); API listener restarted''))))"

definition vcf_vrli_certificate_certificate_present ::
  "pyval \<Rightarrow> string \<Rightarrow> pyval \<Rightarrow> pyval \<Rightarrow> pyval \<Rightarrow> profile \<Rightarrow> salt_ret io" where
  "vcf_vrli_certificate_certificate_present opts name cert key chain profile =
     bindM (liftR (serial_from_pem cert)) (\<lambda>serial.
     let desired = normalize_serial (PStr serial) in
     bindM (vrli_certificate_get opts profile) (\<lambda>current.
     bindM (if truthy current then
              bindM (liftR (py_get current ''serialNum'' PNone)) (\<lambda>s. pureM (normalize_serial s))
            else pureM PNone) (\<lambda>current_serial.
     if py_eq current_serial desired then
       pureM (unchanged name (''Appliance certificate already at serial '' @ py_str desired @ ''; no change''))
     else replace_certificate opts name cert key chain profile current_serial desired)))"

subsection \<open>\<open>clients/vrli_settings.py\<close>\<close>

type_synonym vrli_ssh_run = "dict \<Rightarrow> string \<Rightarrow> int \<Rightarrow> (int \<times> string \<times> string) io"

definition SSH_DEFAULT_TIMEOUT :: int where "SSH_DEFAULT_TIMEOUT = 30"

definition vrli_WEB_XML :: string where "vrli_WEB_XML = ''/usr/lib/loginsight/application/etc/3rd_config/web.xml''"
definition vrli_NETWORKD_ETH0 :: string where "vrli_NETWORKD_ETH0 = ''/etc/systemd/network/10-eth0.network''"
definition vrli_CLUSTER_NODES :: string where "vrli_CLUSTER_NODES = ''/api/v2/cluster/nodes''"

definition vrli_settings_get_cluster_nodes :: "pyval \<Rightarrow> profile \<Rightarrow> pyval io" where
  "vrli_settings_get_cluster_nodes opts profile =
     bindM (vrli_api_get opts vrli_CLUSTER_NODES PNone profile PNone) (\<lambda>v.
     bindM (liftR (py_get v ''nodes'' (PList []))) (\<lambda>nodes. pureM (py_or nodes (PList []))))"

text \<open>\<open>s.split()\<close>, and \<open>re.match(r"^\d{1,3}(?:\.\d{1,3}){3}$", s)\<close>, whose \<open>$\<close> also matches before a final newline.\<close>

function split_blanks :: "string \<Rightarrow> string list" where
  "split_blanks s =
     (let t = dropWhile is_blank s in
      if t = [] then [] else takeWhile (\<lambda>c. \<not> is_blank c) t # split_blanks (dropWhile (\<lambda>c. \<not> is_blank c) t))"
  by pat_completeness auto

lemma dropWhile_shrinks: "dropWhile is_blank s \<noteq> [] \<Longrightarrow>
  length (dropWhile (\<lambda>c. \<not> is_blank c) (dropWhile is_blank s)) < length s"
proof -
  assume "dropWhile is_blank s \<noteq> []"
  then obtain c t where t: "dropWhile is_blank s = c # t" "\<not> is_blank c"
    by (metis hd_dropWhile list.collapse)
  then have "length (dropWhile (\<lambda>c. \<not> is_blank c) (dropWhile is_blank s)) \<le> length t"
    by (simp add: length_dropWhile_le)
  also have "length t < length s" using length_dropWhile_le [of is_blank s] t by simp
  finally show ?thesis .
qed

termination split_blanks
  by (relation "measure length") (auto intro: dropWhile_shrinks)

declare split_blanks.simps [simp del]

definition is_digit :: "char \<Rightarrow> bool" where
  "is_digit c = (let n = of_char c :: nat in 48 \<le> n \<and> n \<le> 57)"

definition ipv4_text :: "string \<Rightarrow> bool" where
  "ipv4_text s \<longleftrightarrow>
     (let parts = split_max (CHR ''.'') (length s) s in
      length parts = 4 \<and> list_all (\<lambda>p. 1 \<le> length p \<and> length p \<le> 3 \<and> list_all is_digit p) parts)"

definition ipv4_match :: "string \<Rightarrow> bool" where
  "ipv4_match s \<longleftrightarrow> ipv4_text (if s \<noteq> [] \<and> List.last s = CHR 0x0A then butlast s else s)"

definition vrli_split_ipv4 :: "pyval \<Rightarrow> pyval res" where
  "vrli_split_ipv4 dns_field =
     (if \<not> truthy dns_field then Ok (PList [])
      else
        (case dns_field of
           PStr s \<Rightarrow> Ok (PList (map PStr (filter ipv4_match (split_blanks s))))
         | v \<Rightarrow> Exc (attr_error v ''split'')))"

text \<open>The first primary node among those of a listing.\<close>

fun primary_node :: "pyval list \<Rightarrow> pyval res" where
  "primary_node [] = Ok PNone"
| "primary_node (n # ns) = bindR (py_get n ''isPrimary'' PNone) (\<lambda>p. if truthy p then Ok n else primary_node ns)"

definition vrli_settings_get_dns_servers :: "pyval \<Rightarrow> profile \<Rightarrow> pyval io" where
  "vrli_settings_get_dns_servers opts profile =
     bindM (vrli_settings_get_cluster_nodes opts profile) (\<lambda>nodes.
     bindM (liftR (bindR (py_iter nodes) primary_node)) (\<lambda>node.
     if node \<noteq> PNone then liftR (bindR (py_get node ''dnsServers'' (PStr [])) vrli_split_ipv4)
     else
       bindM (vrli_settings_get_cluster_nodes opts profile) (\<lambda>nodes.
       if truthy nodes then
         liftR (bindR (py_first nodes) (\<lambda>n. bindR (py_get n ''dnsServers'' (PStr [])) vrli_split_ipv4))
       else pureM (PList []))))"

text \<open>The session timeout in \<open>web.xml\<close>, in minutes.\<close>

definition timeout_query :: string where
  "timeout_query =
     ''grep -oP '' @ [CHR 0x27] @ ''(?<=<session-timeout>)'' @ [CHR 0x5C] @ ''d+(?=</session-timeout>)'' @ [CHR 0x27]
       @ '' '' @ vrli_WEB_XML"

definition timeout_edit :: "int \<Rightarrow> string" where
  "timeout_edit minutes =
     ''sed -i -E '' @ [CHR 0x27] @ ''s|<session-timeout>[0-9]+</session-timeout>|''
       @ ''<session-timeout>'' @ int_str minutes @ ''</session-timeout>|'' @ [CHR 0x27] @ '' '' @ vrli_WEB_XML"

definition vrli_settings_get_session_timeout :: "vrli_ssh_run \<Rightarrow> pyval \<Rightarrow> profile \<Rightarrow> int io" where
  "vrli_settings_get_session_timeout ssh opts profile =
     bindM (liftR (vrli_get_ssh_config opts profile)) (\<lambda>cfg.
     bindM (ssh cfg timeout_query SSH_DEFAULT_TIMEOUT) (\<lambda>(rc, out, err).
     if rc \<noteq> 0 \<or> strip out = [] then
       raiseM (RuntimeError (''failed to read session-timeout from '' @ vrli_WEB_XML @ '': rc='' @ int_str rc @ '' err=''
         @ repr_str (strip err)))
     else
       bindM (liftR (py_int (PStr (hd (splitlines (strip out)))))) (\<lambda>minutes. pureM (minutes * 60))))"

definition vrli_settings_set_session_timeout :: "vrli_ssh_run \<Rightarrow> pyval \<Rightarrow> pyval \<Rightarrow> profile \<Rightarrow> dict io" where
  "vrli_settings_set_session_timeout ssh opts seconds profile =
     bindM (liftR (py_int seconds)) (\<lambda>s.
     let minutes = max 1 (s div 60) in
     bindM (liftR (vrli_get_ssh_config opts profile)) (\<lambda>cfg.
     bindM (ssh cfg (timeout_edit minutes) SSH_DEFAULT_TIMEOUT) (\<lambda>(rc, out, err).
     if rc \<noteq> 0 then
       raiseM (RuntimeError (''failed to rewrite session-timeout in '' @ vrli_WEB_XML @ '': rc='' @ int_str rc @ '' err=''
         @ repr_str (strip err)))
     else
       bindM (ssh cfg timeout_query SSH_DEFAULT_TIMEOUT) (\<lambda>(rc, out, err).
       if rc \<noteq> 0 \<or> take 1 (splitlines (strip out)) \<noteq> [int_str minutes] then
         raiseM (RuntimeError (''session-timeout write verification failed: rc='' @ int_str rc @ '' out='' @ repr_str out
           @ '' err='' @ repr_str (strip err)))
       else
         bindM (ssh cfg ''systemctl restart loginsight &'' 15) (\<lambda>_.
         pureM [(''session_timeout_seconds'', PInt (minutes * 60)), (''restart_requested'', PBool True)])))))"

text \<open>The name servers of the interface, one \<open>DNS=\<close> line each.\<close>

definition dns_query :: string where
  "dns_query = ''grep -E '' @ [CHR 0x27] @ ''^DNS='' @ [CHR 0x27] @ '' '' @ vrli_NETWORKD_ETH0 @ '' || true''"

fun networkd_servers :: "string list \<Rightarrow> string list res" where
  "networkd_servers [] = Ok []"
| "networkd_servers (l # ls) =
     (case split_max (CHR ''='') 1 l of
        [_, v] \<Rightarrow>
          bindR (networkd_servers ls) (\<lambda>vs. Ok (if ipv4_match (strip v) then strip v # vs else vs))
      | _ \<Rightarrow> Exc (LookupError ''list index out of range''))"

definition vrli_settings_read_networkd_dns :: "vrli_ssh_run \<Rightarrow> dict \<Rightarrow> string list io" where
  "vrli_settings_read_networkd_dns ssh cfg =
     bindM (ssh cfg dns_query SSH_DEFAULT_TIMEOUT) (\<lambda>(rc, out, err). liftR (networkd_servers (splitlines out)))"

definition vrli_settings_get_dns_servers_from_appliance :: "vrli_ssh_run \<Rightarrow> pyval \<Rightarrow> profile \<Rightarrow> string list io" where
  "vrli_settings_get_dns_servers_from_appliance ssh opts profile =
     bindM (liftR (vrli_get_ssh_config opts profile)) (vrli_settings_read_networkd_dns ssh)"

definition ipv4_checked :: "pyval \<Rightarrow> string res" where
  "ipv4_checked addr =
     (case addr of
        PStr s \<Rightarrow> if ipv4_match s then Ok s else Exc (ValueError (''not an IPv4 address: '' @ repr_str s))
      | v \<Rightarrow> Exc (TypeError (''expected string or bytes-like object, got '' @ repr_str (type_name v))))"

definition dns_line :: "string \<Rightarrow> string" where
  "dns_line a = [CHR 0x27] @ ''DNS='' @ a @ [CHR 0x27]"

definition dns_lines :: "string list \<Rightarrow> string" where
  "dns_lines addrs = join_with '' '' (map dns_line addrs)"

definition dns_edit :: "string list \<Rightarrow> string" where
  "dns_edit addrs =
     (let octet = ''[0-9]+''; dot = [CHR 0x5C, CHR ''.''] in
      ''cp '' @ vrli_NETWORKD_ETH0 @ '' '' @ vrli_NETWORKD_ETH0 @ ''.bak && ''
      @ ''sed -i -E '' @ [CHR 0x27] @ ''/^DNS='' @ octet @ dot @ octet @ dot @ octet @ dot @ octet @ ''$/d'' @ [CHR 0x27]
      @ '' '' @ vrli_NETWORKD_ETH0 @ '' && ''
      @ ''for l in '' @ dns_lines addrs @ ''; do echo '' @ [CHR 0x22] @ ''$l'' @ [CHR 0x22] @ '' >> '' @ vrli_NETWORKD_ETH0
      @ ''; done && '' @ ''networkctl reload && systemctl restart systemd-resolved'')"

definition vrli_settings_set_dns_servers :: "vrli_ssh_run \<Rightarrow> pyval \<Rightarrow> pyval \<Rightarrow> profile \<Rightarrow> dict io" where
  "vrli_settings_set_dns_servers ssh opts servers profile =
     bindM (liftR (bindR (py_iter servers) (mapR ipv4_checked))) (\<lambda>addrs.
     bindM (liftR (vrli_get_ssh_config opts profile)) (\<lambda>cfg.
     bindM (ssh cfg (dns_edit addrs) 60) (\<lambda>(rc, out, err).
     if rc \<noteq> 0 then
       raiseM (RuntimeError (''failed to rewrite DNS in '' @ vrli_NETWORKD_ETH0 @ '': rc='' @ int_str rc @ '' out=''
         @ repr_str (strip out) @ '' err='' @ repr_str (strip err)))
     else pureM [(''dns_servers'', PList (map PStr addrs)), (''applied'', PBool True)])))"

subsection \<open>\<open>states/vcf_vrli_settings.py\<close>\<close>

definition vcf_vrli_settings_session_timeout_configured ::
  "vrli_ssh_run \<Rightarrow> pyval \<Rightarrow> string \<Rightarrow> pyval \<Rightarrow> profile \<Rightarrow> salt_ret io" where
  "vcf_vrli_settings_session_timeout_configured ssh opts name seconds profile =
     bindM (vrli_settings_get_session_timeout ssh opts profile) (\<lambda>current.
     bindM (liftR (py_int seconds)) (\<lambda>s.
     let desired = s div 60 * 60 in
     if current = desired then pureM (unchanged name (''Session timeout already '' @ int_str desired @ ''s''))
     else
       unless_dry opts
         (would name (''Session timeout would be changed from '' @ int_str current @ ''s to '' @ int_str desired @ ''s ''
            @ ''(loginsight would restart)''))
         (bindM (vrli_settings_set_session_timeout ssh opts seconds profile) (\<lambda>_.
          pureM (changed name [(''session_timeout_seconds'', PDict [(''old'', PInt current), (''new'', PInt desired)])]
            (''Session timeout set to '' @ int_str desired @ ''s; loginsight restart requested''))))))"

text \<open>\<open>set(xs) == set(ys)\<close>.\<close>

definition same_set :: "pyval list \<Rightarrow> pyval list \<Rightarrow> bool res" where
  "same_set xs ys =
     bindR (mapR hashed xs) (\<lambda>xs. bindR (mapR hashed ys) (\<lambda>ys.
     Ok (list_all (\<lambda>x. list_ex (py_eq x) ys) xs \<and> list_all (\<lambda>y. list_ex (\<lambda>x. py_eq x y) xs) ys)))"

definition vcf_vrli_settings_dns_servers_configured ::
  "vrli_ssh_run \<Rightarrow> pyval \<Rightarrow> string \<Rightarrow> pyval \<Rightarrow> profile \<Rightarrow> salt_ret io" where
  "vcf_vrli_settings_dns_servers_configured ssh opts name servers profile =
     bindM (liftR (py_iter servers)) (\<lambda>desired.
     bindM (vrli_settings_get_dns_servers_from_appliance ssh opts profile) (\<lambda>current.
     let current = map PStr current in
     bindM (liftR (same_set current desired)) (\<lambda>same.
     if same then
       bindM (liftR (py_sorted desired)) (\<lambda>sorted_desired.
       pureM (unchanged name (''DNS servers already set to '' @ py_str (PList sorted_desired))))
     else
       unless_dry opts
         (would name (''DNS servers would be set to '' @ py_str (PList desired) @ '' (was '' @ py_str (PList current) @ '')''))
         (bindM (vrli_settings_set_dns_servers ssh opts (PList desired) profile) (\<lambda>_.
          pureM (changed name [(''dns_servers'', PDict [(''old'', PList current), (''new'', PList desired)])]
            (''DNS servers set to '' @ py_str (PList desired))))))))"

subsection \<open>What the states guarantee\<close>

text \<open>C27: The certificate is replaced exactly when its serial number differs: for the PEM text of any certificate, the
  state leaves the appliance alone if and only if the number that the appliance reports, in whatever notation, is that
  of the certificate.\<close>

theorem vrli_certificate_by_serial:
  assumes "certificate_with serial der" "pem_text der pem"
    and "vrli_certificate_get opts p w = Some (Ok (PDict current), w1)" "dget current ''serialNum'' PNone = PStr shown"
  shows "\<exists>desired. hex_number desired = bytes_value serial \<and>
    vcf_vrli_certificate_certificate_present opts name (PStr pem) key chain p w =
      (if hex_number shown = bytes_value serial then
         Some (Ok (unchanged name (''Appliance certificate already at serial '' @ py_str (normalize_serial (PStr desired))
           @ ''; no change'')), w1)
       else replace_certificate opts name (PStr pem) key chain p (normalize_serial (PStr shown))
              (normalize_serial (PStr desired)) w1)"
proof -
  from serial_from_pem_number [OF assms(1,2)] obtain h where
    h: "serial_from_pem (PStr pem) = Ok h" "hex_number h = bytes_value serial" by blast
  have "current \<noteq> []" using assms(4) by auto
  moreover have "py_eq (normalize_serial (PStr shown)) (normalize_serial (PStr h)) \<longleftrightarrow> hex_number shown = bytes_value serial"
    using normalize_serial_eq [of shown h] h(2) by (auto simp: normalize_serial_def Let_def)
  ultimately show ?thesis
    using h assms(3,4) by (intro exI [of _ h]) (simp add: vcf_vrli_certificate_certificate_present_def bindM_def Let_def)
qed

text \<open>A certificate of seven bytes, and its PEM text.\<close>

definition sample_der :: string where
  "sample_der = [CHR ''0'', CHR 0x05, CHR ''0'', CHR 0x03, CHR 0x02, CHR 0x01, CHR ''*'']"

definition sample_pem :: string where
  "sample_pem = PEM_HEADER @ [CHR 0x0A] @ b64_encode sample_der @ [CHR 0x0A] @ PEM_FOOTER @ [CHR 0x0A]"

lemma sample_certificate: "certificate_with ''*'' sample_der" "pem_text sample_der sample_pem"
proof -
  have "der_tlv 2 ''*'' [CHR 0x02, CHR 0x01, CHR ''*'']" by (simp add: der_tlv_def der_length_def) code_simp
  moreover have "der_tlv 0x30 [CHR 0x02, CHR 0x01, CHR ''*''] [CHR ''0'', CHR 0x03, CHR 0x02, CHR 0x01, CHR ''*'']"
    by (simp add: der_tlv_def der_length_def) code_simp
  moreover have "der_tlv 0x30 ([CHR ''0'', CHR 0x03, CHR 0x02, CHR 0x01, CHR ''*''] @ []) sample_der"
    by (simp add: der_tlv_def der_length_def sample_der_def) code_simp
  ultimately show "certificate_with ''*'' sample_der" unfolding certificate_with_def by (metis append_Nil2)
  have "filter (\<lambda>c. c \<noteq> CHR 0x0A) ([CHR 0x0A] @ b64_encode sample_der @ [CHR 0x0A]) = b64_encode sample_der" by code_simp
  then show "pem_text sample_der sample_pem"
    unfolding pem_text_def sample_pem_def
    by (intro exI [of _ "[CHR 0x0A] @ b64_encode sample_der @ [CHR 0x0A]"] exI [of _ "[CHR 0x0A]"]) (simp add: is_blank_def)
qed

definition vrli_world :: "pyval \<Rightarrow> world" where
  "vrli_world answer =
     scripted [body_reply (PDict [(''sessionId'', PStr ''t''), (''ttl'', PInt 1800)]), body_reply answer]"

lemma vrli_certificate_by_serial_witness:
  "\<exists>w1 desired. vcf_vrli_certificate_certificate_present (opts_for ''vrli'') ''c'' (PStr sample_pem) PNone PNone None
     (vrli_world (PList [PDict [(''serialNum'', PStr ''0x2A'')]])) =
     Some (Ok (unchanged ''c'' (''Appliance certificate already at serial '' @ py_str (normalize_serial (PStr desired))
       @ ''; no change'')), w1)"
proof -
  let ?w = "vrli_world (PList [PDict [(''serialNum'', PStr ''0x2A'')]])"
  have run: "map_option fst (vrli_certificate_get (opts_for ''vrli'') None ?w) = Some (Ok (PDict [(''serialNum'', PStr ''0x2A'')]))"
    by code_simp
  have "hex_number ''0x2A'' = bytes_value ''*''" by code_simp
  with vrli_certificate_by_serial [OF sample_certificate run_result [OF run], of "''0x2A''" "''c''" PNone PNone]
  show ?thesis by auto
qed

text \<open>The address test admits digits, dots and one final newline, so that an address in quotes stays inside them.\<close>

lemma split_max_set: "set s \<subseteq> insert c (\<Union> (set ` set (split_max c n s)))"
proof (induction n arbitrary: s)
  case (Suc n)
  have "set s \<subseteq> insert c (set (takeWhile (\<lambda>x. x \<noteq> c) s) \<union> set (tl (dropWhile (\<lambda>x. x \<noteq> c) s)))" if "c \<in> set s"
  proof -
    from split_list_first [OF that] obtain a b where "s = a @ c # b" "c \<notin> set a" by blast
    then show ?thesis by (auto simp: takeWhile_append dropWhile_append)
  qed
  with Suc [of "tl (dropWhile (\<lambda>x. x \<noteq> c) s)"] show ?case by auto
qed auto

lemma ipv4_text_plain: "ipv4_text s \<Longrightarrow> CHR 0x27 \<notin> set s"
proof
  assume s: "ipv4_text s" and q: "CHR 0x27 \<in> set s"
  from q split_max_set [of s "CHR ''.''" "length s"] obtain p
    where p: "p \<in> set (split_max (CHR ''.'') (length s) s)" "CHR 0x27 \<in> set p" by auto
  with s have "is_digit (CHR 0x27)" by (auto simp: ipv4_text_def Let_def list_all_iff)
  then show False by (simp add: is_digit_def)
qed

lemma ipv4_match_plain: "ipv4_match s \<Longrightarrow> CHR 0x27 \<notin> set s"
  by (cases s rule: rev_cases) (auto simp: ipv4_match_def dest: ipv4_text_plain split: if_splits)

lemma quoted_word:
  assumes "CHR 0x27 \<notin> set s"
  shows "sh_words (Sh_Single w) (s @ CHR 0x27 # r) = sh_words (Sh_Word (w @ s)) r"
  using assms by (induction s arbitrary: w) auto

lemma dns_lines_words:
  "list_all ipv4_match addrs \<Longrightarrow> sh_words Sh_Blank (dns_lines addrs) = Some (map (\<lambda>a. ''DNS='' @ a) addrs)"
proof (induction addrs)
  case (Cons a addrs)
  then have "CHR 0x27 \<notin> set (''DNS='' @ a)" using ipv4_match_plain by simp
  note word = quoted_word [OF this, of "[]", simplified]
  from Cons show ?case
    by (cases addrs) (simp_all add: dns_lines_def dns_line_def word)
qed (simp add: dns_lines_def)

lemma ipv4_checked_all: "mapR ipv4_checked xs = Ok addrs \<Longrightarrow> xs = map PStr addrs \<and> list_all ipv4_match addrs"
  by (induction xs arbitrary: addrs)
    (auto simp: bindR_eq_Ok ipv4_checked_def split: pyval.splits if_splits)

text \<open>C28: The resolvers of the appliance are set with one command or not at all: unless every server is an address nothing
  is run, and in the command a shell reads the list as one word for each server, whatever was passed.\<close>

theorem vrli_dns_command_safe:
  assumes "vrli_settings_set_dns_servers ssh opts servers p w = Some (r, w')"
  shows "(\<exists>e. r = Exc e) \<and> w' = w \<or>
    (\<exists>addrs cfg rc. py_iter servers = Ok (map PStr addrs) \<and> list_all ipv4_match addrs \<and>
       ssh cfg (dns_edit addrs) 60 w = Some (rc, w') \<and>
       sh_words Sh_Blank (dns_lines addrs) = Some (map (\<lambda>a. ''DNS='' @ a) addrs))"
proof (cases "bindR (py_iter servers) (mapR ipv4_checked)")
  case (Exc e)
  with assms show ?thesis by (auto simp: vrli_settings_set_dns_servers_def bindM_def liftR_def)
next
  case (Ok addrs)
  then obtain xs where xs: "py_iter servers = Ok xs" "mapR ipv4_checked xs = Ok addrs" by (auto simp: bindR_eq_Ok)
  note addrs = ipv4_checked_all [OF xs(2)]
  from assms Ok consider e where "r = Exc e" "w' = w" | cfg rc where "ssh cfg (dns_edit addrs) 60 w = Some (rc, w')"
    unfolding vrli_settings_set_dns_servers_def
    by (auto simp: bindM_Some_iff raiseM_def pureM_def liftR_def split: if_splits)
  then show ?thesis using xs(1) addrs dns_lines_words [of addrs] by cases auto
qed

lemma vrli_dns_command_safe_witness:
  "\<exists>addrs w'. vrli_settings_set_dns_servers (\<lambda>_ _ _. pureM (0, [], [])) (opts_for ''vrli'') (PList [PStr ''10.0.0.53'']) None
     (scripted []) = Some (Ok [(''dns_servers'', PList [PStr ''10.0.0.53'']), (''applied'', PBool True)], w') \<and>
     addrs = [''10.0.0.53''] \<and> sh_words Sh_Blank (dns_lines addrs) = Some [''DNS=10.0.0.53'']"
proof -
  have run: "map_option fst (vrli_settings_set_dns_servers (\<lambda>_ _ _. pureM (0, [], [])) (opts_for ''vrli'')
      (PList [PStr ''10.0.0.53'']) None (scripted [])) =
    Some (Ok [(''dns_servers'', PList [PStr ''10.0.0.53'']), (''applied'', PBool True)])" by code_simp
  from vrli_dns_command_safe [OF run_result [OF run]] run_result [OF run] show ?thesis by auto
qed

end
