(* ===== verification/Vro_Bootstrap.thy ===== *)
theory Vro_Bootstrap
  imports Vrli_Settings
begin

section \<open>Vro_Bootstrap: repairing a fresh Orchestrator appliance\<close>

text \<open>
  \<open>modules/vcf_vro_bootstrap.py\<close> and \<open>states/vcf_vro_bootstrap.py\<close>: what is repaired over ssh on an appliance whose
  first boot failed, and the check that it serves in the end. \<open>exec argv timeout\<close> is \<open>subprocess.run\<close> of \<open>sshpass\<close>: the
  exit code and the two outputs, or \<open>None\<close> for \<open>TimeoutExpired\<close>. \<open>time.time()\<close> is the clock of the world, and \<open>elapsed_s\<close>
  is kept in milliseconds, not rounded to tenths of a second. An \<open>SshError\<close> is a \<open>RuntimeError\<close>.
\<close>

subsection \<open>Configuration and ssh\<close>

record vro_boot =
  vb_host :: pyval
  vb_password :: pyval
  vb_static_ip :: pyval
  vb_verify_ssl :: pyval
  vb_probe_timeout :: int

text \<open>\<open>x or cfg.get(k1) or cfg.get(k2) ...\<close>.\<close>

fun first_set :: "pyval \<Rightarrow> pyval \<Rightarrow> string list \<Rightarrow> pyval res" where
  "first_set x cfg [] = Ok x"
| "first_set x cfg (k # ks) = (if truthy x then Ok x else bindR (py_get cfg k PNone) (\<lambda>v. first_set v cfg ks))"

definition vro_boot_cfg :: "pyval \<Rightarrow> pyval \<Rightarrow> pyval \<Rightarrow> vro_boot res" where
  "vro_boot_cfg opts host root_password =
     bindR (py_get (py_or opts empty_dict) ''pillar'' PNone) (\<lambda>p.
     bindR (py_get (py_or p empty_dict) ''saltext.vcf'' PNone) (\<lambda>root.
     bindR (py_get (py_or root empty_dict) ''vro'' PNone) (\<lambda>v.
     let cfg = py_or v empty_dict in
     bindR (first_set host cfg [''host'', ''appliance_host'']) (\<lambda>h.
     bindR (first_set root_password cfg [''root_password'', ''varoot_password'', ''password'']) (\<lambda>pw.
     bindR (py_get cfg ''static_ip'' PNone) (\<lambda>static.
     bindR (py_get cfg ''verify_ssl'' (PBool False)) (\<lambda>verify.
     bindR (bindR (py_get cfg ''probe_timeout'' (PInt 15)) py_int) (\<lambda>t.
     Ok \<lparr>vb_host = h, vb_password = pw, vb_static_ip = static, vb_verify_ssl = PBool (truthy verify),
         vb_probe_timeout = t\<rparr>))))))))"

type_synonym vro_exec = "pyval list \<Rightarrow> int \<Rightarrow> (int \<times> string \<times> string) option io"

definition vro_ssh_argv :: "vro_boot \<Rightarrow> string \<Rightarrow> pyval list" where
  "vro_ssh_argv cfg cmd =
     [PStr ''sshpass'', PStr ''-p'', vb_password cfg, PStr ''ssh'', PStr ''-o'', PStr ''StrictHostKeyChecking=no'',
      PStr ''-o'', PStr ''UserKnownHostsFile=/dev/null'', PStr ''-o'', PStr ''LogLevel=ERROR'', PStr ''-o'',
      PStr ''ConnectTimeout=15'', PStr (''root@'' @ py_str (vb_host cfg)), PStr cmd]"

definition vro_ssh :: "vro_exec \<Rightarrow> vro_boot \<Rightarrow> bool \<Rightarrow> string \<Rightarrow> (int \<times> string \<times> string) io" where
  "vro_ssh exec cfg check cmd =
     bindM (exec (vro_ssh_argv cfg cmd) 60) (\<lambda>p.
     case p of
       None \<Rightarrow> raiseM (RuntimeError (''ssh timed out after 60s: '' @ repr_str cmd))
     | Some (rc, out, err) \<Rightarrow>
         if check \<and> rc \<noteq> 0 then
           raiseM (RuntimeError (''ssh '' @ py_str (vb_host cfg) @ '' '' @ repr_str cmd @ '' rc='' @ int_str rc @ '' stderr=''
             @ repr_str err))
         else pureM (rc, out, err))"

text \<open>The two uses: a command that must succeed and its output, and a command with its exit code.\<close>

definition ssh_out :: "vro_exec \<Rightarrow> vro_boot \<Rightarrow> bool \<Rightarrow> string \<Rightarrow> string io" where
  "ssh_out exec cfg check cmd = bindM (vro_ssh exec cfg check cmd) (\<lambda>(rc, out, err). pureM out)"

definition ssh_rc :: "vro_exec \<Rightarrow> vro_boot \<Rightarrow> string \<Rightarrow> int io" where
  "ssh_rc exec cfg cmd = bindM (vro_ssh exec cfg False cmd) (\<lambda>(rc, out, err). pureM rc)"

definition put_file_command :: "string \<Rightarrow> string \<Rightarrow> string \<Rightarrow> string" where
  "put_file_command content remote_path mode =
     (let tmp = [CHR 0x22] @ ''$tmp'' @ [CHR 0x22] in
      ''tmp=$(mktemp) && printf %s '' @ shlex_quote content @ '' > '' @ tmp @ '' && chmod '' @ mode @ '' '' @ tmp
        @ '' && mv '' @ tmp @ '' '' @ shlex_quote remote_path)"

definition vro_put_file :: "vro_exec \<Rightarrow> vro_boot \<Rightarrow> string \<Rightarrow> string \<Rightarrow> string \<Rightarrow> string io" where
  "vro_put_file exec cfg content remote_path mode = ssh_out exec cfg True (put_file_command content remote_path mode)"

text \<open>The return of a remediation.\<close>

definition step_done :: "bool \<Rightarrow> string \<Rightarrow> dict" where
  "step_done did why = [(''changed'', PBool did), (''reason'', PStr why)]"

subsection \<open>\<open>/etc/hosts\<close>\<close>

definition vro_hostname :: "vro_exec \<Rightarrow> vro_boot \<Rightarrow> string io" where
  "vro_hostname exec cfg = bindM (ssh_out exec cfg True ''hostname'') (\<lambda>out. pureM (strip out))"

definition vro_ip_command :: string where
  "vro_ip_command =
     ''ip -4 -o addr show scope global | awk '' @ [CHR 0x27] @ ''{print $4}'' @ [CHR 0x27]
     @ '' | cut -d/ -f1 | head -n1''"

definition vro_primary_ipv4 :: "vro_exec \<Rightarrow> vro_boot \<Rightarrow> string io" where
  "vro_primary_ipv4 exec cfg = bindM (ssh_out exec cfg True vro_ip_command) (\<lambda>out. pureM (strip out))"

text \<open>\<open>s.count(p)\<close> (occurrences that do not overlap) and \<open>s.index(p)\<close>.\<close>

function count_sub :: "string \<Rightarrow> string \<Rightarrow> nat" where
  "count_sub p [] = 0"
| "count_sub p (c # s) =
     (if p \<noteq> [] \<and> starts_with (c # s) p then Suc (count_sub p (drop (length p) (c # s))) else count_sub p s)"
  by pat_completeness auto

termination by (relation "measure (\<lambda>(p, s). length s)") auto

fun index_sub :: "string \<Rightarrow> string \<Rightarrow> nat option" where
  "index_sub p [] = (if p = [] then Some 0 else None)"
| "index_sub p (c # s) = (if starts_with (c # s) p then Some 0 else map_option Suc (index_sub p s))"

definition vro_LOOPBACK :: string where "vro_LOOPBACK = ''127.0.0.1''"

definition malformed :: "string \<Rightarrow> bool" where
  "malformed ln \<longleftrightarrow> 2 \<le> count_sub vro_LOOPBACK ln"

text \<open>A record that resolves the host name on an address.\<close>

definition host_loopback :: "string \<Rightarrow> string \<Rightarrow> bool" where
  "host_loopback hn ln \<longleftrightarrow> starts_with ln vro_LOOPBACK \<and> hn \<in> set (split_blanks ln)"

definition host_primary :: "string \<Rightarrow> string \<Rightarrow> string \<Rightarrow> bool" where
  "host_primary ip hn ln \<longleftrightarrow> ip \<in> set (split_blanks ln) \<and> hn \<in> set (split_blanks ln)"

definition hosts_sane :: "string \<Rightarrow> string \<Rightarrow> string list \<Rightarrow> bool" where
  "hosts_sane hn ip ls \<longleftrightarrow>
     \<not> list_ex malformed ls \<and> list_ex (host_loopback hn) ls \<and> list_ex (host_primary ip hn) ls"

text \<open>The second record of a malformed line; a line with two has one after its first character.\<close>

definition fix_line :: "string \<Rightarrow> string" where
  "fix_line ln =
     (if malformed ln then (case index_sub vro_LOOPBACK (tl ln) of Some i \<Rightarrow> strip (drop (Suc i) ln) | None \<Rightarrow> ln) else ln)"

definition host_record :: "string \<Rightarrow> string \<Rightarrow> string" where
  "host_record addr hn = addr @ '' '' @ hn"

definition with_loopback :: "string \<Rightarrow> string list \<Rightarrow> string list \<times> string list" where
  "with_loopback hn ls =
     (if list_ex (host_loopback hn) ls then (ls, [])
      else (host_record vro_LOOPBACK hn # ls, [host_record vro_LOOPBACK hn]))"

definition with_primary :: "string \<Rightarrow> string \<Rightarrow> string list \<Rightarrow> string list \<times> string list" where
  "with_primary ip hn ls =
     (if ip \<noteq> [] \<and> \<not> list_ex (host_primary ip hn) ls then (ls @ [host_record ip hn], [host_record ip hn]) else (ls, []))"

definition fixed_hosts :: "string \<Rightarrow> string \<Rightarrow> string list \<Rightarrow> string list \<times> string list" where
  "fixed_hosts hn ip ls =
     (let (ls1, a) = with_loopback hn (map fix_line ls); (ls2, b) = with_primary ip hn ls1 in (ls2, a @ b))"

definition hosts_text :: "string list \<Rightarrow> string" where
  "hosts_text ls = join_with [CHR 0x0A] ls @ [CHR 0x0A]"

definition exec_vro_bootstrap_fix_hosts :: "vro_exec \<Rightarrow> pyval \<Rightarrow> pyval \<Rightarrow> pyval \<Rightarrow> dict io" where
  "exec_vro_bootstrap_fix_hosts exec opts host root_password =
     bindM (liftR (vro_boot_cfg opts host root_password)) (\<lambda>cfg.
     bindM (vro_hostname exec cfg) (\<lambda>hn.
     bindM (vro_primary_ipv4 exec cfg) (\<lambda>ip.
     bindM (ssh_out exec cfg True ''cat /etc/hosts'') (\<lambda>current.
     let lines = splitlines current in
     if hosts_sane hn ip lines then pureM (step_done False ''hosts already sane'')
     else
       let (fixed, added) = fixed_hosts hn ip lines in
       bindM (vro_put_file exec cfg (hosts_text fixed) ''/etc/hosts'' ''0644'') (\<lambda>_.
       pureM (step_done True (''rewrote /etc/hosts (malformed_lines='' @ int_str (int (length (filter malformed lines)))
         @ '', added='' @ py_repr (PList (map PStr added)) @ '')'')))))))"

subsection \<open>The first-boot script and the kubelet\<close>

definition vro_ADMIN_CONF :: string where "vro_ADMIN_CONF = ''test -f /etc/kubernetes/admin.conf''"
definition vro_SETUP_SRC :: string where "vro_SETUP_SRC = ''/etc/bootstrap/firstboot.d/02-setup-kubernetes''"
definition vro_SETUP_DST :: string where "vro_SETUP_DST = ''/root/02-setup-kubernetes.SKIPPED''"

definition exec_vro_bootstrap_disable_setup_kubernetes_firstboot ::
  "vro_exec \<Rightarrow> pyval \<Rightarrow> pyval \<Rightarrow> pyval \<Rightarrow> dict io" where
  "exec_vro_bootstrap_disable_setup_kubernetes_firstboot exec opts host root_password =
     bindM (liftR (vro_boot_cfg opts host root_password)) (\<lambda>cfg.
     bindM (ssh_rc exec cfg (''test -f '' @ vro_SETUP_SRC)) (\<lambda>rc_src.
     bindM (ssh_rc exec cfg (''test -f '' @ vro_SETUP_DST)) (\<lambda>rc_dst.
     if rc_src \<noteq> 0 \<and> rc_dst = 0 then pureM (step_done False ''already neutralised'')
     else if rc_src \<noteq> 0 then pureM (step_done False ''02-setup-kubernetes absent'')
     else
       bindM (ssh_rc exec cfg vro_ADMIN_CONF) (\<lambda>rc_admin.
       if rc_admin \<noteq> 0 then
         pureM (step_done False ''k8s admin.conf absent; leaving 02-setup-kubernetes in place'')
       else
         bindM (ssh_out exec cfg True (''mv '' @ vro_SETUP_SRC @ '' '' @ vro_SETUP_DST)) (\<lambda>_.
         pureM (step_done True (''moved '' @ vro_SETUP_SRC @ '' -> '' @ vro_SETUP_DST)))))))"

text \<open>
  \<open>while time.time() < deadline: ...; time.sleep(interval)\<close>: the test comes first. A round ends the loop with \<open>Inl\<close>,
  or goes on with what it has seen.
\<close>

definition timed_round :: "('s \<Rightarrow> ('a + 's) io) \<Rightarrow> ('s \<Rightarrow> 'a io) \<Rightarrow> int \<Rightarrow> int \<Rightarrow> 's \<Rightarrow> ('a + 's) io" where
  "timed_round go late interval deadline s =
     bindM monotonic (\<lambda>t.
     if \<not> t < deadline then bindM (late s) (\<lambda>x. pureM (Inl x))
     else
       bindM (go s) (\<lambda>r.
       case r of
         Inl x \<Rightarrow> pureM (Inl x)
       | Inr s \<Rightarrow> bindM (sleep (secs interval)) (\<lambda>_. pureM (Inr s))))"

definition timed_loop :: "('s \<Rightarrow> ('a + 's) io) \<Rightarrow> ('s \<Rightarrow> 'a io) \<Rightarrow> int \<Rightarrow> int \<Rightarrow> 's \<Rightarrow> 'a io" where
  "timed_loop go late interval timeout s =
     bindM monotonic (\<lambda>t. loopM (timed_round go late interval (t + secs timeout)) s)"

definition vro_nodes_command :: string where
  "vro_nodes_command =
     ''kubectl --kubeconfig=/etc/kubernetes/admin.conf get nodes -o jsonpath='' @ [CHR 0x27]
     @ ''{range .items[*]}{.metadata.name}={.status.conditions[?(@.type=='' @ [CHR 0x22] @ ''Ready'' @ [CHR 0x22]
     @ '')].status}'' @ [CHR 0x5C] @ ''n{end}'' @ [CHR 0x27]"

definition vro_first_node_command :: string where
  "vro_first_node_command =
     ''kubectl --kubeconfig=/etc/kubernetes/admin.conf get nodes -o jsonpath='' @ [CHR 0x27]
     @ ''{.items[0].status.conditions[?(@.type=='' @ [CHR 0x22] @ ''Ready'' @ [CHR 0x22] @ '')].status}''
     @ [CHR 0x27]"

definition vro_kubelet_reset :: string where
  "vro_kubelet_reset =
     ''rm -f /etc/kubernetes/kubelet.conf && '' @ ''rm -rf /var/lib/kubelet/pki && '' @ ''systemctl restart kubelet''"

definition exec_vro_bootstrap_rebootstrap_kubelet_if_notready :: "vro_exec \<Rightarrow> pyval \<Rightarrow> pyval \<Rightarrow> pyval \<Rightarrow> dict io" where
  "exec_vro_bootstrap_rebootstrap_kubelet_if_notready exec opts host root_password =
     bindM (liftR (vro_boot_cfg opts host root_password)) (\<lambda>cfg.
     bindM (ssh_rc exec cfg vro_ADMIN_CONF) (\<lambda>rc.
     if rc \<noteq> 0 then pureM (step_done False ''no admin.conf yet; skipping'')
     else
       bindM (ssh_out exec cfg False vro_nodes_command) (\<lambda>out.
       if contains out ''=True'' then pureM (step_done False (''node already Ready ('' @ strip out @ '')''))
       else
         bindM (ssh_out exec cfg True vro_kubelet_reset) (\<lambda>_.
         timed_loop
           (\<lambda>u. bindM (ssh_out exec cfg False vro_first_node_command) (\<lambda>out.
              pureM (if strip out = ''True'' then Inl (step_done True ''kubelet re-bootstrapped; node Ready'') else Inr ())))
           (\<lambda>u. pureM (step_done True ''kubelet re-bootstrapped but node did not become Ready in 120s''))
           5 120 ()))))"

definition vro_service_command :: string where
  "vro_service_command = ''systemctl show run-bootstrap.service -p Result -p ActiveState -p SubState''"

definition firstboot_succeeded :: "string \<Rightarrow> bool" where
  "firstboot_succeeded s \<longleftrightarrow>
     contains s ''Result=success'' \<and> (contains s ''SubState=exited'' \<or> contains s ''ActiveState=inactive'')"

definition firstboot_round :: "vro_exec \<Rightarrow> vro_boot \<Rightarrow> pyval \<Rightarrow> (dict + pyval) io" where
  "firstboot_round exec cfg seen =
     bindM (ssh_out exec cfg False vro_service_command) (\<lambda>out.
     if firstboot_succeeded out then pureM (Inl (step_done True ''firstboot completed successfully''))
     else if contains out ''ActiveState=failed'' then
       bindM (ssh_out exec cfg False ''journalctl -u run-bootstrap.service --no-pager -n 40'') (\<lambda>jc.
       pureM (Inl (step_done True (''firstboot failed: '' @ strip out @ [CHR 0x0A] @ drop (length jc - 2000) jc)
         @ [(''failed'', PBool True)])))
     else pureM (Inr (PStr (strip out))))"

definition exec_vro_bootstrap_rerun_firstboot :: "vro_exec \<Rightarrow> pyval \<Rightarrow> pyval \<Rightarrow> pyval \<Rightarrow> pyval \<Rightarrow> dict io" where
  "exec_vro_bootstrap_rerun_firstboot exec opts host root_password timeout =
     bindM (liftR (vro_boot_cfg opts host root_password)) (\<lambda>cfg.
     bindM (ssh_out exec cfg False vro_service_command) (\<lambda>svc_state.
     if firstboot_succeeded svc_state then pureM (step_done False ''firstboot already completed'')
     else
       bindM (ssh_out exec cfg False ''systemctl reset-failed run-bootstrap.service || true'') (\<lambda>_.
       bindM (ssh_out exec cfg False ''systemctl restart run-bootstrap.service'') (\<lambda>_.
       bindM (liftR (py_int timeout)) (\<lambda>t.
       timed_loop (firstboot_round exec cfg)
         (\<lambda>seen. pureM (step_done True (''firstboot did not finish in '' @ py_str timeout @ ''s (last: '' @ py_str seen @ '')'')
            @ [(''failed'', PBool True)]))
         15 t PNone)))))"

subsection \<open>The port of the appliance\<close>

definition vro_pods_command :: string where
  "vro_pods_command =
     ''kubectl --kubeconfig=/etc/kubernetes/admin.conf get pods -A -l '' @ [CHR 0x27] @ ''app=envoy'' @ [CHR 0x27]
     @ '' -o json 2>/dev/null || kubectl --kubeconfig=/etc/kubernetes/admin.conf get pods -A -o json''"

fun envoy_in :: "pyval list \<Rightarrow> pyval res" where
  "envoy_in [] = Ok PNone"
| "envoy_in (item # items) =
     bindR (py_get item ''metadata'' PNone) (\<lambda>m.
     bindR (py_get (py_or m empty_dict) ''name'' PNone) (\<lambda>n.
     let name = py_or n (PStr []) in
     bindR (py_in (PStr ''envoy'') name) (\<lambda>a.
     bindR (if a then Ok True else py_in (PStr ''contour-envoy'') name) (\<lambda>b.
     if \<not> b then envoy_in items
     else
       bindR (py_get item ''status'' PNone) (\<lambda>s.
       let status = py_or s empty_dict in
       bindR (py_get status ''phase'' PNone) (\<lambda>phase.
       if phase = PStr ''Running'' then py_get status ''podIP'' PNone else envoy_in items))))))"

definition vro_envoy_pod_ip :: "vro_exec \<Rightarrow> vro_boot \<Rightarrow> pyval io" where
  "vro_envoy_pod_ip exec cfg =
     bindM (ssh_out exec cfg False vro_pods_command) (\<lambda>out.
     case json_loads out of
       Exc _ \<Rightarrow> pureM PNone
     | Ok data \<Rightarrow> liftR (bindR (listed ''items'' data) envoy_in))"

definition dnat_marker :: "string \<Rightarrow> string \<Rightarrow> string \<Rightarrow> string" where
  "dnat_marker chain dest_ip dest =
     ''-A '' @ chain @ '' -d '' @ dest_ip @ ''/32 -p tcp -m tcp --dport 443 -j DNAT --to-destination '' @ dest"

definition dnat_command :: "string \<Rightarrow> string \<Rightarrow> string \<Rightarrow> string" where
  "dnat_command chain host_ip dest =
     ''iptables -t nat -I '' @ chain @ '' 1 -d '' @ shlex_quote host_ip @ '' -p tcp --dport 443 ''
       @ ''-j DNAT --to-destination '' @ shlex_quote dest"

text \<open>One rule, unless \<open>iptables-save\<close> shows it.\<close>

definition dnat_rule :: "vro_exec \<Rightarrow> vro_boot \<Rightarrow> string \<Rightarrow> string \<Rightarrow> string \<Rightarrow> string \<Rightarrow> string list io" where
  "dnat_rule exec cfg save chain host_ip dest =
     (if contains save (dnat_marker chain host_ip dest) then pureM []
      else
        bindM (ssh_out exec cfg True (dnat_command chain host_ip dest)) (\<lambda>_.
        pureM [chain @ '' '' @ host_ip @ '':443 -> '' @ dest]))"

definition vro_dnat_unit :: string where
  "vro_dnat_unit =
     ''[Unit]'' @ [CHR 0x0A] @ ''Description=vRO envoy NodePort DNAT (managed by saltext.vcf.vcf_vro_bootstrap)''
     @ [CHR 0x0A] @ ''After=kubelet.service network-online.target'' @ [CHR 0x0A] @ ''Wants=network-online.target''
     @ [CHR 0x0A, CHR 0x0A] @ ''[Service]'' @ [CHR 0x0A] @ ''Type=oneshot'' @ [CHR 0x0A] @ ''RemainAfterExit=yes''
     @ [CHR 0x0A] @ ''ExecStart=/bin/sh -c '' @ [CHR 0x27]
     @ ''    HOST_IP=$(ip -4 -o addr show scope global | awk '' @ [CHR 0x22] @ ''{{print '' @ [CHR 0x5C] @ ''$4}}''
     @ [CHR 0x22]
     @ '' | cut -d/ -f1 | head -n1);     ENVOY_IP=$(kubectl --kubeconfig=/etc/kubernetes/admin.conf get pods -A -o jsonpath=''
     @ [CHR 0x22] @ ''{{range .items[*]}}{{.status.podIP}} {{.metadata.name}}{{'' @ [CHR 0x5C, CHR 0x22, CHR 0x5C]
     @ ''n'' @ [CHR 0x5C, CHR 0x22] @ ''}}{{end}}'' @ [CHR 0x22] @ '' | awk '' @ [CHR 0x22] @ ''/envoy/ {{print ''
     @ [CHR 0x5C] @ ''$1; exit}}'' @ [CHR 0x22] @ '');     [ -n '' @ [CHR 0x22] @ ''$HOST_IP'' @ [CHR 0x22]
     @ '' ] && [ -n '' @ [CHR 0x22] @ ''$ENVOY_IP'' @ [CHR 0x22]
     @ '' ] || exit 0;     iptables -t nat -C PREROUTING -d '' @ [CHR 0x22] @ ''$HOST_IP'' @ [CHR 0x22]
     @ '' -p tcp --dport 443 -j DNAT --to-destination '' @ [CHR 0x22] @ ''$ENVOY_IP:8443'' @ [CHR 0x22]
     @ '' 2>/dev/null ||     iptables -t nat -I PREROUTING 1 -d '' @ [CHR 0x22] @ ''$HOST_IP'' @ [CHR 0x22]
     @ '' -p tcp --dport 443 -j DNAT --to-destination '' @ [CHR 0x22] @ ''$ENVOY_IP:8443'' @ [CHR 0x22]
     @ '';     iptables -t nat -C OUTPUT -d '' @ [CHR 0x22] @ ''$HOST_IP'' @ [CHR 0x22]
     @ '' -p tcp --dport 443 -j DNAT --to-destination '' @ [CHR 0x22] @ ''$ENVOY_IP:8443'' @ [CHR 0x22]
     @ '' 2>/dev/null ||     iptables -t nat -I OUTPUT 1 -d '' @ [CHR 0x22] @ ''$HOST_IP'' @ [CHR 0x22]
     @ '' -p tcp --dport 443 -j DNAT --to-destination '' @ [CHR 0x22] @ ''$ENVOY_IP:8443''
     @ [CHR 0x22, CHR 0x27, CHR 0x0A, CHR 0x0A] @ ''[Install]'' @ [CHR 0x0A] @ ''WantedBy=multi-user.target''
     @ [CHR 0x0A]"

definition vro_UNIT_PATH :: string where "vro_UNIT_PATH = ''/etc/systemd/system/vro-envoy-dnat.service''"

definition dnat_persist :: "vro_exec \<Rightarrow> vro_boot \<Rightarrow> string list io" where
  "dnat_persist exec cfg =
     bindM (ssh_out exec cfg False (''cat '' @ vro_UNIT_PATH @ '' 2>/dev/null || true'')) (\<lambda>existing.
     if existing = vro_dnat_unit then pureM []
     else
       bindM (vro_put_file exec cfg vro_dnat_unit vro_UNIT_PATH ''0644'') (\<lambda>_.
       bindM (ssh_out exec cfg False ''systemctl daemon-reload && systemctl enable vro-envoy-dnat.service'') (\<lambda>_.
       pureM [''installed '' @ vro_UNIT_PATH])))"

definition exec_vro_bootstrap_ensure_envoy_dnat :: "vro_exec \<Rightarrow> pyval \<Rightarrow> pyval \<Rightarrow> pyval \<Rightarrow> dict io" where
  "exec_vro_bootstrap_ensure_envoy_dnat exec opts host root_password =
     bindM (liftR (vro_boot_cfg opts host root_password)) (\<lambda>cfg.
     bindM (vro_envoy_pod_ip exec cfg) (\<lambda>envoy_ip.
     if \<not> truthy envoy_ip then pureM (step_done False ''envoy pod not yet running; skipping DNAT'')
     else
       bindM (vro_primary_ipv4 exec cfg) (\<lambda>host_ip.
       let dest = py_str envoy_ip @ '':8443'' in
       bindM (ssh_out exec cfg False ''iptables-save -t nat 2>/dev/null || true'') (\<lambda>save.
       bindM (dnat_rule exec cfg save ''PREROUTING'' host_ip dest) (\<lambda>a.
       bindM (dnat_rule exec cfg save ''OUTPUT'' host_ip dest) (\<lambda>b.
       bindM (dnat_persist exec cfg) (\<lambda>c.
       let changes = a @ b @ c in
       if changes = [] then pureM (step_done False ''DNAT already in place'')
       else
         pureM (step_done True (join_with ''; '' changes)
           @ [(''envoy_ip'', envoy_ip), (''host_ip'', PStr host_ip)]))))))))"

subsection \<open>The check and the sequence\<close>

definition probe_answer :: "int \<Rightarrow> int \<Rightarrow> http_response \<Rightarrow> dict res" where
  "probe_answer started now r =
     bindR (py_get (case json_value r of Some v \<Rightarrow> v | None \<Rightarrow> empty_dict) ''version'' PNone) (\<lambda>version.
     Ok [(''ok'', PBool True), (''status_code'', PInt 200), (''version'', version), (''elapsed_s'', PInt (now - started))])"

text \<open>One probe; the last status and the last error are kept.\<close>

definition verify_round :: "request \<Rightarrow> int \<Rightarrow> pyval \<times> pyval \<Rightarrow> (dict + pyval \<times> pyval) io" where
  "verify_round rq started seen =
     attempt request_exception (http_send rq)
       (\<lambda>r. if status_code r = 200 then
              bindM monotonic (\<lambda>now. bindM (liftR (probe_answer started now r)) (\<lambda>d. pureM (Inl d)))
            else pureM (Inr (PInt (status_code r), snd seen)))
       (\<lambda>exc. pureM (Inr (fst seen, PStr (exn_str exc))))"

definition verify_late :: "int \<Rightarrow> pyval \<times> pyval \<Rightarrow> dict io" where
  "verify_late started seen =
     bindM monotonic (\<lambda>now.
     pureM [(''ok'', PBool False), (''status_code'', fst seen), (''version'', PNone), (''elapsed_s'', PInt (now - started)),
       (''error'', snd seen)])"

definition about_request :: "vro_boot \<Rightarrow> string \<Rightarrow> request" where
  "about_request cfg hn =
     plain_request ''GET'' (https_url (vb_host cfg) ''/vco/api/about'') PNone PNone [(''Host'', PStr hn)] PNone
       (vb_verify_ssl cfg) (PInt (vb_probe_timeout cfg))"

definition exec_vro_bootstrap_verify :: "vro_exec \<Rightarrow> pyval \<Rightarrow> pyval \<Rightarrow> pyval \<Rightarrow> pyval \<Rightarrow> dict io" where
  "exec_vro_bootstrap_verify exec opts host root_password timeout =
     bindM (liftR (vro_boot_cfg opts host root_password)) (\<lambda>cfg.
     bindM (vro_hostname exec cfg) (\<lambda>hn.
     bindM monotonic (\<lambda>started.
     bindM (liftR (py_int timeout)) (\<lambda>t.
     timed_loop (verify_round (about_request cfg hn) started) (verify_late started) 10 t (PNone, PNone)))))"

definition exec_vro_bootstrap_remediate :: "vro_exec \<Rightarrow> pyval \<Rightarrow> pyval \<Rightarrow> pyval \<Rightarrow> pyval \<Rightarrow> pyval \<Rightarrow> dict io" where
  "exec_vro_bootstrap_remediate exec opts host root_password verify_timeout firstboot_timeout =
     bindM (exec_vro_bootstrap_verify exec opts host root_password (PInt 10)) (\<lambda>v.
     if truthy (dget v ''ok'' PNone) then
       pureM [(''ok'', PBool True), (''steps'', empty_dict), (''verify'', PDict v), (''short_circuit'', PBool True)]
     else
       bindM (exec_vro_bootstrap_fix_hosts exec opts host root_password) (\<lambda>s1.
       bindM (exec_vro_bootstrap_disable_setup_kubernetes_firstboot exec opts host root_password) (\<lambda>s2.
       bindM (exec_vro_bootstrap_rebootstrap_kubelet_if_notready exec opts host root_password) (\<lambda>s3.
       bindM (exec_vro_bootstrap_rerun_firstboot exec opts host root_password firstboot_timeout) (\<lambda>s4.
       bindM (exec_vro_bootstrap_ensure_envoy_dnat exec opts host root_password) (\<lambda>s5.
       bindM (exec_vro_bootstrap_verify exec opts host root_password verify_timeout) (\<lambda>final.
       pureM [(''ok'', dget final ''ok'' PNone),
         (''steps'', PDict [(''fix_hosts'', PDict s1), (''disable_setup_kubernetes_firstboot'', PDict s2),
            (''rebootstrap_kubelet'', PDict s3), (''rerun_firstboot'', PDict s4), (''ensure_envoy_dnat'', PDict s5)]),
         (''verify'', PDict final)])))))))"

subsection \<open>\<open>states/vcf_vro_bootstrap.py\<close>\<close>

definition fired_steps :: "dict \<Rightarrow> dict res" where
  "fired_steps steps =
     bindR (filterR (\<lambda>(n, s). bindR (py_get s ''changed'' PNone) (\<lambda>c. Ok (truthy c))) steps) Ok"

text \<open>The return of the state for the result of the module.\<close>

definition remediate_ret :: "string \<Rightarrow> dict \<Rightarrow> salt_ret res" where
  "remediate_ret name result =
     bindR (py_dict (py_or (dget result ''steps'' PNone) empty_dict)) (\<lambda>steps.
     bindR (py_dict (py_or (dget result ''verify'' PNone) empty_dict)) (\<lambda>verify.
     bindR (fired_steps steps) (\<lambda>fired.
     let version = py_repr (dget verify ''version'' PNone) in
     if truthy (dget result ''short_circuit'' PNone) then
       Ok (unchanged name (''vRO '' @ repr_str name @ '' already serving /vco/api/about '' @ ''(version='' @ version @ '')''))
     else if \<not> truthy (dget result ''ok'' PNone) then
       Ok ((refused name (''vRO '' @ repr_str name @ '' remediation ran but /vco/api/about not 200 (status=''
           @ py_repr (dget verify ''status_code'' PNone) @ '', error='' @ py_repr (dget verify ''error'' PNone) @ '')''))
         \<lparr>ret_changes := PDict [(''steps'', PDict steps), (''verify'', PDict verify)]\<rparr>)
     else
       Ok (changed name [(''steps'', PDict fired), (''verify'', PDict verify)]
         (''vRO '' @ repr_str name @ '' remediated: '' @ int_str (int (length fired)) @ ''/'' @ int_str (int (length steps))
           @ '' steps fired; '' @ ''/vco/api/about returned 200 (version='' @ version @ '')'')))))"

definition vcf_vro_bootstrap_remediate ::
  "vro_exec \<Rightarrow> pyval \<Rightarrow> string \<Rightarrow> pyval \<Rightarrow> pyval \<Rightarrow> pyval \<Rightarrow> pyval \<Rightarrow> salt_ret io" where
  "vcf_vro_bootstrap_remediate exec opts name host root_password verify_timeout firstboot_timeout =
     unless_dry opts
       (would name (''Would run vRO bootstrap remediation on '' @ repr_str name
          @ '' (fix /etc/hosts, skip 02-setup-kubernetes, re-bootstrap kubelet, ''
          @ ''re-run firstboot, install envoy DNAT, verify /vco/api/about)''))
       (bindM (liftR (py_int verify_timeout)) (\<lambda>vt.
        bindM (liftR (py_int firstboot_timeout)) (\<lambda>ft.
        bindM (exec_vro_bootstrap_remediate exec opts host root_password (PInt vt) (PInt ft)) (\<lambda>result.
        liftR (remediate_ret name result)))))"

subsection \<open>The loops\<close>

lemma timed_round_rules [spec_intros]:
  "(\<And>s. returns (go s)) \<Longrightarrow> (\<And>s. returns (late s)) \<Longrightarrow> returns (timed_round go late i dl s)"
  "(\<And>s. keeps evolves (go s)) \<Longrightarrow> (\<And>s. keeps evolves (late s)) \<Longrightarrow> keeps evolves (timed_round go late i dl s)"
  unfolding timed_round_def by (auto intro!: spec_intros)

lemma timed_round_Ok:
  "timed_round go late i dl s w = Some (Ok r, w') \<longleftrightarrow>
     (\<exists>x. r = Inl x \<and> dl \<le> clock w \<and> late s w = Some (Ok x, w')) \<or>
     (\<exists>x. r = Inl x \<and> clock w < dl \<and> go s w = Some (Ok (Inl x), w')) \<or>
     (\<exists>s' w1. r = Inr s' \<and> clock w < dl \<and> go s w = Some (Ok (Inr s'), w1) \<and> 0 \<le> secs i \<and>
        w' = w1\<lparr>clock := clock w1 + secs i\<rparr>)"
  unfolding timed_round_def bindM_def [of "go s"]
  by (auto simp: bindM_Ok_iff sleep_def split: option.splits prod.splits res.splits sum.splits if_splits)

lemma polling_timed_round:
  assumes "\<And>s. returns (go s)" "\<And>s. keeps evolves (go s)" "\<And>s. returns (late s)"
  shows "polling (timed_round go late i dl) (\<lambda>_ w. clock w) dl (secs i)"
proof (rule polling_clockI [OF timed_round_rules(1) [OF assms(1,3)]])
  fix s w s' w'
  assume run: "timed_round go late i dl s w = Some (Ok (Inr s'), w')"
  have "clock w \<le> clock w1" if "go s w = Some (Ok v, w1)" for v w1
    using that assms(2) by (rule evolves_clock [rotated])
  with run show "clock w \<le> dl \<and> clock w + secs i \<le> clock w'" by (fastforce simp: timed_round_Ok)
qed

lemma timed_loop_rules [spec_intros]:
  "(\<And>s. keeps evolves (go s)) \<Longrightarrow> (\<And>s. keeps evolves (late s)) \<Longrightarrow> keeps evolves (timed_loop go late i t s)"
  by (auto simp: timed_loop_def intro!: spec_intros)

lemma timed_loop_returns:
  assumes "\<And>s. returns (go s)" "\<And>s. keeps evolves (go s)" "\<And>s. returns (late s)" "0 < i"
  shows "returns (timed_loop go late i t s)"
  using polling.terminates [OF polling_timed_round [OF assms(1-3)]] assms(4)
  unfolding timed_loop_def returns_def secs_def by fastforce

text \<open>A loop ends with what the last round found, or with what is said at the deadline.\<close>

lemma timed_loop_Ok:
  assumes "timed_loop go late i t s w = Some (Ok x, w')"
  shows "(\<exists>s w1. go s w1 = Some (Ok (Inl x), w')) \<or> (\<exists>s w1. late s w1 = Some (Ok x, w'))"
proof -
  from assms obtain dl where "loopM (timed_round go late i dl) s w = Some (Ok x, w')"
    by (auto simp: timed_loop_def)
  then have "case Ok x of Ok x \<Rightarrow> (\<exists>s w1. go s w1 = Some (Ok (Inl x), w')) \<or> (\<exists>s w1. late s w1 = Some (Ok x, w')) | Exc _ \<Rightarrow> True"
    by (rule loopM_rule [where I = "\<lambda>_ _. True"]) (auto simp: timed_round_Ok)
  then show ?thesis by simp
qed

subsection \<open>The remediation ends\<close>

text \<open>What \<open>subprocess.run\<close> with a timeout does: it comes back, and time has not run backwards.\<close>

definition exec_comes_back :: "vro_exec \<Rightarrow> bool" where
  "exec_comes_back exec \<longleftrightarrow> (\<forall>argv t. returns (exec argv t) \<and> keeps evolves (exec argv t))"

lemma ssh_rules:
  assumes "exec_comes_back exec"
  shows "returns (ssh_out exec cfg c cmd)" "keeps evolves (ssh_out exec cfg c cmd)"
    "returns (ssh_rc exec cfg cmd)" "keeps evolves (ssh_rc exec cfg cmd)"
  using assms unfolding exec_comes_back_def ssh_out_def ssh_rc_def vro_ssh_def
  by (auto intro!: spec_intros)

lemma firstboot_round_rules:
  assumes "exec_comes_back exec"
  shows "returns (firstboot_round exec cfg s)" "keeps evolves (firstboot_round exec cfg s)"
  unfolding firstboot_round_def by (auto intro!: spec_intros ssh_rules [OF assms])

lemma verify_round_rules:
  "returns (verify_round rq t s)" "keeps evolves (verify_round rq t s)" "returns (verify_late t s)"
  "keeps evolves (verify_late t s)"
  by (auto simp: verify_round_def verify_late_def intro!: spec_intros)

lemma verify_returns: "exec_comes_back exec \<Longrightarrow> returns (exec_vro_bootstrap_verify exec opts h pw t)"
  unfolding exec_vro_bootstrap_verify_def vro_hostname_def
  by (auto intro!: spec_intros ssh_rules timed_loop_returns verify_round_rules)

lemma remediation_returns:
  assumes "exec_comes_back exec"
  shows "returns (exec_vro_bootstrap_fix_hosts exec opts h pw)"
    "returns (exec_vro_bootstrap_disable_setup_kubernetes_firstboot exec opts h pw)"
    "returns (exec_vro_bootstrap_rebootstrap_kubelet_if_notready exec opts h pw)"
    "returns (exec_vro_bootstrap_rerun_firstboot exec opts h pw t)"
    "returns (exec_vro_bootstrap_ensure_envoy_dnat exec opts h pw)"
proof -
  note rules = spec_intros ssh_rules [OF assms] timed_loop_returns firstboot_round_rules [OF assms]
  show "returns (exec_vro_bootstrap_fix_hosts exec opts h pw)"
    by (auto simp: exec_vro_bootstrap_fix_hosts_def vro_hostname_def vro_primary_ipv4_def vro_put_file_def Let_def intro!: rules)
  show "returns (exec_vro_bootstrap_disable_setup_kubernetes_firstboot exec opts h pw)"
    by (auto simp: exec_vro_bootstrap_disable_setup_kubernetes_firstboot_def intro!: rules)
  show "returns (exec_vro_bootstrap_rebootstrap_kubelet_if_notready exec opts h pw)"
    by (auto simp: exec_vro_bootstrap_rebootstrap_kubelet_if_notready_def intro!: rules)
  show "returns (exec_vro_bootstrap_rerun_firstboot exec opts h pw t)"
    by (auto simp: exec_vro_bootstrap_rerun_firstboot_def intro!: rules)
  have "returns (dnat_rule exec cfg s c h' d)" "returns (dnat_persist exec cfg)" "returns (vro_envoy_pod_ip exec cfg)"
    for cfg s c h' d
    by (auto simp: dnat_rule_def dnat_persist_def vro_put_file_def vro_envoy_pod_ip_def Let_def intro!: rules)
  then show "returns (exec_vro_bootstrap_ensure_envoy_dnat exec opts h pw)"
    by (auto simp: exec_vro_bootstrap_ensure_envoy_dnat_def vro_primary_ipv4_def Let_def intro!: rules)
qed

text \<open>The remediation of an Orchestrator comes to an end, whatever the appliance does and whatever the timeouts are, if
  the ssh commands do.\<close>

theorem vro_bootstrap_ends:
  assumes "exec_comes_back exec"
  shows "\<exists>r w'. vcf_vro_bootstrap_remediate exec opts name host pw vt ft w = Some (r, w')"
proof (rule returnsD)
  show "returns (vcf_vro_bootstrap_remediate exec opts name host pw vt ft)"
    unfolding vcf_vro_bootstrap_remediate_def unless_dry_def exec_vro_bootstrap_remediate_def
    by (auto intro!: spec_intros verify_returns remediation_returns assms)
qed

lemma exec_comes_back_const: "exec_comes_back (\<lambda>_ _. pureM r)"
  by (auto simp: exec_comes_back_def intro!: spec_intros)

lemma vro_bootstrap_ends_witness:
  "\<exists>r w'. vcf_vro_bootstrap_remediate (\<lambda>_ _. pureM None) (opts_for ''vro'') ''v'' PNone PNone (PInt 600) (PInt 1800) (scripted [])
     = Some (r, w')"
  by (rule vro_bootstrap_ends [OF exec_comes_back_const])

subsection \<open>What a success shows\<close>

lemma verify_ok:
  assumes "exec_vro_bootstrap_verify exec opts h pw t w = Some (Ok d, w')" "truthy (dget d ''ok'' PNone)"
  shows "\<exists>cfg hn w1 resp. vro_boot_cfg opts h pw = Ok cfg \<and> http_send (about_request cfg hn) w1 = Some (Ok resp, w') \<and>
    status_code resp = 200"
proof -
  from assms(1) obtain cfg hn n t' w0 where cfg: "vro_boot_cfg opts h pw = Ok cfg"
    and run: "timed_loop (verify_round (about_request cfg hn) n) (verify_late n) 10 t' (PNone, PNone) w0 = Some (Ok d, w')"
    unfolding exec_vro_bootstrap_verify_def by (auto simp: bindM_Ok_iff)
  from timed_loop_Ok [OF run] assms(2) obtain s w1 where
    "verify_round (about_request cfg hn) n s w1 = Some (Ok (Inl d), w')"
    by (auto simp: verify_late_def bindM_Ok_iff)
  then have "\<exists>resp. http_send (about_request cfg hn) w1 = Some (Ok resp, w') \<and> status_code resp = 200"
    by (auto simp: verify_round_def attempt_Some_iff bindM_Ok_iff split: if_splits)
  with cfg show ?thesis by blast
qed

text \<open>C26: The state reports success only when the appliance serves: the last thing that happened before is that the
  Orchestrator's own endpoint answered with 200.\<close>

theorem vro_bootstrap_success_served:
  assumes "vcf_vro_bootstrap_remediate exec opts name host pw vt ft w = Some (Ok r, w')" "ret_result r = Some True"
  shows "\<exists>cfg hn w1 resp. vro_boot_cfg opts host pw = Ok cfg \<and>
    http_send (about_request cfg hn) w1 = Some (Ok resp, w') \<and> status_code resp = 200"
proof -
  have result: "truthy (dget d ''ok'' PNone) \<or> truthy (dget d ''short_circuit'' PNone)" if "remediate_ret name d = Ok r" for d
    using that assms(2)
    by (auto simp: remediate_ret_def bindR_eq_Ok Let_def unchanged_def refused_def changed_def split: if_splits)
  from assms obtain d w1 vt' ft' where
    run: "exec_vro_bootstrap_remediate exec opts host pw vt' ft' w1 = Some (Ok d, w')" and ret: "remediate_ret name d = Ok r"
    unfolding vcf_vro_bootstrap_remediate_def unless_dry_def
    by (auto simp: bindM_Ok_iff would_def split: if_splits)
  from run consider v w2 where "exec_vro_bootstrap_verify exec opts host pw (PInt 10) w2 = Some (Ok v, w')" "truthy (dget v ''ok'' PNone)"
    | v w2 where "exec_vro_bootstrap_verify exec opts host pw vt' w2 = Some (Ok v, w')" "dget d ''ok'' PNone = dget v ''ok'' PNone"
        "dget d ''short_circuit'' PNone = PNone"
    unfolding exec_vro_bootstrap_remediate_def by (auto simp: bindM_Ok_iff split: if_splits)
  then obtain t v w2 where "exec_vro_bootstrap_verify exec opts host pw t w2 = Some (Ok v, w')" "truthy (dget v ''ok'' PNone)"
    by cases (use result [OF ret] in auto)
  then show ?thesis by (rule verify_ok)
qed

lemma vro_bootstrap_success_served_witness:
  "\<exists>r w' hn. vcf_vro_bootstrap_remediate (\<lambda>_ _. pureM (Some (0, ''vro'', []))) (opts_for ''vro'') ''v'' PNone PNone (PInt 600)
     (PInt 1800) (scripted [body_reply (PDict [(''version'', PStr ''9.0.2'')])]) = Some (Ok r, w') \<and>
     (\<exists>cfg w1 resp. http_send (about_request cfg hn) w1 = Some (Ok resp, w') \<and> status_code resp = 200)"
proof -
  let ?w = "scripted [body_reply (PDict [(''version'', PStr ''9.0.2'')])]"
  have run: "map_option fst (vcf_vro_bootstrap_remediate (\<lambda>_ _. pureM (Some (0, ''vro'', []))) (opts_for ''vro'') ''v'' PNone PNone
      (PInt 600) (PInt 1800) ?w) =
    Some (Ok (unchanged ''v'' (''vRO '' @ repr_str ''v'' @ '' already serving /vco/api/about (version='' @ repr_str ''9.0.2'' @ '')'')))"
    by code_simp
  from vro_bootstrap_success_served [OF run_result [OF run]] run_result [OF run] show ?thesis
    by (simp add: unchanged_def) blast
qed

subsection \<open>The hosts file\<close>

text \<open>A host name or an address: not empty, no blanks.\<close>

definition one_word :: "string \<Rightarrow> bool" where
  "one_word s \<longleftrightarrow> s \<noteq> [] \<and> list_all (\<lambda>c. \<not> is_blank c) s"

lemma split_blanks_word: "one_word s \<Longrightarrow> split_blanks s = [s]"
proof -
  assume s: "one_word s"
  then have w: "takeWhile (\<lambda>c. \<not> is_blank c) s = s" "dropWhile (\<lambda>c. \<not> is_blank c) s = []"
    by (auto simp: one_word_def list_all_iff)
  have d: "dropWhile is_blank s = s" "s \<noteq> []" using s by (cases s; auto simp: one_word_def)+
  have "split_blanks [] = []" by (subst split_blanks.simps) simp
  then show ?thesis by (subst split_blanks.simps) (simp add: w d)
qed

lemma split_blanks_record: "one_word a \<Longrightarrow> one_word b \<Longrightarrow> split_blanks (host_record a b) = [a, b]"
proof -
  assume a: "one_word a" and b: "one_word b"
  then obtain c a' where a': "a = c # a'" "\<not> is_blank c" by (cases a) (auto simp: one_word_def)
  have blank: "is_blank (CHR '' '')" by (simp add: is_blank_def)
  have "takeWhile (\<lambda>c. \<not> is_blank c) (a @ CHR '' '' # b) = a" "dropWhile (\<lambda>c. \<not> is_blank c) (a @ CHR '' '' # b) = CHR '' '' # b"
    using a blank by (auto simp: one_word_def list_all_iff takeWhile_append2 dropWhile_append2)
  moreover have "dropWhile is_blank (a @ CHR '' '' # b) = a @ CHR '' '' # b" using a' by simp
  moreover have "split_blanks (CHR '' '' # b) = split_blanks b"
    by (subst (1 2) split_blanks.simps) (simp add: blank)
  ultimately have "split_blanks (a @ CHR '' '' # b) = a # split_blanks b"
    using a' by (subst split_blanks.simps) simp
  then show ?thesis using split_blanks_word [OF b] by (simp add: host_record_def)
qed

lemma record_resolves:
  assumes "one_word hn" "one_word a"
  shows "host_primary a hn (host_record a hn)" "a = vro_LOOPBACK \<Longrightarrow> host_loopback hn (host_record a hn)"
  using split_blanks_record [OF assms(2,1)]
  by (auto simp: host_primary_def host_loopback_def) (auto simp: host_record_def starts_with_iff)

lemma loopback_word: "one_word vro_LOOPBACK"
  by (simp add: one_word_def vro_LOOPBACK_def is_blank_def)

lemma fixed_hosts_sane:
  assumes "one_word hn" "one_word ip" "\<forall>ln \<in> set ls. \<not> malformed (fix_line ln)"
    and "\<not> malformed (host_record vro_LOOPBACK hn)" "\<not> malformed (host_record ip hn)"
  shows "hosts_sane hn ip (fst (fixed_hosts hn ip ls))"
proof -
  have ip: "ip \<noteq> []" using assms(2) by (simp add: one_word_def)
  define l1 where "l1 = fst (with_loopback hn (map fix_line ls))"
  define l2 where "l2 = fst (with_primary ip hn l1)"
  have l1: "set l1 \<subseteq> insert (host_record vro_LOOPBACK hn) (fix_line ` set ls)" "list_ex (host_loopback hn) l1"
    using record_resolves(2) [OF assms(1) loopback_word refl] by (auto simp: l1_def with_loopback_def)
  have l2: "set l2 \<subseteq> insert (host_record ip hn) (set l1)" "set l1 \<subseteq> set l2" "list_ex (host_primary ip hn) l2"
    using record_resolves(1) [OF assms(1,2)] ip by (auto simp: l2_def with_primary_def)
  have "fst (fixed_hosts hn ip ls) = l2"
    by (simp add: fixed_hosts_def l2_def l1_def split_beta Let_def)
  moreover have "\<not> list_ex malformed l2" using l1(1) l2(1) assms(3-5) by (auto simp: list_ex_iff)
  moreover have "list_ex (host_loopback hn) l2" using l1(2) l2(2) by (auto simp: list_ex_iff)
  ultimately show ?thesis using l2(3) by (simp add: hosts_sane_def)
qed

lemma splitlines_no_break: "ln \<in> set (splitlines s) \<Longrightarrow> list_all (\<lambda>c. \<not> line_break c) ln"
proof (induction s arbitrary: ln rule: length_induct)
  case (1 s)
  show ?case
  proof (cases s)
    case (Cons c t)
    note ln = 1(2) [unfolded Cons splitlines.simps(2)]
    show ?thesis
    proof (cases "line_break c")
      case True
      then have "ln = [] \<or> ln \<in> set (splitlines t) \<or> (\<exists>d u. t = d # u \<and> ln \<in> set (splitlines u))"
        using ln by (cases t) (auto simp del: splitlines.simps split: if_splits)
      moreover have "x \<in> set (splitlines u) \<Longrightarrow> length u < length s \<Longrightarrow> list_all (\<lambda>c. \<not> line_break c) x" for x u
        using 1(1) by blast
      ultimately show ?thesis using Cons by (elim disjE exE conjE) (auto simp del: splitlines.simps)
    next
      case False
      then show ?thesis using ln 1(1) Cons by (cases "splitlines t") fastforce+
    qed
  qed (use 1(2) in simp)
qed

lemma splitlines_hosts_text:
  assumes "ls \<noteq> []" "\<forall>ln \<in> set ls. list_all (\<lambda>c. \<not> line_break c) ln"
  shows "splitlines (hosts_text ls) = ls"
  using assms
proof (induction ls rule: list_nonempty_induct)
  case (single ln)
  then show ?case using splitlines_line [of ln "[]"] by (simp add: hosts_text_def)
next
  case (cons ln ls)
  obtain a b where "ls = a # b" using cons.hyps by (cases ls) auto
  then have "hosts_text (ln # ls) = ln @ CHR 0x0A # hosts_text ls" by (simp add: hosts_text_def)
  with cons show ?case using splitlines_line [of ln "hosts_text ls"] by simp
qed

text \<open>The repair of \<open>/etc/hosts\<close> is idempotent: when no line held more than two records, the file that was written
  reads back as one that resolves the host name on both addresses, which a second run leaves alone.\<close>

theorem vro_hosts_repaired:
  assumes "one_word hn" "one_word ip" "\<forall>ln \<in> set (splitlines text). \<not> malformed (fix_line ln)"
    and "\<not> malformed (host_record vro_LOOPBACK hn)" "\<not> malformed (host_record ip hn)"
  shows "hosts_sane hn ip (splitlines (hosts_text (fst (fixed_hosts hn ip (splitlines text)))))"
proof -
  let ?ls = "fst (fixed_hosts hn ip (splitlines text))"
  have sane: "hosts_sane hn ip ?ls" using assms by (rule fixed_hosts_sane)
  have blank: "line_break c \<Longrightarrow> is_blank c" for c by (auto simp: line_break_def is_blank_def Let_def)
  have "list_all (\<lambda>c. \<not> line_break c) (host_record a hn)" if "one_word a" for a
    using that assms(1) blank by (auto simp: one_word_def host_record_def list_all_iff line_break_def)
  note rec = this [OF assms(2)] this [OF loopback_word]
  have "set (fix_line ln) \<subseteq> set ln" for ln
    by (auto simp: fix_line_def strip_def split: option.splits dest!: set_dropWhileD in_set_dropD)
  then have "list_all (\<lambda>c. \<not> line_break c) (fix_line ln)" if "ln \<in> set (splitlines text)" for ln
    using splitlines_no_break [OF that] by (force simp: list_all_iff)
  with rec have "\<forall>ln \<in> set ?ls. list_all (\<lambda>c. \<not> line_break c) ln"
    by (auto simp: fixed_hosts_def with_loopback_def with_primary_def split_beta Let_def)
  moreover have "?ls \<noteq> []" using sane by (auto simp: hosts_sane_def)
  ultimately show ?thesis using sane splitlines_hosts_text [of ?ls] by simp
qed

lemma vro_hosts_repaired_witness:
  "hosts_sane ''vro1'' ''10.0.0.5''
     (splitlines (hosts_text (fst (fixed_hosts ''vro1'' ''10.0.0.5'' (splitlines ''127.0.0.1 photon-1127.0.0.1 vra-k8s.local'')))))"
  by (rule vro_hosts_repaired) code_simp+

end
