(* ===== verification/Exec_Nsx.thy ===== *)
theory Exec_Nsx
  imports Nsx_Networking Nsx_Node Nsx_Security Nsx_Services Nsx_Store
begin

section \<open>Exec_Nsx: execution modules of NSX\<close>

text \<open>
  The execution functions of these modules: each reads \<open>__opts__\<close>, which is the argument \<open>opts\<close> here, and passes
  its arguments on to a function of the client module. A parameter of the client that the module leaves out has the
  default of the client. Python refuses a call whose keywords name a positional parameter twice; such calls are not
  in the domain of these definitions.
\<close>

subsection \<open>\<open>modules/vcf_nsx_cluster.py\<close>\<close>

definition exec_nsx_cluster_status :: "pyval \<Rightarrow> profile \<Rightarrow> pyval io" where
  "exec_nsx_cluster_status opts profile = nsx_cluster_status opts profile"

definition exec_nsx_cluster_api_virtual_ip_get :: "pyval \<Rightarrow> profile \<Rightarrow> pyval io" where
  "exec_nsx_cluster_api_virtual_ip_get opts profile = nsx_cluster_api_virtual_ip_get opts profile"

definition exec_nsx_cluster_api_virtual_ip_set ::
  "pyval \<Rightarrow> pyval \<Rightarrow> profile \<Rightarrow> pyval io" where
  "exec_nsx_cluster_api_virtual_ip_set opts ip_address profile =
     nsx_cluster_api_virtual_ip_set opts ip_address profile"

definition exec_nsx_cluster_api_virtual_ip_clear :: "pyval \<Rightarrow> profile \<Rightarrow> pyval io" where
  "exec_nsx_cluster_api_virtual_ip_clear opts profile = nsx_cluster_api_virtual_ip_clear opts profile"

subsection \<open>\<open>modules/vcf_nsx_compute_collection.py\<close>\<close>

definition exec_nsx_compute_collection_list :: "pyval \<Rightarrow> profile \<Rightarrow> pyval io" where
  "exec_nsx_compute_collection_list opts profile = nsx_compute_collection_list opts profile"

definition exec_nsx_compute_collection_get ::
  "pyval \<Rightarrow> pyval \<Rightarrow> profile \<Rightarrow> pyval io" where
  "exec_nsx_compute_collection_get opts collection_id profile = nsx_compute_collection_get opts collection_id profile"

subsection \<open>\<open>modules/vcf_nsx_context_profile.py\<close>\<close>

definition exec_nsx_context_profile_list :: "pyval \<Rightarrow> profile \<Rightarrow> pyval io" where
  "exec_nsx_context_profile_list opts profile = nsx_context_profile_list opts profile"




subsection \<open>\<open>modules/vcf_nsx_dhcp.py\<close>\<close>

definition exec_nsx_dhcp_server_list :: "pyval \<Rightarrow> profile \<Rightarrow> pyval io" where
  "exec_nsx_dhcp_server_list opts profile = nsx_dhcp_server_list opts profile"




definition exec_nsx_dhcp_relay_list :: "pyval \<Rightarrow> profile \<Rightarrow> pyval io" where
  "exec_nsx_dhcp_relay_list opts profile = nsx_dhcp_relay_list opts profile"

definition exec_nsx_dhcp_relay_get :: "pyval \<Rightarrow> pyval \<Rightarrow> profile \<Rightarrow> pyval io" where
  "exec_nsx_dhcp_relay_get opts relay_id profile = nsx_dhcp_relay_get opts relay_id profile"

definition exec_nsx_dhcp_relay_create ::
  "pyval \<Rightarrow> pyval \<Rightarrow> pyval \<Rightarrow> profile \<Rightarrow> dict \<Rightarrow> pyval io" where
  "exec_nsx_dhcp_relay_create opts relay_id server_addresses profile spec =
     nsx_dhcp_relay_create opts relay_id server_addresses profile spec"

definition exec_nsx_dhcp_relay_delete ::
  "pyval \<Rightarrow> pyval \<Rightarrow> profile \<Rightarrow> pyval io" where
  "exec_nsx_dhcp_relay_delete opts relay_id profile = nsx_dhcp_relay_delete opts relay_id profile"

subsection \<open>\<open>modules/vcf_nsx_dns_servers.py\<close>\<close>

definition exec_nsx_dns_servers_dns_get :: "pyval \<Rightarrow> profile \<Rightarrow> pyval io" where
  "exec_nsx_dns_servers_dns_get opts profile = nsx_dns_servers_dns_get opts profile"

definition exec_nsx_dns_servers_dns_set ::
  "pyval \<Rightarrow> pyval \<Rightarrow> profile \<Rightarrow> pyval io" where
  "exec_nsx_dns_servers_dns_set opts servers profile = nsx_dns_servers_dns_set opts servers profile"

subsection \<open>\<open>modules/vcf_nsx_edge.py\<close>\<close>

definition exec_nsx_edge_list :: "pyval \<Rightarrow> profile \<Rightarrow> pyval io" where
  "exec_nsx_edge_list opts profile = nsx_edge_list opts profile"

definition exec_nsx_edge_get :: "pyval \<Rightarrow> pyval \<Rightarrow> profile \<Rightarrow> pyval io" where
  "exec_nsx_edge_get opts node_id profile = nsx_edge_get opts node_id profile"

definition exec_nsx_edge_get_or_none :: "pyval \<Rightarrow> pyval \<Rightarrow> profile \<Rightarrow> pyval io" where
  "exec_nsx_edge_get_or_none opts node_id profile = nsx_edge_get_or_none opts node_id profile"

definition exec_nsx_edge_create :: "pyval \<Rightarrow> pyval \<Rightarrow> profile \<Rightarrow> pyval io" where
  "exec_nsx_edge_create opts body profile = nsx_edge_create opts body profile"

definition exec_nsx_edge_update ::
  "pyval \<Rightarrow> pyval \<Rightarrow> pyval \<Rightarrow> profile \<Rightarrow> pyval io" where
  "exec_nsx_edge_update opts node_id body profile = nsx_edge_update opts node_id body profile"

definition exec_nsx_edge_delete :: "pyval \<Rightarrow> pyval \<Rightarrow> profile \<Rightarrow> pyval io" where
  "exec_nsx_edge_delete opts node_id profile = nsx_edge_delete opts node_id profile"

definition exec_nsx_edge_redeploy ::
  "pyval \<Rightarrow> pyval \<Rightarrow> pyval \<Rightarrow> profile \<Rightarrow> pyval io" where
  "exec_nsx_edge_redeploy opts node_id body profile = nsx_edge_redeploy opts node_id body profile"

definition exec_nsx_edge_state :: "pyval \<Rightarrow> pyval \<Rightarrow> profile \<Rightarrow> pyval io" where
  "exec_nsx_edge_state opts node_id profile = nsx_edge_state opts node_id profile"

definition exec_nsx_edge_cluster_allocation_status ::
  "pyval \<Rightarrow> pyval \<Rightarrow> profile \<Rightarrow> pyval io" where
  "exec_nsx_edge_cluster_allocation_status opts cluster_id profile =
     nsx_edge_cluster_allocation_status opts cluster_id profile"

subsection \<open>\<open>modules/vcf_nsx_edge_cluster.py\<close>\<close>

definition exec_nsx_edge_cluster_list :: "pyval \<Rightarrow> profile \<Rightarrow> pyval io" where
  "exec_nsx_edge_cluster_list opts profile = nsx_edge_cluster_list opts profile"

definition exec_nsx_edge_cluster_get :: "pyval \<Rightarrow> pyval \<Rightarrow> profile \<Rightarrow> pyval io" where
  "exec_nsx_edge_cluster_get opts cluster_id profile = nsx_edge_cluster_get opts cluster_id profile"

definition exec_nsx_edge_cluster_create ::
  "pyval \<Rightarrow> pyval \<Rightarrow> profile \<Rightarrow> pyval io" where
  "exec_nsx_edge_cluster_create opts body profile = nsx_edge_cluster_create opts body profile"

definition exec_nsx_edge_cluster_update ::
  "pyval \<Rightarrow> pyval \<Rightarrow> pyval \<Rightarrow> profile \<Rightarrow> pyval io" where
  "exec_nsx_edge_cluster_update opts cluster_id body profile = nsx_edge_cluster_update opts cluster_id body profile"

definition exec_nsx_edge_cluster_delete ::
  "pyval \<Rightarrow> pyval \<Rightarrow> profile \<Rightarrow> pyval io" where
  "exec_nsx_edge_cluster_delete opts cluster_id profile = nsx_edge_cluster_delete opts cluster_id profile"

definition exec_nsx_edge_cluster_state ::
  "pyval \<Rightarrow> pyval \<Rightarrow> profile \<Rightarrow> pyval io" where
  "exec_nsx_edge_cluster_state opts cluster_id profile = nsx_edge_cluster_state opts cluster_id profile"

subsection \<open>\<open>modules/vcf_nsx_firewall_rule.py\<close>\<close>

definition exec_nsx_firewall_rule_list ::
  "pyval \<Rightarrow> pyval \<Rightarrow> pyval \<Rightarrow> profile \<Rightarrow> pyval io" where
  "exec_nsx_firewall_rule_list opts policy domain_id profile = nsx_firewall_rule_list opts policy domain_id profile"




subsection \<open>\<open>modules/vcf_nsx_group.py\<close>\<close>

definition exec_nsx_group_list :: "pyval \<Rightarrow> profile \<Rightarrow> pyval io" where
  "exec_nsx_group_list opts profile = nsx_group_list opts profile"




subsection \<open>\<open>modules/vcf_nsx_ids.py\<close>\<close>

definition exec_nsx_ids_get_global_config :: "pyval \<Rightarrow> profile \<Rightarrow> pyval io" where
  "exec_nsx_ids_get_global_config opts profile = nsx_ids_get_global_config opts profile"

definition exec_nsx_ids_set_global_config ::
  "pyval \<Rightarrow> profile \<Rightarrow> dict \<Rightarrow> pyval io" where
  "exec_nsx_ids_set_global_config opts profile spec = nsx_ids_set_global_config opts profile spec"

definition exec_nsx_ids_list_cluster_configs :: "pyval \<Rightarrow> profile \<Rightarrow> pyval io" where
  "exec_nsx_ids_list_cluster_configs opts profile = nsx_ids_list_cluster_configs opts profile"

definition exec_nsx_ids_get_cluster_config ::
  "pyval \<Rightarrow> pyval \<Rightarrow> profile \<Rightarrow> pyval io" where
  "exec_nsx_ids_get_cluster_config opts cluster_id profile = nsx_ids_get_cluster_config opts cluster_id profile"

definition exec_nsx_ids_set_cluster_config ::
  "pyval \<Rightarrow> pyval \<Rightarrow> profile \<Rightarrow> dict \<Rightarrow> pyval io" where
  "exec_nsx_ids_set_cluster_config opts cluster_id profile spec =
     nsx_ids_set_cluster_config opts cluster_id profile spec"

definition exec_nsx_ids_list_profiles :: "pyval \<Rightarrow> profile \<Rightarrow> pyval io" where
  "exec_nsx_ids_list_profiles opts profile = nsx_ids_list_profiles opts profile"




definition exec_nsx_ids_list_signatures :: "pyval \<Rightarrow> profile \<Rightarrow> pyval io" where
  "exec_nsx_ids_list_signatures opts profile = nsx_ids_list_signatures opts (PStr ''DEFAULT'') profile"

definition exec_nsx_ids_get_signature ::
  "pyval \<Rightarrow> pyval \<Rightarrow> profile \<Rightarrow> pyval io" where
  "exec_nsx_ids_get_signature opts signature_id profile =
     nsx_ids_get_signature opts signature_id (PStr ''DEFAULT'') profile"

definition exec_nsx_ids_list_policies ::
  "pyval \<Rightarrow> pyval \<Rightarrow> profile \<Rightarrow> pyval io" where
  "exec_nsx_ids_list_policies opts domain_id profile = nsx_ids_list_policies opts domain_id profile"




definition exec_nsx_ids_list_rules ::
  "pyval \<Rightarrow> pyval \<Rightarrow> pyval \<Rightarrow> profile \<Rightarrow> pyval io" where
  "exec_nsx_ids_list_rules opts policy domain_id profile = nsx_ids_list_rules opts policy domain_id profile"




subsection \<open>\<open>modules/vcf_nsx_ip_block.py\<close>\<close>

definition exec_nsx_ip_block_list :: "pyval \<Rightarrow> profile \<Rightarrow> pyval io" where
  "exec_nsx_ip_block_list opts profile = nsx_ip_block_list opts profile"




subsection \<open>\<open>modules/vcf_nsx_ip_pool.py\<close>\<close>

definition exec_nsx_ip_pool_list :: "pyval \<Rightarrow> profile \<Rightarrow> pyval io" where
  "exec_nsx_ip_pool_list opts profile = nsx_ip_pool_list opts profile"




definition exec_nsx_ip_pool_list_subnets ::
  "pyval \<Rightarrow> pyval \<Rightarrow> profile \<Rightarrow> pyval io" where
  "exec_nsx_ip_pool_list_subnets opts pool_id profile = nsx_ip_pool_list_subnets opts pool_id profile"

definition exec_nsx_ip_pool_create_subnet ::
  "pyval \<Rightarrow> pyval \<Rightarrow> pyval \<Rightarrow> profile \<Rightarrow> dict \<Rightarrow> pyval io" where
  "exec_nsx_ip_pool_create_subnet opts pool_id subnet_id profile spec =
     nsx_ip_pool_create_subnet opts pool_id subnet_id profile spec"

definition exec_nsx_ip_pool_delete_subnet ::
  "pyval \<Rightarrow> pyval \<Rightarrow> pyval \<Rightarrow> profile \<Rightarrow> pyval io" where
  "exec_nsx_ip_pool_delete_subnet opts pool_id subnet_id profile =
     nsx_ip_pool_delete_subnet opts pool_id subnet_id profile"

definition exec_nsx_ip_pool_list_allocations ::
  "pyval \<Rightarrow> pyval \<Rightarrow> profile \<Rightarrow> pyval io" where
  "exec_nsx_ip_pool_list_allocations opts pool_id profile = nsx_ip_pool_list_allocations opts pool_id profile"

subsection \<open>\<open>modules/vcf_nsx_ipsec_vpn.py\<close>\<close>

definition exec_nsx_ipsec_vpn_list_ike_profiles :: "pyval \<Rightarrow> profile \<Rightarrow> pyval io" where
  "exec_nsx_ipsec_vpn_list_ike_profiles opts profile = nsx_ipsec_vpn_list_ike_profiles opts profile"




definition exec_nsx_ipsec_vpn_list_tunnel_profiles :: "pyval \<Rightarrow> profile \<Rightarrow> pyval io" where
  "exec_nsx_ipsec_vpn_list_tunnel_profiles opts profile = nsx_ipsec_vpn_list_tunnel_profiles opts profile"




definition exec_nsx_ipsec_vpn_list_dpd_profiles :: "pyval \<Rightarrow> profile \<Rightarrow> pyval io" where
  "exec_nsx_ipsec_vpn_list_dpd_profiles opts profile = nsx_ipsec_vpn_list_dpd_profiles opts profile"




definition exec_nsx_ipsec_vpn_list_services ::
  "pyval \<Rightarrow> pyval \<Rightarrow> pyval \<Rightarrow> profile \<Rightarrow> pyval io" where
  "exec_nsx_ipsec_vpn_list_services opts tier0 locl profile = nsx_ipsec_vpn_list_services opts tier0 locl profile"




definition exec_nsx_ipsec_vpn_list_sessions ::
  "pyval \<Rightarrow> pyval \<Rightarrow> pyval \<Rightarrow> pyval \<Rightarrow> profile \<Rightarrow> pyval io" where
  "exec_nsx_ipsec_vpn_list_sessions opts tier0 locl service profile =
     nsx_ipsec_vpn_list_sessions opts tier0 locl service profile"




subsection \<open>\<open>modules/vcf_nsx_l2_vpn.py\<close>\<close>

definition exec_nsx_l2_vpn_list_services ::
  "pyval \<Rightarrow> pyval \<Rightarrow> pyval \<Rightarrow> profile \<Rightarrow> pyval io" where
  "exec_nsx_l2_vpn_list_services opts tier0 locl profile = nsx_l2_vpn_list_services opts tier0 locl profile"




definition exec_nsx_l2_vpn_list_sessions ::
  "pyval \<Rightarrow> pyval \<Rightarrow> pyval \<Rightarrow> pyval \<Rightarrow> profile \<Rightarrow> pyval io" where
  "exec_nsx_l2_vpn_list_sessions opts tier0 locl service profile =
     nsx_l2_vpn_list_sessions opts tier0 locl service profile"




subsection \<open>\<open>modules/vcf_nsx_lb.py\<close>\<close>

definition exec_nsx_lb_list_services :: "pyval \<Rightarrow> profile \<Rightarrow> pyval io" where
  "exec_nsx_lb_list_services opts profile = nsx_lb_service_list opts profile"




definition exec_nsx_lb_list_virtual_servers :: "pyval \<Rightarrow> profile \<Rightarrow> pyval io" where
  "exec_nsx_lb_list_virtual_servers opts profile = nsx_lb_virtual_server_list opts profile"




definition exec_nsx_lb_list_pools :: "pyval \<Rightarrow> profile \<Rightarrow> pyval io" where
  "exec_nsx_lb_list_pools opts profile = nsx_lb_pool_list opts profile"




definition exec_nsx_lb_list_monitors :: "pyval \<Rightarrow> profile \<Rightarrow> pyval io" where
  "exec_nsx_lb_list_monitors opts profile = nsx_lb_monitor_list opts profile"




definition exec_nsx_lb_list_app_profiles :: "pyval \<Rightarrow> profile \<Rightarrow> pyval io" where
  "exec_nsx_lb_list_app_profiles opts profile = nsx_lb_app_profile_list opts profile"




definition exec_nsx_lb_list_persistence_profiles :: "pyval \<Rightarrow> profile \<Rightarrow> pyval io" where
  "exec_nsx_lb_list_persistence_profiles opts profile = nsx_lb_persistence_list opts profile"




subsection \<open>\<open>modules/vcf_nsx_ldap.py\<close>\<close>

definition exec_nsx_ldap_list :: "pyval \<Rightarrow> profile \<Rightarrow> pyval io" where
  "exec_nsx_ldap_list opts profile = nsx_ldap_list opts profile"

definition exec_nsx_ldap_create ::
  "pyval \<Rightarrow> pyval \<Rightarrow> pyval \<Rightarrow> pyval \<Rightarrow> profile \<Rightarrow> dict \<Rightarrow> pyval io" where
  "exec_nsx_ldap_create opts name ldap_servers base_dn profile spec =
     nsx_ldap_create opts name ldap_servers base_dn profile spec"

definition exec_nsx_ldap_update ::
  "pyval \<Rightarrow> pyval \<Rightarrow> pyval \<Rightarrow> profile \<Rightarrow> pyval io" where
  "exec_nsx_ldap_update opts source_id body profile = nsx_ldap_update opts source_id body profile"

definition exec_nsx_ldap_delete :: "pyval \<Rightarrow> pyval \<Rightarrow> profile \<Rightarrow> pyval io" where
  "exec_nsx_ldap_delete opts source_id profile = nsx_ldap_delete opts source_id profile"

subsection \<open>\<open>modules/vcf_nsx_localos_user.py\<close>\<close>

definition exec_nsx_localos_user_list :: "pyval \<Rightarrow> profile \<Rightarrow> pyval io" where
  "exec_nsx_localos_user_list opts profile = nsx_localos_user_list opts profile"

definition exec_nsx_localos_user_get_or_none ::
  "pyval \<Rightarrow> pyval \<Rightarrow> profile \<Rightarrow> pyval io" where
  "exec_nsx_localos_user_get_or_none opts username profile = nsx_localos_user_get_or_none opts username profile"

definition exec_nsx_localos_user_create ::
  "pyval \<Rightarrow> pyval \<Rightarrow> pyval \<Rightarrow> pyval \<Rightarrow> profile \<Rightarrow> dict \<Rightarrow> pyval io" where
  "exec_nsx_localos_user_create opts username password role profile spec =
     nsx_localos_user_create opts username password role profile spec"

definition exec_nsx_localos_user_update ::
  "pyval \<Rightarrow> pyval \<Rightarrow> pyval \<Rightarrow> profile \<Rightarrow> pyval io" where
  "exec_nsx_localos_user_update opts userid body profile = nsx_localos_user_update opts userid body profile"

definition exec_nsx_localos_user_delete ::
  "pyval \<Rightarrow> pyval \<Rightarrow> profile \<Rightarrow> pyval io" where
  "exec_nsx_localos_user_delete opts userid profile = nsx_localos_user_delete opts userid profile"

subsection \<open>\<open>modules/vcf_nsx_nat.py\<close>\<close>

definition exec_nsx_nat_list ::
  "pyval \<Rightarrow> pyval \<Rightarrow> pyval \<Rightarrow> profile \<Rightarrow> pyval io" where
  "exec_nsx_nat_list opts t1 scope profile = nsx_nat_list opts t1 scope profile"


definition exec_nsx_nat_get_or_none ::
  "pyval \<Rightarrow> pyval \<Rightarrow> pyval \<Rightarrow> pyval \<Rightarrow> profile \<Rightarrow> pyval io" where
  "exec_nsx_nat_get_or_none opts rule t1 scope profile = nsx_nat_get_or_none opts rule t1 scope profile"



definition exec_nsx_nat_list_t0 ::
  "pyval \<Rightarrow> pyval \<Rightarrow> pyval \<Rightarrow> profile \<Rightarrow> pyval io" where
  "exec_nsx_nat_list_t0 opts t0 scope profile = nsx_nat_list_t0 opts t0 scope profile"

subsection \<open>\<open>modules/vcf_nsx_node.py\<close>\<close>

definition exec_nsx_node_get :: "pyval \<Rightarrow> profile \<Rightarrow> pyval io" where
  "exec_nsx_node_get opts profile = nsx_node_get opts profile"

subsection \<open>\<open>modules/vcf_nsx_node_services.py\<close>\<close>

text \<open>The arguments that were given are laid over the other keywords, in the order of the code.\<close>

definition given_fields :: "(string \<times> pyval) list \<Rightarrow> dict \<Rightarrow> dict" where
  "given_fields args extra = foldl (\<lambda>d (k, v). if v \<noteq> PNone then dset d k v else d) extra args"

definition exec_nsx_node_services_http_get :: "pyval \<Rightarrow> profile \<Rightarrow> pyval io" where
  "exec_nsx_node_services_http_get opts profile = nsx_node_services_http_get opts profile"

definition exec_nsx_node_services_http_set ::
  "pyval \<Rightarrow> pyval \<Rightarrow> pyval \<Rightarrow> pyval \<Rightarrow> pyval \<Rightarrow> pyval \<Rightarrow> profile \<Rightarrow> dict \<Rightarrow> pyval io" where
  "exec_nsx_node_services_http_set opts client_api_rate_limit client_api_concurrency_limit
     global_api_concurrency_limit connection_timeout redirect_host profile extra =
     nsx_node_services_http_set opts profile (given_fields
       [(''client_api_rate_limit'', client_api_rate_limit),
        (''client_api_concurrency_limit'', client_api_concurrency_limit),
        (''global_api_concurrency_limit'', global_api_concurrency_limit),
        (''connection_timeout'', connection_timeout), (''redirect_host'', redirect_host)] extra)"

subsection \<open>\<open>modules/vcf_nsx_ntp_servers.py\<close>\<close>

definition exec_nsx_ntp_servers_ntp_get :: "pyval \<Rightarrow> profile \<Rightarrow> pyval io" where
  "exec_nsx_ntp_servers_ntp_get opts profile = nsx_ntp_servers_ntp_get opts profile"

definition exec_nsx_ntp_servers_ntp_set ::
  "pyval \<Rightarrow> pyval \<Rightarrow> profile \<Rightarrow> pyval io" where
  "exec_nsx_ntp_servers_ntp_set opts servers profile = nsx_ntp_servers_ntp_set opts servers profile"

subsection \<open>\<open>modules/vcf_nsx_qos_profile.py\<close>\<close>

definition exec_nsx_qos_profile_list :: "pyval \<Rightarrow> profile \<Rightarrow> pyval io" where
  "exec_nsx_qos_profile_list opts profile = nsx_qos_profile_list opts profile"




subsection \<open>\<open>modules/vcf_nsx_role_binding.py\<close>\<close>

definition exec_nsx_role_binding_list :: "pyval \<Rightarrow> profile \<Rightarrow> pyval io" where
  "exec_nsx_role_binding_list opts profile = nsx_role_binding_list opts profile"

definition exec_nsx_role_binding_get :: "pyval \<Rightarrow> pyval \<Rightarrow> profile \<Rightarrow> pyval io" where
  "exec_nsx_role_binding_get opts binding_id profile = nsx_role_binding_get opts binding_id profile"

definition exec_nsx_role_binding_create ::
  "pyval \<Rightarrow> pyval \<Rightarrow> pyval \<Rightarrow> pyval \<Rightarrow> profile \<Rightarrow> dict \<Rightarrow> pyval io" where
  "exec_nsx_role_binding_create opts name kind roles profile spec =
     nsx_role_binding_create opts name kind roles profile spec"

definition exec_nsx_role_binding_update ::
  "pyval \<Rightarrow> pyval \<Rightarrow> pyval \<Rightarrow> profile \<Rightarrow> pyval io" where
  "exec_nsx_role_binding_update opts binding_id body profile = nsx_role_binding_update opts binding_id body profile"

definition exec_nsx_role_binding_delete ::
  "pyval \<Rightarrow> pyval \<Rightarrow> profile \<Rightarrow> pyval io" where
  "exec_nsx_role_binding_delete opts binding_id profile = nsx_role_binding_delete opts binding_id profile"

subsection \<open>\<open>modules/vcf_nsx_security_policy.py\<close>\<close>

definition exec_nsx_security_policy_list ::
  "pyval \<Rightarrow> pyval \<Rightarrow> profile \<Rightarrow> pyval io" where
  "exec_nsx_security_policy_list opts domain_id profile = nsx_security_policy_list opts domain_id profile"




subsection \<open>\<open>modules/vcf_nsx_segment.py\<close>\<close>

definition exec_nsx_segment_list :: "pyval \<Rightarrow> profile \<Rightarrow> pyval io" where
  "exec_nsx_segment_list opts profile = nsx_segment_list opts profile"




subsection \<open>\<open>modules/vcf_nsx_service.py\<close>\<close>

definition exec_nsx_service_list :: "pyval \<Rightarrow> profile \<Rightarrow> pyval io" where
  "exec_nsx_service_list opts profile = nsx_service_list opts profile"




subsection \<open>\<open>modules/vcf_nsx_syslog_exporter.py\<close>\<close>

definition exec_nsx_syslog_exporter_list :: "pyval \<Rightarrow> profile \<Rightarrow> pyval io" where
  "exec_nsx_syslog_exporter_list opts profile = nsx_syslog_exporter_list opts profile"

definition exec_nsx_syslog_exporter_get ::
  "pyval \<Rightarrow> pyval \<Rightarrow> profile \<Rightarrow> pyval io" where
  "exec_nsx_syslog_exporter_get opts exporter_name profile = nsx_syslog_exporter_get opts exporter_name profile"

definition exec_nsx_syslog_exporter_create ::
  "pyval \<Rightarrow> pyval \<Rightarrow> pyval \<Rightarrow> pyval \<Rightarrow> pyval \<Rightarrow> profile \<Rightarrow> dict \<Rightarrow> pyval io" where
  "exec_nsx_syslog_exporter_create opts exporter_name server port protocol profile spec =
     nsx_syslog_exporter_create opts exporter_name server port protocol profile spec"

definition exec_nsx_syslog_exporter_delete ::
  "pyval \<Rightarrow> pyval \<Rightarrow> profile \<Rightarrow> pyval io" where
  "exec_nsx_syslog_exporter_delete opts exporter_name profile = nsx_syslog_exporter_delete opts exporter_name profile"

subsection \<open>\<open>modules/vcf_nsx_telemetry.py\<close>\<close>

definition exec_nsx_telemetry_get :: "pyval \<Rightarrow> profile \<Rightarrow> pyval io" where
  "exec_nsx_telemetry_get opts profile = nsx_telemetry_get opts profile"

definition exec_nsx_telemetry_set_optin ::
  "pyval \<Rightarrow> pyval \<Rightarrow> profile \<Rightarrow> pyval io" where
  "exec_nsx_telemetry_set_optin opts optin profile = nsx_telemetry_set_optin opts optin profile"

subsection \<open>\<open>modules/vcf_nsx_tier0.py\<close>\<close>

definition exec_nsx_tier0_list :: "pyval \<Rightarrow> profile \<Rightarrow> pyval io" where
  "exec_nsx_tier0_list opts profile = nsx_tier0_list opts profile"

definition exec_nsx_tier0_get :: "pyval \<Rightarrow> pyval \<Rightarrow> profile \<Rightarrow> pyval io" where
  "exec_nsx_tier0_get opts tier0 profile = nsx_tier0_get opts tier0 profile"

definition exec_nsx_tier0_bgp_get ::
  "pyval \<Rightarrow> pyval \<Rightarrow> pyval \<Rightarrow> profile \<Rightarrow> pyval io" where
  "exec_nsx_tier0_bgp_get opts tier0 locale_service profile = nsx_tier0_bgp_get opts tier0 locale_service profile"

definition exec_nsx_tier0_bgp_set ::
  "pyval \<Rightarrow> pyval \<Rightarrow> pyval \<Rightarrow> pyval \<Rightarrow> profile \<Rightarrow> dict \<Rightarrow> pyval io" where
  "exec_nsx_tier0_bgp_set opts tier0 enabled locale_service profile extra =
     nsx_tier0_bgp_set opts tier0 enabled locale_service profile extra"

definition exec_nsx_tier0_ospf_get ::
  "pyval \<Rightarrow> pyval \<Rightarrow> pyval \<Rightarrow> profile \<Rightarrow> pyval io" where
  "exec_nsx_tier0_ospf_get opts tier0 locale_service profile = nsx_tier0_ospf_get opts tier0 locale_service profile"

definition exec_nsx_tier0_ospf_set ::
  "pyval \<Rightarrow> pyval \<Rightarrow> pyval \<Rightarrow> pyval \<Rightarrow> profile \<Rightarrow> dict \<Rightarrow> pyval io" where
  "exec_nsx_tier0_ospf_set opts tier0 enabled locale_service profile extra =
     nsx_tier0_ospf_set opts tier0 enabled locale_service profile extra"

definition exec_nsx_tier0_multicast_get ::
  "pyval \<Rightarrow> pyval \<Rightarrow> pyval \<Rightarrow> profile \<Rightarrow> pyval io" where
  "exec_nsx_tier0_multicast_get opts tier0 locale_service profile =
     nsx_tier0_multicast_get opts tier0 locale_service profile"

definition exec_nsx_tier0_multicast_set ::
  "pyval \<Rightarrow> pyval \<Rightarrow> pyval \<Rightarrow> pyval \<Rightarrow> profile \<Rightarrow> dict \<Rightarrow> pyval io" where
  "exec_nsx_tier0_multicast_set opts tier0 enabled locale_service profile extra =
     nsx_tier0_multicast_set opts tier0 enabled locale_service profile extra"

subsection \<open>\<open>modules/vcf_nsx_tier1.py\<close>\<close>

definition exec_nsx_tier1_list :: "pyval \<Rightarrow> profile \<Rightarrow> pyval io" where
  "exec_nsx_tier1_list opts profile = nsx_tier1_list opts profile"




definition exec_nsx_tier1_multicast_get ::
  "pyval \<Rightarrow> pyval \<Rightarrow> pyval \<Rightarrow> profile \<Rightarrow> pyval io" where
  "exec_nsx_tier1_multicast_get opts tier1 locale_service profile =
     nsx_tier1_multicast_get opts tier1 locale_service profile"

definition exec_nsx_tier1_multicast_set ::
  "pyval \<Rightarrow> pyval \<Rightarrow> pyval \<Rightarrow> pyval \<Rightarrow> profile \<Rightarrow> dict \<Rightarrow> pyval io" where
  "exec_nsx_tier1_multicast_set opts tier1 enabled locale_service profile extra =
     nsx_tier1_multicast_set opts tier1 enabled locale_service profile extra"

subsection \<open>\<open>modules/vcf_nsx_transport_node.py\<close>\<close>

definition exec_nsx_transport_node_list :: "pyval \<Rightarrow> profile \<Rightarrow> pyval io" where
  "exec_nsx_transport_node_list opts profile = nsx_transport_node_list opts profile"

definition exec_nsx_transport_node_get ::
  "pyval \<Rightarrow> pyval \<Rightarrow> profile \<Rightarrow> pyval io" where
  "exec_nsx_transport_node_get opts node_id profile = nsx_transport_node_get opts node_id profile"

subsection \<open>\<open>modules/vcf_nsx_transport_zone.py\<close>\<close>

definition exec_nsx_transport_zone_list :: "pyval \<Rightarrow> profile \<Rightarrow> pyval io" where
  "exec_nsx_transport_zone_list opts profile = nsx_transport_zone_list opts profile"

definition exec_nsx_transport_zone_get ::
  "pyval \<Rightarrow> pyval \<Rightarrow> profile \<Rightarrow> pyval io" where
  "exec_nsx_transport_zone_get opts zone_id profile = nsx_transport_zone_get opts zone_id profile"

definition exec_nsx_transport_zone_create ::
  "pyval \<Rightarrow> pyval \<Rightarrow> pyval \<Rightarrow> profile \<Rightarrow> dict \<Rightarrow> pyval io" where
  "exec_nsx_transport_zone_create opts name zone_type profile spec =
     nsx_transport_zone_create opts name zone_type profile spec"

definition exec_nsx_transport_zone_update ::
  "pyval \<Rightarrow> pyval \<Rightarrow> profile \<Rightarrow> dict \<Rightarrow> pyval io" where
  "exec_nsx_transport_zone_update opts zone_id profile spec = nsx_transport_zone_update opts zone_id profile spec"

definition exec_nsx_transport_zone_delete ::
  "pyval \<Rightarrow> pyval \<Rightarrow> profile \<Rightarrow> pyval io" where
  "exec_nsx_transport_zone_delete opts zone_id profile = nsx_transport_zone_delete opts zone_id profile"

subsection \<open>\<open>modules/vcf_nsx_upgrade.py\<close>\<close>

definition exec_nsx_upgrade_status_summary :: "pyval \<Rightarrow> profile \<Rightarrow> pyval io" where
  "exec_nsx_upgrade_status_summary opts profile = nsx_upgrade_status_summary opts profile"

definition exec_nsx_upgrade_history :: "pyval \<Rightarrow> profile \<Rightarrow> pyval io" where
  "exec_nsx_upgrade_history opts profile = nsx_upgrade_history opts profile"

definition exec_nsx_upgrade_start :: "pyval \<Rightarrow> profile \<Rightarrow> pyval io" where
  "exec_nsx_upgrade_start opts profile = nsx_upgrade_start opts profile"

definition exec_nsx_upgrade_pause :: "pyval \<Rightarrow> profile \<Rightarrow> pyval io" where
  "exec_nsx_upgrade_pause opts profile = nsx_upgrade_pause opts profile"

definition exec_nsx_upgrade_resume :: "pyval \<Rightarrow> profile \<Rightarrow> pyval io" where
  "exec_nsx_upgrade_resume opts profile = nsx_upgrade_resume opts profile"

definition exec_nsx_upgrade_reset :: "pyval \<Rightarrow> profile \<Rightarrow> pyval io" where
  "exec_nsx_upgrade_reset opts profile = nsx_upgrade_reset opts profile"

definition exec_nsx_upgrade_get_plan_settings :: "pyval \<Rightarrow> profile \<Rightarrow> pyval io" where
  "exec_nsx_upgrade_get_plan_settings opts profile = nsx_upgrade_get_plan_settings opts profile"

definition exec_nsx_upgrade_update_plan_settings ::
  "pyval \<Rightarrow> pyval \<Rightarrow> profile \<Rightarrow> pyval io" where
  "exec_nsx_upgrade_update_plan_settings opts settings profile =
     nsx_upgrade_update_plan_settings opts settings profile"

definition exec_nsx_upgrade_list_groups :: "pyval \<Rightarrow> profile \<Rightarrow> pyval io" where
  "exec_nsx_upgrade_list_groups opts profile = nsx_upgrade_list_groups opts profile"

definition exec_nsx_upgrade_get_group ::
  "pyval \<Rightarrow> pyval \<Rightarrow> profile \<Rightarrow> pyval io" where
  "exec_nsx_upgrade_get_group opts group_id profile = nsx_upgrade_get_group opts group_id profile"

definition exec_nsx_upgrade_get_group_or_none ::
  "pyval \<Rightarrow> pyval \<Rightarrow> profile \<Rightarrow> pyval io" where
  "exec_nsx_upgrade_get_group_or_none opts group_id profile = nsx_upgrade_get_group_or_none opts group_id profile"

definition exec_nsx_upgrade_create_group ::
  "pyval \<Rightarrow> pyval \<Rightarrow> profile \<Rightarrow> pyval io" where
  "exec_nsx_upgrade_create_group opts group_spec profile = nsx_upgrade_create_group opts group_spec profile"

definition exec_nsx_upgrade_update_group ::
  "pyval \<Rightarrow> pyval \<Rightarrow> pyval \<Rightarrow> profile \<Rightarrow> pyval io" where
  "exec_nsx_upgrade_update_group opts group_id group_spec profile =
     nsx_upgrade_update_group opts group_id group_spec profile"

definition exec_nsx_upgrade_delete_group ::
  "pyval \<Rightarrow> pyval \<Rightarrow> profile \<Rightarrow> pyval io" where
  "exec_nsx_upgrade_delete_group opts group_id profile = nsx_upgrade_delete_group opts group_id profile"

definition exec_nsx_upgrade_list_units ::
  "pyval \<Rightarrow> pyval \<Rightarrow> profile \<Rightarrow> pyval io" where
  "exec_nsx_upgrade_list_units opts group_id profile = nsx_upgrade_list_units opts group_id profile"

definition exec_nsx_upgrade_get_unit :: "pyval \<Rightarrow> pyval \<Rightarrow> profile \<Rightarrow> pyval io" where
  "exec_nsx_upgrade_get_unit opts unit_id profile = nsx_upgrade_get_unit opts unit_id profile"

definition exec_nsx_upgrade_get_unit_or_none ::
  "pyval \<Rightarrow> pyval \<Rightarrow> profile \<Rightarrow> pyval io" where
  "exec_nsx_upgrade_get_unit_or_none opts unit_id profile = nsx_upgrade_get_unit_or_none opts unit_id profile"

definition exec_nsx_upgrade_list_bundles :: "pyval \<Rightarrow> profile \<Rightarrow> pyval io" where
  "exec_nsx_upgrade_list_bundles opts profile = nsx_upgrade_list_bundles opts profile"

definition exec_nsx_upgrade_get_bundle ::
  "pyval \<Rightarrow> pyval \<Rightarrow> profile \<Rightarrow> pyval io" where
  "exec_nsx_upgrade_get_bundle opts bundle_id profile = nsx_upgrade_get_bundle opts bundle_id profile"

definition exec_nsx_upgrade_get_bundle_or_none ::
  "pyval \<Rightarrow> pyval \<Rightarrow> profile \<Rightarrow> pyval io" where
  "exec_nsx_upgrade_get_bundle_or_none opts bundle_id profile = nsx_upgrade_get_bundle_or_none opts bundle_id profile"

definition exec_nsx_upgrade_wait_for_completion ::
  "pyval \<Rightarrow> int \<Rightarrow> int \<Rightarrow> profile \<Rightarrow> pyval io" where
  "exec_nsx_upgrade_wait_for_completion opts timeout poll_interval profile =
     nsx_upgrade_wait_for_completion opts timeout poll_interval profile"

subsection \<open>\<open>modules/vcf_nsx_uplink_profile.py\<close>\<close>

definition exec_nsx_uplink_profile_list :: "pyval \<Rightarrow> profile \<Rightarrow> pyval io" where
  "exec_nsx_uplink_profile_list opts profile = nsx_uplink_profile_list opts profile"




subsection \<open>\<open>modules/vcf_nsx_vidm.py\<close>\<close>

definition exec_nsx_vidm_get :: "pyval \<Rightarrow> profile \<Rightarrow> pyval io" where
  "exec_nsx_vidm_get opts profile = nsx_vidm_get opts profile"

definition exec_nsx_vidm_update :: "pyval \<Rightarrow> profile \<Rightarrow> dict \<Rightarrow> pyval io" where
  "exec_nsx_vidm_update opts profile body = nsx_vidm_update opts profile body"

subsection \<open>What the calls on one object do to the manager\<close>





end
