(* ===== verification/Exec_Sddc.thy ===== *)
theory Exec_Sddc
  imports Installer_Bringup Rest_Store Sddc_Clients Vrli_Master Vrli_Settings
begin

section \<open>Exec_Sddc: execution modules of SDDC Manager, the Installer and Log Insight\<close>

text \<open>
  The execution functions of these modules: each reads \<open>__opts__\<close>, which is the argument \<open>opts\<close> here, and passes
  its arguments on to a function of the client module. A parameter of the client that the module leaves out has the
  default of the client. Python refuses a call whose keywords name a positional parameter twice; such calls are not
  in the domain of these definitions.
\<close>

subsection \<open>\<open>modules/vcf_fleet_password.py\<close>\<close>

definition exec_fleet_password_list_accounts :: "pyval \<Rightarrow> profile \<Rightarrow> pyval io" where
  "exec_fleet_password_list_accounts opts profile = fleet_password_list_accounts opts profile"

definition exec_fleet_password_get_account ::
  "pyval \<Rightarrow> pyval \<Rightarrow> profile \<Rightarrow> pyval io" where
  "exec_fleet_password_get_account opts account_key profile = fleet_password_get_account opts account_key profile"

definition exec_fleet_password_get_password ::
  "pyval \<Rightarrow> pyval \<Rightarrow> profile \<Rightarrow> pyval io" where
  "exec_fleet_password_get_password opts account_key profile = fleet_password_get_password opts account_key profile"

definition exec_fleet_password_set_password ::
  "pyval \<Rightarrow> pyval \<Rightarrow> pyval \<Rightarrow> profile \<Rightarrow> pyval io" where
  "exec_fleet_password_set_password opts account_key new_password profile =
     fleet_password_set_password opts account_key new_password profile"

definition exec_fleet_password_rotate ::
  "pyval \<Rightarrow> pyval \<Rightarrow> profile \<Rightarrow> pyval io" where
  "exec_fleet_password_rotate opts account_key profile = fleet_password_rotate opts account_key profile"

definition exec_fleet_password_history ::
  "pyval \<Rightarrow> pyval \<Rightarrow> profile \<Rightarrow> pyval io" where
  "exec_fleet_password_history opts account_key profile = fleet_password_history opts account_key profile"

subsection \<open>\<open>modules/vcf_installer_bringup.py\<close>\<close>

definition exec_installer_bringup_validate ::
  "pyval \<Rightarrow> pyval \<Rightarrow> profile \<Rightarrow> pyval io" where
  "exec_installer_bringup_validate opts spec profile = bringup_validate opts spec profile"

definition exec_installer_bringup_validation_status ::
  "pyval \<Rightarrow> pyval \<Rightarrow> profile \<Rightarrow> pyval io" where
  "exec_installer_bringup_validation_status opts validation_id profile =
     bringup_validation_status opts validation_id profile"

definition exec_installer_bringup_list_validations :: "pyval \<Rightarrow> profile \<Rightarrow> pyval io" where
  "exec_installer_bringup_list_validations opts profile = bringup_list_validations opts profile"

definition exec_installer_bringup_wait_validation ::
  "pyval \<Rightarrow> pyval \<Rightarrow> int \<Rightarrow> int \<Rightarrow> profile \<Rightarrow> pyval io" where
  "exec_installer_bringup_wait_validation opts validation_id timeout poll_interval profile =
     bringup_wait_validation opts validation_id timeout poll_interval profile"

definition exec_installer_bringup_submit ::
  "pyval \<Rightarrow> pyval \<Rightarrow> profile \<Rightarrow> pyval io" where
  "exec_installer_bringup_submit opts spec profile = bringup_submit opts spec profile"

definition exec_installer_bringup_status ::
  "pyval \<Rightarrow> pyval \<Rightarrow> profile \<Rightarrow> pyval io" where
  "exec_installer_bringup_status opts sddc_id profile = bringup_status opts sddc_id profile"

definition exec_installer_bringup_list :: "pyval \<Rightarrow> profile \<Rightarrow> pyval io" where
  "exec_installer_bringup_list opts profile = bringup_list opts profile"

definition exec_installer_bringup_retry ::
  "pyval \<Rightarrow> pyval \<Rightarrow> profile \<Rightarrow> pyval io" where
  "exec_installer_bringup_retry opts sddc_id profile = bringup_retry opts sddc_id profile"

definition exec_installer_bringup_wait ::
  "pyval \<Rightarrow> pyval \<Rightarrow> int \<Rightarrow> int \<Rightarrow> profile \<Rightarrow> pyval io" where
  "exec_installer_bringup_wait opts sddc_id timeout poll_interval profile =
     bringup_wait opts sddc_id timeout poll_interval profile"

subsection \<open>\<open>modules/vcf_sddc_bundles.py\<close>\<close>

definition exec_sddc_bundles_list :: "pyval \<Rightarrow> profile \<Rightarrow> pyval io" where
  "exec_sddc_bundles_list opts profile = sddc_bundles_list opts profile"

definition exec_sddc_bundles_get :: "pyval \<Rightarrow> pyval \<Rightarrow> profile \<Rightarrow> pyval io" where
  "exec_sddc_bundles_get opts bundle_id profile = sddc_bundles_get opts bundle_id profile"

definition exec_sddc_bundles_download ::
  "pyval \<Rightarrow> pyval \<Rightarrow> profile \<Rightarrow> pyval io" where
  "exec_sddc_bundles_download opts bundle_id profile = sddc_bundles_download opts bundle_id profile"

definition exec_sddc_bundles_upload ::
  "pyval \<Rightarrow> pyval \<Rightarrow> pyval \<Rightarrow> pyval \<Rightarrow> profile \<Rightarrow> pyval io" where
  "exec_sddc_bundles_upload opts bundle_file_path manifest_file_path signature_file_path profile =
     sddc_bundles_upload opts bundle_file_path manifest_file_path signature_file_path profile"

definition exec_sddc_bundles_delete :: "pyval \<Rightarrow> pyval \<Rightarrow> profile \<Rightarrow> pyval io" where
  "exec_sddc_bundles_delete opts bundle_id profile = sddc_bundles_delete opts bundle_id profile"

definition exec_sddc_bundles_for_skip_upgrade ::
  "pyval \<Rightarrow> pyval \<Rightarrow> profile \<Rightarrow> pyval io" where
  "exec_sddc_bundles_for_skip_upgrade opts domain_id profile = sddc_bundles_for_skip_upgrade opts domain_id profile"

subsection \<open>\<open>modules/vcf_sddc_certificates.py\<close>\<close>

definition exec_sddc_certificates_list ::
  "pyval \<Rightarrow> pyval \<Rightarrow> profile \<Rightarrow> pyval io" where
  "exec_sddc_certificates_list opts domain_id profile = sddc_certificates_list opts domain_id profile"

definition exec_sddc_certificates_list_csrs ::
  "pyval \<Rightarrow> pyval \<Rightarrow> profile \<Rightarrow> pyval io" where
  "exec_sddc_certificates_list_csrs opts domain_id profile = sddc_certificates_list_csrs opts domain_id profile"

definition exec_sddc_certificates_create_csrs ::
  "pyval \<Rightarrow> pyval \<Rightarrow> pyval \<Rightarrow> pyval \<Rightarrow> profile \<Rightarrow> pyval io" where
  "exec_sddc_certificates_create_csrs opts domain_id csr_generation_spec resources profile =
     sddc_certificates_create_csrs opts domain_id csr_generation_spec resources profile"

definition exec_sddc_certificates_install_certificates ::
  "pyval \<Rightarrow> pyval \<Rightarrow> pyval \<Rightarrow> profile \<Rightarrow> pyval io" where
  "exec_sddc_certificates_install_certificates opts domain_id cert_specs profile =
     sddc_certificates_install_certificates opts domain_id cert_specs profile"

subsection \<open>\<open>modules/vcf_sddc_cluster.py\<close>\<close>

definition exec_sddc_cluster_list :: "pyval \<Rightarrow> profile \<Rightarrow> pyval io" where
  "exec_sddc_cluster_list opts profile = sddc_cluster_list opts profile"

definition exec_sddc_cluster_get :: "pyval \<Rightarrow> pyval \<Rightarrow> profile \<Rightarrow> pyval io" where
  "exec_sddc_cluster_get opts cluster profile = sddc_cluster_get opts cluster profile"

definition exec_sddc_cluster_create :: "pyval \<Rightarrow> pyval \<Rightarrow> profile \<Rightarrow> pyval io" where
  "exec_sddc_cluster_create opts cluster_spec profile = sddc_cluster_create opts cluster_spec profile"

definition exec_sddc_cluster_delete :: "pyval \<Rightarrow> pyval \<Rightarrow> profile \<Rightarrow> pyval io" where
  "exec_sddc_cluster_delete opts cluster profile = sddc_cluster_delete opts cluster profile"

subsection \<open>\<open>modules/vcf_sddc_credentials.py\<close>\<close>

definition exec_sddc_credentials_list :: "pyval \<Rightarrow> profile \<Rightarrow> pyval io" where
  "exec_sddc_credentials_list opts profile = sddc_credentials_list opts profile"

definition exec_sddc_credentials_rotate ::
  "pyval \<Rightarrow> pyval \<Rightarrow> profile \<Rightarrow> pyval io" where
  "exec_sddc_credentials_rotate opts elements profile = sddc_credentials_rotate opts elements profile"

subsection \<open>\<open>modules/vcf_sddc_domain.py\<close>\<close>

definition exec_sddc_domain_list :: "pyval \<Rightarrow> profile \<Rightarrow> pyval io" where
  "exec_sddc_domain_list opts profile = sddc_domain_list opts profile"

definition exec_sddc_domain_get :: "pyval \<Rightarrow> pyval \<Rightarrow> profile \<Rightarrow> pyval io" where
  "exec_sddc_domain_get opts domain_id profile = sddc_domain_get opts domain_id profile"

definition exec_sddc_domain_validate :: "pyval \<Rightarrow> pyval \<Rightarrow> profile \<Rightarrow> pyval io" where
  "exec_sddc_domain_validate opts spec profile = sddc_domain_validate opts spec profile"

definition exec_sddc_domain_create :: "pyval \<Rightarrow> pyval \<Rightarrow> profile \<Rightarrow> pyval io" where
  "exec_sddc_domain_create opts spec profile = sddc_domain_create opts spec profile"

definition exec_sddc_domain_update ::
  "pyval \<Rightarrow> pyval \<Rightarrow> pyval \<Rightarrow> profile \<Rightarrow> pyval io" where
  "exec_sddc_domain_update opts domain_id spec profile = sddc_domain_update opts domain_id spec profile"

definition exec_sddc_domain_delete :: "pyval \<Rightarrow> pyval \<Rightarrow> profile \<Rightarrow> pyval io" where
  "exec_sddc_domain_delete opts domain_id profile = sddc_domain_delete opts domain_id profile"

definition exec_sddc_domain_mark_for_deletion ::
  "pyval \<Rightarrow> pyval \<Rightarrow> profile \<Rightarrow> pyval io" where
  "exec_sddc_domain_mark_for_deletion opts domain_id profile = sddc_domain_mark_for_deletion opts domain_id profile"

subsection \<open>\<open>modules/vcf_sddc_host.py\<close>\<close>

definition exec_sddc_host_list :: "pyval \<Rightarrow> profile \<Rightarrow> pyval io" where
  "exec_sddc_host_list opts profile = sddc_host_list opts profile"

definition exec_sddc_host_get :: "pyval \<Rightarrow> pyval \<Rightarrow> profile \<Rightarrow> pyval io" where
  "exec_sddc_host_get opts host profile = sddc_host_get opts host profile"

definition exec_sddc_host_commission :: "pyval \<Rightarrow> pyval \<Rightarrow> profile \<Rightarrow> pyval io" where
  "exec_sddc_host_commission opts host_specs profile = sddc_host_commission opts host_specs profile"

definition exec_sddc_host_decommission ::
  "pyval \<Rightarrow> pyval \<Rightarrow> profile \<Rightarrow> pyval io" where
  "exec_sddc_host_decommission opts host profile = sddc_host_decommission opts host profile"

subsection \<open>\<open>modules/vcf_sddc_manager.py\<close>\<close>

definition exec_sddc_manager_get :: "pyval \<Rightarrow> profile \<Rightarrow> pyval io" where
  "exec_sddc_manager_get opts profile = sddc_manager_get opts profile"

subsection \<open>\<open>modules/vcf_sddc_network_pools.py\<close>\<close>

definition exec_sddc_network_pools_list :: "pyval \<Rightarrow> profile \<Rightarrow> pyval io" where
  "exec_sddc_network_pools_list opts profile = sddc_network_pools_list opts profile"

definition exec_sddc_network_pools_get ::
  "pyval \<Rightarrow> pyval \<Rightarrow> profile \<Rightarrow> pyval io" where
  "exec_sddc_network_pools_get opts pool_id profile = sddc_network_pools_get opts pool_id profile"

definition exec_sddc_network_pools_create ::
  "pyval \<Rightarrow> pyval \<Rightarrow> profile \<Rightarrow> pyval io" where
  "exec_sddc_network_pools_create opts network_pool_spec profile =
     sddc_network_pools_create opts network_pool_spec profile"

definition exec_sddc_network_pools_delete ::
  "pyval \<Rightarrow> pyval \<Rightarrow> profile \<Rightarrow> pyval io" where
  "exec_sddc_network_pools_delete opts pool_id profile = sddc_network_pools_delete opts pool_id profile"

subsection \<open>\<open>modules/vcf_sddc_personalities.py\<close>\<close>

definition exec_sddc_personalities_list ::
  "pyval \<Rightarrow> pyval \<Rightarrow> pyval \<Rightarrow> profile \<Rightarrow> pyval io" where
  "exec_sddc_personalities_list opts personality_name cluster_id profile =
     sddc_personalities_list opts personality_name cluster_id profile"

definition exec_sddc_personalities_get ::
  "pyval \<Rightarrow> pyval \<Rightarrow> profile \<Rightarrow> pyval io" where
  "exec_sddc_personalities_get opts personality_id profile = sddc_personalities_get opts personality_id profile"

definition exec_sddc_personalities_create ::
  "pyval \<Rightarrow> pyval \<Rightarrow> profile \<Rightarrow> pyval io" where
  "exec_sddc_personalities_create opts personality_spec profile =
     sddc_personalities_create opts personality_spec profile"

definition exec_sddc_personalities_delete ::
  "pyval \<Rightarrow> pyval \<Rightarrow> profile \<Rightarrow> pyval io" where
  "exec_sddc_personalities_delete opts personality_id profile = sddc_personalities_delete opts personality_id profile"

definition exec_sddc_personalities_rename ::
  "pyval \<Rightarrow> pyval \<Rightarrow> pyval \<Rightarrow> profile \<Rightarrow> pyval io" where
  "exec_sddc_personalities_rename opts personality_id personality_name profile =
     sddc_personalities_rename opts personality_id personality_name profile"

definition exec_sddc_personalities_upload_files ::
  "pyval \<Rightarrow> pyval \<Rightarrow> profile \<Rightarrow> pyval io" where
  "exec_sddc_personalities_upload_files opts upload_spec profile =
     sddc_personalities_upload_files opts upload_spec profile"

subsection \<open>\<open>modules/vcf_sddc_releases.py\<close>\<close>

definition exec_sddc_releases_list :: "pyval \<Rightarrow> profile \<Rightarrow> pyval io" where
  "exec_sddc_releases_list opts profile = sddc_releases_list opts profile"

definition exec_sddc_releases_domain :: "pyval \<Rightarrow> pyval \<Rightarrow> profile \<Rightarrow> pyval io" where
  "exec_sddc_releases_domain opts domain_id profile = sddc_releases_domain opts domain_id profile"

definition exec_sddc_releases_system :: "pyval \<Rightarrow> profile \<Rightarrow> pyval io" where
  "exec_sddc_releases_system opts profile = sddc_releases_system opts profile"

definition exec_sddc_releases_custom_patches ::
  "pyval \<Rightarrow> pyval \<Rightarrow> profile \<Rightarrow> pyval io" where
  "exec_sddc_releases_custom_patches opts domain_id profile = sddc_releases_custom_patches opts domain_id profile"

subsection \<open>\<open>modules/vcf_sddc_system.py\<close>\<close>

definition exec_sddc_system_system_info :: "pyval \<Rightarrow> profile \<Rightarrow> pyval io" where
  "exec_sddc_system_system_info opts profile = sddc_system_get_system opts profile"

definition exec_sddc_system_list_personalities :: "pyval \<Rightarrow> profile \<Rightarrow> pyval io" where
  "exec_sddc_system_list_personalities opts profile = sddc_system_list_personalities opts profile"

definition exec_sddc_system_get_personality ::
  "pyval \<Rightarrow> pyval \<Rightarrow> profile \<Rightarrow> pyval io" where
  "exec_sddc_system_get_personality opts personality_id profile =
     sddc_system_get_personality opts personality_id profile"

definition exec_sddc_system_list_users :: "pyval \<Rightarrow> profile \<Rightarrow> pyval io" where
  "exec_sddc_system_list_users opts profile = sddc_users_list_users opts profile"

definition exec_sddc_system_list_roles :: "pyval \<Rightarrow> profile \<Rightarrow> pyval io" where
  "exec_sddc_system_list_roles opts profile = sddc_users_list_roles opts profile"

definition exec_sddc_system_add_users ::
  "pyval \<Rightarrow> pyval \<Rightarrow> profile \<Rightarrow> pyval io" where
  "exec_sddc_system_add_users opts user_specs profile = sddc_users_add_users opts user_specs profile"

definition exec_sddc_system_delete_user ::
  "pyval \<Rightarrow> pyval \<Rightarrow> profile \<Rightarrow> pyval io" where
  "exec_sddc_system_delete_user opts user_id profile = sddc_users_delete_user opts user_id profile"

definition exec_sddc_system_list_avns :: "pyval \<Rightarrow> profile \<Rightarrow> pyval io" where
  "exec_sddc_system_list_avns opts profile = sddc_avn_list opts profile"

subsection \<open>\<open>modules/vcf_sddc_upgrades.py\<close>\<close>

definition exec_sddc_upgrades_list :: "pyval \<Rightarrow> profile \<Rightarrow> pyval io" where
  "exec_sddc_upgrades_list opts profile = sddc_upgrades_list opts profile"

definition exec_sddc_upgrades_get :: "pyval \<Rightarrow> pyval \<Rightarrow> profile \<Rightarrow> pyval io" where
  "exec_sddc_upgrades_get opts upgrade_id profile = sddc_upgrades_get opts upgrade_id profile"

definition exec_sddc_upgrades_start :: "pyval \<Rightarrow> pyval \<Rightarrow> profile \<Rightarrow> pyval io" where
  "exec_sddc_upgrades_start opts upgrade_spec profile = sddc_upgrades_start opts upgrade_spec profile"

subsection \<open>\<open>modules/vcf_sddc_vcenters.py\<close>\<close>

definition exec_sddc_vcenters_list :: "pyval \<Rightarrow> profile \<Rightarrow> pyval io" where
  "exec_sddc_vcenters_list opts profile = sddc_vcenters_list opts profile"

definition exec_sddc_vcenters_get :: "pyval \<Rightarrow> pyval \<Rightarrow> profile \<Rightarrow> pyval io" where
  "exec_sddc_vcenters_get opts vcenter_id profile = sddc_vcenters_get opts vcenter_id profile"

subsection \<open>\<open>modules/vcf_sddc_workload_domain.py\<close>\<close>

text \<open>What the functions with \<open>wait\<close> do with the task; the poll interval is the default of \<open>tasks.wait\<close>.\<close>

definition task_or_result :: "pyval \<Rightarrow> pyval \<Rightarrow> int \<Rightarrow> profile \<Rightarrow> pyval \<Rightarrow> pyval io" where
  "task_or_result opts wait timeout profile task =
     (case (truthy wait, task) of
        (True, PDict d) \<Rightarrow> (case map_of d ''id'' of Some i \<Rightarrow> sddc_tasks_wait opts i timeout 10 profile | None \<Rightarrow> pureM task)
      | _ \<Rightarrow> pureM task)"

definition exec_sddc_workload_domain_validate_domain ::
  "pyval \<Rightarrow> pyval \<Rightarrow> profile \<Rightarrow> pyval io" where
  "exec_sddc_workload_domain_validate_domain opts spec profile = sddc_domain_validate opts spec profile"

definition exec_sddc_workload_domain_create_domain ::
  "pyval \<Rightarrow> pyval \<Rightarrow> pyval \<Rightarrow> int \<Rightarrow> int \<Rightarrow> profile \<Rightarrow> pyval io" where
  "exec_sddc_workload_domain_create_domain opts spec wait timeout poll_interval profile =
     bindM (sddc_domain_create opts spec profile) (\<lambda>task.
     if truthy wait then
       bindM (liftR (py_item task ''id'')) (\<lambda>i. sddc_tasks_wait opts i timeout poll_interval profile)
     else pureM task)"

definition exec_sddc_workload_domain_update_domain ::
  "pyval \<Rightarrow> pyval \<Rightarrow> pyval \<Rightarrow> pyval \<Rightarrow> int \<Rightarrow> profile \<Rightarrow> pyval io" where
  "exec_sddc_workload_domain_update_domain opts domain_id spec wait timeout profile =
     bindM (sddc_domain_update opts domain_id spec profile) (task_or_result opts wait timeout profile)"

definition exec_sddc_workload_domain_delete_domain ::
  "pyval \<Rightarrow> pyval \<Rightarrow> pyval \<Rightarrow> int \<Rightarrow> profile \<Rightarrow> pyval io" where
  "exec_sddc_workload_domain_delete_domain opts domain_id wait timeout profile =
     bindM (sddc_domain_delete opts domain_id profile) (task_or_result opts wait timeout profile)"

definition exec_sddc_workload_domain_list_endpoints ::
  "pyval \<Rightarrow> pyval \<Rightarrow> profile \<Rightarrow> pyval io" where
  "exec_sddc_workload_domain_list_endpoints opts domain_id profile =
     sddc_domain_list_endpoints opts domain_id profile"

definition exec_sddc_workload_domain_expand_cluster ::
  "pyval \<Rightarrow> pyval \<Rightarrow> pyval \<Rightarrow> pyval \<Rightarrow> int \<Rightarrow> profile \<Rightarrow> pyval io" where
  "exec_sddc_workload_domain_expand_cluster opts cluster_id host_specs wait timeout profile =
     bindM (sddc_cluster_ops_expand opts cluster_id host_specs profile) (task_or_result opts wait timeout profile)"

definition exec_sddc_workload_domain_shrink_cluster ::
  "pyval \<Rightarrow> pyval \<Rightarrow> pyval \<Rightarrow> pyval \<Rightarrow> pyval \<Rightarrow> int \<Rightarrow> profile \<Rightarrow> pyval io" where
  "exec_sddc_workload_domain_shrink_cluster opts cluster_id host_ids force wait timeout profile =
     bindM (sddc_cluster_ops_shrink opts cluster_id host_ids force profile) (task_or_result opts wait timeout profile)"

definition exec_sddc_workload_domain_list_edge_clusters :: "pyval \<Rightarrow> profile \<Rightarrow> pyval io" where
  "exec_sddc_workload_domain_list_edge_clusters opts profile = sddc_edge_clusters_list opts profile"

definition exec_sddc_workload_domain_deploy_edge_cluster ::
  "pyval \<Rightarrow> pyval \<Rightarrow> pyval \<Rightarrow> int \<Rightarrow> profile \<Rightarrow> pyval io" where
  "exec_sddc_workload_domain_deploy_edge_cluster opts spec wait timeout profile =
     bindM (sddc_edge_clusters_create opts spec profile) (task_or_result opts wait timeout profile)"

definition exec_sddc_workload_domain_add_license_key ::
  "pyval \<Rightarrow> pyval \<Rightarrow> pyval \<Rightarrow> pyval \<Rightarrow> profile \<Rightarrow> pyval io" where
  "exec_sddc_workload_domain_add_license_key opts key product_type description profile =
     sddc_license_keys_add opts key product_type description profile"

definition exec_sddc_workload_domain_list_license_keys :: "pyval \<Rightarrow> profile \<Rightarrow> pyval io" where
  "exec_sddc_workload_domain_list_license_keys opts profile = sddc_license_keys_list opts profile"

definition exec_sddc_workload_domain_licensing_info :: "pyval \<Rightarrow> profile \<Rightarrow> pyval io" where
  "exec_sddc_workload_domain_licensing_info opts profile = sddc_license_keys_licensing_info opts profile"

definition exec_sddc_workload_domain_task_wait ::
  "pyval \<Rightarrow> pyval \<Rightarrow> int \<Rightarrow> int \<Rightarrow> profile \<Rightarrow> pyval io" where
  "exec_sddc_workload_domain_task_wait opts task_id timeout poll_interval profile =
     sddc_tasks_wait opts task_id timeout poll_interval profile"

definition exec_sddc_workload_domain_task_get ::
  "pyval \<Rightarrow> pyval \<Rightarrow> profile \<Rightarrow> pyval io" where
  "exec_sddc_workload_domain_task_get opts task_id profile = sddc_tasks_get opts task_id profile"

definition exec_sddc_workload_domain_task_retry ::
  "pyval \<Rightarrow> pyval \<Rightarrow> profile \<Rightarrow> pyval io" where
  "exec_sddc_workload_domain_task_retry opts task_id profile = sddc_tasks_retry opts task_id profile"

subsection \<open>\<open>modules/vcf_vcf_services.py\<close>\<close>

definition exec_vcf_services_list :: "pyval \<Rightarrow> profile \<Rightarrow> pyval io" where
  "exec_vcf_services_list opts profile = sddc_vcf_services_list opts profile"

definition exec_vcf_services_get :: "pyval \<Rightarrow> pyval \<Rightarrow> profile \<Rightarrow> pyval io" where
  "exec_vcf_services_get opts service_id profile = sddc_vcf_services_get opts service_id profile"

definition exec_vcf_services_get_by_name ::
  "pyval \<Rightarrow> pyval \<Rightarrow> profile \<Rightarrow> pyval io" where
  "exec_vcf_services_get_by_name opts name profile = sddc_vcf_services_get_by_name opts name profile"

definition exec_vcf_services_status_map :: "pyval \<Rightarrow> profile \<Rightarrow> pyval kdict io" where
  "exec_vcf_services_status_map opts profile =
     bindM (sddc_vcf_services_list opts profile) (\<lambda>body.
     let elements = (case body of PDict d \<Rightarrow> dget d ''elements'' PNone | _ \<Rightarrow> PNone) in
     if \<not> truthy elements then pureM []
     else liftR (bindR (py_iter elements) (\<lambda>xs. index_by ''name'' ''status'' xs [])))"

definition exec_vcf_services_healthy :: "pyval \<Rightarrow> profile \<Rightarrow> bool io" where
  "exec_vcf_services_healthy opts profile =
     bindM (exec_vcf_services_status_map opts profile) (\<lambda>d. pureM (list_all (\<lambda>(k, status). py_eq status (PStr ''UP'')) d))"

subsection \<open>\<open>modules/vcf_vrli_ad.py\<close>\<close>

definition exec_vrli_ad_get :: "pyval \<Rightarrow> profile \<Rightarrow> pyval io" where
  "exec_vrli_ad_get opts profile = vrli_ad_get opts profile"

definition exec_vrli_ad_set :: "pyval \<Rightarrow> pyval \<Rightarrow> profile \<Rightarrow> pyval io" where
  "exec_vrli_ad_set opts spec profile = vrli_ad_set opts spec profile"

definition exec_vrli_ad_disable :: "pyval \<Rightarrow> profile \<Rightarrow> pyval io" where
  "exec_vrli_ad_disable opts profile = vrli_ad_disable opts profile"

subsection \<open>\<open>modules/vcf_vrli_certificate.py\<close>\<close>

definition exec_vrli_certificate_list :: "pyval \<Rightarrow> profile \<Rightarrow> pyval io" where
  "exec_vrli_certificate_list opts profile = vrli_certificate_list opts profile"

definition exec_vrli_certificate_get :: "pyval \<Rightarrow> profile \<Rightarrow> pyval io" where
  "exec_vrli_certificate_get opts profile = vrli_certificate_get opts profile"

definition exec_vrli_certificate_install ::
  "pyval \<Rightarrow> pyval \<Rightarrow> pyval \<Rightarrow> pyval \<Rightarrow> profile \<Rightarrow> pyval io" where
  "exec_vrli_certificate_install opts cert_pem key_pem chain_pem profile =
     vrli_certificate_install opts cert_pem key_pem chain_pem profile"

definition exec_vrli_certificate_serial_number :: "pyval \<Rightarrow> profile \<Rightarrow> pyval io" where
  "exec_vrli_certificate_serial_number opts profile = vrli_certificate_serial_number opts profile"

subsection \<open>\<open>modules/vcf_vrli_settings.py\<close>\<close>

definition exec_vrli_settings_get_cluster_nodes :: "pyval \<Rightarrow> profile \<Rightarrow> pyval io" where
  "exec_vrli_settings_get_cluster_nodes opts profile = vrli_settings_get_cluster_nodes opts profile"

definition exec_vrli_settings_get_dns_servers :: "pyval \<Rightarrow> profile \<Rightarrow> pyval io" where
  "exec_vrli_settings_get_dns_servers opts profile = vrli_settings_get_dns_servers opts profile"

definition exec_vrli_settings_get_dns_servers_from_appliance ::
  "vrli_ssh_run \<Rightarrow> pyval \<Rightarrow> profile \<Rightarrow> string list io" where
  "exec_vrli_settings_get_dns_servers_from_appliance ssh opts profile =
     vrli_settings_get_dns_servers_from_appliance ssh opts profile"

definition exec_vrli_settings_set_dns_servers ::
  "vrli_ssh_run \<Rightarrow> pyval \<Rightarrow> pyval \<Rightarrow> profile \<Rightarrow> dict io" where
  "exec_vrli_settings_set_dns_servers ssh opts servers profile =
     vrli_settings_set_dns_servers ssh opts servers profile"

definition exec_vrli_settings_get_session_timeout ::
  "vrli_ssh_run \<Rightarrow> pyval \<Rightarrow> profile \<Rightarrow> int io" where
  "exec_vrli_settings_get_session_timeout ssh opts profile = vrli_settings_get_session_timeout ssh opts profile"

definition exec_vrli_settings_set_session_timeout ::
  "vrli_ssh_run \<Rightarrow> pyval \<Rightarrow> pyval \<Rightarrow> profile \<Rightarrow> dict io" where
  "exec_vrli_settings_set_session_timeout ssh opts seconds profile =
     vrli_settings_set_session_timeout ssh opts seconds profile"

subsection \<open>\<open>modules/vcf_vrli_version.py\<close>\<close>

definition exec_vrli_version_get :: "pyval \<Rightarrow> profile \<Rightarrow> pyval io" where
  "exec_vrli_version_get opts profile = vrli_version_get opts profile"

subsection \<open>What a wait answers\<close>

definition succeeded_task :: "pyval \<Rightarrow> bool" where
  "succeeded_task v = (case v of PDict d \<Rightarrow> dget d ''status'' PNone = PStr ''Successful'' | _ \<Rightarrow> False)"

definition without_task :: "pyval \<Rightarrow> bool" where
  "without_task v = (case v of PDict d \<Rightarrow> map_of d ''id'' = None | _ \<Rightarrow> True)"

lemma wait_succeeds: "yields succeeded_task (sddc_tasks_wait opts i timeout poll p)"
  by (auto simp: yields_def succeeded_task_def dest!: sddc_tasks_wait_Ok)

lemma task_or_result_succeeds: "yields (\<lambda>v. succeeded_task v \<or> without_task v) (task_or_result opts (PBool True) timeout p task)"
proof (cases "without_task task")
  case True
  then have "task_or_result opts (PBool True) timeout p task = pureM task"
    by (auto simp: task_or_result_def without_task_def split: pyval.splits option.splits)
  with True show ?thesis by (auto intro: spec_intros)
next
  case False
  then obtain i poll where "task_or_result opts (PBool True) timeout p task = sddc_tasks_wait opts i timeout poll p"
    by (auto simp: task_or_result_def without_task_def split: pyval.splits option.splits)
  with wait_succeeds [of opts i timeout poll p] show ?thesis by (auto simp: yields_def)
qed

text \<open>With \<open>wait\<close>, the functions on workload domains answer with a task that SDDC Manager reports as successful;
  only when the answer to the submission names no task is it passed on, and creating a domain then raises.\<close>

theorem exec_domain_waits:
  "yields succeeded_task (exec_sddc_workload_domain_create_domain opts spec (PBool True) timeout poll p) \<and>
   yields (\<lambda>v. succeeded_task v \<or> without_task v) (exec_sddc_workload_domain_update_domain opts d spec (PBool True) timeout p) \<and>
   yields (\<lambda>v. succeeded_task v \<or> without_task v) (exec_sddc_workload_domain_delete_domain opts d (PBool True) timeout p) \<and>
   yields (\<lambda>v. succeeded_task v \<or> without_task v) (exec_sddc_workload_domain_expand_cluster opts c hosts (PBool True) timeout p) \<and>
   yields (\<lambda>v. succeeded_task v \<or> without_task v) (exec_sddc_workload_domain_shrink_cluster opts c ids force (PBool True) timeout p) \<and>
   yields (\<lambda>v. succeeded_task v \<or> without_task v) (exec_sddc_workload_domain_deploy_edge_cluster opts spec (PBool True) timeout p)"
  unfolding exec_sddc_workload_domain_update_domain_def exec_sddc_workload_domain_delete_domain_def
    exec_sddc_workload_domain_expand_cluster_def exec_sddc_workload_domain_shrink_cluster_def
    exec_sddc_workload_domain_deploy_edge_cluster_def exec_sddc_workload_domain_create_domain_def
    truthy.simps if_True
  by (intro conjI yields_rules task_or_result_succeeds wait_succeeds)

end
