(* ===== verification/Exec_Vcfops.thy ===== *)
theory Exec_Vcfops
  imports Vcfops_Clients Vcfops_Fleet
begin

section \<open>Exec_Vcfops: execution modules of VCF Operations\<close>

text \<open>
  The execution functions of these modules: each reads \<open>__opts__\<close>, which is the argument \<open>opts\<close> here, and passes
  its arguments on to a function of the client module. A parameter of the client that the module leaves out has the
  default of the client. Python refuses a call whose keywords name a positional parameter twice; such calls are not
  in the domain of these definitions.
\<close>

subsection \<open>\<open>modules/vcf_vcfops_adapter.py\<close>\<close>

definition exec_vcfops_adapter_list :: "pyval \<Rightarrow> pyval io" where
  "exec_vcfops_adapter_list opts = vcfops_adapter_list opts"

definition exec_vcfops_adapter_get :: "pyval \<Rightarrow> pyval \<Rightarrow> pyval io" where
  "exec_vcfops_adapter_get opts kind_key = vcfops_adapter_get opts kind_key"

definition exec_vcfops_adapter_instance_list :: "pyval \<Rightarrow> profile \<Rightarrow> pyval io" where
  "exec_vcfops_adapter_instance_list opts profile = vcfops_adapter_instance_list opts profile"

definition exec_vcfops_adapter_instance_get ::
  "pyval \<Rightarrow> pyval \<Rightarrow> profile \<Rightarrow> pyval io" where
  "exec_vcfops_adapter_instance_get opts instance_id profile = vcfops_adapter_instance_get opts instance_id profile"

definition exec_vcfops_adapter_instance_get_or_none ::
  "pyval \<Rightarrow> pyval \<Rightarrow> profile \<Rightarrow> pyval io" where
  "exec_vcfops_adapter_instance_get_or_none opts instance_id profile =
     vcfops_adapter_instance_get_or_none opts instance_id profile"

definition exec_vcfops_adapter_instance_create ::
  "pyval \<Rightarrow> pyval \<Rightarrow> profile \<Rightarrow> pyval io" where
  "exec_vcfops_adapter_instance_create opts spec profile = vcfops_adapter_instance_create opts spec profile"

definition exec_vcfops_adapter_instance_update ::
  "pyval \<Rightarrow> pyval \<Rightarrow> pyval \<Rightarrow> profile \<Rightarrow> pyval io" where
  "exec_vcfops_adapter_instance_update opts instance_id spec profile =
     vcfops_adapter_instance_update opts instance_id spec profile"

definition exec_vcfops_adapter_instance_delete ::
  "pyval \<Rightarrow> pyval \<Rightarrow> profile \<Rightarrow> pyval io" where
  "exec_vcfops_adapter_instance_delete opts instance_id profile =
     vcfops_adapter_instance_delete opts instance_id profile"

definition exec_vcfops_adapter_instance_start ::
  "pyval \<Rightarrow> pyval \<Rightarrow> profile \<Rightarrow> pyval io" where
  "exec_vcfops_adapter_instance_start opts instance_id profile =
     vcfops_adapter_instance_start opts instance_id profile"

definition exec_vcfops_adapter_instance_stop ::
  "pyval \<Rightarrow> pyval \<Rightarrow> profile \<Rightarrow> pyval io" where
  "exec_vcfops_adapter_instance_stop opts instance_id profile = vcfops_adapter_instance_stop opts instance_id profile"

subsection \<open>\<open>modules/vcf_vcfops_alert.py\<close>\<close>

definition exec_vcfops_alert_alerts_list ::
  "pyval \<Rightarrow> pyval \<Rightarrow> pyval \<Rightarrow> pyval io" where
  "exec_vcfops_alert_alerts_list opts page page_size = vcfops_alert_alerts_list opts page page_size"

definition exec_vcfops_alert_alerts_get :: "pyval \<Rightarrow> pyval \<Rightarrow> pyval io" where
  "exec_vcfops_alert_alerts_get opts alert_id = vcfops_alert_alerts_get opts alert_id"

definition exec_vcfops_alert_alerts_create ::
  "pyval \<Rightarrow> pyval \<Rightarrow> profile \<Rightarrow> pyval io" where
  "exec_vcfops_alert_alerts_create opts spec profile = vcfops_alert_alerts_create opts spec profile"

definition exec_vcfops_alert_alerts_update ::
  "pyval \<Rightarrow> pyval \<Rightarrow> pyval \<Rightarrow> profile \<Rightarrow> pyval io" where
  "exec_vcfops_alert_alerts_update opts alert_id spec profile = vcfops_alert_alerts_update opts alert_id spec profile"

definition exec_vcfops_alert_alerts_delete ::
  "pyval \<Rightarrow> pyval \<Rightarrow> profile \<Rightarrow> pyval io" where
  "exec_vcfops_alert_alerts_delete opts alert_id profile = vcfops_alert_alerts_delete opts alert_id profile"

definition exec_vcfops_alert_symptoms_list ::
  "pyval \<Rightarrow> pyval \<Rightarrow> pyval \<Rightarrow> pyval io" where
  "exec_vcfops_alert_symptoms_list opts page page_size = vcfops_alert_symptoms_list opts page page_size"

definition exec_vcfops_alert_symptoms_get :: "pyval \<Rightarrow> pyval \<Rightarrow> pyval io" where
  "exec_vcfops_alert_symptoms_get opts symptom_id = vcfops_alert_symptoms_get opts symptom_id"

definition exec_vcfops_alert_symptoms_create ::
  "pyval \<Rightarrow> pyval \<Rightarrow> profile \<Rightarrow> pyval io" where
  "exec_vcfops_alert_symptoms_create opts spec profile = vcfops_alert_symptoms_create opts spec profile"

definition exec_vcfops_alert_symptoms_update ::
  "pyval \<Rightarrow> pyval \<Rightarrow> pyval \<Rightarrow> profile \<Rightarrow> pyval io" where
  "exec_vcfops_alert_symptoms_update opts symptom_id spec profile =
     vcfops_alert_symptoms_update opts symptom_id spec profile"

definition exec_vcfops_alert_symptoms_delete ::
  "pyval \<Rightarrow> pyval \<Rightarrow> profile \<Rightarrow> pyval io" where
  "exec_vcfops_alert_symptoms_delete opts symptom_id profile = vcfops_alert_symptoms_delete opts symptom_id profile"

definition exec_vcfops_alert_active_list ::
  "pyval \<Rightarrow> pyval \<Rightarrow> pyval \<Rightarrow> dict \<Rightarrow> pyval io" where
  "exec_vcfops_alert_active_list opts page page_size params =
     vcfops_alert_active_list opts page page_size (if params = [] then PNone else PDict params)"

definition exec_vcfops_alert_active_get :: "pyval \<Rightarrow> pyval \<Rightarrow> pyval io" where
  "exec_vcfops_alert_active_get opts alert_id = vcfops_alert_active_get opts alert_id"

subsection \<open>\<open>modules/vcf_vcfops_auth.py\<close>\<close>

definition exec_vcfops_auth_sources_list :: "pyval \<Rightarrow> profile \<Rightarrow> pyval io" where
  "exec_vcfops_auth_sources_list opts profile = vcfops_auth_sources_list opts profile"

definition exec_vcfops_auth_sources_get ::
  "pyval \<Rightarrow> pyval \<Rightarrow> profile \<Rightarrow> pyval io" where
  "exec_vcfops_auth_sources_get opts source_id profile = vcfops_auth_sources_get opts source_id profile"

definition exec_vcfops_auth_roles_list :: "pyval \<Rightarrow> profile \<Rightarrow> pyval io" where
  "exec_vcfops_auth_roles_list opts profile = vcfops_auth_roles_list opts profile"

definition exec_vcfops_auth_roles_get ::
  "pyval \<Rightarrow> pyval \<Rightarrow> profile \<Rightarrow> pyval io" where
  "exec_vcfops_auth_roles_get opts role_name profile = vcfops_auth_roles_get opts role_name profile"

definition exec_vcfops_auth_roles_create ::
  "pyval \<Rightarrow> pyval \<Rightarrow> profile \<Rightarrow> pyval io" where
  "exec_vcfops_auth_roles_create opts role_spec profile = vcfops_auth_roles_create opts role_spec profile"

definition exec_vcfops_auth_roles_delete ::
  "pyval \<Rightarrow> pyval \<Rightarrow> profile \<Rightarrow> pyval io" where
  "exec_vcfops_auth_roles_delete opts role_name profile = vcfops_auth_roles_delete opts role_name profile"

definition exec_vcfops_auth_privileges_list :: "pyval \<Rightarrow> profile \<Rightarrow> pyval io" where
  "exec_vcfops_auth_privileges_list opts profile = vcfops_auth_privileges_list opts profile"

definition exec_vcfops_auth_users_list :: "pyval \<Rightarrow> profile \<Rightarrow> pyval io" where
  "exec_vcfops_auth_users_list opts profile = vcfops_auth_users_list opts profile"

definition exec_vcfops_auth_users_get ::
  "pyval \<Rightarrow> pyval \<Rightarrow> profile \<Rightarrow> pyval io" where
  "exec_vcfops_auth_users_get opts user_id profile = vcfops_auth_users_get opts user_id profile"

definition exec_vcfops_auth_users_create ::
  "pyval \<Rightarrow> pyval \<Rightarrow> profile \<Rightarrow> pyval io" where
  "exec_vcfops_auth_users_create opts user_spec profile = vcfops_auth_users_create opts user_spec profile"

definition exec_vcfops_auth_users_update ::
  "pyval \<Rightarrow> pyval \<Rightarrow> pyval \<Rightarrow> profile \<Rightarrow> pyval io" where
  "exec_vcfops_auth_users_update opts user_id user_spec profile =
     vcfops_auth_users_update opts user_id user_spec profile"

definition exec_vcfops_auth_users_delete ::
  "pyval \<Rightarrow> pyval \<Rightarrow> profile \<Rightarrow> pyval io" where
  "exec_vcfops_auth_users_delete opts user_id profile = vcfops_auth_users_delete opts user_id profile"

definition exec_vcfops_auth_usergroups_list :: "pyval \<Rightarrow> profile \<Rightarrow> pyval io" where
  "exec_vcfops_auth_usergroups_list opts profile = vcfops_auth_usergroups_list opts profile"

definition exec_vcfops_auth_usergroups_get ::
  "pyval \<Rightarrow> pyval \<Rightarrow> profile \<Rightarrow> pyval io" where
  "exec_vcfops_auth_usergroups_get opts group_id profile = vcfops_auth_usergroups_get opts group_id profile"

definition exec_vcfops_auth_usergroups_create ::
  "pyval \<Rightarrow> pyval \<Rightarrow> profile \<Rightarrow> pyval io" where
  "exec_vcfops_auth_usergroups_create opts group_spec profile = vcfops_auth_usergroups_create opts group_spec profile"

definition exec_vcfops_auth_usergroups_delete ::
  "pyval \<Rightarrow> pyval \<Rightarrow> profile \<Rightarrow> pyval io" where
  "exec_vcfops_auth_usergroups_delete opts group_id profile = vcfops_auth_usergroups_delete opts group_id profile"

subsection \<open>\<open>modules/vcf_vcfops_certificate.py\<close>\<close>

definition exec_vcfops_certificate_list :: "pyval \<Rightarrow> profile \<Rightarrow> pyval io" where
  "exec_vcfops_certificate_list opts profile = vcfops_certificate_list opts profile"

definition exec_vcfops_certificate_get ::
  "pyval \<Rightarrow> pyval \<Rightarrow> profile \<Rightarrow> pyval io" where
  "exec_vcfops_certificate_get opts thumbprint profile = vcfops_certificate_get opts thumbprint profile"

definition exec_vcfops_certificate_get_or_none ::
  "pyval \<Rightarrow> pyval \<Rightarrow> profile \<Rightarrow> pyval io" where
  "exec_vcfops_certificate_get_or_none opts thumbprint profile =
     vcfops_certificate_get_or_none opts thumbprint profile"

definition exec_vcfops_certificate_delete ::
  "pyval \<Rightarrow> pyval \<Rightarrow> pyval \<Rightarrow> profile \<Rightarrow> pyval io" where
  "exec_vcfops_certificate_delete opts thumbprint force profile =
     vcfops_certificate_delete opts thumbprint force profile"

subsection \<open>\<open>modules/vcf_vcfops_collector.py\<close>\<close>

definition exec_vcfops_collector_list :: "pyval \<Rightarrow> profile \<Rightarrow> pyval io" where
  "exec_vcfops_collector_list opts profile = vcfops_collector_list opts profile"

definition exec_vcfops_collector_get :: "pyval \<Rightarrow> pyval \<Rightarrow> profile \<Rightarrow> pyval io" where
  "exec_vcfops_collector_get opts collector_id profile = vcfops_collector_get opts collector_id profile"

definition exec_vcfops_collector_delete ::
  "pyval \<Rightarrow> pyval \<Rightarrow> profile \<Rightarrow> pyval io" where
  "exec_vcfops_collector_delete opts collector_id profile = vcfops_collector_delete opts collector_id profile"

definition exec_vcfops_collector_groups_list :: "pyval \<Rightarrow> profile \<Rightarrow> pyval io" where
  "exec_vcfops_collector_groups_list opts profile = vcfops_collector_groups_list opts profile"

definition exec_vcfops_collector_groups_get ::
  "pyval \<Rightarrow> pyval \<Rightarrow> profile \<Rightarrow> pyval io" where
  "exec_vcfops_collector_groups_get opts group_id profile = vcfops_collector_groups_get opts group_id profile"

definition exec_vcfops_collector_groups_create ::
  "pyval \<Rightarrow> pyval \<Rightarrow> profile \<Rightarrow> pyval io" where
  "exec_vcfops_collector_groups_create opts group_spec profile =
     vcfops_collector_groups_create opts group_spec profile"

definition exec_vcfops_collector_groups_update ::
  "pyval \<Rightarrow> pyval \<Rightarrow> pyval \<Rightarrow> profile \<Rightarrow> pyval io" where
  "exec_vcfops_collector_groups_update opts group_id group_spec profile =
     vcfops_collector_groups_update opts group_id group_spec profile"

definition exec_vcfops_collector_groups_delete ::
  "pyval \<Rightarrow> pyval \<Rightarrow> profile \<Rightarrow> pyval io" where
  "exec_vcfops_collector_groups_delete opts group_id profile = vcfops_collector_groups_delete opts group_id profile"

subsection \<open>\<open>modules/vcf_vcfops_credential.py\<close>\<close>

definition exec_vcfops_credential_list :: "pyval \<Rightarrow> profile \<Rightarrow> pyval io" where
  "exec_vcfops_credential_list opts profile = vcfops_credential_list opts profile"

definition exec_vcfops_credential_get ::
  "pyval \<Rightarrow> pyval \<Rightarrow> profile \<Rightarrow> pyval io" where
  "exec_vcfops_credential_get opts credential_id profile = vcfops_credential_get opts credential_id profile"

definition exec_vcfops_credential_create ::
  "pyval \<Rightarrow> pyval \<Rightarrow> profile \<Rightarrow> pyval io" where
  "exec_vcfops_credential_create opts credential_spec profile = vcfops_credential_create opts credential_spec profile"

definition exec_vcfops_credential_update ::
  "pyval \<Rightarrow> pyval \<Rightarrow> pyval \<Rightarrow> profile \<Rightarrow> pyval io" where
  "exec_vcfops_credential_update opts credential_id credential_spec profile =
     vcfops_credential_update opts credential_id credential_spec profile"

definition exec_vcfops_credential_delete ::
  "pyval \<Rightarrow> pyval \<Rightarrow> profile \<Rightarrow> pyval io" where
  "exec_vcfops_credential_delete opts credential_id profile = vcfops_credential_delete opts credential_id profile"

definition exec_vcfops_credential_kinds_list :: "pyval \<Rightarrow> profile \<Rightarrow> pyval io" where
  "exec_vcfops_credential_kinds_list opts profile = vcfops_credential_kinds_list opts profile"

subsection \<open>\<open>modules/vcf_vcfops_dashboard.py\<close>\<close>

definition exec_vcfops_dashboard_list :: "pyval \<Rightarrow> profile \<Rightarrow> pyval io" where
  "exec_vcfops_dashboard_list opts profile = vcfops_dashboard_list opts profile"

definition exec_vcfops_dashboard_get :: "pyval \<Rightarrow> pyval \<Rightarrow> profile \<Rightarrow> pyval io" where
  "exec_vcfops_dashboard_get opts dashboard_id profile = vcfops_dashboard_get opts dashboard_id profile"

definition exec_vcfops_dashboard_get_or_none ::
  "pyval \<Rightarrow> pyval \<Rightarrow> profile \<Rightarrow> pyval io" where
  "exec_vcfops_dashboard_get_or_none opts dashboard_id profile =
     vcfops_dashboard_get_or_none opts dashboard_id profile"

definition exec_vcfops_dashboard_create ::
  "pyval \<Rightarrow> pyval \<Rightarrow> profile \<Rightarrow> pyval io" where
  "exec_vcfops_dashboard_create opts dashboard_spec profile = vcfops_dashboard_create opts dashboard_spec profile"

definition exec_vcfops_dashboard_update ::
  "pyval \<Rightarrow> pyval \<Rightarrow> pyval \<Rightarrow> profile \<Rightarrow> pyval io" where
  "exec_vcfops_dashboard_update opts dashboard_id dashboard_spec profile =
     vcfops_dashboard_update opts dashboard_id dashboard_spec profile"

definition exec_vcfops_dashboard_delete ::
  "pyval \<Rightarrow> pyval \<Rightarrow> profile \<Rightarrow> pyval io" where
  "exec_vcfops_dashboard_delete opts dashboard_id profile = vcfops_dashboard_delete opts dashboard_id profile"

definition exec_vcfops_dashboard_share ::
  "pyval \<Rightarrow> pyval \<Rightarrow> pyval \<Rightarrow> profile \<Rightarrow> pyval io" where
  "exec_vcfops_dashboard_share opts dashboard_id user_id profile =
     vcfops_dashboard_share opts dashboard_id user_id profile"

definition exec_vcfops_dashboard_import ::
  "pyval \<Rightarrow> pyval \<Rightarrow> profile \<Rightarrow> pyval io" where
  "exec_vcfops_dashboard_import opts spec profile = vcfops_dashboard_import opts spec profile"

subsection \<open>\<open>modules/vcf_vcfops_deployment.py\<close>\<close>

definition exec_vcfops_deployment_node_status :: "pyval \<Rightarrow> profile \<Rightarrow> pyval io" where
  "exec_vcfops_deployment_node_status opts profile = vcfops_deployment_node_status opts profile"

definition exec_vcfops_deployment_healthy :: "pyval \<Rightarrow> profile \<Rightarrow> bool io" where
  "exec_vcfops_deployment_healthy opts profile =
     bindM (vcfops_deployment_node_status opts profile) (\<lambda>status.
     pureM (case status of PDict d \<Rightarrow> py_eq (dget d ''status'' PNone) (PStr ''ONLINE'') | _ \<Rightarrow> False))"

definition exec_vcfops_deployment_applications_list ::
  "pyval \<Rightarrow> pyval \<Rightarrow> pyval \<Rightarrow> pyval io" where
  "exec_vcfops_deployment_applications_list opts page page_size =
     vcfops_deployment_applications_list opts page page_size"

definition exec_vcfops_deployment_applications_get :: "pyval \<Rightarrow> pyval \<Rightarrow> pyval io" where
  "exec_vcfops_deployment_applications_get opts app_id = vcfops_deployment_applications_get opts app_id"

subsection \<open>\<open>modules/vcf_vcfops_fleet_certificates.py\<close>\<close>

definition exec_vcfops_fleet_certificates_query_certificates ::
  "pyval \<Rightarrow> pyval \<Rightarrow> pyval \<Rightarrow> pyval \<Rightarrow> pyval \<Rightarrow> pyval \<Rightarrow> pyval \<Rightarrow> profile \<Rightarrow> pyval io" where
  "exec_vcfops_fleet_certificates_query_certificates opts appliance appliance_fqdn status category page page_size profile =
     vcfops_fleet_certificates_query_certificates opts appliance appliance_fqdn status category page page_size profile"

definition exec_vcfops_fleet_certificates_list ::
  "pyval \<Rightarrow> pyval \<Rightarrow> pyval \<Rightarrow> pyval \<Rightarrow> pyval \<Rightarrow> profile \<Rightarrow> pyval io" where
  "exec_vcfops_fleet_certificates_list opts appliance appliance_fqdn status category profile =
     vcfops_fleet_certificates_list opts profile (PInt 100) [(''appliance'', appliance), (''appliance_fqdn'', appliance_fqdn), (''status'', status), (''category'', category)]"

definition exec_vcfops_fleet_certificates_get ::
  "pyval \<Rightarrow> pyval \<Rightarrow> profile \<Rightarrow> pyval io" where
  "exec_vcfops_fleet_certificates_get opts certificate_resource_key profile =
     vcfops_fleet_certificates_get opts certificate_resource_key profile"

definition exec_vcfops_fleet_certificates_check_expiry ::
  "((int \<Rightarrow> pyval)) \<Rightarrow> int \<Rightarrow> pyval \<Rightarrow> int \<Rightarrow> pyval \<Rightarrow> pyval \<Rightarrow> pyval \<Rightarrow> pyval \<Rightarrow> profile \<Rightarrow> pyval io" where
  "exec_vcfops_fleet_certificates_check_expiry days_of now opts threshold_days appliance appliance_fqdn status category profile =
     vcfops_fleet_certificates_check_expiry days_of now opts threshold_days profile [(''appliance'', appliance), (''appliance_fqdn'', appliance_fqdn), (''status'', status), (''category'', category)]"

definition exec_vcfops_fleet_certificates_replace ::
  "pyval \<Rightarrow> pyval \<Rightarrow> pyval \<Rightarrow> pyval \<Rightarrow> profile \<Rightarrow> pyval io" where
  "exec_vcfops_fleet_certificates_replace opts certificate_resource_key ca_type certificate_chain profile =
     vcfops_fleet_certificates_replace opts certificate_resource_key ca_type certificate_chain profile"

definition exec_vcfops_fleet_certificates_list_csrs ::
  "pyval \<Rightarrow> pyval \<Rightarrow> profile \<Rightarrow> pyval io" where
  "exec_vcfops_fleet_certificates_list_csrs opts common_name profile =
     vcfops_fleet_certificates_list_csrs opts common_name profile"

definition exec_vcfops_fleet_certificates_generate_csr ::
  "pyval \<Rightarrow> pyval \<Rightarrow> pyval \<Rightarrow> pyval \<Rightarrow> pyval \<Rightarrow> pyval \<Rightarrow> pyval \<Rightarrow> pyval \<Rightarrow> pyval \<Rightarrow> pyval \<Rightarrow> pyval \<Rightarrow> pyval \<Rightarrow> profile \<Rightarrow> pyval io" where
  "exec_vcfops_fleet_certificates_generate_csr opts certificate_resource_key common_name organization org_unit locality st country subject_alt_names email key_size key_algorithm profile =
     vcfops_fleet_certificates_generate_csr opts certificate_resource_key common_name organization org_unit locality st country subject_alt_names email key_size key_algorithm profile"

definition exec_vcfops_fleet_certificates_get_certificate_authorities ::
  "pyval \<Rightarrow> profile \<Rightarrow> pyval io" where
  "exec_vcfops_fleet_certificates_get_certificate_authorities opts profile =
     vcfops_fleet_certificates_get_certificate_authorities opts profile"

definition exec_vcfops_fleet_certificates_configure_certificate_authorities ::
  "pyval \<Rightarrow> pyval \<Rightarrow> profile \<Rightarrow> pyval io" where
  "exec_vcfops_fleet_certificates_configure_certificate_authorities opts config profile =
     vcfops_fleet_certificates_configure_certificate_authorities opts config profile"

subsection \<open>\<open>modules/vcf_vcfops_fleet_passwords.py\<close>\<close>

definition exec_vcfops_fleet_passwords_query_accounts ::
  "pyval \<Rightarrow> pyval \<Rightarrow> pyval \<Rightarrow> pyval \<Rightarrow> pyval \<Rightarrow> pyval \<Rightarrow> pyval \<Rightarrow> pyval \<Rightarrow> pyval \<Rightarrow> pyval \<Rightarrow> profile \<Rightarrow> pyval io" where
  "exec_vcfops_fleet_passwords_query_accounts opts appliance appliance_fqdn status username vcf_domain_id page page_size sort_by sort_order profile =
     vcfops_fleet_passwords_query_accounts opts appliance appliance_fqdn status username vcf_domain_id page page_size sort_by sort_order profile"

definition exec_vcfops_fleet_passwords_list ::
  "pyval \<Rightarrow> pyval \<Rightarrow> pyval \<Rightarrow> pyval \<Rightarrow> pyval \<Rightarrow> pyval \<Rightarrow> profile \<Rightarrow> pyval io" where
  "exec_vcfops_fleet_passwords_list opts appliance appliance_fqdn status username vcf_domain_id profile =
     vcfops_fleet_passwords_list opts profile (PInt 100) [(''appliance'', appliance), (''appliance_fqdn'', appliance_fqdn), (''status'', status), (''username'', username), (''vcf_domain_id'', vcf_domain_id)]"

definition exec_vcfops_fleet_passwords_get_account ::
  "pyval \<Rightarrow> pyval \<Rightarrow> profile \<Rightarrow> pyval io" where
  "exec_vcfops_fleet_passwords_get_account opts password_account_key profile =
     vcfops_fleet_passwords_get_account opts password_account_key profile"

definition exec_vcfops_fleet_passwords_check_expiry ::
  "((int \<Rightarrow> pyval)) \<Rightarrow> int \<Rightarrow> pyval \<Rightarrow> int \<Rightarrow> pyval \<Rightarrow> pyval \<Rightarrow> pyval \<Rightarrow> profile \<Rightarrow> pyval io" where
  "exec_vcfops_fleet_passwords_check_expiry days_of now opts threshold_days appliance appliance_fqdn vcf_domain_id profile =
     vcfops_fleet_passwords_check_expiry days_of now opts threshold_days profile [(''appliance'', appliance), (''appliance_fqdn'', appliance_fqdn), (''vcf_domain_id'', vcf_domain_id)]"

definition exec_vcfops_fleet_passwords_update ::
  "pyval \<Rightarrow> pyval \<Rightarrow> pyval \<Rightarrow> pyval \<Rightarrow> pyval \<Rightarrow> profile \<Rightarrow> pyval io" where
  "exec_vcfops_fleet_passwords_update opts password_account_key current_password new_password username profile =
     vcfops_fleet_passwords_update opts password_account_key current_password new_password username profile"

subsection \<open>\<open>modules/vcf_vcfops_maintenance.py\<close>\<close>

definition exec_vcfops_maintenance_list ::
  "pyval \<Rightarrow> pyval \<Rightarrow> pyval \<Rightarrow> pyval io" where
  "exec_vcfops_maintenance_list opts page page_size = vcfops_maintenance_list opts page page_size"

definition exec_vcfops_maintenance_get :: "pyval \<Rightarrow> pyval \<Rightarrow> pyval io" where
  "exec_vcfops_maintenance_get opts schedule_id = vcfops_maintenance_get opts schedule_id"

definition exec_vcfops_maintenance_create :: "pyval \<Rightarrow> pyval \<Rightarrow> pyval io" where
  "exec_vcfops_maintenance_create opts schedule_spec = vcfops_maintenance_create opts schedule_spec"

definition exec_vcfops_maintenance_update ::
  "pyval \<Rightarrow> pyval \<Rightarrow> pyval \<Rightarrow> pyval io" where
  "exec_vcfops_maintenance_update opts schedule_id schedule_spec =
     vcfops_maintenance_update opts schedule_id schedule_spec"

definition exec_vcfops_maintenance_delete :: "pyval \<Rightarrow> pyval \<Rightarrow> pyval io" where
  "exec_vcfops_maintenance_delete opts schedule_id = vcfops_maintenance_delete opts schedule_id"

subsection \<open>\<open>modules/vcf_vcfops_policy.py\<close>\<close>

definition exec_vcfops_policy_list :: "pyval \<Rightarrow> pyval io" where
  "exec_vcfops_policy_list opts = vcfops_policy_list opts"

definition exec_vcfops_policy_get :: "pyval \<Rightarrow> pyval \<Rightarrow> pyval io" where
  "exec_vcfops_policy_get opts policy_id = vcfops_policy_get opts policy_id"

definition exec_vcfops_policy_notification_rules_list :: "pyval \<Rightarrow> pyval io" where
  "exec_vcfops_policy_notification_rules_list opts = vcfops_policy_notification_rules_list opts"

subsection \<open>\<open>modules/vcf_vcfops_recommendation.py\<close>\<close>

definition exec_vcfops_recommendation_list ::
  "pyval \<Rightarrow> pyval \<Rightarrow> pyval \<Rightarrow> pyval io" where
  "exec_vcfops_recommendation_list opts page page_size = vcfops_recommendation_list opts page page_size"

definition exec_vcfops_recommendation_get :: "pyval \<Rightarrow> pyval \<Rightarrow> pyval io" where
  "exec_vcfops_recommendation_get opts recommendation_id = vcfops_recommendation_get opts recommendation_id"

subsection \<open>\<open>modules/vcf_vcfops_report.py\<close>\<close>

definition exec_vcfops_report_list :: "pyval \<Rightarrow> pyval \<Rightarrow> pyval \<Rightarrow> pyval io" where
  "exec_vcfops_report_list opts page page_size = vcfops_report_list opts page page_size"

definition exec_vcfops_report_get :: "pyval \<Rightarrow> pyval \<Rightarrow> pyval io" where
  "exec_vcfops_report_get opts report_id = vcfops_report_get opts report_id"

definition exec_vcfops_report_generate :: "pyval \<Rightarrow> pyval \<Rightarrow> pyval io" where
  "exec_vcfops_report_generate opts report_spec = vcfops_report_generate opts report_spec"

definition exec_vcfops_report_download :: "pyval \<Rightarrow> pyval \<Rightarrow> pyval \<Rightarrow> pyval io" where
  "exec_vcfops_report_download opts report_id fmt = vcfops_report_download opts report_id fmt"

definition exec_vcfops_report_delete :: "pyval \<Rightarrow> pyval \<Rightarrow> pyval io" where
  "exec_vcfops_report_delete opts report_id = vcfops_report_delete opts report_id"

subsection \<open>\<open>modules/vcf_vcfops_resource.py\<close>\<close>

definition exec_vcfops_resource_list ::
  "pyval \<Rightarrow> pyval \<Rightarrow> pyval \<Rightarrow> dict \<Rightarrow> pyval io" where
  "exec_vcfops_resource_list opts page page_size filters = vcfops_resource_list opts page page_size filters"

definition exec_vcfops_resource_get :: "pyval \<Rightarrow> pyval \<Rightarrow> pyval io" where
  "exec_vcfops_resource_get opts resource_id = vcfops_resource_get opts resource_id"

definition exec_vcfops_resource_relationships ::
  "pyval \<Rightarrow> pyval \<Rightarrow> dict \<Rightarrow> pyval io" where
  "exec_vcfops_resource_relationships opts resource_id filters =
     vcfops_resource_relationships opts resource_id filters"

definition exec_vcfops_resource_stats :: "pyval \<Rightarrow> pyval \<Rightarrow> dict \<Rightarrow> pyval io" where
  "exec_vcfops_resource_stats opts resource_id filters = vcfops_resource_stats opts resource_id filters"

subsection \<open>\<open>modules/vcf_vcfops_resource_group.py\<close>\<close>

definition exec_vcfops_resource_group_list :: "pyval \<Rightarrow> profile \<Rightarrow> pyval io" where
  "exec_vcfops_resource_group_list opts profile = vcfops_resource_group_list opts profile"

definition exec_vcfops_resource_group_get ::
  "pyval \<Rightarrow> pyval \<Rightarrow> profile \<Rightarrow> pyval io" where
  "exec_vcfops_resource_group_get opts group_id profile = vcfops_resource_group_get opts group_id profile"

definition exec_vcfops_resource_group_create ::
  "pyval \<Rightarrow> pyval \<Rightarrow> profile \<Rightarrow> pyval io" where
  "exec_vcfops_resource_group_create opts group_spec profile = vcfops_resource_group_create opts group_spec profile"

definition exec_vcfops_resource_group_update ::
  "pyval \<Rightarrow> pyval \<Rightarrow> pyval \<Rightarrow> profile \<Rightarrow> pyval io" where
  "exec_vcfops_resource_group_update opts group_id group_spec profile =
     vcfops_resource_group_update opts group_id group_spec profile"

definition exec_vcfops_resource_group_delete ::
  "pyval \<Rightarrow> pyval \<Rightarrow> profile \<Rightarrow> pyval io" where
  "exec_vcfops_resource_group_delete opts group_id profile = vcfops_resource_group_delete opts group_id profile"

definition exec_vcfops_resource_group_members ::
  "pyval \<Rightarrow> pyval \<Rightarrow> profile \<Rightarrow> pyval io" where
  "exec_vcfops_resource_group_members opts group_id profile = vcfops_resource_group_members opts group_id profile"

definition exec_vcfops_resource_group_list_types :: "pyval \<Rightarrow> profile \<Rightarrow> pyval io" where
  "exec_vcfops_resource_group_list_types opts profile = vcfops_resource_group_list_types opts profile"

subsection \<open>\<open>modules/vcf_vcfops_solution.py\<close>\<close>

definition exec_vcfops_solution_list :: "pyval \<Rightarrow> pyval io" where
  "exec_vcfops_solution_list opts = vcfops_solution_list opts"

definition exec_vcfops_solution_get :: "pyval \<Rightarrow> pyval \<Rightarrow> pyval io" where
  "exec_vcfops_solution_get opts solution_id = vcfops_solution_get opts solution_id"

subsection \<open>\<open>modules/vcf_vcfops_supermetric.py\<close>\<close>

definition exec_vcfops_supermetric_list ::
  "pyval \<Rightarrow> pyval \<Rightarrow> pyval \<Rightarrow> pyval io" where
  "exec_vcfops_supermetric_list opts page page_size = vcfops_supermetric_list opts page page_size"

definition exec_vcfops_supermetric_get :: "pyval \<Rightarrow> pyval \<Rightarrow> pyval io" where
  "exec_vcfops_supermetric_get opts supermetric_id = vcfops_supermetric_get opts supermetric_id"

definition exec_vcfops_supermetric_create :: "pyval \<Rightarrow> pyval \<Rightarrow> pyval io" where
  "exec_vcfops_supermetric_create opts supermetric_spec = vcfops_supermetric_create opts supermetric_spec"

definition exec_vcfops_supermetric_update ::
  "pyval \<Rightarrow> pyval \<Rightarrow> pyval \<Rightarrow> pyval io" where
  "exec_vcfops_supermetric_update opts supermetric_id supermetric_spec =
     vcfops_supermetric_update opts supermetric_id supermetric_spec"

definition exec_vcfops_supermetric_delete :: "pyval \<Rightarrow> pyval \<Rightarrow> pyval io" where
  "exec_vcfops_supermetric_delete opts supermetric_id = vcfops_supermetric_delete opts supermetric_id"

subsection \<open>\<open>modules/vcf_vcfops_task.py\<close>\<close>

definition exec_vcfops_task_list :: "pyval \<Rightarrow> pyval \<Rightarrow> pyval \<Rightarrow> pyval io" where
  "exec_vcfops_task_list opts page page_size = vcfops_task_list opts page page_size"

definition exec_vcfops_task_get :: "pyval \<Rightarrow> pyval \<Rightarrow> pyval io" where
  "exec_vcfops_task_get opts task_id = vcfops_task_get opts task_id"

subsection \<open>\<open>modules/vcf_vcfops_version.py\<close>\<close>

definition exec_vcfops_version_get :: "pyval \<Rightarrow> pyval io" where
  "exec_vcfops_version_get opts = vcfops_version_get opts"

subsection \<open>\<open>modules/vcf_vcfops_webhook.py\<close>\<close>

definition exec_vcfops_webhook_list ::
  "pyval \<Rightarrow> pyval \<Rightarrow> pyval \<Rightarrow> profile \<Rightarrow> pyval io" where
  "exec_vcfops_webhook_list opts page page_size profile = vcfops_webhook_list opts page page_size profile"

definition exec_vcfops_webhook_get :: "pyval \<Rightarrow> pyval \<Rightarrow> profile \<Rightarrow> pyval io" where
  "exec_vcfops_webhook_get opts instance_id profile = vcfops_webhook_get opts instance_id profile"

definition exec_vcfops_webhook_get_or_none ::
  "pyval \<Rightarrow> pyval \<Rightarrow> profile \<Rightarrow> pyval io" where
  "exec_vcfops_webhook_get_or_none opts instance_id profile = vcfops_webhook_get_or_none opts instance_id profile"

definition exec_vcfops_webhook_create ::
  "pyval \<Rightarrow> pyval \<Rightarrow> profile \<Rightarrow> pyval io" where
  "exec_vcfops_webhook_create opts instance_spec profile = vcfops_webhook_create opts instance_spec profile"

definition exec_vcfops_webhook_update ::
  "pyval \<Rightarrow> pyval \<Rightarrow> pyval \<Rightarrow> profile \<Rightarrow> pyval io" where
  "exec_vcfops_webhook_update opts instance_id instance_spec profile =
     vcfops_webhook_update opts instance_id instance_spec profile"

definition exec_vcfops_webhook_delete ::
  "pyval \<Rightarrow> pyval \<Rightarrow> profile \<Rightarrow> pyval io" where
  "exec_vcfops_webhook_delete opts instance_id profile = vcfops_webhook_delete opts instance_id profile"

definition exec_vcfops_webhook_list_rules ::
  "pyval \<Rightarrow> pyval \<Rightarrow> pyval \<Rightarrow> profile \<Rightarrow> pyval io" where
  "exec_vcfops_webhook_list_rules opts page page_size profile = vcfops_webhook_list_rules opts page page_size profile"

definition exec_vcfops_webhook_get_rule ::
  "pyval \<Rightarrow> pyval \<Rightarrow> profile \<Rightarrow> pyval io" where
  "exec_vcfops_webhook_get_rule opts rule_id profile = vcfops_webhook_get_rule opts rule_id profile"

definition exec_vcfops_webhook_get_rule_or_none ::
  "pyval \<Rightarrow> pyval \<Rightarrow> profile \<Rightarrow> pyval io" where
  "exec_vcfops_webhook_get_rule_or_none opts rule_id profile = vcfops_webhook_get_rule_or_none opts rule_id profile"

definition exec_vcfops_webhook_create_rule ::
  "pyval \<Rightarrow> pyval \<Rightarrow> profile \<Rightarrow> pyval io" where
  "exec_vcfops_webhook_create_rule opts rule_spec profile = vcfops_webhook_create_rule opts rule_spec profile"

definition exec_vcfops_webhook_update_rule ::
  "pyval \<Rightarrow> pyval \<Rightarrow> pyval \<Rightarrow> profile \<Rightarrow> pyval io" where
  "exec_vcfops_webhook_update_rule opts rule_id rule_spec profile =
     vcfops_webhook_update_rule opts rule_id rule_spec profile"

definition exec_vcfops_webhook_delete_rule ::
  "pyval \<Rightarrow> pyval \<Rightarrow> profile \<Rightarrow> pyval io" where
  "exec_vcfops_webhook_delete_rule opts rule_id profile = vcfops_webhook_delete_rule opts rule_id profile"

end
