(* ===== verification/Exec_Vcfa.thy ===== *)
theory Exec_Vcfa
  imports Vcfa_Access Vcfa_Clients
begin

section \<open>Exec_Vcfa: execution modules of VCF Automation\<close>

text \<open>
  The execution functions of these modules: each reads \<open>__opts__\<close>, which is the argument \<open>opts\<close> here, and passes
  its arguments on to a function of the client module. A parameter of the client that the module leaves out has the
  default of the client. Python refuses a call whose keywords name a positional parameter twice; such calls are not
  in the domain of these definitions.
\<close>

subsection \<open>\<open>modules/vcf_vcfa_action.py\<close>\<close>

definition exec_vcfa_action_list :: "pyval \<Rightarrow> pyval \<Rightarrow> profile \<Rightarrow> pyval io" where
  "exec_vcfa_action_list opts project_id profile = vcfa_action_list opts project_id profile"

definition exec_vcfa_action_get :: "pyval \<Rightarrow> pyval \<Rightarrow> profile \<Rightarrow> pyval io" where
  "exec_vcfa_action_get opts action_id profile = vcfa_action_get opts action_id profile"

definition exec_vcfa_action_get_or_none ::
  "pyval \<Rightarrow> pyval \<Rightarrow> profile \<Rightarrow> pyval io" where
  "exec_vcfa_action_get_or_none opts action_id profile = vcfa_action_get_or_none opts action_id profile"

definition exec_vcfa_action_create :: "pyval \<Rightarrow> pyval \<Rightarrow> profile \<Rightarrow> pyval io" where
  "exec_vcfa_action_create opts spec profile = vcfa_action_create opts spec profile"

definition exec_vcfa_action_update ::
  "pyval \<Rightarrow> pyval \<Rightarrow> pyval \<Rightarrow> profile \<Rightarrow> pyval io" where
  "exec_vcfa_action_update opts action_id spec profile = vcfa_action_update opts action_id spec profile"

definition exec_vcfa_action_delete :: "pyval \<Rightarrow> pyval \<Rightarrow> profile \<Rightarrow> pyval io" where
  "exec_vcfa_action_delete opts action_id profile = vcfa_action_delete opts action_id profile"

definition exec_vcfa_action_run ::
  "pyval \<Rightarrow> pyval \<Rightarrow> pyval \<Rightarrow> profile \<Rightarrow> pyval io" where
  "exec_vcfa_action_run opts action_id inputs profile = vcfa_action_run opts action_id inputs profile"

definition exec_vcfa_action_list_runs ::
  "pyval \<Rightarrow> pyval \<Rightarrow> profile \<Rightarrow> pyval io" where
  "exec_vcfa_action_list_runs opts action_id profile = vcfa_action_list_runs opts action_id profile"

subsection \<open>\<open>modules/vcf_vcfa_action_secret.py\<close>\<close>

definition exec_vcfa_action_secret_list ::
  "pyval \<Rightarrow> pyval \<Rightarrow> profile \<Rightarrow> pyval io" where
  "exec_vcfa_action_secret_list opts project_id profile = vcfa_action_secret_list opts project_id profile"

definition exec_vcfa_action_secret_get ::
  "pyval \<Rightarrow> pyval \<Rightarrow> profile \<Rightarrow> pyval io" where
  "exec_vcfa_action_secret_get opts secret_id profile = vcfa_action_secret_get opts secret_id profile"

definition exec_vcfa_action_secret_get_or_none ::
  "pyval \<Rightarrow> pyval \<Rightarrow> profile \<Rightarrow> pyval io" where
  "exec_vcfa_action_secret_get_or_none opts secret_id profile = vcfa_action_secret_get_or_none opts secret_id profile"

definition exec_vcfa_action_secret_create ::
  "pyval \<Rightarrow> pyval \<Rightarrow> profile \<Rightarrow> pyval io" where
  "exec_vcfa_action_secret_create opts spec profile = vcfa_action_secret_create opts spec profile"

definition exec_vcfa_action_secret_update ::
  "pyval \<Rightarrow> pyval \<Rightarrow> pyval \<Rightarrow> profile \<Rightarrow> pyval io" where
  "exec_vcfa_action_secret_update opts secret_id spec profile = vcfa_action_secret_update opts secret_id spec profile"

definition exec_vcfa_action_secret_delete ::
  "pyval \<Rightarrow> pyval \<Rightarrow> profile \<Rightarrow> pyval io" where
  "exec_vcfa_action_secret_delete opts secret_id profile = vcfa_action_secret_delete opts secret_id profile"

subsection \<open>\<open>modules/vcf_vcfa_action_subscription.py\<close>\<close>

definition exec_vcfa_action_subscription_list :: "pyval \<Rightarrow> profile \<Rightarrow> pyval io" where
  "exec_vcfa_action_subscription_list opts profile = vcfa_action_subscription_list opts profile"

definition exec_vcfa_action_subscription_get ::
  "pyval \<Rightarrow> pyval \<Rightarrow> profile \<Rightarrow> pyval io" where
  "exec_vcfa_action_subscription_get opts subscription_id profile =
     vcfa_action_subscription_get opts subscription_id profile"

definition exec_vcfa_action_subscription_get_or_none ::
  "pyval \<Rightarrow> pyval \<Rightarrow> profile \<Rightarrow> pyval io" where
  "exec_vcfa_action_subscription_get_or_none opts subscription_id profile =
     vcfa_action_subscription_get_or_none opts subscription_id profile"

definition exec_vcfa_action_subscription_create ::
  "pyval \<Rightarrow> pyval \<Rightarrow> profile \<Rightarrow> pyval io" where
  "exec_vcfa_action_subscription_create opts spec profile = vcfa_action_subscription_create opts spec profile"

definition exec_vcfa_action_subscription_update ::
  "pyval \<Rightarrow> pyval \<Rightarrow> pyval \<Rightarrow> profile \<Rightarrow> pyval io" where
  "exec_vcfa_action_subscription_update opts subscription_id spec profile =
     vcfa_action_subscription_update opts subscription_id spec profile"

definition exec_vcfa_action_subscription_delete ::
  "pyval \<Rightarrow> pyval \<Rightarrow> profile \<Rightarrow> pyval io" where
  "exec_vcfa_action_subscription_delete opts subscription_id profile =
     vcfa_action_subscription_delete opts subscription_id profile"

definition exec_vcfa_action_subscription_list_event_topics ::
  "pyval \<Rightarrow> profile \<Rightarrow> pyval io" where
  "exec_vcfa_action_subscription_list_event_topics opts profile =
     vcfa_action_subscription_list_event_topics opts profile"

subsection \<open>\<open>modules/vcf_vcfa_catalog.py\<close>\<close>

definition exec_vcfa_catalog_list_items ::
  "pyval \<Rightarrow> pyval \<Rightarrow> profile \<Rightarrow> pyval io" where
  "exec_vcfa_catalog_list_items opts project_id profile = vcfa_catalog_list_items opts project_id profile"

definition exec_vcfa_catalog_get_item ::
  "pyval \<Rightarrow> pyval \<Rightarrow> profile \<Rightarrow> pyval io" where
  "exec_vcfa_catalog_get_item opts item_id profile = vcfa_catalog_get_item opts item_id profile"

definition exec_vcfa_catalog_get_item_or_none ::
  "pyval \<Rightarrow> pyval \<Rightarrow> profile \<Rightarrow> pyval io" where
  "exec_vcfa_catalog_get_item_or_none opts item_id profile = vcfa_catalog_get_item_or_none opts item_id profile"

definition exec_vcfa_catalog_request_item ::
  "pyval \<Rightarrow> pyval \<Rightarrow> pyval \<Rightarrow> profile \<Rightarrow> pyval io" where
  "exec_vcfa_catalog_request_item opts item_id request_spec profile =
     vcfa_catalog_request_item opts item_id request_spec profile"

definition exec_vcfa_catalog_list_sources :: "pyval \<Rightarrow> profile \<Rightarrow> pyval io" where
  "exec_vcfa_catalog_list_sources opts profile = vcfa_catalog_list_sources opts profile"

definition exec_vcfa_catalog_get_source ::
  "pyval \<Rightarrow> pyval \<Rightarrow> profile \<Rightarrow> pyval io" where
  "exec_vcfa_catalog_get_source opts source_id profile = vcfa_catalog_get_source opts source_id profile"

definition exec_vcfa_catalog_create_source ::
  "pyval \<Rightarrow> pyval \<Rightarrow> profile \<Rightarrow> pyval io" where
  "exec_vcfa_catalog_create_source opts spec profile = vcfa_catalog_create_source opts spec profile"

definition exec_vcfa_catalog_update_source ::
  "pyval \<Rightarrow> pyval \<Rightarrow> pyval \<Rightarrow> profile \<Rightarrow> pyval io" where
  "exec_vcfa_catalog_update_source opts source_id spec profile =
     vcfa_catalog_update_source opts source_id spec profile"

definition exec_vcfa_catalog_delete_source ::
  "pyval \<Rightarrow> pyval \<Rightarrow> profile \<Rightarrow> pyval io" where
  "exec_vcfa_catalog_delete_source opts source_id profile = vcfa_catalog_delete_source opts source_id profile"

subsection \<open>\<open>modules/vcf_vcfa_cloud_account.py\<close>\<close>

definition exec_vcfa_cloud_account_list :: "pyval \<Rightarrow> profile \<Rightarrow> pyval io" where
  "exec_vcfa_cloud_account_list opts profile = vcfa_cloud_account_list opts profile"

definition exec_vcfa_cloud_account_get ::
  "pyval \<Rightarrow> pyval \<Rightarrow> profile \<Rightarrow> pyval io" where
  "exec_vcfa_cloud_account_get opts account_id profile = vcfa_cloud_account_get opts account_id profile"

definition exec_vcfa_cloud_account_get_or_none ::
  "pyval \<Rightarrow> pyval \<Rightarrow> profile \<Rightarrow> pyval io" where
  "exec_vcfa_cloud_account_get_or_none opts account_id profile =
     vcfa_cloud_account_get_or_none opts account_id profile"

definition exec_vcfa_cloud_account_create_vsphere ::
  "pyval \<Rightarrow> pyval \<Rightarrow> profile \<Rightarrow> pyval io" where
  "exec_vcfa_cloud_account_create_vsphere opts spec profile = vcfa_cloud_account_create_vsphere opts spec profile"

definition exec_vcfa_cloud_account_update_vsphere ::
  "pyval \<Rightarrow> pyval \<Rightarrow> pyval \<Rightarrow> profile \<Rightarrow> pyval io" where
  "exec_vcfa_cloud_account_update_vsphere opts account_id spec profile =
     vcfa_cloud_account_update_vsphere opts account_id spec profile"

definition exec_vcfa_cloud_account_create_nsxt ::
  "pyval \<Rightarrow> pyval \<Rightarrow> profile \<Rightarrow> pyval io" where
  "exec_vcfa_cloud_account_create_nsxt opts spec profile = vcfa_cloud_account_create_nsxt opts spec profile"

definition exec_vcfa_cloud_account_update_nsxt ::
  "pyval \<Rightarrow> pyval \<Rightarrow> pyval \<Rightarrow> profile \<Rightarrow> pyval io" where
  "exec_vcfa_cloud_account_update_nsxt opts account_id spec profile =
     vcfa_cloud_account_update_nsxt opts account_id spec profile"

definition exec_vcfa_cloud_account_delete ::
  "pyval \<Rightarrow> pyval \<Rightarrow> profile \<Rightarrow> pyval io" where
  "exec_vcfa_cloud_account_delete opts account_id profile = vcfa_cloud_account_delete opts account_id profile"

definition exec_vcfa_cloud_account_regions ::
  "pyval \<Rightarrow> pyval \<Rightarrow> profile \<Rightarrow> pyval io" where
  "exec_vcfa_cloud_account_regions opts account_id profile = vcfa_cloud_account_regions opts account_id profile"

subsection \<open>\<open>modules/vcf_vcfa_cloud_template.py\<close>\<close>

definition exec_vcfa_cloud_template_list ::
  "pyval \<Rightarrow> pyval \<Rightarrow> profile \<Rightarrow> pyval io" where
  "exec_vcfa_cloud_template_list opts project_id profile = vcfa_cloud_template_list opts project_id profile"

definition exec_vcfa_cloud_template_get ::
  "pyval \<Rightarrow> pyval \<Rightarrow> profile \<Rightarrow> pyval io" where
  "exec_vcfa_cloud_template_get opts blueprint_id profile = vcfa_cloud_template_get opts blueprint_id profile"

definition exec_vcfa_cloud_template_get_or_none ::
  "pyval \<Rightarrow> pyval \<Rightarrow> profile \<Rightarrow> pyval io" where
  "exec_vcfa_cloud_template_get_or_none opts blueprint_id profile =
     vcfa_cloud_template_get_or_none opts blueprint_id profile"

definition exec_vcfa_cloud_template_create ::
  "pyval \<Rightarrow> pyval \<Rightarrow> profile \<Rightarrow> pyval io" where
  "exec_vcfa_cloud_template_create opts spec profile = vcfa_cloud_template_create opts spec profile"

definition exec_vcfa_cloud_template_update ::
  "pyval \<Rightarrow> pyval \<Rightarrow> pyval \<Rightarrow> profile \<Rightarrow> pyval io" where
  "exec_vcfa_cloud_template_update opts blueprint_id spec profile =
     vcfa_cloud_template_update opts blueprint_id spec profile"

definition exec_vcfa_cloud_template_delete ::
  "pyval \<Rightarrow> pyval \<Rightarrow> profile \<Rightarrow> pyval io" where
  "exec_vcfa_cloud_template_delete opts blueprint_id profile = vcfa_cloud_template_delete opts blueprint_id profile"

definition exec_vcfa_cloud_template_list_versions ::
  "pyval \<Rightarrow> pyval \<Rightarrow> profile \<Rightarrow> pyval io" where
  "exec_vcfa_cloud_template_list_versions opts blueprint_id profile =
     vcfa_cloud_template_list_versions opts blueprint_id profile"

definition exec_vcfa_cloud_template_get_version ::
  "pyval \<Rightarrow> pyval \<Rightarrow> pyval \<Rightarrow> profile \<Rightarrow> pyval io" where
  "exec_vcfa_cloud_template_get_version opts blueprint_id version_id profile =
     vcfa_cloud_template_get_version opts blueprint_id version_id profile"

definition exec_vcfa_cloud_template_create_version ::
  "pyval \<Rightarrow> pyval \<Rightarrow> pyval \<Rightarrow> profile \<Rightarrow> pyval io" where
  "exec_vcfa_cloud_template_create_version opts blueprint_id spec profile =
     vcfa_cloud_template_create_version opts blueprint_id spec profile"

definition exec_vcfa_cloud_template_release_version ::
  "pyval \<Rightarrow> pyval \<Rightarrow> pyval \<Rightarrow> profile \<Rightarrow> pyval io" where
  "exec_vcfa_cloud_template_release_version opts blueprint_id version_id profile =
     vcfa_cloud_template_release_version opts blueprint_id version_id profile"

definition exec_vcfa_cloud_template_unrelease_version ::
  "pyval \<Rightarrow> pyval \<Rightarrow> pyval \<Rightarrow> profile \<Rightarrow> pyval io" where
  "exec_vcfa_cloud_template_unrelease_version opts blueprint_id version_id profile =
     vcfa_cloud_template_unrelease_version opts blueprint_id version_id profile"

subsection \<open>\<open>modules/vcf_vcfa_cloud_zone.py\<close>\<close>

definition exec_vcfa_cloud_zone_list :: "pyval \<Rightarrow> profile \<Rightarrow> pyval io" where
  "exec_vcfa_cloud_zone_list opts profile = vcfa_cloud_zone_list opts profile"

definition exec_vcfa_cloud_zone_get :: "pyval \<Rightarrow> pyval \<Rightarrow> profile \<Rightarrow> pyval io" where
  "exec_vcfa_cloud_zone_get opts zone_id profile = vcfa_cloud_zone_get opts zone_id profile"

definition exec_vcfa_cloud_zone_get_or_none ::
  "pyval \<Rightarrow> pyval \<Rightarrow> profile \<Rightarrow> pyval io" where
  "exec_vcfa_cloud_zone_get_or_none opts zone_id profile = vcfa_cloud_zone_get_or_none opts zone_id profile"

definition exec_vcfa_cloud_zone_create ::
  "pyval \<Rightarrow> pyval \<Rightarrow> profile \<Rightarrow> pyval io" where
  "exec_vcfa_cloud_zone_create opts spec profile = vcfa_cloud_zone_create opts spec profile"

definition exec_vcfa_cloud_zone_update ::
  "pyval \<Rightarrow> pyval \<Rightarrow> pyval \<Rightarrow> profile \<Rightarrow> pyval io" where
  "exec_vcfa_cloud_zone_update opts zone_id spec profile = vcfa_cloud_zone_update opts zone_id spec profile"

definition exec_vcfa_cloud_zone_delete ::
  "pyval \<Rightarrow> pyval \<Rightarrow> profile \<Rightarrow> pyval io" where
  "exec_vcfa_cloud_zone_delete opts zone_id profile = vcfa_cloud_zone_delete opts zone_id profile"

definition exec_vcfa_cloud_zone_computes ::
  "pyval \<Rightarrow> pyval \<Rightarrow> profile \<Rightarrow> pyval io" where
  "exec_vcfa_cloud_zone_computes opts zone_id profile = vcfa_cloud_zone_computes opts zone_id profile"

subsection \<open>\<open>modules/vcf_vcfa_custom_role.py\<close>\<close>

definition exec_vcfa_custom_role_list :: "pyval \<Rightarrow> profile \<Rightarrow> pyval io" where
  "exec_vcfa_custom_role_list opts profile = vcfa_custom_role_list opts profile"

definition exec_vcfa_custom_role_get :: "pyval \<Rightarrow> pyval \<Rightarrow> profile \<Rightarrow> pyval io" where
  "exec_vcfa_custom_role_get opts role_id profile = vcfa_custom_role_get opts role_id profile"

definition exec_vcfa_custom_role_get_or_none ::
  "pyval \<Rightarrow> pyval \<Rightarrow> profile \<Rightarrow> pyval io" where
  "exec_vcfa_custom_role_get_or_none opts role_id profile = vcfa_custom_role_get_or_none opts role_id profile"

definition exec_vcfa_custom_role_create ::
  "pyval \<Rightarrow> pyval \<Rightarrow> profile \<Rightarrow> pyval io" where
  "exec_vcfa_custom_role_create opts spec profile = vcfa_custom_role_create opts spec profile"

definition exec_vcfa_custom_role_update ::
  "pyval \<Rightarrow> pyval \<Rightarrow> pyval \<Rightarrow> profile \<Rightarrow> pyval io" where
  "exec_vcfa_custom_role_update opts role_id spec profile = vcfa_custom_role_update opts role_id spec profile"

definition exec_vcfa_custom_role_delete ::
  "pyval \<Rightarrow> pyval \<Rightarrow> profile \<Rightarrow> pyval io" where
  "exec_vcfa_custom_role_delete opts role_id profile = vcfa_custom_role_delete opts role_id profile"

subsection \<open>\<open>modules/vcf_vcfa_iam.py\<close>\<close>

definition exec_vcfa_iam_list_orgs :: "pyval \<Rightarrow> profile \<Rightarrow> pyval io" where
  "exec_vcfa_iam_list_orgs opts profile = vcfa_iam_list_orgs opts profile"

definition exec_vcfa_iam_get_org :: "pyval \<Rightarrow> pyval \<Rightarrow> profile \<Rightarrow> pyval io" where
  "exec_vcfa_iam_get_org opts org_id profile = vcfa_iam_get_org opts org_id profile"

definition exec_vcfa_iam_get_org_or_none ::
  "pyval \<Rightarrow> pyval \<Rightarrow> profile \<Rightarrow> pyval io" where
  "exec_vcfa_iam_get_org_or_none opts org_id profile = vcfa_iam_get_org_or_none opts org_id profile"

definition exec_vcfa_iam_list_users :: "pyval \<Rightarrow> pyval \<Rightarrow> profile \<Rightarrow> pyval io" where
  "exec_vcfa_iam_list_users opts org_id profile = vcfa_iam_list_users opts org_id profile"

definition exec_vcfa_iam_get_user_roles ::
  "pyval \<Rightarrow> pyval \<Rightarrow> pyval \<Rightarrow> profile \<Rightarrow> pyval io" where
  "exec_vcfa_iam_get_user_roles opts org_id user_id profile = vcfa_iam_get_user_roles opts org_id user_id profile"

definition exec_vcfa_iam_patch_user_roles ::
  "pyval \<Rightarrow> pyval \<Rightarrow> pyval \<Rightarrow> pyval \<Rightarrow> pyval \<Rightarrow> profile \<Rightarrow> pyval io" where
  "exec_vcfa_iam_patch_user_roles opts org_id user_id add rem profile =
     vcfa_iam_patch_user_roles opts org_id user_id add rem profile"

subsection \<open>\<open>modules/vcf_vcfa_lifecycle.py\<close>\<close>

definition exec_vcfa_lifecycle_list_products :: "pyval \<Rightarrow> profile \<Rightarrow> pyval io" where
  "exec_vcfa_lifecycle_list_products opts profile = vcfa_lifecycle_list_products opts profile"

definition exec_vcfa_lifecycle_get_product ::
  "pyval \<Rightarrow> pyval \<Rightarrow> profile \<Rightarrow> pyval io" where
  "exec_vcfa_lifecycle_get_product opts product_id profile = vcfa_lifecycle_get_product opts product_id profile"

definition exec_vcfa_lifecycle_get_product_or_none ::
  "pyval \<Rightarrow> pyval \<Rightarrow> profile \<Rightarrow> pyval io" where
  "exec_vcfa_lifecycle_get_product_or_none opts product_id profile =
     vcfa_lifecycle_get_product_or_none opts product_id profile"

definition exec_vcfa_lifecycle_list_versions ::
  "pyval \<Rightarrow> pyval \<Rightarrow> profile \<Rightarrow> pyval io" where
  "exec_vcfa_lifecycle_list_versions opts product_id profile = vcfa_lifecycle_list_versions opts product_id profile"

definition exec_vcfa_lifecycle_list_upgrades :: "pyval \<Rightarrow> profile \<Rightarrow> pyval io" where
  "exec_vcfa_lifecycle_list_upgrades opts profile = vcfa_lifecycle_list_upgrades opts profile"

definition exec_vcfa_lifecycle_get_upgrade ::
  "pyval \<Rightarrow> pyval \<Rightarrow> profile \<Rightarrow> pyval io" where
  "exec_vcfa_lifecycle_get_upgrade opts upgrade_id profile = vcfa_lifecycle_get_upgrade opts upgrade_id profile"

definition exec_vcfa_lifecycle_get_upgrade_or_none ::
  "pyval \<Rightarrow> pyval \<Rightarrow> profile \<Rightarrow> pyval io" where
  "exec_vcfa_lifecycle_get_upgrade_or_none opts upgrade_id profile =
     vcfa_lifecycle_get_upgrade_or_none opts upgrade_id profile"

definition exec_vcfa_lifecycle_start_upgrade ::
  "pyval \<Rightarrow> pyval \<Rightarrow> profile \<Rightarrow> pyval io" where
  "exec_vcfa_lifecycle_start_upgrade opts upgrade_spec profile =
     vcfa_lifecycle_start_upgrade opts upgrade_spec profile"

definition exec_vcfa_lifecycle_cancel_upgrade ::
  "pyval \<Rightarrow> pyval \<Rightarrow> profile \<Rightarrow> pyval io" where
  "exec_vcfa_lifecycle_cancel_upgrade opts upgrade_id profile = vcfa_lifecycle_cancel_upgrade opts upgrade_id profile"

definition exec_vcfa_lifecycle_retry_upgrade ::
  "pyval \<Rightarrow> pyval \<Rightarrow> profile \<Rightarrow> pyval io" where
  "exec_vcfa_lifecycle_retry_upgrade opts upgrade_id profile = vcfa_lifecycle_retry_upgrade opts upgrade_id profile"

definition exec_vcfa_lifecycle_resume_upgrade ::
  "pyval \<Rightarrow> pyval \<Rightarrow> profile \<Rightarrow> pyval io" where
  "exec_vcfa_lifecycle_resume_upgrade opts upgrade_id profile = vcfa_lifecycle_resume_upgrade opts upgrade_id profile"

definition exec_vcfa_lifecycle_wait_for_upgrade ::
  "pyval \<Rightarrow> pyval \<Rightarrow> int \<Rightarrow> int \<Rightarrow> profile \<Rightarrow> pyval io" where
  "exec_vcfa_lifecycle_wait_for_upgrade opts upgrade_id timeout poll_interval profile =
     vcfa_lifecycle_wait_for_upgrade opts upgrade_id timeout poll_interval profile"

definition exec_vcfa_lifecycle_list_snapshots :: "pyval \<Rightarrow> profile \<Rightarrow> pyval io" where
  "exec_vcfa_lifecycle_list_snapshots opts profile = vcfa_lifecycle_list_snapshots opts profile"

definition exec_vcfa_lifecycle_get_snapshot ::
  "pyval \<Rightarrow> pyval \<Rightarrow> profile \<Rightarrow> pyval io" where
  "exec_vcfa_lifecycle_get_snapshot opts snapshot_id profile = vcfa_lifecycle_get_snapshot opts snapshot_id profile"

definition exec_vcfa_lifecycle_get_snapshot_or_none ::
  "pyval \<Rightarrow> pyval \<Rightarrow> profile \<Rightarrow> pyval io" where
  "exec_vcfa_lifecycle_get_snapshot_or_none opts snapshot_id profile =
     vcfa_lifecycle_get_snapshot_or_none opts snapshot_id profile"

definition exec_vcfa_lifecycle_create_snapshot ::
  "pyval \<Rightarrow> pyval \<Rightarrow> profile \<Rightarrow> pyval io" where
  "exec_vcfa_lifecycle_create_snapshot opts snapshot_spec profile =
     vcfa_lifecycle_create_snapshot opts snapshot_spec profile"

definition exec_vcfa_lifecycle_delete_snapshot ::
  "pyval \<Rightarrow> pyval \<Rightarrow> profile \<Rightarrow> pyval io" where
  "exec_vcfa_lifecycle_delete_snapshot opts snapshot_id profile =
     vcfa_lifecycle_delete_snapshot opts snapshot_id profile"

definition exec_vcfa_lifecycle_restore_snapshot ::
  "pyval \<Rightarrow> pyval \<Rightarrow> profile \<Rightarrow> pyval io" where
  "exec_vcfa_lifecycle_restore_snapshot opts snapshot_id profile =
     vcfa_lifecycle_restore_snapshot opts snapshot_id profile"

subsection \<open>\<open>modules/vcf_vcfa_network_profile.py\<close>\<close>

definition exec_vcfa_network_profile_list :: "pyval \<Rightarrow> profile \<Rightarrow> pyval io" where
  "exec_vcfa_network_profile_list opts profile = vcfa_network_profile_list opts profile"

definition exec_vcfa_network_profile_get ::
  "pyval \<Rightarrow> pyval \<Rightarrow> profile \<Rightarrow> pyval io" where
  "exec_vcfa_network_profile_get opts profile_id profile = vcfa_network_profile_get opts profile_id profile"

definition exec_vcfa_network_profile_get_or_none ::
  "pyval \<Rightarrow> pyval \<Rightarrow> profile \<Rightarrow> pyval io" where
  "exec_vcfa_network_profile_get_or_none opts profile_id profile =
     vcfa_network_profile_get_or_none opts profile_id profile"

definition exec_vcfa_network_profile_create ::
  "pyval \<Rightarrow> pyval \<Rightarrow> profile \<Rightarrow> pyval io" where
  "exec_vcfa_network_profile_create opts spec profile = vcfa_network_profile_create opts spec profile"

definition exec_vcfa_network_profile_update ::
  "pyval \<Rightarrow> pyval \<Rightarrow> pyval \<Rightarrow> profile \<Rightarrow> pyval io" where
  "exec_vcfa_network_profile_update opts profile_id spec profile =
     vcfa_network_profile_update opts profile_id spec profile"

definition exec_vcfa_network_profile_delete ::
  "pyval \<Rightarrow> pyval \<Rightarrow> profile \<Rightarrow> pyval io" where
  "exec_vcfa_network_profile_delete opts profile_id profile = vcfa_network_profile_delete opts profile_id profile"

subsection \<open>\<open>modules/vcf_vcfa_organization.py\<close>\<close>

definition exec_vcfa_organization_list :: "pyval \<Rightarrow> profile \<Rightarrow> pyval io" where
  "exec_vcfa_organization_list opts profile = vcfa_organization_list opts profile"

definition exec_vcfa_organization_get ::
  "pyval \<Rightarrow> pyval \<Rightarrow> profile \<Rightarrow> pyval io" where
  "exec_vcfa_organization_get opts org_id profile = vcfa_organization_get opts org_id profile"

definition exec_vcfa_organization_get_or_none ::
  "pyval \<Rightarrow> pyval \<Rightarrow> profile \<Rightarrow> pyval io" where
  "exec_vcfa_organization_get_or_none opts org_id profile = vcfa_organization_get_or_none opts org_id profile"

definition exec_vcfa_organization_create ::
  "pyval \<Rightarrow> pyval \<Rightarrow> profile \<Rightarrow> pyval io" where
  "exec_vcfa_organization_create opts spec profile = vcfa_organization_create opts spec profile"

definition exec_vcfa_organization_update ::
  "pyval \<Rightarrow> pyval \<Rightarrow> pyval \<Rightarrow> profile \<Rightarrow> pyval io" where
  "exec_vcfa_organization_update opts org_id spec profile = vcfa_organization_update opts org_id spec profile"

definition exec_vcfa_organization_delete ::
  "pyval \<Rightarrow> pyval \<Rightarrow> profile \<Rightarrow> pyval io" where
  "exec_vcfa_organization_delete opts org_id profile = vcfa_organization_delete opts org_id profile"

definition exec_vcfa_organization_list_services ::
  "pyval \<Rightarrow> pyval \<Rightarrow> profile \<Rightarrow> pyval io" where
  "exec_vcfa_organization_list_services opts org_id profile = vcfa_organization_list_services opts org_id profile"

definition exec_vcfa_organization_enable_service ::
  "pyval \<Rightarrow> pyval \<Rightarrow> pyval \<Rightarrow> profile \<Rightarrow> pyval io" where
  "exec_vcfa_organization_enable_service opts org_id service_definition_id profile =
     vcfa_organization_enable_service opts org_id service_definition_id profile"

definition exec_vcfa_organization_disable_service ::
  "pyval \<Rightarrow> pyval \<Rightarrow> pyval \<Rightarrow> profile \<Rightarrow> pyval io" where
  "exec_vcfa_organization_disable_service opts org_id service_definition_id profile =
     vcfa_organization_disable_service opts org_id service_definition_id profile"

subsection \<open>\<open>modules/vcf_vcfa_policy.py\<close>\<close>

definition exec_vcfa_policy_list :: "pyval \<Rightarrow> pyval \<Rightarrow> profile \<Rightarrow> pyval io" where
  "exec_vcfa_policy_list opts project_id profile = vcfa_policy_list opts project_id profile"

definition exec_vcfa_policy_get :: "pyval \<Rightarrow> pyval \<Rightarrow> profile \<Rightarrow> pyval io" where
  "exec_vcfa_policy_get opts policy_id profile = vcfa_policy_get opts policy_id profile"

definition exec_vcfa_policy_get_or_none ::
  "pyval \<Rightarrow> pyval \<Rightarrow> profile \<Rightarrow> pyval io" where
  "exec_vcfa_policy_get_or_none opts policy_id profile = vcfa_policy_get_or_none opts policy_id profile"

definition exec_vcfa_policy_create :: "pyval \<Rightarrow> pyval \<Rightarrow> profile \<Rightarrow> pyval io" where
  "exec_vcfa_policy_create opts spec profile = vcfa_policy_create opts spec profile"

definition exec_vcfa_policy_update ::
  "pyval \<Rightarrow> pyval \<Rightarrow> pyval \<Rightarrow> profile \<Rightarrow> pyval io" where
  "exec_vcfa_policy_update opts policy_id spec profile = vcfa_policy_update opts policy_id spec profile"

definition exec_vcfa_policy_delete :: "pyval \<Rightarrow> pyval \<Rightarrow> profile \<Rightarrow> pyval io" where
  "exec_vcfa_policy_delete opts policy_id profile = vcfa_policy_delete opts policy_id profile"

definition exec_vcfa_policy_list_types :: "pyval \<Rightarrow> profile \<Rightarrow> pyval io" where
  "exec_vcfa_policy_list_types opts profile = vcfa_policy_list_types opts profile"

subsection \<open>\<open>modules/vcf_vcfa_project.py\<close>\<close>

definition exec_vcfa_project_list :: "pyval \<Rightarrow> profile \<Rightarrow> pyval io" where
  "exec_vcfa_project_list opts profile = vcfa_project_list opts profile"

definition exec_vcfa_project_get :: "pyval \<Rightarrow> pyval \<Rightarrow> profile \<Rightarrow> pyval io" where
  "exec_vcfa_project_get opts project_id profile = vcfa_project_get opts project_id profile"

definition exec_vcfa_project_get_or_none ::
  "pyval \<Rightarrow> pyval \<Rightarrow> profile \<Rightarrow> pyval io" where
  "exec_vcfa_project_get_or_none opts project_id profile = vcfa_project_get_or_none opts project_id profile"

definition exec_vcfa_project_create :: "pyval \<Rightarrow> pyval \<Rightarrow> profile \<Rightarrow> pyval io" where
  "exec_vcfa_project_create opts spec profile = vcfa_project_create opts spec profile"

definition exec_vcfa_project_update ::
  "pyval \<Rightarrow> pyval \<Rightarrow> pyval \<Rightarrow> profile \<Rightarrow> pyval io" where
  "exec_vcfa_project_update opts project_id spec profile = vcfa_project_update opts project_id spec profile"

definition exec_vcfa_project_delete :: "pyval \<Rightarrow> pyval \<Rightarrow> profile \<Rightarrow> pyval io" where
  "exec_vcfa_project_delete opts project_id profile = vcfa_project_delete opts project_id profile"

definition exec_vcfa_project_resources ::
  "pyval \<Rightarrow> pyval \<Rightarrow> profile \<Rightarrow> pyval io" where
  "exec_vcfa_project_resources opts project_id profile = vcfa_project_resources opts project_id profile"

subsection \<open>\<open>modules/vcf_vcfa_project_user.py\<close>\<close>

definition exec_vcfa_project_user_list_members ::
  "pyval \<Rightarrow> pyval \<Rightarrow> pyval \<Rightarrow> profile \<Rightarrow> pyval io" where
  "exec_vcfa_project_user_list_members opts project_id role profile =
     vcfa_project_user_list_members opts project_id role profile"

definition exec_vcfa_project_user_add_member ::
  "pyval \<Rightarrow> pyval \<Rightarrow> pyval \<Rightarrow> pyval \<Rightarrow> pyval \<Rightarrow> profile \<Rightarrow> pyval io" where
  "exec_vcfa_project_user_add_member opts project_id role email member_type profile =
     vcfa_project_user_add_member opts project_id role email member_type profile"

definition exec_vcfa_project_user_remove_member ::
  "pyval \<Rightarrow> pyval \<Rightarrow> pyval \<Rightarrow> pyval \<Rightarrow> profile \<Rightarrow> pyval io" where
  "exec_vcfa_project_user_remove_member opts project_id role email profile =
     vcfa_project_user_remove_member opts project_id role email profile"

definition exec_vcfa_project_user_set_members ::
  "pyval \<Rightarrow> pyval \<Rightarrow> pyval \<Rightarrow> pyval \<Rightarrow> pyval \<Rightarrow> profile \<Rightarrow> pyval io" where
  "exec_vcfa_project_user_set_members opts project_id role emails member_type profile =
     vcfa_project_user_set_members opts project_id role emails member_type profile"

subsection \<open>\<open>modules/vcf_vcfa_resource_action.py\<close>\<close>

definition exec_vcfa_resource_action_list ::
  "pyval \<Rightarrow> pyval \<Rightarrow> profile \<Rightarrow> pyval io" where
  "exec_vcfa_resource_action_list opts project_id profile = vcfa_resource_action_list opts project_id profile"

definition exec_vcfa_resource_action_get ::
  "pyval \<Rightarrow> pyval \<Rightarrow> profile \<Rightarrow> pyval io" where
  "exec_vcfa_resource_action_get opts action_id profile = vcfa_resource_action_get opts action_id profile"

definition exec_vcfa_resource_action_get_or_none ::
  "pyval \<Rightarrow> pyval \<Rightarrow> profile \<Rightarrow> pyval io" where
  "exec_vcfa_resource_action_get_or_none opts action_id profile =
     vcfa_resource_action_get_or_none opts action_id profile"

definition exec_vcfa_resource_action_create ::
  "pyval \<Rightarrow> pyval \<Rightarrow> profile \<Rightarrow> pyval io" where
  "exec_vcfa_resource_action_create opts spec profile = vcfa_resource_action_create opts spec profile"

definition exec_vcfa_resource_action_update ::
  "pyval \<Rightarrow> pyval \<Rightarrow> pyval \<Rightarrow> profile \<Rightarrow> pyval io" where
  "exec_vcfa_resource_action_update opts action_id spec profile =
     vcfa_resource_action_update opts action_id spec profile"

definition exec_vcfa_resource_action_delete ::
  "pyval \<Rightarrow> pyval \<Rightarrow> profile \<Rightarrow> pyval io" where
  "exec_vcfa_resource_action_delete opts action_id profile = vcfa_resource_action_delete opts action_id profile"

subsection \<open>\<open>modules/vcf_vcfa_storage_profile.py\<close>\<close>

definition exec_vcfa_storage_profile_list :: "pyval \<Rightarrow> profile \<Rightarrow> pyval io" where
  "exec_vcfa_storage_profile_list opts profile = vcfa_storage_profile_list opts profile"

definition exec_vcfa_storage_profile_list_vsphere :: "pyval \<Rightarrow> profile \<Rightarrow> pyval io" where
  "exec_vcfa_storage_profile_list_vsphere opts profile = vcfa_storage_profile_list_vsphere opts profile"

definition exec_vcfa_storage_profile_get ::
  "pyval \<Rightarrow> pyval \<Rightarrow> profile \<Rightarrow> pyval io" where
  "exec_vcfa_storage_profile_get opts profile_id profile = vcfa_storage_profile_get opts profile_id profile"

definition exec_vcfa_storage_profile_get_vsphere ::
  "pyval \<Rightarrow> pyval \<Rightarrow> profile \<Rightarrow> pyval io" where
  "exec_vcfa_storage_profile_get_vsphere opts profile_id profile =
     vcfa_storage_profile_get_vsphere opts profile_id profile"

definition exec_vcfa_storage_profile_get_or_none ::
  "pyval \<Rightarrow> pyval \<Rightarrow> profile \<Rightarrow> pyval io" where
  "exec_vcfa_storage_profile_get_or_none opts profile_id profile =
     vcfa_storage_profile_get_or_none opts profile_id profile"

definition exec_vcfa_storage_profile_create_vsphere ::
  "pyval \<Rightarrow> pyval \<Rightarrow> profile \<Rightarrow> pyval io" where
  "exec_vcfa_storage_profile_create_vsphere opts spec profile = vcfa_storage_profile_create_vsphere opts spec profile"

definition exec_vcfa_storage_profile_update_vsphere ::
  "pyval \<Rightarrow> pyval \<Rightarrow> pyval \<Rightarrow> profile \<Rightarrow> pyval io" where
  "exec_vcfa_storage_profile_update_vsphere opts profile_id spec profile =
     vcfa_storage_profile_update_vsphere opts profile_id spec profile"

definition exec_vcfa_storage_profile_delete ::
  "pyval \<Rightarrow> pyval \<Rightarrow> profile \<Rightarrow> pyval io" where
  "exec_vcfa_storage_profile_delete opts profile_id profile = vcfa_storage_profile_delete opts profile_id profile"

subsection \<open>\<open>modules/vcf_vcfa_vro_config_element.py\<close>\<close>

definition exec_vcfa_vro_config_element_list ::
  "pyval \<Rightarrow> pyval \<Rightarrow> profile \<Rightarrow> pyval io" where
  "exec_vcfa_vro_config_element_list opts category profile = vcfa_vro_config_element_list opts category profile"

definition exec_vcfa_vro_config_element_get ::
  "pyval \<Rightarrow> pyval \<Rightarrow> profile \<Rightarrow> pyval io" where
  "exec_vcfa_vro_config_element_get opts config_id profile = vcfa_vro_config_element_get opts config_id profile"

definition exec_vcfa_vro_config_element_get_or_none ::
  "pyval \<Rightarrow> pyval \<Rightarrow> profile \<Rightarrow> pyval io" where
  "exec_vcfa_vro_config_element_get_or_none opts config_id profile =
     vcfa_vro_config_element_get_or_none opts config_id profile"

definition exec_vcfa_vro_config_element_create ::
  "pyval \<Rightarrow> pyval \<Rightarrow> profile \<Rightarrow> pyval io" where
  "exec_vcfa_vro_config_element_create opts spec profile = vcfa_vro_config_element_create opts spec profile"

definition exec_vcfa_vro_config_element_update ::
  "pyval \<Rightarrow> pyval \<Rightarrow> pyval \<Rightarrow> profile \<Rightarrow> pyval io" where
  "exec_vcfa_vro_config_element_update opts config_id spec profile =
     vcfa_vro_config_element_update opts config_id spec profile"

definition exec_vcfa_vro_config_element_delete ::
  "pyval \<Rightarrow> pyval \<Rightarrow> profile \<Rightarrow> pyval io" where
  "exec_vcfa_vro_config_element_delete opts config_id profile = vcfa_vro_config_element_delete opts config_id profile"

definition exec_vcfa_vro_config_element_get_attribute ::
  "pyval \<Rightarrow> pyval \<Rightarrow> pyval \<Rightarrow> profile \<Rightarrow> pyval io" where
  "exec_vcfa_vro_config_element_get_attribute opts config_id attribute_name profile =
     vcfa_vro_config_element_get_attribute opts config_id attribute_name profile"

definition exec_vcfa_vro_config_element_set_attribute ::
  "pyval \<Rightarrow> pyval \<Rightarrow> pyval \<Rightarrow> pyval \<Rightarrow> profile \<Rightarrow> pyval io" where
  "exec_vcfa_vro_config_element_set_attribute opts config_id attribute_name attribute_spec profile =
     vcfa_vro_config_element_set_attribute opts config_id attribute_name attribute_spec profile"

subsection \<open>\<open>modules/vcf_vcfa_vro_package.py\<close>\<close>

definition exec_vcfa_vro_package_list :: "pyval \<Rightarrow> profile \<Rightarrow> pyval io" where
  "exec_vcfa_vro_package_list opts profile = vcfa_vro_package_list opts profile"

definition exec_vcfa_vro_package_get :: "pyval \<Rightarrow> pyval \<Rightarrow> profile \<Rightarrow> pyval io" where
  "exec_vcfa_vro_package_get opts name profile = vcfa_vro_package_get opts name profile"

definition exec_vcfa_vro_package_get_or_none ::
  "pyval \<Rightarrow> pyval \<Rightarrow> profile \<Rightarrow> pyval io" where
  "exec_vcfa_vro_package_get_or_none opts name profile = vcfa_vro_package_get_or_none opts name profile"

definition exec_vcfa_vro_package_import ::
  "pyval \<Rightarrow> pyval \<Rightarrow> pyval \<Rightarrow> pyval \<Rightarrow> profile \<Rightarrow> pyval io" where
  "exec_vcfa_vro_package_import opts name package_bytes overwrite profile =
     vcfa_vro_package_import opts name package_bytes overwrite profile"

definition exec_vcfa_vro_package_delete ::
  "pyval \<Rightarrow> pyval \<Rightarrow> pyval \<Rightarrow> profile \<Rightarrow> pyval io" where
  "exec_vcfa_vro_package_delete opts name option profile = vcfa_vro_package_delete opts name option profile"

definition exec_vcfa_vro_package_export ::
  "pyval \<Rightarrow> pyval \<Rightarrow> profile \<Rightarrow> pyval io" where
  "exec_vcfa_vro_package_export opts name profile = vcfa_vro_package_export opts name profile"

subsection \<open>\<open>modules/vcf_vcfa_workflow_run.py\<close>\<close>

definition exec_vcfa_workflow_run_list ::
  "pyval \<Rightarrow> pyval \<Rightarrow> profile \<Rightarrow> pyval io" where
  "exec_vcfa_workflow_run_list opts workflow_id profile = vcfa_workflow_run_list opts workflow_id profile"

definition exec_vcfa_workflow_run_get ::
  "pyval \<Rightarrow> pyval \<Rightarrow> pyval \<Rightarrow> profile \<Rightarrow> pyval io" where
  "exec_vcfa_workflow_run_get opts workflow_id run_id profile = vcfa_workflow_run_get opts workflow_id run_id profile"

definition exec_vcfa_workflow_run_get_or_none ::
  "pyval \<Rightarrow> pyval \<Rightarrow> pyval \<Rightarrow> profile \<Rightarrow> pyval io" where
  "exec_vcfa_workflow_run_get_or_none opts workflow_id run_id profile =
     vcfa_workflow_run_get_or_none opts workflow_id run_id profile"

definition exec_vcfa_workflow_run_start ::
  "pyval \<Rightarrow> pyval \<Rightarrow> pyval \<Rightarrow> profile \<Rightarrow> pyval io" where
  "exec_vcfa_workflow_run_start opts workflow_id parameters profile =
     vcfa_workflow_run_start opts workflow_id parameters profile"

definition exec_vcfa_workflow_run_cancel ::
  "pyval \<Rightarrow> pyval \<Rightarrow> pyval \<Rightarrow> profile \<Rightarrow> pyval io" where
  "exec_vcfa_workflow_run_cancel opts workflow_id run_id profile =
     vcfa_workflow_run_cancel opts workflow_id run_id profile"

definition exec_vcfa_workflow_run_logs ::
  "pyval \<Rightarrow> pyval \<Rightarrow> pyval \<Rightarrow> profile \<Rightarrow> pyval io" where
  "exec_vcfa_workflow_run_logs opts workflow_id run_id profile =
     vcfa_workflow_run_logs opts workflow_id run_id profile"

definition exec_vcfa_workflow_run_state ::
  "pyval \<Rightarrow> pyval \<Rightarrow> pyval \<Rightarrow> profile \<Rightarrow> pyval io" where
  "exec_vcfa_workflow_run_state opts workflow_id run_id profile =
     vcfa_workflow_run_state opts workflow_id run_id profile"

end
