(* ===== verification/Exec_Vcenter.thy ===== *)
theory Exec_Vcenter
  imports Cluster_Config Esxi_Vlcm Vc_Patch Vcenter_Appliance Vcenter_Inventory Vcenter_Services Vcf_Vc_Patch
begin

section \<open>Exec_Vcenter: execution modules of vCenter\<close>

text \<open>
  The execution functions of these modules: each reads \<open>__opts__\<close>, which is the argument \<open>opts\<close> here, and passes
  its arguments on to a function of the client module. A parameter of the client that the module leaves out has the
  default of the client. Python refuses a call whose keywords name a positional parameter twice; such calls are not
  in the domain of these definitions.
  The directory of the user, the making of directories and the writing of a file that only the user may read are
  parameters of \<open>fetch_kubeconfig\<close>.
\<close>

subsection \<open>\<open>modules/vcf_vc_patch.py\<close>\<close>

definition exec_vc_patch_get_update_policy :: "pyval \<Rightarrow> profile \<Rightarrow> pyval io" where
  "exec_vc_patch_get_update_policy opts profile = vc_patch_get_update_policy opts profile"

definition exec_vc_patch_get_repository_policy ::
  "pyval \<Rightarrow> profile \<Rightarrow> pyval io" where
  "exec_vc_patch_get_repository_policy opts profile =
     exec_vc_patch_get_update_policy opts profile"

definition exec_vc_patch_update_repository_policy ::
  "pyval \<Rightarrow> pyval \<Rightarrow> pyval \<Rightarrow> pyval \<Rightarrow> pyval \<Rightarrow> pyval \<Rightarrow> pyval \<Rightarrow> profile \<Rightarrow> pyval io" where
  "exec_vc_patch_update_repository_policy opts repository_url auto_stage certificate_check check_schedule
     repo_username repo_password profile =
     bindM (liftR (vcf_vc_patch_cfg opts)) (\<lambda>cfg.
     vc_patch_set_update_policy opts (py_or repository_url (dget cfg ''repository_url'' PNone))
       (opt_or_cfg auto_stage cfg ''auto_stage'' (PBool False))
       (opt_or_cfg certificate_check cfg ''certificate_check'' (PBool True))
       (opt_or_cfg check_schedule cfg ''check_schedule'' PNone)
       (opt_or_cfg repo_username cfg ''repo_username'' (PStr []))
       (opt_or_cfg repo_password cfg ''repo_password'' (PStr [])) profile)"

definition exec_vc_patch_list_pending_updates ::
  "pyval \<Rightarrow> pyval \<Rightarrow> pyval \<Rightarrow> profile \<Rightarrow> pyval io" where
  "exec_vc_patch_list_pending_updates opts repository_url source_type profile =
     bindM (liftR (vcf_vc_patch_cfg opts)) (\<lambda>cfg.
     vc_patch_list_pending_updates opts (py_or repository_url (dget cfg ''repository_url'' PNone)) source_type profile)"

definition exec_vc_patch_check_updates ::
  "pyval \<Rightarrow> pyval \<Rightarrow> pyval \<Rightarrow> profile \<Rightarrow> pyval io" where
  "exec_vc_patch_check_updates opts repository_url source_type profile =
     exec_vc_patch_list_pending_updates opts repository_url source_type profile"

definition exec_vc_patch_get_pending_update ::
  "pyval \<Rightarrow> pyval \<Rightarrow> profile \<Rightarrow> pyval io" where
  "exec_vc_patch_get_pending_update opts version profile =
     bindM (liftR (vcf_vc_patch_cfg opts)) (\<lambda>cfg.
     vc_patch_get_pending_update opts (py_or version (dget cfg ''version'' PNone)) profile)"

definition exec_vc_patch_list_upgradeable_components ::
  "pyval \<Rightarrow> pyval \<Rightarrow> profile \<Rightarrow> pyval io" where
  "exec_vc_patch_list_upgradeable_components opts version profile =
     bindM (liftR (vcf_vc_patch_cfg opts)) (\<lambda>cfg.
     vc_patch_list_upgradeable_components opts (py_or version (dget cfg ''version'' PNone)) profile)"

definition exec_vc_patch_get_update_status :: "pyval \<Rightarrow> profile \<Rightarrow> pyval io" where
  "exec_vc_patch_get_update_status opts profile = vc_patch_get_update_status opts profile"

definition exec_vc_patch_get_staged_update :: "pyval \<Rightarrow> profile \<Rightarrow> pyval io" where
  "exec_vc_patch_get_staged_update opts profile = vc_patch_get_staged_update opts profile"

definition exec_vc_patch_delete_staged_update :: "pyval \<Rightarrow> profile \<Rightarrow> pyval io" where
  "exec_vc_patch_delete_staged_update opts profile = vc_patch_delete_staged_update opts profile"

definition exec_vc_patch_get_update_history :: "pyval \<Rightarrow> profile \<Rightarrow> pyval io" where
  "exec_vc_patch_get_update_history opts profile = vc_patch_get_update_history opts profile"

definition exec_vc_patch_precheck ::
  "pyval \<Rightarrow> pyval \<Rightarrow> pyval \<Rightarrow> profile \<Rightarrow> pyval io" where
  "exec_vc_patch_precheck opts version component profile =
     bindM (liftR (vcf_vc_patch_cfg opts)) (\<lambda>cfg.
     vc_patch_precheck opts (py_or version (dget cfg ''version'' PNone)) (opt_or_cfg component cfg ''component'' PNone) profile)"

definition exec_vc_patch_stage ::
  "pyval \<Rightarrow> pyval \<Rightarrow> pyval \<Rightarrow> profile \<Rightarrow> pyval io" where
  "exec_vc_patch_stage opts version component profile =
     bindM (liftR (vcf_vc_patch_cfg opts)) (\<lambda>cfg.
     vc_patch_stage opts (py_or version (dget cfg ''version'' PNone)) (opt_or_cfg component cfg ''component'' PNone) profile)"

definition exec_vc_patch_install ::
  "pyval \<Rightarrow> pyval \<Rightarrow> pyval \<Rightarrow> pyval \<Rightarrow> profile \<Rightarrow> pyval io" where
  "exec_vc_patch_install opts version sso_password component profile =
     bindM (liftR (vcf_vc_patch_cfg opts)) (\<lambda>cfg.
     vc_patch_install opts (py_or version (dget cfg ''version'' PNone))
       (opt_or_cfg sso_password cfg ''sso_password'' PNone) (opt_or_cfg component cfg ''component'' PNone) profile)"

definition exec_vc_patch_resolve_update_version ::
  "pyval \<Rightarrow> pyval \<Rightarrow> pyval \<Rightarrow> profile \<Rightarrow> pyval io" where
  "exec_vc_patch_resolve_update_version opts repository_url version profile =
     bindM (liftR (vcf_vc_patch_cfg opts)) (\<lambda>cfg.
     bindM (vc_patch_resolve_update_version opts (py_or repository_url (dget cfg ''repository_url'' PNone)) (opt_or_cfg version cfg ''version'' PNone) profile)
       (\<lambda>(resolved, _, _). pureM resolved))"

definition exec_vc_patch_monitor_stage ::
  "pyval \<Rightarrow> pyval \<Rightarrow> pyval \<Rightarrow> pyval \<Rightarrow> pyval \<Rightarrow> profile \<Rightarrow> pyval io" where
  "exec_vc_patch_monitor_stage opts poll_interval timeout max_transient_errors version profile =
     bindM (liftR (vcf_vc_patch_cfg opts)) (\<lambda>cfg.
     bindM (liftR (py_int poll_interval)) (\<lambda>poll_interval'.
     bindM (liftR (py_int timeout)) (\<lambda>timeout'.
     bindM (liftR (py_int max_transient_errors)) (\<lambda>max_transient_errors'.
     vc_patch_monitor_stage opts (opt_or_cfg version cfg ''version'' PNone) (PInt poll_interval') (PInt timeout') max_transient_errors' profile))))"

definition exec_vc_patch_monitor_install ::
  "pyval \<Rightarrow> pyval \<Rightarrow> pyval \<Rightarrow> pyval \<Rightarrow> profile \<Rightarrow> pyval io" where
  "exec_vc_patch_monitor_install opts poll_interval timeout max_transient_errors profile =
     bindM (liftR (py_int poll_interval)) (\<lambda>poll_interval'.
     bindM (liftR (py_int timeout)) (\<lambda>timeout'.
     bindM (liftR (py_int max_transient_errors)) (\<lambda>max_transient_errors'.
     vc_patch_monitor_install opts (PInt poll_interval') (PInt timeout') max_transient_errors' profile)))"

definition exec_vc_patch_wait_for_staged_update ::
  "pyval \<Rightarrow> pyval \<Rightarrow> pyval \<Rightarrow> pyval \<Rightarrow> profile \<Rightarrow> pyval io" where
  "exec_vc_patch_wait_for_staged_update opts version poll_interval timeout profile =
     bindM (liftR (vcf_vc_patch_cfg opts)) (\<lambda>cfg.
     bindM (liftR (py_int poll_interval)) (\<lambda>poll_interval'.
     bindM (liftR (py_int timeout)) (\<lambda>timeout'.
     vc_patch_wait_for_staged_update opts (opt_or_cfg version cfg ''version'' PNone) (PInt poll_interval') (PInt timeout') profile)))"

subsection \<open>\<open>modules/vcf_vcenter_appliance.py\<close>\<close>

definition exec_vcenter_appliance_services_list :: "pyval \<Rightarrow> profile \<Rightarrow> pyval io" where
  "exec_vcenter_appliance_services_list opts profile = vcenter_appliance_services_list opts profile"

definition exec_vcenter_appliance_services_get ::
  "pyval \<Rightarrow> pyval \<Rightarrow> profile \<Rightarrow> pyval io" where
  "exec_vcenter_appliance_services_get opts service profile = vcenter_appliance_services_get opts service profile"

definition exec_vcenter_appliance_services_start ::
  "pyval \<Rightarrow> pyval \<Rightarrow> profile \<Rightarrow> pyval io" where
  "exec_vcenter_appliance_services_start opts service profile = vcenter_appliance_services_start opts service profile"

definition exec_vcenter_appliance_services_stop ::
  "pyval \<Rightarrow> pyval \<Rightarrow> profile \<Rightarrow> pyval io" where
  "exec_vcenter_appliance_services_stop opts service profile = vcenter_appliance_services_stop opts service profile"

definition exec_vcenter_appliance_services_restart ::
  "pyval \<Rightarrow> pyval \<Rightarrow> profile \<Rightarrow> pyval io" where
  "exec_vcenter_appliance_services_restart opts service profile =
     vcenter_appliance_services_restart opts service profile"

definition exec_vcenter_appliance_version :: "pyval \<Rightarrow> profile \<Rightarrow> pyval io" where
  "exec_vcenter_appliance_version opts profile = vcenter_appliance_version opts profile"

definition exec_vcenter_appliance_health_system :: "pyval \<Rightarrow> profile \<Rightarrow> pyval io" where
  "exec_vcenter_appliance_health_system opts profile = vcenter_appliance_health_system opts profile"

definition exec_vcenter_appliance_dns_get :: "pyval \<Rightarrow> profile \<Rightarrow> pyval io" where
  "exec_vcenter_appliance_dns_get opts profile = vcenter_appliance_dns_get opts profile"

definition exec_vcenter_appliance_dns_set ::
  "pyval \<Rightarrow> pyval \<Rightarrow> pyval \<Rightarrow> profile \<Rightarrow> pyval io" where
  "exec_vcenter_appliance_dns_set opts servers mode profile = vcenter_appliance_dns_set opts servers mode profile"

definition exec_vcenter_appliance_logging_forwarding_get :: "pyval \<Rightarrow> profile \<Rightarrow> pyval io" where
  "exec_vcenter_appliance_logging_forwarding_get opts profile = vcenter_appliance_logging_forwarding_get opts profile"

definition exec_vcenter_appliance_logging_forwarding_set ::
  "pyval \<Rightarrow> pyval \<Rightarrow> profile \<Rightarrow> pyval io" where
  "exec_vcenter_appliance_logging_forwarding_set opts servers profile =
     vcenter_appliance_logging_forwarding_set opts servers profile"

definition exec_vcenter_appliance_ceip_get :: "pyval \<Rightarrow> profile \<Rightarrow> pyval io" where
  "exec_vcenter_appliance_ceip_get opts profile = vcenter_appliance_ceip_get opts profile"

definition exec_vcenter_appliance_ceip_set ::
  "pyval \<Rightarrow> pyval \<Rightarrow> profile \<Rightarrow> pyval io" where
  "exec_vcenter_appliance_ceip_set opts accepted profile = vcenter_appliance_ceip_set opts accepted profile"

subsection \<open>\<open>modules/vcf_vcenter_cluster.py\<close>\<close>

definition exec_vcenter_cluster_list :: "pyval \<Rightarrow> profile \<Rightarrow> pyval io" where
  "exec_vcenter_cluster_list opts profile = vcenter_cluster_list opts profile"

definition exec_vcenter_cluster_get :: "pyval \<Rightarrow> pyval \<Rightarrow> profile \<Rightarrow> pyval io" where
  "exec_vcenter_cluster_get opts cluster profile = vcenter_cluster_get opts cluster profile"

definition exec_vcenter_cluster_create ::
  "pyval \<Rightarrow> pyval \<Rightarrow> pyval \<Rightarrow> profile \<Rightarrow> dict \<Rightarrow> pyval io" where
  "exec_vcenter_cluster_create opts name datacenter profile spec =
     vcenter_cluster_create opts name datacenter profile spec"

definition exec_vcenter_cluster_delete ::
  "pyval \<Rightarrow> pyval \<Rightarrow> profile \<Rightarrow> pyval io" where
  "exec_vcenter_cluster_delete opts cluster profile = vcenter_cluster_delete opts cluster profile"

subsection \<open>\<open>modules/vcf_vcenter_compute_policy.py\<close>\<close>

definition exec_vcenter_compute_policy_list :: "pyval \<Rightarrow> profile \<Rightarrow> pyval io" where
  "exec_vcenter_compute_policy_list opts profile = vcenter_compute_policy_list opts profile"

definition exec_vcenter_compute_policy_get ::
  "pyval \<Rightarrow> pyval \<Rightarrow> profile \<Rightarrow> pyval io" where
  "exec_vcenter_compute_policy_get opts policy_id profile = vcenter_compute_policy_get opts policy_id profile"

definition exec_vcenter_compute_policy_create ::
  "pyval \<Rightarrow> pyval \<Rightarrow> profile \<Rightarrow> dict \<Rightarrow> pyval io" where
  "exec_vcenter_compute_policy_create opts capability profile spec =
     vcenter_compute_policy_create opts capability profile spec"

definition exec_vcenter_compute_policy_delete ::
  "pyval \<Rightarrow> pyval \<Rightarrow> profile \<Rightarrow> pyval io" where
  "exec_vcenter_compute_policy_delete opts policy_id profile = vcenter_compute_policy_delete opts policy_id profile"

subsection \<open>\<open>modules/vcf_vcenter_content_library.py\<close>\<close>

definition exec_vcenter_content_library_list :: "pyval \<Rightarrow> profile \<Rightarrow> pyval io" where
  "exec_vcenter_content_library_list opts profile = vcenter_content_library_list opts profile"

definition exec_vcenter_content_library_get ::
  "pyval \<Rightarrow> pyval \<Rightarrow> profile \<Rightarrow> pyval io" where
  "exec_vcenter_content_library_get opts library_id profile = vcenter_content_library_get opts library_id profile"

definition exec_vcenter_content_library_list_local :: "pyval \<Rightarrow> profile \<Rightarrow> pyval io" where
  "exec_vcenter_content_library_list_local opts profile = vcenter_content_library_list_local opts profile"

definition exec_vcenter_content_library_create_local ::
  "pyval \<Rightarrow> pyval \<Rightarrow> pyval \<Rightarrow> profile \<Rightarrow> dict \<Rightarrow> pyval io" where
  "exec_vcenter_content_library_create_local opts name storage_backings profile spec =
     vcenter_content_library_create_local opts name storage_backings profile spec"

definition exec_vcenter_content_library_delete_local ::
  "pyval \<Rightarrow> pyval \<Rightarrow> profile \<Rightarrow> pyval io" where
  "exec_vcenter_content_library_delete_local opts library_id profile =
     vcenter_content_library_delete_local opts library_id profile"

definition exec_vcenter_content_library_list_subscribed :: "pyval \<Rightarrow> profile \<Rightarrow> pyval io" where
  "exec_vcenter_content_library_list_subscribed opts profile = vcenter_content_library_list_subscribed opts profile"

definition exec_vcenter_content_library_create_subscribed ::
  "pyval \<Rightarrow> pyval \<Rightarrow> pyval \<Rightarrow> pyval \<Rightarrow> profile \<Rightarrow> dict \<Rightarrow> pyval io" where
  "exec_vcenter_content_library_create_subscribed opts name subscription_url storage_backings profile spec =
     vcenter_content_library_create_subscribed opts name subscription_url storage_backings profile spec"

definition exec_vcenter_content_library_list_items ::
  "pyval \<Rightarrow> pyval \<Rightarrow> profile \<Rightarrow> pyval io" where
  "exec_vcenter_content_library_list_items opts library_id profile =
     vcenter_content_library_list_items opts library_id profile"

definition exec_vcenter_content_library_get_item ::
  "pyval \<Rightarrow> pyval \<Rightarrow> profile \<Rightarrow> pyval io" where
  "exec_vcenter_content_library_get_item opts item_id profile = vcenter_content_library_get_item opts item_id profile"

definition exec_vcenter_content_library_delete_item ::
  "pyval \<Rightarrow> pyval \<Rightarrow> profile \<Rightarrow> pyval io" where
  "exec_vcenter_content_library_delete_item opts item_id profile =
     vcenter_content_library_delete_item opts item_id profile"

definition exec_vcenter_content_library_update_local ::
  "pyval \<Rightarrow> pyval \<Rightarrow> pyval \<Rightarrow> profile \<Rightarrow> pyval io" where
  "exec_vcenter_content_library_update_local opts library_id spec profile =
     vcenter_content_library_update_local opts library_id spec profile"

definition exec_vcenter_content_library_update_subscribed ::
  "pyval \<Rightarrow> pyval \<Rightarrow> pyval \<Rightarrow> profile \<Rightarrow> pyval io" where
  "exec_vcenter_content_library_update_subscribed opts library_id spec profile =
     vcenter_content_library_update_subscribed opts library_id spec profile"

definition exec_vcenter_content_library_sync_subscribed ::
  "pyval \<Rightarrow> pyval \<Rightarrow> profile \<Rightarrow> pyval io" where
  "exec_vcenter_content_library_sync_subscribed opts library_id profile =
     vcenter_content_library_sync_subscribed opts library_id profile"

definition exec_vcenter_content_library_publish_library ::
  "pyval \<Rightarrow> pyval \<Rightarrow> pyval \<Rightarrow> profile \<Rightarrow> pyval io" where
  "exec_vcenter_content_library_publish_library opts library_id subscriptions profile =
     vcenter_content_library_publish_library opts library_id subscriptions profile"

definition exec_vcenter_content_library_find_libraries ::
  "pyval \<Rightarrow> pyval \<Rightarrow> pyval \<Rightarrow> profile \<Rightarrow> pyval io" where
  "exec_vcenter_content_library_find_libraries opts name type profile =
     vcenter_content_library_find_libraries opts name type profile"

definition exec_vcenter_content_library_create_item ::
  "pyval \<Rightarrow> pyval \<Rightarrow> pyval \<Rightarrow> pyval \<Rightarrow> profile \<Rightarrow> dict \<Rightarrow> pyval io" where
  "exec_vcenter_content_library_create_item opts library_id name type profile spec =
     vcenter_content_library_create_item opts library_id name type profile spec"

definition exec_vcenter_content_library_update_item ::
  "pyval \<Rightarrow> pyval \<Rightarrow> pyval \<Rightarrow> profile \<Rightarrow> pyval io" where
  "exec_vcenter_content_library_update_item opts item_id spec profile =
     vcenter_content_library_update_item opts item_id spec profile"

definition exec_vcenter_content_library_find_items ::
  "pyval \<Rightarrow> pyval \<Rightarrow> pyval \<Rightarrow> pyval \<Rightarrow> profile \<Rightarrow> pyval io" where
  "exec_vcenter_content_library_find_items opts library_id name type profile =
     vcenter_content_library_find_items opts library_id name type profile"

definition exec_vcenter_content_library_update_session_create ::
  "pyval \<Rightarrow> pyval \<Rightarrow> profile \<Rightarrow> dict \<Rightarrow> pyval io" where
  "exec_vcenter_content_library_update_session_create opts item_id profile spec =
     vcenter_content_library_update_session_create opts item_id profile spec"

definition exec_vcenter_content_library_update_session_get ::
  "pyval \<Rightarrow> pyval \<Rightarrow> profile \<Rightarrow> pyval io" where
  "exec_vcenter_content_library_update_session_get opts session_id profile =
     vcenter_content_library_update_session_get opts session_id profile"

definition exec_vcenter_content_library_update_session_complete ::
  "pyval \<Rightarrow> pyval \<Rightarrow> profile \<Rightarrow> pyval io" where
  "exec_vcenter_content_library_update_session_complete opts session_id profile =
     vcenter_content_library_update_session_complete opts session_id profile"

definition exec_vcenter_content_library_update_session_cancel ::
  "pyval \<Rightarrow> pyval \<Rightarrow> profile \<Rightarrow> pyval io" where
  "exec_vcenter_content_library_update_session_cancel opts session_id profile =
     vcenter_content_library_update_session_cancel opts session_id profile"

definition exec_vcenter_content_library_update_session_fail ::
  "pyval \<Rightarrow> pyval \<Rightarrow> pyval \<Rightarrow> profile \<Rightarrow> pyval io" where
  "exec_vcenter_content_library_update_session_fail opts session_id error profile =
     vcenter_content_library_update_session_fail opts session_id error profile"

definition exec_vcenter_content_library_update_session_keep_alive ::
  "pyval \<Rightarrow> pyval \<Rightarrow> profile \<Rightarrow> pyval io" where
  "exec_vcenter_content_library_update_session_keep_alive opts session_id profile =
     vcenter_content_library_update_session_keep_alive opts session_id profile"

definition exec_vcenter_content_library_update_session_add_file ::
  "pyval \<Rightarrow> pyval \<Rightarrow> pyval \<Rightarrow> pyval \<Rightarrow> profile \<Rightarrow> dict \<Rightarrow> pyval io" where
  "exec_vcenter_content_library_update_session_add_file opts session_id name source_type profile spec =
     vcenter_content_library_update_session_add_file opts session_id name source_type profile spec"

definition exec_vcenter_content_library_update_session_list_files ::
  "pyval \<Rightarrow> pyval \<Rightarrow> profile \<Rightarrow> pyval io" where
  "exec_vcenter_content_library_update_session_list_files opts session_id profile =
     vcenter_content_library_update_session_list_files opts session_id profile"

definition exec_vcenter_content_library_ovf_deploy ::
  "pyval \<Rightarrow> pyval \<Rightarrow> pyval \<Rightarrow> pyval \<Rightarrow> profile \<Rightarrow> pyval \<Rightarrow> pyval io" where
  "exec_vcenter_content_library_ovf_deploy opts library_item_id deployment_target deployment_spec profile timeout =
     vcenter_content_library_ovf_deploy opts library_item_id deployment_target deployment_spec profile timeout"

definition exec_vcenter_content_library_ovf_filter ::
  "pyval \<Rightarrow> pyval \<Rightarrow> pyval \<Rightarrow> profile \<Rightarrow> pyval io" where
  "exec_vcenter_content_library_ovf_filter opts library_item_id deployment_target profile =
     vcenter_content_library_ovf_filter opts library_item_id deployment_target profile"

definition exec_vcenter_content_library_ovf_create_from_vm ::
  "pyval \<Rightarrow> pyval \<Rightarrow> pyval \<Rightarrow> profile \<Rightarrow> pyval io" where
  "exec_vcenter_content_library_ovf_create_from_vm opts vm_id create_spec profile =
     vcenter_content_library_ovf_create_from_vm opts vm_id create_spec profile"

definition exec_vcenter_content_library_vm_template_get ::
  "pyval \<Rightarrow> pyval \<Rightarrow> profile \<Rightarrow> pyval io" where
  "exec_vcenter_content_library_vm_template_get opts item_id profile =
     vcenter_content_library_vm_template_get opts item_id profile"

definition exec_vcenter_content_library_vm_template_create ::
  "pyval \<Rightarrow> pyval \<Rightarrow> profile \<Rightarrow> pyval io" where
  "exec_vcenter_content_library_vm_template_create opts create_spec profile =
     vcenter_content_library_vm_template_create opts create_spec profile"

definition exec_vcenter_content_library_vm_template_deploy ::
  "pyval \<Rightarrow> pyval \<Rightarrow> pyval \<Rightarrow> profile \<Rightarrow> pyval io" where
  "exec_vcenter_content_library_vm_template_deploy opts item_id deploy_spec profile =
     vcenter_content_library_vm_template_deploy opts item_id deploy_spec profile"

subsection \<open>\<open>modules/vcf_vcenter_datacenter.py\<close>\<close>

definition exec_vcenter_datacenter_list :: "pyval \<Rightarrow> profile \<Rightarrow> pyval io" where
  "exec_vcenter_datacenter_list opts profile = vcenter_datacenter_list opts profile"

definition exec_vcenter_datacenter_get ::
  "pyval \<Rightarrow> pyval \<Rightarrow> profile \<Rightarrow> pyval io" where
  "exec_vcenter_datacenter_get opts datacenter profile = vcenter_datacenter_get opts datacenter profile"

definition exec_vcenter_datacenter_create ::
  "pyval \<Rightarrow> pyval \<Rightarrow> pyval \<Rightarrow> profile \<Rightarrow> pyval io" where
  "exec_vcenter_datacenter_create opts name folder profile = vcenter_datacenter_create opts name folder profile"

definition exec_vcenter_datacenter_delete ::
  "pyval \<Rightarrow> pyval \<Rightarrow> profile \<Rightarrow> pyval io" where
  "exec_vcenter_datacenter_delete opts datacenter profile = vcenter_datacenter_delete opts datacenter profile"

subsection \<open>\<open>modules/vcf_vcenter_datastore.py\<close>\<close>

definition exec_vcenter_datastore_list :: "pyval \<Rightarrow> profile \<Rightarrow> pyval io" where
  "exec_vcenter_datastore_list opts profile = vcenter_datastore_list opts profile"

definition exec_vcenter_datastore_get ::
  "pyval \<Rightarrow> pyval \<Rightarrow> profile \<Rightarrow> pyval io" where
  "exec_vcenter_datastore_get opts datastore profile = vcenter_datastore_get opts datastore profile"

subsection \<open>\<open>modules/vcf_vcenter_host.py\<close>\<close>

definition exec_vcenter_host_list :: "pyval \<Rightarrow> profile \<Rightarrow> pyval io" where
  "exec_vcenter_host_list opts profile = vcenter_host_list opts profile"

definition exec_vcenter_host_get :: "pyval \<Rightarrow> pyval \<Rightarrow> profile \<Rightarrow> pyval io" where
  "exec_vcenter_host_get opts host profile = vcenter_host_get opts host profile"

definition exec_vcenter_host_enter_maintenance ::
  "pyval \<Rightarrow> pyval \<Rightarrow> profile \<Rightarrow> pyval io" where
  "exec_vcenter_host_enter_maintenance opts host profile = vcenter_host_enter_maintenance opts host profile"

definition exec_vcenter_host_exit_maintenance ::
  "pyval \<Rightarrow> pyval \<Rightarrow> profile \<Rightarrow> pyval io" where
  "exec_vcenter_host_exit_maintenance opts host profile = vcenter_host_exit_maintenance opts host profile"

subsection \<open>\<open>modules/vcf_vcenter_kms.py\<close>\<close>

definition exec_vcenter_kms_list :: "pyval \<Rightarrow> profile \<Rightarrow> pyval io" where
  "exec_vcenter_kms_list opts profile = vcenter_kms_list opts profile"

definition exec_vcenter_kms_get :: "pyval \<Rightarrow> pyval \<Rightarrow> profile \<Rightarrow> pyval io" where
  "exec_vcenter_kms_get opts provider_id profile = vcenter_kms_get opts provider_id profile"

definition exec_vcenter_kms_create :: "pyval \<Rightarrow> pyval \<Rightarrow> profile \<Rightarrow> pyval io" where
  "exec_vcenter_kms_create opts provider_spec profile = vcenter_kms_create opts provider_spec profile"

definition exec_vcenter_kms_delete :: "pyval \<Rightarrow> pyval \<Rightarrow> profile \<Rightarrow> pyval io" where
  "exec_vcenter_kms_delete opts provider_id profile = vcenter_kms_delete opts provider_id profile"

subsection \<open>\<open>modules/vcf_vcenter_lcm_depot.py\<close>\<close>

definition exec_vcenter_lcm_depot_list_offline :: "pyval \<Rightarrow> profile \<Rightarrow> pyval io" where
  "exec_vcenter_lcm_depot_list_offline opts profile = vcenter_lcm_depot_list_offline opts profile"

definition exec_vcenter_lcm_depot_get_offline :: "pyval \<Rightarrow> pyval \<Rightarrow> profile \<Rightarrow> pyval io" where
  "exec_vcenter_lcm_depot_get_offline opts depot_id profile = vcenter_lcm_depot_get_offline opts depot_id profile"

definition exec_vcenter_lcm_depot_create_offline ::
  "pyval \<Rightarrow> pyval \<Rightarrow> profile \<Rightarrow> dict \<Rightarrow> pyval io" where
  "exec_vcenter_lcm_depot_create_offline opts file_locator profile spec =
     vcenter_lcm_depot_create_offline opts file_locator profile spec"

definition exec_vcenter_lcm_depot_delete_offline :: "pyval \<Rightarrow> pyval \<Rightarrow> profile \<Rightarrow> pyval io" where
  "exec_vcenter_lcm_depot_delete_offline opts depot_id profile =
     vcenter_lcm_depot_delete_offline opts depot_id profile"

definition exec_vcenter_lcm_depot_list_online :: "pyval \<Rightarrow> profile \<Rightarrow> pyval io" where
  "exec_vcenter_lcm_depot_list_online opts profile = vcenter_lcm_depot_list_online opts profile"

definition exec_vcenter_lcm_depot_get_online :: "pyval \<Rightarrow> pyval \<Rightarrow> profile \<Rightarrow> pyval io" where
  "exec_vcenter_lcm_depot_get_online opts depot_id profile = vcenter_lcm_depot_get_online opts depot_id profile"

definition exec_vcenter_lcm_depot_create_online ::
  "pyval \<Rightarrow> pyval \<Rightarrow> profile \<Rightarrow> dict \<Rightarrow> pyval io" where
  "exec_vcenter_lcm_depot_create_online opts location profile spec =
     vcenter_lcm_depot_create_online opts location profile spec"

definition exec_vcenter_lcm_depot_delete_online :: "pyval \<Rightarrow> pyval \<Rightarrow> profile \<Rightarrow> pyval io" where
  "exec_vcenter_lcm_depot_delete_online opts depot_id profile = vcenter_lcm_depot_delete_online opts depot_id profile"

definition exec_vcenter_lcm_depot_list_umds :: "pyval \<Rightarrow> profile \<Rightarrow> pyval io" where
  "exec_vcenter_lcm_depot_list_umds opts profile = vcenter_lcm_depot_list_umds opts profile"

definition exec_vcenter_lcm_depot_get_umds :: "pyval \<Rightarrow> pyval \<Rightarrow> profile \<Rightarrow> pyval io" where
  "exec_vcenter_lcm_depot_get_umds opts depot_id profile = vcenter_lcm_depot_get_umds opts depot_id profile"

definition exec_vcenter_lcm_depot_create_umds ::
  "pyval \<Rightarrow> pyval \<Rightarrow> profile \<Rightarrow> dict \<Rightarrow> pyval io" where
  "exec_vcenter_lcm_depot_create_umds opts location profile spec =
     vcenter_lcm_depot_create_umds opts location profile spec"

definition exec_vcenter_lcm_depot_delete_umds :: "pyval \<Rightarrow> pyval \<Rightarrow> profile \<Rightarrow> pyval io" where
  "exec_vcenter_lcm_depot_delete_umds opts depot_id profile = vcenter_lcm_depot_delete_umds opts depot_id profile"

definition exec_vcenter_lcm_depot_sync :: "pyval \<Rightarrow> profile \<Rightarrow> pyval io" where
  "exec_vcenter_lcm_depot_sync opts profile = vcenter_lcm_depot_sync opts profile"

definition exec_vcenter_lcm_depot_get_content :: "pyval \<Rightarrow> profile \<Rightarrow> pyval io" where
  "exec_vcenter_lcm_depot_get_content opts profile = vcenter_lcm_depot_get_content opts profile"

subsection \<open>\<open>modules/vcf_vcenter_localos_user.py\<close>\<close>

definition exec_vcenter_localos_user_list :: "pyval \<Rightarrow> profile \<Rightarrow> pyval io" where
  "exec_vcenter_localos_user_list opts profile = vcenter_localos_user_list opts profile"

definition exec_vcenter_localos_user_get ::
  "pyval \<Rightarrow> pyval \<Rightarrow> profile \<Rightarrow> pyval io" where
  "exec_vcenter_localos_user_get opts username profile = vcenter_localos_user_get opts username profile"

definition exec_vcenter_localos_user_create ::
  "pyval \<Rightarrow> pyval \<Rightarrow> pyval \<Rightarrow> pyval \<Rightarrow> profile \<Rightarrow> dict \<Rightarrow> pyval io" where
  "exec_vcenter_localos_user_create opts username password roles profile spec =
     vcenter_localos_user_create opts username password roles profile spec"

definition exec_vcenter_localos_user_update ::
  "pyval \<Rightarrow> pyval \<Rightarrow> profile \<Rightarrow> dict \<Rightarrow> pyval io" where
  "exec_vcenter_localos_user_update opts username profile spec =
     vcenter_localos_user_update opts username profile spec"

definition exec_vcenter_localos_user_delete ::
  "pyval \<Rightarrow> pyval \<Rightarrow> profile \<Rightarrow> pyval io" where
  "exec_vcenter_localos_user_delete opts username profile = vcenter_localos_user_delete opts username profile"

subsection \<open>\<open>modules/vcf_vcenter_network.py\<close>\<close>

definition exec_vcenter_network_list :: "pyval \<Rightarrow> profile \<Rightarrow> pyval io" where
  "exec_vcenter_network_list opts profile = vcenter_network_list opts profile"

subsection \<open>\<open>modules/vcf_vcenter_resource_pool.py\<close>\<close>

definition exec_vcenter_resource_pool_list :: "pyval \<Rightarrow> profile \<Rightarrow> pyval io" where
  "exec_vcenter_resource_pool_list opts profile = vcenter_resource_pool_list opts profile"

definition exec_vcenter_resource_pool_get ::
  "pyval \<Rightarrow> pyval \<Rightarrow> profile \<Rightarrow> pyval io" where
  "exec_vcenter_resource_pool_get opts rp_id profile = vcenter_resource_pool_get opts rp_id profile"

definition exec_vcenter_resource_pool_create ::
  "pyval \<Rightarrow> pyval \<Rightarrow> pyval \<Rightarrow> dict \<Rightarrow> pyval io" where
  "exec_vcenter_resource_pool_create opts name parent spec = vcenter_resource_pool_create opts name parent spec"

definition exec_vcenter_resource_pool_delete ::
  "pyval \<Rightarrow> pyval \<Rightarrow> profile \<Rightarrow> pyval io" where
  "exec_vcenter_resource_pool_delete opts rp_id profile = vcenter_resource_pool_delete opts rp_id profile"

definition exec_vcenter_resource_pool_tree :: "pyval \<Rightarrow> profile \<Rightarrow> pyval kdict io" where
  "exec_vcenter_resource_pool_tree opts profile = vcenter_resource_pool_tree opts profile"

subsection \<open>\<open>modules/vcf_vcenter_sso.py\<close>\<close>

definition exec_vcenter_sso_providers_list :: "pyval \<Rightarrow> profile \<Rightarrow> pyval io" where
  "exec_vcenter_sso_providers_list opts profile = vcenter_sso_providers_list opts profile"

definition exec_vcenter_sso_providers_get ::
  "pyval \<Rightarrow> pyval \<Rightarrow> profile \<Rightarrow> pyval io" where
  "exec_vcenter_sso_providers_get opts provider_id profile = vcenter_sso_providers_get opts provider_id profile"

definition exec_vcenter_sso_providers_get_or_none ::
  "pyval \<Rightarrow> pyval \<Rightarrow> profile \<Rightarrow> pyval io" where
  "exec_vcenter_sso_providers_get_or_none opts provider_id profile =
     vcenter_sso_providers_get_or_none opts provider_id profile"

definition exec_vcenter_sso_providers_create ::
  "pyval \<Rightarrow> pyval \<Rightarrow> profile \<Rightarrow> pyval io" where
  "exec_vcenter_sso_providers_create opts spec profile = vcenter_sso_providers_create opts spec profile"

definition exec_vcenter_sso_providers_update ::
  "pyval \<Rightarrow> pyval \<Rightarrow> pyval \<Rightarrow> profile \<Rightarrow> pyval io" where
  "exec_vcenter_sso_providers_update opts provider_id spec profile =
     vcenter_sso_providers_update opts provider_id spec profile"

definition exec_vcenter_sso_providers_delete ::
  "pyval \<Rightarrow> pyval \<Rightarrow> profile \<Rightarrow> pyval io" where
  "exec_vcenter_sso_providers_delete opts provider_id profile = vcenter_sso_providers_delete opts provider_id profile"

definition exec_vcenter_sso_groups_list ::
  "pyval \<Rightarrow> pyval \<Rightarrow> profile \<Rightarrow> pyval io" where
  "exec_vcenter_sso_groups_list opts domain_id profile = vcenter_sso_groups_list opts domain_id profile"

definition exec_vcenter_sso_groups_get ::
  "pyval \<Rightarrow> pyval \<Rightarrow> profile \<Rightarrow> pyval io" where
  "exec_vcenter_sso_groups_get opts group_id profile = vcenter_sso_groups_get opts group_id profile"

definition exec_vcenter_sso_groups_get_or_none ::
  "pyval \<Rightarrow> pyval \<Rightarrow> profile \<Rightarrow> pyval io" where
  "exec_vcenter_sso_groups_get_or_none opts group_id profile = vcenter_sso_groups_get_or_none opts group_id profile"

definition exec_vcenter_sso_groups_create ::
  "pyval \<Rightarrow> pyval \<Rightarrow> pyval \<Rightarrow> pyval \<Rightarrow> profile \<Rightarrow> pyval io" where
  "exec_vcenter_sso_groups_create opts name domain_id description profile =
     vcenter_sso_groups_create opts name domain_id description profile"

definition exec_vcenter_sso_groups_update ::
  "pyval \<Rightarrow> pyval \<Rightarrow> pyval \<Rightarrow> profile \<Rightarrow> pyval io" where
  "exec_vcenter_sso_groups_update opts group_id spec profile = vcenter_sso_groups_update opts group_id spec profile"

definition exec_vcenter_sso_groups_delete ::
  "pyval \<Rightarrow> pyval \<Rightarrow> profile \<Rightarrow> pyval io" where
  "exec_vcenter_sso_groups_delete opts group_id profile = vcenter_sso_groups_delete opts group_id profile"

definition exec_vcenter_sso_group_add_member ::
  "pyval \<Rightarrow> pyval \<Rightarrow> pyval \<Rightarrow> profile \<Rightarrow> pyval io" where
  "exec_vcenter_sso_group_add_member opts group_id member profile =
     vcenter_sso_group_add_member opts group_id member profile"

definition exec_vcenter_sso_group_remove_member ::
  "pyval \<Rightarrow> pyval \<Rightarrow> pyval \<Rightarrow> profile \<Rightarrow> pyval io" where
  "exec_vcenter_sso_group_remove_member opts group_id member profile =
     vcenter_sso_group_remove_member opts group_id member profile"

definition exec_vcenter_sso_users_list ::
  "pyval \<Rightarrow> pyval \<Rightarrow> profile \<Rightarrow> pyval io" where
  "exec_vcenter_sso_users_list opts domain_id profile = vcenter_sso_users_list opts domain_id profile"

definition exec_vcenter_sso_users_get ::
  "pyval \<Rightarrow> pyval \<Rightarrow> profile \<Rightarrow> pyval io" where
  "exec_vcenter_sso_users_get opts user profile = vcenter_sso_users_get opts user profile"

definition exec_vcenter_sso_users_get_or_none ::
  "pyval \<Rightarrow> pyval \<Rightarrow> profile \<Rightarrow> pyval io" where
  "exec_vcenter_sso_users_get_or_none opts user profile = vcenter_sso_users_get_or_none opts user profile"

definition exec_vcenter_sso_users_create ::
  "pyval \<Rightarrow> pyval \<Rightarrow> pyval \<Rightarrow> pyval \<Rightarrow> pyval \<Rightarrow> pyval \<Rightarrow> profile \<Rightarrow> pyval io" where
  "exec_vcenter_sso_users_create opts username domain_id password description email profile =
     vcenter_sso_users_create opts username domain_id password description email profile"

definition exec_vcenter_sso_users_update ::
  "pyval \<Rightarrow> pyval \<Rightarrow> pyval \<Rightarrow> profile \<Rightarrow> pyval io" where
  "exec_vcenter_sso_users_update opts user spec profile = vcenter_sso_users_update opts user spec profile"

definition exec_vcenter_sso_users_delete ::
  "pyval \<Rightarrow> pyval \<Rightarrow> profile \<Rightarrow> pyval io" where
  "exec_vcenter_sso_users_delete opts user profile = vcenter_sso_users_delete opts user profile"

subsection \<open>\<open>modules/vcf_vcenter_supervisor.py\<close>\<close>

definition exec_vcenter_supervisor_list_clusters :: "pyval \<Rightarrow> profile \<Rightarrow> pyval io" where
  "exec_vcenter_supervisor_list_clusters opts profile = vcenter_supervisor_list_clusters opts profile"

definition exec_vcenter_supervisor_get_cluster ::
  "pyval \<Rightarrow> pyval \<Rightarrow> profile \<Rightarrow> pyval io" where
  "exec_vcenter_supervisor_get_cluster opts cluster_id profile =
     vcenter_supervisor_get_cluster opts cluster_id profile"

definition exec_vcenter_supervisor_list_compatibility :: "pyval \<Rightarrow> profile \<Rightarrow> pyval io" where
  "exec_vcenter_supervisor_list_compatibility opts profile = vcenter_supervisor_list_compatibility opts profile"

definition exec_vcenter_supervisor_enable_cluster ::
  "pyval \<Rightarrow> pyval \<Rightarrow> pyval \<Rightarrow> profile \<Rightarrow> pyval io" where
  "exec_vcenter_supervisor_enable_cluster opts cluster_id enable_spec profile =
     vcenter_supervisor_enable_cluster opts cluster_id enable_spec profile"

definition exec_vcenter_supervisor_disable_cluster ::
  "pyval \<Rightarrow> pyval \<Rightarrow> profile \<Rightarrow> pyval io" where
  "exec_vcenter_supervisor_disable_cluster opts cluster_id profile =
     vcenter_supervisor_disable_cluster opts cluster_id profile"

definition exec_vcenter_supervisor_list_namespaces :: "pyval \<Rightarrow> profile \<Rightarrow> pyval io" where
  "exec_vcenter_supervisor_list_namespaces opts profile = vcenter_supervisor_list_namespaces opts profile"

definition exec_vcenter_supervisor_get_namespace ::
  "pyval \<Rightarrow> pyval \<Rightarrow> profile \<Rightarrow> pyval io" where
  "exec_vcenter_supervisor_get_namespace opts namespace_id profile =
     vcenter_supervisor_get_namespace opts namespace_id profile"

definition exec_vcenter_supervisor_create_namespace ::
  "pyval \<Rightarrow> pyval \<Rightarrow> profile \<Rightarrow> pyval io" where
  "exec_vcenter_supervisor_create_namespace opts namespace_spec profile =
     vcenter_supervisor_create_namespace opts namespace_spec profile"

definition exec_vcenter_supervisor_delete_namespace ::
  "pyval \<Rightarrow> pyval \<Rightarrow> profile \<Rightarrow> pyval io" where
  "exec_vcenter_supervisor_delete_namespace opts namespace_id profile =
     vcenter_supervisor_delete_namespace opts namespace_id profile"

subsection \<open>\<open>modules/vcf_vcenter_supervisor_compat.py\<close>\<close>

definition exec_vcenter_supervisor_compat_list_cluster_compatibility ::
  "pyval \<Rightarrow> profile \<Rightarrow> pyval io" where
  "exec_vcenter_supervisor_compat_list_cluster_compatibility opts profile =
     vcenter_supervisor_compat_list_cluster_compatibility opts profile"

definition exec_vcenter_supervisor_compat_list_dvs_compatibility ::
  "pyval \<Rightarrow> pyval \<Rightarrow> profile \<Rightarrow> pyval io" where
  "exec_vcenter_supervisor_compat_list_dvs_compatibility opts cluster_id profile =
     vcenter_supervisor_compat_list_dvs_compatibility opts cluster_id profile"

definition exec_vcenter_supervisor_compat_list_edge_cluster_compatibility ::
  "pyval \<Rightarrow> pyval \<Rightarrow> pyval \<Rightarrow> profile \<Rightarrow> pyval io" where
  "exec_vcenter_supervisor_compat_list_edge_cluster_compatibility opts cluster_id distributed_switch profile =
     vcenter_supervisor_compat_list_edge_cluster_compatibility opts cluster_id distributed_switch profile"

definition exec_vcenter_supervisor_compat_get_cluster_size_info ::
  "pyval \<Rightarrow> profile \<Rightarrow> pyval io" where
  "exec_vcenter_supervisor_compat_get_cluster_size_info opts profile =
     vcenter_supervisor_compat_get_cluster_size_info opts profile"

subsection \<open>\<open>modules/vcf_vcenter_supervisor_service.py\<close>\<close>

definition exec_vcenter_supervisor_service_list :: "pyval \<Rightarrow> profile \<Rightarrow> pyval io" where
  "exec_vcenter_supervisor_service_list opts profile = vcenter_supervisor_service_list opts profile"

definition exec_vcenter_supervisor_service_get ::
  "pyval \<Rightarrow> pyval \<Rightarrow> profile \<Rightarrow> pyval io" where
  "exec_vcenter_supervisor_service_get opts service_id profile =
     vcenter_supervisor_service_get opts service_id profile"

definition exec_vcenter_supervisor_service_list_versions ::
  "pyval \<Rightarrow> pyval \<Rightarrow> profile \<Rightarrow> pyval io" where
  "exec_vcenter_supervisor_service_list_versions opts service_id profile =
     vcenter_supervisor_service_list_versions opts service_id profile"

definition exec_vcenter_supervisor_service_get_version ::
  "pyval \<Rightarrow> pyval \<Rightarrow> pyval \<Rightarrow> profile \<Rightarrow> pyval io" where
  "exec_vcenter_supervisor_service_get_version opts service_id version profile =
     vcenter_supervisor_service_get_version opts service_id version profile"

definition exec_vcenter_supervisor_service_create ::
  "pyval \<Rightarrow> pyval \<Rightarrow> profile \<Rightarrow> pyval io" where
  "exec_vcenter_supervisor_service_create opts service_spec profile =
     vcenter_supervisor_service_create opts service_spec profile"

definition exec_vcenter_supervisor_service_activate ::
  "pyval \<Rightarrow> pyval \<Rightarrow> profile \<Rightarrow> pyval io" where
  "exec_vcenter_supervisor_service_activate opts service_id profile =
     vcenter_supervisor_service_activate opts service_id profile"

definition exec_vcenter_supervisor_service_deactivate ::
  "pyval \<Rightarrow> pyval \<Rightarrow> profile \<Rightarrow> pyval io" where
  "exec_vcenter_supervisor_service_deactivate opts service_id profile =
     vcenter_supervisor_service_deactivate opts service_id profile"

definition exec_vcenter_supervisor_service_delete ::
  "pyval \<Rightarrow> pyval \<Rightarrow> profile \<Rightarrow> pyval io" where
  "exec_vcenter_supervisor_service_delete opts service_id profile =
     vcenter_supervisor_service_delete opts service_id profile"

subsection \<open>\<open>modules/vcf_vcenter_supervisor_software.py\<close>\<close>

definition exec_vcenter_supervisor_software_list :: "pyval \<Rightarrow> profile \<Rightarrow> pyval io" where
  "exec_vcenter_supervisor_software_list opts profile = vcenter_supervisor_software_list opts profile"

definition exec_vcenter_supervisor_software_get ::
  "pyval \<Rightarrow> pyval \<Rightarrow> profile \<Rightarrow> pyval io" where
  "exec_vcenter_supervisor_software_get opts cluster_id profile =
     vcenter_supervisor_software_get opts cluster_id profile"

definition exec_vcenter_supervisor_software_upgrade ::
  "pyval \<Rightarrow> pyval \<Rightarrow> pyval \<Rightarrow> profile \<Rightarrow> pyval io" where
  "exec_vcenter_supervisor_software_upgrade opts cluster_id upgrade_spec profile =
     vcenter_supervisor_software_upgrade opts cluster_id upgrade_spec profile"

subsection \<open>\<open>modules/vcf_vcenter_tag.py\<close>\<close>

definition exec_vcenter_tag_list :: "pyval \<Rightarrow> profile \<Rightarrow> pyval io" where
  "exec_vcenter_tag_list opts profile = vcenter_tag_list opts profile"

definition exec_vcenter_tag_create ::
  "pyval \<Rightarrow> pyval \<Rightarrow> pyval \<Rightarrow> pyval \<Rightarrow> profile \<Rightarrow> pyval io" where
  "exec_vcenter_tag_create opts name category_id description profile =
     vcenter_tag_create opts name category_id description profile"

definition exec_vcenter_tag_get :: "pyval \<Rightarrow> pyval \<Rightarrow> profile \<Rightarrow> pyval io" where
  "exec_vcenter_tag_get opts tag profile = vcenter_tag_get opts tag profile"

definition exec_vcenter_tag_update ::
  "pyval \<Rightarrow> pyval \<Rightarrow> pyval \<Rightarrow> profile \<Rightarrow> pyval io" where
  "exec_vcenter_tag_update opts tag spec profile = vcenter_tag_update opts tag spec profile"

definition exec_vcenter_tag_delete :: "pyval \<Rightarrow> pyval \<Rightarrow> profile \<Rightarrow> pyval io" where
  "exec_vcenter_tag_delete opts tag profile = vcenter_tag_delete opts tag profile"

definition exec_vcenter_tag_assign ::
  "pyval \<Rightarrow> pyval \<Rightarrow> pyval \<Rightarrow> pyval \<Rightarrow> profile \<Rightarrow> pyval io" where
  "exec_vcenter_tag_assign opts tag object_type object_id profile =
     vcenter_tag_assign opts tag object_type object_id profile"

definition exec_vcenter_tag_list_assigned ::
  "pyval \<Rightarrow> pyval \<Rightarrow> pyval \<Rightarrow> profile \<Rightarrow> pyval io" where
  "exec_vcenter_tag_list_assigned opts object_type object_id profile =
     vcenter_tag_list_assigned opts object_type object_id profile"

subsection \<open>\<open>modules/vcf_vcenter_tag_category.py\<close>\<close>

definition exec_vcenter_tag_category_list :: "pyval \<Rightarrow> profile \<Rightarrow> pyval io" where
  "exec_vcenter_tag_category_list opts profile = vcenter_tag_category_list opts profile"

definition exec_vcenter_tag_category_get ::
  "pyval \<Rightarrow> pyval \<Rightarrow> profile \<Rightarrow> pyval io" where
  "exec_vcenter_tag_category_get opts category_id profile = vcenter_tag_category_get opts category_id profile"

definition exec_vcenter_tag_category_create ::
  "pyval \<Rightarrow> pyval \<Rightarrow> pyval \<Rightarrow> pyval \<Rightarrow> pyval \<Rightarrow> profile \<Rightarrow> pyval io" where
  "exec_vcenter_tag_category_create opts name cardinality description associable_types profile =
     vcenter_tag_category_create opts name cardinality description associable_types profile"

definition exec_vcenter_tag_category_update ::
  "pyval \<Rightarrow> pyval \<Rightarrow> pyval \<Rightarrow> profile \<Rightarrow> pyval io" where
  "exec_vcenter_tag_category_update opts category_id spec profile =
     vcenter_tag_category_update opts category_id spec profile"

definition exec_vcenter_tag_category_delete ::
  "pyval \<Rightarrow> pyval \<Rightarrow> profile \<Rightarrow> pyval io" where
  "exec_vcenter_tag_category_delete opts category_id profile = vcenter_tag_category_delete opts category_id profile"

subsection \<open>\<open>modules/vcf_vcenter_vm.py\<close>\<close>

definition exec_vcenter_vm_list :: "pyval \<Rightarrow> profile \<Rightarrow> pyval io" where
  "exec_vcenter_vm_list opts profile = vcenter_vm_list opts profile"

definition exec_vcenter_vm_get :: "pyval \<Rightarrow> pyval \<Rightarrow> profile \<Rightarrow> pyval io" where
  "exec_vcenter_vm_get opts vm profile = vcenter_vm_get opts vm profile"

definition exec_vcenter_vm_power_on :: "pyval \<Rightarrow> pyval \<Rightarrow> profile \<Rightarrow> pyval io" where
  "exec_vcenter_vm_power_on opts vm profile = vcenter_vm_power_on opts vm profile"

definition exec_vcenter_vm_wait_reachable ::
  "((pyval \<Rightarrow> pyval \<Rightarrow> int \<Rightarrow> bool io)) \<Rightarrow> pyval \<Rightarrow> pyval \<Rightarrow> int \<Rightarrow> int \<Rightarrow> bool io" where
  "exec_vcenter_vm_wait_reachable connect target_ip port timeout intv =
     vcenter_vm_wait_reachable connect target_ip port timeout intv"

definition exec_vcenter_vm_power_off :: "pyval \<Rightarrow> pyval \<Rightarrow> profile \<Rightarrow> pyval io" where
  "exec_vcenter_vm_power_off opts vm profile = vcenter_vm_power_off opts vm profile"

definition exec_vcenter_vm_reset :: "pyval \<Rightarrow> pyval \<Rightarrow> profile \<Rightarrow> pyval io" where
  "exec_vcenter_vm_reset opts vm profile = vcenter_vm_reset opts vm profile"

definition exec_vcenter_vm_search ::
  "pyval \<Rightarrow> pyval \<Rightarrow> pyval \<Rightarrow> pyval \<Rightarrow> pyval \<Rightarrow> pyval \<Rightarrow> pyval \<Rightarrow> pyval \<Rightarrow> pyval \<Rightarrow> profile \<Rightarrow> pyval io" where
  "exec_vcenter_vm_search opts power_states names hosts clusters folders datacenters resource_pools vms profile =
     vcenter_vm_search opts [power_states, names, hosts, clusters, folders, datacenters, resource_pools, vms] profile"

definition exec_vcenter_vm_tree :: "pyval \<Rightarrow> profile \<Rightarrow> vm_tree io" where
  "exec_vcenter_vm_tree opts profile = vcenter_vm_tree opts profile"

definition exec_vcenter_vm_summary :: "pyval \<Rightarrow> profile \<Rightarrow> vm_counts io" where
  "exec_vcenter_vm_summary opts profile = vcenter_vm_summary opts profile"

subsection \<open>\<open>modules/vcf_vcenter_vm_class.py\<close>\<close>

definition exec_vcenter_vm_class_list :: "pyval \<Rightarrow> profile \<Rightarrow> pyval io" where
  "exec_vcenter_vm_class_list opts profile = vcenter_vm_class_list opts profile"

definition exec_vcenter_vm_class_get :: "pyval \<Rightarrow> pyval \<Rightarrow> profile \<Rightarrow> pyval io" where
  "exec_vcenter_vm_class_get opts class_id profile = vcenter_vm_class_get opts class_id profile"

definition exec_vcenter_vm_class_create ::
  "pyval \<Rightarrow> pyval \<Rightarrow> profile \<Rightarrow> pyval io" where
  "exec_vcenter_vm_class_create opts class_spec profile = vcenter_vm_class_create opts class_spec profile"

definition exec_vcenter_vm_class_update ::
  "pyval \<Rightarrow> pyval \<Rightarrow> pyval \<Rightarrow> profile \<Rightarrow> pyval io" where
  "exec_vcenter_vm_class_update opts class_id class_spec profile =
     vcenter_vm_class_update opts class_id class_spec profile"

definition exec_vcenter_vm_class_delete ::
  "pyval \<Rightarrow> pyval \<Rightarrow> profile \<Rightarrow> pyval io" where
  "exec_vcenter_vm_class_delete opts class_id profile = vcenter_vm_class_delete opts class_id profile"

subsection \<open>\<open>modules/vcf_cluster_config.py\<close>\<close>

definition exec_cluster_config_enablement_get ::
  "pyval \<Rightarrow> pyval \<Rightarrow> profile \<Rightarrow> pyval io" where
  "exec_cluster_config_enablement_get opts cluster profile = ccfg_enablement_get opts cluster profile"

definition exec_cluster_config_schema_get ::
  "pyval \<Rightarrow> pyval \<Rightarrow> profile \<Rightarrow> pyval io" where
  "exec_cluster_config_schema_get opts cluster profile = ccfg_schema_get opts cluster profile"

definition exec_cluster_config_configuration_get ::
  "pyval \<Rightarrow> pyval \<Rightarrow> profile \<Rightarrow> pyval io" where
  "exec_cluster_config_configuration_get opts cluster profile = ccfg_configuration_get opts cluster profile"

definition exec_cluster_config_drafts_list ::
  "pyval \<Rightarrow> pyval \<Rightarrow> profile \<Rightarrow> pyval io" where
  "exec_cluster_config_drafts_list opts cluster profile = ccfg_drafts_list opts cluster profile"

definition exec_cluster_config_draft_create ::
  "pyval \<Rightarrow> pyval \<Rightarrow> pyval \<Rightarrow> profile \<Rightarrow> pyval io" where
  "exec_cluster_config_draft_create opts cluster body profile = ccfg_draft_create opts cluster body profile"

definition exec_cluster_config_draft_get ::
  "pyval \<Rightarrow> pyval \<Rightarrow> pyval \<Rightarrow> profile \<Rightarrow> pyval io" where
  "exec_cluster_config_draft_get opts cluster draft_id profile = ccfg_draft_get opts cluster draft_id profile"

definition exec_cluster_config_draft_get_configuration ::
  "pyval \<Rightarrow> pyval \<Rightarrow> pyval \<Rightarrow> profile \<Rightarrow> pyval io" where
  "exec_cluster_config_draft_get_configuration opts cluster draft_id profile =
     ccfg_draft_get_configuration opts cluster draft_id profile"

definition exec_cluster_config_draft_update_configuration ::
  "pyval \<Rightarrow> pyval \<Rightarrow> pyval \<Rightarrow> pyval \<Rightarrow> profile \<Rightarrow> pyval io" where
  "exec_cluster_config_draft_update_configuration opts cluster draft_id body profile =
     ccfg_draft_update_configuration opts cluster draft_id body profile"

definition exec_cluster_config_draft_delete ::
  "pyval \<Rightarrow> pyval \<Rightarrow> pyval \<Rightarrow> profile \<Rightarrow> pyval io" where
  "exec_cluster_config_draft_delete opts cluster draft_id profile = ccfg_draft_delete opts cluster draft_id profile"

definition exec_cluster_config_draft_apply ::
  "pyval \<Rightarrow> pyval \<Rightarrow> pyval \<Rightarrow> profile \<Rightarrow> pyval io" where
  "exec_cluster_config_draft_apply opts cluster draft_id profile = ccfg_draft_apply opts cluster draft_id profile"

definition exec_cluster_config_last_apply_result ::
  "pyval \<Rightarrow> pyval \<Rightarrow> profile \<Rightarrow> pyval io" where
  "exec_cluster_config_last_apply_result opts cluster profile = ccfg_last_apply_result opts cluster profile"

definition exec_cluster_config_last_compliance_result ::
  "pyval \<Rightarrow> pyval \<Rightarrow> profile \<Rightarrow> pyval io" where
  "exec_cluster_config_last_compliance_result opts cluster profile = ccfg_last_compliance_result opts cluster profile"

subsection \<open>\<open>modules/vcf_cluster_config_software.py\<close>\<close>

definition exec_cluster_config_software_get ::
  "pyval \<Rightarrow> pyval \<Rightarrow> profile \<Rightarrow> pyval io" where
  "exec_cluster_config_software_get opts cluster profile = cluster_config_software_get opts cluster profile"

definition exec_cluster_config_software_effective_components ::
  "pyval \<Rightarrow> pyval \<Rightarrow> profile \<Rightarrow> pyval io" where
  "exec_cluster_config_software_effective_components opts cluster profile =
     cluster_config_software_effective_components opts cluster profile"

definition exec_cluster_config_software_solutions ::
  "pyval \<Rightarrow> pyval \<Rightarrow> profile \<Rightarrow> pyval io" where
  "exec_cluster_config_software_solutions opts cluster profile =
     cluster_config_software_solutions opts cluster profile"

definition exec_cluster_config_software_drafts_list ::
  "pyval \<Rightarrow> pyval \<Rightarrow> profile \<Rightarrow> pyval io" where
  "exec_cluster_config_software_drafts_list opts cluster profile =
     cluster_config_software_drafts_list opts cluster profile"

definition exec_cluster_config_software_draft_get ::
  "pyval \<Rightarrow> pyval \<Rightarrow> pyval \<Rightarrow> profile \<Rightarrow> pyval io" where
  "exec_cluster_config_software_draft_get opts cluster draft_id profile =
     cluster_config_software_draft_get opts cluster draft_id profile"

definition exec_cluster_config_software_draft_create ::
  "pyval \<Rightarrow> pyval \<Rightarrow> profile \<Rightarrow> pyval io" where
  "exec_cluster_config_software_draft_create opts cluster profile =
     cluster_config_software_draft_create opts cluster profile"

definition exec_cluster_config_software_draft_delete ::
  "pyval \<Rightarrow> pyval \<Rightarrow> pyval \<Rightarrow> profile \<Rightarrow> pyval io" where
  "exec_cluster_config_software_draft_delete opts cluster draft_id profile =
     cluster_config_software_draft_delete opts cluster draft_id profile"

definition exec_cluster_config_software_draft_update_base_image ::
  "pyval \<Rightarrow> pyval \<Rightarrow> pyval \<Rightarrow> pyval \<Rightarrow> profile \<Rightarrow> pyval io" where
  "exec_cluster_config_software_draft_update_base_image opts cluster draft_id version profile =
     cluster_config_software_draft_update_base_image opts cluster draft_id version profile"

definition exec_cluster_config_software_draft_set_add_on ::
  "pyval \<Rightarrow> pyval \<Rightarrow> pyval \<Rightarrow> pyval \<Rightarrow> pyval \<Rightarrow> profile \<Rightarrow> pyval io" where
  "exec_cluster_config_software_draft_set_add_on opts cluster draft_id name version profile =
     cluster_config_software_draft_set_add_on opts cluster draft_id name version profile"

definition exec_cluster_config_software_draft_remove_add_on ::
  "pyval \<Rightarrow> pyval \<Rightarrow> pyval \<Rightarrow> profile \<Rightarrow> pyval io" where
  "exec_cluster_config_software_draft_remove_add_on opts cluster draft_id profile =
     cluster_config_software_draft_remove_add_on opts cluster draft_id profile"

definition exec_cluster_config_software_draft_set_component ::
  "pyval \<Rightarrow> pyval \<Rightarrow> pyval \<Rightarrow> pyval \<Rightarrow> pyval \<Rightarrow> profile \<Rightarrow> pyval io" where
  "exec_cluster_config_software_draft_set_component opts cluster draft_id component_name version profile =
     cluster_config_software_draft_set_component opts cluster draft_id component_name version profile"

definition exec_cluster_config_software_draft_remove_component ::
  "pyval \<Rightarrow> pyval \<Rightarrow> pyval \<Rightarrow> pyval \<Rightarrow> profile \<Rightarrow> pyval io" where
  "exec_cluster_config_software_draft_remove_component opts cluster draft_id component_name profile =
     cluster_config_software_draft_remove_component opts cluster draft_id component_name profile"

definition exec_cluster_config_software_draft_set_hardware_support ::
  "pyval \<Rightarrow> pyval \<Rightarrow> pyval \<Rightarrow> pyval \<Rightarrow> profile \<Rightarrow> pyval io" where
  "exec_cluster_config_software_draft_set_hardware_support opts cluster draft_id packages profile =
     cluster_config_software_draft_set_hardware_support opts cluster draft_id packages profile"

definition exec_cluster_config_software_draft_commit ::
  "pyval \<Rightarrow> pyval \<Rightarrow> pyval \<Rightarrow> profile \<Rightarrow> pyval io" where
  "exec_cluster_config_software_draft_commit opts cluster draft_id profile =
     cluster_config_software_draft_commit opts cluster draft_id profile"

definition exec_cluster_config_software_check ::
  "pyval \<Rightarrow> pyval \<Rightarrow> profile \<Rightarrow> pyval io" where
  "exec_cluster_config_software_check opts cluster profile = cluster_config_software_check opts cluster profile"

definition exec_cluster_config_software_stage ::
  "pyval \<Rightarrow> pyval \<Rightarrow> pyval \<Rightarrow> profile \<Rightarrow> pyval io" where
  "exec_cluster_config_software_stage opts cluster hosts profile =
     cluster_config_software_stage opts cluster hosts profile"

definition exec_cluster_config_software_apply ::
  "pyval \<Rightarrow> pyval \<Rightarrow> pyval \<Rightarrow> profile \<Rightarrow> pyval io" where
  "exec_cluster_config_software_apply opts cluster accept_eula profile =
     cluster_config_software_apply opts cluster accept_eula profile"

definition exec_cluster_config_software_scan ::
  "pyval \<Rightarrow> pyval \<Rightarrow> profile \<Rightarrow> pyval io" where
  "exec_cluster_config_software_scan opts cluster profile = cluster_config_software_scan opts cluster profile"

definition exec_cluster_config_software_last_apply_result ::
  "pyval \<Rightarrow> pyval \<Rightarrow> profile \<Rightarrow> pyval io" where
  "exec_cluster_config_software_last_apply_result opts cluster profile =
     cluster_config_software_last_apply_result opts cluster profile"

definition exec_cluster_config_software_last_check_result ::
  "pyval \<Rightarrow> pyval \<Rightarrow> profile \<Rightarrow> pyval io" where
  "exec_cluster_config_software_last_check_result opts cluster profile =
     cluster_config_software_last_check_result opts cluster profile"

definition exec_cluster_config_software_last_compliance_result ::
  "pyval \<Rightarrow> pyval \<Rightarrow> profile \<Rightarrow> pyval io" where
  "exec_cluster_config_software_last_compliance_result opts cluster profile =
     cluster_config_software_last_compliance_result opts cluster profile"

definition exec_cluster_config_software_last_stage_result ::
  "pyval \<Rightarrow> pyval \<Rightarrow> profile \<Rightarrow> pyval io" where
  "exec_cluster_config_software_last_stage_result opts cluster profile =
     cluster_config_software_last_stage_result opts cluster profile"

subsection \<open>\<open>modules/vcf_esxi_vlcm.py\<close>\<close>

definition exec_esxi_vlcm_online_depot_list :: "pyval \<Rightarrow> profile \<Rightarrow> pyval io" where
  "exec_esxi_vlcm_online_depot_list opts profile = vlcm_online_depot_list opts profile"

definition exec_esxi_vlcm_online_depot_create ::
  "pyval \<Rightarrow> dict \<Rightarrow> profile \<Rightarrow> pyval io" where
  "exec_esxi_vlcm_online_depot_create opts body profile = vlcm_online_depot_create opts body profile"

definition exec_esxi_vlcm_online_depot_update ::
  "pyval \<Rightarrow> pyval \<Rightarrow> dict \<Rightarrow> profile \<Rightarrow> pyval io" where
  "exec_esxi_vlcm_online_depot_update opts depot_id body profile =
     vlcm_online_depot_update opts depot_id body profile"

definition exec_esxi_vlcm_offline_depot_list :: "pyval \<Rightarrow> profile \<Rightarrow> pyval io" where
  "exec_esxi_vlcm_offline_depot_list opts profile = vlcm_offline_depot_list opts profile"

definition exec_esxi_vlcm_offline_depot_get ::
  "pyval \<Rightarrow> pyval \<Rightarrow> profile \<Rightarrow> pyval io" where
  "exec_esxi_vlcm_offline_depot_get opts depot_id profile = vlcm_offline_depot_get opts depot_id profile"

definition exec_esxi_vlcm_offline_depot_create ::
  "pyval \<Rightarrow> dict \<Rightarrow> profile \<Rightarrow> pyval io" where
  "exec_esxi_vlcm_offline_depot_create opts body profile = vlcm_offline_depot_create opts body profile"

definition exec_esxi_vlcm_offline_depot_delete ::
  "pyval \<Rightarrow> pyval \<Rightarrow> profile \<Rightarrow> pyval io" where
  "exec_esxi_vlcm_offline_depot_delete opts depot_id profile = vlcm_offline_depot_delete opts depot_id profile"

definition exec_esxi_vlcm_depot_sync :: "pyval \<Rightarrow> profile \<Rightarrow> pyval io" where
  "exec_esxi_vlcm_depot_sync opts profile = vlcm_depot_sync opts profile"

definition exec_esxi_vlcm_desired_image_get ::
  "pyval \<Rightarrow> pyval \<Rightarrow> profile \<Rightarrow> pyval io" where
  "exec_esxi_vlcm_desired_image_get opts cluster profile = vlcm_desired_image_get opts cluster profile"

definition exec_esxi_vlcm_base_image_get ::
  "pyval \<Rightarrow> pyval \<Rightarrow> profile \<Rightarrow> pyval io" where
  "exec_esxi_vlcm_base_image_get opts cluster profile = vlcm_base_image_get opts cluster profile"

definition exec_esxi_vlcm_drafts_list ::
  "pyval \<Rightarrow> pyval \<Rightarrow> profile \<Rightarrow> pyval io" where
  "exec_esxi_vlcm_drafts_list opts cluster profile = vlcm_drafts_list opts cluster profile"

definition exec_esxi_vlcm_draft_get ::
  "pyval \<Rightarrow> pyval \<Rightarrow> pyval \<Rightarrow> profile \<Rightarrow> pyval io" where
  "exec_esxi_vlcm_draft_get opts cluster draft_id profile = vlcm_draft_get opts cluster draft_id profile"

definition exec_esxi_vlcm_draft_delete ::
  "pyval \<Rightarrow> pyval \<Rightarrow> pyval \<Rightarrow> profile \<Rightarrow> pyval io" where
  "exec_esxi_vlcm_draft_delete opts cluster draft_id profile = vlcm_draft_delete opts cluster draft_id profile"

definition exec_esxi_vlcm_draft_import_software_spec ::
  "pyval \<Rightarrow> pyval \<Rightarrow> pyval \<Rightarrow> profile \<Rightarrow> pyval io" where
  "exec_esxi_vlcm_draft_import_software_spec opts cluster image_spec profile =
     vlcm_draft_import_software_spec opts cluster image_spec profile"

definition exec_esxi_vlcm_draft_validate ::
  "pyval \<Rightarrow> pyval \<Rightarrow> pyval \<Rightarrow> profile \<Rightarrow> pyval io" where
  "exec_esxi_vlcm_draft_validate opts cluster draft_id profile = vlcm_draft_validate opts cluster draft_id profile"

definition exec_esxi_vlcm_draft_commit ::
  "pyval \<Rightarrow> pyval \<Rightarrow> pyval \<Rightarrow> pyval \<Rightarrow> profile \<Rightarrow> pyval io" where
  "exec_esxi_vlcm_draft_commit opts cluster draft_id message profile =
     vlcm_draft_commit opts cluster draft_id message profile"

definition exec_esxi_vlcm_apply_policy_get ::
  "pyval \<Rightarrow> pyval \<Rightarrow> profile \<Rightarrow> pyval io" where
  "exec_esxi_vlcm_apply_policy_get opts cluster profile = vlcm_apply_policy_get opts cluster profile"

definition exec_esxi_vlcm_apply_policy_set ::
  "pyval \<Rightarrow> pyval \<Rightarrow> pyval \<Rightarrow> profile \<Rightarrow> pyval io" where
  "exec_esxi_vlcm_apply_policy_set opts cluster policy_spec profile =
     vlcm_apply_policy_set opts cluster policy_spec profile"

definition exec_esxi_vlcm_compliance_scan ::
  "pyval \<Rightarrow> pyval \<Rightarrow> pyval \<Rightarrow> pyval \<Rightarrow> profile \<Rightarrow> pyval io" where
  "exec_esxi_vlcm_compliance_scan opts cluster commit hosts profile =
     vlcm_compliance_scan opts cluster commit hosts profile"

definition exec_esxi_vlcm_precheck ::
  "pyval \<Rightarrow> pyval \<Rightarrow> pyval \<Rightarrow> profile \<Rightarrow> pyval io" where
  "exec_esxi_vlcm_precheck opts cluster commit profile = vlcm_precheck opts cluster commit profile"

definition exec_esxi_vlcm_stage ::
  "pyval \<Rightarrow> pyval \<Rightarrow> pyval \<Rightarrow> pyval \<Rightarrow> profile \<Rightarrow> pyval io" where
  "exec_esxi_vlcm_stage opts cluster commit hosts profile = vlcm_stage opts cluster commit hosts profile"

definition exec_esxi_vlcm_remediate ::
  "pyval \<Rightarrow> pyval \<Rightarrow> pyval \<Rightarrow> profile \<Rightarrow> pyval io" where
  "exec_esxi_vlcm_remediate opts cluster accept_eula profile = vlcm_remediate opts cluster accept_eula profile"

definition exec_esxi_vlcm_last_check_result ::
  "pyval \<Rightarrow> pyval \<Rightarrow> profile \<Rightarrow> pyval io" where
  "exec_esxi_vlcm_last_check_result opts cluster profile = vlcm_last_check_result opts cluster profile"

definition exec_esxi_vlcm_apply_impact_report ::
  "pyval \<Rightarrow> pyval \<Rightarrow> profile \<Rightarrow> pyval io" where
  "exec_esxi_vlcm_apply_impact_report opts cluster profile = vlcm_apply_impact_report opts cluster profile"

definition exec_esxi_vlcm_last_apply_result ::
  "pyval \<Rightarrow> pyval \<Rightarrow> profile \<Rightarrow> pyval io" where
  "exec_esxi_vlcm_last_apply_result opts cluster profile = vlcm_last_apply_result opts cluster profile"

definition exec_esxi_vlcm_wait_for_task ::
  "pyval \<Rightarrow> pyval \<Rightarrow> pyval \<Rightarrow> pyval \<Rightarrow> profile \<Rightarrow> pyval io" where
  "exec_esxi_vlcm_wait_for_task opts resp timeout poll_interval profile =
     vlcm_wait_for_task opts resp timeout poll_interval profile"

subsection \<open>\<open>modules/vcf_vks.py\<close>\<close>

definition exec_vks_fetch_kubeconfig ::
  "string \<Rightarrow> (string \<Rightarrow> unit io) \<Rightarrow> (pyval \<Rightarrow> string \<Rightarrow> unit io) \<Rightarrow>
     pyval \<Rightarrow> pyval \<Rightarrow> pyval \<Rightarrow> pyval \<Rightarrow> profile \<Rightarrow> pyval io" where
  "exec_vks_fetch_kubeconfig home makedirs write_private opts cluster_id path namespace profile =
     bindM
       (if truthy namespace then vcenter_supervisor_kubeconfig_get_kubeconfig_for_namespace opts namespace profile
        else vcenter_supervisor_kubeconfig_get_kubeconfig opts cluster_id profile) (\<lambda>kubeconfig.
     bindM
       (if path = PNone then
          bindM (makedirs (home @ ''/.kube'')) (\<lambda>_.
          pureM (PStr (home @ ''/.kube/vks-'' @ py_str cluster_id @ ''.config'')))
        else pureM path) (\<lambda>path.
     bindM (write_private path (py_str kubeconfig)) (\<lambda>_.
     pureM (PDict [(''path'', path), (''kubeconfig'', kubeconfig)]))))"

end
