(* ===== verification/Vmodl.thy ===== *)
theory Vmodl
  imports Rest_Store Vrli_Settings
begin

section \<open>Vmodl: the objects of pyVmomi, and programs over them\<close>

text \<open>
  pyVmomi is not part of the repository: what it does is the record \<open>vmodl\<close>, an argument of every definition
  that uses it. An object of pyVmomi is a \<open>pyval\<close>, a dict that carries its class under \<open>__class__\<close> (a key that no dict
  of the program has). A data object has its properties beside it; a managed object has its \<open>_moId\<close>, and every other
  property of it is read from the server. A date is an object of the class \<open>datetime\<close>. A class stands for its name, a member of an enumeration for its text.
\<close>

subsection \<open>The interface\<close>

text \<open>
  \<open>vm_connect\<close> is \<open>SmartConnect\<close>, \<open>vm_disconnect\<close> is \<open>Disconnect\<close>. \<open>vm_read\<close> reads a property of a managed object
  and \<open>vm_call\<close> calls a method of it, with positional and keyword arguments. \<open>vm_new\<close> makes a data object and \<open>vm_set\<close>
  sets a property of one: both check the declared types; of a managed object none can be set. \<open>vm_ref\<close> makes a managed object from a class, an identifier and
  a stub. \<open>vm_class c\<close>: there is a class \<open>c\<close>; \<open>vm_sub c d\<close>: the class \<open>c\<close> is \<open>d\<close> or derives from it. \<open>vm_digest\<close> opens a TLS connection to a host and
  a port within a timeout and gives the SHA-1 of its certificate in hexadecimal. \<open>vm_bypass\<close>, \<open>vm_https_proxy\<close> and \<open>vm_split_url\<close> are
  \<open>proxy_bypass(host)\<close>, \<open>getproxies().get("https")\<close> and the host name and port that \<open>urlsplit\<close> finds.
  \<open>vm_version\<close> is \<open>newestVersions.Get\<close>; \<open>vm_context k v\<close> puts an entry into the context of the requests of the thread: \<open>cookies\<close>
  into that of HTTP, any other into that of VMODL.
\<close>

record vmodl =
  vm_connect :: "dict \<Rightarrow> pyval io"
  vm_disconnect :: "pyval \<Rightarrow> unit io"
  vm_read :: "pyval \<Rightarrow> string \<Rightarrow> pyval io"
  vm_call :: "pyval \<Rightarrow> string \<Rightarrow> pyval list \<Rightarrow> dict \<Rightarrow> pyval io"
  vm_new :: "string \<Rightarrow> dict \<Rightarrow> pyval res"
  vm_set :: "pyval \<Rightarrow> string \<Rightarrow> pyval \<Rightarrow> pyval res"
  vm_ref :: "string \<Rightarrow> pyval \<Rightarrow> pyval \<Rightarrow> pyval res"
  vm_sub :: "string \<Rightarrow> string \<Rightarrow> bool"
  vm_bypass :: "pyval \<Rightarrow> bool"
  vm_https_proxy :: pyval
  vm_split_url :: "pyval \<Rightarrow> pyval \<times> pyval"
  vm_class :: "string \<Rightarrow> bool"
  vm_digest :: "pyval \<Rightarrow> pyval \<Rightarrow> pyval \<Rightarrow> string io"
  vm_version :: "string \<Rightarrow> pyval"
  vm_context :: "string \<Rightarrow> pyval \<Rightarrow> unit io"

definition py_object :: "string \<Rightarrow> dict \<Rightarrow> pyval" where
  "py_object c d = PDict ((''__class__'', PStr c) # d)"

fun class_of :: "pyval \<Rightarrow> string option" where
  "class_of (PDict ((k, PStr c) # _)) = (if k = ''__class__'' then Some c else None)"
| "class_of _ = None"

definition managed_object :: "string \<Rightarrow> string \<Rightarrow> pyval" where
  "managed_object c moid = py_object c [(''_moId'', PStr moid)]"

text \<open>\<open>isinstance(v, c)\<close> for a class of pyVmomi, and \<open>type(v).__name__\<close>.\<close>

definition is_instance :: "vmodl \<Rightarrow> pyval \<Rightarrow> string \<Rightarrow> bool" where
  "is_instance api v c = (case class_of v of Some k \<Rightarrow> vm_sub api k c | None \<Rightarrow> False)"

text \<open>\<open>v.a\<close> for a property: read at once where the object has it, from the server where it is managed.\<close>

definition vget :: "vmodl \<Rightarrow> pyval \<Rightarrow> string \<Rightarrow> pyval io" where
  "vget api v a =
     (case (class_of v, v) of
        (Some _, PDict d) \<Rightarrow>
          (case map_of d a of
             Some x \<Rightarrow> pureM x
           | None \<Rightarrow> if map_of d ''_moId'' \<noteq> None then vm_read api v a else raiseM (attr_error v a))
      | _ \<Rightarrow> raiseM (attr_error v a))"

text \<open>\<open>v.a.b.c\<close>, \<open>getattr(v, a, dflt)\<close> and \<open>hasattr(v, a)\<close>.\<close>

fun vpath :: "vmodl \<Rightarrow> pyval \<Rightarrow> string list \<Rightarrow> pyval io" where
  "vpath api v [] = pureM v"
| "vpath api v (a # as) = bindM (vget api v a) (\<lambda>x. vpath api x as)"

fun is_AttributeError :: "exn \<Rightarrow> bool" where
  "is_AttributeError (AttributeError _) = True"
| "is_AttributeError _ = False"

definition vget_or :: "vmodl \<Rightarrow> pyval \<Rightarrow> string \<Rightarrow> pyval \<Rightarrow> pyval io" where
  "vget_or api v a dflt =
     tryM (vget api v a) (\<lambda>exc. if is_AttributeError exc then pureM dflt else raiseM exc)"

definition vhas :: "vmodl \<Rightarrow> pyval \<Rightarrow> string \<Rightarrow> bool io" where
  "vhas api v a =
     tryM (bindM (vget api v a) (\<lambda>_. pureM True)) (\<lambda>exc. if is_AttributeError exc then pureM False else raiseM exc)"

text \<open>
  \<open>v.m(...)\<close>: a method of an object (of a managed one, or of a date). \<open>vset\<close> is an assignment to a property, \<open>vnew\<close> the call of a class.
\<close>

definition vcall :: "vmodl \<Rightarrow> pyval \<Rightarrow> string \<Rightarrow> pyval list \<Rightarrow> dict \<Rightarrow> pyval io" where
  "vcall api v m args kwargs =
     (if class_of v \<noteq> None then vm_call api v m args kwargs else raiseM (attr_error v m))"

definition vnew :: "vmodl \<Rightarrow> string \<Rightarrow> dict \<Rightarrow> pyval io" where
  "vnew api c d = liftR (vm_new api c d)"

definition vset :: "vmodl \<Rightarrow> pyval \<Rightarrow> string \<Rightarrow> pyval \<Rightarrow> pyval io" where
  "vset api v a x = liftR (vm_set api v a x)"

definition vref :: "vmodl \<Rightarrow> string \<Rightarrow> pyval \<Rightarrow> pyval \<Rightarrow> pyval io" where
  "vref api c moid stub = liftR (vm_ref api c moid stub)"

text \<open>\<open>getattr(vim, n, dflt)\<close>; \<open>None\<close> where there is no default.\<close>

definition vclass :: "vmodl \<Rightarrow> string \<Rightarrow> pyval \<Rightarrow> pyval" where
  "vclass api c dflt = (if vm_class api c then PStr c else dflt)"

text \<open>\<open>except c\<close> for a fault class. A \<open>KeyError\<close> and an \<open>IndexError\<close> are \<open>LookupError\<close>s.\<close>

definition is_fault :: "vmodl \<Rightarrow> string \<Rightarrow> exn \<Rightarrow> bool" where
  "is_fault api c exc = (case exc of VmodlFault k _ \<Rightarrow> vm_sub api k c | _ \<Rightarrow> False)"

fun is_LookupError :: "exn \<Rightarrow> bool" where
  "is_LookupError (LookupError _) = True"
| "is_LookupError (KeyError _) = True"
| "is_LookupError _ = False"

fun is_KeyError :: "exn \<Rightarrow> bool" where
  "is_KeyError (KeyError _) = True"
| "is_KeyError _ = False"

fun is_RuntimeError :: "exn \<Rightarrow> bool" where
  "is_RuntimeError (RuntimeError _) = True"
| "is_RuntimeError _ = False"

fun is_TypeError :: "exn \<Rightarrow> bool" where
  "is_TypeError (TypeError _) = True"
| "is_TypeError _ = False"

subsection \<open>Loops over lists\<close>

text \<open>A list comprehension whose element may have effects; \<open>collect\<close> leaves out the elements without a value.\<close>

fun mapM :: "('a \<Rightarrow> 'b io) \<Rightarrow> 'a list \<Rightarrow> 'b list io" where
  "mapM f [] = pureM []"
| "mapM f (x # xs) = bindM (f x) (\<lambda>y. bindM (mapM f xs) (\<lambda>ys. pureM (y # ys)))"

fun collect :: "('a \<Rightarrow> 'b option io) \<Rightarrow> 'a list \<Rightarrow> 'b list io" where
  "collect f [] = pureM []"
| "collect f (x # xs) =
     bindM (f x) (\<lambda>r. bindM (collect f xs) (\<lambda>ys. pureM (case r of None \<Rightarrow> ys | Some y \<Rightarrow> y # ys)))"

text \<open>\<open>for x in xs\<close> with what the body assigns as the accumulator; with an early \<open>return\<close> or \<open>break\<close> as \<open>Some\<close>.\<close>

fun foldM :: "('a \<Rightarrow> 's \<Rightarrow> 's io) \<Rightarrow> 'a list \<Rightarrow> 's \<Rightarrow> 's io" where
  "foldM f [] s = pureM s"
| "foldM f (x # xs) s = bindM (f x s) (foldM f xs)"

fun iterM :: "('a \<Rightarrow> unit io) \<Rightarrow> 'a list \<Rightarrow> unit io" where
  "iterM f [] = pureM ()"
| "iterM f (x # xs) = bindM (f x) (\<lambda>_. iterM f xs)"

fun first_of :: "('a \<Rightarrow> 'b option io) \<Rightarrow> 'a list \<Rightarrow> 'b option io" where
  "first_of f [] = pureM None"
| "first_of f (x # xs) = bindM (f x) (\<lambda>r. case r of None \<Rightarrow> first_of f xs | Some y \<Rightarrow> pureM (Some y))"

text \<open>A loop that assigns and may leave: \<open>Inl\<close> leaves it with a value, \<open>Inr\<close> goes on.\<close>

fun for_each :: "('a \<Rightarrow> 's \<Rightarrow> ('r + 's) io) \<Rightarrow> 'a list \<Rightarrow> 's \<Rightarrow> ('r + 's) io" where
  "for_each f [] s = pureM (Inr s)"
| "for_each f (x # xs) s = bindM (f x s) (\<lambda>r. case r of Inl y \<Rightarrow> pureM (Inl y) | Inr s' \<Rightarrow> for_each f xs s')"

text \<open>The variables after a loop that a \<open>break\<close> may have left.\<close>

definition either :: "'s + 's \<Rightarrow> 's" where
  "either r = (case r of Inl s \<Rightarrow> s | Inr s \<Rightarrow> s)"

text \<open>The value that was returned, and otherwise the rest of the function.\<close>

definition or_else :: "'a option io \<Rightarrow> 'a io \<Rightarrow> 'a io" where
  "or_else m k = bindM m (\<lambda>r. case r of Some v \<Rightarrow> pureM v | None \<Rightarrow> k)"

text \<open>\<open>try: m  finally: f\<close>; an exception of \<open>f\<close> takes the place of what \<open>m\<close> gave.\<close>

definition finallyM :: "'a io \<Rightarrow> 'b io \<Rightarrow> 'a io" where
  "finallyM m f =
     (\<lambda>w. case m w of
        None \<Rightarrow> None
      | Some (r, w1) \<Rightarrow>
          (case f w1 of
             None \<Rightarrow> None
           | Some (Ok _, w2) \<Rightarrow> Some (r, w2)
           | Some (Exc e, w2) \<Rightarrow> Some (Exc e, w2)))"

text \<open>\<open>x and y\<close>, \<open>any(...)\<close> and \<open>all(...)\<close> whose later parts have effects.\<close>

definition andM :: "bool \<Rightarrow> bool io \<Rightarrow> bool io" where
  "andM a m = (if a then m else pureM False)"

definition orM :: "bool \<Rightarrow> bool io \<Rightarrow> bool io" where
  "orM a m = (if a then pureM True else m)"

fun anyM :: "('a \<Rightarrow> bool io) \<Rightarrow> 'a list \<Rightarrow> bool io" where
  "anyM f [] = pureM False"
| "anyM f (x # xs) = bindM (f x) (\<lambda>b. if b then pureM True else anyM f xs)"

fun allM :: "('a \<Rightarrow> bool io) \<Rightarrow> 'a list \<Rightarrow> bool io" where
  "allM f [] = pureM True"
| "allM f (x # xs) = bindM (f x) (\<lambda>b. if b then allM f xs else pureM False)"

subsection \<open>Builtins over values that may be objects\<close>

text \<open>\<open>type(v).__name__\<close>: the name of a class of pyVmomi is its full name.\<close>

definition class_name :: "pyval \<Rightarrow> string" where
  "class_name v = (case class_of v of Some c \<Rightarrow> c | None \<Rightarrow> type_name v)"

text \<open>\<open>c.__name__\<close> of a class, which stands for its name, and \<open>getattr(c, "__name__", None)\<close>.\<close>

definition name_of_class :: "pyval \<Rightarrow> pyval res" where
  "name_of_class c = (case c of PStr _ \<Rightarrow> Ok c | _ \<Rightarrow> Exc (attr_error c ''__name__''))"

definition name_of_class_or_none :: "pyval \<Rightarrow> pyval" where
  "name_of_class_or_none c = (case c of PStr _ \<Rightarrow> c | _ \<Rightarrow> PNone)"

definition is_int :: "pyval \<Rightarrow> bool" where
  "is_int v = (case v of PInt _ \<Rightarrow> True | PBool _ \<Rightarrow> True | _ \<Rightarrow> False)"

definition is_bool :: "pyval \<Rightarrow> bool" where
  "is_bool v = (case v of PBool _ \<Rightarrow> True | _ \<Rightarrow> False)"

text \<open>The exceptions of the socket layer: \<open>OSError\<close>, \<open>ConnectionError\<close>, \<open>ssl.SSLError\<close>, \<open>http.client.HTTPException\<close>.\<close>

fun is_ConnError :: "exn \<Rightarrow> bool" where
  "is_ConnError (ConnError _) = True"
| "is_ConnError _ = False"

text \<open>A key of a dict that the code builds; every key of the code is a text.\<close>

definition str_key :: "pyval \<Rightarrow> string res" where
  "str_key v = (case v of PStr s \<Rightarrow> Ok s | _ \<Rightarrow> Exc (TypeError (''not a text: '' @ py_repr v)))"

text \<open>\<open>d.get(k, dflt)\<close>, \<open>d[k]\<close> and \<open>d[k] = x\<close> for a key that is computed.\<close>

definition py_lookup :: "pyval \<Rightarrow> pyval \<Rightarrow> pyval \<Rightarrow> pyval res" where
  "py_lookup v k dflt =
     (case v of
        PDict d \<Rightarrow> bindR (hashed k) (\<lambda>k. Ok (case k of PStr s \<Rightarrow> dget d s dflt | _ \<Rightarrow> dflt))
      | _ \<Rightarrow> Exc (attr_error v ''get''))"

definition py_key :: "pyval \<Rightarrow> pyval \<Rightarrow> pyval res" where
  "py_key v k =
     (case (v, k) of
        (_, PStr s) \<Rightarrow> py_item v s
      | (PDict d, _) \<Rightarrow> bindR (hashed k) (\<lambda>k. Exc (KeyError (py_str k)))
      | _ \<Rightarrow> Exc (TypeError (repr_str (type_name v) @ '' object is not subscriptable'')))"

definition py_setitem :: "pyval \<Rightarrow> string \<Rightarrow> pyval \<Rightarrow> pyval res" where
  "py_setitem v k x =
     (case v of
        PDict d \<Rightarrow> Ok (PDict (dset d k x))
      | _ \<Rightarrow> Exc (TypeError (repr_str (type_name v) @ '' object does not support item assignment'')))"

text \<open>\<open>a < b\<close>, \<open>a > b\<close>, \<open>a + b\<close> and \<open>a // b\<close>.\<close>

definition py_lt :: "pyval \<Rightarrow> pyval \<Rightarrow> bool res" where
  "py_lt = py_order ''<'' (<) (<)"

definition py_gt :: "pyval \<Rightarrow> pyval \<Rightarrow> bool res" where
  "py_gt = py_order ''>'' (>) (>)"

definition operand_error :: "string \<Rightarrow> pyval \<Rightarrow> pyval \<Rightarrow> exn" where
  "operand_error op_sym a b =
     TypeError (''unsupported operand type(s) for '' @ op_sym @ '': '' @ repr_str (type_name a) @ '' and '' @ repr_str (type_name b))"

definition py_plus :: "pyval \<Rightarrow> pyval \<Rightarrow> pyval res" where
  "py_plus a b =
     (case (py_num a, py_num b) of
        (Some i, Some j) \<Rightarrow> Ok (PInt (i + j))
      | _ \<Rightarrow>
          (case (a, b) of
             (PStr s, PStr t) \<Rightarrow> Ok (PStr (s @ t))
           | (PList xs, PList ys) \<Rightarrow> Ok (PList (xs @ ys))
           | _ \<Rightarrow> Exc (operand_error ''+'' a b)))"

definition py_floordiv :: "pyval \<Rightarrow> int \<Rightarrow> pyval res" where
  "py_floordiv a n = (case py_num a of Some i \<Rightarrow> Ok (PInt (i div n)) | None \<Rightarrow> Exc (operand_error ''//'' a (PInt n)))"

definition py_mult :: "pyval \<Rightarrow> pyval \<Rightarrow> pyval res" where
  "py_mult a b =
     (case (py_num a, py_num b) of
        (Some i, Some j) \<Rightarrow> Ok (PInt (i * j))
      | (None, Some j) \<Rightarrow>
          (case a of
             PStr s \<Rightarrow> Ok (PStr (concat (replicate (nat j) s)))
           | PList xs \<Rightarrow> Ok (PList (concat (replicate (nat j) xs)))
           | _ \<Rightarrow> Exc (operand_error ''*'' a b))
      | (Some i, None) \<Rightarrow>
          (case b of
             PStr s \<Rightarrow> Ok (PStr (concat (replicate (nat i) s)))
           | PList xs \<Rightarrow> Ok (PList (concat (replicate (nat i) xs)))
           | _ \<Rightarrow> Exc (operand_error ''*'' a b))
      | _ \<Rightarrow> Exc (operand_error ''*'' a b))"

text \<open>\<open>a * n\<close> for a positive constant: a text or a list is repeated.\<close>

definition py_times :: "pyval \<Rightarrow> nat \<Rightarrow> pyval res" where
  "py_times a n =
     (case a of
        PStr s \<Rightarrow> Ok (PStr (concat (replicate n s)))
      | PList xs \<Rightarrow> Ok (PList (concat (replicate n xs)))
      | _ \<Rightarrow>
          (case py_num a of
             Some i \<Rightarrow> Ok (PInt (i * int n))
           | None \<Rightarrow> Exc (operand_error ''*'' a (PInt (int n)))))"

text \<open>Methods of strings, \<open>v[-1]\<close>, \<open>set(...)\<close> (in the order of the first occurrences) and \<open>next(...)\<close>.\<close>

definition py_split :: "pyval \<Rightarrow> char \<Rightarrow> pyval list res" where
  "py_split v c =
     (case v of PStr s \<Rightarrow> Ok (map PStr (split_max c (length s) s)) | _ \<Rightarrow> Exc (attr_error v ''split''))"

definition py_split_at :: "pyval \<Rightarrow> char \<Rightarrow> nat \<Rightarrow> pyval list res" where
  "py_split_at v c n = (case v of PStr s \<Rightarrow> Ok (map PStr (split_max c n s)) | _ \<Rightarrow> Exc (attr_error v ''split''))"

definition py_lstrip :: "pyval \<Rightarrow> string \<Rightarrow> string res" where
  "py_lstrip v cs = (case v of PStr s \<Rightarrow> Ok (dropWhile (\<lambda>c. c \<in> set cs) s) | _ \<Rightarrow> Exc (attr_error v ''lstrip''))"

definition py_startswith :: "pyval \<Rightarrow> string \<Rightarrow> bool res" where
  "py_startswith v p = (case v of PStr s \<Rightarrow> Ok (take (length p) s = p) | _ \<Rightarrow> Exc (attr_error v ''startswith''))"

definition py_final :: "pyval list \<Rightarrow> pyval res" where
  "py_final xs = (case rev xs of x # _ \<Rightarrow> Ok x | [] \<Rightarrow> Exc (LookupError ''list index out of range''))"

fun distinct_values :: "pyval list \<Rightarrow> pyval list" where
  "distinct_values [] = []"
| "distinct_values (x # xs) = x # filter (\<lambda>y. \<not> py_eq x y) (distinct_values xs)"

definition py_set :: "pyval list \<Rightarrow> pyval list res" where
  "py_set xs = bindR (mapR hashed xs) (\<lambda>xs. Ok (distinct_values xs))"

definition py_diff :: "pyval list \<Rightarrow> pyval list \<Rightarrow> pyval list" where
  "py_diff xs ys = filter (\<lambda>x. \<not> list_ex (py_eq x) ys) xs"

text \<open>\<open>xs & ys\<close>.\<close>

definition py_meet :: "pyval list \<Rightarrow> pyval list \<Rightarrow> pyval list" where
  "py_meet xs ys = filter (\<lambda>x. list_ex (py_eq x) ys) xs"

text \<open>\<open>v.items()\<close> or \<open>v.values()\<close>, and \<open>**v\<close>.\<close>

definition py_mapping :: "pyval \<Rightarrow> string \<Rightarrow> dict res" where
  "py_mapping v a = (case v of PDict d \<Rightarrow> Ok d | _ \<Rightarrow> Exc (attr_error v a))"

definition py_spread :: "pyval \<Rightarrow> dict res" where
  "py_spread v =
     (case v of
        PDict d \<Rightarrow> Ok d
      | _ \<Rightarrow> Exc (TypeError (repr_str (type_name v) @ '' object is not a mapping'')))"

text \<open>\<open>a, b = v\<close>.\<close>

definition py_pair :: "pyval \<Rightarrow> (pyval \<times> pyval) res" where
  "py_pair v =
     bindR (py_iter v) (\<lambda>xs.
     case xs of
       [a, b] \<Rightarrow> Ok (a, b)
     | a # b # c # _ \<Rightarrow> Exc (ValueError ''too many values to unpack (expected 2)'')
     | _ \<Rightarrow> Exc (ValueError (''not enough values to unpack (expected 2, got '' @ int_str (int (length xs)) @ '')'')))"

definition py_next :: "pyval option \<Rightarrow> pyval res" where
  "py_next r = (case r of Some x \<Rightarrow> Ok x | None \<Rightarrow> Exc StopIteration)"

definition the_default :: "pyval \<Rightarrow> pyval option \<Rightarrow> pyval" where
  "the_default d r = (case r of Some x \<Rightarrow> x | None \<Rightarrow> d)"

text \<open>\<open>str(t)\<close> of a tuple.\<close>

definition tuple_str :: "pyval list \<Rightarrow> string" where
  "tuple_str xs = ''('' @ join_with '', '' (map py_repr xs) @ (if length xs = 1 then '','' else []) @ '')''"

subsection \<open>Rules\<close>

lemma finallyM_Some_iff:
  "finallyM m f w = Some (r, w') \<longleftrightarrow>
     (\<exists>r1 w1. m w = Some (r1, w1) \<and>
        ((\<exists>u. f w1 = Some (Ok u, w') \<and> r = r1) \<or> (\<exists>e. f w1 = Some (Exc e, w') \<and> r = Exc e)))"
  by (auto simp: finallyM_def split: option.splits prod.splits res.splits)

lemma returns_finallyM [spec_intros]:
  assumes "returns m" "returns f" shows "returns (finallyM m f)"
  unfolding returns_def
proof
  fix w
  obtain r1 w1 where m: "m w = Some (r1, w1)" using returnsD [OF assms(1)] by blast
  obtain r2 w2 where "f w1 = Some (r2, w2)" using returnsD [OF assms(2)] by blast
  with m show "finallyM m f w \<noteq> None" by (cases r2) (auto simp: finallyM_def)
qed

lemma returns_loops [spec_intros]:
  "(\<And>x. returns (f x)) \<Longrightarrow> returns (mapM f xs)" "(\<And>x. returns (g x)) \<Longrightarrow> returns (collect g xs)"
  "(\<And>x s. returns (h x s)) \<Longrightarrow> returns (foldM h xs s)" "(\<And>x. returns (k x)) \<Longrightarrow> returns (first_of k xs)"
  "(\<And>x s. returns (l x s)) \<Longrightarrow> returns (for_each l xs s)"
  "(\<And>x. returns (i x)) \<Longrightarrow> returns (iterM i xs)"
  "(\<And>x. returns (c x)) \<Longrightarrow> returns (anyM c xs)" "(\<And>x. returns (c x)) \<Longrightarrow> returns (allM c xs)"
  by (induction xs arbitrary: s) (auto intro!: spec_intros split: option.split sum.split)

lemma returns_or_else [spec_intros]: "returns m \<Longrightarrow> returns k \<Longrightarrow> returns (or_else m k)"
  by (auto simp: or_else_def intro!: spec_intros)

context step_relation begin

lemma keeps_finallyM [spec_intros]: "keeps R m \<Longrightarrow> keeps R f \<Longrightarrow> keeps R (finallyM m f)"
  unfolding keeps_def finallyM_Some_iff by (blast intro: trans_step)

lemma keeps_loops [spec_intros]:
  "(\<And>x. keeps R (f x)) \<Longrightarrow> keeps R (mapM f xs)" "(\<And>x. keeps R (g x)) \<Longrightarrow> keeps R (collect g xs)"
  "(\<And>x s. keeps R (h x s)) \<Longrightarrow> keeps R (foldM h xs s)" "(\<And>x. keeps R (k x)) \<Longrightarrow> keeps R (first_of k xs)"
  "(\<And>x s. keeps R (l x s)) \<Longrightarrow> keeps R (for_each l xs s)"
  "(\<And>x. keeps R (i x)) \<Longrightarrow> keeps R (iterM i xs)"
  "(\<And>x. keeps R (c x)) \<Longrightarrow> keeps R (anyM c xs)" "(\<And>x. keeps R (c x)) \<Longrightarrow> keeps R (allM c xs)"
  by (induction xs arbitrary: s) (auto intro!: keeps_quiet keeps_bindM keeps_cases split: option.split sum.split)

lemma keeps_or_else [spec_intros]: "keeps R m \<Longrightarrow> keeps R k \<Longrightarrow> keeps R (or_else m k)"
  by (auto simp: or_else_def intro!: keeps_quiet keeps_bindM keeps_cases)

end

lemma mapM_pure [simp]: "mapM (\<lambda>x. pureM (f x)) xs = pureM (map f xs)"
  by (induction xs) (auto simp: bindM_def pureM_def)

text \<open>A search returns what the body gives for the first element that has an answer.\<close>

lemma first_of_Ok:
  assumes "first_of f xs w = Some (Ok (Some y), w')"
  shows "\<exists>x \<in> set xs. \<exists>w1. f x w1 = Some (Ok (Some y), w')"
  using assms by (induction xs arbitrary: w) (fastforce simp: bindM_Ok_iff split: option.splits)+

end
