(* ===== verification/Vim.thy ===== *)
theory Vim
  imports Vmodl Vcenter
begin

section \<open>Vim: \<open>utils/vim.py\<close>, \<open>utils/esxi.py\<close>, \<open>utils/vsan.py\<close> and \<open>utils/pbm.py\<close>\<close>

text \<open>
  The SOAP connections to a vCenter and to a standalone ESX host: configuration, the cached \<open>ServiceInstance\<close> per
  target, the lookup of a host, and \<open>wait_for_task\<close>. The module-level caches are \<open>Vim_Cache\<close>, \<open>Esxi_Cache\<close>, \<open>Vsan_Cache\<close> and \<open>Pbm_Cache\<close> of
  the world; the handler that disconnects at the end of the process is left out.
\<close>

subsection \<open>Targets\<close>

text \<open>\<open>host.rpartition(":")\<close> of a text with a colon: what is before the last one, and what is after.\<close>

definition before_last_colon :: "string \<Rightarrow> string" where
  "before_last_colon s = rev (drop 1 (dropWhile (\<lambda>c. c \<noteq> CHR '':'') (rev s)))"

definition after_last_colon :: "string \<Rightarrow> string" where
  "after_last_colon s = rev (takeWhile (\<lambda>c. c \<noteq> CHR '':'') (rev s))"

text \<open>The host and the port of \<open>cfg["host"]\<close>. (\<open>cfg.get("port")\<close> is \<open>None\<close>: no configuration carries a port.)\<close>

definition target_of :: "pyval \<Rightarrow> (pyval \<times> int option) res" where
  "target_of host =
     bindR (py_in (PStr '':'') host) (\<lambda>has_port.
     case (has_port, host) of
       (True, PStr s) \<Rightarrow>
         bindR (py_int (PStr (after_last_colon s))) (\<lambda>port. Ok (PStr (before_last_colon s), Some port))
     | (True, _) \<Rightarrow> Exc (attr_error host ''rpartition'')
     | _ \<Rightarrow> Ok (host, None))"

definition vim_connection_target :: "('a conn_config_scheme) \<Rightarrow> (pyval \<times> int option \<times> pyval) res" where
  "vim_connection_target cfg =
     bindR (target_of (cfg_host cfg)) (\<lambda>(host, port). Ok (host, port, cfg_username cfg))"

text \<open>\<open>f"{host}:{port or 443}:{username}"\<close>.\<close>

definition target_key :: "pyval \<Rightarrow> int option \<Rightarrow> pyval \<Rightarrow> string" where
  "target_key host port username =
     py_str host @ '':'' @ (case port of Some p \<Rightarrow> if p \<noteq> 0 then int_str p else ''443'' | None \<Rightarrow> ''443'') @ '':'' @
       py_str username"

definition unverified_context :: pyval where
  "unverified_context = py_object ''ssl.SSLContext'' []"

definition vim_proxy_for_host :: "vmodl \<Rightarrow> pyval \<Rightarrow> pyval \<times> pyval" where
  "vim_proxy_for_host api host =
     (if vm_bypass api host then (PNone, PNone)
      else if \<not> truthy (vm_https_proxy api) then (PNone, PNone)
      else vm_split_url api (vm_https_proxy api))"

text \<open>The arguments of \<open>SmartConnect\<close>.\<close>

definition smart_kwargs :: "('a conn_config_scheme) \<Rightarrow> pyval \<Rightarrow> int option \<Rightarrow> dict" where
  "smart_kwargs cfg host port =
     [(''host'', host), (''user'', cfg_username cfg), (''pwd'', cfg_password cfg),
      (''sslContext'', if truthy (cfg_verify_ssl cfg) then PNone else unverified_context)] @
     (case port of Some p \<Rightarrow> [(''port'', PInt p)] | None \<Rightarrow> [])"

text \<open>The connection under a key: the cached one, or a new one that is then cached.\<close>

definition cached_instance :: "cache_id \<Rightarrow> string \<Rightarrow> pyval io \<Rightarrow> pyval io" where
  "cached_instance cid key connect =
     bindM (cache_lookup cid key) (\<lambda>hit.
     case hit of
       Some c \<Rightarrow> pureM (token_of c)
     | None \<Rightarrow> bindM connect (\<lambda>si. bindM (cache_store cid key (CToken si)) (\<lambda>_. pureM si)))"

text \<open>\<open>_safe_disconnect\<close>: every exception is swallowed.\<close>

definition vim_safe_disconnect :: "vmodl \<Rightarrow> pyval \<Rightarrow> unit io" where
  "vim_safe_disconnect api si = tryM (vm_disconnect api si) (\<lambda>_. pureM ())"

definition drop_instance :: "vmodl \<Rightarrow> cache_id \<Rightarrow> string \<Rightarrow> unit io" where
  "drop_instance api cid key =
     bindM (cache_lookup cid key) (\<lambda>hit.
     bindM (cache_pop cid key) (\<lambda>_.
     case hit of Some c \<Rightarrow> if token_of c \<noteq> PNone then vim_safe_disconnect api (token_of c) else pureM () | None \<Rightarrow> pureM ()))"

text \<open>\<open>_SI_CACHE.clear()\<close>.\<close>

definition clear_cache :: "cache_id \<Rightarrow> unit io" where
  "clear_cache c = (\<lambda>w. Some (Ok (), w\<lparr>caches := (caches w)(c := (\<lambda>_. None))\<rparr>))"

subsection \<open>\<open>utils/esxi.py\<close>\<close>

definition esxi_get_config :: "pyval \<Rightarrow> profile \<Rightarrow> conn_config res" where
  "esxi_get_config opts profile = bindR (product_section ''esxi'' opts profile) base_config"

definition esxi_key :: "pyval \<Rightarrow> int option \<Rightarrow> pyval \<Rightarrow> string" where
  "esxi_key host port username = ''soap:'' @ target_key host port username"

definition esxi_get_service_instance :: "vmodl \<Rightarrow> pyval \<Rightarrow> profile \<Rightarrow> pyval io" where
  "esxi_get_service_instance api opts profile =
     bindM (liftR (esxi_get_config opts profile)) (\<lambda>cfg.
     bindM (liftR (target_of (cfg_host cfg))) (\<lambda>(host, port).
     cached_instance Esxi_Cache (esxi_key host port (cfg_username cfg)) (vm_connect api (smart_kwargs cfg host port))))"

definition esxi_invalidate_service_instance :: "vmodl \<Rightarrow> pyval \<Rightarrow> profile \<Rightarrow> unit io" where
  "esxi_invalidate_service_instance api opts profile =
     bindM (liftR (esxi_get_config opts profile)) (\<lambda>cfg.
     bindM (liftR (target_of (cfg_host cfg))) (\<lambda>(host, port).
     drop_instance api Esxi_Cache (esxi_key host port (cfg_username cfg))))"

definition esxi_get_ssh_config :: "pyval \<Rightarrow> profile \<Rightarrow> pyval res" where
  "esxi_get_ssh_config opts profile =
     bindR (product_section ''esxi'' opts profile) (\<lambda>cfg.
     bindR (py_get cfg ''ssh'' empty_dict) (\<lambda>block.
     let ssh = py_or block empty_dict in
     bindR (py_get ssh ''host'' PNone) (\<lambda>ssh_host.
     bindR (get_or cfg ''host'' ''hostname'') (\<lambda>cfg_host.
     bindR (get_or ssh ''username'' ''user'') (\<lambda>ssh_user.
     bindR (py_get cfg ''username'' PNone) (\<lambda>cfg_user.
     bindR (py_get ssh ''password'' PNone) (\<lambda>ssh_pw.
     bindR (py_get cfg ''password'' PNone) (\<lambda>cfg_pw.
     bindR (py_get ssh ''port'' (PInt 22)) (\<lambda>port.
     Ok (PDict [(''host'', py_or ssh_host cfg_host), (''username'', py_or ssh_user (py_or cfg_user (PStr ''root''))),
       (''password'', py_or ssh_pw cfg_pw), (''port'', port)]))))))))))"

text \<open>\<open>CreateContainerView(rootFolder, [cls], True)\<close> of the content of a connection; it is destroyed whatever happens.\<close>

definition container_view :: "vmodl \<Rightarrow> pyval \<Rightarrow> string \<Rightarrow> pyval io" where
  "container_view api content cls =
     bindM (vget api content ''viewManager'') (\<lambda>view_manager.
     bindM (vget api content ''rootFolder'') (\<lambda>root.
     vcall api view_manager ''CreateContainerView'' [root, PList [PStr cls], PBool True] []))"

definition viewed :: "vmodl \<Rightarrow> pyval \<Rightarrow> string \<Rightarrow> (pyval \<Rightarrow> 'a io) \<Rightarrow> 'a io" where
  "viewed api content cls body =
     bindM (container_view api content cls) (\<lambda>container.
     finallyM (body container) (vcall api container ''Destroy'' [] []))"

definition esxi_get_host_system :: "vmodl \<Rightarrow> pyval \<Rightarrow> profile \<Rightarrow> pyval io" where
  "esxi_get_host_system api opts profile =
     bindM (esxi_get_service_instance api opts profile) (\<lambda>si.
     bindM (vcall api si ''RetrieveContent'' [] []) (\<lambda>content.
     viewed api content ''vim.HostSystem'' (\<lambda>container.
       bindM (vget api container ''view'') (\<lambda>view.
       bindM (liftR (py_iter view)) (\<lambda>hosts.
       case hosts of
         [] \<Rightarrow> raiseM (LookupError ''no HostSystem found on this ESXi endpoint'')
       | h # _ \<Rightarrow> pureM h)))))"

subsection \<open>\<open>utils/vim.py\<close>\<close>

definition vim_get_service_instance :: "vmodl \<Rightarrow> pyval \<Rightarrow> profile \<Rightarrow> pyval io" where
  "vim_get_service_instance api opts profile =
     bindM (liftR (vcenter_get_config opts profile)) (\<lambda>cfg.
     if \<not> truthy (cfg_host cfg) then esxi_get_service_instance api opts profile
     else
       bindM (liftR (vim_connection_target cfg)) (\<lambda>(host, port, username).
       let (proxy_host, proxy_port) = vim_proxy_for_host api host in
       cached_instance Vim_Cache (target_key host port username)
         (vm_connect api (smart_kwargs cfg host port @
            (if truthy proxy_host then [(''httpProxyHost'', proxy_host), (''httpProxyPort'', proxy_port)] else [])))))"

definition vim_invalidate_service_instance :: "vmodl \<Rightarrow> pyval \<Rightarrow> profile \<Rightarrow> unit io" where
  "vim_invalidate_service_instance api opts profile =
     bindM (liftR (vcenter_get_config opts profile)) (\<lambda>cfg.
     bindM (liftR (vim_connection_target cfg)) (\<lambda>(host, port, username).
     drop_instance api Vim_Cache (target_key host port username)))"

definition vim_content :: "vmodl \<Rightarrow> pyval \<Rightarrow> profile \<Rightarrow> pyval io" where
  "vim_content api opts profile =
     bindM (vim_get_service_instance api opts profile) (\<lambda>si. vcall api si ''RetrieveContent'' [] [])"

definition vim_is_standalone_esxi :: "pyval \<Rightarrow> profile \<Rightarrow> bool res" where
  "vim_is_standalone_esxi opts profile =
     bindR (vcenter_get_config opts profile) (\<lambda>vc.
     bindR (esxi_get_config opts profile) (\<lambda>esxi.
     Ok (truthy (cfg_host esxi) \<and> \<not> truthy (cfg_host vc))))"

text \<open>The three rules by which a host is found.\<close>

definition host_named :: "vmodl \<Rightarrow> pyval \<Rightarrow> pyval \<Rightarrow> pyval option io" where
  "host_named api name_or_id h =
     bindM (vget api h ''_moId'') (\<lambda>moid.
     bindM (vget api h ''name'') (\<lambda>name.
     pureM (if list_ex (py_eq name_or_id) [moid, name] then Some h else None)))"

text \<open>\<open>(h.config.network.vnic if h.config and h.config.network else []) or []\<close>.\<close>

definition host_vnics :: "vmodl \<Rightarrow> pyval \<Rightarrow> pyval io" where
  "host_vnics api h =
     bindM (vget api h ''config'') (\<lambda>config.
     if truthy config then
       bindM (vpath api h [''config'', ''network'']) (\<lambda>network.
       if truthy network then
         bindM (vpath api h [''config'', ''network'', ''vnic'']) (\<lambda>vnic. pureM (py_or vnic (PList [])))
       else pureM (PList []))
     else pureM (PList []))"

definition vnic_has :: "vmodl \<Rightarrow> pyval \<Rightarrow> pyval \<Rightarrow> bool io" where
  "vnic_has api name_or_id vnic =
     bindM (vget api vnic ''spec'') (\<lambda>spec.
     bindM (vget_or api spec ''ip'' PNone) (\<lambda>ip.
     bindM (vget_or api ip ''ipAddress'' PNone) (\<lambda>address.
     pureM (truthy address \<and> py_eq address name_or_id))))"

definition host_with_address :: "vmodl \<Rightarrow> pyval \<Rightarrow> pyval \<Rightarrow> pyval option io" where
  "host_with_address api name_or_id h =
     attempt is_AttributeError (host_vnics api h)
       (\<lambda>vnics.
          bindM (liftR (py_iter vnics)) (\<lambda>vs.
          bindM (anyM (vnic_has api name_or_id) vs) (\<lambda>found.
          pureM (if found then Some h else None))))
       (\<lambda>_. pureM None)"

definition pick_host :: "vmodl \<Rightarrow> pyval \<Rightarrow> profile \<Rightarrow> pyval \<Rightarrow> pyval list \<Rightarrow> pyval option io" where
  "pick_host api opts profile name_or_id hosts =
     bindM (first_of (host_named api name_or_id) hosts) (\<lambda>r.
     case r of
       Some h \<Rightarrow> pureM (Some h)
     | None \<Rightarrow>
         bindM (first_of (host_with_address api name_or_id) hosts) (\<lambda>r.
         case r of
           Some h \<Rightarrow> pureM (Some h)
         | None \<Rightarrow>
             bindM (liftR (vim_is_standalone_esxi opts profile)) (\<lambda>standalone.
             pureM (case (standalone, hosts) of (True, [h]) \<Rightarrow> Some h | _ \<Rightarrow> None))))"

definition vim_resolve_host_system :: "vmodl \<Rightarrow> pyval \<Rightarrow> pyval \<Rightarrow> profile \<Rightarrow> pyval io" where
  "vim_resolve_host_system api opts name_or_id profile =
     bindM (liftR (vim_is_standalone_esxi opts profile)) (\<lambda>standalone.
     bindM
       (if standalone then
          bindM (esxi_get_service_instance api opts profile) (\<lambda>si. vcall api si ''RetrieveContent'' [] [])
        else vim_content api opts profile) (\<lambda>content.
     or_else
       (viewed api content ''vim.HostSystem'' (\<lambda>container.
          bindM (vget api container ''view'') (\<lambda>view.
          bindM (liftR (py_iter view)) (pick_host api opts profile name_or_id))))
       (raiseM (LookupError (''host '' @ py_repr name_or_id @ '' not found'')))))"

definition vim_alarm_manager :: "vmodl \<Rightarrow> pyval \<Rightarrow> profile \<Rightarrow> pyval io" where
  "vim_alarm_manager api opts profile = bindM (vim_content api opts profile) (\<lambda>c. vget api c ''alarmManager'')"

definition vim_perf_manager :: "vmodl \<Rightarrow> pyval \<Rightarrow> profile \<Rightarrow> pyval io" where
  "vim_perf_manager api opts profile = bindM (vim_content api opts profile) (\<lambda>c. vget api c ''perfManager'')"

definition vim_extension_manager :: "vmodl \<Rightarrow> pyval \<Rightarrow> profile \<Rightarrow> pyval io" where
  "vim_extension_manager api opts profile = bindM (vim_content api opts profile) (\<lambda>c. vget api c ''extensionManager'')"

definition vim_license_manager :: "vmodl \<Rightarrow> pyval \<Rightarrow> profile \<Rightarrow> pyval io" where
  "vim_license_manager api opts profile = bindM (vim_content api opts profile) (\<lambda>c. vget api c ''licenseManager'')"

definition vim_license_assignment_manager :: "vmodl \<Rightarrow> pyval \<Rightarrow> profile \<Rightarrow> pyval io" where
  "vim_license_assignment_manager api opts profile =
     bindM (vim_license_manager api opts profile) (\<lambda>m. vget api m ''licenseAssignmentManager'')"

definition vim_custom_fields_manager :: "vmodl \<Rightarrow> pyval \<Rightarrow> profile \<Rightarrow> pyval io" where
  "vim_custom_fields_manager api opts profile =
     bindM (vim_content api opts profile) (\<lambda>c. vget api c ''customFieldsManager'')"

definition vim_property_collector :: "vmodl \<Rightarrow> pyval \<Rightarrow> profile \<Rightarrow> pyval io" where
  "vim_property_collector api opts profile = bindM (vim_content api opts profile) (\<lambda>c. vget api c ''propertyCollector'')"

definition vim_view_manager :: "vmodl \<Rightarrow> pyval \<Rightarrow> profile \<Rightarrow> pyval io" where
  "vim_view_manager api opts profile = bindM (vim_content api opts profile) (\<lambda>c. vget api c ''viewManager'')"

definition vim_root_folder :: "vmodl \<Rightarrow> pyval \<Rightarrow> profile \<Rightarrow> pyval io" where
  "vim_root_folder api opts profile = bindM (vim_content api opts profile) (\<lambda>c. vget api c ''rootFolder'')"

definition vim_authorization_manager :: "vmodl \<Rightarrow> pyval \<Rightarrow> profile \<Rightarrow> pyval io" where
  "vim_authorization_manager api opts profile =
     bindM (vim_content api opts profile) (\<lambda>c. vget api c ''authorizationManager'')"

text \<open>
  \<open>wait_for_task\<close>: a round looks at \<open>task.info.state\<close>; the timeout is in seconds, the interval in milliseconds.
\<close>

definition task_round :: "vmodl \<Rightarrow> pyval \<Rightarrow> int \<Rightarrow> int \<Rightarrow> int \<Rightarrow> unit \<Rightarrow> (unit + unit) io" where
  "task_round api task timeout interval deadline u =
     bindM (vpath api task [''info'', ''state'']) (\<lambda>state.
     if \<not> in_strs state [''running'', ''queued''] then pureM (Inl ())
     else
       bindM monotonic (\<lambda>now.
       if now > deadline then
         bindM (vget api task ''_moId'') (\<lambda>moid.
         raiseM (TimeoutError (''task '' @ py_repr moid @ '' did not finish within '' @ int_str timeout @ ''s'')))
       else bindM (sleep interval) (\<lambda>_. pureM (Inr ()))))"

definition task_outcome :: "vmodl \<Rightarrow> pyval \<Rightarrow> pyval io" where
  "task_outcome api task =
     bindM (vpath api task [''info'', ''state'']) (\<lambda>state.
     if py_eq state (PStr ''error'') then
       bindM (vpath api task [''info'', ''error'']) (\<lambda>error.
       bindM (if truthy error then vpath api task [''info'', ''error'', ''msg''] else pureM (PStr ''task failed'')) (\<lambda>msg.
       bindM (vget api task ''_moId'') (\<lambda>moid.
       raiseM (RuntimeError (''task '' @ py_repr moid @ '' failed: '' @ py_str msg)))))
     else vpath api task [''info'', ''result''])"

definition vim_wait_for_task :: "vmodl \<Rightarrow> pyval \<Rightarrow> int \<Rightarrow> int \<Rightarrow> pyval io" where
  "vim_wait_for_task api task timeout poll_interval =
     bindM monotonic (\<lambda>now.
     bindM (loopM (task_round api task timeout poll_interval (now + secs timeout)) ()) (\<lambda>_.
     task_outcome api task))"

text \<open>\<open>raw_cookie.split(";", 1)[0].partition("=")\<close>, the blanks and the quotes around the value removed.\<close>

definition cookie_pair :: "string \<Rightarrow> string" where
  "cookie_pair raw =
     (let pair = takeWhile (\<lambda>c. c \<noteq> CHR '';'') raw;
          name = takeWhile (\<lambda>c. c \<noteq> CHR ''='') pair;
          quoted = strip (drop (Suc (length name)) pair);
          quote = (\<lambda>c. c = CHR 0x22)
      in name @ ''='' @ rev (dropWhile quote (rev (dropWhile quote quoted))))"

definition vim_session_cookie :: "vmodl \<Rightarrow> pyval \<Rightarrow> profile \<Rightarrow> pyval io" where
  "vim_session_cookie api opts profile =
     bindM (vim_get_service_instance api opts profile) (\<lambda>si.
     bindM (vpath api si [''_stub'', ''cookie'']) (\<lambda>raw.
     case raw of PStr s \<Rightarrow> pureM (PStr (cookie_pair s)) | v \<Rightarrow> raiseM (attr_error v ''split'')))"

subsection \<open>\<open>utils/vsan.py\<close>\<close>

text \<open>
  The stub of the vSAN service of a vCenter carries the session cookie that the connection has when the stub is made;
  it is cached per host and user name.
\<close>

definition vsan_key :: "('a conn_config_scheme) \<Rightarrow> string" where
  "vsan_key cfg = py_str (cfg_host cfg) @ '':'' @ py_str (cfg_username cfg)"

definition vsan_stub_kwargs :: "vmodl \<Rightarrow> ('a conn_config_scheme) \<Rightarrow> dict" where
  "vsan_stub_kwargs api cfg =
     (let (proxy_host, proxy_port) = vim_proxy_for_host api (cfg_host cfg) in
      [(''host'', cfg_host cfg), (''version'', PStr ''vim.version.version10''), (''path'', PStr ''/vsanHealth''),
       (''sslContext'', if truthy (cfg_verify_ssl cfg) then PNone else unverified_context)] @
      (if truthy proxy_host then [(''httpProxyHost'', proxy_host), (''httpProxyPort'', proxy_port)] else []))"

definition vsan_new_stub :: "vmodl \<Rightarrow> pyval \<Rightarrow> profile \<Rightarrow> ('a conn_config_scheme) \<Rightarrow> pyval io" where
  "vsan_new_stub api opts profile cfg =
     bindM (vim_get_service_instance api opts profile) (\<lambda>si.
     bindM (vnew api ''SoapStubAdapter'' (vsan_stub_kwargs api cfg)) (\<lambda>stub.
     bindM (vpath api si [''_stub'', ''cookie'']) (\<lambda>cookie.
     vset api stub ''cookie'' cookie)))"

definition vsan_get_stub :: "vmodl \<Rightarrow> pyval \<Rightarrow> profile \<Rightarrow> pyval io" where
  "vsan_get_stub api opts profile =
     bindM (liftR (vcenter_get_config opts profile)) (\<lambda>cfg.
     cached_instance Vsan_Cache (vsan_key cfg) (vsan_new_stub api opts profile cfg))"

definition vsan_invalidate_stub :: "pyval \<Rightarrow> profile \<Rightarrow> unit io" where
  "vsan_invalidate_stub opts profile =
     bindM (liftR (vcenter_get_config opts profile)) (\<lambda>cfg. cache_pop Vsan_Cache (vsan_key cfg))"

text \<open>The managed objects of the service have fixed identifiers.\<close>

definition vsan_system :: "vmodl \<Rightarrow> pyval \<Rightarrow> profile \<Rightarrow> string \<Rightarrow> string \<Rightarrow> pyval io" where
  "vsan_system api opts profile cls moid =
     bindM (vsan_get_stub api opts profile) (\<lambda>stub. vref api cls (PStr moid) stub)"

definition vsan_cluster_config_system :: "vmodl \<Rightarrow> pyval \<Rightarrow> profile \<Rightarrow> pyval io" where
  "vsan_cluster_config_system api opts profile =
     vsan_system api opts profile ''vim.cluster.VsanVcClusterConfigSystem'' ''vsan-cluster-config-system''"

definition vsan_cluster_health_system :: "vmodl \<Rightarrow> pyval \<Rightarrow> profile \<Rightarrow> pyval io" where
  "vsan_cluster_health_system api opts profile =
     vsan_system api opts profile ''vim.cluster.VsanVcClusterHealthSystem'' ''vsan-cluster-health-system''"

definition vsan_disk_management_system :: "vmodl \<Rightarrow> pyval \<Rightarrow> profile \<Rightarrow> pyval io" where
  "vsan_disk_management_system api opts profile =
     vsan_system api opts profile ''vim.cluster.VsanVcDiskManagementSystem'' ''vsan-disk-management-system''"

definition vsan_iscsi_target_system :: "vmodl \<Rightarrow> pyval \<Rightarrow> profile \<Rightarrow> pyval io" where
  "vsan_iscsi_target_system api opts profile =
     vsan_system api opts profile ''vim.cluster.VsanIscsiTargetSystem'' ''vsan-cluster-iscsi-target-system''"

definition vsan_stretched_cluster_system :: "vmodl \<Rightarrow> pyval \<Rightarrow> profile \<Rightarrow> pyval io" where
  "vsan_stretched_cluster_system api opts profile =
     vsan_system api opts profile ''vim.cluster.VsanVcStretchedClusterSystem'' ''vsan-stretched-cluster-system''"

definition vsan_object_system :: "vmodl \<Rightarrow> pyval \<Rightarrow> profile \<Rightarrow> pyval io" where
  "vsan_object_system api opts profile =
     vsan_system api opts profile ''vim.cluster.VsanObjectSystem'' ''vsan-cluster-object-system''"

definition vsan_file_service_system :: "vmodl \<Rightarrow> pyval \<Rightarrow> profile \<Rightarrow> pyval io" where
  "vsan_file_service_system api opts profile =
     vsan_system api opts profile ''vim.cluster.VsanVcFileServiceSystem'' ''vsan-cluster-file-service-system''"

definition cluster_named :: "vmodl \<Rightarrow> pyval \<Rightarrow> pyval \<Rightarrow> pyval option io" where
  "cluster_named api name_or_id entity =
     (if \<not> is_instance api entity ''vim.ClusterComputeResource'' then pureM None
      else
        bindM (vget api entity ''_moId'') (\<lambda>moid.
        bindM (vget api entity ''name'') (\<lambda>name.
        pureM (if list_ex (py_eq name_or_id) [moid, name] then Some entity else None))))"

definition vsan_find_cluster :: "vmodl \<Rightarrow> pyval \<Rightarrow> pyval \<Rightarrow> profile \<Rightarrow> pyval io" where
  "vsan_find_cluster api opts name_or_id profile =
     bindM (vim_content api opts profile) (\<lambda>content.
     bindM (vpath api content [''rootFolder'', ''childEntity'']) (\<lambda>children.
     bindM (liftR (py_iter children)) (\<lambda>dcs.
     or_else
       (first_of (\<lambda>dc.
          if \<not> is_instance api dc ''vim.Datacenter'' then pureM None
          else
            bindM (vpath api dc [''hostFolder'', ''childEntity'']) (\<lambda>entities.
            bindM (liftR (py_iter entities)) (first_of (cluster_named api name_or_id)))) dcs)
       (raiseM (LookupError (''cluster '' @ py_repr name_or_id @ '' not found''))))))"

subsection \<open>\<open>utils/pbm.py\<close>\<close>

text \<open>The stub of the storage policies. It carries the cookie too, and the identifier of the session goes into the context of all requests.\<close>

definition pbm_stub_kwargs :: "vmodl \<Rightarrow> ('a conn_config_scheme) \<Rightarrow> dict" where
  "pbm_stub_kwargs api cfg =
     (let (proxy_host, proxy_port) = vim_proxy_for_host api (cfg_host cfg) in
      [(''host'', cfg_host cfg), (''version'', vm_version api ''pbm''), (''path'', PStr ''/pbm/sdk''), (''poolSize'', PInt 0),
       (''sslContext'', if truthy (cfg_verify_ssl cfg) then PNone else unverified_context)] @
      (if truthy proxy_host then [(''httpProxyHost'', proxy_host), (''httpProxyPort'', proxy_port)] else []))"

text \<open>What is between the first two quotes, \<open>cookie.split(...)[1]\<close>, and where there is none.\<close>

definition pbm_session_id :: "pyval \<Rightarrow> string res" where
  "pbm_session_id cookie =
     (case cookie of
        PStr s \<Rightarrow>
          let rest = dropWhile (\<lambda>c. c \<noteq> CHR 0x22) s in
          if rest = [] then Exc (LookupError ''list index out of range'')
          else Ok (takeWhile (\<lambda>c. c \<noteq> CHR 0x22) (tl rest))
      | v \<Rightarrow> Exc (attr_error v ''split''))"

definition pbm_new_stub :: "vmodl \<Rightarrow> pyval \<Rightarrow> profile \<Rightarrow> ('a conn_config_scheme) \<Rightarrow> pyval io" where
  "pbm_new_stub api opts profile cfg =
     bindM (vim_get_service_instance api opts profile) (\<lambda>si.
     bindM (vnew api ''SoapStubAdapter'' (pbm_stub_kwargs api cfg)) (\<lambda>stub.
     bindM (vpath api si [''_stub'', ''cookie'']) (\<lambda>cookie.
     bindM (vset api stub ''cookie'' cookie) (\<lambda>stub.
     bindM (vpath api si [''_stub'', ''cookie'']) (\<lambda>cookie.
     bindM (liftR (pbm_session_id cookie)) (\<lambda>vc_session_id.
     bindM (vm_context api ''cookies'' (py_object ''http.cookies.SimpleCookie'' [(''vmware_soap_session'', PStr vc_session_id)])) (\<lambda>_.
     bindM (vm_context api ''vcSessionCookie'' (PStr vc_session_id)) (\<lambda>_.
     pureM stub))))))))"

definition pbm_get_stub :: "vmodl \<Rightarrow> pyval \<Rightarrow> profile \<Rightarrow> pyval io" where
  "pbm_get_stub api opts profile =
     bindM (liftR (vcenter_get_config opts profile)) (\<lambda>cfg.
     cached_instance Pbm_Cache (vsan_key cfg) (pbm_new_stub api opts profile cfg))"

definition pbm_invalidate_stub :: "pyval \<Rightarrow> profile \<Rightarrow> unit io" where
  "pbm_invalidate_stub opts profile =
     bindM (liftR (vcenter_get_config opts profile)) (\<lambda>cfg. cache_pop Pbm_Cache (vsan_key cfg))"

definition pbm_profile_manager :: "vmodl \<Rightarrow> pyval \<Rightarrow> profile \<Rightarrow> pyval io" where
  "pbm_profile_manager api opts profile =
     bindM (pbm_get_stub api opts profile) (\<lambda>stub.
     bindM (vref api ''pbm.ServiceInstance'' (PStr ''ServiceInstance'') stub) (\<lambda>si.
     bindM (vcall api si ''RetrieveContent'' [] []) (\<lambda>content.
     vget api content ''profileManager'')))"

subsection \<open>What reading leaves as it is\<close>

text \<open>
  \<open>held\<close> is something that the outside world holds: the inventory, the settings of the hosts, the number of open
  container views. \<open>observed\<close> says which parts of the interface do not change it: connecting, reading a property, the
  calls of reading methods, a view that is made and destroyed again, and, in the REST interface, logins and \<open>GET\<close>.
\<close>

definition leaves :: "(world \<Rightarrow> 'v) \<Rightarrow> world \<Rightarrow> world \<Rightarrow> bool" where
  "leaves held w w' \<longleftrightarrow> held w' = held w"

interpretation lv: step_relation "leaves held" for held
  by unfold_locales (auto simp: leaves_def)

definition READING :: "string list" where
  "READING =
     [''RetrieveContent'', ''QueryOptions'', ''isoformat'', ''EvcManager'', ''FindExtension'', ''RetrieveVStorageObject'',
      ''ListVStorageObject'', ''VsanClusterGetConfig'', ''RetrieveEntityPermissions'', ''QueryFileServiceDomains'',
      ''QueryConfiguredModuleOptionString'', ''HostImageConfigGetAcceptance'', ''PbmQueryProfile'', ''PbmRetrieveContent'',
      ''PbmQueryDefaultRequirementProfile'', ''SearchDatastore_Task'']"

definition view_closed :: "(world \<Rightarrow> 'v) \<Rightarrow> vmodl \<Rightarrow> bool" where
  "view_closed held api \<longleftrightarrow>
     (\<forall>v args w e w1. vm_call api v ''CreateContainerView'' args [] w = Some (Exc e, w1) \<longrightarrow> held w1 = held w) \<and>
     (\<forall>v args w c w1. vm_call api v ''CreateContainerView'' args [] w = Some (Ok c, w1) \<longrightarrow>
        class_of c \<noteq> None \<and>
        (\<forall>w2 r w3. held w2 = held w1 \<longrightarrow> vm_call api c ''Destroy'' [] [] w2 = Some (r, w3) \<longrightarrow> held w3 = held w))"

lemma view_closedD:
  assumes "view_closed held api"
  shows "vm_call api v ''CreateContainerView'' args [] w = Some (Exc e, w1) \<Longrightarrow> held w1 = held w"
    and "vm_call api v ''CreateContainerView'' args [] w = Some (Ok c, w1) \<Longrightarrow> class_of c \<noteq> None"
    and "vm_call api v ''CreateContainerView'' args [] w = Some (Ok c, w1) \<Longrightarrow> held w2 = held w1 \<Longrightarrow>
           vm_call api c ''Destroy'' [] [] w2 = Some (r', w3) \<Longrightarrow> held w3 = held w"
  using assms unfolding view_closed_def by blast+

definition observed :: "(world \<Rightarrow> 'v) \<Rightarrow> vmodl \<Rightarrow> bool" where
  "observed held api \<longleftrightarrow>
     (\<forall>kw. keeps (leaves held) (vm_connect api kw)) \<and>
     (\<forall>v a. keeps (leaves held) (vm_read api v a)) \<and>
     (\<forall>k v. keeps (leaves held) (vm_context api k v)) \<and>
     (\<forall>v m args kw. m \<in> set READING \<longrightarrow> keeps (leaves held) (vm_call api v m args kw)) \<and>
     view_closed held api \<and>
     (\<forall>w w'. sends_only vcenter_read w w' \<longrightarrow> held w' = held w)"

lemmas leaves_walk [vim_intros] =
  lv.keeps_quiet lv.keeps_bindM lv.keeps_tryM lv.keeps_loopM lv.keeps_finallyM lv.keeps_loops lv.keeps_or_else
  keeps_cases(1-3) keeps_case_sum keeps_case_res

lemma leaves_branches [vim_intros]:
  "(\<And>x. keeps (leaves held) (h x)) \<Longrightarrow> keeps (leaves held) (let x = u in h x)"
  "keeps (leaves held) n \<Longrightarrow> (\<And>x xs. keeps (leaves held) (c x xs)) \<Longrightarrow> keeps (leaves held) (case l of [] \<Rightarrow> n | x # xs \<Rightarrow> c x xs)"
  "(\<And>s. keeps (leaves held) (f s)) \<Longrightarrow> keeps (leaves held) g \<Longrightarrow> keeps (leaves held) (case v of PStr s \<Rightarrow> f s | _ \<Rightarrow> g)"
  "keeps (leaves held) m \<Longrightarrow> (\<And>x. keeps (leaves held) (k x)) \<Longrightarrow> (\<And>e. keeps (leaves held) (h' e)) \<Longrightarrow>
     keeps (leaves held) (attempt catches m k h')"
  "(a \<Longrightarrow> keeps (leaves held) b) \<Longrightarrow> keeps (leaves held) (andM a b)" "(\<not> a \<Longrightarrow> keeps (leaves held) b) \<Longrightarrow> keeps (leaves held) (orM a b)"
  by (auto simp: attempt_def andM_def orM_def intro!: leaves_walk split: list.split pyval.split)

lemma leaves_sends: "observed held api \<Longrightarrow> keeps (sends_only vcenter_read) m \<Longrightarrow> keeps (leaves held) m"
  by (erule keeps_mono) (auto simp: observed_def leaves_def)

lemma leaves_primitives [vim_intros]:
  assumes "observed held api"
  shows "keeps (leaves held) (sleep ms)" "keeps (leaves held) (cache_store c k v)" "keeps (leaves held) (cache_pop c k)"
    "keeps (leaves held) (vcenter_api_get opts path q p t)"
  by (rule leaves_sends [OF assms], auto intro!: spec_intros)+

lemma leaves_reads [vim_intros]:
  assumes "observed held api"
  shows "keeps (leaves held) (vm_connect api kw)" "keeps (leaves held) (vm_context api key x)"
    "keeps (leaves held) (vget api v a)" "keeps (leaves held) (vpath api v as)" "keeps (leaves held) (vget_or api v a d)"
    "keeps (leaves held) (vhas api v a)"
    "m \<in> set READING \<Longrightarrow> keeps (leaves held) (vcall api v m args kw)"
proof -
  show connect: "keeps (leaves held) (vm_connect api kw)" "keeps (leaves held) (vm_context api key x)"
    using assms by (auto simp: observed_def)
  show get: "keeps (leaves held) (vget api v a)" for v a
    using assms by (auto simp: observed_def vget_def intro!: leaves_walk split: option.split pyval.split)
  show "keeps (leaves held) (vpath api v as)"
    by (induction as arbitrary: v) (auto intro!: leaves_walk get)
  show "keeps (leaves held) (vget_or api v a d)" "keeps (leaves held) (vhas api v a)"
    by (auto simp: vget_or_def vhas_def intro!: leaves_walk get)
  show "m \<in> set READING \<Longrightarrow> keeps (leaves held) (vcall api v m args kw)"
    using assms by (auto simp: observed_def vcall_def intro!: leaves_walk)
qed

lemma leaves_locals [vim_intros]:
  "keeps (leaves held) (vnew api c d)" "keeps (leaves held) (vset api v a x)" "keeps (leaves held) (vref api c' i s)"
  by (auto simp: vnew_def vset_def vref_def intro!: leaves_walk)

text \<open>A program on a view that is made for it and destroyed after it.\<close>

definition in_view :: "vmodl \<Rightarrow> pyval \<Rightarrow> pyval list \<Rightarrow> (pyval \<Rightarrow> 'a io) \<Rightarrow> 'a io" where
  "in_view api v args body =
     bindM (vcall api v ''CreateContainerView'' args [])
       (\<lambda>c. finallyM (body c) (vcall api c ''Destroy'' [] []))"

lemma finallyM_unit: "finallyM m (bindM f (\<lambda>_. pureM ())) = finallyM m f"
  by (rule ext) (auto simp: finallyM_def bindM_def pureM_def split: option.split prod.split res.split)

lemma in_view_folds:
  "finallyM m (bindM f' (\<lambda>_. pureM ())) = finallyM m f'"
  "bindM (vcall api v ''CreateContainerView'' args []) (\<lambda>c. or_else (finallyM (body c) (vcall api c ''Destroy'' [] [])) k) =
     or_else (in_view api v args body) k"
  "bindM (vcall api v ''CreateContainerView'' args []) (\<lambda>c. bindM (finallyM (prog c) (vcall api c ''Destroy'' [] [])) f) =
     bindM (in_view api v args prog) f"
  "bindM (vcall api v ''CreateContainerView'' args []) (\<lambda>c. finallyM (whole c) (vcall api c ''Destroy'' [] [])) =
     in_view api v args whole"
  by (simp_all add: in_view_def or_else_def bindM_assoc finallyM_unit)

lemma leaves_in_view [vim_intros]:
  assumes "observed held api" "\<And>c. keeps (leaves held) (body c)"
  shows "keeps (leaves held) (in_view api v args body)"
proof (rule keepsI)
  fix w r w' assume run: "in_view api v args body w = Some (r, w')"
  have closed: "view_closed held api" using assms(1) by (simp add: observed_def)
  show "leaves held w w'"
  proof (cases "class_of v")
    case None then show ?thesis using run by (auto simp: in_view_def vcall_def bindM_def raiseM_def leaves_def)
  next
    case (Some k)
    with run obtain rc w1 where call: "vm_call api v ''CreateContainerView'' args [] w = Some (rc, w1)"
      by (auto simp: in_view_def vcall_def bindM_def split: option.splits)
    show ?thesis
    proof (cases rc)
      case (Exc e) then show ?thesis
        using run call Some view_closedD(1) [OF closed] by (auto simp: in_view_def vcall_def bindM_def leaves_def)
    next
      case (Ok c)
      with view_closedD(2,3) [OF closed] call have c: "class_of c \<noteq> None" and
        destroy: "\<And>w2 r' w3. held w2 = held w1 \<Longrightarrow> vm_call api c ''Destroy'' [] [] w2 = Some (r', w3) \<Longrightarrow> held w3 = held w"
        by blast+
      from run call Some Ok have "finallyM (body c) (vcall api c ''Destroy'' [] []) w1 = Some (r, w')"
        by (auto simp: in_view_def vcall_def bindM_def)
      then obtain r1 w2 u where body: "body c w1 = Some (r1, w2)" and d: "vcall api c ''Destroy'' [] [] w2 = Some (u, w')"
        by (auto simp: finallyM_Some_iff)
      have "held w2 = held w1" using keepsD [OF assms(2) body] by (simp add: leaves_def)
      from destroy [OF this] d c show ?thesis by (auto simp: vcall_def leaves_def)
    qed
  qed
qed

lemma viewed_in_view:
  "viewed api content cls body =
     bindM (vget api content ''viewManager'') (\<lambda>vm. bindM (vget api content ''rootFolder'') (\<lambda>root.
       in_view api vm [root, PList [PStr cls], PBool True] body))"
  by (simp add: viewed_def container_view_def in_view_def bindM_assoc)

lemma leaves_viewed [vim_intros]:
  "observed held api \<Longrightarrow> (\<And>c. keeps (leaves held) (body c)) \<Longrightarrow> keeps (leaves held) (viewed api content cls body)"
  by (auto simp: viewed_in_view intro!: vim_intros)

subsection \<open>Functions that only read\<close>

lemma cached_instance_reads [vim_intros]:
  "observed held api \<Longrightarrow> keeps (leaves held) connect \<Longrightarrow> keeps (leaves held) (cached_instance cid key connect)"
  unfolding cached_instance_def by (intro vim_intros; assumption)

lemma clear_cache_reads [vim_intros]: "observed held api \<Longrightarrow> keeps (leaves held) (clear_cache c)"
  by (rule leaves_sends) (auto simp: clear_cache_def keeps_def sends_only_def)

lemma esxi_get_service_instance_reads [vim_intros]: "observed held api \<Longrightarrow> keeps (leaves held) (esxi_get_service_instance api opts profile)"
  unfolding esxi_get_service_instance_def in_view_folds split_def by (intro vim_intros; (assumption | simp add: READING_def))

lemma esxi_get_host_system_reads [vim_intros]: "observed held api \<Longrightarrow> keeps (leaves held) (esxi_get_host_system api opts profile)"
  unfolding esxi_get_host_system_def in_view_folds split_def by (intro vim_intros; (assumption | simp add: READING_def))

lemma vim_get_service_instance_reads [vim_intros]: "observed held api \<Longrightarrow> keeps (leaves held) (vim_get_service_instance api opts profile)"
  unfolding vim_get_service_instance_def in_view_folds split_def by (intro vim_intros; (assumption | simp add: READING_def))

lemma vim_content_reads [vim_intros]: "observed held api \<Longrightarrow> keeps (leaves held) (vim_content api opts profile)"
  unfolding vim_content_def in_view_folds split_def by (intro vim_intros; (assumption | simp add: READING_def))

lemma host_named_reads [vim_intros]: "observed held api \<Longrightarrow> keeps (leaves held) (host_named api name_or_id h)"
  unfolding host_named_def in_view_folds split_def by (intro vim_intros; (assumption | simp add: READING_def))

lemma host_vnics_reads [vim_intros]: "observed held api \<Longrightarrow> keeps (leaves held) (host_vnics api h)"
  unfolding host_vnics_def in_view_folds split_def by (intro vim_intros; (assumption | simp add: READING_def))

lemma vnic_has_reads [vim_intros]: "observed held api \<Longrightarrow> keeps (leaves held) (vnic_has api name_or_id vnic)"
  unfolding vnic_has_def in_view_folds split_def by (intro vim_intros; (assumption | simp add: READING_def))

lemma host_with_address_reads [vim_intros]: "observed held api \<Longrightarrow> keeps (leaves held) (host_with_address api name_or_id h)"
  unfolding host_with_address_def in_view_folds split_def by (intro vim_intros; (assumption | simp add: READING_def))

lemma pick_host_reads [vim_intros]: "observed held api \<Longrightarrow> keeps (leaves held) (pick_host api opts profile name_or_id hosts)"
  unfolding pick_host_def in_view_folds split_def by (intro vim_intros; (assumption | simp add: READING_def))

lemma vim_resolve_host_system_reads [vim_intros]: "observed held api \<Longrightarrow> keeps (leaves held) (vim_resolve_host_system api opts name_or_id profile)"
  unfolding vim_resolve_host_system_def in_view_folds split_def by (intro vim_intros; (assumption | simp add: READING_def))

lemma vim_perf_manager_reads [vim_intros]: "observed held api \<Longrightarrow> keeps (leaves held) (vim_perf_manager api opts profile)"
  unfolding vim_perf_manager_def in_view_folds split_def by (intro vim_intros; (assumption | simp add: READING_def))

lemma vim_extension_manager_reads [vim_intros]: "observed held api \<Longrightarrow> keeps (leaves held) (vim_extension_manager api opts profile)"
  unfolding vim_extension_manager_def in_view_folds split_def by (intro vim_intros; (assumption | simp add: READING_def))

lemma vim_authorization_manager_reads [vim_intros]: "observed held api \<Longrightarrow> keeps (leaves held) (vim_authorization_manager api opts profile)"
  unfolding vim_authorization_manager_def in_view_folds split_def by (intro vim_intros; (assumption | simp add: READING_def))

lemma vsan_new_stub_reads [vim_intros]: "observed held api \<Longrightarrow> keeps (leaves held) (vsan_new_stub api opts profile cfg)"
  unfolding vsan_new_stub_def in_view_folds split_def by (intro vim_intros; (assumption | simp add: READING_def))

lemma vsan_get_stub_reads [vim_intros]: "observed held api \<Longrightarrow> keeps (leaves held) (vsan_get_stub api opts profile)"
  unfolding vsan_get_stub_def in_view_folds split_def by (intro vim_intros; (assumption | simp add: READING_def))

lemma vsan_system_reads [vim_intros]: "observed held api \<Longrightarrow> keeps (leaves held) (vsan_system api opts profile cls moid)"
  unfolding vsan_system_def in_view_folds split_def by (intro vim_intros; (assumption | simp add: READING_def))

lemma vsan_cluster_config_system_reads [vim_intros]: "observed held api \<Longrightarrow> keeps (leaves held) (vsan_cluster_config_system api opts profile)"
  unfolding vsan_cluster_config_system_def in_view_folds split_def by (intro vim_intros; (assumption | simp add: READING_def))

lemma vsan_file_service_system_reads [vim_intros]: "observed held api \<Longrightarrow> keeps (leaves held) (vsan_file_service_system api opts profile)"
  unfolding vsan_file_service_system_def in_view_folds split_def by (intro vim_intros; (assumption | simp add: READING_def))

lemma cluster_named_reads [vim_intros]: "observed held api \<Longrightarrow> keeps (leaves held) (cluster_named api name_or_id entity)"
  unfolding cluster_named_def in_view_folds split_def by (intro vim_intros; (assumption | simp add: READING_def))

lemma vsan_find_cluster_reads [vim_intros]: "observed held api \<Longrightarrow> keeps (leaves held) (vsan_find_cluster api opts name_or_id profile)"
  unfolding vsan_find_cluster_def in_view_folds split_def by (intro vim_intros; (assumption | simp add: READING_def))

lemma pbm_new_stub_reads [vim_intros]: "observed held api \<Longrightarrow> keeps (leaves held) (pbm_new_stub api opts profile cfg)"
  unfolding pbm_new_stub_def in_view_folds split_def by (intro vim_intros; (assumption | simp add: READING_def))

lemma pbm_get_stub_reads [vim_intros]: "observed held api \<Longrightarrow> keeps (leaves held) (pbm_get_stub api opts profile)"
  unfolding pbm_get_stub_def in_view_folds split_def by (intro vim_intros; (assumption | simp add: READING_def))

lemma pbm_profile_manager_reads [vim_intros]: "observed held api \<Longrightarrow> keeps (leaves held) (pbm_profile_manager api opts profile)"
  unfolding pbm_profile_manager_def in_view_folds split_def by (intro vim_intros; (assumption | simp add: READING_def))

subsection \<open>Waiting for a task\<close>

text \<open>A server whose attributes can be read: every reading comes back, and meanwhile the clock does not run backwards.\<close>

definition timely :: "vmodl \<Rightarrow> bool" where
  "timely api \<longleftrightarrow> (\<forall>v a. returns (vm_read api v a) \<and> keeps evolves (vm_read api v a))"

definition looks_by :: "(request \<Rightarrow> bool) \<Rightarrow> vmodl \<Rightarrow> bool" where
  "looks_by P api \<longleftrightarrow> (\<forall>v a. keeps (sends_only P) (vm_read api v a))"

lemma vget_timely [spec_intros]:
  "timely api \<Longrightarrow> returns (vget api v a)" "timely api \<Longrightarrow> keeps evolves (vget api v a)"
  "looks_by P api \<Longrightarrow> keeps (sends_only P) (vget api v a)"
  by (auto simp: vget_def timely_def looks_by_def intro!: spec_intros split: option.split pyval.split)

lemma vpath_timely [spec_intros]:
  "timely api \<Longrightarrow> returns (vpath api v as)" "timely api \<Longrightarrow> keeps evolves (vpath api v as)"
  "looks_by P api \<Longrightarrow> keeps (sends_only P) (vpath api v as)"
  by (induction as arbitrary: v) (auto intro!: spec_intros)

lemma task_steps_timely [spec_intros]:
  "timely api \<Longrightarrow> returns (task_round api task t i dl u)" "timely api \<Longrightarrow> keeps evolves (task_round api task t i dl u)"
  "looks_by P api \<Longrightarrow> keeps (sends_only P) (task_round api task t i dl u)"
  "timely api \<Longrightarrow> returns (task_outcome api task)" "looks_by P api \<Longrightarrow> keeps (sends_only P) (task_outcome api task)"
  by (auto simp: task_round_def task_outcome_def intro!: spec_intros simp del: vpath.simps)

lemma task_round_Ok:
  assumes "task_round api task t i dl u w = Some (Ok s, w')" "timely api"
  obtains st where "s = Inl ()" "vpath api task [''info'', ''state''] w = Some (Ok st, w')" "\<not> in_strs st [''running'', ''queued'']"
  | "s = Inr ()" "clock w \<le> dl" "clock w + i \<le> clock w'"
proof -
  from assms(1) obtain st w1 where look: "vpath api task [''info'', ''state''] w = Some (Ok st, w1)"
    and rest: "(if \<not> in_strs st [''running'', ''queued''] then pureM (Inl ())
      else bindM monotonic (\<lambda>now. if now > dl then bindM (vget api task ''_moId'') (\<lambda>moid.
          raiseM (TimeoutError (''task '' @ py_repr moid @ '' did not finish within '' @ int_str t @ ''s'')))
        else bindM (sleep i) (\<lambda>_. pureM (Inr ())))) w1 = Some (Ok s, w')"
    unfolding task_round_def by (erule_tac bindM_SomeE) auto
  have "clock w \<le> clock w1" using vpath_timely(2) [OF assms(2)] look by (rule evolves_clock)
  with look rest show thesis
    by (auto split: if_splits simp: bindM_Some_iff sleep_def intro: that)
qed

lemma task_round_polling: "timely api \<Longrightarrow> polling (task_round api task t i dl) (\<lambda>_ w. clock w) dl i"
  by (rule polling_clockI [OF task_steps_timely(1)]) (auto elim: task_round_Ok)

lemma task_loop_Ok:
  assumes "loopM (task_round api task t i dl) () w = Some (Ok u, w')" "timely api"
  shows "\<exists>st w1. evolves w w1 \<and> vpath api task [''info'', ''state''] w1 = Some (Ok st, w') \<and> \<not> in_strs st [''running'', ''queued'']"
proof -
  from assms(1) have "case Ok u of Ok _ \<Rightarrow> \<exists>st w1. evolves w w1 \<and> vpath api task [''info'', ''state''] w1 = Some (Ok st, w') \<and>
      \<not> in_strs st [''running'', ''queued''] | Exc _ \<Rightarrow> True"
  proof (rule loopM_rule [where I = "\<lambda>_. evolves w"])
    show "evolves w w2" if "evolves w w1" "task_round api task t i dl u w1 = Some (Ok (Inr u'), w2)" for u w1 u' w2
      using that keepsD [OF task_steps_timely(2) [OF assms(2)] that(2)] by (blast intro: ev.trans_step)
  qed (auto simp del: vpath.simps elim!: task_round_Ok [OF _ assms(2)] intro: ev.refl_step)
  then show ?thesis by (simp del: vpath.simps)
qed

text \<open>C5: \<open>wait_for_task\<close> ends whatever the server answers, and answers only with the result of a task that succeeded: at the
  end the task was found neither queued nor running, then found not to be in error, and last its result was read. It
  sends nothing but the readings.\<close>

theorem vim_wait_sound:
  assumes "timely api" "0 < interval"
  shows "\<exists>r w'. vim_wait_for_task api task timeout interval w = Some (r, w') \<and>
    (looks_by P api \<longrightarrow> sends_only P w w') \<and>
    (\<forall>x. r = Ok x \<longrightarrow> (\<exists>s1 s2 wa wb wc. evolves w wa \<and>
       vpath api task [''info'', ''state''] wa = Some (Ok s1, wb) \<and> \<not> in_strs s1 [''running'', ''queued''] \<and>
       vpath api task [''info'', ''state''] wb = Some (Ok s2, wc) \<and> \<not> py_eq s2 (PStr ''error'') \<and>
       vpath api task [''info'', ''result''] wc = Some (Ok x, w')))"
proof -
  let ?loop = "loopM (task_round api task timeout interval (clock w + secs timeout)) ()"
  have run: "vim_wait_for_task api task timeout interval w = bindM ?loop (\<lambda>_. task_outcome api task) w"
    by (simp add: vim_wait_for_task_def monotonic_def bindM_def)
  have "returns (bindM ?loop (\<lambda>_. task_outcome api task))"
    using polling.terminates [OF task_round_polling [OF assms(1)] assms(2)] task_steps_timely(4) [OF assms(1)] by (auto simp: returns_def bindM_def split: option.split res.split)
  then obtain r w' where r: "bindM ?loop (\<lambda>_. task_outcome api task) w = Some (r, w')"
    by (blast dest: returnsD)
  have "sends_only P w w'" if "looks_by P api"
  proof -
    have "keeps (sends_only P) (bindM ?loop (\<lambda>_. task_outcome api task))" by (intro spec_intros that)
    from keepsD [OF this r] show ?thesis .
  qed
  moreover have "\<exists>s1 s2 wa wb wc. evolves w wa \<and>
       vpath api task [''info'', ''state''] wa = Some (Ok s1, wb) \<and> \<not> in_strs s1 [''running'', ''queued''] \<and>
       vpath api task [''info'', ''state''] wb = Some (Ok s2, wc) \<and> \<not> py_eq s2 (PStr ''error'') \<and>
       vpath api task [''info'', ''result''] wc = Some (Ok x, w')" if "r = Ok x" for x
  proof -
    from r that obtain u wb where loop: "?loop w = Some (Ok u, wb)" and out: "task_outcome api task wb = Some (Ok x, w')"
      by (auto simp: bindM_Some_iff)
    from out obtain s2 wc where "vpath api task [''info'', ''state''] wb = Some (Ok s2, wc)" "\<not> py_eq s2 (PStr ''error'')"
        "vpath api task [''info'', ''result''] wc = Some (Ok x, w')"
      unfolding task_outcome_def by (auto simp del: vpath.simps elim!: bindM_SomeE split: if_splits)
    with task_loop_Ok [OF loop assms(1)] show ?thesis by blast
  qed
  moreover have "vim_wait_for_task api task timeout interval w = Some (r, w')" using run r by simp
  ultimately show ?thesis by (intro exI [of _ r] exI [of _ w']) simp
qed

text \<open>A server on which the task ends after ten seconds.\<close>

definition task_server :: vmodl where
  "task_server =
     \<lparr>vm_connect = (\<lambda>_. pureM PNone), vm_disconnect = (\<lambda>_. pureM ()),
      vm_read = (\<lambda>v a w. Some (Ok (if a = ''info'' then managed_object ''vim.TaskInfo'' ''info'' else
        if a = ''state'' then PStr (if clock w < 10000 then ''running'' else ''success'') else PStr ''vm-7''), w)),
      vm_call = (\<lambda>_ _ _ _. pureM PNone), vm_new = (\<lambda>c d. Ok (py_object c d)), vm_set = (\<lambda>v _ _. Ok v),
      vm_ref = (\<lambda>c i _. Ok (py_object c [(''_moId'', i)])),
      vm_sub = (=), vm_bypass = (\<lambda>_. True), vm_https_proxy = PNone, vm_split_url = (\<lambda>_. (PNone, PNone)),
      vm_class = (\<lambda>_. True), vm_digest = (\<lambda>_ _ _. pureM []), vm_version = (\<lambda>_. PNone), vm_context = (\<lambda>_ _. pureM ())\<rparr>"

lemma vim_wait_sound_witness:
  "\<exists>w'. vim_wait_for_task task_server (managed_object ''vim.Task'' ''task-1'') 300 500 (scripted []) = Some (Ok (PStr ''vm-7''), w') \<and>
    sends_only (\<lambda>_. False) (scripted []) w'"
proof -
  let ?m = "vim_wait_for_task task_server (managed_object ''vim.Task'' ''task-1'') 300 500"
  have timely: "timely task_server" and looks: "looks_by (\<lambda>_. False) task_server"
    by (auto simp: timely_def looks_by_def task_server_def returns_def keeps_def ev.refl_step so.refl_step)
  have run: "map_option fst (?m (scripted [])) = Some (Ok (PStr ''vm-7''))" by code_simp
  from vim_wait_sound [OF timely, where interval = 500 and timeout = 300 and task = "managed_object ''vim.Task'' ''task-1''"
      and w = "scripted []" and P = "\<lambda>_. False"] looks run
  show ?thesis by (auto simp: map_option_case)
qed

end
