(* ===== verification/Vim_Host.thy ===== *)
theory Vim_Host
  imports Vim
begin

section \<open>Vim_Host: the settings of an ESX host\<close>

text \<open>
  The clients of a standalone host (\<open>esxi_*\<close>: services, NTP, advanced options, syslog, firewall, lockdown, the directory service and
  its proxy) and those of a host of a vCenter. Each finds the host and works on the managers of it: acceptance level, certificate, boot and advanced options, datastores, DNS, kernel modules, maintenance mode, passthrough, power, security, SNMP, storage and the network.
\<close>

subsection \<open>\<open>clients/esxi_service.py\<close>\<close>

definition esxi_service_POLICIES :: "string list" where
  "esxi_service_POLICIES = [''ON'', ''OFF'', ''AUTOMATIC'']"

definition esxi_service_POLICY_TO_SOAP :: "dict" where
  "esxi_service_POLICY_TO_SOAP =
     [(''ON'', PStr ''on''), (''OFF'', PStr ''off''), (''AUTOMATIC'', PStr ''automatic'')]"

definition esxi_service_POLICY_FROM_SOAP :: "dict" where
  "esxi_service_POLICY_FROM_SOAP =
     [(''on'', PStr ''ON''), (''off'', PStr ''OFF''), (''automatic'', PStr ''AUTOMATIC'')]"

definition esxi_service_svc_to_dict :: "vmodl \<Rightarrow> pyval \<Rightarrow> pyval io" where
  "esxi_service_svc_to_dict api svc =
     bindM (vget api svc ''key'') (\<lambda>key.
     bindM (vget api svc ''label'') (\<lambda>label.
     bindM (vget api svc ''running'') (\<lambda>running.
     bindM (vget api svc ''policy'') (\<lambda>policy.
     bindM (vget api svc ''policy'') (\<lambda>policy2.
     bindM (liftR (py_upper policy2)) (\<lambda>text.
     bindM (liftR (py_lookup (PDict esxi_service_POLICY_FROM_SOAP) policy (PStr text))) (\<lambda>found.
     bindM (vget api svc ''running'') (\<lambda>running2.
     pureM (PDict [(''key'', key), (''label'', label), (''running'', running), (''policy'', found), (''state'', PStr
       (if truthy running2 then ''RUNNING'' else ''STOPPED''))])))))))))"

definition esxi_service_find_service :: "vmodl \<Rightarrow> pyval \<Rightarrow> pyval \<Rightarrow> pyval io" where
  "esxi_service_find_service api svc_system service =
     bindM (vpath api svc_system [''serviceInfo'', ''service'']) (\<lambda>service2.
     bindM (liftR (py_iter service2)) (\<lambda>items.
     or_else
       (first_of (\<lambda>svc.
          bindM (vget api svc ''key'') (\<lambda>key.
          if py_eq key service then pureM (Some svc) else pureM None)) items)
       (raiseM (KeyError (''Service '' @ py_repr service @ '' not found on this host'')))))"

definition esxi_service_list :: "vmodl \<Rightarrow> pyval \<Rightarrow> profile \<Rightarrow> pyval io" where
  "esxi_service_list api opts profile =
     bindM (esxi_get_host_system api opts profile) (\<lambda>host.
     bindM (vpath api host [''configManager'', ''serviceSystem'', ''serviceInfo'', ''service''])
       (\<lambda>service.
     bindM (liftR (py_iter service)) (\<lambda>items.
     bindM
       (mapM (\<lambda>svc.
          bindM (vget api svc ''key'') (\<lambda>key.
          bindM (liftR (str_key key)) (\<lambda>k.
          bindM (esxi_service_svc_to_dict api svc) (\<lambda>svc_to_dict2.
          pureM (k, svc_to_dict2))))) items) (\<lambda>entries.
     pureM (PDict (dupdate [] entries))))))"

definition esxi_service_get :: "vmodl \<Rightarrow> pyval \<Rightarrow> pyval \<Rightarrow> profile \<Rightarrow> pyval io" where
  "esxi_service_get api opts service profile =
     bindM (esxi_get_host_system api opts profile) (\<lambda>host.
     bindM (vpath api host [''configManager'', ''serviceSystem'']) (\<lambda>serviceSystem.
     bindM (esxi_service_find_service api serviceSystem service) (\<lambda>svc.
     esxi_service_svc_to_dict api svc)))"

definition esxi_service_get_or_none :: "vmodl \<Rightarrow> pyval \<Rightarrow> pyval \<Rightarrow> profile \<Rightarrow> pyval io" where
  "esxi_service_get_or_none api opts service profile =
     tryM
       (esxi_service_get api opts service profile)
       (\<lambda>exc. if is_KeyError exc then pureM PNone else raiseM exc)"

definition esxi_service_start :: "vmodl \<Rightarrow> pyval \<Rightarrow> pyval \<Rightarrow> profile \<Rightarrow> pyval io" where
  "esxi_service_start api opts service profile =
     bindM (esxi_get_host_system api opts profile) (\<lambda>host.
     bindM (vpath api host [''configManager'', ''serviceSystem'']) (\<lambda>serviceSystem.
     bindM (vcall api serviceSystem ''Start'' [] [(''id'', service)]) (\<lambda>_.
     esxi_service_get api opts service profile)))"

definition esxi_service_stop :: "vmodl \<Rightarrow> pyval \<Rightarrow> pyval \<Rightarrow> profile \<Rightarrow> pyval io" where
  "esxi_service_stop api opts service profile =
     bindM (esxi_get_host_system api opts profile) (\<lambda>host.
     bindM (vpath api host [''configManager'', ''serviceSystem'']) (\<lambda>serviceSystem.
     bindM (vcall api serviceSystem ''Stop'' [] [(''id'', service)]) (\<lambda>_.
     esxi_service_get api opts service profile)))"

definition esxi_service_restart :: "vmodl \<Rightarrow> pyval \<Rightarrow> pyval \<Rightarrow> profile \<Rightarrow> pyval io" where
  "esxi_service_restart api opts service profile =
     bindM (esxi_get_host_system api opts profile) (\<lambda>host.
     bindM (vpath api host [''configManager'', ''serviceSystem'']) (\<lambda>serviceSystem.
     bindM (vcall api serviceSystem ''Restart'' [] [(''id'', service)]) (\<lambda>_.
     esxi_service_get api opts service profile)))"

definition esxi_service_set_policy :: "vmodl \<Rightarrow> pyval \<Rightarrow> pyval \<Rightarrow> pyval \<Rightarrow> profile \<Rightarrow> pyval io" where
  "esxi_service_set_policy api opts service policy profile =
     (if \<not> in_strs policy esxi_service_POLICIES then
        raiseM (ValueError (''policy must be one of '' @ tuple_str (map PStr esxi_service_POLICIES) @ '', got '' @
        py_repr policy))
      else
        bindM (esxi_get_host_system api opts profile) (\<lambda>host.
        bindM (vpath api host [''configManager'', ''serviceSystem'']) (\<lambda>serviceSystem.
        bindM (liftR (py_key (PDict esxi_service_POLICY_TO_SOAP) policy)) (\<lambda>found.
        bindM (vcall api serviceSystem ''UpdatePolicy'' [] [(''id'', service), (''policy'', found)]) (\<lambda>_.
        esxi_service_get api opts service profile)))))"

definition esxi_service_is_running :: "pyval \<Rightarrow> pyval io" where
  "esxi_service_is_running service_obj =
     bindM (liftR (py_get service_obj ''state'' PNone)) (\<lambda>st.
     let x = PBool (py_eq st (PStr ''RUNNING'')) in
     if truthy x then pureM x
     else bindM (liftR (py_get service_obj ''running'' PNone)) (\<lambda>running.
          pureM (PBool (truthy running))))"

subsection \<open>\<open>clients/esxi_ntp.py\<close>\<close>

definition esxi_ntp_get :: "vmodl \<Rightarrow> pyval \<Rightarrow> profile \<Rightarrow> pyval io" where
  "esxi_ntp_get api opts profile =
     bindM (esxi_get_host_system api opts profile) (\<lambda>host.
     bindM (vpath api host [''configManager'', ''dateTimeSystem'', ''dateTimeInfo'']) (\<lambda>info.
     let ntpd_running = False in
     bindM (vpath api host [''configManager'', ''serviceSystem'', ''serviceInfo'', ''service''])
       (\<lambda>service.
     bindM (liftR (py_iter service)) (\<lambda>items2.
     bindM
       (for_each (\<lambda>svc ntpd_running.
          bindM (vget api svc ''key'') (\<lambda>key.
          if py_eq key (PStr ''ntpd'') then
            bindM (vget api svc ''running'') (\<lambda>ntpd_running.
            pureM (Inl ntpd_running))
          else pureM (Inr ntpd_running))) items2 (PBool ntpd_running)) (\<lambda>left.
     let ntpd_running = either left in
     bindM (vpath api info [''ntpConfig'', ''server'']) (\<lambda>server.
     bindM (liftR (py_iter (py_or server (PList [])))) (\<lambda>items3.
     pureM (PDict [(''servers'', PList items3), (''enabled'', ntpd_running)]))))))))"

definition esxi_ntp_set_servers :: "vmodl \<Rightarrow> pyval \<Rightarrow> pyval \<Rightarrow> profile \<Rightarrow> pyval io" where
  "esxi_ntp_set_servers api opts servers profile =
     bindM (esxi_get_host_system api opts profile) (\<lambda>host.
     bindM (liftR (py_iter servers)) (\<lambda>items2.
     bindM (vnew api ''vim.host.NtpConfig'' [(''server'', PList items2)]) (\<lambda>ntpConfig.
     bindM (vnew api ''vim.host.DateTimeConfig'' [(''ntpConfig'', ntpConfig)]) (\<lambda>config.
     bindM (vpath api host [''configManager'', ''dateTimeSystem'']) (\<lambda>dateTimeSystem.
     bindM (vcall api dateTimeSystem ''UpdateDateTimeConfig'' [] [(''config'', config)]) (\<lambda>_.
     esxi_ntp_get api opts profile))))))"

definition esxi_ntp_set_enabled :: "vmodl \<Rightarrow> pyval \<Rightarrow> pyval \<Rightarrow> profile \<Rightarrow> pyval io" where
  "esxi_ntp_set_enabled api opts enabled profile =
     bindM (esxi_get_host_system api opts profile) (\<lambda>get_host_system.
     bindM (vpath api get_host_system [''configManager'', ''serviceSystem'']) (\<lambda>svc_system.
     bindM
       (if truthy enabled then
          bindM (vcall api svc_system ''Start'' [] [(''id'', PStr ''ntpd'')]) (\<lambda>_.
          pureM ())
        else
          bindM (vcall api svc_system ''Stop'' [] [(''id'', PStr ''ntpd'')]) (\<lambda>_.
          pureM ())) (\<lambda>_.
     esxi_ntp_get api opts profile)))"

subsection \<open>\<open>clients/esxi_advanced.py\<close>\<close>

definition esxi_advanced_list :: "vmodl \<Rightarrow> pyval \<Rightarrow> profile \<Rightarrow> pyval io" where
  "esxi_advanced_list api opts profile =
     bindM (esxi_get_host_system api opts profile) (\<lambda>host.
     bindM (vpath api host [''configManager'', ''advancedOption'']) (\<lambda>advancedOption.
     bindM (vcall api advancedOption ''QueryOptions'' [] []) (\<lambda>options.
     bindM (liftR (py_iter (py_or options (PList [])))) (\<lambda>items.
     bindM
       (mapM (\<lambda>opt.
          bindM (vget api opt ''key'') (\<lambda>key.
          bindM (liftR (str_key key)) (\<lambda>k.
          bindM (vget api opt ''value'') (\<lambda>val.
          pureM (k, val))))) items) (\<lambda>entries.
     pureM (PDict (dupdate [] entries)))))))"

definition esxi_advanced_get :: "vmodl \<Rightarrow> pyval \<Rightarrow> pyval \<Rightarrow> profile \<Rightarrow> pyval io" where
  "esxi_advanced_get api opts key profile =
     bindM (esxi_get_host_system api opts profile) (\<lambda>host.
     bindM (vpath api host [''configManager'', ''advancedOption'']) (\<lambda>advancedOption.
     bindM (vcall api advancedOption ''QueryOptions'' [] [(''name'', key)]) (\<lambda>options.
     if \<not> truthy options then raiseM (KeyError (''Advanced setting '' @ py_repr key @ '' not found''))
     else
       bindM (liftR (py_first options)) (\<lambda>first.
       bindM (vget api first ''value'') (\<lambda>val.
       pureM (PDict [(''key'', key), (''value'', val)]))))))"

definition esxi_advanced_get_or_none :: "vmodl \<Rightarrow> pyval \<Rightarrow> pyval \<Rightarrow> profile \<Rightarrow> pyval io" where
  "esxi_advanced_get_or_none api opts key profile =
     tryM
       (esxi_advanced_get api opts key profile)
       (\<lambda>exc. if is_KeyError exc \<or> is_fault api ''vim.fault.VimFault'' exc \<or> is_fault api
        ''vmodl.MethodFault'' exc then
           pureM PNone
         else raiseM exc)"

definition esxi_advanced_set_value :: "vmodl \<Rightarrow> pyval \<Rightarrow> pyval \<Rightarrow> pyval \<Rightarrow> profile \<Rightarrow> pyval io" where
  "esxi_advanced_set_value api opts key val profile =
     bindM (esxi_get_host_system api opts profile) (\<lambda>host.
     bindM (vpath api host [''configManager'', ''advancedOption'']) (\<lambda>mgr.
     bindM (vcall api mgr ''QueryOptions'' [] [(''name'', key)]) (\<lambda>existing.
     bindM
       (if truthy existing then
          bindM (liftR (py_first existing)) (\<lambda>opt.
          vset api opt ''value'' val)
        else vnew api ''vim.option.OptionValue'' [(''key'', key), (''value'', val)]) (\<lambda>opt.
     bindM (vcall api mgr ''UpdateValues'' [] [(''changedValue'', PList [opt])]) (\<lambda>_.
     pureM (PDict [(''key'', key), (''value'', val)]))))))"

subsection \<open>\<open>clients/esxi_syslog.py\<close>\<close>

definition esxi_syslog_KEY_LOG_HOST :: "string" where
  "esxi_syslog_KEY_LOG_HOST = ''Syslog.global.logHost''"

definition esxi_syslog_KEY_LOG_LEVEL :: "string" where
  "esxi_syslog_KEY_LOG_LEVEL = ''Syslog.global.logLevel''"

definition esxi_syslog_adv_get :: "vmodl \<Rightarrow> pyval \<Rightarrow> pyval \<Rightarrow> pyval \<Rightarrow> pyval io" where
  "esxi_syslog_adv_get api adv_mgr key default_v =
     tryM
       (bindM (vcall api adv_mgr ''QueryOptions'' [] [(''name'', key)]) (\<lambda>opts.
        if truthy opts then
          bindM (liftR (py_first opts)) (\<lambda>first.
          vget api first ''value'')
        else pureM default_v))
       (\<lambda>exc. if is_fault api ''vim.fault.VimFault'' exc \<or> is_fault api ''vmodl.MethodFault'' exc then
           pureM default_v
         else raiseM exc)"

definition esxi_syslog_get :: "vmodl \<Rightarrow> pyval \<Rightarrow> profile \<Rightarrow> pyval io" where
  "esxi_syslog_get api opts profile =
     bindM (esxi_get_host_system api opts profile) (\<lambda>host.
     bindM (vpath api host [''configManager'', ''advancedOption'']) (\<lambda>adv.
     bindM (esxi_syslog_adv_get api adv (PStr esxi_syslog_KEY_LOG_HOST) (PStr '''')) (\<lambda>raw_hosts.
     bindM (esxi_syslog_adv_get api adv (PStr esxi_syslog_KEY_LOG_LEVEL) (PStr ''info'')) (\<lambda>log_level.
     bindM
       (if truthy raw_hosts then
          bindM (liftR (py_split raw_hosts (CHR '',''))) (\<lambda>parts.
          collect (\<lambda>s.
            bindM (liftR (py_strip s)) (\<lambda>text.
            if text \<noteq> [] then bindM (liftR (py_strip s)) (\<lambda>text2. pureM (Some (PStr text2))) else
        pureM None)) parts)
        else pureM []) (\<lambda>servers.
     bindM (liftR (py_upper log_level)) (\<lambda>text3.
     pureM (PDict [(''servers'', PList servers), (''log_level'', PStr text3)])))))))"

definition esxi_syslog_set_servers :: "vmodl \<Rightarrow> pyval \<Rightarrow> pyval \<Rightarrow> profile \<Rightarrow> pyval io" where
  "esxi_syslog_set_servers api opts servers profile =
     bindM (esxi_get_host_system api opts profile) (\<lambda>host.
     bindM (vpath api host [''configManager'', ''advancedOption'']) (\<lambda>advancedOption.
     bindM (liftR (py_iter servers)) (\<lambda>items.
     bindM (liftR (py_join '','' items)) (\<lambda>text.
     bindM
       (vnew api ''vim.option.OptionValue'' [(''key'', PStr esxi_syslog_KEY_LOG_HOST), (''value'', PStr text)])
        (\<lambda>optionValue.
     bindM (vcall api advancedOption ''UpdateValues'' [] [(''changedValue'', PList [optionValue])]) (\<lambda>_.
     esxi_syslog_get api opts profile))))))"

definition esxi_syslog_set_log_level :: "vmodl \<Rightarrow> pyval \<Rightarrow> pyval \<Rightarrow> profile \<Rightarrow> pyval io" where
  "esxi_syslog_set_log_level api opts level profile =
     bindM (esxi_get_host_system api opts profile) (\<lambda>host.
     bindM (vpath api host [''configManager'', ''advancedOption'']) (\<lambda>advancedOption.
     bindM (liftR (py_lower level)) (\<lambda>text.
     bindM
       (vnew api ''vim.option.OptionValue'' [(''key'', PStr esxi_syslog_KEY_LOG_LEVEL), (''value'', PStr text)])
        (\<lambda>optionValue.
     bindM (vcall api advancedOption ''UpdateValues'' [] [(''changedValue'', PList [optionValue])]) (\<lambda>_.
     esxi_syslog_get api opts profile)))))"

subsection \<open>\<open>clients/esxi_firewall.py\<close>\<close>

definition esxi_firewall_ruleset_to_dict :: "vmodl \<Rightarrow> pyval \<Rightarrow> pyval io" where
  "esxi_firewall_ruleset_to_dict api rs =
     bindM (vget api rs ''allowedHosts'') (\<lambda>allowed.
     bindM (vget api rs ''key'') (\<lambda>key.
     bindM (vget api rs ''label'') (\<lambda>label.
     bindM (vget api rs ''enabled'') (\<lambda>enabled.
     bindM (if truthy allowed then vget_or api allowed ''allIp'' (PBool True) else pureM (PBool True))
       (\<lambda>x.
     bindM (vget_or api allowed ''ipAddress'' (PList [])) (\<lambda>ipAddress.
     bindM (liftR (py_iter (py_or ipAddress (PList [])))) (\<lambda>items2.
     pureM (PDict [(''key'', key), (''label'', label), (''enabled'', enabled), (''allowed_hosts'', PDict
       [(''all_ip'', x), (''ip_addresses'', PList items2)])]))))))))"

definition esxi_firewall_find_ruleset :: "vmodl \<Rightarrow> pyval \<Rightarrow> pyval \<Rightarrow> pyval io" where
  "esxi_firewall_find_ruleset api fw_system rule =
     bindM (vpath api fw_system [''firewallInfo'', ''ruleset'']) (\<lambda>ruleset.
     bindM (liftR (py_iter ruleset)) (\<lambda>items.
     or_else
       (first_of (\<lambda>rs.
          bindM (vget api rs ''key'') (\<lambda>key.
          if py_eq key rule then pureM (Some rs) else pureM None)) items)
       (raiseM (KeyError (''Firewall rule '' @ py_repr rule @ '' not found on this host'')))))"

definition esxi_firewall_list :: "vmodl \<Rightarrow> pyval \<Rightarrow> profile \<Rightarrow> pyval io" where
  "esxi_firewall_list api opts profile =
     bindM (esxi_get_host_system api opts profile) (\<lambda>host.
     bindM (vpath api host [''configManager'', ''firewallSystem'']) (\<lambda>fw.
     bindM (vpath api fw [''firewallInfo'', ''ruleset'']) (\<lambda>ruleset.
     bindM (liftR (py_iter ruleset)) (\<lambda>items.
     bindM
       (mapM (\<lambda>rs.
          bindM (vget api rs ''key'') (\<lambda>key.
          bindM (liftR (str_key key)) (\<lambda>k.
          bindM (esxi_firewall_ruleset_to_dict api rs) (\<lambda>ruleset_to_dict2.
          pureM (k, ruleset_to_dict2))))) items) (\<lambda>entries.
     pureM (PDict (dupdate [] entries)))))))"

definition esxi_firewall_get :: "vmodl \<Rightarrow> pyval \<Rightarrow> pyval \<Rightarrow> profile \<Rightarrow> pyval io" where
  "esxi_firewall_get api opts rule profile =
     bindM (esxi_get_host_system api opts profile) (\<lambda>host.
     bindM (vpath api host [''configManager'', ''firewallSystem'']) (\<lambda>firewallSystem.
     bindM (esxi_firewall_find_ruleset api firewallSystem rule) (\<lambda>rs.
     esxi_firewall_ruleset_to_dict api rs)))"

definition esxi_firewall_get_or_none :: "vmodl \<Rightarrow> pyval \<Rightarrow> pyval \<Rightarrow> profile \<Rightarrow> pyval io" where
  "esxi_firewall_get_or_none api opts rule profile =
     tryM
       (esxi_firewall_get api opts rule profile)
       (\<lambda>exc. if is_KeyError exc then pureM PNone else raiseM exc)"

definition esxi_firewall_set_enabled :: "vmodl \<Rightarrow> pyval \<Rightarrow> pyval \<Rightarrow> pyval \<Rightarrow> profile \<Rightarrow> pyval io" where
  "esxi_firewall_set_enabled api opts rule val profile =
     bindM (esxi_get_host_system api opts profile) (\<lambda>host.
     bindM (vpath api host [''configManager'', ''firewallSystem'']) (\<lambda>fw.
     bindM
       (if truthy val then
          bindM (vcall api fw ''EnableRuleset'' [] [(''id'', rule)]) (\<lambda>_.
          pureM ())
        else
          bindM (vcall api fw ''DisableRuleset'' [] [(''id'', rule)]) (\<lambda>_.
          pureM ())) (\<lambda>_.
     esxi_firewall_get api opts rule profile)))"

definition esxi_firewall_enabled :: "vmodl \<Rightarrow> pyval \<Rightarrow> profile \<Rightarrow> pyval io" where
  "esxi_firewall_enabled api opts profile =
     bindM (esxi_get_host_system api opts profile) (\<lambda>host.
     bindM
       (vpath api host [''configManager'', ''firewallSystem'', ''firewallInfo'', ''defaultPolicy'',
        ''incomingBlocked'']) (\<lambda>incomingBlocked.
     pureM (PBool (truthy incomingBlocked))))"

definition esxi_firewall_set_global_enabled :: "vmodl \<Rightarrow> pyval \<Rightarrow> pyval \<Rightarrow> profile \<Rightarrow> pyval io" where
  "esxi_firewall_set_global_enabled api opts val profile =
     bindM (esxi_get_host_system api opts profile) (\<lambda>host.
     bindM (vpath api host [''configManager'', ''firewallSystem'']) (\<lambda>fw.
     bindM
       (vnew api ''vim.host.FirewallInfo.DefaultPolicy'' [(''incomingBlocked'', PBool (truthy val)),
        (''outgoingBlocked'', PBool (truthy val))]) (\<lambda>policy.
     bindM (vcall api fw ''UpdateDefaultPolicy'' [] [(''defaultPolicy'', policy)]) (\<lambda>_.
     bindM
       (vpath api host [''configManager'', ''firewallSystem'', ''firewallInfo'', ''defaultPolicy'',
        ''incomingBlocked'']) (\<lambda>incomingBlocked.
     pureM (PBool (truthy incomingBlocked)))))))"

definition esxi_firewall_set_allowed_ips :: "vmodl \<Rightarrow> pyval \<Rightarrow> pyval \<Rightarrow> pyval
  \<Rightarrow> pyval \<Rightarrow> profile \<Rightarrow> pyval io" where
  "esxi_firewall_set_allowed_ips api opts rule allowed_ips all_ip profile =
     bindM (esxi_get_host_system api opts profile) (\<lambda>host.
     bindM (vpath api host [''configManager'', ''firewallSystem'']) (\<lambda>fw.
     bindM (liftR (py_iter allowed_ips)) (\<lambda>items2.
     bindM
       (vnew api ''vim.host.Ruleset.IpList'' [(''allIp'', PBool (truthy all_ip)), (''ipAddress'', PList items2)])
        (\<lambda>ipList.
     bindM (vnew api ''vim.host.Ruleset.RulesetSpec'' [(''allowedHosts'', ipList)]) (\<lambda>spec.
     bindM (vcall api fw ''UpdateRuleset'' [] [(''id'', rule), (''spec'', spec)]) (\<lambda>_.
     esxi_firewall_get api opts rule profile))))))"

subsection \<open>\<open>clients/esxi_host.py\<close>\<close>

definition esxi_host_LOCKDOWN_FROM_SOAP :: "dict" where
  "esxi_host_LOCKDOWN_FROM_SOAP =
     [(''lockdownDisabled'', PStr ''DISABLED''), (''lockdownNormal'', PStr ''NORMAL''), (''lockdownStrict'', PStr
       ''STRICT'')]"

definition esxi_host_LOCKDOWN_TO_SOAP :: "dict" where
  "esxi_host_LOCKDOWN_TO_SOAP =
     dupdate [] (map (\<lambda>(k, v). (py_str v, PStr k)) esxi_host_LOCKDOWN_FROM_SOAP)"

definition esxi_host_info :: "vmodl \<Rightarrow> pyval \<Rightarrow> profile \<Rightarrow> pyval io" where
  "esxi_host_info api opts profile =
     bindM (esxi_get_host_system api opts profile) (\<lambda>host.
     bindM (vget api host ''summary'') (\<lambda>summary.
     bindM (vget api host ''hardware'') (\<lambda>hardware.
     bindM (if truthy hardware then vpath api host [''hardware'', ''systemInfo''] else pureM PNone) (\<lambda>hw.
     bindM (vpath api summary [''config'', ''product'', ''version'']) (\<lambda>version.
     bindM (vpath api summary [''config'', ''product'', ''build'']) (\<lambda>build.
     bindM (vpath api summary [''config'', ''product'', ''name'']) (\<lambda>name.
     bindM (if truthy hw then vget api hw ''vendor'' else pureM PNone) (\<lambda>x2.
     bindM (if truthy hw then vget api hw ''model'' else pureM PNone) (\<lambda>x3.
     bindM (vpath api summary [''runtime'', ''inMaintenanceMode'']) (\<lambda>inMaintenanceMode.
     bindM (vpath api summary [''runtime'', ''connectionState'']) (\<lambda>connectionState.
     bindM (vpath api summary [''runtime'', ''powerState'']) (\<lambda>powerState.
     pureM (PDict [(''version'', version), (''build'', build), (''product_name'', name), (''vendor'', x2),
       (''model'', x3), (''in_maintenance_mode'', inMaintenanceMode), (''connection_state'', PStr (py_str
        connectionState)), (''power_state'', PStr (py_str powerState))])))))))))))))"

definition esxi_host_lockdown_get :: "vmodl \<Rightarrow> pyval \<Rightarrow> profile \<Rightarrow> pyval io" where
  "esxi_host_lockdown_get api opts profile =
     bindM (esxi_get_host_system api opts profile) (\<lambda>host.
     bindM (vpath api host [''configManager'', ''hostAccessManager'', ''lockdownMode'']) (\<lambda>lockdownMode.
     let soap_mode = py_str lockdownMode in
     pureM (PDict [(''mode'', dget esxi_host_LOCKDOWN_FROM_SOAP soap_mode (PStr soap_mode))])))"

definition esxi_host_lockdown_set :: "vmodl \<Rightarrow> pyval \<Rightarrow> pyval \<Rightarrow> pyval \<Rightarrow> profile \<Rightarrow> pyval io" where
  "esxi_host_lockdown_set api opts md exception_users profile =
     bindM (esxi_get_host_system api opts profile) (\<lambda>host.
     bindM (vpath api host [''configManager'', ''hostAccessManager'']) (\<lambda>mgr.
     bindM (liftR (py_lookup (PDict esxi_host_LOCKDOWN_TO_SOAP) md md)) (\<lambda>soap_mode.
     bindM (vcall api mgr ''ChangeLockdownMode'' [] [(''mode'', soap_mode)]) (\<lambda>_.
     bindM
       (if exception_users \<noteq> PNone then
          bindM (liftR (py_iter exception_users)) (\<lambda>items2.
          bindM (vcall api mgr ''UpdateLockdownExceptions'' [] [(''users'', PList items2)]) (\<lambda>_.
          pureM ()))
        else pureM ()) (\<lambda>_.
     esxi_host_lockdown_get api opts profile)))))"

definition esxi_host_enter_maintenance :: "vmodl \<Rightarrow> pyval \<Rightarrow> profile \<Rightarrow> pyval io" where
  "esxi_host_enter_maintenance api opts profile =
     bindM (esxi_get_host_system api opts profile) (\<lambda>host.
     bindM (vcall api host ''EnterMaintenanceMode_Task'' [] [(''timeout'', PInt 0)]) (\<lambda>_.
     pureM (PDict [(''status'', PStr ''entering maintenance'')])))"

definition esxi_host_exit_maintenance :: "vmodl \<Rightarrow> pyval \<Rightarrow> profile \<Rightarrow> pyval io" where
  "esxi_host_exit_maintenance api opts profile =
     bindM (esxi_get_host_system api opts profile) (\<lambda>host.
     bindM (vcall api host ''ExitMaintenanceMode_Task'' [] [(''timeout'', PInt 0)]) (\<lambda>_.
     pureM (PDict [(''status'', PStr ''exiting maintenance'')])))"

definition esxi_host_reboot :: "vmodl \<Rightarrow> pyval \<Rightarrow> pyval \<Rightarrow> profile \<Rightarrow> pyval io" where
  "esxi_host_reboot api opts force profile =
     bindM (esxi_get_host_system api opts profile) (\<lambda>host.
     bindM (vcall api host ''RebootHost_Task'' [] [(''force'', PBool (truthy force))]) (\<lambda>_.
     pureM (PDict [(''status'', PStr ''rebooting'')])))"

definition esxi_host_shutdown :: "vmodl \<Rightarrow> pyval \<Rightarrow> pyval \<Rightarrow> profile \<Rightarrow> pyval io" where
  "esxi_host_shutdown api opts force profile =
     bindM (esxi_get_host_system api opts profile) (\<lambda>host.
     bindM (vcall api host ''ShutdownHost_Task'' [] [(''force'', PBool (truthy force))]) (\<lambda>_.
     pureM (PDict [(''status'', PStr ''shutting down'')])))"

definition esxi_host_is_in_maintenance :: "pyval \<Rightarrow> pyval io" where
  "esxi_host_is_in_maintenance host_info =
     bindM (liftR (py_get host_info ''in_maintenance_mode'' PNone)) (\<lambda>in_maintenance_mode.
     let x = PBool (truthy in_maintenance_mode) in
     if truthy x then pureM x
     else
       bindM (liftR (py_get host_info ''connection_state'' PNone)) (\<lambda>connection_state.
       pureM (PBool (py_eq connection_state (PStr ''MAINTENANCE'')))))"

subsection \<open>\<open>clients/esxi_ad_auth.py\<close>\<close>

definition esxi_ad_auth_host :: "vmodl \<Rightarrow> pyval \<Rightarrow> pyval \<Rightarrow> profile \<Rightarrow> pyval io" where
  "esxi_ad_auth_host api opts host profile = vim_resolve_host_system api opts host profile"

definition esxi_ad_auth_ad_mgr :: "vmodl \<Rightarrow> pyval \<Rightarrow> pyval io" where
  "esxi_ad_auth_ad_mgr api h =
     bindM (vget api h ''configManager'') (\<lambda>configManager.
     vget_or api configManager ''activeDirectoryAuthentication'' PNone)"

definition esxi_ad_auth_ad_info :: "vmodl \<Rightarrow> pyval \<Rightarrow> pyval io" where
  "esxi_ad_auth_ad_info api h =
     bindM (esxi_ad_auth_ad_mgr api h) (\<lambda>mgr.
     if mgr = PNone then pureM PNone
     else
       tryM
         (vget api mgr ''info'')
         (\<lambda>exc. if is_AttributeError exc \<or> is_ConnError exc \<or> is_fault api ''vim.fault.VimFault''
        exc \<or> is_fault api ''vmodl.MethodFault'' exc then
             pureM PNone
           else raiseM exc))"

definition esxi_ad_auth_get_ad_state :: "vmodl \<Rightarrow> pyval \<Rightarrow> pyval \<Rightarrow> profile \<Rightarrow> pyval io" where
  "esxi_ad_auth_get_ad_state api opts host profile =
     bindM (esxi_ad_auth_host api opts host profile) (\<lambda>h.
     bindM (esxi_ad_auth_ad_info api h) (\<lambda>info.
     if info = PNone then
       pureM (PDict [(''joined'', PBool False), (''domain'', PNone), (''trusted_domains'', PList []),
        (''membership_status'', PNone), (''smb_file_shares'', PNone)])
     else
       bindM (vget_or api info ''joinedDomain'' PNone) (\<lambda>joinedDomain.
       let joined_domain = py_or joinedDomain PNone in
       bindM (vget_or api info ''trustedDomain'' PNone) (\<lambda>trustedDomain.
       bindM (liftR (py_iter (py_or trustedDomain (PList [])))) (\<lambda>items2.
       bindM (vget_or api info ''domainMembershipStatus'' PNone) (\<lambda>domainMembershipStatus.
       bindM (vget_or api info ''smbFileShares'' PNone) (\<lambda>smbFileShares.
       pureM (PDict [(''joined'', PBool (truthy joined_domain)), (''domain'', joined_domain), (''trusted_domains'',
        PList items2), (''membership_status'', py_or domainMembershipStatus PNone), (''smb_file_shares'',
        smbFileShares)]))))))))"

definition esxi_ad_auth_require_ad_mgr :: "vmodl \<Rightarrow> pyval \<Rightarrow> pyval io" where
  "esxi_ad_auth_require_ad_mgr api h =
     bindM (esxi_ad_auth_ad_mgr api h) (\<lambda>mgr.
     if mgr = PNone then
       raiseM (RuntimeError
        ''Host does not expose configManager.activeDirectoryAuthentication; the ESXi build may not support native AD join.'')
     else pureM mgr)"

definition esxi_ad_auth_join_domain :: "vmodl \<Rightarrow> pyval \<Rightarrow> pyval \<Rightarrow> pyval
  \<Rightarrow> pyval \<Rightarrow> pyval \<Rightarrow> profile \<Rightarrow> pyval io" where
  "esxi_ad_auth_join_domain api opts host domain_name username password profile =
     bindM (esxi_ad_auth_host api opts host profile) (\<lambda>h.
     bindM (esxi_ad_auth_require_ad_mgr api h) (\<lambda>require_ad_mgr2.
     bindM
       (vcall api require_ad_mgr2 ''JoinDomain_Task'' [] [(''domainName'', domain_name), (''userName'', username),
        (''password'', password)]) (\<lambda>task.
     vget api task ''_moId'')))"

definition esxi_ad_auth_leave_domain :: "vmodl \<Rightarrow> pyval \<Rightarrow> pyval \<Rightarrow> pyval \<Rightarrow> profile \<Rightarrow> pyval io" where
  "esxi_ad_auth_leave_domain api opts host force profile =
     bindM (esxi_ad_auth_host api opts host profile) (\<lambda>h.
     bindM (esxi_ad_auth_require_ad_mgr api h) (\<lambda>require_ad_mgr2.
     bindM
       (vcall api require_ad_mgr2 ''LeaveCurrentDomain_Task'' [] [(''force'', PBool (truthy force))])
        (\<lambda>task.
     vget api task ''_moId'')))"

subsection \<open>\<open>clients/esxi_auth_proxy.py\<close>\<close>

definition esxi_auth_proxy_CAM_ADDRESS_KEY :: "string" where
  "esxi_auth_proxy_CAM_ADDRESS_KEY =
    ''Config.HostAgent.plugins.vmauthenticationservice.authproxyaddress''"

definition esxi_auth_proxy_CAM_VERIFY_KEY :: "string" where
  "esxi_auth_proxy_CAM_VERIFY_KEY = ''UserVars.ActiveDirectoryVerifyCAMCertificate''"

definition esxi_auth_proxy_host :: "vmodl \<Rightarrow> pyval \<Rightarrow> pyval \<Rightarrow> profile \<Rightarrow> pyval io" where
  "esxi_auth_proxy_host api opts host profile = vim_resolve_host_system api opts host profile"

definition esxi_auth_proxy_advanced_get :: "vmodl \<Rightarrow> pyval \<Rightarrow> pyval \<Rightarrow> pyval io" where
  "esxi_auth_proxy_advanced_get api h key =
     attempt (\<lambda>exc. is_fault api ''vim.fault.VimFault'' exc \<or> is_fault api ''vmodl.MethodFault'' exc)
       (bindM (vpath api h [''configManager'', ''advancedOption'']) (\<lambda>advancedOption.
        vcall api advancedOption ''QueryOptions'' [] [(''name'', key)]))
       (\<lambda>options.
        if \<not> truthy options then pureM PNone
        else bindM (liftR (py_first options)) (\<lambda>first.
             vget api first ''value''))
       (\<lambda>_.
        pureM PNone)"

definition esxi_auth_proxy_advanced_set :: "vmodl \<Rightarrow> pyval \<Rightarrow> pyval \<Rightarrow> pyval \<Rightarrow> pyval io" where
  "esxi_auth_proxy_advanced_set api h key val =
     bindM (vpath api h [''configManager'', ''advancedOption'']) (\<lambda>advancedOption.
     bindM (vnew api ''vim.option.OptionValue'' [(''key'', key), (''value'', val)]) (\<lambda>optionValue.
     bindM (vcall api advancedOption ''UpdateValues'' [] [(''changedValue'', PList [optionValue])]) (\<lambda>_.
     pureM PNone)))"

definition esxi_auth_proxy_ad_state :: "vmodl \<Rightarrow> pyval \<Rightarrow> pyval io" where
  "esxi_auth_proxy_ad_state api h =
     bindM (vpath api h [''configManager'', ''authenticationManager'']) (\<lambda>auth_mgr.
     bindM (vget_or api auth_mgr ''info'' PNone) (\<lambda>info.
     bindM (if info \<noteq> PNone then vget_or api info ''authConfig'' PNone else pureM PNone) (\<lambda>stores.
     bindM
       (if stores = PNone then
          bindM (vget api h ''config'') (\<lambda>config.
          bindM
            (if truthy config then
               bindM (vget api h ''config'') (\<lambda>config2.
               vget_or api config2 ''authenticationManagerInfo'' PNone)
             else pureM PNone) (\<lambda>info.
          if info \<noteq> PNone then vget_or api info ''authConfig'' PNone else pureM PNone))
        else pureM stores) (\<lambda>stores.
     bindM (liftR (py_iter (py_or stores (PList [])))) (\<lambda>items.
     or_else
       (first_of (\<lambda>store.
          if is_instance api store ''vim.host.ActiveDirectoryInfo'' then
            bindM (vget api store ''enabled'') (\<lambda>enabled.
            bindM (vget api store ''joinedDomain'') (\<lambda>joinedDomain.
            pureM (Some (PDict [(''joined'', PBool (truthy enabled)), (''domain'', py_or joinedDomain
        PNone)]))))
          else pureM None) items)
       (pureM (PDict [(''joined'', PBool False), (''domain'', PNone)])))))))"

definition esxi_auth_proxy_get_config :: "vmodl \<Rightarrow> pyval \<Rightarrow> pyval \<Rightarrow> profile \<Rightarrow> pyval io" where
  "esxi_auth_proxy_get_config api opts host profile =
     bindM (esxi_auth_proxy_host api opts host profile) (\<lambda>h.
     bindM (esxi_auth_proxy_advanced_get api h (PStr esxi_auth_proxy_CAM_VERIFY_KEY)) (\<lambda>verify_raw.
     bindM
       (if verify_raw = PNone then pureM PNone
        else bindM (liftR (py_int verify_raw)) (\<lambda>n.
             pureM (PBool (n \<noteq> 0)))) (\<lambda>verify_bool.
     bindM (esxi_auth_proxy_advanced_get api h (PStr esxi_auth_proxy_CAM_ADDRESS_KEY)) (\<lambda>advanced_get2.
     bindM (esxi_auth_proxy_ad_state api h) (\<lambda>ad_state2.
     bindM (liftR (py_spread ad_state2)) (\<lambda>entries.
     pureM (PDict (dupdate [(''cam_address'', py_or advanced_get2 PNone), (''verify_cam_cert'', verify_bool)]
       entries))))))))"

definition esxi_auth_proxy_set_config :: "vmodl \<Rightarrow> pyval \<Rightarrow> pyval \<Rightarrow> pyval
  \<Rightarrow> pyval \<Rightarrow> profile \<Rightarrow> pyval io" where
  "esxi_auth_proxy_set_config api opts host cam_address verify_cam_cert profile =
     bindM (esxi_auth_proxy_host api opts host profile) (\<lambda>h.
     bindM
       (if cam_address \<noteq> PNone then
          bindM
            (esxi_auth_proxy_advanced_set api h (PStr esxi_auth_proxy_CAM_ADDRESS_KEY) (PStr (py_str cam_address)))
        (\<lambda>_.
          pureM ())
        else pureM ()) (\<lambda>_.
     bindM
       (if verify_cam_cert \<noteq> PNone then
          bindM
            (esxi_auth_proxy_advanced_set api h (PStr esxi_auth_proxy_CAM_VERIFY_KEY) (PInt (if truthy
        verify_cam_cert then 1 else 0))) (\<lambda>_.
          pureM ())
        else pureM ()) (\<lambda>_.
     esxi_auth_proxy_get_config api opts host profile)))"

definition esxi_auth_proxy_join_domain_via_cam :: "vmodl \<Rightarrow> pyval \<Rightarrow> pyval \<Rightarrow> pyval
  \<Rightarrow> pyval \<Rightarrow> profile \<Rightarrow> pyval io" where
  "esxi_auth_proxy_join_domain_via_cam api opts host domain_name cam_server profile =
     bindM (esxi_auth_proxy_host api opts host profile) (\<lambda>h.
     bindM (vpath api h [''configManager'', ''authenticationManager'']) (\<lambda>authenticationManager.
     bindM
       (vcall api authenticationManager ''JoinDomainWithCAM_Task'' [] [(''domainName'', domain_name),
        (''camServer'', cam_server)]) (\<lambda>task.
     vget api task ''_moId'')))"

definition esxi_auth_proxy_leave_domain :: "vmodl \<Rightarrow> pyval \<Rightarrow> pyval \<Rightarrow> pyval \<Rightarrow> profile \<Rightarrow> pyval io" where
  "esxi_auth_proxy_leave_domain api opts host force profile =
     bindM (esxi_auth_proxy_host api opts host profile) (\<lambda>h.
     bindM (vpath api h [''configManager'', ''authenticationManager'']) (\<lambda>authenticationManager.
     bindM
       (vcall api authenticationManager ''LeaveCurrentDomain_Task'' [] [(''force'', PBool (truthy force))])
        (\<lambda>task.
     vget api task ''_moId'')))"

subsection \<open>\<open>clients/vim_host_acceptance.py\<close>\<close>

definition vim_host_acceptance_host :: "vmodl \<Rightarrow> pyval \<Rightarrow> pyval \<Rightarrow> profile \<Rightarrow> pyval io" where
  "vim_host_acceptance_host api opts name_or_id profile =
     bindM (vim_content api opts profile) (\<lambda>content.
     bindM (vget api content ''viewManager'') (\<lambda>viewManager.
     bindM (vget api content ''rootFolder'') (\<lambda>rootFolder.
     bindM
       (vcall api viewManager ''CreateContainerView'' [rootFolder, PList [PStr ''vim.HostSystem''], PBool True] [])
        (\<lambda>container.
     or_else
       (finallyM
          (bindM (vget api container ''view'') (\<lambda>view.
           bindM (liftR (py_iter view)) (\<lambda>items.
           first_of (\<lambda>h.
             bindM (vget api h ''_moId'') (\<lambda>moId.
             bindM (vget api h ''name'') (\<lambda>name.
             if list_ex (py_eq name_or_id) [moId, name] then pureM (Some h) else pureM None))) items)))
          (bindM (vcall api container ''Destroy'' [] []) (\<lambda>_.
           pureM ())))
       (raiseM (LookupError (''host '' @ py_repr name_or_id @ '' not found'')))))))"

definition vim_host_acceptance_icm :: "vmodl \<Rightarrow> pyval \<Rightarrow> pyval io" where
  "vim_host_acceptance_icm api host =
     bindM (vpath api host [''configManager'', ''imageConfigManager'']) (\<lambda>icm.
     if icm = PNone then
       bindM (vget api host ''name'') (\<lambda>name.
       raiseM (RuntimeError (''host '' @ py_repr name @ '' has no imageConfigManager'')))
     else pureM icm)"

definition vim_host_acceptance_get :: "vmodl \<Rightarrow> pyval \<Rightarrow> pyval \<Rightarrow> profile \<Rightarrow> pyval io" where
  "vim_host_acceptance_get api opts host profile =
     bindM (vim_host_acceptance_host api opts host profile) (\<lambda>host2.
     bindM (vim_host_acceptance_icm api host2) (\<lambda>icm2.
     vcall api icm2 ''HostImageConfigGetAcceptance'' [] []))"

definition vim_host_acceptance_set :: "vmodl \<Rightarrow> pyval \<Rightarrow> pyval \<Rightarrow> pyval \<Rightarrow> profile \<Rightarrow> pyval io" where
  "vim_host_acceptance_set api opts host level profile =
     bindM (vim_host_acceptance_host api opts host profile) (\<lambda>host2.
     bindM (vim_host_acceptance_icm api host2) (\<lambda>icm2.
     bindM (vcall api icm2 ''HostImageConfigSetAcceptance'' [] [(''newAcceptanceLevel'', level)]) (\<lambda>_.
     pureM level)))"

subsection \<open>\<open>clients/vim_host_certificate.py\<close>\<close>

definition vim_host_certificate_host :: "vmodl \<Rightarrow> pyval \<Rightarrow> pyval \<Rightarrow> profile \<Rightarrow> pyval io" where
  "vim_host_certificate_host api opts name_or_id profile =
     bindM (vim_content api opts profile) (\<lambda>content.
     bindM (vget api content ''viewManager'') (\<lambda>viewManager.
     bindM (vget api content ''rootFolder'') (\<lambda>rootFolder.
     bindM
       (vcall api viewManager ''CreateContainerView'' [rootFolder, PList [PStr ''vim.HostSystem''], PBool True] [])
        (\<lambda>container.
     or_else
       (finallyM
          (bindM (vget api container ''view'') (\<lambda>view.
           bindM (liftR (py_iter view)) (\<lambda>items.
           first_of (\<lambda>h.
             bindM (vget api h ''_moId'') (\<lambda>moId.
             bindM (vget api h ''name'') (\<lambda>name.
             if list_ex (py_eq name_or_id) [moId, name] then pureM (Some h) else pureM None))) items)))
          (bindM (vcall api container ''Destroy'' [] []) (\<lambda>_.
           pureM ())))
       (raiseM (LookupError (''host '' @ py_repr name_or_id @ '' not found'')))))))"

definition vim_host_certificate_cm :: "vmodl \<Rightarrow> pyval \<Rightarrow> pyval io" where
  "vim_host_certificate_cm api host =
     bindM (vpath api host [''configManager'', ''certificateManager'']) (\<lambda>cm.
     if cm = PNone then
       bindM (vget api host ''name'') (\<lambda>name.
       raiseM (RuntimeError (''host '' @ py_repr name @ '' has no certificateManager'')))
     else pureM cm)"

definition vim_host_certificate_generate_csr :: "vmodl \<Rightarrow> pyval \<Rightarrow> pyval \<Rightarrow> pyval \<Rightarrow> profile \<Rightarrow> pyval io" where
  "vim_host_certificate_generate_csr api opts host useip profile =
     bindM (vim_host_certificate_host api opts host profile) (\<lambda>h.
     bindM (vim_host_certificate_cm api h) (\<lambda>cm2.
     vcall api cm2 ''GenerateCertificateSigningRequest'' [] [(''useIpAddressAsCommonName'', PBool (truthy
       useip))]))"

definition vim_host_certificate_install_cert :: "vmodl \<Rightarrow> pyval \<Rightarrow> pyval \<Rightarrow> pyval \<Rightarrow> profile \<Rightarrow> pyval io" where
  "vim_host_certificate_install_cert api opts host cert_pem profile =
     bindM (vim_host_certificate_host api opts host profile) (\<lambda>h.
     bindM (vim_host_certificate_cm api h) (\<lambda>cm2.
     bindM (vcall api cm2 ''InstallServerCertificate'' [] [(''cert'', cert_pem)]) (\<lambda>_.
     pureM (PBool True))))"

definition vim_host_certificate_refresh_cert :: "vmodl \<Rightarrow> pyval \<Rightarrow> pyval \<Rightarrow> profile \<Rightarrow> pyval io" where
  "vim_host_certificate_refresh_cert api opts host profile =
     bindM (vim_host_certificate_host api opts host profile) (\<lambda>h.
     bindM (vim_host_certificate_cm api h) (\<lambda>cm2.
     bindM (vcall api cm2 ''RefreshCertificate'' [] []) (\<lambda>_.
     pureM (PBool True))))"

definition vim_host_certificate_refresh_ca_bundle :: "vmodl \<Rightarrow> pyval \<Rightarrow> pyval \<Rightarrow> profile \<Rightarrow> pyval io" where
  "vim_host_certificate_refresh_ca_bundle api opts host profile =
     bindM (vim_host_certificate_host api opts host profile) (\<lambda>h.
     bindM (vim_host_certificate_cm api h) (\<lambda>cm2.
     bindM (vcall api cm2 ''RefreshCACertificates'' [] []) (\<lambda>_.
     pureM (PBool True))))"

subsection \<open>\<open>clients/vim_host_config.py\<close>\<close>

definition vim_host_config_host :: "vmodl \<Rightarrow> pyval \<Rightarrow> pyval \<Rightarrow> profile \<Rightarrow> pyval io" where
  "vim_host_config_host api opts host_id_or_name profile =
     bindM (vim_content api opts profile) (\<lambda>content.
     bindM (vget api content ''viewManager'') (\<lambda>viewManager.
     bindM (vget api content ''rootFolder'') (\<lambda>rootFolder.
     bindM
       (vcall api viewManager ''CreateContainerView'' [rootFolder, PList [PStr ''vim.HostSystem''], PBool True] [])
        (\<lambda>container.
     or_else
       (finallyM
          (bindM (vget api container ''view'') (\<lambda>view.
           bindM (liftR (py_iter view)) (\<lambda>items.
           first_of (\<lambda>host.
             bindM (vget api host ''_moId'') (\<lambda>moId.
             bindM (vget api host ''name'') (\<lambda>name.
             if list_ex (py_eq host_id_or_name) [moId, name] then pureM (Some host) else pureM None)))
        items)))
          (bindM (vcall api container ''Destroy'' [] []) (\<lambda>_.
           pureM ())))
       (raiseM (LookupError (''host '' @ py_repr host_id_or_name @ '' not found'')))))))"

definition vim_host_config_ntp_get :: "vmodl \<Rightarrow> pyval \<Rightarrow> pyval \<Rightarrow> profile \<Rightarrow> pyval io" where
  "vim_host_config_ntp_get api opts host profile =
     bindM (vim_host_config_host api opts host profile) (\<lambda>h.
     bindM (vpath api h [''config'', ''dateTimeInfo'']) (\<lambda>date_time_info.
     bindM (vget api date_time_info ''ntpConfig'') (\<lambda>ntpConfig.
     bindM
       (if truthy ntpConfig then
          bindM (vpath api date_time_info [''ntpConfig'', ''server'']) (\<lambda>server.
          liftR (py_iter (py_or server (PList []))))
        else pureM []) (\<lambda>servers.
     bindM (vpath api h [''config'', ''service'', ''service'']) (\<lambda>service.
     let services = py_or service (PList []) in
     bindM (liftR (py_iter services)) (\<lambda>items3.
     bindM
       (first_of (\<lambda>s.
          bindM (vget api s ''key'') (\<lambda>key.
          if py_eq key (PStr ''ntpd'') then pureM (Some s) else pureM None)) items3) (\<lambda>found.
     let ntpd = the_default PNone found in
     bindM
       (if truthy ntpd then
          bindM (vget api ntpd ''running'') (\<lambda>running.
          pureM (truthy running))
        else pureM False) (\<lambda>x2.
     bindM (if truthy ntpd then vget api ntpd ''policy'' else pureM (PStr ''off'')) (\<lambda>x3.
     pureM (PDict [(''servers'', PList servers), (''enabled'', PBool x2), (''policy'', x3)]))))))))))"

definition vim_host_config_ntp_set_servers :: "vmodl \<Rightarrow> pyval \<Rightarrow> pyval \<Rightarrow> pyval \<Rightarrow> profile \<Rightarrow> pyval io" where
  "vim_host_config_ntp_set_servers api opts host servers profile =
     bindM (vim_host_config_host api opts host profile) (\<lambda>h.
     bindM (liftR (py_iter servers)) (\<lambda>items2.
     bindM (vnew api ''vim.host.NtpConfig'' [(''server'', PList items2)]) (\<lambda>cfg.
     bindM (vnew api ''vim.host.DateTimeConfig'' [(''ntpConfig'', cfg)]) (\<lambda>spec.
     bindM (vpath api h [''configManager'', ''dateTimeSystem'']) (\<lambda>dateTimeSystem.
     bindM (vcall api dateTimeSystem ''UpdateDateTimeConfig'' [] [(''config'', spec)]) (\<lambda>_.
     pureM PNone))))))"

definition vim_host_config_ntp_set_running :: "vmodl \<Rightarrow> pyval \<Rightarrow> pyval \<Rightarrow> pyval \<Rightarrow> profile \<Rightarrow> pyval io" where
  "vim_host_config_ntp_set_running api opts host running profile =
     bindM (vim_host_config_host api opts host profile) (\<lambda>h.
     bindM (vpath api h [''configManager'', ''serviceSystem'']) (\<lambda>svc.
     bindM
       (if truthy running then
          bindM (vcall api svc ''StartService'' [] [(''id'', PStr ''ntpd'')]) (\<lambda>_.
          pureM ())
        else
          bindM (vcall api svc ''StopService'' [] [(''id'', PStr ''ntpd'')]) (\<lambda>_.
          pureM ())) (\<lambda>_.
     pureM PNone)))"

definition vim_host_config_ntp_set_policy :: "vmodl \<Rightarrow> pyval \<Rightarrow> pyval \<Rightarrow> pyval \<Rightarrow> profile \<Rightarrow> pyval io" where
  "vim_host_config_ntp_set_policy api opts host policy profile =
     bindM (vim_host_config_host api opts host profile) (\<lambda>h.
     bindM (vpath api h [''configManager'', ''serviceSystem'']) (\<lambda>serviceSystem.
     bindM
       (vcall api serviceSystem ''UpdateServicePolicy'' [] [(''id'', PStr ''ntpd''), (''policy'', policy)])
        (\<lambda>_.
     pureM PNone)))"

definition vim_host_config_service_list :: "vmodl \<Rightarrow> pyval \<Rightarrow> pyval \<Rightarrow> profile \<Rightarrow> pyval io" where
  "vim_host_config_service_list api opts host profile =
     bindM (vim_host_config_host api opts host profile) (\<lambda>h.
     let out = [] in
     bindM (vpath api h [''config'', ''service'', ''service'']) (\<lambda>service.
     bindM (liftR (py_iter (py_or service (PList [])))) (\<lambda>items.
     bindM
       (foldM (\<lambda>svc out.
          bindM (vget api svc ''key'') (\<lambda>key.
          bindM (vget api svc ''label'') (\<lambda>label.
          bindM (vget api svc ''running'') (\<lambda>running.
          bindM (vget api svc ''policy'') (\<lambda>policy.
          bindM (vget api svc ''required'') (\<lambda>required.
          bindM (vget api svc ''uninstallable'') (\<lambda>uninstallable.
          pureM (out @ [PDict [(''key'', key), (''label'', label), (''running'', PBool (truthy running)),
        (''policy'', policy), (''required'', PBool (truthy required)), (''uninstallable'', PBool (truthy
        uninstallable))]])))))))) items out) (\<lambda>out.
     pureM (PList out)))))"

definition vim_host_config_service_start :: "vmodl \<Rightarrow> pyval \<Rightarrow> pyval \<Rightarrow> pyval \<Rightarrow> profile \<Rightarrow> pyval io" where
  "vim_host_config_service_start api opts host service_id profile =
     bindM (vim_host_config_host api opts host profile) (\<lambda>host2.
     bindM (vpath api host2 [''configManager'', ''serviceSystem'']) (\<lambda>serviceSystem.
     bindM (vcall api serviceSystem ''StartService'' [] [(''id'', service_id)]) (\<lambda>_.
     pureM PNone)))"

definition vim_host_config_service_stop :: "vmodl \<Rightarrow> pyval \<Rightarrow> pyval \<Rightarrow> pyval \<Rightarrow> profile \<Rightarrow> pyval io" where
  "vim_host_config_service_stop api opts host service_id profile =
     bindM (vim_host_config_host api opts host profile) (\<lambda>host2.
     bindM (vpath api host2 [''configManager'', ''serviceSystem'']) (\<lambda>serviceSystem.
     bindM (vcall api serviceSystem ''StopService'' [] [(''id'', service_id)]) (\<lambda>_.
     pureM PNone)))"

definition vim_host_config_service_restart :: "vmodl \<Rightarrow> pyval \<Rightarrow> pyval \<Rightarrow> pyval \<Rightarrow> profile \<Rightarrow> pyval io" where
  "vim_host_config_service_restart api opts host service_id profile =
     bindM (vim_host_config_host api opts host profile) (\<lambda>host2.
     bindM (vpath api host2 [''configManager'', ''serviceSystem'']) (\<lambda>serviceSystem.
     bindM (vcall api serviceSystem ''RestartService'' [] [(''id'', service_id)]) (\<lambda>_.
     pureM PNone)))"

definition vim_host_config_service_set_policy :: "vmodl \<Rightarrow> pyval \<Rightarrow> pyval \<Rightarrow> pyval
  \<Rightarrow> pyval \<Rightarrow> profile \<Rightarrow> pyval io" where
  "vim_host_config_service_set_policy api opts host service_id policy profile =
     bindM (vim_host_config_host api opts host profile) (\<lambda>host2.
     bindM (vpath api host2 [''configManager'', ''serviceSystem'']) (\<lambda>serviceSystem.
     bindM
       (vcall api serviceSystem ''UpdateServicePolicy'' [] [(''id'', service_id), (''policy'', policy)])
        (\<lambda>_.
     pureM PNone)))"

definition vim_host_config_ad_status :: "vmodl \<Rightarrow> pyval \<Rightarrow> pyval \<Rightarrow> profile \<Rightarrow> pyval io" where
  "vim_host_config_ad_status api opts host profile =
     bindM (vim_host_config_host api opts host profile) (\<lambda>h.
     bindM (vpath api h [''config'', ''authenticationManagerInfo'']) (\<lambda>auth_info.
     if \<not> truthy auth_info then
       pureM (PDict [(''joined'', PBool False), (''domain'', PNone), (''trust_status'', PNone)])
     else
       bindM (vget api auth_info ''authConfig'') (\<lambda>authConfig.
       bindM (liftR (py_iter (py_or authConfig (PList [])))) (\<lambda>items.
       or_else
         (first_of (\<lambda>store.
            if is_instance api store ''vim.host.ActiveDirectoryInfo'' then
              bindM (vget api store ''enabled'') (\<lambda>enabled.
              bindM (vget api store ''joinedDomain'') (\<lambda>joinedDomain.
              bindM (vget api store ''trustedDomain'') (\<lambda>trustedDomain.
              bindM
                (if truthy trustedDomain then
                   bindM (vget api store ''trustedDomain'') (\<lambda>trustedDomain2.
                   pureM (PStr (py_str trustedDomain2)))
                 else pureM PNone) (\<lambda>x.
              pureM (Some (PDict [(''joined'', enabled), (''domain'', py_or joinedDomain PNone), (''trust_status'',
        x)]))))))
            else pureM None) items)
         (pureM (PDict [(''joined'', PBool False), (''domain'', PNone), (''trust_status'', PNone)]))))))"

definition vim_host_config_ad_join ::
  "vmodl \<Rightarrow> pyval \<Rightarrow> pyval \<Rightarrow> pyval \<Rightarrow> pyval \<Rightarrow> pyval \<Rightarrow> pyval \<Rightarrow> profile \<Rightarrow> pyval io" where
  "vim_host_config_ad_join api opts host domain username password ou_path profile =
     bindM (vim_host_config_host api opts host profile) (\<lambda>h.
     bindM (vpath api h [''configManager'', ''authenticationManager'']) (\<lambda>auth_mgr.
     bindM
       (vcall api auth_mgr ''JoinDomain_Task'' [] [(''domainName'', domain), (''userName'', username),
        (''password'', password)]) (\<lambda>task.
     vget api task ''_moId'')))"

definition vim_host_config_ad_leave :: "vmodl \<Rightarrow> pyval \<Rightarrow> pyval \<Rightarrow> pyval \<Rightarrow> profile \<Rightarrow> pyval io" where
  "vim_host_config_ad_leave api opts host force profile =
     bindM (vim_host_config_host api opts host profile) (\<lambda>h.
     bindM (vpath api h [''configManager'', ''authenticationManager'']) (\<lambda>authenticationManager.
     bindM
       (vcall api authenticationManager ''LeaveCurrentDomain_Task'' [] [(''force'', PBool (truthy force))])
        (\<lambda>task.
     vget api task ''_moId'')))"

definition vim_host_config_advanced_get :: "vmodl \<Rightarrow> pyval \<Rightarrow> pyval \<Rightarrow> pyval \<Rightarrow> profile \<Rightarrow> pyval io" where
  "vim_host_config_advanced_get api opts host key profile =
     bindM (vim_host_config_host api opts host profile) (\<lambda>h.
     bindM
       (if truthy key then
          bindM (vpath api h [''configManager'', ''advancedOption'']) (\<lambda>advancedOption.
          vcall api advancedOption ''QueryOptions'' [] [(''name'', key)])
        else vpath api h [''configManager'', ''advancedOption'', ''setting'']) (\<lambda>settings.
     if truthy key then
       if \<not> truthy settings then
         raiseM (LookupError (''advanced setting '' @ py_repr key @ '' not found''))
       else
         bindM (liftR (py_first settings)) (\<lambda>first.
         vget api first ''value'')
     else
       bindM (liftR (py_iter (py_or settings (PList [])))) (\<lambda>items.
       bindM
         (mapM (\<lambda>s.
            bindM (vget api s ''key'') (\<lambda>key2.
            bindM (liftR (str_key key2)) (\<lambda>k.
            bindM (vget api s ''value'') (\<lambda>val2.
            pureM (k, val2))))) items) (\<lambda>entries.
       pureM (PDict (dupdate [] entries))))))"

definition vim_host_config_advanced_set :: "vmodl \<Rightarrow> pyval \<Rightarrow> pyval \<Rightarrow> pyval
  \<Rightarrow> pyval \<Rightarrow> profile \<Rightarrow> pyval io" where
  "vim_host_config_advanced_set api opts host key val profile =
     bindM (vim_host_config_host api opts host profile) (\<lambda>h.
     bindM (vnew api ''vim.option.OptionValue'' [(''key'', key), (''value'', val)]) (\<lambda>opt.
     bindM (vpath api h [''configManager'', ''advancedOption'']) (\<lambda>advancedOption.
     bindM (vcall api advancedOption ''UpdateOptions'' [] [(''changedValue'', PList [opt])]) (\<lambda>_.
     pureM PNone))))"

subsection \<open>\<open>clients/vim_host_datastore.py\<close>\<close>

definition vim_host_datastore_resolve_host :: "vmodl \<Rightarrow> pyval \<Rightarrow> pyval \<Rightarrow> profile \<Rightarrow> pyval io" where
  "vim_host_datastore_resolve_host api opts name_or_id profile =
     vim_resolve_host_system api opts name_or_id profile"

definition vim_host_datastore_list :: "vmodl \<Rightarrow> pyval \<Rightarrow> pyval \<Rightarrow> profile \<Rightarrow> pyval io" where
  "vim_host_datastore_list api opts host profile =
     bindM (vim_host_datastore_resolve_host api opts host profile) (\<lambda>h.
     let out = [] in
     bindM (vget api h ''datastore'') (\<lambda>datastore.
     bindM (liftR (py_iter (py_or datastore (PList [])))) (\<lambda>items.
     bindM
       (foldM (\<lambda>ds out.
          bindM (vget api ds ''summary'') (\<lambda>summary.
          bindM (vget api ds ''_moId'') (\<lambda>moId.
          bindM (vget api summary ''name'') (\<lambda>name.
          bindM (vget api summary ''type'') (\<lambda>kind.
          bindM (vget api summary ''url'') (\<lambda>url.
          bindM (vget api summary ''capacity'') (\<lambda>capacity.
          bindM (liftR (py_int capacity)) (\<lambda>n.
          bindM (vget api summary ''freeSpace'') (\<lambda>freeSpace.
          bindM (liftR (py_int freeSpace)) (\<lambda>n2.
          bindM (vget api summary ''accessible'') (\<lambda>accessible.
          pureM (out @ [PDict [(''moid'', moId), (''name'', name), (''type'', kind), (''url'', url),
        (''capacity_bytes'', PInt n), (''free_bytes'', PInt n2), (''accessible'', PBool (truthy
        accessible))]])))))))))))) items out) (\<lambda>out.
     pureM (PList out)))))"

definition vim_host_datastore_list_available_vmfs_disks :: "vmodl \<Rightarrow> pyval \<Rightarrow> pyval
  \<Rightarrow> profile \<Rightarrow> pyval io" where
  "vim_host_datastore_list_available_vmfs_disks api opts host profile =
     bindM (vim_host_datastore_resolve_host api opts host profile) (\<lambda>h.
     let out = [] in
     bindM (vpath api h [''configManager'', ''datastoreSystem'']) (\<lambda>datastoreSystem.
     bindM (vcall api datastoreSystem ''QueryAvailableDisksForVmfs'' [] []) (\<lambda>queryAvailableDisksForVmfs.
     bindM (liftR (py_iter (py_or queryAvailableDisksForVmfs (PList [])))) (\<lambda>items.
     bindM
       (foldM (\<lambda>disk out.
          bindM (vget api disk ''devicePath'') (\<lambda>devicePath.
          bindM (vget api disk ''canonicalName'') (\<lambda>canonicalName.
          bindM (vpath api disk [''capacity'', ''block'']) (\<lambda>block.
          bindM (liftR (py_int block)) (\<lambda>n.
          bindM (vpath api disk [''capacity'', ''blockSize'']) (\<lambda>blockSize.
          bindM (liftR (py_int blockSize)) (\<lambda>n2.
          bindM (vget_or api disk ''ssd'' (PBool False)) (\<lambda>ssd.
          pureM (out @ [PDict [(''device_path'', devicePath), (''canonical_name'', canonicalName), (''size_bytes'',
        PInt (n * n2)), (''ssd'', PBool (truthy ssd))]]))))))))) items out) (\<lambda>out.
     pureM (PList out))))))"

definition vim_host_datastore_create_vmfs ::
  "vmodl \<Rightarrow> pyval \<Rightarrow> pyval \<Rightarrow> pyval \<Rightarrow> pyval \<Rightarrow> pyval \<Rightarrow> profile \<Rightarrow> pyval io" where
  "vim_host_datastore_create_vmfs api opts host name device_path vmfs_version profile =
     bindM (vim_host_datastore_resolve_host api opts host profile) (\<lambda>h.
     bindM (vpath api h [''configManager'', ''datastoreSystem'']) (\<lambda>ds_system.
     bindM
       (vcall api ds_system ''QueryVmfsDatastoreCreateOptions'' [] [(''devicePath'', device_path)])
        (\<lambda>options.
     if \<not> truthy options then
       raiseM (RuntimeError (''no VMFS create options reported for '' @ py_repr device_path))
     else
       bindM (liftR (py_first options)) (\<lambda>first.
       bindM (vget api first ''spec'') (\<lambda>spec.
       bindM (vget api spec ''vmfs'') (\<lambda>vmfs.
       bindM (vset api vmfs ''volumeName'' name) (\<lambda>vmfs.
       bindM (vset api spec ''vmfs'' vmfs) (\<lambda>spec.
       bindM (liftR (py_int vmfs_version)) (\<lambda>n.
       bindM (vget api spec ''vmfs'') (\<lambda>vmfs2.
       bindM (vset api vmfs2 ''majorVersion'' (PInt n)) (\<lambda>vmfs2.
       bindM (vset api spec ''vmfs'' vmfs2) (\<lambda>spec.
       bindM (vcall api ds_system ''CreateVmfsDatastore'' [] [(''spec'', spec)]) (\<lambda>ds.
       vget api ds ''_moId'')))))))))))))"

definition vim_host_datastore_mount_nfs ::
  "vmodl \<Rightarrow> pyval \<Rightarrow> pyval \<Rightarrow> pyval \<Rightarrow> pyval \<Rightarrow> pyval \<Rightarrow> pyval \<Rightarrow> pyval \<Rightarrow> profile \<Rightarrow> pyval io" where
  "vim_host_datastore_mount_nfs api opts host name remote_host remote_path access_mode kind profile =
     bindM (vim_host_datastore_resolve_host api opts host profile) (\<lambda>h.
     bindM (vpath api h [''configManager'', ''datastoreSystem'']) (\<lambda>ds_system.
     bindM
       (vnew api ''vim.host.NasVolume.Specification'' [(''remoteHost'', remote_host), (''remotePath'', remote_path),
        (''localPath'', name), (''accessMode'', access_mode), (''type'', kind)]) (\<lambda>spec.
     bindM (vcall api ds_system ''CreateNasDatastore'' [] [(''spec'', spec)]) (\<lambda>ds.
     vget api ds ''_moId''))))"

definition vim_host_datastore_remove :: "vmodl \<Rightarrow> pyval \<Rightarrow> pyval \<Rightarrow> pyval \<Rightarrow> profile \<Rightarrow> pyval io" where
  "vim_host_datastore_remove api opts host datastore profile =
     bindM (vim_host_datastore_resolve_host api opts host profile) (\<lambda>h.
     bindM (vpath api h [''configManager'', ''datastoreSystem'']) (\<lambda>ds_system.
     bindM (vget api h ''datastore'') (\<lambda>datastore2.
     bindM (liftR (py_iter (py_or datastore2 (PList [])))) (\<lambda>items.
     or_else
       (first_of (\<lambda>ds.
          bindM (vget api ds ''_moId'') (\<lambda>moId.
          bindM (vget api ds ''name'') (\<lambda>name.
          if list_ex (py_eq datastore) [moId, name] then
            bindM (vcall api ds_system ''RemoveDatastore'' [] [(''datastore'', ds)]) (\<lambda>_.
            pureM (Some (PBool True)))
          else pureM None))) items)
       (raiseM (LookupError (''datastore '' @ py_repr datastore @ '' not found on host '' @ py_repr
        host)))))))"

definition vim_host_datastore_rescan_storage :: "vmodl \<Rightarrow> pyval \<Rightarrow> pyval \<Rightarrow> profile \<Rightarrow> pyval io" where
  "vim_host_datastore_rescan_storage api opts host profile =
     bindM (vim_host_datastore_resolve_host api opts host profile) (\<lambda>h.
     bindM (vpath api h [''configManager'', ''storageSystem'']) (\<lambda>storageSystem.
     bindM (vcall api storageSystem ''RescanAllHba'' [] []) (\<lambda>_.
     pureM (PBool True))))"

subsection \<open>\<open>clients/vim_host_dns.py\<close>\<close>

definition vim_host_dns_host :: "vmodl \<Rightarrow> pyval \<Rightarrow> pyval \<Rightarrow> profile \<Rightarrow> pyval io" where
  "vim_host_dns_host api opts host_id_or_name profile =
     bindM (vim_content api opts profile) (\<lambda>content.
     bindM (vget api content ''viewManager'') (\<lambda>viewManager.
     bindM (vget api content ''rootFolder'') (\<lambda>rootFolder.
     bindM
       (vcall api viewManager ''CreateContainerView'' [rootFolder, PList [PStr ''vim.HostSystem''], PBool True] [])
        (\<lambda>container.
     or_else
       (finallyM
          (bindM (vget api container ''view'') (\<lambda>view.
           bindM (liftR (py_iter view)) (\<lambda>items.
           first_of (\<lambda>host.
             bindM (vget api host ''_moId'') (\<lambda>moId.
             bindM (vget api host ''name'') (\<lambda>name.
             if list_ex (py_eq host_id_or_name) [moId, name] then pureM (Some host) else pureM None)))
        items)))
          (bindM (vcall api container ''Destroy'' [] []) (\<lambda>_.
           pureM ())))
       (raiseM (LookupError (''host '' @ py_repr host_id_or_name @ '' not found'')))))))"

definition vim_host_dns_net :: "vmodl \<Rightarrow> pyval \<Rightarrow> pyval io" where
  "vim_host_dns_net api host =
     bindM (vpath api host [''configManager'', ''networkSystem'']) (\<lambda>n.
     if n = PNone then
       bindM (vget api host ''name'') (\<lambda>name.
       raiseM (RuntimeError (''host '' @ py_repr name @ '' has no networkSystem manager'')))
     else pureM n)"

definition vim_host_dns_get :: "vmodl \<Rightarrow> pyval \<Rightarrow> pyval \<Rightarrow> profile \<Rightarrow> pyval io" where
  "vim_host_dns_get api opts host profile =
     bindM (vim_host_dns_host api opts host profile) (\<lambda>h.
     bindM (vpath api h [''config'', ''network'', ''dnsConfig'']) (\<lambda>cfg.
     bindM (vget api cfg ''dhcp'') (\<lambda>dhcp.
     bindM (vget api cfg ''hostName'') (\<lambda>hostName.
     bindM (vget api cfg ''domainName'') (\<lambda>domainName.
     bindM (vget api cfg ''address'') (\<lambda>address.
     bindM (liftR (py_iter (py_or address (PList [])))) (\<lambda>items2.
     bindM (vget api cfg ''searchDomain'') (\<lambda>searchDomain.
     bindM (liftR (py_iter (py_or searchDomain (PList [])))) (\<lambda>items3.
     bindM (vget api cfg ''virtualNicDevice'') (\<lambda>virtualNicDevice.
     pureM (PDict [(''dhcp'', PBool (truthy dhcp)), (''hostname'', hostName), (''domain_name'', domainName),
       (''servers'', PList items2), (''search_domains'', PList items3), (''virtual_nic'', py_or virtualNicDevice
        PNone)])))))))))))"

definition vim_host_dns_set ::
  "vmodl \<Rightarrow> pyval \<Rightarrow> pyval \<Rightarrow> pyval \<Rightarrow> pyval \<Rightarrow> pyval \<Rightarrow> pyval \<Rightarrow> pyval \<Rightarrow> pyval \<Rightarrow> profile \<Rightarrow> pyval io" where
  "vim_host_dns_set api opts host dhcp hostname domain_name servers search_domains virtual_nic profile =
     bindM (vim_host_dns_host api opts host profile) (\<lambda>h.
     bindM (vpath api h [''config'', ''network'', ''dnsConfig'']) (\<lambda>cur.
     bindM (vnew api ''vim.host.DnsConfig'' []) (\<lambda>spec.
     bindM
       (if dhcp = PNone then
          bindM (vget api cur ''dhcp'') (\<lambda>dhcp2.
          pureM (truthy dhcp2))
        else pureM (truthy dhcp)) (\<lambda>x.
     bindM (vset api spec ''dhcp'' (PBool x)) (\<lambda>spec.
     bindM (if hostname = PNone then vget api cur ''hostName'' else pureM hostname) (\<lambda>x2.
     bindM (vset api spec ''hostName'' x2) (\<lambda>spec.
     bindM (if domain_name = PNone then vget api cur ''domainName'' else pureM domain_name) (\<lambda>x3.
     bindM (vset api spec ''domainName'' x3) (\<lambda>spec.
     bindM
       (if servers = PNone then
          bindM (vget api cur ''address'') (\<lambda>address.
          liftR (py_iter (py_or address (PList []))))
        else liftR (py_iter servers)) (\<lambda>x4.
     bindM (vset api spec ''address'' (PList x4)) (\<lambda>spec.
     bindM
       (if search_domains = PNone then
          bindM (vget api cur ''searchDomain'') (\<lambda>searchDomain.
          liftR (py_iter (py_or searchDomain (PList []))))
        else liftR (py_iter search_domains)) (\<lambda>x5.
     bindM (vset api spec ''searchDomain'' (PList x5)) (\<lambda>spec.
     bindM
       (if virtual_nic \<noteq> PNone then vset api spec ''virtualNicDevice'' virtual_nic
        else
          bindM (vget api cur ''virtualNicDevice'') (\<lambda>virtualNicDevice.
          if truthy virtualNicDevice then
            bindM (vget api cur ''virtualNicDevice'') (\<lambda>virtualNicDevice2.
            vset api spec ''virtualNicDevice'' virtualNicDevice2)
          else pureM spec)) (\<lambda>spec.
     bindM (vim_host_dns_net api h) (\<lambda>net_v2.
     bindM (vcall api net_v2 ''UpdateDnsConfig'' [] [(''config'', spec)]) (\<lambda>_.
     vim_host_dns_get api opts host profile))))))))))))))))"

subsection \<open>\<open>clients/vim_host_hyperthreading.py\<close>\<close>

definition vim_host_hyperthreading_host :: "vmodl \<Rightarrow> pyval \<Rightarrow> pyval \<Rightarrow> profile \<Rightarrow> pyval io" where
  "vim_host_hyperthreading_host api opts name_or_id profile =
     bindM (vim_content api opts profile) (\<lambda>content.
     bindM (vget api content ''viewManager'') (\<lambda>viewManager.
     bindM (vget api content ''rootFolder'') (\<lambda>rootFolder.
     bindM
       (vcall api viewManager ''CreateContainerView'' [rootFolder, PList [PStr ''vim.HostSystem''], PBool True] [])
        (\<lambda>container.
     or_else
       (finallyM
          (bindM (vget api container ''view'') (\<lambda>view.
           bindM (liftR (py_iter view)) (\<lambda>items.
           first_of (\<lambda>h.
             bindM (vget api h ''_moId'') (\<lambda>moId.
             bindM (vget api h ''name'') (\<lambda>name.
             if list_ex (py_eq name_or_id) [moId, name] then pureM (Some h) else pureM None))) items)))
          (bindM (vcall api container ''Destroy'' [] []) (\<lambda>_.
           pureM ())))
       (raiseM (LookupError (''host '' @ py_repr name_or_id @ '' not found'')))))))"

definition vim_host_hyperthreading_cs :: "vmodl \<Rightarrow> pyval \<Rightarrow> pyval io" where
  "vim_host_hyperthreading_cs api host =
     bindM (vpath api host [''configManager'', ''cpuScheduler'']) (\<lambda>cs.
     if cs = PNone then
       bindM (vget api host ''name'') (\<lambda>name.
       raiseM (RuntimeError (''host '' @ py_repr name @ '' has no cpuScheduler manager'')))
     else pureM cs)"

definition vim_host_hyperthreading_get :: "vmodl \<Rightarrow> pyval \<Rightarrow> pyval \<Rightarrow> profile \<Rightarrow> pyval io" where
  "vim_host_hyperthreading_get api opts host profile =
     bindM (vim_host_hyperthreading_host api opts host profile) (\<lambda>host2.
     bindM (vim_host_hyperthreading_cs api host2) (\<lambda>cs2.
     bindM (vget api cs2 ''hyperthreadInfo'') (\<lambda>info.
     bindM (vget api info ''available'') (\<lambda>available.
     bindM (vget api info ''active'') (\<lambda>active.
     bindM (vget api info ''config'') (\<lambda>config.
     pureM (PDict [(''available'', PBool (truthy available)), (''active'', PBool (truthy active)), (''config'',
       PBool (truthy config))])))))))"

definition vim_host_hyperthreading_enable :: "vmodl \<Rightarrow> pyval \<Rightarrow> pyval \<Rightarrow> profile \<Rightarrow> pyval io" where
  "vim_host_hyperthreading_enable api opts host profile =
     bindM (vim_host_hyperthreading_host api opts host profile) (\<lambda>host2.
     bindM (vim_host_hyperthreading_cs api host2) (\<lambda>cs2.
     bindM (vcall api cs2 ''EnableHyperThreading'' [] []) (\<lambda>_.
     pureM (PBool True))))"

definition vim_host_hyperthreading_disable :: "vmodl \<Rightarrow> pyval \<Rightarrow> pyval \<Rightarrow> profile \<Rightarrow> pyval io" where
  "vim_host_hyperthreading_disable api opts host profile =
     bindM (vim_host_hyperthreading_host api opts host profile) (\<lambda>host2.
     bindM (vim_host_hyperthreading_cs api host2) (\<lambda>cs2.
     bindM (vcall api cs2 ''DisableHyperThreading'' [] []) (\<lambda>_.
     pureM (PBool True))))"

subsection \<open>\<open>clients/vim_host_kernel_module.py\<close>\<close>

definition vim_host_kernel_module_host :: "vmodl \<Rightarrow> pyval \<Rightarrow> pyval \<Rightarrow> profile \<Rightarrow> pyval io" where
  "vim_host_kernel_module_host api opts host_id_or_name profile =
     bindM (vim_content api opts profile) (\<lambda>content.
     bindM (vget api content ''viewManager'') (\<lambda>viewManager.
     bindM (vget api content ''rootFolder'') (\<lambda>rootFolder.
     bindM
       (vcall api viewManager ''CreateContainerView'' [rootFolder, PList [PStr ''vim.HostSystem''], PBool True] [])
        (\<lambda>container.
     or_else
       (finallyM
          (bindM (vget api container ''view'') (\<lambda>view.
           bindM (liftR (py_iter view)) (\<lambda>items.
           first_of (\<lambda>host.
             bindM (vget api host ''_moId'') (\<lambda>moId.
             bindM (vget api host ''name'') (\<lambda>name.
             if list_ex (py_eq host_id_or_name) [moId, name] then pureM (Some host) else pureM None)))
        items)))
          (bindM (vcall api container ''Destroy'' [] []) (\<lambda>_.
           pureM ())))
       (raiseM (LookupError (''host '' @ py_repr host_id_or_name @ '' not found'')))))))"

definition vim_host_kernel_module_km :: "vmodl \<Rightarrow> pyval \<Rightarrow> pyval io" where
  "vim_host_kernel_module_km api host =
     bindM (vpath api host [''configManager'', ''kernelModuleSystem'']) (\<lambda>km.
     if km = PNone then
       bindM (vget api host ''name'') (\<lambda>name.
       raiseM (RuntimeError (''host '' @ py_repr name @ '' has no kernelModuleSystem manager'')))
     else pureM km)"

definition vim_host_kernel_module_list :: "vmodl \<Rightarrow> pyval \<Rightarrow> pyval \<Rightarrow> profile \<Rightarrow> pyval io" where
  "vim_host_kernel_module_list api opts host profile =
     bindM (vim_host_kernel_module_host api opts host profile) (\<lambda>h.
     bindM (vim_host_kernel_module_km api h) (\<lambda>km.
     let out = [] in
     bindM (vcall api km ''QueryModules'' [] []) (\<lambda>queryModules.
     bindM (liftR (py_iter queryModules)) (\<lambda>items2.
     bindM
       (foldM (\<lambda>m out.
          bindM (vget api m ''name'') (\<lambda>name.
          bindM (vget_or api m ''version'' PNone) (\<lambda>version.
          bindM (vget_or api m ''modulesDependent'' PNone) (\<lambda>modulesDependent.
          bindM (liftR (py_iter (py_or modulesDependent (PList [])))) (\<lambda>items3.
          bindM (vget_or api m ''enabled'' (PBool False)) (\<lambda>enabled.
          bindM (vget_or api m ''useCount'' (PInt 0)) (\<lambda>useCount.
          bindM (liftR (py_int useCount)) (\<lambda>n.
          bindM (vget_or api m ''loaded'' (PBool False)) (\<lambda>loaded.
          pureM (out @ [PDict [(''name'', name), (''version'', version), (''modules_dependent'', PList items3),
        (''enabled'', PBool (truthy enabled)), (''use_count'', PInt n), (''loaded'', PBool (truthy
        loaded))]])))))))))) items2 out) (\<lambda>out.
     pureM (PList out))))))"

definition vim_host_kernel_module_get_options :: "vmodl \<Rightarrow> pyval \<Rightarrow> pyval \<Rightarrow> pyval
  \<Rightarrow> profile \<Rightarrow> pyval io" where
  "vim_host_kernel_module_get_options api opts host module profile =
     bindM (vim_host_kernel_module_host api opts host profile) (\<lambda>h.
     bindM (vim_host_kernel_module_km api h) (\<lambda>km2.
     vcall api km2 ''QueryConfiguredModuleOptionString'' [] [(''name'', module)]))"

definition vim_host_kernel_module_set_options :: "vmodl \<Rightarrow> pyval \<Rightarrow> pyval \<Rightarrow> pyval
  \<Rightarrow> pyval \<Rightarrow> profile \<Rightarrow> pyval io" where
  "vim_host_kernel_module_set_options api opts host module options profile =
     bindM (vim_host_kernel_module_host api opts host profile) (\<lambda>h.
     bindM (vim_host_kernel_module_km api h) (\<lambda>km2.
     bindM (vcall api km2 ''UpdateModuleOptionString'' [] [(''name'', module), (''options'', options)])
       (\<lambda>_.
     pureM (PDict [(''name'', module), (''options'', options)]))))"

subsection \<open>\<open>clients/vim_host_maintenance.py\<close>\<close>

definition vim_host_maintenance_host :: "vmodl \<Rightarrow> pyval \<Rightarrow> pyval \<Rightarrow> profile \<Rightarrow> pyval io" where
  "vim_host_maintenance_host api opts host_id_or_name profile =
     bindM (vim_content api opts profile) (\<lambda>content.
     bindM (vget api content ''viewManager'') (\<lambda>viewManager.
     bindM (vget api content ''rootFolder'') (\<lambda>rootFolder.
     bindM
       (vcall api viewManager ''CreateContainerView'' [rootFolder, PList [PStr ''vim.HostSystem''], PBool True] [])
        (\<lambda>container.
     or_else
       (finallyM
          (bindM (vget api container ''view'') (\<lambda>view.
           bindM (liftR (py_iter view)) (\<lambda>items.
           first_of (\<lambda>host.
             bindM (vget api host ''_moId'') (\<lambda>moId.
             bindM (vget api host ''name'') (\<lambda>name.
             if list_ex (py_eq host_id_or_name) [moId, name] then pureM (Some host) else pureM None)))
        items)))
          (bindM (vcall api container ''Destroy'' [] []) (\<lambda>_.
           pureM ())))
       (raiseM (LookupError (''host '' @ py_repr host_id_or_name @ '' not found'')))))))"

definition vim_host_maintenance_is_in :: "vmodl \<Rightarrow> pyval \<Rightarrow> pyval \<Rightarrow> profile \<Rightarrow> pyval io" where
  "vim_host_maintenance_is_in api opts host profile =
     bindM (vim_host_maintenance_host api opts host profile) (\<lambda>h.
     bindM (vpath api h [''runtime'', ''inMaintenanceMode'']) (\<lambda>inMaintenanceMode.
     pureM (PBool (truthy inMaintenanceMode))))"

definition vim_host_maintenance_enter :: "vmodl \<Rightarrow> pyval \<Rightarrow> pyval \<Rightarrow> pyval
  \<Rightarrow> pyval \<Rightarrow> pyval \<Rightarrow> profile \<Rightarrow> pyval io" where
  "vim_host_maintenance_enter api opts host evacuate_powered_off_vms vsan_mode timeout profile =
     bindM (vim_host_maintenance_host api opts host profile) (\<lambda>h.
     let spec = PNone in
     bindM
       (if vsan_mode \<noteq> PNone then
          bindM (vnew api ''vim.host.MaintenanceSpec'' []) (\<lambda>spec.
          bindM
            (vnew api ''vim.vsan.host.DecommissionMode'' [(''objectAction'', vsan_mode)])
        (\<lambda>decommissionMode.
          vset api spec ''vsanMode'' decommissionMode))
        else pureM spec) (\<lambda>spec.
     bindM
       (if spec \<noteq> PNone then
          bindM (liftR (py_int timeout)) (\<lambda>n.
          vcall api h ''EnterMaintenanceMode_Task'' [] [(''timeout'', PInt n), (''evacuatePoweredOffVms'', PBool
        (truthy evacuate_powered_off_vms)), (''maintenanceSpec'', spec)])
        else
          bindM (liftR (py_int timeout)) (\<lambda>n2.
          vcall api h ''EnterMaintenanceMode_Task'' [] [(''timeout'', PInt n2), (''evacuatePoweredOffVms'', PBool
        (truthy evacuate_powered_off_vms))])) (\<lambda>task.
     vget api task ''_moId'')))"

definition vim_host_maintenance_exit :: "vmodl \<Rightarrow> pyval \<Rightarrow> pyval \<Rightarrow> pyval \<Rightarrow> profile \<Rightarrow> pyval io" where
  "vim_host_maintenance_exit api opts host timeout profile =
     bindM (vim_host_maintenance_host api opts host profile) (\<lambda>h.
     bindM (liftR (py_int timeout)) (\<lambda>n.
     bindM (vcall api h ''ExitMaintenanceMode_Task'' [] [(''timeout'', PInt n)]) (\<lambda>task.
     vget api task ''_moId'')))"

subsection \<open>\<open>clients/vim_host_passthrough.py\<close>\<close>

definition vim_host_passthrough_host :: "vmodl \<Rightarrow> pyval \<Rightarrow> pyval \<Rightarrow> profile \<Rightarrow> pyval io" where
  "vim_host_passthrough_host api opts host_id_or_name profile =
     bindM (vim_content api opts profile) (\<lambda>content.
     bindM (vget api content ''viewManager'') (\<lambda>viewManager.
     bindM (vget api content ''rootFolder'') (\<lambda>rootFolder.
     bindM
       (vcall api viewManager ''CreateContainerView'' [rootFolder, PList [PStr ''vim.HostSystem''], PBool True] [])
        (\<lambda>container.
     or_else
       (finallyM
          (bindM (vget api container ''view'') (\<lambda>view.
           bindM (liftR (py_iter view)) (\<lambda>items.
           first_of (\<lambda>host.
             bindM (vget api host ''_moId'') (\<lambda>moId.
             bindM (vget api host ''name'') (\<lambda>name.
             if list_ex (py_eq host_id_or_name) [moId, name] then pureM (Some host) else pureM None)))
        items)))
          (bindM (vcall api container ''Destroy'' [] []) (\<lambda>_.
           pureM ())))
       (raiseM (LookupError (''host '' @ py_repr host_id_or_name @ '' not found'')))))))"

definition vim_host_passthrough_pci :: "vmodl \<Rightarrow> pyval \<Rightarrow> pyval io" where
  "vim_host_passthrough_pci api host =
     bindM (vpath api host [''configManager'', ''pciPassthruSystem'']) (\<lambda>sys.
     if sys = PNone then
       bindM (vget api host ''name'') (\<lambda>name.
       raiseM (RuntimeError (''host '' @ py_repr name @ '' has no pciPassthruSystem manager'')))
     else pureM sys)"

definition vim_host_passthrough_refresh :: "vmodl \<Rightarrow> pyval \<Rightarrow> pyval \<Rightarrow> profile \<Rightarrow> pyval io" where
  "vim_host_passthrough_refresh api opts host profile =
     bindM (vim_host_passthrough_host api opts host profile) (\<lambda>h.
     bindM (vim_host_passthrough_pci api h) (\<lambda>pci2.
     bindM (vcall api pci2 ''Refresh'' [] []) (\<lambda>_.
     pureM PNone)))"

definition vim_host_passthrough_list :: "vmodl \<Rightarrow> pyval \<Rightarrow> pyval \<Rightarrow> profile \<Rightarrow> pyval io" where
  "vim_host_passthrough_list api opts host profile =
     bindM (vim_host_passthrough_host api opts host profile) (\<lambda>h.
     let out = [] in
     bindM (vim_host_passthrough_pci api h) (\<lambda>pci2.
     bindM (vget api pci2 ''pciPassthruInfo'') (\<lambda>pciPassthruInfo.
     bindM (liftR (py_iter (py_or pciPassthruInfo (PList [])))) (\<lambda>items.
     bindM
       (foldM (\<lambda>dev out.
          bindM (vget api dev ''id'') (\<lambda>ident.
          bindM (vget_or api dev ''vendorId'' PNone) (\<lambda>vendorId.
          bindM (vget_or api dev ''deviceId'' PNone) (\<lambda>deviceId.
          bindM (vget_or api dev ''vendorName'' PNone) (\<lambda>vendorName.
          bindM (vget_or api dev ''deviceName'' PNone) (\<lambda>deviceName.
          bindM (vget_or api dev ''passthruCapable'' (PBool False)) (\<lambda>passthruCapable.
          bindM (vget_or api dev ''passthruEnabled'' (PBool False)) (\<lambda>passthruEnabled.
          bindM (vget_or api dev ''passthruActive'' (PBool False)) (\<lambda>passthruActive.
          bindM (vget_or api dev ''dependentDevice'' PNone) (\<lambda>dependentDevice.
          bindM (vget_or api dev ''passthruEnabled'' (PBool False)) (\<lambda>passthruEnabled2.
          bindM (vget_or api dev ''passthruActive'' (PBool False)) (\<lambda>passthruActive2.
          pureM (out @ [PDict [(''id'', ident), (''vendor_id'', vendorId), (''device_id'', deviceId),
        (''vendor_name'', vendorName), (''device_name'', deviceName), (''passthru_capable'', PBool (truthy
        passthruCapable)), (''passthru_enabled'', PBool (truthy passthruEnabled)), (''passthru_active'', PBool
        (truthy passthruActive)), (''dependent_device'', dependentDevice), (''reboot_required'', PBool (\<not> py_eq
        passthruEnabled2 passthruActive2))]]))))))))))))) items out) (\<lambda>out.
     pureM (PList out))))))"

definition vim_host_passthrough_set_enabled :: "vmodl \<Rightarrow> pyval \<Rightarrow> pyval \<Rightarrow> pyval
  \<Rightarrow> pyval \<Rightarrow> profile \<Rightarrow> pyval io" where
  "vim_host_passthrough_set_enabled api opts host pci_id enabled profile =
     bindM (vim_host_passthrough_host api opts host profile) (\<lambda>h.
     bindM
       (vnew api ''vim.host.PciPassthruConfig'' [(''id'', pci_id), (''passthruEnabled'', PBool (truthy enabled))])
        (\<lambda>config.
     bindM (vim_host_passthrough_pci api h) (\<lambda>pci2.
     bindM (vcall api pci2 ''UpdatePassthruConfig'' [PList [config]] []) (\<lambda>_.
     pureM (PDict [(''id'', pci_id), (''enabled'', PBool (truthy enabled)), (''reboot_required'', PBool
       True)])))))"

subsection \<open>\<open>clients/vim_host_powermgmt.py\<close>\<close>

definition vim_host_powermgmt_host :: "vmodl \<Rightarrow> pyval \<Rightarrow> pyval \<Rightarrow> profile \<Rightarrow> pyval io" where
  "vim_host_powermgmt_host api opts host_id_or_name profile =
     bindM (vim_content api opts profile) (\<lambda>content.
     bindM (vget api content ''viewManager'') (\<lambda>viewManager.
     bindM (vget api content ''rootFolder'') (\<lambda>rootFolder.
     bindM
       (vcall api viewManager ''CreateContainerView'' [rootFolder, PList [PStr ''vim.HostSystem''], PBool True] [])
        (\<lambda>container.
     or_else
       (finallyM
          (bindM (vget api container ''view'') (\<lambda>view.
           bindM (liftR (py_iter view)) (\<lambda>items.
           first_of (\<lambda>host.
             bindM (vget api host ''_moId'') (\<lambda>moId.
             bindM (vget api host ''name'') (\<lambda>name.
             if list_ex (py_eq host_id_or_name) [moId, name] then pureM (Some host) else pureM None)))
        items)))
          (bindM (vcall api container ''Destroy'' [] []) (\<lambda>_.
           pureM ())))
       (raiseM (LookupError (''host '' @ py_repr host_id_or_name @ '' not found'')))))))"

definition vim_host_powermgmt_power :: "vmodl \<Rightarrow> pyval \<Rightarrow> pyval io" where
  "vim_host_powermgmt_power api host =
     bindM (vpath api host [''configManager'', ''powerSystem'']) (\<lambda>p.
     if p = PNone then
       bindM (vget api host ''name'') (\<lambda>name.
       raiseM (RuntimeError (''host '' @ py_repr name @ '' has no powerSystem manager'')))
     else pureM p)"

definition vim_host_powermgmt_list_policies :: "vmodl \<Rightarrow> pyval \<Rightarrow> pyval \<Rightarrow> profile \<Rightarrow> pyval io" where
  "vim_host_powermgmt_list_policies api opts host profile =
     bindM (vim_host_powermgmt_host api opts host profile) (\<lambda>h.
     bindM (vim_host_powermgmt_power api h) (\<lambda>ps.
     bindM (vpath api ps [''capability'', ''availablePolicy'']) (\<lambda>availablePolicy.
     bindM (liftR (py_iter (py_or availablePolicy (PList [])))) (\<lambda>items.
     bindM
       (mapM (\<lambda>p.
          bindM (vget api p ''key'') (\<lambda>key.
          bindM (liftR (py_int key)) (\<lambda>n.
          bindM (vget api p ''name'') (\<lambda>name.
          bindM (vget api p ''shortName'') (\<lambda>shortName.
          bindM (vget api p ''description'') (\<lambda>description.
          pureM (PDict [(''key'', PInt n), (''name'', name), (''short_name'', shortName), (''description'',
        description)]))))))) items) (\<lambda>out.
     pureM (PList out))))))"

definition vim_host_powermgmt_get_policy :: "vmodl \<Rightarrow> pyval \<Rightarrow> pyval \<Rightarrow> profile \<Rightarrow> pyval io" where
  "vim_host_powermgmt_get_policy api opts host profile =
     bindM (vim_host_powermgmt_host api opts host profile) (\<lambda>h.
     bindM (vim_host_powermgmt_power api h) (\<lambda>power_v2.
     bindM (vget api power_v2 ''info'') (\<lambda>info.
     bindM (vget api info ''currentPolicy'') (\<lambda>p.
     bindM (vget api p ''key'') (\<lambda>key.
     bindM (liftR (py_int key)) (\<lambda>n.
     bindM (vget api p ''name'') (\<lambda>name.
     bindM (vget api p ''shortName'') (\<lambda>shortName.
     bindM (vget api p ''description'') (\<lambda>description.
     pureM (PDict [(''key'', PInt n), (''name'', name), (''short_name'', shortName), (''description'',
       description)]))))))))))"

definition vim_host_powermgmt_set_policy :: "vmodl \<Rightarrow> pyval \<Rightarrow> pyval \<Rightarrow> pyval \<Rightarrow> profile \<Rightarrow> pyval io" where
  "vim_host_powermgmt_set_policy api opts host policy_key profile =
     bindM (vim_host_powermgmt_host api opts host profile) (\<lambda>h.
     bindM (vim_host_powermgmt_power api h) (\<lambda>power_v2.
     bindM (liftR (py_int policy_key)) (\<lambda>n.
     bindM (vcall api power_v2 ''ConfigurePowerPolicy'' [] [(''key'', PInt n)]) (\<lambda>_.
     vim_host_powermgmt_get_policy api opts host profile))))"

subsection \<open>\<open>clients/vim_host_security.py\<close>\<close>

definition vim_host_security_host :: "vmodl \<Rightarrow> pyval \<Rightarrow> pyval \<Rightarrow> profile \<Rightarrow> pyval io" where
  "vim_host_security_host api opts host_id_or_name profile =
     bindM (vim_content api opts profile) (\<lambda>content.
     bindM (vget api content ''viewManager'') (\<lambda>viewManager.
     bindM (vget api content ''rootFolder'') (\<lambda>rootFolder.
     bindM
       (vcall api viewManager ''CreateContainerView'' [rootFolder, PList [PStr ''vim.HostSystem''], PBool True] [])
        (\<lambda>container.
     or_else
       (finallyM
          (bindM (vget api container ''view'') (\<lambda>view.
           bindM (liftR (py_iter view)) (\<lambda>items.
           first_of (\<lambda>h.
             bindM (vget api h ''_moId'') (\<lambda>moId.
             bindM (vget api h ''name'') (\<lambda>name.
             if list_ex (py_eq host_id_or_name) [moId, name] then pureM (Some h) else pureM None)))
        items)))
          (bindM (vcall api container ''Destroy'' [] []) (\<lambda>_.
           pureM ())))
       (raiseM (LookupError (''host '' @ py_repr host_id_or_name @ '' not found'')))))))"

definition vim_host_security_lockdown_get :: "vmodl \<Rightarrow> pyval \<Rightarrow> pyval \<Rightarrow> profile \<Rightarrow> pyval io" where
  "vim_host_security_lockdown_get api opts host profile =
     bindM (vim_host_security_host api opts host profile) (\<lambda>h.
     bindM (vpath api h [''config'', ''adminDisabled'']) (\<lambda>adminDisabled.
     let x = (if truthy adminDisabled then PStr ''lockdownNormal'' else adminDisabled) in
     bindM (if truthy x then pureM x else vpath api h [''config'', ''lockdownMode'']) (\<lambda>x2.
     let md = py_str x2 in
     bindM (vpath api h [''config'', ''lockdownMode'']) (\<lambda>lockdownMode2.
     bindM
       (if lockdownMode2 \<noteq> PNone then
          bindM (vpath api h [''config'', ''lockdownMode'']) (\<lambda>lockdownMode3.
          pureM (py_str lockdownMode3))
        else pureM md) (\<lambda>md.
     bindM (vpath api h [''configManager'', ''hostAccessManager'']) (\<lambda>am.
     if am = PNone then pureM (PDict [(''mode'', PStr md), (''exception_users'', PList [])])
     else
       bindM (vhas api am ''QueryLockdownExceptions'') (\<lambda>has.
       bindM
         (if has then
            bindM (vcall api am ''QueryLockdownExceptions'' [] []) (\<lambda>queryLockdownExceptions.
            liftR (py_iter (py_or queryLockdownExceptions (PList []))))
          else pureM []) (\<lambda>users.
       pureM (PDict [(''mode'', PStr md), (''exception_users'', PList users)])))))))))"

definition vim_host_security_lockdown_set :: "vmodl \<Rightarrow> pyval \<Rightarrow> pyval \<Rightarrow> pyval \<Rightarrow> profile \<Rightarrow> pyval io" where
  "vim_host_security_lockdown_set api opts host md profile =
     bindM (vim_host_security_host api opts host profile) (\<lambda>h.
     bindM (vpath api h [''configManager'', ''hostAccessManager'']) (\<lambda>hostAccessManager.
     bindM (vcall api hostAccessManager ''ChangeLockdownMode'' [] [(''mode'', md)]) (\<lambda>_.
     pureM PNone)))"

definition vim_host_security_lockdown_set_exception_users ::
  "vmodl \<Rightarrow> pyval \<Rightarrow> pyval \<Rightarrow> pyval \<Rightarrow> profile \<Rightarrow> pyval io" where
  "vim_host_security_lockdown_set_exception_users api opts host users profile =
     bindM (vim_host_security_host api opts host profile) (\<lambda>h.
     bindM (vpath api h [''configManager'', ''hostAccessManager'']) (\<lambda>hostAccessManager.
     bindM (liftR (py_iter users)) (\<lambda>items2.
     bindM (vcall api hostAccessManager ''UpdateLockdownExceptions'' [] [(''users'', PList items2)]) (\<lambda>_.
     pureM PNone))))"

definition vim_host_security_user_list :: "vmodl \<Rightarrow> pyval \<Rightarrow> pyval \<Rightarrow> pyval
  \<Rightarrow> pyval \<Rightarrow> pyval \<Rightarrow> profile \<Rightarrow> pyval io" where
  "vim_host_security_user_list api opts host search_str exact find_users profile =
     bindM (vim_host_security_host api opts host profile) (\<lambda>_.
     bindM (vim_content api opts profile) (\<lambda>content.
     bindM (vget api content ''userDirectory'') (\<lambda>directory.
     bindM
       (vcall api directory ''RetrieveUserGroups'' [] [(''domain'', PNone), (''searchStr'', search_str),
        (''belongsToGroup'', PNone), (''belongsToUser'', PNone), (''exactMatch'', PBool (truthy exact)),
        (''findUsers'', PBool (truthy find_users)), (''findGroups'', PBool False)]) (\<lambda>results.
     let out = [] in
     bindM (liftR (py_iter (py_or results (PList [])))) (\<lambda>items.
     bindM
       (foldM (\<lambda>u out.
          bindM (vget api u ''principal'') (\<lambda>principal_v.
          bindM (vget api u ''fullName'') (\<lambda>fullName.
          bindM (vget api u ''group'') (\<lambda>grp.
          pureM (out @ [PDict [(''principal'', principal_v), (''full_name'', fullName), (''group'', PBool (truthy
        grp))]]))))) items out) (\<lambda>out.
     pureM (PList out)))))))"

definition vim_host_security_user_create :: "vmodl \<Rightarrow> pyval \<Rightarrow> pyval \<Rightarrow> pyval
  \<Rightarrow> pyval \<Rightarrow> pyval \<Rightarrow> profile \<Rightarrow> pyval io" where
  "vim_host_security_user_create api opts host username password description profile =
     bindM (vim_host_security_host api opts host profile) (\<lambda>h.
     bindM
       (vnew api ''vim.host.LocalAccountManager.AccountSpecification'' [(''id'', username), (''password'',
        password), (''description'', description)]) (\<lambda>spec.
     bindM (vpath api h [''configManager'', ''accountManager'']) (\<lambda>accountManager.
     bindM (vcall api accountManager ''CreateUser'' [] [(''user'', spec)]) (\<lambda>_.
     pureM PNone))))"

definition vim_host_security_user_update :: "vmodl \<Rightarrow> pyval \<Rightarrow> pyval \<Rightarrow> pyval
  \<Rightarrow> pyval \<Rightarrow> pyval \<Rightarrow> profile \<Rightarrow> pyval io" where
  "vim_host_security_user_update api opts host username password description profile =
     bindM (vim_host_security_host api opts host profile) (\<lambda>h.
     bindM (vnew api ''vim.host.LocalAccountManager.AccountSpecification'' [(''id'', username)]) (\<lambda>spec.
     bindM (if password \<noteq> PNone then vset api spec ''password'' password else pureM spec) (\<lambda>spec.
     bindM (if description \<noteq> PNone then vset api spec ''description'' description else pureM spec) (\<lambda>spec.
     bindM (vpath api h [''configManager'', ''accountManager'']) (\<lambda>accountManager.
     bindM (vcall api accountManager ''UpdateUser'' [] [(''user'', spec)]) (\<lambda>_.
     pureM PNone))))))"

definition vim_host_security_user_delete :: "vmodl \<Rightarrow> pyval \<Rightarrow> pyval \<Rightarrow> pyval \<Rightarrow> profile \<Rightarrow> pyval io" where
  "vim_host_security_user_delete api opts host username profile =
     bindM (vim_host_security_host api opts host profile) (\<lambda>h.
     bindM (vpath api h [''configManager'', ''accountManager'']) (\<lambda>accountManager.
     bindM (vcall api accountManager ''RemoveUser'' [] [(''userName'', username)]) (\<lambda>_.
     pureM PNone)))"

definition vim_host_security_iscsi_hba :: "vmodl \<Rightarrow> pyval \<Rightarrow> pyval io" where
  "vim_host_security_iscsi_hba api storage_system =
     bindM (vpath api storage_system [''storageDeviceInfo'', ''hostBusAdapter'']) (\<lambda>hostBusAdapter.
     bindM (liftR (py_iter (py_or hostBusAdapter (PList [])))) (\<lambda>items.
     or_else
       (first_of (\<lambda>hba.
          if is_instance api hba ''vim.host.InternetScsiHba'' then pureM (Some hba) else pureM None)
        items)
       (pureM PNone)))"

definition vim_host_security_iscsi_status :: "vmodl \<Rightarrow> pyval \<Rightarrow> pyval \<Rightarrow> profile \<Rightarrow> pyval io" where
  "vim_host_security_iscsi_status api opts host profile =
     bindM (vim_host_security_host api opts host profile) (\<lambda>h.
     bindM (vpath api h [''configManager'', ''storageSystem'']) (\<lambda>storage.
     bindM (vim_host_security_iscsi_hba api storage) (\<lambda>hba.
     if hba = PNone then
       pureM (PDict [(''enabled'', PBool False), (''hba_device'', PNone), (''iqn'', PNone), (''static_targets'',
        PList []), (''send_targets'', PList []), (''auth_type'', PStr ''none'')])
     else
       bindM (vget api hba ''authenticationProperties'') (\<lambda>auth.
       bindM (vget api hba ''device'') (\<lambda>device.
       bindM (vget api hba ''iScsiName'') (\<lambda>iScsiName.
       bindM (vget api hba ''configuredStaticTarget'') (\<lambda>configuredStaticTarget.
       bindM (liftR (py_iter (py_or configuredStaticTarget (PList [])))) (\<lambda>items.
       bindM
         (mapM (\<lambda>t.
            bindM (vget api t ''address'') (\<lambda>address.
            bindM (vget api t ''port'') (\<lambda>port.
            bindM (vget api t ''iScsiName'') (\<lambda>iScsiName2.
            pureM (PDict [(''address'', address), (''port'', port), (''iqn'', iScsiName2)]))))) items)
        (\<lambda>out.
       bindM (vget api hba ''configuredSendTarget'') (\<lambda>configuredSendTarget.
       bindM (liftR (py_iter (py_or configuredSendTarget (PList [])))) (\<lambda>items2.
       bindM
         (mapM (\<lambda>t.
            bindM (vget api t ''address'') (\<lambda>address2.
            bindM (vget api t ''port'') (\<lambda>port2.
            pureM (PDict [(''address'', address2), (''port'', port2)])))) items2) (\<lambda>out2.
       bindM
         (if truthy auth then
            bindM (vget api auth ''chapAuthEnabled'') (\<lambda>chapAuthEnabled.
            pureM (truthy chapAuthEnabled))
          else pureM False) (\<lambda>holds_v.
       pureM (PDict [(''enabled'', PBool True), (''hba_device'', device), (''iqn'', iScsiName), (''static_targets'',
        PList out), (''send_targets'', PList out2), (''auth_type'', PStr (if holds_v then ''chap'' else
        ''none''))]))))))))))))))"

definition vim_host_security_iscsi_enable :: "vmodl \<Rightarrow> pyval \<Rightarrow> pyval \<Rightarrow> profile \<Rightarrow> pyval io" where
  "vim_host_security_iscsi_enable api opts host profile =
     bindM (vim_host_security_host api opts host profile) (\<lambda>h.
     bindM (vpath api h [''configManager'', ''storageSystem'']) (\<lambda>storage.
     bindM (vcall api storage ''UpdateSoftwareInternetScsiEnabled'' [] [(''enabled'', PBool True)]) (\<lambda>_.
     bindM (vcall api storage ''RescanAllHba'' [] []) (\<lambda>_.
     bindM (vim_host_security_iscsi_hba api storage) (\<lambda>hba.
     if truthy hba then vget api hba ''device'' else pureM PNone)))))"

definition vim_host_security_iscsi_disable :: "vmodl \<Rightarrow> pyval \<Rightarrow> pyval \<Rightarrow> profile \<Rightarrow> pyval io" where
  "vim_host_security_iscsi_disable api opts host profile =
     bindM (vim_host_security_host api opts host profile) (\<lambda>h.
     bindM (vpath api h [''configManager'', ''storageSystem'']) (\<lambda>storageSystem.
     bindM (vcall api storageSystem ''UpdateSoftwareInternetScsiEnabled'' [] [(''enabled'', PBool False)])
       (\<lambda>_.
     pureM PNone)))"

definition vim_host_security_iscsi_add_send_target ::
  "vmodl \<Rightarrow> pyval \<Rightarrow> pyval \<Rightarrow> pyval \<Rightarrow> pyval \<Rightarrow> profile \<Rightarrow> pyval io" where
  "vim_host_security_iscsi_add_send_target api opts host address port profile =
     bindM (vim_host_security_host api opts host profile) (\<lambda>h.
     bindM (vpath api h [''configManager'', ''storageSystem'']) (\<lambda>storage.
     bindM (vim_host_security_iscsi_hba api storage) (\<lambda>hba.
     if hba = PNone then raiseM (LookupError ''software iSCSI initiator not enabled'')
     else
       bindM (liftR (py_int port)) (\<lambda>n.
       bindM
         (vnew api ''vim.host.InternetScsiHba.SendTarget'' [(''address'', address), (''port'', PInt n)])
        (\<lambda>target.
       bindM (vget api hba ''device'') (\<lambda>device.
       bindM
         (vcall api storage ''AddInternetScsiSendTargets'' [] [(''iScsiHbaDevice'', device), (''targets'', PList
        [target])]) (\<lambda>_.
       bindM (vget api hba ''device'') (\<lambda>device2.
       bindM (vcall api storage ''RescanHba'' [] [(''hbaDevice'', device2)]) (\<lambda>_.
       pureM PNone)))))))))"

definition vim_host_security_iscsi_remove_send_target ::
  "vmodl \<Rightarrow> pyval \<Rightarrow> pyval \<Rightarrow> pyval \<Rightarrow> pyval \<Rightarrow> profile \<Rightarrow> pyval io" where
  "vim_host_security_iscsi_remove_send_target api opts host address port profile =
     bindM (vim_host_security_host api opts host profile) (\<lambda>h.
     bindM (vpath api h [''configManager'', ''storageSystem'']) (\<lambda>storage.
     bindM (vim_host_security_iscsi_hba api storage) (\<lambda>hba.
     if hba = PNone then raiseM (LookupError ''software iSCSI initiator not enabled'')
     else
       bindM (liftR (py_int port)) (\<lambda>n.
       bindM
         (vnew api ''vim.host.InternetScsiHba.SendTarget'' [(''address'', address), (''port'', PInt n)])
        (\<lambda>target.
       bindM (vget api hba ''device'') (\<lambda>device.
       bindM
         (vcall api storage ''RemoveInternetScsiSendTargets'' [] [(''iScsiHbaDevice'', device), (''targets'', PList
        [target])]) (\<lambda>_.
       pureM PNone)))))))"

definition vim_host_security_iscsi_set_chap ::
  "vmodl \<Rightarrow> pyval \<Rightarrow> pyval \<Rightarrow> pyval \<Rightarrow> pyval \<Rightarrow> pyval \<Rightarrow> profile \<Rightarrow> pyval io" where
  "vim_host_security_iscsi_set_chap api opts host name password direction profile =
     bindM (vim_host_security_host api opts host profile) (\<lambda>h.
     bindM (vpath api h [''configManager'', ''storageSystem'']) (\<lambda>storage.
     bindM (vim_host_security_iscsi_hba api storage) (\<lambda>hba.
     if hba = PNone then raiseM (LookupError ''software iSCSI initiator not enabled'')
     else
       bindM
         (vnew api ''vim.host.InternetScsiHba.AuthenticationProperties'' [(''chapAuthEnabled'', PBool (\<not> py_eq
        direction (PStr ''prohibited''))), (''chapName'', name), (''chapSecret'', password),
        (''chapAuthenticationType'', PStr (''chapAuthSetting.'' @ py_str direction))]) (\<lambda>auth_props.
       bindM (vget api hba ''device'') (\<lambda>device.
       bindM
         (vcall api storage ''UpdateInternetScsiAuthenticationProperties'' [] [(''iScsiHbaDevice'', device),
        (''authenticationProperties'', auth_props)]) (\<lambda>_.
       pureM PNone))))))"

subsection \<open>\<open>clients/vim_host_snmp.py\<close>\<close>

definition vim_host_snmp_host :: "vmodl \<Rightarrow> pyval \<Rightarrow> pyval \<Rightarrow> profile \<Rightarrow> pyval io" where
  "vim_host_snmp_host api opts name_or_id profile =
     bindM (vim_content api opts profile) (\<lambda>content.
     bindM (vget api content ''viewManager'') (\<lambda>viewManager.
     bindM (vget api content ''rootFolder'') (\<lambda>rootFolder.
     bindM
       (vcall api viewManager ''CreateContainerView'' [rootFolder, PList [PStr ''vim.HostSystem''], PBool True] [])
        (\<lambda>container.
     or_else
       (finallyM
          (bindM (vget api container ''view'') (\<lambda>view.
           bindM (liftR (py_iter view)) (\<lambda>items.
           first_of (\<lambda>h.
             bindM (vget api h ''_moId'') (\<lambda>moId.
             bindM (vget api h ''name'') (\<lambda>name.
             if list_ex (py_eq name_or_id) [moId, name] then pureM (Some h) else pureM None))) items)))
          (bindM (vcall api container ''Destroy'' [] []) (\<lambda>_.
           pureM ())))
       (raiseM (LookupError (''host '' @ py_repr name_or_id @ '' not found'')))))))"

definition vim_host_snmp_snmp :: "vmodl \<Rightarrow> pyval \<Rightarrow> pyval io" where
  "vim_host_snmp_snmp api host =
     bindM (vpath api host [''configManager'', ''snmpSystem'']) (\<lambda>s.
     if s = PNone then
       bindM (vget api host ''name'') (\<lambda>name.
       raiseM (RuntimeError (''host '' @ py_repr name @ '' has no snmpSystem manager'')))
     else pureM s)"

definition vim_host_snmp_to_dict :: "vmodl \<Rightarrow> pyval \<Rightarrow> pyval io" where
  "vim_host_snmp_to_dict api cfg =
     bindM (vget api cfg ''enabled'') (\<lambda>enabled.
     bindM (vget api cfg ''port'') (\<lambda>port.
     bindM
       (if port \<noteq> PNone then
          bindM (vget api cfg ''port'') (\<lambda>port2.
          bindM (liftR (py_int port2)) (\<lambda>n.
          pureM (PInt n)))
        else pureM PNone) (\<lambda>x.
     bindM (vget api cfg ''readOnlyCommunities'') (\<lambda>readOnlyCommunities.
     bindM (liftR (py_iter (py_or readOnlyCommunities (PList [])))) (\<lambda>items2.
     bindM (vget api cfg ''trapTargets'') (\<lambda>trapTargets.
     bindM (liftR (py_iter (py_or trapTargets (PList [])))) (\<lambda>items3.
     bindM
       (mapM (\<lambda>t.
          bindM (vget api t ''hostName'') (\<lambda>hostName.
          bindM (vget api t ''port'') (\<lambda>port3.
          bindM (liftR (py_int port3)) (\<lambda>n2.
          bindM (vget api t ''community'') (\<lambda>community.
          pureM (PDict [(''host'', hostName), (''port'', PInt n2), (''community'', community)])))))) items3)
        (\<lambda>out.
     bindM (vget api cfg ''option'') (\<lambda>option.
     bindM (liftR (py_iter (py_or option (PList [])))) (\<lambda>items4.
     bindM
       (mapM (\<lambda>o_v.
          bindM (vget api o_v ''key'') (\<lambda>key.
          bindM (liftR (str_key key)) (\<lambda>k.
          bindM (vget api o_v ''value'') (\<lambda>val.
          pureM (k, val))))) items4) (\<lambda>entries.
     pureM (PDict [(''enabled'', PBool (truthy enabled)), (''port'', x), (''read_only_communities'', PList items2),
       (''trap_targets'', PList out), (''options'', PDict (dupdate [] entries))]))))))))))))"

definition vim_host_snmp_get :: "vmodl \<Rightarrow> pyval \<Rightarrow> pyval \<Rightarrow> profile \<Rightarrow> pyval io" where
  "vim_host_snmp_get api opts host profile =
     bindM (vim_host_snmp_host api opts host profile) (\<lambda>host2.
     bindM (vim_host_snmp_snmp api host2) (\<lambda>snmp2.
     bindM (vget api snmp2 ''configuration'') (\<lambda>configuration.
     vim_host_snmp_to_dict api configuration)))"

definition snmp_targets :: "vmodl \<Rightarrow> pyval \<Rightarrow> pyval list io" where
  "snmp_targets api trap_targets =
     bindM (liftR (py_iter trap_targets)) (\<lambda>items.
     mapM (\<lambda>t.
       bindM (liftR (py_item t ''host'')) (\<lambda>host.
       bindM (liftR (py_item t ''port'')) (\<lambda>port.
       bindM (liftR (py_int port)) (\<lambda>n.
       bindM (liftR (py_item t ''community'')) (\<lambda>community.
       vnew api ''vim.host.SnmpSystem.SnmpConfigSpec.SnmpTrapTarget''
         [(''hostName'', host), (''port'', PInt n), (''community'', community)]))))) items)"

definition vim_host_snmp_set ::
  "vmodl \<Rightarrow> pyval \<Rightarrow> pyval \<Rightarrow> pyval \<Rightarrow> pyval \<Rightarrow> pyval \<Rightarrow>
   pyval \<Rightarrow> profile \<Rightarrow> pyval io" where
  "vim_host_snmp_set api opts host enabled port read_only_communities trap_targets profile =
     bindM (vim_host_snmp_host api opts host profile) (\<lambda>h.
     bindM (vim_host_snmp_snmp api h) (\<lambda>snmp.
     bindM (vget api snmp ''configuration'') (\<lambda>cur.
     bindM (vnew api ''vim.host.SnmpSystem.SnmpConfigSpec'' []) (\<lambda>spec.
     bindM (if enabled = PNone then vget api cur ''enabled'' else pureM enabled) (\<lambda>on.
     bindM (vset api spec ''enabled'' (PBool (truthy on))) (\<lambda>spec.
     bindM (if port = PNone then vget api cur ''port'' else pureM port) (\<lambda>p.
     bindM (liftR (py_int p)) (\<lambda>n.
     bindM (vset api spec ''port'' (PInt n)) (\<lambda>spec.
     bindM
       (if read_only_communities = PNone then
          bindM (vget api cur ''readOnlyCommunities'') (\<lambda>cs. liftR (py_iter (py_or cs (PList []))))
        else liftR (py_iter read_only_communities)) (\<lambda>communities.
     bindM (vset api spec ''readOnlyCommunities'' (PList communities)) (\<lambda>spec.
     bindM
       (if trap_targets \<noteq> PNone then snmp_targets api trap_targets
        else bindM (vget api cur ''trapTargets'') (\<lambda>ts. liftR (py_iter (py_or ts (PList []))))) (\<lambda>targets.
     bindM (vset api spec ''trapTargets'' (PList targets)) (\<lambda>spec.
     bindM (vcall api snmp ''ReconfigureSnmpAgent'' [] [(''spec'', spec)]) (\<lambda>_.
     vim_host_snmp_get api opts host profile))))))))))))))"

subsection \<open>\<open>clients/vim_host_ssl_thumbprint.py\<close>\<close>

definition vim_host_ssl_thumbprint_host :: "vmodl \<Rightarrow> pyval \<Rightarrow> pyval \<Rightarrow> profile \<Rightarrow> pyval io" where
  "vim_host_ssl_thumbprint_host api opts host_id_or_name profile =
     bindM (vim_content api opts profile) (\<lambda>content.
     bindM (vget api content ''viewManager'') (\<lambda>viewManager.
     bindM (vget api content ''rootFolder'') (\<lambda>rootFolder.
     bindM
       (vcall api viewManager ''CreateContainerView'' [rootFolder, PList [PStr ''vim.HostSystem''], PBool True] [])
        (\<lambda>container.
     or_else
       (finallyM
          (bindM (vget api container ''view'') (\<lambda>view.
           bindM (liftR (py_iter view)) (\<lambda>items.
           first_of (\<lambda>host.
             bindM (vget api host ''_moId'') (\<lambda>moId.
             bindM (vget api host ''name'') (\<lambda>name.
             if list_ex (py_eq host_id_or_name) [moId, name] then pureM (Some host) else pureM None)))
        items)))
          (bindM (vcall api container ''Destroy'' [] []) (\<lambda>_.
           pureM ())))
       (raiseM (LookupError (''host '' @ py_repr host_id_or_name @ '' not found'')))))))"

fun byte_pairs :: "string \<Rightarrow> string list" where
  "byte_pairs (a # b # s) = [a, b] # byte_pairs s"
| "byte_pairs [] = []"
| "byte_pairs s = [s]"

definition vim_host_ssl_thumbprint_fetch :: "vmodl \<Rightarrow> pyval \<Rightarrow> pyval \<Rightarrow> pyval \<Rightarrow> pyval io" where
  "vim_host_ssl_thumbprint_fetch api hostname port timeout =
     bindM (vm_digest api hostname port timeout) (\<lambda>digest.
     pureM (PStr (join_with '':'' (byte_pairs (map upper_char digest)))))"

definition vim_host_ssl_thumbprint_current :: "vmodl \<Rightarrow> pyval \<Rightarrow> pyval \<Rightarrow> profile \<Rightarrow> pyval io" where
  "vim_host_ssl_thumbprint_current api opts host profile =
     bindM (vim_host_ssl_thumbprint_host api opts host profile) (\<lambda>h.
     bindM (vpath api h [''summary'', ''config'']) (\<lambda>config.
     vget_or api config ''sslThumbprint'' PNone))"

definition vim_host_ssl_thumbprint_validate :: "vmodl \<Rightarrow> pyval \<Rightarrow> pyval \<Rightarrow> profile \<Rightarrow> pyval io" where
  "vim_host_ssl_thumbprint_validate api opts host profile =
     bindM (vim_host_ssl_thumbprint_host api opts host profile) (\<lambda>h.
     bindM (vpath api h [''summary'', ''config'']) (\<lambda>config.
     bindM (vget_or api config ''sslThumbprint'' PNone) (\<lambda>cur.
     bindM (vget api h ''name'') (\<lambda>address.
     bindM
       (tryM
          (vim_host_ssl_thumbprint_fetch api address (PInt 443) (PInt 10))
          (\<lambda>exc. if is_ConnError exc then pureM PNone else raiseM exc)) (\<lambda>live.
     pureM (PDict [(''current'', cur), (''live'', live), (''match'', PBool (truthy cur \<and> truthy live \<and>
       (py_eq cur live)))]))))))"

subsection \<open>\<open>clients/vim_host_storage.py\<close>\<close>

definition vim_host_storage_host :: "vmodl \<Rightarrow> pyval \<Rightarrow> pyval \<Rightarrow> profile \<Rightarrow> pyval io" where
  "vim_host_storage_host api opts name_or_id profile =
     bindM (vim_content api opts profile) (\<lambda>content.
     bindM (vget api content ''viewManager'') (\<lambda>viewManager.
     bindM (vget api content ''rootFolder'') (\<lambda>rootFolder.
     bindM
       (vcall api viewManager ''CreateContainerView'' [rootFolder, PList [PStr ''vim.HostSystem''], PBool True] [])
        (\<lambda>container.
     or_else
       (finallyM
          (bindM (vget api container ''view'') (\<lambda>view.
           bindM (liftR (py_iter view)) (\<lambda>items.
           first_of (\<lambda>h.
             bindM (vget api h ''_moId'') (\<lambda>moId.
             bindM (vget api h ''name'') (\<lambda>name.
             if list_ex (py_eq name_or_id) [moId, name] then pureM (Some h) else pureM None))) items)))
          (bindM (vcall api container ''Destroy'' [] []) (\<lambda>_.
           pureM ())))
       (raiseM (LookupError (''host '' @ py_repr name_or_id @ '' not found'')))))))"

definition vim_host_storage_ss :: "vmodl \<Rightarrow> pyval \<Rightarrow> pyval io" where
  "vim_host_storage_ss api host =
     bindM (vpath api host [''configManager'', ''storageSystem'']) (\<lambda>s.
     if s = PNone then
       bindM (vget api host ''name'') (\<lambda>name.
       raiseM (RuntimeError (''host '' @ py_repr name @ '' has no storageSystem manager'')))
     else pureM s)"

definition vim_host_storage_rescan_all_hba :: "vmodl \<Rightarrow> pyval \<Rightarrow> pyval \<Rightarrow> profile \<Rightarrow> pyval io" where
  "vim_host_storage_rescan_all_hba api opts host profile =
     bindM (vim_host_storage_host api opts host profile) (\<lambda>host2.
     bindM (vim_host_storage_ss api host2) (\<lambda>ss2.
     bindM (vcall api ss2 ''RescanAllHba'' [] []) (\<lambda>_.
     pureM (PBool True))))"

definition vim_host_storage_rescan_vmfs :: "vmodl \<Rightarrow> pyval \<Rightarrow> pyval \<Rightarrow> profile \<Rightarrow> pyval io" where
  "vim_host_storage_rescan_vmfs api opts host profile =
     bindM (vim_host_storage_host api opts host profile) (\<lambda>host2.
     bindM (vim_host_storage_ss api host2) (\<lambda>ss2.
     bindM (vcall api ss2 ''RescanVmfs'' [] []) (\<lambda>_.
     pureM (PBool True))))"

definition vim_host_storage_refresh :: "vmodl \<Rightarrow> pyval \<Rightarrow> pyval \<Rightarrow> profile \<Rightarrow> pyval io" where
  "vim_host_storage_refresh api opts host profile =
     bindM (vim_host_storage_host api opts host profile) (\<lambda>host2.
     bindM (vim_host_storage_ss api host2) (\<lambda>ss2.
     bindM (vcall api ss2 ''RefreshStorageSystem'' [] []) (\<lambda>_.
     pureM (PBool True))))"

subsection \<open>\<open>clients/vim_host_tcpip.py\<close>\<close>

definition vim_host_tcpip_host :: "vmodl \<Rightarrow> pyval \<Rightarrow> pyval \<Rightarrow> profile \<Rightarrow> pyval io" where
  "vim_host_tcpip_host api opts name_or_id profile =
     bindM (vim_content api opts profile) (\<lambda>content.
     bindM (vget api content ''viewManager'') (\<lambda>viewManager.
     bindM (vget api content ''rootFolder'') (\<lambda>rootFolder.
     bindM
       (vcall api viewManager ''CreateContainerView'' [rootFolder, PList [PStr ''vim.HostSystem''], PBool True] [])
        (\<lambda>container.
     or_else
       (finallyM
          (bindM (vget api container ''view'') (\<lambda>view.
           bindM (liftR (py_iter view)) (\<lambda>items.
           first_of (\<lambda>h.
             bindM (vget api h ''_moId'') (\<lambda>moId.
             bindM (vget api h ''name'') (\<lambda>name.
             if list_ex (py_eq name_or_id) [moId, name] then pureM (Some h) else pureM None))) items)))
          (bindM (vcall api container ''Destroy'' [] []) (\<lambda>_.
           pureM ())))
       (raiseM (LookupError (''host '' @ py_repr name_or_id @ '' not found'')))))))"

definition vim_host_tcpip_net :: "vmodl \<Rightarrow> pyval \<Rightarrow> pyval io" where
  "vim_host_tcpip_net api host =
     bindM (vpath api host [''configManager'', ''networkSystem'']) (\<lambda>n.
     if n = PNone then
       bindM (vget api host ''name'') (\<lambda>name.
       raiseM (RuntimeError (''host '' @ py_repr name @ '' has no networkSystem manager'')))
     else pureM n)"

definition vim_host_tcpip_to_dict :: "vmodl \<Rightarrow> pyval \<Rightarrow> pyval io" where
  "vim_host_tcpip_to_dict api stack =
     bindM (vget api stack ''key'') (\<lambda>key.
     bindM (vget api stack ''name'') (\<lambda>name.
     bindM (vget api stack ''dnsConfig'') (\<lambda>dnsConfig.
     bindM
       (if truthy dnsConfig then
          bindM (vget api stack ''dnsConfig'') (\<lambda>dnsConfig2.
          bindM (if truthy dnsConfig2 then vpath api stack [''dnsConfig'', ''hostName''] else pureM PNone)
        (\<lambda>x.
          bindM (vget api stack ''dnsConfig'') (\<lambda>dnsConfig3.
          bindM
            (if truthy dnsConfig3 then vpath api stack [''dnsConfig'', ''domainName''] else pureM PNone)
        (\<lambda>x2.
          bindM (vget api stack ''dnsConfig'') (\<lambda>dnsConfig4.
          bindM
            (if truthy dnsConfig4 then
               bindM (vpath api stack [''dnsConfig'', ''address'']) (\<lambda>address.
               liftR (py_iter (py_or address (PList []))))
             else pureM []) (\<lambda>x3.
          bindM (vget api stack ''dnsConfig'') (\<lambda>dnsConfig5.
          bindM
            (if truthy dnsConfig5 then
               bindM (vpath api stack [''dnsConfig'', ''searchDomain'']) (\<lambda>searchDomain.
               liftR (py_iter (py_or searchDomain (PList []))))
             else pureM []) (\<lambda>x4.
          pureM (PDict [(''hostname'', x), (''domain'', x2), (''servers'', PList x3), (''search'', PList
        x4)])))))))))
        else pureM PNone) (\<lambda>x5.
     bindM (vget_or api stack ''ipV6Enabled'' (PBool False)) (\<lambda>ipV6Enabled.
     pureM (PDict [(''key'', key), (''name'', name), (''dns_config'', x5), (''ipv6_enabled'', PBool (truthy
       ipV6Enabled))]))))))"

definition vim_host_tcpip_list :: "vmodl \<Rightarrow> pyval \<Rightarrow> pyval \<Rightarrow> profile \<Rightarrow> pyval io" where
  "vim_host_tcpip_list api opts host profile =
     bindM (vim_host_tcpip_host api opts host profile) (\<lambda>h.
     bindM (vpath api h [''config'', ''network'', ''netStackInstance'']) (\<lambda>netStackInstance.
     bindM (liftR (py_iter (py_or netStackInstance (PList [])))) (\<lambda>items.
     bindM (mapM (\<lambda>s. vim_host_tcpip_to_dict api s) items) (\<lambda>out.
     pureM (PList out)))))"

definition vim_host_tcpip_get :: "vmodl \<Rightarrow> pyval \<Rightarrow> pyval \<Rightarrow> pyval \<Rightarrow> profile \<Rightarrow> pyval io" where
  "vim_host_tcpip_get api opts host stack_key profile =
     bindM (vim_host_tcpip_list api opts host profile) (\<lambda>items2.
     bindM (liftR (py_iter items2)) (\<lambda>items3.
     or_else
       (first_of (\<lambda>s.
          bindM (liftR (py_item s ''key'')) (\<lambda>key.
          if py_eq key stack_key then pureM (Some s) else pureM None)) items3)
       (raiseM (LookupError (''TCP/IP stack '' @ py_repr stack_key @ '' not found on host '' @ py_repr
        host)))))"

definition vim_host_tcpip_get_or_none :: "vmodl \<Rightarrow> pyval \<Rightarrow> pyval \<Rightarrow> pyval \<Rightarrow> profile \<Rightarrow> pyval io" where
  "vim_host_tcpip_get_or_none api opts host stack_key profile =
     tryM
       (vim_host_tcpip_get api opts host stack_key profile)
       (\<lambda>exc. if is_LookupError exc then pureM PNone else raiseM exc)"

definition vim_host_tcpip_update :: "vmodl \<Rightarrow> pyval \<Rightarrow> pyval \<Rightarrow> pyval \<Rightarrow>
  pyval \<Rightarrow> pyval \<Rightarrow> profile \<Rightarrow> pyval io" where
  "vim_host_tcpip_update api opts host stack_key dns_servers dns_search_domains profile =
     bindM (vim_host_tcpip_host api opts host profile) (\<lambda>h.
     let cur = PNone in
     bindM (vpath api h [''config'', ''network'', ''netStackInstance'']) (\<lambda>netStackInstance.
     bindM (liftR (py_iter (py_or netStackInstance (PList [])))) (\<lambda>items2.
     bindM
       (for_each (\<lambda>s cur.
          bindM (vget api s ''key'') (\<lambda>key.
          if py_eq key stack_key then let cur = s in pureM (Inl cur) else pureM (Inr cur))) items2 cur)
        (\<lambda>left.
     let cur = either left in
     if cur = PNone then raiseM (LookupError (''TCP/IP stack '' @ py_repr stack_key @ '' not found''))
     else
       bindM (vnew api ''vim.host.NetStackInstance'' []) (\<lambda>spec.
       bindM (vset api spec ''key'' stack_key) (\<lambda>spec.
       bindM (vget api cur ''name'') (\<lambda>name.
       bindM (vset api spec ''name'' name) (\<lambda>spec.
       bindM
         (if (dns_servers \<noteq> PNone) \<or> (dns_search_domains \<noteq> PNone) then
            bindM (vnew api ''vim.host.DnsConfig'' []) (\<lambda>dns.
            bindM (vget api cur ''dnsConfig'') (\<lambda>old.
            bindM
              (if truthy old then
                 bindM (vget api old ''dhcp'') (\<lambda>dhcp.
                 pureM (truthy dhcp))
               else pureM False) (\<lambda>x.
            bindM (vset api dns ''dhcp'' (PBool x)) (\<lambda>dns.
            bindM (if truthy old then vget api old ''hostName'' else pureM (PStr [])) (\<lambda>x2.
            bindM (vset api dns ''hostName'' x2) (\<lambda>dns.
            bindM (if truthy old then vget api old ''domainName'' else pureM (PStr [])) (\<lambda>x3.
            bindM (vset api dns ''domainName'' x3) (\<lambda>dns.
            bindM
              (if dns_servers \<noteq> PNone then liftR (py_iter dns_servers)
               else
                 bindM
                   (if truthy old then
                      bindM (vget api old ''address'') (\<lambda>address.
                      pureM (py_or address (PList [])))
                    else pureM (PList [])) (\<lambda>x4.
                 liftR (py_iter x4))) (\<lambda>x5.
            bindM (vset api dns ''address'' (PList x5)) (\<lambda>dns.
            bindM
              (if dns_search_domains \<noteq> PNone then liftR (py_iter dns_search_domains)
               else
                 bindM
                   (if truthy old then
                      bindM (vget api old ''searchDomain'') (\<lambda>searchDomain.
                      pureM (py_or searchDomain (PList [])))
                    else pureM (PList [])) (\<lambda>x6.
                 liftR (py_iter x6))) (\<lambda>x7.
            bindM (vset api dns ''searchDomain'' (PList x7)) (\<lambda>dns.
            vset api spec ''dnsConfig'' dns))))))))))))
          else pureM spec) (\<lambda>spec.
       bindM (vim_host_tcpip_net api h) (\<lambda>net_v2.
       bindM (vcall api net_v2 ''UpdateNetStackInstance'' [] [(''netStackInstance'', spec)]) (\<lambda>_.
       vim_host_tcpip_get api opts host stack_key profile)))))))))))"

subsection \<open>\<open>clients/vim_host_network.py\<close>\<close>

definition vim_host_network_VSWITCH_TEAMING_POLICIES :: "string list" where
  "vim_host_network_VSWITCH_TEAMING_POLICIES =
     [''loadbalance_ip'', ''loadbalance_srcmac'', ''loadbalance_srcid'', ''failover_explicit'']"

definition vim_host_network_host :: "vmodl \<Rightarrow> pyval \<Rightarrow> pyval \<Rightarrow> profile \<Rightarrow> pyval io" where
  "vim_host_network_host api opts host_id_or_name profile =
     vim_resolve_host_system api opts host_id_or_name profile"

definition vim_host_network_net :: "vmodl \<Rightarrow> pyval \<Rightarrow> pyval \<Rightarrow> profile \<Rightarrow> pyval io" where
  "vim_host_network_net api opts host profile =
     bindM (vim_host_network_host api opts host profile) (\<lambda>host2.
     vpath api host2 [''configManager'', ''networkSystem''])"

definition vim_host_network_network_info :: "vmodl \<Rightarrow> pyval \<Rightarrow> pyval \<Rightarrow> profile \<Rightarrow> pyval io" where
  "vim_host_network_network_info api opts host profile =
     bindM (vim_host_network_host api opts host profile) (\<lambda>h.
     tryM
       (vpath api h [''config'', ''network''])
       (\<lambda>exc. if is_AttributeError exc then pureM PNone else raiseM exc))"

definition vim_host_network_teaming_to_dict :: "vmodl \<Rightarrow> pyval \<Rightarrow> pyval io" where
  "vim_host_network_teaming_to_dict api policy =
     bindM
       (if policy = PNone then pureM True
        else bindM (vget_or api policy ''nicTeaming'' PNone) (\<lambda>nicTeaming.
             pureM (nicTeaming = PNone))) (\<lambda>holds_v.
     if holds_v then pureM PNone
     else
       bindM (vget api policy ''nicTeaming'') (\<lambda>t.
       bindM (vget_or api t ''failureCriteria'' PNone) (\<lambda>failure.
       bindM (vget_or api t ''nicOrder'' PNone) (\<lambda>order_v.
       bindM (vget_or api t ''policy'' PNone) (\<lambda>policy2.
       bindM (vget_or api t ''reversePolicy'' PNone) (\<lambda>reversePolicy.
       bindM (vget_or api t ''notifySwitches'' PNone) (\<lambda>notifySwitches.
       bindM (vget_or api t ''rollingOrder'' PNone) (\<lambda>rollingOrder.
       bindM (if truthy failure then vget_or api failure ''checkBeacon'' PNone else pureM PNone) (\<lambda>x.
       bindM
         (if truthy order_v then
            bindM (vget_or api order_v ''activeNic'' PNone) (\<lambda>activeNic.
            liftR (py_iter (py_or activeNic (PList []))))
          else pureM []) (\<lambda>x2.
       bindM
         (if truthy order_v then
            bindM (vget_or api order_v ''standbyNic'' PNone) (\<lambda>standbyNic.
            liftR (py_iter (py_or standbyNic (PList []))))
          else pureM []) (\<lambda>x3.
       pureM (PDict [(''policy'', policy2), (''reverse_policy'', reversePolicy), (''notify_switches'',
        notifySwitches), (''rolling_order'', rollingOrder), (''check_beacon'', x), (''active_nic'', PList x2),
        (''standby_nic'', PList x3)]))))))))))))"

definition vim_host_network_vswitch_to_dict :: "vmodl \<Rightarrow> pyval \<Rightarrow> pyval io" where
  "vim_host_network_vswitch_to_dict api vs =
     (let pnic_devices = [] in
      bindM (vget api vs ''spec'') (\<lambda>spec.
      bindM
        (if truthy spec then
           bindM (vpath api vs [''spec'', ''bridge'']) (\<lambda>bridge.
           pureM (is_instance api bridge ''vim.host.VirtualSwitch.BondBridge''))
         else pureM False) (\<lambda>holds_v.
      bindM
        (if holds_v then
           bindM (vpath api vs [''spec'', ''bridge'', ''nicDevice'']) (\<lambda>nicDevice.
           liftR (py_iter (py_or nicDevice (PList []))))
         else pureM pnic_devices) (\<lambda>pnic_devices.
      bindM (vget api vs ''name'') (\<lambda>name.
      bindM (vget api vs ''key'') (\<lambda>key.
      bindM (vget api vs ''numPorts'') (\<lambda>numPorts.
      bindM (vget api vs ''numPortsAvailable'') (\<lambda>numPortsAvailable.
      bindM (vget api vs ''mtu'') (\<lambda>mtu.
      bindM (vget api vs ''portgroup'') (\<lambda>portgroup.
      bindM (liftR (py_iter (py_or portgroup (PList [])))) (\<lambda>items3.
      bindM
        (mapM (\<lambda>pg. bindM (liftR (py_split_at pg (CHR ''-'') 1)) (\<lambda>parts. liftR (py_final parts)))
        items3) (\<lambda>out.
      bindM (vget api vs ''spec'') (\<lambda>spec2.
      bindM (vget_or api spec2 ''policy'' PNone) (\<lambda>policy.
      bindM (vim_host_network_teaming_to_dict api policy) (\<lambda>teaming_to_dict2.
      pureM (PDict [(''name'', name), (''key'', key), (''num_ports'', numPorts), (''num_ports_available'',
        numPortsAvailable), (''mtu'', mtu), (''pnic_devices'', PList pnic_devices), (''portgroup_names'', PList
        out), (''teaming'', teaming_to_dict2)]))))))))))))))))"

definition vim_host_network_vswitch_list :: "vmodl \<Rightarrow> pyval \<Rightarrow> pyval \<Rightarrow> profile \<Rightarrow> pyval io" where
  "vim_host_network_vswitch_list api opts host profile =
     bindM (vim_host_network_network_info api opts host profile) (\<lambda>info.
     if info = PNone then pureM (PList [])
     else
       bindM (vget api info ''vswitch'') (\<lambda>vswitch.
       bindM (liftR (py_iter (py_or vswitch (PList [])))) (\<lambda>items.
       bindM (mapM (\<lambda>vs. vim_host_network_vswitch_to_dict api vs) items) (\<lambda>out.
       pureM (PList out)))))"

definition vim_host_network_vswitch_get :: "vmodl \<Rightarrow> pyval \<Rightarrow> pyval \<Rightarrow> pyval \<Rightarrow> profile \<Rightarrow> pyval io" where
  "vim_host_network_vswitch_get api opts host name profile =
     bindM (vim_host_network_vswitch_list api opts host profile) (\<lambda>vswitch_list2.
     bindM (liftR (py_iter vswitch_list2)) (\<lambda>items.
     or_else
       (first_of (\<lambda>vs.
          bindM (liftR (py_item vs ''name'')) (\<lambda>name2.
          if py_eq name2 name then pureM (Some vs) else pureM None)) items)
       (raiseM (LookupError (''vSwitch '' @ py_repr name @ '' not found on '' @ py_repr host)))))"

definition vim_host_network_vswitch_get_or_none :: "vmodl \<Rightarrow> pyval \<Rightarrow> pyval \<Rightarrow>
  pyval \<Rightarrow> profile \<Rightarrow> pyval io" where
  "vim_host_network_vswitch_get_or_none api opts host name profile =
     tryM
       (vim_host_network_vswitch_get api opts host name profile)
       (\<lambda>exc. if is_LookupError exc then pureM PNone else raiseM exc)"

definition vim_host_network_vswitch_add ::
  "vmodl \<Rightarrow> pyval \<Rightarrow> pyval \<Rightarrow> pyval \<Rightarrow> pyval \<Rightarrow> pyval \<Rightarrow> pyval \<Rightarrow> profile \<Rightarrow> pyval io" where
  "vim_host_network_vswitch_add api opts host name num_ports mtu pnic_devices profile =
     bindM (liftR (py_int num_ports)) (\<lambda>n.
     bindM (liftR (py_int mtu)) (\<lambda>n2.
     bindM
       (vnew api ''vim.host.VirtualSwitch.Specification'' [(''numPorts'', PInt n), (''mtu'', PInt n2)])
        (\<lambda>spec.
     bindM
       (if truthy pnic_devices then
          bindM (liftR (py_iter pnic_devices)) (\<lambda>items2.
          bindM (vnew api ''vim.host.VirtualSwitch.BondBridge'' [(''nicDevice'', PList items2)]) (\<lambda>bridge.
          vset api spec ''bridge'' bridge))
        else pureM spec) (\<lambda>spec.
     bindM (vim_host_network_net api opts host profile) (\<lambda>net_v2.
     bindM (vcall api net_v2 ''AddVirtualSwitch'' [] [(''vswitchName'', name), (''spec'', spec)]) (\<lambda>_.
     pureM PNone))))))"

definition vim_host_network_vswitch_update ::
  "vmodl \<Rightarrow> pyval \<Rightarrow> pyval \<Rightarrow> pyval \<Rightarrow> pyval \<Rightarrow> pyval \<Rightarrow> pyval \<Rightarrow> profile \<Rightarrow> pyval io" where
  "vim_host_network_vswitch_update api opts host name num_ports mtu pnic_devices profile =
     bindM (vim_host_network_vswitch_get api opts host name profile) (\<lambda>existing.
     bindM
       (if num_ports \<noteq> PNone then
          bindM (liftR (py_int num_ports)) (\<lambda>n.
          pureM (PInt n))
        else liftR (py_item existing ''num_ports'')) (\<lambda>x.
     bindM
       (if mtu \<noteq> PNone then
          bindM (liftR (py_int mtu)) (\<lambda>n2.
          pureM (PInt n2))
        else liftR (py_item existing ''mtu'')) (\<lambda>x2.
     bindM (vnew api ''vim.host.VirtualSwitch.Specification'' [(''numPorts'', x), (''mtu'', x2)]) (\<lambda>spec.
     bindM
       (if pnic_devices \<noteq> PNone then
          bindM (liftR (py_iter pnic_devices)) (\<lambda>items2.
          bindM (vnew api ''vim.host.VirtualSwitch.BondBridge'' [(''nicDevice'', PList items2)])
        (\<lambda>bondBridge.
          vset api spec ''bridge'' bondBridge))
        else
          bindM (liftR (py_get existing ''pnic_devices'' PNone)) (\<lambda>pnic_devices2.
          if truthy pnic_devices2 then
            bindM (liftR (py_item existing ''pnic_devices'')) (\<lambda>pnic_devices3.
            bindM
              (vnew api ''vim.host.VirtualSwitch.BondBridge'' [(''nicDevice'', pnic_devices3)])
        (\<lambda>bondBridge2.
            vset api spec ''bridge'' bondBridge2))
          else pureM spec)) (\<lambda>spec.
     bindM (vim_host_network_net api opts host profile) (\<lambda>net_v2.
     bindM (vcall api net_v2 ''UpdateVirtualSwitch'' [] [(''vswitchName'', name), (''spec'', spec)]) (\<lambda>_.
     pureM PNone)))))))"

definition vim_host_network_vswitch_remove :: "vmodl \<Rightarrow> pyval \<Rightarrow> pyval \<Rightarrow> pyval \<Rightarrow> profile \<Rightarrow> pyval io" where
  "vim_host_network_vswitch_remove api opts host name profile =
     bindM (vim_host_network_net api opts host profile) (\<lambda>net_v2.
     bindM (vcall api net_v2 ''RemoveVirtualSwitch'' [] [(''vswitchName'', name)]) (\<lambda>_.
     pureM PNone))"

definition vim_host_network_build_nic_teaming ::
  "vmodl \<Rightarrow> pyval \<Rightarrow> pyval \<Rightarrow> pyval \<Rightarrow> pyval \<Rightarrow> pyval \<Rightarrow> pyval \<Rightarrow> pyval \<Rightarrow> pyval io" where
  "vim_host_network_build_nic_teaming api policy reverse_policy notify_switches rolling_order check_beacon
    active_nic standby_nic =
     (if \<not> in_strs policy vim_host_network_VSWITCH_TEAMING_POLICIES then
        bindM (liftR (py_sorted (map PStr vim_host_network_VSWITCH_TEAMING_POLICIES))) (\<lambda>ordered.
        raiseM (ValueError (''teaming policy must be one of '' @ py_str (PList ordered) @ ''; got '' @ py_repr
        policy)))
      else
        let kwargs = [(''policy'', policy)] in
        let kwargs = (if reverse_policy \<noteq> PNone then dset kwargs ''reversePolicy'' (PBool (truthy
        reverse_policy)) else kwargs) in
        let kwargs = (if notify_switches \<noteq> PNone then dset kwargs ''notifySwitches'' (PBool (truthy
        notify_switches)) else kwargs) in
        let kwargs = (if rolling_order \<noteq> PNone then dset kwargs ''rollingOrder'' (PBool (truthy
        rolling_order)) else kwargs) in
        bindM
          (if check_beacon \<noteq> PNone then
             bindM
               (vnew api ''vim.host.NetworkPolicy.NicFailureCriteria'' [(''checkBeacon'', PBool (truthy
        check_beacon))]) (\<lambda>nicFailureCriteria.
             pureM (dset kwargs ''failureCriteria'' nicFailureCriteria))
           else pureM kwargs) (\<lambda>kwargs.
        bindM
          (if (active_nic \<noteq> PNone) \<or> (standby_nic \<noteq> PNone) then
             bindM (liftR (py_iter (py_or active_nic (PList [])))) (\<lambda>items2.
             bindM (liftR (py_iter (py_or standby_nic (PList [])))) (\<lambda>items3.
             bindM
               (vnew api ''vim.host.NetworkPolicy.NicOrderPolicy'' [(''activeNic'', PList items2), (''standbyNic'',
        PList items3)]) (\<lambda>nicOrderPolicy.
             pureM (dset kwargs ''nicOrder'' nicOrderPolicy))))
           else pureM kwargs) (\<lambda>kwargs.
        vnew api ''vim.host.NetworkPolicy.NicTeamingPolicy'' kwargs)))"

definition vim_host_network_vswitch_get_teaming :: "vmodl \<Rightarrow> pyval \<Rightarrow> pyval \<Rightarrow>
  pyval \<Rightarrow> profile \<Rightarrow> pyval io" where
  "vim_host_network_vswitch_get_teaming api opts host name profile =
     bindM (vim_host_network_vswitch_get api opts host name profile) (\<lambda>vswitch_get2.
     liftR (py_get vswitch_get2 ''teaming'' PNone))"

definition vim_host_network_vswitch_set_teaming ::
  "vmodl \<Rightarrow> pyval \<Rightarrow> pyval \<Rightarrow> pyval \<Rightarrow> pyval \<Rightarrow> pyval
    \<Rightarrow> pyval \<Rightarrow> pyval \<Rightarrow> pyval \<Rightarrow> pyval \<Rightarrow> pyval \<Rightarrow> profile \<Rightarrow> pyval io" where
  "vim_host_network_vswitch_set_teaming api opts host name policy reverse_policy notify_switches rolling_order
    check_beacon active_nic standby_nic profile =
     bindM (vim_host_network_vswitch_get api opts host name profile) (\<lambda>existing.
     bindM (liftR (py_item existing ''num_ports'')) (\<lambda>num_ports.
     bindM (liftR (py_int num_ports)) (\<lambda>n.
     bindM (liftR (py_item existing ''mtu'')) (\<lambda>mtu.
     bindM (liftR (py_int mtu)) (\<lambda>n2.
     bindM
       (vnew api ''vim.host.VirtualSwitch.Specification'' [(''numPorts'', PInt n), (''mtu'', PInt n2)])
        (\<lambda>spec.
     bindM (liftR (py_get existing ''pnic_devices'' PNone)) (\<lambda>pnic_devices.
     bindM
       (if truthy pnic_devices then
          bindM (liftR (py_item existing ''pnic_devices'')) (\<lambda>pnic_devices2.
          bindM (vnew api ''vim.host.VirtualSwitch.BondBridge'' [(''nicDevice'', pnic_devices2)])
        (\<lambda>bondBridge.
          vset api spec ''bridge'' bondBridge))
        else pureM spec) (\<lambda>spec.
     bindM
       (vim_host_network_build_nic_teaming api policy reverse_policy notify_switches rolling_order check_beacon
        active_nic standby_nic) (\<lambda>build_nic_teaming2.
     bindM (vnew api ''vim.host.NetworkPolicy'' [(''nicTeaming'', build_nic_teaming2)]) (\<lambda>networkPolicy.
     bindM (vset api spec ''policy'' networkPolicy) (\<lambda>spec.
     bindM (vim_host_network_net api opts host profile) (\<lambda>net_v2.
     bindM (vcall api net_v2 ''UpdateVirtualSwitch'' [] [(''vswitchName'', name), (''spec'', spec)]) (\<lambda>_.
     vim_host_network_vswitch_get_teaming api opts host name profile)))))))))))))"

definition vim_host_network_pg_to_dict :: "vmodl \<Rightarrow> pyval \<Rightarrow> pyval io" where
  "vim_host_network_pg_to_dict api pg =
     bindM (vpath api pg [''spec'', ''policy'']) (\<lambda>policy.
     bindM (vget_or api policy ''security'' PNone) (\<lambda>sec.
     bindM (vpath api pg [''spec'', ''name'']) (\<lambda>name.
     bindM (vpath api pg [''spec'', ''vlanId'']) (\<lambda>vlanId.
     bindM (vpath api pg [''spec'', ''vswitchName'']) (\<lambda>vswitchName.
     bindM (vget api pg ''port'') (\<lambda>port.
     bindM (liftR (py_len (py_or port (PList [])))) (\<lambda>n.
     bindM (vget_or api sec ''allowPromiscuous'' PNone) (\<lambda>allowPromiscuous.
     bindM (vget_or api sec ''macChanges'' PNone) (\<lambda>macChanges.
     bindM (vget_or api sec ''forgedTransmits'' PNone) (\<lambda>forgedTransmits.
     pureM (PDict [(''name'', name), (''vlan_id'', vlanId), (''vswitch'', vswitchName), (''ports'', PInt (int n)),
       (''security'', PDict [(''promiscuous'', allowPromiscuous), (''mac_changes'', macChanges),
        (''forged_transmits'', forgedTransmits)])])))))))))))"

definition vim_host_network_portgroup_list :: "vmodl \<Rightarrow> pyval \<Rightarrow> pyval \<Rightarrow> profile \<Rightarrow> pyval io" where
  "vim_host_network_portgroup_list api opts host profile =
     bindM (vim_host_network_network_info api opts host profile) (\<lambda>info.
     if info = PNone then pureM (PList [])
     else
       bindM (vget api info ''portgroup'') (\<lambda>portgroup.
       bindM (liftR (py_iter (py_or portgroup (PList [])))) (\<lambda>items.
       bindM (mapM (\<lambda>pg. vim_host_network_pg_to_dict api pg) items) (\<lambda>out.
       pureM (PList out)))))"

definition vim_host_network_portgroup_get :: "vmodl \<Rightarrow> pyval \<Rightarrow> pyval \<Rightarrow> pyval \<Rightarrow> profile \<Rightarrow> pyval io" where
  "vim_host_network_portgroup_get api opts host name profile =
     bindM (vim_host_network_portgroup_list api opts host profile) (\<lambda>portgroup_list2.
     bindM (liftR (py_iter portgroup_list2)) (\<lambda>items.
     or_else
       (first_of (\<lambda>pg.
          bindM (liftR (py_item pg ''name'')) (\<lambda>name2.
          if py_eq name2 name then pureM (Some pg) else pureM None)) items)
       (raiseM (LookupError (''port group '' @ py_repr name @ '' not found on '' @ py_repr host)))))"

definition vim_host_network_portgroup_get_or_none :: "vmodl \<Rightarrow> pyval \<Rightarrow> pyval \<Rightarrow>
  pyval \<Rightarrow> profile \<Rightarrow> pyval io" where
  "vim_host_network_portgroup_get_or_none api opts host name profile =
     tryM
       (vim_host_network_portgroup_get api opts host name profile)
       (\<lambda>exc. if is_LookupError exc then pureM PNone else raiseM exc)"

definition vim_host_network_security_policy :: "vmodl \<Rightarrow> pyval \<Rightarrow> pyval \<Rightarrow> pyval \<Rightarrow> pyval io" where
  "vim_host_network_security_policy api promiscuous mac_changes forged_transmits =
     (if (promiscuous = PNone) \<and> (mac_changes = PNone) \<and> (forged_transmits = PNone) then
        vnew api ''vim.host.NetworkPolicy'' []
      else
        bindM
          (vnew api ''vim.host.NetworkPolicy.SecurityPolicy'' [(''allowPromiscuous'', promiscuous), (''macChanges'',
        mac_changes), (''forgedTransmits'', forged_transmits)]) (\<lambda>securityPolicy.
        vnew api ''vim.host.NetworkPolicy'' [(''security'', securityPolicy)]))"

definition vim_host_network_portgroup_add ::
  "vmodl \<Rightarrow> pyval \<Rightarrow> pyval \<Rightarrow> pyval \<Rightarrow> pyval \<Rightarrow> pyval \<Rightarrow> pyval \<Rightarrow> pyval \<Rightarrow> pyval \<Rightarrow> profile \<Rightarrow> pyval io" where
  "vim_host_network_portgroup_add api opts host name vswitch vlan_id promiscuous mac_changes forged_transmits
    profile =
     bindM (liftR (py_int vlan_id)) (\<lambda>n.
     bindM (vim_host_network_security_policy api promiscuous mac_changes forged_transmits)
       (\<lambda>security_policy2.
     bindM
       (vnew api ''vim.host.PortGroup.Specification'' [(''name'', name), (''vlanId'', PInt n), (''vswitchName'',
        vswitch), (''policy'', security_policy2)]) (\<lambda>spec.
     bindM (vim_host_network_net api opts host profile) (\<lambda>net_v2.
     bindM (vcall api net_v2 ''AddPortGroup'' [] [(''portgrp'', spec)]) (\<lambda>_.
     pureM PNone)))))"

definition vim_host_network_portgroup_update ::
  "vmodl \<Rightarrow> pyval \<Rightarrow> pyval \<Rightarrow> pyval \<Rightarrow> pyval \<Rightarrow> pyval \<Rightarrow> pyval \<Rightarrow> pyval \<Rightarrow> pyval \<Rightarrow> profile \<Rightarrow> pyval io" where
  "vim_host_network_portgroup_update api opts host name vlan_id vswitch promiscuous mac_changes forged_transmits
    profile =
     bindM (vim_host_network_portgroup_get api opts host name profile) (\<lambda>existing.
     bindM
       (if vlan_id \<noteq> PNone then
          bindM (liftR (py_int vlan_id)) (\<lambda>n.
          pureM (PInt n))
        else liftR (py_item existing ''vlan_id'')) (\<lambda>x.
     bindM (if truthy vswitch then pureM vswitch else liftR (py_item existing ''vswitch'')) (\<lambda>x2.
     bindM (vim_host_network_security_policy api promiscuous mac_changes forged_transmits)
       (\<lambda>security_policy2.
     bindM
       (vnew api ''vim.host.PortGroup.Specification'' [(''name'', name), (''vlanId'', x), (''vswitchName'', x2),
        (''policy'', security_policy2)]) (\<lambda>spec.
     bindM (vim_host_network_net api opts host profile) (\<lambda>net_v2.
     bindM (vcall api net_v2 ''UpdatePortGroup'' [] [(''pgName'', name), (''portgrp'', spec)]) (\<lambda>_.
     pureM PNone)))))))"

definition vim_host_network_portgroup_remove :: "vmodl \<Rightarrow> pyval \<Rightarrow> pyval \<Rightarrow> pyval \<Rightarrow> profile \<Rightarrow> pyval io" where
  "vim_host_network_portgroup_remove api opts host name profile =
     bindM (vim_host_network_net api opts host profile) (\<lambda>net_v2.
     bindM (vcall api net_v2 ''RemovePortGroup'' [] [(''pgName'', name)]) (\<lambda>_.
     pureM PNone))"

definition vim_host_network_vnic_to_dict :: "vmodl \<Rightarrow> pyval \<Rightarrow> pyval io" where
  "vim_host_network_vnic_to_dict api v =
     bindM (vpath api v [''spec'', ''ip'']) (\<lambda>ip.
     bindM (vget api v ''device'') (\<lambda>device.
     bindM (vget api v ''port'') (\<lambda>port.
     bindM (vget api v ''portgroup'') (\<lambda>portgroup.
     bindM (vpath api v [''spec'', ''mac'']) (\<lambda>mac.
     bindM (vpath api v [''spec'', ''mtu'']) (\<lambda>mtu.
     bindM (if truthy ip then bindM (vget api ip ''dhcp'') (\<lambda>dhcp. pureM (truthy dhcp)) else pureM False)
       (\<lambda>x.
     bindM (if truthy ip then vget api ip ''ipAddress'' else pureM PNone) (\<lambda>x2.
     bindM (if truthy ip then vget api ip ''subnetMask'' else pureM PNone) (\<lambda>x3.
     pureM (PDict [(''device'', device), (''port'', port), (''portgroup'', portgroup), (''mac_address'', mac),
       (''mtu'', mtu), (''dhcp'', PBool x), (''ip_address'', x2), (''subnet_mask'', x3)]))))))))))"

definition vim_host_network_vmkernel_list :: "vmodl \<Rightarrow> pyval \<Rightarrow> pyval \<Rightarrow> profile \<Rightarrow> pyval io" where
  "vim_host_network_vmkernel_list api opts host profile =
     bindM (vim_host_network_network_info api opts host profile) (\<lambda>info.
     if info = PNone then pureM (PList [])
     else
       bindM (vget api info ''vnic'') (\<lambda>vnic.
       bindM (liftR (py_iter (py_or vnic (PList [])))) (\<lambda>items.
       bindM (mapM (\<lambda>v. vim_host_network_vnic_to_dict api v) items) (\<lambda>out.
       pureM (PList out)))))"

definition vim_host_network_vmkernel_get :: "vmodl \<Rightarrow> pyval \<Rightarrow> pyval \<Rightarrow> pyval \<Rightarrow> profile \<Rightarrow> pyval io" where
  "vim_host_network_vmkernel_get api opts host device profile =
     bindM (vim_host_network_vmkernel_list api opts host profile) (\<lambda>vmkernel_list2.
     bindM (liftR (py_iter vmkernel_list2)) (\<lambda>items.
     or_else
       (first_of (\<lambda>v.
          bindM (liftR (py_item v ''device'')) (\<lambda>device2.
          if py_eq device2 device then pureM (Some v) else pureM None)) items)
       (raiseM (LookupError (''vmkernel '' @ py_repr device @ '' not found on '' @ py_repr host)))))"

definition vim_host_network_vmkernel_get_or_none :: "vmodl \<Rightarrow> pyval \<Rightarrow> pyval \<Rightarrow>
  pyval \<Rightarrow> profile \<Rightarrow> pyval io" where
  "vim_host_network_vmkernel_get_or_none api opts host device profile =
     tryM
       (vim_host_network_vmkernel_get api opts host device profile)
       (\<lambda>exc. if is_LookupError exc then pureM PNone else raiseM exc)"

definition vim_host_network_select_traffic_types :: "vmodl \<Rightarrow> pyval \<Rightarrow> pyval \<Rightarrow>
  pyval \<Rightarrow> pyval \<Rightarrow> profile \<Rightarrow> pyval io" where
  "vim_host_network_select_traffic_types api opts host device nic_types profile =
     bindM (vim_host_network_host api opts host profile) (\<lambda>h.
     bindM (vpath api h [''configManager'', ''virtualNicManager'']) (\<lambda>vnic_mgr.
     if vnic_mgr = PNone then raiseM (LookupError ''VMkernel manager not available on host'')
     else
       bindM (vpath api vnic_mgr [''info'', ''netConfig'']) (\<lambda>netConfig.
       bindM (liftR (py_iter (py_or netConfig (PList [])))) (\<lambda>items.
       bindM
         (iterM (\<lambda>current.
            bindM (vget api current ''selectedVnic'') (\<lambda>selectedVnic.
            bindM (liftR (py_iter (py_or selectedVnic (PList [])))) (\<lambda>items2.
            bindM
              (iterM (\<lambda>sel.
                 attempt (\<lambda>exc. is_fault api ''vim.fault.NotFound'' exc \<or> is_fault api
        ''vim.fault.VimFault'' exc)
                   (bindM (vget api current ''nicType'') (\<lambda>nicType.
                    bindM
                      (vcall api vnic_mgr ''DeselectVnicForNicType'' [] [(''nicType'', nicType), (''device'',
        device)]) (\<lambda>_.
                    pureM ())))
                   (\<lambda>_.
                    pureM ())
                   (\<lambda>exc.
                    if is_fault api ''vim.fault.NotFound'' exc then pureM () else pureM ())) items2) (\<lambda>_.
            pureM ())))) items) (\<lambda>_.
       bindM (liftR (py_iter nic_types)) (\<lambda>items3.
       bindM
         (iterM (\<lambda>nic_type.
            bindM
              (vcall api vnic_mgr ''SelectVnicForNicType'' [] [(''nicType'', nic_type), (''device'', device)])
        (\<lambda>_.
            pureM ())) items3) (\<lambda>_.
       pureM PNone)))))))"

definition vim_host_network_vmkernel_add ::
  "vmodl \<Rightarrow> pyval \<Rightarrow> pyval \<Rightarrow> pyval \<Rightarrow> pyval \<Rightarrow> pyval
    \<Rightarrow> pyval \<Rightarrow> pyval \<Rightarrow> pyval \<Rightarrow> pyval \<Rightarrow> profile \<Rightarrow> pyval io" where
  "vim_host_network_vmkernel_add api opts host portgroup dhcp ip_address subnet_mask mtu mac_address nic_types
    profile =
     (if (\<not> truthy dhcp) \<and> (\<not> (truthy ip_address \<and> truthy subnet_mask)) then
        raiseM (ValueError ''provide dhcp=True OR (ip_address AND subnet_mask)'')
      else
        bindM
          (vnew api ''vim.host.IpConfig'' [(''dhcp'', PBool (truthy dhcp)), (''ipAddress'', (if \<not> truthy dhcp
        then ip_address else PNone)), (''subnetMask'', (if \<not> truthy dhcp then subnet_mask else PNone))])
        (\<lambda>ipConfig.
        bindM (liftR (py_int mtu)) (\<lambda>n.
        bindM (vnew api ''vim.host.VirtualNic.Specification'' [(''ip'', ipConfig), (''mtu'', PInt n)])
        (\<lambda>spec.
        bindM (if truthy mac_address then vset api spec ''mac'' mac_address else pureM spec) (\<lambda>spec.
        bindM
          (if truthy nic_types then vset api spec ''netStackInstanceKey'' (PStr ''defaultTcpipStack'')
           else pureM spec) (\<lambda>spec.
        bindM (vim_host_network_net api opts host profile) (\<lambda>net_v2.
        bindM (vcall api net_v2 ''AddVirtualNic'' [] [(''portgroup'', portgroup), (''nic'', spec)])
        (\<lambda>device.
        bindM
          (if truthy nic_types then
             bindM (vim_host_network_select_traffic_types api opts host device nic_types profile) (\<lambda>_.
             pureM ())
           else pureM ()) (\<lambda>_.
        pureM device)))))))))"

definition vim_host_network_vmkernel_update ::
  "vmodl \<Rightarrow> pyval \<Rightarrow> pyval \<Rightarrow> pyval \<Rightarrow> pyval \<Rightarrow> pyval \<Rightarrow> pyval \<Rightarrow> pyval \<Rightarrow> profile \<Rightarrow> pyval io" where
  "vim_host_network_vmkernel_update api opts host device dhcp ip_address subnet_mask mtu profile =
     bindM (vim_host_network_vmkernel_get api opts host device profile) (\<lambda>existing.
     bindM (if dhcp \<noteq> PNone then pureM (PBool (truthy dhcp)) else liftR (py_item existing ''dhcp'')) (\<lambda>x.
     bindM (if ip_address \<noteq> PNone then pureM ip_address else liftR (py_item existing ''ip_address''))
       (\<lambda>x2.
     bindM (if subnet_mask \<noteq> PNone then pureM subnet_mask else liftR (py_item existing ''subnet_mask''))
       (\<lambda>x3.
     bindM
       (vnew api ''vim.host.IpConfig'' [(''dhcp'', x), (''ipAddress'', x2), (''subnetMask'', x3)])
        (\<lambda>ipConfig.
     bindM
       (if mtu \<noteq> PNone then
          bindM (liftR (py_int mtu)) (\<lambda>n.
          pureM (PInt n))
        else liftR (py_item existing ''mtu'')) (\<lambda>x4.
     bindM (vnew api ''vim.host.VirtualNic.Specification'' [(''ip'', ipConfig), (''mtu'', x4)]) (\<lambda>spec.
     bindM (vim_host_network_net api opts host profile) (\<lambda>net_v2.
     bindM (vcall api net_v2 ''UpdateVirtualNic'' [] [(''device'', device), (''nic'', spec)]) (\<lambda>_.
     pureM PNone)))))))))"

definition vim_host_network_vmkernel_remove :: "vmodl \<Rightarrow> pyval \<Rightarrow> pyval \<Rightarrow> pyval \<Rightarrow> profile \<Rightarrow> pyval io" where
  "vim_host_network_vmkernel_remove api opts host device profile =
     bindM (vim_host_network_net api opts host profile) (\<lambda>net_v2.
     bindM (vcall api net_v2 ''RemoveVirtualNic'' [] [(''device'', device)]) (\<lambda>_.
     pureM PNone))"

definition vim_host_network_vmkernel_migrate :: "vmodl \<Rightarrow> pyval \<Rightarrow> pyval \<Rightarrow> pyval
  \<Rightarrow> pyval \<Rightarrow> profile \<Rightarrow> pyval io" where
  "vim_host_network_vmkernel_migrate api opts host device dst_portgroup profile =
     bindM (vim_host_network_vmkernel_get api opts host device profile) (\<lambda>existing.
     bindM (vim_host_network_vmkernel_remove api opts host device profile) (\<lambda>_.
     bindM (liftR (py_get existing ''dhcp'' PNone)) (\<lambda>dhcp.
     bindM (liftR (py_get existing ''ip_address'' PNone)) (\<lambda>ip_address.
     bindM (liftR (py_get existing ''subnet_mask'' PNone)) (\<lambda>subnet_mask.
     bindM (liftR (py_get existing ''mtu'' (PInt 1500))) (\<lambda>mtu.
     bindM (liftR (py_get existing ''mac_address'' PNone)) (\<lambda>mac_address.
     vim_host_network_vmkernel_add api opts host dst_portgroup (PBool (truthy dhcp)) ip_address subnet_mask mtu
       mac_address PNone profile)))))))"

definition vim_host_network_ipv6_get :: "vmodl \<Rightarrow> pyval \<Rightarrow> pyval \<Rightarrow> profile \<Rightarrow> pyval io" where
  "vim_host_network_ipv6_get api opts host profile =
     bindM (vim_host_network_network_info api opts host profile) (\<lambda>info.
     if info = PNone then pureM (PDict [(''enabled'', PBool False)])
     else
       bindM (vget_or api info ''ipV6Enabled'' (PBool False)) (\<lambda>ipV6Enabled.
       pureM (PDict [(''enabled'', PBool (truthy ipV6Enabled))])))"

definition vim_host_network_ipv6_set :: "vmodl \<Rightarrow> pyval \<Rightarrow> pyval \<Rightarrow> pyval \<Rightarrow> profile \<Rightarrow> pyval io" where
  "vim_host_network_ipv6_set api opts host enabled profile =
     bindM (vnew api ''vim.host.NetworkConfig'' []) (\<lambda>cfg.
     bindM (vset api cfg ''ipV6Enabled'' (PBool (truthy enabled))) (\<lambda>cfg.
     bindM (vim_host_network_net api opts host profile) (\<lambda>net_v2.
     bindM
       (vcall api net_v2 ''UpdateNetworkConfig'' [] [(''config'', cfg), (''changeMode'', PStr ''modify'')])
        (\<lambda>_.
     vim_host_network_ipv6_get api opts host profile))))"

definition vim_host_network_vmkernel_set_traffic_types ::
  "vmodl \<Rightarrow> pyval \<Rightarrow> pyval \<Rightarrow> pyval \<Rightarrow> pyval \<Rightarrow> profile \<Rightarrow> pyval io" where
  "vim_host_network_vmkernel_set_traffic_types api opts host device nic_types profile =
     bindM (vim_host_network_select_traffic_types api opts host device nic_types profile) (\<lambda>_.
     pureM PNone)"

definition vim_host_network_physical_nic_list :: "vmodl \<Rightarrow> pyval \<Rightarrow> pyval \<Rightarrow> profile \<Rightarrow> pyval io" where
  "vim_host_network_physical_nic_list api opts host profile =
     bindM (vim_host_network_network_info api opts host profile) (\<lambda>info.
     if info = PNone then pureM (PList [])
     else
       let out = [] in
       bindM (vget api info ''pnic'') (\<lambda>pnic.
       bindM (liftR (py_iter (py_or pnic (PList [])))) (\<lambda>items.
       bindM
         (foldM (\<lambda>p out.
            bindM (vget api p ''linkSpeed'') (\<lambda>ls.
            bindM (vget api p ''device'') (\<lambda>device.
            bindM (vget api p ''driver'') (\<lambda>driver.
            bindM (vget api p ''mac'') (\<lambda>mac.
            bindM (if truthy ls then vget api ls ''duplex'' else pureM PNone) (\<lambda>x.
            bindM (if truthy ls then vget api ls ''speedMb'' else pureM PNone) (\<lambda>x2.
            bindM (vget api p ''wakeOnLanSupported'') (\<lambda>wakeOnLanSupported.
            pureM (out @ [PDict [(''device'', device), (''driver'', driver), (''mac'', mac), (''duplex'', x),
        (''speed_mb'', x2), (''wake_on_lan_supported'', PBool (truthy wakeOnLanSupported))]]))))))))) items out)
        (\<lambda>out.
       pureM (PList out)))))"

subsection \<open>Functions that only read\<close>

lemma esxi_service_svc_to_dict_reads [vim_intros]: "observed held api \<Longrightarrow> keeps (leaves held) (esxi_service_svc_to_dict api svc)"
  unfolding esxi_service_svc_to_dict_def in_view_folds split_def by (intro vim_intros; (assumption | simp add: READING_def))

lemma esxi_service_find_service_reads [vim_intros]: "observed held api \<Longrightarrow> keeps (leaves held) (esxi_service_find_service api svc_system service)"
  unfolding esxi_service_find_service_def in_view_folds split_def by (intro vim_intros; (assumption | simp add: READING_def))

lemma esxi_service_get_reads [vim_intros]: "observed held api \<Longrightarrow> keeps (leaves held) (esxi_service_get api opts service profile)"
  unfolding esxi_service_get_def in_view_folds split_def by (intro vim_intros; (assumption | simp add: READING_def))

lemma esxi_service_get_or_none_reads [vim_intros]: "observed held api \<Longrightarrow> keeps (leaves held) (esxi_service_get_or_none api opts service profile)"
  unfolding esxi_service_get_or_none_def in_view_folds split_def by (intro vim_intros; (assumption | simp add: READING_def))

lemma esxi_service_is_running_reads [vim_intros]: "observed held api \<Longrightarrow> keeps (leaves held) (esxi_service_is_running service_obj)"
  unfolding esxi_service_is_running_def in_view_folds split_def by (intro vim_intros; (assumption | simp add: READING_def))

lemma esxi_ntp_get_reads [vim_intros]: "observed held api \<Longrightarrow> keeps (leaves held) (esxi_ntp_get api opts profile)"
  unfolding esxi_ntp_get_def in_view_folds split_def by (intro vim_intros; (assumption | simp add: READING_def))

lemma esxi_advanced_get_reads [vim_intros]: "observed held api \<Longrightarrow> keeps (leaves held) (esxi_advanced_get api opts key profile)"
  unfolding esxi_advanced_get_def in_view_folds split_def by (intro vim_intros; (assumption | simp add: READING_def))

lemma esxi_advanced_get_or_none_reads [vim_intros]: "observed held api \<Longrightarrow> keeps (leaves held) (esxi_advanced_get_or_none api opts key profile)"
  unfolding esxi_advanced_get_or_none_def in_view_folds split_def by (intro vim_intros; (assumption | simp add: READING_def))

lemma esxi_syslog_adv_get_reads [vim_intros]: "observed held api \<Longrightarrow> keeps (leaves held) (esxi_syslog_adv_get api adv_mgr key default_v)"
  unfolding esxi_syslog_adv_get_def in_view_folds split_def by (intro vim_intros; (assumption | simp add: READING_def))

lemma esxi_syslog_get_reads [vim_intros]: "observed held api \<Longrightarrow> keeps (leaves held) (esxi_syslog_get api opts profile)"
  unfolding esxi_syslog_get_def in_view_folds split_def by (intro vim_intros; (assumption | simp add: READING_def))

lemma esxi_firewall_ruleset_to_dict_reads [vim_intros]: "observed held api \<Longrightarrow> keeps (leaves held) (esxi_firewall_ruleset_to_dict api rs)"
  unfolding esxi_firewall_ruleset_to_dict_def in_view_folds split_def by (intro vim_intros; (assumption | simp add: READING_def))

lemma esxi_firewall_find_ruleset_reads [vim_intros]: "observed held api \<Longrightarrow> keeps (leaves held) (esxi_firewall_find_ruleset api fw_system rule)"
  unfolding esxi_firewall_find_ruleset_def in_view_folds split_def by (intro vim_intros; (assumption | simp add: READING_def))

lemma esxi_firewall_get_reads [vim_intros]: "observed held api \<Longrightarrow> keeps (leaves held) (esxi_firewall_get api opts rule profile)"
  unfolding esxi_firewall_get_def in_view_folds split_def by (intro vim_intros; (assumption | simp add: READING_def))

lemma esxi_firewall_get_or_none_reads [vim_intros]: "observed held api \<Longrightarrow> keeps (leaves held) (esxi_firewall_get_or_none api opts rule profile)"
  unfolding esxi_firewall_get_or_none_def in_view_folds split_def by (intro vim_intros; (assumption | simp add: READING_def))

lemma esxi_firewall_enabled_reads [vim_intros]: "observed held api \<Longrightarrow> keeps (leaves held) (esxi_firewall_enabled api opts profile)"
  unfolding esxi_firewall_enabled_def in_view_folds split_def by (intro vim_intros; (assumption | simp add: READING_def))

lemma esxi_host_info_reads [vim_intros]: "observed held api \<Longrightarrow> keeps (leaves held) (esxi_host_info api opts profile)"
  unfolding esxi_host_info_def in_view_folds split_def by (intro vim_intros; (assumption | simp add: READING_def))

lemma esxi_host_lockdown_get_reads [vim_intros]: "observed held api \<Longrightarrow> keeps (leaves held) (esxi_host_lockdown_get api opts profile)"
  unfolding esxi_host_lockdown_get_def in_view_folds split_def by (intro vim_intros; (assumption | simp add: READING_def))

lemma esxi_host_is_in_maintenance_reads [vim_intros]: "observed held api \<Longrightarrow> keeps (leaves held) (esxi_host_is_in_maintenance host_info)"
  unfolding esxi_host_is_in_maintenance_def in_view_folds split_def by (intro vim_intros; (assumption | simp add: READING_def))

lemma esxi_ad_auth_host_reads [vim_intros]: "observed held api \<Longrightarrow> keeps (leaves held) (esxi_ad_auth_host api opts host profile)"
  unfolding esxi_ad_auth_host_def in_view_folds split_def by (intro vim_intros; (assumption | simp add: READING_def))

lemma esxi_ad_auth_ad_mgr_reads [vim_intros]: "observed held api \<Longrightarrow> keeps (leaves held) (esxi_ad_auth_ad_mgr api h)"
  unfolding esxi_ad_auth_ad_mgr_def in_view_folds split_def by (intro vim_intros; (assumption | simp add: READING_def))

lemma esxi_ad_auth_ad_info_reads [vim_intros]: "observed held api \<Longrightarrow> keeps (leaves held) (esxi_ad_auth_ad_info api h)"
  unfolding esxi_ad_auth_ad_info_def in_view_folds split_def by (intro vim_intros; (assumption | simp add: READING_def))

lemma esxi_ad_auth_get_ad_state_reads [vim_intros]: "observed held api \<Longrightarrow> keeps (leaves held) (esxi_ad_auth_get_ad_state api opts host profile)"
  unfolding esxi_ad_auth_get_ad_state_def in_view_folds split_def by (intro vim_intros; (assumption | simp add: READING_def))

lemma esxi_auth_proxy_host_reads [vim_intros]: "observed held api \<Longrightarrow> keeps (leaves held) (esxi_auth_proxy_host api opts host profile)"
  unfolding esxi_auth_proxy_host_def in_view_folds split_def by (intro vim_intros; (assumption | simp add: READING_def))

lemma esxi_auth_proxy_advanced_get_reads [vim_intros]: "observed held api \<Longrightarrow> keeps (leaves held) (esxi_auth_proxy_advanced_get api h key)"
  unfolding esxi_auth_proxy_advanced_get_def in_view_folds split_def by (intro vim_intros; (assumption | simp add: READING_def))

lemma esxi_auth_proxy_ad_state_reads [vim_intros]: "observed held api \<Longrightarrow> keeps (leaves held) (esxi_auth_proxy_ad_state api h)"
  unfolding esxi_auth_proxy_ad_state_def in_view_folds split_def by (intro vim_intros; (assumption | simp add: READING_def))

lemma esxi_auth_proxy_get_config_reads [vim_intros]: "observed held api \<Longrightarrow> keeps (leaves held) (esxi_auth_proxy_get_config api opts host profile)"
  unfolding esxi_auth_proxy_get_config_def in_view_folds split_def by (intro vim_intros; (assumption | simp add: READING_def))

lemma vim_host_acceptance_host_reads [vim_intros]: "observed held api \<Longrightarrow> keeps (leaves held) (vim_host_acceptance_host api opts name_or_id profile)"
  unfolding vim_host_acceptance_host_def in_view_folds split_def by (intro vim_intros; (assumption | simp add: READING_def))

lemma vim_host_acceptance_icm_reads [vim_intros]: "observed held api \<Longrightarrow> keeps (leaves held) (vim_host_acceptance_icm api host)"
  unfolding vim_host_acceptance_icm_def in_view_folds split_def by (intro vim_intros; (assumption | simp add: READING_def))

lemma vim_host_acceptance_get_reads [vim_intros]: "observed held api \<Longrightarrow> keeps (leaves held) (vim_host_acceptance_get api opts host profile)"
  unfolding vim_host_acceptance_get_def in_view_folds split_def by (intro vim_intros; (assumption | simp add: READING_def))

lemma vim_host_config_host_reads [vim_intros]: "observed held api \<Longrightarrow> keeps (leaves held) (vim_host_config_host api opts host_id_or_name profile)"
  unfolding vim_host_config_host_def in_view_folds split_def by (intro vim_intros; (assumption | simp add: READING_def))

lemma vim_host_config_ntp_get_reads [vim_intros]: "observed held api \<Longrightarrow> keeps (leaves held) (vim_host_config_ntp_get api opts host profile)"
  unfolding vim_host_config_ntp_get_def in_view_folds split_def by (intro vim_intros; (assumption | simp add: READING_def))

lemma vim_host_config_service_list_reads [vim_intros]: "observed held api \<Longrightarrow> keeps (leaves held) (vim_host_config_service_list api opts host profile)"
  unfolding vim_host_config_service_list_def in_view_folds split_def by (intro vim_intros; (assumption | simp add: READING_def))

lemma vim_host_config_ad_status_reads [vim_intros]: "observed held api \<Longrightarrow> keeps (leaves held) (vim_host_config_ad_status api opts host profile)"
  unfolding vim_host_config_ad_status_def in_view_folds split_def by (intro vim_intros; (assumption | simp add: READING_def))

lemma vim_host_config_advanced_get_reads [vim_intros]: "observed held api \<Longrightarrow> keeps (leaves held) (vim_host_config_advanced_get api opts host key profile)"
  unfolding vim_host_config_advanced_get_def in_view_folds split_def by (intro vim_intros; (assumption | simp add: READING_def))

lemma vim_host_datastore_resolve_host_reads [vim_intros]: "observed held api \<Longrightarrow> keeps (leaves held) (vim_host_datastore_resolve_host api opts name_or_id profile)"
  unfolding vim_host_datastore_resolve_host_def in_view_folds split_def by (intro vim_intros; (assumption | simp add: READING_def))

lemma vim_host_datastore_list_reads [vim_intros]: "observed held api \<Longrightarrow> keeps (leaves held) (vim_host_datastore_list api opts host profile)"
  unfolding vim_host_datastore_list_def in_view_folds split_def by (intro vim_intros; (assumption | simp add: READING_def))

lemma vim_host_dns_host_reads [vim_intros]: "observed held api \<Longrightarrow> keeps (leaves held) (vim_host_dns_host api opts host_id_or_name profile)"
  unfolding vim_host_dns_host_def in_view_folds split_def by (intro vim_intros; (assumption | simp add: READING_def))

lemma vim_host_dns_get_reads [vim_intros]: "observed held api \<Longrightarrow> keeps (leaves held) (vim_host_dns_get api opts host profile)"
  unfolding vim_host_dns_get_def in_view_folds split_def by (intro vim_intros; (assumption | simp add: READING_def))

lemma vim_host_hyperthreading_host_reads [vim_intros]: "observed held api \<Longrightarrow> keeps (leaves held) (vim_host_hyperthreading_host api opts name_or_id profile)"
  unfolding vim_host_hyperthreading_host_def in_view_folds split_def by (intro vim_intros; (assumption | simp add: READING_def))

lemma vim_host_hyperthreading_cs_reads [vim_intros]: "observed held api \<Longrightarrow> keeps (leaves held) (vim_host_hyperthreading_cs api host)"
  unfolding vim_host_hyperthreading_cs_def in_view_folds split_def by (intro vim_intros; (assumption | simp add: READING_def))

lemma vim_host_hyperthreading_get_reads [vim_intros]: "observed held api \<Longrightarrow> keeps (leaves held) (vim_host_hyperthreading_get api opts host profile)"
  unfolding vim_host_hyperthreading_get_def in_view_folds split_def by (intro vim_intros; (assumption | simp add: READING_def))

lemma vim_host_kernel_module_host_reads [vim_intros]: "observed held api \<Longrightarrow> keeps (leaves held) (vim_host_kernel_module_host api opts host_id_or_name profile)"
  unfolding vim_host_kernel_module_host_def in_view_folds split_def by (intro vim_intros; (assumption | simp add: READING_def))

lemma vim_host_kernel_module_km_reads [vim_intros]: "observed held api \<Longrightarrow> keeps (leaves held) (vim_host_kernel_module_km api host)"
  unfolding vim_host_kernel_module_km_def in_view_folds split_def by (intro vim_intros; (assumption | simp add: READING_def))

lemma vim_host_kernel_module_get_options_reads [vim_intros]: "observed held api \<Longrightarrow> keeps (leaves held) (vim_host_kernel_module_get_options api opts host module profile)"
  unfolding vim_host_kernel_module_get_options_def in_view_folds split_def by (intro vim_intros; (assumption | simp add: READING_def))

lemma vim_host_powermgmt_host_reads [vim_intros]: "observed held api \<Longrightarrow> keeps (leaves held) (vim_host_powermgmt_host api opts host_id_or_name profile)"
  unfolding vim_host_powermgmt_host_def in_view_folds split_def by (intro vim_intros; (assumption | simp add: READING_def))

lemma vim_host_powermgmt_power_reads [vim_intros]: "observed held api \<Longrightarrow> keeps (leaves held) (vim_host_powermgmt_power api host)"
  unfolding vim_host_powermgmt_power_def in_view_folds split_def by (intro vim_intros; (assumption | simp add: READING_def))

lemma vim_host_powermgmt_list_policies_reads [vim_intros]: "observed held api \<Longrightarrow> keeps (leaves held) (vim_host_powermgmt_list_policies api opts host profile)"
  unfolding vim_host_powermgmt_list_policies_def in_view_folds split_def by (intro vim_intros; (assumption | simp add: READING_def))

lemma vim_host_powermgmt_get_policy_reads [vim_intros]: "observed held api \<Longrightarrow> keeps (leaves held) (vim_host_powermgmt_get_policy api opts host profile)"
  unfolding vim_host_powermgmt_get_policy_def in_view_folds split_def by (intro vim_intros; (assumption | simp add: READING_def))

lemma vim_host_snmp_host_reads [vim_intros]: "observed held api \<Longrightarrow> keeps (leaves held) (vim_host_snmp_host api opts name_or_id profile)"
  unfolding vim_host_snmp_host_def in_view_folds split_def by (intro vim_intros; (assumption | simp add: READING_def))

lemma vim_host_snmp_snmp_reads [vim_intros]: "observed held api \<Longrightarrow> keeps (leaves held) (vim_host_snmp_snmp api host)"
  unfolding vim_host_snmp_snmp_def in_view_folds split_def by (intro vim_intros; (assumption | simp add: READING_def))

lemma vim_host_snmp_to_dict_reads [vim_intros]: "observed held api \<Longrightarrow> keeps (leaves held) (vim_host_snmp_to_dict api cfg)"
  unfolding vim_host_snmp_to_dict_def in_view_folds split_def by (intro vim_intros; (assumption | simp add: READING_def))

lemma vim_host_snmp_get_reads [vim_intros]: "observed held api \<Longrightarrow> keeps (leaves held) (vim_host_snmp_get api opts host profile)"
  unfolding vim_host_snmp_get_def in_view_folds split_def by (intro vim_intros; (assumption | simp add: READING_def))

lemma vim_host_network_host_reads [vim_intros]: "observed held api \<Longrightarrow> keeps (leaves held) (vim_host_network_host api opts host_id_or_name profile)"
  unfolding vim_host_network_host_def in_view_folds split_def by (intro vim_intros; (assumption | simp add: READING_def))

lemma vim_host_network_network_info_reads [vim_intros]: "observed held api \<Longrightarrow> keeps (leaves held) (vim_host_network_network_info api opts host profile)"
  unfolding vim_host_network_network_info_def in_view_folds split_def by (intro vim_intros; (assumption | simp add: READING_def))

lemma vim_host_network_teaming_to_dict_reads [vim_intros]: "observed held api \<Longrightarrow> keeps (leaves held) (vim_host_network_teaming_to_dict api policy)"
  unfolding vim_host_network_teaming_to_dict_def in_view_folds split_def by (intro vim_intros; (assumption | simp add: READING_def))

lemma vim_host_network_vswitch_to_dict_reads [vim_intros]: "observed held api \<Longrightarrow> keeps (leaves held) (vim_host_network_vswitch_to_dict api vs)"
  unfolding vim_host_network_vswitch_to_dict_def in_view_folds split_def by (intro vim_intros; (assumption | simp add: READING_def))

lemma vim_host_network_vswitch_list_reads [vim_intros]: "observed held api \<Longrightarrow> keeps (leaves held) (vim_host_network_vswitch_list api opts host profile)"
  unfolding vim_host_network_vswitch_list_def in_view_folds split_def by (intro vim_intros; (assumption | simp add: READING_def))

lemma vim_host_network_vswitch_get_reads [vim_intros]: "observed held api \<Longrightarrow> keeps (leaves held) (vim_host_network_vswitch_get api opts host name profile)"
  unfolding vim_host_network_vswitch_get_def in_view_folds split_def by (intro vim_intros; (assumption | simp add: READING_def))

lemma vim_host_network_vswitch_get_or_none_reads [vim_intros]: "observed held api \<Longrightarrow> keeps (leaves held) (vim_host_network_vswitch_get_or_none api opts host name profile)"
  unfolding vim_host_network_vswitch_get_or_none_def in_view_folds split_def by (intro vim_intros; (assumption | simp add: READING_def))

lemma vim_host_network_pg_to_dict_reads [vim_intros]: "observed held api \<Longrightarrow> keeps (leaves held) (vim_host_network_pg_to_dict api pg)"
  unfolding vim_host_network_pg_to_dict_def in_view_folds split_def by (intro vim_intros; (assumption | simp add: READING_def))

lemma vim_host_network_portgroup_list_reads [vim_intros]: "observed held api \<Longrightarrow> keeps (leaves held) (vim_host_network_portgroup_list api opts host profile)"
  unfolding vim_host_network_portgroup_list_def in_view_folds split_def by (intro vim_intros; (assumption | simp add: READING_def))

lemma vim_host_network_portgroup_get_reads [vim_intros]: "observed held api \<Longrightarrow> keeps (leaves held) (vim_host_network_portgroup_get api opts host name profile)"
  unfolding vim_host_network_portgroup_get_def in_view_folds split_def by (intro vim_intros; (assumption | simp add: READING_def))

lemma vim_host_network_portgroup_get_or_none_reads [vim_intros]: "observed held api \<Longrightarrow> keeps (leaves held) (vim_host_network_portgroup_get_or_none api opts host name profile)"
  unfolding vim_host_network_portgroup_get_or_none_def in_view_folds split_def by (intro vim_intros; (assumption | simp add: READING_def))

lemma vim_host_network_vnic_to_dict_reads [vim_intros]: "observed held api \<Longrightarrow> keeps (leaves held) (vim_host_network_vnic_to_dict api v)"
  unfolding vim_host_network_vnic_to_dict_def in_view_folds split_def by (intro vim_intros; (assumption | simp add: READING_def))

lemma vim_host_network_vmkernel_list_reads [vim_intros]: "observed held api \<Longrightarrow> keeps (leaves held) (vim_host_network_vmkernel_list api opts host profile)"
  unfolding vim_host_network_vmkernel_list_def in_view_folds split_def by (intro vim_intros; (assumption | simp add: READING_def))

lemma vim_host_network_vmkernel_get_reads [vim_intros]: "observed held api \<Longrightarrow> keeps (leaves held) (vim_host_network_vmkernel_get api opts host device profile)"
  unfolding vim_host_network_vmkernel_get_def in_view_folds split_def by (intro vim_intros; (assumption | simp add: READING_def))

lemma vim_host_network_vmkernel_get_or_none_reads [vim_intros]: "observed held api \<Longrightarrow> keeps (leaves held) (vim_host_network_vmkernel_get_or_none api opts host device profile)"
  unfolding vim_host_network_vmkernel_get_or_none_def in_view_folds split_def by (intro vim_intros; (assumption | simp add: READING_def))

end
