(* ===== verification/Vim_Inventory.thy ===== *)
theory Vim_Inventory
  imports Vim Vcenter
begin

section \<open>Vim_Inventory: clusters, vSAN, DRS, switches, datastore clusters, resource pools and virtual disks\<close>

text \<open>
  The objects of the inventory of a vCenter that only the SOAP interface configures.
\<close>

subsection \<open>\<open>clients/vsan_cluster.py\<close>\<close>

definition vsan_cluster_get :: "vmodl \<Rightarrow> pyval \<Rightarrow> pyval \<Rightarrow> profile \<Rightarrow> pyval io" where
  "vsan_cluster_get api opts cluster profile =
     bindM (vsan_find_cluster api opts cluster profile) (\<lambda>obj.
     bindM (vget api obj ''configurationEx'') (\<lambda>cfg.
     bindM (vget_or api cfg ''vsanConfigInfo'' PNone) (\<lambda>vsan_cfg.
     if vsan_cfg = PNone then pureM (PDict [(''enabled'', PBool False)])
     else
       bindM (vsan_cluster_config_system api opts profile) (\<lambda>cs.
       let extended = PNone in
       bindM
         (tryM
            (vcall api cs ''VsanClusterGetConfig'' [] [(''cluster'', obj)])
            (\<lambda>exc. if is_fault api ''vim.fault.VimFault'' exc then pureM PNone else raiseM exc))
        (\<lambda>extended.
       bindM (vget api vsan_cfg ''enabled'') (\<lambda>enabled.
       bindM (vget api vsan_cfg ''defaultConfig'') (\<lambda>defaultConfig.
       bindM
         (if truthy defaultConfig then
            bindM (vpath api vsan_cfg [''defaultConfig'', ''autoClaimStorage'']) (\<lambda>autoClaimStorage.
            pureM (truthy autoClaimStorage))
          else pureM False) (\<lambda>x.
       let out = [(''enabled'', PBool (truthy enabled)), (''auto_claim_storage'', PBool x), (''cluster_uuid'',
        PNone)] in
       bindM
         (if extended \<noteq> PNone then
            bindM (vget_or api extended ''dataEfficiencyConfig'' PNone) (\<lambda>dataEfficiencyConfig.
            bindM
              (if dataEfficiencyConfig \<noteq> PNone then
                 bindM (vget api extended ''dataEfficiencyConfig'') (\<lambda>dataEfficiencyConfig2.
                 vget_or api dataEfficiencyConfig2 ''dedupEnabled'' (PBool False))
               else pureM (PBool False)) (\<lambda>x2.
            let out = dset out ''dedup_compression_enabled'' (PBool (truthy x2)) in
            bindM (vget_or api extended ''dataEncryptionConfig'' PNone) (\<lambda>dataEncryptionConfig.
            bindM
              (if dataEncryptionConfig \<noteq> PNone then
                 bindM (vget api extended ''dataEncryptionConfig'') (\<lambda>dataEncryptionConfig2.
                 bindM
                   (vget_or api dataEncryptionConfig2 ''encryptionEnabled'' (PBool False))
        (\<lambda>encryptionEnabled.
                 pureM (dset out ''encryption_enabled'' (PBool (truthy encryptionEnabled)))))
               else pureM (dset out ''encryption_enabled'' (PBool False))) (\<lambda>out.
            bindM
              (vget_or api extended ''dataInTransitEncryptionConfig'' PNone)
        (\<lambda>dataInTransitEncryptionConfig.
            bindM
              (if dataInTransitEncryptionConfig \<noteq> PNone then
                 bindM (vget api extended ''dataInTransitEncryptionConfig'')
        (\<lambda>dataInTransitEncryptionConfig2.
                 bindM (vget_or api dataInTransitEncryptionConfig2 ''enabled'' (PBool False)) (\<lambda>enabled2.
                 pureM (dset out ''data_in_transit_encryption_enabled'' (PBool (truthy enabled2)))))
               else pureM (dset out ''data_in_transit_encryption_enabled'' (PBool False))) (\<lambda>out.
            bindM (vget_or api extended ''vsanEsaEnabled'' (PBool False)) (\<lambda>vsanEsaEnabled.
            let out = dset out ''esa_enabled'' (PBool (truthy vsanEsaEnabled)) in
            bindM (liftR (py_item (PDict out) ''esa_enabled'')) (\<lambda>esa_enabled.
            pureM (if truthy esa_enabled then dset out ''auto_claim_storage'' (PBool True) else
        out)))))))))
          else pureM out) (\<lambda>out.
       pureM (PDict out))))))))))"

definition vsan_cluster_is_esa :: "vmodl \<Rightarrow> pyval \<Rightarrow> pyval \<Rightarrow> pyval io" where
  "vsan_cluster_is_esa api cluster_obj cs =
     attempt (\<lambda>exc. is_fault api ''vim.fault.VimFault'' exc)
       (vcall api cs ''VsanClusterGetConfig'' [] [(''cluster'', cluster_obj)])
       (\<lambda>extended.
        bindM (vget_or api extended ''vsanEsaEnabled'' (PBool False)) (\<lambda>vsanEsaEnabled.
        pureM (PBool (truthy vsanEsaEnabled))))
       (\<lambda>_.
        pureM (PBool False))"

definition vsan_cluster_reconfigure ::
  "vmodl \<Rightarrow> pyval \<Rightarrow> pyval \<Rightarrow> pyval \<Rightarrow> pyval \<Rightarrow> pyval \<Rightarrow> pyval \<Rightarrow> profile \<Rightarrow> pyval io" where
  "vsan_cluster_reconfigure api opts cluster enabled dedup_compression_enabled encryption_enabled auto_claim_storage
    profile =
     bindM (vsan_find_cluster api opts cluster profile) (\<lambda>obj.
     bindM (vsan_cluster_config_system api opts profile) (\<lambda>cs.
     bindM (vnew api ''vim.vsan.ReconfigSpec'' []) (\<lambda>spec.
     bindM
       (if (enabled \<noteq> PNone) \<or> (auto_claim_storage \<noteq> PNone) then
          bindM (vnew api ''vim.vsan.cluster.ConfigInfo'' []) (\<lambda>vsan_spec.
          bindM
            (if enabled \<noteq> PNone then vset api vsan_spec ''enabled'' (PBool (truthy enabled))
             else pureM vsan_spec) (\<lambda>vsan_spec.
          bindM
            (if auto_claim_storage \<noteq> PNone then
               bindM (vsan_cluster_is_esa api obj cs) (\<lambda>is_esa2.
               if truthy is_esa2 then
                 if \<not> truthy auto_claim_storage then
                   raiseM (ValueError (''cluster '' @ py_repr cluster @
        ('' is vSAN ESA -- there is no per-cluster auto-claim toggle to disable (ESA always claims every local disk automatically; that''
        @ [CHR 0x27] @ ''s only an OSA-era setting)'')))
                 else pureM vsan_spec
               else
                 bindM (vnew api ''vim.vsan.cluster.ConfigInfo.HostDefaultInfo'' []) (\<lambda>hostDefaultInfo.
                 bindM (vset api vsan_spec ''defaultConfig'' hostDefaultInfo) (\<lambda>vsan_spec.
                 bindM (vget api vsan_spec ''defaultConfig'') (\<lambda>defaultConfig.
                 bindM
                   (vset api defaultConfig ''autoClaimStorage'' (PBool (truthy auto_claim_storage)))
        (\<lambda>defaultConfig.
                 vset api vsan_spec ''defaultConfig'' defaultConfig)))))
             else pureM vsan_spec) (\<lambda>vsan_spec.
          vset api spec ''vsanClusterConfig'' vsan_spec)))
        else pureM spec) (\<lambda>spec.
     bindM
       (if dedup_compression_enabled \<noteq> PNone then
          bindM (vnew api ''vim.vsan.DataEfficiencyConfig'' []) (\<lambda>de.
          bindM (vset api de ''dedupEnabled'' (PBool (truthy dedup_compression_enabled))) (\<lambda>de.
          bindM (vset api de ''compressionEnabled'' (PBool (truthy dedup_compression_enabled))) (\<lambda>de.
          vset api spec ''dataEfficiencyConfig'' de)))
        else pureM spec) (\<lambda>spec.
     bindM
       (if encryption_enabled \<noteq> PNone then
          bindM (vnew api ''vim.vsan.DataEncryptionConfig'' []) (\<lambda>ec.
          bindM (vset api ec ''encryptionEnabled'' (PBool (truthy encryption_enabled))) (\<lambda>ec.
          vset api spec ''dataEncryptionConfig'' ec))
        else pureM spec) (\<lambda>spec.
     bindM (vcall api cs ''VsanClusterReconfig'' [] [(''cluster'', obj), (''vsanReconfigSpec'', spec)])
       (\<lambda>task.
     vget api task ''_moId'')))))))"

definition vsan_cluster_runtime_info :: "vmodl \<Rightarrow> pyval \<Rightarrow> pyval \<Rightarrow> profile \<Rightarrow> pyval io" where
  "vsan_cluster_runtime_info api opts cluster profile =
     bindM (vsan_find_cluster api opts cluster profile) (\<lambda>obj.
     bindM (vsan_cluster_config_system api opts profile) (\<lambda>cs.
     attempt (\<lambda>exc. is_fault api ''vim.fault.VimFault'' exc \<or> is_AttributeError exc)
       (vcall api cs ''VsanClusterGetRuntimeStats'' [] [(''cluster'', obj)])
       (\<lambda>runtime.
        bindM (vget_or api runtime ''totalCapacityB'' PNone) (\<lambda>totalCapacityB.
        bindM (vget_or api runtime ''freeCapacityB'' PNone) (\<lambda>freeCapacityB.
        bindM (vget_or api runtime ''usedCapacityB'' PNone) (\<lambda>usedCapacityB.
        pureM (PDict [(''capacity_total'', totalCapacityB), (''capacity_free'', freeCapacityB), (''capacity_used'',
        usedCapacityB)])))))
       (\<lambda>_.
        pureM (PDict []))))"

subsection \<open>\<open>clients/vsan_disk.py\<close>\<close>

definition host_in_cluster :: "vmodl \<Rightarrow> pyval \<Rightarrow> pyval \<Rightarrow> pyval option io" where
  "host_in_cluster api host_id_or_name entity =
     bindM
       (if is_instance api entity ''vim.ClusterComputeResource'' \<or> is_instance api entity ''vim.ComputeResource''
        then bindM (vget api entity ''host'') (\<lambda>hosts. liftR (py_iter hosts))
        else pureM []) (\<lambda>hosts.
     first_of (host_named api host_id_or_name) hosts)"

definition vsan_disk_find_host :: "vmodl \<Rightarrow> pyval \<Rightarrow> pyval \<Rightarrow> profile \<Rightarrow> pyval io" where
  "vsan_disk_find_host api opts host_id_or_name profile =
     bindM (vim_content api opts profile) (\<lambda>content.
     bindM (vpath api content [''rootFolder'', ''childEntity'']) (\<lambda>children.
     bindM (liftR (py_iter children)) (\<lambda>dcs.
     or_else
       (first_of (\<lambda>dc.
          if \<not> is_instance api dc ''vim.Datacenter'' then pureM None
          else
            bindM (vpath api dc [''hostFolder'', ''childEntity'']) (\<lambda>entities.
            bindM (liftR (py_iter entities)) (first_of (host_in_cluster api host_id_or_name)))) dcs)
       (raiseM (LookupError (''host '' @ py_repr host_id_or_name @ '' not found''))))))"

definition vsan_disk_host_status :: "vmodl \<Rightarrow> pyval \<Rightarrow> pyval \<Rightarrow> profile \<Rightarrow> pyval io" where
  "vsan_disk_host_status api opts host_id_or_name profile =
     bindM (vsan_disk_find_host api opts host_id_or_name profile) (\<lambda>host.
     bindM (vpath api host [''configManager'', ''vsanSystem'']) (\<lambda>vs.
     bindM (vcall api vs ''QueryHostStatus'' [] []) (\<lambda>info.
     bindM (vget api info ''nodeUuid'') (\<lambda>nodeUuid.
     bindM (vget api info ''health'') (\<lambda>health.
     bindM (vget api info ''uuid'') (\<lambda>uuid.
     bindM (vget api info ''nodeState'') (\<lambda>nodeState.
     bindM
       (if truthy nodeState then
          bindM (vpath api info [''nodeState'', ''state'']) (\<lambda>st.
          pureM (PStr (py_str st)))
        else pureM PNone) (\<lambda>x.
     bindM (vget api info ''memberUuid'') (\<lambda>memberUuid.
     bindM
       (if truthy memberUuid then
          bindM (vget api info ''memberUuid'') (\<lambda>memberUuid2.
          bindM (liftR (py_len memberUuid2)) (\<lambda>n.
          pureM (int n)))
        else pureM 0) (\<lambda>x2.
     pureM (PDict [(''node_uuid'', nodeUuid), (''health'', health), (''uuid'', uuid), (''node_state'', x),
       (''members_count'', PInt x2)])))))))))))"

definition vsan_disk_host_config :: "vmodl \<Rightarrow> pyval \<Rightarrow> pyval \<Rightarrow> profile \<Rightarrow> pyval io" where
  "vsan_disk_host_config api opts host_id_or_name profile =
     bindM (vsan_disk_find_host api opts host_id_or_name profile) (\<lambda>host.
     bindM (vpath api host [''configManager'', ''vsanSystem'']) (\<lambda>vs.
     bindM (vget api vs ''config'') (\<lambda>cfg.
     bindM (vget api cfg ''clusterInfo'') (\<lambda>cluster_info.
     bindM (vget api cfg ''storageInfo'') (\<lambda>storage_info.
     bindM (vget_or api cfg ''faultDomainInfo'' PNone) (\<lambda>fd_info.
     bindM (vget api cfg ''enabled'') (\<lambda>enabled.
     bindM (if truthy cluster_info then vget api cluster_info ''uuid'' else pureM PNone) (\<lambda>x.
     bindM (if truthy cluster_info then vget api cluster_info ''nodeUuid'' else pureM PNone) (\<lambda>x2.
     bindM (if truthy storage_info then vget api storage_info ''autoClaimStorage'' else pureM PNone) (\<lambda>x3.
     bindM (vget api cfg ''storageInfo'') (\<lambda>storageInfo2.
     bindM
       (if truthy storageInfo2 then
          bindM (vpath api cfg [''storageInfo'', ''diskMapping'']) (\<lambda>diskMapping.
          pureM (truthy diskMapping))
        else pureM False) (\<lambda>holds_v.
     bindM
       (if holds_v then
          bindM (vpath api cfg [''storageInfo'', ''diskMapping'']) (\<lambda>diskMapping2.
          bindM (liftR (py_len diskMapping2)) (\<lambda>n.
          pureM (int n)))
        else pureM 0) (\<lambda>x4.
     bindM
       (if truthy fd_info then
          bindM (vget api fd_info ''name'') (\<lambda>name.
          pureM (truthy name))
        else pureM False) (\<lambda>holds_v2.
     bindM (if holds_v2 then vget api fd_info ''name'' else pureM PNone) (\<lambda>x5.
     bindM (vget_or api cfg ''vsanEsaEnabled'' (PBool False)) (\<lambda>vsanEsaEnabled.
     pureM (PDict [(''enabled'', enabled), (''cluster_uuid'', x), (''node_uuid'', x2), (''auto_claim_storage'', x3),
       (''disk_mapping_count'', PInt x4), (''fault_domain'', x5), (''vsan_esa_enabled'', PBool (truthy
        vsanEsaEnabled))])))))))))))))))))"

definition vsan_disk_host_disk_mapping :: "vmodl \<Rightarrow> pyval \<Rightarrow> pyval \<Rightarrow> profile \<Rightarrow> pyval io" where
  "vsan_disk_host_disk_mapping api opts host_id_or_name profile =
     bindM (vsan_disk_find_host api opts host_id_or_name profile) (\<lambda>host.
     bindM (vpath api host [''configManager'', ''vsanSystem'', ''config'']) (\<lambda>cfg.
     let out = [] in
     bindM (vpath api cfg [''storageInfo'', ''diskMapping'']) (\<lambda>diskMapping.
     bindM (liftR (py_iter (py_or diskMapping (PList [])))) (\<lambda>items.
     bindM
       (foldM (\<lambda>mapping out.
          bindM (vpath api mapping [''ssd'', ''canonicalName'']) (\<lambda>canonicalName.
          bindM (vpath api mapping [''ssd'', ''vsanDiskInfo'']) (\<lambda>vsanDiskInfo.
          bindM
            (if truthy vsanDiskInfo then vpath api mapping [''ssd'', ''vsanDiskInfo'', ''vsanUuid'']
             else pureM PNone) (\<lambda>x.
          bindM (vpath api mapping [''ssd'', ''capacity'']) (\<lambda>capacity.
          bindM
            (if truthy capacity then
               bindM (vpath api mapping [''ssd'', ''capacity'', ''block'']) (\<lambda>block.
               bindM (vpath api mapping [''ssd'', ''capacity'', ''blockSize'']) (\<lambda>blockSize.
               liftR (py_mult block blockSize)))
             else pureM PNone) (\<lambda>x2.
          bindM (vget api mapping ''nonSsd'') (\<lambda>nonSsd.
          bindM (liftR (py_iter (py_or nonSsd (PList [])))) (\<lambda>items2.
          bindM
            (mapM (\<lambda>d.
               bindM (vget api d ''canonicalName'') (\<lambda>canonicalName2.
               bindM (vget api d ''vsanDiskInfo'') (\<lambda>vsanDiskInfo2.
               bindM
                 (if truthy vsanDiskInfo2 then vpath api d [''vsanDiskInfo'', ''vsanUuid''] else pureM PNone)
        (\<lambda>x3.
               bindM (vget api d ''capacity'') (\<lambda>capacity2.
               bindM
                 (if truthy capacity2 then
                    bindM (vpath api d [''capacity'', ''block'']) (\<lambda>block2.
                    bindM (vpath api d [''capacity'', ''blockSize'']) (\<lambda>blockSize2.
                    liftR (py_mult block2 blockSize2)))
                  else pureM PNone) (\<lambda>x4.
               pureM (PDict [(''canonical_name'', canonicalName2), (''uuid'', x3), (''capacity_bytes'', x4)])))))))
        items2) (\<lambda>out2.
          pureM (out @ [PDict [(''cache_disk'', PDict [(''canonical_name'', canonicalName), (''uuid'', x),
        (''capacity_bytes'', x2)]), (''capacity_disks'', PList out2)]])))))))))) items out) (\<lambda>out.
     pureM (PList out))))))"

definition vsan_disk_query_disks_for_filter :: "vmodl \<Rightarrow> pyval \<Rightarrow> pyval \<Rightarrow> profile \<Rightarrow> pyval io" where
  "vsan_disk_query_disks_for_filter api opts host_id_or_name profile =
     bindM (vsan_disk_find_host api opts host_id_or_name profile) (\<lambda>host.
     bindM (vpath api host [''configManager'', ''vsanSystem'']) (\<lambda>vs.
     bindM (vcall api vs ''QueryDisksForVsan'' [] []) (\<lambda>queryDisksForVsan.
     bindM (liftR (py_iter (py_or queryDisksForVsan (PList [])))) (\<lambda>items.
     bindM
       (mapM (\<lambda>e.
          bindM (vpath api e [''disk'', ''canonicalName'']) (\<lambda>canonicalName.
          bindM (vget api e ''state'') (\<lambda>st.
          bindM (vget api e ''error'') (\<lambda>error_v.
          bindM
            (if truthy error_v then
               bindM (vget api e ''error'') (\<lambda>error_v2.
               pureM (PStr (py_str error_v2)))
             else pureM PNone) (\<lambda>x.
          bindM (vpath api e [''disk'', ''vsanDiskInfo'']) (\<lambda>vsanDiskInfo.
          bindM
            (if truthy vsanDiskInfo then vpath api e [''disk'', ''vsanDiskInfo'', ''vsanUuid'']
             else pureM PNone) (\<lambda>x2.
          pureM (PDict [(''canonical_name'', canonicalName), (''state'', PStr (py_str st)), (''error'', x),
        (''vsan_uuid'', x2)])))))))) items) (\<lambda>out.
     pureM (PList out))))))"

definition vsan_disk_add_disks :: "vmodl \<Rightarrow> pyval \<Rightarrow> pyval \<Rightarrow> pyval \<Rightarrow> profile \<Rightarrow> pyval io" where
  "vsan_disk_add_disks api opts host_id_or_name disks profile =
     bindM (vsan_disk_find_host api opts host_id_or_name profile) (\<lambda>host.
     bindM (vpath api host [''configManager'', ''vsanSystem'']) (\<lambda>vs.
     bindM (vpath api host [''configManager'', ''storageSystem'']) (\<lambda>storage.
     bindM (vpath api storage [''storageDeviceInfo'', ''scsiLun'']) (\<lambda>scsiLun.
     bindM (liftR (py_iter (py_or scsiLun (PList [])))) (\<lambda>items.
     bindM
       (mapM (\<lambda>d.
          bindM (vget api d ''canonicalName'') (\<lambda>canonicalName.
          bindM (liftR (str_key canonicalName)) (\<lambda>k.
          pureM (k, d)))) items) (\<lambda>entries.
     let by_canonical = dupdate [] entries in
     bindM (liftR (py_iter disks)) (\<lambda>items2.
     bindM
       (collect (\<lambda>c.
          bindM (liftR (py_in c (PDict by_canonical))) (\<lambda>found.
          if found then
            bindM (liftR (py_key (PDict by_canonical) c)) (\<lambda>found2.
            pureM (Some found2))
          else pureM None)) items2) (\<lambda>selected.
     if \<not> (selected \<noteq> []) then
       bindM (vget api host ''name'') (\<lambda>name.
       raiseM (LookupError (''none of '' @ py_repr disks @ '' found on host '' @ py_str name)))
     else
       bindM (vcall api vs ''AddDisks_Task'' [] [(''disk'', PList selected)]) (\<lambda>task.
       vget api task ''_moId'')))))))))"

definition vsan_disk_remove_disks :: "vmodl \<Rightarrow> pyval \<Rightarrow> pyval \<Rightarrow> pyval \<Rightarrow> pyval \<Rightarrow> profile \<Rightarrow> pyval io" where
  "vsan_disk_remove_disks api opts host_id_or_name disks maintenance_mode_action profile =
     bindM (vsan_disk_find_host api opts host_id_or_name profile) (\<lambda>host.
     bindM (vpath api host [''configManager'', ''vsanSystem'']) (\<lambda>vs.
     bindM (vpath api host [''configManager'', ''storageSystem'']) (\<lambda>storage.
     bindM (vpath api storage [''storageDeviceInfo'', ''scsiLun'']) (\<lambda>scsiLun.
     bindM (liftR (py_iter (py_or scsiLun (PList [])))) (\<lambda>items.
     bindM
       (mapM (\<lambda>d.
          bindM (vget api d ''canonicalName'') (\<lambda>canonicalName.
          bindM (liftR (str_key canonicalName)) (\<lambda>k.
          pureM (k, d)))) items) (\<lambda>entries.
     let by_canonical = dupdate [] entries in
     bindM (liftR (py_iter disks)) (\<lambda>items2.
     bindM
       (collect (\<lambda>c.
          bindM (liftR (py_in c (PDict by_canonical))) (\<lambda>found.
          if found then
            bindM (liftR (py_key (PDict by_canonical) c)) (\<lambda>found2.
            pureM (Some found2))
          else pureM None)) items2) (\<lambda>selected.
     if \<not> (selected \<noteq> []) then
       bindM (vget api host ''name'') (\<lambda>name.
       raiseM (LookupError (''none of '' @ py_repr disks @ '' found on host '' @ py_str name)))
     else
       bindM (vnew api ''vim.host.MaintenanceSpec'' []) (\<lambda>spec.
       bindM (vnew api ''vim.vsan.host.DecommissionMode'' []) (\<lambda>decommissionMode.
       bindM (vset api spec ''vsanMode'' decommissionMode) (\<lambda>spec.
       bindM (vget api spec ''vsanMode'') (\<lambda>vsanMode.
       bindM (vset api vsanMode ''objectAction'' maintenance_mode_action) (\<lambda>vsanMode.
       bindM (vset api spec ''vsanMode'' vsanMode) (\<lambda>spec.
       bindM
         (vcall api vs ''RemoveDisk_Task'' [] [(''disk'', PList selected), (''maintenanceSpec'', spec)])
        (\<lambda>task.
       vget api task ''_moId'')))))))))))))))"

subsection \<open>\<open>clients/vsan_fault_domain.py\<close>\<close>

definition vsan_fault_domain_list :: "vmodl \<Rightarrow> pyval \<Rightarrow> pyval \<Rightarrow> profile \<Rightarrow> pyval io" where
  "vsan_fault_domain_list api opts cluster profile =
     bindM (vsan_find_cluster api opts cluster profile) (\<lambda>cluster_obj.
     let out = [] in
     bindM (vget api cluster_obj ''host'') (\<lambda>host2.
     bindM (liftR (py_iter host2)) (\<lambda>items.
     bindM
       (foldM (\<lambda>host out.
          bindM (vpath api host [''configManager'', ''vsanSystem'']) (\<lambda>vsan_system.
          bindM (if truthy vsan_system then vget api vsan_system ''config'' else pureM PNone) (\<lambda>cfg.
          bindM (if truthy cfg then vget_or api cfg ''faultDomainInfo'' PNone else pureM PNone) (\<lambda>fd_info.
          bindM (if truthy cfg then vget_or api cfg ''clusterInfo'' PNone else pureM PNone)
        (\<lambda>cluster_info.
          bindM (vget api host ''name'') (\<lambda>name.
          bindM (vget api host ''_moId'') (\<lambda>moId.
          bindM
            (if truthy fd_info then
               bindM (vget api fd_info ''name'') (\<lambda>name2.
               pureM (truthy name2))
             else pureM False) (\<lambda>holds_v.
          bindM (if holds_v then vget api fd_info ''name'' else pureM PNone) (\<lambda>x4.
          bindM (if truthy cluster_info then vget api cluster_info ''nodeUuid'' else pureM PNone) (\<lambda>x5.
          pureM (out @ [PDict [(''host'', name), (''host_id'', moId), (''fault_domain'', x4), (''node_uuid'',
        x5)]]))))))))))) items out) (\<lambda>out.
     pureM (PList out)))))"

text \<open>The hosts by the fault domain they are assigned to, in the order in which the domains are met.\<close>

definition hosts_by_domain :: "vmodl \<Rightarrow> pyval \<Rightarrow> pyval list \<Rightarrow> pyval list kdict io" where
  "hosts_by_domain api mapping hosts =
     foldM (\<lambda>host d.
       bindM (vget api host ''name'') (\<lambda>name.
       bindM (liftR (py_lookup mapping name PNone)) (\<lambda>by_name.
       bindM
         (if truthy by_name then pureM by_name
          else bindM (vget api host ''_moId'') (\<lambda>moid. liftR (py_lookup mapping moid PNone))) (\<lambda>target.
       if target = PNone then pureM d
       else bindM (liftR (hashed target)) (\<lambda>target. pureM (kupd target [] (\<lambda>hs. hs @ [host]) d)))))) hosts []"

definition fault_domain_spec :: "vmodl \<Rightarrow> pyval \<times> pyval list \<Rightarrow> pyval io" where
  "fault_domain_spec api entry =
     bindM (vnew api ''vim.cluster.VsanFaultDomainSpec'' []) (\<lambda>fd_spec.
     bindM (vset api fd_spec ''name'' (fst entry)) (\<lambda>fd_spec.
     vset api fd_spec ''hosts'' (PList (snd entry))))"

definition vsan_fault_domain_assign :: "vmodl \<Rightarrow> pyval \<Rightarrow> pyval \<Rightarrow> pyval \<Rightarrow> profile \<Rightarrow> pyval io" where
  "vsan_fault_domain_assign api opts cluster mapping profile =
     bindM (vsan_find_cluster api opts cluster profile) (\<lambda>cluster_obj.
     bindM (vsan_cluster_config_system api opts profile) (\<lambda>cs.
     bindM (vget api cluster_obj ''host'') (\<lambda>hosts.
     bindM (liftR (py_iter hosts)) (\<lambda>hs.
     bindM (hosts_by_domain api mapping hs) (\<lambda>by_fd.
     bindM (mapM (fault_domain_spec api) by_fd) (\<lambda>fd_specs.
     bindM (vnew api ''vim.cluster.VsanFaultDomainsConfigSpec'' []) (\<lambda>fds_config.
     bindM (vset api fds_config ''faultDomains'' (PList fd_specs)) (\<lambda>fds_config.
     bindM (vnew api ''vim.vsan.ReconfigSpec'' []) (\<lambda>spec.
     bindM (vset api spec ''faultDomainsSpec'' fds_config) (\<lambda>spec.
     bindM
       (vcall api cs ''VsanClusterReconfig'' [] [(''cluster'', cluster_obj), (''vsanReconfigSpec'', spec)]) (\<lambda>task.
     vget api task ''_moId'')))))))))))"

subsection \<open>\<open>clients/vsan_file_service.py\<close>\<close>

definition vsan_file_service_enabled :: "vmodl \<Rightarrow> pyval \<Rightarrow> pyval \<Rightarrow> profile \<Rightarrow> pyval io" where
  "vsan_file_service_enabled api opts cluster profile =
     bindM (vsan_find_cluster api opts cluster profile) (\<lambda>obj.
     bindM (vsan_cluster_config_system api opts profile) (\<lambda>cs.
     bindM (vcall api cs ''VsanClusterGetConfig'' [] [(''cluster'', obj)]) (\<lambda>config.
     bindM (if truthy config then vget_or api config ''fileServiceConfig'' PNone else pureM PNone) (\<lambda>fsc.
     bindM
       (if truthy fsc then
          bindM (vget api fsc ''enabled'') (\<lambda>enabled.
          pureM (truthy enabled))
        else pureM False) (\<lambda>holds_v.
     pureM (PBool holds_v))))))"

definition vsan_file_service_find_network :: "vmodl \<Rightarrow> pyval \<Rightarrow> pyval \<Rightarrow> pyval io" where
  "vsan_file_service_find_network api cluster_obj network_name =
     bindM (vget api cluster_obj ''host'') (\<lambda>host2.
     bindM (liftR (py_iter host2)) (\<lambda>items.
     or_else
       (first_of (\<lambda>host.
          bindM (vget api host ''network'') (\<lambda>network.
          bindM (liftR (py_iter network)) (\<lambda>items2.
          first_of (\<lambda>net_v.
            bindM (vget api net_v ''name'') (\<lambda>name.
            if py_eq name network_name then pureM (Some net_v) else pureM None)) items2))) items)
       (raiseM (LookupError (''network '' @ py_repr network_name @
        '' not found on any host in this cluster'')))))"

definition vsan_file_service_set_enabled :: "vmodl \<Rightarrow> pyval \<Rightarrow> pyval \<Rightarrow> pyval
  \<Rightarrow> pyval \<Rightarrow> profile \<Rightarrow> pyval io" where
  "vsan_file_service_set_enabled api opts cluster enabled network_name profile =
     bindM (vsan_find_cluster api opts cluster profile) (\<lambda>obj.
     bindM (vsan_cluster_config_system api opts profile) (\<lambda>cs.
     bindM
       (if truthy enabled then
          if \<not> truthy network_name then
            raiseM (ValueError ''network_name is required to enable vSAN File Service'')
          else
            bindM (vsan_file_service_find_network api obj network_name) (\<lambda>network.
            vnew api ''vim.vsan.FileServiceConfig'' [(''enabled'', PBool True), (''network'', network),
        (''domains'', PList [])])
        else vnew api ''vim.vsan.FileServiceConfig'' [(''enabled'', PBool False)]) (\<lambda>file_service_config.
     bindM (vnew api ''vim.vsan.ReconfigSpec'' [(''fileServiceConfig'', file_service_config)]) (\<lambda>spec.
     bindM (vcall api cs ''VsanClusterReconfig'' [] [(''cluster'', obj), (''vsanReconfigSpec'', spec)])
       (\<lambda>task.
     vget api task ''_moId'')))))"

definition vsan_file_service_download_ovf :: "vmodl \<Rightarrow> pyval \<Rightarrow> pyval \<Rightarrow> pyval \<Rightarrow> profile \<Rightarrow> pyval io" where
  "vsan_file_service_download_ovf api opts cluster ovf_url profile =
     bindM (vsan_find_cluster api opts cluster profile) (\<lambda>obj.
     bindM (vsan_file_service_system api opts profile) (\<lambda>fs.
     bindM (if truthy ovf_url then pureM ovf_url else vcall api fs ''FindOvfDownloadUrl'' [obj] []) (\<lambda>url.
     if \<not> truthy url then
       raiseM (RuntimeError (''no FSVM OVF download url found for cluster '' @ py_repr cluster))
     else
       bindM (vcall api fs ''DownloadFileServiceOvf'' [url] []) (\<lambda>task.
       vget api task ''_moId''))))"

definition vsan_file_service_list_domains :: "vmodl \<Rightarrow> pyval \<Rightarrow> pyval \<Rightarrow> profile \<Rightarrow> pyval io" where
  "vsan_file_service_list_domains api opts cluster profile =
     bindM (vsan_find_cluster api opts cluster profile) (\<lambda>obj.
     bindM (vsan_file_service_system api opts profile) (\<lambda>fs.
     bindM (vnew api ''vim.vsan.FileServiceDomainQuerySpec'' []) (\<lambda>fileServiceDomainQuerySpec.
     bindM
       (vcall api fs ''QueryFileServiceDomains'' [] [(''querySpec'', fileServiceDomainQuerySpec), (''cluster'',
        obj)]) (\<lambda>domains.
     bindM (liftR (py_iter (py_or domains (PList [])))) (\<lambda>items.
     bindM (mapM (\<lambda>d. vget api d ''name'') items) (\<lambda>out.
     pureM (PList out)))))))"

definition vsan_file_service_domain_exists :: "vmodl \<Rightarrow> pyval \<Rightarrow> pyval \<Rightarrow> pyval \<Rightarrow> profile \<Rightarrow> pyval io" where
  "vsan_file_service_domain_exists api opts cluster domain_name profile =
     bindM (vsan_file_service_list_domains api opts cluster profile) (\<lambda>list_domains2.
     bindM (liftR (py_in domain_name list_domains2)) (\<lambda>found.
     pureM (PBool found)))"

definition file_service_addresses ::
  "vmodl \<Rightarrow> pyval \<Rightarrow> pyval \<Rightarrow> pyval \<Rightarrow> pyval list io" where
  "file_service_addresses api ip_to_fqdn subnet_mask gateway_address =
     bindM (liftR (py_mapping ip_to_fqdn ''items'')) (\<lambda>entries.
     bindM
       (mapM (\<lambda>(ip_address, fqdn).
          vnew api ''vim.vsan.FileServiceIpConfig''
            [(''dhcp'', PBool False), (''ipAddress'', PStr ip_address), (''subnetMask'', subnet_mask),
             (''gateway'', gateway_address), (''fqdn'', fqdn)]) entries) (\<lambda>network_profiles.
     case network_profiles of
       [] \<Rightarrow> pureM []
     | p # ps \<Rightarrow> bindM (vset api p ''isPrimary'' (PBool True)) (\<lambda>p. pureM (p # ps))))"

definition vsan_file_service_create_domain ::
  "vmodl \<Rightarrow> pyval \<Rightarrow> pyval \<Rightarrow> pyval \<Rightarrow> pyval \<Rightarrow> pyval \<Rightarrow> pyval \<Rightarrow> pyval \<Rightarrow> pyval \<Rightarrow>
   profile \<Rightarrow> pyval io" where
  "vsan_file_service_create_domain api opts cluster domain_name ip_to_fqdn subnet_mask gateway_address
     dns_suffixes dns_address profile =
     bindM (vsan_find_cluster api opts cluster profile) (\<lambda>obj.
     bindM (vsan_file_service_system api opts profile) (\<lambda>fs.
     bindM (file_service_addresses api ip_to_fqdn subnet_mask gateway_address) (\<lambda>network_profiles.
     bindM (liftR (py_iter dns_address)) (\<lambda>addresses.
     bindM (liftR (py_iter dns_suffixes)) (\<lambda>suffixes.
     bindM
       (vnew api ''vim.vsan.FileServiceDomainConfig''
          [(''name'', domain_name), (''dnsServerAddresses'', PList addresses), (''dnsSuffixes'', PList suffixes),
           (''fileServerIpConfig'', PList network_profiles)]) (\<lambda>domain_config.
     bindM (vcall api fs ''CreateFileServiceDomain'' [domain_config, obj] []) (\<lambda>task.
     vget api task ''_moId'')))))))"

definition vsan_file_service_remove_domain :: "vmodl \<Rightarrow> pyval \<Rightarrow> pyval \<Rightarrow> pyval \<Rightarrow> profile \<Rightarrow> pyval io" where
  "vsan_file_service_remove_domain api opts cluster domain_name profile =
     bindM (vsan_find_cluster api opts cluster profile) (\<lambda>obj.
     bindM (vsan_file_service_system api opts profile) (\<lambda>fs.
     bindM (vcall api fs ''RemoveFileServiceDomain'' [domain_name, obj] []) (\<lambda>task.
     vget api task ''_moId'')))"

subsection \<open>\<open>clients/vsan_health.py\<close>\<close>

definition health_test :: "vmodl \<Rightarrow> pyval \<Rightarrow> pyval io" where
  "health_test api tst =
     bindM (vget_or api tst ''testId'' PNone) (\<lambda>ident.
     bindM (vget_or api tst ''testName'' PNone) (\<lambda>name.
     bindM (vget_or api tst ''testHealth'' PNone) (\<lambda>health.
     bindM (vget_or api tst ''testShortDescription'' PNone) (\<lambda>description.
     pureM (PDict
       [(''id'', ident), (''name'', name), (''health'', health), (''description'', description)])))))"

definition health_group :: "vmodl \<Rightarrow> pyval \<Rightarrow> pyval io" where
  "health_group api grp =
     bindM (vget_or api grp ''groupTests'' PNone) (\<lambda>group_tests.
     bindM (liftR (py_iter (py_or group_tests (PList [])))) (\<lambda>items.
     bindM (mapM (health_test api) items) (\<lambda>tests.
     bindM (vget_or api grp ''groupId'' PNone) (\<lambda>ident.
     bindM (vget_or api grp ''groupName'' PNone) (\<lambda>name.
     bindM (vget_or api grp ''groupHealth'' PNone) (\<lambda>health.
     pureM (PDict
       [(''group_id'', ident), (''group_name'', name), (''group_health'', health), (''tests'', PList tests)])))))))"

definition vsan_health_summary_to_dict :: "vmodl \<Rightarrow> pyval \<Rightarrow> pyval io" where
  "vsan_health_summary_to_dict api result =
     bindM (vget_or api result ''overallHealth'' PNone) (\<lambda>overall_status.
     bindM (vget_or api result ''overallHealthDescription'' PNone) (\<lambda>description.
     bindM (vget_or api result ''groups'' PNone) (\<lambda>found.
     bindM (liftR (py_iter (py_or found (PList [])))) (\<lambda>items.
     bindM (mapM (health_group api) items) (\<lambda>out.
     pureM (PDict
       [(''overall_health'', overall_status), (''overall_health_description'', description),
        (''groups'', PList out)]))))))"

definition vsan_health_summary :: "vmodl \<Rightarrow> pyval \<Rightarrow> pyval \<Rightarrow> pyval \<Rightarrow> profile \<Rightarrow> pyval io" where
  "vsan_health_summary api opts cluster fetch_from_cache profile =
     bindM (vsan_find_cluster api opts cluster profile) (\<lambda>cluster_obj.
     bindM (vsan_cluster_health_system api opts profile) (\<lambda>hs.
     attempt (\<lambda>exc. is_fault api ''vim.fault.VimFault'' exc)
       (vcall api hs ''QueryClusterHealthSummary'' [] [(''cluster'', cluster_obj), (''fetchFromCache'',
        fetch_from_cache)])
       (\<lambda>result.
        vsan_health_summary_to_dict api result)
       (\<lambda>exc.
        pureM (PDict [(''error'', PStr (exn_str exc))]))))"

definition vsan_health_groups :: "vmodl \<Rightarrow> pyval \<Rightarrow> pyval \<Rightarrow> pyval \<Rightarrow> profile \<Rightarrow> pyval io" where
  "vsan_health_groups api opts cluster fetch_from_cache profile =
     bindM (vsan_health_summary api opts cluster fetch_from_cache profile) (\<lambda>summary_dict.
     liftR (py_get summary_dict ''groups'' (PList [])))"

definition vsan_health_overall :: "vmodl \<Rightarrow> pyval \<Rightarrow> pyval \<Rightarrow> pyval \<Rightarrow> profile \<Rightarrow> pyval io" where
  "vsan_health_overall api opts cluster fetch_from_cache profile =
     bindM (vsan_health_summary api opts cluster fetch_from_cache profile) (\<lambda>summary_dict.
     liftR (py_get summary_dict ''overall_health'' PNone))"

definition vsan_health_silenced_checks :: "vmodl \<Rightarrow> pyval \<Rightarrow> pyval \<Rightarrow> profile \<Rightarrow> pyval io" where
  "vsan_health_silenced_checks api opts cluster profile =
     bindM (vsan_find_cluster api opts cluster profile) (\<lambda>cluster_obj.
     bindM (vsan_cluster_health_system api opts profile) (\<lambda>hs.
     tryM
       (bindM
          (vcall api hs ''GetVsanClusterSilentChecks'' [] [(''cluster'', cluster_obj)])
        (\<lambda>getVsanClusterSilentChecks.
        bindM (liftR (py_iter (py_or getVsanClusterSilentChecks (PList [])))) (\<lambda>items2.
        pureM (PList items2))))
       (\<lambda>exc. if is_fault api ''vim.fault.VimFault'' exc \<or> is_fault api ''vmodl.MethodFault'' exc \<or>
        is_AttributeError exc then
           pureM (PList [])
         else raiseM exc)))"

definition vsan_health_silence :: "vmodl \<Rightarrow> pyval \<Rightarrow> pyval \<Rightarrow> pyval \<Rightarrow> profile \<Rightarrow> pyval io" where
  "vsan_health_silence api opts cluster checks profile =
     bindM (vsan_find_cluster api opts cluster profile) (\<lambda>cluster_obj.
     bindM (vsan_cluster_health_system api opts profile) (\<lambda>hs.
     bindM (liftR (py_iter checks)) (\<lambda>items2.
     bindM
       (vcall api hs ''SetVsanClusterSilentChecks'' [] [(''cluster'', cluster_obj), (''addSilentChecks'', PList
        items2)]) (\<lambda>_.
     pureM PNone))))"

definition vsan_health_unsilence :: "vmodl \<Rightarrow> pyval \<Rightarrow> pyval \<Rightarrow> pyval \<Rightarrow> profile \<Rightarrow> pyval io" where
  "vsan_health_unsilence api opts cluster checks profile =
     bindM (vsan_find_cluster api opts cluster profile) (\<lambda>cluster_obj.
     bindM (vsan_cluster_health_system api opts profile) (\<lambda>hs.
     bindM (liftR (py_iter checks)) (\<lambda>items2.
     bindM
       (vcall api hs ''SetVsanClusterSilentChecks'' [] [(''cluster'', cluster_obj), (''removeSilentChecks'', PList
        items2)]) (\<lambda>_.
     pureM PNone))))"

subsection \<open>\<open>clients/vim_cluster_config.py\<close>\<close>

definition vim_cluster_config_cluster :: "vmodl \<Rightarrow> pyval \<Rightarrow> pyval \<Rightarrow> profile \<Rightarrow> pyval io" where
  "vim_cluster_config_cluster api opts name profile =
     bindM (vim_content api opts profile) (\<lambda>content.
     bindM (vpath api content [''rootFolder'', ''childEntity'']) (\<lambda>childEntity.
     bindM (liftR (py_iter childEntity)) (\<lambda>items.
     or_else
       (first_of (\<lambda>dc.
          if \<not> (is_instance api dc ''vim.Datacenter'') then pureM None
          else
            bindM (vpath api dc [''hostFolder'', ''childEntity'']) (\<lambda>childEntity2.
            bindM (liftR (py_iter childEntity2)) (\<lambda>items2.
            first_of (\<lambda>entity.
              bindM
                (if is_instance api entity ''vim.ClusterComputeResource'' then
                   bindM (vget api entity ''_moId'') (\<lambda>moId.
                   bindM (vget api entity ''name'') (\<lambda>name2.
                   pureM (list_ex (py_eq name) [moId, name2])))
                 else pureM False) (\<lambda>holds_v.
              if holds_v then pureM (Some entity) else pureM None)) items2))) items)
       (raiseM (LookupError (''cluster '' @ py_repr name @ '' not found''))))))"

definition vim_cluster_config_drs_get :: "vmodl \<Rightarrow> pyval \<Rightarrow> pyval \<Rightarrow> profile \<Rightarrow> pyval io" where
  "vim_cluster_config_drs_get api opts cluster profile =
     bindM (vim_cluster_config_cluster api opts cluster profile) (\<lambda>cluster2.
     bindM (vpath api cluster2 [''configurationEx'', ''drsConfig'']) (\<lambda>cfg.
     bindM (vget api cfg ''enabled'') (\<lambda>enabled.
     bindM (vget api cfg ''defaultVmBehavior'') (\<lambda>defaultVmBehavior.
     bindM (vget_or api cfg ''enableVmBehaviorOverrides'' (PBool False)) (\<lambda>enableVmBehaviorOverrides.
     bindM (vget api cfg ''vmotionRate'') (\<lambda>vmotionRate.
     bindM (liftR (py_int vmotionRate)) (\<lambda>n.
     pureM (PDict [(''enabled'', PBool (truthy enabled)), (''default_vm_behavior'', PStr (py_str
       defaultVmBehavior)), (''vm_monitoring_enabled'', PBool (truthy enableVmBehaviorOverrides)),
        (''migration_threshold'', PInt n)]))))))))"

definition vim_cluster_config_drs_set ::
  "vmodl \<Rightarrow> pyval \<Rightarrow> pyval \<Rightarrow> pyval \<Rightarrow> pyval \<Rightarrow> pyval \<Rightarrow> pyval \<Rightarrow> profile \<Rightarrow> pyval io" where
  "vim_cluster_config_drs_set api opts cluster enabled default_vm_behavior migration_threshold vm_monitoring_enabled
    profile =
     bindM (vnew api ''vim.cluster.DrsConfigInfo'' []) (\<lambda>cfg.
     bindM (if enabled \<noteq> PNone then vset api cfg ''enabled'' (PBool (truthy enabled)) else pureM cfg)
       (\<lambda>cfg.
     bindM
       (if default_vm_behavior \<noteq> PNone then vset api cfg ''defaultVmBehavior'' default_vm_behavior
        else pureM cfg) (\<lambda>cfg.
     bindM
       (if migration_threshold \<noteq> PNone then
          bindM (liftR (py_int migration_threshold)) (\<lambda>n.
          vset api cfg ''vmotionRate'' (PInt n))
        else pureM cfg) (\<lambda>cfg.
     bindM
       (if vm_monitoring_enabled \<noteq> PNone then
          vset api cfg ''enableVmBehaviorOverrides'' (PBool (truthy vm_monitoring_enabled))
        else pureM cfg) (\<lambda>cfg.
     bindM (vnew api ''vim.cluster.ConfigSpecEx'' [(''drsConfig'', cfg)]) (\<lambda>spec.
     bindM (vim_cluster_config_cluster api opts cluster profile) (\<lambda>cl.
     bindM
       (vcall api cl ''ReconfigureComputeResource_Task'' [] [(''spec'', spec), (''modify'', PBool True)])
        (\<lambda>task.
     vget api task ''_moId''))))))))"

definition vim_cluster_config_ha_get :: "vmodl \<Rightarrow> pyval \<Rightarrow> pyval \<Rightarrow> profile \<Rightarrow> pyval io" where
  "vim_cluster_config_ha_get api opts cluster profile =
     bindM (vim_cluster_config_cluster api opts cluster profile) (\<lambda>cluster2.
     bindM (vpath api cluster2 [''configurationEx'', ''dasConfig'']) (\<lambda>cfg.
     bindM (vget api cfg ''enabled'') (\<lambda>enabled.
     bindM (vget api cfg ''hostMonitoring'') (\<lambda>hostMonitoring.
     bindM (vget api cfg ''vmMonitoring'') (\<lambda>vmMonitoring.
     bindM (vget_or api cfg ''admissionControlEnabled'' (PBool False)) (\<lambda>admissionControlEnabled.
     let out = [(''enabled'', PBool (truthy enabled)), (''host_monitoring'', PStr (py_str hostMonitoring)),
       (''vm_monitoring'', PStr (py_str vmMonitoring)), (''admission_control_enabled'', PBool (truthy
        admissionControlEnabled))] in
     bindM (vget api cfg ''defaultVmSettings'') (\<lambda>defaultVmSettings.
     bindM
       (if truthy defaultVmSettings then
          bindM (vpath api cfg [''defaultVmSettings'', ''restartPriority'']) (\<lambda>restartPriority.
          let out = dset out ''restart_priority'' (PStr (py_str restartPriority)) in
          bindM (vpath api cfg [''defaultVmSettings'', ''isolationResponse'']) (\<lambda>isolationResponse.
          pureM (dset out ''isolation_response'' (PStr (py_str isolationResponse)))))
        else pureM out) (\<lambda>out.
     pureM (PDict out)))))))))"

definition vim_cluster_config_ha_set ::
  "vmodl \<Rightarrow> pyval \<Rightarrow> pyval \<Rightarrow> pyval \<Rightarrow> pyval \<Rightarrow> pyval \<Rightarrow> pyval \<Rightarrow> pyval \<Rightarrow> pyval \<Rightarrow> profile \<Rightarrow> pyval io" where
  "vim_cluster_config_ha_set api opts cluster enabled host_monitoring vm_monitoring restart_priority
    isolation_response admission_control_enabled profile =
     bindM (vnew api ''vim.cluster.DasConfigInfo'' []) (\<lambda>cfg.
     bindM (if enabled \<noteq> PNone then vset api cfg ''enabled'' (PBool (truthy enabled)) else pureM cfg)
       (\<lambda>cfg.
     bindM
       (if host_monitoring \<noteq> PNone then vset api cfg ''hostMonitoring'' host_monitoring else pureM cfg)
        (\<lambda>cfg.
     bindM (if vm_monitoring \<noteq> PNone then vset api cfg ''vmMonitoring'' vm_monitoring else pureM cfg)
       (\<lambda>cfg.
     bindM
       (if admission_control_enabled \<noteq> PNone then
          vset api cfg ''admissionControlEnabled'' (PBool (truthy admission_control_enabled))
        else pureM cfg) (\<lambda>cfg.
     bindM
       (if (restart_priority \<noteq> PNone) \<or> (isolation_response \<noteq> PNone) then
          bindM (vnew api ''vim.cluster.DasVmSettings'' []) (\<lambda>vm_settings.
          bindM
            (if restart_priority \<noteq> PNone then vset api vm_settings ''restartPriority'' restart_priority
             else pureM vm_settings) (\<lambda>vm_settings.
          bindM
            (if isolation_response \<noteq> PNone then
               vset api vm_settings ''isolationResponse'' isolation_response
             else pureM vm_settings) (\<lambda>vm_settings.
          vset api cfg ''defaultVmSettings'' vm_settings)))
        else pureM cfg) (\<lambda>cfg.
     bindM (vnew api ''vim.cluster.ConfigSpecEx'' [(''dasConfig'', cfg)]) (\<lambda>spec.
     bindM (vim_cluster_config_cluster api opts cluster profile) (\<lambda>cl.
     bindM
       (vcall api cl ''ReconfigureComputeResource_Task'' [] [(''spec'', spec), (''modify'', PBool True)])
        (\<lambda>task.
     vget api task ''_moId'')))))))))"

definition vim_cluster_config_evc_get :: "vmodl \<Rightarrow> pyval \<Rightarrow> pyval \<Rightarrow> profile \<Rightarrow> pyval io" where
  "vim_cluster_config_evc_get api opts cluster profile =
     bindM (vim_cluster_config_cluster api opts cluster profile) (\<lambda>cl.
     bindM (vget api cl ''summary'') (\<lambda>summary.
     bindM (vget_or api summary ''currentEVCModeKey'' PNone) (\<lambda>currentEVCModeKey.
     bindM (vget_or api summary ''currentEVCGraphicsModeKey'' PNone) (\<lambda>currentEVCGraphicsModeKey.
     pureM (PDict [(''current_mode'', currentEVCModeKey), (''current_graphics_mode'',
       currentEVCGraphicsModeKey)])))))"

definition vim_cluster_config_evc_set :: "vmodl \<Rightarrow> pyval \<Rightarrow> pyval \<Rightarrow> pyval \<Rightarrow> profile \<Rightarrow> pyval io" where
  "vim_cluster_config_evc_set api opts cluster md profile =
     bindM (vim_cluster_config_cluster api opts cluster profile) (\<lambda>cl.
     bindM (vcall api cl ''EvcManager'' [] []) (\<lambda>evc_mgr.
     bindM (vcall api evc_mgr ''ConfigureEvcMode_Task'' [] [(''evcModeKey'', md)]) (\<lambda>task.
     vget api task ''_moId'')))"

definition vim_cluster_config_evc_disable :: "vmodl \<Rightarrow> pyval \<Rightarrow> pyval \<Rightarrow> profile \<Rightarrow> pyval io" where
  "vim_cluster_config_evc_disable api opts cluster profile =
     bindM (vim_cluster_config_cluster api opts cluster profile) (\<lambda>cl.
     bindM (vcall api cl ''EvcManager'' [] []) (\<lambda>evc_mgr.
     bindM (vcall api evc_mgr ''DisableEvcMode_Task'' [] []) (\<lambda>task.
     vget api task ''_moId'')))"

definition vim_cluster_config_dpm_get :: "vmodl \<Rightarrow> pyval \<Rightarrow> pyval \<Rightarrow> profile \<Rightarrow> pyval io" where
  "vim_cluster_config_dpm_get api opts cluster profile =
     bindM (vim_cluster_config_cluster api opts cluster profile) (\<lambda>cluster2.
     bindM (vpath api cluster2 [''configurationEx'', ''dpmConfigInfo'']) (\<lambda>cfg.
     if cfg = PNone then
       pureM (PDict [(''enabled'', PBool False), (''default_behavior'', PNone), (''host_power_action_rate'',
        PNone)])
     else
       bindM (vget api cfg ''enabled'') (\<lambda>enabled.
       bindM (vget api cfg ''defaultDpmBehavior'') (\<lambda>defaultDpmBehavior.
       bindM (vget api cfg ''hostPowerActionRate'') (\<lambda>hostPowerActionRate.
       bindM (liftR (py_int hostPowerActionRate)) (\<lambda>n.
       pureM (PDict [(''enabled'', PBool (truthy enabled)), (''default_behavior'', PStr (py_str
        defaultDpmBehavior)), (''host_power_action_rate'', PInt n)])))))))"

definition vim_cluster_config_dpm_set :: "vmodl \<Rightarrow> pyval \<Rightarrow> pyval \<Rightarrow> pyval
  \<Rightarrow> pyval \<Rightarrow> pyval \<Rightarrow> profile \<Rightarrow> pyval io" where
  "vim_cluster_config_dpm_set api opts cluster enabled default_behavior host_power_action_rate profile =
     bindM (vnew api ''vim.cluster.DpmConfigInfo'' []) (\<lambda>cfg.
     bindM (if enabled \<noteq> PNone then vset api cfg ''enabled'' (PBool (truthy enabled)) else pureM cfg)
       (\<lambda>cfg.
     bindM
       (if default_behavior \<noteq> PNone then vset api cfg ''defaultDpmBehavior'' default_behavior else pureM cfg)
        (\<lambda>cfg.
     bindM
       (if host_power_action_rate \<noteq> PNone then
          bindM (liftR (py_int host_power_action_rate)) (\<lambda>n.
          vset api cfg ''hostPowerActionRate'' (PInt n))
        else pureM cfg) (\<lambda>cfg.
     bindM (vnew api ''vim.cluster.ConfigSpecEx'' [(''dpmConfig'', cfg)]) (\<lambda>spec.
     bindM (vim_cluster_config_cluster api opts cluster profile) (\<lambda>cl.
     bindM
       (vcall api cl ''ReconfigureComputeResource_Task'' [] [(''spec'', spec), (''modify'', PBool True)])
        (\<lambda>task.
     vget api task ''_moId'')))))))"

subsection \<open>\<open>clients/vim_cluster_evc.py\<close>\<close>

definition vim_cluster_evc_cluster :: "vmodl \<Rightarrow> pyval \<Rightarrow> pyval \<Rightarrow> profile \<Rightarrow> pyval io" where
  "vim_cluster_evc_cluster api opts name_or_id profile =
     bindM (vim_content api opts profile) (\<lambda>content.
     bindM (vpath api content [''rootFolder'', ''childEntity'']) (\<lambda>childEntity.
     bindM (liftR (py_iter childEntity)) (\<lambda>items.
     or_else
       (first_of (\<lambda>dc.
          if \<not> (is_instance api dc ''vim.Datacenter'') then pureM None
          else
            bindM (vpath api dc [''hostFolder'', ''childEntity'']) (\<lambda>childEntity2.
            bindM (liftR (py_iter childEntity2)) (\<lambda>items2.
            first_of (\<lambda>entity.
              bindM
                (if is_instance api entity ''vim.ClusterComputeResource'' then
                   bindM (vget api entity ''_moId'') (\<lambda>moId.
                   bindM (vget api entity ''name'') (\<lambda>name.
                   pureM (list_ex (py_eq name_or_id) [moId, name])))
                 else pureM False) (\<lambda>holds_v.
              if holds_v then pureM (Some entity) else pureM None)) items2))) items)
       (raiseM (LookupError (''cluster '' @ py_repr name_or_id @ '' not found''))))))"

definition vim_cluster_evc_evc_mgr :: "vmodl \<Rightarrow> pyval \<Rightarrow> pyval io" where
  "vim_cluster_evc_evc_mgr api cluster =
     bindM (vcall api cluster ''EvcManager'' [] []) (\<lambda>mgr.
     if mgr = PNone then
       bindM (vget api cluster ''name'') (\<lambda>name.
       raiseM (RuntimeError (''cluster '' @ py_repr name @ '' has no EVC manager'')))
     else pureM mgr)"

definition vim_cluster_evc_get :: "vmodl \<Rightarrow> pyval \<Rightarrow> pyval \<Rightarrow> profile \<Rightarrow> pyval io" where
  "vim_cluster_evc_get api opts cluster profile =
     bindM (vim_cluster_evc_cluster api opts cluster profile) (\<lambda>cl.
     bindM (vim_cluster_evc_evc_mgr api cl) (\<lambda>mgr.
     bindM (vget api mgr ''evcState'') (\<lambda>st.
     bindM (vget api st ''currentEVCModeKey'') (\<lambda>currentEVCModeKey.
     bindM (vget api st ''currentEVCModeKey'') (\<lambda>currentEVCModeKey2.
     bindM (vget api st ''supportedEVCMode'') (\<lambda>supportedEVCMode.
     bindM (liftR (py_iter (py_or supportedEVCMode (PList [])))) (\<lambda>items.
     bindM (mapM (\<lambda>m. vget api m ''key'') items) (\<lambda>out.
     bindM (vget api st ''guaranteedCPUFeatures'') (\<lambda>guaranteedCPUFeatures.
     bindM (liftR (py_iter (py_or guaranteedCPUFeatures (PList [])))) (\<lambda>items2.
     bindM
       (mapM (\<lambda>f.
          bindM (vget api f ''key'') (\<lambda>key2.
          bindM (vget api f ''value'') (\<lambda>val.
          pureM (PDict [(''key'', key2), (''value'', val)])))) items2) (\<lambda>out2.
     pureM (PDict [(''enabled'', PBool (truthy currentEVCModeKey)), (''current_key'', currentEVCModeKey2),
       (''supported_keys'', PList out), (''guaranteed_cpu_features'', PList out2)]))))))))))))"

definition vim_cluster_evc_configure :: "vmodl \<Rightarrow> pyval \<Rightarrow> pyval \<Rightarrow> pyval \<Rightarrow> profile \<Rightarrow> pyval io" where
  "vim_cluster_evc_configure api opts cluster evc_mode_key profile =
     bindM (vim_cluster_evc_cluster api opts cluster profile) (\<lambda>cl.
     bindM (vim_cluster_evc_evc_mgr api cl) (\<lambda>mgr.
     bindM (vcall api mgr ''ConfigureEvcMode_Task'' [] [(''evcModeKey'', evc_mode_key)]) (\<lambda>task.
     vget api task ''_moId'')))"

definition vim_cluster_evc_disable :: "vmodl \<Rightarrow> pyval \<Rightarrow> pyval \<Rightarrow> profile \<Rightarrow> pyval io" where
  "vim_cluster_evc_disable api opts cluster profile =
     bindM (vim_cluster_evc_cluster api opts cluster profile) (\<lambda>cl.
     bindM (vim_cluster_evc_evc_mgr api cl) (\<lambda>mgr.
     bindM (vcall api mgr ''DisableEvcMode_Task'' [] []) (\<lambda>task.
     vget api task ''_moId'')))"

definition vim_cluster_evc_check :: "vmodl \<Rightarrow> pyval \<Rightarrow> pyval \<Rightarrow> pyval \<Rightarrow> profile \<Rightarrow> pyval io" where
  "vim_cluster_evc_check api opts cluster evc_mode_key profile =
     bindM (vim_cluster_evc_cluster api opts cluster profile) (\<lambda>cl.
     bindM (vim_cluster_evc_evc_mgr api cl) (\<lambda>mgr.
     bindM (vcall api mgr ''CheckConfigureEvcMode_Task'' [] [(''evcModeKey'', evc_mode_key)]) (\<lambda>task.
     vget api task ''_moId'')))"

subsection \<open>\<open>clients/vim_cluster_overrides.py\<close>\<close>

definition vim_cluster_overrides_drs_behavior :: "vmodl \<Rightarrow> pyval \<Rightarrow> pyval io" where
  "vim_cluster_overrides_drs_behavior api val = pureM (PStr (py_str val))"

definition vim_cluster_overrides_restart_priority :: "vmodl \<Rightarrow> pyval \<Rightarrow> pyval io" where
  "vim_cluster_overrides_restart_priority api val = pureM (PStr (py_str val))"

definition vim_cluster_overrides_isolation_response :: "vmodl \<Rightarrow> pyval \<Rightarrow> pyval io" where
  "vim_cluster_overrides_isolation_response api val = pureM (PStr (py_str val))"

definition vim_cluster_overrides_dpm_behavior :: "vmodl \<Rightarrow> pyval \<Rightarrow> pyval io" where
  "vim_cluster_overrides_dpm_behavior api val = pureM (PStr (py_str val))"

definition vim_cluster_overrides_resolve_vm :: "vmodl \<Rightarrow> pyval \<Rightarrow> pyval \<Rightarrow> pyval io" where
  "vim_cluster_overrides_resolve_vm api opts vm_moid = vref api ''vim.VirtualMachine'' vm_moid PNone"

definition vim_cluster_overrides_resolve_host :: "vmodl \<Rightarrow> pyval \<Rightarrow> pyval \<Rightarrow> pyval io" where
  "vim_cluster_overrides_resolve_host api opts host_moid = vref api ''vim.HostSystem'' host_moid PNone"

definition vim_cluster_overrides_drs_vm_list :: "vmodl \<Rightarrow> pyval \<Rightarrow> pyval \<Rightarrow> profile \<Rightarrow> pyval io" where
  "vim_cluster_overrides_drs_vm_list api opts cluster profile =
     bindM (vim_cluster_config_cluster api opts cluster profile) (\<lambda>cl.
     let out = [] in
     bindM (vpath api cl [''configurationEx'', ''drsVmConfig'']) (\<lambda>drsVmConfig.
     bindM (liftR (py_iter (py_or drsVmConfig (PList [])))) (\<lambda>items.
     bindM
       (foldM (\<lambda>entry out.
          bindM (vpath api entry [''key'', ''_moId'']) (\<lambda>moId.
          bindM (vget_or api entry ''enabled'' (PBool True)) (\<lambda>enabled.
          bindM (vget api entry ''behavior'') (\<lambda>behavior.
          bindM
            (if truthy behavior then
               bindM (vget api entry ''behavior'') (\<lambda>behavior2.
               pureM (PStr (py_str behavior2)))
             else pureM PNone) (\<lambda>x.
          pureM (out @ [PDict [(''vm_moid'', moId), (''enabled'', PBool (truthy enabled)), (''behavior'', x)]]))))))
        items out) (\<lambda>out.
     pureM (PList out)))))"

definition vim_cluster_overrides_drs_vm_set ::
  "vmodl \<Rightarrow> pyval \<Rightarrow> pyval \<Rightarrow> pyval \<Rightarrow> pyval \<Rightarrow> pyval \<Rightarrow> profile \<Rightarrow> pyval io" where
  "vim_cluster_overrides_drs_vm_set api opts cluster vm_moid behavior enabled profile =
     bindM (vim_cluster_config_cluster api opts cluster profile) (\<lambda>cl.
     bindM (vpath api cl [''configurationEx'', ''drsVmConfig'']) (\<lambda>drsVmConfig.
     bindM (liftR (py_iter (py_or drsVmConfig (PList [])))) (\<lambda>items.
     bindM (mapM (\<lambda>e. vpath api e [''key'', ''_moId'']) items) (\<lambda>existing.
     let op_v = (if list_ex (py_eq vm_moid) existing then ''edit'' else ''add'') in
     bindM (vim_cluster_overrides_resolve_vm api opts vm_moid) (\<lambda>resolve_vm2.
     bindM (vim_cluster_overrides_drs_behavior api behavior) (\<lambda>drs_behavior2.
     bindM
       (vnew api ''vim.cluster.DrsVmConfigInfo'' [(''key'', resolve_vm2), (''enabled'', PBool (truthy enabled)),
        (''behavior'', drs_behavior2)]) (\<lambda>info.
     bindM
       (vnew api ''vim.cluster.DrsVmConfigSpec'' [(''operation'', PStr op_v), (''info'', info)])
        (\<lambda>drsVmConfigSpec.
     bindM (vnew api ''vim.cluster.ConfigSpecEx'' [(''drsVmConfigSpec'', PList [drsVmConfigSpec])])
       (\<lambda>spec.
     bindM
       (vcall api cl ''ReconfigureComputeResource_Task'' [] [(''spec'', spec), (''modify'', PBool True)])
        (\<lambda>task.
     vget api task ''_moId''))))))))))"

definition vim_cluster_overrides_drs_vm_remove :: "vmodl \<Rightarrow> pyval \<Rightarrow> pyval \<Rightarrow> pyval
  \<Rightarrow> profile \<Rightarrow> pyval io" where
  "vim_cluster_overrides_drs_vm_remove api opts cluster vm_moid profile =
     bindM (vim_cluster_config_cluster api opts cluster profile) (\<lambda>cl.
     bindM (vim_cluster_overrides_resolve_vm api opts vm_moid) (\<lambda>resolve_vm2.
     bindM
       (vnew api ''vim.cluster.DrsVmConfigSpec'' [(''operation'', PStr ''remove''), (''removeKey'', resolve_vm2)])
        (\<lambda>drsVmConfigSpec.
     bindM (vnew api ''vim.cluster.ConfigSpecEx'' [(''drsVmConfigSpec'', PList [drsVmConfigSpec])])
       (\<lambda>spec.
     bindM
       (vcall api cl ''ReconfigureComputeResource_Task'' [] [(''spec'', spec), (''modify'', PBool True)])
        (\<lambda>task.
     vget api task ''_moId'')))))"

definition vim_cluster_overrides_ha_vm_list :: "vmodl \<Rightarrow> pyval \<Rightarrow> pyval \<Rightarrow> profile \<Rightarrow> pyval io" where
  "vim_cluster_overrides_ha_vm_list api opts cluster profile =
     bindM (vim_cluster_config_cluster api opts cluster profile) (\<lambda>cl.
     let out = [] in
     bindM (vpath api cl [''configurationEx'', ''dasVmConfig'']) (\<lambda>dasVmConfig.
     bindM (liftR (py_iter (py_or dasVmConfig (PList [])))) (\<lambda>items.
     bindM
       (foldM (\<lambda>entry out.
          bindM (vget api entry ''dasSettings'') (\<lambda>dasSettings.
          bindM
            (if truthy dasSettings then pureM dasSettings else vnew api ''vim.cluster.DasVmSettings'' [])
        (\<lambda>ds.
          bindM (vpath api entry [''key'', ''_moId'']) (\<lambda>moId.
          bindM (vget api ds ''restartPriority'') (\<lambda>restartPriority.
          bindM
            (if truthy restartPriority then
               bindM (vget api ds ''restartPriority'') (\<lambda>restartPriority2.
               pureM (PStr (py_str restartPriority2)))
             else pureM PNone) (\<lambda>x2.
          bindM (vget api ds ''isolationResponse'') (\<lambda>isolationResponse.
          bindM
            (if truthy isolationResponse then
               bindM (vget api ds ''isolationResponse'') (\<lambda>isolationResponse2.
               pureM (PStr (py_str isolationResponse2)))
             else pureM PNone) (\<lambda>x3.
          pureM (out @ [PDict [(''vm_moid'', moId), (''restart_priority'', x2), (''isolation_response'',
        x3)]]))))))))) items out) (\<lambda>out.
     pureM (PList out)))))"

definition vim_cluster_overrides_ha_vm_set ::
  "vmodl \<Rightarrow> pyval \<Rightarrow> pyval \<Rightarrow> pyval \<Rightarrow> pyval \<Rightarrow> pyval \<Rightarrow> profile \<Rightarrow> pyval io" where
  "vim_cluster_overrides_ha_vm_set api opts cluster vm_moid restart_priority isolation_response profile =
     bindM (vim_cluster_config_cluster api opts cluster profile) (\<lambda>cl.
     bindM (vpath api cl [''configurationEx'', ''dasVmConfig'']) (\<lambda>dasVmConfig.
     bindM (liftR (py_iter (py_or dasVmConfig (PList [])))) (\<lambda>items.
     bindM (mapM (\<lambda>e. vpath api e [''key'', ''_moId'']) items) (\<lambda>existing.
     let op_v = (if list_ex (py_eq vm_moid) existing then ''edit'' else ''add'') in
     bindM (vnew api ''vim.cluster.DasVmSettings'' []) (\<lambda>settings.
     bindM
       (if restart_priority \<noteq> PNone then
          bindM (vim_cluster_overrides_restart_priority api restart_priority) (\<lambda>restart_priority2.
          vset api settings ''restartPriority'' restart_priority2)
        else pureM settings) (\<lambda>settings.
     bindM
       (if isolation_response \<noteq> PNone then
          bindM (vim_cluster_overrides_isolation_response api isolation_response) (\<lambda>isolation_response2.
          vset api settings ''isolationResponse'' isolation_response2)
        else pureM settings) (\<lambda>settings.
     bindM (vim_cluster_overrides_resolve_vm api opts vm_moid) (\<lambda>resolve_vm2.
     bindM
       (vnew api ''vim.cluster.DasVmConfigInfo'' [(''key'', resolve_vm2), (''dasSettings'', settings)])
        (\<lambda>info.
     bindM
       (vnew api ''vim.cluster.DasVmConfigSpec'' [(''operation'', PStr op_v), (''info'', info)])
        (\<lambda>dasVmConfigSpec.
     bindM (vnew api ''vim.cluster.ConfigSpecEx'' [(''dasVmConfigSpec'', PList [dasVmConfigSpec])])
       (\<lambda>spec.
     bindM
       (vcall api cl ''ReconfigureComputeResource_Task'' [] [(''spec'', spec), (''modify'', PBool True)])
        (\<lambda>task.
     vget api task ''_moId''))))))))))))"

definition vim_cluster_overrides_ha_vm_remove :: "vmodl \<Rightarrow> pyval \<Rightarrow> pyval \<Rightarrow> pyval
  \<Rightarrow> profile \<Rightarrow> pyval io" where
  "vim_cluster_overrides_ha_vm_remove api opts cluster vm_moid profile =
     bindM (vim_cluster_config_cluster api opts cluster profile) (\<lambda>cl.
     bindM (vim_cluster_overrides_resolve_vm api opts vm_moid) (\<lambda>resolve_vm2.
     bindM
       (vnew api ''vim.cluster.DasVmConfigSpec'' [(''operation'', PStr ''remove''), (''removeKey'', resolve_vm2)])
        (\<lambda>dasVmConfigSpec.
     bindM (vnew api ''vim.cluster.ConfigSpecEx'' [(''dasVmConfigSpec'', PList [dasVmConfigSpec])])
       (\<lambda>spec.
     bindM
       (vcall api cl ''ReconfigureComputeResource_Task'' [] [(''spec'', spec), (''modify'', PBool True)])
        (\<lambda>task.
     vget api task ''_moId'')))))"

definition vim_cluster_overrides_dpm_host_list :: "vmodl \<Rightarrow> pyval \<Rightarrow> pyval \<Rightarrow> profile \<Rightarrow> pyval io" where
  "vim_cluster_overrides_dpm_host_list api opts cluster profile =
     bindM (vim_cluster_config_cluster api opts cluster profile) (\<lambda>cl.
     let out = [] in
     bindM (vpath api cl [''configurationEx'', ''dpmHostConfig'']) (\<lambda>dpmHostConfig.
     bindM (liftR (py_iter (py_or dpmHostConfig (PList [])))) (\<lambda>items.
     bindM
       (foldM (\<lambda>entry out.
          bindM (vpath api entry [''key'', ''_moId'']) (\<lambda>moId.
          bindM (vget_or api entry ''enabled'' (PBool True)) (\<lambda>enabled.
          bindM (vget api entry ''behavior'') (\<lambda>behavior.
          bindM
            (if truthy behavior then
               bindM (vget api entry ''behavior'') (\<lambda>behavior2.
               pureM (PStr (py_str behavior2)))
             else pureM PNone) (\<lambda>x.
          pureM (out @ [PDict [(''host_moid'', moId), (''enabled'', PBool (truthy enabled)), (''behavior'',
        x)]])))))) items out) (\<lambda>out.
     pureM (PList out)))))"

definition vim_cluster_overrides_dpm_host_set ::
  "vmodl \<Rightarrow> pyval \<Rightarrow> pyval \<Rightarrow> pyval \<Rightarrow> pyval \<Rightarrow> pyval \<Rightarrow> profile \<Rightarrow> pyval io" where
  "vim_cluster_overrides_dpm_host_set api opts cluster host_moid behavior enabled profile =
     bindM (vim_cluster_config_cluster api opts cluster profile) (\<lambda>cl.
     bindM (vpath api cl [''configurationEx'', ''dpmHostConfig'']) (\<lambda>dpmHostConfig.
     bindM (liftR (py_iter (py_or dpmHostConfig (PList [])))) (\<lambda>items.
     bindM (mapM (\<lambda>e. vpath api e [''key'', ''_moId'']) items) (\<lambda>existing.
     let op_v = (if list_ex (py_eq host_moid) existing then ''edit'' else ''add'') in
     bindM (vim_cluster_overrides_resolve_host api opts host_moid) (\<lambda>resolve_host2.
     bindM (vim_cluster_overrides_dpm_behavior api behavior) (\<lambda>dpm_behavior2.
     bindM
       (vnew api ''vim.cluster.DpmHostConfigInfo'' [(''key'', resolve_host2), (''enabled'', PBool (truthy enabled)),
        (''behavior'', dpm_behavior2)]) (\<lambda>info.
     bindM
       (vnew api ''vim.cluster.DpmHostConfigSpec'' [(''operation'', PStr op_v), (''info'', info)])
        (\<lambda>dpmHostConfigSpec.
     bindM (vnew api ''vim.cluster.ConfigSpecEx'' [(''dpmHostConfigSpec'', PList [dpmHostConfigSpec])])
       (\<lambda>spec.
     bindM
       (vcall api cl ''ReconfigureComputeResource_Task'' [] [(''spec'', spec), (''modify'', PBool True)])
        (\<lambda>task.
     vget api task ''_moId''))))))))))"

definition vim_cluster_overrides_dpm_host_remove :: "vmodl \<Rightarrow> pyval \<Rightarrow> pyval \<Rightarrow>
  pyval \<Rightarrow> profile \<Rightarrow> pyval io" where
  "vim_cluster_overrides_dpm_host_remove api opts cluster host_moid profile =
     bindM (vim_cluster_config_cluster api opts cluster profile) (\<lambda>cl.
     bindM (vim_cluster_overrides_resolve_host api opts host_moid) (\<lambda>resolve_host2.
     bindM
       (vnew api ''vim.cluster.DpmHostConfigSpec'' [(''operation'', PStr ''remove''), (''removeKey'',
        resolve_host2)]) (\<lambda>dpmHostConfigSpec.
     bindM (vnew api ''vim.cluster.ConfigSpecEx'' [(''dpmHostConfigSpec'', PList [dpmHostConfigSpec])])
       (\<lambda>spec.
     bindM
       (vcall api cl ''ReconfigureComputeResource_Task'' [] [(''spec'', spec), (''modify'', PBool True)])
        (\<lambda>task.
     vget api task ''_moId'')))))"

subsection \<open>\<open>clients/vim_drs_rule.py\<close>\<close>

definition vim_drs_rule_cluster :: "vmodl \<Rightarrow> pyval \<Rightarrow> pyval \<Rightarrow> profile \<Rightarrow> pyval io" where
  "vim_drs_rule_cluster api opts cluster_name profile =
     bindM (vim_content api opts profile) (\<lambda>content.
     bindM (vpath api content [''rootFolder'', ''childEntity'']) (\<lambda>childEntity.
     bindM (liftR (py_iter childEntity)) (\<lambda>items.
     or_else
       (first_of (\<lambda>dc.
          if \<not> (is_instance api dc ''vim.Datacenter'') then pureM None
          else
            bindM (vpath api dc [''hostFolder'', ''childEntity'']) (\<lambda>childEntity2.
            bindM (liftR (py_iter childEntity2)) (\<lambda>items2.
            first_of (\<lambda>entity.
              bindM
                (if is_instance api entity ''vim.ClusterComputeResource'' then
                   bindM (vget api entity ''_moId'') (\<lambda>moId.
                   bindM (vget api entity ''name'') (\<lambda>name.
                   pureM (list_ex (py_eq cluster_name) [moId, name])))
                 else pureM False) (\<lambda>holds_v.
              if holds_v then pureM (Some entity) else pureM None)) items2))) items)
       (raiseM (LookupError (''cluster '' @ py_repr cluster_name @ '' not found''))))))"

definition vim_drs_rule_to_dict :: "vmodl \<Rightarrow> pyval \<Rightarrow> pyval io" where
  "vim_drs_rule_to_dict api rule =
     bindM (vget api rule ''key'') (\<lambda>key.
     bindM (vget api rule ''name'') (\<lambda>name.
     bindM (vget api rule ''enabled'') (\<lambda>enabled.
     bindM (vget api rule ''mandatory'') (\<lambda>mandatory.
     bindM (vget_or api rule ''userCreated'' (PBool True)) (\<lambda>userCreated.
     bindM (vget_or api rule ''inCompliance'' (PBool True)) (\<lambda>inCompliance.
     let out = [(''key'', key), (''name'', name), (''enabled'', PBool (truthy enabled)), (''mandatory'', PBool
       (truthy mandatory)), (''user_created'', PBool (truthy userCreated)), (''in_compliance'', PBool (truthy
        inCompliance))] in
     bindM
       (if is_instance api rule ''vim.cluster.AntiAffinityRuleSpec'' \<or> is_instance api rule
        ''vim.cluster.AffinityRuleSpec'' then
          let out = dset out ''kind'' (PStr (if is_instance api rule ''vim.cluster.AntiAffinityRuleSpec'' then
        ''vm-anti-affinity'' else ''vm-affinity'')) in
          bindM (vget api rule ''vm'') (\<lambda>vm.
          bindM (liftR (py_iter (py_or vm (PList [])))) (\<lambda>items.
          bindM (mapM (\<lambda>v. vget api v ''_moId'') items) (\<lambda>out2.
          pureM (dset out ''vm_moids'' (PList out2)))))
        else if is_instance api rule ''vim.cluster.VmHostRuleInfo'' then
          let out = dset out ''kind'' (PStr ''vm-host'') in
          bindM (vget api rule ''vmGroupName'') (\<lambda>vmGroupName.
          let out = dset out ''vm_group_name'' vmGroupName in
          bindM (vget_or api rule ''affineHostGroupName'' PNone) (\<lambda>affineHostGroupName.
          let out = dset out ''affine_host_group_name'' affineHostGroupName in
          bindM (vget_or api rule ''antiAffineHostGroupName'' PNone) (\<lambda>antiAffineHostGroupName.
          pureM (dset out ''anti_affine_host_group_name'' antiAffineHostGroupName))))
        else pureM (dset out ''kind'' (PStr (class_name rule)))) (\<lambda>out.
     pureM (PDict out))))))))"

definition vim_drs_rule_list :: "vmodl \<Rightarrow> pyval \<Rightarrow> pyval \<Rightarrow> profile \<Rightarrow> pyval io" where
  "vim_drs_rule_list api opts cluster profile =
     bindM (vim_drs_rule_cluster api opts cluster profile) (\<lambda>cl.
     let out = [] in
     bindM (vpath api cl [''configurationEx'', ''rule'']) (\<lambda>rule2.
     bindM (liftR (py_iter (py_or rule2 (PList [])))) (\<lambda>items.
     bindM
       (foldM (\<lambda>rule out.
          bindM (vim_drs_rule_to_dict api rule) (\<lambda>to_dict2.
          pureM (out @ [to_dict2]))) items out) (\<lambda>out.
     pureM (PList out)))))"

definition vim_drs_rule_get :: "vmodl \<Rightarrow> pyval \<Rightarrow> pyval \<Rightarrow> pyval \<Rightarrow> profile \<Rightarrow> pyval io" where
  "vim_drs_rule_get api opts cluster name profile =
     bindM (vim_drs_rule_cluster api opts cluster profile) (\<lambda>cl.
     bindM (vpath api cl [''configurationEx'', ''rule'']) (\<lambda>rule2.
     bindM (liftR (py_iter (py_or rule2 (PList [])))) (\<lambda>items.
     or_else
       (first_of (\<lambda>rule.
          bindM (vget api rule ''name'') (\<lambda>name2.
          if py_eq name2 name then
            bindM (vim_drs_rule_to_dict api rule) (\<lambda>answer.
            pureM (Some answer))
          else pureM None)) items)
       (raiseM (LookupError (''DRS rule '' @ py_repr name @ '' not found on cluster '' @ py_repr
        cluster))))))"

definition vim_drs_rule_get_or_none :: "vmodl \<Rightarrow> pyval \<Rightarrow> pyval \<Rightarrow> pyval \<Rightarrow> profile \<Rightarrow> pyval io" where
  "vim_drs_rule_get_or_none api opts cluster name profile =
     tryM
       (vim_drs_rule_get api opts cluster name profile)
       (\<lambda>exc. if is_LookupError exc then pureM PNone else raiseM exc)"

definition vim_drs_rule_apply :: "vmodl \<Rightarrow> pyval \<Rightarrow> pyval \<Rightarrow> pyval \<Rightarrow> pyval \<Rightarrow> profile \<Rightarrow> pyval io" where
  "vim_drs_rule_apply api opts cluster rule operation profile =
     bindM (vim_drs_rule_cluster api opts cluster profile) (\<lambda>cl.
     bindM (vnew api ''vim.cluster.RuleSpec'' [(''operation'', operation), (''info'', rule)]) (\<lambda>rule_spec.
     bindM
       (if py_eq operation (PStr ''edit'') then
          bindM (vget api rule ''key'') (\<lambda>key.
          vset api rule_spec ''removeKey'' key)
        else pureM rule_spec) (\<lambda>rule_spec.
     bindM (vnew api ''vim.cluster.ConfigSpecEx'' [(''rulesSpec'', PList [rule_spec])]) (\<lambda>spec.
     bindM
       (vcall api cl ''ReconfigureComputeResource_Task'' [] [(''spec'', spec), (''modify'', PBool True)])
        (\<lambda>task.
     vget api task ''_moId'')))))"

definition vim_drs_rule_vm_ref :: "vmodl \<Rightarrow> pyval \<Rightarrow> pyval \<Rightarrow> profile \<Rightarrow> pyval io" where
  "vim_drs_rule_vm_ref api opts moid profile =
     bindM (vim_content api opts profile) (\<lambda>content.
     bindM (vpath api content [''searchIndex'', ''_stub'']) (\<lambda>stub.
     vref api ''vim.VirtualMachine'' moid stub))"

definition vim_drs_rule_create_vm_affinity ::
  "vmodl \<Rightarrow> pyval \<Rightarrow> pyval \<Rightarrow> pyval \<Rightarrow> pyval \<Rightarrow> pyval \<Rightarrow> pyval \<Rightarrow> profile \<Rightarrow> pyval io" where
  "vim_drs_rule_create_vm_affinity api opts cluster name vm_moids enabled mandatory profile =
     bindM (liftR (py_iter vm_moids)) (\<lambda>items.
     bindM (mapM (\<lambda>m. vim_drs_rule_vm_ref api opts m profile) items) (\<lambda>out.
     bindM
       (vnew api ''vim.cluster.AffinityRuleSpec'' [(''name'', name), (''enabled'', enabled), (''mandatory'',
        mandatory), (''vm'', PList out)]) (\<lambda>affinityRuleSpec.
     vim_drs_rule_apply api opts cluster affinityRuleSpec (PStr ''add'') profile)))"

definition vim_drs_rule_create_vm_anti_affinity ::
  "vmodl \<Rightarrow> pyval \<Rightarrow> pyval \<Rightarrow> pyval \<Rightarrow> pyval \<Rightarrow> pyval \<Rightarrow> pyval \<Rightarrow> profile \<Rightarrow> pyval io" where
  "vim_drs_rule_create_vm_anti_affinity api opts cluster name vm_moids enabled mandatory profile =
     bindM (liftR (py_iter vm_moids)) (\<lambda>items.
     bindM (mapM (\<lambda>m. vim_drs_rule_vm_ref api opts m profile) items) (\<lambda>out.
     bindM
       (vnew api ''vim.cluster.AntiAffinityRuleSpec'' [(''name'', name), (''enabled'', enabled), (''mandatory'',
        mandatory), (''vm'', PList out)]) (\<lambda>antiAffinityRuleSpec.
     vim_drs_rule_apply api opts cluster antiAffinityRuleSpec (PStr ''add'') profile)))"

definition vim_drs_rule_create_vm_host ::
  "vmodl \<Rightarrow> pyval \<Rightarrow> pyval \<Rightarrow> pyval \<Rightarrow> pyval \<Rightarrow> pyval \<Rightarrow> pyval \<Rightarrow> pyval \<Rightarrow> pyval \<Rightarrow> profile \<Rightarrow> pyval io" where
  "vim_drs_rule_create_vm_host api opts cluster name vm_group_name host_group_name affine mandatory enabled profile
    =
     bindM
       (vnew api ''vim.cluster.VmHostRuleInfo'' [(''name'', name), (''enabled'', enabled), (''mandatory'',
        mandatory), (''vmGroupName'', vm_group_name)]) (\<lambda>rule.
     bindM
       (if truthy affine then vset api rule ''affineHostGroupName'' host_group_name
        else vset api rule ''antiAffineHostGroupName'' host_group_name) (\<lambda>rule.
     vim_drs_rule_apply api opts cluster rule (PStr ''add'') profile))"

definition vim_drs_rule_find_rule :: "vmodl \<Rightarrow> pyval \<Rightarrow> pyval \<Rightarrow> pyval io" where
  "vim_drs_rule_find_rule api cluster_obj name =
     bindM (vpath api cluster_obj [''configurationEx'', ''rule'']) (\<lambda>rule2.
     bindM (liftR (py_iter (py_or rule2 (PList [])))) (\<lambda>items.
     or_else
       (first_of (\<lambda>rule.
          bindM (vget api rule ''name'') (\<lambda>name2.
          if py_eq name2 name then pureM (Some rule) else pureM None)) items)
       (raiseM (LookupError (''DRS rule '' @ py_repr name @ '' not found'')))))"

definition vim_drs_rule_update :: "vmodl \<Rightarrow> pyval \<Rightarrow> pyval \<Rightarrow> pyval \<Rightarrow>
  pyval \<Rightarrow> pyval \<Rightarrow> pyval \<Rightarrow> profile \<Rightarrow> pyval io" where
  "vim_drs_rule_update api opts cluster name enabled mandatory vm_moids profile =
     bindM (vim_drs_rule_cluster api opts cluster profile) (\<lambda>cl.
     bindM (vim_drs_rule_find_rule api cl name) (\<lambda>rule.
     bindM (if enabled \<noteq> PNone then vset api rule ''enabled'' enabled else pureM rule) (\<lambda>rule.
     bindM (if mandatory \<noteq> PNone then vset api rule ''mandatory'' mandatory else pureM rule) (\<lambda>rule.
     bindM (if vm_moids \<noteq> PNone then vhas api rule ''vm'' else pureM False) (\<lambda>holds_v.
     bindM
       (if holds_v then
          bindM (liftR (py_iter vm_moids)) (\<lambda>items.
          bindM (mapM (\<lambda>m. vim_drs_rule_vm_ref api opts m profile) items) (\<lambda>out.
          vset api rule ''vm'' (PList out)))
        else pureM rule) (\<lambda>rule.
     vim_drs_rule_apply api opts cluster rule (PStr ''edit'') profile))))))"

definition vim_drs_rule_delete :: "vmodl \<Rightarrow> pyval \<Rightarrow> pyval \<Rightarrow> pyval \<Rightarrow> profile \<Rightarrow> pyval io" where
  "vim_drs_rule_delete api opts cluster name profile =
     bindM (vim_drs_rule_cluster api opts cluster profile) (\<lambda>cl.
     bindM (vim_drs_rule_find_rule api cl name) (\<lambda>rule.
     bindM (vget api rule ''key'') (\<lambda>key.
     bindM
       (vnew api ''vim.cluster.RuleSpec'' [(''operation'', PStr ''remove''), (''removeKey'', key)])
        (\<lambda>ruleSpec.
     bindM (vnew api ''vim.cluster.ConfigSpecEx'' [(''rulesSpec'', PList [ruleSpec])]) (\<lambda>spec.
     bindM
       (vcall api cl ''ReconfigureComputeResource_Task'' [] [(''spec'', spec), (''modify'', PBool True)])
        (\<lambda>task.
     vget api task ''_moId''))))))"

definition vim_drs_rule_list_groups :: "vmodl \<Rightarrow> pyval \<Rightarrow> pyval \<Rightarrow> profile \<Rightarrow> pyval io" where
  "vim_drs_rule_list_groups api opts cluster profile =
     bindM (vim_drs_rule_cluster api opts cluster profile) (\<lambda>cl.
     let out = [] in
     bindM (vpath api cl [''configurationEx'', ''group'']) (\<lambda>grp2.
     bindM (liftR (py_iter (py_or grp2 (PList [])))) (\<lambda>items.
     bindM
       (foldM (\<lambda>grp out.
          let kind = (if is_instance api grp ''vim.cluster.VmGroup'' then ''vm'' else ''host'') in
          bindM (if py_eq (PStr kind) (PStr ''vm'') then vget api grp ''vm'' else vget api grp ''host'')
        (\<lambda>x.
          bindM (liftR (py_iter (py_or x (PList [])))) (\<lambda>items2.
          bindM (mapM (\<lambda>m. vget api m ''_moId'') items2) (\<lambda>members.
          bindM (vget api grp ''name'') (\<lambda>name.
          pureM (out @ [PDict [(''name'', name), (''kind'', PStr kind), (''members'', PList members)]])))))) items
        out) (\<lambda>out.
     pureM (PList out)))))"

definition vim_drs_rule_create_vm_group :: "vmodl \<Rightarrow> pyval \<Rightarrow> pyval \<Rightarrow> pyval
  \<Rightarrow> pyval \<Rightarrow> profile \<Rightarrow> pyval io" where
  "vim_drs_rule_create_vm_group api opts cluster name vm_moids profile =
     bindM (liftR (py_iter vm_moids)) (\<lambda>items.
     bindM (mapM (\<lambda>m. vim_drs_rule_vm_ref api opts m profile) items) (\<lambda>out.
     bindM (vnew api ''vim.cluster.VmGroup'' [(''name'', name), (''vm'', PList out)]) (\<lambda>grp.
     bindM (vnew api ''vim.cluster.GroupSpec'' [(''operation'', PStr ''add''), (''info'', grp)])
       (\<lambda>groupSpec.
     bindM (vnew api ''vim.cluster.ConfigSpecEx'' [(''groupSpec'', PList [groupSpec])]) (\<lambda>spec.
     bindM (vim_drs_rule_cluster api opts cluster profile) (\<lambda>cl.
     bindM
       (vcall api cl ''ReconfigureComputeResource_Task'' [] [(''spec'', spec), (''modify'', PBool True)])
        (\<lambda>task.
     vget api task ''_moId'')))))))"

definition vim_drs_rule_host_ref :: "vmodl \<Rightarrow> pyval \<Rightarrow> pyval \<Rightarrow> profile \<Rightarrow> pyval io" where
  "vim_drs_rule_host_ref api opts moid profile =
     bindM (vim_content api opts profile) (\<lambda>content.
     bindM (vpath api content [''searchIndex'', ''_stub'']) (\<lambda>stub.
     vref api ''vim.HostSystem'' moid stub))"

definition vim_drs_rule_create_host_group :: "vmodl \<Rightarrow> pyval \<Rightarrow> pyval \<Rightarrow> pyval
  \<Rightarrow> pyval \<Rightarrow> profile \<Rightarrow> pyval io" where
  "vim_drs_rule_create_host_group api opts cluster name host_moids profile =
     bindM (liftR (py_iter host_moids)) (\<lambda>items.
     bindM (mapM (\<lambda>m. vim_drs_rule_host_ref api opts m profile) items) (\<lambda>out.
     bindM (vnew api ''vim.cluster.HostGroup'' [(''name'', name), (''host'', PList out)]) (\<lambda>grp.
     bindM (vnew api ''vim.cluster.GroupSpec'' [(''operation'', PStr ''add''), (''info'', grp)])
       (\<lambda>groupSpec.
     bindM (vnew api ''vim.cluster.ConfigSpecEx'' [(''groupSpec'', PList [groupSpec])]) (\<lambda>spec.
     bindM (vim_drs_rule_cluster api opts cluster profile) (\<lambda>cl.
     bindM
       (vcall api cl ''ReconfigureComputeResource_Task'' [] [(''spec'', spec), (''modify'', PBool True)])
        (\<lambda>task.
     vget api task ''_moId'')))))))"

definition vim_drs_rule_delete_group :: "vmodl \<Rightarrow> pyval \<Rightarrow> pyval \<Rightarrow> pyval \<Rightarrow> profile \<Rightarrow> pyval io" where
  "vim_drs_rule_delete_group api opts cluster name profile =
     bindM
       (vnew api ''vim.cluster.GroupSpec'' [(''operation'', PStr ''remove''), (''removeKey'', name)])
        (\<lambda>groupSpec.
     bindM (vnew api ''vim.cluster.ConfigSpecEx'' [(''groupSpec'', PList [groupSpec])]) (\<lambda>spec.
     bindM (vim_drs_rule_cluster api opts cluster profile) (\<lambda>cl.
     bindM
       (vcall api cl ''ReconfigureComputeResource_Task'' [] [(''spec'', spec), (''modify'', PBool True)])
        (\<lambda>task.
     vget api task ''_moId''))))"

definition vim_drs_rule_get_group :: "vmodl \<Rightarrow> pyval \<Rightarrow> pyval \<Rightarrow> pyval \<Rightarrow> profile \<Rightarrow> pyval io" where
  "vim_drs_rule_get_group api opts cluster name profile =
     bindM (vim_drs_rule_cluster api opts cluster profile) (\<lambda>cl.
     bindM (vpath api cl [''configurationEx'', ''group'']) (\<lambda>grp2.
     bindM (liftR (py_iter (py_or grp2 (PList [])))) (\<lambda>items.
     or_else
       (first_of (\<lambda>grp.
          bindM (vget api grp ''name'') (\<lambda>name2.
          if py_eq name2 name then
            let kind = (if is_instance api grp ''vim.cluster.VmGroup'' then ''vm'' else ''host'') in
            bindM (if py_eq (PStr kind) (PStr ''vm'') then vget api grp ''vm'' else vget api grp ''host'')
        (\<lambda>x.
            bindM (liftR (py_iter (py_or x (PList [])))) (\<lambda>items2.
            bindM (mapM (\<lambda>m. vget api m ''_moId'') items2) (\<lambda>members.
            bindM (vget api grp ''name'') (\<lambda>name3.
            pureM (Some (PDict [(''name'', name3), (''kind'', PStr kind), (''members'', PList
        members)]))))))
          else pureM None)) items)
       (raiseM (LookupError (''group '' @ py_repr name @ '' not found on cluster '' @ py_repr
        cluster))))))"

definition vim_drs_rule_get_group_or_none :: "vmodl \<Rightarrow> pyval \<Rightarrow> pyval \<Rightarrow> pyval \<Rightarrow> profile \<Rightarrow> pyval io" where
  "vim_drs_rule_get_group_or_none api opts cluster name profile =
     tryM
       (vim_drs_rule_get_group api opts cluster name profile)
       (\<lambda>exc. if is_LookupError exc then pureM PNone else raiseM exc)"

definition vim_drs_rule_update_group :: "vmodl \<Rightarrow> pyval \<Rightarrow> pyval \<Rightarrow> pyval
  \<Rightarrow> pyval \<Rightarrow> pyval \<Rightarrow> profile \<Rightarrow> pyval io" where
  "vim_drs_rule_update_group api opts cluster name vm_moids host_moids profile =
     bindM (vim_drs_rule_cluster api opts cluster profile) (\<lambda>cl.
     let target = PNone in
     bindM (vpath api cl [''configurationEx'', ''group'']) (\<lambda>grp2.
     bindM (liftR (py_iter (py_or grp2 (PList [])))) (\<lambda>items.
     bindM
       (for_each (\<lambda>grp target.
          bindM (vget api grp ''name'') (\<lambda>name2.
          if py_eq name2 name then let target = grp in pureM (Inl target) else pureM (Inr target))) items target)
        (\<lambda>left.
     let target = either left in
     if target = PNone then
       raiseM (LookupError (''group '' @ py_repr name @ '' not found on cluster '' @ py_repr cluster))
     else if is_instance api target ''vim.cluster.VmGroup'' then
       if vm_moids = PNone then vim_drs_rule_get_group api opts cluster name profile
       else
         bindM (liftR (py_iter vm_moids)) (\<lambda>items2.
         bindM (mapM (\<lambda>m. vim_drs_rule_vm_ref api opts m profile) items2) (\<lambda>out.
         bindM (vnew api ''vim.cluster.VmGroup'' [(''name'', name), (''vm'', PList out)]) (\<lambda>info.
         bindM
           (vnew api ''vim.cluster.GroupSpec'' [(''operation'', PStr ''edit''), (''info'', info)])
        (\<lambda>groupSpec.
         bindM (vnew api ''vim.cluster.ConfigSpecEx'' [(''groupSpec'', PList [groupSpec])]) (\<lambda>spec.
         bindM
           (vcall api cl ''ReconfigureComputeResource_Task'' [] [(''spec'', spec), (''modify'', PBool True)])
        (\<lambda>task.
         vget api task ''_moId''))))))
     else if host_moids = PNone then vim_drs_rule_get_group api opts cluster name profile
     else
       bindM (liftR (py_iter host_moids)) (\<lambda>items3.
       bindM (mapM (\<lambda>m. vim_drs_rule_host_ref api opts m profile) items3) (\<lambda>out2.
       bindM (vnew api ''vim.cluster.HostGroup'' [(''name'', name), (''host'', PList out2)]) (\<lambda>info.
       bindM
         (vnew api ''vim.cluster.GroupSpec'' [(''operation'', PStr ''edit''), (''info'', info)])
        (\<lambda>groupSpec2.
       bindM (vnew api ''vim.cluster.ConfigSpecEx'' [(''groupSpec'', PList [groupSpec2])]) (\<lambda>spec.
       bindM
         (vcall api cl ''ReconfigureComputeResource_Task'' [] [(''spec'', spec), (''modify'', PBool True)])
        (\<lambda>task.
       vget api task ''_moId''))))))))))"

subsection \<open>\<open>clients/vim_dvs.py\<close>\<close>

definition vim_dvs_dvs :: "vmodl \<Rightarrow> pyval \<Rightarrow> pyval \<Rightarrow> profile \<Rightarrow> pyval io" where
  "vim_dvs_dvs api opts name_or_id profile =
     bindM (vim_content api opts profile) (\<lambda>content.
     bindM (vget api content ''viewManager'') (\<lambda>viewManager.
     bindM (vget api content ''rootFolder'') (\<lambda>rootFolder.
     bindM
       (vcall api viewManager ''CreateContainerView'' [rootFolder, PList [PStr ''vim.DistributedVirtualSwitch''],
        PBool True] []) (\<lambda>container.
     or_else
       (finallyM
          (bindM (vget api container ''view'') (\<lambda>view.
           bindM (liftR (py_iter view)) (\<lambda>items.
           first_of (\<lambda>dvs.
             bindM (vget api dvs ''_moId'') (\<lambda>moId.
             bindM (vget api dvs ''name'') (\<lambda>name.
             bindM (vget api dvs ''uuid'') (\<lambda>uuid.
             if list_ex (py_eq name_or_id) [moId, name, uuid] then pureM (Some dvs) else pureM None))))
        items)))
          (bindM (vcall api container ''Destroy'' [] []) (\<lambda>_.
           pureM ())))
       (raiseM (LookupError (''DVS '' @ py_repr name_or_id @ '' not found'')))))))"

definition vim_dvs_datacenter :: "vmodl \<Rightarrow> pyval \<Rightarrow> pyval \<Rightarrow> profile \<Rightarrow> pyval io" where
  "vim_dvs_datacenter api opts name_or_id profile =
     bindM (vim_content api opts profile) (\<lambda>content.
     bindM (vpath api content [''rootFolder'', ''childEntity'']) (\<lambda>childEntity.
     bindM (liftR (py_iter childEntity)) (\<lambda>items.
     or_else
       (first_of (\<lambda>dc.
          bindM
            (if is_instance api dc ''vim.Datacenter'' then
               bindM (vget api dc ''_moId'') (\<lambda>moId.
               bindM (vget api dc ''name'') (\<lambda>name.
               pureM (list_ex (py_eq name_or_id) [moId, name])))
             else pureM False) (\<lambda>holds_v.
          if holds_v then pureM (Some dc) else pureM None)) items)
       (raiseM (LookupError (''datacenter '' @ py_repr name_or_id @ '' not found''))))))"

definition vim_dvs_host :: "vmodl \<Rightarrow> pyval \<Rightarrow> pyval \<Rightarrow> profile \<Rightarrow> pyval io" where
  "vim_dvs_host api opts name_or_id profile =
     bindM (vim_content api opts profile) (\<lambda>content.
     bindM (vget api content ''viewManager'') (\<lambda>viewManager.
     bindM (vget api content ''rootFolder'') (\<lambda>rootFolder.
     bindM
       (vcall api viewManager ''CreateContainerView'' [rootFolder, PList [PStr ''vim.HostSystem''], PBool True] [])
        (\<lambda>container.
     or_else
       (finallyM
          (bindM (vget api container ''view'') (\<lambda>view.
           bindM (liftR (py_iter view)) (\<lambda>items.
           first_of (\<lambda>h.
             bindM (vget api h ''_moId'') (\<lambda>moId.
             bindM (vget api h ''name'') (\<lambda>name.
             if list_ex (py_eq name_or_id) [moId, name] then pureM (Some h) else pureM None))) items)))
          (bindM (vcall api container ''Destroy'' [] []) (\<lambda>_.
           pureM ())))
       (raiseM (LookupError (''host '' @ py_repr name_or_id @ '' not found'')))))))"

definition vim_dvs_to_dict :: "vmodl \<Rightarrow> pyval \<Rightarrow> pyval io" where
  "vim_dvs_to_dict api dvs =
     bindM (vget api dvs ''config'') (\<lambda>cfg.
     bindM (vget api dvs ''_moId'') (\<lambda>moId.
     bindM (vget api dvs ''name'') (\<lambda>name.
     bindM (vget api dvs ''uuid'') (\<lambda>uuid.
     bindM (vget api cfg ''productInfo'') (\<lambda>productInfo.
     bindM (if truthy productInfo then vpath api cfg [''productInfo'', ''version''] else pureM PNone) (\<lambda>x.
     bindM (vget api cfg ''numPorts'') (\<lambda>numPorts.
     bindM (vget api cfg ''maxMtu'') (\<lambda>maxMtu.
     bindM (vget api cfg ''host'') (\<lambda>host.
     bindM (liftR (py_iter (py_or host (PList [])))) (\<lambda>items2.
     bindM
       (collect (\<lambda>m.
          bindM (vget api m ''config'') (\<lambda>config2.
          bindM
            (if truthy config2 then
               bindM (vpath api m [''config'', ''host'']) (\<lambda>host2.
               pureM (truthy host2))
             else pureM False) (\<lambda>holds_v.
          if holds_v then
            bindM (vpath api m [''config'', ''host'', ''_moId'']) (\<lambda>moId2.
            pureM (Some moId2))
          else pureM None))) items2) (\<lambda>out.
     bindM (vget api cfg ''uplinkPortPolicy'') (\<lambda>uplinkPortPolicy.
     bindM
       (if truthy uplinkPortPolicy then vpath api cfg [''uplinkPortPolicy'', ''uplinkPortName'']
        else pureM (PList [])) (\<lambda>x2.
     bindM (liftR (py_iter (py_or x2 (PList [])))) (\<lambda>items3.
     pureM (PDict [(''moid'', moId), (''name'', name), (''uuid'', uuid), (''version'', x), (''num_ports'',
       numPorts), (''max_mtu'', maxMtu), (''hosts'', PList out), (''uplink_port_names'', PList
        items3)])))))))))))))))"

definition vim_dvs_list :: "vmodl \<Rightarrow> pyval \<Rightarrow> profile \<Rightarrow> pyval io" where
  "vim_dvs_list api opts profile =
     bindM (vim_content api opts profile) (\<lambda>content.
     bindM (vget api content ''viewManager'') (\<lambda>viewManager.
     bindM (vget api content ''rootFolder'') (\<lambda>rootFolder.
     bindM
       (vcall api viewManager ''CreateContainerView'' [rootFolder, PList [PStr ''vim.DistributedVirtualSwitch''],
        PBool True] []) (\<lambda>container.
     finallyM
       (bindM (vget api container ''view'') (\<lambda>view.
        bindM (liftR (py_iter view)) (\<lambda>items.
        bindM (mapM (\<lambda>dvs. vim_dvs_to_dict api dvs) items) (\<lambda>out.
        pureM (PList out)))))
       (bindM (vcall api container ''Destroy'' [] []) (\<lambda>_.
        pureM ()))))))"

definition vim_dvs_get :: "vmodl \<Rightarrow> pyval \<Rightarrow> pyval \<Rightarrow> profile \<Rightarrow> pyval io" where
  "vim_dvs_get api opts name_or_id profile =
     bindM (vim_dvs_dvs api opts name_or_id profile) (\<lambda>dvs2.
     vim_dvs_to_dict api dvs2)"

definition vim_dvs_get_or_none :: "vmodl \<Rightarrow> pyval \<Rightarrow> pyval \<Rightarrow> profile \<Rightarrow> pyval io" where
  "vim_dvs_get_or_none api opts name_or_id profile =
     tryM
       (vim_dvs_get api opts name_or_id profile)
       (\<lambda>exc. if is_LookupError exc then pureM PNone else raiseM exc)"

definition vim_dvs_create ::
  "vmodl \<Rightarrow> pyval \<Rightarrow> pyval \<Rightarrow> pyval \<Rightarrow> pyval \<Rightarrow> pyval \<Rightarrow> pyval \<Rightarrow> pyval \<Rightarrow> profile \<Rightarrow> pyval io" where
  "vim_dvs_create api opts name datacenter version num_uplinks max_mtu description profile =
     bindM (vim_dvs_datacenter api opts datacenter profile) (\<lambda>dc.
     bindM (vget api dc ''networkFolder'') (\<lambda>folder.
     bindM (liftR (py_int num_uplinks)) (\<lambda>n.
     bindM
       (mapM (\<lambda>i.
          bindM (liftR (py_plus i (PInt 1))) (\<lambda>n2.
          pureM (PStr (''uplink'' @ py_str n2)))) (map PInt [0..n - 1])) (\<lambda>uplink_names.
     bindM (liftR (py_int max_mtu)) (\<lambda>n3.
     bindM
       (vnew api ''vim.DistributedVirtualSwitch.NameArrayUplinkPortPolicy'' [(''uplinkPortName'', PList
        uplink_names)]) (\<lambda>nameArrayUplinkPortPolicy.
     bindM
       (vnew api ''vim.dvs.VmwareDistributedVirtualSwitch.ConfigSpec'' [(''name'', name), (''maxMtu'', PInt n3),
        (''description'', description), (''uplinkPortPolicy'', nameArrayUplinkPortPolicy)]) (\<lambda>cfg.
     bindM (vnew api ''vim.DistributedVirtualSwitch.CreateSpec'' [(''configSpec'', cfg)]) (\<lambda>spec.
     bindM
       (if truthy version then
          bindM (vnew api ''vim.dvs.ProductSpec'' [(''version'', version)]) (\<lambda>productSpec.
          vset api spec ''productInfo'' productSpec)
        else pureM spec) (\<lambda>spec.
     bindM (vcall api folder ''CreateDVS_Task'' [] [(''spec'', spec)]) (\<lambda>task.
     bindM (vim_wait_for_task api task 300 500) (\<lambda>_.
     vget api task ''_moId'')))))))))))"

definition vim_dvs_reconfigure :: "vmodl \<Rightarrow> pyval \<Rightarrow> pyval \<Rightarrow> pyval \<Rightarrow> pyval \<Rightarrow> profile \<Rightarrow> pyval io" where
  "vim_dvs_reconfigure api opts name_or_id max_mtu description profile =
     bindM (vim_dvs_dvs api opts name_or_id profile) (\<lambda>dvs.
     bindM (vnew api ''vim.dvs.VmwareDistributedVirtualSwitch.ConfigSpec'' []) (\<lambda>cfg.
     bindM (vpath api dvs [''config'', ''configVersion'']) (\<lambda>configVersion.
     bindM (vset api cfg ''configVersion'' configVersion) (\<lambda>cfg.
     bindM
       (if max_mtu \<noteq> PNone then
          bindM (liftR (py_int max_mtu)) (\<lambda>n.
          vset api cfg ''maxMtu'' (PInt n))
        else pureM cfg) (\<lambda>cfg.
     bindM (if description \<noteq> PNone then vset api cfg ''description'' description else pureM cfg) (\<lambda>cfg.
     bindM (vcall api dvs ''ReconfigureDvs_Task'' [] [(''spec'', cfg)]) (\<lambda>task.
     bindM (vim_wait_for_task api task 300 500) (\<lambda>_.
     vget api task ''_moId''))))))))"

definition vim_dvs_delete :: "vmodl \<Rightarrow> pyval \<Rightarrow> pyval \<Rightarrow> profile \<Rightarrow> pyval io" where
  "vim_dvs_delete api opts name_or_id profile =
     bindM (vim_dvs_dvs api opts name_or_id profile) (\<lambda>dvs.
     bindM (vcall api dvs ''Destroy_Task'' [] []) (\<lambda>task.
     bindM (vim_wait_for_task api task 300 500) (\<lambda>_.
     vget api task ''_moId'')))"

definition vim_dvs_add_host :: "vmodl \<Rightarrow> pyval \<Rightarrow> pyval \<Rightarrow> pyval \<Rightarrow> pyval \<Rightarrow> profile \<Rightarrow> pyval io" where
  "vim_dvs_add_host api opts dvs_name_or_id host_name_or_id pnic_devices profile =
     bindM (vim_dvs_dvs api opts dvs_name_or_id profile) (\<lambda>dvs.
     bindM (vim_dvs_host api opts host_name_or_id profile) (\<lambda>host.
     bindM (vnew api ''vim.dvs.HostMember.PnicBacking'' []) (\<lambda>backing.
     bindM (liftR (py_iter (py_or pnic_devices (PList [])))) (\<lambda>pnics.
     bindM
       (foldM (\<lambda>pnic backing.
          bindM (vget api backing ''pnicSpec'') (\<lambda>specs.
          bindM (vnew api ''vim.dvs.HostMember.PnicSpec'' [(''pnicDevice'', pnic)]) (\<lambda>x.
          bindM (liftR (py_iter specs)) (\<lambda>xs. vset api backing ''pnicSpec'' (PList (xs @ [x])))))) pnics backing) (\<lambda>backing.
     bindM
       (vnew api ''vim.dvs.HostMember.ConfigSpec''
          [(''operation'', PStr ''add''), (''host'', host), (''backing'', backing)]) (\<lambda>member_cfg.
     bindM (vpath api dvs [''config'', ''configVersion'']) (\<lambda>version.
     bindM
       (vnew api ''vim.dvs.VmwareDistributedVirtualSwitch.ConfigSpec''
          [(''configVersion'', version), (''host'', PList [member_cfg])]) (\<lambda>spec.
     bindM (vcall api dvs ''ReconfigureDvs_Task'' [] [(''spec'', spec)]) (\<lambda>task.
     bindM (vim_wait_for_task api task 300 500) (\<lambda>_.
     vget api task ''_moId''))))))))))"

definition vim_dvs_remove_host :: "vmodl \<Rightarrow> pyval \<Rightarrow> pyval \<Rightarrow> pyval \<Rightarrow> profile \<Rightarrow> pyval io" where
  "vim_dvs_remove_host api opts dvs_name_or_id host_name_or_id profile =
     bindM (vim_dvs_dvs api opts dvs_name_or_id profile) (\<lambda>dvs.
     bindM (vim_dvs_host api opts host_name_or_id profile) (\<lambda>host.
     bindM
       (vnew api ''vim.dvs.HostMember.ConfigSpec'' [(''operation'', PStr ''remove''), (''host'', host)])
        (\<lambda>member_cfg.
     bindM (vpath api dvs [''config'', ''configVersion'']) (\<lambda>configVersion.
     bindM
       (vnew api ''vim.dvs.VmwareDistributedVirtualSwitch.ConfigSpec'' [(''configVersion'', configVersion),
        (''host'', PList [member_cfg])]) (\<lambda>spec.
     bindM (vcall api dvs ''ReconfigureDvs_Task'' [] [(''spec'', spec)]) (\<lambda>task.
     bindM (vim_wait_for_task api task 300 500) (\<lambda>_.
     vget api task ''_moId'')))))))"

subsection \<open>\<open>clients/vim_dvs_portgroup.py\<close>\<close>

definition vim_dvs_portgroup_DVS_TEAMING_POLICIES :: "string list" where
  "vim_dvs_portgroup_DVS_TEAMING_POLICIES =
     [''loadbalance_ip'', ''loadbalance_srcmac'', ''loadbalance_srcid'', ''failover_explicit'',
       ''loadbalance_loadbased'']"

definition vim_dvs_portgroup_dvs :: "vmodl \<Rightarrow> pyval \<Rightarrow> pyval \<Rightarrow> profile \<Rightarrow> pyval io" where
  "vim_dvs_portgroup_dvs api opts name_or_id profile = vim_dvs_dvs api opts name_or_id profile"

definition vim_dvs_portgroup_dpg :: "vmodl \<Rightarrow> pyval \<Rightarrow> pyval \<Rightarrow> pyval \<Rightarrow> profile \<Rightarrow> pyval io" where
  "vim_dvs_portgroup_dpg api opts dvs_name_or_id name profile =
     bindM (vim_dvs_portgroup_dvs api opts dvs_name_or_id profile) (\<lambda>dvs.
     bindM (vget api dvs ''portgroup'') (\<lambda>portgroup.
     bindM (liftR (py_iter (py_or portgroup (PList [])))) (\<lambda>items.
     or_else
       (first_of (\<lambda>pg.
          bindM (vget api pg ''_moId'') (\<lambda>moId.
          bindM (vget api pg ''name'') (\<lambda>name2.
          bindM (vget api pg ''key'') (\<lambda>key.
          if list_ex (py_eq name) [moId, name2, key] then pureM (Some pg) else pureM None)))) items)
       (bindM (vget api dvs ''name'') (\<lambda>name3.
        raiseM (LookupError (''port group '' @ py_repr name @ '' not found on DVS '' @ py_repr
        name3)))))))"

definition teaming_field :: "vmodl \<Rightarrow> pyval \<Rightarrow> string \<Rightarrow> pyval io" where
  "teaming_field api teaming field =
     bindM (vget_or api teaming field PNone) (\<lambda>wrapper.
     if wrapper \<noteq> PNone then vget_or api wrapper ''value'' PNone else pureM PNone)"

definition teaming_uplinks :: "vmodl \<Rightarrow> pyval \<Rightarrow> string \<Rightarrow> pyval io" where
  "teaming_uplinks api order field =
     (if truthy order then
        bindM (vget_or api order field PNone) (\<lambda>xs.
        bindM (liftR (py_iter (py_or xs (PList [])))) (\<lambda>xs. pureM (PList xs)))
      else pureM (PList []))"

definition vim_dvs_portgroup_teaming_to_dict :: "vmodl \<Rightarrow> pyval \<Rightarrow> pyval io" where
  "vim_dvs_portgroup_teaming_to_dict api teaming =
     (if teaming = PNone then pureM PNone
      else
        bindM (vget_or api teaming ''uplinkPortOrder'' PNone) (\<lambda>order.
        bindM (vget_or api teaming ''failureCriteria'' PNone) (\<lambda>failure.
        bindM (vget_or api teaming ''inherited'' PNone) (\<lambda>inherited.
        bindM (teaming_field api teaming ''policy'') (\<lambda>policy.
        bindM (teaming_field api teaming ''reversePolicy'') (\<lambda>reverse_policy.
        bindM (teaming_field api teaming ''notifySwitches'') (\<lambda>notify_switches.
        bindM (teaming_field api teaming ''rollingOrder'') (\<lambda>rolling_order.
        bindM
          (if truthy failure then
             bindM (vget_or api failure ''checkBeacon'' PNone) (\<lambda>beacon. vget_or api beacon ''value'' PNone)
           else pureM PNone) (\<lambda>check_beacon.
        bindM (teaming_uplinks api order ''activeUplinkPort'') (\<lambda>active.
        bindM (teaming_uplinks api order ''standbyUplinkPort'') (\<lambda>standby.
        pureM (PDict
          [(''inherited'', inherited), (''policy'', policy), (''reverse_policy'', reverse_policy),
           (''notify_switches'', notify_switches), (''rolling_order'', rolling_order), (''check_beacon'', check_beacon),
           (''active_uplinks'', active), (''standby_uplinks'', standby)]))))))))))))"

definition vim_dvs_portgroup_to_dict :: "vmodl \<Rightarrow> pyval \<Rightarrow> pyval io" where
  "vim_dvs_portgroup_to_dict api pg =
     bindM (vget api pg ''config'') (\<lambda>cfg.
     let vlan_info = PNone in
     bindM (vget api cfg ''defaultPortConfig'') (\<lambda>defaultPortConfig.
     bindM
       (if truthy defaultPortConfig then
          bindM (vpath api cfg [''defaultPortConfig'', ''vlan'']) (\<lambda>vlan.
          pureM (truthy vlan))
        else pureM False) (\<lambda>holds_v.
     bindM
       (if holds_v then
          bindM (vpath api cfg [''defaultPortConfig'', ''vlan'']) (\<lambda>v.
          if is_instance api v ''vim.dvs.VmwareDistributedVirtualSwitch.VlanIdSpec'' then
            bindM (vget api v ''vlanId'') (\<lambda>vlanId.
            bindM (liftR (py_int vlanId)) (\<lambda>n.
            let vlan_info = [(''kind'', PStr ''vlan''), (''vlan_id'', PInt n)] in
            pureM (PDict vlan_info)))
          else if is_instance api v ''vim.dvs.VmwareDistributedVirtualSwitch.TrunkVlanSpec'' then
            bindM (vget api v ''vlanId'') (\<lambda>vlanId2.
            bindM (liftR (py_iter (py_or vlanId2 (PList [])))) (\<lambda>items.
            bindM
              (mapM (\<lambda>r.
                 bindM (vget api r ''start'') (\<lambda>start.
                 bindM (vget api r ''end'') (\<lambda>end.
                 pureM (PDict [(''start'', start), (''end'', end)])))) items) (\<lambda>out.
            let vlan_info = [(''kind'', PStr ''trunk''), (''ranges'', PList out)] in
            pureM (PDict vlan_info))))
          else if is_instance api v ''vim.dvs.VmwareDistributedVirtualSwitch.PvlanSpec'' then
            bindM (vget api v ''pvlanId'') (\<lambda>pvlanId.
            bindM (liftR (py_int pvlanId)) (\<lambda>n2.
            let vlan_info = [(''kind'', PStr ''pvlan''), (''primary_vlan_id'', PInt n2)] in
            pureM (PDict vlan_info)))
          else pureM vlan_info)
        else pureM vlan_info) (\<lambda>vlan_info.
     let teaming_info = PNone in
     bindM (vget api cfg ''defaultPortConfig'') (\<lambda>defaultPortConfig2.
     bindM
       (if defaultPortConfig2 \<noteq> PNone then
          bindM (vget api cfg ''defaultPortConfig'') (\<lambda>defaultPortConfig3.
          bindM (vget_or api defaultPortConfig3 ''uplinkTeamingPolicy'' PNone) (\<lambda>uplinkTeamingPolicy.
          vim_dvs_portgroup_teaming_to_dict api uplinkTeamingPolicy))
        else pureM teaming_info) (\<lambda>teaming_info.
     bindM (vget api pg ''_moId'') (\<lambda>moId.
     bindM (vget api pg ''key'') (\<lambda>key.
     bindM (vget api pg ''name'') (\<lambda>name.
     bindM (vget api cfg ''numPorts'') (\<lambda>numPorts.
     bindM (vget api cfg ''type'') (\<lambda>kind.
     bindM (vhas api cfg ''portBinding'') (\<lambda>has.
     bindM
       (if has then
          bindM (vget api cfg ''portBinding'') (\<lambda>portBinding.
          pureM (PStr (py_str portBinding)))
        else pureM PNone) (\<lambda>x.
     pureM (PDict [(''moid'', moId), (''key'', key), (''name'', name), (''num_ports'', numPorts), (''type'', PStr
       (py_str kind)), (''binding'', x), (''vlan'', vlan_info), (''teaming'',
        teaming_info)]))))))))))))))"

definition vim_dvs_portgroup_list :: "vmodl \<Rightarrow> pyval \<Rightarrow> pyval \<Rightarrow> profile \<Rightarrow> pyval io" where
  "vim_dvs_portgroup_list api opts dvs_name_or_id profile =
     bindM (vim_dvs_portgroup_dvs api opts dvs_name_or_id profile) (\<lambda>dvs.
     bindM (vget api dvs ''portgroup'') (\<lambda>portgroup.
     bindM (liftR (py_iter (py_or portgroup (PList [])))) (\<lambda>items.
     bindM (mapM (\<lambda>pg. vim_dvs_portgroup_to_dict api pg) items) (\<lambda>out.
     pureM (PList out)))))"

definition vim_dvs_portgroup_get :: "vmodl \<Rightarrow> pyval \<Rightarrow> pyval \<Rightarrow> pyval \<Rightarrow> profile \<Rightarrow> pyval io" where
  "vim_dvs_portgroup_get api opts dvs_name_or_id name profile =
     bindM (vim_dvs_portgroup_dpg api opts dvs_name_or_id name profile) (\<lambda>dpg2.
     vim_dvs_portgroup_to_dict api dpg2)"

definition vim_dvs_portgroup_get_or_none :: "vmodl \<Rightarrow> pyval \<Rightarrow> pyval \<Rightarrow> pyval \<Rightarrow> profile \<Rightarrow> pyval io" where
  "vim_dvs_portgroup_get_or_none api opts dvs_name_or_id name profile =
     tryM
       (vim_dvs_portgroup_get api opts dvs_name_or_id name profile)
       (\<lambda>exc. if is_LookupError exc then pureM PNone else raiseM exc)"

definition vim_dvs_portgroup_vlan_spec :: "vmodl \<Rightarrow> pyval \<Rightarrow> pyval \<Rightarrow> pyval
  \<Rightarrow> pyval \<Rightarrow> pyval \<Rightarrow> pyval \<Rightarrow> pyval io" where
  "vim_dvs_portgroup_vlan_spec api name vlan_id num_ports binding auto_expand promiscuous =
     bindM (liftR (py_int vlan_id)) (\<lambda>n.
     bindM (vnew api ''vim.dvs.VmwareDistributedVirtualSwitch.VlanIdSpec'' [(''vlanId'', PInt n)]) (\<lambda>vlan.
     bindM (vnew api ''vim.BoolPolicy'' [(''value'', PBool (truthy promiscuous))]) (\<lambda>boolPolicy.
     bindM
       (vnew api ''vim.dvs.VmwareDistributedVirtualSwitch.SecurityPolicy'' [(''allowPromiscuous'', boolPolicy)])
        (\<lambda>sec.
     bindM
       (vnew api ''vim.dvs.VmwareDistributedVirtualSwitch.VmwarePortConfigPolicy'' [(''vlan'', vlan),
        (''securityPolicy'', sec)]) (\<lambda>port_cfg.
     bindM (liftR (py_int num_ports)) (\<lambda>n2.
     vnew api ''vim.dvs.DistributedVirtualPortgroup.ConfigSpec'' [(''name'', name), (''numPorts'', PInt n2),
       (''type'', binding), (''autoExpand'', PBool (truthy auto_expand)), (''defaultPortConfig'',
        port_cfg)]))))))"

definition vim_dvs_portgroup_add :: "vmodl \<Rightarrow> pyval \<Rightarrow> pyval \<Rightarrow> pyval \<Rightarrow> profile \<Rightarrow> pyval io" where
  "vim_dvs_portgroup_add api opts dvs_name_or_id spec profile =
     bindM (vim_dvs_portgroup_dvs api opts dvs_name_or_id profile) (\<lambda>dvs.
     bindM (vcall api dvs ''AddDVPortgroup_Task'' [] [(''spec'', PList [spec])]) (\<lambda>task.
     bindM (vim_wait_for_task api task 300 500) (\<lambda>_.
     vget api task ''_moId'')))"

definition vim_dvs_portgroup_create_vlan ::
  "vmodl \<Rightarrow> pyval \<Rightarrow> pyval \<Rightarrow> pyval \<Rightarrow> pyval \<Rightarrow> pyval \<Rightarrow> pyval \<Rightarrow> pyval \<Rightarrow> pyval \<Rightarrow> profile \<Rightarrow> pyval io" where
  "vim_dvs_portgroup_create_vlan api opts dvs_name_or_id name vlan_id num_ports binding auto_expand promiscuous
    profile =
     bindM (vim_dvs_portgroup_vlan_spec api name vlan_id num_ports binding auto_expand promiscuous)
       (\<lambda>spec.
     vim_dvs_portgroup_add api opts dvs_name_or_id spec profile)"

definition vim_dvs_portgroup_create_trunk ::
  "vmodl \<Rightarrow> pyval \<Rightarrow> pyval \<Rightarrow> pyval \<Rightarrow> pyval \<Rightarrow> pyval \<Rightarrow>
   pyval \<Rightarrow> profile \<Rightarrow> pyval io" where
  "vim_dvs_portgroup_create_trunk api opts dvs_name_or_id name vlan_ranges num_ports binding profile =
     bindM (liftR (py_iter vlan_ranges)) (\<lambda>pairs.
     bindM
       (mapM (\<lambda>r.
          bindM (liftR (py_pair r)) (\<lambda>(s, e).
          bindM (liftR (py_int s)) (\<lambda>start.
          bindM (liftR (py_int e)) (\<lambda>stop.
          vnew api ''vim.NumericRange'' [(''start'', PInt start), (''end'', PInt stop)])))) pairs) (\<lambda>ranges.
     bindM
       (vnew api ''vim.dvs.VmwareDistributedVirtualSwitch.TrunkVlanSpec'' [(''vlanId'', PList ranges)]) (\<lambda>trunk.
     bindM
       (vnew api ''vim.dvs.VmwareDistributedVirtualSwitch.VmwarePortConfigPolicy'' [(''vlan'', trunk)]) (\<lambda>port_cfg.
     bindM (liftR (py_int num_ports)) (\<lambda>ports.
     bindM
       (vnew api ''vim.dvs.DistributedVirtualPortgroup.ConfigSpec''
          [(''name'', name), (''numPorts'', PInt ports), (''type'', binding), (''defaultPortConfig'', port_cfg)]) (\<lambda>spec.
     vim_dvs_portgroup_add api opts dvs_name_or_id spec profile))))))"

definition vim_dvs_portgroup_reconfigure ::
  "vmodl \<Rightarrow> pyval \<Rightarrow> pyval \<Rightarrow> pyval \<Rightarrow> pyval \<Rightarrow> pyval \<Rightarrow> pyval \<Rightarrow> profile \<Rightarrow> pyval io" where
  "vim_dvs_portgroup_reconfigure api opts dvs_name_or_id name vlan_id num_ports promiscuous profile =
     bindM (vim_dvs_portgroup_dpg api opts dvs_name_or_id name profile) (\<lambda>pg.
     bindM (vpath api pg [''config'', ''configVersion'']) (\<lambda>configVersion.
     bindM
       (vnew api ''vim.dvs.DistributedVirtualPortgroup.ConfigSpec'' [(''configVersion'', configVersion)])
        (\<lambda>cfg.
     bindM
       (if num_ports \<noteq> PNone then
          bindM (liftR (py_int num_ports)) (\<lambda>n.
          vset api cfg ''numPorts'' (PInt n))
        else pureM cfg) (\<lambda>cfg.
     bindM
       (if (vlan_id \<noteq> PNone) \<or> (promiscuous \<noteq> PNone) then
          bindM (vnew api ''vim.dvs.VmwareDistributedVirtualSwitch.VmwarePortConfigPolicy'' [])
        (\<lambda>port_cfg.
          bindM
            (if vlan_id \<noteq> PNone then
               bindM (liftR (py_int vlan_id)) (\<lambda>n2.
               bindM
                 (vnew api ''vim.dvs.VmwareDistributedVirtualSwitch.VlanIdSpec'' [(''vlanId'', PInt n2)])
        (\<lambda>vlanIdSpec.
               vset api port_cfg ''vlan'' vlanIdSpec))
             else pureM port_cfg) (\<lambda>port_cfg.
          bindM
            (if promiscuous \<noteq> PNone then
               bindM (vnew api ''vim.BoolPolicy'' [(''value'', PBool (truthy promiscuous))]) (\<lambda>boolPolicy.
               bindM
                 (vnew api ''vim.dvs.VmwareDistributedVirtualSwitch.SecurityPolicy'' [(''allowPromiscuous'',
        boolPolicy)]) (\<lambda>securityPolicy.
               vset api port_cfg ''securityPolicy'' securityPolicy))
             else pureM port_cfg) (\<lambda>port_cfg.
          vset api cfg ''defaultPortConfig'' port_cfg)))
        else pureM cfg) (\<lambda>cfg.
     bindM (vcall api pg ''ReconfigureDVPortgroup_Task'' [] [(''spec'', cfg)]) (\<lambda>task.
     bindM (vim_wait_for_task api task 300 500) (\<lambda>_.
     vget api task ''_moId'')))))))"

definition vim_dvs_portgroup_delete :: "vmodl \<Rightarrow> pyval \<Rightarrow> pyval \<Rightarrow> pyval \<Rightarrow> profile \<Rightarrow> pyval io" where
  "vim_dvs_portgroup_delete api opts dvs_name_or_id name profile =
     bindM (vim_dvs_portgroup_dpg api opts dvs_name_or_id name profile) (\<lambda>pg.
     bindM (vcall api pg ''Destroy_Task'' [] []) (\<lambda>task.
     bindM (vim_wait_for_task api task 300 500) (\<lambda>_.
     vget api task ''_moId'')))"

definition vim_dvs_portgroup_build_uplink_teaming_policy ::
  "vmodl \<Rightarrow> pyval \<Rightarrow> pyval \<Rightarrow> pyval \<Rightarrow> pyval \<Rightarrow> pyval \<Rightarrow> pyval \<Rightarrow> pyval \<Rightarrow> pyval io" where
  "vim_dvs_portgroup_build_uplink_teaming_policy api policy reverse_policy notify_switches rolling_order
    check_beacon active_uplinks standby_uplinks =
     (if \<not> in_strs policy vim_dvs_portgroup_DVS_TEAMING_POLICIES then
        bindM (liftR (py_sorted (map PStr vim_dvs_portgroup_DVS_TEAMING_POLICIES))) (\<lambda>ordered.
        raiseM (ValueError (''teaming policy must be one of '' @ py_str (PList ordered) @ ''; got '' @ py_repr
        policy)))
      else
        bindM (vnew api ''vim.StringPolicy'' [(''inherited'', PBool False), (''value'', policy)])
        (\<lambda>stringPolicy.
        bindM
          (vnew api ''vim.dvs.VmwareDistributedVirtualSwitch.UplinkPortTeamingPolicy'' [(''inherited'', PBool
        False), (''policy'', stringPolicy)]) (\<lambda>t.
        bindM
          (if reverse_policy \<noteq> PNone then
             bindM
               (vnew api ''vim.BoolPolicy'' [(''inherited'', PBool False), (''value'', PBool (truthy
        reverse_policy))]) (\<lambda>boolPolicy.
             vset api t ''reversePolicy'' boolPolicy)
           else pureM t) (\<lambda>t.
        bindM
          (if notify_switches \<noteq> PNone then
             bindM
               (vnew api ''vim.BoolPolicy'' [(''inherited'', PBool False), (''value'', PBool (truthy
        notify_switches))]) (\<lambda>boolPolicy2.
             vset api t ''notifySwitches'' boolPolicy2)
           else pureM t) (\<lambda>t.
        bindM
          (if rolling_order \<noteq> PNone then
             bindM
               (vnew api ''vim.BoolPolicy'' [(''inherited'', PBool False), (''value'', PBool (truthy
        rolling_order))]) (\<lambda>boolPolicy3.
             vset api t ''rollingOrder'' boolPolicy3)
           else pureM t) (\<lambda>t.
        bindM
          (if check_beacon \<noteq> PNone then
             bindM
               (vnew api ''vim.BoolPolicy'' [(''inherited'', PBool False), (''value'', PBool (truthy
        check_beacon))]) (\<lambda>boolPolicy4.
             bindM
               (vnew api ''vim.dvs.VmwareDistributedVirtualSwitch.FailureCriteria'' [(''inherited'', PBool False),
        (''checkBeacon'', boolPolicy4)]) (\<lambda>failureCriteria.
             vset api t ''failureCriteria'' failureCriteria))
           else pureM t) (\<lambda>t.
        if (active_uplinks \<noteq> PNone) \<or> (standby_uplinks \<noteq> PNone) then
          bindM (liftR (py_iter (py_or active_uplinks (PList [])))) (\<lambda>items2.
          bindM (liftR (py_iter (py_or standby_uplinks (PList [])))) (\<lambda>items3.
          bindM
            (vnew api ''vim.dvs.VmwareDistributedVirtualSwitch.UplinkPortOrderPolicy'' [(''inherited'', PBool
        False), (''activeUplinkPort'', PList items2), (''standbyUplinkPort'', PList items3)])
        (\<lambda>uplinkPortOrderPolicy.
          vset api t ''uplinkPortOrder'' uplinkPortOrderPolicy)))
        else pureM t)))))))"

definition vim_dvs_portgroup_get_teaming :: "vmodl \<Rightarrow> pyval \<Rightarrow> pyval \<Rightarrow> pyval \<Rightarrow> profile \<Rightarrow> pyval io" where
  "vim_dvs_portgroup_get_teaming api opts dvs_name_or_id name profile =
     bindM (vim_dvs_portgroup_dpg api opts dvs_name_or_id name profile) (\<lambda>pg.
     bindM (vpath api pg [''config'', ''defaultPortConfig'']) (\<lambda>default_v.
     if default_v = PNone then pureM PNone
     else
       bindM (vget_or api default_v ''uplinkTeamingPolicy'' PNone) (\<lambda>uplinkTeamingPolicy.
       vim_dvs_portgroup_teaming_to_dict api uplinkTeamingPolicy)))"

definition vim_dvs_portgroup_set_teaming ::
  "vmodl \<Rightarrow> pyval \<Rightarrow> pyval \<Rightarrow> pyval \<Rightarrow> pyval \<Rightarrow> pyval
    \<Rightarrow> pyval \<Rightarrow> pyval \<Rightarrow> pyval \<Rightarrow> pyval \<Rightarrow> pyval \<Rightarrow> profile \<Rightarrow> pyval io" where
  "vim_dvs_portgroup_set_teaming api opts dvs_name_or_id name policy reverse_policy notify_switches rolling_order
    check_beacon active_uplinks standby_uplinks profile =
     bindM (vim_dvs_portgroup_dpg api opts dvs_name_or_id name profile) (\<lambda>pg.
     bindM
       (vim_dvs_portgroup_build_uplink_teaming_policy api policy reverse_policy notify_switches rolling_order
        check_beacon active_uplinks standby_uplinks) (\<lambda>build_uplink_teaming_policy2.
     bindM
       (vnew api ''vim.dvs.VmwareDistributedVirtualSwitch.VmwarePortConfigPolicy'' [(''uplinkTeamingPolicy'',
        build_uplink_teaming_policy2)]) (\<lambda>port_cfg.
     bindM (vpath api pg [''config'', ''configVersion'']) (\<lambda>configVersion.
     bindM
       (vnew api ''vim.dvs.DistributedVirtualPortgroup.ConfigSpec'' [(''configVersion'', configVersion),
        (''defaultPortConfig'', port_cfg)]) (\<lambda>cfg.
     bindM (vcall api pg ''ReconfigureDVPortgroup_Task'' [] [(''spec'', cfg)]) (\<lambda>task.
     bindM (vim_wait_for_task api task 300 500) (\<lambda>_.
     vim_dvs_portgroup_get_teaming api opts dvs_name_or_id name profile)))))))"

subsection \<open>\<open>clients/vcenter_dvs_nioc.py\<close>\<close>

definition vcenter_dvs_nioc_dvs :: "vmodl \<Rightarrow> pyval \<Rightarrow> pyval \<Rightarrow> profile \<Rightarrow> pyval io" where
  "vcenter_dvs_nioc_dvs api opts name_or_id profile =
     bindM (vim_content api opts profile) (\<lambda>content.
     bindM (vget api content ''viewManager'') (\<lambda>viewManager.
     bindM (vget api content ''rootFolder'') (\<lambda>rootFolder.
     bindM
       (vcall api viewManager ''CreateContainerView'' [rootFolder, PList [PStr ''vim.DistributedVirtualSwitch''],
        PBool True] []) (\<lambda>container.
     or_else
       (finallyM
          (bindM (vget api container ''view'') (\<lambda>view.
           bindM (liftR (py_iter view)) (\<lambda>items.
           first_of (\<lambda>dvs.
             bindM (vget api dvs ''_moId'') (\<lambda>moId.
             bindM (vget api dvs ''name'') (\<lambda>name.
             bindM (vget api dvs ''uuid'') (\<lambda>uuid.
             if list_ex (py_eq name_or_id) [moId, name, uuid] then pureM (Some dvs) else pureM None))))
        items)))
          (bindM (vcall api container ''Destroy'' [] []) (\<lambda>_.
           pureM ())))
       (raiseM (LookupError (''DVS '' @ py_repr name_or_id @ '' not found'')))))))"

definition vcenter_dvs_nioc_nioc_get :: "vmodl \<Rightarrow> pyval \<Rightarrow> pyval \<Rightarrow> profile \<Rightarrow> pyval io" where
  "vcenter_dvs_nioc_nioc_get api opts dvs_name_or_id profile =
     bindM (vcenter_dvs_nioc_dvs api opts dvs_name_or_id profile) (\<lambda>dvs.
     bindM
       (vpath api dvs [''config'', ''networkResourceManagementEnabled''])
        (\<lambda>networkResourceManagementEnabled.
     pureM (PBool (truthy networkResourceManagementEnabled))))"

definition vcenter_dvs_nioc_nioc_set :: "vmodl \<Rightarrow> pyval \<Rightarrow> pyval \<Rightarrow> pyval \<Rightarrow> profile \<Rightarrow> pyval io" where
  "vcenter_dvs_nioc_nioc_set api opts dvs_name_or_id enabled profile =
     bindM (vcenter_dvs_nioc_dvs api opts dvs_name_or_id profile) (\<lambda>dvs.
     bindM (vcall api dvs ''EnableNetworkResourceManagement'' [] [(''enable'', PBool (truthy enabled))])
       (\<lambda>_.
     pureM PNone))"

subsection \<open>\<open>clients/vcenter_dvs_nioc_vccluster.py\<close>\<close>

definition vcenter_dvs_nioc_vccluster_cluster :: "vmodl \<Rightarrow> pyval \<Rightarrow> pyval \<Rightarrow> profile \<Rightarrow> pyval io" where
  "vcenter_dvs_nioc_vccluster_cluster api opts name_or_id profile =
     bindM (vim_content api opts profile) (\<lambda>content.
     bindM (vpath api content [''rootFolder'', ''childEntity'']) (\<lambda>childEntity.
     bindM (liftR (py_iter childEntity)) (\<lambda>items.
     or_else
       (first_of (\<lambda>dc.
          if \<not> (is_instance api dc ''vim.Datacenter'') then pureM None
          else
            bindM (vpath api dc [''hostFolder'', ''childEntity'']) (\<lambda>childEntity2.
            bindM (liftR (py_iter childEntity2)) (\<lambda>items2.
            first_of (\<lambda>entity.
              bindM
                (if is_instance api entity ''vim.ClusterComputeResource'' then
                   bindM (vget api entity ''_moId'') (\<lambda>moId.
                   bindM (vget api entity ''name'') (\<lambda>name.
                   pureM (list_ex (py_eq name_or_id) [moId, name])))
                 else pureM False) (\<lambda>holds_v.
              if holds_v then pureM (Some entity) else pureM None)) items2))) items)
       (raiseM (LookupError (''cluster '' @ py_repr name_or_id @ '' not found''))))))"

definition vcenter_dvs_nioc_vccluster_cluster_dvs_list :: "vmodl \<Rightarrow> pyval \<Rightarrow> pyval
  \<Rightarrow> profile \<Rightarrow> pyval io" where
  "vcenter_dvs_nioc_vccluster_cluster_dvs_list api opts cluster profile =
     bindM (vcenter_dvs_nioc_vccluster_cluster api opts cluster profile) (\<lambda>cl.
     bindM (vget api cl ''host'') (\<lambda>host.
     bindM (liftR (py_iter (py_or host (PList [])))) (\<lambda>items2.
     bindM (mapM (\<lambda>h. vget api h ''_moId'') items2) (\<lambda>out.
     bindM (liftR (py_set out)) (\<lambda>host_moids.
     bindM (vim_dvs_list api opts profile) (\<lambda>items4.
     bindM (liftR (py_iter items4)) (\<lambda>items5.
     bindM
       (collect (\<lambda>dvs.
          bindM (liftR (py_item dvs ''hosts'')) (\<lambda>hosts.
          bindM (liftR (py_iter hosts)) (\<lambda>items6.
          bindM (liftR (py_set items6)) (\<lambda>items7.
          if py_meet host_moids items7 \<noteq> [] then
            bindM (liftR (py_item dvs ''moid'')) (\<lambda>moid.
            pureM (Some moid))
          else pureM None)))) items5) (\<lambda>out2.
     pureM (PList out2)))))))))"

definition vcenter_dvs_nioc_vccluster_nioc_get :: "vmodl \<Rightarrow> pyval \<Rightarrow> pyval \<Rightarrow> profile \<Rightarrow> pyval io" where
  "vcenter_dvs_nioc_vccluster_nioc_get api opts cluster profile =
     bindM (vcenter_dvs_nioc_vccluster_cluster_dvs_list api opts cluster profile) (\<lambda>cluster_dvs_list2.
     bindM (liftR (py_iter cluster_dvs_list2)) (\<lambda>items.
     bindM
       (mapM (\<lambda>dvs_moid.
          bindM (liftR (str_key dvs_moid)) (\<lambda>k.
          bindM (vcenter_dvs_nioc_nioc_get api opts dvs_moid profile) (\<lambda>nioc_get.
          pureM (k, nioc_get)))) items) (\<lambda>entries.
     pureM (PDict (dupdate [] entries)))))"

definition vcenter_dvs_nioc_vccluster_nioc_set :: "vmodl \<Rightarrow> pyval \<Rightarrow> pyval \<Rightarrow> pyval
  \<Rightarrow> profile \<Rightarrow> pyval io" where
  "vcenter_dvs_nioc_vccluster_nioc_set api opts cluster enabled profile =
     bindM (vcenter_dvs_nioc_vccluster_cluster_dvs_list api opts cluster profile) (\<lambda>cluster_dvs_list2.
     bindM (liftR (py_iter cluster_dvs_list2)) (\<lambda>items.
     bindM
       (iterM (\<lambda>dvs_moid.
          bindM (vcenter_dvs_nioc_nioc_set api opts dvs_moid enabled profile) (\<lambda>_.
          pureM ())) items) (\<lambda>_.
     pureM PNone)))"

subsection \<open>\<open>clients/vim_datastore_cluster.py\<close>\<close>

definition vim_datastore_cluster_resolve_pod :: "vmodl \<Rightarrow> pyval \<Rightarrow> pyval \<Rightarrow> profile \<Rightarrow> pyval io" where
  "vim_datastore_cluster_resolve_pod api opts name_or_id profile =
     bindM (vim_content api opts profile) (\<lambda>content.
     bindM (vget api content ''viewManager'') (\<lambda>viewManager.
     bindM (vget api content ''rootFolder'') (\<lambda>rootFolder.
     bindM
       (vcall api viewManager ''CreateContainerView'' [rootFolder, PList [PStr ''vim.StoragePod''], PBool True] [])
        (\<lambda>container.
     or_else
       (finallyM
          (bindM (vget api container ''view'') (\<lambda>view.
           bindM (liftR (py_iter view)) (\<lambda>items.
           first_of (\<lambda>pod.
             bindM (vget api pod ''_moId'') (\<lambda>moId.
             bindM (vget api pod ''name'') (\<lambda>name.
             if list_ex (py_eq name_or_id) [moId, name] then pureM (Some pod) else pureM None))) items)))
          (bindM (vcall api container ''Destroy'' [] []) (\<lambda>_.
           pureM ())))
       (raiseM (LookupError (''datastore cluster '' @ py_repr name_or_id @ '' not found'')))))))"

definition vim_datastore_cluster_resolve_datastore :: "vmodl \<Rightarrow> pyval \<Rightarrow> pyval \<Rightarrow> profile \<Rightarrow> pyval io" where
  "vim_datastore_cluster_resolve_datastore api opts name_or_id profile =
     bindM (vim_content api opts profile) (\<lambda>content.
     bindM (vget api content ''viewManager'') (\<lambda>viewManager.
     bindM (vget api content ''rootFolder'') (\<lambda>rootFolder.
     bindM
       (vcall api viewManager ''CreateContainerView'' [rootFolder, PList [PStr ''vim.Datastore''], PBool True] [])
        (\<lambda>container.
     or_else
       (finallyM
          (bindM (vget api container ''view'') (\<lambda>view.
           bindM (liftR (py_iter view)) (\<lambda>items.
           first_of (\<lambda>ds.
             bindM (vget api ds ''_moId'') (\<lambda>moId.
             bindM (vget api ds ''name'') (\<lambda>name.
             if list_ex (py_eq name_or_id) [moId, name] then pureM (Some ds) else pureM None))) items)))
          (bindM (vcall api container ''Destroy'' [] []) (\<lambda>_.
           pureM ())))
       (raiseM (LookupError (''datastore '' @ py_repr name_or_id @ '' not found'')))))))"

definition vim_datastore_cluster_resolve_datacenter :: "vmodl \<Rightarrow> pyval \<Rightarrow> pyval \<Rightarrow> profile \<Rightarrow> pyval io" where
  "vim_datastore_cluster_resolve_datacenter api opts name_or_id profile =
     bindM (vim_content api opts profile) (\<lambda>content.
     bindM (vpath api content [''rootFolder'', ''childEntity'']) (\<lambda>childEntity.
     bindM (liftR (py_iter childEntity)) (\<lambda>items.
     or_else
       (first_of (\<lambda>dc.
          bindM
            (if is_instance api dc ''vim.Datacenter'' then
               bindM (vget api dc ''_moId'') (\<lambda>moId.
               bindM (vget api dc ''name'') (\<lambda>name.
               pureM (list_ex (py_eq name_or_id) [moId, name])))
             else pureM False) (\<lambda>holds_v.
          if holds_v then pureM (Some dc) else pureM None)) items)
       (raiseM (LookupError (''datacenter '' @ py_repr name_or_id @ '' not found''))))))"

definition vim_datastore_cluster_list :: "vmodl \<Rightarrow> pyval \<Rightarrow> profile \<Rightarrow> pyval io" where
  "vim_datastore_cluster_list api opts profile =
     bindM (vim_content api opts profile) (\<lambda>content.
     bindM (vget api content ''viewManager'') (\<lambda>viewManager.
     bindM (vget api content ''rootFolder'') (\<lambda>rootFolder.
     bindM
       (vcall api viewManager ''CreateContainerView'' [rootFolder, PList [PStr ''vim.StoragePod''], PBool True] [])
        (\<lambda>container.
     finallyM
       (bindM (vget api container ''view'') (\<lambda>view.
        bindM (liftR (py_iter view)) (\<lambda>items.
        bindM
          (mapM (\<lambda>p.
             bindM (vget api p ''_moId'') (\<lambda>moId.
             bindM (vget api p ''name'') (\<lambda>name.
             bindM (vget api p ''childEntity'') (\<lambda>childEntity.
             bindM (liftR (py_len (py_or childEntity (PList [])))) (\<lambda>n.
             pureM (PDict [(''moid'', moId), (''name'', name), (''datastore_count'', PInt (int n))])))))) items)
        (\<lambda>out.
        pureM (PList out)))))
       (bindM (vcall api container ''Destroy'' [] []) (\<lambda>_.
        pureM ()))))))"

definition vim_datastore_cluster_get :: "vmodl \<Rightarrow> pyval \<Rightarrow> pyval \<Rightarrow> profile \<Rightarrow> pyval io" where
  "vim_datastore_cluster_get api opts name_or_id profile =
     bindM (vim_datastore_cluster_resolve_pod api opts name_or_id profile) (\<lambda>pod.
     bindM (vget api pod ''_moId'') (\<lambda>moId.
     bindM (vget api pod ''name'') (\<lambda>name.
     bindM (vget api pod ''childEntity'') (\<lambda>childEntity.
     bindM (liftR (py_iter (py_or childEntity (PList [])))) (\<lambda>items.
     bindM (mapM (\<lambda>ds. vget api ds ''name'') items) (\<lambda>out.
     pureM (PDict [(''moid'', moId), (''name'', name), (''datastores'', PList out)])))))))"

definition vim_datastore_cluster_get_or_none :: "vmodl \<Rightarrow> pyval \<Rightarrow> pyval \<Rightarrow> profile \<Rightarrow> pyval io" where
  "vim_datastore_cluster_get_or_none api opts name_or_id profile =
     tryM
       (vim_datastore_cluster_get api opts name_or_id profile)
       (\<lambda>exc. if is_LookupError exc then pureM PNone else raiseM exc)"

definition vim_datastore_cluster_create :: "vmodl \<Rightarrow> pyval \<Rightarrow> pyval \<Rightarrow> pyval \<Rightarrow> profile \<Rightarrow> pyval io" where
  "vim_datastore_cluster_create api opts name datacenter profile =
     bindM (vim_datastore_cluster_resolve_datacenter api opts datacenter profile) (\<lambda>dc.
     bindM (vget api dc ''datastoreFolder'') (\<lambda>datastoreFolder.
     bindM (vcall api datastoreFolder ''CreateStoragePod'' [] [(''name'', name)]) (\<lambda>pod.
     vget api pod ''_moId'')))"

definition vim_datastore_cluster_delete :: "vmodl \<Rightarrow> pyval \<Rightarrow> pyval \<Rightarrow> profile \<Rightarrow> pyval io" where
  "vim_datastore_cluster_delete api opts name_or_id profile =
     bindM (vim_datastore_cluster_resolve_pod api opts name_or_id profile) (\<lambda>pod.
     bindM (vcall api pod ''Destroy_Task'' [] []) (\<lambda>task.
     vget api task ''_moId''))"

definition vim_datastore_cluster_add_datastore :: "vmodl \<Rightarrow> pyval \<Rightarrow> pyval \<Rightarrow> pyval
  \<Rightarrow> profile \<Rightarrow> pyval io" where
  "vim_datastore_cluster_add_datastore api opts pod datastore profile =
     bindM (vim_datastore_cluster_resolve_pod api opts pod profile) (\<lambda>pod_ref.
     bindM (vim_datastore_cluster_resolve_datastore api opts datastore profile) (\<lambda>ds_ref.
     bindM (vpath api pod_ref [''parent'', ''MoveIntoFolder_Task'']) (\<lambda>moveIntoFolder_Task.
     bindM (vget api pod_ref ''parent'') (\<lambda>parent.
     bindM (vset api parent ''MoveIntoFolder_Task'' moveIntoFolder_Task) (\<lambda>parent.
     bindM (vset api pod_ref ''parent'' parent) (\<lambda>pod_ref.
     bindM (vget_or api pod_ref ''MoveInto_Task'' PNone) (\<lambda>moveInto_Task.
     bindM (vset api pod_ref ''MoveInto_Task'' moveInto_Task) (\<lambda>pod_ref.
     bindM (vcall api pod_ref ''MoveIntoFolder_Task'' [] [(''list'', PList [ds_ref])]) (\<lambda>task.
     vget api task ''_moId'')))))))))"

definition vim_datastore_cluster_remove_datastore ::
  "vmodl \<Rightarrow> pyval \<Rightarrow> pyval \<Rightarrow> pyval \<Rightarrow> pyval \<Rightarrow> profile \<Rightarrow> pyval io" where
  "vim_datastore_cluster_remove_datastore api opts pod datastore datacenter profile =
     bindM (vim_datastore_cluster_resolve_datacenter api opts datacenter profile) (\<lambda>dc.
     bindM (vim_datastore_cluster_resolve_datastore api opts datastore profile) (\<lambda>ds_ref.
     bindM (vget api dc ''datastoreFolder'') (\<lambda>datastoreFolder.
     bindM (vcall api datastoreFolder ''MoveIntoFolder_Task'' [] [(''list'', PList [ds_ref])]) (\<lambda>task.
     vget api task ''_moId''))))"

definition vim_datastore_cluster_sdrs_mgr :: "vmodl \<Rightarrow> pyval \<Rightarrow> profile \<Rightarrow> pyval io" where
  "vim_datastore_cluster_sdrs_mgr api opts profile =
     bindM (vim_content api opts profile) (\<lambda>content.
     vget api content ''storageResourceManager'')"

definition vim_datastore_cluster_sdrs_get :: "vmodl \<Rightarrow> pyval \<Rightarrow> pyval \<Rightarrow> profile \<Rightarrow> pyval io" where
  "vim_datastore_cluster_sdrs_get api opts pod profile =
     bindM (vim_datastore_cluster_resolve_pod api opts pod profile) (\<lambda>pod_ref.
     bindM (vpath api pod_ref [''podStorageDrsEntry'', ''storageDrsConfig'', ''podConfig'']) (\<lambda>cfg.
     bindM (vget api cfg ''enabled'') (\<lambda>enabled.
     bindM (vget api cfg ''defaultVmBehavior'') (\<lambda>defaultVmBehavior.
     bindM (vget api cfg ''ioLoadBalanceEnabled'') (\<lambda>ioLoadBalanceEnabled.
     bindM (vget api cfg ''spaceLoadBalanceConfig'') (\<lambda>spaceLoadBalanceConfig.
     bindM
       (if truthy spaceLoadBalanceConfig then
          bindM
            (vpath api cfg [''spaceLoadBalanceConfig'', ''spaceUtilizationThreshold''])
        (\<lambda>spaceUtilizationThreshold.
          bindM (liftR (py_int spaceUtilizationThreshold)) (\<lambda>n.
          pureM (PInt n)))
        else pureM PNone) (\<lambda>x.
     pureM (PDict [(''enabled'', PBool (truthy enabled)), (''automation_level'', PStr (py_str defaultVmBehavior)),
       (''io_load_balance_enabled'', PBool (truthy ioLoadBalanceEnabled)), (''space_utilization_threshold'',
        x)]))))))))"

definition vim_datastore_cluster_sdrs_set ::
  "vmodl \<Rightarrow> pyval \<Rightarrow> pyval \<Rightarrow> pyval \<Rightarrow> pyval \<Rightarrow> pyval \<Rightarrow> pyval \<Rightarrow> profile \<Rightarrow> pyval io" where
  "vim_datastore_cluster_sdrs_set api opts pod enabled automation_level io_load_balance_enabled
    space_utilization_threshold profile =
     bindM (vim_datastore_cluster_resolve_pod api opts pod profile) (\<lambda>pod_ref.
     bindM (vnew api ''vim.storageDrs.PodConfigSpec'' []) (\<lambda>pod_cfg.
     bindM
       (if enabled \<noteq> PNone then vset api pod_cfg ''enabled'' (PBool (truthy enabled)) else pureM pod_cfg)
        (\<lambda>pod_cfg.
     bindM
       (if automation_level \<noteq> PNone then vset api pod_cfg ''defaultVmBehavior'' automation_level
        else pureM pod_cfg) (\<lambda>pod_cfg.
     bindM
       (if io_load_balance_enabled \<noteq> PNone then
          vset api pod_cfg ''ioLoadBalanceEnabled'' (PBool (truthy io_load_balance_enabled))
        else pureM pod_cfg) (\<lambda>pod_cfg.
     bindM
       (if space_utilization_threshold \<noteq> PNone then
          bindM (vnew api ''vim.storageDrs.SpaceLoadBalanceConfig'' []) (\<lambda>slb.
          bindM (liftR (py_int space_utilization_threshold)) (\<lambda>n.
          bindM (vset api slb ''spaceUtilizationThreshold'' (PInt n)) (\<lambda>slb.
          vset api pod_cfg ''spaceLoadBalanceConfig'' slb)))
        else pureM pod_cfg) (\<lambda>pod_cfg.
     bindM (vnew api ''vim.storageDrs.ConfigSpec'' [(''podConfigSpec'', pod_cfg)]) (\<lambda>spec.
     bindM (vim_datastore_cluster_sdrs_mgr api opts profile) (\<lambda>mgr.
     bindM
       (vcall api mgr ''ConfigureStorageDrsForPod_Task'' [] [(''pod'', pod_ref), (''spec'', spec), (''modify'',
        PBool True)]) (\<lambda>task.
     vget api task ''_moId'')))))))))"

definition vim_datastore_cluster_sdrs_vm_override_list :: "vmodl \<Rightarrow> pyval \<Rightarrow> pyval
  \<Rightarrow> profile \<Rightarrow> pyval io" where
  "vim_datastore_cluster_sdrs_vm_override_list api opts pod profile =
     bindM (vim_datastore_cluster_resolve_pod api opts pod profile) (\<lambda>pod_ref.
     let out = [] in
     bindM (vpath api pod_ref [''podStorageDrsEntry'', ''storageDrsConfig'', ''vmConfig'']) (\<lambda>vmConfig.
     bindM (liftR (py_iter (py_or vmConfig (PList [])))) (\<lambda>items.
     bindM
       (foldM (\<lambda>entry out.
          bindM (vget api entry ''vm'') (\<lambda>vm.
          bindM (if truthy vm then vpath api entry [''vm'', ''_moId''] else pureM PNone) (\<lambda>x.
          bindM (vget_or api entry ''enabled'' (PBool True)) (\<lambda>enabled.
          bindM (vget api entry ''behavior'') (\<lambda>behavior.
          bindM
            (if truthy behavior then
               bindM (vget api entry ''behavior'') (\<lambda>behavior2.
               pureM (PStr (py_str behavior2)))
             else pureM PNone) (\<lambda>x2.
          bindM (vget_or api entry ''intraVmAffinity'' (PBool True)) (\<lambda>intraVmAffinity.
          pureM (out @ [PDict [(''vm_moid'', x), (''enabled'', PBool (truthy enabled)), (''behavior'', x2),
        (''intra_vm_affinity'', PBool (truthy intraVmAffinity))]])))))))) items out) (\<lambda>out.
     pureM (PList out)))))"

definition vim_datastore_cluster_sdrs_vm_override_set ::
  "vmodl \<Rightarrow> pyval \<Rightarrow> pyval \<Rightarrow> pyval \<Rightarrow> pyval \<Rightarrow> pyval \<Rightarrow> pyval \<Rightarrow> profile \<Rightarrow> pyval io" where
  "vim_datastore_cluster_sdrs_vm_override_set api opts pod vm_moid behavior enabled intra_vm_affinity profile
    =
     bindM (vim_datastore_cluster_resolve_pod api opts pod profile) (\<lambda>pod_ref.
     bindM (vref api ''vim.VirtualMachine'' vm_moid PNone) (\<lambda>virtualMachine.
     bindM (vnew api ''vim.storageDrs.VmConfigInfo'' [(''vm'', virtualMachine)]) (\<lambda>info.
     bindM (if behavior \<noteq> PNone then vset api info ''behavior'' behavior else pureM info) (\<lambda>info.
     bindM (if enabled \<noteq> PNone then vset api info ''enabled'' (PBool (truthy enabled)) else pureM info)
       (\<lambda>info.
     bindM
       (if intra_vm_affinity \<noteq> PNone then
          vset api info ''intraVmAffinity'' (PBool (truthy intra_vm_affinity))
        else pureM info) (\<lambda>info.
     bindM
       (vnew api ''vim.storageDrs.VmConfigSpec'' [(''operation'', PStr ''edit''), (''info'', info)])
        (\<lambda>vmConfigSpec.
     bindM (vnew api ''vim.storageDrs.ConfigSpec'' [(''vmConfigSpec'', PList [vmConfigSpec])]) (\<lambda>spec.
     bindM (vim_datastore_cluster_sdrs_mgr api opts profile) (\<lambda>mgr.
     bindM
       (vcall api mgr ''ConfigureStorageDrsForPod_Task'' [] [(''pod'', pod_ref), (''spec'', spec), (''modify'',
        PBool True)]) (\<lambda>task.
     vget api task ''_moId''))))))))))"

definition vim_datastore_cluster_sdrs_rule_list :: "vmodl \<Rightarrow> pyval \<Rightarrow> pyval \<Rightarrow> profile \<Rightarrow> pyval io" where
  "vim_datastore_cluster_sdrs_rule_list api opts pod profile =
     bindM (vim_datastore_cluster_resolve_pod api opts pod profile) (\<lambda>pod_ref.
     let out = [] in
     bindM (vpath api pod_ref [''podStorageDrsEntry'', ''storageDrsConfig'', ''podConfig'', ''rule''])
       (\<lambda>rule2.
     bindM (liftR (py_iter (py_or rule2 (PList [])))) (\<lambda>items.
     bindM
       (foldM (\<lambda>rule out.
          let kind = (if is_instance api rule ''vim.cluster.AntiAffinityRuleSpec'' then ''vm-anti-affinity'' else
        ''vm-affinity'') in
          bindM (vget api rule ''key'') (\<lambda>key.
          bindM (vget api rule ''name'') (\<lambda>name.
          bindM (vget api rule ''enabled'') (\<lambda>enabled.
          bindM (vget api rule ''mandatory'') (\<lambda>mandatory.
          bindM (vget api rule ''vm'') (\<lambda>vm.
          bindM (liftR (py_iter (py_or vm (PList [])))) (\<lambda>items2.
          bindM (mapM (\<lambda>v. vget api v ''_moId'') items2) (\<lambda>out2.
          pureM (out @ [PDict [(''key'', key), (''name'', name), (''kind'', PStr kind), (''enabled'', PBool (truthy
        enabled)), (''mandatory'', PBool (truthy mandatory)), (''vm_moids'', PList out2)]]))))))))) items out)
        (\<lambda>out.
     pureM (PList out)))))"

definition vim_datastore_cluster_sdrs_rule_get :: "vmodl \<Rightarrow> pyval \<Rightarrow> pyval \<Rightarrow> pyval
  \<Rightarrow> profile \<Rightarrow> pyval io" where
  "vim_datastore_cluster_sdrs_rule_get api opts pod name profile =
     bindM (vim_datastore_cluster_sdrs_rule_list api opts pod profile) (\<lambda>sdrs_rule_list2.
     bindM (liftR (py_iter sdrs_rule_list2)) (\<lambda>items.
     or_else
       (first_of (\<lambda>rule.
          bindM (liftR (py_item rule ''name'')) (\<lambda>name2.
          if py_eq name2 name then pureM (Some rule) else pureM None)) items)
       (raiseM (LookupError (''SDRS rule '' @ py_repr name @ '' not found on '' @ py_repr pod)))))"

definition vim_datastore_cluster_sdrs_rule_get_or_none :: "vmodl \<Rightarrow> pyval \<Rightarrow> pyval
  \<Rightarrow> pyval \<Rightarrow> profile \<Rightarrow> pyval io" where
  "vim_datastore_cluster_sdrs_rule_get_or_none api opts pod name profile =
     tryM
       (vim_datastore_cluster_sdrs_rule_get api opts pod name profile)
       (\<lambda>exc. if is_LookupError exc then pureM PNone else raiseM exc)"

definition vim_datastore_cluster_sdrs_rule_apply :: "vmodl \<Rightarrow> pyval \<Rightarrow> pyval \<Rightarrow>
  pyval \<Rightarrow> pyval \<Rightarrow> profile \<Rightarrow> pyval io" where
  "vim_datastore_cluster_sdrs_rule_apply api opts pod rule operation profile =
     bindM (vim_datastore_cluster_resolve_pod api opts pod profile) (\<lambda>pod_ref.
     bindM (vnew api ''vim.cluster.RuleSpec'' [(''operation'', operation), (''info'', rule)]) (\<lambda>rule_spec.
     bindM
       (if py_eq operation (PStr ''edit'') then
          bindM (vget api rule ''key'') (\<lambda>key.
          vset api rule_spec ''removeKey'' key)
        else pureM rule_spec) (\<lambda>rule_spec.
     bindM (vnew api ''vim.storageDrs.PodConfigSpec'' [(''rule'', PList [rule_spec])]) (\<lambda>pod_cfg.
     bindM (vnew api ''vim.storageDrs.ConfigSpec'' [(''podConfigSpec'', pod_cfg)]) (\<lambda>spec.
     bindM (vim_datastore_cluster_sdrs_mgr api opts profile) (\<lambda>mgr.
     bindM
       (vcall api mgr ''ConfigureStorageDrsForPod_Task'' [] [(''pod'', pod_ref), (''spec'', spec), (''modify'',
        PBool True)]) (\<lambda>task.
     vget api task ''_moId'')))))))"

definition vim_datastore_cluster_sdrs_rule_create_vm_anti_affinity ::
  "vmodl \<Rightarrow> pyval \<Rightarrow> pyval \<Rightarrow> pyval \<Rightarrow> pyval \<Rightarrow> pyval \<Rightarrow> pyval \<Rightarrow> profile \<Rightarrow> pyval io" where
  "vim_datastore_cluster_sdrs_rule_create_vm_anti_affinity api opts pod name vm_moids enabled mandatory profile
    =
     bindM (liftR (py_iter vm_moids)) (\<lambda>items.
     bindM (mapM (\<lambda>m. vref api ''vim.VirtualMachine'' m PNone) items) (\<lambda>out.
     bindM
       (vnew api ''vim.cluster.AntiAffinityRuleSpec'' [(''name'', name), (''enabled'', enabled), (''mandatory'',
        mandatory), (''vm'', PList out)]) (\<lambda>rule.
     vim_datastore_cluster_sdrs_rule_apply api opts pod rule (PStr ''add'') profile)))"

definition vim_datastore_cluster_sdrs_rule_create_vm_affinity ::
  "vmodl \<Rightarrow> pyval \<Rightarrow> pyval \<Rightarrow> pyval \<Rightarrow> pyval \<Rightarrow> pyval \<Rightarrow> pyval \<Rightarrow> profile \<Rightarrow> pyval io" where
  "vim_datastore_cluster_sdrs_rule_create_vm_affinity api opts pod name vm_moids enabled mandatory profile
    =
     bindM (liftR (py_iter vm_moids)) (\<lambda>items.
     bindM (mapM (\<lambda>m. vref api ''vim.VirtualMachine'' m PNone) items) (\<lambda>out.
     bindM
       (vnew api ''vim.cluster.AffinityRuleSpec'' [(''name'', name), (''enabled'', enabled), (''mandatory'',
        mandatory), (''vm'', PList out)]) (\<lambda>rule.
     vim_datastore_cluster_sdrs_rule_apply api opts pod rule (PStr ''add'') profile)))"

definition vim_datastore_cluster_sdrs_rule_delete :: "vmodl \<Rightarrow> pyval \<Rightarrow> pyval \<Rightarrow>
  pyval \<Rightarrow> profile \<Rightarrow> pyval io" where
  "vim_datastore_cluster_sdrs_rule_delete api opts pod name profile =
     bindM (vim_datastore_cluster_resolve_pod api opts pod profile) (\<lambda>pod_ref.
     let target = PNone in
     bindM (vpath api pod_ref [''podStorageDrsEntry'', ''storageDrsConfig'', ''podConfig'', ''rule''])
       (\<lambda>rule2.
     bindM (liftR (py_iter (py_or rule2 (PList [])))) (\<lambda>items.
     bindM
       (for_each (\<lambda>rule target.
          bindM (vget api rule ''name'') (\<lambda>name2.
          if py_eq name2 name then let target = rule in pureM (Inl target) else pureM (Inr target))) items target)
        (\<lambda>left.
     let target = either left in
     if target = PNone then raiseM (LookupError (''SDRS rule '' @ py_repr name @ '' not found''))
     else
       bindM (vget api target ''key'') (\<lambda>key.
       bindM
         (vnew api ''vim.cluster.RuleSpec'' [(''operation'', PStr ''remove''), (''removeKey'', key)])
        (\<lambda>ruleSpec.
       bindM (vnew api ''vim.storageDrs.PodConfigSpec'' [(''rule'', PList [ruleSpec])]) (\<lambda>pod_cfg.
       bindM (vnew api ''vim.storageDrs.ConfigSpec'' [(''podConfigSpec'', pod_cfg)]) (\<lambda>spec.
       bindM (vim_datastore_cluster_sdrs_mgr api opts profile) (\<lambda>mgr.
       bindM
         (vcall api mgr ''ConfigureStorageDrsForPod_Task'' [] [(''pod'', pod_ref), (''spec'', spec), (''modify'',
        PBool True)]) (\<lambda>task.
       vget api task ''_moId''))))))))))"

definition vim_datastore_cluster_sdrs_vm_override_remove :: "vmodl \<Rightarrow> pyval \<Rightarrow> pyval
  \<Rightarrow> pyval \<Rightarrow> profile \<Rightarrow> pyval io" where
  "vim_datastore_cluster_sdrs_vm_override_remove api opts pod vm_moid profile =
     bindM (vim_datastore_cluster_resolve_pod api opts pod profile) (\<lambda>pod_ref.
     bindM (vref api ''vim.VirtualMachine'' vm_moid PNone) (\<lambda>virtualMachine.
     bindM
       (vnew api ''vim.storageDrs.VmConfigSpec'' [(''operation'', PStr ''remove''), (''removeKey'',
        virtualMachine)]) (\<lambda>vmConfigSpec.
     bindM (vnew api ''vim.storageDrs.ConfigSpec'' [(''vmConfigSpec'', PList [vmConfigSpec])]) (\<lambda>spec.
     bindM (vim_datastore_cluster_sdrs_mgr api opts profile) (\<lambda>mgr.
     bindM
       (vcall api mgr ''ConfigureStorageDrsForPod_Task'' [] [(''pod'', pod_ref), (''spec'', spec), (''modify'',
        PBool True)]) (\<lambda>task.
     vget api task ''_moId''))))))"

subsection \<open>\<open>clients/vim_datastore_file.py\<close>\<close>

definition vim_datastore_file_http_endpoint :: "pyval \<Rightarrow> profile \<Rightarrow> (pyval \<times> pyval) res" where
  "vim_datastore_file_http_endpoint opts profile =
     bindR (vim_is_standalone_esxi opts profile) (\<lambda>standalone.
     if standalone then
       bindR (esxi_get_config opts profile) (\<lambda>cfg. Ok (cfg_host cfg, cfg_verify_ssl cfg))
     else bindR (vcenter_get_config opts profile) (\<lambda>cfg. Ok (cfg_host cfg, cfg_verify_ssl cfg)))"

definition vim_datastore_file_find_datacenter :: "vmodl \<Rightarrow> pyval \<Rightarrow> pyval \<Rightarrow> profile \<Rightarrow> pyval io" where
  "vim_datastore_file_find_datacenter api opts name_or_id profile =
     bindM (vim_content api opts profile) (\<lambda>content.
     bindM (vget api content ''viewManager'') (\<lambda>viewManager.
     bindM (vget api content ''rootFolder'') (\<lambda>rootFolder.
     bindM
       (vcall api viewManager ''CreateContainerView'' [rootFolder, PList [PStr ''vim.Datacenter''], PBool True] [])
        (\<lambda>container.
     or_else
       (finallyM
          (bindM (vget api container ''view'') (\<lambda>view.
           bindM (liftR (py_iter view)) (\<lambda>items.
           first_of (\<lambda>dc.
             bindM (vget api dc ''_moId'') (\<lambda>moId.
             bindM (vget api dc ''name'') (\<lambda>name.
             if list_ex (py_eq name_or_id) [moId, name] then pureM (Some dc) else pureM None))) items)))
          (bindM (vcall api container ''Destroy'' [] []) (\<lambda>_.
           pureM ())))
       (raiseM (LookupError (''datacenter '' @ py_repr name_or_id @ '' not found'')))))))"

definition vim_datastore_file_find_datastore :: "vmodl \<Rightarrow> pyval \<Rightarrow> pyval \<Rightarrow> profile \<Rightarrow> pyval io" where
  "vim_datastore_file_find_datastore api opts name_or_id profile =
     bindM (vim_content api opts profile) (\<lambda>content.
     bindM (vget api content ''viewManager'') (\<lambda>viewManager.
     bindM (vget api content ''rootFolder'') (\<lambda>rootFolder.
     bindM
       (vcall api viewManager ''CreateContainerView'' [rootFolder, PList [PStr ''vim.Datastore''], PBool True] [])
        (\<lambda>container.
     or_else
       (finallyM
          (bindM (vget api container ''view'') (\<lambda>view.
           bindM (liftR (py_iter view)) (\<lambda>items.
           first_of (\<lambda>ds.
             bindM (vget api ds ''_moId'') (\<lambda>moId.
             bindM (vget api ds ''name'') (\<lambda>name.
             if list_ex (py_eq name_or_id) [moId, name] then pureM (Some ds) else pureM None))) items)))
          (bindM (vcall api container ''Destroy'' [] []) (\<lambda>_.
           pureM ())))
       (raiseM (LookupError (''datastore '' @ py_repr name_or_id @ '' not found'')))))))"

definition vim_datastore_file_file_manager :: "vmodl \<Rightarrow> pyval \<Rightarrow> profile \<Rightarrow> pyval io" where
  "vim_datastore_file_file_manager api opts profile =
     bindM (vim_content api opts profile) (\<lambda>content.
     vget api content ''fileManager'')"

definition vim_datastore_file_ds_path :: "pyval \<Rightarrow> pyval \<Rightarrow> pyval io" where
  "vim_datastore_file_ds_path datastore_name path =
     bindM (liftR (py_lstrip path ''/'')) (\<lambda>text.
     pureM (PStr (''['' @ py_str datastore_name @ ''] '' @ text)))"

definition vim_datastore_file_folder_url :: "pyval \<Rightarrow> pyval \<Rightarrow> pyval \<Rightarrow> pyval \<Rightarrow> pyval io" where
  "vim_datastore_file_folder_url host ds_path dc_name datastore_name =
     bindM (liftR (py_lstrip ds_path ''/'')) (\<lambda>p.
     pureM (PStr (''https://'' @ py_str host @ ''/folder/'' @ p @ ''?dcPath='' @ py_str dc_name @ ''&dsName='' @
       py_str datastore_name)))"

definition file_entry :: "vmodl \<Rightarrow> pyval \<Rightarrow> pyval io" where
  "file_entry api entry =
     bindM (vget api entry ''path'') (\<lambda>path.
     bindM (vget api entry ''fileSize'') (\<lambda>file_size.
     bindM
       (if file_size \<noteq> PNone then bindM (liftR (py_int file_size)) (\<lambda>n. pureM (PInt n)) else pureM PNone) (\<lambda>bytes.
     bindM (vget api entry ''modification'') (\<lambda>modification.
     bindM (if truthy modification then vcall api modification ''isoformat'' [] [] else pureM PNone) (\<lambda>changed_at.
     bindM (vget api entry ''owner'') (\<lambda>owner.
     pureM (PDict
       [(''path'', path), (''file_type'', PStr (class_name entry)), (''size'', bytes), (''modification'', changed_at),
        (''owner'', owner)])))))))"

text \<open>The loop over the state of the search: neither a pause nor a deadline.\<close>

definition search_round :: "vmodl \<Rightarrow> pyval \<Rightarrow> unit \<Rightarrow> (unit + unit) io" where
  "search_round api task u =
     bindM (vpath api task [''info'', ''state'']) (\<lambda>st.
     pureM (if in_strs st [''running'', ''queued''] then Inr () else Inl ()))"

definition vim_datastore_file_list ::
  "vmodl \<Rightarrow> pyval \<Rightarrow> pyval \<Rightarrow> pyval \<Rightarrow> pyval \<Rightarrow> profile \<Rightarrow> pyval io" where
  "vim_datastore_file_list api opts datacenter datastore path profile =
     bindM (vim_datastore_file_find_datastore api opts datastore profile) (\<lambda>ds.
     bindM (vget api ds ''browser'') (\<lambda>browser.
     bindM (vnew api ''vim.host.DatastoreBrowser.SearchSpec'' []) (\<lambda>spec.
     bindM (vset api spec ''matchPattern'' (PList [PStr ''*''])) (\<lambda>spec.
     bindM
       (vnew api ''vim.host.DatastoreBrowser.FileInfo.Details''
          [(''fileType'', PBool True), (''fileSize'', PBool True), (''modification'', PBool True),
           (''fileOwner'', PBool True)]) (\<lambda>details.
     bindM (vset api spec ''details'' details) (\<lambda>spec.
     bindM (vim_datastore_file_ds_path datastore path) (\<lambda>target.
     bindM
       (vcall api browser ''SearchDatastore_Task'' []
          [(''datastorePath'', target), (''searchSpec'', spec)]) (\<lambda>task.
     bindM (loopM (search_round api task) ()) (\<lambda>_.
     bindM (vpath api task [''info'', ''state'']) (\<lambda>st.
     if py_eq st (PStr ''error'') then
       bindM (vpath api task [''info'', ''error'']) (\<lambda>err.
       bindM (if truthy err then vpath api task [''info'', ''error'', ''msg''] else pureM (PStr ''search failed'')) (\<lambda>msg.
       raiseM (RuntimeError (py_str msg))))
     else
       bindM (vpath api task [''info'', ''result'']) (\<lambda>answer.
       bindM (vget api answer ''file'') (\<lambda>files.
       bindM (liftR (py_iter (py_or files (PList [])))) (\<lambda>entries.
       bindM (mapM (file_entry api) entries) (\<lambda>out.
       pureM (PList out)))))))))))))))"

definition vim_datastore_file_delete :: "vmodl \<Rightarrow> pyval \<Rightarrow> pyval \<Rightarrow> pyval \<Rightarrow> pyval \<Rightarrow> profile \<Rightarrow> pyval io" where
  "vim_datastore_file_delete api opts datacenter datastore path profile =
     bindM (vim_datastore_file_find_datacenter api opts datacenter profile) (\<lambda>dc.
     bindM (vim_datastore_file_file_manager api opts profile) (\<lambda>fm.
     bindM (vim_datastore_file_ds_path datastore path) (\<lambda>ds_path2.
     bindM (vcall api fm ''DeleteDatastoreFile_Task'' [] [(''name'', ds_path2), (''datacenter'', dc)])
       (\<lambda>task.
     vget api task ''_moId''))))"

definition vim_datastore_file_mkdir :: "vmodl \<Rightarrow> pyval \<Rightarrow> pyval \<Rightarrow> pyval
  \<Rightarrow> pyval \<Rightarrow> pyval \<Rightarrow> profile \<Rightarrow> pyval io" where
  "vim_datastore_file_mkdir api opts datacenter datastore path create_parents profile =
     bindM (vim_datastore_file_find_datacenter api opts datacenter profile) (\<lambda>dc.
     bindM (vim_datastore_file_file_manager api opts profile) (\<lambda>fm.
     bindM (vim_datastore_file_ds_path datastore path) (\<lambda>ds_path2.
     bindM
       (vcall api fm ''MakeDirectory'' [] [(''name'', ds_path2), (''datacenter'', dc), (''createParentDirectories'',
        PBool (truthy create_parents))]) (\<lambda>_.
     pureM (PBool True)))))"

definition vim_datastore_file_move ::
  "vmodl \<Rightarrow> pyval \<Rightarrow> pyval \<Rightarrow> pyval \<Rightarrow> pyval \<Rightarrow> pyval \<Rightarrow> pyval \<Rightarrow> pyval \<Rightarrow> pyval \<Rightarrow> profile \<Rightarrow> pyval io" where
  "vim_datastore_file_move api opts src_datacenter src_datastore src_path dst_datacenter dst_datastore dst_path
    force profile =
     bindM (vim_datastore_file_find_datacenter api opts src_datacenter profile) (\<lambda>src_dc.
     bindM (vim_datastore_file_find_datacenter api opts dst_datacenter profile) (\<lambda>dst_dc.
     bindM (vim_datastore_file_file_manager api opts profile) (\<lambda>fm.
     bindM (vim_datastore_file_ds_path src_datastore src_path) (\<lambda>ds_path2.
     bindM (vim_datastore_file_ds_path dst_datastore dst_path) (\<lambda>ds_path3.
     bindM
       (vcall api fm ''MoveDatastoreFile_Task'' [] [(''sourceName'', ds_path2), (''sourceDatacenter'', src_dc),
        (''destinationName'', ds_path3), (''destinationDatacenter'', dst_dc), (''force'', PBool (truthy force))])
        (\<lambda>task.
     vget api task ''_moId''))))))"

subsection \<open>\<open>clients/vim_resource_pool.py\<close>\<close>

definition vim_resource_pool_find_rp :: "vmodl \<Rightarrow> pyval \<Rightarrow> pyval \<Rightarrow> profile \<Rightarrow> pyval io" where
  "vim_resource_pool_find_rp api opts rp_id_or_name profile =
     bindM (vim_content api opts profile) (\<lambda>content.
     bindM (vget api content ''viewManager'') (\<lambda>viewManager.
     bindM (vget api content ''rootFolder'') (\<lambda>rootFolder.
     bindM
       (vcall api viewManager ''CreateContainerView'' [rootFolder, PList [PStr ''vim.ResourcePool''], PBool True]
        []) (\<lambda>container.
     or_else
       (finallyM
          (bindM (vget api container ''view'') (\<lambda>view.
           bindM (liftR (py_iter view)) (\<lambda>items.
           first_of (\<lambda>rp.
             bindM (vget api rp ''_moId'') (\<lambda>moId.
             bindM (vget api rp ''name'') (\<lambda>name.
             if list_ex (py_eq rp_id_or_name) [moId, name] then pureM (Some rp) else pureM None)))
        items)))
          (bindM (vcall api container ''Destroy'' [] []) (\<lambda>_.
           pureM ())))
       (raiseM (LookupError (''resource pool '' @ py_repr rp_id_or_name @ '' not found'')))))))"

definition vim_resource_pool_move :: "vmodl \<Rightarrow> pyval \<Rightarrow> pyval \<Rightarrow> pyval \<Rightarrow> profile \<Rightarrow> pyval io" where
  "vim_resource_pool_move api opts rp_id_or_name target_parent profile =
     bindM (vim_resource_pool_find_rp api opts rp_id_or_name profile) (\<lambda>rp.
     bindM
       (if is_instance api target_parent ''vim.ResourcePool'' then pureM target_parent
        else vim_resource_pool_find_rp api opts target_parent profile) (\<lambda>target.
     bindM (vcall api target ''MoveIntoResourcePool'' [] [(''list'', PList [rp])]) (\<lambda>_.
     bindM (vget api rp ''_moId'') (\<lambda>moId.
     bindM (vget api target ''_moId'') (\<lambda>moId2.
     pureM (PDict [(''resource_pool'', moId), (''new_parent'', moId2)]))))))"

definition vim_resource_pool_allocation :: "vmodl \<Rightarrow> pyval \<Rightarrow> pyval io" where
  "vim_resource_pool_allocation api info =
     bindM (vget api info ''reservation'') (\<lambda>reservation.
     bindM (liftR (py_int (py_or reservation (PInt 0)))) (\<lambda>n.
     bindM (vget api info ''expandableReservation'') (\<lambda>expandableReservation.
     bindM (vget api info ''limit'') (\<lambda>limit.
     bindM (if limit \<noteq> PNone then vget api info ''limit'' else pureM (PInt (-1))) (\<lambda>x.
     bindM (liftR (py_int x)) (\<lambda>n2.
     bindM (vget api info ''shares'') (\<lambda>shares.
     bindM
       (if truthy shares then
          bindM (vpath api info [''shares'', ''level'']) (\<lambda>level.
          pureM (PStr (py_str level)))
        else pureM PNone) (\<lambda>x2.
     bindM (vget api info ''shares'') (\<lambda>shares2.
     bindM
       (if truthy shares2 then
          bindM (vpath api info [''shares'', ''shares'']) (\<lambda>shares3.
          bindM (liftR (py_int shares3)) (\<lambda>n3.
          pureM (PInt n3)))
        else pureM PNone) (\<lambda>x3.
     pureM (PDict [(''reservation'', PInt n), (''expandable_reservation'', PBool (truthy expandableReservation)),
       (''limit'', PInt n2), (''shares_level'', x2), (''shares_value'', x3)])))))))))))"

definition vim_resource_pool_get_shares :: "vmodl \<Rightarrow> pyval \<Rightarrow> pyval \<Rightarrow> profile \<Rightarrow> pyval io" where
  "vim_resource_pool_get_shares api opts rp_id_or_name profile =
     bindM (vim_resource_pool_find_rp api opts rp_id_or_name profile) (\<lambda>rp.
     bindM (vget api rp ''config'') (\<lambda>cfg.
     bindM (vget api cfg ''cpuAllocation'') (\<lambda>cpuAllocation.
     bindM (vim_resource_pool_allocation api cpuAllocation) (\<lambda>allocation2.
     bindM (vget api cfg ''memoryAllocation'') (\<lambda>memoryAllocation.
     bindM (vim_resource_pool_allocation api memoryAllocation) (\<lambda>allocation3.
     pureM (PDict [(''cpu'', allocation2), (''memory'', allocation3)])))))))"

definition vim_resource_pool_build_allocation :: "vmodl \<Rightarrow> pyval \<Rightarrow> pyval io" where
  "vim_resource_pool_build_allocation api spec =
     bindM (vnew api ''vim.ResourceAllocationInfo'' []) (\<lambda>info.
     bindM (liftR (py_in (PStr ''reservation'') spec)) (\<lambda>found.
     bindM
       (if found then
          bindM (liftR (py_item spec ''reservation'')) (\<lambda>reservation.
          bindM (liftR (py_int reservation)) (\<lambda>n.
          vset api info ''reservation'' (PInt n)))
        else pureM info) (\<lambda>info.
     bindM (liftR (py_in (PStr ''expandable_reservation'') spec)) (\<lambda>found2.
     bindM
       (if found2 then
          bindM (liftR (py_item spec ''expandable_reservation'')) (\<lambda>expandable_reservation.
          vset api info ''expandableReservation'' (PBool (truthy expandable_reservation)))
        else pureM info) (\<lambda>info.
     bindM (liftR (py_in (PStr ''limit'') spec)) (\<lambda>found3.
     bindM
       (if found3 then
          bindM (liftR (py_item spec ''limit'')) (\<lambda>limit.
          bindM (liftR (py_int limit)) (\<lambda>n2.
          vset api info ''limit'' (PInt n2)))
        else pureM info) (\<lambda>info.
     bindM (liftR (py_in (PStr ''shares_level'') spec)) (\<lambda>found4.
     bindM (if found4 then pureM True else liftR (py_in (PStr ''shares_value'') spec)) (\<lambda>holds_v.
     if holds_v then
       bindM (vnew api ''vim.SharesInfo'' []) (\<lambda>shares.
       bindM (liftR (py_in (PStr ''shares_level'') spec)) (\<lambda>found6.
       bindM
         (if found6 then
            bindM (liftR (py_item spec ''shares_level'')) (\<lambda>shares_level.
            vset api shares ''level'' shares_level)
          else pureM shares) (\<lambda>shares.
       bindM (liftR (py_in (PStr ''shares_value'') spec)) (\<lambda>found7.
       bindM
         (if found7 then
            bindM (liftR (py_item spec ''shares_value'')) (\<lambda>shares_value.
            bindM (liftR (py_int shares_value)) (\<lambda>n3.
            vset api shares ''shares'' (PInt n3)))
          else pureM shares) (\<lambda>shares.
       vset api info ''shares'' shares)))))
     else pureM info)))))))))"

definition vim_resource_pool_set_shares :: "vmodl \<Rightarrow> pyval \<Rightarrow> pyval \<Rightarrow> pyval
  \<Rightarrow> pyval \<Rightarrow> profile \<Rightarrow> pyval io" where
  "vim_resource_pool_set_shares api opts rp_id_or_name cpu memory profile =
     bindM (vim_resource_pool_find_rp api opts rp_id_or_name profile) (\<lambda>rp.
     bindM (vnew api ''vim.ResourceConfigSpec'' []) (\<lambda>config.
     bindM (vim_resource_pool_build_allocation api (py_or cpu (PDict []))) (\<lambda>build_allocation2.
     bindM (vset api config ''cpuAllocation'' build_allocation2) (\<lambda>config.
     bindM (vim_resource_pool_build_allocation api (py_or memory (PDict []))) (\<lambda>build_allocation3.
     bindM (vset api config ''memoryAllocation'' build_allocation3) (\<lambda>config.
     bindM (vget api rp ''name'') (\<lambda>name.
     bindM (vcall api rp ''UpdateConfig'' [] [(''name'', name), (''config'', config)]) (\<lambda>_.
     vim_resource_pool_get_shares api opts rp_id_or_name profile))))))))"

subsection \<open>\<open>clients/vccluster_resource_pool.py\<close>\<close>

definition vccluster_resource_pool_cluster :: "vmodl \<Rightarrow> pyval \<Rightarrow> pyval \<Rightarrow> profile \<Rightarrow> pyval io" where
  "vccluster_resource_pool_cluster api opts name_or_id profile =
     bindM (vim_content api opts profile) (\<lambda>content.
     bindM (vpath api content [''rootFolder'', ''childEntity'']) (\<lambda>childEntity.
     bindM (liftR (py_iter childEntity)) (\<lambda>items.
     or_else
       (first_of (\<lambda>dc.
          if \<not> (is_instance api dc ''vim.Datacenter'') then pureM None
          else
            bindM (vpath api dc [''hostFolder'', ''childEntity'']) (\<lambda>childEntity2.
            bindM (liftR (py_iter childEntity2)) (\<lambda>items2.
            first_of (\<lambda>entity.
              bindM
                (if is_instance api entity ''vim.ClusterComputeResource'' then
                   bindM (vget api entity ''_moId'') (\<lambda>moId.
                   bindM (vget api entity ''name'') (\<lambda>name.
                   pureM (list_ex (py_eq name_or_id) [moId, name])))
                 else pureM False) (\<lambda>holds_v.
              if holds_v then pureM (Some entity) else pureM None)) items2))) items)
       (raiseM (LookupError (''cluster '' @ py_repr name_or_id @ '' not found''))))))"

definition vccluster_resource_pool_find_child_pool :: "vmodl \<Rightarrow> pyval \<Rightarrow> pyval \<Rightarrow> pyval io" where
  "vccluster_resource_pool_find_child_pool api cluster_obj name =
     bindM (vpath api cluster_obj [''resourcePool'', ''resourcePool'']) (\<lambda>resourcePool.
     bindM (liftR (py_iter resourcePool)) (\<lambda>items.
     or_else
       (first_of (\<lambda>rp.
          bindM (vget api rp ''name'') (\<lambda>name2.
          if py_eq name2 name then pureM (Some rp) else pureM None)) items)
       (pureM PNone)))"

definition vccluster_resource_pool_get_or_none :: "vmodl \<Rightarrow> pyval \<Rightarrow> pyval \<Rightarrow> pyval
  \<Rightarrow> profile \<Rightarrow> pyval io" where
  "vccluster_resource_pool_get_or_none api opts cluster name profile =
     bindM (vccluster_resource_pool_cluster api opts cluster profile) (\<lambda>cluster_obj.
     bindM (vccluster_resource_pool_find_child_pool api cluster_obj name) (\<lambda>rp.
     if truthy rp then vget api rp ''_moId'' else pureM PNone))"

definition vccluster_resource_pool_create :: "vmodl \<Rightarrow> pyval \<Rightarrow> pyval \<Rightarrow> pyval \<Rightarrow> profile \<Rightarrow> pyval io" where
  "vccluster_resource_pool_create api opts cluster name profile =
     bindM (vccluster_resource_pool_cluster api opts cluster profile) (\<lambda>cluster_obj.
     bindM (vnew api ''vim.SharesInfo'' [(''level'', PStr ''normal'')]) (\<lambda>sharesInfo.
     bindM
       (vnew api ''vim.ResourceAllocationInfo'' [(''reservation'', PInt 0), (''expandableReservation'', PBool True),
        (''limit'', PInt (-1)), (''shares'', sharesInfo)]) (\<lambda>default_alloc.
     bindM
       (vnew api ''vim.ResourceConfigSpec'' [(''cpuAllocation'', default_alloc), (''memoryAllocation'',
        default_alloc)]) (\<lambda>spec.
     bindM (vget api cluster_obj ''resourcePool'') (\<lambda>resourcePool.
     bindM (vcall api resourcePool ''CreateResourcePool'' [] [(''name'', name), (''spec'', spec)])
       (\<lambda>new_rp.
     vget api new_rp ''_moId''))))))"

definition vccluster_resource_pool_delete :: "vmodl \<Rightarrow> pyval \<Rightarrow> pyval \<Rightarrow> pyval \<Rightarrow> profile \<Rightarrow> pyval io" where
  "vccluster_resource_pool_delete api opts cluster name profile =
     bindM (vccluster_resource_pool_cluster api opts cluster profile) (\<lambda>cluster_obj.
     bindM (vccluster_resource_pool_find_child_pool api cluster_obj name) (\<lambda>rp.
     if rp = PNone then
       raiseM (LookupError (''resource pool '' @ py_repr name @ '' not found under cluster '' @ py_repr
        cluster))
     else
       bindM (vcall api rp ''Destroy_Task'' [] []) (\<lambda>task.
       bindM (vim_wait_for_task api task 300 500) (\<lambda>_.
       pureM PNone))))"

definition vccluster_resource_pool_get_shares :: "vmodl \<Rightarrow> pyval \<Rightarrow> pyval \<Rightarrow> pyval
  \<Rightarrow> profile \<Rightarrow> pyval io" where
  "vccluster_resource_pool_get_shares api opts cluster name profile =
     bindM (vccluster_resource_pool_get_or_none api opts cluster name profile) (\<lambda>rp_id.
     if rp_id = PNone then
       raiseM (LookupError (''resource pool '' @ py_repr name @ '' not found under cluster '' @ py_repr
        cluster))
     else vim_resource_pool_get_shares api opts rp_id profile)"

definition vccluster_resource_pool_set_shares ::
  "vmodl \<Rightarrow> pyval \<Rightarrow> pyval \<Rightarrow> pyval \<Rightarrow> pyval \<Rightarrow> pyval \<Rightarrow> profile \<Rightarrow> pyval io" where
  "vccluster_resource_pool_set_shares api opts cluster name cpu memory profile =
     bindM (vccluster_resource_pool_get_or_none api opts cluster name profile) (\<lambda>rp_id.
     if rp_id = PNone then
       raiseM (LookupError (''resource pool '' @ py_repr name @ '' not found under cluster '' @ py_repr
        cluster))
     else vim_resource_pool_set_shares api opts rp_id cpu memory profile)"

subsection \<open>\<open>clients/vim_vapp.py\<close>\<close>

definition vim_vapp_content :: "vmodl \<Rightarrow> pyval \<Rightarrow> profile \<Rightarrow> pyval io" where
  "vim_vapp_content api opts profile = vim_content api opts profile"

definition vim_vapp_find_vapp :: "vmodl \<Rightarrow> pyval \<Rightarrow> pyval \<Rightarrow> profile \<Rightarrow> pyval io" where
  "vim_vapp_find_vapp api opts name_or_id profile =
     bindM (vim_vapp_content api opts profile) (\<lambda>content.
     bindM (vget api content ''viewManager'') (\<lambda>viewManager.
     bindM (vget api content ''rootFolder'') (\<lambda>rootFolder.
     bindM
       (vcall api viewManager ''CreateContainerView'' [rootFolder, PList [PStr ''vim.VirtualApp''], PBool True] [])
        (\<lambda>container.
     or_else
       (finallyM
          (bindM (vget api container ''view'') (\<lambda>view.
           bindM (liftR (py_iter view)) (\<lambda>items.
           first_of (\<lambda>v.
             bindM (vget api v ''_moId'') (\<lambda>moId.
             bindM (vget api v ''name'') (\<lambda>name.
             if list_ex (py_eq name_or_id) [moId, name] then pureM (Some v) else pureM None))) items)))
          (bindM (vcall api container ''Destroy'' [] []) (\<lambda>_.
           pureM ())))
       (raiseM (LookupError (''vApp '' @ py_repr name_or_id @ '' not found'')))))))"

definition vim_vapp_find_resource_pool :: "vmodl \<Rightarrow> pyval \<Rightarrow> pyval \<Rightarrow> profile \<Rightarrow> pyval io" where
  "vim_vapp_find_resource_pool api opts name_or_id profile =
     bindM (vim_vapp_content api opts profile) (\<lambda>content.
     bindM (vget api content ''viewManager'') (\<lambda>viewManager.
     bindM (vget api content ''rootFolder'') (\<lambda>rootFolder.
     bindM
       (vcall api viewManager ''CreateContainerView'' [rootFolder, PList [PStr ''vim.ResourcePool''], PBool True]
        []) (\<lambda>container.
     or_else
       (finallyM
          (bindM (vget api container ''view'') (\<lambda>view.
           bindM (liftR (py_iter view)) (\<lambda>items.
           first_of (\<lambda>rp.
             bindM (vget api rp ''_moId'') (\<lambda>moId.
             bindM (vget api rp ''name'') (\<lambda>name.
             if list_ex (py_eq name_or_id) [moId, name] then pureM (Some rp) else pureM None))) items)))
          (bindM (vcall api container ''Destroy'' [] []) (\<lambda>_.
           pureM ())))
       (raiseM (LookupError (''resource pool '' @ py_repr name_or_id @ '' not found'')))))))"

definition vim_vapp_to_dict :: "vmodl \<Rightarrow> pyval \<Rightarrow> pyval io" where
  "vim_vapp_to_dict api vapp =
     bindM (vget api vapp ''summary'') (\<lambda>summary.
     bindM (vget api vapp ''vAppConfig'') (\<lambda>cfg.
     bindM (vget api vapp ''_moId'') (\<lambda>moId.
     bindM (vget api vapp ''name'') (\<lambda>name.
     bindM (vget api vapp ''parent'') (\<lambda>parent.
     bindM (if truthy parent then vpath api vapp [''parent'', ''_moId''] else pureM PNone) (\<lambda>x.
     bindM
       (if truthy summary then
          bindM (vget api summary ''overallStatus'') (\<lambda>overallStatus.
          pureM (PStr (py_str overallStatus)))
        else pureM PNone) (\<lambda>x2.
     bindM (vget api vapp ''vm'') (\<lambda>vm.
     bindM
       (if truthy vm then
          bindM (vget api vapp ''vm'') (\<lambda>vm2.
          bindM (liftR (py_iter vm2)) (\<lambda>items2.
          pureM (int (length items2))))
        else pureM 0) (\<lambda>x3.
     bindM (if truthy cfg then vget api cfg ''annotation'' else pureM PNone) (\<lambda>x4.
     bindM
       (if truthy cfg then
          bindM (vget api cfg ''product'') (\<lambda>product_v.
          bindM (liftR (py_iter (py_or product_v (PList [])))) (\<lambda>items3.
          mapM (\<lambda>p.
            bindM (vget api p ''name'') (\<lambda>name2.
            bindM (vget api p ''vendor'') (\<lambda>vendor.
            bindM (vget api p ''version'') (\<lambda>version.
            pureM (PDict [(''name'', name2), (''vendor'', vendor), (''version'', version)]))))) items3))
        else pureM []) (\<lambda>x5.
     pureM (PDict [(''id'', moId), (''name'', name), (''parent'', x), (''overall_status'', x2), (''vm_count'', PInt
       x3), (''annotation'', x4), (''product'', PList x5)]))))))))))))"

definition vim_vapp_list :: "vmodl \<Rightarrow> pyval \<Rightarrow> profile \<Rightarrow> pyval io" where
  "vim_vapp_list api opts profile =
     bindM (vim_vapp_content api opts profile) (\<lambda>content.
     bindM (vget api content ''viewManager'') (\<lambda>viewManager.
     bindM (vget api content ''rootFolder'') (\<lambda>rootFolder.
     bindM
       (vcall api viewManager ''CreateContainerView'' [rootFolder, PList [PStr ''vim.VirtualApp''], PBool True] [])
        (\<lambda>container.
     finallyM
       (bindM (vget api container ''view'') (\<lambda>view.
        bindM (liftR (py_iter view)) (\<lambda>items.
        bindM (mapM (\<lambda>v. vim_vapp_to_dict api v) items) (\<lambda>out.
        pureM (PList out)))))
       (bindM (vcall api container ''Destroy'' [] []) (\<lambda>_.
        pureM ()))))))"

definition vim_vapp_get :: "vmodl \<Rightarrow> pyval \<Rightarrow> pyval \<Rightarrow> profile \<Rightarrow> pyval io" where
  "vim_vapp_get api opts name_or_id profile =
     bindM (vim_vapp_find_vapp api opts name_or_id profile) (\<lambda>find_vapp2.
     vim_vapp_to_dict api find_vapp2)"

definition vim_vapp_get_or_none :: "vmodl \<Rightarrow> pyval \<Rightarrow> pyval \<Rightarrow> profile \<Rightarrow> pyval io" where
  "vim_vapp_get_or_none api opts name_or_id profile =
     tryM
       (vim_vapp_get api opts name_or_id profile)
       (\<lambda>exc. if is_LookupError exc then pureM PNone else raiseM exc)"

definition vim_vapp_create :: "vmodl \<Rightarrow> pyval \<Rightarrow> pyval \<Rightarrow> pyval \<Rightarrow> pyval \<Rightarrow> profile \<Rightarrow> pyval io" where
  "vim_vapp_create api opts name parent_resource_pool annotation profile =
     bindM (vim_vapp_find_resource_pool api opts parent_resource_pool profile) (\<lambda>rp.
     bindM (vnew api ''vim.vApp.VAppConfigSpec'' []) (\<lambda>cfg_spec.
     bindM
       (if annotation \<noteq> PNone then vset api cfg_spec ''annotation'' annotation else pureM cfg_spec)
        (\<lambda>cfg_spec.
     bindM (vnew api ''vim.ResourceConfigSpec'' []) (\<lambda>res_spec.
     bindM (vnew api ''vim.SharesInfo'' [(''level'', PStr ''normal'')]) (\<lambda>sharesInfo.
     bindM
       (vnew api ''vim.ResourceAllocationInfo'' [(''reservation'', PInt 0), (''expandableReservation'', PBool True),
        (''limit'', PInt (-1)), (''shares'', sharesInfo)]) (\<lambda>resourceAllocationInfo.
     bindM (vset api res_spec ''cpuAllocation'' resourceAllocationInfo) (\<lambda>res_spec.
     bindM (vnew api ''vim.SharesInfo'' [(''level'', PStr ''normal'')]) (\<lambda>sharesInfo2.
     bindM
       (vnew api ''vim.ResourceAllocationInfo'' [(''reservation'', PInt 0), (''expandableReservation'', PBool True),
        (''limit'', PInt (-1)), (''shares'', sharesInfo2)]) (\<lambda>resourceAllocationInfo2.
     bindM (vset api res_spec ''memoryAllocation'' resourceAllocationInfo2) (\<lambda>res_spec.
     bindM
       (vcall api rp ''CreateVApp'' [] [(''name'', name), (''resSpec'', res_spec), (''configSpec'', cfg_spec),
        (''vmFolder'', PNone)]) (\<lambda>new_vapp.
     vim_vapp_to_dict api new_vapp)))))))))))"

definition vim_vapp_power_on :: "vmodl \<Rightarrow> pyval \<Rightarrow> pyval \<Rightarrow> profile \<Rightarrow> pyval io" where
  "vim_vapp_power_on api opts name_or_id profile =
     bindM (vim_vapp_find_vapp api opts name_or_id profile) (\<lambda>v.
     bindM (vcall api v ''PowerOnVApp_Task'' [] []) (\<lambda>task.
     vget api task ''_moId''))"

definition vim_vapp_power_off :: "vmodl \<Rightarrow> pyval \<Rightarrow> pyval \<Rightarrow> pyval \<Rightarrow> profile \<Rightarrow> pyval io" where
  "vim_vapp_power_off api opts name_or_id force profile =
     bindM (vim_vapp_find_vapp api opts name_or_id profile) (\<lambda>v.
     bindM (vcall api v ''PowerOffVApp_Task'' [] [(''force'', PBool (truthy force))]) (\<lambda>task.
     vget api task ''_moId''))"

definition vim_vapp_suspend :: "vmodl \<Rightarrow> pyval \<Rightarrow> pyval \<Rightarrow> profile \<Rightarrow> pyval io" where
  "vim_vapp_suspend api opts name_or_id profile =
     bindM (vim_vapp_find_vapp api opts name_or_id profile) (\<lambda>v.
     bindM (vcall api v ''SuspendVApp_Task'' [] []) (\<lambda>task.
     vget api task ''_moId''))"

definition vim_vapp_delete :: "vmodl \<Rightarrow> pyval \<Rightarrow> pyval \<Rightarrow> profile \<Rightarrow> pyval io" where
  "vim_vapp_delete api opts name_or_id profile =
     bindM (vim_vapp_find_vapp api opts name_or_id profile) (\<lambda>v.
     bindM (vcall api v ''Destroy_Task'' [] []) (\<lambda>task.
     vget api task ''_moId''))"

definition vim_vapp_update :: "vmodl \<Rightarrow> pyval \<Rightarrow> pyval \<Rightarrow> pyval \<Rightarrow> profile \<Rightarrow> pyval io" where
  "vim_vapp_update api opts name_or_id annotation profile =
     bindM (vim_vapp_find_vapp api opts name_or_id profile) (\<lambda>v.
     bindM (vnew api ''vim.vApp.VAppConfigSpec'' []) (\<lambda>cfg_spec.
     bindM
       (if annotation \<noteq> PNone then vset api cfg_spec ''annotation'' annotation else pureM cfg_spec)
        (\<lambda>cfg_spec.
     bindM (vcall api v ''UpdateVAppConfig'' [] [(''spec'', cfg_spec)]) (\<lambda>_.
     vim_vapp_to_dict api v))))"

subsection \<open>\<open>clients/vim_first_class_disk.py\<close>\<close>

definition vim_first_class_disk_vsom :: "vmodl \<Rightarrow> pyval \<Rightarrow> profile \<Rightarrow> pyval io" where
  "vim_first_class_disk_vsom api opts profile =
     bindM (vim_content api opts profile) (\<lambda>content.
     vget api content ''vStorageObjectManager'')"

definition vim_first_class_disk_find_datastore :: "vmodl \<Rightarrow> pyval \<Rightarrow> pyval \<Rightarrow> profile \<Rightarrow> pyval io" where
  "vim_first_class_disk_find_datastore api opts name_or_id profile =
     bindM (vim_content api opts profile) (\<lambda>content.
     bindM (vget api content ''viewManager'') (\<lambda>viewManager.
     bindM (vget api content ''rootFolder'') (\<lambda>rootFolder.
     bindM
       (vcall api viewManager ''CreateContainerView'' [rootFolder, PList [PStr ''vim.Datastore''], PBool True] [])
        (\<lambda>container.
     or_else
       (finallyM
          (bindM (vget api container ''view'') (\<lambda>view.
           bindM (liftR (py_iter view)) (\<lambda>items.
           first_of (\<lambda>ds.
             bindM (vget api ds ''_moId'') (\<lambda>moId.
             bindM (vget api ds ''name'') (\<lambda>name.
             if list_ex (py_eq name_or_id) [moId, name] then pureM (Some ds) else pureM None))) items)))
          (bindM (vcall api container ''Destroy'' [] []) (\<lambda>_.
           pureM ())))
       (raiseM (LookupError (''datastore '' @ py_repr name_or_id @ '' not found'')))))))"

definition vim_first_class_disk_find_vm :: "vmodl \<Rightarrow> pyval \<Rightarrow> pyval \<Rightarrow> profile \<Rightarrow> pyval io" where
  "vim_first_class_disk_find_vm api opts name_or_id profile =
     bindM (vim_content api opts profile) (\<lambda>content.
     bindM (vget api content ''viewManager'') (\<lambda>viewManager.
     bindM (vget api content ''rootFolder'') (\<lambda>rootFolder.
     bindM
       (vcall api viewManager ''CreateContainerView'' [rootFolder, PList [PStr ''vim.VirtualMachine''], PBool True]
        []) (\<lambda>container.
     or_else
       (finallyM
          (bindM (vget api container ''view'') (\<lambda>view.
           bindM (liftR (py_iter view)) (\<lambda>items.
           first_of (\<lambda>vm.
             bindM (vget api vm ''_moId'') (\<lambda>moId.
             bindM (vget api vm ''name'') (\<lambda>name.
             if list_ex (py_eq name_or_id) [moId, name] then pureM (Some vm) else pureM None))) items)))
          (bindM (vcall api container ''Destroy'' [] []) (\<lambda>_.
           pureM ())))
       (raiseM (LookupError (''VM '' @ py_repr name_or_id @ '' not found'')))))))"

definition vim_first_class_disk_to_dict :: "vmodl \<Rightarrow> pyval \<Rightarrow> pyval io" where
  "vim_first_class_disk_to_dict api obj =
     bindM (vget api obj ''config'') (\<lambda>cfg.
     bindM (vget api cfg ''backing'') (\<lambda>backing.
     bindM (vpath api cfg [''id'', ''id'']) (\<lambda>ident.
     bindM (vget api cfg ''name'') (\<lambda>name.
     bindM (vget api cfg ''capacityInMB'') (\<lambda>capacityInMB.
     bindM (liftR (py_int capacityInMB)) (\<lambda>n.
     bindM (vget api cfg ''createTime'') (\<lambda>createTime.
     bindM
       (if truthy createTime then
          bindM (vget api cfg ''createTime'') (\<lambda>createTime2.
          vcall api createTime2 ''isoformat'' [] [])
        else pureM PNone) (\<lambda>x.
     bindM (vget_or api cfg ''keepAfterDeleteVm'' (PBool False)) (\<lambda>keepAfterDeleteVm.
     bindM (vget api cfg ''consumptionType'') (\<lambda>consumptionType.
     bindM (liftR (py_iter (py_or consumptionType (PList [])))) (\<lambda>items2.
     bindM (vget_or api cfg ''consumerId'' PNone) (\<lambda>consumerId.
     bindM (liftR (py_iter (py_or consumerId (PList [])))) (\<lambda>items3.
     bindM (mapM (\<lambda>c. vget api c ''id'') items3) (\<lambda>out.
     bindM (vget api cfg ''iofilter'') (\<lambda>iofilter.
     bindM (liftR (py_iter (py_or iofilter (PList [])))) (\<lambda>items4.
     bindM
       (if truthy backing then
          bindM (vget api backing ''datastore'') (\<lambda>datastore.
          pureM (truthy datastore))
        else pureM False) (\<lambda>holds_v.
     bindM (if holds_v then vpath api backing [''datastore'', ''_moId''] else pureM PNone) (\<lambda>x2.
     bindM (vget_or api backing ''filePath'' PNone) (\<lambda>filePath.
     bindM (vget_or api backing ''provisioningType'' PNone) (\<lambda>provisioningType.
     pureM (PDict [(''id'', ident), (''name'', name), (''capacity_bytes'', PInt (n * 1024 * 1024)),
       (''create_time'', x), (''keep_after_delete_vm'', PBool (truthy keepAfterDeleteVm)), (''consumption_type'',
        PList items2), (''consumer_id'', PList out), (''iofilter'', PList items4), (''datastore'', x2),
        (''file_path'', filePath), (''provisioning_type'', provisioningType)])))))))))))))))))))))"

definition vim_first_class_disk_list :: "vmodl \<Rightarrow> pyval \<Rightarrow> pyval \<Rightarrow> profile \<Rightarrow> pyval io" where
  "vim_first_class_disk_list api opts datastore profile =
     bindM (vim_first_class_disk_find_datastore api opts datastore profile) (\<lambda>ds.
     bindM (vim_first_class_disk_vsom api opts profile) (\<lambda>vsom.
     bindM (vcall api vsom ''ListVStorageObject'' [] [(''datastore'', ds)]) (\<lambda>listVStorageObject.
     let ids = py_or listVStorageObject (PList []) in
     let out = [] in
     bindM (liftR (py_iter ids)) (\<lambda>items.
     bindM
       (foldM (\<lambda>vsid out.
          attempt (\<lambda>exc. is_fault api ''vim.fault.NotFound'' exc)
            (bindM (vcall api vsom ''RetrieveVStorageObject'' [] [(''id'', vsid), (''datastore'', ds)])
        (\<lambda>obj.
             bindM (vim_first_class_disk_to_dict api obj) (\<lambda>to_dict2.
             let out = out @ [to_dict2] in
             pureM (obj, out))))
            (\<lambda>(obj, out).
             pureM out)
            (\<lambda>_.
             pureM out)) items out) (\<lambda>out.
     pureM (PList out))))))"

definition vim_first_class_disk_get :: "vmodl \<Rightarrow> pyval \<Rightarrow> pyval \<Rightarrow> pyval \<Rightarrow> profile \<Rightarrow> pyval io" where
  "vim_first_class_disk_get api opts vstorage_object_id datastore profile =
     bindM (vim_first_class_disk_find_datastore api opts datastore profile) (\<lambda>ds.
     bindM (vim_first_class_disk_vsom api opts profile) (\<lambda>vsom.
     bindM (vnew api ''vim.vslm.ID'' [(''id'', vstorage_object_id)]) (\<lambda>vid.
     bindM
       (vcall api vsom ''RetrieveVStorageObject'' [] [(''id'', vid), (''datastore'', ds)])
        (\<lambda>retrieveVStorageObject.
     vim_first_class_disk_to_dict api retrieveVStorageObject))))"

definition vim_first_class_disk_get_or_none :: "vmodl \<Rightarrow> pyval \<Rightarrow> pyval \<Rightarrow> pyval \<Rightarrow> profile \<Rightarrow> pyval io" where
  "vim_first_class_disk_get_or_none api opts vstorage_object_id datastore profile =
     tryM
       (vim_first_class_disk_get api opts vstorage_object_id datastore profile)
       (\<lambda>exc. if is_LookupError exc \<or> is_fault api ''vim.fault.NotFound'' exc then
           pureM PNone
         else raiseM exc)"

definition vim_first_class_disk_create ::
  "vmodl \<Rightarrow> pyval \<Rightarrow> pyval \<Rightarrow> pyval \<Rightarrow> pyval \<Rightarrow> pyval \<Rightarrow> pyval \<Rightarrow> pyval \<Rightarrow> profile \<Rightarrow> pyval io" where
  "vim_first_class_disk_create api opts name datastore capacity_gb provisioning profile_id keep_after_delete_vm
    profile =
     bindM (vim_first_class_disk_find_datastore api opts datastore profile) (\<lambda>ds.
     bindM (vim_first_class_disk_vsom api opts profile) (\<lambda>vsom.
     bindM (vnew api ''vim.vslm.CreateSpec'' []) (\<lambda>spec.
     bindM (vset api spec ''name'' name) (\<lambda>spec.
     bindM (liftR (py_int capacity_gb)) (\<lambda>n.
     bindM (vset api spec ''capacityInMB'' (PInt (n * 1024))) (\<lambda>spec.
     bindM (vset api spec ''keepAfterDeleteVm'' (PBool (truthy keep_after_delete_vm))) (\<lambda>spec.
     bindM (vnew api ''vim.vslm.CreateSpec.DiskFileBackingSpec'' []) (\<lambda>backing.
     bindM (vset api backing ''datastore'' ds) (\<lambda>backing.
     bindM (vset api backing ''provisioningType'' provisioning) (\<lambda>backing.
     bindM (vset api spec ''backingSpec'' backing) (\<lambda>spec.
     bindM
       (if truthy profile_id then
          bindM (liftR (py_iter (if is_list profile_id then profile_id else PList [profile_id])))
        (\<lambda>items2.
          bindM (mapM (\<lambda>pid. vnew api ''vim.vm.DefinedProfileSpec'' [(''profileId'', pid)]) items2) (\<lambda>out.
          vset api spec ''profile'' (PList out)))
        else pureM spec) (\<lambda>spec.
     bindM (vcall api vsom ''CreateDisk_Task'' [] [(''spec'', spec)]) (\<lambda>task.
     vget api task ''_moId'')))))))))))))"

definition vim_first_class_disk_delete :: "vmodl \<Rightarrow> pyval \<Rightarrow> pyval \<Rightarrow> pyval \<Rightarrow> profile \<Rightarrow> pyval io" where
  "vim_first_class_disk_delete api opts vstorage_object_id datastore profile =
     bindM (vim_first_class_disk_find_datastore api opts datastore profile) (\<lambda>ds.
     bindM (vim_first_class_disk_vsom api opts profile) (\<lambda>vsom.
     bindM (vnew api ''vim.vslm.ID'' [(''id'', vstorage_object_id)]) (\<lambda>vid.
     bindM (vcall api vsom ''DeleteVStorageObject_Task'' [] [(''id'', vid), (''datastore'', ds)]) (\<lambda>task.
     vget api task ''_moId''))))"

definition vim_first_class_disk_rename :: "vmodl \<Rightarrow> pyval \<Rightarrow> pyval \<Rightarrow> pyval
  \<Rightarrow> pyval \<Rightarrow> profile \<Rightarrow> pyval io" where
  "vim_first_class_disk_rename api opts vstorage_object_id datastore new_name profile =
     bindM (vim_first_class_disk_find_datastore api opts datastore profile) (\<lambda>ds.
     bindM (vim_first_class_disk_vsom api opts profile) (\<lambda>vsom.
     bindM (vnew api ''vim.vslm.ID'' [(''id'', vstorage_object_id)]) (\<lambda>vid.
     bindM
       (vcall api vsom ''RenameVStorageObject'' [] [(''id'', vid), (''datastore'', ds), (''name'', new_name)])
        (\<lambda>_.
     pureM (PBool True)))))"

definition vim_first_class_disk_extend :: "vmodl \<Rightarrow> pyval \<Rightarrow> pyval \<Rightarrow> pyval
  \<Rightarrow> pyval \<Rightarrow> profile \<Rightarrow> pyval io" where
  "vim_first_class_disk_extend api opts vstorage_object_id datastore new_capacity_gb profile =
     bindM (vim_first_class_disk_find_datastore api opts datastore profile) (\<lambda>ds.
     bindM (vim_first_class_disk_vsom api opts profile) (\<lambda>vsom.
     bindM (vnew api ''vim.vslm.ID'' [(''id'', vstorage_object_id)]) (\<lambda>vid.
     bindM (liftR (py_int new_capacity_gb)) (\<lambda>n.
     bindM
       (vcall api vsom ''ExtendDisk_Task'' [] [(''id'', vid), (''datastore'', ds), (''newCapacityInMB'', PInt (n *
        1024))]) (\<lambda>task.
     vget api task ''_moId'')))))"

definition vim_first_class_disk_register :: "vmodl \<Rightarrow> pyval \<Rightarrow> pyval \<Rightarrow> pyval
  \<Rightarrow> pyval \<Rightarrow> profile \<Rightarrow> pyval io" where
  "vim_first_class_disk_register api opts datastore path name profile =
     bindM (vim_first_class_disk_vsom api opts profile) (\<lambda>vsom.
     bindM (vcall api vsom ''RegisterDisk'' [] [(''path'', path), (''name'', name)]) (\<lambda>obj.
     vim_first_class_disk_to_dict api obj))"

definition vim_first_class_disk_set_keep_after_delete_vm ::
  "vmodl \<Rightarrow> pyval \<Rightarrow> pyval \<Rightarrow> pyval \<Rightarrow> pyval \<Rightarrow> profile \<Rightarrow> pyval io" where
  "vim_first_class_disk_set_keep_after_delete_vm api opts vstorage_object_id datastore keep profile =
     bindM (vim_first_class_disk_find_datastore api opts datastore profile) (\<lambda>ds.
     bindM (vim_first_class_disk_vsom api opts profile) (\<lambda>vsom.
     bindM (vnew api ''vim.vslm.ID'' [(''id'', vstorage_object_id)]) (\<lambda>vid.
     bindM
       (if truthy keep then
          bindM
            (vcall api vsom ''SetVStorageObjectControlFlags'' [] [(''id'', vid), (''datastore'', ds),
        (''controlFlags'', PList [PStr ''keepAfterDeleteVm''])]) (\<lambda>_.
          pureM ())
        else
          bindM
            (vcall api vsom ''ClearVStorageObjectControlFlags'' [] [(''id'', vid), (''datastore'', ds),
        (''controlFlags'', PList [PStr ''keepAfterDeleteVm''])]) (\<lambda>_.
          pureM ())) (\<lambda>_.
     pureM (PBool True)))))"

definition vim_first_class_disk_attach_to_vm ::
  "vmodl \<Rightarrow> pyval \<Rightarrow> pyval \<Rightarrow> pyval \<Rightarrow> pyval \<Rightarrow> pyval \<Rightarrow> pyval \<Rightarrow> profile \<Rightarrow> pyval io" where
  "vim_first_class_disk_attach_to_vm api opts vm vstorage_object_id datastore controller_key unit_number profile
    =
     bindM (vim_first_class_disk_find_vm api opts vm profile) (\<lambda>vm_obj.
     bindM (vim_first_class_disk_find_datastore api opts datastore profile) (\<lambda>ds.
     bindM (vnew api ''vim.vslm.ID'' [(''id'', vstorage_object_id)]) (\<lambda>vid.
     let kwargs = [(''diskId'', vid), (''datastore'', ds)] in
     bindM
       (if controller_key \<noteq> PNone then
          bindM (liftR (py_int controller_key)) (\<lambda>n.
          pureM (dset kwargs ''controllerKey'' (PInt n)))
        else pureM kwargs) (\<lambda>kwargs.
     bindM
       (if unit_number \<noteq> PNone then
          bindM (liftR (py_int unit_number)) (\<lambda>n2.
          pureM (dset kwargs ''unitNumber'' (PInt n2)))
        else pureM kwargs) (\<lambda>kwargs.
     bindM (vcall api vm_obj ''AttachDisk_Task'' [] kwargs) (\<lambda>task.
     vget api task ''_moId''))))))"

definition vim_first_class_disk_detach_from_vm :: "vmodl \<Rightarrow> pyval \<Rightarrow> pyval \<Rightarrow> pyval
  \<Rightarrow> profile \<Rightarrow> pyval io" where
  "vim_first_class_disk_detach_from_vm api opts vm vstorage_object_id profile =
     bindM (vim_first_class_disk_find_vm api opts vm profile) (\<lambda>vm_obj.
     bindM (vnew api ''vim.vslm.ID'' [(''id'', vstorage_object_id)]) (\<lambda>vid.
     bindM (vcall api vm_obj ''DetachDisk_Task'' [] [(''diskId'', vid)]) (\<lambda>task.
     vget api task ''_moId'')))"

subsection \<open>\<open>clients/vim_infra_profile.py\<close>\<close>

definition vim_infra_profile_profile_mgr :: "vmodl \<Rightarrow> pyval \<Rightarrow> profile \<Rightarrow> pyval io" where
  "vim_infra_profile_profile_mgr api opts profile =
     bindM (vim_content api opts profile) (\<lambda>content.
     vget api content ''hostProfileManager'')"

definition vim_infra_profile_to_dict :: "vmodl \<Rightarrow> pyval \<Rightarrow> pyval io" where
  "vim_infra_profile_to_dict api p =
     bindM (vget api p ''_moId'') (\<lambda>moId.
     bindM (vget api p ''name'') (\<lambda>name.
     bindM (vget api p ''config'') (\<lambda>config.
     bindM
       (if truthy config then
          bindM (vget api p ''config'') (\<lambda>config2.
          vget_or api config2 ''annotation'' PNone)
        else pureM PNone) (\<lambda>x.
     bindM (vget_or api p ''enabled'' (PBool True)) (\<lambda>enabled.
     bindM (vget_or api p ''complyStatus'' PNone) (\<lambda>complyStatus.
     bindM (vget api p ''entity'') (\<lambda>entity.
     bindM (liftR (py_iter (py_or entity (PList [])))) (\<lambda>items2.
     pureM (PDict [(''id'', moId), (''name'', name), (''description'', x), (''enabled'', PBool (truthy enabled)),
       (''complyStatus'', complyStatus), (''entity_count'', PInt (int (length items2)))])))))))))"

definition vim_infra_profile_list :: "vmodl \<Rightarrow> pyval \<Rightarrow> profile \<Rightarrow> pyval io" where
  "vim_infra_profile_list api opts profile =
     bindM (vim_infra_profile_profile_mgr api opts profile) (\<lambda>profile_mgr2.
     bindM (vget api profile_mgr2 ''profile'') (\<lambda>profile2.
     bindM (liftR (py_iter (py_or profile2 (PList [])))) (\<lambda>items.
     bindM (mapM (\<lambda>p. vim_infra_profile_to_dict api p) items) (\<lambda>out.
     pureM (PList out)))))"

definition vim_infra_profile_get :: "vmodl \<Rightarrow> pyval \<Rightarrow> pyval \<Rightarrow> profile \<Rightarrow> pyval io" where
  "vim_infra_profile_get api opts profile_id_or_name profile =
     bindM (vim_infra_profile_profile_mgr api opts profile) (\<lambda>profile_mgr2.
     bindM (vget api profile_mgr2 ''profile'') (\<lambda>profile2.
     bindM (liftR (py_iter (py_or profile2 (PList [])))) (\<lambda>items.
     or_else
       (first_of (\<lambda>p.
          bindM (vget api p ''_moId'') (\<lambda>moId.
          bindM (vget api p ''name'') (\<lambda>name.
          if list_ex (py_eq profile_id_or_name) [moId, name] then
            bindM (vim_infra_profile_to_dict api p) (\<lambda>answer.
            pureM (Some answer))
          else pureM None))) items)
       (raiseM (LookupError (''host profile '' @ py_repr profile_id_or_name @ '' not found''))))))"

definition vim_infra_profile_get_or_none :: "vmodl \<Rightarrow> pyval \<Rightarrow> pyval \<Rightarrow> profile \<Rightarrow> pyval io" where
  "vim_infra_profile_get_or_none api opts profile_id_or_name profile =
     tryM
       (vim_infra_profile_get api opts profile_id_or_name profile)
       (\<lambda>exc. if is_LookupError exc then pureM PNone else raiseM exc)"

definition vim_infra_profile_export :: "vmodl \<Rightarrow> pyval \<Rightarrow> pyval \<Rightarrow> profile \<Rightarrow> pyval io" where
  "vim_infra_profile_export api opts profile_id_or_name profile =
     bindM (vim_infra_profile_profile_mgr api opts profile) (\<lambda>profile_mgr2.
     bindM (vget api profile_mgr2 ''profile'') (\<lambda>profile2.
     bindM (liftR (py_iter (py_or profile2 (PList [])))) (\<lambda>items.
     or_else
       (first_of (\<lambda>p.
          bindM (vget api p ''_moId'') (\<lambda>moId.
          bindM (vget api p ''name'') (\<lambda>name.
          if list_ex (py_eq profile_id_or_name) [moId, name] then
            bindM (vcall api p ''ExportProfile'' [] []) (\<lambda>answer.
            pureM (Some answer))
          else pureM None))) items)
       (raiseM (LookupError (''host profile '' @ py_repr profile_id_or_name @ '' not found''))))))"

definition vim_infra_profile_check_compliance :: "vmodl \<Rightarrow> pyval \<Rightarrow> pyval \<Rightarrow> profile \<Rightarrow> pyval io" where
  "vim_infra_profile_check_compliance api opts profile_id_or_name profile =
     bindM (vim_infra_profile_profile_mgr api opts profile) (\<lambda>profile_mgr2.
     bindM (vget api profile_mgr2 ''profile'') (\<lambda>profile2.
     bindM (liftR (py_iter (py_or profile2 (PList [])))) (\<lambda>items2.
     or_else
       (first_of (\<lambda>p.
          bindM (vget api p ''_moId'') (\<lambda>moId.
          bindM (vget api p ''name'') (\<lambda>name.
          if list_ex (py_eq profile_id_or_name) [moId, name] then
            bindM (vget api p ''entity'') (\<lambda>entity.
            bindM (liftR (py_iter (py_or entity (PList [])))) (\<lambda>items3.
            bindM (vcall api p ''CheckProfileCompliance_Task'' [] [(''entity'', PList items3)]) (\<lambda>task.
            bindM (vget api task ''_moId'') (\<lambda>moId2.
            pureM (Some moId2)))))
          else pureM None))) items2)
       (raiseM (LookupError (''host profile '' @ py_repr profile_id_or_name @ '' not found''))))))"

subsection \<open>Functions that only read\<close>

lemma vsan_cluster_get_reads [vim_intros]: "observed held api \<Longrightarrow> keeps (leaves held) (vsan_cluster_get api opts cluster profile)"
  unfolding vsan_cluster_get_def in_view_folds split_def by (intro vim_intros; (assumption | simp add: READING_def))

lemma vsan_fault_domain_list_reads [vim_intros]: "observed held api \<Longrightarrow> keeps (leaves held) (vsan_fault_domain_list api opts cluster profile)"
  unfolding vsan_fault_domain_list_def in_view_folds split_def by (intro vim_intros; (assumption | simp add: READING_def))

lemma vsan_file_service_enabled_reads [vim_intros]: "observed held api \<Longrightarrow> keeps (leaves held) (vsan_file_service_enabled api opts cluster profile)"
  unfolding vsan_file_service_enabled_def in_view_folds split_def by (intro vim_intros; (assumption | simp add: READING_def))

lemma vsan_file_service_list_domains_reads [vim_intros]: "observed held api \<Longrightarrow> keeps (leaves held) (vsan_file_service_list_domains api opts cluster profile)"
  unfolding vsan_file_service_list_domains_def in_view_folds split_def by (intro vim_intros; (assumption | simp add: READING_def))

lemma vsan_file_service_domain_exists_reads [vim_intros]: "observed held api \<Longrightarrow> keeps (leaves held) (vsan_file_service_domain_exists api opts cluster domain_name profile)"
  unfolding vsan_file_service_domain_exists_def in_view_folds split_def by (intro vim_intros; (assumption | simp add: READING_def))

lemma vim_cluster_config_cluster_reads [vim_intros]: "observed held api \<Longrightarrow> keeps (leaves held) (vim_cluster_config_cluster api opts name profile)"
  unfolding vim_cluster_config_cluster_def in_view_folds split_def by (intro vim_intros; (assumption | simp add: READING_def))

lemma vim_cluster_config_drs_get_reads [vim_intros]: "observed held api \<Longrightarrow> keeps (leaves held) (vim_cluster_config_drs_get api opts cluster profile)"
  unfolding vim_cluster_config_drs_get_def in_view_folds split_def by (intro vim_intros; (assumption | simp add: READING_def))

lemma vim_cluster_config_ha_get_reads [vim_intros]: "observed held api \<Longrightarrow> keeps (leaves held) (vim_cluster_config_ha_get api opts cluster profile)"
  unfolding vim_cluster_config_ha_get_def in_view_folds split_def by (intro vim_intros; (assumption | simp add: READING_def))

lemma vim_cluster_config_evc_get_reads [vim_intros]: "observed held api \<Longrightarrow> keeps (leaves held) (vim_cluster_config_evc_get api opts cluster profile)"
  unfolding vim_cluster_config_evc_get_def in_view_folds split_def by (intro vim_intros; (assumption | simp add: READING_def))

lemma vim_cluster_evc_cluster_reads [vim_intros]: "observed held api \<Longrightarrow> keeps (leaves held) (vim_cluster_evc_cluster api opts name_or_id profile)"
  unfolding vim_cluster_evc_cluster_def in_view_folds split_def by (intro vim_intros; (assumption | simp add: READING_def))

lemma vim_cluster_evc_evc_mgr_reads [vim_intros]: "observed held api \<Longrightarrow> keeps (leaves held) (vim_cluster_evc_evc_mgr api cluster)"
  unfolding vim_cluster_evc_evc_mgr_def in_view_folds split_def by (intro vim_intros; (assumption | simp add: READING_def))

lemma vim_cluster_evc_get_reads [vim_intros]: "observed held api \<Longrightarrow> keeps (leaves held) (vim_cluster_evc_get api opts cluster profile)"
  unfolding vim_cluster_evc_get_def in_view_folds split_def by (intro vim_intros; (assumption | simp add: READING_def))

lemma vim_drs_rule_cluster_reads [vim_intros]: "observed held api \<Longrightarrow> keeps (leaves held) (vim_drs_rule_cluster api opts cluster_name profile)"
  unfolding vim_drs_rule_cluster_def in_view_folds split_def by (intro vim_intros; (assumption | simp add: READING_def))

lemma vim_drs_rule_to_dict_reads [vim_intros]: "observed held api \<Longrightarrow> keeps (leaves held) (vim_drs_rule_to_dict api rule)"
  unfolding vim_drs_rule_to_dict_def in_view_folds split_def by (intro vim_intros; (assumption | simp add: READING_def))

lemma vim_drs_rule_get_reads [vim_intros]: "observed held api \<Longrightarrow> keeps (leaves held) (vim_drs_rule_get api opts cluster name profile)"
  unfolding vim_drs_rule_get_def in_view_folds split_def by (intro vim_intros; (assumption | simp add: READING_def))

lemma vim_drs_rule_get_or_none_reads [vim_intros]: "observed held api \<Longrightarrow> keeps (leaves held) (vim_drs_rule_get_or_none api opts cluster name profile)"
  unfolding vim_drs_rule_get_or_none_def in_view_folds split_def by (intro vim_intros; (assumption | simp add: READING_def))

lemma vim_drs_rule_get_group_reads [vim_intros]: "observed held api \<Longrightarrow> keeps (leaves held) (vim_drs_rule_get_group api opts cluster name profile)"
  unfolding vim_drs_rule_get_group_def in_view_folds split_def by (intro vim_intros; (assumption | simp add: READING_def))

lemma vim_drs_rule_get_group_or_none_reads [vim_intros]: "observed held api \<Longrightarrow> keeps (leaves held) (vim_drs_rule_get_group_or_none api opts cluster name profile)"
  unfolding vim_drs_rule_get_group_or_none_def in_view_folds split_def by (intro vim_intros; (assumption | simp add: READING_def))

lemma vim_dvs_dvs_reads [vim_intros]: "observed held api \<Longrightarrow> keeps (leaves held) (vim_dvs_dvs api opts name_or_id profile)"
  unfolding vim_dvs_dvs_def in_view_folds split_def by (intro vim_intros; (assumption | simp add: READING_def))

lemma vim_dvs_to_dict_reads [vim_intros]: "observed held api \<Longrightarrow> keeps (leaves held) (vim_dvs_to_dict api dvs)"
  unfolding vim_dvs_to_dict_def in_view_folds split_def by (intro vim_intros; (assumption | simp add: READING_def))

lemma vim_dvs_list_reads [vim_intros]: "observed held api \<Longrightarrow> keeps (leaves held) (vim_dvs_list api opts profile)"
  unfolding vim_dvs_list_def in_view_folds split_def by (intro vim_intros; (assumption | simp add: READING_def))

lemma vim_dvs_get_reads [vim_intros]: "observed held api \<Longrightarrow> keeps (leaves held) (vim_dvs_get api opts name_or_id profile)"
  unfolding vim_dvs_get_def in_view_folds split_def by (intro vim_intros; (assumption | simp add: READING_def))

lemma vim_dvs_get_or_none_reads [vim_intros]: "observed held api \<Longrightarrow> keeps (leaves held) (vim_dvs_get_or_none api opts name_or_id profile)"
  unfolding vim_dvs_get_or_none_def in_view_folds split_def by (intro vim_intros; (assumption | simp add: READING_def))

lemma vim_dvs_portgroup_dvs_reads [vim_intros]: "observed held api \<Longrightarrow> keeps (leaves held) (vim_dvs_portgroup_dvs api opts name_or_id profile)"
  unfolding vim_dvs_portgroup_dvs_def in_view_folds split_def by (intro vim_intros; (assumption | simp add: READING_def))

lemma vim_dvs_portgroup_dpg_reads [vim_intros]: "observed held api \<Longrightarrow> keeps (leaves held) (vim_dvs_portgroup_dpg api opts dvs_name_or_id name profile)"
  unfolding vim_dvs_portgroup_dpg_def in_view_folds split_def by (intro vim_intros; (assumption | simp add: READING_def))

lemma teaming_field_reads [vim_intros]: "observed held api \<Longrightarrow> keeps (leaves held) (teaming_field api teaming field)"
  unfolding teaming_field_def in_view_folds split_def by (intro vim_intros; (assumption | simp add: READING_def))

lemma teaming_uplinks_reads [vim_intros]: "observed held api \<Longrightarrow> keeps (leaves held) (teaming_uplinks api order field)"
  unfolding teaming_uplinks_def in_view_folds split_def by (intro vim_intros; (assumption | simp add: READING_def))

lemma vim_dvs_portgroup_teaming_to_dict_reads [vim_intros]: "observed held api \<Longrightarrow> keeps (leaves held) (vim_dvs_portgroup_teaming_to_dict api teaming)"
  unfolding vim_dvs_portgroup_teaming_to_dict_def in_view_folds split_def by (intro vim_intros; (assumption | simp add: READING_def))

lemma vim_dvs_portgroup_to_dict_reads [vim_intros]: "observed held api \<Longrightarrow> keeps (leaves held) (vim_dvs_portgroup_to_dict api pg)"
  unfolding vim_dvs_portgroup_to_dict_def in_view_folds split_def by (intro vim_intros; (assumption | simp add: READING_def))

lemma vim_dvs_portgroup_get_reads [vim_intros]: "observed held api \<Longrightarrow> keeps (leaves held) (vim_dvs_portgroup_get api opts dvs_name_or_id name profile)"
  unfolding vim_dvs_portgroup_get_def in_view_folds split_def by (intro vim_intros; (assumption | simp add: READING_def))

lemma vim_dvs_portgroup_get_or_none_reads [vim_intros]: "observed held api \<Longrightarrow> keeps (leaves held) (vim_dvs_portgroup_get_or_none api opts dvs_name_or_id name profile)"
  unfolding vim_dvs_portgroup_get_or_none_def in_view_folds split_def by (intro vim_intros; (assumption | simp add: READING_def))

lemma vcenter_dvs_nioc_dvs_reads [vim_intros]: "observed held api \<Longrightarrow> keeps (leaves held) (vcenter_dvs_nioc_dvs api opts name_or_id profile)"
  unfolding vcenter_dvs_nioc_dvs_def in_view_folds split_def by (intro vim_intros; (assumption | simp add: READING_def))

lemma vcenter_dvs_nioc_nioc_get_reads [vim_intros]: "observed held api \<Longrightarrow> keeps (leaves held) (vcenter_dvs_nioc_nioc_get api opts dvs_name_or_id profile)"
  unfolding vcenter_dvs_nioc_nioc_get_def in_view_folds split_def by (intro vim_intros; (assumption | simp add: READING_def))

lemma vcenter_dvs_nioc_vccluster_cluster_reads [vim_intros]: "observed held api \<Longrightarrow> keeps (leaves held) (vcenter_dvs_nioc_vccluster_cluster api opts name_or_id profile)"
  unfolding vcenter_dvs_nioc_vccluster_cluster_def in_view_folds split_def by (intro vim_intros; (assumption | simp add: READING_def))

lemma vcenter_dvs_nioc_vccluster_cluster_dvs_list_reads [vim_intros]: "observed held api \<Longrightarrow> keeps (leaves held) (vcenter_dvs_nioc_vccluster_cluster_dvs_list api opts cluster profile)"
  unfolding vcenter_dvs_nioc_vccluster_cluster_dvs_list_def in_view_folds split_def by (intro vim_intros; (assumption | simp add: READING_def))

lemma vcenter_dvs_nioc_vccluster_nioc_get_reads [vim_intros]: "observed held api \<Longrightarrow> keeps (leaves held) (vcenter_dvs_nioc_vccluster_nioc_get api opts cluster profile)"
  unfolding vcenter_dvs_nioc_vccluster_nioc_get_def in_view_folds split_def by (intro vim_intros; (assumption | simp add: READING_def))

lemma vim_datastore_file_find_datastore_reads [vim_intros]: "observed held api \<Longrightarrow> keeps (leaves held) (vim_datastore_file_find_datastore api opts name_or_id profile)"
  unfolding vim_datastore_file_find_datastore_def in_view_folds split_def by (intro vim_intros; (assumption | simp add: READING_def))

lemma vim_datastore_file_ds_path_reads [vim_intros]: "observed held api \<Longrightarrow> keeps (leaves held) (vim_datastore_file_ds_path datastore_name path)"
  unfolding vim_datastore_file_ds_path_def in_view_folds split_def by (intro vim_intros; (assumption | simp add: READING_def))

lemma file_entry_reads [vim_intros]: "observed held api \<Longrightarrow> keeps (leaves held) (file_entry api entry)"
  unfolding file_entry_def in_view_folds split_def by (intro vim_intros; (assumption | simp add: READING_def))

lemma search_round_reads [vim_intros]: "observed held api \<Longrightarrow> keeps (leaves held) (search_round api task u)"
  unfolding search_round_def in_view_folds split_def by (intro vim_intros; (assumption | simp add: READING_def))

lemma vim_datastore_file_list_reads [vim_intros]: "observed held api \<Longrightarrow> keeps (leaves held) (vim_datastore_file_list api opts datacenter datastore path profile)"
  unfolding vim_datastore_file_list_def in_view_folds split_def by (intro vim_intros; (assumption | simp add: READING_def))

lemma vim_resource_pool_find_rp_reads [vim_intros]: "observed held api \<Longrightarrow> keeps (leaves held) (vim_resource_pool_find_rp api opts rp_id_or_name profile)"
  unfolding vim_resource_pool_find_rp_def in_view_folds split_def by (intro vim_intros; (assumption | simp add: READING_def))

lemma vim_resource_pool_allocation_reads [vim_intros]: "observed held api \<Longrightarrow> keeps (leaves held) (vim_resource_pool_allocation api info)"
  unfolding vim_resource_pool_allocation_def in_view_folds split_def by (intro vim_intros; (assumption | simp add: READING_def))

lemma vim_resource_pool_get_shares_reads [vim_intros]: "observed held api \<Longrightarrow> keeps (leaves held) (vim_resource_pool_get_shares api opts rp_id_or_name profile)"
  unfolding vim_resource_pool_get_shares_def in_view_folds split_def by (intro vim_intros; (assumption | simp add: READING_def))

lemma vccluster_resource_pool_cluster_reads [vim_intros]: "observed held api \<Longrightarrow> keeps (leaves held) (vccluster_resource_pool_cluster api opts name_or_id profile)"
  unfolding vccluster_resource_pool_cluster_def in_view_folds split_def by (intro vim_intros; (assumption | simp add: READING_def))

lemma vccluster_resource_pool_find_child_pool_reads [vim_intros]: "observed held api \<Longrightarrow> keeps (leaves held) (vccluster_resource_pool_find_child_pool api cluster_obj name)"
  unfolding vccluster_resource_pool_find_child_pool_def in_view_folds split_def by (intro vim_intros; (assumption | simp add: READING_def))

lemma vccluster_resource_pool_get_or_none_reads [vim_intros]: "observed held api \<Longrightarrow> keeps (leaves held) (vccluster_resource_pool_get_or_none api opts cluster name profile)"
  unfolding vccluster_resource_pool_get_or_none_def in_view_folds split_def by (intro vim_intros; (assumption | simp add: READING_def))

lemma vccluster_resource_pool_get_shares_reads [vim_intros]: "observed held api \<Longrightarrow> keeps (leaves held) (vccluster_resource_pool_get_shares api opts cluster name profile)"
  unfolding vccluster_resource_pool_get_shares_def in_view_folds split_def by (intro vim_intros; (assumption | simp add: READING_def))

lemma vim_first_class_disk_vsom_reads [vim_intros]: "observed held api \<Longrightarrow> keeps (leaves held) (vim_first_class_disk_vsom api opts profile)"
  unfolding vim_first_class_disk_vsom_def in_view_folds split_def by (intro vim_intros; (assumption | simp add: READING_def))

lemma vim_first_class_disk_find_datastore_reads [vim_intros]: "observed held api \<Longrightarrow> keeps (leaves held) (vim_first_class_disk_find_datastore api opts name_or_id profile)"
  unfolding vim_first_class_disk_find_datastore_def in_view_folds split_def by (intro vim_intros; (assumption | simp add: READING_def))

lemma vim_first_class_disk_to_dict_reads [vim_intros]: "observed held api \<Longrightarrow> keeps (leaves held) (vim_first_class_disk_to_dict api obj)"
  unfolding vim_first_class_disk_to_dict_def in_view_folds split_def by (intro vim_intros; (assumption | simp add: READING_def))

lemma vim_first_class_disk_list_reads [vim_intros]: "observed held api \<Longrightarrow> keeps (leaves held) (vim_first_class_disk_list api opts datastore profile)"
  unfolding vim_first_class_disk_list_def in_view_folds split_def by (intro vim_intros; (assumption | simp add: READING_def))

end
