(* ===== verification/Vim_Admin.thy ===== *)
theory Vim_Admin
  imports Vim Vcenter
begin

section \<open>Vim_Admin: alarms, attributes, extensions, licences, statistics, permissions, roles, scheduled tasks and folders\<close>

text \<open>
  The managers of a vCenter that are not part of the inventory.
\<close>

subsection \<open>\<open>clients/vim_alarm.py\<close>\<close>

definition vim_alarm_alarm_to_dict :: "vmodl \<Rightarrow> pyval \<Rightarrow> pyval io" where
  "vim_alarm_alarm_to_dict api alarm =
     bindM (vget api alarm ''info'') (\<lambda>info.
     bindM (vget api info ''entity'') (\<lambda>entity.
     bindM (vget api alarm ''_moId'') (\<lambda>moId.
     bindM (vget api info ''name'') (\<lambda>name.
     bindM (vget api info ''description'') (\<lambda>description.
     bindM (vget api info ''enabled'') (\<lambda>enabled.
     bindM (vget api info ''systemName'') (\<lambda>systemName.
     bindM (if entity \<noteq> PNone then vget api entity ''_moId'' else pureM PNone) (\<lambda>x.
     pureM (PDict [(''key'', moId), (''name'', name), (''description'', description), (''enabled'', enabled),
       (''system_name'', systemName), (''entity_id'', x)])))))))))"

definition vim_alarm_list :: "vmodl \<Rightarrow> pyval \<Rightarrow> pyval \<Rightarrow> profile \<Rightarrow> pyval io" where
  "vim_alarm_list api opts entity profile =
     bindM (vim_alarm_manager api opts profile) (\<lambda>am.
     bindM (if entity \<noteq> PNone then pureM entity else vim_root_folder api opts profile) (\<lambda>target.
     bindM (vcall api am ''GetAlarm'' [] [(''entity'', target)]) (\<lambda>alarms.
     bindM (liftR (py_iter alarms)) (\<lambda>items.
     bindM (mapM (\<lambda>a. vim_alarm_alarm_to_dict api a) items) (\<lambda>out.
     pureM (PList out))))))"

definition vim_alarm_get :: "vmodl \<Rightarrow> pyval \<Rightarrow> pyval \<Rightarrow> profile \<Rightarrow> pyval io" where
  "vim_alarm_get api opts name profile =
     bindM (vim_alarm_list api opts PNone profile) (\<lambda>items2.
     bindM (liftR (py_iter items2)) (\<lambda>items3.
     or_else
       (first_of (\<lambda>alarm.
          bindM (liftR (py_get alarm ''name'' PNone)) (\<lambda>name2.
          if py_eq name2 name then pureM (Some alarm) else pureM None)) items3)
       (pureM PNone)))"

definition vim_alarm_get_or_none :: "vmodl \<Rightarrow> pyval \<Rightarrow> pyval \<Rightarrow> profile \<Rightarrow> pyval io" where
  "vim_alarm_get_or_none api opts name profile = vim_alarm_get api opts name profile"

definition vim_alarm_create :: "vmodl \<Rightarrow> pyval \<Rightarrow> pyval \<Rightarrow> pyval \<Rightarrow>
  pyval \<Rightarrow> pyval \<Rightarrow> pyval \<Rightarrow> profile \<Rightarrow> pyval io" where
  "vim_alarm_create api opts name description expression action enabled profile =
     bindM (vim_alarm_manager api opts profile) (\<lambda>am.
     bindM (vnew api ''vim.alarm.AlarmSpec'' []) (\<lambda>spec.
     bindM (vset api spec ''name'' name) (\<lambda>spec.
     bindM (vset api spec ''description'' description) (\<lambda>spec.
     bindM (vset api spec ''expression'' expression) (\<lambda>spec.
     bindM (vset api spec ''action'' action) (\<lambda>spec.
     bindM (vset api spec ''enabled'' enabled) (\<lambda>spec.
     bindM (vim_root_folder api opts profile) (\<lambda>root.
     bindM (vcall api am ''CreateAlarm'' [] [(''entity'', root), (''spec'', spec)]) (\<lambda>createAlarm.
     vget api createAlarm ''_moId'')))))))))"

definition vim_alarm_update ::
  "vmodl \<Rightarrow> pyval \<Rightarrow> pyval \<Rightarrow> pyval \<Rightarrow> pyval \<Rightarrow> pyval \<Rightarrow> pyval \<Rightarrow> pyval \<Rightarrow> profile \<Rightarrow> pyval io" where
  "vim_alarm_update api opts alarm_mo_id name description expression action enabled profile =
     bindM (vim_get_service_instance api opts profile) (\<lambda>si.
     bindM (vget api si ''_stub'') (\<lambda>stub.
     bindM (vref api ''vim.alarm.Alarm'' alarm_mo_id stub) (\<lambda>alarm.
     bindM (vnew api ''vim.alarm.AlarmSpec'' []) (\<lambda>spec.
     bindM (if name \<noteq> PNone then pureM name else vpath api alarm [''info'', ''name'']) (\<lambda>x.
     bindM (vset api spec ''name'' x) (\<lambda>spec.
     bindM
       (if description \<noteq> PNone then pureM description else vpath api alarm [''info'', ''description''])
        (\<lambda>x2.
     bindM (vset api spec ''description'' x2) (\<lambda>spec.
     bindM (if expression \<noteq> PNone then pureM expression else vpath api alarm [''info'', ''expression''])
       (\<lambda>x3.
     bindM (vset api spec ''expression'' x3) (\<lambda>spec.
     bindM (if action \<noteq> PNone then pureM action else vpath api alarm [''info'', ''action'']) (\<lambda>x4.
     bindM (vset api spec ''action'' x4) (\<lambda>spec.
     bindM (if enabled \<noteq> PNone then pureM enabled else vpath api alarm [''info'', ''enabled'']) (\<lambda>x5.
     bindM (vset api spec ''enabled'' x5) (\<lambda>spec.
     bindM (vcall api alarm ''ReconfigureAlarm'' [] [(''spec'', spec)]) (\<lambda>_.
     pureM PNone)))))))))))))))"

definition vim_alarm_delete :: "vmodl \<Rightarrow> pyval \<Rightarrow> pyval \<Rightarrow> profile \<Rightarrow> pyval io" where
  "vim_alarm_delete api opts alarm_mo_id profile =
     bindM (vim_get_service_instance api opts profile) (\<lambda>si.
     bindM (vget api si ''_stub'') (\<lambda>stub.
     bindM (vref api ''vim.alarm.Alarm'' alarm_mo_id stub) (\<lambda>alarm.
     bindM (vcall api alarm ''RemoveAlarm'' [] []) (\<lambda>_.
     pureM PNone))))"

subsection \<open>\<open>clients/vim_custom_attribute.py\<close>\<close>

definition vim_custom_attribute_list :: "vmodl \<Rightarrow> pyval \<Rightarrow> profile \<Rightarrow> pyval io" where
  "vim_custom_attribute_list api opts profile =
     bindM (vim_custom_fields_manager api opts profile) (\<lambda>cfm.
     bindM (vget api cfm ''field'') (\<lambda>field_v.
     bindM (liftR (py_iter field_v)) (\<lambda>items.
     bindM
       (mapM (\<lambda>f.
          bindM (vget api f ''key'') (\<lambda>key.
          bindM (vget api f ''name'') (\<lambda>name.
          bindM (vget api f ''managedObjectType'') (\<lambda>managedObjectType.
          bindM
            (if truthy managedObjectType then
               bindM (vget api f ''managedObjectType'') (\<lambda>managedObjectType2.
               liftR (name_of_class managedObjectType2))
             else pureM PNone) (\<lambda>x.
          pureM (PDict [(''key'', key), (''name'', name), (''managed_object_type'', x)])))))) items)
        (\<lambda>out.
     pureM (PList out)))))"

definition vim_custom_attribute_get :: "vmodl \<Rightarrow> pyval \<Rightarrow> pyval \<Rightarrow> profile \<Rightarrow> pyval io" where
  "vim_custom_attribute_get api opts name profile =
     bindM (vim_custom_attribute_list api opts profile) (\<lambda>items2.
     bindM (liftR (py_iter items2)) (\<lambda>items3.
     or_else
       (first_of (\<lambda>f.
          bindM (liftR (py_item f ''name'')) (\<lambda>name2.
          if py_eq name2 name then pureM (Some f) else pureM None)) items3)
       (pureM PNone)))"

definition vim_custom_attribute_get_or_none :: "vmodl \<Rightarrow> pyval \<Rightarrow> pyval \<Rightarrow> profile \<Rightarrow> pyval io" where
  "vim_custom_attribute_get_or_none api opts name profile = vim_custom_attribute_get api opts name
    profile"

definition vim_custom_attribute_add :: "vmodl \<Rightarrow> pyval \<Rightarrow> pyval \<Rightarrow> pyval \<Rightarrow> profile \<Rightarrow> pyval io" where
  "vim_custom_attribute_add api opts name managed_object_type profile =
     bindM (vim_custom_fields_manager api opts profile) (\<lambda>cfm.
     let type_class_v = PNone in
     let type_class_v = (if truthy managed_object_type then vclass api (''vim.'' @ (py_str managed_object_type))
       PNone else type_class_v) in
     bindM (vcall api cfm ''AddCustomFieldDef'' [] [(''name'', name), (''moType'', type_class_v)])
       (\<lambda>field_v.
     bindM (vget api field_v ''key'') (\<lambda>key.
     bindM (vget api field_v ''name'') (\<lambda>name2.
     pureM (PDict [(''key'', key), (''name'', name2)])))))"

definition vim_custom_attribute_remove :: "vmodl \<Rightarrow> pyval \<Rightarrow> pyval \<Rightarrow> profile \<Rightarrow> pyval io" where
  "vim_custom_attribute_remove api opts name_or_key profile =
     bindM (vim_custom_fields_manager api opts profile) (\<lambda>cfm.
     let key = PNone in
     bindM
       (if is_int name_or_key then pureM name_or_key
        else
          bindM (vget api cfm ''field'') (\<lambda>field_v.
          bindM (liftR (py_iter field_v)) (\<lambda>items.
          bindM
            (for_each (\<lambda>f key.
               bindM (vget api f ''name'') (\<lambda>name.
               if py_eq name name_or_key then
                 bindM (vget api f ''key'') (\<lambda>key.
                 pureM (Inl key))
               else pureM (Inr key))) items key) (\<lambda>left.
          pureM (either left))))) (\<lambda>key.
     if key = PNone then
       raiseM (LookupError (''custom attribute '' @ py_repr name_or_key @ '' not found''))
     else
       bindM (vcall api cfm ''RemoveCustomFieldDef'' [] [(''key'', key)]) (\<lambda>_.
       pureM PNone)))"

definition vim_custom_attribute_set_value ::
  "vmodl \<Rightarrow> pyval \<Rightarrow> pyval \<Rightarrow> pyval \<Rightarrow> pyval \<Rightarrow> pyval \<Rightarrow> profile \<Rightarrow> pyval io" where
  "vim_custom_attribute_set_value api opts entity_mo_id name val entity_type profile =
     bindM (vim_custom_fields_manager api opts profile) (\<lambda>cfm.
     bindM (vim_get_service_instance api opts profile) (\<lambda>si.
     let type_class_v = vclass api (''vim.'' @ (py_str (py_or entity_type (PStr ''VirtualMachine'')))) (PStr
       ''vim.VirtualMachine'') in
     bindM (vget api si ''_stub'') (\<lambda>stub.
     bindM (vref api (py_str type_class_v) entity_mo_id stub) (\<lambda>entity.
     let key = PNone in
     bindM (vget api cfm ''field'') (\<lambda>field_v.
     bindM (liftR (py_iter field_v)) (\<lambda>items.
     bindM
       (for_each (\<lambda>f key.
          bindM (vget api f ''name'') (\<lambda>name2.
          if py_eq name2 name then bindM (vget api f ''key'') (\<lambda>key. pureM (Inl key)) else pureM (Inr key)))
        items key) (\<lambda>left.
     let key = either left in
     if key = PNone then raiseM (LookupError (''custom attribute '' @ py_repr name @ '' not defined''))
     else
       bindM (vcall api cfm ''SetField'' [] [(''entity'', entity), (''key'', key), (''value'', val)]) (\<lambda>_.
       pureM PNone))))))))"

subsection \<open>\<open>clients/vim_extension.py\<close>\<close>

definition vim_extension_extension_to_dict :: "vmodl \<Rightarrow> pyval \<Rightarrow> pyval io" where
  "vim_extension_extension_to_dict api ext =
     bindM (vget api ext ''key'') (\<lambda>key.
     bindM (vget api ext ''version'') (\<lambda>version.
     bindM (vget api ext ''company'') (\<lambda>company.
     bindM (vget api ext ''description'') (\<lambda>description.
     bindM (if truthy description then vpath api ext [''description'', ''label''] else pureM PNone) (\<lambda>x.
     bindM (vget api ext ''lastHeartbeatTime'') (\<lambda>lastHeartbeatTime.
     bindM
       (if truthy lastHeartbeatTime then
          bindM (vget api ext ''lastHeartbeatTime'') (\<lambda>lastHeartbeatTime2.
          vcall api lastHeartbeatTime2 ''isoformat'' [] [])
        else pureM PNone) (\<lambda>x2.
     bindM (vget api ext ''server'') (\<lambda>server.
     bindM (liftR (py_len (py_or server (PList [])))) (\<lambda>n.
     bindM (vget api ext ''client'') (\<lambda>client.
     bindM (liftR (py_len (py_or client (PList [])))) (\<lambda>n2.
     pureM (PDict [(''key'', key), (''version'', version), (''company'', company), (''description'', x),
       (''last_heartbeat_time'', x2), (''server_count'', PInt (int n)), (''client_count'', PInt (int
        n2))]))))))))))))"

definition vim_extension_list :: "vmodl \<Rightarrow> pyval \<Rightarrow> profile \<Rightarrow> pyval io" where
  "vim_extension_list api opts profile =
     bindM (vim_extension_manager api opts profile) (\<lambda>em.
     bindM (vget api em ''extensionList'') (\<lambda>extensionList.
     bindM (liftR (py_iter extensionList)) (\<lambda>items.
     bindM (mapM (\<lambda>e. vim_extension_extension_to_dict api e) items) (\<lambda>out.
     pureM (PList out)))))"

definition vim_extension_get :: "vmodl \<Rightarrow> pyval \<Rightarrow> pyval \<Rightarrow> profile \<Rightarrow> pyval io" where
  "vim_extension_get api opts key profile =
     bindM (vim_extension_manager api opts profile) (\<lambda>em.
     bindM (vcall api em ''FindExtension'' [] [(''extensionKey'', key)]) (\<lambda>ext.
     if ext \<noteq> PNone then vim_extension_extension_to_dict api ext else pureM PNone))"

definition vim_extension_get_or_none :: "vmodl \<Rightarrow> pyval \<Rightarrow> pyval \<Rightarrow> profile \<Rightarrow> pyval io" where
  "vim_extension_get_or_none api opts key profile = vim_extension_get api opts key profile"

definition vim_extension_register :: "vmodl \<Rightarrow> pyval \<Rightarrow> pyval \<Rightarrow> pyval
  \<Rightarrow> pyval \<Rightarrow> pyval \<Rightarrow> profile \<Rightarrow> dict \<Rightarrow> pyval io" where
  "vim_extension_register api opts key version description company profile fields_v =
     bindM (vim_extension_manager api opts profile) (\<lambda>em.
     bindM (vnew api ''vim.Extension'' []) (\<lambda>ext.
     bindM (vset api ext ''key'' key) (\<lambda>ext.
     bindM (vset api ext ''version'' version) (\<lambda>ext.
     bindM (vnew api ''vim.Description'' []) (\<lambda>description2.
     bindM (vset api ext ''description'' description2) (\<lambda>ext.
     bindM (vget api ext ''description'') (\<lambda>description3.
     bindM (vset api description3 ''label'' description) (\<lambda>description3.
     bindM (vset api ext ''description'' description3) (\<lambda>ext.
     bindM (vget api ext ''description'') (\<lambda>description4.
     bindM (vset api description4 ''summary'' description) (\<lambda>description4.
     bindM (vset api ext ''description'' description4) (\<lambda>ext.
     bindM (vset api ext ''company'' company) (\<lambda>ext.
     bindM (liftR (py_in (PStr ''server'') (PDict fields_v))) (\<lambda>found.
     bindM
       (if found then
          bindM (liftR (py_item (PDict fields_v) ''server'')) (\<lambda>server.
          vset api ext ''server'' server)
        else pureM ext) (\<lambda>ext.
     bindM (liftR (py_in (PStr ''client'') (PDict fields_v))) (\<lambda>found2.
     bindM
       (if found2 then
          bindM (liftR (py_item (PDict fields_v) ''client'')) (\<lambda>client.
          vset api ext ''client'' client)
        else pureM ext) (\<lambda>ext.
     bindM (vcall api em ''RegisterExtension'' [] [(''extension'', ext)]) (\<lambda>_.
     pureM key))))))))))))))))))"

definition vim_extension_update ::
  "vmodl \<Rightarrow> pyval \<Rightarrow> pyval \<Rightarrow> pyval \<Rightarrow> pyval \<Rightarrow> profile \<Rightarrow> dict \<Rightarrow> pyval io" where
  "vim_extension_update api opts key version description profile fields_v =
     bindM (vim_extension_manager api opts profile) (\<lambda>em.
     bindM (vcall api em ''FindExtension'' [] [(''extensionKey'', key)]) (\<lambda>ext.
     if ext = PNone then raiseM (LookupError (''extension '' @ py_repr key @ '' is not registered''))
     else
       bindM (if version \<noteq> PNone then vset api ext ''version'' version else pureM ext) (\<lambda>ext.
       bindM
         (if description \<noteq> PNone then
            bindM (vget api ext ''description'') (\<lambda>text.
            bindM (vset api text ''label'' description) (\<lambda>text.
            bindM (vset api text ''summary'' description) (\<lambda>text. vset api ext ''description'' text)))
          else pureM ext) (\<lambda>ext.
       bindM (foldM (\<lambda>(attr, x) ext. vset api ext attr x) fields_v ext) (\<lambda>ext.
       bindM (vcall api em ''UpdateExtension'' [] [(''extension'', ext)]) (\<lambda>_. pureM PNone))))))"

definition vim_extension_unregister :: "vmodl \<Rightarrow> pyval \<Rightarrow> pyval \<Rightarrow> profile \<Rightarrow> pyval io" where
  "vim_extension_unregister api opts key profile =
     bindM (vim_extension_manager api opts profile) (\<lambda>em.
     bindM (vcall api em ''UnregisterExtension'' [] [(''extensionKey'', key)]) (\<lambda>_.
     pureM PNone))"

subsection \<open>\<open>clients/vim_license.py\<close>\<close>

definition vim_license_lm :: "vmodl \<Rightarrow> pyval \<Rightarrow> profile \<Rightarrow> pyval io" where
  "vim_license_lm api opts profile = vim_license_manager api opts profile"

definition vim_license_lam :: "vmodl \<Rightarrow> pyval \<Rightarrow> profile \<Rightarrow> pyval io" where
  "vim_license_lam api opts profile = vim_license_assignment_manager api opts profile"

definition vim_license_to_dict :: "vmodl \<Rightarrow> pyval \<Rightarrow> pyval io" where
  "vim_license_to_dict api lic =
     bindM (vget api lic ''licenseKey'') (\<lambda>licenseKey.
     bindM (vget api lic ''name'') (\<lambda>name.
     bindM (vget api lic ''editionKey'') (\<lambda>editionKey.
     bindM (vget api lic ''used'') (\<lambda>used.
     bindM
       (if used \<noteq> PNone then
          bindM (vget api lic ''used'') (\<lambda>used2.
          bindM (liftR (py_int used2)) (\<lambda>n.
          pureM (PInt n)))
        else pureM PNone) (\<lambda>x.
     bindM (vget api lic ''total'') (\<lambda>total_v.
     bindM
       (if total_v \<noteq> PNone then
          bindM (vget api lic ''total'') (\<lambda>total_v2.
          bindM (liftR (py_int total_v2)) (\<lambda>n2.
          pureM (PInt n2)))
        else pureM PNone) (\<lambda>x2.
     bindM (vget api lic ''labels'') (\<lambda>labels.
     bindM (liftR (py_iter (py_or labels (PList [])))) (\<lambda>items.
     bindM
       (mapM (\<lambda>l.
          bindM (vget api l ''key'') (\<lambda>key.
          bindM (liftR (str_key key)) (\<lambda>k.
          bindM (vget api l ''value'') (\<lambda>val.
          pureM (k, val))))) items) (\<lambda>entries.
     bindM (vget api lic ''properties'') (\<lambda>properties.
     bindM (liftR (py_iter (py_or properties (PList [])))) (\<lambda>items2.
     bindM
       (mapM (\<lambda>p.
          bindM (vget api p ''key'') (\<lambda>key2.
          bindM (liftR (str_key key2)) (\<lambda>k2.
          bindM (vget api p ''value'') (\<lambda>val2.
          pureM (k2, val2))))) items2) (\<lambda>entries2.
     pureM (PDict [(''license_key'', licenseKey), (''name'', name), (''edition_key'', editionKey), (''used'', x),
       (''total'', x2), (''labels'', PDict (dupdate [] entries)), (''properties'', PDict (dupdate []
        entries2))]))))))))))))))"

definition vim_license_list :: "vmodl \<Rightarrow> pyval \<Rightarrow> profile \<Rightarrow> pyval io" where
  "vim_license_list api opts profile =
     bindM (vim_license_lm api opts profile) (\<lambda>lm2.
     bindM (vget api lm2 ''licenses'') (\<lambda>licenses.
     bindM (liftR (py_iter (py_or licenses (PList [])))) (\<lambda>items.
     bindM (mapM (\<lambda>lic. vim_license_to_dict api lic) items) (\<lambda>out.
     pureM (PList out)))))"

definition vim_license_get :: "vmodl \<Rightarrow> pyval \<Rightarrow> pyval \<Rightarrow> profile \<Rightarrow> pyval io" where
  "vim_license_get api opts license_key profile =
     bindM (vim_license_lm api opts profile) (\<lambda>lm2.
     bindM (vget api lm2 ''licenses'') (\<lambda>licenses.
     bindM (liftR (py_iter (py_or licenses (PList [])))) (\<lambda>items.
     or_else
       (first_of (\<lambda>lic.
          bindM (vget api lic ''licenseKey'') (\<lambda>licenseKey.
          if py_eq licenseKey license_key then
            bindM (vim_license_to_dict api lic) (\<lambda>answer.
            pureM (Some answer))
          else pureM None)) items)
       (raiseM (LookupError (''license '' @ py_repr license_key @ '' not found''))))))"

definition vim_license_get_or_none :: "vmodl \<Rightarrow> pyval \<Rightarrow> pyval \<Rightarrow> profile \<Rightarrow> pyval io" where
  "vim_license_get_or_none api opts license_key profile =
     tryM
       (vim_license_get api opts license_key profile)
       (\<lambda>exc. if is_LookupError exc then pureM PNone else raiseM exc)"

definition vim_license_add :: "vmodl \<Rightarrow> pyval \<Rightarrow> pyval \<Rightarrow> pyval \<Rightarrow> profile \<Rightarrow> pyval io" where
  "vim_license_add api opts license_key labels profile =
     bindM (vim_license_lm api opts profile) (\<lambda>lm.
     let labels_obj = PNone in
     bindM
       (if truthy labels then
          bindM (liftR (py_mapping labels ''items'')) (\<lambda>entries.
          bindM
            (mapM (\<lambda>(k, v). vnew api ''vim.KeyValue'' [(''key'', PStr k), (''value'', v)]) entries)
        (\<lambda>labels_obj.
          pureM (PList labels_obj)))
        else pureM labels_obj) (\<lambda>labels_obj.
     bindM (vcall api lm ''AddLicense'' [] [(''licenseKey'', license_key), (''labels'', labels_obj)])
       (\<lambda>lic.
     vim_license_to_dict api lic)))"

definition vim_license_remove :: "vmodl \<Rightarrow> pyval \<Rightarrow> pyval \<Rightarrow> profile \<Rightarrow> pyval io" where
  "vim_license_remove api opts license_key profile =
     bindM (vim_license_lm api opts profile) (\<lambda>lm2.
     bindM (vcall api lm2 ''RemoveLicense'' [] [(''licenseKey'', license_key)]) (\<lambda>_.
     pureM (PBool True)))"

definition vim_license_update_label :: "vmodl \<Rightarrow> pyval \<Rightarrow> pyval \<Rightarrow> pyval \<Rightarrow> pyval \<Rightarrow> profile \<Rightarrow> pyval io" where
  "vim_license_update_label api opts license_key label_key label_value profile =
     bindM (vim_license_lm api opts profile) (\<lambda>lm2.
     bindM
       (vcall api lm2 ''UpdateLicenseLabel'' [] [(''licenseKey'', license_key), (''labelKey'', label_key),
        (''labelValue'', label_value)]) (\<lambda>_.
     pureM (PBool True)))"

definition vim_license_assigned_list :: "vmodl \<Rightarrow> pyval \<Rightarrow> pyval \<Rightarrow> profile \<Rightarrow> pyval io" where
  "vim_license_assigned_list api opts entity_id profile =
     bindM (vim_license_lam api opts profile) (\<lambda>lam.
     let out = [] in
     bindM (vcall api lam ''QueryAssignedLicenses'' [] [(''entityId'', entity_id)])
       (\<lambda>queryAssignedLicenses.
     bindM (liftR (py_iter (py_or queryAssignedLicenses (PList [])))) (\<lambda>items.
     bindM
       (foldM (\<lambda>a out.
          bindM (vget api a ''entityId'') (\<lambda>entityId.
          bindM (vget api a ''scope'') (\<lambda>scope.
          bindM (vget api a ''entityDisplayName'') (\<lambda>entityDisplayName.
          bindM (vget api a ''assignedLicense'') (\<lambda>assignedLicense.
          bindM (vim_license_to_dict api assignedLicense) (\<lambda>to_dict2.
          pureM (out @ [PDict [(''entity_id'', entityId), (''scope'', scope), (''entity_display_name'',
        entityDisplayName), (''assigned_license'', to_dict2)]]))))))) items out) (\<lambda>out.
     pureM (PList out)))))"

definition vim_license_assign :: "vmodl \<Rightarrow> pyval \<Rightarrow> pyval \<Rightarrow> pyval \<Rightarrow> pyval \<Rightarrow> profile \<Rightarrow> pyval io" where
  "vim_license_assign api opts entity_id license_key name profile =
     bindM (vim_license_lam api opts profile) (\<lambda>lam2.
     bindM
       (vcall api lam2 ''UpdateAssignedLicense'' [] [(''entity'', entity_id), (''licenseKey'', license_key),
        (''entityDisplayName'', name)]) (\<lambda>info.
     vim_license_to_dict api info))"

definition vim_license_unassign :: "vmodl \<Rightarrow> pyval \<Rightarrow> pyval \<Rightarrow> profile \<Rightarrow> pyval io" where
  "vim_license_unassign api opts entity_id profile =
     bindM (vim_license_lam api opts profile) (\<lambda>lam2.
     bindM (vcall api lam2 ''RemoveAssignedLicense'' [] [(''entityId'', entity_id)]) (\<lambda>_.
     pureM (PBool True)))"

subsection \<open>\<open>clients/vim_perf.py\<close>\<close>

definition vim_perf_counters :: "vmodl \<Rightarrow> pyval \<Rightarrow> profile \<Rightarrow> pyval kdict io" where
  "vim_perf_counters api opts profile =
     bindM (vim_perf_manager api opts profile) (\<lambda>pm.
     bindM (vget api pm ''perfCounter'') (\<lambda>counters.
     bindM (liftR (py_iter counters)) (\<lambda>cs.
     foldM (\<lambda>c d.
       bindM (vget api c ''key'') (\<lambda>key.
       bindM (vpath api c [''groupInfo'', ''key'']) (\<lambda>grp.
       bindM (vpath api c [''nameInfo'', ''key'']) (\<lambda>name.
       bindM (vpath api c [''unitInfo'', ''key'']) (\<lambda>unit.
       bindM (vget api c ''rollupType'') (\<lambda>rollup_type.
       bindM (vget api c ''statsType'') (\<lambda>stats_type.
       bindM (vget api c ''level'') (\<lambda>level.
       pureM (kset key (PDict
         [(''group'', grp), (''name'', name), (''unit'', unit), (''rollup_type'', PStr (py_str rollup_type)),
          (''stats_type'', PStr (py_str stats_type)), (''level'', level)]) d)))))))))
       cs [])))"

definition vim_perf_resolve_entity :: "vmodl \<Rightarrow> pyval \<Rightarrow> pyval \<Rightarrow> pyval \<Rightarrow> pyval io" where
  "vim_perf_resolve_entity api si mo_id entity_type =
     (let type_map = [(''VirtualMachine'', PStr ''vim.VirtualMachine''), (''HostSystem'', PStr ''vim.HostSystem''),
       (''ClusterComputeResource'', PStr ''vim.ClusterComputeResource''), (''Datastore'', PStr ''vim.Datastore''),
        (''Datacenter'', PStr ''vim.Datacenter''), (''ResourcePool'', PStr ''vim.ResourcePool'')] in
      bindM
        (if entity_type = PNone then
           bindM (liftR (py_in (PStr ''-'') mo_id)) (\<lambda>found.
           bindM
             (if found then
                bindM (liftR (py_split mo_id (CHR ''-''))) (\<lambda>parts.
                liftR (py_first (PList parts)))
              else pureM mo_id) (\<lambda>prefix_v.
           let prefix_map = [(''vm'', PStr ''VirtualMachine''), (''host'', PStr ''HostSystem''), (''domain'', PStr
        ''ClusterComputeResource''), (''datastore'', PStr ''Datastore''), (''datacenter'', PStr ''Datacenter''),
        (''resgroup'', PStr ''ResourcePool'')] in
           liftR (py_lookup (PDict prefix_map) prefix_v (PStr ''VirtualMachine''))))
         else pureM entity_type) (\<lambda>entity_type.
      bindM (liftR (py_lookup (PDict type_map) entity_type (PStr ''vim.ManagedEntity''))) (\<lambda>cls.
      bindM (vget api si ''_stub'') (\<lambda>stub.
      vref api (py_str cls) mo_id stub))))"

definition vim_perf_available_metrics :: "vmodl \<Rightarrow> pyval \<Rightarrow> pyval \<Rightarrow> pyval \<Rightarrow> profile \<Rightarrow> pyval io" where
  "vim_perf_available_metrics api opts entity_mo_id entity_type profile =
     bindM (vim_get_service_instance api opts profile) (\<lambda>si.
     bindM (vim_perf_manager api opts profile) (\<lambda>pm.
     bindM (vim_perf_resolve_entity api si entity_mo_id entity_type) (\<lambda>entity.
     bindM (vcall api pm ''QueryAvailablePerfMetric'' [] [(''entity'', entity)]) (\<lambda>metrics.
     bindM (liftR (py_iter metrics)) (\<lambda>items.
     bindM
       (mapM (\<lambda>m.
          bindM (vget api m ''counterId'') (\<lambda>counterId.
          bindM (vget api m ''instance'') (\<lambda>instance.
          pureM (PDict [(''counter_id'', counterId), (''instance'', instance)])))) items) (\<lambda>out.
     pureM (PList out)))))))"

definition vim_perf_query_result_to_dict :: "vmodl \<Rightarrow> pyval \<Rightarrow> pyval io" where
  "vim_perf_query_result_to_dict api result =
     bindM (vget_or api result ''sampleInfo'' PNone) (\<lambda>sampleInfo.
     let sample_info = py_or sampleInfo (PList []) in
     bindM (vpath api result [''entity'', ''_moId'']) (\<lambda>moId.
     bindM (liftR (py_iter sample_info)) (\<lambda>items2.
     bindM
       (mapM (\<lambda>s.
          bindM (vget api s ''timestamp'') (\<lambda>timestamp.
          vcall api timestamp ''isoformat'' [] [])) items2) (\<lambda>out.
     bindM (liftR (py_iter sample_info)) (\<lambda>items3.
     bindM (mapM (\<lambda>s. vget api s ''interval'') items3) (\<lambda>out2.
     bindM (vget_or api result ''value'' PNone) (\<lambda>val.
     bindM (liftR (py_iter (py_or val (PList [])))) (\<lambda>items4.
     bindM
       (mapM (\<lambda>v.
          bindM (vpath api v [''id'', ''counterId'']) (\<lambda>counterId.
          bindM (vpath api v [''id'', ''instance'']) (\<lambda>instance.
          bindM (vget api v ''value'') (\<lambda>val2.
          bindM (liftR (py_iter val2)) (\<lambda>items5.
          pureM (PDict [(''counter_id'', counterId), (''instance'', instance), (''values'', PList items5)]))))))
        items4) (\<lambda>out3.
     pureM (PDict [(''entity'', moId), (''sample_times'', PList out), (''interval_seconds'', PList out2),
       (''values'', PList out3)]))))))))))"

definition vim_perf_query ::
  "vmodl \<Rightarrow> pyval \<Rightarrow> pyval \<Rightarrow> pyval \<Rightarrow> pyval \<Rightarrow> pyval \<Rightarrow> pyval \<Rightarrow> pyval \<Rightarrow> pyval \<Rightarrow> profile \<Rightarrow> pyval io" where
  "vim_perf_query api opts entity_mo_id counter_ids entity_type interval_id start_time end_time max_samples profile
    =
     bindM (vim_get_service_instance api opts profile) (\<lambda>si.
     bindM (vim_perf_manager api opts profile) (\<lambda>pm.
     bindM (vim_perf_resolve_entity api si entity_mo_id entity_type) (\<lambda>entity.
     bindM (liftR (py_iter counter_ids)) (\<lambda>items.
     bindM
       (mapM (\<lambda>c.
          vnew api ''vim.PerformanceManager.MetricId'' [(''counterId'', c), (''instance'', PStr ''*'')]) items)
        (\<lambda>metric_ids.
     bindM
       (vnew api ''vim.PerformanceManager.QuerySpec'' [(''entity'', entity), (''metricId'', PList metric_ids),
        (''intervalId'', interval_id), (''startTime'', start_time), (''endTime'', end_time), (''maxSample'', (if
        max_samples \<noteq> PNone then max_samples else (if truthy start_time then PNone else PInt 10)))])
        (\<lambda>spec.
     bindM (vcall api pm ''QueryPerf'' [] [(''querySpec'', PList [spec])]) (\<lambda>queryPerf.
     bindM (liftR (py_iter queryPerf)) (\<lambda>items2.
     bindM (mapM (\<lambda>r. vim_perf_query_result_to_dict api r) items2) (\<lambda>out2.
     pureM (PList out2))))))))))"

subsection \<open>\<open>clients/vim_permission.py\<close>\<close>

definition vim_permission_mgr :: "vmodl \<Rightarrow> pyval \<Rightarrow> profile \<Rightarrow> pyval io" where
  "vim_permission_mgr api opts profile = vim_authorization_manager api opts profile"

definition vim_permission_resolve_entity :: "vmodl \<Rightarrow> pyval \<Rightarrow> pyval \<Rightarrow> profile \<Rightarrow> pyval io" where
  "vim_permission_resolve_entity api opts entity_ref profile =
     bindM (vhas api entity_ref ''_moId'') (\<lambda>has.
     if has then pureM entity_ref
     else if is_str entity_ref then
       bindM (vim_get_service_instance api opts profile) (\<lambda>si.
       bindM (vcall api si ''RetrieveContent'' [] []) (\<lambda>content_view.
       bindM (liftR (py_in (PStr '':'') entity_ref)) (\<lambda>found.
       if found then
         bindM (liftR (py_split_at entity_ref (CHR '':'') 1)) (\<lambda>parts.
         bindM (liftR (py_pair (PList parts))) (\<lambda>(type_name_v, moid).
         let ref_type = vclass api (''vim.'' @ (py_str type_name_v)) PNone in
         if ref_type = PNone then raiseM (ValueError (''unknown vim type '' @ py_repr type_name_v))
         else
           bindM (vpath api content_view [''searchIndex'', ''_stub'']) (\<lambda>stub.
           vref api (py_str ref_type) moid stub)))
       else
         or_else
           (first_of (\<lambda>vim_type.
              tryM
                (bindM (vpath api content_view [''searchIndex'', ''_stub'']) (\<lambda>stub2.
                 bindM (vref api (py_str vim_type) entity_ref stub2) (\<lambda>obj.
                 bindM (vget api obj ''name'') (\<lambda>_.
                 pureM (Some obj)))))
                (\<lambda>exc. if is_fault api ''vim.fault.ManagedObjectNotFound'' exc then
                    pureM None
                  else raiseM exc)) [PStr ''vim.VirtualMachine'', PStr ''vim.Datacenter'', PStr
        ''vim.ClusterComputeResource'', PStr ''vim.ComputeResource'', PStr ''vim.HostSystem'', PStr ''vim.Folder'',
        PStr ''vim.ResourcePool'', PStr ''vim.Datastore'', PStr ''vim.Network''])
           (raiseM (LookupError (''entity '' @ py_repr entity_ref @ '' not found''))))))
     else raiseM (TypeError (''unsupported entity_ref type '' @ class_name entity_ref)))"

definition vim_permission_role_id_by_name :: "vmodl \<Rightarrow> pyval \<Rightarrow> pyval \<Rightarrow> pyval io" where
  "vim_permission_role_id_by_name api mgr name =
     bindM (vget api mgr ''roleList'') (\<lambda>roleList.
     bindM (liftR (py_iter roleList)) (\<lambda>items.
     or_else
       (first_of (\<lambda>role.
          bindM (vget api role ''name'') (\<lambda>name2.
          if py_eq name2 name then
            bindM (vget api role ''roleId'') (\<lambda>roleId.
            pureM (Some roleId))
          else pureM None)) items)
       (raiseM (LookupError (''role '' @ py_repr name @ '' not found'')))))"

definition role_names :: "vmodl \<Rightarrow> pyval list \<Rightarrow> pyval kdict io" where
  "role_names api roles =
     foldM (\<lambda>r d.
       bindM (vget api r ''roleId'') (\<lambda>role_id.
       bindM (vget api r ''name'') (\<lambda>name. pureM (kset role_id name d)))) roles []"

definition vim_permission_list :: "vmodl \<Rightarrow> pyval \<Rightarrow> pyval \<Rightarrow> pyval \<Rightarrow> profile \<Rightarrow> pyval io" where
  "vim_permission_list api opts entity_ref inherited profile =
     bindM (vim_permission_mgr api opts profile) (\<lambda>mgr.
     bindM (vim_permission_resolve_entity api opts entity_ref profile) (\<lambda>entity.
     bindM
       (vcall api mgr ''RetrieveEntityPermissions'' [] [(''entity'', entity), (''inherited'', inherited)]) (\<lambda>perms.
     bindM (vget api mgr ''roleList'') (\<lambda>role_list.
     bindM (liftR (py_iter role_list)) (\<lambda>roles.
     bindM (role_names api roles) (\<lambda>names.
     bindM (liftR (py_iter (py_or perms (PList [])))) (\<lambda>items.
     bindM
       (mapM (\<lambda>p.
          bindM (vpath api p [''entity'', ''_moId'']) (\<lambda>moid.
          bindM (vget api p ''principal'') (\<lambda>principal_name.
          bindM (vget api p ''group'') (\<lambda>grp.
          bindM (vget api p ''roleId'') (\<lambda>role_id.
          bindM (vget api p ''propagate'') (\<lambda>propagate.
          pureM (PDict
            [(''entity_moid'', moid), (''principal'', principal_name), (''group'', PBool (truthy grp)), (''role_id'', role_id),
             (''role'', case kget role_id names of Some n \<Rightarrow> n | None \<Rightarrow> PStr (py_str role_id)),
             (''propagate'', PBool (truthy propagate))]))))))) items) (\<lambda>out.
     pureM (PList out)))))))))"

definition vim_permission_set :: "vmodl \<Rightarrow> pyval \<Rightarrow> pyval \<Rightarrow> pyval \<Rightarrow>
  pyval \<Rightarrow> pyval \<Rightarrow> pyval \<Rightarrow> profile \<Rightarrow> pyval io" where
  "vim_permission_set api opts entity_ref principal_v role propagate grp profile =
     bindM (vim_permission_mgr api opts profile) (\<lambda>mgr.
     bindM (vim_permission_resolve_entity api opts entity_ref profile) (\<lambda>entity.
     bindM (vim_permission_role_id_by_name api mgr role) (\<lambda>role_id.
     bindM
       (vnew api ''vim.AuthorizationManager.Permission'' [(''entity'', entity), (''principal'', principal_v),
        (''group'', PBool (truthy grp)), (''roleId'', role_id), (''propagate'', PBool (truthy propagate))])
        (\<lambda>perm.
     bindM
       (vcall api mgr ''SetEntityPermissions'' [] [(''entity'', entity), (''permission'', PList [perm])])
        (\<lambda>_.
     pureM PNone)))))"

definition vim_permission_remove :: "vmodl \<Rightarrow> pyval \<Rightarrow> pyval \<Rightarrow> pyval \<Rightarrow> pyval \<Rightarrow> profile \<Rightarrow> pyval io" where
  "vim_permission_remove api opts entity_ref principal_v grp profile =
     bindM (vim_permission_mgr api opts profile) (\<lambda>mgr.
     bindM (vim_permission_resolve_entity api opts entity_ref profile) (\<lambda>entity.
     bindM
       (vcall api mgr ''RemoveEntityPermission'' [] [(''entity'', entity), (''user'', principal_v), (''isGroup'',
        PBool (truthy grp))]) (\<lambda>_.
     pureM PNone)))"

definition vim_permission_reset :: "vmodl \<Rightarrow> pyval \<Rightarrow> pyval \<Rightarrow> profile \<Rightarrow> pyval io" where
  "vim_permission_reset api opts entity_ref profile =
     bindM (vim_permission_mgr api opts profile) (\<lambda>mgr.
     bindM (vim_permission_resolve_entity api opts entity_ref profile) (\<lambda>entity.
     bindM (vcall api mgr ''ResetEntityPermissions'' [] [(''entity'', entity), (''permission'', PList [])])
       (\<lambda>_.
     pureM PNone)))"

subsection \<open>\<open>clients/vim_role.py\<close>\<close>

definition vim_role_mgr :: "vmodl \<Rightarrow> pyval \<Rightarrow> profile \<Rightarrow> pyval io" where
  "vim_role_mgr api opts profile = vim_authorization_manager api opts profile"

definition vim_role_list :: "vmodl \<Rightarrow> pyval \<Rightarrow> profile \<Rightarrow> pyval io" where
  "vim_role_list api opts profile =
     (let out = [] in
      bindM (vim_role_mgr api opts profile) (\<lambda>mgr2.
      bindM (vget api mgr2 ''roleList'') (\<lambda>roleList.
      bindM (liftR (py_iter roleList)) (\<lambda>items2.
      bindM
        (foldM (\<lambda>role out.
           bindM (vget api role ''roleId'') (\<lambda>roleId.
           bindM (vget api role ''name'') (\<lambda>name.
           bindM (vget api role ''system'') (\<lambda>system.
           bindM (vget api role ''info'') (\<lambda>info.
           bindM (if truthy info then vpath api role [''info'', ''label''] else pureM (PStr [])) (\<lambda>x.
           bindM (vget api role ''info'') (\<lambda>info2.
           bindM (if truthy info2 then vpath api role [''info'', ''summary''] else pureM (PStr [])) (\<lambda>x2.
           bindM (vget api role ''privilege'') (\<lambda>privilege.
           bindM (liftR (py_iter (py_or privilege (PList [])))) (\<lambda>items3.
           pureM (out @ [PDict [(''role_id'', roleId), (''name'', name), (''system'', PBool (truthy system)),
        (''info_label'', x), (''info_summary'', x2), (''privilege'', PList items3)]]))))))))))) items2 out)
        (\<lambda>out.
      pureM (PList out))))))"

definition vim_role_get :: "vmodl \<Rightarrow> pyval \<Rightarrow> pyval \<Rightarrow> profile \<Rightarrow> pyval io" where
  "vim_role_get api opts name profile =
     bindM (vim_role_mgr api opts profile) (\<lambda>mgr2.
     bindM (vget api mgr2 ''roleList'') (\<lambda>roleList.
     bindM (liftR (py_iter roleList)) (\<lambda>items2.
     or_else
       (first_of (\<lambda>role.
          bindM (vget api role ''name'') (\<lambda>name2.
          if py_eq name2 name then
            bindM (vget api role ''roleId'') (\<lambda>roleId.
            bindM (vget api role ''name'') (\<lambda>name3.
            bindM (vget api role ''system'') (\<lambda>system.
            bindM (vget api role ''info'') (\<lambda>info.
            bindM (if truthy info then vpath api role [''info'', ''label''] else pureM (PStr [])) (\<lambda>x.
            bindM (vget api role ''info'') (\<lambda>info2.
            bindM (if truthy info2 then vpath api role [''info'', ''summary''] else pureM (PStr [])) (\<lambda>x2.
            bindM (vget api role ''privilege'') (\<lambda>privilege.
            bindM (liftR (py_iter (py_or privilege (PList [])))) (\<lambda>items3.
            pureM (Some (PDict [(''role_id'', roleId), (''name'', name3), (''system'', PBool (truthy system)),
        (''info_label'', x), (''info_summary'', x2), (''privilege'', PList items3)])))))))))))
          else pureM None)) items2)
       (raiseM (LookupError (''role '' @ py_repr name @ '' not found''))))))"

definition vim_role_get_or_none :: "vmodl \<Rightarrow> pyval \<Rightarrow> pyval \<Rightarrow> profile \<Rightarrow> pyval io" where
  "vim_role_get_or_none api opts name profile =
     tryM
       (vim_role_get api opts name profile)
       (\<lambda>exc. if is_LookupError exc then pureM PNone else raiseM exc)"

definition vim_role_create :: "vmodl \<Rightarrow> pyval \<Rightarrow> pyval \<Rightarrow> pyval \<Rightarrow> profile \<Rightarrow> pyval io" where
  "vim_role_create api opts name privileges profile =
     bindM (vim_role_mgr api opts profile) (\<lambda>mgr2.
     bindM (liftR (py_iter privileges)) (\<lambda>items2.
     vcall api mgr2 ''AddAuthorizationRole'' [] [(''name'', name), (''privIds'', PList items2)]))"

definition vim_role_role_id_by_name :: "vmodl \<Rightarrow> pyval \<Rightarrow> pyval \<Rightarrow> pyval io" where
  "vim_role_role_id_by_name api mgr name =
     bindM (vget api mgr ''roleList'') (\<lambda>roleList.
     bindM (liftR (py_iter roleList)) (\<lambda>items.
     or_else
       (first_of (\<lambda>role.
          bindM (vget api role ''name'') (\<lambda>name2.
          if py_eq name2 name then
            bindM (vget api role ''roleId'') (\<lambda>roleId.
            pureM (Some roleId))
          else pureM None)) items)
       (raiseM (LookupError (''role '' @ py_repr name @ '' not found'')))))"

definition vim_role_update :: "vmodl \<Rightarrow> pyval \<Rightarrow> pyval \<Rightarrow> pyval \<Rightarrow> profile \<Rightarrow> pyval io" where
  "vim_role_update api opts name privileges profile =
     bindM (vim_role_mgr api opts profile) (\<lambda>mgr.
     bindM (vim_role_role_id_by_name api mgr name) (\<lambda>role_id.
     bindM (liftR (py_iter privileges)) (\<lambda>items2.
     bindM
       (vcall api mgr ''UpdateAuthorizationRole'' [] [(''roleId'', role_id), (''newName'', name), (''privIds'',
        PList items2)]) (\<lambda>_.
     pureM PNone))))"

definition vim_role_rename :: "vmodl \<Rightarrow> pyval \<Rightarrow> pyval \<Rightarrow> pyval \<Rightarrow> profile \<Rightarrow> pyval io" where
  "vim_role_rename api opts name new_name profile =
     bindM (vim_role_mgr api opts profile) (\<lambda>mgr.
     bindM (vim_role_role_id_by_name api mgr name) (\<lambda>role_id.
     bindM (vget api mgr ''roleList'') (\<lambda>roleList.
     bindM (liftR (py_iter roleList)) (\<lambda>items2.
     bindM
       (first_of (\<lambda>r.
          bindM (vget api r ''roleId'') (\<lambda>roleId.
          if py_eq roleId role_id then
            bindM (vget api r ''privilege'') (\<lambda>privilege.
            pureM (Some privilege))
          else pureM None)) items2) (\<lambda>found.
     bindM (liftR (py_next found)) (\<lambda>privileges.
     bindM (liftR (py_iter (py_or privileges (PList [])))) (\<lambda>items3.
     bindM
       (vcall api mgr ''UpdateAuthorizationRole'' [] [(''roleId'', role_id), (''newName'', new_name), (''privIds'',
        PList items3)]) (\<lambda>_.
     pureM PNone))))))))"

definition vim_role_delete :: "vmodl \<Rightarrow> pyval \<Rightarrow> pyval \<Rightarrow> pyval \<Rightarrow> profile \<Rightarrow> pyval io" where
  "vim_role_delete api opts name fail_if_used profile =
     bindM (vim_role_mgr api opts profile) (\<lambda>mgr.
     bindM (vim_role_role_id_by_name api mgr name) (\<lambda>role_id.
     bindM
       (vcall api mgr ''RemoveAuthorizationRole'' [] [(''roleId'', role_id), (''failIfUsed'', fail_if_used)])
        (\<lambda>_.
     pureM PNone)))"

definition vim_role_list_privileges :: "vmodl \<Rightarrow> pyval \<Rightarrow> profile \<Rightarrow> pyval io" where
  "vim_role_list_privileges api opts profile =
     (let out = [] in
      bindM (vim_role_mgr api opts profile) (\<lambda>mgr2.
      bindM (vget api mgr2 ''privilegeList'') (\<lambda>privilegeList.
      bindM (liftR (py_iter privilegeList)) (\<lambda>items.
      bindM
        (foldM (\<lambda>priv out.
           bindM (vget api priv ''privId'') (\<lambda>privId.
           bindM (vget api priv ''name'') (\<lambda>name.
           bindM (vget api priv ''privGroupName'') (\<lambda>privGroupName.
           bindM (vget api priv ''onParent'') (\<lambda>onParent.
           pureM (out @ [PDict [(''id'', privId), (''name'', name), (''group'', privGroupName), (''on_parent'',
        PBool (truthy onParent))]])))))) items out) (\<lambda>out.
      pureM (PList out))))))"

definition vim_role_list_privilege_groups :: "vmodl \<Rightarrow> pyval \<Rightarrow> profile \<Rightarrow> pyval io" where
  "vim_role_list_privilege_groups api opts profile =
     bindM (vim_role_mgr api opts profile) (\<lambda>mgr2.
     bindM (vget api mgr2 ''privilegeList'') (\<lambda>privilegeList.
     bindM (liftR (py_iter privilegeList)) (\<lambda>items.
     bindM
       (mapM (\<lambda>pg.
          bindM (vget api pg ''privGroupId'') (\<lambda>privGroupId.
          bindM (vget api pg ''privGroupName'') (\<lambda>privGroupName.
          pureM (PDict [(''id'', privGroupId), (''name'', privGroupName)])))) items) (\<lambda>out.
     pureM (PList out)))))"

subsection \<open>\<open>clients/vim_scheduled_task.py\<close>\<close>

definition vim_scheduled_task_stm :: "vmodl \<Rightarrow> pyval \<Rightarrow> profile \<Rightarrow> pyval io" where
  "vim_scheduled_task_stm api opts profile =
     bindM (vim_content api opts profile) (\<lambda>content.
     vget api content ''scheduledTaskManager'')"

definition vim_scheduled_task_find_task :: "vmodl \<Rightarrow> pyval \<Rightarrow> pyval \<Rightarrow> profile \<Rightarrow> pyval io" where
  "vim_scheduled_task_find_task api opts task_id_or_name profile =
     bindM (vim_scheduled_task_stm api opts profile) (\<lambda>stm.
     bindM (vget api stm ''scheduledTask'') (\<lambda>scheduledTask.
     bindM (liftR (py_iter (py_or scheduledTask (PList [])))) (\<lambda>items.
     or_else
       (first_of (\<lambda>task.
          bindM (vget api task ''_moId'') (\<lambda>moId.
          bindM (vpath api task [''info'', ''name'']) (\<lambda>name.
          if list_ex (py_eq task_id_or_name) [moId, name] then pureM (Some task) else pureM None))) items)
       (raiseM (LookupError (''scheduled task '' @ py_repr task_id_or_name @ '' not found''))))))"

definition vim_scheduled_task_to_dict :: "vmodl \<Rightarrow> pyval \<Rightarrow> pyval io" where
  "vim_scheduled_task_to_dict api task =
     bindM (vget api task ''info'') (\<lambda>info.
     bindM (vget api task ''_moId'') (\<lambda>moId.
     bindM (vget api info ''name'') (\<lambda>name.
     bindM (vget api info ''description'') (\<lambda>description.
     bindM (vget api info ''enabled'') (\<lambda>enabled.
     bindM (vget api info ''entity'') (\<lambda>entity.
     bindM (if truthy entity then vpath api info [''entity'', ''_moId''] else pureM PNone) (\<lambda>x.
     bindM (vget api info ''scheduler'') (\<lambda>scheduler.
     bindM
       (if truthy scheduler then
          bindM (vget api info ''scheduler'') (\<lambda>scheduler2.
          pureM (PStr (class_name scheduler2)))
        else pureM PNone) (\<lambda>x2.
     bindM (vget api info ''lastModifiedUser'') (\<lambda>lastModifiedUser.
     bindM (vget api info ''nextRunTime'') (\<lambda>nextRunTime.
     bindM
       (if truthy nextRunTime then
          bindM (vget api info ''nextRunTime'') (\<lambda>nextRunTime2.
          vcall api nextRunTime2 ''isoformat'' [] [])
        else pureM PNone) (\<lambda>x3.
     bindM (vget api info ''state'') (\<lambda>st.
     bindM
       (if truthy st then bindM (vget api info ''state'') (\<lambda>st2. pureM (PStr (py_str st2))) else pureM
        PNone) (\<lambda>x4.
     pureM (PDict [(''id'', moId), (''name'', name), (''description'', description), (''enabled'', PBool (truthy
       enabled)), (''entity'', x), (''scheduler'', x2), (''last_modified_user'', lastModifiedUser),
        (''next_run_time'', x3), (''state'', x4)])))))))))))))))"

text \<open>The first entity with the identifier among the hosts, then the machines, then the clusters; each view is destroyed.\<close>

definition managed_entity :: "vmodl \<Rightarrow> pyval \<Rightarrow> pyval \<Rightarrow> pyval option io" where
  "managed_entity api content entity =
     first_of (\<lambda>view_type.
       viewed api content view_type (\<lambda>container.
         bindM (vget api container ''view'') (\<lambda>view.
         bindM (liftR (py_iter view)) (\<lambda>items.
         first_of (\<lambda>e. bindM (vget api e ''_moId'') (\<lambda>moid. pureM (if py_eq moid entity then Some e else None))) items))))
       [''vim.HostSystem'', ''vim.VirtualMachine'', ''vim.ClusterComputeResource'']"

definition vim_scheduled_task_list :: "vmodl \<Rightarrow> pyval \<Rightarrow> pyval \<Rightarrow> profile \<Rightarrow> pyval io" where
  "vim_scheduled_task_list api opts entity profile =
     bindM (vim_scheduled_task_stm api opts profile) (\<lambda>stm.
     bindM
       (if entity \<noteq> PNone then
          bindM (vim_content api opts profile) (\<lambda>content.
          bindM (managed_entity api content entity) (\<lambda>ent.
          case ent of
            None \<Rightarrow> pureM None
          | Some e \<Rightarrow>
              bindM (vcall api stm ''RetrieveEntityScheduledTask'' [] [(''entity'', e)]) (\<lambda>tasks. pureM (Some tasks))))
        else
          bindM (vget api stm ''scheduledTask'') (\<lambda>tasks. pureM (Some (py_or tasks (PList []))))) (\<lambda>tasks.
     case tasks of
       None \<Rightarrow> pureM (PList [])
     | Some ts \<Rightarrow>
         bindM (liftR (py_iter ts)) (\<lambda>items.
         bindM (mapM (vim_scheduled_task_to_dict api) items) (\<lambda>out. pureM (PList out)))))"

definition vim_scheduled_task_get :: "vmodl \<Rightarrow> pyval \<Rightarrow> pyval \<Rightarrow> profile \<Rightarrow> pyval io" where
  "vim_scheduled_task_get api opts task_id_or_name profile =
     bindM (vim_scheduled_task_find_task api opts task_id_or_name profile) (\<lambda>find_task2.
     vim_scheduled_task_to_dict api find_task2)"

definition vim_scheduled_task_get_or_none :: "vmodl \<Rightarrow> pyval \<Rightarrow> pyval \<Rightarrow> profile \<Rightarrow> pyval io" where
  "vim_scheduled_task_get_or_none api opts task_id_or_name profile =
     tryM
       (vim_scheduled_task_get api opts task_id_or_name profile)
       (\<lambda>exc. if is_LookupError exc then pureM PNone else raiseM exc)"

definition schedule_of :: "vmodl \<Rightarrow> pyval \<Rightarrow> pyval io" where
  "schedule_of api sched =
     bindM (liftR (py_get sched ''type'' (PStr ''OnceTaskScheduler''))) (\<lambda>sched_type.
     if \<not> is_str sched_type then raiseM (TypeError ''attribute name must be string'')
     else if \<not> vm_class api (''vim.scheduler.'' @ py_str sched_type) then
       raiseM (AttributeError (''module has no attribute '' @ py_repr sched_type))
     else
       bindM (vnew api (''vim.scheduler.'' @ py_str sched_type) []) (\<lambda>sched_obj.
       bindM (liftR (py_dict sched)) (\<lambda>entries.
       foldM (\<lambda>(k, v) obj. if k = ''type'' then pureM obj else vset api obj k v) entries sched_obj)))"

definition vim_scheduled_task_build_task_spec :: "vmodl \<Rightarrow> pyval \<Rightarrow> pyval io" where
  "vim_scheduled_task_build_task_spec api spec =
     bindM (vnew api ''vim.scheduler.ScheduledTaskSpec'' []) (\<lambda>task_spec.
     bindM (liftR (py_item spec ''name'')) (\<lambda>name.
     bindM (vset api task_spec ''name'' name) (\<lambda>task_spec.
     bindM (liftR (py_get spec ''description'' (PStr []))) (\<lambda>description.
     bindM (vset api task_spec ''description'' description) (\<lambda>task_spec.
     bindM (liftR (py_get spec ''enabled'' (PBool True))) (\<lambda>enabled.
     bindM (vset api task_spec ''enabled'' (PBool (truthy enabled))) (\<lambda>task_spec.
     bindM (liftR (py_get spec ''scheduler'' PNone)) (\<lambda>sched.
     bindM (schedule_of api (py_or sched empty_dict)) (\<lambda>sched_obj.
     bindM (vset api task_spec ''scheduler'' sched_obj) (\<lambda>task_spec.
     bindM (liftR (py_get spec ''action'' PNone)) (\<lambda>a.
     let action = py_or a empty_dict in
     bindM (vnew api ''vim.action.MethodAction'' []) (\<lambda>method_action.
     bindM (liftR (py_get action ''method'' (PStr []))) (\<lambda>mname.
     bindM (vset api method_action ''name'' mname) (\<lambda>method_action.
     bindM (liftR (py_get action ''arguments'' (PList []))) (\<lambda>arguments.
     bindM (liftR (py_iter arguments)) (\<lambda>items.
     bindM (mapM (\<lambda>v. vnew api ''vim.action.MethodActionArgument'' [(''value'', v)]) items) (\<lambda>args.
     bindM (vset api method_action ''argument'' (PList args)) (\<lambda>method_action.
     bindM (vset api task_spec ''action'' method_action) (\<lambda>task_spec.
     bindM (liftR (py_in (PStr ''notification'') spec)) (\<lambda>notified.
     if notified then
       bindM (liftR (py_item spec ''notification'')) (\<lambda>n. vset api task_spec ''notification'' n)
     else pureM task_spec))))))))))))))))))))"

definition vim_scheduled_task_create :: "vmodl \<Rightarrow> pyval \<Rightarrow> pyval \<Rightarrow> pyval \<Rightarrow> profile \<Rightarrow> pyval io" where
  "vim_scheduled_task_create api opts entity_moid spec profile =
     bindM (vim_scheduled_task_stm api opts profile) (\<lambda>stm.
     bindM (vim_content api opts profile) (\<lambda>content.
     bindM (managed_entity api content entity_moid) (\<lambda>ent.
     case ent of
       None \<Rightarrow> raiseM (LookupError (''entity '' @ py_repr entity_moid @ '' not found''))
     | Some e \<Rightarrow>
         bindM (vim_scheduled_task_build_task_spec api spec) (\<lambda>spec_obj.
         bindM (vcall api stm ''CreateScheduledTask'' [] [(''entity'', e), (''spec'', spec_obj)]) (\<lambda>new_task.
         vget api new_task ''_moId'')))))"

definition vim_scheduled_task_reconfigure :: "vmodl \<Rightarrow> pyval \<Rightarrow> pyval \<Rightarrow> pyval \<Rightarrow> profile \<Rightarrow> pyval io" where
  "vim_scheduled_task_reconfigure api opts task_id_or_name spec profile =
     bindM (vim_scheduled_task_find_task api opts task_id_or_name profile) (\<lambda>task.
     bindM (vim_scheduled_task_build_task_spec api spec) (\<lambda>spec_obj.
     bindM (vcall api task ''ReconfigureScheduledTask'' [] [(''spec'', spec_obj)]) (\<lambda>_.
     vim_scheduled_task_get api opts task_id_or_name profile)))"

definition vim_scheduled_task_delete :: "vmodl \<Rightarrow> pyval \<Rightarrow> pyval \<Rightarrow> profile \<Rightarrow> pyval io" where
  "vim_scheduled_task_delete api opts task_id_or_name profile =
     bindM (vim_scheduled_task_find_task api opts task_id_or_name profile) (\<lambda>task.
     bindM (vcall api task ''RemoveScheduledTask'' [] []) (\<lambda>_.
     pureM (PBool True)))"

definition vim_scheduled_task_run_now :: "vmodl \<Rightarrow> pyval \<Rightarrow> pyval \<Rightarrow> profile \<Rightarrow> pyval io" where
  "vim_scheduled_task_run_now api opts task_id_or_name profile =
     bindM (vim_scheduled_task_find_task api opts task_id_or_name profile) (\<lambda>task.
     bindM (vcall api task ''RunScheduledTask'' [] []) (\<lambda>_.
     pureM (PBool True)))"

subsection \<open>\<open>clients/vim_vasa.py\<close>\<close>

definition vim_vasa_sms_stub :: "vmodl \<Rightarrow> pyval \<Rightarrow> profile \<Rightarrow> pyval io" where
  "vim_vasa_sms_stub api opts profile =
     bindM (vim_get_service_instance api opts profile) (\<lambda>_.
     if \<not> vm_class api ''pyVmomi.sms'' then
       raiseM (RuntimeError (''pyVmomi sms bindings not available '' @ em_dash @ '' install pyvmomi[sms]''))
     else
       bindM (liftR (vcenter_get_config opts profile)) (\<lambda>cfg.
       vm_connect api
         [(''host'', cfg_host cfg), (''user'', cfg_username cfg), (''pwd'', cfg_password cfg),
          (''sslContext'', if truthy (cfg_verify_ssl cfg) then PNone else unverified_context),
          (''connectionPoolTimeout'', PInt 30), (''path'', PStr ''/sms/sdk'')]))"

definition vim_vasa_provider_to_dict :: "vmodl \<Rightarrow> pyval \<Rightarrow> pyval io" where
  "vim_vasa_provider_to_dict api p =
     bindM (vget_or api p ''providerInfo'' PNone) (\<lambda>providerInfo.
     bindM (if truthy providerInfo then pureM providerInfo else vget_or api p ''info'' PNone) (\<lambda>info.
     if info = PNone then
       bindM (vget api p ''_moId'') (\<lambda>moId.
       pureM (PDict [(''id'', moId)]))
     else
       bindM (vget api p ''_moId'') (\<lambda>moId2.
       bindM (vget_or api info ''name'' PNone) (\<lambda>name.
       bindM (vget_or api info ''url'' PNone) (\<lambda>url.
       bindM (vget_or api info ''vasaVersion'' PNone) (\<lambda>vasaVersion.
       bindM (if truthy vasaVersion then pureM vasaVersion else vget_or api info ''version'' PNone) (\<lambda>x2.
       bindM (vget_or api info ''vendorId'' PNone) (\<lambda>vendorId.
       bindM (vget_or api info ''status'' PNone) (\<lambda>status.
       pureM (PDict [(''id'', moId2), (''name'', name), (''url'', url), (''version'', x2), (''vendor'', vendorId),
        (''status'', status)]))))))))))"

definition vim_vasa_list :: "vmodl \<Rightarrow> pyval \<Rightarrow> profile \<Rightarrow> pyval io" where
  "vim_vasa_list api opts profile =
     attempt (\<lambda>_. True)
       (vim_vasa_sms_stub api opts profile)
       (\<lambda>si.
        tryM
          (bindM (vcall api si ''RetrieveServiceContent'' [] []) (\<lambda>sms_content.
           bindM (vget api sms_content ''storageManager'') (\<lambda>mgr.
           bindM (vcall api mgr ''QueryProvider'' [] []) (\<lambda>queryProvider.
           bindM (liftR (py_iter (py_or queryProvider (PList [])))) (\<lambda>items.
           bindM (mapM (\<lambda>p. vim_vasa_provider_to_dict api p) items) (\<lambda>out.
           pureM (PList out)))))))
          (\<lambda>exc. pureM (PList [])))
       (\<lambda>_.
        pureM (PList []))"

definition vim_vasa_get :: "vmodl \<Rightarrow> pyval \<Rightarrow> pyval \<Rightarrow> profile \<Rightarrow> pyval io" where
  "vim_vasa_get api opts provider_id profile =
     bindM (vim_vasa_list api opts profile) (\<lambda>items2.
     bindM (liftR (py_iter items2)) (\<lambda>items3.
     or_else
       (first_of (\<lambda>p.
          bindM (liftR (py_get p ''id'' PNone)) (\<lambda>ident.
          if py_eq ident provider_id then pureM (Some p) else pureM None)) items3)
       (raiseM (LookupError (''VASA provider '' @ py_repr provider_id @ '' not found'')))))"

definition vim_vasa_get_or_none :: "vmodl \<Rightarrow> pyval \<Rightarrow> pyval \<Rightarrow> profile \<Rightarrow> pyval io" where
  "vim_vasa_get_or_none api opts provider_id profile =
     tryM
       (vim_vasa_get api opts provider_id profile)
       (\<lambda>exc. if is_LookupError exc then pureM PNone else raiseM exc)"

subsection \<open>\<open>clients/vcenter_folder.py\<close>\<close>

definition vcenter_folder_PATH :: "string" where
  "vcenter_folder_PATH = ''/api/vcenter/folder''"

definition vcenter_folder_ROOT_ATTR :: "dict" where
  "vcenter_folder_ROOT_ATTR =
     [(''VIRTUAL_MACHINE'', PStr ''vmFolder''), (''HOST'', PStr ''hostFolder''), (''NETWORK'', PStr
       ''networkFolder''), (''DATASTORE'', PStr ''datastoreFolder'')]"

definition vcenter_folder_list :: "pyval \<Rightarrow> profile \<Rightarrow> pyval io" where
  "vcenter_folder_list opts profile = vcenter_api_get opts vcenter_folder_PATH PNone profile PNone"

definition vcenter_folder_get :: "pyval \<Rightarrow> pyval \<Rightarrow> profile \<Rightarrow> pyval io" where
  "vcenter_folder_get opts folder_id profile =
     vcenter_api_get opts (vcenter_folder_PATH @ ''/'' @ py_str folder_id) PNone profile PNone"

definition vcenter_folder_get_or_none :: "pyval \<Rightarrow> pyval \<Rightarrow> profile \<Rightarrow> pyval io" where
  "vcenter_folder_get_or_none opts folder_id profile =
     none_if_missing (vcenter_folder_get opts folder_id profile)"

definition vcenter_folder_list_by_type :: "pyval \<Rightarrow> pyval \<Rightarrow> profile \<Rightarrow> pyval io" where
  "vcenter_folder_list_by_type opts folder_type profile =
     vcenter_api_get opts vcenter_folder_PATH (PDict [(''type'', folder_type)]) profile PNone"

definition vcenter_folder_find_folder_object :: "vmodl \<Rightarrow> pyval \<Rightarrow> pyval \<Rightarrow> profile \<Rightarrow> pyval io" where
  "vcenter_folder_find_folder_object api opts name profile =
     bindM (vim_content api opts profile) (\<lambda>content.
     bindM (vget api content ''viewManager'') (\<lambda>viewManager.
     bindM (vget api content ''rootFolder'') (\<lambda>rootFolder.
     bindM
       (vcall api viewManager ''CreateContainerView'' [rootFolder, PList [PStr ''vim.Folder''], PBool True] [])
        (\<lambda>container.
     or_else
       (finallyM
          (bindM (vget api container ''view'') (\<lambda>view.
           bindM (liftR (py_iter view)) (\<lambda>items.
           first_of (\<lambda>f.
             bindM (vget api f ''name'') (\<lambda>name2.
             if py_eq name2 name then pureM (Some f) else pureM None)) items)))
          (bindM (vcall api container ''Destroy'' [] []) (\<lambda>_.
           pureM ())))
       (pureM PNone)))))"

definition vcenter_folder_find_by_name :: "vmodl \<Rightarrow> pyval \<Rightarrow> pyval \<Rightarrow> profile \<Rightarrow> pyval io" where
  "vcenter_folder_find_by_name api opts name profile =
     bindM (vcenter_folder_find_folder_object api opts name profile) (\<lambda>obj.
     if obj = PNone then pureM PNone
     else
       bindM (vget api obj ''_moId'') (\<lambda>moId.
       bindM (vget api obj ''name'') (\<lambda>name2.
       pureM (PDict [(''folder'', moId), (''name'', name2)]))))"

definition vcenter_folder_find_datacenter :: "vmodl \<Rightarrow> pyval \<Rightarrow> pyval \<Rightarrow> profile \<Rightarrow> pyval io" where
  "vcenter_folder_find_datacenter api opts name profile =
     bindM (vim_content api opts profile) (\<lambda>content.
     bindM (vget api content ''viewManager'') (\<lambda>viewManager.
     bindM (vget api content ''rootFolder'') (\<lambda>rootFolder.
     bindM
       (vcall api viewManager ''CreateContainerView'' [rootFolder, PList [PStr ''vim.Datacenter''], PBool True] [])
        (\<lambda>container.
     or_else
       (finallyM
          (bindM (vget api container ''view'') (\<lambda>view.
           bindM (liftR (py_iter view)) (\<lambda>items.
           first_of (\<lambda>dc.
             bindM (vget api dc ''_moId'') (\<lambda>moId.
             bindM (vget api dc ''name'') (\<lambda>name2.
             if list_ex (py_eq name) [moId, name2] then pureM (Some dc) else pureM None))) items)))
          (bindM (vcall api container ''Destroy'' [] []) (\<lambda>_.
           pureM ())))
       (raiseM (LookupError (''datacenter '' @ py_repr name @ '' not found'')))))))"

definition vcenter_folder_resolve_parent :: "vmodl \<Rightarrow> pyval \<Rightarrow> pyval \<Rightarrow> pyval
  \<Rightarrow> pyval \<Rightarrow> profile \<Rightarrow> pyval io" where
  "vcenter_folder_resolve_parent api opts folder_type parent datacenter profile =
     (if truthy parent then
        bindM (vcenter_folder_find_folder_object api opts parent profile) (\<lambda>obj.
        if obj = PNone then raiseM (LookupError (''parent folder '' @ py_repr parent @ '' not found''))
        else pureM obj)
      else
        bindM (liftR (py_lookup (PDict vcenter_folder_ROOT_ATTR) folder_type PNone)) (\<lambda>attr.
        if attr = PNone then raiseM (ValueError (''unknown folder_type '' @ py_repr folder_type))
        else if \<not> truthy datacenter then
          raiseM (ValueError (''datacenter is required to create a top-level '' @ py_str folder_type @
        '' folder''))
        else
          bindM (vcenter_folder_find_datacenter api opts datacenter profile) (\<lambda>dc.
          vget api dc (py_str attr))))"

definition vcenter_folder_create :: "vmodl \<Rightarrow> pyval \<Rightarrow> pyval \<Rightarrow> pyval \<Rightarrow>
  pyval \<Rightarrow> pyval \<Rightarrow> profile \<Rightarrow> pyval io" where
  "vcenter_folder_create api opts name folder_type parent datacenter profile =
     bindM (vcenter_folder_resolve_parent api opts folder_type parent datacenter profile) (\<lambda>parent_obj.
     bindM (vcall api parent_obj ''CreateFolder'' [] [(''name'', name)]) (\<lambda>new_folder.
     vget api new_folder ''_moId''))"

definition vcenter_folder_folder_by_moid :: "vmodl \<Rightarrow> pyval \<Rightarrow> pyval \<Rightarrow> profile \<Rightarrow> pyval io" where
  "vcenter_folder_folder_by_moid api opts moid profile =
     bindM (vim_content api opts profile) (\<lambda>content.
     bindM (vget api content ''viewManager'') (\<lambda>viewManager.
     bindM (vget api content ''rootFolder'') (\<lambda>rootFolder.
     bindM
       (vcall api viewManager ''CreateContainerView'' [rootFolder, PList [PStr ''vim.Folder''], PBool True] [])
        (\<lambda>container.
     or_else
       (finallyM
          (bindM (vget api container ''view'') (\<lambda>view.
           bindM (liftR (py_iter view)) (\<lambda>items.
           first_of (\<lambda>f.
             bindM (vget api f ''_moId'') (\<lambda>moId.
             if py_eq moId moid then pureM (Some f) else pureM None)) items)))
          (bindM (vcall api container ''Destroy'' [] []) (\<lambda>_.
           pureM ())))
       (raiseM (LookupError (''folder '' @ py_repr moid @ '' not found'')))))))"

definition vcenter_folder_delete :: "vmodl \<Rightarrow> pyval \<Rightarrow> pyval \<Rightarrow> profile \<Rightarrow> pyval io" where
  "vcenter_folder_delete api opts folder_id profile =
     bindM (vcenter_folder_folder_by_moid api opts folder_id profile) (\<lambda>obj.
     bindM (vcall api obj ''Destroy_Task'' [] []) (\<lambda>task.
     bindM (vim_wait_for_task api task 300 500) (\<lambda>_.
     pureM PNone)))"

subsection \<open>\<open>clients/vcenter_statistics.py\<close>\<close>

definition vcenter_statistics_KEY_TO_NAME :: "string kdict" where
  "vcenter_statistics_KEY_TO_NAME =
     [(PInt 1, ''past_day''), (PInt 2, ''past_week''), (PInt 3, ''past_month''), (PInt 4, ''past_year'')]"

definition vcenter_statistics_NAME_TO_KEY :: "dict" where
  "vcenter_statistics_NAME_TO_KEY = map (\<lambda>(k, v). (v, k)) vcenter_statistics_KEY_TO_NAME"

definition vcenter_statistics_to_dict :: "vmodl \<Rightarrow> pyval \<Rightarrow> pyval io" where
  "vcenter_statistics_to_dict api interval_v =
     bindM (vget api interval_v ''key'') (\<lambda>key.
     bindM (vget api interval_v ''enabled'') (\<lambda>enabled.
     bindM (vget api interval_v ''samplingPeriod'') (\<lambda>samplingPeriod.
     bindM (liftR (py_floordiv samplingPeriod 60)) (\<lambda>n.
     bindM (vget api interval_v ''length'') (\<lambda>length_v.
     bindM (liftR (py_floordiv length_v 86400)) (\<lambda>n2.
     bindM (vget api interval_v ''level'') (\<lambda>level.
     pureM (PDict [(''key'', key), (''enabled'', PBool (truthy enabled)), (''interval_minutes'', n), (''save_days'',
       n2), (''level'', level)]))))))))"

definition vcenter_statistics_intervals_get :: "vmodl \<Rightarrow> pyval \<Rightarrow> profile \<Rightarrow> pyval io" where
  "vcenter_statistics_intervals_get api opts profile =
     bindM (vim_perf_manager api opts profile) (\<lambda>mgr.
     bindM (vget api mgr ''historicalInterval'') (\<lambda>intervals.
     bindM (liftR (py_iter intervals)) (\<lambda>items.
     bindM
       (foldM (\<lambda>interval d.
          bindM (vget api interval ''key'') (\<lambda>key.
          case kget key vcenter_statistics_KEY_TO_NAME of
            None \<Rightarrow> pureM d
          | Some name \<Rightarrow>
              bindM (vcenter_statistics_to_dict api interval) (\<lambda>x. pureM (dset d name x)))) items []) (\<lambda>d.
     pureM (PDict d)))))"

definition vcenter_statistics_interval_get :: "vmodl \<Rightarrow> pyval \<Rightarrow> pyval \<Rightarrow> profile \<Rightarrow> pyval io" where
  "vcenter_statistics_interval_get api opts name profile =
     bindM (vcenter_statistics_intervals_get api opts profile) (\<lambda>intervals_get2.
     liftR (py_lookup intervals_get2 name PNone))"

definition vcenter_statistics_interval_set ::
  "vmodl \<Rightarrow> pyval \<Rightarrow> pyval \<Rightarrow> pyval \<Rightarrow> pyval \<Rightarrow> pyval \<Rightarrow> pyval \<Rightarrow>
   profile \<Rightarrow> pyval io" where
  "vcenter_statistics_interval_set api opts name enabled interval_minutes save_days level profile =
     bindM (liftR (py_lookup (PDict vcenter_statistics_NAME_TO_KEY) name PNone)) (\<lambda>key.
     if key = PNone then
       bindM (liftR (py_sorted (map (\<lambda>p. PStr (fst p)) vcenter_statistics_NAME_TO_KEY))) (\<lambda>names.
       raiseM (ValueError (''unknown statistics interval '' @ py_repr name @ ''; expected one of '' @
         py_repr (PList names))))
     else
       bindM (vim_perf_manager api opts profile) (\<lambda>mgr.
       bindM (vget api mgr ''historicalInterval'') (\<lambda>intervals.
       bindM (liftR (py_iter intervals)) (\<lambda>items.
       bindM
         (first_of (\<lambda>i. bindM (vget api i ''key'') (\<lambda>k. pureM (if py_eq k key then Some i else None))) items) (\<lambda>found.
       case found of
         None \<Rightarrow>
           raiseM (LookupError (''interval '' @ py_repr name @ '' (key='' @ py_str key @ '') not found on this vCenter''))
       | Some cur \<Rightarrow>
           bindM (vget api cur ''name'') (\<lambda>cur_name.
           bindM
             (if interval_minutes \<noteq> PNone then liftR (py_times interval_minutes 60)
              else vget api cur ''samplingPeriod'') (\<lambda>period.
           bindM (if save_days \<noteq> PNone then liftR (py_times save_days 86400) else vget api cur ''length'') (\<lambda>len.
           bindM (if level \<noteq> PNone then pureM level else vget api cur ''level'') (\<lambda>lev.
           bindM (if enabled \<noteq> PNone then pureM enabled else vget api cur ''enabled'') (\<lambda>on.
           bindM
             (vnew api ''vim.HistoricalInterval''
                [(''key'', key), (''name'', cur_name), (''samplingPeriod'', period), (''length'', len), (''level'', lev),
                 (''enabled'', on)]) (\<lambda>updated.
           bindM (vcall api mgr ''UpdatePerfInterval'' [] [(''interval'', updated)]) (\<lambda>_.
           vcenter_statistics_interval_get api opts name profile))))))))))))"

subsection \<open>\<open>clients/vcenter_advanced_option.py\<close>\<close>

definition vcenter_advanced_option_advanced_get :: "vmodl \<Rightarrow> pyval \<Rightarrow> pyval \<Rightarrow> profile \<Rightarrow> pyval io" where
  "vcenter_advanced_option_advanced_get api opts key profile =
     bindM (vim_content api opts profile) (\<lambda>content.
     bindM (vget api content ''setting'') (\<lambda>option_mgr.
     if \<not> truthy key then
       bindM (vget api option_mgr ''setting'') (\<lambda>setting2.
       bindM (liftR (py_iter (py_or setting2 (PList [])))) (\<lambda>items.
       bindM
         (mapM (\<lambda>s.
            bindM (vget api s ''key'') (\<lambda>key2.
            bindM (liftR (str_key key2)) (\<lambda>k.
            bindM (vget api s ''value'') (\<lambda>val.
            pureM (k, val))))) items) (\<lambda>entries.
       pureM (PDict (dupdate [] entries)))))
     else
       attempt (\<lambda>exc. is_fault api ''vim.fault.InvalidName'' exc)
         (vcall api option_mgr ''QueryOptions'' [] [(''name'', key)])
         (\<lambda>settings.
          if truthy settings then
            bindM (liftR (py_first settings)) (\<lambda>first.
            vget api first ''value'')
          else pureM PNone)
         (\<lambda>_.
          pureM PNone)))"

definition vcenter_advanced_option_advanced_set :: "vmodl \<Rightarrow> pyval \<Rightarrow> pyval \<Rightarrow>
  pyval \<Rightarrow> profile \<Rightarrow> pyval io" where
  "vcenter_advanced_option_advanced_set api opts key val profile =
     bindM (vim_content api opts profile) (\<lambda>content.
     bindM (vget api content ''setting'') (\<lambda>option_mgr.
     bindM
       (tryM
          (vcall api option_mgr ''QueryOptions'' [] [(''name'', key)])
          (\<lambda>exc. if is_fault api ''vim.fault.InvalidName'' exc then pureM PNone else raiseM exc))
        (\<lambda>existing.
     bindM
       (if truthy existing then
          bindM (liftR (py_first existing)) (\<lambda>opt.
          vset api opt ''value'' val)
        else vnew api ''vim.option.OptionValue'' [(''key'', key), (''value'', val)]) (\<lambda>opt.
     bindM (vcall api option_mgr ''UpdateOptions'' [] [(''changedValue'', PList [opt])]) (\<lambda>_.
     pureM PNone)))))"

subsection \<open>\<open>clients/vcenter_custom_attribute.py\<close>\<close>

definition vcenter_custom_attribute_manager :: "vmodl \<Rightarrow> pyval \<Rightarrow> profile \<Rightarrow> pyval io" where
  "vcenter_custom_attribute_manager api opts profile =
     bindM (vim_content api opts profile) (\<lambda>content.
     vget api content ''customFieldsManager'')"

definition vcenter_custom_attribute_to_dict :: "vmodl \<Rightarrow> pyval \<Rightarrow> pyval io" where
  "vcenter_custom_attribute_to_dict api field_def =
     bindM (vget api field_def ''key'') (\<lambda>key.
     bindM (vget api field_def ''name'') (\<lambda>name.
     bindM (vget api field_def ''managedObjectType'') (\<lambda>managedObjectType.
     pureM (PDict [(''key'', key), (''name'', name), (''managed_object_type'', name_of_class_or_none
       managedObjectType)]))))"

definition vcenter_custom_attribute_list :: "vmodl \<Rightarrow> pyval \<Rightarrow> profile \<Rightarrow> pyval io" where
  "vcenter_custom_attribute_list api opts profile =
     bindM (vcenter_custom_attribute_manager api opts profile) (\<lambda>manager2.
     bindM (vget api manager2 ''field'') (\<lambda>field_v.
     bindM (liftR (py_iter (py_or field_v (PList [])))) (\<lambda>items.
     bindM (mapM (\<lambda>f. vcenter_custom_attribute_to_dict api f) items) (\<lambda>out.
     pureM (PList out)))))"

definition vcenter_custom_attribute_get :: "vmodl \<Rightarrow> pyval \<Rightarrow> pyval \<Rightarrow> profile \<Rightarrow> pyval io" where
  "vcenter_custom_attribute_get api opts name profile =
     bindM (vcenter_custom_attribute_manager api opts profile) (\<lambda>manager2.
     bindM (vget api manager2 ''field'') (\<lambda>field_v.
     bindM (liftR (py_iter (py_or field_v (PList [])))) (\<lambda>items.
     or_else
       (first_of (\<lambda>field_def.
          bindM (vget api field_def ''name'') (\<lambda>name2.
          if py_eq name2 name then
            bindM (vcenter_custom_attribute_to_dict api field_def) (\<lambda>answer.
            pureM (Some answer))
          else pureM None)) items)
       (raiseM (LookupError (''custom attribute '' @ py_repr name @ '' not found''))))))"

definition vcenter_custom_attribute_get_or_none :: "vmodl \<Rightarrow> pyval \<Rightarrow> pyval \<Rightarrow> profile \<Rightarrow> pyval io" where
  "vcenter_custom_attribute_get_or_none api opts name profile =
     tryM
       (vcenter_custom_attribute_get api opts name profile)
       (\<lambda>exc. if is_LookupError exc then pureM PNone else raiseM exc)"

definition custom_attribute_type :: "vmodl \<Rightarrow> pyval \<Rightarrow> pyval res" where
  "custom_attribute_type api managed_object_type =
     (if \<not> truthy managed_object_type then Ok PNone
      else
        case managed_object_type of
          PStr s \<Rightarrow> if vm_class api (''vim.'' @ s) then Ok (PStr (''vim.'' @ s)) else Exc (AttributeError s)
        | v \<Rightarrow> Exc (TypeError (''attribute name must be string, not '' @ repr_str (type_name v))))"

definition vcenter_custom_attribute_add :: "vmodl \<Rightarrow> pyval \<Rightarrow> pyval \<Rightarrow> pyval \<Rightarrow> profile \<Rightarrow> pyval io" where
  "vcenter_custom_attribute_add api opts name managed_object_type profile =
     bindM (liftR (custom_attribute_type api managed_object_type)) (\<lambda>mo_type.
     bindM (vcenter_custom_attribute_manager api opts profile) (\<lambda>manager.
     bindM (vcall api manager ''AddCustomFieldDef'' [] [(''name'', name), (''moType'', mo_type)]) (\<lambda>field_def.
     vcenter_custom_attribute_to_dict api field_def)))"

definition vcenter_custom_attribute_remove :: "vmodl \<Rightarrow> pyval \<Rightarrow> pyval \<Rightarrow> profile \<Rightarrow> pyval io" where
  "vcenter_custom_attribute_remove api opts key profile =
     bindM (vcenter_custom_attribute_manager api opts profile) (\<lambda>manager2.
     bindM (liftR (py_int key)) (\<lambda>n.
     bindM (vcall api manager2 ''RemoveCustomFieldDef'' [] [(''key'', PInt n)]) (\<lambda>_.
     pureM PNone)))"

subsection \<open>\<open>clients/vcenter_storage_policy.py\<close>\<close>

definition vcenter_storage_policy_PATH :: "string" where
  "vcenter_storage_policy_PATH = ''/api/vcenter/storage/policies''"

definition vcenter_storage_policy_TAGS_ID :: "string" where
  "vcenter_storage_policy_TAGS_ID = ''com.vmware.storage.tag''"

definition vcenter_storage_policy_TAGS_NS :: "string" where
  "vcenter_storage_policy_TAGS_NS = ''https://www.vmware.com/storage/tag''"

definition vcenter_storage_policy_list :: "pyval \<Rightarrow> profile \<Rightarrow> pyval io" where
  "vcenter_storage_policy_list opts profile =
     vcenter_api_get opts vcenter_storage_policy_PATH PNone profile PNone"

definition no_policy_response :: http_response where
  "no_policy_response =
     \<lparr>status_code = 404, reason = [], rs_error = Some ''404 Client Error: None for url: None'', rs_url = ''None'', rs_method = None,
      rs_text = Some [], has_content = False, json_value = None, rs_headers = [], rs_cookies = []\<rparr>"

definition vcenter_storage_policy_get :: "pyval \<Rightarrow> pyval \<Rightarrow> profile \<Rightarrow> pyval io" where
  "vcenter_storage_policy_get opts policy profile =
     bindM (vcenter_api_get opts vcenter_storage_policy_PATH (PDict [(''policies'', policy)]) profile PNone) (\<lambda>result.
     case result of
       PList (x # _) \<Rightarrow> pureM x
     | _ \<Rightarrow> raiseM (HTTPError ''storage policy not found'' (Some no_policy_response)))"

definition vcenter_storage_policy_get_or_none :: "pyval \<Rightarrow> pyval \<Rightarrow> profile \<Rightarrow> pyval io" where
  "vcenter_storage_policy_get_or_none opts policy profile = none_if_missing (vcenter_storage_policy_get opts policy profile)"

definition vcenter_storage_policy_find_profile :: "vmodl \<Rightarrow> pyval \<Rightarrow> pyval \<Rightarrow> pyval io" where
  "vcenter_storage_policy_find_profile api pm name =
     (let resource_type = ''STORAGE'' in
      bindM (vnew api ''pbm.profile.ResourceType'' [(''resourceType'', PStr resource_type)])
        (\<lambda>resourceType.
      bindM
        (vcall api pm ''PbmQueryProfile'' [] [(''resourceType'', resourceType), (''profileCategory'', PStr
        ''REQUIREMENT'')]) (\<lambda>ids.
      if \<not> truthy ids then pureM PNone
      else
        bindM (vcall api pm ''PbmRetrieveContent'' [] [(''profileIds'', ids)]) (\<lambda>pbmRetrieveContent.
        bindM (liftR (py_iter pbmRetrieveContent)) (\<lambda>items.
        or_else
          (first_of (\<lambda>p.
             bindM (vget api p ''name'') (\<lambda>name2.
             if py_eq name2 name then pureM (Some p) else pureM None)) items)
          (pureM PNone))))))"

definition read_rule :: "vmodl \<Rightarrow> pyval \<Rightarrow> dict \<times> dict \<Rightarrow> (dict \<times> dict) io" where
  "read_rule api capability = (\<lambda>(capabilities, tags).
     bindM (vpath api capability [''id'', ''namespace'']) (\<lambda>namespace.
     bindM (vpath api capability [''id'', ''id'']) (\<lambda>cap_name.
     bindM (vget api capability ''constraint'') (\<lambda>cs.
     bindM (liftR (py_first cs)) (\<lambda>c.
     bindM (vget api c ''propertyInstance'') (\<lambda>ps.
     bindM (liftR (py_first ps)) (\<lambda>constraint.
     if py_eq namespace (PStr vcenter_storage_policy_TAGS_NS) then
       bindM (vget api constraint ''operator'') (\<lambda>operator.
       bindM (if py_eq operator (PStr ''NOT'') then liftR (py_plus (PStr ''!'') cap_name) else pureM cap_name) (\<lambda>name.
       bindM (vpath api constraint [''value'', ''values'']) (\<lambda>names.
       bindM (liftR (py_iter names)) (\<lambda>names.
       bindM (liftR (py_sorted names)) (\<lambda>names.
       bindM (liftR (str_key name)) (\<lambda>k.
       pureM (capabilities, dset tags k (PList names))))))))
     else
       bindM (vget api constraint ''value'') (\<lambda>v.
       pureM (dset capabilities (py_str namespace @ ''.'' @ py_str cap_name) v, tags)))))))))"

definition read_ruleset :: "vmodl \<Rightarrow> pyval \<Rightarrow> pyval io" where
  "read_ruleset api sub =
     bindM (vget api sub ''capability'') (\<lambda>rules.
     bindM (liftR (py_iter rules)) (\<lambda>rules.
     bindM (foldM (read_rule api) rules ([], [])) (\<lambda>(capabilities, tags).
     pureM (PDict
       ((if capabilities \<noteq> [] then [(''capabilities'', PDict capabilities)] else []) @
        (if tags \<noteq> [] then [(''tags'', PDict tags)] else []))))))"

definition vcenter_storage_policy_from_subprofiles :: "vmodl \<Rightarrow> pyval \<Rightarrow> pyval io" where
  "vcenter_storage_policy_from_subprofiles api p =
     bindM (vget api p ''constraints'') (\<lambda>constraints.
     if \<not> is_instance api constraints ''pbm.profile.SubProfileCapabilityConstraints'' then pureM PNone
     else
       bindM (vpath api p [''constraints'', ''subProfiles'']) (\<lambda>subs.
       bindM (liftR (py_iter subs)) (\<lambda>subs.
       bindM (mapM (read_ruleset api) subs) (\<lambda>res. pureM (PList res)))))"

definition vcenter_storage_policy_get_by_name :: "vmodl \<Rightarrow> pyval \<Rightarrow> pyval \<Rightarrow> profile \<Rightarrow> pyval io" where
  "vcenter_storage_policy_get_by_name api opts name profile =
     bindM (pbm_profile_manager api opts profile) (\<lambda>pm.
     bindM (vcenter_storage_policy_find_profile api pm name) (\<lambda>p.
     if p = PNone then pureM PNone
     else
       bindM (vget api p ''profileId'') (\<lambda>profileId.
       bindM (vget api p ''name'') (\<lambda>name2.
       bindM (vget api p ''description'') (\<lambda>description.
       bindM (vcenter_storage_policy_from_subprofiles api p) (\<lambda>from_subprofiles2.
       pureM (PDict [(''id'', profileId), (''name'', name2), (''description'', description), (''constraints'',
        from_subprofiles2)])))))))"

definition capability_instance :: "vmodl \<Rightarrow> string \<Rightarrow> string \<Rightarrow> dict io \<Rightarrow> pyval io" where
  "capability_instance api namespace name property =
     bindM (vnew api ''pbm.capability.CapabilityMetadata.UniqueId'' [(''namespace'', PStr namespace), (''id'', PStr name)]) (\<lambda>uid.
     bindM property (\<lambda>p.
     bindM (vnew api ''pbm.capability.PropertyInstance'' p) (\<lambda>p.
     bindM (vnew api ''pbm.capability.ConstraintInstance'' [(''propertyInstance'', PList [p])]) (\<lambda>c.
     vnew api ''pbm.capability.CapabilityInstance'' [(''id'', uid), (''constraint'', PList [c])]))))"

text \<open>\<open>capability.partition(".")\<close>.\<close>

definition capability_name :: "string \<Rightarrow> string \<times> string" where
  "capability_name s = (takeWhile (\<lambda>c. c \<noteq> CHR ''.'') s, drop 1 (dropWhile (\<lambda>c. c \<noteq> CHR ''.'') s))"

definition capability_rule :: "vmodl \<Rightarrow> string \<times> pyval \<Rightarrow> pyval io" where
  "capability_rule api = (\<lambda>(capability, v).
     let (namespace, name) = capability_name capability in
     capability_instance api namespace name (pureM [(''id'', PStr name), (''value'', v)]))"

definition tag_rule :: "vmodl \<Rightarrow> string \<times> pyval \<Rightarrow> pyval io" where
  "tag_rule api = (\<lambda>(category, tags).
     let negated = starts_with ''!'' category; category = (if negated then drop 1 category else category) in
     capability_instance api vcenter_storage_policy_TAGS_NS category
       (bindM (liftR (py_iter tags)) (\<lambda>names.
        bindM (vnew api ''pbm.capability.types.DiscreteSet'' [(''values'', PList names)]) (\<lambda>names.
        pureM [(''id'', PStr (vcenter_storage_policy_TAGS_ID @ ''.'' @ category @ ''.property'')),
          (''operator'', if negated then PStr ''NOT'' else PNone), (''value'', names)]))))"

text \<open>The rules of one of the two dicts of a ruleset.\<close>

definition rules_of :: "(string \<times> pyval \<Rightarrow> pyval io) \<Rightarrow> pyval \<Rightarrow> pyval list io" where
  "rules_of rule spec =
     (if truthy spec then bindM (liftR (py_mapping spec ''items'')) (mapM rule) else pureM [])"

definition ruleset_subprofile :: "vmodl \<Rightarrow> pyval \<Rightarrow> pyval option io" where
  "ruleset_subprofile api ruleset =
     bindM (liftR (py_get ruleset ''capabilities'' PNone)) (\<lambda>capability_spec.
     bindM (liftR (py_get ruleset ''tags'' PNone)) (\<lambda>tag_spec.
     bindM (rules_of (capability_rule api) capability_spec) (\<lambda>rules1.
     bindM (rules_of (tag_rule api) tag_spec) (\<lambda>rules2.
     if rules1 @ rules2 \<noteq> [] then
       bindM
         (vnew api ''pbm.profile.SubProfileCapabilityConstraints.SubProfile'' [(''capability'', PList (rules1 @ rules2))])
         (\<lambda>sub. pureM (Some sub))
     else pureM None))))"

definition vcenter_storage_policy_to_subprofiles :: "vmodl \<Rightarrow> pyval \<Rightarrow> pyval io" where
  "vcenter_storage_policy_to_subprofiles api rulesets =
     bindM (liftR (py_iter (py_or rulesets (PList [])))) (\<lambda>rs.
     bindM (collect (ruleset_subprofile api) rs) (\<lambda>subs. pureM (PList subs)))"

definition vcenter_storage_policy_create :: "vmodl \<Rightarrow> pyval \<Rightarrow> pyval \<Rightarrow> pyval
  \<Rightarrow> pyval \<Rightarrow> profile \<Rightarrow> pyval io" where
  "vcenter_storage_policy_create api opts name constraints description profile =
     bindM (pbm_profile_manager api opts profile) (\<lambda>pm.
     let resource_type = ''STORAGE'' in
     bindM (vnew api ''pbm.profile.ResourceType'' [(''resourceType'', PStr resource_type)])
       (\<lambda>resourceType.
     bindM (vcenter_storage_policy_to_subprofiles api constraints) (\<lambda>to_subprofiles2.
     bindM
       (vnew api ''pbm.profile.SubProfileCapabilityConstraints'' [(''subProfiles'', to_subprofiles2)])
        (\<lambda>subProfileCapabilityConstraints.
     bindM
       (vnew api ''pbm.profile.CapabilityBasedProfileCreateSpec'' [(''name'', name), (''description'', description),
        (''resourceType'', resourceType), (''constraints'', subProfileCapabilityConstraints)]) (\<lambda>spec.
     bindM (vcall api pm ''PbmCreate'' [] [(''createSpec'', spec)]) (\<lambda>new_id.
     vget api new_id ''uniqueId''))))))"

definition vcenter_storage_policy_update :: "vmodl \<Rightarrow> pyval \<Rightarrow> pyval \<Rightarrow> pyval
  \<Rightarrow> pyval \<Rightarrow> profile \<Rightarrow> pyval io" where
  "vcenter_storage_policy_update api opts name constraints description profile =
     bindM (pbm_profile_manager api opts profile) (\<lambda>pm.
     bindM (vcenter_storage_policy_find_profile api pm name) (\<lambda>p.
     if p = PNone then raiseM (LookupError (''storage policy '' @ py_repr name @ '' not found''))
     else
       bindM (if description \<noteq> PNone then pureM description else vget api p ''description'') (\<lambda>x.
       bindM
         (if constraints \<noteq> PNone then
            bindM (vcenter_storage_policy_to_subprofiles api constraints) (\<lambda>to_subprofiles2.
            vnew api ''pbm.profile.SubProfileCapabilityConstraints'' [(''subProfiles'', to_subprofiles2)])
          else vget api p ''constraints'') (\<lambda>x2.
       bindM
         (vnew api ''pbm.profile.CapabilityBasedProfileUpdateSpec'' [(''description'', x), (''constraints'', x2)])
        (\<lambda>spec.
       bindM (vget api p ''profileId'') (\<lambda>profileId.
       bindM (vcall api pm ''PbmUpdate'' [] [(''profileId'', profileId), (''updateSpec'', spec)]) (\<lambda>_.
       pureM PNone)))))))"

definition vcenter_storage_policy_delete :: "vmodl \<Rightarrow> pyval \<Rightarrow> pyval \<Rightarrow> profile \<Rightarrow> pyval io" where
  "vcenter_storage_policy_delete api opts name profile =
     bindM (pbm_profile_manager api opts profile) (\<lambda>pm.
     bindM (vcenter_storage_policy_find_profile api pm name) (\<lambda>p.
     if p = PNone then raiseM (LookupError (''storage policy '' @ py_repr name @ '' not found''))
     else
       bindM (vget api p ''profileId'') (\<lambda>profileId.
       bindM (vcall api pm ''PbmDelete'' [] [(''profileId'', PList [profileId])]) (\<lambda>_.
       pureM PNone))))"

definition vcenter_storage_policy_find_datastore_id :: "pyval \<Rightarrow> pyval \<Rightarrow> profile \<Rightarrow> pyval io" where
  "vcenter_storage_policy_find_datastore_id opts name profile =
     bindM (vcenter_api_get opts ''/api/vcenter/datastore'' PNone profile PNone) (\<lambda>api_get.
     bindM (liftR (py_iter api_get)) (\<lambda>items.
     or_else
       (first_of (\<lambda>d.
          bindM (liftR (py_get d ''name'' PNone)) (\<lambda>name2.
          if py_eq name2 name then
            bindM (liftR (py_item d ''datastore'')) (\<lambda>datastore.
            pureM (Some datastore))
          else pureM None)) items)
       (raiseM (LookupError (''datastore '' @ py_repr name @ '' not found'')))))"

definition vcenter_storage_policy_default_policy_get :: "vmodl \<Rightarrow> pyval \<Rightarrow> pyval \<Rightarrow> profile \<Rightarrow> pyval io" where
  "vcenter_storage_policy_default_policy_get api opts datastore profile =
     bindM (pbm_profile_manager api opts profile) (\<lambda>pm.
     bindM (vcenter_storage_policy_find_datastore_id opts datastore profile) (\<lambda>find_datastore_id2.
     bindM
       (vnew api ''pbm.placement.PlacementHub'' [(''hubType'', PStr ''Datastore''), (''hubId'',
        find_datastore_id2)]) (\<lambda>hub.
     bindM (vcall api pm ''PbmQueryDefaultRequirementProfile'' [] [(''hub'', hub)]) (\<lambda>spec.
     if truthy spec then vget api spec ''uniqueId'' else pureM PNone))))"

definition vcenter_storage_policy_default_policy_set :: "vmodl \<Rightarrow> pyval \<Rightarrow> pyval \<Rightarrow>
  pyval \<Rightarrow> profile \<Rightarrow> pyval io" where
  "vcenter_storage_policy_default_policy_set api opts datastore policy_name profile =
     bindM (pbm_profile_manager api opts profile) (\<lambda>pm.
     bindM (vcenter_storage_policy_find_profile api pm policy_name) (\<lambda>p.
     if p = PNone then raiseM (LookupError (''storage policy '' @ py_repr policy_name @ '' not found''))
     else
       bindM (vcenter_storage_policy_find_datastore_id opts datastore profile) (\<lambda>find_datastore_id2.
       bindM
         (vnew api ''pbm.placement.PlacementHub'' [(''hubType'', PStr ''Datastore''), (''hubId'',
        find_datastore_id2)]) (\<lambda>hub.
       bindM (vget api p ''profileId'') (\<lambda>profileId.
       bindM
         (vcall api pm ''PbmAssignDefaultRequirementProfile'' [] [(''profile'', profileId), (''datastores'', PList
        [hub])]) (\<lambda>_.
       pureM PNone))))))"

subsection \<open>Functions that only read\<close>

lemma vim_extension_extension_to_dict_reads [vim_intros]: "observed held api \<Longrightarrow> keeps (leaves held) (vim_extension_extension_to_dict api ext)"
  unfolding vim_extension_extension_to_dict_def in_view_folds split_def by (intro vim_intros; (assumption | simp add: READING_def))

lemma vim_extension_get_reads [vim_intros]: "observed held api \<Longrightarrow> keeps (leaves held) (vim_extension_get api opts key profile)"
  unfolding vim_extension_get_def in_view_folds split_def by (intro vim_intros; (assumption | simp add: READING_def))

lemma vim_extension_get_or_none_reads [vim_intros]: "observed held api \<Longrightarrow> keeps (leaves held) (vim_extension_get_or_none api opts key profile)"
  unfolding vim_extension_get_or_none_def in_view_folds split_def by (intro vim_intros; (assumption | simp add: READING_def))

lemma vim_permission_mgr_reads [vim_intros]: "observed held api \<Longrightarrow> keeps (leaves held) (vim_permission_mgr api opts profile)"
  unfolding vim_permission_mgr_def in_view_folds split_def by (intro vim_intros; (assumption | simp add: READING_def))

lemma vim_permission_resolve_entity_reads [vim_intros]: "observed held api \<Longrightarrow> keeps (leaves held) (vim_permission_resolve_entity api opts entity_ref profile)"
  unfolding vim_permission_resolve_entity_def in_view_folds split_def by (intro vim_intros; (assumption | simp add: READING_def))

lemma role_names_reads [vim_intros]: "observed held api \<Longrightarrow> keeps (leaves held) (role_names api roles)"
  unfolding role_names_def in_view_folds split_def by (intro vim_intros; (assumption | simp add: READING_def))

lemma vim_permission_list_reads [vim_intros]: "observed held api \<Longrightarrow> keeps (leaves held) (vim_permission_list api opts entity_ref inherited profile)"
  unfolding vim_permission_list_def in_view_folds split_def by (intro vim_intros; (assumption | simp add: READING_def))

lemma vim_role_mgr_reads [vim_intros]: "observed held api \<Longrightarrow> keeps (leaves held) (vim_role_mgr api opts profile)"
  unfolding vim_role_mgr_def in_view_folds split_def by (intro vim_intros; (assumption | simp add: READING_def))

lemma vim_role_get_reads [vim_intros]: "observed held api \<Longrightarrow> keeps (leaves held) (vim_role_get api opts name profile)"
  unfolding vim_role_get_def in_view_folds split_def by (intro vim_intros; (assumption | simp add: READING_def))

lemma vim_role_get_or_none_reads [vim_intros]: "observed held api \<Longrightarrow> keeps (leaves held) (vim_role_get_or_none api opts name profile)"
  unfolding vim_role_get_or_none_def in_view_folds split_def by (intro vim_intros; (assumption | simp add: READING_def))

lemma vim_scheduled_task_stm_reads [vim_intros]: "observed held api \<Longrightarrow> keeps (leaves held) (vim_scheduled_task_stm api opts profile)"
  unfolding vim_scheduled_task_stm_def in_view_folds split_def by (intro vim_intros; (assumption | simp add: READING_def))

lemma vim_scheduled_task_find_task_reads [vim_intros]: "observed held api \<Longrightarrow> keeps (leaves held) (vim_scheduled_task_find_task api opts task_id_or_name profile)"
  unfolding vim_scheduled_task_find_task_def in_view_folds split_def by (intro vim_intros; (assumption | simp add: READING_def))

lemma vim_scheduled_task_to_dict_reads [vim_intros]: "observed held api \<Longrightarrow> keeps (leaves held) (vim_scheduled_task_to_dict api task)"
  unfolding vim_scheduled_task_to_dict_def in_view_folds split_def by (intro vim_intros; (assumption | simp add: READING_def))

lemma vim_scheduled_task_get_reads [vim_intros]: "observed held api \<Longrightarrow> keeps (leaves held) (vim_scheduled_task_get api opts task_id_or_name profile)"
  unfolding vim_scheduled_task_get_def in_view_folds split_def by (intro vim_intros; (assumption | simp add: READING_def))

lemma vim_scheduled_task_get_or_none_reads [vim_intros]: "observed held api \<Longrightarrow> keeps (leaves held) (vim_scheduled_task_get_or_none api opts task_id_or_name profile)"
  unfolding vim_scheduled_task_get_or_none_def in_view_folds split_def by (intro vim_intros; (assumption | simp add: READING_def))

lemma vcenter_folder_find_folder_object_reads [vim_intros]: "observed held api \<Longrightarrow> keeps (leaves held) (vcenter_folder_find_folder_object api opts name profile)"
  unfolding vcenter_folder_find_folder_object_def in_view_folds split_def by (intro vim_intros; (assumption | simp add: READING_def))

lemma vcenter_folder_find_by_name_reads [vim_intros]: "observed held api \<Longrightarrow> keeps (leaves held) (vcenter_folder_find_by_name api opts name profile)"
  unfolding vcenter_folder_find_by_name_def in_view_folds split_def by (intro vim_intros; (assumption | simp add: READING_def))

lemma vcenter_statistics_to_dict_reads [vim_intros]: "observed held api \<Longrightarrow> keeps (leaves held) (vcenter_statistics_to_dict api interval_v)"
  unfolding vcenter_statistics_to_dict_def in_view_folds split_def by (intro vim_intros; (assumption | simp add: READING_def))

lemma vcenter_statistics_intervals_get_reads [vim_intros]: "observed held api \<Longrightarrow> keeps (leaves held) (vcenter_statistics_intervals_get api opts profile)"
  unfolding vcenter_statistics_intervals_get_def in_view_folds split_def by (intro vim_intros; (assumption | simp add: READING_def))

lemma vcenter_statistics_interval_get_reads [vim_intros]: "observed held api \<Longrightarrow> keeps (leaves held) (vcenter_statistics_interval_get api opts name profile)"
  unfolding vcenter_statistics_interval_get_def in_view_folds split_def by (intro vim_intros; (assumption | simp add: READING_def))

lemma vcenter_advanced_option_advanced_get_reads [vim_intros]: "observed held api \<Longrightarrow> keeps (leaves held) (vcenter_advanced_option_advanced_get api opts key profile)"
  unfolding vcenter_advanced_option_advanced_get_def in_view_folds split_def by (intro vim_intros; (assumption | simp add: READING_def))

lemma vcenter_custom_attribute_manager_reads [vim_intros]: "observed held api \<Longrightarrow> keeps (leaves held) (vcenter_custom_attribute_manager api opts profile)"
  unfolding vcenter_custom_attribute_manager_def in_view_folds split_def by (intro vim_intros; (assumption | simp add: READING_def))

lemma vcenter_custom_attribute_to_dict_reads [vim_intros]: "observed held api \<Longrightarrow> keeps (leaves held) (vcenter_custom_attribute_to_dict api field_def)"
  unfolding vcenter_custom_attribute_to_dict_def in_view_folds split_def by (intro vim_intros; (assumption | simp add: READING_def))

lemma vcenter_custom_attribute_get_reads [vim_intros]: "observed held api \<Longrightarrow> keeps (leaves held) (vcenter_custom_attribute_get api opts name profile)"
  unfolding vcenter_custom_attribute_get_def in_view_folds split_def by (intro vim_intros; (assumption | simp add: READING_def))

lemma vcenter_custom_attribute_get_or_none_reads [vim_intros]: "observed held api \<Longrightarrow> keeps (leaves held) (vcenter_custom_attribute_get_or_none api opts name profile)"
  unfolding vcenter_custom_attribute_get_or_none_def in_view_folds split_def by (intro vim_intros; (assumption | simp add: READING_def))

lemma vcenter_storage_policy_find_profile_reads [vim_intros]: "observed held api \<Longrightarrow> keeps (leaves held) (vcenter_storage_policy_find_profile api pm name)"
  unfolding vcenter_storage_policy_find_profile_def in_view_folds split_def by (intro vim_intros; (assumption | simp add: READING_def))

lemma read_rule_reads [vim_intros]: "observed held api \<Longrightarrow> keeps (leaves held) (read_rule api capability acc)"
  unfolding read_rule_def in_view_folds split_def by (intro vim_intros; (assumption | simp add: READING_def))

lemma read_ruleset_reads [vim_intros]: "observed held api \<Longrightarrow> keeps (leaves held) (read_ruleset api sub)"
  unfolding read_ruleset_def in_view_folds split_def by (intro vim_intros; (assumption | simp add: READING_def))

lemma vcenter_storage_policy_from_subprofiles_reads [vim_intros]: "observed held api \<Longrightarrow> keeps (leaves held) (vcenter_storage_policy_from_subprofiles api p)"
  unfolding vcenter_storage_policy_from_subprofiles_def in_view_folds split_def by (intro vim_intros; (assumption | simp add: READING_def))

lemma vcenter_storage_policy_get_by_name_reads [vim_intros]: "observed held api \<Longrightarrow> keeps (leaves held) (vcenter_storage_policy_get_by_name api opts name profile)"
  unfolding vcenter_storage_policy_get_by_name_def in_view_folds split_def by (intro vim_intros; (assumption | simp add: READING_def))

lemma vcenter_storage_policy_find_datastore_id_reads [vim_intros]: "observed held api \<Longrightarrow> keeps (leaves held) (vcenter_storage_policy_find_datastore_id opts name profile)"
  unfolding vcenter_storage_policy_find_datastore_id_def in_view_folds split_def by (intro vim_intros; (assumption | simp add: READING_def))

lemma vcenter_storage_policy_default_policy_get_reads [vim_intros]: "observed held api \<Longrightarrow> keeps (leaves held) (vcenter_storage_policy_default_policy_get api opts datastore profile)"
  unfolding vcenter_storage_policy_default_policy_get_def in_view_folds split_def by (intro vim_intros; (assumption | simp add: READING_def))

end
