(* ===== verification/Vim_Vm.thy ===== *)
theory Vim_Vm
  imports Vim
begin

section \<open>Vim_Vm: virtual machines over SOAP\<close>

text \<open>
  Configuration, devices, disks, network adapters, snapshots, guest operations and power of a machine.
\<close>

subsection \<open>\<open>clients/vim_vm.py\<close>\<close>

definition vim_vm_vm :: "vmodl \<Rightarrow> pyval \<Rightarrow> pyval \<Rightarrow> profile \<Rightarrow> pyval io" where
  "vim_vm_vm api opts vm_id_or_name profile =
     bindM (vim_content api opts profile) (\<lambda>content.
     bindM (vget api content ''viewManager'') (\<lambda>viewManager.
     bindM (vget api content ''rootFolder'') (\<lambda>rootFolder.
     bindM
       (vcall api viewManager ''CreateContainerView'' [rootFolder, PList [PStr ''vim.VirtualMachine''], PBool True]
        []) (\<lambda>container.
     or_else
       (finallyM
          (bindM (vget api container ''view'') (\<lambda>view.
           bindM (liftR (py_iter view)) (\<lambda>items.
           first_of (\<lambda>vm.
             bindM (vget api vm ''_moId'') (\<lambda>moId.
             bindM (vget api vm ''name'') (\<lambda>name.
             if list_ex (py_eq vm_id_or_name) [moId, name] then pureM (Some vm) else pureM None)))
        items)))
          (bindM (vcall api container ''Destroy'' [] []) (\<lambda>_.
           pureM ())))
       (raiseM (LookupError (''VM '' @ py_repr vm_id_or_name @ '' not found'')))))))"

definition vim_vm_find_by_type :: "vmodl \<Rightarrow> pyval \<Rightarrow> pyval \<Rightarrow> pyval \<Rightarrow> profile \<Rightarrow> pyval io" where
  "vim_vm_find_by_type api opts vim_type name_or_id profile =
     (if vim_type = PStr ''vim.HostSystem'' then vim_resolve_host_system api opts name_or_id profile
      else
        bindM (vim_content api opts profile) (\<lambda>content.
        bindM (vget api content ''viewManager'') (\<lambda>viewManager.
        bindM (vget api content ''rootFolder'') (\<lambda>rootFolder.
        bindM
          (vcall api viewManager ''CreateContainerView'' [rootFolder, PList [vim_type], PBool True] [])
        (\<lambda>container.
        or_else
          (finallyM
             (bindM (vget api container ''view'') (\<lambda>view.
              bindM (liftR (py_iter view)) (\<lambda>items.
              first_of (\<lambda>entity.
                bindM (vget api entity ''_moId'') (\<lambda>moId.
                bindM (vget api entity ''name'') (\<lambda>name.
                if list_ex (py_eq name_or_id) [moId, name] then pureM (Some entity) else pureM None)))
        items)))
             (bindM (vcall api container ''Destroy'' [] []) (\<lambda>_.
              pureM ())))
          (raiseM (LookupError (py_str vim_type @ '' '' @ py_repr name_or_id @ '' not found''))))))))"

definition vim_vm_clone ::
  "vmodl \<Rightarrow> pyval \<Rightarrow> pyval \<Rightarrow> pyval \<Rightarrow> pyval \<Rightarrow> pyval
    \<Rightarrow> pyval \<Rightarrow> pyval \<Rightarrow> pyval \<Rightarrow> pyval \<Rightarrow> pyval \<Rightarrow> pyval \<Rightarrow> pyval \<Rightarrow> pyval \<Rightarrow> pyval \<Rightarrow> profile \<Rightarrow> pyval io" where
  "vim_vm_clone api opts source name folder datastore host resource_pool cluster template power_on customization
    cpu_count memory_mb annotation profile =
     bindM (vim_vm_vm api opts source profile) (\<lambda>src.
     bindM (vim_vm_find_by_type api opts (PStr ''vim.Folder'') folder profile) (\<lambda>target_folder.
     bindM (vim_vm_find_by_type api opts (PStr ''vim.Datastore'') datastore profile) (\<lambda>target_datastore.
     bindM (vnew api ''vim.vm.RelocateSpec'' [(''datastore'', target_datastore)]) (\<lambda>relocate.
     bindM
       (if truthy host then
          bindM (vim_vm_find_by_type api opts (PStr ''vim.HostSystem'') host profile) (\<lambda>find_by_type2.
          vset api relocate ''host'' find_by_type2)
        else pureM relocate) (\<lambda>relocate.
     bindM
       (if truthy resource_pool then
          bindM
            (vim_vm_find_by_type api opts (PStr ''vim.ResourcePool'') resource_pool profile)
        (\<lambda>find_by_type3.
          vset api relocate ''pool'' find_by_type3)
        else if truthy cluster then
          bindM
            (vim_vm_find_by_type api opts (PStr ''vim.ClusterComputeResource'') cluster profile)
        (\<lambda>cluster_obj.
          bindM (vget api cluster_obj ''resourcePool'') (\<lambda>resourcePool.
          vset api relocate ''pool'' resourcePool))
        else pureM relocate) (\<lambda>relocate.
     bindM
       (vnew api ''vim.vm.CloneSpec'' [(''location'', relocate), (''powerOn'', PBool (truthy power_on)),
        (''template'', PBool (truthy template))]) (\<lambda>spec.
     bindM
       (if list_ex (\<lambda>v. v \<noteq> PNone) [cpu_count, memory_mb, annotation] then
          bindM (vnew api ''vim.vm.ConfigSpec'' []) (\<lambda>config.
          bindM
            (if cpu_count \<noteq> PNone then
               bindM (liftR (py_int cpu_count)) (\<lambda>n.
               vset api config ''numCPUs'' (PInt n))
             else pureM config) (\<lambda>config.
          bindM
            (if memory_mb \<noteq> PNone then
               bindM (liftR (py_int memory_mb)) (\<lambda>n2.
               vset api config ''memoryMB'' (PInt n2))
             else pureM config) (\<lambda>config.
          bindM
            (if annotation \<noteq> PNone then vset api config ''annotation'' annotation else pureM config)
        (\<lambda>config.
          vset api spec ''config'' config))))
        else pureM spec) (\<lambda>spec.
     bindM (if customization \<noteq> PNone then vset api spec ''customization'' customization else pureM spec)
       (\<lambda>spec.
     bindM
       (vcall api src ''CloneVM_Task'' [] [(''folder'', target_folder), (''name'', name), (''spec'', spec)])
        (\<lambda>task.
     vget api task ''_moId''))))))))))"

definition vim_vm_create ::
  "vmodl \<Rightarrow> pyval \<Rightarrow> pyval \<Rightarrow> pyval \<Rightarrow> pyval \<Rightarrow> pyval
    \<Rightarrow> pyval \<Rightarrow> pyval \<Rightarrow> pyval \<Rightarrow> pyval \<Rightarrow> pyval \<Rightarrow> pyval \<Rightarrow> profile \<Rightarrow> pyval io" where
  "vim_vm_create api opts name folder datastore cpu_count memory_mb guest_id cluster host resource_pool annotation
    profile =
     bindM (vim_vm_find_by_type api opts (PStr ''vim.Folder'') folder profile) (\<lambda>target_folder.
     bindM (vim_vm_find_by_type api opts (PStr ''vim.Datastore'') datastore profile) (\<lambda>target_datastore.
     bindM
       (if truthy resource_pool then
          vim_vm_find_by_type api opts (PStr ''vim.ResourcePool'') resource_pool profile
        else if truthy cluster then
          bindM
            (vim_vm_find_by_type api opts (PStr ''vim.ClusterComputeResource'') cluster profile)
        (\<lambda>cluster_obj.
          vget api cluster_obj ''resourcePool'')
        else if truthy host then
          bindM (vim_vm_find_by_type api opts (PStr ''vim.HostSystem'') host profile) (\<lambda>host_obj.
          vpath api host_obj [''parent'', ''resourcePool''])
        else raiseM (ValueError ''provide cluster, host, or resource_pool for VM placement'')) (\<lambda>pool.
     bindM
       (if truthy host then vim_vm_find_by_type api opts (PStr ''vim.HostSystem'') host profile
        else pureM PNone) (\<lambda>host_obj.
     bindM
       (vnew api ''vim.vm.device.ParaVirtualSCSIController'' [(''key'', PInt (-1)), (''busNumber'', PInt 0),
        (''sharedBus'', PStr ''noSharing'')]) (\<lambda>scsi_ctrl.
     bindM
       (vnew api ''vim.vm.device.VirtualDeviceSpec'' [(''operation'', PStr ''add''), (''device'', scsi_ctrl)])
        (\<lambda>scsi_spec.
     bindM (liftR (py_int memory_mb)) (\<lambda>n.
     bindM (liftR (py_int cpu_count)) (\<lambda>n2.
     bindM (vget api target_datastore ''name'') (\<lambda>name2.
     bindM (vnew api ''vim.vm.FileInfo'' [(''vmPathName'', PStr (''['' @ py_str name2 @ '']''))])
       (\<lambda>fileInfo.
     bindM
       (vnew api ''vim.vm.ConfigSpec'' [(''name'', name), (''memoryMB'', PInt n), (''numCPUs'', PInt n2),
        (''guestId'', guest_id), (''annotation'', annotation), (''files'', fileInfo), (''deviceChange'', PList
        [scsi_spec])]) (\<lambda>config.
     bindM
       (vcall api target_folder ''CreateVM_Task'' [] [(''config'', config), (''pool'', pool), (''host'', host_obj)])
        (\<lambda>task.
     bindM (vim_wait_for_task api task 300 500) (\<lambda>_.
     vget api task ''_moId'')))))))))))))"

definition vim_vm_reconfigure ::
  "vmodl \<Rightarrow> pyval \<Rightarrow> pyval \<Rightarrow> pyval \<Rightarrow> pyval \<Rightarrow> pyval \<Rightarrow> pyval \<Rightarrow> pyval \<Rightarrow> profile \<Rightarrow> pyval io" where
  "vim_vm_reconfigure api opts vm_id_or_name cpu_count cores_per_socket memory_mb annotation advanced_settings
    profile =
     bindM (vim_vm_vm api opts vm_id_or_name profile) (\<lambda>vm.
     bindM (vnew api ''vim.vm.ConfigSpec'' []) (\<lambda>config.
     bindM
       (if cpu_count \<noteq> PNone then
          bindM (liftR (py_int cpu_count)) (\<lambda>n.
          vset api config ''numCPUs'' (PInt n))
        else pureM config) (\<lambda>config.
     bindM
       (if cores_per_socket \<noteq> PNone then
          bindM (liftR (py_int cores_per_socket)) (\<lambda>n2.
          vset api config ''numCoresPerSocket'' (PInt n2))
        else pureM config) (\<lambda>config.
     bindM
       (if memory_mb \<noteq> PNone then
          bindM (liftR (py_int memory_mb)) (\<lambda>n3.
          vset api config ''memoryMB'' (PInt n3))
        else pureM config) (\<lambda>config.
     bindM (if annotation \<noteq> PNone then vset api config ''annotation'' annotation else pureM config)
       (\<lambda>config.
     bindM
       (if truthy advanced_settings then
          bindM (liftR (py_mapping advanced_settings ''items'')) (\<lambda>entries.
          bindM
            (mapM (\<lambda>(k, v). vnew api ''vim.option.OptionValue'' [(''key'', PStr k), (''value'', v)])
        entries) (\<lambda>out.
          vset api config ''extraConfig'' (PList out)))
        else pureM config) (\<lambda>config.
     bindM (vcall api vm ''ReconfigVM_Task'' [] [(''spec'', config)]) (\<lambda>task.
     vget api task ''_moId''))))))))"

definition vim_vm_get_advanced_settings :: "vmodl \<Rightarrow> pyval \<Rightarrow> pyval \<Rightarrow> profile \<Rightarrow> pyval io" where
  "vim_vm_get_advanced_settings api opts vm_id_or_name profile =
     bindM (vim_vm_vm api opts vm_id_or_name profile) (\<lambda>vm.
     bindM (vpath api vm [''config'', ''extraConfig'']) (\<lambda>extraConfig.
     bindM (liftR (py_iter (py_or extraConfig (PList [])))) (\<lambda>items.
     bindM
       (mapM (\<lambda>opt.
          bindM (vget api opt ''key'') (\<lambda>key.
          bindM (liftR (str_key key)) (\<lambda>k.
          bindM (vget api opt ''value'') (\<lambda>val.
          pureM (k, val))))) items) (\<lambda>entries.
     pureM (PDict (dupdate [] entries))))))"

definition vim_vm_get_resource_config :: "vmodl \<Rightarrow> pyval \<Rightarrow> pyval \<Rightarrow> profile \<Rightarrow> pyval io" where
  "vim_vm_get_resource_config api opts vm_id_or_name profile =
     bindM (vim_vm_vm api opts vm_id_or_name profile) (\<lambda>vm.
     bindM (vget api vm ''config'') (\<lambda>cfg.
     bindM (vget_or api cfg ''cpuAffinity'' PNone) (\<lambda>affinity.
     bindM
       (if affinity \<noteq> PNone then vget_or api affinity ''affinitySet'' PNone else pureM PNone)
        (\<lambda>affinity_set.
     bindM (vget_or api cfg ''cpuAllocation'' PNone) (\<lambda>cpu_alloc.
     bindM (if cpu_alloc \<noteq> PNone then vget_or api cpu_alloc ''shares'' PNone else pureM PNone)
       (\<lambda>cpu_shares.
     bindM (vget_or api cfg ''memoryAllocation'' PNone) (\<lambda>mem_alloc.
     bindM
       (if mem_alloc \<noteq> PNone then vget_or api mem_alloc ''reservation'' PNone else pureM PNone)
        (\<lambda>mem_reservation.
     bindM (vget_or api cfg ''memoryReservationLockedToMax'' PNone) (\<lambda>locked.
     bindM
       (if truthy affinity_set then
          bindM (liftR (py_iter affinity_set)) (\<lambda>items2.
          pureM (PList items2))
        else pureM PNone) (\<lambda>x4.
     bindM
       (if cpu_shares \<noteq> PNone then
          bindM (vget api cpu_shares ''level'') (\<lambda>level.
          pureM (PStr (py_str level)))
        else pureM PNone) (\<lambda>x5.
     bindM
       (if cpu_shares \<noteq> PNone then
          bindM (vget api cpu_shares ''shares'') (\<lambda>shares2.
          bindM (liftR (py_int shares2)) (\<lambda>n.
          pureM (PInt n)))
        else pureM PNone) (\<lambda>x6.
     bindM
       (if mem_reservation \<noteq> PNone then
          bindM (liftR (py_int mem_reservation)) (\<lambda>n2.
          pureM (PInt n2))
        else pureM PNone) (\<lambda>x7.
     pureM (PDict [(''cpu_affinity'', x4), (''cpu_shares_level'', x5), (''cpu_shares'', x6),
       (''memory_reservation_mb'', x7), (''memory_reservation_locked_to_max'', (if locked \<noteq> PNone then PBool
        (truthy locked) else PNone))]))))))))))))))"

definition vim_vm_set_resource_config ::
  "vmodl \<Rightarrow> pyval \<Rightarrow> pyval \<Rightarrow> pyval \<Rightarrow> pyval \<Rightarrow> pyval \<Rightarrow> pyval \<Rightarrow> pyval \<Rightarrow> profile \<Rightarrow> pyval io" where
  "vim_vm_set_resource_config api opts vm_id_or_name cpu_affinity cpu_shares_level cpu_shares memory_reservation_mb
    memory_reservation_locked_to_max profile =
     bindM (vim_vm_vm api opts vm_id_or_name profile) (\<lambda>vm.
     bindM (vnew api ''vim.vm.ConfigSpec'' []) (\<lambda>config.
     bindM
       (if cpu_affinity \<noteq> PNone then
          bindM (liftR (py_iter cpu_affinity)) (\<lambda>items.
          bindM (mapM (\<lambda>c. bindM (liftR (py_int c)) (\<lambda>n. pureM (PInt n))) items) (\<lambda>out.
          bindM (vnew api ''vim.vm.AffinityInfo'' [(''affinitySet'', PList out)]) (\<lambda>affinityInfo.
          vset api config ''cpuAffinity'' affinityInfo)))
        else pureM config) (\<lambda>config.
     bindM
       (if (cpu_shares_level \<noteq> PNone) \<or> (cpu_shares \<noteq> PNone) then
          bindM (vnew api ''vim.ResourceAllocationInfo'' []) (\<lambda>alloc.
          bindM (vnew api ''vim.SharesInfo'' []) (\<lambda>shares.
          bindM
            (if cpu_shares_level \<noteq> PNone then vset api shares ''level'' cpu_shares_level else pureM shares)
        (\<lambda>shares.
          bindM
            (if cpu_shares \<noteq> PNone then
               bindM (liftR (py_int cpu_shares)) (\<lambda>n2.
               vset api shares ''shares'' (PInt n2))
             else pureM shares) (\<lambda>shares.
          bindM (vset api alloc ''shares'' shares) (\<lambda>alloc.
          vset api config ''cpuAllocation'' alloc)))))
        else pureM config) (\<lambda>config.
     bindM
       (if memory_reservation_mb \<noteq> PNone then
          bindM (vnew api ''vim.ResourceAllocationInfo'' []) (\<lambda>alloc.
          bindM (liftR (py_int memory_reservation_mb)) (\<lambda>n3.
          bindM (vset api alloc ''reservation'' (PInt n3)) (\<lambda>alloc.
          vset api config ''memoryAllocation'' alloc)))
        else pureM config) (\<lambda>config.
     bindM
       (if memory_reservation_locked_to_max \<noteq> PNone then
          vset api config ''memoryReservationLockedToMax'' (PBool (truthy
        memory_reservation_locked_to_max))
        else pureM config) (\<lambda>config.
     bindM (vcall api vm ''ReconfigVM_Task'' [] [(''spec'', config)]) (\<lambda>task.
     bindM (vim_wait_for_task api task 300 500) (\<lambda>_.
     vget api task ''_moId''))))))))"

definition vim_vm_destroy :: "vmodl \<Rightarrow> pyval \<Rightarrow> pyval \<Rightarrow> profile \<Rightarrow> pyval io" where
  "vim_vm_destroy api opts vm_id_or_name profile =
     bindM (vim_vm_vm api opts vm_id_or_name profile) (\<lambda>vm.
     bindM (vpath api vm [''runtime'', ''powerState'']) (\<lambda>powerState.
     bindM
       (if py_eq powerState (PStr ''poweredOn'') then
          bindM (vcall api vm ''PowerOffVM_Task'' [] []) (\<lambda>_.
          pureM ())
        else pureM ()) (\<lambda>_.
     bindM (vcall api vm ''Destroy_Task'' [] []) (\<lambda>task.
     vget api task ''_moId''))))"

definition vim_vm_mark_as_template :: "vmodl \<Rightarrow> pyval \<Rightarrow> pyval \<Rightarrow> profile \<Rightarrow> pyval io" where
  "vim_vm_mark_as_template api opts vm_id_or_name profile =
     bindM (vim_vm_vm api opts vm_id_or_name profile) (\<lambda>vm.
     bindM (vcall api vm ''MarkAsTemplate'' [] []) (\<lambda>_.
     pureM PNone))"

definition vim_vm_mark_as_virtual_machine :: "vmodl \<Rightarrow> pyval \<Rightarrow> pyval \<Rightarrow> pyval
  \<Rightarrow> pyval \<Rightarrow> profile \<Rightarrow> pyval io" where
  "vim_vm_mark_as_virtual_machine api opts template_id_or_name resource_pool host profile =
     bindM (vim_vm_vm api opts template_id_or_name profile) (\<lambda>template.
     bindM (vim_vm_find_by_type api opts (PStr ''vim.ResourcePool'') resource_pool profile) (\<lambda>pool.
     bindM
       (if truthy host then vim_vm_find_by_type api opts (PStr ''vim.HostSystem'') host profile
        else pureM PNone) (\<lambda>host_obj.
     bindM (vcall api template ''MarkAsVirtualMachine'' [] [(''pool'', pool), (''host'', host_obj)]) (\<lambda>_.
     pureM PNone))))"

definition vim_vm_instant_clone ::
  "vmodl \<Rightarrow> pyval \<Rightarrow> pyval \<Rightarrow> pyval \<Rightarrow> pyval \<Rightarrow> pyval \<Rightarrow> pyval \<Rightarrow> pyval \<Rightarrow> pyval \<Rightarrow> profile \<Rightarrow> pyval io" where
  "vim_vm_instant_clone api opts source name folder datastore host resource_pool extra_config profile =
     bindM (vim_vm_vm api opts source profile) (\<lambda>src.
     bindM (vnew api ''vim.vm.InstantCloneSpec'' [(''name'', name)]) (\<lambda>spec.
     bindM (vnew api ''vim.vm.RelocateSpec'' []) (\<lambda>location.
     bindM
       (if folder \<noteq> PNone then
          bindM (vim_vm_find_by_type api opts (PStr ''vim.Folder'') folder profile) (\<lambda>find_by_type2.
          vset api location ''folder'' find_by_type2)
        else pureM location) (\<lambda>location.
     bindM
       (if datastore \<noteq> PNone then
          bindM (vim_vm_find_by_type api opts (PStr ''vim.Datastore'') datastore profile) (\<lambda>find_by_type3.
          vset api location ''datastore'' find_by_type3)
        else pureM location) (\<lambda>location.
     bindM
       (if host \<noteq> PNone then
          bindM (vim_vm_find_by_type api opts (PStr ''vim.HostSystem'') host profile) (\<lambda>find_by_type4.
          vset api location ''host'' find_by_type4)
        else pureM location) (\<lambda>location.
     bindM
       (if resource_pool \<noteq> PNone then
          bindM
            (vim_vm_find_by_type api opts (PStr ''vim.ResourcePool'') resource_pool profile)
        (\<lambda>find_by_type5.
          vset api location ''pool'' find_by_type5)
        else pureM location) (\<lambda>location.
     bindM (vset api spec ''location'' location) (\<lambda>spec.
     bindM
       (if truthy extra_config then
          bindM (liftR (py_mapping extra_config ''items'')) (\<lambda>entries.
          bindM
            (mapM (\<lambda>(k, v). vnew api ''vim.option.OptionValue'' [(''key'', PStr k), (''value'', v)])
        entries) (\<lambda>out.
          vset api spec ''config'' (PList out)))
        else pureM spec) (\<lambda>spec.
     bindM (vcall api src ''InstantClone_Task'' [] [(''spec'', spec)]) (\<lambda>task.
     vget api task ''_moId''))))))))))"

definition vim_vm_move_to_folder :: "vmodl \<Rightarrow> pyval \<Rightarrow> pyval \<Rightarrow> pyval \<Rightarrow> profile \<Rightarrow> pyval io" where
  "vim_vm_move_to_folder api opts vm_id_or_name folder profile =
     bindM (vim_vm_vm api opts vm_id_or_name profile) (\<lambda>vm.
     bindM (vim_vm_find_by_type api opts (PStr ''vim.Folder'') folder profile) (\<lambda>target_folder.
     bindM (vcall api target_folder ''MoveIntoFolder_Task'' [] [(''list'', PList [vm])]) (\<lambda>task.
     vget api task ''_moId'')))"

definition vim_vm_register ::
  "vmodl \<Rightarrow> pyval \<Rightarrow> pyval \<Rightarrow> pyval \<Rightarrow> pyval \<Rightarrow> pyval \<Rightarrow> pyval \<Rightarrow> pyval \<Rightarrow> pyval \<Rightarrow> profile \<Rightarrow> pyval io" where
  "vim_vm_register api opts vmx_path name folder resource_pool cluster host as_template profile =
     bindM (vim_vm_find_by_type api opts (PStr ''vim.Folder'') folder profile) (\<lambda>target_folder.
     bindM
       (if truthy resource_pool then
          vim_vm_find_by_type api opts (PStr ''vim.ResourcePool'') resource_pool profile
        else if truthy cluster then
          bindM
            (vim_vm_find_by_type api opts (PStr ''vim.ClusterComputeResource'') cluster profile)
        (\<lambda>cluster_obj.
          vget api cluster_obj ''resourcePool'')
        else if truthy host then
          bindM (vim_vm_find_by_type api opts (PStr ''vim.HostSystem'') host profile) (\<lambda>host_obj.
          vpath api host_obj [''parent'', ''resourcePool''])
        else raiseM (ValueError ''provide cluster, host, or resource_pool for VM placement'')) (\<lambda>pool.
     bindM
       (if truthy host then vim_vm_find_by_type api opts (PStr ''vim.HostSystem'') host profile
        else pureM PNone) (\<lambda>host_obj.
     bindM
       (vcall api target_folder ''RegisterVM_Task'' [] [(''path'', vmx_path), (''name'', name), (''asTemplate'',
        PBool (truthy as_template)), (''pool'', pool), (''host'', host_obj)]) (\<lambda>task.
     vget api task ''_moId''))))"

definition vim_vm_unregister :: "vmodl \<Rightarrow> pyval \<Rightarrow> pyval \<Rightarrow> profile \<Rightarrow> pyval io" where
  "vim_vm_unregister api opts vm_id_or_name profile =
     bindM (vim_vm_vm api opts vm_id_or_name profile) (\<lambda>vm.
     bindM (vcall api vm ''UnregisterVM'' [] []) (\<lambda>_.
     pureM (PBool True)))"

subsection \<open>\<open>clients/vim_vm_cdrom.py\<close>\<close>

definition vim_vm_cdrom_vm :: "vmodl \<Rightarrow> pyval \<Rightarrow> pyval \<Rightarrow> profile \<Rightarrow> pyval io" where
  "vim_vm_cdrom_vm api opts vm_id_or_name profile =
     bindM (vim_content api opts profile) (\<lambda>content.
     bindM (vget api content ''viewManager'') (\<lambda>viewManager.
     bindM (vget api content ''rootFolder'') (\<lambda>rootFolder.
     bindM
       (vcall api viewManager ''CreateContainerView'' [rootFolder, PList [PStr ''vim.VirtualMachine''], PBool True]
        []) (\<lambda>container.
     or_else
       (finallyM
          (bindM (vget api container ''view'') (\<lambda>view.
           bindM (liftR (py_iter view)) (\<lambda>items.
           first_of (\<lambda>vm.
             bindM (vget api vm ''_moId'') (\<lambda>moId.
             bindM (vget api vm ''name'') (\<lambda>name.
             if list_ex (py_eq vm_id_or_name) [moId, name] then pureM (Some vm) else pureM None)))
        items)))
          (bindM (vcall api container ''Destroy'' [] []) (\<lambda>_.
           pureM ())))
       (raiseM (LookupError (''VM '' @ py_repr vm_id_or_name @ '' not found'')))))))"

definition vim_vm_cdrom_find_datastore :: "vmodl \<Rightarrow> pyval \<Rightarrow> pyval \<Rightarrow> profile \<Rightarrow> pyval io" where
  "vim_vm_cdrom_find_datastore api opts name_or_id profile =
     bindM (vim_content api opts profile) (\<lambda>content.
     bindM (vget api content ''viewManager'') (\<lambda>viewManager.
     bindM (vget api content ''rootFolder'') (\<lambda>rootFolder.
     bindM
       (vcall api viewManager ''CreateContainerView'' [rootFolder, PList [PStr ''vim.Datastore''], PBool True] [])
        (\<lambda>container.
     or_else
       (finallyM
          (bindM (vget api container ''view'') (\<lambda>view.
           bindM (liftR (py_iter view)) (\<lambda>items.
           first_of (\<lambda>ds.
             bindM (vget api ds ''_moId'') (\<lambda>moId.
             bindM (vget api ds ''name'') (\<lambda>name.
             if list_ex (py_eq name_or_id) [moId, name] then pureM (Some ds) else pureM None))) items)))
          (bindM (vcall api container ''Destroy'' [] []) (\<lambda>_.
           pureM ())))
       (raiseM (LookupError (''datastore '' @ py_repr name_or_id @ '' not found'')))))))"

definition vim_vm_cdrom_ide_controller_key :: "vmodl \<Rightarrow> pyval \<Rightarrow> pyval io" where
  "vim_vm_cdrom_ide_controller_key api vm =
     bindM (vpath api vm [''config'', ''hardware'', ''device'']) (\<lambda>device.
     bindM (liftR (py_iter (py_or device (PList [])))) (\<lambda>items.
     let ide_controllers = filter (\<lambda>d. is_instance api d ''vim.vm.device.VirtualIDEController'') items in
     if \<not> (ide_controllers \<noteq> []) then raiseM (LookupError ''no IDE controller on VM'')
     else
       or_else
         (first_of (\<lambda>ctrl.
            bindM (vget api ctrl ''device'') (\<lambda>device2.
            bindM (liftR (py_len (py_or device2 (PList [])))) (\<lambda>n.
            bindM (liftR (py_lt (PInt (int n)) (PInt 2))) (\<lambda>holds_v.
            if holds_v then bindM (vget api ctrl ''key'') (\<lambda>key. pureM (Some key)) else pureM None))))
        ide_controllers)
         (raiseM (ValueError ''all IDE controllers are full''))))"

definition vim_vm_cdrom_list :: "vmodl \<Rightarrow> pyval \<Rightarrow> pyval \<Rightarrow> profile \<Rightarrow> pyval io" where
  "vim_vm_cdrom_list api opts vm_id_or_name profile =
     bindM (vim_vm_cdrom_vm api opts vm_id_or_name profile) (\<lambda>vm.
     let out = [] in
     bindM (vpath api vm [''config'', ''hardware'', ''device'']) (\<lambda>device.
     bindM (liftR (py_iter (py_or device (PList [])))) (\<lambda>items.
     bindM
       (foldM (\<lambda>dev out.
          if \<not> (is_instance api dev ''vim.vm.device.VirtualCdrom'') then pureM out
          else
            bindM (vget api dev ''backing'') (\<lambda>backing.
            bindM (vget api dev ''key'') (\<lambda>key.
            bindM (vpath api dev [''deviceInfo'', ''label'']) (\<lambda>label.
            bindM (vpath api dev [''deviceInfo'', ''summary'']) (\<lambda>summary.
            bindM (vget api dev ''controllerKey'') (\<lambda>controllerKey.
            bindM (vget api dev ''unitNumber'') (\<lambda>unitNumber.
            bindM (vget_or api backing ''fileName'' PNone) (\<lambda>fileName.
            bindM (vget api dev ''connectable'') (\<lambda>connectable.
            bindM
              (if truthy connectable then vpath api dev [''connectable'', ''connected''] else pureM PNone)
        (\<lambda>x.
            bindM (vget api dev ''connectable'') (\<lambda>connectable2.
            bindM
              (if truthy connectable2 then vpath api dev [''connectable'', ''startConnected'']
               else pureM PNone) (\<lambda>x2.
            pureM (out @ [PDict [(''key'', key), (''label'', label), (''summary'', summary), (''controller_key'',
        controllerKey), (''unit_number'', unitNumber), (''backing_kind'', (if truthy backing then PStr (class_name
        backing) else PNone)), (''iso_path'', fileName), (''connected'', x), (''start_connected'',
        x2)]]))))))))))))) items out) (\<lambda>out.
     pureM (PList out)))))"

definition vim_vm_cdrom_add :: "vmodl \<Rightarrow> pyval \<Rightarrow> pyval \<Rightarrow> pyval \<Rightarrow>
  pyval \<Rightarrow> pyval \<Rightarrow> pyval \<Rightarrow> profile \<Rightarrow> pyval io" where
  "vim_vm_cdrom_add api opts vm_id_or_name iso_path datastore controller_key start_connected profile =
     bindM (vim_vm_cdrom_vm api opts vm_id_or_name profile) (\<lambda>vm.
     bindM
       (if controller_key = PNone then vim_vm_cdrom_ide_controller_key api vm else pureM controller_key)
        (\<lambda>controller_key.
     bindM
       (vnew api ''vim.vm.device.VirtualCdrom'' [(''key'', PInt (-1)), (''controllerKey'', controller_key)])
        (\<lambda>cdrom.
     bindM
       (if truthy iso_path then
          bindM (liftR (py_startswith iso_path ''['')) (\<lambda>holds_v.
          bindM
            (if \<not> holds_v then
               if \<not> truthy datastore then
                 raiseM (ValueError
        ''iso_path without a datastore-bracket prefix requires datastore= to resolve against'')
               else
                 bindM (vim_vm_cdrom_find_datastore api opts datastore profile) (\<lambda>ds.
                 bindM (vget api ds ''name'') (\<lambda>name.
                 bindM (liftR (py_lstrip iso_path ''/'')) (\<lambda>text.
                 let iso_path = ''['' @ py_str name @ ''] '' @ text in
                 pureM (PStr iso_path))))
             else pureM iso_path) (\<lambda>iso_path.
          vnew api ''vim.vm.device.VirtualCdrom.IsoBackingInfo'' [(''fileName'', iso_path)]))
        else vnew api ''vim.vm.device.VirtualCdrom.AtapiBackingInfo'' [(''deviceName'', PStr '''')])
        (\<lambda>backing.
     bindM (vset api cdrom ''backing'' backing) (\<lambda>cdrom.
     bindM
       (vnew api ''vim.vm.device.VirtualDevice.ConnectInfo'' [(''startConnected'', start_connected), (''connected'',
        start_connected), (''allowGuestControl'', PBool True)]) (\<lambda>connectInfo.
     bindM (vset api cdrom ''connectable'' connectInfo) (\<lambda>cdrom.
     bindM
       (vnew api ''vim.vm.device.VirtualDeviceSpec'' [(''operation'', PStr ''add''), (''device'', cdrom)])
        (\<lambda>virtualDeviceSpec.
     bindM (vnew api ''vim.vm.ConfigSpec'' [(''deviceChange'', PList [virtualDeviceSpec])]) (\<lambda>spec.
     bindM (vcall api vm ''ReconfigVM_Task'' [] [(''spec'', spec)]) (\<lambda>task.
     bindM (vim_wait_for_task api task 300 500) (\<lambda>_.
     vget api task ''_moId'')))))))))))"

definition vim_vm_cdrom_find_cdrom :: "vmodl \<Rightarrow> pyval \<Rightarrow> pyval \<Rightarrow> pyval io" where
  "vim_vm_cdrom_find_cdrom api vm key =
     bindM (vpath api vm [''config'', ''hardware'', ''device'']) (\<lambda>device.
     bindM (liftR (py_iter (py_or device (PList [])))) (\<lambda>items.
     let cdroms = filter (\<lambda>d. is_instance api d ''vim.vm.device.VirtualCdrom'') items in
     if key = PNone then
       if \<not> (cdroms \<noteq> []) then
         bindM (vget api vm ''name'') (\<lambda>name.
         raiseM (LookupError (''no CD-ROM on VM '' @ py_repr name)))
       else liftR (py_first (PList cdroms))
     else
       or_else
         (first_of (\<lambda>dev.
            bindM (vget api dev ''key'') (\<lambda>key2.
            bindM (liftR (py_int key)) (\<lambda>n.
            if py_eq key2 (PInt n) then pureM (Some dev) else pureM None))) cdroms)
         (bindM (vget api vm ''name'') (\<lambda>name2.
          raiseM (LookupError (''CD-ROM key '' @ py_repr key @ '' not found on VM '' @ py_repr
        name2))))))"

definition vim_vm_cdrom_attach_iso :: "vmodl \<Rightarrow> pyval \<Rightarrow> pyval \<Rightarrow> pyval
  \<Rightarrow> pyval \<Rightarrow> pyval \<Rightarrow> profile \<Rightarrow> pyval io" where
  "vim_vm_cdrom_attach_iso api opts vm_id_or_name iso_path cdrom_key datastore profile =
     bindM (vim_vm_cdrom_vm api opts vm_id_or_name profile) (\<lambda>vm.
     bindM (vim_vm_cdrom_find_cdrom api vm cdrom_key) (\<lambda>cdrom.
     bindM (liftR (py_startswith iso_path ''['')) (\<lambda>holds_v.
     bindM
       (if \<not> holds_v then
          if \<not> truthy datastore then
            raiseM (ValueError
        ''iso_path without a datastore-bracket prefix requires datastore= to resolve against'')
          else
            bindM (vim_vm_cdrom_find_datastore api opts datastore profile) (\<lambda>ds.
            bindM (vget api ds ''name'') (\<lambda>name.
            bindM (liftR (py_lstrip iso_path ''/'')) (\<lambda>text.
            let iso_path = ''['' @ py_str name @ ''] '' @ text in
            pureM (PStr iso_path))))
        else pureM iso_path) (\<lambda>iso_path.
     bindM (vnew api ''vim.vm.device.VirtualCdrom.IsoBackingInfo'' [(''fileName'', iso_path)])
       (\<lambda>isoBackingInfo.
     bindM (vset api cdrom ''backing'' isoBackingInfo) (\<lambda>cdrom.
     bindM (vget api cdrom ''connectable'') (\<lambda>connectable.
     bindM
       (if connectable = PNone then
          bindM (vnew api ''vim.vm.device.VirtualDevice.ConnectInfo'' []) (\<lambda>connectInfo.
          vset api cdrom ''connectable'' connectInfo)
        else pureM cdrom) (\<lambda>cdrom.
     bindM (vget api cdrom ''connectable'') (\<lambda>connectable2.
     bindM (vset api connectable2 ''startConnected'' (PBool True)) (\<lambda>connectable2.
     bindM (vset api cdrom ''connectable'' connectable2) (\<lambda>cdrom.
     bindM (vget api cdrom ''connectable'') (\<lambda>connectable3.
     bindM (vset api connectable3 ''connected'' (PBool True)) (\<lambda>connectable3.
     bindM (vset api cdrom ''connectable'' connectable3) (\<lambda>cdrom.
     bindM
       (vnew api ''vim.vm.device.VirtualDeviceSpec'' [(''operation'', PStr ''edit''), (''device'', cdrom)])
        (\<lambda>virtualDeviceSpec.
     bindM (vnew api ''vim.vm.ConfigSpec'' [(''deviceChange'', PList [virtualDeviceSpec])]) (\<lambda>spec.
     bindM (vcall api vm ''ReconfigVM_Task'' [] [(''spec'', spec)]) (\<lambda>task.
     bindM (vim_wait_for_task api task 300 500) (\<lambda>_.
     vget api task ''_moId''))))))))))))))))))"

definition vim_vm_cdrom_eject :: "vmodl \<Rightarrow> pyval \<Rightarrow> pyval \<Rightarrow> pyval \<Rightarrow> profile \<Rightarrow> pyval io" where
  "vim_vm_cdrom_eject api opts vm_id_or_name cdrom_key profile =
     bindM (vim_vm_cdrom_vm api opts vm_id_or_name profile) (\<lambda>vm.
     bindM (vim_vm_cdrom_find_cdrom api vm cdrom_key) (\<lambda>cdrom.
     bindM
       (vnew api ''vim.vm.device.VirtualCdrom.AtapiBackingInfo'' [(''deviceName'', PStr '''')])
        (\<lambda>atapiBackingInfo.
     bindM (vset api cdrom ''backing'' atapiBackingInfo) (\<lambda>cdrom.
     bindM (vget api cdrom ''connectable'') (\<lambda>connectable.
     bindM
       (if truthy connectable then
          bindM (vget api cdrom ''connectable'') (\<lambda>connectable2.
          bindM (vset api connectable2 ''connected'' (PBool False)) (\<lambda>connectable2.
          bindM (vset api cdrom ''connectable'' connectable2) (\<lambda>cdrom.
          bindM (vget api cdrom ''connectable'') (\<lambda>connectable3.
          bindM (vset api connectable3 ''startConnected'' (PBool False)) (\<lambda>connectable3.
          vset api cdrom ''connectable'' connectable3)))))
        else pureM cdrom) (\<lambda>cdrom.
     bindM
       (vnew api ''vim.vm.device.VirtualDeviceSpec'' [(''operation'', PStr ''edit''), (''device'', cdrom)])
        (\<lambda>virtualDeviceSpec.
     bindM (vnew api ''vim.vm.ConfigSpec'' [(''deviceChange'', PList [virtualDeviceSpec])]) (\<lambda>spec.
     bindM (vcall api vm ''ReconfigVM_Task'' [] [(''spec'', spec)]) (\<lambda>task.
     bindM (vim_wait_for_task api task 300 500) (\<lambda>_.
     vget api task ''_moId''))))))))))"

definition vim_vm_cdrom_remove :: "vmodl \<Rightarrow> pyval \<Rightarrow> pyval \<Rightarrow> pyval \<Rightarrow> profile \<Rightarrow> pyval io" where
  "vim_vm_cdrom_remove api opts vm_id_or_name cdrom_key profile =
     bindM (vim_vm_cdrom_vm api opts vm_id_or_name profile) (\<lambda>vm.
     bindM (vim_vm_cdrom_find_cdrom api vm cdrom_key) (\<lambda>cdrom.
     bindM
       (vnew api ''vim.vm.device.VirtualDeviceSpec'' [(''operation'', PStr ''remove''), (''device'', cdrom)])
        (\<lambda>virtualDeviceSpec.
     bindM (vnew api ''vim.vm.ConfigSpec'' [(''deviceChange'', PList [virtualDeviceSpec])]) (\<lambda>spec.
     bindM (vcall api vm ''ReconfigVM_Task'' [] [(''spec'', spec)]) (\<lambda>task.
     bindM (vim_wait_for_task api task 300 500) (\<lambda>_.
     vget api task ''_moId''))))))"

subsection \<open>\<open>clients/vim_vm_console.py\<close>\<close>

definition vim_vm_console_KEY_CODES :: "dict" where
  "vim_vm_console_KEY_CODES =
     [(''a'', PInt 4), (''b'', PInt 5), (''c'', PInt 6), (''d'', PInt 7), (''e'', PInt 8), (''f'', PInt 9), (''g'',
       PInt 10), (''h'', PInt 11), (''i'', PInt 12), (''j'', PInt 13), (''k'', PInt 14), (''l'', PInt 15), (''m'',
        PInt 16), (''n'', PInt 17), (''o'', PInt 18), (''p'', PInt 19), (''q'', PInt 20), (''r'', PInt 21), (''s'',
        PInt 22), (''t'', PInt 23), (''u'', PInt 24), (''v'', PInt 25), (''w'', PInt 26), (''x'', PInt 27), (''y'',
        PInt 28), (''z'', PInt 29), (''1'', PInt 30), (''2'', PInt 31), (''3'', PInt 32), (''4'', PInt 33), (''5'',
        PInt 34), (''6'', PInt 35), (''7'', PInt 36), (''8'', PInt 37), (''9'', PInt 38), (''0'', PInt 39),
        (''enter'', PInt 40), (''escape'', PInt 41), (''backspace'', PInt 42), (''tab'', PInt 43), (''space'', PInt
        44), (''f1'', PInt 58), (''f2'', PInt 59), (''f3'', PInt 60), (''f4'', PInt 61), (''f5'', PInt 62), (''f6'',
        PInt 63), (''f7'', PInt 64), (''f8'', PInt 65), (''f9'', PInt 66), (''f10'', PInt 67), (''f11'', PInt 68),
        (''f12'', PInt 69), (''right'', PInt 79), (''left'', PInt 80), (''down'', PInt 81), (''up'', PInt
        82)]"

definition vim_vm_console_screenshot :: "vmodl \<Rightarrow> pyval \<Rightarrow> pyval \<Rightarrow> profile \<Rightarrow> pyval io" where
  "vim_vm_console_screenshot api opts vm_id_or_name profile =
     bindM (vim_vm_vm api opts vm_id_or_name profile) (\<lambda>vm.
     bindM (vcall api vm ''CreateScreenshot_Task'' [] []) (\<lambda>task.
     vget api task ''_moId''))"

definition hex_digit :: "char \<Rightarrow> nat option" where
  "hex_digit c =
     (let n = of_char c :: nat in
      if 48 \<le> n \<and> n \<le> 57 then Some (n - 48)
      else if 97 \<le> n \<and> n \<le> 102 then Some (n - 87)
      else if 65 \<le> n \<and> n \<le> 70 then Some (n - 55) else None)"

fun hex_value :: "nat \<Rightarrow> string \<Rightarrow> nat option" where
  "hex_value acc [] = Some acc"
| "hex_value acc (c # cs) = (case hex_digit c of Some d \<Rightarrow> hex_value (16 * acc + d) cs | None \<Rightarrow> None)"

text \<open>\<open>int(code, 16)\<close> of a text with the prefix \<open>0x\<close>, surrounding blanks removed.\<close>

definition hex_int :: "string \<Rightarrow> int res" where
  "hex_int s =
     (let ds = drop 2 (strip s);
          bad = Exc (ValueError (''invalid literal for int() with base 16: '' @ repr_str s))
      in if ds = [] then bad else case hex_value 0 ds of Some n \<Rightarrow> Ok (int n) | None \<Rightarrow> bad)"

definition vim_vm_console_to_hid :: "pyval \<Rightarrow> int res" where
  "vim_vm_console_to_hid code =
     (case code of
        PInt i \<Rightarrow> Ok i
      | PBool b \<Rightarrow> Ok (if b then 1 else 0)
      | PStr s \<Rightarrow>
          (case map_of vim_vm_console_KEY_CODES s of
             Some (PInt n) \<Rightarrow> Ok n
           | _ \<Rightarrow>
               if take 2 s = ''0x'' then hex_int s
               else Exc (ValueError (''unknown key code '' @ py_repr code)))
      | v \<Rightarrow> bindR (hashed v) (\<lambda>v. Exc (attr_error v ''startswith'')))"

text \<open>\<open>(code << 16) | 0x0007\<close>: the low bits of the shifted code are 0.\<close>

definition vim_vm_console_send_keys :: "vmodl \<Rightarrow> pyval \<Rightarrow> pyval \<Rightarrow> pyval \<Rightarrow> profile \<Rightarrow> pyval io" where
  "vim_vm_console_send_keys api opts vm_id_or_name keys profile =
     bindM (vim_vm_vm api opts vm_id_or_name profile) (\<lambda>vm.
     bindM (liftR (py_iter keys)) (\<lambda>ks.
     bindM
       (mapM (\<lambda>k.
          bindM (liftR (vim_vm_console_to_hid k)) (\<lambda>code.
          vnew api ''vim.UsbScanCodeSpecKeyEvent'' [(''usbHidCode'', PInt (code * 65536 + 7))])) ks) (\<lambda>key_events.
     bindM (vnew api ''vim.UsbScanCodeSpec'' [(''keyEvents'', PList key_events)]) (\<lambda>spec.
     bindM (vcall api vm ''PutUsbScanCodes'' [] [(''spec'', spec)]) (\<lambda>n.
     bindM (liftR (py_int n)) (\<lambda>i. pureM (PInt i)))))))"

subsection \<open>\<open>clients/vim_vm_customization.py\<close>\<close>

definition vim_vm_customization_csmgr :: "vmodl \<Rightarrow> pyval \<Rightarrow> profile \<Rightarrow> pyval io" where
  "vim_vm_customization_csmgr api opts profile =
     bindM (vim_content api opts profile) (\<lambda>content.
     vget api content ''customizationSpecManager'')"

definition vim_vm_customization_ip_for :: "vmodl \<Rightarrow> pyval \<Rightarrow> pyval io" where
  "vim_vm_customization_ip_for api nic =
     bindM (liftR (py_get nic ''dhcp'' PNone)) (\<lambda>dhcp.
     if truthy dhcp then vnew api ''vim.vm.customization.DhcpIpGenerator'' []
     else
       bindM (liftR (py_get nic ''ip'' PNone)) (\<lambda>ip.
       if truthy ip then
         bindM (liftR (py_item nic ''ip'')) (\<lambda>ip2.
         vnew api ''vim.vm.customization.FixedIp'' [(''ipAddress'', ip2)])
       else
         raiseM (ValueError ((''nic spec must include '' @ [CHR 0x27] @ ''dhcp'' @ [CHR 0x27] @ '' or '' @ [CHR
        0x27] @ ''ip'' @ [CHR 0x27] @ '': '') @ py_repr nic))))"

definition vim_vm_customization_build_spec :: "vmodl \<Rightarrow> pyval \<Rightarrow> pyval \<Rightarrow> pyval \<Rightarrow> pyval \<Rightarrow> pyval io" where
  "vim_vm_customization_build_spec api identity nics dns_servers dns_search_path =
     bindM (liftR (py_iter (py_or dns_servers (PList [])))) (\<lambda>items2.
     bindM (liftR (py_iter (py_or dns_search_path (PList [])))) (\<lambda>items3.
     bindM
       (vnew api ''vim.vm.customization.GlobalIPSettings'' [(''dnsServerList'', PList items2), (''dnsSuffixList'',
        PList items3)]) (\<lambda>global_ip.
     let adapter_mappings = [] in
     bindM (liftR (py_iter (py_or nics (PList [])))) (\<lambda>items4.
     bindM
       (foldM (\<lambda>nic adapter_mappings.
          bindM (vim_vm_customization_ip_for api nic) (\<lambda>ip.
          bindM (liftR (py_get nic ''subnet'' (PStr ''''))) (\<lambda>subnet.
          bindM (liftR (py_get nic ''gateway'' PNone)) (\<lambda>gateway.
          bindM (liftR (py_iter (py_or gateway (PList [])))) (\<lambda>items5.
          bindM (liftR (py_get nic ''dns_servers'' PNone)) (\<lambda>dns_servers2.
          bindM (liftR (py_iter (py_or dns_servers2 (PList [])))) (\<lambda>items6.
          bindM
            (vnew api ''vim.vm.customization.IPSettings'' [(''ip'', ip), (''subnetMask'', subnet), (''gateway'',
        PList items5), (''dnsServerList'', PList items6)]) (\<lambda>adapter.
          bindM (vnew api ''vim.vm.customization.AdapterMapping'' [(''adapter'', adapter)])
        (\<lambda>adapterMapping.
          pureM (adapter_mappings @ [adapterMapping])))))))))) items4 adapter_mappings)
        (\<lambda>adapter_mappings.
     vnew api ''vim.vm.customization.Specification'' [(''identity'', identity), (''globalIPSettings'', global_ip),
       (''nicSettingMap'', PList adapter_mappings)])))))"

definition vim_vm_customization_linux_spec ::
  "vmodl \<Rightarrow> pyval \<Rightarrow> pyval \<Rightarrow> pyval \<Rightarrow> pyval \<Rightarrow> pyval \<Rightarrow> pyval \<Rightarrow> pyval \<Rightarrow> pyval io" where
  "vim_vm_customization_linux_spec api hostname domain time_zone hw_clock_utc nics dns_servers dns_search_path
    =
     bindM (vnew api ''vim.vm.customization.FixedName'' [(''name'', hostname)]) (\<lambda>fixedName.
     bindM
       (vnew api ''vim.vm.customization.LinuxPrep'' [(''hostName'', fixedName), (''domain'', domain), (''timeZone'',
        time_zone), (''hwClockUTC'', hw_clock_utc)]) (\<lambda>identity.
     vim_vm_customization_build_spec api identity nics dns_servers dns_search_path))"

definition vim_vm_customization_windows_spec ::
  "vmodl \<Rightarrow> pyval \<Rightarrow> pyval \<Rightarrow> pyval \<Rightarrow> pyval \<Rightarrow> pyval
    \<Rightarrow> pyval \<Rightarrow> pyval \<Rightarrow> pyval \<Rightarrow> pyval \<Rightarrow> pyval
      \<Rightarrow> pyval \<Rightarrow> pyval \<Rightarrow> pyval \<Rightarrow> pyval \<Rightarrow> pyval \<Rightarrow> pyval \<Rightarrow> pyval io" where
  "vim_vm_customization_windows_spec api hostname workgroup_or_domain domain_join domain_admin domain_admin_password
    admin_password auto_logon auto_logon_count license_mode product_id full_name org_name time_zone nics dns_servers
      dns_search_path =
     bindM (vnew api ''vim.vm.customization.Sysprep'' []) (\<lambda>identity.
     bindM
       (vnew api ''vim.vm.customization.GuiUnattended'' [(''autoLogon'', auto_logon), (''autoLogonCount'',
        auto_logon_count), (''timeZone'', time_zone)]) (\<lambda>guiUnattended.
     bindM (vset api identity ''guiUnattended'' guiUnattended) (\<lambda>identity.
     bindM
       (if admin_password \<noteq> PNone then
          bindM
            (vnew api ''vim.vm.customization.Password'' [(''value'', admin_password), (''plainText'', PBool True)])
        (\<lambda>password.
          bindM (vget api identity ''guiUnattended'') (\<lambda>guiUnattended2.
          bindM (vset api guiUnattended2 ''password'' password) (\<lambda>guiUnattended2.
          vset api identity ''guiUnattended'' guiUnattended2)))
        else pureM identity) (\<lambda>identity.
     bindM (vnew api ''vim.vm.customization.FixedName'' [(''name'', hostname)]) (\<lambda>fixedName.
     bindM
       (vnew api ''vim.vm.customization.UserData'' [(''fullName'', full_name), (''orgName'', org_name),
        (''computerName'', fixedName), (''productId'', py_or product_id (PStr []))]) (\<lambda>userData.
     bindM (vset api identity ''userData'' userData) (\<lambda>identity.
     bindM
       (if truthy domain_join then
          bindM
            (if truthy domain_admin_password then
               vnew api ''vim.vm.customization.Password'' [(''value'', domain_admin_password), (''plainText'', PBool
        True)]
             else pureM PNone) (\<lambda>x.
          bindM
            (vnew api ''vim.vm.customization.Identification'' [(''joinDomain'', workgroup_or_domain),
        (''domainAdmin'', domain_admin), (''domainAdminPassword'', x)]) (\<lambda>identification.
          vset api identity ''identification'' identification))
        else
          bindM
            (vnew api ''vim.vm.customization.Identification'' [(''joinWorkgroup'', workgroup_or_domain)])
        (\<lambda>identification2.
          vset api identity ''identification'' identification2)) (\<lambda>identity.
     bindM
       (vnew api ''vim.vm.customization.LicenseFilePrintData'' [(''autoMode'', license_mode)])
        (\<lambda>licenseFilePrintData.
     bindM (vset api identity ''licenseFilePrintData'' licenseFilePrintData) (\<lambda>identity.
     vim_vm_customization_build_spec api identity nics dns_servers dns_search_path))))))))))"

definition vim_vm_customization_apply :: "vmodl \<Rightarrow> pyval \<Rightarrow> pyval \<Rightarrow> pyval \<Rightarrow> profile \<Rightarrow> pyval io" where
  "vim_vm_customization_apply api opts vm_id_or_name spec profile =
     bindM (vim_vm_vm api opts vm_id_or_name profile) (\<lambda>vm.
     bindM (vcall api vm ''CustomizeVM_Task'' [] [(''spec'', spec)]) (\<lambda>task.
     vget api task ''_moId''))"

definition vim_vm_customization_spec_list :: "vmodl \<Rightarrow> pyval \<Rightarrow> profile \<Rightarrow> pyval io" where
  "vim_vm_customization_spec_list api opts profile =
     bindM (vim_vm_customization_csmgr api opts profile) (\<lambda>csmgr2.
     bindM (vget api csmgr2 ''info'') (\<lambda>info2.
     bindM (liftR (py_iter (py_or info2 (PList [])))) (\<lambda>items.
     bindM (mapM (\<lambda>info. vget api info ''name'') items) (\<lambda>out.
     pureM (PList out)))))"

definition vim_vm_customization_spec_get :: "vmodl \<Rightarrow> pyval \<Rightarrow> pyval \<Rightarrow> profile \<Rightarrow> pyval io" where
  "vim_vm_customization_spec_get api opts name profile =
     bindM (vim_vm_customization_csmgr api opts profile) (\<lambda>mgr.
     bindM (vcall api mgr ''GetCustomizationSpec'' [] [(''name'', name)]) (\<lambda>item.
     vget api item ''spec''))"

definition vim_vm_customization_spec_create :: "vmodl \<Rightarrow> pyval \<Rightarrow> pyval \<Rightarrow> pyval
  \<Rightarrow> pyval \<Rightarrow> profile \<Rightarrow> pyval io" where
  "vim_vm_customization_spec_create api opts name description spec profile =
     bindM (vim_vm_customization_csmgr api opts profile) (\<lambda>mgr.
     bindM
       (vnew api ''vim.CustomizationSpecInfo'' [(''name'', name), (''description'', description), (''type'', PStr
        ''Lin'')]) (\<lambda>customizationSpecInfo.
     bindM
       (vnew api ''vim.CustomizationSpecItem'' [(''info'', customizationSpecInfo), (''spec'', spec)])
        (\<lambda>item.
     bindM (vcall api mgr ''CreateCustomizationSpec'' [] [(''item'', item)]) (\<lambda>_.
     pureM PNone))))"

definition vim_vm_customization_spec_delete :: "vmodl \<Rightarrow> pyval \<Rightarrow> pyval \<Rightarrow> profile \<Rightarrow> pyval io" where
  "vim_vm_customization_spec_delete api opts name profile =
     bindM (vim_vm_customization_csmgr api opts profile) (\<lambda>csmgr2.
     bindM (vcall api csmgr2 ''DeleteCustomizationSpec'' [] [(''name'', name)]) (\<lambda>_.
     pureM PNone))"

subsection \<open>\<open>clients/vim_vm_devices.py\<close>\<close>

definition vim_vm_devices_USB_CONTROLLER_TYPES :: "string list" where
  "vim_vm_devices_USB_CONTROLLER_TYPES =
     [''vim.vm.device.VirtualUSBController'', ''vim.vm.device.VirtualUSBXHCIController'']"

definition vim_vm_devices_reconfig :: "vmodl \<Rightarrow> pyval \<Rightarrow> pyval \<Rightarrow> pyval io" where
  "vim_vm_devices_reconfig api vm device_spec =
     bindM (vnew api ''vim.vm.ConfigSpec'' [(''deviceChange'', PList [device_spec])]) (\<lambda>spec.
     bindM (vcall api vm ''ReconfigVM_Task'' [] [(''spec'', spec)]) (\<lambda>task.
     vget api task ''_moId''))"

definition vim_vm_devices_devices :: "vmodl \<Rightarrow> pyval \<Rightarrow> pyval \<Rightarrow> pyval io" where
  "vim_vm_devices_devices api vm dev_type =
     bindM (vpath api vm [''config'', ''hardware'', ''device'']) (\<lambda>device.
     bindM (liftR (py_iter device)) (\<lambda>items.
     let classes = (case dev_type of PList cs \<Rightarrow> cs | c \<Rightarrow> [c]) in
     pureM (PList (filter (\<lambda>d. list_ex (\<lambda>c. is_instance api d (py_str c)) classes) items))))"

definition vim_vm_devices_device_summary :: "vmodl \<Rightarrow> pyval \<Rightarrow> pyval io" where
  "vim_vm_devices_device_summary api d =
     bindM (vget api d ''key'') (\<lambda>key.
     bindM (liftR (py_int key)) (\<lambda>n.
     bindM (vget api d ''deviceInfo'') (\<lambda>deviceInfo.
     bindM (if truthy deviceInfo then vpath api d [''deviceInfo'', ''label''] else pureM PNone) (\<lambda>x.
     bindM (vget api d ''deviceInfo'') (\<lambda>deviceInfo2.
     bindM (if truthy deviceInfo2 then vpath api d [''deviceInfo'', ''summary''] else pureM PNone) (\<lambda>x2.
     let base = [(''key'', PInt n), (''label'', x), (''summary'', x2)] in
     pureM (PDict base)))))))"

definition vim_vm_devices_tpm_list :: "vmodl \<Rightarrow> pyval \<Rightarrow> pyval \<Rightarrow> profile \<Rightarrow> pyval io" where
  "vim_vm_devices_tpm_list api opts vm_id_or_name profile =
     bindM (vim_vm_vm api opts vm_id_or_name profile) (\<lambda>vm.
     bindM (vim_vm_devices_devices api vm (PStr ''vim.vm.device.VirtualTPM'')) (\<lambda>devices2.
     bindM (liftR (py_iter devices2)) (\<lambda>items.
     bindM (mapM (\<lambda>d. vim_vm_devices_device_summary api d) items) (\<lambda>out.
     pureM (PList out)))))"

definition vim_vm_devices_tpm_add :: "vmodl \<Rightarrow> pyval \<Rightarrow> pyval \<Rightarrow> profile \<Rightarrow> pyval io" where
  "vim_vm_devices_tpm_add api opts vm_id_or_name profile =
     bindM (vim_vm_vm api opts vm_id_or_name profile) (\<lambda>vm.
     bindM (vnew api ''vim.vm.device.VirtualTPM'' [(''key'', PInt (-1))]) (\<lambda>tpm.
     bindM
       (vnew api ''vim.vm.device.VirtualDeviceSpec'' [(''operation'', PStr ''add''), (''device'', tpm)])
        (\<lambda>virtualDeviceSpec.
     vim_vm_devices_reconfig api vm virtualDeviceSpec)))"

definition vim_vm_devices_tpm_remove :: "vmodl \<Rightarrow> pyval \<Rightarrow> pyval \<Rightarrow> profile \<Rightarrow> pyval io" where
  "vim_vm_devices_tpm_remove api opts vm_id_or_name profile =
     bindM (vim_vm_vm api opts vm_id_or_name profile) (\<lambda>vm.
     bindM (vim_vm_devices_devices api vm (PStr ''vim.vm.device.VirtualTPM'')) (\<lambda>existing.
     if \<not> truthy existing then
       raiseM (LookupError (''VM '' @ py_repr vm_id_or_name @ '' has no vTPM device''))
     else
       bindM (liftR (py_first existing)) (\<lambda>first.
       bindM
         (vnew api ''vim.vm.device.VirtualDeviceSpec'' [(''operation'', PStr ''remove''), (''device'', first)])
        (\<lambda>virtualDeviceSpec.
       vim_vm_devices_reconfig api vm virtualDeviceSpec))))"

definition vim_vm_devices_vgpu_list :: "vmodl \<Rightarrow> pyval \<Rightarrow> pyval \<Rightarrow> profile \<Rightarrow> pyval io" where
  "vim_vm_devices_vgpu_list api opts vm_id_or_name profile =
     bindM (vim_vm_vm api opts vm_id_or_name profile) (\<lambda>vm.
     let out = [] in
     bindM (vim_vm_devices_devices api vm (PStr ''vim.vm.device.VirtualPCIPassthrough'')) (\<lambda>devices2.
     bindM (liftR (py_iter devices2)) (\<lambda>items.
     bindM
       (foldM (\<lambda>d out.
          bindM (vget api d ''backing'') (\<lambda>backing.
          bindM
            (if is_instance api backing ''vim.vm.device.VirtualPCIPassthrough.VmiopBackingInfo'' then
               vget api backing ''vgpu''
             else pureM PNone) (\<lambda>profile_name.
          bindM (vim_vm_devices_device_summary api d) (\<lambda>info.
          bindM (liftR (py_setitem info ''vgpu_profile'' profile_name)) (\<lambda>info.
          pureM (out @ [info])))))) items out) (\<lambda>out.
     pureM (PList out)))))"

definition vim_vm_devices_vgpu_add :: "vmodl \<Rightarrow> pyval \<Rightarrow> pyval \<Rightarrow> pyval \<Rightarrow> profile \<Rightarrow> pyval io" where
  "vim_vm_devices_vgpu_add api opts vm_id_or_name profile_name profile =
     bindM (vim_vm_vm api opts vm_id_or_name profile) (\<lambda>vm.
     bindM
       (vnew api ''vim.vm.device.VirtualPCIPassthrough.VmiopBackingInfo'' [(''vgpu'', profile_name)])
        (\<lambda>backing.
     bindM
       (vnew api ''vim.vm.device.VirtualPCIPassthrough'' [(''key'', PInt (-1)), (''backing'', backing)])
        (\<lambda>dev.
     bindM
       (vnew api ''vim.vm.device.VirtualDeviceSpec'' [(''operation'', PStr ''add''), (''device'', dev)])
        (\<lambda>virtualDeviceSpec.
     vim_vm_devices_reconfig api vm virtualDeviceSpec))))"

definition vim_vm_devices_vgpu_remove :: "vmodl \<Rightarrow> pyval \<Rightarrow> pyval \<Rightarrow> pyval \<Rightarrow> profile \<Rightarrow> pyval io" where
  "vim_vm_devices_vgpu_remove api opts vm_id_or_name profile_name profile =
     bindM (vim_vm_vm api opts vm_id_or_name profile) (\<lambda>vm.
     bindM (vim_vm_devices_devices api vm (PStr ''vim.vm.device.VirtualPCIPassthrough'')) (\<lambda>devices2.
     bindM (liftR (py_iter devices2)) (\<lambda>items.
     or_else
       (first_of (\<lambda>d.
          bindM (vget api d ''backing'') (\<lambda>backing.
          if \<not> (is_instance api backing ''vim.vm.device.VirtualPCIPassthrough.VmiopBackingInfo'') then
            pureM None
          else
            bindM
              (if profile_name = PNone then pureM True
               else bindM (vget api backing ''vgpu'') (\<lambda>vgpu.
                    pureM (py_eq vgpu profile_name))) (\<lambda>holds_v.
            if holds_v then
              bindM
                (vnew api ''vim.vm.device.VirtualDeviceSpec'' [(''operation'', PStr ''remove''), (''device'', d)])
        (\<lambda>virtualDeviceSpec.
              bindM (vim_vm_devices_reconfig api vm virtualDeviceSpec) (\<lambda>answer.
              pureM (Some answer)))
            else pureM None))) items)
       (raiseM (LookupError (''no matching vGPU device on VM '' @ py_repr vm_id_or_name))))))"

definition vim_vm_devices_video_get :: "vmodl \<Rightarrow> pyval \<Rightarrow> pyval \<Rightarrow> profile \<Rightarrow> pyval io" where
  "vim_vm_devices_video_get api opts vm_id_or_name profile =
     bindM (vim_vm_vm api opts vm_id_or_name profile) (\<lambda>vm.
     bindM (vim_vm_devices_devices api vm (PStr ''vim.vm.device.VirtualVideoCard'')) (\<lambda>cards.
     if \<not> truthy cards then pureM PNone
     else
       bindM (liftR (py_first cards)) (\<lambda>card_v.
       bindM (vget api card_v ''key'') (\<lambda>key.
       bindM (liftR (py_int key)) (\<lambda>n.
       bindM (vget api card_v ''videoRamSizeInKB'') (\<lambda>videoRamSizeInKB.
       bindM (liftR (py_int (py_or videoRamSizeInKB (PInt 0)))) (\<lambda>n2.
       bindM (vget api card_v ''numDisplays'') (\<lambda>numDisplays.
       bindM (liftR (py_int (py_or numDisplays (PInt 1)))) (\<lambda>n3.
       bindM (vget api card_v ''useAutoDetect'') (\<lambda>useAutoDetect.
       bindM (vget api card_v ''enable3DSupport'') (\<lambda>enable3DSupport.
       bindM (vget_or api card_v ''graphicsMemorySizeInKB'' (PInt 0)) (\<lambda>graphicsMemorySizeInKB.
       bindM (liftR (py_int (py_or graphicsMemorySizeInKB (PInt 0)))) (\<lambda>n4.
       pureM (PDict [(''key'', PInt n), (''video_ram_size_kb'', PInt n2), (''num_displays'', PInt n3),
        (''use_auto_detect'', PBool (truthy useAutoDetect)), (''enable_3d_support'', PBool (truthy
        enable3DSupport)), (''graphics_memory_size_kb'', PInt n4)]))))))))))))))"

definition vim_vm_devices_video_update ::
  "vmodl \<Rightarrow> pyval \<Rightarrow> pyval \<Rightarrow> pyval \<Rightarrow> pyval \<Rightarrow> pyval \<Rightarrow> pyval \<Rightarrow> profile \<Rightarrow> pyval io" where
  "vim_vm_devices_video_update api opts vm_id_or_name video_ram_size_kb num_displays enable_3d_support
    graphics_memory_size_kb profile =
     bindM (vim_vm_vm api opts vm_id_or_name profile) (\<lambda>vm.
     bindM (vim_vm_devices_devices api vm (PStr ''vim.vm.device.VirtualVideoCard'')) (\<lambda>cards.
     if \<not> truthy cards then raiseM (LookupError (''VM '' @ py_repr vm_id_or_name @
       '' has no video card''))
     else
       bindM (liftR (py_first cards)) (\<lambda>card_v.
       bindM
         (if video_ram_size_kb \<noteq> PNone then
            bindM (liftR (py_int video_ram_size_kb)) (\<lambda>n.
            vset api card_v ''videoRamSizeInKB'' (PInt n))
          else pureM card_v) (\<lambda>card_v.
       bindM
         (if num_displays \<noteq> PNone then
            bindM (liftR (py_int num_displays)) (\<lambda>n2.
            vset api card_v ''numDisplays'' (PInt n2))
          else pureM card_v) (\<lambda>card_v.
       bindM
         (if enable_3d_support \<noteq> PNone then
            vset api card_v ''enable3DSupport'' (PBool (truthy enable_3d_support))
          else pureM card_v) (\<lambda>card_v.
       bindM
         (if graphics_memory_size_kb \<noteq> PNone then
            bindM (liftR (py_int graphics_memory_size_kb)) (\<lambda>n3.
            vset api card_v ''graphicsMemorySizeInKB'' (PInt n3))
          else pureM card_v) (\<lambda>card_v.
       bindM
         (vnew api ''vim.vm.device.VirtualDeviceSpec'' [(''operation'', PStr ''edit''), (''device'', card_v)])
        (\<lambda>virtualDeviceSpec.
       vim_vm_devices_reconfig api vm virtualDeviceSpec))))))))"

definition vim_vm_devices_serial_list :: "vmodl \<Rightarrow> pyval \<Rightarrow> pyval \<Rightarrow> profile \<Rightarrow> pyval io" where
  "vim_vm_devices_serial_list api opts vm_id_or_name profile =
     bindM (vim_vm_vm api opts vm_id_or_name profile) (\<lambda>vm.
     let out = [] in
     bindM (vim_vm_devices_devices api vm (PStr ''vim.vm.device.VirtualSerialPort'')) (\<lambda>devices2.
     bindM (liftR (py_iter devices2)) (\<lambda>items.
     bindM
       (foldM (\<lambda>d out.
          bindM (vget api d ''backing'') (\<lambda>backing.
          bindM (vim_vm_devices_device_summary api d) (\<lambda>info.
          bindM
            (liftR (py_setitem info ''backing_type'' (if truthy backing then PStr (class_name backing) else PNone)))
        (\<lambda>info.
          bindM
            (if is_instance api backing ''vim.vm.device.VirtualSerialPort.URIBackingInfo'' then
               bindM (vget api backing ''serviceURI'') (\<lambda>serviceURI.
               bindM (liftR (py_setitem info ''uri'' serviceURI)) (\<lambda>info.
               bindM (vget api backing ''direction'') (\<lambda>direction.
               liftR (py_setitem info ''direction'' direction))))
             else if is_instance api backing ''vim.vm.device.VirtualSerialPort.FileBackingInfo'' then
               bindM (vget api backing ''fileName'') (\<lambda>fileName.
               liftR (py_setitem info ''file'' fileName))
             else pureM info) (\<lambda>info.
          pureM (out @ [info])))))) items out) (\<lambda>out.
     pureM (PList out)))))"

definition vim_vm_devices_serial_add ::
  "vmodl \<Rightarrow> pyval \<Rightarrow> pyval \<Rightarrow> pyval \<Rightarrow> pyval \<Rightarrow> pyval \<Rightarrow> pyval \<Rightarrow> profile \<Rightarrow> pyval io" where
  "vim_vm_devices_serial_add api opts vm_id_or_name backing uri direction file_path profile =
     bindM (vim_vm_vm api opts vm_id_or_name profile) (\<lambda>vm.
     bindM
       (if py_eq backing (PStr ''network'') then
          if \<not> truthy uri then
            raiseM (ValueError (''uri is required when backing='' @ [CHR 0x27] @ ''network'' @ [CHR
        0x27]))
          else
            vnew api ''vim.vm.device.VirtualSerialPort.URIBackingInfo'' [(''serviceURI'', uri), (''direction'',
        direction)]
        else if py_eq backing (PStr ''file'') then
          if \<not> truthy file_path then
            raiseM (ValueError (''file_path is required when backing='' @ [CHR 0x27] @ ''file'' @ [CHR
        0x27]))
          else vnew api ''vim.vm.device.VirtualSerialPort.FileBackingInfo'' [(''fileName'', file_path)]
        else raiseM (ValueError (''unsupported backing: '' @ py_repr backing))) (\<lambda>be.
     bindM
       (vnew api ''vim.vm.device.VirtualSerialPort'' [(''key'', PInt (-1)), (''backing'', be), (''yieldOnPoll'',
        PBool True)]) (\<lambda>port.
     bindM
       (vnew api ''vim.vm.device.VirtualDeviceSpec'' [(''operation'', PStr ''add''), (''device'', port)])
        (\<lambda>virtualDeviceSpec.
     vim_vm_devices_reconfig api vm virtualDeviceSpec))))"

definition vim_vm_devices_serial_remove :: "vmodl \<Rightarrow> pyval \<Rightarrow> pyval \<Rightarrow> pyval \<Rightarrow> profile \<Rightarrow> pyval io" where
  "vim_vm_devices_serial_remove api opts vm_id_or_name key profile =
     bindM (vim_vm_vm api opts vm_id_or_name profile) (\<lambda>vm.
     bindM (vim_vm_devices_devices api vm (PStr ''vim.vm.device.VirtualSerialPort'')) (\<lambda>devices2.
     bindM (liftR (py_iter devices2)) (\<lambda>items.
     or_else
       (first_of (\<lambda>d.
          bindM
            (if key = PNone then pureM True
             else
               bindM (vget api d ''key'') (\<lambda>key2.
               bindM (liftR (py_int key2)) (\<lambda>n.
               bindM (liftR (py_int key)) (\<lambda>n2.
               pureM (n = n2))))) (\<lambda>holds_v.
          if holds_v then
            bindM
              (vnew api ''vim.vm.device.VirtualDeviceSpec'' [(''operation'', PStr ''remove''), (''device'', d)])
        (\<lambda>virtualDeviceSpec.
            bindM (vim_vm_devices_reconfig api vm virtualDeviceSpec) (\<lambda>answer.
            pureM (Some answer)))
          else pureM None)) items)
       (raiseM (LookupError (''no matching serial port on VM '' @ py_repr vm_id_or_name))))))"

definition vim_vm_devices_usb_controllers_list :: "vmodl \<Rightarrow> pyval \<Rightarrow> pyval \<Rightarrow> profile \<Rightarrow> pyval io" where
  "vim_vm_devices_usb_controllers_list api opts vm_id_or_name profile =
     bindM (vim_vm_vm api opts vm_id_or_name profile) (\<lambda>vm.
     bindM (vim_vm_devices_devices api vm (PList (map PStr vim_vm_devices_USB_CONTROLLER_TYPES)))
       (\<lambda>devices2.
     bindM (liftR (py_iter devices2)) (\<lambda>items.
     bindM (mapM (\<lambda>d. vim_vm_devices_device_summary api d) items) (\<lambda>out.
     pureM (PList out)))))"

definition vim_vm_devices_usb_controllers_remove :: "vmodl \<Rightarrow> pyval \<Rightarrow> pyval \<Rightarrow> profile \<Rightarrow> pyval io" where
  "vim_vm_devices_usb_controllers_remove api opts vm_id_or_name profile =
     bindM (vim_vm_vm api opts vm_id_or_name profile) (\<lambda>vm.
     bindM (vim_vm_devices_devices api vm (PList (map PStr vim_vm_devices_USB_CONTROLLER_TYPES)))
       (\<lambda>targets.
     if \<not> truthy targets then pureM (PList [])
     else
       bindM (liftR (py_iter targets)) (\<lambda>items.
       bindM
         (mapM (\<lambda>d.
            vnew api ''vim.vm.device.VirtualDeviceSpec'' [(''operation'', PStr ''remove''), (''device'', d)]) items)
        (\<lambda>out.
       bindM (vnew api ''vim.vm.ConfigSpec'' [(''deviceChange'', PList out)]) (\<lambda>spec.
       bindM (vcall api vm ''ReconfigVM_Task'' [] [(''spec'', spec)]) (\<lambda>_.
       bindM (liftR (py_iter targets)) (\<lambda>items2.
       bindM (mapM (\<lambda>d. vim_vm_devices_device_summary api d) items2) (\<lambda>out2.
       pureM (PList out2)))))))))"

definition vim_vm_devices_list_vms_with_usb_controllers :: "vmodl \<Rightarrow> pyval \<Rightarrow> profile \<Rightarrow> pyval io" where
  "vim_vm_devices_list_vms_with_usb_controllers api opts profile =
     bindM (vim_content api opts profile) (\<lambda>content.
     bindM (vget api content ''viewManager'') (\<lambda>viewManager.
     bindM (vget api content ''rootFolder'') (\<lambda>rootFolder.
     bindM
       (vcall api viewManager ''CreateContainerView'' [rootFolder, PList [PStr ''vim.VirtualMachine''], PBool True]
        []) (\<lambda>container.
     finallyM
       (let out = [] in
        bindM (vget api container ''view'') (\<lambda>view.
        bindM (liftR (py_iter view)) (\<lambda>items.
        bindM
          (foldM (\<lambda>vm out.
             bindM (vget api vm ''config'') (\<lambda>config.
             if \<not> truthy config then pureM out
             else
               bindM
                 (vim_vm_devices_devices api vm (PList (map PStr vim_vm_devices_USB_CONTROLLER_TYPES)))
        (\<lambda>devices.
               if truthy devices then
                 bindM (vget api vm ''name'') (\<lambda>name.
                 bindM (vget api vm ''_moId'') (\<lambda>moId.
                 bindM (vpath api vm [''runtime'', ''connectionState'']) (\<lambda>connectionState.
                 bindM (liftR (py_iter devices)) (\<lambda>items2.
                 bindM (mapM (\<lambda>d. vim_vm_devices_device_summary api d) items2) (\<lambda>out2.
                 pureM (out @ [PDict [(''vm'', name), (''moid'', moId), (''connected'', PBool (py_eq connectionState
        (PStr ''connected''))), (''devices'', PList out2)]]))))))
               else pureM out))) items out) (\<lambda>out.
        pureM (PList out)))))
       (bindM (vcall api container ''Destroy'' [] []) (\<lambda>_.
        pureM ()))))))"

subsection \<open>\<open>clients/vim_vm_disk.py\<close>\<close>

definition vim_vm_disk_vm :: "vmodl \<Rightarrow> pyval \<Rightarrow> pyval \<Rightarrow> profile \<Rightarrow> pyval io" where
  "vim_vm_disk_vm api opts vm_id_or_name profile =
     bindM (vim_content api opts profile) (\<lambda>content.
     bindM (vget api content ''viewManager'') (\<lambda>viewManager.
     bindM (vget api content ''rootFolder'') (\<lambda>rootFolder.
     bindM
       (vcall api viewManager ''CreateContainerView'' [rootFolder, PList [PStr ''vim.VirtualMachine''], PBool True]
        []) (\<lambda>container.
     or_else
       (finallyM
          (bindM (vget api container ''view'') (\<lambda>view.
           bindM (liftR (py_iter view)) (\<lambda>items.
           first_of (\<lambda>vm.
             bindM (vget api vm ''_moId'') (\<lambda>moId.
             bindM (vget api vm ''name'') (\<lambda>name.
             if list_ex (py_eq vm_id_or_name) [moId, name] then pureM (Some vm) else pureM None)))
        items)))
          (bindM (vcall api container ''Destroy'' [] []) (\<lambda>_.
           pureM ())))
       (raiseM (LookupError (''VM '' @ py_repr vm_id_or_name @ '' not found'')))))))"

definition disk_entry :: "vmodl \<Rightarrow> pyval \<Rightarrow> pyval io" where
  "disk_entry api dev =
     bindM (vget api dev ''backing'') (\<lambda>backing.
     bindM (vget api dev ''key'') (\<lambda>key.
     bindM (vpath api dev [''deviceInfo'', ''label'']) (\<lambda>label.
     bindM (vpath api dev [''deviceInfo'', ''summary'']) (\<lambda>summary.
     bindM (vget api dev ''capacityInKB'') (\<lambda>capacity_kb.
     bindM (vget api dev ''capacityInBytes'') (\<lambda>capacity_bytes.
     bindM (vget api dev ''unitNumber'') (\<lambda>unit_number.
     bindM (vget api dev ''controllerKey'') (\<lambda>controller_key.
     bindM (vget_or api backing ''fileName'' PNone) (\<lambda>file_name.
     bindM (vget_or api backing ''diskMode'' PNone) (\<lambda>disk_mode.
     bindM (vget_or api backing ''thinProvisioned'' PNone) (\<lambda>thin.
     bindM (vget_or api backing ''eagerlyScrub'' PNone) (\<lambda>eager_scrub.
     bindM (vget_or api backing ''datastore'' PNone) (\<lambda>datastore.
     bindM (if truthy datastore then vpath api backing [''datastore'', ''_moId''] else pureM PNone) (\<lambda>datastore_moid.
     pureM (PDict
       [(''key'', key), (''label'', label), (''summary'', summary), (''capacity_kb'', capacity_kb),
        (''capacity_bytes'', capacity_bytes), (''unit_number'', unit_number), (''controller_key'', controller_key),
        (''file_name'', file_name), (''disk_mode'', disk_mode), (''thin'', thin), (''eager_scrub'', eager_scrub),
        (''datastore_moid'', datastore_moid)])))))))))))))))"

definition vim_vm_disk_list :: "vmodl \<Rightarrow> pyval \<Rightarrow> pyval \<Rightarrow> profile \<Rightarrow> pyval io" where
  "vim_vm_disk_list api opts vm_id_or_name profile =
     bindM (vim_vm_vm api opts vm_id_or_name profile) (\<lambda>vm.
     bindM (vpath api vm [''config'', ''hardware'', ''device'']) (\<lambda>device.
     bindM (liftR (py_iter (py_or device (PList [])))) (\<lambda>items.
     bindM
       (collect (\<lambda>dev.
          if is_instance api dev ''vim.vm.device.VirtualDisk'' then
            bindM (disk_entry api dev) (\<lambda>x. pureM (Some x))
          else pureM None) items) (\<lambda>out.
     pureM (PList out)))))"

definition vim_vm_disk_default_controller_key :: "vmodl \<Rightarrow> pyval \<Rightarrow> pyval io" where
  "vim_vm_disk_default_controller_key api vm =
     bindM (vpath api vm [''config'', ''hardware'', ''device'']) (\<lambda>device.
     bindM (liftR (py_iter (py_or device (PList [])))) (\<lambda>items.
     or_else
       (first_of (\<lambda>dev.
          if is_instance api dev ''vim.vm.device.VirtualSCSIController'' then
            bindM (vget api dev ''key'') (\<lambda>key.
            pureM (Some key))
          else pureM None) items)
       (raiseM (LookupError ''no SCSI controller on VM''))))"

definition vim_vm_disk_next_unit_number :: "vmodl \<Rightarrow> pyval \<Rightarrow> pyval \<Rightarrow> pyval io" where
  "vim_vm_disk_next_unit_number api vm controller_key =
     (let used = [] in
      bindM (vpath api vm [''config'', ''hardware'', ''device'']) (\<lambda>device.
      bindM (liftR (py_iter (py_or device (PList [])))) (\<lambda>items2.
      bindM
        (foldM (\<lambda>dev used.
           bindM
             (if is_instance api dev ''vim.vm.device.VirtualDisk'' then
                bindM (vget api dev ''controllerKey'') (\<lambda>controllerKey.
                pureM (py_eq controllerKey controller_key))
              else pureM False) (\<lambda>holds_v.
           if holds_v then
             bindM (vget api dev ''unitNumber'') (\<lambda>unitNumber.
             liftR (py_set (used @ [unitNumber])))
           else pureM used)) items2 used) (\<lambda>used.
      or_else
        (first_of (\<lambda>candidate.
           if py_eq candidate (PInt 7) then pureM None
           else if \<not> list_ex (py_eq candidate) used then pureM (Some candidate) else pureM None) (map PInt
        [0..15]))
        (raiseM (ValueError (''no free unit number on controller '' @ py_str controller_key)))))))"

definition vim_vm_disk_add ::
  "vmodl \<Rightarrow> pyval \<Rightarrow> pyval \<Rightarrow> pyval \<Rightarrow> pyval \<Rightarrow> pyval
    \<Rightarrow> pyval \<Rightarrow> pyval \<Rightarrow> pyval \<Rightarrow> pyval \<Rightarrow> profile \<Rightarrow> pyval io" where
  "vim_vm_disk_add api opts vm_id_or_name size_gb datastore_moid controller_key unit_number disk_mode thin
    eager_scrub profile =
     bindM (vim_vm_disk_vm api opts vm_id_or_name profile) (\<lambda>vm.
     bindM
       (if truthy controller_key then pureM controller_key else vim_vm_disk_default_controller_key api vm)
        (\<lambda>controller_key.
     bindM
       (if unit_number = PNone then vim_vm_disk_next_unit_number api vm controller_key
        else pureM unit_number) (\<lambda>unit_number.
     bindM
       (vnew api ''vim.vm.device.VirtualDisk.FlatVer2BackingInfo'' [(''diskMode'', disk_mode), (''thinProvisioned'',
        thin), (''eagerlyScrub'', eager_scrub), (''fileName'', PStr '''')]) (\<lambda>backing.
     bindM
       (if truthy datastore_moid then
          bindM (vref api ''vim.Datastore'' datastore_moid PNone) (\<lambda>datastore.
          vset api backing ''datastore'' datastore)
        else pureM backing) (\<lambda>backing.
     bindM (liftR (py_int size_gb)) (\<lambda>n.
     bindM
       (vnew api ''vim.vm.device.VirtualDisk'' [(''key'', PInt (-1)), (''controllerKey'', controller_key),
        (''unitNumber'', unit_number), (''capacityInKB'', PInt (n * 1024 * 1024)), (''backing'', backing)])
        (\<lambda>disk.
     bindM
       (vnew api ''vim.vm.device.VirtualDeviceSpec'' [(''operation'', PStr ''add''), (''fileOperation'', PStr
        ''create''), (''device'', disk)]) (\<lambda>virtualDeviceSpec.
     bindM (vnew api ''vim.vm.ConfigSpec'' [(''deviceChange'', PList [virtualDeviceSpec])]) (\<lambda>spec.
     bindM (vcall api vm ''ReconfigVM_Task'' [] [(''spec'', spec)]) (\<lambda>task.
     bindM (vim_wait_for_task api task 300 500) (\<lambda>_.
     vget api task ''_moId'')))))))))))"

definition vim_vm_disk_find_disk :: "vmodl \<Rightarrow> pyval \<Rightarrow> pyval \<Rightarrow> pyval io" where
  "vim_vm_disk_find_disk api vm key =
     bindM (vpath api vm [''config'', ''hardware'', ''device'']) (\<lambda>device.
     bindM (liftR (py_iter (py_or device (PList [])))) (\<lambda>items.
     or_else
       (first_of (\<lambda>dev.
          bindM
            (if is_instance api dev ''vim.vm.device.VirtualDisk'' then
               bindM (vget api dev ''key'') (\<lambda>key2.
               bindM (liftR (py_int key)) (\<lambda>n.
               pureM (py_eq key2 (PInt n))))
             else pureM False) (\<lambda>holds_v.
          if holds_v then pureM (Some dev) else pureM None)) items)
       (bindM (vget api vm ''name'') (\<lambda>name.
        raiseM (LookupError (''disk key '' @ py_repr key @ '' not found on VM '' @ py_repr name))))))"

definition vim_vm_disk_resize :: "vmodl \<Rightarrow> pyval \<Rightarrow> pyval \<Rightarrow> pyval \<Rightarrow> pyval \<Rightarrow> profile \<Rightarrow> pyval io" where
  "vim_vm_disk_resize api opts vm_id_or_name disk_key size_gb profile =
     bindM (vim_vm_disk_vm api opts vm_id_or_name profile) (\<lambda>vm.
     bindM (vim_vm_disk_find_disk api vm disk_key) (\<lambda>disk.
     bindM (liftR (py_int size_gb)) (\<lambda>n.
     bindM (vset api disk ''capacityInKB'' (PInt (n * 1024 * 1024))) (\<lambda>disk.
     bindM
       (vnew api ''vim.vm.device.VirtualDeviceSpec'' [(''operation'', PStr ''edit''), (''device'', disk)])
        (\<lambda>virtualDeviceSpec.
     bindM (vnew api ''vim.vm.ConfigSpec'' [(''deviceChange'', PList [virtualDeviceSpec])]) (\<lambda>spec.
     bindM (vcall api vm ''ReconfigVM_Task'' [] [(''spec'', spec)]) (\<lambda>task.
     bindM (vim_wait_for_task api task 300 500) (\<lambda>_.
     vget api task ''_moId''))))))))"

definition vim_vm_disk_remove :: "vmodl \<Rightarrow> pyval \<Rightarrow> pyval \<Rightarrow> pyval \<Rightarrow> pyval \<Rightarrow> profile \<Rightarrow> pyval io" where
  "vim_vm_disk_remove api opts vm_id_or_name disk_key destroy_files profile =
     bindM (vim_vm_disk_vm api opts vm_id_or_name profile) (\<lambda>vm.
     bindM (vim_vm_disk_find_disk api vm disk_key) (\<lambda>disk.
     bindM
       (vnew api ''vim.vm.device.VirtualDeviceSpec'' [(''operation'', PStr ''remove''), (''device'', disk)])
        (\<lambda>device_spec.
     bindM
       (if truthy destroy_files then vset api device_spec ''fileOperation'' (PStr ''destroy'')
        else pureM device_spec) (\<lambda>device_spec.
     bindM (vnew api ''vim.vm.ConfigSpec'' [(''deviceChange'', PList [device_spec])]) (\<lambda>spec.
     bindM (vcall api vm ''ReconfigVM_Task'' [] [(''spec'', spec)]) (\<lambda>task.
     bindM (vim_wait_for_task api task 300 500) (\<lambda>_.
     vget api task ''_moId'')))))))"

subsection \<open>\<open>clients/vim_vm_features.py\<close>\<close>

definition vim_vm_features_LATENCY_LEVELS :: "string list" where
  "vim_vm_features_LATENCY_LEVELS = [''low'', ''normal'', ''medium'', ''high'', ''custom'']"

definition vim_vm_features_FIRMWARES :: "string list" where
  "vim_vm_features_FIRMWARES = [''bios'', ''efi'']"

definition vim_vm_features_get_features :: "vmodl \<Rightarrow> pyval \<Rightarrow> pyval \<Rightarrow> profile \<Rightarrow> pyval io" where
  "vim_vm_features_get_features api opts vm_id_or_name profile =
     bindM (vim_vm_vm api opts vm_id_or_name profile) (\<lambda>vm.
     bindM (vget api vm ''config'') (\<lambda>cfg.
     bindM (vget_or api cfg ''bootOptions'' PNone) (\<lambda>bootOptions.
     bindM (if truthy bootOptions then pureM bootOptions else vnew api ''vim.vm.BootOptions'' []) (\<lambda>boot.
     bindM (vget api cfg ''cpuHotAddEnabled'') (\<lambda>cpuHotAddEnabled.
     bindM (vget api cfg ''memoryHotAddEnabled'') (\<lambda>memoryHotAddEnabled.
     bindM (vget api cfg ''nestedHVEnabled'') (\<lambda>nestedHVEnabled.
     bindM (vget api cfg ''version'') (\<lambda>version.
     bindM (vget api cfg ''latencySensitivity'') (\<lambda>latencySensitivity.
     bindM
       (if truthy latencySensitivity then
          bindM (vpath api cfg [''latencySensitivity'', ''level'']) (\<lambda>level.
          pureM (PStr (py_str level)))
        else pureM PNone) (\<lambda>x2.
     bindM (vget api cfg ''tools'') (\<lambda>tools.
     bindM (if truthy tools then vpath api cfg [''tools'', ''syncTimeWithHost''] else pureM PNone) (\<lambda>x3.
     bindM (vget api cfg ''firmware'') (\<lambda>firmware.
     bindM (vget_or api boot ''bootDelay'' PNone) (\<lambda>bootDelay.
     bindM (vget_or api boot ''enterBIOSSetup'' PNone) (\<lambda>enterBIOSSetup.
     bindM (vget_or api boot ''efiSecureBootEnabled'' PNone) (\<lambda>efiSecureBootEnabled.
     pureM (PDict [(''cpuHotAddEnabled'', cpuHotAddEnabled), (''memoryHotAddEnabled'', memoryHotAddEnabled),
       (''nestedHVEnabled'', nestedHVEnabled), (''hardwareVersion'', version), (''latencySensitivity'', x2),
        (''toolsSyncTimeWithHost'', x3), (''firmware'', firmware), (''bootDelay'', bootDelay), (''enterBIOSSetup'',
        enterBIOSSetup), (''efiSecureBootEnabled'', efiSecureBootEnabled)])))))))))))))))))"

definition vim_vm_features_set_features ::
  "vmodl \<Rightarrow> pyval \<Rightarrow> pyval \<Rightarrow> pyval \<Rightarrow> pyval \<Rightarrow> pyval
    \<Rightarrow> pyval \<Rightarrow> pyval \<Rightarrow> pyval \<Rightarrow> pyval \<Rightarrow> pyval \<Rightarrow> pyval \<Rightarrow> profile \<Rightarrow> pyval io" where
  "vim_vm_features_set_features api opts vm_id_or_name cpu_hot_add memory_hot_add nested_hv latency_sensitivity
    tools_sync_time_with_host firmware boot_delay enter_bios_setup efi_secure_boot profile =
     bindM (vim_vm_vm api opts vm_id_or_name profile) (\<lambda>vm.
     bindM (vnew api ''vim.vm.ConfigSpec'' []) (\<lambda>config.
     bindM
       (if cpu_hot_add \<noteq> PNone then vset api config ''cpuHotAddEnabled'' (PBool (truthy cpu_hot_add))
        else pureM config) (\<lambda>config.
     bindM
       (if memory_hot_add \<noteq> PNone then
          vset api config ''memoryHotAddEnabled'' (PBool (truthy memory_hot_add))
        else pureM config) (\<lambda>config.
     bindM
       (if nested_hv \<noteq> PNone then vset api config ''nestedHVEnabled'' (PBool (truthy nested_hv))
        else pureM config) (\<lambda>config.
     bindM
       (if latency_sensitivity \<noteq> PNone then
          if \<not> in_strs latency_sensitivity vim_vm_features_LATENCY_LEVELS then
            bindM (liftR (py_sorted (map PStr vim_vm_features_LATENCY_LEVELS))) (\<lambda>ordered.
            raiseM (ValueError (''latency_sensitivity must be one of '' @ py_str (PList ordered))))
          else
            bindM (vnew api ''vim.LatencySensitivity'' [(''level'', latency_sensitivity)])
        (\<lambda>latencySensitivity.
            vset api config ''latencySensitivity'' latencySensitivity)
        else pureM config) (\<lambda>config.
     bindM
       (if tools_sync_time_with_host \<noteq> PNone then
          bindM
            (vnew api ''vim.vm.ToolsConfigInfo'' [(''syncTimeWithHost'', PBool (truthy tools_sync_time_with_host))])
        (\<lambda>toolsConfigInfo.
          vset api config ''tools'' toolsConfigInfo)
        else pureM config) (\<lambda>config.
     bindM
       (if firmware \<noteq> PNone then
          if \<not> in_strs firmware vim_vm_features_FIRMWARES then
            bindM (liftR (py_sorted (map PStr vim_vm_features_FIRMWARES))) (\<lambda>ordered2.
            raiseM (ValueError (''firmware must be one of '' @ py_str (PList ordered2))))
          else vset api config ''firmware'' firmware
        else pureM config) (\<lambda>config.
     let boot_changes = [] :: dict in
     bindM
       (if boot_delay \<noteq> PNone then
          bindM (liftR (py_int boot_delay)) (\<lambda>n.
          pureM (dset boot_changes ''bootDelay'' (PInt n)))
        else pureM boot_changes) (\<lambda>boot_changes.
     let boot_changes = (if enter_bios_setup \<noteq> PNone then dset boot_changes ''enterBIOSSetup'' (PBool (truthy
       enter_bios_setup)) else boot_changes) in
     let boot_changes = (if efi_secure_boot \<noteq> PNone then dset boot_changes ''efiSecureBootEnabled'' (PBool
       (truthy efi_secure_boot)) else boot_changes) in
     bindM
       (if boot_changes \<noteq> [] then
          bindM (vnew api ''vim.vm.BootOptions'' boot_changes) (\<lambda>bootOptions.
          vset api config ''bootOptions'' bootOptions)
        else pureM config) (\<lambda>config.
     bindM (vcall api vm ''ReconfigVM_Task'' [] [(''spec'', config)]) (\<lambda>task.
     bindM (vim_wait_for_task api task 300 500) (\<lambda>_.
     vget api task ''_moId''))))))))))))"

definition vim_vm_features_upgrade_hardware :: "vmodl \<Rightarrow> pyval \<Rightarrow> pyval \<Rightarrow> pyval \<Rightarrow> profile \<Rightarrow> pyval io" where
  "vim_vm_features_upgrade_hardware api opts vm_id_or_name version profile =
     bindM (vim_vm_vm api opts vm_id_or_name profile) (\<lambda>vm.
     let kwargs = (if version \<noteq> PNone then [(''version'', version)] else []) in
     bindM (vcall api vm ''UpgradeVM_Task'' [] kwargs) (\<lambda>task.
     vget api task ''_moId''))"

subsection \<open>\<open>clients/vim_vm_guest.py\<close>\<close>

definition vim_vm_guest_vm :: "vmodl \<Rightarrow> pyval \<Rightarrow> pyval \<Rightarrow> profile \<Rightarrow> pyval io" where
  "vim_vm_guest_vm api opts vm_id_or_name profile =
     bindM (vim_content api opts profile) (\<lambda>content.
     bindM (vget api content ''viewManager'') (\<lambda>viewManager.
     bindM (vget api content ''rootFolder'') (\<lambda>rootFolder.
     bindM
       (vcall api viewManager ''CreateContainerView'' [rootFolder, PList [PStr ''vim.VirtualMachine''], PBool True]
        []) (\<lambda>container.
     or_else
       (finallyM
          (bindM (vget api container ''view'') (\<lambda>view.
           bindM (liftR (py_iter view)) (\<lambda>items.
           first_of (\<lambda>vm.
             bindM (vget api vm ''_moId'') (\<lambda>moId.
             bindM (vget api vm ''name'') (\<lambda>name.
             if list_ex (py_eq vm_id_or_name) [moId, name] then pureM (Some vm) else pureM None)))
        items)))
          (bindM (vcall api container ''Destroy'' [] []) (\<lambda>_.
           pureM ())))
       (raiseM (LookupError (''VM '' @ py_repr vm_id_or_name @ '' not found'')))))))"

definition vim_vm_guest_guest_mgr :: "vmodl \<Rightarrow> pyval \<Rightarrow> profile \<Rightarrow> pyval io" where
  "vim_vm_guest_guest_mgr api opts profile =
     bindM (vim_content api opts profile) (\<lambda>content.
     vget api content ''guestOperationsManager'')"

definition vim_vm_guest_creds :: "vmodl \<Rightarrow> pyval \<Rightarrow> pyval \<Rightarrow> pyval \<Rightarrow> pyval io" where
  "vim_vm_guest_creds api username password interactive =
     vnew api ''vim.vm.guest.NamePasswordAuthentication'' [(''username'', username), (''password'', password),
       (''interactiveSession'', PBool (truthy interactive))]"

definition vim_vm_guest_run_command ::
  "vmodl \<Rightarrow> pyval \<Rightarrow> pyval \<Rightarrow> pyval \<Rightarrow> pyval \<Rightarrow> pyval \<Rightarrow> pyval \<Rightarrow> pyval \<Rightarrow> pyval \<Rightarrow> profile \<Rightarrow> pyval io" where
  "vim_vm_guest_run_command api opts vm_id_or_name program_path arguments username password working_directory env
    profile =
     bindM (vim_vm_guest_vm api opts vm_id_or_name profile) (\<lambda>vm.
     bindM (vim_vm_guest_guest_mgr api opts profile) (\<lambda>guest_mgr2.
     bindM (vget api guest_mgr2 ''processManager'') (\<lambda>pm.
     bindM
       (vnew api ''vim.vm.guest.ProcessManager.ProgramSpec'' [(''programPath'', program_path), (''arguments'',
        arguments)]) (\<lambda>spec.
     bindM
       (if truthy working_directory then vset api spec ''workingDirectory'' working_directory
        else pureM spec) (\<lambda>spec.
     bindM
       (if truthy env then
          bindM (liftR (py_mapping env ''items'')) (\<lambda>entries.
          vset api spec ''envVariables'' (PList (map (\<lambda>(k, v). PStr (k @ ''='' @ py_str v)) entries)))
        else pureM spec) (\<lambda>spec.
     bindM (vim_vm_guest_creds api username password (PBool False)) (\<lambda>creds2.
     vcall api pm ''StartProgramInGuest'' [] [(''vm'', vm), (''auth'', creds2), (''spec'', spec)])))))))"

definition vim_vm_guest_list_processes :: "vmodl \<Rightarrow> pyval \<Rightarrow> pyval \<Rightarrow> pyval
  \<Rightarrow> pyval \<Rightarrow> pyval \<Rightarrow> profile \<Rightarrow> pyval io" where
  "vim_vm_guest_list_processes api opts vm_id_or_name username password pids profile =
     bindM (vim_vm_guest_vm api opts vm_id_or_name profile) (\<lambda>vm.
     bindM (vim_vm_guest_guest_mgr api opts profile) (\<lambda>guest_mgr2.
     bindM (vget api guest_mgr2 ''processManager'') (\<lambda>pm.
     bindM (vim_vm_guest_creds api username password (PBool False)) (\<lambda>creds2.
     bindM (liftR (py_iter (py_or pids (PList [])))) (\<lambda>items2.
     bindM
       (vcall api pm ''ListProcessesInGuest'' [] [(''vm'', vm), (''auth'', creds2), (''pids'', PList items2)])
        (\<lambda>info.
     let out = [] in
     bindM (liftR (py_iter (py_or info (PList [])))) (\<lambda>items3.
     bindM
       (foldM (\<lambda>p out.
          bindM (vget api p ''pid'') (\<lambda>pid.
          bindM (vget api p ''name'') (\<lambda>name.
          bindM (vget api p ''owner'') (\<lambda>owner.
          bindM (vget api p ''cmdLine'') (\<lambda>cmdLine.
          bindM (vget api p ''startTime'') (\<lambda>startTime.
          bindM
            (if truthy startTime then
               bindM (vget api p ''startTime'') (\<lambda>startTime2.
               vcall api startTime2 ''isoformat'' [] [])
             else pureM PNone) (\<lambda>x.
          bindM (vget api p ''exitCode'') (\<lambda>exitCode.
          bindM (vget api p ''endTime'') (\<lambda>endTime.
          bindM
            (if truthy endTime then
               bindM (vget api p ''endTime'') (\<lambda>endTime2.
               vcall api endTime2 ''isoformat'' [] [])
             else pureM PNone) (\<lambda>x2.
          pureM (out @ [PDict [(''pid'', pid), (''name'', name), (''owner'', owner), (''cmd_line'', cmdLine),
        (''start_time'', x), (''exit_code'', exitCode), (''end_time'', x2)]]))))))))))) items3 out) (\<lambda>out.
     pureM (PList out)))))))))"

definition vim_vm_guest_terminate_process ::
  "vmodl \<Rightarrow> pyval \<Rightarrow> pyval \<Rightarrow> pyval \<Rightarrow> pyval \<Rightarrow> pyval \<Rightarrow> profile \<Rightarrow> pyval io" where
  "vim_vm_guest_terminate_process api opts vm_id_or_name pid username password profile =
     bindM (vim_vm_guest_vm api opts vm_id_or_name profile) (\<lambda>vm.
     bindM (vim_vm_guest_guest_mgr api opts profile) (\<lambda>guest_mgr2.
     bindM (vget api guest_mgr2 ''processManager'') (\<lambda>pm.
     bindM (vim_vm_guest_creds api username password (PBool False)) (\<lambda>creds2.
     bindM (liftR (py_int pid)) (\<lambda>n.
     bindM
       (vcall api pm ''TerminateProcessInGuest'' [] [(''vm'', vm), (''auth'', creds2), (''pid'', PInt n)])
        (\<lambda>_.
     pureM PNone))))))"

definition vim_vm_guest_read_environment :: "vmodl \<Rightarrow> pyval \<Rightarrow> pyval \<Rightarrow> pyval
  \<Rightarrow> pyval \<Rightarrow> pyval \<Rightarrow> profile \<Rightarrow> pyval io" where
  "vim_vm_guest_read_environment api opts vm_id_or_name username password names profile =
     bindM (vim_vm_guest_vm api opts vm_id_or_name profile) (\<lambda>vm.
     bindM (vim_vm_guest_guest_mgr api opts profile) (\<lambda>guest_mgr2.
     bindM (vget api guest_mgr2 ''processManager'') (\<lambda>pm.
     bindM (vim_vm_guest_creds api username password (PBool False)) (\<lambda>creds2.
     bindM (liftR (py_iter (py_or names (PList [])))) (\<lambda>items2.
     bindM
       (vcall api pm ''ReadEnvironmentVariableInGuest'' [] [(''vm'', vm), (''auth'', creds2), (''names'', PList
        items2)]) (\<lambda>readEnvironmentVariableInGuest.
     bindM (liftR (py_iter (py_or readEnvironmentVariableInGuest (PList [])))) (\<lambda>items3.
     pureM (PList items3))))))))"

definition vim_vm_guest_list_files ::
  "vmodl \<Rightarrow> pyval \<Rightarrow> pyval \<Rightarrow> pyval \<Rightarrow> pyval \<Rightarrow> pyval \<Rightarrow> pyval \<Rightarrow> profile \<Rightarrow> pyval io" where
  "vim_vm_guest_list_files api opts vm_id_or_name path username password pattern profile =
     bindM (vim_vm_guest_vm api opts vm_id_or_name profile) (\<lambda>vm.
     bindM (vim_vm_guest_guest_mgr api opts profile) (\<lambda>guest_mgr2.
     bindM (vget api guest_mgr2 ''fileManager'') (\<lambda>fm.
     bindM (vim_vm_guest_creds api username password (PBool False)) (\<lambda>creds2.
     bindM
       (vcall api fm ''ListFilesInGuest'' [] [(''vm'', vm), (''auth'', creds2), (''filePath'', path),
        (''matchPattern'', pattern)]) (\<lambda>info.
     let out = [] in
     bindM (vget api info ''files'') (\<lambda>files.
     bindM (liftR (py_iter (py_or files (PList [])))) (\<lambda>items.
     bindM
       (foldM (\<lambda>entry out.
          bindM (vget api entry ''path'') (\<lambda>path2.
          bindM (vget api entry ''type'') (\<lambda>kind.
          bindM (vget api entry ''size'') (\<lambda>sz.
          bindM (vget api entry ''modification'') (\<lambda>modification.
          bindM
            (if truthy modification then
               bindM (vget api entry ''modification'') (\<lambda>modification2.
               vcall api modification2 ''isoformat'' [] [])
             else pureM PNone) (\<lambda>x.
          pureM (out @ [PDict [(''path'', path2), (''type'', PStr (py_str kind)), (''size'', sz),
        (''modification_time'', x)]]))))))) items out) (\<lambda>out.
     pureM (PList out)))))))))"

definition vim_vm_guest_delete_file :: "vmodl \<Rightarrow> pyval \<Rightarrow> pyval \<Rightarrow> pyval
  \<Rightarrow> pyval \<Rightarrow> pyval \<Rightarrow> profile \<Rightarrow> pyval io" where
  "vim_vm_guest_delete_file api opts vm_id_or_name path username password profile =
     bindM (vim_vm_guest_vm api opts vm_id_or_name profile) (\<lambda>vm.
     bindM (vim_vm_guest_guest_mgr api opts profile) (\<lambda>guest_mgr2.
     bindM (vget api guest_mgr2 ''fileManager'') (\<lambda>fm.
     bindM (vim_vm_guest_creds api username password (PBool False)) (\<lambda>creds2.
     bindM (vcall api fm ''DeleteFileInGuest'' [] [(''vm'', vm), (''auth'', creds2), (''filePath'', path)])
       (\<lambda>_.
     pureM PNone)))))"

definition vim_vm_guest_make_directory ::
  "vmodl \<Rightarrow> pyval \<Rightarrow> pyval \<Rightarrow> pyval \<Rightarrow> pyval \<Rightarrow> pyval \<Rightarrow> pyval \<Rightarrow> profile \<Rightarrow> pyval io" where
  "vim_vm_guest_make_directory api opts vm_id_or_name path username password create_parents profile =
     bindM (vim_vm_guest_vm api opts vm_id_or_name profile) (\<lambda>vm.
     bindM (vim_vm_guest_guest_mgr api opts profile) (\<lambda>guest_mgr2.
     bindM (vget api guest_mgr2 ''fileManager'') (\<lambda>fm.
     bindM (vim_vm_guest_creds api username password (PBool False)) (\<lambda>creds2.
     bindM
       (vcall api fm ''MakeDirectoryInGuest'' [] [(''vm'', vm), (''auth'', creds2), (''directoryPath'', path),
        (''createParentDirectories'', PBool (truthy create_parents))]) (\<lambda>_.
     pureM PNone)))))"

definition vim_vm_guest_delete_directory ::
  "vmodl \<Rightarrow> pyval \<Rightarrow> pyval \<Rightarrow> pyval \<Rightarrow> pyval \<Rightarrow> pyval \<Rightarrow> pyval \<Rightarrow> profile \<Rightarrow> pyval io" where
  "vim_vm_guest_delete_directory api opts vm_id_or_name path username password recursive profile =
     bindM (vim_vm_guest_vm api opts vm_id_or_name profile) (\<lambda>vm.
     bindM (vim_vm_guest_guest_mgr api opts profile) (\<lambda>guest_mgr2.
     bindM (vget api guest_mgr2 ''fileManager'') (\<lambda>fm.
     bindM (vim_vm_guest_creds api username password (PBool False)) (\<lambda>creds2.
     bindM
       (vcall api fm ''DeleteDirectoryInGuest'' [] [(''vm'', vm), (''auth'', creds2), (''directoryPath'', path),
        (''recursive'', PBool (truthy recursive))]) (\<lambda>_.
     pureM PNone)))))"

definition vim_vm_guest_move_file ::
  "vmodl \<Rightarrow> pyval \<Rightarrow> pyval \<Rightarrow> pyval \<Rightarrow> pyval \<Rightarrow> pyval \<Rightarrow> pyval \<Rightarrow> pyval \<Rightarrow> profile \<Rightarrow> pyval io" where
  "vim_vm_guest_move_file api opts vm_id_or_name src_path dst_path username password overwrite profile =
     bindM (vim_vm_guest_vm api opts vm_id_or_name profile) (\<lambda>vm.
     bindM (vim_vm_guest_guest_mgr api opts profile) (\<lambda>guest_mgr2.
     bindM (vget api guest_mgr2 ''fileManager'') (\<lambda>fm.
     bindM (vim_vm_guest_creds api username password (PBool False)) (\<lambda>creds2.
     bindM
       (vcall api fm ''MoveFileInGuest'' [] [(''vm'', vm), (''auth'', creds2), (''srcFilePath'', src_path),
        (''dstFilePath'', dst_path), (''overwrite'', PBool (truthy overwrite))]) (\<lambda>_.
     pureM PNone)))))"

subsection \<open>\<open>clients/vim_vm_migrate.py\<close>\<close>

definition vim_vm_migrate_PRIORITIES :: "dict" where
  "vim_vm_migrate_PRIORITIES =
     [(''low'', PStr ''lowPriority''), (''default'', PStr ''defaultPriority''), (''high'', PStr
       ''highPriority'')]"

definition vim_vm_migrate_POWER_STATES :: "dict" where
  "vim_vm_migrate_POWER_STATES =
     [(''poweredOn'', PStr ''poweredOn''), (''poweredOff'', PStr ''poweredOff''), (''suspended'', PStr
       ''suspended'')]"

definition vim_vm_migrate_migrate ::
  "vmodl \<Rightarrow> pyval \<Rightarrow> pyval \<Rightarrow> pyval \<Rightarrow> pyval \<Rightarrow> pyval \<Rightarrow> pyval \<Rightarrow> profile \<Rightarrow> pyval io" where
  "vim_vm_migrate_migrate api opts vm_id_or_name host resource_pool priority st profile =
     (if (host = PNone) \<and> (resource_pool = PNone) then
        raiseM (ValueError ''at least one of host / resource_pool must be set'')
      else
        bindM (vim_vm_vm api opts vm_id_or_name profile) (\<lambda>vm.
        bindM
          (if host \<noteq> PNone then vim_vm_find_by_type api opts (PStr ''vim.HostSystem'') host profile
           else pureM PNone) (\<lambda>host_ref.
        bindM
          (if resource_pool \<noteq> PNone then
             vim_vm_find_by_type api opts (PStr ''vim.ResourcePool'') resource_pool profile
           else pureM PNone) (\<lambda>pool_ref.
        bindM (liftR (py_item (PDict vim_vm_migrate_PRIORITIES) ''default'')) (\<lambda>default_v.
        bindM (liftR (py_lookup (PDict vim_vm_migrate_PRIORITIES) priority default_v)) (\<lambda>prio.
        bindM
          (if st \<noteq> PNone then liftR (py_key (PDict vim_vm_migrate_POWER_STATES) st) else pureM PNone)
        (\<lambda>state_ref.
        bindM
          (vcall api vm ''MigrateVM_Task'' [] [(''pool'', pool_ref), (''host'', host_ref), (''priority'', prio),
        (''state'', state_ref)]) (\<lambda>task.
        vget api task ''_moId''))))))))"

definition vim_vm_migrate_relocate ::
  "vmodl \<Rightarrow> pyval \<Rightarrow> pyval \<Rightarrow> pyval \<Rightarrow> pyval \<Rightarrow> pyval \<Rightarrow> pyval \<Rightarrow> pyval \<Rightarrow> pyval \<Rightarrow> profile \<Rightarrow> pyval io" where
  "vim_vm_migrate_relocate api opts vm_id_or_name host resource_pool datastore folder disk_format priority profile
    =
     bindM (vim_vm_vm api opts vm_id_or_name profile) (\<lambda>vm.
     bindM (vnew api ''vim.vm.RelocateSpec'' []) (\<lambda>spec.
     bindM
       (if host \<noteq> PNone then
          bindM (vim_vm_find_by_type api opts (PStr ''vim.HostSystem'') host profile) (\<lambda>find_by_type2.
          vset api spec ''host'' find_by_type2)
        else pureM spec) (\<lambda>spec.
     bindM
       (if resource_pool \<noteq> PNone then
          bindM
            (vim_vm_find_by_type api opts (PStr ''vim.ResourcePool'') resource_pool profile)
        (\<lambda>find_by_type3.
          vset api spec ''pool'' find_by_type3)
        else pureM spec) (\<lambda>spec.
     bindM
       (if datastore \<noteq> PNone then
          bindM (vim_vm_find_by_type api opts (PStr ''vim.Datastore'') datastore profile) (\<lambda>find_by_type4.
          vset api spec ''datastore'' find_by_type4)
        else pureM spec) (\<lambda>spec.
     bindM
       (if folder \<noteq> PNone then
          bindM (vim_vm_find_by_type api opts (PStr ''vim.Folder'') folder profile) (\<lambda>find_by_type5.
          vset api spec ''folder'' find_by_type5)
        else pureM spec) (\<lambda>spec.
     bindM (if disk_format \<noteq> PNone then vset api spec ''transform'' disk_format else pureM spec) (\<lambda>spec.
     bindM (liftR (py_item (PDict vim_vm_migrate_PRIORITIES) ''default'')) (\<lambda>default_v.
     bindM (liftR (py_lookup (PDict vim_vm_migrate_PRIORITIES) priority default_v)) (\<lambda>prio.
     bindM (vcall api vm ''RelocateVM_Task'' [] [(''spec'', spec), (''priority'', prio)]) (\<lambda>task.
     vget api task ''_moId''))))))))))"

subsection \<open>\<open>clients/vim_vm_nic.py\<close>\<close>

definition vim_vm_nic_NIC_TYPES :: "dict" where
  "vim_vm_nic_NIC_TYPES =
     [(''vmxnet3'', PStr ''vim.vm.device.VirtualVmxnet3''), (''vmxnet2'', PStr ''vim.vm.device.VirtualVmxnet2''),
       (''e1000'', PStr ''vim.vm.device.VirtualE1000''), (''e1000e'', PStr ''vim.vm.device.VirtualE1000e''),
        (''pcnet32'', PStr ''vim.vm.device.VirtualPCNet32''), (''sriov'', PStr
        ''vim.vm.device.VirtualSriovEthernetCard'')]"

definition vim_vm_nic_vm :: "vmodl \<Rightarrow> pyval \<Rightarrow> pyval \<Rightarrow> profile \<Rightarrow> pyval io" where
  "vim_vm_nic_vm api opts vm_id_or_name profile =
     bindM (vim_content api opts profile) (\<lambda>content.
     bindM (vget api content ''viewManager'') (\<lambda>viewManager.
     bindM (vget api content ''rootFolder'') (\<lambda>rootFolder.
     bindM
       (vcall api viewManager ''CreateContainerView'' [rootFolder, PList [PStr ''vim.VirtualMachine''], PBool True]
        []) (\<lambda>container.
     or_else
       (finallyM
          (bindM (vget api container ''view'') (\<lambda>view.
           bindM (liftR (py_iter view)) (\<lambda>items.
           first_of (\<lambda>vm.
             bindM (vget api vm ''_moId'') (\<lambda>moId.
             bindM (vget api vm ''name'') (\<lambda>name.
             if list_ex (py_eq vm_id_or_name) [moId, name] then pureM (Some vm) else pureM None)))
        items)))
          (bindM (vcall api container ''Destroy'' [] []) (\<lambda>_.
           pureM ())))
       (raiseM (LookupError (''VM '' @ py_repr vm_id_or_name @ '' not found'')))))))"

definition vim_vm_nic_find_network :: "vmodl \<Rightarrow> pyval \<Rightarrow> pyval \<Rightarrow> profile \<Rightarrow> pyval io" where
  "vim_vm_nic_find_network api opts name_or_id profile =
     bindM (vim_content api opts profile) (\<lambda>content.
     bindM (vget api content ''viewManager'') (\<lambda>viewManager.
     bindM (vget api content ''rootFolder'') (\<lambda>rootFolder.
     bindM
       (vcall api viewManager ''CreateContainerView'' [rootFolder, PList [PStr ''vim.Network''], PBool True] [])
        (\<lambda>container.
     or_else
       (finallyM
          (bindM (vget api container ''view'') (\<lambda>view.
           bindM (liftR (py_iter view)) (\<lambda>items.
           first_of (\<lambda>net_v.
             bindM (vget api net_v ''_moId'') (\<lambda>moId.
             bindM (vget api net_v ''name'') (\<lambda>name.
             if list_ex (py_eq name_or_id) [moId, name] then pureM (Some net_v) else pureM None)))
        items)))
          (bindM (vcall api container ''Destroy'' [] []) (\<lambda>_.
           pureM ())))
       (raiseM (LookupError (''network '' @ py_repr name_or_id @ '' not found'')))))))"

definition vim_vm_nic_list :: "vmodl \<Rightarrow> pyval \<Rightarrow> pyval \<Rightarrow> profile \<Rightarrow> pyval io" where
  "vim_vm_nic_list api opts vm_id_or_name profile =
     bindM (vim_vm_nic_vm api opts vm_id_or_name profile) (\<lambda>vm.
     let out = [] in
     bindM (vpath api vm [''config'', ''hardware'', ''device'']) (\<lambda>device.
     bindM (liftR (py_iter (py_or device (PList [])))) (\<lambda>items.
     bindM
       (foldM (\<lambda>dev out.
          if \<not> (is_instance api dev ''vim.vm.device.VirtualEthernetCard'') then pureM out
          else
            bindM (vget api dev ''backing'') (\<lambda>backing.
            let backing_kind = (if truthy backing then PStr (class_name backing) else PNone) in
            bindM (vget_or api backing ''network'' PNone) (\<lambda>network.
            bindM (vget_or api backing ''port'' PNone) (\<lambda>port.
            bindM (vget_or api port ''portgroupKey'' PNone) (\<lambda>portgroup_key.
            bindM (vget api dev ''key'') (\<lambda>key.
            bindM (vpath api dev [''deviceInfo'', ''label'']) (\<lambda>label.
            bindM (vpath api dev [''deviceInfo'', ''summary'']) (\<lambda>summary.
            bindM (vget api dev ''macAddress'') (\<lambda>macAddress.
            bindM (vget api dev ''addressType'') (\<lambda>addressType.
            bindM (vget api dev ''connectable'') (\<lambda>connectable.
            bindM
              (if truthy connectable then vpath api dev [''connectable'', ''connected''] else pureM PNone)
        (\<lambda>x.
            bindM (vget api dev ''connectable'') (\<lambda>connectable2.
            bindM
              (if truthy connectable2 then vpath api dev [''connectable'', ''startConnected'']
               else pureM PNone) (\<lambda>x2.
            bindM (if truthy network then vget api network ''_moId'' else pureM PNone) (\<lambda>x3.
            pureM (out @ [PDict [(''key'', key), (''label'', label), (''summary'', summary), (''mac_address'',
        macAddress), (''mac_type'', addressType), (''device_type'', PStr (class_name dev)), (''connected'', x),
        (''start_connected'', x2), (''backing_kind'', backing_kind), (''network_moid'', x3), (''portgroup_key'',
        portgroup_key)]])))))))))))))))) items out) (\<lambda>out.
     pureM (PList out)))))"

definition vim_vm_nic_add ::
  "vmodl \<Rightarrow> pyval \<Rightarrow> pyval \<Rightarrow> pyval \<Rightarrow> pyval \<Rightarrow> pyval
    \<Rightarrow> pyval \<Rightarrow> pyval \<Rightarrow> pyval \<Rightarrow> pyval \<Rightarrow> profile \<Rightarrow> pyval io" where
  "vim_vm_nic_add api opts vm_id_or_name nic_type network network_moid portgroup_key dvs_uuid mac_address
    start_connected profile =
     (let network_obj = PNone in
      let device_name = PNone in
      bindM
        (if truthy network \<and> (\<not> truthy network_moid) then
           tryM
             (bindM (vim_vm_nic_find_network api opts network profile) (\<lambda>network_obj.
              bindM (vget api network_obj ''_moId'') (\<lambda>network_moid.
              pureM (network_obj, network_moid, device_name))))
             (\<lambda>exc. if is_LookupError exc then
                 let device_name = network in
                 pureM (network_obj, network_moid, device_name)
               else raiseM exc)
         else pureM (network_obj, network_moid, device_name)) (\<lambda>(network_obj, network_moid, device_name).
      if (\<not> truthy network_obj) \<and> (\<not> truthy network_moid) \<and> (\<not> truthy device_name) \<and>
        (\<not> (truthy portgroup_key \<and> truthy dvs_uuid)) then
        raiseM (ValueError ''provide network OR network_moid OR (portgroup_key AND dvs_uuid)'')
      else
        bindM (liftR (py_lower nic_type)) (\<lambda>text.
        let nic_cls = dget vim_vm_nic_NIC_TYPES text PNone in
        if nic_cls = PNone then
          bindM (liftR (py_sorted (map (\<lambda>(k, _). PStr k) vim_vm_nic_NIC_TYPES))) (\<lambda>ordered.
          raiseM (ValueError (''unknown nic_type '' @ py_repr nic_type @ ''; valid: '' @ py_str (PList
        ordered))))
        else
          bindM (vnew api (py_str nic_cls) [(''key'', PInt (-1))]) (\<lambda>nic.
          bindM
            (if truthy portgroup_key \<and> truthy dvs_uuid then
               bindM
                 (vnew api ''vim.vm.device.VirtualEthernetCard.DistributedVirtualPortBackingInfo'' [])
        (\<lambda>backing.
               bindM
                 (vnew api ''vim.dvs.PortConnection'' [(''portgroupKey'', portgroup_key), (''switchUuid'',
        dvs_uuid)]) (\<lambda>portConnection.
               vset api backing ''port'' portConnection))
             else if device_name \<noteq> PNone then
               bindM (vnew api ''vim.vm.device.VirtualEthernetCard.NetworkBackingInfo'' []) (\<lambda>backing.
               vset api backing ''deviceName'' device_name)
             else
               bindM
                 (if network_obj = PNone then vim_vm_nic_find_network api opts network_moid profile
                  else pureM network_obj) (\<lambda>network_obj.
               bindM (vnew api ''vim.vm.device.VirtualEthernetCard.NetworkBackingInfo'' []) (\<lambda>backing.
               bindM (vset api backing ''network'' network_obj) (\<lambda>backing.
               tryM
                 (bindM (vget api network_obj ''name'') (\<lambda>name.
                  vset api backing ''deviceName'' name))
                 (\<lambda>exc. if is_AttributeError exc then
                     vset api backing ''deviceName'' (PStr '''')
                   else raiseM exc))))) (\<lambda>backing.
          bindM (vset api nic ''backing'' backing) (\<lambda>nic.
          bindM
            (if truthy mac_address then
               bindM (vset api nic ''macAddress'' mac_address) (\<lambda>nic.
               vset api nic ''addressType'' (PStr ''manual''))
             else vset api nic ''addressType'' (PStr ''generated'')) (\<lambda>nic.
          bindM
            (vnew api ''vim.vm.device.VirtualDevice.ConnectInfo'' [(''startConnected'', start_connected),
        (''allowGuestControl'', PBool True)]) (\<lambda>connectInfo.
          bindM (vset api nic ''connectable'' connectInfo) (\<lambda>nic.
          bindM
            (vnew api ''vim.vm.device.VirtualDeviceSpec'' [(''operation'', PStr ''add''), (''device'', nic)])
        (\<lambda>virtualDeviceSpec.
          bindM (vnew api ''vim.vm.ConfigSpec'' [(''deviceChange'', PList [virtualDeviceSpec])]) (\<lambda>spec.
          bindM (vim_vm_nic_vm api opts vm_id_or_name profile) (\<lambda>vm.
          bindM (vcall api vm ''ReconfigVM_Task'' [] [(''spec'', spec)]) (\<lambda>task.
          bindM (vim_wait_for_task api task 300 500) (\<lambda>_.
          vget api task ''_moId''))))))))))))))"

definition vim_vm_nic_find_nic :: "vmodl \<Rightarrow> pyval \<Rightarrow> pyval \<Rightarrow> pyval io" where
  "vim_vm_nic_find_nic api vm key =
     bindM (vpath api vm [''config'', ''hardware'', ''device'']) (\<lambda>device.
     bindM (liftR (py_iter (py_or device (PList [])))) (\<lambda>items.
     or_else
       (first_of (\<lambda>dev.
          bindM
            (if is_instance api dev ''vim.vm.device.VirtualEthernetCard'' then
               bindM (vget api dev ''key'') (\<lambda>key2.
               bindM (liftR (py_int key)) (\<lambda>n.
               pureM (py_eq key2 (PInt n))))
             else pureM False) (\<lambda>holds_v.
          if holds_v then pureM (Some dev) else pureM None)) items)
       (bindM (vget api vm ''name'') (\<lambda>name.
        raiseM (LookupError (''NIC key '' @ py_repr key @ '' not found on VM '' @ py_repr name))))))"

definition vim_vm_nic_update_backing ::
  "vmodl \<Rightarrow> pyval \<Rightarrow> pyval \<Rightarrow> pyval \<Rightarrow> pyval \<Rightarrow> pyval \<Rightarrow> pyval \<Rightarrow> profile \<Rightarrow> pyval io" where
  "vim_vm_nic_update_backing api opts vm_id_or_name nic_key network_moid portgroup_key dvs_uuid profile =
     bindM (vim_vm_nic_vm api opts vm_id_or_name profile) (\<lambda>vm.
     bindM (vim_vm_nic_find_nic api vm nic_key) (\<lambda>nic.
     bindM
       (if truthy portgroup_key \<and> truthy dvs_uuid then
          bindM (vnew api ''vim.vm.device.VirtualEthernetCard.DistributedVirtualPortBackingInfo'' [])
        (\<lambda>backing.
          bindM
            (vnew api ''vim.dvs.PortConnection'' [(''portgroupKey'', portgroup_key), (''switchUuid'', dvs_uuid)])
        (\<lambda>portConnection.
          vset api backing ''port'' portConnection))
        else if truthy network_moid then
          bindM (vnew api ''vim.vm.device.VirtualEthernetCard.NetworkBackingInfo'' []) (\<lambda>backing.
          bindM (vref api ''vim.Network'' network_moid PNone) (\<lambda>network.
          bindM (vset api backing ''network'' network) (\<lambda>backing.
          vset api backing ''deviceName'' (PStr ''''))))
        else raiseM (ValueError ''provide network_moid OR (portgroup_key AND dvs_uuid)'')) (\<lambda>backing.
     bindM (vset api nic ''backing'' backing) (\<lambda>nic.
     bindM
       (vnew api ''vim.vm.device.VirtualDeviceSpec'' [(''operation'', PStr ''edit''), (''device'', nic)])
        (\<lambda>virtualDeviceSpec.
     bindM (vnew api ''vim.vm.ConfigSpec'' [(''deviceChange'', PList [virtualDeviceSpec])]) (\<lambda>spec.
     bindM (vcall api vm ''ReconfigVM_Task'' [] [(''spec'', spec)]) (\<lambda>task.
     bindM (vim_wait_for_task api task 300 500) (\<lambda>_.
     vget api task ''_moId''))))))))"

definition vim_vm_nic_set_connected :: "vmodl \<Rightarrow> pyval \<Rightarrow> pyval \<Rightarrow> pyval \<Rightarrow> pyval \<Rightarrow> profile \<Rightarrow> pyval io" where
  "vim_vm_nic_set_connected api opts vm_id_or_name nic_key connected profile =
     bindM (vim_vm_nic_vm api opts vm_id_or_name profile) (\<lambda>vm.
     bindM (vim_vm_nic_find_nic api vm nic_key) (\<lambda>nic.
     bindM (vget api nic ''connectable'') (\<lambda>connectable.
     bindM
       (if connectable = PNone then
          bindM (vnew api ''vim.vm.device.VirtualDevice.ConnectInfo'' []) (\<lambda>connectInfo.
          vset api nic ''connectable'' connectInfo)
        else pureM nic) (\<lambda>nic.
     bindM (vget api nic ''connectable'') (\<lambda>connectable2.
     bindM (vset api connectable2 ''connected'' (PBool (truthy connected))) (\<lambda>connectable2.
     bindM (vset api nic ''connectable'' connectable2) (\<lambda>nic.
     bindM (vget api nic ''connectable'') (\<lambda>connectable3.
     bindM (vset api connectable3 ''startConnected'' (PBool (truthy connected))) (\<lambda>connectable3.
     bindM (vset api nic ''connectable'' connectable3) (\<lambda>nic.
     bindM
       (vnew api ''vim.vm.device.VirtualDeviceSpec'' [(''operation'', PStr ''edit''), (''device'', nic)])
        (\<lambda>virtualDeviceSpec.
     bindM (vnew api ''vim.vm.ConfigSpec'' [(''deviceChange'', PList [virtualDeviceSpec])]) (\<lambda>spec.
     bindM (vcall api vm ''ReconfigVM_Task'' [] [(''spec'', spec)]) (\<lambda>task.
     bindM (vim_wait_for_task api task 300 500) (\<lambda>_.
     vget api task ''_moId''))))))))))))))"

definition vim_vm_nic_remove :: "vmodl \<Rightarrow> pyval \<Rightarrow> pyval \<Rightarrow> pyval \<Rightarrow> profile \<Rightarrow> pyval io" where
  "vim_vm_nic_remove api opts vm_id_or_name nic_key profile =
     bindM (vim_vm_nic_vm api opts vm_id_or_name profile) (\<lambda>vm.
     bindM (vim_vm_nic_find_nic api vm nic_key) (\<lambda>nic.
     bindM
       (vnew api ''vim.vm.device.VirtualDeviceSpec'' [(''operation'', PStr ''remove''), (''device'', nic)])
        (\<lambda>virtualDeviceSpec.
     bindM (vnew api ''vim.vm.ConfigSpec'' [(''deviceChange'', PList [virtualDeviceSpec])]) (\<lambda>spec.
     bindM (vcall api vm ''ReconfigVM_Task'' [] [(''spec'', spec)]) (\<lambda>task.
     bindM (vim_wait_for_task api task 300 500) (\<lambda>_.
     vget api task ''_moId''))))))"

subsection \<open>\<open>clients/vim_vm_power.py\<close>\<close>

definition vim_vm_power_get_power_state :: "vmodl \<Rightarrow> pyval \<Rightarrow> pyval \<Rightarrow> profile \<Rightarrow> pyval io" where
  "vim_vm_power_get_power_state api opts vm_id_or_name profile =
     bindM (vim_vm_vm api opts vm_id_or_name profile) (\<lambda>vm.
     bindM (vpath api vm [''runtime'', ''powerState'']) (\<lambda>powerState.
     pureM (PStr (py_str powerState))))"

definition vim_vm_power_power_on :: "vmodl \<Rightarrow> pyval \<Rightarrow> pyval \<Rightarrow> pyval \<Rightarrow> profile \<Rightarrow> pyval io" where
  "vim_vm_power_power_on api opts vm_id_or_name host profile =
     bindM (vim_vm_vm api opts vm_id_or_name profile) (\<lambda>vm.
     let host_ref = PNone in
     bindM
       (if host \<noteq> PNone then vim_vm_find_by_type api opts (PStr ''vim.HostSystem'') host profile
        else pureM host_ref) (\<lambda>host_ref.
     bindM (vcall api vm ''PowerOnVM_Task'' [] [(''host'', host_ref)]) (\<lambda>task.
     vget api task ''_moId'')))"

definition vim_vm_power_power_off :: "vmodl \<Rightarrow> pyval \<Rightarrow> pyval \<Rightarrow> profile \<Rightarrow> pyval io" where
  "vim_vm_power_power_off api opts vm_id_or_name profile =
     bindM (vim_vm_vm api opts vm_id_or_name profile) (\<lambda>vm.
     bindM (vcall api vm ''PowerOffVM_Task'' [] []) (\<lambda>task.
     vget api task ''_moId''))"

definition vim_vm_power_shutdown_guest :: "vmodl \<Rightarrow> pyval \<Rightarrow> pyval \<Rightarrow> profile \<Rightarrow> pyval io" where
  "vim_vm_power_shutdown_guest api opts vm_id_or_name profile =
     bindM (vim_vm_vm api opts vm_id_or_name profile) (\<lambda>vm.
     bindM (vcall api vm ''ShutdownGuest'' [] []) (\<lambda>_.
     pureM (PBool True)))"

definition vim_vm_power_reboot_guest :: "vmodl \<Rightarrow> pyval \<Rightarrow> pyval \<Rightarrow> profile \<Rightarrow> pyval io" where
  "vim_vm_power_reboot_guest api opts vm_id_or_name profile =
     bindM (vim_vm_vm api opts vm_id_or_name profile) (\<lambda>vm.
     bindM (vcall api vm ''RebootGuest'' [] []) (\<lambda>_.
     pureM (PBool True)))"

definition vim_vm_power_standby_guest :: "vmodl \<Rightarrow> pyval \<Rightarrow> pyval \<Rightarrow> profile \<Rightarrow> pyval io" where
  "vim_vm_power_standby_guest api opts vm_id_or_name profile =
     bindM (vim_vm_vm api opts vm_id_or_name profile) (\<lambda>vm.
     bindM (vcall api vm ''StandbyGuest'' [] []) (\<lambda>_.
     pureM (PBool True)))"

definition vim_vm_power_reset :: "vmodl \<Rightarrow> pyval \<Rightarrow> pyval \<Rightarrow> profile \<Rightarrow> pyval io" where
  "vim_vm_power_reset api opts vm_id_or_name profile =
     bindM (vim_vm_vm api opts vm_id_or_name profile) (\<lambda>vm.
     bindM (vcall api vm ''ResetVM_Task'' [] []) (\<lambda>task.
     vget api task ''_moId''))"

definition vim_vm_power_suspend :: "vmodl \<Rightarrow> pyval \<Rightarrow> pyval \<Rightarrow> profile \<Rightarrow> pyval io" where
  "vim_vm_power_suspend api opts vm_id_or_name profile =
     bindM (vim_vm_vm api opts vm_id_or_name profile) (\<lambda>vm.
     bindM (vcall api vm ''SuspendVM_Task'' [] []) (\<lambda>task.
     vget api task ''_moId''))"

subsection \<open>\<open>clients/vim_vm_snapshot.py\<close>\<close>

definition vim_vm_snapshot_find_vm :: "vmodl \<Rightarrow> pyval \<Rightarrow> pyval \<Rightarrow> profile \<Rightarrow> pyval io" where
  "vim_vm_snapshot_find_vm api opts vm_id_or_name profile =
     bindM (vim_content api opts profile) (\<lambda>content.
     bindM (vget api content ''viewManager'') (\<lambda>viewManager.
     bindM (vget api content ''rootFolder'') (\<lambda>rootFolder.
     bindM
       (vcall api viewManager ''CreateContainerView'' [rootFolder, PList [PStr ''vim.VirtualMachine''], PBool True]
        []) (\<lambda>container.
     or_else
       (finallyM
          (bindM (vget api container ''view'') (\<lambda>view.
           bindM (liftR (py_iter view)) (\<lambda>items.
           first_of (\<lambda>vm.
             bindM (vget api vm ''_moId'') (\<lambda>moId.
             bindM (vget api vm ''name'') (\<lambda>name.
             if list_ex (py_eq vm_id_or_name) [moId, name] then pureM (Some vm) else pureM None)))
        items)))
          (bindM (vcall api container ''Destroy'' [] []) (\<lambda>_.
           pureM ())))
       (raiseM (LookupError (''VM '' @ py_repr vm_id_or_name @ '' not found'')))))))"

text \<open>
  Python's limit on nested calls. Beyond it there is a \<open>RecursionError\<close>, which is a \<open>RuntimeError\<close>; the bound is an
  argument of the three walks over a tree of snapshots.
\<close>

definition RECURSION_LIMIT :: nat where
  "RECURSION_LIMIT = 1000"

definition recursion_error :: exn where
  "recursion_error = RuntimeError ''maximum recursion depth exceeded''"

fun snapshot_dict :: "vmodl \<Rightarrow> nat \<Rightarrow> pyval \<Rightarrow> pyval io" where
  "snapshot_dict api 0 node = raiseM recursion_error"
| "snapshot_dict api (Suc n) node =
     bindM (vpath api node [''snapshot'', ''_moId'']) (\<lambda>moid.
     bindM (vget api node ''name'') (\<lambda>name.
     bindM (vget api node ''description'') (\<lambda>description.
     bindM (vget api node ''createTime'') (\<lambda>create_time.
     bindM (if truthy create_time then vcall api create_time ''isoformat'' [] [] else pureM PNone) (\<lambda>created.
     bindM (vget api node ''state'') (\<lambda>st.
     bindM (vget_or api node ''quiesced'' (PBool False)) (\<lambda>quiesced.
     bindM (vget api node ''childSnapshotList'') (\<lambda>children.
     bindM (liftR (py_iter (py_or children (PList [])))) (\<lambda>items.
     bindM (mapM (snapshot_dict api n) items) (\<lambda>out.
     pureM (PDict
       [(''id'', moid), (''name'', name), (''description'', description), (''create_time'', created),
        (''state'', PStr (py_str st)), (''quiesced'', PBool (truthy quiesced)), (''children'', PList out)])))))))))))"

definition vim_vm_snapshot_tree :: "vmodl \<Rightarrow> pyval \<Rightarrow> pyval io" where
  "vim_vm_snapshot_tree api node = snapshot_dict api RECURSION_LIMIT node"

definition vim_vm_snapshot_list :: "vmodl \<Rightarrow> pyval \<Rightarrow> pyval \<Rightarrow> profile \<Rightarrow> pyval io" where
  "vim_vm_snapshot_list api opts vm_id_or_name profile =
     bindM (vim_vm_snapshot_find_vm api opts vm_id_or_name profile) (\<lambda>vm.
     bindM (vget api vm ''snapshot'') (\<lambda>snapshot.
     if \<not> truthy snapshot then pureM (PList [])
     else
       bindM (vpath api vm [''snapshot'', ''rootSnapshotList'']) (\<lambda>rootSnapshotList.
       bindM (liftR (py_iter rootSnapshotList)) (\<lambda>items.
       bindM (mapM (\<lambda>node. vim_vm_snapshot_tree api node) items) (\<lambda>out.
       pureM (PList out))))))"

fun snapshot_search :: "vmodl \<Rightarrow> nat \<Rightarrow> (pyval \<Rightarrow> pyval option io) \<Rightarrow> pyval \<Rightarrow> pyval option io" where
  "snapshot_search api 0 hit tree = raiseM recursion_error"
| "snapshot_search api (Suc n) hit tree =
     bindM (liftR (py_iter (py_or tree (PList [])))) (\<lambda>nodes.
     first_of (\<lambda>node.
       bindM (hit node) (\<lambda>r.
       case r of
         Some x \<Rightarrow> pureM (Some x)
       | None \<Rightarrow>
           bindM (vget api node ''childSnapshotList'') (\<lambda>children.
           bindM (snapshot_search api n hit children) (\<lambda>found.
           pureM (if found = Some PNone then None else found))))) nodes)"

definition name_of_snapshot :: "vmodl \<Rightarrow> pyval \<Rightarrow> pyval \<Rightarrow> pyval option io" where
  "name_of_snapshot api snap_id node =
     bindM (vpath api node [''snapshot'', ''_moId'']) (\<lambda>moid.
     if py_eq moid snap_id then bindM (vget api node ''name'') (\<lambda>name. pureM (Some name)) else pureM None)"

definition vim_vm_snapshot_find_name_in_tree :: "vmodl \<Rightarrow> pyval \<Rightarrow> pyval \<Rightarrow> pyval io" where
  "vim_vm_snapshot_find_name_in_tree api tree snap_id =
     bindM (snapshot_search api RECURSION_LIMIT (name_of_snapshot api snap_id) tree) (\<lambda>r. pureM (the_default PNone r))"

definition vim_vm_snapshot_current :: "vmodl \<Rightarrow> pyval \<Rightarrow> pyval \<Rightarrow> profile \<Rightarrow> pyval io" where
  "vim_vm_snapshot_current api opts vm_id_or_name profile =
     bindM (vim_vm_snapshot_find_vm api opts vm_id_or_name profile) (\<lambda>vm.
     bindM (vget api vm ''snapshot'') (\<lambda>snapshot.
     bindM
       (if \<not> truthy snapshot then pureM True
        else
          bindM (vpath api vm [''snapshot'', ''currentSnapshot'']) (\<lambda>currentSnapshot.
          pureM (\<not> truthy currentSnapshot))) (\<lambda>holds_v.
     if holds_v then pureM PNone
     else
       bindM (vpath api vm [''snapshot'', ''currentSnapshot'']) (\<lambda>cur.
       bindM (vget api cur ''_moId'') (\<lambda>moId.
       bindM (vpath api vm [''snapshot'', ''rootSnapshotList'']) (\<lambda>rootSnapshotList.
       bindM (vget api cur ''_moId'') (\<lambda>moId2.
       bindM (vim_vm_snapshot_find_name_in_tree api rootSnapshotList moId2) (\<lambda>find_name_in_tree2.
       pureM (PDict [(''id'', moId), (''name'', find_name_in_tree2)])))))))))"

definition vim_vm_snapshot_create ::
  "vmodl \<Rightarrow> pyval \<Rightarrow> pyval \<Rightarrow> pyval \<Rightarrow> pyval \<Rightarrow> pyval \<Rightarrow> pyval \<Rightarrow> pyval \<Rightarrow> profile \<Rightarrow> pyval io" where
  "vim_vm_snapshot_create api opts vm_id_or_name name description memory quiesce vss_options profile =
     bindM (vim_vm_snapshot_find_vm api opts vm_id_or_name profile) (\<lambda>vm.
     bindM
       (if truthy vss_options then
          bindM (vnew api ''vim.vm.WindowsQuiesceSpec'' []) (\<lambda>spec.
          bindM (liftR (py_in (PStr ''timeout'') vss_options)) (\<lambda>found.
          bindM
            (if found then
               bindM (liftR (py_item vss_options ''timeout'')) (\<lambda>timeout.
               bindM (liftR (py_int timeout)) (\<lambda>n.
               vset api spec ''timeout'' (PInt n)))
             else pureM spec) (\<lambda>spec.
          bindM (liftR (py_in (PStr ''vss_backup_type'') vss_options)) (\<lambda>found2.
          bindM
            (if found2 then
               bindM (liftR (py_item vss_options ''vss_backup_type'')) (\<lambda>vss_backup_type.
               bindM (liftR (py_int vss_backup_type)) (\<lambda>n2.
               vset api spec ''vssBackupType'' (PInt n2)))
             else pureM spec) (\<lambda>spec.
          bindM (liftR (py_in (PStr ''vss_backup_context'') vss_options)) (\<lambda>found3.
          bindM
            (if found3 then
               bindM (liftR (py_item vss_options ''vss_backup_context'')) (\<lambda>vss_backup_context.
               vset api spec ''vssBackupContext'' vss_backup_context)
             else pureM spec) (\<lambda>spec.
          bindM (liftR (py_in (PStr ''vss_partial_file_support'') vss_options)) (\<lambda>found4.
          bindM
            (if found4 then
               bindM (liftR (py_item vss_options ''vss_partial_file_support''))
        (\<lambda>vss_partial_file_support.
               vset api spec ''vssPartialFileSupport'' (PBool (truthy vss_partial_file_support)))
             else pureM spec) (\<lambda>spec.
          bindM (liftR (py_in (PStr ''vss_bootable_system_state'') vss_options)) (\<lambda>found5.
          bindM
            (if found5 then
               bindM (liftR (py_item vss_options ''vss_bootable_system_state''))
        (\<lambda>vss_bootable_system_state.
               vset api spec ''vssBootableSystemState'' (PBool (truthy vss_bootable_system_state)))
             else pureM spec) (\<lambda>spec.
          vcall api vm ''CreateSnapshotEx_Task'' [] [(''name'', name), (''description'', description), (''memory'',
        PBool (truthy memory)), (''quiesceSpec'', spec)])))))))))))
        else
          vcall api vm ''CreateSnapshot_Task'' [] [(''name'', name), (''description'', description), (''memory'',
        PBool (truthy memory)), (''quiesce'', PBool (truthy quiesce))]) (\<lambda>task.
     vget api task ''_moId''))"

definition node_named :: "vmodl \<Rightarrow> pyval \<Rightarrow> pyval \<Rightarrow> pyval option io" where
  "node_named api name node =
     bindM (vget api node ''name'') (\<lambda>x. pureM (if py_eq x name then Some node else None))"

definition vim_vm_snapshot_find_snap_by_name :: "vmodl \<Rightarrow> pyval \<Rightarrow> pyval \<Rightarrow> pyval io" where
  "vim_vm_snapshot_find_snap_by_name api tree name =
     bindM (snapshot_search api RECURSION_LIMIT (node_named api name) tree) (\<lambda>r. pureM (the_default PNone r))"

definition vim_vm_snapshot_revert :: "vmodl \<Rightarrow> pyval \<Rightarrow> pyval \<Rightarrow> pyval \<Rightarrow> pyval \<Rightarrow> profile \<Rightarrow> pyval io" where
  "vim_vm_snapshot_revert api opts vm_id_or_name snapshot_name suppress_power_on profile =
     bindM (vim_vm_snapshot_find_vm api opts vm_id_or_name profile) (\<lambda>vm.
     bindM (vget api vm ''snapshot'') (\<lambda>snapshot.
     bindM
       (if truthy snapshot then
          bindM (vpath api vm [''snapshot'', ''rootSnapshotList'']) (\<lambda>rootSnapshotList.
          vim_vm_snapshot_find_snap_by_name api rootSnapshotList snapshot_name)
        else pureM PNone) (\<lambda>snap.
     if snap = PNone then
       bindM (vget api vm ''name'') (\<lambda>name.
       raiseM (LookupError (''snapshot '' @ py_repr snapshot_name @ '' not found on '' @ py_str name)))
     else
       bindM (vget api snap ''snapshot'') (\<lambda>snapshot2.
       bindM
         (vcall api snapshot2 ''RevertToSnapshot_Task'' [] [(''suppressPowerOn'', PBool (truthy
        suppress_power_on))]) (\<lambda>task.
       vget api task ''_moId'')))))"

definition vim_vm_snapshot_remove :: "vmodl \<Rightarrow> pyval \<Rightarrow> pyval \<Rightarrow> pyval \<Rightarrow> pyval \<Rightarrow> profile \<Rightarrow> pyval io" where
  "vim_vm_snapshot_remove api opts vm_id_or_name snapshot_name remove_children profile =
     bindM (vim_vm_snapshot_find_vm api opts vm_id_or_name profile) (\<lambda>vm.
     bindM (vget api vm ''snapshot'') (\<lambda>snapshot.
     bindM
       (if truthy snapshot then
          bindM (vpath api vm [''snapshot'', ''rootSnapshotList'']) (\<lambda>rootSnapshotList.
          vim_vm_snapshot_find_snap_by_name api rootSnapshotList snapshot_name)
        else pureM PNone) (\<lambda>snap.
     if snap = PNone then
       bindM (vget api vm ''name'') (\<lambda>name.
       raiseM (LookupError (''snapshot '' @ py_repr snapshot_name @ '' not found on '' @ py_str name)))
     else
       bindM (vget api snap ''snapshot'') (\<lambda>snapshot2.
       bindM
         (vcall api snapshot2 ''RemoveSnapshot_Task'' [] [(''removeChildren'', PBool (truthy remove_children))])
        (\<lambda>task.
       vget api task ''_moId'')))))"

definition vim_vm_snapshot_remove_all :: "vmodl \<Rightarrow> pyval \<Rightarrow> pyval \<Rightarrow> profile \<Rightarrow> pyval io" where
  "vim_vm_snapshot_remove_all api opts vm_id_or_name profile =
     bindM (vim_vm_snapshot_find_vm api opts vm_id_or_name profile) (\<lambda>vm.
     bindM (vcall api vm ''RemoveAllSnapshots_Task'' [] []) (\<lambda>task.
     vget api task ''_moId''))"

definition vim_vm_snapshot_consolidate :: "vmodl \<Rightarrow> pyval \<Rightarrow> pyval \<Rightarrow> profile \<Rightarrow> pyval io" where
  "vim_vm_snapshot_consolidate api opts vm_id_or_name profile =
     bindM (vim_vm_snapshot_find_vm api opts vm_id_or_name profile) (\<lambda>vm.
     bindM (vcall api vm ''ConsolidateVMDisks_Task'' [] []) (\<lambda>task.
     vget api task ''_moId''))"

definition vim_vm_snapshot_state :: "vmodl \<Rightarrow> pyval \<Rightarrow> pyval \<Rightarrow> pyval \<Rightarrow> profile \<Rightarrow> pyval io" where
  "vim_vm_snapshot_state api opts vm_id_or_name snapshot_name profile =
     bindM (vim_vm_snapshot_find_vm api opts vm_id_or_name profile) (\<lambda>vm.
     bindM (vget api vm ''snapshot'') (\<lambda>snapshot.
     if \<not> truthy snapshot then pureM (PDict [(''present'', PBool False)])
     else
       bindM (vpath api vm [''snapshot'', ''rootSnapshotList'']) (\<lambda>rootSnapshotList.
       bindM (vim_vm_snapshot_find_snap_by_name api rootSnapshotList snapshot_name) (\<lambda>node.
       if node = PNone then pureM (PDict [(''present'', PBool False)])
       else
         bindM (vpath api vm [''snapshot'', ''currentSnapshot'']) (\<lambda>currentSnapshot.
         bindM
           (if truthy currentSnapshot then vpath api vm [''snapshot'', ''currentSnapshot'', ''_moId'']
            else pureM PNone) (\<lambda>current_id.
         bindM (vpath api node [''snapshot'', ''_moId'']) (\<lambda>snap_id.
         bindM (vget_or api node ''backupManifest'' PNone) (\<lambda>backupManifest.
         let x2 = PBool (truthy backupManifest) in
         bindM
           (if truthy x2 then pureM x2
            else bindM (vget_or api node ''vmsd'' PNone) (\<lambda>vmsd.
                 pureM (PBool (truthy vmsd)))) (\<lambda>x3.
         bindM (vget_or api node ''quiesced'' (PBool False)) (\<lambda>quiesced.
         bindM (vget_or api node ''state'' PNone) (\<lambda>st.
         bindM
           (if truthy st then
              bindM (vget api node ''state'') (\<lambda>st2.
              pureM (PStr (py_str st2)))
            else pureM PNone) (\<lambda>x4.
         bindM (vget api node ''childSnapshotList'') (\<lambda>childSnapshotList.
         bindM (liftR (py_iter (py_or childSnapshotList (PList [])))) (\<lambda>items.
         bindM (mapM (\<lambda>child. vget api child ''name'') items) (\<lambda>out.
         pureM (PDict [(''present'', PBool True), (''id'', snap_id), (''is_current'', PBool (py_eq snap_id
        current_id)), (''has_memory'', x3), (''has_quiesce'', PBool (truthy quiesced)), (''state'', x4),
        (''children'', PList out)]))))))))))))))))"

subsection \<open>\<open>clients/vim_vm_tools.py\<close>\<close>

definition vim_vm_tools_get_tools_status :: "vmodl \<Rightarrow> pyval \<Rightarrow> pyval \<Rightarrow> profile \<Rightarrow> pyval io" where
  "vim_vm_tools_get_tools_status api opts vm_id_or_name profile =
     bindM (vim_vm_vm api opts vm_id_or_name profile) (\<lambda>vm.
     bindM (vget api vm ''guest'') (\<lambda>guest.
     bindM (vget api guest ''toolsStatus'') (\<lambda>toolsStatus.
     bindM
       (if truthy toolsStatus then
          bindM (vget api guest ''toolsStatus'') (\<lambda>toolsStatus2.
          pureM (PStr (py_str toolsStatus2)))
        else pureM PNone) (\<lambda>x.
     bindM (vget_or api guest ''toolsVersionStatus2'' PNone) (\<lambda>toolsVersionStatus2.
     bindM (vget_or api guest ''toolsRunningStatus'' PNone) (\<lambda>toolsRunningStatus.
     bindM (vget_or api guest ''toolsInstallType'' PNone) (\<lambda>toolsInstallType.
     bindM (vget_or api guest ''toolsVersion'' PNone) (\<lambda>toolsVersion.
     pureM (PDict [(''toolsStatus'', x), (''toolsVersionStatus'', toolsVersionStatus2), (''toolsRunningStatus'',
       toolsRunningStatus), (''toolsInstallType'', toolsInstallType), (''toolsVersion'',
        toolsVersion)])))))))))"

definition vim_vm_tools_upgrade_tools :: "vmodl \<Rightarrow> pyval \<Rightarrow> pyval \<Rightarrow> pyval \<Rightarrow> profile \<Rightarrow> pyval io" where
  "vim_vm_tools_upgrade_tools api opts vm_id_or_name installer_options profile =
     bindM (vim_vm_vm api opts vm_id_or_name profile) (\<lambda>vm.
     bindM (vcall api vm ''UpgradeTools_Task'' [] [(''installerOptions'', installer_options)]) (\<lambda>task.
     vget api task ''_moId''))"

definition vim_vm_tools_mount_tools_installer :: "vmodl \<Rightarrow> pyval \<Rightarrow> pyval \<Rightarrow> profile \<Rightarrow> pyval io" where
  "vim_vm_tools_mount_tools_installer api opts vm_id_or_name profile =
     bindM (vim_vm_vm api opts vm_id_or_name profile) (\<lambda>vm.
     bindM (vcall api vm ''MountToolsInstaller'' [] []) (\<lambda>_.
     pureM (PBool True)))"

definition vim_vm_tools_unmount_tools_installer :: "vmodl \<Rightarrow> pyval \<Rightarrow> pyval \<Rightarrow> profile \<Rightarrow> pyval io" where
  "vim_vm_tools_unmount_tools_installer api opts vm_id_or_name profile =
     bindM (vim_vm_vm api opts vm_id_or_name profile) (\<lambda>vm.
     bindM (vcall api vm ''UnmountToolsInstaller'' [] []) (\<lambda>_.
     pureM (PBool True)))"

subsection \<open>\<open>clients/vim_ovf.py\<close>\<close>

definition vim_ovf_find_vm :: "vmodl \<Rightarrow> pyval \<Rightarrow> pyval \<Rightarrow> profile \<Rightarrow> pyval io" where
  "vim_ovf_find_vm api opts vm_id_or_name profile =
     bindM (vim_content api opts profile) (\<lambda>content.
     bindM (vget api content ''viewManager'') (\<lambda>viewManager.
     bindM (vget api content ''rootFolder'') (\<lambda>rootFolder.
     bindM
       (vcall api viewManager ''CreateContainerView'' [rootFolder, PList [PStr ''vim.VirtualMachine''], PBool True]
        []) (\<lambda>container.
     or_else
       (finallyM
          (bindM (vget api container ''view'') (\<lambda>view.
           bindM (liftR (py_iter view)) (\<lambda>items.
           first_of (\<lambda>vm.
             bindM (vget api vm ''_moId'') (\<lambda>moId.
             bindM (vget api vm ''name'') (\<lambda>name.
             if list_ex (py_eq vm_id_or_name) [moId, name] then pureM (Some vm) else pureM None)))
        items)))
          (bindM (vcall api container ''Destroy'' [] []) (\<lambda>_.
           pureM ())))
       (raiseM (LookupError (''VM '' @ py_repr vm_id_or_name @ '' not found'')))))))"

definition vim_ovf_descriptor :: "vmodl \<Rightarrow> pyval \<Rightarrow> pyval \<Rightarrow> pyval \<Rightarrow> pyval \<Rightarrow> profile \<Rightarrow> pyval io" where
  "vim_ovf_descriptor api opts vm_id_or_name ovf_name description profile =
     bindM (vim_ovf_find_vm api opts vm_id_or_name profile) (\<lambda>vm.
     bindM (vim_content api opts profile) (\<lambda>content.
     bindM (vget api content ''ovfManager'') (\<lambda>ovf_mgr.
     bindM (vnew api ''vim.OvfManager.CreateDescriptorParams'' []) (\<lambda>spec.
     bindM (if truthy ovf_name then pureM ovf_name else vget api vm ''name'') (\<lambda>x.
     bindM (vset api spec ''name'' x) (\<lambda>spec.
     bindM (vset api spec ''description'' description) (\<lambda>spec.
     bindM (vcall api ovf_mgr ''CreateDescriptor'' [] [(''obj'', vm), (''cdp'', spec)]) (\<lambda>result.
     bindM (vget api result ''ovfDescriptor'') (\<lambda>ovfDescriptor.
     bindM (vget api result ''warning'') (\<lambda>warning.
     bindM (liftR (py_iter (py_or warning (PList [])))) (\<lambda>items2.
     pureM (PDict [(''ovf'', ovfDescriptor), (''warnings'', PList items2)]))))))))))))"

subsection \<open>\<open>clients/vcenter_vm.py\<close>\<close>

definition vcenter_vm_customization_spec :: "vmodl \<Rightarrow> pyval \<Rightarrow> pyval io" where
  "vcenter_vm_customization_spec api spec =
     bindM (liftR (py_get spec ''customization'' PNone)) (\<lambda>customization.
     if \<not> truthy customization then pureM PNone
     else
       bindM (liftR (py_get customization ''type'' (PStr ''linux''))) (\<lambda>ctype.
       if \<not> py_eq ctype (PStr ''linux'') then
         raiseM (ValueError (''unsupported VM customization type '' @ py_repr ctype))
       else
         bindM (liftR (py_get customization ''hostname'' PNone)) (\<lambda>hostname.
         bindM (if truthy hostname then pureM hostname else liftR (py_get spec ''vm_name'' PNone)) (\<lambda>x.
         bindM (if truthy x then pureM x else liftR (py_get spec ''name'' PNone)) (\<lambda>x2.
         bindM (liftR (py_item customization ''domain'')) (\<lambda>domain.
         bindM (liftR (py_get customization ''time_zone'' (PStr ''UTC''))) (\<lambda>time_zone.
         bindM (liftR (py_get customization ''nics'' PNone)) (\<lambda>nics.
         bindM (liftR (py_get customization ''dns_servers'' PNone)) (\<lambda>dns_servers.
         bindM (liftR (py_get customization ''dns_search_path'' PNone)) (\<lambda>dns_search_path.
         vim_vm_customization_linux_spec api x2 domain time_zone (PBool True) nics dns_servers
        dns_search_path))))))))))"

definition vcenter_vm_deploy :: "vmodl \<Rightarrow> pyval \<Rightarrow> pyval \<Rightarrow> pyval \<Rightarrow> profile \<Rightarrow> pyval io" where
  "vcenter_vm_deploy api opts name spec profile =
     bindM (liftR (py_get spec ''source'' PNone)) (\<lambda>source2.
     bindM (if truthy source2 then pureM source2 else liftR (py_get spec ''template'' PNone)) (\<lambda>source.
     if truthy source then
       bindM (vcenter_vm_customization_spec api spec) (\<lambda>customization.
       bindM (liftR (py_get spec ''folder'' PNone)) (\<lambda>folder.
       bindM (liftR (py_get spec ''datastore'' PNone)) (\<lambda>datastore.
       bindM (liftR (py_get spec ''host'' PNone)) (\<lambda>host.
       bindM (liftR (py_get spec ''resource_pool'' PNone)) (\<lambda>resource_pool.
       bindM (liftR (py_get spec ''cluster'' PNone)) (\<lambda>cluster.
       bindM (liftR (py_get spec ''power_on'' (PBool True))) (\<lambda>power_on.
       bindM (liftR (py_get spec ''cpu_count'' PNone)) (\<lambda>cpu_count.
       bindM (liftR (py_get spec ''memory_mb'' PNone)) (\<lambda>memory_mb.
       bindM (liftR (py_get spec ''annotation'' PNone)) (\<lambda>annotation.
       bindM
         (vim_vm_clone api opts source name folder datastore host resource_pool cluster (PBool False) power_on
        customization cpu_count memory_mb annotation profile) (\<lambda>clone.
       pureM (PDict [(''task'', clone)]))))))))))))
     else
       bindM (liftR (py_item spec ''folder'')) (\<lambda>folder2.
       bindM (liftR (py_item spec ''datastore'')) (\<lambda>datastore2.
       bindM (liftR (py_get spec ''cpu_count'' (PInt 1))) (\<lambda>cpu_count2.
       bindM (liftR (py_get spec ''memory_mb'' (PInt 1024))) (\<lambda>memory_mb2.
       bindM (liftR (py_get spec ''guest_id'' (PStr ''otherGuest64''))) (\<lambda>guest_id.
       bindM (liftR (py_get spec ''cluster'' PNone)) (\<lambda>cluster2.
       bindM (liftR (py_get spec ''host'' PNone)) (\<lambda>host2.
       bindM (liftR (py_get spec ''resource_pool'' PNone)) (\<lambda>resource_pool2.
       bindM (liftR (py_get spec ''annotation'' (PStr ''''))) (\<lambda>annotation2.
       bindM
         (vim_vm_create api opts name folder2 datastore2 cpu_count2 memory_mb2 guest_id cluster2 host2
        resource_pool2 annotation2 profile) (\<lambda>create.
       pureM (PDict [(''task'', create)])))))))))))))"

subsection \<open>Functions that only read\<close>

lemma vim_vm_vm_reads [vim_intros]: "observed held api \<Longrightarrow> keeps (leaves held) (vim_vm_vm api opts vm_id_or_name profile)"
  unfolding vim_vm_vm_def in_view_folds split_def by (intro vim_intros; (assumption | simp add: READING_def))

lemma vim_vm_get_advanced_settings_reads [vim_intros]: "observed held api \<Longrightarrow> keeps (leaves held) (vim_vm_get_advanced_settings api opts vm_id_or_name profile)"
  unfolding vim_vm_get_advanced_settings_def in_view_folds split_def by (intro vim_intros; (assumption | simp add: READING_def))

lemma vim_vm_get_resource_config_reads [vim_intros]: "observed held api \<Longrightarrow> keeps (leaves held) (vim_vm_get_resource_config api opts vm_id_or_name profile)"
  unfolding vim_vm_get_resource_config_def in_view_folds split_def by (intro vim_intros; (assumption | simp add: READING_def))

lemma vim_vm_devices_devices_reads [vim_intros]: "observed held api \<Longrightarrow> keeps (leaves held) (vim_vm_devices_devices api vm dev_type)"
  unfolding vim_vm_devices_devices_def in_view_folds split_def by (intro vim_intros; (assumption | simp add: READING_def))

lemma vim_vm_devices_device_summary_reads [vim_intros]: "observed held api \<Longrightarrow> keeps (leaves held) (vim_vm_devices_device_summary api d)"
  unfolding vim_vm_devices_device_summary_def in_view_folds split_def by (intro vim_intros; (assumption | simp add: READING_def))

lemma vim_vm_devices_tpm_list_reads [vim_intros]: "observed held api \<Longrightarrow> keeps (leaves held) (vim_vm_devices_tpm_list api opts vm_id_or_name profile)"
  unfolding vim_vm_devices_tpm_list_def in_view_folds split_def by (intro vim_intros; (assumption | simp add: READING_def))

lemma vim_vm_devices_vgpu_list_reads [vim_intros]: "observed held api \<Longrightarrow> keeps (leaves held) (vim_vm_devices_vgpu_list api opts vm_id_or_name profile)"
  unfolding vim_vm_devices_vgpu_list_def in_view_folds split_def by (intro vim_intros; (assumption | simp add: READING_def))

lemma vim_vm_devices_serial_list_reads [vim_intros]: "observed held api \<Longrightarrow> keeps (leaves held) (vim_vm_devices_serial_list api opts vm_id_or_name profile)"
  unfolding vim_vm_devices_serial_list_def in_view_folds split_def by (intro vim_intros; (assumption | simp add: READING_def))

lemma vim_vm_devices_list_vms_with_usb_controllers_reads [vim_intros]: "observed held api \<Longrightarrow> keeps (leaves held) (vim_vm_devices_list_vms_with_usb_controllers api opts profile)"
  unfolding vim_vm_devices_list_vms_with_usb_controllers_def in_view_folds split_def by (intro vim_intros; (assumption | simp add: READING_def))

lemma vim_vm_power_get_power_state_reads [vim_intros]: "observed held api \<Longrightarrow> keeps (leaves held) (vim_vm_power_get_power_state api opts vm_id_or_name profile)"
  unfolding vim_vm_power_get_power_state_def in_view_folds split_def by (intro vim_intros; (assumption | simp add: READING_def))

subsection \<open>Trees of snapshots\<close>

text \<open>The tree of snapshots of a machine, and the data objects pyVmomi has for it.\<close>

datatype snap =
  Snap (snap_id: string) (snap_name: string) (snap_text: string) (snap_time: "string option") (snap_state: string)
    (snap_quiesced: bool) (snap_children: "snap list")

definition date_object :: "string \<Rightarrow> pyval" where
  "date_object t = py_object ''datetime'' [(''iso'', PStr t)]"

definition snap_ref :: "string \<Rightarrow> pyval" where
  "snap_ref i = managed_object ''vim.vm.Snapshot'' i"

fun node_of :: "snap \<Rightarrow> pyval" where
  "node_of (Snap i n d t s q cs) =
     py_object ''vim.vm.SnapshotTree''
       [(''snapshot'', snap_ref i), (''name'', PStr n), (''description'', PStr d),
        (''createTime'', case t of None \<Rightarrow> PNone | Some t \<Rightarrow> date_object t), (''state'', PStr s), (''quiesced'', PBool q),
        (''childSnapshotList'', PList (map node_of cs))]"

definition snapshot_info :: "snap list \<Rightarrow> string \<Rightarrow> pyval" where
  "snapshot_info ts cur = py_object ''vim.vm.SnapshotInfo''
     [(''currentSnapshot'', snap_ref cur), (''rootSnapshotList'', PList (map node_of ts))]"

text \<open>What \<open>list_\<close> answers for a snapshot, the snapshots of a forest in the order of their listing, and the depth.\<close>

fun dict_of :: "snap \<Rightarrow> pyval" where
  "dict_of (Snap i n d t s q cs) =
     PDict [(''id'', PStr i), (''name'', PStr n), (''description'', PStr d),
       (''create_time'', case t of None \<Rightarrow> PNone | Some t \<Rightarrow> PStr t), (''state'', PStr s), (''quiesced'', PBool q),
       (''children'', PList (map dict_of cs))]"

fun snaps_of :: "snap \<Rightarrow> snap list" where
  "snaps_of (Snap i n d t s q cs) = Snap i n d t s q cs # concat (map snaps_of cs)"

definition forest :: "snap list \<Rightarrow> snap list" where
  "forest ts = concat (map snaps_of ts)"

fun fits :: "nat \<Rightarrow> snap \<Rightarrow> bool" where
  "fits 0 s = False"
| "fits (Suc n) s = (\<forall>c \<in> set (snap_children s). fits n c)"

lemma fits_mono: "fits n s \<Longrightarrow> n \<le> m \<Longrightarrow> fits m s"
proof (induction n arbitrary: s m)
  case (Suc n) then show ?case by (cases m) auto
qed simp

lemma forest_simps [simp]:
  "forest [] = []" "forest (s # ts) = s # forest (snap_children s) @ forest ts"
  by (cases s; simp add: forest_def)+

lemma vget_object: "map_of d a = Some x \<Longrightarrow> a \<noteq> ''__class__'' \<Longrightarrow> vget api (py_object c d) a = pureM x"
  by (simp add: vget_def py_object_def)

lemma vget_node [simp]:
  "vget api (node_of s) ''snapshot'' = pureM (snap_ref (snap_id s))"
  "vget api (node_of s) ''name'' = pureM (PStr (snap_name s))"
  "vget api (node_of s) ''description'' = pureM (PStr (snap_text s))"
  "vget api (node_of s) ''createTime'' = pureM (case snap_time s of None \<Rightarrow> PNone | Some t \<Rightarrow> date_object t)"
  "vget api (node_of s) ''state'' = pureM (PStr (snap_state s))"
  "vget api (node_of s) ''quiesced'' = pureM (PBool (snap_quiesced s))"
  "vget api (node_of s) ''childSnapshotList'' = pureM (PList (map node_of (snap_children s)))"
  by (cases s; simp add: vget_object)+

lemma vget_info [simp]:
  "vget api (snapshot_info ts cur) ''currentSnapshot'' = pureM (snap_ref cur)"
  "vget api (snapshot_info ts cur) ''rootSnapshotList'' = pureM (PList (map node_of ts))"
  "vget api (snap_ref i) ''_moId'' = pureM (PStr i)"
  "truthy (snapshot_info ts cur)" "truthy (snap_ref i)" "snap_ref i \<noteq> PNone" "node_of s \<noteq> PNone"
  by (simp_all add: snapshot_info_def snap_ref_def managed_object_def vget_object) (simp_all add: py_object_def, cases s, simp add: py_object_def)

lemma liftR_pure [simp]: "liftR (Ok x) = pureM x"
  by (simp add: fun_eq_iff)

lemma forest_list [simp]: "py_or (PList xs) (PList []) = PList xs"
  by (cases xs) (auto simp: py_or_def)

lemma mapM_map: "mapM f (map g xs) = mapM (\<lambda>x. f (g x)) xs"
  by (induction xs) simp_all

lemma mapM_pure_on: "(\<And>x. x \<in> set xs \<Longrightarrow> f x = pureM (g x)) \<Longrightarrow> mapM f xs = pureM (map g xs)"
proof (induction xs)
  case (Cons x xs)
  then have "f x = pureM (g x)" "mapM f xs = pureM (map g xs)" by (auto simp only: list.set_intros)
  then show ?case by (simp add: fun_eq_iff)
qed simp

lemma snapshot_dict_node:
  assumes iso: "\<And>t. vcall api (date_object t) ''isoformat'' [] [] = pureM (PStr t)"
  shows "fits n s \<Longrightarrow> snapshot_dict api n (node_of s) = pureM (dict_of s)"
proof (induction n arbitrary: s)
  case (Suc n)
  have kids: "mapM (snapshot_dict api n) (map node_of (snap_children s)) = pureM (map dict_of (snap_children s))"
    unfolding mapM_map by (rule mapM_pure_on) (use Suc in auto)
  have date: "truthy (date_object t)" for t by (simp add: date_object_def py_object_def)
  have safe: "tryM (pureM x) h = pureM x" for x :: pyval and h by (simp add: tryM_def pureM_def fun_eq_iff)
  have dict: "dict_of s = PDict [(''id'', PStr (snap_id s)), (''name'', PStr (snap_name s)), (''description'', PStr (snap_text s)),
      (''create_time'', case snap_time s of None \<Rightarrow> PNone | Some t \<Rightarrow> PStr t), (''state'', PStr (snap_state s)),
      (''quiesced'', PBool (snap_quiesced s)), (''children'', PList (map dict_of (snap_children s)))]"
    by (cases s) simp
  show ?case
    unfolding dict using kids iso by (cases "snap_time s") (simp_all add: vget_or_def safe date)
qed simp

text \<open>The first snapshot, in the order of the listing, where \<open>f\<close> has a value.\<close>

fun first_hit :: "(snap \<Rightarrow> 'b option) \<Rightarrow> snap list \<Rightarrow> 'b option" where
  "first_hit f [] = None"
| "first_hit f (s # ss) = (case f s of None \<Rightarrow> first_hit f ss | Some y \<Rightarrow> Some y)"

lemma first_hit_append [simp]:
  "first_hit f (xs @ ys) = (case first_hit f xs of None \<Rightarrow> first_hit f ys | Some y \<Rightarrow> Some y)"
  by (induction xs) (auto split: option.split)

lemma first_hit_find: "first_hit (\<lambda>s. if P s then Some (g s) else None) ss = map_option g (find P ss)"
  by (induction ss) auto

lemma snapshot_search_forest:
  assumes hit: "\<And>s. hit (node_of s) = pureM (f s)" and some: "\<And>s. f s \<noteq> Some PNone"
  shows "\<forall>s \<in> set ts. fits n s \<Longrightarrow> snapshot_search api (Suc n) hit (PList (map node_of ts)) = pureM (first_hit f (forest ts))"
proof (induction n arbitrary: ts)
  case (Suc n)
  have known: "first_hit f ss \<noteq> Some PNone" for ss by (induction ss) (auto simp: some split: option.split)
  have "first_of (\<lambda>node. bindM (hit node) (\<lambda>r. case r of Some x \<Rightarrow> pureM (Some x) | None \<Rightarrow>
      bindM (vget api node ''childSnapshotList'') (\<lambda>children. bindM (snapshot_search api (Suc n) hit children) (\<lambda>found.
      pureM (if found = Some PNone then None else found))))) (map node_of ts) = pureM (first_hit f (forest ts))"
    using Suc.prems
  proof (induction ts)
    case (Cons t ts)
    then have "snapshot_search api (Suc n) hit (PList (map node_of (snap_children t))) =
        pureM (first_hit f (forest (snap_children t)))"
      by (intro Suc.IH) simp
    with Cons show ?case
      by (auto simp del: snapshot_search.simps simp: hit known split: option.split)
  qed simp
  then show ?case by (simp del: snapshot_search.simps add: snapshot_search.simps(2) [of api "Suc n"])
qed auto

text \<open>The two searches look through the forest in that order.\<close>

definition shallow :: "snap list \<Rightarrow> bool" where
  "shallow ts \<longleftrightarrow> (\<forall>s \<in> set ts. fits (RECURSION_LIMIT - 1) s)"

lemma bindM_step: "bindM (\<lambda>w. Some (Ok x, g w)) k w = k x (g w)"
  by (simp add: bindM_def)

lemma snapshot_searches:
  assumes "shallow ts"
  shows "vim_vm_snapshot_find_snap_by_name api (PList (map node_of ts)) (PStr n) =
      pureM (case find (\<lambda>s. snap_name s = n) (forest ts) of None \<Rightarrow> PNone | Some s \<Rightarrow> node_of s)"
    and "vim_vm_snapshot_find_name_in_tree api (PList (map node_of ts)) (PStr i) =
      pureM (case find (\<lambda>s. snap_id s = i) (forest ts) of None \<Rightarrow> PNone | Some s \<Rightarrow> PStr (snap_name s))"
proof -
  have limit: "RECURSION_LIMIT = Suc (RECURSION_LIMIT - 1)" by (simp add: RECURSION_LIMIT_def)
  have "node_named api (PStr n) (node_of s) = pureM (if snap_name s = n then Some (node_of s) else None)" for s
    by (rule ext) (simp add: node_named_def)
  from snapshot_search_forest [where hit = "node_named api (PStr n)" and f = "\<lambda>s. if snap_name s = n then Some (node_of s) else None"
      and ts = ts and n = "RECURSION_LIMIT - 1", OF this] assms
  show "vim_vm_snapshot_find_snap_by_name api (PList (map node_of ts)) (PStr n) =
      pureM (case find (\<lambda>s. snap_name s = n) (forest ts) of None \<Rightarrow> PNone | Some s \<Rightarrow> node_of s)"
    unfolding vim_vm_snapshot_find_snap_by_name_def limit [symmetric] shallow_def
    by (auto simp: first_hit_find the_default_def split: option.split)
  have "name_of_snapshot api (PStr i) (node_of s) = pureM (if snap_id s = i then Some (PStr (snap_name s)) else None)" for s
    by (rule ext) (simp add: name_of_snapshot_def)
  from snapshot_search_forest [where hit = "name_of_snapshot api (PStr i)"
      and f = "\<lambda>s. if snap_id s = i then Some (PStr (snap_name s)) else None" and ts = ts and n = "RECURSION_LIMIT - 1", OF this] assms
  show "vim_vm_snapshot_find_name_in_tree api (PList (map node_of ts)) (PStr i) =
      pureM (case find (\<lambda>s. snap_id s = i) (forest ts) of None \<Rightarrow> PNone | Some s \<Rightarrow> PStr (snap_name s))"
    unfolding vim_vm_snapshot_find_name_in_tree_def limit [symmetric] shallow_def
    by (auto simp: first_hit_find the_default_def split: option.split)
qed

lemma snapshot_list_forest:
  assumes "\<And>t. vcall api (date_object t) ''isoformat'' [] [] = pureM (PStr t)" "shallow ts"
  shows "mapM (vim_vm_snapshot_tree api) (map node_of ts) = pureM (map dict_of ts)"
  unfolding mapM_map vim_vm_snapshot_tree_def
proof (rule mapM_pure_on)
  fix s assume "s \<in> set ts"
  then have "fits RECURSION_LIMIT s" using assms(2) by (auto simp: shallow_def intro: fits_mono)
  then show "snapshot_dict api RECURSION_LIMIT (node_of s) = pureM (dict_of s)"
    by (rule snapshot_dict_node [OF assms(1)])
qed

text \<open>C6: Snapshots are handled by their tree. \<open>list_\<close> answers with the whole tree. \<open>revert\<close> and \<open>remove\<close> send one task
  to the first snapshot of that name in the order of the listing (a snapshot before its children, these before its
  siblings), at any depth within the interpreter's limit, and raise \<open>LookupError\<close> without any task when there is
  none. \<open>current\<close> names the current snapshot by its identifier. \<open>f\<close> is what one reading of \<open>vm.snapshot\<close> does to the world.\<close>

theorem vim_snapshots_by_tree:
  assumes vm: "vim_vm_snapshot_find_vm api opts v p w = Some (Ok vm, w1)"
    and info: "vget api vm ''snapshot'' = (\<lambda>w. Some (Ok (snapshot_info ts cur), f w))"
    and iso: "\<And>t. vcall api (date_object t) ''isoformat'' [] [] = pureM (PStr t)"
    and depth: "shallow ts"
  shows "vim_vm_snapshot_list api opts v p w = Some (Ok (PList (map dict_of ts)), f (f w1)) \<and>
    vim_vm_snapshot_current api opts v p w = Some (Ok (PDict [(''id'', PStr cur), (''name'',
      case find (\<lambda>s. snap_id s = cur) (forest ts) of None \<Rightarrow> PNone | Some s \<Rightarrow> PStr (snap_name s))]), f (f (f (f w1)))) \<and>
    (case find (\<lambda>s. snap_name s = n) (forest ts) of
       None \<Rightarrow>
         (let lost = bindM (vget api vm ''name'') (\<lambda>name.
              raiseM (LookupError (''snapshot '' @ repr_str n @ '' not found on '' @ py_str name))) (f (f w1)) in
          vim_vm_snapshot_revert api opts v (PStr n) quiet p w = lost \<and> vim_vm_snapshot_remove api opts v (PStr n) kids p w = lost)
     | Some s \<Rightarrow>
         vim_vm_snapshot_revert api opts v (PStr n) quiet p w =
           bindM (vcall api (snap_ref (snap_id s)) ''RevertToSnapshot_Task'' [] [(''suppressPowerOn'', PBool (truthy quiet))])
             (\<lambda>task. vget api task ''_moId'') (f (f w1)) \<and>
         vim_vm_snapshot_remove api opts v (PStr n) kids p w =
           bindM (vcall api (snap_ref (snap_id s)) ''RemoveSnapshot_Task'' [] [(''removeChildren'', PBool (truthy kids))])
             (\<lambda>task. vget api task ''_moId'') (f (f w1)))"
proof -
  have start: "bindM (vim_vm_snapshot_find_vm api opts v p) k w = k vm w1" for k by (simp add: bindM_def vm)
  show ?thesis
    using snapshot_searches [OF depth] snapshot_list_forest [OF iso depth]
    by (auto simp: vim_vm_snapshot_list_def vim_vm_snapshot_current_def vim_vm_snapshot_revert_def vim_vm_snapshot_remove_def
        start info bindM_step bindM_assoc Let_def split: option.split)
qed

text \<open>A vCenter with one machine, whose task on an object is named after it.\<close>

definition snapshot_server :: "snap list \<Rightarrow> string \<Rightarrow> vmodl" where
  "snapshot_server ts cur =
     \<lparr>vm_connect = (\<lambda>_. pureM (managed_object ''vim.ServiceInstance'' ''ServiceInstance'')), vm_disconnect = (\<lambda>_. pureM ()),
      vm_read = (\<lambda>_ a. pureM (if a = ''view'' then PList [managed_object ''vim.VirtualMachine'' ''vm-1''] else
        if a = ''name'' then PStr ''web'' else if a = ''snapshot'' then snapshot_info ts cur else managed_object ''vim.Folder'' a)),
      vm_call = (\<lambda>v m _ _. case v of
          PDict [c, (_, PStr i)] \<Rightarrow> pureM (if m = ''isoformat'' then PStr i else managed_object ''vim.Task'' (i @ '': '' @ m))
        | _ \<Rightarrow> pureM PNone),
      vm_new = (\<lambda>c d. Ok (py_object c d)), vm_set = (\<lambda>v _ _. Ok v), vm_ref = (\<lambda>c i _. Ok (py_object c [(''_moId'', i)])),
      vm_sub = (=), vm_bypass = (\<lambda>_. True), vm_https_proxy = PNone, vm_split_url = (\<lambda>_. (PNone, PNone)),
      vm_class = (\<lambda>_. True), vm_digest = (\<lambda>_ _ _. pureM []), vm_version = (\<lambda>_. PNone), vm_context = (\<lambda>_ _. pureM ())\<rparr>"

definition sample_snapshots :: "snap list" where
  "sample_snapshots =
     [Snap ''s1'' ''base'' [] None ''poweredOff'' False [Snap ''s2'' ''patch'' [] (Some ''2026-01-01'') ''poweredOn'' True []],
      Snap ''s3'' ''patch'' [] None ''poweredOff'' False []]"

lemma vim_snapshots_by_tree_witness:
  "\<exists>w'. vim_vm_snapshot_revert (snapshot_server sample_snapshots ''s2'') (opts_run_for ''vcenter'') (PStr ''web'') (PStr ''patch'')
      (PBool True) None (scripted []) = Some (Ok (PStr ''s2: RevertToSnapshot_Task''), w')"
proof -
  let ?api = "snapshot_server sample_snapshots ''s2''" and ?vm = "managed_object ''vim.VirtualMachine'' ''vm-1''"
  have run: "map_option fst (vim_vm_snapshot_find_vm ?api (opts_run_for ''vcenter'') (PStr ''web'') None (scripted [])) = Some (Ok ?vm)"
    by code_simp
  have info: "vget ?api ?vm ''snapshot'' = (\<lambda>w. Some (Ok (snapshot_info sample_snapshots ''s2''), w))"
    by (simp add: fun_eq_iff vget_def managed_object_def py_object_def snapshot_server_def)
  have iso: "vcall ?api (date_object t) ''isoformat'' [] [] = pureM (PStr t)" for t
    by (simp add: vcall_def date_object_def py_object_def snapshot_server_def)
  have "fits 2 s" if "s \<in> set sample_snapshots" for s
    using that by (auto simp: sample_snapshots_def numeral_2_eq_2)
  then have "shallow sample_snapshots"
    unfolding shallow_def RECURSION_LIMIT_def by (auto intro: fits_mono [where n = 2])
  moreover have "find (\<lambda>s. snap_name s = ''patch'') (forest sample_snapshots) =
      Some (Snap ''s2'' ''patch'' [] (Some ''2026-01-01'') ''poweredOn'' True [])"
    by (simp add: sample_snapshots_def)
  moreover have "bindM (vcall ?api (snap_ref ''s2'') m [] k) (\<lambda>task. vget ?api task ''_moId'') w =
      Some (Ok (PStr (''s2: '' @ m)), w)" if "m \<noteq> ''isoformat''" for m k w
    using that by (simp add: vcall_def snap_ref_def managed_object_def py_object_def snapshot_server_def vget_def)
  ultimately show ?thesis
    using vim_snapshots_by_tree [OF run_result [OF run] info iso, of "''patch''" "PBool True" "PBool False"] by simp
qed

end
