(* ===== verification/Exec_Vim.thy ===== *)
theory Exec_Vim
  imports Vim_Host Vim_Inventory Vim_Admin Vim_Vm
begin

section \<open>Exec_Vim: the execution modules over pyVmomi\<close>

text \<open>
  Each function passes its arguments on to a function of the client module.
\<close>

subsection \<open>\<open>modules/vcf_esxi_ad_auth.py\<close>\<close>

definition exec_esxi_ad_auth_get_ad_state :: "vmodl \<Rightarrow> pyval \<Rightarrow> pyval \<Rightarrow> profile \<Rightarrow> pyval io" where
  "exec_esxi_ad_auth_get_ad_state api opts host profile = esxi_ad_auth_get_ad_state api opts host profile"

definition exec_esxi_ad_auth_join_domain :: "vmodl \<Rightarrow> pyval \<Rightarrow> pyval \<Rightarrow> pyval
  \<Rightarrow> pyval \<Rightarrow> pyval \<Rightarrow> profile \<Rightarrow> pyval io" where
  "exec_esxi_ad_auth_join_domain api opts host domain_name username password profile =
     esxi_ad_auth_join_domain api opts host domain_name username password profile"

definition exec_esxi_ad_auth_leave_domain :: "vmodl \<Rightarrow> pyval \<Rightarrow> pyval \<Rightarrow> pyval \<Rightarrow> profile \<Rightarrow> pyval io" where
  "exec_esxi_ad_auth_leave_domain api opts host force profile =
     esxi_ad_auth_leave_domain api opts host force profile"

subsection \<open>\<open>modules/vcf_esxi_advanced.py\<close>\<close>

definition exec_esxi_advanced_list :: "vmodl \<Rightarrow> pyval \<Rightarrow> profile \<Rightarrow> pyval io" where
  "exec_esxi_advanced_list api opts profile = esxi_advanced_list api opts profile"

definition exec_esxi_advanced_get :: "vmodl \<Rightarrow> pyval \<Rightarrow> pyval \<Rightarrow> profile \<Rightarrow> pyval io" where
  "exec_esxi_advanced_get api opts key profile = esxi_advanced_get api opts key profile"

definition exec_esxi_advanced_set_value :: "vmodl \<Rightarrow> pyval \<Rightarrow> pyval \<Rightarrow> pyval \<Rightarrow> profile \<Rightarrow> pyval io" where
  "exec_esxi_advanced_set_value api opts key val profile = esxi_advanced_set_value api opts key val
    profile"

subsection \<open>\<open>modules/vcf_esxi_auth_proxy.py\<close>\<close>

definition exec_esxi_auth_proxy_get_config :: "vmodl \<Rightarrow> pyval \<Rightarrow> pyval \<Rightarrow> profile \<Rightarrow> pyval io" where
  "exec_esxi_auth_proxy_get_config api opts host profile = esxi_auth_proxy_get_config api opts host
    profile"

definition exec_esxi_auth_proxy_set_config :: "vmodl \<Rightarrow> pyval \<Rightarrow> pyval \<Rightarrow> pyval
  \<Rightarrow> pyval \<Rightarrow> profile \<Rightarrow> pyval io" where
  "exec_esxi_auth_proxy_set_config api opts host cam_address verify_cam_cert profile =
     esxi_auth_proxy_set_config api opts host cam_address verify_cam_cert profile"

definition exec_esxi_auth_proxy_join_domain_via_cam ::
  "vmodl \<Rightarrow> pyval \<Rightarrow> pyval \<Rightarrow> pyval \<Rightarrow> pyval \<Rightarrow> profile \<Rightarrow> pyval io" where
  "exec_esxi_auth_proxy_join_domain_via_cam api opts host domain_name cam_server profile =
     esxi_auth_proxy_join_domain_via_cam api opts host domain_name cam_server profile"

definition exec_esxi_auth_proxy_leave_domain :: "vmodl \<Rightarrow> pyval \<Rightarrow> pyval \<Rightarrow> pyval \<Rightarrow> profile \<Rightarrow> pyval io" where
  "exec_esxi_auth_proxy_leave_domain api opts host force profile =
     esxi_auth_proxy_leave_domain api opts host force profile"

subsection \<open>\<open>modules/vcf_esxi_firewall.py\<close>\<close>

definition exec_esxi_firewall_list :: "vmodl \<Rightarrow> pyval \<Rightarrow> profile \<Rightarrow> pyval io" where
  "exec_esxi_firewall_list api opts profile = esxi_firewall_list api opts profile"

definition exec_esxi_firewall_get :: "vmodl \<Rightarrow> pyval \<Rightarrow> pyval \<Rightarrow> profile \<Rightarrow> pyval io" where
  "exec_esxi_firewall_get api opts rule profile = esxi_firewall_get api opts rule profile"

definition exec_esxi_firewall_set_enabled :: "vmodl \<Rightarrow> pyval \<Rightarrow> pyval \<Rightarrow> pyval \<Rightarrow> profile \<Rightarrow> pyval io" where
  "exec_esxi_firewall_set_enabled api opts rule val profile =
     esxi_firewall_set_enabled api opts rule val profile"

definition exec_esxi_firewall_enabled :: "vmodl \<Rightarrow> pyval \<Rightarrow> profile \<Rightarrow> pyval io" where
  "exec_esxi_firewall_enabled api opts profile = esxi_firewall_enabled api opts profile"

definition exec_esxi_firewall_set_global_enabled :: "vmodl \<Rightarrow> pyval \<Rightarrow> pyval \<Rightarrow> profile \<Rightarrow> pyval io" where
  "exec_esxi_firewall_set_global_enabled api opts val profile =
     esxi_firewall_set_global_enabled api opts val profile"

definition exec_esxi_firewall_set_allowed_ips :: "vmodl \<Rightarrow> pyval \<Rightarrow> pyval \<Rightarrow> pyval
  \<Rightarrow> pyval \<Rightarrow> profile \<Rightarrow> pyval io" where
  "exec_esxi_firewall_set_allowed_ips api opts rule allowed_ips all_ip profile =
     esxi_firewall_set_allowed_ips api opts rule allowed_ips all_ip profile"

subsection \<open>\<open>modules/vcf_esxi_host.py\<close>\<close>

definition exec_esxi_host_info :: "vmodl \<Rightarrow> pyval \<Rightarrow> profile \<Rightarrow> pyval io" where
  "exec_esxi_host_info api opts profile = esxi_host_info api opts profile"

definition exec_esxi_host_lockdown_get :: "vmodl \<Rightarrow> pyval \<Rightarrow> profile \<Rightarrow> pyval io" where
  "exec_esxi_host_lockdown_get api opts profile = esxi_host_lockdown_get api opts profile"

definition exec_esxi_host_lockdown_set :: "vmodl \<Rightarrow> pyval \<Rightarrow> pyval \<Rightarrow> pyval \<Rightarrow> profile \<Rightarrow> pyval io" where
  "exec_esxi_host_lockdown_set api opts md exception_users profile =
     esxi_host_lockdown_set api opts md exception_users profile"

definition exec_esxi_host_enter_maintenance :: "vmodl \<Rightarrow> pyval \<Rightarrow> profile \<Rightarrow> pyval io" where
  "exec_esxi_host_enter_maintenance api opts profile = esxi_host_enter_maintenance api opts profile"

definition exec_esxi_host_exit_maintenance :: "vmodl \<Rightarrow> pyval \<Rightarrow> profile \<Rightarrow> pyval io" where
  "exec_esxi_host_exit_maintenance api opts profile = esxi_host_exit_maintenance api opts profile"

definition exec_esxi_host_reboot :: "vmodl \<Rightarrow> pyval \<Rightarrow> pyval \<Rightarrow> profile \<Rightarrow> pyval io" where
  "exec_esxi_host_reboot api opts force profile = esxi_host_reboot api opts force profile"

definition exec_esxi_host_shutdown :: "vmodl \<Rightarrow> pyval \<Rightarrow> pyval \<Rightarrow> profile \<Rightarrow> pyval io" where
  "exec_esxi_host_shutdown api opts force profile = esxi_host_shutdown api opts force profile"

subsection \<open>\<open>modules/vcf_esxi_ntp.py\<close>\<close>

definition exec_esxi_ntp_get :: "vmodl \<Rightarrow> pyval \<Rightarrow> profile \<Rightarrow> pyval io" where
  "exec_esxi_ntp_get api opts profile = esxi_ntp_get api opts profile"

definition exec_esxi_ntp_set_servers :: "vmodl \<Rightarrow> pyval \<Rightarrow> pyval \<Rightarrow> profile \<Rightarrow> pyval io" where
  "exec_esxi_ntp_set_servers api opts servers profile = esxi_ntp_set_servers api opts servers profile"

definition exec_esxi_ntp_set_enabled :: "vmodl \<Rightarrow> pyval \<Rightarrow> pyval \<Rightarrow> profile \<Rightarrow> pyval io" where
  "exec_esxi_ntp_set_enabled api opts enabled profile = esxi_ntp_set_enabled api opts enabled profile"

subsection \<open>\<open>modules/vcf_esxi_service.py\<close>\<close>

definition exec_esxi_service_list :: "vmodl \<Rightarrow> pyval \<Rightarrow> profile \<Rightarrow> pyval io" where
  "exec_esxi_service_list api opts profile = esxi_service_list api opts profile"

definition exec_esxi_service_get :: "vmodl \<Rightarrow> pyval \<Rightarrow> pyval \<Rightarrow> profile \<Rightarrow> pyval io" where
  "exec_esxi_service_get api opts service profile = esxi_service_get api opts service profile"

definition exec_esxi_service_start :: "vmodl \<Rightarrow> pyval \<Rightarrow> pyval \<Rightarrow> profile \<Rightarrow> pyval io" where
  "exec_esxi_service_start api opts service profile = esxi_service_start api opts service profile"

definition exec_esxi_service_stop :: "vmodl \<Rightarrow> pyval \<Rightarrow> pyval \<Rightarrow> profile \<Rightarrow> pyval io" where
  "exec_esxi_service_stop api opts service profile = esxi_service_stop api opts service profile"

definition exec_esxi_service_restart :: "vmodl \<Rightarrow> pyval \<Rightarrow> pyval \<Rightarrow> profile \<Rightarrow> pyval io" where
  "exec_esxi_service_restart api opts service profile = esxi_service_restart api opts service profile"

definition exec_esxi_service_set_policy :: "vmodl \<Rightarrow> pyval \<Rightarrow> pyval \<Rightarrow> pyval \<Rightarrow> profile \<Rightarrow> pyval io" where
  "exec_esxi_service_set_policy api opts service policy profile =
     esxi_service_set_policy api opts service policy profile"

subsection \<open>\<open>modules/vcf_esxi_syslog.py\<close>\<close>

definition exec_esxi_syslog_get :: "vmodl \<Rightarrow> pyval \<Rightarrow> profile \<Rightarrow> pyval io" where
  "exec_esxi_syslog_get api opts profile = esxi_syslog_get api opts profile"

definition exec_esxi_syslog_set_servers :: "vmodl \<Rightarrow> pyval \<Rightarrow> pyval \<Rightarrow> profile \<Rightarrow> pyval io" where
  "exec_esxi_syslog_set_servers api opts servers profile = esxi_syslog_set_servers api opts servers
    profile"

definition exec_esxi_syslog_set_log_level :: "vmodl \<Rightarrow> pyval \<Rightarrow> pyval \<Rightarrow> profile \<Rightarrow> pyval io" where
  "exec_esxi_syslog_set_log_level api opts level profile = esxi_syslog_set_log_level api opts level
    profile"

subsection \<open>\<open>modules/vcf_vcenter_folder.py\<close>\<close>

definition exec_vcenter_folder_list :: "pyval \<Rightarrow> profile \<Rightarrow> pyval io" where
  "exec_vcenter_folder_list opts profile = vcenter_folder_list opts profile"

definition exec_vcenter_folder_get :: "pyval \<Rightarrow> pyval \<Rightarrow> profile \<Rightarrow> pyval io" where
  "exec_vcenter_folder_get opts folder_id profile = vcenter_folder_get opts folder_id profile"

definition exec_vcenter_folder_list_by_type :: "pyval \<Rightarrow> pyval \<Rightarrow> profile \<Rightarrow> pyval io" where
  "exec_vcenter_folder_list_by_type opts folder_type profile =
     vcenter_folder_list_by_type opts folder_type profile"

definition exec_vcenter_folder_find_by_name :: "vmodl \<Rightarrow> pyval \<Rightarrow> pyval \<Rightarrow> profile \<Rightarrow> pyval io" where
  "exec_vcenter_folder_find_by_name api opts name profile = vcenter_folder_find_by_name api opts name
    profile"

definition exec_vcenter_folder_create :: "vmodl \<Rightarrow> pyval \<Rightarrow> pyval \<Rightarrow> pyval
  \<Rightarrow> pyval \<Rightarrow> pyval \<Rightarrow> profile \<Rightarrow> pyval io" where
  "exec_vcenter_folder_create api opts name folder_type parent datacenter profile =
     vcenter_folder_create api opts name folder_type parent datacenter profile"

definition exec_vcenter_folder_delete :: "vmodl \<Rightarrow> pyval \<Rightarrow> pyval \<Rightarrow> profile \<Rightarrow> pyval io" where
  "exec_vcenter_folder_delete api opts folder_id profile = vcenter_folder_delete api opts folder_id
    profile"

subsection \<open>\<open>modules/vcf_vcenter_statistics.py\<close>\<close>

definition exec_vcenter_statistics_intervals_get :: "vmodl \<Rightarrow> pyval \<Rightarrow> profile \<Rightarrow> pyval io" where
  "exec_vcenter_statistics_intervals_get api opts profile = vcenter_statistics_intervals_get api opts
    profile"

definition exec_vcenter_statistics_interval_get :: "vmodl \<Rightarrow> pyval \<Rightarrow> pyval \<Rightarrow> profile \<Rightarrow> pyval io" where
  "exec_vcenter_statistics_interval_get api opts name profile =
     vcenter_statistics_interval_get api opts name profile"

definition exec_vcenter_statistics_interval_set ::
  "vmodl \<Rightarrow> pyval \<Rightarrow> pyval \<Rightarrow> pyval \<Rightarrow> pyval \<Rightarrow> pyval \<Rightarrow> pyval \<Rightarrow> profile \<Rightarrow> pyval io" where
  "exec_vcenter_statistics_interval_set api opts name enabled interval_minutes save_days level profile =
     vcenter_statistics_interval_set api opts name enabled interval_minutes save_days level profile"

subsection \<open>\<open>modules/vcf_vcenter_storage_policy.py\<close>\<close>

definition exec_vcenter_storage_policy_list :: "pyval \<Rightarrow> profile \<Rightarrow> pyval io" where
  "exec_vcenter_storage_policy_list opts profile = vcenter_storage_policy_list opts profile"

definition exec_vcenter_storage_policy_get :: "pyval \<Rightarrow> pyval \<Rightarrow> profile \<Rightarrow> pyval io" where
  "exec_vcenter_storage_policy_get opts policy profile = vcenter_storage_policy_get opts policy profile"

definition exec_vcenter_storage_policy_get_by_name :: "vmodl \<Rightarrow> pyval \<Rightarrow> pyval \<Rightarrow> profile \<Rightarrow> pyval io" where
  "exec_vcenter_storage_policy_get_by_name api opts name profile =
     vcenter_storage_policy_get_by_name api opts name profile"

definition exec_vcenter_storage_policy_create :: "vmodl \<Rightarrow> pyval \<Rightarrow> pyval \<Rightarrow> pyval
  \<Rightarrow> pyval \<Rightarrow> profile \<Rightarrow> pyval io" where
  "exec_vcenter_storage_policy_create api opts name constraints description profile =
     vcenter_storage_policy_create api opts name constraints description profile"

definition exec_vcenter_storage_policy_update :: "vmodl \<Rightarrow> pyval \<Rightarrow> pyval \<Rightarrow> pyval
  \<Rightarrow> pyval \<Rightarrow> profile \<Rightarrow> pyval io" where
  "exec_vcenter_storage_policy_update api opts name constraints description profile =
     vcenter_storage_policy_update api opts name constraints description profile"

definition exec_vcenter_storage_policy_delete :: "vmodl \<Rightarrow> pyval \<Rightarrow> pyval \<Rightarrow> profile \<Rightarrow> pyval io" where
  "exec_vcenter_storage_policy_delete api opts name profile =
     vcenter_storage_policy_delete api opts name profile"

definition exec_vcenter_storage_policy_default_policy_get :: "vmodl \<Rightarrow> pyval \<Rightarrow> pyval
  \<Rightarrow> profile \<Rightarrow> pyval io" where
  "exec_vcenter_storage_policy_default_policy_get api opts datastore profile =
     vcenter_storage_policy_default_policy_get api opts datastore profile"

definition exec_vcenter_storage_policy_default_policy_set ::
  "vmodl \<Rightarrow> pyval \<Rightarrow> pyval \<Rightarrow> pyval \<Rightarrow> profile \<Rightarrow> pyval io" where
  "exec_vcenter_storage_policy_default_policy_set api opts datastore policy_name profile =
     vcenter_storage_policy_default_policy_set api opts datastore policy_name profile"

subsection \<open>\<open>modules/vcf_vcenter_vm.py\<close>\<close>

definition exec_vcenter_vm_deploy :: "vmodl \<Rightarrow> pyval \<Rightarrow> pyval \<Rightarrow> pyval \<Rightarrow> profile \<Rightarrow> pyval io" where
  "exec_vcenter_vm_deploy api opts name spec profile = vcenter_vm_deploy api opts name spec profile"

subsection \<open>\<open>modules/vcf_vim_alarm.py\<close>\<close>

definition exec_vim_alarm_list :: "vmodl \<Rightarrow> pyval \<Rightarrow> profile \<Rightarrow> pyval io" where
  "exec_vim_alarm_list api opts profile = vim_alarm_list api opts PNone profile"

definition exec_vim_alarm_get :: "vmodl \<Rightarrow> pyval \<Rightarrow> pyval \<Rightarrow> profile \<Rightarrow> pyval io" where
  "exec_vim_alarm_get api opts name profile = vim_alarm_get api opts name profile"

definition exec_vim_alarm_create :: "vmodl \<Rightarrow> pyval \<Rightarrow> pyval \<Rightarrow> pyval \<Rightarrow>
  pyval \<Rightarrow> pyval \<Rightarrow> pyval \<Rightarrow> profile \<Rightarrow> pyval io" where
  "exec_vim_alarm_create api opts name description expression action enabled profile =
     vim_alarm_create api opts name description expression action enabled profile"

definition exec_vim_alarm_update :: "vmodl \<Rightarrow> pyval \<Rightarrow> pyval \<Rightarrow> profile \<Rightarrow> dict \<Rightarrow> pyval io" where
  "exec_vim_alarm_update api opts alarm_mo_id profile fields_v =
     vim_alarm_update api opts alarm_mo_id (dget fields_v ''name'' PNone) (dget fields_v ''description'' PNone)
       (dget fields_v ''expression'' PNone) (dget fields_v ''action'' PNone) (dget fields_v ''enabled'' PNone)
        profile"

definition exec_vim_alarm_delete :: "vmodl \<Rightarrow> pyval \<Rightarrow> pyval \<Rightarrow> profile \<Rightarrow> pyval io" where
  "exec_vim_alarm_delete api opts alarm_mo_id profile = vim_alarm_delete api opts alarm_mo_id profile"

subsection \<open>\<open>modules/vcf_vim_cluster_config.py\<close>\<close>

definition exec_vim_cluster_config_drs_get :: "vmodl \<Rightarrow> pyval \<Rightarrow> pyval \<Rightarrow> profile \<Rightarrow> pyval io" where
  "exec_vim_cluster_config_drs_get api opts cluster profile =
     vim_cluster_config_drs_get api opts cluster profile"

definition exec_vim_cluster_config_drs_set ::
  "vmodl \<Rightarrow> pyval \<Rightarrow> pyval \<Rightarrow> pyval \<Rightarrow> pyval \<Rightarrow> pyval \<Rightarrow> pyval \<Rightarrow> profile \<Rightarrow> pyval io" where
  "exec_vim_cluster_config_drs_set api opts cluster enabled default_vm_behavior migration_threshold
    vm_monitoring_enabled profile =
     vim_cluster_config_drs_set api opts cluster enabled default_vm_behavior migration_threshold
       vm_monitoring_enabled profile"

definition exec_vim_cluster_config_ha_get :: "vmodl \<Rightarrow> pyval \<Rightarrow> pyval \<Rightarrow> profile \<Rightarrow> pyval io" where
  "exec_vim_cluster_config_ha_get api opts cluster profile = vim_cluster_config_ha_get api opts cluster
    profile"

definition exec_vim_cluster_config_ha_set ::
  "vmodl \<Rightarrow> pyval \<Rightarrow> pyval \<Rightarrow> pyval \<Rightarrow> pyval \<Rightarrow> pyval \<Rightarrow> pyval \<Rightarrow> pyval \<Rightarrow> pyval \<Rightarrow> profile \<Rightarrow> pyval io" where
  "exec_vim_cluster_config_ha_set api opts cluster enabled host_monitoring vm_monitoring restart_priority
    isolation_response admission_control_enabled profile =
     vim_cluster_config_ha_set api opts cluster enabled host_monitoring vm_monitoring restart_priority
       isolation_response admission_control_enabled profile"

definition exec_vim_cluster_config_evc_get :: "vmodl \<Rightarrow> pyval \<Rightarrow> pyval \<Rightarrow> profile \<Rightarrow> pyval io" where
  "exec_vim_cluster_config_evc_get api opts cluster profile =
     vim_cluster_config_evc_get api opts cluster profile"

definition exec_vim_cluster_config_evc_set :: "vmodl \<Rightarrow> pyval \<Rightarrow> pyval \<Rightarrow> pyval \<Rightarrow> profile \<Rightarrow> pyval io" where
  "exec_vim_cluster_config_evc_set api opts cluster md profile =
     vim_cluster_config_evc_set api opts cluster md profile"

definition exec_vim_cluster_config_evc_disable :: "vmodl \<Rightarrow> pyval \<Rightarrow> pyval \<Rightarrow> profile \<Rightarrow> pyval io" where
  "exec_vim_cluster_config_evc_disable api opts cluster profile =
     vim_cluster_config_evc_disable api opts cluster profile"

definition exec_vim_cluster_config_dpm_get :: "vmodl \<Rightarrow> pyval \<Rightarrow> pyval \<Rightarrow> profile \<Rightarrow> pyval io" where
  "exec_vim_cluster_config_dpm_get api opts cluster profile =
     vim_cluster_config_dpm_get api opts cluster profile"

definition exec_vim_cluster_config_dpm_set ::
  "vmodl \<Rightarrow> pyval \<Rightarrow> pyval \<Rightarrow> pyval \<Rightarrow> pyval \<Rightarrow> pyval \<Rightarrow> profile \<Rightarrow> pyval io" where
  "exec_vim_cluster_config_dpm_set api opts cluster enabled default_behavior host_power_action_rate profile
    =
     vim_cluster_config_dpm_set api opts cluster enabled default_behavior host_power_action_rate profile"

subsection \<open>\<open>modules/vcf_vim_cluster_evc.py\<close>\<close>

definition exec_vim_cluster_evc_get :: "vmodl \<Rightarrow> pyval \<Rightarrow> pyval \<Rightarrow> profile \<Rightarrow> pyval io" where
  "exec_vim_cluster_evc_get api opts cluster profile = vim_cluster_evc_get api opts cluster profile"

definition exec_vim_cluster_evc_configure :: "vmodl \<Rightarrow> pyval \<Rightarrow> pyval \<Rightarrow> pyval \<Rightarrow> profile \<Rightarrow> pyval io" where
  "exec_vim_cluster_evc_configure api opts cluster evc_mode_key profile =
     vim_cluster_evc_configure api opts cluster evc_mode_key profile"

definition exec_vim_cluster_evc_disable :: "vmodl \<Rightarrow> pyval \<Rightarrow> pyval \<Rightarrow> profile \<Rightarrow> pyval io" where
  "exec_vim_cluster_evc_disable api opts cluster profile = vim_cluster_evc_disable api opts cluster
    profile"

definition exec_vim_cluster_evc_check :: "vmodl \<Rightarrow> pyval \<Rightarrow> pyval \<Rightarrow> pyval \<Rightarrow> profile \<Rightarrow> pyval io" where
  "exec_vim_cluster_evc_check api opts cluster evc_mode_key profile =
     vim_cluster_evc_check api opts cluster evc_mode_key profile"

subsection \<open>\<open>modules/vcf_vim_cluster_overrides.py\<close>\<close>

definition exec_vim_cluster_overrides_drs_vm_list :: "vmodl \<Rightarrow> pyval \<Rightarrow> pyval \<Rightarrow> profile \<Rightarrow> pyval io" where
  "exec_vim_cluster_overrides_drs_vm_list api opts cluster profile =
     vim_cluster_overrides_drs_vm_list api opts cluster profile"

definition exec_vim_cluster_overrides_drs_vm_set ::
  "vmodl \<Rightarrow> pyval \<Rightarrow> pyval \<Rightarrow> pyval \<Rightarrow> pyval \<Rightarrow> pyval \<Rightarrow> profile \<Rightarrow> pyval io" where
  "exec_vim_cluster_overrides_drs_vm_set api opts cluster vm_moid behavior enabled profile =
     vim_cluster_overrides_drs_vm_set api opts cluster vm_moid behavior enabled profile"

definition exec_vim_cluster_overrides_drs_vm_remove :: "vmodl \<Rightarrow> pyval \<Rightarrow> pyval \<Rightarrow>
  pyval \<Rightarrow> profile \<Rightarrow> pyval io" where
  "exec_vim_cluster_overrides_drs_vm_remove api opts cluster vm_moid profile =
     vim_cluster_overrides_drs_vm_remove api opts cluster vm_moid profile"

definition exec_vim_cluster_overrides_ha_vm_list :: "vmodl \<Rightarrow> pyval \<Rightarrow> pyval \<Rightarrow> profile \<Rightarrow> pyval io" where
  "exec_vim_cluster_overrides_ha_vm_list api opts cluster profile =
     vim_cluster_overrides_ha_vm_list api opts cluster profile"

definition exec_vim_cluster_overrides_ha_vm_set ::
  "vmodl \<Rightarrow> pyval \<Rightarrow> pyval \<Rightarrow> pyval \<Rightarrow> pyval \<Rightarrow> pyval \<Rightarrow> profile \<Rightarrow> pyval io" where
  "exec_vim_cluster_overrides_ha_vm_set api opts cluster vm_moid restart_priority isolation_response profile
    =
     vim_cluster_overrides_ha_vm_set api opts cluster vm_moid restart_priority isolation_response profile"

definition exec_vim_cluster_overrides_ha_vm_remove :: "vmodl \<Rightarrow> pyval \<Rightarrow> pyval \<Rightarrow>
  pyval \<Rightarrow> profile \<Rightarrow> pyval io" where
  "exec_vim_cluster_overrides_ha_vm_remove api opts cluster vm_moid profile =
     vim_cluster_overrides_ha_vm_remove api opts cluster vm_moid profile"

definition exec_vim_cluster_overrides_dpm_host_list :: "vmodl \<Rightarrow> pyval \<Rightarrow> pyval \<Rightarrow> profile \<Rightarrow> pyval io" where
  "exec_vim_cluster_overrides_dpm_host_list api opts cluster profile =
     vim_cluster_overrides_dpm_host_list api opts cluster profile"

definition exec_vim_cluster_overrides_dpm_host_set ::
  "vmodl \<Rightarrow> pyval \<Rightarrow> pyval \<Rightarrow> pyval \<Rightarrow> pyval \<Rightarrow> pyval \<Rightarrow> profile \<Rightarrow> pyval io" where
  "exec_vim_cluster_overrides_dpm_host_set api opts cluster host_moid behavior enabled profile =
     vim_cluster_overrides_dpm_host_set api opts cluster host_moid behavior enabled profile"

definition exec_vim_cluster_overrides_dpm_host_remove :: "vmodl \<Rightarrow> pyval \<Rightarrow> pyval
  \<Rightarrow> pyval \<Rightarrow> profile \<Rightarrow> pyval io" where
  "exec_vim_cluster_overrides_dpm_host_remove api opts cluster host_moid profile =
     vim_cluster_overrides_dpm_host_remove api opts cluster host_moid profile"

subsection \<open>\<open>modules/vcf_vim_custom_attribute.py\<close>\<close>

definition exec_vim_custom_attribute_list :: "vmodl \<Rightarrow> pyval \<Rightarrow> profile \<Rightarrow> pyval io" where
  "exec_vim_custom_attribute_list api opts profile = vim_custom_attribute_list api opts profile"

definition exec_vim_custom_attribute_get :: "vmodl \<Rightarrow> pyval \<Rightarrow> pyval \<Rightarrow> profile \<Rightarrow> pyval io" where
  "exec_vim_custom_attribute_get api opts name profile = vim_custom_attribute_get api opts name profile"

definition exec_vim_custom_attribute_add :: "vmodl \<Rightarrow> pyval \<Rightarrow> pyval \<Rightarrow> pyval \<Rightarrow> profile \<Rightarrow> pyval io" where
  "exec_vim_custom_attribute_add api opts name managed_object_type profile =
     vim_custom_attribute_add api opts name managed_object_type profile"

definition exec_vim_custom_attribute_remove :: "vmodl \<Rightarrow> pyval \<Rightarrow> pyval \<Rightarrow> profile \<Rightarrow> pyval io" where
  "exec_vim_custom_attribute_remove api opts name_or_key profile =
     vim_custom_attribute_remove api opts name_or_key profile"

definition exec_vim_custom_attribute_set_value ::
  "vmodl \<Rightarrow> pyval \<Rightarrow> pyval \<Rightarrow> pyval \<Rightarrow> pyval \<Rightarrow> pyval \<Rightarrow> profile \<Rightarrow> pyval io" where
  "exec_vim_custom_attribute_set_value api opts entity_mo_id name val entity_type profile =
     vim_custom_attribute_set_value api opts entity_mo_id name val entity_type profile"

subsection \<open>\<open>modules/vcf_vim_datastore_cluster.py\<close>\<close>

definition exec_vim_datastore_cluster_list :: "vmodl \<Rightarrow> pyval \<Rightarrow> profile \<Rightarrow> pyval io" where
  "exec_vim_datastore_cluster_list api opts profile = vim_datastore_cluster_list api opts profile"

definition exec_vim_datastore_cluster_get :: "vmodl \<Rightarrow> pyval \<Rightarrow> pyval \<Rightarrow> profile \<Rightarrow> pyval io" where
  "exec_vim_datastore_cluster_get api opts name_or_id profile =
     vim_datastore_cluster_get api opts name_or_id profile"

definition exec_vim_datastore_cluster_create :: "vmodl \<Rightarrow> pyval \<Rightarrow> pyval \<Rightarrow> pyval \<Rightarrow> profile \<Rightarrow> pyval io" where
  "exec_vim_datastore_cluster_create api opts name datacenter profile =
     vim_datastore_cluster_create api opts name datacenter profile"

definition exec_vim_datastore_cluster_delete :: "vmodl \<Rightarrow> pyval \<Rightarrow> pyval \<Rightarrow> profile \<Rightarrow> pyval io" where
  "exec_vim_datastore_cluster_delete api opts name_or_id profile =
     vim_datastore_cluster_delete api opts name_or_id profile"

definition exec_vim_datastore_cluster_add_datastore :: "vmodl \<Rightarrow> pyval \<Rightarrow> pyval \<Rightarrow>
  pyval \<Rightarrow> profile \<Rightarrow> pyval io" where
  "exec_vim_datastore_cluster_add_datastore api opts pod datastore profile =
     vim_datastore_cluster_add_datastore api opts pod datastore profile"

definition exec_vim_datastore_cluster_remove_datastore ::
  "vmodl \<Rightarrow> pyval \<Rightarrow> pyval \<Rightarrow> pyval \<Rightarrow> pyval \<Rightarrow> profile \<Rightarrow> pyval io" where
  "exec_vim_datastore_cluster_remove_datastore api opts pod datastore datacenter profile =
     vim_datastore_cluster_remove_datastore api opts pod datastore datacenter profile"

definition exec_vim_datastore_cluster_sdrs_get :: "vmodl \<Rightarrow> pyval \<Rightarrow> pyval \<Rightarrow> profile \<Rightarrow> pyval io" where
  "exec_vim_datastore_cluster_sdrs_get api opts pod profile =
     vim_datastore_cluster_sdrs_get api opts pod profile"

definition exec_vim_datastore_cluster_sdrs_set ::
  "vmodl \<Rightarrow> pyval \<Rightarrow> pyval \<Rightarrow> pyval \<Rightarrow> pyval \<Rightarrow> pyval \<Rightarrow> pyval \<Rightarrow> profile \<Rightarrow> pyval io" where
  "exec_vim_datastore_cluster_sdrs_set api opts pod enabled automation_level io_load_balance_enabled
    space_utilization_threshold profile =
     vim_datastore_cluster_sdrs_set api opts pod enabled automation_level io_load_balance_enabled
       space_utilization_threshold profile"

definition exec_vim_datastore_cluster_sdrs_vm_override_list :: "vmodl \<Rightarrow> pyval \<Rightarrow> pyval
  \<Rightarrow> profile \<Rightarrow> pyval io" where
  "exec_vim_datastore_cluster_sdrs_vm_override_list api opts pod profile =
     vim_datastore_cluster_sdrs_vm_override_list api opts pod profile"

definition exec_vim_datastore_cluster_sdrs_vm_override_set ::
  "vmodl \<Rightarrow> pyval \<Rightarrow> pyval \<Rightarrow> pyval \<Rightarrow> pyval \<Rightarrow> pyval \<Rightarrow> pyval \<Rightarrow> profile \<Rightarrow> pyval io" where
  "exec_vim_datastore_cluster_sdrs_vm_override_set api opts pod vm_moid behavior enabled intra_vm_affinity profile
    =
     vim_datastore_cluster_sdrs_vm_override_set api opts pod vm_moid behavior enabled intra_vm_affinity
       profile"

definition exec_vim_datastore_cluster_sdrs_vm_override_remove ::
  "vmodl \<Rightarrow> pyval \<Rightarrow> pyval \<Rightarrow> pyval \<Rightarrow> profile \<Rightarrow> pyval io" where
  "exec_vim_datastore_cluster_sdrs_vm_override_remove api opts pod vm_moid profile =
     vim_datastore_cluster_sdrs_vm_override_remove api opts pod vm_moid profile"

definition exec_vim_datastore_cluster_sdrs_rule_list :: "vmodl \<Rightarrow> pyval \<Rightarrow> pyval \<Rightarrow> profile \<Rightarrow> pyval io" where
  "exec_vim_datastore_cluster_sdrs_rule_list api opts pod profile =
     vim_datastore_cluster_sdrs_rule_list api opts pod profile"

definition exec_vim_datastore_cluster_sdrs_rule_get :: "vmodl \<Rightarrow> pyval \<Rightarrow> pyval \<Rightarrow>
  pyval \<Rightarrow> profile \<Rightarrow> pyval io" where
  "exec_vim_datastore_cluster_sdrs_rule_get api opts pod name profile =
     vim_datastore_cluster_sdrs_rule_get api opts pod name profile"

definition exec_vim_datastore_cluster_sdrs_rule_create_vm_anti_affinity ::
  "vmodl \<Rightarrow> pyval \<Rightarrow> pyval \<Rightarrow> pyval \<Rightarrow> pyval \<Rightarrow> pyval \<Rightarrow> pyval \<Rightarrow> profile \<Rightarrow> pyval io" where
  "exec_vim_datastore_cluster_sdrs_rule_create_vm_anti_affinity api opts pod name vm_moids enabled mandatory profile
    =
     vim_datastore_cluster_sdrs_rule_create_vm_anti_affinity api opts pod name vm_moids enabled mandatory
       profile"

definition exec_vim_datastore_cluster_sdrs_rule_create_vm_affinity ::
  "vmodl \<Rightarrow> pyval \<Rightarrow> pyval \<Rightarrow> pyval \<Rightarrow> pyval \<Rightarrow> pyval \<Rightarrow> pyval \<Rightarrow> profile \<Rightarrow> pyval io" where
  "exec_vim_datastore_cluster_sdrs_rule_create_vm_affinity api opts pod name vm_moids enabled mandatory profile
    =
     vim_datastore_cluster_sdrs_rule_create_vm_affinity api opts pod name vm_moids enabled mandatory
       profile"

definition exec_vim_datastore_cluster_sdrs_rule_delete :: "vmodl \<Rightarrow> pyval \<Rightarrow> pyval
  \<Rightarrow> pyval \<Rightarrow> profile \<Rightarrow> pyval io" where
  "exec_vim_datastore_cluster_sdrs_rule_delete api opts pod name profile =
     vim_datastore_cluster_sdrs_rule_delete api opts pod name profile"

subsection \<open>\<open>modules/vcf_vim_datastore_file.py\<close>\<close>

definition exec_vim_datastore_file_list :: "vmodl \<Rightarrow> pyval \<Rightarrow> pyval \<Rightarrow> pyval
  \<Rightarrow> pyval \<Rightarrow> profile \<Rightarrow> pyval io" where
  "exec_vim_datastore_file_list api opts datacenter datastore path profile =
     vim_datastore_file_list api opts datacenter datastore path profile"

definition exec_vim_datastore_file_mkdir :: "vmodl \<Rightarrow> pyval \<Rightarrow> pyval \<Rightarrow> pyval
  \<Rightarrow> pyval \<Rightarrow> pyval \<Rightarrow> profile \<Rightarrow> pyval io" where
  "exec_vim_datastore_file_mkdir api opts datacenter datastore path create_parents profile =
     vim_datastore_file_mkdir api opts datacenter datastore path create_parents profile"

definition exec_vim_datastore_file_delete :: "vmodl \<Rightarrow> pyval \<Rightarrow> pyval \<Rightarrow> pyval
  \<Rightarrow> pyval \<Rightarrow> profile \<Rightarrow> pyval io" where
  "exec_vim_datastore_file_delete api opts datacenter datastore path profile =
     vim_datastore_file_delete api opts datacenter datastore path profile"

definition exec_vim_datastore_file_move ::
  "vmodl \<Rightarrow> pyval \<Rightarrow> pyval \<Rightarrow> pyval \<Rightarrow> pyval \<Rightarrow> pyval \<Rightarrow> pyval \<Rightarrow> pyval \<Rightarrow> pyval \<Rightarrow> profile \<Rightarrow> pyval io" where
  "exec_vim_datastore_file_move api opts src_datacenter src_datastore src_path dst_datacenter dst_datastore dst_path
    force profile =
     vim_datastore_file_move api opts src_datacenter src_datastore src_path dst_datacenter dst_datastore dst_path
       force profile"

subsection \<open>\<open>modules/vcf_vim_drs_rule.py\<close>\<close>

definition exec_vim_drs_rule_list :: "vmodl \<Rightarrow> pyval \<Rightarrow> pyval \<Rightarrow> profile \<Rightarrow> pyval io" where
  "exec_vim_drs_rule_list api opts cluster profile = vim_drs_rule_list api opts cluster profile"

definition exec_vim_drs_rule_get :: "vmodl \<Rightarrow> pyval \<Rightarrow> pyval \<Rightarrow> pyval \<Rightarrow> profile \<Rightarrow> pyval io" where
  "exec_vim_drs_rule_get api opts cluster name profile = vim_drs_rule_get api opts cluster name profile"

definition exec_vim_drs_rule_get_or_none :: "vmodl \<Rightarrow> pyval \<Rightarrow> pyval \<Rightarrow> pyval \<Rightarrow> profile \<Rightarrow> pyval io" where
  "exec_vim_drs_rule_get_or_none api opts cluster name profile =
     vim_drs_rule_get_or_none api opts cluster name profile"

definition exec_vim_drs_rule_create_vm_affinity ::
  "vmodl \<Rightarrow> pyval \<Rightarrow> pyval \<Rightarrow> pyval \<Rightarrow> pyval \<Rightarrow> pyval \<Rightarrow> pyval \<Rightarrow> profile \<Rightarrow> pyval io" where
  "exec_vim_drs_rule_create_vm_affinity api opts cluster name vm_moids enabled mandatory profile =
     vim_drs_rule_create_vm_affinity api opts cluster name vm_moids enabled mandatory profile"

definition exec_vim_drs_rule_create_vm_anti_affinity ::
  "vmodl \<Rightarrow> pyval \<Rightarrow> pyval \<Rightarrow> pyval \<Rightarrow> pyval \<Rightarrow> pyval \<Rightarrow> pyval \<Rightarrow> profile \<Rightarrow> pyval io" where
  "exec_vim_drs_rule_create_vm_anti_affinity api opts cluster name vm_moids enabled mandatory profile =
     vim_drs_rule_create_vm_anti_affinity api opts cluster name vm_moids enabled mandatory profile"

definition exec_vim_drs_rule_create_vm_host ::
  "vmodl \<Rightarrow> pyval \<Rightarrow> pyval \<Rightarrow> pyval \<Rightarrow> pyval \<Rightarrow> pyval \<Rightarrow> pyval \<Rightarrow> pyval \<Rightarrow> pyval \<Rightarrow> profile \<Rightarrow> pyval io" where
  "exec_vim_drs_rule_create_vm_host api opts cluster name vm_group_name host_group_name affine mandatory enabled
    profile =
     vim_drs_rule_create_vm_host api opts cluster name vm_group_name host_group_name affine mandatory enabled
       profile"

definition exec_vim_drs_rule_update ::
  "vmodl \<Rightarrow> pyval \<Rightarrow> pyval \<Rightarrow> pyval \<Rightarrow> pyval \<Rightarrow> pyval \<Rightarrow> pyval \<Rightarrow> profile \<Rightarrow> pyval io" where
  "exec_vim_drs_rule_update api opts cluster name enabled mandatory vm_moids profile =
     vim_drs_rule_update api opts cluster name enabled mandatory vm_moids profile"

definition exec_vim_drs_rule_delete :: "vmodl \<Rightarrow> pyval \<Rightarrow> pyval \<Rightarrow> pyval \<Rightarrow> profile \<Rightarrow> pyval io" where
  "exec_vim_drs_rule_delete api opts cluster name profile = vim_drs_rule_delete api opts cluster name
    profile"

definition exec_vim_drs_rule_list_groups :: "vmodl \<Rightarrow> pyval \<Rightarrow> pyval \<Rightarrow> profile \<Rightarrow> pyval io" where
  "exec_vim_drs_rule_list_groups api opts cluster profile = vim_drs_rule_list_groups api opts cluster
    profile"

definition exec_vim_drs_rule_create_vm_group :: "vmodl \<Rightarrow> pyval \<Rightarrow> pyval \<Rightarrow> pyval
  \<Rightarrow> pyval \<Rightarrow> profile \<Rightarrow> pyval io" where
  "exec_vim_drs_rule_create_vm_group api opts cluster name vm_moids profile =
     vim_drs_rule_create_vm_group api opts cluster name vm_moids profile"

definition exec_vim_drs_rule_create_host_group :: "vmodl \<Rightarrow> pyval \<Rightarrow> pyval \<Rightarrow> pyval
  \<Rightarrow> pyval \<Rightarrow> profile \<Rightarrow> pyval io" where
  "exec_vim_drs_rule_create_host_group api opts cluster name host_moids profile =
     vim_drs_rule_create_host_group api opts cluster name host_moids profile"

definition exec_vim_drs_rule_delete_group :: "vmodl \<Rightarrow> pyval \<Rightarrow> pyval \<Rightarrow> pyval \<Rightarrow> profile \<Rightarrow> pyval io" where
  "exec_vim_drs_rule_delete_group api opts cluster name profile =
     vim_drs_rule_delete_group api opts cluster name profile"

definition exec_vim_drs_rule_get_group :: "vmodl \<Rightarrow> pyval \<Rightarrow> pyval \<Rightarrow> pyval \<Rightarrow> profile \<Rightarrow> pyval io" where
  "exec_vim_drs_rule_get_group api opts cluster name profile =
     vim_drs_rule_get_group api opts cluster name profile"

definition exec_vim_drs_rule_update_group ::
  "vmodl \<Rightarrow> pyval \<Rightarrow> pyval \<Rightarrow> pyval \<Rightarrow> pyval \<Rightarrow> pyval \<Rightarrow> profile \<Rightarrow> pyval io" where
  "exec_vim_drs_rule_update_group api opts cluster name vm_moids host_moids profile =
     vim_drs_rule_update_group api opts cluster name vm_moids host_moids profile"

subsection \<open>\<open>modules/vcf_vim_dvs.py\<close>\<close>

definition exec_vim_dvs_list :: "vmodl \<Rightarrow> pyval \<Rightarrow> profile \<Rightarrow> pyval io" where
  "exec_vim_dvs_list api opts profile = vim_dvs_list api opts profile"

definition exec_vim_dvs_get :: "vmodl \<Rightarrow> pyval \<Rightarrow> pyval \<Rightarrow> profile \<Rightarrow> pyval io" where
  "exec_vim_dvs_get api opts dvs profile = vim_dvs_get api opts dvs profile"

definition exec_vim_dvs_get_or_none :: "vmodl \<Rightarrow> pyval \<Rightarrow> pyval \<Rightarrow> profile \<Rightarrow> pyval io" where
  "exec_vim_dvs_get_or_none api opts dvs profile = vim_dvs_get_or_none api opts dvs profile"

definition exec_vim_dvs_create ::
  "vmodl \<Rightarrow> pyval \<Rightarrow> pyval \<Rightarrow> pyval \<Rightarrow> pyval \<Rightarrow> pyval \<Rightarrow> pyval \<Rightarrow> pyval \<Rightarrow> profile \<Rightarrow> pyval io" where
  "exec_vim_dvs_create api opts name datacenter version num_uplinks max_mtu description profile =
     vim_dvs_create api opts name datacenter version num_uplinks max_mtu description profile"

definition exec_vim_dvs_reconfigure :: "vmodl \<Rightarrow> pyval \<Rightarrow> pyval \<Rightarrow> pyval \<Rightarrow> pyval \<Rightarrow> profile \<Rightarrow> pyval io" where
  "exec_vim_dvs_reconfigure api opts dvs max_mtu description profile =
     vim_dvs_reconfigure api opts dvs max_mtu description profile"

definition exec_vim_dvs_delete :: "vmodl \<Rightarrow> pyval \<Rightarrow> pyval \<Rightarrow> profile \<Rightarrow> pyval io" where
  "exec_vim_dvs_delete api opts dvs profile = vim_dvs_delete api opts dvs profile"

definition exec_vim_dvs_add_host :: "vmodl \<Rightarrow> pyval \<Rightarrow> pyval \<Rightarrow> pyval \<Rightarrow> pyval \<Rightarrow> profile \<Rightarrow> pyval io" where
  "exec_vim_dvs_add_host api opts dvs host pnic_devices profile =
     vim_dvs_add_host api opts dvs host pnic_devices profile"

definition exec_vim_dvs_remove_host :: "vmodl \<Rightarrow> pyval \<Rightarrow> pyval \<Rightarrow> pyval \<Rightarrow> profile \<Rightarrow> pyval io" where
  "exec_vim_dvs_remove_host api opts dvs host profile = vim_dvs_remove_host api opts dvs host profile"

subsection \<open>\<open>modules/vcf_vim_dvs_portgroup.py\<close>\<close>

definition exec_vim_dvs_portgroup_list :: "vmodl \<Rightarrow> pyval \<Rightarrow> pyval \<Rightarrow> profile \<Rightarrow> pyval io" where
  "exec_vim_dvs_portgroup_list api opts dvs profile = vim_dvs_portgroup_list api opts dvs profile"

definition exec_vim_dvs_portgroup_get :: "vmodl \<Rightarrow> pyval \<Rightarrow> pyval \<Rightarrow> pyval \<Rightarrow> profile \<Rightarrow> pyval io" where
  "exec_vim_dvs_portgroup_get api opts dvs name profile = vim_dvs_portgroup_get api opts dvs name profile"

definition exec_vim_dvs_portgroup_get_or_none :: "vmodl \<Rightarrow> pyval \<Rightarrow> pyval \<Rightarrow> pyval
  \<Rightarrow> profile \<Rightarrow> pyval io" where
  "exec_vim_dvs_portgroup_get_or_none api opts dvs name profile =
     vim_dvs_portgroup_get_or_none api opts dvs name profile"

definition exec_vim_dvs_portgroup_create_vlan ::
  "vmodl \<Rightarrow> pyval \<Rightarrow> pyval \<Rightarrow> pyval \<Rightarrow> pyval \<Rightarrow> pyval \<Rightarrow> pyval \<Rightarrow> pyval \<Rightarrow> pyval \<Rightarrow> profile \<Rightarrow> pyval io" where
  "exec_vim_dvs_portgroup_create_vlan api opts dvs name vlan_id num_ports binding auto_expand promiscuous profile
    =
     vim_dvs_portgroup_create_vlan api opts dvs name vlan_id num_ports binding auto_expand promiscuous
       profile"

definition exec_vim_dvs_portgroup_create_trunk ::
  "vmodl \<Rightarrow> pyval \<Rightarrow> pyval \<Rightarrow> pyval \<Rightarrow> pyval \<Rightarrow> pyval \<Rightarrow> pyval \<Rightarrow> profile \<Rightarrow> pyval io" where
  "exec_vim_dvs_portgroup_create_trunk api opts dvs name vlan_ranges num_ports binding profile =
     vim_dvs_portgroup_create_trunk api opts dvs name vlan_ranges num_ports binding profile"

definition exec_vim_dvs_portgroup_reconfigure ::
  "vmodl \<Rightarrow> pyval \<Rightarrow> pyval \<Rightarrow> pyval \<Rightarrow> pyval \<Rightarrow> pyval \<Rightarrow> pyval \<Rightarrow> profile \<Rightarrow> pyval io" where
  "exec_vim_dvs_portgroup_reconfigure api opts dvs name vlan_id num_ports promiscuous profile =
     vim_dvs_portgroup_reconfigure api opts dvs name vlan_id num_ports promiscuous profile"

definition exec_vim_dvs_portgroup_delete :: "vmodl \<Rightarrow> pyval \<Rightarrow> pyval \<Rightarrow> pyval \<Rightarrow> profile \<Rightarrow> pyval io" where
  "exec_vim_dvs_portgroup_delete api opts dvs name profile = vim_dvs_portgroup_delete api opts dvs name
    profile"

definition exec_vim_dvs_portgroup_get_teaming :: "vmodl \<Rightarrow> pyval \<Rightarrow> pyval \<Rightarrow> pyval
  \<Rightarrow> profile \<Rightarrow> pyval io" where
  "exec_vim_dvs_portgroup_get_teaming api opts dvs name profile =
     vim_dvs_portgroup_get_teaming api opts dvs name profile"

definition exec_vim_dvs_portgroup_set_teaming ::
  "vmodl \<Rightarrow> pyval \<Rightarrow> pyval \<Rightarrow> pyval \<Rightarrow> pyval \<Rightarrow> pyval
    \<Rightarrow> pyval \<Rightarrow> pyval \<Rightarrow> pyval \<Rightarrow> pyval \<Rightarrow> pyval \<Rightarrow> profile \<Rightarrow> pyval io" where
  "exec_vim_dvs_portgroup_set_teaming api opts dvs name policy reverse_policy notify_switches rolling_order
    check_beacon active_uplinks standby_uplinks profile =
     vim_dvs_portgroup_set_teaming api opts dvs name policy reverse_policy notify_switches rolling_order
       check_beacon active_uplinks standby_uplinks profile"

subsection \<open>\<open>modules/vcf_vim_extension.py\<close>\<close>

definition exec_vim_extension_list :: "vmodl \<Rightarrow> pyval \<Rightarrow> profile \<Rightarrow> pyval io" where
  "exec_vim_extension_list api opts profile = vim_extension_list api opts profile"

definition exec_vim_extension_get :: "vmodl \<Rightarrow> pyval \<Rightarrow> pyval \<Rightarrow> profile \<Rightarrow> pyval io" where
  "exec_vim_extension_get api opts key profile = vim_extension_get api opts key profile"

definition exec_vim_extension_get_or_none :: "vmodl \<Rightarrow> pyval \<Rightarrow> pyval \<Rightarrow> profile \<Rightarrow> pyval io" where
  "exec_vim_extension_get_or_none api opts key profile = vim_extension_get_or_none api opts key profile"

definition exec_vim_extension_register ::
  "vmodl \<Rightarrow> pyval \<Rightarrow> pyval \<Rightarrow> pyval \<Rightarrow> pyval \<Rightarrow> pyval \<Rightarrow> profile \<Rightarrow> dict \<Rightarrow> pyval io" where
  "exec_vim_extension_register api opts key version description company profile fields_v =
     vim_extension_register api opts key version description company profile fields_v"

definition exec_vim_extension_update :: "vmodl \<Rightarrow> pyval \<Rightarrow> pyval \<Rightarrow> pyval
  \<Rightarrow> pyval \<Rightarrow> profile \<Rightarrow> dict \<Rightarrow> pyval io" where
  "exec_vim_extension_update api opts key version description profile fields_v =
     vim_extension_update api opts key version description profile fields_v"

definition exec_vim_extension_unregister :: "vmodl \<Rightarrow> pyval \<Rightarrow> pyval \<Rightarrow> profile \<Rightarrow> pyval io" where
  "exec_vim_extension_unregister api opts key profile = vim_extension_unregister api opts key profile"

subsection \<open>\<open>modules/vcf_vim_first_class_disk.py\<close>\<close>

definition exec_vim_first_class_disk_list :: "vmodl \<Rightarrow> pyval \<Rightarrow> pyval \<Rightarrow> profile \<Rightarrow> pyval io" where
  "exec_vim_first_class_disk_list api opts datastore profile =
     vim_first_class_disk_list api opts datastore profile"

definition exec_vim_first_class_disk_get :: "vmodl \<Rightarrow> pyval \<Rightarrow> pyval \<Rightarrow> pyval \<Rightarrow> profile \<Rightarrow> pyval io" where
  "exec_vim_first_class_disk_get api opts vstorage_object_id datastore profile =
     vim_first_class_disk_get api opts vstorage_object_id datastore profile"

definition exec_vim_first_class_disk_create ::
  "vmodl \<Rightarrow> pyval \<Rightarrow> pyval \<Rightarrow> pyval \<Rightarrow> pyval \<Rightarrow> pyval \<Rightarrow> pyval \<Rightarrow> pyval \<Rightarrow> profile \<Rightarrow> pyval io" where
  "exec_vim_first_class_disk_create api opts name datastore capacity_gb provisioning profile_id keep_after_delete_vm
    profile =
     vim_first_class_disk_create api opts name datastore capacity_gb provisioning profile_id keep_after_delete_vm
       profile"

definition exec_vim_first_class_disk_delete :: "vmodl \<Rightarrow> pyval \<Rightarrow> pyval \<Rightarrow> pyval \<Rightarrow> profile \<Rightarrow> pyval io" where
  "exec_vim_first_class_disk_delete api opts vstorage_object_id datastore profile =
     vim_first_class_disk_delete api opts vstorage_object_id datastore profile"

definition exec_vim_first_class_disk_rename :: "vmodl \<Rightarrow> pyval \<Rightarrow> pyval \<Rightarrow> pyval
  \<Rightarrow> pyval \<Rightarrow> profile \<Rightarrow> pyval io" where
  "exec_vim_first_class_disk_rename api opts vstorage_object_id datastore new_name profile =
     vim_first_class_disk_rename api opts vstorage_object_id datastore new_name profile"

definition exec_vim_first_class_disk_extend :: "vmodl \<Rightarrow> pyval \<Rightarrow> pyval \<Rightarrow> pyval
  \<Rightarrow> pyval \<Rightarrow> profile \<Rightarrow> pyval io" where
  "exec_vim_first_class_disk_extend api opts vstorage_object_id datastore new_capacity_gb profile =
     vim_first_class_disk_extend api opts vstorage_object_id datastore new_capacity_gb profile"

definition exec_vim_first_class_disk_register :: "vmodl \<Rightarrow> pyval \<Rightarrow> pyval \<Rightarrow> pyval
  \<Rightarrow> pyval \<Rightarrow> profile \<Rightarrow> pyval io" where
  "exec_vim_first_class_disk_register api opts datastore path name profile =
     vim_first_class_disk_register api opts datastore path name profile"

definition exec_vim_first_class_disk_set_keep_after_delete_vm ::
  "vmodl \<Rightarrow> pyval \<Rightarrow> pyval \<Rightarrow> pyval \<Rightarrow> pyval \<Rightarrow> profile \<Rightarrow> pyval io" where
  "exec_vim_first_class_disk_set_keep_after_delete_vm api opts vstorage_object_id datastore keep profile =
     vim_first_class_disk_set_keep_after_delete_vm api opts vstorage_object_id datastore keep profile"

definition exec_vim_first_class_disk_attach_to_vm ::
  "vmodl \<Rightarrow> pyval \<Rightarrow> pyval \<Rightarrow> pyval \<Rightarrow> pyval \<Rightarrow> pyval \<Rightarrow> pyval \<Rightarrow> profile \<Rightarrow> pyval io" where
  "exec_vim_first_class_disk_attach_to_vm api opts vm vstorage_object_id datastore controller_key unit_number
    profile =
     vim_first_class_disk_attach_to_vm api opts vm vstorage_object_id datastore controller_key unit_number
       profile"

definition exec_vim_first_class_disk_detach_from_vm :: "vmodl \<Rightarrow> pyval \<Rightarrow> pyval \<Rightarrow>
  pyval \<Rightarrow> profile \<Rightarrow> pyval io" where
  "exec_vim_first_class_disk_detach_from_vm api opts vm vstorage_object_id profile =
     vim_first_class_disk_detach_from_vm api opts vm vstorage_object_id profile"

subsection \<open>\<open>modules/vcf_vim_host_acceptance.py\<close>\<close>

definition exec_vim_host_acceptance_get :: "vmodl \<Rightarrow> pyval \<Rightarrow> pyval \<Rightarrow> profile \<Rightarrow> pyval io" where
  "exec_vim_host_acceptance_get api opts host profile = vim_host_acceptance_get api opts host profile"

definition exec_vim_host_acceptance_set :: "vmodl \<Rightarrow> pyval \<Rightarrow> pyval \<Rightarrow> pyval \<Rightarrow> profile \<Rightarrow> pyval io" where
  "exec_vim_host_acceptance_set api opts host level profile =
     vim_host_acceptance_set api opts host level profile"

subsection \<open>\<open>modules/vcf_vim_host_certificate.py\<close>\<close>

definition exec_vim_host_certificate_generate_csr :: "vmodl \<Rightarrow> pyval \<Rightarrow> pyval \<Rightarrow>
  pyval \<Rightarrow> profile \<Rightarrow> pyval io" where
  "exec_vim_host_certificate_generate_csr api opts host useip profile =
     vim_host_certificate_generate_csr api opts host useip profile"

definition exec_vim_host_certificate_install_cert :: "vmodl \<Rightarrow> pyval \<Rightarrow> pyval \<Rightarrow>
  pyval \<Rightarrow> profile \<Rightarrow> pyval io" where
  "exec_vim_host_certificate_install_cert api opts host cert_pem profile =
     vim_host_certificate_install_cert api opts host cert_pem profile"

definition exec_vim_host_certificate_refresh_cert :: "vmodl \<Rightarrow> pyval \<Rightarrow> pyval \<Rightarrow> profile \<Rightarrow> pyval io" where
  "exec_vim_host_certificate_refresh_cert api opts host profile =
     vim_host_certificate_refresh_cert api opts host profile"

definition exec_vim_host_certificate_refresh_ca_bundle :: "vmodl \<Rightarrow> pyval \<Rightarrow> pyval
  \<Rightarrow> profile \<Rightarrow> pyval io" where
  "exec_vim_host_certificate_refresh_ca_bundle api opts host profile =
     vim_host_certificate_refresh_ca_bundle api opts host profile"

subsection \<open>\<open>modules/vcf_vim_host_config.py\<close>\<close>

definition exec_vim_host_config_ntp_get :: "vmodl \<Rightarrow> pyval \<Rightarrow> pyval \<Rightarrow> profile \<Rightarrow> pyval io" where
  "exec_vim_host_config_ntp_get api opts host profile = vim_host_config_ntp_get api opts host profile"

definition exec_vim_host_config_ntp_set_servers :: "vmodl \<Rightarrow> pyval \<Rightarrow> pyval \<Rightarrow>
  pyval \<Rightarrow> profile \<Rightarrow> pyval io" where
  "exec_vim_host_config_ntp_set_servers api opts host servers profile =
     vim_host_config_ntp_set_servers api opts host servers profile"

definition exec_vim_host_config_ntp_set_running :: "vmodl \<Rightarrow> pyval \<Rightarrow> pyval \<Rightarrow>
  pyval \<Rightarrow> profile \<Rightarrow> pyval io" where
  "exec_vim_host_config_ntp_set_running api opts host running profile =
     vim_host_config_ntp_set_running api opts host running profile"

definition exec_vim_host_config_ntp_set_policy :: "vmodl \<Rightarrow> pyval \<Rightarrow> pyval \<Rightarrow> pyval
  \<Rightarrow> profile \<Rightarrow> pyval io" where
  "exec_vim_host_config_ntp_set_policy api opts host policy profile =
     vim_host_config_ntp_set_policy api opts host policy profile"

definition exec_vim_host_config_service_list :: "vmodl \<Rightarrow> pyval \<Rightarrow> pyval \<Rightarrow> profile \<Rightarrow> pyval io" where
  "exec_vim_host_config_service_list api opts host profile = vim_host_config_service_list api opts host
    profile"

definition exec_vim_host_config_service_start :: "vmodl \<Rightarrow> pyval \<Rightarrow> pyval \<Rightarrow> pyval
  \<Rightarrow> profile \<Rightarrow> pyval io" where
  "exec_vim_host_config_service_start api opts host service_id profile =
     vim_host_config_service_start api opts host service_id profile"

definition exec_vim_host_config_service_stop :: "vmodl \<Rightarrow> pyval \<Rightarrow> pyval \<Rightarrow> pyval \<Rightarrow> profile \<Rightarrow> pyval io" where
  "exec_vim_host_config_service_stop api opts host service_id profile =
     vim_host_config_service_stop api opts host service_id profile"

definition exec_vim_host_config_service_restart :: "vmodl \<Rightarrow> pyval \<Rightarrow> pyval \<Rightarrow>
  pyval \<Rightarrow> profile \<Rightarrow> pyval io" where
  "exec_vim_host_config_service_restart api opts host service_id profile =
     vim_host_config_service_restart api opts host service_id profile"

definition exec_vim_host_config_service_set_policy ::
  "vmodl \<Rightarrow> pyval \<Rightarrow> pyval \<Rightarrow> pyval \<Rightarrow> pyval \<Rightarrow> profile \<Rightarrow> pyval io" where
  "exec_vim_host_config_service_set_policy api opts host service_id policy profile =
     vim_host_config_service_set_policy api opts host service_id policy profile"

definition exec_vim_host_config_ad_status :: "vmodl \<Rightarrow> pyval \<Rightarrow> pyval \<Rightarrow> profile \<Rightarrow> pyval io" where
  "exec_vim_host_config_ad_status api opts host profile = vim_host_config_ad_status api opts host profile"

definition exec_vim_host_config_ad_join ::
  "vmodl \<Rightarrow> pyval \<Rightarrow> pyval \<Rightarrow> pyval \<Rightarrow> pyval \<Rightarrow> pyval \<Rightarrow> pyval \<Rightarrow> profile \<Rightarrow> pyval io" where
  "exec_vim_host_config_ad_join api opts host domain username password ou_path profile =
     vim_host_config_ad_join api opts host domain username password ou_path profile"

definition exec_vim_host_config_ad_leave :: "vmodl \<Rightarrow> pyval \<Rightarrow> pyval \<Rightarrow> pyval \<Rightarrow> profile \<Rightarrow> pyval io" where
  "exec_vim_host_config_ad_leave api opts host force profile =
     vim_host_config_ad_leave api opts host force profile"

definition exec_vim_host_config_advanced_get :: "vmodl \<Rightarrow> pyval \<Rightarrow> pyval \<Rightarrow> pyval \<Rightarrow> profile \<Rightarrow> pyval io" where
  "exec_vim_host_config_advanced_get api opts host key profile =
     vim_host_config_advanced_get api opts host key profile"

definition exec_vim_host_config_advanced_set :: "vmodl \<Rightarrow> pyval \<Rightarrow> pyval \<Rightarrow> pyval
  \<Rightarrow> pyval \<Rightarrow> profile \<Rightarrow> pyval io" where
  "exec_vim_host_config_advanced_set api opts host key val profile =
     vim_host_config_advanced_set api opts host key val profile"

subsection \<open>\<open>modules/vcf_vim_host_datastore.py\<close>\<close>

definition exec_vim_host_datastore_list :: "vmodl \<Rightarrow> pyval \<Rightarrow> pyval \<Rightarrow> profile \<Rightarrow> pyval io" where
  "exec_vim_host_datastore_list api opts host profile = vim_host_datastore_list api opts host profile"

definition exec_vim_host_datastore_list_available_vmfs_disks :: "vmodl \<Rightarrow> pyval \<Rightarrow> pyval
  \<Rightarrow> profile \<Rightarrow> pyval io" where
  "exec_vim_host_datastore_list_available_vmfs_disks api opts host profile =
     vim_host_datastore_list_available_vmfs_disks api opts host profile"

definition exec_vim_host_datastore_create_vmfs ::
  "vmodl \<Rightarrow> pyval \<Rightarrow> pyval \<Rightarrow> pyval \<Rightarrow> pyval \<Rightarrow> pyval \<Rightarrow> profile \<Rightarrow> pyval io" where
  "exec_vim_host_datastore_create_vmfs api opts host name device_path vmfs_version profile =
     vim_host_datastore_create_vmfs api opts host name device_path vmfs_version profile"

definition exec_vim_host_datastore_mount_nfs ::
  "vmodl \<Rightarrow> pyval \<Rightarrow> pyval \<Rightarrow> pyval \<Rightarrow> pyval \<Rightarrow> pyval \<Rightarrow> pyval \<Rightarrow> pyval \<Rightarrow> profile \<Rightarrow> pyval io" where
  "exec_vim_host_datastore_mount_nfs api opts host name remote_host remote_path access_mode kind profile =
     vim_host_datastore_mount_nfs api opts host name remote_host remote_path access_mode kind profile"

definition exec_vim_host_datastore_remove :: "vmodl \<Rightarrow> pyval \<Rightarrow> pyval \<Rightarrow> pyval \<Rightarrow> profile \<Rightarrow> pyval io" where
  "exec_vim_host_datastore_remove api opts host datastore profile =
     vim_host_datastore_remove api opts host datastore profile"

definition exec_vim_host_datastore_rescan_storage :: "vmodl \<Rightarrow> pyval \<Rightarrow> pyval \<Rightarrow> profile \<Rightarrow> pyval io" where
  "exec_vim_host_datastore_rescan_storage api opts host profile =
     vim_host_datastore_rescan_storage api opts host profile"

subsection \<open>\<open>modules/vcf_vim_host_dns.py\<close>\<close>

definition exec_vim_host_dns_get :: "vmodl \<Rightarrow> pyval \<Rightarrow> pyval \<Rightarrow> profile \<Rightarrow> pyval io" where
  "exec_vim_host_dns_get api opts host profile = vim_host_dns_get api opts host profile"

definition exec_vim_host_dns_set ::
  "vmodl \<Rightarrow> pyval \<Rightarrow> pyval \<Rightarrow> pyval \<Rightarrow> pyval \<Rightarrow> pyval \<Rightarrow> pyval \<Rightarrow> pyval \<Rightarrow> pyval \<Rightarrow> profile \<Rightarrow> pyval io" where
  "exec_vim_host_dns_set api opts host dhcp hostname domain_name servers search_domains virtual_nic profile
    =
     vim_host_dns_set api opts host dhcp hostname domain_name servers search_domains virtual_nic profile"

subsection \<open>\<open>modules/vcf_vim_host_hyperthreading.py\<close>\<close>

definition exec_vim_host_hyperthreading_get :: "vmodl \<Rightarrow> pyval \<Rightarrow> pyval \<Rightarrow> profile \<Rightarrow> pyval io" where
  "exec_vim_host_hyperthreading_get api opts host profile = vim_host_hyperthreading_get api opts host
    profile"

definition exec_vim_host_hyperthreading_enable :: "vmodl \<Rightarrow> pyval \<Rightarrow> pyval \<Rightarrow> profile \<Rightarrow> pyval io" where
  "exec_vim_host_hyperthreading_enable api opts host profile =
     vim_host_hyperthreading_enable api opts host profile"

definition exec_vim_host_hyperthreading_disable :: "vmodl \<Rightarrow> pyval \<Rightarrow> pyval \<Rightarrow> profile \<Rightarrow> pyval io" where
  "exec_vim_host_hyperthreading_disable api opts host profile =
     vim_host_hyperthreading_disable api opts host profile"

subsection \<open>\<open>modules/vcf_vim_host_kernel_module.py\<close>\<close>

definition exec_vim_host_kernel_module_list :: "vmodl \<Rightarrow> pyval \<Rightarrow> pyval \<Rightarrow> profile \<Rightarrow> pyval io" where
  "exec_vim_host_kernel_module_list api opts host profile = vim_host_kernel_module_list api opts host
    profile"

definition exec_vim_host_kernel_module_get_options :: "vmodl \<Rightarrow> pyval \<Rightarrow> pyval \<Rightarrow>
  pyval \<Rightarrow> profile \<Rightarrow> pyval io" where
  "exec_vim_host_kernel_module_get_options api opts host module profile =
     vim_host_kernel_module_get_options api opts host module profile"

definition exec_vim_host_kernel_module_set_options ::
  "vmodl \<Rightarrow> pyval \<Rightarrow> pyval \<Rightarrow> pyval \<Rightarrow> pyval \<Rightarrow> profile \<Rightarrow> pyval io" where
  "exec_vim_host_kernel_module_set_options api opts host module options profile =
     vim_host_kernel_module_set_options api opts host module options profile"

subsection \<open>\<open>modules/vcf_vim_host_maintenance.py\<close>\<close>

definition exec_vim_host_maintenance_is_in :: "vmodl \<Rightarrow> pyval \<Rightarrow> pyval \<Rightarrow> profile \<Rightarrow> pyval io" where
  "exec_vim_host_maintenance_is_in api opts host profile = vim_host_maintenance_is_in api opts host
    profile"

definition exec_vim_host_maintenance_enter ::
  "vmodl \<Rightarrow> pyval \<Rightarrow> pyval \<Rightarrow> pyval \<Rightarrow> pyval \<Rightarrow> pyval \<Rightarrow> profile \<Rightarrow> pyval io" where
  "exec_vim_host_maintenance_enter api opts host evacuate_powered_off_vms vsan_mode timeout profile =
     vim_host_maintenance_enter api opts host evacuate_powered_off_vms vsan_mode timeout profile"

definition exec_vim_host_maintenance_exit :: "vmodl \<Rightarrow> pyval \<Rightarrow> pyval \<Rightarrow> pyval \<Rightarrow> profile \<Rightarrow> pyval io" where
  "exec_vim_host_maintenance_exit api opts host timeout profile =
     vim_host_maintenance_exit api opts host timeout profile"

subsection \<open>\<open>modules/vcf_vim_host_network.py\<close>\<close>

definition exec_vim_host_network_vswitch_list :: "vmodl \<Rightarrow> pyval \<Rightarrow> pyval \<Rightarrow> profile \<Rightarrow> pyval io" where
  "exec_vim_host_network_vswitch_list api opts host profile =
     vim_host_network_vswitch_list api opts host profile"

definition exec_vim_host_network_vswitch_get :: "vmodl \<Rightarrow> pyval \<Rightarrow> pyval \<Rightarrow> pyval \<Rightarrow> profile \<Rightarrow> pyval io" where
  "exec_vim_host_network_vswitch_get api opts host name profile =
     vim_host_network_vswitch_get api opts host name profile"

definition exec_vim_host_network_vswitch_get_or_none :: "vmodl \<Rightarrow> pyval \<Rightarrow> pyval \<Rightarrow>
  pyval \<Rightarrow> profile \<Rightarrow> pyval io" where
  "exec_vim_host_network_vswitch_get_or_none api opts host name profile =
     vim_host_network_vswitch_get_or_none api opts host name profile"

definition exec_vim_host_network_vswitch_add ::
  "vmodl \<Rightarrow> pyval \<Rightarrow> pyval \<Rightarrow> pyval \<Rightarrow> pyval \<Rightarrow> pyval \<Rightarrow> pyval \<Rightarrow> profile \<Rightarrow> pyval io" where
  "exec_vim_host_network_vswitch_add api opts host name num_ports mtu pnic_devices profile =
     vim_host_network_vswitch_add api opts host name num_ports mtu pnic_devices profile"

definition exec_vim_host_network_vswitch_update ::
  "vmodl \<Rightarrow> pyval \<Rightarrow> pyval \<Rightarrow> pyval \<Rightarrow> pyval \<Rightarrow> pyval \<Rightarrow> pyval \<Rightarrow> profile \<Rightarrow> pyval io" where
  "exec_vim_host_network_vswitch_update api opts host name num_ports mtu pnic_devices profile =
     vim_host_network_vswitch_update api opts host name num_ports mtu pnic_devices profile"

definition exec_vim_host_network_vswitch_remove :: "vmodl \<Rightarrow> pyval \<Rightarrow> pyval \<Rightarrow>
  pyval \<Rightarrow> profile \<Rightarrow> pyval io" where
  "exec_vim_host_network_vswitch_remove api opts host name profile =
     vim_host_network_vswitch_remove api opts host name profile"

definition exec_vim_host_network_vswitch_get_teaming :: "vmodl \<Rightarrow> pyval \<Rightarrow> pyval \<Rightarrow>
  pyval \<Rightarrow> profile \<Rightarrow> pyval io" where
  "exec_vim_host_network_vswitch_get_teaming api opts host name profile =
     vim_host_network_vswitch_get_teaming api opts host name profile"

definition exec_vim_host_network_vswitch_set_teaming ::
  "vmodl \<Rightarrow> pyval \<Rightarrow> pyval \<Rightarrow> pyval \<Rightarrow> pyval \<Rightarrow> pyval
    \<Rightarrow> pyval \<Rightarrow> pyval \<Rightarrow> pyval \<Rightarrow> pyval \<Rightarrow> pyval \<Rightarrow> profile \<Rightarrow> pyval io" where
  "exec_vim_host_network_vswitch_set_teaming api opts host name policy reverse_policy notify_switches rolling_order
    check_beacon active_nic standby_nic profile =
     vim_host_network_vswitch_set_teaming api opts host name policy reverse_policy notify_switches rolling_order
       check_beacon active_nic standby_nic profile"

definition exec_vim_host_network_portgroup_list :: "vmodl \<Rightarrow> pyval \<Rightarrow> pyval \<Rightarrow> profile \<Rightarrow> pyval io" where
  "exec_vim_host_network_portgroup_list api opts host profile =
     vim_host_network_portgroup_list api opts host profile"

definition exec_vim_host_network_portgroup_get :: "vmodl \<Rightarrow> pyval \<Rightarrow> pyval \<Rightarrow> pyval
  \<Rightarrow> profile \<Rightarrow> pyval io" where
  "exec_vim_host_network_portgroup_get api opts host name profile =
     vim_host_network_portgroup_get api opts host name profile"

definition exec_vim_host_network_portgroup_get_or_none :: "vmodl \<Rightarrow> pyval \<Rightarrow> pyval
  \<Rightarrow> pyval \<Rightarrow> profile \<Rightarrow> pyval io" where
  "exec_vim_host_network_portgroup_get_or_none api opts host name profile =
     vim_host_network_portgroup_get_or_none api opts host name profile"

definition exec_vim_host_network_portgroup_add ::
  "vmodl \<Rightarrow> pyval \<Rightarrow> pyval \<Rightarrow> pyval \<Rightarrow> pyval \<Rightarrow> pyval \<Rightarrow> profile \<Rightarrow> pyval io" where
  "exec_vim_host_network_portgroup_add api opts host name vswitch vlan_id profile =
     vim_host_network_portgroup_add api opts host name vswitch vlan_id PNone PNone PNone profile"

definition exec_vim_host_network_portgroup_update ::
  "vmodl \<Rightarrow> pyval \<Rightarrow> pyval \<Rightarrow> pyval \<Rightarrow> pyval \<Rightarrow> pyval \<Rightarrow> profile \<Rightarrow> pyval io" where
  "exec_vim_host_network_portgroup_update api opts host name vlan_id vswitch profile =
     vim_host_network_portgroup_update api opts host name vlan_id vswitch PNone PNone PNone profile"

definition exec_vim_host_network_portgroup_remove :: "vmodl \<Rightarrow> pyval \<Rightarrow> pyval \<Rightarrow>
  pyval \<Rightarrow> profile \<Rightarrow> pyval io" where
  "exec_vim_host_network_portgroup_remove api opts host name profile =
     vim_host_network_portgroup_remove api opts host name profile"

definition exec_vim_host_network_vmkernel_list :: "vmodl \<Rightarrow> pyval \<Rightarrow> pyval \<Rightarrow> profile \<Rightarrow> pyval io" where
  "exec_vim_host_network_vmkernel_list api opts host profile =
     vim_host_network_vmkernel_list api opts host profile"

definition exec_vim_host_network_vmkernel_get :: "vmodl \<Rightarrow> pyval \<Rightarrow> pyval \<Rightarrow> pyval
  \<Rightarrow> profile \<Rightarrow> pyval io" where
  "exec_vim_host_network_vmkernel_get api opts host device profile =
     vim_host_network_vmkernel_get api opts host device profile"

definition exec_vim_host_network_vmkernel_get_or_none :: "vmodl \<Rightarrow> pyval \<Rightarrow> pyval
  \<Rightarrow> pyval \<Rightarrow> profile \<Rightarrow> pyval io" where
  "exec_vim_host_network_vmkernel_get_or_none api opts host device profile =
     vim_host_network_vmkernel_get_or_none api opts host device profile"

definition exec_vim_host_network_vmkernel_add ::
  "vmodl \<Rightarrow> pyval \<Rightarrow> pyval \<Rightarrow> pyval \<Rightarrow> pyval \<Rightarrow> pyval
    \<Rightarrow> pyval \<Rightarrow> pyval \<Rightarrow> pyval \<Rightarrow> pyval \<Rightarrow> profile \<Rightarrow> pyval io" where
  "exec_vim_host_network_vmkernel_add api opts host portgroup dhcp ip_address subnet_mask mtu mac_address nic_types
    profile =
     vim_host_network_vmkernel_add api opts host portgroup dhcp ip_address subnet_mask mtu mac_address nic_types
       profile"

definition exec_vim_host_network_vmkernel_update ::
  "vmodl \<Rightarrow> pyval \<Rightarrow> pyval \<Rightarrow> pyval \<Rightarrow> pyval \<Rightarrow> pyval \<Rightarrow> pyval \<Rightarrow> pyval \<Rightarrow> profile \<Rightarrow> pyval io" where
  "exec_vim_host_network_vmkernel_update api opts host device dhcp ip_address subnet_mask mtu profile =
     vim_host_network_vmkernel_update api opts host device dhcp ip_address subnet_mask mtu profile"

definition exec_vim_host_network_vmkernel_remove :: "vmodl \<Rightarrow> pyval \<Rightarrow> pyval \<Rightarrow>
  pyval \<Rightarrow> profile \<Rightarrow> pyval io" where
  "exec_vim_host_network_vmkernel_remove api opts host device profile =
     vim_host_network_vmkernel_remove api opts host device profile"

definition exec_vim_host_network_vmkernel_set_traffic_types ::
  "vmodl \<Rightarrow> pyval \<Rightarrow> pyval \<Rightarrow> pyval \<Rightarrow> pyval \<Rightarrow> profile \<Rightarrow> pyval io" where
  "exec_vim_host_network_vmkernel_set_traffic_types api opts host device nic_types profile =
     vim_host_network_vmkernel_set_traffic_types api opts host device nic_types profile"

definition exec_vim_host_network_physical_nic_list :: "vmodl \<Rightarrow> pyval \<Rightarrow> pyval \<Rightarrow> profile \<Rightarrow> pyval io" where
  "exec_vim_host_network_physical_nic_list api opts host profile =
     vim_host_network_physical_nic_list api opts host profile"

definition exec_vim_host_network_vmkernel_migrate ::
  "vmodl \<Rightarrow> pyval \<Rightarrow> pyval \<Rightarrow> pyval \<Rightarrow> pyval \<Rightarrow> profile \<Rightarrow> pyval io" where
  "exec_vim_host_network_vmkernel_migrate api opts host device dst_portgroup profile =
     vim_host_network_vmkernel_migrate api opts host device dst_portgroup profile"

definition exec_vim_host_network_ipv6_get :: "vmodl \<Rightarrow> pyval \<Rightarrow> pyval \<Rightarrow> profile \<Rightarrow> pyval io" where
  "exec_vim_host_network_ipv6_get api opts host profile = vim_host_network_ipv6_get api opts host profile"

definition exec_vim_host_network_ipv6_set :: "vmodl \<Rightarrow> pyval \<Rightarrow> pyval \<Rightarrow> pyval \<Rightarrow> profile \<Rightarrow> pyval io" where
  "exec_vim_host_network_ipv6_set api opts host enabled profile =
     vim_host_network_ipv6_set api opts host enabled profile"

subsection \<open>\<open>modules/vcf_vim_host_passthrough.py\<close>\<close>

definition exec_vim_host_passthrough_list :: "vmodl \<Rightarrow> pyval \<Rightarrow> pyval \<Rightarrow> profile \<Rightarrow> pyval io" where
  "exec_vim_host_passthrough_list api opts host profile = vim_host_passthrough_list api opts host profile"

definition exec_vim_host_passthrough_refresh :: "vmodl \<Rightarrow> pyval \<Rightarrow> pyval \<Rightarrow> profile \<Rightarrow> pyval io" where
  "exec_vim_host_passthrough_refresh api opts host profile = vim_host_passthrough_refresh api opts host
    profile"

definition exec_vim_host_passthrough_set_enabled :: "vmodl \<Rightarrow> pyval \<Rightarrow> pyval \<Rightarrow>
  pyval \<Rightarrow> pyval \<Rightarrow> profile \<Rightarrow> pyval io" where
  "exec_vim_host_passthrough_set_enabled api opts host pci_id enabled profile =
     vim_host_passthrough_set_enabled api opts host pci_id enabled profile"

subsection \<open>\<open>modules/vcf_vim_host_powermgmt.py\<close>\<close>

definition exec_vim_host_powermgmt_list_policies :: "vmodl \<Rightarrow> pyval \<Rightarrow> pyval \<Rightarrow> profile \<Rightarrow> pyval io" where
  "exec_vim_host_powermgmt_list_policies api opts host profile =
     vim_host_powermgmt_list_policies api opts host profile"

definition exec_vim_host_powermgmt_get_policy :: "vmodl \<Rightarrow> pyval \<Rightarrow> pyval \<Rightarrow> profile \<Rightarrow> pyval io" where
  "exec_vim_host_powermgmt_get_policy api opts host profile =
     vim_host_powermgmt_get_policy api opts host profile"

definition exec_vim_host_powermgmt_set_policy :: "vmodl \<Rightarrow> pyval \<Rightarrow> pyval \<Rightarrow> pyval
  \<Rightarrow> profile \<Rightarrow> pyval io" where
  "exec_vim_host_powermgmt_set_policy api opts host policy_key profile =
     vim_host_powermgmt_set_policy api opts host policy_key profile"

subsection \<open>\<open>modules/vcf_vim_host_security.py\<close>\<close>

definition exec_vim_host_security_lockdown_get :: "vmodl \<Rightarrow> pyval \<Rightarrow> pyval \<Rightarrow> profile \<Rightarrow> pyval io" where
  "exec_vim_host_security_lockdown_get api opts host profile =
     vim_host_security_lockdown_get api opts host profile"

definition exec_vim_host_security_lockdown_set :: "vmodl \<Rightarrow> pyval \<Rightarrow> pyval \<Rightarrow> pyval
  \<Rightarrow> profile \<Rightarrow> pyval io" where
  "exec_vim_host_security_lockdown_set api opts host md profile =
     vim_host_security_lockdown_set api opts host md profile"

definition exec_vim_host_security_lockdown_set_exception_users ::
  "vmodl \<Rightarrow> pyval \<Rightarrow> pyval \<Rightarrow> pyval \<Rightarrow> profile \<Rightarrow> pyval io" where
  "exec_vim_host_security_lockdown_set_exception_users api opts host users profile =
     vim_host_security_lockdown_set_exception_users api opts host users profile"

definition exec_vim_host_security_user_list :: "vmodl \<Rightarrow> pyval \<Rightarrow> pyval \<Rightarrow> pyval
  \<Rightarrow> pyval \<Rightarrow> profile \<Rightarrow> pyval io" where
  "exec_vim_host_security_user_list api opts host search_str exact profile =
     vim_host_security_user_list api opts host search_str exact (PBool True) profile"

definition exec_vim_host_security_user_create ::
  "vmodl \<Rightarrow> pyval \<Rightarrow> pyval \<Rightarrow> pyval \<Rightarrow> pyval \<Rightarrow> pyval \<Rightarrow> profile \<Rightarrow> pyval io" where
  "exec_vim_host_security_user_create api opts host username password description profile =
     vim_host_security_user_create api opts host username password description profile"

definition exec_vim_host_security_user_update ::
  "vmodl \<Rightarrow> pyval \<Rightarrow> pyval \<Rightarrow> pyval \<Rightarrow> pyval \<Rightarrow> pyval \<Rightarrow> profile \<Rightarrow> pyval io" where
  "exec_vim_host_security_user_update api opts host username password description profile =
     vim_host_security_user_update api opts host username password description profile"

definition exec_vim_host_security_user_delete :: "vmodl \<Rightarrow> pyval \<Rightarrow> pyval \<Rightarrow> pyval
  \<Rightarrow> profile \<Rightarrow> pyval io" where
  "exec_vim_host_security_user_delete api opts host username profile =
     vim_host_security_user_delete api opts host username profile"

definition exec_vim_host_security_iscsi_status :: "vmodl \<Rightarrow> pyval \<Rightarrow> pyval \<Rightarrow> profile \<Rightarrow> pyval io" where
  "exec_vim_host_security_iscsi_status api opts host profile =
     vim_host_security_iscsi_status api opts host profile"

definition exec_vim_host_security_iscsi_enable :: "vmodl \<Rightarrow> pyval \<Rightarrow> pyval \<Rightarrow> profile \<Rightarrow> pyval io" where
  "exec_vim_host_security_iscsi_enable api opts host profile =
     vim_host_security_iscsi_enable api opts host profile"

definition exec_vim_host_security_iscsi_disable :: "vmodl \<Rightarrow> pyval \<Rightarrow> pyval \<Rightarrow> profile \<Rightarrow> pyval io" where
  "exec_vim_host_security_iscsi_disable api opts host profile =
     vim_host_security_iscsi_disable api opts host profile"

definition exec_vim_host_security_iscsi_add_send_target ::
  "vmodl \<Rightarrow> pyval \<Rightarrow> pyval \<Rightarrow> pyval \<Rightarrow> pyval \<Rightarrow> profile \<Rightarrow> pyval io" where
  "exec_vim_host_security_iscsi_add_send_target api opts host address port profile =
     vim_host_security_iscsi_add_send_target api opts host address port profile"

definition exec_vim_host_security_iscsi_remove_send_target ::
  "vmodl \<Rightarrow> pyval \<Rightarrow> pyval \<Rightarrow> pyval \<Rightarrow> pyval \<Rightarrow> profile \<Rightarrow> pyval io" where
  "exec_vim_host_security_iscsi_remove_send_target api opts host address port profile =
     vim_host_security_iscsi_remove_send_target api opts host address port profile"

definition exec_vim_host_security_iscsi_set_chap ::
  "vmodl \<Rightarrow> pyval \<Rightarrow> pyval \<Rightarrow> pyval \<Rightarrow> pyval \<Rightarrow> pyval \<Rightarrow> profile \<Rightarrow> pyval io" where
  "exec_vim_host_security_iscsi_set_chap api opts host name password direction profile =
     vim_host_security_iscsi_set_chap api opts host name password direction profile"

subsection \<open>\<open>modules/vcf_vim_host_snmp.py\<close>\<close>

definition exec_vim_host_snmp_get :: "vmodl \<Rightarrow> pyval \<Rightarrow> pyval \<Rightarrow> profile \<Rightarrow> pyval io" where
  "exec_vim_host_snmp_get api opts host profile = vim_host_snmp_get api opts host profile"

definition exec_vim_host_snmp_set ::
  "vmodl \<Rightarrow> pyval \<Rightarrow> pyval \<Rightarrow> pyval \<Rightarrow> pyval \<Rightarrow> pyval \<Rightarrow> pyval \<Rightarrow> profile \<Rightarrow> pyval io" where
  "exec_vim_host_snmp_set api opts host enabled port read_only_communities trap_targets profile =
     vim_host_snmp_set api opts host enabled port read_only_communities trap_targets profile"

subsection \<open>\<open>modules/vcf_vim_host_ssl_thumbprint.py\<close>\<close>

definition exec_vim_host_ssl_thumbprint_fetch :: "vmodl \<Rightarrow> pyval \<Rightarrow> pyval \<Rightarrow> pyval \<Rightarrow> pyval io" where
  "exec_vim_host_ssl_thumbprint_fetch api hostname port timeout =
     bindM (liftR (py_int port)) (\<lambda>n.
     bindM (liftR (py_int timeout)) (\<lambda>n2.
     vim_host_ssl_thumbprint_fetch api hostname (PInt n) (PInt n2)))"

definition exec_vim_host_ssl_thumbprint_current :: "vmodl \<Rightarrow> pyval \<Rightarrow> pyval \<Rightarrow> profile \<Rightarrow> pyval io" where
  "exec_vim_host_ssl_thumbprint_current api opts host profile =
     vim_host_ssl_thumbprint_current api opts host profile"

definition exec_vim_host_ssl_thumbprint_validate :: "vmodl \<Rightarrow> pyval \<Rightarrow> pyval \<Rightarrow> profile \<Rightarrow> pyval io" where
  "exec_vim_host_ssl_thumbprint_validate api opts host profile =
     vim_host_ssl_thumbprint_validate api opts host profile"

subsection \<open>\<open>modules/vcf_vim_host_storage.py\<close>\<close>

definition exec_vim_host_storage_rescan_all_hba :: "vmodl \<Rightarrow> pyval \<Rightarrow> pyval \<Rightarrow> profile \<Rightarrow> pyval io" where
  "exec_vim_host_storage_rescan_all_hba api opts host profile =
     vim_host_storage_rescan_all_hba api opts host profile"

definition exec_vim_host_storage_rescan_vmfs :: "vmodl \<Rightarrow> pyval \<Rightarrow> pyval \<Rightarrow> profile \<Rightarrow> pyval io" where
  "exec_vim_host_storage_rescan_vmfs api opts host profile = vim_host_storage_rescan_vmfs api opts host
    profile"

definition exec_vim_host_storage_refresh :: "vmodl \<Rightarrow> pyval \<Rightarrow> pyval \<Rightarrow> profile \<Rightarrow> pyval io" where
  "exec_vim_host_storage_refresh api opts host profile = vim_host_storage_refresh api opts host profile"

subsection \<open>\<open>modules/vcf_vim_host_tcpip.py\<close>\<close>

definition exec_vim_host_tcpip_list :: "vmodl \<Rightarrow> pyval \<Rightarrow> pyval \<Rightarrow> profile \<Rightarrow> pyval io" where
  "exec_vim_host_tcpip_list api opts host profile = vim_host_tcpip_list api opts host profile"

definition exec_vim_host_tcpip_get :: "vmodl \<Rightarrow> pyval \<Rightarrow> pyval \<Rightarrow> pyval \<Rightarrow> profile \<Rightarrow> pyval io" where
  "exec_vim_host_tcpip_get api opts host stack_key profile = vim_host_tcpip_get api opts host stack_key
    profile"

definition exec_vim_host_tcpip_update :: "vmodl \<Rightarrow> pyval \<Rightarrow> pyval \<Rightarrow> pyval
  \<Rightarrow> pyval \<Rightarrow> pyval \<Rightarrow> profile \<Rightarrow> pyval io" where
  "exec_vim_host_tcpip_update api opts host stack_key dns_servers dns_search_domains profile =
     vim_host_tcpip_update api opts host stack_key dns_servers dns_search_domains profile"

subsection \<open>\<open>modules/vcf_vim_infra_profile.py\<close>\<close>

definition exec_vim_infra_profile_list :: "vmodl \<Rightarrow> pyval \<Rightarrow> profile \<Rightarrow> pyval io" where
  "exec_vim_infra_profile_list api opts profile = vim_infra_profile_list api opts profile"

definition exec_vim_infra_profile_get :: "vmodl \<Rightarrow> pyval \<Rightarrow> pyval \<Rightarrow> profile \<Rightarrow> pyval io" where
  "exec_vim_infra_profile_get api opts host_profile profile =
     vim_infra_profile_get api opts host_profile profile"

definition exec_vim_infra_profile_export :: "vmodl \<Rightarrow> pyval \<Rightarrow> pyval \<Rightarrow> profile \<Rightarrow> pyval io" where
  "exec_vim_infra_profile_export api opts host_profile profile =
     vim_infra_profile_export api opts host_profile profile"

definition exec_vim_infra_profile_check_compliance :: "vmodl \<Rightarrow> pyval \<Rightarrow> pyval \<Rightarrow> profile \<Rightarrow> pyval io" where
  "exec_vim_infra_profile_check_compliance api opts host_profile profile =
     vim_infra_profile_check_compliance api opts host_profile profile"

subsection \<open>\<open>modules/vcf_vim_license.py\<close>\<close>

definition exec_vim_license_list :: "vmodl \<Rightarrow> pyval \<Rightarrow> profile \<Rightarrow> pyval io" where
  "exec_vim_license_list api opts profile = vim_license_list api opts profile"

definition exec_vim_license_get :: "vmodl \<Rightarrow> pyval \<Rightarrow> pyval \<Rightarrow> profile \<Rightarrow> pyval io" where
  "exec_vim_license_get api opts license_key profile = vim_license_get api opts license_key profile"

definition exec_vim_license_add :: "vmodl \<Rightarrow> pyval \<Rightarrow> pyval \<Rightarrow> pyval \<Rightarrow> profile \<Rightarrow> pyval io" where
  "exec_vim_license_add api opts license_key labels profile =
     vim_license_add api opts license_key labels profile"

definition exec_vim_license_remove :: "vmodl \<Rightarrow> pyval \<Rightarrow> pyval \<Rightarrow> profile \<Rightarrow> pyval io" where
  "exec_vim_license_remove api opts license_key profile = vim_license_remove api opts license_key profile"

definition exec_vim_license_assigned_list :: "vmodl \<Rightarrow> pyval \<Rightarrow> pyval \<Rightarrow> profile \<Rightarrow> pyval io" where
  "exec_vim_license_assigned_list api opts entity_id profile =
     vim_license_assigned_list api opts entity_id profile"

definition exec_vim_license_assign :: "vmodl \<Rightarrow> pyval \<Rightarrow> pyval \<Rightarrow> pyval \<Rightarrow> pyval \<Rightarrow> profile \<Rightarrow> pyval io" where
  "exec_vim_license_assign api opts entity_id license_key name profile =
     vim_license_assign api opts entity_id license_key name profile"

definition exec_vim_license_unassign :: "vmodl \<Rightarrow> pyval \<Rightarrow> pyval \<Rightarrow> profile \<Rightarrow> pyval io" where
  "exec_vim_license_unassign api opts entity_id profile = vim_license_unassign api opts entity_id profile"

subsection \<open>\<open>modules/vcf_vim_ovf.py\<close>\<close>

definition exec_vim_ovf_descriptor :: "vmodl \<Rightarrow> pyval \<Rightarrow> pyval \<Rightarrow> pyval \<Rightarrow> pyval \<Rightarrow> profile \<Rightarrow> pyval io" where
  "exec_vim_ovf_descriptor api opts vm ovf_name description profile =
     vim_ovf_descriptor api opts vm ovf_name description profile"

subsection \<open>\<open>modules/vcf_vim_perf.py\<close>\<close>

definition exec_vim_perf_counters :: "vmodl \<Rightarrow> pyval \<Rightarrow> profile \<Rightarrow> pyval kdict io" where
  "exec_vim_perf_counters api opts profile = vim_perf_counters api opts profile"

definition exec_vim_perf_available_metrics :: "vmodl \<Rightarrow> pyval \<Rightarrow> pyval \<Rightarrow> pyval \<Rightarrow> profile \<Rightarrow> pyval io" where
  "exec_vim_perf_available_metrics api opts entity_mo_id entity_type profile =
     vim_perf_available_metrics api opts entity_mo_id entity_type profile"

text \<open>The keyword \<open>profile\<close> is an argument of its own here. A keyword that the client does not have is refused.\<close>

definition perf_query_keywords :: "string list" where
  "perf_query_keywords = [''entity_type'', ''interval_id'', ''start_time'', ''end_time'', ''max_samples'']"

definition exec_vim_perf_query ::
  "vmodl \<Rightarrow> pyval \<Rightarrow> pyval \<Rightarrow> pyval \<Rightarrow> profile \<Rightarrow> dict \<Rightarrow> pyval io" where
  "exec_vim_perf_query api opts entity_mo_id counter_ids profile kwargs =
     (case filter (\<lambda>(k, _). k \<notin> set perf_query_keywords) kwargs of
        (k, _) # _ \<Rightarrow> raiseM (TypeError (''query() got an unexpected keyword argument '' @ repr_str k))
      | [] \<Rightarrow>
          vim_perf_query api opts entity_mo_id counter_ids (dget kwargs ''entity_type'' PNone)
            (dget kwargs ''interval_id'' (PInt 20)) (dget kwargs ''start_time'' PNone)
            (dget kwargs ''end_time'' PNone) (dget kwargs ''max_samples'' PNone) profile)"

subsection \<open>\<open>modules/vcf_vim_permission.py\<close>\<close>

definition exec_vim_permission_list :: "vmodl \<Rightarrow> pyval \<Rightarrow> pyval \<Rightarrow> pyval \<Rightarrow> profile \<Rightarrow> pyval io" where
  "exec_vim_permission_list api opts entity_ref inherited profile =
     vim_permission_list api opts entity_ref inherited profile"

definition exec_vim_permission_set ::
  "vmodl \<Rightarrow> pyval \<Rightarrow> pyval \<Rightarrow> pyval \<Rightarrow> pyval \<Rightarrow> pyval \<Rightarrow> pyval \<Rightarrow> profile \<Rightarrow> pyval io" where
  "exec_vim_permission_set api opts entity_ref principal_v role propagate grp profile =
     vim_permission_set api opts entity_ref principal_v role propagate grp profile"

definition exec_vim_permission_remove :: "vmodl \<Rightarrow> pyval \<Rightarrow> pyval \<Rightarrow> pyval
  \<Rightarrow> pyval \<Rightarrow> profile \<Rightarrow> pyval io" where
  "exec_vim_permission_remove api opts entity_ref principal_v grp profile =
     vim_permission_remove api opts entity_ref principal_v grp profile"

definition exec_vim_permission_reset :: "vmodl \<Rightarrow> pyval \<Rightarrow> pyval \<Rightarrow> profile \<Rightarrow> pyval io" where
  "exec_vim_permission_reset api opts entity_ref profile = vim_permission_reset api opts entity_ref
    profile"

subsection \<open>\<open>modules/vcf_vim_resource_pool.py\<close>\<close>

definition exec_vim_resource_pool_move :: "vmodl \<Rightarrow> pyval \<Rightarrow> pyval \<Rightarrow> pyval \<Rightarrow> profile \<Rightarrow> pyval io" where
  "exec_vim_resource_pool_move api opts rp target_parent profile =
     vim_resource_pool_move api opts rp target_parent profile"

definition exec_vim_resource_pool_get_shares :: "vmodl \<Rightarrow> pyval \<Rightarrow> pyval \<Rightarrow> profile \<Rightarrow> pyval io" where
  "exec_vim_resource_pool_get_shares api opts rp profile = vim_resource_pool_get_shares api opts rp
    profile"

definition exec_vim_resource_pool_set_shares :: "vmodl \<Rightarrow> pyval \<Rightarrow> pyval \<Rightarrow> pyval
  \<Rightarrow> pyval \<Rightarrow> profile \<Rightarrow> pyval io" where
  "exec_vim_resource_pool_set_shares api opts rp cpu memory profile =
     vim_resource_pool_set_shares api opts rp cpu memory profile"

subsection \<open>\<open>modules/vcf_vim_role.py\<close>\<close>

definition exec_vim_role_list :: "vmodl \<Rightarrow> pyval \<Rightarrow> profile \<Rightarrow> pyval io" where
  "exec_vim_role_list api opts profile = vim_role_list api opts profile"

definition exec_vim_role_get :: "vmodl \<Rightarrow> pyval \<Rightarrow> pyval \<Rightarrow> profile \<Rightarrow> pyval io" where
  "exec_vim_role_get api opts name profile = vim_role_get api opts name profile"

definition exec_vim_role_get_or_none :: "vmodl \<Rightarrow> pyval \<Rightarrow> pyval \<Rightarrow> profile \<Rightarrow> pyval io" where
  "exec_vim_role_get_or_none api opts name profile = vim_role_get_or_none api opts name profile"

definition exec_vim_role_create :: "vmodl \<Rightarrow> pyval \<Rightarrow> pyval \<Rightarrow> pyval \<Rightarrow> profile \<Rightarrow> pyval io" where
  "exec_vim_role_create api opts name privileges profile = vim_role_create api opts name privileges
    profile"

definition exec_vim_role_update :: "vmodl \<Rightarrow> pyval \<Rightarrow> pyval \<Rightarrow> pyval \<Rightarrow> profile \<Rightarrow> pyval io" where
  "exec_vim_role_update api opts name privileges profile = vim_role_update api opts name privileges
    profile"

definition exec_vim_role_rename :: "vmodl \<Rightarrow> pyval \<Rightarrow> pyval \<Rightarrow> pyval \<Rightarrow> profile \<Rightarrow> pyval io" where
  "exec_vim_role_rename api opts name new_name profile = vim_role_rename api opts name new_name profile"

definition exec_vim_role_delete :: "vmodl \<Rightarrow> pyval \<Rightarrow> pyval \<Rightarrow> pyval \<Rightarrow> profile \<Rightarrow> pyval io" where
  "exec_vim_role_delete api opts name fail_if_used profile = vim_role_delete api opts name fail_if_used
    profile"

definition exec_vim_role_list_privileges :: "vmodl \<Rightarrow> pyval \<Rightarrow> profile \<Rightarrow> pyval io" where
  "exec_vim_role_list_privileges api opts profile = vim_role_list_privileges api opts profile"

subsection \<open>\<open>modules/vcf_vim_scheduled_task.py\<close>\<close>

definition exec_vim_scheduled_task_list :: "vmodl \<Rightarrow> pyval \<Rightarrow> pyval \<Rightarrow> profile \<Rightarrow> pyval io" where
  "exec_vim_scheduled_task_list api opts entity profile = vim_scheduled_task_list api opts entity profile"

definition exec_vim_scheduled_task_get :: "vmodl \<Rightarrow> pyval \<Rightarrow> pyval \<Rightarrow> profile \<Rightarrow> pyval io" where
  "exec_vim_scheduled_task_get api opts task profile = vim_scheduled_task_get api opts task profile"

definition exec_vim_scheduled_task_create :: "vmodl \<Rightarrow> pyval \<Rightarrow> pyval \<Rightarrow> pyval \<Rightarrow> profile \<Rightarrow> pyval io" where
  "exec_vim_scheduled_task_create api opts entity spec profile =
     vim_scheduled_task_create api opts entity spec profile"

definition exec_vim_scheduled_task_reconfigure :: "vmodl \<Rightarrow> pyval \<Rightarrow> pyval \<Rightarrow> pyval
  \<Rightarrow> profile \<Rightarrow> pyval io" where
  "exec_vim_scheduled_task_reconfigure api opts task spec profile =
     vim_scheduled_task_reconfigure api opts task spec profile"

definition exec_vim_scheduled_task_delete :: "vmodl \<Rightarrow> pyval \<Rightarrow> pyval \<Rightarrow> profile \<Rightarrow> pyval io" where
  "exec_vim_scheduled_task_delete api opts task profile = vim_scheduled_task_delete api opts task profile"

definition exec_vim_scheduled_task_run_now :: "vmodl \<Rightarrow> pyval \<Rightarrow> pyval \<Rightarrow> profile \<Rightarrow> pyval io" where
  "exec_vim_scheduled_task_run_now api opts task profile = vim_scheduled_task_run_now api opts task
    profile"

subsection \<open>\<open>modules/vcf_vim_vapp.py\<close>\<close>

definition exec_vim_vapp_list :: "vmodl \<Rightarrow> pyval \<Rightarrow> profile \<Rightarrow> pyval io" where
  "exec_vim_vapp_list api opts profile = vim_vapp_list api opts profile"

definition exec_vim_vapp_get :: "vmodl \<Rightarrow> pyval \<Rightarrow> pyval \<Rightarrow> profile \<Rightarrow> pyval io" where
  "exec_vim_vapp_get api opts vapp profile = vim_vapp_get api opts vapp profile"

definition exec_vim_vapp_create :: "vmodl \<Rightarrow> pyval \<Rightarrow> pyval \<Rightarrow> pyval \<Rightarrow> pyval \<Rightarrow> profile \<Rightarrow> pyval io" where
  "exec_vim_vapp_create api opts name parent_resource_pool annotation profile =
     vim_vapp_create api opts name parent_resource_pool annotation profile"

definition exec_vim_vapp_power_on :: "vmodl \<Rightarrow> pyval \<Rightarrow> pyval \<Rightarrow> profile \<Rightarrow> pyval io" where
  "exec_vim_vapp_power_on api opts vapp profile = vim_vapp_power_on api opts vapp profile"

definition exec_vim_vapp_power_off :: "vmodl \<Rightarrow> pyval \<Rightarrow> pyval \<Rightarrow> pyval \<Rightarrow> profile \<Rightarrow> pyval io" where
  "exec_vim_vapp_power_off api opts vapp force profile = vim_vapp_power_off api opts vapp force profile"

definition exec_vim_vapp_suspend :: "vmodl \<Rightarrow> pyval \<Rightarrow> pyval \<Rightarrow> profile \<Rightarrow> pyval io" where
  "exec_vim_vapp_suspend api opts vapp profile = vim_vapp_suspend api opts vapp profile"

definition exec_vim_vapp_delete :: "vmodl \<Rightarrow> pyval \<Rightarrow> pyval \<Rightarrow> profile \<Rightarrow> pyval io" where
  "exec_vim_vapp_delete api opts vapp profile = vim_vapp_delete api opts vapp profile"

definition exec_vim_vapp_update :: "vmodl \<Rightarrow> pyval \<Rightarrow> pyval \<Rightarrow> pyval \<Rightarrow> profile \<Rightarrow> pyval io" where
  "exec_vim_vapp_update api opts vapp annotation profile = vim_vapp_update api opts vapp annotation
    profile"

subsection \<open>\<open>modules/vcf_vim_vasa.py\<close>\<close>

definition exec_vim_vasa_list :: "vmodl \<Rightarrow> pyval \<Rightarrow> profile \<Rightarrow> pyval io" where
  "exec_vim_vasa_list api opts profile = vim_vasa_list api opts profile"

definition exec_vim_vasa_get :: "vmodl \<Rightarrow> pyval \<Rightarrow> pyval \<Rightarrow> profile \<Rightarrow> pyval io" where
  "exec_vim_vasa_get api opts provider_id profile = vim_vasa_get api opts provider_id profile"

subsection \<open>\<open>modules/vcf_vim_vm.py\<close>\<close>

definition exec_vim_vm_clone ::
  "vmodl \<Rightarrow> pyval \<Rightarrow> pyval \<Rightarrow> pyval \<Rightarrow> pyval \<Rightarrow> pyval
    \<Rightarrow> pyval \<Rightarrow> pyval \<Rightarrow> pyval \<Rightarrow> pyval \<Rightarrow> pyval \<Rightarrow> pyval \<Rightarrow> pyval \<Rightarrow> pyval \<Rightarrow> profile \<Rightarrow> pyval io" where
  "exec_vim_vm_clone api opts source name folder datastore host resource_pool cluster template power_on cpu_count
    memory_mb annotation profile =
     vim_vm_clone api opts source name folder datastore host resource_pool cluster template power_on PNone cpu_count
       memory_mb annotation profile"

definition exec_vim_vm_create ::
  "vmodl \<Rightarrow> pyval \<Rightarrow> pyval \<Rightarrow> pyval \<Rightarrow> pyval \<Rightarrow> pyval
    \<Rightarrow> pyval \<Rightarrow> pyval \<Rightarrow> pyval \<Rightarrow> pyval \<Rightarrow> pyval \<Rightarrow> pyval \<Rightarrow> profile \<Rightarrow> pyval io" where
  "exec_vim_vm_create api opts name folder datastore cpu_count memory_mb guest_id cluster host resource_pool
    annotation profile =
     vim_vm_create api opts name folder datastore cpu_count memory_mb guest_id cluster host resource_pool annotation
       profile"

definition exec_vim_vm_reconfigure ::
  "vmodl \<Rightarrow> pyval \<Rightarrow> pyval \<Rightarrow> pyval \<Rightarrow> pyval \<Rightarrow> pyval \<Rightarrow> pyval \<Rightarrow> pyval \<Rightarrow> profile \<Rightarrow> pyval io" where
  "exec_vim_vm_reconfigure api opts vm cpu_count cores_per_socket memory_mb annotation advanced_settings profile
    =
     vim_vm_reconfigure api opts vm cpu_count cores_per_socket memory_mb annotation advanced_settings
       profile"

definition exec_vim_vm_get_advanced_settings :: "vmodl \<Rightarrow> pyval \<Rightarrow> pyval \<Rightarrow> profile \<Rightarrow> pyval io" where
  "exec_vim_vm_get_advanced_settings api opts vm profile = vim_vm_get_advanced_settings api opts vm
    profile"

definition exec_vim_vm_get_resource_config :: "vmodl \<Rightarrow> pyval \<Rightarrow> pyval \<Rightarrow> profile \<Rightarrow> pyval io" where
  "exec_vim_vm_get_resource_config api opts vm profile = vim_vm_get_resource_config api opts vm profile"

definition exec_vim_vm_set_resource_config ::
  "vmodl \<Rightarrow> pyval \<Rightarrow> pyval \<Rightarrow> pyval \<Rightarrow> pyval \<Rightarrow> pyval \<Rightarrow> pyval \<Rightarrow> pyval \<Rightarrow> profile \<Rightarrow> pyval io" where
  "exec_vim_vm_set_resource_config api opts vm cpu_affinity cpu_shares_level cpu_shares memory_reservation_mb
    memory_reservation_locked_to_max profile =
     vim_vm_set_resource_config api opts vm cpu_affinity cpu_shares_level cpu_shares memory_reservation_mb
       memory_reservation_locked_to_max profile"

definition exec_vim_vm_destroy :: "vmodl \<Rightarrow> pyval \<Rightarrow> pyval \<Rightarrow> profile \<Rightarrow> pyval io" where
  "exec_vim_vm_destroy api opts vm profile = vim_vm_destroy api opts vm profile"

definition exec_vim_vm_mark_as_template :: "vmodl \<Rightarrow> pyval \<Rightarrow> pyval \<Rightarrow> profile \<Rightarrow> pyval io" where
  "exec_vim_vm_mark_as_template api opts vm profile = vim_vm_mark_as_template api opts vm profile"

definition exec_vim_vm_mark_as_virtual_machine :: "vmodl \<Rightarrow> pyval \<Rightarrow> pyval \<Rightarrow> pyval
  \<Rightarrow> pyval \<Rightarrow> profile \<Rightarrow> pyval io" where
  "exec_vim_vm_mark_as_virtual_machine api opts template resource_pool host profile =
     vim_vm_mark_as_virtual_machine api opts template resource_pool host profile"

definition exec_vim_vm_instant_clone ::
  "vmodl \<Rightarrow> pyval \<Rightarrow> pyval \<Rightarrow> pyval \<Rightarrow> pyval \<Rightarrow> pyval \<Rightarrow> pyval \<Rightarrow> pyval \<Rightarrow> pyval \<Rightarrow> profile \<Rightarrow> pyval io" where
  "exec_vim_vm_instant_clone api opts source name folder datastore host resource_pool extra_config profile
    =
     vim_vm_instant_clone api opts source name folder datastore host resource_pool extra_config profile"

definition exec_vim_vm_move_to_folder :: "vmodl \<Rightarrow> pyval \<Rightarrow> pyval \<Rightarrow> pyval \<Rightarrow> profile \<Rightarrow> pyval io" where
  "exec_vim_vm_move_to_folder api opts vm folder profile = vim_vm_move_to_folder api opts vm folder
    profile"

definition exec_vim_vm_register ::
  "vmodl \<Rightarrow> pyval \<Rightarrow> pyval \<Rightarrow> pyval \<Rightarrow> pyval \<Rightarrow> pyval \<Rightarrow> pyval \<Rightarrow> pyval \<Rightarrow> pyval \<Rightarrow> profile \<Rightarrow> pyval io" where
  "exec_vim_vm_register api opts vmx_path name folder resource_pool cluster host as_template profile =
     vim_vm_register api opts vmx_path name folder resource_pool cluster host as_template profile"

definition exec_vim_vm_unregister :: "vmodl \<Rightarrow> pyval \<Rightarrow> pyval \<Rightarrow> profile \<Rightarrow> pyval io" where
  "exec_vim_vm_unregister api opts vm profile = vim_vm_unregister api opts vm profile"

subsection \<open>\<open>modules/vcf_vim_vm_cdrom.py\<close>\<close>

definition exec_vim_vm_cdrom_list :: "vmodl \<Rightarrow> pyval \<Rightarrow> pyval \<Rightarrow> profile \<Rightarrow> pyval io" where
  "exec_vim_vm_cdrom_list api opts vm profile = vim_vm_cdrom_list api opts vm profile"

definition exec_vim_vm_cdrom_add :: "vmodl \<Rightarrow> pyval \<Rightarrow> pyval \<Rightarrow> pyval \<Rightarrow>
  pyval \<Rightarrow> pyval \<Rightarrow> pyval \<Rightarrow> profile \<Rightarrow> pyval io" where
  "exec_vim_vm_cdrom_add api opts vm iso_path datastore controller_key start_connected profile =
     vim_vm_cdrom_add api opts vm iso_path datastore controller_key start_connected profile"

definition exec_vim_vm_cdrom_attach_iso :: "vmodl \<Rightarrow> pyval \<Rightarrow> pyval \<Rightarrow> pyval
  \<Rightarrow> pyval \<Rightarrow> pyval \<Rightarrow> profile \<Rightarrow> pyval io" where
  "exec_vim_vm_cdrom_attach_iso api opts vm iso_path cdrom_key datastore profile =
     vim_vm_cdrom_attach_iso api opts vm iso_path cdrom_key datastore profile"

definition exec_vim_vm_cdrom_eject :: "vmodl \<Rightarrow> pyval \<Rightarrow> pyval \<Rightarrow> pyval \<Rightarrow> profile \<Rightarrow> pyval io" where
  "exec_vim_vm_cdrom_eject api opts vm cdrom_key profile = vim_vm_cdrom_eject api opts vm cdrom_key
    profile"

definition exec_vim_vm_cdrom_remove :: "vmodl \<Rightarrow> pyval \<Rightarrow> pyval \<Rightarrow> pyval \<Rightarrow> profile \<Rightarrow> pyval io" where
  "exec_vim_vm_cdrom_remove api opts vm cdrom_key profile = vim_vm_cdrom_remove api opts vm cdrom_key
    profile"

subsection \<open>\<open>modules/vcf_vim_vm_console.py\<close>\<close>

definition exec_vim_vm_console_screenshot :: "vmodl \<Rightarrow> pyval \<Rightarrow> pyval \<Rightarrow> profile \<Rightarrow> pyval io" where
  "exec_vim_vm_console_screenshot api opts vm profile = vim_vm_console_screenshot api opts vm profile"

definition exec_vim_vm_console_send_keys :: "vmodl \<Rightarrow> pyval \<Rightarrow> pyval \<Rightarrow> pyval \<Rightarrow> profile \<Rightarrow> pyval io" where
  "exec_vim_vm_console_send_keys api opts vm keys profile = vim_vm_console_send_keys api opts vm keys
    profile"

subsection \<open>\<open>modules/vcf_vim_vm_customization.py\<close>\<close>

definition exec_vim_vm_customization_linux_spec ::
  "vmodl \<Rightarrow> pyval \<Rightarrow> pyval \<Rightarrow> pyval \<Rightarrow> pyval \<Rightarrow> pyval \<Rightarrow> pyval \<Rightarrow> pyval \<Rightarrow> pyval io" where
  "exec_vim_vm_customization_linux_spec api hostname domain time_zone hw_clock_utc nics dns_servers dns_search_path
    =
     vim_vm_customization_linux_spec api hostname domain time_zone hw_clock_utc nics dns_servers
       dns_search_path"

definition exec_vim_vm_customization_windows_spec ::
  "vmodl \<Rightarrow> pyval \<Rightarrow> pyval \<Rightarrow> pyval \<Rightarrow> pyval \<Rightarrow> pyval
    \<Rightarrow> pyval \<Rightarrow> pyval \<Rightarrow> pyval \<Rightarrow> pyval \<Rightarrow> pyval
      \<Rightarrow> pyval \<Rightarrow> pyval \<Rightarrow> pyval \<Rightarrow> pyval \<Rightarrow> pyval \<Rightarrow> pyval \<Rightarrow> pyval io" where
  "exec_vim_vm_customization_windows_spec api hostname workgroup_or_domain domain_join domain_admin
    domain_admin_password admin_password auto_logon auto_logon_count license_mode product_id full_name org_name
      time_zone nics dns_servers dns_search_path =
     vim_vm_customization_windows_spec api hostname workgroup_or_domain domain_join domain_admin
       domain_admin_password admin_password auto_logon auto_logon_count license_mode product_id full_name org_name
        time_zone nics dns_servers dns_search_path"

definition exec_vim_vm_customization_apply :: "vmodl \<Rightarrow> pyval \<Rightarrow> pyval \<Rightarrow> pyval \<Rightarrow> profile \<Rightarrow> pyval io" where
  "exec_vim_vm_customization_apply api opts vm spec profile =
     vim_vm_customization_apply api opts vm spec profile"

definition exec_vim_vm_customization_spec_list :: "vmodl \<Rightarrow> pyval \<Rightarrow> profile \<Rightarrow> pyval io" where
  "exec_vim_vm_customization_spec_list api opts profile = vim_vm_customization_spec_list api opts profile"

definition exec_vim_vm_customization_spec_delete :: "vmodl \<Rightarrow> pyval \<Rightarrow> pyval \<Rightarrow> profile \<Rightarrow> pyval io" where
  "exec_vim_vm_customization_spec_delete api opts name profile =
     vim_vm_customization_spec_delete api opts name profile"

subsection \<open>\<open>modules/vcf_vim_vm_devices.py\<close>\<close>

definition exec_vim_vm_devices_tpm_list :: "vmodl \<Rightarrow> pyval \<Rightarrow> pyval \<Rightarrow> profile \<Rightarrow> pyval io" where
  "exec_vim_vm_devices_tpm_list api opts vm profile = vim_vm_devices_tpm_list api opts vm profile"

definition exec_vim_vm_devices_tpm_add :: "vmodl \<Rightarrow> pyval \<Rightarrow> pyval \<Rightarrow> profile \<Rightarrow> pyval io" where
  "exec_vim_vm_devices_tpm_add api opts vm profile = vim_vm_devices_tpm_add api opts vm profile"

definition exec_vim_vm_devices_tpm_remove :: "vmodl \<Rightarrow> pyval \<Rightarrow> pyval \<Rightarrow> profile \<Rightarrow> pyval io" where
  "exec_vim_vm_devices_tpm_remove api opts vm profile = vim_vm_devices_tpm_remove api opts vm profile"

definition exec_vim_vm_devices_vgpu_list :: "vmodl \<Rightarrow> pyval \<Rightarrow> pyval \<Rightarrow> profile \<Rightarrow> pyval io" where
  "exec_vim_vm_devices_vgpu_list api opts vm profile = vim_vm_devices_vgpu_list api opts vm profile"

definition exec_vim_vm_devices_vgpu_add :: "vmodl \<Rightarrow> pyval \<Rightarrow> pyval \<Rightarrow> pyval \<Rightarrow> profile \<Rightarrow> pyval io" where
  "exec_vim_vm_devices_vgpu_add api opts vm profile_name profile =
     vim_vm_devices_vgpu_add api opts vm profile_name profile"

definition exec_vim_vm_devices_vgpu_remove :: "vmodl \<Rightarrow> pyval \<Rightarrow> pyval \<Rightarrow> pyval \<Rightarrow> profile \<Rightarrow> pyval io" where
  "exec_vim_vm_devices_vgpu_remove api opts vm profile_name profile =
     vim_vm_devices_vgpu_remove api opts vm profile_name profile"

definition exec_vim_vm_devices_video_get :: "vmodl \<Rightarrow> pyval \<Rightarrow> pyval \<Rightarrow> profile \<Rightarrow> pyval io" where
  "exec_vim_vm_devices_video_get api opts vm profile = vim_vm_devices_video_get api opts vm profile"

definition exec_vim_vm_devices_video_update ::
  "vmodl \<Rightarrow> pyval \<Rightarrow> pyval \<Rightarrow> pyval \<Rightarrow> pyval \<Rightarrow> pyval \<Rightarrow> pyval \<Rightarrow> profile \<Rightarrow> pyval io" where
  "exec_vim_vm_devices_video_update api opts vm video_ram_size_kb num_displays enable_3d_support
    graphics_memory_size_kb profile =
     vim_vm_devices_video_update api opts vm video_ram_size_kb num_displays enable_3d_support
       graphics_memory_size_kb profile"

definition exec_vim_vm_devices_serial_list :: "vmodl \<Rightarrow> pyval \<Rightarrow> pyval \<Rightarrow> profile \<Rightarrow> pyval io" where
  "exec_vim_vm_devices_serial_list api opts vm profile = vim_vm_devices_serial_list api opts vm profile"

definition exec_vim_vm_devices_serial_add ::
  "vmodl \<Rightarrow> pyval \<Rightarrow> pyval \<Rightarrow> pyval \<Rightarrow> pyval \<Rightarrow> pyval \<Rightarrow> pyval \<Rightarrow> profile \<Rightarrow> pyval io" where
  "exec_vim_vm_devices_serial_add api opts vm backing uri direction file_path profile =
     vim_vm_devices_serial_add api opts vm backing uri direction file_path profile"

definition exec_vim_vm_devices_serial_remove :: "vmodl \<Rightarrow> pyval \<Rightarrow> pyval \<Rightarrow> pyval \<Rightarrow> profile \<Rightarrow> pyval io" where
  "exec_vim_vm_devices_serial_remove api opts vm key profile =
     vim_vm_devices_serial_remove api opts vm key profile"

definition exec_vim_vm_devices_usb_controllers_list :: "vmodl \<Rightarrow> pyval \<Rightarrow> pyval \<Rightarrow> profile \<Rightarrow> pyval io" where
  "exec_vim_vm_devices_usb_controllers_list api opts vm profile =
     vim_vm_devices_usb_controllers_list api opts vm profile"

definition exec_vim_vm_devices_usb_controllers_remove :: "vmodl \<Rightarrow> pyval \<Rightarrow> pyval
  \<Rightarrow> profile \<Rightarrow> pyval io" where
  "exec_vim_vm_devices_usb_controllers_remove api opts vm profile =
     vim_vm_devices_usb_controllers_remove api opts vm profile"

definition exec_vim_vm_devices_list_vms_with_usb_controllers :: "vmodl \<Rightarrow> pyval \<Rightarrow> profile \<Rightarrow> pyval io" where
  "exec_vim_vm_devices_list_vms_with_usb_controllers api opts profile =
     vim_vm_devices_list_vms_with_usb_controllers api opts profile"

subsection \<open>\<open>modules/vcf_vim_vm_disk.py\<close>\<close>

definition exec_vim_vm_disk_list :: "vmodl \<Rightarrow> pyval \<Rightarrow> pyval \<Rightarrow> profile \<Rightarrow> pyval io" where
  "exec_vim_vm_disk_list api opts vm profile = vim_vm_disk_list api opts vm profile"

definition exec_vim_vm_disk_add ::
  "vmodl \<Rightarrow> pyval \<Rightarrow> pyval \<Rightarrow> pyval \<Rightarrow> pyval \<Rightarrow> pyval
    \<Rightarrow> pyval \<Rightarrow> pyval \<Rightarrow> pyval \<Rightarrow> pyval \<Rightarrow> profile \<Rightarrow> pyval io" where
  "exec_vim_vm_disk_add api opts vm size_gb datastore_moid controller_key unit_number disk_mode thin eager_scrub
    profile =
     vim_vm_disk_add api opts vm size_gb datastore_moid controller_key unit_number disk_mode thin eager_scrub
       profile"

definition exec_vim_vm_disk_resize :: "vmodl \<Rightarrow> pyval \<Rightarrow> pyval \<Rightarrow> pyval \<Rightarrow> pyval \<Rightarrow> profile \<Rightarrow> pyval io" where
  "exec_vim_vm_disk_resize api opts vm disk_key size_gb profile =
     vim_vm_disk_resize api opts vm disk_key size_gb profile"

definition exec_vim_vm_disk_remove :: "vmodl \<Rightarrow> pyval \<Rightarrow> pyval \<Rightarrow> pyval \<Rightarrow> pyval \<Rightarrow> profile \<Rightarrow> pyval io" where
  "exec_vim_vm_disk_remove api opts vm disk_key destroy_files profile =
     vim_vm_disk_remove api opts vm disk_key destroy_files profile"

subsection \<open>\<open>modules/vcf_vim_vm_features.py\<close>\<close>

definition exec_vim_vm_features_get_features :: "vmodl \<Rightarrow> pyval \<Rightarrow> pyval \<Rightarrow> profile \<Rightarrow> pyval io" where
  "exec_vim_vm_features_get_features api opts vm profile = vim_vm_features_get_features api opts vm
    profile"

definition exec_vim_vm_features_set_features ::
  "vmodl \<Rightarrow> pyval \<Rightarrow> pyval \<Rightarrow> pyval \<Rightarrow> pyval \<Rightarrow> pyval
    \<Rightarrow> pyval \<Rightarrow> pyval \<Rightarrow> pyval \<Rightarrow> pyval \<Rightarrow> pyval \<Rightarrow> pyval \<Rightarrow> profile \<Rightarrow> pyval io" where
  "exec_vim_vm_features_set_features api opts vm cpu_hot_add memory_hot_add nested_hv latency_sensitivity
    tools_sync_time_with_host firmware boot_delay enter_bios_setup efi_secure_boot profile =
     vim_vm_features_set_features api opts vm cpu_hot_add memory_hot_add nested_hv latency_sensitivity
       tools_sync_time_with_host firmware boot_delay enter_bios_setup efi_secure_boot profile"

definition exec_vim_vm_features_upgrade_hardware :: "vmodl \<Rightarrow> pyval \<Rightarrow> pyval \<Rightarrow>
  pyval \<Rightarrow> profile \<Rightarrow> pyval io" where
  "exec_vim_vm_features_upgrade_hardware api opts vm version profile =
     vim_vm_features_upgrade_hardware api opts vm version profile"

subsection \<open>\<open>modules/vcf_vim_vm_guest.py\<close>\<close>

definition exec_vim_vm_guest_run_command ::
  "vmodl \<Rightarrow> pyval \<Rightarrow> pyval \<Rightarrow> pyval \<Rightarrow> pyval \<Rightarrow> pyval \<Rightarrow> pyval \<Rightarrow> pyval \<Rightarrow> pyval \<Rightarrow> profile \<Rightarrow> pyval io" where
  "exec_vim_vm_guest_run_command api opts vm program_path arguments username password working_directory env profile
    =
     vim_vm_guest_run_command api opts vm program_path arguments username password working_directory env
       profile"

definition exec_vim_vm_guest_list_processes ::
  "vmodl \<Rightarrow> pyval \<Rightarrow> pyval \<Rightarrow> pyval \<Rightarrow> pyval \<Rightarrow> pyval \<Rightarrow> profile \<Rightarrow> pyval io" where
  "exec_vim_vm_guest_list_processes api opts vm username password pids profile =
     vim_vm_guest_list_processes api opts vm username password pids profile"

definition exec_vim_vm_guest_terminate_process ::
  "vmodl \<Rightarrow> pyval \<Rightarrow> pyval \<Rightarrow> pyval \<Rightarrow> pyval \<Rightarrow> pyval \<Rightarrow> profile \<Rightarrow> pyval io" where
  "exec_vim_vm_guest_terminate_process api opts vm pid username password profile =
     vim_vm_guest_terminate_process api opts vm pid username password profile"

definition exec_vim_vm_guest_read_environment ::
  "vmodl \<Rightarrow> pyval \<Rightarrow> pyval \<Rightarrow> pyval \<Rightarrow> pyval \<Rightarrow> pyval \<Rightarrow> profile \<Rightarrow> pyval io" where
  "exec_vim_vm_guest_read_environment api opts vm username password names profile =
     vim_vm_guest_read_environment api opts vm username password names profile"

definition exec_vim_vm_guest_list_files ::
  "vmodl \<Rightarrow> pyval \<Rightarrow> pyval \<Rightarrow> pyval \<Rightarrow> pyval \<Rightarrow> pyval \<Rightarrow> pyval \<Rightarrow> profile \<Rightarrow> pyval io" where
  "exec_vim_vm_guest_list_files api opts vm path username password pattern profile =
     vim_vm_guest_list_files api opts vm path username password pattern profile"

definition exec_vim_vm_guest_delete_file :: "vmodl \<Rightarrow> pyval \<Rightarrow> pyval \<Rightarrow> pyval
  \<Rightarrow> pyval \<Rightarrow> pyval \<Rightarrow> profile \<Rightarrow> pyval io" where
  "exec_vim_vm_guest_delete_file api opts vm path username password profile =
     vim_vm_guest_delete_file api opts vm path username password profile"

definition exec_vim_vm_guest_make_directory ::
  "vmodl \<Rightarrow> pyval \<Rightarrow> pyval \<Rightarrow> pyval \<Rightarrow> pyval \<Rightarrow> pyval \<Rightarrow> pyval \<Rightarrow> profile \<Rightarrow> pyval io" where
  "exec_vim_vm_guest_make_directory api opts vm path username password create_parents profile =
     vim_vm_guest_make_directory api opts vm path username password create_parents profile"

definition exec_vim_vm_guest_delete_directory ::
  "vmodl \<Rightarrow> pyval \<Rightarrow> pyval \<Rightarrow> pyval \<Rightarrow> pyval \<Rightarrow> pyval \<Rightarrow> pyval \<Rightarrow> profile \<Rightarrow> pyval io" where
  "exec_vim_vm_guest_delete_directory api opts vm path username password recursive profile =
     vim_vm_guest_delete_directory api opts vm path username password recursive profile"

definition exec_vim_vm_guest_move_file ::
  "vmodl \<Rightarrow> pyval \<Rightarrow> pyval \<Rightarrow> pyval \<Rightarrow> pyval \<Rightarrow> pyval \<Rightarrow> pyval \<Rightarrow> pyval \<Rightarrow> profile \<Rightarrow> pyval io" where
  "exec_vim_vm_guest_move_file api opts vm src_path dst_path username password overwrite profile =
     vim_vm_guest_move_file api opts vm src_path dst_path username password overwrite profile"

subsection \<open>\<open>modules/vcf_vim_vm_migrate.py\<close>\<close>

definition exec_vim_vm_migrate_migrate ::
  "vmodl \<Rightarrow> pyval \<Rightarrow> pyval \<Rightarrow> pyval \<Rightarrow> pyval \<Rightarrow> pyval \<Rightarrow> pyval \<Rightarrow> profile \<Rightarrow> pyval io" where
  "exec_vim_vm_migrate_migrate api opts vm host resource_pool priority st profile =
     vim_vm_migrate_migrate api opts vm host resource_pool priority st profile"

definition exec_vim_vm_migrate_relocate ::
  "vmodl \<Rightarrow> pyval \<Rightarrow> pyval \<Rightarrow> pyval \<Rightarrow> pyval \<Rightarrow> pyval \<Rightarrow> pyval \<Rightarrow> pyval \<Rightarrow> pyval \<Rightarrow> profile \<Rightarrow> pyval io" where
  "exec_vim_vm_migrate_relocate api opts vm host resource_pool datastore folder disk_format priority profile
    =
     vim_vm_migrate_relocate api opts vm host resource_pool datastore folder disk_format priority profile"

subsection \<open>\<open>modules/vcf_vim_vm_nic.py\<close>\<close>

definition exec_vim_vm_nic_list :: "vmodl \<Rightarrow> pyval \<Rightarrow> pyval \<Rightarrow> profile \<Rightarrow> pyval io" where
  "exec_vim_vm_nic_list api opts vm profile = vim_vm_nic_list api opts vm profile"

definition exec_vim_vm_nic_add ::
  "vmodl \<Rightarrow> pyval \<Rightarrow> pyval \<Rightarrow> pyval \<Rightarrow> pyval \<Rightarrow> pyval
    \<Rightarrow> pyval \<Rightarrow> pyval \<Rightarrow> pyval \<Rightarrow> pyval \<Rightarrow> profile \<Rightarrow> pyval io" where
  "exec_vim_vm_nic_add api opts vm nic_type network network_moid portgroup_key dvs_uuid mac_address start_connected
    profile =
     vim_vm_nic_add api opts vm nic_type network network_moid portgroup_key dvs_uuid mac_address start_connected
       profile"

definition exec_vim_vm_nic_update_backing ::
  "vmodl \<Rightarrow> pyval \<Rightarrow> pyval \<Rightarrow> pyval \<Rightarrow> pyval \<Rightarrow> pyval \<Rightarrow> pyval \<Rightarrow> profile \<Rightarrow> pyval io" where
  "exec_vim_vm_nic_update_backing api opts vm nic_key network_moid portgroup_key dvs_uuid profile =
     vim_vm_nic_update_backing api opts vm nic_key network_moid portgroup_key dvs_uuid profile"

definition exec_vim_vm_nic_set_connected :: "vmodl \<Rightarrow> pyval \<Rightarrow> pyval \<Rightarrow> pyval
  \<Rightarrow> pyval \<Rightarrow> profile \<Rightarrow> pyval io" where
  "exec_vim_vm_nic_set_connected api opts vm nic_key connected profile =
     vim_vm_nic_set_connected api opts vm nic_key connected profile"

definition exec_vim_vm_nic_remove :: "vmodl \<Rightarrow> pyval \<Rightarrow> pyval \<Rightarrow> pyval \<Rightarrow> profile \<Rightarrow> pyval io" where
  "exec_vim_vm_nic_remove api opts vm nic_key profile = vim_vm_nic_remove api opts vm nic_key profile"

subsection \<open>\<open>modules/vcf_vim_vm_power.py\<close>\<close>

definition exec_vim_vm_power_get_power_state :: "vmodl \<Rightarrow> pyval \<Rightarrow> pyval \<Rightarrow> profile \<Rightarrow> pyval io" where
  "exec_vim_vm_power_get_power_state api opts vm profile = vim_vm_power_get_power_state api opts vm
    profile"

definition exec_vim_vm_power_power_on :: "vmodl \<Rightarrow> pyval \<Rightarrow> pyval \<Rightarrow> pyval \<Rightarrow> profile \<Rightarrow> pyval io" where
  "exec_vim_vm_power_power_on api opts vm host profile = vim_vm_power_power_on api opts vm host profile"

definition exec_vim_vm_power_power_off :: "vmodl \<Rightarrow> pyval \<Rightarrow> pyval \<Rightarrow> profile \<Rightarrow> pyval io" where
  "exec_vim_vm_power_power_off api opts vm profile = vim_vm_power_power_off api opts vm profile"

definition exec_vim_vm_power_shutdown_guest :: "vmodl \<Rightarrow> pyval \<Rightarrow> pyval \<Rightarrow> profile \<Rightarrow> pyval io" where
  "exec_vim_vm_power_shutdown_guest api opts vm profile = vim_vm_power_shutdown_guest api opts vm profile"

definition exec_vim_vm_power_reboot_guest :: "vmodl \<Rightarrow> pyval \<Rightarrow> pyval \<Rightarrow> profile \<Rightarrow> pyval io" where
  "exec_vim_vm_power_reboot_guest api opts vm profile = vim_vm_power_reboot_guest api opts vm profile"

definition exec_vim_vm_power_standby_guest :: "vmodl \<Rightarrow> pyval \<Rightarrow> pyval \<Rightarrow> profile \<Rightarrow> pyval io" where
  "exec_vim_vm_power_standby_guest api opts vm profile = vim_vm_power_standby_guest api opts vm profile"

definition exec_vim_vm_power_reset :: "vmodl \<Rightarrow> pyval \<Rightarrow> pyval \<Rightarrow> profile \<Rightarrow> pyval io" where
  "exec_vim_vm_power_reset api opts vm profile = vim_vm_power_reset api opts vm profile"

definition exec_vim_vm_power_suspend :: "vmodl \<Rightarrow> pyval \<Rightarrow> pyval \<Rightarrow> profile \<Rightarrow> pyval io" where
  "exec_vim_vm_power_suspend api opts vm profile = vim_vm_power_suspend api opts vm profile"

definition exec_vim_vm_power_get_tools_status :: "vmodl \<Rightarrow> pyval \<Rightarrow> pyval \<Rightarrow> profile \<Rightarrow> pyval io" where
  "exec_vim_vm_power_get_tools_status api opts vm profile = vim_vm_tools_get_tools_status api opts vm
    profile"

definition exec_vim_vm_power_upgrade_tools :: "vmodl \<Rightarrow> pyval \<Rightarrow> pyval \<Rightarrow> pyval \<Rightarrow> profile \<Rightarrow> pyval io" where
  "exec_vim_vm_power_upgrade_tools api opts vm installer_options profile =
     vim_vm_tools_upgrade_tools api opts vm installer_options profile"

definition exec_vim_vm_power_mount_tools_installer :: "vmodl \<Rightarrow> pyval \<Rightarrow> pyval \<Rightarrow> profile \<Rightarrow> pyval io" where
  "exec_vim_vm_power_mount_tools_installer api opts vm profile =
     vim_vm_tools_mount_tools_installer api opts vm profile"

definition exec_vim_vm_power_unmount_tools_installer :: "vmodl \<Rightarrow> pyval \<Rightarrow> pyval \<Rightarrow> profile \<Rightarrow> pyval io" where
  "exec_vim_vm_power_unmount_tools_installer api opts vm profile =
     vim_vm_tools_unmount_tools_installer api opts vm profile"

subsection \<open>\<open>modules/vcf_vim_vm_snapshot.py\<close>\<close>

definition exec_vim_vm_snapshot_list :: "vmodl \<Rightarrow> pyval \<Rightarrow> pyval \<Rightarrow> profile \<Rightarrow> pyval io" where
  "exec_vim_vm_snapshot_list api opts vm profile = vim_vm_snapshot_list api opts vm profile"

definition exec_vim_vm_snapshot_current :: "vmodl \<Rightarrow> pyval \<Rightarrow> pyval \<Rightarrow> profile \<Rightarrow> pyval io" where
  "exec_vim_vm_snapshot_current api opts vm profile = vim_vm_snapshot_current api opts vm profile"

definition exec_vim_vm_snapshot_create ::
  "vmodl \<Rightarrow> pyval \<Rightarrow> pyval \<Rightarrow> pyval \<Rightarrow> pyval \<Rightarrow> pyval \<Rightarrow> pyval \<Rightarrow> pyval \<Rightarrow> profile \<Rightarrow> pyval io" where
  "exec_vim_vm_snapshot_create api opts vm name description memory quiesce vss_options profile =
     vim_vm_snapshot_create api opts vm name description memory quiesce vss_options profile"

definition exec_vim_vm_snapshot_revert :: "vmodl \<Rightarrow> pyval \<Rightarrow> pyval \<Rightarrow> pyval
  \<Rightarrow> pyval \<Rightarrow> profile \<Rightarrow> pyval io" where
  "exec_vim_vm_snapshot_revert api opts vm snapshot_name suppress_power_on profile =
     vim_vm_snapshot_revert api opts vm snapshot_name suppress_power_on profile"

definition exec_vim_vm_snapshot_remove :: "vmodl \<Rightarrow> pyval \<Rightarrow> pyval \<Rightarrow> pyval
  \<Rightarrow> pyval \<Rightarrow> profile \<Rightarrow> pyval io" where
  "exec_vim_vm_snapshot_remove api opts vm snapshot_name remove_children profile =
     vim_vm_snapshot_remove api opts vm snapshot_name remove_children profile"

definition exec_vim_vm_snapshot_remove_all :: "vmodl \<Rightarrow> pyval \<Rightarrow> pyval \<Rightarrow> profile \<Rightarrow> pyval io" where
  "exec_vim_vm_snapshot_remove_all api opts vm profile = vim_vm_snapshot_remove_all api opts vm profile"

definition exec_vim_vm_snapshot_consolidate :: "vmodl \<Rightarrow> pyval \<Rightarrow> pyval \<Rightarrow> profile \<Rightarrow> pyval io" where
  "exec_vim_vm_snapshot_consolidate api opts vm profile = vim_vm_snapshot_consolidate api opts vm profile"

definition exec_vim_vm_snapshot_state :: "vmodl \<Rightarrow> pyval \<Rightarrow> pyval \<Rightarrow> pyval \<Rightarrow> profile \<Rightarrow> pyval io" where
  "exec_vim_vm_snapshot_state api opts vm snapshot_name profile =
     vim_vm_snapshot_state api opts vm snapshot_name profile"

subsection \<open>\<open>modules/vcf_vim_vm_tools.py\<close>\<close>

definition exec_vim_vm_tools_get_tools_status :: "vmodl \<Rightarrow> pyval \<Rightarrow> pyval \<Rightarrow> profile \<Rightarrow> pyval io" where
  "exec_vim_vm_tools_get_tools_status api opts vm profile = vim_vm_tools_get_tools_status api opts vm
    profile"

definition exec_vim_vm_tools_upgrade_tools :: "vmodl \<Rightarrow> pyval \<Rightarrow> pyval \<Rightarrow> pyval \<Rightarrow> profile \<Rightarrow> pyval io" where
  "exec_vim_vm_tools_upgrade_tools api opts vm installer_options profile =
     vim_vm_tools_upgrade_tools api opts vm installer_options profile"

definition exec_vim_vm_tools_mount_tools_installer :: "vmodl \<Rightarrow> pyval \<Rightarrow> pyval \<Rightarrow> profile \<Rightarrow> pyval io" where
  "exec_vim_vm_tools_mount_tools_installer api opts vm profile =
     vim_vm_tools_mount_tools_installer api opts vm profile"

definition exec_vim_vm_tools_unmount_tools_installer :: "vmodl \<Rightarrow> pyval \<Rightarrow> pyval \<Rightarrow> profile \<Rightarrow> pyval io" where
  "exec_vim_vm_tools_unmount_tools_installer api opts vm profile =
     vim_vm_tools_unmount_tools_installer api opts vm profile"

subsection \<open>\<open>modules/vcf_vsan_cluster.py\<close>\<close>

definition exec_vsan_cluster_get :: "vmodl \<Rightarrow> pyval \<Rightarrow> pyval \<Rightarrow> profile \<Rightarrow> pyval io" where
  "exec_vsan_cluster_get api opts cluster profile = vsan_cluster_get api opts cluster profile"

definition exec_vsan_cluster_reconfigure :: "vmodl \<Rightarrow> pyval \<Rightarrow> pyval \<Rightarrow> profile \<Rightarrow> dict \<Rightarrow> pyval io" where
  "exec_vsan_cluster_reconfigure api opts cluster profile fields_v =
     vsan_cluster_reconfigure api opts cluster (dget fields_v ''enabled'' PNone) (dget fields_v
       ''dedup_compression_enabled'' PNone) (dget fields_v ''encryption_enabled'' PNone) (dget fields_v
        ''auto_claim_storage'' PNone) profile"

definition exec_vsan_cluster_runtime_info :: "vmodl \<Rightarrow> pyval \<Rightarrow> pyval \<Rightarrow> profile \<Rightarrow> pyval io" where
  "exec_vsan_cluster_runtime_info api opts cluster profile = vsan_cluster_runtime_info api opts cluster
    profile"

subsection \<open>\<open>modules/vcf_vsan_disk.py\<close>\<close>

definition exec_vsan_disk_host_status :: "vmodl \<Rightarrow> pyval \<Rightarrow> pyval \<Rightarrow> profile \<Rightarrow> pyval io" where
  "exec_vsan_disk_host_status api opts host profile = vsan_disk_host_status api opts host profile"

definition exec_vsan_disk_host_config :: "vmodl \<Rightarrow> pyval \<Rightarrow> pyval \<Rightarrow> profile \<Rightarrow> pyval io" where
  "exec_vsan_disk_host_config api opts host profile = vsan_disk_host_config api opts host profile"

definition exec_vsan_disk_host_disk_mapping :: "vmodl \<Rightarrow> pyval \<Rightarrow> pyval \<Rightarrow> profile \<Rightarrow> pyval io" where
  "exec_vsan_disk_host_disk_mapping api opts host profile = vsan_disk_host_disk_mapping api opts host
    profile"

definition exec_vsan_disk_query_disks_for_filter :: "vmodl \<Rightarrow> pyval \<Rightarrow> pyval \<Rightarrow> profile \<Rightarrow> pyval io" where
  "exec_vsan_disk_query_disks_for_filter api opts host profile =
     vsan_disk_query_disks_for_filter api opts host profile"

definition exec_vsan_disk_add_disks :: "vmodl \<Rightarrow> pyval \<Rightarrow> pyval \<Rightarrow> pyval \<Rightarrow> profile \<Rightarrow> pyval io" where
  "exec_vsan_disk_add_disks api opts host disks profile = vsan_disk_add_disks api opts host disks profile"

definition exec_vsan_disk_remove_disks :: "vmodl \<Rightarrow> pyval \<Rightarrow> pyval \<Rightarrow> pyval
  \<Rightarrow> pyval \<Rightarrow> profile \<Rightarrow> pyval io" where
  "exec_vsan_disk_remove_disks api opts host disks maintenance_mode_action profile =
     vsan_disk_remove_disks api opts host disks maintenance_mode_action profile"

subsection \<open>\<open>modules/vcf_vsan_fault_domain.py\<close>\<close>

definition exec_vsan_fault_domain_list :: "vmodl \<Rightarrow> pyval \<Rightarrow> pyval \<Rightarrow> profile \<Rightarrow> pyval io" where
  "exec_vsan_fault_domain_list api opts cluster profile = vsan_fault_domain_list api opts cluster profile"

definition exec_vsan_fault_domain_assign :: "vmodl \<Rightarrow> pyval \<Rightarrow> pyval \<Rightarrow> pyval \<Rightarrow> profile \<Rightarrow> pyval io" where
  "exec_vsan_fault_domain_assign api opts cluster mapping profile =
     vsan_fault_domain_assign api opts cluster mapping profile"

subsection \<open>\<open>modules/vcf_vsan_file_service.py\<close>\<close>

definition exec_vsan_file_service_enabled :: "vmodl \<Rightarrow> pyval \<Rightarrow> pyval \<Rightarrow> profile \<Rightarrow> pyval io" where
  "exec_vsan_file_service_enabled api opts cluster profile = vsan_file_service_enabled api opts cluster
    profile"

definition exec_vsan_file_service_set_enabled :: "vmodl \<Rightarrow> pyval \<Rightarrow> pyval \<Rightarrow> pyval
  \<Rightarrow> pyval \<Rightarrow> profile \<Rightarrow> pyval io" where
  "exec_vsan_file_service_set_enabled api opts cluster enabled network_name profile =
     vsan_file_service_set_enabled api opts cluster enabled network_name profile"

definition exec_vsan_file_service_download_ovf :: "vmodl \<Rightarrow> pyval \<Rightarrow> pyval \<Rightarrow> pyval
  \<Rightarrow> profile \<Rightarrow> pyval io" where
  "exec_vsan_file_service_download_ovf api opts cluster ovf_url profile =
     vsan_file_service_download_ovf api opts cluster ovf_url profile"

definition exec_vsan_file_service_list_domains :: "vmodl \<Rightarrow> pyval \<Rightarrow> pyval \<Rightarrow> profile \<Rightarrow> pyval io" where
  "exec_vsan_file_service_list_domains api opts cluster profile =
     vsan_file_service_list_domains api opts cluster profile"

definition exec_vsan_file_service_create_domain ::
  "vmodl \<Rightarrow> pyval \<Rightarrow> pyval \<Rightarrow> pyval \<Rightarrow> pyval \<Rightarrow> pyval \<Rightarrow> pyval \<Rightarrow> pyval \<Rightarrow> pyval \<Rightarrow> profile \<Rightarrow> pyval io" where
  "exec_vsan_file_service_create_domain api opts cluster domain_name ip_to_fqdn subnet_mask gateway_address
    dns_suffixes dns_address profile =
     vsan_file_service_create_domain api opts cluster domain_name ip_to_fqdn subnet_mask gateway_address
       dns_suffixes dns_address profile"

definition exec_vsan_file_service_remove_domain :: "vmodl \<Rightarrow> pyval \<Rightarrow> pyval \<Rightarrow>
  pyval \<Rightarrow> profile \<Rightarrow> pyval io" where
  "exec_vsan_file_service_remove_domain api opts cluster domain_name profile =
     vsan_file_service_remove_domain api opts cluster domain_name profile"

subsection \<open>\<open>modules/vcf_vsan_health.py\<close>\<close>

definition exec_vsan_health_summary :: "vmodl \<Rightarrow> pyval \<Rightarrow> pyval \<Rightarrow> pyval \<Rightarrow> profile \<Rightarrow> pyval io" where
  "exec_vsan_health_summary api opts cluster fetch_from_cache profile =
     vsan_health_summary api opts cluster fetch_from_cache profile"

definition exec_vsan_health_groups :: "vmodl \<Rightarrow> pyval \<Rightarrow> pyval \<Rightarrow> pyval \<Rightarrow> profile \<Rightarrow> pyval io" where
  "exec_vsan_health_groups api opts cluster fetch_from_cache profile =
     vsan_health_groups api opts cluster fetch_from_cache profile"

definition exec_vsan_health_overall :: "vmodl \<Rightarrow> pyval \<Rightarrow> pyval \<Rightarrow> pyval \<Rightarrow> profile \<Rightarrow> pyval io" where
  "exec_vsan_health_overall api opts cluster fetch_from_cache profile =
     vsan_health_overall api opts cluster fetch_from_cache profile"

definition exec_vsan_health_silenced_checks :: "vmodl \<Rightarrow> pyval \<Rightarrow> pyval \<Rightarrow> profile \<Rightarrow> pyval io" where
  "exec_vsan_health_silenced_checks api opts cluster profile =
     vsan_health_silenced_checks api opts cluster profile"

definition exec_vsan_health_silence :: "vmodl \<Rightarrow> pyval \<Rightarrow> pyval \<Rightarrow> pyval \<Rightarrow> profile \<Rightarrow> pyval io" where
  "exec_vsan_health_silence api opts cluster checks profile =
     vsan_health_silence api opts cluster checks profile"

definition exec_vsan_health_unsilence :: "vmodl \<Rightarrow> pyval \<Rightarrow> pyval \<Rightarrow> pyval \<Rightarrow> profile \<Rightarrow> pyval io" where
  "exec_vsan_health_unsilence api opts cluster checks profile =
     vsan_health_unsilence api opts cluster checks profile"

subsection \<open>Functions that only read\<close>

lemma exec_vim_host_datastore_list_reads [vim_intros]: "observed held api \<Longrightarrow> keeps (leaves held) (exec_vim_host_datastore_list api opts host profile)"
  unfolding exec_vim_host_datastore_list_def in_view_folds split_def by (intro vim_intros; (assumption | simp add: READING_def))

lemma exec_vim_vm_get_advanced_settings_reads [vim_intros]: "observed held api \<Longrightarrow> keeps (leaves held) (exec_vim_vm_get_advanced_settings api opts vm profile)"
  unfolding exec_vim_vm_get_advanced_settings_def in_view_folds split_def by (intro vim_intros; (assumption | simp add: READING_def))

lemma exec_vim_vm_get_resource_config_reads [vim_intros]: "observed held api \<Longrightarrow> keeps (leaves held) (exec_vim_vm_get_resource_config api opts vm profile)"
  unfolding exec_vim_vm_get_resource_config_def in_view_folds split_def by (intro vim_intros; (assumption | simp add: READING_def))

lemma exec_vim_vm_power_get_power_state_reads [vim_intros]: "observed held api \<Longrightarrow> keeps (leaves held) (exec_vim_vm_power_get_power_state api opts vm profile)"
  unfolding exec_vim_vm_power_get_power_state_def in_view_folds split_def by (intro vim_intros; (assumption | simp add: READING_def))

end
