(* ===== verification/Vcf_Vim.thy ===== *)
theory Vcf_Vim
  imports Exec_Vim Salt_State Vcenter_Inventory Scenario
begin

section \<open>Vcf_Vim: the states over pyVmomi\<close>

text \<open>
  The states of ESX hosts and of the objects of a vCenter: read, compare, and change what differs. The return of a state is the dict that Salt gets.
\<close>

subsection \<open>\<open>states/vcf_esxi_ad_auth.py\<close>\<close>

definition vcf_esxi_ad_auth_ret :: "pyval \<Rightarrow> dict" where
  "vcf_esxi_ad_auth_ret name =
     [(''name'', name), (''changes'', PDict []), (''result'', PBool True), (''comment'', PStr '''')]"

definition vcf_esxi_ad_auth_joined ::
  "vmodl \<Rightarrow> pyval \<Rightarrow> pyval \<Rightarrow> pyval \<Rightarrow> pyval \<Rightarrow> pyval \<Rightarrow> pyval \<Rightarrow> profile \<Rightarrow> pyval io" where
  "vcf_esxi_ad_auth_joined api opts name domain username password host profile =
     (let target = py_or host name in
      let ret = vcf_esxi_ad_auth_ret name in
      bindM (esxi_ad_auth_get_ad_state api opts target profile) (\<lambda>current.
      bindM (liftR (py_get current ''joined'' PNone)) (\<lambda>joined.
      bindM
        (if truthy joined then
           bindM (liftR (py_get current ''domain'' PNone)) (\<lambda>domain2.
           bindM (liftR (py_lower (py_or domain2 (PStr [])))) (\<lambda>text.
           bindM (liftR (py_lower domain)) (\<lambda>text2.
           pureM (text = text2))))
         else pureM False) (\<lambda>holds_v.
      if holds_v then
        let ret = dset ret ''comment'' (PStr (''already joined to '' @ py_str domain)) in
        pureM (PDict ret)
      else
        bindM (liftR (py_get current ''joined'' PNone)) (\<lambda>joined2.
        bindM
          (if truthy joined2 then
             bindM (liftR (py_get current ''domain'' PNone)) (\<lambda>domain3.
             pureM (truthy domain3))
           else pureM False) (\<lambda>holds_v2.
        if holds_v2 then
          let ret = dset ret ''result'' (PBool False) in
          bindM (liftR (py_item current ''domain'')) (\<lambda>domain4.
          let ret = dset ret ''comment'' (PStr (''joined to '' @ py_repr domain4 @ '', refusing to switch to '' @
        py_repr domain @ ''; use vcf_esxi_ad_auth.left first'')) in
          pureM (PDict ret))
        else
          bindM (liftR (py_get opts ''test'' PNone)) (\<lambda>tst.
          if truthy tst then
            let ret = dset ret ''result'' PNone in
            let ret = dset ret ''comment'' (PStr (''would join '' @ py_str domain)) in
            pureM (PDict ret)
          else
            bindM (esxi_ad_auth_join_domain api opts target domain username password profile) (\<lambda>task_id.
            bindM (liftR (py_get current ''domain'' PNone)) (\<lambda>domain5.
            let ret = dset ret ''changes'' (PDict [(''joined'', PDict [(''old'', domain5), (''new'', domain)]),
        (''task'', task_id)]) in
            let ret = dset ret ''comment'' (PStr (''joined '' @ py_str domain)) in
            pureM (PDict ret))))))))))"

definition vcf_esxi_ad_auth_left :: "vmodl \<Rightarrow> pyval \<Rightarrow> pyval \<Rightarrow> pyval \<Rightarrow> pyval \<Rightarrow> profile \<Rightarrow> pyval io" where
  "vcf_esxi_ad_auth_left api opts name force host profile =
     (let target = py_or host name in
      let ret = vcf_esxi_ad_auth_ret name in
      bindM (esxi_ad_auth_get_ad_state api opts target profile) (\<lambda>current.
      bindM (liftR (py_get current ''joined'' PNone)) (\<lambda>joined.
      if \<not> truthy joined then
        let ret = dset ret ''comment'' (PStr ''not joined to any AD domain'') in
        pureM (PDict ret)
      else
        bindM (liftR (py_get opts ''test'' PNone)) (\<lambda>tst.
        if truthy tst then
          let ret = dset ret ''result'' PNone in
          bindM (liftR (py_get current ''domain'' PNone)) (\<lambda>domain.
          let ret = dset ret ''comment'' (PStr (''would leave domain '' @ py_str domain)) in
          pureM (PDict ret))
        else
          bindM (esxi_ad_auth_leave_domain api opts target force profile) (\<lambda>task_id.
          bindM (liftR (py_get current ''domain'' PNone)) (\<lambda>domain2.
          let ret = dset ret ''changes'' (PDict [(''joined'', PDict [(''old'', domain2), (''new'', PNone)]),
        (''task'', task_id)]) in
          bindM (liftR (py_get current ''domain'' PNone)) (\<lambda>domain3.
          let ret = dset ret ''comment'' (PStr (''left domain '' @ py_str domain3)) in
          pureM (PDict ret))))))))"

subsection \<open>\<open>states/vcf_esxi_advanced.py\<close>\<close>

definition vcf_esxi_advanced_ret :: "pyval \<Rightarrow> dict" where
  "vcf_esxi_advanced_ret name =
     [(''name'', name), (''changes'', PDict []), (''result'', PBool True), (''comment'', PStr '''')]"

definition vcf_esxi_advanced_setting :: "vmodl \<Rightarrow> pyval \<Rightarrow> pyval \<Rightarrow> pyval \<Rightarrow> profile \<Rightarrow> pyval io" where
  "vcf_esxi_advanced_setting api opts name val profile =
     (let ret = vcf_esxi_advanced_ret name in
      bindM (esxi_advanced_get_or_none api opts name profile) (\<lambda>current.
      if current = PNone then
        let ret = dset ret ''result'' (PBool False) in
        let ret = dset ret ''comment'' (PStr (''Advanced setting '' @ py_str name @
        '' does not exist on this host'')) in
        pureM (PDict ret)
      else
        bindM (liftR (py_get current ''value'' PNone)) (\<lambda>current_value.
        if py_eq current_value val then
          let ret = dset ret ''comment'' (PStr (py_str name @ '' already '' @ py_repr val)) in
          pureM (PDict ret)
        else
          bindM (liftR (py_item opts ''test'')) (\<lambda>tst.
          if truthy tst then
            let ret = dset ret ''result'' PNone in
            let ret = dset ret ''comment'' (PStr (py_str name @ '' would change from '' @ py_repr current_value @
        '' to '' @ py_repr val)) in
            pureM (PDict ret)
          else
            bindM (esxi_advanced_set_value api opts name val profile) (\<lambda>_.
            let ret = dset ret ''changes'' (PDict [(''value'', PDict [(''old'', current_value), (''new'', val)])])
        in
            let ret = dset ret ''comment'' (PStr (py_str name @ '' set to '' @ py_repr val)) in
            pureM (PDict ret))))))"

subsection \<open>\<open>states/vcf_esxi_auth_proxy.py\<close>\<close>

definition vcf_esxi_auth_proxy_ret :: "pyval \<Rightarrow> dict" where
  "vcf_esxi_auth_proxy_ret name =
     [(''name'', name), (''changes'', PDict []), (''result'', PBool True), (''comment'', PStr '''')]"

definition vcf_esxi_auth_proxy_configured ::
  "vmodl \<Rightarrow> pyval \<Rightarrow> pyval \<Rightarrow> pyval \<Rightarrow> pyval \<Rightarrow> pyval \<Rightarrow> profile \<Rightarrow> pyval io" where
  "vcf_esxi_auth_proxy_configured api opts name cam_address verify_cam_cert host profile =
     (let target = py_or host name in
      let ret = vcf_esxi_auth_proxy_ret name in
      bindM (esxi_auth_proxy_get_config api opts target profile) (\<lambda>current.
      let changes = [] :: dict in
      bindM (liftR (py_get current ''cam_address'' PNone)) (\<lambda>cam_address2.
      bindM
        (if \<not> py_eq cam_address2 cam_address then
           bindM (liftR (py_get current ''cam_address'' PNone)) (\<lambda>cam_address3.
           pureM (dset changes ''cam_address'' (PDict [(''old'', cam_address3), (''new'', cam_address)])))
         else pureM changes) (\<lambda>changes.
      let desired_verify = truthy verify_cam_cert in
      bindM (liftR (py_get current ''verify_cam_cert'' PNone)) (\<lambda>verify_cam_cert2.
      bindM
        (if verify_cam_cert2 = PNone then pureM True
         else
           bindM (liftR (py_item current ''verify_cam_cert'')) (\<lambda>verify_cam_cert3.
           pureM (truthy verify_cam_cert3 \<noteq> desired_verify))) (\<lambda>holds_v.
      bindM
        (if holds_v then
           bindM (liftR (py_get current ''verify_cam_cert'' PNone)) (\<lambda>verify_cam_cert4.
           pureM (dset changes ''verify_cam_cert'' (PDict [(''old'', verify_cam_cert4), (''new'', PBool
        desired_verify)])))
         else pureM changes) (\<lambda>changes.
      if \<not> (changes \<noteq> []) then
        let ret = dset ret ''comment'' (PStr ''CAM already configured'') in
        pureM (PDict ret)
      else
        bindM (liftR (py_get opts ''test'' PNone)) (\<lambda>tst.
        if truthy tst then
          let ret = dset ret ''result'' PNone in
          bindM (liftR (py_sorted (map (\<lambda>(k, _). PStr k) changes))) (\<lambda>ordered.
          bindM (liftR (py_join '', '' ordered)) (\<lambda>text.
          let ret = dset ret ''comment'' (PStr (''CAM would update: '' @ text)) in
          pureM (PDict ret)))
        else
          bindM (liftR (py_in (PStr ''cam_address'') (PDict changes))) (\<lambda>found.
          bindM (liftR (py_in (PStr ''verify_cam_cert'') (PDict changes))) (\<lambda>found2.
          bindM
            (esxi_auth_proxy_set_config api opts target (if found then cam_address else PNone) (if found2 then PBool
        desired_verify else PNone) profile) (\<lambda>_.
          let ret = dset ret ''changes'' (PDict changes) in
          bindM (liftR (py_sorted (map (\<lambda>(k, _). PStr k) changes))) (\<lambda>ordered2.
          bindM (liftR (py_join '', '' ordered2)) (\<lambda>text2.
          let ret = dset ret ''comment'' (PStr (''CAM updated: '' @ text2)) in
          pureM (PDict ret))))))))))))))"

definition vcf_esxi_auth_proxy_joined :: "vmodl \<Rightarrow> pyval \<Rightarrow> pyval \<Rightarrow> pyval
  \<Rightarrow> pyval \<Rightarrow> pyval \<Rightarrow> profile \<Rightarrow> pyval io" where
  "vcf_esxi_auth_proxy_joined api opts name domain cam_server host profile =
     (let target = py_or host name in
      let ret = vcf_esxi_auth_proxy_ret name in
      bindM (esxi_auth_proxy_get_config api opts target profile) (\<lambda>current.
      bindM (liftR (py_get current ''joined'' PNone)) (\<lambda>joined.
      bindM
        (if truthy joined then
           bindM (liftR (py_get current ''domain'' PNone)) (\<lambda>domain2.
           bindM (liftR (py_lower (py_or domain2 (PStr [])))) (\<lambda>text.
           bindM (liftR (py_lower domain)) (\<lambda>text2.
           pureM (text = text2))))
         else pureM False) (\<lambda>holds_v.
      if holds_v then
        let ret = dset ret ''comment'' (PStr (''already joined to '' @ py_str domain)) in
        pureM (PDict ret)
      else
        bindM (liftR (py_get current ''joined'' PNone)) (\<lambda>joined2.
        bindM
          (if truthy joined2 then
             bindM (liftR (py_get current ''domain'' PNone)) (\<lambda>domain3.
             pureM (truthy domain3))
           else pureM False) (\<lambda>holds_v2.
        if holds_v2 then
          let ret = dset ret ''result'' (PBool False) in
          bindM (liftR (py_item current ''domain'')) (\<lambda>domain4.
          let ret = dset ret ''comment'' (PStr (''joined to '' @ py_repr domain4 @ '', refusing to switch to '' @
        py_repr domain @ ''; use vcf_esxi_auth_proxy.left first'')) in
          pureM (PDict ret))
        else
          bindM (liftR (py_get opts ''test'' PNone)) (\<lambda>tst.
          if truthy tst then
            let ret = dset ret ''result'' PNone in
            let ret = dset ret ''comment'' (PStr (''would join '' @ py_str domain @ '' via CAM '' @ py_str
        cam_server)) in
            pureM (PDict ret)
          else
            bindM (esxi_auth_proxy_join_domain_via_cam api opts target domain cam_server profile)
        (\<lambda>task_id.
            bindM (liftR (py_get current ''domain'' PNone)) (\<lambda>domain5.
            let ret = dset ret ''changes'' (PDict [(''joined'', PDict [(''old'', domain5), (''new'', domain)]),
        (''task'', task_id)]) in
            let ret = dset ret ''comment'' (PStr (''joined '' @ py_str domain @ '' via CAM '' @ py_str cam_server))
        in
            pureM (PDict ret))))))))))"

definition vcf_esxi_auth_proxy_left :: "vmodl \<Rightarrow> pyval \<Rightarrow> pyval \<Rightarrow> pyval \<Rightarrow> pyval \<Rightarrow> profile \<Rightarrow> pyval io" where
  "vcf_esxi_auth_proxy_left api opts name force host profile =
     (let target = py_or host name in
      let ret = vcf_esxi_auth_proxy_ret name in
      bindM (esxi_auth_proxy_get_config api opts target profile) (\<lambda>current.
      bindM (liftR (py_get current ''joined'' PNone)) (\<lambda>joined.
      if \<not> truthy joined then
        let ret = dset ret ''comment'' (PStr ''not joined to any AD domain'') in
        pureM (PDict ret)
      else
        bindM (liftR (py_get opts ''test'' PNone)) (\<lambda>tst.
        if truthy tst then
          let ret = dset ret ''result'' PNone in
          bindM (liftR (py_get current ''domain'' PNone)) (\<lambda>domain.
          let ret = dset ret ''comment'' (PStr (''would leave domain '' @ py_str domain)) in
          pureM (PDict ret))
        else
          bindM (esxi_auth_proxy_leave_domain api opts target force profile) (\<lambda>task_id.
          bindM (liftR (py_get current ''domain'' PNone)) (\<lambda>domain2.
          let ret = dset ret ''changes'' (PDict [(''joined'', PDict [(''old'', domain2), (''new'', PNone)]),
        (''task'', task_id)]) in
          bindM (liftR (py_get current ''domain'' PNone)) (\<lambda>domain3.
          let ret = dset ret ''comment'' (PStr (''left domain '' @ py_str domain3)) in
          pureM (PDict ret))))))))"

subsection \<open>\<open>states/vcf_esxi_firewall.py\<close>\<close>

definition vcf_esxi_firewall_ret :: "pyval \<Rightarrow> dict" where
  "vcf_esxi_firewall_ret name =
     [(''name'', name), (''changes'', PDict []), (''result'', PBool True), (''comment'', PStr '''')]"

definition vcf_esxi_firewall_rule_enabled ::
  "vmodl \<Rightarrow> pyval \<Rightarrow> pyval \<Rightarrow> pyval \<Rightarrow> pyval \<Rightarrow> pyval \<Rightarrow> profile \<Rightarrow> pyval io" where
  "vcf_esxi_firewall_rule_enabled api opts name enabled allowed_ips all_ip profile =
     (let ret = vcf_esxi_firewall_ret name in
      bindM (esxi_firewall_get_or_none api opts name profile) (\<lambda>rule.
      if rule = PNone then
        let ret = dset ret ''result'' (PBool False) in
        let ret = dset ret ''comment'' (PStr (''Rule '' @ py_str name @ '' not found'')) in
        pureM (PDict ret)
      else
        let actions = [] in
        let changes = [] :: dict in
        bindM (liftR (py_get rule ''enabled'' PNone)) (\<lambda>enabled2.
        bindM
          (if \<not> py_eq enabled2 (PBool (truthy enabled)) then
             let actions = actions @ [PStr (''enabled='' @ py_str enabled)] in
             bindM (liftR (py_get rule ''enabled'' PNone)) (\<lambda>enabled3.
             let changes = dset changes ''enabled'' (PDict [(''old'', enabled3), (''new'', PBool (truthy enabled))])
        in
             pureM (actions, changes))
           else pureM (actions, changes)) (\<lambda>(actions, changes).
        bindM (liftR (py_get rule ''allowed_hosts'' PNone)) (\<lambda>allowed_hosts.
        let current_hosts = py_or allowed_hosts (PDict []) in
        bindM
          (if (allowed_ips \<noteq> PNone) \<or> (all_ip \<noteq> PNone) then
             bindM
               (if all_ip \<noteq> PNone then pureM all_ip
                else liftR (py_get current_hosts ''all_ip'' (PBool False))) (\<lambda>x.
             let desired_all = truthy x in
             bindM
               (if allowed_ips \<noteq> PNone then liftR (py_iter allowed_ips)
                else
                  bindM (liftR (py_get current_hosts ''ip_addresses'' PNone)) (\<lambda>ip_addresses.
                  liftR (py_iter (py_or ip_addresses (PList []))))) (\<lambda>desired_ips.
             bindM (liftR (py_get current_hosts ''all_ip'' (PBool False))) (\<lambda>all_ip3.
             let current_all = truthy all_ip3 in
             bindM (liftR (py_get current_hosts ''ip_addresses'' PNone)) (\<lambda>ip_addresses2.
             bindM (liftR (py_iter (py_or ip_addresses2 (PList [])))) (\<lambda>current_ips.
             bindM
               (if current_all \<noteq> desired_all then pureM True
                else
                  bindM (liftR (py_sorted current_ips)) (\<lambda>ordered.
                  bindM (liftR (py_sorted desired_ips)) (\<lambda>ordered2.
                  pureM (\<not> py_eq (PList ordered) (PList ordered2))))) (\<lambda>holds_v.
             pureM (if holds_v then (let actions = actions @ [PStr ''allowed_hosts''] in (let changes = dset changes
        ''allowed_hosts'' (PDict [(''old'', PDict [(''all_ip'', PBool current_all), (''ip_addresses'', PList
        current_ips)]), (''new'', PDict [(''all_ip'', PBool desired_all), (''ip_addresses'', PList desired_ips)])])
        in (actions, changes))) else (actions, changes))))))))
           else pureM (actions, changes)) (\<lambda>(actions, changes).
        if \<not> (actions \<noteq> []) then
          let ret = dset ret ''comment'' (PStr (''Rule '' @ py_str name @ '' already matches'')) in
          pureM (PDict ret)
        else
          bindM (liftR (py_item opts ''test'')) (\<lambda>tst.
          if truthy tst then
            let ret = dset ret ''result'' PNone in
            bindM (liftR (py_join '', '' actions)) (\<lambda>text.
            let ret = dset ret ''comment'' (PStr (''Rule '' @ py_str name @ '' would change: '' @ text))
        in
            pureM (PDict ret))
          else
            bindM
              (if list_ex (py_eq (PStr (''enabled='' @ py_str enabled))) actions then pureM True
               else anyM (\<lambda>a. liftR (py_startswith a ''enabled='')) actions) (\<lambda>holds_v3.
            bindM
              (if holds_v3 then
                 bindM (esxi_firewall_set_enabled api opts name enabled profile) (\<lambda>_.
                 pureM ())
               else pureM ()) (\<lambda>_.
            bindM
              (if list_ex (py_eq (PStr ''allowed_hosts'')) actions then
                 bindM (liftR (py_item (PDict changes) ''allowed_hosts'')) (\<lambda>allowed_hosts2.
                 bindM (liftR (py_item allowed_hosts2 ''new'')) (\<lambda>new.
                 bindM (liftR (py_item new ''ip_addresses'')) (\<lambda>ip_addresses3.
                 bindM (liftR (py_item (PDict changes) ''allowed_hosts'')) (\<lambda>allowed_hosts3.
                 bindM (liftR (py_item allowed_hosts3 ''new'')) (\<lambda>new2.
                 bindM (liftR (py_item new2 ''all_ip'')) (\<lambda>all_ip4.
                 bindM (esxi_firewall_set_allowed_ips api opts name ip_addresses3 all_ip4 profile) (\<lambda>_.
                 pureM ())))))))
               else pureM ()) (\<lambda>_.
            let ret = dset ret ''changes'' (PDict changes) in
            bindM (liftR (py_join '', '' actions)) (\<lambda>text2.
            let ret = dset ret ''comment'' (PStr (''Rule '' @ py_str name @ '' updated: '' @ text2)) in
            pureM (PDict ret))))))))))))"

definition vcf_esxi_firewall_rule_disabled :: "vmodl \<Rightarrow> pyval \<Rightarrow> pyval \<Rightarrow> profile \<Rightarrow> pyval io" where
  "vcf_esxi_firewall_rule_disabled api opts name profile =
     vcf_esxi_firewall_rule_enabled api opts name (PBool False) PNone PNone profile"

definition vcf_esxi_firewall_global_enabled :: "vmodl \<Rightarrow> pyval \<Rightarrow> pyval \<Rightarrow> pyval \<Rightarrow> profile \<Rightarrow> pyval io" where
  "vcf_esxi_firewall_global_enabled api opts name enabled profile =
     (let ret = vcf_esxi_firewall_ret name in
      bindM (esxi_firewall_enabled api opts profile) (\<lambda>current.
      if truthy current = truthy enabled then
        let ret = dset ret ''comment'' (PStr (''host firewall already '' @ (if truthy enabled then ''enabled'' else
        ''disabled''))) in
        pureM (PDict ret)
      else
        bindM (liftR (py_item opts ''test'')) (\<lambda>tst.
        if truthy tst then
          let ret = dset ret ''result'' PNone in
          let ret = dset ret ''comment'' (PStr (''host firewall would be '' @ (if truthy enabled then ''enabled''
        else ''disabled''))) in
          pureM (PDict ret)
        else
          bindM (esxi_firewall_set_global_enabled api opts (PBool (truthy enabled)) profile) (\<lambda>_.
          let ret = dset ret ''changes'' (PDict [(''enabled'', PDict [(''old'', PBool (truthy current)), (''new'',
        PBool (truthy enabled))])]) in
          let ret = dset ret ''comment'' (PStr (''host firewall '' @ (if truthy enabled then ''enabled'' else
        ''disabled''))) in
          pureM (PDict ret)))))"

subsection \<open>\<open>states/vcf_esxi_host.py\<close>\<close>

definition vcf_esxi_host_ret :: "pyval \<Rightarrow> dict" where
  "vcf_esxi_host_ret name =
     [(''name'', name), (''changes'', PDict []), (''result'', PBool True), (''comment'', PStr '''')]"

definition vcf_esxi_host_maintenance :: "vmodl \<Rightarrow> pyval \<Rightarrow> pyval \<Rightarrow> pyval \<Rightarrow> profile \<Rightarrow> pyval io" where
  "vcf_esxi_host_maintenance api opts name enabled profile =
     (let ret = vcf_esxi_host_ret name in
      bindM (esxi_host_info api opts profile) (\<lambda>current.
      bindM (esxi_host_is_in_maintenance current) (\<lambda>in_maint.
      if py_eq in_maint (PBool (truthy enabled)) then
        let ret = dset ret ''comment'' (PStr (''Host is already '' @ (if truthy enabled then ''in'' else ''out of'')
        @ '' maintenance mode'')) in
        pureM (PDict ret)
      else
        bindM (liftR (py_item opts ''test'')) (\<lambda>tst.
        if truthy tst then
          let ret = dset ret ''result'' PNone in
          let ret = dset ret ''comment'' (PStr (''Host would '' @ (if truthy enabled then ''enter'' else ''exit'') @
        '' maintenance mode'')) in
          pureM (PDict ret)
        else
          bindM
            (if truthy enabled then
               bindM (esxi_host_enter_maintenance api opts profile) (\<lambda>_.
               pureM ())
             else
               bindM (esxi_host_exit_maintenance api opts profile) (\<lambda>_.
               pureM ())) (\<lambda>_.
          let ret = dset ret ''changes'' (PDict [(''maintenance'', enabled)]) in
          let ret = dset ret ''comment'' (PStr (''Host '' @ (if truthy enabled then ''entered'' else ''exited'') @
        '' maintenance mode'')) in
          pureM (PDict ret))))))"

definition vcf_esxi_host_lockdown :: "vmodl \<Rightarrow> pyval \<Rightarrow> pyval \<Rightarrow> pyval \<Rightarrow> pyval \<Rightarrow> profile \<Rightarrow> pyval io" where
  "vcf_esxi_host_lockdown api opts name md exception_users profile =
     (let ret = vcf_esxi_host_ret name in
      bindM (esxi_host_lockdown_get api opts profile) (\<lambda>lockdown_get.
      let current = py_or lockdown_get (PDict []) in
      bindM (liftR (py_get current ''mode'' PNone)) (\<lambda>current_mode.
      bindM (liftR (py_get current ''exception_users'' PNone)) (\<lambda>exception_users2.
      bindM (liftR (py_iter (py_or exception_users2 (PList [])))) (\<lambda>items.
      bindM (liftR (py_sorted items)) (\<lambda>current_excepts.
      bindM (liftR (py_iter (py_or exception_users (PList [])))) (\<lambda>items2.
      bindM (liftR (py_sorted items2)) (\<lambda>desired_excepts.
      if (py_eq current_mode md) \<and> (py_eq (PList current_excepts) (PList desired_excepts)) then
        let ret = dset ret ''comment'' (PStr (''Lockdown already at '' @ py_str md)) in
        pureM (PDict ret)
      else
        bindM (liftR (py_item opts ''test'')) (\<lambda>tst.
        if truthy tst then
          let ret = dset ret ''result'' PNone in
          let ret = dset ret ''comment'' (PStr (''Lockdown would change to '' @ py_str md)) in
          pureM (PDict ret)
        else
          bindM (esxi_host_lockdown_set api opts md exception_users profile) (\<lambda>_.
          let ret = dset ret ''changes'' (PDict [(''mode'', PDict [(''old'', current_mode), (''new'', md)])])
        in
          bindM
            (if \<not> py_eq (PList current_excepts) (PList desired_excepts) then
               bindM (liftR (py_item (PDict ret) ''changes'')) (\<lambda>changes.
               bindM
                 (liftR (py_setitem changes ''exception_users'' (PDict [(''old'', PList current_excepts), (''new'',
        PList desired_excepts)]))) (\<lambda>changes2.
               pureM (dset ret ''changes'' changes2)))
             else pureM ret) (\<lambda>ret.
          let ret = dset ret ''comment'' (PStr (''Lockdown updated to '' @ py_str md)) in
          pureM (PDict ret))))))))))))"

subsection \<open>\<open>states/vcf_esxi_ntp.py\<close>\<close>

definition vcf_esxi_ntp_ret :: "pyval \<Rightarrow> dict" where
  "vcf_esxi_ntp_ret name =
     [(''name'', name), (''changes'', PDict []), (''result'', PBool True), (''comment'', PStr '''')]"

definition vcf_esxi_ntp_servers :: "vmodl \<Rightarrow> pyval \<Rightarrow> pyval \<Rightarrow> pyval \<Rightarrow> pyval \<Rightarrow> profile \<Rightarrow> pyval io" where
  "vcf_esxi_ntp_servers api opts name servers enabled profile =
     (let ret = vcf_esxi_ntp_ret name in
      bindM (esxi_ntp_get api opts profile) (\<lambda>get.
      let current = py_or get (PDict []) in
      bindM (liftR (py_get current ''servers'' PNone)) (\<lambda>servers2.
      bindM (liftR (py_iter (py_or servers2 (PList [])))) (\<lambda>items.
      bindM (liftR (py_sorted items)) (\<lambda>current_servers.
      bindM (liftR (py_iter servers)) (\<lambda>items2.
      bindM (liftR (py_sorted items2)) (\<lambda>desired_servers.
      let actions = [] in
      let changes = [] :: dict in
      let (actions, changes) = (if \<not> py_eq (PList current_servers) (PList desired_servers) then (let actions =
        actions @ [PStr ''servers''] in (let changes = dset changes ''servers'' (PDict [(''old'', PList
        current_servers), (''new'', PList desired_servers)]) in (actions, changes))) else (actions, changes))
        in
      bindM (liftR (py_get current ''enabled'' PNone)) (\<lambda>enabled2.
      bindM
        (if \<not> py_eq enabled2 (PBool (truthy enabled)) then
           let actions = actions @ [PStr (''enabled='' @ py_str enabled)] in
           bindM (liftR (py_get current ''enabled'' PNone)) (\<lambda>enabled3.
           let changes = dset changes ''enabled'' (PDict [(''old'', enabled3), (''new'', PBool (truthy enabled))])
        in
           pureM (actions, changes))
         else pureM (actions, changes)) (\<lambda>(actions, changes).
      if \<not> (actions \<noteq> []) then
        let ret = dset ret ''comment'' (PStr ''NTP already configured'') in
        pureM (PDict ret)
      else
        bindM (liftR (py_item opts ''test'')) (\<lambda>tst.
        if truthy tst then
          let ret = dset ret ''result'' PNone in
          bindM (liftR (py_join '', '' actions)) (\<lambda>text.
          let ret = dset ret ''comment'' (PStr (''NTP would change: '' @ text)) in
          pureM (PDict ret))
        else
          bindM
            (if list_ex (py_eq (PStr ''servers'')) actions then
               bindM (esxi_ntp_set_servers api opts servers profile) (\<lambda>_.
               pureM ())
             else pureM ()) (\<lambda>_.
          bindM (anyM (\<lambda>a. liftR (py_startswith a ''enabled='')) actions) (\<lambda>found.
          bindM
            (if found then bindM (esxi_ntp_set_enabled api opts enabled profile) (\<lambda>_. pureM ()) else pureM
        ()) (\<lambda>_.
          let ret = dset ret ''changes'' (PDict changes) in
          bindM (liftR (py_join '', '' actions)) (\<lambda>text2.
          let ret = dset ret ''comment'' (PStr (''NTP updated: '' @ text2)) in
          pureM (PDict ret)))))))))))))))"

subsection \<open>\<open>states/vcf_esxi_service.py\<close>\<close>

definition vcf_esxi_service_ret :: "pyval \<Rightarrow> dict" where
  "vcf_esxi_service_ret name =
     [(''name'', name), (''changes'', PDict []), (''result'', PBool True), (''comment'', PStr '''')]"

definition vcf_esxi_service_get_or_fail :: "vmodl \<Rightarrow> pyval \<Rightarrow> pyval \<Rightarrow> profile \<Rightarrow> pyval io" where
  "vcf_esxi_service_get_or_fail api opts name profile =
     bindM (esxi_service_get_or_none api opts name profile) (\<lambda>svc.
     if svc = PNone then
       pureM (PList [PNone, PStr (''Service '' @ py_str name @ '' does not exist on this host'')])
     else pureM (PList [svc, PNone]))"

definition vcf_esxi_service_policy :: "vmodl \<Rightarrow> pyval \<Rightarrow> pyval \<Rightarrow> pyval \<Rightarrow> profile \<Rightarrow> pyval io" where
  "vcf_esxi_service_policy api opts name policy profile =
     (let ret = vcf_esxi_service_ret name in
      bindM (vcf_esxi_service_get_or_fail api opts name profile) (\<lambda>get_or_fail2.
      bindM (liftR (py_pair get_or_fail2)) (\<lambda>(svc, err).
      if truthy err then
        let ret = dset ret ''result'' (PBool False) in
        let ret = dset ret ''comment'' err in
        pureM (PDict ret)
      else
        bindM (liftR (py_get svc ''policy'' PNone)) (\<lambda>current.
        if py_eq current policy then
          let ret = dset ret ''comment'' (PStr (''Service '' @ py_str name @ '' policy already '' @ py_str policy))
        in
          pureM (PDict ret)
        else
          bindM (liftR (py_item opts ''test'')) (\<lambda>tst.
          if truthy tst then
            let ret = dset ret ''result'' PNone in
            let ret = dset ret ''comment'' (PStr (''Service '' @ py_str name @ '' policy would change to '' @ py_str
        policy)) in
            pureM (PDict ret)
          else
            bindM (esxi_service_set_policy api opts name policy profile) (\<lambda>_.
            let ret = dset ret ''changes'' (PDict [(''policy'', PDict [(''old'', current), (''new'', policy)])])
        in
            let ret = dset ret ''comment'' (PStr (''Service '' @ py_str name @ '' policy set to '' @ py_str policy))
        in
            pureM (PDict ret)))))))"

definition vcf_esxi_service_running :: "vmodl \<Rightarrow> pyval \<Rightarrow> pyval \<Rightarrow> pyval \<Rightarrow> profile \<Rightarrow> pyval io" where
  "vcf_esxi_service_running api opts name policy profile =
     (let ret = vcf_esxi_service_ret name in
      bindM (vcf_esxi_service_get_or_fail api opts name profile) (\<lambda>get_or_fail2.
      bindM (liftR (py_pair get_or_fail2)) (\<lambda>(svc, err).
      if truthy err then
        let ret = dset ret ''result'' (PBool False) in
        let ret = dset ret ''comment'' err in
        pureM (PDict ret)
      else
        let actions = [] in
        let changes = [] :: dict in
        bindM (esxi_service_is_running svc) (\<lambda>is_running.
        bindM
          (if \<not> truthy is_running then
             let actions = actions @ [PStr ''start''] in
             bindM (liftR (py_get svc ''state'' PNone)) (\<lambda>st.
             let changes = dset changes ''state'' (PDict [(''old'', st), (''new'', PStr ''RUNNING'')]) in
             pureM (actions, changes))
           else pureM (actions, changes)) (\<lambda>(actions, changes).
        bindM
          (if policy \<noteq> PNone then
             bindM (liftR (py_get svc ''policy'' PNone)) (\<lambda>policy2.
             pureM (\<not> py_eq policy2 policy))
           else pureM False) (\<lambda>holds_v.
        bindM
          (if holds_v then
             let actions = actions @ [PStr (''policy='' @ py_str policy)] in
             bindM (liftR (py_get svc ''policy'' PNone)) (\<lambda>policy3.
             let changes = dset changes ''policy'' (PDict [(''old'', policy3), (''new'', policy)]) in
             pureM (actions, changes))
           else pureM (actions, changes)) (\<lambda>(actions, changes).
        if \<not> (actions \<noteq> []) then
          let ret = dset ret ''comment'' (PStr (''Service '' @ py_str name @ '' already running'' @ (if truthy
        policy then '' with policy '' @ py_str policy else []))) in
          pureM (PDict ret)
        else
          bindM (liftR (py_item opts ''test'')) (\<lambda>tst.
          if truthy tst then
            let ret = dset ret ''result'' PNone in
            bindM (liftR (py_join '', '' actions)) (\<lambda>text.
            let ret = dset ret ''comment'' (PStr (''Service '' @ py_str name @ '' would be updated: '' @ text))
        in
            pureM (PDict ret))
          else
            bindM
              (if list_ex (py_eq (PStr ''start'')) actions then
                 bindM (esxi_service_start api opts name profile) (\<lambda>_.
                 pureM ())
               else pureM ()) (\<lambda>_.
            bindM
              (if policy \<noteq> PNone then
                 bindM (liftR (py_get svc ''policy'' PNone)) (\<lambda>policy4.
                 pureM (\<not> py_eq policy4 policy))
               else pureM False) (\<lambda>holds_v2.
            bindM
              (if holds_v2 then
                 bindM (esxi_service_set_policy api opts name policy profile) (\<lambda>_.
                 pureM ())
               else pureM ()) (\<lambda>_.
            let ret = dset ret ''changes'' (PDict changes) in
            bindM (liftR (py_join '', '' actions)) (\<lambda>text2.
            let ret = dset ret ''comment'' (PStr (''Service '' @ py_str name @ '': '' @ text2)) in
            pureM (PDict ret)))))))))))))"

definition vcf_esxi_service_stopped :: "vmodl \<Rightarrow> pyval \<Rightarrow> pyval \<Rightarrow> pyval \<Rightarrow> profile \<Rightarrow> pyval io" where
  "vcf_esxi_service_stopped api opts name policy profile =
     (let ret = vcf_esxi_service_ret name in
      bindM (vcf_esxi_service_get_or_fail api opts name profile) (\<lambda>get_or_fail2.
      bindM (liftR (py_pair get_or_fail2)) (\<lambda>(svc, err).
      if truthy err then
        let ret = dset ret ''result'' (PBool False) in
        let ret = dset ret ''comment'' err in
        pureM (PDict ret)
      else
        let actions = [] in
        let changes = [] :: dict in
        bindM (esxi_service_is_running svc) (\<lambda>is_running.
        bindM
          (if truthy is_running then
             let actions = actions @ [PStr ''stop''] in
             bindM (liftR (py_get svc ''state'' PNone)) (\<lambda>st.
             let changes = dset changes ''state'' (PDict [(''old'', st), (''new'', PStr ''STOPPED'')]) in
             pureM (actions, changes))
           else pureM (actions, changes)) (\<lambda>(actions, changes).
        bindM
          (if policy \<noteq> PNone then
             bindM (liftR (py_get svc ''policy'' PNone)) (\<lambda>policy2.
             pureM (\<not> py_eq policy2 policy))
           else pureM False) (\<lambda>holds_v.
        bindM
          (if holds_v then
             let actions = actions @ [PStr (''policy='' @ py_str policy)] in
             bindM (liftR (py_get svc ''policy'' PNone)) (\<lambda>policy3.
             let changes = dset changes ''policy'' (PDict [(''old'', policy3), (''new'', policy)]) in
             pureM (actions, changes))
           else pureM (actions, changes)) (\<lambda>(actions, changes).
        if \<not> (actions \<noteq> []) then
          let ret = dset ret ''comment'' (PStr (''Service '' @ py_str name @ '' already stopped'')) in
          pureM (PDict ret)
        else
          bindM (liftR (py_item opts ''test'')) (\<lambda>tst.
          if truthy tst then
            let ret = dset ret ''result'' PNone in
            bindM (liftR (py_join '', '' actions)) (\<lambda>text.
            let ret = dset ret ''comment'' (PStr (''Service '' @ py_str name @ '' would be updated: '' @ text))
        in
            pureM (PDict ret))
          else
            bindM
              (if list_ex (py_eq (PStr ''stop'')) actions then
                 bindM (esxi_service_stop api opts name profile) (\<lambda>_.
                 pureM ())
               else pureM ()) (\<lambda>_.
            bindM
              (if policy \<noteq> PNone then
                 bindM (liftR (py_get svc ''policy'' PNone)) (\<lambda>policy4.
                 pureM (\<not> py_eq policy4 policy))
               else pureM False) (\<lambda>holds_v2.
            bindM
              (if holds_v2 then
                 bindM (esxi_service_set_policy api opts name policy profile) (\<lambda>_.
                 pureM ())
               else pureM ()) (\<lambda>_.
            let ret = dset ret ''changes'' (PDict changes) in
            bindM (liftR (py_join '', '' actions)) (\<lambda>text2.
            let ret = dset ret ''comment'' (PStr (''Service '' @ py_str name @ '': '' @ text2)) in
            pureM (PDict ret)))))))))))))"

subsection \<open>\<open>states/vcf_esxi_syslog.py\<close>\<close>

definition vcf_esxi_syslog_ret :: "pyval \<Rightarrow> dict" where
  "vcf_esxi_syslog_ret name =
     [(''name'', name), (''changes'', PDict []), (''result'', PBool True), (''comment'', PStr '''')]"

definition vcf_esxi_syslog_servers :: "vmodl \<Rightarrow> pyval \<Rightarrow> pyval \<Rightarrow> pyval \<Rightarrow> pyval \<Rightarrow> profile \<Rightarrow> pyval io" where
  "vcf_esxi_syslog_servers api opts name servers log_level profile =
     (let ret = vcf_esxi_syslog_ret name in
      bindM (esxi_syslog_get api opts profile) (\<lambda>get.
      let current = py_or get (PDict []) in
      bindM (liftR (py_get current ''servers'' PNone)) (\<lambda>servers2.
      bindM (liftR (py_iter (py_or servers2 (PList [])))) (\<lambda>items.
      bindM (liftR (py_sorted items)) (\<lambda>current_servers.
      bindM (liftR (py_iter servers)) (\<lambda>items2.
      bindM (liftR (py_sorted items2)) (\<lambda>desired_servers.
      let actions = [] in
      let changes = [] :: dict in
      let (actions, changes) = (if \<not> py_eq (PList current_servers) (PList desired_servers) then (let actions =
        actions @ [PStr ''servers''] in (let changes = dset changes ''servers'' (PDict [(''old'', PList
        current_servers), (''new'', PList desired_servers)]) in (actions, changes))) else (actions, changes))
        in
      bindM
        (if log_level \<noteq> PNone then
           bindM (liftR (py_get current ''log_level'' PNone)) (\<lambda>log_level2.
           pureM (\<not> py_eq log_level2 log_level))
         else pureM False) (\<lambda>holds_v.
      bindM
        (if holds_v then
           let actions = actions @ [PStr (''log_level='' @ py_str log_level)] in
           bindM (liftR (py_get current ''log_level'' PNone)) (\<lambda>log_level3.
           let changes = dset changes ''log_level'' (PDict [(''old'', log_level3), (''new'', log_level)])
        in
           pureM (actions, changes))
         else pureM (actions, changes)) (\<lambda>(actions, changes).
      if \<not> (actions \<noteq> []) then
        let ret = dset ret ''comment'' (PStr ''Syslog already configured'') in
        pureM (PDict ret)
      else
        bindM (liftR (py_item opts ''test'')) (\<lambda>tst.
        if truthy tst then
          let ret = dset ret ''result'' PNone in
          bindM (liftR (py_join '', '' actions)) (\<lambda>text.
          let ret = dset ret ''comment'' (PStr (''Syslog would change: '' @ text)) in
          pureM (PDict ret))
        else
          bindM
            (if list_ex (py_eq (PStr ''servers'')) actions then
               bindM (esxi_syslog_set_servers api opts servers profile) (\<lambda>_.
               pureM ())
             else pureM ()) (\<lambda>_.
          bindM
            (if log_level \<noteq> PNone then
               bindM (liftR (py_get current ''log_level'' PNone)) (\<lambda>log_level4.
               pureM (\<not> py_eq log_level4 log_level))
             else pureM False) (\<lambda>holds_v2.
          bindM
            (if holds_v2 then
               bindM (esxi_syslog_set_log_level api opts log_level profile) (\<lambda>_.
               pureM ())
             else pureM ()) (\<lambda>_.
          let ret = dset ret ''changes'' (PDict changes) in
          bindM (liftR (py_join '', '' actions)) (\<lambda>text2.
          let ret = dset ret ''comment'' (PStr (''Syslog updated: '' @ text2)) in
          pureM (PDict ret)))))))))))))))"

subsection \<open>\<open>states/vcf_vccluster_resource_pool.py\<close>\<close>

definition vcf_vccluster_resource_pool_ret :: "pyval \<Rightarrow> dict" where
  "vcf_vccluster_resource_pool_ret name =
     [(''name'', name), (''changes'', PDict []), (''result'', PBool True), (''comment'', PStr '''')]"

definition vcf_vccluster_resource_pool_drift :: "pyval \<Rightarrow> pyval \<Rightarrow> pyval io" where
  "vcf_vccluster_resource_pool_drift current desired =
     (let diff = [] :: dict in
      bindM (liftR (py_mapping desired ''items'')) (\<lambda>entries.
      bindM
        (foldM (\<lambda>(k, v) diff.
           bindM (liftR (py_in (PStr k) current)) (\<lambda>found.
           bindM
             (if \<not> found then pureM True
              else bindM (liftR (py_key current (PStr k))) (\<lambda>found2.
                   pureM (\<not> py_eq found2 v))) (\<lambda>holds_v.
           if holds_v then
             bindM (liftR (py_lookup current (PStr k) PNone)) (\<lambda>found3.
             pureM (dset diff k (PList [found3, v])))
           else pureM diff))) entries diff) (\<lambda>diff.
      pureM (PDict diff))))"

definition vcf_vccluster_resource_pool_present ::
  "vmodl \<Rightarrow> pyval \<Rightarrow> pyval \<Rightarrow> pyval \<Rightarrow> pyval \<Rightarrow> pyval \<Rightarrow> profile \<Rightarrow> pyval io" where
  "vcf_vccluster_resource_pool_present api opts name cluster cpu memory profile =
     (let ret = vcf_vccluster_resource_pool_ret name in
      let created = False in
      bindM (vccluster_resource_pool_get_or_none api opts cluster name profile) (\<lambda>get_or_none.
      bindM
        (if get_or_none = PNone then
           bindM (liftR (py_item opts ''test'')) (\<lambda>tst.
           if truthy tst then
             let ret = dset ret ''result'' PNone in
             let ret = dset ret ''comment'' (PStr (''resource pool '' @ py_str name @ '' would be created under '' @
        py_str cluster)) in
             pureM (Inl (PDict ret))
           else
             bindM (vccluster_resource_pool_create api opts cluster name profile) (\<lambda>_.
             let created = True in
             pureM (Inr (ret, created))))
         else pureM (Inr (ret, created))) (\<lambda>answer.
      case answer of
        Inl answer \<Rightarrow> pureM answer
      | Inr (ret, created) \<Rightarrow> bindM (vccluster_resource_pool_get_shares api opts cluster name profile)
        (\<lambda>current.
          let drift = [] :: dict in
          bindM
            (if cpu \<noteq> PNone then
               bindM (liftR (py_item current ''cpu'')) (\<lambda>cpu2.
               bindM (vcf_vccluster_resource_pool_drift cpu2 cpu) (\<lambda>d.
               pureM (if truthy d then dset drift ''cpu'' d else drift)))
             else pureM drift) (\<lambda>drift.
          bindM
            (if memory \<noteq> PNone then
               bindM (liftR (py_item current ''memory'')) (\<lambda>memory2.
               bindM (vcf_vccluster_resource_pool_drift memory2 memory) (\<lambda>d.
               pureM (if truthy d then dset drift ''memory'' d else drift)))
             else pureM drift) (\<lambda>drift.
          if \<not> (drift \<noteq> []) then
            let ret = (if created then (let ret = dset ret ''changes'' (PDict [(''new'', name)]) in (let ret = dset
        ret ''comment'' (PStr (''resource pool '' @ py_str name @ '' created under '' @ py_str cluster)) in ret))
        else dset ret ''comment'' (PStr (''resource pool '' @ py_str name @ '' already matches''))) in
            pureM (PDict ret)
          else
            bindM (liftR (py_item opts ''test'')) (\<lambda>tst2.
            if truthy tst2 then
              let ret = dset ret ''result'' PNone in
              bindM (liftR (py_sorted (map (\<lambda>(k, _). PStr k) drift))) (\<lambda>ordered.
              let ret = dset ret ''comment'' (PStr (''resource pool '' @ py_str name @ '' would change: '' @ py_str
        (PList ordered))) in
              pureM (PDict ret))
            else
              bindM (vccluster_resource_pool_set_shares api opts cluster name cpu memory profile) (\<lambda>_.
              let drift = (if created then dset drift ''new'' name else drift) in
              let ret = dset ret ''changes'' (PDict drift) in
              let ret = dset ret ''comment'' (PStr (''resource pool '' @ py_str name @ '' '' @ (if created then
        ''created and '' else []) @ ''updated'')) in
              pureM (PDict ret)))))))))"

definition vcf_vccluster_resource_pool_absent :: "vmodl \<Rightarrow> pyval \<Rightarrow> pyval \<Rightarrow> pyval
  \<Rightarrow> profile \<Rightarrow> pyval io" where
  "vcf_vccluster_resource_pool_absent api opts name cluster profile =
     (let ret = vcf_vccluster_resource_pool_ret name in
      bindM (vccluster_resource_pool_get_or_none api opts cluster name profile) (\<lambda>get_or_none.
      if get_or_none = PNone then
        let ret = dset ret ''comment'' (PStr (''resource pool '' @ py_str name @ '' is already absent under '' @
        py_str cluster)) in
        pureM (PDict ret)
      else
        bindM (liftR (py_item opts ''test'')) (\<lambda>tst.
        if truthy tst then
          let ret = dset ret ''result'' PNone in
          let ret = dset ret ''comment'' (PStr (''resource pool '' @ py_str name @ '' would be deleted from '' @
        py_str cluster)) in
          pureM (PDict ret)
        else
          bindM (vccluster_resource_pool_delete api opts cluster name profile) (\<lambda>_.
          let ret = dset ret ''changes'' (PDict [(''deleted'', name)]) in
          let ret = dset ret ''comment'' (PStr (''resource pool '' @ py_str name @ '' deleted from '' @ py_str
        cluster)) in
          pureM (PDict ret)))))"

subsection \<open>\<open>states/vcf_vcenter_advanced_option.py\<close>\<close>

definition vcf_vcenter_advanced_option_ret :: "pyval \<Rightarrow> dict" where
  "vcf_vcenter_advanced_option_ret name =
     [(''name'', name), (''changes'', PDict []), (''result'', PBool True), (''comment'', PStr '''')]"

definition vcf_vcenter_advanced_option_advanced_option ::
  "vmodl \<Rightarrow> pyval \<Rightarrow> pyval \<Rightarrow> pyval \<Rightarrow> pyval \<Rightarrow> profile \<Rightarrow> pyval io" where
  "vcf_vcenter_advanced_option_advanced_option api opts name key val profile =
     (let key = py_or key name in
      let ret = vcf_vcenter_advanced_option_ret name in
      bindM (vcenter_advanced_option_advanced_get api opts key profile) (\<lambda>current.
      if py_eq current val then
        let ret = dset ret ''comment'' (PStr (py_str key @ '' already '' @ py_repr val)) in
        pureM (PDict ret)
      else
        bindM (liftR (py_item opts ''test'')) (\<lambda>tst.
        if truthy tst then
          let ret = dset ret ''result'' PNone in
          let ret = dset ret ''comment'' (PStr (py_str key @ '' would change from '' @ py_repr current @ '' to '' @
        py_repr val)) in
          pureM (PDict ret)
        else
          bindM (vcenter_advanced_option_advanced_set api opts key val profile) (\<lambda>_.
          let ret = dset ret ''changes'' (PDict [(''value'', PDict [(''old'', current), (''new'', val)])])
        in
          let ret = dset ret ''comment'' (PStr (py_str key @ '' updated to '' @ py_repr val)) in
          pureM (PDict ret)))))"

subsection \<open>\<open>states/vcf_vcenter_custom_attribute.py\<close>\<close>

definition vcf_vcenter_custom_attribute_ret :: "pyval \<Rightarrow> dict" where
  "vcf_vcenter_custom_attribute_ret name =
     [(''name'', name), (''changes'', PDict []), (''result'', PBool True), (''comment'', PStr '''')]"

definition vcf_vcenter_custom_attribute_present :: "vmodl \<Rightarrow> pyval \<Rightarrow> pyval \<Rightarrow>
  pyval \<Rightarrow> profile \<Rightarrow> pyval io" where
  "vcf_vcenter_custom_attribute_present api opts name managed_object_type profile =
     (let ret = vcf_vcenter_custom_attribute_ret name in
      bindM (vcenter_custom_attribute_get_or_none api opts name profile) (\<lambda>existing.
      if existing \<noteq> PNone then
        let ret = dset ret ''comment'' (PStr (''custom attribute '' @ py_str name @ '' already exists''))
        in
        pureM (PDict ret)
      else
        bindM (liftR (py_item opts ''test'')) (\<lambda>tst.
        if truthy tst then
          let ret = dset ret ''result'' PNone in
          let ret = dset ret ''comment'' (PStr (''custom attribute '' @ py_str name @ '' would be created''))
        in
          pureM (PDict ret)
        else
          bindM (vcenter_custom_attribute_add api opts name managed_object_type profile) (\<lambda>created.
          let ret = dset ret ''changes'' (PDict [(''new'', created)]) in
          let ret = dset ret ''comment'' (PStr (''custom attribute '' @ py_str name @ '' created'')) in
          pureM (PDict ret)))))"

definition vcf_vcenter_custom_attribute_absent :: "vmodl \<Rightarrow> pyval \<Rightarrow> pyval \<Rightarrow> profile \<Rightarrow> pyval io" where
  "vcf_vcenter_custom_attribute_absent api opts name profile =
     (let ret = vcf_vcenter_custom_attribute_ret name in
      bindM (vcenter_custom_attribute_get_or_none api opts name profile) (\<lambda>existing.
      if existing = PNone then
        let ret = dset ret ''comment'' (PStr (''custom attribute '' @ py_str name @ '' is already absent''))
        in
        pureM (PDict ret)
      else
        bindM (liftR (py_item opts ''test'')) (\<lambda>tst.
        if truthy tst then
          let ret = dset ret ''result'' PNone in
          let ret = dset ret ''comment'' (PStr (''custom attribute '' @ py_str name @ '' would be deleted''))
        in
          pureM (PDict ret)
        else
          bindM (liftR (py_item existing ''key'')) (\<lambda>key.
          bindM (vcenter_custom_attribute_remove api opts key profile) (\<lambda>_.
          let ret = dset ret ''changes'' (PDict [(''deleted'', name)]) in
          let ret = dset ret ''comment'' (PStr (''custom attribute '' @ py_str name @ '' deleted'')) in
          pureM (PDict ret))))))"

subsection \<open>\<open>states/vcf_vcenter_dvs_nioc.py\<close>\<close>

definition vcf_vcenter_dvs_nioc_ret :: "pyval \<Rightarrow> dict" where
  "vcf_vcenter_dvs_nioc_ret name =
     [(''name'', name), (''changes'', PDict []), (''result'', PBool True), (''comment'', PStr '''')]"

definition vcf_vcenter_dvs_nioc_nioc_enabled :: "vmodl \<Rightarrow> pyval \<Rightarrow> pyval \<Rightarrow> pyval \<Rightarrow> profile \<Rightarrow> pyval io" where
  "vcf_vcenter_dvs_nioc_nioc_enabled api opts name enabled profile =
     (let ret = vcf_vcenter_dvs_nioc_ret name in
      bindM (vcenter_dvs_nioc_nioc_get api opts name profile) (\<lambda>current.
      let desired = truthy enabled in
      if py_eq current (PBool desired) then
        let ret = dset ret ''comment'' (PStr (''NIOC on '' @ py_str name @ '' already '' @ py_str (PBool desired)))
        in
        pureM (PDict ret)
      else
        bindM (liftR (py_item opts ''test'')) (\<lambda>tst.
        if truthy tst then
          let ret = dset ret ''result'' PNone in
          let ret = dset ret ''comment'' (PStr (''NIOC on '' @ py_str name @ '' would change to '' @ py_str (PBool
        desired))) in
          pureM (PDict ret)
        else
          bindM (vcenter_dvs_nioc_nioc_set api opts name (PBool desired) profile) (\<lambda>_.
          let ret = dset ret ''changes'' (PDict [(''enabled'', PDict [(''old'', current), (''new'', PBool
        desired)])]) in
          let ret = dset ret ''comment'' (PStr (''NIOC on '' @ py_str name @ '' updated to '' @ py_str (PBool
        desired))) in
          pureM (PDict ret)))))"

subsection \<open>\<open>states/vcf_vcenter_dvs_nioc_vccluster.py\<close>\<close>

definition vcf_vcenter_dvs_nioc_vccluster_ret :: "pyval \<Rightarrow> dict" where
  "vcf_vcenter_dvs_nioc_vccluster_ret name =
     [(''name'', name), (''changes'', PDict []), (''result'', PBool True), (''comment'', PStr '''')]"

definition vcf_vcenter_dvs_nioc_vccluster_nioc_enabled :: "vmodl \<Rightarrow> pyval \<Rightarrow> pyval
  \<Rightarrow> pyval \<Rightarrow> profile \<Rightarrow> pyval io" where
  "vcf_vcenter_dvs_nioc_vccluster_nioc_enabled api opts name enabled profile =
     (let ret = vcf_vcenter_dvs_nioc_vccluster_ret name in
      let desired = truthy enabled in
      bindM (vcenter_dvs_nioc_vccluster_nioc_get api opts name profile) (\<lambda>current.
      bindM (liftR (py_mapping current ''items'')) (\<lambda>entries.
      let drift = filter (\<lambda>(dvs, st). \<not> py_eq st (PBool desired)) entries in
      if \<not> (drift \<noteq> []) then
        let ret = dset ret ''comment'' (PStr (''NIOC on all DVS in cluster '' @ py_str name @ '' already '' @ py_str
        (PBool desired))) in
        pureM (PDict ret)
      else
        bindM (liftR (py_item opts ''test'')) (\<lambda>tst.
        if truthy tst then
          let ret = dset ret ''result'' PNone in
          bindM (liftR (py_sorted (map (\<lambda>(k, _). PStr k) drift))) (\<lambda>ordered.
          let ret = dset ret ''comment'' (PStr (''NIOC on '' @ py_str (PList ordered) @ '' in cluster '' @ py_str
        name @ '' would change to '' @ py_str (PBool desired))) in
          pureM (PDict ret))
        else
          bindM (vcenter_dvs_nioc_vccluster_nioc_set api opts name (PBool desired) profile) (\<lambda>_.
          let ret = dset ret ''changes'' (PDict (dupdate [] (map (\<lambda>(dvs, st). (dvs, PDict [(''old'', st),
        (''new'', PBool desired)])) drift))) in
          bindM (liftR (py_sorted (map (\<lambda>(k, _). PStr k) drift))) (\<lambda>ordered2.
          let ret = dset ret ''comment'' (PStr (''NIOC updated to '' @ py_str (PBool desired) @ '' on '' @ py_str
        (PList ordered2) @ '' in cluster '' @ py_str name)) in
          pureM (PDict ret)))))))"

subsection \<open>\<open>states/vcf_vcenter_folder.py\<close>\<close>

definition vcf_vcenter_folder_ret :: "pyval \<Rightarrow> dict" where
  "vcf_vcenter_folder_ret name =
     [(''name'', name), (''changes'', PDict []), (''result'', PBool True), (''comment'', PStr '''')]"

definition vcf_vcenter_folder_present :: "vmodl \<Rightarrow> pyval \<Rightarrow> pyval \<Rightarrow> pyval
  \<Rightarrow> pyval \<Rightarrow> pyval \<Rightarrow> profile \<Rightarrow> pyval io" where
  "vcf_vcenter_folder_present api opts name folder_type parent datacenter profile =
     (let ret = vcf_vcenter_folder_ret name in
      bindM (vcenter_folder_find_by_name api opts name profile) (\<lambda>existing.
      if existing \<noteq> PNone then
        let ret = dset ret ''comment'' (PStr (''folder '' @ py_str name @ '' already exists'')) in
        pureM (PDict ret)
      else
        bindM (liftR (py_item opts ''test'')) (\<lambda>tst.
        if truthy tst then
          let ret = dset ret ''result'' PNone in
          let ret = dset ret ''comment'' (PStr (''folder '' @ py_str name @ '' would be created'')) in
          pureM (PDict ret)
        else
          bindM (vcenter_folder_create api opts name folder_type parent datacenter profile) (\<lambda>folder_id.
          let ret = dset ret ''changes'' (PDict [(''new'', folder_id)]) in
          let ret = dset ret ''comment'' (PStr (''folder '' @ py_str name @ '' created'')) in
          pureM (PDict ret)))))"

definition vcf_vcenter_folder_absent :: "vmodl \<Rightarrow> pyval \<Rightarrow> pyval \<Rightarrow> profile \<Rightarrow> pyval io" where
  "vcf_vcenter_folder_absent api opts name profile =
     (let ret = vcf_vcenter_folder_ret name in
      bindM (vcenter_folder_find_by_name api opts name profile) (\<lambda>existing.
      if existing = PNone then
        let ret = dset ret ''comment'' (PStr (''folder '' @ py_str name @ '' is already absent'')) in
        pureM (PDict ret)
      else
        bindM (liftR (py_item opts ''test'')) (\<lambda>tst.
        if truthy tst then
          let ret = dset ret ''result'' PNone in
          let ret = dset ret ''comment'' (PStr (''folder '' @ py_str name @ '' would be deleted'')) in
          pureM (PDict ret)
        else
          bindM (liftR (py_item existing ''folder'')) (\<lambda>folder.
          bindM (vcenter_folder_delete api opts folder profile) (\<lambda>_.
          let ret = dset ret ''changes'' (PDict [(''deleted'', name)]) in
          let ret = dset ret ''comment'' (PStr (''folder '' @ py_str name @ '' deleted'')) in
          pureM (PDict ret))))))"

subsection \<open>\<open>states/vcf_vcenter_statistics.py\<close>\<close>

definition vcf_vcenter_statistics_ret :: "pyval \<Rightarrow> dict" where
  "vcf_vcenter_statistics_ret name =
     [(''name'', name), (''changes'', PDict []), (''result'', PBool True), (''comment'', PStr '''')]"

definition vcf_vcenter_statistics_interval ::
  "vmodl \<Rightarrow> pyval \<Rightarrow> pyval \<Rightarrow> pyval \<Rightarrow> pyval \<Rightarrow> pyval \<Rightarrow> pyval \<Rightarrow> profile \<Rightarrow> pyval io" where
  "vcf_vcenter_statistics_interval api opts name enabled interval_minutes save_days level profile =
     (let ret = vcf_vcenter_statistics_ret name in
      bindM (vcenter_statistics_interval_get api opts name profile) (\<lambda>current.
      if current = PNone then
        let ret = dset ret ''result'' (PBool False) in
        let ret = dset ret ''comment'' (PStr (''unknown statistics interval '' @ py_repr name)) in
        pureM (PDict ret)
      else
        let wanted = filter (\<lambda>(k, v). v \<noteq> PNone) [(''enabled'', enabled), (''interval_minutes'',
        interval_minutes), (''save_days'', save_days), (''level'', level)] in
        bindM
          (collect (\<lambda>(k, v).
             bindM (liftR (py_lookup current (PStr k) PNone)) (\<lambda>found.
             if \<not> py_eq found v then pureM (Some (k, v)) else pureM None)) wanted) (\<lambda>entries.
        let diff = dupdate [] entries in
        if \<not> (diff \<noteq> []) then
          let ret = dset ret ''comment'' (PStr (py_str name @ '' statistics interval already matches''))
        in
          pureM (PDict ret)
        else
          bindM (liftR (py_item opts ''test'')) (\<lambda>tst.
          if truthy tst then
            let ret = dset ret ''result'' PNone in
            let ret = dset ret ''comment'' (PStr (py_str name @ '' statistics interval would change: '' @ py_str
        (PDict diff))) in
            pureM (PDict ret)
          else
            bindM
              (vcenter_statistics_interval_set api opts name enabled interval_minutes save_days level profile)
        (\<lambda>_.
            bindM
              (mapM (\<lambda>(k, v).
                 bindM (liftR (py_lookup current (PStr k) PNone)) (\<lambda>found2.
                 pureM (k, PDict [(''old'', found2), (''new'', v)]))) diff) (\<lambda>entries2.
            let ret = dset ret ''changes'' (PDict (dupdate [] entries2)) in
            let ret = dset ret ''comment'' (PStr (py_str name @ '' statistics interval updated'')) in
            pureM (PDict ret)))))))"

subsection \<open>\<open>states/vcf_vcenter_storage_policy.py\<close>\<close>

definition vcf_vcenter_storage_policy_ret :: "pyval \<Rightarrow> dict" where
  "vcf_vcenter_storage_policy_ret name =
     [(''name'', name), (''changes'', PDict []), (''result'', PBool True), (''comment'', PStr '''')]"

definition vcf_vcenter_storage_policy_present :: "vmodl \<Rightarrow> pyval \<Rightarrow> pyval \<Rightarrow> pyval
  \<Rightarrow> pyval \<Rightarrow> profile \<Rightarrow> pyval io" where
  "vcf_vcenter_storage_policy_present api opts name constraints description profile =
     (let ret = vcf_vcenter_storage_policy_ret name in
      bindM (vcenter_storage_policy_get_by_name api opts name profile) (\<lambda>existing.
      if existing = PNone then
        bindM (liftR (py_item opts ''test'')) (\<lambda>tst.
        if truthy tst then
          let ret = dset ret ''result'' PNone in
          let ret = dset ret ''comment'' (PStr (''storage policy '' @ py_str name @ '' would be created''))
        in
          pureM (PDict ret)
        else
          bindM (vcenter_storage_policy_create api opts name constraints description profile) (\<lambda>policy_id.
          let ret = dset ret ''changes'' (PDict [(''new'', policy_id)]) in
          let ret = dset ret ''comment'' (PStr (''storage policy '' @ py_str name @ '' created'')) in
          pureM (PDict ret)))
      else
        let diff = [] :: dict in
        bindM
          (if description \<noteq> PNone then
             bindM (liftR (py_get existing ''description'' PNone)) (\<lambda>description2.
             pureM (\<not> py_eq description2 description))
           else pureM False) (\<lambda>holds_v.
        bindM
          (if holds_v then
             bindM (liftR (py_get existing ''description'' PNone)) (\<lambda>description3.
             pureM (dset diff ''description'' (PDict [(''old'', description3), (''new'', description)])))
           else pureM diff) (\<lambda>diff.
        bindM (liftR (py_get existing ''constraints'' PNone)) (\<lambda>constraints2.
        bindM
          (if \<not> py_eq constraints2 constraints then
             bindM (liftR (py_get existing ''constraints'' PNone)) (\<lambda>constraints3.
             pureM (dset diff ''constraints'' (PDict [(''old'', constraints3), (''new'', constraints)])))
           else pureM diff) (\<lambda>diff.
        if \<not> (diff \<noteq> []) then
          let ret = dset ret ''comment'' (PStr (''storage policy '' @ py_str name @ '' already matches''))
        in
          pureM (PDict ret)
        else
          bindM (liftR (py_item opts ''test'')) (\<lambda>tst2.
          if truthy tst2 then
            let ret = dset ret ''result'' PNone in
            bindM (liftR (py_sorted (map (\<lambda>(k, _). PStr k) diff))) (\<lambda>ordered.
            let ret = dset ret ''comment'' (PStr (''storage policy '' @ py_str name @ '' would change: '' @ py_str
        (PList ordered))) in
            pureM (PDict ret))
          else
            bindM (vcenter_storage_policy_update api opts name constraints description profile) (\<lambda>_.
            let ret = dset ret ''changes'' (PDict diff) in
            let ret = dset ret ''comment'' (PStr (''storage policy '' @ py_str name @ '' updated'')) in
            pureM (PDict ret)))))))))"

definition vcf_vcenter_storage_policy_default_policy ::
  "vmodl \<Rightarrow> pyval \<Rightarrow> pyval \<Rightarrow> pyval \<Rightarrow> pyval \<Rightarrow> profile \<Rightarrow> pyval io" where
  "vcf_vcenter_storage_policy_default_policy api opts name datastore policy profile =
     (let ret = vcf_vcenter_storage_policy_ret name in
      bindM (vcenter_storage_policy_get_by_name api opts policy profile) (\<lambda>wanted.
      if wanted = PNone then
        let ret = dset ret ''result'' (PBool False) in
        let ret = dset ret ''comment'' (PStr (''storage policy '' @ py_repr policy @ '' does not exist''))
        in
        pureM (PDict ret)
      else
        bindM (vcenter_storage_policy_default_policy_get api opts datastore profile) (\<lambda>current.
        bindM (liftR (py_item wanted ''id'')) (\<lambda>ident.
        if py_eq current ident then
          let ret = dset ret ''comment'' (PStr (py_str datastore @ '' default storage policy already '' @ py_str
        policy)) in
          pureM (PDict ret)
        else
          bindM (liftR (py_item opts ''test'')) (\<lambda>tst.
          if truthy tst then
            let ret = dset ret ''result'' PNone in
            let ret = dset ret ''comment'' (PStr (py_str datastore @ '' default storage policy would change to '' @
        py_str policy)) in
            pureM (PDict ret)
          else
            bindM (vcenter_storage_policy_default_policy_set api opts datastore policy profile) (\<lambda>_.
            bindM (liftR (py_item wanted ''id'')) (\<lambda>ident2.
            let ret = dset ret ''changes'' (PDict [(''default_policy'', PDict [(''old'', current), (''new'',
        ident2)])]) in
            let ret = dset ret ''comment'' (PStr (py_str datastore @ '' default storage policy set to '' @ py_str
        policy)) in
            pureM (PDict ret))))))))"

definition vcf_vcenter_storage_policy_absent :: "vmodl \<Rightarrow> pyval \<Rightarrow> pyval \<Rightarrow> profile \<Rightarrow> pyval io" where
  "vcf_vcenter_storage_policy_absent api opts name profile =
     (let ret = vcf_vcenter_storage_policy_ret name in
      bindM (vcenter_storage_policy_get_by_name api opts name profile) (\<lambda>existing.
      if existing = PNone then
        let ret = dset ret ''comment'' (PStr (''storage policy '' @ py_str name @ '' is already absent''))
        in
        pureM (PDict ret)
      else
        bindM (liftR (py_item opts ''test'')) (\<lambda>tst.
        if truthy tst then
          let ret = dset ret ''result'' PNone in
          let ret = dset ret ''comment'' (PStr (''storage policy '' @ py_str name @ '' would be deleted''))
        in
          pureM (PDict ret)
        else
          bindM (vcenter_storage_policy_delete api opts name profile) (\<lambda>_.
          let ret = dset ret ''changes'' (PDict [(''deleted'', name)]) in
          let ret = dset ret ''comment'' (PStr (''storage policy '' @ py_str name @ '' deleted'')) in
          pureM (PDict ret)))))"

subsection \<open>\<open>states/vcf_vcenter_vm.py\<close>\<close>

definition vcf_vcenter_vm_ret :: "pyval \<Rightarrow> dict" where
  "vcf_vcenter_vm_ret name =
     [(''name'', name), (''changes'', PDict []), (''result'', PBool True), (''comment'', PStr '''')]"

definition vcf_vcenter_vm_deployed :: "vmodl \<Rightarrow> pyval \<Rightarrow> pyval \<Rightarrow> pyval \<Rightarrow> profile \<Rightarrow> pyval io" where
  "vcf_vcenter_vm_deployed api opts name spec profile =
     (let ret = vcf_vcenter_vm_ret name in
      bindM (vcenter_vm_get_by_name opts name profile) (\<lambda>current.
      if current \<noteq> PNone then
        let ret = dset ret ''comment'' (PStr (''VM '' @ py_str name @ '' is already present'')) in
        pureM (PDict ret)
      else
        bindM (liftR (py_item opts ''test'')) (\<lambda>tst.
        if truthy tst then
          let ret = dset ret ''result'' PNone in
          let ret = dset ret ''comment'' (PStr (''VM '' @ py_str name @ '' would be deployed'')) in
          pureM (PDict ret)
        else
          bindM (vcenter_vm_deploy api opts name spec profile) (\<lambda>result.
          bindM (liftR (py_spread result)) (\<lambda>entries.
          let ret = dset ret ''changes'' (PDict (dupdate [(''deployed'', name)] entries)) in
          let ret = dset ret ''comment'' (PStr (''VM '' @ py_str name @ '' deployment submitted'')) in
          pureM (PDict ret))))))"

subsection \<open>\<open>states/vcf_vim_cluster_config.py\<close>\<close>

definition vcf_vim_cluster_config_ret :: "pyval \<Rightarrow> dict" where
  "vcf_vim_cluster_config_ret name =
     [(''name'', name), (''changes'', PDict []), (''result'', PBool True), (''comment'', PStr '''')]"

definition vcf_vim_cluster_config_drs ::
  "vmodl \<Rightarrow> pyval \<Rightarrow> pyval \<Rightarrow> pyval \<Rightarrow> pyval \<Rightarrow> pyval \<Rightarrow> pyval \<Rightarrow> pyval \<Rightarrow> profile \<Rightarrow> pyval io" where
  "vcf_vim_cluster_config_drs api opts name cluster enabled default_vm_behavior migration_threshold
    vm_monitoring_enabled profile =
     (let cluster = py_or cluster name in
      let ret = vcf_vim_cluster_config_ret name in
      bindM (vim_cluster_config_drs_get api opts cluster profile) (\<lambda>current.
      let desired = [(''enabled'', enabled), (''default_vm_behavior'', default_vm_behavior),
        (''migration_threshold'', migration_threshold), (''vm_monitoring_enabled'', vm_monitoring_enabled)]
        in
      bindM
        (collect (\<lambda>(k, v).
           bindM
             (if v \<noteq> PNone then
                bindM (liftR (py_lookup current (PStr k) PNone)) (\<lambda>found.
                pureM (\<not> py_eq found v))
              else pureM False) (\<lambda>holds_v.
           if holds_v then
             bindM (liftR (py_lookup current (PStr k) PNone)) (\<lambda>found2.
             pureM (Some (k, PList [found2, v])))
           else pureM None)) desired) (\<lambda>entries.
      let drift = dupdate [] entries in
      if \<not> (drift \<noteq> []) then
        let ret = dset ret ''comment'' (PStr (''DRS on '' @ py_str cluster @ '' already matches'')) in
        pureM (PDict ret)
      else
        bindM (liftR (py_item opts ''test'')) (\<lambda>tst.
        if truthy tst then
          let ret = dset ret ''result'' PNone in
          bindM (liftR (py_sorted (map (\<lambda>(k, _). PStr k) drift))) (\<lambda>ordered.
          let ret = dset ret ''comment'' (PStr (''DRS on '' @ py_str cluster @ '' would be updated: '' @ py_str
        (PList ordered))) in
          pureM (PDict ret))
        else
          let given_v = filter (\<lambda>(k, v). v \<noteq> PNone) desired in
          bindM
            (vim_cluster_config_drs_set api opts cluster (dget given_v ''enabled'' PNone) (dget given_v
        ''default_vm_behavior'' PNone) (dget given_v ''migration_threshold'' PNone) (dget given_v
        ''vm_monitoring_enabled'' PNone) profile) (\<lambda>_.
          let ret = dset ret ''changes'' (PDict drift) in
          let ret = dset ret ''comment'' (PStr (''DRS on '' @ py_str cluster @ '' updated'')) in
          pureM (PDict ret))))))"

definition vcf_vim_cluster_config_ha ::
  "vmodl \<Rightarrow> pyval \<Rightarrow> pyval \<Rightarrow> pyval \<Rightarrow> pyval \<Rightarrow> pyval
    \<Rightarrow> pyval \<Rightarrow> pyval \<Rightarrow> pyval \<Rightarrow> pyval \<Rightarrow> profile \<Rightarrow> pyval io" where
  "vcf_vim_cluster_config_ha api opts name cluster enabled host_monitoring vm_monitoring restart_priority
    isolation_response admission_control_enabled profile =
     (let cluster = py_or cluster name in
      let ret = vcf_vim_cluster_config_ret name in
      bindM (vim_cluster_config_ha_get api opts cluster profile) (\<lambda>current.
      let desired = [(''enabled'', enabled), (''host_monitoring'', host_monitoring), (''vm_monitoring'',
        vm_monitoring), (''restart_priority'', restart_priority), (''isolation_response'', isolation_response),
        (''admission_control_enabled'', admission_control_enabled)] in
      bindM
        (collect (\<lambda>(k, v).
           bindM
             (if v \<noteq> PNone then
                bindM (liftR (py_lookup current (PStr k) PNone)) (\<lambda>found.
                pureM (\<not> py_eq found v))
              else pureM False) (\<lambda>holds_v.
           if holds_v then
             bindM (liftR (py_lookup current (PStr k) PNone)) (\<lambda>found2.
             pureM (Some (k, PList [found2, v])))
           else pureM None)) desired) (\<lambda>entries.
      let drift = dupdate [] entries in
      if \<not> (drift \<noteq> []) then
        let ret = dset ret ''comment'' (PStr (''HA on '' @ py_str cluster @ '' already matches'')) in
        pureM (PDict ret)
      else
        bindM (liftR (py_item opts ''test'')) (\<lambda>tst.
        if truthy tst then
          let ret = dset ret ''result'' PNone in
          bindM (liftR (py_sorted (map (\<lambda>(k, _). PStr k) drift))) (\<lambda>ordered.
          let ret = dset ret ''comment'' (PStr (''HA on '' @ py_str cluster @ '' would be updated: '' @ py_str
        (PList ordered))) in
          pureM (PDict ret))
        else
          let given_v = filter (\<lambda>(k, v). v \<noteq> PNone) desired in
          bindM
            (vim_cluster_config_ha_set api opts cluster (dget given_v ''enabled'' PNone) (dget given_v
        ''host_monitoring'' PNone) (dget given_v ''vm_monitoring'' PNone) (dget given_v ''restart_priority'' PNone)
        (dget given_v ''isolation_response'' PNone) (dget given_v ''admission_control_enabled'' PNone) profile)
        (\<lambda>_.
          let ret = dset ret ''changes'' (PDict drift) in
          let ret = dset ret ''comment'' (PStr (''HA on '' @ py_str cluster @ '' updated'')) in
          pureM (PDict ret))))))"

definition vcf_vim_cluster_config_evc :: "vmodl \<Rightarrow> pyval \<Rightarrow> pyval \<Rightarrow> pyval
  \<Rightarrow> pyval \<Rightarrow> profile \<Rightarrow> pyval io" where
  "vcf_vim_cluster_config_evc api opts name cluster md profile =
     (let cluster = py_or cluster name in
      let ret = vcf_vim_cluster_config_ret name in
      bindM (vim_cluster_config_evc_get api opts cluster profile) (\<lambda>current.
      bindM (liftR (py_get current ''current_mode'' PNone)) (\<lambda>current_mode.
      if py_eq current_mode md then
        let ret = dset ret ''comment'' (PStr (''EVC on '' @ py_str cluster @ '' already at '' @ py_repr md))
        in
        pureM (PDict ret)
      else
        bindM (liftR (py_item opts ''test'')) (\<lambda>tst.
        if truthy tst then
          let ret = dset ret ''result'' PNone in
          let ret = dset ret ''comment'' (PStr (''EVC on '' @ py_str cluster @ '' would change from '' @ py_repr
        current_mode @ '' to '' @ py_repr md)) in
          pureM (PDict ret)
        else
          bindM
            (if md = PNone then
               bindM (vim_cluster_config_evc_disable api opts cluster profile) (\<lambda>_.
               pureM ())
             else
               bindM (vim_cluster_config_evc_set api opts cluster md profile) (\<lambda>_.
               pureM ())) (\<lambda>_.
          let ret = dset ret ''changes'' (PDict [(''mode'', PList [current_mode, md])]) in
          let ret = dset ret ''comment'' (PStr (''EVC on '' @ py_str cluster @ '' set to '' @ py_repr md))
        in
          pureM (PDict ret))))))"

subsection \<open>\<open>states/vcf_vim_cluster_evc.py\<close>\<close>

definition vcf_vim_cluster_evc_ret :: "pyval \<Rightarrow> dict" where
  "vcf_vim_cluster_evc_ret name =
     [(''name'', name), (''changes'', PDict []), (''result'', PBool True), (''comment'', PStr '''')]"

definition vcf_vim_cluster_evc_mode :: "vmodl \<Rightarrow> pyval \<Rightarrow> pyval \<Rightarrow> pyval \<Rightarrow> pyval \<Rightarrow> profile \<Rightarrow> pyval io" where
  "vcf_vim_cluster_evc_mode api opts name cluster evc_mode_key profile =
     (let cluster = py_or cluster name in
      let ret = vcf_vim_cluster_evc_ret name in
      bindM (vim_cluster_evc_get api opts cluster profile) (\<lambda>current.
      let desired = evc_mode_key in
      bindM (liftR (py_get current ''current_key'' PNone)) (\<lambda>current_key.
      let cur_key = py_or current_key PNone in
      if py_eq cur_key desired then
        let ret = dset ret ''comment'' (PStr (''EVC on '' @ py_str cluster @ '' already '' @ py_str (py_or desired
        (PStr ''disabled'')))) in
        pureM (PDict ret)
      else if desired = PNone then
        bindM (liftR (py_item opts ''test'')) (\<lambda>tst.
        if truthy tst then
          let ret = dset ret ''result'' PNone in
          let ret = dset ret ''comment'' (PStr (''EVC on '' @ py_str cluster @ '' would be disabled'')) in
          pureM (PDict ret)
        else
          bindM (vim_cluster_evc_disable api opts cluster profile) (\<lambda>_.
          let ret = dset ret ''changes'' (PDict [(''evc'', PList [cur_key, PNone])]) in
          let ret = dset ret ''comment'' (PStr (''EVC on '' @ py_str cluster @ '' disabled'')) in
          pureM (PDict ret)))
      else
        bindM (liftR (py_get current ''supported_keys'' PNone)) (\<lambda>supported_keys.
        let supported = py_or supported_keys (PList []) in
        bindM
          (if truthy supported then
             bindM (liftR (py_in desired supported)) (\<lambda>found.
             pureM (\<not> found))
           else pureM False) (\<lambda>holds_v.
        if holds_v then
          let ret = dset ret ''result'' (PBool False) in
          let ret = dset ret ''comment'' (PStr (''EVC mode '' @ py_repr desired @ '' not supported on '' @ py_str
        cluster)) in
          pureM (PDict ret)
        else
          bindM (liftR (py_item opts ''test'')) (\<lambda>tst2.
          if truthy tst2 then
            let ret = dset ret ''result'' PNone in
            let ret = dset ret ''comment'' (PStr (''EVC on '' @ py_str cluster @ '' would change from '' @ py_repr
        cur_key @ '' to '' @ py_repr desired)) in
            pureM (PDict ret)
          else
            bindM (vim_cluster_evc_configure api opts cluster desired profile) (\<lambda>_.
            let ret = dset ret ''changes'' (PDict [(''evc'', PList [cur_key, desired])]) in
            let ret = dset ret ''comment'' (PStr (''EVC on '' @ py_str cluster @ '' set to '' @ py_repr desired))
        in
            pureM (PDict ret))))))))"

subsection \<open>\<open>states/vcf_vim_datastore_file.py\<close>\<close>

definition vcf_vim_datastore_file_ret :: "pyval \<Rightarrow> dict" where
  "vcf_vim_datastore_file_ret name =
     [(''name'', name), (''changes'', PDict []), (''result'', PBool True), (''comment'', PStr '''')]"

definition vcf_vim_datastore_file_file_present :: "pyval \<Rightarrow> pyval \<Rightarrow> pyval io" where
  "vcf_vim_datastore_file_file_present file_list basename =
     bindM (liftR (py_iter file_list)) (\<lambda>items.
     bindM
       (anyM (\<lambda>entry. bindM (liftR (py_item entry ''path'')) (\<lambda>path. pureM (py_eq path basename)))
        items) (\<lambda>found.
     pureM (PBool found)))"

text \<open>\<open>ds_path.rstrip("/").rsplit("/", 1)\<close>.\<close>

definition vcf_vim_datastore_file_split :: "pyval \<Rightarrow> pyval io" where
  "vcf_vim_datastore_file_split ds_path =
     (case ds_path of
        PStr s \<Rightarrow>
          (let path = rev (dropWhile (\<lambda>c. c = CHR ''/'') (rev s));
               base = rev (takeWhile (\<lambda>c. c \<noteq> CHR ''/'') (rev path))
           in pureM (PList [PStr (take (length path - length base - 1) path), PStr base]))
      | _ \<Rightarrow> raiseM (attr_error ds_path ''rstrip''))"

definition vcf_vim_datastore_file_file_size_on_ds :: "pyval \<Rightarrow> pyval \<Rightarrow> pyval io" where
  "vcf_vim_datastore_file_file_size_on_ds file_list basename =
     bindM (liftR (py_iter file_list)) (\<lambda>items.
     or_else
       (first_of (\<lambda>entry.
          bindM (liftR (py_item entry ''path'')) (\<lambda>path.
          if py_eq path basename then
            bindM (liftR (py_get entry ''fileSize'' PNone)) (\<lambda>fileSize.
            bindM (if truthy fileSize then pureM fileSize else liftR (py_get entry ''size'' PNone)) (\<lambda>x.
            pureM (Some x)))
          else pureM None)) items)
       (pureM PNone))"

definition vcf_vim_datastore_file_file_absent ::
  "vmodl \<Rightarrow> pyval \<Rightarrow> pyval \<Rightarrow> pyval \<Rightarrow> pyval \<Rightarrow> pyval \<Rightarrow> profile \<Rightarrow> pyval io" where
  "vcf_vim_datastore_file_file_absent api opts name datacenter datastore ds_path profile =
     (let ret = vcf_vim_datastore_file_ret name in
      bindM (vcf_vim_datastore_file_split ds_path) (\<lambda>split2.
      bindM (liftR (py_pair split2)) (\<lambda>(parent, basename).
      bindM (vim_datastore_file_list api opts datacenter datastore parent profile) (\<lambda>listing.
      bindM (vcf_vim_datastore_file_file_present listing basename) (\<lambda>file_present2.
      if \<not> truthy file_present2 then
        let ret = dset ret ''comment'' (PStr (py_str ds_path @ '' already absent on ['' @ py_str datastore @ '']''))
        in
        pureM (PDict ret)
      else
        bindM (liftR (py_item opts ''test'')) (\<lambda>tst.
        if truthy tst then
          let ret = dset ret ''result'' PNone in
          let ret = dset ret ''comment'' (PStr (''would delete ['' @ py_str datastore @ ''] '' @ py_str ds_path))
        in
          pureM (PDict ret)
        else
          bindM (vim_datastore_file_delete api opts datacenter datastore ds_path profile) (\<lambda>_.
          let ret = dset ret ''changes'' (PDict [(''deleted'', ds_path)]) in
          let ret = dset ret ''comment'' (PStr (''deleted ['' @ py_str datastore @ ''] '' @ py_str ds_path))
        in
          pureM (PDict ret))))))))"

definition vcf_vim_datastore_file_directory_present ::
  "vmodl \<Rightarrow> pyval \<Rightarrow> pyval \<Rightarrow> pyval \<Rightarrow> pyval \<Rightarrow> pyval \<Rightarrow> profile \<Rightarrow> pyval io" where
  "vcf_vim_datastore_file_directory_present api opts name datacenter datastore ds_path profile =
     (let ret = vcf_vim_datastore_file_ret name in
      bindM (vcf_vim_datastore_file_split ds_path) (\<lambda>split2.
      bindM (liftR (py_pair split2)) (\<lambda>(parent, basename).
      bindM (vim_datastore_file_list api opts datacenter datastore parent profile) (\<lambda>listing.
      bindM (vcf_vim_datastore_file_file_present listing basename) (\<lambda>file_present2.
      if truthy file_present2 then
        let ret = dset ret ''comment'' (PStr (py_str ds_path @ '' already exists on ['' @ py_str datastore @ '']''))
        in
        pureM (PDict ret)
      else
        bindM (liftR (py_item opts ''test'')) (\<lambda>tst.
        if truthy tst then
          let ret = dset ret ''result'' PNone in
          let ret = dset ret ''comment'' (PStr (''would create directory ['' @ py_str datastore @ ''] '' @ py_str
        ds_path)) in
          pureM (PDict ret)
        else
          bindM (vim_datastore_file_mkdir api opts datacenter datastore ds_path (PBool True) profile) (\<lambda>_.
          let ret = dset ret ''changes'' (PDict [(''created'', ds_path)]) in
          let ret = dset ret ''comment'' (PStr (''created directory ['' @ py_str datastore @ ''] '' @ py_str
        ds_path)) in
          pureM (PDict ret))))))))"

subsection \<open>\<open>states/vcf_vim_drs_rule.py\<close>\<close>

definition vcf_vim_drs_rule_ret :: "pyval \<Rightarrow> dict" where
  "vcf_vim_drs_rule_ret name =
     [(''name'', name), (''changes'', PDict []), (''result'', PBool True), (''comment'', PStr '''')]"

definition vcf_vim_drs_rule_present_vm_rule ::
  "vmodl \<Rightarrow> pyval \<Rightarrow> pyval \<Rightarrow> pyval \<Rightarrow> pyval \<Rightarrow> pyval \<Rightarrow> pyval \<Rightarrow> pyval \<Rightarrow> profile \<Rightarrow> pyval io" where
  "vcf_vim_drs_rule_present_vm_rule api opts name cluster vm_moids kind enabled mandatory profile =
     (let ret = vcf_vim_drs_rule_ret name in
      bindM (vim_drs_rule_get_or_none api opts cluster name profile) (\<lambda>existing.
      bindM (liftR (py_iter vm_moids)) (\<lambda>items2.
      bindM (liftR (py_set items2)) (\<lambda>items3.
      bindM (liftR (py_sorted items3)) (\<lambda>desired.
      if existing \<noteq> PNone then
        bindM (liftR (py_get existing ''kind'' PNone)) (\<lambda>kind2.
        if \<not> py_eq kind2 kind then
          let ret = dset ret ''result'' (PBool False) in
          bindM (liftR (py_item existing ''kind'')) (\<lambda>kind3.
          let ret = dset ret ''comment'' (PStr (''DRS rule '' @ py_str name @ '' exists but has kind '' @ py_repr
        kind3 @ '' (wanted '' @ py_repr kind @ ''); refusing to mutate kind'')) in
          pureM (PDict ret))
        else
          bindM (liftR (py_get existing ''vm_moids'' (PList []))) (\<lambda>vm_moids2.
          bindM (liftR (py_iter vm_moids2)) (\<lambda>items4.
          bindM (liftR (py_set items4)) (\<lambda>items5.
          bindM (liftR (py_sorted items5)) (\<lambda>current.
          let drift = [] :: dict in
          let drift = (if \<not> py_eq (PList current) (PList desired) then dset drift ''vm_moids'' (PList [PList
        current, PList desired]) else drift) in
          bindM (liftR (py_get existing ''enabled'' PNone)) (\<lambda>enabled2.
          bindM
            (if truthy enabled2 \<noteq> truthy enabled then
               bindM (liftR (py_get existing ''enabled'' PNone)) (\<lambda>enabled3.
               pureM (dset drift ''enabled'' (PList [enabled3, enabled])))
             else pureM drift) (\<lambda>drift.
          bindM (liftR (py_get existing ''mandatory'' PNone)) (\<lambda>mandatory2.
          bindM
            (if truthy mandatory2 \<noteq> truthy mandatory then
               bindM (liftR (py_get existing ''mandatory'' PNone)) (\<lambda>mandatory3.
               pureM (dset drift ''mandatory'' (PList [mandatory3, mandatory])))
             else pureM drift) (\<lambda>drift.
          if \<not> (drift \<noteq> []) then
            let ret = dset ret ''comment'' (PStr (''DRS rule '' @ py_str name @ '' already matches'')) in
            pureM (PDict ret)
          else
            bindM (liftR (py_item opts ''test'')) (\<lambda>tst.
            if truthy tst then
              let ret = dset ret ''result'' PNone in
              bindM (liftR (py_sorted (map (\<lambda>(k, _). PStr k) drift))) (\<lambda>ordered3.
              let ret = dset ret ''comment'' (PStr (''DRS rule '' @ py_str name @ '' would be updated: '' @ py_str
        (PList ordered3))) in
              pureM (PDict ret))
            else
              bindM (vim_drs_rule_update api opts cluster name enabled mandatory (PList desired) profile)
        (\<lambda>_.
              let ret = dset ret ''changes'' (PDict drift) in
              let ret = dset ret ''comment'' (PStr (''DRS rule '' @ py_str name @ '' updated'')) in
              pureM (PDict ret))))))))))))
      else
        bindM (liftR (py_item opts ''test'')) (\<lambda>tst2.
        if truthy tst2 then
          let ret = dset ret ''result'' PNone in
          let ret = dset ret ''comment'' (PStr (''DRS rule '' @ py_str name @ '' would be created'')) in
          pureM (PDict ret)
        else
          bindM
            (if py_eq kind (PStr ''vm-affinity'') then
               bindM
                 (vim_drs_rule_create_vm_affinity api opts cluster name (PList desired) enabled mandatory profile)
        (\<lambda>_.
               pureM ())
             else
               bindM
                 (vim_drs_rule_create_vm_anti_affinity api opts cluster name (PList desired) enabled mandatory
        profile) (\<lambda>_.
               pureM ())) (\<lambda>_.
          let ret = dset ret ''changes'' (PDict [(''new'', name), (''kind'', kind), (''vm_moids'', PList desired)])
        in
          let ret = dset ret ''comment'' (PStr (''DRS rule '' @ py_str name @ '' created'')) in
          pureM (PDict ret))))))))"

definition vcf_vim_drs_rule_vm_affinity ::
  "vmodl \<Rightarrow> pyval \<Rightarrow> pyval \<Rightarrow> pyval \<Rightarrow> pyval \<Rightarrow> pyval \<Rightarrow> pyval \<Rightarrow> profile \<Rightarrow> pyval io" where
  "vcf_vim_drs_rule_vm_affinity api opts name cluster vm_moids enabled mandatory profile =
     vcf_vim_drs_rule_present_vm_rule api opts name cluster vm_moids (PStr ''vm-affinity'') enabled mandatory
       profile"

definition vcf_vim_drs_rule_vm_anti_affinity ::
  "vmodl \<Rightarrow> pyval \<Rightarrow> pyval \<Rightarrow> pyval \<Rightarrow> pyval \<Rightarrow> pyval \<Rightarrow> pyval \<Rightarrow> profile \<Rightarrow> pyval io" where
  "vcf_vim_drs_rule_vm_anti_affinity api opts name cluster vm_moids enabled mandatory profile =
     vcf_vim_drs_rule_present_vm_rule api opts name cluster vm_moids (PStr ''vm-anti-affinity'') enabled mandatory
       profile"

definition vcf_vim_drs_rule_absent :: "vmodl \<Rightarrow> pyval \<Rightarrow> pyval \<Rightarrow> pyval \<Rightarrow> profile \<Rightarrow> pyval io" where
  "vcf_vim_drs_rule_absent api opts name cluster profile =
     (let ret = vcf_vim_drs_rule_ret name in
      bindM (vim_drs_rule_get_or_none api opts cluster name profile) (\<lambda>existing.
      if existing = PNone then
        let ret = dset ret ''comment'' (PStr (''DRS rule '' @ py_str name @ '' is already absent'')) in
        pureM (PDict ret)
      else
        bindM (liftR (py_item opts ''test'')) (\<lambda>tst.
        if truthy tst then
          let ret = dset ret ''result'' PNone in
          let ret = dset ret ''comment'' (PStr (''DRS rule '' @ py_str name @ '' would be deleted'')) in
          pureM (PDict ret)
        else
          bindM (vim_drs_rule_delete api opts cluster name profile) (\<lambda>_.
          let ret = dset ret ''changes'' (PDict [(''deleted'', name)]) in
          let ret = dset ret ''comment'' (PStr (''DRS rule '' @ py_str name @ '' deleted'')) in
          pureM (PDict ret)))))"

definition vcf_vim_drs_rule_vm_host ::
  "vmodl \<Rightarrow> pyval \<Rightarrow> pyval \<Rightarrow> pyval \<Rightarrow> pyval \<Rightarrow> pyval \<Rightarrow> pyval \<Rightarrow> pyval \<Rightarrow> pyval \<Rightarrow> profile \<Rightarrow> pyval io" where
  "vcf_vim_drs_rule_vm_host api opts name cluster vm_group_name host_group_name affine enabled mandatory profile
    =
     (let ret = vcf_vim_drs_rule_ret name in
      bindM (vim_drs_rule_get_or_none api opts cluster name profile) (\<lambda>existing.
      if existing \<noteq> PNone then
        bindM (liftR (py_get existing ''kind'' PNone)) (\<lambda>kind.
        if \<not> py_eq kind (PStr ''vm-host'') then
          let ret = dset ret ''result'' (PBool False) in
          bindM (liftR (py_item existing ''kind'')) (\<lambda>kind2.
          let ret = dset ret ''comment'' (PStr (''DRS rule '' @ py_str name @ '' exists but has kind '' @ py_repr
        kind2 @ ''; refusing to mutate kind'')) in
          pureM (PDict ret))
        else
          bindM (liftR (py_get existing ''affine_host_group_name'' PNone)) (\<lambda>cur_aff.
          bindM (liftR (py_get existing ''anti_affine_host_group_name'' PNone)) (\<lambda>cur_anti.
          let drift = [] :: dict in
          bindM (liftR (py_get existing ''vm_group_name'' PNone)) (\<lambda>vm_group_name2.
          bindM
            (if \<not> py_eq vm_group_name2 vm_group_name then
               bindM (liftR (py_get existing ''vm_group_name'' PNone)) (\<lambda>vm_group_name3.
               pureM (dset drift ''vm_group_name'' (PList [vm_group_name3, vm_group_name])))
             else pureM drift) (\<lambda>drift.
          let drift = (if truthy affine then (let drift = (if (\<not> py_eq cur_aff host_group_name) \<or> (cur_anti
        \<noteq> PNone) then (let drift = dset drift ''host_group_name'' (PList [py_or cur_anti cur_aff,
        host_group_name]) in (let drift = dset drift ''affine'' (PList [PBool (cur_anti = PNone), PBool True]) in
        drift)) else drift) in drift) else (let drift = (if (\<not> py_eq cur_anti host_group_name) \<or> (cur_aff
        \<noteq> PNone) then (let drift = dset drift ''host_group_name'' (PList [py_or cur_aff cur_anti,
        host_group_name]) in (let drift = dset drift ''affine'' (PList [PBool (cur_aff \<noteq> PNone), PBool
        False]) in drift)) else drift) in drift)) in
          bindM (liftR (py_get existing ''enabled'' PNone)) (\<lambda>enabled2.
          bindM
            (if truthy enabled2 \<noteq> truthy enabled then
               bindM (liftR (py_get existing ''enabled'' PNone)) (\<lambda>enabled3.
               pureM (dset drift ''enabled'' (PList [enabled3, enabled])))
             else pureM drift) (\<lambda>drift.
          bindM (liftR (py_get existing ''mandatory'' PNone)) (\<lambda>mandatory2.
          bindM
            (if truthy mandatory2 \<noteq> truthy mandatory then
               bindM (liftR (py_get existing ''mandatory'' PNone)) (\<lambda>mandatory3.
               pureM (dset drift ''mandatory'' (PList [mandatory3, mandatory])))
             else pureM drift) (\<lambda>drift.
          if \<not> (drift \<noteq> []) then
            let ret = dset ret ''comment'' (PStr (''VM-Host rule '' @ py_str name @ '' already matches''))
        in
            pureM (PDict ret)
          else
            bindM (liftR (py_item opts ''test'')) (\<lambda>tst.
            if truthy tst then
              let ret = dset ret ''result'' PNone in
              bindM (liftR (py_sorted (map (\<lambda>(k, _). PStr k) drift))) (\<lambda>ordered.
              let ret = dset ret ''comment'' (PStr (''VM-Host rule '' @ py_str name @ '' would change: '' @ py_str
        (PList ordered))) in
              pureM (PDict ret))
            else
              bindM (vim_drs_rule_delete api opts cluster name profile) (\<lambda>_.
              bindM
                (vim_drs_rule_create_vm_host api opts cluster name vm_group_name host_group_name affine mandatory
        enabled profile) (\<lambda>_.
              let ret = dset ret ''changes'' (PDict drift) in
              let ret = dset ret ''comment'' (PStr (''VM-Host rule '' @ py_str name @ '' updated'')) in
              pureM (PDict ret)))))))))))))
      else
        bindM (liftR (py_item opts ''test'')) (\<lambda>tst2.
        if truthy tst2 then
          let ret = dset ret ''result'' PNone in
          let ret = dset ret ''comment'' (PStr (''VM-Host rule '' @ py_str name @ '' would be created''))
        in
          pureM (PDict ret)
        else
          bindM
            (vim_drs_rule_create_vm_host api opts cluster name vm_group_name host_group_name affine mandatory
        enabled profile) (\<lambda>_.
          let ret = dset ret ''changes'' (PDict [(''new'', name), (''vm_group'', vm_group_name), (''host_group'',
        host_group_name), (''affine'', PBool (truthy affine))]) in
          let ret = dset ret ''comment'' (PStr (''VM-Host rule '' @ py_str name @ '' created'')) in
          pureM (PDict ret)))))"

definition vcf_vim_drs_rule_vm_group :: "vmodl \<Rightarrow> pyval \<Rightarrow> pyval \<Rightarrow> pyval \<Rightarrow> pyval \<Rightarrow> profile \<Rightarrow> pyval io" where
  "vcf_vim_drs_rule_vm_group api opts name cluster vm_moids profile =
     (let ret = vcf_vim_drs_rule_ret name in
      bindM (liftR (py_iter vm_moids)) (\<lambda>items2.
      bindM (liftR (py_set items2)) (\<lambda>items3.
      bindM (liftR (py_sorted items3)) (\<lambda>desired.
      bindM (vim_drs_rule_get_group_or_none api opts cluster name profile) (\<lambda>existing.
      if existing \<noteq> PNone then
        bindM (liftR (py_get existing ''kind'' PNone)) (\<lambda>kind.
        if \<not> py_eq kind (PStr ''vm'') then
          let ret = dset ret ''result'' (PBool False) in
          let ret = dset ret ''comment'' (PStr (''group '' @ py_str name @ '' exists but is a host group''))
        in
          pureM (PDict ret)
        else
          bindM (liftR (py_get existing ''members'' (PList []))) (\<lambda>members.
          bindM (liftR (py_iter members)) (\<lambda>items4.
          bindM (liftR (py_set items4)) (\<lambda>items5.
          bindM (liftR (py_sorted items5)) (\<lambda>current.
          if py_eq (PList current) (PList desired) then
            let ret = dset ret ''comment'' (PStr (''VM group '' @ py_str name @ '' already matches'')) in
            pureM (PDict ret)
          else
            bindM (liftR (py_item opts ''test'')) (\<lambda>tst.
            if truthy tst then
              let ret = dset ret ''result'' PNone in
              let ret = dset ret ''comment'' (PStr (''VM group '' @ py_str name @ '' membership would change''))
        in
              pureM (PDict ret)
            else
              bindM (vim_drs_rule_update_group api opts cluster name (PList desired) PNone profile) (\<lambda>_.
              let ret = dset ret ''changes'' (PDict [(''members'', PList [PList current, PList desired])])
        in
              let ret = dset ret ''comment'' (PStr (''VM group '' @ py_str name @ '' updated'')) in
              pureM (PDict ret))))))))
      else
        bindM (liftR (py_item opts ''test'')) (\<lambda>tst2.
        if truthy tst2 then
          let ret = dset ret ''result'' PNone in
          let ret = dset ret ''comment'' (PStr (''VM group '' @ py_str name @ '' would be created'')) in
          pureM (PDict ret)
        else
          bindM (vim_drs_rule_create_vm_group api opts cluster name (PList desired) profile) (\<lambda>_.
          let ret = dset ret ''changes'' (PDict [(''new'', name), (''members'', PList desired)]) in
          let ret = dset ret ''comment'' (PStr (''VM group '' @ py_str name @ '' created'')) in
          pureM (PDict ret))))))))"

definition vcf_vim_drs_rule_host_group :: "vmodl \<Rightarrow> pyval \<Rightarrow> pyval \<Rightarrow> pyval
  \<Rightarrow> pyval \<Rightarrow> profile \<Rightarrow> pyval io" where
  "vcf_vim_drs_rule_host_group api opts name cluster host_moids profile =
     (let ret = vcf_vim_drs_rule_ret name in
      bindM (liftR (py_iter host_moids)) (\<lambda>items2.
      bindM (liftR (py_set items2)) (\<lambda>items3.
      bindM (liftR (py_sorted items3)) (\<lambda>desired.
      bindM (vim_drs_rule_get_group_or_none api opts cluster name profile) (\<lambda>existing.
      if existing \<noteq> PNone then
        bindM (liftR (py_get existing ''kind'' PNone)) (\<lambda>kind.
        if \<not> py_eq kind (PStr ''host'') then
          let ret = dset ret ''result'' (PBool False) in
          let ret = dset ret ''comment'' (PStr (''group '' @ py_str name @ '' exists but is a VM group''))
        in
          pureM (PDict ret)
        else
          bindM (liftR (py_get existing ''members'' (PList []))) (\<lambda>members.
          bindM (liftR (py_iter members)) (\<lambda>items4.
          bindM (liftR (py_set items4)) (\<lambda>items5.
          bindM (liftR (py_sorted items5)) (\<lambda>current.
          if py_eq (PList current) (PList desired) then
            let ret = dset ret ''comment'' (PStr (''host group '' @ py_str name @ '' already matches''))
        in
            pureM (PDict ret)
          else
            bindM (liftR (py_item opts ''test'')) (\<lambda>tst.
            if truthy tst then
              let ret = dset ret ''result'' PNone in
              let ret = dset ret ''comment'' (PStr (''host group '' @ py_str name @ '' membership would change''))
        in
              pureM (PDict ret)
            else
              bindM (vim_drs_rule_update_group api opts cluster name PNone (PList desired) profile) (\<lambda>_.
              let ret = dset ret ''changes'' (PDict [(''members'', PList [PList current, PList desired])])
        in
              let ret = dset ret ''comment'' (PStr (''host group '' @ py_str name @ '' updated'')) in
              pureM (PDict ret))))))))
      else
        bindM (liftR (py_item opts ''test'')) (\<lambda>tst2.
        if truthy tst2 then
          let ret = dset ret ''result'' PNone in
          let ret = dset ret ''comment'' (PStr (''host group '' @ py_str name @ '' would be created'')) in
          pureM (PDict ret)
        else
          bindM (vim_drs_rule_create_host_group api opts cluster name (PList desired) profile) (\<lambda>_.
          let ret = dset ret ''changes'' (PDict [(''new'', name), (''members'', PList desired)]) in
          let ret = dset ret ''comment'' (PStr (''host group '' @ py_str name @ '' created'')) in
          pureM (PDict ret))))))))"

definition vcf_vim_drs_rule_group_absent :: "vmodl \<Rightarrow> pyval \<Rightarrow> pyval \<Rightarrow> pyval \<Rightarrow> profile \<Rightarrow> pyval io" where
  "vcf_vim_drs_rule_group_absent api opts name cluster profile =
     (let ret = vcf_vim_drs_rule_ret name in
      bindM (vim_drs_rule_get_group_or_none api opts cluster name profile) (\<lambda>existing.
      if existing = PNone then
        let ret = dset ret ''comment'' (PStr (''group '' @ py_str name @ '' already absent'')) in
        pureM (PDict ret)
      else
        bindM (liftR (py_item opts ''test'')) (\<lambda>tst.
        if truthy tst then
          let ret = dset ret ''result'' PNone in
          let ret = dset ret ''comment'' (PStr (''group '' @ py_str name @ '' would be deleted'')) in
          pureM (PDict ret)
        else
          bindM (vim_drs_rule_delete_group api opts cluster name profile) (\<lambda>_.
          let ret = dset ret ''changes'' (PDict [(''deleted'', name)]) in
          let ret = dset ret ''comment'' (PStr (''group '' @ py_str name @ '' deleted'')) in
          pureM (PDict ret)))))"

subsection \<open>\<open>states/vcf_vim_dvs.py\<close>\<close>

definition vcf_vim_dvs_ret :: "pyval \<Rightarrow> dict" where
  "vcf_vim_dvs_ret name =
     [(''name'', name), (''changes'', PDict []), (''result'', PBool True), (''comment'', PStr '''')]"

definition vcf_vim_dvs_present :: "vmodl \<Rightarrow> pyval \<Rightarrow> pyval \<Rightarrow> pyval \<Rightarrow>
  pyval \<Rightarrow> pyval \<Rightarrow> pyval \<Rightarrow> profile \<Rightarrow> pyval io" where
  "vcf_vim_dvs_present api opts name datacenter num_uplinks max_mtu description profile =
     (let ret = vcf_vim_dvs_ret name in
      bindM (vim_dvs_get_or_none api opts name profile) (\<lambda>existing.
      if existing \<noteq> PNone then
        let drift = [] :: dict in
        bindM (liftR (py_item existing ''max_mtu'')) (\<lambda>max_mtu2.
        bindM (liftR (py_int max_mtu)) (\<lambda>n.
        bindM
          (if \<not> py_eq max_mtu2 (PInt n) then
             bindM (liftR (py_item existing ''max_mtu'')) (\<lambda>max_mtu3.
             bindM (liftR (py_int max_mtu)) (\<lambda>n2.
             pureM (dset drift ''max_mtu'' (PList [max_mtu3, PInt n2]))))
           else pureM drift) (\<lambda>drift.
        if \<not> (drift \<noteq> []) then
          let ret = dset ret ''comment'' (PStr (''VDS '' @ py_str name @ '' already matches'')) in
          pureM (PDict ret)
        else
          bindM (liftR (py_item opts ''test'')) (\<lambda>tst.
          if truthy tst then
            let ret = dset ret ''result'' PNone in
            bindM (liftR (py_sorted (map (\<lambda>(k, _). PStr k) drift))) (\<lambda>ordered.
            let ret = dset ret ''comment'' (PStr (''VDS '' @ py_str name @ '' would be updated: '' @ py_str (PList
        ordered))) in
            pureM (PDict ret))
          else
            bindM (liftR (py_int max_mtu)) (\<lambda>n3.
            bindM (vim_dvs_reconfigure api opts name (PInt n3) description profile) (\<lambda>_.
            let ret = dset ret ''changes'' (PDict drift) in
            let ret = dset ret ''comment'' (PStr (''VDS '' @ py_str name @ '' updated'')) in
            pureM (PDict ret)))))))
      else
        bindM (liftR (py_item opts ''test'')) (\<lambda>tst2.
        if truthy tst2 then
          let ret = dset ret ''result'' PNone in
          let ret = dset ret ''comment'' (PStr (''VDS '' @ py_str name @ '' would be created in '' @ py_str
        datacenter)) in
          pureM (PDict ret)
        else
          bindM (liftR (py_int num_uplinks)) (\<lambda>n4.
          bindM (liftR (py_int max_mtu)) (\<lambda>n5.
          bindM (vim_dvs_create api opts name datacenter PNone (PInt n4) (PInt n5) description profile)
        (\<lambda>_.
          let ret = dset ret ''changes'' (PDict [(''new'', name)]) in
          let ret = dset ret ''comment'' (PStr (''VDS '' @ py_str name @ '' created in '' @ py_str datacenter))
        in
          pureM (PDict ret)))))))"

definition vcf_vim_dvs_absent :: "vmodl \<Rightarrow> pyval \<Rightarrow> pyval \<Rightarrow> profile \<Rightarrow> pyval io" where
  "vcf_vim_dvs_absent api opts name profile =
     (let ret = vcf_vim_dvs_ret name in
      bindM (vim_dvs_get_or_none api opts name profile) (\<lambda>get_or_none.
      if get_or_none = PNone then
        let ret = dset ret ''comment'' (PStr (''VDS '' @ py_str name @ '' is already absent'')) in
        pureM (PDict ret)
      else
        bindM (liftR (py_item opts ''test'')) (\<lambda>tst.
        if truthy tst then
          let ret = dset ret ''result'' PNone in
          let ret = dset ret ''comment'' (PStr (''VDS '' @ py_str name @ '' would be deleted'')) in
          pureM (PDict ret)
        else
          bindM (vim_dvs_delete api opts name profile) (\<lambda>_.
          let ret = dset ret ''changes'' (PDict [(''deleted'', name)]) in
          let ret = dset ret ''comment'' (PStr (''VDS '' @ py_str name @ '' deleted'')) in
          pureM (PDict ret)))))"

definition vcf_vim_dvs_portgroup_present ::
  "vmodl \<Rightarrow> pyval \<Rightarrow> pyval \<Rightarrow> pyval \<Rightarrow> pyval \<Rightarrow> pyval \<Rightarrow> pyval \<Rightarrow> pyval \<Rightarrow> profile \<Rightarrow> pyval io" where
  "vcf_vim_dvs_portgroup_present api opts name dvs vlan_id num_ports binding promiscuous profile =
     (let ret = vcf_vim_dvs_ret name in
      bindM (vim_dvs_portgroup_get_or_none api opts dvs name profile) (\<lambda>existing.
      if existing \<noteq> PNone then
        let drift = [] :: dict in
        bindM (liftR (py_get existing ''vlan'' PNone)) (\<lambda>vlan.
        bindM (liftR (py_get (py_or vlan (PDict [])) ''vlan_id'' PNone)) (\<lambda>current_vlan.
        bindM
          (if current_vlan \<noteq> PNone then
             bindM (liftR (py_int vlan_id)) (\<lambda>n.
             pureM (\<not> py_eq current_vlan (PInt n)))
           else pureM False) (\<lambda>holds_v.
        bindM
          (if holds_v then
             bindM (liftR (py_int vlan_id)) (\<lambda>n2.
             pureM (dset drift ''vlan_id'' (PList [current_vlan, PInt n2])))
           else pureM drift) (\<lambda>drift.
        bindM (liftR (py_get existing ''num_ports'' PNone)) (\<lambda>num_ports2.
        bindM (liftR (py_int num_ports)) (\<lambda>n3.
        bindM
          (if \<not> py_eq num_ports2 (PInt n3) then
             bindM (liftR (py_get existing ''num_ports'' PNone)) (\<lambda>num_ports3.
             bindM (liftR (py_int num_ports)) (\<lambda>n4.
             pureM (dset drift ''num_ports'' (PList [num_ports3, PInt n4]))))
           else pureM drift) (\<lambda>drift.
        if \<not> (drift \<noteq> []) then
          let ret = dset ret ''comment'' (PStr (''DPG '' @ py_str name @ '' on '' @ py_str dvs @
        '' already matches'')) in
          pureM (PDict ret)
        else
          bindM (liftR (py_item opts ''test'')) (\<lambda>tst.
          if truthy tst then
            let ret = dset ret ''result'' PNone in
            bindM (liftR (py_sorted (map (\<lambda>(k, _). PStr k) drift))) (\<lambda>ordered.
            let ret = dset ret ''comment'' (PStr (''DPG '' @ py_str name @ '' on '' @ py_str dvs @
        '' would be updated: '' @ py_str (PList ordered))) in
            pureM (PDict ret))
          else
            bindM (liftR (py_int vlan_id)) (\<lambda>n5.
            bindM (liftR (py_int num_ports)) (\<lambda>n6.
            bindM (vim_dvs_portgroup_reconfigure api opts dvs name (PInt n5) (PInt n6) promiscuous profile)
        (\<lambda>_.
            let ret = dset ret ''changes'' (PDict drift) in
            let ret = dset ret ''comment'' (PStr (''DPG '' @ py_str name @ '' on '' @ py_str dvs @ '' updated''))
        in
            pureM (PDict ret))))))))))))
      else
        bindM (liftR (py_item opts ''test'')) (\<lambda>tst2.
        if truthy tst2 then
          let ret = dset ret ''result'' PNone in
          let ret = dset ret ''comment'' (PStr (''DPG '' @ py_str name @ '' would be created on '' @ py_str dvs))
        in
          pureM (PDict ret)
        else
          bindM (liftR (py_int vlan_id)) (\<lambda>n7.
          bindM (liftR (py_int num_ports)) (\<lambda>n8.
          bindM
            (vim_dvs_portgroup_create_vlan api opts dvs name (PInt n7) (PInt n8) binding (PBool True) promiscuous
        profile) (\<lambda>_.
          let ret = dset ret ''changes'' (PDict [(''new'', name)]) in
          let ret = dset ret ''comment'' (PStr (''DPG '' @ py_str name @ '' created on '' @ py_str dvs))
        in
          pureM (PDict ret)))))))"

definition vcf_vim_dvs_portgroup_absent :: "vmodl \<Rightarrow> pyval \<Rightarrow> pyval \<Rightarrow> pyval \<Rightarrow> profile \<Rightarrow> pyval io" where
  "vcf_vim_dvs_portgroup_absent api opts name dvs profile =
     (let ret = vcf_vim_dvs_ret name in
      bindM (vim_dvs_portgroup_get_or_none api opts dvs name profile) (\<lambda>get_or_none.
      if get_or_none = PNone then
        let ret = dset ret ''comment'' (PStr (''DPG '' @ py_str name @ '' on '' @ py_str dvs @
        '' is already absent'')) in
        pureM (PDict ret)
      else
        bindM (liftR (py_item opts ''test'')) (\<lambda>tst.
        if truthy tst then
          let ret = dset ret ''result'' PNone in
          let ret = dset ret ''comment'' (PStr (''DPG '' @ py_str name @ '' on '' @ py_str dvs @
        '' would be deleted'')) in
          pureM (PDict ret)
        else
          bindM (vim_dvs_portgroup_delete api opts dvs name profile) (\<lambda>_.
          let ret = dset ret ''changes'' (PDict [(''deleted'', name)]) in
          let ret = dset ret ''comment'' (PStr (''DPG '' @ py_str name @ '' on '' @ py_str dvs @ '' deleted''))
        in
          pureM (PDict ret)))))"

definition vcf_vim_dvs_teaming_configured ::
  "vmodl \<Rightarrow> pyval \<Rightarrow> pyval \<Rightarrow> pyval \<Rightarrow> pyval \<Rightarrow> pyval
    \<Rightarrow> pyval \<Rightarrow> pyval \<Rightarrow> pyval \<Rightarrow> pyval \<Rightarrow> pyval \<Rightarrow> profile \<Rightarrow> pyval io" where
  "vcf_vim_dvs_teaming_configured api opts name dvs policy reverse_policy notify_switches rolling_order check_beacon
    active_uplinks standby_uplinks profile =
     (let ret = vcf_vim_dvs_ret name in
      bindM (vim_dvs_portgroup_get_or_none api opts dvs name profile) (\<lambda>existing.
      if existing = PNone then
        let ret = dset ret ''result'' (PBool False) in
        let ret = dset ret ''comment'' (PStr (''DPG '' @ py_str name @ '' not found on '' @ py_str dvs))
        in
        pureM (PDict ret)
      else
        bindM (liftR (py_get existing ''teaming'' PNone)) (\<lambda>teaming.
        let current = py_or teaming (PDict []) in
        bindM
          (if active_uplinks \<noteq> PNone then
             bindM (liftR (py_iter active_uplinks)) (\<lambda>items2.
             pureM (PList items2))
           else pureM PNone) (\<lambda>x.
        bindM
          (if standby_uplinks \<noteq> PNone then
             bindM (liftR (py_iter standby_uplinks)) (\<lambda>items3.
             pureM (PList items3))
           else pureM PNone) (\<lambda>x2.
        let desired = [(''policy'', policy), (''reverse_policy'', reverse_policy), (''notify_switches'',
        notify_switches), (''rolling_order'', rolling_order), (''check_beacon'', check_beacon), (''active_uplinks'',
        x), (''standby_uplinks'', x2)] in
        let drift = [] :: dict in
        bindM
          (foldM (\<lambda>(k, want) drift.
             if want = PNone then pureM drift
             else
               bindM (liftR (py_lookup current (PStr k) PNone)) (\<lambda>have.
               bindM
                 (if in_strs (PStr k) [''active_uplinks'', ''standby_uplinks''] then
                    bindM (liftR (py_iter (py_or have (PList [])))) (\<lambda>have.
                    pureM (PList have))
                  else pureM have) (\<lambda>have.
               pureM (if \<not> py_eq have want then dset drift k (PList [have, want]) else drift)))) desired drift)
        (\<lambda>drift.
        if \<not> (drift \<noteq> []) then
          let ret = dset ret ''comment'' (PStr (''DPG '' @ py_str name @ '' teaming on '' @ py_str dvs @
        '' already matches'')) in
          pureM (PDict ret)
        else
          bindM (liftR (py_item opts ''test'')) (\<lambda>tst.
          if truthy tst then
            let ret = dset ret ''result'' PNone in
            bindM (liftR (py_sorted (map (\<lambda>(k, _). PStr k) drift))) (\<lambda>ordered.
            let ret = dset ret ''comment'' (PStr (''DPG '' @ py_str name @ '' teaming on '' @ py_str dvs @
        '' would be updated: '' @ py_str (PList ordered))) in
            pureM (PDict ret))
          else
            bindM
              (vim_dvs_portgroup_set_teaming api opts dvs name policy reverse_policy notify_switches rolling_order
        check_beacon active_uplinks standby_uplinks profile) (\<lambda>_.
            let ret = dset ret ''changes'' (PDict drift) in
            let ret = dset ret ''comment'' (PStr (''DPG '' @ py_str name @ '' teaming on '' @ py_str dvs @
        '' updated'')) in
            pureM (PDict ret)))))))))"

subsection \<open>\<open>states/vcf_vim_extension.py\<close>\<close>

definition vcf_vim_extension_ret :: "pyval \<Rightarrow> dict" where
  "vcf_vim_extension_ret name =
     [(''name'', name), (''changes'', PDict []), (''result'', PBool True), (''comment'', PStr '''')]"

definition vcf_vim_extension_registered ::
  "vmodl \<Rightarrow> pyval \<Rightarrow> pyval \<Rightarrow> pyval \<Rightarrow> pyval \<Rightarrow> pyval \<Rightarrow> profile \<Rightarrow> dict \<Rightarrow> pyval io" where
  "vcf_vim_extension_registered api opts name version description company profile fields_v =
     (let ret = vcf_vim_extension_ret name in
      bindM (vim_extension_get_or_none api opts name profile) (\<lambda>current.
      if current \<noteq> PNone then
        bindM (liftR (py_get current ''version'' PNone)) (\<lambda>version2.
        bindM
          (if py_eq version2 version then
             bindM (liftR (py_get current ''description'' PNone)) (\<lambda>description2.
             pureM (py_eq description2 description))
           else pureM False) (\<lambda>holds_v.
        bindM
          (if holds_v then
             bindM (liftR (py_get current ''company'' PNone)) (\<lambda>company2.
             pureM (py_eq company2 company))
           else pureM False) (\<lambda>holds_v2.
        if holds_v2 then
          let ret = dset ret ''comment'' (PStr (''Extension '' @ py_str name @ '' already registered as '' @ py_str
        version)) in
          pureM (PDict ret)
        else
          bindM (liftR (py_item opts ''test'')) (\<lambda>tst.
          if truthy tst then
            let ret = dset ret ''result'' PNone in
            let ret = dset ret ''comment'' (PStr (''Extension '' @ py_str name @ '' would be updated''))
        in
            pureM (PDict ret)
          else
            bindM (vim_extension_update api opts name version description profile fields_v) (\<lambda>_.
            bindM (liftR (py_get current ''version'' PNone)) (\<lambda>version3.
            bindM (liftR (py_get current ''description'' PNone)) (\<lambda>description3.
            let ret = dset ret ''changes'' (PDict [(''version'', PDict [(''old'', version3), (''new'', version)]),
        (''description'', PDict [(''old'', description3), (''new'', description)])]) in
            let ret = dset ret ''comment'' (PStr (''Extension '' @ py_str name @ '' updated'')) in
            pureM (PDict ret))))))))
      else
        bindM (liftR (py_item opts ''test'')) (\<lambda>tst2.
        if truthy tst2 then
          let ret = dset ret ''result'' PNone in
          let ret = dset ret ''comment'' (PStr (''Extension '' @ py_str name @ '' would be registered''))
        in
          pureM (PDict ret)
        else
          bindM (vim_extension_register api opts name version description company profile fields_v) (\<lambda>_.
          let ret = dset ret ''changes'' (PDict [(''new'', name)]) in
          let ret = dset ret ''comment'' (PStr (''Extension '' @ py_str name @ '' registered'')) in
          pureM (PDict ret)))))"

definition vcf_vim_extension_unregistered :: "vmodl \<Rightarrow> pyval \<Rightarrow> pyval \<Rightarrow> profile \<Rightarrow> pyval io" where
  "vcf_vim_extension_unregistered api opts name profile =
     (let ret = vcf_vim_extension_ret name in
      bindM (vim_extension_get_or_none api opts name profile) (\<lambda>get_or_none.
      if get_or_none = PNone then
        let ret = dset ret ''comment'' (PStr (''Extension '' @ py_str name @ '' is already unregistered''))
        in
        pureM (PDict ret)
      else
        bindM (liftR (py_item opts ''test'')) (\<lambda>tst.
        if truthy tst then
          let ret = dset ret ''result'' PNone in
          let ret = dset ret ''comment'' (PStr (''Extension '' @ py_str name @ '' would be unregistered''))
        in
          pureM (PDict ret)
        else
          bindM (vim_extension_unregister api opts name profile) (\<lambda>_.
          let ret = dset ret ''changes'' (PDict [(''deleted'', name)]) in
          let ret = dset ret ''comment'' (PStr (''Extension '' @ py_str name @ '' unregistered'')) in
          pureM (PDict ret)))))"

subsection \<open>\<open>states/vcf_vim_first_class_disk.py\<close>\<close>

definition vcf_vim_first_class_disk_ret :: "pyval \<Rightarrow> dict" where
  "vcf_vim_first_class_disk_ret name =
     [(''name'', name), (''changes'', PDict []), (''result'', PBool True), (''comment'', PStr '''')]"

definition vcf_vim_first_class_disk_find_by_name :: "vmodl \<Rightarrow> pyval \<Rightarrow> pyval \<Rightarrow>
  pyval \<Rightarrow> profile \<Rightarrow> pyval io" where
  "vcf_vim_first_class_disk_find_by_name api opts datastore name profile =
     bindM (vim_first_class_disk_list api opts datastore profile) (\<lambda>items.
     bindM (liftR (py_iter items)) (\<lambda>items2.
     or_else
       (first_of (\<lambda>fcd.
          bindM (liftR (py_item fcd ''name'')) (\<lambda>name2.
          if py_eq name2 name then pureM (Some fcd) else pureM None)) items2)
       (pureM PNone)))"

definition vcf_vim_first_class_disk_present ::
  "vmodl \<Rightarrow> pyval \<Rightarrow> pyval \<Rightarrow> pyval \<Rightarrow> pyval \<Rightarrow> pyval \<Rightarrow> pyval \<Rightarrow> pyval \<Rightarrow> profile \<Rightarrow> pyval io" where
  "vcf_vim_first_class_disk_present api opts name datastore capacity_gb provisioning keep_after_delete_vm profile_id
    profile =
     (let ret = vcf_vim_first_class_disk_ret name in
      bindM (vcf_vim_first_class_disk_find_by_name api opts datastore name profile) (\<lambda>existing.
      bindM (liftR (py_int capacity_gb)) (\<lambda>n.
      let desired_bytes = n * 1024 * 1024 * 1024 in
      if existing \<noteq> PNone then
        let drift = [] :: dict in
        bindM (liftR (py_item existing ''capacity_bytes'')) (\<lambda>capacity_bytes.
        bindM (liftR (py_lt capacity_bytes (PInt desired_bytes))) (\<lambda>holds_v.
        bindM
          (if holds_v then
             bindM (liftR (py_item existing ''capacity_bytes'')) (\<lambda>capacity_bytes2.
             pureM (dset drift ''capacity_bytes'' (PList [capacity_bytes2, PInt desired_bytes])))
           else pureM drift) (\<lambda>drift.
        bindM (liftR (py_item existing ''keep_after_delete_vm'')) (\<lambda>keep_after_delete_vm2.
        bindM
          (if truthy keep_after_delete_vm2 \<noteq> truthy keep_after_delete_vm then
             bindM (liftR (py_item existing ''keep_after_delete_vm'')) (\<lambda>keep_after_delete_vm3.
             pureM (dset drift ''keep_after_delete_vm'' (PList [keep_after_delete_vm3, PBool (truthy
        keep_after_delete_vm)])))
           else pureM drift) (\<lambda>drift.
        if \<not> (drift \<noteq> []) then
          let ret = dset ret ''comment'' (PStr (''FCD '' @ py_str name @ '' already matches'')) in
          pureM (PDict ret)
        else
          bindM (liftR (py_item opts ''test'')) (\<lambda>tst.
          if truthy tst then
            let ret = dset ret ''result'' PNone in
            bindM (liftR (py_sorted (map (\<lambda>(k, _). PStr k) drift))) (\<lambda>ordered.
            let ret = dset ret ''comment'' (PStr (''FCD '' @ py_str name @ '' would change: '' @ py_str (PList
        ordered))) in
            pureM (PDict ret))
          else
            bindM (liftR (py_in (PStr ''capacity_bytes'') (PDict drift))) (\<lambda>found.
            bindM
              (if found then
                 bindM (liftR (py_item existing ''id'')) (\<lambda>ident.
                 bindM (vim_first_class_disk_extend api opts ident datastore capacity_gb profile) (\<lambda>_.
                 pureM ()))
               else pureM ()) (\<lambda>_.
            bindM (liftR (py_in (PStr ''keep_after_delete_vm'') (PDict drift))) (\<lambda>found2.
            bindM
              (if found2 then
                 bindM (liftR (py_item existing ''id'')) (\<lambda>ident2.
                 bindM
                   (vim_first_class_disk_set_keep_after_delete_vm api opts ident2 datastore (PBool (truthy
        keep_after_delete_vm)) profile) (\<lambda>_.
                 pureM ()))
               else pureM ()) (\<lambda>_.
            let ret = dset ret ''changes'' (PDict drift) in
            let ret = dset ret ''comment'' (PStr (''FCD '' @ py_str name @ '' updated'')) in
            pureM (PDict ret)))))))))))
      else
        bindM (liftR (py_item opts ''test'')) (\<lambda>tst2.
        if truthy tst2 then
          let ret = dset ret ''result'' PNone in
          let ret = dset ret ''comment'' (PStr (''FCD '' @ py_str name @ '' would be created on '' @ py_str
        datastore)) in
          pureM (PDict ret)
        else
          bindM
            (vim_first_class_disk_create api opts name datastore capacity_gb provisioning profile_id
        keep_after_delete_vm profile) (\<lambda>task.
          let ret = dset ret ''changes'' (PDict [(''created_task'', task)]) in
          let ret = dset ret ''comment'' (PStr (''FCD '' @ py_str name @ '' create task started'')) in
          pureM (PDict ret))))))"

definition vcf_vim_first_class_disk_absent :: "vmodl \<Rightarrow> pyval \<Rightarrow> pyval \<Rightarrow> pyval \<Rightarrow> profile \<Rightarrow> pyval io" where
  "vcf_vim_first_class_disk_absent api opts name datastore profile =
     (let ret = vcf_vim_first_class_disk_ret name in
      bindM (vcf_vim_first_class_disk_find_by_name api opts datastore name profile) (\<lambda>existing.
      if existing = PNone then
        let ret = dset ret ''comment'' (PStr (''FCD '' @ py_str name @ '' already absent'')) in
        pureM (PDict ret)
      else
        bindM (liftR (py_item opts ''test'')) (\<lambda>tst.
        if truthy tst then
          let ret = dset ret ''result'' PNone in
          let ret = dset ret ''comment'' (PStr (''FCD '' @ py_str name @ '' would be deleted'')) in
          pureM (PDict ret)
        else
          bindM (liftR (py_item existing ''id'')) (\<lambda>ident.
          bindM (vim_first_class_disk_delete api opts ident datastore profile) (\<lambda>_.
          bindM (liftR (py_item existing ''id'')) (\<lambda>ident2.
          let ret = dset ret ''changes'' (PDict [(''deleted'', ident2)]) in
          let ret = dset ret ''comment'' (PStr (''FCD '' @ py_str name @ '' deleted'')) in
          pureM (PDict ret)))))))"

subsection \<open>\<open>states/vcf_vim_host_acceptance.py\<close>\<close>

definition vcf_vim_host_acceptance_ret :: "pyval \<Rightarrow> dict" where
  "vcf_vim_host_acceptance_ret name =
     [(''name'', name), (''changes'', PDict []), (''result'', PBool True), (''comment'', PStr '''')]"

definition vcf_vim_host_acceptance_level :: "vmodl \<Rightarrow> pyval \<Rightarrow> pyval \<Rightarrow> pyval
  \<Rightarrow> pyval \<Rightarrow> profile \<Rightarrow> pyval io" where
  "vcf_vim_host_acceptance_level api opts name host level profile =
     (let host = py_or host name in
      let ret = vcf_vim_host_acceptance_ret name in
      if level = PNone then
        let ret = dset ret ''result'' (PBool False) in
        let ret = dset ret ''comment'' (PStr ''level is required'') in
        pureM (PDict ret)
      else
        bindM (vim_host_acceptance_get api opts host profile) (\<lambda>current.
        if py_eq current level then
          let ret = dset ret ''comment'' (PStr (''acceptance level on '' @ py_str host @ '' already '' @ py_repr
        level)) in
          pureM (PDict ret)
        else
          bindM (liftR (py_item opts ''test'')) (\<lambda>tst.
          if truthy tst then
            let ret = dset ret ''result'' PNone in
            let ret = dset ret ''comment'' (PStr (''acceptance level on '' @ py_str host @ '' would change from '' @
        py_repr current @ '' to '' @ py_repr level)) in
            pureM (PDict ret)
          else
            bindM (vim_host_acceptance_set api opts host level profile) (\<lambda>_.
            let ret = dset ret ''changes'' (PDict [(''level'', PList [current, level])]) in
            let ret = dset ret ''comment'' (PStr (''acceptance level on '' @ py_str host @ '' set to '' @ py_repr
        level)) in
            pureM (PDict ret)))))"

subsection \<open>\<open>states/vcf_vim_host_certificate.py\<close>\<close>

definition vcf_vim_host_certificate_ret :: "pyval \<Rightarrow> dict" where
  "vcf_vim_host_certificate_ret name =
     [(''name'', name), (''changes'', PDict []), (''result'', PBool True), (''comment'', PStr '''')]"

subsection \<open>\<open>states/vcf_vim_host_config.py\<close>\<close>

definition vcf_vim_host_config_ret :: "pyval \<Rightarrow> dict" where
  "vcf_vim_host_config_ret name =
     [(''name'', name), (''changes'', PDict []), (''result'', PBool True), (''comment'', PStr '''')]"

definition vcf_vim_host_config_ntp ::
  "vmodl \<Rightarrow> pyval \<Rightarrow> pyval \<Rightarrow> pyval \<Rightarrow> pyval \<Rightarrow> pyval \<Rightarrow> pyval \<Rightarrow> profile \<Rightarrow> pyval io" where
  "vcf_vim_host_config_ntp api opts name host servers running policy profile =
     (let host = py_or host name in
      let ret = vcf_vim_host_config_ret name in
      bindM (vim_host_config_ntp_get api opts host profile) (\<lambda>current.
      let drift = [] :: dict in
      bindM
        (if servers \<noteq> PNone then
           bindM (liftR (py_item current ''servers'')) (\<lambda>servers2.
           bindM (liftR (py_iter servers2)) (\<lambda>items2.
           bindM (liftR (py_sorted items2)) (\<lambda>ordered.
           bindM (liftR (py_iter servers)) (\<lambda>items3.
           bindM (liftR (py_sorted items3)) (\<lambda>ordered2.
           pureM (\<not> py_eq (PList ordered) (PList ordered2)))))))
         else pureM False) (\<lambda>holds_v.
      bindM
        (if holds_v then
           bindM (liftR (py_item current ''servers'')) (\<lambda>servers3.
           bindM (liftR (py_iter servers)) (\<lambda>items4.
           pureM (dset drift ''servers'' (PList [servers3, PList items4]))))
         else pureM drift) (\<lambda>drift.
      bindM
        (if running \<noteq> PNone then
           bindM (liftR (py_item current ''enabled'')) (\<lambda>enabled.
           pureM (\<not> py_eq enabled (PBool (truthy running))))
         else pureM False) (\<lambda>holds_v2.
      bindM
        (if holds_v2 then
           bindM (liftR (py_item current ''enabled'')) (\<lambda>enabled2.
           pureM (dset drift ''running'' (PList [enabled2, PBool (truthy running)])))
         else pureM drift) (\<lambda>drift.
      bindM
        (if policy \<noteq> PNone then
           bindM (liftR (py_item current ''policy'')) (\<lambda>policy2.
           pureM (\<not> py_eq policy2 policy))
         else pureM False) (\<lambda>holds_v3.
      bindM
        (if holds_v3 then
           bindM (liftR (py_item current ''policy'')) (\<lambda>policy3.
           pureM (dset drift ''policy'' (PList [policy3, policy])))
         else pureM drift) (\<lambda>drift.
      if \<not> (drift \<noteq> []) then
        let ret = dset ret ''comment'' (PStr (''NTP on '' @ py_str host @ '' already matches'')) in
        pureM (PDict ret)
      else
        bindM (liftR (py_item opts ''test'')) (\<lambda>tst.
        if truthy tst then
          let ret = dset ret ''result'' PNone in
          bindM (liftR (py_sorted (map (\<lambda>(k, _). PStr k) drift))) (\<lambda>ordered3.
          let ret = dset ret ''comment'' (PStr (''NTP on '' @ py_str host @ '' would be updated: '' @ py_str (PList
        ordered3))) in
          pureM (PDict ret))
        else
          bindM (liftR (py_in (PStr ''servers'') (PDict drift))) (\<lambda>found.
          bindM
            (if found then
               bindM (liftR (py_iter servers)) (\<lambda>items5.
               bindM (vim_host_config_ntp_set_servers api opts host (PList items5) profile) (\<lambda>_.
               pureM ()))
             else pureM ()) (\<lambda>_.
          bindM (liftR (py_in (PStr ''running'') (PDict drift))) (\<lambda>found2.
          bindM
            (if found2 then
               bindM (vim_host_config_ntp_set_running api opts host (PBool (truthy running)) profile) (\<lambda>_.
               pureM ())
             else pureM ()) (\<lambda>_.
          bindM (liftR (py_in (PStr ''policy'') (PDict drift))) (\<lambda>found3.
          bindM
            (if found3 then
               bindM (vim_host_config_ntp_set_policy api opts host policy profile) (\<lambda>_.
               pureM ())
             else pureM ()) (\<lambda>_.
          let ret = dset ret ''changes'' (PDict drift) in
          let ret = dset ret ''comment'' (PStr (''NTP on '' @ py_str host @ '' updated'')) in
          pureM (PDict ret))))))))))))))))"

definition vcf_vim_host_config_service ::
  "vmodl \<Rightarrow> pyval \<Rightarrow> pyval \<Rightarrow> pyval \<Rightarrow> pyval \<Rightarrow> pyval \<Rightarrow> pyval \<Rightarrow> profile \<Rightarrow> pyval io" where
  "vcf_vim_host_config_service api opts name host service_id running policy profile =
     (let host = py_or host name in
      let service_id = py_or service_id name in
      let ret = vcf_vim_host_config_ret name in
      bindM (vim_host_config_service_list api opts host profile) (\<lambda>services.
      bindM (liftR (py_iter services)) (\<lambda>items.
      bindM
        (first_of (\<lambda>s.
           bindM (liftR (py_item s ''key'')) (\<lambda>key.
           if py_eq key service_id then pureM (Some s) else pureM None)) items) (\<lambda>found.
      let current = the_default PNone found in
      if current = PNone then
        let ret = dset ret ''result'' (PBool False) in
        let ret = dset ret ''comment'' (PStr (''service '' @ py_str service_id @ '' not found on '' @ py_str host))
        in
        pureM (PDict ret)
      else
        let drift = [] :: dict in
        bindM
          (if running \<noteq> PNone then
             bindM (liftR (py_item current ''running'')) (\<lambda>running2.
             pureM (\<not> py_eq running2 (PBool (truthy running))))
           else pureM False) (\<lambda>holds_v.
        bindM
          (if holds_v then
             bindM (liftR (py_item current ''running'')) (\<lambda>running3.
             pureM (dset drift ''running'' (PList [running3, PBool (truthy running)])))
           else pureM drift) (\<lambda>drift.
        bindM
          (if policy \<noteq> PNone then
             bindM (liftR (py_item current ''policy'')) (\<lambda>policy2.
             pureM (\<not> py_eq policy2 policy))
           else pureM False) (\<lambda>holds_v2.
        bindM
          (if holds_v2 then
             bindM (liftR (py_item current ''policy'')) (\<lambda>policy3.
             pureM (dset drift ''policy'' (PList [policy3, policy])))
           else pureM drift) (\<lambda>drift.
        if \<not> (drift \<noteq> []) then
          let ret = dset ret ''comment'' (PStr (''service '' @ py_str service_id @ '' on '' @ py_str host @
        '' already matches'')) in
          pureM (PDict ret)
        else
          bindM (liftR (py_item opts ''test'')) (\<lambda>tst.
          if truthy tst then
            let ret = dset ret ''result'' PNone in
            bindM (liftR (py_sorted (map (\<lambda>(k, _). PStr k) drift))) (\<lambda>ordered.
            let ret = dset ret ''comment'' (PStr (''service '' @ py_str service_id @ '' on '' @ py_str host @
        '' would change: '' @ py_str (PList ordered))) in
            pureM (PDict ret))
          else
            bindM (liftR (py_in (PStr ''running'') (PDict drift))) (\<lambda>found2.
            bindM
              (if found2 then
                 bindM
                   (if truthy running then
                      bindM (vim_host_config_service_start api opts host service_id profile) (\<lambda>_.
                      pureM ())
                    else
                      bindM (vim_host_config_service_stop api opts host service_id profile) (\<lambda>_.
                      pureM ())) (\<lambda>_.
                 pureM ())
               else pureM ()) (\<lambda>_.
            bindM (liftR (py_in (PStr ''policy'') (PDict drift))) (\<lambda>found3.
            bindM
              (if found3 then
                 bindM (vim_host_config_service_set_policy api opts host service_id policy profile) (\<lambda>_.
                 pureM ())
               else pureM ()) (\<lambda>_.
            let ret = dset ret ''changes'' (PDict drift) in
            let ret = dset ret ''comment'' (PStr (''service '' @ py_str service_id @ '' on '' @ py_str host @
        '' updated'')) in
            pureM (PDict ret))))))))))))))"

definition vcf_vim_host_config_advanced_setting ::
  "vmodl \<Rightarrow> pyval \<Rightarrow> pyval \<Rightarrow> pyval \<Rightarrow> pyval \<Rightarrow> pyval \<Rightarrow> profile \<Rightarrow> pyval io" where
  "vcf_vim_host_config_advanced_setting api opts name host key val profile =
     (let host = py_or host name in
      let key = py_or key name in
      let ret = vcf_vim_host_config_ret name in
      attempt is_LookupError
        (vim_host_config_advanced_get api opts host key profile)
        (\<lambda>current.
         if py_eq current val then
           let ret = dset ret ''comment'' (PStr (py_str key @ '' on '' @ py_str host @ '' already '' @ py_repr val))
        in
           pureM (PDict ret)
         else
           bindM (liftR (py_item opts ''test'')) (\<lambda>tst.
           if truthy tst then
             let ret = dset ret ''result'' PNone in
             let ret = dset ret ''comment'' (PStr (py_str key @ '' on '' @ py_str host @ '' would change from '' @
        py_repr current @ '' to '' @ py_repr val)) in
             pureM (PDict ret)
           else
             bindM (vim_host_config_advanced_set api opts host key val profile) (\<lambda>_.
             let ret = dset ret ''changes'' (PDict [(''value'', PList [current, val])]) in
             let ret = dset ret ''comment'' (PStr (py_str key @ '' on '' @ py_str host @ '' set to '' @ py_repr
        val)) in
             pureM (PDict ret))))
        (\<lambda>_.
         let ret = dset ret ''result'' (PBool False) in
         let ret = dset ret ''comment'' (PStr (''advanced setting '' @ py_str key @ '' not found on '' @ py_str
        host)) in
         pureM (PDict ret)))"

definition vcf_vim_host_config_ad_joined ::
  "vmodl \<Rightarrow> pyval \<Rightarrow> pyval \<Rightarrow> pyval \<Rightarrow> pyval \<Rightarrow> pyval \<Rightarrow> pyval \<Rightarrow> pyval \<Rightarrow> profile \<Rightarrow> pyval io" where
  "vcf_vim_host_config_ad_joined api opts name host domain username password ou_path profile =
     (let host = py_or host name in
      let ret = vcf_vim_host_config_ret name in
      bindM (vim_host_config_ad_status api opts host profile) (\<lambda>status.
      bindM (liftR (py_item status ''joined'')) (\<lambda>joined.
      bindM
        (if truthy joined then
           bindM (liftR (py_item status ''domain'')) (\<lambda>domain2.
           pureM (py_eq domain2 domain))
         else pureM False) (\<lambda>holds_v.
      if holds_v then
        let ret = dset ret ''comment'' (PStr (py_str host @ '' already joined to '' @ py_str domain)) in
        pureM (PDict ret)
      else
        bindM (liftR (py_item opts ''test'')) (\<lambda>tst.
        if truthy tst then
          let ret = dset ret ''result'' PNone in
          let ret = dset ret ''comment'' (PStr (py_str host @ '' would be joined to '' @ py_str domain))
        in
          pureM (PDict ret)
        else
          bindM (vim_host_config_ad_join api opts host domain username password ou_path profile) (\<lambda>_.
          bindM (liftR (py_item status ''domain'')) (\<lambda>domain3.
          let ret = dset ret ''changes'' (PDict [(''domain'', PList [domain3, domain])]) in
          let ret = dset ret ''comment'' (PStr (py_str host @ '' joined to '' @ py_str domain)) in
          pureM (PDict ret))))))))"

subsection \<open>\<open>states/vcf_vim_host_datastore.py\<close>\<close>

definition vcf_vim_host_datastore_find :: "vmodl \<Rightarrow> pyval \<Rightarrow> pyval \<Rightarrow> pyval \<Rightarrow> profile \<Rightarrow> pyval io" where
  "vcf_vim_host_datastore_find api opts host name profile =
     bindM (exec_vim_host_datastore_list api opts host profile) (\<lambda>items.
     bindM (liftR (py_iter (py_or items (PList [])))) (\<lambda>items2.
     or_else
       (first_of (\<lambda>ds.
          bindM (liftR (py_get ds ''name'' PNone)) (\<lambda>name2.
          if py_eq name2 name then pureM (Some ds) else pureM None)) items2)
       (pureM PNone)))"

definition vcf_vim_host_datastore_vmfs_present ::
  "vmodl \<Rightarrow> pyval \<Rightarrow> pyval \<Rightarrow> pyval \<Rightarrow> pyval \<Rightarrow> pyval \<Rightarrow> profile \<Rightarrow> pyval io" where
  "vcf_vim_host_datastore_vmfs_present api opts name host device_path vmfs_version profile =
     (let ret = [(''name'', name), (''changes'', PDict []), (''result'', PBool True), (''comment'', PStr '''')]
       in
      bindM (vcf_vim_host_datastore_find api opts host name profile) (\<lambda>existing.
      if truthy existing then
        bindM (liftR (py_get existing ''capacity_bytes'' (PInt 0))) (\<lambda>capacity_bytes.
        bindM (liftR (py_floordiv capacity_bytes 1073741824)) (\<lambda>gib.
        let ret = dset ret ''comment'' (PStr (''VMFS datastore '' @ py_repr name @ '' already present on '' @ py_str
        host @ '' ('' @ py_str gib @ '' GiB).'')) in
        pureM (PDict ret)))
      else
        bindM (liftR (py_item opts ''test'')) (\<lambda>tst.
        if truthy tst then
          let ret = dset ret ''result'' PNone in
          let ret = dset ret ''comment'' (PStr (''Would create VMFS'' @ py_str vmfs_version @ '' datastore '' @
        py_repr name @ '' on '' @ py_str host @ '' from device '' @ py_str device_path @ ''.'')) in
          let ret = dset ret ''changes'' (PDict [(''new'', name)]) in
          pureM (PDict ret)
        else
          bindM
            (exec_vim_host_datastore_create_vmfs api opts host name device_path vmfs_version profile)
        (\<lambda>created.
          let ret = dset ret ''changes'' (PDict [(''new'', created)]) in
          let ret = dset ret ''comment'' (PStr (''Created VMFS'' @ py_str vmfs_version @ '' datastore '' @ py_repr
        name @ '' on '' @ py_str host @ ''.'')) in
          pureM (PDict ret)))))"

text \<open>The execution function has the parameter \<open>type_\<close> and no \<open>ds_type\<close>: Python refuses the call.\<close>

definition vcf_vim_host_datastore_nfs_mounted ::
  "vmodl \<Rightarrow> pyval \<Rightarrow> pyval \<Rightarrow> pyval \<Rightarrow> pyval \<Rightarrow> pyval \<Rightarrow> pyval \<Rightarrow>
   pyval \<Rightarrow> profile \<Rightarrow> pyval io" where
  "vcf_vim_host_datastore_nfs_mounted api opts name host remote_host remote_path access_mode ds_type profile =
     (let ret = [(''name'', name), (''changes'', PDict []), (''result'', PBool True), (''comment'', PStr [])] in
      bindM (vcf_vim_host_datastore_find api opts host name profile) (\<lambda>existing.
      if truthy existing then
        pureM (PDict (dset ret ''comment''
          (PStr (''Datastore '' @ py_repr name @ '' already mounted on '' @ py_str host @ ''.''))))
      else
        bindM (liftR (py_item opts ''test'')) (\<lambda>tst.
        if truthy tst then
          let ret = dset ret ''result'' PNone;
              ret = dset ret ''comment''
                (PStr (''Would mount '' @ py_str remote_host @ '':'' @ py_str remote_path @ '' as '' @ py_repr name @
                  '' ('' @ py_str ds_type @ '') on '' @ py_str host @ ''.''))
          in pureM (PDict (dset ret ''changes'' (PDict [(''new'', name)])))
        else
          raiseM (TypeError (''mount_nfs() got an unexpected keyword argument '' @ repr_str ''ds_type'')))))"

definition vcf_vim_host_datastore_absent :: "vmodl \<Rightarrow> pyval \<Rightarrow> pyval \<Rightarrow> pyval \<Rightarrow> profile \<Rightarrow> pyval io" where
  "vcf_vim_host_datastore_absent api opts name host profile =
     (let ret = [(''name'', name), (''changes'', PDict []), (''result'', PBool True), (''comment'', PStr '''')]
       in
      bindM (vcf_vim_host_datastore_find api opts host name profile) (\<lambda>existing.
      if \<not> truthy existing then
        let ret = dset ret ''comment'' (PStr (''Datastore '' @ py_repr name @ '' already absent from '' @ py_str
        host @ ''.'')) in
        pureM (PDict ret)
      else
        bindM (liftR (py_item opts ''test'')) (\<lambda>tst.
        if truthy tst then
          let ret = dset ret ''result'' PNone in
          let ret = dset ret ''comment'' (PStr (''Would remove datastore '' @ py_repr name @ '' from '' @ py_str
        host @ ''.'')) in
          let ret = dset ret ''changes'' (PDict [(''old'', existing)]) in
          pureM (PDict ret)
        else
          bindM (exec_vim_host_datastore_remove api opts host name profile) (\<lambda>_.
          let ret = dset ret ''changes'' (PDict [(''old'', existing)]) in
          let ret = dset ret ''comment'' (PStr (''Removed datastore '' @ py_repr name @ '' from '' @ py_str host @
        ''.'')) in
          pureM (PDict ret)))))"

subsection \<open>\<open>states/vcf_vim_host_dns.py\<close>\<close>

definition vcf_vim_host_dns_ret :: "pyval \<Rightarrow> dict" where
  "vcf_vim_host_dns_ret name =
     [(''name'', name), (''changes'', PDict []), (''result'', PBool True), (''comment'', PStr '''')]"

definition vcf_vim_host_dns_config ::
  "vmodl \<Rightarrow> pyval \<Rightarrow> pyval \<Rightarrow> pyval \<Rightarrow> pyval \<Rightarrow> pyval \<Rightarrow> pyval \<Rightarrow> pyval \<Rightarrow> pyval \<Rightarrow> profile \<Rightarrow> pyval io" where
  "vcf_vim_host_dns_config api opts name host dhcp hostname domain_name servers search_domains profile =
     (let host = py_or host name in
      let ret = vcf_vim_host_dns_ret name in
      bindM (vim_host_dns_get api opts host profile) (\<lambda>current.
      let drift = [] :: dict in
      bindM
        (if dhcp \<noteq> PNone then
           bindM (liftR (py_item current ''dhcp'')) (\<lambda>dhcp2.
           pureM (\<not> py_eq dhcp2 (PBool (truthy dhcp))))
         else pureM False) (\<lambda>holds_v.
      bindM
        (if holds_v then
           bindM (liftR (py_item current ''dhcp'')) (\<lambda>dhcp3.
           pureM (dset drift ''dhcp'' (PList [dhcp3, PBool (truthy dhcp)])))
         else pureM drift) (\<lambda>drift.
      bindM
        (if hostname \<noteq> PNone then
           bindM (liftR (py_item current ''hostname'')) (\<lambda>hostname2.
           pureM (\<not> py_eq hostname2 hostname))
         else pureM False) (\<lambda>holds_v2.
      bindM
        (if holds_v2 then
           bindM (liftR (py_item current ''hostname'')) (\<lambda>hostname3.
           pureM (dset drift ''hostname'' (PList [hostname3, hostname])))
         else pureM drift) (\<lambda>drift.
      bindM
        (if domain_name \<noteq> PNone then
           bindM (liftR (py_item current ''domain_name'')) (\<lambda>domain_name2.
           pureM (\<not> py_eq domain_name2 domain_name))
         else pureM False) (\<lambda>holds_v3.
      bindM
        (if holds_v3 then
           bindM (liftR (py_item current ''domain_name'')) (\<lambda>domain_name3.
           pureM (dset drift ''domain_name'' (PList [domain_name3, domain_name])))
         else pureM drift) (\<lambda>drift.
      bindM
        (if servers \<noteq> PNone then
           bindM (liftR (py_item current ''servers'')) (\<lambda>servers2.
           bindM (liftR (py_iter servers2)) (\<lambda>items2.
           bindM (liftR (py_sorted items2)) (\<lambda>ordered.
           bindM (liftR (py_iter servers)) (\<lambda>items3.
           bindM (liftR (py_sorted items3)) (\<lambda>ordered2.
           pureM (\<not> py_eq (PList ordered) (PList ordered2)))))))
         else pureM False) (\<lambda>holds_v4.
      bindM
        (if holds_v4 then
           bindM (liftR (py_item current ''servers'')) (\<lambda>servers3.
           bindM (liftR (py_iter servers)) (\<lambda>items4.
           pureM (dset drift ''servers'' (PList [servers3, PList items4]))))
         else pureM drift) (\<lambda>drift.
      bindM
        (if search_domains \<noteq> PNone then
           bindM (liftR (py_item current ''search_domains'')) (\<lambda>search_domains2.
           bindM (liftR (py_iter search_domains2)) (\<lambda>items5.
           bindM (liftR (py_sorted items5)) (\<lambda>ordered3.
           bindM (liftR (py_iter search_domains)) (\<lambda>items6.
           bindM (liftR (py_sorted items6)) (\<lambda>ordered4.
           pureM (\<not> py_eq (PList ordered3) (PList ordered4)))))))
         else pureM False) (\<lambda>holds_v5.
      bindM
        (if holds_v5 then
           bindM (liftR (py_item current ''search_domains'')) (\<lambda>search_domains3.
           bindM (liftR (py_iter search_domains)) (\<lambda>items7.
           pureM (dset drift ''search_domains'' (PList [search_domains3, PList items7]))))
         else pureM drift) (\<lambda>drift.
      if \<not> (drift \<noteq> []) then
        let ret = dset ret ''comment'' (PStr (''DNS on '' @ py_str host @ '' already matches'')) in
        pureM (PDict ret)
      else
        bindM (liftR (py_item opts ''test'')) (\<lambda>tst.
        if truthy tst then
          let ret = dset ret ''result'' PNone in
          bindM (liftR (py_sorted (map (\<lambda>(k, _). PStr k) drift))) (\<lambda>ordered5.
          let ret = dset ret ''comment'' (PStr (''DNS on '' @ py_str host @ '' would change: '' @ py_str (PList
        ordered5))) in
          pureM (PDict ret))
        else
          bindM
            (vim_host_dns_set api opts host dhcp hostname domain_name servers search_domains PNone profile)
        (\<lambda>_.
          let ret = dset ret ''changes'' (PDict drift) in
          let ret = dset ret ''comment'' (PStr (''DNS on '' @ py_str host @ '' updated'')) in
          pureM (PDict ret)))))))))))))))"

subsection \<open>\<open>states/vcf_vim_host_hyperthreading.py\<close>\<close>

definition vcf_vim_host_hyperthreading_ret :: "pyval \<Rightarrow> dict" where
  "vcf_vim_host_hyperthreading_ret name =
     [(''name'', name), (''changes'', PDict []), (''result'', PBool True), (''comment'', PStr '''')]"

definition vcf_vim_host_hyperthreading_enabled :: "vmodl \<Rightarrow> pyval \<Rightarrow> pyval \<Rightarrow> pyval
  \<Rightarrow> pyval \<Rightarrow> profile \<Rightarrow> pyval io" where
  "vcf_vim_host_hyperthreading_enabled api opts name host enabled profile =
     (let host = py_or host name in
      let ret = vcf_vim_host_hyperthreading_ret name in
      bindM (vim_host_hyperthreading_get api opts host profile) (\<lambda>current.
      bindM (liftR (py_item current ''available'')) (\<lambda>available.
      if \<not> truthy available then
        let ret = dset ret ''result'' (PBool False) in
        let ret = dset ret ''comment'' (PStr (''hyperthreading is not available on '' @ py_str host)) in
        pureM (PDict ret)
      else
        bindM (liftR (py_item current ''config'')) (\<lambda>config.
        if truthy config = truthy enabled then
          let ret = dset ret ''comment'' (PStr (''hyperthreading on '' @ py_str host @ '' already '' @ (if truthy
        enabled then ''on'' else ''off''))) in
          pureM (PDict ret)
        else
          bindM (liftR (py_item opts ''test'')) (\<lambda>tst.
          if truthy tst then
            let ret = dset ret ''result'' PNone in
            let ret = dset ret ''comment'' (PStr (''hyperthreading on '' @ py_str host @ '' would be set to '' @
        py_str (PBool (truthy enabled)))) in
            pureM (PDict ret)
          else
            bindM
              (if truthy enabled then
                 bindM (vim_host_hyperthreading_enable api opts host profile) (\<lambda>_.
                 pureM ())
               else
                 bindM (vim_host_hyperthreading_disable api opts host profile) (\<lambda>_.
                 pureM ())) (\<lambda>_.
            bindM (liftR (py_item current ''config'')) (\<lambda>config2.
            let ret = dset ret ''changes'' (PDict [(''config'', PList [config2, PBool (truthy enabled)])])
        in
            let ret = dset ret ''comment'' (PStr (''hyperthreading on '' @ py_str host @ '' set to '' @ py_str
        (PBool (truthy enabled)) @ '' (reboot required)'')) in
            pureM (PDict ret))))))))"

subsection \<open>\<open>states/vcf_vim_host_kernel_module.py\<close>\<close>

definition vcf_vim_host_kernel_module_ret :: "pyval \<Rightarrow> dict" where
  "vcf_vim_host_kernel_module_ret name =
     [(''name'', name), (''changes'', PDict []), (''result'', PBool True), (''comment'', PStr '''')]"

definition vcf_vim_host_kernel_module_options_set ::
  "vmodl \<Rightarrow> pyval \<Rightarrow> pyval \<Rightarrow> pyval \<Rightarrow> pyval \<Rightarrow> pyval \<Rightarrow> profile \<Rightarrow> pyval io" where
  "vcf_vim_host_kernel_module_options_set api opts name host module options profile =
     (let module = py_or module name in
      let host = py_or host name in
      let ret = vcf_vim_host_kernel_module_ret name in
      if options = PNone then
        let ret = dset ret ''result'' (PBool False) in
        let ret = dset ret ''comment'' (PStr ''options is required'') in
        pureM (PDict ret)
      else
        bindM (vim_host_kernel_module_get_options api opts host module profile) (\<lambda>current.
        if py_eq current options then
          let ret = dset ret ''comment'' (PStr (py_str module @ '' on '' @ py_str host @ '' options already '' @
        py_repr options)) in
          pureM (PDict ret)
        else
          bindM (liftR (py_item opts ''test'')) (\<lambda>tst.
          if truthy tst then
            let ret = dset ret ''result'' PNone in
            let ret = dset ret ''comment'' (PStr (py_str module @ '' on '' @ py_str host @
        '' options would change to '' @ py_repr options)) in
            pureM (PDict ret)
          else
            bindM (vim_host_kernel_module_set_options api opts host module options profile) (\<lambda>_.
            let ret = dset ret ''changes'' (PDict [(''options'', PList [current, options])]) in
            let ret = dset ret ''comment'' (PStr (py_str module @ '' on '' @ py_str host @ '' options set''))
        in
            pureM (PDict ret)))))"

subsection \<open>\<open>states/vcf_vim_host_network.py\<close>\<close>

definition vcf_vim_host_network_ret :: "pyval \<Rightarrow> dict" where
  "vcf_vim_host_network_ret name =
     [(''name'', name), (''changes'', PDict []), (''result'', PBool True), (''comment'', PStr '''')]"

definition vcf_vim_host_network_vswitch_present ::
  "vmodl \<Rightarrow> pyval \<Rightarrow> pyval \<Rightarrow> pyval \<Rightarrow> pyval \<Rightarrow> pyval \<Rightarrow> pyval \<Rightarrow> profile \<Rightarrow> pyval io" where
  "vcf_vim_host_network_vswitch_present api opts name host num_ports mtu pnic_devices profile =
     (let ret = vcf_vim_host_network_ret name in
      bindM (vim_host_network_vswitch_get_or_none api opts host name profile) (\<lambda>existing.
      bindM (liftR (py_iter (py_or pnic_devices (PList [])))) (\<lambda>items.
      bindM (liftR (py_sorted items)) (\<lambda>desired_pnics.
      if existing \<noteq> PNone then
        let drift = [] :: dict in
        bindM (liftR (py_item existing ''mtu'')) (\<lambda>mtu2.
        bindM (liftR (py_int mtu)) (\<lambda>n.
        bindM
          (if \<not> py_eq mtu2 (PInt n) then
             bindM (liftR (py_item existing ''mtu'')) (\<lambda>mtu3.
             bindM (liftR (py_int mtu)) (\<lambda>n2.
             pureM (dset drift ''mtu'' (PList [mtu3, PInt n2]))))
           else pureM drift) (\<lambda>drift.
        bindM
          (if num_ports \<noteq> PNone then
             bindM (liftR (py_item existing ''num_ports'')) (\<lambda>num_ports2.
             bindM (liftR (py_int num_ports)) (\<lambda>n3.
             pureM (\<not> py_eq num_ports2 (PInt n3))))
           else pureM False) (\<lambda>holds_v.
        bindM
          (if holds_v then
             bindM (liftR (py_item existing ''num_ports'')) (\<lambda>num_ports3.
             bindM (liftR (py_int num_ports)) (\<lambda>n4.
             pureM (dset drift ''num_ports'' (PList [num_ports3, PInt n4]))))
           else pureM drift) (\<lambda>drift.
        bindM (liftR (py_get existing ''pnic_devices'' PNone)) (\<lambda>pnic_devices2.
        bindM (liftR (py_iter (py_or pnic_devices2 (PList [])))) (\<lambda>items2.
        bindM (liftR (py_sorted items2)) (\<lambda>ordered2.
        bindM
          (if \<not> py_eq (PList ordered2) (PList desired_pnics) then
             bindM (liftR (py_get existing ''pnic_devices'' PNone)) (\<lambda>pnic_devices3.
             pureM (dset drift ''pnic_devices'' (PList [pnic_devices3, PList desired_pnics])))
           else pureM drift) (\<lambda>drift.
        if \<not> (drift \<noteq> []) then
          let ret = dset ret ''comment'' (PStr (''vSwitch '' @ py_str name @ '' on '' @ py_str host @
        '' already matches'')) in
          pureM (PDict ret)
        else
          bindM (liftR (py_item opts ''test'')) (\<lambda>tst.
          if truthy tst then
            let ret = dset ret ''result'' PNone in
            bindM (liftR (py_sorted (map (\<lambda>(k, _). PStr k) drift))) (\<lambda>ordered3.
            let ret = dset ret ''comment'' (PStr (''vSwitch '' @ py_str name @ '' on '' @ py_str host @
        '' would be updated: '' @ py_str (PList ordered3))) in
            pureM (PDict ret))
          else
            bindM
              (if num_ports \<noteq> PNone then
                 bindM (liftR (py_int num_ports)) (\<lambda>n5.
                 pureM (PInt n5))
               else liftR (py_item existing ''num_ports'')) (\<lambda>x.
            bindM (liftR (py_int mtu)) (\<lambda>n6.
            bindM
              (vim_host_network_vswitch_update api opts host name x (PInt n6) (py_or (PList desired_pnics) PNone)
        profile) (\<lambda>_.
            let ret = dset ret ''changes'' (PDict drift) in
            let ret = dset ret ''comment'' (PStr (''vSwitch '' @ py_str name @ '' on '' @ py_str host @
        '' updated'')) in
            pureM (PDict ret))))))))))))))
      else
        bindM (liftR (py_item opts ''test'')) (\<lambda>tst2.
        if truthy tst2 then
          let ret = dset ret ''result'' PNone in
          let ret = dset ret ''comment'' (PStr (''vSwitch '' @ py_str name @ '' would be created on '' @ py_str
        host)) in
          pureM (PDict ret)
        else
          bindM (if num_ports \<noteq> PNone then liftR (py_int num_ports) else pureM 128) (\<lambda>x2.
          bindM (liftR (py_int mtu)) (\<lambda>n8.
          bindM
            (vim_host_network_vswitch_add api opts host name (PInt x2) (PInt n8) (py_or (PList desired_pnics) PNone)
        profile) (\<lambda>_.
          let ret = dset ret ''changes'' (PDict [(''new'', name)]) in
          let ret = dset ret ''comment'' (PStr (''vSwitch '' @ py_str name @ '' created on '' @ py_str host))
        in
          pureM (PDict ret)))))))))"

definition vcf_vim_host_network_vswitch_absent :: "vmodl \<Rightarrow> pyval \<Rightarrow> pyval \<Rightarrow> pyval
  \<Rightarrow> profile \<Rightarrow> pyval io" where
  "vcf_vim_host_network_vswitch_absent api opts name host profile =
     (let ret = vcf_vim_host_network_ret name in
      bindM (vim_host_network_vswitch_get_or_none api opts host name profile) (\<lambda>vswitch_get_or_none.
      if vswitch_get_or_none = PNone then
        let ret = dset ret ''comment'' (PStr (''vSwitch '' @ py_str name @ '' on '' @ py_str host @
        '' is already absent'')) in
        pureM (PDict ret)
      else
        bindM (liftR (py_item opts ''test'')) (\<lambda>tst.
        if truthy tst then
          let ret = dset ret ''result'' PNone in
          let ret = dset ret ''comment'' (PStr (''vSwitch '' @ py_str name @ '' on '' @ py_str host @
        '' would be deleted'')) in
          pureM (PDict ret)
        else
          bindM (vim_host_network_vswitch_remove api opts host name profile) (\<lambda>_.
          let ret = dset ret ''changes'' (PDict [(''deleted'', name)]) in
          let ret = dset ret ''comment'' (PStr (''vSwitch '' @ py_str name @ '' on '' @ py_str host @ '' deleted''))
        in
          pureM (PDict ret)))))"

definition vcf_vim_host_network_portgroup_present ::
  "vmodl \<Rightarrow> pyval \<Rightarrow> pyval \<Rightarrow> pyval \<Rightarrow> pyval \<Rightarrow> pyval \<Rightarrow> pyval \<Rightarrow> pyval \<Rightarrow> pyval \<Rightarrow> profile \<Rightarrow> pyval io" where
  "vcf_vim_host_network_portgroup_present api opts name host vswitch vlan_id promiscuous mac_changes
    forged_transmits profile =
     (let ret = vcf_vim_host_network_ret name in
      bindM (vim_host_network_portgroup_get_or_none api opts host name profile) (\<lambda>existing.
      let desired_sec = [(''promiscuous'', promiscuous), (''mac_changes'', mac_changes), (''forged_transmits'',
        forged_transmits)] in
      if existing \<noteq> PNone then
        let drift = [] :: dict in
        bindM (liftR (py_item existing ''vlan_id'')) (\<lambda>vlan_id2.
        bindM (liftR (py_int vlan_id)) (\<lambda>n.
        bindM
          (if \<not> py_eq vlan_id2 (PInt n) then
             bindM (liftR (py_item existing ''vlan_id'')) (\<lambda>vlan_id3.
             bindM (liftR (py_int vlan_id)) (\<lambda>n2.
             pureM (dset drift ''vlan_id'' (PList [vlan_id3, PInt n2]))))
           else pureM drift) (\<lambda>drift.
        bindM (liftR (py_item existing ''vswitch'')) (\<lambda>vswitch2.
        bindM
          (if \<not> py_eq vswitch2 vswitch then
             bindM (liftR (py_item existing ''vswitch'')) (\<lambda>vswitch3.
             pureM (dset drift ''vswitch'' (PList [vswitch3, vswitch])))
           else pureM drift) (\<lambda>drift.
        bindM
          (foldM (\<lambda>(k, want) drift.
             bindM (liftR (py_get existing ''security'' (PDict []))) (\<lambda>security.
             bindM (liftR (py_lookup security (PStr k) PNone)) (\<lambda>have.
             pureM (if (want \<noteq> PNone) \<and> (\<not> py_eq have want) then dset drift (''security.'' @ k)
        (PList [have, want]) else drift)))) desired_sec drift) (\<lambda>drift.
        if \<not> (drift \<noteq> []) then
          let ret = dset ret ''comment'' (PStr (''port group '' @ py_str name @ '' on '' @ py_str host @
        '' already matches'')) in
          pureM (PDict ret)
        else
          bindM (liftR (py_item opts ''test'')) (\<lambda>tst.
          if truthy tst then
            let ret = dset ret ''result'' PNone in
            bindM (liftR (py_sorted (map (\<lambda>(k, _). PStr k) drift))) (\<lambda>ordered.
            let ret = dset ret ''comment'' (PStr (''port group '' @ py_str name @ '' on '' @ py_str host @
        '' would be updated: '' @ py_str (PList ordered))) in
            pureM (PDict ret))
          else
            bindM (liftR (py_int vlan_id)) (\<lambda>n3.
            bindM
              (vim_host_network_portgroup_update api opts host name (PInt n3) vswitch (dget desired_sec
        ''promiscuous'' PNone) (dget desired_sec ''mac_changes'' PNone) (dget desired_sec ''forged_transmits''
        PNone) profile) (\<lambda>_.
            let ret = dset ret ''changes'' (PDict drift) in
            let ret = dset ret ''comment'' (PStr (''port group '' @ py_str name @ '' on '' @ py_str host @
        '' updated'')) in
            pureM (PDict ret))))))))))
      else
        bindM (liftR (py_item opts ''test'')) (\<lambda>tst2.
        if truthy tst2 then
          let ret = dset ret ''result'' PNone in
          let ret = dset ret ''comment'' (PStr (''port group '' @ py_str name @ '' would be created on '' @ py_str
        host)) in
          pureM (PDict ret)
        else
          bindM (liftR (py_int vlan_id)) (\<lambda>n4.
          bindM
            (vim_host_network_portgroup_add api opts host name vswitch (PInt n4) (dget desired_sec ''promiscuous''
        PNone) (dget desired_sec ''mac_changes'' PNone) (dget desired_sec ''forged_transmits'' PNone) profile)
        (\<lambda>_.
          let ret = dset ret ''changes'' (PDict [(''new'', name)]) in
          let ret = dset ret ''comment'' (PStr (''port group '' @ py_str name @ '' created on '' @ py_str host))
        in
          pureM (PDict ret))))))"

definition vcf_vim_host_network_portgroup_absent :: "vmodl \<Rightarrow> pyval \<Rightarrow> pyval \<Rightarrow>
  pyval \<Rightarrow> profile \<Rightarrow> pyval io" where
  "vcf_vim_host_network_portgroup_absent api opts name host profile =
     (let ret = vcf_vim_host_network_ret name in
      bindM (vim_host_network_portgroup_get_or_none api opts host name profile) (\<lambda>portgroup_get_or_none.
      if portgroup_get_or_none = PNone then
        let ret = dset ret ''comment'' (PStr (''port group '' @ py_str name @ '' on '' @ py_str host @
        '' is already absent'')) in
        pureM (PDict ret)
      else
        bindM (liftR (py_item opts ''test'')) (\<lambda>tst.
        if truthy tst then
          let ret = dset ret ''result'' PNone in
          let ret = dset ret ''comment'' (PStr (''port group '' @ py_str name @ '' on '' @ py_str host @
        '' would be deleted'')) in
          pureM (PDict ret)
        else
          bindM (vim_host_network_portgroup_remove api opts host name profile) (\<lambda>_.
          let ret = dset ret ''changes'' (PDict [(''deleted'', name)]) in
          let ret = dset ret ''comment'' (PStr (''port group '' @ py_str name @ '' on '' @ py_str host @
        '' deleted'')) in
          pureM (PDict ret)))))"

definition vcf_vim_host_network_vmkernel_present ::
  "vmodl \<Rightarrow> pyval \<Rightarrow> pyval \<Rightarrow> pyval \<Rightarrow> pyval \<Rightarrow> pyval \<Rightarrow> pyval \<Rightarrow> pyval \<Rightarrow> pyval \<Rightarrow> profile \<Rightarrow> pyval io" where
  "vcf_vim_host_network_vmkernel_present api opts name host portgroup dhcp ip_address subnet_mask mtu profile
    =
     (let ret = vcf_vim_host_network_ret name in
      bindM (vim_host_network_vmkernel_get_or_none api opts host name profile) (\<lambda>existing.
      if existing \<noteq> PNone then
        let drift = [] :: dict in
        bindM (liftR (py_item existing ''dhcp'')) (\<lambda>dhcp2.
        bindM
          (if truthy dhcp2 \<noteq> truthy dhcp then
             bindM (liftR (py_item existing ''dhcp'')) (\<lambda>dhcp3.
             pureM (dset drift ''dhcp'' (PList [dhcp3, dhcp])))
           else pureM drift) (\<lambda>drift.
        bindM
          (if \<not> truthy dhcp then
             bindM
               (if ip_address \<noteq> PNone then
                  bindM (liftR (py_item existing ''ip_address'')) (\<lambda>ip_address2.
                  pureM (\<not> py_eq ip_address2 ip_address))
                else pureM False) (\<lambda>holds_v.
             bindM
               (if holds_v then
                  bindM (liftR (py_item existing ''ip_address'')) (\<lambda>ip_address3.
                  pureM (dset drift ''ip_address'' (PList [ip_address3, ip_address])))
                else pureM drift) (\<lambda>drift.
             bindM
               (if subnet_mask \<noteq> PNone then
                  bindM (liftR (py_item existing ''subnet_mask'')) (\<lambda>subnet_mask2.
                  pureM (\<not> py_eq subnet_mask2 subnet_mask))
                else pureM False) (\<lambda>holds_v2.
             if holds_v2 then
               bindM (liftR (py_item existing ''subnet_mask'')) (\<lambda>subnet_mask3.
               pureM (dset drift ''subnet_mask'' (PList [subnet_mask3, subnet_mask])))
             else pureM drift)))
           else pureM drift) (\<lambda>drift.
        bindM
          (if mtu \<noteq> PNone then
             bindM (liftR (py_item existing ''mtu'')) (\<lambda>mtu2.
             bindM (liftR (py_int mtu)) (\<lambda>n.
             pureM (\<not> py_eq mtu2 (PInt n))))
           else pureM False) (\<lambda>holds_v3.
        bindM
          (if holds_v3 then
             bindM (liftR (py_item existing ''mtu'')) (\<lambda>mtu3.
             bindM (liftR (py_int mtu)) (\<lambda>n2.
             pureM (dset drift ''mtu'' (PList [mtu3, PInt n2]))))
           else pureM drift) (\<lambda>drift.
        if \<not> (drift \<noteq> []) then
          let ret = dset ret ''comment'' (PStr (''vmkernel '' @ py_str name @ '' on '' @ py_str host @
        '' already matches'')) in
          pureM (PDict ret)
        else
          bindM (liftR (py_item opts ''test'')) (\<lambda>tst.
          if truthy tst then
            let ret = dset ret ''result'' PNone in
            bindM (liftR (py_sorted (map (\<lambda>(k, _). PStr k) drift))) (\<lambda>ordered.
            let ret = dset ret ''comment'' (PStr (''vmkernel '' @ py_str name @ '' on '' @ py_str host @
        '' would be updated: '' @ py_str (PList ordered))) in
            pureM (PDict ret))
          else
            bindM
              (vim_host_network_vmkernel_update api opts host name dhcp ip_address subnet_mask mtu profile)
        (\<lambda>_.
            let ret = dset ret ''changes'' (PDict drift) in
            let ret = dset ret ''comment'' (PStr (''vmkernel '' @ py_str name @ '' on '' @ py_str host @
        '' updated'')) in
            pureM (PDict ret))))))))
      else if portgroup = PNone then
        let ret = dset ret ''result'' (PBool False) in
        let ret = dset ret ''comment'' (PStr (''vmkernel '' @ py_str name @ '' missing on '' @ py_str host @
        ''; provide portgroup= to create'')) in
        pureM (PDict ret)
      else
        bindM (liftR (py_item opts ''test'')) (\<lambda>tst2.
        if truthy tst2 then
          let ret = dset ret ''result'' PNone in
          let ret = dset ret ''comment'' (PStr (''vmkernel would be created on '' @ py_str host @ '' portgroup='' @
        py_str portgroup)) in
          pureM (PDict ret)
        else
          bindM
            (vim_host_network_vmkernel_add api opts host portgroup dhcp ip_address subnet_mask mtu PNone PNone
        profile) (\<lambda>device.
          let ret = dset ret ''changes'' (PDict [(''new'', device)]) in
          let ret = dset ret ''comment'' (PStr (''vmkernel '' @ py_str device @ '' created on '' @ py_str host))
        in
          pureM (PDict ret)))))"

definition vcf_vim_host_network_vmkernel_absent :: "vmodl \<Rightarrow> pyval \<Rightarrow> pyval \<Rightarrow>
  pyval \<Rightarrow> profile \<Rightarrow> pyval io" where
  "vcf_vim_host_network_vmkernel_absent api opts name host profile =
     (let ret = vcf_vim_host_network_ret name in
      bindM (vim_host_network_vmkernel_get_or_none api opts host name profile) (\<lambda>vmkernel_get_or_none.
      if vmkernel_get_or_none = PNone then
        let ret = dset ret ''comment'' (PStr (''vmkernel '' @ py_str name @ '' on '' @ py_str host @
        '' is already absent'')) in
        pureM (PDict ret)
      else
        bindM (liftR (py_item opts ''test'')) (\<lambda>tst.
        if truthy tst then
          let ret = dset ret ''result'' PNone in
          let ret = dset ret ''comment'' (PStr (''vmkernel '' @ py_str name @ '' on '' @ py_str host @
        '' would be deleted'')) in
          pureM (PDict ret)
        else
          bindM (vim_host_network_vmkernel_remove api opts host name profile) (\<lambda>_.
          let ret = dset ret ''changes'' (PDict [(''deleted'', name)]) in
          let ret = dset ret ''comment'' (PStr (''vmkernel '' @ py_str name @ '' on '' @ py_str host @
        '' deleted'')) in
          pureM (PDict ret)))))"

definition vcf_vim_host_network_vswitch_teaming_configured ::
  "vmodl \<Rightarrow> pyval \<Rightarrow> pyval \<Rightarrow> pyval \<Rightarrow> pyval \<Rightarrow> pyval
    \<Rightarrow> pyval \<Rightarrow> pyval \<Rightarrow> pyval \<Rightarrow> pyval \<Rightarrow> pyval \<Rightarrow> profile \<Rightarrow> pyval io" where
  "vcf_vim_host_network_vswitch_teaming_configured api opts name host policy reverse_policy notify_switches
    rolling_order check_beacon active_nic standby_nic profile =
     (let ret = vcf_vim_host_network_ret name in
      bindM (vim_host_network_vswitch_get_or_none api opts host name profile) (\<lambda>existing.
      if existing = PNone then
        let ret = dset ret ''result'' (PBool False) in
        let ret = dset ret ''comment'' (PStr (''vSwitch '' @ py_str name @ '' not found on '' @ py_str host))
        in
        pureM (PDict ret)
      else
        bindM (liftR (py_get existing ''teaming'' PNone)) (\<lambda>teaming.
        let current = py_or teaming (PDict []) in
        bindM
          (if active_nic \<noteq> PNone then
             bindM (liftR (py_iter active_nic)) (\<lambda>items2.
             pureM (PList items2))
           else pureM PNone) (\<lambda>x.
        bindM
          (if standby_nic \<noteq> PNone then
             bindM (liftR (py_iter standby_nic)) (\<lambda>items3.
             pureM (PList items3))
           else pureM PNone) (\<lambda>x2.
        let desired = [(''policy'', policy), (''reverse_policy'', reverse_policy), (''notify_switches'',
        notify_switches), (''rolling_order'', rolling_order), (''check_beacon'', check_beacon), (''active_nic'', x),
        (''standby_nic'', x2)] in
        let drift = [] :: dict in
        bindM
          (foldM (\<lambda>(k, want) drift.
             if want = PNone then pureM drift
             else
               bindM (liftR (py_lookup current (PStr k) PNone)) (\<lambda>have.
               bindM
                 (if in_strs (PStr k) [''active_nic'', ''standby_nic''] then
                    bindM (liftR (py_iter (py_or have (PList [])))) (\<lambda>have.
                    pureM (PList have))
                  else pureM have) (\<lambda>have.
               pureM (if \<not> py_eq have want then dset drift k (PList [have, want]) else drift)))) desired drift)
        (\<lambda>drift.
        if \<not> (drift \<noteq> []) then
          let ret = dset ret ''comment'' (PStr (''vSwitch '' @ py_str name @ '' teaming on '' @ py_str host @
        '' already matches'')) in
          pureM (PDict ret)
        else
          bindM (liftR (py_item opts ''test'')) (\<lambda>tst.
          if truthy tst then
            let ret = dset ret ''result'' PNone in
            bindM (liftR (py_sorted (map (\<lambda>(k, _). PStr k) drift))) (\<lambda>ordered.
            let ret = dset ret ''comment'' (PStr (''vSwitch '' @ py_str name @ '' teaming on '' @ py_str host @
        '' would be updated: '' @ py_str (PList ordered))) in
            pureM (PDict ret))
          else
            bindM
              (vim_host_network_vswitch_set_teaming api opts host name policy reverse_policy notify_switches
        rolling_order check_beacon active_nic standby_nic profile) (\<lambda>_.
            let ret = dset ret ''changes'' (PDict drift) in
            let ret = dset ret ''comment'' (PStr (''vSwitch '' @ py_str name @ '' teaming on '' @ py_str host @
        '' updated'')) in
            pureM (PDict ret)))))))))"

subsection \<open>\<open>states/vcf_vim_host_powermgmt.py\<close>\<close>

definition vcf_vim_host_powermgmt_ret :: "pyval \<Rightarrow> dict" where
  "vcf_vim_host_powermgmt_ret name =
     [(''name'', name), (''changes'', PDict []), (''result'', PBool True), (''comment'', PStr '''')]"

definition vcf_vim_host_powermgmt_policy :: "vmodl \<Rightarrow> pyval \<Rightarrow> pyval \<Rightarrow> pyval
  \<Rightarrow> pyval \<Rightarrow> pyval \<Rightarrow> profile \<Rightarrow> pyval io" where
  "vcf_vim_host_powermgmt_policy api opts name host policy_key short_name_v profile =
     (let host = py_or host name in
      let ret = vcf_vim_host_powermgmt_ret name in
      if (policy_key = PNone) \<and> (short_name_v = PNone) then
        let ret = dset ret ''result'' (PBool False) in
        let ret = dset ret ''comment'' (PStr ''one of policy_key or short_name is required'') in
        pureM (PDict ret)
      else
        bindM (vim_host_powermgmt_get_policy api opts host profile) (\<lambda>current.
        bindM
          (if policy_key \<noteq> PNone then
             bindM (liftR (py_int policy_key)) (\<lambda>desired_key.
             pureM (Inr (PInt desired_key, ret)))
           else
             bindM (vim_host_powermgmt_list_policies api opts host profile) (\<lambda>policies.
             bindM (liftR (py_iter policies)) (\<lambda>items.
             bindM
               (first_of (\<lambda>p.
                  bindM (liftR (py_item p ''short_name'')) (\<lambda>short_name_v2.
                  if py_eq short_name_v2 short_name_v then pureM (Some p) else pureM None)) items)
        (\<lambda>found.
             let match = the_default PNone found in
             if match = PNone then
               let ret = dset ret ''result'' (PBool False) in
               let ret = dset ret ''comment'' (PStr (''no power policy with short_name='' @ py_repr short_name_v @
        '' on '' @ py_str host)) in
               pureM (Inl (PDict ret))
             else
               bindM (liftR (py_item match ''key'')) (\<lambda>desired_key.
               pureM (Inr (desired_key, ret))))))) (\<lambda>answer.
        case answer of
          Inl answer \<Rightarrow> pureM answer
        | Inr (desired_key, ret) \<Rightarrow> bindM (liftR (py_item current ''key'')) (\<lambda>key2.
            if py_eq key2 desired_key then
              bindM (liftR (py_item current ''short_name'')) (\<lambda>short_name_v3.
              let ret = dset ret ''comment'' (PStr (''power policy on '' @ py_str host @ '' already '' @ py_repr
        short_name_v3)) in
              pureM (PDict ret))
            else
              bindM (liftR (py_item opts ''test'')) (\<lambda>tst.
              if truthy tst then
                let ret = dset ret ''result'' PNone in
                bindM (liftR (py_item current ''key'')) (\<lambda>key3.
                let ret = dset ret ''comment'' (PStr (''power policy on '' @ py_str host @ '' would change from '' @
        py_str key3 @ '' to '' @ py_str desired_key)) in
                pureM (PDict ret))
              else
                bindM (vim_host_powermgmt_set_policy api opts host desired_key profile) (\<lambda>new.
                bindM (liftR (py_item current ''key'')) (\<lambda>key4.
                bindM (liftR (py_item new ''key'')) (\<lambda>key5.
                let ret = dset ret ''changes'' (PDict [(''policy_key'', PList [key4, key5])]) in
                bindM (liftR (py_item new ''short_name'')) (\<lambda>short_name_v4.
                let ret = dset ret ''comment'' (PStr (''power policy on '' @ py_str host @ '' set to '' @ py_repr
        short_name_v4)) in
                pureM (PDict ret))))))))))"

subsection \<open>\<open>states/vcf_vim_host_snmp.py\<close>\<close>

definition vcf_vim_host_snmp_ret :: "pyval \<Rightarrow> dict" where
  "vcf_vim_host_snmp_ret name =
     [(''name'', name), (''changes'', PDict []), (''result'', PBool True), (''comment'', PStr '''')]"

definition vcf_vim_host_snmp_config ::
  "vmodl \<Rightarrow> pyval \<Rightarrow> pyval \<Rightarrow> pyval \<Rightarrow> pyval \<Rightarrow> pyval \<Rightarrow> pyval \<Rightarrow> pyval \<Rightarrow> profile \<Rightarrow> pyval io" where
  "vcf_vim_host_snmp_config api opts name host enabled port read_only_communities trap_targets profile =
     (let host = py_or host name in
      let ret = vcf_vim_host_snmp_ret name in
      bindM (vim_host_snmp_get api opts host profile) (\<lambda>current.
      let drift = [] :: dict in
      bindM
        (if enabled \<noteq> PNone then
           bindM (liftR (py_item current ''enabled'')) (\<lambda>enabled2.
           pureM (truthy enabled2 \<noteq> truthy enabled))
         else pureM False) (\<lambda>holds_v.
      bindM
        (if holds_v then
           bindM (liftR (py_item current ''enabled'')) (\<lambda>enabled3.
           pureM (dset drift ''enabled'' (PList [enabled3, PBool (truthy enabled)])))
         else pureM drift) (\<lambda>drift.
      bindM
        (if port \<noteq> PNone then
           bindM (liftR (py_get current ''port'' PNone)) (\<lambda>port2.
           bindM (liftR (py_int (py_or port2 (PInt 0)))) (\<lambda>n.
           bindM (liftR (py_int port)) (\<lambda>n2.
           pureM (n \<noteq> n2))))
         else pureM False) (\<lambda>holds_v2.
      bindM
        (if holds_v2 then
           bindM (liftR (py_get current ''port'' PNone)) (\<lambda>port3.
           bindM (liftR (py_int port)) (\<lambda>n3.
           pureM (dset drift ''port'' (PList [port3, PInt n3]))))
         else pureM drift) (\<lambda>drift.
      bindM
        (if read_only_communities \<noteq> PNone then
           bindM (liftR (py_get current ''read_only_communities'' PNone)) (\<lambda>read_only_communities2.
           bindM (liftR (py_iter (py_or read_only_communities2 (PList [])))) (\<lambda>items2.
           bindM (liftR (py_sorted items2)) (\<lambda>ordered.
           bindM (liftR (py_iter read_only_communities)) (\<lambda>items3.
           bindM (liftR (py_sorted items3)) (\<lambda>ordered2.
           pureM (\<not> py_eq (PList ordered) (PList ordered2)))))))
         else pureM False) (\<lambda>holds_v3.
      bindM
        (if holds_v3 then
           bindM (liftR (py_get current ''read_only_communities'' PNone)) (\<lambda>read_only_communities3.
           bindM (liftR (py_iter read_only_communities)) (\<lambda>items4.
           pureM (dset drift ''read_only_communities'' (PList [read_only_communities3, PList items4]))))
         else pureM drift) (\<lambda>drift.
      bindM
        (if trap_targets \<noteq> PNone then
           bindM (liftR (py_get current ''trap_targets'' PNone)) (\<lambda>trap_targets2.
           bindM (liftR (py_iter (py_or trap_targets2 (PList [])))) (\<lambda>items5.
           bindM
             (mapM (\<lambda>t.
                bindM (liftR (py_item t ''host'')) (\<lambda>host2.
                bindM (liftR (py_item t ''port'')) (\<lambda>port4.
                bindM (liftR (py_int port4)) (\<lambda>n4.
                bindM (liftR (py_item t ''community'')) (\<lambda>community.
                pureM (PList [host2, PInt n4, community])))))) items5) (\<lambda>out.
           bindM (liftR (py_sorted out)) (\<lambda>cur.
           bindM (liftR (py_iter trap_targets)) (\<lambda>items6.
           bindM
             (mapM (\<lambda>t.
                bindM (liftR (py_item t ''host'')) (\<lambda>host3.
                bindM (liftR (py_item t ''port'')) (\<lambda>port5.
                bindM (liftR (py_int port5)) (\<lambda>n5.
                bindM (liftR (py_item t ''community'')) (\<lambda>community2.
                pureM (PList [host3, PInt n5, community2])))))) items6) (\<lambda>out2.
           bindM (liftR (py_sorted out2)) (\<lambda>des.
           if \<not> py_eq (PList cur) (PList des) then
             bindM (liftR (py_get current ''trap_targets'' PNone)) (\<lambda>trap_targets3.
             bindM (liftR (py_iter trap_targets)) (\<lambda>items7.
             pureM (dset drift ''trap_targets'' (PList [trap_targets3, PList items7]))))
           else pureM drift)))))))
         else pureM drift) (\<lambda>drift.
      if \<not> (drift \<noteq> []) then
        let ret = dset ret ''comment'' (PStr (''SNMP on '' @ py_str host @ '' already matches'')) in
        pureM (PDict ret)
      else
        bindM (liftR (py_item opts ''test'')) (\<lambda>tst.
        if truthy tst then
          let ret = dset ret ''result'' PNone in
          bindM (liftR (py_sorted (map (\<lambda>(k, _). PStr k) drift))) (\<lambda>ordered5.
          let ret = dset ret ''comment'' (PStr (''SNMP on '' @ py_str host @ '' would change: '' @ py_str (PList
        ordered5))) in
          pureM (PDict ret))
        else
          bindM (vim_host_snmp_set api opts host enabled port read_only_communities trap_targets profile)
        (\<lambda>_.
          let ret = dset ret ''changes'' (PDict drift) in
          let ret = dset ret ''comment'' (PStr (''SNMP on '' @ py_str host @ '' updated'')) in
          pureM (PDict ret))))))))))))"

subsection \<open>\<open>states/vcf_vim_permission.py\<close>\<close>

definition vcf_vim_permission_ret :: "pyval \<Rightarrow> dict" where
  "vcf_vim_permission_ret name =
     [(''name'', name), (''changes'', PDict []), (''result'', PBool True), (''comment'', PStr '''')]"

definition vcf_vim_permission_find :: "vmodl \<Rightarrow> pyval \<Rightarrow> pyval \<Rightarrow> pyval \<Rightarrow> pyval \<Rightarrow> profile \<Rightarrow> pyval io" where
  "vcf_vim_permission_find api opts entity_ref principal_v grp profile =
     bindM (vim_permission_list api opts entity_ref (PBool False) profile) (\<lambda>items.
     bindM (liftR (py_iter items)) (\<lambda>items2.
     or_else
       (first_of (\<lambda>perm.
          bindM (liftR (py_item perm ''principal'')) (\<lambda>principal_v2.
          bindM
            (if py_eq principal_v2 principal_v then
               bindM (liftR (py_get perm ''group'' PNone)) (\<lambda>grp2.
               pureM (truthy grp2 = truthy grp))
             else pureM False) (\<lambda>holds_v.
          if holds_v then pureM (Some perm) else pureM None))) items2)
       (pureM PNone)))"

definition vcf_vim_permission_present ::
  "vmodl \<Rightarrow> pyval \<Rightarrow> pyval \<Rightarrow> pyval \<Rightarrow> pyval \<Rightarrow> pyval \<Rightarrow> pyval \<Rightarrow> pyval \<Rightarrow> profile \<Rightarrow> pyval io" where
  "vcf_vim_permission_present api opts name entity_ref principal_v role propagate grp profile =
     (let ret = vcf_vim_permission_ret name in
      bindM (vcf_vim_permission_find api opts entity_ref principal_v grp profile) (\<lambda>existing.
      bindM
        (if existing \<noteq> PNone then
           bindM (liftR (py_item existing ''role'')) (\<lambda>role2.
           pureM (py_eq role2 role))
         else pureM False) (\<lambda>holds_v.
      bindM
        (if holds_v then
           bindM (liftR (py_item existing ''propagate'')) (\<lambda>propagate2.
           pureM (truthy propagate2 = truthy propagate))
         else pureM False) (\<lambda>holds_v2.
      if holds_v2 then
        let ret = dset ret ''comment'' (PStr (''Permission for '' @ py_str principal_v @ '' on '' @ py_str
        entity_ref @ '' already matches'')) in
        pureM (PDict ret)
      else
        bindM (liftR (py_item opts ''test'')) (\<lambda>tst.
        if truthy tst then
          let ret = dset ret ''result'' PNone in
          let ret = dset ret ''comment'' (PStr (''Permission for '' @ py_str principal_v @ '' on '' @ py_str
        entity_ref @ '' would be set to '' @ py_str role)) in
          pureM (PDict ret)
        else
          bindM (vim_permission_set api opts entity_ref principal_v role propagate grp profile) (\<lambda>_.
          bindM
            (if existing = PNone then
               let ret = dset ret ''changes'' (PDict [(''new'', PDict [(''principal'', principal_v), (''role'',
        role), (''propagate'', propagate)])]) in
               pureM (dset ret ''comment'' (PStr (''Permission for '' @ py_str principal_v @ '' on '' @ py_str
        entity_ref @ '' set to '' @ py_str role)))
             else
               bindM (liftR (py_item existing ''role'')) (\<lambda>role3.
               bindM (liftR (py_item existing ''propagate'')) (\<lambda>propagate3.
               let ret = dset ret ''changes'' (PDict [(''role'', PList [role3, role]), (''propagate'', PList
        [propagate3, propagate])]) in
               pureM (dset ret ''comment'' (PStr (''Permission for '' @ py_str principal_v @ '' on '' @ py_str
        entity_ref @ '' updated'')))))) (\<lambda>ret.
          pureM (PDict ret))))))))"

definition vcf_vim_permission_absent :: "vmodl \<Rightarrow> pyval \<Rightarrow> pyval \<Rightarrow> pyval
  \<Rightarrow> pyval \<Rightarrow> pyval \<Rightarrow> profile \<Rightarrow> pyval io" where
  "vcf_vim_permission_absent api opts name entity_ref principal_v grp profile =
     (let ret = vcf_vim_permission_ret name in
      bindM (vcf_vim_permission_find api opts entity_ref principal_v grp profile) (\<lambda>existing.
      if existing = PNone then
        let ret = dset ret ''comment'' (PStr (''Permission for '' @ py_str principal_v @ '' on '' @ py_str
        entity_ref @ '' is already absent'')) in
        pureM (PDict ret)
      else
        bindM (liftR (py_item opts ''test'')) (\<lambda>tst.
        if truthy tst then
          let ret = dset ret ''result'' PNone in
          let ret = dset ret ''comment'' (PStr (''Permission for '' @ py_str principal_v @ '' on '' @ py_str
        entity_ref @ '' would be removed'')) in
          pureM (PDict ret)
        else
          bindM (vim_permission_remove api opts entity_ref principal_v grp profile) (\<lambda>_.
          bindM (liftR (py_item existing ''role'')) (\<lambda>role.
          let ret = dset ret ''changes'' (PDict [(''removed'', PDict [(''principal'', principal_v), (''role'',
        role)])]) in
          let ret = dset ret ''comment'' (PStr (''Permission for '' @ py_str principal_v @ '' on '' @ py_str
        entity_ref @ '' removed'')) in
          pureM (PDict ret))))))"

subsection \<open>\<open>states/vcf_vim_resource_pool.py\<close>\<close>

definition vcf_vim_resource_pool_ret :: "pyval \<Rightarrow> dict" where
  "vcf_vim_resource_pool_ret name =
     [(''name'', name), (''changes'', PDict []), (''result'', PBool True), (''comment'', PStr '''')]"

definition vcf_vim_resource_pool_drift :: "pyval \<Rightarrow> pyval \<Rightarrow> pyval io" where
  "vcf_vim_resource_pool_drift current desired =
     (let diff = [] :: dict in
      bindM (liftR (py_mapping desired ''items'')) (\<lambda>entries.
      bindM
        (foldM (\<lambda>(k, v) diff.
           bindM (liftR (py_in (PStr k) current)) (\<lambda>found.
           bindM
             (if \<not> found then pureM True
              else bindM (liftR (py_key current (PStr k))) (\<lambda>found2.
                   pureM (\<not> py_eq found2 v))) (\<lambda>holds_v.
           if holds_v then
             bindM (liftR (py_lookup current (PStr k) PNone)) (\<lambda>found3.
             pureM (dset diff k (PList [found3, v])))
           else pureM diff))) entries diff) (\<lambda>diff.
      pureM (PDict diff))))"

definition vcf_vim_resource_pool_shares :: "vmodl \<Rightarrow> pyval \<Rightarrow> pyval \<Rightarrow> pyval
  \<Rightarrow> pyval \<Rightarrow> pyval \<Rightarrow> profile \<Rightarrow> pyval io" where
  "vcf_vim_resource_pool_shares api opts name rp cpu memory profile =
     (let rp = py_or rp name in
      let ret = vcf_vim_resource_pool_ret name in
      bindM (vim_resource_pool_get_shares api opts rp profile) (\<lambda>current.
      let drift = [] :: dict in
      bindM
        (if cpu \<noteq> PNone then
           bindM (liftR (py_item current ''cpu'')) (\<lambda>cpu2.
           bindM (vcf_vim_resource_pool_drift cpu2 cpu) (\<lambda>d.
           pureM (if truthy d then dset drift ''cpu'' d else drift)))
         else pureM drift) (\<lambda>drift.
      bindM
        (if memory \<noteq> PNone then
           bindM (liftR (py_item current ''memory'')) (\<lambda>memory2.
           bindM (vcf_vim_resource_pool_drift memory2 memory) (\<lambda>d.
           pureM (if truthy d then dset drift ''memory'' d else drift)))
         else pureM drift) (\<lambda>drift.
      if \<not> (drift \<noteq> []) then
        let ret = dset ret ''comment'' (PStr (py_str rp @ '' already matches'')) in
        pureM (PDict ret)
      else
        bindM (liftR (py_item opts ''test'')) (\<lambda>tst.
        if truthy tst then
          let ret = dset ret ''result'' PNone in
          bindM (liftR (py_sorted (map (\<lambda>(k, _). PStr k) drift))) (\<lambda>ordered.
          let ret = dset ret ''comment'' (PStr (py_str rp @ '' shares would change: '' @ py_str (PList ordered)))
        in
          pureM (PDict ret))
        else
          bindM (vim_resource_pool_set_shares api opts rp cpu memory profile) (\<lambda>_.
          let ret = dset ret ''changes'' (PDict drift) in
          let ret = dset ret ''comment'' (PStr (py_str rp @ '' shares updated'')) in
          pureM (PDict ret)))))))"

subsection \<open>\<open>states/vcf_vim_role.py\<close>\<close>

definition vcf_vim_role_ret :: "pyval \<Rightarrow> dict" where
  "vcf_vim_role_ret name =
     [(''name'', name), (''changes'', PDict []), (''result'', PBool True), (''comment'', PStr '''')]"

definition vcf_vim_role_present :: "vmodl \<Rightarrow> pyval \<Rightarrow> pyval \<Rightarrow> pyval \<Rightarrow> profile \<Rightarrow> pyval io" where
  "vcf_vim_role_present api opts name privileges profile =
     (let ret = vcf_vim_role_ret name in
      bindM (vim_role_get_or_none api opts name profile) (\<lambda>existing.
      bindM (liftR (py_iter privileges)) (\<lambda>items2.
      bindM (liftR (py_set items2)) (\<lambda>items3.
      bindM (liftR (py_sorted items3)) (\<lambda>desired.
      bindM
        (if existing \<noteq> PNone then
           bindM (liftR (py_get existing ''system'' PNone)) (\<lambda>system.
           pureM (truthy system))
         else pureM False) (\<lambda>holds_v.
      if holds_v then
        let ret = dset ret ''comment'' (PStr (''Role '' @ py_str name @ '' is system-defined; refusing to modify''))
        in
        pureM (PDict ret)
      else if existing \<noteq> PNone then
        bindM (liftR (py_get existing ''privilege'' (PList []))) (\<lambda>privilege.
        bindM (liftR (py_iter privilege)) (\<lambda>items4.
        bindM (liftR (py_set items4)) (\<lambda>items5.
        bindM (liftR (py_sorted items5)) (\<lambda>current.
        if py_eq (PList current) (PList desired) then
          let ret = dset ret ''comment'' (PStr (''Role '' @ py_str name @ '' already matches'')) in
          pureM (PDict ret)
        else
          bindM (liftR (py_item opts ''test'')) (\<lambda>tst.
          if truthy tst then
            let ret = dset ret ''result'' PNone in
            bindM (liftR (py_set desired)) (\<lambda>items6.
            bindM (liftR (py_set current)) (\<lambda>items7.
            bindM (liftR (py_sorted (py_diff items6 items7))) (\<lambda>added.
            bindM (liftR (py_set current)) (\<lambda>items8.
            bindM (liftR (py_set desired)) (\<lambda>items9.
            bindM (liftR (py_sorted (py_diff items8 items9))) (\<lambda>removed.
            let ret = dset ret ''comment'' (PStr (''Role '' @ py_str name @ '' would be updated: +'' @ py_str (PList
        added) @ '' -'' @ py_str (PList removed))) in
            pureM (PDict ret)))))))
          else
            bindM (vim_role_update api opts name (PList desired) profile) (\<lambda>_.
            bindM (liftR (py_set desired)) (\<lambda>items10.
            bindM (liftR (py_set current)) (\<lambda>items11.
            bindM (liftR (py_sorted (py_diff items10 items11))) (\<lambda>ordered5.
            bindM (liftR (py_set current)) (\<lambda>items12.
            bindM (liftR (py_set desired)) (\<lambda>items13.
            bindM (liftR (py_sorted (py_diff items12 items13))) (\<lambda>ordered6.
            let ret = dset ret ''changes'' (PDict [(''added'', PList ordered5), (''removed'', PList ordered6)])
        in
            let ret = dset ret ''comment'' (PStr (''Role '' @ py_str name @ '' updated'')) in
            pureM (PDict ret)))))))))))))
      else
        bindM (liftR (py_item opts ''test'')) (\<lambda>tst2.
        if truthy tst2 then
          let ret = dset ret ''result'' PNone in
          let ret = dset ret ''comment'' (PStr (''Role '' @ py_str name @ '' would be created'')) in
          pureM (PDict ret)
        else
          bindM (vim_role_create api opts name (PList desired) profile) (\<lambda>_.
          let ret = dset ret ''changes'' (PDict [(''new'', name), (''privileges'', PList desired)]) in
          let ret = dset ret ''comment'' (PStr (''Role '' @ py_str name @ '' created'')) in
          pureM (PDict ret)))))))))"

definition vcf_vim_role_absent :: "vmodl \<Rightarrow> pyval \<Rightarrow> pyval \<Rightarrow> pyval \<Rightarrow> profile \<Rightarrow> pyval io" where
  "vcf_vim_role_absent api opts name fail_if_used profile =
     (let ret = vcf_vim_role_ret name in
      bindM (vim_role_get_or_none api opts name profile) (\<lambda>existing.
      if existing = PNone then
        let ret = dset ret ''comment'' (PStr (''Role '' @ py_str name @ '' is already absent'')) in
        pureM (PDict ret)
      else
        bindM (liftR (py_get existing ''system'' PNone)) (\<lambda>system.
        if truthy system then
          let ret = dset ret ''comment'' (PStr (''Role '' @ py_str name @
        '' is system-defined; refusing to delete'')) in
          pureM (PDict ret)
        else
          bindM (liftR (py_item opts ''test'')) (\<lambda>tst.
          if truthy tst then
            let ret = dset ret ''result'' PNone in
            let ret = dset ret ''comment'' (PStr (''Role '' @ py_str name @ '' would be deleted'')) in
            pureM (PDict ret)
          else
            bindM (vim_role_delete api opts name fail_if_used profile) (\<lambda>_.
            let ret = dset ret ''changes'' (PDict [(''deleted'', name)]) in
            let ret = dset ret ''comment'' (PStr (''Role '' @ py_str name @ '' deleted'')) in
            pureM (PDict ret))))))"

subsection \<open>\<open>states/vcf_vim_scheduled_task.py\<close>\<close>

definition vcf_vim_scheduled_task_ret :: "pyval \<Rightarrow> dict" where
  "vcf_vim_scheduled_task_ret name =
     [(''name'', name), (''changes'', PDict []), (''result'', PBool True), (''comment'', PStr '''')]"

definition vcf_vim_scheduled_task_present :: "vmodl \<Rightarrow> pyval \<Rightarrow> pyval \<Rightarrow> pyval
  \<Rightarrow> pyval \<Rightarrow> profile \<Rightarrow> pyval io" where
  "vcf_vim_scheduled_task_present api opts name entity spec profile =
     (let ret = vcf_vim_scheduled_task_ret name in
      bindM (liftR (py_get spec ''name'' name)) (\<lambda>spec_name.
      bindM (vim_scheduled_task_get_or_none api opts spec_name profile) (\<lambda>existing.
      if existing \<noteq> PNone then
        let ret = dset ret ''comment'' (PStr (''scheduled task '' @ py_repr spec_name @ '' already present''))
        in
        pureM (PDict ret)
      else
        bindM (liftR (py_item opts ''test'')) (\<lambda>tst.
        if truthy tst then
          let ret = dset ret ''result'' PNone in
          let ret = dset ret ''comment'' (PStr (''scheduled task '' @ py_repr spec_name @ '' would be created on ''
        @ py_str entity)) in
          pureM (PDict ret)
        else
          bindM (vim_scheduled_task_create api opts entity spec profile) (\<lambda>task_id.
          let ret = dset ret ''changes'' (PDict [(''created'', task_id)]) in
          let ret = dset ret ''comment'' (PStr (''scheduled task '' @ py_repr spec_name @ '' created''))
        in
          pureM (PDict ret))))))"

definition vcf_vim_scheduled_task_absent :: "vmodl \<Rightarrow> pyval \<Rightarrow> pyval \<Rightarrow> profile \<Rightarrow> pyval io" where
  "vcf_vim_scheduled_task_absent api opts name profile =
     (let ret = vcf_vim_scheduled_task_ret name in
      bindM (vim_scheduled_task_get_or_none api opts name profile) (\<lambda>existing.
      if existing = PNone then
        let ret = dset ret ''comment'' (PStr (''scheduled task '' @ py_repr name @ '' already absent''))
        in
        pureM (PDict ret)
      else
        bindM (liftR (py_item opts ''test'')) (\<lambda>tst.
        if truthy tst then
          let ret = dset ret ''result'' PNone in
          let ret = dset ret ''comment'' (PStr (''scheduled task '' @ py_repr name @ '' would be removed''))
        in
          pureM (PDict ret)
        else
          bindM (vim_scheduled_task_delete api opts name profile) (\<lambda>_.
          bindM (liftR (py_item existing ''id'')) (\<lambda>ident.
          let ret = dset ret ''changes'' (PDict [(''removed'', ident)]) in
          let ret = dset ret ''comment'' (PStr (''scheduled task '' @ py_repr name @ '' removed'')) in
          pureM (PDict ret))))))"

subsection \<open>\<open>states/vcf_vim_vm.py\<close>\<close>

definition vcf_vim_vm_ret :: "pyval \<Rightarrow> dict" where
  "vcf_vim_vm_ret name =
     [(''name'', name), (''changes'', PDict []), (''result'', PBool True), (''comment'', PStr '''')]"

definition vm_probe :: "vmodl \<Rightarrow> pyval \<Rightarrow> pyval \<Rightarrow> profile \<Rightarrow> int \<Rightarrow> int \<Rightarrow> int \<Rightarrow> unit \<Rightarrow> (unit + unit) io" where
  "vm_probe api opts name profile timeout poll_interval deadline u =
     attempt (\<lambda>exc. is_LookupError exc \<or> is_AttributeError exc)
       (exec_vim_vm_get_advanced_settings api opts name profile)
       (\<lambda>_. pureM (Inl ()))
       (\<lambda>_.
          bindM monotonic (\<lambda>now.
          if now > deadline then
            raiseM (TimeoutError (''VM '' @ py_repr name @ '' did not appear within '' @ int_str timeout @ ''s''))
          else bindM (sleep poll_interval) (\<lambda>_. pureM (Inr ()))))"

text \<open>The timeout is in seconds, the interval in milliseconds.\<close>

definition vcf_vim_vm_wait_for_vm :: "vmodl \<Rightarrow> pyval \<Rightarrow> pyval \<Rightarrow> profile \<Rightarrow> int \<Rightarrow> int \<Rightarrow> unit io" where
  "vcf_vim_vm_wait_for_vm api opts name profile timeout poll_interval =
     bindM monotonic (\<lambda>now.
     loopM (vm_probe api opts name profile timeout poll_interval (now + secs timeout)) ())"

definition vm_add_disks :: "vmodl \<Rightarrow> pyval \<Rightarrow> pyval \<Rightarrow> pyval \<Rightarrow> profile \<Rightarrow> pyval list io" where
  "vm_add_disks api opts name disks profile =
     bindM (liftR (py_iter (py_or disks (PList [])))) (\<lambda>items.
     mapM (\<lambda>disk.
       bindM (liftR (py_item disk ''size_gb'')) (\<lambda>size_gb.
       bindM (liftR (py_int size_gb)) (\<lambda>n.
       bindM (liftR (py_get disk ''thin'' (PBool True))) (\<lambda>thin.
       bindM
         (exec_vim_vm_disk_add api opts name (PInt n) PNone PNone PNone (PStr ''persistent'') thin (PBool False) profile)
         (\<lambda>_. pureM size_gb))))) items)"

definition vm_add_nics :: "vmodl \<Rightarrow> pyval \<Rightarrow> pyval \<Rightarrow> pyval \<Rightarrow> profile \<Rightarrow> pyval list io" where
  "vm_add_nics api opts name nics profile =
     bindM (liftR (py_iter (py_or nics (PList [])))) (\<lambda>items.
     mapM (\<lambda>nic.
       bindM (liftR (py_item nic ''network'')) (\<lambda>network.
       bindM (liftR (py_get nic ''nic_type'' (PStr ''vmxnet3''))) (\<lambda>nic_type.
       bindM
         (exec_vim_vm_nic_add api opts name nic_type network PNone PNone PNone PNone (PBool True) profile)
         (\<lambda>_. pureM network)))) items)"

definition vm_add_cdroms :: "vmodl \<Rightarrow> pyval \<Rightarrow> pyval \<Rightarrow> pyval \<Rightarrow> profile \<Rightarrow> pyval list io" where
  "vm_add_cdroms api opts name cdroms profile =
     bindM (liftR (py_iter (py_or cdroms (PList [])))) (\<lambda>items.
     mapM (\<lambda>cdrom.
       bindM (liftR (py_get cdrom ''iso_path'' PNone)) (\<lambda>iso_path.
       bindM (liftR (py_get cdrom ''datastore'' PNone)) (\<lambda>datastore.
       bindM (liftR (py_get cdrom ''start_connected'' (PBool True))) (\<lambda>start_connected.
       bindM
         (exec_vim_vm_cdrom_add api opts name iso_path datastore PNone start_connected profile)
         (\<lambda>_. pureM (py_or iso_path (PStr ''empty'')))))) ) items)"

definition given_features :: "pyval \<Rightarrow> pyval \<Rightarrow> pyval \<Rightarrow> dict" where
  "given_features firmware nested_hv efi_secure_boot =
     filter (\<lambda>(_, v). v \<noteq> PNone)
       [(''firmware'', firmware), (''nested_hv'', nested_hv), (''efi_secure_boot'', efi_secure_boot)]"

text \<open>\<open>len(v or [])\<close>, as text.\<close>

definition count_text :: "pyval \<Rightarrow> string res" where
  "count_text v = bindR (py_len (py_or v (PList []))) (\<lambda>n. Ok (int_str (int n)))"

definition vm_planned :: "pyval \<Rightarrow> pyval \<Rightarrow> pyval \<Rightarrow> pyval \<Rightarrow> pyval \<Rightarrow> pyval \<Rightarrow> pyval \<Rightarrow> string res" where
  "vm_planned name host cpu_count memory_mb disks nics cdroms =
     bindR (count_text disks) (\<lambda>d.
     bindR (count_text nics) (\<lambda>n.
     bindR (count_text cdroms) (\<lambda>c.
     Ok (''Would create VM '' @ py_repr name @ '' on '' @ py_str host @ '' with '' @ py_str cpu_count @ '' vCPU, '' @
       py_str memory_mb @ '' MB RAM, '' @ d @ '' disk(s), '' @ n @ '' NIC(s), '' @ c @ '' CD-ROM(s).''))))"

definition vm_build ::
  "vmodl \<Rightarrow> pyval \<Rightarrow> pyval \<Rightarrow> pyval \<Rightarrow> pyval \<Rightarrow> pyval \<Rightarrow> pyval \<Rightarrow> pyval \<Rightarrow> pyval \<Rightarrow> pyval \<Rightarrow> pyval \<Rightarrow>
   pyval \<Rightarrow> pyval \<Rightarrow> pyval \<Rightarrow> pyval \<Rightarrow> pyval \<Rightarrow> profile \<Rightarrow> pyval io" where
  "vm_build api opts name host datastore folder cpu_count memory_mb guest_id firmware nested_hv efi_secure_boot disks
     nics cdroms annotation profile =
     bindM
       (exec_vim_vm_create api opts name folder datastore cpu_count memory_mb guest_id PNone host PNone annotation profile)
       (\<lambda>_.
     bindM (vcf_vim_vm_wait_for_vm api opts name profile 60 1000) (\<lambda>_.
     bindM (vm_add_disks api opts name disks profile) (\<lambda>made_disks.
     bindM (vm_add_nics api opts name nics profile) (\<lambda>made_nics.
     bindM (vm_add_cdroms api opts name cdroms profile) (\<lambda>made_cdroms.
     let features = given_features firmware nested_hv efi_secure_boot in
     bindM
       (if features \<noteq> [] then
          exec_vim_vm_features_set_features api opts name PNone PNone nested_hv PNone PNone firmware PNone PNone
            efi_secure_boot profile
        else pureM PNone) (\<lambda>_.
     pureM (PDict
       [(''created'', name), (''disks'', PList made_disks), (''nics'', PList made_nics),
        (''cdroms'', PList made_cdroms), (''features'', PDict features)])))))))"

definition vcf_vim_vm_present ::
  "vmodl \<Rightarrow> pyval \<Rightarrow> pyval \<Rightarrow> pyval \<Rightarrow> pyval \<Rightarrow> pyval \<Rightarrow> pyval \<Rightarrow> pyval \<Rightarrow> pyval \<Rightarrow> pyval \<Rightarrow> pyval \<Rightarrow>
   pyval \<Rightarrow> pyval \<Rightarrow> pyval \<Rightarrow> pyval \<Rightarrow> pyval \<Rightarrow> profile \<Rightarrow> pyval io" where
  "vcf_vim_vm_present api opts name host datastore folder cpu_count memory_mb guest_id firmware nested_hv
     efi_secure_boot disks nics cdroms annotation profile =
     (let ret = vcf_vim_vm_ret name in
      bindM (clear_cache Esxi_Cache) (\<lambda>_.
      bindM (clear_cache Vim_Cache) (\<lambda>_.
      attempt is_LookupError (exec_vim_vm_get_advanced_settings api opts name profile)
        (\<lambda>_.
           pureM (PDict (dset ret ''comment''
             (PStr (''VM '' @ py_repr name @ '' already present on '' @ py_str host @ ''.'')))))
        (\<lambda>_.
           bindM (liftR (py_item opts ''test'')) (\<lambda>tst.
           if truthy tst then
             bindM (liftR (vm_planned name host cpu_count memory_mb disks nics cdroms)) (\<lambda>plan.
             pureM (PDict (dset (dset (dset ret ''result'' PNone) ''comment'' (PStr plan)) ''changes''
               (PDict [(''new'', name)]))))
           else
             bindM
               (vm_build api opts name host datastore folder cpu_count memory_mb guest_id firmware nested_hv
                  efi_secure_boot disks nics cdroms annotation profile) (\<lambda>changes.
             pureM (PDict (dset (dset ret ''changes'' changes) ''comment''
               (PStr (''Created VM '' @ py_repr name @ '' on '' @ py_str host @ ''.''))))))))))"

definition vcf_vim_vm_absent :: "vmodl \<Rightarrow> pyval \<Rightarrow> pyval \<Rightarrow> profile \<Rightarrow> pyval io" where
  "vcf_vim_vm_absent api opts name profile =
     (let ret = vcf_vim_vm_ret name in
      attempt is_LookupError
        (bindM (exec_vim_vm_get_advanced_settings api opts name profile) (\<lambda>_.
         pureM ()))
        (\<lambda>_.
         bindM (liftR (py_item opts ''test'')) (\<lambda>tst.
         if truthy tst then
           let ret = dset ret ''result'' PNone in
           let ret = dset ret ''comment'' (PStr (''Would destroy VM '' @ py_repr name @ ''.'')) in
           let ret = dset ret ''changes'' (PDict [(''old'', name)]) in
           pureM (PDict ret)
         else
           bindM
             (tryM
                (bindM (exec_vim_vm_power_power_off api opts name profile) (\<lambda>_.
                 pureM ()))
                (\<lambda>exc. pureM ())) (\<lambda>_.
           bindM (exec_vim_vm_destroy api opts name profile) (\<lambda>_.
           let ret = dset ret ''changes'' (PDict [(''destroyed'', name)]) in
           let ret = dset ret ''comment'' (PStr (''Destroyed VM '' @ py_repr name @ ''.'')) in
           pureM (PDict ret)))))
        (\<lambda>_.
         let ret = dset ret ''comment'' (PStr (''VM '' @ py_repr name @ '' already absent.'')) in
         pureM (PDict ret)))"

definition vcf_vim_vm_powered_on :: "vmodl \<Rightarrow> pyval \<Rightarrow> pyval \<Rightarrow> profile \<Rightarrow> pyval io" where
  "vcf_vim_vm_powered_on api opts name profile =
     (let ret = vcf_vim_vm_ret name in
      bindM (exec_vim_vm_power_get_power_state api opts name profile) (\<lambda>st.
      if py_eq st (PStr ''poweredOn'') then
        let ret = dset ret ''comment'' (PStr (''VM '' @ py_repr name @ '' already powered on.'')) in
        pureM (PDict ret)
      else
        bindM (liftR (py_item opts ''test'')) (\<lambda>tst.
        if truthy tst then
          let ret = dset ret ''result'' PNone in
          let ret = dset ret ''comment'' (PStr (''Would power on VM '' @ py_repr name @ '' (currently '' @ py_str st
        @ '').'')) in
          pureM (PDict ret)
        else
          bindM (exec_vim_vm_power_power_on api opts name PNone profile) (\<lambda>_.
          let ret = dset ret ''changes'' (PDict [(''power'', PDict [(''old'', st), (''new'', PStr ''poweredOn'')])])
        in
          let ret = dset ret ''comment'' (PStr (''Powered on VM '' @ py_repr name @ ''.'')) in
          pureM (PDict ret)))))"

definition vcf_vim_vm_resource_pinning_disabled ::
  "vmodl \<Rightarrow> pyval \<Rightarrow> pyval \<Rightarrow> pyval \<Rightarrow> pyval \<Rightarrow> pyval \<Rightarrow> pyval \<Rightarrow> pyval \<Rightarrow> profile \<Rightarrow> pyval io" where
  "vcf_vim_vm_resource_pinning_disabled api opts name cpu_affinity cpu_shares_level cpu_shares memory_reservation_mb
    memory_reservation_locked_to_max profile =
     (let ret = vcf_vim_vm_ret name in
      bindM (exec_vim_vm_get_resource_config api opts name profile) (\<lambda>current.
      bindM (if truthy cpu_affinity then liftR (py_iter cpu_affinity) else pureM []) (\<lambda>desired_affinity.
      bindM (liftR (py_get current ''cpu_affinity'' PNone)) (\<lambda>cpu_affinity2.
      bindM (liftR (py_iter (py_or cpu_affinity2 (PList [])))) (\<lambda>current_affinity.
      let drift = [] :: dict in
      let drift = (if \<not> py_eq (PList current_affinity) (PList desired_affinity) then dset drift
        ''cpu_affinity'' (PList [PList current_affinity, PList desired_affinity]) else drift) in
      bindM (liftR (py_get current ''cpu_shares_level'' PNone)) (\<lambda>cpu_shares_level2.
      bindM
        (if \<not> py_eq cpu_shares_level2 cpu_shares_level then
           bindM (liftR (py_get current ''cpu_shares_level'' PNone)) (\<lambda>cpu_shares_level3.
           pureM (dset drift ''cpu_shares_level'' (PList [cpu_shares_level3, cpu_shares_level])))
         else pureM drift) (\<lambda>drift.
      bindM (liftR (py_get current ''cpu_shares'' PNone)) (\<lambda>cpu_shares2.
      bindM (liftR (py_int cpu_shares)) (\<lambda>n.
      bindM
        (if \<not> py_eq cpu_shares2 (PInt n) then
           bindM (liftR (py_get current ''cpu_shares'' PNone)) (\<lambda>cpu_shares3.
           bindM (liftR (py_int cpu_shares)) (\<lambda>n2.
           pureM (dset drift ''cpu_shares'' (PList [cpu_shares3, PInt n2]))))
         else pureM drift) (\<lambda>drift.
      bindM (liftR (py_get current ''memory_reservation_mb'' PNone)) (\<lambda>memory_reservation_mb2.
      bindM (liftR (py_int memory_reservation_mb)) (\<lambda>n3.
      bindM
        (if \<not> py_eq memory_reservation_mb2 (PInt n3) then
           bindM (liftR (py_get current ''memory_reservation_mb'' PNone)) (\<lambda>memory_reservation_mb3.
           bindM (liftR (py_int memory_reservation_mb)) (\<lambda>n4.
           pureM (dset drift ''memory_reservation_mb'' (PList [memory_reservation_mb3, PInt n4]))))
         else pureM drift) (\<lambda>drift.
      bindM
        (liftR (py_get current ''memory_reservation_locked_to_max'' PNone))
        (\<lambda>memory_reservation_locked_to_max2.
      bindM
        (if truthy memory_reservation_locked_to_max2 \<noteq> truthy memory_reservation_locked_to_max then
           bindM
             (liftR (py_get current ''memory_reservation_locked_to_max'' PNone))
        (\<lambda>memory_reservation_locked_to_max3.
           pureM (dset drift ''memory_reservation_locked_to_max'' (PList [PBool (truthy
        memory_reservation_locked_to_max3), PBool (truthy memory_reservation_locked_to_max)])))
         else pureM drift) (\<lambda>drift.
      if \<not> (drift \<noteq> []) then
        let ret = dset ret ''comment'' (PStr (''VM '' @ py_repr name @ '' already has resource pinning cleared.''))
        in
        pureM (PDict ret)
      else
        bindM (liftR (py_item opts ''test'')) (\<lambda>tst.
        if truthy tst then
          let ret = dset ret ''result'' PNone in
          bindM (liftR (py_sorted (map (\<lambda>(k, _). PStr k) drift))) (\<lambda>ordered.
          let ret = dset ret ''comment'' (PStr (''Would clear resource pinning on VM '' @ py_repr name @ '': '' @
        py_str (PList ordered))) in
          let ret = dset ret ''changes'' (PDict drift) in
          pureM (PDict ret))
        else
          bindM (liftR (py_int cpu_shares)) (\<lambda>n5.
          bindM (liftR (py_int memory_reservation_mb)) (\<lambda>n6.
          bindM
            (exec_vim_vm_set_resource_config api opts name (PList desired_affinity) cpu_shares_level (PInt n5) (PInt
        n6) (PBool (truthy memory_reservation_locked_to_max)) profile) (\<lambda>_.
          let ret = dset ret ''changes'' (PDict drift) in
          let ret = dset ret ''comment'' (PStr (''Cleared resource pinning on VM '' @ py_repr name @ ''.''))
        in
          pureM (PDict ret))))))))))))))))))))"

definition vcf_vim_vm_powered_off :: "vmodl \<Rightarrow> pyval \<Rightarrow> pyval \<Rightarrow> profile \<Rightarrow> pyval io" where
  "vcf_vim_vm_powered_off api opts name profile =
     (let ret = vcf_vim_vm_ret name in
      bindM (exec_vim_vm_power_get_power_state api opts name profile) (\<lambda>st.
      if py_eq st (PStr ''poweredOff'') then
        let ret = dset ret ''comment'' (PStr (''VM '' @ py_repr name @ '' already powered off.'')) in
        pureM (PDict ret)
      else
        bindM (liftR (py_item opts ''test'')) (\<lambda>tst.
        if truthy tst then
          let ret = dset ret ''result'' PNone in
          let ret = dset ret ''comment'' (PStr (''Would power off VM '' @ py_repr name @ '' (currently '' @ py_str
        st @ '').'')) in
          pureM (PDict ret)
        else
          bindM (exec_vim_vm_power_power_off api opts name profile) (\<lambda>_.
          let ret = dset ret ''changes'' (PDict [(''power'', PDict [(''old'', st), (''new'', PStr
        ''poweredOff'')])]) in
          let ret = dset ret ''comment'' (PStr (''Powered off VM '' @ py_repr name @ ''.'')) in
          pureM (PDict ret)))))"

subsection \<open>\<open>states/vcf_vim_vm_devices.py\<close>\<close>

definition vcf_vim_vm_devices_ret :: "pyval \<Rightarrow> dict" where
  "vcf_vim_vm_devices_ret name =
     [(''name'', name), (''changes'', PDict []), (''result'', PBool True), (''comment'', PStr '''')]"

definition vcf_vim_vm_devices_tpm_present :: "vmodl \<Rightarrow> pyval \<Rightarrow> pyval \<Rightarrow> pyval \<Rightarrow> profile \<Rightarrow> pyval io" where
  "vcf_vim_vm_devices_tpm_present api opts name vm profile =
     (let vm = py_or vm name in
      let ret = vcf_vim_vm_devices_ret name in
      bindM (vim_vm_devices_tpm_list api opts vm profile) (\<lambda>existing.
      if truthy existing then
        let ret = dset ret ''comment'' (PStr (''vTPM on '' @ py_str vm @ '' already present'')) in
        pureM (PDict ret)
      else
        bindM (liftR (py_item opts ''test'')) (\<lambda>tst.
        if truthy tst then
          let ret = dset ret ''result'' PNone in
          let ret = dset ret ''comment'' (PStr (''vTPM would be added to '' @ py_str vm)) in
          pureM (PDict ret)
        else
          bindM (vim_vm_devices_tpm_add api opts vm profile) (\<lambda>_.
          let ret = dset ret ''changes'' (PDict [(''added'', PStr ''vTPM'')]) in
          let ret = dset ret ''comment'' (PStr (''vTPM added to '' @ py_str vm)) in
          pureM (PDict ret)))))"

definition vcf_vim_vm_devices_tpm_absent :: "vmodl \<Rightarrow> pyval \<Rightarrow> pyval \<Rightarrow> pyval \<Rightarrow> profile \<Rightarrow> pyval io" where
  "vcf_vim_vm_devices_tpm_absent api opts name vm profile =
     (let vm = py_or vm name in
      let ret = vcf_vim_vm_devices_ret name in
      bindM (vim_vm_devices_tpm_list api opts vm profile) (\<lambda>existing.
      if \<not> truthy existing then
        let ret = dset ret ''comment'' (PStr (''vTPM on '' @ py_str vm @ '' already absent'')) in
        pureM (PDict ret)
      else
        bindM (liftR (py_item opts ''test'')) (\<lambda>tst.
        if truthy tst then
          let ret = dset ret ''result'' PNone in
          let ret = dset ret ''comment'' (PStr (''vTPM would be removed from '' @ py_str vm)) in
          pureM (PDict ret)
        else
          bindM (vim_vm_devices_tpm_remove api opts vm profile) (\<lambda>_.
          let ret = dset ret ''changes'' (PDict [(''removed'', PStr ''vTPM'')]) in
          let ret = dset ret ''comment'' (PStr (''vTPM removed from '' @ py_str vm)) in
          pureM (PDict ret)))))"

definition vcf_vim_vm_devices_vgpu_present :: "vmodl \<Rightarrow> pyval \<Rightarrow> pyval \<Rightarrow> pyval
  \<Rightarrow> pyval \<Rightarrow> profile \<Rightarrow> pyval io" where
  "vcf_vim_vm_devices_vgpu_present api opts name vm profile_name profile =
     (let ret = vcf_vim_vm_devices_ret name in
      bindM (vim_vm_devices_vgpu_list api opts vm profile) (\<lambda>existing.
      bindM (liftR (py_iter existing)) (\<lambda>items.
      bindM
        (anyM (\<lambda>g.
           bindM (liftR (py_get g ''vgpu_profile'' PNone)) (\<lambda>vgpu_profile.
           pureM (py_eq vgpu_profile profile_name))) items) (\<lambda>found.
      if found then
        let ret = dset ret ''comment'' (PStr (''vGPU '' @ py_repr profile_name @ '' already present on '' @ py_str
        vm)) in
        pureM (PDict ret)
      else
        bindM (liftR (py_item opts ''test'')) (\<lambda>tst.
        if truthy tst then
          let ret = dset ret ''result'' PNone in
          let ret = dset ret ''comment'' (PStr (''vGPU '' @ py_repr profile_name @ '' would be added to '' @ py_str
        vm)) in
          pureM (PDict ret)
        else
          bindM (vim_vm_devices_vgpu_add api opts vm profile_name profile) (\<lambda>_.
          let ret = dset ret ''changes'' (PDict [(''added'', profile_name)]) in
          let ret = dset ret ''comment'' (PStr (''vGPU '' @ py_repr profile_name @ '' added to '' @ py_str vm))
        in
          pureM (PDict ret)))))))"

definition vcf_vim_vm_devices_vgpu_absent :: "vmodl \<Rightarrow> pyval \<Rightarrow> pyval \<Rightarrow> pyval
  \<Rightarrow> pyval \<Rightarrow> profile \<Rightarrow> pyval io" where
  "vcf_vim_vm_devices_vgpu_absent api opts name vm profile_name profile =
     (let ret = vcf_vim_vm_devices_ret name in
      bindM (vim_vm_devices_vgpu_list api opts vm profile) (\<lambda>existing.
      bindM (liftR (py_iter existing)) (\<lambda>items.
      bindM
        (collect (\<lambda>g.
           bindM
             (if profile_name = PNone then pureM True
              else
                bindM (liftR (py_get g ''vgpu_profile'' PNone)) (\<lambda>vgpu_profile.
                pureM (py_eq vgpu_profile profile_name))) (\<lambda>holds_v.
           if holds_v then pureM (Some g) else pureM None)) items) (\<lambda>targets.
      if \<not> (targets \<noteq> []) then
        let ret = dset ret ''comment'' (PStr (''vGPU'' @ (if truthy profile_name then '' '' @ py_repr profile_name
        else []) @ '' on '' @ py_str vm @ '' already absent'')) in
        pureM (PDict ret)
      else
        bindM (liftR (py_item opts ''test'')) (\<lambda>tst.
        if truthy tst then
          let ret = dset ret ''result'' PNone in
          let ret = dset ret ''comment'' (PStr (''vGPU would be removed from '' @ py_str vm)) in
          pureM (PDict ret)
        else
          bindM (vim_vm_devices_vgpu_remove api opts vm profile_name profile) (\<lambda>_.
          let ret = dset ret ''changes'' (PDict [(''removed'', py_or profile_name (PStr ''all''))]) in
          let ret = dset ret ''comment'' (PStr (''vGPU removed from '' @ py_str vm)) in
          pureM (PDict ret)))))))"

definition vcf_vim_vm_devices_serial_present ::
  "vmodl \<Rightarrow> pyval \<Rightarrow> pyval \<Rightarrow> pyval \<Rightarrow> pyval \<Rightarrow> pyval \<Rightarrow> pyval \<Rightarrow> pyval \<Rightarrow> profile \<Rightarrow> pyval io" where
  "vcf_vim_vm_devices_serial_present api opts name vm backing uri file_path direction profile =
     (let ret = vcf_vim_vm_devices_ret name in
      bindM (vim_vm_devices_serial_list api opts vm profile) (\<lambda>existing.
      bindM (liftR (py_iter existing)) (\<lambda>items.
      bindM
        (for_each (\<lambda>s ret.
           bindM
             (if py_eq backing (PStr ''network'') then
                bindM (liftR (py_get s ''uri'' PNone)) (\<lambda>uri2.
                pureM (py_eq uri2 uri))
              else pureM False) (\<lambda>holds_v.
           if holds_v then
             let ret = dset ret ''comment'' (PStr (''serial port '' @ py_repr uri @ '' on '' @ py_str vm @
        '' already present'')) in
             pureM (Inl (PDict ret))
           else
             bindM
               (if py_eq backing (PStr ''file'') then
                  bindM (liftR (py_get s ''file'' PNone)) (\<lambda>fil.
                  pureM (py_eq fil file_path))
                else pureM False) (\<lambda>holds_v2.
             if holds_v2 then
               let ret = dset ret ''comment'' (PStr (''serial port '' @ py_repr file_path @ '' on '' @ py_str vm @
        '' already present'')) in
               pureM (Inl (PDict ret))
             else pureM (Inr ret)))) items ret) (\<lambda>answer.
      case answer of
        Inl answer \<Rightarrow> pureM answer
      | Inr ret \<Rightarrow> bindM (liftR (py_item opts ''test'')) (\<lambda>tst.
          if truthy tst then
            let ret = dset ret ''result'' PNone in
            let ret = dset ret ''comment'' (PStr (''serial port would be added to '' @ py_str vm)) in
            pureM (PDict ret)
          else
            bindM (vim_vm_devices_serial_add api opts vm backing uri direction file_path profile) (\<lambda>_.
            let ret = dset ret ''changes'' (PDict [(''added'', py_or uri file_path)]) in
            let ret = dset ret ''comment'' (PStr (''serial port added to '' @ py_str vm)) in
            pureM (PDict ret)))))))"

definition vcf_vim_vm_devices_usb_controllers_absent :: "vmodl \<Rightarrow> pyval \<Rightarrow> pyval \<Rightarrow>
  pyval \<Rightarrow> profile \<Rightarrow> pyval io" where
  "vcf_vim_vm_devices_usb_controllers_absent api opts name connected_only profile =
     (let ret = vcf_vim_vm_devices_ret name in
      bindM (vim_vm_devices_list_vms_with_usb_controllers api opts profile) (\<lambda>found.
      bindM
        (if truthy connected_only then
           bindM (liftR (py_iter found)) (\<lambda>items.
           bindM
             (collect (\<lambda>v.
                bindM (liftR (py_item v ''connected'')) (\<lambda>connected.
                if truthy connected then pureM (Some v) else pureM None)) items) (\<lambda>targets.
           bindM (liftR (py_iter found)) (\<lambda>items2.
           bindM
             (collect (\<lambda>v.
                bindM (liftR (py_item v ''connected'')) (\<lambda>connected2.
                if \<not> truthy connected2 then pureM (Some v) else pureM None)) items2) (\<lambda>skipped.
           pureM (PList targets, skipped)))))
         else pureM (found, [])) (\<lambda>(targets, skipped).
      if \<not> truthy targets then
        let comment = ''no VMs with a USB controller found'' in
        let comment = (if skipped \<noteq> [] then comment @ '' ('' @ int_str (int (length skipped)) @
        '' disconnected VM(s) with a USB controller were skipped)'' else comment) in
        let ret = dset ret ''comment'' (PStr comment) in
        pureM (PDict ret)
      else
        bindM (liftR (py_iter targets)) (\<lambda>items3.
        bindM (mapM (\<lambda>v. liftR (py_item v ''vm'')) items3) (\<lambda>vm_names.
        bindM (liftR (py_item opts ''test'')) (\<lambda>tst.
        if truthy tst then
          let ret = dset ret ''result'' PNone in
          bindM (liftR (py_join '', '' vm_names)) (\<lambda>text.
          let ret = dset ret ''comment'' (PStr (''USB controller(s) would be removed from: '' @ text)) in
          bindM (liftR (py_iter targets)) (\<lambda>items4.
          bindM
            (mapM (\<lambda>v.
               bindM (liftR (py_item v ''vm'')) (\<lambda>vm2.
               bindM (liftR (str_key vm2)) (\<lambda>k.
               bindM (liftR (py_item v ''devices'')) (\<lambda>devices.
               pureM (k, devices))))) items4) (\<lambda>entries.
          let ret = dset ret ''changes'' (PDict [(''would_remove'', PDict (dupdate [] entries))]) in
          pureM (PDict ret))))
        else
          let removed = [] :: dict in
          let errors = [] :: dict in
          bindM (liftR (py_iter targets)) (\<lambda>items5.
          bindM
            (foldM (\<lambda>v (removed, errors).
               tryM
                 (bindM (liftR (py_item v ''moid'')) (\<lambda>moid.
                  bindM (vim_vm_devices_usb_controllers_remove api opts moid profile)
        (\<lambda>usb_controllers_remove.
                  bindM (liftR (py_item v ''vm'')) (\<lambda>vm3.
                  bindM (liftR (str_key vm3)) (\<lambda>k2.
                  let removed = dset removed k2 usb_controllers_remove in
                  pureM (removed, errors))))))
                 (\<lambda>exc. bindM (liftR (py_item v ''vm'')) (\<lambda>vm4.
                         bindM (liftR (str_key vm4)) (\<lambda>k3.
                         let errors = dset errors k3 (PStr (exn_str exc)) in
                         pureM (removed, errors))))) items5 (removed, errors)) (\<lambda>(removed, errors).
          let ret = dset ret ''changes'' (PDict [(''removed'', PDict removed)]) in
          bindM
            (if errors \<noteq> [] then
               let ret = dset ret ''result'' (PBool False) in
               bindM (liftR (py_item (PDict ret) ''changes'')) (\<lambda>changes.
               bindM (liftR (py_setitem changes ''errors'' (PDict errors))) (\<lambda>changes2.
               let ret = dset ret ''changes'' changes2 in
               pureM (dset ret ''comment'' (PStr (''removed USB controller(s) from '' @ int_str (int (length
        removed)) @ '' VM(s); failed on '' @ int_str (int (length errors)))))))
             else
               bindM (liftR (py_join '', '' vm_names)) (\<lambda>text2.
               pureM (dset ret ''comment'' (PStr (''removed USB controller(s) from '' @ int_str (int (length
        removed)) @ '' VM(s): '' @ text2))))) (\<lambda>ret.
          pureM (PDict ret))))))))))"

subsection \<open>\<open>states/vcf_vsan_cluster.py\<close>\<close>

definition vcf_vsan_cluster_ret :: "pyval \<Rightarrow> dict" where
  "vcf_vsan_cluster_ret name =
     [(''name'', name), (''changes'', PDict []), (''result'', PBool True), (''comment'', PStr '''')]"

definition vcf_vsan_cluster_configured ::
  "vmodl \<Rightarrow> pyval \<Rightarrow> pyval \<Rightarrow> pyval \<Rightarrow> pyval \<Rightarrow> pyval \<Rightarrow> pyval \<Rightarrow> profile \<Rightarrow> pyval io" where
  "vcf_vsan_cluster_configured api opts name enabled dedup_compression_enabled encryption_enabled auto_claim_storage
    profile =
     (let ret = vcf_vsan_cluster_ret name in
      bindM (vsan_cluster_get api opts name profile) (\<lambda>get.
      let current = py_or get (PDict []) in
      let changes = [] :: dict in
      let drift = [] :: dict in
      bindM
        (foldM (\<lambda>(field_v, desired) drift.
           if desired = PNone then pureM drift
           else
             bindM (liftR (py_lookup current (PStr field_v) PNone)) (\<lambda>actual.
             pureM (if truthy actual \<noteq> truthy desired then dset drift field_v (PDict [(''old'', actual),
        (''new'', PBool (truthy desired))]) else drift))) [(''enabled'', enabled), (''dedup_compression_enabled'',
        dedup_compression_enabled), (''encryption_enabled'', encryption_enabled), (''auto_claim_storage'',
        auto_claim_storage)] drift) (\<lambda>drift.
      if \<not> (drift \<noteq> []) then
        let ret = dset ret ''comment'' (PStr (''vSAN cluster '' @ py_str name @ '' already configured''))
        in
        pureM (PDict ret)
      else
        bindM (liftR (py_item opts ''test'')) (\<lambda>tst.
        if truthy tst then
          let ret = dset ret ''result'' PNone in
          bindM (liftR (py_join '', '' (map (\<lambda>(k, _). PStr k) drift))) (\<lambda>text.
          let ret = dset ret ''comment'' (PStr (''vSAN cluster '' @ py_str name @ '' would change: '' @ text))
        in
          pureM (PDict ret))
        else
          bindM
            (vsan_cluster_reconfigure api opts name enabled dedup_compression_enabled encryption_enabled
        auto_claim_storage profile) (\<lambda>task_id.
          let changes = dupdate changes drift in
          let changes = dset changes ''task_id'' task_id in
          let ret = dset ret ''changes'' (PDict changes) in
          let ret = dset ret ''comment'' (PStr (''vSAN cluster '' @ py_str name @ '' reconfigure submitted (task=''
        @ py_str task_id @ '')'')) in
          pureM (PDict ret))))))"

subsection \<open>\<open>states/vcf_vsan_fault_domain.py\<close>\<close>

definition vcf_vsan_fault_domain_ret :: "pyval \<Rightarrow> dict" where
  "vcf_vsan_fault_domain_ret name =
     [(''name'', name), (''changes'', PDict []), (''result'', PBool True), (''comment'', PStr '''')]"

definition vcf_vsan_fault_domain_member :: "vmodl \<Rightarrow> pyval \<Rightarrow> pyval \<Rightarrow> pyval \<Rightarrow> profile \<Rightarrow> pyval io" where
  "vcf_vsan_fault_domain_member api opts name mapping profile =
     (let ret = vcf_vsan_fault_domain_ret name in
      bindM (vsan_fault_domain_list api opts name profile) (\<lambda>current.
      bindM (liftR (py_iter current)) (\<lambda>items.
      bindM
        (mapM (\<lambda>entry.
           bindM (liftR (py_item entry ''host'')) (\<lambda>host.
           bindM (liftR (str_key host)) (\<lambda>k.
           bindM (liftR (py_get entry ''fault_domain'' PNone)) (\<lambda>fault_domain.
           pureM (k, fault_domain))))) items) (\<lambda>entries.
      let current_by_host = dupdate [] entries in
      bindM (liftR (py_iter current)) (\<lambda>items2.
      bindM
        (mapM (\<lambda>entry.
           bindM (liftR (py_item entry ''host_id'')) (\<lambda>host_id.
           bindM (liftR (str_key host_id)) (\<lambda>k2.
           bindM (liftR (py_get entry ''fault_domain'' PNone)) (\<lambda>fault_domain2.
           pureM (k2, fault_domain2))))) items2) (\<lambda>entries2.
      let current_by_id = dupdate [] entries2 in
      let drift = [] :: dict in
      bindM (liftR (py_mapping mapping ''items'')) (\<lambda>entries3.
      let drift = fold (\<lambda>(host_key, desired) drift. (let actual = py_or (dget current_by_host host_key
        PNone) (dget current_by_id host_key PNone) in (let drift = (if \<not> py_eq actual desired then dset drift
        host_key (PDict [(''old'', actual), (''new'', desired)]) else drift) in drift))) entries3 drift in
      if \<not> (drift \<noteq> []) then
        let ret = dset ret ''comment'' (PStr (''Cluster '' @ py_str name @ '' fault domains already match''))
        in
        pureM (PDict ret)
      else
        bindM (liftR (py_item opts ''test'')) (\<lambda>tst.
        if truthy tst then
          let ret = dset ret ''result'' PNone in
          bindM (liftR (py_sorted (map (\<lambda>(k, _). PStr k) drift))) (\<lambda>ordered.
          let ret = dset ret ''comment'' (PStr (''Cluster '' @ py_str name @ '' fault domains would change: '' @
        py_str (PList ordered))) in
          pureM (PDict ret))
        else
          bindM (vsan_fault_domain_assign api opts name mapping profile) (\<lambda>task_id.
          let ret = dset ret ''changes'' (PDict (dupdate drift [(''task_id'', task_id)])) in
          let ret = dset ret ''comment'' (PStr (''Cluster '' @ py_str name @
        '' fault domain reassignment submitted (task='' @ py_str task_id @ '')'')) in
          pureM (PDict ret))))))))))"

subsection \<open>\<open>states/vcf_vsan_file_service.py\<close>\<close>

definition vcf_vsan_file_service_ret :: "pyval \<Rightarrow> dict" where
  "vcf_vsan_file_service_ret name =
     [(''name'', name), (''changes'', PDict []), (''result'', PBool True), (''comment'', PStr '''')]"

definition vcf_vsan_file_service_configured ::
  "vmodl \<Rightarrow> pyval \<Rightarrow> pyval \<Rightarrow> pyval \<Rightarrow> pyval \<Rightarrow> pyval
    \<Rightarrow> pyval \<Rightarrow> pyval \<Rightarrow> pyval \<Rightarrow> pyval \<Rightarrow> pyval \<Rightarrow> pyval \<Rightarrow> profile \<Rightarrow> pyval io" where
  "vcf_vsan_file_service_configured api opts name cluster network_name domain_name ip_to_fqdn subnet_mask
    gateway_address dns_suffixes dns_address ovf_url profile =
     (let ret = vcf_vsan_file_service_ret name in
      let changes = [] :: dict in
      bindM (vsan_file_service_enabled api opts cluster profile) (\<lambda>enabled.
      bindM
        (if \<not> truthy enabled then
           bindM (liftR (py_item opts ''test'')) (\<lambda>tst.
           if truthy tst then
             let ret = dset ret ''result'' PNone in
             let ret = dset ret ''comment'' (PStr (''vSAN File Service would be enabled on '' @ py_str cluster))
        in
             pureM (Inl (PDict ret))
           else
             bindM (vsan_file_service_download_ovf api opts cluster ovf_url profile) (\<lambda>_.
             bindM (vsan_file_service_set_enabled api opts cluster (PBool True) network_name profile)
        (\<lambda>task_id.
             let changes = dset changes ''enabled'' (PDict [(''old'', PBool False), (''new'', PBool True),
        (''task_id'', task_id)]) in
             pureM (Inr (ret, changes)))))
         else pureM (Inr (ret, changes))) (\<lambda>answer.
      case answer of
        Inl answer \<Rightarrow> pureM answer
      | Inr (ret, changes) \<Rightarrow> bindM (vsan_file_service_domain_exists api opts cluster domain_name
        profile) (\<lambda>domain_exists.
          if \<not> truthy domain_exists then
            bindM (liftR (py_item opts ''test'')) (\<lambda>tst2.
            if truthy tst2 then
              let ret = dset ret ''result'' PNone in
              let ret = dset ret ''comment'' (PStr (''file service domain '' @ py_str domain_name @
        '' would be created on '' @ py_str cluster)) in
              pureM (PDict ret)
            else
              bindM
                (vsan_file_service_create_domain api opts cluster domain_name ip_to_fqdn subnet_mask gateway_address
        dns_suffixes dns_address profile) (\<lambda>task_id.
              let changes = dset changes ''domain'' (PDict [(''old'', PNone), (''new'', domain_name), (''task_id'',
        task_id)]) in
              if \<not> (changes \<noteq> []) then
                let ret = dset ret ''comment'' (PStr (''vSAN File Service already configured on '' @ py_str
        cluster)) in
                pureM (PDict ret)
              else
                let ret = dset ret ''changes'' (PDict changes) in
                let ret = dset ret ''comment'' (PStr (''vSAN File Service configuration submitted for '' @ py_str
        cluster)) in
                pureM (PDict ret)))
          else if \<not> (changes \<noteq> []) then
            let ret = dset ret ''comment'' (PStr (''vSAN File Service already configured on '' @ py_str cluster))
        in
            pureM (PDict ret)
          else
            let ret = dset ret ''changes'' (PDict changes) in
            let ret = dset ret ''comment'' (PStr (''vSAN File Service configuration submitted for '' @ py_str
        cluster)) in
            pureM (PDict ret)))))"

definition vcf_vsan_file_service_absent :: "vmodl \<Rightarrow> pyval \<Rightarrow> pyval \<Rightarrow> pyval
  \<Rightarrow> pyval \<Rightarrow> profile \<Rightarrow> pyval io" where
  "vcf_vsan_file_service_absent api opts name cluster domain_name profile =
     (let ret = vcf_vsan_file_service_ret name in
      let changes = [] :: dict in
      bindM
        (if truthy domain_name then
           bindM (vsan_file_service_domain_exists api opts cluster domain_name profile) (\<lambda>domain_exists.
           pureM (truthy domain_exists))
         else pureM False) (\<lambda>holds_v.
      bindM
        (if holds_v then
           bindM (liftR (py_item opts ''test'')) (\<lambda>tst.
           if truthy tst then
             let ret = dset ret ''result'' PNone in
             let ret = dset ret ''comment'' (PStr (''file service domain '' @ py_str domain_name @
        '' would be removed from '' @ py_str cluster)) in
             pureM (Inl (PDict ret))
           else
             bindM (vsan_file_service_remove_domain api opts cluster domain_name profile) (\<lambda>task_id.
             let changes = dset changes ''domain'' (PDict [(''old'', domain_name), (''new'', PNone), (''task_id'',
        task_id)]) in
             pureM (Inr (ret, changes))))
         else pureM (Inr (ret, changes))) (\<lambda>answer.
      case answer of
        Inl answer \<Rightarrow> pureM answer
      | Inr (ret, changes) \<Rightarrow> bindM (vsan_file_service_enabled api opts cluster profile) (\<lambda>enabled.
          if truthy enabled then
            bindM (liftR (py_item opts ''test'')) (\<lambda>tst2.
            if truthy tst2 then
              let ret = dset ret ''result'' PNone in
              let ret = dset ret ''comment'' (PStr (''vSAN File Service would be disabled on '' @ py_str cluster))
        in
              pureM (PDict ret)
            else
              bindM (vsan_file_service_set_enabled api opts cluster (PBool False) PNone profile)
        (\<lambda>task_id.
              let changes = dset changes ''enabled'' (PDict [(''old'', PBool True), (''new'', PBool False),
        (''task_id'', task_id)]) in
              if \<not> (changes \<noteq> []) then
                let ret = dset ret ''comment'' (PStr (''vSAN File Service already absent on '' @ py_str cluster))
        in
                pureM (PDict ret)
              else
                let ret = dset ret ''changes'' (PDict changes) in
                let ret = dset ret ''comment'' (PStr (''vSAN File Service removal submitted for '' @ py_str
        cluster)) in
                pureM (PDict ret)))
          else if \<not> (changes \<noteq> []) then
            let ret = dset ret ''comment'' (PStr (''vSAN File Service already absent on '' @ py_str cluster))
        in
            pureM (PDict ret)
          else
            let ret = dset ret ''changes'' (PDict changes) in
            let ret = dset ret ''comment'' (PStr (''vSAN File Service removal submitted for '' @ py_str cluster))
        in
            pureM (PDict ret)))))"

subsection \<open>Functions that only read\<close>

lemma vcf_esxi_service_get_or_fail_reads [vim_intros]: "observed held api \<Longrightarrow> keeps (leaves held) (vcf_esxi_service_get_or_fail api opts name profile)"
  unfolding vcf_esxi_service_get_or_fail_def in_view_folds split_def by (intro vim_intros; (assumption | simp add: READING_def))

lemma vcf_vccluster_resource_pool_drift_reads [vim_intros]: "observed held api \<Longrightarrow> keeps (leaves held) (vcf_vccluster_resource_pool_drift current desired)"
  unfolding vcf_vccluster_resource_pool_drift_def in_view_folds split_def by (intro vim_intros; (assumption | simp add: READING_def))

lemma vcf_vim_datastore_file_file_present_reads [vim_intros]: "observed held api \<Longrightarrow> keeps (leaves held) (vcf_vim_datastore_file_file_present file_list basename)"
  unfolding vcf_vim_datastore_file_file_present_def in_view_folds split_def by (intro vim_intros; (assumption | simp add: READING_def))

lemma vcf_vim_datastore_file_split_reads [vim_intros]: "observed held api \<Longrightarrow> keeps (leaves held) (vcf_vim_datastore_file_split ds_path)"
  unfolding vcf_vim_datastore_file_split_def in_view_folds split_def by (intro vim_intros; (assumption | simp add: READING_def))

lemma vcf_vim_first_class_disk_find_by_name_reads [vim_intros]: "observed held api \<Longrightarrow> keeps (leaves held) (vcf_vim_first_class_disk_find_by_name api opts datastore name profile)"
  unfolding vcf_vim_first_class_disk_find_by_name_def in_view_folds split_def by (intro vim_intros; (assumption | simp add: READING_def))

lemma vcf_vim_host_datastore_find_reads [vim_intros]: "observed held api \<Longrightarrow> keeps (leaves held) (vcf_vim_host_datastore_find api opts host name profile)"
  unfolding vcf_vim_host_datastore_find_def in_view_folds split_def by (intro vim_intros; (assumption | simp add: READING_def))

lemma vcf_vim_permission_find_reads [vim_intros]: "observed held api \<Longrightarrow> keeps (leaves held) (vcf_vim_permission_find api opts entity_ref principal_v grp profile)"
  unfolding vcf_vim_permission_find_def in_view_folds split_def by (intro vim_intros; (assumption | simp add: READING_def))

lemma vcf_vim_resource_pool_drift_reads [vim_intros]: "observed held api \<Longrightarrow> keeps (leaves held) (vcf_vim_resource_pool_drift current desired)"
  unfolding vcf_vim_resource_pool_drift_def in_view_folds split_def by (intro vim_intros; (assumption | simp add: READING_def))

lemma vm_probe_reads [vim_intros]: "observed held api \<Longrightarrow> keeps (leaves held) (vm_probe api opts name profile timeout poll_interval deadline u)"
  unfolding vm_probe_def in_view_folds split_def by (intro vim_intros; (assumption | simp add: READING_def))

lemma vcf_vim_vm_wait_for_vm_reads [vim_intros]: "observed held api \<Longrightarrow> keeps (leaves held) (vcf_vim_vm_wait_for_vm api opts name profile timeout poll_interval)"
  unfolding vcf_vim_vm_wait_for_vm_def in_view_folds split_def by (intro vim_intros; (assumption | simp add: READING_def))

lemma vcenter_vm_get_by_name_reads [vim_intros]:
  "observed held api \<Longrightarrow> keeps (leaves held) (vcenter_vm_get_by_name opts name profile)"
  unfolding vcenter_vm_get_by_name_def vcenter_vm_search_def by (intro vim_intros; assumption)

subsection \<open>Dry runs\<close>

lemma dry_run_test:
  assumes "test_mode opts"
  shows "bindM (liftR (py_item opts ''test'')) (\<lambda>t. if truthy t then a else b) = a"
    and "bindM (liftR (py_get opts ''test'' PNone)) (\<lambda>t. if truthy t then a else b) = a"
  using assms by (auto simp: test_mode_def py_item_def bindM_def liftR_def dget_def fun_eq_iff split: pyval.splits option.splits)

lemma vcf_esxi_ad_auth_joined_dry [vim_intros]:
  "observed held api \<Longrightarrow> test_mode opts \<Longrightarrow> keeps (leaves held) (vcf_esxi_ad_auth_joined api opts name domain username password host profile)"
  by (simp only: vcf_esxi_ad_auth_joined_def dry_run_test in_view_folds split_def) (intro vim_intros; (assumption | simp add: READING_def))

lemma vcf_esxi_ad_auth_left_dry [vim_intros]:
  "observed held api \<Longrightarrow> test_mode opts \<Longrightarrow> keeps (leaves held) (vcf_esxi_ad_auth_left api opts name force host profile)"
  by (simp only: vcf_esxi_ad_auth_left_def dry_run_test in_view_folds split_def) (intro vim_intros; (assumption | simp add: READING_def))

lemma vcf_esxi_advanced_setting_dry [vim_intros]:
  "observed held api \<Longrightarrow> test_mode opts \<Longrightarrow> keeps (leaves held) (vcf_esxi_advanced_setting api opts name val profile)"
  by (simp only: vcf_esxi_advanced_setting_def dry_run_test in_view_folds split_def) (intro vim_intros; (assumption | simp add: READING_def))

lemma vcf_esxi_auth_proxy_configured_dry [vim_intros]:
  "observed held api \<Longrightarrow> test_mode opts \<Longrightarrow> keeps (leaves held) (vcf_esxi_auth_proxy_configured api opts name cam_address verify_cam_cert host profile)"
  by (simp only: vcf_esxi_auth_proxy_configured_def dry_run_test in_view_folds split_def) (intro vim_intros; (assumption | simp add: READING_def))

lemma vcf_esxi_auth_proxy_joined_dry [vim_intros]:
  "observed held api \<Longrightarrow> test_mode opts \<Longrightarrow> keeps (leaves held) (vcf_esxi_auth_proxy_joined api opts name domain cam_server host profile)"
  by (simp only: vcf_esxi_auth_proxy_joined_def dry_run_test in_view_folds split_def) (intro vim_intros; (assumption | simp add: READING_def))

lemma vcf_esxi_auth_proxy_left_dry [vim_intros]:
  "observed held api \<Longrightarrow> test_mode opts \<Longrightarrow> keeps (leaves held) (vcf_esxi_auth_proxy_left api opts name force host profile)"
  by (simp only: vcf_esxi_auth_proxy_left_def dry_run_test in_view_folds split_def) (intro vim_intros; (assumption | simp add: READING_def))

lemma vcf_esxi_firewall_rule_enabled_dry [vim_intros]:
  "observed held api \<Longrightarrow> test_mode opts \<Longrightarrow> keeps (leaves held) (vcf_esxi_firewall_rule_enabled api opts name enabled allowed_ips all_ip profile)"
  by (simp only: vcf_esxi_firewall_rule_enabled_def dry_run_test in_view_folds split_def) (intro vim_intros; (assumption | simp add: READING_def))

lemma vcf_esxi_firewall_rule_disabled_dry [vim_intros]:
  "observed held api \<Longrightarrow> test_mode opts \<Longrightarrow> keeps (leaves held) (vcf_esxi_firewall_rule_disabled api opts name profile)"
  by (simp only: vcf_esxi_firewall_rule_disabled_def dry_run_test in_view_folds split_def) (intro vim_intros; (assumption | simp add: READING_def))

lemma vcf_esxi_firewall_global_enabled_dry [vim_intros]:
  "observed held api \<Longrightarrow> test_mode opts \<Longrightarrow> keeps (leaves held) (vcf_esxi_firewall_global_enabled api opts name enabled profile)"
  by (simp only: vcf_esxi_firewall_global_enabled_def dry_run_test in_view_folds split_def) (intro vim_intros; (assumption | simp add: READING_def))

lemma vcf_esxi_host_maintenance_dry [vim_intros]:
  "observed held api \<Longrightarrow> test_mode opts \<Longrightarrow> keeps (leaves held) (vcf_esxi_host_maintenance api opts name enabled profile)"
  by (simp only: vcf_esxi_host_maintenance_def dry_run_test in_view_folds split_def) (intro vim_intros; (assumption | simp add: READING_def))

lemma vcf_esxi_host_lockdown_dry [vim_intros]:
  "observed held api \<Longrightarrow> test_mode opts \<Longrightarrow> keeps (leaves held) (vcf_esxi_host_lockdown api opts name md exception_users profile)"
  by (simp only: vcf_esxi_host_lockdown_def dry_run_test in_view_folds split_def) (intro vim_intros; (assumption | simp add: READING_def))

lemma vcf_esxi_ntp_servers_dry [vim_intros]:
  "observed held api \<Longrightarrow> test_mode opts \<Longrightarrow> keeps (leaves held) (vcf_esxi_ntp_servers api opts name servers enabled profile)"
  by (simp only: vcf_esxi_ntp_servers_def dry_run_test in_view_folds split_def) (intro vim_intros; (assumption | simp add: READING_def))

lemma vcf_esxi_service_policy_dry [vim_intros]:
  "observed held api \<Longrightarrow> test_mode opts \<Longrightarrow> keeps (leaves held) (vcf_esxi_service_policy api opts name policy profile)"
  by (simp only: vcf_esxi_service_policy_def dry_run_test in_view_folds split_def) (intro vim_intros; (assumption | simp add: READING_def))

lemma vcf_esxi_service_running_dry [vim_intros]:
  "observed held api \<Longrightarrow> test_mode opts \<Longrightarrow> keeps (leaves held) (vcf_esxi_service_running api opts name policy profile)"
  by (simp only: vcf_esxi_service_running_def dry_run_test in_view_folds split_def) (intro vim_intros; (assumption | simp add: READING_def))

lemma vcf_esxi_service_stopped_dry [vim_intros]:
  "observed held api \<Longrightarrow> test_mode opts \<Longrightarrow> keeps (leaves held) (vcf_esxi_service_stopped api opts name policy profile)"
  by (simp only: vcf_esxi_service_stopped_def dry_run_test in_view_folds split_def) (intro vim_intros; (assumption | simp add: READING_def))

lemma vcf_esxi_syslog_servers_dry [vim_intros]:
  "observed held api \<Longrightarrow> test_mode opts \<Longrightarrow> keeps (leaves held) (vcf_esxi_syslog_servers api opts name servers log_level profile)"
  by (simp only: vcf_esxi_syslog_servers_def dry_run_test in_view_folds split_def) (intro vim_intros; (assumption | simp add: READING_def))

lemma vcf_vccluster_resource_pool_present_dry [vim_intros]:
  "observed held api \<Longrightarrow> test_mode opts \<Longrightarrow> keeps (leaves held) (vcf_vccluster_resource_pool_present api opts name cluster cpu memory profile)"
  by (simp only: vcf_vccluster_resource_pool_present_def dry_run_test in_view_folds split_def) (intro vim_intros; (assumption | simp add: READING_def))

lemma vcf_vccluster_resource_pool_absent_dry [vim_intros]:
  "observed held api \<Longrightarrow> test_mode opts \<Longrightarrow> keeps (leaves held) (vcf_vccluster_resource_pool_absent api opts name cluster profile)"
  by (simp only: vcf_vccluster_resource_pool_absent_def dry_run_test in_view_folds split_def) (intro vim_intros; (assumption | simp add: READING_def))

lemma vcf_vcenter_advanced_option_advanced_option_dry [vim_intros]:
  "observed held api \<Longrightarrow> test_mode opts \<Longrightarrow> keeps (leaves held) (vcf_vcenter_advanced_option_advanced_option api opts name key val profile)"
  by (simp only: vcf_vcenter_advanced_option_advanced_option_def dry_run_test in_view_folds split_def) (intro vim_intros; (assumption | simp add: READING_def))

lemma vcf_vcenter_custom_attribute_present_dry [vim_intros]:
  "observed held api \<Longrightarrow> test_mode opts \<Longrightarrow> keeps (leaves held) (vcf_vcenter_custom_attribute_present api opts name managed_object_type profile)"
  by (simp only: vcf_vcenter_custom_attribute_present_def dry_run_test in_view_folds split_def) (intro vim_intros; (assumption | simp add: READING_def))

lemma vcf_vcenter_custom_attribute_absent_dry [vim_intros]:
  "observed held api \<Longrightarrow> test_mode opts \<Longrightarrow> keeps (leaves held) (vcf_vcenter_custom_attribute_absent api opts name profile)"
  by (simp only: vcf_vcenter_custom_attribute_absent_def dry_run_test in_view_folds split_def) (intro vim_intros; (assumption | simp add: READING_def))

lemma vcf_vcenter_dvs_nioc_nioc_enabled_dry [vim_intros]:
  "observed held api \<Longrightarrow> test_mode opts \<Longrightarrow> keeps (leaves held) (vcf_vcenter_dvs_nioc_nioc_enabled api opts name enabled profile)"
  by (simp only: vcf_vcenter_dvs_nioc_nioc_enabled_def dry_run_test in_view_folds split_def) (intro vim_intros; (assumption | simp add: READING_def))

lemma vcf_vcenter_dvs_nioc_vccluster_nioc_enabled_dry [vim_intros]:
  "observed held api \<Longrightarrow> test_mode opts \<Longrightarrow> keeps (leaves held) (vcf_vcenter_dvs_nioc_vccluster_nioc_enabled api opts name enabled profile)"
  by (simp only: vcf_vcenter_dvs_nioc_vccluster_nioc_enabled_def dry_run_test in_view_folds split_def) (intro vim_intros; (assumption | simp add: READING_def))

lemma vcf_vcenter_folder_present_dry [vim_intros]:
  "observed held api \<Longrightarrow> test_mode opts \<Longrightarrow> keeps (leaves held) (vcf_vcenter_folder_present api opts name folder_type parent datacenter profile)"
  by (simp only: vcf_vcenter_folder_present_def dry_run_test in_view_folds split_def) (intro vim_intros; (assumption | simp add: READING_def))

lemma vcf_vcenter_folder_absent_dry [vim_intros]:
  "observed held api \<Longrightarrow> test_mode opts \<Longrightarrow> keeps (leaves held) (vcf_vcenter_folder_absent api opts name profile)"
  by (simp only: vcf_vcenter_folder_absent_def dry_run_test in_view_folds split_def) (intro vim_intros; (assumption | simp add: READING_def))

lemma vcf_vcenter_statistics_interval_dry [vim_intros]:
  "observed held api \<Longrightarrow> test_mode opts \<Longrightarrow> keeps (leaves held) (vcf_vcenter_statistics_interval api opts name enabled interval_minutes save_days level profile)"
  by (simp only: vcf_vcenter_statistics_interval_def dry_run_test in_view_folds split_def) (intro vim_intros; (assumption | simp add: READING_def))

lemma vcf_vcenter_storage_policy_present_dry [vim_intros]:
  "observed held api \<Longrightarrow> test_mode opts \<Longrightarrow> keeps (leaves held) (vcf_vcenter_storage_policy_present api opts name constraints description profile)"
  by (simp only: vcf_vcenter_storage_policy_present_def dry_run_test in_view_folds split_def) (intro vim_intros; (assumption | simp add: READING_def))

lemma vcf_vcenter_storage_policy_default_policy_dry [vim_intros]:
  "observed held api \<Longrightarrow> test_mode opts \<Longrightarrow> keeps (leaves held) (vcf_vcenter_storage_policy_default_policy api opts name datastore policy profile)"
  by (simp only: vcf_vcenter_storage_policy_default_policy_def dry_run_test in_view_folds split_def) (intro vim_intros; (assumption | simp add: READING_def))

lemma vcf_vcenter_storage_policy_absent_dry [vim_intros]:
  "observed held api \<Longrightarrow> test_mode opts \<Longrightarrow> keeps (leaves held) (vcf_vcenter_storage_policy_absent api opts name profile)"
  by (simp only: vcf_vcenter_storage_policy_absent_def dry_run_test in_view_folds split_def) (intro vim_intros; (assumption | simp add: READING_def))

lemma vcf_vcenter_vm_deployed_dry [vim_intros]:
  "observed held api \<Longrightarrow> test_mode opts \<Longrightarrow> keeps (leaves held) (vcf_vcenter_vm_deployed api opts name spec profile)"
  by (simp only: vcf_vcenter_vm_deployed_def dry_run_test in_view_folds split_def) (intro vim_intros; (assumption | simp add: READING_def))

lemma vcf_vim_cluster_config_drs_dry [vim_intros]:
  "observed held api \<Longrightarrow> test_mode opts \<Longrightarrow> keeps (leaves held) (vcf_vim_cluster_config_drs api opts name cluster enabled default_vm_behavior migration_threshold vm_monitoring_enabled profile)"
  by (simp only: vcf_vim_cluster_config_drs_def dry_run_test in_view_folds split_def) (intro vim_intros; (assumption | simp add: READING_def))

lemma vcf_vim_cluster_config_ha_dry [vim_intros]:
  "observed held api \<Longrightarrow> test_mode opts \<Longrightarrow> keeps (leaves held) (vcf_vim_cluster_config_ha api opts name cluster enabled host_monitoring vm_monitoring restart_priority isolation_response admission_control_enabled profile)"
  by (simp only: vcf_vim_cluster_config_ha_def dry_run_test in_view_folds split_def) (intro vim_intros; (assumption | simp add: READING_def))

lemma vcf_vim_cluster_config_evc_dry [vim_intros]:
  "observed held api \<Longrightarrow> test_mode opts \<Longrightarrow> keeps (leaves held) (vcf_vim_cluster_config_evc api opts name cluster md profile)"
  by (simp only: vcf_vim_cluster_config_evc_def dry_run_test in_view_folds split_def) (intro vim_intros; (assumption | simp add: READING_def))

lemma vcf_vim_cluster_evc_mode_dry [vim_intros]:
  "observed held api \<Longrightarrow> test_mode opts \<Longrightarrow> keeps (leaves held) (vcf_vim_cluster_evc_mode api opts name cluster evc_mode_key profile)"
  by (simp only: vcf_vim_cluster_evc_mode_def dry_run_test in_view_folds split_def) (intro vim_intros; (assumption | simp add: READING_def))

lemma vcf_vim_datastore_file_file_absent_dry [vim_intros]:
  "observed held api \<Longrightarrow> test_mode opts \<Longrightarrow> keeps (leaves held) (vcf_vim_datastore_file_file_absent api opts name datacenter datastore ds_path profile)"
  by (simp only: vcf_vim_datastore_file_file_absent_def dry_run_test in_view_folds split_def) (intro vim_intros; (assumption | simp add: READING_def))

lemma vcf_vim_datastore_file_directory_present_dry [vim_intros]:
  "observed held api \<Longrightarrow> test_mode opts \<Longrightarrow> keeps (leaves held) (vcf_vim_datastore_file_directory_present api opts name datacenter datastore ds_path profile)"
  by (simp only: vcf_vim_datastore_file_directory_present_def dry_run_test in_view_folds split_def) (intro vim_intros; (assumption | simp add: READING_def))

lemma vcf_vim_drs_rule_present_vm_rule_dry [vim_intros]:
  "observed held api \<Longrightarrow> test_mode opts \<Longrightarrow> keeps (leaves held) (vcf_vim_drs_rule_present_vm_rule api opts name cluster vm_moids kind enabled mandatory profile)"
  by (simp only: vcf_vim_drs_rule_present_vm_rule_def dry_run_test in_view_folds split_def) (intro vim_intros; (assumption | simp add: READING_def))

lemma vcf_vim_drs_rule_vm_affinity_dry [vim_intros]:
  "observed held api \<Longrightarrow> test_mode opts \<Longrightarrow> keeps (leaves held) (vcf_vim_drs_rule_vm_affinity api opts name cluster vm_moids enabled mandatory profile)"
  by (simp only: vcf_vim_drs_rule_vm_affinity_def dry_run_test in_view_folds split_def) (intro vim_intros; (assumption | simp add: READING_def))

lemma vcf_vim_drs_rule_vm_anti_affinity_dry [vim_intros]:
  "observed held api \<Longrightarrow> test_mode opts \<Longrightarrow> keeps (leaves held) (vcf_vim_drs_rule_vm_anti_affinity api opts name cluster vm_moids enabled mandatory profile)"
  by (simp only: vcf_vim_drs_rule_vm_anti_affinity_def dry_run_test in_view_folds split_def) (intro vim_intros; (assumption | simp add: READING_def))

lemma vcf_vim_drs_rule_absent_dry [vim_intros]:
  "observed held api \<Longrightarrow> test_mode opts \<Longrightarrow> keeps (leaves held) (vcf_vim_drs_rule_absent api opts name cluster profile)"
  by (simp only: vcf_vim_drs_rule_absent_def dry_run_test in_view_folds split_def) (intro vim_intros; (assumption | simp add: READING_def))

lemma vcf_vim_drs_rule_vm_host_dry [vim_intros]:
  "observed held api \<Longrightarrow> test_mode opts \<Longrightarrow> keeps (leaves held) (vcf_vim_drs_rule_vm_host api opts name cluster vm_group_name host_group_name affine enabled mandatory profile)"
  by (simp only: vcf_vim_drs_rule_vm_host_def dry_run_test in_view_folds split_def) (intro vim_intros; (assumption | simp add: READING_def))

lemma vcf_vim_drs_rule_vm_group_dry [vim_intros]:
  "observed held api \<Longrightarrow> test_mode opts \<Longrightarrow> keeps (leaves held) (vcf_vim_drs_rule_vm_group api opts name cluster vm_moids profile)"
  by (simp only: vcf_vim_drs_rule_vm_group_def dry_run_test in_view_folds split_def) (intro vim_intros; (assumption | simp add: READING_def))

lemma vcf_vim_drs_rule_host_group_dry [vim_intros]:
  "observed held api \<Longrightarrow> test_mode opts \<Longrightarrow> keeps (leaves held) (vcf_vim_drs_rule_host_group api opts name cluster host_moids profile)"
  by (simp only: vcf_vim_drs_rule_host_group_def dry_run_test in_view_folds split_def) (intro vim_intros; (assumption | simp add: READING_def))

lemma vcf_vim_drs_rule_group_absent_dry [vim_intros]:
  "observed held api \<Longrightarrow> test_mode opts \<Longrightarrow> keeps (leaves held) (vcf_vim_drs_rule_group_absent api opts name cluster profile)"
  by (simp only: vcf_vim_drs_rule_group_absent_def dry_run_test in_view_folds split_def) (intro vim_intros; (assumption | simp add: READING_def))

lemma vcf_vim_dvs_present_dry [vim_intros]:
  "observed held api \<Longrightarrow> test_mode opts \<Longrightarrow> keeps (leaves held) (vcf_vim_dvs_present api opts name datacenter num_uplinks max_mtu description profile)"
  by (simp only: vcf_vim_dvs_present_def dry_run_test in_view_folds split_def) (intro vim_intros; (assumption | simp add: READING_def))

lemma vcf_vim_dvs_absent_dry [vim_intros]:
  "observed held api \<Longrightarrow> test_mode opts \<Longrightarrow> keeps (leaves held) (vcf_vim_dvs_absent api opts name profile)"
  by (simp only: vcf_vim_dvs_absent_def dry_run_test in_view_folds split_def) (intro vim_intros; (assumption | simp add: READING_def))

lemma vcf_vim_dvs_portgroup_present_dry [vim_intros]:
  "observed held api \<Longrightarrow> test_mode opts \<Longrightarrow> keeps (leaves held) (vcf_vim_dvs_portgroup_present api opts name dvs vlan_id num_ports binding promiscuous profile)"
  by (simp only: vcf_vim_dvs_portgroup_present_def dry_run_test in_view_folds split_def) (intro vim_intros; (assumption | simp add: READING_def))

lemma vcf_vim_dvs_portgroup_absent_dry [vim_intros]:
  "observed held api \<Longrightarrow> test_mode opts \<Longrightarrow> keeps (leaves held) (vcf_vim_dvs_portgroup_absent api opts name dvs profile)"
  by (simp only: vcf_vim_dvs_portgroup_absent_def dry_run_test in_view_folds split_def) (intro vim_intros; (assumption | simp add: READING_def))

lemma vcf_vim_dvs_teaming_configured_dry [vim_intros]:
  "observed held api \<Longrightarrow> test_mode opts \<Longrightarrow> keeps (leaves held) (vcf_vim_dvs_teaming_configured api opts name dvs policy reverse_policy notify_switches rolling_order check_beacon active_uplinks standby_uplinks profile)"
  by (simp only: vcf_vim_dvs_teaming_configured_def dry_run_test in_view_folds split_def) (intro vim_intros; (assumption | simp add: READING_def))

lemma vcf_vim_extension_registered_dry [vim_intros]:
  "observed held api \<Longrightarrow> test_mode opts \<Longrightarrow> keeps (leaves held) (vcf_vim_extension_registered api opts name version description company profile fields_v)"
  by (simp only: vcf_vim_extension_registered_def dry_run_test in_view_folds split_def) (intro vim_intros; (assumption | simp add: READING_def))

lemma vcf_vim_extension_unregistered_dry [vim_intros]:
  "observed held api \<Longrightarrow> test_mode opts \<Longrightarrow> keeps (leaves held) (vcf_vim_extension_unregistered api opts name profile)"
  by (simp only: vcf_vim_extension_unregistered_def dry_run_test in_view_folds split_def) (intro vim_intros; (assumption | simp add: READING_def))

lemma vcf_vim_first_class_disk_present_dry [vim_intros]:
  "observed held api \<Longrightarrow> test_mode opts \<Longrightarrow> keeps (leaves held) (vcf_vim_first_class_disk_present api opts name datastore capacity_gb provisioning keep_after_delete_vm profile_id profile)"
  by (simp only: vcf_vim_first_class_disk_present_def dry_run_test in_view_folds split_def) (intro vim_intros; (assumption | simp add: READING_def))

lemma vcf_vim_first_class_disk_absent_dry [vim_intros]:
  "observed held api \<Longrightarrow> test_mode opts \<Longrightarrow> keeps (leaves held) (vcf_vim_first_class_disk_absent api opts name datastore profile)"
  by (simp only: vcf_vim_first_class_disk_absent_def dry_run_test in_view_folds split_def) (intro vim_intros; (assumption | simp add: READING_def))

lemma vcf_vim_host_acceptance_level_dry [vim_intros]:
  "observed held api \<Longrightarrow> test_mode opts \<Longrightarrow> keeps (leaves held) (vcf_vim_host_acceptance_level api opts name host level profile)"
  by (simp only: vcf_vim_host_acceptance_level_def dry_run_test in_view_folds split_def) (intro vim_intros; (assumption | simp add: READING_def))

lemma vcf_vim_host_config_ntp_dry [vim_intros]:
  "observed held api \<Longrightarrow> test_mode opts \<Longrightarrow> keeps (leaves held) (vcf_vim_host_config_ntp api opts name host servers running policy profile)"
  by (simp only: vcf_vim_host_config_ntp_def dry_run_test in_view_folds split_def) (intro vim_intros; (assumption | simp add: READING_def))

lemma vcf_vim_host_config_service_dry [vim_intros]:
  "observed held api \<Longrightarrow> test_mode opts \<Longrightarrow> keeps (leaves held) (vcf_vim_host_config_service api opts name host service_id running policy profile)"
  by (simp only: vcf_vim_host_config_service_def dry_run_test in_view_folds split_def) (intro vim_intros; (assumption | simp add: READING_def))

lemma vcf_vim_host_config_advanced_setting_dry [vim_intros]:
  "observed held api \<Longrightarrow> test_mode opts \<Longrightarrow> keeps (leaves held) (vcf_vim_host_config_advanced_setting api opts name host key val profile)"
  by (simp only: vcf_vim_host_config_advanced_setting_def dry_run_test in_view_folds split_def) (intro vim_intros; (assumption | simp add: READING_def))

lemma vcf_vim_host_config_ad_joined_dry [vim_intros]:
  "observed held api \<Longrightarrow> test_mode opts \<Longrightarrow> keeps (leaves held) (vcf_vim_host_config_ad_joined api opts name host domain username password ou_path profile)"
  by (simp only: vcf_vim_host_config_ad_joined_def dry_run_test in_view_folds split_def) (intro vim_intros; (assumption | simp add: READING_def))

lemma vcf_vim_host_datastore_nfs_mounted_dry [vim_intros]:
  "observed held api \<Longrightarrow> test_mode opts \<Longrightarrow> keeps (leaves held) (vcf_vim_host_datastore_nfs_mounted api opts name host remote_host remote_path access_mode ds_type profile)"
  by (simp only: vcf_vim_host_datastore_nfs_mounted_def dry_run_test in_view_folds split_def) (intro vim_intros; (assumption | simp add: READING_def))

lemma vcf_vim_host_datastore_vmfs_present_dry [vim_intros]:
  "observed held api \<Longrightarrow> test_mode opts \<Longrightarrow> keeps (leaves held) (vcf_vim_host_datastore_vmfs_present api opts name host device_path vmfs_version profile)"
  by (simp only: vcf_vim_host_datastore_vmfs_present_def dry_run_test in_view_folds split_def) (intro vim_intros; (assumption | simp add: READING_def))

lemma vcf_vim_host_datastore_absent_dry [vim_intros]:
  "observed held api \<Longrightarrow> test_mode opts \<Longrightarrow> keeps (leaves held) (vcf_vim_host_datastore_absent api opts name host profile)"
  by (simp only: vcf_vim_host_datastore_absent_def dry_run_test in_view_folds split_def) (intro vim_intros; (assumption | simp add: READING_def))

lemma vcf_vim_host_dns_config_dry [vim_intros]:
  "observed held api \<Longrightarrow> test_mode opts \<Longrightarrow> keeps (leaves held) (vcf_vim_host_dns_config api opts name host dhcp hostname domain_name servers search_domains profile)"
  by (simp only: vcf_vim_host_dns_config_def dry_run_test in_view_folds split_def) (intro vim_intros; (assumption | simp add: READING_def))

lemma vcf_vim_host_hyperthreading_enabled_dry [vim_intros]:
  "observed held api \<Longrightarrow> test_mode opts \<Longrightarrow> keeps (leaves held) (vcf_vim_host_hyperthreading_enabled api opts name host enabled profile)"
  by (simp only: vcf_vim_host_hyperthreading_enabled_def dry_run_test in_view_folds split_def) (intro vim_intros; (assumption | simp add: READING_def))

lemma vcf_vim_host_kernel_module_options_set_dry [vim_intros]:
  "observed held api \<Longrightarrow> test_mode opts \<Longrightarrow> keeps (leaves held) (vcf_vim_host_kernel_module_options_set api opts name host module options profile)"
  by (simp only: vcf_vim_host_kernel_module_options_set_def dry_run_test in_view_folds split_def) (intro vim_intros; (assumption | simp add: READING_def))

lemma vcf_vim_host_network_vswitch_present_dry [vim_intros]:
  "observed held api \<Longrightarrow> test_mode opts \<Longrightarrow> keeps (leaves held) (vcf_vim_host_network_vswitch_present api opts name host num_ports mtu pnic_devices profile)"
  by (simp only: vcf_vim_host_network_vswitch_present_def dry_run_test in_view_folds split_def) (intro vim_intros; (assumption | simp add: READING_def))

lemma vcf_vim_host_network_vswitch_absent_dry [vim_intros]:
  "observed held api \<Longrightarrow> test_mode opts \<Longrightarrow> keeps (leaves held) (vcf_vim_host_network_vswitch_absent api opts name host profile)"
  by (simp only: vcf_vim_host_network_vswitch_absent_def dry_run_test in_view_folds split_def) (intro vim_intros; (assumption | simp add: READING_def))

lemma vcf_vim_host_network_portgroup_present_dry [vim_intros]:
  "observed held api \<Longrightarrow> test_mode opts \<Longrightarrow> keeps (leaves held) (vcf_vim_host_network_portgroup_present api opts name host vswitch vlan_id promiscuous mac_changes forged_transmits profile)"
  by (simp only: vcf_vim_host_network_portgroup_present_def dry_run_test in_view_folds split_def) (intro vim_intros; (assumption | simp add: READING_def))

lemma vcf_vim_host_network_portgroup_absent_dry [vim_intros]:
  "observed held api \<Longrightarrow> test_mode opts \<Longrightarrow> keeps (leaves held) (vcf_vim_host_network_portgroup_absent api opts name host profile)"
  by (simp only: vcf_vim_host_network_portgroup_absent_def dry_run_test in_view_folds split_def) (intro vim_intros; (assumption | simp add: READING_def))

lemma vcf_vim_host_network_vmkernel_present_dry [vim_intros]:
  "observed held api \<Longrightarrow> test_mode opts \<Longrightarrow> keeps (leaves held) (vcf_vim_host_network_vmkernel_present api opts name host portgroup dhcp ip_address subnet_mask mtu profile)"
  by (simp only: vcf_vim_host_network_vmkernel_present_def dry_run_test in_view_folds split_def) (intro vim_intros; (assumption | simp add: READING_def))

lemma vcf_vim_host_network_vmkernel_absent_dry [vim_intros]:
  "observed held api \<Longrightarrow> test_mode opts \<Longrightarrow> keeps (leaves held) (vcf_vim_host_network_vmkernel_absent api opts name host profile)"
  by (simp only: vcf_vim_host_network_vmkernel_absent_def dry_run_test in_view_folds split_def) (intro vim_intros; (assumption | simp add: READING_def))

lemma vcf_vim_host_network_vswitch_teaming_configured_dry [vim_intros]:
  "observed held api \<Longrightarrow> test_mode opts \<Longrightarrow> keeps (leaves held) (vcf_vim_host_network_vswitch_teaming_configured api opts name host policy reverse_policy notify_switches rolling_order check_beacon active_nic standby_nic profile)"
  by (simp only: vcf_vim_host_network_vswitch_teaming_configured_def dry_run_test in_view_folds split_def) (intro vim_intros; (assumption | simp add: READING_def))

lemma vcf_vim_host_powermgmt_policy_dry [vim_intros]:
  "observed held api \<Longrightarrow> test_mode opts \<Longrightarrow> keeps (leaves held) (vcf_vim_host_powermgmt_policy api opts name host policy_key short_name_v profile)"
  by (simp only: vcf_vim_host_powermgmt_policy_def dry_run_test in_view_folds split_def) (intro vim_intros; (assumption | simp add: READING_def))

lemma vcf_vim_host_snmp_config_dry [vim_intros]:
  "observed held api \<Longrightarrow> test_mode opts \<Longrightarrow> keeps (leaves held) (vcf_vim_host_snmp_config api opts name host enabled port read_only_communities trap_targets profile)"
  by (simp only: vcf_vim_host_snmp_config_def dry_run_test in_view_folds split_def) (intro vim_intros; (assumption | simp add: READING_def))

lemma vcf_vim_permission_present_dry [vim_intros]:
  "observed held api \<Longrightarrow> test_mode opts \<Longrightarrow> keeps (leaves held) (vcf_vim_permission_present api opts name entity_ref principal_v role propagate grp profile)"
  by (simp only: vcf_vim_permission_present_def dry_run_test in_view_folds split_def) (intro vim_intros; (assumption | simp add: READING_def))

lemma vcf_vim_permission_absent_dry [vim_intros]:
  "observed held api \<Longrightarrow> test_mode opts \<Longrightarrow> keeps (leaves held) (vcf_vim_permission_absent api opts name entity_ref principal_v grp profile)"
  by (simp only: vcf_vim_permission_absent_def dry_run_test in_view_folds split_def) (intro vim_intros; (assumption | simp add: READING_def))

lemma vcf_vim_resource_pool_shares_dry [vim_intros]:
  "observed held api \<Longrightarrow> test_mode opts \<Longrightarrow> keeps (leaves held) (vcf_vim_resource_pool_shares api opts name rp cpu memory profile)"
  by (simp only: vcf_vim_resource_pool_shares_def dry_run_test in_view_folds split_def) (intro vim_intros; (assumption | simp add: READING_def))

lemma vcf_vim_role_present_dry [vim_intros]:
  "observed held api \<Longrightarrow> test_mode opts \<Longrightarrow> keeps (leaves held) (vcf_vim_role_present api opts name privileges profile)"
  by (simp only: vcf_vim_role_present_def dry_run_test in_view_folds split_def) (intro vim_intros; (assumption | simp add: READING_def))

lemma vcf_vim_role_absent_dry [vim_intros]:
  "observed held api \<Longrightarrow> test_mode opts \<Longrightarrow> keeps (leaves held) (vcf_vim_role_absent api opts name fail_if_used profile)"
  by (simp only: vcf_vim_role_absent_def dry_run_test in_view_folds split_def) (intro vim_intros; (assumption | simp add: READING_def))

lemma vcf_vim_scheduled_task_present_dry [vim_intros]:
  "observed held api \<Longrightarrow> test_mode opts \<Longrightarrow> keeps (leaves held) (vcf_vim_scheduled_task_present api opts name entity spec profile)"
  by (simp only: vcf_vim_scheduled_task_present_def dry_run_test in_view_folds split_def) (intro vim_intros; (assumption | simp add: READING_def))

lemma vcf_vim_scheduled_task_absent_dry [vim_intros]:
  "observed held api \<Longrightarrow> test_mode opts \<Longrightarrow> keeps (leaves held) (vcf_vim_scheduled_task_absent api opts name profile)"
  by (simp only: vcf_vim_scheduled_task_absent_def dry_run_test in_view_folds split_def) (intro vim_intros; (assumption | simp add: READING_def))

lemma vcf_vim_vm_present_dry [vim_intros]:
  "observed held api \<Longrightarrow> test_mode opts \<Longrightarrow> keeps (leaves held) (vcf_vim_vm_present api opts name host datastore folder cpu_count memory_mb guest_id firmware nested_hv efi_secure_boot disks nics cdroms annotation profile)"
  by (simp only: vcf_vim_vm_present_def dry_run_test in_view_folds split_def) (intro vim_intros; (assumption | simp add: READING_def))

lemma vcf_vim_vm_absent_dry [vim_intros]:
  "observed held api \<Longrightarrow> test_mode opts \<Longrightarrow> keeps (leaves held) (vcf_vim_vm_absent api opts name profile)"
  by (simp only: vcf_vim_vm_absent_def dry_run_test in_view_folds split_def) (intro vim_intros; (assumption | simp add: READING_def))

lemma vcf_vim_vm_powered_on_dry [vim_intros]:
  "observed held api \<Longrightarrow> test_mode opts \<Longrightarrow> keeps (leaves held) (vcf_vim_vm_powered_on api opts name profile)"
  by (simp only: vcf_vim_vm_powered_on_def dry_run_test in_view_folds split_def) (intro vim_intros; (assumption | simp add: READING_def))

lemma vcf_vim_vm_resource_pinning_disabled_dry [vim_intros]:
  "observed held api \<Longrightarrow> test_mode opts \<Longrightarrow> keeps (leaves held) (vcf_vim_vm_resource_pinning_disabled api opts name cpu_affinity cpu_shares_level cpu_shares memory_reservation_mb memory_reservation_locked_to_max profile)"
  by (simp only: vcf_vim_vm_resource_pinning_disabled_def dry_run_test in_view_folds split_def) (intro vim_intros; (assumption | simp add: READING_def))

lemma vcf_vim_vm_powered_off_dry [vim_intros]:
  "observed held api \<Longrightarrow> test_mode opts \<Longrightarrow> keeps (leaves held) (vcf_vim_vm_powered_off api opts name profile)"
  by (simp only: vcf_vim_vm_powered_off_def dry_run_test in_view_folds split_def) (intro vim_intros; (assumption | simp add: READING_def))

lemma vcf_vim_vm_devices_tpm_present_dry [vim_intros]:
  "observed held api \<Longrightarrow> test_mode opts \<Longrightarrow> keeps (leaves held) (vcf_vim_vm_devices_tpm_present api opts name vm profile)"
  by (simp only: vcf_vim_vm_devices_tpm_present_def dry_run_test in_view_folds split_def) (intro vim_intros; (assumption | simp add: READING_def))

lemma vcf_vim_vm_devices_tpm_absent_dry [vim_intros]:
  "observed held api \<Longrightarrow> test_mode opts \<Longrightarrow> keeps (leaves held) (vcf_vim_vm_devices_tpm_absent api opts name vm profile)"
  by (simp only: vcf_vim_vm_devices_tpm_absent_def dry_run_test in_view_folds split_def) (intro vim_intros; (assumption | simp add: READING_def))

lemma vcf_vim_vm_devices_vgpu_present_dry [vim_intros]:
  "observed held api \<Longrightarrow> test_mode opts \<Longrightarrow> keeps (leaves held) (vcf_vim_vm_devices_vgpu_present api opts name vm profile_name profile)"
  by (simp only: vcf_vim_vm_devices_vgpu_present_def dry_run_test in_view_folds split_def) (intro vim_intros; (assumption | simp add: READING_def))

lemma vcf_vim_vm_devices_vgpu_absent_dry [vim_intros]:
  "observed held api \<Longrightarrow> test_mode opts \<Longrightarrow> keeps (leaves held) (vcf_vim_vm_devices_vgpu_absent api opts name vm profile_name profile)"
  by (simp only: vcf_vim_vm_devices_vgpu_absent_def dry_run_test in_view_folds split_def) (intro vim_intros; (assumption | simp add: READING_def))

lemma vcf_vim_vm_devices_serial_present_dry [vim_intros]:
  "observed held api \<Longrightarrow> test_mode opts \<Longrightarrow> keeps (leaves held) (vcf_vim_vm_devices_serial_present api opts name vm backing uri file_path direction profile)"
  by (simp only: vcf_vim_vm_devices_serial_present_def dry_run_test in_view_folds split_def) (intro vim_intros; (assumption | simp add: READING_def))

lemma vcf_vim_vm_devices_usb_controllers_absent_dry [vim_intros]:
  "observed held api \<Longrightarrow> test_mode opts \<Longrightarrow> keeps (leaves held) (vcf_vim_vm_devices_usb_controllers_absent api opts name connected_only profile)"
  by (simp only: vcf_vim_vm_devices_usb_controllers_absent_def dry_run_test in_view_folds split_def) (intro vim_intros; (assumption | simp add: READING_def))

lemma vcf_vsan_cluster_configured_dry [vim_intros]:
  "observed held api \<Longrightarrow> test_mode opts \<Longrightarrow> keeps (leaves held) (vcf_vsan_cluster_configured api opts name enabled dedup_compression_enabled encryption_enabled auto_claim_storage profile)"
  by (simp only: vcf_vsan_cluster_configured_def dry_run_test in_view_folds split_def) (intro vim_intros; (assumption | simp add: READING_def))

lemma vcf_vsan_fault_domain_member_dry [vim_intros]:
  "observed held api \<Longrightarrow> test_mode opts \<Longrightarrow> keeps (leaves held) (vcf_vsan_fault_domain_member api opts name mapping profile)"
  by (simp only: vcf_vsan_fault_domain_member_def dry_run_test in_view_folds split_def) (intro vim_intros; (assumption | simp add: READING_def))

lemma vcf_vsan_file_service_configured_dry [vim_intros]:
  "observed held api \<Longrightarrow> test_mode opts \<Longrightarrow> keeps (leaves held) (vcf_vsan_file_service_configured api opts name cluster network_name domain_name ip_to_fqdn subnet_mask gateway_address dns_suffixes dns_address ovf_url profile)"
  by (simp only: vcf_vsan_file_service_configured_def dry_run_test in_view_folds split_def) (intro vim_intros; (assumption | simp add: READING_def))

lemma vcf_vsan_file_service_absent_dry [vim_intros]:
  "observed held api \<Longrightarrow> test_mode opts \<Longrightarrow> keeps (leaves held) (vcf_vsan_file_service_absent api opts name cluster domain_name profile)"
  by (simp only: vcf_vsan_file_service_absent_def dry_run_test in_view_folds split_def) (intro vim_intros; (assumption | simp add: READING_def))


text \<open>C4: With \<open>test=True\<close> none of these 94 states - those over pyVmomi but the two that read files of their own, the
  upload to a datastore and the certificate of a host - changes what the vCenter and its hosts hold. Whatever
  \<open>held\<close> is of the outside world, if looking at it leaves it as it is - connecting, reading properties, the methods that only
  read, a container view that is made and destroyed again, logins and \<open>GET\<close> - a dry run leaves it as it is: it calls
  no other method, and destroys every view it makes, on error paths too.\<close>

theorem vim_dry_runs_look:
  assumes "observed held api" and "test_mode opts"
  shows "keeps (leaves held) (vcf_esxi_ad_auth_joined api opts name domain username password host profile) \<and>
    keeps (leaves held) (vcf_esxi_ad_auth_left api opts name force host profile) \<and>
    keeps (leaves held) (vcf_esxi_advanced_setting api opts name val profile) \<and>
    keeps (leaves held) (vcf_esxi_auth_proxy_configured api opts name cam_address verify_cam_cert host profile) \<and>
    keeps (leaves held) (vcf_esxi_auth_proxy_joined api opts name domain cam_server host profile) \<and>
    keeps (leaves held) (vcf_esxi_auth_proxy_left api opts name force host profile) \<and>
    keeps (leaves held) (vcf_esxi_firewall_rule_enabled api opts name enabled allowed_ips all_ip profile) \<and>
    keeps (leaves held) (vcf_esxi_firewall_rule_disabled api opts name profile) \<and>
    keeps (leaves held) (vcf_esxi_firewall_global_enabled api opts name enabled profile) \<and>
    keeps (leaves held) (vcf_esxi_host_maintenance api opts name enabled profile) \<and>
    keeps (leaves held) (vcf_esxi_host_lockdown api opts name md exception_users profile) \<and>
    keeps (leaves held) (vcf_esxi_ntp_servers api opts name servers enabled profile) \<and>
    keeps (leaves held) (vcf_esxi_service_policy api opts name policy profile) \<and>
    keeps (leaves held) (vcf_esxi_service_running api opts name policy profile) \<and>
    keeps (leaves held) (vcf_esxi_service_stopped api opts name policy profile) \<and>
    keeps (leaves held) (vcf_esxi_syslog_servers api opts name servers log_level profile) \<and>
    keeps (leaves held) (vcf_vccluster_resource_pool_present api opts name cluster cpu memory profile) \<and>
    keeps (leaves held) (vcf_vccluster_resource_pool_absent api opts name cluster profile) \<and>
    keeps (leaves held) (vcf_vcenter_advanced_option_advanced_option api opts name key val profile) \<and>
    keeps (leaves held) (vcf_vcenter_custom_attribute_present api opts name managed_object_type profile) \<and>
    keeps (leaves held) (vcf_vcenter_custom_attribute_absent api opts name profile) \<and>
    keeps (leaves held) (vcf_vcenter_dvs_nioc_nioc_enabled api opts name enabled profile) \<and>
    keeps (leaves held) (vcf_vcenter_dvs_nioc_vccluster_nioc_enabled api opts name enabled profile) \<and>
    keeps (leaves held) (vcf_vcenter_folder_present api opts name folder_type parent datacenter profile) \<and>
    keeps (leaves held) (vcf_vcenter_folder_absent api opts name profile) \<and>
    keeps (leaves held) (vcf_vcenter_statistics_interval api opts name enabled interval_minutes save_days level profile) \<and>
    keeps (leaves held) (vcf_vcenter_storage_policy_present api opts name constraints description profile) \<and>
    keeps (leaves held) (vcf_vcenter_storage_policy_default_policy api opts name datastore policy profile) \<and>
    keeps (leaves held) (vcf_vcenter_storage_policy_absent api opts name profile) \<and>
    keeps (leaves held) (vcf_vcenter_vm_deployed api opts name spec profile) \<and>
    keeps (leaves held) (vcf_vim_cluster_config_drs api opts name cluster enabled default_vm_behavior migration_threshold vm_monitoring_enabled profile) \<and>
    keeps (leaves held) (vcf_vim_cluster_config_ha api opts name cluster enabled host_monitoring vm_monitoring restart_priority isolation_response admission_control_enabled profile) \<and>
    keeps (leaves held) (vcf_vim_cluster_config_evc api opts name cluster md profile) \<and>
    keeps (leaves held) (vcf_vim_cluster_evc_mode api opts name cluster evc_mode_key profile) \<and>
    keeps (leaves held) (vcf_vim_datastore_file_file_absent api opts name datacenter datastore ds_path profile) \<and>
    keeps (leaves held) (vcf_vim_datastore_file_directory_present api opts name datacenter datastore ds_path profile) \<and>
    keeps (leaves held) (vcf_vim_drs_rule_vm_affinity api opts name cluster vm_moids enabled mandatory profile) \<and>
    keeps (leaves held) (vcf_vim_drs_rule_vm_anti_affinity api opts name cluster vm_moids enabled mandatory profile) \<and>
    keeps (leaves held) (vcf_vim_drs_rule_absent api opts name cluster profile) \<and>
    keeps (leaves held) (vcf_vim_drs_rule_vm_host api opts name cluster vm_group_name host_group_name affine enabled mandatory profile) \<and>
    keeps (leaves held) (vcf_vim_drs_rule_vm_group api opts name cluster vm_moids profile) \<and>
    keeps (leaves held) (vcf_vim_drs_rule_host_group api opts name cluster host_moids profile) \<and>
    keeps (leaves held) (vcf_vim_drs_rule_group_absent api opts name cluster profile) \<and>
    keeps (leaves held) (vcf_vim_dvs_present api opts name datacenter num_uplinks max_mtu description profile) \<and>
    keeps (leaves held) (vcf_vim_dvs_absent api opts name profile) \<and>
    keeps (leaves held) (vcf_vim_dvs_portgroup_present api opts name dvs vlan_id num_ports binding promiscuous profile) \<and>
    keeps (leaves held) (vcf_vim_dvs_portgroup_absent api opts name dvs profile) \<and>
    keeps (leaves held) (vcf_vim_dvs_teaming_configured api opts name dvs policy reverse_policy notify_switches rolling_order check_beacon active_uplinks standby_uplinks profile) \<and>
    keeps (leaves held) (vcf_vim_extension_registered api opts name version description company profile fields_v) \<and>
    keeps (leaves held) (vcf_vim_extension_unregistered api opts name profile) \<and>
    keeps (leaves held) (vcf_vim_first_class_disk_present api opts name datastore capacity_gb provisioning keep_after_delete_vm profile_id profile) \<and>
    keeps (leaves held) (vcf_vim_first_class_disk_absent api opts name datastore profile) \<and>
    keeps (leaves held) (vcf_vim_host_acceptance_level api opts name host level profile) \<and>
    keeps (leaves held) (vcf_vim_host_config_ntp api opts name host servers running policy profile) \<and>
    keeps (leaves held) (vcf_vim_host_config_service api opts name host service_id running policy profile) \<and>
    keeps (leaves held) (vcf_vim_host_config_advanced_setting api opts name host key val profile) \<and>
    keeps (leaves held) (vcf_vim_host_config_ad_joined api opts name host domain username password ou_path profile) \<and>
    keeps (leaves held) (vcf_vim_host_datastore_nfs_mounted api opts name host remote_host remote_path access_mode ds_type profile) \<and>
    keeps (leaves held) (vcf_vim_host_datastore_vmfs_present api opts name host device_path vmfs_version profile) \<and>
    keeps (leaves held) (vcf_vim_host_datastore_absent api opts name host profile) \<and>
    keeps (leaves held) (vcf_vim_host_dns_config api opts name host dhcp hostname domain_name servers search_domains profile) \<and>
    keeps (leaves held) (vcf_vim_host_hyperthreading_enabled api opts name host enabled profile) \<and>
    keeps (leaves held) (vcf_vim_host_kernel_module_options_set api opts name host module options profile) \<and>
    keeps (leaves held) (vcf_vim_host_network_vswitch_present api opts name host num_ports mtu pnic_devices profile) \<and>
    keeps (leaves held) (vcf_vim_host_network_vswitch_absent api opts name host profile) \<and>
    keeps (leaves held) (vcf_vim_host_network_portgroup_present api opts name host vswitch vlan_id promiscuous mac_changes forged_transmits profile) \<and>
    keeps (leaves held) (vcf_vim_host_network_portgroup_absent api opts name host profile) \<and>
    keeps (leaves held) (vcf_vim_host_network_vmkernel_present api opts name host portgroup dhcp ip_address subnet_mask mtu profile) \<and>
    keeps (leaves held) (vcf_vim_host_network_vmkernel_absent api opts name host profile) \<and>
    keeps (leaves held) (vcf_vim_host_network_vswitch_teaming_configured api opts name host policy reverse_policy notify_switches rolling_order check_beacon active_nic standby_nic profile) \<and>
    keeps (leaves held) (vcf_vim_host_powermgmt_policy api opts name host policy_key short_name_v profile) \<and>
    keeps (leaves held) (vcf_vim_host_snmp_config api opts name host enabled port read_only_communities trap_targets profile) \<and>
    keeps (leaves held) (vcf_vim_permission_present api opts name entity_ref principal_v role propagate grp profile) \<and>
    keeps (leaves held) (vcf_vim_permission_absent api opts name entity_ref principal_v grp profile) \<and>
    keeps (leaves held) (vcf_vim_resource_pool_shares api opts name rp cpu memory profile) \<and>
    keeps (leaves held) (vcf_vim_role_present api opts name privileges profile) \<and>
    keeps (leaves held) (vcf_vim_role_absent api opts name fail_if_used profile) \<and>
    keeps (leaves held) (vcf_vim_scheduled_task_present api opts name entity spec profile) \<and>
    keeps (leaves held) (vcf_vim_scheduled_task_absent api opts name profile) \<and>
    keeps (leaves held) (vcf_vim_vm_present api opts name host datastore folder cpu_count memory_mb guest_id firmware nested_hv efi_secure_boot disks nics cdroms annotation profile) \<and>
    keeps (leaves held) (vcf_vim_vm_absent api opts name profile) \<and>
    keeps (leaves held) (vcf_vim_vm_powered_on api opts name profile) \<and>
    keeps (leaves held) (vcf_vim_vm_resource_pinning_disabled api opts name cpu_affinity cpu_shares_level cpu_shares memory_reservation_mb memory_reservation_locked_to_max profile) \<and>
    keeps (leaves held) (vcf_vim_vm_powered_off api opts name profile) \<and>
    keeps (leaves held) (vcf_vim_vm_devices_tpm_present api opts name vm profile) \<and>
    keeps (leaves held) (vcf_vim_vm_devices_tpm_absent api opts name vm profile) \<and>
    keeps (leaves held) (vcf_vim_vm_devices_vgpu_present api opts name vm profile_name profile) \<and>
    keeps (leaves held) (vcf_vim_vm_devices_vgpu_absent api opts name vm profile_name profile) \<and>
    keeps (leaves held) (vcf_vim_vm_devices_serial_present api opts name vm backing uri file_path direction profile) \<and>
    keeps (leaves held) (vcf_vim_vm_devices_usb_controllers_absent api opts name connected_only profile) \<and>
    keeps (leaves held) (vcf_vsan_cluster_configured api opts name enabled dedup_compression_enabled encryption_enabled auto_claim_storage profile) \<and>
    keeps (leaves held) (vcf_vsan_fault_domain_member api opts name mapping profile) \<and>
    keeps (leaves held) (vcf_vsan_file_service_configured api opts name cluster network_name domain_name ip_to_fqdn subnet_mask gateway_address dns_suffixes dns_address ovf_url profile) \<and>
    keeps (leaves held) (vcf_vsan_file_service_absent api opts name cluster domain_name profile)"
  using assms by (intro conjI vim_intros)

text \<open>A server that counts as held the requests it got that are not reads.\<close>

definition write_count :: "world \<Rightarrow> nat" where
  "write_count w = length (filter (\<lambda>rq. \<not> vcenter_read rq) (sent w))"

definition role_server :: vmodl where
  "role_server =
     \<lparr>vm_connect = (\<lambda>_. pureM (managed_object ''vim.ServiceInstance'' ''ServiceInstance'')), vm_disconnect = (\<lambda>_. pureM ()),
      vm_read = (\<lambda>_ a. pureM (if a = ''roleList'' then PList [] else managed_object ''vim.AuthorizationManager'' a)),
      vm_call = (\<lambda>_ m _ _.
        if m \<in> set READING \<or> m = ''CreateContainerView'' \<or> m = ''Destroy'' then pureM (managed_object ''vim.ServiceInstanceContent'' m)
        else bindM (http_send (plain_request ''POST'' ''https://h/sdk'' PNone PNone [] PNone PNone PNone)) (\<lambda>_. pureM (PInt 7))),
      vm_new = (\<lambda>c d. Ok (py_object c d)), vm_set = (\<lambda>v _ _. Ok v), vm_ref = (\<lambda>c i _. Ok (py_object c [(''_moId'', i)])),
      vm_sub = (=), vm_bypass = (\<lambda>_. True), vm_https_proxy = PNone, vm_split_url = (\<lambda>_. (PNone, PNone)),
      vm_class = (\<lambda>_. True), vm_digest = (\<lambda>_ _ _. pureM []), vm_version = (\<lambda>_. PNone), vm_context = (\<lambda>_ _. pureM ())\<rparr>"

lemma role_server_observed: "observed write_count role_server"
proof -
  have "view_closed write_count role_server"
    by (auto simp: view_closed_def role_server_def pureM_def managed_object_def py_object_def)
  then show ?thesis
    unfolding observed_def
    by (intro conjI allI impI) (auto simp: role_server_def write_count_def sends_only_def intro!: leaves_walk)
qed

lemma vim_dry_runs_look_witness:
  "\<exists>r w'. vcf_vim_role_present role_server (opts_test_for ''vcenter'') (PStr ''ops'') (PList [PStr ''System.Read'']) None (scripted []) =
       Some (Ok r, w') \<and> r = PDict [(''name'', PStr ''ops''), (''changes'', PDict []), (''result'', PNone), (''comment'', PStr ''Role ops would be created'')] \<and>
     write_count w' = 0"
proof -
  let ?m = "vcf_vim_role_present role_server (opts_test_for ''vcenter'') (PStr ''ops'') (PList [PStr ''System.Read'']) None"
  have run: "map_option fst (?m (scripted [])) = Some (Ok (PDict [(''name'', PStr ''ops''), (''changes'', PDict []), (''result'', PNone),
      (''comment'', PStr ''Role ops would be created'')]))" by code_simp
  have "test_mode (opts_test_for ''vcenter'')" by code_simp
  from vim_dry_runs_look [OF role_server_observed this] have "keeps (leaves write_count) ?m" by simp
  from keepsD [OF this run_result [OF run]] have "write_count (snd (the (?m (scripted [])))) = write_count (scripted [])"
    by (simp add: leaves_def)
  moreover have "write_count (scripted []) = 0" by (simp add: write_count_def scripted_def)
  ultimately show ?thesis using run_result [OF run] by auto
qed

end
