(* ===== verification/Spec2Isabelle.thy ===== *)
theory Spec2Isabelle
  imports Nsx Sddc Vcfops Hcx Vro Avi Vrni Vrli Vcfa Vmsp Vcf_Vc_Patch Vcf_Esxi_Vlcm Installer_Bringup Cluster_Config
    Vcf_Nsx Nsx_Services Vcf_Sddc Vcf_Vcfops Vcfa_Clients Vcfa_Membership Sddc_Clients Vcenter_Appliance
    Vcenter_Services Inventory_Trees Vcf_Vcenter Installer_Topology Vmsp_Config Vcf_Appliances Vro_Bootstrap
    Exec_Nsx Exec_Sddc Exec_Vcfops Exec_Vcfa Exec_Vcenter Vcf_Vim
begin

text \<open>
  A model of \<open>saltext.vcf\<close>, the Salt extension for VMware Cloud Foundation (\<open>src/saltext/vcf\<close>), and
  the theorems that make it correct.

  The program. Salt calls a state function (\<open>states/vcf_*.py\<close>) or an execution function
  (\<open>modules/vcf_*.py\<close>). Both call the functions of a client module (\<open>clients/*.py\<close>), one per REST call or
  task of a product; these build paths and bodies and call the connection helper of the product
  (\<open>utils/*.py\<close>), which reads its configuration from pillar, logs in, keeps the login in a module-level
  dict and sends the request with \<open>requests\<close>. A state compares what it read with what is wanted, obeys
  \<open>test=True\<close>, changes what differs, waits for tasks, and answers with \<open>name\<close>, \<open>changes\<close>, \<open>result\<close>, \<open>comment\<close>.

  How it is modelled. Python values are \<open>pyval\<close> (\<open>Prelude\<close>), exceptions \<open>exn\<close>, a fallible computation is
  \<open>'a res\<close>, an effectful one \<open>'a io\<close> over a \<open>world\<close> (\<open>Runtime\<close>): the requests sent so far, the monotonic
  clock, the caches of the helpers, and \<open>net\<close>, everything that is not in the repository (\<open>requests\<close>, the network,
  the appliance) as one function from the time and the history of requests to what the caller sees. No theorem
  assumes anything of \<open>net\<close> unless its hypotheses say so. A loop is \<open>loopM\<close>, a partial function whose value
  is \<open>None\<close> where the code runs forever; that a wait ends is proved as such. No run is cut off by fuel: the only bound on
  one is \<open>RECURSION_LIMIT\<close>, the interpreter's own limit, past which the recursive walks over a tree of snapshots
  raise \<open>RecursionError\<close> as in Python. Each function of a module is one definition with the name of the module in
  front; its cases, early returns and \<open>except\<close> clauses are those of the code, in its order. Keyword arguments are dicts, defaults are explicit.

  Theories, bottom up:
  \<^item> \<open>Prelude\<close>, \<open>Runtime\<close>, \<open>Builtins\<close>: values, dicts, text, \<open>sorted\<close>, the world, programs, loops.
  \<^item> \<open>Program_Logic\<close>: running programs, invariants of runs (\<open>keeps\<close>, with the locale \<open>step_relation\<close>),
    totality, loop rules, and the locale \<open>polling\<close> of the loops that wait for a deadline: every such loop of the
    code ends within the rounds that fit into its timeout.
  \<^item> \<open>Connection\<close>: what all \<open>utils/*.py\<close> repeat, and the locales \<open>timed_login_cache\<close> and \<open>login_cache\<close>: a
    login serves the next call, concerns one target only, and is gone after \<open>invalidate\<close>. Interpreted for every
    helper.
  \<^item> \<open>Vcenter\<close>, \<open>Nsx\<close>, \<open>Sddc\<close>, \<open>Vcfops\<close>, \<open>Hcx\<close>, \<open>Vro\<close>, \<open>Avi\<close>, \<open>Installer\<close>, \<open>Vrni\<close>, \<open>Vcfa\<close>, \<open>Vrli\<close>,
    \<open>Vmsp\<close>: the module of that name under \<open>utils/\<close>; retries, token refresh, task waits.
  \<^item> \<open>Vc_Patch\<close>, \<open>Vcf_Vc_Patch\<close>: \<open>clients/vc_patch.py\<close> and \<open>states/vcf_vc_patch.py\<close>, the patching of a vCenter
    appliance: monitors, version matching, redaction.
  \<^item> \<open>Esxi_Vlcm\<close>, \<open>Vcf_Esxi_Vlcm\<close>: \<open>clients/esxi_vlcm.py\<close> and \<open>states/vcf_esxi_vlcm.py\<close>, desired images of ESX
    clusters.
  \<^item> \<open>Installer_Bringup\<close>: \<open>installer_bringup.py\<close> of clients and states.
  \<^item> \<open>Cluster_Config\<close>: \<open>cluster_config.py\<close> of clients and states, nested keys of a profile document.
  \<^item> \<open>Rest_Store\<close>: the abstract specification of states on REST objects. The service is a map from paths to
    documents, \<open>store_view\<close> the abstraction, \<open>refines\<close> the simulation of an operation on the map (where it reports no
    change, the state sent nothing but \<open>GET\<close>), \<open>converges\<close> the liveness that follows; the locales \<open>rest_object\<close> and \<open>rest_document\<close> are the contracts of the client calls.
  \<^item> \<open>Nsx_Store\<close>, \<open>Nsx_Networking\<close>, \<open>Nsx_Security\<close>, \<open>Nsx_Services\<close>, \<open>Nsx_Node\<close>: the clients \<open>clients/nsx_*.py\<close>.
  \<^item> \<open>Vcf_Nsx_Presence\<close>, \<open>Vcf_Nsx_Config\<close>, \<open>Vcf_Nsx\<close>: the states \<open>states/vcf_nsx_*.py\<close>, with the
    interpretations of those locales, refinement, convergence, dry runs, well-formed returns.
  \<^item> \<open>Rest_Client\<close>: idioms of the client modules; \<open>poll_for\<close>, the wait for an object, an instance of \<open>polling\<close>.
  \<^item> \<open>Text_Formats\<close>: \<open>json.dumps\<close>, \<open>json.loads\<close>, \<open>shlex.quote\<close> and how a shell reads its result, base64, with
    the round trips \<open>json_loads_dumps\<close> (fuel: the length of the text), \<open>sh_words_quote\<close> and \<open>b64_decode_encode\<close>.
  \<^item> \<open>Sddc_Clients\<close>, \<open>Sddc_Appliance\<close>: the clients \<open>clients/sddc_*.py\<close> and \<open>fleet_password.py\<close>; what they
    run over ssh or as a subprocess is a parameter. \<open>Vcf_Sddc\<close>: \<open>states/vcf_sddc_*.py\<close> and \<open>vcf_vcf_services.py\<close>.
  \<^item> \<open>Rest_Collection\<close>: the same for objects that are listed, posted and deleted by an identifier the service
    assigns; the locale \<open>rest_collection\<close> with refinement and convergence.
  \<^item> \<open>Vcfops_Clients\<close>: the clients \<open>clients/vcfops_*.py\<close>; \<open>Fleet_Listing\<close>, \<open>Vcfops_Fleet\<close>: the paged expiry
    reports on passwords and certificates, with the locale \<open>paged_listing\<close>; \<open>Vcfops_Store\<close>, \<open>Vcf_Vcfops\<close>: the
    states \<open>states/vcf_vcfops_*.py\<close> on collections.
  \<^item> \<open>Vcfa_Clients\<close>, \<open>Vcfa_Access\<close>: the clients \<open>clients/vcfa_*.py\<close>; \<open>Vcfa_Membership\<close>: the members of a project
    as edits of its document.
  \<^item> \<open>Vcenter_Appliance\<close>, \<open>Vcenter_Services\<close>, \<open>Vcenter_Inventory\<close>: the REST clients \<open>clients/vcenter_*.py\<close> and
    \<open>cluster_config_software.py\<close>; \<open>Inventory_Trees\<close> (locale \<open>forest\<close>): what the trees over the inventory hold.
    The fuel of \<open>pool_json\<close> is the number of pools, which no chain of parents exceeds.
  \<^item> \<open>Vcenter_Store\<close>, \<open>Vcf_Vcenter\<close>: the states \<open>states/vcf_vcenter_*.py\<close> that use the REST API, on a vCenter
    that keeps its documents.
  \<^item> \<open>Installer_Topology\<close>: the pillar of the Installer workflow, its validation, its translation, and the deployment
    of the appliance that reads it. \<open>Vmsp_Config\<close>: the settings of the VMSP platform.
  \<^item> \<open>Appliance_Setup\<close>: what the modules that deploy an appliance share (push unless the VM exists, the wait for a
    booting appliance, an instance of \<open>polling\<close>). \<open>Avi_Controller\<close>, \<open>Hcx_Manager\<close>, \<open>Vrni_Platform\<close>,
    \<open>Vro_Orchestrator\<close>, \<open>Vrli_Master\<close>: client, module and state of the product; the push of the OVA, the search for
    the VM and ssh are parameters. \<open>Vcf_Appliances\<close>: what the \<open>installed\<close> states guarantee.
  \<^item> \<open>Certificates\<close>: the serial number in the DER encoding of a PEM certificate. \<open>Vrli_Settings\<close>: directory,
    certificate and settings of Log Insight, with their states. \<open>Vro_Bootstrap\<close>: the repair of an Orchestrator that
    does not start (\<open>vcf_vro_bootstrap.py\<close> of modules and states); the commands it runs over ssh are a parameter.
  \<^item> \<open>Exec_Nsx\<close>, \<open>Exec_Sddc\<close>, \<open>Exec_Vcfops\<close>, \<open>Exec_Vcfa\<close>, \<open>Exec_Vcenter\<close>: the execution modules over the
    modelled clients, one definition \<open>exec_<module>_<function>\<close> each. Most bind their arguments to a client function;
    those that read pillar, wait for a task or sum up an answer are written out.
  \<^item> \<open>Vmodl\<close>: the interface to pyVmomi. The record \<open>vmodl\<close> holds what the library does (reading an attribute,
    calling a method, making a data object, assigning), every one a parameter; a managed object is a reference in
    \<open>pyval\<close>. Here are also the Python built-ins that the code over it uses.
  \<^item> \<open>Vim\<close>: \<open>utils/vim.py\<close>, \<open>utils/esxi.py\<close>, \<open>utils/vsan.py\<close>, \<open>utils/pbm.py\<close>: targets, the caches of live
    connections, container views, hosts and clusters by name; \<open>wait_for_task\<close>, which ends and answers only for a task that
    succeeded. \<open>observed held api\<close> says that only calls which are not reads change what \<open>held\<close> sees of the servers.
  \<^item> \<open>Vim_Host\<close>, \<open>Vim_Inventory\<close>, \<open>Vim_Admin\<close>, \<open>Vim_Vm\<close>: the clients \<open>esxi_*.py\<close>, \<open>vim_host_*.py\<close>, \<open>vsan_*.py\<close>
    and \<open>vim_*.py\<close>, on hosts, inventory and storage, administration, virtual machines (with the
    walks over trees of snapshots); \<open>Exec_Vim\<close> and \<open>Vcf_Vim\<close>: their execution modules and states, none of which
    changes anything in a dry run.
  \<^item> \<open>Scenario\<close>: concrete worlds in which the witnesses run the programs.

  This theory states what holds of all connection helpers at once.

  Deviations. Times are whole milliseconds and durations whole seconds; \<open>float(...)\<close> of a duration is the
  integer. Strings are ASCII. A \<open>requests\<close> response is what its methods give: \<open>raise_for_status\<close> is a field,
  and a theorem that needs its documented meaning says \<open>documented_response\<close>; every exception \<open>requests\<close> raises
  without a response is one \<open>ConnError\<close>. Logging and the warnings switch of \<open>urllib3\<close> are left out.

  Not modelled: the resource types (adapters to a framework outside the repository), CIM,
  the modules that only pipe commands through ssh (\<open>esxi_localsh\<close>, \<open>esxi_netdump\<close>), the transfer of files
  and the deployment of OVF packages (sockets, archives and the program \<open>ovftool\<close>), the parsing of a host's
  certificate, the handler that disconnects at the end of the process, tests and tooling.
\<close>

section \<open>What the connection helpers have in common\<close>

subsection \<open>Logins\<close>

text \<open>A login that succeeded serves the next call: the same answer, and the world unchanged.\<close>

definition serves_again :: "(pyval \<Rightarrow> profile \<Rightarrow> 'a io) \<Rightarrow> bool" where
  "serves_again get \<longleftrightarrow>
     (\<forall>opts p w x w'. get opts p w = Some (Ok x, w') \<longrightarrow> get opts p w' = Some (Ok x, w'))"

lemma serves_againI:
  "(\<And>opts p w x w'. get opts p w = Some (Ok x, w') \<Longrightarrow> get opts p w' = Some (Ok x, w')) \<Longrightarrow> serves_again get"
  by (auto simp: serves_again_def)

text \<open>Every helper whose logins do not expire logs in once per target: after a login the next call
  hands out the same token or session, sends nothing and changes nothing.\<close>

theorem helpers_login_once:
  "serves_again vcenter_get_session \<and> serves_again sddc_get_token \<and> serves_again vmsp_get_token \<and>
   serves_again vcfa_get_tokens \<and> serves_again vcfops_get_token \<and> serves_again installer_session \<and>
   serves_again vrni_get_token \<and> serves_again vro_get_session \<and> serves_again avi_session \<and>
   serves_again hcx_get_token"
  by (intro conjI serves_againI) (rule vcs.login_once sddc.login_once vmsp.login_once vcfa.login_once
      vcfops.login_once installer.login_once vrni.login_once vro.login_once avi.login_once hcx.login_once,
      assumption)+

text \<open>\<open>invalidate\<close> removes the login of its target, and does nothing else.\<close>

definition forgets ::
  "(pyval \<Rightarrow> profile \<Rightarrow> unit io) \<Rightarrow> (pyval \<Rightarrow> profile \<Rightarrow> 'c res) \<Rightarrow> cache_id \<Rightarrow> ('c \<Rightarrow> string) \<Rightarrow> bool" where
  "forgets invalidate config cid key \<longleftrightarrow>
     (\<forall>opts p cfg w. config opts p = Ok cfg \<longrightarrow>
        invalidate opts p w = Some (Ok (), cache_upd cid (key cfg) None w))"

lemma forgetsI:
  "(\<And>opts p cfg w. config opts p = Ok cfg \<Longrightarrow> invalidate opts p w = Some (Ok (), cache_upd cid (key cfg) None w)) \<Longrightarrow>
     forgets invalidate config cid key"
  by (auto simp: forgets_def)

text \<open>The \<open>invalidate_*\<close> function of every helper drops the entry of its target from the helper's
  cache; it sends nothing and touches no other entry.\<close>

theorem helpers_invalidate:
  "forgets vcenter_invalidate_session vcenter_get_config Vcenter_Cache host_user_key \<and>
   forgets sddc_invalidate_token sddc_get_config Sddc_Cache host_user_key \<and>
   forgets vmsp_invalidate_token vmsp_get_config Vmsp_Cache host_user_key \<and>
   forgets vcfa_invalidate_token vcfa_get_config Vcfa_Cache host_user_key \<and>
   forgets vcfops_invalidate_token vcfops_get_config Vcfops_Cache host_user_key \<and>
   forgets installer_invalidate_session installer_get_config Installer_Cache host_user_key \<and>
   forgets vrni_invalidate_token vrni_get_config Vrni_Cache host_user_key \<and>
   forgets vrli_invalidate_token vrli_get_config Vrli_Cache vrli_cache_key \<and>
   forgets vro_invalidate_session vro_get_config Vro_Cache host_user_key \<and>
   forgets avi_invalidate_session avi_get_config Avi_Cache host_user_key \<and>
   forgets hcx_invalidate_token hcx_get_config Hcx_Cache host_user_key"
  by (intro conjI forgetsI) (rule vcs.drop sddc.drop vmsp.drop vcfa.drop vcfops.drop installer.drop vrni.drop
      vrli.drop vro.drop avi.drop hcx.drop, assumption)+

subsection \<open>Isolation\<close>

lemma vcenter_exchange_only [spec_intros]:
  "keeps (only_cache Vcenter_Cache) (vcenter_exchange m opts path b q p t)"
  by (auto simp: vcenter_exchange_def vcenter_get_session_def Let_def intro!: spec_intros)

text \<open>A call to one product never touches the logins of another: whatever happens in a request -
  login, renewal after a 401, expiry - only the entries of the product's own cache change.\<close>

theorem helpers_keep_to_their_cache:
  "keeps (only_cache Vcenter_Cache) (vcenter_exchange m opts path b q p t) \<and>
   keeps (only_cache Sddc_Cache) (session_call (sddc_session opts p) m path q b t) \<and>
   keeps (only_cache Vmsp_Cache) (vmsp_exchange m opts path b q h p) \<and>
   keeps (only_cache Vcfa_Cache) (vcfa_request m opts path q b p t) \<and>
   keeps (only_cache Vcfops_Cache) (session_call (vcfops_session opts p) m path q b t) \<and>
   keeps (only_cache Installer_Cache) (installer_request m opts path q b p) \<and>
   keeps (only_cache Vrni_Cache) (vrni_request m opts path q b p t) \<and>
   keeps (only_cache Vrli_Cache) (vrli_request m opts path q b p t) \<and>
   keeps (only_cache Vro_Cache) (vro_exchange m opts path b q p t) \<and>
   keeps (only_cache Avi_Cache) (avi_exchange m opts path b q t p) \<and>
   keeps (only_cache Hcx_Cache) (session_call (hcx_session opts p) m path q b t) \<and>
   keeps same_caches (session_call (nsx_session opts p) m path q b t)"
  by (intro conjI spec_intros) (auto simp: session_call_def intro!: spec_intros)

subsection \<open>Retries\<close>

text \<open>C34: No helper answers a rejected token with a loop: the request itself goes out at most twice, with
  whatever logins lie between, however often the server answers 401.\<close>

theorem helpers_retry_at_most_once:
  "at_most authorized 2 (installer_request m opts path q b p) \<and>
   at_most authorized 2 (vcfa_request m opts path q b p t) \<and>
   at_most authorized 2 (vrni_request m opts path q b p t) \<and>
   at_most authorized 2 (vrli_request m opts path q b p t)"
  by (simp add: installer_request_twice vcfa_request_twice vrni_request_twice vrli_request_twice)

subsection \<open>Dry runs\<close>

text \<open>C3: A dry run of any state on the patching of the vCenter appliance or on the lifecycle manager of ESX changes
  nothing: it sends only \<open>GET\<close> requests and logins.\<close>

theorem dry_runs_only_read:
  assumes "test_mode opts"
  shows "keeps (sends_only vcenter_read) (vcf_vc_patch_repository_configured opts name ra) \<and>
    keeps (sends_only vcenter_read) (vcf_vc_patch_update_prepared opts name pa) \<and>
    keeps (sends_only vcenter_read) (vcf_vc_patch_update_installed opts name ia) \<and>
    keeps (sends_only vcenter_read) (vcf_vc_patch_installed opts name a) \<and>
    keeps (sends_only vcenter_read) (vcf_esxi_vlcm_depot_configured opts name da) \<and>
    keeps (sends_only vcenter_read) (vcf_esxi_vlcm_depot_synced opts name p kw) \<and>
    keeps (sends_only vcenter_read) (vcf_esxi_vlcm_image_configured opts name im) \<and>
    keeps (sends_only vcenter_read) (vcf_esxi_vlcm_policy_configured opts name cl spec p) \<and>
    keeps (sends_only vcenter_read) (vlcm_lifecycle_step opts name cl slug label f kw p) \<and>
    keeps (sends_only vcenter_read) (vcf_esxi_vlcm_remediated opts name cl eula p kw) \<and>
    keeps (sends_only vcenter_read) (vcf_esxi_vlcm_reported opts name cl p)"
  using vcf_vc_patch_dry_run_reads_only [OF assms] vlcm_dry_run_reads_only [OF assms] by simp

lemma dry_runs_only_read_witness:
  "\<exists>w'. vcf_vc_patch_update_prepared (opts_test_for ''vcenter'') ''s'' example_prepare_args
     (scripted [login_reply, body_reply (PDict []), body_reply (PDict [])]) =
       Some (Ok (state_ret ''s''\<lparr>ret_result := None, ret_comment := ''would stage VCSA update 9.0.1''\<rparr>), w') \<and>
     sends_only vcenter_read (scripted [login_reply, body_reply (PDict []), body_reply (PDict [])]) w'"
proof -
  let ?w = "scripted [login_reply, body_reply (PDict []), body_reply (PDict [])]"
  let ?m = "vcf_vc_patch_update_prepared (opts_test_for ''vcenter'') ''s'' example_prepare_args"
  have run: "map_option fst (?m ?w) = Some (Ok (state_ret ''s''\<lparr>ret_result := None,
      ret_comment := ''would stage VCSA update 9.0.1''\<rparr>))" by code_simp
  have "test_mode (opts_test_for ''vcenter'')" by code_simp
  from keepsD [OF dry_runs_only_read [OF this, THEN conjunct2, THEN conjunct1] run_result [OF run]] run_result [OF run]
  show ?thesis by blast
qed

subsection \<open>Waits\<close>

lemma upgrade_wait_rules [spec_intros]:
  "returns (vcfa_lifecycle_get_upgrade opts i p)" "keeps evolves (vcfa_lifecycle_get_upgrade opts i p)"
  "returns (nsx_upgrade_status_summary opts p)" "keeps evolves (nsx_upgrade_status_summary opts p)"
  by (auto simp: vcfa_lifecycle_get_upgrade_def nsx_upgrade_status_summary_def intro!: spec_intros)

lemma upgrade_wait_returns:
  "0 < n \<Longrightarrow> returns (vcfa_lifecycle_wait_for_upgrade opts i t n p)"
  "0 < n \<Longrightarrow> returns (nsx_upgrade_wait_for_completion opts t n p)"
  by (simp_all add: vcfa_lifecycle_wait_for_upgrade_def nsx_upgrade_wait_for_completion_def Let_def
      poll_past_returns upgrade_wait_rules)

text \<open>The waits for an upgrade return only a record whose state, as just read, is one of success.\<close>

lemma upgrade_wait_Ok:
  "vcfa_lifecycle_wait_for_upgrade opts i t n p w = Some (Ok v, w') \<Longrightarrow>
     \<exists>st. upgrade_state ''state'' v = Ok st \<and> st \<in> {''SUCCEEDED'', ''COMPLETED''}"
  "nsx_upgrade_wait_for_completion opts t n p w = Some (Ok v, w') \<Longrightarrow>
     \<exists>st. upgrade_state ''overall_upgrade_status'' v = Ok st \<and> st \<in> {''SUCCESS'', ''COMPLETED''}"
  by (auto simp: vcfa_lifecycle_wait_for_upgrade_def nsx_upgrade_wait_for_completion_def Let_def upgrade_ended_True
      vcfa_lifecycle_TERMINAL_OK_def nsx_upgrade_TERMINAL_OK_def upgrade_wait_rules dest!: poll_past_Ok)

text \<open>C35: The waits for a task, an upgrade, a bringup or an appliance that boots come to an end, whatever the
  appliance answers, when the poll interval is positive; the wait over pyVmomi has its own theorem in \<open>Vim\<close>.\<close>

theorem waits_terminate:
  assumes "0 < n"
  shows "(\<exists>r w'. vcenter_wait_for_task opts tid timeout (PInt n) p w = Some (r, w')) \<and>
    (\<exists>r w'. vlcm_wait_for_task opts tid timeout (PInt n) p w = Some (r, w')) \<and>
    (\<exists>r w'. vcfa_wait_for_deployment opts tid timeout (PInt n) p w = Some (r, w')) \<and>
    (\<exists>r w'. vmsp_wait_for_task opts tid p t n w = Some (r, w')) \<and>
    (\<exists>r w'. sddc_tasks_wait opts tid t n p w = Some (r, w')) \<and>
    (\<exists>r w'. vcfa_lifecycle_wait_for_upgrade opts tid t n p w = Some (r, w')) \<and>
    (\<exists>r w'. nsx_upgrade_wait_for_completion opts t n p w = Some (r, w')) \<and>
    (\<exists>r w'. vc_patch_wait_for_staged_update opts v (PInt n) to p w = Some (r, w')) \<and>
    (\<exists>r w'. vc_patch_monitor_stage opts v (PInt n) to mx p w = Some (r, w')) \<and>
    (\<exists>r w'. vc_patch_monitor_install opts (PInt n) to mx p w = Some (r, w')) \<and>
    (\<exists>r w'. avi_controller_wait_for_setup_ready opts t n p w = Some (r, w')) \<and>
    (\<exists>r w'. hcx_manager_wait_for_setup_ready opts t n p w = Some (r, w')) \<and>
    (\<exists>r w'. vrni_platform_wait_for_setup_ready opts t n p w = Some (r, w')) \<and>
    (\<exists>r w'. vro_orchestrator_wait_for_setup_ready opts t n p w = Some (r, w')) \<and>
    (\<exists>r w'. vrli_master_wait_for_setup_ready opts t n p w = Some (r, w')) \<and>
    (\<exists>r w'. bringup_wait opts tid t n p w = Some (r, w')) \<and>
    (\<exists>r w'. bringup_wait_validation opts tid t n p w = Some (r, w'))"
  using assms
  by (intro conjI returnsD vcenter_wait_returns vlcm_wait_returns vcfa_wait_returns vmsp_wait_returns
      sddc_tasks_wait_returns upgrade_wait_returns vc_patch_monitors_return appliance_waits_return
      bringup_waits_return) simp_all

lemma waits_terminate_witness:
  "\<exists>r w'. vcfa_wait_for_deployment (opts_for ''vcfa'') (PStr ''d1'') (PInt 60) (PInt 10) None (scripted []) = Some (r, w')"
  using waits_terminate [of 10] by simp

end
